(* ===== verification/Prelude.thy ===== *)
theory Prelude
  imports Main "HOL-Library.Monad_Syntax"
begin

text \<open>
  Shared vocabulary of the development.

  C objects live in typed stores: a store is a partial map from addresses to the
  values of one C type, an address is a natural number and the null pointer is the
  address 0. A read or a write through a pointer that is not in the domain of its
  store (null, dangling, never allocated) is undefined behaviour in C; the model
  makes it the value \<^term>\<open>None\<close>, so a theorem that an operation returns
  \<^term>\<open>Some\<close> of a result also says that the operation performs no such access.
  Operations are written in the option monad with the store passed explicitly.

  Mutexes are the flag that says whether the mutex is held. Locking a mutex that is
  held blocks the caller; for a single caller that is \<^term>\<open>None\<close> as well (the call does
  not return).
\<close>

named_theorems heap_simps \<open>unfolding rules of the operations on typed stores\<close>

named_theorems lock_simps \<open>unfolding rules of the mutex operations\<close>

type_synonym addr = nat

abbreviation NULL :: addr where
  "NULL \<equiv> 0"

section \<open>Typed stores\<close>

definition load :: "(addr \<rightharpoonup> 'v) \<Rightarrow> addr \<Rightarrow> 'v option" where
  "load m p = (if p = NULL then None else m p)"

definition store :: "(addr \<rightharpoonup> 'v) \<Rightarrow> addr \<Rightarrow> 'v \<Rightarrow> (addr \<rightharpoonup> 'v) option" where
  "store m p v = (if p = NULL \<or> m p = None then None else Some (m(p \<mapsto> v)))"

text \<open>\<^verbatim>\<open>free\<close> of the null pointer does nothing; of any other address that is not
  allocated it is undefined.\<close>

definition free_obj :: "(addr \<rightharpoonup> 'v) \<Rightarrow> addr \<Rightarrow> (addr \<rightharpoonup> 'v) option" where
  "free_obj m p = (if p = NULL then Some m else if m p = None then None else Some (m(p := None)))"

lemma load_Some [heap_simps]: "load m p = Some v \<longleftrightarrow> p \<noteq> NULL \<and> m p = Some v"
  by (simp add: load_def)

lemma load_at [simp]: "p \<noteq> NULL \<Longrightarrow> load m p = m p"
  by (simp add: load_def)

lemma store_Some [heap_simps]:
  "store m p v = Some m' \<longleftrightarrow> p \<noteq> NULL \<and> m p \<noteq> None \<and> m' = m(p \<mapsto> v)"
  by (auto simp: store_def)

lemma store_at [simp]: "p \<noteq> NULL \<Longrightarrow> m p = Some w \<Longrightarrow> store m p v = Some (m(p \<mapsto> v))"
  by (simp add: store_def)

lemma free_obj_at [simp]: "p \<noteq> NULL \<Longrightarrow> m p = Some w \<Longrightarrow> free_obj m p = Some (m(p := None))"
  by (simp add: free_obj_def)

lemma free_obj_NULL [simp]: "free_obj m NULL = Some m"
  by (simp add: free_obj_def)

section \<open>Mutexes\<close>

type_synonym mutex = bool

definition mutex_lock :: "mutex \<Rightarrow> mutex option" where
  "mutex_lock held = (if held then None else Some True)"

definition mutex_unlock :: "mutex \<Rightarrow> mutex option" where
  "mutex_unlock held = (if held then Some False else None)"

lemma mutex_lock_free [simp, lock_simps]: "mutex_lock False = Some True"
  by (simp add: mutex_lock_def)

lemma mutex_lock_held [simp, lock_simps]: "mutex_lock True = None"
  by (simp add: mutex_lock_def)

lemma mutex_unlock_held [simp, lock_simps]: "mutex_unlock True = Some False"
  by (simp add: mutex_unlock_def)

lemma mutex_unlock_free [simp, lock_simps]: "mutex_unlock False = None"
  by (simp add: mutex_unlock_def)

section \<open>Condition variables\<close>

text \<open>A condition variable is the list of threads blocked on it and the list of threads that
  were released but have not yet returned from \<^verbatim>\<open>pthread_cond_wait\<close>.\<close>

record cond =
  waiters :: "nat list"
  woken :: "nat list"

text \<open>\<^verbatim>\<open>pthread_cond_signal\<close> releases one of the blocked threads, if there is any; which
  one is the scheduler's choice \<open>k\<close>.\<close>

definition cond_signal :: "nat \<Rightarrow> cond \<Rightarrow> cond" where
  "cond_signal k c = (if waiters c = [] then c
     else let t = waiters c ! (k mod length (waiters c))
          in c\<lparr>waiters := remove1 t (waiters c), woken := t # woken c\<rparr>)"

definition cond_broadcast :: "cond \<Rightarrow> cond" where
  "cond_broadcast c = c\<lparr>waiters := [], woken := waiters c @ woken c\<rparr>"

section \<open>Refinement of a sequence of operations\<close>

text \<open>A component is driven by a sequence of calls. \<^term>\<open>run\<close> executes the calls of the model,
  \<^term>\<open>run_spec\<close> those of a specification that also lists what becomes visible outside, and
  \<^term>\<open>run_ok\<close> says that every call meets the obligations of its caller in the state in which it
  is made.\<close>

fun run :: "('l \<Rightarrow> 'c \<Rightarrow> 'c option) \<Rightarrow> 'l list \<Rightarrow> 'c \<Rightarrow> 'c option" where
  "run step [] c = Some c"
| "run step (l # ls) c = do { c \<leftarrow> step l c; run step ls c }"

fun run_spec :: "('l \<Rightarrow> 'a \<Rightarrow> 'a \<times> 'o list) \<Rightarrow> 'l list \<Rightarrow> 'a \<Rightarrow> 'a \<times> 'o list" where
  "run_spec step [] a = (a, [])"
| "run_spec step (l # ls) a = (let (a, xs) = step l a; (a, ys) = run_spec step ls a in (a, xs @ ys))"

fun run_ok :: "('l \<Rightarrow> 'c \<Rightarrow> bool) \<Rightarrow> ('l \<Rightarrow> 'c \<Rightarrow> 'c option) \<Rightarrow> 'l list \<Rightarrow> 'c \<Rightarrow> bool" where
  "run_ok ok step [] c = True"
| "run_ok ok step (l # ls) c \<longleftrightarrow> ok l c \<and> (case step l c of None \<Rightarrow> True | Some c' \<Rightarrow> run_ok ok step ls c')"

locale forward_simulation =
  fixes step :: "'l \<Rightarrow> 'c \<Rightarrow> 'c option" and ok :: "'l \<Rightarrow> 'c \<Rightarrow> bool" and inv :: "'c \<Rightarrow> bool"
    and abs :: "'c \<Rightarrow> 'a" and spec :: "'l \<Rightarrow> 'a \<Rightarrow> 'a \<times> 'o list" and visible :: "'c \<Rightarrow> 'o list"
  assumes simulates: "inv c \<Longrightarrow> ok l c \<Longrightarrow> \<exists>c'. step l c = Some c' \<and> inv c'
    \<and> abs c' = fst (spec l (abs c)) \<and> visible c' = visible c @ snd (spec l (abs c))"
begin

lemma run_refines:
  "inv c \<Longrightarrow> run_ok ok step ls c \<Longrightarrow> \<exists>c'. run step ls c = Some c' \<and> inv c'
    \<and> abs c' = fst (run_spec spec ls (abs c)) \<and> visible c' = visible c @ snd (run_spec spec ls (abs c))"
proof (induction ls arbitrary: c)
  case (Cons l ls)
  then obtain c1 where 1: "step l c = Some c1" "inv c1" "abs c1 = fst (spec l (abs c))"
    "visible c1 = visible c @ snd (spec l (abs c))"
    using simulates [of c l] by auto
  then have "run_ok ok step ls c1" using Cons.prems by simp
  from Cons.IH [OF 1(2) this] 1 show ?case by (auto simp: case_prod_beta Let_def)
qed simp

end

end
