(* ===== verification/LinkedList.thy ===== *)
theory LinkedList
  imports Prelude
begin

text \<open>
  The doubly linked list of \<^verbatim>\<open>src/gps/utils/linked_list.c\<close> at the level of pointers:
  every operation of the file over a heap of list elements, list states and pointer
  cells, with each early return and each allocation failure as a branch. The
  abstraction \<open>list_repr\<close> relates a heap to the sequence of (data, dealloc) pairs the
  list holds, oldest first; every operation is shown to refine the corresponding
  operation on that sequence, and the laws are packaged as the locale
  \<open>fifo_store\<close>, the interface the message queue is built on.

  The address an allocation returns is an argument of the operations that allocate
  (0 when the allocation fails). A \<^verbatim>\<open>dealloc\<close> function pointer is an address (0 when
  absent); its calls are recorded in order in \<open>dealloc_log\<close>. The \<^verbatim>\<open>equal\<close> function
  of a search is an optional function.
\<close>

section \<open>Data\<close>

datatype linked_list_err_type =
    eLINKED_LIST_SUCCESS
  | eLINKED_LIST_FAILURE_GENERAL
  | eLINKED_LIST_INVALID_PARAMETER
  | eLINKED_LIST_INVALID_HANDLE
  | eLINKED_LIST_UNAVAILABLE_RESOURCE
  | eLINKED_LIST_INSUFFICIENT_BUFFER
  | eLINKED_LIST_EMPTY

primrec linked_list_err_val :: "linked_list_err_type \<Rightarrow> int" where
  "linked_list_err_val eLINKED_LIST_SUCCESS = 0"
| "linked_list_err_val eLINKED_LIST_FAILURE_GENERAL = -1"
| "linked_list_err_val eLINKED_LIST_INVALID_PARAMETER = -2"
| "linked_list_err_val eLINKED_LIST_INVALID_HANDLE = -3"
| "linked_list_err_val eLINKED_LIST_UNAVAILABLE_RESOURCE = -4"
| "linked_list_err_val eLINKED_LIST_INSUFFICIENT_BUFFER = -5"
| "linked_list_err_val eLINKED_LIST_EMPTY = -6"

record list_element =
  next_ptr :: addr
  prev_ptr :: addr
  data_ptr :: addr
  dealloc_func :: addr

record list_state =
  p_head :: addr
  p_tail :: addr

record ll_heap =
  elems :: "addr \<rightharpoonup> list_element"
  list_states :: "addr \<rightharpoonup> list_state"
  cells :: "addr \<rightharpoonup> addr"
  dealloc_log :: "(addr \<times> addr) list"

type_synonym ('e, 'h) ret = "('e \<times> 'h) option"

section \<open>Field accesses\<close>

definition set_next :: "addr \<Rightarrow> addr \<Rightarrow> 'a ll_heap_scheme \<Rightarrow> 'a ll_heap_scheme option" where
  "set_next p v h = do { e \<leftarrow> load (elems h) p;
     Some (h\<lparr>elems := (elems h)(p \<mapsto> e\<lparr>next_ptr := v\<rparr>)\<rparr>) }"

definition set_prev :: "addr \<Rightarrow> addr \<Rightarrow> 'a ll_heap_scheme \<Rightarrow> 'a ll_heap_scheme option" where
  "set_prev p v h = do { e \<leftarrow> load (elems h) p;
     Some (h\<lparr>elems := (elems h)(p \<mapsto> e\<lparr>prev_ptr := v\<rparr>)\<rparr>) }"

definition set_head :: "addr \<Rightarrow> addr \<Rightarrow> 'a ll_heap_scheme \<Rightarrow> 'a ll_heap_scheme option" where
  "set_head l v h = do { s \<leftarrow> load (list_states h) l;
     Some (h\<lparr>list_states := (list_states h)(l \<mapsto> s\<lparr>p_head := v\<rparr>)\<rparr>) }"

definition set_tail :: "addr \<Rightarrow> addr \<Rightarrow> 'a ll_heap_scheme \<Rightarrow> 'a ll_heap_scheme option" where
  "set_tail l v h = do { s \<leftarrow> load (list_states h) l;
     Some (h\<lparr>list_states := (list_states h)(l \<mapsto> s\<lparr>p_tail := v\<rparr>)\<rparr>) }"

definition write_cell :: "addr \<Rightarrow> addr \<Rightarrow> 'a ll_heap_scheme \<Rightarrow> 'a ll_heap_scheme option" where
  "write_cell p v h = do { m \<leftarrow> store (cells h) p v; Some (h\<lparr>cells := m\<rparr>) }"

definition free_elem :: "addr \<Rightarrow> 'a ll_heap_scheme \<Rightarrow> 'a ll_heap_scheme option" where
  "free_elem p h = do { m \<leftarrow> free_obj (elems h) p; Some (h\<lparr>elems := m\<rparr>) }"

definition free_list_state :: "addr \<Rightarrow> 'a ll_heap_scheme \<Rightarrow> 'a ll_heap_scheme option" where
  "free_list_state p h = do { m \<leftarrow> free_obj (list_states h) p; Some (h\<lparr>list_states := m\<rparr>) }"

definition call_dealloc :: "addr \<Rightarrow> addr \<Rightarrow> 'a ll_heap_scheme \<Rightarrow> 'a ll_heap_scheme" where
  "call_dealloc f d h = h\<lparr>dealloc_log := dealloc_log h @ [(f, d)]\<rparr>"

section \<open>Operations\<close>

definition linked_list_init ::
  "addr \<Rightarrow> addr \<Rightarrow> 'a ll_heap_scheme \<Rightarrow> (linked_list_err_type, 'a ll_heap_scheme) ret" where
  "linked_list_init tmp_list list_data h =
     (if list_data = NULL then Some (eLINKED_LIST_INVALID_PARAMETER, h)
      else if tmp_list = NULL then Some (eLINKED_LIST_FAILURE_GENERAL, h)
      else do {
        h \<leftarrow> write_cell list_data tmp_list
               (h\<lparr>list_states := (list_states h)(tmp_list \<mapsto> \<lparr>p_head = NULL, p_tail = NULL\<rparr>)\<rparr>);
        Some (eLINKED_LIST_SUCCESS, h) })"

definition linked_list_add ::
  "addr \<Rightarrow> addr \<Rightarrow> addr \<Rightarrow> addr \<Rightarrow> 'a ll_heap_scheme \<Rightarrow> (linked_list_err_type, 'a ll_heap_scheme) ret"
where
  "linked_list_add elem list_data data_obj dealloc h =
     (if list_data = NULL then Some (eLINKED_LIST_INVALID_HANDLE, h)
      else if data_obj = NULL then Some (eLINKED_LIST_INVALID_PARAMETER, h)
      else if elem = NULL then Some (eLINKED_LIST_FAILURE_GENERAL, h)
      else do {
        let h = h\<lparr>elems := (elems h)(elem \<mapsto> \<lparr>next_ptr = NULL, prev_ptr = NULL,
                    data_ptr = data_obj, dealloc_func = dealloc\<rparr>)\<rparr>;
        p_list \<leftarrow> load (list_states h) list_data;
        let tmp = p_head p_list;
        h \<leftarrow> set_head list_data elem h;
        h \<leftarrow> set_next elem tmp h;
        h \<leftarrow> (if tmp \<noteq> NULL then set_prev tmp elem h else set_tail list_data elem h);
        Some (eLINKED_LIST_SUCCESS, h) })"

definition linked_list_remove ::
  "addr \<Rightarrow> addr \<Rightarrow> 'a ll_heap_scheme \<Rightarrow> (linked_list_err_type, 'a ll_heap_scheme) ret" where
  "linked_list_remove list_data data_obj h =
     (if list_data = NULL then Some (eLINKED_LIST_INVALID_HANDLE, h)
      else if data_obj = NULL then Some (eLINKED_LIST_INVALID_PARAMETER, h)
      else do {
        p_list \<leftarrow> load (list_states h) list_data;
        if p_tail p_list = NULL then Some (eLINKED_LIST_UNAVAILABLE_RESOURCE, h)
        else do {
          let tmp = p_tail p_list;
          e \<leftarrow> load (elems h) tmp;
          h \<leftarrow> set_tail list_data (prev_ptr e) h;
          h \<leftarrow> (if prev_ptr e \<noteq> NULL then set_next (prev_ptr e) NULL h
                else set_head list_data (prev_ptr e) h);
          e \<leftarrow> load (elems h) tmp;
          h \<leftarrow> write_cell data_obj (data_ptr e) h;
          h \<leftarrow> free_elem tmp h;
          Some (eLINKED_LIST_SUCCESS, h) } })"

definition linked_list_empty :: "addr \<Rightarrow> 'a ll_heap_scheme \<Rightarrow> int option" where
  "linked_list_empty list_data h =
     (if list_data = NULL then Some (linked_list_err_val eLINKED_LIST_INVALID_HANDLE)
      else do {
        p_list \<leftarrow> load (list_states h) list_data;
        Some (if p_head p_list = NULL then 1 else 0) })"

text \<open>The two loops follow the pointers of the heap, so whether they stop depends on
  the heap: they are partial functions, and not returning is \<^term>\<open>None\<close>.\<close>

partial_function (option) flush_loop ::
  "addr \<Rightarrow> 'a ll_heap_scheme \<Rightarrow> 'a ll_heap_scheme option" where
  "flush_loop l h = do {
     p_list \<leftarrow> load (list_states h) l;
     if p_head p_list = NULL then Some h
     else do {
       e \<leftarrow> load (elems h) (p_head p_list);
       h \<leftarrow> free_elem (p_head p_list)
              (if dealloc_func e \<noteq> NULL then call_dealloc (dealloc_func e) (data_ptr e) h else h);
       h \<leftarrow> set_head l (next_ptr e) h;
       flush_loop l h } }"

definition linked_list_flush ::
  "addr \<Rightarrow> 'a ll_heap_scheme \<Rightarrow> (linked_list_err_type, 'a ll_heap_scheme) ret" where
  "linked_list_flush list_data h =
     (if list_data = NULL then Some (eLINKED_LIST_INVALID_HANDLE, h)
      else do {
        h \<leftarrow> flush_loop list_data h;
        h \<leftarrow> set_tail list_data NULL h;
        Some (eLINKED_LIST_SUCCESS, h) })"

definition linked_list_destroy ::
  "addr \<Rightarrow> 'a ll_heap_scheme \<Rightarrow> (linked_list_err_type, 'a ll_heap_scheme) ret" where
  "linked_list_destroy list_data h =
     (if list_data = NULL then Some (eLINKED_LIST_INVALID_HANDLE, h)
      else do {
        p_list \<leftarrow> load (cells h) list_data;
        (r, h) \<leftarrow> linked_list_flush p_list h;
        h \<leftarrow> free_list_state p_list h;
        h \<leftarrow> write_cell list_data NULL h;
        Some (eLINKED_LIST_SUCCESS, h) })"

definition unlink_found :: "addr \<Rightarrow> addr \<Rightarrow> addr \<Rightarrow> 'a ll_heap_scheme \<Rightarrow> 'a ll_heap_scheme option" where
  "unlink_found l tmp data_p h = do {
     e \<leftarrow> load (elems h) tmp;
     h \<leftarrow> (if prev_ptr e = NULL then set_head l (next_ptr e) h
           else set_next (prev_ptr e) (next_ptr e) h);
     h \<leftarrow> (if next_ptr e = NULL then set_tail l (prev_ptr e) h
           else set_prev (next_ptr e) (prev_ptr e) h);
     h \<leftarrow> set_next tmp NULL h;
     h \<leftarrow> set_prev tmp NULL h;
     let h = (if data_p = NULL \<and> dealloc_func e \<noteq> NULL
              then call_dealloc (dealloc_func e) (data_ptr e) h else h);
     free_elem tmp h }"

partial_function (option) search_loop ::
  "addr \<Rightarrow> addr \<Rightarrow> (addr \<Rightarrow> addr \<Rightarrow> bool) \<Rightarrow> addr \<Rightarrow> bool \<Rightarrow> addr \<Rightarrow> 'a ll_heap_scheme
     \<Rightarrow> 'a ll_heap_scheme option" where
  "search_loop l data_p equal data_0 rm_if_found tmp h =
     (if tmp = NULL then Some h
      else do {
        e \<leftarrow> load (elems h) tmp;
        if equal data_0 (data_ptr e) then do {
          h \<leftarrow> (if data_p \<noteq> NULL then write_cell data_p (data_ptr e) h else Some h);
          if rm_if_found then unlink_found l tmp data_p h else Some h }
        else search_loop l data_p equal data_0 rm_if_found (next_ptr e) h })"

definition linked_list_search ::
  "addr \<Rightarrow> addr \<Rightarrow> (addr \<Rightarrow> addr \<Rightarrow> bool) option \<Rightarrow> addr \<Rightarrow> bool \<Rightarrow> 'a ll_heap_scheme
     \<Rightarrow> (linked_list_err_type, 'a ll_heap_scheme) ret" where
  "linked_list_search list_data data_p equal data_0 rm_if_found h =
     (case equal of None \<Rightarrow> Some (eLINKED_LIST_INVALID_HANDLE, h)
      | Some eq \<Rightarrow>
        if list_data = NULL then Some (eLINKED_LIST_INVALID_HANDLE, h)
        else do {
          p_list \<leftarrow> load (list_states h) list_data;
          if p_tail p_list = NULL then Some (eLINKED_LIST_UNAVAILABLE_RESOURCE, h)
          else do {
            let tmp = p_head p_list;
            h \<leftarrow> (if data_p \<noteq> NULL then write_cell data_p NULL h else Some h);
            h \<leftarrow> search_loop list_data data_p eq data_0 rm_if_found tmp h;
            Some (eLINKED_LIST_SUCCESS, h) } })"


section \<open>Abstraction\<close>

text \<open>\<open>dlseg E pr p as nx la\<close>: starting at \<open>p\<close>, whose predecessor is \<open>pr\<close>, the
  elements at the addresses \<open>as\<close> are chained in both directions up to the element \<open>la\<close>,
  whose successor is \<open>nx\<close>.\<close>

fun dlseg :: "(addr \<rightharpoonup> list_element) \<Rightarrow> addr \<Rightarrow> addr \<Rightarrow> addr list \<Rightarrow> addr \<Rightarrow> addr \<Rightarrow> bool" where
  "dlseg E pr p [] nx la = (p = nx \<and> la = pr)"
| "dlseg E pr p (a # as) nx la =
     (p = a \<and> a \<noteq> NULL \<and>
      (case E a of None \<Rightarrow> False | Some e \<Rightarrow> prev_ptr e = pr \<and> dlseg E a (next_ptr e) as nx la))"

definition payload :: "(addr \<rightharpoonup> list_element) \<Rightarrow> addr \<Rightarrow> addr \<times> addr" where
  "payload E a = (case E a of None \<Rightarrow> (NULL, NULL) | Some e \<Rightarrow> (data_ptr e, dealloc_func e))"

definition list_repr :: "'a ll_heap_scheme \<Rightarrow> addr \<Rightarrow> addr list \<Rightarrow> bool" where
  "list_repr h l as \<longleftrightarrow> l \<noteq> NULL \<and> distinct as \<and>
     (case list_states h l of None \<Rightarrow> False
      | Some s \<Rightarrow> dlseg (elems h) NULL (p_head s) as NULL (p_tail s))"

text \<open>The content of the list, newest first, as (data, dealloc) pairs.\<close>

definition contents :: "'a ll_heap_scheme \<Rightarrow> addr list \<Rightarrow> (addr \<times> addr) list" where
  "contents h as = map (payload (elems h)) as"

lemma dlseg_append:
  "dlseg E pr p (xs @ ys) nx la \<longleftrightarrow> (\<exists>m q. dlseg E pr p xs m q \<and> dlseg E q m ys nx la)"
  by (induction xs arbitrary: pr p) (auto split: option.splits)

lemma dlseg_cong:
  "\<forall>a \<in> set as. E' a = E a \<Longrightarrow> dlseg E' pr p as nx la = dlseg E pr p as nx la"
  by (induction as arbitrary: pr p) (auto split: option.splits)

lemma dlseg_upd_other [simp]:
  "x \<notin> set as \<Longrightarrow> dlseg (E(x := v)) pr p as nx la = dlseg E pr p as nx la"
  by (rule dlseg_cong) auto

lemma dlseg_in_heap: "dlseg E pr p as nx la \<Longrightarrow> a \<in> set as \<Longrightarrow> a \<noteq> NULL \<and> (\<exists>e. E a = Some e)"
  by (induction as arbitrary: pr p) (auto split: option.splits)

lemma dlseg_last: "dlseg E pr p as nx la \<Longrightarrow> as \<noteq> [] \<Longrightarrow> la = last as"
  by (induction as arbitrary: pr p) (auto split: option.splits if_splits)

lemma dlseg_first: "dlseg E pr p as nx la \<Longrightarrow> as \<noteq> [] \<Longrightarrow> p = hd as"
  by (cases as) auto

lemma dlseg_last_elem:
  "dlseg E pr p as nx la \<Longrightarrow> as \<noteq> [] \<Longrightarrow> la = last as \<and> last as \<noteq> NULL \<and> (\<exists>e. E (last as) = Some e)"
  using dlseg_last dlseg_in_heap last_in_set by metis

lemma dlseg_first_elem:
  "dlseg E pr p as nx la \<Longrightarrow> as \<noteq> [] \<Longrightarrow> p = hd as \<and> hd as \<noteq> NULL \<and> (\<exists>e. E (hd as) = Some e)"
  using dlseg_first dlseg_in_heap hd_in_set by metis

lemma dlseg_NULL_last: "dlseg E NULL p as nx la \<Longrightarrow> la = NULL \<longleftrightarrow> as = []"
  using dlseg_last_elem [of E NULL p as nx la] by (cases "as = []") auto

lemma dlseg_NULL_first: "dlseg E pr p as NULL la \<Longrightarrow> p = NULL \<longleftrightarrow> as = []"
  using dlseg_first_elem [of E pr p as NULL la] by (cases "as = []") auto

lemma dlseg_set_prev:
  assumes "dlseg E pr p (v # vs) nx la" and "distinct (v # vs)" and "E v = Some e"
  shows "dlseg (E(v \<mapsto> e\<lparr>prev_ptr := pr'\<rparr>)) pr' v (v # vs) nx la"
  using assms by auto

lemma dlseg_set_next:
  assumes "dlseg E pr p (us @ [b]) nx la" and "distinct (us @ [b])" and "E b = Some e"
  shows "dlseg (E(b \<mapsto> e\<lparr>next_ptr := nx'\<rparr>)) pr p (us @ [b]) nx' b"
  using assms by (fastforce simp: dlseg_append)

lemma payload_upd [simp]: "payload (E(a \<mapsto> e)) b = (if b = a then (data_ptr e, dealloc_func e) else payload E b)"
  by (simp add: payload_def)

lemma payload_None [simp]: "payload (E(a := None)) b = (if b = a then (NULL, NULL) else payload E b)"
  by (simp add: payload_def)

lemma payload_at: "E a = Some e \<Longrightarrow> payload E a = (data_ptr e, dealloc_func e)"
  by (simp add: payload_def)

lemma list_reprE:
  assumes "list_repr h l as"
  obtains s where "l \<noteq> NULL" and "distinct as" and "list_states h l = Some s"
    and "dlseg (elems h) NULL (p_head s) as NULL (p_tail s)"
  using assms by (auto simp: list_repr_def split: option.splits)

lemma list_repr_head: "list_repr h l as \<Longrightarrow> list_states h l = Some s \<Longrightarrow> p_head s = NULL \<longleftrightarrow> as = []"
  by (auto elim!: list_reprE dest: dlseg_NULL_first)

lemma list_repr_tail: "list_repr h l as \<Longrightarrow> list_states h l = Some s \<Longrightarrow> p_tail s = NULL \<longleftrightarrow> as = []"
  by (auto elim!: list_reprE dest: dlseg_NULL_last)

text \<open>An operation on the list \<open>l\<close> that touches the elements \<open>A\<close> only leaves every
  other list of the heap as it is.\<close>

definition same_outside :: "addr set \<Rightarrow> addr \<Rightarrow> 'a ll_heap_scheme \<Rightarrow> 'a ll_heap_scheme \<Rightarrow> bool" where
  "same_outside A l h h' \<longleftrightarrow> (\<forall>x. x \<notin> A \<longrightarrow> elems h' x = elems h x)
     \<and> (\<forall>k. k \<noteq> l \<longrightarrow> list_states h' k = list_states h k) \<and> ll_heap.more h' = ll_heap.more h"

lemma list_repr_frame:
  assumes "same_outside A l h h'" and "list_repr h k bs" and "k \<noteq> l" and "set bs \<inter> A = {}"
  shows "list_repr h' k bs \<and> contents h' bs = contents h bs"
proof -
  have eq: "\<forall>b \<in> set bs. elems h' b = elems h b" and "list_states h' k = list_states h k"
    using assms by (auto simp: same_outside_def)
  then show ?thesis
    using assms(2) dlseg_cong [OF eq] by (auto simp: list_repr_def contents_def payload_def split: option.splits)
qed

lemmas field_defs = set_next_def set_prev_def set_head_def set_tail_def write_cell_def
  free_elem_def free_list_state_def call_dealloc_def

section \<open>Correctness of the operations\<close>

lemma linked_list_init_ok:
  assumes "tmp_list \<noteq> NULL" and "list_data \<noteq> NULL" and "cells h list_data = Some old"
  shows "\<exists>h'. linked_list_init tmp_list list_data h = Some (eLINKED_LIST_SUCCESS, h')
           \<and> list_repr h' tmp_list [] \<and> cells h' = (cells h)(list_data \<mapsto> tmp_list)
           \<and> elems h' = elems h \<and> dealloc_log h' = dealloc_log h
           \<and> same_outside {} tmp_list h h'"
  using assms by (simp add: linked_list_init_def field_defs list_repr_def same_outside_def)

lemma linked_list_add_ok:
  assumes repr: "list_repr h l as" and elem: "elem \<noteq> NULL" "elem \<notin> set as" and d: "d \<noteq> NULL"
  shows "\<exists>h'. linked_list_add elem l d f h = Some (eLINKED_LIST_SUCCESS, h')
           \<and> list_repr h' l (elem # as) \<and> contents h' (elem # as) = (d, f) # contents h as
           \<and> cells h' = cells h \<and> dealloc_log h' = dealloc_log h
           \<and> same_outside (insert elem (set as)) l h h'"
proof -
  obtain s where s: "l \<noteq> NULL" "distinct as" "list_states h l = Some s"
    "dlseg (elems h) NULL (p_head s) as NULL (p_tail s)"
    using repr by (rule list_reprE)
  show ?thesis
  proof (cases as)
    case Nil
    with s elem d show ?thesis
      by (simp add: linked_list_add_def field_defs list_repr_def contents_def same_outside_def)
  next
    case (Cons b bs)
    with s obtain e where "elems h b = Some e" "b \<noteq> NULL" "p_head s = b"
      "dlseg (elems h) b (next_ptr e) bs NULL (p_tail s)" by (auto split: option.splits)
    with s elem d Cons show ?thesis
      by (auto simp: linked_list_add_def field_defs list_repr_def contents_def payload_at same_outside_def)
  qed
qed

lemma linked_list_remove_empty:
  assumes "list_repr h l []" and "out \<noteq> NULL"
  shows "linked_list_remove l out h = Some (eLINKED_LIST_UNAVAILABLE_RESOURCE, h)"
  using assms by (auto simp: linked_list_remove_def elim!: list_reprE)

lemma linked_list_remove_ok:
  assumes repr: "list_repr h l (as @ [a])" and out: "out \<noteq> NULL" "cells h out = Some old"
  shows "\<exists>h'. linked_list_remove l out h = Some (eLINKED_LIST_SUCCESS, h')
           \<and> list_repr h' l as \<and> contents h' as = contents h as
           \<and> cells h' = (cells h)(out \<mapsto> fst (payload (elems h) a))
           \<and> elems h' a = None \<and> dealloc_log h' = dealloc_log h
           \<and> same_outside (set (as @ [a])) l h h'"
proof -
  obtain s where s: "l \<noteq> NULL" "distinct (as @ [a])" "list_states h l = Some s"
    "dlseg (elems h) NULL (p_head s) (as @ [a]) NULL (p_tail s)"
    using repr by (rule list_reprE)
  obtain e where e: "elems h a = Some e" "a \<noteq> NULL" "next_ptr e = NULL" "p_tail s = a"
    and seg: "dlseg (elems h) NULL (p_head s) as a (prev_ptr e)"
    using s(4) by (auto simp: dlseg_append split: option.splits)
  show ?thesis
  proof (cases as rule: rev_cases)
    case Nil
    with s e seg out show ?thesis
      by (simp add: linked_list_remove_def field_defs list_repr_def contents_def payload_at same_outside_def)
  next
    case (snoc cs b)
    have b: "prev_ptr e = b" "b \<noteq> NULL" "b \<noteq> a" "a \<notin> set cs"
      using seg s(2) dlseg_last [OF seg] dlseg_in_heap [OF seg, of b] by (auto simp: snoc)
    obtain eb where eb: "elems h b = Some eb"
      using dlseg_in_heap [OF seg, of b] by (auto simp: snoc)
    have "dlseg ((elems h)(b \<mapsto> eb\<lparr>next_ptr := NULL\<rparr>)) NULL (p_head s) (cs @ [b]) NULL b"
      using seg s(2) eb by (intro dlseg_set_next) (auto simp: snoc)
    with s(1,2,3) e out b eb snoc show ?thesis
      by (auto simp: linked_list_remove_def field_defs list_repr_def contents_def payload_at same_outside_def)
  qed
qed

lemma linked_list_empty_ok:
  "list_repr h l as \<Longrightarrow> linked_list_empty l h = Some (if as = [] then 1 else 0)"
  using list_repr_head [of h l as] by (auto simp: linked_list_empty_def elim!: list_reprE)


text \<open>The calls a flush makes: one per element that has a dealloc function.\<close>

definition dealloc_calls :: "(addr \<times> addr) list \<Rightarrow> (addr \<times> addr) list" where
  "dealloc_calls xs = [(f, d). (d, f) \<leftarrow> xs, f \<noteq> NULL]"

lemma flush_loop_ok:
  assumes "list_states h l = Some s" and "l \<noteq> NULL" and "distinct as"
    and "dlseg (elems h) pr (p_head s) as NULL la"
  shows "\<exists>h'. flush_loop l h = Some h' \<and> list_states h' = (list_states h)(l \<mapsto> s\<lparr>p_head := NULL\<rparr>)
           \<and> elems h' = (elems h) |` (- set as) \<and> cells h' = cells h
           \<and> dealloc_log h' = dealloc_log h @ dealloc_calls (contents h as)
           \<and> ll_heap.more h' = ll_heap.more h"
  using assms
proof (induction as arbitrary: h s pr)
  case Nil
  then have "s\<lparr>p_head := NULL\<rparr> = s" by simp
  with Nil show ?case
    by (subst flush_loop.simps) (simp add: fun_upd_idem contents_def dealloc_calls_def restrict_map_def)
next
  case (Cons a as)
  then obtain e where e: "elems h a = Some e" "a \<noteq> NULL" "p_head s = a"
    "dlseg (elems h) a (next_ptr e) as NULL la" by (auto split: option.splits)
  define h0 where "h0 = (if dealloc_func e \<noteq> NULL then call_dealloc (dealloc_func e) (data_ptr e) h else h)"
  define h1 where "h1 = h0\<lparr>elems := (elems h)(a := None), list_states := (list_states h)(l \<mapsto> s\<lparr>p_head := next_ptr e\<rparr>)\<rparr>"
  have step: "flush_loop l h = flush_loop l h1"
    using Cons.prems e
    by (subst flush_loop.simps) (simp add: h1_def h0_def field_defs)
  have h1: "elems h1 = (elems h)(a := None)" "list_states h1 = (list_states h)(l \<mapsto> s\<lparr>p_head := next_ptr e\<rparr>)"
    "cells h1 = cells h" "ll_heap.more h1 = ll_heap.more h"
    "dealloc_log h1 = dealloc_log h @ dealloc_calls [payload (elems h) a]"
    using e by (simp_all add: h1_def h0_def call_dealloc_def dealloc_calls_def payload_at)
  have "contents h1 as = contents h as"
    using Cons.prems(3) by (auto simp: contents_def h1)
  moreover have "dlseg (elems h1) a (p_head (s\<lparr>p_head := next_ptr e\<rparr>)) as NULL la"
    using e(4) Cons.prems(3) by (simp add: h1)
  ultimately obtain h' where "flush_loop l h1 = Some h'" "list_states h' = (list_states h)(l \<mapsto> s\<lparr>p_head := NULL\<rparr>)"
    "elems h' = (elems h)(a := None) |` (- set as)" "cells h' = cells h"
    "dealloc_log h' = dealloc_log h1 @ dealloc_calls (contents h as)"
    "ll_heap.more h' = ll_heap.more h"
    using Cons.IH [of h1 "s\<lparr>p_head := next_ptr e\<rparr>" a] Cons.prems(2,3) h1 by (auto simp del: fun_upd_apply simp: fun_upd_same)
  with step h1 show ?case
    by (auto simp: contents_def dealloc_calls_def restrict_map_def fun_eq_iff)
qed

lemma linked_list_flush_ok:
  assumes "list_repr h l as"
  shows "\<exists>h'. linked_list_flush l h = Some (eLINKED_LIST_SUCCESS, h')
           \<and> list_repr h' l [] \<and> elems h' = (elems h) |` (- set as) \<and> cells h' = cells h
           \<and> dealloc_log h' = dealloc_log h @ dealloc_calls (contents h as)
           \<and> same_outside (set as) l h h'"
proof -
  obtain s where s: "l \<noteq> NULL" "distinct as" "list_states h l = Some s"
    "dlseg (elems h) NULL (p_head s) as NULL (p_tail s)"
    using assms by (rule list_reprE)
  from flush_loop_ok [OF s(3,1,2,4)] s show ?thesis
    by (auto simp: linked_list_flush_def field_defs list_repr_def same_outside_def)
qed

lemma linked_list_destroy_ok:
  assumes cell: "list_data \<noteq> NULL" "cells h list_data = Some l" and repr: "list_repr h l as"
  shows "\<exists>h'. linked_list_destroy list_data h = Some (eLINKED_LIST_SUCCESS, h')
           \<and> elems h' = (elems h) |` (- set as) \<and> list_states h' = (list_states h)(l := None)
           \<and> cells h' = (cells h)(list_data \<mapsto> NULL)
           \<and> dealloc_log h' = dealloc_log h @ dealloc_calls (contents h as)
           \<and> ll_heap.more h' = ll_heap.more h"
proof -
  obtain h' where h': "linked_list_flush l h = Some (eLINKED_LIST_SUCCESS, h')" "list_repr h' l []"
    "elems h' = (elems h) |` (- set as)" "cells h' = cells h"
    "dealloc_log h' = dealloc_log h @ dealloc_calls (contents h as)" "same_outside (set as) l h h'"
    using linked_list_flush_ok [OF repr] by blast
  then have "(list_states h')(l := None) = (list_states h)(l := None)"
    by (auto simp: same_outside_def)
  with h' cell show ?thesis
    by (auto simp: linked_list_destroy_def field_defs same_outside_def elim!: list_reprE)
qed


text \<open>Unlinking an element from the middle of the list, in the two halves the code does
  it: first the predecessor side, then the successor side.\<close>

lemma dlseg_drop_middle:
  assumes seg: "dlseg E NULL hd0 (us @ a # vs) NULL tl0" and dist: "distinct (us @ a # vs)"
    and a: "E a = Some e"
  defines "E1 \<equiv> (if us = [] then E else E(last us \<mapsto> (the (E (last us)))\<lparr>next_ptr := next_ptr e\<rparr>))"
  defines "E2 \<equiv> (if vs = [] then E1 else E1(hd vs \<mapsto> (the (E (hd vs)))\<lparr>prev_ptr := prev_ptr e\<rparr>))"
  shows "dlseg E2 NULL (if us = [] then next_ptr e else hd0) (us @ vs) NULL
           (if vs = [] then prev_ptr e else tl0)"
proof -
  obtain seg1: "dlseg E NULL hd0 us a (prev_ptr e)" and seg2: "dlseg E a (next_ptr e) vs NULL tl0"
    using seg a by (auto simp: dlseg_append split: option.splits)
  have "dlseg E2 NULL (if us = [] then next_ptr e else hd0) us (next_ptr e) (prev_ptr e)"
  proof (cases us rule: rev_cases)
    case Nil
    with seg1 show ?thesis by simp
  next
    case (snoc cs b)
    obtain eb where eb: "E b = Some eb" using dlseg_in_heap [OF seg1, of b] by (auto simp: snoc)
    have "dlseg E1 NULL hd0 (cs @ [b]) (next_ptr e) b"
      using seg1 dist eb by (simp add: E1_def snoc del: dlseg.simps) (rule dlseg_set_next, auto)
    moreover have "hd vs \<notin> set (cs @ [b])" if "vs \<noteq> []"
      using dist that hd_in_set [OF that] by (auto simp: snoc)
    ultimately show ?thesis
      using dlseg_last [OF seg1] by (simp add: E2_def snoc)
  qed
  moreover have "dlseg E2 (prev_ptr e) (next_ptr e) vs NULL (if vs = [] then prev_ptr e else tl0)"
  proof (cases vs)
    case Nil
    with seg2 show ?thesis by simp
  next
    case (Cons v ws)
    obtain ev where ev: "E v = Some ev" using dlseg_in_heap [OF seg2, of v] by (auto simp: Cons)
    have notin: "last us \<notin> set (v # ws)" if "us \<noteq> []"
      using dist last_in_set [OF that] by (fastforce simp: Cons)
    have "dlseg E1 a (next_ptr e) (v # ws) NULL tl0" "E1 v = Some ev"
      using seg2 notin ev by (auto simp: E1_def Cons simp del: dlseg.simps)
    from dlseg_set_prev [OF this(1) _ this(2), of "prev_ptr e"] dist
    have "dlseg (E1(v \<mapsto> ev\<lparr>prev_ptr := prev_ptr e\<rparr>)) (prev_ptr e) v (v # ws) NULL tl0"
      by (simp add: Cons)
    moreover have "next_ptr e = v" using seg2 by (simp add: Cons)
    ultimately show ?thesis using ev by (simp add: E2_def Cons)
  qed
  ultimately show ?thesis unfolding dlseg_append by blast
qed

lemma payload_relink [simp]:
  "E b = Some e \<Longrightarrow> payload (E(b \<mapsto> e\<lparr>next_ptr := v\<rparr>)) = payload E"
  "E b = Some e \<Longrightarrow> payload (E(b \<mapsto> e\<lparr>prev_ptr := v\<rparr>)) = payload E"
  by (auto simp: payload_def fun_eq_iff)

lemma unlink_found_ok:
  assumes repr: "list_repr h l (us @ a # vs)"
  shows "\<exists>h'. unlink_found l a data_p h = Some h' \<and> list_repr h' l (us @ vs)
           \<and> contents h' (us @ vs) = contents h (us @ vs) \<and> elems h' a = None
           \<and> cells h' = cells h
           \<and> dealloc_log h' = dealloc_log h @ (if data_p = NULL then dealloc_calls [payload (elems h) a] else [])
           \<and> same_outside (set (us @ a # vs)) l h h'"
proof -
  obtain s where s: "l \<noteq> NULL" "distinct (us @ a # vs)" "list_states h l = Some s"
    "dlseg (elems h) NULL (p_head s) (us @ a # vs) NULL (p_tail s)"
    using repr by (rule list_reprE)
  obtain e where e: "elems h a = Some e" "a \<noteq> NULL"
    using dlseg_in_heap [OF s(4), of a] by auto
  obtain seg1: "dlseg (elems h) NULL (p_head s) us a (prev_ptr e)"
    and seg2: "dlseg (elems h) a (next_ptr e) vs NULL (p_tail s)"
    using s(4) e by (auto simp: dlseg_append)
  note prev = dlseg_NULL_last [OF seg1] and nxt = dlseg_NULL_first [OF seg2]
  have lu: "us \<noteq> [] \<Longrightarrow> prev_ptr e = last us \<and> (\<exists>x. elems h (last us) = Some x) \<and> last us \<noteq> a"
    using dlseg_last_elem [OF seg1] s(2) by auto
  have hv: "vs \<noteq> [] \<Longrightarrow> next_ptr e = hd vs \<and> (\<exists>x. elems h (hd vs) = Some x) \<and> hd vs \<noteq> a"
    using dlseg_first_elem [OF seg2] s(2) by auto
  have ne: "us \<noteq> [] \<Longrightarrow> vs \<noteq> [] \<Longrightarrow> last us \<noteq> hd vs"
    using s(2) last_in_set [of us] hd_in_set [of vs] by fastforce
  note drop = dlseg_drop_middle [OF s(4,2) e(1)]
  note defs = unlink_found_def field_defs list_repr_def contents_def same_outside_def
    dealloc_calls_def payload_at
  show ?thesis
  proof (cases "us = []"; cases "vs = []")
    assume "us = []" "vs = []"
    then show ?thesis using s e prev nxt by (auto simp: defs)
  next
    assume "us = []" "vs \<noteq> []"
    then show ?thesis using s e prev nxt drop hv by (auto simp: defs)
  next
    assume "us \<noteq> []" "vs = []"
    then show ?thesis using s e prev nxt drop lu by (auto simp: defs)
  next
    assume "us \<noteq> []" "vs \<noteq> []"
    then show ?thesis using s e prev nxt drop lu hv ne by (auto simp: defs)
  qed
qed


lemma search_loop_skip:
  assumes "dlseg (elems h) pr tmp us nx la"
    and "\<forall>u \<in> set us. \<not> eq d0 (fst (payload (elems h) u))"
  shows "search_loop l dp eq d0 rm tmp h = search_loop l dp eq d0 rm nx h"
  using assms
proof (induction us arbitrary: pr tmp)
  case Nil
  then show ?case by simp
next
  case (Cons u us)
  then obtain e where e: "elems h u = Some e" "u \<noteq> NULL" "tmp = u"
    "dlseg (elems h) u (next_ptr e) us nx la" by (auto split: option.splits)
  have "search_loop l dp eq d0 rm u h = search_loop l dp eq d0 rm (next_ptr e) h"
    using Cons.prems(2) e by (subst search_loop.simps) (simp add: payload_at)
  with Cons.IH [OF e(4)] Cons.prems(2) e(3) show ?case by simp
qed

lemma list_repr_cells [simp]: "list_repr (h\<lparr>cells := c\<rparr>) l as = list_repr h l as"
  "contents (h\<lparr>cells := c\<rparr>) as = contents h as"
  by (simp_all add: list_repr_def contents_def split: option.split)

lemma linked_list_search_none:
  assumes repr: "list_repr h l as" and ne: "as \<noteq> []"
    and dp: "dp = NULL \<or> (\<exists>old. cells h dp = Some old)"
    and none: "\<forall>a \<in> set as. \<not> eq d0 (fst (payload (elems h) a))"
  shows "linked_list_search l dp (Some eq) d0 rm h
           = Some (eLINKED_LIST_SUCCESS, if dp = NULL then h else h\<lparr>cells := (cells h)(dp \<mapsto> NULL)\<rparr>)"
proof -
  obtain s where s: "l \<noteq> NULL" "list_states h l = Some s"
    "dlseg (elems h) NULL (p_head s) as NULL (p_tail s)"
    using repr by (rule list_reprE)
  let ?h = "if dp = NULL then h else h\<lparr>cells := (cells h)(dp \<mapsto> NULL)\<rparr>"
  have "search_loop l dp eq d0 rm (p_head s) ?h = search_loop l dp eq d0 rm NULL ?h"
    using s(3) none by (intro search_loop_skip [where pr = NULL and us = as and la = "p_tail s"]) simp_all
  moreover have "search_loop l dp eq d0 rm NULL ?h = Some ?h"
    by (subst search_loop.simps) simp
  ultimately show ?thesis
    using s dp list_repr_tail [OF repr s(2)] ne
    by (auto simp: linked_list_search_def write_cell_def)
qed

section \<open>The list as a first-in first-out store\<close>

text \<open>\<open>drain\<close> removes \<open>n\<close> times and collects what each removal left in the out cell.\<close>

fun drain :: "('h \<Rightarrow> ('e \<times> 'h) option) \<Rightarrow> ('h \<Rightarrow> addr option) \<Rightarrow> nat \<Rightarrow> 'h \<Rightarrow> (addr list \<times> 'h) option" where
  "drain rm rd 0 h = Some ([], h)"
| "drain rm rd (Suc n) h = do {
     (r, h) \<leftarrow> rm h;
     d \<leftarrow> rd h;
     (ds, h) \<leftarrow> drain rm rd n h;
     Some (d # ds, h) }"

text \<open>\<open>fill\<close> adds a sequence of (allocated address, data, dealloc) triples.\<close>

fun fill :: "(addr \<Rightarrow> addr \<Rightarrow> addr \<Rightarrow> 'h \<Rightarrow> ('e \<times> 'h) option) \<Rightarrow> (addr \<times> addr \<times> addr) list \<Rightarrow> 'h \<Rightarrow> 'h option" where
  "fill ad [] h = Some h"
| "fill ad ((a, d, f) # xs) h = do { (r, h) \<leftarrow> ad a d f h; fill ad xs h }"

text \<open>What a client of the list may rely on: the list at \<open>l\<close> holds a sequence, oldest
  first; adding appends, removing takes the oldest, both touch nothing else of the heap
  than the list, the out cell and the addresses in use.\<close>

locale fifo_store =
  fixes repr :: "'h \<Rightarrow> addr \<Rightarrow> (addr \<times> addr) list \<Rightarrow> bool"
    and used :: "'h \<Rightarrow> addr set"
    and cell :: "'h \<Rightarrow> addr \<Rightarrow> addr option"
    and log :: "'h \<Rightarrow> (addr \<times> addr) list"
    and rest :: "'h \<Rightarrow> 'r"
    and add :: "addr \<Rightarrow> addr \<Rightarrow> addr \<Rightarrow> addr \<Rightarrow> 'h \<Rightarrow> (linked_list_err_type \<times> 'h) option"
    and remove :: "addr \<Rightarrow> addr \<Rightarrow> 'h \<Rightarrow> (linked_list_err_type \<times> 'h) option"
    and isempty :: "addr \<Rightarrow> 'h \<Rightarrow> int option"
    and flush :: "addr \<Rightarrow> 'h \<Rightarrow> (linked_list_err_type \<times> 'h) option"
  assumes add_ok: "repr h l xs \<Longrightarrow> a \<notin> used h \<Longrightarrow> a \<noteq> NULL \<Longrightarrow> d \<noteq> NULL \<Longrightarrow>
      \<exists>h'. add a l d f h = Some (eLINKED_LIST_SUCCESS, h') \<and> repr h' l (xs @ [(d, f)])
        \<and> used h' \<subseteq> insert a (used h) \<and> cell h' = cell h \<and> log h' = log h \<and> rest h' = rest h"
    and add_oom: "repr h l xs \<Longrightarrow> d \<noteq> NULL \<Longrightarrow>
      add NULL l d f h = Some (eLINKED_LIST_FAILURE_GENERAL, h)"
    and remove_ok: "repr h l ((d, f) # xs) \<Longrightarrow> out \<noteq> NULL \<Longrightarrow> cell h out = Some old \<Longrightarrow>
      \<exists>h'. remove l out h = Some (eLINKED_LIST_SUCCESS, h') \<and> repr h' l xs
        \<and> used h' \<subseteq> used h \<and> cell h' = (cell h)(out \<mapsto> d) \<and> log h' = log h \<and> rest h' = rest h"
    and remove_empty: "repr h l [] \<Longrightarrow> out \<noteq> NULL \<Longrightarrow>
      remove l out h = Some (eLINKED_LIST_UNAVAILABLE_RESOURCE, h)"
    and isempty_ok: "repr h l xs \<Longrightarrow> isempty l h = Some (if xs = [] then 1 else 0)"
    and flush_ok: "repr h l xs \<Longrightarrow>
      \<exists>h'. flush l h = Some (eLINKED_LIST_SUCCESS, h') \<and> repr h' l [] \<and> used h' \<subseteq> used h
        \<and> cell h' = cell h \<and> log h' = log h @ dealloc_calls (rev xs) \<and> rest h' = rest h"
begin

lemma drain_all:
  assumes "repr h l xs" and "out \<noteq> NULL" and "cell h out = Some old"
  shows "\<exists>h'. drain (remove l out) (\<lambda>h. cell h out) (length xs) h = Some (map fst xs, h') \<and> repr h' l []"
  using assms
proof (induction xs arbitrary: h old)
  case Nil
  then show ?case by simp
next
  case (Cons x xs)
  obtain d f where x: "x = (d, f)" by (cases x)
  obtain h1 where h1: "remove l out h = Some (eLINKED_LIST_SUCCESS, h1)" "repr h1 l xs" "cell h1 out = Some d"
    using remove_ok [of h l d f xs out old] Cons.prems by (auto simp: x)
  with Cons.IH [OF h1(2) Cons.prems(2) h1(3)] show ?case by (auto simp: x)
qed

lemma fill_all:
  assumes "repr h l ys" and "distinct (map fst xs)" and "fst ` set xs \<inter> used h = {}"
    and "\<forall>(a, d, f) \<in> set xs. a \<noteq> NULL \<and> d \<noteq> NULL"
  shows "\<exists>h'. fill (\<lambda>a. add a l) xs h = Some h' \<and> repr h' l (ys @ map snd xs) \<and> cell h' = cell h"
  using assms
proof (induction xs arbitrary: h ys)
  case Nil
  then show ?case by simp
next
  case (Cons x xs)
  obtain a d f where x: "x = (a, d, f)" by (cases x)
  obtain h1 where h1: "add a l d f h = Some (eLINKED_LIST_SUCCESS, h1)" "repr h1 l (ys @ [(d, f)])"
    "used h1 \<subseteq> insert a (used h)" "cell h1 = cell h"
    using add_ok [of h l ys a d f] Cons.prems by (auto simp: x)
  have "distinct (map fst xs)" "fst ` set xs \<inter> used h1 = {}"
    using Cons.prems(2,3) h1(3) by (auto simp: x)
  with Cons.IH [OF h1(2)] Cons.prems(4) h1 show ?case by (auto simp: x)
qed

lemma fifo_order:
  assumes "repr h l []" and "distinct (map fst xs)" and "fst ` set xs \<inter> used h = {}"
    and "\<forall>(a, d, f) \<in> set xs. a \<noteq> NULL \<and> d \<noteq> NULL" and "out \<noteq> NULL" and "cell h out = Some old"
  shows "\<exists>h1 h2. fill (\<lambda>a. add a l) xs h = Some h1
           \<and> drain (remove l out) (\<lambda>h. cell h out) (length xs) h1 = Some (map (fst \<circ> snd) xs, h2)
           \<and> repr h2 l []"
proof -
  obtain h1 where h1: "fill (\<lambda>a. add a l) xs h = Some h1" "repr h1 l (map snd xs)" "cell h1 = cell h"
    using fill_all [OF assms(1-4)] by auto
  with drain_all [OF h1(2) assms(5)] assms(6) show ?thesis by auto
qed

end

definition queue_repr :: "'a ll_heap_scheme \<Rightarrow> addr \<Rightarrow> (addr \<times> addr) list \<Rightarrow> bool" where
  "queue_repr h l xs \<longleftrightarrow> (\<exists>as. list_repr h l as \<and> xs = rev (contents h as))"

lemma queue_reprI: "list_repr h l as \<Longrightarrow> queue_repr h l (rev (contents h as))"
  by (auto simp: queue_repr_def)

lemma queue_repr_Nil: "queue_repr h l [] \<longleftrightarrow> list_repr h l []"
  by (auto simp: queue_repr_def contents_def)

lemma list_repr_used: "list_repr h l as \<Longrightarrow> set as \<subseteq> dom (elems h)"
  by (fastforce elim!: list_reprE dest: dlseg_in_heap)

lemma queue_add_ok:
  assumes "queue_repr h l xs" and "a \<notin> dom (elems h)" and "a \<noteq> NULL" and "d \<noteq> NULL"
  shows "\<exists>h'. linked_list_add a l d f h = Some (eLINKED_LIST_SUCCESS, h') \<and> queue_repr h' l (xs @ [(d, f)])
           \<and> dom (elems h') \<subseteq> insert a (dom (elems h)) \<and> cells h' = cells h
           \<and> dealloc_log h' = dealloc_log h \<and> ll_heap.more h' = ll_heap.more h"
proof -
  obtain as where as: "list_repr h l as" "xs = rev (contents h as)"
    using assms(1) by (auto simp: queue_repr_def)
  then obtain h' where h': "linked_list_add a l d f h = Some (eLINKED_LIST_SUCCESS, h')"
    "list_repr h' l (a # as)" "contents h' (a # as) = (d, f) # contents h as" "cells h' = cells h"
    "dealloc_log h' = dealloc_log h" "same_outside (insert a (set as)) l h h'"
    using linked_list_add_ok [OF as(1) assms(3)] list_repr_used [OF as(1)] assms(2,4) by blast
  moreover have "dom (elems h') \<subseteq> insert a (dom (elems h))"
    using h'(6) list_repr_used [OF as(1)] by (fastforce simp: same_outside_def dom_def)
  ultimately show ?thesis
    using queue_reprI [OF h'(2)] by (auto simp: as(2) same_outside_def)
qed

lemma queue_remove_ok:
  assumes "queue_repr h l ((d, f) # xs)" and "out \<noteq> NULL" and "cells h out = Some old"
  shows "\<exists>h'. linked_list_remove l out h = Some (eLINKED_LIST_SUCCESS, h') \<and> queue_repr h' l xs
           \<and> dom (elems h') \<subseteq> dom (elems h) \<and> cells h' = (cells h)(out \<mapsto> d)
           \<and> dealloc_log h' = dealloc_log h \<and> ll_heap.more h' = ll_heap.more h"
proof -
  obtain as where as: "list_repr h l as" "(d, f) # xs = rev (contents h as)"
    using assms(1) by (auto simp: queue_repr_def)
  then obtain bs b where b: "as = bs @ [b]" "payload (elems h) b = (d, f)" "xs = rev (contents h bs)"
    by (cases as rule: rev_cases) (auto simp: contents_def)
  obtain h' where h': "linked_list_remove l out h = Some (eLINKED_LIST_SUCCESS, h')"
    "list_repr h' l bs" "contents h' bs = contents h bs" "cells h' = (cells h)(out \<mapsto> d)"
    "dealloc_log h' = dealloc_log h" "same_outside (set (bs @ [b])) l h h'"
    using linked_list_remove_ok [of h l bs b out old] as(1) assms(2,3) b by auto
  moreover have "dom (elems h') \<subseteq> dom (elems h)"
    using h'(6) list_repr_used [OF as(1)] by (fastforce simp: same_outside_def dom_def b(1))
  ultimately show ?thesis
    using queue_reprI [OF h'(2)] by (auto simp: b(3) same_outside_def)
qed

lemma queue_flush_ok:
  assumes "queue_repr h l xs"
  shows "\<exists>h'. linked_list_flush l h = Some (eLINKED_LIST_SUCCESS, h') \<and> queue_repr h' l []
           \<and> dom (elems h') \<subseteq> dom (elems h) \<and> cells h' = cells h
           \<and> dealloc_log h' = dealloc_log h @ dealloc_calls (rev xs) \<and> ll_heap.more h' = ll_heap.more h"
proof -
  obtain as where as: "list_repr h l as" "xs = rev (contents h as)"
    using assms by (auto simp: queue_repr_def)
  with linked_list_flush_ok [OF as(1)] show ?thesis
    by (auto simp: queue_repr_Nil same_outside_def)
qed

interpretation llq: fifo_store queue_repr "\<lambda>h. dom (elems h)" cells dealloc_log ll_heap.more
  linked_list_add linked_list_remove linked_list_empty linked_list_flush
proof unfold_locales
  show "linked_list_add NULL l d f h = Some (eLINKED_LIST_FAILURE_GENERAL, h)"
    if "queue_repr h l xs" "d \<noteq> NULL" for h l xs d f
    using that by (auto simp: linked_list_add_def queue_repr_def list_repr_def)
  show "linked_list_remove l out h = Some (eLINKED_LIST_UNAVAILABLE_RESOURCE, h)"
    if "queue_repr h l []" "out \<noteq> NULL" for h l out
    using that by (simp add: queue_repr_Nil linked_list_remove_empty)
  show "linked_list_empty l h = Some (if xs = [] then 1 else 0)" if "queue_repr h l xs" for h l xs
    using that by (auto simp: queue_repr_def contents_def linked_list_empty_ok split: if_splits)
qed (fact queue_add_ok queue_remove_ok queue_flush_ok)+


section \<open>Properties\<close>

text \<open>A heap with one empty list at address 10, handled through the cell 5, and an out
  cell at address 6.\<close>

definition demo_heap :: ll_heap where
  "demo_heap = \<lparr>elems = Map.empty, list_states = [10 \<mapsto> \<lparr>p_head = NULL, p_tail = NULL\<rparr>],
     cells = [5 \<mapsto> 10, 6 \<mapsto> NULL], dealloc_log = []\<rparr>"

text \<open>The same heap after the data 71, 72, 73 were added at the addresses 1, 2, 3; 71 and
  73 carry the dealloc function 90.\<close>

definition demo_heap3 :: ll_heap where
  "demo_heap3 = \<lparr>elems = [1 \<mapsto> \<lparr>next_ptr = NULL, prev_ptr = 2, data_ptr = 71, dealloc_func = 90\<rparr>,
       2 \<mapsto> \<lparr>next_ptr = 1, prev_ptr = 3, data_ptr = 72, dealloc_func = NULL\<rparr>,
       3 \<mapsto> \<lparr>next_ptr = 2, prev_ptr = NULL, data_ptr = 73, dealloc_func = 90\<rparr>],
     list_states = [10 \<mapsto> \<lparr>p_head = 3, p_tail = 1\<rparr>],
     cells = [5 \<mapsto> 10, 6 \<mapsto> NULL], dealloc_log = []\<rparr>"

text \<open>C8. The list is a first-in first-out store: adding any sequence of
  non-null data through distinct freshly allocated elements and then removing as many
  times returns the data in the order they were added and leaves the list empty; no
  operation reads or writes outside its objects.\<close>

theorem linked_list_fifo:
  assumes "list_repr h l []" and "distinct (map fst xs)" and "fst ` set xs \<inter> dom (elems h) = {}"
    and "\<forall>(a, d, f) \<in> set xs. a \<noteq> NULL \<and> d \<noteq> NULL" and "out \<noteq> NULL" and "cells h out = Some old"
  shows "\<exists>h1 h2. fill (\<lambda>a. linked_list_add a l) xs h = Some h1
           \<and> drain (linked_list_remove l out) (\<lambda>h. cells h out) (length xs) h1
               = Some (map (fst \<circ> snd) xs, h2)
           \<and> list_repr h2 l []"
  using llq.fifo_order [OF _ assms(2-6)] assms(1) by (simp add: queue_repr_Nil)

theorem linked_list_fifo_witness:
  "\<exists>h1 h2. fill (\<lambda>a. linked_list_add a 10) [(1, 71, 90), (2, 72, NULL)] demo_heap = Some h1
     \<and> drain (linked_list_remove 10 6) (\<lambda>h. cells h 6) 2 h1 = Some ([71, 72], h2)
     \<and> list_repr h2 10 []"
  using linked_list_fifo [of demo_heap 10 "[(1, 71, 90), (2, 72, NULL)]" 6 NULL]
  by (simp add: demo_heap_def list_repr_def numeral_2_eq_2)

text \<open>A search visits the elements from the newest to the oldest and
  stops at the first match: it writes that element's data to the result cell (if there
  is one), and when asked to remove, it unlinks exactly that element, keeping the others
  in order, and hands the data to the element's dealloc function precisely when the
  caller did not take it. Other lists are not touched.\<close>

theorem linked_list_search_first_match:
  assumes repr: "list_repr h l (us @ a # vs)"
    and dp: "dp = NULL \<or> (\<exists>old. cells h dp = Some old)"
    and skip: "\<forall>u \<in> set us. \<not> eq d0 (fst (payload (elems h) u))"
    and hit: "eq d0 (fst (payload (elems h) a))"
  shows "\<exists>h'. linked_list_search l dp (Some eq) d0 rm h = Some (eLINKED_LIST_SUCCESS, h')
           \<and> list_repr h' l (if rm then us @ vs else us @ a # vs)
           \<and> contents h' (us @ vs) = contents h (us @ vs)
           \<and> cells h' = (if dp = NULL then cells h else (cells h)(dp \<mapsto> fst (payload (elems h) a)))
           \<and> dealloc_log h' = dealloc_log h @
               (if rm \<and> dp = NULL then dealloc_calls [payload (elems h) a] else [])
           \<and> same_outside (set (us @ a # vs)) l h h'"
proof -
  obtain s where s: "l \<noteq> NULL" "list_states h l = Some s"
    "dlseg (elems h) NULL (p_head s) (us @ a # vs) NULL (p_tail s)"
    using repr by (rule list_reprE)
  obtain e where e: "elems h a = Some e" "a \<noteq> NULL" and seg: "dlseg (elems h) NULL (p_head s) us a (prev_ptr e)"
    using s(3) by (auto simp: dlseg_append split: option.splits)
  let ?h = "if dp = NULL then h else h\<lparr>cells := (cells h)(dp \<mapsto> NULL)\<rparr>"
  let ?h2 = "if dp = NULL then h else h\<lparr>cells := (cells h)(dp \<mapsto> data_ptr e)\<rparr>"
  have "search_loop l dp eq d0 rm (p_head s) ?h = search_loop l dp eq d0 rm a ?h"
    using seg skip by (intro search_loop_skip [where pr = NULL and us = us and la = "prev_ptr e"]) simp_all
  also have "\<dots> = (if rm then unlink_found l a dp ?h2 else Some ?h2)"
    using e hit by (subst search_loop.simps) (simp add: payload_at write_cell_def)
  finally have run: "linked_list_search l dp (Some eq) d0 rm h
      = map_option (Pair eLINKED_LIST_SUCCESS) (if rm then unlink_found l a dp ?h2 else Some ?h2)"
    using s dp list_repr_tail [OF repr s(2)]
    by (auto simp: linked_list_search_def write_cell_def map_conv_bind_option comp_def)
  have "list_repr ?h2 l (us @ a # vs)" using repr by simp
  from unlink_found_ok [OF this, of dp]
  obtain h' where "unlink_found l a dp ?h2 = Some h'" "list_repr h' l (us @ vs)"
    "contents h' (us @ vs) = contents ?h2 (us @ vs)" "cells h' = cells ?h2"
    "dealloc_log h' = dealloc_log ?h2 @ (if dp = NULL then dealloc_calls [payload (elems ?h2) a] else [])"
    "same_outside (set (us @ a # vs)) l ?h2 h'"
    by blast
  with run repr e show ?thesis by (auto simp: payload_at same_outside_def)
qed

theorem linked_list_search_first_match_witness:
  "\<exists>h'. linked_list_search 10 NULL (Some (\<lambda>x y. x < y)) 70 True demo_heap3 = Some (eLINKED_LIST_SUCCESS, h')
     \<and> list_repr h' 10 [2, 1] \<and> contents h' [2, 1] = [(72, NULL), (71, 90)]
     \<and> cells h' = cells demo_heap3 \<and> dealloc_log h' = [(90, 73)]
     \<and> same_outside {3, 2, 1} 10 demo_heap3 h'"
  using linked_list_search_first_match [of demo_heap3 10 "[]" 3 "[2, 1]" NULL "\<lambda>x y. x < y" 70 True]
  by (simp add: demo_heap3_def list_repr_def payload_def contents_def dealloc_calls_def)

text \<open>A flush empties the list, frees every element of it, and calls
  the dealloc function of each element that has one exactly once, newest element first;
  every other list whose elements are disjoint from this one keeps its elements and data.\<close>

theorem linked_list_flush_releases:
  assumes "list_repr h l as"
  shows "\<exists>h'. linked_list_flush l h = Some (eLINKED_LIST_SUCCESS, h') \<and> list_repr h' l []
           \<and> elems h' = (elems h) |` (- set as) \<and> cells h' = cells h
           \<and> dealloc_log h' = dealloc_log h @ dealloc_calls (contents h as)
           \<and> (\<forall>k bs. list_repr h k bs \<and> k \<noteq> l \<and> set bs \<inter> set as = {} \<longrightarrow>
                list_repr h' k bs \<and> contents h' bs = contents h bs)"
proof -
  obtain h' where "linked_list_flush l h = Some (eLINKED_LIST_SUCCESS, h')" "list_repr h' l []"
    "elems h' = (elems h) |` (- set as)" "cells h' = cells h"
    "dealloc_log h' = dealloc_log h @ dealloc_calls (contents h as)" "same_outside (set as) l h h'"
    using linked_list_flush_ok [OF assms] by blast
  then show ?thesis using list_repr_frame by blast
qed

theorem linked_list_flush_releases_witness:
  "\<exists>h'. linked_list_flush 10 demo_heap3 = Some (eLINKED_LIST_SUCCESS, h') \<and> list_repr h' 10 []
     \<and> elems h' = (elems demo_heap3) |` (- {3, 2, 1}) \<and> dealloc_log h' = [(90, 73), (90, 71)]"
proof -
  have "list_repr demo_heap3 10 [3, 2, 1]" by (simp add: demo_heap3_def list_repr_def)
  from linked_list_flush_releases [OF this] show ?thesis
    by (auto simp: demo_heap3_def contents_def payload_def dealloc_calls_def)
qed

end
