(* ===== verification/MsgQ.thy ===== *)
theory MsgQ
  imports LinkedList
begin

text \<open>
  The blocking message queue of \<^verbatim>\<open>src/gps/utils/msg_q.c\<close>, on top of the linked list.

  A queue object holds a condition variable, a mutex and the \<^verbatim>\<open>unblocked\<close> flag; its
  first member \<^verbatim>\<open>msg_list\<close>, the handle of the list, is the pointer cell at the address
  of the object (the first member of a C struct has the address of the struct).

  \<^verbatim>\<open>msg_q_rcv\<close> may block. It is modelled up to the point where it either returns or
  sleeps in \<^verbatim>\<open>pthread_cond_wait\<close> (\<open>msg_q_rcv\<close>), and from the return of that call on
  (\<open>msg_q_rcv_wake\<close>); both run the loop of the source. All other operations are one
  critical section. The step relation \<open>mq_step\<close> interleaves any number of threads,
  including wake-ups that no signal caused, which POSIX allows.
\<close>

section \<open>Data\<close>

datatype msq_q_err_type =
    eMSG_Q_SUCCESS
  | eMSG_Q_FAILURE_GENERAL
  | eMSG_Q_INVALID_PARAMETER
  | eMSG_Q_INVALID_HANDLE
  | eMSG_Q_UNAVAILABLE_RESOURCE
  | eMSG_Q_INSUFFICIENT_BUFFER
  | msq_q_raw int \<comment> \<open>a value of the C enum type that is none of its enumerators\<close>

primrec msq_q_err_val :: "msq_q_err_type \<Rightarrow> int" where
  "msq_q_err_val eMSG_Q_SUCCESS = 0"
| "msq_q_err_val eMSG_Q_FAILURE_GENERAL = -1"
| "msq_q_err_val eMSG_Q_INVALID_PARAMETER = -2"
| "msq_q_err_val eMSG_Q_INVALID_HANDLE = -3"
| "msq_q_err_val eMSG_Q_UNAVAILABLE_RESOURCE = -4"
| "msq_q_err_val eMSG_Q_INSUFFICIENT_BUFFER = -5"
| "msq_q_err_val (msq_q_raw i) = i"

record msg_q =
  list_cond :: cond
  list_mutex :: mutex
  unblocked :: int

record mq_heap = ll_heap +
  queues :: "addr \<rightharpoonup> msg_q"

datatype rcv_result = Returned msq_q_err_type | Waiting

fun convert_linked_list_err_type :: "linked_list_err_type \<Rightarrow> msq_q_err_type" where
  "convert_linked_list_err_type eLINKED_LIST_SUCCESS = eMSG_Q_SUCCESS"
| "convert_linked_list_err_type eLINKED_LIST_INVALID_PARAMETER = eMSG_Q_INVALID_PARAMETER"
| "convert_linked_list_err_type eLINKED_LIST_INVALID_HANDLE = eMSG_Q_INVALID_HANDLE"
| "convert_linked_list_err_type eLINKED_LIST_UNAVAILABLE_RESOURCE = eMSG_Q_UNAVAILABLE_RESOURCE"
| "convert_linked_list_err_type eLINKED_LIST_INSUFFICIENT_BUFFER = eMSG_Q_INSUFFICIENT_BUFFER"
| "convert_linked_list_err_type _ = eMSG_Q_FAILURE_GENERAL"

section \<open>Mutex and condition variable of a queue\<close>

definition upd_q :: "addr \<Rightarrow> msg_q \<Rightarrow> mq_heap \<Rightarrow> mq_heap" where
  "upd_q q m h = h\<lparr>queues := (queues h)(q \<mapsto> m)\<rparr>"

definition q_lock :: "addr \<Rightarrow> mq_heap \<Rightarrow> mq_heap option" where
  "q_lock q h = do { m \<leftarrow> load (queues h) q; x \<leftarrow> mutex_lock (list_mutex m);
     Some (upd_q q (m\<lparr>list_mutex := x\<rparr>) h) }"

definition q_unlock :: "addr \<Rightarrow> mq_heap \<Rightarrow> mq_heap option" where
  "q_unlock q h = do { m \<leftarrow> load (queues h) q; x \<leftarrow> mutex_unlock (list_mutex m);
     Some (upd_q q (m\<lparr>list_mutex := x\<rparr>) h) }"

text \<open>\<^verbatim>\<open>pthread_cond_wait\<close> by thread \<open>t\<close>: it joins the blocked threads and releases the
  mutex; when it returns, \<open>t\<close> has left the condition variable and holds the mutex.\<close>

definition q_wait :: "nat \<Rightarrow> addr \<Rightarrow> mq_heap \<Rightarrow> mq_heap option" where
  "q_wait t q h = do { m \<leftarrow> load (queues h) q; x \<leftarrow> mutex_unlock (list_mutex m);
     Some (upd_q q (m\<lparr>list_mutex := x,
       list_cond := (list_cond m)\<lparr>waiters := t # waiters (list_cond m)\<rparr>\<rparr>) h) }"

definition q_wait_return :: "nat \<Rightarrow> addr \<Rightarrow> mq_heap \<Rightarrow> mq_heap option" where
  "q_wait_return t q h = do { m \<leftarrow> load (queues h) q; x \<leftarrow> mutex_lock (list_mutex m);
     Some (upd_q q (m\<lparr>list_cond := \<lparr>waiters = remove1 t (waiters (list_cond m)),
                                   woken = remove1 t (woken (list_cond m))\<rparr>,
                     list_mutex := x\<rparr>) h) }"

definition free_msg_q :: "addr \<Rightarrow> mq_heap \<Rightarrow> mq_heap option" where
  "free_msg_q q h = do { m \<leftarrow> free_obj (queues h) q; Some (h\<lparr>queues := m, cells := (cells h)(q := None)\<rparr>) }"

section \<open>Operations\<close>

text \<open>The arguments before the parameters of the source are what the environment
  contributes: the results of the two allocations and the return codes of
  \<^verbatim>\<open>pthread_mutex_init\<close> and \<^verbatim>\<open>pthread_cond_init\<close>.\<close>

definition msg_q_init ::
  "addr \<Rightarrow> addr \<Rightarrow> int \<Rightarrow> int \<Rightarrow> addr \<Rightarrow> mq_heap \<Rightarrow> (msq_q_err_type, mq_heap) ret" where
  "msg_q_init tmp_msg_q tmp_list mutex_rc cond_rc msg_q_data h =
     (if msg_q_data = NULL then Some (eMSG_Q_INVALID_PARAMETER, h)
      else if tmp_msg_q = NULL then Some (eMSG_Q_FAILURE_GENERAL, h)
      else do {
        let h = h\<lparr>cells := (cells h)(tmp_msg_q \<mapsto> NULL), queues := (queues h)(tmp_msg_q \<mapsto>
                   \<lparr>list_cond = \<lparr>waiters = [], woken = []\<rparr>, list_mutex = False, unblocked = 0\<rparr>)\<rparr>;
        (r, h) \<leftarrow> linked_list_init tmp_list tmp_msg_q h;
        if r \<noteq> eLINKED_LIST_SUCCESS then do {
          h \<leftarrow> free_msg_q tmp_msg_q h;
          Some (eMSG_Q_FAILURE_GENERAL, h) }
        else if mutex_rc \<noteq> 0 then do {
          (r, h) \<leftarrow> linked_list_destroy tmp_msg_q h;
          h \<leftarrow> free_msg_q tmp_msg_q h;
          Some (eMSG_Q_FAILURE_GENERAL, h) }
        else if cond_rc \<noteq> 0 then do {
          (r, h) \<leftarrow> linked_list_destroy tmp_msg_q h;
          h \<leftarrow> free_msg_q tmp_msg_q h;
          Some (eMSG_Q_FAILURE_GENERAL, h) }
        else do {
          m \<leftarrow> load (queues h) tmp_msg_q;
          h \<leftarrow> write_cell msg_q_data tmp_msg_q (upd_q tmp_msg_q (m\<lparr>unblocked := 0\<rparr>) h);
          Some (eMSG_Q_SUCCESS, h) } })"

text \<open>\<^verbatim>\<open>msg_q_init2\<close> returns the handle; its local \<^verbatim>\<open>q\<close> is the cell \<open>local_q\<close>.\<close>

definition msg_q_init2 ::
  "addr \<Rightarrow> addr \<Rightarrow> int \<Rightarrow> int \<Rightarrow> addr \<Rightarrow> mq_heap \<Rightarrow> (addr, mq_heap) ret" where
  "msg_q_init2 tmp_msg_q tmp_list mutex_rc cond_rc local_q h = do {
     (r, h) \<leftarrow> msg_q_init tmp_msg_q tmp_list mutex_rc cond_rc local_q
                 (h\<lparr>cells := (cells h)(local_q \<mapsto> NULL)\<rparr>);
     h \<leftarrow> (if r \<noteq> eMSG_Q_SUCCESS then write_cell local_q NULL h else Some h);
     q \<leftarrow> load (cells h) local_q;
     Some (q, h\<lparr>cells := (cells h)(local_q := None)\<rparr>) }"

definition msg_q_destroy :: "addr \<Rightarrow> mq_heap \<Rightarrow> (msq_q_err_type, mq_heap) ret" where
  "msg_q_destroy msg_q_data h =
     (if msg_q_data = NULL then Some (eMSG_Q_INVALID_HANDLE, h)
      else do {
        q \<leftarrow> load (cells h) msg_q_data;
        m \<leftarrow> load (queues h) q;
        (r, h) \<leftarrow> linked_list_destroy q h;
        h \<leftarrow> free_msg_q q (upd_q q (m\<lparr>unblocked := 0\<rparr>) h);
        h \<leftarrow> write_cell msg_q_data NULL h;
        Some (eMSG_Q_SUCCESS, h) })"

definition msg_q_snd ::
  "nat \<Rightarrow> addr \<Rightarrow> addr \<Rightarrow> addr \<Rightarrow> addr \<Rightarrow> mq_heap \<Rightarrow> (msq_q_err_type, mq_heap) ret" where
  "msg_q_snd k elem msg_q_data msg_obj dealloc h =
     (if msg_q_data = NULL then Some (eMSG_Q_INVALID_HANDLE, h)
      else if msg_obj = NULL then Some (eMSG_Q_INVALID_PARAMETER, h)
      else do {
        h \<leftarrow> q_lock msg_q_data h;
        m \<leftarrow> load (queues h) msg_q_data;
        if unblocked m \<noteq> 0 then do {
          h \<leftarrow> q_unlock msg_q_data h;
          Some (eMSG_Q_UNAVAILABLE_RESOURCE, h) }
        else do {
          msg_list \<leftarrow> load (cells h) msg_q_data;
          (r, h) \<leftarrow> linked_list_add elem msg_list msg_obj dealloc h;
          m \<leftarrow> load (queues h) msg_q_data;
          h \<leftarrow> q_unlock msg_q_data
                 (upd_q msg_q_data (m\<lparr>list_cond := cond_signal k (list_cond m)\<rparr>) h);
          Some (convert_linked_list_err_type r, h) } })"

definition msg_q_rcv_loop :: "nat \<Rightarrow> addr \<Rightarrow> addr \<Rightarrow> mq_heap \<Rightarrow> (rcv_result, mq_heap) ret" where
  "msg_q_rcv_loop t q msg_obj h = do {
     msg_list \<leftarrow> load (cells h) q;
     e \<leftarrow> linked_list_empty msg_list h;
     m \<leftarrow> load (queues h) q;
     if e \<noteq> 0 \<and> unblocked m = 0 then do {
       h \<leftarrow> q_wait t q h;
       Some (Waiting, h) }
     else do {
       (r, h) \<leftarrow> linked_list_remove msg_list msg_obj h;
       h \<leftarrow> q_unlock q h;
       Some (Returned (convert_linked_list_err_type r), h) } }"

definition msg_q_rcv :: "nat \<Rightarrow> addr \<Rightarrow> addr \<Rightarrow> mq_heap \<Rightarrow> (rcv_result, mq_heap) ret" where
  "msg_q_rcv t msg_q_data msg_obj h =
     (if msg_q_data = NULL then Some (Returned eMSG_Q_INVALID_HANDLE, h)
      else if msg_obj = NULL then Some (Returned eMSG_Q_INVALID_PARAMETER, h)
      else do {
        h \<leftarrow> q_lock msg_q_data h;
        m \<leftarrow> load (queues h) msg_q_data;
        if unblocked m \<noteq> 0 then do {
          h \<leftarrow> q_unlock msg_q_data h;
          Some (Returned eMSG_Q_UNAVAILABLE_RESOURCE, h) }
        else msg_q_rcv_loop t msg_q_data msg_obj h })"

definition msg_q_rcv_wake :: "nat \<Rightarrow> addr \<Rightarrow> addr \<Rightarrow> mq_heap \<Rightarrow> (rcv_result, mq_heap) ret" where
  "msg_q_rcv_wake t msg_q_data msg_obj h = do {
     h \<leftarrow> q_wait_return t msg_q_data h;
     msg_q_rcv_loop t msg_q_data msg_obj h }"

definition msg_q_rmv :: "addr \<Rightarrow> addr \<Rightarrow> mq_heap \<Rightarrow> (msq_q_err_type, mq_heap) ret" where
  "msg_q_rmv msg_q_data msg_obj h =
     (if msg_q_data = NULL then Some (eMSG_Q_INVALID_HANDLE, h)
      else if msg_obj = NULL then Some (eMSG_Q_INVALID_PARAMETER, h)
      else do {
        h \<leftarrow> q_lock msg_q_data h;
        m \<leftarrow> load (queues h) msg_q_data;
        if unblocked m \<noteq> 0 then do {
          h \<leftarrow> q_unlock msg_q_data h;
          Some (eMSG_Q_UNAVAILABLE_RESOURCE, h) }
        else do {
          msg_list \<leftarrow> load (cells h) msg_q_data;
          e \<leftarrow> linked_list_empty msg_list h;
          if e \<noteq> 0 then do {
            h \<leftarrow> q_unlock msg_q_data h;
            Some (msq_q_raw (linked_list_err_val eLINKED_LIST_EMPTY), h) }
          else do {
            (r, h) \<leftarrow> linked_list_remove msg_list msg_obj h;
            h \<leftarrow> q_unlock msg_q_data h;
            Some (convert_linked_list_err_type r, h) } } })"

definition msg_q_flush :: "addr \<Rightarrow> mq_heap \<Rightarrow> (msq_q_err_type, mq_heap) ret" where
  "msg_q_flush msg_q_data h =
     (if msg_q_data = NULL then Some (eMSG_Q_INVALID_HANDLE, h)
      else do {
        h \<leftarrow> q_lock msg_q_data h;
        msg_list \<leftarrow> load (cells h) msg_q_data;
        (r, h) \<leftarrow> linked_list_flush msg_list h;
        h \<leftarrow> q_unlock msg_q_data h;
        Some (convert_linked_list_err_type r, h) })"

definition msg_q_unblock :: "addr \<Rightarrow> mq_heap \<Rightarrow> (msq_q_err_type, mq_heap) ret" where
  "msg_q_unblock msg_q_data h =
     (if msg_q_data = NULL then Some (eMSG_Q_INVALID_HANDLE, h)
      else do {
        h \<leftarrow> q_lock msg_q_data h;
        m \<leftarrow> load (queues h) msg_q_data;
        if unblocked m \<noteq> 0 then do {
          h \<leftarrow> q_unlock msg_q_data h;
          Some (eMSG_Q_UNAVAILABLE_RESOURCE, h) }
        else do {
          h \<leftarrow> q_unlock msg_q_data (upd_q msg_q_data
                 (m\<lparr>unblocked := 1, list_cond := cond_broadcast (list_cond m)\<rparr>) h);
          Some (eMSG_Q_SUCCESS, h) } })"


section \<open>Behaviour of the operations\<close>

text \<open>\<open>mq_rel h q l xs m\<close>: the object at \<open>q\<close> is a queue in state \<open>m\<close>, its mutex is free,
  and its list, at \<open>l\<close>, holds the messages \<open>xs\<close>, oldest first.\<close>

definition mq_rel :: "mq_heap \<Rightarrow> addr \<Rightarrow> addr \<Rightarrow> (addr \<times> addr) list \<Rightarrow> msg_q \<Rightarrow> bool" where
  "mq_rel h q l xs m \<longleftrightarrow> q \<noteq> NULL \<and> queues h q = Some m \<and> \<not> list_mutex m
     \<and> cells h q = Some l \<and> queue_repr h l xs"

lemma upd_q_simps [simp]:
  "elems (upd_q q m h) = elems h" "list_states (upd_q q m h) = list_states h"
  "cells (upd_q q m h) = cells h" "dealloc_log (upd_q q m h) = dealloc_log h"
  "queues (upd_q q m h) = (queues h)(q \<mapsto> m)"
  by (simp_all add: upd_q_def)

lemma queue_repr_upd_q [simp]: "queue_repr (upd_q q m h) l xs = queue_repr h l xs"
  by (simp add: queue_repr_def list_repr_def contents_def cong: option.case_cong)

lemma more_queues: "ll_heap.more h' = ll_heap.more h \<Longrightarrow> queues h' = queues h"
  by (cases h; cases h') simp

lemma unlock_id [simp]: "\<not> list_mutex m \<Longrightarrow> m\<lparr>list_mutex := False\<rparr> = m"
  by (cases m) simp

lemma relock [simp]: "\<not> list_mutex m \<Longrightarrow> m\<lparr>list_cond := c, list_mutex := False\<rparr> = m\<lparr>list_cond := c\<rparr>"
  "\<not> list_mutex m \<Longrightarrow> m\<lparr>list_mutex := False, list_cond := c\<rparr> = m\<lparr>list_cond := c\<rparr>"
  by (cases m, simp)+

lemmas lock_defs = q_lock_def q_unlock_def q_wait_def q_wait_return_def

lemma mq_relD:
  assumes "mq_rel h q l xs m"
  shows "q \<noteq> NULL" "queues h q = Some m" "\<not> list_mutex m" "cells h q = Some l" "queue_repr h l xs"
  using assms by (auto simp: mq_rel_def)

text \<open>Sending to a queue that is in use appends the message and releases one waiter; when
  the element cannot be allocated the content stays as it is.\<close>

lemma msg_q_snd_ok:
  assumes rel: "mq_rel h q l xs m" and "unblocked m = 0" and "a \<notin> dom (elems h)" and "a \<noteq> NULL"
    and "d \<noteq> NULL"
  shows "\<exists>h'. msg_q_snd k a q d f h = Some (eMSG_Q_SUCCESS, h')
           \<and> mq_rel h' q l (xs @ [(d, f)]) (m\<lparr>list_cond := cond_signal k (list_cond m)\<rparr>)
           \<and> cells h' = cells h"
proof -
  note m = mq_relD [OF rel]
  let ?h = "upd_q q (m\<lparr>list_mutex := True\<rparr>) h"
  obtain h2 where h2: "linked_list_add a l d f ?h = Some (eLINKED_LIST_SUCCESS, h2)"
    "queue_repr h2 l (xs @ [(d, f)])" "cells h2 = cells h" "queues h2 = queues ?h"
    using llq.add_ok [of ?h l xs a d f] assms m by (auto dest!: more_queues)
  then show ?thesis
    using m assms by (auto simp: msg_q_snd_def lock_defs mq_rel_def)
qed

lemma msg_q_snd_oom:
  assumes rel: "mq_rel h q l xs m" and "unblocked m = 0" and "d \<noteq> NULL"
  shows "\<exists>h'. msg_q_snd k NULL q d f h = Some (eMSG_Q_FAILURE_GENERAL, h')
           \<and> mq_rel h' q l xs (m\<lparr>list_cond := cond_signal k (list_cond m)\<rparr>)
           \<and> cells h' = cells h"
  using assms mq_relD [OF rel] llq.add_oom [of "upd_q q (m\<lparr>list_mutex := True\<rparr>) h" l xs d f]
  by (auto simp: msg_q_snd_def lock_defs mq_rel_def)

lemma msg_q_snd_null: "q \<noteq> NULL \<Longrightarrow> msg_q_snd k a q NULL f h = Some (eMSG_Q_INVALID_PARAMETER, h)"
  by (simp add: msg_q_snd_def)

lemma upd_q_same: "queues h q = Some m \<Longrightarrow> upd_q q m h = h"
  by (cases h) (simp add: upd_q_def fun_upd_idem)

lemma upd_q_twice [simp]: "upd_q q m' (upd_q q m h) = upd_q q m' h"
  by (simp add: upd_q_def)

text \<open>Every operation on a queue that was unblocked returns the same error and changes
  nothing.\<close>

lemma msg_q_unblocked_ops:
  assumes rel: "mq_rel h q l xs m" and "unblocked m \<noteq> 0"
  shows "d \<noteq> NULL \<Longrightarrow> msg_q_snd k a q d f h = Some (eMSG_Q_UNAVAILABLE_RESOURCE, h)"
    and "out \<noteq> NULL \<Longrightarrow> msg_q_rcv t q out h = Some (Returned eMSG_Q_UNAVAILABLE_RESOURCE, h)"
    and "out \<noteq> NULL \<Longrightarrow> msg_q_rmv q out h = Some (eMSG_Q_UNAVAILABLE_RESOURCE, h)"
    and "msg_q_unblock q h = Some (eMSG_Q_UNAVAILABLE_RESOURCE, h)"
  using assms(2) mq_relD [OF rel]
  by (simp_all add: msg_q_snd_def msg_q_rcv_def msg_q_rmv_def msg_q_unblock_def lock_defs upd_q_same)

lemma locked_remove:
  assumes rel: "mq_rel h q l ((d, f) # xs) m" and "out \<noteq> NULL" and "cells h out = Some old"
  shows "\<exists>h'. linked_list_remove l out (upd_q q m' h) = Some (eLINKED_LIST_SUCCESS, h')
           \<and> queue_repr h' l xs \<and> cells h' = (cells h)(out \<mapsto> d) \<and> queues h' = (queues h)(q \<mapsto> m')"
  using llq.remove_ok [of "upd_q q m' h" l d f xs out old] assms mq_relD [OF rel]
  by (auto dest!: more_queues)

lemma locked_empty [simp]:
  "queue_repr h l xs \<Longrightarrow> linked_list_empty l (upd_q q m h) = Some (if xs = [] then 1 else 0)"
  by (rule llq.isempty_ok) simp

lemma locked_remove_empty [simp]:
  "queue_repr h l [] \<Longrightarrow> out \<noteq> NULL \<Longrightarrow>
     linked_list_remove l out (upd_q q m h) = Some (eLINKED_LIST_UNAVAILABLE_RESOURCE, upd_q q m h)"
  by (rule llq.remove_empty) simp_all

lemma msg_q_rmv_ok:
  assumes rel: "mq_rel h q l ((d, f) # xs) m" and "unblocked m = 0" and "out \<noteq> NULL"
    and "cells h out = Some old" and "out \<noteq> q"
  shows "\<exists>h'. msg_q_rmv q out h = Some (eMSG_Q_SUCCESS, h') \<and> mq_rel h' q l xs m
           \<and> cells h' = (cells h)(out \<mapsto> d)"
  using locked_remove [OF rel assms(3,4), of "m\<lparr>list_mutex := True\<rparr>"] assms mq_relD [OF rel]
  by (auto simp: msg_q_rmv_def lock_defs mq_rel_def)

lemma msg_q_rmv_empty:
  assumes rel: "mq_rel h q l [] m" and "unblocked m = 0" and "out \<noteq> NULL"
  shows "msg_q_rmv q out h = Some (msq_q_raw (-6), h)"
  using assms mq_relD [OF rel] by (simp add: msg_q_rmv_def lock_defs upd_q_same)

text \<open>The loop of the receiver, run by a thread that has just taken the mutex: it takes
  the oldest message, or reports that the queue was unblocked, or goes to sleep.\<close>

lemma msg_q_rcv_loop_take:
  assumes rel: "mq_rel h q l ((d, f) # xs) m" and "out \<noteq> NULL" and "cells h out = Some old" and "out \<noteq> q"
    and "m' = m\<lparr>list_cond := c\<rparr>"
  shows "\<exists>h'. msg_q_rcv_loop t q out (upd_q q (m'\<lparr>list_mutex := True\<rparr>) h) = Some (Returned eMSG_Q_SUCCESS, h')
           \<and> mq_rel h' q l xs m' \<and> cells h' = (cells h)(out \<mapsto> d)"
  using locked_remove [OF rel assms(2,3), of "m'\<lparr>list_mutex := True\<rparr>"] assms mq_relD [OF rel]
  by (auto simp: msg_q_rcv_loop_def lock_defs mq_rel_def)

lemma msg_q_rcv_loop_empty:
  assumes rel: "mq_rel h q l [] m" and "out \<noteq> NULL" and "m' = m\<lparr>list_cond := c\<rparr>"
  shows "unblocked m = 0 \<Longrightarrow> msg_q_rcv_loop t q out (upd_q q (m'\<lparr>list_mutex := True\<rparr>) h)
           = Some (Waiting, upd_q q (m\<lparr>list_cond := c\<lparr>waiters := t # waiters c\<rparr>\<rparr>) h)"
    and "unblocked m \<noteq> 0 \<Longrightarrow> msg_q_rcv_loop t q out (upd_q q (m'\<lparr>list_mutex := True\<rparr>) h)
           = Some (Returned eMSG_Q_UNAVAILABLE_RESOURCE, upd_q q m' h)"
  using assms mq_relD [OF rel] by (simp_all add: msg_q_rcv_loop_def lock_defs)

lemma msg_q_flush_ok:
  assumes rel: "mq_rel h q l xs m"
  shows "\<exists>h'. msg_q_flush q h = Some (eMSG_Q_SUCCESS, h') \<and> mq_rel h' q l [] m
           \<and> cells h' = cells h \<and> dealloc_log h' = dealloc_log h @ dealloc_calls (rev xs)"
  using llq.flush_ok [of "upd_q q (m\<lparr>list_mutex := True\<rparr>) h" l xs] mq_relD [OF rel]
  by (auto simp: msg_q_flush_def lock_defs mq_rel_def dest!: more_queues)

lemma msg_q_unblock_ok:
  assumes rel: "mq_rel h q l xs m" and "unblocked m = 0"
  shows "\<exists>h'. msg_q_unblock q h = Some (eMSG_Q_SUCCESS, h')
           \<and> mq_rel h' q l xs (m\<lparr>unblocked := 1, list_cond := cond_broadcast (list_cond m)\<rparr>)
           \<and> cells h' = cells h"
  using assms mq_relD [OF rel] by (cases m) (auto simp: msg_q_unblock_def lock_defs mq_rel_def)


section \<open>Threads\<close>

text \<open>The state of a process that uses one queue: the memory and, for every thread that
  sleeps inside \<^verbatim>\<open>msg_q_rcv\<close>, the out cell it passed. The rules take the obligations of
  the callers as guards: an out cell is a pointer variable of the caller, an allocation
  returns null or an address that is not in use.\<close>

record mq_sys =
  mem :: mq_heap
  pending :: "nat \<rightharpoonup> addr"

definition out_ok :: "addr \<Rightarrow> addr \<Rightarrow> mq_heap \<Rightarrow> bool" where
  "out_ok q out h \<longleftrightarrow> out \<noteq> NULL \<and> out \<noteq> q \<and> cells h out \<noteq> None"

inductive mq_step :: "addr \<Rightarrow> mq_sys \<Rightarrow> mq_sys \<Rightarrow> bool" for q where
  snd: "a = NULL \<or> a \<notin> dom (elems (mem s)) \<Longrightarrow> msg_q_snd k a q d f (mem s) = Some (r, h) \<Longrightarrow>
     mq_step q s (s\<lparr>mem := h\<rparr>)"
| rcv: "pending s t = None \<Longrightarrow> out_ok q out (mem s) \<Longrightarrow>
     msg_q_rcv t q out (mem s) = Some (Returned r, h) \<Longrightarrow> mq_step q s (s\<lparr>mem := h\<rparr>)"
| rcv_sleep: "pending s t = None \<Longrightarrow> out_ok q out (mem s) \<Longrightarrow>
     msg_q_rcv t q out (mem s) = Some (Waiting, h) \<Longrightarrow>
     mq_step q s (s\<lparr>mem := h, pending := (pending s)(t \<mapsto> out)\<rparr>)"
| wake: "pending s t = Some out \<Longrightarrow> msg_q_rcv_wake t q out (mem s) = Some (Returned r, h) \<Longrightarrow>
     mq_step q s (s\<lparr>mem := h, pending := (pending s)(t := None)\<rparr>)"
| wake_sleep: "pending s t = Some out \<Longrightarrow> msg_q_rcv_wake t q out (mem s) = Some (Waiting, h) \<Longrightarrow>
     mq_step q s (s\<lparr>mem := h\<rparr>)"
| rmv: "out_ok q out (mem s) \<Longrightarrow> msg_q_rmv q out (mem s) = Some (r, h) \<Longrightarrow> mq_step q s (s\<lparr>mem := h\<rparr>)"
| flush: "msg_q_flush q (mem s) = Some (r, h) \<Longrightarrow> mq_step q s (s\<lparr>mem := h\<rparr>)"
| unblock: "msg_q_unblock q (mem s) = Some (r, h) \<Longrightarrow> mq_step q s (s\<lparr>mem := h\<rparr>)"

inductive mq_reach :: "addr \<Rightarrow> mq_sys \<Rightarrow> mq_sys \<Rightarrow> bool" for q s0 where
  start: "mq_reach q s0 s0"
| step: "mq_reach q s0 s \<Longrightarrow> mq_step q s s' \<Longrightarrow> mq_reach q s0 s'"

text \<open>The invariant. The threads on the condition variable are exactly the pending ones.
  After an unblock nobody is left asleep. And no wake-up is lost: as long as a thread is
  asleep, every message in the queue has a released thread on its way to it.\<close>

definition cond_inv :: "nat set \<Rightarrow> nat \<Rightarrow> msg_q \<Rightarrow> bool" where
  "cond_inv ts n m \<longleftrightarrow> distinct (waiters (list_cond m) @ woken (list_cond m))
     \<and> ts = set (waiters (list_cond m) @ woken (list_cond m))
     \<and> (unblocked m \<noteq> 0 \<longrightarrow> waiters (list_cond m) = [])
     \<and> (waiters (list_cond m) \<noteq> [] \<longrightarrow> n \<le> length (woken (list_cond m)))"

definition mq_inv :: "addr \<Rightarrow> addr \<Rightarrow> mq_sys \<Rightarrow> (addr \<times> addr) list \<Rightarrow> msg_q \<Rightarrow> bool" where
  "mq_inv q l s xs m \<longleftrightarrow> mq_rel (mem s) q l xs m \<and> cond_inv (dom (pending s)) (length xs) m
     \<and> (\<forall>t out. pending s t = Some out \<longrightarrow> out_ok q out (mem s))"

lemma cond_inv_signal:
  assumes "cond_inv ts n m" and "unblocked m = 0"
  shows "cond_inv ts (Suc n) (m\<lparr>list_cond := cond_signal k (list_cond m)\<rparr>)"
    and "cond_inv ts n (m\<lparr>list_cond := cond_signal k (list_cond m)\<rparr>)"
proof -
  define t where "t = waiters (list_cond m) ! (k mod length (waiters (list_cond m)))"
  have "waiters (list_cond m) \<noteq> [] \<Longrightarrow> t \<in> set (waiters (list_cond m))"
    by (simp add: t_def)
  then show "cond_inv ts (Suc n) (m\<lparr>list_cond := cond_signal k (list_cond m)\<rparr>)"
    "cond_inv ts n (m\<lparr>list_cond := cond_signal k (list_cond m)\<rparr>)"
    using assms by (auto simp: cond_inv_def cond_signal_def Let_def t_def [symmetric])
qed

lemma cond_inv_mono: "cond_inv ts n m \<Longrightarrow> n' \<le> n \<Longrightarrow> cond_inv ts n' m"
  by (auto simp: cond_inv_def)

lemma cond_inv_broadcast:
  "cond_inv ts n m \<Longrightarrow> cond_inv ts n (m\<lparr>unblocked := 1, list_cond := cond_broadcast (list_cond m)\<rparr>)"
  by (auto simp: cond_inv_def cond_broadcast_def)

lemma cond_inv_sleep:
  "cond_inv ts 0 m \<Longrightarrow> t \<notin> ts \<Longrightarrow> unblocked m = 0 \<Longrightarrow>
     cond_inv (insert t ts) 0 (m\<lparr>list_cond := (list_cond m)\<lparr>waiters := t # waiters (list_cond m)\<rparr>\<rparr>)"
  by (auto simp: cond_inv_def)

abbreviation leave :: "nat \<Rightarrow> cond \<Rightarrow> cond" where
  "leave t c \<equiv> \<lparr>waiters = remove1 t (waiters c), woken = remove1 t (woken c)\<rparr>"

lemma cond_inv_leave:
  "cond_inv ts n m \<Longrightarrow> t \<in> ts \<Longrightarrow> cond_inv (ts - {t}) (n - 1) (m\<lparr>list_cond := leave t (list_cond m)\<rparr>)"
  by (auto simp: cond_inv_def length_remove1)

lemma mq_invI:
  assumes "mq_rel h q l xs m" and "cond_inv (dom p) (length xs) m"
    and "\<forall>t out. p t = Some out \<longrightarrow> out_ok q out h0" and "dom (cells h0) \<subseteq> dom (cells h)"
  shows "mq_inv q l \<lparr>mem = h, pending = p\<rparr> xs m"
  using assms by (fastforce simp: mq_inv_def out_ok_def)

lemma mq_sys_upd: "s\<lparr>mem := h\<rparr> = \<lparr>mem = h, pending = pending s\<rparr>"
  "s\<lparr>mem := h, pending := p\<rparr> = \<lparr>mem = h, pending = p\<rparr>"
  by (cases s, simp)+

lemma out_okD: "out_ok q out h \<Longrightarrow> out \<noteq> NULL \<and> out \<noteq> q \<and> (\<exists>old. cells h out = Some old)"
  by (auto simp: out_ok_def)


lemma msg_q_rcv_enter:
  assumes "mq_rel h q l xs m" and "unblocked m = 0" and "out \<noteq> NULL"
  shows "msg_q_rcv t q out h = msg_q_rcv_loop t q out (upd_q q (m\<lparr>list_mutex := True\<rparr>) h)"
  using assms mq_relD [OF assms(1)] by (simp add: msg_q_rcv_def lock_defs)

lemma msg_q_rcv_wake_enter:
  assumes "mq_rel h q l xs m"
  shows "msg_q_rcv_wake t q out h = msg_q_rcv_loop t q out
     (upd_q q (m\<lparr>list_cond := leave t (list_cond m), list_mutex := True\<rparr>) h)"
  using mq_relD [OF assms] by (simp add: msg_q_rcv_wake_def lock_defs)

lemma upd_q_rel:
  "mq_rel h q l xs m \<Longrightarrow> \<not> list_mutex m' \<Longrightarrow> mq_rel (upd_q q m' h) q l xs m'"
  by (simp add: mq_rel_def)

text \<open>One pass of the receiver's loop by a thread \<open>t\<close> that is not on the condition
  variable: it goes to sleep only when the queue is empty and in use, and otherwise
  returns; either way the condition variable and the queue stay consistent.\<close>

lemma rcv_loop_inv:
  assumes rel: "mq_rel h0 q l xs m" and m1: "m1 = m\<lparr>list_cond := c\<rparr>"
    and ci: "cond_inv ts (length xs - 1) m1" and t: "t \<notin> ts" and out: "out_ok q out h0"
    and run: "msg_q_rcv_loop t q out (upd_q q (m1\<lparr>list_mutex := True\<rparr>) h0) = Some (r, h)"
  shows "dom (cells h0) \<subseteq> dom (cells h)"
    and "if r = Waiting then unblocked m = 0 \<and> (\<exists>m'. mq_rel h q l xs m' \<and> cond_inv (insert t ts) (length xs) m')
         else (\<exists>xs'. mq_rel h q l xs' m1 \<and> cond_inv ts (length xs') m1)"
proof -
  obtain old where old: "out \<noteq> NULL" "out \<noteq> q" "cells h0 out = Some old"
    using out_okD [OF out] by auto
  note m = mq_relD [OF rel] and loop = msg_q_rcv_loop_empty [of h0 q l m out m1 c t]
  have "dom (cells h0) \<subseteq> dom (cells h) \<and>
    (if r = Waiting then unblocked m = 0 \<and> (\<exists>m'. mq_rel h q l xs m' \<and> cond_inv (insert t ts) (length xs) m')
     else (\<exists>xs'. mq_rel h q l xs' m1 \<and> cond_inv ts (length xs') m1))"
  proof (cases xs)
    case (Cons x ys)
    obtain d f where "x = (d, f)" by (cases x)
    then show ?thesis
      using msg_q_rcv_loop_take [of h0 q l d f ys m out old m1 c t] rel Cons old m1 run ci by auto
  next
    case Nil
    show ?thesis
    proof (cases "unblocked m = 0")
      case True
      have res: "r = Waiting" "h = upd_q q (m\<lparr>list_cond := c\<lparr>waiters := t # waiters c\<rparr>\<rparr>) h0"
        using loop(1) rel Nil old True m1 run by auto
      have "cond_inv (insert t ts) (length xs) (m\<lparr>list_cond := c\<lparr>waiters := t # waiters c\<rparr>\<rparr>)"
        using cond_inv_sleep [of ts m1 t] ci t True by (simp add: Nil m1)
      with m True show ?thesis by (auto simp: res mq_rel_def)
    next
      case False
      have "r \<noteq> Waiting" "h = upd_q q m1 h0"
        using loop(2) rel Nil old False m1 run by auto
      with m ci Nil show ?thesis by (auto simp: m1 mq_rel_def)
    qed
  qed
  then show "dom (cells h0) \<subseteq> dom (cells h)"
    and "if r = Waiting then unblocked m = 0 \<and> (\<exists>m'. mq_rel h q l xs m' \<and> cond_inv (insert t ts) (length xs) m')
         else (\<exists>xs'. mq_rel h q l xs' m1 \<and> cond_inv ts (length xs') m1)" by auto
qed

lemma mq_invD:
  assumes "mq_inv q l s xs m"
  shows "mq_rel (mem s) q l xs m" "cond_inv (dom (pending s)) (length xs) m"
    "\<forall>t out. pending s t = Some out \<longrightarrow> out_ok q out (mem s)"
  using assms by (simp_all add: mq_inv_def)

lemma msg_q_rcv_inv:
  assumes inv: "mq_inv q l s xs m" and t: "pending s t = None" and out: "out_ok q out (mem s)"
    and run: "msg_q_rcv t q out (mem s) = Some (r, h)"
  shows "\<exists>xs' m'. mq_inv q l \<lparr>mem = h, pending = (if r = Waiting then (pending s)(t \<mapsto> out) else pending s)\<rparr> xs' m'"
proof (cases "unblocked m = 0")
  case False
  with msg_q_unblocked_ops(2) [OF mq_invD(1) [OF inv]] out_okD [OF out] run
  have "r \<noteq> Waiting" "h = mem s" by auto
  with inv show ?thesis by (cases s) auto
next
  case True
  note i = mq_invD [OF inv]
  have "msg_q_rcv_loop t q out (upd_q q (m\<lparr>list_mutex := True\<rparr>) (mem s)) = Some (r, h)"
    using msg_q_rcv_enter [OF i(1) True, of out t] run out_okD [OF out] by simp
  note L = rcv_loop_inv [OF i(1) _ cond_inv_mono [OF i(2)] _ out this, of "list_cond m"]
  have dom: "dom (cells (mem s)) \<subseteq> dom (cells h)"
    and res: "if r = Waiting then \<exists>m'. mq_rel h q l xs m' \<and> cond_inv (dom ((pending s)(t \<mapsto> out))) (length xs) m'
         else (\<exists>xs'. mq_rel h q l xs' m \<and> cond_inv (dom (pending s)) (length xs') m)"
    using L t by (auto simp: domIff split: if_splits)
  have outs: "\<forall>t' out'. ((pending s)(t \<mapsto> out)) t' = Some out' \<longrightarrow> out_ok q out' (mem s)"
    using i(3) out by simp
  show ?thesis
  proof (cases "r = Waiting")
    case True
    with res obtain m' where "mq_rel h q l xs m'" "cond_inv (dom ((pending s)(t \<mapsto> out))) (length xs) m'"
      by auto
    from mq_invI [OF this outs dom] True show ?thesis by (auto simp del: fun_upd_apply)
  next
    case False
    with res obtain xs' where "mq_rel h q l xs' m" "cond_inv (dom (pending s)) (length xs') m" by auto
    from mq_invI [OF this i(3) dom] False show ?thesis by auto
  qed
qed

lemma msg_q_wake_inv:
  assumes inv: "mq_inv q l s xs m" and t: "pending s t = Some out"
    and run: "msg_q_rcv_wake t q out (mem s) = Some (r, h)"
  shows "\<exists>xs' m'. mq_inv q l \<lparr>mem = h, pending = (if r = Waiting then pending s else (pending s)(t := None))\<rparr> xs' m'"
    and "unblocked m \<noteq> 0 \<Longrightarrow> r \<noteq> Waiting"
proof -
  note i = mq_invD [OF inv]
  let ?m1 = "m\<lparr>list_cond := leave t (list_cond m)\<rparr>" and ?ts = "dom (pending s) - {t}"
  have out: "out_ok q out (mem s)" using i(3) t by blast
  have "msg_q_rcv_loop t q out (upd_q q (?m1\<lparr>list_mutex := True\<rparr>) (mem s)) = Some (r, h)"
    using msg_q_rcv_wake_enter [OF i(1), of t out] run by simp
  note L = rcv_loop_inv [OF i(1) refl cond_inv_leave [OF i(2)] _ out this]
  have dom: "dom (cells (mem s)) \<subseteq> dom (cells h)"
    and res: "if r = Waiting then unblocked m = 0 \<and> (\<exists>m'. mq_rel h q l xs m' \<and> cond_inv (insert t ?ts) (length xs) m')
         else (\<exists>xs'. mq_rel h q l xs' ?m1 \<and> cond_inv ?ts (length xs') ?m1)"
    using L t by (simp_all add: domIff)
  have ts: "insert t ?ts = dom (pending s)" "?ts = dom ((pending s)(t := None))" using t by auto
  have outs: "\<forall>t' out'. ((pending s)(t := None)) t' = Some out' \<longrightarrow> out_ok q out' (mem s)"
    using i(3) by simp
  show "\<exists>xs' m'. mq_inv q l \<lparr>mem = h, pending = (if r = Waiting then pending s else (pending s)(t := None))\<rparr> xs' m'"
  proof (cases "r = Waiting")
    case True
    with res obtain m' where "mq_rel h q l xs m'" "cond_inv (dom (pending s)) (length xs) m'"
      unfolding ts(1) by auto
    from mq_invI [OF this i(3) dom] True show ?thesis by auto
  next
    case False
    with res obtain xs' where "mq_rel h q l xs' ?m1" "cond_inv (dom ((pending s)(t := None))) (length xs') ?m1"
      unfolding ts(2) by auto
    from mq_invI [OF this outs dom] False show ?thesis by (auto simp del: fun_upd_apply)
  qed
  show "r \<noteq> Waiting" if "unblocked m \<noteq> 0" using res that by auto
qed


lemma msg_q_snd_inv:
  assumes inv: "mq_inv q l s xs m" and a: "a = NULL \<or> a \<notin> dom (elems (mem s))"
    and run: "msg_q_snd k a q d f (mem s) = Some (r, h)"
  shows "\<exists>xs' m'. mq_inv q l \<lparr>mem = h, pending = pending s\<rparr> xs' m'"
proof -
  note i = mq_invD [OF inv]
  note m = mq_relD [OF i(1)]
  show ?thesis
  proof (cases "d = NULL \<or> unblocked m \<noteq> 0")
    case True
    with msg_q_unblocked_ops(1) [OF i(1), of d k a f] msg_q_snd_null [OF m(1), of k a f] run
    have "h = mem s" by (cases "d = NULL") auto
    with inv show ?thesis by (cases s) auto
  next
    case False
    then have d: "d \<noteq> NULL" "unblocked m = 0" by auto
    obtain xs' where "mq_rel h q l xs' (m\<lparr>list_cond := cond_signal k (list_cond m)\<rparr>)" "cells h = cells (mem s)"
      "length xs' = length xs \<or> length xs' = Suc (length xs)"
    proof (cases "a = NULL")
      case True
      with msg_q_snd_oom [OF i(1) d(2,1), of k f] run that [of xs] show ?thesis by auto
    next
      case False
      with msg_q_snd_ok [OF i(1) d(2), of a d k f] a d run that [of "xs @ [(d, f)]"] show ?thesis by auto
    qed
    with mq_invI [OF this(1) _ i(3)] cond_inv_signal [OF i(2) d(2), of k] show ?thesis by fastforce
  qed
qed

lemma msg_q_rmv_inv:
  assumes inv: "mq_inv q l s xs m" and out: "out_ok q out (mem s)"
    and run: "msg_q_rmv q out (mem s) = Some (r, h)"
  shows "\<exists>xs' m'. mq_inv q l \<lparr>mem = h, pending = pending s\<rparr> xs' m'"
proof -
  note i = mq_invD [OF inv]
  obtain old where old: "out \<noteq> NULL" "out \<noteq> q" "cells (mem s) out = Some old"
    using out_okD [OF out] by auto
  show ?thesis
  proof (cases "xs = [] \<or> unblocked m \<noteq> 0")
    case True
    with msg_q_unblocked_ops(3) [OF i(1)] msg_q_rmv_empty [of "mem s" q l m out] i(1) old run
    have "h = mem s" by (cases "unblocked m = 0") auto
    with inv show ?thesis by (cases s) auto
  next
    case False
    then obtain d f ys where xs: "xs = (d, f) # ys" "unblocked m = 0" by (cases xs) auto
    have "mq_rel h q l ys m" "cells h = (cells (mem s))(out \<mapsto> d)"
      using msg_q_rmv_ok [of "mem s" q l d f ys m out old] i(1) xs old run by auto
    with i(2,3) xs show ?thesis by (fastforce intro!: mq_invI intro: cond_inv_mono)
  qed
qed

lemma msg_q_unblock_inv:
  assumes inv: "mq_inv q l s xs m" and run: "msg_q_unblock q (mem s) = Some (r, h)"
  shows "\<exists>xs' m'. mq_inv q l \<lparr>mem = h, pending = pending s\<rparr> xs' m'"
proof (cases "unblocked m = 0")
  case True
  with msg_q_unblock_ok [OF mq_invD(1) [OF inv]] cond_inv_broadcast [OF mq_invD(2) [OF inv]] mq_invD(3) [OF inv] run
  show ?thesis by (fastforce intro!: mq_invI)
next
  case False
  with msg_q_unblocked_ops(4) [OF mq_invD(1) [OF inv]] run have "h = mem s" by auto
  with inv show ?thesis by (cases s) auto
qed

lemma msg_q_flush_inv:
  assumes inv: "mq_inv q l s xs m" and run: "msg_q_flush q (mem s) = Some (r, h)"
  shows "\<exists>xs' m'. mq_inv q l \<lparr>mem = h, pending = pending s\<rparr> xs' m'"
  using msg_q_flush_ok [OF mq_invD(1) [OF inv]] cond_inv_mono [OF mq_invD(2) [OF inv]] mq_invD(3) [OF inv] run
  by (fastforce intro!: mq_invI)

lemma mq_step_inv:
  assumes "mq_step q s s'" and "mq_inv q l s xs m"
  shows "\<exists>xs' m'. mq_inv q l s' xs' m'"
  using assms
proof (induction rule: mq_step.induct)
  case (rcv s t out r h)
  then show ?case using msg_q_rcv_inv [of q l s xs m t out "Returned r" h] by (simp add: mq_sys_upd)
next
  case (rcv_sleep s t out h)
  then show ?case using msg_q_rcv_inv [of q l s xs m t out Waiting h] by (simp add: mq_sys_upd)
next
  case (wake s t out r h)
  then show ?case using msg_q_wake_inv(1) [of q l s xs m t out "Returned r" h] by (simp add: mq_sys_upd)
next
  case (wake_sleep s t out h)
  then show ?case using msg_q_wake_inv(1) [of q l s xs m t out Waiting h] by (simp add: mq_sys_upd)
qed (simp_all add: mq_sys_upd msg_q_snd_inv msg_q_rmv_inv msg_q_flush_inv msg_q_unblock_inv)

lemma mq_reach_inv:
  assumes "mq_reach q s0 s" and "mq_inv q l s0 xs m"
  shows "\<exists>xs' m'. mq_inv q l s xs' m'"
  using assms
proof (induction rule: mq_reach.induct)
  case start
  then show ?case by blast
next
  case (step s s')
  then show ?case using mq_step_inv by blast
qed


section \<open>Creation and destruction\<close>

lemma msg_q_init_ok:
  assumes "q \<noteq> NULL" and "l \<noteq> NULL" and "data \<noteq> NULL" and "data \<noteq> q" and "cells h data = Some old"
  shows "\<exists>h'. msg_q_init q l 0 0 data h = Some (eMSG_Q_SUCCESS, h')
           \<and> mq_rel h' q l [] \<lparr>list_cond = \<lparr>waiters = [], woken = []\<rparr>, list_mutex = False, unblocked = 0\<rparr>
           \<and> cells h' = (cells h)(q \<mapsto> l, data \<mapsto> q) \<and> elems h' = elems h"
  using assms
  by (auto simp: msg_q_init_def linked_list_init_def field_defs mq_rel_def queue_repr_Nil list_repr_def upd_q_def)

lemma linked_list_empty_destroy:
  assumes "p \<noteq> NULL" and "cells h p = Some l" and "l \<noteq> NULL"
    and "list_states h l = Some \<lparr>p_head = NULL, p_tail = NULL\<rparr>"
  shows "linked_list_destroy p h
     = Some (eLINKED_LIST_SUCCESS, h\<lparr>list_states := (list_states h)(l := None), cells := (cells h)(p \<mapsto> NULL)\<rparr>)"
  using assms
  by (simp add: linked_list_destroy_def linked_list_flush_def flush_loop.simps field_defs fun_upd_idem)

lemma mq_init_start:
  assumes "q \<noteq> NULL" and "l \<noteq> NULL" and "data \<noteq> NULL" and "data \<noteq> q" and "cells h0 data = Some old"
    and "msg_q_init q l 0 0 data h0 = Some (r, h)"
  shows "\<exists>m. mq_inv q l \<lparr>mem = h, pending = Map.empty\<rparr> [] m"
  using msg_q_init_ok [OF assms(1-5)] assms(6) by (auto simp: mq_inv_def cond_inv_def)

lemma rcv_loop_total:
  assumes rel: "mq_rel h q l xs m" and out: "out_ok q out h" and m1: "m1 = m\<lparr>list_cond := c\<rparr>"
  shows "\<exists>r h'. msg_q_rcv_loop t q out (upd_q q (m1\<lparr>list_mutex := True\<rparr>) h) = Some (r, h')"
proof -
  obtain old where old: "out \<noteq> NULL" "out \<noteq> q" "cells h out = Some old"
    using out_okD [OF out] by auto
  show ?thesis
  proof (cases xs)
    case Nil
    with msg_q_rcv_loop_empty [of h q l m out m1 c t] rel old m1 show ?thesis by (cases "unblocked m = 0") auto
  next
    case (Cons x ys)
    with msg_q_rcv_loop_take [of h q l "fst x" "snd x" ys m out old m1 c t] rel old m1 show ?thesis by auto
  qed
qed

lemma msg_q_wake_total:
  assumes "mq_inv q l s xs m" and "pending s t = Some out"
  shows "\<exists>r h. msg_q_rcv_wake t q out (mem s) = Some (r, h)"
  using rcv_loop_total [OF mq_invD(1) [OF assms(1)], of out _ "leave t (list_cond m)" t]
    mq_invD(3) [OF assms(1)] assms(2) msg_q_rcv_wake_enter [OF mq_invD(1) [OF assms(1)], of t out] by auto

lemma msg_q_rcv_total:
  assumes "mq_inv q l s xs m" and "out_ok q out (mem s)"
  shows "\<exists>r h. msg_q_rcv t q out (mem s) = Some (r, h)"
  using rcv_loop_total [OF mq_invD(1) [OF assms(1)] assms(2), of m "list_cond m" t]
    msg_q_rcv_enter [OF mq_invD(1) [OF assms(1)], of out t] out_okD [OF assms(2)]
    msg_q_unblocked_ops(2) [OF mq_invD(1) [OF assms(1)], of out t] by (cases "unblocked m = 0") auto

section \<open>Properties\<close>

text \<open>A heap with a pointer cell at 6 and a second one, for results, at 7.\<close>

definition demo_mem :: mq_heap where
  "demo_mem = \<lparr>elems = Map.empty, list_states = Map.empty, cells = [6 \<mapsto> NULL, 7 \<mapsto> NULL],
     dealloc_log = [], queues = Map.empty\<rparr>"

text \<open>The heap after a queue was created at 20 with its list at 21, handle in cell 6.\<close>

definition demo_mem_q :: mq_heap where
  "demo_mem_q = \<lparr>elems = Map.empty, list_states = [21 \<mapsto> \<lparr>p_head = NULL, p_tail = NULL\<rparr>],
     cells = [6 \<mapsto> NULL, 7 \<mapsto> NULL, 20 \<mapsto> 21, 6 \<mapsto> 20], dealloc_log = [],
     queues = [20 \<mapsto> \<lparr>list_cond = \<lparr>waiters = [], woken = []\<rparr>, list_mutex = False, unblocked = 0\<rparr>]\<rparr>"

lemma demo_init: "msg_q_init 20 21 0 0 6 demo_mem = Some (eMSG_Q_SUCCESS, demo_mem_q)"
  by (simp add: msg_q_init_def linked_list_init_def field_defs upd_q_def demo_mem_def demo_mem_q_def fun_upd_twist)

text \<open>The same heap while thread 1 sleeps in \<^verbatim>\<open>msg_q_rcv\<close> with the result cell 7, and
  after another thread has unblocked the queue.\<close>

definition demo_mem_sleep :: mq_heap where
  "demo_mem_sleep = demo_mem_q\<lparr>queues := [20 \<mapsto>
     \<lparr>list_cond = \<lparr>waiters = [1], woken = []\<rparr>, list_mutex = False, unblocked = 0\<rparr>]\<rparr>"

definition demo_mem_unblocked :: mq_heap where
  "demo_mem_unblocked = demo_mem_q\<lparr>queues := [20 \<mapsto>
     \<lparr>list_cond = \<lparr>waiters = [], woken = [1]\<rparr>, list_mutex = False, unblocked = 1\<rparr>]\<rparr>"

lemma demo_reach_sleep:
  "mq_reach 20 \<lparr>mem = demo_mem_q, pending = Map.empty\<rparr> \<lparr>mem = demo_mem_sleep, pending = [1 \<mapsto> 7]\<rparr>"
proof -
  have "msg_q_rcv 1 20 7 demo_mem_q = Some (Waiting, demo_mem_sleep)"
    by (simp add: msg_q_rcv_def msg_q_rcv_loop_def linked_list_empty_def lock_defs upd_q_def
          demo_mem_q_def demo_mem_sleep_def)
  then have "mq_step 20 \<lparr>mem = demo_mem_q, pending = Map.empty\<rparr>
     (\<lparr>mem = demo_mem_q, pending = Map.empty\<rparr>\<lparr>mem := demo_mem_sleep, pending := [1 \<mapsto> 7]\<rparr>)"
    using mq_step.rcv_sleep [of "\<lparr>mem = demo_mem_q, pending = Map.empty\<rparr>" 1 20 7 demo_mem_sleep]
    by (simp add: out_ok_def demo_mem_q_def)
  then show ?thesis using mq_reach.step [OF mq_reach.start] by fastforce
qed

lemma demo_reach_unblocked:
  "mq_reach 20 \<lparr>mem = demo_mem_q, pending = Map.empty\<rparr> \<lparr>mem = demo_mem_unblocked, pending = [1 \<mapsto> 7]\<rparr>"
proof -
  have "msg_q_unblock 20 demo_mem_sleep = Some (eMSG_Q_SUCCESS, demo_mem_unblocked)"
    by (simp add: msg_q_unblock_def lock_defs upd_q_def cond_broadcast_def
          demo_mem_q_def demo_mem_sleep_def demo_mem_unblocked_def)
  then have "mq_step 20 \<lparr>mem = demo_mem_sleep, pending = [1 \<mapsto> 7]\<rparr>
     (\<lparr>mem = demo_mem_sleep, pending = [1 \<mapsto> 7]\<rparr>\<lparr>mem := demo_mem_unblocked\<rparr>)"
    by (intro mq_step.unblock) simp
  then show ?thesis using mq_reach.step [OF demo_reach_sleep] by fastforce
qed

text \<open>C9. No wake-up is lost, in any interleaving of senders, receivers, removers,
  flushes and unblocks, and with spurious wake-ups: as long as some thread sleeps in
  \<^verbatim>\<open>msg_q_rcv\<close>, the number of messages in the queue is at most the number of threads
  that were released and are about to look at it; so a message never sits in the queue
  with every receiver asleep.\<close>

theorem msg_q_no_lost_wakeup:
  assumes "q \<noteq> NULL" and "l \<noteq> NULL" and "data \<noteq> NULL" and "data \<noteq> q" and "cells h0 data = Some old"
    and "msg_q_init q l 0 0 data h0 = Some (r, h)"
    and "mq_reach q \<lparr>mem = h, pending = Map.empty\<rparr> s"
  shows "\<exists>xs m. mq_rel (mem s) q l xs m
           \<and> dom (pending s) = set (waiters (list_cond m)) \<union> set (woken (list_cond m))
           \<and> (waiters (list_cond m) \<noteq> [] \<longrightarrow> length xs \<le> length (woken (list_cond m)))"
proof -
  obtain xs m where "mq_inv q l s xs m"
    using mq_init_start [OF assms(1-6)] mq_reach_inv [OF assms(7)] by blast
  then show ?thesis by (auto simp: mq_inv_def cond_inv_def)
qed

theorem msg_q_no_lost_wakeup_witness:
  "\<exists>xs m. mq_rel demo_mem_sleep 20 21 xs m
     \<and> dom [1::nat \<mapsto> (7::addr)] = set (waiters (list_cond m)) \<union> set (woken (list_cond m))
     \<and> (waiters (list_cond m) \<noteq> [] \<longrightarrow> length xs \<le> length (woken (list_cond m)))"
proof -
  have "mq_reach 20 \<lparr>mem = demo_mem_q, pending = Map.empty\<rparr> \<lparr>mem = demo_mem_sleep, pending = [1 \<mapsto> 7]\<rparr>"
    by (rule demo_reach_sleep)
  from msg_q_no_lost_wakeup [OF _ _ _ _ _ demo_init this] show ?thesis by (simp add: demo_mem_def)
qed

text \<open>C10. Unblocking a queue stops its traffic for good: in every reachable state in which the
  queue is unblocked no thread is left asleep, every thread still inside \<^verbatim>\<open>msg_q_rcv\<close>
  returns the next time it runs (it never goes back to sleep), and every new send of a non-null
  message, every receive or remove into a non-null result and every unblock returns
  \<^verbatim>\<open>eMSG_Q_UNAVAILABLE_RESOURCE\<close> and changes nothing. Only \<^verbatim>\<open>msg_q_flush\<close>, which does not look
  at the flag, still works: it succeeds, empties the queue, hands every message left to its
  deallocator and leaves the queue unblocked.\<close>

theorem msg_q_unblock_stops:
  assumes "q \<noteq> NULL" and "l \<noteq> NULL" and "data \<noteq> NULL" and "data \<noteq> q" and "cells h0 data = Some old"
    and "msg_q_init q l 0 0 data h0 = Some (r, h)"
    and "mq_reach q \<lparr>mem = h, pending = Map.empty\<rparr> s"
    and "queues (mem s) q = Some m" and "unblocked m \<noteq> 0"
  shows "waiters (list_cond m) = []
     \<and> (\<forall>t out. pending s t = Some out \<longrightarrow> (\<exists>e h'. msg_q_rcv_wake t q out (mem s) = Some (Returned e, h')))
     \<and> (\<forall>k a d f. d \<noteq> NULL \<longrightarrow> msg_q_snd k a q d f (mem s) = Some (eMSG_Q_UNAVAILABLE_RESOURCE, mem s))
     \<and> (\<forall>t out. out \<noteq> NULL \<longrightarrow>
          msg_q_rcv t q out (mem s) = Some (Returned eMSG_Q_UNAVAILABLE_RESOURCE, mem s)
          \<and> msg_q_rmv q out (mem s) = Some (eMSG_Q_UNAVAILABLE_RESOURCE, mem s))
     \<and> msg_q_unblock q (mem s) = Some (eMSG_Q_UNAVAILABLE_RESOURCE, mem s)
     \<and> (\<exists>xs h'. mq_rel (mem s) q l xs m \<and> msg_q_flush q (mem s) = Some (eMSG_Q_SUCCESS, h') \<and> mq_rel h' q l [] m
          \<and> dealloc_log h' = dealloc_log (mem s) @ dealloc_calls (rev xs))"
proof -
  obtain xs m' where inv: "mq_inv q l s xs m'"
    using mq_init_start [OF assms(1-6)] mq_reach_inv [OF assms(7)] by blast
  then have rel: "mq_rel (mem s) q l xs m" and m': "m' = m"
    using assms(8) by (auto simp: mq_inv_def mq_rel_def)
  have "\<exists>e h'. msg_q_rcv_wake t q out (mem s) = Some (Returned e, h')" if "pending s t = Some out" for t out
    using msg_q_wake_total [OF inv that] msg_q_wake_inv(2) [OF inv that] assms(9) m'
    by (metis rcv_result.exhaust)
  then show ?thesis
    using inv assms(9) rel msg_q_flush_ok [OF rel] msg_q_unblocked_ops [OF rel assms(9)]
    by (auto simp: mq_inv_def cond_inv_def m')
qed


theorem msg_q_unblock_stops_witness:
  "waiters (list_cond (the (queues demo_mem_unblocked 20))) = []
     \<and> (\<exists>e h'. msg_q_rcv_wake 1 20 7 demo_mem_unblocked = Some (Returned e, h'))
     \<and> msg_q_snd 0 30 20 99 NULL demo_mem_unblocked = Some (eMSG_Q_UNAVAILABLE_RESOURCE, demo_mem_unblocked)
     \<and> msg_q_rcv 2 20 7 demo_mem_unblocked = Some (Returned eMSG_Q_UNAVAILABLE_RESOURCE, demo_mem_unblocked)"
  using msg_q_unblock_stops [OF _ _ _ _ _ demo_init demo_reach_unblocked]
  by (simp add: demo_mem_def demo_mem_unblocked_def)

text \<open>Progress: in every reachable state the mutex of the queue is free and every
  operation returns or goes to sleep: none of them blocks on the mutex for ever, and none
  reads or writes outside its objects. This holds for sends with any result of the
  allocation, for receives and removals with a valid result cell, for flush, unblock and
  for every sleeping thread that is woken.\<close>

theorem msg_q_progress:
  assumes "q \<noteq> NULL" and "l \<noteq> NULL" and "data \<noteq> NULL" and "data \<noteq> q" and "cells h0 data = Some old"
    and "msg_q_init q l 0 0 data h0 = Some (r, h)"
    and "mq_reach q \<lparr>mem = h, pending = Map.empty\<rparr> s"
  shows "(\<exists>m. queues (mem s) q = Some m \<and> \<not> list_mutex m)
     \<and> (\<forall>k a d f. a = NULL \<or> a \<notin> dom (elems (mem s)) \<longrightarrow> msg_q_snd k a q d f (mem s) \<noteq> None)
     \<and> (\<forall>t out. out_ok q out (mem s) \<longrightarrow> msg_q_rcv t q out (mem s) \<noteq> None \<and> msg_q_rmv q out (mem s) \<noteq> None)
     \<and> (\<forall>t out. pending s t = Some out \<longrightarrow> msg_q_rcv_wake t q out (mem s) \<noteq> None)
     \<and> msg_q_flush q (mem s) \<noteq> None \<and> msg_q_unblock q (mem s) \<noteq> None"
proof -
  obtain xs m where inv: "mq_inv q l s xs m"
    using mq_init_start [OF assms(1-6)] mq_reach_inv [OF assms(7)] by blast
  note rel = mq_invD(1) [OF inv]
  note m = mq_relD [OF rel]
  have "msg_q_snd k a q d f (mem s) \<noteq> None" if "a = NULL \<or> a \<notin> dom (elems (mem s))" for k a d f
    using msg_q_snd_null [OF m(1), of k a f] msg_q_unblocked_ops(1) [OF rel, of d k a f]
      msg_q_snd_oom [OF rel, of d k f] msg_q_snd_ok [OF rel, of a d k f] that
    by (cases "d = NULL"; cases "unblocked m = 0"; cases "a = NULL") auto
  moreover have "msg_q_rmv q out (mem s) \<noteq> None" if "out_ok q out (mem s)" for out
    using msg_q_unblocked_ops(3) [OF rel] msg_q_rmv_empty [of "mem s" q l m out] out_okD [OF that]
      msg_q_rmv_ok [of "mem s" q l _ _ _ m out] rel
    by (cases "unblocked m = 0"; cases xs) fastforce+
  moreover have "msg_q_unblock q (mem s) \<noteq> None"
    using msg_q_unblocked_ops(4) [OF rel] msg_q_unblock_ok [OF rel] by (cases "unblocked m = 0") auto
  moreover have "msg_q_rcv t q out (mem s) \<noteq> None" if "out_ok q out (mem s)" for t out
    using msg_q_rcv_total [OF inv that, of t] by auto
  moreover have "msg_q_rcv_wake t q out (mem s) \<noteq> None" if "pending s t = Some out" for t out
    using msg_q_wake_total [OF inv that] by auto
  moreover have "msg_q_flush q (mem s) \<noteq> None" using msg_q_flush_ok [OF rel] by auto
  ultimately show ?thesis using m(2,3) by blast
qed

theorem msg_q_progress_witness:
  "msg_q_snd 0 30 20 99 NULL demo_mem_sleep \<noteq> None \<and> msg_q_snd 0 NULL 20 99 NULL demo_mem_sleep \<noteq> None
     \<and> msg_q_rcv 2 20 7 demo_mem_sleep \<noteq> None \<and> msg_q_rcv_wake 1 20 7 demo_mem_sleep \<noteq> None
     \<and> msg_q_flush 20 demo_mem_sleep \<noteq> None"
  using msg_q_progress [OF _ _ _ _ _ demo_init demo_reach_sleep]
  by (simp add: demo_mem_def demo_mem_q_def demo_mem_sleep_def out_ok_def)

text \<open>A creation that fails returns \<^verbatim>\<open>eMSG_Q_FAILURE_GENERAL\<close> and leaves the memory
  exactly as it found it: whichever of the allocations, the mutex or the condition
  variable fails, everything created before it is released again.\<close>

theorem msg_q_init_failure_restores:
  assumes "data \<noteq> NULL"
    and "queues h q = None" and "cells h q = None" and "list_states h l = None"
    and "q = NULL \<or> l = NULL \<or> mutex_rc \<noteq> 0 \<or> cond_rc \<noteq> 0"
  shows "msg_q_init q l mutex_rc cond_rc data h = Some (eMSG_Q_FAILURE_GENERAL, h)"
proof -
  have id: "(m(x \<mapsto> v))(x := None) = m" if "m x = None" for m :: "addr \<rightharpoonup> 'v" and x v
    using that by auto
  show ?thesis
  proof (cases "q = NULL \<or> l = NULL")
    case True
    with assms show ?thesis
      by (auto simp: msg_q_init_def linked_list_init_def free_msg_q_def id fun_upd_idem)
  next
    case False
    let ?h = "h\<lparr>cells := (cells h)(q \<mapsto> l), queues := (queues h)(q \<mapsto>
        \<lparr>list_cond = \<lparr>waiters = [], woken = []\<rparr>, list_mutex = False, unblocked = 0\<rparr>),
        list_states := (list_states h)(l \<mapsto> \<lparr>p_head = NULL, p_tail = NULL\<rparr>)\<rparr>"
    have "linked_list_init l q (h\<lparr>cells := (cells h)(q \<mapsto> NULL), queues := (queues h)(q \<mapsto>
        \<lparr>list_cond = \<lparr>waiters = [], woken = []\<rparr>, list_mutex = False, unblocked = 0\<rparr>)\<rparr>)
      = Some (eLINKED_LIST_SUCCESS, ?h)"
      using False by (simp add: linked_list_init_def write_cell_def)
    with False assms linked_list_empty_destroy [of q ?h l] show ?thesis
      by (auto simp: msg_q_init_def free_msg_q_def id fun_upd_idem)
  qed
qed

theorem msg_q_init_failure_restores_witness:
  "msg_q_init 20 21 0 (-1) 6 demo_mem = Some (eMSG_Q_FAILURE_GENERAL, demo_mem)
   \<and> msg_q_init 20 NULL 0 0 6 demo_mem = Some (eMSG_Q_FAILURE_GENERAL, demo_mem)"
  using msg_q_init_failure_restores [of 6 demo_mem 20 21 0 "-1"]
    msg_q_init_failure_restores [of 6 demo_mem 20 NULL 0 0] by (simp add: demo_mem_def)

text \<open>Destroying a queue releases all of it: the queue object, its list and every
  element still queued are freed, the dealloc function of each message that has one is
  called once, and the caller's handle is set to null.\<close>

theorem msg_q_destroy_releases:
  assumes rel: "mq_rel h q l xs m" and "data \<noteq> NULL" and "data \<noteq> q" and "cells h data = Some q"
  shows "\<exists>h'. msg_q_destroy data h = Some (eMSG_Q_SUCCESS, h')
           \<and> queues h' = (queues h)(q := None) \<and> list_states h' = (list_states h)(l := None)
           \<and> dom (elems h') \<subseteq> dom (elems h) \<and> card (dom (elems h) - dom (elems h')) = length xs
           \<and> cells h' = (cells h)(q := None, data \<mapsto> NULL)
           \<and> dealloc_log h' = dealloc_log h @ dealloc_calls (rev xs)"
proof -
  note m = mq_relD [OF rel]
  obtain as where as: "list_repr h l as" "xs = rev (contents h as)"
    using m(5) by (auto simp: queue_repr_def)
  obtain h2 where h2: "linked_list_destroy q h = Some (eLINKED_LIST_SUCCESS, h2)"
    "elems h2 = (elems h) |` (- set as)" "list_states h2 = (list_states h)(l := None)"
    "cells h2 = (cells h)(q \<mapsto> NULL)" "dealloc_log h2 = dealloc_log h @ dealloc_calls (contents h as)"
    "queues h2 = queues h"
    using linked_list_destroy_ok [OF m(1,4) as(1)] by (auto dest!: more_queues)
  have "dom (elems h) - dom (elems h2) = set as"
    using list_repr_used [OF as(1)] by (auto simp: h2(2))
  then have "card (dom (elems h) - dom (elems h2)) = length xs"
    using as by (simp add: list_repr_def distinct_card contents_def)
  with h2 m assms(2-4) as(2) show ?thesis
    by (auto simp: msg_q_destroy_def free_msg_q_def write_cell_def fun_upd_twist)
qed

theorem msg_q_destroy_releases_witness:
  "\<exists>h'. msg_q_destroy 6 demo_mem_q = Some (eMSG_Q_SUCCESS, h')
     \<and> queues h' = (queues demo_mem_q)(20 := None) \<and> list_states h' = (list_states demo_mem_q)(21 := None)
     \<and> cells h' = (cells demo_mem_q)(20 := None, 6 \<mapsto> NULL) \<and> dealloc_log h' = []"
proof -
  have "mq_rel demo_mem_q 20 21 [] \<lparr>list_cond = \<lparr>waiters = [], woken = []\<rparr>, list_mutex = False, unblocked = 0\<rparr>"
    by (simp add: mq_rel_def demo_mem_q_def queue_repr_Nil list_repr_def)
  from msg_q_destroy_releases [OF this, of 6] show ?thesis
    by (auto simp: demo_mem_q_def dealloc_calls_def)
qed

end
