(* ===== verification/GnssPps.thy ===== *)
theory GnssPps
  imports Complex_Main Prelude "HOL-Library.Word"
begin

text \<open>
  The PPS time-sync client of \<^verbatim>\<open>src/location/gnsspps/gnsspps.c\<close> with the device wrapper
  \<^verbatim>\<open>timepps.h\<close>. The static variables of the file, those local to functions included, are
  the fields of one record; the results of system calls (open, ioctl, clock_gettime,
  pthread_create) and the values read from the configuration are inputs.

  The code mixes \<^verbatim>\<open>long\<close> and \<^verbatim>\<open>double\<close> arithmetic (\<^verbatim>\<open>BILLION_NSEC\<close> is the double
  \<^verbatim>\<open>1E9\<close>). Every double operation is the exact real operation followed by the rounding
  \<open>rnd\<close>, a parameter; what the theorems need of it is the documented IEEE-754 behaviour
  \<open>ieee_exact\<close>: integers of at most 53 bits are represented exactly.
\<close>

section \<open>Data\<close>

record timespec =
  tv_sec :: int
  tv_nsec :: int

datatype kernel_reported_time_e =
    KERNEL_REPORTED_CLOCK_BOOTTIME
  | KERNEL_REPORTED_CLOCK_REALTIME
  | KERNEL_REPORTED_CLOCK_UNKNOWN
  | KERNEL_REPORTED_CLOCK_MAX

text \<open>\<open>ts_lock\<close> is \<^term>\<open>None\<close> after \<^verbatim>\<open>pthread_mutex_destroy\<close>. \<open>fds\<close> are the open file
  descriptors of the process that this file opened.\<close>

record pps_state =
  drsyncKernelTs :: timespec
  drsyncUserTs :: timespec
  prevDrsyncKernelTs :: timespec
  isActive :: int
  handle :: int
  ts_lock :: "mutex option"
  skipPPSPulseCnt :: int
  gnssOutageInSec :: int
  time_offset :: timespec
  isFirstPulseReceived :: bool
  skipPulseCnt :: "32 word"
  errno :: int
  fds :: "int list"

abbreviation zero_ts :: timespec where
  "zero_ts \<equiv> \<lparr>tv_sec = 0, tv_nsec = 0\<rparr>"

definition pps_initial :: pps_state where
  "pps_initial = \<lparr>drsyncKernelTs = zero_ts, drsyncUserTs = zero_ts, prevDrsyncKernelTs = zero_ts,
     isActive = 0, handle = 0, ts_lock = Some False, skipPPSPulseCnt = 0, gnssOutageInSec = 1,
     time_offset = zero_ts, isFirstPulseReceived = False, skipPulseCnt = 0, errno = 0, fds = []\<rparr>"

definition EINTR :: int where "EINTR = 4"
definition EINVAL :: int where "EINVAL = 22"
definition EOPNOTSUPP :: int where "EOPNOTSUPP = 95"
definition PPS_TSFMT_TSPEC :: int where "PPS_TSFMT_TSPEC = 0"

section \<open>The PPS device\<close>

definition pps_create :: "int \<Rightarrow> int \<Rightarrow> bool \<Rightarrow> pps_state \<Rightarrow> int \<times> pps_state" where
  "pps_create ioctl_ret source handle_null st =
     (if handle_null then (-1, st\<lparr>errno := EINVAL\<rparr>)
      else if ioctl_ret \<noteq> 0 then (-1, st\<lparr>errno := EOPNOTSUPP\<rparr>)
      else (0, st\<lparr>handle := source\<rparr>))"

definition pps_destroy :: "int \<Rightarrow> pps_state \<Rightarrow> pps_state" where
  "pps_destroy hdl st = st\<lparr>fds := remove1 hdl (fds st)\<rparr>"

text \<open>\<^verbatim>\<open>pps_fetch\<close> returns what the ioctl returns and the assert time the kernel filled in.\<close>

definition pps_fetch :: "int \<times> timespec \<Rightarrow> int \<Rightarrow> timespec \<Rightarrow> pps_state \<Rightarrow> int \<times> timespec \<times> pps_state" where
  "pps_fetch ioctl tsformat ppsinfobuf st =
     (if tsformat \<noteq> PPS_TSFMT_TSPEC then (-1, ppsinfobuf, st\<lparr>errno := EINVAL\<rparr>)
      else (fst ioctl, snd ioctl, st))"

definition check_device :: "int \<Rightarrow> int \<Rightarrow> pps_state \<Rightarrow> int \<times> pps_state" where
  "check_device open_ret ioctl_ret st =
     (if open_ret < 0 then (open_ret, st)
      else let (ret, st) = pps_create ioctl_ret open_ret False (st\<lparr>fds := open_ret # fds st\<rparr>)
           in if ret < 0 then (-1, st) else (0, st))"

section \<open>Time arithmetic\<close>

definition BILLION_NSEC :: real where
  "BILLION_NSEC = 1000000000"

text \<open>Conversion of a double to \<^verbatim>\<open>long\<close> truncates.\<close>

definition to_long :: "real \<Rightarrow> int" where
  "to_long x = (if x < 0 then \<lceil>x\<rceil> else \<lfloor>x\<rfloor>)"

definition calculate_time_difference :: "(real \<Rightarrow> real) \<Rightarrow> timespec \<Rightarrow> timespec \<Rightarrow> timespec" where
  "calculate_time_difference rnd time1 time2 =
     (if tv_nsec time2 < tv_nsec time1
      then \<lparr>tv_sec = tv_sec time2 - 1 - tv_sec time1,
            tv_nsec = to_long (rnd (rnd (BILLION_NSEC + rnd (of_int (tv_nsec time2))) - rnd (of_int (tv_nsec time1))))\<rparr>
      else \<lparr>tv_sec = tv_sec time2 - tv_sec time1, tv_nsec = tv_nsec time2 - tv_nsec time1\<rparr>)"

definition pps_sync_time_add :: "(real \<Rightarrow> real) \<Rightarrow> timespec \<Rightarrow> timespec \<Rightarrow> timespec" where
  "pps_sync_time_add rnd time1 time2 =
     (if rnd (of_int (tv_nsec time2 + tv_nsec time1)) \<ge> BILLION_NSEC
      then \<lparr>tv_sec = tv_sec time2 + tv_sec time1 + 1,
            tv_nsec = to_long (rnd (rnd (of_int (tv_nsec time2 + tv_nsec time1)) - BILLION_NSEC))\<rparr>
      else \<lparr>tv_sec = tv_sec time2 + tv_sec time1, tv_nsec = tv_nsec time2 + tv_nsec time1\<rparr>)"

definition MAX_REALTIME_OFFSET_DELTA_DIFFERENCE :: real where
  "MAX_REALTIME_OFFSET_DELTA_DIFFERENCE = 10"

definition MAX_PPS_KERNEL_TO_USERSPACE_LATENCY :: real where
  "MAX_PPS_KERNEL_TO_USERSPACE_LATENCY = 100"

definition convertTimeToMilliSec :: "(real \<Rightarrow> real) \<Rightarrow> timespec \<Rightarrow> real" where
  "convertTimeToMilliSec rnd t =
     rnd (rnd (of_int (tv_sec t * 1000)) + rnd (rnd (of_int (tv_nsec t)) * rnd (1 / 1000000)))"

definition isTimeOffsetOk :: "(real \<Rightarrow> real) \<Rightarrow> timespec \<Rightarrow> bool" where
  "isTimeOffsetOk rnd offsetTime \<longleftrightarrow>
     \<bar>convertTimeToMilliSec rnd offsetTime\<bar> \<le> MAX_REALTIME_OFFSET_DELTA_DIFFERENCE"

definition get_reported_time_type ::
  "(real \<Rightarrow> real) \<Rightarrow> timespec \<Rightarrow> timespec \<Rightarrow> timespec \<Rightarrow> kernel_reported_time_e" where
  "get_reported_time_type rnd userBootTs userRealTs kernelTs =
     (let userRealMs = convertTimeToMilliSec rnd userRealTs;
          userBootMs = convertTimeToMilliSec rnd userBootTs;
          kernelTsMs = convertTimeToMilliSec rnd kernelTs
      in if \<bar>rnd (userBootMs - kernelTsMs)\<bar> \<le> MAX_PPS_KERNEL_TO_USERSPACE_LATENCY
         then KERNEL_REPORTED_CLOCK_BOOTTIME
         else if \<bar>rnd (userRealMs - kernelTsMs)\<bar> \<le> MAX_PPS_KERNEL_TO_USERSPACE_LATENCY
         then KERNEL_REPORTED_CLOCK_REALTIME
         else KERNEL_REPORTED_CLOCK_UNKNOWN)"

text \<open>The two clock readings are pairs of the return code and the time.\<close>

definition compute_real_to_boot_time ::
  "(real \<Rightarrow> real) \<Rightarrow> int \<times> timespec \<Rightarrow> int \<times> timespec \<Rightarrow> timespec \<Rightarrow> pps_state \<Rightarrow> int \<times> pps_state" where
  "compute_real_to_boot_time rnd bootc realc ppsFetchTime st =
     (if fst bootc \<noteq> 0 then (-1, st)
      else if fst realc \<noteq> 0 then (-1, st)
      else case get_reported_time_type rnd (snd bootc) (snd realc) ppsFetchTime of
        KERNEL_REPORTED_CLOCK_BOOTTIME \<Rightarrow>
          (0, st\<lparr>drsyncKernelTs := ppsFetchTime, drsyncUserTs := snd bootc\<rparr>)
      | KERNEL_REPORTED_CLOCK_REALTIME \<Rightarrow>
          (let deltaRealToBootTime = calculate_time_difference rnd (snd realc) (snd bootc);
               deltaOffsetTime = calculate_time_difference rnd (time_offset st) deltaRealToBootTime
           in if (tv_sec (time_offset st) = 0 \<and> tv_nsec (time_offset st) = 0)
                 \<or> isTimeOffsetOk rnd deltaOffsetTime
              then (0, st\<lparr>drsyncUserTs := snd bootc,
                         drsyncKernelTs := pps_sync_time_add rnd ppsFetchTime deltaRealToBootTime,
                         time_offset := deltaRealToBootTime\<rparr>)
              else (-1, st\<lparr>time_offset := deltaRealToBootTime\<rparr>))
      | _ \<Rightarrow> (-1, st))"

section \<open>The reader thread\<close>

text \<open>What the environment supplies to one \<^verbatim>\<open>read_pps\<close>: the PPS_FETCH ioctl and the two
  clocks.\<close>

record pps_input =
  in_fetch :: "int \<times> timespec"
  in_boot :: "int \<times> timespec"
  in_real :: "int \<times> timespec"

definition lock_ts :: "pps_state \<Rightarrow> pps_state option" where
  "lock_ts st = do { held \<leftarrow> ts_lock st; x \<leftarrow> mutex_lock held; Some (st\<lparr>ts_lock := Some x\<rparr>) }"

definition unlock_ts :: "pps_state \<Rightarrow> pps_state option" where
  "unlock_ts st = do { held \<leftarrow> ts_lock st; x \<leftarrow> mutex_unlock held; Some (st\<lparr>ts_lock := Some x\<rparr>) }"

text \<open>The bookkeeping of \<^verbatim>\<open>read_pps\<close> that decides how many pulses to ignore.\<close>

definition note_pulse :: "timespec \<Rightarrow> pps_state \<Rightarrow> pps_state" where
  "note_pulse infobuf st =
     (let st1 = (if \<not> isFirstPulseReceived st \<and> skipPPSPulseCnt st > 0
                 then st\<lparr>skipPulseCnt := word_of_int (skipPPSPulseCnt st), isFirstPulseReceived := True\<rparr>
                 else if isFirstPulseReceived st \<and> skipPPSPulseCnt st > 0
                         \<and> tv_sec infobuf - tv_sec (prevDrsyncKernelTs st) > gnssOutageInSec st
                 then st\<lparr>skipPulseCnt := word_of_int (skipPPSPulseCnt st)\<rparr>
                 else st)
      in st1\<lparr>prevDrsyncKernelTs := infobuf\<rparr>)"

definition read_pps :: "(real \<Rightarrow> real) \<Rightarrow> pps_input \<Rightarrow> pps_state \<Rightarrow> (int \<times> pps_state) option" where
  "read_pps rnd i st =
     (let (ret, infobuf, st) = pps_fetch (in_fetch i) PPS_TSFMT_TSPEC zero_ts st
      in if ret < 0 \<and> ret \<noteq> - EINTR then Some (-1, st)
         else let st = note_pulse infobuf st
         in if skipPulseCnt st > 0 then Some (0, st\<lparr>skipPulseCnt := skipPulseCnt st - 1\<rparr>)
         else do {
           st \<leftarrow> lock_ts st;
           let (ret, st) = compute_real_to_boot_time rnd (in_boot i) (in_real i) infobuf st;
           st \<leftarrow> unlock_ts st;
           Some (0, st) })"

text \<open>A run of the thread over the pulses of a list: it stops when it finds \<^verbatim>\<open>isActive\<close> clear.\<close>

fun thread_handle :: "(real \<Rightarrow> real) \<Rightarrow> pps_input list \<Rightarrow> pps_state \<Rightarrow> pps_state option" where
  "thread_handle rnd [] st = Some st"
| "thread_handle rnd (i # is) st =
     (if isActive st = 0 then Some st
      else do { (ret, st) \<leftarrow> read_pps rnd i st; thread_handle rnd is st })"

section \<open>Interface\<close>

text \<open>\<open>conf\<close> are the values of \<^verbatim>\<open>IGNORE_PPS_PULSE_COUNT\<close> and \<^verbatim>\<open>GNSS_OUTAGE_DURATION\<close> found
  in the configuration file, if any.\<close>

definition initPPS :: "int \<Rightarrow> int \<Rightarrow> int option \<times> int option \<Rightarrow> int \<Rightarrow> pps_state \<Rightarrow> int \<times> pps_state" where
  "initPPS open_ret ioctl_ret conf pid st =
     (let (ret, st) = check_device open_ret ioctl_ret (st\<lparr>isActive := 1\<rparr>)
      in if ret < 0 then (0, st)
         else let st = st\<lparr>skipPPSPulseCnt := (case fst conf of None \<Rightarrow> skipPPSPulseCnt st | Some v \<Rightarrow> v),
                          gnssOutageInSec := (case snd conf of None \<Rightarrow> gnssOutageInSec st | Some v \<Rightarrow> v),
                          ts_lock := Some False\<rparr>
         in if pid \<noteq> 0 then (0, st\<lparr>isActive := 0\<rparr>) else (1, st))"

definition deInitPPS :: "pps_state \<Rightarrow> pps_state option" where
  "deInitPPS st = do {
     st \<leftarrow> lock_ts st;
     if isActive st = 0 then Some st
     else do {
       st \<leftarrow> unlock_ts (st\<lparr>isActive := 0\<rparr>);
       Some (pps_destroy (handle st) (st\<lparr>ts_lock := None\<rparr>)) } }"

record pps_out =
  fineKernelTs :: timespec
  currentTs :: timespec
  fineUserTs :: timespec

text \<open>The three out parameters are the record \<open>out\<close>; the clock reading is \<open>boot\<close>.\<close>

definition getPPS :: "int \<times> timespec \<Rightarrow> pps_out \<Rightarrow> pps_state \<Rightarrow> (int \<times> pps_out \<times> pps_state) option" where
  "getPPS boot out st = do {
     st \<leftarrow> lock_ts st;
     let (ret, out) =
       (if isActive st \<noteq> 0
        then (fst boot, \<lparr>fineKernelTs = drsyncKernelTs st,
                         currentTs = (if fst boot = 0 then snd boot else currentTs out),
                         fineUserTs = drsyncUserTs st\<rparr>)
        else (0, out));
     st \<leftarrow> unlock_ts st;
     Some (if ret \<noteq> 0 then 0 else 1, out, st) }"


section \<open>Exactness of the time arithmetic\<close>

definition ieee_exact :: "(real \<Rightarrow> real) \<Rightarrow> bool" where
  "ieee_exact rnd \<longleftrightarrow> (\<forall>i::int. \<bar>i\<bar> \<le> 2 ^ 53 \<longrightarrow> rnd (of_int i) = of_int i)"

definition ns :: "timespec \<Rightarrow> int" where
  "ns t = tv_sec t * 1000000000 + tv_nsec t"

definition normal_ts :: "timespec \<Rightarrow> bool" where
  "normal_ts t \<longleftrightarrow> 0 \<le> tv_nsec t \<and> tv_nsec t < 1000000000"

lemma to_long_of_int [simp]: "to_long (of_int i) = i"
  by (simp add: to_long_def)

lemma ieee_int: "ieee_exact rnd \<Longrightarrow> \<bar>i\<bar> \<le> 2 ^ 53 \<Longrightarrow> rnd (of_int i) = of_int i"
  by (simp add: ieee_exact_def)

lemma ns_split: "normal_ts t \<Longrightarrow> t = \<lparr>tv_sec = ns t div 1000000000, tv_nsec = ns t mod 1000000000\<rparr>"
  by (cases t) (simp add: normal_ts_def ns_def)

lemma ns_inject: "normal_ts a \<Longrightarrow> normal_ts b \<Longrightarrow> ns a = ns b \<Longrightarrow> a = b"
  using ns_split [of a] ns_split [of b] by simp

lemma difference_correct:
  assumes "ieee_exact rnd" and "normal_ts t1" and "normal_ts t2"
  shows "normal_ts (calculate_time_difference rnd t1 t2)"
    and "ns (calculate_time_difference rnd t1 t2) = ns t2 - ns t1"
proof -
  have r: "rnd (of_int (tv_nsec t2)) = of_int (tv_nsec t2)" "rnd (of_int (tv_nsec t1)) = of_int (tv_nsec t1)"
    "rnd (of_int (1000000000 + tv_nsec t2)) = of_int (1000000000 + tv_nsec t2)"
    "rnd (of_int (1000000000 + tv_nsec t2 - tv_nsec t1)) = of_int (1000000000 + tv_nsec t2 - tv_nsec t1)"
    using assms by (intro ieee_int; auto simp: normal_ts_def)+
  have "rnd (rnd (BILLION_NSEC + rnd (of_int (tv_nsec t2))) - rnd (of_int (tv_nsec t1)))
      = of_int (1000000000 + tv_nsec t2 - tv_nsec t1)"
    using r by (simp add: BILLION_NSEC_def)
  then have "tv_nsec t2 < tv_nsec t1 \<Longrightarrow> calculate_time_difference rnd t1 t2
      = \<lparr>tv_sec = tv_sec t2 - 1 - tv_sec t1, tv_nsec = 1000000000 + tv_nsec t2 - tv_nsec t1\<rparr>"
    by (simp only: calculate_time_difference_def to_long_of_int if_True)
  then show "normal_ts (calculate_time_difference rnd t1 t2)"
    and "ns (calculate_time_difference rnd t1 t2) = ns t2 - ns t1"
    using assms by (cases "tv_nsec t2 < tv_nsec t1"; auto simp: normal_ts_def ns_def calculate_time_difference_def)+
qed

lemma add_correct:
  assumes "ieee_exact rnd" and "normal_ts t1" and "normal_ts t2"
  shows "normal_ts (pps_sync_time_add rnd t1 t2)" and "ns (pps_sync_time_add rnd t1 t2) = ns t1 + ns t2"
proof -
  have r: "rnd (of_int (tv_nsec t2 + tv_nsec t1)) = of_int (tv_nsec t2 + tv_nsec t1)"
    "rnd (of_int (tv_nsec t2 + tv_nsec t1 - 1000000000)) = of_int (tv_nsec t2 + tv_nsec t1 - 1000000000)"
    using assms by (intro ieee_int; auto simp: normal_ts_def)+
  have "pps_sync_time_add rnd t1 t2 = (if tv_nsec t2 + tv_nsec t1 \<ge> 1000000000
      then \<lparr>tv_sec = tv_sec t2 + tv_sec t1 + 1, tv_nsec = tv_nsec t2 + tv_nsec t1 - 1000000000\<rparr>
      else \<lparr>tv_sec = tv_sec t2 + tv_sec t1, tv_nsec = tv_nsec t2 + tv_nsec t1\<rparr>)"
  proof -
    have "rnd (of_int (tv_nsec t2 + tv_nsec t1)) \<ge> BILLION_NSEC \<longleftrightarrow> tv_nsec t2 + tv_nsec t1 \<ge> 1000000000"
      unfolding r(1) BILLION_NSEC_def by linarith
    moreover have "to_long (rnd (rnd (of_int (tv_nsec t2 + tv_nsec t1)) - BILLION_NSEC))
        = tv_nsec t2 + tv_nsec t1 - 1000000000"
    proof -
      have "rnd (of_int (tv_nsec t2 + tv_nsec t1)) - BILLION_NSEC = of_int (tv_nsec t2 + tv_nsec t1 - 1000000000)"
        unfolding r(1) BILLION_NSEC_def by simp
      with r(2) show ?thesis by (simp only: to_long_of_int)
    qed
    ultimately show ?thesis by (simp only: pps_sync_time_add_def)
  qed
  then show "normal_ts (pps_sync_time_add rnd t1 t2)" and "ns (pps_sync_time_add rnd t1 t2) = ns t1 + ns t2"
    using assms by (auto simp: normal_ts_def ns_def)
qed

lemma difference_self: "ieee_exact rnd \<Longrightarrow> calculate_time_difference rnd t t = zero_ts"
  by (simp add: calculate_time_difference_def)

lemma zero_offset_ok: "ieee_exact rnd \<Longrightarrow> isTimeOffsetOk rnd zero_ts"
proof -
  assume "ieee_exact rnd"
  then have "rnd 0 = 0" using ieee_int [of rnd 0] by simp
  then show ?thesis
    by (simp add: isTimeOffsetOk_def convertTimeToMilliSec_def MAX_REALTIME_OFFSET_DELTA_DIFFERENCE_def)
qed


section \<open>Skipping of pulses\<close>

text \<open>A pulse that was fetched and does not follow a gap longer than the configured outage.\<close>

fun steady :: "int \<Rightarrow> int \<Rightarrow> pps_input list \<Rightarrow> bool" where
  "steady outage prev [] = True"
| "steady outage prev (i # is) =
     (fst (in_fetch i) \<ge> 0 \<and> tv_sec (snd (in_fetch i)) - prev \<le> outage
      \<and> steady outage (tv_sec (snd (in_fetch i))) is)"

lemma read_pps_skip:
  assumes "fst (in_fetch i) \<ge> 0" and "skipPulseCnt (note_pulse (snd (in_fetch i)) st) > 0"
  shows "read_pps rnd i st = Some (0, (note_pulse (snd (in_fetch i)) st)
           \<lparr>skipPulseCnt := skipPulseCnt (note_pulse (snd (in_fetch i)) st) - 1\<rparr>)"
  using assms by (cases "in_fetch i") (simp add: read_pps_def pps_fetch_def Let_def)

text \<open>Once the first pulse was seen, a steady run of as many pulses as are left to be
  ignored only counts them.\<close>

lemma skip_run:
  assumes "isFirstPulseReceived st" and "isActive st \<noteq> 0" and "length is = unat (skipPulseCnt st)"
    and "steady (gnssOutageInSec st) (tv_sec (prevDrsyncKernelTs st)) is"
  shows "\<exists>st'. thread_handle rnd is st = Some st' \<and> skipPulseCnt st' = 0 \<and> isFirstPulseReceived st'
           \<and> drsyncKernelTs st' = drsyncKernelTs st \<and> drsyncUserTs st' = drsyncUserTs st
           \<and> time_offset st' = time_offset st \<and> ts_lock st' = ts_lock st \<and> isActive st' = isActive st"
  using assms
proof (induction "is" arbitrary: st)
  case Nil
  then show ?case by (simp add: unat_eq_0)
next
  case (Cons i "is")
  let ?n = "note_pulse (snd (in_fetch i)) st"
  let ?st = "?n\<lparr>skipPulseCnt := skipPulseCnt st - 1\<rparr>"
  have n: "skipPulseCnt ?n = skipPulseCnt st" using Cons.prems by (auto simp: note_pulse_def Let_def)
  have pos: "skipPulseCnt st \<noteq> 0" using Cons.prems(3) by auto
  then have step: "read_pps rnd i st = Some (0, ?st)"
    using read_pps_skip [of i st rnd] Cons.prems(4) n by (simp add: word_neq_0_conv)
  have f: "isFirstPulseReceived ?st" "isActive ?st = isActive st" "gnssOutageInSec ?st = gnssOutageInSec st"
    "prevDrsyncKernelTs ?st = snd (in_fetch i)" "drsyncKernelTs ?st = drsyncKernelTs st"
    "drsyncUserTs ?st = drsyncUserTs st" "time_offset ?st = time_offset st" "ts_lock ?st = ts_lock st"
    using Cons.prems(1) by (auto simp: note_pulse_def Let_def)
  have "length is = unat (skipPulseCnt ?st)"
    using Cons.prems(3) pos by (simp add: unat_minus_one)
  with Cons.IH [of ?st] Cons.prems f step show ?case by auto
qed

section \<open>Properties\<close>

definition demo_ts :: "int \<Rightarrow> int \<Rightarrow> timespec" where
  "demo_ts s n = \<lparr>tv_sec = s, tv_nsec = n\<rparr>"

lemma ieee_id: "ieee_exact (\<lambda>x. x)"
  by (simp add: ieee_exact_def)

text \<open>Time arithmetic: on normalised times (nanoseconds in 0 to 999999999) the difference
  and the sum are computed exactly in spite of the detour through doubles, are normalised
  again, and adding a difference back restores the second time.\<close>

theorem pps_time_arithmetic:
  assumes "ieee_exact rnd" and "normal_ts t1" and "normal_ts t2"
  shows "ns (calculate_time_difference rnd t1 t2) = ns t2 - ns t1
     \<and> normal_ts (calculate_time_difference rnd t1 t2)
     \<and> ns (pps_sync_time_add rnd t1 t2) = ns t1 + ns t2 \<and> normal_ts (pps_sync_time_add rnd t1 t2)
     \<and> pps_sync_time_add rnd t1 (calculate_time_difference rnd t1 t2) = t2"
proof -
  note d = difference_correct [OF assms]
  have "pps_sync_time_add rnd t1 (calculate_time_difference rnd t1 t2) = t2"
    using add_correct [OF assms(1,2) d(1)] d(2) assms(3) by (intro ns_inject) auto
  with d add_correct [OF assms] show ?thesis by simp
qed

theorem pps_time_arithmetic_witness:
  "ns (calculate_time_difference (\<lambda>x. x) (demo_ts 5 900000000) (demo_ts 7 100000000)) = 1200000000
   \<and> pps_sync_time_add (\<lambda>x. x) (demo_ts 5 900000000)
       (calculate_time_difference (\<lambda>x. x) (demo_ts 5 900000000) (demo_ts 7 100000000)) = demo_ts 7 100000000"
  using pps_time_arithmetic [OF ieee_id, of "demo_ts 5 900000000" "demo_ts 7 100000000"]
  by (simp add: normal_ts_def demo_ts_def ns_def)

text \<open>C40. Conversion of the pulse time to boot time, for normalised times and exact rounding of integers of at most 53 bits. If
  it succeeds, the stored user time is the boot time read now and the stored kernel
  time is normalised and is either the fetched time itself (the kernel already reports
  boot time; the stored offset stays) or the fetched time shifted by exactly the current difference between the
  boot and the real-time clock, which becomes the stored offset. If it
  fails, both stored times are untouched; the stored offset is replaced by the current difference
  when the failure is a jump of the real-time clock, that is, a real-time pulse at which an offset is stored and
  differs too much from the current one, and stays in every other failure. No other variable changes in either case.\<close>

theorem pps_conversion_correct:
  assumes "ieee_exact rnd" and "normal_ts f" and "normal_ts (snd bc)" and "normal_ts (snd rc)"
    and run: "compute_real_to_boot_time rnd bc rc f st = (ret, st')"
  shows "(ret = 0 \<longrightarrow> drsyncUserTs st' = snd bc \<and> normal_ts (drsyncKernelTs st') \<and>
           ((get_reported_time_type rnd (snd bc) (snd rc) f = KERNEL_REPORTED_CLOCK_BOOTTIME
               \<and> drsyncKernelTs st' = f \<and> time_offset st' = time_offset st)
            \<or> (get_reported_time_type rnd (snd bc) (snd rc) f = KERNEL_REPORTED_CLOCK_REALTIME
               \<and> ns (drsyncKernelTs st') = ns f + (ns (snd bc) - ns (snd rc))
               \<and> normal_ts (time_offset st') \<and> ns (time_offset st') = ns (snd bc) - ns (snd rc))))
     \<and> (ret \<noteq> 0 \<longrightarrow> ret = -1 \<and> drsyncKernelTs st' = drsyncKernelTs st \<and> drsyncUserTs st' = drsyncUserTs st
          \<and> (if fst bc = 0 \<and> fst rc = 0 \<and> get_reported_time_type rnd (snd bc) (snd rc) f = KERNEL_REPORTED_CLOCK_REALTIME
             then normal_ts (time_offset st') \<and> ns (time_offset st') = ns (snd bc) - ns (snd rc) \<and> time_offset st \<noteq> zero_ts
               \<and> \<not> isTimeOffsetOk rnd (calculate_time_difference rnd (time_offset st) (time_offset st'))
             else time_offset st' = time_offset st))
     \<and> st' = st\<lparr>drsyncKernelTs := drsyncKernelTs st', drsyncUserTs := drsyncUserTs st', time_offset := time_offset st'\<rparr>"
proof -
  note d = difference_correct [OF assms(1,4,3)]
  note a = add_correct [OF assms(1,2) d(1)]
  show ?thesis
    using run assms(2) a d
    by (auto simp: compute_real_to_boot_time_def Let_def
          split: if_splits kernel_reported_time_e.splits)
qed

theorem pps_conversion_correct_witness:
  "(let (ret, st') = compute_real_to_boot_time (\<lambda>x. x) (0, demo_ts 100 0) (0, demo_ts 900 0)
        (demo_ts 899 950000000) pps_initial
    in ret = 0 \<and> drsyncUserTs st' = demo_ts 100 0 \<and> ns (drsyncKernelTs st') = ns (demo_ts 99 950000000))"
proof -
  obtain ret st' where run: "compute_real_to_boot_time (\<lambda>x. x) (0, demo_ts 100 0) (0, demo_ts 900 0)
      (demo_ts 899 950000000) pps_initial = (ret, st')" by fastforce
  have t: "get_reported_time_type (\<lambda>x. x) (demo_ts 100 0) (demo_ts 900 0) (demo_ts 899 950000000)
      = KERNEL_REPORTED_CLOCK_REALTIME"
    by (simp add: get_reported_time_type_def convertTimeToMilliSec_def demo_ts_def Let_def
          MAX_PPS_KERNEL_TO_USERSPACE_LATENCY_def)
  have "ret = 0" using run t by (auto simp: compute_real_to_boot_time_def Let_def pps_initial_def)
  with pps_conversion_correct [OF ieee_id _ _ _ run] run t show ?thesis
    by (simp add: normal_ts_def demo_ts_def ns_def)
qed

text \<open>Re-synchronisation: whatever offset is stored, a real-time pulse either is
  accepted or is rejected as a jump of the real-time clock with the new offset stored; in
  both cases the next real-time pulse at which the clocks have the same offset is accepted.\<close>

theorem pps_resync_next_tick:
  assumes "ieee_exact rnd" and "normal_ts (snd bc)" and "normal_ts (snd rc)"
    and "fst bc = 0" and "fst rc = 0" and "fst bc' = 0" and "fst rc' = 0"
    and "normal_ts (snd bc')" and "normal_ts (snd rc')"
    and "get_reported_time_type rnd (snd bc) (snd rc) f = KERNEL_REPORTED_CLOCK_REALTIME"
    and "get_reported_time_type rnd (snd bc') (snd rc') f' = KERNEL_REPORTED_CLOCK_REALTIME"
    and same: "ns (snd bc') - ns (snd rc') = ns (snd bc) - ns (snd rc)"
    and run: "compute_real_to_boot_time rnd bc rc f st = (ret, st1)"
  shows "ret \<in> {0, -1} \<and> fst (compute_real_to_boot_time rnd bc' rc' f' st1) = 0"
proof -
  let ?d = "calculate_time_difference rnd (snd rc) (snd bc)"
  have st1: "time_offset st1 = ?d" "ret \<in> {0, -1}"
    using run assms(4,5,10) by (auto simp: compute_real_to_boot_time_def Let_def split: if_splits)
  have "calculate_time_difference rnd (snd rc') (snd bc') = ?d"
    using difference_correct [OF assms(1,3,2)] difference_correct [OF assms(1,9,8)] same
    by (intro ns_inject) auto
  then have "fst (compute_real_to_boot_time rnd bc' rc' f' st1) = 0"
    using st1(1) assms(6,7,11) zero_offset_ok [OF assms(1)] difference_self [OF assms(1), of ?d]
    by (simp add: compute_real_to_boot_time_def Let_def)
  with st1(2) show ?thesis by simp
qed

theorem pps_resync_next_tick_witness:
  "fst (compute_real_to_boot_time (\<lambda>x. x) (0, demo_ts 101 0) (0, demo_ts 901 0) (demo_ts 901 0)
     (snd (compute_real_to_boot_time (\<lambda>x. x) (0, demo_ts 100 0) (0, demo_ts 900 0) (demo_ts 900 0)
       (pps_initial\<lparr>time_offset := demo_ts 5 0\<rparr>)))) = 0"
proof -
  obtain ret st1 where run: "compute_real_to_boot_time (\<lambda>x. x) (0, demo_ts 100 0) (0, demo_ts 900 0)
      (demo_ts 900 0) (pps_initial\<lparr>time_offset := demo_ts 5 0\<rparr>) = (ret, st1)" by fastforce
  note defs = get_reported_time_type_def convertTimeToMilliSec_def demo_ts_def Let_def
    MAX_PPS_KERNEL_TO_USERSPACE_LATENCY_def normal_ts_def ns_def
  from pps_resync_next_tick [of "\<lambda>x. x", OF ieee_id _ _ _ _ _ _ _ _ _ _ _ run,
      of "(0, demo_ts 101 0)" "(0, demo_ts 901 0)" "demo_ts 901 0"] run
  show ?thesis by (simp add: defs)
qed

text \<open>The first \<open>IGNORE_PPS_PULSE_COUNT\<close> pulses of a steady stream are ignored, no
  more and no fewer: after that many pulses the reader has changed none of the reported
  times, has not touched the lock, has nothing left to skip, and processes the next pulse.\<close>

theorem pps_first_pulses_ignored:
  assumes "isActive st \<noteq> 0" and "\<not> isFirstPulseReceived st"
    and "0 < skipPPSPulseCnt st" and "skipPPSPulseCnt st < 2 ^ 32"
    and "int (length is) = skipPPSPulseCnt st"
    and "fst (in_fetch (hd is)) \<ge> 0" and "steady (gnssOutageInSec st) (tv_sec (snd (in_fetch (hd is)))) (tl is)"
  shows "\<exists>st'. thread_handle rnd is st = Some st' \<and> skipPulseCnt st' = 0
           \<and> drsyncKernelTs st' = drsyncKernelTs st \<and> drsyncUserTs st' = drsyncUserTs st
           \<and> ts_lock st' = ts_lock st \<and> isFirstPulseReceived st' \<and> isActive st' = isActive st"
proof -
  obtain i "is'" where i: "is = i # is'" using assms(3,5) by (cases "is") auto
  let ?n = "note_pulse (snd (in_fetch i)) st"
  let ?st = "?n\<lparr>skipPulseCnt := word_of_int (skipPPSPulseCnt st) - 1\<rparr>"
  have n: "skipPulseCnt ?n = word_of_int (skipPPSPulseCnt st)"
    using assms(2,3) by (simp add: note_pulse_def Let_def)
  have u: "unat (word_of_int (skipPPSPulseCnt st) :: 32 word) = nat (skipPPSPulseCnt st)"
    using assms(3,4) by (simp add: unat_eq_nat_uint take_bit_int_eq_self uint_word_of_int_eq)
  have nz: "(word_of_int (skipPPSPulseCnt st) :: 32 word) \<noteq> 0"
    using u assms(3) by (metis unat_0 zero_less_nat_eq less_irrefl)
  then have step: "read_pps rnd i st = Some (0, ?st)"
    using read_pps_skip [of i st rnd] assms(6) n i by (simp add: word_neq_0_conv)
  have f: "isFirstPulseReceived ?st" "isActive ?st = isActive st" "gnssOutageInSec ?st = gnssOutageInSec st"
    "prevDrsyncKernelTs ?st = snd (in_fetch i)" "drsyncKernelTs ?st = drsyncKernelTs st"
    "drsyncUserTs ?st = drsyncUserTs st" "ts_lock ?st = ts_lock st"
    using assms(2,3) by (auto simp: note_pulse_def Let_def)
  have "length is' = unat (skipPulseCnt ?st)"
    using u nz assms(5) i by (simp add: unat_minus_one)
  with skip_run [of ?st is' rnd] assms(1,7) f step i show ?thesis by auto
qed

definition demo_pulse :: "int \<Rightarrow> pps_input" where
  "demo_pulse s = \<lparr>in_fetch = (0, demo_ts s 0), in_boot = (0, demo_ts s 0), in_real = (0, demo_ts s 0)\<rparr>"

theorem pps_first_pulses_ignored_witness:
  "\<exists>st'. thread_handle (\<lambda>x. x) [demo_pulse 50, demo_pulse 51] (pps_initial\<lparr>isActive := 1, skipPPSPulseCnt := 2\<rparr>) = Some st'
     \<and> skipPulseCnt st' = 0 \<and> drsyncKernelTs st' = zero_ts \<and> drsyncUserTs st' = zero_ts"
  using pps_first_pulses_ignored [of "pps_initial\<lparr>isActive := 1, skipPPSPulseCnt := 2\<rparr>"
      "[demo_pulse 50, demo_pulse 51]" "\<lambda>x. x"]
  by (auto simp: pps_initial_def demo_pulse_def demo_ts_def)

text \<open>\<^verbatim>\<open>deInitPPS\<close> without an active reader returns with the mutex held: every later
  call of \<^verbatim>\<open>getPPS\<close> or \<^verbatim>\<open>deInitPPS\<close>, and every pulse the reader wants to process, then
  blocks for ever.\<close>

theorem deInitPPS_leaves_lock_held:
  assumes "ts_lock st = Some False" and "isActive st = 0"
  shows "\<exists>st'. deInitPPS st = Some st' \<and> ts_lock st' = Some True
           \<and> (\<forall>b out. getPPS b out st' = None) \<and> deInitPPS st' = None
           \<and> (\<forall>rnd i. fst (in_fetch i) \<ge> 0 \<and> skipPulseCnt (note_pulse (snd (in_fetch i)) st') = 0
                \<longrightarrow> read_pps rnd i st' = None)"
proof -
  have "skipPulseCnt (note_pulse t s) = 0 \<Longrightarrow> \<not> 0 < skipPulseCnt (note_pulse t s)" for t s by simp
  moreover have "ts_lock (note_pulse t s) = ts_lock s" for t s
    by (simp add: note_pulse_def Let_def)
  ultimately show ?thesis
    using assms by (auto simp: deInitPPS_def getPPS_def lock_ts_def read_pps_def pps_fetch_def Let_def split: prod.splits)
qed

theorem deInitPPS_leaves_lock_held_witness:
  "\<exists>st'. deInitPPS pps_initial = Some st' \<and> ts_lock st' = Some True
     \<and> getPPS (0, zero_ts) \<lparr>fineKernelTs = zero_ts, currentTs = zero_ts, fineUserTs = zero_ts\<rparr> st' = None
     \<and> deInitPPS st' = None"
  using deInitPPS_leaves_lock_held [of pps_initial] by (auto simp: pps_initial_def)

text \<open>A failed start is not undone: when the device cannot be opened or is no PPS
  source, \<^verbatim>\<open>initPPS\<close> returns 0 but leaves \<^verbatim>\<open>isActive\<close> set, so that \<^verbatim>\<open>getPPS\<close> reports success
  with the stored times although no reader runs; and in the second case the descriptor
  that was opened is never closed.\<close>

theorem initPPS_failure_stays_active:
  assumes "open_ret < 0 \<or> ioctl_ret \<noteq> 0" and "ts_lock st = Some False"
  shows "\<exists>st'. initPPS open_ret ioctl_ret conf pid st = (0, st') \<and> isActive st' = 1
           \<and> (\<forall>t out. \<exists>st''. getPPS (0, t) out st'
                = Some (1, \<lparr>fineKernelTs = drsyncKernelTs st, currentTs = t, fineUserTs = drsyncUserTs st\<rparr>, st''))
           \<and> fds st' = (if open_ret < 0 then fds st else open_ret # fds st)"
  using assms
  by (auto simp: initPPS_def check_device_def pps_create_def getPPS_def lock_ts_def unlock_ts_def Let_def)

theorem initPPS_failure_stays_active_witness:
  "\<exists>st'. initPPS 3 (-1) (None, None) 0 pps_initial = (0, st') \<and> isActive st' = 1 \<and> fds st' = [3]"
  using initPPS_failure_stays_active [of 3 "-1" pps_initial "(None, None)" 0] by (auto simp: pps_initial_def)

end
