(* ===== verification/PerfClient.thy ===== *)
theory PerfClient
  imports Prelude "HOL-Library.Word"
begin

text \<open>
  The performance-lock client stub of \<^verbatim>\<open>src/libqti-perfd-client/client.c\<close>. The log of the two
  lock functions is an explicit list; reading \<^verbatim>\<open>arg3[0]\<close> of an empty array is undefined. The
  four functions with an empty body are the identity on the log.
\<close>

datatype perf_log =
    Log_acq "32 word" "32 word" "32 word" "32 word"
  | Log_rel "32 word"

definition perf_get_feedback :: "perf_log list \<Rightarrow> perf_log list" where
  "perf_get_feedback l = l"

definition perf_hint :: "perf_log list \<Rightarrow> perf_log list" where
  "perf_hint l = l"

definition perf_lock_acq :: "32 word \<Rightarrow> 32 word \<Rightarrow> 32 word list \<Rightarrow> 32 word \<Rightarrow> perf_log list \<Rightarrow>
    (32 word \<times> perf_log list) option" where
  "perf_lock_acq handle duration arg3 arg4 l =
     (case arg3 of [] \<Rightarrow> None
      | a # _ \<Rightarrow> Some (if 0 <s handle then handle else 233, l @ [Log_acq handle duration a arg4]))"

definition perf_lock_cmd :: "perf_log list \<Rightarrow> perf_log list" where
  "perf_lock_cmd l = l"

definition perf_lock_rel :: "32 word \<Rightarrow> perf_log list \<Rightarrow> 32 word \<times> perf_log list" where
  "perf_lock_rel handle l = (if 0 <s handle then handle else 233, l @ [Log_rel handle])"

definition perf_lock_use_profile :: "perf_log list \<Rightarrow> perf_log list" where
  "perf_lock_use_profile l = l"

text \<open>Lock handles are stable: acquiring with any handle returns a positive handle (as a
  signed integer), acquiring again with it keeps it, and releasing it succeeds with the same
  handle; so a caller that treats a non-positive result as failure never sees one.\<close>

theorem perf_lock_handle_stable:
  assumes "perf_lock_acq h d (a # as) x l = Some (h', l')"
  shows "0 <s h' \<and> (0 <s h \<longrightarrow> h' = h)
     \<and> (\<exists>l''. perf_lock_acq h' d' (a' # as') x' l' = Some (h', l''))
     \<and> fst (perf_lock_rel h' l'') = h'"
  using assms by (auto simp: perf_lock_acq_def perf_lock_rel_def split: if_splits) (simp add: word_sless_alt)

theorem perf_lock_handle_stable_witness:
  "\<exists>l'. perf_lock_acq 0 5 [1] 1 [] = Some (233, l') \<and> fst (perf_lock_rel 233 l') = 233"
  using perf_lock_handle_stable [of 0 5 1 "[]" 1 "[]" 233 "[Log_acq 0 5 1 1]" 0 0 "[]" 0 "[Log_acq 0 5 1 1]"]
  by (simp add: perf_lock_acq_def)

end
