(* ===== verification/QmiIdl.thy ===== *)
theory QmiIdl
  imports Prelude
begin

text \<open>
  The language in which \<^verbatim>\<open>src/location/loc_api/loc_api_v02/location_service_v02.c\<close> describes the
  messages of the QMI location service, and what it means for a description to be right.

  The file is a set of constant tables that the QMI library interprets to encode C structs into
  type-length-value (TLV) messages and to decode them back. A descriptor is an array of bytes:
  for every field of a struct an opcode with flags, the offset of the field, for an array its
  bound and the distance to the field with the actual length, for an aggregate the index of its
  type. The descriptor of a message also has, before each field, the tag of its TLV with a flag
  for the last TLV and, for an optional one, the distance to the \<^verbatim>\<open>_valid\<close> byte.

  This theory has the C types with their layout (sizes and alignments of the ARM ABI), the bytes
  of descriptors as the source writes them (the flag and opcode macros belong to the library and
  stay symbolic), the grammar of descriptors, the agreement of a descriptor with a struct, and
  the largest encoding a descriptor allows. A single executable analysis decides all of these
  for one descriptor (\<open>describe_type\<close>, \<open>describe_msg\<close>); the soundness lemmas turn its result into
  the declarative statements \<open>describes_type\<close> and \<open>describes_msg\<close>.
\<close>

named_theorems layout_simps \<open>sizes, alignments and constants of the C types\<close>

named_theorems analyse_simps \<open>definitions unfolded to evaluate the analysis of a descriptor\<close>

named_theorems idl_simps \<open>results of the analysis of the descriptors\<close>

section \<open>C types and their layout\<close>

datatype ctype =
    C_char | C_int8 | C_uint8 | C_int16 | C_uint16 | C_int32 | C_uint32 | C_int64 | C_uint64
  | C_float | C_double
  | C_enum "(string \<times> int) list"
  | C_array ctype nat
  | C_struct "cfield list"
and cfield = Field string ctype

datatype placed = At (p_name: string) (p_offset: nat) (p_type: ctype)

definition align_up :: "nat \<Rightarrow> nat \<Rightarrow> nat" where
  "align_up a n = (if n mod a = 0 then n else n + (a - n mod a))"

definition enum_size :: "(string \<times> int) list \<Rightarrow> nat" where
  "enum_size vs = (if list_all (\<lambda>(_, v). - 2147483648 \<le> v \<and> v \<le> 2147483647) vs then 4 else 8)"

fun alignof :: "ctype \<Rightarrow> nat" and alignof_fields :: "nat \<Rightarrow> cfield list \<Rightarrow> nat" where
  "alignof C_char = 1" | "alignof C_int8 = 1" | "alignof C_uint8 = 1"
| "alignof C_int16 = 2" | "alignof C_uint16 = 2"
| "alignof C_int32 = 4" | "alignof C_uint32 = 4" | "alignof C_float = 4"
| "alignof C_int64 = 8" | "alignof C_uint64 = 8" | "alignof C_double = 8"
| "alignof (C_enum vs) = enum_size vs"
| "alignof (C_array t n) = alignof t"
| "alignof (C_struct fs) = alignof_fields 1 fs"
| "alignof_fields a [] = a"
| "alignof_fields a (Field f t # fs) = alignof_fields (if a < alignof t then alignof t else a) fs"

fun sizeof :: "ctype \<Rightarrow> nat" and end_of :: "nat \<Rightarrow> cfield list \<Rightarrow> nat" where
  "sizeof C_char = 1" | "sizeof C_int8 = 1" | "sizeof C_uint8 = 1"
| "sizeof C_int16 = 2" | "sizeof C_uint16 = 2"
| "sizeof C_int32 = 4" | "sizeof C_uint32 = 4" | "sizeof C_float = 4"
| "sizeof C_int64 = 8" | "sizeof C_uint64 = 8" | "sizeof C_double = 8"
| "sizeof (C_enum vs) = enum_size vs"
| "sizeof (C_array t n) = n * sizeof t"
| "sizeof (C_struct fs) = align_up (alignof_fields 1 fs) (end_of 0 fs)"
| "end_of k [] = k"
| "end_of k (Field f t # fs) = end_of (align_up (alignof t) k + sizeof t) fs"

fun lay :: "nat \<Rightarrow> cfield list \<Rightarrow> placed list" where
  "lay k [] = []"
| "lay k (Field f t # fs) = At f (align_up (alignof t) k) t # lay (align_up (alignof t) k + sizeof t) fs"

fun laid :: "ctype \<Rightarrow> placed list" where
  "laid (C_struct fs) = lay 0 fs"
| "laid _ = []"

section \<open>Descriptor bytes\<close>

text \<open>One constructor per form of expression that the tables use for their bytes. The values
  of the flag and type macros belong to the QMI library and stay symbolic.\<close>

datatype idl_flag =
    QMI_IDL_FLAGS_IS_ARRAY | QMI_IDL_FLAGS_IS_VARIABLE_LEN | QMI_IDL_FLAGS_OFFSET_IS_16
  | QMI_IDL_FLAGS_SZ_IS_16

datatype idl_base =
    QMI_IDL_GENERIC_1_BYTE | QMI_IDL_GENERIC_2_BYTE | QMI_IDL_GENERIC_4_BYTE | QMI_IDL_GENERIC_8_BYTE
  | QMI_IDL_STRING | QMI_IDL_AGGREGATE

datatype tlv_flag = QMI_IDL_TLV_FLAGS_LAST_TLV | QMI_IDL_TLV_FLAGS_OPTIONAL

datatype idl_byte =
    OP "idl_flag list" idl_base          \<comment> \<open>\<^verbatim>\<open>flags | base\<close>\<close>
  | OFFSET8 ctype string                 \<comment> \<open>\<^verbatim>\<open>QMI_IDL_OFFSET8(S, f)\<close>\<close>
  | OFFSET16ARRAY ctype string           \<comment> \<open>\<^verbatim>\<open>QMI_IDL_OFFSET16ARRAY(S, f)\<close>\<close>
  | OFFSET8_DIFF ctype string string     \<comment> \<open>\<^verbatim>\<open>QMI_IDL_OFFSET8(S, f) - QMI_IDL_OFFSET8(S, g)\<close>\<close>
  | OFFSET16_DIFF ctype string string    \<comment> \<open>the same with \<^verbatim>\<open>QMI_IDL_OFFSET16RELATIVE\<close>\<close>
  | LIT nat                              \<comment> \<open>a number or a named size\<close>
  | LO8 nat                              \<comment> \<open>\<^verbatim>\<open>((n) & 0xFF)\<close>\<close>
  | HI8 nat                              \<comment> \<open>\<^verbatim>\<open>((n) >> 8)\<close>\<close>
  | TYPE88 nat nat                       \<comment> \<open>\<^verbatim>\<open>QMI_IDL_TYPE88(table, index)\<close>\<close>
  | QMI_IDL_FLAG_END_VALUE
  | TLV "tlv_flag list" idl_byte         \<comment> \<open>\<^verbatim>\<open>flags | byte\<close>\<close>

section \<open>Elements\<close>

text \<open>What an element of a descriptor says: how the field is encoded, which field of which
  struct it is, its length bound, the field that holds the actual length and the type of an
  aggregate.\<close>

datatype idl_elem = Elem (e_array: bool) (e_var: bool) (e_off16: bool) (e_sz16: bool) (e_base: idl_base)
  (e_struct: ctype) (e_field: string) (e_bound: nat) (e_len: "string option") (e_type: "(nat \<times> nat) option")

fun parse_offset :: "idl_byte \<Rightarrow> (bool \<times> ctype \<times> string) option" where
  "parse_offset (OFFSET8 s f) = Some (False, s, f)"
| "parse_offset (OFFSET16ARRAY s f) = Some (True, s, f)"
| "parse_offset _ = None"

fun parse_bound :: "bool \<Rightarrow> bool \<Rightarrow> idl_byte list \<Rightarrow> (nat \<times> idl_byte list) option" where
  "parse_bound False _ ts = Some (1, ts)"
| "parse_bound True False (LIT n # ts) = (if n < 256 then Some (n, ts) else None)"
| "parse_bound True True (LO8 n # HI8 m # ts) = (if n = m \<and> n < 65536 then Some (n, ts) else None)"
| "parse_bound _ _ _ = None"

fun parse_len :: "bool \<Rightarrow> bool \<Rightarrow> ctype \<Rightarrow> string \<Rightarrow> idl_byte list \<Rightarrow> (string option \<times> idl_byte list) option" where
  "parse_len False _ _ _ ts = Some (None, ts)"
| "parse_len True False s f (OFFSET8_DIFF s' f' g # ts) = (if s' = s \<and> f' = f then Some (Some g, ts) else None)"
| "parse_len True True s f (OFFSET16_DIFF s' f' g # ts) = (if s' = s \<and> f' = f then Some (Some g, ts) else None)"
| "parse_len _ _ _ _ _ = None"

fun parse_type :: "idl_base \<Rightarrow> idl_byte list \<Rightarrow> ((nat \<times> nat) option \<times> idl_byte list) option" where
  "parse_type QMI_IDL_AGGREGATE (TYPE88 t n # ts) = Some (Some (t, n), ts)"
| "parse_type QMI_IDL_AGGREGATE _ = None"
| "parse_type _ ts = Some (None, ts)"

fun parse_elem :: "idl_byte list \<Rightarrow> (idl_elem \<times> idl_byte list) option" where
  "parse_elem (OP fl b # off # ts) = do {
     (is16, s, f) \<leftarrow> parse_offset off;
     if is16 \<noteq> (QMI_IDL_FLAGS_OFFSET_IS_16 \<in> set fl) then None
     else do {
       (n, ts) \<leftarrow> parse_bound (QMI_IDL_FLAGS_IS_ARRAY \<in> set fl) (QMI_IDL_FLAGS_SZ_IS_16 \<in> set fl) ts;
       (l, ts) \<leftarrow> parse_len (QMI_IDL_FLAGS_IS_VARIABLE_LEN \<in> set fl \<and> b \<noteq> QMI_IDL_STRING) is16 s f ts;
       (t, ts) \<leftarrow> parse_type b ts;
       Some (Elem (QMI_IDL_FLAGS_IS_ARRAY \<in> set fl) (QMI_IDL_FLAGS_IS_VARIABLE_LEN \<in> set fl) is16
         (QMI_IDL_FLAGS_SZ_IS_16 \<in> set fl) b s f n l t, ts) } }"
| "parse_elem _ = None"

section \<open>Agreement of an element with the struct\<close>

text \<open>The element takes the next fields of the struct (its length field first, if it has one).
  Offsets must fit the bytes that hold them, the length field must be a \<^verbatim>\<open>uint32_t\<close>, and the
  encoded type and bound must be those of the C field; a string field has one byte more than the
  bound, for the terminating zero.\<close>

fun base_matches :: "idl_base \<Rightarrow> ctype \<Rightarrow> bool" where
  "base_matches QMI_IDL_GENERIC_1_BYTE t = (sizeof t = 1)"
| "base_matches QMI_IDL_GENERIC_2_BYTE t = (sizeof t = 2)"
| "base_matches QMI_IDL_GENERIC_4_BYTE t = (sizeof t = 4)"
| "base_matches QMI_IDL_GENERIC_8_BYTE t = (sizeof t = 8)"
| "base_matches QMI_IDL_STRING t = (t = C_char)"
| "base_matches QMI_IDL_AGGREGATE t = True"

fun elem_type :: "bool \<Rightarrow> idl_base \<Rightarrow> nat \<Rightarrow> ctype \<Rightarrow> ctype option" where
  "elem_type True b n (C_array t m) = (if m = (if b = QMI_IDL_STRING then n + 1 else n) then Some t else None)"
| "elem_type True b n _ = None"
| "elem_type False b n t = Some t"

definition take_len :: "string option \<Rightarrow> placed list \<Rightarrow>
    (nat option \<times> placed list) option" where
  "take_len l fs = (case l of None \<Rightarrow> Some (None, fs)
     | Some g \<Rightarrow> (case fs of At g' k t # fs' \<Rightarrow> if g' = g \<and> t = C_uint32 then Some (Some k, fs') else None
                  | [] \<Rightarrow> None))"

definition check_elem :: "ctype \<Rightarrow> idl_elem \<Rightarrow> placed list \<Rightarrow>
    (nat \<times> ctype \<times> placed list) option" where
  "check_elem s e fs = do {
     (lk, fs) \<leftarrow> take_len (e_len e) fs;
     case fs of [] \<Rightarrow> None
     | At f k t # fs \<Rightarrow> do {
         t' \<leftarrow> elem_type (e_array e) (e_base e) (e_bound e) t;
         if f = e_field e \<and> e_struct e = s \<and> base_matches (e_base e) t'
            \<and> k < (if e_off16 e then 65536 else 256)
            \<and> (case lk of None \<Rightarrow> True | Some j \<Rightarrow> j < k \<and> k - j < 256)
         then Some (k, t', fs) else None } }"

section \<open>Encoded size\<close>

text \<open>The largest encoding of an element: a constant part and references to types whose own
  largest encoding counts a number of times. A variable-length array carries its length in
  one byte, or two if the bound is given in two bytes; so does a string inside an aggregate,
  while a string that is a whole TLV carries none. The C type of the field stands in every
  reference.\<close>

type_synonym refs = "(nat \<times> (nat \<times> nat) \<times> ctype) list"

fun base_size :: "idl_base \<Rightarrow> nat" where
  "base_size QMI_IDL_GENERIC_1_BYTE = 1"
| "base_size QMI_IDL_GENERIC_2_BYTE = 2"
| "base_size QMI_IDL_GENERIC_4_BYTE = 4"
| "base_size QMI_IDL_GENERIC_8_BYTE = 8"
| "base_size QMI_IDL_STRING = 1"
| "base_size QMI_IDL_AGGREGATE = 0"

definition prefix_size :: "bool \<Rightarrow> idl_elem \<Rightarrow> nat" where
  "prefix_size whole e = (if e_var e \<and> \<not> (whole \<and> e_base e = QMI_IDL_STRING)
     then if e_sz16 e then 2 else 1 else 0)"

definition elem_wire :: "bool \<Rightarrow> idl_elem \<Rightarrow> ctype \<Rightarrow> nat \<times> refs" where
  "elem_wire whole e t = (prefix_size whole e + e_bound e * base_size (e_base e),
     (case e_type e of None \<Rightarrow> [] | Some r \<Rightarrow> [(e_bound e, r, t)]))"

section \<open>Descriptors of types\<close>

lemma parse_bound_length: "parse_bound a b ts = Some (n, ts') \<Longrightarrow> length ts' \<le> length ts"
  by (induction a b ts rule: parse_bound.induct) (auto split: if_splits)

lemma parse_len_length: "parse_len a b s f ts = Some (n, ts') \<Longrightarrow> length ts' \<le> length ts"
  by (induction a b s f ts rule: parse_len.induct) (auto split: if_splits)

lemma parse_type_length: "parse_type b ts = Some (t, ts') \<Longrightarrow> length ts' \<le> length ts"
  by (induction b ts rule: parse_type.induct) auto

lemma parse_elem_length: "parse_elem ts = Some (e, ts') \<Longrightarrow> length ts' < length ts"
  by (induction ts rule: parse_elem.induct)
    (fastforce dest: parse_bound_length parse_len_length parse_type_length
       split: Option.bind_splits if_splits prod.splits)+

function parse_elems :: "idl_byte list \<Rightarrow> idl_elem list option" where
  "parse_elems [] = None"
| "parse_elems (t # ts) =
     (if t = QMI_IDL_FLAG_END_VALUE then if ts = [] then Some [] else None
      else case parse_elem (t # ts) of None \<Rightarrow> None
           | Some (e, ts') \<Rightarrow> map_option ((#) e) (parse_elems ts'))"
  by pat_completeness auto
termination
  by (relation "measure length") (auto dest: parse_elem_length)

fun check_elems :: "ctype \<Rightarrow> idl_elem list \<Rightarrow> placed list \<Rightarrow> (nat \<times> refs) option" where
  "check_elems s [] fs = (if fs = [] then Some (0, []) else None)"
| "check_elems s (e # es) fs = do {
     (k, t, fs) \<leftarrow> check_elem s e fs;
     (c, rs) \<leftarrow> check_elems s es fs;
     Some (fst (elem_wire False e t) + c, snd (elem_wire False e t) @ rs) }"

definition analyse_type :: "ctype \<Rightarrow> idl_byte list \<Rightarrow> (nat \<times> refs) option" where
  "analyse_type s ts = do { es \<leftarrow> parse_elems ts; check_elems s es (laid s) }"

section \<open>Descriptors of messages\<close>

datatype tlv = Tlv (t_last: bool) (t_id: nat) (t_valid: "(ctype \<times> string \<times> string) option") (t_elem: idl_elem)

fun parse_header :: "idl_byte list \<Rightarrow> ((bool \<times> nat \<times> (bool \<times> ctype \<times> string \<times> string) option) \<times> idl_byte list) option" where
  "parse_header (LIT n # ts) = Some ((False, n, None), ts)"
| "parse_header (TLV fl (LIT n) # ts) = (if QMI_IDL_TLV_FLAGS_OPTIONAL \<in> set fl then None
     else Some ((QMI_IDL_TLV_FLAGS_LAST_TLV \<in> set fl, n, None), ts))"
| "parse_header (TLV fl (OFFSET8_DIFF s f g) # LIT n # ts) = (if QMI_IDL_TLV_FLAGS_OPTIONAL \<in> set fl
     then Some ((QMI_IDL_TLV_FLAGS_LAST_TLV \<in> set fl, n, Some (False, s, f, g)), ts) else None)"
| "parse_header (TLV fl (OFFSET16_DIFF s f g) # LIT n # ts) = (if QMI_IDL_TLV_FLAGS_OPTIONAL \<in> set fl
     then Some ((QMI_IDL_TLV_FLAGS_LAST_TLV \<in> set fl, n, Some (True, s, f, g)), ts) else None)"
| "parse_header _ = None"

fun parse_tlv :: "idl_byte list \<Rightarrow> (tlv \<times> idl_byte list) option" where
  "parse_tlv ts = do {
     ((l, n, v), ts) \<leftarrow> parse_header ts;
     (e, ts) \<leftarrow> parse_elem ts;
     case v of None \<Rightarrow> Some (Tlv l n None e, ts)
     | Some (is16, sfg) \<Rightarrow> if is16 = e_off16 e then Some (Tlv l n (Some sfg) e, ts) else None }"

lemma parse_header_length: "parse_header ts = Some (h, ts') \<Longrightarrow> length ts' < length ts"
  by (induction ts rule: parse_header.induct) (auto split: if_splits)

lemma parse_tlv_length: "parse_tlv ts = Some (t, ts') \<Longrightarrow> length ts' < length ts"
  by (fastforce dest: parse_header_length parse_elem_length
       split: Option.bind_splits if_splits prod.splits option.splits)

declare parse_tlv.simps [simp del]

function parse_tlvs :: "idl_byte list \<Rightarrow> tlv list option" where
  "parse_tlvs [] = Some []"
| "parse_tlvs (b # ts) = (case parse_tlv (b # ts) of None \<Rightarrow> None
     | Some (t, ts') \<Rightarrow> map_option ((#) t) (parse_tlvs ts'))"
  by pat_completeness auto
termination
  by (relation "measure length") (auto dest: parse_tlv_length)

definition take_valid :: "ctype \<Rightarrow> string \<Rightarrow> (ctype \<times> string \<times> string) option \<Rightarrow> placed list \<Rightarrow>
    (nat option \<times> placed list) option" where
  "take_valid s f v fs = (case v of None \<Rightarrow> Some (None, fs)
     | Some (s', f', g) \<Rightarrow> (case fs of At g' k t # fs' \<Rightarrow>
          if s' = s \<and> f' = f \<and> g' = g \<and> t = C_uint8 then Some (Some k, fs') else None
        | [] \<Rightarrow> None))"

fun check_tlvs :: "ctype \<Rightarrow> tlv list \<Rightarrow> placed list \<Rightarrow> (nat \<times> refs) option" where
  "check_tlvs s [] fs = (if fs = [] then Some (0, []) else None)"
| "check_tlvs s (t # ts) fs = do {
     (vk, fs) \<leftarrow> take_valid s (e_field (t_elem t)) (t_valid t) fs;
     (k, ty, fs) \<leftarrow> check_elem s (t_elem t) fs;
     if (case vk of None \<Rightarrow> True | Some j \<Rightarrow> j < k \<and> k - j < 16) then do {
       (c, rs) \<leftarrow> check_tlvs s ts fs;
       Some (3 + fst (elem_wire True (t_elem t) ty) + c, snd (elem_wire True (t_elem t) ty) @ rs) }
     else None }"

text \<open>Tags ascend, the mandatory ones below 0x10 and the optional ones from 0x10 on, and the
  last TLV, and no other, is marked as such.\<close>

fun tlv_order :: "nat \<Rightarrow> tlv list \<Rightarrow> bool" where
  "tlv_order m [] = False"
| "tlv_order m (t # ts) \<longleftrightarrow> m < t_id t \<and> t_id t < 256 \<and> (t_valid t = None \<longleftrightarrow> t_id t < 16)
     \<and> (if ts = [] then t_last t else \<not> t_last t \<and> tlv_order (t_id t) ts)"

definition analyse_msg :: "ctype \<Rightarrow> idl_byte list \<Rightarrow> (nat \<times> refs) option" where
  "analyse_msg s ts = do {
     tl \<leftarrow> parse_tlvs ts;
     if tlv_order 0 tl then check_tlvs s tl (laid s) else None }"


section \<open>Whole descriptors\<close>

text \<open>The struct that a descriptor is about is the one its first offset names.\<close>

definition type_struct :: "idl_byte list \<Rightarrow> ctype option" where
  "type_struct d = map_option (e_struct \<circ> fst) (parse_elem d)"

definition msg_struct :: "idl_byte list \<Rightarrow> ctype option" where
  "msg_struct d = map_option (e_struct \<circ> t_elem \<circ> fst) (parse_tlv d)"

definition describe_type :: "idl_byte list \<Rightarrow> (ctype \<times> nat \<times> refs) option" where
  "describe_type d = do { s \<leftarrow> type_struct d; r \<leftarrow> analyse_type s d; Some (s, r) }"

definition describe_msg :: "idl_byte list \<Rightarrow> (ctype \<times> nat \<times> refs) option" where
  "describe_msg d = do { s \<leftarrow> msg_struct d; r \<leftarrow> analyse_msg s d; Some (s, r) }"

section \<open>What a descriptor promises\<close>

definition elem_names :: "idl_elem \<Rightarrow> string list" where
  "elem_names e = (case e_len e of None \<Rightarrow> [] | Some g \<Rightarrow> [g]) @ [e_field e]"

definition tlv_names :: "tlv \<Rightarrow> string list" where
  "tlv_names t = (case t_valid t of None \<Rightarrow> [] | Some (s, f, g) \<Rightarrow> [g]) @ elem_names (t_elem t)"

text \<open>The element names a field of \<open>s\<close>, its offset fits the bytes that hold it, the field lies
  inside the struct and has the described type and bound, and its length field is a
  \<^verbatim>\<open>uint32_t\<close> at a distance that fits a byte.\<close>

definition elem_fits :: "ctype \<Rightarrow> idl_elem \<Rightarrow> bool" where
  "elem_fits s e \<longleftrightarrow> (\<exists>k t t'. At (e_field e) k t \<in> set (laid s) \<and> e_struct e = s
     \<and> k + sizeof t \<le> sizeof s
     \<and> elem_type (e_array e) (e_base e) (e_bound e) t = Some t' \<and> base_matches (e_base e) t'
     \<and> k < (if e_off16 e then 65536 else 256)
     \<and> (case e_len e of None \<Rightarrow> True
        | Some g \<Rightarrow> \<exists>j. At g j C_uint32 \<in> set (laid s) \<and> j < k \<and> k - j < 256))"

definition tlv_fits :: "ctype \<Rightarrow> tlv \<Rightarrow> bool" where
  "tlv_fits s t \<longleftrightarrow> elem_fits s (t_elem t)
     \<and> (case t_valid t of None \<Rightarrow> True
        | Some (s', f, g) \<Rightarrow> s' = s \<and> f = e_field (t_elem t)
            \<and> (\<exists>j k ty. At g j C_uint8 \<in> set (laid s) \<and> At f k ty \<in> set (laid s) \<and> j < k \<and> k - j < 16))"

text \<open>The descriptor is well formed, and its elements are exactly the fields of the struct in
  their order.\<close>

definition describes_type :: "ctype \<Rightarrow> idl_byte list \<Rightarrow> bool" where
  "describes_type s d \<longleftrightarrow> (\<exists>es. parse_elems d = Some es \<and> list_all (elem_fits s) es
     \<and> concat (map elem_names es) = map p_name (laid s))"

definition describes_msg :: "ctype \<Rightarrow> idl_byte list \<Rightarrow> bool" where
  "describes_msg s d \<longleftrightarrow> (\<exists>ts. parse_tlvs d = Some ts \<and> tlv_order 0 ts \<and> list_all (tlv_fits s) ts
     \<and> concat (map tlv_names ts) = map p_name (laid s))"

section \<open>Soundness of the analysis\<close>

lemma align_up_ge: "n \<le> align_up a n"
  by (simp add: align_up_def)

lemma end_of_ge: "k \<le> end_of k fs"
proof (induction fs arbitrary: k)
  case (Cons c fs)
  obtain f t where c: "c = Field f t" by (cases c)
  have "k \<le> align_up (alignof t) k + sizeof t" using align_up_ge [of k "alignof t"] by simp
  also have "\<dots> \<le> end_of (align_up (alignof t) k + sizeof t) fs" by (rule Cons)
  finally show ?case by (simp add: c)
qed simp

lemma lay_inside: "At f k t \<in> set (lay j fs) \<Longrightarrow> k + sizeof t \<le> end_of j fs"
  by (induction j fs rule: lay.induct) (auto simp: end_of_ge)

lemma laid_inside: "At f k t \<in> set (laid s) \<Longrightarrow> k + sizeof t \<le> sizeof s"
proof (induction s rule: laid.induct)
  case (1 fs)
  then have "k + sizeof t \<le> end_of 0 fs" by (simp add: lay_inside)
  also have "\<dots> \<le> align_up (alignof_fields 1 fs) (end_of 0 fs)" by (rule align_up_ge)
  finally show ?case by simp
qed simp_all

lemma take_len_sound:
  "take_len l fs = Some (lk, fs') \<Longrightarrow> (l = None \<and> lk = None \<and> fs' = fs)
     \<or> (\<exists>g j. l = Some g \<and> lk = Some j \<and> fs = At g j C_uint32 # fs')"
  by (auto simp: take_len_def split: option.splits list.splits placed.splits if_splits)

lemma elem_fitsI:
  assumes "At (e_field e) k t \<in> set (laid s)" and "e_struct e = s"
    and "elem_type (e_array e) (e_base e) (e_bound e) t = Some t'" and "base_matches (e_base e) t'"
    and "k < (if e_off16 e then 65536 else 256)"
    and "e_len e = None \<or> (\<exists>g j. e_len e = Some g \<and> At g j C_uint32 \<in> set (laid s) \<and> j < k \<and> k - j < 256)"
  shows "elem_fits s e"
  unfolding elem_fits_def
  by (rule exI [of _ k], rule exI [of _ t], rule exI [of _ t'])
    (use assms laid_inside [OF assms(1)] in \<open>auto split: option.splits\<close>)

lemma check_elem_sound:
  assumes "check_elem s e fs = Some (k, t', fs')"
  shows "\<exists>used. fs = used @ fs' \<and> map p_name used = elem_names e
     \<and> (set used \<subseteq> set (laid s) \<longrightarrow> elem_fits s e) \<and> (\<exists>t. At (e_field e) k t \<in> set used)"
proof -
  obtain lk fs1 where l: "take_len (e_len e) fs = Some (lk, fs1)"
    using assms by (auto simp: check_elem_def split: Option.bind_splits)
  then obtain t where t: "fs1 = At (e_field e) k t # fs'" "e_struct e = s"
    "elem_type (e_array e) (e_base e) (e_bound e) t = Some t'" "base_matches (e_base e) t'"
    "k < (if e_off16 e then 65536 else 256)" "case lk of None \<Rightarrow> True | Some j \<Rightarrow> j < k \<and> k - j < 256"
    using assms
    by (auto simp: check_elem_def split: Option.bind_splits list.splits placed.splits if_splits)
  show ?thesis using take_len_sound [OF l]
  proof (elim disjE conjE exE)
    assume n: "e_len e = None" "fs1 = fs"
    with t show ?thesis
      by (intro exI [of _ "[At (e_field e) k t]"]) (auto simp: elem_names_def intro: elem_fitsI)
  next
    fix g j
    assume g: "e_len e = Some g" "lk = Some j" "fs = At g j C_uint32 # fs1"
    with t show ?thesis
      by (intro exI [of _ "[At g j C_uint32, At (e_field e) k t]"])
        (auto simp: elem_names_def intro!: elem_fitsI)
  qed
qed

lemma check_elems_sound:
  "check_elems s es fs = Some r \<Longrightarrow> set fs \<subseteq> set (laid s)
     \<Longrightarrow> list_all (elem_fits s) es \<and> concat (map elem_names es) = map p_name fs"
proof (induction s es fs arbitrary: r rule: check_elems.induct)
  case (2 s e es fs)
  then obtain k t fs' r' where c: "check_elem s e fs = Some (k, t, fs')" "check_elems s es fs' = Some r'"
    by (auto split: Option.bind_splits)
  with check_elem_sound [OF c(1)] 2 show ?case by force
qed (simp split: if_splits)

lemma describe_type_sound: "describe_type d = Some (s, r) \<Longrightarrow> describes_type s d"
  by (auto simp: describe_type_def analyse_type_def describes_type_def
        dest!: check_elems_sound split: Option.bind_splits)

lemma take_valid_sound:
  "take_valid s f v fs = Some (vk, fs') \<Longrightarrow> (v = None \<and> vk = None \<and> fs' = fs)
     \<or> (\<exists>g j. v = Some (s, f, g) \<and> vk = Some j \<and> fs = At g j C_uint8 # fs')"
  by (auto simp: take_valid_def split: option.splits list.splits placed.splits if_splits)

lemma check_tlvs_sound:
  "check_tlvs s ts fs = Some r \<Longrightarrow> set fs \<subseteq> set (laid s)
     \<Longrightarrow> list_all (tlv_fits s) ts \<and> concat (map tlv_names ts) = map p_name fs"
proof (induction s ts fs arbitrary: r rule: check_tlvs.induct)
  case (2 s t ts fs)
  then obtain vk fs1 k ty fs2 r' where
    v: "take_valid s (e_field (t_elem t)) (t_valid t) fs = Some (vk, fs1)" and
    e: "check_elem s (t_elem t) fs1 = Some (k, ty, fs2)" and
    d: "case vk of None \<Rightarrow> True | Some j \<Rightarrow> j < k \<and> k - j < 16" and
    r: "check_tlvs s ts fs2 = Some r'"
    by (auto split: Option.bind_splits if_splits)
  obtain used u where used: "fs1 = used @ fs2" "map p_name used = elem_names (t_elem t)"
    "set used \<subseteq> set (laid s) \<longrightarrow> elem_fits s (t_elem t)" "At (e_field (t_elem t)) k u \<in> set used"
    using check_elem_sound [OF e] by blast
  have sub: "set fs1 \<subseteq> set (laid s)" "set fs2 \<subseteq> set (laid s)"
    using take_valid_sound [OF v] used(1) 2(3) by auto
  have IH: "list_all (tlv_fits s) ts \<and> concat (map tlv_names ts) = map p_name fs2"
    using "2.IH" v e d r sub(2) by auto
  have fit: "elem_fits s (t_elem t)" "At (e_field (t_elem t)) k u \<in> set (laid s)"
    using used sub by auto
  show ?case
    using take_valid_sound [OF v] IH fit used 2(3) d
    by (auto simp: tlv_fits_def [of s t] tlv_names_def [of t]) blast
qed (simp split: if_splits)

lemma describe_msg_sound: "describe_msg d = Some (s, r) \<Longrightarrow> describes_msg s d"
  by (auto simp: describe_msg_def analyse_msg_def describes_msg_def
        dest!: check_tlvs_sound split: Option.bind_splits if_splits)

section \<open>Tables\<close>

text \<open>Entries of the type table, of the message table (a message without content has no
  descriptor) and of the service's lists of messages: identifier, type and largest length.\<close>

type_synonym qmi_idl_type_table_entry = "nat \<times> idl_byte list"

type_synonym qmi_idl_message_table_entry = "nat \<times> idl_byte list option"

datatype idl_type16 = QMI_IDL_TYPE16 nat nat

type_synonym qmi_idl_service_message_table_entry = "nat \<times> idl_type16 \<times> nat"

text \<open>The largest encoding of every type, in the order of the table: a type may only refer to
  types before it, so there is no infinite nesting. \<open>cw\<close> gives the encoded sizes of the types
  of the common table, which the QMI library supplies. A message is a sequence of TLVs with
  three bytes of tag and length each.\<close>

fun refs_wire :: "(nat \<Rightarrow> nat) \<Rightarrow> nat list \<Rightarrow> refs \<Rightarrow> nat option" where
  "refs_wire cw ws [] = Some 0"
| "refs_wire cw ws ((m, (t, n), ty) # rs) =
     (if t = 0 \<and> \<not> n < length ws then None
      else map_option (\<lambda>x. m * (if t = 0 then ws ! n else cw n) + x) (refs_wire cw ws rs))"

definition type_wire :: "(nat \<Rightarrow> nat) \<Rightarrow> nat list \<Rightarrow> idl_byte list \<Rightarrow> nat option" where
  "type_wire cw ws d = do { (s, c, rs) \<leftarrow> describe_type d; x \<leftarrow> refs_wire cw ws rs; Some (c + x) }"

fun type_wires :: "(nat \<Rightarrow> nat) \<Rightarrow> nat list \<Rightarrow> qmi_idl_type_table_entry list \<Rightarrow> nat list option" where
  "type_wires cw ws [] = Some ws"
| "type_wires cw ws (e # es) = do { w \<leftarrow> type_wire cw ws (snd e); type_wires cw (ws @ [w]) es }"

definition msg_wire :: "(nat \<Rightarrow> nat) \<Rightarrow> nat list \<Rightarrow> idl_byte list option \<Rightarrow> nat option" where
  "msg_wire cw ws d = (case d of None \<Rightarrow> Some 0
     | Some d \<Rightarrow> do { (s, c, rs) \<leftarrow> describe_msg d; x \<leftarrow> refs_wire cw ws rs; Some (c + x) })"

text \<open>A reference to entry \<open>n\<close> of the type table is made for a field whose type is the struct of
  that entry; the only entry of the common table that is used is the first, for the response type.\<close>

definition entry_structs :: "qmi_idl_type_table_entry list \<Rightarrow> ctype option list" where
  "entry_structs tbl = map (\<lambda>e. map_option fst (describe_type (snd e))) tbl"

fun ref_ok :: "ctype \<Rightarrow> ctype option list \<Rightarrow> nat \<times> (nat \<times> nat) \<times> ctype \<Rightarrow> bool" where
  "ref_ok resp_t ss (m, (t, n), ty) =
     (if t = 0 then n < length ss \<and> ss ! n = Some ty else t = 1 \<and> n = 0 \<and> ty = resp_t)"

definition type_entry_ok :: "ctype \<Rightarrow> ctype option list \<Rightarrow> qmi_idl_type_table_entry \<Rightarrow> bool" where
  "type_entry_ok resp_t ss e = (case describe_type (snd e) of None \<Rightarrow> False
     | Some (s, c, rs) \<Rightarrow> fst e = sizeof s \<and> list_all (ref_ok resp_t ss) rs)"

definition msg_entry_ok :: "ctype \<Rightarrow> ctype option list \<Rightarrow> qmi_idl_message_table_entry \<Rightarrow> bool" where
  "msg_entry_ok resp_t ss e = (case snd e of None \<Rightarrow> True
     | Some d \<Rightarrow> (case describe_msg d of None \<Rightarrow> False
         | Some (s, c, rs) \<Rightarrow> fst e = sizeof s \<and> list_all (ref_ok resp_t ss) rs))"

lemma type_entry_ok_sound:
  "type_entry_ok resp_t ss e \<Longrightarrow> \<exists>s c rs. fst e = sizeof s \<and> describes_type s (snd e)
     \<and> describe_type (snd e) = Some (s, c, rs) \<and> list_all (ref_ok resp_t ss) rs"
  by (auto simp: type_entry_ok_def dest: describe_type_sound split: option.splits)

lemma msg_entry_ok_sound:
  "msg_entry_ok resp_t ss (n, Some d) \<Longrightarrow> \<exists>s c rs. n = sizeof s \<and> describes_msg s d
     \<and> describe_msg d = Some (s, c, rs) \<and> list_all (ref_ok resp_t ss) rs"
  by (auto simp: msg_entry_ok_def dest: describe_msg_sound split: option.splits)

section \<open>Evaluation\<close>


lemma idl_cong:
  "x # xs = x # xs" "Field f t = Field f t" "OFFSET8 s f = OFFSET8 s f" "OFFSET16ARRAY s f = OFFSET16ARRAY s f"
  "OFFSET8_DIFF s f g = OFFSET8_DIFF s f g" "OFFSET16_DIFF s f g = OFFSET16_DIFF s f g"
  "k = k' \<Longrightarrow> At f k t = At f k' t"
  "\<lbrakk>a = a'; v = v'; o16 = o16'; s16 = s16'; n = n'\<rbrakk> \<Longrightarrow> Elem a v o16 s16 b s f n l r = Elem a' v' o16' s16' b s f n' l r"
  "m = m' \<Longrightarrow> Option.bind m h = Option.bind m' h"
  by simp_all

text \<open>The rules above keep the simplifier from descending into parts that are already in
  normal form.\<close>

lemmas [layout_simps] = align_up_def

lemmas [analyse_simps] = describe_type_def describe_msg_def type_struct_def msg_struct_def analyse_type_def
  analyse_msg_def take_len_def take_valid_def check_elem_def elem_wire_def prefix_size_def parse_tlv.simps

end
