(* ===== verification/LocConsts.thy ===== *)
theory LocConsts
  imports QmiIdl
begin

text \<open>
  Constants, enumerations and scalar types of \<^verbatim>\<open>src/location/loc_api/loc_api_v02/location_service_v02.h\<close>
  that the structs of the QMI location service use: the length bounds, the enumerations with
  their enumerators, and the names given to integer types.
\<close>

section \<open>Length bounds\<close>

definition QMI_LOC_MAX_CLIENT_ID_STRING_LENGTH_V02 :: nat where [layout_simps]: "QMI_LOC_MAX_CLIENT_ID_STRING_LENGTH_V02 = 4"
definition QMI_LOC_MAX_APP_ID_PROVIDER_LENGTH_V02 :: nat where [layout_simps]: "QMI_LOC_MAX_APP_ID_PROVIDER_LENGTH_V02 = 24"
definition QMI_LOC_MAX_APP_ID_NAME_LENGTH_V02 :: nat where [layout_simps]: "QMI_LOC_MAX_APP_ID_NAME_LENGTH_V02 = 32"
definition QMI_LOC_MAX_APP_ID_VERSION_LENGTH_V02 :: nat where [layout_simps]: "QMI_LOC_MAX_APP_ID_VERSION_LENGTH_V02 = 8"
definition QMI_LOC_MAX_SV_USED_LIST_LENGTH_V02 :: nat where [layout_simps]: "QMI_LOC_MAX_SV_USED_LIST_LENGTH_V02 = 80"
definition QMI_LOC_EXPANDED_SV_INFO_LIST_MAX_SIZE_V02 :: nat where [layout_simps]: "QMI_LOC_EXPANDED_SV_INFO_LIST_MAX_SIZE_V02 = 176"
definition QMI_LOC_MAX_GNSS_SIGNAL_TYPE_V02 :: nat where [layout_simps]: "QMI_LOC_MAX_GNSS_SIGNAL_TYPE_V02 = 19"
definition QMI_LOC_ENU_ARRAY_LENGTH_V02 :: nat where [layout_simps]: "QMI_LOC_ENU_ARRAY_LENGTH_V02 = 3"
definition QMI_LOC_DGNSS_STATION_ID_ARRAY_LENGTH_V02 :: nat where [layout_simps]: "QMI_LOC_DGNSS_STATION_ID_ARRAY_LENGTH_V02 = 3"
definition QMI_LOC_ENV_AIDING_CORRECTION_MAX_SV_USED_V02 :: nat where [layout_simps]: "QMI_LOC_ENV_AIDING_CORRECTION_MAX_SV_USED_V02 = 60"
definition QMI_LOC_SV_INFO_LIST_MAX_SIZE_V02 :: nat where [layout_simps]: "QMI_LOC_SV_INFO_LIST_MAX_SIZE_V02 = 80"
definition QMI_LOC_NMEA_STRING_MAX_LENGTH_V02 :: nat where [layout_simps]: "QMI_LOC_NMEA_STRING_MAX_LENGTH_V02 = 200"
definition QMI_LOC_EXPANDED_NMEA_STRING_MAX_LENGTH_V02 :: nat where [layout_simps]: "QMI_LOC_EXPANDED_NMEA_STRING_MAX_LENGTH_V02 = 4095"
definition QMI_LOC_NI_MAX_REQUESTOR_ID_LENGTH_V02 :: nat where [layout_simps]: "QMI_LOC_NI_MAX_REQUESTOR_ID_LENGTH_V02 = 200"
definition QMI_LOC_NI_SUPL_SLP_SESSION_ID_BYTE_LENGTH_V02 :: nat where [layout_simps]: "QMI_LOC_NI_SUPL_SLP_SESSION_ID_BYTE_LENGTH_V02 = 4"
definition QMI_LOC_NI_MAX_CLIENT_NAME_LENGTH_V02 :: nat where [layout_simps]: "QMI_LOC_NI_MAX_CLIENT_NAME_LENGTH_V02 = 64"
definition QMI_LOC_MAX_SERVER_ADDR_LENGTH_V02 :: nat where [layout_simps]: "QMI_LOC_MAX_SERVER_ADDR_LENGTH_V02 = 255"
definition QMI_LOC_IPV6_ADDR_LENGTH_V02 :: nat where [layout_simps]: "QMI_LOC_IPV6_ADDR_LENGTH_V02 = 8"
definition QMI_LOC_NI_SUPL_HASH_LENGTH_V02 :: nat where [layout_simps]: "QMI_LOC_NI_SUPL_HASH_LENGTH_V02 = 8"
definition QMI_LOC_NI_MAX_EXT_CLIENT_ADDRESS_V02 :: nat where [layout_simps]: "QMI_LOC_NI_MAX_EXT_CLIENT_ADDRESS_V02 = 20"
definition QMI_LOC_NI_CODEWORD_MAX_LENGTH_V02 :: nat where [layout_simps]: "QMI_LOC_NI_CODEWORD_MAX_LENGTH_V02 = 20"
definition QMI_LOC_MAX_NTP_SERVERS_V02 :: nat where [layout_simps]: "QMI_LOC_MAX_NTP_SERVERS_V02 = 3"
definition QMI_LOC_MAX_PREDICTED_ORBITS_SERVERS_V02 :: nat where [layout_simps]: "QMI_LOC_MAX_PREDICTED_ORBITS_SERVERS_V02 = 3"
definition QMI_LOC_MAX_GEOFENCE_ID_CONTINUOUS_LIST_LENGTH_V02 :: nat where [layout_simps]: "QMI_LOC_MAX_GEOFENCE_ID_CONTINUOUS_LIST_LENGTH_V02 = 80"
definition QMI_LOC_MAX_GEOFENCE_ID_DISCRETE_LIST_LENGTH_V02 :: nat where [layout_simps]: "QMI_LOC_MAX_GEOFENCE_ID_DISCRETE_LIST_LENGTH_V02 = 80"
definition QMI_LOC_MAX_GDT_PATH_LEN_V02 :: nat where [layout_simps]: "QMI_LOC_MAX_GDT_PATH_LEN_V02 = 255"
definition QMI_LOC_MAX_GTP_CL_INFO_LEN_V02 :: nat where [layout_simps]: "QMI_LOC_MAX_GTP_CL_INFO_LEN_V02 = 1500"
definition QMI_LOC_MAX_GTP_MSD_LEN_V02 :: nat where [layout_simps]: "QMI_LOC_MAX_GTP_MSD_LEN_V02 = 4000"
definition QMI_LOC_GNSS_ME_VERSION_STRING_MAX_LENGTH_V02 :: nat where [layout_simps]: "QMI_LOC_GNSS_ME_VERSION_STRING_MAX_LENGTH_V02 = 127"
definition QMI_LOC_GNSS_HOSTED_SW_VERSION_STRING_MAX_LENGTH_V02 :: nat where [layout_simps]: "QMI_LOC_GNSS_HOSTED_SW_VERSION_STRING_MAX_LENGTH_V02 = 127"
definition QMI_LOC_GNSS_SW_VERSION_STRING_MAX_LENGTH_V02 :: nat where [layout_simps]: "QMI_LOC_GNSS_SW_VERSION_STRING_MAX_LENGTH_V02 = 255"
definition QMI_LOC_MAX_PREDICTED_ORBITS_PART_LEN_V02 :: nat where [layout_simps]: "QMI_LOC_MAX_PREDICTED_ORBITS_PART_LEN_V02 = 1024"
definition QMI_LOC_DELETE_MAX_SV_INFO_LENGTH_V02 :: nat where [layout_simps]: "QMI_LOC_DELETE_MAX_SV_INFO_LENGTH_V02 = 128"
definition QMI_LOC_DELETE_MAX_BDS_SV_INFO_LENGTH_V02 :: nat where [layout_simps]: "QMI_LOC_DELETE_MAX_BDS_SV_INFO_LENGTH_V02 = 37"
definition QMI_LOC_DELETE_MAX_GAL_SV_INFO_LENGTH_V02 :: nat where [layout_simps]: "QMI_LOC_DELETE_MAX_GAL_SV_INFO_LENGTH_V02 = 36"
definition QMI_LOC_WIFI_MAC_ADDR_LENGTH_V02 :: nat where [layout_simps]: "QMI_LOC_WIFI_MAC_ADDR_LENGTH_V02 = 6"
definition QMI_LOC_MAX_WIFI_AP_SSID_STR_LENGTH_V02 :: nat where [layout_simps]: "QMI_LOC_MAX_WIFI_AP_SSID_STR_LENGTH_V02 = 32"
definition QMI_LOC_WIFI_MAX_REPORTED_APS_PER_MSG_V02 :: nat where [layout_simps]: "QMI_LOC_WIFI_MAX_REPORTED_APS_PER_MSG_V02 = 50"
definition QMI_LOC_SENSOR_DATA_MAX_SAMPLES_V02 :: nat where [layout_simps]: "QMI_LOC_SENSOR_DATA_MAX_SAMPLES_V02 = 50"
definition QMI_LOC_MAX_APN_NAME_LENGTH_V02 :: nat where [layout_simps]: "QMI_LOC_MAX_APN_NAME_LENGTH_V02 = 100"
definition QMI_LOC_MAX_SUPL_CERT_LENGTH_V02 :: nat where [layout_simps]: "QMI_LOC_MAX_SUPL_CERT_LENGTH_V02 = 2000"
definition QMI_LOC_GEOFENCE_MAX_MOTION_STATES_V02 :: nat where [layout_simps]: "QMI_LOC_GEOFENCE_MAX_MOTION_STATES_V02 = 20"
definition QMI_LOC_MAX_NI_GEOFENCE_ID_LIST_LENGTH_V02 :: nat where [layout_simps]: "QMI_LOC_MAX_NI_GEOFENCE_ID_LIST_LENGTH_V02 = 16"
definition QMI_LOC_MAX_INJECTED_NETWORK_INITIATED_MESSAGE_LENGTH_V02 :: nat where [layout_simps]: "QMI_LOC_MAX_INJECTED_NETWORK_INITIATED_MESSAGE_LENGTH_V02 = 1024"
definition QMI_LOC_READ_FROM_BATCH_MAX_SIZE_V02 :: nat where [layout_simps]: "QMI_LOC_READ_FROM_BATCH_MAX_SIZE_V02 = 5"
definition QMI_LOC_VEHICLE_SENSOR_DATA_MAX_SAMPLES_V02 :: nat where [layout_simps]: "QMI_LOC_VEHICLE_SENSOR_DATA_MAX_SAMPLES_V02 = 65"
definition QMI_LOC_VEHICLE_SENSOR_DATA_MAX_AXES_V02 :: nat where [layout_simps]: "QMI_LOC_VEHICLE_SENSOR_DATA_MAX_AXES_V02 = 3"
definition QMI_LOC_VEHICLE_ODOMETRY_MAX_MEASUREMENTS_V02 :: nat where [layout_simps]: "QMI_LOC_VEHICLE_ODOMETRY_MAX_MEASUREMENTS_V02 = 3"
definition QMI_LOC_SV_MEAS_LIST_MAX_SIZE_V02 :: nat where [layout_simps]: "QMI_LOC_SV_MEAS_LIST_MAX_SIZE_V02 = 16"
definition QMI_LOC_EXT_SV_MEAS_LIST_MAX_SIZE_V02 :: nat where [layout_simps]: "QMI_LOC_EXT_SV_MEAS_LIST_MAX_SIZE_V02 = 8"
definition QMI_LOC_SV_MEAS_OTHER_CODE_TYPE_NAME_MAX_LEN_V02 :: nat where [layout_simps]: "QMI_LOC_SV_MEAS_OTHER_CODE_TYPE_NAME_MAX_LEN_V02 = 8"
definition QMI_LOC_DGNSS_SV_MEAS_LIST_MAX_SIZE_V02 :: nat where [layout_simps]: "QMI_LOC_DGNSS_SV_MEAS_LIST_MAX_SIZE_V02 = 24"
definition QMI_LOC_SV_POLY_VELOCITY_COEF_SIZE_V02 :: nat where [layout_simps]: "QMI_LOC_SV_POLY_VELOCITY_COEF_SIZE_V02 = 12"
definition QMI_LOC_SV_POLY_XYZ_0_TH_ORDER_COEFF_SIZE_V02 :: nat where [layout_simps]: "QMI_LOC_SV_POLY_XYZ_0_TH_ORDER_COEFF_SIZE_V02 = 3"
definition QMI_LOC_SV_POLY_XYZ_N_TH_ORDER_COEFF_SIZE_V02 :: nat where [layout_simps]: "QMI_LOC_SV_POLY_XYZ_N_TH_ORDER_COEFF_SIZE_V02 = 9"
definition QMI_LOC_SV_POLY_SV_CLKBIAS_COEFF_SIZE_V02 :: nat where [layout_simps]: "QMI_LOC_SV_POLY_SV_CLKBIAS_COEFF_SIZE_V02 = 4"
definition QMI_LOC_MAX_IBEACON_UUID_STR_LENGTH_V02 :: nat where [layout_simps]: "QMI_LOC_MAX_IBEACON_UUID_STR_LENGTH_V02 = 32"
definition QMI_LOC_WIFI_AREA_ID_LIST_LENGTH_V02 :: nat where [layout_simps]: "QMI_LOC_WIFI_AREA_ID_LIST_LENGTH_V02 = 20"
definition QMI_LOC_CELL_ID_LIST_LENGTH_V02 :: nat where [layout_simps]: "QMI_LOC_CELL_ID_LIST_LENGTH_V02 = 20"
definition QMI_LOC_IBEACON_LIST_LENGTH_V02 :: nat where [layout_simps]: "QMI_LOC_IBEACON_LIST_LENGTH_V02 = 20"
definition QMI_LOC_MAX_GTP_WWAN_CLIENT_DOWNLOADED_DATA_LEN_V02 :: nat where [layout_simps]: "QMI_LOC_MAX_GTP_WWAN_CLIENT_DOWNLOADED_DATA_LEN_V02 = 512"
definition QMI_LOC_MAX_OEM_ID_LEN_V02 :: nat where [layout_simps]: "QMI_LOC_MAX_OEM_ID_LEN_V02 = 256"
definition QMI_LOC_MAX_MODEL_ID_LEN_V02 :: nat where [layout_simps]: "QMI_LOC_MAX_MODEL_ID_LEN_V02 = 256"
definition QMI_LOC_MAX_GTP_RLI_LEN_V02 :: nat where [layout_simps]: "QMI_LOC_MAX_GTP_RLI_LEN_V02 = 256"
definition QMI_LOC_SECURE_GET_AVAILABLE_POS_REQUEST_ENCRYPTED_MAX_V02 :: nat where [layout_simps]: "QMI_LOC_SECURE_GET_AVAILABLE_POS_REQUEST_ENCRYPTED_MAX_V02 = 256"
definition QMI_LOC_SECURE_GET_AVAILABLE_POSITION_IND_ENCRYPTED_MAX_V02 :: nat where [layout_simps]: "QMI_LOC_SECURE_GET_AVAILABLE_POSITION_IND_ENCRYPTED_MAX_V02 = 1024"
definition QMI_LOC_APCACHE_DATA_MAX_SAMPLES_V02 :: nat where [layout_simps]: "QMI_LOC_APCACHE_DATA_MAX_SAMPLES_V02 = 80"
definition QMI_LOC_MAX_XTRA_PART_LEN_V02 :: nat where [layout_simps]: "QMI_LOC_MAX_XTRA_PART_LEN_V02 = 1024"
definition QMI_LOC_SUPPORTED_FEATURE_LENGTH_V02 :: nat where [layout_simps]: "QMI_LOC_SUPPORTED_FEATURE_LENGTH_V02 = 100"
definition QMI_LOC_INTERNAL_STATUS_REPORT_DATA_LENGTH_V02 :: nat where [layout_simps]: "QMI_LOC_INTERNAL_STATUS_REPORT_DATA_LENGTH_V02 = 56"
definition QMI_LOC_INTERNAL_STATUS_MAX_LIST_SIZE_V02 :: nat where [layout_simps]: "QMI_LOC_INTERNAL_STATUS_MAX_LIST_SIZE_V02 = 67"
definition QMI_LOC_SRN_MAX_REPORTED_APS_PER_MSG_V02 :: nat where [layout_simps]: "QMI_LOC_SRN_MAX_REPORTED_APS_PER_MSG_V02 = 64"
definition QMI_LOC_SRN_MAC_ADDR_LENGTH_V02 :: nat where [layout_simps]: "QMI_LOC_SRN_MAC_ADDR_LENGTH_V02 = 6"
definition QMI_LOC_MAX_WIFI_CROWDSOURCING_SERVER_CONFIG_LEN_V02 :: nat where [layout_simps]: "QMI_LOC_MAX_WIFI_CROWDSOURCING_SERVER_CONFIG_LEN_V02 = 512"
definition QMI_LOC_MAX_CROWDSOURCING_MODEM_CLIENT_INFO_LEN_V02 :: nat where [layout_simps]: "QMI_LOC_MAX_CROWDSOURCING_MODEM_CLIENT_INFO_LEN_V02 = 512"
definition QMI_LOC_FDCL_BS_LIST_MAX_SIZE_V02 :: nat where [layout_simps]: "QMI_LOC_FDCL_BS_LIST_MAX_SIZE_V02 = 100"
definition QMI_LOC_FDCL_CELL_POS_LIST_LENGTH_V02 :: nat where [layout_simps]: "QMI_LOC_FDCL_CELL_POS_LIST_LENGTH_V02 = 20"
definition QMI_LOC_INJECT_FDCL_DATA_ERROR_MSG_LEN_V02 :: nat where [layout_simps]: "QMI_LOC_INJECT_FDCL_DATA_ERROR_MSG_LEN_V02 = 255"
definition QMI_LOC_MAX_DCREPORT_LEN_V02 :: nat where [layout_simps]: "QMI_LOC_MAX_DCREPORT_LEN_V02 = 64"
definition QMI_LOC_EPHEMERIS_LIST_MAX_SIZE_V02 :: nat where [layout_simps]: "QMI_LOC_EPHEMERIS_LIST_MAX_SIZE_V02 = 8"
definition QMI_LOC_MAX_REQUESTOR_ID_STRING_LENGTH_V02 :: nat where [layout_simps]: "QMI_LOC_MAX_REQUESTOR_ID_STRING_LENGTH_V02 = 20"
definition QMI_LOC_FILTER_ELEMENT_SIZE_SEVENTEEN_V02 :: nat where [layout_simps]: "QMI_LOC_FILTER_ELEMENT_SIZE_SEVENTEEN_V02 = 17"
definition QMI_LOC_FILTER_ELEMENT_SIZE_SIX_V02 :: nat where [layout_simps]: "QMI_LOC_FILTER_ELEMENT_SIZE_SIX_V02 = 6"
definition QMI_LOC_FILTER_ELEMENT_SIZE_THREE_V02 :: nat where [layout_simps]: "QMI_LOC_FILTER_ELEMENT_SIZE_THREE_V02 = 3"
definition QMI_LOC_FILTER_ELEMENT_SIZE_FOUR_V02 :: nat where [layout_simps]: "QMI_LOC_FILTER_ELEMENT_SIZE_FOUR_V02 = 4"
definition QMI_LOC_IPM_ELEMENT_SIZE_THREE_V02 :: nat where [layout_simps]: "QMI_LOC_IPM_ELEMENT_SIZE_THREE_V02 = 3"
definition QMI_LOC_IPM_ELEMENT_SIZE_NINE_V02 :: nat where [layout_simps]: "QMI_LOC_IPM_ELEMENT_SIZE_NINE_V02 = 9"
definition QMI_LOC_INS_ELEMENT_SIZE_THREE_V02 :: nat where [layout_simps]: "QMI_LOC_INS_ELEMENT_SIZE_THREE_V02 = 3"
definition QMI_LOC_INS_ELEMENT_SIZE_TWO_V02 :: nat where [layout_simps]: "QMI_LOC_INS_ELEMENT_SIZE_TWO_V02 = 2"

section \<open>Integer types\<close>

definition qmiLocEventRegMaskT_v02 :: ctype where [layout_simps]: "qmiLocEventRegMaskT_v02 = C_uint64"
definition qmiLocPosTechMaskT_v02 :: ctype where [layout_simps]: "qmiLocPosTechMaskT_v02 = C_uint32"
definition qmiLocSensorUsageMaskT_v02 :: ctype where [layout_simps]: "qmiLocSensorUsageMaskT_v02 = C_uint32"
definition qmiLocSensorAidedMaskT_v02 :: ctype where [layout_simps]: "qmiLocSensorAidedMaskT_v02 = C_uint32"
definition qmiLocNavSolutionMaskT_v02 :: ctype where [layout_simps]: "qmiLocNavSolutionMaskT_v02 = C_uint64"
definition qmiLocSensorSubTechnologyMaskT_v02 :: ctype where [layout_simps]: "qmiLocSensorSubTechnologyMaskT_v02 = C_uint32"
definition qmiLocSpoofMaskT_v02 :: ctype where [layout_simps]: "qmiLocSpoofMaskT_v02 = C_uint64"
definition qmiLocGnssSignalTypeMaskT_v02 :: ctype where [layout_simps]: "qmiLocGnssSignalTypeMaskT_v02 = C_uint64"
definition qmiLocGNSSConstellEnumT_v02 :: ctype where [layout_simps]: "qmiLocGNSSConstellEnumT_v02 = C_uint64"
definition qmiLocSvInfoValidMaskT_v02 :: ctype where [layout_simps]: "qmiLocSvInfoValidMaskT_v02 = C_uint32"
definition qmiLocSvInfoMaskT_v02 :: ctype where [layout_simps]: "qmiLocSvInfoMaskT_v02 = C_uint8"
definition qmiLocSuplQopValidMaskT_v02 :: ctype where [layout_simps]: "qmiLocSuplQopValidMaskT_v02 = C_uint8"
definition qmiLocServerAddrTypeMaskT_v02 :: ctype where [layout_simps]: "qmiLocServerAddrTypeMaskT_v02 = C_uint8"
definition qmiLocNiSuplNotifyVerifyValidMaskT_v02 :: ctype where [layout_simps]: "qmiLocNiSuplNotifyVerifyValidMaskT_v02 = C_uint32"
definition qmiLocNiUmtsCpNotifyVerifyValidMaskT_v02 :: ctype where [layout_simps]: "qmiLocNiUmtsCpNotifyVerifyValidMaskT_v02 = C_uint16"
definition qmiLocNiSuplVer2ExtSupportedNetworksMaskT_v02 :: ctype where [layout_simps]: "qmiLocNiSuplVer2ExtSupportedNetworksMaskT_v02 = C_uint16"
definition qmiLocNiSuplVer2ExtGnssTypeMaskT_v02 :: ctype where [layout_simps]: "qmiLocNiSuplVer2ExtGnssTypeMaskT_v02 = C_uint16"
definition qmiLocServerParamUpdateMaskT_v02 :: ctype where [layout_simps]: "qmiLocServerParamUpdateMaskT_v02 = C_uint64"
definition qmiLocApnTypeMaskT_v02 :: ctype where [layout_simps]: "qmiLocApnTypeMaskT_v02 = C_uint64"
definition qmiLocGdtDownloadReqMaskT_v02 :: ctype where [layout_simps]: "qmiLocGdtDownloadReqMaskT_v02 = C_uint32"
definition qmiLocLockClientMaskT_v02 :: ctype where [layout_simps]: "qmiLocLockClientMaskT_v02 = C_uint64"
definition qmiLocNmeaSentenceMaskT_v02 :: ctype where [layout_simps]: "qmiLocNmeaSentenceMaskT_v02 = C_uint32"
definition qmiLocDeleteGnssDataMaskT_v02 :: ctype where [layout_simps]: "qmiLocDeleteGnssDataMaskT_v02 = C_uint64"
definition qmiLocDeleteCelldbDataMaskT_v02 :: ctype where [layout_simps]: "qmiLocDeleteCelldbDataMaskT_v02 = C_uint32"
definition qmiLocDeleteClockInfoMaskT_v02 :: ctype where [layout_simps]: "qmiLocDeleteClockInfoMaskT_v02 = C_uint32"
definition qmiLocExtDeleteClockInfoMaskT_v02 :: ctype where [layout_simps]: "qmiLocExtDeleteClockInfoMaskT_v02 = C_uint64"
definition qmiLocDeleteSvInfoMaskT_v02 :: ctype where [layout_simps]: "qmiLocDeleteSvInfoMaskT_v02 = C_uint8"
definition qmiLocWifiApQualifierMaskT_v02 :: ctype where [layout_simps]: "qmiLocWifiApQualifierMaskT_v02 = C_uint8"
definition qmiLocSensorDataFlagMaskT_v02 :: ctype where [layout_simps]: "qmiLocSensorDataFlagMaskT_v02 = C_uint8"
definition qmiLocLppConfigMaskT_v02 :: ctype where [layout_simps]: "qmiLocLppConfigMaskT_v02 = C_uint32"
definition qmiLocAssistedGlonassProtocolMaskT_v02 :: ctype where [layout_simps]: "qmiLocAssistedGlonassProtocolMaskT_v02 = C_uint32"
definition qmiLocLppeUpAuxTechMaskT_v02 :: ctype where [layout_simps]: "qmiLocLppeUpAuxTechMaskT_v02 = C_uint64"
definition qmiLocLppeCpAuxTechMaskT_v02 :: ctype where [layout_simps]: "qmiLocLppeCpAuxTechMaskT_v02 = C_uint64"
definition qmiLocProtocolConfigParamMaskT_v02 :: ctype where [layout_simps]: "qmiLocProtocolConfigParamMaskT_v02 = C_uint64"
definition qmiLocSensorPropertiesMaskT_v02 :: ctype where [layout_simps]: "qmiLocSensorPropertiesMaskT_v02 = C_uint32"
definition qmiLocVehicleDataUseControlMaskT_v02 :: ctype where [layout_simps]: "qmiLocVehicleDataUseControlMaskT_v02 = C_uint64"
definition qmiLocSensorAlgorithmMaskT_v02 :: ctype where [layout_simps]: "qmiLocSensorAlgorithmMaskT_v02 = C_uint32"
definition qmiLocSensorPerformanceControlConfigFailureMaskT_v02 :: ctype where [layout_simps]: "qmiLocSensorPerformanceControlConfigFailureMaskT_v02 = C_uint32"
definition qmiLocPositionEngineConfigParamMaskT_v02 :: ctype where [layout_simps]: "qmiLocPositionEngineConfigParamMaskT_v02 = C_uint32"
definition qmiLocGeofenceBreachMaskT_v02 :: ctype where [layout_simps]: "qmiLocGeofenceBreachMaskT_v02 = C_uint8"
definition qmiLocGeofenceDwellTypeMaskT_v02 :: ctype where [layout_simps]: "qmiLocGeofenceDwellTypeMaskT_v02 = C_uint8"
definition qmiLocMotionDetectionSourceMaskT_v02 :: ctype where [layout_simps]: "qmiLocMotionDetectionSourceMaskT_v02 = C_uint32"
definition qmiLocGeofenceConfigParamMaskT_v02 :: ctype where [layout_simps]: "qmiLocGeofenceConfigParamMaskT_v02 = C_uint32"
definition qmiLocBatchedReportValidFieldsMaskT_v02 :: ctype where [layout_simps]: "qmiLocBatchedReportValidFieldsMaskT_v02 = C_uint64"
definition qmiLocWifiApDataMaskT_v02 :: ctype where [layout_simps]: "qmiLocWifiApDataMaskT_v02 = C_uint32"
definition qmiLocAxesMaskT_v02 :: ctype where [layout_simps]: "qmiLocAxesMaskT_v02 = C_uint8"
definition qmiLocVehicleOdometryMeasDeviationMaskType_v02 :: ctype where [layout_simps]: "qmiLocVehicleOdometryMeasDeviationMaskType_v02 = C_uint32"
definition qmiLocVehicleOdometryWheelFlagsMaskT_v02 :: ctype where [layout_simps]: "qmiLocVehicleOdometryWheelFlagsMaskT_v02 = C_uint32"
definition qmiLocInterSystemBiasValidMaskT_v02 :: ctype where [layout_simps]: "qmiLocInterSystemBiasValidMaskT_v02 = C_uint8"
definition qmiLocSvMeasStatusValidMaskT_v02 :: ctype where [layout_simps]: "qmiLocSvMeasStatusValidMaskT_v02 = C_uint64"
definition qmiLocSvMeasStatusMaskT_v02 :: ctype where [layout_simps]: "qmiLocSvMeasStatusMaskT_v02 = C_uint64"
definition qmiLocMeasFieldsValidMaskT_v02 :: ctype where [layout_simps]: "qmiLocMeasFieldsValidMaskT_v02 = C_uint16"
definition qmiLocSvDgnssMeasStatusMaskT_v02 :: ctype where [layout_simps]: "qmiLocSvDgnssMeasStatusMaskT_v02 = C_uint64"
definition qmiLocSvPolyStatusMaskT_v02 :: ctype where [layout_simps]: "qmiLocSvPolyStatusMaskT_v02 = C_uint16"
definition qmiLocSvPolyStatusMaskValidityT_v02 :: ctype where [layout_simps]: "qmiLocSvPolyStatusMaskValidityT_v02 = C_uint16"
definition qmiLocSignalHealthMaskT_v02 :: ctype where [layout_simps]: "qmiLocSignalHealthMaskT_v02 = C_uint64"
definition qmiLocAonCapabilityMaskT_v02 :: ctype where [layout_simps]: "qmiLocAonCapabilityMaskT_v02 = C_uint32"
definition qmiLocDeleteCommonDataMaskT_v02 :: ctype where [layout_simps]: "qmiLocDeleteCommonDataMaskT_v02 = C_uint32"
definition qmiLocDeleteSatelliteDataMaskT_v02 :: ctype where [layout_simps]: "qmiLocDeleteSatelliteDataMaskT_v02 = C_uint32"
definition qmiLocGNSSConstellMaskT_v02 :: ctype where [layout_simps]: "qmiLocGNSSConstellMaskT_v02 = C_uint32"
definition qmiLocFeaturesStatusMaskT_v02 :: ctype where [layout_simps]: "qmiLocFeaturesStatusMaskT_v02 = C_uint64"
definition qmiLocSrnApDataDeviceTypeMaskT_v02 :: ctype where [layout_simps]: "qmiLocSrnApDataDeviceTypeMaskT_v02 = C_uint32"
definition qmiLocSrnApDataMaskT_v02 :: ctype where [layout_simps]: "qmiLocSrnApDataMaskT_v02 = C_uint32"
definition qmiLocCrowdSourcingTechnologyMaskT_v02 :: ctype where [layout_simps]: "qmiLocCrowdSourcingTechnologyMaskT_v02 = C_uint32"
definition qmiLocCrowdSourcingSourceMaskT_v02 :: ctype where [layout_simps]: "qmiLocCrowdSourcingSourceMaskT_v02 = C_uint32"
definition qmiLocXtraConfigMaskT_v02 :: ctype where [layout_simps]: "qmiLocXtraConfigMaskT_v02 = C_uint32"
definition qmiLocXtraInfoMaskT_v02 :: ctype where [layout_simps]: "qmiLocXtraInfoMaskT_v02 = C_uint32"
definition qmiLocFdclCellPosValidMaskT_v02 :: ctype where [layout_simps]: "qmiLocFdclCellPosValidMaskT_v02 = C_uint32"
definition qmiLocConstellationMaskT_v02 :: ctype where [layout_simps]: "qmiLocConstellationMaskT_v02 = C_uint64"
definition qmiLocBsObservedDataValidMaskT_v02 :: ctype where [layout_simps]: "qmiLocBsObservedDataValidMaskT_v02 = C_uint64"
definition qmiLocEventReportMaskT_v02 :: ctype where [layout_simps]: "qmiLocEventReportMaskT_v02 = C_uint64"
definition qmiLocResponseLocProtocolMaskT_v02 :: ctype where [layout_simps]: "qmiLocResponseLocProtocolMaskT_v02 = C_uint32"
definition qmiLocEnvAidingSvCorrectionValidMaskT_v02 :: ctype where [layout_simps]: "qmiLocEnvAidingSvCorrectionValidMaskT_v02 = C_uint64"

section \<open>Enumerations\<close>

definition qmiLocStatusEnumT_v02 :: ctype where
  "qmiLocStatusEnumT_v02 = C_enum
    [(''QMILOCSTATUSENUMT_MIN_ENUM_VAL_V02'', - 2147483647), (''eQMI_LOC_SUCCESS_V02'', 0),
     (''eQMI_LOC_GENERAL_FAILURE_V02'', 1), (''eQMI_LOC_UNSUPPORTED_V02'', 2),
     (''eQMI_LOC_INVALID_PARAMETER_V02'', 3), (''eQMI_LOC_ENGINE_BUSY_V02'', 4),
     (''eQMI_LOC_PHONE_OFFLINE_V02'', 5), (''eQMI_LOC_TIMEOUT_V02'', 6),
     (''eQMI_LOC_CONFIG_NOT_SUPPORTED_V02'', 7), (''eQMI_LOC_INSUFFICIENT_MEMORY_V02'', 8),
     (''eQMI_LOC_MAX_GEOFENCE_PROGRAMMED_V02'', 9), (''eQMI_LOC_XTRA_VERSION_CHECK_FAILURE_V02'', 10),
     (''eQMI_LOC_GNSS_DISABLED_V02'', 11), (''QMILOCSTATUSENUMT_MAX_ENUM_VAL_V02'', 2147483647)]"

definition qmiLocClientTypeEnumT_v02 :: ctype where
  "qmiLocClientTypeEnumT_v02 = C_enum
    [(''QMILOCCLIENTTYPEENUMT_MIN_ENUM_VAL_V02'', - 2147483647), (''eQMI_LOC_CLIENT_AFW_V02'', 1),
     (''eQMI_LOC_CLIENT_NFW_V02'', 2), (''eQMI_LOC_CLIENT_PRIVILEGED_V02'', 3),
     (''QMILOCCLIENTTYPEENUMT_MAX_ENUM_VAL_V02'', 2147483647)]"

definition qmiLocFixRecurrenceEnumT_v02 :: ctype where
  "qmiLocFixRecurrenceEnumT_v02 = C_enum
    [(''QMILOCFIXRECURRENCEENUMT_MIN_ENUM_VAL_V02'', - 2147483647),
     (''eQMI_LOC_RECURRENCE_PERIODIC_V02'', 1), (''eQMI_LOC_RECURRENCE_SINGLE_V02'', 2),
     (''QMILOCFIXRECURRENCEENUMT_MAX_ENUM_VAL_V02'', 2147483647)]"

definition qmiLocAccuracyLevelEnumT_v02 :: ctype where
  "qmiLocAccuracyLevelEnumT_v02 = C_enum
    [(''QMILOCACCURACYLEVELENUMT_MIN_ENUM_VAL_V02'', - 2147483647), (''eQMI_LOC_ACCURACY_LOW_V02'', 1),
     (''eQMI_LOC_ACCURACY_MED_V02'', 2), (''eQMI_LOC_ACCURACY_HIGH_V02'', 3),
     (''QMILOCACCURACYLEVELENUMT_MAX_ENUM_VAL_V02'', 2147483647)]"

definition qmiLocIntermediateReportStateEnumT_v02 :: ctype where
  "qmiLocIntermediateReportStateEnumT_v02 = C_enum
    [(''QMILOCINTERMEDIATEREPORTSTATEENUMT_MIN_ENUM_VAL_V02'', - 2147483647),
     (''eQMI_LOC_INTERMEDIATE_REPORTS_ON_V02'', 1), (''eQMI_LOC_INTERMEDIATE_REPORTS_OFF_V02'', 2),
     (''QMILOCINTERMEDIATEREPORTSTATEENUMT_MAX_ENUM_VAL_V02'', 2147483647)]"

definition qmiLocConfigIncludeAltitudeAssumedInGnssSvInfoEnumT_v02 :: ctype where
  "qmiLocConfigIncludeAltitudeAssumedInGnssSvInfoEnumT_v02 = C_enum
    [(''QMILOCCONFIGINCLUDEALTITUDEASSUMEDINGNSSSVINFOENUMT_MIN_ENUM_VAL_V02'', - 2147483647),
     (''eQMI_LOC_ALTITUDE_ASSUMED_IN_GNSS_SV_INFO_ENABLED_V02'', 1),
     (''eQMI_LOC_ALTITUDE_ASSUMED_IN_GNSS_SV_INFO_DISABLED_V02'', 2),
     (''QMILOCCONFIGINCLUDEALTITUDEASSUMEDINGNSSSVINFOENUMT_MAX_ENUM_VAL_V02'', 2147483647)]"

definition qmiLocPowerModeEnumT_v02 :: ctype where
  "qmiLocPowerModeEnumT_v02 = C_enum
    [(''QMILOCPOWERMODEENUMT_MIN_ENUM_VAL_V02'', - 2147483647),
     (''eQMI_LOC_POWER_MODE_IMPROVED_ACCURACY_V02'', 1), (''eQMI_LOC_POWER_MODE_NORMAL_V02'', 2),
     (''eQMI_LOC_POWER_MODE_BACKGROUND_DEFINED_POWER_V02'', 3),
     (''eQMI_LOC_POWER_MODE_BACKGROUND_DEFINED_TIME_V02'', 4),
     (''eQMI_LOC_POWER_MODE_BACKGROUND_KEEP_WARM_V02'', 5),
     (''QMILOCPOWERMODEENUMT_MAX_ENUM_VAL_V02'', 2147483647)]"

definition qmiLocSpecialReqEnumT_v02 :: ctype where
  "qmiLocSpecialReqEnumT_v02 = C_enum
    [(''QMILOCSPECIALREQENUMT_MIN_ENUM_VAL_V02'', - 2147483647),
     (''eQMI_LOC_SPECIAL_REQUEST_SHORT_CODE_V02'', 1),
     (''QMILOCSPECIALREQENUMT_MAX_ENUM_VAL_V02'', 2147483647)]"

definition qmiLocSessionStatusEnumT_v02 :: ctype where
  "qmiLocSessionStatusEnumT_v02 = C_enum
    [(''QMILOCSESSIONSTATUSENUMT_MIN_ENUM_VAL_V02'', - 2147483647),
     (''eQMI_LOC_SESS_STATUS_SUCCESS_V02'', 0), (''eQMI_LOC_SESS_STATUS_IN_PROGRESS_V02'', 1),
     (''eQMI_LOC_SESS_STATUS_GENERAL_FAILURE_V02'', 2), (''eQMI_LOC_SESS_STATUS_TIMEOUT_V02'', 3),
     (''eQMI_LOC_SESS_STATUS_USER_END_V02'', 4), (''eQMI_LOC_SESS_STATUS_BAD_PARAMETER_V02'', 5),
     (''eQMI_LOC_SESS_STATUS_PHONE_OFFLINE_V02'', 6), (''eQMI_LOC_SESS_STATUS_ENGINE_LOCKED_V02'', 7),
     (''QMILOCSESSIONSTATUSENUMT_MAX_ENUM_VAL_V02'', 2147483647)]"

definition qmiLocTimeSourceEnumT_v02 :: ctype where
  "qmiLocTimeSourceEnumT_v02 = C_enum
    [(''QMILOCTIMESOURCEENUMT_MIN_ENUM_VAL_V02'', - 2147483647), (''eQMI_LOC_TIME_SRC_INVALID_V02'', 0),
     (''eQMI_LOC_TIME_SRC_NETWORK_TIME_TRANSFER_V02'', 1),
     (''eQMI_LOC_TIME_SRC_NETWORK_TIME_TAGGING_V02'', 2), (''eQMI_LOC_TIME_SRC_EXTERNAL_INPUT_V02'', 3),
     (''eQMI_LOC_TIME_SRC_TOW_DECODE_V02'', 4), (''eQMI_LOC_TIME_SRC_TOW_CONFIRMED_V02'', 5),
     (''eQMI_LOC_TIME_SRC_TOW_AND_WEEK_CONFIRMED_V02'', 6), (''eQMI_LOC_TIME_SRC_NAV_SOLUTION_V02'', 7),
     (''eQMI_LOC_TIME_SRC_SOLVE_FOR_TIME_V02'', 8), (''eQMI_LOC_TIME_SRC_GLO_TOW_DECODE_V02'', 9),
     (''eQMI_LOC_TIME_SRC_TIME_TRANSFORM_V02'', 10),
     (''eQMI_LOC_TIME_SRC_WCDMA_SLEEP_TIME_TAGGING_V02'', 11),
     (''eQMI_LOC_TIME_SRC_GSM_SLEEP_TIME_TAGGING_V02'', 12), (''eQMI_LOC_TIME_SRC_UNKNOWN_V02'', 13),
     (''eQMI_LOC_TIME_SRC_SYSTEM_TIMETICK_V02'', 14), (''eQMI_LOC_TIME_SRC_QZSS_TOW_DECODE_V02'', 15),
     (''eQMI_LOC_TIME_SRC_BDS_TOW_DECODE_V02'', 16), (''eQMI_LOC_TIME_SRC_GAL_TOW_DECODE_V02'', 17),
     (''eQMI_LOC_TIME_SRC_NAVIC_TOW_DECODE_V02'', 18),
     (''QMILOCTIMESOURCEENUMT_MAX_ENUM_VAL_V02'', 2147483647)]"

definition qmiLocReliabilityEnumT_v02 :: ctype where
  "qmiLocReliabilityEnumT_v02 = C_enum
    [(''QMILOCRELIABILITYENUMT_MIN_ENUM_VAL_V02'', - 2147483647),
     (''eQMI_LOC_RELIABILITY_NOT_SET_V02'', 0), (''eQMI_LOC_RELIABILITY_VERY_LOW_V02'', 1),
     (''eQMI_LOC_RELIABILITY_LOW_V02'', 2), (''eQMI_LOC_RELIABILITY_MEDIUM_V02'', 3),
     (''eQMI_LOC_RELIABILITY_HIGH_V02'', 4), (''QMILOCRELIABILITYENUMT_MAX_ENUM_VAL_V02'', 2147483647)]"

definition qmiLocDgnssCorrectionSourceTypeEnumT_v02 :: ctype where
  "qmiLocDgnssCorrectionSourceTypeEnumT_v02 = C_enum
    [(''QMILOCDGNSSCORRECTIONSOURCETYPEENUMT_MIN_ENUM_VAL_V02'', - 2147483647),
     (''eQMI_LOC_DGNSS_CORR_SOURCE_TYPE_INVALID_V02'', 0),
     (''eQMI_LOC_DGNSS_CORR_SOURCE_TYPE_RTCM_V02'', 1),
     (''eQMI_LOC_DGNSS_CORR_SOURCE_TYPE_3GPP_V02'', 2),
     (''QMILOCDGNSSCORRECTIONSOURCETYPEENUMT_MAX_ENUM_VAL_V02'', 2147483647)]"

definition qmiLocSvSystemEnumT_v02 :: ctype where
  "qmiLocSvSystemEnumT_v02 = C_enum
    [(''QMILOCSVSYSTEMENUMT_MIN_ENUM_VAL_V02'', - 2147483647), (''eQMI_LOC_SV_SYSTEM_GPS_V02'', 1),
     (''eQMI_LOC_SV_SYSTEM_GALILEO_V02'', 2), (''eQMI_LOC_SV_SYSTEM_SBAS_V02'', 3),
     (''eQMI_LOC_SV_SYSTEM_COMPASS_V02'', 4), (''eQMI_LOC_SV_SYSTEM_GLONASS_V02'', 5),
     (''eQMI_LOC_SV_SYSTEM_BDS_V02'', 6), (''eQMI_LOC_SV_SYSTEM_QZSS_V02'', 7),
     (''eQMI_LOC_SV_SYSTEM_NAVIC_V02'', 8), (''QMILOCSVSYSTEMENUMT_MAX_ENUM_VAL_V02'', 2147483647)]"

definition qmiLocSvStatusEnumT_v02 :: ctype where
  "qmiLocSvStatusEnumT_v02 = C_enum
    [(''QMILOCSVSTATUSENUMT_MIN_ENUM_VAL_V02'', - 2147483647), (''eQMI_LOC_SV_STATUS_IDLE_V02'', 1),
     (''eQMI_LOC_SV_STATUS_SEARCH_V02'', 2), (''eQMI_LOC_SV_STATUS_TRACK_V02'', 3),
     (''QMILOCSVSTATUSENUMT_MAX_ENUM_VAL_V02'', 2147483647)]"

definition qmiLocNiNotifyVerifyEnumT_v02 :: ctype where
  "qmiLocNiNotifyVerifyEnumT_v02 = C_enum
    [(''QMILOCNINOTIFYVERIFYENUMT_MIN_ENUM_VAL_V02'', - 2147483647),
     (''eQMI_LOC_NI_USER_NO_NOTIFY_NO_VERIFY_V02'', 1), (''eQMI_LOC_NI_USER_NOTIFY_ONLY_V02'', 2),
     (''eQMI_LOC_NI_USER_NOTIFY_VERIFY_ALLOW_NO_RESP_V02'', 3),
     (''eQMI_LOC_NI_USER_NOTIFY_VERIFY_NOT_ALLOW_NO_RESP_V02'', 4),
     (''eQMI_LOC_NI_USER_NOTIFY_VERIFY_PRIVACY_OVERRIDE_V02'', 5),
     (''QMILOCNINOTIFYVERIFYENUMT_MAX_ENUM_VAL_V02'', 2147483647)]"

definition qmiLocNiVxPosModeEnumT_v02 :: ctype where
  "qmiLocNiVxPosModeEnumT_v02 = C_enum
    [(''QMILOCNIVXPOSMODEENUMT_MIN_ENUM_VAL_V02'', - 2147483647),
     (''eQMI_LOC_NI_VX_MS_ASSISTED_ONLY_V02'', 1), (''eQMI_LOC_NI_VX_MS_BASED_ONLY_V02'', 2),
     (''eQMI_LOC_NI_VX_MS_ASSISTED_PREFERRED_MS_BASED_ALLOWED_V02'', 3),
     (''eQMI_LOC_NI_VX_MS_BASED_PREFERRED_MS_ASSISTED_ALLOWED_V02'', 4),
     (''QMILOCNIVXPOSMODEENUMT_MAX_ENUM_VAL_V02'', 2147483647)]"

definition qmiLocNiVxRequestorIdEncodingSchemeEnumT_v02 :: ctype where
  "qmiLocNiVxRequestorIdEncodingSchemeEnumT_v02 = C_enum
    [(''QMILOCNIVXREQUESTORIDENCODINGSCHEMEENUMT_MIN_ENUM_VAL_V02'', - 2147483647),
     (''eQMI_LOC_NI_VX_OCTET_V02'', 0), (''eQMI_LOC_NI_VX_EXN_PROTOCOL_MSG_V02'', 1),
     (''eQMI_LOC_NI_VX_ASCII_V02'', 2), (''eQMI_LOC_NI_VX_IA5_V02'', 3),
     (''eQMI_LOC_NI_VX_UNICODE_V02'', 4), (''eQMI_LOC_NI_VX_SHIFT_JIS_V02'', 5),
     (''eQMI_LOC_NI_VX_KOREAN_V02'', 6), (''eQMI_LOC_NI_VX_LATIN_HEBREW_V02'', 7),
     (''eQMI_LOC_NI_VX_LATIN_V02'', 8), (''eQMI_LOC_NI_VX_GSM_V02'', 9),
     (''QMILOCNIVXREQUESTORIDENCODINGSCHEMEENUMT_MAX_ENUM_VAL_V02'', 2147483647)]"

definition qmiLocNiSuplPosMethodEnumT_v02 :: ctype where
  "qmiLocNiSuplPosMethodEnumT_v02 = C_enum
    [(''QMILOCNISUPLPOSMETHODENUMT_MIN_ENUM_VAL_V02'', - 2147483647),
     (''eQMI_LOC_NI_SUPL_POSMETHOD_AGPS_SETASSISTED_V02'', 1),
     (''eQMI_LOC_NI_SUPL_POSMETHOD_AGPS_SETBASED_V02'', 2),
     (''eQMI_LOC_NI_SUPL_POSMETHOD_AGPS_SETASSISTED_PREF_V02'', 3),
     (''eQMI_LOC_NI_SUPL_POSMETHOD_AGPS_SETBASED_PREF_V02'', 4),
     (''eQMI_LOC_NI_SUPL_POSMETHOD_AUTONOMOUS_GPS_V02'', 5),
     (''eQMI_LOC_NI_SUPL_POSMETHOD_AFLT_V02'', 6), (''eQMI_LOC_NI_SUPL_POSMETHOD_ECID_V02'', 7),
     (''eQMI_LOC_NI_SUPL_POSMETHOD_EOTD_V02'', 8), (''eQMI_LOC_NI_SUPL_POSMETHOD_OTDOA_V02'', 9),
     (''eQMI_LOC_NI_SUPL_POSMETHOD_NO_POSITION_V02'', 10),
     (''QMILOCNISUPLPOSMETHODENUMT_MAX_ENUM_VAL_V02'', 2147483647)]"

definition qmiLocNiDataCodingSchemeEnumT_v02 :: ctype where
  "qmiLocNiDataCodingSchemeEnumT_v02 = C_enum
    [(''QMILOCNIDATACODINGSCHEMEENUMT_MIN_ENUM_VAL_V02'', - 2147483647),
     (''eQMI_LOC_NI_SS_GERMAN_V02'', 12), (''eQMI_LOC_NI_SS_ENGLISH_V02'', 13),
     (''eQMI_LOC_NI_SS_ITALIAN_V02'', 14), (''eQMI_LOC_NI_SS_FRENCH_V02'', 15),
     (''eQMI_LOC_NI_SS_SPANISH_V02'', 16), (''eQMI_LOC_NI_SS_DUTCH_V02'', 17),
     (''eQMI_LOC_NI_SS_SWEDISH_V02'', 18), (''eQMI_LOC_NI_SS_DANISH_V02'', 19),
     (''eQMI_LOC_NI_SS_PORTUGUESE_V02'', 20), (''eQMI_LOC_NI_SS_FINNISH_V02'', 21),
     (''eQMI_LOC_NI_SS_NORWEGIAN_V02'', 22), (''eQMI_LOC_NI_SS_GREEK_V02'', 23),
     (''eQMI_LOC_NI_SS_TURKISH_V02'', 24), (''eQMI_LOC_NI_SS_HUNGARIAN_V02'', 25),
     (''eQMI_LOC_NI_SS_POLISH_V02'', 26), (''eQMI_LOC_NI_SS_LANGUAGE_UNSPEC_V02'', 27),
     (''eQMI_LOC_NI_SUPL_UTF8_V02'', 28), (''eQMI_LOC_NI_SUPL_UCS2_V02'', 29),
     (''eQMI_LOC_NI_SUPL_GSM_DEFAULT_V02'', 30),
     (''QMILOCNIDATACODINGSCHEMEENUMT_MAX_ENUM_VAL_V02'', 2147483647)]"

definition qmiLocNiSuplFormatEnumType_v02 :: ctype where
  "qmiLocNiSuplFormatEnumType_v02 = C_enum
    [(''QMILOCNISUPLFORMATENUMTYPE_MIN_ENUM_VAL_V02'', - 2147483647),
     (''eQMI_LOC_NI_SUPL_FORMAT_LOGICAL_NAME_V02'', 0),
     (''eQMI_LOC_NI_SUPL_FORMAT_EMAIL_ADDRESS_V02'', 1), (''eQMI_LOC_NI_SUPL_FORMAT_MSISDN_V02'', 2),
     (''eQMI_LOC_NI_SUPL_FORMAT_URL_V02'', 3), (''eQMI_LOC_NI_SUPL_FORMAT_SIP_URL_V02'', 4),
     (''eQMI_LOC_NI_SUPL_FORMAT_MIN_V02'', 5), (''eQMI_LOC_NI_SUPL_FORMAT_MDN_V02'', 6),
     (''eQMI_LOC_NI_SUPL_FORMAT_IMSPUBLIC_IDENTITY_V02'', 7),
     (''eQMI_LOC_NI_SUPL_FORMAT_OSS_UNKNOWN_V02'', 2147483647),
     (''QMILOCNISUPLFORMATENUMTYPE_MAX_ENUM_VAL_V02'', 2147483647)]"

definition qmiLocNiLocationTypeEnumT_v02 :: ctype where
  "qmiLocNiLocationTypeEnumT_v02 = C_enum
    [(''QMILOCNILOCATIONTYPEENUMT_MIN_ENUM_VAL_V02'', - 2147483647),
     (''eQMI_LOC_NI_LOCATIONTYPE_CURRENT_LOCATION_V02'', 1),
     (''eQMI_LOC_NI_LOCATIONTYPE_CURRENT_OR_LAST_KNOWN_LOCATION_V02'', 2),
     (''eQMI_LOC_NI_LOCATIONTYPE_INITIAL_LOCATION_V02'', 3),
     (''QMILOCNILOCATIONTYPEENUMT_MAX_ENUM_VAL_V02'', 2147483647)]"

definition qmiLocNiServiceInteractionEnumT_v02 :: ctype where
  "qmiLocNiServiceInteractionEnumT_v02 = C_enum
    [(''QMILOCNISERVICEINTERACTIONENUMT_MIN_ENUM_VAL_V02'', - 2147483647),
     (''eQMI_LOC_NI_SERVICE_INTERACTION_ONGOING_NI_INCOMING_MO_V02'', 1),
     (''QMILOCNISERVICEINTERACTIONENUMT_MAX_ENUM_VAL_V02'', 2147483647)]"

definition qmiLocNiSuplVer2ExtTriggerTypeEnumT_v02 :: ctype where
  "qmiLocNiSuplVer2ExtTriggerTypeEnumT_v02 = C_enum
    [(''QMILOCNISUPLVER2EXTTRIGGERTYPEENUMT_MIN_ENUM_VAL_V02'', - 2147483647),
     (''eQMI_LOC_SUPL_VER_2_EXT_TRIGGER_TYPE_SINGLE_SHOT_V02'', - 1),
     (''eQMI_LOC_SUPL_VER_2_EXT_TRIGGER_TYPE_PERIODIC_V02'', 0),
     (''eQMI_LOC_SUPL_VER_2_EXT_TRIGGER_TYPE_AREA_EVENT_V02'', 1),
     (''QMILOCNISUPLVER2EXTTRIGGERTYPEENUMT_MAX_ENUM_VAL_V02'', 2147483647)]"

definition qmiLocInjectedOrbitUpdateTypeEnumT_v02 :: ctype where
  "qmiLocInjectedOrbitUpdateTypeEnumT_v02 = C_enum
    [(''QMILOCINJECTEDORBITUPDATETYPEENUMT_MIN_ENUM_VAL_V02'', - 2147483647),
     (''eQMI_LOC_INJECTED_ORBIT_RATE_UPDATE_V02'', 1), (''eQMI_LOC_INTEGRITY_RATE_UPDATE_V02'', 2),
     (''QMILOCINJECTEDORBITUPDATETYPEENUMT_MAX_ENUM_VAL_V02'', 2147483647)]"

definition qmiLocEngineStateEnumT_v02 :: ctype where
  "qmiLocEngineStateEnumT_v02 = C_enum
    [(''QMILOCENGINESTATEENUMT_MIN_ENUM_VAL_V02'', - 2147483647), (''eQMI_LOC_ENGINE_STATE_ON_V02'', 1),
     (''eQMI_LOC_ENGINE_STATE_OFF_V02'', 2), (''QMILOCENGINESTATEENUMT_MAX_ENUM_VAL_V02'', 2147483647)]"

definition qmiLocFixSessionStateEnumT_v02 :: ctype where
  "qmiLocFixSessionStateEnumT_v02 = C_enum
    [(''QMILOCFIXSESSIONSTATEENUMT_MIN_ENUM_VAL_V02'', - 2147483647),
     (''eQMI_LOC_FIX_SESSION_STARTED_V02'', 1), (''eQMI_LOC_FIX_SESSION_FINISHED_V02'', 2),
     (''QMILOCFIXSESSIONSTATEENUMT_MAX_ENUM_VAL_V02'', 2147483647)]"

definition qmiLocWifiRequestEnumT_v02 :: ctype where
  "qmiLocWifiRequestEnumT_v02 = C_enum
    [(''QMILOCWIFIREQUESTENUMT_MIN_ENUM_VAL_V02'', - 2147483647),
     (''eQMI_LOC_WIFI_START_PERIODIC_HI_FREQ_FIXES_V02'', 0),
     (''eQMI_LOC_WIFI_START_PERIODIC_KEEP_WARM_V02'', 1),
     (''eQMI_LOC_WIFI_STOP_PERIODIC_FIXES_V02'', 2),
     (''QMILOCWIFIREQUESTENUMT_MAX_ENUM_VAL_V02'', 2147483647)]"

definition qmiLocWWANTypeEnumT_v02 :: ctype where
  "qmiLocWWANTypeEnumT_v02 = C_enum
    [(''QMILOCWWANTYPEENUMT_MIN_ENUM_VAL_V02'', - 2147483647), (''eQMI_LOC_WWAN_TYPE_INTERNET_V02'', 0),
     (''eQMI_LOC_WWAN_TYPE_AGNSS_V02'', 1), (''eQMI_LOC_WWAN_TYPE_AGNSS_EMERGENCY_V02'', 2),
     (''QMILOCWWANTYPEENUMT_MAX_ENUM_VAL_V02'', 2147483647)]"

definition qmiLocServerRequestEnumT_v02 :: ctype where
  "qmiLocServerRequestEnumT_v02 = C_enum
    [(''QMILOCSERVERREQUESTENUMT_MIN_ENUM_VAL_V02'', - 2147483647),
     (''eQMI_LOC_SERVER_REQUEST_OPEN_V02'', 1), (''eQMI_LOC_SERVER_REQUEST_CLOSE_V02'', 2),
     (''QMILOCSERVERREQUESTENUMT_MAX_ENUM_VAL_V02'', 2147483647)]"

definition qmiLocBearerTypeEnumT_v02 :: ctype where
  "qmiLocBearerTypeEnumT_v02 = C_enum
    [(''QMILOCBEARERTYPEENUMT_MIN_ENUM_VAL_V02'', - 2147483647), (''eQMI_LOC_BEARER_TYPE_WWAN_V02'', 1),
     (''eQMI_LOC_BEARER_TYPE_WLAN_V02'', 2), (''eQMI_LOC_BEARER_TYPE_ANY_V02'', 3),
     (''QMILOCBEARERTYPEENUMT_MAX_ENUM_VAL_V02'', 2147483647)]"

definition qmiLocSysModemAsIdTypeEnumT_v02 :: ctype where
  "qmiLocSysModemAsIdTypeEnumT_v02 = C_enum
    [(''QMILOCSYSMODEMASIDTYPEENUMT_MIN_ENUM_VAL_V02'', - 2147483647),
     (''eQMI_LOC_SYS_MODEM_AS_ID_1_V02'', 0), (''eQMI_LOC_SYS_MODEM_AS_ID_2_V02'', 1),
     (''eQMI_LOC_SYS_MODEM_AS_ID_3_V02'', 2),
     (''QMILOCSYSMODEMASIDTYPEENUMT_MAX_ENUM_VAL_V02'', 2147483647)]"

definition qmiLocNiGeofenceOperationEnumT_v02 :: ctype where
  "qmiLocNiGeofenceOperationEnumT_v02 = C_enum
    [(''QMILOCNIGEOFENCEOPERATIONENUMT_MIN_ENUM_VAL_V02'', - 2147483647),
     (''eQMI_LOC_NI_GEOFENCE_ADDED_V02'', 1), (''eQMI_LOC_NI_GEOFENCE_DELETED_V02'', 2),
     (''eQMI_LOC_NI_GEOFENCE_EDITED_V02'', 3),
     (''QMILOCNIGEOFENCEOPERATIONENUMT_MAX_ENUM_VAL_V02'', 2147483647)]"

definition qmiLocGeofenceGenAlertEnumT_v02 :: ctype where
  "qmiLocGeofenceGenAlertEnumT_v02 = C_enum
    [(''QMILOCGEOFENCEGENALERTENUMT_MIN_ENUM_VAL_V02'', - 2147483647),
     (''eQMI_LOC_GEOFENCE_GEN_ALERT_GNSS_UNAVAILABLE_V02'', 1),
     (''eQMI_LOC_GEOFENCE_GEN_ALERT_GNSS_AVAILABLE_V02'', 2),
     (''eQMI_LOC_GEOFENCE_GEN_ALERT_OOS_V02'', 3),
     (''eQMI_LOC_GEOFENCE_GEN_ALERT_TIME_INVALID_V02'', 4),
     (''QMILOCGEOFENCEGENALERTENUMT_MAX_ENUM_VAL_V02'', 2147483647)]"

definition qmiLocGeofenceBreachTypeEnumT_v02 :: ctype where
  "qmiLocGeofenceBreachTypeEnumT_v02 = C_enum
    [(''QMILOCGEOFENCEBREACHTYPEENUMT_MIN_ENUM_VAL_V02'', - 2147483647),
     (''eQMI_LOC_GEOFENCE_BREACH_TYPE_ENTERING_V02'', 1),
     (''eQMI_LOC_GEOFENCE_BREACH_TYPE_LEAVING_V02'', 2),
     (''QMILOCGEOFENCEBREACHTYPEENUMT_MAX_ENUM_VAL_V02'', 2147483647)]"

definition qmiLocGeofenceConfidenceEnumT_v02 :: ctype where
  "qmiLocGeofenceConfidenceEnumT_v02 = C_enum
    [(''QMILOCGEOFENCECONFIDENCEENUMT_MIN_ENUM_VAL_V02'', - 2147483647),
     (''eQMI_LOC_GEOFENCE_CONFIDENCE_LOW_V02'', 1), (''eQMI_LOC_GEOFENCE_CONFIDENCE_MED_V02'', 2),
     (''eQMI_LOC_GEOFENCE_CONFIDENCE_HIGH_V02'', 3),
     (''QMILOCGEOFENCECONFIDENCEENUMT_MAX_ENUM_VAL_V02'', 2147483647)]"

definition qmiLocGeofenceProximityTypeEnumT_v02 :: ctype where
  "qmiLocGeofenceProximityTypeEnumT_v02 = C_enum
    [(''QMILOCGEOFENCEPROXIMITYTYPEENUMT_MIN_ENUM_VAL_V02'', - 2147483647),
     (''eQMI_LOC_GEOFENCE_PROXIMITY_TYPE_IN_V02'', 1),
     (''eQMI_LOC_GEOFENCE_PROXIMITY_TYPE_OUT_V02'', 2),
     (''QMILOCGEOFENCEPROXIMITYTYPEENUMT_MAX_ENUM_VAL_V02'', 2147483647)]"

definition qmiLocGeofenceDwellTypeEnumT_v02 :: ctype where
  "qmiLocGeofenceDwellTypeEnumT_v02 = C_enum
    [(''QMILOCGEOFENCEDWELLTYPEENUMT_MIN_ENUM_VAL_V02'', - 2147483647),
     (''eQMI_LOC_GEOFENCE_DWELL_TYPE_INSIDE_V02'', 1),
     (''eQMI_LOC_GEOFENCE_DWELL_TYPE_OUTSIDE_V02'', 2),
     (''QMILOCGEOFENCEDWELLTYPEENUMT_MAX_ENUM_VAL_V02'', 2147483647)]"

definition qmiLocGdtServiceIdEnumT_v02 :: ctype where
  "qmiLocGdtServiceIdEnumT_v02 = C_enum
    [(''QMILOCGDTSERVICEIDENUMT_MIN_ENUM_VAL_V02'', - 2147483647),
     (''eQMI_LOC_GDT_SERVICE_WWAN_V02'', 1), (''eQMI_LOC_GDT_SERVICE_WWAN_DL_V02'', 2),
     (''eQMI_LOC_GDT_SERVICE_CSM_UL_V02'', 3),
     (''QMILOCGDTSERVICEIDENUMT_MAX_ENUM_VAL_V02'', 2147483647)]"

definition qmiLocGdtAccessStatusEnumT_v02 :: ctype where
  "qmiLocGdtAccessStatusEnumT_v02 = C_enum
    [(''QMILOCGDTACCESSSTATUSENUMT_MIN_ENUM_VAL_V02'', - 2147483647),
     (''eQMI_LOC_GDT_ACCESS_ALLOWED_V02'', 1), (''eQMI_LOC_GDT_ACCESS_FAILED_V02'', 2),
     (''eQMI_LOC_GDT_ACCESS_NOT_ALLOWED_V02'', 3),
     (''QMILOCGDTACCESSSTATUSENUMT_MAX_ENUM_VAL_V02'', 2147483647)]"

definition qmiLocGdtEndStatusEnumT_v02 :: ctype where
  "qmiLocGdtEndStatusEnumT_v02 = C_enum
    [(''QMILOCGDTENDSTATUSENUMT_MIN_ENUM_VAL_V02'', - 2147483647), (''eQMI_LOC_GDT_SUCCESS_V02'', 1),
     (''eQMI_LOC_GDT_FAILED_V02'', 2), (''eQMI_LOC_GDT_INVALID_V02'', 3),
     (''QMILOCGDTENDSTATUSENUMT_MAX_ENUM_VAL_V02'', 2147483647)]"

definition qmiLocGdtReceiveStatusEnumT_v02 :: ctype where
  "qmiLocGdtReceiveStatusEnumT_v02 = C_enum
    [(''QMILOCGDTRECEIVESTATUSENUMT_MIN_ENUM_VAL_V02'', - 2147483647),
     (''eQMI_LOC_GTP_RCV_STATUS_CONTINUE_V02'', 1), (''eQMI_LOC_GTP_RCV_STATUS_DONE_V02'', 2),
     (''QMILOCGDTRECEIVESTATUSENUMT_MAX_ENUM_VAL_V02'', 2147483647)]"

definition qmiLocNiUserRespEnumT_v02 :: ctype where
  "qmiLocNiUserRespEnumT_v02 = C_enum
    [(''QMILOCNIUSERRESPENUMT_MIN_ENUM_VAL_V02'', - 2147483647),
     (''eQMI_LOC_NI_LCS_NOTIFY_VERIFY_ACCEPT_V02'', 1), (''eQMI_LOC_NI_LCS_NOTIFY_VERIFY_DENY_V02'', 2),
     (''eQMI_LOC_NI_LCS_NOTIFY_VERIFY_NORESP_V02'', 3),
     (''QMILOCNIUSERRESPENUMT_MAX_ENUM_VAL_V02'', 2147483647)]"

definition qmiLocPredictedOrbitsDataFormatEnumT_v02 :: ctype where
  "qmiLocPredictedOrbitsDataFormatEnumT_v02 = C_enum
    [(''QMILOCPREDICTEDORBITSDATAFORMATENUMT_MIN_ENUM_VAL_V02'', - 2147483647),
     (''eQMI_LOC_PREDICTED_ORBITS_XTRA_V02'', 0),
     (''QMILOCPREDICTEDORBITSDATAFORMATENUMT_MAX_ENUM_VAL_V02'', 2147483647)]"

definition qmiLocCoarseTimeEnumT_v02 :: ctype where
  "qmiLocCoarseTimeEnumT_v02 = C_enum
    [(''QMILOCCOARSETIMEENUMT_MIN_ENUM_VAL_V02'', - 2147483647),
     (''eQMI_LOC_COARSE_TIME_UNKNOWN_V02'', 0), (''eQMI_LOC_COARSE_TIME_AP_V02'', 1),
     (''eQMI_LOC_COARSE_TIME_NTP_XTRA_V02'', 2), (''eQMI_LOC_COARSE_TIME_NTS_XTRA_V02'', 3),
     (''QMILOCCOARSETIMEENUMT_MAX_ENUM_VAL_V02'', 2147483647)]"

definition qmiLocAltSrcEnumT_v02 :: ctype where
  "qmiLocAltSrcEnumT_v02 = C_enum
    [(''QMILOCALTSRCENUMT_MIN_ENUM_VAL_V02'', - 2147483647), (''eQMI_LOC_ALT_SRC_UNKNOWN_V02'', 0),
     (''eQMI_LOC_ALT_SRC_GPS_V02'', 1), (''eQMI_LOC_ALT_SRC_CELL_ID_V02'', 2),
     (''eQMI_LOC_ALT_SRC_ENHANCED_CELL_ID_V02'', 3), (''eQMI_LOC_ALT_SRC_WIFI_V02'', 4),
     (''eQMI_LOC_ALT_SRC_TERRESTRIAL_V02'', 5), (''eQMI_LOC_ALT_SRC_TERRESTRIAL_HYBRID_V02'', 6),
     (''eQMI_LOC_ALT_SRC_ALTITUDE_DATABASE_V02'', 7),
     (''eQMI_LOC_ALT_SRC_BAROMETRIC_ALTIMETER_V02'', 8), (''eQMI_LOC_ALT_SRC_OTHER_V02'', 9),
     (''QMILOCALTSRCENUMT_MAX_ENUM_VAL_V02'', 2147483647)]"

definition qmiLocAltSrcLinkageEnumT_v02 :: ctype where
  "qmiLocAltSrcLinkageEnumT_v02 = C_enum
    [(''QMILOCALTSRCLINKAGEENUMT_MIN_ENUM_VAL_V02'', - 2147483647),
     (''eQMI_LOC_ALT_SRC_LINKAGE_NOT_SPECIFIED_V02'', 0),
     (''eQMI_LOC_ALT_SRC_LINKAGE_FULLY_INTERDEPENDENT_V02'', 1),
     (''eQMI_LOC_ALT_SRC_LINKAGE_DEPENDS_ON_LAT_LONG_V02'', 2),
     (''eQMI_LOC_ALT_SRC_LINKAGE_FULLY_INDEPENDENT_V02'', 3),
     (''QMILOCALTSRCLINKAGEENUMT_MAX_ENUM_VAL_V02'', 2147483647)]"

definition qmiLocAltSrcUncertaintyCoverageEnumT_v02 :: ctype where
  "qmiLocAltSrcUncertaintyCoverageEnumT_v02 = C_enum
    [(''QMILOCALTSRCUNCERTAINTYCOVERAGEENUMT_MIN_ENUM_VAL_V02'', - 2147483647),
     (''eQMI_LOC_ALT_UNCERTAINTY_NOT_SPECIFIED_V02'', 0), (''eQMI_LOC_ALT_UNCERTAINTY_POINT_V02'', 1),
     (''eQMI_LOC_ALT_UNCERTAINTY_FULL_V02'', 2),
     (''QMILOCALTSRCUNCERTAINTYCOVERAGEENUMT_MAX_ENUM_VAL_V02'', 2147483647)]"

definition qmiLocPositionSrcEnumT_v02 :: ctype where
  "qmiLocPositionSrcEnumT_v02 = C_enum
    [(''QMILOCPOSITIONSRCENUMT_MIN_ENUM_VAL_V02'', - 2147483647),
     (''eQMI_LOC_POSITION_SRC_GNSS_V02'', 0), (''eQMI_LOC_POSITION_SRC_CELLID_V02'', 1),
     (''eQMI_LOC_POSITION_SRC_ENH_CELLID_V02'', 2), (''eQMI_LOC_POSITION_SRC_WIFI_V02'', 3),
     (''eQMI_LOC_POSITION_SRC_TERRESTRIAL_V02'', 4),
     (''eQMI_LOC_POSITION_SRC_GNSS_TERRESTRIAL_HYBRID_V02'', 5),
     (''eQMI_LOC_POSITION_SRC_OTHER_V02'', 6), (''eQMI_LOC_POSITION_SRC_DRE_V02'', 7),
     (''QMILOCPOSITIONSRCENUMT_MAX_ENUM_VAL_V02'', 2147483647)]"

definition qmiLocPositionSrcProviderEnumT_v02 :: ctype where
  "qmiLocPositionSrcProviderEnumT_v02 = C_enum
    [(''QMILOCPOSITIONSRCPROVIDERENUMT_MIN_ENUM_VAL_V02'', - 2147483647),
     (''eQMI_LOC_POSITION_SRC_PROVIDER_EXTERNAL_V02'', 0),
     (''eQMI_LOC_POSITION_SRC_PROVIDER_INTERNAL_V02'', 1),
     (''QMILOCPOSITIONSRCPROVIDERENUMT_MAX_ENUM_VAL_V02'', 2147483647)]"

definition qmiLocLockEnumT_v02 :: ctype where
  "qmiLocLockEnumT_v02 = C_enum
    [(''QMILOCLOCKENUMT_MIN_ENUM_VAL_V02'', - 2147483647), (''eQMI_LOC_LOCK_NONE_V02'', 1),
     (''eQMI_LOC_LOCK_MI_V02'', 2), (''eQMI_LOC_LOCK_MT_V02'', 3), (''eQMI_LOC_LOCK_ALL_V02'', 4),
     (''QMILOCLOCKENUMT_MAX_ENUM_VAL_V02'', 2147483647)]"

definition qmiLocLockSubInfoEnumT_v02 :: ctype where
  "qmiLocLockSubInfoEnumT_v02 = C_enum
    [(''QMILOCLOCKSUBINFOENUMT_MIN_ENUM_VAL_V02'', - 2147483647), (''eQMI_LOC_LOCK_DV_SUB_V02'', 1),
     (''eQMI_LOC_LOCK_DD_SUB_V02'', 2), (''eQMI_LOC_LOCK_ALL_SUB_V02'', 3),
     (''QMILOCLOCKSUBINFOENUMT_MAX_ENUM_VAL_V02'', 2147483647)]"

definition qmiLocServerTypeEnumT_v02 :: ctype where
  "qmiLocServerTypeEnumT_v02 = C_enum
    [(''QMILOCSERVERTYPEENUMT_MIN_ENUM_VAL_V02'', - 2147483647),
     (''eQMI_LOC_SERVER_TYPE_CDMA_PDE_V02'', 1), (''eQMI_LOC_SERVER_TYPE_CDMA_MPC_V02'', 2),
     (''eQMI_LOC_SERVER_TYPE_UMTS_SLP_V02'', 3), (''eQMI_LOC_SERVER_TYPE_CUSTOM_PDE_V02'', 4),
     (''eQMI_LOC_SERVER_TYPE_CUSTOM_SLP_V02'', 5),
     (''QMILOCSERVERTYPEENUMT_MAX_ENUM_VAL_V02'', 2147483647)]"

definition qmiLocWifiFixErrorCodeEnumT_v02 :: ctype where
  "qmiLocWifiFixErrorCodeEnumT_v02 = C_enum
    [(''QMILOCWIFIFIXERRORCODEENUMT_MIN_ENUM_VAL_V02'', - 2147483647),
     (''eQMI_LOC_WIFI_FIX_ERROR_SUCCESS_V02'', 0),
     (''eQMI_LOC_WIFI_FIX_ERROR_WIFI_NOT_AVAILABLE_V02'', 1),
     (''eQMI_LOC_WIFI_FIX_ERROR_NO_AP_FOUND_V02'', 2),
     (''eQMI_LOC_WIFI_FIX_ERROR_UNAUTHORIZED_V02'', 3),
     (''eQMI_LOC_WIFI_FIX_ERROR_SERVER_UNAVAILABLE_V02'', 4),
     (''eQMI_LOC_WIFI_FIX_ERROR_LOCATION_CANNOT_BE_DETERMINED_V02'', 5),
     (''eQMI_LOC_WIFI_FIX_ERROR_UNKNOWN_V02'', 6),
     (''QMILOCWIFIFIXERRORCODEENUMT_MAX_ENUM_VAL_V02'', 2147483647)]"

definition qmiLocWifiStatusEnumT_v02 :: ctype where
  "qmiLocWifiStatusEnumT_v02 = C_enum
    [(''QMILOCWIFISTATUSENUMT_MIN_ENUM_VAL_V02'', - 2147483647),
     (''eQMI_LOC_WIFI_STATUS_AVAILABLE_V02'', 1), (''eQMI_LOC_WIFI_STATUS_UNAVAILABLE_V02'', 2),
     (''QMILOCWIFISTATUSENUMT_MAX_ENUM_VAL_V02'', 2147483647)]"

definition qmiLocOperationModeEnumT_v02 :: ctype where
  "qmiLocOperationModeEnumT_v02 = C_enum
    [(''QMILOCOPERATIONMODEENUMT_MIN_ENUM_VAL_V02'', - 2147483647),
     (''eQMI_LOC_OPER_MODE_DEFAULT_V02'', 1), (''eQMI_LOC_OPER_MODE_MSB_V02'', 2),
     (''eQMI_LOC_OPER_MODE_MSA_V02'', 3), (''eQMI_LOC_OPER_MODE_STANDALONE_V02'', 4),
     (''eQMI_LOC_OPER_MODE_CELL_ID_V02'', 5), (''eQMI_LOC_OPER_MODE_WWAN_V02'', 6),
     (''QMILOCOPERATIONMODEENUMT_MAX_ENUM_VAL_V02'', 2147483647)]"

definition qmiLocSensorDataTimeSourceEnumT_v02 :: ctype where
  "qmiLocSensorDataTimeSourceEnumT_v02 = C_enum
    [(''QMILOCSENSORDATATIMESOURCEENUMT_MIN_ENUM_VAL_V02'', - 2147483647),
     (''eQMI_LOC_SENSOR_TIME_SOURCE_UNSPECIFIED_V02'', 0),
     (''eQMI_LOC_SENSOR_TIME_SOURCE_COMMON_V02'', 1),
     (''QMILOCSENSORDATATIMESOURCEENUMT_MAX_ENUM_VAL_V02'', 2147483647)]"

definition qmiLocCradleMountStateEnumT_v02 :: ctype where
  "qmiLocCradleMountStateEnumT_v02 = C_enum
    [(''QMILOCCRADLEMOUNTSTATEENUMT_MIN_ENUM_VAL_V02'', - 2147483647),
     (''eQMI_LOC_CRADLE_STATE_NOT_MOUNTED_V02'', 0), (''eQMI_LOC_CRADLE_STATE_MOUNTED_V02'', 1),
     (''eQMI_LOC_CRADLE_STATE_UNKNOWN_V02'', 2),
     (''QMILOCCRADLEMOUNTSTATEENUMT_MAX_ENUM_VAL_V02'', 2147483647)]"

definition qmiLocExternalPowerConfigEnumT_v02 :: ctype where
  "qmiLocExternalPowerConfigEnumT_v02 = C_enum
    [(''QMILOCEXTERNALPOWERCONFIGENUMT_MIN_ENUM_VAL_V02'', - 2147483647),
     (''eQMI_LOC_EXTERNAL_POWER_NOT_CONNECTED_V02'', 0), (''eQMI_LOC_EXTERNAL_POWER_CONNECTED_V02'', 1),
     (''eQMI_LOC_EXTERNAL_POWER_UNKNOWN_V02'', 2),
     (''QMILOCEXTERNALPOWERCONFIGENUMT_MAX_ENUM_VAL_V02'', 2147483647)]"

definition qmiLocBatteryLevelEnumT_v02 :: ctype where
  "qmiLocBatteryLevelEnumT_v02 = C_enum
    [(''QMILOCBATTERYLEVELENUMT_MIN_ENUM_VAL_V02'', - 2147483647),
     (''eQMI_LOC_BATTERY_LEVEL_UNKNOWN_V02'', 0), (''eQMI_LOC_BATTERY_LEVEL_VERY_HIGH_V02'', 1),
     (''eQMI_LOC_BATTERY_LEVEL_HIGH_V02'', 2), (''eQMI_LOC_BATTERY_LEVEL_MEDIUM_V02'', 3),
     (''eQMI_LOC_BATTERY_LEVEL_LOW_V02'', 4), (''QMILOCBATTERYLEVELENUMT_MAX_ENUM_VAL_V02'', 2147483647)]"

definition qmiLocServerPDNEnumT_v02 :: ctype where
  "qmiLocServerPDNEnumT_v02 = C_enum
    [(''QMILOCSERVERPDNENUMT_MIN_ENUM_VAL_V02'', - 2147483647),
     (''eQMI_LOC_APN_PROFILE_PDN_TYPE_IPV4_V02'', 1), (''eQMI_LOC_APN_PROFILE_PDN_TYPE_IPV6_V02'', 2),
     (''eQMI_LOC_APN_PROFILE_PDN_TYPE_IPV4V6_V02'', 3), (''eQMI_LOC_APN_PROFILE_PDN_TYPE_PPP_V02'', 4),
     (''QMILOCSERVERPDNENUMT_MAX_ENUM_VAL_V02'', 2147483647)]"

definition qmiLocServerReqStatusEnumT_v02 :: ctype where
  "qmiLocServerReqStatusEnumT_v02 = C_enum
    [(''QMILOCSERVERREQSTATUSENUMT_MIN_ENUM_VAL_V02'', - 2147483647),
     (''eQMI_LOC_SERVER_REQ_STATUS_SUCCESS_V02'', 1), (''eQMI_LOC_SERVER_REQ_STATUS_FAILURE_V02'', 2),
     (''QMILOCSERVERREQSTATUSENUMT_MAX_ENUM_VAL_V02'', 2147483647)]"

definition qmiLocVxVersionEnumT_v02 :: ctype where
  "qmiLocVxVersionEnumT_v02 = C_enum
    [(''QMILOCVXVERSIONENUMT_MIN_ENUM_VAL_V02'', - 2147483647),
     (''eQMI_LOC_VX_VERSION_V1_ONLY_V02'', 1), (''eQMI_LOC_VX_VERSION_V2_ONLY_V02'', 2),
     (''QMILOCVXVERSIONENUMT_MAX_ENUM_VAL_V02'', 2147483647)]"

definition qmiLocSuplVersionEnumT_v02 :: ctype where
  "qmiLocSuplVersionEnumT_v02 = C_enum
    [(''QMILOCSUPLVERSIONENUMT_MIN_ENUM_VAL_V02'', - 2147483647),
     (''eQMI_LOC_SUPL_VERSION_1_0_V02'', 1), (''eQMI_LOC_SUPL_VERSION_2_0_V02'', 2),
     (''eQMI_LOC_SUPL_VERSION_2_0_2_V02'', 3), (''eQMI_LOC_SUPL_VERSION_2_0_4_V02'', 4),
     (''QMILOCSUPLVERSIONENUMT_MAX_ENUM_VAL_V02'', 2147483647)]"

definition qmiLocSuplHashAlgoEnumT_v02 :: ctype where
  "qmiLocSuplHashAlgoEnumT_v02 = C_enum
    [(''QMILOCSUPLHASHALGOENUMT_MIN_ENUM_VAL_V02'', - 2147483647),
     (''eQMI_LOC_SUPL_HASH_ALGO_SHA1_V02'', 0), (''eQMI_LOC_SUPL_HASH_ALGO_SHA256_V02'', 1),
     (''QMILOCSUPLHASHALGOENUMT_MAX_ENUM_VAL_V02'', 2147483647)]"

definition qmiLocSuplTlsVersionEnumT_v02 :: ctype where
  "qmiLocSuplTlsVersionEnumT_v02 = C_enum
    [(''QMILOCSUPLTLSVERSIONENUMT_MIN_ENUM_VAL_V02'', - 2147483647),
     (''eQMI_LOC_SUPL_TLS_VERSION_1_0_V02'', 0), (''eQMI_LOC_SUPL_TLS_VERSION_1_1_V02'', 1),
     (''eQMI_LOC_SUPL_TLS_VERSION_1_2_V02'', 2),
     (''QMILOCSUPLTLSVERSIONENUMT_MAX_ENUM_VAL_V02'', 2147483647)]"

definition qmiLocEmergencyProtocolEnumT_v02 :: ctype where
  "qmiLocEmergencyProtocolEnumT_v02 = C_enum
    [(''QMILOCEMERGENCYPROTOCOLENUMT_MIN_ENUM_VAL_V02'', - 2147483647),
     (''eQMI_LOC_EMERGENCY_PROTOCOL_WCDMA_CP_V02'', 0),
     (''eQMI_LOC_EMERGENCY_PROTOCOL_WCDMA_UP_V02'', 1),
     (''QMILOCEMERGENCYPROTOCOLENUMT_MAX_ENUM_VAL_V02'', 2147483647)]"

definition qmiLocSensorsControlConfigSensorUseEnumT_v02 :: ctype where
  "qmiLocSensorsControlConfigSensorUseEnumT_v02 = C_enum
    [(''QMILOCSENSORSCONTROLCONFIGSENSORUSEENUMT_MIN_ENUM_VAL_V02'', - 2147483647),
     (''eQMI_LOC_SENSOR_CONFIG_SENSOR_USE_ENABLE_V02'', 0),
     (''eQMI_LOC_SENSOR_CONFIG_SENSOR_USE_DISABLE_V02'', 1),
     (''QMILOCSENSORSCONTROLCONFIGSENSORUSEENUMT_MAX_ENUM_VAL_V02'', 2147483647)]"

definition qmiLocSensorsControlConfigSensorProviderEnumT_v02 :: ctype where
  "qmiLocSensorsControlConfigSensorProviderEnumT_v02 = C_enum
    [(''QMILOCSENSORSCONTROLCONFIGSENSORPROVIDERENUMT_MIN_ENUM_VAL_V02'', - 2147483647),
     (''eQMI_LOC_SENSOR_CONFIG_USE_PROVIDER_SSC_V02'', 0),
     (''eQMI_LOC_SENSOR_CONFIG_USE_PROVIDER_NATIVE_V02'', 1),
     (''QMILOCSENSORSCONTROLCONFIGSENSORPROVIDERENUMT_MAX_ENUM_VAL_V02'', 2147483647)]"

definition qmiLocSensorPerformanceControlModeEnumT_v02 :: ctype where
  "qmiLocSensorPerformanceControlModeEnumT_v02 = C_enum
    [(''QMILOCSENSORPERFORMANCECONTROLMODEENUMT_MIN_ENUM_VAL_V02'', - 2147483647),
     (''eQMI_LOC_SENSOR_PERFORMANCE_CONTROL_MODE_AUTO_V02'', 0),
     (''eQMI_LOC_SENSOR_PERFORMANCE_CONTROL_MODE_FORCED_V02'', 1),
     (''QMILOCSENSORPERFORMANCECONTROLMODEENUMT_MAX_ENUM_VAL_V02'', 2147483647)]"

definition qmiLocGeofenceResponsivenessEnumT_v02 :: ctype where
  "qmiLocGeofenceResponsivenessEnumT_v02 = C_enum
    [(''QMILOCGEOFENCERESPONSIVENESSENUMT_MIN_ENUM_VAL_V02'', - 2147483647),
     (''eQMI_LOC_GEOFENCE_RESPONSIVENESS_LOW_V02'', 1),
     (''eQMI_LOC_GEOFENCE_RESPONSIVENESS_MED_V02'', 2),
     (''eQMI_LOC_GEOFENCE_RESPONSIVENESS_HIGH_V02'', 3),
     (''eQMI_LOC_GEOFENCE_RESPONSIVENESS_ULTRA_HIGH_V02'', 4),
     (''eQMI_LOC_GEOFENCE_RESPONSIVENESS_CUSTOM_V02'', 5),
     (''QMILOCGEOFENCERESPONSIVENESSENUMT_MAX_ENUM_VAL_V02'', 2147483647)]"

definition qmiLocGeofencePositionEnumT_v02 :: ctype where
  "qmiLocGeofencePositionEnumT_v02 = C_enum
    [(''QMILOCGEOFENCEPOSITIONENUMT_MIN_ENUM_VAL_V02'', - 2147483647),
     (''eQMI_LOC_GEOFENCE_POSITION_INSIDE_V02'', 1), (''eQMI_LOC_GEOFENCE_POSITION_OUTSIDE_V02'', 2),
     (''QMILOCGEOFENCEPOSITIONENUMT_MAX_ENUM_VAL_V02'', 2147483647)]"

definition qmiLocGeofenceOriginEnumT_v02 :: ctype where
  "qmiLocGeofenceOriginEnumT_v02 = C_enum
    [(''QMILOCGEOFENCEORIGINENUMT_MIN_ENUM_VAL_V02'', - 2147483647),
     (''eQMI_LOC_GEOFENCE_ORIGIN_NETWORK_V02'', 1), (''eQMI_LOC_GEOFENCE_ORIGIN_DEVICE_V02'', 2),
     (''QMILOCGEOFENCEORIGINENUMT_MAX_ENUM_VAL_V02'', 2147483647)]"

definition qmiLocGeofenceStateEnumT_v02 :: ctype where
  "qmiLocGeofenceStateEnumT_v02 = C_enum
    [(''QMILOCGEOFENCESTATEENUMT_MIN_ENUM_VAL_V02'', - 2147483647),
     (''eQMI_LOC_GEOFENCE_STATE_ACTIVE_V02'', 1), (''eQMI_LOC_GEOFENCE_STATE_SUSPEND_V02'', 2),
     (''QMILOCGEOFENCESTATEENUMT_MAX_ENUM_VAL_V02'', 2147483647)]"

definition qmiLocGeofenceMotionStatesEnumT_v02 :: ctype where
  "qmiLocGeofenceMotionStatesEnumT_v02 = C_enum
    [(''QMILOCGEOFENCEMOTIONSTATESENUMT_MIN_ENUM_VAL_V02'', - 2147483647),
     (''eQMI_LOC_GEOFENCE_MOTION_STATE_STATIONARY_V02'', 0),
     (''eQMI_LOC_GEOFENCE_MOTION_STATE_FIDDLE_V02'', 1),
     (''eQMI_LOC_GEOFENCE_MOTION_STATE_WALK_V02'', 2), (''eQMI_LOC_GEOFENCE_MOTION_STATE_RUN_V02'', 3),
     (''eQMI_LOC_GEOFENCE_MOTION_STATE_DRIVE_V02'', 4),
     (''QMILOCGEOFENCEMOTIONSTATESENUMT_MAX_ENUM_VAL_V02'', 2147483647)]"

definition qmiLocMotionStateEnumT_v02 :: ctype where
  "qmiLocMotionStateEnumT_v02 = C_enum
    [(''QMILOCMOTIONSTATEENUMT_MIN_ENUM_VAL_V02'', - 2147483647),
     (''eQMI_LOC_MOTION_STATE_UNKNOWN_V02'', 0), (''eQMI_LOC_MOTION_STATE_STATIONARY_V02'', 1),
     (''eQMI_LOC_MOTION_STATE_IN_MOTION_V02'', 2),
     (''QMILOCMOTIONSTATEENUMT_MAX_ENUM_VAL_V02'', 2147483647)]"

definition qmiLocMotionModeEnumT_v02 :: ctype where
  "qmiLocMotionModeEnumT_v02 = C_enum
    [(''QMILOCMOTIONMODEENUMT_MIN_ENUM_VAL_V02'', - 2147483647),
     (''eQMI_LOC_MOTION_MODE_UNKNOWN_V02'', 0), (''eQMI_LOC_MOTION_MODE_STATIONARY_V02'', 1),
     (''eQMI_LOC_MOTION_MODE_PEDESTRIAN_UNKNOWN_V02'', 200),
     (''eQMI_LOC_MOTION_MODE_PEDESTRIAN_WALKING_V02'', 201),
     (''eQMI_LOC_MOTION_MODE_PEDESTRIAN_RUNNING_V02'', 202),
     (''eQMI_LOC_MOTION_MODE_VEHICLE_UNKNOWN_V02'', 300),
     (''QMILOCMOTIONMODEENUMT_MAX_ENUM_VAL_V02'', 2147483647)]"

definition qmiLocRoamingStatusEnumT_v02 :: ctype where
  "qmiLocRoamingStatusEnumT_v02 = C_enum
    [(''QMILOCROAMINGSTATUSENUMT_MIN_ENUM_VAL_V02'', - 2147483647),
     (''eQMI_LOC_PHONE_NOT_ROAMING_V02'', 1), (''eQMI_LOC_PHONE_ROAMING_V02'', 2),
     (''QMILOCROAMINGSTATUSENUMT_MAX_ENUM_VAL_V02'', 2147483647)]"

definition qmiLocInjectedNetworkInitiatedMessageTypeEnumT_v02 :: ctype where
  "qmiLocInjectedNetworkInitiatedMessageTypeEnumT_v02 = C_enum
    [(''QMILOCINJECTEDNETWORKINITIATEDMESSAGETYPEENUMT_MIN_ENUM_VAL_V02'', - 2147483647),
     (''eQMI_LOC_INJECTED_NETWORK_INITIATED_MESSAGE_TYPE_SUPL_V02'', 0),
     (''QMILOCINJECTEDNETWORKINITIATEDMESSAGETYPEENUMT_MAX_ENUM_VAL_V02'', 2147483647)]"

definition qmiLocBatchingTypeEnumT_v02 :: ctype where
  "qmiLocBatchingTypeEnumT_v02 = C_enum
    [(''QMILOCBATCHINGTYPEENUMT_MIN_ENUM_VAL_V02'', - 2147483647),
     (''eQMI_LOC_LOCATION_BATCHING_V02'', 1), (''eQMI_LOC_OUTDOOR_TRIP_BATCHING_V02'', 2),
     (''QMILOCBATCHINGTYPEENUMT_MAX_ENUM_VAL_V02'', 2147483647)]"

definition qmiLocWifiApDataDeviceTypeEnumT_v02 :: ctype where
  "qmiLocWifiApDataDeviceTypeEnumT_v02 = C_enum
    [(''QMILOCWIFIAPDATADEVICETYPEENUMT_MIN_ENUM_VAL_V02'', - 2147483647),
     (''eQMI_LOC_WIFI_AP_DATA_DEVICE_TYPE_WLAN_802_11_A_V02'', 0),
     (''eQMI_LOC_WIFI_AP_DATA_DEVICE_TYPE_WLAN_802_11_B_V02'', 1),
     (''eQMI_LOC_WIFI_AP_DATA_DEVICE_TYPE_WLAN_802_11_G_V02'', 2),
     (''QMILOCWIFIAPDATADEVICETYPEENUMT_MAX_ENUM_VAL_V02'', 2147483647)]"

definition qmiLocWifiApDataRtdUnitTypeEnumT_v02 :: ctype where
  "qmiLocWifiApDataRtdUnitTypeEnumT_v02 = C_enum
    [(''QMILOCWIFIAPDATARTDUNITTYPEENUMT_MIN_ENUM_VAL_V02'', - 2147483647),
     (''eQMI_LOC_WIFI_AP_DATA_RTD_UNIT_MICROSEC_V02'', 0),
     (''eQMI_LOC_WIFI_AP_DATA_RTD_UNIT_HUNDREDS_OF_NANOSEC_V02'', 1),
     (''eQMI_LOC_WIFI_AP_DATA_RTD_UNIT_TENS_OF_NANOSEC_V02'', 2),
     (''eQMI_LOC_WIFI_AP_DATA_RTD_UNIT_NANOSEC_V02'', 3),
     (''eQMI_LOC_WIFI_AP_DATA_RTD_UNIT_TENTH_OF_NANOSEC_V02'', 4),
     (''QMILOCWIFIAPDATARTDUNITTYPEENUMT_MAX_ENUM_VAL_V02'', 2147483647)]"

definition qmiLocWlanApErrEnumT_v02 :: ctype where
  "qmiLocWlanApErrEnumT_v02 = C_enum
    [(''QMILOCWLANAPERRENUMT_MIN_ENUM_VAL_V02'', - 2147483647),
     (''eQMI_LOC_WLAN_AP_ERR_UNKNOWN_V02'', 0), (''eQMI_LOC_WLAN_AP_ERR_NO_REQ_MEAS_AVAILABLE_V02'', 1),
     (''eQMI_LOC_WLAN_AP_ERR_WIFI_OFF_V02'', 2), (''QMILOCWLANAPERRENUMT_MAX_ENUM_VAL_V02'', 2147483647)]"

definition qmiLocWifiAccessPointAttachStatesEnumT_v02 :: ctype where
  "qmiLocWifiAccessPointAttachStatesEnumT_v02 = C_enum
    [(''QMILOCWIFIACCESSPOINTATTACHSTATESENUMT_MIN_ENUM_VAL_V02'', - 2147483647),
     (''eQMI_LOC_WIFI_ACCESS_POINT_ATTACHED_V02'', 0), (''eQMI_LOC_WIFI_ACCESS_POINT_DETACHED_V02'', 1),
     (''eQMI_LOC_WIFI_ACCESS_POINT_HANDOVER_V02'', 2),
     (''QMILOCWIFIACCESSPOINTATTACHSTATESENUMT_MAX_ENUM_VAL_V02'', 2147483647)]"

definition qmiLocWifiEnabledStatusEnumT_v02 :: ctype where
  "qmiLocWifiEnabledStatusEnumT_v02 = C_enum
    [(''QMILOCWIFIENABLEDSTATUSENUMT_MIN_ENUM_VAL_V02'', - 2147483647),
     (''eQMI_LOC_WIFI_ENABLED_FALSE_V02'', 0), (''eQMI_LOC_WIFI_ENABLED_TRUE_V02'', 1),
     (''QMILOCWIFIENABLEDSTATUSENUMT_MAX_ENUM_VAL_V02'', 2147483647)]"

definition qmiLocPremiumServiceEnumT_v02 :: ctype where
  "qmiLocPremiumServiceEnumT_v02 = C_enum
    [(''QMILOCPREMIUMSERVICEENUMT_MIN_ENUM_VAL_V02'', - 2147483647),
     (''eQMI_LOC_PREMIUM_SERVICE_GTP_CELL_V02'', 0), (''eQMI_LOC_PREMIUM_SERVICE_SAP_V02'', 1),
     (''eQMI_LOC_PREMIUM_SERVICE_GTP_ENH_CELL_V02'', 2), (''eQMI_LOC_PREMIUM_SERVICE_GTP_WIFI_V02'', 3),
     (''QMILOCPREMIUMSERVICEENUMT_MAX_ENUM_VAL_V02'', 2147483647)]"

definition qmiLocPremiumServiceCfgEnumT_v02 :: ctype where
  "qmiLocPremiumServiceCfgEnumT_v02 = C_enum
    [(''QMILOCPREMIUMSERVICECFGENUMT_MIN_ENUM_VAL_V02'', - 2147483647),
     (''eQMI_LOC_PREMIUM_SERVICE_DISABLED_V02'', 0),
     (''eQMI_LOC_PREMIUM_SERVICE_ENABLED_BASIC_V02'', 1),
     (''eQMI_LOC_PREMIUM_SERVICE_ENABLED_PREMIUM_V02'', 2),
     (''eQMI_LOC_PREMIUM_SERVICE_ENABLED_THIRDPARTY_V02'', 3),
     (''QMILOCPREMIUMSERVICECFGENUMT_MAX_ENUM_VAL_V02'', 2147483647)]"

definition qmiLocXtraVersionCheckEnumT_v02 :: ctype where
  "qmiLocXtraVersionCheckEnumT_v02 = C_enum
    [(''QMILOCXTRAVERSIONCHECKENUMT_MIN_ENUM_VAL_V02'', - 2147483647),
     (''eQMI_LOC_XTRA_VERSION_CHECK_DISABLE_V02'', 0), (''eQMI_LOC_XTRA_VERSION_CHECK_AUTO_V02'', 1),
     (''eQMI_LOC_XTRA_VERSION_CHECK_XTRA2_V02'', 2), (''eQMI_LOC_XTRA_VERSION_CHECK_XTRA3_V02'', 3),
     (''eQMI_LOC_XTRA_VERSION_CHECK_XTRA3_1_V02'', 4),
     (''QMILOCXTRAVERSIONCHECKENUMT_MAX_ENUM_VAL_V02'', 2147483647)]"

definition qmiLocSourceofFreqEnumT_v02 :: ctype where
  "qmiLocSourceofFreqEnumT_v02 = C_enum
    [(''QMILOCSOURCEOFFREQENUMT_MIN_ENUM_VAL_V02'', - 2147483647),
     (''eQMI_LOC_FREQ_SOURCE_INVALID_V02'', 0), (''eQMI_LOC_FREQ_SOURCE_EXTERNAL_V02'', 1),
     (''eQMI_LOC_FREQ_SOURCE_PE_CLK_REPORT_V02'', 2), (''eQMI_LOC_FREQ_SOURCE_UNKNOWN_V02'', 3),
     (''QMILOCSOURCEOFFREQENUMT_MAX_ENUM_VAL_V02'', 2147483647)]"

definition qmiLocMeasurementCodeTypeEnumT_v02 :: ctype where
  "qmiLocMeasurementCodeTypeEnumT_v02 = C_enum
    [(''QMILOCMEASUREMENTCODETYPEENUMT_MIN_ENUM_VAL_V02'', - 2147483647),
     (''eQMI_LOC_GNSS_CODE_TYPE_A_V02'', 0), (''eQMI_LOC_GNSS_CODE_TYPE_B_V02'', 1),
     (''eQMI_LOC_GNSS_CODE_TYPE_C_V02'', 2), (''eQMI_LOC_GNSS_CODE_TYPE_I_V02'', 3),
     (''eQMI_LOC_GNSS_CODE_TYPE_L_V02'', 4), (''eQMI_LOC_GNSS_CODE_TYPE_M_V02'', 5),
     (''eQMI_LOC_GNSS_CODE_TYPE_P_V02'', 6), (''eQMI_LOC_GNSS_CODE_TYPE_Q_V02'', 7),
     (''eQMI_LOC_GNSS_CODE_TYPE_S_V02'', 8), (''eQMI_LOC_GNSS_CODE_TYPE_W_V02'', 9),
     (''eQMI_LOC_GNSS_CODE_TYPE_X_V02'', 10), (''eQMI_LOC_GNSS_CODE_TYPE_Y_V02'', 11),
     (''eQMI_LOC_GNSS_CODE_TYPE_Z_V02'', 12), (''eQMI_LOC_GNSS_CODE_TYPE_N_V02'', 13),
     (''eQMI_LOC_GNSS_CODE_TYPE_OTHER_V02'', 255),
     (''QMILOCMEASUREMENTCODETYPEENUMT_MAX_ENUM_VAL_V02'', 2147483647)]"

definition qmiLocGdtEndAckEnumT_v02 :: ctype where
  "qmiLocGdtEndAckEnumT_v02 = C_enum
    [(''QMILOCGDTENDACKENUMT_MIN_ENUM_VAL_V02'', - 2147483647), (''eQMI_LOC_GDT_ACK_SUCCESS_V02'', 1),
     (''eQMI_LOC_GDT_ACK_FAILED_V02'', 2), (''eQMI_LOC_GDT_ACK_INVALID_V02'', 3),
     (''QMILOCGDTENDACKENUMT_MAX_ENUM_VAL_V02'', 2147483647)]"

definition qmiLocGtpApStatusEnumT_v02 :: ctype where
  "qmiLocGtpApStatusEnumT_v02 = C_enum
    [(''QMILOCGTPAPSTATUSENUMT_MIN_ENUM_VAL_V02'', - 2147483647),
     (''eQMI_LOC_GTP_AP_STATUS_DB_READY_V02'', 1), (''eQMI_LOC_GTP_AP_STATUS_DB_REFRESHED_V02'', 2),
     (''eQMI_LOC_GTP_AP_STATUS_DB_DELETED_V02'', 3),
     (''QMILOCGTPAPSTATUSENUMT_MAX_ENUM_VAL_V02'', 2147483647)]"

definition qmiLocGtpProcessStatusEnumT_v02 :: ctype where
  "qmiLocGtpProcessStatusEnumT_v02 = C_enum
    [(''QMILOCGTPPROCESSSTATUSENUMT_MIN_ENUM_VAL_V02'', - 2147483647),
     (''eQMI_LOC_GTP_PROCESS_SUCCESS_FROM_LOCAL_V02'', 1),
     (''eQMI_LOC_GTP_PROCESS_SUCCESS_FROM_SERVER_V02'', 2),
     (''eQMI_LOC_GTP_PROCESS_NOT_ALLOWED_AP_NOT_READY_V02'', 3),
     (''eQMI_LOC_GTP_PROCESS_NOT_ALLOWED_AP_TIMEOUT_V02'', 4),
     (''eQMI_LOC_GTP_PROCESS_NOT_ALLOWED_NO_CONNECTIVITY_V02'', 5),
     (''eQMI_LOC_GTP_PROCESS_NOT_ALLOWED_THROTTLED_V02'', 6),
     (''eQMI_LOC_GTP_PROCESS_NOT_ALLOWED_OTHER_V02'', 7),
     (''eQMI_LOC_GTP_PROCESS_FAILED_UNSPECIFIED_V02'', 8),
     (''QMILOCGTPPROCESSSTATUSENUMT_MAX_ENUM_VAL_V02'', 2147483647)]"

definition qmiLocDbtUsageEnumT_v02 :: ctype where
  "qmiLocDbtUsageEnumT_v02 = C_enum
    [(''QMILOCDBTUSAGEENUMT_MIN_ENUM_VAL_V02'', - 2147483647),
     (''eQMI_LOC_DBT_USAGE_NAVIGATION_V02'', 1), (''QMILOCDBTUSAGEENUMT_MAX_ENUM_VAL_V02'', 2147483647)]"

definition qmiLocDbDistanceTypeEnumT_v02 :: ctype where
  "qmiLocDbDistanceTypeEnumT_v02 = C_enum
    [(''QMILOCDBDISTANCETYPEENUMT_MIN_ENUM_VAL_V02'', - 2147483647),
     (''eQMI_LOC_DBT_DISTANCE_TYPE_STRAIGHT_LINE_V02'', 1),
     (''QMILOCDBDISTANCETYPEENUMT_MAX_ENUM_VAL_V02'', 2147483647)]"

definition qmiLocDbtPositionTypeEnumT_v02 :: ctype where
  "qmiLocDbtPositionTypeEnumT_v02 = C_enum
    [(''QMILOCDBTPOSITIONTYPEENUMT_MIN_ENUM_VAL_V02'', - 2147483647),
     (''eQMI_LOC_DBT_POSITION_TYPE_ORIGIN_V02'', 1), (''eQMI_LOC_DBT_POSITION_TYPE_TRACKING_V02'', 2),
     (''QMILOCDBTPOSITIONTYPEENUMT_MAX_ENUM_VAL_V02'', 2147483647)]"

definition qmiLocDbtSessionStatusEnumT_v02 :: ctype where
  "qmiLocDbtSessionStatusEnumT_v02 = C_enum
    [(''QMILOCDBTSESSIONSTATUSENUMT_MIN_ENUM_VAL_V02'', - 2147483647),
     (''eQMI_LOC_DBT_UNABLE_TO_TRACK_V02'', 1), (''eQMI_LOC_DBT_ABLE_TO_TRACK_V02'', 2),
     (''QMILOCDBTSESSIONSTATUSENUMT_MAX_ENUM_VAL_V02'', 2147483647)]"

definition qmiLocPositionSourceEnumT_v02 :: ctype where
  "qmiLocPositionSourceEnumT_v02 = C_enum
    [(''QMILOCPOSITIONSOURCEENUMT_MIN_ENUM_VAL_V02'', - 2147483647), (''eQMI_LOC_POS_SRC_GNSS_V02'', 1),
     (''QMILOCPOSITIONSOURCEENUMT_MAX_ENUM_VAL_V02'', 2147483647)]"

definition qmiLocSecureLocDataModeEnumT_v02 :: ctype where
  "qmiLocSecureLocDataModeEnumT_v02 = C_enum
    [(''QMILOCSECURELOCDATAMODEENUMT_MIN_ENUM_VAL_V02'', - 2147483647),
     (''eQMI_LOC_SECURE_LOC_DATA_ENCRYPTED_V02'', 1), (''eQMI_LOC_SECURE_LOC_DATA_UNENCRYPTED_V02'', 2),
     (''QMILOCSECURELOCDATAMODEENUMT_MAX_ENUM_VAL_V02'', 2147483647)]"

definition qmiLocApReliabilityEnumT_v02 :: ctype where
  "qmiLocApReliabilityEnumT_v02 = C_enum
    [(''QMILOCAPRELIABILITYENUMT_MIN_ENUM_VAL_V02'', - 2147483647),
     (''eQMI_LOC_AP_RELIABILITY_NOT_SET_V02'', 0), (''eQMI_LOC_AP_RELIABILITY_LEVEL_1_V02'', 1),
     (''eQMI_LOC_AP_RELIABILITY_LEVEL_2_V02'', 2), (''eQMI_LOC_AP_RELIABILITY_LEVEL_3_V02'', 3),
     (''eQMI_LOC_AP_RELIABILITY_LEVEL_4_V02'', 4), (''eQMI_LOC_AP_RELIABILITY_LEVEL_5_V02'', 5),
     (''eQMI_LOC_AP_RELIABILITY_LEVEL_6_V02'', 6), (''eQMI_LOC_AP_RELIABILITY_LEVEL_7_V02'', 7),
     (''QMILOCAPRELIABILITYENUMT_MAX_ENUM_VAL_V02'', 2147483647)]"

definition qmiLocBatchingStatusEnumT_v02 :: ctype where
  "qmiLocBatchingStatusEnumT_v02 = C_enum
    [(''QMILOCBATCHINGSTATUSENUMT_MIN_ENUM_VAL_V02'', - 2147483647),
     (''eQMI_LOC_BATCH_POS_UNAVAILABLE_V02'', 1), (''eQMI_LOC_BATCH_POS_AVAILABLE_V02'', 2),
     (''QMILOCBATCHINGSTATUSENUMT_MAX_ENUM_VAL_V02'', 2147483647)]"

definition qmiLocXtraDataFormatEnumT_v02 :: ctype where
  "qmiLocXtraDataFormatEnumT_v02 = C_enum
    [(''QMILOCXTRADATAFORMATENUMT_MIN_ENUM_VAL_V02'', - 2147483647), (''eQMI_LOC_XTRA_DATA_V02'', 0),
     (''QMILOCXTRADATAFORMATENUMT_MAX_ENUM_VAL_V02'', 2147483647)]"

definition qmiLocSrnApDataMacAddrTypeEnumT_v02 :: ctype where
  "qmiLocSrnApDataMacAddrTypeEnumT_v02 = C_enum
    [(''QMILOCSRNAPDATAMACADDRTYPEENUMT_MIN_ENUM_VAL_V02'', - 2147483647),
     (''eQMI_LOC_SRN_AP_DATA_PUBLIC_MAC_ADDR_V02'', 0),
     (''eQMI_LOC_SRN_AP_DATA_PRIVATE_MAC_ADDR_V02'', 1),
     (''eQMI_LOC_SRN_AP_DATA_OTHER_MAC_ADDR_V02'', 2),
     (''QMILOCSRNAPDATAMACADDRTYPEENUMT_MAX_ENUM_VAL_V02'', 2147483647)]"

definition qmiLocSrnApDataTechTypeEnumT_v02 :: ctype where
  "qmiLocSrnApDataTechTypeEnumT_v02 = C_enum
    [(''QMILOCSRNAPDATATECHTYPEENUMT_MIN_ENUM_VAL_V02'', - 2147483647),
     (''eQMI_LOC_SRN_AP_DATA_TECH_TYPE_BT_V02'', 0), (''eQMI_LOC_SRN_AP_DATA_TECH_TYPE_BTLE_V02'', 1),
     (''eQMI_LOC_SRN_AP_DATA_TECH_TYPE_NFC_V02'', 2),
     (''eQMI_LOC_SRN_AP_DATA_TECH_TYPE_MOBILE_CODE_V02'', 3),
     (''eQMI_LOC_SRN_AP_DATA_TECH_TYPE_OTHER_V02'', 4),
     (''QMILOCSRNAPDATATECHTYPEENUMT_MAX_ENUM_VAL_V02'', 2147483647)]"

definition qmiLocSrnApErrEnumT_v02 :: ctype where
  "qmiLocSrnApErrEnumT_v02 = C_enum
    [(''QMILOCSRNAPERRENUMT_MIN_ENUM_VAL_V02'', - 2147483647), (''eQMI_LOC_SRN_AP_ERR_UNKNOWN_V02'', 0),
     (''eQMI_LOC_SRN_AP_ERR_NO_REQ_MEAS_AVAILABLE_V02'', 1),
     (''eQMI_LOC_SRN_AP_ERR_SENSOR_OFF_V02'', 2), (''QMILOCSRNAPERRENUMT_MAX_ENUM_VAL_V02'', 2147483647)]"

definition qmiLocFdclAirInterfaceTypeEnumT_v02 :: ctype where
  "qmiLocFdclAirInterfaceTypeEnumT_v02 = C_enum
    [(''QMILOCFDCLAIRINTERFACETYPEENUMT_MIN_ENUM_VAL_V02'', - 2147483647),
     (''eQMI_LOC_FDCL_AIR_INTERFACE_TYPE_CDMA_V02'', 0),
     (''eQMI_LOC_FDCL_AIR_INTERFACE_TYPE_GSM_V02'', 1),
     (''eQMI_LOC_FDCL_AIR_INTERFACE_TYPE_WCDMA_V02'', 2),
     (''eQMI_LOC_FDCL_AIR_INTERFACE_TYPE_LTE_V02'', 3),
     (''eQMI_LOC_FDCL_AIR_INTERFACE_TYPE_LTE_M1_V02'', 4),
     (''eQMI_LOC_FDCL_AIR_INTERFACE_TYPE_LTE_NB1_V02'', 5),
     (''eQMI_LOC_FDCL_AIR_INTERFACE_TYPE_LTE_M1_MODE_A_V02'', 6),
     (''eQMI_LOC_FDCL_AIR_INTERFACE_TYPE_LTE_M1_MODE_B_V02'', 7),
     (''eQMI_LOC_FDCL_AIR_INTERFACE_TYPE_LTE_UNKNOWN_V02'', 8),
     (''QMILOCFDCLAIRINTERFACETYPEENUMT_MAX_ENUM_VAL_V02'', 2147483647)]"

definition qmiLocCellRecordTypeEnumT_v02 :: ctype where
  "qmiLocCellRecordTypeEnumT_v02 = C_enum
    [(''QMILOCCELLRECORDTYPEENUMT_MIN_ENUM_VAL_V02'', - 2147483647),
     (''eQMI_LOC_CELL_RECORD_TYPE_INVALID_V02'', 0),
     (''eQMI_LOC_CELL_RECORD_TYPE_L1_REGION_WITH_POSITION_V02'', 1),
     (''eQMI_LOC_CELL_RECORD_TYPE_L2_REGION_WITH_POSITION_V02'', 2),
     (''eQMI_LOC_CELL_RECORD_TYPE_L3_REGION_WITH_POSITION_V02'', 3),
     (''eQMI_LOC_CELL_RECORD_TYPE_L4_CELL_RECORD_WITH_POSITION_V02'', 4),
     (''eQMI_LOC_CELL_RECORD_TYPE_L4_CELL_RECORD_NOT_RESOLVED_V02'', 5),
     (''eQMI_LOC_CELL_RECORD_TYPE_L4_CELL_RECORD_NO_INFO_V02'', 6),
     (''QMILOCCELLRECORDTYPEENUMT_MAX_ENUM_VAL_V02'', 2147483647)]"

definition qmiLocInjectFdclDataStatusEnumT_v02 :: ctype where
  "qmiLocInjectFdclDataStatusEnumT_v02 = C_enum
    [(''QMILOCINJECTFDCLDATASTATUSENUMT_MIN_ENUM_VAL_V02'', - 2147483647),
     (''eQMI_LOC_INJECT_FDCL_DATA_SUCCESS_V02'', 0),
     (''eQMI_LOC_INJECT_FDCL_DATA_FAILURE_GENERAL_V02'', 1),
     (''eQMI_LOC_INJECT_FDCL_DATA_FAILURE_NO_CELLS_INJECTED_V02'', 2),
     (''QMILOCINJECTFDCLDATASTATUSENUMT_MAX_ENUM_VAL_V02'', 2147483647)]"

definition qmiLocDcReportMsgTypeEnumT_v02 :: ctype where
  "qmiLocDcReportMsgTypeEnumT_v02 = C_enum
    [(''QMILOCDCREPORTMSGTYPEENUMT_MIN_ENUM_VAL_V02'', - 2147483647),
     (''eQMI_LOC_QZSS_JMA_DISASTER_PREVENTION_INFO_V02'', 43),
     (''eQMI_LOC_QZSS_NON_JMA_DISASTER_PREVENTION_INFO_V02'', 44),
     (''QMILOCDCREPORTMSGTYPEENUMT_MAX_ENUM_VAL_V02'', 2147483647)]"

definition qmiLocRegisterMasterClientStatusEnumT_v02 :: ctype where
  "qmiLocRegisterMasterClientStatusEnumT_v02 = C_enum
    [(''QMILOCREGISTERMASTERCLIENTSTATUSENUMT_MIN_ENUM_VAL_V02'', - 2147483647),
     (''eQMI_LOC_REGISTER_MASTER_CLIENT_SUCCESS_V02'', 0),
     (''eQMI_LOC_REGISTER_MASTER_CLIENT_INVALID_KEY_V02'', 1),
     (''eQMI_LOC_REGISTER_MASTER_CLIENT_ALREADY_HAVE_MASTER_CLIENT_V02'', 2),
     (''eQMI_LOC_REGISTER_MASTER_CLIENT_INTERNAL_FAILURE_V02'', 3),
     (''QMILOCREGISTERMASTERCLIENTSTATUSENUMT_MAX_ENUM_VAL_V02'', 2147483647)]"

definition qmiLocEngineLockStateEnumT_v02 :: ctype where
  "qmiLocEngineLockStateEnumT_v02 = C_enum
    [(''QMILOCENGINELOCKSTATEENUMT_MIN_ENUM_VAL_V02'', - 2147483647),
     (''eQMI_LOC_ENGINE_LOCK_STATE_ENABLED_V02'', 1), (''eQMI_LOC_ENGINE_LOCK_STATE_DISABLED_V02'', 2),
     (''QMILOCENGINELOCKSTATEENUMT_MAX_ENUM_VAL_V02'', 2147483647)]"

definition qmiLocSystemInfoEnumT_v02 :: ctype where
  "qmiLocSystemInfoEnumT_v02 = C_enum
    [(''QMILOCSYSTEMINFOENUMT_MIN_ENUM_VAL_V02'', - 2147483647), (''eQMI_LOC_UNDEFINED_INFO_V02'', 0),
     (''eQMI_LOC_NEXT_LEAP_SECOND_INFO_V02'', 1),
     (''QMILOCSYSTEMINFOENUMT_MAX_ENUM_VAL_V02'', 2147483647)]"

definition qmiLocConstellationStatusEnumT_v02 :: ctype where
  "qmiLocConstellationStatusEnumT_v02 = C_enum
    [(''QMILOCCONSTELLATIONSTATUSENUMT_MIN_ENUM_VAL_V02'', - 2147483647),
     (''eQMI_LOC_CONSTELLATION_ENABLED_MANDATORY_V02'', 0),
     (''eQMI_LOC_CONSTELLATION_ENABLED_INTERNALLY_V02'', 1),
     (''eQMI_LOC_CONSTELLATION_ENABLED_BY_CLIENT_V02'', 2),
     (''eQMI_LOC_CONSTELLATION_DISABLED_NOT_SUPPORTED_V02'', 100),
     (''eQMI_LOC_CONSTELLATION_DISABLED_INTERNALLY_V02'', 101),
     (''eQMI_LOC_CONSTELLATION_DISABLED_BY_CLIENT_V02'', 102),
     (''eQMI_LOC_CONSTELLATION_DISABLED_NO_MEMORY_V02'', 103),
     (''QMILOCCONSTELLATIONSTATUSENUMT_MAX_ENUM_VAL_V02'', 2147483647)]"

definition qmiLocEnablePositionInjectionTestModeEnumT_v02 :: ctype where
  "qmiLocEnablePositionInjectionTestModeEnumT_v02 = C_enum
    [(''QMILOCENABLEPOSITIONINJECTIONTESTMODEENUMT_MIN_ENUM_VAL_V02'', - 2147483647),
     (''eQMI_LOC_TEST_MODE_UNKNOWN_V02'', 0), (''eQMI_LOC_TEST_MODE_ENABLED_V02'', 1),
     (''eQMI_LOC_TEST_MODE_DISABLED_V02'', 2), (''eQMI_LOC_TEST_MODE_ALREADY_ENABLED_V02'', 3),
     (''eQMI_LOC_TEST_MODE_ALREADY_DISABLED_V02'', 4),
     (''QMILOCENABLEPOSITIONINJECTIONTESTMODEENUMT_MAX_ENUM_VAL_V02'', 2147483647)]"

definition qmiLocEphUpdateActionEnumT_v02 :: ctype where
  "qmiLocEphUpdateActionEnumT_v02 = C_enum
    [(''QMILOCEPHUPDATEACTIONENUMT_MIN_ENUM_VAL_V02'', - 2147483647),
     (''eQMI_LOC_UPDATE_EPH_SRC_UNKNOWN_V02'', 0), (''eQMI_LOC_UPDATE_EPH_SRC_OTA_V02'', 1),
     (''eQMI_LOC_UPDATE_EPH_SRC_NETWORK_V02'', 2), (''eQMI_LOC_UPDATE_EPH_SRC_MAX_V02'', 999),
     (''eQMI_LOC_DELETE_EPH_SRC_UNKNOWN_V02'', 1000), (''eQMI_LOC_DELETE_EPH_SRC_NETWORK_V02'', 1001),
     (''eQMI_LOC_DELETE_EPH_SRC_OTA_V02'', 1002), (''eQMI_LOC_DELETE_EPH_SRC_MAX_V02'', 1999),
     (''QMILOCEPHUPDATEACTIONENUMT_MAX_ENUM_VAL_V02'', 2147483647)]"

definition qmiLocGalEphSourceSignal_v02 :: ctype where
  "qmiLocGalEphSourceSignal_v02 = C_enum
    [(''QMILOCGALEPHSOURCESIGNAL_MIN_ENUM_VAL_V02'', - 2147483647),
     (''eQMI_LOC_GAL_EPH_SIGNAL_SRC_UNKNOWN_V02'', 0), (''eQMI_LOC_GAL_EPH_SIGNAL_SRC_E1B_V02'', 1),
     (''eQMI_LOC_GAL_EPH_SIGNAL_SRC_E5A_V02'', 2), (''eQMI_LOC_GAL_EPH_SIGNAL_SRC_E5B_V02'', 3),
     (''QMILOCGALEPHSOURCESIGNAL_MAX_ENUM_VAL_V02'', 2147483647)]"

definition qmiLocRequestProtocolEnumT_v02 :: ctype where
  "qmiLocRequestProtocolEnumT_v02 = C_enum
    [(''QMILOCREQUESTPROTOCOLENUMT_MIN_ENUM_VAL_V02'', - 2147483647), (''eQMI_LOC_CTRL_PLANE_V02'', 0),
     (''eQMI_LOC_SUPL_V02'', 1), (''eQMI_LOC_IMS_V02'', 2), (''eQMI_LOC_SIM_V02'', 3),
     (''eQMI_LOC_MDT_V02'', 4), (''eQMI_LOC_TLOC_V02'', 5), (''eQMI_LOC_OTHER_V02'', 6),
     (''QMILOCREQUESTPROTOCOLENUMT_MAX_ENUM_VAL_V02'', 2147483647)]"

definition qmiLocRequestorEnumT_v02 :: ctype where
  "qmiLocRequestorEnumT_v02 = C_enum
    [(''QMILOCREQUESTORENUMT_MIN_ENUM_VAL_V02'', - 2147483647), (''eQMI_LOC_REQUESTOR_CARRIER_V02'', 0),
     (''eQMI_LOC_REQUESTOR_OEM_V02'', 1), (''eQMI_LOC_REQUESTOR_MODEM_CHIPSET_VENDOR_V02'', 2),
     (''eQMI_LOC_REQUESTOR_GNSS_CHIPSET_VENDOR_V02'', 3),
     (''eQMI_LOC_REQUESTOR_OTHER_CHIPSET_VENDOR_V02'', 4),
     (''eQMI_LOC_REQUESTOR_AUTOMOBILE_CLIENT_V02'', 5), (''eQMI_LOC_REQUESTOR_OTHER_V02'', 6),
     (''QMILOCREQUESTORENUMT_MAX_ENUM_VAL_V02'', 2147483647)]"

definition qmiLocRequestResponseTypeEnumT_v02 :: ctype where
  "qmiLocRequestResponseTypeEnumT_v02 = C_enum
    [(''QMILOCREQUESTRESPONSETYPEENUMT_MIN_ENUM_VAL_V02'', - 2147483647),
     (''eQMI_LOC_REJECTED_V02'', 0), (''eQMI_LOC_ACCEPTED_NO_LOCATION_PROVIDED_V02'', 1),
     (''eQMI_LOC_ACCEPTED_LOCATION_PROVIDED_V02'', 2),
     (''QMILOCREQUESTRESPONSETYPEENUMT_MAX_ENUM_VAL_V02'', 2147483647)]"

definition qmiLocPlatformPowerStateEnumT_v02 :: ctype where
  "qmiLocPlatformPowerStateEnumT_v02 = C_enum
    [(''QMILOCPLATFORMPOWERSTATEENUMT_MIN_ENUM_VAL_V02'', - 2147483647),
     (''eQMI_LOC_POWER_STATE_UNKNOWN_V02'', 0), (''eQMI_LOC_POWER_STATE_SUSPENDED_V02'', 1),
     (''eQMI_LOC_POWER_STATE_RESUME_V02'', 2), (''eQMI_LOC_POWER_STATE_SHUTDOWN_V02'', 3),
     (''QMILOCPLATFORMPOWERSTATEENUMT_MAX_ENUM_VAL_V02'', 2147483647)]"

definition qmiLocParameterTypeEnumT_v02 :: ctype where
  "qmiLocParameterTypeEnumT_v02 = C_enum
    [(''QMILOCPARAMETERTYPEENUMT_MIN_ENUM_VAL_V02'', - 2147483647),
     (''eQMI_LOC_PARAMETER_TYPE_RESERVED_V02'', 0),
     (''eQMI_LOC_PARAMETER_TYPE_MINIMUM_SV_ELEVATION_V02'', 1),
     (''QMILOCPARAMETERTYPEENUMT_MAX_ENUM_VAL_V02'', 2147483647)]"

definition qmiLocStatsReportingConfigEnumT_v02 :: ctype where
  "qmiLocStatsReportingConfigEnumT_v02 = C_enum
    [(''QMILOCSTATSREPORTINGCONFIGENUMT_MIN_ENUM_VAL_V02'', - 2147483647),
     (''eQMI_LOC_REPORT_CURRENT_STATUS_V02'', 0), (''eQMI_LOC_REPORTING_INTERVAL_10_SEC_V02'', 1),
     (''eQMI_LOC_REPORTING_INTERVAL_20_SEC_V02'', 2), (''eQMI_LOC_REPORTING_INTERVAL_30_SEC_V02'', 3),
     (''eQMI_LOC_REPORTING_INTERVAL_60_SEC_V02'', 4), (''eQMI_LOC_REPORTING_INTERVAL_SESSION_V02'', 5),
     (''QMILOCSTATSREPORTINGCONFIGENUMT_MAX_ENUM_VAL_V02'', 2147483647)]"

definition qmiLocGnssPdrModeEnumT_v02 :: ctype where
  "qmiLocGnssPdrModeEnumT_v02 = C_enum
    [(''QMILOCGNSSPDRMODEENUMT_MIN_ENUM_VAL_V02'', - 2147483647),
     (''eQMI_LOC_GNSS_PDR_CASUAL_MODE_V02'', 0), (''eQMI_LOC_GNSS_PDR_FITNESS_MODE_V02'', 1),
     (''QMILOCGNSSPDRMODEENUMT_MAX_ENUM_VAL_V02'', 2147483647)]"

definition qmiLocLatencyInfoTypeEnumT_v02 :: ctype where
  "qmiLocLatencyInfoTypeEnumT_v02 = C_enum
    [(''QMILOCLATENCYINFOTYPEENUMT_MIN_ENUM_VAL_V02'', - 2147483647),
     (''eQMI_LOC_LATENCY_INFO_TYPE_INVALID_V02'', 0),
     (''eQMI_LOC_LATENCY_INFO_TYPE_MEASUREMENT_V02'', 1),
     (''QMILOCLATENCYINFOTYPEENUMT_MAX_ENUM_VAL_V02'', 2147483647)]"

lemma enum_layout [layout_simps]:
  "sizeof qmiLocStatusEnumT_v02 = 4" "alignof qmiLocStatusEnumT_v02 = 4"
  "sizeof qmiLocClientTypeEnumT_v02 = 4" "alignof qmiLocClientTypeEnumT_v02 = 4"
  "sizeof qmiLocFixRecurrenceEnumT_v02 = 4" "alignof qmiLocFixRecurrenceEnumT_v02 = 4"
  "sizeof qmiLocAccuracyLevelEnumT_v02 = 4" "alignof qmiLocAccuracyLevelEnumT_v02 = 4"
  "sizeof qmiLocIntermediateReportStateEnumT_v02 = 4" "alignof qmiLocIntermediateReportStateEnumT_v02 = 4"
  "sizeof qmiLocConfigIncludeAltitudeAssumedInGnssSvInfoEnumT_v02 = 4" "alignof qmiLocConfigIncludeAltitudeAssumedInGnssSvInfoEnumT_v02 = 4"
  "sizeof qmiLocPowerModeEnumT_v02 = 4" "alignof qmiLocPowerModeEnumT_v02 = 4"
  "sizeof qmiLocSpecialReqEnumT_v02 = 4" "alignof qmiLocSpecialReqEnumT_v02 = 4"
  "sizeof qmiLocSessionStatusEnumT_v02 = 4" "alignof qmiLocSessionStatusEnumT_v02 = 4"
  "sizeof qmiLocTimeSourceEnumT_v02 = 4" "alignof qmiLocTimeSourceEnumT_v02 = 4"
  "sizeof qmiLocReliabilityEnumT_v02 = 4" "alignof qmiLocReliabilityEnumT_v02 = 4"
  "sizeof qmiLocDgnssCorrectionSourceTypeEnumT_v02 = 4" "alignof qmiLocDgnssCorrectionSourceTypeEnumT_v02 = 4"
  "sizeof qmiLocSvSystemEnumT_v02 = 4" "alignof qmiLocSvSystemEnumT_v02 = 4"
  "sizeof qmiLocSvStatusEnumT_v02 = 4" "alignof qmiLocSvStatusEnumT_v02 = 4"
  "sizeof qmiLocNiNotifyVerifyEnumT_v02 = 4" "alignof qmiLocNiNotifyVerifyEnumT_v02 = 4"
  "sizeof qmiLocNiVxPosModeEnumT_v02 = 4" "alignof qmiLocNiVxPosModeEnumT_v02 = 4"
  "sizeof qmiLocNiVxRequestorIdEncodingSchemeEnumT_v02 = 4" "alignof qmiLocNiVxRequestorIdEncodingSchemeEnumT_v02 = 4"
  "sizeof qmiLocNiSuplPosMethodEnumT_v02 = 4" "alignof qmiLocNiSuplPosMethodEnumT_v02 = 4"
  "sizeof qmiLocNiDataCodingSchemeEnumT_v02 = 4" "alignof qmiLocNiDataCodingSchemeEnumT_v02 = 4"
  "sizeof qmiLocNiSuplFormatEnumType_v02 = 4" "alignof qmiLocNiSuplFormatEnumType_v02 = 4"
  "sizeof qmiLocNiLocationTypeEnumT_v02 = 4" "alignof qmiLocNiLocationTypeEnumT_v02 = 4"
  "sizeof qmiLocNiServiceInteractionEnumT_v02 = 4" "alignof qmiLocNiServiceInteractionEnumT_v02 = 4"
  "sizeof qmiLocNiSuplVer2ExtTriggerTypeEnumT_v02 = 4" "alignof qmiLocNiSuplVer2ExtTriggerTypeEnumT_v02 = 4"
  "sizeof qmiLocInjectedOrbitUpdateTypeEnumT_v02 = 4" "alignof qmiLocInjectedOrbitUpdateTypeEnumT_v02 = 4"
  "sizeof qmiLocEngineStateEnumT_v02 = 4" "alignof qmiLocEngineStateEnumT_v02 = 4"
  "sizeof qmiLocFixSessionStateEnumT_v02 = 4" "alignof qmiLocFixSessionStateEnumT_v02 = 4"
  "sizeof qmiLocWifiRequestEnumT_v02 = 4" "alignof qmiLocWifiRequestEnumT_v02 = 4"
  "sizeof qmiLocWWANTypeEnumT_v02 = 4" "alignof qmiLocWWANTypeEnumT_v02 = 4"
  "sizeof qmiLocServerRequestEnumT_v02 = 4" "alignof qmiLocServerRequestEnumT_v02 = 4"
  "sizeof qmiLocBearerTypeEnumT_v02 = 4" "alignof qmiLocBearerTypeEnumT_v02 = 4"
  "sizeof qmiLocSysModemAsIdTypeEnumT_v02 = 4" "alignof qmiLocSysModemAsIdTypeEnumT_v02 = 4"
  "sizeof qmiLocNiGeofenceOperationEnumT_v02 = 4" "alignof qmiLocNiGeofenceOperationEnumT_v02 = 4"
  "sizeof qmiLocGeofenceGenAlertEnumT_v02 = 4" "alignof qmiLocGeofenceGenAlertEnumT_v02 = 4"
  "sizeof qmiLocGeofenceBreachTypeEnumT_v02 = 4" "alignof qmiLocGeofenceBreachTypeEnumT_v02 = 4"
  "sizeof qmiLocGeofenceConfidenceEnumT_v02 = 4" "alignof qmiLocGeofenceConfidenceEnumT_v02 = 4"
  "sizeof qmiLocGeofenceProximityTypeEnumT_v02 = 4" "alignof qmiLocGeofenceProximityTypeEnumT_v02 = 4"
  "sizeof qmiLocGeofenceDwellTypeEnumT_v02 = 4" "alignof qmiLocGeofenceDwellTypeEnumT_v02 = 4"
  "sizeof qmiLocGdtServiceIdEnumT_v02 = 4" "alignof qmiLocGdtServiceIdEnumT_v02 = 4"
  "sizeof qmiLocGdtAccessStatusEnumT_v02 = 4" "alignof qmiLocGdtAccessStatusEnumT_v02 = 4"
  "sizeof qmiLocGdtEndStatusEnumT_v02 = 4" "alignof qmiLocGdtEndStatusEnumT_v02 = 4"
  "sizeof qmiLocGdtReceiveStatusEnumT_v02 = 4" "alignof qmiLocGdtReceiveStatusEnumT_v02 = 4"
  "sizeof qmiLocNiUserRespEnumT_v02 = 4" "alignof qmiLocNiUserRespEnumT_v02 = 4"
  "sizeof qmiLocPredictedOrbitsDataFormatEnumT_v02 = 4" "alignof qmiLocPredictedOrbitsDataFormatEnumT_v02 = 4"
  "sizeof qmiLocCoarseTimeEnumT_v02 = 4" "alignof qmiLocCoarseTimeEnumT_v02 = 4"
  "sizeof qmiLocAltSrcEnumT_v02 = 4" "alignof qmiLocAltSrcEnumT_v02 = 4"
  "sizeof qmiLocAltSrcLinkageEnumT_v02 = 4" "alignof qmiLocAltSrcLinkageEnumT_v02 = 4"
  "sizeof qmiLocAltSrcUncertaintyCoverageEnumT_v02 = 4" "alignof qmiLocAltSrcUncertaintyCoverageEnumT_v02 = 4"
  "sizeof qmiLocPositionSrcEnumT_v02 = 4" "alignof qmiLocPositionSrcEnumT_v02 = 4"
  "sizeof qmiLocPositionSrcProviderEnumT_v02 = 4" "alignof qmiLocPositionSrcProviderEnumT_v02 = 4"
  "sizeof qmiLocLockEnumT_v02 = 4" "alignof qmiLocLockEnumT_v02 = 4"
  "sizeof qmiLocLockSubInfoEnumT_v02 = 4" "alignof qmiLocLockSubInfoEnumT_v02 = 4"
  "sizeof qmiLocServerTypeEnumT_v02 = 4" "alignof qmiLocServerTypeEnumT_v02 = 4"
  "sizeof qmiLocWifiFixErrorCodeEnumT_v02 = 4" "alignof qmiLocWifiFixErrorCodeEnumT_v02 = 4"
  "sizeof qmiLocWifiStatusEnumT_v02 = 4" "alignof qmiLocWifiStatusEnumT_v02 = 4"
  "sizeof qmiLocOperationModeEnumT_v02 = 4" "alignof qmiLocOperationModeEnumT_v02 = 4"
  "sizeof qmiLocSensorDataTimeSourceEnumT_v02 = 4" "alignof qmiLocSensorDataTimeSourceEnumT_v02 = 4"
  "sizeof qmiLocCradleMountStateEnumT_v02 = 4" "alignof qmiLocCradleMountStateEnumT_v02 = 4"
  "sizeof qmiLocExternalPowerConfigEnumT_v02 = 4" "alignof qmiLocExternalPowerConfigEnumT_v02 = 4"
  "sizeof qmiLocBatteryLevelEnumT_v02 = 4" "alignof qmiLocBatteryLevelEnumT_v02 = 4"
  "sizeof qmiLocServerPDNEnumT_v02 = 4" "alignof qmiLocServerPDNEnumT_v02 = 4"
  "sizeof qmiLocServerReqStatusEnumT_v02 = 4" "alignof qmiLocServerReqStatusEnumT_v02 = 4"
  "sizeof qmiLocVxVersionEnumT_v02 = 4" "alignof qmiLocVxVersionEnumT_v02 = 4"
  "sizeof qmiLocSuplVersionEnumT_v02 = 4" "alignof qmiLocSuplVersionEnumT_v02 = 4"
  "sizeof qmiLocSuplHashAlgoEnumT_v02 = 4" "alignof qmiLocSuplHashAlgoEnumT_v02 = 4"
  "sizeof qmiLocSuplTlsVersionEnumT_v02 = 4" "alignof qmiLocSuplTlsVersionEnumT_v02 = 4"
  "sizeof qmiLocEmergencyProtocolEnumT_v02 = 4" "alignof qmiLocEmergencyProtocolEnumT_v02 = 4"
  "sizeof qmiLocSensorsControlConfigSensorUseEnumT_v02 = 4" "alignof qmiLocSensorsControlConfigSensorUseEnumT_v02 = 4"
  "sizeof qmiLocSensorsControlConfigSensorProviderEnumT_v02 = 4" "alignof qmiLocSensorsControlConfigSensorProviderEnumT_v02 = 4"
  "sizeof qmiLocSensorPerformanceControlModeEnumT_v02 = 4" "alignof qmiLocSensorPerformanceControlModeEnumT_v02 = 4"
  "sizeof qmiLocGeofenceResponsivenessEnumT_v02 = 4" "alignof qmiLocGeofenceResponsivenessEnumT_v02 = 4"
  "sizeof qmiLocGeofencePositionEnumT_v02 = 4" "alignof qmiLocGeofencePositionEnumT_v02 = 4"
  "sizeof qmiLocGeofenceOriginEnumT_v02 = 4" "alignof qmiLocGeofenceOriginEnumT_v02 = 4"
  "sizeof qmiLocGeofenceStateEnumT_v02 = 4" "alignof qmiLocGeofenceStateEnumT_v02 = 4"
  "sizeof qmiLocGeofenceMotionStatesEnumT_v02 = 4" "alignof qmiLocGeofenceMotionStatesEnumT_v02 = 4"
  "sizeof qmiLocMotionStateEnumT_v02 = 4" "alignof qmiLocMotionStateEnumT_v02 = 4"
  "sizeof qmiLocMotionModeEnumT_v02 = 4" "alignof qmiLocMotionModeEnumT_v02 = 4"
  "sizeof qmiLocRoamingStatusEnumT_v02 = 4" "alignof qmiLocRoamingStatusEnumT_v02 = 4"
  "sizeof qmiLocInjectedNetworkInitiatedMessageTypeEnumT_v02 = 4" "alignof qmiLocInjectedNetworkInitiatedMessageTypeEnumT_v02 = 4"
  "sizeof qmiLocBatchingTypeEnumT_v02 = 4" "alignof qmiLocBatchingTypeEnumT_v02 = 4"
  "sizeof qmiLocWifiApDataDeviceTypeEnumT_v02 = 4" "alignof qmiLocWifiApDataDeviceTypeEnumT_v02 = 4"
  "sizeof qmiLocWifiApDataRtdUnitTypeEnumT_v02 = 4" "alignof qmiLocWifiApDataRtdUnitTypeEnumT_v02 = 4"
  "sizeof qmiLocWlanApErrEnumT_v02 = 4" "alignof qmiLocWlanApErrEnumT_v02 = 4"
  "sizeof qmiLocWifiAccessPointAttachStatesEnumT_v02 = 4" "alignof qmiLocWifiAccessPointAttachStatesEnumT_v02 = 4"
  "sizeof qmiLocWifiEnabledStatusEnumT_v02 = 4" "alignof qmiLocWifiEnabledStatusEnumT_v02 = 4"
  "sizeof qmiLocPremiumServiceEnumT_v02 = 4" "alignof qmiLocPremiumServiceEnumT_v02 = 4"
  "sizeof qmiLocPremiumServiceCfgEnumT_v02 = 4" "alignof qmiLocPremiumServiceCfgEnumT_v02 = 4"
  "sizeof qmiLocXtraVersionCheckEnumT_v02 = 4" "alignof qmiLocXtraVersionCheckEnumT_v02 = 4"
  "sizeof qmiLocSourceofFreqEnumT_v02 = 4" "alignof qmiLocSourceofFreqEnumT_v02 = 4"
  "sizeof qmiLocMeasurementCodeTypeEnumT_v02 = 4" "alignof qmiLocMeasurementCodeTypeEnumT_v02 = 4"
  "sizeof qmiLocGdtEndAckEnumT_v02 = 4" "alignof qmiLocGdtEndAckEnumT_v02 = 4"
  "sizeof qmiLocGtpApStatusEnumT_v02 = 4" "alignof qmiLocGtpApStatusEnumT_v02 = 4"
  "sizeof qmiLocGtpProcessStatusEnumT_v02 = 4" "alignof qmiLocGtpProcessStatusEnumT_v02 = 4"
  "sizeof qmiLocDbtUsageEnumT_v02 = 4" "alignof qmiLocDbtUsageEnumT_v02 = 4"
  "sizeof qmiLocDbDistanceTypeEnumT_v02 = 4" "alignof qmiLocDbDistanceTypeEnumT_v02 = 4"
  "sizeof qmiLocDbtPositionTypeEnumT_v02 = 4" "alignof qmiLocDbtPositionTypeEnumT_v02 = 4"
  "sizeof qmiLocDbtSessionStatusEnumT_v02 = 4" "alignof qmiLocDbtSessionStatusEnumT_v02 = 4"
  "sizeof qmiLocPositionSourceEnumT_v02 = 4" "alignof qmiLocPositionSourceEnumT_v02 = 4"
  "sizeof qmiLocSecureLocDataModeEnumT_v02 = 4" "alignof qmiLocSecureLocDataModeEnumT_v02 = 4"
  "sizeof qmiLocApReliabilityEnumT_v02 = 4" "alignof qmiLocApReliabilityEnumT_v02 = 4"
  "sizeof qmiLocBatchingStatusEnumT_v02 = 4" "alignof qmiLocBatchingStatusEnumT_v02 = 4"
  "sizeof qmiLocXtraDataFormatEnumT_v02 = 4" "alignof qmiLocXtraDataFormatEnumT_v02 = 4"
  "sizeof qmiLocSrnApDataMacAddrTypeEnumT_v02 = 4" "alignof qmiLocSrnApDataMacAddrTypeEnumT_v02 = 4"
  "sizeof qmiLocSrnApDataTechTypeEnumT_v02 = 4" "alignof qmiLocSrnApDataTechTypeEnumT_v02 = 4"
  "sizeof qmiLocSrnApErrEnumT_v02 = 4" "alignof qmiLocSrnApErrEnumT_v02 = 4"
  "sizeof qmiLocFdclAirInterfaceTypeEnumT_v02 = 4" "alignof qmiLocFdclAirInterfaceTypeEnumT_v02 = 4"
  "sizeof qmiLocCellRecordTypeEnumT_v02 = 4" "alignof qmiLocCellRecordTypeEnumT_v02 = 4"
  "sizeof qmiLocInjectFdclDataStatusEnumT_v02 = 4" "alignof qmiLocInjectFdclDataStatusEnumT_v02 = 4"
  "sizeof qmiLocDcReportMsgTypeEnumT_v02 = 4" "alignof qmiLocDcReportMsgTypeEnumT_v02 = 4"
  "sizeof qmiLocRegisterMasterClientStatusEnumT_v02 = 4" "alignof qmiLocRegisterMasterClientStatusEnumT_v02 = 4"
  "sizeof qmiLocEngineLockStateEnumT_v02 = 4" "alignof qmiLocEngineLockStateEnumT_v02 = 4"
  "sizeof qmiLocSystemInfoEnumT_v02 = 4" "alignof qmiLocSystemInfoEnumT_v02 = 4"
  "sizeof qmiLocConstellationStatusEnumT_v02 = 4" "alignof qmiLocConstellationStatusEnumT_v02 = 4"
  "sizeof qmiLocEnablePositionInjectionTestModeEnumT_v02 = 4" "alignof qmiLocEnablePositionInjectionTestModeEnumT_v02 = 4"
  "sizeof qmiLocEphUpdateActionEnumT_v02 = 4" "alignof qmiLocEphUpdateActionEnumT_v02 = 4"
  "sizeof qmiLocGalEphSourceSignal_v02 = 4" "alignof qmiLocGalEphSourceSignal_v02 = 4"
  "sizeof qmiLocRequestProtocolEnumT_v02 = 4" "alignof qmiLocRequestProtocolEnumT_v02 = 4"
  "sizeof qmiLocRequestorEnumT_v02 = 4" "alignof qmiLocRequestorEnumT_v02 = 4"
  "sizeof qmiLocRequestResponseTypeEnumT_v02 = 4" "alignof qmiLocRequestResponseTypeEnumT_v02 = 4"
  "sizeof qmiLocPlatformPowerStateEnumT_v02 = 4" "alignof qmiLocPlatformPowerStateEnumT_v02 = 4"
  "sizeof qmiLocParameterTypeEnumT_v02 = 4" "alignof qmiLocParameterTypeEnumT_v02 = 4"
  "sizeof qmiLocStatsReportingConfigEnumT_v02 = 4" "alignof qmiLocStatsReportingConfigEnumT_v02 = 4"
  "sizeof qmiLocGnssPdrModeEnumT_v02 = 4" "alignof qmiLocGnssPdrModeEnumT_v02 = 4"
  "sizeof qmiLocLatencyInfoTypeEnumT_v02 = 4" "alignof qmiLocLatencyInfoTypeEnumT_v02 = 4"
  by (simp_all add: enum_size_def
      qmiLocStatusEnumT_v02_def
      qmiLocClientTypeEnumT_v02_def
      qmiLocFixRecurrenceEnumT_v02_def
      qmiLocAccuracyLevelEnumT_v02_def
      qmiLocIntermediateReportStateEnumT_v02_def
      qmiLocConfigIncludeAltitudeAssumedInGnssSvInfoEnumT_v02_def
      qmiLocPowerModeEnumT_v02_def
      qmiLocSpecialReqEnumT_v02_def
      qmiLocSessionStatusEnumT_v02_def
      qmiLocTimeSourceEnumT_v02_def
      qmiLocReliabilityEnumT_v02_def
      qmiLocDgnssCorrectionSourceTypeEnumT_v02_def
      qmiLocSvSystemEnumT_v02_def
      qmiLocSvStatusEnumT_v02_def
      qmiLocNiNotifyVerifyEnumT_v02_def
      qmiLocNiVxPosModeEnumT_v02_def
      qmiLocNiVxRequestorIdEncodingSchemeEnumT_v02_def
      qmiLocNiSuplPosMethodEnumT_v02_def
      qmiLocNiDataCodingSchemeEnumT_v02_def
      qmiLocNiSuplFormatEnumType_v02_def
      qmiLocNiLocationTypeEnumT_v02_def
      qmiLocNiServiceInteractionEnumT_v02_def
      qmiLocNiSuplVer2ExtTriggerTypeEnumT_v02_def
      qmiLocInjectedOrbitUpdateTypeEnumT_v02_def
      qmiLocEngineStateEnumT_v02_def
      qmiLocFixSessionStateEnumT_v02_def
      qmiLocWifiRequestEnumT_v02_def
      qmiLocWWANTypeEnumT_v02_def
      qmiLocServerRequestEnumT_v02_def
      qmiLocBearerTypeEnumT_v02_def
      qmiLocSysModemAsIdTypeEnumT_v02_def
      qmiLocNiGeofenceOperationEnumT_v02_def
      qmiLocGeofenceGenAlertEnumT_v02_def
      qmiLocGeofenceBreachTypeEnumT_v02_def
      qmiLocGeofenceConfidenceEnumT_v02_def
      qmiLocGeofenceProximityTypeEnumT_v02_def
      qmiLocGeofenceDwellTypeEnumT_v02_def
      qmiLocGdtServiceIdEnumT_v02_def
      qmiLocGdtAccessStatusEnumT_v02_def
      qmiLocGdtEndStatusEnumT_v02_def
      qmiLocGdtReceiveStatusEnumT_v02_def
      qmiLocNiUserRespEnumT_v02_def
      qmiLocPredictedOrbitsDataFormatEnumT_v02_def
      qmiLocCoarseTimeEnumT_v02_def
      qmiLocAltSrcEnumT_v02_def
      qmiLocAltSrcLinkageEnumT_v02_def
      qmiLocAltSrcUncertaintyCoverageEnumT_v02_def
      qmiLocPositionSrcEnumT_v02_def
      qmiLocPositionSrcProviderEnumT_v02_def
      qmiLocLockEnumT_v02_def
      qmiLocLockSubInfoEnumT_v02_def
      qmiLocServerTypeEnumT_v02_def
      qmiLocWifiFixErrorCodeEnumT_v02_def
      qmiLocWifiStatusEnumT_v02_def
      qmiLocOperationModeEnumT_v02_def
      qmiLocSensorDataTimeSourceEnumT_v02_def
      qmiLocCradleMountStateEnumT_v02_def
      qmiLocExternalPowerConfigEnumT_v02_def
      qmiLocBatteryLevelEnumT_v02_def
      qmiLocServerPDNEnumT_v02_def
      qmiLocServerReqStatusEnumT_v02_def
      qmiLocVxVersionEnumT_v02_def
      qmiLocSuplVersionEnumT_v02_def
      qmiLocSuplHashAlgoEnumT_v02_def
      qmiLocSuplTlsVersionEnumT_v02_def
      qmiLocEmergencyProtocolEnumT_v02_def
      qmiLocSensorsControlConfigSensorUseEnumT_v02_def
      qmiLocSensorsControlConfigSensorProviderEnumT_v02_def
      qmiLocSensorPerformanceControlModeEnumT_v02_def
      qmiLocGeofenceResponsivenessEnumT_v02_def
      qmiLocGeofencePositionEnumT_v02_def
      qmiLocGeofenceOriginEnumT_v02_def
      qmiLocGeofenceStateEnumT_v02_def
      qmiLocGeofenceMotionStatesEnumT_v02_def
      qmiLocMotionStateEnumT_v02_def
      qmiLocMotionModeEnumT_v02_def
      qmiLocRoamingStatusEnumT_v02_def
      qmiLocInjectedNetworkInitiatedMessageTypeEnumT_v02_def
      qmiLocBatchingTypeEnumT_v02_def
      qmiLocWifiApDataDeviceTypeEnumT_v02_def
      qmiLocWifiApDataRtdUnitTypeEnumT_v02_def
      qmiLocWlanApErrEnumT_v02_def
      qmiLocWifiAccessPointAttachStatesEnumT_v02_def
      qmiLocWifiEnabledStatusEnumT_v02_def
      qmiLocPremiumServiceEnumT_v02_def
      qmiLocPremiumServiceCfgEnumT_v02_def
      qmiLocXtraVersionCheckEnumT_v02_def
      qmiLocSourceofFreqEnumT_v02_def
      qmiLocMeasurementCodeTypeEnumT_v02_def
      qmiLocGdtEndAckEnumT_v02_def
      qmiLocGtpApStatusEnumT_v02_def
      qmiLocGtpProcessStatusEnumT_v02_def
      qmiLocDbtUsageEnumT_v02_def
      qmiLocDbDistanceTypeEnumT_v02_def
      qmiLocDbtPositionTypeEnumT_v02_def
      qmiLocDbtSessionStatusEnumT_v02_def
      qmiLocPositionSourceEnumT_v02_def
      qmiLocSecureLocDataModeEnumT_v02_def
      qmiLocApReliabilityEnumT_v02_def
      qmiLocBatchingStatusEnumT_v02_def
      qmiLocXtraDataFormatEnumT_v02_def
      qmiLocSrnApDataMacAddrTypeEnumT_v02_def
      qmiLocSrnApDataTechTypeEnumT_v02_def
      qmiLocSrnApErrEnumT_v02_def
      qmiLocFdclAirInterfaceTypeEnumT_v02_def
      qmiLocCellRecordTypeEnumT_v02_def
      qmiLocInjectFdclDataStatusEnumT_v02_def
      qmiLocDcReportMsgTypeEnumT_v02_def
      qmiLocRegisterMasterClientStatusEnumT_v02_def
      qmiLocEngineLockStateEnumT_v02_def
      qmiLocSystemInfoEnumT_v02_def
      qmiLocConstellationStatusEnumT_v02_def
      qmiLocEnablePositionInjectionTestModeEnumT_v02_def
      qmiLocEphUpdateActionEnumT_v02_def
      qmiLocGalEphSourceSignal_v02_def
      qmiLocRequestProtocolEnumT_v02_def
      qmiLocRequestorEnumT_v02_def
      qmiLocRequestResponseTypeEnumT_v02_def
      qmiLocPlatformPowerStateEnumT_v02_def
      qmiLocParameterTypeEnumT_v02_def
      qmiLocStatsReportingConfigEnumT_v02_def
      qmiLocGnssPdrModeEnumT_v02_def
      qmiLocLatencyInfoTypeEnumT_v02_def)

end
