(* ===== verification/LocStructs1.thy ===== *)
theory LocStructs1
  imports LocConsts
begin

text \<open>
  Structs of \<^verbatim>\<open>src/location/loc_api/loc_api_v02/location_service_v02.h\<close>, in the order of the
  file (part 1 of 2). The size and the alignment of those that occur inside others are
  computed from the layout rules of \<open>QmiIdl\<close>.
\<close>

definition qmiLocGenReqMsgT_v02 :: ctype where
  "qmiLocGenReqMsgT_v02 = C_struct
    [Field ''__placeholder'' C_char]"

definition qmiLocGenRespMsgT_v02 :: "ctype \<Rightarrow> ctype" where
  "qmiLocGenRespMsgT_v02 resp_t = C_struct
    [Field ''resp'' resp_t]"

definition qmiLocGenReqStatusIndMsgT_v02 :: ctype where
  "qmiLocGenReqStatusIndMsgT_v02 = C_struct
    [Field ''status'' qmiLocStatusEnumT_v02]"

definition qmiLocInformClientRevisionReqMsgT_v02 :: ctype where
  "qmiLocInformClientRevisionReqMsgT_v02 = C_struct
    [Field ''revision'' C_uint32]"

definition qmiLocRegEventsReqMsgT_v02 :: ctype where
  "qmiLocRegEventsReqMsgT_v02 = C_struct
    [Field ''eventRegMask'' qmiLocEventRegMaskT_v02, Field ''clientStrId_valid'' C_uint8,
     Field ''clientStrId'' (C_array C_char (QMI_LOC_MAX_CLIENT_ID_STRING_LENGTH_V02 + 1)),
     Field ''clientType_valid'' C_uint8, Field ''clientType'' qmiLocClientTypeEnumT_v02,
     Field ''enablePosRequestNotification_valid'' C_uint8,
     Field ''enablePosRequestNotification'' C_uint8]"

definition qmiLocApplicationIdStructT_v02 :: ctype where
  "qmiLocApplicationIdStructT_v02 = C_struct
    [Field ''applicationProvider'' (C_array C_char (QMI_LOC_MAX_APP_ID_PROVIDER_LENGTH_V02 + 1)),
     Field ''applicationName'' (C_array C_char (QMI_LOC_MAX_APP_ID_NAME_LENGTH_V02 + 1)),
     Field ''applicationVersion_valid'' C_uint8,
     Field ''applicationVersion'' (C_array C_char (QMI_LOC_MAX_APP_ID_VERSION_LENGTH_V02 + 1))]"

lemma qmiLocApplicationIdStructT_v02_layout [layout_simps]: "sizeof qmiLocApplicationIdStructT_v02 = 68" "alignof qmiLocApplicationIdStructT_v02 = 1"
  by (simp_all add: qmiLocApplicationIdStructT_v02_def layout_simps)

definition qmiLocPowerModeStructT_v02 :: ctype where
  "qmiLocPowerModeStructT_v02 = C_struct
    [Field ''powerMode'' qmiLocPowerModeEnumT_v02, Field ''timeBetweenMeasurement'' C_uint32]"

lemma qmiLocPowerModeStructT_v02_layout [layout_simps]: "sizeof qmiLocPowerModeStructT_v02 = 8" "alignof qmiLocPowerModeStructT_v02 = 4"
  by (simp_all add: qmiLocPowerModeStructT_v02_def layout_simps)

definition qmiLocStartReqMsgT_v02 :: ctype where
  "qmiLocStartReqMsgT_v02 = C_struct
    [Field ''sessionId'' C_uint8, Field ''fixRecurrence_valid'' C_uint8,
     Field ''fixRecurrence'' qmiLocFixRecurrenceEnumT_v02,
     Field ''horizontalAccuracyLevel_valid'' C_uint8,
     Field ''horizontalAccuracyLevel'' qmiLocAccuracyLevelEnumT_v02,
     Field ''intermediateReportState_valid'' C_uint8,
     Field ''intermediateReportState'' qmiLocIntermediateReportStateEnumT_v02,
     Field ''minInterval_valid'' C_uint8, Field ''minInterval'' C_uint32,
     Field ''applicationId_valid'' C_uint8, Field ''applicationId'' qmiLocApplicationIdStructT_v02,
     Field ''configAltitudeAssumed_valid'' C_uint8,
     Field ''configAltitudeAssumed'' qmiLocConfigIncludeAltitudeAssumedInGnssSvInfoEnumT_v02,
     Field ''minIntermediatePositionReportInterval_valid'' C_uint8,
     Field ''minIntermediatePositionReportInterval'' C_uint32,
     Field ''positionReportTimeout_valid'' C_uint8, Field ''positionReportTimeout'' C_uint32,
     Field ''sharePosition_valid'' C_uint8, Field ''sharePosition'' C_uint8,
     Field ''reportGnssOnlyPosition_valid'' C_uint8, Field ''reportGnssOnlyPosition'' C_uint8,
     Field ''powerMode_valid'' C_uint8, Field ''powerMode'' qmiLocPowerModeStructT_v02,
     Field ''specialReqType_valid'' C_uint8, Field ''specialReqType'' qmiLocSpecialReqEnumT_v02]"

definition qmiLocStopReqMsgT_v02 :: ctype where
  "qmiLocStopReqMsgT_v02 = C_struct
    [Field ''sessionId'' C_uint8]"

definition qmiLocGPSTimeStructT_v02 :: ctype where
  "qmiLocGPSTimeStructT_v02 = C_struct
    [Field ''gpsWeek'' C_uint16, Field ''gpsTimeOfWeekMs'' C_uint32]"

lemma qmiLocGPSTimeStructT_v02_layout [layout_simps]: "sizeof qmiLocGPSTimeStructT_v02 = 8" "alignof qmiLocGPSTimeStructT_v02 = 4"
  by (simp_all add: qmiLocGPSTimeStructT_v02_def layout_simps)

definition qmiLocDOPStructT_v02 :: ctype where
  "qmiLocDOPStructT_v02 = C_struct
    [Field ''PDOP'' C_float, Field ''HDOP'' C_float, Field ''VDOP'' C_float]"

lemma qmiLocDOPStructT_v02_layout [layout_simps]: "sizeof qmiLocDOPStructT_v02 = 12" "alignof qmiLocDOPStructT_v02 = 4"
  by (simp_all add: qmiLocDOPStructT_v02_def layout_simps)

definition qmiLocExtDOPStructT_v02 :: ctype where
  "qmiLocExtDOPStructT_v02 = C_struct
    [Field ''PDOP'' C_float, Field ''HDOP'' C_float, Field ''VDOP'' C_float, Field ''GDOP'' C_float,
     Field ''TDOP'' C_float]"

lemma qmiLocExtDOPStructT_v02_layout [layout_simps]: "sizeof qmiLocExtDOPStructT_v02 = 20" "alignof qmiLocExtDOPStructT_v02 = 4"
  by (simp_all add: qmiLocExtDOPStructT_v02_def layout_simps)

definition qmiLocSensorUsageIndicatorStructT_v02 :: ctype where
  "qmiLocSensorUsageIndicatorStructT_v02 = C_struct
    [Field ''usageMask'' qmiLocSensorUsageMaskT_v02,
     Field ''aidingIndicatorMask'' qmiLocSensorAidedMaskT_v02]"

lemma qmiLocSensorUsageIndicatorStructT_v02_layout [layout_simps]: "sizeof qmiLocSensorUsageIndicatorStructT_v02 = 8" "alignof qmiLocSensorUsageIndicatorStructT_v02 = 4"
  by (simp_all add: qmiLocSensorUsageIndicatorStructT_v02_def layout_simps)

definition qmiLocJammerIndicatorStructT_v02 :: ctype where
  "qmiLocJammerIndicatorStructT_v02 = C_struct
    [Field ''agcMetricDb'' C_int32, Field ''bpMetricDb'' C_int32]"

lemma qmiLocJammerIndicatorStructT_v02_layout [layout_simps]: "sizeof qmiLocJammerIndicatorStructT_v02 = 8" "alignof qmiLocJammerIndicatorStructT_v02 = 4"
  by (simp_all add: qmiLocJammerIndicatorStructT_v02_def layout_simps)

definition qmiLocEventPositionReportIndMsgT_v02 :: ctype where
  "qmiLocEventPositionReportIndMsgT_v02 = C_struct
    [Field ''sessionStatus'' qmiLocSessionStatusEnumT_v02, Field ''sessionId'' C_uint8,
     Field ''latitude_valid'' C_uint8, Field ''latitude'' C_double, Field ''longitude_valid'' C_uint8,
     Field ''longitude'' C_double, Field ''horUncCircular_valid'' C_uint8,
     Field ''horUncCircular'' C_float, Field ''horUncEllipseSemiMinor_valid'' C_uint8,
     Field ''horUncEllipseSemiMinor'' C_float, Field ''horUncEllipseSemiMajor_valid'' C_uint8,
     Field ''horUncEllipseSemiMajor'' C_float, Field ''horUncEllipseOrientAzimuth_valid'' C_uint8,
     Field ''horUncEllipseOrientAzimuth'' C_float, Field ''horConfidence_valid'' C_uint8,
     Field ''horConfidence'' C_uint8, Field ''horReliability_valid'' C_uint8,
     Field ''horReliability'' qmiLocReliabilityEnumT_v02, Field ''speedHorizontal_valid'' C_uint8,
     Field ''speedHorizontal'' C_float, Field ''speedUnc_valid'' C_uint8, Field ''speedUnc'' C_float,
     Field ''altitudeWrtEllipsoid_valid'' C_uint8, Field ''altitudeWrtEllipsoid'' C_float,
     Field ''altitudeWrtMeanSeaLevel_valid'' C_uint8, Field ''altitudeWrtMeanSeaLevel'' C_float,
     Field ''vertUnc_valid'' C_uint8, Field ''vertUnc'' C_float, Field ''vertConfidence_valid'' C_uint8,
     Field ''vertConfidence'' C_uint8, Field ''vertReliability_valid'' C_uint8,
     Field ''vertReliability'' qmiLocReliabilityEnumT_v02, Field ''speedVertical_valid'' C_uint8,
     Field ''speedVertical'' C_float, Field ''heading_valid'' C_uint8, Field ''heading'' C_float,
     Field ''headingUnc_valid'' C_uint8, Field ''headingUnc'' C_float,
     Field ''magneticDeviation_valid'' C_uint8, Field ''magneticDeviation'' C_float,
     Field ''technologyMask_valid'' C_uint8, Field ''technologyMask'' qmiLocPosTechMaskT_v02,
     Field ''DOP_valid'' C_uint8, Field ''DOP'' qmiLocDOPStructT_v02,
     Field ''timestampUtc_valid'' C_uint8, Field ''timestampUtc'' C_uint64,
     Field ''leapSeconds_valid'' C_uint8, Field ''leapSeconds'' C_uint8,
     Field ''gpsTime_valid'' C_uint8, Field ''gpsTime'' qmiLocGPSTimeStructT_v02,
     Field ''timeUnc_valid'' C_uint8, Field ''timeUnc'' C_float, Field ''timeSrc_valid'' C_uint8,
     Field ''timeSrc'' qmiLocTimeSourceEnumT_v02, Field ''sensorDataUsage_valid'' C_uint8,
     Field ''sensorDataUsage'' qmiLocSensorUsageIndicatorStructT_v02, Field ''fixId_valid'' C_uint8,
     Field ''fixId'' C_uint32, Field ''gnssSvUsedList_valid'' C_uint8,
     Field ''gnssSvUsedList_len'' C_uint32,
     Field ''gnssSvUsedList'' (C_array C_uint16 QMI_LOC_MAX_SV_USED_LIST_LENGTH_V02),
     Field ''altitudeAssumed_valid'' C_uint8, Field ''altitudeAssumed'' C_uint8,
     Field ''velEnu_valid'' C_uint8, Field ''velEnu'' (C_array C_float QMI_LOC_ENU_ARRAY_LENGTH_V02),
     Field ''velUncEnu_valid'' C_uint8,
     Field ''velUncEnu'' (C_array C_float QMI_LOC_ENU_ARRAY_LENGTH_V02),
     Field ''navSolutionMask_valid'' C_uint8, Field ''navSolutionMask'' qmiLocNavSolutionMaskT_v02,
     Field ''sensorSubTechnologyMask_valid'' C_uint8,
     Field ''sensorSubTechnologyMask'' qmiLocSensorSubTechnologyMaskT_v02,
     Field ''gnssOnlyPosition_valid'' C_uint8, Field ''gnssOnlyPosition'' C_uint8,
     Field ''extDOP_valid'' C_uint8, Field ''extDOP'' qmiLocExtDOPStructT_v02,
     Field ''dgnssStationId_valid'' C_uint8, Field ''dgnssStationId_len'' C_uint32,
     Field ''dgnssStationId'' (C_array C_uint16 QMI_LOC_DGNSS_STATION_ID_ARRAY_LENGTH_V02),
     Field ''spoofReportMask_valid'' C_uint8, Field ''spoofReportMask'' qmiLocSpoofMaskT_v02,
     Field ''expandedGnssSvUsedList_valid'' C_uint8, Field ''expandedGnssSvUsedList_len'' C_uint32,
     Field ''expandedGnssSvUsedList'' (C_array C_uint16 QMI_LOC_EXPANDED_SV_INFO_LIST_MAX_SIZE_V02),
     Field ''gnssSvUsedSignalTypeList_valid'' C_uint8, Field ''gnssSvUsedSignalTypeList_len'' C_uint32,
     Field ''gnssSvUsedSignalTypeList'' (C_array qmiLocGnssSignalTypeMaskT_v02 QMI_LOC_EXPANDED_SV_INFO_LIST_MAX_SIZE_V02),
     Field ''jammerIndicatorList_valid'' C_uint8, Field ''jammerIndicatorList_len'' C_uint32,
     Field ''jammerIndicatorList'' (C_array qmiLocJammerIndicatorStructT_v02 QMI_LOC_MAX_GNSS_SIGNAL_TYPE_V02),
     Field ''dgnssCorrectionSource_valid'' C_uint8,
     Field ''dgnssCorrectionSource'' qmiLocDgnssCorrectionSourceTypeEnumT_v02,
     Field ''dgnssCorrectionSourceID_valid'' C_uint8, Field ''dgnssCorrectionSourceID'' C_uint32,
     Field ''dgnssConstellationUsage_valid'' C_uint8,
     Field ''dgnssConstellationUsage'' qmiLocGNSSConstellEnumT_v02,
     Field ''dgnssRefStationId_valid'' C_uint8, Field ''dgnssRefStationId'' C_uint16,
     Field ''dgnssDataAgeMsec_valid'' C_uint8, Field ''dgnssDataAgeMsec'' C_uint32,
     Field ''conformityIndex_valid'' C_uint8, Field ''conformityIndex'' C_float,
     Field ''systemTick_valid'' C_uint8, Field ''systemTick'' C_uint64,
     Field ''systemTickUnc_valid'' C_uint8, Field ''systemTickUnc'' C_float,
     Field ''systemClkTimeBias_valid'' C_uint8, Field ''systemClkTimeBias'' C_float,
     Field ''systemClkTimeBiasUnc_valid'' C_uint8, Field ''systemClkTimeBiasUnc'' C_float]"

definition qmiLocSvInfoStructT_v02 :: ctype where
  "qmiLocSvInfoStructT_v02 = C_struct
    [Field ''validMask'' qmiLocSvInfoValidMaskT_v02, Field ''system'' qmiLocSvSystemEnumT_v02,
     Field ''gnssSvId'' C_uint16, Field ''healthStatus'' C_uint8,
     Field ''svStatus'' qmiLocSvStatusEnumT_v02, Field ''svInfoMask'' qmiLocSvInfoMaskT_v02,
     Field ''elevation'' C_float, Field ''azimuth'' C_float, Field ''snr'' C_float]"

lemma qmiLocSvInfoStructT_v02_layout [layout_simps]: "sizeof qmiLocSvInfoStructT_v02 = 32" "alignof qmiLocSvInfoStructT_v02 = 4"
  by (simp_all add: qmiLocSvInfoStructT_v02_def layout_simps)

definition qmiLocExpandedSvInfoStructT_v02 :: ctype where
  "qmiLocExpandedSvInfoStructT_v02 = C_struct
    [Field ''svInfo'' qmiLocSvInfoStructT_v02, Field ''gloFrequency'' C_uint8]"

lemma qmiLocExpandedSvInfoStructT_v02_layout [layout_simps]: "sizeof qmiLocExpandedSvInfoStructT_v02 = 36" "alignof qmiLocExpandedSvInfoStructT_v02 = 4"
  by (simp_all add: qmiLocExpandedSvInfoStructT_v02_def layout_simps)

definition qmiLocEventGnssSvInfoIndMsgT_v02 :: ctype where
  "qmiLocEventGnssSvInfoIndMsgT_v02 = C_struct
    [Field ''altitudeAssumed'' C_uint8, Field ''svList_valid'' C_uint8, Field ''svList_len'' C_uint32,
     Field ''svList'' (C_array qmiLocSvInfoStructT_v02 QMI_LOC_SV_INFO_LIST_MAX_SIZE_V02),
     Field ''expandedSvList_valid'' C_uint8, Field ''expandedSvList_len'' C_uint32,
     Field ''expandedSvList'' (C_array qmiLocExpandedSvInfoStructT_v02 QMI_LOC_EXPANDED_SV_INFO_LIST_MAX_SIZE_V02),
     Field ''gnssSignalTypeList_valid'' C_uint8, Field ''gnssSignalTypeList_len'' C_uint32,
     Field ''gnssSignalTypeList'' (C_array qmiLocGnssSignalTypeMaskT_v02 QMI_LOC_EXPANDED_SV_INFO_LIST_MAX_SIZE_V02),
     Field ''rfLoss_valid'' C_uint8, Field ''rfLoss_len'' C_uint32,
     Field ''rfLoss'' (C_array C_float QMI_LOC_EXPANDED_SV_INFO_LIST_MAX_SIZE_V02)]"

definition qmiLocEventNmeaIndMsgT_v02 :: ctype where
  "qmiLocEventNmeaIndMsgT_v02 = C_struct
    [Field ''nmea'' (C_array C_char (QMI_LOC_NMEA_STRING_MAX_LENGTH_V02 + 1)),
     Field ''expandedNmea_valid'' C_uint8,
     Field ''expandedNmea'' (C_array C_char (QMI_LOC_EXPANDED_NMEA_STRING_MAX_LENGTH_V02 + 1))]"

definition qmiLocNiVxNotifyVerifyStructT_v02 :: ctype where
  "qmiLocNiVxNotifyVerifyStructT_v02 = C_struct
    [Field ''posQosIncl'' C_uint8, Field ''posQos'' C_uint8, Field ''numFixes'' C_uint32,
     Field ''timeBetweenFixes'' C_uint32, Field ''posMode'' qmiLocNiVxPosModeEnumT_v02,
     Field ''encodingScheme'' qmiLocNiVxRequestorIdEncodingSchemeEnumT_v02,
     Field ''requestorId_len'' C_uint32,
     Field ''requestorId'' (C_array C_uint8 QMI_LOC_NI_MAX_REQUESTOR_ID_LENGTH_V02),
     Field ''userRespTimerInSeconds'' C_uint16]"

lemma qmiLocNiVxNotifyVerifyStructT_v02_layout [layout_simps]: "sizeof qmiLocNiVxNotifyVerifyStructT_v02 = 228" "alignof qmiLocNiVxNotifyVerifyStructT_v02 = 4"
  by (simp_all add: qmiLocNiVxNotifyVerifyStructT_v02_def layout_simps)

definition qmiLocNiSuplFormattedStringStructT_v02 :: ctype where
  "qmiLocNiSuplFormattedStringStructT_v02 = C_struct
    [Field ''formatType'' qmiLocNiSuplFormatEnumType_v02, Field ''formattedString_len'' C_uint32,
     Field ''formattedString'' (C_array C_uint8 QMI_LOC_NI_MAX_CLIENT_NAME_LENGTH_V02)]"

lemma qmiLocNiSuplFormattedStringStructT_v02_layout [layout_simps]: "sizeof qmiLocNiSuplFormattedStringStructT_v02 = 72" "alignof qmiLocNiSuplFormattedStringStructT_v02 = 4"
  by (simp_all add: qmiLocNiSuplFormattedStringStructT_v02_def layout_simps)

definition qmiLocNiSuplQopStructT_v02 :: ctype where
  "qmiLocNiSuplQopStructT_v02 = C_struct
    [Field ''validMask'' qmiLocSuplQopValidMaskT_v02, Field ''horizontalAccuracy'' C_uint8,
     Field ''verticalAccuracy'' C_uint8, Field ''maxLocAge'' C_uint16, Field ''delay'' C_uint8]"

lemma qmiLocNiSuplQopStructT_v02_layout [layout_simps]: "sizeof qmiLocNiSuplQopStructT_v02 = 8" "alignof qmiLocNiSuplQopStructT_v02 = 2"
  by (simp_all add: qmiLocNiSuplQopStructT_v02_def layout_simps)

definition qmiLocIpV4AddrStructType_v02 :: ctype where
  "qmiLocIpV4AddrStructType_v02 = C_struct
    [Field ''addr'' C_uint32, Field ''port'' C_uint16]"

lemma qmiLocIpV4AddrStructType_v02_layout [layout_simps]: "sizeof qmiLocIpV4AddrStructType_v02 = 8" "alignof qmiLocIpV4AddrStructType_v02 = 4"
  by (simp_all add: qmiLocIpV4AddrStructType_v02_def layout_simps)

definition qmiLocIpV6AddrStructType_v02 :: ctype where
  "qmiLocIpV6AddrStructType_v02 = C_struct
    [Field ''addr'' (C_array C_uint16 QMI_LOC_IPV6_ADDR_LENGTH_V02), Field ''port'' C_uint32]"

lemma qmiLocIpV6AddrStructType_v02_layout [layout_simps]: "sizeof qmiLocIpV6AddrStructType_v02 = 20" "alignof qmiLocIpV6AddrStructType_v02 = 4"
  by (simp_all add: qmiLocIpV6AddrStructType_v02_def layout_simps)

definition qmiLocNiSuplServerInfoStructT_v02 :: ctype where
  "qmiLocNiSuplServerInfoStructT_v02 = C_struct
    [Field ''suplServerAddrTypeMask'' qmiLocServerAddrTypeMaskT_v02,
     Field ''ipv4Addr'' qmiLocIpV4AddrStructType_v02, Field ''ipv6Addr'' qmiLocIpV6AddrStructType_v02,
     Field ''urlAddr'' (C_array C_char (QMI_LOC_MAX_SERVER_ADDR_LENGTH_V02 + 1))]"

lemma qmiLocNiSuplServerInfoStructT_v02_layout [layout_simps]: "sizeof qmiLocNiSuplServerInfoStructT_v02 = 288" "alignof qmiLocNiSuplServerInfoStructT_v02 = 4"
  by (simp_all add: qmiLocNiSuplServerInfoStructT_v02_def layout_simps)

definition qmiLocNiSuplNotifyVerifyStructT_v02 :: ctype where
  "qmiLocNiSuplNotifyVerifyStructT_v02 = C_struct
    [Field ''valid_flags'' qmiLocNiSuplNotifyVerifyValidMaskT_v02,
     Field ''suplServerInfo'' qmiLocNiSuplServerInfoStructT_v02,
     Field ''suplSessionId'' (C_array C_uint8 QMI_LOC_NI_SUPL_SLP_SESSION_ID_BYTE_LENGTH_V02),
     Field ''suplHash'' (C_array C_uint8 QMI_LOC_NI_SUPL_HASH_LENGTH_V02),
     Field ''posMethod'' qmiLocNiSuplPosMethodEnumT_v02,
     Field ''dataCodingScheme'' qmiLocNiDataCodingSchemeEnumT_v02,
     Field ''requestorId'' qmiLocNiSuplFormattedStringStructT_v02,
     Field ''clientName'' qmiLocNiSuplFormattedStringStructT_v02,
     Field ''suplQop'' qmiLocNiSuplQopStructT_v02, Field ''userResponseTimer'' C_uint16]"

lemma qmiLocNiSuplNotifyVerifyStructT_v02_layout [layout_simps]: "sizeof qmiLocNiSuplNotifyVerifyStructT_v02 = 468" "alignof qmiLocNiSuplNotifyVerifyStructT_v02 = 4"
  by (simp_all add: qmiLocNiSuplNotifyVerifyStructT_v02_def layout_simps)

definition qmiLocNiUmtsCpCodedStringStructT_v02 :: ctype where
  "qmiLocNiUmtsCpCodedStringStructT_v02 = C_struct
    [Field ''dataCodingScheme'' qmiLocNiDataCodingSchemeEnumT_v02, Field ''codedString_len'' C_uint32,
     Field ''codedString'' (C_array C_uint8 QMI_LOC_NI_CODEWORD_MAX_LENGTH_V02)]"

lemma qmiLocNiUmtsCpCodedStringStructT_v02_layout [layout_simps]: "sizeof qmiLocNiUmtsCpCodedStringStructT_v02 = 28" "alignof qmiLocNiUmtsCpCodedStringStructT_v02 = 4"
  by (simp_all add: qmiLocNiUmtsCpCodedStringStructT_v02_def layout_simps)

definition qmiLocNiUmtsCpNotifyVerifyStructT_v02 :: ctype where
  "qmiLocNiUmtsCpNotifyVerifyStructT_v02 = C_struct
    [Field ''valid_flags'' qmiLocNiUmtsCpNotifyVerifyValidMaskT_v02, Field ''invokeId'' C_uint8,
     Field ''dataCodingScheme'' qmiLocNiDataCodingSchemeEnumT_v02,
     Field ''notificationText_len'' C_uint32,
     Field ''notificationText'' (C_array C_uint8 QMI_LOC_NI_MAX_CLIENT_NAME_LENGTH_V02),
     Field ''clientAddress_len'' C_uint32,
     Field ''clientAddress'' (C_array C_uint8 QMI_LOC_NI_MAX_EXT_CLIENT_ADDRESS_V02),
     Field ''locationType'' qmiLocNiLocationTypeEnumT_v02,
     Field ''requestorId'' qmiLocNiUmtsCpCodedStringStructT_v02,
     Field ''codewordString'' qmiLocNiUmtsCpCodedStringStructT_v02, Field ''lcsServiceTypeId'' C_uint8,
     Field ''userResponseTimer'' C_uint16]"

lemma qmiLocNiUmtsCpNotifyVerifyStructT_v02_layout [layout_simps]: "sizeof qmiLocNiUmtsCpNotifyVerifyStructT_v02 = 164" "alignof qmiLocNiUmtsCpNotifyVerifyStructT_v02 = 4"
  by (simp_all add: qmiLocNiUmtsCpNotifyVerifyStructT_v02_def layout_simps)

definition qmiLocNiVxServiceInteractionStructT_v02 :: ctype where
  "qmiLocNiVxServiceInteractionStructT_v02 = C_struct
    [Field ''niVxReq'' qmiLocNiVxNotifyVerifyStructT_v02,
     Field ''serviceInteractionType'' qmiLocNiServiceInteractionEnumT_v02]"

lemma qmiLocNiVxServiceInteractionStructT_v02_layout [layout_simps]: "sizeof qmiLocNiVxServiceInteractionStructT_v02 = 232" "alignof qmiLocNiVxServiceInteractionStructT_v02 = 4"
  by (simp_all add: qmiLocNiVxServiceInteractionStructT_v02_def layout_simps)

definition qmiLocNiSuplVer2ExtStructT_v02 :: ctype where
  "qmiLocNiSuplVer2ExtStructT_v02 = C_struct
    [Field ''supportedNetworksMask'' qmiLocNiSuplVer2ExtSupportedNetworksMaskT_v02,
     Field ''triggerType'' qmiLocNiSuplVer2ExtTriggerTypeEnumT_v02,
     Field ''gnssType'' qmiLocNiSuplVer2ExtGnssTypeMaskT_v02]"

lemma qmiLocNiSuplVer2ExtStructT_v02_layout [layout_simps]: "sizeof qmiLocNiSuplVer2ExtStructT_v02 = 12" "alignof qmiLocNiSuplVer2ExtStructT_v02 = 4"
  by (simp_all add: qmiLocNiSuplVer2ExtStructT_v02_def layout_simps)

definition qmiLocEmergencyNotificationStructT_v02 :: ctype where
  "qmiLocEmergencyNotificationStructT_v02 = C_struct
    [Field ''eslpUrl'' (C_array C_char (QMI_LOC_MAX_SERVER_ADDR_LENGTH_V02 + 1))]"

lemma qmiLocEmergencyNotificationStructT_v02_layout [layout_simps]: "sizeof qmiLocEmergencyNotificationStructT_v02 = 256" "alignof qmiLocEmergencyNotificationStructT_v02 = 1"
  by (simp_all add: qmiLocEmergencyNotificationStructT_v02_def layout_simps)

definition qmiLocEventNiNotifyVerifyReqIndMsgT_v02 :: ctype where
  "qmiLocEventNiNotifyVerifyReqIndMsgT_v02 = C_struct
    [Field ''notificationType'' qmiLocNiNotifyVerifyEnumT_v02, Field ''NiVxInd_valid'' C_uint8,
     Field ''NiVxInd'' qmiLocNiVxNotifyVerifyStructT_v02, Field ''NiSuplInd_valid'' C_uint8,
     Field ''NiSuplInd'' qmiLocNiSuplNotifyVerifyStructT_v02, Field ''NiUmtsCpInd_valid'' C_uint8,
     Field ''NiUmtsCpInd'' qmiLocNiUmtsCpNotifyVerifyStructT_v02,
     Field ''NiVxServiceInteractionInd_valid'' C_uint8,
     Field ''NiVxServiceInteractionInd'' qmiLocNiVxServiceInteractionStructT_v02,
     Field ''NiSuplVer2ExtInd_valid'' C_uint8,
     Field ''NiSuplVer2ExtInd'' qmiLocNiSuplVer2ExtStructT_v02,
     Field ''suplEmergencyNotification_valid'' C_uint8,
     Field ''suplEmergencyNotification'' qmiLocEmergencyNotificationStructT_v02,
     Field ''isInEmergencySession_valid'' C_uint8, Field ''isInEmergencySession'' C_uint8]"

definition qmiLocAssistanceServerUrlStructT_v02 :: ctype where
  "qmiLocAssistanceServerUrlStructT_v02 = C_struct
    [Field ''serverUrl'' (C_array C_char (QMI_LOC_MAX_SERVER_ADDR_LENGTH_V02 + 1))]"

lemma qmiLocAssistanceServerUrlStructT_v02_layout [layout_simps]: "sizeof qmiLocAssistanceServerUrlStructT_v02 = 256" "alignof qmiLocAssistanceServerUrlStructT_v02 = 1"
  by (simp_all add: qmiLocAssistanceServerUrlStructT_v02_def layout_simps)

definition qmiLocTimeServerListStructT_v02 :: ctype where
  "qmiLocTimeServerListStructT_v02 = C_struct
    [Field ''delayThreshold'' C_uint32, Field ''timeServerList_len'' C_uint32,
     Field ''timeServerList'' (C_array qmiLocAssistanceServerUrlStructT_v02 QMI_LOC_MAX_NTP_SERVERS_V02)]"

lemma qmiLocTimeServerListStructT_v02_layout [layout_simps]: "sizeof qmiLocTimeServerListStructT_v02 = 776" "alignof qmiLocTimeServerListStructT_v02 = 4"
  by (simp_all add: qmiLocTimeServerListStructT_v02_def layout_simps)

definition qmiLocEventInjectTimeReqIndMsgT_v02 :: ctype where
  "qmiLocEventInjectTimeReqIndMsgT_v02 = C_struct
    [Field ''timeServerInfo_valid'' C_uint8, Field ''timeServerInfo'' qmiLocTimeServerListStructT_v02]"

definition qmiLocPredictedOrbitsAllowedSizesStructT_v02 :: ctype where
  "qmiLocPredictedOrbitsAllowedSizesStructT_v02 = C_struct
    [Field ''maxFileSizeInBytes'' C_uint32, Field ''maxPartSize'' C_uint32]"

lemma qmiLocPredictedOrbitsAllowedSizesStructT_v02_layout [layout_simps]: "sizeof qmiLocPredictedOrbitsAllowedSizesStructT_v02 = 8" "alignof qmiLocPredictedOrbitsAllowedSizesStructT_v02 = 4"
  by (simp_all add: qmiLocPredictedOrbitsAllowedSizesStructT_v02_def layout_simps)

definition qmiLocPredictedOrbitsServerListStructT_v02 :: ctype where
  "qmiLocPredictedOrbitsServerListStructT_v02 = C_struct
    [Field ''serverList_len'' C_uint32,
     Field ''serverList'' (C_array qmiLocAssistanceServerUrlStructT_v02 QMI_LOC_MAX_PREDICTED_ORBITS_SERVERS_V02)]"

lemma qmiLocPredictedOrbitsServerListStructT_v02_layout [layout_simps]: "sizeof qmiLocPredictedOrbitsServerListStructT_v02 = 772" "alignof qmiLocPredictedOrbitsServerListStructT_v02 = 4"
  by (simp_all add: qmiLocPredictedOrbitsServerListStructT_v02_def layout_simps)

definition qmiLocEventInjectPredictedOrbitsReqIndMsgT_v02 :: ctype where
  "qmiLocEventInjectPredictedOrbitsReqIndMsgT_v02 = C_struct
    [Field ''allowedSizes'' qmiLocPredictedOrbitsAllowedSizesStructT_v02,
     Field ''serverList_valid'' C_uint8,
     Field ''serverList'' qmiLocPredictedOrbitsServerListStructT_v02,
     Field ''serverUpdateMask_valid'' C_uint8,
     Field ''serverUpdateMask'' qmiLocServerParamUpdateMaskT_v02, Field ''updateType_valid'' C_uint8,
     Field ''updateType'' qmiLocInjectedOrbitUpdateTypeEnumT_v02, Field ''updateRate_valid'' C_uint8,
     Field ''updateRate'' C_uint32]"

definition qmiLocEventInjectPositionReqIndMsgT_v02 :: ctype where
  "qmiLocEventInjectPositionReqIndMsgT_v02 = C_struct
    [Field ''latitude'' C_double, Field ''longitude'' C_double, Field ''horUncCircular'' C_float,
     Field ''timestampUtc'' C_uint64]"

definition qmiLocEventEngineStateIndMsgT_v02 :: ctype where
  "qmiLocEventEngineStateIndMsgT_v02 = C_struct
    [Field ''engineState'' qmiLocEngineStateEnumT_v02]"

definition qmiLocEventFixSessionStateIndMsgT_v02 :: ctype where
  "qmiLocEventFixSessionStateIndMsgT_v02 = C_struct
    [Field ''sessionState'' qmiLocFixSessionStateEnumT_v02, Field ''sessionId_valid'' C_uint8,
     Field ''sessionId'' C_uint8]"

definition qmiLocEventWifiReqIndMsgT_v02 :: ctype where
  "qmiLocEventWifiReqIndMsgT_v02 = C_struct
    [Field ''requestType'' qmiLocWifiRequestEnumT_v02, Field ''tbfInMs_valid'' C_uint8,
     Field ''tbfInMs'' C_uint16, Field ''e911Mode_valid'' C_uint8, Field ''e911Mode'' C_uint8]"

definition qmiLocSensorControlConfigSamplingSpecStructT_v02 :: ctype where
  "qmiLocSensorControlConfigSamplingSpecStructT_v02 = C_struct
    [Field ''samplesPerBatch'' C_uint16, Field ''batchesPerSecond'' C_uint16]"

lemma qmiLocSensorControlConfigSamplingSpecStructT_v02_layout [layout_simps]: "sizeof qmiLocSensorControlConfigSamplingSpecStructT_v02 = 4" "alignof qmiLocSensorControlConfigSamplingSpecStructT_v02 = 2"
  by (simp_all add: qmiLocSensorControlConfigSamplingSpecStructT_v02_def layout_simps)

definition qmiLocSensorReadyStatusStructT_v02 :: ctype where
  "qmiLocSensorReadyStatusStructT_v02 = C_struct
    [Field ''injectEnable'' C_uint8,
     Field ''dataFrequency'' qmiLocSensorControlConfigSamplingSpecStructT_v02]"

lemma qmiLocSensorReadyStatusStructT_v02_layout [layout_simps]: "sizeof qmiLocSensorReadyStatusStructT_v02 = 6" "alignof qmiLocSensorReadyStatusStructT_v02 = 2"
  by (simp_all add: qmiLocSensorReadyStatusStructT_v02_def layout_simps)

definition qmiLocEventSensorStreamingReadyStatusIndMsgT_v02 :: ctype where
  "qmiLocEventSensorStreamingReadyStatusIndMsgT_v02 = C_struct
    [Field ''accelReady_valid'' C_uint8, Field ''accelReady'' qmiLocSensorReadyStatusStructT_v02,
     Field ''gyroReady_valid'' C_uint8, Field ''gyroReady'' qmiLocSensorReadyStatusStructT_v02,
     Field ''accelTemperatureReady_valid'' C_uint8,
     Field ''accelTemperatureReady'' qmiLocSensorReadyStatusStructT_v02,
     Field ''gyroTemperatureReady_valid'' C_uint8,
     Field ''gyroTemperatureReady'' qmiLocSensorReadyStatusStructT_v02,
     Field ''calibratedMagReady_valid'' C_uint8,
     Field ''calibratedMagReady'' qmiLocSensorReadyStatusStructT_v02,
     Field ''uncalibratedMagReady_valid'' C_uint8,
     Field ''uncalibratedMagReady'' qmiLocSensorReadyStatusStructT_v02]"

definition qmiLocEventTimeSyncReqIndMsgT_v02 :: ctype where
  "qmiLocEventTimeSyncReqIndMsgT_v02 = C_struct
    [Field ''refCounter'' C_uint32]"

definition qmiLocEventSetSpiStreamingReportIndMsgT_v02 :: ctype where
  "qmiLocEventSetSpiStreamingReportIndMsgT_v02 = C_struct
    [Field ''enable'' C_uint8]"

definition qmiLocEventLocationServerConnectionReqIndMsgT_v02 :: ctype where
  "qmiLocEventLocationServerConnectionReqIndMsgT_v02 = C_struct
    [Field ''connHandle'' C_uint32, Field ''requestType'' qmiLocServerRequestEnumT_v02,
     Field ''wwanType'' qmiLocWWANTypeEnumT_v02, Field ''bearerType_valid'' C_uint8,
     Field ''bearerType'' qmiLocBearerTypeEnumT_v02, Field ''apnTypeMask_valid'' C_uint8,
     Field ''apnTypeMask'' qmiLocApnTypeMaskT_v02, Field ''subId_valid'' C_uint8,
     Field ''subId'' qmiLocSysModemAsIdTypeEnumT_v02]"

definition qmiLocEventNiGeofenceNotificationIndMsgT_v02 :: ctype where
  "qmiLocEventNiGeofenceNotificationIndMsgT_v02 = C_struct
    [Field ''geofenceId'' C_uint32, Field ''operationType'' qmiLocNiGeofenceOperationEnumT_v02]"

definition qmiLocEventGeofenceGenAlertIndMsgT_v02 :: ctype where
  "qmiLocEventGeofenceGenAlertIndMsgT_v02 = C_struct
    [Field ''geofenceAlert'' qmiLocGeofenceGenAlertEnumT_v02]"

definition qmiLocGeofencePositionStructT_v02 :: ctype where
  "qmiLocGeofencePositionStructT_v02 = C_struct
    [Field ''timestampUtc'' C_uint64, Field ''latitude'' C_double, Field ''longitude'' C_double,
     Field ''horUncEllipseSemiMinor'' C_float, Field ''horUncEllipseSemiMajor'' C_float,
     Field ''horUncEllipseOrientAzimuth'' C_float, Field ''speedHorizontal_valid'' C_uint8,
     Field ''speedHorizontal'' C_float, Field ''altitudeWrtEllipsoid_valid'' C_uint8,
     Field ''altitudeWrtEllipsoid'' C_float, Field ''vertUnc_valid'' C_uint8, Field ''vertUnc'' C_float,
     Field ''speedVertical_valid'' C_uint8, Field ''speedVertical'' C_float,
     Field ''heading_valid'' C_uint8, Field ''heading'' C_float]"

lemma qmiLocGeofencePositionStructT_v02_layout [layout_simps]: "sizeof qmiLocGeofencePositionStructT_v02 = 80" "alignof qmiLocGeofencePositionStructT_v02 = 8"
  by (simp_all add: qmiLocGeofencePositionStructT_v02_def layout_simps)

definition qmiLocEventGeofenceBreachIndMsgT_v02 :: ctype where
  "qmiLocEventGeofenceBreachIndMsgT_v02 = C_struct
    [Field ''geofenceId'' C_uint32, Field ''breachType'' qmiLocGeofenceBreachTypeEnumT_v02,
     Field ''geofencePosition_valid'' C_uint8,
     Field ''geofencePosition'' qmiLocGeofencePositionStructT_v02,
     Field ''breachConfidence_valid'' C_uint8,
     Field ''breachConfidence'' qmiLocGeofenceConfidenceEnumT_v02]"

definition qmiLocEventPedometerControlIndMsgT_v02 :: ctype where
  "qmiLocEventPedometerControlIndMsgT_v02 = C_struct
    [Field ''requestPedometerData'' C_uint8, Field ''resetStepCount_valid'' C_uint8,
     Field ''resetStepCount'' C_uint8, Field ''stepCountThreshold_valid'' C_uint8,
     Field ''stepCountThreshold'' C_uint32]"

definition qmiLocEventMotionDataControlIndMsgT_v02 :: ctype where
  "qmiLocEventMotionDataControlIndMsgT_v02 = C_struct
    [Field ''requestMotionData'' C_uint8]"

definition qmiLocGeofenceIdContinuousStructT_v02 :: ctype where
  "qmiLocGeofenceIdContinuousStructT_v02 = C_struct
    [Field ''idLow'' C_uint32, Field ''idHigh'' C_uint32]"

lemma qmiLocGeofenceIdContinuousStructT_v02_layout [layout_simps]: "sizeof qmiLocGeofenceIdContinuousStructT_v02 = 8" "alignof qmiLocGeofenceIdContinuousStructT_v02 = 4"
  by (simp_all add: qmiLocGeofenceIdContinuousStructT_v02_def layout_simps)

definition qmiLocEventGeofenceBatchedBreachIndMsgT_v02 :: ctype where
  "qmiLocEventGeofenceBatchedBreachIndMsgT_v02 = C_struct
    [Field ''breachType'' qmiLocGeofenceBreachTypeEnumT_v02,
     Field ''geofenceIdContinuousList_valid'' C_uint8, Field ''geofenceIdContinuousList_len'' C_uint32,
     Field ''geofenceIdContinuousList'' (C_array qmiLocGeofenceIdContinuousStructT_v02 QMI_LOC_MAX_GEOFENCE_ID_CONTINUOUS_LIST_LENGTH_V02),
     Field ''geofenceIdDiscreteList_valid'' C_uint8, Field ''geofenceIdDiscreteList_len'' C_uint32,
     Field ''geofenceIdDiscreteList'' (C_array C_uint32 QMI_LOC_MAX_GEOFENCE_ID_DISCRETE_LIST_LENGTH_V02),
     Field ''geofencePosition_valid'' C_uint8,
     Field ''geofencePosition'' qmiLocGeofencePositionStructT_v02,
     Field ''breachConfidence_valid'' C_uint8,
     Field ''breachConfidence'' qmiLocGeofenceConfidenceEnumT_v02, Field ''headingUnc_valid'' C_uint8,
     Field ''headingUnc'' C_float, Field ''vertUnc_valid'' C_uint8, Field ''vertUnc'' C_float,
     Field ''speedUnc_valid'' C_uint8, Field ''speedUnc'' C_float,
     Field ''horConfidence_valid'' C_uint8, Field ''horConfidence'' C_uint8,
     Field ''vertConfidence_valid'' C_uint8, Field ''vertConfidence'' C_uint8,
     Field ''DOP_valid'' C_uint8, Field ''DOP'' qmiLocDOPStructT_v02,
     Field ''gnssSvUsedList_valid'' C_uint8, Field ''gnssSvUsedList_len'' C_uint32,
     Field ''gnssSvUsedList'' (C_array C_uint16 QMI_LOC_MAX_SV_USED_LIST_LENGTH_V02),
     Field ''extDOP_valid'' C_uint8, Field ''extDOP'' qmiLocExtDOPStructT_v02,
     Field ''expandedGnssSvUsedList_valid'' C_uint8, Field ''expandedGnssSvUsedList_len'' C_uint32,
     Field ''expandedGnssSvUsedList'' (C_array C_uint16 QMI_LOC_EXPANDED_SV_INFO_LIST_MAX_SIZE_V02),
     Field ''gnssSvUsedSignalTypeList_valid'' C_uint8, Field ''gnssSvUsedSignalTypeList_len'' C_uint32,
     Field ''gnssSvUsedSignalTypeList'' (C_array qmiLocGnssSignalTypeMaskT_v02 QMI_LOC_EXPANDED_SV_INFO_LIST_MAX_SIZE_V02)]"

definition qmiLocEventGeofenceProximityIndMsgT_v02 :: ctype where
  "qmiLocEventGeofenceProximityIndMsgT_v02 = C_struct
    [Field ''proximityType'' qmiLocGeofenceProximityTypeEnumT_v02, Field ''geofenceId'' C_uint32,
     Field ''contextId_valid'' C_uint8, Field ''contextId'' C_uint32]"

definition qmiLocEventGeofenceBatchedDwellIndMsgT_v02 :: ctype where
  "qmiLocEventGeofenceBatchedDwellIndMsgT_v02 = C_struct
    [Field ''dwellType'' qmiLocGeofenceDwellTypeEnumT_v02,
     Field ''geofenceIdContinuousList_valid'' C_uint8, Field ''geofenceIdContinuousList_len'' C_uint32,
     Field ''geofenceIdContinuousList'' (C_array qmiLocGeofenceIdContinuousStructT_v02 QMI_LOC_MAX_GEOFENCE_ID_CONTINUOUS_LIST_LENGTH_V02),
     Field ''geofenceIdDiscreteList_valid'' C_uint8, Field ''geofenceIdDiscreteList_len'' C_uint32,
     Field ''geofenceIdDiscreteList'' (C_array C_uint32 QMI_LOC_MAX_GEOFENCE_ID_DISCRETE_LIST_LENGTH_V02),
     Field ''geofencePosition_valid'' C_uint8,
     Field ''geofencePosition'' qmiLocGeofencePositionStructT_v02, Field ''headingUnc_valid'' C_uint8,
     Field ''headingUnc'' C_float, Field ''vertUnc_valid'' C_uint8, Field ''vertUnc'' C_float,
     Field ''speedUnc_valid'' C_uint8, Field ''speedUnc'' C_float,
     Field ''horConfidence_valid'' C_uint8, Field ''horConfidence'' C_uint8,
     Field ''vertConfidence_valid'' C_uint8, Field ''vertConfidence'' C_uint8,
     Field ''DOP_valid'' C_uint8, Field ''DOP'' qmiLocDOPStructT_v02,
     Field ''gnssSvUsedList_valid'' C_uint8, Field ''gnssSvUsedList_len'' C_uint32,
     Field ''gnssSvUsedList'' (C_array C_uint16 QMI_LOC_MAX_SV_USED_LIST_LENGTH_V02),
     Field ''extDOP_valid'' C_uint8, Field ''extDOP'' qmiLocExtDOPStructT_v02,
     Field ''expandedGnssSvUsedList_valid'' C_uint8, Field ''expandedGnssSvUsedList_len'' C_uint32,
     Field ''expandedGnssSvUsedList'' (C_array C_uint16 QMI_LOC_EXPANDED_SV_INFO_LIST_MAX_SIZE_V02),
     Field ''gnssSvUsedSignalTypeList_valid'' C_uint8, Field ''gnssSvUsedSignalTypeList_len'' C_uint32,
     Field ''gnssSvUsedSignalTypeList'' (C_array qmiLocGnssSignalTypeMaskT_v02 QMI_LOC_EXPANDED_SV_INFO_LIST_MAX_SIZE_V02)]"

definition qmiLocEventGdtUploadBeginStatusReqIndMsgT_v02 :: ctype where
  "qmiLocEventGdtUploadBeginStatusReqIndMsgT_v02 = C_struct
    [Field ''serviceId'' qmiLocGdtServiceIdEnumT_v02, Field ''sessionId'' C_uint32,
     Field ''filePath_len'' C_uint32, Field ''filePath'' (C_array C_char QMI_LOC_MAX_GDT_PATH_LEN_V02)]"

definition qmiLocEventGdtUploadEndReqIndMsgT_v02 :: ctype where
  "qmiLocEventGdtUploadEndReqIndMsgT_v02 = C_struct
    [Field ''serviceId'' qmiLocGdtServiceIdEnumT_v02, Field ''sessionId'' C_uint32,
     Field ''endStatus'' qmiLocGdtEndStatusEnumT_v02]"

definition qmiLocEventGdtDownloadBeginReqIndMsgT_v02 :: ctype where
  "qmiLocEventGdtDownloadBeginReqIndMsgT_v02 = C_struct
    [Field ''serviceId'' qmiLocGdtServiceIdEnumT_v02, Field ''sessionId'' C_uint32,
     Field ''respTimeoutInterval'' C_uint32, Field ''clientInfo_len'' C_uint32,
     Field ''clientInfo'' (C_array C_uint8 QMI_LOC_MAX_GTP_CL_INFO_LEN_V02),
     Field ''mobileStatusData_len'' C_uint32,
     Field ''mobileStatusData'' (C_array C_uint8 QMI_LOC_MAX_GTP_MSD_LEN_V02),
     Field ''filePath_len'' C_uint32, Field ''filePath'' (C_array C_char QMI_LOC_MAX_GDT_PATH_LEN_V02),
     Field ''powerBudgetInfo_valid'' C_uint8, Field ''powerBudgetInfo'' C_uint32,
     Field ''powerBudgetAllowance_valid'' C_uint8, Field ''powerBudgetAllowance'' C_uint32,
     Field ''downloadRequestMask_valid'' C_uint8,
     Field ''downloadRequestMask'' qmiLocGdtDownloadReqMaskT_v02]"

definition qmiLocEventGdtReceiveDoneIndMsgT_v02 :: ctype where
  "qmiLocEventGdtReceiveDoneIndMsgT_v02 = C_struct
    [Field ''serviceId'' qmiLocGdtServiceIdEnumT_v02, Field ''sessionId'' C_uint32,
     Field ''status'' qmiLocGdtReceiveStatusEnumT_v02]"

definition qmiLocEventGdtDownloadEndReqIndMsgT_v02 :: ctype where
  "qmiLocEventGdtDownloadEndReqIndMsgT_v02 = C_struct
    [Field ''serviceId'' qmiLocGdtServiceIdEnumT_v02, Field ''sessionId'' C_uint32,
     Field ''status'' qmiLocStatusEnumT_v02]"

definition qmiLocGetServiceRevisionReqMsgT_v02 :: ctype where
  "qmiLocGetServiceRevisionReqMsgT_v02 = C_struct
    [Field ''__placeholder'' C_char]"

definition qmiLocGetServiceRevisionIndMsgT_v02 :: ctype where
  "qmiLocGetServiceRevisionIndMsgT_v02 = C_struct
    [Field ''status'' qmiLocStatusEnumT_v02, Field ''revision'' C_uint32,
     Field ''gnssMeFWVerString_valid'' C_uint8,
     Field ''gnssMeFWVerString'' (C_array C_char (QMI_LOC_GNSS_ME_VERSION_STRING_MAX_LENGTH_V02 + 1)),
     Field ''gnssHostSWVerString_valid'' C_uint8,
     Field ''gnssHostSWVerString'' (C_array C_char (QMI_LOC_GNSS_HOSTED_SW_VERSION_STRING_MAX_LENGTH_V02 + 1)),
     Field ''gnssSWVerString_valid'' C_uint8,
     Field ''gnssSWVerString'' (C_array C_char (QMI_LOC_GNSS_SW_VERSION_STRING_MAX_LENGTH_V02 + 1))]"

definition qmiLocGetFixCriteriaReqMsgT_v02 :: ctype where
  "qmiLocGetFixCriteriaReqMsgT_v02 = C_struct
    [Field ''__placeholder'' C_char]"

definition qmiLocGetFixCriteriaIndMsgT_v02 :: ctype where
  "qmiLocGetFixCriteriaIndMsgT_v02 = C_struct
    [Field ''status'' qmiLocStatusEnumT_v02, Field ''horizontalAccuracyLevel_valid'' C_uint8,
     Field ''horizontalAccuracyLevel'' qmiLocAccuracyLevelEnumT_v02,
     Field ''intermediateReportState_valid'' C_uint8,
     Field ''intermediateReportState'' qmiLocIntermediateReportStateEnumT_v02,
     Field ''minInterval_valid'' C_uint8, Field ''minInterval'' C_uint32,
     Field ''applicationId_valid'' C_uint8, Field ''applicationId'' qmiLocApplicationIdStructT_v02,
     Field ''configAltitudeAssumed_valid'' C_uint8,
     Field ''configAltitudeAssumed'' qmiLocConfigIncludeAltitudeAssumedInGnssSvInfoEnumT_v02,
     Field ''minIntermediatePositionReportInterval_valid'' C_uint8,
     Field ''minIntermediatePositionReportInterval'' C_uint32,
     Field ''positionReportTimeout_valid'' C_uint8, Field ''positionReportTimeout'' C_uint32,
     Field ''sharePosition_valid'' C_uint8, Field ''sharePosition'' C_uint8,
     Field ''powerMode_valid'' C_uint8, Field ''powerMode'' qmiLocPowerModeStructT_v02]"

definition qmiLocNiUserRespReqMsgT_v02 :: ctype where
  "qmiLocNiUserRespReqMsgT_v02 = C_struct
    [Field ''userResp'' qmiLocNiUserRespEnumT_v02,
     Field ''notificationType'' qmiLocNiNotifyVerifyEnumT_v02, Field ''NiVxPayload_valid'' C_uint8,
     Field ''NiVxPayload'' qmiLocNiVxNotifyVerifyStructT_v02, Field ''NiSuplPayload_valid'' C_uint8,
     Field ''NiSuplPayload'' qmiLocNiSuplNotifyVerifyStructT_v02,
     Field ''NiUmtsCpPayload_valid'' C_uint8,
     Field ''NiUmtsCpPayload'' qmiLocNiUmtsCpNotifyVerifyStructT_v02,
     Field ''NiVxServiceInteractionPayload_valid'' C_uint8,
     Field ''NiVxServiceInteractionPayload'' qmiLocNiVxServiceInteractionStructT_v02,
     Field ''NiSuplVer2ExtPayload_valid'' C_uint8,
     Field ''NiSuplVer2ExtPayload'' qmiLocNiSuplVer2ExtStructT_v02,
     Field ''suplEmergencyNotification_valid'' C_uint8,
     Field ''suplEmergencyNotification'' qmiLocEmergencyNotificationStructT_v02]"

definition qmiLocNiUserRespIndMsgT_v02 :: ctype where
  "qmiLocNiUserRespIndMsgT_v02 = C_struct
    [Field ''status'' qmiLocStatusEnumT_v02]"

definition qmiLocInjectPredictedOrbitsDataReqMsgT_v02 :: ctype where
  "qmiLocInjectPredictedOrbitsDataReqMsgT_v02 = C_struct
    [Field ''totalSize'' C_uint32, Field ''totalParts'' C_uint16, Field ''partNum'' C_uint16,
     Field ''partData_len'' C_uint32,
     Field ''partData'' (C_array C_char QMI_LOC_MAX_PREDICTED_ORBITS_PART_LEN_V02),
     Field ''formatType_valid'' C_uint8, Field ''formatType'' qmiLocPredictedOrbitsDataFormatEnumT_v02]"

definition qmiLocInjectPredictedOrbitsDataIndMsgT_v02 :: ctype where
  "qmiLocInjectPredictedOrbitsDataIndMsgT_v02 = C_struct
    [Field ''status'' qmiLocStatusEnumT_v02, Field ''partNum_valid'' C_uint8, Field ''partNum'' C_uint16]"

definition qmiLocGetPredictedOrbitsDataSourceReqMsgT_v02 :: ctype where
  "qmiLocGetPredictedOrbitsDataSourceReqMsgT_v02 = C_struct
    [Field ''__placeholder'' C_char]"

definition qmiLocGetPredictedOrbitsDataSourceIndMsgT_v02 :: ctype where
  "qmiLocGetPredictedOrbitsDataSourceIndMsgT_v02 = C_struct
    [Field ''status'' qmiLocStatusEnumT_v02, Field ''allowedSizes_valid'' C_uint8,
     Field ''allowedSizes'' qmiLocPredictedOrbitsAllowedSizesStructT_v02,
     Field ''serverList_valid'' C_uint8, Field ''serverList'' qmiLocPredictedOrbitsServerListStructT_v02]"

definition qmiLocGetPredictedOrbitsDataValidityReqMsgT_v02 :: ctype where
  "qmiLocGetPredictedOrbitsDataValidityReqMsgT_v02 = C_struct
    [Field ''__placeholder'' C_char]"

definition qmiLocPredictedOrbitsDataValidityStructT_v02 :: ctype where
  "qmiLocPredictedOrbitsDataValidityStructT_v02 = C_struct
    [Field ''startTimeInUTC'' C_uint64, Field ''durationHours'' C_uint16]"

lemma qmiLocPredictedOrbitsDataValidityStructT_v02_layout [layout_simps]: "sizeof qmiLocPredictedOrbitsDataValidityStructT_v02 = 16" "alignof qmiLocPredictedOrbitsDataValidityStructT_v02 = 8"
  by (simp_all add: qmiLocPredictedOrbitsDataValidityStructT_v02_def layout_simps)

definition qmiLocGetPredictedOrbitsDataValidityIndMsgT_v02 :: ctype where
  "qmiLocGetPredictedOrbitsDataValidityIndMsgT_v02 = C_struct
    [Field ''status'' qmiLocStatusEnumT_v02, Field ''validityInfo_valid'' C_uint8,
     Field ''validityInfo'' qmiLocPredictedOrbitsDataValidityStructT_v02]"

definition qmiLocInjectUtcTimeReqMsgT_v02 :: ctype where
  "qmiLocInjectUtcTimeReqMsgT_v02 = C_struct
    [Field ''timeUtc'' C_uint64, Field ''timeUnc'' C_uint32, Field ''timeSrc_valid'' C_uint8,
     Field ''timeSrc'' qmiLocCoarseTimeEnumT_v02]"

definition qmiLocInjectUtcTimeIndMsgT_v02 :: ctype where
  "qmiLocInjectUtcTimeIndMsgT_v02 = C_struct
    [Field ''status'' qmiLocStatusEnumT_v02]"

definition qmiLocAltitudeSrcInfoStructT_v02 :: ctype where
  "qmiLocAltitudeSrcInfoStructT_v02 = C_struct
    [Field ''source'' qmiLocAltSrcEnumT_v02, Field ''linkage'' qmiLocAltSrcLinkageEnumT_v02,
     Field ''coverage'' qmiLocAltSrcUncertaintyCoverageEnumT_v02]"

lemma qmiLocAltitudeSrcInfoStructT_v02_layout [layout_simps]: "sizeof qmiLocAltitudeSrcInfoStructT_v02 = 12" "alignof qmiLocAltitudeSrcInfoStructT_v02 = 4"
  by (simp_all add: qmiLocAltitudeSrcInfoStructT_v02_def layout_simps)

definition qmiLocInjectPositionReqMsgT_v02 :: ctype where
  "qmiLocInjectPositionReqMsgT_v02 = C_struct
    [Field ''latitude_valid'' C_uint8, Field ''latitude'' C_double, Field ''longitude_valid'' C_uint8,
     Field ''longitude'' C_double, Field ''horUncCircular_valid'' C_uint8,
     Field ''horUncCircular'' C_float, Field ''horConfidence_valid'' C_uint8,
     Field ''horConfidence'' C_uint8, Field ''horReliability_valid'' C_uint8,
     Field ''horReliability'' qmiLocReliabilityEnumT_v02, Field ''altitudeWrtEllipsoid_valid'' C_uint8,
     Field ''altitudeWrtEllipsoid'' C_float, Field ''altitudeWrtMeanSeaLevel_valid'' C_uint8,
     Field ''altitudeWrtMeanSeaLevel'' C_float, Field ''vertUnc_valid'' C_uint8,
     Field ''vertUnc'' C_float, Field ''vertConfidence_valid'' C_uint8,
     Field ''vertConfidence'' C_uint8, Field ''vertReliability_valid'' C_uint8,
     Field ''vertReliability'' qmiLocReliabilityEnumT_v02, Field ''altSourceInfo_valid'' C_uint8,
     Field ''altSourceInfo'' qmiLocAltitudeSrcInfoStructT_v02, Field ''timestampUtc_valid'' C_uint8,
     Field ''timestampUtc'' C_uint64, Field ''timestampAge_valid'' C_uint8,
     Field ''timestampAge'' C_int32, Field ''positionSrc_valid'' C_uint8,
     Field ''positionSrc'' qmiLocPositionSrcEnumT_v02, Field ''rawHorUncCircular_valid'' C_uint8,
     Field ''rawHorUncCircular'' C_float, Field ''rawHorConfidence_valid'' C_uint8,
     Field ''rawHorConfidence'' C_uint8, Field ''onDemandCpi_valid'' C_uint8,
     Field ''onDemandCpi'' C_uint8, Field ''positionSrcProvider_valid'' C_uint8,
     Field ''positionSrcProvider'' qmiLocPositionSrcProviderEnumT_v02, Field ''gpsTime_valid'' C_uint8,
     Field ''gpsTime'' qmiLocGPSTimeStructT_v02, Field ''timeUnc_valid'' C_uint8,
     Field ''timeUnc'' C_float, Field ''velEnu_valid'' C_uint8,
     Field ''velEnu'' (C_array C_float QMI_LOC_ENU_ARRAY_LENGTH_V02), Field ''velUncEnu_valid'' C_uint8,
     Field ''velUncEnu'' (C_array C_float QMI_LOC_ENU_ARRAY_LENGTH_V02),
     Field ''expandedGnssSvUsedList_valid'' C_uint8, Field ''expandedGnssSvUsedList_len'' C_uint32,
     Field ''expandedGnssSvUsedList'' (C_array C_uint16 QMI_LOC_EXPANDED_SV_INFO_LIST_MAX_SIZE_V02),
     Field ''numSvInFix_valid'' C_uint8, Field ''numSvInFix'' C_uint8]"

definition qmiLocInjectPositionIndMsgT_v02 :: ctype where
  "qmiLocInjectPositionIndMsgT_v02 = C_struct
    [Field ''status'' qmiLocStatusEnumT_v02]"

definition qmiLocSetEngineLockReqMsgT_v02 :: ctype where
  "qmiLocSetEngineLockReqMsgT_v02 = C_struct
    [Field ''lockType'' qmiLocLockEnumT_v02, Field ''subType_valid'' C_uint8,
     Field ''subType'' qmiLocLockSubInfoEnumT_v02, Field ''lockClient_valid'' C_uint8,
     Field ''lockClient'' qmiLocLockClientMaskT_v02]"

definition qmiLocSetEngineLockIndMsgT_v02 :: ctype where
  "qmiLocSetEngineLockIndMsgT_v02 = C_struct
    [Field ''status'' qmiLocStatusEnumT_v02]"

definition qmiLocGetEngineLockReqMsgT_v02 :: ctype where
  "qmiLocGetEngineLockReqMsgT_v02 = C_struct
    [Field ''subType_valid'' C_uint8, Field ''subType'' qmiLocLockSubInfoEnumT_v02]"

definition qmiLocGetEngineLockIndMsgT_v02 :: ctype where
  "qmiLocGetEngineLockIndMsgT_v02 = C_struct
    [Field ''status'' qmiLocStatusEnumT_v02, Field ''lockType_valid'' C_uint8,
     Field ''lockType'' qmiLocLockEnumT_v02, Field ''subType_valid'' C_uint8,
     Field ''subType'' qmiLocLockSubInfoEnumT_v02, Field ''lockClient_valid'' C_uint8,
     Field ''lockClient'' qmiLocLockClientMaskT_v02]"

definition qmiLocSetSbasConfigReqMsgT_v02 :: ctype where
  "qmiLocSetSbasConfigReqMsgT_v02 = C_struct
    [Field ''sbasConfig'' C_uint8, Field ''qzssL1sConfig_valid'' C_uint8,
     Field ''qzssL1sConfig'' C_uint8]"

definition qmiLocSetSbasConfigIndMsgT_v02 :: ctype where
  "qmiLocSetSbasConfigIndMsgT_v02 = C_struct
    [Field ''status'' qmiLocStatusEnumT_v02]"

definition qmiLocGetSbasConfigReqMsgT_v02 :: ctype where
  "qmiLocGetSbasConfigReqMsgT_v02 = C_struct
    [Field ''__placeholder'' C_char]"

definition qmiLocGetSbasConfigIndMsgT_v02 :: ctype where
  "qmiLocGetSbasConfigIndMsgT_v02 = C_struct
    [Field ''status'' qmiLocStatusEnumT_v02, Field ''sbasConfig_valid'' C_uint8,
     Field ''sbasConfig'' C_uint8]"

definition qmiLocSetNmeaTypesReqMsgT_v02 :: ctype where
  "qmiLocSetNmeaTypesReqMsgT_v02 = C_struct
    [Field ''nmeaSentenceType'' qmiLocNmeaSentenceMaskT_v02]"

definition qmiLocSetNmeaTypesIndMsgT_v02 :: ctype where
  "qmiLocSetNmeaTypesIndMsgT_v02 = C_struct
    [Field ''status'' qmiLocStatusEnumT_v02]"

definition qmiLocGetNmeaTypesReqMsgT_v02 :: ctype where
  "qmiLocGetNmeaTypesReqMsgT_v02 = C_struct
    [Field ''__placeholder'' C_char]"

definition qmiLocGetNmeaTypesIndMsgT_v02 :: ctype where
  "qmiLocGetNmeaTypesIndMsgT_v02 = C_struct
    [Field ''status'' qmiLocStatusEnumT_v02, Field ''nmeaSentenceType_valid'' C_uint8,
     Field ''nmeaSentenceType'' qmiLocNmeaSentenceMaskT_v02]"

definition qmiLocSetLowPowerModeReqMsgT_v02 :: ctype where
  "qmiLocSetLowPowerModeReqMsgT_v02 = C_struct
    [Field ''lowPowerMode'' C_uint8]"

definition qmiLocSetLowPowerModeIndMsgT_v02 :: ctype where
  "qmiLocSetLowPowerModeIndMsgT_v02 = C_struct
    [Field ''status'' qmiLocStatusEnumT_v02]"

definition qmiLocGetLowPowerModeReqMsgT_v02 :: ctype where
  "qmiLocGetLowPowerModeReqMsgT_v02 = C_struct
    [Field ''__placeholder'' C_char]"

definition qmiLocGetLowPowerModeIndMsgT_v02 :: ctype where
  "qmiLocGetLowPowerModeIndMsgT_v02 = C_struct
    [Field ''status'' qmiLocStatusEnumT_v02, Field ''lowPowerMode_valid'' C_uint8,
     Field ''lowPowerMode'' C_uint8]"

definition qmiLocSetServerReqMsgT_v02 :: ctype where
  "qmiLocSetServerReqMsgT_v02 = C_struct
    [Field ''serverType'' qmiLocServerTypeEnumT_v02, Field ''ipv4Addr_valid'' C_uint8,
     Field ''ipv4Addr'' qmiLocIpV4AddrStructType_v02, Field ''ipv6Addr_valid'' C_uint8,
     Field ''ipv6Addr'' qmiLocIpV6AddrStructType_v02, Field ''urlAddr_valid'' C_uint8,
     Field ''urlAddr'' (C_array C_char (QMI_LOC_MAX_SERVER_ADDR_LENGTH_V02 + 1))]"

definition qmiLocSetServerIndMsgT_v02 :: ctype where
  "qmiLocSetServerIndMsgT_v02 = C_struct
    [Field ''status'' qmiLocStatusEnumT_v02]"

definition qmiLocGetServerReqMsgT_v02 :: ctype where
  "qmiLocGetServerReqMsgT_v02 = C_struct
    [Field ''serverType'' qmiLocServerTypeEnumT_v02, Field ''serverAddrTypeMask_valid'' C_uint8,
     Field ''serverAddrTypeMask'' qmiLocServerAddrTypeMaskT_v02]"

definition qmiLocGetServerIndMsgT_v02 :: ctype where
  "qmiLocGetServerIndMsgT_v02 = C_struct
    [Field ''status'' qmiLocStatusEnumT_v02, Field ''serverType'' qmiLocServerTypeEnumT_v02,
     Field ''ipv4Addr_valid'' C_uint8, Field ''ipv4Addr'' qmiLocIpV4AddrStructType_v02,
     Field ''ipv6Addr_valid'' C_uint8, Field ''ipv6Addr'' qmiLocIpV6AddrStructType_v02,
     Field ''urlAddr_valid'' C_uint8,
     Field ''urlAddr'' (C_array C_char (QMI_LOC_MAX_SERVER_ADDR_LENGTH_V02 + 1))]"

definition qmiLocDeleteSvInfoStructT_v02 :: ctype where
  "qmiLocDeleteSvInfoStructT_v02 = C_struct
    [Field ''gnssSvId'' C_uint16, Field ''system'' qmiLocSvSystemEnumT_v02,
     Field ''deleteSvInfoMask'' qmiLocDeleteSvInfoMaskT_v02]"

lemma qmiLocDeleteSvInfoStructT_v02_layout [layout_simps]: "sizeof qmiLocDeleteSvInfoStructT_v02 = 12" "alignof qmiLocDeleteSvInfoStructT_v02 = 4"
  by (simp_all add: qmiLocDeleteSvInfoStructT_v02_def layout_simps)

definition qmiLocDeleteBDSSvInfoStructT_v02 :: ctype where
  "qmiLocDeleteBDSSvInfoStructT_v02 = C_struct
    [Field ''gnssSvId'' C_uint16, Field ''deleteSvInfoMask'' qmiLocDeleteSvInfoMaskT_v02]"

lemma qmiLocDeleteBDSSvInfoStructT_v02_layout [layout_simps]: "sizeof qmiLocDeleteBDSSvInfoStructT_v02 = 4" "alignof qmiLocDeleteBDSSvInfoStructT_v02 = 2"
  by (simp_all add: qmiLocDeleteBDSSvInfoStructT_v02_def layout_simps)

definition qmiLocDeleteGALSvInfoStructT_v02 :: ctype where
  "qmiLocDeleteGALSvInfoStructT_v02 = C_struct
    [Field ''gnssSvId'' C_uint16, Field ''deleteSvInfoMask'' qmiLocDeleteSvInfoMaskT_v02]"

lemma qmiLocDeleteGALSvInfoStructT_v02_layout [layout_simps]: "sizeof qmiLocDeleteGALSvInfoStructT_v02 = 4" "alignof qmiLocDeleteGALSvInfoStructT_v02 = 2"
  by (simp_all add: qmiLocDeleteGALSvInfoStructT_v02_def layout_simps)

definition qmiLocDeleteAssistDataReqMsgT_v02 :: ctype where
  "qmiLocDeleteAssistDataReqMsgT_v02 = C_struct
    [Field ''deleteAllFlag'' C_uint8, Field ''deleteSvInfoList_valid'' C_uint8,
     Field ''deleteSvInfoList_len'' C_uint32,
     Field ''deleteSvInfoList'' (C_array qmiLocDeleteSvInfoStructT_v02 QMI_LOC_DELETE_MAX_SV_INFO_LENGTH_V02),
     Field ''deleteGnssDataMask_valid'' C_uint8,
     Field ''deleteGnssDataMask'' qmiLocDeleteGnssDataMaskT_v02,
     Field ''deleteCellDbDataMask_valid'' C_uint8,
     Field ''deleteCellDbDataMask'' qmiLocDeleteCelldbDataMaskT_v02,
     Field ''deleteClockInfoMask_valid'' C_uint8,
     Field ''deleteClockInfoMask'' qmiLocDeleteClockInfoMaskT_v02,
     Field ''deleteBdsSvInfoList_valid'' C_uint8, Field ''deleteBdsSvInfoList_len'' C_uint32,
     Field ''deleteBdsSvInfoList'' (C_array qmiLocDeleteBDSSvInfoStructT_v02 QMI_LOC_DELETE_MAX_BDS_SV_INFO_LENGTH_V02),
     Field ''deleteGalSvInfoList_valid'' C_uint8, Field ''deleteGalSvInfoList_len'' C_uint32,
     Field ''deleteGalSvInfoList'' (C_array qmiLocDeleteGALSvInfoStructT_v02 QMI_LOC_DELETE_MAX_GAL_SV_INFO_LENGTH_V02),
     Field ''deleteQzssL1sDataFlag_valid'' C_uint8, Field ''deleteQzssL1sDataFlag'' C_uint8]"

definition qmiLocDeleteAssistDataIndMsgT_v02 :: ctype where
  "qmiLocDeleteAssistDataIndMsgT_v02 = C_struct
    [Field ''status'' qmiLocStatusEnumT_v02]"

definition qmiLocSetXtraTSessionControlReqMsgT_v02 :: ctype where
  "qmiLocSetXtraTSessionControlReqMsgT_v02 = C_struct
    [Field ''xtraTSessionControl'' C_uint8]"

definition qmiLocSetXtraTSessionControlIndMsgT_v02 :: ctype where
  "qmiLocSetXtraTSessionControlIndMsgT_v02 = C_struct
    [Field ''status'' qmiLocStatusEnumT_v02]"

definition qmiLocGetXtraTSessionControlReqMsgT_v02 :: ctype where
  "qmiLocGetXtraTSessionControlReqMsgT_v02 = C_struct
    [Field ''__placeholder'' C_char]"

definition qmiLocGetXtraTSessionControlIndMsgT_v02 :: ctype where
  "qmiLocGetXtraTSessionControlIndMsgT_v02 = C_struct
    [Field ''status'' qmiLocStatusEnumT_v02, Field ''xtraTSessionControl_valid'' C_uint8,
     Field ''xtraTSessionControl'' C_uint8]"

definition qmiLocWifiFixTimeStructT_v02 :: ctype where
  "qmiLocWifiFixTimeStructT_v02 = C_struct
    [Field ''wifiPositionTime'' C_uint32]"

lemma qmiLocWifiFixTimeStructT_v02_layout [layout_simps]: "sizeof qmiLocWifiFixTimeStructT_v02 = 4" "alignof qmiLocWifiFixTimeStructT_v02 = 4"
  by (simp_all add: qmiLocWifiFixTimeStructT_v02_def layout_simps)

definition qmiLocWifiFixPosStructT_v02 :: ctype where
  "qmiLocWifiFixPosStructT_v02 = C_struct
    [Field ''lat'' C_double, Field ''lon'' C_double, Field ''hepe'' C_uint16,
     Field ''numApsUsed'' C_uint8, Field ''fixErrorCode'' qmiLocWifiFixErrorCodeEnumT_v02]"

lemma qmiLocWifiFixPosStructT_v02_layout [layout_simps]: "sizeof qmiLocWifiFixPosStructT_v02 = 24" "alignof qmiLocWifiFixPosStructT_v02 = 8"
  by (simp_all add: qmiLocWifiFixPosStructT_v02_def layout_simps)

definition qmiLocWifiApInfoStructT_v02 :: ctype where
  "qmiLocWifiApInfoStructT_v02 = C_struct
    [Field ''macAddr'' (C_array C_uint8 QMI_LOC_WIFI_MAC_ADDR_LENGTH_V02), Field ''rssi'' C_int32,
     Field ''channel'' C_uint16, Field ''apQualifier'' qmiLocWifiApQualifierMaskT_v02]"

lemma qmiLocWifiApInfoStructT_v02_layout [layout_simps]: "sizeof qmiLocWifiApInfoStructT_v02 = 16" "alignof qmiLocWifiApInfoStructT_v02 = 4"
  by (simp_all add: qmiLocWifiApInfoStructT_v02_def layout_simps)

definition qmiLocWifiApSsidStructT_v02 :: ctype where
  "qmiLocWifiApSsidStructT_v02 = C_struct
    [Field ''ssid'' (C_array C_char (QMI_LOC_MAX_WIFI_AP_SSID_STR_LENGTH_V02 + 1))]"

lemma qmiLocWifiApSsidStructT_v02_layout [layout_simps]: "sizeof qmiLocWifiApSsidStructT_v02 = 33" "alignof qmiLocWifiApSsidStructT_v02 = 1"
  by (simp_all add: qmiLocWifiApSsidStructT_v02_def layout_simps)

definition qmiLocInjectWifiPositionReqMsgT_v02 :: ctype where
  "qmiLocInjectWifiPositionReqMsgT_v02 = C_struct
    [Field ''wifiFixTime_valid'' C_uint8, Field ''wifiFixTime'' qmiLocWifiFixTimeStructT_v02,
     Field ''wifiFixPosition_valid'' C_uint8, Field ''wifiFixPosition'' qmiLocWifiFixPosStructT_v02,
     Field ''apInfo_valid'' C_uint8, Field ''apInfo_len'' C_uint32,
     Field ''apInfo'' (C_array qmiLocWifiApInfoStructT_v02 QMI_LOC_WIFI_MAX_REPORTED_APS_PER_MSG_V02),
     Field ''horizontalReliability_valid'' C_uint8,
     Field ''horizontalReliability'' qmiLocReliabilityEnumT_v02, Field ''rawHepe_valid'' C_uint8,
     Field ''rawHepe'' C_uint16, Field ''wifiApSsidInfo_valid'' C_uint8,
     Field ''wifiApSsidInfo_len'' C_uint32,
     Field ''wifiApSsidInfo'' (C_array qmiLocWifiApSsidStructT_v02 QMI_LOC_WIFI_MAX_REPORTED_APS_PER_MSG_V02)]"

definition qmiLocInjectWifiPositionIndMsgT_v02 :: ctype where
  "qmiLocInjectWifiPositionIndMsgT_v02 = C_struct
    [Field ''status'' qmiLocStatusEnumT_v02]"

definition qmiLocNotifyWifiStatusReqMsgT_v02 :: ctype where
  "qmiLocNotifyWifiStatusReqMsgT_v02 = C_struct
    [Field ''wifiStatus'' qmiLocWifiStatusEnumT_v02]"

definition qmiLocNotifyWifiStatusIndMsgT_v02 :: ctype where
  "qmiLocNotifyWifiStatusIndMsgT_v02 = C_struct
    [Field ''status'' qmiLocStatusEnumT_v02]"

definition qmiLocGetRegisteredEventsReqMsgT_v02 :: ctype where
  "qmiLocGetRegisteredEventsReqMsgT_v02 = C_struct
    [Field ''__placeholder'' C_char]"

definition qmiLocGetRegisteredEventsIndMsgT_v02 :: ctype where
  "qmiLocGetRegisteredEventsIndMsgT_v02 = C_struct
    [Field ''status'' qmiLocStatusEnumT_v02, Field ''eventRegMask_valid'' C_uint8,
     Field ''eventRegMask'' qmiLocEventRegMaskT_v02]"

definition qmiLocSetOperationModeReqMsgT_v02 :: ctype where
  "qmiLocSetOperationModeReqMsgT_v02 = C_struct
    [Field ''operationMode'' qmiLocOperationModeEnumT_v02, Field ''minInterval_valid'' C_uint8,
     Field ''minInterval'' C_uint32]"

definition qmiLocSetOperationModeIndMsgT_v02 :: ctype where
  "qmiLocSetOperationModeIndMsgT_v02 = C_struct
    [Field ''status'' qmiLocStatusEnumT_v02]"

definition qmiLocGetOperationModeReqMsgT_v02 :: ctype where
  "qmiLocGetOperationModeReqMsgT_v02 = C_struct
    [Field ''__placeholder'' C_char]"

definition qmiLocGetOperationModeIndMsgT_v02 :: ctype where
  "qmiLocGetOperationModeIndMsgT_v02 = C_struct
    [Field ''status'' qmiLocStatusEnumT_v02, Field ''operationMode_valid'' C_uint8,
     Field ''operationMode'' qmiLocOperationModeEnumT_v02]"

definition qmiLocSetSpiStatusReqMsgT_v02 :: ctype where
  "qmiLocSetSpiStatusReqMsgT_v02 = C_struct
    [Field ''stationary'' C_uint8, Field ''confidenceStationary_valid'' C_uint8,
     Field ''confidenceStationary'' C_uint8]"

definition qmiLocSetSpiStatusIndMsgT_v02 :: ctype where
  "qmiLocSetSpiStatusIndMsgT_v02 = C_struct
    [Field ''status'' qmiLocStatusEnumT_v02]"

definition qmiLoc3AxisSensorSampleStructT_v02 :: ctype where
  "qmiLoc3AxisSensorSampleStructT_v02 = C_struct
    [Field ''timeOffset'' C_uint16, Field ''xAxis'' C_float, Field ''yAxis'' C_float,
     Field ''zAxis'' C_float]"

lemma qmiLoc3AxisSensorSampleStructT_v02_layout [layout_simps]: "sizeof qmiLoc3AxisSensorSampleStructT_v02 = 16" "alignof qmiLoc3AxisSensorSampleStructT_v02 = 4"
  by (simp_all add: qmiLoc3AxisSensorSampleStructT_v02_def layout_simps)

definition qmiLoc3AxisSensorSampleListStructT_v02 :: ctype where
  "qmiLoc3AxisSensorSampleListStructT_v02 = C_struct
    [Field ''timeOfFirstSample'' C_uint32, Field ''flags'' qmiLocSensorDataFlagMaskT_v02,
     Field ''sensorData_len'' C_uint32,
     Field ''sensorData'' (C_array qmiLoc3AxisSensorSampleStructT_v02 QMI_LOC_SENSOR_DATA_MAX_SAMPLES_V02)]"

lemma qmiLoc3AxisSensorSampleListStructT_v02_layout [layout_simps]: "sizeof qmiLoc3AxisSensorSampleListStructT_v02 = 812" "alignof qmiLoc3AxisSensorSampleListStructT_v02 = 4"
  by (simp_all add: qmiLoc3AxisSensorSampleListStructT_v02_def layout_simps)

definition qmiLocSensorTemperatureSampleStructT_v02 :: ctype where
  "qmiLocSensorTemperatureSampleStructT_v02 = C_struct
    [Field ''timeOffset'' C_uint16, Field ''temperature'' C_float]"

lemma qmiLocSensorTemperatureSampleStructT_v02_layout [layout_simps]: "sizeof qmiLocSensorTemperatureSampleStructT_v02 = 8" "alignof qmiLocSensorTemperatureSampleStructT_v02 = 4"
  by (simp_all add: qmiLocSensorTemperatureSampleStructT_v02_def layout_simps)

definition qmiLocSensorTemperatureSampleListStructT_v02 :: ctype where
  "qmiLocSensorTemperatureSampleListStructT_v02 = C_struct
    [Field ''timeSource'' qmiLocSensorDataTimeSourceEnumT_v02, Field ''timeOfFirstSample'' C_uint32,
     Field ''temperatureData_len'' C_uint32,
     Field ''temperatureData'' (C_array qmiLocSensorTemperatureSampleStructT_v02 QMI_LOC_SENSOR_DATA_MAX_SAMPLES_V02)]"

lemma qmiLocSensorTemperatureSampleListStructT_v02_layout [layout_simps]: "sizeof qmiLocSensorTemperatureSampleListStructT_v02 = 412" "alignof qmiLocSensorTemperatureSampleListStructT_v02 = 4"
  by (simp_all add: qmiLocSensorTemperatureSampleListStructT_v02_def layout_simps)

definition qmiLocInjectSensorDataReqMsgT_v02 :: ctype where
  "qmiLocInjectSensorDataReqMsgT_v02 = C_struct
    [Field ''opaqueIdentifier_valid'' C_uint8, Field ''opaqueIdentifier'' C_uint32,
     Field ''threeAxisAccelData_valid'' C_uint8,
     Field ''threeAxisAccelData'' qmiLoc3AxisSensorSampleListStructT_v02,
     Field ''threeAxisGyroData_valid'' C_uint8,
     Field ''threeAxisGyroData'' qmiLoc3AxisSensorSampleListStructT_v02,
     Field ''threeAxisAccelDataTimeSource_valid'' C_uint8,
     Field ''threeAxisAccelDataTimeSource'' qmiLocSensorDataTimeSourceEnumT_v02,
     Field ''threeAxisGyroDataTimeSource_valid'' C_uint8,
     Field ''threeAxisGyroDataTimeSource'' qmiLocSensorDataTimeSourceEnumT_v02,
     Field ''accelTemperatureData_valid'' C_uint8,
     Field ''accelTemperatureData'' qmiLocSensorTemperatureSampleListStructT_v02,
     Field ''gyroTemperatureData_valid'' C_uint8,
     Field ''gyroTemperatureData'' qmiLocSensorTemperatureSampleListStructT_v02,
     Field ''threeAxisMagData_valid'' C_uint8,
     Field ''threeAxisMagData'' qmiLoc3AxisSensorSampleListStructT_v02,
     Field ''threeAxisMagDataTimeSource_valid'' C_uint8,
     Field ''threeAxisMagDataTimeSource'' qmiLocSensorDataTimeSourceEnumT_v02]"

definition qmiLocInjectSensorDataIndMsgT_v02 :: ctype where
  "qmiLocInjectSensorDataIndMsgT_v02 = C_struct
    [Field ''status'' qmiLocStatusEnumT_v02, Field ''opaqueIdentifier_valid'' C_uint8,
     Field ''opaqueIdentifier'' C_uint32, Field ''threeAxisAccelSamplesAccepted_valid'' C_uint8,
     Field ''threeAxisAccelSamplesAccepted'' C_uint8,
     Field ''threeAxisGyroSamplesAccepted_valid'' C_uint8,
     Field ''threeAxisGyroSamplesAccepted'' C_uint8,
     Field ''accelTemperatureSamplesAccepted_valid'' C_uint8,
     Field ''accelTemperatureSamplesAccepted'' C_uint8,
     Field ''gyroTemperatureSamplesAccepted_valid'' C_uint8,
     Field ''gyroTemperatureSamplesAccepted'' C_uint8,
     Field ''threeAxisMagSamplesAccepted_valid'' C_uint8, Field ''threeAxisMagSamplesAccepted'' C_uint8]"

definition qmiLocInjectTimeSyncDataReqMsgT_v02 :: ctype where
  "qmiLocInjectTimeSyncDataReqMsgT_v02 = C_struct
    [Field ''refCounter'' C_uint32, Field ''sensorProcRxTime'' C_uint32,
     Field ''sensorProcTxTime'' C_uint32]"

definition qmiLocInjectTimeSyncDataIndMsgT_v02 :: ctype where
  "qmiLocInjectTimeSyncDataIndMsgT_v02 = C_struct
    [Field ''status'' qmiLocStatusEnumT_v02]"

definition qmiLocGetCradleMountConfigReqMsgT_v02 :: ctype where
  "qmiLocGetCradleMountConfigReqMsgT_v02 = C_struct
    [Field ''__placeholder'' C_char]"

definition qmiLocGetCradleMountConfigIndMsgT_v02 :: ctype where
  "qmiLocGetCradleMountConfigIndMsgT_v02 = C_struct
    [Field ''status'' qmiLocStatusEnumT_v02, Field ''cradleMountState_valid'' C_uint8,
     Field ''cradleMountState'' qmiLocCradleMountStateEnumT_v02,
     Field ''confidenceCradleMountState_valid'' C_uint8, Field ''confidenceCradleMountState'' C_uint8]"

definition qmiLocSetCradleMountConfigReqMsgT_v02 :: ctype where
  "qmiLocSetCradleMountConfigReqMsgT_v02 = C_struct
    [Field ''cradleMountState'' qmiLocCradleMountStateEnumT_v02,
     Field ''confidenceCradleMountState_valid'' C_uint8, Field ''confidenceCradleMountState'' C_uint8]"

definition qmiLocSetCradleMountConfigIndMsgT_v02 :: ctype where
  "qmiLocSetCradleMountConfigIndMsgT_v02 = C_struct
    [Field ''status'' qmiLocStatusEnumT_v02]"

definition qmiLocGetExternalPowerConfigReqMsgT_v02 :: ctype where
  "qmiLocGetExternalPowerConfigReqMsgT_v02 = C_struct
    [Field ''__placeholder'' C_char]"

definition qmiLocGetExternalPowerConfigIndMsgT_v02 :: ctype where
  "qmiLocGetExternalPowerConfigIndMsgT_v02 = C_struct
    [Field ''status'' qmiLocStatusEnumT_v02, Field ''externalPowerState_valid'' C_uint8,
     Field ''externalPowerState'' qmiLocExternalPowerConfigEnumT_v02]"

definition qmiLocSetExternalPowerConfigReqMsgT_v02 :: ctype where
  "qmiLocSetExternalPowerConfigReqMsgT_v02 = C_struct
    [Field ''externalPowerState'' qmiLocExternalPowerConfigEnumT_v02,
     Field ''batteryLevel_valid'' C_uint8, Field ''batteryLevel'' qmiLocBatteryLevelEnumT_v02]"

definition qmiLocSetExternalPowerConfigIndMsgT_v02 :: ctype where
  "qmiLocSetExternalPowerConfigIndMsgT_v02 = C_struct
    [Field ''status'' qmiLocStatusEnumT_v02]"

definition qmiLocApnProfilesStructT_v02 :: ctype where
  "qmiLocApnProfilesStructT_v02 = C_struct
    [Field ''pdnType'' qmiLocServerPDNEnumT_v02,
     Field ''apnName'' (C_array C_char (QMI_LOC_MAX_APN_NAME_LENGTH_V02 + 1))]"

lemma qmiLocApnProfilesStructT_v02_layout [layout_simps]: "sizeof qmiLocApnProfilesStructT_v02 = 108" "alignof qmiLocApnProfilesStructT_v02 = 4"
  by (simp_all add: qmiLocApnProfilesStructT_v02_def layout_simps)

definition qmiLocInformLocationServerConnStatusReqMsgT_v02 :: ctype where
  "qmiLocInformLocationServerConnStatusReqMsgT_v02 = C_struct
    [Field ''connHandle'' C_uint32, Field ''requestType'' qmiLocServerRequestEnumT_v02,
     Field ''statusType'' qmiLocServerReqStatusEnumT_v02, Field ''apnProfile_valid'' C_uint8,
     Field ''apnProfile'' qmiLocApnProfilesStructT_v02, Field ''apnTypeMask_valid'' C_uint8,
     Field ''apnTypeMask'' qmiLocApnTypeMaskT_v02]"

definition qmiLocInformLocationServerConnStatusIndMsgT_v02 :: ctype where
  "qmiLocInformLocationServerConnStatusIndMsgT_v02 = C_struct
    [Field ''status'' qmiLocStatusEnumT_v02]"

definition qmiLocSetProtocolConfigParametersReqMsgT_v02 :: ctype where
  "qmiLocSetProtocolConfigParametersReqMsgT_v02 = C_struct
    [Field ''suplSecurity_valid'' C_uint8, Field ''suplSecurity'' C_uint8,
     Field ''vxVersion_valid'' C_uint8, Field ''vxVersion'' qmiLocVxVersionEnumT_v02,
     Field ''suplVersion_valid'' C_uint8, Field ''suplVersion'' qmiLocSuplVersionEnumT_v02,
     Field ''lppConfig_valid'' C_uint8, Field ''lppConfig'' qmiLocLppConfigMaskT_v02,
     Field ''assistedGlonassProtocolMask_valid'' C_uint8,
     Field ''assistedGlonassProtocolMask'' qmiLocAssistedGlonassProtocolMaskT_v02,
     Field ''suplHashAlgo_valid'' C_uint8, Field ''suplHashAlgo'' qmiLocSuplHashAlgoEnumT_v02,
     Field ''suplTlsVersion_valid'' C_uint8, Field ''suplTlsVersion'' qmiLocSuplTlsVersionEnumT_v02,
     Field ''emergencyProtocol_valid'' C_uint8,
     Field ''emergencyProtocol'' qmiLocEmergencyProtocolEnumT_v02,
     Field ''wifiScanInjectTimeout_valid'' C_uint8, Field ''wifiScanInjectTimeout'' C_uint8,
     Field ''lppeUpConfig_valid'' C_uint8, Field ''lppeUpConfig'' qmiLocLppeUpAuxTechMaskT_v02,
     Field ''lppeCpConfig_valid'' C_uint8, Field ''lppeCpConfig'' qmiLocLppeCpAuxTechMaskT_v02,
     Field ''emergencyCallbackWindow_valid'' C_uint8, Field ''emergencyCallbackWindow'' C_uint32]"

definition qmiLocSetProtocolConfigParametersIndMsgT_v02 :: ctype where
  "qmiLocSetProtocolConfigParametersIndMsgT_v02 = C_struct
    [Field ''status'' qmiLocStatusEnumT_v02, Field ''failedProtocolConfigParamMask_valid'' C_uint8,
     Field ''failedProtocolConfigParamMask'' qmiLocProtocolConfigParamMaskT_v02]"

definition qmiLocGetProtocolConfigParametersReqMsgT_v02 :: ctype where
  "qmiLocGetProtocolConfigParametersReqMsgT_v02 = C_struct
    [Field ''getProtocolConfigParamMask'' qmiLocProtocolConfigParamMaskT_v02]"

definition qmiLocGetProtocolConfigParametersIndMsgT_v02 :: ctype where
  "qmiLocGetProtocolConfigParametersIndMsgT_v02 = C_struct
    [Field ''status'' qmiLocStatusEnumT_v02, Field ''suplSecurity_valid'' C_uint8,
     Field ''suplSecurity'' C_uint8, Field ''vxVersion_valid'' C_uint8,
     Field ''vxVersion'' qmiLocVxVersionEnumT_v02, Field ''suplVersion_valid'' C_uint8,
     Field ''suplVersion'' qmiLocSuplVersionEnumT_v02, Field ''lppConfig_valid'' C_uint8,
     Field ''lppConfig'' qmiLocLppConfigMaskT_v02, Field ''assistedGlonassProtocolMask_valid'' C_uint8,
     Field ''assistedGlonassProtocolMask'' qmiLocAssistedGlonassProtocolMaskT_v02,
     Field ''suplHashAlgo_valid'' C_uint8, Field ''suplHashAlgo'' qmiLocSuplHashAlgoEnumT_v02,
     Field ''suplTlsVersion_valid'' C_uint8, Field ''suplTlsVersion'' qmiLocSuplTlsVersionEnumT_v02,
     Field ''emergencyProtocol_valid'' C_uint8,
     Field ''emergencyProtocol'' qmiLocEmergencyProtocolEnumT_v02,
     Field ''wifiScanInjectTimeout_valid'' C_uint8, Field ''wifiScanInjectTimeout'' C_uint8,
     Field ''lppeUpConfig_valid'' C_uint8, Field ''lppeUpConfig'' qmiLocLppeUpAuxTechMaskT_v02,
     Field ''lppeCpConfig_valid'' C_uint8, Field ''lppeCpConfig'' qmiLocLppeCpAuxTechMaskT_v02,
     Field ''emergencyCallbackWindow_valid'' C_uint8, Field ''emergencyCallbackWindow'' C_uint32]"

definition qmiLocSetSensorControlConfigReqMsgT_v02 :: ctype where
  "qmiLocSetSensorControlConfigReqMsgT_v02 = C_struct
    [Field ''sensorsUsage_valid'' C_uint8,
     Field ''sensorsUsage'' qmiLocSensorsControlConfigSensorUseEnumT_v02,
     Field ''sensorProvider_valid'' C_uint8,
     Field ''sensorProvider'' qmiLocSensorsControlConfigSensorProviderEnumT_v02]"

definition qmiLocSetSensorControlConfigIndMsgT_v02 :: ctype where
  "qmiLocSetSensorControlConfigIndMsgT_v02 = C_struct
    [Field ''status'' qmiLocStatusEnumT_v02]"

definition qmiLocGetSensorControlConfigReqMsgT_v02 :: ctype where
  "qmiLocGetSensorControlConfigReqMsgT_v02 = C_struct
    [Field ''__placeholder'' C_char]"

definition qmiLocGetSensorControlConfigIndMsgT_v02 :: ctype where
  "qmiLocGetSensorControlConfigIndMsgT_v02 = C_struct
    [Field ''status'' qmiLocStatusEnumT_v02, Field ''sensorsUsage_valid'' C_uint8,
     Field ''sensorsUsage'' qmiLocSensorsControlConfigSensorUseEnumT_v02,
     Field ''sensorProvider_valid'' C_uint8,
     Field ''sensorProvider'' qmiLocSensorsControlConfigSensorProviderEnumT_v02]"

definition qmiLocSetSensorPropertiesReqMsgT_v02 :: ctype where
  "qmiLocSetSensorPropertiesReqMsgT_v02 = C_struct
    [Field ''gyroBiasVarianceRandomWalk_valid'' C_uint8, Field ''gyroBiasVarianceRandomWalk'' C_float,
     Field ''velocityRandomWalkSpectralDensity_valid'' C_uint8,
     Field ''velocityRandomWalkSpectralDensity'' C_float,
     Field ''accelerationRandomWalkSpectralDensity_valid'' C_uint8,
     Field ''accelerationRandomWalkSpectralDensity'' C_float,
     Field ''angleRandomWalkSpectralDensity_valid'' C_uint8,
     Field ''angleRandomWalkSpectralDensity'' C_float,
     Field ''rateRandomWalkSpectralDensity_valid'' C_uint8,
     Field ''rateRandomWalkSpectralDensity'' C_float, Field ''vehicleDataUse_valid'' C_uint8,
     Field ''vehicleDataUse'' qmiLocVehicleDataUseControlMaskT_v02,
     Field ''vehicleVelocityRandomWalkSpectralDensity_valid'' C_uint8,
     Field ''vehicleVelocityRandomWalkSpectralDensity'' C_float,
     Field ''vehicleAccelRandomWalkSpectralDensity_valid'' C_uint8,
     Field ''vehicleAccelRandomWalkSpectralDensity'' C_float,
     Field ''vehicleAngleRandomWalkSpectralDensity_valid'' C_uint8,
     Field ''vehicleAngleRandomWalkSpectralDensity'' C_float,
     Field ''vehicleAngularRateRandomWalkSpectralDensity_valid'' C_uint8,
     Field ''vehicleAngularRateRandomWalkSpectralDensity'' C_float,
     Field ''vehicleOdometryScaleFactorRandomWalkSpectralDensity_valid'' C_uint8,
     Field ''vehicleOdometryScaleFactorRandomWalkSpectralDensity'' C_float,
     Field ''vehicleOdometryVariance_valid'' C_uint8, Field ''vehicleOdometryVariance'' C_float]"

definition qmiLocSetSensorPropertiesIndMsgT_v02 :: ctype where
  "qmiLocSetSensorPropertiesIndMsgT_v02 = C_struct
    [Field ''status'' qmiLocStatusEnumT_v02, Field ''failedSensorPropertiesMask_valid'' C_uint8,
     Field ''failedSensorPropertiesMask'' qmiLocSensorPropertiesMaskT_v02]"

definition qmiLocGetSensorPropertiesReqMsgT_v02 :: ctype where
  "qmiLocGetSensorPropertiesReqMsgT_v02 = C_struct
    [Field ''getSensorPropertiesMask'' qmiLocSensorPropertiesMaskT_v02]"

definition qmiLocGetSensorPropertiesIndMsgT_v02 :: ctype where
  "qmiLocGetSensorPropertiesIndMsgT_v02 = C_struct
    [Field ''status'' qmiLocStatusEnumT_v02, Field ''gyroBiasVarianceRandomWalk_valid'' C_uint8,
     Field ''gyroBiasVarianceRandomWalk'' C_float,
     Field ''velocityRandomWalkSpectralDensity_valid'' C_uint8,
     Field ''velocityRandomWalkSpectralDensity'' C_float,
     Field ''accelerationRandomWalkSpectralDensity_valid'' C_uint8,
     Field ''accelerationRandomWalkSpectralDensity'' C_float,
     Field ''angleRandomWalkSpectralDensity_valid'' C_uint8,
     Field ''angleRandomWalkSpectralDensity'' C_float,
     Field ''rateRandomWalkSpectralDensity_valid'' C_uint8,
     Field ''rateRandomWalkSpectralDensity'' C_float, Field ''vehicleDataUse_valid'' C_uint8,
     Field ''vehicleDataUse'' qmiLocVehicleDataUseControlMaskT_v02,
     Field ''vehicleVelocityRandomWalkSpectralDensity_valid'' C_uint8,
     Field ''vehicleVelocityRandomWalkSpectralDensity'' C_float,
     Field ''vehicleAccelRandomWalkSpectralDensity_valid'' C_uint8,
     Field ''vehicleAccelRandomWalkSpectralDensity'' C_float,
     Field ''vehicleAngleRandomWalkSpectralDensity_valid'' C_uint8,
     Field ''vehicleAngleRandomWalkSpectralDensity'' C_float,
     Field ''vehicleAngularRateRandomWalkSpectralDensity_valid'' C_uint8,
     Field ''vehicleAngularRateRandomWalkSpectralDensity'' C_float,
     Field ''vehicleOdometryScaleFactorRandomWalkSpectralDensity_valid'' C_uint8,
     Field ''vehicleOdometryScaleFactorRandomWalkSpectralDensity'' C_float,
     Field ''vehicleOdometryVariance_valid'' C_uint8, Field ''vehicleOdometryVariance'' C_float]"

definition qmiLocSetSensorPerformanceControlConfigReqMsgT_v02 :: ctype where
  "qmiLocSetSensorPerformanceControlConfigReqMsgT_v02 = C_struct
    [Field ''performanceControlMode_valid'' C_uint8,
     Field ''performanceControlMode'' qmiLocSensorPerformanceControlModeEnumT_v02,
     Field ''accelSamplingSpec_valid'' C_uint8,
     Field ''accelSamplingSpec'' qmiLocSensorControlConfigSamplingSpecStructT_v02,
     Field ''gyroSamplingSpec_valid'' C_uint8,
     Field ''gyroSamplingSpec'' qmiLocSensorControlConfigSamplingSpecStructT_v02,
     Field ''algorithmConfig_valid'' C_uint8, Field ''algorithmConfig'' qmiLocSensorAlgorithmMaskT_v02,
     Field ''accelSamplingSpecHigh_valid'' C_uint8,
     Field ''accelSamplingSpecHigh'' qmiLocSensorControlConfigSamplingSpecStructT_v02,
     Field ''gyroSamplingSpecHigh_valid'' C_uint8,
     Field ''gyroSamplingSpecHigh'' qmiLocSensorControlConfigSamplingSpecStructT_v02]"

definition qmiLocSetSensorPerformanceControlConfigIndMsgT_v02 :: ctype where
  "qmiLocSetSensorPerformanceControlConfigIndMsgT_v02 = C_struct
    [Field ''status'' qmiLocStatusEnumT_v02, Field ''failedConfiguration_valid'' C_uint8,
     Field ''failedConfiguration'' qmiLocSensorPerformanceControlConfigFailureMaskT_v02]"

definition qmiLocGetSensorPerformanceControlConfigReqMsgT_v02 :: ctype where
  "qmiLocGetSensorPerformanceControlConfigReqMsgT_v02 = C_struct
    [Field ''__placeholder'' C_char]"

definition qmiLocGetSensorPerformanceControlConfigIndMsgT_v02 :: ctype where
  "qmiLocGetSensorPerformanceControlConfigIndMsgT_v02 = C_struct
    [Field ''status'' qmiLocStatusEnumT_v02, Field ''performanceControlMode_valid'' C_uint8,
     Field ''performanceControlMode'' qmiLocSensorPerformanceControlModeEnumT_v02,
     Field ''accelSamplingSpec_valid'' C_uint8,
     Field ''accelSamplingSpec'' qmiLocSensorControlConfigSamplingSpecStructT_v02,
     Field ''gyroSamplingSpec_valid'' C_uint8,
     Field ''gyroSamplingSpec'' qmiLocSensorControlConfigSamplingSpecStructT_v02,
     Field ''algorithmConfig_valid'' C_uint8, Field ''algorithmConfig'' qmiLocSensorAlgorithmMaskT_v02,
     Field ''accelSamplingSpecHigh_valid'' C_uint8,
     Field ''accelSamplingSpecHigh'' qmiLocSensorControlConfigSamplingSpecStructT_v02,
     Field ''gyroSamplingSpecHigh_valid'' C_uint8,
     Field ''gyroSamplingSpecHigh'' qmiLocSensorControlConfigSamplingSpecStructT_v02]"

definition qmiLocInjectSuplCertificateReqMsgT_v02 :: ctype where
  "qmiLocInjectSuplCertificateReqMsgT_v02 = C_struct
    [Field ''suplCertId'' C_uint8, Field ''suplCertData_len'' C_uint32,
     Field ''suplCertData'' (C_array C_uint8 QMI_LOC_MAX_SUPL_CERT_LENGTH_V02)]"

definition qmiLocInjectSuplCertificateIndMsgT_v02 :: ctype where
  "qmiLocInjectSuplCertificateIndMsgT_v02 = C_struct
    [Field ''status'' qmiLocStatusEnumT_v02]"

definition qmiLocDeleteSuplCertificateReqMsgT_v02 :: ctype where
  "qmiLocDeleteSuplCertificateReqMsgT_v02 = C_struct
    [Field ''suplCertId_valid'' C_uint8, Field ''suplCertId'' C_uint8]"

definition qmiLocDeleteSuplCertificateIndMsgT_v02 :: ctype where
  "qmiLocDeleteSuplCertificateIndMsgT_v02 = C_struct
    [Field ''status'' qmiLocStatusEnumT_v02]"

definition qmiLocSetPositionEngineConfigParametersReqMsgT_v02 :: ctype where
  "qmiLocSetPositionEngineConfigParametersReqMsgT_v02 = C_struct
    [Field ''injectedPositionControl_valid'' C_uint8, Field ''injectedPositionControl'' C_uint8,
     Field ''filterSvUsage_valid'' C_uint8, Field ''filterSvUsage'' C_uint8,
     Field ''storeAssistData_valid'' C_uint8, Field ''storeAssistData'' C_uint8,
     Field ''enableFasterTTFF_valid'' C_uint8, Field ''enableFasterTTFF'' C_uint8]"

definition qmiLocSetPositionEngineConfigParametersIndMsgT_v02 :: ctype where
  "qmiLocSetPositionEngineConfigParametersIndMsgT_v02 = C_struct
    [Field ''status'' qmiLocStatusEnumT_v02,
     Field ''failedPositionEngineConfigParamMask_valid'' C_uint8,
     Field ''failedPositionEngineConfigParamMask'' qmiLocPositionEngineConfigParamMaskT_v02]"

definition qmiLocGetPositionEngineConfigParametersReqMsgT_v02 :: ctype where
  "qmiLocGetPositionEngineConfigParametersReqMsgT_v02 = C_struct
    [Field ''getPositionEngineConfigParamMask'' qmiLocPositionEngineConfigParamMaskT_v02]"

definition qmiLocGetPositionEngineConfigParametersIndMsgT_v02 :: ctype where
  "qmiLocGetPositionEngineConfigParametersIndMsgT_v02 = C_struct
    [Field ''status'' qmiLocStatusEnumT_v02, Field ''injectedPositionControl_valid'' C_uint8,
     Field ''injectedPositionControl'' C_uint8, Field ''filterSvUsage_valid'' C_uint8,
     Field ''filterSvUsage'' C_uint8, Field ''storeAssistData_valid'' C_uint8,
     Field ''storeAssistData'' C_uint8, Field ''enableFasterTTFF_valid'' C_uint8,
     Field ''enableFasterTTFF'' C_uint8]"

definition qmiLocCircularGeofenceArgsStructT_v02 :: ctype where
  "qmiLocCircularGeofenceArgsStructT_v02 = C_struct
    [Field ''latitude'' C_double, Field ''longitude'' C_double, Field ''radius'' C_uint32]"

lemma qmiLocCircularGeofenceArgsStructT_v02_layout [layout_simps]: "sizeof qmiLocCircularGeofenceArgsStructT_v02 = 24" "alignof qmiLocCircularGeofenceArgsStructT_v02 = 8"
  by (simp_all add: qmiLocCircularGeofenceArgsStructT_v02_def layout_simps)

definition qmiLocAddCircularGeofenceReqMsgT_v02 :: ctype where
  "qmiLocAddCircularGeofenceReqMsgT_v02 = C_struct
    [Field ''transactionId'' C_uint32,
     Field ''circularGeofenceArgs'' qmiLocCircularGeofenceArgsStructT_v02,
     Field ''breachMask'' qmiLocGeofenceBreachMaskT_v02, Field ''includePosition'' C_uint8,
     Field ''responsiveness_valid'' C_uint8,
     Field ''responsiveness'' qmiLocGeofenceResponsivenessEnumT_v02, Field ''confidence_valid'' C_uint8,
     Field ''confidence'' qmiLocGeofenceConfidenceEnumT_v02,
     Field ''customResponsivenessValue_valid'' C_uint8, Field ''customResponsivenessValue'' C_uint32,
     Field ''dwellTime_valid'' C_uint8, Field ''dwellTime'' C_uint32,
     Field ''dwellTypeMask_valid'' C_uint8, Field ''dwellTypeMask'' qmiLocGeofenceDwellTypeMaskT_v02]"

definition qmiLocAddCircularGeofenceIndMsgT_v02 :: ctype where
  "qmiLocAddCircularGeofenceIndMsgT_v02 = C_struct
    [Field ''status'' qmiLocStatusEnumT_v02, Field ''transactionId_valid'' C_uint8,
     Field ''transactionId'' C_uint32, Field ''geofenceId_valid'' C_uint8, Field ''geofenceId'' C_uint32]"

definition qmiLocDeleteGeofenceReqMsgT_v02 :: ctype where
  "qmiLocDeleteGeofenceReqMsgT_v02 = C_struct
    [Field ''geofenceId'' C_uint32, Field ''transactionId'' C_uint32]"

definition qmiLocDeleteGeofenceIndMsgT_v02 :: ctype where
  "qmiLocDeleteGeofenceIndMsgT_v02 = C_struct
    [Field ''status'' qmiLocStatusEnumT_v02, Field ''geofenceId_valid'' C_uint8,
     Field ''geofenceId'' C_uint32, Field ''transactionId_valid'' C_uint8,
     Field ''transactionId'' C_uint32]"

definition qmiLocQueryGeofenceReqMsgT_v02 :: ctype where
  "qmiLocQueryGeofenceReqMsgT_v02 = C_struct
    [Field ''geofenceId'' C_uint32, Field ''transactionId'' C_uint32]"

definition qmiLocQueryGeofenceIndMsgT_v02 :: ctype where
  "qmiLocQueryGeofenceIndMsgT_v02 = C_struct
    [Field ''status'' qmiLocStatusEnumT_v02, Field ''geofenceId_valid'' C_uint8,
     Field ''geofenceId'' C_uint32, Field ''transactionId_valid'' C_uint8,
     Field ''transactionId'' C_uint32, Field ''geofenceOrigin_valid'' C_uint8,
     Field ''geofenceOrigin'' qmiLocGeofenceOriginEnumT_v02, Field ''posWrtGeofence_valid'' C_uint8,
     Field ''posWrtGeofence'' qmiLocGeofencePositionEnumT_v02,
     Field ''circularGeofenceArgs_valid'' C_uint8,
     Field ''circularGeofenceArgs'' qmiLocCircularGeofenceArgsStructT_v02,
     Field ''geofenceState_valid'' C_uint8, Field ''geofenceState'' qmiLocGeofenceStateEnumT_v02]"

definition qmiLocGeofenceMotionStateConfigStructT_v02 :: ctype where
  "qmiLocGeofenceMotionStateConfigStructT_v02 = C_struct
    [Field ''motionState'' qmiLocGeofenceMotionStatesEnumT_v02, Field ''motionStateSpeed'' C_float]"

lemma qmiLocGeofenceMotionStateConfigStructT_v02_layout [layout_simps]: "sizeof qmiLocGeofenceMotionStateConfigStructT_v02 = 8" "alignof qmiLocGeofenceMotionStateConfigStructT_v02 = 4"
  by (simp_all add: qmiLocGeofenceMotionStateConfigStructT_v02_def layout_simps)

definition qmiLocSetGeofenceEngineConfigReqMsgT_v02 :: ctype where
  "qmiLocSetGeofenceEngineConfigReqMsgT_v02 = C_struct
    [Field ''transactionId'' C_uint32, Field ''gnssUnavailableIndicationTimeout_valid'' C_uint8,
     Field ''gnssUnavailableIndicationTimeout'' C_uint32, Field ''maxGeofences_valid'' C_uint8,
     Field ''maxGeofences'' C_uint32, Field ''enableMotionDetectionSources_valid'' C_uint8,
     Field ''enableMotionDetectionSources'' qmiLocMotionDetectionSourceMaskT_v02,
     Field ''enableCpiUsage_valid'' C_uint8, Field ''enableCpiUsage'' C_uint8,
     Field ''gnssPositionSessionTimeout_valid'' C_uint8, Field ''gnssPositionSessionTimeout'' C_uint32,
     Field ''gnssPositionMaxPuncAcceptable_valid'' C_uint8,
     Field ''gnssPositionMaxPuncAcceptable'' C_uint32,
     Field ''mediumResponsivenessValue_valid'' C_uint8, Field ''mediumResponsivenessValue'' C_uint32,
     Field ''chalGnssEnvMinCpiWaitInterval_valid'' C_uint8,
     Field ''chalGnssEnvMinCpiWaitInterval'' C_uint32, Field ''motionStateInfo_valid'' C_uint8,
     Field ''motionStateInfo_len'' C_uint32,
     Field ''motionStateInfo'' (C_array qmiLocGeofenceMotionStateConfigStructT_v02 QMI_LOC_GEOFENCE_MAX_MOTION_STATES_V02)]"

definition qmiLocSetGeofenceEngineConfigIndMsgT_v02 :: ctype where
  "qmiLocSetGeofenceEngineConfigIndMsgT_v02 = C_struct
    [Field ''status'' qmiLocStatusEnumT_v02, Field ''transactionId_valid'' C_uint8,
     Field ''transactionId'' C_uint32]"

definition qmiLocGetGeofenceEngineConfigReqMsgT_v02 :: ctype where
  "qmiLocGetGeofenceEngineConfigReqMsgT_v02 = C_struct
    [Field ''transactionId'' C_uint32]"

definition qmiLocGetGeofenceEngineConfigIndMsgT_v02 :: ctype where
  "qmiLocGetGeofenceEngineConfigIndMsgT_v02 = C_struct
    [Field ''status'' qmiLocStatusEnumT_v02, Field ''transactionId_valid'' C_uint8,
     Field ''transactionId'' C_uint32, Field ''gnssUnavailableIndicationTimeout_valid'' C_uint8,
     Field ''gnssUnavailableIndicationTimeout'' C_uint32, Field ''maxGeofences_valid'' C_uint8,
     Field ''maxGeofences'' C_uint32, Field ''enabledMotionDetectionSources_valid'' C_uint8,
     Field ''enabledMotionDetectionSources'' qmiLocMotionDetectionSourceMaskT_v02,
     Field ''enabledCpiUsage_valid'' C_uint8, Field ''enabledCpiUsage'' C_uint8]"

definition qmiLocEditGeofenceReqMsgT_v02 :: ctype where
  "qmiLocEditGeofenceReqMsgT_v02 = C_struct
    [Field ''geofenceId'' C_uint32, Field ''transactionId'' C_uint32,
     Field ''geofenceState_valid'' C_uint8, Field ''geofenceState'' qmiLocGeofenceStateEnumT_v02,
     Field ''breachMask_valid'' C_uint8, Field ''breachMask'' qmiLocGeofenceBreachMaskT_v02,
     Field ''responsiveness_valid'' C_uint8,
     Field ''responsiveness'' qmiLocGeofenceResponsivenessEnumT_v02]"

definition qmiLocEditGeofenceIndMsgT_v02 :: ctype where
  "qmiLocEditGeofenceIndMsgT_v02 = C_struct
    [Field ''status'' qmiLocStatusEnumT_v02, Field ''geofenceId_valid'' C_uint8,
     Field ''geofenceId'' C_uint32, Field ''transactionId_valid'' C_uint8,
     Field ''transactionId'' C_uint32, Field ''failedParams_valid'' C_uint8,
     Field ''failedParams'' qmiLocGeofenceConfigParamMaskT_v02]"

definition qmiLocEventGetTimeZoneReqIndMsgT_v02 :: ctype where
  "qmiLocEventGetTimeZoneReqIndMsgT_v02 = C_struct
    [Field ''status'' qmiLocStatusEnumT_v02]"

definition qmiLocTimeZoneStructT_v02 :: ctype where
  "qmiLocTimeZoneStructT_v02 = C_struct
    [Field ''dstOffset'' C_uint64, Field ''rawOffset'' C_uint64]"

lemma qmiLocTimeZoneStructT_v02_layout [layout_simps]: "sizeof qmiLocTimeZoneStructT_v02 = 16" "alignof qmiLocTimeZoneStructT_v02 = 8"
  by (simp_all add: qmiLocTimeZoneStructT_v02_def layout_simps)

definition qmiLocInjectTimeZoneInfoReqMsgT_v02 :: ctype where
  "qmiLocInjectTimeZoneInfoReqMsgT_v02 = C_struct
    [Field ''timeUtc'' C_uint64, Field ''timeZone'' qmiLocTimeZoneStructT_v02]"

definition qmiLocInjectTimeZoneInfoIndMsgT_v02 :: ctype where
  "qmiLocInjectTimeZoneInfoIndMsgT_v02 = C_struct
    [Field ''status'' qmiLocStatusEnumT_v02]"

definition qmiLocGetBestAvailablePositionReqMsgT_v02 :: ctype where
  "qmiLocGetBestAvailablePositionReqMsgT_v02 = C_struct
    [Field ''transactionId'' C_uint32, Field ''specialReqType_valid'' C_uint8,
     Field ''specialReqType'' qmiLocSpecialReqEnumT_v02]"

definition qmiLocGetBestAvailablePositionIndMsgT_v02 :: ctype where
  "qmiLocGetBestAvailablePositionIndMsgT_v02 = C_struct
    [Field ''status'' qmiLocStatusEnumT_v02, Field ''transactionId_valid'' C_uint8,
     Field ''transactionId'' C_uint32, Field ''latitude_valid'' C_uint8, Field ''latitude'' C_double,
     Field ''longitude_valid'' C_uint8, Field ''longitude'' C_double,
     Field ''horUncCircular_valid'' C_uint8, Field ''horUncCircular'' C_float,
     Field ''altitudeWrtEllipsoid_valid'' C_uint8, Field ''altitudeWrtEllipsoid'' C_float,
     Field ''vertUnc_valid'' C_uint8, Field ''vertUnc'' C_float, Field ''timestampUtc_valid'' C_uint8,
     Field ''timestampUtc'' C_uint64, Field ''timeUnc_valid'' C_uint8, Field ''timeUnc'' C_float,
     Field ''horUncEllipseSemiMinor_valid'' C_uint8, Field ''horUncEllipseSemiMinor'' C_float,
     Field ''horUncEllipseSemiMajor_valid'' C_uint8, Field ''horUncEllipseSemiMajor'' C_float,
     Field ''horUncEllipseOrientAzimuth_valid'' C_uint8, Field ''horUncEllipseOrientAzimuth'' C_float,
     Field ''horCircularConfidence_valid'' C_uint8, Field ''horCircularConfidence'' C_uint8,
     Field ''horEllipticalConfidence_valid'' C_uint8, Field ''horEllipticalConfidence'' C_uint8,
     Field ''horReliability_valid'' C_uint8, Field ''horReliability'' qmiLocReliabilityEnumT_v02,
     Field ''horSpeed_valid'' C_uint8, Field ''horSpeed'' C_float, Field ''horSpeedUnc_valid'' C_uint8,
     Field ''horSpeedUnc'' C_float, Field ''altitudeWrtMeanSeaLevel_valid'' C_uint8,
     Field ''altitudeWrtMeanSeaLevel'' C_float, Field ''vertConfidence_valid'' C_uint8,
     Field ''vertConfidence'' C_uint8, Field ''vertReliability_valid'' C_uint8,
     Field ''vertReliability'' qmiLocReliabilityEnumT_v02, Field ''vertSpeed_valid'' C_uint8,
     Field ''vertSpeed'' C_float, Field ''vertSpeedUnc_valid'' C_uint8, Field ''vertSpeedUnc'' C_float,
     Field ''heading_valid'' C_uint8, Field ''heading'' C_float, Field ''headingUnc_valid'' C_uint8,
     Field ''headingUnc'' C_float, Field ''magneticDeviation_valid'' C_uint8,
     Field ''magneticDeviation'' C_float, Field ''technologyMask_valid'' C_uint8,
     Field ''technologyMask'' qmiLocPosTechMaskT_v02, Field ''DOP_valid'' C_uint8,
     Field ''DOP'' qmiLocDOPStructT_v02, Field ''gpsTime_valid'' C_uint8,
     Field ''gpsTime'' qmiLocGPSTimeStructT_v02, Field ''timeSrc_valid'' C_uint8,
     Field ''timeSrc'' qmiLocTimeSourceEnumT_v02, Field ''sensorDataUsage_valid'' C_uint8,
     Field ''sensorDataUsage'' qmiLocSensorUsageIndicatorStructT_v02,
     Field ''gnssSvUsedList_valid'' C_uint8, Field ''gnssSvUsedList_len'' C_uint32,
     Field ''gnssSvUsedList'' (C_array C_uint16 QMI_LOC_MAX_SV_USED_LIST_LENGTH_V02),
     Field ''extDOP_valid'' C_uint8, Field ''extDOP'' qmiLocExtDOPStructT_v02,
     Field ''spoofReportMask_valid'' C_uint8, Field ''spoofReportMask'' qmiLocSpoofMaskT_v02,
     Field ''expandedGnssSvUsedList_valid'' C_uint8, Field ''expandedGnssSvUsedList_len'' C_uint32,
     Field ''expandedGnssSvUsedList'' (C_array C_uint16 QMI_LOC_EXPANDED_SV_INFO_LIST_MAX_SIZE_V02),
     Field ''gnssSvUsedSignalTypeList_valid'' C_uint8, Field ''gnssSvUsedSignalTypeList_len'' C_uint32,
     Field ''gnssSvUsedSignalTypeList'' (C_array qmiLocGnssSignalTypeMaskT_v02 QMI_LOC_EXPANDED_SV_INFO_LIST_MAX_SIZE_V02)]"

definition qmiLocMotionDataStructT_v02 :: ctype where
  "qmiLocMotionDataStructT_v02 = C_struct
    [Field ''motion_state'' qmiLocMotionStateEnumT_v02, Field ''motion_mode'' qmiLocMotionModeEnumT_v02,
     Field ''probability_of_state'' C_float, Field ''age'' C_uint16, Field ''timeout'' C_uint16]"

lemma qmiLocMotionDataStructT_v02_layout [layout_simps]: "sizeof qmiLocMotionDataStructT_v02 = 16" "alignof qmiLocMotionDataStructT_v02 = 4"
  by (simp_all add: qmiLocMotionDataStructT_v02_def layout_simps)

definition qmiLocInjectMotionDataReqMsgT_v02 :: ctype where
  "qmiLocInjectMotionDataReqMsgT_v02 = C_struct
    [Field ''motion_data'' qmiLocMotionDataStructT_v02]"

definition qmiLocInjectMotionDataIndMsgT_v02 :: ctype where
  "qmiLocInjectMotionDataIndMsgT_v02 = C_struct
    [Field ''status'' qmiLocStatusEnumT_v02]"

definition qmiLocGetNiGeofenceIdListReqMsgT_v02 :: ctype where
  "qmiLocGetNiGeofenceIdListReqMsgT_v02 = C_struct
    [Field ''transactionId'' C_uint32]"

definition qmiLocGetNiGeofenceIdListIndMsgT_v02 :: ctype where
  "qmiLocGetNiGeofenceIdListIndMsgT_v02 = C_struct
    [Field ''status'' qmiLocStatusEnumT_v02, Field ''transactionId_valid'' C_uint8,
     Field ''transactionId'' C_uint32, Field ''niGeofenceIdList_valid'' C_uint8,
     Field ''niGeofenceIdList_len'' C_uint32,
     Field ''niGeofenceIdList'' (C_array C_uint32 QMI_LOC_MAX_NI_GEOFENCE_ID_LIST_LENGTH_V02)]"

definition qmiLocGSMCellIdStructT_v02 :: ctype where
  "qmiLocGSMCellIdStructT_v02 = C_struct
    [Field ''MCC'' C_uint32, Field ''MNC'' C_uint32, Field ''LAC'' C_uint32, Field ''CID'' C_uint32]"

lemma qmiLocGSMCellIdStructT_v02_layout [layout_simps]: "sizeof qmiLocGSMCellIdStructT_v02 = 16" "alignof qmiLocGSMCellIdStructT_v02 = 4"
  by (simp_all add: qmiLocGSMCellIdStructT_v02_def layout_simps)

definition qmiLocInjectGSMCellInfoReqMsgT_v02 :: ctype where
  "qmiLocInjectGSMCellInfoReqMsgT_v02 = C_struct
    [Field ''gsmCellId'' qmiLocGSMCellIdStructT_v02, Field ''roamingStatus'' C_uint8,
     Field ''timingAdvance_valid'' C_uint8, Field ''timingAdvance'' C_uint32]"

definition qmiLocInjectGSMCellInfoIndMsgT_v02 :: ctype where
  "qmiLocInjectGSMCellInfoIndMsgT_v02 = C_struct
    [Field ''status'' qmiLocStatusEnumT_v02]"

definition qmiLocWCDMACellIdStructT_v02 :: ctype where
  "qmiLocWCDMACellIdStructT_v02 = C_struct
    [Field ''mcc'' C_uint32, Field ''mnc'' C_uint32, Field ''cid'' C_uint32]"

lemma qmiLocWCDMACellIdStructT_v02_layout [layout_simps]: "sizeof qmiLocWCDMACellIdStructT_v02 = 12" "alignof qmiLocWCDMACellIdStructT_v02 = 4"
  by (simp_all add: qmiLocWCDMACellIdStructT_v02_def layout_simps)

definition qmiLocInjectWCDMACellInfoReqMsgT_v02 :: ctype where
  "qmiLocInjectWCDMACellInfoReqMsgT_v02 = C_struct
    [Field ''wcdmaCellId'' qmiLocWCDMACellIdStructT_v02,
     Field ''roamingStatus'' qmiLocRoamingStatusEnumT_v02, Field ''freq_valid'' C_uint8,
     Field ''freq'' C_uint32, Field ''psc_valid'' C_uint8, Field ''psc'' C_uint32]"

definition qmiLocInjectWCDMACellInfoIndMsgT_v02 :: ctype where
  "qmiLocInjectWCDMACellInfoIndMsgT_v02 = C_struct
    [Field ''status'' qmiLocStatusEnumT_v02]"

definition qmiLocTDSCDMACellIdStructT_v02 :: ctype where
  "qmiLocTDSCDMACellIdStructT_v02 = C_struct
    [Field ''mcc'' C_uint32, Field ''mnc'' C_uint32, Field ''cid'' C_uint32, Field ''lac'' C_uint32]"

lemma qmiLocTDSCDMACellIdStructT_v02_layout [layout_simps]: "sizeof qmiLocTDSCDMACellIdStructT_v02 = 16" "alignof qmiLocTDSCDMACellIdStructT_v02 = 4"
  by (simp_all add: qmiLocTDSCDMACellIdStructT_v02_def layout_simps)

definition qmiLocInjectTDSCDMACellInfoReqMsgT_v02 :: ctype where
  "qmiLocInjectTDSCDMACellInfoReqMsgT_v02 = C_struct
    [Field ''tdscdmaCellId'' qmiLocTDSCDMACellIdStructT_v02,
     Field ''roamingStatus'' qmiLocRoamingStatusEnumT_v02, Field ''freq_valid'' C_uint8,
     Field ''freq'' C_uint32]"

definition qmiLocInjectTDSCDMACellInfoIndMsgT_v02 :: ctype where
  "qmiLocInjectTDSCDMACellInfoIndMsgT_v02 = C_struct
    [Field ''status'' qmiLocStatusEnumT_v02]"

definition qmiLocInjectSubscriberIDReqMsgT_v02 :: ctype where
  "qmiLocInjectSubscriberIDReqMsgT_v02 = C_struct
    [Field ''preferredIMSI_valid'' C_uint8, Field ''preferredIMSI'' C_uint64,
     Field ''preferredMSISDN_valid'' C_uint8, Field ''preferredMSISDN'' C_uint64]"

definition qmiLocInjectSubscriberIDIndMsgT_v02 :: ctype where
  "qmiLocInjectSubscriberIDIndMsgT_v02 = C_struct
    [Field ''status'' qmiLocStatusEnumT_v02]"

end
