(* ===== verification/LocStructs2.thy ===== *)
theory LocStructs2
  imports LocStructs1
begin

text \<open>
  Structs of \<^verbatim>\<open>src/location/loc_api/loc_api_v02/location_service_v02.h\<close>, in the order of the
  file (part 2 of 2). The size and the alignment of those that occur inside others are
  computed from the layout rules of \<open>QmiIdl\<close>.
\<close>

definition qmiLocInjectNetworkInitiatedMessageReqMsgT_v02 :: ctype where
  "qmiLocInjectNetworkInitiatedMessageReqMsgT_v02 = C_struct
    [Field ''injectedNIMessageType'' qmiLocInjectedNetworkInitiatedMessageTypeEnumT_v02,
     Field ''injectedNIMessage_len'' C_uint32,
     Field ''injectedNIMessage'' (C_array C_uint8 QMI_LOC_MAX_INJECTED_NETWORK_INITIATED_MESSAGE_LENGTH_V02)]"

definition qmiLocInjectNetworkInitiatedMessageIndMsgT_v02 :: ctype where
  "qmiLocInjectNetworkInitiatedMessageIndMsgT_v02 = C_struct
    [Field ''status'' qmiLocStatusEnumT_v02]"

definition qmiLocWWANOutOfServiceNotificationReqMsgT_v02 :: ctype where
  "qmiLocWWANOutOfServiceNotificationReqMsgT_v02 = C_struct
    [Field ''__placeholder'' C_char]"

definition qmiLocWWANOutOfServiceNotificationIndMsgT_v02 :: ctype where
  "qmiLocWWANOutOfServiceNotificationIndMsgT_v02 = C_struct
    [Field ''status'' qmiLocStatusEnumT_v02]"

definition qmiLocPedometerReportReqMsgT_v02 :: ctype where
  "qmiLocPedometerReportReqMsgT_v02 = C_struct
    [Field ''timeSource'' qmiLocSensorDataTimeSourceEnumT_v02, Field ''timestamp'' C_uint32,
     Field ''timeInterval'' C_uint32, Field ''stepCount'' C_uint32,
     Field ''stepConfidence_valid'' C_uint8, Field ''stepConfidence'' C_uint8,
     Field ''stepCountUncertainty_valid'' C_uint8, Field ''stepCountUncertainty'' C_float,
     Field ''stepRate_valid'' C_uint8, Field ''stepRate'' C_float]"

definition qmiLocPedometerReportIndMsgT_v02 :: ctype where
  "qmiLocPedometerReportIndMsgT_v02 = C_struct
    [Field ''status'' qmiLocStatusEnumT_v02]"

definition qmiLocGetBatchSizeReqMsgT_v02 :: ctype where
  "qmiLocGetBatchSizeReqMsgT_v02 = C_struct
    [Field ''transactionId'' C_uint32, Field ''batchSize'' C_uint32, Field ''batchType_valid'' C_uint8,
     Field ''batchType'' qmiLocBatchingTypeEnumT_v02]"

definition qmiLocGetBatchSizeIndMsgT_v02 :: ctype where
  "qmiLocGetBatchSizeIndMsgT_v02 = C_struct
    [Field ''status'' qmiLocStatusEnumT_v02, Field ''transactionId'' C_uint32,
     Field ''batchSize'' C_uint32]"

definition qmiLocStartBatchingReqMsgT_v02 :: ctype where
  "qmiLocStartBatchingReqMsgT_v02 = C_struct
    [Field ''minInterval_valid'' C_uint8, Field ''minInterval'' C_uint32,
     Field ''horizontalAccuracyLevel_valid'' C_uint8,
     Field ''horizontalAccuracyLevel'' qmiLocAccuracyLevelEnumT_v02,
     Field ''fixSessionTimeout_valid'' C_uint8, Field ''fixSessionTimeout'' C_uint32,
     Field ''minDistance_valid'' C_uint8, Field ''minDistance'' C_uint32,
     Field ''batchAllPos_valid'' C_uint8, Field ''batchAllPos'' C_uint8,
     Field ''requestId_valid'' C_uint8, Field ''requestId'' C_uint32]"

definition qmiLocStartBatchingIndMsgT_v02 :: ctype where
  "qmiLocStartBatchingIndMsgT_v02 = C_struct
    [Field ''status'' qmiLocStatusEnumT_v02, Field ''requestId_valid'' C_uint8,
     Field ''requestId'' C_uint32]"

definition qmiLocEventBatchFullIndMsgT_v02 :: ctype where
  "qmiLocEventBatchFullIndMsgT_v02 = C_struct
    [Field ''batchCount'' C_uint32, Field ''batchType_valid'' C_uint8,
     Field ''batchType'' qmiLocBatchingTypeEnumT_v02, Field ''accumulatedDistance_valid'' C_uint8,
     Field ''accumulatedDistance'' C_uint32, Field ''batchedPosition_valid'' C_uint8,
     Field ''batchedPosition'' C_uint32]"

definition qmiLocBatchedReportStructT_v02 :: ctype where
  "qmiLocBatchedReportStructT_v02 = C_struct
    [Field ''fixId'' C_uint32, Field ''validFields'' qmiLocBatchedReportValidFieldsMaskT_v02,
     Field ''latitude'' C_double, Field ''longitude'' C_double, Field ''horUncCircular'' C_float,
     Field ''speedHorizontal'' C_float, Field ''speedUnc'' C_float,
     Field ''altitudeWrtEllipsoid'' C_float, Field ''speedVertical'' C_float, Field ''heading'' C_float,
     Field ''headingUnc'' C_float, Field ''technologyMask'' qmiLocPosTechMaskT_v02,
     Field ''timestampUtc'' C_uint64, Field ''timeUnc'' C_float, Field ''magneticDeviation'' C_float,
     Field ''vertUnc'' C_float, Field ''horConfidence'' C_uint8,
     Field ''gpsTime'' qmiLocGPSTimeStructT_v02]"

lemma qmiLocBatchedReportStructT_v02_layout [layout_simps]: "sizeof qmiLocBatchedReportStructT_v02 = 96" "alignof qmiLocBatchedReportStructT_v02 = 8"
  by (simp_all add: qmiLocBatchedReportStructT_v02_def layout_simps)

definition qmiLocEventLiveBatchedPositionReportIndMsgT_v02 :: ctype where
  "qmiLocEventLiveBatchedPositionReportIndMsgT_v02 = C_struct
    [Field ''liveBatchedReport'' qmiLocBatchedReportStructT_v02]"

definition qmiLocReadFromBatchReqMsgT_v02 :: ctype where
  "qmiLocReadFromBatchReqMsgT_v02 = C_struct
    [Field ''numberOfEntries'' C_uint32, Field ''transactionId'' C_uint32,
     Field ''batchType_valid'' C_uint8, Field ''batchType'' qmiLocBatchingTypeEnumT_v02]"

definition qmiLocReadFromBatchIndMsgT_v02 :: ctype where
  "qmiLocReadFromBatchIndMsgT_v02 = C_struct
    [Field ''status'' qmiLocStatusEnumT_v02, Field ''transactionId'' C_uint32,
     Field ''numberOfEntries_valid'' C_uint8, Field ''numberOfEntries'' C_uint32,
     Field ''batchedReportList_valid'' C_uint8, Field ''batchedReportList_len'' C_uint32,
     Field ''batchedReportList'' (C_array qmiLocBatchedReportStructT_v02 QMI_LOC_READ_FROM_BATCH_MAX_SIZE_V02)]"

definition qmiLocStopBatchingReqMsgT_v02 :: ctype where
  "qmiLocStopBatchingReqMsgT_v02 = C_struct
    [Field ''transactionId'' C_uint32, Field ''requestId_valid'' C_uint8, Field ''requestId'' C_uint32,
     Field ''batchType_valid'' C_uint8, Field ''batchType'' qmiLocBatchingTypeEnumT_v02]"

definition qmiLocStopBatchingIndMsgT_v02 :: ctype where
  "qmiLocStopBatchingIndMsgT_v02 = C_struct
    [Field ''status'' qmiLocStatusEnumT_v02, Field ''transactionId'' C_uint32,
     Field ''requestId_valid'' C_uint8, Field ''requestId'' C_uint32]"

definition qmiLocReleaseBatchReqMsgT_v02 :: ctype where
  "qmiLocReleaseBatchReqMsgT_v02 = C_struct
    [Field ''transactionId'' C_uint32, Field ''batchType_valid'' C_uint8,
     Field ''batchType'' qmiLocBatchingTypeEnumT_v02]"

definition qmiLocReleaseBatchIndMsgT_v02 :: ctype where
  "qmiLocReleaseBatchIndMsgT_v02 = C_struct
    [Field ''status'' qmiLocStatusEnumT_v02, Field ''transactionId'' C_uint32]"

definition qmiLocEventInjectWifiApDataReqIndMsgT_v02 :: ctype where
  "qmiLocEventInjectWifiApDataReqIndMsgT_v02 = C_struct
    [Field ''e911Mode_valid'' C_uint8, Field ''e911Mode'' C_uint8]"

definition qmiLocWifiApDataStructT_v02 :: ctype where
  "qmiLocWifiApDataStructT_v02 = C_struct
    [Field ''wifiApDataMask'' qmiLocWifiApDataMaskT_v02,
     Field ''macAddress'' (C_array C_uint8 QMI_LOC_WIFI_MAC_ADDR_LENGTH_V02),
     Field ''apTransmitPower'' C_int32, Field ''apAntennaGain'' C_int32,
     Field ''apSignalToNoise'' C_int32, Field ''apDeviceType'' qmiLocWifiApDataDeviceTypeEnumT_v02,
     Field ''apRssi'' C_int32, Field ''apChannel'' C_uint16, Field ''apRoundTripDelay'' C_uint32,
     Field ''apRoundTripDelayUnit'' qmiLocWifiApDataRtdUnitTypeEnumT_v02,
     Field ''apRoundTripDelayAccuracy'' C_uint8, Field ''mobileSignalToNoise'' C_int32,
     Field ''mobileRssi'' C_int32]"

lemma qmiLocWifiApDataStructT_v02_layout [layout_simps]: "sizeof qmiLocWifiApDataStructT_v02 = 56" "alignof qmiLocWifiApDataStructT_v02 = 4"
  by (simp_all add: qmiLocWifiApDataStructT_v02_def layout_simps)

definition qmiLocWifiApAdditionalDataStructT_v02 :: ctype where
  "qmiLocWifiApAdditionalDataStructT_v02 = C_struct
    [Field ''rssiTimestamp'' C_int64, Field ''measAge'' C_int32, Field ''servingAccessPoint'' C_uint8,
     Field ''channelFrequency'' C_uint32,
     Field ''ssid'' (C_array C_char (QMI_LOC_MAX_WIFI_AP_SSID_STR_LENGTH_V02 + 1)),
     Field ''apHighResolutionRssi'' C_int32]"

lemma qmiLocWifiApAdditionalDataStructT_v02_layout [layout_simps]: "sizeof qmiLocWifiApAdditionalDataStructT_v02 = 64" "alignof qmiLocWifiApAdditionalDataStructT_v02 = 8"
  by (simp_all add: qmiLocWifiApAdditionalDataStructT_v02_def layout_simps)

definition qmiLocInjectWifiApDataReqMsgT_v02 :: ctype where
  "qmiLocInjectWifiApDataReqMsgT_v02 = C_struct
    [Field ''wifiApInfo_len'' C_uint32,
     Field ''wifiApInfo'' (C_array qmiLocWifiApDataStructT_v02 QMI_LOC_WIFI_MAX_REPORTED_APS_PER_MSG_V02),
     Field ''errorCause_valid'' C_uint8, Field ''errorCause'' qmiLocWlanApErrEnumT_v02,
     Field ''requestTimestamp_valid'' C_uint8, Field ''requestTimestamp'' C_int64,
     Field ''receiveTimestamp_valid'' C_uint8, Field ''receiveTimestamp'' C_int64,
     Field ''onDemandScan_valid'' C_uint8, Field ''onDemandScan'' C_uint8,
     Field ''wifiApInfoA_valid'' C_uint8, Field ''wifiApInfoA_len'' C_uint32,
     Field ''wifiApInfoA'' (C_array qmiLocWifiApAdditionalDataStructT_v02 QMI_LOC_WIFI_MAX_REPORTED_APS_PER_MSG_V02),
     Field ''ueMacAddress_valid'' C_uint8,
     Field ''ueMacAddress'' (C_array C_uint8 QMI_LOC_WIFI_MAC_ADDR_LENGTH_V02)]"

definition qmiLocInjectWifiApDataIndMsgT_v02 :: ctype where
  "qmiLocInjectWifiApDataIndMsgT_v02 = C_struct
    [Field ''status'' qmiLocStatusEnumT_v02]"

definition qmiLocNotifyWifiAttachmentStatusReqMsgT_v02 :: ctype where
  "qmiLocNotifyWifiAttachmentStatusReqMsgT_v02 = C_struct
    [Field ''attachState'' qmiLocWifiAccessPointAttachStatesEnumT_v02,
     Field ''accessPointMacAddress_valid'' C_uint8,
     Field ''accessPointMacAddress'' (C_array C_uint8 QMI_LOC_WIFI_MAC_ADDR_LENGTH_V02),
     Field ''wifiApSsid_valid'' C_uint8,
     Field ''wifiApSsid'' (C_array C_char (QMI_LOC_MAX_WIFI_AP_SSID_STR_LENGTH_V02 + 1))]"

definition qmiLocNotifyWifiAttachmentStatusIndMsgT_v02 :: ctype where
  "qmiLocNotifyWifiAttachmentStatusIndMsgT_v02 = C_struct
    [Field ''status'' qmiLocStatusEnumT_v02]"

definition qmiLocNotifyWifiEnabledStatusReqMsgT_v02 :: ctype where
  "qmiLocNotifyWifiEnabledStatusReqMsgT_v02 = C_struct
    [Field ''enabledStatus'' qmiLocWifiEnabledStatusEnumT_v02]"

definition qmiLocNotifyWifiEnabledStatusIndMsgT_v02 :: ctype where
  "qmiLocNotifyWifiEnabledStatusIndMsgT_v02 = C_struct
    [Field ''status'' qmiLocStatusEnumT_v02]"

definition qmiLocEventVehicleDataReadyIndMsgT_v02 :: ctype where
  "qmiLocEventVehicleDataReadyIndMsgT_v02 = C_struct
    [Field ''vehicleAccelReadyStatus_valid'' C_uint8, Field ''vehicleAccelReadyStatus'' C_uint8,
     Field ''vehicleAngularRateReadyStatus_valid'' C_uint8,
     Field ''vehicleAngularRateReadyStatus'' C_uint8,
     Field ''vehicleOdometryReadyStatus_valid'' C_uint8, Field ''vehicleOdometryReadyStatus'' C_uint8]"

definition qmiLocVehicleSensorSampleStructT_v02 :: ctype where
  "qmiLocVehicleSensorSampleStructT_v02 = C_struct
    [Field ''timeOffset'' C_uint32, Field ''axisSample_len'' C_uint32,
     Field ''axisSample'' (C_array C_float QMI_LOC_VEHICLE_SENSOR_DATA_MAX_AXES_V02)]"

lemma qmiLocVehicleSensorSampleStructT_v02_layout [layout_simps]: "sizeof qmiLocVehicleSensorSampleStructT_v02 = 20" "alignof qmiLocVehicleSensorSampleStructT_v02 = 4"
  by (simp_all add: qmiLocVehicleSensorSampleStructT_v02_def layout_simps)

definition qmiLocVehicleSensorSampleListStructType_v02 :: ctype where
  "qmiLocVehicleSensorSampleListStructType_v02 = C_struct
    [Field ''sampleTimeBase'' C_uint32, Field ''axesValidity'' qmiLocAxesMaskT_v02,
     Field ''sensorData_len'' C_uint32,
     Field ''sensorData'' (C_array qmiLocVehicleSensorSampleStructT_v02 QMI_LOC_VEHICLE_SENSOR_DATA_MAX_SAMPLES_V02)]"

lemma qmiLocVehicleSensorSampleListStructType_v02_layout [layout_simps]: "sizeof qmiLocVehicleSensorSampleListStructType_v02 = 1312" "alignof qmiLocVehicleSensorSampleListStructType_v02 = 4"
  by (simp_all add: qmiLocVehicleSensorSampleListStructType_v02_def layout_simps)

definition qmiLocVehicleOdometrySampleStructT_v02 :: ctype where
  "qmiLocVehicleOdometrySampleStructT_v02 = C_struct
    [Field ''timeOffset'' C_uint32, Field ''distanceTravelled_len'' C_uint32,
     Field ''distanceTravelled'' (C_array C_uint32 QMI_LOC_VEHICLE_ODOMETRY_MAX_MEASUREMENTS_V02)]"

lemma qmiLocVehicleOdometrySampleStructT_v02_layout [layout_simps]: "sizeof qmiLocVehicleOdometrySampleStructT_v02 = 20" "alignof qmiLocVehicleOdometrySampleStructT_v02 = 4"
  by (simp_all add: qmiLocVehicleOdometrySampleStructT_v02_def layout_simps)

definition qmiLocVehicleOdometrySampleListStructT_v02 :: ctype where
  "qmiLocVehicleOdometrySampleListStructT_v02 = C_struct
    [Field ''sampleTimeBase'' C_uint32, Field ''flags'' qmiLocVehicleOdometryMeasDeviationMaskType_v02,
     Field ''wheelFlags'' qmiLocVehicleOdometryWheelFlagsMaskT_v02,
     Field ''distanceTravelledBase'' C_uint32, Field ''odometryData_len'' C_uint32,
     Field ''odometryData'' (C_array qmiLocVehicleOdometrySampleStructT_v02 QMI_LOC_VEHICLE_SENSOR_DATA_MAX_SAMPLES_V02)]"

lemma qmiLocVehicleOdometrySampleListStructT_v02_layout [layout_simps]: "sizeof qmiLocVehicleOdometrySampleListStructT_v02 = 1320" "alignof qmiLocVehicleOdometrySampleListStructT_v02 = 4"
  by (simp_all add: qmiLocVehicleOdometrySampleListStructT_v02_def layout_simps)

definition qmiLocInjectVehicleSensorDataReqMsgT_v02 :: ctype where
  "qmiLocInjectVehicleSensorDataReqMsgT_v02 = C_struct
    [Field ''accelData_valid'' C_uint8, Field ''accelData'' qmiLocVehicleSensorSampleListStructType_v02,
     Field ''angRotationData_valid'' C_uint8,
     Field ''angRotationData'' qmiLocVehicleSensorSampleListStructType_v02,
     Field ''odometryData_valid'' C_uint8,
     Field ''odometryData'' qmiLocVehicleOdometrySampleListStructT_v02,
     Field ''changeInTimeScales_valid'' C_uint8, Field ''changeInTimeScales'' C_int32]"

definition qmiLocInjectVehicleSensorDataIndMsgT_v02 :: ctype where
  "qmiLocInjectVehicleSensorDataIndMsgT_v02 = C_struct
    [Field ''status'' qmiLocStatusEnumT_v02]"

definition qmiLocGetAvailWwanPositionReqMsgT_v02 :: ctype where
  "qmiLocGetAvailWwanPositionReqMsgT_v02 = C_struct
    [Field ''transactionId'' C_uint32]"

definition qmiLocGetAvailWwanPositionIndMsgT_v02 :: ctype where
  "qmiLocGetAvailWwanPositionIndMsgT_v02 = C_struct
    [Field ''status'' qmiLocStatusEnumT_v02, Field ''transactionId_valid'' C_uint8,
     Field ''transactionId'' C_uint32, Field ''latitude_valid'' C_uint8, Field ''latitude'' C_double,
     Field ''longitude_valid'' C_uint8, Field ''longitude'' C_double,
     Field ''horUncCircular_valid'' C_uint8, Field ''horUncCircular'' C_float,
     Field ''altitudeWrtEllipsoid_valid'' C_uint8, Field ''altitudeWrtEllipsoid'' C_float,
     Field ''vertUnc_valid'' C_uint8, Field ''vertUnc'' C_float, Field ''timestampUtc_valid'' C_uint8,
     Field ''timestampUtc'' C_uint64, Field ''timeUnc_valid'' C_uint8, Field ''timeUnc'' C_float,
     Field ''horUncEllipseSemiMinor_valid'' C_uint8, Field ''horUncEllipseSemiMinor'' C_float,
     Field ''horUncEllipseSemiMajor_valid'' C_uint8, Field ''horUncEllipseSemiMajor'' C_float,
     Field ''horUncEllipseOrientAzimuth_valid'' C_uint8, Field ''horUncEllipseOrientAzimuth'' C_float,
     Field ''horCircularConfidence_valid'' C_uint8, Field ''horCircularConfidence'' C_uint8,
     Field ''horEllipticalConfidence_valid'' C_uint8, Field ''horEllipticalConfidence'' C_uint8,
     Field ''horReliability_valid'' C_uint8, Field ''horReliability'' qmiLocReliabilityEnumT_v02,
     Field ''altitudeWrtMeanSeaLevel_valid'' C_uint8, Field ''altitudeWrtMeanSeaLevel'' C_float,
     Field ''vertConfidence_valid'' C_uint8, Field ''vertConfidence'' C_uint8,
     Field ''vertReliability_valid'' C_uint8, Field ''vertReliability'' qmiLocReliabilityEnumT_v02,
     Field ''gpsTime_valid'' C_uint8, Field ''gpsTime'' qmiLocGPSTimeStructT_v02,
     Field ''timeSrc_valid'' C_uint8, Field ''timeSrc'' qmiLocTimeSourceEnumT_v02]"

definition qmiLocSetPremiumServicesCfgReqMsgT_v02 :: ctype where
  "qmiLocSetPremiumServicesCfgReqMsgT_v02 = C_struct
    [Field ''premiumServiceType'' qmiLocPremiumServiceEnumT_v02,
     Field ''premiumServiceCfg'' qmiLocPremiumServiceCfgEnumT_v02]"

definition qmiLocSetPremiumServicesCfgIndMsgT_v02 :: ctype where
  "qmiLocSetPremiumServicesCfgIndMsgT_v02 = C_struct
    [Field ''status'' qmiLocStatusEnumT_v02]"

definition qmiLocSetXtraVersionCheckReqMsgT_v02 :: ctype where
  "qmiLocSetXtraVersionCheckReqMsgT_v02 = C_struct
    [Field ''xtraVersionCheckMode'' qmiLocXtraVersionCheckEnumT_v02]"

definition qmiLocSetXtraVersionCheckIndMsgT_v02 :: ctype where
  "qmiLocSetXtraVersionCheckIndMsgT_v02 = C_struct
    [Field ''status'' qmiLocStatusEnumT_v02]"

definition qmiLocSetGNSSConstRepConfigReqMsgT_v02 :: ctype where
  "qmiLocSetGNSSConstRepConfigReqMsgT_v02 = C_struct
    [Field ''measReportConfig_valid'' C_uint8, Field ''measReportConfig'' qmiLocGNSSConstellEnumT_v02,
     Field ''svPolyReportConfig_valid'' C_uint8,
     Field ''svPolyReportConfig'' qmiLocGNSSConstellEnumT_v02,
     Field ''reportFullEphemerisDb_valid'' C_uint8, Field ''reportFullEphemerisDb'' C_uint8,
     Field ''reportFullSvPolyDb_valid'' C_uint8, Field ''reportFullSvPolyDb'' C_uint8,
     Field ''reportFullIonoDb_valid'' C_uint8, Field ''reportFullIonoDb'' C_uint8]"

definition qmiLocSetGNSSConstRepConfigIndMsgT_v02 :: ctype where
  "qmiLocSetGNSSConstRepConfigIndMsgT_v02 = C_struct
    [Field ''status'' qmiLocStatusEnumT_v02]"

definition qmiLocRcvrClockFrequencyInfoStructT_v02 :: ctype where
  "qmiLocRcvrClockFrequencyInfoStructT_v02 = C_struct
    [Field ''clockDrift'' C_float, Field ''clockDriftUnc'' C_float,
     Field ''sourceOfFreq'' qmiLocSourceofFreqEnumT_v02]"

lemma qmiLocRcvrClockFrequencyInfoStructT_v02_layout [layout_simps]: "sizeof qmiLocRcvrClockFrequencyInfoStructT_v02 = 12" "alignof qmiLocRcvrClockFrequencyInfoStructT_v02 = 4"
  by (simp_all add: qmiLocRcvrClockFrequencyInfoStructT_v02_def layout_simps)

definition qmiLocLeapSecondInfoStructT_v02 :: ctype where
  "qmiLocLeapSecondInfoStructT_v02 = C_struct
    [Field ''leapSec'' C_uint8, Field ''leapSecUnc'' C_uint8]"

lemma qmiLocLeapSecondInfoStructT_v02_layout [layout_simps]: "sizeof qmiLocLeapSecondInfoStructT_v02 = 2" "alignof qmiLocLeapSecondInfoStructT_v02 = 1"
  by (simp_all add: qmiLocLeapSecondInfoStructT_v02_def layout_simps)

definition qmiLocInterSystemBiasStructT_v02 :: ctype where
  "qmiLocInterSystemBiasStructT_v02 = C_struct
    [Field ''validMask'' qmiLocInterSystemBiasValidMaskT_v02, Field ''timeBias'' C_float,
     Field ''timeBiasUnc'' C_float]"

lemma qmiLocInterSystemBiasStructT_v02_layout [layout_simps]: "sizeof qmiLocInterSystemBiasStructT_v02 = 12" "alignof qmiLocInterSystemBiasStructT_v02 = 4"
  by (simp_all add: qmiLocInterSystemBiasStructT_v02_def layout_simps)

definition qmiLocGnssTimeStructT_v02 :: ctype where
  "qmiLocGnssTimeStructT_v02 = C_struct
    [Field ''system'' qmiLocSvSystemEnumT_v02, Field ''systemWeek'' C_uint16,
     Field ''systemMsec'' C_uint32, Field ''systemClkTimeBias'' C_float,
     Field ''systemClkTimeUncMs'' C_float]"

lemma qmiLocGnssTimeStructT_v02_layout [layout_simps]: "sizeof qmiLocGnssTimeStructT_v02 = 20" "alignof qmiLocGnssTimeStructT_v02 = 4"
  by (simp_all add: qmiLocGnssTimeStructT_v02_def layout_simps)

definition qmiLocGloTimeStructT_v02 :: ctype where
  "qmiLocGloTimeStructT_v02 = C_struct
    [Field ''gloFourYear'' C_uint8, Field ''gloDays'' C_uint16, Field ''gloMsec'' C_uint32,
     Field ''gloClkTimeBias'' C_float, Field ''gloClkTimeUncMs'' C_float]"

lemma qmiLocGloTimeStructT_v02_layout [layout_simps]: "sizeof qmiLocGloTimeStructT_v02 = 16" "alignof qmiLocGloTimeStructT_v02 = 4"
  by (simp_all add: qmiLocGloTimeStructT_v02_def layout_simps)

definition qmiLocGnssTimeExtStructT_v02 :: ctype where
  "qmiLocGnssTimeExtStructT_v02 = C_struct
    [Field ''refFCount'' C_uint32, Field ''systemRtc_valid'' C_uint8, Field ''systemRtcMs'' C_uint64,
     Field ''sourceOfTime'' qmiLocTimeSourceEnumT_v02]"

lemma qmiLocGnssTimeExtStructT_v02_layout [layout_simps]: "sizeof qmiLocGnssTimeExtStructT_v02 = 24" "alignof qmiLocGnssTimeExtStructT_v02 = 8"
  by (simp_all add: qmiLocGnssTimeExtStructT_v02_def layout_simps)

definition qmiLocSVTimeSpeedStructT_v02 :: ctype where
  "qmiLocSVTimeSpeedStructT_v02 = C_struct
    [Field ''svTimeMs'' C_uint32, Field ''svTimeSubMs'' C_float, Field ''svTimeUncMs'' C_float,
     Field ''dopplerShift'' C_float, Field ''dopplerShiftUnc'' C_float,
     Field ''dopplerAccel_valid'' C_uint8, Field ''dopplerAccel'' C_float]"

lemma qmiLocSVTimeSpeedStructT_v02_layout [layout_simps]: "sizeof qmiLocSVTimeSpeedStructT_v02 = 28" "alignof qmiLocSVTimeSpeedStructT_v02 = 4"
  by (simp_all add: qmiLocSVTimeSpeedStructT_v02_def layout_simps)

definition qmiLocSVMeasurementStructT_v02 :: ctype where
  "qmiLocSVMeasurementStructT_v02 = C_struct
    [Field ''gnssSvId'' C_uint16, Field ''gloFrequency'' C_uint8,
     Field ''svStatus'' qmiLocSvStatusEnumT_v02, Field ''validMask'' qmiLocMeasFieldsValidMaskT_v02,
     Field ''healthStatus'' C_uint8, Field ''svInfoMask'' qmiLocSvInfoMaskT_v02,
     Field ''validMeasStatusMask'' qmiLocSvMeasStatusValidMaskT_v02,
     Field ''measurementStatus'' qmiLocSvMeasStatusMaskT_v02, Field ''CNo'' C_uint16,
     Field ''gloRfLoss'' C_uint16, Field ''measLatency'' C_int32,
     Field ''svTimeSpeed'' qmiLocSVTimeSpeedStructT_v02, Field ''lossOfLock'' C_uint8,
     Field ''multipathEstimate'' C_float, Field ''fineSpeed'' C_float, Field ''fineSpeedUnc'' C_float,
     Field ''carrierPhase'' C_double, Field ''cycleSlipCount'' C_uint8, Field ''svAzimuth'' C_float,
     Field ''svElevation'' C_float]"

lemma qmiLocSVMeasurementStructT_v02_layout [layout_simps]: "sizeof qmiLocSVMeasurementStructT_v02 = 112" "alignof qmiLocSVMeasurementStructT_v02 = 8"
  by (simp_all add: qmiLocSVMeasurementStructT_v02_def layout_simps)

definition qmiLocDgnssSVMeasurementStructT_v02 :: ctype where
  "qmiLocDgnssSVMeasurementStructT_v02 = C_struct
    [Field ''dgnssMeasStatus'' qmiLocSvDgnssMeasStatusMaskT_v02,
     Field ''diffDataEpochTimeMsec'' C_uint32, Field ''prCorrMeters'' C_float,
     Field ''prrCorrMetersPerSec'' C_float]"

lemma qmiLocDgnssSVMeasurementStructT_v02_layout [layout_simps]: "sizeof qmiLocDgnssSVMeasurementStructT_v02 = 24" "alignof qmiLocDgnssSVMeasurementStructT_v02 = 8"
  by (simp_all add: qmiLocDgnssSVMeasurementStructT_v02_def layout_simps)

definition qmiLocEventGnssSvMeasInfoIndMsgT_v02 :: ctype where
  "qmiLocEventGnssSvMeasInfoIndMsgT_v02 = C_struct
    [Field ''seqNum'' C_uint8, Field ''maxMessageNum'' C_uint8,
     Field ''system'' qmiLocSvSystemEnumT_v02, Field ''rcvrClockFrequencyInfo_valid'' C_uint8,
     Field ''rcvrClockFrequencyInfo'' qmiLocRcvrClockFrequencyInfoStructT_v02,
     Field ''leapSecondInfo_valid'' C_uint8, Field ''leapSecondInfo'' qmiLocLeapSecondInfoStructT_v02,
     Field ''gpsGloInterSystemBias_valid'' C_uint8,
     Field ''gpsGloInterSystemBias'' qmiLocInterSystemBiasStructT_v02,
     Field ''gpsBdsInterSystemBias_valid'' C_uint8,
     Field ''gpsBdsInterSystemBias'' qmiLocInterSystemBiasStructT_v02,
     Field ''gpsGalInterSystemBias_valid'' C_uint8,
     Field ''gpsGalInterSystemBias'' qmiLocInterSystemBiasStructT_v02,
     Field ''bdsGloInterSystemBias_valid'' C_uint8,
     Field ''bdsGloInterSystemBias'' qmiLocInterSystemBiasStructT_v02,
     Field ''galGloInterSystemBias_valid'' C_uint8,
     Field ''galGloInterSystemBias'' qmiLocInterSystemBiasStructT_v02,
     Field ''galBdsInterSystemBias_valid'' C_uint8,
     Field ''galBdsInterSystemBias'' qmiLocInterSystemBiasStructT_v02,
     Field ''systemTime_valid'' C_uint8, Field ''systemTime'' qmiLocGnssTimeStructT_v02,
     Field ''gloTime_valid'' C_uint8, Field ''gloTime'' qmiLocGloTimeStructT_v02,
     Field ''systemTimeExt_valid'' C_uint8, Field ''systemTimeExt'' qmiLocGnssTimeExtStructT_v02,
     Field ''svMeasurement_valid'' C_uint8, Field ''svMeasurement_len'' C_uint32,
     Field ''svMeasurement'' (C_array qmiLocSVMeasurementStructT_v02 QMI_LOC_SV_MEAS_LIST_MAX_SIZE_V02),
     Field ''numClockResets_valid'' C_uint8, Field ''numClockResets'' C_uint32,
     Field ''svCarrierPhaseUncertainty_valid'' C_uint8,
     Field ''svCarrierPhaseUncertainty_len'' C_uint32,
     Field ''svCarrierPhaseUncertainty'' (C_array C_float QMI_LOC_SV_MEAS_LIST_MAX_SIZE_V02),
     Field ''gnssSignalType_valid'' C_uint8, Field ''gnssSignalType'' qmiLocGnssSignalTypeMaskT_v02,
     Field ''jammerIndicator_valid'' C_uint8,
     Field ''jammerIndicator'' qmiLocJammerIndicatorStructT_v02,
     Field ''GpsL1L2cTimeBias_valid'' C_uint8,
     Field ''GpsL1L2cTimeBias'' qmiLocInterSystemBiasStructT_v02,
     Field ''GpsL1L5TimeBias_valid'' C_uint8,
     Field ''GpsL1L5TimeBias'' qmiLocInterSystemBiasStructT_v02,
     Field ''GloG1G2TimeBias_valid'' C_uint8,
     Field ''GloG1G2TimeBias'' qmiLocInterSystemBiasStructT_v02,
     Field ''BdsB1iB2aTimeBias_valid'' C_uint8,
     Field ''BdsB1iB2aTimeBias'' qmiLocInterSystemBiasStructT_v02,
     Field ''BdsB1iB1cTimeBias_valid'' C_uint8,
     Field ''BdsB1iB1cTimeBias'' qmiLocInterSystemBiasStructT_v02,
     Field ''GalE1E5aTimeBias_valid'' C_uint8,
     Field ''GalE1E5aTimeBias'' qmiLocInterSystemBiasStructT_v02,
     Field ''GalE1E5bTimeBias_valid'' C_uint8,
     Field ''GalE1E5bTimeBias'' qmiLocInterSystemBiasStructT_v02,
     Field ''nHzMeasurement_valid'' C_uint8, Field ''nHzMeasurement'' C_uint8,
     Field ''measurementCodeType_valid'' C_uint8,
     Field ''measurementCodeType'' qmiLocMeasurementCodeTypeEnumT_v02,
     Field ''otherCodeTypeName_valid'' C_uint8, Field ''otherCodeTypeName_len'' C_uint32,
     Field ''otherCodeTypeName'' (C_array C_char QMI_LOC_SV_MEAS_OTHER_CODE_TYPE_NAME_MAX_LEN_V02),
     Field ''gpsNavicInterSystemBias_valid'' C_uint8,
     Field ''gpsNavicInterSystemBias'' qmiLocInterSystemBiasStructT_v02,
     Field ''galNavicInterSystemBias_valid'' C_uint8,
     Field ''galNavicInterSystemBias'' qmiLocInterSystemBiasStructT_v02,
     Field ''gloNavicInterSystemBias_valid'' C_uint8,
     Field ''gloNavicInterSystemBias'' qmiLocInterSystemBiasStructT_v02,
     Field ''bdsNavicInterSystemBias_valid'' C_uint8,
     Field ''bdsNavicInterSystemBias'' qmiLocInterSystemBiasStructT_v02,
     Field ''extSvMeasurement_valid'' C_uint8, Field ''extSvMeasurement_len'' C_uint32,
     Field ''extSvMeasurement'' (C_array qmiLocSVMeasurementStructT_v02 QMI_LOC_EXT_SV_MEAS_LIST_MAX_SIZE_V02),
     Field ''extSvCarrierPhaseUncertainty_valid'' C_uint8,
     Field ''extSvCarrierPhaseUncertainty_len'' C_uint32,
     Field ''extSvCarrierPhaseUncertainty'' (C_array C_float QMI_LOC_EXT_SV_MEAS_LIST_MAX_SIZE_V02),
     Field ''refCountTicks_valid'' C_uint8, Field ''refCountTicks'' C_uint64,
     Field ''dgnssCorrectionSourceT_valid'' C_uint8,
     Field ''dgnssCorrectionSourceT'' qmiLocDgnssCorrectionSourceTypeEnumT_v02,
     Field ''dgnssCorrectionSourceID_valid'' C_uint8, Field ''dgnssCorrectionSourceID'' C_uint32,
     Field ''dgnssRefStationId_valid'' C_uint8, Field ''dgnssRefStationId'' C_uint16,
     Field ''dgnssSvMeasurement_valid'' C_uint8, Field ''dgnssSvMeasurement_len'' C_uint32,
     Field ''dgnssSvMeasurement'' (C_array qmiLocDgnssSVMeasurementStructT_v02 QMI_LOC_DGNSS_SV_MEAS_LIST_MAX_SIZE_V02),
     Field ''refCountTicksUnc_valid'' C_uint8, Field ''refCountTicksUnc'' C_float,
     Field ''subSeqNum_valid'' C_uint8, Field ''subSeqNum'' C_uint8,
     Field ''maxSubSeqNum_valid'' C_uint8, Field ''maxSubSeqNum'' C_uint8]"

definition qmiLocEventGnssSvPolyIndMsgT_v02 :: ctype where
  "qmiLocEventGnssSvPolyIndMsgT_v02 = C_struct
    [Field ''gnssSvId'' C_uint16, Field ''T0'' C_double,
     Field ''svPolyFlagValid'' qmiLocSvPolyStatusMaskValidityT_v02,
     Field ''svPolyFlags'' qmiLocSvPolyStatusMaskT_v02, Field ''polyCoeffXYZ0_valid'' C_uint8,
     Field ''polyCoeffXYZ0'' (C_array C_double QMI_LOC_SV_POLY_XYZ_0_TH_ORDER_COEFF_SIZE_V02),
     Field ''polyCoefXYZN_valid'' C_uint8,
     Field ''polyCoefXYZN'' (C_array C_double QMI_LOC_SV_POLY_XYZ_N_TH_ORDER_COEFF_SIZE_V02),
     Field ''polyCoefClockBias_valid'' C_uint8,
     Field ''polyCoefClockBias'' (C_array C_float QMI_LOC_SV_POLY_SV_CLKBIAS_COEFF_SIZE_V02),
     Field ''gloFrequency_valid'' C_uint8, Field ''gloFrequency'' C_uint8, Field ''IODE_valid'' C_uint8,
     Field ''IODE'' C_uint16, Field ''enhancedIOD_valid'' C_uint8, Field ''enhancedIOD'' C_uint32,
     Field ''svPosUnc_valid'' C_uint8, Field ''svPosUnc'' C_float, Field ''ionoDelay_valid'' C_uint8,
     Field ''ionoDelay'' C_float, Field ''ionoDot_valid'' C_uint8, Field ''ionoDot'' C_float,
     Field ''sbasIonoDelay_valid'' C_uint8, Field ''sbasIonoDelay'' C_float,
     Field ''sbasIonoDot_valid'' C_uint8, Field ''sbasIonoDot'' C_float,
     Field ''tropoDelay_valid'' C_uint8, Field ''tropoDelay'' C_float,
     Field ''elevation_valid'' C_uint8, Field ''elevation'' C_float,
     Field ''elevationDot_valid'' C_uint8, Field ''elevationDot'' C_float,
     Field ''elenationUnc_valid'' C_uint8, Field ''elenationUnc'' C_float,
     Field ''velCoef_valid'' C_uint8,
     Field ''velCoef'' (C_array C_double QMI_LOC_SV_POLY_VELOCITY_COEF_SIZE_V02),
     Field ''gpsIscL1ca_valid'' C_uint8, Field ''gpsIscL1ca'' C_float,
     Field ''gpsIscL2c_valid'' C_uint8, Field ''gpsIscL2c'' C_float, Field ''gpsIscL5I5_valid'' C_uint8,
     Field ''gpsIscL5I5'' C_float, Field ''gpsIscL5Q5_valid'' C_uint8, Field ''gpsIscL5Q5'' C_float,
     Field ''gpsTgd_valid'' C_uint8, Field ''gpsTgd'' C_float, Field ''gloTgdG1G2_valid'' C_uint8,
     Field ''gloTgdG1G2'' C_float, Field ''bdsTgdB1_valid'' C_uint8, Field ''bdsTgdB1'' C_float,
     Field ''bdsTgdB2_valid'' C_uint8, Field ''bdsTgdB2'' C_float, Field ''bdsTgdB2a_valid'' C_uint8,
     Field ''bdsTgdB2a'' C_float, Field ''bdsIscB2a_valid'' C_uint8, Field ''bdsIscB2a'' C_float,
     Field ''galBgdE1E5a_valid'' C_uint8, Field ''galBgdE1E5a'' C_float,
     Field ''galBgdE1E5b_valid'' C_uint8, Field ''galBgdE1E5b'' C_float,
     Field ''navicTgdL5_valid'' C_uint8, Field ''navicTgdL5'' C_float,
     Field ''bdsTgdB1c_valid'' C_uint8, Field ''bdsTgdB1c'' C_float, Field ''bdsIscB1c_valid'' C_uint8,
     Field ''bdsIscB1c'' C_float, Field ''multibandHealth_valid'' C_uint8,
     Field ''multibandHealth'' qmiLocSignalHealthMaskT_v02]"

definition qmiLocWifiApMacAddressStructT_v02 :: ctype where
  "qmiLocWifiApMacAddressStructT_v02 = C_struct
    [Field ''wifiApMacAddress'' (C_array C_uint8 QMI_LOC_WIFI_MAC_ADDR_LENGTH_V02)]"

lemma qmiLocWifiApMacAddressStructT_v02_layout [layout_simps]: "sizeof qmiLocWifiApMacAddressStructT_v02 = 6" "alignof qmiLocWifiApMacAddressStructT_v02 = 1"
  by (simp_all add: qmiLocWifiApMacAddressStructT_v02_def layout_simps)

definition qmiLocIBeaconIdStructT_v02 :: ctype where
  "qmiLocIBeaconIdStructT_v02 = C_struct
    [Field ''uuid'' (C_array C_char (QMI_LOC_MAX_IBEACON_UUID_STR_LENGTH_V02 + 1)),
     Field ''majorNumber'' C_uint32, Field ''minorNumber'' C_uint32]"

lemma qmiLocIBeaconIdStructT_v02_layout [layout_simps]: "sizeof qmiLocIBeaconIdStructT_v02 = 44" "alignof qmiLocIBeaconIdStructT_v02 = 4"
  by (simp_all add: qmiLocIBeaconIdStructT_v02_def layout_simps)

definition qmiLocAddGeofenceContextReqMsgT_v02 :: ctype where
  "qmiLocAddGeofenceContextReqMsgT_v02 = C_struct
    [Field ''transactionId'' C_uint32, Field ''geofenceId_valid'' C_uint8,
     Field ''geofenceId'' C_uint32, Field ''wifiApSsidInfo_valid'' C_uint8,
     Field ''wifiApSsidInfo_len'' C_uint32,
     Field ''wifiApSsidInfo'' (C_array qmiLocWifiApSsidStructT_v02 QMI_LOC_WIFI_AREA_ID_LIST_LENGTH_V02),
     Field ''wifiApMacAddressList_valid'' C_uint8, Field ''wifiApMacAddressList_len'' C_uint32,
     Field ''wifiApMacAddressList'' (C_array qmiLocWifiApMacAddressStructT_v02 QMI_LOC_WIFI_AREA_ID_LIST_LENGTH_V02),
     Field ''tdsCdmaCellIDList_valid'' C_uint8,
     Field ''tdsCdmaCellIDList'' (C_array qmiLocTDSCDMACellIdStructT_v02 QMI_LOC_CELL_ID_LIST_LENGTH_V02),
     Field ''wcdmaCellIDList_valid'' C_uint8, Field ''wcdmaCellIDList_len'' C_uint32,
     Field ''wcdmaCellIDList'' (C_array qmiLocWCDMACellIdStructT_v02 QMI_LOC_CELL_ID_LIST_LENGTH_V02),
     Field ''gsmCellIDList_valid'' C_uint8, Field ''gsmCellIDList_len'' C_uint32,
     Field ''gsmCellIDList'' (C_array qmiLocGSMCellIdStructT_v02 QMI_LOC_CELL_ID_LIST_LENGTH_V02),
     Field ''iBeaconList_valid'' C_uint8, Field ''iBeaconList_len'' C_uint32,
     Field ''iBeaconList'' (C_array qmiLocIBeaconIdStructT_v02 QMI_LOC_IBEACON_LIST_LENGTH_V02)]"

definition qmiLocAddGeofenceContextIndMsgT_v02 :: ctype where
  "qmiLocAddGeofenceContextIndMsgT_v02 = C_struct
    [Field ''status'' qmiLocStatusEnumT_v02, Field ''transactionId_valid'' C_uint8,
     Field ''transactionId'' C_uint32, Field ''geofenceId_valid'' C_uint8,
     Field ''geofenceId'' C_uint32, Field ''contextId_valid'' C_uint8, Field ''contextId'' C_uint32]"

definition qmiLocSetGeofenceEngineContextReqMsgT_v02 :: ctype where
  "qmiLocSetGeofenceEngineContextReqMsgT_v02 = C_struct
    [Field ''transactionId'' C_uint32, Field ''utcTimeOfDay_valid'' C_uint8,
     Field ''utcTimeOfDay'' C_uint64, Field ''temperature_valid'' C_uint8, Field ''temperature'' C_int32]"

definition qmiLocSetGeofenceEngineContextIndMsgT_v02 :: ctype where
  "qmiLocSetGeofenceEngineContextIndMsgT_v02 = C_struct
    [Field ''status'' qmiLocStatusEnumT_v02, Field ''transactionId_valid'' C_uint8,
     Field ''transactionId'' C_uint32]"

definition qmiLocDeleteGeofenceContextReqMsgT_v02 :: ctype where
  "qmiLocDeleteGeofenceContextReqMsgT_v02 = C_struct
    [Field ''transactionId'' C_uint32, Field ''geofenceId'' C_uint32, Field ''contextId_valid'' C_uint8,
     Field ''contextId'' C_uint32]"

definition qmiLocDeleteGeofenceContextIndMsgT_v02 :: ctype where
  "qmiLocDeleteGeofenceContextIndMsgT_v02 = C_struct
    [Field ''status'' qmiLocStatusEnumT_v02, Field ''transactionId_valid'' C_uint8,
     Field ''transactionId'' C_uint32, Field ''geofenceId_valid'' C_uint8,
     Field ''geofenceId'' C_uint32, Field ''contextId_valid'' C_uint8, Field ''contextId'' C_uint32]"

definition qmiLocInjectGtpClientDownloadedDataReqMsgT_v02 :: ctype where
  "qmiLocInjectGtpClientDownloadedDataReqMsgT_v02 = C_struct
    [Field ''ClientDownloadedData_len'' C_uint32,
     Field ''ClientDownloadedData'' (C_array C_char QMI_LOC_MAX_GTP_WWAN_CLIENT_DOWNLOADED_DATA_LEN_V02)]"

definition qmiLocInjectGtpClientDownloadedDataIndMsgT_v02 :: ctype where
  "qmiLocInjectGtpClientDownloadedDataIndMsgT_v02 = C_struct
    [Field ''status'' qmiLocStatusEnumT_v02]"

definition qmiLocGdtUploadBeginStatusReqMsgT_v02 :: ctype where
  "qmiLocGdtUploadBeginStatusReqMsgT_v02 = C_struct
    [Field ''serviceId'' qmiLocGdtServiceIdEnumT_v02, Field ''sessionId'' C_uint32,
     Field ''gdtAccessStatus'' qmiLocGdtAccessStatusEnumT_v02]"

definition qmiLocGdtUploadBeginStatusIndMsgT_v02 :: ctype where
  "qmiLocGdtUploadBeginStatusIndMsgT_v02 = C_struct
    [Field ''status'' qmiLocStatusEnumT_v02]"

definition qmiLocGdtUploadEndReqMsgT_v02 :: ctype where
  "qmiLocGdtUploadEndReqMsgT_v02 = C_struct
    [Field ''serviceId'' qmiLocGdtServiceIdEnumT_v02, Field ''sessionId'' C_uint32,
     Field ''gdtEndStatus'' qmiLocGdtEndAckEnumT_v02]"

definition qmiLocGdtUploadEndIndMsgT_v02 :: ctype where
  "qmiLocGdtUploadEndIndMsgT_v02 = C_struct
    [Field ''status'' qmiLocStatusEnumT_v02]"

definition qmiLocGtpApStatusReqMsgT_v02 :: ctype where
  "qmiLocGtpApStatusReqMsgT_v02 = C_struct
    [Field ''gtpApDbStatus'' qmiLocGtpApStatusEnumT_v02, Field ''gtpApPcid64_valid'' C_uint8,
     Field ''gtpApPcid64'' C_uint64, Field ''oemId_valid'' C_uint8, Field ''oemId_len'' C_uint32,
     Field ''oemId'' (C_array C_char QMI_LOC_MAX_OEM_ID_LEN_V02), Field ''modelId_valid'' C_uint8,
     Field ''modelId_len'' C_uint32, Field ''modelId'' (C_array C_char QMI_LOC_MAX_MODEL_ID_LEN_V02)]"

definition qmiLocGtpAsnVerStructT_v02 :: ctype where
  "qmiLocGtpAsnVerStructT_v02 = C_struct
    [Field ''asnMajorVersion'' C_uint8, Field ''asnMinorVersion'' C_uint8,
     Field ''asnPointVersion'' C_uint8]"

lemma qmiLocGtpAsnVerStructT_v02_layout [layout_simps]: "sizeof qmiLocGtpAsnVerStructT_v02 = 3" "alignof qmiLocGtpAsnVerStructT_v02 = 1"
  by (simp_all add: qmiLocGtpAsnVerStructT_v02_def layout_simps)

definition qmiLocGtpApStatusIndMsgT_v02 :: ctype where
  "qmiLocGtpApStatusIndMsgT_v02 = C_struct
    [Field ''status'' qmiLocStatusEnumT_v02, Field ''clientSoftwareVersion'' C_uint16,
     Field ''asnVersion'' qmiLocGtpAsnVerStructT_v02]"

definition qmiLocGdtDownloadBeginStatusReqMsgT_v02 :: ctype where
  "qmiLocGdtDownloadBeginStatusReqMsgT_v02 = C_struct
    [Field ''serviceId'' qmiLocGdtServiceIdEnumT_v02, Field ''sessionId'' C_uint32,
     Field ''processingStatus'' qmiLocGtpProcessStatusEnumT_v02,
     Field ''wwanDownloadFlag_valid'' C_uint8, Field ''wwanDownloadFlag'' C_uint16,
     Field ''respLocInfo_valid'' C_uint8, Field ''respLocInfo_len'' C_uint32,
     Field ''respLocInfo'' (C_array C_uint8 QMI_LOC_MAX_GTP_RLI_LEN_V02),
     Field ''apRemainingThrottleTime_valid'' C_uint8, Field ''apRemainingThrottleTime'' C_uint32]"

definition qmiLocGdtDownloadBeginStatusIndMsgT_v02 :: ctype where
  "qmiLocGdtDownloadBeginStatusIndMsgT_v02 = C_struct
    [Field ''status'' qmiLocStatusEnumT_v02]"

definition qmiLocGdtDownloadReadyStatusReqMsgT_v02 :: ctype where
  "qmiLocGdtDownloadReadyStatusReqMsgT_v02 = C_struct
    [Field ''serviceId'' qmiLocGdtServiceIdEnumT_v02, Field ''sessionId'' C_uint32,
     Field ''status'' qmiLocStatusEnumT_v02, Field ''filePath_len'' C_uint32,
     Field ''filePath'' (C_array C_char QMI_LOC_MAX_GDT_PATH_LEN_V02)]"

definition qmiLocGdtDownloadReadyStatusIndMsgT_v02 :: ctype where
  "qmiLocGdtDownloadReadyStatusIndMsgT_v02 = C_struct
    [Field ''status'' qmiLocStatusEnumT_v02]"

definition qmiLocGdtReceiveDoneStatusReqMsgT_v02 :: ctype where
  "qmiLocGdtReceiveDoneStatusReqMsgT_v02 = C_struct
    [Field ''serviceId'' qmiLocGdtServiceIdEnumT_v02, Field ''sessionId'' C_uint32,
     Field ''status'' qmiLocStatusEnumT_v02]"

definition qmiLocGdtReceiveDoneStatusIndMsgT_v02 :: ctype where
  "qmiLocGdtReceiveDoneStatusIndMsgT_v02 = C_struct
    [Field ''status'' qmiLocStatusEnumT_v02]"

definition qmiLocGdtDownloadEndStatusReqMsgT_v02 :: ctype where
  "qmiLocGdtDownloadEndStatusReqMsgT_v02 = C_struct
    [Field ''serviceId'' qmiLocGdtServiceIdEnumT_v02, Field ''sessionId'' C_uint32,
     Field ''status'' qmiLocStatusEnumT_v02]"

definition qmiLocGdtDownloadEndStatusIndMsgT_v02 :: ctype where
  "qmiLocGdtDownloadEndStatusIndMsgT_v02 = C_struct
    [Field ''status'' qmiLocStatusEnumT_v02]"

definition qmiLocStartDbtReqMsgT_v02 :: ctype where
  "qmiLocStartDbtReqMsgT_v02 = C_struct
    [Field ''reqId'' C_uint8, Field ''minDistance'' C_uint32,
     Field ''distanceType'' qmiLocDbDistanceTypeEnumT_v02, Field ''needOriginLocation'' C_uint8,
     Field ''maxLatency_valid'' C_uint8, Field ''maxLatency'' C_uint32,
     Field ''usageType_valid'' C_uint8, Field ''usageType'' qmiLocDbtUsageEnumT_v02]"

definition qmiLocStartDbtIndMsgT_v02 :: ctype where
  "qmiLocStartDbtIndMsgT_v02 = C_struct
    [Field ''status'' qmiLocStatusEnumT_v02, Field ''reqId_valid'' C_uint8, Field ''reqId'' C_uint8]"

definition qmiLocStopDbtReqMsgT_v02 :: ctype where
  "qmiLocStopDbtReqMsgT_v02 = C_struct
    [Field ''reqId'' C_uint8]"

definition qmiLocStopDbtIndMsgT_v02 :: ctype where
  "qmiLocStopDbtIndMsgT_v02 = C_struct
    [Field ''status'' qmiLocStatusEnumT_v02, Field ''reqId_valid'' C_uint8, Field ''reqId'' C_uint8]"

definition qmiLocDbtPositionStructT_v02 :: ctype where
  "qmiLocDbtPositionStructT_v02 = C_struct
    [Field ''timestampUtc'' C_uint64, Field ''latitude'' C_double, Field ''longitude'' C_double,
     Field ''horUncEllipseSemiMinor'' C_float, Field ''horUncEllipseSemiMajor'' C_float,
     Field ''horUncEllipseOrientAzimuth'' C_float, Field ''speedHorizontal_valid'' C_uint8,
     Field ''speedHorizontal'' C_float, Field ''altitudeWrtEllipsoid_valid'' C_uint8,
     Field ''altitudeWrtEllipsoid'' C_float, Field ''vertUnc_valid'' C_uint8, Field ''vertUnc'' C_float,
     Field ''speedVertical_valid'' C_uint8, Field ''speedVertical'' C_float,
     Field ''heading_valid'' C_uint8, Field ''heading'' C_float]"

lemma qmiLocDbtPositionStructT_v02_layout [layout_simps]: "sizeof qmiLocDbtPositionStructT_v02 = 80" "alignof qmiLocDbtPositionStructT_v02 = 8"
  by (simp_all add: qmiLocDbtPositionStructT_v02_def layout_simps)

definition qmiLocEventDbtPositionReportIndMsgT_v02 :: ctype where
  "qmiLocEventDbtPositionReportIndMsgT_v02 = C_struct
    [Field ''reqId'' C_uint8, Field ''dbtPosition'' qmiLocDbtPositionStructT_v02,
     Field ''positionType'' qmiLocDbtPositionTypeEnumT_v02, Field ''headingUnc_valid'' C_uint8,
     Field ''headingUnc'' C_float, Field ''speedUnc_valid'' C_uint8, Field ''speedUnc'' C_float,
     Field ''horConfidence_valid'' C_uint8, Field ''horConfidence'' C_uint8,
     Field ''vertConfidence_valid'' C_uint8, Field ''vertConfidence'' C_uint8,
     Field ''DOP_valid'' C_uint8, Field ''DOP'' qmiLocDOPStructT_v02,
     Field ''gnssSvUsedList_valid'' C_uint8, Field ''gnssSvUsedList_len'' C_uint32,
     Field ''gnssSvUsedList'' (C_array C_uint16 QMI_LOC_MAX_SV_USED_LIST_LENGTH_V02),
     Field ''positionSrc_valid'' C_uint8, Field ''positionSrc'' qmiLocPositionSrcEnumT_v02,
     Field ''extDOP_valid'' C_uint8, Field ''extDOP'' qmiLocExtDOPStructT_v02,
     Field ''expandedGnssSvUsedList_valid'' C_uint8, Field ''expandedGnssSvUsedList_len'' C_uint32,
     Field ''expandedGnssSvUsedList'' (C_array C_uint16 QMI_LOC_EXPANDED_SV_INFO_LIST_MAX_SIZE_V02),
     Field ''gnssSvUsedSignalTypeList_valid'' C_uint8, Field ''gnssSvUsedSignalTypeList_len'' C_uint32,
     Field ''gnssSvUsedSignalTypeList'' (C_array qmiLocGnssSignalTypeMaskT_v02 QMI_LOC_EXPANDED_SV_INFO_LIST_MAX_SIZE_V02)]"

definition qmiLocEventDbtSessionStatusIndMsgT_v02 :: ctype where
  "qmiLocEventDbtSessionStatusIndMsgT_v02 = C_struct
    [Field ''dbtSessionStatus'' qmiLocDbtSessionStatusEnumT_v02, Field ''reqId_valid'' C_uint8,
     Field ''reqId'' C_uint8]"

definition qmiLocSecureGetAvailablePositionReqMsgT_v02 :: ctype where
  "qmiLocSecureGetAvailablePositionReqMsgT_v02 = C_struct
    [Field ''secureLocDataMode'' qmiLocSecureLocDataModeEnumT_v02,
     Field ''qmilocSecureGetAvailablePositionRequestData_len'' C_uint32,
     Field ''qmilocSecureGetAvailablePositionRequestData'' (C_array C_uint8 QMI_LOC_SECURE_GET_AVAILABLE_POS_REQUEST_ENCRYPTED_MAX_V02)]"

definition qmiLocSecureGetAvailablePositionIndMsgT_v02 :: ctype where
  "qmiLocSecureGetAvailablePositionIndMsgT_v02 = C_struct
    [Field ''sessionStatus'' qmiLocSessionStatusEnumT_v02,
     Field ''secureLocDataMode'' qmiLocSecureLocDataModeEnumT_v02,
     Field ''qmilocSecureGetAvailablePositionInd_valid'' C_uint8,
     Field ''qmilocSecureGetAvailablePositionInd_len'' C_uint32,
     Field ''qmilocSecureGetAvailablePositionInd'' (C_array C_uint8 QMI_LOC_SECURE_GET_AVAILABLE_POSITION_IND_ENCRYPTED_MAX_V02)]"

definition qmiLocApCacheStructT_v02 :: ctype where
  "qmiLocApCacheStructT_v02 = C_struct
    [Field ''macAddress'' C_uint64, Field ''xLat'' C_float, Field ''yLon'' C_float,
     Field ''mar'' C_float]"

lemma qmiLocApCacheStructT_v02_layout [layout_simps]: "sizeof qmiLocApCacheStructT_v02 = 24" "alignof qmiLocApCacheStructT_v02 = 8"
  by (simp_all add: qmiLocApCacheStructT_v02_def layout_simps)

definition qmiLocApCacheHepeRelStructT_v02 :: ctype where
  "qmiLocApCacheHepeRelStructT_v02 = C_struct
    [Field ''hepeValid'' C_uint8, Field ''hepe'' C_uint16,
     Field ''apReliability'' qmiLocApReliabilityEnumT_v02]"

lemma qmiLocApCacheHepeRelStructT_v02_layout [layout_simps]: "sizeof qmiLocApCacheHepeRelStructT_v02 = 8" "alignof qmiLocApCacheHepeRelStructT_v02 = 4"
  by (simp_all add: qmiLocApCacheHepeRelStructT_v02_def layout_simps)

definition qmiLocInjectApCacheDataReqMsgT_v02 :: ctype where
  "qmiLocInjectApCacheDataReqMsgT_v02 = C_struct
    [Field ''versionNumber'' C_uint8, Field ''partNumber'' C_uint8, Field ''totalParts'' C_uint8,
     Field ''apCacheData_len'' C_uint32,
     Field ''apCacheData'' (C_array qmiLocApCacheStructT_v02 QMI_LOC_APCACHE_DATA_MAX_SAMPLES_V02),
     Field ''apCacheHepeRelData_valid'' C_uint8, Field ''apCacheHepeRelData_len'' C_uint32,
     Field ''apCacheHepeRelData'' (C_array qmiLocApCacheHepeRelStructT_v02 QMI_LOC_APCACHE_DATA_MAX_SAMPLES_V02)]"

definition qmiLocInjectApCacheDataIndMsgT_v02 :: ctype where
  "qmiLocInjectApCacheDataIndMsgT_v02 = C_struct
    [Field ''status'' qmiLocStatusEnumT_v02, Field ''apCacheSize_valid'' C_uint8,
     Field ''apCacheSize'' C_uint32, Field ''apDoNotCacheSize_valid'' C_uint8,
     Field ''apDoNotCacheSize'' C_uint32, Field ''apCacheHits_valid'' C_uint8,
     Field ''apCacheHits'' C_uint32, Field ''apDoNotCacheHits_valid'' C_uint8,
     Field ''apDoNotCacheHits'' C_uint32, Field ''unknownAps_valid'' C_uint8,
     Field ''unknownAps'' C_uint32, Field ''asyncScans_valid'' C_uint8, Field ''asyncScans'' C_uint32,
     Field ''asyncFixes_valid'' C_uint8, Field ''asyncFixes'' C_uint32,
     Field ''syncScans_valid'' C_uint8, Field ''syncScans'' C_uint32, Field ''syncFixes_valid'' C_uint8,
     Field ''syncFixes'' C_uint32]"

definition qmiLocApDoNotCacheStructT_v02 :: ctype where
  "qmiLocApDoNotCacheStructT_v02 = C_struct
    [Field ''macAddress'' C_uint64]"

lemma qmiLocApDoNotCacheStructT_v02_layout [layout_simps]: "sizeof qmiLocApDoNotCacheStructT_v02 = 8" "alignof qmiLocApDoNotCacheStructT_v02 = 8"
  by (simp_all add: qmiLocApDoNotCacheStructT_v02_def layout_simps)

definition qmiLocInjectApDoNotCacheDataReqMsgT_v02 :: ctype where
  "qmiLocInjectApDoNotCacheDataReqMsgT_v02 = C_struct
    [Field ''versionNumber'' C_uint8, Field ''partNumber'' C_uint8, Field ''totalParts'' C_uint8,
     Field ''apDoNotCacheData_len'' C_uint32,
     Field ''apDoNotCacheData'' (C_array qmiLocApDoNotCacheStructT_v02 QMI_LOC_APCACHE_DATA_MAX_SAMPLES_V02)]"

definition qmiLocInjectApDoNotCacheDataIndMsgT_v02 :: ctype where
  "qmiLocInjectApDoNotCacheDataIndMsgT_v02 = C_struct
    [Field ''status'' qmiLocStatusEnumT_v02]"

definition qmiLocEventBatchingStatusIndMsgT_v02 :: ctype where
  "qmiLocEventBatchingStatusIndMsgT_v02 = C_struct
    [Field ''batchingStatus'' qmiLocBatchingStatusEnumT_v02]"

definition qmiLocQueryAonConfigReqMsgT_v02 :: ctype where
  "qmiLocQueryAonConfigReqMsgT_v02 = C_struct
    [Field ''transactionId'' C_uint32]"

definition qmiLocQueryAonConfigIndMsgT_v02 :: ctype where
  "qmiLocQueryAonConfigIndMsgT_v02 = C_struct
    [Field ''status'' qmiLocStatusEnumT_v02, Field ''transactionId_valid'' C_uint8,
     Field ''transactionId'' C_uint32, Field ''aonCapability_valid'' C_uint8,
     Field ''aonCapability'' qmiLocAonCapabilityMaskT_v02]"

definition qmiLocDeleteSatelliteDataStructT_v02 :: ctype where
  "qmiLocDeleteSatelliteDataStructT_v02 = C_struct
    [Field ''system'' qmiLocGNSSConstellMaskT_v02,
     Field ''deleteSatelliteDataMask'' qmiLocDeleteSatelliteDataMaskT_v02]"

lemma qmiLocDeleteSatelliteDataStructT_v02_layout [layout_simps]: "sizeof qmiLocDeleteSatelliteDataStructT_v02 = 8" "alignof qmiLocDeleteSatelliteDataStructT_v02 = 4"
  by (simp_all add: qmiLocDeleteSatelliteDataStructT_v02_def layout_simps)

definition qmiLocDeleteGNSSServiceDataReqMsgT_v02 :: ctype where
  "qmiLocDeleteGNSSServiceDataReqMsgT_v02 = C_struct
    [Field ''deleteAllFlag'' C_uint8, Field ''deleteClockInfoMask_valid'' C_uint8,
     Field ''deleteClockInfoMask'' qmiLocDeleteClockInfoMaskT_v02,
     Field ''deleteCellDbDataMask_valid'' C_uint8,
     Field ''deleteCellDbDataMask'' qmiLocDeleteCelldbDataMaskT_v02,
     Field ''deleteCommonDataMask_valid'' C_uint8,
     Field ''deleteCommonDataMask'' qmiLocDeleteCommonDataMaskT_v02,
     Field ''deleteSatelliteData_valid'' C_uint8,
     Field ''deleteSatelliteData'' qmiLocDeleteSatelliteDataStructT_v02,
     Field ''deleteExtClockInfoMask_valid'' C_uint8,
     Field ''deleteExtClockInfoMask'' qmiLocExtDeleteClockInfoMaskT_v02]"

definition qmiLocDeleteGNSSServiceDataIndMsgT_v02 :: ctype where
  "qmiLocDeleteGNSSServiceDataIndMsgT_v02 = C_struct
    [Field ''status'' qmiLocStatusEnumT_v02]"

definition qmiLocInjectXtraDataReqMsgT_v02 :: ctype where
  "qmiLocInjectXtraDataReqMsgT_v02 = C_struct
    [Field ''totalSize'' C_uint32, Field ''totalParts'' C_uint16, Field ''partNum'' C_uint16,
     Field ''partData_len'' C_uint32,
     Field ''partData'' (C_array C_uint8 QMI_LOC_MAX_XTRA_PART_LEN_V02),
     Field ''formatType_valid'' C_uint8, Field ''formatType'' qmiLocXtraDataFormatEnumT_v02]"

definition qmiLocInjectXtraDataIndMsgT_v02 :: ctype where
  "qmiLocInjectXtraDataIndMsgT_v02 = C_struct
    [Field ''status'' qmiLocStatusEnumT_v02, Field ''partNum_valid'' C_uint8,
     Field ''partNum'' C_uint16, Field ''ConstellationMask_valid'' C_uint8,
     Field ''ConstellationMask'' qmiLocGNSSConstellEnumT_v02]"

definition qmiLocInjectXtraPcidReqMsgT_v02 :: ctype where
  "qmiLocInjectXtraPcidReqMsgT_v02 = C_struct
    [Field ''xtraPcid'' C_uint64]"

definition qmiLocInjectXtraPcidIndMsgT_v02 :: ctype where
  "qmiLocInjectXtraPcidIndMsgT_v02 = C_struct
    [Field ''status'' qmiLocStatusEnumT_v02]"

definition qmiLocGetSupportedFeatureReqMsgT_v02 :: ctype where
  "qmiLocGetSupportedFeatureReqMsgT_v02 = C_struct
    [Field ''__placeholder'' C_char]"

definition qmiLocGetSupportedFeatureIndMsgT_v02 :: ctype where
  "qmiLocGetSupportedFeatureIndMsgT_v02 = C_struct
    [Field ''status'' qmiLocStatusEnumT_v02, Field ''feature_len'' C_uint32,
     Field ''feature'' (C_array C_uint8 QMI_LOC_SUPPORTED_FEATURE_LENGTH_V02),
     Field ''featureStatusReport_valid'' C_uint8,
     Field ''featureStatusReport'' qmiLocFeaturesStatusMaskT_v02]"

definition qmiLocSetInternalStatusConfigReqMsgT_v02 :: ctype where
  "qmiLocSetInternalStatusConfigReqMsgT_v02 = C_struct
    [Field ''config'' C_uint8]"

definition qmiLocSetInternalStatusConfigIndMsgT_v02 :: ctype where
  "qmiLocSetInternalStatusConfigIndMsgT_v02 = C_struct
    [Field ''status'' qmiLocStatusEnumT_v02]"

definition qmiLocInternalStatusReportDataStructT_v02 :: ctype where
  "qmiLocInternalStatusReportDataStructT_v02 = C_struct
    [Field ''data'' (C_array C_uint8 QMI_LOC_INTERNAL_STATUS_REPORT_DATA_LENGTH_V02)]"

lemma qmiLocInternalStatusReportDataStructT_v02_layout [layout_simps]: "sizeof qmiLocInternalStatusReportDataStructT_v02 = 56" "alignof qmiLocInternalStatusReportDataStructT_v02 = 1"
  by (simp_all add: qmiLocInternalStatusReportDataStructT_v02_def layout_simps)

definition qmiLocEventInternalStatusReportIndMsgT_v02 :: ctype where
  "qmiLocEventInternalStatusReportIndMsgT_v02 = C_struct
    [Field ''reportData_len'' C_uint32,
     Field ''reportData'' (C_array qmiLocInternalStatusReportDataStructT_v02 QMI_LOC_INTERNAL_STATUS_MAX_LIST_SIZE_V02)]"

definition qmiLocEventInjectSrnApDataReqIndMsgT_v02 :: ctype where
  "qmiLocEventInjectSrnApDataReqIndMsgT_v02 = C_struct
    [Field ''srnTechMask'' qmiLocSrnApDataDeviceTypeMaskT_v02, Field ''srnRequest'' C_uint8,
     Field ''e911Mode_valid'' C_uint8, Field ''e911Mode'' C_uint8,
     Field ''srnApMacAddrType_valid'' C_uint8,
     Field ''srnApMacAddrType'' qmiLocSrnApDataMacAddrTypeEnumT_v02]"

definition qmiLocSrnBtleApDeviceDataStructT_v02 :: ctype where
  "qmiLocSrnBtleApDeviceDataStructT_v02 = C_struct
    [Field ''srnApDataMask'' qmiLocSrnApDataMaskT_v02,
     Field ''macAddress'' (C_array C_uint8 QMI_LOC_SRN_MAC_ADDR_LENGTH_V02),
     Field ''apSrnRssi'' C_int32, Field ''apSrnTimestamp'' C_int64]"

lemma qmiLocSrnBtleApDeviceDataStructT_v02_layout [layout_simps]: "sizeof qmiLocSrnBtleApDeviceDataStructT_v02 = 24" "alignof qmiLocSrnBtleApDeviceDataStructT_v02 = 8"
  by (simp_all add: qmiLocSrnBtleApDeviceDataStructT_v02_def layout_simps)

definition qmiLocInjectSrnApDataReqMsgT_v02 :: ctype where
  "qmiLocInjectSrnApDataReqMsgT_v02 = C_struct
    [Field ''apDeviceTechType'' qmiLocSrnApDataTechTypeEnumT_v02, Field ''srnBtleApInfo_valid'' C_uint8,
     Field ''srnBtleApInfo_len'' C_uint32,
     Field ''srnBtleApInfo'' (C_array qmiLocSrnBtleApDeviceDataStructT_v02 QMI_LOC_SRN_MAX_REPORTED_APS_PER_MSG_V02),
     Field ''requestTimestamp_valid'' C_uint8, Field ''requestTimestamp'' C_int64,
     Field ''receiveTimestamp_valid'' C_uint8, Field ''receiveTimestamp'' C_int64,
     Field ''errorCause_valid'' C_uint8, Field ''errorCause'' qmiLocSrnApErrEnumT_v02]"

definition qmiLocInjectSrnApDataIndMsgT_v02 :: ctype where
  "qmiLocInjectSrnApDataIndMsgT_v02 = C_struct
    [Field ''status'' qmiLocStatusEnumT_v02]"

definition qmiLocWifiCrowdSourcingLocalConfigStructT_v02 :: ctype where
  "qmiLocWifiCrowdSourcingLocalConfigStructT_v02 = C_struct
    [Field ''enableCrowdSourcingOnDemand'' C_uint8,
     Field ''enableCrowdSourcingOnUnsolicitedGnss'' C_uint8,
     Field ''enableBatteryLevelBasedThrottling'' C_uint8, Field ''enableRttCrowdSourcing'' C_uint8,
     Field ''enableRtt3CrowdSourcing'' C_uint8, Field ''rttSignalDbmThresh'' C_int32,
     Field ''maxDataTransferFormatVersionSupported'' C_uint16]"

lemma qmiLocWifiCrowdSourcingLocalConfigStructT_v02_layout [layout_simps]: "sizeof qmiLocWifiCrowdSourcingLocalConfigStructT_v02 = 16" "alignof qmiLocWifiCrowdSourcingLocalConfigStructT_v02 = 4"
  by (simp_all add: qmiLocWifiCrowdSourcingLocalConfigStructT_v02_def layout_simps)

definition qmiLocCrowdSourceManagerControlReqMsgT_v02 :: ctype where
  "qmiLocCrowdSourceManagerControlReqMsgT_v02 = C_struct
    [Field ''enableCrowdSourcingMask_valid'' C_uint8,
     Field ''enableCrowdSourcingMask'' qmiLocCrowdSourcingTechnologyMaskT_v02,
     Field ''wifiCrowdSourcingLocalConfig_valid'' C_uint8,
     Field ''wifiCrowdSourcingLocalConfig'' qmiLocWifiCrowdSourcingLocalConfigStructT_v02,
     Field ''wifiCrowdSourcingServerConfig_valid'' C_uint8,
     Field ''wifiCrowdSourcingServerConfig_len'' C_uint32,
     Field ''wifiCrowdSourcingServerConfig'' (C_array C_char QMI_LOC_MAX_WIFI_CROWDSOURCING_SERVER_CONFIG_LEN_V02),
     Field ''enableSourceMask_valid'' C_uint8,
     Field ''enableSourceMask'' qmiLocCrowdSourcingSourceMaskT_v02]"

definition qmiLocWifiCrowdSourcingCapabilityStructT_v02 :: ctype where
  "qmiLocWifiCrowdSourcingCapabilityStructT_v02 = C_struct
    [Field ''onDemandCrowdSourcingSupported'' C_uint8,
     Field ''UnsolicitedGnssCrowdSourcingSupported'' C_uint8, Field ''majorVersionSupported'' C_uint8,
     Field ''minorVersionSupported'' C_uint8, Field ''maxDataTransferFormatVersionSupported'' C_uint16]"

lemma qmiLocWifiCrowdSourcingCapabilityStructT_v02_layout [layout_simps]: "sizeof qmiLocWifiCrowdSourcingCapabilityStructT_v02 = 6" "alignof qmiLocWifiCrowdSourcingCapabilityStructT_v02 = 2"
  by (simp_all add: qmiLocWifiCrowdSourcingCapabilityStructT_v02_def layout_simps)

definition qmiLocCrowdSourceManagerControlIndMsgT_v02 :: ctype where
  "qmiLocCrowdSourceManagerControlIndMsgT_v02 = C_struct
    [Field ''status'' qmiLocStatusEnumT_v02, Field ''supportedCrowdSourcingMask_valid'' C_uint8,
     Field ''supportedCrowdSourcingMask'' qmiLocCrowdSourcingTechnologyMaskT_v02,
     Field ''wifiCrowdSourcingCapabaility_valid'' C_uint8,
     Field ''wifiCrowdSourcingCapabaility'' qmiLocWifiCrowdSourcingCapabilityStructT_v02,
     Field ''modemClientInfo_valid'' C_uint8, Field ''modemClientInfo_len'' C_uint32,
     Field ''modemClientInfo'' (C_array C_uint8 QMI_LOC_MAX_CROWDSOURCING_MODEM_CLIENT_INFO_LEN_V02)]"

definition qmiLocCrowdSourceManagerReadDataReqMsgT_v02 :: ctype where
  "qmiLocCrowdSourceManagerReadDataReqMsgT_v02 = C_struct
    [Field ''crowdSourcingTechMask_valid'' C_uint8,
     Field ''crowdSourcingTechMask'' qmiLocCrowdSourcingTechnologyMaskT_v02]"

definition qmiLocXtraInfoStructT_v02 :: ctype where
  "qmiLocXtraInfoStructT_v02 = C_struct
    [Field ''reportMask'' qmiLocXtraInfoMaskT_v02, Field ''absAgeHrs'' C_uint16,
     Field ''relAgeInUTC'' C_uint64,
     Field ''xtraServerInfo'' qmiLocPredictedOrbitsServerListStructT_v02,
     Field ''ntpServerInfo'' qmiLocTimeServerListStructT_v02, Field ''timeRequest'' C_uint8,
     Field ''preferedValidAgeHrs'' C_uint16]"

lemma qmiLocXtraInfoStructT_v02_layout [layout_simps]: "sizeof qmiLocXtraInfoStructT_v02 = 1568" "alignof qmiLocXtraInfoStructT_v02 = 8"
  by (simp_all add: qmiLocXtraInfoStructT_v02_def layout_simps)

definition qmiLocVersionStructT_v02 :: ctype where
  "qmiLocVersionStructT_v02 = C_struct
    [Field ''majorVersion'' C_uint8, Field ''minorVersion'' C_uint8]"

lemma qmiLocVersionStructT_v02_layout [layout_simps]: "sizeof qmiLocVersionStructT_v02 = 2" "alignof qmiLocVersionStructT_v02 = 1"
  by (simp_all add: qmiLocVersionStructT_v02_def layout_simps)

definition qmiLocQueryXtraInfoReqMsgT_v02 :: ctype where
  "qmiLocQueryXtraInfoReqMsgT_v02 = C_struct
    [Field ''xtraConfig'' qmiLocXtraConfigMaskT_v02, Field ''xcVersion_valid'' C_uint8,
     Field ''xcVersion'' qmiLocVersionStructT_v02]"

definition qmiLocQueryXtraInfoIndMsgT_v02 :: ctype where
  "qmiLocQueryXtraInfoIndMsgT_v02 = C_struct
    [Field ''status'' qmiLocStatusEnumT_v02, Field ''xtraInfo'' qmiLocXtraInfoStructT_v02,
     Field ''mpVersion_valid'' C_uint8, Field ''mpVersion'' qmiLocVersionStructT_v02]"

definition qmiLocStartOutdoorTripBatchingReqMsgT_v02 :: ctype where
  "qmiLocStartOutdoorTripBatchingReqMsgT_v02 = C_struct
    [Field ''batchDistance'' C_uint32, Field ''minTimeInterval'' C_uint32,
     Field ''fixSessionTimeout_valid'' C_uint8, Field ''fixSessionTimeout'' C_uint32,
     Field ''batchAllPos_valid'' C_uint8, Field ''batchAllPos'' C_uint8]"

definition qmiLocStartOutdoorTripBatchingIndMsgT_v02 :: ctype where
  "qmiLocStartOutdoorTripBatchingIndMsgT_v02 = C_struct
    [Field ''status'' qmiLocStatusEnumT_v02]"

definition qmiLocQueryOTBAccumulatedDistanceReqMsgT_v02 :: ctype where
  "qmiLocQueryOTBAccumulatedDistanceReqMsgT_v02 = C_struct
    [Field ''__placeholder'' C_char]"

definition qmiLocQueryOTBAccumulatedDistanceIndMsgT_v02 :: ctype where
  "qmiLocQueryOTBAccumulatedDistanceIndMsgT_v02 = C_struct
    [Field ''status'' qmiLocStatusEnumT_v02, Field ''accumulatedDistance'' C_uint32,
     Field ''batchedPosition'' C_uint32]"

definition qmiLocGtpClientSwVerStructT_v02 :: ctype where
  "qmiLocGtpClientSwVerStructT_v02 = C_struct
    [Field ''gtpClientSwMajorVersion'' C_uint8, Field ''gtpClientSwMinorVersion'' C_uint8]"

lemma qmiLocGtpClientSwVerStructT_v02_layout [layout_simps]: "sizeof qmiLocGtpClientSwVerStructT_v02 = 2" "alignof qmiLocGtpClientSwVerStructT_v02 = 1"
  by (simp_all add: qmiLocGtpClientSwVerStructT_v02_def layout_simps)

definition qmiLocHomeCarrierIdStructT_v02 :: ctype where
  "qmiLocHomeCarrierIdStructT_v02 = C_struct
    [Field ''homeMncValid'' C_uint8, Field ''homeMcc'' C_uint32, Field ''homeMnc'' C_uint32]"

lemma qmiLocHomeCarrierIdStructT_v02_layout [layout_simps]: "sizeof qmiLocHomeCarrierIdStructT_v02 = 12" "alignof qmiLocHomeCarrierIdStructT_v02 = 4"
  by (simp_all add: qmiLocHomeCarrierIdStructT_v02_def layout_simps)

definition qmiLocPositionSourceStructT_v02 :: ctype where
  "qmiLocPositionSourceStructT_v02 = C_struct
    [Field ''unspecifiedInternal'' C_uint8, Field ''unspecifiedExternal'' C_uint8,
     Field ''gnss'' C_uint8, Field ''sensors'' C_uint8, Field ''wifi'' C_uint8, Field ''wwan'' C_uint8]"

lemma qmiLocPositionSourceStructT_v02_layout [layout_simps]: "sizeof qmiLocPositionSourceStructT_v02 = 6" "alignof qmiLocPositionSourceStructT_v02 = 1"
  by (simp_all add: qmiLocPositionSourceStructT_v02_def layout_simps)

definition qmiLocBsBestPositionStructT_v02 :: ctype where
  "qmiLocBsBestPositionStructT_v02 = C_struct
    [Field ''latitude'' C_double, Field ''longitude'' C_double, Field ''horizontalUnc'' C_float,
     Field ''altitude'' C_float, Field ''altitudeUnc'' C_float,
     Field ''latestPositionSources'' qmiLocPositionSourceStructT_v02]"

lemma qmiLocBsBestPositionStructT_v02_layout [layout_simps]: "sizeof qmiLocBsBestPositionStructT_v02 = 40" "alignof qmiLocBsBestPositionStructT_v02 = 8"
  by (simp_all add: qmiLocBsBestPositionStructT_v02_def layout_simps)

definition qmiLocFdclCellIdStructT_v02 :: ctype where
  "qmiLocFdclCellIdStructT_v02 = C_struct
    [Field ''airInterfaceType'' qmiLocFdclAirInterfaceTypeEnumT_v02, Field ''id1'' C_uint32,
     Field ''id2'' C_uint32, Field ''id3'' C_uint32, Field ''id4'' C_uint32]"

lemma qmiLocFdclCellIdStructT_v02_layout [layout_simps]: "sizeof qmiLocFdclCellIdStructT_v02 = 20" "alignof qmiLocFdclCellIdStructT_v02 = 4"
  by (simp_all add: qmiLocFdclCellIdStructT_v02_def layout_simps)

definition qmiLocEventFdclServiceReqIndMsgT_v02 :: ctype where
  "qmiLocEventFdclServiceReqIndMsgT_v02 = C_struct
    [Field ''gtpClientSwVer_valid'' C_uint8, Field ''gtpClientSwVer'' qmiLocGtpClientSwVerStructT_v02,
     Field ''modemSwVersion_valid'' C_uint8,
     Field ''modemSwVersion'' (C_array C_char (QMI_LOC_GNSS_SW_VERSION_STRING_MAX_LENGTH_V02 + 1)),
     Field ''homeCarrierId_valid'' C_uint8, Field ''homeCarrierId'' qmiLocHomeCarrierIdStructT_v02,
     Field ''cdmaRealm_valid'' C_uint8,
     Field ''cdmaRealm'' (C_array C_char (QMI_LOC_GNSS_SW_VERSION_STRING_MAX_LENGTH_V02 + 1)),
     Field ''gtpMaxNumRecordsAccepted_valid'' C_uint8, Field ''gtpMaxNumRecordsAccepted'' C_uint16,
     Field ''gpsWeek_valid'' C_uint8, Field ''gpsWeek'' C_uint16,
     Field ''gpsMilliseconds_valid'' C_uint8, Field ''gpsMilliseconds'' C_uint32,
     Field ''bsBestPosition_valid'' C_uint8, Field ''bsBestPosition'' qmiLocBsBestPositionStructT_v02,
     Field ''currentCellId_valid'' C_uint8, Field ''currentCellId'' qmiLocFdclCellIdStructT_v02,
     Field ''requestedDataTypes_valid'' C_uint8, Field ''requestedDataTypes'' C_uint8,
     Field ''restrictedRegionVersion_valid'' C_uint8, Field ''restrictedRegionVersion'' C_uint8]"

definition qmiLocGetFdclBsListReqMsgT_v02 :: ctype where
  "qmiLocGetFdclBsListReqMsgT_v02 = C_struct
    [Field ''expireInDays_valid'' C_uint8, Field ''expireInDays'' C_uint32,
     Field ''timestampUtc_valid'' C_uint8, Field ''timestampUtc'' C_uint64,
     Field ''maxNumBs_valid'' C_uint8, Field ''maxNumBs'' C_uint16]"

definition qmiLocGetFdclBsListIndMsgT_v02 :: ctype where
  "qmiLocGetFdclBsListIndMsgT_v02 = C_struct
    [Field ''status'' qmiLocStatusEnumT_v02, Field ''BsList_len'' C_uint32,
     Field ''BsList'' (C_array qmiLocFdclCellIdStructT_v02 QMI_LOC_FDCL_BS_LIST_MAX_SIZE_V02),
     Field ''moreBsAvailable_valid'' C_uint8, Field ''moreBsAvailable'' C_uint8,
     Field ''bsLocalTimestampList_valid'' C_uint8, Field ''bsLocalTimestampList_len'' C_uint32,
     Field ''bsLocalTimestampList'' (C_array C_uint32 QMI_LOC_FDCL_BS_LIST_MAX_SIZE_V02),
     Field ''bsBestPosition_valid'' C_uint8, Field ''bsBestPosition'' qmiLocBsBestPositionStructT_v02]"

definition qmiLocFdclCellPosStructT_v02 :: ctype where
  "qmiLocFdclCellPosStructT_v02 = C_struct
    [Field ''validMask'' qmiLocFdclCellPosValidMaskT_v02, Field ''cellId'' qmiLocFdclCellIdStructT_v02,
     Field ''latitude'' C_double, Field ''longitude'' C_double, Field ''horCoverageRadius'' C_float,
     Field ''horConfidence'' C_uint8, Field ''horReliability'' qmiLocReliabilityEnumT_v02,
     Field ''altitude'' C_float, Field ''altUnc'' C_float, Field ''altConfidence'' C_uint8,
     Field ''altReliability'' qmiLocReliabilityEnumT_v02]"

lemma qmiLocFdclCellPosStructT_v02_layout [layout_simps]: "sizeof qmiLocFdclCellPosStructT_v02 = 72" "alignof qmiLocFdclCellPosStructT_v02 = 8"
  by (simp_all add: qmiLocFdclCellPosStructT_v02_def layout_simps)

definition qmiLocInjectFdclDataReqMsgT_v02 :: ctype where
  "qmiLocInjectFdclDataReqMsgT_v02 = C_struct
    [Field ''cellPosList_len'' C_uint32,
     Field ''cellPosList'' (C_array qmiLocFdclCellPosStructT_v02 QMI_LOC_FDCL_CELL_POS_LIST_LENGTH_V02),
     Field ''daysValid'' C_uint32, Field ''timestampUtc_valid'' C_uint8,
     Field ''timestampUtc'' C_uint64, Field ''cellRecordTypeList_valid'' C_uint8,
     Field ''cellRecordTypeList_len'' C_uint32,
     Field ''cellRecordTypeList'' (C_array qmiLocCellRecordTypeEnumT_v02 QMI_LOC_FDCL_CELL_POS_LIST_LENGTH_V02),
     Field ''moreBsAvailable_valid'' C_uint8, Field ''moreBsAvailable'' C_uint8,
     Field ''clientControls_valid'' C_uint8, Field ''clientControls'' C_uint16,
     Field ''maxNumCellsToUpload_valid'' C_uint8, Field ''maxNumCellsToUpload'' C_uint16,
     Field ''minSecsBtwRequests_valid'' C_uint8, Field ''minSecsBtwRequests'' C_uint16,
     Field ''restrictedRegionVersion_valid'' C_uint8, Field ''restrictedRegionVersion'' C_uint8,
     Field ''restrictedRegions_valid'' C_uint8, Field ''restrictedRegions_len'' C_uint32,
     Field ''restrictedRegions'' (C_array qmiLocHomeCarrierIdStructT_v02 QMI_LOC_FDCL_BS_LIST_MAX_SIZE_V02)]"

definition qmiLocInjectFdclDataIndMsgT_v02 :: ctype where
  "qmiLocInjectFdclDataIndMsgT_v02 = C_struct
    [Field ''status'' qmiLocStatusEnumT_v02,
     Field ''inject_status'' qmiLocInjectFdclDataStatusEnumT_v02, Field ''errorMsg_valid'' C_uint8,
     Field ''errorMsg'' (C_array C_char (QMI_LOC_INJECT_FDCL_DATA_ERROR_MSG_LEN_V02 + 1))]"

definition qmiLocSetBlacklistSvReqMsgT_v02 :: ctype where
  "qmiLocSetBlacklistSvReqMsgT_v02 = C_struct
    [Field ''glo_persist_blacklist_sv_valid'' C_uint8, Field ''glo_persist_blacklist_sv'' C_uint64,
     Field ''glo_clear_persist_blacklist_sv_valid'' C_uint8,
     Field ''glo_clear_persist_blacklist_sv'' C_uint64,
     Field ''bds_persist_blacklist_sv_valid'' C_uint8, Field ''bds_persist_blacklist_sv'' C_uint64,
     Field ''bds_clear_persist_blacklist_sv_valid'' C_uint8,
     Field ''bds_clear_persist_blacklist_sv'' C_uint64,
     Field ''qzss_persist_blacklist_sv_valid'' C_uint8, Field ''qzss_persist_blacklist_sv'' C_uint64,
     Field ''qzss_clear_persist_blacklist_sv_valid'' C_uint8,
     Field ''qzss_clear_persist_blacklist_sv'' C_uint64,
     Field ''gal_persist_blacklist_sv_valid'' C_uint8, Field ''gal_persist_blacklist_sv'' C_uint64,
     Field ''gal_clear_persist_blacklist_sv_valid'' C_uint8,
     Field ''gal_clear_persist_blacklist_sv'' C_uint64,
     Field ''sbas_persist_blacklist_sv_valid'' C_uint8, Field ''sbas_persist_blacklist_sv'' C_uint64,
     Field ''sbas_clear_persist_blacklist_sv_valid'' C_uint8,
     Field ''sbas_clear_persist_blacklist_sv'' C_uint64,
     Field ''navic_persist_blacklist_sv_valid'' C_uint8, Field ''navic_persist_blacklist_sv'' C_uint64,
     Field ''navic_clear_persist_blacklist_sv_valid'' C_uint8,
     Field ''navic_clear_persist_blacklist_sv'' C_uint64]"

definition qmiLocGetBlacklistSvIndMsgT_v02 :: ctype where
  "qmiLocGetBlacklistSvIndMsgT_v02 = C_struct
    [Field ''status'' qmiLocStatusEnumT_v02, Field ''glo_persist_blacklist_sv_valid'' C_uint8,
     Field ''glo_persist_blacklist_sv'' C_uint64, Field ''bds_persist_blacklist_sv_valid'' C_uint8,
     Field ''bds_persist_blacklist_sv'' C_uint64, Field ''qzss_persist_blacklist_sv_valid'' C_uint8,
     Field ''qzss_persist_blacklist_sv'' C_uint64, Field ''gal_persist_blacklist_sv_valid'' C_uint8,
     Field ''gal_persist_blacklist_sv'' C_uint64, Field ''sbas_persist_blacklist_sv_valid'' C_uint8,
     Field ''sbas_persist_blacklist_sv'' C_uint64, Field ''navic_persist_blacklist_sv_valid'' C_uint8,
     Field ''navic_persist_blacklist_sv'' C_uint64]"

definition qmiLocSetConstellationConfigReqMsgT_v02 :: ctype where
  "qmiLocSetConstellationConfigReqMsgT_v02 = C_struct
    [Field ''resetConstellations'' C_uint8, Field ''enableMask_valid'' C_uint8,
     Field ''enableMask'' qmiLocConstellationMaskT_v02, Field ''disableMask_valid'' C_uint8,
     Field ''disableMask'' qmiLocConstellationMaskT_v02]"

definition qmiLocEventDcReportIndMsgT_v02 :: ctype where
  "qmiLocEventDcReportIndMsgT_v02 = C_struct
    [Field ''msgType_valid'' C_uint8, Field ''msgType'' qmiLocDcReportMsgTypeEnumT_v02,
     Field ''numValidBits_valid'' C_uint8, Field ''numValidBits'' C_uint16,
     Field ''dcReportData_valid'' C_uint8, Field ''dcReportData_len'' C_uint32,
     Field ''dcReportData'' (C_array C_uint8 QMI_LOC_MAX_DCREPORT_LEN_V02)]"

definition qmiLocRegisterMasterClientReqMsgT_v02 :: ctype where
  "qmiLocRegisterMasterClientReqMsgT_v02 = C_struct
    [Field ''key'' C_uint32]"

definition qmiLocRegisterMasterClientIndMsgT_v02 :: ctype where
  "qmiLocRegisterMasterClientIndMsgT_v02 = C_struct
    [Field ''status'' qmiLocRegisterMasterClientStatusEnumT_v02]"

definition qmiLocEventEngineLockStateIndMsgT_v02 :: ctype where
  "qmiLocEventEngineLockStateIndMsgT_v02 = C_struct
    [Field ''engineLockState'' qmiLocEngineLockStateEnumT_v02, Field ''subType_valid'' C_uint8,
     Field ''subType'' qmiLocLockSubInfoEnumT_v02, Field ''lockClient_valid'' C_uint8,
     Field ''lockClient'' qmiLocLockClientMaskT_v02]"

definition qmiLocStartListenPositionReqMsgT_v02 :: ctype where
  "qmiLocStartListenPositionReqMsgT_v02 = C_struct
    [Field ''__placeholder'' C_char]"

definition qmiLocStopListenPositionReqMsgT_v02 :: ctype where
  "qmiLocStopListenPositionReqMsgT_v02 = C_struct
    [Field ''__placeholder'' C_char]"

definition qmiLocNextLeapSecondInfoStructT_v02 :: ctype where
  "qmiLocNextLeapSecondInfoStructT_v02 = C_struct
    [Field ''gpsTimeCurrent_valid'' C_uint8, Field ''gpsTimeCurrent'' qmiLocGPSTimeStructT_v02,
     Field ''leapSecondsCurrent_valid'' C_uint8, Field ''leapSecondsCurrent'' C_uint8,
     Field ''gpsTimeNextLsEvent_valid'' C_uint8, Field ''gpsTimeNextLsEvent'' qmiLocGPSTimeStructT_v02,
     Field ''leapSecondsNext_valid'' C_uint8, Field ''leapSecondsNext'' C_uint8]"

lemma qmiLocNextLeapSecondInfoStructT_v02_layout [layout_simps]: "sizeof qmiLocNextLeapSecondInfoStructT_v02 = 28" "alignof qmiLocNextLeapSecondInfoStructT_v02 = 4"
  by (simp_all add: qmiLocNextLeapSecondInfoStructT_v02_def layout_simps)

definition qmiLocSystemInfoReqMsgT_v02 :: ctype where
  "qmiLocSystemInfoReqMsgT_v02 = C_struct
    [Field ''systemInfo'' qmiLocSystemInfoEnumT_v02]"

definition qmiLocSystemInfoIndMsgT_v02 :: ctype where
  "qmiLocSystemInfoIndMsgT_v02 = C_struct
    [Field ''systemInfo'' qmiLocSystemInfoEnumT_v02, Field ''nextLeapSecondInfo_valid'' C_uint8,
     Field ''nextLeapSecondInfo'' qmiLocNextLeapSecondInfoStructT_v02]"

definition qmiLocGetConstellationConfigIndMsgT_v02 :: ctype where
  "qmiLocGetConstellationConfigIndMsgT_v02 = C_struct
    [Field ''status'' qmiLocStatusEnumT_v02, Field ''gps_status_valid'' C_uint8,
     Field ''gps_status'' qmiLocConstellationStatusEnumT_v02, Field ''glonass_status_valid'' C_uint8,
     Field ''glonass_status'' qmiLocConstellationStatusEnumT_v02, Field ''bds_status_valid'' C_uint8,
     Field ''bds_status'' qmiLocConstellationStatusEnumT_v02, Field ''qzss_status_valid'' C_uint8,
     Field ''qzss_status'' qmiLocConstellationStatusEnumT_v02, Field ''galileo_status_valid'' C_uint8,
     Field ''galileo_status'' qmiLocConstellationStatusEnumT_v02, Field ''navic_status_valid'' C_uint8,
     Field ''navic_status'' qmiLocConstellationStatusEnumT_v02]"

definition qmiLocEnablePositionInjectionTestModeReqMsgT_v02 :: ctype where
  "qmiLocEnablePositionInjectionTestModeReqMsgT_v02 = C_struct
    [Field ''enableTestMode'' C_uint8]"

definition qmiLocEnablePositionInjectionTestModeIndMsgT_v02 :: ctype where
  "qmiLocEnablePositionInjectionTestModeIndMsgT_v02 = C_struct
    [Field ''status'' qmiLocStatusEnumT_v02, Field ''testModeState_valid'' C_uint8,
     Field ''testModeState'' qmiLocEnablePositionInjectionTestModeEnumT_v02]"

definition qmiLocInjectTestPositionReqMsgT_v02 :: ctype where
  "qmiLocInjectTestPositionReqMsgT_v02 = C_struct
    [Field ''latitude'' C_double, Field ''longitude'' C_double, Field ''horUncCircular'' C_float,
     Field ''timestampUtc'' C_uint64, Field ''positionSource_valid'' C_uint8,
     Field ''positionSource'' qmiLocPositionSourceEnumT_v02]"

definition qmiLocInjectTestPositionIndMsgT_v02 :: ctype where
  "qmiLocInjectTestPositionIndMsgT_v02 = C_struct
    [Field ''status'' qmiLocStatusEnumT_v02]"

definition qmiLocEventBsObsDataServiceReqIndMsgT_v02 :: ctype where
  "qmiLocEventBsObsDataServiceReqIndMsgT_v02 = C_struct
    [Field ''numCellsAvailable'' C_uint16]"

definition qmiLocGetBsObsDataReqMsgT_v02 :: ctype where
  "qmiLocGetBsObsDataReqMsgT_v02 = C_struct
    [Field ''timestampUtc_valid'' C_uint8, Field ''timestampUtc'' C_uint64,
     Field ''numCellsUpload_valid'' C_uint8, Field ''numCellsUpload'' C_uint16]"

definition qmiLocBsObservedDataStructT_v02 :: ctype where
  "qmiLocBsObservedDataStructT_v02 = C_struct
    [Field ''validMask'' qmiLocBsObservedDataValidMaskT_v02,
     Field ''cellId'' qmiLocFdclCellIdStructT_v02, Field ''gpsWeek'' C_uint16,
     Field ''gpsMilliseconds'' C_uint32, Field ''bsLocalTimestamp'' C_uint32,
     Field ''posDeltaTime'' C_int32, Field ''speed'' C_float, Field ''speedUnc'' C_float,
     Field ''heading'' C_double, Field ''headingUnc'' C_double,
     Field ''bsBestPosition'' qmiLocBsBestPositionStructT_v02]"

lemma qmiLocBsObservedDataStructT_v02_layout [layout_simps]: "sizeof qmiLocBsObservedDataStructT_v02 = 112" "alignof qmiLocBsObservedDataStructT_v02 = 8"
  by (simp_all add: qmiLocBsObservedDataStructT_v02_def layout_simps)

definition qmiLocGetBsObsDataIndMsgT_v02 :: ctype where
  "qmiLocGetBsObsDataIndMsgT_v02 = C_struct
    [Field ''status'' qmiLocStatusEnumT_v02, Field ''bsData_len'' C_uint32,
     Field ''bsData'' (C_array qmiLocBsObservedDataStructT_v02 QMI_LOC_FDCL_BS_LIST_MAX_SIZE_V02),
     Field ''moreBsAvailable_valid'' C_uint8, Field ''moreBsAvailable'' C_uint8]"

definition qmiLocEphGnssDataStructT_v02 :: ctype where
  "qmiLocEphGnssDataStructT_v02 = C_struct
    [Field ''gnssSvId'' C_uint16, Field ''updateAction'' qmiLocEphUpdateActionEnumT_v02,
     Field ''IODE'' C_uint16, Field ''aSqrt'' C_double, Field ''deltaN'' C_double,
     Field ''m0'' C_double, Field ''eccentricity'' C_double, Field ''omega0'' C_double,
     Field ''i0'' C_double, Field ''omega'' C_double, Field ''omegaDot'' C_double,
     Field ''iDot'' C_double, Field ''cUc'' C_double, Field ''cUs'' C_double, Field ''cRc'' C_double,
     Field ''cRs'' C_double, Field ''cIc'' C_double, Field ''cIs'' C_double, Field ''toe'' C_uint32,
     Field ''toc'' C_uint32, Field ''af0'' C_double, Field ''af1'' C_double, Field ''af2'' C_double]"

lemma qmiLocEphGnssDataStructT_v02_layout [layout_simps]: "sizeof qmiLocEphGnssDataStructT_v02 = 168" "alignof qmiLocEphGnssDataStructT_v02 = 8"
  by (simp_all add: qmiLocEphGnssDataStructT_v02_def layout_simps)

definition qmiLocGpsEphemerisT_v02 :: ctype where
  "qmiLocGpsEphemerisT_v02 = C_struct
    [Field ''commonEphemerisData'' qmiLocEphGnssDataStructT_v02, Field ''signalHealth'' C_uint8,
     Field ''URAI'' C_uint8, Field ''codeL2'' C_uint8, Field ''dataFlagL2P'' C_uint8,
     Field ''tgd'' C_double, Field ''fitInterval'' C_uint8, Field ''IODC'' C_uint16]"

lemma qmiLocGpsEphemerisT_v02_layout [layout_simps]: "sizeof qmiLocGpsEphemerisT_v02 = 192" "alignof qmiLocGpsEphemerisT_v02 = 8"
  by (simp_all add: qmiLocGpsEphemerisT_v02_def layout_simps)

definition qmiLocGpsEphemerisReportIndMsgT_v02 :: ctype where
  "qmiLocGpsEphemerisReportIndMsgT_v02 = C_struct
    [Field ''gpsEphemerisList_len'' C_uint32,
     Field ''gpsEphemerisList'' (C_array qmiLocGpsEphemerisT_v02 QMI_LOC_EPHEMERIS_LIST_MAX_SIZE_V02),
     Field ''gpsSystemTime_valid'' C_uint8, Field ''gpsSystemTime'' qmiLocGnssTimeStructT_v02]"

definition qmiLocGloEphemerisT_v02 :: ctype where
  "qmiLocGloEphemerisT_v02 = C_struct
    [Field ''gnssSvId'' C_uint16, Field ''updateAction'' qmiLocEphUpdateActionEnumT_v02,
     Field ''bnHealth'' C_uint8, Field ''lnHealth'' C_uint8, Field ''tb'' C_uint8, Field ''ft'' C_uint8,
     Field ''gloM'' C_uint8, Field ''enAge'' C_uint8, Field ''gloFrequency'' C_uint8,
     Field ''p1'' C_uint8, Field ''p2'' C_uint8, Field ''deltaTau'' C_float,
     Field ''position'' (C_array C_double 3), Field ''velocity'' (C_array C_double 3),
     Field ''acceleration'' (C_array C_double 3), Field ''tauN'' C_float, Field ''gamma'' C_float,
     Field ''toe'' C_double, Field ''nt'' C_uint16]"

lemma qmiLocGloEphemerisT_v02_layout [layout_simps]: "sizeof qmiLocGloEphemerisT_v02 = 120" "alignof qmiLocGloEphemerisT_v02 = 8"
  by (simp_all add: qmiLocGloEphemerisT_v02_def layout_simps)

definition qmiLocGloEphemerisReportIndMsgT_v02 :: ctype where
  "qmiLocGloEphemerisReportIndMsgT_v02 = C_struct
    [Field ''gloEphemerisList_len'' C_uint32,
     Field ''gloEphemerisList'' (C_array qmiLocGloEphemerisT_v02 QMI_LOC_EPHEMERIS_LIST_MAX_SIZE_V02),
     Field ''gpsSystemTime_valid'' C_uint8, Field ''gpsSystemTime'' qmiLocGnssTimeStructT_v02]"

definition qmiLocBdsEphemerisT_v02 :: ctype where
  "qmiLocBdsEphemerisT_v02 = C_struct
    [Field ''commonEphemerisData'' qmiLocEphGnssDataStructT_v02, Field ''svHealth'' C_uint8,
     Field ''AODC'' C_uint8, Field ''tgd1'' C_double, Field ''tgd2'' C_double, Field ''URAI'' C_uint8]"

lemma qmiLocBdsEphemerisT_v02_layout [layout_simps]: "sizeof qmiLocBdsEphemerisT_v02 = 200" "alignof qmiLocBdsEphemerisT_v02 = 8"
  by (simp_all add: qmiLocBdsEphemerisT_v02_def layout_simps)

definition qmiLocBdsEphemerisReportIndMsgT_v02 :: ctype where
  "qmiLocBdsEphemerisReportIndMsgT_v02 = C_struct
    [Field ''bdsEphemerisList_len'' C_uint32,
     Field ''bdsEphemerisList'' (C_array qmiLocBdsEphemerisT_v02 QMI_LOC_EPHEMERIS_LIST_MAX_SIZE_V02),
     Field ''gpsSystemTime_valid'' C_uint8, Field ''gpsSystemTime'' qmiLocGnssTimeStructT_v02]"

definition qmiLocGalEphemerisT_v02 :: ctype where
  "qmiLocGalEphemerisT_v02 = C_struct
    [Field ''commonEphemerisData'' qmiLocEphGnssDataStructT_v02,
     Field ''dataSourceSignal'' qmiLocGalEphSourceSignal_v02, Field ''sisIndex'' C_uint8,
     Field ''bgdE1E5a'' C_double, Field ''bgdE1E5b'' C_double, Field ''svHealth'' C_uint8]"

lemma qmiLocGalEphemerisT_v02_layout [layout_simps]: "sizeof qmiLocGalEphemerisT_v02 = 200" "alignof qmiLocGalEphemerisT_v02 = 8"
  by (simp_all add: qmiLocGalEphemerisT_v02_def layout_simps)

definition qmiLocGalEphemerisReportIndMsgT_v02 :: ctype where
  "qmiLocGalEphemerisReportIndMsgT_v02 = C_struct
    [Field ''galEphemerisList_len'' C_uint32,
     Field ''galEphemerisList'' (C_array qmiLocGalEphemerisT_v02 QMI_LOC_EPHEMERIS_LIST_MAX_SIZE_V02),
     Field ''gpsSystemTime_valid'' C_uint8, Field ''gpsSystemTime'' qmiLocGnssTimeStructT_v02]"

definition qmiLocQzssEphemerisReportIndMsgT_v02 :: ctype where
  "qmiLocQzssEphemerisReportIndMsgT_v02 = C_struct
    [Field ''qzssEphemerisList_len'' C_uint32,
     Field ''qzssEphemerisList'' (C_array qmiLocGpsEphemerisT_v02 QMI_LOC_EPHEMERIS_LIST_MAX_SIZE_V02),
     Field ''gpsSystemTime_valid'' C_uint8, Field ''gpsSystemTime'' qmiLocGnssTimeStructT_v02]"

definition qmiLocSetConstrainedTuncModeReqMsgT_v02 :: ctype where
  "qmiLocSetConstrainedTuncModeReqMsgT_v02 = C_struct
    [Field ''tuncConstraintOn'' C_uint8, Field ''tuncConstraint_valid'' C_uint8,
     Field ''tuncConstraint'' C_float, Field ''energyBudget_valid'' C_uint8,
     Field ''energyBudget'' C_uint32]"

definition qmiLocSetConstrainedTuncModeIndMsgT_v02 :: ctype where
  "qmiLocSetConstrainedTuncModeIndMsgT_v02 = C_struct
    [Field ''status'' qmiLocStatusEnumT_v02]"

definition qmiLocEnablePositionAssistedClockEstReqMsgT_v02 :: ctype where
  "qmiLocEnablePositionAssistedClockEstReqMsgT_v02 = C_struct
    [Field ''enablePositionAssistedClockEst'' C_uint8]"

definition qmiLocEnablePositionAssistedClockEstIndMsgT_v02 :: ctype where
  "qmiLocEnablePositionAssistedClockEstIndMsgT_v02 = C_struct
    [Field ''status'' qmiLocStatusEnumT_v02]"

definition qmiLocQueryGNSSEnergyConsumedReqMsgT_v02 :: ctype where
  "qmiLocQueryGNSSEnergyConsumedReqMsgT_v02 = C_struct
    [Field ''__placeholder'' C_char]"

definition qmiLocQueryGNSSEnergyConsumedIndMsgT_v02 :: ctype where
  "qmiLocQueryGNSSEnergyConsumedIndMsgT_v02 = C_struct
    [Field ''energyConsumedSinceLastBoot'' C_uint64, Field ''energyConsumedSinceFirstBoot'' C_uint64]"

definition qmiLocKlobucharIonoModelT_v02 :: ctype where
  "qmiLocKlobucharIonoModelT_v02 = C_struct
    [Field ''dataSource'' qmiLocSvSystemEnumT_v02, Field ''alpha0'' C_float, Field ''alpha1'' C_float,
     Field ''alpha2'' C_float, Field ''alpha3'' C_float, Field ''beta0'' C_float,
     Field ''beta1'' C_float, Field ''beta2'' C_float, Field ''beta3'' C_float]"

lemma qmiLocKlobucharIonoModelT_v02_layout [layout_simps]: "sizeof qmiLocKlobucharIonoModelT_v02 = 36" "alignof qmiLocKlobucharIonoModelT_v02 = 4"
  by (simp_all add: qmiLocKlobucharIonoModelT_v02_def layout_simps)

definition qmiLocEventReportIndMsgT_v02 :: ctype where
  "qmiLocEventReportIndMsgT_v02 = C_struct
    [Field ''eventReport'' qmiLocEventReportMaskT_v02, Field ''gpsSystemTime_valid'' C_uint8,
     Field ''gpsSystemTime'' qmiLocGnssTimeStructT_v02, Field ''klobucharIonoModel_valid'' C_uint8,
     Field ''klobucharIonoModel'' qmiLocKlobucharIonoModelT_v02, Field ''tauC_valid'' C_uint8,
     Field ''tauC'' C_double, Field ''leapSec_valid'' C_uint8, Field ''leapSec'' C_int8,
     Field ''featureStatusReport_valid'' C_uint8,
     Field ''featureStatusReport'' qmiLocFeaturesStatusMaskT_v02]"

definition qmiLocMePerGnssRfStructType_v02 :: ctype where
  "qmiLocMePerGnssRfStructType_v02 = C_struct
    [Field ''bpAmpI'' C_uint16, Field ''bpAmpQ'' C_uint16, Field ''jammerPwrDb'' C_int32]"

lemma qmiLocMePerGnssRfStructType_v02_layout [layout_simps]: "sizeof qmiLocMePerGnssRfStructType_v02 = 8" "alignof qmiLocMePerGnssRfStructType_v02 = 4"
  by (simp_all add: qmiLocMePerGnssRfStructType_v02_def layout_simps)

definition qmiLocGetBandMeasurementMetricsIndMsgT_v02 :: ctype where
  "qmiLocGetBandMeasurementMetricsIndMsgT_v02 = C_struct
    [Field ''systemTick'' C_uint64, Field ''band1PgaGainDb'' C_int32,
     Field ''gpsL1caRfStats_valid'' C_uint8, Field ''gpsL1caRfStats'' qmiLocMePerGnssRfStructType_v02,
     Field ''gloG1RfStats_valid'' C_uint8, Field ''gloG1RfStats'' qmiLocMePerGnssRfStructType_v02,
     Field ''bdsB1RfStats_valid'' C_uint8, Field ''bdsB1RfStats'' qmiLocMePerGnssRfStructType_v02,
     Field ''galE1RfStats_valid'' C_uint8, Field ''galE1RfStats'' qmiLocMePerGnssRfStructType_v02,
     Field ''gpsL2cRfStats_valid'' C_uint8, Field ''gpsL2cRfStats'' qmiLocMePerGnssRfStructType_v02,
     Field ''gloG2RfStats_valid'' C_uint8, Field ''gloG2RfStats'' qmiLocMePerGnssRfStructType_v02,
     Field ''bdsB2RfStats_valid'' C_uint8, Field ''bdsB2RfStats'' qmiLocMePerGnssRfStructType_v02,
     Field ''band5PgaGainDb_valid'' C_uint8, Field ''band5PgaGainDb'' C_int32,
     Field ''gpsL5RfStats_valid'' C_uint8, Field ''gpsL5RfStats'' qmiLocMePerGnssRfStructType_v02,
     Field ''galE5ARfStats_valid'' C_uint8, Field ''galE5ARfStats'' qmiLocMePerGnssRfStructType_v02]"

definition qmiLocLocationRequestNotificationIndMsgT_v02 :: ctype where
  "qmiLocLocationRequestNotificationIndMsgT_v02 = C_struct
    [Field ''protocolStack'' qmiLocRequestProtocolEnumT_v02,
     Field ''requestor'' qmiLocRequestorEnumT_v02,
     Field ''requestorId'' (C_array C_char (QMI_LOC_MAX_REQUESTOR_ID_STRING_LENGTH_V02 + 1)),
     Field ''responseType'' qmiLocRequestResponseTypeEnumT_v02,
     Field ''responseProtocol'' qmiLocResponseLocProtocolMaskT_v02, Field ''inEmergencyMode'' C_uint8,
     Field ''isCachedLocation'' C_uint8, Field ''clientStrId_valid'' C_uint8,
     Field ''clientStrId'' (C_array C_char (QMI_LOC_MAX_CLIENT_ID_STRING_LENGTH_V02 + 1))]"

definition qmiLocInjectPlatformPowerStateReqMsgT_v02 :: ctype where
  "qmiLocInjectPlatformPowerStateReqMsgT_v02 = C_struct
    [Field ''powerState'' qmiLocPlatformPowerStateEnumT_v02]"

definition qmiLocInjectPlatformPowerStateIndMsgT_v02 :: ctype where
  "qmiLocInjectPlatformPowerStateIndMsgT_v02 = C_struct
    [Field ''status'' qmiLocStatusEnumT_v02]"

definition qmiLocSetRobustLocationReqMsgT_v02 :: ctype where
  "qmiLocSetRobustLocationReqMsgT_v02 = C_struct
    [Field ''enable'' C_uint8, Field ''enableForE911_valid'' C_uint8, Field ''enableForE911'' C_uint8]"

definition qmiLocRobustLocationVersionT_v02 :: ctype where
  "qmiLocRobustLocationVersionT_v02 = C_struct
    [Field ''major'' C_uint8, Field ''minor'' C_uint16]"

lemma qmiLocRobustLocationVersionT_v02_layout [layout_simps]: "sizeof qmiLocRobustLocationVersionT_v02 = 4" "alignof qmiLocRobustLocationVersionT_v02 = 2"
  by (simp_all add: qmiLocRobustLocationVersionT_v02_def layout_simps)

definition qmiLocGetRobustLocationConfigIndMsgT_v02 :: ctype where
  "qmiLocGetRobustLocationConfigIndMsgT_v02 = C_struct
    [Field ''status'' qmiLocStatusEnumT_v02, Field ''isEnabled_valid'' C_uint8,
     Field ''isEnabled'' C_uint8, Field ''isEnabledForE911_valid'' C_uint8,
     Field ''isEnabledForE911'' C_uint8, Field ''robustLocationVersion_valid'' C_uint8,
     Field ''robustLocationVersion'' qmiLocRobustLocationVersionT_v02]"

definition qmiLocEnvAidingReflectingPlaneStructT_v02 :: ctype where
  "qmiLocEnvAidingReflectingPlaneStructT_v02 = C_struct
    [Field ''latitudeDegrees'' C_double, Field ''longitudeDegrees'' C_double,
     Field ''altitudeMeters'' C_double, Field ''azimuthDegrees'' C_double]"

lemma qmiLocEnvAidingReflectingPlaneStructT_v02_layout [layout_simps]: "sizeof qmiLocEnvAidingReflectingPlaneStructT_v02 = 32" "alignof qmiLocEnvAidingReflectingPlaneStructT_v02 = 8"
  by (simp_all add: qmiLocEnvAidingReflectingPlaneStructT_v02_def layout_simps)

definition qmiLocEnvAidingSVCorrectionStructT_v02 :: ctype where
  "qmiLocEnvAidingSVCorrectionStructT_v02 = C_struct
    [Field ''svCorrectionFlags'' qmiLocEnvAidingSvCorrectionValidMaskT_v02,
     Field ''constellation'' qmiLocSvSystemEnumT_v02, Field ''svid'' C_uint16,
     Field ''carrierFrequencyHz'' C_float, Field ''probabilitySvIsLineofSight'' C_float,
     Field ''excessPathLengthMeters'' C_float, Field ''excessPathLengthUncMeters'' C_float,
     Field ''reflectingPlane'' qmiLocEnvAidingReflectingPlaneStructT_v02]"

lemma qmiLocEnvAidingSVCorrectionStructT_v02_layout [layout_simps]: "sizeof qmiLocEnvAidingSVCorrectionStructT_v02 = 64" "alignof qmiLocEnvAidingSVCorrectionStructT_v02 = 8"
  by (simp_all add: qmiLocEnvAidingSVCorrectionStructT_v02_def layout_simps)

definition qmiLocEventInjectEnvAidingReqMsgT_v02 :: ctype where
  "qmiLocEventInjectEnvAidingReqMsgT_v02 = C_struct
    [Field ''seqNum'' C_uint8, Field ''maxMessageNum'' C_uint8,
     Field ''envBearingValidity_valid'' C_uint8, Field ''envBearingValidity'' C_uint8,
     Field ''envBearingDegrees_valid'' C_uint8, Field ''envBearingDegrees'' C_float,
     Field ''envBearingUncDegrees_valid'' C_uint8, Field ''envBearingUncDegrees'' C_float,
     Field ''latitudeDegrees_valid'' C_uint8, Field ''latitudeDegrees'' C_double,
     Field ''longitudeDegrees_valid'' C_uint8, Field ''longitudeDegrees'' C_double,
     Field ''horizontalPositionUncMeters_valid'' C_uint8,
     Field ''horizontalPositionUncMeters'' C_double, Field ''altitudeMeters_valid'' C_uint8,
     Field ''altitudeMeters'' C_double, Field ''altitudeUncMeters_valid'' C_uint8,
     Field ''altitudeUncMeters'' C_double, Field ''toaGpsNanosecondsOfWeek_valid'' C_uint8,
     Field ''toaGpsNanosecondsOfWeek'' C_uint64, Field ''svCorrection_valid'' C_uint8,
     Field ''svCorrection_len'' C_uint32,
     Field ''svCorrection'' (C_array qmiLocEnvAidingSVCorrectionStructT_v02 QMI_LOC_ENV_AIDING_CORRECTION_MAX_SV_USED_V02)]"

definition qmiLocSetMinGpsWeekNumberReqMsgT_v02 :: ctype where
  "qmiLocSetMinGpsWeekNumberReqMsgT_v02 = C_struct
    [Field ''minGpsWeekNumber'' C_uint16]"

definition qmiLocGetMinGpsWeekNumberIndMsgT_v02 :: ctype where
  "qmiLocGetMinGpsWeekNumberIndMsgT_v02 = C_struct
    [Field ''status'' qmiLocStatusEnumT_v02, Field ''minGpsWeekNumber_valid'' C_uint8,
     Field ''minGpsWeekNumber'' C_uint16]"

definition qmiLocSapInsParamsIndMsgT_v02 :: ctype where
  "qmiLocSapInsParamsIndMsgT_v02 = C_struct
    [Field ''status'' C_uint8, Field ''fixStatus'' C_uint8,
     Field ''systemTime'' qmiLocGnssTimeStructT_v02, Field ''state_valid'' C_uint8,
     Field ''state'' (C_array C_double QMI_LOC_FILTER_ELEMENT_SIZE_SEVENTEEN_V02),
     Field ''var_valid'' C_uint8,
     Field ''var'' (C_array C_double QMI_LOC_FILTER_ELEMENT_SIZE_SEVENTEEN_V02),
     Field ''rel1_valid'' C_uint8, Field ''rel1'' C_uint8, Field ''rel2_valid'' C_uint8,
     Field ''rel2'' C_uint8, Field ''residual1_valid'' C_uint8, Field ''residual1'' C_double,
     Field ''obs1_valid'' C_uint8,
     Field ''obs1'' (C_array C_double QMI_LOC_FILTER_ELEMENT_SIZE_SIX_V02),
     Field ''var1_valid'' C_uint8, Field ''var1'' C_double, Field ''result1_valid'' C_uint8,
     Field ''result1'' C_uint8, Field ''residual2_valid'' C_uint8, Field ''residual2'' C_double,
     Field ''obs2_valid'' C_uint8,
     Field ''obs2'' (C_array C_double QMI_LOC_FILTER_ELEMENT_SIZE_SIX_V02),
     Field ''var2_valid'' C_uint8, Field ''var2'' C_double, Field ''result2_valid'' C_uint8,
     Field ''result2'' C_uint8, Field ''residual3_valid'' C_uint8,
     Field ''residual3'' (C_array C_double QMI_LOC_FILTER_ELEMENT_SIZE_THREE_V02),
     Field ''var3_valid'' C_uint8,
     Field ''var3'' (C_array C_double QMI_LOC_FILTER_ELEMENT_SIZE_THREE_V02),
     Field ''result3_valid'' C_uint8,
     Field ''result3'' (C_array C_uint8 QMI_LOC_FILTER_ELEMENT_SIZE_THREE_V02),
     Field ''residual4_valid'' C_uint8,
     Field ''residual4'' (C_array C_double QMI_LOC_FILTER_ELEMENT_SIZE_THREE_V02),
     Field ''var4_valid'' C_uint8,
     Field ''var4'' (C_array C_double QMI_LOC_FILTER_ELEMENT_SIZE_THREE_V02),
     Field ''result4_valid'' C_uint8,
     Field ''result4'' (C_array C_uint8 QMI_LOC_FILTER_ELEMENT_SIZE_THREE_V02),
     Field ''acc_valid'' C_uint8,
     Field ''acc'' (C_array C_double QMI_LOC_FILTER_ELEMENT_SIZE_THREE_V02),
     Field ''quat_valid'' C_uint8,
     Field ''quat'' (C_array C_double QMI_LOC_FILTER_ELEMENT_SIZE_FOUR_V02),
     Field ''biasM1_valid'' C_uint8,
     Field ''biasM1'' (C_array C_float QMI_LOC_IPM_ELEMENT_SIZE_THREE_V02),
     Field ''biasV1_valid'' C_uint8,
     Field ''biasV1'' (C_array C_float QMI_LOC_IPM_ELEMENT_SIZE_THREE_V02),
     Field ''biasM2_valid'' C_uint8,
     Field ''biasM2'' (C_array C_float QMI_LOC_IPM_ELEMENT_SIZE_THREE_V02),
     Field ''biasV2_valid'' C_uint8,
     Field ''biasV2'' (C_array C_float QMI_LOC_IPM_ELEMENT_SIZE_THREE_V02),
     Field ''rMat1_valid'' C_uint8,
     Field ''rMat1'' (C_array C_double QMI_LOC_IPM_ELEMENT_SIZE_NINE_V02),
     Field ''rMat1Count_valid'' C_uint8, Field ''rMat1Count'' C_uint32, Field ''rMat2_valid'' C_uint8,
     Field ''rMat2'' (C_array C_double QMI_LOC_IPM_ELEMENT_SIZE_NINE_V02),
     Field ''det1Reset_valid'' C_uint8, Field ''det1Reset'' C_uint8, Field ''det2Status_valid'' C_uint8,
     Field ''det2Status'' C_uint8, Field ''det2Position_valid'' C_uint8,
     Field ''det2Position'' (C_array C_double QMI_LOC_INS_ELEMENT_SIZE_THREE_V02),
     Field ''det2PositionUnc_valid'' C_uint8,
     Field ''det2PositionUnc'' (C_array C_float QMI_LOC_INS_ELEMENT_SIZE_TWO_V02),
     Field ''det3Status_valid'' C_uint8, Field ''det3Status'' C_uint8,
     Field ''det3Variance1_valid'' C_uint8,
     Field ''det3Variance1'' (C_array C_float QMI_LOC_INS_ELEMENT_SIZE_THREE_V02),
     Field ''det3Variance2_valid'' C_uint8,
     Field ''det3Variance2'' (C_array C_float QMI_LOC_INS_ELEMENT_SIZE_THREE_V02),
     Field ''det4Status_valid'' C_uint8, Field ''det4Status'' C_uint8,
     Field ''det4Position_valid'' C_uint8,
     Field ''det4Position'' (C_array C_double QMI_LOC_INS_ELEMENT_SIZE_THREE_V02),
     Field ''det5Status_valid'' C_uint8, Field ''det5Status'' C_uint8,
     Field ''det6Status_valid'' C_uint8, Field ''det6Status'' C_float, Field ''gnssSvId_valid'' C_uint8,
     Field ''gnssSvId_len'' C_uint32,
     Field ''gnssSvId'' (C_array C_uint16 QMI_LOC_EXPANDED_SV_INFO_LIST_MAX_SIZE_V02),
     Field ''measType_valid'' C_uint8, Field ''measType_len'' C_uint32,
     Field ''measType'' (C_array qmiLocGnssSignalTypeMaskT_v02 QMI_LOC_EXPANDED_SV_INFO_LIST_MAX_SIZE_V02),
     Field ''measVar1_valid'' C_uint8, Field ''measVar1_len'' C_uint32,
     Field ''measVar1'' (C_array C_float QMI_LOC_EXPANDED_SV_INFO_LIST_MAX_SIZE_V02),
     Field ''measUse1_valid'' C_uint8, Field ''measUse1_len'' C_uint32,
     Field ''measUse1'' (C_array C_uint32 QMI_LOC_EXPANDED_SV_INFO_LIST_MAX_SIZE_V02),
     Field ''measVar2_valid'' C_uint8, Field ''measVar2_len'' C_uint32,
     Field ''measVar2'' (C_array C_float QMI_LOC_EXPANDED_SV_INFO_LIST_MAX_SIZE_V02),
     Field ''measUse2_valid'' C_uint8, Field ''measUse2_len'' C_uint32,
     Field ''measUse2'' (C_array C_uint32 QMI_LOC_EXPANDED_SV_INFO_LIST_MAX_SIZE_V02)]"

definition qmiLocEventQueryXtraInfoReqIndMsgT_v02 :: ctype where
  "qmiLocEventQueryXtraInfoReqIndMsgT_v02 = C_struct
    [Field ''__placeholder'' C_char]"

definition qmiLocSetParameterReqMsgT_v02 :: ctype where
  "qmiLocSetParameterReqMsgT_v02 = C_struct
    [Field ''paramType'' qmiLocParameterTypeEnumT_v02, Field ''minSvElevation_valid'' C_uint8,
     Field ''minSvElevation'' C_uint8]"

definition qmiLocGetParameterReqMsgT_v02 :: ctype where
  "qmiLocGetParameterReqMsgT_v02 = C_struct
    [Field ''paramType'' qmiLocParameterTypeEnumT_v02]"

definition qmiLocGetParameterIndMsgT_v02 :: ctype where
  "qmiLocGetParameterIndMsgT_v02 = C_struct
    [Field ''status'' qmiLocStatusEnumT_v02, Field ''paramType'' qmiLocParameterTypeEnumT_v02,
     Field ''minSvElevation_valid'' C_uint8, Field ''minSvElevation'' C_uint8]"

definition qmiLocSetStatisticsConfigReqMsgT_v02 :: ctype where
  "qmiLocSetStatisticsConfigReqMsgT_v02 = C_struct
    [Field ''enable'' C_uint8, Field ''interval_valid'' C_uint8,
     Field ''interval'' qmiLocStatsReportingConfigEnumT_v02]"

definition qmiLocGetStatisticsConfigIndMsgT_v02 :: ctype where
  "qmiLocGetStatisticsConfigIndMsgT_v02 = C_struct
    [Field ''status'' qmiLocStatusEnumT_v02, Field ''enabled_valid'' C_uint8, Field ''enabled'' C_uint8,
     Field ''interval_valid'' C_uint8, Field ''interval'' qmiLocStatsReportingConfigEnumT_v02]"

definition qmiLocGnssStatisticsReportIndMsgT_v02 :: ctype where
  "qmiLocGnssStatisticsReportIndMsgT_v02 = C_struct
    [Field ''absValidAge_valid'' C_uint8, Field ''absValidAge'' C_uint32,
     Field ''averagePowerConsumed_valid'' C_uint8, Field ''averagePowerConsumed'' C_float,
     Field ''powerConsumptionDuration_valid'' C_uint8, Field ''powerConsumptionDuration'' C_uint32,
     Field ''latitude_valid'' C_uint8, Field ''latitude'' C_double, Field ''longitude_valid'' C_uint8,
     Field ''longitude'' C_double, Field ''altitudeWrtEllipsoid_valid'' C_uint8,
     Field ''altitudeWrtEllipsoid'' C_float, Field ''altitudeWrtMeanSeaLevel_valid'' C_uint8,
     Field ''altitudeWrtMeanSeaLevel'' C_float, Field ''horUncCircular_valid'' C_uint8,
     Field ''horUncCircular'' C_float, Field ''vertUnc_valid'' C_uint8, Field ''vertUnc'' C_float,
     Field ''horUncEllipseSemiMinor_valid'' C_uint8, Field ''horUncEllipseSemiMinor'' C_float,
     Field ''horUncEllipseSemiMajor_valid'' C_uint8, Field ''horUncEllipseSemiMajor'' C_float,
     Field ''horCircularConfidence_valid'' C_uint8, Field ''horCircularConfidence'' C_uint8,
     Field ''horReliability_valid'' C_uint8, Field ''horReliability'' qmiLocReliabilityEnumT_v02,
     Field ''horSpeed_valid'' C_uint8, Field ''horSpeed'' C_float, Field ''horSpeedUnc_valid'' C_uint8,
     Field ''horSpeedUnc'' C_float, Field ''vertConfidence_valid'' C_uint8,
     Field ''vertConfidence'' C_uint8, Field ''vertReliability_valid'' C_uint8,
     Field ''vertReliability'' qmiLocReliabilityEnumT_v02, Field ''vertSpeed_valid'' C_uint8,
     Field ''vertSpeed'' C_float, Field ''vertSpeedUnc_valid'' C_uint8, Field ''vertSpeedUnc'' C_float,
     Field ''gpsWeek_valid'' C_uint8, Field ''gpsWeek'' C_uint16, Field ''gpsMsec_valid'' C_uint8,
     Field ''gpsMsec'' C_uint32, Field ''clkTimeBias_valid'' C_uint8, Field ''clkTimeBias'' C_float,
     Field ''clkTimeBiasUnc_valid'' C_uint8, Field ''clkTimeBiasUnc'' C_float]"

definition qmiLocSetGnssPdrModeReqMsgT_v02 :: ctype where
  "qmiLocSetGnssPdrModeReqMsgT_v02 = C_struct
    [Field ''mode_valid'' C_uint8, Field ''mode'' qmiLocGnssPdrModeEnumT_v02]"

definition qmiLocGetGnssPdrModeIndMsgT_v02 :: ctype where
  "qmiLocGetGnssPdrModeIndMsgT_v02 = C_struct
    [Field ''status'' qmiLocStatusEnumT_v02, Field ''mode_valid'' C_uint8,
     Field ''mode'' qmiLocGnssPdrModeEnumT_v02]"

definition qmiLocGetMagCalStatePdrIndMsgT_v02 :: ctype where
  "qmiLocGetMagCalStatePdrIndMsgT_v02 = C_struct
    [Field ''status'' qmiLocStatusEnumT_v02, Field ''isCalibrated_valid'' C_uint8,
     Field ''isCalibrated'' C_uint8]"

definition qmiLocSetMultibandConfigReqMsgT_v02 :: ctype where
  "qmiLocSetMultibandConfigReqMsgT_v02 = C_struct
    [Field ''secondaryGnssConfig_valid'' C_uint8,
     Field ''secondaryGnssConfig'' qmiLocGNSSConstellEnumT_v02]"

definition qmiLocGetMultibandConfigIndMsgT_v02 :: ctype where
  "qmiLocGetMultibandConfigIndMsgT_v02 = C_struct
    [Field ''status'' qmiLocStatusEnumT_v02, Field ''secondaryGnssConfig_valid'' C_uint8,
     Field ''secondaryGnssConfig'' qmiLocGNSSConstellEnumT_v02]"

definition qmiLocLatencyInformationIndMsgT_v02 :: ctype where
  "qmiLocLatencyInformationIndMsgT_v02 = C_struct
    [Field ''latencyInfo'' qmiLocLatencyInfoTypeEnumT_v02, Field ''sysTickAtChkPt1_valid'' C_uint8,
     Field ''sysTickAtChkPt1'' C_uint64, Field ''sysTickAtChkPt2_valid'' C_uint8,
     Field ''sysTickAtChkPt2'' C_uint64, Field ''sysTickAtChkPt3_valid'' C_uint8,
     Field ''sysTickAtChkPt3'' C_uint64, Field ''sysTickAtChkPt4_valid'' C_uint8,
     Field ''sysTickAtChkPt4'' C_uint64, Field ''sysTickAtChkPt5_valid'' C_uint8,
     Field ''sysTickAtChkPt5'' C_uint64, Field ''sysTickAtChkPt6_valid'' C_uint8,
     Field ''sysTickAtChkPt6'' C_uint64, Field ''sysTickAtChkPt7_valid'' C_uint8,
     Field ''sysTickAtChkPt7'' C_uint64, Field ''sysTickAtChkPt8_valid'' C_uint8,
     Field ''sysTickAtChkPt8'' C_uint64, Field ''sysTickAtChkPt9_valid'' C_uint8,
     Field ''sysTickAtChkPt9'' C_uint64, Field ''sysTickAtChkPt10_valid'' C_uint8,
     Field ''sysTickAtChkPt10'' C_uint64, Field ''fCountOfMeasBlk_valid'' C_uint8,
     Field ''fCountOfMeasBlk'' C_uint32]"

end
