(* ===== verification/LocTypeIdl.thy ===== *)
theory LocTypeIdl
  imports LocStructs2
begin

text \<open>
  The descriptors of the aggregate types of \<^verbatim>\<open>src/location/loc_api/loc_api_v02/location_service_v02.c\<close>,
  byte for byte as the file writes them, each with the result of its analysis: the struct it
  describes, the constant part of its largest encoding and the types it refers to.
\<close>

definition qmiLocApplicationIdStructT_data_v02 :: "idl_byte list" where
  "qmiLocApplicationIdStructT_data_v02 =
    [OP [QMI_IDL_FLAGS_IS_ARRAY, QMI_IDL_FLAGS_IS_VARIABLE_LEN] QMI_IDL_STRING,
      OFFSET8 qmiLocApplicationIdStructT_v02 ''applicationProvider'',
      LIT QMI_LOC_MAX_APP_ID_PROVIDER_LENGTH_V02,
     OP [QMI_IDL_FLAGS_IS_ARRAY, QMI_IDL_FLAGS_IS_VARIABLE_LEN] QMI_IDL_STRING,
      OFFSET8 qmiLocApplicationIdStructT_v02 ''applicationName'', LIT QMI_LOC_MAX_APP_ID_NAME_LENGTH_V02,
     OP [] QMI_IDL_GENERIC_1_BYTE, OFFSET8 qmiLocApplicationIdStructT_v02 ''applicationVersion_valid'',
     OP [QMI_IDL_FLAGS_IS_ARRAY, QMI_IDL_FLAGS_IS_VARIABLE_LEN] QMI_IDL_STRING,
      OFFSET8 qmiLocApplicationIdStructT_v02 ''applicationVersion'',
      LIT QMI_LOC_MAX_APP_ID_VERSION_LENGTH_V02,
     QMI_IDL_FLAG_END_VALUE]"

lemma qmiLocApplicationIdStructT_data_v02_ok [idl_simps]:
  "describe_type qmiLocApplicationIdStructT_data_v02 = Some (qmiLocApplicationIdStructT_v02, 68, [])"
  by (simp add: qmiLocApplicationIdStructT_data_v02_def qmiLocApplicationIdStructT_v02_def [THEN arg_cong, of laid] analyse_simps layout_simps cong: idl_cong)

definition qmiLocPowerModeStructT_data_v02 :: "idl_byte list" where
  "qmiLocPowerModeStructT_data_v02 =
    [OP [] QMI_IDL_GENERIC_4_BYTE, OFFSET8 qmiLocPowerModeStructT_v02 ''powerMode'',
     OP [] QMI_IDL_GENERIC_4_BYTE, OFFSET8 qmiLocPowerModeStructT_v02 ''timeBetweenMeasurement'',
     QMI_IDL_FLAG_END_VALUE]"

lemma qmiLocPowerModeStructT_data_v02_ok [idl_simps]:
  "describe_type qmiLocPowerModeStructT_data_v02 = Some (qmiLocPowerModeStructT_v02, 8, [])"
  by (simp add: qmiLocPowerModeStructT_data_v02_def qmiLocPowerModeStructT_v02_def [THEN arg_cong, of laid] analyse_simps layout_simps cong: idl_cong)

definition qmiLocGPSTimeStructT_data_v02 :: "idl_byte list" where
  "qmiLocGPSTimeStructT_data_v02 =
    [OP [] QMI_IDL_GENERIC_2_BYTE, OFFSET8 qmiLocGPSTimeStructT_v02 ''gpsWeek'',
     OP [] QMI_IDL_GENERIC_4_BYTE, OFFSET8 qmiLocGPSTimeStructT_v02 ''gpsTimeOfWeekMs'',
     QMI_IDL_FLAG_END_VALUE]"

lemma qmiLocGPSTimeStructT_data_v02_ok [idl_simps]:
  "describe_type qmiLocGPSTimeStructT_data_v02 = Some (qmiLocGPSTimeStructT_v02, 6, [])"
  by (simp add: qmiLocGPSTimeStructT_data_v02_def qmiLocGPSTimeStructT_v02_def [THEN arg_cong, of laid] analyse_simps layout_simps cong: idl_cong)

definition qmiLocDOPStructT_data_v02 :: "idl_byte list" where
  "qmiLocDOPStructT_data_v02 =
    [OP [] QMI_IDL_GENERIC_4_BYTE, OFFSET8 qmiLocDOPStructT_v02 ''PDOP'',
     OP [] QMI_IDL_GENERIC_4_BYTE, OFFSET8 qmiLocDOPStructT_v02 ''HDOP'',
     OP [] QMI_IDL_GENERIC_4_BYTE, OFFSET8 qmiLocDOPStructT_v02 ''VDOP'',
     QMI_IDL_FLAG_END_VALUE]"

lemma qmiLocDOPStructT_data_v02_ok [idl_simps]:
  "describe_type qmiLocDOPStructT_data_v02 = Some (qmiLocDOPStructT_v02, 12, [])"
  by (simp add: qmiLocDOPStructT_data_v02_def qmiLocDOPStructT_v02_def [THEN arg_cong, of laid] analyse_simps layout_simps cong: idl_cong)

definition qmiLocExtDOPStructT_data_v02 :: "idl_byte list" where
  "qmiLocExtDOPStructT_data_v02 =
    [OP [] QMI_IDL_GENERIC_4_BYTE, OFFSET8 qmiLocExtDOPStructT_v02 ''PDOP'',
     OP [] QMI_IDL_GENERIC_4_BYTE, OFFSET8 qmiLocExtDOPStructT_v02 ''HDOP'',
     OP [] QMI_IDL_GENERIC_4_BYTE, OFFSET8 qmiLocExtDOPStructT_v02 ''VDOP'',
     OP [] QMI_IDL_GENERIC_4_BYTE, OFFSET8 qmiLocExtDOPStructT_v02 ''GDOP'',
     OP [] QMI_IDL_GENERIC_4_BYTE, OFFSET8 qmiLocExtDOPStructT_v02 ''TDOP'',
     QMI_IDL_FLAG_END_VALUE]"

lemma qmiLocExtDOPStructT_data_v02_ok [idl_simps]:
  "describe_type qmiLocExtDOPStructT_data_v02 = Some (qmiLocExtDOPStructT_v02, 20, [])"
  by (simp add: qmiLocExtDOPStructT_data_v02_def qmiLocExtDOPStructT_v02_def [THEN arg_cong, of laid] analyse_simps layout_simps cong: idl_cong)

definition qmiLocSensorUsageIndicatorStructT_data_v02 :: "idl_byte list" where
  "qmiLocSensorUsageIndicatorStructT_data_v02 =
    [OP [] QMI_IDL_GENERIC_4_BYTE, OFFSET8 qmiLocSensorUsageIndicatorStructT_v02 ''usageMask'',
     OP [] QMI_IDL_GENERIC_4_BYTE,
      OFFSET8 qmiLocSensorUsageIndicatorStructT_v02 ''aidingIndicatorMask'',
     QMI_IDL_FLAG_END_VALUE]"

lemma qmiLocSensorUsageIndicatorStructT_data_v02_ok [idl_simps]:
  "describe_type qmiLocSensorUsageIndicatorStructT_data_v02 = Some (qmiLocSensorUsageIndicatorStructT_v02, 8, [])"
  by (simp add: qmiLocSensorUsageIndicatorStructT_data_v02_def qmiLocSensorUsageIndicatorStructT_v02_def [THEN arg_cong, of laid] analyse_simps layout_simps cong: idl_cong)

definition qmiLocJammerIndicatorStructT_data_v02 :: "idl_byte list" where
  "qmiLocJammerIndicatorStructT_data_v02 =
    [OP [] QMI_IDL_GENERIC_4_BYTE, OFFSET8 qmiLocJammerIndicatorStructT_v02 ''agcMetricDb'',
     OP [] QMI_IDL_GENERIC_4_BYTE, OFFSET8 qmiLocJammerIndicatorStructT_v02 ''bpMetricDb'',
     QMI_IDL_FLAG_END_VALUE]"

lemma qmiLocJammerIndicatorStructT_data_v02_ok [idl_simps]:
  "describe_type qmiLocJammerIndicatorStructT_data_v02 = Some (qmiLocJammerIndicatorStructT_v02, 8, [])"
  by (simp add: qmiLocJammerIndicatorStructT_data_v02_def qmiLocJammerIndicatorStructT_v02_def [THEN arg_cong, of laid] analyse_simps layout_simps cong: idl_cong)

definition qmiLocSvInfoStructT_data_v02 :: "idl_byte list" where
  "qmiLocSvInfoStructT_data_v02 =
    [OP [] QMI_IDL_GENERIC_4_BYTE, OFFSET8 qmiLocSvInfoStructT_v02 ''validMask'',
     OP [] QMI_IDL_GENERIC_4_BYTE, OFFSET8 qmiLocSvInfoStructT_v02 ''system'',
     OP [] QMI_IDL_GENERIC_2_BYTE, OFFSET8 qmiLocSvInfoStructT_v02 ''gnssSvId'',
     OP [] QMI_IDL_GENERIC_1_BYTE, OFFSET8 qmiLocSvInfoStructT_v02 ''healthStatus'',
     OP [] QMI_IDL_GENERIC_4_BYTE, OFFSET8 qmiLocSvInfoStructT_v02 ''svStatus'',
     OP [] QMI_IDL_GENERIC_1_BYTE, OFFSET8 qmiLocSvInfoStructT_v02 ''svInfoMask'',
     OP [] QMI_IDL_GENERIC_4_BYTE, OFFSET8 qmiLocSvInfoStructT_v02 ''elevation'',
     OP [] QMI_IDL_GENERIC_4_BYTE, OFFSET8 qmiLocSvInfoStructT_v02 ''azimuth'',
     OP [] QMI_IDL_GENERIC_4_BYTE, OFFSET8 qmiLocSvInfoStructT_v02 ''snr'',
     QMI_IDL_FLAG_END_VALUE]"

lemma qmiLocSvInfoStructT_data_v02_ok [idl_simps]:
  "describe_type qmiLocSvInfoStructT_data_v02 = Some (qmiLocSvInfoStructT_v02, 28, [])"
  by (simp add: qmiLocSvInfoStructT_data_v02_def qmiLocSvInfoStructT_v02_def [THEN arg_cong, of laid] analyse_simps layout_simps cong: idl_cong)

definition qmiLocExpandedSvInfoStructT_data_v02 :: "idl_byte list" where
  "qmiLocExpandedSvInfoStructT_data_v02 =
    [OP [] QMI_IDL_AGGREGATE, OFFSET8 qmiLocExpandedSvInfoStructT_v02 ''svInfo'', TYPE88 0 7,
     OP [] QMI_IDL_GENERIC_1_BYTE, OFFSET8 qmiLocExpandedSvInfoStructT_v02 ''gloFrequency'',
     QMI_IDL_FLAG_END_VALUE]"

lemma qmiLocExpandedSvInfoStructT_data_v02_ok [idl_simps]:
  "describe_type qmiLocExpandedSvInfoStructT_data_v02 = Some (qmiLocExpandedSvInfoStructT_v02, 1, [(1, (0, 7), qmiLocSvInfoStructT_v02)])"
  by (simp add: qmiLocExpandedSvInfoStructT_data_v02_def qmiLocExpandedSvInfoStructT_v02_def [THEN arg_cong, of laid] analyse_simps layout_simps cong: idl_cong)

definition qmiLocNiVxNotifyVerifyStructT_data_v02 :: "idl_byte list" where
  "qmiLocNiVxNotifyVerifyStructT_data_v02 =
    [OP [] QMI_IDL_GENERIC_1_BYTE, OFFSET8 qmiLocNiVxNotifyVerifyStructT_v02 ''posQosIncl'',
     OP [] QMI_IDL_GENERIC_1_BYTE, OFFSET8 qmiLocNiVxNotifyVerifyStructT_v02 ''posQos'',
     OP [] QMI_IDL_GENERIC_4_BYTE, OFFSET8 qmiLocNiVxNotifyVerifyStructT_v02 ''numFixes'',
     OP [] QMI_IDL_GENERIC_4_BYTE, OFFSET8 qmiLocNiVxNotifyVerifyStructT_v02 ''timeBetweenFixes'',
     OP [] QMI_IDL_GENERIC_4_BYTE, OFFSET8 qmiLocNiVxNotifyVerifyStructT_v02 ''posMode'',
     OP [] QMI_IDL_GENERIC_4_BYTE, OFFSET8 qmiLocNiVxNotifyVerifyStructT_v02 ''encodingScheme'',
     OP [QMI_IDL_FLAGS_IS_ARRAY, QMI_IDL_FLAGS_IS_VARIABLE_LEN] QMI_IDL_GENERIC_1_BYTE,
      OFFSET8 qmiLocNiVxNotifyVerifyStructT_v02 ''requestorId'',
      LIT QMI_LOC_NI_MAX_REQUESTOR_ID_LENGTH_V02,
      OFFSET8_DIFF qmiLocNiVxNotifyVerifyStructT_v02 ''requestorId'' ''requestorId_len'',
     OP [QMI_IDL_FLAGS_OFFSET_IS_16] QMI_IDL_GENERIC_2_BYTE,
      OFFSET16ARRAY qmiLocNiVxNotifyVerifyStructT_v02 ''userRespTimerInSeconds'',
     QMI_IDL_FLAG_END_VALUE]"

lemma qmiLocNiVxNotifyVerifyStructT_data_v02_ok [idl_simps]:
  "describe_type qmiLocNiVxNotifyVerifyStructT_data_v02 = Some (qmiLocNiVxNotifyVerifyStructT_v02, 221, [])"
  by (simp add: qmiLocNiVxNotifyVerifyStructT_data_v02_def qmiLocNiVxNotifyVerifyStructT_v02_def [THEN arg_cong, of laid] analyse_simps layout_simps cong: idl_cong)

definition qmiLocNiSuplFormattedStringStructT_data_v02 :: "idl_byte list" where
  "qmiLocNiSuplFormattedStringStructT_data_v02 =
    [OP [] QMI_IDL_GENERIC_4_BYTE, OFFSET8 qmiLocNiSuplFormattedStringStructT_v02 ''formatType'',
     OP [QMI_IDL_FLAGS_IS_ARRAY, QMI_IDL_FLAGS_IS_VARIABLE_LEN] QMI_IDL_GENERIC_1_BYTE,
      OFFSET8 qmiLocNiSuplFormattedStringStructT_v02 ''formattedString'',
      LIT QMI_LOC_NI_MAX_CLIENT_NAME_LENGTH_V02,
      OFFSET8_DIFF qmiLocNiSuplFormattedStringStructT_v02 ''formattedString'' ''formattedString_len'',
     QMI_IDL_FLAG_END_VALUE]"

lemma qmiLocNiSuplFormattedStringStructT_data_v02_ok [idl_simps]:
  "describe_type qmiLocNiSuplFormattedStringStructT_data_v02 = Some (qmiLocNiSuplFormattedStringStructT_v02, 69, [])"
  by (simp add: qmiLocNiSuplFormattedStringStructT_data_v02_def qmiLocNiSuplFormattedStringStructT_v02_def [THEN arg_cong, of laid] analyse_simps layout_simps cong: idl_cong)

definition qmiLocNiSuplQopStructT_data_v02 :: "idl_byte list" where
  "qmiLocNiSuplQopStructT_data_v02 =
    [OP [] QMI_IDL_GENERIC_1_BYTE, OFFSET8 qmiLocNiSuplQopStructT_v02 ''validMask'',
     OP [] QMI_IDL_GENERIC_1_BYTE, OFFSET8 qmiLocNiSuplQopStructT_v02 ''horizontalAccuracy'',
     OP [] QMI_IDL_GENERIC_1_BYTE, OFFSET8 qmiLocNiSuplQopStructT_v02 ''verticalAccuracy'',
     OP [] QMI_IDL_GENERIC_2_BYTE, OFFSET8 qmiLocNiSuplQopStructT_v02 ''maxLocAge'',
     OP [] QMI_IDL_GENERIC_1_BYTE, OFFSET8 qmiLocNiSuplQopStructT_v02 ''delay'',
     QMI_IDL_FLAG_END_VALUE]"

lemma qmiLocNiSuplQopStructT_data_v02_ok [idl_simps]:
  "describe_type qmiLocNiSuplQopStructT_data_v02 = Some (qmiLocNiSuplQopStructT_v02, 6, [])"
  by (simp add: qmiLocNiSuplQopStructT_data_v02_def qmiLocNiSuplQopStructT_v02_def [THEN arg_cong, of laid] analyse_simps layout_simps cong: idl_cong)

definition qmiLocIpV4AddrStructType_data_v02 :: "idl_byte list" where
  "qmiLocIpV4AddrStructType_data_v02 =
    [OP [] QMI_IDL_GENERIC_4_BYTE, OFFSET8 qmiLocIpV4AddrStructType_v02 ''addr'',
     OP [] QMI_IDL_GENERIC_2_BYTE, OFFSET8 qmiLocIpV4AddrStructType_v02 ''port'',
     QMI_IDL_FLAG_END_VALUE]"

lemma qmiLocIpV4AddrStructType_data_v02_ok [idl_simps]:
  "describe_type qmiLocIpV4AddrStructType_data_v02 = Some (qmiLocIpV4AddrStructType_v02, 6, [])"
  by (simp add: qmiLocIpV4AddrStructType_data_v02_def qmiLocIpV4AddrStructType_v02_def [THEN arg_cong, of laid] analyse_simps layout_simps cong: idl_cong)

definition qmiLocIpV6AddrStructType_data_v02 :: "idl_byte list" where
  "qmiLocIpV6AddrStructType_data_v02 =
    [OP [QMI_IDL_FLAGS_IS_ARRAY] QMI_IDL_GENERIC_2_BYTE, OFFSET8 qmiLocIpV6AddrStructType_v02 ''addr'',
      LIT QMI_LOC_IPV6_ADDR_LENGTH_V02,
     OP [] QMI_IDL_GENERIC_4_BYTE, OFFSET8 qmiLocIpV6AddrStructType_v02 ''port'',
     QMI_IDL_FLAG_END_VALUE]"

lemma qmiLocIpV6AddrStructType_data_v02_ok [idl_simps]:
  "describe_type qmiLocIpV6AddrStructType_data_v02 = Some (qmiLocIpV6AddrStructType_v02, 20, [])"
  by (simp add: qmiLocIpV6AddrStructType_data_v02_def qmiLocIpV6AddrStructType_v02_def [THEN arg_cong, of laid] analyse_simps layout_simps cong: idl_cong)

definition qmiLocNiSuplServerInfoStructT_data_v02 :: "idl_byte list" where
  "qmiLocNiSuplServerInfoStructT_data_v02 =
    [OP [] QMI_IDL_GENERIC_1_BYTE, OFFSET8 qmiLocNiSuplServerInfoStructT_v02 ''suplServerAddrTypeMask'',
     OP [] QMI_IDL_AGGREGATE, OFFSET8 qmiLocNiSuplServerInfoStructT_v02 ''ipv4Addr'', TYPE88 0 12,
     OP [] QMI_IDL_AGGREGATE, OFFSET8 qmiLocNiSuplServerInfoStructT_v02 ''ipv6Addr'', TYPE88 0 13,
     OP [QMI_IDL_FLAGS_IS_ARRAY, QMI_IDL_FLAGS_IS_VARIABLE_LEN] QMI_IDL_STRING,
      OFFSET8 qmiLocNiSuplServerInfoStructT_v02 ''urlAddr'', LIT QMI_LOC_MAX_SERVER_ADDR_LENGTH_V02,
     QMI_IDL_FLAG_END_VALUE]"

lemma qmiLocNiSuplServerInfoStructT_data_v02_ok [idl_simps]:
  "describe_type qmiLocNiSuplServerInfoStructT_data_v02 = Some (qmiLocNiSuplServerInfoStructT_v02, 257, [(1, (0, 12), qmiLocIpV4AddrStructType_v02), (1, (0, 13), qmiLocIpV6AddrStructType_v02)])"
  by (simp add: qmiLocNiSuplServerInfoStructT_data_v02_def qmiLocNiSuplServerInfoStructT_v02_def [THEN arg_cong, of laid] analyse_simps layout_simps cong: idl_cong)

definition qmiLocNiSuplNotifyVerifyStructT_data_v02 :: "idl_byte list" where
  "qmiLocNiSuplNotifyVerifyStructT_data_v02 =
    [OP [] QMI_IDL_GENERIC_4_BYTE, OFFSET8 qmiLocNiSuplNotifyVerifyStructT_v02 ''valid_flags'',
     OP [] QMI_IDL_AGGREGATE, OFFSET8 qmiLocNiSuplNotifyVerifyStructT_v02 ''suplServerInfo'',
      TYPE88 0 14,
     OP [QMI_IDL_FLAGS_OFFSET_IS_16, QMI_IDL_FLAGS_IS_ARRAY] QMI_IDL_GENERIC_1_BYTE,
      OFFSET16ARRAY qmiLocNiSuplNotifyVerifyStructT_v02 ''suplSessionId'',
      LIT QMI_LOC_NI_SUPL_SLP_SESSION_ID_BYTE_LENGTH_V02,
     OP [QMI_IDL_FLAGS_OFFSET_IS_16, QMI_IDL_FLAGS_IS_ARRAY] QMI_IDL_GENERIC_1_BYTE,
      OFFSET16ARRAY qmiLocNiSuplNotifyVerifyStructT_v02 ''suplHash'',
      LIT QMI_LOC_NI_SUPL_HASH_LENGTH_V02,
     OP [QMI_IDL_FLAGS_OFFSET_IS_16] QMI_IDL_GENERIC_4_BYTE,
      OFFSET16ARRAY qmiLocNiSuplNotifyVerifyStructT_v02 ''posMethod'',
     OP [QMI_IDL_FLAGS_OFFSET_IS_16] QMI_IDL_GENERIC_4_BYTE,
      OFFSET16ARRAY qmiLocNiSuplNotifyVerifyStructT_v02 ''dataCodingScheme'',
     OP [QMI_IDL_FLAGS_OFFSET_IS_16] QMI_IDL_AGGREGATE,
      OFFSET16ARRAY qmiLocNiSuplNotifyVerifyStructT_v02 ''requestorId'', TYPE88 0 10,
     OP [QMI_IDL_FLAGS_OFFSET_IS_16] QMI_IDL_AGGREGATE,
      OFFSET16ARRAY qmiLocNiSuplNotifyVerifyStructT_v02 ''clientName'', TYPE88 0 10,
     OP [QMI_IDL_FLAGS_OFFSET_IS_16] QMI_IDL_AGGREGATE,
      OFFSET16ARRAY qmiLocNiSuplNotifyVerifyStructT_v02 ''suplQop'', TYPE88 0 11,
     OP [QMI_IDL_FLAGS_OFFSET_IS_16] QMI_IDL_GENERIC_2_BYTE,
      OFFSET16ARRAY qmiLocNiSuplNotifyVerifyStructT_v02 ''userResponseTimer'',
     QMI_IDL_FLAG_END_VALUE]"

lemma qmiLocNiSuplNotifyVerifyStructT_data_v02_ok [idl_simps]:
  "describe_type qmiLocNiSuplNotifyVerifyStructT_data_v02 = Some (qmiLocNiSuplNotifyVerifyStructT_v02, 26, [(1, (0, 14), qmiLocNiSuplServerInfoStructT_v02), (1, (0, 10), qmiLocNiSuplFormattedStringStructT_v02), (1, (0, 10), qmiLocNiSuplFormattedStringStructT_v02), (1, (0, 11), qmiLocNiSuplQopStructT_v02)])"
  by (simp add: qmiLocNiSuplNotifyVerifyStructT_data_v02_def qmiLocNiSuplNotifyVerifyStructT_v02_def [THEN arg_cong, of laid] analyse_simps layout_simps cong: idl_cong)

definition qmiLocNiUmtsCpCodedStringStructT_data_v02 :: "idl_byte list" where
  "qmiLocNiUmtsCpCodedStringStructT_data_v02 =
    [OP [] QMI_IDL_GENERIC_4_BYTE, OFFSET8 qmiLocNiUmtsCpCodedStringStructT_v02 ''dataCodingScheme'',
     OP [QMI_IDL_FLAGS_IS_ARRAY, QMI_IDL_FLAGS_IS_VARIABLE_LEN] QMI_IDL_GENERIC_1_BYTE,
      OFFSET8 qmiLocNiUmtsCpCodedStringStructT_v02 ''codedString'',
      LIT QMI_LOC_NI_CODEWORD_MAX_LENGTH_V02,
      OFFSET8_DIFF qmiLocNiUmtsCpCodedStringStructT_v02 ''codedString'' ''codedString_len'',
     QMI_IDL_FLAG_END_VALUE]"

lemma qmiLocNiUmtsCpCodedStringStructT_data_v02_ok [idl_simps]:
  "describe_type qmiLocNiUmtsCpCodedStringStructT_data_v02 = Some (qmiLocNiUmtsCpCodedStringStructT_v02, 25, [])"
  by (simp add: qmiLocNiUmtsCpCodedStringStructT_data_v02_def qmiLocNiUmtsCpCodedStringStructT_v02_def [THEN arg_cong, of laid] analyse_simps layout_simps cong: idl_cong)

definition qmiLocNiUmtsCpNotifyVerifyStructT_data_v02 :: "idl_byte list" where
  "qmiLocNiUmtsCpNotifyVerifyStructT_data_v02 =
    [OP [] QMI_IDL_GENERIC_2_BYTE, OFFSET8 qmiLocNiUmtsCpNotifyVerifyStructT_v02 ''valid_flags'',
     OP [] QMI_IDL_GENERIC_1_BYTE, OFFSET8 qmiLocNiUmtsCpNotifyVerifyStructT_v02 ''invokeId'',
     OP [] QMI_IDL_GENERIC_4_BYTE, OFFSET8 qmiLocNiUmtsCpNotifyVerifyStructT_v02 ''dataCodingScheme'',
     OP [QMI_IDL_FLAGS_IS_ARRAY, QMI_IDL_FLAGS_IS_VARIABLE_LEN] QMI_IDL_GENERIC_1_BYTE,
      OFFSET8 qmiLocNiUmtsCpNotifyVerifyStructT_v02 ''notificationText'',
      LIT QMI_LOC_NI_MAX_CLIENT_NAME_LENGTH_V02,
      OFFSET8_DIFF qmiLocNiUmtsCpNotifyVerifyStructT_v02 ''notificationText'' ''notificationText_len'',
     OP [QMI_IDL_FLAGS_IS_ARRAY, QMI_IDL_FLAGS_IS_VARIABLE_LEN] QMI_IDL_GENERIC_1_BYTE,
      OFFSET8 qmiLocNiUmtsCpNotifyVerifyStructT_v02 ''clientAddress'',
      LIT QMI_LOC_NI_MAX_EXT_CLIENT_ADDRESS_V02,
      OFFSET8_DIFF qmiLocNiUmtsCpNotifyVerifyStructT_v02 ''clientAddress'' ''clientAddress_len'',
     OP [] QMI_IDL_GENERIC_4_BYTE, OFFSET8 qmiLocNiUmtsCpNotifyVerifyStructT_v02 ''locationType'',
     OP [] QMI_IDL_AGGREGATE, OFFSET8 qmiLocNiUmtsCpNotifyVerifyStructT_v02 ''requestorId'',
      TYPE88 0 16,
     OP [] QMI_IDL_AGGREGATE, OFFSET8 qmiLocNiUmtsCpNotifyVerifyStructT_v02 ''codewordString'',
      TYPE88 0 16,
     OP [] QMI_IDL_GENERIC_1_BYTE, OFFSET8 qmiLocNiUmtsCpNotifyVerifyStructT_v02 ''lcsServiceTypeId'',
     OP [] QMI_IDL_GENERIC_2_BYTE, OFFSET8 qmiLocNiUmtsCpNotifyVerifyStructT_v02 ''userResponseTimer'',
     QMI_IDL_FLAG_END_VALUE]"

lemma qmiLocNiUmtsCpNotifyVerifyStructT_data_v02_ok [idl_simps]:
  "describe_type qmiLocNiUmtsCpNotifyVerifyStructT_data_v02 = Some (qmiLocNiUmtsCpNotifyVerifyStructT_v02, 100, [(1, (0, 16), qmiLocNiUmtsCpCodedStringStructT_v02), (1, (0, 16), qmiLocNiUmtsCpCodedStringStructT_v02)])"
  by (simp add: qmiLocNiUmtsCpNotifyVerifyStructT_data_v02_def qmiLocNiUmtsCpNotifyVerifyStructT_v02_def [THEN arg_cong, of laid] analyse_simps layout_simps cong: idl_cong)

definition qmiLocNiVxServiceInteractionStructT_data_v02 :: "idl_byte list" where
  "qmiLocNiVxServiceInteractionStructT_data_v02 =
    [OP [] QMI_IDL_AGGREGATE, OFFSET8 qmiLocNiVxServiceInteractionStructT_v02 ''niVxReq'', TYPE88 0 9,
     OP [QMI_IDL_FLAGS_OFFSET_IS_16] QMI_IDL_GENERIC_4_BYTE,
      OFFSET16ARRAY qmiLocNiVxServiceInteractionStructT_v02 ''serviceInteractionType'',
     QMI_IDL_FLAG_END_VALUE]"

lemma qmiLocNiVxServiceInteractionStructT_data_v02_ok [idl_simps]:
  "describe_type qmiLocNiVxServiceInteractionStructT_data_v02 = Some (qmiLocNiVxServiceInteractionStructT_v02, 4, [(1, (0, 9), qmiLocNiVxNotifyVerifyStructT_v02)])"
  by (simp add: qmiLocNiVxServiceInteractionStructT_data_v02_def qmiLocNiVxServiceInteractionStructT_v02_def [THEN arg_cong, of laid] analyse_simps layout_simps cong: idl_cong)

definition qmiLocNiSuplVer2ExtStructT_data_v02 :: "idl_byte list" where
  "qmiLocNiSuplVer2ExtStructT_data_v02 =
    [OP [] QMI_IDL_GENERIC_2_BYTE, OFFSET8 qmiLocNiSuplVer2ExtStructT_v02 ''supportedNetworksMask'',
     OP [] QMI_IDL_GENERIC_4_BYTE, OFFSET8 qmiLocNiSuplVer2ExtStructT_v02 ''triggerType'',
     OP [] QMI_IDL_GENERIC_2_BYTE, OFFSET8 qmiLocNiSuplVer2ExtStructT_v02 ''gnssType'',
     QMI_IDL_FLAG_END_VALUE]"

lemma qmiLocNiSuplVer2ExtStructT_data_v02_ok [idl_simps]:
  "describe_type qmiLocNiSuplVer2ExtStructT_data_v02 = Some (qmiLocNiSuplVer2ExtStructT_v02, 8, [])"
  by (simp add: qmiLocNiSuplVer2ExtStructT_data_v02_def qmiLocNiSuplVer2ExtStructT_v02_def [THEN arg_cong, of laid] analyse_simps layout_simps cong: idl_cong)

definition qmiLocEmergencyNotificationStructT_data_v02 :: "idl_byte list" where
  "qmiLocEmergencyNotificationStructT_data_v02 =
    [OP [QMI_IDL_FLAGS_IS_ARRAY, QMI_IDL_FLAGS_IS_VARIABLE_LEN] QMI_IDL_STRING,
      OFFSET8 qmiLocEmergencyNotificationStructT_v02 ''eslpUrl'', LIT QMI_LOC_MAX_SERVER_ADDR_LENGTH_V02,
     QMI_IDL_FLAG_END_VALUE]"

lemma qmiLocEmergencyNotificationStructT_data_v02_ok [idl_simps]:
  "describe_type qmiLocEmergencyNotificationStructT_data_v02 = Some (qmiLocEmergencyNotificationStructT_v02, 256, [])"
  by (simp add: qmiLocEmergencyNotificationStructT_data_v02_def qmiLocEmergencyNotificationStructT_v02_def [THEN arg_cong, of laid] analyse_simps layout_simps cong: idl_cong)

definition qmiLocAssistanceServerUrlStructT_data_v02 :: "idl_byte list" where
  "qmiLocAssistanceServerUrlStructT_data_v02 =
    [OP [QMI_IDL_FLAGS_IS_ARRAY, QMI_IDL_FLAGS_IS_VARIABLE_LEN] QMI_IDL_STRING,
      OFFSET8 qmiLocAssistanceServerUrlStructT_v02 ''serverUrl'', LIT QMI_LOC_MAX_SERVER_ADDR_LENGTH_V02,
     QMI_IDL_FLAG_END_VALUE]"

lemma qmiLocAssistanceServerUrlStructT_data_v02_ok [idl_simps]:
  "describe_type qmiLocAssistanceServerUrlStructT_data_v02 = Some (qmiLocAssistanceServerUrlStructT_v02, 256, [])"
  by (simp add: qmiLocAssistanceServerUrlStructT_data_v02_def qmiLocAssistanceServerUrlStructT_v02_def [THEN arg_cong, of laid] analyse_simps layout_simps cong: idl_cong)

definition qmiLocTimeServerListStructT_data_v02 :: "idl_byte list" where
  "qmiLocTimeServerListStructT_data_v02 =
    [OP [] QMI_IDL_GENERIC_4_BYTE, OFFSET8 qmiLocTimeServerListStructT_v02 ''delayThreshold'',
     OP [QMI_IDL_FLAGS_IS_ARRAY, QMI_IDL_FLAGS_IS_VARIABLE_LEN] QMI_IDL_AGGREGATE,
      OFFSET8 qmiLocTimeServerListStructT_v02 ''timeServerList'', LIT QMI_LOC_MAX_NTP_SERVERS_V02,
      OFFSET8_DIFF qmiLocTimeServerListStructT_v02 ''timeServerList'' ''timeServerList_len'',
      TYPE88 0 21,
     QMI_IDL_FLAG_END_VALUE]"

lemma qmiLocTimeServerListStructT_data_v02_ok [idl_simps]:
  "describe_type qmiLocTimeServerListStructT_data_v02 = Some (qmiLocTimeServerListStructT_v02, 5, [(3, (0, 21), qmiLocAssistanceServerUrlStructT_v02)])"
  by (simp add: qmiLocTimeServerListStructT_data_v02_def qmiLocTimeServerListStructT_v02_def [THEN arg_cong, of laid] analyse_simps layout_simps cong: idl_cong)

definition qmiLocPredictedOrbitsAllowedSizesStructT_data_v02 :: "idl_byte list" where
  "qmiLocPredictedOrbitsAllowedSizesStructT_data_v02 =
    [OP [] QMI_IDL_GENERIC_4_BYTE,
      OFFSET8 qmiLocPredictedOrbitsAllowedSizesStructT_v02 ''maxFileSizeInBytes'',
     OP [] QMI_IDL_GENERIC_4_BYTE, OFFSET8 qmiLocPredictedOrbitsAllowedSizesStructT_v02 ''maxPartSize'',
     QMI_IDL_FLAG_END_VALUE]"

lemma qmiLocPredictedOrbitsAllowedSizesStructT_data_v02_ok [idl_simps]:
  "describe_type qmiLocPredictedOrbitsAllowedSizesStructT_data_v02 = Some (qmiLocPredictedOrbitsAllowedSizesStructT_v02, 8, [])"
  by (simp add: qmiLocPredictedOrbitsAllowedSizesStructT_data_v02_def qmiLocPredictedOrbitsAllowedSizesStructT_v02_def [THEN arg_cong, of laid] analyse_simps layout_simps cong: idl_cong)

definition qmiLocPredictedOrbitsServerListStructT_data_v02 :: "idl_byte list" where
  "qmiLocPredictedOrbitsServerListStructT_data_v02 =
    [OP [QMI_IDL_FLAGS_IS_ARRAY, QMI_IDL_FLAGS_IS_VARIABLE_LEN] QMI_IDL_AGGREGATE,
      OFFSET8 qmiLocPredictedOrbitsServerListStructT_v02 ''serverList'',
      LIT QMI_LOC_MAX_PREDICTED_ORBITS_SERVERS_V02,
      OFFSET8_DIFF qmiLocPredictedOrbitsServerListStructT_v02 ''serverList'' ''serverList_len'',
      TYPE88 0 21,
     QMI_IDL_FLAG_END_VALUE]"

lemma qmiLocPredictedOrbitsServerListStructT_data_v02_ok [idl_simps]:
  "describe_type qmiLocPredictedOrbitsServerListStructT_data_v02 = Some (qmiLocPredictedOrbitsServerListStructT_v02, 1, [(3, (0, 21), qmiLocAssistanceServerUrlStructT_v02)])"
  by (simp add: qmiLocPredictedOrbitsServerListStructT_data_v02_def qmiLocPredictedOrbitsServerListStructT_v02_def [THEN arg_cong, of laid] analyse_simps layout_simps cong: idl_cong)

definition qmiLocSensorControlConfigSamplingSpecStructT_data_v02 :: "idl_byte list" where
  "qmiLocSensorControlConfigSamplingSpecStructT_data_v02 =
    [OP [] QMI_IDL_GENERIC_2_BYTE,
      OFFSET8 qmiLocSensorControlConfigSamplingSpecStructT_v02 ''samplesPerBatch'',
     OP [] QMI_IDL_GENERIC_2_BYTE,
      OFFSET8 qmiLocSensorControlConfigSamplingSpecStructT_v02 ''batchesPerSecond'',
     QMI_IDL_FLAG_END_VALUE]"

lemma qmiLocSensorControlConfigSamplingSpecStructT_data_v02_ok [idl_simps]:
  "describe_type qmiLocSensorControlConfigSamplingSpecStructT_data_v02 = Some (qmiLocSensorControlConfigSamplingSpecStructT_v02, 4, [])"
  by (simp add: qmiLocSensorControlConfigSamplingSpecStructT_data_v02_def qmiLocSensorControlConfigSamplingSpecStructT_v02_def [THEN arg_cong, of laid] analyse_simps layout_simps cong: idl_cong)

definition qmiLocSensorReadyStatusStructT_data_v02 :: "idl_byte list" where
  "qmiLocSensorReadyStatusStructT_data_v02 =
    [OP [] QMI_IDL_GENERIC_1_BYTE, OFFSET8 qmiLocSensorReadyStatusStructT_v02 ''injectEnable'',
     OP [] QMI_IDL_AGGREGATE, OFFSET8 qmiLocSensorReadyStatusStructT_v02 ''dataFrequency'', TYPE88 0 25,
     QMI_IDL_FLAG_END_VALUE]"

lemma qmiLocSensorReadyStatusStructT_data_v02_ok [idl_simps]:
  "describe_type qmiLocSensorReadyStatusStructT_data_v02 = Some (qmiLocSensorReadyStatusStructT_v02, 1, [(1, (0, 25), qmiLocSensorControlConfigSamplingSpecStructT_v02)])"
  by (simp add: qmiLocSensorReadyStatusStructT_data_v02_def qmiLocSensorReadyStatusStructT_v02_def [THEN arg_cong, of laid] analyse_simps layout_simps cong: idl_cong)

definition qmiLocGeofencePositionStructT_data_v02 :: "idl_byte list" where
  "qmiLocGeofencePositionStructT_data_v02 =
    [OP [] QMI_IDL_GENERIC_8_BYTE, OFFSET8 qmiLocGeofencePositionStructT_v02 ''timestampUtc'',
     OP [] QMI_IDL_GENERIC_8_BYTE, OFFSET8 qmiLocGeofencePositionStructT_v02 ''latitude'',
     OP [] QMI_IDL_GENERIC_8_BYTE, OFFSET8 qmiLocGeofencePositionStructT_v02 ''longitude'',
     OP [] QMI_IDL_GENERIC_4_BYTE, OFFSET8 qmiLocGeofencePositionStructT_v02 ''horUncEllipseSemiMinor'',
     OP [] QMI_IDL_GENERIC_4_BYTE, OFFSET8 qmiLocGeofencePositionStructT_v02 ''horUncEllipseSemiMajor'',
     OP [] QMI_IDL_GENERIC_4_BYTE,
      OFFSET8 qmiLocGeofencePositionStructT_v02 ''horUncEllipseOrientAzimuth'',
     OP [] QMI_IDL_GENERIC_1_BYTE, OFFSET8 qmiLocGeofencePositionStructT_v02 ''speedHorizontal_valid'',
     OP [] QMI_IDL_GENERIC_4_BYTE, OFFSET8 qmiLocGeofencePositionStructT_v02 ''speedHorizontal'',
     OP [] QMI_IDL_GENERIC_1_BYTE,
      OFFSET8 qmiLocGeofencePositionStructT_v02 ''altitudeWrtEllipsoid_valid'',
     OP [] QMI_IDL_GENERIC_4_BYTE, OFFSET8 qmiLocGeofencePositionStructT_v02 ''altitudeWrtEllipsoid'',
     OP [] QMI_IDL_GENERIC_1_BYTE, OFFSET8 qmiLocGeofencePositionStructT_v02 ''vertUnc_valid'',
     OP [] QMI_IDL_GENERIC_4_BYTE, OFFSET8 qmiLocGeofencePositionStructT_v02 ''vertUnc'',
     OP [] QMI_IDL_GENERIC_1_BYTE, OFFSET8 qmiLocGeofencePositionStructT_v02 ''speedVertical_valid'',
     OP [] QMI_IDL_GENERIC_4_BYTE, OFFSET8 qmiLocGeofencePositionStructT_v02 ''speedVertical'',
     OP [] QMI_IDL_GENERIC_1_BYTE, OFFSET8 qmiLocGeofencePositionStructT_v02 ''heading_valid'',
     OP [] QMI_IDL_GENERIC_4_BYTE, OFFSET8 qmiLocGeofencePositionStructT_v02 ''heading'',
     QMI_IDL_FLAG_END_VALUE]"

lemma qmiLocGeofencePositionStructT_data_v02_ok [idl_simps]:
  "describe_type qmiLocGeofencePositionStructT_data_v02 = Some (qmiLocGeofencePositionStructT_v02, 61, [])"
  by (simp add: qmiLocGeofencePositionStructT_data_v02_def qmiLocGeofencePositionStructT_v02_def [THEN arg_cong, of laid] analyse_simps layout_simps cong: idl_cong)

definition qmiLocGeofenceIdContinuousStructT_data_v02 :: "idl_byte list" where
  "qmiLocGeofenceIdContinuousStructT_data_v02 =
    [OP [] QMI_IDL_GENERIC_4_BYTE, OFFSET8 qmiLocGeofenceIdContinuousStructT_v02 ''idLow'',
     OP [] QMI_IDL_GENERIC_4_BYTE, OFFSET8 qmiLocGeofenceIdContinuousStructT_v02 ''idHigh'',
     QMI_IDL_FLAG_END_VALUE]"

lemma qmiLocGeofenceIdContinuousStructT_data_v02_ok [idl_simps]:
  "describe_type qmiLocGeofenceIdContinuousStructT_data_v02 = Some (qmiLocGeofenceIdContinuousStructT_v02, 8, [])"
  by (simp add: qmiLocGeofenceIdContinuousStructT_data_v02_def qmiLocGeofenceIdContinuousStructT_v02_def [THEN arg_cong, of laid] analyse_simps layout_simps cong: idl_cong)

definition qmiLocPredictedOrbitsDataValidityStructT_data_v02 :: "idl_byte list" where
  "qmiLocPredictedOrbitsDataValidityStructT_data_v02 =
    [OP [] QMI_IDL_GENERIC_8_BYTE,
      OFFSET8 qmiLocPredictedOrbitsDataValidityStructT_v02 ''startTimeInUTC'',
     OP [] QMI_IDL_GENERIC_2_BYTE,
      OFFSET8 qmiLocPredictedOrbitsDataValidityStructT_v02 ''durationHours'',
     QMI_IDL_FLAG_END_VALUE]"

lemma qmiLocPredictedOrbitsDataValidityStructT_data_v02_ok [idl_simps]:
  "describe_type qmiLocPredictedOrbitsDataValidityStructT_data_v02 = Some (qmiLocPredictedOrbitsDataValidityStructT_v02, 10, [])"
  by (simp add: qmiLocPredictedOrbitsDataValidityStructT_data_v02_def qmiLocPredictedOrbitsDataValidityStructT_v02_def [THEN arg_cong, of laid] analyse_simps layout_simps cong: idl_cong)

definition qmiLocAltitudeSrcInfoStructT_data_v02 :: "idl_byte list" where
  "qmiLocAltitudeSrcInfoStructT_data_v02 =
    [OP [] QMI_IDL_GENERIC_4_BYTE, OFFSET8 qmiLocAltitudeSrcInfoStructT_v02 ''source'',
     OP [] QMI_IDL_GENERIC_4_BYTE, OFFSET8 qmiLocAltitudeSrcInfoStructT_v02 ''linkage'',
     OP [] QMI_IDL_GENERIC_4_BYTE, OFFSET8 qmiLocAltitudeSrcInfoStructT_v02 ''coverage'',
     QMI_IDL_FLAG_END_VALUE]"

lemma qmiLocAltitudeSrcInfoStructT_data_v02_ok [idl_simps]:
  "describe_type qmiLocAltitudeSrcInfoStructT_data_v02 = Some (qmiLocAltitudeSrcInfoStructT_v02, 12, [])"
  by (simp add: qmiLocAltitudeSrcInfoStructT_data_v02_def qmiLocAltitudeSrcInfoStructT_v02_def [THEN arg_cong, of laid] analyse_simps layout_simps cong: idl_cong)

definition qmiLocDeleteSvInfoStructT_data_v02 :: "idl_byte list" where
  "qmiLocDeleteSvInfoStructT_data_v02 =
    [OP [] QMI_IDL_GENERIC_2_BYTE, OFFSET8 qmiLocDeleteSvInfoStructT_v02 ''gnssSvId'',
     OP [] QMI_IDL_GENERIC_4_BYTE, OFFSET8 qmiLocDeleteSvInfoStructT_v02 ''system'',
     OP [] QMI_IDL_GENERIC_1_BYTE, OFFSET8 qmiLocDeleteSvInfoStructT_v02 ''deleteSvInfoMask'',
     QMI_IDL_FLAG_END_VALUE]"

lemma qmiLocDeleteSvInfoStructT_data_v02_ok [idl_simps]:
  "describe_type qmiLocDeleteSvInfoStructT_data_v02 = Some (qmiLocDeleteSvInfoStructT_v02, 7, [])"
  by (simp add: qmiLocDeleteSvInfoStructT_data_v02_def qmiLocDeleteSvInfoStructT_v02_def [THEN arg_cong, of laid] analyse_simps layout_simps cong: idl_cong)

definition qmiLocDeleteBDSSvInfoStructT_data_v02 :: "idl_byte list" where
  "qmiLocDeleteBDSSvInfoStructT_data_v02 =
    [OP [] QMI_IDL_GENERIC_2_BYTE, OFFSET8 qmiLocDeleteBDSSvInfoStructT_v02 ''gnssSvId'',
     OP [] QMI_IDL_GENERIC_1_BYTE, OFFSET8 qmiLocDeleteBDSSvInfoStructT_v02 ''deleteSvInfoMask'',
     QMI_IDL_FLAG_END_VALUE]"

lemma qmiLocDeleteBDSSvInfoStructT_data_v02_ok [idl_simps]:
  "describe_type qmiLocDeleteBDSSvInfoStructT_data_v02 = Some (qmiLocDeleteBDSSvInfoStructT_v02, 3, [])"
  by (simp add: qmiLocDeleteBDSSvInfoStructT_data_v02_def qmiLocDeleteBDSSvInfoStructT_v02_def [THEN arg_cong, of laid] analyse_simps layout_simps cong: idl_cong)

definition qmiLocDeleteGALSvInfoStructT_data_v02 :: "idl_byte list" where
  "qmiLocDeleteGALSvInfoStructT_data_v02 =
    [OP [] QMI_IDL_GENERIC_2_BYTE, OFFSET8 qmiLocDeleteGALSvInfoStructT_v02 ''gnssSvId'',
     OP [] QMI_IDL_GENERIC_1_BYTE, OFFSET8 qmiLocDeleteGALSvInfoStructT_v02 ''deleteSvInfoMask'',
     QMI_IDL_FLAG_END_VALUE]"

lemma qmiLocDeleteGALSvInfoStructT_data_v02_ok [idl_simps]:
  "describe_type qmiLocDeleteGALSvInfoStructT_data_v02 = Some (qmiLocDeleteGALSvInfoStructT_v02, 3, [])"
  by (simp add: qmiLocDeleteGALSvInfoStructT_data_v02_def qmiLocDeleteGALSvInfoStructT_v02_def [THEN arg_cong, of laid] analyse_simps layout_simps cong: idl_cong)

definition qmiLocWifiFixTimeStructT_data_v02 :: "idl_byte list" where
  "qmiLocWifiFixTimeStructT_data_v02 =
    [OP [] QMI_IDL_GENERIC_4_BYTE, OFFSET8 qmiLocWifiFixTimeStructT_v02 ''wifiPositionTime'',
     QMI_IDL_FLAG_END_VALUE]"

lemma qmiLocWifiFixTimeStructT_data_v02_ok [idl_simps]:
  "describe_type qmiLocWifiFixTimeStructT_data_v02 = Some (qmiLocWifiFixTimeStructT_v02, 4, [])"
  by (simp add: qmiLocWifiFixTimeStructT_data_v02_def qmiLocWifiFixTimeStructT_v02_def [THEN arg_cong, of laid] analyse_simps layout_simps cong: idl_cong)

definition qmiLocWifiFixPosStructT_data_v02 :: "idl_byte list" where
  "qmiLocWifiFixPosStructT_data_v02 =
    [OP [] QMI_IDL_GENERIC_8_BYTE, OFFSET8 qmiLocWifiFixPosStructT_v02 ''lat'',
     OP [] QMI_IDL_GENERIC_8_BYTE, OFFSET8 qmiLocWifiFixPosStructT_v02 ''lon'',
     OP [] QMI_IDL_GENERIC_2_BYTE, OFFSET8 qmiLocWifiFixPosStructT_v02 ''hepe'',
     OP [] QMI_IDL_GENERIC_1_BYTE, OFFSET8 qmiLocWifiFixPosStructT_v02 ''numApsUsed'',
     OP [] QMI_IDL_GENERIC_4_BYTE, OFFSET8 qmiLocWifiFixPosStructT_v02 ''fixErrorCode'',
     QMI_IDL_FLAG_END_VALUE]"

lemma qmiLocWifiFixPosStructT_data_v02_ok [idl_simps]:
  "describe_type qmiLocWifiFixPosStructT_data_v02 = Some (qmiLocWifiFixPosStructT_v02, 23, [])"
  by (simp add: qmiLocWifiFixPosStructT_data_v02_def qmiLocWifiFixPosStructT_v02_def [THEN arg_cong, of laid] analyse_simps layout_simps cong: idl_cong)

definition qmiLocWifiApInfoStructT_data_v02 :: "idl_byte list" where
  "qmiLocWifiApInfoStructT_data_v02 =
    [OP [QMI_IDL_FLAGS_IS_ARRAY] QMI_IDL_GENERIC_1_BYTE,
      OFFSET8 qmiLocWifiApInfoStructT_v02 ''macAddr'', LIT QMI_LOC_WIFI_MAC_ADDR_LENGTH_V02,
     OP [] QMI_IDL_GENERIC_4_BYTE, OFFSET8 qmiLocWifiApInfoStructT_v02 ''rssi'',
     OP [] QMI_IDL_GENERIC_2_BYTE, OFFSET8 qmiLocWifiApInfoStructT_v02 ''channel'',
     OP [] QMI_IDL_GENERIC_1_BYTE, OFFSET8 qmiLocWifiApInfoStructT_v02 ''apQualifier'',
     QMI_IDL_FLAG_END_VALUE]"

lemma qmiLocWifiApInfoStructT_data_v02_ok [idl_simps]:
  "describe_type qmiLocWifiApInfoStructT_data_v02 = Some (qmiLocWifiApInfoStructT_v02, 13, [])"
  by (simp add: qmiLocWifiApInfoStructT_data_v02_def qmiLocWifiApInfoStructT_v02_def [THEN arg_cong, of laid] analyse_simps layout_simps cong: idl_cong)

definition qmiLocWifiApSsidStructT_data_v02 :: "idl_byte list" where
  "qmiLocWifiApSsidStructT_data_v02 =
    [OP [QMI_IDL_FLAGS_IS_ARRAY, QMI_IDL_FLAGS_IS_VARIABLE_LEN] QMI_IDL_STRING,
      OFFSET8 qmiLocWifiApSsidStructT_v02 ''ssid'', LIT QMI_LOC_MAX_WIFI_AP_SSID_STR_LENGTH_V02,
     QMI_IDL_FLAG_END_VALUE]"

lemma qmiLocWifiApSsidStructT_data_v02_ok [idl_simps]:
  "describe_type qmiLocWifiApSsidStructT_data_v02 = Some (qmiLocWifiApSsidStructT_v02, 33, [])"
  by (simp add: qmiLocWifiApSsidStructT_data_v02_def qmiLocWifiApSsidStructT_v02_def [THEN arg_cong, of laid] analyse_simps layout_simps cong: idl_cong)

definition qmiLoc3AxisSensorSampleStructT_data_v02 :: "idl_byte list" where
  "qmiLoc3AxisSensorSampleStructT_data_v02 =
    [OP [] QMI_IDL_GENERIC_2_BYTE, OFFSET8 qmiLoc3AxisSensorSampleStructT_v02 ''timeOffset'',
     OP [] QMI_IDL_GENERIC_4_BYTE, OFFSET8 qmiLoc3AxisSensorSampleStructT_v02 ''xAxis'',
     OP [] QMI_IDL_GENERIC_4_BYTE, OFFSET8 qmiLoc3AxisSensorSampleStructT_v02 ''yAxis'',
     OP [] QMI_IDL_GENERIC_4_BYTE, OFFSET8 qmiLoc3AxisSensorSampleStructT_v02 ''zAxis'',
     QMI_IDL_FLAG_END_VALUE]"

lemma qmiLoc3AxisSensorSampleStructT_data_v02_ok [idl_simps]:
  "describe_type qmiLoc3AxisSensorSampleStructT_data_v02 = Some (qmiLoc3AxisSensorSampleStructT_v02, 14, [])"
  by (simp add: qmiLoc3AxisSensorSampleStructT_data_v02_def qmiLoc3AxisSensorSampleStructT_v02_def [THEN arg_cong, of laid] analyse_simps layout_simps cong: idl_cong)

definition qmiLoc3AxisSensorSampleListStructT_data_v02 :: "idl_byte list" where
  "qmiLoc3AxisSensorSampleListStructT_data_v02 =
    [OP [] QMI_IDL_GENERIC_4_BYTE, OFFSET8 qmiLoc3AxisSensorSampleListStructT_v02 ''timeOfFirstSample'',
     OP [] QMI_IDL_GENERIC_1_BYTE, OFFSET8 qmiLoc3AxisSensorSampleListStructT_v02 ''flags'',
     OP [QMI_IDL_FLAGS_IS_ARRAY, QMI_IDL_FLAGS_IS_VARIABLE_LEN] QMI_IDL_AGGREGATE,
      OFFSET8 qmiLoc3AxisSensorSampleListStructT_v02 ''sensorData'',
      LIT QMI_LOC_SENSOR_DATA_MAX_SAMPLES_V02,
      OFFSET8_DIFF qmiLoc3AxisSensorSampleListStructT_v02 ''sensorData'' ''sensorData_len'', TYPE88 0 38,
     QMI_IDL_FLAG_END_VALUE]"

lemma qmiLoc3AxisSensorSampleListStructT_data_v02_ok [idl_simps]:
  "describe_type qmiLoc3AxisSensorSampleListStructT_data_v02 = Some (qmiLoc3AxisSensorSampleListStructT_v02, 6, [(50, (0, 38), qmiLoc3AxisSensorSampleStructT_v02)])"
  by (simp add: qmiLoc3AxisSensorSampleListStructT_data_v02_def qmiLoc3AxisSensorSampleListStructT_v02_def [THEN arg_cong, of laid] analyse_simps layout_simps cong: idl_cong)

definition qmiLocSensorTemperatureSampleStructT_data_v02 :: "idl_byte list" where
  "qmiLocSensorTemperatureSampleStructT_data_v02 =
    [OP [] QMI_IDL_GENERIC_2_BYTE, OFFSET8 qmiLocSensorTemperatureSampleStructT_v02 ''timeOffset'',
     OP [] QMI_IDL_GENERIC_4_BYTE, OFFSET8 qmiLocSensorTemperatureSampleStructT_v02 ''temperature'',
     QMI_IDL_FLAG_END_VALUE]"

lemma qmiLocSensorTemperatureSampleStructT_data_v02_ok [idl_simps]:
  "describe_type qmiLocSensorTemperatureSampleStructT_data_v02 = Some (qmiLocSensorTemperatureSampleStructT_v02, 6, [])"
  by (simp add: qmiLocSensorTemperatureSampleStructT_data_v02_def qmiLocSensorTemperatureSampleStructT_v02_def [THEN arg_cong, of laid] analyse_simps layout_simps cong: idl_cong)

definition qmiLocSensorTemperatureSampleListStructT_data_v02 :: "idl_byte list" where
  "qmiLocSensorTemperatureSampleListStructT_data_v02 =
    [OP [] QMI_IDL_GENERIC_4_BYTE, OFFSET8 qmiLocSensorTemperatureSampleListStructT_v02 ''timeSource'',
     OP [] QMI_IDL_GENERIC_4_BYTE,
      OFFSET8 qmiLocSensorTemperatureSampleListStructT_v02 ''timeOfFirstSample'',
     OP [QMI_IDL_FLAGS_IS_ARRAY, QMI_IDL_FLAGS_IS_VARIABLE_LEN] QMI_IDL_AGGREGATE,
      OFFSET8 qmiLocSensorTemperatureSampleListStructT_v02 ''temperatureData'',
      LIT QMI_LOC_SENSOR_DATA_MAX_SAMPLES_V02,
      OFFSET8_DIFF qmiLocSensorTemperatureSampleListStructT_v02 ''temperatureData'' ''temperatureData_len'',
      TYPE88 0 40,
     QMI_IDL_FLAG_END_VALUE]"

lemma qmiLocSensorTemperatureSampleListStructT_data_v02_ok [idl_simps]:
  "describe_type qmiLocSensorTemperatureSampleListStructT_data_v02 = Some (qmiLocSensorTemperatureSampleListStructT_v02, 9, [(50, (0, 40), qmiLocSensorTemperatureSampleStructT_v02)])"
  by (simp add: qmiLocSensorTemperatureSampleListStructT_data_v02_def qmiLocSensorTemperatureSampleListStructT_v02_def [THEN arg_cong, of laid] analyse_simps layout_simps cong: idl_cong)

definition qmiLocApnProfilesStructT_data_v02 :: "idl_byte list" where
  "qmiLocApnProfilesStructT_data_v02 =
    [OP [] QMI_IDL_GENERIC_4_BYTE, OFFSET8 qmiLocApnProfilesStructT_v02 ''pdnType'',
     OP [QMI_IDL_FLAGS_IS_ARRAY, QMI_IDL_FLAGS_IS_VARIABLE_LEN] QMI_IDL_STRING,
      OFFSET8 qmiLocApnProfilesStructT_v02 ''apnName'', LIT QMI_LOC_MAX_APN_NAME_LENGTH_V02,
     QMI_IDL_FLAG_END_VALUE]"

lemma qmiLocApnProfilesStructT_data_v02_ok [idl_simps]:
  "describe_type qmiLocApnProfilesStructT_data_v02 = Some (qmiLocApnProfilesStructT_v02, 105, [])"
  by (simp add: qmiLocApnProfilesStructT_data_v02_def qmiLocApnProfilesStructT_v02_def [THEN arg_cong, of laid] analyse_simps layout_simps cong: idl_cong)

definition qmiLocCircularGeofenceArgsStructT_data_v02 :: "idl_byte list" where
  "qmiLocCircularGeofenceArgsStructT_data_v02 =
    [OP [] QMI_IDL_GENERIC_8_BYTE, OFFSET8 qmiLocCircularGeofenceArgsStructT_v02 ''latitude'',
     OP [] QMI_IDL_GENERIC_8_BYTE, OFFSET8 qmiLocCircularGeofenceArgsStructT_v02 ''longitude'',
     OP [] QMI_IDL_GENERIC_4_BYTE, OFFSET8 qmiLocCircularGeofenceArgsStructT_v02 ''radius'',
     QMI_IDL_FLAG_END_VALUE]"

lemma qmiLocCircularGeofenceArgsStructT_data_v02_ok [idl_simps]:
  "describe_type qmiLocCircularGeofenceArgsStructT_data_v02 = Some (qmiLocCircularGeofenceArgsStructT_v02, 20, [])"
  by (simp add: qmiLocCircularGeofenceArgsStructT_data_v02_def qmiLocCircularGeofenceArgsStructT_v02_def [THEN arg_cong, of laid] analyse_simps layout_simps cong: idl_cong)

definition qmiLocGeofenceMotionStateConfigStructT_data_v02 :: "idl_byte list" where
  "qmiLocGeofenceMotionStateConfigStructT_data_v02 =
    [OP [] QMI_IDL_GENERIC_4_BYTE, OFFSET8 qmiLocGeofenceMotionStateConfigStructT_v02 ''motionState'',
     OP [] QMI_IDL_GENERIC_4_BYTE,
      OFFSET8 qmiLocGeofenceMotionStateConfigStructT_v02 ''motionStateSpeed'',
     QMI_IDL_FLAG_END_VALUE]"

lemma qmiLocGeofenceMotionStateConfigStructT_data_v02_ok [idl_simps]:
  "describe_type qmiLocGeofenceMotionStateConfigStructT_data_v02 = Some (qmiLocGeofenceMotionStateConfigStructT_v02, 8, [])"
  by (simp add: qmiLocGeofenceMotionStateConfigStructT_data_v02_def qmiLocGeofenceMotionStateConfigStructT_v02_def [THEN arg_cong, of laid] analyse_simps layout_simps cong: idl_cong)

definition qmiLocTimeZoneStructT_data_v02 :: "idl_byte list" where
  "qmiLocTimeZoneStructT_data_v02 =
    [OP [] QMI_IDL_GENERIC_8_BYTE, OFFSET8 qmiLocTimeZoneStructT_v02 ''dstOffset'',
     OP [] QMI_IDL_GENERIC_8_BYTE, OFFSET8 qmiLocTimeZoneStructT_v02 ''rawOffset'',
     QMI_IDL_FLAG_END_VALUE]"

lemma qmiLocTimeZoneStructT_data_v02_ok [idl_simps]:
  "describe_type qmiLocTimeZoneStructT_data_v02 = Some (qmiLocTimeZoneStructT_v02, 16, [])"
  by (simp add: qmiLocTimeZoneStructT_data_v02_def qmiLocTimeZoneStructT_v02_def [THEN arg_cong, of laid] analyse_simps layout_simps cong: idl_cong)

definition qmiLocMotionDataStructT_data_v02 :: "idl_byte list" where
  "qmiLocMotionDataStructT_data_v02 =
    [OP [] QMI_IDL_GENERIC_4_BYTE, OFFSET8 qmiLocMotionDataStructT_v02 ''motion_state'',
     OP [] QMI_IDL_GENERIC_4_BYTE, OFFSET8 qmiLocMotionDataStructT_v02 ''motion_mode'',
     OP [] QMI_IDL_GENERIC_4_BYTE, OFFSET8 qmiLocMotionDataStructT_v02 ''probability_of_state'',
     OP [] QMI_IDL_GENERIC_2_BYTE, OFFSET8 qmiLocMotionDataStructT_v02 ''age'',
     OP [] QMI_IDL_GENERIC_2_BYTE, OFFSET8 qmiLocMotionDataStructT_v02 ''timeout'',
     QMI_IDL_FLAG_END_VALUE]"

lemma qmiLocMotionDataStructT_data_v02_ok [idl_simps]:
  "describe_type qmiLocMotionDataStructT_data_v02 = Some (qmiLocMotionDataStructT_v02, 16, [])"
  by (simp add: qmiLocMotionDataStructT_data_v02_def qmiLocMotionDataStructT_v02_def [THEN arg_cong, of laid] analyse_simps layout_simps cong: idl_cong)

definition qmiLocGSMCellIdStructT_data_v02 :: "idl_byte list" where
  "qmiLocGSMCellIdStructT_data_v02 =
    [OP [] QMI_IDL_GENERIC_4_BYTE, OFFSET8 qmiLocGSMCellIdStructT_v02 ''MCC'',
     OP [] QMI_IDL_GENERIC_4_BYTE, OFFSET8 qmiLocGSMCellIdStructT_v02 ''MNC'',
     OP [] QMI_IDL_GENERIC_4_BYTE, OFFSET8 qmiLocGSMCellIdStructT_v02 ''LAC'',
     OP [] QMI_IDL_GENERIC_4_BYTE, OFFSET8 qmiLocGSMCellIdStructT_v02 ''CID'',
     QMI_IDL_FLAG_END_VALUE]"

lemma qmiLocGSMCellIdStructT_data_v02_ok [idl_simps]:
  "describe_type qmiLocGSMCellIdStructT_data_v02 = Some (qmiLocGSMCellIdStructT_v02, 16, [])"
  by (simp add: qmiLocGSMCellIdStructT_data_v02_def qmiLocGSMCellIdStructT_v02_def [THEN arg_cong, of laid] analyse_simps layout_simps cong: idl_cong)

definition qmiLocWCDMACellIdStructT_data_v02 :: "idl_byte list" where
  "qmiLocWCDMACellIdStructT_data_v02 =
    [OP [] QMI_IDL_GENERIC_4_BYTE, OFFSET8 qmiLocWCDMACellIdStructT_v02 ''mcc'',
     OP [] QMI_IDL_GENERIC_4_BYTE, OFFSET8 qmiLocWCDMACellIdStructT_v02 ''mnc'',
     OP [] QMI_IDL_GENERIC_4_BYTE, OFFSET8 qmiLocWCDMACellIdStructT_v02 ''cid'',
     QMI_IDL_FLAG_END_VALUE]"

lemma qmiLocWCDMACellIdStructT_data_v02_ok [idl_simps]:
  "describe_type qmiLocWCDMACellIdStructT_data_v02 = Some (qmiLocWCDMACellIdStructT_v02, 12, [])"
  by (simp add: qmiLocWCDMACellIdStructT_data_v02_def qmiLocWCDMACellIdStructT_v02_def [THEN arg_cong, of laid] analyse_simps layout_simps cong: idl_cong)

definition qmiLocTDSCDMACellIdStructT_data_v02 :: "idl_byte list" where
  "qmiLocTDSCDMACellIdStructT_data_v02 =
    [OP [] QMI_IDL_GENERIC_4_BYTE, OFFSET8 qmiLocTDSCDMACellIdStructT_v02 ''mcc'',
     OP [] QMI_IDL_GENERIC_4_BYTE, OFFSET8 qmiLocTDSCDMACellIdStructT_v02 ''mnc'',
     OP [] QMI_IDL_GENERIC_4_BYTE, OFFSET8 qmiLocTDSCDMACellIdStructT_v02 ''cid'',
     OP [] QMI_IDL_GENERIC_4_BYTE, OFFSET8 qmiLocTDSCDMACellIdStructT_v02 ''lac'',
     QMI_IDL_FLAG_END_VALUE]"

lemma qmiLocTDSCDMACellIdStructT_data_v02_ok [idl_simps]:
  "describe_type qmiLocTDSCDMACellIdStructT_data_v02 = Some (qmiLocTDSCDMACellIdStructT_v02, 16, [])"
  by (simp add: qmiLocTDSCDMACellIdStructT_data_v02_def qmiLocTDSCDMACellIdStructT_v02_def [THEN arg_cong, of laid] analyse_simps layout_simps cong: idl_cong)

definition qmiLocBatchedReportStructT_data_v02 :: "idl_byte list" where
  "qmiLocBatchedReportStructT_data_v02 =
    [OP [] QMI_IDL_GENERIC_4_BYTE, OFFSET8 qmiLocBatchedReportStructT_v02 ''fixId'',
     OP [] QMI_IDL_GENERIC_8_BYTE, OFFSET8 qmiLocBatchedReportStructT_v02 ''validFields'',
     OP [] QMI_IDL_GENERIC_8_BYTE, OFFSET8 qmiLocBatchedReportStructT_v02 ''latitude'',
     OP [] QMI_IDL_GENERIC_8_BYTE, OFFSET8 qmiLocBatchedReportStructT_v02 ''longitude'',
     OP [] QMI_IDL_GENERIC_4_BYTE, OFFSET8 qmiLocBatchedReportStructT_v02 ''horUncCircular'',
     OP [] QMI_IDL_GENERIC_4_BYTE, OFFSET8 qmiLocBatchedReportStructT_v02 ''speedHorizontal'',
     OP [] QMI_IDL_GENERIC_4_BYTE, OFFSET8 qmiLocBatchedReportStructT_v02 ''speedUnc'',
     OP [] QMI_IDL_GENERIC_4_BYTE, OFFSET8 qmiLocBatchedReportStructT_v02 ''altitudeWrtEllipsoid'',
     OP [] QMI_IDL_GENERIC_4_BYTE, OFFSET8 qmiLocBatchedReportStructT_v02 ''speedVertical'',
     OP [] QMI_IDL_GENERIC_4_BYTE, OFFSET8 qmiLocBatchedReportStructT_v02 ''heading'',
     OP [] QMI_IDL_GENERIC_4_BYTE, OFFSET8 qmiLocBatchedReportStructT_v02 ''headingUnc'',
     OP [] QMI_IDL_GENERIC_4_BYTE, OFFSET8 qmiLocBatchedReportStructT_v02 ''technologyMask'',
     OP [] QMI_IDL_GENERIC_8_BYTE, OFFSET8 qmiLocBatchedReportStructT_v02 ''timestampUtc'',
     OP [] QMI_IDL_GENERIC_4_BYTE, OFFSET8 qmiLocBatchedReportStructT_v02 ''timeUnc'',
     OP [] QMI_IDL_GENERIC_4_BYTE, OFFSET8 qmiLocBatchedReportStructT_v02 ''magneticDeviation'',
     OP [] QMI_IDL_GENERIC_4_BYTE, OFFSET8 qmiLocBatchedReportStructT_v02 ''vertUnc'',
     OP [] QMI_IDL_GENERIC_1_BYTE, OFFSET8 qmiLocBatchedReportStructT_v02 ''horConfidence'',
     OP [] QMI_IDL_AGGREGATE, OFFSET8 qmiLocBatchedReportStructT_v02 ''gpsTime'', TYPE88 0 2,
     QMI_IDL_FLAG_END_VALUE]"

lemma qmiLocBatchedReportStructT_data_v02_ok [idl_simps]:
  "describe_type qmiLocBatchedReportStructT_data_v02 = Some (qmiLocBatchedReportStructT_v02, 81, [(1, (0, 2), qmiLocGPSTimeStructT_v02)])"
  by (simp add: qmiLocBatchedReportStructT_data_v02_def qmiLocBatchedReportStructT_v02_def [THEN arg_cong, of laid] analyse_simps layout_simps cong: idl_cong)

definition qmiLocWifiApDataStructT_data_v02 :: "idl_byte list" where
  "qmiLocWifiApDataStructT_data_v02 =
    [OP [] QMI_IDL_GENERIC_4_BYTE, OFFSET8 qmiLocWifiApDataStructT_v02 ''wifiApDataMask'',
     OP [QMI_IDL_FLAGS_IS_ARRAY] QMI_IDL_GENERIC_1_BYTE,
      OFFSET8 qmiLocWifiApDataStructT_v02 ''macAddress'', LIT QMI_LOC_WIFI_MAC_ADDR_LENGTH_V02,
     OP [] QMI_IDL_GENERIC_4_BYTE, OFFSET8 qmiLocWifiApDataStructT_v02 ''apTransmitPower'',
     OP [] QMI_IDL_GENERIC_4_BYTE, OFFSET8 qmiLocWifiApDataStructT_v02 ''apAntennaGain'',
     OP [] QMI_IDL_GENERIC_4_BYTE, OFFSET8 qmiLocWifiApDataStructT_v02 ''apSignalToNoise'',
     OP [] QMI_IDL_GENERIC_4_BYTE, OFFSET8 qmiLocWifiApDataStructT_v02 ''apDeviceType'',
     OP [] QMI_IDL_GENERIC_4_BYTE, OFFSET8 qmiLocWifiApDataStructT_v02 ''apRssi'',
     OP [] QMI_IDL_GENERIC_2_BYTE, OFFSET8 qmiLocWifiApDataStructT_v02 ''apChannel'',
     OP [] QMI_IDL_GENERIC_4_BYTE, OFFSET8 qmiLocWifiApDataStructT_v02 ''apRoundTripDelay'',
     OP [] QMI_IDL_GENERIC_4_BYTE, OFFSET8 qmiLocWifiApDataStructT_v02 ''apRoundTripDelayUnit'',
     OP [] QMI_IDL_GENERIC_1_BYTE, OFFSET8 qmiLocWifiApDataStructT_v02 ''apRoundTripDelayAccuracy'',
     OP [] QMI_IDL_GENERIC_4_BYTE, OFFSET8 qmiLocWifiApDataStructT_v02 ''mobileSignalToNoise'',
     OP [] QMI_IDL_GENERIC_4_BYTE, OFFSET8 qmiLocWifiApDataStructT_v02 ''mobileRssi'',
     QMI_IDL_FLAG_END_VALUE]"

lemma qmiLocWifiApDataStructT_data_v02_ok [idl_simps]:
  "describe_type qmiLocWifiApDataStructT_data_v02 = Some (qmiLocWifiApDataStructT_v02, 49, [])"
  by (simp add: qmiLocWifiApDataStructT_data_v02_def qmiLocWifiApDataStructT_v02_def [THEN arg_cong, of laid] analyse_simps layout_simps cong: idl_cong)

definition qmiLocWifiApAdditionalDataStructT_data_v02 :: "idl_byte list" where
  "qmiLocWifiApAdditionalDataStructT_data_v02 =
    [OP [] QMI_IDL_GENERIC_8_BYTE, OFFSET8 qmiLocWifiApAdditionalDataStructT_v02 ''rssiTimestamp'',
     OP [] QMI_IDL_GENERIC_4_BYTE, OFFSET8 qmiLocWifiApAdditionalDataStructT_v02 ''measAge'',
     OP [] QMI_IDL_GENERIC_1_BYTE, OFFSET8 qmiLocWifiApAdditionalDataStructT_v02 ''servingAccessPoint'',
     OP [] QMI_IDL_GENERIC_4_BYTE, OFFSET8 qmiLocWifiApAdditionalDataStructT_v02 ''channelFrequency'',
     OP [QMI_IDL_FLAGS_IS_ARRAY, QMI_IDL_FLAGS_IS_VARIABLE_LEN] QMI_IDL_STRING,
      OFFSET8 qmiLocWifiApAdditionalDataStructT_v02 ''ssid'',
      LIT QMI_LOC_MAX_WIFI_AP_SSID_STR_LENGTH_V02,
     OP [] QMI_IDL_GENERIC_4_BYTE,
      OFFSET8 qmiLocWifiApAdditionalDataStructT_v02 ''apHighResolutionRssi'',
     QMI_IDL_FLAG_END_VALUE]"

lemma qmiLocWifiApAdditionalDataStructT_data_v02_ok [idl_simps]:
  "describe_type qmiLocWifiApAdditionalDataStructT_data_v02 = Some (qmiLocWifiApAdditionalDataStructT_v02, 54, [])"
  by (simp add: qmiLocWifiApAdditionalDataStructT_data_v02_def qmiLocWifiApAdditionalDataStructT_v02_def [THEN arg_cong, of laid] analyse_simps layout_simps cong: idl_cong)

definition qmiLocVehicleSensorSampleStructT_data_v02 :: "idl_byte list" where
  "qmiLocVehicleSensorSampleStructT_data_v02 =
    [OP [] QMI_IDL_GENERIC_4_BYTE, OFFSET8 qmiLocVehicleSensorSampleStructT_v02 ''timeOffset'',
     OP [QMI_IDL_FLAGS_IS_ARRAY, QMI_IDL_FLAGS_IS_VARIABLE_LEN] QMI_IDL_GENERIC_4_BYTE,
      OFFSET8 qmiLocVehicleSensorSampleStructT_v02 ''axisSample'',
      LIT QMI_LOC_VEHICLE_SENSOR_DATA_MAX_AXES_V02,
      OFFSET8_DIFF qmiLocVehicleSensorSampleStructT_v02 ''axisSample'' ''axisSample_len'',
     QMI_IDL_FLAG_END_VALUE]"

lemma qmiLocVehicleSensorSampleStructT_data_v02_ok [idl_simps]:
  "describe_type qmiLocVehicleSensorSampleStructT_data_v02 = Some (qmiLocVehicleSensorSampleStructT_v02, 17, [])"
  by (simp add: qmiLocVehicleSensorSampleStructT_data_v02_def qmiLocVehicleSensorSampleStructT_v02_def [THEN arg_cong, of laid] analyse_simps layout_simps cong: idl_cong)

definition qmiLocVehicleSensorSampleListStructType_data_v02 :: "idl_byte list" where
  "qmiLocVehicleSensorSampleListStructType_data_v02 =
    [OP [] QMI_IDL_GENERIC_4_BYTE,
      OFFSET8 qmiLocVehicleSensorSampleListStructType_v02 ''sampleTimeBase'',
     OP [] QMI_IDL_GENERIC_1_BYTE, OFFSET8 qmiLocVehicleSensorSampleListStructType_v02 ''axesValidity'',
     OP [QMI_IDL_FLAGS_IS_ARRAY, QMI_IDL_FLAGS_IS_VARIABLE_LEN] QMI_IDL_AGGREGATE,
      OFFSET8 qmiLocVehicleSensorSampleListStructType_v02 ''sensorData'',
      LIT QMI_LOC_VEHICLE_SENSOR_DATA_MAX_SAMPLES_V02,
      OFFSET8_DIFF qmiLocVehicleSensorSampleListStructType_v02 ''sensorData'' ''sensorData_len'',
      TYPE88 0 53,
     QMI_IDL_FLAG_END_VALUE]"

lemma qmiLocVehicleSensorSampleListStructType_data_v02_ok [idl_simps]:
  "describe_type qmiLocVehicleSensorSampleListStructType_data_v02 = Some (qmiLocVehicleSensorSampleListStructType_v02, 6, [(65, (0, 53), qmiLocVehicleSensorSampleStructT_v02)])"
  by (simp add: qmiLocVehicleSensorSampleListStructType_data_v02_def qmiLocVehicleSensorSampleListStructType_v02_def [THEN arg_cong, of laid] analyse_simps layout_simps cong: idl_cong)

definition qmiLocVehicleOdometrySampleStructT_data_v02 :: "idl_byte list" where
  "qmiLocVehicleOdometrySampleStructT_data_v02 =
    [OP [] QMI_IDL_GENERIC_4_BYTE, OFFSET8 qmiLocVehicleOdometrySampleStructT_v02 ''timeOffset'',
     OP [QMI_IDL_FLAGS_IS_ARRAY, QMI_IDL_FLAGS_IS_VARIABLE_LEN] QMI_IDL_GENERIC_4_BYTE,
      OFFSET8 qmiLocVehicleOdometrySampleStructT_v02 ''distanceTravelled'',
      LIT QMI_LOC_VEHICLE_ODOMETRY_MAX_MEASUREMENTS_V02,
      OFFSET8_DIFF qmiLocVehicleOdometrySampleStructT_v02 ''distanceTravelled'' ''distanceTravelled_len'',
     QMI_IDL_FLAG_END_VALUE]"

lemma qmiLocVehicleOdometrySampleStructT_data_v02_ok [idl_simps]:
  "describe_type qmiLocVehicleOdometrySampleStructT_data_v02 = Some (qmiLocVehicleOdometrySampleStructT_v02, 17, [])"
  by (simp add: qmiLocVehicleOdometrySampleStructT_data_v02_def qmiLocVehicleOdometrySampleStructT_v02_def [THEN arg_cong, of laid] analyse_simps layout_simps cong: idl_cong)

definition qmiLocVehicleOdometrySampleListStructT_data_v02 :: "idl_byte list" where
  "qmiLocVehicleOdometrySampleListStructT_data_v02 =
    [OP [] QMI_IDL_GENERIC_4_BYTE,
      OFFSET8 qmiLocVehicleOdometrySampleListStructT_v02 ''sampleTimeBase'',
     OP [] QMI_IDL_GENERIC_4_BYTE, OFFSET8 qmiLocVehicleOdometrySampleListStructT_v02 ''flags'',
     OP [] QMI_IDL_GENERIC_4_BYTE, OFFSET8 qmiLocVehicleOdometrySampleListStructT_v02 ''wheelFlags'',
     OP [] QMI_IDL_GENERIC_4_BYTE,
      OFFSET8 qmiLocVehicleOdometrySampleListStructT_v02 ''distanceTravelledBase'',
     OP [QMI_IDL_FLAGS_IS_ARRAY, QMI_IDL_FLAGS_IS_VARIABLE_LEN] QMI_IDL_AGGREGATE,
      OFFSET8 qmiLocVehicleOdometrySampleListStructT_v02 ''odometryData'',
      LIT QMI_LOC_VEHICLE_SENSOR_DATA_MAX_SAMPLES_V02,
      OFFSET8_DIFF qmiLocVehicleOdometrySampleListStructT_v02 ''odometryData'' ''odometryData_len'',
      TYPE88 0 55,
     QMI_IDL_FLAG_END_VALUE]"

lemma qmiLocVehicleOdometrySampleListStructT_data_v02_ok [idl_simps]:
  "describe_type qmiLocVehicleOdometrySampleListStructT_data_v02 = Some (qmiLocVehicleOdometrySampleListStructT_v02, 17, [(65, (0, 55), qmiLocVehicleOdometrySampleStructT_v02)])"
  by (simp add: qmiLocVehicleOdometrySampleListStructT_data_v02_def qmiLocVehicleOdometrySampleListStructT_v02_def [THEN arg_cong, of laid] analyse_simps layout_simps cong: idl_cong)

definition qmiLocRcvrClockFrequencyInfoStructT_data_v02 :: "idl_byte list" where
  "qmiLocRcvrClockFrequencyInfoStructT_data_v02 =
    [OP [] QMI_IDL_GENERIC_4_BYTE, OFFSET8 qmiLocRcvrClockFrequencyInfoStructT_v02 ''clockDrift'',
     OP [] QMI_IDL_GENERIC_4_BYTE, OFFSET8 qmiLocRcvrClockFrequencyInfoStructT_v02 ''clockDriftUnc'',
     OP [] QMI_IDL_GENERIC_4_BYTE, OFFSET8 qmiLocRcvrClockFrequencyInfoStructT_v02 ''sourceOfFreq'',
     QMI_IDL_FLAG_END_VALUE]"

lemma qmiLocRcvrClockFrequencyInfoStructT_data_v02_ok [idl_simps]:
  "describe_type qmiLocRcvrClockFrequencyInfoStructT_data_v02 = Some (qmiLocRcvrClockFrequencyInfoStructT_v02, 12, [])"
  by (simp add: qmiLocRcvrClockFrequencyInfoStructT_data_v02_def qmiLocRcvrClockFrequencyInfoStructT_v02_def [THEN arg_cong, of laid] analyse_simps layout_simps cong: idl_cong)

definition qmiLocLeapSecondInfoStructT_data_v02 :: "idl_byte list" where
  "qmiLocLeapSecondInfoStructT_data_v02 =
    [OP [] QMI_IDL_GENERIC_1_BYTE, OFFSET8 qmiLocLeapSecondInfoStructT_v02 ''leapSec'',
     OP [] QMI_IDL_GENERIC_1_BYTE, OFFSET8 qmiLocLeapSecondInfoStructT_v02 ''leapSecUnc'',
     QMI_IDL_FLAG_END_VALUE]"

lemma qmiLocLeapSecondInfoStructT_data_v02_ok [idl_simps]:
  "describe_type qmiLocLeapSecondInfoStructT_data_v02 = Some (qmiLocLeapSecondInfoStructT_v02, 2, [])"
  by (simp add: qmiLocLeapSecondInfoStructT_data_v02_def qmiLocLeapSecondInfoStructT_v02_def [THEN arg_cong, of laid] analyse_simps layout_simps cong: idl_cong)

definition qmiLocInterSystemBiasStructT_data_v02 :: "idl_byte list" where
  "qmiLocInterSystemBiasStructT_data_v02 =
    [OP [] QMI_IDL_GENERIC_1_BYTE, OFFSET8 qmiLocInterSystemBiasStructT_v02 ''validMask'',
     OP [] QMI_IDL_GENERIC_4_BYTE, OFFSET8 qmiLocInterSystemBiasStructT_v02 ''timeBias'',
     OP [] QMI_IDL_GENERIC_4_BYTE, OFFSET8 qmiLocInterSystemBiasStructT_v02 ''timeBiasUnc'',
     QMI_IDL_FLAG_END_VALUE]"

lemma qmiLocInterSystemBiasStructT_data_v02_ok [idl_simps]:
  "describe_type qmiLocInterSystemBiasStructT_data_v02 = Some (qmiLocInterSystemBiasStructT_v02, 9, [])"
  by (simp add: qmiLocInterSystemBiasStructT_data_v02_def qmiLocInterSystemBiasStructT_v02_def [THEN arg_cong, of laid] analyse_simps layout_simps cong: idl_cong)

definition qmiLocGnssTimeStructT_data_v02 :: "idl_byte list" where
  "qmiLocGnssTimeStructT_data_v02 =
    [OP [] QMI_IDL_GENERIC_4_BYTE, OFFSET8 qmiLocGnssTimeStructT_v02 ''system'',
     OP [] QMI_IDL_GENERIC_2_BYTE, OFFSET8 qmiLocGnssTimeStructT_v02 ''systemWeek'',
     OP [] QMI_IDL_GENERIC_4_BYTE, OFFSET8 qmiLocGnssTimeStructT_v02 ''systemMsec'',
     OP [] QMI_IDL_GENERIC_4_BYTE, OFFSET8 qmiLocGnssTimeStructT_v02 ''systemClkTimeBias'',
     OP [] QMI_IDL_GENERIC_4_BYTE, OFFSET8 qmiLocGnssTimeStructT_v02 ''systemClkTimeUncMs'',
     QMI_IDL_FLAG_END_VALUE]"

lemma qmiLocGnssTimeStructT_data_v02_ok [idl_simps]:
  "describe_type qmiLocGnssTimeStructT_data_v02 = Some (qmiLocGnssTimeStructT_v02, 18, [])"
  by (simp add: qmiLocGnssTimeStructT_data_v02_def qmiLocGnssTimeStructT_v02_def [THEN arg_cong, of laid] analyse_simps layout_simps cong: idl_cong)

definition qmiLocGloTimeStructT_data_v02 :: "idl_byte list" where
  "qmiLocGloTimeStructT_data_v02 =
    [OP [] QMI_IDL_GENERIC_1_BYTE, OFFSET8 qmiLocGloTimeStructT_v02 ''gloFourYear'',
     OP [] QMI_IDL_GENERIC_2_BYTE, OFFSET8 qmiLocGloTimeStructT_v02 ''gloDays'',
     OP [] QMI_IDL_GENERIC_4_BYTE, OFFSET8 qmiLocGloTimeStructT_v02 ''gloMsec'',
     OP [] QMI_IDL_GENERIC_4_BYTE, OFFSET8 qmiLocGloTimeStructT_v02 ''gloClkTimeBias'',
     OP [] QMI_IDL_GENERIC_4_BYTE, OFFSET8 qmiLocGloTimeStructT_v02 ''gloClkTimeUncMs'',
     QMI_IDL_FLAG_END_VALUE]"

lemma qmiLocGloTimeStructT_data_v02_ok [idl_simps]:
  "describe_type qmiLocGloTimeStructT_data_v02 = Some (qmiLocGloTimeStructT_v02, 15, [])"
  by (simp add: qmiLocGloTimeStructT_data_v02_def qmiLocGloTimeStructT_v02_def [THEN arg_cong, of laid] analyse_simps layout_simps cong: idl_cong)

definition qmiLocGnssTimeExtStructT_data_v02 :: "idl_byte list" where
  "qmiLocGnssTimeExtStructT_data_v02 =
    [OP [] QMI_IDL_GENERIC_4_BYTE, OFFSET8 qmiLocGnssTimeExtStructT_v02 ''refFCount'',
     OP [] QMI_IDL_GENERIC_1_BYTE, OFFSET8 qmiLocGnssTimeExtStructT_v02 ''systemRtc_valid'',
     OP [] QMI_IDL_GENERIC_8_BYTE, OFFSET8 qmiLocGnssTimeExtStructT_v02 ''systemRtcMs'',
     OP [] QMI_IDL_GENERIC_4_BYTE, OFFSET8 qmiLocGnssTimeExtStructT_v02 ''sourceOfTime'',
     QMI_IDL_FLAG_END_VALUE]"

lemma qmiLocGnssTimeExtStructT_data_v02_ok [idl_simps]:
  "describe_type qmiLocGnssTimeExtStructT_data_v02 = Some (qmiLocGnssTimeExtStructT_v02, 17, [])"
  by (simp add: qmiLocGnssTimeExtStructT_data_v02_def qmiLocGnssTimeExtStructT_v02_def [THEN arg_cong, of laid] analyse_simps layout_simps cong: idl_cong)

definition qmiLocSVTimeSpeedStructT_data_v02 :: "idl_byte list" where
  "qmiLocSVTimeSpeedStructT_data_v02 =
    [OP [] QMI_IDL_GENERIC_4_BYTE, OFFSET8 qmiLocSVTimeSpeedStructT_v02 ''svTimeMs'',
     OP [] QMI_IDL_GENERIC_4_BYTE, OFFSET8 qmiLocSVTimeSpeedStructT_v02 ''svTimeSubMs'',
     OP [] QMI_IDL_GENERIC_4_BYTE, OFFSET8 qmiLocSVTimeSpeedStructT_v02 ''svTimeUncMs'',
     OP [] QMI_IDL_GENERIC_4_BYTE, OFFSET8 qmiLocSVTimeSpeedStructT_v02 ''dopplerShift'',
     OP [] QMI_IDL_GENERIC_4_BYTE, OFFSET8 qmiLocSVTimeSpeedStructT_v02 ''dopplerShiftUnc'',
     OP [] QMI_IDL_GENERIC_1_BYTE, OFFSET8 qmiLocSVTimeSpeedStructT_v02 ''dopplerAccel_valid'',
     OP [] QMI_IDL_GENERIC_4_BYTE, OFFSET8 qmiLocSVTimeSpeedStructT_v02 ''dopplerAccel'',
     QMI_IDL_FLAG_END_VALUE]"

lemma qmiLocSVTimeSpeedStructT_data_v02_ok [idl_simps]:
  "describe_type qmiLocSVTimeSpeedStructT_data_v02 = Some (qmiLocSVTimeSpeedStructT_v02, 25, [])"
  by (simp add: qmiLocSVTimeSpeedStructT_data_v02_def qmiLocSVTimeSpeedStructT_v02_def [THEN arg_cong, of laid] analyse_simps layout_simps cong: idl_cong)

definition qmiLocSVMeasurementStructT_data_v02 :: "idl_byte list" where
  "qmiLocSVMeasurementStructT_data_v02 =
    [OP [] QMI_IDL_GENERIC_2_BYTE, OFFSET8 qmiLocSVMeasurementStructT_v02 ''gnssSvId'',
     OP [] QMI_IDL_GENERIC_1_BYTE, OFFSET8 qmiLocSVMeasurementStructT_v02 ''gloFrequency'',
     OP [] QMI_IDL_GENERIC_4_BYTE, OFFSET8 qmiLocSVMeasurementStructT_v02 ''svStatus'',
     OP [] QMI_IDL_GENERIC_2_BYTE, OFFSET8 qmiLocSVMeasurementStructT_v02 ''validMask'',
     OP [] QMI_IDL_GENERIC_1_BYTE, OFFSET8 qmiLocSVMeasurementStructT_v02 ''healthStatus'',
     OP [] QMI_IDL_GENERIC_1_BYTE, OFFSET8 qmiLocSVMeasurementStructT_v02 ''svInfoMask'',
     OP [] QMI_IDL_GENERIC_8_BYTE, OFFSET8 qmiLocSVMeasurementStructT_v02 ''validMeasStatusMask'',
     OP [] QMI_IDL_GENERIC_8_BYTE, OFFSET8 qmiLocSVMeasurementStructT_v02 ''measurementStatus'',
     OP [] QMI_IDL_GENERIC_2_BYTE, OFFSET8 qmiLocSVMeasurementStructT_v02 ''CNo'',
     OP [] QMI_IDL_GENERIC_2_BYTE, OFFSET8 qmiLocSVMeasurementStructT_v02 ''gloRfLoss'',
     OP [] QMI_IDL_GENERIC_4_BYTE, OFFSET8 qmiLocSVMeasurementStructT_v02 ''measLatency'',
     OP [] QMI_IDL_AGGREGATE, OFFSET8 qmiLocSVMeasurementStructT_v02 ''svTimeSpeed'', TYPE88 0 63,
     OP [] QMI_IDL_GENERIC_1_BYTE, OFFSET8 qmiLocSVMeasurementStructT_v02 ''lossOfLock'',
     OP [] QMI_IDL_GENERIC_4_BYTE, OFFSET8 qmiLocSVMeasurementStructT_v02 ''multipathEstimate'',
     OP [] QMI_IDL_GENERIC_4_BYTE, OFFSET8 qmiLocSVMeasurementStructT_v02 ''fineSpeed'',
     OP [] QMI_IDL_GENERIC_4_BYTE, OFFSET8 qmiLocSVMeasurementStructT_v02 ''fineSpeedUnc'',
     OP [] QMI_IDL_GENERIC_8_BYTE, OFFSET8 qmiLocSVMeasurementStructT_v02 ''carrierPhase'',
     OP [] QMI_IDL_GENERIC_1_BYTE, OFFSET8 qmiLocSVMeasurementStructT_v02 ''cycleSlipCount'',
     OP [] QMI_IDL_GENERIC_4_BYTE, OFFSET8 qmiLocSVMeasurementStructT_v02 ''svAzimuth'',
     OP [] QMI_IDL_GENERIC_4_BYTE, OFFSET8 qmiLocSVMeasurementStructT_v02 ''svElevation'',
     QMI_IDL_FLAG_END_VALUE]"

lemma qmiLocSVMeasurementStructT_data_v02_ok [idl_simps]:
  "describe_type qmiLocSVMeasurementStructT_data_v02 = Some (qmiLocSVMeasurementStructT_v02, 65, [(1, (0, 63), qmiLocSVTimeSpeedStructT_v02)])"
  by (simp add: qmiLocSVMeasurementStructT_data_v02_def qmiLocSVMeasurementStructT_v02_def [THEN arg_cong, of laid] analyse_simps layout_simps cong: idl_cong)

definition qmiLocDgnssSVMeasurementStructT_data_v02 :: "idl_byte list" where
  "qmiLocDgnssSVMeasurementStructT_data_v02 =
    [OP [] QMI_IDL_GENERIC_8_BYTE, OFFSET8 qmiLocDgnssSVMeasurementStructT_v02 ''dgnssMeasStatus'',
     OP [] QMI_IDL_GENERIC_4_BYTE,
      OFFSET8 qmiLocDgnssSVMeasurementStructT_v02 ''diffDataEpochTimeMsec'',
     OP [] QMI_IDL_GENERIC_4_BYTE, OFFSET8 qmiLocDgnssSVMeasurementStructT_v02 ''prCorrMeters'',
     OP [] QMI_IDL_GENERIC_4_BYTE, OFFSET8 qmiLocDgnssSVMeasurementStructT_v02 ''prrCorrMetersPerSec'',
     QMI_IDL_FLAG_END_VALUE]"

lemma qmiLocDgnssSVMeasurementStructT_data_v02_ok [idl_simps]:
  "describe_type qmiLocDgnssSVMeasurementStructT_data_v02 = Some (qmiLocDgnssSVMeasurementStructT_v02, 20, [])"
  by (simp add: qmiLocDgnssSVMeasurementStructT_data_v02_def qmiLocDgnssSVMeasurementStructT_v02_def [THEN arg_cong, of laid] analyse_simps layout_simps cong: idl_cong)

definition qmiLocWifiApMacAddressStructT_data_v02 :: "idl_byte list" where
  "qmiLocWifiApMacAddressStructT_data_v02 =
    [OP [QMI_IDL_FLAGS_IS_ARRAY] QMI_IDL_GENERIC_1_BYTE,
      OFFSET8 qmiLocWifiApMacAddressStructT_v02 ''wifiApMacAddress'',
      LIT QMI_LOC_WIFI_MAC_ADDR_LENGTH_V02,
     QMI_IDL_FLAG_END_VALUE]"

lemma qmiLocWifiApMacAddressStructT_data_v02_ok [idl_simps]:
  "describe_type qmiLocWifiApMacAddressStructT_data_v02 = Some (qmiLocWifiApMacAddressStructT_v02, 6, [])"
  by (simp add: qmiLocWifiApMacAddressStructT_data_v02_def qmiLocWifiApMacAddressStructT_v02_def [THEN arg_cong, of laid] analyse_simps layout_simps cong: idl_cong)

definition qmiLocIBeaconIdStructT_data_v02 :: "idl_byte list" where
  "qmiLocIBeaconIdStructT_data_v02 =
    [OP [QMI_IDL_FLAGS_IS_ARRAY, QMI_IDL_FLAGS_IS_VARIABLE_LEN] QMI_IDL_STRING,
      OFFSET8 qmiLocIBeaconIdStructT_v02 ''uuid'', LIT QMI_LOC_MAX_IBEACON_UUID_STR_LENGTH_V02,
     OP [] QMI_IDL_GENERIC_4_BYTE, OFFSET8 qmiLocIBeaconIdStructT_v02 ''majorNumber'',
     OP [] QMI_IDL_GENERIC_4_BYTE, OFFSET8 qmiLocIBeaconIdStructT_v02 ''minorNumber'',
     QMI_IDL_FLAG_END_VALUE]"

lemma qmiLocIBeaconIdStructT_data_v02_ok [idl_simps]:
  "describe_type qmiLocIBeaconIdStructT_data_v02 = Some (qmiLocIBeaconIdStructT_v02, 41, [])"
  by (simp add: qmiLocIBeaconIdStructT_data_v02_def qmiLocIBeaconIdStructT_v02_def [THEN arg_cong, of laid] analyse_simps layout_simps cong: idl_cong)

definition qmiLocGtpAsnVerStructT_data_v02 :: "idl_byte list" where
  "qmiLocGtpAsnVerStructT_data_v02 =
    [OP [] QMI_IDL_GENERIC_1_BYTE, OFFSET8 qmiLocGtpAsnVerStructT_v02 ''asnMajorVersion'',
     OP [] QMI_IDL_GENERIC_1_BYTE, OFFSET8 qmiLocGtpAsnVerStructT_v02 ''asnMinorVersion'',
     OP [] QMI_IDL_GENERIC_1_BYTE, OFFSET8 qmiLocGtpAsnVerStructT_v02 ''asnPointVersion'',
     QMI_IDL_FLAG_END_VALUE]"

lemma qmiLocGtpAsnVerStructT_data_v02_ok [idl_simps]:
  "describe_type qmiLocGtpAsnVerStructT_data_v02 = Some (qmiLocGtpAsnVerStructT_v02, 3, [])"
  by (simp add: qmiLocGtpAsnVerStructT_data_v02_def qmiLocGtpAsnVerStructT_v02_def [THEN arg_cong, of laid] analyse_simps layout_simps cong: idl_cong)

definition qmiLocDbtPositionStructT_data_v02 :: "idl_byte list" where
  "qmiLocDbtPositionStructT_data_v02 =
    [OP [] QMI_IDL_GENERIC_8_BYTE, OFFSET8 qmiLocDbtPositionStructT_v02 ''timestampUtc'',
     OP [] QMI_IDL_GENERIC_8_BYTE, OFFSET8 qmiLocDbtPositionStructT_v02 ''latitude'',
     OP [] QMI_IDL_GENERIC_8_BYTE, OFFSET8 qmiLocDbtPositionStructT_v02 ''longitude'',
     OP [] QMI_IDL_GENERIC_4_BYTE, OFFSET8 qmiLocDbtPositionStructT_v02 ''horUncEllipseSemiMinor'',
     OP [] QMI_IDL_GENERIC_4_BYTE, OFFSET8 qmiLocDbtPositionStructT_v02 ''horUncEllipseSemiMajor'',
     OP [] QMI_IDL_GENERIC_4_BYTE, OFFSET8 qmiLocDbtPositionStructT_v02 ''horUncEllipseOrientAzimuth'',
     OP [] QMI_IDL_GENERIC_1_BYTE, OFFSET8 qmiLocDbtPositionStructT_v02 ''speedHorizontal_valid'',
     OP [] QMI_IDL_GENERIC_4_BYTE, OFFSET8 qmiLocDbtPositionStructT_v02 ''speedHorizontal'',
     OP [] QMI_IDL_GENERIC_1_BYTE, OFFSET8 qmiLocDbtPositionStructT_v02 ''altitudeWrtEllipsoid_valid'',
     OP [] QMI_IDL_GENERIC_4_BYTE, OFFSET8 qmiLocDbtPositionStructT_v02 ''altitudeWrtEllipsoid'',
     OP [] QMI_IDL_GENERIC_1_BYTE, OFFSET8 qmiLocDbtPositionStructT_v02 ''vertUnc_valid'',
     OP [] QMI_IDL_GENERIC_4_BYTE, OFFSET8 qmiLocDbtPositionStructT_v02 ''vertUnc'',
     OP [] QMI_IDL_GENERIC_1_BYTE, OFFSET8 qmiLocDbtPositionStructT_v02 ''speedVertical_valid'',
     OP [] QMI_IDL_GENERIC_4_BYTE, OFFSET8 qmiLocDbtPositionStructT_v02 ''speedVertical'',
     OP [] QMI_IDL_GENERIC_1_BYTE, OFFSET8 qmiLocDbtPositionStructT_v02 ''heading_valid'',
     OP [] QMI_IDL_GENERIC_4_BYTE, OFFSET8 qmiLocDbtPositionStructT_v02 ''heading'',
     QMI_IDL_FLAG_END_VALUE]"

lemma qmiLocDbtPositionStructT_data_v02_ok [idl_simps]:
  "describe_type qmiLocDbtPositionStructT_data_v02 = Some (qmiLocDbtPositionStructT_v02, 61, [])"
  by (simp add: qmiLocDbtPositionStructT_data_v02_def qmiLocDbtPositionStructT_v02_def [THEN arg_cong, of laid] analyse_simps layout_simps cong: idl_cong)

definition qmiLocApCacheStructT_data_v02 :: "idl_byte list" where
  "qmiLocApCacheStructT_data_v02 =
    [OP [] QMI_IDL_GENERIC_8_BYTE, OFFSET8 qmiLocApCacheStructT_v02 ''macAddress'',
     OP [] QMI_IDL_GENERIC_4_BYTE, OFFSET8 qmiLocApCacheStructT_v02 ''xLat'',
     OP [] QMI_IDL_GENERIC_4_BYTE, OFFSET8 qmiLocApCacheStructT_v02 ''yLon'',
     OP [] QMI_IDL_GENERIC_4_BYTE, OFFSET8 qmiLocApCacheStructT_v02 ''mar'',
     QMI_IDL_FLAG_END_VALUE]"

lemma qmiLocApCacheStructT_data_v02_ok [idl_simps]:
  "describe_type qmiLocApCacheStructT_data_v02 = Some (qmiLocApCacheStructT_v02, 20, [])"
  by (simp add: qmiLocApCacheStructT_data_v02_def qmiLocApCacheStructT_v02_def [THEN arg_cong, of laid] analyse_simps layout_simps cong: idl_cong)

definition qmiLocApCacheHepeRelStructT_data_v02 :: "idl_byte list" where
  "qmiLocApCacheHepeRelStructT_data_v02 =
    [OP [] QMI_IDL_GENERIC_1_BYTE, OFFSET8 qmiLocApCacheHepeRelStructT_v02 ''hepeValid'',
     OP [] QMI_IDL_GENERIC_2_BYTE, OFFSET8 qmiLocApCacheHepeRelStructT_v02 ''hepe'',
     OP [] QMI_IDL_GENERIC_4_BYTE, OFFSET8 qmiLocApCacheHepeRelStructT_v02 ''apReliability'',
     QMI_IDL_FLAG_END_VALUE]"

lemma qmiLocApCacheHepeRelStructT_data_v02_ok [idl_simps]:
  "describe_type qmiLocApCacheHepeRelStructT_data_v02 = Some (qmiLocApCacheHepeRelStructT_v02, 7, [])"
  by (simp add: qmiLocApCacheHepeRelStructT_data_v02_def qmiLocApCacheHepeRelStructT_v02_def [THEN arg_cong, of laid] analyse_simps layout_simps cong: idl_cong)

definition qmiLocApDoNotCacheStructT_data_v02 :: "idl_byte list" where
  "qmiLocApDoNotCacheStructT_data_v02 =
    [OP [] QMI_IDL_GENERIC_8_BYTE, OFFSET8 qmiLocApDoNotCacheStructT_v02 ''macAddress'',
     QMI_IDL_FLAG_END_VALUE]"

lemma qmiLocApDoNotCacheStructT_data_v02_ok [idl_simps]:
  "describe_type qmiLocApDoNotCacheStructT_data_v02 = Some (qmiLocApDoNotCacheStructT_v02, 8, [])"
  by (simp add: qmiLocApDoNotCacheStructT_data_v02_def qmiLocApDoNotCacheStructT_v02_def [THEN arg_cong, of laid] analyse_simps layout_simps cong: idl_cong)

definition qmiLocDeleteSatelliteDataStructT_data_v02 :: "idl_byte list" where
  "qmiLocDeleteSatelliteDataStructT_data_v02 =
    [OP [] QMI_IDL_GENERIC_4_BYTE, OFFSET8 qmiLocDeleteSatelliteDataStructT_v02 ''system'',
     OP [] QMI_IDL_GENERIC_4_BYTE,
      OFFSET8 qmiLocDeleteSatelliteDataStructT_v02 ''deleteSatelliteDataMask'',
     QMI_IDL_FLAG_END_VALUE]"

lemma qmiLocDeleteSatelliteDataStructT_data_v02_ok [idl_simps]:
  "describe_type qmiLocDeleteSatelliteDataStructT_data_v02 = Some (qmiLocDeleteSatelliteDataStructT_v02, 8, [])"
  by (simp add: qmiLocDeleteSatelliteDataStructT_data_v02_def qmiLocDeleteSatelliteDataStructT_v02_def [THEN arg_cong, of laid] analyse_simps layout_simps cong: idl_cong)

definition qmiLocInternalStatusReportDataStructT_data_v02 :: "idl_byte list" where
  "qmiLocInternalStatusReportDataStructT_data_v02 =
    [OP [QMI_IDL_FLAGS_IS_ARRAY] QMI_IDL_GENERIC_1_BYTE,
      OFFSET8 qmiLocInternalStatusReportDataStructT_v02 ''data'',
      LIT QMI_LOC_INTERNAL_STATUS_REPORT_DATA_LENGTH_V02,
     QMI_IDL_FLAG_END_VALUE]"

lemma qmiLocInternalStatusReportDataStructT_data_v02_ok [idl_simps]:
  "describe_type qmiLocInternalStatusReportDataStructT_data_v02 = Some (qmiLocInternalStatusReportDataStructT_v02, 56, [])"
  by (simp add: qmiLocInternalStatusReportDataStructT_data_v02_def qmiLocInternalStatusReportDataStructT_v02_def [THEN arg_cong, of laid] analyse_simps layout_simps cong: idl_cong)

definition qmiLocSrnBtleApDeviceDataStructT_data_v02 :: "idl_byte list" where
  "qmiLocSrnBtleApDeviceDataStructT_data_v02 =
    [OP [] QMI_IDL_GENERIC_4_BYTE, OFFSET8 qmiLocSrnBtleApDeviceDataStructT_v02 ''srnApDataMask'',
     OP [QMI_IDL_FLAGS_IS_ARRAY] QMI_IDL_GENERIC_1_BYTE,
      OFFSET8 qmiLocSrnBtleApDeviceDataStructT_v02 ''macAddress'', LIT QMI_LOC_SRN_MAC_ADDR_LENGTH_V02,
     OP [] QMI_IDL_GENERIC_4_BYTE, OFFSET8 qmiLocSrnBtleApDeviceDataStructT_v02 ''apSrnRssi'',
     OP [] QMI_IDL_GENERIC_8_BYTE, OFFSET8 qmiLocSrnBtleApDeviceDataStructT_v02 ''apSrnTimestamp'',
     QMI_IDL_FLAG_END_VALUE]"

lemma qmiLocSrnBtleApDeviceDataStructT_data_v02_ok [idl_simps]:
  "describe_type qmiLocSrnBtleApDeviceDataStructT_data_v02 = Some (qmiLocSrnBtleApDeviceDataStructT_v02, 22, [])"
  by (simp add: qmiLocSrnBtleApDeviceDataStructT_data_v02_def qmiLocSrnBtleApDeviceDataStructT_v02_def [THEN arg_cong, of laid] analyse_simps layout_simps cong: idl_cong)

definition qmiLocWifiCrowdSourcingLocalConfigStructT_data_v02 :: "idl_byte list" where
  "qmiLocWifiCrowdSourcingLocalConfigStructT_data_v02 =
    [OP [] QMI_IDL_GENERIC_1_BYTE,
      OFFSET8 qmiLocWifiCrowdSourcingLocalConfigStructT_v02 ''enableCrowdSourcingOnDemand'',
     OP [] QMI_IDL_GENERIC_1_BYTE,
      OFFSET8 qmiLocWifiCrowdSourcingLocalConfigStructT_v02 ''enableCrowdSourcingOnUnsolicitedGnss'',
     OP [] QMI_IDL_GENERIC_1_BYTE,
      OFFSET8 qmiLocWifiCrowdSourcingLocalConfigStructT_v02 ''enableBatteryLevelBasedThrottling'',
     OP [] QMI_IDL_GENERIC_1_BYTE,
      OFFSET8 qmiLocWifiCrowdSourcingLocalConfigStructT_v02 ''enableRttCrowdSourcing'',
     OP [] QMI_IDL_GENERIC_1_BYTE,
      OFFSET8 qmiLocWifiCrowdSourcingLocalConfigStructT_v02 ''enableRtt3CrowdSourcing'',
     OP [] QMI_IDL_GENERIC_4_BYTE,
      OFFSET8 qmiLocWifiCrowdSourcingLocalConfigStructT_v02 ''rttSignalDbmThresh'',
     OP [] QMI_IDL_GENERIC_2_BYTE,
      OFFSET8 qmiLocWifiCrowdSourcingLocalConfigStructT_v02 ''maxDataTransferFormatVersionSupported'',
     QMI_IDL_FLAG_END_VALUE]"

lemma qmiLocWifiCrowdSourcingLocalConfigStructT_data_v02_ok [idl_simps]:
  "describe_type qmiLocWifiCrowdSourcingLocalConfigStructT_data_v02 = Some (qmiLocWifiCrowdSourcingLocalConfigStructT_v02, 11, [])"
  by (simp add: qmiLocWifiCrowdSourcingLocalConfigStructT_data_v02_def qmiLocWifiCrowdSourcingLocalConfigStructT_v02_def [THEN arg_cong, of laid] analyse_simps layout_simps cong: idl_cong)

definition qmiLocWifiCrowdSourcingCapabilityStructT_data_v02 :: "idl_byte list" where
  "qmiLocWifiCrowdSourcingCapabilityStructT_data_v02 =
    [OP [] QMI_IDL_GENERIC_1_BYTE,
      OFFSET8 qmiLocWifiCrowdSourcingCapabilityStructT_v02 ''onDemandCrowdSourcingSupported'',
     OP [] QMI_IDL_GENERIC_1_BYTE,
      OFFSET8 qmiLocWifiCrowdSourcingCapabilityStructT_v02 ''UnsolicitedGnssCrowdSourcingSupported'',
     OP [] QMI_IDL_GENERIC_1_BYTE,
      OFFSET8 qmiLocWifiCrowdSourcingCapabilityStructT_v02 ''majorVersionSupported'',
     OP [] QMI_IDL_GENERIC_1_BYTE,
      OFFSET8 qmiLocWifiCrowdSourcingCapabilityStructT_v02 ''minorVersionSupported'',
     OP [] QMI_IDL_GENERIC_2_BYTE,
      OFFSET8 qmiLocWifiCrowdSourcingCapabilityStructT_v02 ''maxDataTransferFormatVersionSupported'',
     QMI_IDL_FLAG_END_VALUE]"

lemma qmiLocWifiCrowdSourcingCapabilityStructT_data_v02_ok [idl_simps]:
  "describe_type qmiLocWifiCrowdSourcingCapabilityStructT_data_v02 = Some (qmiLocWifiCrowdSourcingCapabilityStructT_v02, 6, [])"
  by (simp add: qmiLocWifiCrowdSourcingCapabilityStructT_data_v02_def qmiLocWifiCrowdSourcingCapabilityStructT_v02_def [THEN arg_cong, of laid] analyse_simps layout_simps cong: idl_cong)

definition qmiLocXtraInfoStructT_data_v02 :: "idl_byte list" where
  "qmiLocXtraInfoStructT_data_v02 =
    [OP [] QMI_IDL_GENERIC_4_BYTE, OFFSET8 qmiLocXtraInfoStructT_v02 ''reportMask'',
     OP [] QMI_IDL_GENERIC_2_BYTE, OFFSET8 qmiLocXtraInfoStructT_v02 ''absAgeHrs'',
     OP [] QMI_IDL_GENERIC_8_BYTE, OFFSET8 qmiLocXtraInfoStructT_v02 ''relAgeInUTC'',
     OP [] QMI_IDL_AGGREGATE, OFFSET8 qmiLocXtraInfoStructT_v02 ''xtraServerInfo'', TYPE88 0 24,
     OP [QMI_IDL_FLAGS_OFFSET_IS_16] QMI_IDL_AGGREGATE,
      OFFSET16ARRAY qmiLocXtraInfoStructT_v02 ''ntpServerInfo'', TYPE88 0 22,
     OP [QMI_IDL_FLAGS_OFFSET_IS_16] QMI_IDL_GENERIC_1_BYTE,
      OFFSET16ARRAY qmiLocXtraInfoStructT_v02 ''timeRequest'',
     OP [QMI_IDL_FLAGS_OFFSET_IS_16] QMI_IDL_GENERIC_2_BYTE,
      OFFSET16ARRAY qmiLocXtraInfoStructT_v02 ''preferedValidAgeHrs'',
     QMI_IDL_FLAG_END_VALUE]"

lemma qmiLocXtraInfoStructT_data_v02_ok [idl_simps]:
  "describe_type qmiLocXtraInfoStructT_data_v02 = Some (qmiLocXtraInfoStructT_v02, 17, [(1, (0, 24), qmiLocPredictedOrbitsServerListStructT_v02), (1, (0, 22), qmiLocTimeServerListStructT_v02)])"
  by (simp add: qmiLocXtraInfoStructT_data_v02_def qmiLocXtraInfoStructT_v02_def [THEN arg_cong, of laid] analyse_simps layout_simps cong: idl_cong)

definition qmiLocVersionStructT_data_v02 :: "idl_byte list" where
  "qmiLocVersionStructT_data_v02 =
    [OP [] QMI_IDL_GENERIC_1_BYTE, OFFSET8 qmiLocVersionStructT_v02 ''majorVersion'',
     OP [] QMI_IDL_GENERIC_1_BYTE, OFFSET8 qmiLocVersionStructT_v02 ''minorVersion'',
     QMI_IDL_FLAG_END_VALUE]"

lemma qmiLocVersionStructT_data_v02_ok [idl_simps]:
  "describe_type qmiLocVersionStructT_data_v02 = Some (qmiLocVersionStructT_v02, 2, [])"
  by (simp add: qmiLocVersionStructT_data_v02_def qmiLocVersionStructT_v02_def [THEN arg_cong, of laid] analyse_simps layout_simps cong: idl_cong)

definition qmiLocGtpClientSwVerStructT_data_v02 :: "idl_byte list" where
  "qmiLocGtpClientSwVerStructT_data_v02 =
    [OP [] QMI_IDL_GENERIC_1_BYTE, OFFSET8 qmiLocGtpClientSwVerStructT_v02 ''gtpClientSwMajorVersion'',
     OP [] QMI_IDL_GENERIC_1_BYTE, OFFSET8 qmiLocGtpClientSwVerStructT_v02 ''gtpClientSwMinorVersion'',
     QMI_IDL_FLAG_END_VALUE]"

lemma qmiLocGtpClientSwVerStructT_data_v02_ok [idl_simps]:
  "describe_type qmiLocGtpClientSwVerStructT_data_v02 = Some (qmiLocGtpClientSwVerStructT_v02, 2, [])"
  by (simp add: qmiLocGtpClientSwVerStructT_data_v02_def qmiLocGtpClientSwVerStructT_v02_def [THEN arg_cong, of laid] analyse_simps layout_simps cong: idl_cong)

definition qmiLocHomeCarrierIdStructT_data_v02 :: "idl_byte list" where
  "qmiLocHomeCarrierIdStructT_data_v02 =
    [OP [] QMI_IDL_GENERIC_1_BYTE, OFFSET8 qmiLocHomeCarrierIdStructT_v02 ''homeMncValid'',
     OP [] QMI_IDL_GENERIC_4_BYTE, OFFSET8 qmiLocHomeCarrierIdStructT_v02 ''homeMcc'',
     OP [] QMI_IDL_GENERIC_4_BYTE, OFFSET8 qmiLocHomeCarrierIdStructT_v02 ''homeMnc'',
     QMI_IDL_FLAG_END_VALUE]"

lemma qmiLocHomeCarrierIdStructT_data_v02_ok [idl_simps]:
  "describe_type qmiLocHomeCarrierIdStructT_data_v02 = Some (qmiLocHomeCarrierIdStructT_v02, 9, [])"
  by (simp add: qmiLocHomeCarrierIdStructT_data_v02_def qmiLocHomeCarrierIdStructT_v02_def [THEN arg_cong, of laid] analyse_simps layout_simps cong: idl_cong)

definition qmiLocPositionSourceStructT_data_v02 :: "idl_byte list" where
  "qmiLocPositionSourceStructT_data_v02 =
    [OP [] QMI_IDL_GENERIC_1_BYTE, OFFSET8 qmiLocPositionSourceStructT_v02 ''unspecifiedInternal'',
     OP [] QMI_IDL_GENERIC_1_BYTE, OFFSET8 qmiLocPositionSourceStructT_v02 ''unspecifiedExternal'',
     OP [] QMI_IDL_GENERIC_1_BYTE, OFFSET8 qmiLocPositionSourceStructT_v02 ''gnss'',
     OP [] QMI_IDL_GENERIC_1_BYTE, OFFSET8 qmiLocPositionSourceStructT_v02 ''sensors'',
     OP [] QMI_IDL_GENERIC_1_BYTE, OFFSET8 qmiLocPositionSourceStructT_v02 ''wifi'',
     OP [] QMI_IDL_GENERIC_1_BYTE, OFFSET8 qmiLocPositionSourceStructT_v02 ''wwan'',
     QMI_IDL_FLAG_END_VALUE]"

lemma qmiLocPositionSourceStructT_data_v02_ok [idl_simps]:
  "describe_type qmiLocPositionSourceStructT_data_v02 = Some (qmiLocPositionSourceStructT_v02, 6, [])"
  by (simp add: qmiLocPositionSourceStructT_data_v02_def qmiLocPositionSourceStructT_v02_def [THEN arg_cong, of laid] analyse_simps layout_simps cong: idl_cong)

definition qmiLocBsBestPositionStructT_data_v02 :: "idl_byte list" where
  "qmiLocBsBestPositionStructT_data_v02 =
    [OP [] QMI_IDL_GENERIC_8_BYTE, OFFSET8 qmiLocBsBestPositionStructT_v02 ''latitude'',
     OP [] QMI_IDL_GENERIC_8_BYTE, OFFSET8 qmiLocBsBestPositionStructT_v02 ''longitude'',
     OP [] QMI_IDL_GENERIC_4_BYTE, OFFSET8 qmiLocBsBestPositionStructT_v02 ''horizontalUnc'',
     OP [] QMI_IDL_GENERIC_4_BYTE, OFFSET8 qmiLocBsBestPositionStructT_v02 ''altitude'',
     OP [] QMI_IDL_GENERIC_4_BYTE, OFFSET8 qmiLocBsBestPositionStructT_v02 ''altitudeUnc'',
     OP [] QMI_IDL_AGGREGATE, OFFSET8 qmiLocBsBestPositionStructT_v02 ''latestPositionSources'',
      TYPE88 0 82,
     QMI_IDL_FLAG_END_VALUE]"

lemma qmiLocBsBestPositionStructT_data_v02_ok [idl_simps]:
  "describe_type qmiLocBsBestPositionStructT_data_v02 = Some (qmiLocBsBestPositionStructT_v02, 28, [(1, (0, 82), qmiLocPositionSourceStructT_v02)])"
  by (simp add: qmiLocBsBestPositionStructT_data_v02_def qmiLocBsBestPositionStructT_v02_def [THEN arg_cong, of laid] analyse_simps layout_simps cong: idl_cong)

definition qmiLocFdclCellIdStructT_data_v02 :: "idl_byte list" where
  "qmiLocFdclCellIdStructT_data_v02 =
    [OP [] QMI_IDL_GENERIC_4_BYTE, OFFSET8 qmiLocFdclCellIdStructT_v02 ''airInterfaceType'',
     OP [] QMI_IDL_GENERIC_4_BYTE, OFFSET8 qmiLocFdclCellIdStructT_v02 ''id1'',
     OP [] QMI_IDL_GENERIC_4_BYTE, OFFSET8 qmiLocFdclCellIdStructT_v02 ''id2'',
     OP [] QMI_IDL_GENERIC_4_BYTE, OFFSET8 qmiLocFdclCellIdStructT_v02 ''id3'',
     OP [] QMI_IDL_GENERIC_4_BYTE, OFFSET8 qmiLocFdclCellIdStructT_v02 ''id4'',
     QMI_IDL_FLAG_END_VALUE]"

lemma qmiLocFdclCellIdStructT_data_v02_ok [idl_simps]:
  "describe_type qmiLocFdclCellIdStructT_data_v02 = Some (qmiLocFdclCellIdStructT_v02, 20, [])"
  by (simp add: qmiLocFdclCellIdStructT_data_v02_def qmiLocFdclCellIdStructT_v02_def [THEN arg_cong, of laid] analyse_simps layout_simps cong: idl_cong)

definition qmiLocFdclCellPosStructT_data_v02 :: "idl_byte list" where
  "qmiLocFdclCellPosStructT_data_v02 =
    [OP [] QMI_IDL_GENERIC_4_BYTE, OFFSET8 qmiLocFdclCellPosStructT_v02 ''validMask'',
     OP [] QMI_IDL_AGGREGATE, OFFSET8 qmiLocFdclCellPosStructT_v02 ''cellId'', TYPE88 0 84,
     OP [] QMI_IDL_GENERIC_8_BYTE, OFFSET8 qmiLocFdclCellPosStructT_v02 ''latitude'',
     OP [] QMI_IDL_GENERIC_8_BYTE, OFFSET8 qmiLocFdclCellPosStructT_v02 ''longitude'',
     OP [] QMI_IDL_GENERIC_4_BYTE, OFFSET8 qmiLocFdclCellPosStructT_v02 ''horCoverageRadius'',
     OP [] QMI_IDL_GENERIC_1_BYTE, OFFSET8 qmiLocFdclCellPosStructT_v02 ''horConfidence'',
     OP [] QMI_IDL_GENERIC_4_BYTE, OFFSET8 qmiLocFdclCellPosStructT_v02 ''horReliability'',
     OP [] QMI_IDL_GENERIC_4_BYTE, OFFSET8 qmiLocFdclCellPosStructT_v02 ''altitude'',
     OP [] QMI_IDL_GENERIC_4_BYTE, OFFSET8 qmiLocFdclCellPosStructT_v02 ''altUnc'',
     OP [] QMI_IDL_GENERIC_1_BYTE, OFFSET8 qmiLocFdclCellPosStructT_v02 ''altConfidence'',
     OP [] QMI_IDL_GENERIC_4_BYTE, OFFSET8 qmiLocFdclCellPosStructT_v02 ''altReliability'',
     QMI_IDL_FLAG_END_VALUE]"

lemma qmiLocFdclCellPosStructT_data_v02_ok [idl_simps]:
  "describe_type qmiLocFdclCellPosStructT_data_v02 = Some (qmiLocFdclCellPosStructT_v02, 42, [(1, (0, 84), qmiLocFdclCellIdStructT_v02)])"
  by (simp add: qmiLocFdclCellPosStructT_data_v02_def qmiLocFdclCellPosStructT_v02_def [THEN arg_cong, of laid] analyse_simps layout_simps cong: idl_cong)

definition qmiLocNextLeapSecondInfoStructT_data_v02 :: "idl_byte list" where
  "qmiLocNextLeapSecondInfoStructT_data_v02 =
    [OP [] QMI_IDL_GENERIC_1_BYTE, OFFSET8 qmiLocNextLeapSecondInfoStructT_v02 ''gpsTimeCurrent_valid'',
     OP [] QMI_IDL_AGGREGATE, OFFSET8 qmiLocNextLeapSecondInfoStructT_v02 ''gpsTimeCurrent'',
      TYPE88 0 2,
     OP [] QMI_IDL_GENERIC_1_BYTE,
      OFFSET8 qmiLocNextLeapSecondInfoStructT_v02 ''leapSecondsCurrent_valid'',
     OP [] QMI_IDL_GENERIC_1_BYTE, OFFSET8 qmiLocNextLeapSecondInfoStructT_v02 ''leapSecondsCurrent'',
     OP [] QMI_IDL_GENERIC_1_BYTE,
      OFFSET8 qmiLocNextLeapSecondInfoStructT_v02 ''gpsTimeNextLsEvent_valid'',
     OP [] QMI_IDL_AGGREGATE, OFFSET8 qmiLocNextLeapSecondInfoStructT_v02 ''gpsTimeNextLsEvent'',
      TYPE88 0 2,
     OP [] QMI_IDL_GENERIC_1_BYTE,
      OFFSET8 qmiLocNextLeapSecondInfoStructT_v02 ''leapSecondsNext_valid'',
     OP [] QMI_IDL_GENERIC_1_BYTE, OFFSET8 qmiLocNextLeapSecondInfoStructT_v02 ''leapSecondsNext'',
     QMI_IDL_FLAG_END_VALUE]"

lemma qmiLocNextLeapSecondInfoStructT_data_v02_ok [idl_simps]:
  "describe_type qmiLocNextLeapSecondInfoStructT_data_v02 = Some (qmiLocNextLeapSecondInfoStructT_v02, 6, [(1, (0, 2), qmiLocGPSTimeStructT_v02), (1, (0, 2), qmiLocGPSTimeStructT_v02)])"
  by (simp add: qmiLocNextLeapSecondInfoStructT_data_v02_def qmiLocNextLeapSecondInfoStructT_v02_def [THEN arg_cong, of laid] analyse_simps layout_simps cong: idl_cong)

definition qmiLocBsObservedDataStructT_data_v02 :: "idl_byte list" where
  "qmiLocBsObservedDataStructT_data_v02 =
    [OP [] QMI_IDL_GENERIC_8_BYTE, OFFSET8 qmiLocBsObservedDataStructT_v02 ''validMask'',
     OP [] QMI_IDL_AGGREGATE, OFFSET8 qmiLocBsObservedDataStructT_v02 ''cellId'', TYPE88 0 84,
     OP [] QMI_IDL_GENERIC_2_BYTE, OFFSET8 qmiLocBsObservedDataStructT_v02 ''gpsWeek'',
     OP [] QMI_IDL_GENERIC_4_BYTE, OFFSET8 qmiLocBsObservedDataStructT_v02 ''gpsMilliseconds'',
     OP [] QMI_IDL_GENERIC_4_BYTE, OFFSET8 qmiLocBsObservedDataStructT_v02 ''bsLocalTimestamp'',
     OP [] QMI_IDL_GENERIC_4_BYTE, OFFSET8 qmiLocBsObservedDataStructT_v02 ''posDeltaTime'',
     OP [] QMI_IDL_GENERIC_4_BYTE, OFFSET8 qmiLocBsObservedDataStructT_v02 ''speed'',
     OP [] QMI_IDL_GENERIC_4_BYTE, OFFSET8 qmiLocBsObservedDataStructT_v02 ''speedUnc'',
     OP [] QMI_IDL_GENERIC_8_BYTE, OFFSET8 qmiLocBsObservedDataStructT_v02 ''heading'',
     OP [] QMI_IDL_GENERIC_8_BYTE, OFFSET8 qmiLocBsObservedDataStructT_v02 ''headingUnc'',
     OP [] QMI_IDL_AGGREGATE, OFFSET8 qmiLocBsObservedDataStructT_v02 ''bsBestPosition'', TYPE88 0 83,
     QMI_IDL_FLAG_END_VALUE]"

lemma qmiLocBsObservedDataStructT_data_v02_ok [idl_simps]:
  "describe_type qmiLocBsObservedDataStructT_data_v02 = Some (qmiLocBsObservedDataStructT_v02, 46, [(1, (0, 84), qmiLocFdclCellIdStructT_v02), (1, (0, 83), qmiLocBsBestPositionStructT_v02)])"
  by (simp add: qmiLocBsObservedDataStructT_data_v02_def qmiLocBsObservedDataStructT_v02_def [THEN arg_cong, of laid] analyse_simps layout_simps cong: idl_cong)

definition qmiLocEphGnssDataStructT_data_v02 :: "idl_byte list" where
  "qmiLocEphGnssDataStructT_data_v02 =
    [OP [] QMI_IDL_GENERIC_2_BYTE, OFFSET8 qmiLocEphGnssDataStructT_v02 ''gnssSvId'',
     OP [] QMI_IDL_GENERIC_4_BYTE, OFFSET8 qmiLocEphGnssDataStructT_v02 ''updateAction'',
     OP [] QMI_IDL_GENERIC_2_BYTE, OFFSET8 qmiLocEphGnssDataStructT_v02 ''IODE'',
     OP [] QMI_IDL_GENERIC_8_BYTE, OFFSET8 qmiLocEphGnssDataStructT_v02 ''aSqrt'',
     OP [] QMI_IDL_GENERIC_8_BYTE, OFFSET8 qmiLocEphGnssDataStructT_v02 ''deltaN'',
     OP [] QMI_IDL_GENERIC_8_BYTE, OFFSET8 qmiLocEphGnssDataStructT_v02 ''m0'',
     OP [] QMI_IDL_GENERIC_8_BYTE, OFFSET8 qmiLocEphGnssDataStructT_v02 ''eccentricity'',
     OP [] QMI_IDL_GENERIC_8_BYTE, OFFSET8 qmiLocEphGnssDataStructT_v02 ''omega0'',
     OP [] QMI_IDL_GENERIC_8_BYTE, OFFSET8 qmiLocEphGnssDataStructT_v02 ''i0'',
     OP [] QMI_IDL_GENERIC_8_BYTE, OFFSET8 qmiLocEphGnssDataStructT_v02 ''omega'',
     OP [] QMI_IDL_GENERIC_8_BYTE, OFFSET8 qmiLocEphGnssDataStructT_v02 ''omegaDot'',
     OP [] QMI_IDL_GENERIC_8_BYTE, OFFSET8 qmiLocEphGnssDataStructT_v02 ''iDot'',
     OP [] QMI_IDL_GENERIC_8_BYTE, OFFSET8 qmiLocEphGnssDataStructT_v02 ''cUc'',
     OP [] QMI_IDL_GENERIC_8_BYTE, OFFSET8 qmiLocEphGnssDataStructT_v02 ''cUs'',
     OP [] QMI_IDL_GENERIC_8_BYTE, OFFSET8 qmiLocEphGnssDataStructT_v02 ''cRc'',
     OP [] QMI_IDL_GENERIC_8_BYTE, OFFSET8 qmiLocEphGnssDataStructT_v02 ''cRs'',
     OP [] QMI_IDL_GENERIC_8_BYTE, OFFSET8 qmiLocEphGnssDataStructT_v02 ''cIc'',
     OP [] QMI_IDL_GENERIC_8_BYTE, OFFSET8 qmiLocEphGnssDataStructT_v02 ''cIs'',
     OP [] QMI_IDL_GENERIC_4_BYTE, OFFSET8 qmiLocEphGnssDataStructT_v02 ''toe'',
     OP [] QMI_IDL_GENERIC_4_BYTE, OFFSET8 qmiLocEphGnssDataStructT_v02 ''toc'',
     OP [] QMI_IDL_GENERIC_8_BYTE, OFFSET8 qmiLocEphGnssDataStructT_v02 ''af0'',
     OP [] QMI_IDL_GENERIC_8_BYTE, OFFSET8 qmiLocEphGnssDataStructT_v02 ''af1'',
     OP [] QMI_IDL_GENERIC_8_BYTE, OFFSET8 qmiLocEphGnssDataStructT_v02 ''af2'',
     QMI_IDL_FLAG_END_VALUE]"

lemma qmiLocEphGnssDataStructT_data_v02_ok [idl_simps]:
  "describe_type qmiLocEphGnssDataStructT_data_v02 = Some (qmiLocEphGnssDataStructT_v02, 160, [])"
  by (simp add: qmiLocEphGnssDataStructT_data_v02_def qmiLocEphGnssDataStructT_v02_def [THEN arg_cong, of laid] analyse_simps layout_simps cong: idl_cong)

definition qmiLocGpsEphemerisT_data_v02 :: "idl_byte list" where
  "qmiLocGpsEphemerisT_data_v02 =
    [OP [] QMI_IDL_AGGREGATE, OFFSET8 qmiLocGpsEphemerisT_v02 ''commonEphemerisData'', TYPE88 0 88,
     OP [] QMI_IDL_GENERIC_1_BYTE, OFFSET8 qmiLocGpsEphemerisT_v02 ''signalHealth'',
     OP [] QMI_IDL_GENERIC_1_BYTE, OFFSET8 qmiLocGpsEphemerisT_v02 ''URAI'',
     OP [] QMI_IDL_GENERIC_1_BYTE, OFFSET8 qmiLocGpsEphemerisT_v02 ''codeL2'',
     OP [] QMI_IDL_GENERIC_1_BYTE, OFFSET8 qmiLocGpsEphemerisT_v02 ''dataFlagL2P'',
     OP [] QMI_IDL_GENERIC_8_BYTE, OFFSET8 qmiLocGpsEphemerisT_v02 ''tgd'',
     OP [] QMI_IDL_GENERIC_1_BYTE, OFFSET8 qmiLocGpsEphemerisT_v02 ''fitInterval'',
     OP [] QMI_IDL_GENERIC_2_BYTE, OFFSET8 qmiLocGpsEphemerisT_v02 ''IODC'',
     QMI_IDL_FLAG_END_VALUE]"

lemma qmiLocGpsEphemerisT_data_v02_ok [idl_simps]:
  "describe_type qmiLocGpsEphemerisT_data_v02 = Some (qmiLocGpsEphemerisT_v02, 15, [(1, (0, 88), qmiLocEphGnssDataStructT_v02)])"
  by (simp add: qmiLocGpsEphemerisT_data_v02_def qmiLocGpsEphemerisT_v02_def [THEN arg_cong, of laid] analyse_simps layout_simps cong: idl_cong)

definition qmiLocGloEphemerisT_data_v02 :: "idl_byte list" where
  "qmiLocGloEphemerisT_data_v02 =
    [OP [] QMI_IDL_GENERIC_2_BYTE, OFFSET8 qmiLocGloEphemerisT_v02 ''gnssSvId'',
     OP [] QMI_IDL_GENERIC_4_BYTE, OFFSET8 qmiLocGloEphemerisT_v02 ''updateAction'',
     OP [] QMI_IDL_GENERIC_1_BYTE, OFFSET8 qmiLocGloEphemerisT_v02 ''bnHealth'',
     OP [] QMI_IDL_GENERIC_1_BYTE, OFFSET8 qmiLocGloEphemerisT_v02 ''lnHealth'',
     OP [] QMI_IDL_GENERIC_1_BYTE, OFFSET8 qmiLocGloEphemerisT_v02 ''tb'',
     OP [] QMI_IDL_GENERIC_1_BYTE, OFFSET8 qmiLocGloEphemerisT_v02 ''ft'',
     OP [] QMI_IDL_GENERIC_1_BYTE, OFFSET8 qmiLocGloEphemerisT_v02 ''gloM'',
     OP [] QMI_IDL_GENERIC_1_BYTE, OFFSET8 qmiLocGloEphemerisT_v02 ''enAge'',
     OP [] QMI_IDL_GENERIC_1_BYTE, OFFSET8 qmiLocGloEphemerisT_v02 ''gloFrequency'',
     OP [] QMI_IDL_GENERIC_1_BYTE, OFFSET8 qmiLocGloEphemerisT_v02 ''p1'',
     OP [] QMI_IDL_GENERIC_1_BYTE, OFFSET8 qmiLocGloEphemerisT_v02 ''p2'',
     OP [] QMI_IDL_GENERIC_4_BYTE, OFFSET8 qmiLocGloEphemerisT_v02 ''deltaTau'',
     OP [QMI_IDL_FLAGS_IS_ARRAY] QMI_IDL_GENERIC_8_BYTE, OFFSET8 qmiLocGloEphemerisT_v02 ''position'',
      LIT 3,
     OP [QMI_IDL_FLAGS_IS_ARRAY] QMI_IDL_GENERIC_8_BYTE, OFFSET8 qmiLocGloEphemerisT_v02 ''velocity'',
      LIT 3,
     OP [QMI_IDL_FLAGS_IS_ARRAY] QMI_IDL_GENERIC_8_BYTE,
      OFFSET8 qmiLocGloEphemerisT_v02 ''acceleration'', LIT 3,
     OP [] QMI_IDL_GENERIC_4_BYTE, OFFSET8 qmiLocGloEphemerisT_v02 ''tauN'',
     OP [] QMI_IDL_GENERIC_4_BYTE, OFFSET8 qmiLocGloEphemerisT_v02 ''gamma'',
     OP [] QMI_IDL_GENERIC_8_BYTE, OFFSET8 qmiLocGloEphemerisT_v02 ''toe'',
     OP [] QMI_IDL_GENERIC_2_BYTE, OFFSET8 qmiLocGloEphemerisT_v02 ''nt'',
     QMI_IDL_FLAG_END_VALUE]"

lemma qmiLocGloEphemerisT_data_v02_ok [idl_simps]:
  "describe_type qmiLocGloEphemerisT_data_v02 = Some (qmiLocGloEphemerisT_v02, 109, [])"
  by (simp add: qmiLocGloEphemerisT_data_v02_def qmiLocGloEphemerisT_v02_def [THEN arg_cong, of laid] analyse_simps layout_simps cong: idl_cong)

definition qmiLocBdsEphemerisT_data_v02 :: "idl_byte list" where
  "qmiLocBdsEphemerisT_data_v02 =
    [OP [] QMI_IDL_AGGREGATE, OFFSET8 qmiLocBdsEphemerisT_v02 ''commonEphemerisData'', TYPE88 0 88,
     OP [] QMI_IDL_GENERIC_1_BYTE, OFFSET8 qmiLocBdsEphemerisT_v02 ''svHealth'',
     OP [] QMI_IDL_GENERIC_1_BYTE, OFFSET8 qmiLocBdsEphemerisT_v02 ''AODC'',
     OP [] QMI_IDL_GENERIC_8_BYTE, OFFSET8 qmiLocBdsEphemerisT_v02 ''tgd1'',
     OP [] QMI_IDL_GENERIC_8_BYTE, OFFSET8 qmiLocBdsEphemerisT_v02 ''tgd2'',
     OP [] QMI_IDL_GENERIC_1_BYTE, OFFSET8 qmiLocBdsEphemerisT_v02 ''URAI'',
     QMI_IDL_FLAG_END_VALUE]"

lemma qmiLocBdsEphemerisT_data_v02_ok [idl_simps]:
  "describe_type qmiLocBdsEphemerisT_data_v02 = Some (qmiLocBdsEphemerisT_v02, 19, [(1, (0, 88), qmiLocEphGnssDataStructT_v02)])"
  by (simp add: qmiLocBdsEphemerisT_data_v02_def qmiLocBdsEphemerisT_v02_def [THEN arg_cong, of laid] analyse_simps layout_simps cong: idl_cong)

definition qmiLocGalEphemerisT_data_v02 :: "idl_byte list" where
  "qmiLocGalEphemerisT_data_v02 =
    [OP [] QMI_IDL_AGGREGATE, OFFSET8 qmiLocGalEphemerisT_v02 ''commonEphemerisData'', TYPE88 0 88,
     OP [] QMI_IDL_GENERIC_4_BYTE, OFFSET8 qmiLocGalEphemerisT_v02 ''dataSourceSignal'',
     OP [] QMI_IDL_GENERIC_1_BYTE, OFFSET8 qmiLocGalEphemerisT_v02 ''sisIndex'',
     OP [] QMI_IDL_GENERIC_8_BYTE, OFFSET8 qmiLocGalEphemerisT_v02 ''bgdE1E5a'',
     OP [] QMI_IDL_GENERIC_8_BYTE, OFFSET8 qmiLocGalEphemerisT_v02 ''bgdE1E5b'',
     OP [] QMI_IDL_GENERIC_1_BYTE, OFFSET8 qmiLocGalEphemerisT_v02 ''svHealth'',
     QMI_IDL_FLAG_END_VALUE]"

lemma qmiLocGalEphemerisT_data_v02_ok [idl_simps]:
  "describe_type qmiLocGalEphemerisT_data_v02 = Some (qmiLocGalEphemerisT_v02, 22, [(1, (0, 88), qmiLocEphGnssDataStructT_v02)])"
  by (simp add: qmiLocGalEphemerisT_data_v02_def qmiLocGalEphemerisT_v02_def [THEN arg_cong, of laid] analyse_simps layout_simps cong: idl_cong)

definition qmiLocKlobucharIonoModelT_data_v02 :: "idl_byte list" where
  "qmiLocKlobucharIonoModelT_data_v02 =
    [OP [] QMI_IDL_GENERIC_4_BYTE, OFFSET8 qmiLocKlobucharIonoModelT_v02 ''dataSource'',
     OP [] QMI_IDL_GENERIC_4_BYTE, OFFSET8 qmiLocKlobucharIonoModelT_v02 ''alpha0'',
     OP [] QMI_IDL_GENERIC_4_BYTE, OFFSET8 qmiLocKlobucharIonoModelT_v02 ''alpha1'',
     OP [] QMI_IDL_GENERIC_4_BYTE, OFFSET8 qmiLocKlobucharIonoModelT_v02 ''alpha2'',
     OP [] QMI_IDL_GENERIC_4_BYTE, OFFSET8 qmiLocKlobucharIonoModelT_v02 ''alpha3'',
     OP [] QMI_IDL_GENERIC_4_BYTE, OFFSET8 qmiLocKlobucharIonoModelT_v02 ''beta0'',
     OP [] QMI_IDL_GENERIC_4_BYTE, OFFSET8 qmiLocKlobucharIonoModelT_v02 ''beta1'',
     OP [] QMI_IDL_GENERIC_4_BYTE, OFFSET8 qmiLocKlobucharIonoModelT_v02 ''beta2'',
     OP [] QMI_IDL_GENERIC_4_BYTE, OFFSET8 qmiLocKlobucharIonoModelT_v02 ''beta3'',
     QMI_IDL_FLAG_END_VALUE]"

lemma qmiLocKlobucharIonoModelT_data_v02_ok [idl_simps]:
  "describe_type qmiLocKlobucharIonoModelT_data_v02 = Some (qmiLocKlobucharIonoModelT_v02, 36, [])"
  by (simp add: qmiLocKlobucharIonoModelT_data_v02_def qmiLocKlobucharIonoModelT_v02_def [THEN arg_cong, of laid] analyse_simps layout_simps cong: idl_cong)

definition qmiLocMePerGnssRfStructType_data_v02 :: "idl_byte list" where
  "qmiLocMePerGnssRfStructType_data_v02 =
    [OP [] QMI_IDL_GENERIC_2_BYTE, OFFSET8 qmiLocMePerGnssRfStructType_v02 ''bpAmpI'',
     OP [] QMI_IDL_GENERIC_2_BYTE, OFFSET8 qmiLocMePerGnssRfStructType_v02 ''bpAmpQ'',
     OP [] QMI_IDL_GENERIC_4_BYTE, OFFSET8 qmiLocMePerGnssRfStructType_v02 ''jammerPwrDb'',
     QMI_IDL_FLAG_END_VALUE]"

lemma qmiLocMePerGnssRfStructType_data_v02_ok [idl_simps]:
  "describe_type qmiLocMePerGnssRfStructType_data_v02 = Some (qmiLocMePerGnssRfStructType_v02, 8, [])"
  by (simp add: qmiLocMePerGnssRfStructType_data_v02_def qmiLocMePerGnssRfStructType_v02_def [THEN arg_cong, of laid] analyse_simps layout_simps cong: idl_cong)

definition qmiLocRobustLocationVersionT_data_v02 :: "idl_byte list" where
  "qmiLocRobustLocationVersionT_data_v02 =
    [OP [] QMI_IDL_GENERIC_1_BYTE, OFFSET8 qmiLocRobustLocationVersionT_v02 ''major'',
     OP [] QMI_IDL_GENERIC_2_BYTE, OFFSET8 qmiLocRobustLocationVersionT_v02 ''minor'',
     QMI_IDL_FLAG_END_VALUE]"

lemma qmiLocRobustLocationVersionT_data_v02_ok [idl_simps]:
  "describe_type qmiLocRobustLocationVersionT_data_v02 = Some (qmiLocRobustLocationVersionT_v02, 3, [])"
  by (simp add: qmiLocRobustLocationVersionT_data_v02_def qmiLocRobustLocationVersionT_v02_def [THEN arg_cong, of laid] analyse_simps layout_simps cong: idl_cong)

definition qmiLocEnvAidingReflectingPlaneStructT_data_v02 :: "idl_byte list" where
  "qmiLocEnvAidingReflectingPlaneStructT_data_v02 =
    [OP [] QMI_IDL_GENERIC_8_BYTE,
      OFFSET8 qmiLocEnvAidingReflectingPlaneStructT_v02 ''latitudeDegrees'',
     OP [] QMI_IDL_GENERIC_8_BYTE,
      OFFSET8 qmiLocEnvAidingReflectingPlaneStructT_v02 ''longitudeDegrees'',
     OP [] QMI_IDL_GENERIC_8_BYTE, OFFSET8 qmiLocEnvAidingReflectingPlaneStructT_v02 ''altitudeMeters'',
     OP [] QMI_IDL_GENERIC_8_BYTE, OFFSET8 qmiLocEnvAidingReflectingPlaneStructT_v02 ''azimuthDegrees'',
     QMI_IDL_FLAG_END_VALUE]"

lemma qmiLocEnvAidingReflectingPlaneStructT_data_v02_ok [idl_simps]:
  "describe_type qmiLocEnvAidingReflectingPlaneStructT_data_v02 = Some (qmiLocEnvAidingReflectingPlaneStructT_v02, 32, [])"
  by (simp add: qmiLocEnvAidingReflectingPlaneStructT_data_v02_def qmiLocEnvAidingReflectingPlaneStructT_v02_def [THEN arg_cong, of laid] analyse_simps layout_simps cong: idl_cong)

definition qmiLocEnvAidingSVCorrectionStructT_data_v02 :: "idl_byte list" where
  "qmiLocEnvAidingSVCorrectionStructT_data_v02 =
    [OP [] QMI_IDL_GENERIC_8_BYTE, OFFSET8 qmiLocEnvAidingSVCorrectionStructT_v02 ''svCorrectionFlags'',
     OP [] QMI_IDL_GENERIC_4_BYTE, OFFSET8 qmiLocEnvAidingSVCorrectionStructT_v02 ''constellation'',
     OP [] QMI_IDL_GENERIC_2_BYTE, OFFSET8 qmiLocEnvAidingSVCorrectionStructT_v02 ''svid'',
     OP [] QMI_IDL_GENERIC_4_BYTE,
      OFFSET8 qmiLocEnvAidingSVCorrectionStructT_v02 ''carrierFrequencyHz'',
     OP [] QMI_IDL_GENERIC_4_BYTE,
      OFFSET8 qmiLocEnvAidingSVCorrectionStructT_v02 ''probabilitySvIsLineofSight'',
     OP [] QMI_IDL_GENERIC_4_BYTE,
      OFFSET8 qmiLocEnvAidingSVCorrectionStructT_v02 ''excessPathLengthMeters'',
     OP [] QMI_IDL_GENERIC_4_BYTE,
      OFFSET8 qmiLocEnvAidingSVCorrectionStructT_v02 ''excessPathLengthUncMeters'',
     OP [] QMI_IDL_AGGREGATE, OFFSET8 qmiLocEnvAidingSVCorrectionStructT_v02 ''reflectingPlane'',
      TYPE88 0 96,
     QMI_IDL_FLAG_END_VALUE]"

lemma qmiLocEnvAidingSVCorrectionStructT_data_v02_ok [idl_simps]:
  "describe_type qmiLocEnvAidingSVCorrectionStructT_data_v02 = Some (qmiLocEnvAidingSVCorrectionStructT_v02, 30, [(1, (0, 96), qmiLocEnvAidingReflectingPlaneStructT_v02)])"
  by (simp add: qmiLocEnvAidingSVCorrectionStructT_data_v02_def qmiLocEnvAidingSVCorrectionStructT_v02_def [THEN arg_cong, of laid] analyse_simps layout_simps cong: idl_cong)

end
