(* ===== verification/LocMsgIdl1.thy ===== *)
theory LocMsgIdl1
  imports LocTypeIdl
begin

text \<open>
  The descriptors of the messages of \<^verbatim>\<open>src/location/loc_api/loc_api_v02/location_service_v02.c\<close>
  (part 1 of 3), byte for byte as the file writes them, each with the result of its analysis.
\<close>

definition qmiLocGenRespMsgT_data_v02 :: "ctype \<Rightarrow> idl_byte list" where
  "qmiLocGenRespMsgT_data_v02 resp_t =
    [TLV [QMI_IDL_TLV_FLAGS_LAST_TLV] (LIT 0x02), OP [] QMI_IDL_AGGREGATE,
      OFFSET8 (qmiLocGenRespMsgT_v02 resp_t) ''resp'', TYPE88 1 0]"

lemma qmiLocGenRespMsgT_data_v02_ok [idl_simps]:
  "describe_msg (qmiLocGenRespMsgT_data_v02 resp_t) = Some ((qmiLocGenRespMsgT_v02 resp_t), 3, [(1, (1, 0), resp_t)])"
  by (simp add: qmiLocGenRespMsgT_data_v02_def qmiLocGenRespMsgT_v02_def [THEN arg_cong, of laid] analyse_simps layout_simps cong: idl_cong)

definition qmiLocGenReqStatusIndMsgT_data_v02 :: "idl_byte list" where
  "qmiLocGenReqStatusIndMsgT_data_v02 =
    [TLV [QMI_IDL_TLV_FLAGS_LAST_TLV] (LIT 0x01), OP [] QMI_IDL_GENERIC_4_BYTE,
      OFFSET8 qmiLocGenReqStatusIndMsgT_v02 ''status'']"

lemma qmiLocGenReqStatusIndMsgT_data_v02_ok [idl_simps]:
  "describe_msg qmiLocGenReqStatusIndMsgT_data_v02 = Some (qmiLocGenReqStatusIndMsgT_v02, 7, [])"
  by (simp add: qmiLocGenReqStatusIndMsgT_data_v02_def qmiLocGenReqStatusIndMsgT_v02_def [THEN arg_cong, of laid] analyse_simps layout_simps cong: idl_cong)

definition qmiLocInformClientRevisionReqMsgT_data_v02 :: "idl_byte list" where
  "qmiLocInformClientRevisionReqMsgT_data_v02 =
    [TLV [QMI_IDL_TLV_FLAGS_LAST_TLV] (LIT 0x01), OP [] QMI_IDL_GENERIC_4_BYTE,
      OFFSET8 qmiLocInformClientRevisionReqMsgT_v02 ''revision'']"

lemma qmiLocInformClientRevisionReqMsgT_data_v02_ok [idl_simps]:
  "describe_msg qmiLocInformClientRevisionReqMsgT_data_v02 = Some (qmiLocInformClientRevisionReqMsgT_v02, 7, [])"
  by (simp add: qmiLocInformClientRevisionReqMsgT_data_v02_def qmiLocInformClientRevisionReqMsgT_v02_def [THEN arg_cong, of laid] analyse_simps layout_simps cong: idl_cong)

definition qmiLocRegEventsReqMsgT_data_v02 :: "idl_byte list" where
  "qmiLocRegEventsReqMsgT_data_v02 =
    [LIT 0x01, OP [] QMI_IDL_GENERIC_8_BYTE, OFFSET8 qmiLocRegEventsReqMsgT_v02 ''eventRegMask'',
     TLV [QMI_IDL_TLV_FLAGS_OPTIONAL] (OFFSET8_DIFF qmiLocRegEventsReqMsgT_v02 ''clientStrId'' ''clientStrId_valid''),
      LIT 0x10, OP [QMI_IDL_FLAGS_IS_ARRAY, QMI_IDL_FLAGS_IS_VARIABLE_LEN] QMI_IDL_STRING,
      OFFSET8 qmiLocRegEventsReqMsgT_v02 ''clientStrId'', LIT QMI_LOC_MAX_CLIENT_ID_STRING_LENGTH_V02,
     TLV [QMI_IDL_TLV_FLAGS_OPTIONAL] (OFFSET8_DIFF qmiLocRegEventsReqMsgT_v02 ''clientType'' ''clientType_valid''),
      LIT 0x11, OP [] QMI_IDL_GENERIC_4_BYTE, OFFSET8 qmiLocRegEventsReqMsgT_v02 ''clientType'',
     TLV [QMI_IDL_TLV_FLAGS_LAST_TLV, QMI_IDL_TLV_FLAGS_OPTIONAL] (OFFSET8_DIFF qmiLocRegEventsReqMsgT_v02 ''enablePosRequestNotification'' ''enablePosRequestNotification_valid''),
      LIT 0x12, OP [] QMI_IDL_GENERIC_1_BYTE,
      OFFSET8 qmiLocRegEventsReqMsgT_v02 ''enablePosRequestNotification'']"

lemma qmiLocRegEventsReqMsgT_data_v02_ok [idl_simps]:
  "describe_msg qmiLocRegEventsReqMsgT_data_v02 = Some (qmiLocRegEventsReqMsgT_v02, 29, [])"
  by (simp add: qmiLocRegEventsReqMsgT_data_v02_def qmiLocRegEventsReqMsgT_v02_def [THEN arg_cong, of laid] analyse_simps layout_simps cong: idl_cong)

definition qmiLocStartReqMsgT_data_v02 :: "idl_byte list" where
  "qmiLocStartReqMsgT_data_v02 =
    [LIT 0x01, OP [] QMI_IDL_GENERIC_1_BYTE, OFFSET8 qmiLocStartReqMsgT_v02 ''sessionId'',
     TLV [QMI_IDL_TLV_FLAGS_OPTIONAL] (OFFSET8_DIFF qmiLocStartReqMsgT_v02 ''fixRecurrence'' ''fixRecurrence_valid''),
      LIT 0x10, OP [] QMI_IDL_GENERIC_4_BYTE, OFFSET8 qmiLocStartReqMsgT_v02 ''fixRecurrence'',
     TLV [QMI_IDL_TLV_FLAGS_OPTIONAL] (OFFSET8_DIFF qmiLocStartReqMsgT_v02 ''horizontalAccuracyLevel'' ''horizontalAccuracyLevel_valid''),
      LIT 0x11, OP [] QMI_IDL_GENERIC_4_BYTE, OFFSET8 qmiLocStartReqMsgT_v02 ''horizontalAccuracyLevel'',
     TLV [QMI_IDL_TLV_FLAGS_OPTIONAL] (OFFSET8_DIFF qmiLocStartReqMsgT_v02 ''intermediateReportState'' ''intermediateReportState_valid''),
      LIT 0x12, OP [] QMI_IDL_GENERIC_4_BYTE, OFFSET8 qmiLocStartReqMsgT_v02 ''intermediateReportState'',
     TLV [QMI_IDL_TLV_FLAGS_OPTIONAL] (OFFSET8_DIFF qmiLocStartReqMsgT_v02 ''minInterval'' ''minInterval_valid''),
      LIT 0x13, OP [] QMI_IDL_GENERIC_4_BYTE, OFFSET8 qmiLocStartReqMsgT_v02 ''minInterval'',
     TLV [QMI_IDL_TLV_FLAGS_OPTIONAL] (OFFSET8_DIFF qmiLocStartReqMsgT_v02 ''applicationId'' ''applicationId_valid''),
      LIT 0x14, OP [] QMI_IDL_AGGREGATE, OFFSET8 qmiLocStartReqMsgT_v02 ''applicationId'', TYPE88 0 0,
     TLV [QMI_IDL_TLV_FLAGS_OPTIONAL] (OFFSET8_DIFF qmiLocStartReqMsgT_v02 ''configAltitudeAssumed'' ''configAltitudeAssumed_valid''),
      LIT 0x15, OP [] QMI_IDL_GENERIC_4_BYTE, OFFSET8 qmiLocStartReqMsgT_v02 ''configAltitudeAssumed'',
     TLV [QMI_IDL_TLV_FLAGS_OPTIONAL] (OFFSET8_DIFF qmiLocStartReqMsgT_v02 ''minIntermediatePositionReportInterval'' ''minIntermediatePositionReportInterval_valid''),
      LIT 0x16, OP [] QMI_IDL_GENERIC_4_BYTE,
      OFFSET8 qmiLocStartReqMsgT_v02 ''minIntermediatePositionReportInterval'',
     TLV [QMI_IDL_TLV_FLAGS_OPTIONAL] (OFFSET8_DIFF qmiLocStartReqMsgT_v02 ''positionReportTimeout'' ''positionReportTimeout_valid''),
      LIT 0x17, OP [] QMI_IDL_GENERIC_4_BYTE, OFFSET8 qmiLocStartReqMsgT_v02 ''positionReportTimeout'',
     TLV [QMI_IDL_TLV_FLAGS_OPTIONAL] (OFFSET8_DIFF qmiLocStartReqMsgT_v02 ''sharePosition'' ''sharePosition_valid''),
      LIT 0x18, OP [] QMI_IDL_GENERIC_1_BYTE, OFFSET8 qmiLocStartReqMsgT_v02 ''sharePosition'',
     TLV [QMI_IDL_TLV_FLAGS_OPTIONAL] (OFFSET8_DIFF qmiLocStartReqMsgT_v02 ''reportGnssOnlyPosition'' ''reportGnssOnlyPosition_valid''),
      LIT 0x19, OP [] QMI_IDL_GENERIC_1_BYTE, OFFSET8 qmiLocStartReqMsgT_v02 ''reportGnssOnlyPosition'',
     TLV [QMI_IDL_TLV_FLAGS_OPTIONAL] (OFFSET8_DIFF qmiLocStartReqMsgT_v02 ''powerMode'' ''powerMode_valid''),
      LIT 0x1A, OP [] QMI_IDL_AGGREGATE, OFFSET8 qmiLocStartReqMsgT_v02 ''powerMode'', TYPE88 0 1,
     TLV [QMI_IDL_TLV_FLAGS_LAST_TLV, QMI_IDL_TLV_FLAGS_OPTIONAL] (OFFSET8_DIFF qmiLocStartReqMsgT_v02 ''specialReqType'' ''specialReqType_valid''),
      LIT 0x1B, OP [] QMI_IDL_GENERIC_4_BYTE, OFFSET8 qmiLocStartReqMsgT_v02 ''specialReqType'']"

lemma qmiLocStartReqMsgT_data_v02_ok [idl_simps]:
  "describe_msg qmiLocStartReqMsgT_data_v02 = Some (qmiLocStartReqMsgT_v02, 74, [(1, (0, 0), qmiLocApplicationIdStructT_v02), (1, (0, 1), qmiLocPowerModeStructT_v02)])"
  by (simp add: qmiLocStartReqMsgT_data_v02_def qmiLocStartReqMsgT_v02_def [THEN arg_cong, of laid] analyse_simps layout_simps cong: idl_cong)

definition qmiLocStopReqMsgT_data_v02 :: "idl_byte list" where
  "qmiLocStopReqMsgT_data_v02 =
    [TLV [QMI_IDL_TLV_FLAGS_LAST_TLV] (LIT 0x01), OP [] QMI_IDL_GENERIC_1_BYTE,
      OFFSET8 qmiLocStopReqMsgT_v02 ''sessionId'']"

lemma qmiLocStopReqMsgT_data_v02_ok [idl_simps]:
  "describe_msg qmiLocStopReqMsgT_data_v02 = Some (qmiLocStopReqMsgT_v02, 4, [])"
  by (simp add: qmiLocStopReqMsgT_data_v02_def qmiLocStopReqMsgT_v02_def [THEN arg_cong, of laid] analyse_simps layout_simps cong: idl_cong)

definition qmiLocEventPositionReportIndMsgT_data_v02 :: "idl_byte list" where
  "qmiLocEventPositionReportIndMsgT_data_v02 =
    [LIT 0x01, OP [] QMI_IDL_GENERIC_4_BYTE,
      OFFSET8 qmiLocEventPositionReportIndMsgT_v02 ''sessionStatus'',
     LIT 0x02, OP [] QMI_IDL_GENERIC_1_BYTE, OFFSET8 qmiLocEventPositionReportIndMsgT_v02 ''sessionId'',
     TLV [QMI_IDL_TLV_FLAGS_OPTIONAL] (OFFSET8_DIFF qmiLocEventPositionReportIndMsgT_v02 ''latitude'' ''latitude_valid''),
      LIT 0x10, OP [] QMI_IDL_GENERIC_8_BYTE, OFFSET8 qmiLocEventPositionReportIndMsgT_v02 ''latitude'',
     TLV [QMI_IDL_TLV_FLAGS_OPTIONAL] (OFFSET8_DIFF qmiLocEventPositionReportIndMsgT_v02 ''longitude'' ''longitude_valid''),
      LIT 0x11, OP [] QMI_IDL_GENERIC_8_BYTE, OFFSET8 qmiLocEventPositionReportIndMsgT_v02 ''longitude'',
     TLV [QMI_IDL_TLV_FLAGS_OPTIONAL] (OFFSET8_DIFF qmiLocEventPositionReportIndMsgT_v02 ''horUncCircular'' ''horUncCircular_valid''),
      LIT 0x12, OP [] QMI_IDL_GENERIC_4_BYTE,
      OFFSET8 qmiLocEventPositionReportIndMsgT_v02 ''horUncCircular'',
     TLV [QMI_IDL_TLV_FLAGS_OPTIONAL] (OFFSET8_DIFF qmiLocEventPositionReportIndMsgT_v02 ''horUncEllipseSemiMinor'' ''horUncEllipseSemiMinor_valid''),
      LIT 0x13, OP [] QMI_IDL_GENERIC_4_BYTE,
      OFFSET8 qmiLocEventPositionReportIndMsgT_v02 ''horUncEllipseSemiMinor'',
     TLV [QMI_IDL_TLV_FLAGS_OPTIONAL] (OFFSET8_DIFF qmiLocEventPositionReportIndMsgT_v02 ''horUncEllipseSemiMajor'' ''horUncEllipseSemiMajor_valid''),
      LIT 0x14, OP [] QMI_IDL_GENERIC_4_BYTE,
      OFFSET8 qmiLocEventPositionReportIndMsgT_v02 ''horUncEllipseSemiMajor'',
     TLV [QMI_IDL_TLV_FLAGS_OPTIONAL] (OFFSET8_DIFF qmiLocEventPositionReportIndMsgT_v02 ''horUncEllipseOrientAzimuth'' ''horUncEllipseOrientAzimuth_valid''),
      LIT 0x15, OP [] QMI_IDL_GENERIC_4_BYTE,
      OFFSET8 qmiLocEventPositionReportIndMsgT_v02 ''horUncEllipseOrientAzimuth'',
     TLV [QMI_IDL_TLV_FLAGS_OPTIONAL] (OFFSET8_DIFF qmiLocEventPositionReportIndMsgT_v02 ''horConfidence'' ''horConfidence_valid''),
      LIT 0x16, OP [] QMI_IDL_GENERIC_1_BYTE,
      OFFSET8 qmiLocEventPositionReportIndMsgT_v02 ''horConfidence'',
     TLV [QMI_IDL_TLV_FLAGS_OPTIONAL] (OFFSET8_DIFF qmiLocEventPositionReportIndMsgT_v02 ''horReliability'' ''horReliability_valid''),
      LIT 0x17, OP [] QMI_IDL_GENERIC_4_BYTE,
      OFFSET8 qmiLocEventPositionReportIndMsgT_v02 ''horReliability'',
     TLV [QMI_IDL_TLV_FLAGS_OPTIONAL] (OFFSET8_DIFF qmiLocEventPositionReportIndMsgT_v02 ''speedHorizontal'' ''speedHorizontal_valid''),
      LIT 0x18, OP [] QMI_IDL_GENERIC_4_BYTE,
      OFFSET8 qmiLocEventPositionReportIndMsgT_v02 ''speedHorizontal'',
     TLV [QMI_IDL_TLV_FLAGS_OPTIONAL] (OFFSET8_DIFF qmiLocEventPositionReportIndMsgT_v02 ''speedUnc'' ''speedUnc_valid''),
      LIT 0x19, OP [] QMI_IDL_GENERIC_4_BYTE, OFFSET8 qmiLocEventPositionReportIndMsgT_v02 ''speedUnc'',
     TLV [QMI_IDL_TLV_FLAGS_OPTIONAL] (OFFSET8_DIFF qmiLocEventPositionReportIndMsgT_v02 ''altitudeWrtEllipsoid'' ''altitudeWrtEllipsoid_valid''),
      LIT 0x1A, OP [] QMI_IDL_GENERIC_4_BYTE,
      OFFSET8 qmiLocEventPositionReportIndMsgT_v02 ''altitudeWrtEllipsoid'',
     TLV [QMI_IDL_TLV_FLAGS_OPTIONAL] (OFFSET8_DIFF qmiLocEventPositionReportIndMsgT_v02 ''altitudeWrtMeanSeaLevel'' ''altitudeWrtMeanSeaLevel_valid''),
      LIT 0x1B, OP [] QMI_IDL_GENERIC_4_BYTE,
      OFFSET8 qmiLocEventPositionReportIndMsgT_v02 ''altitudeWrtMeanSeaLevel'',
     TLV [QMI_IDL_TLV_FLAGS_OPTIONAL] (OFFSET8_DIFF qmiLocEventPositionReportIndMsgT_v02 ''vertUnc'' ''vertUnc_valid''),
      LIT 0x1C, OP [] QMI_IDL_GENERIC_4_BYTE, OFFSET8 qmiLocEventPositionReportIndMsgT_v02 ''vertUnc'',
     TLV [QMI_IDL_TLV_FLAGS_OPTIONAL] (OFFSET8_DIFF qmiLocEventPositionReportIndMsgT_v02 ''vertConfidence'' ''vertConfidence_valid''),
      LIT 0x1D, OP [] QMI_IDL_GENERIC_1_BYTE,
      OFFSET8 qmiLocEventPositionReportIndMsgT_v02 ''vertConfidence'',
     TLV [QMI_IDL_TLV_FLAGS_OPTIONAL] (OFFSET8_DIFF qmiLocEventPositionReportIndMsgT_v02 ''vertReliability'' ''vertReliability_valid''),
      LIT 0x1E, OP [] QMI_IDL_GENERIC_4_BYTE,
      OFFSET8 qmiLocEventPositionReportIndMsgT_v02 ''vertReliability'',
     TLV [QMI_IDL_TLV_FLAGS_OPTIONAL] (OFFSET8_DIFF qmiLocEventPositionReportIndMsgT_v02 ''speedVertical'' ''speedVertical_valid''),
      LIT 0x1F, OP [] QMI_IDL_GENERIC_4_BYTE,
      OFFSET8 qmiLocEventPositionReportIndMsgT_v02 ''speedVertical'',
     TLV [QMI_IDL_TLV_FLAGS_OPTIONAL] (OFFSET8_DIFF qmiLocEventPositionReportIndMsgT_v02 ''heading'' ''heading_valid''),
      LIT 0x20, OP [] QMI_IDL_GENERIC_4_BYTE, OFFSET8 qmiLocEventPositionReportIndMsgT_v02 ''heading'',
     TLV [QMI_IDL_TLV_FLAGS_OPTIONAL] (OFFSET8_DIFF qmiLocEventPositionReportIndMsgT_v02 ''headingUnc'' ''headingUnc_valid''),
      LIT 0x21, OP [] QMI_IDL_GENERIC_4_BYTE,
      OFFSET8 qmiLocEventPositionReportIndMsgT_v02 ''headingUnc'',
     TLV [QMI_IDL_TLV_FLAGS_OPTIONAL] (OFFSET8_DIFF qmiLocEventPositionReportIndMsgT_v02 ''magneticDeviation'' ''magneticDeviation_valid''),
      LIT 0x22, OP [] QMI_IDL_GENERIC_4_BYTE,
      OFFSET8 qmiLocEventPositionReportIndMsgT_v02 ''magneticDeviation'',
     TLV [QMI_IDL_TLV_FLAGS_OPTIONAL] (OFFSET8_DIFF qmiLocEventPositionReportIndMsgT_v02 ''technologyMask'' ''technologyMask_valid''),
      LIT 0x23, OP [] QMI_IDL_GENERIC_4_BYTE,
      OFFSET8 qmiLocEventPositionReportIndMsgT_v02 ''technologyMask'',
     TLV [QMI_IDL_TLV_FLAGS_OPTIONAL] (OFFSET8_DIFF qmiLocEventPositionReportIndMsgT_v02 ''DOP'' ''DOP_valid''),
      LIT 0x24, OP [] QMI_IDL_AGGREGATE, OFFSET8 qmiLocEventPositionReportIndMsgT_v02 ''DOP'',
      TYPE88 0 3,
     TLV [QMI_IDL_TLV_FLAGS_OPTIONAL] (OFFSET8_DIFF qmiLocEventPositionReportIndMsgT_v02 ''timestampUtc'' ''timestampUtc_valid''),
      LIT 0x25, OP [] QMI_IDL_GENERIC_8_BYTE,
      OFFSET8 qmiLocEventPositionReportIndMsgT_v02 ''timestampUtc'',
     TLV [QMI_IDL_TLV_FLAGS_OPTIONAL] (OFFSET8_DIFF qmiLocEventPositionReportIndMsgT_v02 ''leapSeconds'' ''leapSeconds_valid''),
      LIT 0x26, OP [] QMI_IDL_GENERIC_1_BYTE,
      OFFSET8 qmiLocEventPositionReportIndMsgT_v02 ''leapSeconds'',
     TLV [QMI_IDL_TLV_FLAGS_OPTIONAL] (OFFSET8_DIFF qmiLocEventPositionReportIndMsgT_v02 ''gpsTime'' ''gpsTime_valid''),
      LIT 0x27, OP [] QMI_IDL_AGGREGATE, OFFSET8 qmiLocEventPositionReportIndMsgT_v02 ''gpsTime'',
      TYPE88 0 2,
     TLV [QMI_IDL_TLV_FLAGS_OPTIONAL] (OFFSET8_DIFF qmiLocEventPositionReportIndMsgT_v02 ''timeUnc'' ''timeUnc_valid''),
      LIT 0x28, OP [] QMI_IDL_GENERIC_4_BYTE, OFFSET8 qmiLocEventPositionReportIndMsgT_v02 ''timeUnc'',
     TLV [QMI_IDL_TLV_FLAGS_OPTIONAL] (OFFSET16_DIFF qmiLocEventPositionReportIndMsgT_v02 ''timeSrc'' ''timeSrc_valid''),
      LIT 0x29, OP [QMI_IDL_FLAGS_OFFSET_IS_16] QMI_IDL_GENERIC_4_BYTE,
      OFFSET16ARRAY qmiLocEventPositionReportIndMsgT_v02 ''timeSrc'',
     TLV [QMI_IDL_TLV_FLAGS_OPTIONAL] (OFFSET16_DIFF qmiLocEventPositionReportIndMsgT_v02 ''sensorDataUsage'' ''sensorDataUsage_valid''),
      LIT 0x2A, OP [QMI_IDL_FLAGS_OFFSET_IS_16] QMI_IDL_AGGREGATE,
      OFFSET16ARRAY qmiLocEventPositionReportIndMsgT_v02 ''sensorDataUsage'', TYPE88 0 5,
     TLV [QMI_IDL_TLV_FLAGS_OPTIONAL] (OFFSET16_DIFF qmiLocEventPositionReportIndMsgT_v02 ''fixId'' ''fixId_valid''),
      LIT 0x2B, OP [QMI_IDL_FLAGS_OFFSET_IS_16] QMI_IDL_GENERIC_4_BYTE,
      OFFSET16ARRAY qmiLocEventPositionReportIndMsgT_v02 ''fixId'',
     TLV [QMI_IDL_TLV_FLAGS_OPTIONAL] (OFFSET16_DIFF qmiLocEventPositionReportIndMsgT_v02 ''gnssSvUsedList'' ''gnssSvUsedList_valid''),
      LIT 0x2C,
      OP [QMI_IDL_FLAGS_IS_ARRAY, QMI_IDL_FLAGS_IS_VARIABLE_LEN, QMI_IDL_FLAGS_OFFSET_IS_16] QMI_IDL_GENERIC_2_BYTE,
      OFFSET16ARRAY qmiLocEventPositionReportIndMsgT_v02 ''gnssSvUsedList'',
      LIT QMI_LOC_MAX_SV_USED_LIST_LENGTH_V02,
      OFFSET16_DIFF qmiLocEventPositionReportIndMsgT_v02 ''gnssSvUsedList'' ''gnssSvUsedList_len'',
     TLV [QMI_IDL_TLV_FLAGS_OPTIONAL] (OFFSET16_DIFF qmiLocEventPositionReportIndMsgT_v02 ''altitudeAssumed'' ''altitudeAssumed_valid''),
      LIT 0x2D, OP [QMI_IDL_FLAGS_OFFSET_IS_16] QMI_IDL_GENERIC_1_BYTE,
      OFFSET16ARRAY qmiLocEventPositionReportIndMsgT_v02 ''altitudeAssumed'',
     TLV [QMI_IDL_TLV_FLAGS_OPTIONAL] (OFFSET16_DIFF qmiLocEventPositionReportIndMsgT_v02 ''velEnu'' ''velEnu_valid''),
      LIT 0x2E, OP [QMI_IDL_FLAGS_IS_ARRAY, QMI_IDL_FLAGS_OFFSET_IS_16] QMI_IDL_GENERIC_4_BYTE,
      OFFSET16ARRAY qmiLocEventPositionReportIndMsgT_v02 ''velEnu'', LIT QMI_LOC_ENU_ARRAY_LENGTH_V02,
     TLV [QMI_IDL_TLV_FLAGS_OPTIONAL] (OFFSET16_DIFF qmiLocEventPositionReportIndMsgT_v02 ''velUncEnu'' ''velUncEnu_valid''),
      LIT 0x2F, OP [QMI_IDL_FLAGS_IS_ARRAY, QMI_IDL_FLAGS_OFFSET_IS_16] QMI_IDL_GENERIC_4_BYTE,
      OFFSET16ARRAY qmiLocEventPositionReportIndMsgT_v02 ''velUncEnu'', LIT QMI_LOC_ENU_ARRAY_LENGTH_V02,
     TLV [QMI_IDL_TLV_FLAGS_OPTIONAL] (OFFSET16_DIFF qmiLocEventPositionReportIndMsgT_v02 ''navSolutionMask'' ''navSolutionMask_valid''),
      LIT 0x30, OP [QMI_IDL_FLAGS_OFFSET_IS_16] QMI_IDL_GENERIC_8_BYTE,
      OFFSET16ARRAY qmiLocEventPositionReportIndMsgT_v02 ''navSolutionMask'',
     TLV [QMI_IDL_TLV_FLAGS_OPTIONAL] (OFFSET16_DIFF qmiLocEventPositionReportIndMsgT_v02 ''sensorSubTechnologyMask'' ''sensorSubTechnologyMask_valid''),
      LIT 0x31, OP [QMI_IDL_FLAGS_OFFSET_IS_16] QMI_IDL_GENERIC_4_BYTE,
      OFFSET16ARRAY qmiLocEventPositionReportIndMsgT_v02 ''sensorSubTechnologyMask'',
     TLV [QMI_IDL_TLV_FLAGS_OPTIONAL] (OFFSET16_DIFF qmiLocEventPositionReportIndMsgT_v02 ''gnssOnlyPosition'' ''gnssOnlyPosition_valid''),
      LIT 0x32, OP [QMI_IDL_FLAGS_OFFSET_IS_16] QMI_IDL_GENERIC_1_BYTE,
      OFFSET16ARRAY qmiLocEventPositionReportIndMsgT_v02 ''gnssOnlyPosition'',
     TLV [QMI_IDL_TLV_FLAGS_OPTIONAL] (OFFSET16_DIFF qmiLocEventPositionReportIndMsgT_v02 ''extDOP'' ''extDOP_valid''),
      LIT 0x33, OP [QMI_IDL_FLAGS_OFFSET_IS_16] QMI_IDL_AGGREGATE,
      OFFSET16ARRAY qmiLocEventPositionReportIndMsgT_v02 ''extDOP'', TYPE88 0 4,
     TLV [QMI_IDL_TLV_FLAGS_OPTIONAL] (OFFSET16_DIFF qmiLocEventPositionReportIndMsgT_v02 ''dgnssStationId'' ''dgnssStationId_valid''),
      LIT 0x34,
      OP [QMI_IDL_FLAGS_IS_ARRAY, QMI_IDL_FLAGS_IS_VARIABLE_LEN, QMI_IDL_FLAGS_OFFSET_IS_16] QMI_IDL_GENERIC_2_BYTE,
      OFFSET16ARRAY qmiLocEventPositionReportIndMsgT_v02 ''dgnssStationId'',
      LIT QMI_LOC_DGNSS_STATION_ID_ARRAY_LENGTH_V02,
      OFFSET16_DIFF qmiLocEventPositionReportIndMsgT_v02 ''dgnssStationId'' ''dgnssStationId_len'',
     TLV [QMI_IDL_TLV_FLAGS_OPTIONAL] (OFFSET16_DIFF qmiLocEventPositionReportIndMsgT_v02 ''spoofReportMask'' ''spoofReportMask_valid''),
      LIT 0x35, OP [QMI_IDL_FLAGS_OFFSET_IS_16] QMI_IDL_GENERIC_8_BYTE,
      OFFSET16ARRAY qmiLocEventPositionReportIndMsgT_v02 ''spoofReportMask'',
     TLV [QMI_IDL_TLV_FLAGS_OPTIONAL] (OFFSET16_DIFF qmiLocEventPositionReportIndMsgT_v02 ''expandedGnssSvUsedList'' ''expandedGnssSvUsedList_valid''),
      LIT 0x36,
      OP [QMI_IDL_FLAGS_IS_ARRAY, QMI_IDL_FLAGS_IS_VARIABLE_LEN, QMI_IDL_FLAGS_OFFSET_IS_16] QMI_IDL_GENERIC_2_BYTE,
      OFFSET16ARRAY qmiLocEventPositionReportIndMsgT_v02 ''expandedGnssSvUsedList'',
      LIT QMI_LOC_EXPANDED_SV_INFO_LIST_MAX_SIZE_V02,
      OFFSET16_DIFF qmiLocEventPositionReportIndMsgT_v02 ''expandedGnssSvUsedList'' ''expandedGnssSvUsedList_len'',
     TLV [QMI_IDL_TLV_FLAGS_OPTIONAL] (OFFSET16_DIFF qmiLocEventPositionReportIndMsgT_v02 ''gnssSvUsedSignalTypeList'' ''gnssSvUsedSignalTypeList_valid''),
      LIT 0x37,
      OP [QMI_IDL_FLAGS_IS_ARRAY, QMI_IDL_FLAGS_IS_VARIABLE_LEN, QMI_IDL_FLAGS_OFFSET_IS_16] QMI_IDL_GENERIC_8_BYTE,
      OFFSET16ARRAY qmiLocEventPositionReportIndMsgT_v02 ''gnssSvUsedSignalTypeList'',
      LIT QMI_LOC_EXPANDED_SV_INFO_LIST_MAX_SIZE_V02,
      OFFSET16_DIFF qmiLocEventPositionReportIndMsgT_v02 ''gnssSvUsedSignalTypeList'' ''gnssSvUsedSignalTypeList_len'',
     TLV [QMI_IDL_TLV_FLAGS_OPTIONAL] (OFFSET16_DIFF qmiLocEventPositionReportIndMsgT_v02 ''jammerIndicatorList'' ''jammerIndicatorList_valid''),
      LIT 0x38,
      OP [QMI_IDL_FLAGS_IS_ARRAY, QMI_IDL_FLAGS_IS_VARIABLE_LEN, QMI_IDL_FLAGS_OFFSET_IS_16] QMI_IDL_AGGREGATE,
      OFFSET16ARRAY qmiLocEventPositionReportIndMsgT_v02 ''jammerIndicatorList'',
      LIT QMI_LOC_MAX_GNSS_SIGNAL_TYPE_V02,
      OFFSET16_DIFF qmiLocEventPositionReportIndMsgT_v02 ''jammerIndicatorList'' ''jammerIndicatorList_len'',
      TYPE88 0 6,
     TLV [QMI_IDL_TLV_FLAGS_OPTIONAL] (OFFSET16_DIFF qmiLocEventPositionReportIndMsgT_v02 ''dgnssCorrectionSource'' ''dgnssCorrectionSource_valid''),
      LIT 0x39, OP [QMI_IDL_FLAGS_OFFSET_IS_16] QMI_IDL_GENERIC_4_BYTE,
      OFFSET16ARRAY qmiLocEventPositionReportIndMsgT_v02 ''dgnssCorrectionSource'',
     TLV [QMI_IDL_TLV_FLAGS_OPTIONAL] (OFFSET16_DIFF qmiLocEventPositionReportIndMsgT_v02 ''dgnssCorrectionSourceID'' ''dgnssCorrectionSourceID_valid''),
      LIT 0x3A, OP [QMI_IDL_FLAGS_OFFSET_IS_16] QMI_IDL_GENERIC_4_BYTE,
      OFFSET16ARRAY qmiLocEventPositionReportIndMsgT_v02 ''dgnssCorrectionSourceID'',
     TLV [QMI_IDL_TLV_FLAGS_OPTIONAL] (OFFSET16_DIFF qmiLocEventPositionReportIndMsgT_v02 ''dgnssConstellationUsage'' ''dgnssConstellationUsage_valid''),
      LIT 0x3B, OP [QMI_IDL_FLAGS_OFFSET_IS_16] QMI_IDL_GENERIC_8_BYTE,
      OFFSET16ARRAY qmiLocEventPositionReportIndMsgT_v02 ''dgnssConstellationUsage'',
     TLV [QMI_IDL_TLV_FLAGS_OPTIONAL] (OFFSET16_DIFF qmiLocEventPositionReportIndMsgT_v02 ''dgnssRefStationId'' ''dgnssRefStationId_valid''),
      LIT 0x3C, OP [QMI_IDL_FLAGS_OFFSET_IS_16] QMI_IDL_GENERIC_2_BYTE,
      OFFSET16ARRAY qmiLocEventPositionReportIndMsgT_v02 ''dgnssRefStationId'',
     TLV [QMI_IDL_TLV_FLAGS_OPTIONAL] (OFFSET16_DIFF qmiLocEventPositionReportIndMsgT_v02 ''dgnssDataAgeMsec'' ''dgnssDataAgeMsec_valid''),
      LIT 0x3D, OP [QMI_IDL_FLAGS_OFFSET_IS_16] QMI_IDL_GENERIC_4_BYTE,
      OFFSET16ARRAY qmiLocEventPositionReportIndMsgT_v02 ''dgnssDataAgeMsec'',
     TLV [QMI_IDL_TLV_FLAGS_OPTIONAL] (OFFSET16_DIFF qmiLocEventPositionReportIndMsgT_v02 ''conformityIndex'' ''conformityIndex_valid''),
      LIT 0x3E, OP [QMI_IDL_FLAGS_OFFSET_IS_16] QMI_IDL_GENERIC_4_BYTE,
      OFFSET16ARRAY qmiLocEventPositionReportIndMsgT_v02 ''conformityIndex'',
     TLV [QMI_IDL_TLV_FLAGS_OPTIONAL] (OFFSET16_DIFF qmiLocEventPositionReportIndMsgT_v02 ''systemTick'' ''systemTick_valid''),
      LIT 0x3F, OP [QMI_IDL_FLAGS_OFFSET_IS_16] QMI_IDL_GENERIC_8_BYTE,
      OFFSET16ARRAY qmiLocEventPositionReportIndMsgT_v02 ''systemTick'',
     TLV [QMI_IDL_TLV_FLAGS_OPTIONAL] (OFFSET16_DIFF qmiLocEventPositionReportIndMsgT_v02 ''systemTickUnc'' ''systemTickUnc_valid''),
      LIT 0x40, OP [QMI_IDL_FLAGS_OFFSET_IS_16] QMI_IDL_GENERIC_4_BYTE,
      OFFSET16ARRAY qmiLocEventPositionReportIndMsgT_v02 ''systemTickUnc'',
     TLV [QMI_IDL_TLV_FLAGS_OPTIONAL] (OFFSET16_DIFF qmiLocEventPositionReportIndMsgT_v02 ''systemClkTimeBias'' ''systemClkTimeBias_valid''),
      LIT 0x41, OP [QMI_IDL_FLAGS_OFFSET_IS_16] QMI_IDL_GENERIC_4_BYTE,
      OFFSET16ARRAY qmiLocEventPositionReportIndMsgT_v02 ''systemClkTimeBias'',
     TLV [QMI_IDL_TLV_FLAGS_LAST_TLV, QMI_IDL_TLV_FLAGS_OPTIONAL] (OFFSET16_DIFF qmiLocEventPositionReportIndMsgT_v02 ''systemClkTimeBiasUnc'' ''systemClkTimeBiasUnc_valid''),
      LIT 0x42, OP [QMI_IDL_FLAGS_OFFSET_IS_16] QMI_IDL_GENERIC_4_BYTE,
      OFFSET16ARRAY qmiLocEventPositionReportIndMsgT_v02 ''systemClkTimeBiasUnc'']"

lemma qmiLocEventPositionReportIndMsgT_data_v02_ok [idl_simps]:
  "describe_msg qmiLocEventPositionReportIndMsgT_data_v02 = Some (qmiLocEventPositionReportIndMsgT_v02, 2290, [(1, (0, 3), qmiLocDOPStructT_v02), (1, (0, 2), qmiLocGPSTimeStructT_v02), (1, (0, 5), qmiLocSensorUsageIndicatorStructT_v02), (1, (0, 4), qmiLocExtDOPStructT_v02), (19, (0, 6), qmiLocJammerIndicatorStructT_v02)])"
  by (simp add: qmiLocEventPositionReportIndMsgT_data_v02_def qmiLocEventPositionReportIndMsgT_v02_def [THEN arg_cong, of laid] analyse_simps layout_simps cong: idl_cong)

definition qmiLocEventGnssSvInfoIndMsgT_data_v02 :: "idl_byte list" where
  "qmiLocEventGnssSvInfoIndMsgT_data_v02 =
    [LIT 0x01, OP [] QMI_IDL_GENERIC_1_BYTE,
      OFFSET8 qmiLocEventGnssSvInfoIndMsgT_v02 ''altitudeAssumed'',
     TLV [QMI_IDL_TLV_FLAGS_OPTIONAL] (OFFSET8_DIFF qmiLocEventGnssSvInfoIndMsgT_v02 ''svList'' ''svList_valid''),
      LIT 0x10, OP [QMI_IDL_FLAGS_IS_ARRAY, QMI_IDL_FLAGS_IS_VARIABLE_LEN] QMI_IDL_AGGREGATE,
      OFFSET8 qmiLocEventGnssSvInfoIndMsgT_v02 ''svList'', LIT QMI_LOC_SV_INFO_LIST_MAX_SIZE_V02,
      OFFSET8_DIFF qmiLocEventGnssSvInfoIndMsgT_v02 ''svList'' ''svList_len'', TYPE88 0 7,
     TLV [QMI_IDL_TLV_FLAGS_OPTIONAL] (OFFSET16_DIFF qmiLocEventGnssSvInfoIndMsgT_v02 ''expandedSvList'' ''expandedSvList_valid''),
      LIT 0x11,
      OP [QMI_IDL_FLAGS_IS_ARRAY, QMI_IDL_FLAGS_IS_VARIABLE_LEN, QMI_IDL_FLAGS_OFFSET_IS_16] QMI_IDL_AGGREGATE,
      OFFSET16ARRAY qmiLocEventGnssSvInfoIndMsgT_v02 ''expandedSvList'',
      LIT QMI_LOC_EXPANDED_SV_INFO_LIST_MAX_SIZE_V02,
      OFFSET16_DIFF qmiLocEventGnssSvInfoIndMsgT_v02 ''expandedSvList'' ''expandedSvList_len'',
      TYPE88 0 8,
     TLV [QMI_IDL_TLV_FLAGS_OPTIONAL] (OFFSET16_DIFF qmiLocEventGnssSvInfoIndMsgT_v02 ''gnssSignalTypeList'' ''gnssSignalTypeList_valid''),
      LIT 0x12,
      OP [QMI_IDL_FLAGS_IS_ARRAY, QMI_IDL_FLAGS_IS_VARIABLE_LEN, QMI_IDL_FLAGS_OFFSET_IS_16] QMI_IDL_GENERIC_8_BYTE,
      OFFSET16ARRAY qmiLocEventGnssSvInfoIndMsgT_v02 ''gnssSignalTypeList'',
      LIT QMI_LOC_EXPANDED_SV_INFO_LIST_MAX_SIZE_V02,
      OFFSET16_DIFF qmiLocEventGnssSvInfoIndMsgT_v02 ''gnssSignalTypeList'' ''gnssSignalTypeList_len'',
     TLV [QMI_IDL_TLV_FLAGS_LAST_TLV, QMI_IDL_TLV_FLAGS_OPTIONAL] (OFFSET16_DIFF qmiLocEventGnssSvInfoIndMsgT_v02 ''rfLoss'' ''rfLoss_valid''),
      LIT 0x13,
      OP [QMI_IDL_FLAGS_IS_ARRAY, QMI_IDL_FLAGS_IS_VARIABLE_LEN, QMI_IDL_FLAGS_OFFSET_IS_16] QMI_IDL_GENERIC_4_BYTE,
      OFFSET16ARRAY qmiLocEventGnssSvInfoIndMsgT_v02 ''rfLoss'',
      LIT QMI_LOC_EXPANDED_SV_INFO_LIST_MAX_SIZE_V02,
      OFFSET16_DIFF qmiLocEventGnssSvInfoIndMsgT_v02 ''rfLoss'' ''rfLoss_len'']"

lemma qmiLocEventGnssSvInfoIndMsgT_data_v02_ok [idl_simps]:
  "describe_msg qmiLocEventGnssSvInfoIndMsgT_data_v02 = Some (qmiLocEventGnssSvInfoIndMsgT_v02, 2132, [(80, (0, 7), qmiLocSvInfoStructT_v02), (176, (0, 8), qmiLocExpandedSvInfoStructT_v02)])"
  by (simp add: qmiLocEventGnssSvInfoIndMsgT_data_v02_def qmiLocEventGnssSvInfoIndMsgT_v02_def [THEN arg_cong, of laid] analyse_simps layout_simps cong: idl_cong)

definition qmiLocEventNmeaIndMsgT_data_v02 :: "idl_byte list" where
  "qmiLocEventNmeaIndMsgT_data_v02 =
    [LIT 0x01, OP [QMI_IDL_FLAGS_IS_ARRAY, QMI_IDL_FLAGS_IS_VARIABLE_LEN] QMI_IDL_STRING,
      OFFSET8 qmiLocEventNmeaIndMsgT_v02 ''nmea'', LIT QMI_LOC_NMEA_STRING_MAX_LENGTH_V02,
     TLV [QMI_IDL_TLV_FLAGS_LAST_TLV, QMI_IDL_TLV_FLAGS_OPTIONAL] (OFFSET16_DIFF qmiLocEventNmeaIndMsgT_v02 ''expandedNmea'' ''expandedNmea_valid''),
      LIT 0x10,
      OP [QMI_IDL_FLAGS_IS_ARRAY, QMI_IDL_FLAGS_IS_VARIABLE_LEN, QMI_IDL_FLAGS_SZ_IS_16, QMI_IDL_FLAGS_OFFSET_IS_16] QMI_IDL_STRING,
      OFFSET16ARRAY qmiLocEventNmeaIndMsgT_v02 ''expandedNmea'',
      LO8 QMI_LOC_EXPANDED_NMEA_STRING_MAX_LENGTH_V02, HI8 QMI_LOC_EXPANDED_NMEA_STRING_MAX_LENGTH_V02]"

lemma qmiLocEventNmeaIndMsgT_data_v02_ok [idl_simps]:
  "describe_msg qmiLocEventNmeaIndMsgT_data_v02 = Some (qmiLocEventNmeaIndMsgT_v02, 4301, [])"
  by (simp add: qmiLocEventNmeaIndMsgT_data_v02_def qmiLocEventNmeaIndMsgT_v02_def [THEN arg_cong, of laid] analyse_simps layout_simps cong: idl_cong)

definition qmiLocEventNiNotifyVerifyReqIndMsgT_data_v02 :: "idl_byte list" where
  "qmiLocEventNiNotifyVerifyReqIndMsgT_data_v02 =
    [LIT 0x01, OP [] QMI_IDL_GENERIC_4_BYTE,
      OFFSET8 qmiLocEventNiNotifyVerifyReqIndMsgT_v02 ''notificationType'',
     TLV [QMI_IDL_TLV_FLAGS_OPTIONAL] (OFFSET8_DIFF qmiLocEventNiNotifyVerifyReqIndMsgT_v02 ''NiVxInd'' ''NiVxInd_valid''),
      LIT 0x10, OP [] QMI_IDL_AGGREGATE, OFFSET8 qmiLocEventNiNotifyVerifyReqIndMsgT_v02 ''NiVxInd'',
      TYPE88 0 9,
     TLV [QMI_IDL_TLV_FLAGS_OPTIONAL] (OFFSET16_DIFF qmiLocEventNiNotifyVerifyReqIndMsgT_v02 ''NiSuplInd'' ''NiSuplInd_valid''),
      LIT 0x11, OP [QMI_IDL_FLAGS_OFFSET_IS_16] QMI_IDL_AGGREGATE,
      OFFSET16ARRAY qmiLocEventNiNotifyVerifyReqIndMsgT_v02 ''NiSuplInd'', TYPE88 0 15,
     TLV [QMI_IDL_TLV_FLAGS_OPTIONAL] (OFFSET16_DIFF qmiLocEventNiNotifyVerifyReqIndMsgT_v02 ''NiUmtsCpInd'' ''NiUmtsCpInd_valid''),
      LIT 0x12, OP [QMI_IDL_FLAGS_OFFSET_IS_16] QMI_IDL_AGGREGATE,
      OFFSET16ARRAY qmiLocEventNiNotifyVerifyReqIndMsgT_v02 ''NiUmtsCpInd'', TYPE88 0 17,
     TLV [QMI_IDL_TLV_FLAGS_OPTIONAL] (OFFSET16_DIFF qmiLocEventNiNotifyVerifyReqIndMsgT_v02 ''NiVxServiceInteractionInd'' ''NiVxServiceInteractionInd_valid''),
      LIT 0x13, OP [QMI_IDL_FLAGS_OFFSET_IS_16] QMI_IDL_AGGREGATE,
      OFFSET16ARRAY qmiLocEventNiNotifyVerifyReqIndMsgT_v02 ''NiVxServiceInteractionInd'', TYPE88 0 18,
     TLV [QMI_IDL_TLV_FLAGS_OPTIONAL] (OFFSET16_DIFF qmiLocEventNiNotifyVerifyReqIndMsgT_v02 ''NiSuplVer2ExtInd'' ''NiSuplVer2ExtInd_valid''),
      LIT 0x14, OP [QMI_IDL_FLAGS_OFFSET_IS_16] QMI_IDL_AGGREGATE,
      OFFSET16ARRAY qmiLocEventNiNotifyVerifyReqIndMsgT_v02 ''NiSuplVer2ExtInd'', TYPE88 0 19,
     TLV [QMI_IDL_TLV_FLAGS_OPTIONAL] (OFFSET16_DIFF qmiLocEventNiNotifyVerifyReqIndMsgT_v02 ''suplEmergencyNotification'' ''suplEmergencyNotification_valid''),
      LIT 0x15, OP [QMI_IDL_FLAGS_OFFSET_IS_16] QMI_IDL_AGGREGATE,
      OFFSET16ARRAY qmiLocEventNiNotifyVerifyReqIndMsgT_v02 ''suplEmergencyNotification'', TYPE88 0 20,
     TLV [QMI_IDL_TLV_FLAGS_LAST_TLV, QMI_IDL_TLV_FLAGS_OPTIONAL] (OFFSET16_DIFF qmiLocEventNiNotifyVerifyReqIndMsgT_v02 ''isInEmergencySession'' ''isInEmergencySession_valid''),
      LIT 0x16, OP [QMI_IDL_FLAGS_OFFSET_IS_16] QMI_IDL_GENERIC_1_BYTE,
      OFFSET16ARRAY qmiLocEventNiNotifyVerifyReqIndMsgT_v02 ''isInEmergencySession'']"

lemma qmiLocEventNiNotifyVerifyReqIndMsgT_data_v02_ok [idl_simps]:
  "describe_msg qmiLocEventNiNotifyVerifyReqIndMsgT_data_v02 = Some (qmiLocEventNiNotifyVerifyReqIndMsgT_v02, 29, [(1, (0, 9), qmiLocNiVxNotifyVerifyStructT_v02), (1, (0, 15), qmiLocNiSuplNotifyVerifyStructT_v02), (1, (0, 17), qmiLocNiUmtsCpNotifyVerifyStructT_v02), (1, (0, 18), qmiLocNiVxServiceInteractionStructT_v02), (1, (0, 19), qmiLocNiSuplVer2ExtStructT_v02), (1, (0, 20), qmiLocEmergencyNotificationStructT_v02)])"
  by (simp add: qmiLocEventNiNotifyVerifyReqIndMsgT_data_v02_def qmiLocEventNiNotifyVerifyReqIndMsgT_v02_def [THEN arg_cong, of laid] analyse_simps layout_simps cong: idl_cong)

definition qmiLocEventInjectTimeReqIndMsgT_data_v02 :: "idl_byte list" where
  "qmiLocEventInjectTimeReqIndMsgT_data_v02 =
    [TLV [QMI_IDL_TLV_FLAGS_LAST_TLV, QMI_IDL_TLV_FLAGS_OPTIONAL] (OFFSET8_DIFF qmiLocEventInjectTimeReqIndMsgT_v02 ''timeServerInfo'' ''timeServerInfo_valid''),
      LIT 0x10, OP [] QMI_IDL_AGGREGATE, OFFSET8 qmiLocEventInjectTimeReqIndMsgT_v02 ''timeServerInfo'',
      TYPE88 0 22]"

lemma qmiLocEventInjectTimeReqIndMsgT_data_v02_ok [idl_simps]:
  "describe_msg qmiLocEventInjectTimeReqIndMsgT_data_v02 = Some (qmiLocEventInjectTimeReqIndMsgT_v02, 3, [(1, (0, 22), qmiLocTimeServerListStructT_v02)])"
  by (simp add: qmiLocEventInjectTimeReqIndMsgT_data_v02_def qmiLocEventInjectTimeReqIndMsgT_v02_def [THEN arg_cong, of laid] analyse_simps layout_simps cong: idl_cong)

definition qmiLocEventInjectPredictedOrbitsReqIndMsgT_data_v02 :: "idl_byte list" where
  "qmiLocEventInjectPredictedOrbitsReqIndMsgT_data_v02 =
    [LIT 0x01, OP [] QMI_IDL_AGGREGATE,
      OFFSET8 qmiLocEventInjectPredictedOrbitsReqIndMsgT_v02 ''allowedSizes'', TYPE88 0 23,
     TLV [QMI_IDL_TLV_FLAGS_OPTIONAL] (OFFSET8_DIFF qmiLocEventInjectPredictedOrbitsReqIndMsgT_v02 ''serverList'' ''serverList_valid''),
      LIT 0x10, OP [] QMI_IDL_AGGREGATE,
      OFFSET8 qmiLocEventInjectPredictedOrbitsReqIndMsgT_v02 ''serverList'', TYPE88 0 24,
     TLV [QMI_IDL_TLV_FLAGS_OPTIONAL] (OFFSET16_DIFF qmiLocEventInjectPredictedOrbitsReqIndMsgT_v02 ''serverUpdateMask'' ''serverUpdateMask_valid''),
      LIT 0x11, OP [QMI_IDL_FLAGS_OFFSET_IS_16] QMI_IDL_GENERIC_8_BYTE,
      OFFSET16ARRAY qmiLocEventInjectPredictedOrbitsReqIndMsgT_v02 ''serverUpdateMask'',
     TLV [QMI_IDL_TLV_FLAGS_OPTIONAL] (OFFSET16_DIFF qmiLocEventInjectPredictedOrbitsReqIndMsgT_v02 ''updateType'' ''updateType_valid''),
      LIT 0x12, OP [QMI_IDL_FLAGS_OFFSET_IS_16] QMI_IDL_GENERIC_4_BYTE,
      OFFSET16ARRAY qmiLocEventInjectPredictedOrbitsReqIndMsgT_v02 ''updateType'',
     TLV [QMI_IDL_TLV_FLAGS_LAST_TLV, QMI_IDL_TLV_FLAGS_OPTIONAL] (OFFSET16_DIFF qmiLocEventInjectPredictedOrbitsReqIndMsgT_v02 ''updateRate'' ''updateRate_valid''),
      LIT 0x13, OP [QMI_IDL_FLAGS_OFFSET_IS_16] QMI_IDL_GENERIC_4_BYTE,
      OFFSET16ARRAY qmiLocEventInjectPredictedOrbitsReqIndMsgT_v02 ''updateRate'']"

lemma qmiLocEventInjectPredictedOrbitsReqIndMsgT_data_v02_ok [idl_simps]:
  "describe_msg qmiLocEventInjectPredictedOrbitsReqIndMsgT_data_v02 = Some (qmiLocEventInjectPredictedOrbitsReqIndMsgT_v02, 31, [(1, (0, 23), qmiLocPredictedOrbitsAllowedSizesStructT_v02), (1, (0, 24), qmiLocPredictedOrbitsServerListStructT_v02)])"
  by (simp add: qmiLocEventInjectPredictedOrbitsReqIndMsgT_data_v02_def qmiLocEventInjectPredictedOrbitsReqIndMsgT_v02_def [THEN arg_cong, of laid] analyse_simps layout_simps cong: idl_cong)

definition qmiLocEventInjectPositionReqIndMsgT_data_v02 :: "idl_byte list" where
  "qmiLocEventInjectPositionReqIndMsgT_data_v02 =
    [LIT 0x01, OP [] QMI_IDL_GENERIC_8_BYTE,
      OFFSET8 qmiLocEventInjectPositionReqIndMsgT_v02 ''latitude'',
     LIT 0x02, OP [] QMI_IDL_GENERIC_8_BYTE,
      OFFSET8 qmiLocEventInjectPositionReqIndMsgT_v02 ''longitude'',
     LIT 0x03, OP [] QMI_IDL_GENERIC_4_BYTE,
      OFFSET8 qmiLocEventInjectPositionReqIndMsgT_v02 ''horUncCircular'',
     TLV [QMI_IDL_TLV_FLAGS_LAST_TLV] (LIT 0x04), OP [] QMI_IDL_GENERIC_8_BYTE,
      OFFSET8 qmiLocEventInjectPositionReqIndMsgT_v02 ''timestampUtc'']"

lemma qmiLocEventInjectPositionReqIndMsgT_data_v02_ok [idl_simps]:
  "describe_msg qmiLocEventInjectPositionReqIndMsgT_data_v02 = Some (qmiLocEventInjectPositionReqIndMsgT_v02, 40, [])"
  by (simp add: qmiLocEventInjectPositionReqIndMsgT_data_v02_def qmiLocEventInjectPositionReqIndMsgT_v02_def [THEN arg_cong, of laid] analyse_simps layout_simps cong: idl_cong)

definition qmiLocEventEngineStateIndMsgT_data_v02 :: "idl_byte list" where
  "qmiLocEventEngineStateIndMsgT_data_v02 =
    [TLV [QMI_IDL_TLV_FLAGS_LAST_TLV] (LIT 0x01), OP [] QMI_IDL_GENERIC_4_BYTE,
      OFFSET8 qmiLocEventEngineStateIndMsgT_v02 ''engineState'']"

lemma qmiLocEventEngineStateIndMsgT_data_v02_ok [idl_simps]:
  "describe_msg qmiLocEventEngineStateIndMsgT_data_v02 = Some (qmiLocEventEngineStateIndMsgT_v02, 7, [])"
  by (simp add: qmiLocEventEngineStateIndMsgT_data_v02_def qmiLocEventEngineStateIndMsgT_v02_def [THEN arg_cong, of laid] analyse_simps layout_simps cong: idl_cong)

definition qmiLocEventFixSessionStateIndMsgT_data_v02 :: "idl_byte list" where
  "qmiLocEventFixSessionStateIndMsgT_data_v02 =
    [LIT 0x01, OP [] QMI_IDL_GENERIC_4_BYTE,
      OFFSET8 qmiLocEventFixSessionStateIndMsgT_v02 ''sessionState'',
     TLV [QMI_IDL_TLV_FLAGS_LAST_TLV, QMI_IDL_TLV_FLAGS_OPTIONAL] (OFFSET8_DIFF qmiLocEventFixSessionStateIndMsgT_v02 ''sessionId'' ''sessionId_valid''),
      LIT 0x10, OP [] QMI_IDL_GENERIC_1_BYTE,
      OFFSET8 qmiLocEventFixSessionStateIndMsgT_v02 ''sessionId'']"

lemma qmiLocEventFixSessionStateIndMsgT_data_v02_ok [idl_simps]:
  "describe_msg qmiLocEventFixSessionStateIndMsgT_data_v02 = Some (qmiLocEventFixSessionStateIndMsgT_v02, 11, [])"
  by (simp add: qmiLocEventFixSessionStateIndMsgT_data_v02_def qmiLocEventFixSessionStateIndMsgT_v02_def [THEN arg_cong, of laid] analyse_simps layout_simps cong: idl_cong)

definition qmiLocEventWifiReqIndMsgT_data_v02 :: "idl_byte list" where
  "qmiLocEventWifiReqIndMsgT_data_v02 =
    [LIT 0x01, OP [] QMI_IDL_GENERIC_4_BYTE, OFFSET8 qmiLocEventWifiReqIndMsgT_v02 ''requestType'',
     TLV [QMI_IDL_TLV_FLAGS_OPTIONAL] (OFFSET8_DIFF qmiLocEventWifiReqIndMsgT_v02 ''tbfInMs'' ''tbfInMs_valid''),
      LIT 0x10, OP [] QMI_IDL_GENERIC_2_BYTE, OFFSET8 qmiLocEventWifiReqIndMsgT_v02 ''tbfInMs'',
     TLV [QMI_IDL_TLV_FLAGS_LAST_TLV, QMI_IDL_TLV_FLAGS_OPTIONAL] (OFFSET8_DIFF qmiLocEventWifiReqIndMsgT_v02 ''e911Mode'' ''e911Mode_valid''),
      LIT 0x11, OP [] QMI_IDL_GENERIC_1_BYTE, OFFSET8 qmiLocEventWifiReqIndMsgT_v02 ''e911Mode'']"

lemma qmiLocEventWifiReqIndMsgT_data_v02_ok [idl_simps]:
  "describe_msg qmiLocEventWifiReqIndMsgT_data_v02 = Some (qmiLocEventWifiReqIndMsgT_v02, 16, [])"
  by (simp add: qmiLocEventWifiReqIndMsgT_data_v02_def qmiLocEventWifiReqIndMsgT_v02_def [THEN arg_cong, of laid] analyse_simps layout_simps cong: idl_cong)

definition qmiLocEventSensorStreamingReadyStatusIndMsgT_data_v02 :: "idl_byte list" where
  "qmiLocEventSensorStreamingReadyStatusIndMsgT_data_v02 =
    [TLV [QMI_IDL_TLV_FLAGS_OPTIONAL] (OFFSET8_DIFF qmiLocEventSensorStreamingReadyStatusIndMsgT_v02 ''accelReady'' ''accelReady_valid''),
      LIT 0x10, OP [] QMI_IDL_AGGREGATE,
      OFFSET8 qmiLocEventSensorStreamingReadyStatusIndMsgT_v02 ''accelReady'', TYPE88 0 26,
     TLV [QMI_IDL_TLV_FLAGS_OPTIONAL] (OFFSET8_DIFF qmiLocEventSensorStreamingReadyStatusIndMsgT_v02 ''gyroReady'' ''gyroReady_valid''),
      LIT 0x11, OP [] QMI_IDL_AGGREGATE,
      OFFSET8 qmiLocEventSensorStreamingReadyStatusIndMsgT_v02 ''gyroReady'', TYPE88 0 26,
     TLV [QMI_IDL_TLV_FLAGS_OPTIONAL] (OFFSET8_DIFF qmiLocEventSensorStreamingReadyStatusIndMsgT_v02 ''accelTemperatureReady'' ''accelTemperatureReady_valid''),
      LIT 0x12, OP [] QMI_IDL_AGGREGATE,
      OFFSET8 qmiLocEventSensorStreamingReadyStatusIndMsgT_v02 ''accelTemperatureReady'', TYPE88 0 26,
     TLV [QMI_IDL_TLV_FLAGS_OPTIONAL] (OFFSET8_DIFF qmiLocEventSensorStreamingReadyStatusIndMsgT_v02 ''gyroTemperatureReady'' ''gyroTemperatureReady_valid''),
      LIT 0x13, OP [] QMI_IDL_AGGREGATE,
      OFFSET8 qmiLocEventSensorStreamingReadyStatusIndMsgT_v02 ''gyroTemperatureReady'', TYPE88 0 26,
     TLV [QMI_IDL_TLV_FLAGS_OPTIONAL] (OFFSET8_DIFF qmiLocEventSensorStreamingReadyStatusIndMsgT_v02 ''calibratedMagReady'' ''calibratedMagReady_valid''),
      LIT 0x14, OP [] QMI_IDL_AGGREGATE,
      OFFSET8 qmiLocEventSensorStreamingReadyStatusIndMsgT_v02 ''calibratedMagReady'', TYPE88 0 26,
     TLV [QMI_IDL_TLV_FLAGS_LAST_TLV, QMI_IDL_TLV_FLAGS_OPTIONAL] (OFFSET8_DIFF qmiLocEventSensorStreamingReadyStatusIndMsgT_v02 ''uncalibratedMagReady'' ''uncalibratedMagReady_valid''),
      LIT 0x15, OP [] QMI_IDL_AGGREGATE,
      OFFSET8 qmiLocEventSensorStreamingReadyStatusIndMsgT_v02 ''uncalibratedMagReady'', TYPE88 0 26]"

lemma qmiLocEventSensorStreamingReadyStatusIndMsgT_data_v02_ok [idl_simps]:
  "describe_msg qmiLocEventSensorStreamingReadyStatusIndMsgT_data_v02 = Some (qmiLocEventSensorStreamingReadyStatusIndMsgT_v02, 18, [(1, (0, 26), qmiLocSensorReadyStatusStructT_v02), (1, (0, 26), qmiLocSensorReadyStatusStructT_v02), (1, (0, 26), qmiLocSensorReadyStatusStructT_v02), (1, (0, 26), qmiLocSensorReadyStatusStructT_v02), (1, (0, 26), qmiLocSensorReadyStatusStructT_v02), (1, (0, 26), qmiLocSensorReadyStatusStructT_v02)])"
  by (simp add: qmiLocEventSensorStreamingReadyStatusIndMsgT_data_v02_def qmiLocEventSensorStreamingReadyStatusIndMsgT_v02_def [THEN arg_cong, of laid] analyse_simps layout_simps cong: idl_cong)

definition qmiLocEventTimeSyncReqIndMsgT_data_v02 :: "idl_byte list" where
  "qmiLocEventTimeSyncReqIndMsgT_data_v02 =
    [TLV [QMI_IDL_TLV_FLAGS_LAST_TLV] (LIT 0x01), OP [] QMI_IDL_GENERIC_4_BYTE,
      OFFSET8 qmiLocEventTimeSyncReqIndMsgT_v02 ''refCounter'']"

lemma qmiLocEventTimeSyncReqIndMsgT_data_v02_ok [idl_simps]:
  "describe_msg qmiLocEventTimeSyncReqIndMsgT_data_v02 = Some (qmiLocEventTimeSyncReqIndMsgT_v02, 7, [])"
  by (simp add: qmiLocEventTimeSyncReqIndMsgT_data_v02_def qmiLocEventTimeSyncReqIndMsgT_v02_def [THEN arg_cong, of laid] analyse_simps layout_simps cong: idl_cong)

definition qmiLocEventSetSpiStreamingReportIndMsgT_data_v02 :: "idl_byte list" where
  "qmiLocEventSetSpiStreamingReportIndMsgT_data_v02 =
    [TLV [QMI_IDL_TLV_FLAGS_LAST_TLV] (LIT 0x01), OP [] QMI_IDL_GENERIC_1_BYTE,
      OFFSET8 qmiLocEventSetSpiStreamingReportIndMsgT_v02 ''enable'']"

lemma qmiLocEventSetSpiStreamingReportIndMsgT_data_v02_ok [idl_simps]:
  "describe_msg qmiLocEventSetSpiStreamingReportIndMsgT_data_v02 = Some (qmiLocEventSetSpiStreamingReportIndMsgT_v02, 4, [])"
  by (simp add: qmiLocEventSetSpiStreamingReportIndMsgT_data_v02_def qmiLocEventSetSpiStreamingReportIndMsgT_v02_def [THEN arg_cong, of laid] analyse_simps layout_simps cong: idl_cong)

definition qmiLocEventLocationServerConnectionReqIndMsgT_data_v02 :: "idl_byte list" where
  "qmiLocEventLocationServerConnectionReqIndMsgT_data_v02 =
    [LIT 0x01, OP [] QMI_IDL_GENERIC_4_BYTE,
      OFFSET8 qmiLocEventLocationServerConnectionReqIndMsgT_v02 ''connHandle'',
     LIT 0x02, OP [] QMI_IDL_GENERIC_4_BYTE,
      OFFSET8 qmiLocEventLocationServerConnectionReqIndMsgT_v02 ''requestType'',
     LIT 0x03, OP [] QMI_IDL_GENERIC_4_BYTE,
      OFFSET8 qmiLocEventLocationServerConnectionReqIndMsgT_v02 ''wwanType'',
     TLV [QMI_IDL_TLV_FLAGS_OPTIONAL] (OFFSET8_DIFF qmiLocEventLocationServerConnectionReqIndMsgT_v02 ''bearerType'' ''bearerType_valid''),
      LIT 0x10, OP [] QMI_IDL_GENERIC_4_BYTE,
      OFFSET8 qmiLocEventLocationServerConnectionReqIndMsgT_v02 ''bearerType'',
     TLV [QMI_IDL_TLV_FLAGS_OPTIONAL] (OFFSET8_DIFF qmiLocEventLocationServerConnectionReqIndMsgT_v02 ''apnTypeMask'' ''apnTypeMask_valid''),
      LIT 0x11, OP [] QMI_IDL_GENERIC_8_BYTE,
      OFFSET8 qmiLocEventLocationServerConnectionReqIndMsgT_v02 ''apnTypeMask'',
     TLV [QMI_IDL_TLV_FLAGS_LAST_TLV, QMI_IDL_TLV_FLAGS_OPTIONAL] (OFFSET8_DIFF qmiLocEventLocationServerConnectionReqIndMsgT_v02 ''subId'' ''subId_valid''),
      LIT 0x12, OP [] QMI_IDL_GENERIC_4_BYTE,
      OFFSET8 qmiLocEventLocationServerConnectionReqIndMsgT_v02 ''subId'']"

lemma qmiLocEventLocationServerConnectionReqIndMsgT_data_v02_ok [idl_simps]:
  "describe_msg qmiLocEventLocationServerConnectionReqIndMsgT_data_v02 = Some (qmiLocEventLocationServerConnectionReqIndMsgT_v02, 46, [])"
  by (simp add: qmiLocEventLocationServerConnectionReqIndMsgT_data_v02_def qmiLocEventLocationServerConnectionReqIndMsgT_v02_def [THEN arg_cong, of laid] analyse_simps layout_simps cong: idl_cong)

definition qmiLocEventNiGeofenceNotificationIndMsgT_data_v02 :: "idl_byte list" where
  "qmiLocEventNiGeofenceNotificationIndMsgT_data_v02 =
    [LIT 0x01, OP [] QMI_IDL_GENERIC_4_BYTE,
      OFFSET8 qmiLocEventNiGeofenceNotificationIndMsgT_v02 ''geofenceId'',
     TLV [QMI_IDL_TLV_FLAGS_LAST_TLV] (LIT 0x02), OP [] QMI_IDL_GENERIC_4_BYTE,
      OFFSET8 qmiLocEventNiGeofenceNotificationIndMsgT_v02 ''operationType'']"

lemma qmiLocEventNiGeofenceNotificationIndMsgT_data_v02_ok [idl_simps]:
  "describe_msg qmiLocEventNiGeofenceNotificationIndMsgT_data_v02 = Some (qmiLocEventNiGeofenceNotificationIndMsgT_v02, 14, [])"
  by (simp add: qmiLocEventNiGeofenceNotificationIndMsgT_data_v02_def qmiLocEventNiGeofenceNotificationIndMsgT_v02_def [THEN arg_cong, of laid] analyse_simps layout_simps cong: idl_cong)

definition qmiLocEventGeofenceGenAlertIndMsgT_data_v02 :: "idl_byte list" where
  "qmiLocEventGeofenceGenAlertIndMsgT_data_v02 =
    [TLV [QMI_IDL_TLV_FLAGS_LAST_TLV] (LIT 0x01), OP [] QMI_IDL_GENERIC_4_BYTE,
      OFFSET8 qmiLocEventGeofenceGenAlertIndMsgT_v02 ''geofenceAlert'']"

lemma qmiLocEventGeofenceGenAlertIndMsgT_data_v02_ok [idl_simps]:
  "describe_msg qmiLocEventGeofenceGenAlertIndMsgT_data_v02 = Some (qmiLocEventGeofenceGenAlertIndMsgT_v02, 7, [])"
  by (simp add: qmiLocEventGeofenceGenAlertIndMsgT_data_v02_def qmiLocEventGeofenceGenAlertIndMsgT_v02_def [THEN arg_cong, of laid] analyse_simps layout_simps cong: idl_cong)

definition qmiLocEventGeofenceBreachIndMsgT_data_v02 :: "idl_byte list" where
  "qmiLocEventGeofenceBreachIndMsgT_data_v02 =
    [LIT 0x01, OP [] QMI_IDL_GENERIC_4_BYTE,
      OFFSET8 qmiLocEventGeofenceBreachIndMsgT_v02 ''geofenceId'',
     LIT 0x02, OP [] QMI_IDL_GENERIC_4_BYTE,
      OFFSET8 qmiLocEventGeofenceBreachIndMsgT_v02 ''breachType'',
     TLV [QMI_IDL_TLV_FLAGS_OPTIONAL] (OFFSET8_DIFF qmiLocEventGeofenceBreachIndMsgT_v02 ''geofencePosition'' ''geofencePosition_valid''),
      LIT 0x10, OP [] QMI_IDL_AGGREGATE,
      OFFSET8 qmiLocEventGeofenceBreachIndMsgT_v02 ''geofencePosition'', TYPE88 0 27,
     TLV [QMI_IDL_TLV_FLAGS_LAST_TLV, QMI_IDL_TLV_FLAGS_OPTIONAL] (OFFSET8_DIFF qmiLocEventGeofenceBreachIndMsgT_v02 ''breachConfidence'' ''breachConfidence_valid''),
      LIT 0x11, OP [] QMI_IDL_GENERIC_4_BYTE,
      OFFSET8 qmiLocEventGeofenceBreachIndMsgT_v02 ''breachConfidence'']"

lemma qmiLocEventGeofenceBreachIndMsgT_data_v02_ok [idl_simps]:
  "describe_msg qmiLocEventGeofenceBreachIndMsgT_data_v02 = Some (qmiLocEventGeofenceBreachIndMsgT_v02, 24, [(1, (0, 27), qmiLocGeofencePositionStructT_v02)])"
  by (simp add: qmiLocEventGeofenceBreachIndMsgT_data_v02_def qmiLocEventGeofenceBreachIndMsgT_v02_def [THEN arg_cong, of laid] analyse_simps layout_simps cong: idl_cong)

definition qmiLocEventPedometerControlIndMsgT_data_v02 :: "idl_byte list" where
  "qmiLocEventPedometerControlIndMsgT_data_v02 =
    [LIT 0x01, OP [] QMI_IDL_GENERIC_1_BYTE,
      OFFSET8 qmiLocEventPedometerControlIndMsgT_v02 ''requestPedometerData'',
     TLV [QMI_IDL_TLV_FLAGS_OPTIONAL] (OFFSET8_DIFF qmiLocEventPedometerControlIndMsgT_v02 ''resetStepCount'' ''resetStepCount_valid''),
      LIT 0x10, OP [] QMI_IDL_GENERIC_1_BYTE,
      OFFSET8 qmiLocEventPedometerControlIndMsgT_v02 ''resetStepCount'',
     TLV [QMI_IDL_TLV_FLAGS_LAST_TLV, QMI_IDL_TLV_FLAGS_OPTIONAL] (OFFSET8_DIFF qmiLocEventPedometerControlIndMsgT_v02 ''stepCountThreshold'' ''stepCountThreshold_valid''),
      LIT 0x11, OP [] QMI_IDL_GENERIC_4_BYTE,
      OFFSET8 qmiLocEventPedometerControlIndMsgT_v02 ''stepCountThreshold'']"

lemma qmiLocEventPedometerControlIndMsgT_data_v02_ok [idl_simps]:
  "describe_msg qmiLocEventPedometerControlIndMsgT_data_v02 = Some (qmiLocEventPedometerControlIndMsgT_v02, 15, [])"
  by (simp add: qmiLocEventPedometerControlIndMsgT_data_v02_def qmiLocEventPedometerControlIndMsgT_v02_def [THEN arg_cong, of laid] analyse_simps layout_simps cong: idl_cong)

definition qmiLocEventMotionDataControlIndMsgT_data_v02 :: "idl_byte list" where
  "qmiLocEventMotionDataControlIndMsgT_data_v02 =
    [TLV [QMI_IDL_TLV_FLAGS_LAST_TLV] (LIT 0x01), OP [] QMI_IDL_GENERIC_1_BYTE,
      OFFSET8 qmiLocEventMotionDataControlIndMsgT_v02 ''requestMotionData'']"

lemma qmiLocEventMotionDataControlIndMsgT_data_v02_ok [idl_simps]:
  "describe_msg qmiLocEventMotionDataControlIndMsgT_data_v02 = Some (qmiLocEventMotionDataControlIndMsgT_v02, 4, [])"
  by (simp add: qmiLocEventMotionDataControlIndMsgT_data_v02_def qmiLocEventMotionDataControlIndMsgT_v02_def [THEN arg_cong, of laid] analyse_simps layout_simps cong: idl_cong)

definition qmiLocEventGeofenceBatchedBreachIndMsgT_data_v02 :: "idl_byte list" where
  "qmiLocEventGeofenceBatchedBreachIndMsgT_data_v02 =
    [LIT 0x01, OP [] QMI_IDL_GENERIC_4_BYTE,
      OFFSET8 qmiLocEventGeofenceBatchedBreachIndMsgT_v02 ''breachType'',
     TLV [QMI_IDL_TLV_FLAGS_OPTIONAL] (OFFSET8_DIFF qmiLocEventGeofenceBatchedBreachIndMsgT_v02 ''geofenceIdContinuousList'' ''geofenceIdContinuousList_valid''),
      LIT 0x10, OP [QMI_IDL_FLAGS_IS_ARRAY, QMI_IDL_FLAGS_IS_VARIABLE_LEN] QMI_IDL_AGGREGATE,
      OFFSET8 qmiLocEventGeofenceBatchedBreachIndMsgT_v02 ''geofenceIdContinuousList'',
      LIT QMI_LOC_MAX_GEOFENCE_ID_CONTINUOUS_LIST_LENGTH_V02,
      OFFSET8_DIFF qmiLocEventGeofenceBatchedBreachIndMsgT_v02 ''geofenceIdContinuousList'' ''geofenceIdContinuousList_len'',
      TYPE88 0 28,
     TLV [QMI_IDL_TLV_FLAGS_OPTIONAL] (OFFSET16_DIFF qmiLocEventGeofenceBatchedBreachIndMsgT_v02 ''geofenceIdDiscreteList'' ''geofenceIdDiscreteList_valid''),
      LIT 0x11,
      OP [QMI_IDL_FLAGS_IS_ARRAY, QMI_IDL_FLAGS_IS_VARIABLE_LEN, QMI_IDL_FLAGS_OFFSET_IS_16] QMI_IDL_GENERIC_4_BYTE,
      OFFSET16ARRAY qmiLocEventGeofenceBatchedBreachIndMsgT_v02 ''geofenceIdDiscreteList'',
      LIT QMI_LOC_MAX_GEOFENCE_ID_DISCRETE_LIST_LENGTH_V02,
      OFFSET16_DIFF qmiLocEventGeofenceBatchedBreachIndMsgT_v02 ''geofenceIdDiscreteList'' ''geofenceIdDiscreteList_len'',
     TLV [QMI_IDL_TLV_FLAGS_OPTIONAL] (OFFSET16_DIFF qmiLocEventGeofenceBatchedBreachIndMsgT_v02 ''geofencePosition'' ''geofencePosition_valid''),
      LIT 0x12, OP [QMI_IDL_FLAGS_OFFSET_IS_16] QMI_IDL_AGGREGATE,
      OFFSET16ARRAY qmiLocEventGeofenceBatchedBreachIndMsgT_v02 ''geofencePosition'', TYPE88 0 27,
     TLV [QMI_IDL_TLV_FLAGS_OPTIONAL] (OFFSET16_DIFF qmiLocEventGeofenceBatchedBreachIndMsgT_v02 ''breachConfidence'' ''breachConfidence_valid''),
      LIT 0x13, OP [QMI_IDL_FLAGS_OFFSET_IS_16] QMI_IDL_GENERIC_4_BYTE,
      OFFSET16ARRAY qmiLocEventGeofenceBatchedBreachIndMsgT_v02 ''breachConfidence'',
     TLV [QMI_IDL_TLV_FLAGS_OPTIONAL] (OFFSET16_DIFF qmiLocEventGeofenceBatchedBreachIndMsgT_v02 ''headingUnc'' ''headingUnc_valid''),
      LIT 0x14, OP [QMI_IDL_FLAGS_OFFSET_IS_16] QMI_IDL_GENERIC_4_BYTE,
      OFFSET16ARRAY qmiLocEventGeofenceBatchedBreachIndMsgT_v02 ''headingUnc'',
     TLV [QMI_IDL_TLV_FLAGS_OPTIONAL] (OFFSET16_DIFF qmiLocEventGeofenceBatchedBreachIndMsgT_v02 ''vertUnc'' ''vertUnc_valid''),
      LIT 0x15, OP [QMI_IDL_FLAGS_OFFSET_IS_16] QMI_IDL_GENERIC_4_BYTE,
      OFFSET16ARRAY qmiLocEventGeofenceBatchedBreachIndMsgT_v02 ''vertUnc'',
     TLV [QMI_IDL_TLV_FLAGS_OPTIONAL] (OFFSET16_DIFF qmiLocEventGeofenceBatchedBreachIndMsgT_v02 ''speedUnc'' ''speedUnc_valid''),
      LIT 0x16, OP [QMI_IDL_FLAGS_OFFSET_IS_16] QMI_IDL_GENERIC_4_BYTE,
      OFFSET16ARRAY qmiLocEventGeofenceBatchedBreachIndMsgT_v02 ''speedUnc'',
     TLV [QMI_IDL_TLV_FLAGS_OPTIONAL] (OFFSET16_DIFF qmiLocEventGeofenceBatchedBreachIndMsgT_v02 ''horConfidence'' ''horConfidence_valid''),
      LIT 0x17, OP [QMI_IDL_FLAGS_OFFSET_IS_16] QMI_IDL_GENERIC_1_BYTE,
      OFFSET16ARRAY qmiLocEventGeofenceBatchedBreachIndMsgT_v02 ''horConfidence'',
     TLV [QMI_IDL_TLV_FLAGS_OPTIONAL] (OFFSET16_DIFF qmiLocEventGeofenceBatchedBreachIndMsgT_v02 ''vertConfidence'' ''vertConfidence_valid''),
      LIT 0x18, OP [QMI_IDL_FLAGS_OFFSET_IS_16] QMI_IDL_GENERIC_1_BYTE,
      OFFSET16ARRAY qmiLocEventGeofenceBatchedBreachIndMsgT_v02 ''vertConfidence'',
     TLV [QMI_IDL_TLV_FLAGS_OPTIONAL] (OFFSET16_DIFF qmiLocEventGeofenceBatchedBreachIndMsgT_v02 ''DOP'' ''DOP_valid''),
      LIT 0x19, OP [QMI_IDL_FLAGS_OFFSET_IS_16] QMI_IDL_AGGREGATE,
      OFFSET16ARRAY qmiLocEventGeofenceBatchedBreachIndMsgT_v02 ''DOP'', TYPE88 0 3,
     TLV [QMI_IDL_TLV_FLAGS_OPTIONAL] (OFFSET16_DIFF qmiLocEventGeofenceBatchedBreachIndMsgT_v02 ''gnssSvUsedList'' ''gnssSvUsedList_valid''),
      LIT 0x1A,
      OP [QMI_IDL_FLAGS_IS_ARRAY, QMI_IDL_FLAGS_IS_VARIABLE_LEN, QMI_IDL_FLAGS_OFFSET_IS_16] QMI_IDL_GENERIC_2_BYTE,
      OFFSET16ARRAY qmiLocEventGeofenceBatchedBreachIndMsgT_v02 ''gnssSvUsedList'',
      LIT QMI_LOC_MAX_SV_USED_LIST_LENGTH_V02,
      OFFSET16_DIFF qmiLocEventGeofenceBatchedBreachIndMsgT_v02 ''gnssSvUsedList'' ''gnssSvUsedList_len'',
     TLV [QMI_IDL_TLV_FLAGS_OPTIONAL] (OFFSET16_DIFF qmiLocEventGeofenceBatchedBreachIndMsgT_v02 ''extDOP'' ''extDOP_valid''),
      LIT 0x1B, OP [QMI_IDL_FLAGS_OFFSET_IS_16] QMI_IDL_AGGREGATE,
      OFFSET16ARRAY qmiLocEventGeofenceBatchedBreachIndMsgT_v02 ''extDOP'', TYPE88 0 4,
     TLV [QMI_IDL_TLV_FLAGS_OPTIONAL] (OFFSET16_DIFF qmiLocEventGeofenceBatchedBreachIndMsgT_v02 ''expandedGnssSvUsedList'' ''expandedGnssSvUsedList_valid''),
      LIT 0x1C,
      OP [QMI_IDL_FLAGS_IS_ARRAY, QMI_IDL_FLAGS_IS_VARIABLE_LEN, QMI_IDL_FLAGS_OFFSET_IS_16] QMI_IDL_GENERIC_2_BYTE,
      OFFSET16ARRAY qmiLocEventGeofenceBatchedBreachIndMsgT_v02 ''expandedGnssSvUsedList'',
      LIT QMI_LOC_EXPANDED_SV_INFO_LIST_MAX_SIZE_V02,
      OFFSET16_DIFF qmiLocEventGeofenceBatchedBreachIndMsgT_v02 ''expandedGnssSvUsedList'' ''expandedGnssSvUsedList_len'',
     TLV [QMI_IDL_TLV_FLAGS_LAST_TLV, QMI_IDL_TLV_FLAGS_OPTIONAL] (OFFSET16_DIFF qmiLocEventGeofenceBatchedBreachIndMsgT_v02 ''gnssSvUsedSignalTypeList'' ''gnssSvUsedSignalTypeList_valid''),
      LIT 0x1D,
      OP [QMI_IDL_FLAGS_IS_ARRAY, QMI_IDL_FLAGS_IS_VARIABLE_LEN, QMI_IDL_FLAGS_OFFSET_IS_16] QMI_IDL_GENERIC_8_BYTE,
      OFFSET16ARRAY qmiLocEventGeofenceBatchedBreachIndMsgT_v02 ''gnssSvUsedSignalTypeList'',
      LIT QMI_LOC_EXPANDED_SV_INFO_LIST_MAX_SIZE_V02,
      OFFSET16_DIFF qmiLocEventGeofenceBatchedBreachIndMsgT_v02 ''gnssSvUsedSignalTypeList'' ''gnssSvUsedSignalTypeList_len'']"

lemma qmiLocEventGeofenceBatchedBreachIndMsgT_data_v02_ok [idl_simps]:
  "describe_msg qmiLocEventGeofenceBatchedBreachIndMsgT_data_v02 = Some (qmiLocEventGeofenceBatchedBreachIndMsgT_v02, 2312, [(80, (0, 28), qmiLocGeofenceIdContinuousStructT_v02), (1, (0, 27), qmiLocGeofencePositionStructT_v02), (1, (0, 3), qmiLocDOPStructT_v02), (1, (0, 4), qmiLocExtDOPStructT_v02)])"
  by (simp add: qmiLocEventGeofenceBatchedBreachIndMsgT_data_v02_def qmiLocEventGeofenceBatchedBreachIndMsgT_v02_def [THEN arg_cong, of laid] analyse_simps layout_simps cong: idl_cong)

definition qmiLocEventGeofenceProximityIndMsgT_data_v02 :: "idl_byte list" where
  "qmiLocEventGeofenceProximityIndMsgT_data_v02 =
    [LIT 0x01, OP [] QMI_IDL_GENERIC_4_BYTE,
      OFFSET8 qmiLocEventGeofenceProximityIndMsgT_v02 ''proximityType'',
     LIT 0x02, OP [] QMI_IDL_GENERIC_4_BYTE,
      OFFSET8 qmiLocEventGeofenceProximityIndMsgT_v02 ''geofenceId'',
     TLV [QMI_IDL_TLV_FLAGS_LAST_TLV, QMI_IDL_TLV_FLAGS_OPTIONAL] (OFFSET8_DIFF qmiLocEventGeofenceProximityIndMsgT_v02 ''contextId'' ''contextId_valid''),
      LIT 0x10, OP [] QMI_IDL_GENERIC_4_BYTE,
      OFFSET8 qmiLocEventGeofenceProximityIndMsgT_v02 ''contextId'']"

lemma qmiLocEventGeofenceProximityIndMsgT_data_v02_ok [idl_simps]:
  "describe_msg qmiLocEventGeofenceProximityIndMsgT_data_v02 = Some (qmiLocEventGeofenceProximityIndMsgT_v02, 21, [])"
  by (simp add: qmiLocEventGeofenceProximityIndMsgT_data_v02_def qmiLocEventGeofenceProximityIndMsgT_v02_def [THEN arg_cong, of laid] analyse_simps layout_simps cong: idl_cong)

definition qmiLocEventGeofenceBatchedDwellIndMsgT_data_v02 :: "idl_byte list" where
  "qmiLocEventGeofenceBatchedDwellIndMsgT_data_v02 =
    [LIT 0x01, OP [] QMI_IDL_GENERIC_4_BYTE,
      OFFSET8 qmiLocEventGeofenceBatchedDwellIndMsgT_v02 ''dwellType'',
     TLV [QMI_IDL_TLV_FLAGS_OPTIONAL] (OFFSET8_DIFF qmiLocEventGeofenceBatchedDwellIndMsgT_v02 ''geofenceIdContinuousList'' ''geofenceIdContinuousList_valid''),
      LIT 0x10, OP [QMI_IDL_FLAGS_IS_ARRAY, QMI_IDL_FLAGS_IS_VARIABLE_LEN] QMI_IDL_AGGREGATE,
      OFFSET8 qmiLocEventGeofenceBatchedDwellIndMsgT_v02 ''geofenceIdContinuousList'',
      LIT QMI_LOC_MAX_GEOFENCE_ID_CONTINUOUS_LIST_LENGTH_V02,
      OFFSET8_DIFF qmiLocEventGeofenceBatchedDwellIndMsgT_v02 ''geofenceIdContinuousList'' ''geofenceIdContinuousList_len'',
      TYPE88 0 28,
     TLV [QMI_IDL_TLV_FLAGS_OPTIONAL] (OFFSET16_DIFF qmiLocEventGeofenceBatchedDwellIndMsgT_v02 ''geofenceIdDiscreteList'' ''geofenceIdDiscreteList_valid''),
      LIT 0x11,
      OP [QMI_IDL_FLAGS_IS_ARRAY, QMI_IDL_FLAGS_IS_VARIABLE_LEN, QMI_IDL_FLAGS_OFFSET_IS_16] QMI_IDL_GENERIC_4_BYTE,
      OFFSET16ARRAY qmiLocEventGeofenceBatchedDwellIndMsgT_v02 ''geofenceIdDiscreteList'',
      LIT QMI_LOC_MAX_GEOFENCE_ID_DISCRETE_LIST_LENGTH_V02,
      OFFSET16_DIFF qmiLocEventGeofenceBatchedDwellIndMsgT_v02 ''geofenceIdDiscreteList'' ''geofenceIdDiscreteList_len'',
     TLV [QMI_IDL_TLV_FLAGS_OPTIONAL] (OFFSET16_DIFF qmiLocEventGeofenceBatchedDwellIndMsgT_v02 ''geofencePosition'' ''geofencePosition_valid''),
      LIT 0x12, OP [QMI_IDL_FLAGS_OFFSET_IS_16] QMI_IDL_AGGREGATE,
      OFFSET16ARRAY qmiLocEventGeofenceBatchedDwellIndMsgT_v02 ''geofencePosition'', TYPE88 0 27,
     TLV [QMI_IDL_TLV_FLAGS_OPTIONAL] (OFFSET16_DIFF qmiLocEventGeofenceBatchedDwellIndMsgT_v02 ''headingUnc'' ''headingUnc_valid''),
      LIT 0x13, OP [QMI_IDL_FLAGS_OFFSET_IS_16] QMI_IDL_GENERIC_4_BYTE,
      OFFSET16ARRAY qmiLocEventGeofenceBatchedDwellIndMsgT_v02 ''headingUnc'',
     TLV [QMI_IDL_TLV_FLAGS_OPTIONAL] (OFFSET16_DIFF qmiLocEventGeofenceBatchedDwellIndMsgT_v02 ''vertUnc'' ''vertUnc_valid''),
      LIT 0x14, OP [QMI_IDL_FLAGS_OFFSET_IS_16] QMI_IDL_GENERIC_4_BYTE,
      OFFSET16ARRAY qmiLocEventGeofenceBatchedDwellIndMsgT_v02 ''vertUnc'',
     TLV [QMI_IDL_TLV_FLAGS_OPTIONAL] (OFFSET16_DIFF qmiLocEventGeofenceBatchedDwellIndMsgT_v02 ''speedUnc'' ''speedUnc_valid''),
      LIT 0x15, OP [QMI_IDL_FLAGS_OFFSET_IS_16] QMI_IDL_GENERIC_4_BYTE,
      OFFSET16ARRAY qmiLocEventGeofenceBatchedDwellIndMsgT_v02 ''speedUnc'',
     TLV [QMI_IDL_TLV_FLAGS_OPTIONAL] (OFFSET16_DIFF qmiLocEventGeofenceBatchedDwellIndMsgT_v02 ''horConfidence'' ''horConfidence_valid''),
      LIT 0x16, OP [QMI_IDL_FLAGS_OFFSET_IS_16] QMI_IDL_GENERIC_1_BYTE,
      OFFSET16ARRAY qmiLocEventGeofenceBatchedDwellIndMsgT_v02 ''horConfidence'',
     TLV [QMI_IDL_TLV_FLAGS_OPTIONAL] (OFFSET16_DIFF qmiLocEventGeofenceBatchedDwellIndMsgT_v02 ''vertConfidence'' ''vertConfidence_valid''),
      LIT 0x17, OP [QMI_IDL_FLAGS_OFFSET_IS_16] QMI_IDL_GENERIC_1_BYTE,
      OFFSET16ARRAY qmiLocEventGeofenceBatchedDwellIndMsgT_v02 ''vertConfidence'',
     TLV [QMI_IDL_TLV_FLAGS_OPTIONAL] (OFFSET16_DIFF qmiLocEventGeofenceBatchedDwellIndMsgT_v02 ''DOP'' ''DOP_valid''),
      LIT 0x18, OP [QMI_IDL_FLAGS_OFFSET_IS_16] QMI_IDL_AGGREGATE,
      OFFSET16ARRAY qmiLocEventGeofenceBatchedDwellIndMsgT_v02 ''DOP'', TYPE88 0 3,
     TLV [QMI_IDL_TLV_FLAGS_OPTIONAL] (OFFSET16_DIFF qmiLocEventGeofenceBatchedDwellIndMsgT_v02 ''gnssSvUsedList'' ''gnssSvUsedList_valid''),
      LIT 0x19,
      OP [QMI_IDL_FLAGS_IS_ARRAY, QMI_IDL_FLAGS_IS_VARIABLE_LEN, QMI_IDL_FLAGS_OFFSET_IS_16] QMI_IDL_GENERIC_2_BYTE,
      OFFSET16ARRAY qmiLocEventGeofenceBatchedDwellIndMsgT_v02 ''gnssSvUsedList'',
      LIT QMI_LOC_MAX_SV_USED_LIST_LENGTH_V02,
      OFFSET16_DIFF qmiLocEventGeofenceBatchedDwellIndMsgT_v02 ''gnssSvUsedList'' ''gnssSvUsedList_len'',
     TLV [QMI_IDL_TLV_FLAGS_OPTIONAL] (OFFSET16_DIFF qmiLocEventGeofenceBatchedDwellIndMsgT_v02 ''extDOP'' ''extDOP_valid''),
      LIT 0x1A, OP [QMI_IDL_FLAGS_OFFSET_IS_16] QMI_IDL_AGGREGATE,
      OFFSET16ARRAY qmiLocEventGeofenceBatchedDwellIndMsgT_v02 ''extDOP'', TYPE88 0 4,
     TLV [QMI_IDL_TLV_FLAGS_OPTIONAL] (OFFSET16_DIFF qmiLocEventGeofenceBatchedDwellIndMsgT_v02 ''expandedGnssSvUsedList'' ''expandedGnssSvUsedList_valid''),
      LIT 0x1B,
      OP [QMI_IDL_FLAGS_IS_ARRAY, QMI_IDL_FLAGS_IS_VARIABLE_LEN, QMI_IDL_FLAGS_OFFSET_IS_16] QMI_IDL_GENERIC_2_BYTE,
      OFFSET16ARRAY qmiLocEventGeofenceBatchedDwellIndMsgT_v02 ''expandedGnssSvUsedList'',
      LIT QMI_LOC_EXPANDED_SV_INFO_LIST_MAX_SIZE_V02,
      OFFSET16_DIFF qmiLocEventGeofenceBatchedDwellIndMsgT_v02 ''expandedGnssSvUsedList'' ''expandedGnssSvUsedList_len'',
     TLV [QMI_IDL_TLV_FLAGS_LAST_TLV, QMI_IDL_TLV_FLAGS_OPTIONAL] (OFFSET16_DIFF qmiLocEventGeofenceBatchedDwellIndMsgT_v02 ''gnssSvUsedSignalTypeList'' ''gnssSvUsedSignalTypeList_valid''),
      LIT 0x1C,
      OP [QMI_IDL_FLAGS_IS_ARRAY, QMI_IDL_FLAGS_IS_VARIABLE_LEN, QMI_IDL_FLAGS_OFFSET_IS_16] QMI_IDL_GENERIC_8_BYTE,
      OFFSET16ARRAY qmiLocEventGeofenceBatchedDwellIndMsgT_v02 ''gnssSvUsedSignalTypeList'',
      LIT QMI_LOC_EXPANDED_SV_INFO_LIST_MAX_SIZE_V02,
      OFFSET16_DIFF qmiLocEventGeofenceBatchedDwellIndMsgT_v02 ''gnssSvUsedSignalTypeList'' ''gnssSvUsedSignalTypeList_len'']"

lemma qmiLocEventGeofenceBatchedDwellIndMsgT_data_v02_ok [idl_simps]:
  "describe_msg qmiLocEventGeofenceBatchedDwellIndMsgT_data_v02 = Some (qmiLocEventGeofenceBatchedDwellIndMsgT_v02, 2305, [(80, (0, 28), qmiLocGeofenceIdContinuousStructT_v02), (1, (0, 27), qmiLocGeofencePositionStructT_v02), (1, (0, 3), qmiLocDOPStructT_v02), (1, (0, 4), qmiLocExtDOPStructT_v02)])"
  by (simp add: qmiLocEventGeofenceBatchedDwellIndMsgT_data_v02_def qmiLocEventGeofenceBatchedDwellIndMsgT_v02_def [THEN arg_cong, of laid] analyse_simps layout_simps cong: idl_cong)

definition qmiLocEventGdtUploadBeginStatusReqIndMsgT_data_v02 :: "idl_byte list" where
  "qmiLocEventGdtUploadBeginStatusReqIndMsgT_data_v02 =
    [LIT 0x01, OP [] QMI_IDL_GENERIC_4_BYTE,
      OFFSET8 qmiLocEventGdtUploadBeginStatusReqIndMsgT_v02 ''serviceId'',
     LIT 0x02, OP [] QMI_IDL_GENERIC_4_BYTE,
      OFFSET8 qmiLocEventGdtUploadBeginStatusReqIndMsgT_v02 ''sessionId'',
     TLV [QMI_IDL_TLV_FLAGS_LAST_TLV] (LIT 0x03),
      OP [QMI_IDL_FLAGS_IS_ARRAY, QMI_IDL_FLAGS_IS_VARIABLE_LEN] QMI_IDL_GENERIC_1_BYTE,
      OFFSET8 qmiLocEventGdtUploadBeginStatusReqIndMsgT_v02 ''filePath'',
      LIT QMI_LOC_MAX_GDT_PATH_LEN_V02,
      OFFSET8_DIFF qmiLocEventGdtUploadBeginStatusReqIndMsgT_v02 ''filePath'' ''filePath_len'']"

lemma qmiLocEventGdtUploadBeginStatusReqIndMsgT_data_v02_ok [idl_simps]:
  "describe_msg qmiLocEventGdtUploadBeginStatusReqIndMsgT_data_v02 = Some (qmiLocEventGdtUploadBeginStatusReqIndMsgT_v02, 273, [])"
  by (simp add: qmiLocEventGdtUploadBeginStatusReqIndMsgT_data_v02_def qmiLocEventGdtUploadBeginStatusReqIndMsgT_v02_def [THEN arg_cong, of laid] analyse_simps layout_simps cong: idl_cong)

definition qmiLocEventGdtUploadEndReqIndMsgT_data_v02 :: "idl_byte list" where
  "qmiLocEventGdtUploadEndReqIndMsgT_data_v02 =
    [LIT 0x01, OP [] QMI_IDL_GENERIC_4_BYTE,
      OFFSET8 qmiLocEventGdtUploadEndReqIndMsgT_v02 ''serviceId'',
     LIT 0x02, OP [] QMI_IDL_GENERIC_4_BYTE,
      OFFSET8 qmiLocEventGdtUploadEndReqIndMsgT_v02 ''sessionId'',
     TLV [QMI_IDL_TLV_FLAGS_LAST_TLV] (LIT 0x03), OP [] QMI_IDL_GENERIC_4_BYTE,
      OFFSET8 qmiLocEventGdtUploadEndReqIndMsgT_v02 ''endStatus'']"

lemma qmiLocEventGdtUploadEndReqIndMsgT_data_v02_ok [idl_simps]:
  "describe_msg qmiLocEventGdtUploadEndReqIndMsgT_data_v02 = Some (qmiLocEventGdtUploadEndReqIndMsgT_v02, 21, [])"
  by (simp add: qmiLocEventGdtUploadEndReqIndMsgT_data_v02_def qmiLocEventGdtUploadEndReqIndMsgT_v02_def [THEN arg_cong, of laid] analyse_simps layout_simps cong: idl_cong)

definition qmiLocEventGdtDownloadBeginReqIndMsgT_data_v02 :: "idl_byte list" where
  "qmiLocEventGdtDownloadBeginReqIndMsgT_data_v02 =
    [LIT 0x01, OP [] QMI_IDL_GENERIC_4_BYTE,
      OFFSET8 qmiLocEventGdtDownloadBeginReqIndMsgT_v02 ''serviceId'',
     LIT 0x02, OP [] QMI_IDL_GENERIC_4_BYTE,
      OFFSET8 qmiLocEventGdtDownloadBeginReqIndMsgT_v02 ''sessionId'',
     LIT 0x03, OP [] QMI_IDL_GENERIC_4_BYTE,
      OFFSET8 qmiLocEventGdtDownloadBeginReqIndMsgT_v02 ''respTimeoutInterval'',
     LIT 0x04,
      OP [QMI_IDL_FLAGS_IS_ARRAY, QMI_IDL_FLAGS_IS_VARIABLE_LEN, QMI_IDL_FLAGS_SZ_IS_16] QMI_IDL_GENERIC_1_BYTE,
      OFFSET8 qmiLocEventGdtDownloadBeginReqIndMsgT_v02 ''clientInfo'',
      LO8 QMI_LOC_MAX_GTP_CL_INFO_LEN_V02, HI8 QMI_LOC_MAX_GTP_CL_INFO_LEN_V02,
      OFFSET8_DIFF qmiLocEventGdtDownloadBeginReqIndMsgT_v02 ''clientInfo'' ''clientInfo_len'',
     LIT 0x05,
      OP [QMI_IDL_FLAGS_IS_ARRAY, QMI_IDL_FLAGS_IS_VARIABLE_LEN, QMI_IDL_FLAGS_SZ_IS_16, QMI_IDL_FLAGS_OFFSET_IS_16] QMI_IDL_GENERIC_1_BYTE,
      OFFSET16ARRAY qmiLocEventGdtDownloadBeginReqIndMsgT_v02 ''mobileStatusData'',
      LO8 QMI_LOC_MAX_GTP_MSD_LEN_V02, HI8 QMI_LOC_MAX_GTP_MSD_LEN_V02,
      OFFSET16_DIFF qmiLocEventGdtDownloadBeginReqIndMsgT_v02 ''mobileStatusData'' ''mobileStatusData_len'',
     LIT 0x06,
      OP [QMI_IDL_FLAGS_IS_ARRAY, QMI_IDL_FLAGS_IS_VARIABLE_LEN, QMI_IDL_FLAGS_OFFSET_IS_16] QMI_IDL_GENERIC_1_BYTE,
      OFFSET16ARRAY qmiLocEventGdtDownloadBeginReqIndMsgT_v02 ''filePath'',
      LIT QMI_LOC_MAX_GDT_PATH_LEN_V02,
      OFFSET16_DIFF qmiLocEventGdtDownloadBeginReqIndMsgT_v02 ''filePath'' ''filePath_len'',
     TLV [QMI_IDL_TLV_FLAGS_OPTIONAL] (OFFSET16_DIFF qmiLocEventGdtDownloadBeginReqIndMsgT_v02 ''powerBudgetInfo'' ''powerBudgetInfo_valid''),
      LIT 0x10, OP [QMI_IDL_FLAGS_OFFSET_IS_16] QMI_IDL_GENERIC_4_BYTE,
      OFFSET16ARRAY qmiLocEventGdtDownloadBeginReqIndMsgT_v02 ''powerBudgetInfo'',
     TLV [QMI_IDL_TLV_FLAGS_OPTIONAL] (OFFSET16_DIFF qmiLocEventGdtDownloadBeginReqIndMsgT_v02 ''powerBudgetAllowance'' ''powerBudgetAllowance_valid''),
      LIT 0x11, OP [QMI_IDL_FLAGS_OFFSET_IS_16] QMI_IDL_GENERIC_4_BYTE,
      OFFSET16ARRAY qmiLocEventGdtDownloadBeginReqIndMsgT_v02 ''powerBudgetAllowance'',
     TLV [QMI_IDL_TLV_FLAGS_LAST_TLV, QMI_IDL_TLV_FLAGS_OPTIONAL] (OFFSET16_DIFF qmiLocEventGdtDownloadBeginReqIndMsgT_v02 ''downloadRequestMask'' ''downloadRequestMask_valid''),
      LIT 0x12, OP [QMI_IDL_FLAGS_OFFSET_IS_16] QMI_IDL_GENERIC_4_BYTE,
      OFFSET16ARRAY qmiLocEventGdtDownloadBeginReqIndMsgT_v02 ''downloadRequestMask'']"

lemma qmiLocEventGdtDownloadBeginReqIndMsgT_data_v02_ok [idl_simps]:
  "describe_msg qmiLocEventGdtDownloadBeginReqIndMsgT_data_v02 = Some (qmiLocEventGdtDownloadBeginReqIndMsgT_v02, 5811, [])"
  by (simp add: qmiLocEventGdtDownloadBeginReqIndMsgT_data_v02_def qmiLocEventGdtDownloadBeginReqIndMsgT_v02_def [THEN arg_cong, of laid] analyse_simps layout_simps cong: idl_cong)

definition qmiLocEventGdtReceiveDoneIndMsgT_data_v02 :: "idl_byte list" where
  "qmiLocEventGdtReceiveDoneIndMsgT_data_v02 =
    [LIT 0x01, OP [] QMI_IDL_GENERIC_4_BYTE, OFFSET8 qmiLocEventGdtReceiveDoneIndMsgT_v02 ''serviceId'',
     LIT 0x02, OP [] QMI_IDL_GENERIC_4_BYTE, OFFSET8 qmiLocEventGdtReceiveDoneIndMsgT_v02 ''sessionId'',
     TLV [QMI_IDL_TLV_FLAGS_LAST_TLV] (LIT 0x03), OP [] QMI_IDL_GENERIC_4_BYTE,
      OFFSET8 qmiLocEventGdtReceiveDoneIndMsgT_v02 ''status'']"

lemma qmiLocEventGdtReceiveDoneIndMsgT_data_v02_ok [idl_simps]:
  "describe_msg qmiLocEventGdtReceiveDoneIndMsgT_data_v02 = Some (qmiLocEventGdtReceiveDoneIndMsgT_v02, 21, [])"
  by (simp add: qmiLocEventGdtReceiveDoneIndMsgT_data_v02_def qmiLocEventGdtReceiveDoneIndMsgT_v02_def [THEN arg_cong, of laid] analyse_simps layout_simps cong: idl_cong)

definition qmiLocEventGdtDownloadEndReqIndMsgT_data_v02 :: "idl_byte list" where
  "qmiLocEventGdtDownloadEndReqIndMsgT_data_v02 =
    [LIT 0x01, OP [] QMI_IDL_GENERIC_4_BYTE,
      OFFSET8 qmiLocEventGdtDownloadEndReqIndMsgT_v02 ''serviceId'',
     LIT 0x02, OP [] QMI_IDL_GENERIC_4_BYTE,
      OFFSET8 qmiLocEventGdtDownloadEndReqIndMsgT_v02 ''sessionId'',
     TLV [QMI_IDL_TLV_FLAGS_LAST_TLV] (LIT 0x03), OP [] QMI_IDL_GENERIC_4_BYTE,
      OFFSET8 qmiLocEventGdtDownloadEndReqIndMsgT_v02 ''status'']"

lemma qmiLocEventGdtDownloadEndReqIndMsgT_data_v02_ok [idl_simps]:
  "describe_msg qmiLocEventGdtDownloadEndReqIndMsgT_data_v02 = Some (qmiLocEventGdtDownloadEndReqIndMsgT_v02, 21, [])"
  by (simp add: qmiLocEventGdtDownloadEndReqIndMsgT_data_v02_def qmiLocEventGdtDownloadEndReqIndMsgT_v02_def [THEN arg_cong, of laid] analyse_simps layout_simps cong: idl_cong)

definition qmiLocGetServiceRevisionIndMsgT_data_v02 :: "idl_byte list" where
  "qmiLocGetServiceRevisionIndMsgT_data_v02 =
    [LIT 0x01, OP [] QMI_IDL_GENERIC_4_BYTE, OFFSET8 qmiLocGetServiceRevisionIndMsgT_v02 ''status'',
     LIT 0x02, OP [] QMI_IDL_GENERIC_4_BYTE, OFFSET8 qmiLocGetServiceRevisionIndMsgT_v02 ''revision'',
     TLV [QMI_IDL_TLV_FLAGS_OPTIONAL] (OFFSET8_DIFF qmiLocGetServiceRevisionIndMsgT_v02 ''gnssMeFWVerString'' ''gnssMeFWVerString_valid''),
      LIT 0x10, OP [QMI_IDL_FLAGS_IS_ARRAY, QMI_IDL_FLAGS_IS_VARIABLE_LEN] QMI_IDL_STRING,
      OFFSET8 qmiLocGetServiceRevisionIndMsgT_v02 ''gnssMeFWVerString'',
      LIT QMI_LOC_GNSS_ME_VERSION_STRING_MAX_LENGTH_V02,
     TLV [QMI_IDL_TLV_FLAGS_OPTIONAL] (OFFSET8_DIFF qmiLocGetServiceRevisionIndMsgT_v02 ''gnssHostSWVerString'' ''gnssHostSWVerString_valid''),
      LIT 0x11, OP [QMI_IDL_FLAGS_IS_ARRAY, QMI_IDL_FLAGS_IS_VARIABLE_LEN] QMI_IDL_STRING,
      OFFSET8 qmiLocGetServiceRevisionIndMsgT_v02 ''gnssHostSWVerString'',
      LIT QMI_LOC_GNSS_HOSTED_SW_VERSION_STRING_MAX_LENGTH_V02,
     TLV [QMI_IDL_TLV_FLAGS_LAST_TLV, QMI_IDL_TLV_FLAGS_OPTIONAL] (OFFSET16_DIFF qmiLocGetServiceRevisionIndMsgT_v02 ''gnssSWVerString'' ''gnssSWVerString_valid''),
      LIT 0x12,
      OP [QMI_IDL_FLAGS_IS_ARRAY, QMI_IDL_FLAGS_IS_VARIABLE_LEN, QMI_IDL_FLAGS_OFFSET_IS_16] QMI_IDL_STRING,
      OFFSET16ARRAY qmiLocGetServiceRevisionIndMsgT_v02 ''gnssSWVerString'',
      LIT QMI_LOC_GNSS_SW_VERSION_STRING_MAX_LENGTH_V02]"

lemma qmiLocGetServiceRevisionIndMsgT_data_v02_ok [idl_simps]:
  "describe_msg qmiLocGetServiceRevisionIndMsgT_data_v02 = Some (qmiLocGetServiceRevisionIndMsgT_v02, 532, [])"
  by (simp add: qmiLocGetServiceRevisionIndMsgT_data_v02_def qmiLocGetServiceRevisionIndMsgT_v02_def [THEN arg_cong, of laid] analyse_simps layout_simps cong: idl_cong)

definition qmiLocGetFixCriteriaIndMsgT_data_v02 :: "idl_byte list" where
  "qmiLocGetFixCriteriaIndMsgT_data_v02 =
    [LIT 0x01, OP [] QMI_IDL_GENERIC_4_BYTE, OFFSET8 qmiLocGetFixCriteriaIndMsgT_v02 ''status'',
     TLV [QMI_IDL_TLV_FLAGS_OPTIONAL] (OFFSET8_DIFF qmiLocGetFixCriteriaIndMsgT_v02 ''horizontalAccuracyLevel'' ''horizontalAccuracyLevel_valid''),
      LIT 0x10, OP [] QMI_IDL_GENERIC_4_BYTE,
      OFFSET8 qmiLocGetFixCriteriaIndMsgT_v02 ''horizontalAccuracyLevel'',
     TLV [QMI_IDL_TLV_FLAGS_OPTIONAL] (OFFSET8_DIFF qmiLocGetFixCriteriaIndMsgT_v02 ''intermediateReportState'' ''intermediateReportState_valid''),
      LIT 0x11, OP [] QMI_IDL_GENERIC_4_BYTE,
      OFFSET8 qmiLocGetFixCriteriaIndMsgT_v02 ''intermediateReportState'',
     TLV [QMI_IDL_TLV_FLAGS_OPTIONAL] (OFFSET8_DIFF qmiLocGetFixCriteriaIndMsgT_v02 ''minInterval'' ''minInterval_valid''),
      LIT 0x12, OP [] QMI_IDL_GENERIC_4_BYTE, OFFSET8 qmiLocGetFixCriteriaIndMsgT_v02 ''minInterval'',
     TLV [QMI_IDL_TLV_FLAGS_OPTIONAL] (OFFSET8_DIFF qmiLocGetFixCriteriaIndMsgT_v02 ''applicationId'' ''applicationId_valid''),
      LIT 0x13, OP [] QMI_IDL_AGGREGATE, OFFSET8 qmiLocGetFixCriteriaIndMsgT_v02 ''applicationId'',
      TYPE88 0 0,
     TLV [QMI_IDL_TLV_FLAGS_OPTIONAL] (OFFSET8_DIFF qmiLocGetFixCriteriaIndMsgT_v02 ''configAltitudeAssumed'' ''configAltitudeAssumed_valid''),
      LIT 0x14, OP [] QMI_IDL_GENERIC_4_BYTE,
      OFFSET8 qmiLocGetFixCriteriaIndMsgT_v02 ''configAltitudeAssumed'',
     TLV [QMI_IDL_TLV_FLAGS_OPTIONAL] (OFFSET8_DIFF qmiLocGetFixCriteriaIndMsgT_v02 ''minIntermediatePositionReportInterval'' ''minIntermediatePositionReportInterval_valid''),
      LIT 0x15, OP [] QMI_IDL_GENERIC_4_BYTE,
      OFFSET8 qmiLocGetFixCriteriaIndMsgT_v02 ''minIntermediatePositionReportInterval'',
     TLV [QMI_IDL_TLV_FLAGS_OPTIONAL] (OFFSET8_DIFF qmiLocGetFixCriteriaIndMsgT_v02 ''positionReportTimeout'' ''positionReportTimeout_valid''),
      LIT 0x16, OP [] QMI_IDL_GENERIC_4_BYTE,
      OFFSET8 qmiLocGetFixCriteriaIndMsgT_v02 ''positionReportTimeout'',
     TLV [QMI_IDL_TLV_FLAGS_OPTIONAL] (OFFSET8_DIFF qmiLocGetFixCriteriaIndMsgT_v02 ''sharePosition'' ''sharePosition_valid''),
      LIT 0x17, OP [] QMI_IDL_GENERIC_1_BYTE, OFFSET8 qmiLocGetFixCriteriaIndMsgT_v02 ''sharePosition'',
     TLV [QMI_IDL_TLV_FLAGS_LAST_TLV, QMI_IDL_TLV_FLAGS_OPTIONAL] (OFFSET8_DIFF qmiLocGetFixCriteriaIndMsgT_v02 ''powerMode'' ''powerMode_valid''),
      LIT 0x18, OP [] QMI_IDL_AGGREGATE, OFFSET8 qmiLocGetFixCriteriaIndMsgT_v02 ''powerMode'',
      TYPE88 0 1]"

lemma qmiLocGetFixCriteriaIndMsgT_data_v02_ok [idl_simps]:
  "describe_msg qmiLocGetFixCriteriaIndMsgT_data_v02 = Some (qmiLocGetFixCriteriaIndMsgT_v02, 59, [(1, (0, 0), qmiLocApplicationIdStructT_v02), (1, (0, 1), qmiLocPowerModeStructT_v02)])"
  by (simp add: qmiLocGetFixCriteriaIndMsgT_data_v02_def qmiLocGetFixCriteriaIndMsgT_v02_def [THEN arg_cong, of laid] analyse_simps layout_simps cong: idl_cong)

definition qmiLocNiUserRespReqMsgT_data_v02 :: "idl_byte list" where
  "qmiLocNiUserRespReqMsgT_data_v02 =
    [LIT 0x01, OP [] QMI_IDL_GENERIC_4_BYTE, OFFSET8 qmiLocNiUserRespReqMsgT_v02 ''userResp'',
     LIT 0x02, OP [] QMI_IDL_GENERIC_4_BYTE, OFFSET8 qmiLocNiUserRespReqMsgT_v02 ''notificationType'',
     TLV [QMI_IDL_TLV_FLAGS_OPTIONAL] (OFFSET8_DIFF qmiLocNiUserRespReqMsgT_v02 ''NiVxPayload'' ''NiVxPayload_valid''),
      LIT 0x10, OP [] QMI_IDL_AGGREGATE, OFFSET8 qmiLocNiUserRespReqMsgT_v02 ''NiVxPayload'', TYPE88 0 9,
     TLV [QMI_IDL_TLV_FLAGS_OPTIONAL] (OFFSET16_DIFF qmiLocNiUserRespReqMsgT_v02 ''NiSuplPayload'' ''NiSuplPayload_valid''),
      LIT 0x11, OP [QMI_IDL_FLAGS_OFFSET_IS_16] QMI_IDL_AGGREGATE,
      OFFSET16ARRAY qmiLocNiUserRespReqMsgT_v02 ''NiSuplPayload'', TYPE88 0 15,
     TLV [QMI_IDL_TLV_FLAGS_OPTIONAL] (OFFSET16_DIFF qmiLocNiUserRespReqMsgT_v02 ''NiUmtsCpPayload'' ''NiUmtsCpPayload_valid''),
      LIT 0x12, OP [QMI_IDL_FLAGS_OFFSET_IS_16] QMI_IDL_AGGREGATE,
      OFFSET16ARRAY qmiLocNiUserRespReqMsgT_v02 ''NiUmtsCpPayload'', TYPE88 0 17,
     TLV [QMI_IDL_TLV_FLAGS_OPTIONAL] (OFFSET16_DIFF qmiLocNiUserRespReqMsgT_v02 ''NiVxServiceInteractionPayload'' ''NiVxServiceInteractionPayload_valid''),
      LIT 0x13, OP [QMI_IDL_FLAGS_OFFSET_IS_16] QMI_IDL_AGGREGATE,
      OFFSET16ARRAY qmiLocNiUserRespReqMsgT_v02 ''NiVxServiceInteractionPayload'', TYPE88 0 18,
     TLV [QMI_IDL_TLV_FLAGS_OPTIONAL] (OFFSET16_DIFF qmiLocNiUserRespReqMsgT_v02 ''NiSuplVer2ExtPayload'' ''NiSuplVer2ExtPayload_valid''),
      LIT 0x14, OP [QMI_IDL_FLAGS_OFFSET_IS_16] QMI_IDL_AGGREGATE,
      OFFSET16ARRAY qmiLocNiUserRespReqMsgT_v02 ''NiSuplVer2ExtPayload'', TYPE88 0 19,
     TLV [QMI_IDL_TLV_FLAGS_LAST_TLV, QMI_IDL_TLV_FLAGS_OPTIONAL] (OFFSET16_DIFF qmiLocNiUserRespReqMsgT_v02 ''suplEmergencyNotification'' ''suplEmergencyNotification_valid''),
      LIT 0x15, OP [QMI_IDL_FLAGS_OFFSET_IS_16] QMI_IDL_AGGREGATE,
      OFFSET16ARRAY qmiLocNiUserRespReqMsgT_v02 ''suplEmergencyNotification'', TYPE88 0 20]"

lemma qmiLocNiUserRespReqMsgT_data_v02_ok [idl_simps]:
  "describe_msg qmiLocNiUserRespReqMsgT_data_v02 = Some (qmiLocNiUserRespReqMsgT_v02, 32, [(1, (0, 9), qmiLocNiVxNotifyVerifyStructT_v02), (1, (0, 15), qmiLocNiSuplNotifyVerifyStructT_v02), (1, (0, 17), qmiLocNiUmtsCpNotifyVerifyStructT_v02), (1, (0, 18), qmiLocNiVxServiceInteractionStructT_v02), (1, (0, 19), qmiLocNiSuplVer2ExtStructT_v02), (1, (0, 20), qmiLocEmergencyNotificationStructT_v02)])"
  by (simp add: qmiLocNiUserRespReqMsgT_data_v02_def qmiLocNiUserRespReqMsgT_v02_def [THEN arg_cong, of laid] analyse_simps layout_simps cong: idl_cong)

definition qmiLocNiUserRespIndMsgT_data_v02 :: "idl_byte list" where
  "qmiLocNiUserRespIndMsgT_data_v02 =
    [TLV [QMI_IDL_TLV_FLAGS_LAST_TLV] (LIT 0x01), OP [] QMI_IDL_GENERIC_4_BYTE,
      OFFSET8 qmiLocNiUserRespIndMsgT_v02 ''status'']"

lemma qmiLocNiUserRespIndMsgT_data_v02_ok [idl_simps]:
  "describe_msg qmiLocNiUserRespIndMsgT_data_v02 = Some (qmiLocNiUserRespIndMsgT_v02, 7, [])"
  by (simp add: qmiLocNiUserRespIndMsgT_data_v02_def qmiLocNiUserRespIndMsgT_v02_def [THEN arg_cong, of laid] analyse_simps layout_simps cong: idl_cong)

definition qmiLocInjectPredictedOrbitsDataReqMsgT_data_v02 :: "idl_byte list" where
  "qmiLocInjectPredictedOrbitsDataReqMsgT_data_v02 =
    [LIT 0x01, OP [] QMI_IDL_GENERIC_4_BYTE,
      OFFSET8 qmiLocInjectPredictedOrbitsDataReqMsgT_v02 ''totalSize'',
     LIT 0x02, OP [] QMI_IDL_GENERIC_2_BYTE,
      OFFSET8 qmiLocInjectPredictedOrbitsDataReqMsgT_v02 ''totalParts'',
     LIT 0x03, OP [] QMI_IDL_GENERIC_2_BYTE,
      OFFSET8 qmiLocInjectPredictedOrbitsDataReqMsgT_v02 ''partNum'',
     LIT 0x04,
      OP [QMI_IDL_FLAGS_IS_ARRAY, QMI_IDL_FLAGS_IS_VARIABLE_LEN, QMI_IDL_FLAGS_SZ_IS_16] QMI_IDL_GENERIC_1_BYTE,
      OFFSET8 qmiLocInjectPredictedOrbitsDataReqMsgT_v02 ''partData'',
      LO8 QMI_LOC_MAX_PREDICTED_ORBITS_PART_LEN_V02, HI8 QMI_LOC_MAX_PREDICTED_ORBITS_PART_LEN_V02,
      OFFSET8_DIFF qmiLocInjectPredictedOrbitsDataReqMsgT_v02 ''partData'' ''partData_len'',
     TLV [QMI_IDL_TLV_FLAGS_LAST_TLV, QMI_IDL_TLV_FLAGS_OPTIONAL] (OFFSET16_DIFF qmiLocInjectPredictedOrbitsDataReqMsgT_v02 ''formatType'' ''formatType_valid''),
      LIT 0x10, OP [QMI_IDL_FLAGS_OFFSET_IS_16] QMI_IDL_GENERIC_4_BYTE,
      OFFSET16ARRAY qmiLocInjectPredictedOrbitsDataReqMsgT_v02 ''formatType'']"

lemma qmiLocInjectPredictedOrbitsDataReqMsgT_data_v02_ok [idl_simps]:
  "describe_msg qmiLocInjectPredictedOrbitsDataReqMsgT_data_v02 = Some (qmiLocInjectPredictedOrbitsDataReqMsgT_v02, 1053, [])"
  by (simp add: qmiLocInjectPredictedOrbitsDataReqMsgT_data_v02_def qmiLocInjectPredictedOrbitsDataReqMsgT_v02_def [THEN arg_cong, of laid] analyse_simps layout_simps cong: idl_cong)

definition qmiLocInjectPredictedOrbitsDataIndMsgT_data_v02 :: "idl_byte list" where
  "qmiLocInjectPredictedOrbitsDataIndMsgT_data_v02 =
    [LIT 0x01, OP [] QMI_IDL_GENERIC_4_BYTE,
      OFFSET8 qmiLocInjectPredictedOrbitsDataIndMsgT_v02 ''status'',
     TLV [QMI_IDL_TLV_FLAGS_LAST_TLV, QMI_IDL_TLV_FLAGS_OPTIONAL] (OFFSET8_DIFF qmiLocInjectPredictedOrbitsDataIndMsgT_v02 ''partNum'' ''partNum_valid''),
      LIT 0x10, OP [] QMI_IDL_GENERIC_2_BYTE,
      OFFSET8 qmiLocInjectPredictedOrbitsDataIndMsgT_v02 ''partNum'']"

lemma qmiLocInjectPredictedOrbitsDataIndMsgT_data_v02_ok [idl_simps]:
  "describe_msg qmiLocInjectPredictedOrbitsDataIndMsgT_data_v02 = Some (qmiLocInjectPredictedOrbitsDataIndMsgT_v02, 12, [])"
  by (simp add: qmiLocInjectPredictedOrbitsDataIndMsgT_data_v02_def qmiLocInjectPredictedOrbitsDataIndMsgT_v02_def [THEN arg_cong, of laid] analyse_simps layout_simps cong: idl_cong)

definition qmiLocGetPredictedOrbitsDataSourceIndMsgT_data_v02 :: "idl_byte list" where
  "qmiLocGetPredictedOrbitsDataSourceIndMsgT_data_v02 =
    [LIT 0x01, OP [] QMI_IDL_GENERIC_4_BYTE,
      OFFSET8 qmiLocGetPredictedOrbitsDataSourceIndMsgT_v02 ''status'',
     TLV [QMI_IDL_TLV_FLAGS_OPTIONAL] (OFFSET8_DIFF qmiLocGetPredictedOrbitsDataSourceIndMsgT_v02 ''allowedSizes'' ''allowedSizes_valid''),
      LIT 0x10, OP [] QMI_IDL_AGGREGATE,
      OFFSET8 qmiLocGetPredictedOrbitsDataSourceIndMsgT_v02 ''allowedSizes'', TYPE88 0 23,
     TLV [QMI_IDL_TLV_FLAGS_LAST_TLV, QMI_IDL_TLV_FLAGS_OPTIONAL] (OFFSET8_DIFF qmiLocGetPredictedOrbitsDataSourceIndMsgT_v02 ''serverList'' ''serverList_valid''),
      LIT 0x11, OP [] QMI_IDL_AGGREGATE,
      OFFSET8 qmiLocGetPredictedOrbitsDataSourceIndMsgT_v02 ''serverList'', TYPE88 0 24]"

lemma qmiLocGetPredictedOrbitsDataSourceIndMsgT_data_v02_ok [idl_simps]:
  "describe_msg qmiLocGetPredictedOrbitsDataSourceIndMsgT_data_v02 = Some (qmiLocGetPredictedOrbitsDataSourceIndMsgT_v02, 13, [(1, (0, 23), qmiLocPredictedOrbitsAllowedSizesStructT_v02), (1, (0, 24), qmiLocPredictedOrbitsServerListStructT_v02)])"
  by (simp add: qmiLocGetPredictedOrbitsDataSourceIndMsgT_data_v02_def qmiLocGetPredictedOrbitsDataSourceIndMsgT_v02_def [THEN arg_cong, of laid] analyse_simps layout_simps cong: idl_cong)

definition qmiLocGetPredictedOrbitsDataValidityIndMsgT_data_v02 :: "idl_byte list" where
  "qmiLocGetPredictedOrbitsDataValidityIndMsgT_data_v02 =
    [LIT 0x01, OP [] QMI_IDL_GENERIC_4_BYTE,
      OFFSET8 qmiLocGetPredictedOrbitsDataValidityIndMsgT_v02 ''status'',
     TLV [QMI_IDL_TLV_FLAGS_LAST_TLV, QMI_IDL_TLV_FLAGS_OPTIONAL] (OFFSET8_DIFF qmiLocGetPredictedOrbitsDataValidityIndMsgT_v02 ''validityInfo'' ''validityInfo_valid''),
      LIT 0x10, OP [] QMI_IDL_AGGREGATE,
      OFFSET8 qmiLocGetPredictedOrbitsDataValidityIndMsgT_v02 ''validityInfo'', TYPE88 0 29]"

lemma qmiLocGetPredictedOrbitsDataValidityIndMsgT_data_v02_ok [idl_simps]:
  "describe_msg qmiLocGetPredictedOrbitsDataValidityIndMsgT_data_v02 = Some (qmiLocGetPredictedOrbitsDataValidityIndMsgT_v02, 10, [(1, (0, 29), qmiLocPredictedOrbitsDataValidityStructT_v02)])"
  by (simp add: qmiLocGetPredictedOrbitsDataValidityIndMsgT_data_v02_def qmiLocGetPredictedOrbitsDataValidityIndMsgT_v02_def [THEN arg_cong, of laid] analyse_simps layout_simps cong: idl_cong)

definition qmiLocInjectUtcTimeReqMsgT_data_v02 :: "idl_byte list" where
  "qmiLocInjectUtcTimeReqMsgT_data_v02 =
    [LIT 0x01, OP [] QMI_IDL_GENERIC_8_BYTE, OFFSET8 qmiLocInjectUtcTimeReqMsgT_v02 ''timeUtc'',
     LIT 0x02, OP [] QMI_IDL_GENERIC_4_BYTE, OFFSET8 qmiLocInjectUtcTimeReqMsgT_v02 ''timeUnc'',
     TLV [QMI_IDL_TLV_FLAGS_LAST_TLV, QMI_IDL_TLV_FLAGS_OPTIONAL] (OFFSET8_DIFF qmiLocInjectUtcTimeReqMsgT_v02 ''timeSrc'' ''timeSrc_valid''),
      LIT 0x10, OP [] QMI_IDL_GENERIC_4_BYTE, OFFSET8 qmiLocInjectUtcTimeReqMsgT_v02 ''timeSrc'']"

lemma qmiLocInjectUtcTimeReqMsgT_data_v02_ok [idl_simps]:
  "describe_msg qmiLocInjectUtcTimeReqMsgT_data_v02 = Some (qmiLocInjectUtcTimeReqMsgT_v02, 25, [])"
  by (simp add: qmiLocInjectUtcTimeReqMsgT_data_v02_def qmiLocInjectUtcTimeReqMsgT_v02_def [THEN arg_cong, of laid] analyse_simps layout_simps cong: idl_cong)

definition qmiLocInjectUtcTimeIndMsgT_data_v02 :: "idl_byte list" where
  "qmiLocInjectUtcTimeIndMsgT_data_v02 =
    [TLV [QMI_IDL_TLV_FLAGS_LAST_TLV] (LIT 0x01), OP [] QMI_IDL_GENERIC_4_BYTE,
      OFFSET8 qmiLocInjectUtcTimeIndMsgT_v02 ''status'']"

lemma qmiLocInjectUtcTimeIndMsgT_data_v02_ok [idl_simps]:
  "describe_msg qmiLocInjectUtcTimeIndMsgT_data_v02 = Some (qmiLocInjectUtcTimeIndMsgT_v02, 7, [])"
  by (simp add: qmiLocInjectUtcTimeIndMsgT_data_v02_def qmiLocInjectUtcTimeIndMsgT_v02_def [THEN arg_cong, of laid] analyse_simps layout_simps cong: idl_cong)

definition qmiLocInjectPositionReqMsgT_data_v02 :: "idl_byte list" where
  "qmiLocInjectPositionReqMsgT_data_v02 =
    [TLV [QMI_IDL_TLV_FLAGS_OPTIONAL] (OFFSET8_DIFF qmiLocInjectPositionReqMsgT_v02 ''latitude'' ''latitude_valid''),
      LIT 0x10, OP [] QMI_IDL_GENERIC_8_BYTE, OFFSET8 qmiLocInjectPositionReqMsgT_v02 ''latitude'',
     TLV [QMI_IDL_TLV_FLAGS_OPTIONAL] (OFFSET8_DIFF qmiLocInjectPositionReqMsgT_v02 ''longitude'' ''longitude_valid''),
      LIT 0x11, OP [] QMI_IDL_GENERIC_8_BYTE, OFFSET8 qmiLocInjectPositionReqMsgT_v02 ''longitude'',
     TLV [QMI_IDL_TLV_FLAGS_OPTIONAL] (OFFSET8_DIFF qmiLocInjectPositionReqMsgT_v02 ''horUncCircular'' ''horUncCircular_valid''),
      LIT 0x12, OP [] QMI_IDL_GENERIC_4_BYTE, OFFSET8 qmiLocInjectPositionReqMsgT_v02 ''horUncCircular'',
     TLV [QMI_IDL_TLV_FLAGS_OPTIONAL] (OFFSET8_DIFF qmiLocInjectPositionReqMsgT_v02 ''horConfidence'' ''horConfidence_valid''),
      LIT 0x13, OP [] QMI_IDL_GENERIC_1_BYTE, OFFSET8 qmiLocInjectPositionReqMsgT_v02 ''horConfidence'',
     TLV [QMI_IDL_TLV_FLAGS_OPTIONAL] (OFFSET8_DIFF qmiLocInjectPositionReqMsgT_v02 ''horReliability'' ''horReliability_valid''),
      LIT 0x14, OP [] QMI_IDL_GENERIC_4_BYTE, OFFSET8 qmiLocInjectPositionReqMsgT_v02 ''horReliability'',
     TLV [QMI_IDL_TLV_FLAGS_OPTIONAL] (OFFSET8_DIFF qmiLocInjectPositionReqMsgT_v02 ''altitudeWrtEllipsoid'' ''altitudeWrtEllipsoid_valid''),
      LIT 0x15, OP [] QMI_IDL_GENERIC_4_BYTE,
      OFFSET8 qmiLocInjectPositionReqMsgT_v02 ''altitudeWrtEllipsoid'',
     TLV [QMI_IDL_TLV_FLAGS_OPTIONAL] (OFFSET8_DIFF qmiLocInjectPositionReqMsgT_v02 ''altitudeWrtMeanSeaLevel'' ''altitudeWrtMeanSeaLevel_valid''),
      LIT 0x16, OP [] QMI_IDL_GENERIC_4_BYTE,
      OFFSET8 qmiLocInjectPositionReqMsgT_v02 ''altitudeWrtMeanSeaLevel'',
     TLV [QMI_IDL_TLV_FLAGS_OPTIONAL] (OFFSET8_DIFF qmiLocInjectPositionReqMsgT_v02 ''vertUnc'' ''vertUnc_valid''),
      LIT 0x17, OP [] QMI_IDL_GENERIC_4_BYTE, OFFSET8 qmiLocInjectPositionReqMsgT_v02 ''vertUnc'',
     TLV [QMI_IDL_TLV_FLAGS_OPTIONAL] (OFFSET8_DIFF qmiLocInjectPositionReqMsgT_v02 ''vertConfidence'' ''vertConfidence_valid''),
      LIT 0x18, OP [] QMI_IDL_GENERIC_1_BYTE, OFFSET8 qmiLocInjectPositionReqMsgT_v02 ''vertConfidence'',
     TLV [QMI_IDL_TLV_FLAGS_OPTIONAL] (OFFSET8_DIFF qmiLocInjectPositionReqMsgT_v02 ''vertReliability'' ''vertReliability_valid''),
      LIT 0x19, OP [] QMI_IDL_GENERIC_4_BYTE,
      OFFSET8 qmiLocInjectPositionReqMsgT_v02 ''vertReliability'',
     TLV [QMI_IDL_TLV_FLAGS_OPTIONAL] (OFFSET8_DIFF qmiLocInjectPositionReqMsgT_v02 ''altSourceInfo'' ''altSourceInfo_valid''),
      LIT 0x1A, OP [] QMI_IDL_AGGREGATE, OFFSET8 qmiLocInjectPositionReqMsgT_v02 ''altSourceInfo'',
      TYPE88 0 30,
     TLV [QMI_IDL_TLV_FLAGS_OPTIONAL] (OFFSET8_DIFF qmiLocInjectPositionReqMsgT_v02 ''timestampUtc'' ''timestampUtc_valid''),
      LIT 0x1B, OP [] QMI_IDL_GENERIC_8_BYTE, OFFSET8 qmiLocInjectPositionReqMsgT_v02 ''timestampUtc'',
     TLV [QMI_IDL_TLV_FLAGS_OPTIONAL] (OFFSET8_DIFF qmiLocInjectPositionReqMsgT_v02 ''timestampAge'' ''timestampAge_valid''),
      LIT 0x1C, OP [] QMI_IDL_GENERIC_4_BYTE, OFFSET8 qmiLocInjectPositionReqMsgT_v02 ''timestampAge'',
     TLV [QMI_IDL_TLV_FLAGS_OPTIONAL] (OFFSET8_DIFF qmiLocInjectPositionReqMsgT_v02 ''positionSrc'' ''positionSrc_valid''),
      LIT 0x1D, OP [] QMI_IDL_GENERIC_4_BYTE, OFFSET8 qmiLocInjectPositionReqMsgT_v02 ''positionSrc'',
     TLV [QMI_IDL_TLV_FLAGS_OPTIONAL] (OFFSET8_DIFF qmiLocInjectPositionReqMsgT_v02 ''rawHorUncCircular'' ''rawHorUncCircular_valid''),
      LIT 0x1E, OP [] QMI_IDL_GENERIC_4_BYTE,
      OFFSET8 qmiLocInjectPositionReqMsgT_v02 ''rawHorUncCircular'',
     TLV [QMI_IDL_TLV_FLAGS_OPTIONAL] (OFFSET8_DIFF qmiLocInjectPositionReqMsgT_v02 ''rawHorConfidence'' ''rawHorConfidence_valid''),
      LIT 0x1F, OP [] QMI_IDL_GENERIC_1_BYTE,
      OFFSET8 qmiLocInjectPositionReqMsgT_v02 ''rawHorConfidence'',
     TLV [QMI_IDL_TLV_FLAGS_OPTIONAL] (OFFSET8_DIFF qmiLocInjectPositionReqMsgT_v02 ''onDemandCpi'' ''onDemandCpi_valid''),
      LIT 0x20, OP [] QMI_IDL_GENERIC_1_BYTE, OFFSET8 qmiLocInjectPositionReqMsgT_v02 ''onDemandCpi'',
     TLV [QMI_IDL_TLV_FLAGS_OPTIONAL] (OFFSET8_DIFF qmiLocInjectPositionReqMsgT_v02 ''positionSrcProvider'' ''positionSrcProvider_valid''),
      LIT 0x21, OP [] QMI_IDL_GENERIC_4_BYTE,
      OFFSET8 qmiLocInjectPositionReqMsgT_v02 ''positionSrcProvider'',
     TLV [QMI_IDL_TLV_FLAGS_OPTIONAL] (OFFSET8_DIFF qmiLocInjectPositionReqMsgT_v02 ''gpsTime'' ''gpsTime_valid''),
      LIT 0x22, OP [] QMI_IDL_AGGREGATE, OFFSET8 qmiLocInjectPositionReqMsgT_v02 ''gpsTime'', TYPE88 0 2,
     TLV [QMI_IDL_TLV_FLAGS_OPTIONAL] (OFFSET8_DIFF qmiLocInjectPositionReqMsgT_v02 ''timeUnc'' ''timeUnc_valid''),
      LIT 0x23, OP [] QMI_IDL_GENERIC_4_BYTE, OFFSET8 qmiLocInjectPositionReqMsgT_v02 ''timeUnc'',
     TLV [QMI_IDL_TLV_FLAGS_OPTIONAL] (OFFSET8_DIFF qmiLocInjectPositionReqMsgT_v02 ''velEnu'' ''velEnu_valid''),
      LIT 0x24, OP [QMI_IDL_FLAGS_IS_ARRAY] QMI_IDL_GENERIC_4_BYTE,
      OFFSET8 qmiLocInjectPositionReqMsgT_v02 ''velEnu'', LIT QMI_LOC_ENU_ARRAY_LENGTH_V02,
     TLV [QMI_IDL_TLV_FLAGS_OPTIONAL] (OFFSET8_DIFF qmiLocInjectPositionReqMsgT_v02 ''velUncEnu'' ''velUncEnu_valid''),
      LIT 0x25, OP [QMI_IDL_FLAGS_IS_ARRAY] QMI_IDL_GENERIC_4_BYTE,
      OFFSET8 qmiLocInjectPositionReqMsgT_v02 ''velUncEnu'', LIT QMI_LOC_ENU_ARRAY_LENGTH_V02,
     TLV [QMI_IDL_TLV_FLAGS_OPTIONAL] (OFFSET8_DIFF qmiLocInjectPositionReqMsgT_v02 ''expandedGnssSvUsedList'' ''expandedGnssSvUsedList_valid''),
      LIT 0x26, OP [QMI_IDL_FLAGS_IS_ARRAY, QMI_IDL_FLAGS_IS_VARIABLE_LEN] QMI_IDL_GENERIC_2_BYTE,
      OFFSET8 qmiLocInjectPositionReqMsgT_v02 ''expandedGnssSvUsedList'',
      LIT QMI_LOC_EXPANDED_SV_INFO_LIST_MAX_SIZE_V02,
      OFFSET8_DIFF qmiLocInjectPositionReqMsgT_v02 ''expandedGnssSvUsedList'' ''expandedGnssSvUsedList_len'',
     TLV [QMI_IDL_TLV_FLAGS_LAST_TLV, QMI_IDL_TLV_FLAGS_OPTIONAL] (OFFSET16_DIFF qmiLocInjectPositionReqMsgT_v02 ''numSvInFix'' ''numSvInFix_valid''),
      LIT 0x27, OP [QMI_IDL_FLAGS_OFFSET_IS_16] QMI_IDL_GENERIC_1_BYTE,
      OFFSET16ARRAY qmiLocInjectPositionReqMsgT_v02 ''numSvInFix'']"

lemma qmiLocInjectPositionReqMsgT_data_v02_ok [idl_simps]:
  "describe_msg qmiLocInjectPositionReqMsgT_data_v02 = Some (qmiLocInjectPositionReqMsgT_v02, 522, [(1, (0, 30), qmiLocAltitudeSrcInfoStructT_v02), (1, (0, 2), qmiLocGPSTimeStructT_v02)])"
  by (simp add: qmiLocInjectPositionReqMsgT_data_v02_def qmiLocInjectPositionReqMsgT_v02_def [THEN arg_cong, of laid] analyse_simps layout_simps cong: idl_cong)

definition qmiLocInjectPositionIndMsgT_data_v02 :: "idl_byte list" where
  "qmiLocInjectPositionIndMsgT_data_v02 =
    [TLV [QMI_IDL_TLV_FLAGS_LAST_TLV] (LIT 0x01), OP [] QMI_IDL_GENERIC_4_BYTE,
      OFFSET8 qmiLocInjectPositionIndMsgT_v02 ''status'']"

lemma qmiLocInjectPositionIndMsgT_data_v02_ok [idl_simps]:
  "describe_msg qmiLocInjectPositionIndMsgT_data_v02 = Some (qmiLocInjectPositionIndMsgT_v02, 7, [])"
  by (simp add: qmiLocInjectPositionIndMsgT_data_v02_def qmiLocInjectPositionIndMsgT_v02_def [THEN arg_cong, of laid] analyse_simps layout_simps cong: idl_cong)

definition qmiLocSetEngineLockReqMsgT_data_v02 :: "idl_byte list" where
  "qmiLocSetEngineLockReqMsgT_data_v02 =
    [LIT 0x01, OP [] QMI_IDL_GENERIC_4_BYTE, OFFSET8 qmiLocSetEngineLockReqMsgT_v02 ''lockType'',
     TLV [QMI_IDL_TLV_FLAGS_OPTIONAL] (OFFSET8_DIFF qmiLocSetEngineLockReqMsgT_v02 ''subType'' ''subType_valid''),
      LIT 0x10, OP [] QMI_IDL_GENERIC_4_BYTE, OFFSET8 qmiLocSetEngineLockReqMsgT_v02 ''subType'',
     TLV [QMI_IDL_TLV_FLAGS_LAST_TLV, QMI_IDL_TLV_FLAGS_OPTIONAL] (OFFSET8_DIFF qmiLocSetEngineLockReqMsgT_v02 ''lockClient'' ''lockClient_valid''),
      LIT 0x11, OP [] QMI_IDL_GENERIC_8_BYTE, OFFSET8 qmiLocSetEngineLockReqMsgT_v02 ''lockClient'']"

lemma qmiLocSetEngineLockReqMsgT_data_v02_ok [idl_simps]:
  "describe_msg qmiLocSetEngineLockReqMsgT_data_v02 = Some (qmiLocSetEngineLockReqMsgT_v02, 25, [])"
  by (simp add: qmiLocSetEngineLockReqMsgT_data_v02_def qmiLocSetEngineLockReqMsgT_v02_def [THEN arg_cong, of laid] analyse_simps layout_simps cong: idl_cong)

definition qmiLocSetEngineLockIndMsgT_data_v02 :: "idl_byte list" where
  "qmiLocSetEngineLockIndMsgT_data_v02 =
    [TLV [QMI_IDL_TLV_FLAGS_LAST_TLV] (LIT 0x01), OP [] QMI_IDL_GENERIC_4_BYTE,
      OFFSET8 qmiLocSetEngineLockIndMsgT_v02 ''status'']"

lemma qmiLocSetEngineLockIndMsgT_data_v02_ok [idl_simps]:
  "describe_msg qmiLocSetEngineLockIndMsgT_data_v02 = Some (qmiLocSetEngineLockIndMsgT_v02, 7, [])"
  by (simp add: qmiLocSetEngineLockIndMsgT_data_v02_def qmiLocSetEngineLockIndMsgT_v02_def [THEN arg_cong, of laid] analyse_simps layout_simps cong: idl_cong)

definition qmiLocGetEngineLockReqMsgT_data_v02 :: "idl_byte list" where
  "qmiLocGetEngineLockReqMsgT_data_v02 =
    [TLV [QMI_IDL_TLV_FLAGS_LAST_TLV, QMI_IDL_TLV_FLAGS_OPTIONAL] (OFFSET8_DIFF qmiLocGetEngineLockReqMsgT_v02 ''subType'' ''subType_valid''),
      LIT 0x10, OP [] QMI_IDL_GENERIC_4_BYTE, OFFSET8 qmiLocGetEngineLockReqMsgT_v02 ''subType'']"

lemma qmiLocGetEngineLockReqMsgT_data_v02_ok [idl_simps]:
  "describe_msg qmiLocGetEngineLockReqMsgT_data_v02 = Some (qmiLocGetEngineLockReqMsgT_v02, 7, [])"
  by (simp add: qmiLocGetEngineLockReqMsgT_data_v02_def qmiLocGetEngineLockReqMsgT_v02_def [THEN arg_cong, of laid] analyse_simps layout_simps cong: idl_cong)

definition qmiLocGetEngineLockIndMsgT_data_v02 :: "idl_byte list" where
  "qmiLocGetEngineLockIndMsgT_data_v02 =
    [LIT 0x01, OP [] QMI_IDL_GENERIC_4_BYTE, OFFSET8 qmiLocGetEngineLockIndMsgT_v02 ''status'',
     TLV [QMI_IDL_TLV_FLAGS_OPTIONAL] (OFFSET8_DIFF qmiLocGetEngineLockIndMsgT_v02 ''lockType'' ''lockType_valid''),
      LIT 0x10, OP [] QMI_IDL_GENERIC_4_BYTE, OFFSET8 qmiLocGetEngineLockIndMsgT_v02 ''lockType'',
     TLV [QMI_IDL_TLV_FLAGS_OPTIONAL] (OFFSET8_DIFF qmiLocGetEngineLockIndMsgT_v02 ''subType'' ''subType_valid''),
      LIT 0x11, OP [] QMI_IDL_GENERIC_4_BYTE, OFFSET8 qmiLocGetEngineLockIndMsgT_v02 ''subType'',
     TLV [QMI_IDL_TLV_FLAGS_LAST_TLV, QMI_IDL_TLV_FLAGS_OPTIONAL] (OFFSET8_DIFF qmiLocGetEngineLockIndMsgT_v02 ''lockClient'' ''lockClient_valid''),
      LIT 0x12, OP [] QMI_IDL_GENERIC_8_BYTE, OFFSET8 qmiLocGetEngineLockIndMsgT_v02 ''lockClient'']"

lemma qmiLocGetEngineLockIndMsgT_data_v02_ok [idl_simps]:
  "describe_msg qmiLocGetEngineLockIndMsgT_data_v02 = Some (qmiLocGetEngineLockIndMsgT_v02, 32, [])"
  by (simp add: qmiLocGetEngineLockIndMsgT_data_v02_def qmiLocGetEngineLockIndMsgT_v02_def [THEN arg_cong, of laid] analyse_simps layout_simps cong: idl_cong)

definition qmiLocSetSbasConfigReqMsgT_data_v02 :: "idl_byte list" where
  "qmiLocSetSbasConfigReqMsgT_data_v02 =
    [LIT 0x01, OP [] QMI_IDL_GENERIC_1_BYTE, OFFSET8 qmiLocSetSbasConfigReqMsgT_v02 ''sbasConfig'',
     TLV [QMI_IDL_TLV_FLAGS_LAST_TLV, QMI_IDL_TLV_FLAGS_OPTIONAL] (OFFSET8_DIFF qmiLocSetSbasConfigReqMsgT_v02 ''qzssL1sConfig'' ''qzssL1sConfig_valid''),
      LIT 0x10, OP [] QMI_IDL_GENERIC_1_BYTE, OFFSET8 qmiLocSetSbasConfigReqMsgT_v02 ''qzssL1sConfig'']"

lemma qmiLocSetSbasConfigReqMsgT_data_v02_ok [idl_simps]:
  "describe_msg qmiLocSetSbasConfigReqMsgT_data_v02 = Some (qmiLocSetSbasConfigReqMsgT_v02, 8, [])"
  by (simp add: qmiLocSetSbasConfigReqMsgT_data_v02_def qmiLocSetSbasConfigReqMsgT_v02_def [THEN arg_cong, of laid] analyse_simps layout_simps cong: idl_cong)

definition qmiLocSetSbasConfigIndMsgT_data_v02 :: "idl_byte list" where
  "qmiLocSetSbasConfigIndMsgT_data_v02 =
    [TLV [QMI_IDL_TLV_FLAGS_LAST_TLV] (LIT 0x01), OP [] QMI_IDL_GENERIC_4_BYTE,
      OFFSET8 qmiLocSetSbasConfigIndMsgT_v02 ''status'']"

lemma qmiLocSetSbasConfigIndMsgT_data_v02_ok [idl_simps]:
  "describe_msg qmiLocSetSbasConfigIndMsgT_data_v02 = Some (qmiLocSetSbasConfigIndMsgT_v02, 7, [])"
  by (simp add: qmiLocSetSbasConfigIndMsgT_data_v02_def qmiLocSetSbasConfigIndMsgT_v02_def [THEN arg_cong, of laid] analyse_simps layout_simps cong: idl_cong)

definition qmiLocGetSbasConfigIndMsgT_data_v02 :: "idl_byte list" where
  "qmiLocGetSbasConfigIndMsgT_data_v02 =
    [LIT 0x01, OP [] QMI_IDL_GENERIC_4_BYTE, OFFSET8 qmiLocGetSbasConfigIndMsgT_v02 ''status'',
     TLV [QMI_IDL_TLV_FLAGS_LAST_TLV, QMI_IDL_TLV_FLAGS_OPTIONAL] (OFFSET8_DIFF qmiLocGetSbasConfigIndMsgT_v02 ''sbasConfig'' ''sbasConfig_valid''),
      LIT 0x10, OP [] QMI_IDL_GENERIC_1_BYTE, OFFSET8 qmiLocGetSbasConfigIndMsgT_v02 ''sbasConfig'']"

lemma qmiLocGetSbasConfigIndMsgT_data_v02_ok [idl_simps]:
  "describe_msg qmiLocGetSbasConfigIndMsgT_data_v02 = Some (qmiLocGetSbasConfigIndMsgT_v02, 11, [])"
  by (simp add: qmiLocGetSbasConfigIndMsgT_data_v02_def qmiLocGetSbasConfigIndMsgT_v02_def [THEN arg_cong, of laid] analyse_simps layout_simps cong: idl_cong)

definition qmiLocSetNmeaTypesReqMsgT_data_v02 :: "idl_byte list" where
  "qmiLocSetNmeaTypesReqMsgT_data_v02 =
    [TLV [QMI_IDL_TLV_FLAGS_LAST_TLV] (LIT 0x01), OP [] QMI_IDL_GENERIC_4_BYTE,
      OFFSET8 qmiLocSetNmeaTypesReqMsgT_v02 ''nmeaSentenceType'']"

lemma qmiLocSetNmeaTypesReqMsgT_data_v02_ok [idl_simps]:
  "describe_msg qmiLocSetNmeaTypesReqMsgT_data_v02 = Some (qmiLocSetNmeaTypesReqMsgT_v02, 7, [])"
  by (simp add: qmiLocSetNmeaTypesReqMsgT_data_v02_def qmiLocSetNmeaTypesReqMsgT_v02_def [THEN arg_cong, of laid] analyse_simps layout_simps cong: idl_cong)

definition qmiLocSetNmeaTypesIndMsgT_data_v02 :: "idl_byte list" where
  "qmiLocSetNmeaTypesIndMsgT_data_v02 =
    [TLV [QMI_IDL_TLV_FLAGS_LAST_TLV] (LIT 0x01), OP [] QMI_IDL_GENERIC_4_BYTE,
      OFFSET8 qmiLocSetNmeaTypesIndMsgT_v02 ''status'']"

lemma qmiLocSetNmeaTypesIndMsgT_data_v02_ok [idl_simps]:
  "describe_msg qmiLocSetNmeaTypesIndMsgT_data_v02 = Some (qmiLocSetNmeaTypesIndMsgT_v02, 7, [])"
  by (simp add: qmiLocSetNmeaTypesIndMsgT_data_v02_def qmiLocSetNmeaTypesIndMsgT_v02_def [THEN arg_cong, of laid] analyse_simps layout_simps cong: idl_cong)

definition qmiLocGetNmeaTypesIndMsgT_data_v02 :: "idl_byte list" where
  "qmiLocGetNmeaTypesIndMsgT_data_v02 =
    [LIT 0x01, OP [] QMI_IDL_GENERIC_4_BYTE, OFFSET8 qmiLocGetNmeaTypesIndMsgT_v02 ''status'',
     TLV [QMI_IDL_TLV_FLAGS_LAST_TLV, QMI_IDL_TLV_FLAGS_OPTIONAL] (OFFSET8_DIFF qmiLocGetNmeaTypesIndMsgT_v02 ''nmeaSentenceType'' ''nmeaSentenceType_valid''),
      LIT 0x10, OP [] QMI_IDL_GENERIC_4_BYTE, OFFSET8 qmiLocGetNmeaTypesIndMsgT_v02 ''nmeaSentenceType'']"

lemma qmiLocGetNmeaTypesIndMsgT_data_v02_ok [idl_simps]:
  "describe_msg qmiLocGetNmeaTypesIndMsgT_data_v02 = Some (qmiLocGetNmeaTypesIndMsgT_v02, 14, [])"
  by (simp add: qmiLocGetNmeaTypesIndMsgT_data_v02_def qmiLocGetNmeaTypesIndMsgT_v02_def [THEN arg_cong, of laid] analyse_simps layout_simps cong: idl_cong)

definition qmiLocSetLowPowerModeReqMsgT_data_v02 :: "idl_byte list" where
  "qmiLocSetLowPowerModeReqMsgT_data_v02 =
    [TLV [QMI_IDL_TLV_FLAGS_LAST_TLV] (LIT 0x01), OP [] QMI_IDL_GENERIC_1_BYTE,
      OFFSET8 qmiLocSetLowPowerModeReqMsgT_v02 ''lowPowerMode'']"

lemma qmiLocSetLowPowerModeReqMsgT_data_v02_ok [idl_simps]:
  "describe_msg qmiLocSetLowPowerModeReqMsgT_data_v02 = Some (qmiLocSetLowPowerModeReqMsgT_v02, 4, [])"
  by (simp add: qmiLocSetLowPowerModeReqMsgT_data_v02_def qmiLocSetLowPowerModeReqMsgT_v02_def [THEN arg_cong, of laid] analyse_simps layout_simps cong: idl_cong)

definition qmiLocSetLowPowerModeIndMsgT_data_v02 :: "idl_byte list" where
  "qmiLocSetLowPowerModeIndMsgT_data_v02 =
    [TLV [QMI_IDL_TLV_FLAGS_LAST_TLV] (LIT 0x01), OP [] QMI_IDL_GENERIC_4_BYTE,
      OFFSET8 qmiLocSetLowPowerModeIndMsgT_v02 ''status'']"

lemma qmiLocSetLowPowerModeIndMsgT_data_v02_ok [idl_simps]:
  "describe_msg qmiLocSetLowPowerModeIndMsgT_data_v02 = Some (qmiLocSetLowPowerModeIndMsgT_v02, 7, [])"
  by (simp add: qmiLocSetLowPowerModeIndMsgT_data_v02_def qmiLocSetLowPowerModeIndMsgT_v02_def [THEN arg_cong, of laid] analyse_simps layout_simps cong: idl_cong)

definition qmiLocGetLowPowerModeIndMsgT_data_v02 :: "idl_byte list" where
  "qmiLocGetLowPowerModeIndMsgT_data_v02 =
    [LIT 0x01, OP [] QMI_IDL_GENERIC_4_BYTE, OFFSET8 qmiLocGetLowPowerModeIndMsgT_v02 ''status'',
     TLV [QMI_IDL_TLV_FLAGS_LAST_TLV, QMI_IDL_TLV_FLAGS_OPTIONAL] (OFFSET8_DIFF qmiLocGetLowPowerModeIndMsgT_v02 ''lowPowerMode'' ''lowPowerMode_valid''),
      LIT 0x10, OP [] QMI_IDL_GENERIC_1_BYTE, OFFSET8 qmiLocGetLowPowerModeIndMsgT_v02 ''lowPowerMode'']"

lemma qmiLocGetLowPowerModeIndMsgT_data_v02_ok [idl_simps]:
  "describe_msg qmiLocGetLowPowerModeIndMsgT_data_v02 = Some (qmiLocGetLowPowerModeIndMsgT_v02, 11, [])"
  by (simp add: qmiLocGetLowPowerModeIndMsgT_data_v02_def qmiLocGetLowPowerModeIndMsgT_v02_def [THEN arg_cong, of laid] analyse_simps layout_simps cong: idl_cong)

definition qmiLocSetServerReqMsgT_data_v02 :: "idl_byte list" where
  "qmiLocSetServerReqMsgT_data_v02 =
    [LIT 0x01, OP [] QMI_IDL_GENERIC_4_BYTE, OFFSET8 qmiLocSetServerReqMsgT_v02 ''serverType'',
     TLV [QMI_IDL_TLV_FLAGS_OPTIONAL] (OFFSET8_DIFF qmiLocSetServerReqMsgT_v02 ''ipv4Addr'' ''ipv4Addr_valid''),
      LIT 0x10, OP [] QMI_IDL_AGGREGATE, OFFSET8 qmiLocSetServerReqMsgT_v02 ''ipv4Addr'', TYPE88 0 12,
     TLV [QMI_IDL_TLV_FLAGS_OPTIONAL] (OFFSET8_DIFF qmiLocSetServerReqMsgT_v02 ''ipv6Addr'' ''ipv6Addr_valid''),
      LIT 0x11, OP [] QMI_IDL_AGGREGATE, OFFSET8 qmiLocSetServerReqMsgT_v02 ''ipv6Addr'', TYPE88 0 13,
     TLV [QMI_IDL_TLV_FLAGS_LAST_TLV, QMI_IDL_TLV_FLAGS_OPTIONAL] (OFFSET8_DIFF qmiLocSetServerReqMsgT_v02 ''urlAddr'' ''urlAddr_valid''),
      LIT 0x12, OP [QMI_IDL_FLAGS_IS_ARRAY, QMI_IDL_FLAGS_IS_VARIABLE_LEN] QMI_IDL_STRING,
      OFFSET8 qmiLocSetServerReqMsgT_v02 ''urlAddr'', LIT QMI_LOC_MAX_SERVER_ADDR_LENGTH_V02]"

lemma qmiLocSetServerReqMsgT_data_v02_ok [idl_simps]:
  "describe_msg qmiLocSetServerReqMsgT_data_v02 = Some (qmiLocSetServerReqMsgT_v02, 271, [(1, (0, 12), qmiLocIpV4AddrStructType_v02), (1, (0, 13), qmiLocIpV6AddrStructType_v02)])"
  by (simp add: qmiLocSetServerReqMsgT_data_v02_def qmiLocSetServerReqMsgT_v02_def [THEN arg_cong, of laid] analyse_simps layout_simps cong: idl_cong)

definition qmiLocSetServerIndMsgT_data_v02 :: "idl_byte list" where
  "qmiLocSetServerIndMsgT_data_v02 =
    [TLV [QMI_IDL_TLV_FLAGS_LAST_TLV] (LIT 0x01), OP [] QMI_IDL_GENERIC_4_BYTE,
      OFFSET8 qmiLocSetServerIndMsgT_v02 ''status'']"

lemma qmiLocSetServerIndMsgT_data_v02_ok [idl_simps]:
  "describe_msg qmiLocSetServerIndMsgT_data_v02 = Some (qmiLocSetServerIndMsgT_v02, 7, [])"
  by (simp add: qmiLocSetServerIndMsgT_data_v02_def qmiLocSetServerIndMsgT_v02_def [THEN arg_cong, of laid] analyse_simps layout_simps cong: idl_cong)

definition qmiLocGetServerReqMsgT_data_v02 :: "idl_byte list" where
  "qmiLocGetServerReqMsgT_data_v02 =
    [LIT 0x01, OP [] QMI_IDL_GENERIC_4_BYTE, OFFSET8 qmiLocGetServerReqMsgT_v02 ''serverType'',
     TLV [QMI_IDL_TLV_FLAGS_LAST_TLV, QMI_IDL_TLV_FLAGS_OPTIONAL] (OFFSET8_DIFF qmiLocGetServerReqMsgT_v02 ''serverAddrTypeMask'' ''serverAddrTypeMask_valid''),
      LIT 0x10, OP [] QMI_IDL_GENERIC_1_BYTE, OFFSET8 qmiLocGetServerReqMsgT_v02 ''serverAddrTypeMask'']"

lemma qmiLocGetServerReqMsgT_data_v02_ok [idl_simps]:
  "describe_msg qmiLocGetServerReqMsgT_data_v02 = Some (qmiLocGetServerReqMsgT_v02, 11, [])"
  by (simp add: qmiLocGetServerReqMsgT_data_v02_def qmiLocGetServerReqMsgT_v02_def [THEN arg_cong, of laid] analyse_simps layout_simps cong: idl_cong)

definition qmiLocGetServerIndMsgT_data_v02 :: "idl_byte list" where
  "qmiLocGetServerIndMsgT_data_v02 =
    [LIT 0x01, OP [] QMI_IDL_GENERIC_4_BYTE, OFFSET8 qmiLocGetServerIndMsgT_v02 ''status'',
     LIT 0x02, OP [] QMI_IDL_GENERIC_4_BYTE, OFFSET8 qmiLocGetServerIndMsgT_v02 ''serverType'',
     TLV [QMI_IDL_TLV_FLAGS_OPTIONAL] (OFFSET8_DIFF qmiLocGetServerIndMsgT_v02 ''ipv4Addr'' ''ipv4Addr_valid''),
      LIT 0x10, OP [] QMI_IDL_AGGREGATE, OFFSET8 qmiLocGetServerIndMsgT_v02 ''ipv4Addr'', TYPE88 0 12,
     TLV [QMI_IDL_TLV_FLAGS_OPTIONAL] (OFFSET8_DIFF qmiLocGetServerIndMsgT_v02 ''ipv6Addr'' ''ipv6Addr_valid''),
      LIT 0x11, OP [] QMI_IDL_AGGREGATE, OFFSET8 qmiLocGetServerIndMsgT_v02 ''ipv6Addr'', TYPE88 0 13,
     TLV [QMI_IDL_TLV_FLAGS_LAST_TLV, QMI_IDL_TLV_FLAGS_OPTIONAL] (OFFSET8_DIFF qmiLocGetServerIndMsgT_v02 ''urlAddr'' ''urlAddr_valid''),
      LIT 0x12, OP [QMI_IDL_FLAGS_IS_ARRAY, QMI_IDL_FLAGS_IS_VARIABLE_LEN] QMI_IDL_STRING,
      OFFSET8 qmiLocGetServerIndMsgT_v02 ''urlAddr'', LIT QMI_LOC_MAX_SERVER_ADDR_LENGTH_V02]"

lemma qmiLocGetServerIndMsgT_data_v02_ok [idl_simps]:
  "describe_msg qmiLocGetServerIndMsgT_data_v02 = Some (qmiLocGetServerIndMsgT_v02, 278, [(1, (0, 12), qmiLocIpV4AddrStructType_v02), (1, (0, 13), qmiLocIpV6AddrStructType_v02)])"
  by (simp add: qmiLocGetServerIndMsgT_data_v02_def qmiLocGetServerIndMsgT_v02_def [THEN arg_cong, of laid] analyse_simps layout_simps cong: idl_cong)

definition qmiLocDeleteAssistDataReqMsgT_data_v02 :: "idl_byte list" where
  "qmiLocDeleteAssistDataReqMsgT_data_v02 =
    [LIT 0x01, OP [] QMI_IDL_GENERIC_1_BYTE,
      OFFSET8 qmiLocDeleteAssistDataReqMsgT_v02 ''deleteAllFlag'',
     TLV [QMI_IDL_TLV_FLAGS_OPTIONAL] (OFFSET8_DIFF qmiLocDeleteAssistDataReqMsgT_v02 ''deleteSvInfoList'' ''deleteSvInfoList_valid''),
      LIT 0x10, OP [QMI_IDL_FLAGS_IS_ARRAY, QMI_IDL_FLAGS_IS_VARIABLE_LEN] QMI_IDL_AGGREGATE,
      OFFSET8 qmiLocDeleteAssistDataReqMsgT_v02 ''deleteSvInfoList'',
      LIT QMI_LOC_DELETE_MAX_SV_INFO_LENGTH_V02,
      OFFSET8_DIFF qmiLocDeleteAssistDataReqMsgT_v02 ''deleteSvInfoList'' ''deleteSvInfoList_len'',
      TYPE88 0 31,
     TLV [QMI_IDL_TLV_FLAGS_OPTIONAL] (OFFSET16_DIFF qmiLocDeleteAssistDataReqMsgT_v02 ''deleteGnssDataMask'' ''deleteGnssDataMask_valid''),
      LIT 0x11, OP [QMI_IDL_FLAGS_OFFSET_IS_16] QMI_IDL_GENERIC_8_BYTE,
      OFFSET16ARRAY qmiLocDeleteAssistDataReqMsgT_v02 ''deleteGnssDataMask'',
     TLV [QMI_IDL_TLV_FLAGS_OPTIONAL] (OFFSET16_DIFF qmiLocDeleteAssistDataReqMsgT_v02 ''deleteCellDbDataMask'' ''deleteCellDbDataMask_valid''),
      LIT 0x12, OP [QMI_IDL_FLAGS_OFFSET_IS_16] QMI_IDL_GENERIC_4_BYTE,
      OFFSET16ARRAY qmiLocDeleteAssistDataReqMsgT_v02 ''deleteCellDbDataMask'',
     TLV [QMI_IDL_TLV_FLAGS_OPTIONAL] (OFFSET16_DIFF qmiLocDeleteAssistDataReqMsgT_v02 ''deleteClockInfoMask'' ''deleteClockInfoMask_valid''),
      LIT 0x13, OP [QMI_IDL_FLAGS_OFFSET_IS_16] QMI_IDL_GENERIC_4_BYTE,
      OFFSET16ARRAY qmiLocDeleteAssistDataReqMsgT_v02 ''deleteClockInfoMask'',
     TLV [QMI_IDL_TLV_FLAGS_OPTIONAL] (OFFSET16_DIFF qmiLocDeleteAssistDataReqMsgT_v02 ''deleteBdsSvInfoList'' ''deleteBdsSvInfoList_valid''),
      LIT 0x14,
      OP [QMI_IDL_FLAGS_IS_ARRAY, QMI_IDL_FLAGS_IS_VARIABLE_LEN, QMI_IDL_FLAGS_OFFSET_IS_16] QMI_IDL_AGGREGATE,
      OFFSET16ARRAY qmiLocDeleteAssistDataReqMsgT_v02 ''deleteBdsSvInfoList'',
      LIT QMI_LOC_DELETE_MAX_BDS_SV_INFO_LENGTH_V02,
      OFFSET16_DIFF qmiLocDeleteAssistDataReqMsgT_v02 ''deleteBdsSvInfoList'' ''deleteBdsSvInfoList_len'',
      TYPE88 0 32,
     TLV [QMI_IDL_TLV_FLAGS_OPTIONAL] (OFFSET16_DIFF qmiLocDeleteAssistDataReqMsgT_v02 ''deleteGalSvInfoList'' ''deleteGalSvInfoList_valid''),
      LIT 0x15,
      OP [QMI_IDL_FLAGS_IS_ARRAY, QMI_IDL_FLAGS_IS_VARIABLE_LEN, QMI_IDL_FLAGS_OFFSET_IS_16] QMI_IDL_AGGREGATE,
      OFFSET16ARRAY qmiLocDeleteAssistDataReqMsgT_v02 ''deleteGalSvInfoList'',
      LIT QMI_LOC_DELETE_MAX_GAL_SV_INFO_LENGTH_V02,
      OFFSET16_DIFF qmiLocDeleteAssistDataReqMsgT_v02 ''deleteGalSvInfoList'' ''deleteGalSvInfoList_len'',
      TYPE88 0 33,
     TLV [QMI_IDL_TLV_FLAGS_LAST_TLV, QMI_IDL_TLV_FLAGS_OPTIONAL] (OFFSET16_DIFF qmiLocDeleteAssistDataReqMsgT_v02 ''deleteQzssL1sDataFlag'' ''deleteQzssL1sDataFlag_valid''),
      LIT 0x16, OP [QMI_IDL_FLAGS_OFFSET_IS_16] QMI_IDL_GENERIC_1_BYTE,
      OFFSET16ARRAY qmiLocDeleteAssistDataReqMsgT_v02 ''deleteQzssL1sDataFlag'']"

lemma qmiLocDeleteAssistDataReqMsgT_data_v02_ok [idl_simps]:
  "describe_msg qmiLocDeleteAssistDataReqMsgT_data_v02 = Some (qmiLocDeleteAssistDataReqMsgT_v02, 45, [(128, (0, 31), qmiLocDeleteSvInfoStructT_v02), (37, (0, 32), qmiLocDeleteBDSSvInfoStructT_v02), (36, (0, 33), qmiLocDeleteGALSvInfoStructT_v02)])"
  by (simp add: qmiLocDeleteAssistDataReqMsgT_data_v02_def qmiLocDeleteAssistDataReqMsgT_v02_def [THEN arg_cong, of laid] analyse_simps layout_simps cong: idl_cong)

definition qmiLocDeleteAssistDataIndMsgT_data_v02 :: "idl_byte list" where
  "qmiLocDeleteAssistDataIndMsgT_data_v02 =
    [TLV [QMI_IDL_TLV_FLAGS_LAST_TLV] (LIT 0x01), OP [] QMI_IDL_GENERIC_4_BYTE,
      OFFSET8 qmiLocDeleteAssistDataIndMsgT_v02 ''status'']"

lemma qmiLocDeleteAssistDataIndMsgT_data_v02_ok [idl_simps]:
  "describe_msg qmiLocDeleteAssistDataIndMsgT_data_v02 = Some (qmiLocDeleteAssistDataIndMsgT_v02, 7, [])"
  by (simp add: qmiLocDeleteAssistDataIndMsgT_data_v02_def qmiLocDeleteAssistDataIndMsgT_v02_def [THEN arg_cong, of laid] analyse_simps layout_simps cong: idl_cong)

definition qmiLocSetXtraTSessionControlReqMsgT_data_v02 :: "idl_byte list" where
  "qmiLocSetXtraTSessionControlReqMsgT_data_v02 =
    [TLV [QMI_IDL_TLV_FLAGS_LAST_TLV] (LIT 0x01), OP [] QMI_IDL_GENERIC_1_BYTE,
      OFFSET8 qmiLocSetXtraTSessionControlReqMsgT_v02 ''xtraTSessionControl'']"

lemma qmiLocSetXtraTSessionControlReqMsgT_data_v02_ok [idl_simps]:
  "describe_msg qmiLocSetXtraTSessionControlReqMsgT_data_v02 = Some (qmiLocSetXtraTSessionControlReqMsgT_v02, 4, [])"
  by (simp add: qmiLocSetXtraTSessionControlReqMsgT_data_v02_def qmiLocSetXtraTSessionControlReqMsgT_v02_def [THEN arg_cong, of laid] analyse_simps layout_simps cong: idl_cong)

definition qmiLocSetXtraTSessionControlIndMsgT_data_v02 :: "idl_byte list" where
  "qmiLocSetXtraTSessionControlIndMsgT_data_v02 =
    [TLV [QMI_IDL_TLV_FLAGS_LAST_TLV] (LIT 0x01), OP [] QMI_IDL_GENERIC_4_BYTE,
      OFFSET8 qmiLocSetXtraTSessionControlIndMsgT_v02 ''status'']"

lemma qmiLocSetXtraTSessionControlIndMsgT_data_v02_ok [idl_simps]:
  "describe_msg qmiLocSetXtraTSessionControlIndMsgT_data_v02 = Some (qmiLocSetXtraTSessionControlIndMsgT_v02, 7, [])"
  by (simp add: qmiLocSetXtraTSessionControlIndMsgT_data_v02_def qmiLocSetXtraTSessionControlIndMsgT_v02_def [THEN arg_cong, of laid] analyse_simps layout_simps cong: idl_cong)

definition qmiLocGetXtraTSessionControlIndMsgT_data_v02 :: "idl_byte list" where
  "qmiLocGetXtraTSessionControlIndMsgT_data_v02 =
    [LIT 0x01, OP [] QMI_IDL_GENERIC_4_BYTE, OFFSET8 qmiLocGetXtraTSessionControlIndMsgT_v02 ''status'',
     TLV [QMI_IDL_TLV_FLAGS_LAST_TLV, QMI_IDL_TLV_FLAGS_OPTIONAL] (OFFSET8_DIFF qmiLocGetXtraTSessionControlIndMsgT_v02 ''xtraTSessionControl'' ''xtraTSessionControl_valid''),
      LIT 0x10, OP [] QMI_IDL_GENERIC_1_BYTE,
      OFFSET8 qmiLocGetXtraTSessionControlIndMsgT_v02 ''xtraTSessionControl'']"

lemma qmiLocGetXtraTSessionControlIndMsgT_data_v02_ok [idl_simps]:
  "describe_msg qmiLocGetXtraTSessionControlIndMsgT_data_v02 = Some (qmiLocGetXtraTSessionControlIndMsgT_v02, 11, [])"
  by (simp add: qmiLocGetXtraTSessionControlIndMsgT_data_v02_def qmiLocGetXtraTSessionControlIndMsgT_v02_def [THEN arg_cong, of laid] analyse_simps layout_simps cong: idl_cong)

definition qmiLocInjectWifiPositionReqMsgT_data_v02 :: "idl_byte list" where
  "qmiLocInjectWifiPositionReqMsgT_data_v02 =
    [TLV [QMI_IDL_TLV_FLAGS_OPTIONAL] (OFFSET8_DIFF qmiLocInjectWifiPositionReqMsgT_v02 ''wifiFixTime'' ''wifiFixTime_valid''),
      LIT 0x10, OP [] QMI_IDL_AGGREGATE, OFFSET8 qmiLocInjectWifiPositionReqMsgT_v02 ''wifiFixTime'',
      TYPE88 0 34,
     TLV [QMI_IDL_TLV_FLAGS_OPTIONAL] (OFFSET8_DIFF qmiLocInjectWifiPositionReqMsgT_v02 ''wifiFixPosition'' ''wifiFixPosition_valid''),
      LIT 0x11, OP [] QMI_IDL_AGGREGATE,
      OFFSET8 qmiLocInjectWifiPositionReqMsgT_v02 ''wifiFixPosition'', TYPE88 0 35,
     TLV [QMI_IDL_TLV_FLAGS_OPTIONAL] (OFFSET8_DIFF qmiLocInjectWifiPositionReqMsgT_v02 ''apInfo'' ''apInfo_valid''),
      LIT 0x12, OP [QMI_IDL_FLAGS_IS_ARRAY, QMI_IDL_FLAGS_IS_VARIABLE_LEN] QMI_IDL_AGGREGATE,
      OFFSET8 qmiLocInjectWifiPositionReqMsgT_v02 ''apInfo'',
      LIT QMI_LOC_WIFI_MAX_REPORTED_APS_PER_MSG_V02,
      OFFSET8_DIFF qmiLocInjectWifiPositionReqMsgT_v02 ''apInfo'' ''apInfo_len'', TYPE88 0 36,
     TLV [QMI_IDL_TLV_FLAGS_OPTIONAL] (OFFSET16_DIFF qmiLocInjectWifiPositionReqMsgT_v02 ''horizontalReliability'' ''horizontalReliability_valid''),
      LIT 0x13, OP [QMI_IDL_FLAGS_OFFSET_IS_16] QMI_IDL_GENERIC_4_BYTE,
      OFFSET16ARRAY qmiLocInjectWifiPositionReqMsgT_v02 ''horizontalReliability'',
     TLV [QMI_IDL_TLV_FLAGS_OPTIONAL] (OFFSET16_DIFF qmiLocInjectWifiPositionReqMsgT_v02 ''rawHepe'' ''rawHepe_valid''),
      LIT 0x14, OP [QMI_IDL_FLAGS_OFFSET_IS_16] QMI_IDL_GENERIC_2_BYTE,
      OFFSET16ARRAY qmiLocInjectWifiPositionReqMsgT_v02 ''rawHepe'',
     TLV [QMI_IDL_TLV_FLAGS_LAST_TLV, QMI_IDL_TLV_FLAGS_OPTIONAL] (OFFSET16_DIFF qmiLocInjectWifiPositionReqMsgT_v02 ''wifiApSsidInfo'' ''wifiApSsidInfo_valid''),
      LIT 0x15,
      OP [QMI_IDL_FLAGS_IS_ARRAY, QMI_IDL_FLAGS_IS_VARIABLE_LEN, QMI_IDL_FLAGS_OFFSET_IS_16] QMI_IDL_AGGREGATE,
      OFFSET16ARRAY qmiLocInjectWifiPositionReqMsgT_v02 ''wifiApSsidInfo'',
      LIT QMI_LOC_WIFI_MAX_REPORTED_APS_PER_MSG_V02,
      OFFSET16_DIFF qmiLocInjectWifiPositionReqMsgT_v02 ''wifiApSsidInfo'' ''wifiApSsidInfo_len'',
      TYPE88 0 37]"

lemma qmiLocInjectWifiPositionReqMsgT_data_v02_ok [idl_simps]:
  "describe_msg qmiLocInjectWifiPositionReqMsgT_data_v02 = Some (qmiLocInjectWifiPositionReqMsgT_v02, 26, [(1, (0, 34), qmiLocWifiFixTimeStructT_v02), (1, (0, 35), qmiLocWifiFixPosStructT_v02), (50, (0, 36), qmiLocWifiApInfoStructT_v02), (50, (0, 37), qmiLocWifiApSsidStructT_v02)])"
  by (simp add: qmiLocInjectWifiPositionReqMsgT_data_v02_def qmiLocInjectWifiPositionReqMsgT_v02_def [THEN arg_cong, of laid] analyse_simps layout_simps cong: idl_cong)

definition qmiLocInjectWifiPositionIndMsgT_data_v02 :: "idl_byte list" where
  "qmiLocInjectWifiPositionIndMsgT_data_v02 =
    [TLV [QMI_IDL_TLV_FLAGS_LAST_TLV] (LIT 0x01), OP [] QMI_IDL_GENERIC_4_BYTE,
      OFFSET8 qmiLocInjectWifiPositionIndMsgT_v02 ''status'']"

lemma qmiLocInjectWifiPositionIndMsgT_data_v02_ok [idl_simps]:
  "describe_msg qmiLocInjectWifiPositionIndMsgT_data_v02 = Some (qmiLocInjectWifiPositionIndMsgT_v02, 7, [])"
  by (simp add: qmiLocInjectWifiPositionIndMsgT_data_v02_def qmiLocInjectWifiPositionIndMsgT_v02_def [THEN arg_cong, of laid] analyse_simps layout_simps cong: idl_cong)

definition qmiLocNotifyWifiStatusReqMsgT_data_v02 :: "idl_byte list" where
  "qmiLocNotifyWifiStatusReqMsgT_data_v02 =
    [TLV [QMI_IDL_TLV_FLAGS_LAST_TLV] (LIT 0x01), OP [] QMI_IDL_GENERIC_4_BYTE,
      OFFSET8 qmiLocNotifyWifiStatusReqMsgT_v02 ''wifiStatus'']"

lemma qmiLocNotifyWifiStatusReqMsgT_data_v02_ok [idl_simps]:
  "describe_msg qmiLocNotifyWifiStatusReqMsgT_data_v02 = Some (qmiLocNotifyWifiStatusReqMsgT_v02, 7, [])"
  by (simp add: qmiLocNotifyWifiStatusReqMsgT_data_v02_def qmiLocNotifyWifiStatusReqMsgT_v02_def [THEN arg_cong, of laid] analyse_simps layout_simps cong: idl_cong)

definition qmiLocNotifyWifiStatusIndMsgT_data_v02 :: "idl_byte list" where
  "qmiLocNotifyWifiStatusIndMsgT_data_v02 =
    [TLV [QMI_IDL_TLV_FLAGS_LAST_TLV] (LIT 0x01), OP [] QMI_IDL_GENERIC_4_BYTE,
      OFFSET8 qmiLocNotifyWifiStatusIndMsgT_v02 ''status'']"

lemma qmiLocNotifyWifiStatusIndMsgT_data_v02_ok [idl_simps]:
  "describe_msg qmiLocNotifyWifiStatusIndMsgT_data_v02 = Some (qmiLocNotifyWifiStatusIndMsgT_v02, 7, [])"
  by (simp add: qmiLocNotifyWifiStatusIndMsgT_data_v02_def qmiLocNotifyWifiStatusIndMsgT_v02_def [THEN arg_cong, of laid] analyse_simps layout_simps cong: idl_cong)

definition qmiLocGetRegisteredEventsIndMsgT_data_v02 :: "idl_byte list" where
  "qmiLocGetRegisteredEventsIndMsgT_data_v02 =
    [LIT 0x01, OP [] QMI_IDL_GENERIC_4_BYTE, OFFSET8 qmiLocGetRegisteredEventsIndMsgT_v02 ''status'',
     TLV [QMI_IDL_TLV_FLAGS_LAST_TLV, QMI_IDL_TLV_FLAGS_OPTIONAL] (OFFSET8_DIFF qmiLocGetRegisteredEventsIndMsgT_v02 ''eventRegMask'' ''eventRegMask_valid''),
      LIT 0x10, OP [] QMI_IDL_GENERIC_8_BYTE,
      OFFSET8 qmiLocGetRegisteredEventsIndMsgT_v02 ''eventRegMask'']"

lemma qmiLocGetRegisteredEventsIndMsgT_data_v02_ok [idl_simps]:
  "describe_msg qmiLocGetRegisteredEventsIndMsgT_data_v02 = Some (qmiLocGetRegisteredEventsIndMsgT_v02, 18, [])"
  by (simp add: qmiLocGetRegisteredEventsIndMsgT_data_v02_def qmiLocGetRegisteredEventsIndMsgT_v02_def [THEN arg_cong, of laid] analyse_simps layout_simps cong: idl_cong)

definition qmiLocSetOperationModeReqMsgT_data_v02 :: "idl_byte list" where
  "qmiLocSetOperationModeReqMsgT_data_v02 =
    [LIT 0x01, OP [] QMI_IDL_GENERIC_4_BYTE,
      OFFSET8 qmiLocSetOperationModeReqMsgT_v02 ''operationMode'',
     TLV [QMI_IDL_TLV_FLAGS_LAST_TLV, QMI_IDL_TLV_FLAGS_OPTIONAL] (OFFSET8_DIFF qmiLocSetOperationModeReqMsgT_v02 ''minInterval'' ''minInterval_valid''),
      LIT 0x10, OP [] QMI_IDL_GENERIC_4_BYTE, OFFSET8 qmiLocSetOperationModeReqMsgT_v02 ''minInterval'']"

lemma qmiLocSetOperationModeReqMsgT_data_v02_ok [idl_simps]:
  "describe_msg qmiLocSetOperationModeReqMsgT_data_v02 = Some (qmiLocSetOperationModeReqMsgT_v02, 14, [])"
  by (simp add: qmiLocSetOperationModeReqMsgT_data_v02_def qmiLocSetOperationModeReqMsgT_v02_def [THEN arg_cong, of laid] analyse_simps layout_simps cong: idl_cong)

definition qmiLocSetOperationModeIndMsgT_data_v02 :: "idl_byte list" where
  "qmiLocSetOperationModeIndMsgT_data_v02 =
    [TLV [QMI_IDL_TLV_FLAGS_LAST_TLV] (LIT 0x01), OP [] QMI_IDL_GENERIC_4_BYTE,
      OFFSET8 qmiLocSetOperationModeIndMsgT_v02 ''status'']"

lemma qmiLocSetOperationModeIndMsgT_data_v02_ok [idl_simps]:
  "describe_msg qmiLocSetOperationModeIndMsgT_data_v02 = Some (qmiLocSetOperationModeIndMsgT_v02, 7, [])"
  by (simp add: qmiLocSetOperationModeIndMsgT_data_v02_def qmiLocSetOperationModeIndMsgT_v02_def [THEN arg_cong, of laid] analyse_simps layout_simps cong: idl_cong)

definition qmiLocGetOperationModeIndMsgT_data_v02 :: "idl_byte list" where
  "qmiLocGetOperationModeIndMsgT_data_v02 =
    [LIT 0x01, OP [] QMI_IDL_GENERIC_4_BYTE, OFFSET8 qmiLocGetOperationModeIndMsgT_v02 ''status'',
     TLV [QMI_IDL_TLV_FLAGS_LAST_TLV, QMI_IDL_TLV_FLAGS_OPTIONAL] (OFFSET8_DIFF qmiLocGetOperationModeIndMsgT_v02 ''operationMode'' ''operationMode_valid''),
      LIT 0x10, OP [] QMI_IDL_GENERIC_4_BYTE,
      OFFSET8 qmiLocGetOperationModeIndMsgT_v02 ''operationMode'']"

lemma qmiLocGetOperationModeIndMsgT_data_v02_ok [idl_simps]:
  "describe_msg qmiLocGetOperationModeIndMsgT_data_v02 = Some (qmiLocGetOperationModeIndMsgT_v02, 14, [])"
  by (simp add: qmiLocGetOperationModeIndMsgT_data_v02_def qmiLocGetOperationModeIndMsgT_v02_def [THEN arg_cong, of laid] analyse_simps layout_simps cong: idl_cong)

definition qmiLocSetSpiStatusReqMsgT_data_v02 :: "idl_byte list" where
  "qmiLocSetSpiStatusReqMsgT_data_v02 =
    [LIT 0x01, OP [] QMI_IDL_GENERIC_1_BYTE, OFFSET8 qmiLocSetSpiStatusReqMsgT_v02 ''stationary'',
     TLV [QMI_IDL_TLV_FLAGS_LAST_TLV, QMI_IDL_TLV_FLAGS_OPTIONAL] (OFFSET8_DIFF qmiLocSetSpiStatusReqMsgT_v02 ''confidenceStationary'' ''confidenceStationary_valid''),
      LIT 0x10, OP [] QMI_IDL_GENERIC_1_BYTE,
      OFFSET8 qmiLocSetSpiStatusReqMsgT_v02 ''confidenceStationary'']"

lemma qmiLocSetSpiStatusReqMsgT_data_v02_ok [idl_simps]:
  "describe_msg qmiLocSetSpiStatusReqMsgT_data_v02 = Some (qmiLocSetSpiStatusReqMsgT_v02, 8, [])"
  by (simp add: qmiLocSetSpiStatusReqMsgT_data_v02_def qmiLocSetSpiStatusReqMsgT_v02_def [THEN arg_cong, of laid] analyse_simps layout_simps cong: idl_cong)

definition qmiLocSetSpiStatusIndMsgT_data_v02 :: "idl_byte list" where
  "qmiLocSetSpiStatusIndMsgT_data_v02 =
    [TLV [QMI_IDL_TLV_FLAGS_LAST_TLV] (LIT 0x01), OP [] QMI_IDL_GENERIC_4_BYTE,
      OFFSET8 qmiLocSetSpiStatusIndMsgT_v02 ''status'']"

lemma qmiLocSetSpiStatusIndMsgT_data_v02_ok [idl_simps]:
  "describe_msg qmiLocSetSpiStatusIndMsgT_data_v02 = Some (qmiLocSetSpiStatusIndMsgT_v02, 7, [])"
  by (simp add: qmiLocSetSpiStatusIndMsgT_data_v02_def qmiLocSetSpiStatusIndMsgT_v02_def [THEN arg_cong, of laid] analyse_simps layout_simps cong: idl_cong)

definition qmiLocInjectSensorDataReqMsgT_data_v02 :: "idl_byte list" where
  "qmiLocInjectSensorDataReqMsgT_data_v02 =
    [TLV [QMI_IDL_TLV_FLAGS_OPTIONAL] (OFFSET8_DIFF qmiLocInjectSensorDataReqMsgT_v02 ''opaqueIdentifier'' ''opaqueIdentifier_valid''),
      LIT 0x10, OP [] QMI_IDL_GENERIC_4_BYTE,
      OFFSET8 qmiLocInjectSensorDataReqMsgT_v02 ''opaqueIdentifier'',
     TLV [QMI_IDL_TLV_FLAGS_OPTIONAL] (OFFSET8_DIFF qmiLocInjectSensorDataReqMsgT_v02 ''threeAxisAccelData'' ''threeAxisAccelData_valid''),
      LIT 0x11, OP [] QMI_IDL_AGGREGATE,
      OFFSET8 qmiLocInjectSensorDataReqMsgT_v02 ''threeAxisAccelData'', TYPE88 0 39,
     TLV [QMI_IDL_TLV_FLAGS_OPTIONAL] (OFFSET16_DIFF qmiLocInjectSensorDataReqMsgT_v02 ''threeAxisGyroData'' ''threeAxisGyroData_valid''),
      LIT 0x12, OP [QMI_IDL_FLAGS_OFFSET_IS_16] QMI_IDL_AGGREGATE,
      OFFSET16ARRAY qmiLocInjectSensorDataReqMsgT_v02 ''threeAxisGyroData'', TYPE88 0 39,
     TLV [QMI_IDL_TLV_FLAGS_OPTIONAL] (OFFSET16_DIFF qmiLocInjectSensorDataReqMsgT_v02 ''threeAxisAccelDataTimeSource'' ''threeAxisAccelDataTimeSource_valid''),
      LIT 0x13, OP [QMI_IDL_FLAGS_OFFSET_IS_16] QMI_IDL_GENERIC_4_BYTE,
      OFFSET16ARRAY qmiLocInjectSensorDataReqMsgT_v02 ''threeAxisAccelDataTimeSource'',
     TLV [QMI_IDL_TLV_FLAGS_OPTIONAL] (OFFSET16_DIFF qmiLocInjectSensorDataReqMsgT_v02 ''threeAxisGyroDataTimeSource'' ''threeAxisGyroDataTimeSource_valid''),
      LIT 0x14, OP [QMI_IDL_FLAGS_OFFSET_IS_16] QMI_IDL_GENERIC_4_BYTE,
      OFFSET16ARRAY qmiLocInjectSensorDataReqMsgT_v02 ''threeAxisGyroDataTimeSource'',
     TLV [QMI_IDL_TLV_FLAGS_OPTIONAL] (OFFSET16_DIFF qmiLocInjectSensorDataReqMsgT_v02 ''accelTemperatureData'' ''accelTemperatureData_valid''),
      LIT 0x15, OP [QMI_IDL_FLAGS_OFFSET_IS_16] QMI_IDL_AGGREGATE,
      OFFSET16ARRAY qmiLocInjectSensorDataReqMsgT_v02 ''accelTemperatureData'', TYPE88 0 41,
     TLV [QMI_IDL_TLV_FLAGS_OPTIONAL] (OFFSET16_DIFF qmiLocInjectSensorDataReqMsgT_v02 ''gyroTemperatureData'' ''gyroTemperatureData_valid''),
      LIT 0x16, OP [QMI_IDL_FLAGS_OFFSET_IS_16] QMI_IDL_AGGREGATE,
      OFFSET16ARRAY qmiLocInjectSensorDataReqMsgT_v02 ''gyroTemperatureData'', TYPE88 0 41,
     TLV [QMI_IDL_TLV_FLAGS_OPTIONAL] (OFFSET16_DIFF qmiLocInjectSensorDataReqMsgT_v02 ''threeAxisMagData'' ''threeAxisMagData_valid''),
      LIT 0x17, OP [QMI_IDL_FLAGS_OFFSET_IS_16] QMI_IDL_AGGREGATE,
      OFFSET16ARRAY qmiLocInjectSensorDataReqMsgT_v02 ''threeAxisMagData'', TYPE88 0 39,
     TLV [QMI_IDL_TLV_FLAGS_LAST_TLV, QMI_IDL_TLV_FLAGS_OPTIONAL] (OFFSET16_DIFF qmiLocInjectSensorDataReqMsgT_v02 ''threeAxisMagDataTimeSource'' ''threeAxisMagDataTimeSource_valid''),
      LIT 0x18, OP [QMI_IDL_FLAGS_OFFSET_IS_16] QMI_IDL_GENERIC_4_BYTE,
      OFFSET16ARRAY qmiLocInjectSensorDataReqMsgT_v02 ''threeAxisMagDataTimeSource'']"

lemma qmiLocInjectSensorDataReqMsgT_data_v02_ok [idl_simps]:
  "describe_msg qmiLocInjectSensorDataReqMsgT_data_v02 = Some (qmiLocInjectSensorDataReqMsgT_v02, 43, [(1, (0, 39), qmiLoc3AxisSensorSampleListStructT_v02), (1, (0, 39), qmiLoc3AxisSensorSampleListStructT_v02), (1, (0, 41), qmiLocSensorTemperatureSampleListStructT_v02), (1, (0, 41), qmiLocSensorTemperatureSampleListStructT_v02), (1, (0, 39), qmiLoc3AxisSensorSampleListStructT_v02)])"
  by (simp add: qmiLocInjectSensorDataReqMsgT_data_v02_def qmiLocInjectSensorDataReqMsgT_v02_def [THEN arg_cong, of laid] analyse_simps layout_simps cong: idl_cong)

definition qmiLocInjectSensorDataIndMsgT_data_v02 :: "idl_byte list" where
  "qmiLocInjectSensorDataIndMsgT_data_v02 =
    [LIT 0x01, OP [] QMI_IDL_GENERIC_4_BYTE, OFFSET8 qmiLocInjectSensorDataIndMsgT_v02 ''status'',
     TLV [QMI_IDL_TLV_FLAGS_OPTIONAL] (OFFSET8_DIFF qmiLocInjectSensorDataIndMsgT_v02 ''opaqueIdentifier'' ''opaqueIdentifier_valid''),
      LIT 0x10, OP [] QMI_IDL_GENERIC_4_BYTE,
      OFFSET8 qmiLocInjectSensorDataIndMsgT_v02 ''opaqueIdentifier'',
     TLV [QMI_IDL_TLV_FLAGS_OPTIONAL] (OFFSET8_DIFF qmiLocInjectSensorDataIndMsgT_v02 ''threeAxisAccelSamplesAccepted'' ''threeAxisAccelSamplesAccepted_valid''),
      LIT 0x11, OP [] QMI_IDL_GENERIC_1_BYTE,
      OFFSET8 qmiLocInjectSensorDataIndMsgT_v02 ''threeAxisAccelSamplesAccepted'',
     TLV [QMI_IDL_TLV_FLAGS_OPTIONAL] (OFFSET8_DIFF qmiLocInjectSensorDataIndMsgT_v02 ''threeAxisGyroSamplesAccepted'' ''threeAxisGyroSamplesAccepted_valid''),
      LIT 0x12, OP [] QMI_IDL_GENERIC_1_BYTE,
      OFFSET8 qmiLocInjectSensorDataIndMsgT_v02 ''threeAxisGyroSamplesAccepted'',
     TLV [QMI_IDL_TLV_FLAGS_OPTIONAL] (OFFSET8_DIFF qmiLocInjectSensorDataIndMsgT_v02 ''accelTemperatureSamplesAccepted'' ''accelTemperatureSamplesAccepted_valid''),
      LIT 0x13, OP [] QMI_IDL_GENERIC_1_BYTE,
      OFFSET8 qmiLocInjectSensorDataIndMsgT_v02 ''accelTemperatureSamplesAccepted'',
     TLV [QMI_IDL_TLV_FLAGS_OPTIONAL] (OFFSET8_DIFF qmiLocInjectSensorDataIndMsgT_v02 ''gyroTemperatureSamplesAccepted'' ''gyroTemperatureSamplesAccepted_valid''),
      LIT 0x14, OP [] QMI_IDL_GENERIC_1_BYTE,
      OFFSET8 qmiLocInjectSensorDataIndMsgT_v02 ''gyroTemperatureSamplesAccepted'',
     TLV [QMI_IDL_TLV_FLAGS_LAST_TLV, QMI_IDL_TLV_FLAGS_OPTIONAL] (OFFSET8_DIFF qmiLocInjectSensorDataIndMsgT_v02 ''threeAxisMagSamplesAccepted'' ''threeAxisMagSamplesAccepted_valid''),
      LIT 0x15, OP [] QMI_IDL_GENERIC_1_BYTE,
      OFFSET8 qmiLocInjectSensorDataIndMsgT_v02 ''threeAxisMagSamplesAccepted'']"

lemma qmiLocInjectSensorDataIndMsgT_data_v02_ok [idl_simps]:
  "describe_msg qmiLocInjectSensorDataIndMsgT_data_v02 = Some (qmiLocInjectSensorDataIndMsgT_v02, 34, [])"
  by (simp add: qmiLocInjectSensorDataIndMsgT_data_v02_def qmiLocInjectSensorDataIndMsgT_v02_def [THEN arg_cong, of laid] analyse_simps layout_simps cong: idl_cong)

definition qmiLocInjectTimeSyncDataReqMsgT_data_v02 :: "idl_byte list" where
  "qmiLocInjectTimeSyncDataReqMsgT_data_v02 =
    [LIT 0x01, OP [] QMI_IDL_GENERIC_4_BYTE, OFFSET8 qmiLocInjectTimeSyncDataReqMsgT_v02 ''refCounter'',
     LIT 0x02, OP [] QMI_IDL_GENERIC_4_BYTE,
      OFFSET8 qmiLocInjectTimeSyncDataReqMsgT_v02 ''sensorProcRxTime'',
     TLV [QMI_IDL_TLV_FLAGS_LAST_TLV] (LIT 0x03), OP [] QMI_IDL_GENERIC_4_BYTE,
      OFFSET8 qmiLocInjectTimeSyncDataReqMsgT_v02 ''sensorProcTxTime'']"

lemma qmiLocInjectTimeSyncDataReqMsgT_data_v02_ok [idl_simps]:
  "describe_msg qmiLocInjectTimeSyncDataReqMsgT_data_v02 = Some (qmiLocInjectTimeSyncDataReqMsgT_v02, 21, [])"
  by (simp add: qmiLocInjectTimeSyncDataReqMsgT_data_v02_def qmiLocInjectTimeSyncDataReqMsgT_v02_def [THEN arg_cong, of laid] analyse_simps layout_simps cong: idl_cong)

definition qmiLocInjectTimeSyncDataIndMsgT_data_v02 :: "idl_byte list" where
  "qmiLocInjectTimeSyncDataIndMsgT_data_v02 =
    [TLV [QMI_IDL_TLV_FLAGS_LAST_TLV] (LIT 0x01), OP [] QMI_IDL_GENERIC_4_BYTE,
      OFFSET8 qmiLocInjectTimeSyncDataIndMsgT_v02 ''status'']"

lemma qmiLocInjectTimeSyncDataIndMsgT_data_v02_ok [idl_simps]:
  "describe_msg qmiLocInjectTimeSyncDataIndMsgT_data_v02 = Some (qmiLocInjectTimeSyncDataIndMsgT_v02, 7, [])"
  by (simp add: qmiLocInjectTimeSyncDataIndMsgT_data_v02_def qmiLocInjectTimeSyncDataIndMsgT_v02_def [THEN arg_cong, of laid] analyse_simps layout_simps cong: idl_cong)

definition qmiLocGetCradleMountConfigIndMsgT_data_v02 :: "idl_byte list" where
  "qmiLocGetCradleMountConfigIndMsgT_data_v02 =
    [LIT 0x01, OP [] QMI_IDL_GENERIC_4_BYTE, OFFSET8 qmiLocGetCradleMountConfigIndMsgT_v02 ''status'',
     TLV [QMI_IDL_TLV_FLAGS_OPTIONAL] (OFFSET8_DIFF qmiLocGetCradleMountConfigIndMsgT_v02 ''cradleMountState'' ''cradleMountState_valid''),
      LIT 0x10, OP [] QMI_IDL_GENERIC_4_BYTE,
      OFFSET8 qmiLocGetCradleMountConfigIndMsgT_v02 ''cradleMountState'',
     TLV [QMI_IDL_TLV_FLAGS_LAST_TLV, QMI_IDL_TLV_FLAGS_OPTIONAL] (OFFSET8_DIFF qmiLocGetCradleMountConfigIndMsgT_v02 ''confidenceCradleMountState'' ''confidenceCradleMountState_valid''),
      LIT 0x11, OP [] QMI_IDL_GENERIC_1_BYTE,
      OFFSET8 qmiLocGetCradleMountConfigIndMsgT_v02 ''confidenceCradleMountState'']"

lemma qmiLocGetCradleMountConfigIndMsgT_data_v02_ok [idl_simps]:
  "describe_msg qmiLocGetCradleMountConfigIndMsgT_data_v02 = Some (qmiLocGetCradleMountConfigIndMsgT_v02, 18, [])"
  by (simp add: qmiLocGetCradleMountConfigIndMsgT_data_v02_def qmiLocGetCradleMountConfigIndMsgT_v02_def [THEN arg_cong, of laid] analyse_simps layout_simps cong: idl_cong)

definition qmiLocSetCradleMountConfigReqMsgT_data_v02 :: "idl_byte list" where
  "qmiLocSetCradleMountConfigReqMsgT_data_v02 =
    [LIT 0x01, OP [] QMI_IDL_GENERIC_4_BYTE,
      OFFSET8 qmiLocSetCradleMountConfigReqMsgT_v02 ''cradleMountState'',
     TLV [QMI_IDL_TLV_FLAGS_LAST_TLV, QMI_IDL_TLV_FLAGS_OPTIONAL] (OFFSET8_DIFF qmiLocSetCradleMountConfigReqMsgT_v02 ''confidenceCradleMountState'' ''confidenceCradleMountState_valid''),
      LIT 0x10, OP [] QMI_IDL_GENERIC_1_BYTE,
      OFFSET8 qmiLocSetCradleMountConfigReqMsgT_v02 ''confidenceCradleMountState'']"

lemma qmiLocSetCradleMountConfigReqMsgT_data_v02_ok [idl_simps]:
  "describe_msg qmiLocSetCradleMountConfigReqMsgT_data_v02 = Some (qmiLocSetCradleMountConfigReqMsgT_v02, 11, [])"
  by (simp add: qmiLocSetCradleMountConfigReqMsgT_data_v02_def qmiLocSetCradleMountConfigReqMsgT_v02_def [THEN arg_cong, of laid] analyse_simps layout_simps cong: idl_cong)

definition qmiLocSetCradleMountConfigIndMsgT_data_v02 :: "idl_byte list" where
  "qmiLocSetCradleMountConfigIndMsgT_data_v02 =
    [TLV [QMI_IDL_TLV_FLAGS_LAST_TLV] (LIT 0x01), OP [] QMI_IDL_GENERIC_4_BYTE,
      OFFSET8 qmiLocSetCradleMountConfigIndMsgT_v02 ''status'']"

lemma qmiLocSetCradleMountConfigIndMsgT_data_v02_ok [idl_simps]:
  "describe_msg qmiLocSetCradleMountConfigIndMsgT_data_v02 = Some (qmiLocSetCradleMountConfigIndMsgT_v02, 7, [])"
  by (simp add: qmiLocSetCradleMountConfigIndMsgT_data_v02_def qmiLocSetCradleMountConfigIndMsgT_v02_def [THEN arg_cong, of laid] analyse_simps layout_simps cong: idl_cong)

definition qmiLocGetExternalPowerConfigIndMsgT_data_v02 :: "idl_byte list" where
  "qmiLocGetExternalPowerConfigIndMsgT_data_v02 =
    [LIT 0x01, OP [] QMI_IDL_GENERIC_4_BYTE, OFFSET8 qmiLocGetExternalPowerConfigIndMsgT_v02 ''status'',
     TLV [QMI_IDL_TLV_FLAGS_LAST_TLV, QMI_IDL_TLV_FLAGS_OPTIONAL] (OFFSET8_DIFF qmiLocGetExternalPowerConfigIndMsgT_v02 ''externalPowerState'' ''externalPowerState_valid''),
      LIT 0x10, OP [] QMI_IDL_GENERIC_4_BYTE,
      OFFSET8 qmiLocGetExternalPowerConfigIndMsgT_v02 ''externalPowerState'']"

lemma qmiLocGetExternalPowerConfigIndMsgT_data_v02_ok [idl_simps]:
  "describe_msg qmiLocGetExternalPowerConfigIndMsgT_data_v02 = Some (qmiLocGetExternalPowerConfigIndMsgT_v02, 14, [])"
  by (simp add: qmiLocGetExternalPowerConfigIndMsgT_data_v02_def qmiLocGetExternalPowerConfigIndMsgT_v02_def [THEN arg_cong, of laid] analyse_simps layout_simps cong: idl_cong)

definition qmiLocSetExternalPowerConfigReqMsgT_data_v02 :: "idl_byte list" where
  "qmiLocSetExternalPowerConfigReqMsgT_data_v02 =
    [LIT 0x01, OP [] QMI_IDL_GENERIC_4_BYTE,
      OFFSET8 qmiLocSetExternalPowerConfigReqMsgT_v02 ''externalPowerState'',
     TLV [QMI_IDL_TLV_FLAGS_LAST_TLV, QMI_IDL_TLV_FLAGS_OPTIONAL] (OFFSET8_DIFF qmiLocSetExternalPowerConfigReqMsgT_v02 ''batteryLevel'' ''batteryLevel_valid''),
      LIT 0x10, OP [] QMI_IDL_GENERIC_4_BYTE,
      OFFSET8 qmiLocSetExternalPowerConfigReqMsgT_v02 ''batteryLevel'']"

lemma qmiLocSetExternalPowerConfigReqMsgT_data_v02_ok [idl_simps]:
  "describe_msg qmiLocSetExternalPowerConfigReqMsgT_data_v02 = Some (qmiLocSetExternalPowerConfigReqMsgT_v02, 14, [])"
  by (simp add: qmiLocSetExternalPowerConfigReqMsgT_data_v02_def qmiLocSetExternalPowerConfigReqMsgT_v02_def [THEN arg_cong, of laid] analyse_simps layout_simps cong: idl_cong)

definition qmiLocSetExternalPowerConfigIndMsgT_data_v02 :: "idl_byte list" where
  "qmiLocSetExternalPowerConfigIndMsgT_data_v02 =
    [TLV [QMI_IDL_TLV_FLAGS_LAST_TLV] (LIT 0x01), OP [] QMI_IDL_GENERIC_4_BYTE,
      OFFSET8 qmiLocSetExternalPowerConfigIndMsgT_v02 ''status'']"

lemma qmiLocSetExternalPowerConfigIndMsgT_data_v02_ok [idl_simps]:
  "describe_msg qmiLocSetExternalPowerConfigIndMsgT_data_v02 = Some (qmiLocSetExternalPowerConfigIndMsgT_v02, 7, [])"
  by (simp add: qmiLocSetExternalPowerConfigIndMsgT_data_v02_def qmiLocSetExternalPowerConfigIndMsgT_v02_def [THEN arg_cong, of laid] analyse_simps layout_simps cong: idl_cong)

definition qmiLocInformLocationServerConnStatusReqMsgT_data_v02 :: "idl_byte list" where
  "qmiLocInformLocationServerConnStatusReqMsgT_data_v02 =
    [LIT 0x01, OP [] QMI_IDL_GENERIC_4_BYTE,
      OFFSET8 qmiLocInformLocationServerConnStatusReqMsgT_v02 ''connHandle'',
     LIT 0x02, OP [] QMI_IDL_GENERIC_4_BYTE,
      OFFSET8 qmiLocInformLocationServerConnStatusReqMsgT_v02 ''requestType'',
     LIT 0x03, OP [] QMI_IDL_GENERIC_4_BYTE,
      OFFSET8 qmiLocInformLocationServerConnStatusReqMsgT_v02 ''statusType'',
     TLV [QMI_IDL_TLV_FLAGS_OPTIONAL] (OFFSET8_DIFF qmiLocInformLocationServerConnStatusReqMsgT_v02 ''apnProfile'' ''apnProfile_valid''),
      LIT 0x10, OP [] QMI_IDL_AGGREGATE,
      OFFSET8 qmiLocInformLocationServerConnStatusReqMsgT_v02 ''apnProfile'', TYPE88 0 42,
     TLV [QMI_IDL_TLV_FLAGS_LAST_TLV, QMI_IDL_TLV_FLAGS_OPTIONAL] (OFFSET8_DIFF qmiLocInformLocationServerConnStatusReqMsgT_v02 ''apnTypeMask'' ''apnTypeMask_valid''),
      LIT 0x11, OP [] QMI_IDL_GENERIC_8_BYTE,
      OFFSET8 qmiLocInformLocationServerConnStatusReqMsgT_v02 ''apnTypeMask'']"

lemma qmiLocInformLocationServerConnStatusReqMsgT_data_v02_ok [idl_simps]:
  "describe_msg qmiLocInformLocationServerConnStatusReqMsgT_data_v02 = Some (qmiLocInformLocationServerConnStatusReqMsgT_v02, 35, [(1, (0, 42), qmiLocApnProfilesStructT_v02)])"
  by (simp add: qmiLocInformLocationServerConnStatusReqMsgT_data_v02_def qmiLocInformLocationServerConnStatusReqMsgT_v02_def [THEN arg_cong, of laid] analyse_simps layout_simps cong: idl_cong)

definition qmiLocInformLocationServerConnStatusIndMsgT_data_v02 :: "idl_byte list" where
  "qmiLocInformLocationServerConnStatusIndMsgT_data_v02 =
    [TLV [QMI_IDL_TLV_FLAGS_LAST_TLV] (LIT 0x01), OP [] QMI_IDL_GENERIC_4_BYTE,
      OFFSET8 qmiLocInformLocationServerConnStatusIndMsgT_v02 ''status'']"

lemma qmiLocInformLocationServerConnStatusIndMsgT_data_v02_ok [idl_simps]:
  "describe_msg qmiLocInformLocationServerConnStatusIndMsgT_data_v02 = Some (qmiLocInformLocationServerConnStatusIndMsgT_v02, 7, [])"
  by (simp add: qmiLocInformLocationServerConnStatusIndMsgT_data_v02_def qmiLocInformLocationServerConnStatusIndMsgT_v02_def [THEN arg_cong, of laid] analyse_simps layout_simps cong: idl_cong)

definition qmiLocSetProtocolConfigParametersReqMsgT_data_v02 :: "idl_byte list" where
  "qmiLocSetProtocolConfigParametersReqMsgT_data_v02 =
    [TLV [QMI_IDL_TLV_FLAGS_OPTIONAL] (OFFSET8_DIFF qmiLocSetProtocolConfigParametersReqMsgT_v02 ''suplSecurity'' ''suplSecurity_valid''),
      LIT 0x10, OP [] QMI_IDL_GENERIC_1_BYTE,
      OFFSET8 qmiLocSetProtocolConfigParametersReqMsgT_v02 ''suplSecurity'',
     TLV [QMI_IDL_TLV_FLAGS_OPTIONAL] (OFFSET8_DIFF qmiLocSetProtocolConfigParametersReqMsgT_v02 ''vxVersion'' ''vxVersion_valid''),
      LIT 0x11, OP [] QMI_IDL_GENERIC_4_BYTE,
      OFFSET8 qmiLocSetProtocolConfigParametersReqMsgT_v02 ''vxVersion'',
     TLV [QMI_IDL_TLV_FLAGS_OPTIONAL] (OFFSET8_DIFF qmiLocSetProtocolConfigParametersReqMsgT_v02 ''suplVersion'' ''suplVersion_valid''),
      LIT 0x12, OP [] QMI_IDL_GENERIC_4_BYTE,
      OFFSET8 qmiLocSetProtocolConfigParametersReqMsgT_v02 ''suplVersion'',
     TLV [QMI_IDL_TLV_FLAGS_OPTIONAL] (OFFSET8_DIFF qmiLocSetProtocolConfigParametersReqMsgT_v02 ''lppConfig'' ''lppConfig_valid''),
      LIT 0x13, OP [] QMI_IDL_GENERIC_4_BYTE,
      OFFSET8 qmiLocSetProtocolConfigParametersReqMsgT_v02 ''lppConfig'',
     TLV [QMI_IDL_TLV_FLAGS_OPTIONAL] (OFFSET8_DIFF qmiLocSetProtocolConfigParametersReqMsgT_v02 ''assistedGlonassProtocolMask'' ''assistedGlonassProtocolMask_valid''),
      LIT 0x14, OP [] QMI_IDL_GENERIC_4_BYTE,
      OFFSET8 qmiLocSetProtocolConfigParametersReqMsgT_v02 ''assistedGlonassProtocolMask'',
     TLV [QMI_IDL_TLV_FLAGS_OPTIONAL] (OFFSET8_DIFF qmiLocSetProtocolConfigParametersReqMsgT_v02 ''suplHashAlgo'' ''suplHashAlgo_valid''),
      LIT 0x15, OP [] QMI_IDL_GENERIC_4_BYTE,
      OFFSET8 qmiLocSetProtocolConfigParametersReqMsgT_v02 ''suplHashAlgo'',
     TLV [QMI_IDL_TLV_FLAGS_OPTIONAL] (OFFSET8_DIFF qmiLocSetProtocolConfigParametersReqMsgT_v02 ''suplTlsVersion'' ''suplTlsVersion_valid''),
      LIT 0x16, OP [] QMI_IDL_GENERIC_4_BYTE,
      OFFSET8 qmiLocSetProtocolConfigParametersReqMsgT_v02 ''suplTlsVersion'',
     TLV [QMI_IDL_TLV_FLAGS_OPTIONAL] (OFFSET8_DIFF qmiLocSetProtocolConfigParametersReqMsgT_v02 ''emergencyProtocol'' ''emergencyProtocol_valid''),
      LIT 0x17, OP [] QMI_IDL_GENERIC_4_BYTE,
      OFFSET8 qmiLocSetProtocolConfigParametersReqMsgT_v02 ''emergencyProtocol'',
     TLV [QMI_IDL_TLV_FLAGS_OPTIONAL] (OFFSET8_DIFF qmiLocSetProtocolConfigParametersReqMsgT_v02 ''wifiScanInjectTimeout'' ''wifiScanInjectTimeout_valid''),
      LIT 0x18, OP [] QMI_IDL_GENERIC_1_BYTE,
      OFFSET8 qmiLocSetProtocolConfigParametersReqMsgT_v02 ''wifiScanInjectTimeout'',
     TLV [QMI_IDL_TLV_FLAGS_OPTIONAL] (OFFSET8_DIFF qmiLocSetProtocolConfigParametersReqMsgT_v02 ''lppeUpConfig'' ''lppeUpConfig_valid''),
      LIT 0x19, OP [] QMI_IDL_GENERIC_8_BYTE,
      OFFSET8 qmiLocSetProtocolConfigParametersReqMsgT_v02 ''lppeUpConfig'',
     TLV [QMI_IDL_TLV_FLAGS_OPTIONAL] (OFFSET8_DIFF qmiLocSetProtocolConfigParametersReqMsgT_v02 ''lppeCpConfig'' ''lppeCpConfig_valid''),
      LIT 0x1A, OP [] QMI_IDL_GENERIC_8_BYTE,
      OFFSET8 qmiLocSetProtocolConfigParametersReqMsgT_v02 ''lppeCpConfig'',
     TLV [QMI_IDL_TLV_FLAGS_LAST_TLV, QMI_IDL_TLV_FLAGS_OPTIONAL] (OFFSET8_DIFF qmiLocSetProtocolConfigParametersReqMsgT_v02 ''emergencyCallbackWindow'' ''emergencyCallbackWindow_valid''),
      LIT 0x1B, OP [] QMI_IDL_GENERIC_4_BYTE,
      OFFSET8 qmiLocSetProtocolConfigParametersReqMsgT_v02 ''emergencyCallbackWindow'']"

lemma qmiLocSetProtocolConfigParametersReqMsgT_data_v02_ok [idl_simps]:
  "describe_msg qmiLocSetProtocolConfigParametersReqMsgT_data_v02 = Some (qmiLocSetProtocolConfigParametersReqMsgT_v02, 86, [])"
  by (simp add: qmiLocSetProtocolConfigParametersReqMsgT_data_v02_def qmiLocSetProtocolConfigParametersReqMsgT_v02_def [THEN arg_cong, of laid] analyse_simps layout_simps cong: idl_cong)

definition qmiLocSetProtocolConfigParametersIndMsgT_data_v02 :: "idl_byte list" where
  "qmiLocSetProtocolConfigParametersIndMsgT_data_v02 =
    [LIT 0x01, OP [] QMI_IDL_GENERIC_4_BYTE,
      OFFSET8 qmiLocSetProtocolConfigParametersIndMsgT_v02 ''status'',
     TLV [QMI_IDL_TLV_FLAGS_LAST_TLV, QMI_IDL_TLV_FLAGS_OPTIONAL] (OFFSET8_DIFF qmiLocSetProtocolConfigParametersIndMsgT_v02 ''failedProtocolConfigParamMask'' ''failedProtocolConfigParamMask_valid''),
      LIT 0x10, OP [] QMI_IDL_GENERIC_8_BYTE,
      OFFSET8 qmiLocSetProtocolConfigParametersIndMsgT_v02 ''failedProtocolConfigParamMask'']"

lemma qmiLocSetProtocolConfigParametersIndMsgT_data_v02_ok [idl_simps]:
  "describe_msg qmiLocSetProtocolConfigParametersIndMsgT_data_v02 = Some (qmiLocSetProtocolConfigParametersIndMsgT_v02, 18, [])"
  by (simp add: qmiLocSetProtocolConfigParametersIndMsgT_data_v02_def qmiLocSetProtocolConfigParametersIndMsgT_v02_def [THEN arg_cong, of laid] analyse_simps layout_simps cong: idl_cong)

definition qmiLocGetProtocolConfigParametersReqMsgT_data_v02 :: "idl_byte list" where
  "qmiLocGetProtocolConfigParametersReqMsgT_data_v02 =
    [TLV [QMI_IDL_TLV_FLAGS_LAST_TLV] (LIT 0x01), OP [] QMI_IDL_GENERIC_8_BYTE,
      OFFSET8 qmiLocGetProtocolConfigParametersReqMsgT_v02 ''getProtocolConfigParamMask'']"

lemma qmiLocGetProtocolConfigParametersReqMsgT_data_v02_ok [idl_simps]:
  "describe_msg qmiLocGetProtocolConfigParametersReqMsgT_data_v02 = Some (qmiLocGetProtocolConfigParametersReqMsgT_v02, 11, [])"
  by (simp add: qmiLocGetProtocolConfigParametersReqMsgT_data_v02_def qmiLocGetProtocolConfigParametersReqMsgT_v02_def [THEN arg_cong, of laid] analyse_simps layout_simps cong: idl_cong)

definition qmiLocGetProtocolConfigParametersIndMsgT_data_v02 :: "idl_byte list" where
  "qmiLocGetProtocolConfigParametersIndMsgT_data_v02 =
    [LIT 0x01, OP [] QMI_IDL_GENERIC_4_BYTE,
      OFFSET8 qmiLocGetProtocolConfigParametersIndMsgT_v02 ''status'',
     TLV [QMI_IDL_TLV_FLAGS_OPTIONAL] (OFFSET8_DIFF qmiLocGetProtocolConfigParametersIndMsgT_v02 ''suplSecurity'' ''suplSecurity_valid''),
      LIT 0x10, OP [] QMI_IDL_GENERIC_1_BYTE,
      OFFSET8 qmiLocGetProtocolConfigParametersIndMsgT_v02 ''suplSecurity'',
     TLV [QMI_IDL_TLV_FLAGS_OPTIONAL] (OFFSET8_DIFF qmiLocGetProtocolConfigParametersIndMsgT_v02 ''vxVersion'' ''vxVersion_valid''),
      LIT 0x11, OP [] QMI_IDL_GENERIC_4_BYTE,
      OFFSET8 qmiLocGetProtocolConfigParametersIndMsgT_v02 ''vxVersion'',
     TLV [QMI_IDL_TLV_FLAGS_OPTIONAL] (OFFSET8_DIFF qmiLocGetProtocolConfigParametersIndMsgT_v02 ''suplVersion'' ''suplVersion_valid''),
      LIT 0x12, OP [] QMI_IDL_GENERIC_4_BYTE,
      OFFSET8 qmiLocGetProtocolConfigParametersIndMsgT_v02 ''suplVersion'',
     TLV [QMI_IDL_TLV_FLAGS_OPTIONAL] (OFFSET8_DIFF qmiLocGetProtocolConfigParametersIndMsgT_v02 ''lppConfig'' ''lppConfig_valid''),
      LIT 0x13, OP [] QMI_IDL_GENERIC_4_BYTE,
      OFFSET8 qmiLocGetProtocolConfigParametersIndMsgT_v02 ''lppConfig'',
     TLV [QMI_IDL_TLV_FLAGS_OPTIONAL] (OFFSET8_DIFF qmiLocGetProtocolConfigParametersIndMsgT_v02 ''assistedGlonassProtocolMask'' ''assistedGlonassProtocolMask_valid''),
      LIT 0x14, OP [] QMI_IDL_GENERIC_4_BYTE,
      OFFSET8 qmiLocGetProtocolConfigParametersIndMsgT_v02 ''assistedGlonassProtocolMask'',
     TLV [QMI_IDL_TLV_FLAGS_OPTIONAL] (OFFSET8_DIFF qmiLocGetProtocolConfigParametersIndMsgT_v02 ''suplHashAlgo'' ''suplHashAlgo_valid''),
      LIT 0x15, OP [] QMI_IDL_GENERIC_4_BYTE,
      OFFSET8 qmiLocGetProtocolConfigParametersIndMsgT_v02 ''suplHashAlgo'',
     TLV [QMI_IDL_TLV_FLAGS_OPTIONAL] (OFFSET8_DIFF qmiLocGetProtocolConfigParametersIndMsgT_v02 ''suplTlsVersion'' ''suplTlsVersion_valid''),
      LIT 0x16, OP [] QMI_IDL_GENERIC_4_BYTE,
      OFFSET8 qmiLocGetProtocolConfigParametersIndMsgT_v02 ''suplTlsVersion'',
     TLV [QMI_IDL_TLV_FLAGS_OPTIONAL] (OFFSET8_DIFF qmiLocGetProtocolConfigParametersIndMsgT_v02 ''emergencyProtocol'' ''emergencyProtocol_valid''),
      LIT 0x17, OP [] QMI_IDL_GENERIC_4_BYTE,
      OFFSET8 qmiLocGetProtocolConfigParametersIndMsgT_v02 ''emergencyProtocol'',
     TLV [QMI_IDL_TLV_FLAGS_OPTIONAL] (OFFSET8_DIFF qmiLocGetProtocolConfigParametersIndMsgT_v02 ''wifiScanInjectTimeout'' ''wifiScanInjectTimeout_valid''),
      LIT 0x18, OP [] QMI_IDL_GENERIC_1_BYTE,
      OFFSET8 qmiLocGetProtocolConfigParametersIndMsgT_v02 ''wifiScanInjectTimeout'',
     TLV [QMI_IDL_TLV_FLAGS_OPTIONAL] (OFFSET8_DIFF qmiLocGetProtocolConfigParametersIndMsgT_v02 ''lppeUpConfig'' ''lppeUpConfig_valid''),
      LIT 0x19, OP [] QMI_IDL_GENERIC_8_BYTE,
      OFFSET8 qmiLocGetProtocolConfigParametersIndMsgT_v02 ''lppeUpConfig'',
     TLV [QMI_IDL_TLV_FLAGS_OPTIONAL] (OFFSET8_DIFF qmiLocGetProtocolConfigParametersIndMsgT_v02 ''lppeCpConfig'' ''lppeCpConfig_valid''),
      LIT 0x1A, OP [] QMI_IDL_GENERIC_8_BYTE,
      OFFSET8 qmiLocGetProtocolConfigParametersIndMsgT_v02 ''lppeCpConfig'',
     TLV [QMI_IDL_TLV_FLAGS_LAST_TLV, QMI_IDL_TLV_FLAGS_OPTIONAL] (OFFSET8_DIFF qmiLocGetProtocolConfigParametersIndMsgT_v02 ''emergencyCallbackWindow'' ''emergencyCallbackWindow_valid''),
      LIT 0x1B, OP [] QMI_IDL_GENERIC_4_BYTE,
      OFFSET8 qmiLocGetProtocolConfigParametersIndMsgT_v02 ''emergencyCallbackWindow'']"

lemma qmiLocGetProtocolConfigParametersIndMsgT_data_v02_ok [idl_simps]:
  "describe_msg qmiLocGetProtocolConfigParametersIndMsgT_data_v02 = Some (qmiLocGetProtocolConfigParametersIndMsgT_v02, 93, [])"
  by (simp add: qmiLocGetProtocolConfigParametersIndMsgT_data_v02_def qmiLocGetProtocolConfigParametersIndMsgT_v02_def [THEN arg_cong, of laid] analyse_simps layout_simps cong: idl_cong)

definition qmiLocSetSensorControlConfigReqMsgT_data_v02 :: "idl_byte list" where
  "qmiLocSetSensorControlConfigReqMsgT_data_v02 =
    [TLV [QMI_IDL_TLV_FLAGS_OPTIONAL] (OFFSET8_DIFF qmiLocSetSensorControlConfigReqMsgT_v02 ''sensorsUsage'' ''sensorsUsage_valid''),
      LIT 0x10, OP [] QMI_IDL_GENERIC_4_BYTE,
      OFFSET8 qmiLocSetSensorControlConfigReqMsgT_v02 ''sensorsUsage'',
     TLV [QMI_IDL_TLV_FLAGS_LAST_TLV, QMI_IDL_TLV_FLAGS_OPTIONAL] (OFFSET8_DIFF qmiLocSetSensorControlConfigReqMsgT_v02 ''sensorProvider'' ''sensorProvider_valid''),
      LIT 0x11, OP [] QMI_IDL_GENERIC_4_BYTE,
      OFFSET8 qmiLocSetSensorControlConfigReqMsgT_v02 ''sensorProvider'']"

lemma qmiLocSetSensorControlConfigReqMsgT_data_v02_ok [idl_simps]:
  "describe_msg qmiLocSetSensorControlConfigReqMsgT_data_v02 = Some (qmiLocSetSensorControlConfigReqMsgT_v02, 14, [])"
  by (simp add: qmiLocSetSensorControlConfigReqMsgT_data_v02_def qmiLocSetSensorControlConfigReqMsgT_v02_def [THEN arg_cong, of laid] analyse_simps layout_simps cong: idl_cong)

definition qmiLocSetSensorControlConfigIndMsgT_data_v02 :: "idl_byte list" where
  "qmiLocSetSensorControlConfigIndMsgT_data_v02 =
    [TLV [QMI_IDL_TLV_FLAGS_LAST_TLV] (LIT 0x01), OP [] QMI_IDL_GENERIC_4_BYTE,
      OFFSET8 qmiLocSetSensorControlConfigIndMsgT_v02 ''status'']"

lemma qmiLocSetSensorControlConfigIndMsgT_data_v02_ok [idl_simps]:
  "describe_msg qmiLocSetSensorControlConfigIndMsgT_data_v02 = Some (qmiLocSetSensorControlConfigIndMsgT_v02, 7, [])"
  by (simp add: qmiLocSetSensorControlConfigIndMsgT_data_v02_def qmiLocSetSensorControlConfigIndMsgT_v02_def [THEN arg_cong, of laid] analyse_simps layout_simps cong: idl_cong)

definition qmiLocGetSensorControlConfigIndMsgT_data_v02 :: "idl_byte list" where
  "qmiLocGetSensorControlConfigIndMsgT_data_v02 =
    [LIT 0x01, OP [] QMI_IDL_GENERIC_4_BYTE, OFFSET8 qmiLocGetSensorControlConfigIndMsgT_v02 ''status'',
     TLV [QMI_IDL_TLV_FLAGS_OPTIONAL] (OFFSET8_DIFF qmiLocGetSensorControlConfigIndMsgT_v02 ''sensorsUsage'' ''sensorsUsage_valid''),
      LIT 0x10, OP [] QMI_IDL_GENERIC_4_BYTE,
      OFFSET8 qmiLocGetSensorControlConfigIndMsgT_v02 ''sensorsUsage'',
     TLV [QMI_IDL_TLV_FLAGS_LAST_TLV, QMI_IDL_TLV_FLAGS_OPTIONAL] (OFFSET8_DIFF qmiLocGetSensorControlConfigIndMsgT_v02 ''sensorProvider'' ''sensorProvider_valid''),
      LIT 0x11, OP [] QMI_IDL_GENERIC_4_BYTE,
      OFFSET8 qmiLocGetSensorControlConfigIndMsgT_v02 ''sensorProvider'']"

lemma qmiLocGetSensorControlConfigIndMsgT_data_v02_ok [idl_simps]:
  "describe_msg qmiLocGetSensorControlConfigIndMsgT_data_v02 = Some (qmiLocGetSensorControlConfigIndMsgT_v02, 21, [])"
  by (simp add: qmiLocGetSensorControlConfigIndMsgT_data_v02_def qmiLocGetSensorControlConfigIndMsgT_v02_def [THEN arg_cong, of laid] analyse_simps layout_simps cong: idl_cong)

definition qmiLocSetSensorPropertiesReqMsgT_data_v02 :: "idl_byte list" where
  "qmiLocSetSensorPropertiesReqMsgT_data_v02 =
    [TLV [QMI_IDL_TLV_FLAGS_OPTIONAL] (OFFSET8_DIFF qmiLocSetSensorPropertiesReqMsgT_v02 ''gyroBiasVarianceRandomWalk'' ''gyroBiasVarianceRandomWalk_valid''),
      LIT 0x10, OP [] QMI_IDL_GENERIC_4_BYTE,
      OFFSET8 qmiLocSetSensorPropertiesReqMsgT_v02 ''gyroBiasVarianceRandomWalk'',
     TLV [QMI_IDL_TLV_FLAGS_OPTIONAL] (OFFSET8_DIFF qmiLocSetSensorPropertiesReqMsgT_v02 ''velocityRandomWalkSpectralDensity'' ''velocityRandomWalkSpectralDensity_valid''),
      LIT 0x11, OP [] QMI_IDL_GENERIC_4_BYTE,
      OFFSET8 qmiLocSetSensorPropertiesReqMsgT_v02 ''velocityRandomWalkSpectralDensity'',
     TLV [QMI_IDL_TLV_FLAGS_OPTIONAL] (OFFSET8_DIFF qmiLocSetSensorPropertiesReqMsgT_v02 ''accelerationRandomWalkSpectralDensity'' ''accelerationRandomWalkSpectralDensity_valid''),
      LIT 0x12, OP [] QMI_IDL_GENERIC_4_BYTE,
      OFFSET8 qmiLocSetSensorPropertiesReqMsgT_v02 ''accelerationRandomWalkSpectralDensity'',
     TLV [QMI_IDL_TLV_FLAGS_OPTIONAL] (OFFSET8_DIFF qmiLocSetSensorPropertiesReqMsgT_v02 ''angleRandomWalkSpectralDensity'' ''angleRandomWalkSpectralDensity_valid''),
      LIT 0x13, OP [] QMI_IDL_GENERIC_4_BYTE,
      OFFSET8 qmiLocSetSensorPropertiesReqMsgT_v02 ''angleRandomWalkSpectralDensity'',
     TLV [QMI_IDL_TLV_FLAGS_OPTIONAL] (OFFSET8_DIFF qmiLocSetSensorPropertiesReqMsgT_v02 ''rateRandomWalkSpectralDensity'' ''rateRandomWalkSpectralDensity_valid''),
      LIT 0x14, OP [] QMI_IDL_GENERIC_4_BYTE,
      OFFSET8 qmiLocSetSensorPropertiesReqMsgT_v02 ''rateRandomWalkSpectralDensity'',
     TLV [QMI_IDL_TLV_FLAGS_OPTIONAL] (OFFSET8_DIFF qmiLocSetSensorPropertiesReqMsgT_v02 ''vehicleDataUse'' ''vehicleDataUse_valid''),
      LIT 0x15, OP [] QMI_IDL_GENERIC_8_BYTE,
      OFFSET8 qmiLocSetSensorPropertiesReqMsgT_v02 ''vehicleDataUse'',
     TLV [QMI_IDL_TLV_FLAGS_OPTIONAL] (OFFSET8_DIFF qmiLocSetSensorPropertiesReqMsgT_v02 ''vehicleVelocityRandomWalkSpectralDensity'' ''vehicleVelocityRandomWalkSpectralDensity_valid''),
      LIT 0x16, OP [] QMI_IDL_GENERIC_4_BYTE,
      OFFSET8 qmiLocSetSensorPropertiesReqMsgT_v02 ''vehicleVelocityRandomWalkSpectralDensity'',
     TLV [QMI_IDL_TLV_FLAGS_OPTIONAL] (OFFSET8_DIFF qmiLocSetSensorPropertiesReqMsgT_v02 ''vehicleAccelRandomWalkSpectralDensity'' ''vehicleAccelRandomWalkSpectralDensity_valid''),
      LIT 0x17, OP [] QMI_IDL_GENERIC_4_BYTE,
      OFFSET8 qmiLocSetSensorPropertiesReqMsgT_v02 ''vehicleAccelRandomWalkSpectralDensity'',
     TLV [QMI_IDL_TLV_FLAGS_OPTIONAL] (OFFSET8_DIFF qmiLocSetSensorPropertiesReqMsgT_v02 ''vehicleAngleRandomWalkSpectralDensity'' ''vehicleAngleRandomWalkSpectralDensity_valid''),
      LIT 0x18, OP [] QMI_IDL_GENERIC_4_BYTE,
      OFFSET8 qmiLocSetSensorPropertiesReqMsgT_v02 ''vehicleAngleRandomWalkSpectralDensity'',
     TLV [QMI_IDL_TLV_FLAGS_OPTIONAL] (OFFSET8_DIFF qmiLocSetSensorPropertiesReqMsgT_v02 ''vehicleAngularRateRandomWalkSpectralDensity'' ''vehicleAngularRateRandomWalkSpectralDensity_valid''),
      LIT 0x19, OP [] QMI_IDL_GENERIC_4_BYTE,
      OFFSET8 qmiLocSetSensorPropertiesReqMsgT_v02 ''vehicleAngularRateRandomWalkSpectralDensity'',
     TLV [QMI_IDL_TLV_FLAGS_OPTIONAL] (OFFSET8_DIFF qmiLocSetSensorPropertiesReqMsgT_v02 ''vehicleOdometryScaleFactorRandomWalkSpectralDensity'' ''vehicleOdometryScaleFactorRandomWalkSpectralDensity_valid''),
      LIT 0x1A, OP [] QMI_IDL_GENERIC_4_BYTE,
      OFFSET8 qmiLocSetSensorPropertiesReqMsgT_v02 ''vehicleOdometryScaleFactorRandomWalkSpectralDensity'',
     TLV [QMI_IDL_TLV_FLAGS_LAST_TLV, QMI_IDL_TLV_FLAGS_OPTIONAL] (OFFSET8_DIFF qmiLocSetSensorPropertiesReqMsgT_v02 ''vehicleOdometryVariance'' ''vehicleOdometryVariance_valid''),
      LIT 0x1B, OP [] QMI_IDL_GENERIC_4_BYTE,
      OFFSET8 qmiLocSetSensorPropertiesReqMsgT_v02 ''vehicleOdometryVariance'']"

lemma qmiLocSetSensorPropertiesReqMsgT_data_v02_ok [idl_simps]:
  "describe_msg qmiLocSetSensorPropertiesReqMsgT_data_v02 = Some (qmiLocSetSensorPropertiesReqMsgT_v02, 88, [])"
  by (simp add: qmiLocSetSensorPropertiesReqMsgT_data_v02_def qmiLocSetSensorPropertiesReqMsgT_v02_def [THEN arg_cong, of laid] analyse_simps layout_simps cong: idl_cong)

end
