(* ===== verification/LocMsgIdl2.thy ===== *)
theory LocMsgIdl2
  imports LocTypeIdl
begin

text \<open>
  The descriptors of the messages of \<^verbatim>\<open>src/location/loc_api/loc_api_v02/location_service_v02.c\<close>
  (part 2 of 3), byte for byte as the file writes them, each with the result of its analysis.
\<close>

definition qmiLocSetSensorPropertiesIndMsgT_data_v02 :: "idl_byte list" where
  "qmiLocSetSensorPropertiesIndMsgT_data_v02 =
    [LIT 0x01, OP [] QMI_IDL_GENERIC_4_BYTE, OFFSET8 qmiLocSetSensorPropertiesIndMsgT_v02 ''status'',
     TLV [QMI_IDL_TLV_FLAGS_LAST_TLV, QMI_IDL_TLV_FLAGS_OPTIONAL] (OFFSET8_DIFF qmiLocSetSensorPropertiesIndMsgT_v02 ''failedSensorPropertiesMask'' ''failedSensorPropertiesMask_valid''),
      LIT 0x10, OP [] QMI_IDL_GENERIC_4_BYTE,
      OFFSET8 qmiLocSetSensorPropertiesIndMsgT_v02 ''failedSensorPropertiesMask'']"

lemma qmiLocSetSensorPropertiesIndMsgT_data_v02_ok [idl_simps]:
  "describe_msg qmiLocSetSensorPropertiesIndMsgT_data_v02 = Some (qmiLocSetSensorPropertiesIndMsgT_v02, 14, [])"
  by (simp add: qmiLocSetSensorPropertiesIndMsgT_data_v02_def qmiLocSetSensorPropertiesIndMsgT_v02_def [THEN arg_cong, of laid] analyse_simps layout_simps cong: idl_cong)

definition qmiLocGetSensorPropertiesReqMsgT_data_v02 :: "idl_byte list" where
  "qmiLocGetSensorPropertiesReqMsgT_data_v02 =
    [TLV [QMI_IDL_TLV_FLAGS_LAST_TLV] (LIT 0x01), OP [] QMI_IDL_GENERIC_4_BYTE,
      OFFSET8 qmiLocGetSensorPropertiesReqMsgT_v02 ''getSensorPropertiesMask'']"

lemma qmiLocGetSensorPropertiesReqMsgT_data_v02_ok [idl_simps]:
  "describe_msg qmiLocGetSensorPropertiesReqMsgT_data_v02 = Some (qmiLocGetSensorPropertiesReqMsgT_v02, 7, [])"
  by (simp add: qmiLocGetSensorPropertiesReqMsgT_data_v02_def qmiLocGetSensorPropertiesReqMsgT_v02_def [THEN arg_cong, of laid] analyse_simps layout_simps cong: idl_cong)

definition qmiLocGetSensorPropertiesIndMsgT_data_v02 :: "idl_byte list" where
  "qmiLocGetSensorPropertiesIndMsgT_data_v02 =
    [LIT 0x01, OP [] QMI_IDL_GENERIC_4_BYTE, OFFSET8 qmiLocGetSensorPropertiesIndMsgT_v02 ''status'',
     TLV [QMI_IDL_TLV_FLAGS_OPTIONAL] (OFFSET8_DIFF qmiLocGetSensorPropertiesIndMsgT_v02 ''gyroBiasVarianceRandomWalk'' ''gyroBiasVarianceRandomWalk_valid''),
      LIT 0x10, OP [] QMI_IDL_GENERIC_4_BYTE,
      OFFSET8 qmiLocGetSensorPropertiesIndMsgT_v02 ''gyroBiasVarianceRandomWalk'',
     TLV [QMI_IDL_TLV_FLAGS_OPTIONAL] (OFFSET8_DIFF qmiLocGetSensorPropertiesIndMsgT_v02 ''velocityRandomWalkSpectralDensity'' ''velocityRandomWalkSpectralDensity_valid''),
      LIT 0x11, OP [] QMI_IDL_GENERIC_4_BYTE,
      OFFSET8 qmiLocGetSensorPropertiesIndMsgT_v02 ''velocityRandomWalkSpectralDensity'',
     TLV [QMI_IDL_TLV_FLAGS_OPTIONAL] (OFFSET8_DIFF qmiLocGetSensorPropertiesIndMsgT_v02 ''accelerationRandomWalkSpectralDensity'' ''accelerationRandomWalkSpectralDensity_valid''),
      LIT 0x12, OP [] QMI_IDL_GENERIC_4_BYTE,
      OFFSET8 qmiLocGetSensorPropertiesIndMsgT_v02 ''accelerationRandomWalkSpectralDensity'',
     TLV [QMI_IDL_TLV_FLAGS_OPTIONAL] (OFFSET8_DIFF qmiLocGetSensorPropertiesIndMsgT_v02 ''angleRandomWalkSpectralDensity'' ''angleRandomWalkSpectralDensity_valid''),
      LIT 0x13, OP [] QMI_IDL_GENERIC_4_BYTE,
      OFFSET8 qmiLocGetSensorPropertiesIndMsgT_v02 ''angleRandomWalkSpectralDensity'',
     TLV [QMI_IDL_TLV_FLAGS_OPTIONAL] (OFFSET8_DIFF qmiLocGetSensorPropertiesIndMsgT_v02 ''rateRandomWalkSpectralDensity'' ''rateRandomWalkSpectralDensity_valid''),
      LIT 0x14, OP [] QMI_IDL_GENERIC_4_BYTE,
      OFFSET8 qmiLocGetSensorPropertiesIndMsgT_v02 ''rateRandomWalkSpectralDensity'',
     TLV [QMI_IDL_TLV_FLAGS_OPTIONAL] (OFFSET8_DIFF qmiLocGetSensorPropertiesIndMsgT_v02 ''vehicleDataUse'' ''vehicleDataUse_valid''),
      LIT 0x15, OP [] QMI_IDL_GENERIC_8_BYTE,
      OFFSET8 qmiLocGetSensorPropertiesIndMsgT_v02 ''vehicleDataUse'',
     TLV [QMI_IDL_TLV_FLAGS_OPTIONAL] (OFFSET8_DIFF qmiLocGetSensorPropertiesIndMsgT_v02 ''vehicleVelocityRandomWalkSpectralDensity'' ''vehicleVelocityRandomWalkSpectralDensity_valid''),
      LIT 0x16, OP [] QMI_IDL_GENERIC_4_BYTE,
      OFFSET8 qmiLocGetSensorPropertiesIndMsgT_v02 ''vehicleVelocityRandomWalkSpectralDensity'',
     TLV [QMI_IDL_TLV_FLAGS_OPTIONAL] (OFFSET8_DIFF qmiLocGetSensorPropertiesIndMsgT_v02 ''vehicleAccelRandomWalkSpectralDensity'' ''vehicleAccelRandomWalkSpectralDensity_valid''),
      LIT 0x17, OP [] QMI_IDL_GENERIC_4_BYTE,
      OFFSET8 qmiLocGetSensorPropertiesIndMsgT_v02 ''vehicleAccelRandomWalkSpectralDensity'',
     TLV [QMI_IDL_TLV_FLAGS_OPTIONAL] (OFFSET8_DIFF qmiLocGetSensorPropertiesIndMsgT_v02 ''vehicleAngleRandomWalkSpectralDensity'' ''vehicleAngleRandomWalkSpectralDensity_valid''),
      LIT 0x18, OP [] QMI_IDL_GENERIC_4_BYTE,
      OFFSET8 qmiLocGetSensorPropertiesIndMsgT_v02 ''vehicleAngleRandomWalkSpectralDensity'',
     TLV [QMI_IDL_TLV_FLAGS_OPTIONAL] (OFFSET8_DIFF qmiLocGetSensorPropertiesIndMsgT_v02 ''vehicleAngularRateRandomWalkSpectralDensity'' ''vehicleAngularRateRandomWalkSpectralDensity_valid''),
      LIT 0x19, OP [] QMI_IDL_GENERIC_4_BYTE,
      OFFSET8 qmiLocGetSensorPropertiesIndMsgT_v02 ''vehicleAngularRateRandomWalkSpectralDensity'',
     TLV [QMI_IDL_TLV_FLAGS_OPTIONAL] (OFFSET8_DIFF qmiLocGetSensorPropertiesIndMsgT_v02 ''vehicleOdometryScaleFactorRandomWalkSpectralDensity'' ''vehicleOdometryScaleFactorRandomWalkSpectralDensity_valid''),
      LIT 0x1A, OP [] QMI_IDL_GENERIC_4_BYTE,
      OFFSET8 qmiLocGetSensorPropertiesIndMsgT_v02 ''vehicleOdometryScaleFactorRandomWalkSpectralDensity'',
     TLV [QMI_IDL_TLV_FLAGS_LAST_TLV, QMI_IDL_TLV_FLAGS_OPTIONAL] (OFFSET8_DIFF qmiLocGetSensorPropertiesIndMsgT_v02 ''vehicleOdometryVariance'' ''vehicleOdometryVariance_valid''),
      LIT 0x1B, OP [] QMI_IDL_GENERIC_4_BYTE,
      OFFSET8 qmiLocGetSensorPropertiesIndMsgT_v02 ''vehicleOdometryVariance'']"

lemma qmiLocGetSensorPropertiesIndMsgT_data_v02_ok [idl_simps]:
  "describe_msg qmiLocGetSensorPropertiesIndMsgT_data_v02 = Some (qmiLocGetSensorPropertiesIndMsgT_v02, 95, [])"
  by (simp add: qmiLocGetSensorPropertiesIndMsgT_data_v02_def qmiLocGetSensorPropertiesIndMsgT_v02_def [THEN arg_cong, of laid] analyse_simps layout_simps cong: idl_cong)

definition qmiLocSetSensorPerformanceControlConfigReqMsgT_data_v02 :: "idl_byte list" where
  "qmiLocSetSensorPerformanceControlConfigReqMsgT_data_v02 =
    [TLV [QMI_IDL_TLV_FLAGS_OPTIONAL] (OFFSET8_DIFF qmiLocSetSensorPerformanceControlConfigReqMsgT_v02 ''performanceControlMode'' ''performanceControlMode_valid''),
      LIT 0x10, OP [] QMI_IDL_GENERIC_4_BYTE,
      OFFSET8 qmiLocSetSensorPerformanceControlConfigReqMsgT_v02 ''performanceControlMode'',
     TLV [QMI_IDL_TLV_FLAGS_OPTIONAL] (OFFSET8_DIFF qmiLocSetSensorPerformanceControlConfigReqMsgT_v02 ''accelSamplingSpec'' ''accelSamplingSpec_valid''),
      LIT 0x11, OP [] QMI_IDL_AGGREGATE,
      OFFSET8 qmiLocSetSensorPerformanceControlConfigReqMsgT_v02 ''accelSamplingSpec'', TYPE88 0 25,
     TLV [QMI_IDL_TLV_FLAGS_OPTIONAL] (OFFSET8_DIFF qmiLocSetSensorPerformanceControlConfigReqMsgT_v02 ''gyroSamplingSpec'' ''gyroSamplingSpec_valid''),
      LIT 0x12, OP [] QMI_IDL_AGGREGATE,
      OFFSET8 qmiLocSetSensorPerformanceControlConfigReqMsgT_v02 ''gyroSamplingSpec'', TYPE88 0 25,
     TLV [QMI_IDL_TLV_FLAGS_OPTIONAL] (OFFSET8_DIFF qmiLocSetSensorPerformanceControlConfigReqMsgT_v02 ''algorithmConfig'' ''algorithmConfig_valid''),
      LIT 0x13, OP [] QMI_IDL_GENERIC_4_BYTE,
      OFFSET8 qmiLocSetSensorPerformanceControlConfigReqMsgT_v02 ''algorithmConfig'',
     TLV [QMI_IDL_TLV_FLAGS_OPTIONAL] (OFFSET8_DIFF qmiLocSetSensorPerformanceControlConfigReqMsgT_v02 ''accelSamplingSpecHigh'' ''accelSamplingSpecHigh_valid''),
      LIT 0x14, OP [] QMI_IDL_AGGREGATE,
      OFFSET8 qmiLocSetSensorPerformanceControlConfigReqMsgT_v02 ''accelSamplingSpecHigh'', TYPE88 0 25,
     TLV [QMI_IDL_TLV_FLAGS_LAST_TLV, QMI_IDL_TLV_FLAGS_OPTIONAL] (OFFSET8_DIFF qmiLocSetSensorPerformanceControlConfigReqMsgT_v02 ''gyroSamplingSpecHigh'' ''gyroSamplingSpecHigh_valid''),
      LIT 0x15, OP [] QMI_IDL_AGGREGATE,
      OFFSET8 qmiLocSetSensorPerformanceControlConfigReqMsgT_v02 ''gyroSamplingSpecHigh'', TYPE88 0 25]"

lemma qmiLocSetSensorPerformanceControlConfigReqMsgT_data_v02_ok [idl_simps]:
  "describe_msg qmiLocSetSensorPerformanceControlConfigReqMsgT_data_v02 = Some (qmiLocSetSensorPerformanceControlConfigReqMsgT_v02, 26, [(1, (0, 25), qmiLocSensorControlConfigSamplingSpecStructT_v02), (1, (0, 25), qmiLocSensorControlConfigSamplingSpecStructT_v02), (1, (0, 25), qmiLocSensorControlConfigSamplingSpecStructT_v02), (1, (0, 25), qmiLocSensorControlConfigSamplingSpecStructT_v02)])"
  by (simp add: qmiLocSetSensorPerformanceControlConfigReqMsgT_data_v02_def qmiLocSetSensorPerformanceControlConfigReqMsgT_v02_def [THEN arg_cong, of laid] analyse_simps layout_simps cong: idl_cong)

definition qmiLocSetSensorPerformanceControlConfigIndMsgT_data_v02 :: "idl_byte list" where
  "qmiLocSetSensorPerformanceControlConfigIndMsgT_data_v02 =
    [LIT 0x01, OP [] QMI_IDL_GENERIC_4_BYTE,
      OFFSET8 qmiLocSetSensorPerformanceControlConfigIndMsgT_v02 ''status'',
     TLV [QMI_IDL_TLV_FLAGS_LAST_TLV, QMI_IDL_TLV_FLAGS_OPTIONAL] (OFFSET8_DIFF qmiLocSetSensorPerformanceControlConfigIndMsgT_v02 ''failedConfiguration'' ''failedConfiguration_valid''),
      LIT 0x10, OP [] QMI_IDL_GENERIC_4_BYTE,
      OFFSET8 qmiLocSetSensorPerformanceControlConfigIndMsgT_v02 ''failedConfiguration'']"

lemma qmiLocSetSensorPerformanceControlConfigIndMsgT_data_v02_ok [idl_simps]:
  "describe_msg qmiLocSetSensorPerformanceControlConfigIndMsgT_data_v02 = Some (qmiLocSetSensorPerformanceControlConfigIndMsgT_v02, 14, [])"
  by (simp add: qmiLocSetSensorPerformanceControlConfigIndMsgT_data_v02_def qmiLocSetSensorPerformanceControlConfigIndMsgT_v02_def [THEN arg_cong, of laid] analyse_simps layout_simps cong: idl_cong)

definition qmiLocGetSensorPerformanceControlConfigIndMsgT_data_v02 :: "idl_byte list" where
  "qmiLocGetSensorPerformanceControlConfigIndMsgT_data_v02 =
    [LIT 0x01, OP [] QMI_IDL_GENERIC_4_BYTE,
      OFFSET8 qmiLocGetSensorPerformanceControlConfigIndMsgT_v02 ''status'',
     TLV [QMI_IDL_TLV_FLAGS_OPTIONAL] (OFFSET8_DIFF qmiLocGetSensorPerformanceControlConfigIndMsgT_v02 ''performanceControlMode'' ''performanceControlMode_valid''),
      LIT 0x10, OP [] QMI_IDL_GENERIC_4_BYTE,
      OFFSET8 qmiLocGetSensorPerformanceControlConfigIndMsgT_v02 ''performanceControlMode'',
     TLV [QMI_IDL_TLV_FLAGS_OPTIONAL] (OFFSET8_DIFF qmiLocGetSensorPerformanceControlConfigIndMsgT_v02 ''accelSamplingSpec'' ''accelSamplingSpec_valid''),
      LIT 0x11, OP [] QMI_IDL_AGGREGATE,
      OFFSET8 qmiLocGetSensorPerformanceControlConfigIndMsgT_v02 ''accelSamplingSpec'', TYPE88 0 25,
     TLV [QMI_IDL_TLV_FLAGS_OPTIONAL] (OFFSET8_DIFF qmiLocGetSensorPerformanceControlConfigIndMsgT_v02 ''gyroSamplingSpec'' ''gyroSamplingSpec_valid''),
      LIT 0x12, OP [] QMI_IDL_AGGREGATE,
      OFFSET8 qmiLocGetSensorPerformanceControlConfigIndMsgT_v02 ''gyroSamplingSpec'', TYPE88 0 25,
     TLV [QMI_IDL_TLV_FLAGS_OPTIONAL] (OFFSET8_DIFF qmiLocGetSensorPerformanceControlConfigIndMsgT_v02 ''algorithmConfig'' ''algorithmConfig_valid''),
      LIT 0x13, OP [] QMI_IDL_GENERIC_4_BYTE,
      OFFSET8 qmiLocGetSensorPerformanceControlConfigIndMsgT_v02 ''algorithmConfig'',
     TLV [QMI_IDL_TLV_FLAGS_OPTIONAL] (OFFSET8_DIFF qmiLocGetSensorPerformanceControlConfigIndMsgT_v02 ''accelSamplingSpecHigh'' ''accelSamplingSpecHigh_valid''),
      LIT 0x14, OP [] QMI_IDL_AGGREGATE,
      OFFSET8 qmiLocGetSensorPerformanceControlConfigIndMsgT_v02 ''accelSamplingSpecHigh'', TYPE88 0 25,
     TLV [QMI_IDL_TLV_FLAGS_LAST_TLV, QMI_IDL_TLV_FLAGS_OPTIONAL] (OFFSET8_DIFF qmiLocGetSensorPerformanceControlConfigIndMsgT_v02 ''gyroSamplingSpecHigh'' ''gyroSamplingSpecHigh_valid''),
      LIT 0x15, OP [] QMI_IDL_AGGREGATE,
      OFFSET8 qmiLocGetSensorPerformanceControlConfigIndMsgT_v02 ''gyroSamplingSpecHigh'', TYPE88 0 25]"

lemma qmiLocGetSensorPerformanceControlConfigIndMsgT_data_v02_ok [idl_simps]:
  "describe_msg qmiLocGetSensorPerformanceControlConfigIndMsgT_data_v02 = Some (qmiLocGetSensorPerformanceControlConfigIndMsgT_v02, 33, [(1, (0, 25), qmiLocSensorControlConfigSamplingSpecStructT_v02), (1, (0, 25), qmiLocSensorControlConfigSamplingSpecStructT_v02), (1, (0, 25), qmiLocSensorControlConfigSamplingSpecStructT_v02), (1, (0, 25), qmiLocSensorControlConfigSamplingSpecStructT_v02)])"
  by (simp add: qmiLocGetSensorPerformanceControlConfigIndMsgT_data_v02_def qmiLocGetSensorPerformanceControlConfigIndMsgT_v02_def [THEN arg_cong, of laid] analyse_simps layout_simps cong: idl_cong)

definition qmiLocInjectSuplCertificateReqMsgT_data_v02 :: "idl_byte list" where
  "qmiLocInjectSuplCertificateReqMsgT_data_v02 =
    [LIT 0x01, OP [] QMI_IDL_GENERIC_1_BYTE,
      OFFSET8 qmiLocInjectSuplCertificateReqMsgT_v02 ''suplCertId'',
     TLV [QMI_IDL_TLV_FLAGS_LAST_TLV] (LIT 0x02),
      OP [QMI_IDL_FLAGS_IS_ARRAY, QMI_IDL_FLAGS_IS_VARIABLE_LEN, QMI_IDL_FLAGS_SZ_IS_16] QMI_IDL_GENERIC_1_BYTE,
      OFFSET8 qmiLocInjectSuplCertificateReqMsgT_v02 ''suplCertData'',
      LO8 QMI_LOC_MAX_SUPL_CERT_LENGTH_V02, HI8 QMI_LOC_MAX_SUPL_CERT_LENGTH_V02,
      OFFSET8_DIFF qmiLocInjectSuplCertificateReqMsgT_v02 ''suplCertData'' ''suplCertData_len'']"

lemma qmiLocInjectSuplCertificateReqMsgT_data_v02_ok [idl_simps]:
  "describe_msg qmiLocInjectSuplCertificateReqMsgT_data_v02 = Some (qmiLocInjectSuplCertificateReqMsgT_v02, 2009, [])"
  by (simp add: qmiLocInjectSuplCertificateReqMsgT_data_v02_def qmiLocInjectSuplCertificateReqMsgT_v02_def [THEN arg_cong, of laid] analyse_simps layout_simps cong: idl_cong)

definition qmiLocInjectSuplCertificateIndMsgT_data_v02 :: "idl_byte list" where
  "qmiLocInjectSuplCertificateIndMsgT_data_v02 =
    [TLV [QMI_IDL_TLV_FLAGS_LAST_TLV] (LIT 0x01), OP [] QMI_IDL_GENERIC_4_BYTE,
      OFFSET8 qmiLocInjectSuplCertificateIndMsgT_v02 ''status'']"

lemma qmiLocInjectSuplCertificateIndMsgT_data_v02_ok [idl_simps]:
  "describe_msg qmiLocInjectSuplCertificateIndMsgT_data_v02 = Some (qmiLocInjectSuplCertificateIndMsgT_v02, 7, [])"
  by (simp add: qmiLocInjectSuplCertificateIndMsgT_data_v02_def qmiLocInjectSuplCertificateIndMsgT_v02_def [THEN arg_cong, of laid] analyse_simps layout_simps cong: idl_cong)

definition qmiLocDeleteSuplCertificateReqMsgT_data_v02 :: "idl_byte list" where
  "qmiLocDeleteSuplCertificateReqMsgT_data_v02 =
    [TLV [QMI_IDL_TLV_FLAGS_LAST_TLV, QMI_IDL_TLV_FLAGS_OPTIONAL] (OFFSET8_DIFF qmiLocDeleteSuplCertificateReqMsgT_v02 ''suplCertId'' ''suplCertId_valid''),
      LIT 0x10, OP [] QMI_IDL_GENERIC_1_BYTE,
      OFFSET8 qmiLocDeleteSuplCertificateReqMsgT_v02 ''suplCertId'']"

lemma qmiLocDeleteSuplCertificateReqMsgT_data_v02_ok [idl_simps]:
  "describe_msg qmiLocDeleteSuplCertificateReqMsgT_data_v02 = Some (qmiLocDeleteSuplCertificateReqMsgT_v02, 4, [])"
  by (simp add: qmiLocDeleteSuplCertificateReqMsgT_data_v02_def qmiLocDeleteSuplCertificateReqMsgT_v02_def [THEN arg_cong, of laid] analyse_simps layout_simps cong: idl_cong)

definition qmiLocDeleteSuplCertificateIndMsgT_data_v02 :: "idl_byte list" where
  "qmiLocDeleteSuplCertificateIndMsgT_data_v02 =
    [TLV [QMI_IDL_TLV_FLAGS_LAST_TLV] (LIT 0x01), OP [] QMI_IDL_GENERIC_4_BYTE,
      OFFSET8 qmiLocDeleteSuplCertificateIndMsgT_v02 ''status'']"

lemma qmiLocDeleteSuplCertificateIndMsgT_data_v02_ok [idl_simps]:
  "describe_msg qmiLocDeleteSuplCertificateIndMsgT_data_v02 = Some (qmiLocDeleteSuplCertificateIndMsgT_v02, 7, [])"
  by (simp add: qmiLocDeleteSuplCertificateIndMsgT_data_v02_def qmiLocDeleteSuplCertificateIndMsgT_v02_def [THEN arg_cong, of laid] analyse_simps layout_simps cong: idl_cong)

definition qmiLocSetPositionEngineConfigParametersReqMsgT_data_v02 :: "idl_byte list" where
  "qmiLocSetPositionEngineConfigParametersReqMsgT_data_v02 =
    [TLV [QMI_IDL_TLV_FLAGS_OPTIONAL] (OFFSET8_DIFF qmiLocSetPositionEngineConfigParametersReqMsgT_v02 ''injectedPositionControl'' ''injectedPositionControl_valid''),
      LIT 0x10, OP [] QMI_IDL_GENERIC_1_BYTE,
      OFFSET8 qmiLocSetPositionEngineConfigParametersReqMsgT_v02 ''injectedPositionControl'',
     TLV [QMI_IDL_TLV_FLAGS_OPTIONAL] (OFFSET8_DIFF qmiLocSetPositionEngineConfigParametersReqMsgT_v02 ''filterSvUsage'' ''filterSvUsage_valid''),
      LIT 0x11, OP [] QMI_IDL_GENERIC_1_BYTE,
      OFFSET8 qmiLocSetPositionEngineConfigParametersReqMsgT_v02 ''filterSvUsage'',
     TLV [QMI_IDL_TLV_FLAGS_OPTIONAL] (OFFSET8_DIFF qmiLocSetPositionEngineConfigParametersReqMsgT_v02 ''storeAssistData'' ''storeAssistData_valid''),
      LIT 0x12, OP [] QMI_IDL_GENERIC_1_BYTE,
      OFFSET8 qmiLocSetPositionEngineConfigParametersReqMsgT_v02 ''storeAssistData'',
     TLV [QMI_IDL_TLV_FLAGS_LAST_TLV, QMI_IDL_TLV_FLAGS_OPTIONAL] (OFFSET8_DIFF qmiLocSetPositionEngineConfigParametersReqMsgT_v02 ''enableFasterTTFF'' ''enableFasterTTFF_valid''),
      LIT 0x13, OP [] QMI_IDL_GENERIC_1_BYTE,
      OFFSET8 qmiLocSetPositionEngineConfigParametersReqMsgT_v02 ''enableFasterTTFF'']"

lemma qmiLocSetPositionEngineConfigParametersReqMsgT_data_v02_ok [idl_simps]:
  "describe_msg qmiLocSetPositionEngineConfigParametersReqMsgT_data_v02 = Some (qmiLocSetPositionEngineConfigParametersReqMsgT_v02, 16, [])"
  by (simp add: qmiLocSetPositionEngineConfigParametersReqMsgT_data_v02_def qmiLocSetPositionEngineConfigParametersReqMsgT_v02_def [THEN arg_cong, of laid] analyse_simps layout_simps cong: idl_cong)

definition qmiLocSetPositionEngineConfigParametersIndMsgT_data_v02 :: "idl_byte list" where
  "qmiLocSetPositionEngineConfigParametersIndMsgT_data_v02 =
    [LIT 0x01, OP [] QMI_IDL_GENERIC_4_BYTE,
      OFFSET8 qmiLocSetPositionEngineConfigParametersIndMsgT_v02 ''status'',
     TLV [QMI_IDL_TLV_FLAGS_LAST_TLV, QMI_IDL_TLV_FLAGS_OPTIONAL] (OFFSET8_DIFF qmiLocSetPositionEngineConfigParametersIndMsgT_v02 ''failedPositionEngineConfigParamMask'' ''failedPositionEngineConfigParamMask_valid''),
      LIT 0x10, OP [] QMI_IDL_GENERIC_4_BYTE,
      OFFSET8 qmiLocSetPositionEngineConfigParametersIndMsgT_v02 ''failedPositionEngineConfigParamMask'']"

lemma qmiLocSetPositionEngineConfigParametersIndMsgT_data_v02_ok [idl_simps]:
  "describe_msg qmiLocSetPositionEngineConfigParametersIndMsgT_data_v02 = Some (qmiLocSetPositionEngineConfigParametersIndMsgT_v02, 14, [])"
  by (simp add: qmiLocSetPositionEngineConfigParametersIndMsgT_data_v02_def qmiLocSetPositionEngineConfigParametersIndMsgT_v02_def [THEN arg_cong, of laid] analyse_simps layout_simps cong: idl_cong)

definition qmiLocGetPositionEngineConfigParametersReqMsgT_data_v02 :: "idl_byte list" where
  "qmiLocGetPositionEngineConfigParametersReqMsgT_data_v02 =
    [TLV [QMI_IDL_TLV_FLAGS_LAST_TLV] (LIT 0x01), OP [] QMI_IDL_GENERIC_4_BYTE,
      OFFSET8 qmiLocGetPositionEngineConfigParametersReqMsgT_v02 ''getPositionEngineConfigParamMask'']"

lemma qmiLocGetPositionEngineConfigParametersReqMsgT_data_v02_ok [idl_simps]:
  "describe_msg qmiLocGetPositionEngineConfigParametersReqMsgT_data_v02 = Some (qmiLocGetPositionEngineConfigParametersReqMsgT_v02, 7, [])"
  by (simp add: qmiLocGetPositionEngineConfigParametersReqMsgT_data_v02_def qmiLocGetPositionEngineConfigParametersReqMsgT_v02_def [THEN arg_cong, of laid] analyse_simps layout_simps cong: idl_cong)

definition qmiLocGetPositionEngineConfigParametersIndMsgT_data_v02 :: "idl_byte list" where
  "qmiLocGetPositionEngineConfigParametersIndMsgT_data_v02 =
    [LIT 0x01, OP [] QMI_IDL_GENERIC_4_BYTE,
      OFFSET8 qmiLocGetPositionEngineConfigParametersIndMsgT_v02 ''status'',
     TLV [QMI_IDL_TLV_FLAGS_OPTIONAL] (OFFSET8_DIFF qmiLocGetPositionEngineConfigParametersIndMsgT_v02 ''injectedPositionControl'' ''injectedPositionControl_valid''),
      LIT 0x10, OP [] QMI_IDL_GENERIC_1_BYTE,
      OFFSET8 qmiLocGetPositionEngineConfigParametersIndMsgT_v02 ''injectedPositionControl'',
     TLV [QMI_IDL_TLV_FLAGS_OPTIONAL] (OFFSET8_DIFF qmiLocGetPositionEngineConfigParametersIndMsgT_v02 ''filterSvUsage'' ''filterSvUsage_valid''),
      LIT 0x11, OP [] QMI_IDL_GENERIC_1_BYTE,
      OFFSET8 qmiLocGetPositionEngineConfigParametersIndMsgT_v02 ''filterSvUsage'',
     TLV [QMI_IDL_TLV_FLAGS_OPTIONAL] (OFFSET8_DIFF qmiLocGetPositionEngineConfigParametersIndMsgT_v02 ''storeAssistData'' ''storeAssistData_valid''),
      LIT 0x12, OP [] QMI_IDL_GENERIC_1_BYTE,
      OFFSET8 qmiLocGetPositionEngineConfigParametersIndMsgT_v02 ''storeAssistData'',
     TLV [QMI_IDL_TLV_FLAGS_LAST_TLV, QMI_IDL_TLV_FLAGS_OPTIONAL] (OFFSET8_DIFF qmiLocGetPositionEngineConfigParametersIndMsgT_v02 ''enableFasterTTFF'' ''enableFasterTTFF_valid''),
      LIT 0x13, OP [] QMI_IDL_GENERIC_1_BYTE,
      OFFSET8 qmiLocGetPositionEngineConfigParametersIndMsgT_v02 ''enableFasterTTFF'']"

lemma qmiLocGetPositionEngineConfigParametersIndMsgT_data_v02_ok [idl_simps]:
  "describe_msg qmiLocGetPositionEngineConfigParametersIndMsgT_data_v02 = Some (qmiLocGetPositionEngineConfigParametersIndMsgT_v02, 23, [])"
  by (simp add: qmiLocGetPositionEngineConfigParametersIndMsgT_data_v02_def qmiLocGetPositionEngineConfigParametersIndMsgT_v02_def [THEN arg_cong, of laid] analyse_simps layout_simps cong: idl_cong)

definition qmiLocAddCircularGeofenceReqMsgT_data_v02 :: "idl_byte list" where
  "qmiLocAddCircularGeofenceReqMsgT_data_v02 =
    [LIT 0x01, OP [] QMI_IDL_GENERIC_4_BYTE,
      OFFSET8 qmiLocAddCircularGeofenceReqMsgT_v02 ''transactionId'',
     LIT 0x02, OP [] QMI_IDL_AGGREGATE,
      OFFSET8 qmiLocAddCircularGeofenceReqMsgT_v02 ''circularGeofenceArgs'', TYPE88 0 43,
     LIT 0x03, OP [] QMI_IDL_GENERIC_1_BYTE,
      OFFSET8 qmiLocAddCircularGeofenceReqMsgT_v02 ''breachMask'',
     LIT 0x04, OP [] QMI_IDL_GENERIC_1_BYTE,
      OFFSET8 qmiLocAddCircularGeofenceReqMsgT_v02 ''includePosition'',
     TLV [QMI_IDL_TLV_FLAGS_OPTIONAL] (OFFSET8_DIFF qmiLocAddCircularGeofenceReqMsgT_v02 ''responsiveness'' ''responsiveness_valid''),
      LIT 0x10, OP [] QMI_IDL_GENERIC_4_BYTE,
      OFFSET8 qmiLocAddCircularGeofenceReqMsgT_v02 ''responsiveness'',
     TLV [QMI_IDL_TLV_FLAGS_OPTIONAL] (OFFSET8_DIFF qmiLocAddCircularGeofenceReqMsgT_v02 ''confidence'' ''confidence_valid''),
      LIT 0x11, OP [] QMI_IDL_GENERIC_4_BYTE,
      OFFSET8 qmiLocAddCircularGeofenceReqMsgT_v02 ''confidence'',
     TLV [QMI_IDL_TLV_FLAGS_OPTIONAL] (OFFSET8_DIFF qmiLocAddCircularGeofenceReqMsgT_v02 ''customResponsivenessValue'' ''customResponsivenessValue_valid''),
      LIT 0x12, OP [] QMI_IDL_GENERIC_4_BYTE,
      OFFSET8 qmiLocAddCircularGeofenceReqMsgT_v02 ''customResponsivenessValue'',
     TLV [QMI_IDL_TLV_FLAGS_OPTIONAL] (OFFSET8_DIFF qmiLocAddCircularGeofenceReqMsgT_v02 ''dwellTime'' ''dwellTime_valid''),
      LIT 0x13, OP [] QMI_IDL_GENERIC_4_BYTE, OFFSET8 qmiLocAddCircularGeofenceReqMsgT_v02 ''dwellTime'',
     TLV [QMI_IDL_TLV_FLAGS_LAST_TLV, QMI_IDL_TLV_FLAGS_OPTIONAL] (OFFSET8_DIFF qmiLocAddCircularGeofenceReqMsgT_v02 ''dwellTypeMask'' ''dwellTypeMask_valid''),
      LIT 0x14, OP [] QMI_IDL_GENERIC_1_BYTE,
      OFFSET8 qmiLocAddCircularGeofenceReqMsgT_v02 ''dwellTypeMask'']"

lemma qmiLocAddCircularGeofenceReqMsgT_data_v02_ok [idl_simps]:
  "describe_msg qmiLocAddCircularGeofenceReqMsgT_data_v02 = Some (qmiLocAddCircularGeofenceReqMsgT_v02, 50, [(1, (0, 43), qmiLocCircularGeofenceArgsStructT_v02)])"
  by (simp add: qmiLocAddCircularGeofenceReqMsgT_data_v02_def qmiLocAddCircularGeofenceReqMsgT_v02_def [THEN arg_cong, of laid] analyse_simps layout_simps cong: idl_cong)

definition qmiLocAddCircularGeofenceIndMsgT_data_v02 :: "idl_byte list" where
  "qmiLocAddCircularGeofenceIndMsgT_data_v02 =
    [LIT 0x01, OP [] QMI_IDL_GENERIC_4_BYTE, OFFSET8 qmiLocAddCircularGeofenceIndMsgT_v02 ''status'',
     TLV [QMI_IDL_TLV_FLAGS_OPTIONAL] (OFFSET8_DIFF qmiLocAddCircularGeofenceIndMsgT_v02 ''transactionId'' ''transactionId_valid''),
      LIT 0x10, OP [] QMI_IDL_GENERIC_4_BYTE,
      OFFSET8 qmiLocAddCircularGeofenceIndMsgT_v02 ''transactionId'',
     TLV [QMI_IDL_TLV_FLAGS_LAST_TLV, QMI_IDL_TLV_FLAGS_OPTIONAL] (OFFSET8_DIFF qmiLocAddCircularGeofenceIndMsgT_v02 ''geofenceId'' ''geofenceId_valid''),
      LIT 0x11, OP [] QMI_IDL_GENERIC_4_BYTE,
      OFFSET8 qmiLocAddCircularGeofenceIndMsgT_v02 ''geofenceId'']"

lemma qmiLocAddCircularGeofenceIndMsgT_data_v02_ok [idl_simps]:
  "describe_msg qmiLocAddCircularGeofenceIndMsgT_data_v02 = Some (qmiLocAddCircularGeofenceIndMsgT_v02, 21, [])"
  by (simp add: qmiLocAddCircularGeofenceIndMsgT_data_v02_def qmiLocAddCircularGeofenceIndMsgT_v02_def [THEN arg_cong, of laid] analyse_simps layout_simps cong: idl_cong)

definition qmiLocDeleteGeofenceReqMsgT_data_v02 :: "idl_byte list" where
  "qmiLocDeleteGeofenceReqMsgT_data_v02 =
    [LIT 0x01, OP [] QMI_IDL_GENERIC_4_BYTE, OFFSET8 qmiLocDeleteGeofenceReqMsgT_v02 ''geofenceId'',
     TLV [QMI_IDL_TLV_FLAGS_LAST_TLV] (LIT 0x02), OP [] QMI_IDL_GENERIC_4_BYTE,
      OFFSET8 qmiLocDeleteGeofenceReqMsgT_v02 ''transactionId'']"

lemma qmiLocDeleteGeofenceReqMsgT_data_v02_ok [idl_simps]:
  "describe_msg qmiLocDeleteGeofenceReqMsgT_data_v02 = Some (qmiLocDeleteGeofenceReqMsgT_v02, 14, [])"
  by (simp add: qmiLocDeleteGeofenceReqMsgT_data_v02_def qmiLocDeleteGeofenceReqMsgT_v02_def [THEN arg_cong, of laid] analyse_simps layout_simps cong: idl_cong)

definition qmiLocDeleteGeofenceIndMsgT_data_v02 :: "idl_byte list" where
  "qmiLocDeleteGeofenceIndMsgT_data_v02 =
    [LIT 0x01, OP [] QMI_IDL_GENERIC_4_BYTE, OFFSET8 qmiLocDeleteGeofenceIndMsgT_v02 ''status'',
     TLV [QMI_IDL_TLV_FLAGS_OPTIONAL] (OFFSET8_DIFF qmiLocDeleteGeofenceIndMsgT_v02 ''geofenceId'' ''geofenceId_valid''),
      LIT 0x10, OP [] QMI_IDL_GENERIC_4_BYTE, OFFSET8 qmiLocDeleteGeofenceIndMsgT_v02 ''geofenceId'',
     TLV [QMI_IDL_TLV_FLAGS_LAST_TLV, QMI_IDL_TLV_FLAGS_OPTIONAL] (OFFSET8_DIFF qmiLocDeleteGeofenceIndMsgT_v02 ''transactionId'' ''transactionId_valid''),
      LIT 0x11, OP [] QMI_IDL_GENERIC_4_BYTE, OFFSET8 qmiLocDeleteGeofenceIndMsgT_v02 ''transactionId'']"

lemma qmiLocDeleteGeofenceIndMsgT_data_v02_ok [idl_simps]:
  "describe_msg qmiLocDeleteGeofenceIndMsgT_data_v02 = Some (qmiLocDeleteGeofenceIndMsgT_v02, 21, [])"
  by (simp add: qmiLocDeleteGeofenceIndMsgT_data_v02_def qmiLocDeleteGeofenceIndMsgT_v02_def [THEN arg_cong, of laid] analyse_simps layout_simps cong: idl_cong)

definition qmiLocQueryGeofenceReqMsgT_data_v02 :: "idl_byte list" where
  "qmiLocQueryGeofenceReqMsgT_data_v02 =
    [LIT 0x01, OP [] QMI_IDL_GENERIC_4_BYTE, OFFSET8 qmiLocQueryGeofenceReqMsgT_v02 ''geofenceId'',
     TLV [QMI_IDL_TLV_FLAGS_LAST_TLV] (LIT 0x02), OP [] QMI_IDL_GENERIC_4_BYTE,
      OFFSET8 qmiLocQueryGeofenceReqMsgT_v02 ''transactionId'']"

lemma qmiLocQueryGeofenceReqMsgT_data_v02_ok [idl_simps]:
  "describe_msg qmiLocQueryGeofenceReqMsgT_data_v02 = Some (qmiLocQueryGeofenceReqMsgT_v02, 14, [])"
  by (simp add: qmiLocQueryGeofenceReqMsgT_data_v02_def qmiLocQueryGeofenceReqMsgT_v02_def [THEN arg_cong, of laid] analyse_simps layout_simps cong: idl_cong)

definition qmiLocQueryGeofenceIndMsgT_data_v02 :: "idl_byte list" where
  "qmiLocQueryGeofenceIndMsgT_data_v02 =
    [LIT 0x01, OP [] QMI_IDL_GENERIC_4_BYTE, OFFSET8 qmiLocQueryGeofenceIndMsgT_v02 ''status'',
     TLV [QMI_IDL_TLV_FLAGS_OPTIONAL] (OFFSET8_DIFF qmiLocQueryGeofenceIndMsgT_v02 ''geofenceId'' ''geofenceId_valid''),
      LIT 0x10, OP [] QMI_IDL_GENERIC_4_BYTE, OFFSET8 qmiLocQueryGeofenceIndMsgT_v02 ''geofenceId'',
     TLV [QMI_IDL_TLV_FLAGS_OPTIONAL] (OFFSET8_DIFF qmiLocQueryGeofenceIndMsgT_v02 ''transactionId'' ''transactionId_valid''),
      LIT 0x11, OP [] QMI_IDL_GENERIC_4_BYTE, OFFSET8 qmiLocQueryGeofenceIndMsgT_v02 ''transactionId'',
     TLV [QMI_IDL_TLV_FLAGS_OPTIONAL] (OFFSET8_DIFF qmiLocQueryGeofenceIndMsgT_v02 ''geofenceOrigin'' ''geofenceOrigin_valid''),
      LIT 0x12, OP [] QMI_IDL_GENERIC_4_BYTE, OFFSET8 qmiLocQueryGeofenceIndMsgT_v02 ''geofenceOrigin'',
     TLV [QMI_IDL_TLV_FLAGS_OPTIONAL] (OFFSET8_DIFF qmiLocQueryGeofenceIndMsgT_v02 ''posWrtGeofence'' ''posWrtGeofence_valid''),
      LIT 0x13, OP [] QMI_IDL_GENERIC_4_BYTE, OFFSET8 qmiLocQueryGeofenceIndMsgT_v02 ''posWrtGeofence'',
     TLV [QMI_IDL_TLV_FLAGS_OPTIONAL] (OFFSET8_DIFF qmiLocQueryGeofenceIndMsgT_v02 ''circularGeofenceArgs'' ''circularGeofenceArgs_valid''),
      LIT 0x14, OP [] QMI_IDL_AGGREGATE,
      OFFSET8 qmiLocQueryGeofenceIndMsgT_v02 ''circularGeofenceArgs'', TYPE88 0 43,
     TLV [QMI_IDL_TLV_FLAGS_LAST_TLV, QMI_IDL_TLV_FLAGS_OPTIONAL] (OFFSET8_DIFF qmiLocQueryGeofenceIndMsgT_v02 ''geofenceState'' ''geofenceState_valid''),
      LIT 0x15, OP [] QMI_IDL_GENERIC_4_BYTE, OFFSET8 qmiLocQueryGeofenceIndMsgT_v02 ''geofenceState'']"

lemma qmiLocQueryGeofenceIndMsgT_data_v02_ok [idl_simps]:
  "describe_msg qmiLocQueryGeofenceIndMsgT_data_v02 = Some (qmiLocQueryGeofenceIndMsgT_v02, 45, [(1, (0, 43), qmiLocCircularGeofenceArgsStructT_v02)])"
  by (simp add: qmiLocQueryGeofenceIndMsgT_data_v02_def qmiLocQueryGeofenceIndMsgT_v02_def [THEN arg_cong, of laid] analyse_simps layout_simps cong: idl_cong)

definition qmiLocSetGeofenceEngineConfigReqMsgT_data_v02 :: "idl_byte list" where
  "qmiLocSetGeofenceEngineConfigReqMsgT_data_v02 =
    [LIT 0x01, OP [] QMI_IDL_GENERIC_4_BYTE,
      OFFSET8 qmiLocSetGeofenceEngineConfigReqMsgT_v02 ''transactionId'',
     TLV [QMI_IDL_TLV_FLAGS_OPTIONAL] (OFFSET8_DIFF qmiLocSetGeofenceEngineConfigReqMsgT_v02 ''gnssUnavailableIndicationTimeout'' ''gnssUnavailableIndicationTimeout_valid''),
      LIT 0x10, OP [] QMI_IDL_GENERIC_4_BYTE,
      OFFSET8 qmiLocSetGeofenceEngineConfigReqMsgT_v02 ''gnssUnavailableIndicationTimeout'',
     TLV [QMI_IDL_TLV_FLAGS_OPTIONAL] (OFFSET8_DIFF qmiLocSetGeofenceEngineConfigReqMsgT_v02 ''maxGeofences'' ''maxGeofences_valid''),
      LIT 0x11, OP [] QMI_IDL_GENERIC_4_BYTE,
      OFFSET8 qmiLocSetGeofenceEngineConfigReqMsgT_v02 ''maxGeofences'',
     TLV [QMI_IDL_TLV_FLAGS_OPTIONAL] (OFFSET8_DIFF qmiLocSetGeofenceEngineConfigReqMsgT_v02 ''enableMotionDetectionSources'' ''enableMotionDetectionSources_valid''),
      LIT 0x12, OP [] QMI_IDL_GENERIC_4_BYTE,
      OFFSET8 qmiLocSetGeofenceEngineConfigReqMsgT_v02 ''enableMotionDetectionSources'',
     TLV [QMI_IDL_TLV_FLAGS_OPTIONAL] (OFFSET8_DIFF qmiLocSetGeofenceEngineConfigReqMsgT_v02 ''enableCpiUsage'' ''enableCpiUsage_valid''),
      LIT 0x13, OP [] QMI_IDL_GENERIC_1_BYTE,
      OFFSET8 qmiLocSetGeofenceEngineConfigReqMsgT_v02 ''enableCpiUsage'',
     TLV [QMI_IDL_TLV_FLAGS_OPTIONAL] (OFFSET8_DIFF qmiLocSetGeofenceEngineConfigReqMsgT_v02 ''gnssPositionSessionTimeout'' ''gnssPositionSessionTimeout_valid''),
      LIT 0x14, OP [] QMI_IDL_GENERIC_4_BYTE,
      OFFSET8 qmiLocSetGeofenceEngineConfigReqMsgT_v02 ''gnssPositionSessionTimeout'',
     TLV [QMI_IDL_TLV_FLAGS_OPTIONAL] (OFFSET8_DIFF qmiLocSetGeofenceEngineConfigReqMsgT_v02 ''gnssPositionMaxPuncAcceptable'' ''gnssPositionMaxPuncAcceptable_valid''),
      LIT 0x15, OP [] QMI_IDL_GENERIC_4_BYTE,
      OFFSET8 qmiLocSetGeofenceEngineConfigReqMsgT_v02 ''gnssPositionMaxPuncAcceptable'',
     TLV [QMI_IDL_TLV_FLAGS_OPTIONAL] (OFFSET8_DIFF qmiLocSetGeofenceEngineConfigReqMsgT_v02 ''mediumResponsivenessValue'' ''mediumResponsivenessValue_valid''),
      LIT 0x16, OP [] QMI_IDL_GENERIC_4_BYTE,
      OFFSET8 qmiLocSetGeofenceEngineConfigReqMsgT_v02 ''mediumResponsivenessValue'',
     TLV [QMI_IDL_TLV_FLAGS_OPTIONAL] (OFFSET8_DIFF qmiLocSetGeofenceEngineConfigReqMsgT_v02 ''chalGnssEnvMinCpiWaitInterval'' ''chalGnssEnvMinCpiWaitInterval_valid''),
      LIT 0x17, OP [] QMI_IDL_GENERIC_4_BYTE,
      OFFSET8 qmiLocSetGeofenceEngineConfigReqMsgT_v02 ''chalGnssEnvMinCpiWaitInterval'',
     TLV [QMI_IDL_TLV_FLAGS_LAST_TLV, QMI_IDL_TLV_FLAGS_OPTIONAL] (OFFSET8_DIFF qmiLocSetGeofenceEngineConfigReqMsgT_v02 ''motionStateInfo'' ''motionStateInfo_valid''),
      LIT 0x18, OP [QMI_IDL_FLAGS_IS_ARRAY, QMI_IDL_FLAGS_IS_VARIABLE_LEN] QMI_IDL_AGGREGATE,
      OFFSET8 qmiLocSetGeofenceEngineConfigReqMsgT_v02 ''motionStateInfo'',
      LIT QMI_LOC_GEOFENCE_MAX_MOTION_STATES_V02,
      OFFSET8_DIFF qmiLocSetGeofenceEngineConfigReqMsgT_v02 ''motionStateInfo'' ''motionStateInfo_len'',
      TYPE88 0 44]"

lemma qmiLocSetGeofenceEngineConfigReqMsgT_data_v02_ok [idl_simps]:
  "describe_msg qmiLocSetGeofenceEngineConfigReqMsgT_data_v02 = Some (qmiLocSetGeofenceEngineConfigReqMsgT_v02, 64, [(20, (0, 44), qmiLocGeofenceMotionStateConfigStructT_v02)])"
  by (simp add: qmiLocSetGeofenceEngineConfigReqMsgT_data_v02_def qmiLocSetGeofenceEngineConfigReqMsgT_v02_def [THEN arg_cong, of laid] analyse_simps layout_simps cong: idl_cong)

definition qmiLocSetGeofenceEngineConfigIndMsgT_data_v02 :: "idl_byte list" where
  "qmiLocSetGeofenceEngineConfigIndMsgT_data_v02 =
    [LIT 0x01, OP [] QMI_IDL_GENERIC_4_BYTE,
      OFFSET8 qmiLocSetGeofenceEngineConfigIndMsgT_v02 ''status'',
     TLV [QMI_IDL_TLV_FLAGS_LAST_TLV, QMI_IDL_TLV_FLAGS_OPTIONAL] (OFFSET8_DIFF qmiLocSetGeofenceEngineConfigIndMsgT_v02 ''transactionId'' ''transactionId_valid''),
      LIT 0x10, OP [] QMI_IDL_GENERIC_4_BYTE,
      OFFSET8 qmiLocSetGeofenceEngineConfigIndMsgT_v02 ''transactionId'']"

lemma qmiLocSetGeofenceEngineConfigIndMsgT_data_v02_ok [idl_simps]:
  "describe_msg qmiLocSetGeofenceEngineConfigIndMsgT_data_v02 = Some (qmiLocSetGeofenceEngineConfigIndMsgT_v02, 14, [])"
  by (simp add: qmiLocSetGeofenceEngineConfigIndMsgT_data_v02_def qmiLocSetGeofenceEngineConfigIndMsgT_v02_def [THEN arg_cong, of laid] analyse_simps layout_simps cong: idl_cong)

definition qmiLocGetGeofenceEngineConfigReqMsgT_data_v02 :: "idl_byte list" where
  "qmiLocGetGeofenceEngineConfigReqMsgT_data_v02 =
    [TLV [QMI_IDL_TLV_FLAGS_LAST_TLV] (LIT 0x01), OP [] QMI_IDL_GENERIC_4_BYTE,
      OFFSET8 qmiLocGetGeofenceEngineConfigReqMsgT_v02 ''transactionId'']"

lemma qmiLocGetGeofenceEngineConfigReqMsgT_data_v02_ok [idl_simps]:
  "describe_msg qmiLocGetGeofenceEngineConfigReqMsgT_data_v02 = Some (qmiLocGetGeofenceEngineConfigReqMsgT_v02, 7, [])"
  by (simp add: qmiLocGetGeofenceEngineConfigReqMsgT_data_v02_def qmiLocGetGeofenceEngineConfigReqMsgT_v02_def [THEN arg_cong, of laid] analyse_simps layout_simps cong: idl_cong)

definition qmiLocGetGeofenceEngineConfigIndMsgT_data_v02 :: "idl_byte list" where
  "qmiLocGetGeofenceEngineConfigIndMsgT_data_v02 =
    [LIT 0x01, OP [] QMI_IDL_GENERIC_4_BYTE,
      OFFSET8 qmiLocGetGeofenceEngineConfigIndMsgT_v02 ''status'',
     TLV [QMI_IDL_TLV_FLAGS_OPTIONAL] (OFFSET8_DIFF qmiLocGetGeofenceEngineConfigIndMsgT_v02 ''transactionId'' ''transactionId_valid''),
      LIT 0x10, OP [] QMI_IDL_GENERIC_4_BYTE,
      OFFSET8 qmiLocGetGeofenceEngineConfigIndMsgT_v02 ''transactionId'',
     TLV [QMI_IDL_TLV_FLAGS_OPTIONAL] (OFFSET8_DIFF qmiLocGetGeofenceEngineConfigIndMsgT_v02 ''gnssUnavailableIndicationTimeout'' ''gnssUnavailableIndicationTimeout_valid''),
      LIT 0x11, OP [] QMI_IDL_GENERIC_4_BYTE,
      OFFSET8 qmiLocGetGeofenceEngineConfigIndMsgT_v02 ''gnssUnavailableIndicationTimeout'',
     TLV [QMI_IDL_TLV_FLAGS_OPTIONAL] (OFFSET8_DIFF qmiLocGetGeofenceEngineConfigIndMsgT_v02 ''maxGeofences'' ''maxGeofences_valid''),
      LIT 0x12, OP [] QMI_IDL_GENERIC_4_BYTE,
      OFFSET8 qmiLocGetGeofenceEngineConfigIndMsgT_v02 ''maxGeofences'',
     TLV [QMI_IDL_TLV_FLAGS_OPTIONAL] (OFFSET8_DIFF qmiLocGetGeofenceEngineConfigIndMsgT_v02 ''enabledMotionDetectionSources'' ''enabledMotionDetectionSources_valid''),
      LIT 0x13, OP [] QMI_IDL_GENERIC_4_BYTE,
      OFFSET8 qmiLocGetGeofenceEngineConfigIndMsgT_v02 ''enabledMotionDetectionSources'',
     TLV [QMI_IDL_TLV_FLAGS_LAST_TLV, QMI_IDL_TLV_FLAGS_OPTIONAL] (OFFSET8_DIFF qmiLocGetGeofenceEngineConfigIndMsgT_v02 ''enabledCpiUsage'' ''enabledCpiUsage_valid''),
      LIT 0x14, OP [] QMI_IDL_GENERIC_1_BYTE,
      OFFSET8 qmiLocGetGeofenceEngineConfigIndMsgT_v02 ''enabledCpiUsage'']"

lemma qmiLocGetGeofenceEngineConfigIndMsgT_data_v02_ok [idl_simps]:
  "describe_msg qmiLocGetGeofenceEngineConfigIndMsgT_data_v02 = Some (qmiLocGetGeofenceEngineConfigIndMsgT_v02, 39, [])"
  by (simp add: qmiLocGetGeofenceEngineConfigIndMsgT_data_v02_def qmiLocGetGeofenceEngineConfigIndMsgT_v02_def [THEN arg_cong, of laid] analyse_simps layout_simps cong: idl_cong)

definition qmiLocEditGeofenceReqMsgT_data_v02 :: "idl_byte list" where
  "qmiLocEditGeofenceReqMsgT_data_v02 =
    [LIT 0x01, OP [] QMI_IDL_GENERIC_4_BYTE, OFFSET8 qmiLocEditGeofenceReqMsgT_v02 ''geofenceId'',
     LIT 0x02, OP [] QMI_IDL_GENERIC_4_BYTE, OFFSET8 qmiLocEditGeofenceReqMsgT_v02 ''transactionId'',
     TLV [QMI_IDL_TLV_FLAGS_OPTIONAL] (OFFSET8_DIFF qmiLocEditGeofenceReqMsgT_v02 ''geofenceState'' ''geofenceState_valid''),
      LIT 0x10, OP [] QMI_IDL_GENERIC_4_BYTE, OFFSET8 qmiLocEditGeofenceReqMsgT_v02 ''geofenceState'',
     TLV [QMI_IDL_TLV_FLAGS_OPTIONAL] (OFFSET8_DIFF qmiLocEditGeofenceReqMsgT_v02 ''breachMask'' ''breachMask_valid''),
      LIT 0x11, OP [] QMI_IDL_GENERIC_1_BYTE, OFFSET8 qmiLocEditGeofenceReqMsgT_v02 ''breachMask'',
     TLV [QMI_IDL_TLV_FLAGS_LAST_TLV, QMI_IDL_TLV_FLAGS_OPTIONAL] (OFFSET8_DIFF qmiLocEditGeofenceReqMsgT_v02 ''responsiveness'' ''responsiveness_valid''),
      LIT 0x12, OP [] QMI_IDL_GENERIC_4_BYTE, OFFSET8 qmiLocEditGeofenceReqMsgT_v02 ''responsiveness'']"

lemma qmiLocEditGeofenceReqMsgT_data_v02_ok [idl_simps]:
  "describe_msg qmiLocEditGeofenceReqMsgT_data_v02 = Some (qmiLocEditGeofenceReqMsgT_v02, 32, [])"
  by (simp add: qmiLocEditGeofenceReqMsgT_data_v02_def qmiLocEditGeofenceReqMsgT_v02_def [THEN arg_cong, of laid] analyse_simps layout_simps cong: idl_cong)

definition qmiLocEditGeofenceIndMsgT_data_v02 :: "idl_byte list" where
  "qmiLocEditGeofenceIndMsgT_data_v02 =
    [LIT 0x01, OP [] QMI_IDL_GENERIC_4_BYTE, OFFSET8 qmiLocEditGeofenceIndMsgT_v02 ''status'',
     TLV [QMI_IDL_TLV_FLAGS_OPTIONAL] (OFFSET8_DIFF qmiLocEditGeofenceIndMsgT_v02 ''geofenceId'' ''geofenceId_valid''),
      LIT 0x10, OP [] QMI_IDL_GENERIC_4_BYTE, OFFSET8 qmiLocEditGeofenceIndMsgT_v02 ''geofenceId'',
     TLV [QMI_IDL_TLV_FLAGS_OPTIONAL] (OFFSET8_DIFF qmiLocEditGeofenceIndMsgT_v02 ''transactionId'' ''transactionId_valid''),
      LIT 0x11, OP [] QMI_IDL_GENERIC_4_BYTE, OFFSET8 qmiLocEditGeofenceIndMsgT_v02 ''transactionId'',
     TLV [QMI_IDL_TLV_FLAGS_LAST_TLV, QMI_IDL_TLV_FLAGS_OPTIONAL] (OFFSET8_DIFF qmiLocEditGeofenceIndMsgT_v02 ''failedParams'' ''failedParams_valid''),
      LIT 0x12, OP [] QMI_IDL_GENERIC_4_BYTE, OFFSET8 qmiLocEditGeofenceIndMsgT_v02 ''failedParams'']"

lemma qmiLocEditGeofenceIndMsgT_data_v02_ok [idl_simps]:
  "describe_msg qmiLocEditGeofenceIndMsgT_data_v02 = Some (qmiLocEditGeofenceIndMsgT_v02, 28, [])"
  by (simp add: qmiLocEditGeofenceIndMsgT_data_v02_def qmiLocEditGeofenceIndMsgT_v02_def [THEN arg_cong, of laid] analyse_simps layout_simps cong: idl_cong)

definition qmiLocEventGetTimeZoneReqIndMsgT_data_v02 :: "idl_byte list" where
  "qmiLocEventGetTimeZoneReqIndMsgT_data_v02 =
    [TLV [QMI_IDL_TLV_FLAGS_LAST_TLV] (LIT 0x01), OP [] QMI_IDL_GENERIC_4_BYTE,
      OFFSET8 qmiLocEventGetTimeZoneReqIndMsgT_v02 ''status'']"

lemma qmiLocEventGetTimeZoneReqIndMsgT_data_v02_ok [idl_simps]:
  "describe_msg qmiLocEventGetTimeZoneReqIndMsgT_data_v02 = Some (qmiLocEventGetTimeZoneReqIndMsgT_v02, 7, [])"
  by (simp add: qmiLocEventGetTimeZoneReqIndMsgT_data_v02_def qmiLocEventGetTimeZoneReqIndMsgT_v02_def [THEN arg_cong, of laid] analyse_simps layout_simps cong: idl_cong)

definition qmiLocInjectTimeZoneInfoReqMsgT_data_v02 :: "idl_byte list" where
  "qmiLocInjectTimeZoneInfoReqMsgT_data_v02 =
    [LIT 0x01, OP [] QMI_IDL_GENERIC_8_BYTE, OFFSET8 qmiLocInjectTimeZoneInfoReqMsgT_v02 ''timeUtc'',
     TLV [QMI_IDL_TLV_FLAGS_LAST_TLV] (LIT 0x02), OP [] QMI_IDL_AGGREGATE,
      OFFSET8 qmiLocInjectTimeZoneInfoReqMsgT_v02 ''timeZone'', TYPE88 0 45]"

lemma qmiLocInjectTimeZoneInfoReqMsgT_data_v02_ok [idl_simps]:
  "describe_msg qmiLocInjectTimeZoneInfoReqMsgT_data_v02 = Some (qmiLocInjectTimeZoneInfoReqMsgT_v02, 14, [(1, (0, 45), qmiLocTimeZoneStructT_v02)])"
  by (simp add: qmiLocInjectTimeZoneInfoReqMsgT_data_v02_def qmiLocInjectTimeZoneInfoReqMsgT_v02_def [THEN arg_cong, of laid] analyse_simps layout_simps cong: idl_cong)

definition qmiLocInjectTimeZoneInfoIndMsgT_data_v02 :: "idl_byte list" where
  "qmiLocInjectTimeZoneInfoIndMsgT_data_v02 =
    [TLV [QMI_IDL_TLV_FLAGS_LAST_TLV] (LIT 0x01), OP [] QMI_IDL_GENERIC_4_BYTE,
      OFFSET8 qmiLocInjectTimeZoneInfoIndMsgT_v02 ''status'']"

lemma qmiLocInjectTimeZoneInfoIndMsgT_data_v02_ok [idl_simps]:
  "describe_msg qmiLocInjectTimeZoneInfoIndMsgT_data_v02 = Some (qmiLocInjectTimeZoneInfoIndMsgT_v02, 7, [])"
  by (simp add: qmiLocInjectTimeZoneInfoIndMsgT_data_v02_def qmiLocInjectTimeZoneInfoIndMsgT_v02_def [THEN arg_cong, of laid] analyse_simps layout_simps cong: idl_cong)

definition qmiLocGetBestAvailablePositionReqMsgT_data_v02 :: "idl_byte list" where
  "qmiLocGetBestAvailablePositionReqMsgT_data_v02 =
    [LIT 0x01, OP [] QMI_IDL_GENERIC_4_BYTE,
      OFFSET8 qmiLocGetBestAvailablePositionReqMsgT_v02 ''transactionId'',
     TLV [QMI_IDL_TLV_FLAGS_LAST_TLV, QMI_IDL_TLV_FLAGS_OPTIONAL] (OFFSET8_DIFF qmiLocGetBestAvailablePositionReqMsgT_v02 ''specialReqType'' ''specialReqType_valid''),
      LIT 0x10, OP [] QMI_IDL_GENERIC_4_BYTE,
      OFFSET8 qmiLocGetBestAvailablePositionReqMsgT_v02 ''specialReqType'']"

lemma qmiLocGetBestAvailablePositionReqMsgT_data_v02_ok [idl_simps]:
  "describe_msg qmiLocGetBestAvailablePositionReqMsgT_data_v02 = Some (qmiLocGetBestAvailablePositionReqMsgT_v02, 14, [])"
  by (simp add: qmiLocGetBestAvailablePositionReqMsgT_data_v02_def qmiLocGetBestAvailablePositionReqMsgT_v02_def [THEN arg_cong, of laid] analyse_simps layout_simps cong: idl_cong)

definition qmiLocGetBestAvailablePositionIndMsgT_data_v02 :: "idl_byte list" where
  "qmiLocGetBestAvailablePositionIndMsgT_data_v02 =
    [LIT 0x01, OP [] QMI_IDL_GENERIC_4_BYTE,
      OFFSET8 qmiLocGetBestAvailablePositionIndMsgT_v02 ''status'',
     TLV [QMI_IDL_TLV_FLAGS_OPTIONAL] (OFFSET8_DIFF qmiLocGetBestAvailablePositionIndMsgT_v02 ''transactionId'' ''transactionId_valid''),
      LIT 0x10, OP [] QMI_IDL_GENERIC_4_BYTE,
      OFFSET8 qmiLocGetBestAvailablePositionIndMsgT_v02 ''transactionId'',
     TLV [QMI_IDL_TLV_FLAGS_OPTIONAL] (OFFSET8_DIFF qmiLocGetBestAvailablePositionIndMsgT_v02 ''latitude'' ''latitude_valid''),
      LIT 0x11, OP [] QMI_IDL_GENERIC_8_BYTE,
      OFFSET8 qmiLocGetBestAvailablePositionIndMsgT_v02 ''latitude'',
     TLV [QMI_IDL_TLV_FLAGS_OPTIONAL] (OFFSET8_DIFF qmiLocGetBestAvailablePositionIndMsgT_v02 ''longitude'' ''longitude_valid''),
      LIT 0x12, OP [] QMI_IDL_GENERIC_8_BYTE,
      OFFSET8 qmiLocGetBestAvailablePositionIndMsgT_v02 ''longitude'',
     TLV [QMI_IDL_TLV_FLAGS_OPTIONAL] (OFFSET8_DIFF qmiLocGetBestAvailablePositionIndMsgT_v02 ''horUncCircular'' ''horUncCircular_valid''),
      LIT 0x13, OP [] QMI_IDL_GENERIC_4_BYTE,
      OFFSET8 qmiLocGetBestAvailablePositionIndMsgT_v02 ''horUncCircular'',
     TLV [QMI_IDL_TLV_FLAGS_OPTIONAL] (OFFSET8_DIFF qmiLocGetBestAvailablePositionIndMsgT_v02 ''altitudeWrtEllipsoid'' ''altitudeWrtEllipsoid_valid''),
      LIT 0x14, OP [] QMI_IDL_GENERIC_4_BYTE,
      OFFSET8 qmiLocGetBestAvailablePositionIndMsgT_v02 ''altitudeWrtEllipsoid'',
     TLV [QMI_IDL_TLV_FLAGS_OPTIONAL] (OFFSET8_DIFF qmiLocGetBestAvailablePositionIndMsgT_v02 ''vertUnc'' ''vertUnc_valid''),
      LIT 0x15, OP [] QMI_IDL_GENERIC_4_BYTE,
      OFFSET8 qmiLocGetBestAvailablePositionIndMsgT_v02 ''vertUnc'',
     TLV [QMI_IDL_TLV_FLAGS_OPTIONAL] (OFFSET8_DIFF qmiLocGetBestAvailablePositionIndMsgT_v02 ''timestampUtc'' ''timestampUtc_valid''),
      LIT 0x16, OP [] QMI_IDL_GENERIC_8_BYTE,
      OFFSET8 qmiLocGetBestAvailablePositionIndMsgT_v02 ''timestampUtc'',
     TLV [QMI_IDL_TLV_FLAGS_OPTIONAL] (OFFSET8_DIFF qmiLocGetBestAvailablePositionIndMsgT_v02 ''timeUnc'' ''timeUnc_valid''),
      LIT 0x17, OP [] QMI_IDL_GENERIC_4_BYTE,
      OFFSET8 qmiLocGetBestAvailablePositionIndMsgT_v02 ''timeUnc'',
     TLV [QMI_IDL_TLV_FLAGS_OPTIONAL] (OFFSET8_DIFF qmiLocGetBestAvailablePositionIndMsgT_v02 ''horUncEllipseSemiMinor'' ''horUncEllipseSemiMinor_valid''),
      LIT 0x18, OP [] QMI_IDL_GENERIC_4_BYTE,
      OFFSET8 qmiLocGetBestAvailablePositionIndMsgT_v02 ''horUncEllipseSemiMinor'',
     TLV [QMI_IDL_TLV_FLAGS_OPTIONAL] (OFFSET8_DIFF qmiLocGetBestAvailablePositionIndMsgT_v02 ''horUncEllipseSemiMajor'' ''horUncEllipseSemiMajor_valid''),
      LIT 0x19, OP [] QMI_IDL_GENERIC_4_BYTE,
      OFFSET8 qmiLocGetBestAvailablePositionIndMsgT_v02 ''horUncEllipseSemiMajor'',
     TLV [QMI_IDL_TLV_FLAGS_OPTIONAL] (OFFSET8_DIFF qmiLocGetBestAvailablePositionIndMsgT_v02 ''horUncEllipseOrientAzimuth'' ''horUncEllipseOrientAzimuth_valid''),
      LIT 0x1A, OP [] QMI_IDL_GENERIC_4_BYTE,
      OFFSET8 qmiLocGetBestAvailablePositionIndMsgT_v02 ''horUncEllipseOrientAzimuth'',
     TLV [QMI_IDL_TLV_FLAGS_OPTIONAL] (OFFSET8_DIFF qmiLocGetBestAvailablePositionIndMsgT_v02 ''horCircularConfidence'' ''horCircularConfidence_valid''),
      LIT 0x1B, OP [] QMI_IDL_GENERIC_1_BYTE,
      OFFSET8 qmiLocGetBestAvailablePositionIndMsgT_v02 ''horCircularConfidence'',
     TLV [QMI_IDL_TLV_FLAGS_OPTIONAL] (OFFSET8_DIFF qmiLocGetBestAvailablePositionIndMsgT_v02 ''horEllipticalConfidence'' ''horEllipticalConfidence_valid''),
      LIT 0x1C, OP [] QMI_IDL_GENERIC_1_BYTE,
      OFFSET8 qmiLocGetBestAvailablePositionIndMsgT_v02 ''horEllipticalConfidence'',
     TLV [QMI_IDL_TLV_FLAGS_OPTIONAL] (OFFSET8_DIFF qmiLocGetBestAvailablePositionIndMsgT_v02 ''horReliability'' ''horReliability_valid''),
      LIT 0x1D, OP [] QMI_IDL_GENERIC_4_BYTE,
      OFFSET8 qmiLocGetBestAvailablePositionIndMsgT_v02 ''horReliability'',
     TLV [QMI_IDL_TLV_FLAGS_OPTIONAL] (OFFSET8_DIFF qmiLocGetBestAvailablePositionIndMsgT_v02 ''horSpeed'' ''horSpeed_valid''),
      LIT 0x1E, OP [] QMI_IDL_GENERIC_4_BYTE,
      OFFSET8 qmiLocGetBestAvailablePositionIndMsgT_v02 ''horSpeed'',
     TLV [QMI_IDL_TLV_FLAGS_OPTIONAL] (OFFSET8_DIFF qmiLocGetBestAvailablePositionIndMsgT_v02 ''horSpeedUnc'' ''horSpeedUnc_valid''),
      LIT 0x1F, OP [] QMI_IDL_GENERIC_4_BYTE,
      OFFSET8 qmiLocGetBestAvailablePositionIndMsgT_v02 ''horSpeedUnc'',
     TLV [QMI_IDL_TLV_FLAGS_OPTIONAL] (OFFSET8_DIFF qmiLocGetBestAvailablePositionIndMsgT_v02 ''altitudeWrtMeanSeaLevel'' ''altitudeWrtMeanSeaLevel_valid''),
      LIT 0x20, OP [] QMI_IDL_GENERIC_4_BYTE,
      OFFSET8 qmiLocGetBestAvailablePositionIndMsgT_v02 ''altitudeWrtMeanSeaLevel'',
     TLV [QMI_IDL_TLV_FLAGS_OPTIONAL] (OFFSET8_DIFF qmiLocGetBestAvailablePositionIndMsgT_v02 ''vertConfidence'' ''vertConfidence_valid''),
      LIT 0x21, OP [] QMI_IDL_GENERIC_1_BYTE,
      OFFSET8 qmiLocGetBestAvailablePositionIndMsgT_v02 ''vertConfidence'',
     TLV [QMI_IDL_TLV_FLAGS_OPTIONAL] (OFFSET8_DIFF qmiLocGetBestAvailablePositionIndMsgT_v02 ''vertReliability'' ''vertReliability_valid''),
      LIT 0x22, OP [] QMI_IDL_GENERIC_4_BYTE,
      OFFSET8 qmiLocGetBestAvailablePositionIndMsgT_v02 ''vertReliability'',
     TLV [QMI_IDL_TLV_FLAGS_OPTIONAL] (OFFSET8_DIFF qmiLocGetBestAvailablePositionIndMsgT_v02 ''vertSpeed'' ''vertSpeed_valid''),
      LIT 0x23, OP [] QMI_IDL_GENERIC_4_BYTE,
      OFFSET8 qmiLocGetBestAvailablePositionIndMsgT_v02 ''vertSpeed'',
     TLV [QMI_IDL_TLV_FLAGS_OPTIONAL] (OFFSET8_DIFF qmiLocGetBestAvailablePositionIndMsgT_v02 ''vertSpeedUnc'' ''vertSpeedUnc_valid''),
      LIT 0x24, OP [] QMI_IDL_GENERIC_4_BYTE,
      OFFSET8 qmiLocGetBestAvailablePositionIndMsgT_v02 ''vertSpeedUnc'',
     TLV [QMI_IDL_TLV_FLAGS_OPTIONAL] (OFFSET8_DIFF qmiLocGetBestAvailablePositionIndMsgT_v02 ''heading'' ''heading_valid''),
      LIT 0x25, OP [] QMI_IDL_GENERIC_4_BYTE,
      OFFSET8 qmiLocGetBestAvailablePositionIndMsgT_v02 ''heading'',
     TLV [QMI_IDL_TLV_FLAGS_OPTIONAL] (OFFSET8_DIFF qmiLocGetBestAvailablePositionIndMsgT_v02 ''headingUnc'' ''headingUnc_valid''),
      LIT 0x26, OP [] QMI_IDL_GENERIC_4_BYTE,
      OFFSET8 qmiLocGetBestAvailablePositionIndMsgT_v02 ''headingUnc'',
     TLV [QMI_IDL_TLV_FLAGS_OPTIONAL] (OFFSET8_DIFF qmiLocGetBestAvailablePositionIndMsgT_v02 ''magneticDeviation'' ''magneticDeviation_valid''),
      LIT 0x27, OP [] QMI_IDL_GENERIC_4_BYTE,
      OFFSET8 qmiLocGetBestAvailablePositionIndMsgT_v02 ''magneticDeviation'',
     TLV [QMI_IDL_TLV_FLAGS_OPTIONAL] (OFFSET8_DIFF qmiLocGetBestAvailablePositionIndMsgT_v02 ''technologyMask'' ''technologyMask_valid''),
      LIT 0x28, OP [] QMI_IDL_GENERIC_4_BYTE,
      OFFSET8 qmiLocGetBestAvailablePositionIndMsgT_v02 ''technologyMask'',
     TLV [QMI_IDL_TLV_FLAGS_OPTIONAL] (OFFSET8_DIFF qmiLocGetBestAvailablePositionIndMsgT_v02 ''DOP'' ''DOP_valid''),
      LIT 0x29, OP [] QMI_IDL_AGGREGATE, OFFSET8 qmiLocGetBestAvailablePositionIndMsgT_v02 ''DOP'',
      TYPE88 0 3,
     TLV [QMI_IDL_TLV_FLAGS_OPTIONAL] (OFFSET16_DIFF qmiLocGetBestAvailablePositionIndMsgT_v02 ''gpsTime'' ''gpsTime_valid''),
      LIT 0x2A, OP [QMI_IDL_FLAGS_OFFSET_IS_16] QMI_IDL_AGGREGATE,
      OFFSET16ARRAY qmiLocGetBestAvailablePositionIndMsgT_v02 ''gpsTime'', TYPE88 0 2,
     TLV [QMI_IDL_TLV_FLAGS_OPTIONAL] (OFFSET16_DIFF qmiLocGetBestAvailablePositionIndMsgT_v02 ''timeSrc'' ''timeSrc_valid''),
      LIT 0x2B, OP [QMI_IDL_FLAGS_OFFSET_IS_16] QMI_IDL_GENERIC_4_BYTE,
      OFFSET16ARRAY qmiLocGetBestAvailablePositionIndMsgT_v02 ''timeSrc'',
     TLV [QMI_IDL_TLV_FLAGS_OPTIONAL] (OFFSET16_DIFF qmiLocGetBestAvailablePositionIndMsgT_v02 ''sensorDataUsage'' ''sensorDataUsage_valid''),
      LIT 0x2C, OP [QMI_IDL_FLAGS_OFFSET_IS_16] QMI_IDL_AGGREGATE,
      OFFSET16ARRAY qmiLocGetBestAvailablePositionIndMsgT_v02 ''sensorDataUsage'', TYPE88 0 5,
     TLV [QMI_IDL_TLV_FLAGS_OPTIONAL] (OFFSET16_DIFF qmiLocGetBestAvailablePositionIndMsgT_v02 ''gnssSvUsedList'' ''gnssSvUsedList_valid''),
      LIT 0x2D,
      OP [QMI_IDL_FLAGS_IS_ARRAY, QMI_IDL_FLAGS_IS_VARIABLE_LEN, QMI_IDL_FLAGS_OFFSET_IS_16] QMI_IDL_GENERIC_2_BYTE,
      OFFSET16ARRAY qmiLocGetBestAvailablePositionIndMsgT_v02 ''gnssSvUsedList'',
      LIT QMI_LOC_MAX_SV_USED_LIST_LENGTH_V02,
      OFFSET16_DIFF qmiLocGetBestAvailablePositionIndMsgT_v02 ''gnssSvUsedList'' ''gnssSvUsedList_len'',
     TLV [QMI_IDL_TLV_FLAGS_OPTIONAL] (OFFSET16_DIFF qmiLocGetBestAvailablePositionIndMsgT_v02 ''extDOP'' ''extDOP_valid''),
      LIT 0x2E, OP [QMI_IDL_FLAGS_OFFSET_IS_16] QMI_IDL_AGGREGATE,
      OFFSET16ARRAY qmiLocGetBestAvailablePositionIndMsgT_v02 ''extDOP'', TYPE88 0 4,
     TLV [QMI_IDL_TLV_FLAGS_OPTIONAL] (OFFSET16_DIFF qmiLocGetBestAvailablePositionIndMsgT_v02 ''spoofReportMask'' ''spoofReportMask_valid''),
      LIT 0x2F, OP [QMI_IDL_FLAGS_OFFSET_IS_16] QMI_IDL_GENERIC_8_BYTE,
      OFFSET16ARRAY qmiLocGetBestAvailablePositionIndMsgT_v02 ''spoofReportMask'',
     TLV [QMI_IDL_TLV_FLAGS_OPTIONAL] (OFFSET16_DIFF qmiLocGetBestAvailablePositionIndMsgT_v02 ''expandedGnssSvUsedList'' ''expandedGnssSvUsedList_valid''),
      LIT 0x30,
      OP [QMI_IDL_FLAGS_IS_ARRAY, QMI_IDL_FLAGS_IS_VARIABLE_LEN, QMI_IDL_FLAGS_OFFSET_IS_16] QMI_IDL_GENERIC_2_BYTE,
      OFFSET16ARRAY qmiLocGetBestAvailablePositionIndMsgT_v02 ''expandedGnssSvUsedList'',
      LIT QMI_LOC_EXPANDED_SV_INFO_LIST_MAX_SIZE_V02,
      OFFSET16_DIFF qmiLocGetBestAvailablePositionIndMsgT_v02 ''expandedGnssSvUsedList'' ''expandedGnssSvUsedList_len'',
     TLV [QMI_IDL_TLV_FLAGS_LAST_TLV, QMI_IDL_TLV_FLAGS_OPTIONAL] (OFFSET16_DIFF qmiLocGetBestAvailablePositionIndMsgT_v02 ''gnssSvUsedSignalTypeList'' ''gnssSvUsedSignalTypeList_valid''),
      LIT 0x31,
      OP [QMI_IDL_FLAGS_IS_ARRAY, QMI_IDL_FLAGS_IS_VARIABLE_LEN, QMI_IDL_FLAGS_OFFSET_IS_16] QMI_IDL_GENERIC_8_BYTE,
      OFFSET16ARRAY qmiLocGetBestAvailablePositionIndMsgT_v02 ''gnssSvUsedSignalTypeList'',
      LIT QMI_LOC_EXPANDED_SV_INFO_LIST_MAX_SIZE_V02,
      OFFSET16_DIFF qmiLocGetBestAvailablePositionIndMsgT_v02 ''gnssSvUsedSignalTypeList'' ''gnssSvUsedSignalTypeList_len'']"

lemma qmiLocGetBestAvailablePositionIndMsgT_data_v02_ok [idl_simps]:
  "describe_msg qmiLocGetBestAvailablePositionIndMsgT_data_v02 = Some (qmiLocGetBestAvailablePositionIndMsgT_v02, 2147, [(1, (0, 3), qmiLocDOPStructT_v02), (1, (0, 2), qmiLocGPSTimeStructT_v02), (1, (0, 5), qmiLocSensorUsageIndicatorStructT_v02), (1, (0, 4), qmiLocExtDOPStructT_v02)])"
  by (simp add: qmiLocGetBestAvailablePositionIndMsgT_data_v02_def qmiLocGetBestAvailablePositionIndMsgT_v02_def [THEN arg_cong, of laid] analyse_simps layout_simps cong: idl_cong)

definition qmiLocInjectMotionDataReqMsgT_data_v02 :: "idl_byte list" where
  "qmiLocInjectMotionDataReqMsgT_data_v02 =
    [TLV [QMI_IDL_TLV_FLAGS_LAST_TLV] (LIT 0x01), OP [] QMI_IDL_AGGREGATE,
      OFFSET8 qmiLocInjectMotionDataReqMsgT_v02 ''motion_data'', TYPE88 0 46]"

lemma qmiLocInjectMotionDataReqMsgT_data_v02_ok [idl_simps]:
  "describe_msg qmiLocInjectMotionDataReqMsgT_data_v02 = Some (qmiLocInjectMotionDataReqMsgT_v02, 3, [(1, (0, 46), qmiLocMotionDataStructT_v02)])"
  by (simp add: qmiLocInjectMotionDataReqMsgT_data_v02_def qmiLocInjectMotionDataReqMsgT_v02_def [THEN arg_cong, of laid] analyse_simps layout_simps cong: idl_cong)

definition qmiLocInjectMotionDataIndMsgT_data_v02 :: "idl_byte list" where
  "qmiLocInjectMotionDataIndMsgT_data_v02 =
    [TLV [QMI_IDL_TLV_FLAGS_LAST_TLV] (LIT 0x01), OP [] QMI_IDL_GENERIC_4_BYTE,
      OFFSET8 qmiLocInjectMotionDataIndMsgT_v02 ''status'']"

lemma qmiLocInjectMotionDataIndMsgT_data_v02_ok [idl_simps]:
  "describe_msg qmiLocInjectMotionDataIndMsgT_data_v02 = Some (qmiLocInjectMotionDataIndMsgT_v02, 7, [])"
  by (simp add: qmiLocInjectMotionDataIndMsgT_data_v02_def qmiLocInjectMotionDataIndMsgT_v02_def [THEN arg_cong, of laid] analyse_simps layout_simps cong: idl_cong)

definition qmiLocGetNiGeofenceIdListReqMsgT_data_v02 :: "idl_byte list" where
  "qmiLocGetNiGeofenceIdListReqMsgT_data_v02 =
    [TLV [QMI_IDL_TLV_FLAGS_LAST_TLV] (LIT 0x01), OP [] QMI_IDL_GENERIC_4_BYTE,
      OFFSET8 qmiLocGetNiGeofenceIdListReqMsgT_v02 ''transactionId'']"

lemma qmiLocGetNiGeofenceIdListReqMsgT_data_v02_ok [idl_simps]:
  "describe_msg qmiLocGetNiGeofenceIdListReqMsgT_data_v02 = Some (qmiLocGetNiGeofenceIdListReqMsgT_v02, 7, [])"
  by (simp add: qmiLocGetNiGeofenceIdListReqMsgT_data_v02_def qmiLocGetNiGeofenceIdListReqMsgT_v02_def [THEN arg_cong, of laid] analyse_simps layout_simps cong: idl_cong)

definition qmiLocGetNiGeofenceIdListIndMsgT_data_v02 :: "idl_byte list" where
  "qmiLocGetNiGeofenceIdListIndMsgT_data_v02 =
    [LIT 0x01, OP [] QMI_IDL_GENERIC_4_BYTE, OFFSET8 qmiLocGetNiGeofenceIdListIndMsgT_v02 ''status'',
     TLV [QMI_IDL_TLV_FLAGS_OPTIONAL] (OFFSET8_DIFF qmiLocGetNiGeofenceIdListIndMsgT_v02 ''transactionId'' ''transactionId_valid''),
      LIT 0x10, OP [] QMI_IDL_GENERIC_4_BYTE,
      OFFSET8 qmiLocGetNiGeofenceIdListIndMsgT_v02 ''transactionId'',
     TLV [QMI_IDL_TLV_FLAGS_LAST_TLV, QMI_IDL_TLV_FLAGS_OPTIONAL] (OFFSET8_DIFF qmiLocGetNiGeofenceIdListIndMsgT_v02 ''niGeofenceIdList'' ''niGeofenceIdList_valid''),
      LIT 0x11, OP [QMI_IDL_FLAGS_IS_ARRAY, QMI_IDL_FLAGS_IS_VARIABLE_LEN] QMI_IDL_GENERIC_4_BYTE,
      OFFSET8 qmiLocGetNiGeofenceIdListIndMsgT_v02 ''niGeofenceIdList'',
      LIT QMI_LOC_MAX_NI_GEOFENCE_ID_LIST_LENGTH_V02,
      OFFSET8_DIFF qmiLocGetNiGeofenceIdListIndMsgT_v02 ''niGeofenceIdList'' ''niGeofenceIdList_len'']"

lemma qmiLocGetNiGeofenceIdListIndMsgT_data_v02_ok [idl_simps]:
  "describe_msg qmiLocGetNiGeofenceIdListIndMsgT_data_v02 = Some (qmiLocGetNiGeofenceIdListIndMsgT_v02, 82, [])"
  by (simp add: qmiLocGetNiGeofenceIdListIndMsgT_data_v02_def qmiLocGetNiGeofenceIdListIndMsgT_v02_def [THEN arg_cong, of laid] analyse_simps layout_simps cong: idl_cong)

definition qmiLocInjectGSMCellInfoReqMsgT_data_v02 :: "idl_byte list" where
  "qmiLocInjectGSMCellInfoReqMsgT_data_v02 =
    [LIT 0x01, OP [] QMI_IDL_AGGREGATE, OFFSET8 qmiLocInjectGSMCellInfoReqMsgT_v02 ''gsmCellId'',
      TYPE88 0 47,
     LIT 0x02, OP [] QMI_IDL_GENERIC_1_BYTE,
      OFFSET8 qmiLocInjectGSMCellInfoReqMsgT_v02 ''roamingStatus'',
     TLV [QMI_IDL_TLV_FLAGS_LAST_TLV, QMI_IDL_TLV_FLAGS_OPTIONAL] (OFFSET8_DIFF qmiLocInjectGSMCellInfoReqMsgT_v02 ''timingAdvance'' ''timingAdvance_valid''),
      LIT 0x10, OP [] QMI_IDL_GENERIC_4_BYTE,
      OFFSET8 qmiLocInjectGSMCellInfoReqMsgT_v02 ''timingAdvance'']"

lemma qmiLocInjectGSMCellInfoReqMsgT_data_v02_ok [idl_simps]:
  "describe_msg qmiLocInjectGSMCellInfoReqMsgT_data_v02 = Some (qmiLocInjectGSMCellInfoReqMsgT_v02, 14, [(1, (0, 47), qmiLocGSMCellIdStructT_v02)])"
  by (simp add: qmiLocInjectGSMCellInfoReqMsgT_data_v02_def qmiLocInjectGSMCellInfoReqMsgT_v02_def [THEN arg_cong, of laid] analyse_simps layout_simps cong: idl_cong)

definition qmiLocInjectGSMCellInfoIndMsgT_data_v02 :: "idl_byte list" where
  "qmiLocInjectGSMCellInfoIndMsgT_data_v02 =
    [TLV [QMI_IDL_TLV_FLAGS_LAST_TLV] (LIT 0x01), OP [] QMI_IDL_GENERIC_4_BYTE,
      OFFSET8 qmiLocInjectGSMCellInfoIndMsgT_v02 ''status'']"

lemma qmiLocInjectGSMCellInfoIndMsgT_data_v02_ok [idl_simps]:
  "describe_msg qmiLocInjectGSMCellInfoIndMsgT_data_v02 = Some (qmiLocInjectGSMCellInfoIndMsgT_v02, 7, [])"
  by (simp add: qmiLocInjectGSMCellInfoIndMsgT_data_v02_def qmiLocInjectGSMCellInfoIndMsgT_v02_def [THEN arg_cong, of laid] analyse_simps layout_simps cong: idl_cong)

definition qmiLocInjectWCDMACellInfoReqMsgT_data_v02 :: "idl_byte list" where
  "qmiLocInjectWCDMACellInfoReqMsgT_data_v02 =
    [LIT 0x01, OP [] QMI_IDL_AGGREGATE, OFFSET8 qmiLocInjectWCDMACellInfoReqMsgT_v02 ''wcdmaCellId'',
      TYPE88 0 48,
     LIT 0x02, OP [] QMI_IDL_GENERIC_4_BYTE,
      OFFSET8 qmiLocInjectWCDMACellInfoReqMsgT_v02 ''roamingStatus'',
     TLV [QMI_IDL_TLV_FLAGS_OPTIONAL] (OFFSET8_DIFF qmiLocInjectWCDMACellInfoReqMsgT_v02 ''freq'' ''freq_valid''),
      LIT 0x10, OP [] QMI_IDL_GENERIC_4_BYTE, OFFSET8 qmiLocInjectWCDMACellInfoReqMsgT_v02 ''freq'',
     TLV [QMI_IDL_TLV_FLAGS_LAST_TLV, QMI_IDL_TLV_FLAGS_OPTIONAL] (OFFSET8_DIFF qmiLocInjectWCDMACellInfoReqMsgT_v02 ''psc'' ''psc_valid''),
      LIT 0x11, OP [] QMI_IDL_GENERIC_4_BYTE, OFFSET8 qmiLocInjectWCDMACellInfoReqMsgT_v02 ''psc'']"

lemma qmiLocInjectWCDMACellInfoReqMsgT_data_v02_ok [idl_simps]:
  "describe_msg qmiLocInjectWCDMACellInfoReqMsgT_data_v02 = Some (qmiLocInjectWCDMACellInfoReqMsgT_v02, 24, [(1, (0, 48), qmiLocWCDMACellIdStructT_v02)])"
  by (simp add: qmiLocInjectWCDMACellInfoReqMsgT_data_v02_def qmiLocInjectWCDMACellInfoReqMsgT_v02_def [THEN arg_cong, of laid] analyse_simps layout_simps cong: idl_cong)

definition qmiLocInjectWCDMACellInfoIndMsgT_data_v02 :: "idl_byte list" where
  "qmiLocInjectWCDMACellInfoIndMsgT_data_v02 =
    [TLV [QMI_IDL_TLV_FLAGS_LAST_TLV] (LIT 0x01), OP [] QMI_IDL_GENERIC_4_BYTE,
      OFFSET8 qmiLocInjectWCDMACellInfoIndMsgT_v02 ''status'']"

lemma qmiLocInjectWCDMACellInfoIndMsgT_data_v02_ok [idl_simps]:
  "describe_msg qmiLocInjectWCDMACellInfoIndMsgT_data_v02 = Some (qmiLocInjectWCDMACellInfoIndMsgT_v02, 7, [])"
  by (simp add: qmiLocInjectWCDMACellInfoIndMsgT_data_v02_def qmiLocInjectWCDMACellInfoIndMsgT_v02_def [THEN arg_cong, of laid] analyse_simps layout_simps cong: idl_cong)

definition qmiLocInjectTDSCDMACellInfoReqMsgT_data_v02 :: "idl_byte list" where
  "qmiLocInjectTDSCDMACellInfoReqMsgT_data_v02 =
    [LIT 0x01, OP [] QMI_IDL_AGGREGATE,
      OFFSET8 qmiLocInjectTDSCDMACellInfoReqMsgT_v02 ''tdscdmaCellId'', TYPE88 0 49,
     LIT 0x02, OP [] QMI_IDL_GENERIC_4_BYTE,
      OFFSET8 qmiLocInjectTDSCDMACellInfoReqMsgT_v02 ''roamingStatus'',
     TLV [QMI_IDL_TLV_FLAGS_LAST_TLV, QMI_IDL_TLV_FLAGS_OPTIONAL] (OFFSET8_DIFF qmiLocInjectTDSCDMACellInfoReqMsgT_v02 ''freq'' ''freq_valid''),
      LIT 0x10, OP [] QMI_IDL_GENERIC_4_BYTE, OFFSET8 qmiLocInjectTDSCDMACellInfoReqMsgT_v02 ''freq'']"

lemma qmiLocInjectTDSCDMACellInfoReqMsgT_data_v02_ok [idl_simps]:
  "describe_msg qmiLocInjectTDSCDMACellInfoReqMsgT_data_v02 = Some (qmiLocInjectTDSCDMACellInfoReqMsgT_v02, 17, [(1, (0, 49), qmiLocTDSCDMACellIdStructT_v02)])"
  by (simp add: qmiLocInjectTDSCDMACellInfoReqMsgT_data_v02_def qmiLocInjectTDSCDMACellInfoReqMsgT_v02_def [THEN arg_cong, of laid] analyse_simps layout_simps cong: idl_cong)

definition qmiLocInjectTDSCDMACellInfoIndMsgT_data_v02 :: "idl_byte list" where
  "qmiLocInjectTDSCDMACellInfoIndMsgT_data_v02 =
    [TLV [QMI_IDL_TLV_FLAGS_LAST_TLV] (LIT 0x01), OP [] QMI_IDL_GENERIC_4_BYTE,
      OFFSET8 qmiLocInjectTDSCDMACellInfoIndMsgT_v02 ''status'']"

lemma qmiLocInjectTDSCDMACellInfoIndMsgT_data_v02_ok [idl_simps]:
  "describe_msg qmiLocInjectTDSCDMACellInfoIndMsgT_data_v02 = Some (qmiLocInjectTDSCDMACellInfoIndMsgT_v02, 7, [])"
  by (simp add: qmiLocInjectTDSCDMACellInfoIndMsgT_data_v02_def qmiLocInjectTDSCDMACellInfoIndMsgT_v02_def [THEN arg_cong, of laid] analyse_simps layout_simps cong: idl_cong)

definition qmiLocInjectSubscriberIDReqMsgT_data_v02 :: "idl_byte list" where
  "qmiLocInjectSubscriberIDReqMsgT_data_v02 =
    [TLV [QMI_IDL_TLV_FLAGS_OPTIONAL] (OFFSET8_DIFF qmiLocInjectSubscriberIDReqMsgT_v02 ''preferredIMSI'' ''preferredIMSI_valid''),
      LIT 0x10, OP [] QMI_IDL_GENERIC_8_BYTE,
      OFFSET8 qmiLocInjectSubscriberIDReqMsgT_v02 ''preferredIMSI'',
     TLV [QMI_IDL_TLV_FLAGS_LAST_TLV, QMI_IDL_TLV_FLAGS_OPTIONAL] (OFFSET8_DIFF qmiLocInjectSubscriberIDReqMsgT_v02 ''preferredMSISDN'' ''preferredMSISDN_valid''),
      LIT 0x11, OP [] QMI_IDL_GENERIC_8_BYTE,
      OFFSET8 qmiLocInjectSubscriberIDReqMsgT_v02 ''preferredMSISDN'']"

lemma qmiLocInjectSubscriberIDReqMsgT_data_v02_ok [idl_simps]:
  "describe_msg qmiLocInjectSubscriberIDReqMsgT_data_v02 = Some (qmiLocInjectSubscriberIDReqMsgT_v02, 22, [])"
  by (simp add: qmiLocInjectSubscriberIDReqMsgT_data_v02_def qmiLocInjectSubscriberIDReqMsgT_v02_def [THEN arg_cong, of laid] analyse_simps layout_simps cong: idl_cong)

definition qmiLocInjectSubscriberIDIndMsgT_data_v02 :: "idl_byte list" where
  "qmiLocInjectSubscriberIDIndMsgT_data_v02 =
    [TLV [QMI_IDL_TLV_FLAGS_LAST_TLV] (LIT 0x01), OP [] QMI_IDL_GENERIC_4_BYTE,
      OFFSET8 qmiLocInjectSubscriberIDIndMsgT_v02 ''status'']"

lemma qmiLocInjectSubscriberIDIndMsgT_data_v02_ok [idl_simps]:
  "describe_msg qmiLocInjectSubscriberIDIndMsgT_data_v02 = Some (qmiLocInjectSubscriberIDIndMsgT_v02, 7, [])"
  by (simp add: qmiLocInjectSubscriberIDIndMsgT_data_v02_def qmiLocInjectSubscriberIDIndMsgT_v02_def [THEN arg_cong, of laid] analyse_simps layout_simps cong: idl_cong)

definition qmiLocInjectNetworkInitiatedMessageReqMsgT_data_v02 :: "idl_byte list" where
  "qmiLocInjectNetworkInitiatedMessageReqMsgT_data_v02 =
    [LIT 0x01, OP [] QMI_IDL_GENERIC_4_BYTE,
      OFFSET8 qmiLocInjectNetworkInitiatedMessageReqMsgT_v02 ''injectedNIMessageType'',
     TLV [QMI_IDL_TLV_FLAGS_LAST_TLV] (LIT 0x02),
      OP [QMI_IDL_FLAGS_IS_ARRAY, QMI_IDL_FLAGS_IS_VARIABLE_LEN, QMI_IDL_FLAGS_SZ_IS_16] QMI_IDL_GENERIC_1_BYTE,
      OFFSET8 qmiLocInjectNetworkInitiatedMessageReqMsgT_v02 ''injectedNIMessage'',
      LO8 QMI_LOC_MAX_INJECTED_NETWORK_INITIATED_MESSAGE_LENGTH_V02,
      HI8 QMI_LOC_MAX_INJECTED_NETWORK_INITIATED_MESSAGE_LENGTH_V02,
      OFFSET8_DIFF qmiLocInjectNetworkInitiatedMessageReqMsgT_v02 ''injectedNIMessage'' ''injectedNIMessage_len'']"

lemma qmiLocInjectNetworkInitiatedMessageReqMsgT_data_v02_ok [idl_simps]:
  "describe_msg qmiLocInjectNetworkInitiatedMessageReqMsgT_data_v02 = Some (qmiLocInjectNetworkInitiatedMessageReqMsgT_v02, 1036, [])"
  by (simp add: qmiLocInjectNetworkInitiatedMessageReqMsgT_data_v02_def qmiLocInjectNetworkInitiatedMessageReqMsgT_v02_def [THEN arg_cong, of laid] analyse_simps layout_simps cong: idl_cong)

definition qmiLocInjectNetworkInitiatedMessageIndMsgT_data_v02 :: "idl_byte list" where
  "qmiLocInjectNetworkInitiatedMessageIndMsgT_data_v02 =
    [TLV [QMI_IDL_TLV_FLAGS_LAST_TLV] (LIT 0x01), OP [] QMI_IDL_GENERIC_4_BYTE,
      OFFSET8 qmiLocInjectNetworkInitiatedMessageIndMsgT_v02 ''status'']"

lemma qmiLocInjectNetworkInitiatedMessageIndMsgT_data_v02_ok [idl_simps]:
  "describe_msg qmiLocInjectNetworkInitiatedMessageIndMsgT_data_v02 = Some (qmiLocInjectNetworkInitiatedMessageIndMsgT_v02, 7, [])"
  by (simp add: qmiLocInjectNetworkInitiatedMessageIndMsgT_data_v02_def qmiLocInjectNetworkInitiatedMessageIndMsgT_v02_def [THEN arg_cong, of laid] analyse_simps layout_simps cong: idl_cong)

definition qmiLocWWANOutOfServiceNotificationIndMsgT_data_v02 :: "idl_byte list" where
  "qmiLocWWANOutOfServiceNotificationIndMsgT_data_v02 =
    [TLV [QMI_IDL_TLV_FLAGS_LAST_TLV] (LIT 0x01), OP [] QMI_IDL_GENERIC_4_BYTE,
      OFFSET8 qmiLocWWANOutOfServiceNotificationIndMsgT_v02 ''status'']"

lemma qmiLocWWANOutOfServiceNotificationIndMsgT_data_v02_ok [idl_simps]:
  "describe_msg qmiLocWWANOutOfServiceNotificationIndMsgT_data_v02 = Some (qmiLocWWANOutOfServiceNotificationIndMsgT_v02, 7, [])"
  by (simp add: qmiLocWWANOutOfServiceNotificationIndMsgT_data_v02_def qmiLocWWANOutOfServiceNotificationIndMsgT_v02_def [THEN arg_cong, of laid] analyse_simps layout_simps cong: idl_cong)

definition qmiLocPedometerReportReqMsgT_data_v02 :: "idl_byte list" where
  "qmiLocPedometerReportReqMsgT_data_v02 =
    [LIT 0x01, OP [] QMI_IDL_GENERIC_4_BYTE, OFFSET8 qmiLocPedometerReportReqMsgT_v02 ''timeSource'',
     LIT 0x02, OP [] QMI_IDL_GENERIC_4_BYTE, OFFSET8 qmiLocPedometerReportReqMsgT_v02 ''timestamp'',
     LIT 0x03, OP [] QMI_IDL_GENERIC_4_BYTE, OFFSET8 qmiLocPedometerReportReqMsgT_v02 ''timeInterval'',
     LIT 0x04, OP [] QMI_IDL_GENERIC_4_BYTE, OFFSET8 qmiLocPedometerReportReqMsgT_v02 ''stepCount'',
     TLV [QMI_IDL_TLV_FLAGS_OPTIONAL] (OFFSET8_DIFF qmiLocPedometerReportReqMsgT_v02 ''stepConfidence'' ''stepConfidence_valid''),
      LIT 0x10, OP [] QMI_IDL_GENERIC_1_BYTE,
      OFFSET8 qmiLocPedometerReportReqMsgT_v02 ''stepConfidence'',
     TLV [QMI_IDL_TLV_FLAGS_OPTIONAL] (OFFSET8_DIFF qmiLocPedometerReportReqMsgT_v02 ''stepCountUncertainty'' ''stepCountUncertainty_valid''),
      LIT 0x11, OP [] QMI_IDL_GENERIC_4_BYTE,
      OFFSET8 qmiLocPedometerReportReqMsgT_v02 ''stepCountUncertainty'',
     TLV [QMI_IDL_TLV_FLAGS_LAST_TLV, QMI_IDL_TLV_FLAGS_OPTIONAL] (OFFSET8_DIFF qmiLocPedometerReportReqMsgT_v02 ''stepRate'' ''stepRate_valid''),
      LIT 0x12, OP [] QMI_IDL_GENERIC_4_BYTE, OFFSET8 qmiLocPedometerReportReqMsgT_v02 ''stepRate'']"

lemma qmiLocPedometerReportReqMsgT_data_v02_ok [idl_simps]:
  "describe_msg qmiLocPedometerReportReqMsgT_data_v02 = Some (qmiLocPedometerReportReqMsgT_v02, 46, [])"
  by (simp add: qmiLocPedometerReportReqMsgT_data_v02_def qmiLocPedometerReportReqMsgT_v02_def [THEN arg_cong, of laid] analyse_simps layout_simps cong: idl_cong)

definition qmiLocPedometerReportIndMsgT_data_v02 :: "idl_byte list" where
  "qmiLocPedometerReportIndMsgT_data_v02 =
    [TLV [QMI_IDL_TLV_FLAGS_LAST_TLV] (LIT 0x01), OP [] QMI_IDL_GENERIC_4_BYTE,
      OFFSET8 qmiLocPedometerReportIndMsgT_v02 ''status'']"

lemma qmiLocPedometerReportIndMsgT_data_v02_ok [idl_simps]:
  "describe_msg qmiLocPedometerReportIndMsgT_data_v02 = Some (qmiLocPedometerReportIndMsgT_v02, 7, [])"
  by (simp add: qmiLocPedometerReportIndMsgT_data_v02_def qmiLocPedometerReportIndMsgT_v02_def [THEN arg_cong, of laid] analyse_simps layout_simps cong: idl_cong)

definition qmiLocGetBatchSizeReqMsgT_data_v02 :: "idl_byte list" where
  "qmiLocGetBatchSizeReqMsgT_data_v02 =
    [LIT 0x01, OP [] QMI_IDL_GENERIC_4_BYTE, OFFSET8 qmiLocGetBatchSizeReqMsgT_v02 ''transactionId'',
     LIT 0x02, OP [] QMI_IDL_GENERIC_4_BYTE, OFFSET8 qmiLocGetBatchSizeReqMsgT_v02 ''batchSize'',
     TLV [QMI_IDL_TLV_FLAGS_LAST_TLV, QMI_IDL_TLV_FLAGS_OPTIONAL] (OFFSET8_DIFF qmiLocGetBatchSizeReqMsgT_v02 ''batchType'' ''batchType_valid''),
      LIT 0x10, OP [] QMI_IDL_GENERIC_4_BYTE, OFFSET8 qmiLocGetBatchSizeReqMsgT_v02 ''batchType'']"

lemma qmiLocGetBatchSizeReqMsgT_data_v02_ok [idl_simps]:
  "describe_msg qmiLocGetBatchSizeReqMsgT_data_v02 = Some (qmiLocGetBatchSizeReqMsgT_v02, 21, [])"
  by (simp add: qmiLocGetBatchSizeReqMsgT_data_v02_def qmiLocGetBatchSizeReqMsgT_v02_def [THEN arg_cong, of laid] analyse_simps layout_simps cong: idl_cong)

definition qmiLocGetBatchSizeIndMsgT_data_v02 :: "idl_byte list" where
  "qmiLocGetBatchSizeIndMsgT_data_v02 =
    [LIT 0x01, OP [] QMI_IDL_GENERIC_4_BYTE, OFFSET8 qmiLocGetBatchSizeIndMsgT_v02 ''status'',
     LIT 0x02, OP [] QMI_IDL_GENERIC_4_BYTE, OFFSET8 qmiLocGetBatchSizeIndMsgT_v02 ''transactionId'',
     TLV [QMI_IDL_TLV_FLAGS_LAST_TLV] (LIT 0x03), OP [] QMI_IDL_GENERIC_4_BYTE,
      OFFSET8 qmiLocGetBatchSizeIndMsgT_v02 ''batchSize'']"

lemma qmiLocGetBatchSizeIndMsgT_data_v02_ok [idl_simps]:
  "describe_msg qmiLocGetBatchSizeIndMsgT_data_v02 = Some (qmiLocGetBatchSizeIndMsgT_v02, 21, [])"
  by (simp add: qmiLocGetBatchSizeIndMsgT_data_v02_def qmiLocGetBatchSizeIndMsgT_v02_def [THEN arg_cong, of laid] analyse_simps layout_simps cong: idl_cong)

definition qmiLocStartBatchingReqMsgT_data_v02 :: "idl_byte list" where
  "qmiLocStartBatchingReqMsgT_data_v02 =
    [TLV [QMI_IDL_TLV_FLAGS_OPTIONAL] (OFFSET8_DIFF qmiLocStartBatchingReqMsgT_v02 ''minInterval'' ''minInterval_valid''),
      LIT 0x10, OP [] QMI_IDL_GENERIC_4_BYTE, OFFSET8 qmiLocStartBatchingReqMsgT_v02 ''minInterval'',
     TLV [QMI_IDL_TLV_FLAGS_OPTIONAL] (OFFSET8_DIFF qmiLocStartBatchingReqMsgT_v02 ''horizontalAccuracyLevel'' ''horizontalAccuracyLevel_valid''),
      LIT 0x11, OP [] QMI_IDL_GENERIC_4_BYTE,
      OFFSET8 qmiLocStartBatchingReqMsgT_v02 ''horizontalAccuracyLevel'',
     TLV [QMI_IDL_TLV_FLAGS_OPTIONAL] (OFFSET8_DIFF qmiLocStartBatchingReqMsgT_v02 ''fixSessionTimeout'' ''fixSessionTimeout_valid''),
      LIT 0x12, OP [] QMI_IDL_GENERIC_4_BYTE,
      OFFSET8 qmiLocStartBatchingReqMsgT_v02 ''fixSessionTimeout'',
     TLV [QMI_IDL_TLV_FLAGS_OPTIONAL] (OFFSET8_DIFF qmiLocStartBatchingReqMsgT_v02 ''minDistance'' ''minDistance_valid''),
      LIT 0x13, OP [] QMI_IDL_GENERIC_4_BYTE, OFFSET8 qmiLocStartBatchingReqMsgT_v02 ''minDistance'',
     TLV [QMI_IDL_TLV_FLAGS_OPTIONAL] (OFFSET8_DIFF qmiLocStartBatchingReqMsgT_v02 ''batchAllPos'' ''batchAllPos_valid''),
      LIT 0x14, OP [] QMI_IDL_GENERIC_1_BYTE, OFFSET8 qmiLocStartBatchingReqMsgT_v02 ''batchAllPos'',
     TLV [QMI_IDL_TLV_FLAGS_LAST_TLV, QMI_IDL_TLV_FLAGS_OPTIONAL] (OFFSET8_DIFF qmiLocStartBatchingReqMsgT_v02 ''requestId'' ''requestId_valid''),
      LIT 0x15, OP [] QMI_IDL_GENERIC_4_BYTE, OFFSET8 qmiLocStartBatchingReqMsgT_v02 ''requestId'']"

lemma qmiLocStartBatchingReqMsgT_data_v02_ok [idl_simps]:
  "describe_msg qmiLocStartBatchingReqMsgT_data_v02 = Some (qmiLocStartBatchingReqMsgT_v02, 39, [])"
  by (simp add: qmiLocStartBatchingReqMsgT_data_v02_def qmiLocStartBatchingReqMsgT_v02_def [THEN arg_cong, of laid] analyse_simps layout_simps cong: idl_cong)

definition qmiLocStartBatchingIndMsgT_data_v02 :: "idl_byte list" where
  "qmiLocStartBatchingIndMsgT_data_v02 =
    [LIT 0x01, OP [] QMI_IDL_GENERIC_4_BYTE, OFFSET8 qmiLocStartBatchingIndMsgT_v02 ''status'',
     TLV [QMI_IDL_TLV_FLAGS_LAST_TLV, QMI_IDL_TLV_FLAGS_OPTIONAL] (OFFSET8_DIFF qmiLocStartBatchingIndMsgT_v02 ''requestId'' ''requestId_valid''),
      LIT 0x10, OP [] QMI_IDL_GENERIC_4_BYTE, OFFSET8 qmiLocStartBatchingIndMsgT_v02 ''requestId'']"

lemma qmiLocStartBatchingIndMsgT_data_v02_ok [idl_simps]:
  "describe_msg qmiLocStartBatchingIndMsgT_data_v02 = Some (qmiLocStartBatchingIndMsgT_v02, 14, [])"
  by (simp add: qmiLocStartBatchingIndMsgT_data_v02_def qmiLocStartBatchingIndMsgT_v02_def [THEN arg_cong, of laid] analyse_simps layout_simps cong: idl_cong)

definition qmiLocEventBatchFullIndMsgT_data_v02 :: "idl_byte list" where
  "qmiLocEventBatchFullIndMsgT_data_v02 =
    [LIT 0x01, OP [] QMI_IDL_GENERIC_4_BYTE, OFFSET8 qmiLocEventBatchFullIndMsgT_v02 ''batchCount'',
     TLV [QMI_IDL_TLV_FLAGS_OPTIONAL] (OFFSET8_DIFF qmiLocEventBatchFullIndMsgT_v02 ''batchType'' ''batchType_valid''),
      LIT 0x10, OP [] QMI_IDL_GENERIC_4_BYTE, OFFSET8 qmiLocEventBatchFullIndMsgT_v02 ''batchType'',
     TLV [QMI_IDL_TLV_FLAGS_OPTIONAL] (OFFSET8_DIFF qmiLocEventBatchFullIndMsgT_v02 ''accumulatedDistance'' ''accumulatedDistance_valid''),
      LIT 0x11, OP [] QMI_IDL_GENERIC_4_BYTE,
      OFFSET8 qmiLocEventBatchFullIndMsgT_v02 ''accumulatedDistance'',
     TLV [QMI_IDL_TLV_FLAGS_LAST_TLV, QMI_IDL_TLV_FLAGS_OPTIONAL] (OFFSET8_DIFF qmiLocEventBatchFullIndMsgT_v02 ''batchedPosition'' ''batchedPosition_valid''),
      LIT 0x12, OP [] QMI_IDL_GENERIC_4_BYTE,
      OFFSET8 qmiLocEventBatchFullIndMsgT_v02 ''batchedPosition'']"

lemma qmiLocEventBatchFullIndMsgT_data_v02_ok [idl_simps]:
  "describe_msg qmiLocEventBatchFullIndMsgT_data_v02 = Some (qmiLocEventBatchFullIndMsgT_v02, 28, [])"
  by (simp add: qmiLocEventBatchFullIndMsgT_data_v02_def qmiLocEventBatchFullIndMsgT_v02_def [THEN arg_cong, of laid] analyse_simps layout_simps cong: idl_cong)

definition qmiLocEventLiveBatchedPositionReportIndMsgT_data_v02 :: "idl_byte list" where
  "qmiLocEventLiveBatchedPositionReportIndMsgT_data_v02 =
    [TLV [QMI_IDL_TLV_FLAGS_LAST_TLV] (LIT 0x01), OP [] QMI_IDL_AGGREGATE,
      OFFSET8 qmiLocEventLiveBatchedPositionReportIndMsgT_v02 ''liveBatchedReport'', TYPE88 0 50]"

lemma qmiLocEventLiveBatchedPositionReportIndMsgT_data_v02_ok [idl_simps]:
  "describe_msg qmiLocEventLiveBatchedPositionReportIndMsgT_data_v02 = Some (qmiLocEventLiveBatchedPositionReportIndMsgT_v02, 3, [(1, (0, 50), qmiLocBatchedReportStructT_v02)])"
  by (simp add: qmiLocEventLiveBatchedPositionReportIndMsgT_data_v02_def qmiLocEventLiveBatchedPositionReportIndMsgT_v02_def [THEN arg_cong, of laid] analyse_simps layout_simps cong: idl_cong)

definition qmiLocReadFromBatchReqMsgT_data_v02 :: "idl_byte list" where
  "qmiLocReadFromBatchReqMsgT_data_v02 =
    [LIT 0x01, OP [] QMI_IDL_GENERIC_4_BYTE, OFFSET8 qmiLocReadFromBatchReqMsgT_v02 ''numberOfEntries'',
     LIT 0x02, OP [] QMI_IDL_GENERIC_4_BYTE, OFFSET8 qmiLocReadFromBatchReqMsgT_v02 ''transactionId'',
     TLV [QMI_IDL_TLV_FLAGS_LAST_TLV, QMI_IDL_TLV_FLAGS_OPTIONAL] (OFFSET8_DIFF qmiLocReadFromBatchReqMsgT_v02 ''batchType'' ''batchType_valid''),
      LIT 0x10, OP [] QMI_IDL_GENERIC_4_BYTE, OFFSET8 qmiLocReadFromBatchReqMsgT_v02 ''batchType'']"

lemma qmiLocReadFromBatchReqMsgT_data_v02_ok [idl_simps]:
  "describe_msg qmiLocReadFromBatchReqMsgT_data_v02 = Some (qmiLocReadFromBatchReqMsgT_v02, 21, [])"
  by (simp add: qmiLocReadFromBatchReqMsgT_data_v02_def qmiLocReadFromBatchReqMsgT_v02_def [THEN arg_cong, of laid] analyse_simps layout_simps cong: idl_cong)

definition qmiLocReadFromBatchIndMsgT_data_v02 :: "idl_byte list" where
  "qmiLocReadFromBatchIndMsgT_data_v02 =
    [LIT 0x01, OP [] QMI_IDL_GENERIC_4_BYTE, OFFSET8 qmiLocReadFromBatchIndMsgT_v02 ''status'',
     LIT 0x02, OP [] QMI_IDL_GENERIC_4_BYTE, OFFSET8 qmiLocReadFromBatchIndMsgT_v02 ''transactionId'',
     TLV [QMI_IDL_TLV_FLAGS_OPTIONAL] (OFFSET8_DIFF qmiLocReadFromBatchIndMsgT_v02 ''numberOfEntries'' ''numberOfEntries_valid''),
      LIT 0x10, OP [] QMI_IDL_GENERIC_4_BYTE, OFFSET8 qmiLocReadFromBatchIndMsgT_v02 ''numberOfEntries'',
     TLV [QMI_IDL_TLV_FLAGS_LAST_TLV, QMI_IDL_TLV_FLAGS_OPTIONAL] (OFFSET8_DIFF qmiLocReadFromBatchIndMsgT_v02 ''batchedReportList'' ''batchedReportList_valid''),
      LIT 0x11, OP [QMI_IDL_FLAGS_IS_ARRAY, QMI_IDL_FLAGS_IS_VARIABLE_LEN] QMI_IDL_AGGREGATE,
      OFFSET8 qmiLocReadFromBatchIndMsgT_v02 ''batchedReportList'',
      LIT QMI_LOC_READ_FROM_BATCH_MAX_SIZE_V02,
      OFFSET8_DIFF qmiLocReadFromBatchIndMsgT_v02 ''batchedReportList'' ''batchedReportList_len'',
      TYPE88 0 50]"

lemma qmiLocReadFromBatchIndMsgT_data_v02_ok [idl_simps]:
  "describe_msg qmiLocReadFromBatchIndMsgT_data_v02 = Some (qmiLocReadFromBatchIndMsgT_v02, 25, [(5, (0, 50), qmiLocBatchedReportStructT_v02)])"
  by (simp add: qmiLocReadFromBatchIndMsgT_data_v02_def qmiLocReadFromBatchIndMsgT_v02_def [THEN arg_cong, of laid] analyse_simps layout_simps cong: idl_cong)

definition qmiLocStopBatchingReqMsgT_data_v02 :: "idl_byte list" where
  "qmiLocStopBatchingReqMsgT_data_v02 =
    [LIT 0x01, OP [] QMI_IDL_GENERIC_4_BYTE, OFFSET8 qmiLocStopBatchingReqMsgT_v02 ''transactionId'',
     TLV [QMI_IDL_TLV_FLAGS_OPTIONAL] (OFFSET8_DIFF qmiLocStopBatchingReqMsgT_v02 ''requestId'' ''requestId_valid''),
      LIT 0x10, OP [] QMI_IDL_GENERIC_4_BYTE, OFFSET8 qmiLocStopBatchingReqMsgT_v02 ''requestId'',
     TLV [QMI_IDL_TLV_FLAGS_LAST_TLV, QMI_IDL_TLV_FLAGS_OPTIONAL] (OFFSET8_DIFF qmiLocStopBatchingReqMsgT_v02 ''batchType'' ''batchType_valid''),
      LIT 0x11, OP [] QMI_IDL_GENERIC_4_BYTE, OFFSET8 qmiLocStopBatchingReqMsgT_v02 ''batchType'']"

lemma qmiLocStopBatchingReqMsgT_data_v02_ok [idl_simps]:
  "describe_msg qmiLocStopBatchingReqMsgT_data_v02 = Some (qmiLocStopBatchingReqMsgT_v02, 21, [])"
  by (simp add: qmiLocStopBatchingReqMsgT_data_v02_def qmiLocStopBatchingReqMsgT_v02_def [THEN arg_cong, of laid] analyse_simps layout_simps cong: idl_cong)

definition qmiLocStopBatchingIndMsgT_data_v02 :: "idl_byte list" where
  "qmiLocStopBatchingIndMsgT_data_v02 =
    [LIT 0x01, OP [] QMI_IDL_GENERIC_4_BYTE, OFFSET8 qmiLocStopBatchingIndMsgT_v02 ''status'',
     LIT 0x02, OP [] QMI_IDL_GENERIC_4_BYTE, OFFSET8 qmiLocStopBatchingIndMsgT_v02 ''transactionId'',
     TLV [QMI_IDL_TLV_FLAGS_LAST_TLV, QMI_IDL_TLV_FLAGS_OPTIONAL] (OFFSET8_DIFF qmiLocStopBatchingIndMsgT_v02 ''requestId'' ''requestId_valid''),
      LIT 0x10, OP [] QMI_IDL_GENERIC_4_BYTE, OFFSET8 qmiLocStopBatchingIndMsgT_v02 ''requestId'']"

lemma qmiLocStopBatchingIndMsgT_data_v02_ok [idl_simps]:
  "describe_msg qmiLocStopBatchingIndMsgT_data_v02 = Some (qmiLocStopBatchingIndMsgT_v02, 21, [])"
  by (simp add: qmiLocStopBatchingIndMsgT_data_v02_def qmiLocStopBatchingIndMsgT_v02_def [THEN arg_cong, of laid] analyse_simps layout_simps cong: idl_cong)

definition qmiLocReleaseBatchReqMsgT_data_v02 :: "idl_byte list" where
  "qmiLocReleaseBatchReqMsgT_data_v02 =
    [LIT 0x01, OP [] QMI_IDL_GENERIC_4_BYTE, OFFSET8 qmiLocReleaseBatchReqMsgT_v02 ''transactionId'',
     TLV [QMI_IDL_TLV_FLAGS_LAST_TLV, QMI_IDL_TLV_FLAGS_OPTIONAL] (OFFSET8_DIFF qmiLocReleaseBatchReqMsgT_v02 ''batchType'' ''batchType_valid''),
      LIT 0x10, OP [] QMI_IDL_GENERIC_4_BYTE, OFFSET8 qmiLocReleaseBatchReqMsgT_v02 ''batchType'']"

lemma qmiLocReleaseBatchReqMsgT_data_v02_ok [idl_simps]:
  "describe_msg qmiLocReleaseBatchReqMsgT_data_v02 = Some (qmiLocReleaseBatchReqMsgT_v02, 14, [])"
  by (simp add: qmiLocReleaseBatchReqMsgT_data_v02_def qmiLocReleaseBatchReqMsgT_v02_def [THEN arg_cong, of laid] analyse_simps layout_simps cong: idl_cong)

definition qmiLocReleaseBatchIndMsgT_data_v02 :: "idl_byte list" where
  "qmiLocReleaseBatchIndMsgT_data_v02 =
    [LIT 0x01, OP [] QMI_IDL_GENERIC_4_BYTE, OFFSET8 qmiLocReleaseBatchIndMsgT_v02 ''status'',
     TLV [QMI_IDL_TLV_FLAGS_LAST_TLV] (LIT 0x02), OP [] QMI_IDL_GENERIC_4_BYTE,
      OFFSET8 qmiLocReleaseBatchIndMsgT_v02 ''transactionId'']"

lemma qmiLocReleaseBatchIndMsgT_data_v02_ok [idl_simps]:
  "describe_msg qmiLocReleaseBatchIndMsgT_data_v02 = Some (qmiLocReleaseBatchIndMsgT_v02, 14, [])"
  by (simp add: qmiLocReleaseBatchIndMsgT_data_v02_def qmiLocReleaseBatchIndMsgT_v02_def [THEN arg_cong, of laid] analyse_simps layout_simps cong: idl_cong)

definition qmiLocEventInjectWifiApDataReqIndMsgT_data_v02 :: "idl_byte list" where
  "qmiLocEventInjectWifiApDataReqIndMsgT_data_v02 =
    [TLV [QMI_IDL_TLV_FLAGS_LAST_TLV, QMI_IDL_TLV_FLAGS_OPTIONAL] (OFFSET8_DIFF qmiLocEventInjectWifiApDataReqIndMsgT_v02 ''e911Mode'' ''e911Mode_valid''),
      LIT 0x10, OP [] QMI_IDL_GENERIC_1_BYTE,
      OFFSET8 qmiLocEventInjectWifiApDataReqIndMsgT_v02 ''e911Mode'']"

lemma qmiLocEventInjectWifiApDataReqIndMsgT_data_v02_ok [idl_simps]:
  "describe_msg qmiLocEventInjectWifiApDataReqIndMsgT_data_v02 = Some (qmiLocEventInjectWifiApDataReqIndMsgT_v02, 4, [])"
  by (simp add: qmiLocEventInjectWifiApDataReqIndMsgT_data_v02_def qmiLocEventInjectWifiApDataReqIndMsgT_v02_def [THEN arg_cong, of laid] analyse_simps layout_simps cong: idl_cong)

definition qmiLocInjectWifiApDataReqMsgT_data_v02 :: "idl_byte list" where
  "qmiLocInjectWifiApDataReqMsgT_data_v02 =
    [LIT 0x01, OP [QMI_IDL_FLAGS_IS_ARRAY, QMI_IDL_FLAGS_IS_VARIABLE_LEN] QMI_IDL_AGGREGATE,
      OFFSET8 qmiLocInjectWifiApDataReqMsgT_v02 ''wifiApInfo'',
      LIT QMI_LOC_WIFI_MAX_REPORTED_APS_PER_MSG_V02,
      OFFSET8_DIFF qmiLocInjectWifiApDataReqMsgT_v02 ''wifiApInfo'' ''wifiApInfo_len'', TYPE88 0 51,
     TLV [QMI_IDL_TLV_FLAGS_OPTIONAL] (OFFSET16_DIFF qmiLocInjectWifiApDataReqMsgT_v02 ''errorCause'' ''errorCause_valid''),
      LIT 0x10, OP [QMI_IDL_FLAGS_OFFSET_IS_16] QMI_IDL_GENERIC_4_BYTE,
      OFFSET16ARRAY qmiLocInjectWifiApDataReqMsgT_v02 ''errorCause'',
     TLV [QMI_IDL_TLV_FLAGS_OPTIONAL] (OFFSET16_DIFF qmiLocInjectWifiApDataReqMsgT_v02 ''requestTimestamp'' ''requestTimestamp_valid''),
      LIT 0x11, OP [QMI_IDL_FLAGS_OFFSET_IS_16] QMI_IDL_GENERIC_8_BYTE,
      OFFSET16ARRAY qmiLocInjectWifiApDataReqMsgT_v02 ''requestTimestamp'',
     TLV [QMI_IDL_TLV_FLAGS_OPTIONAL] (OFFSET16_DIFF qmiLocInjectWifiApDataReqMsgT_v02 ''receiveTimestamp'' ''receiveTimestamp_valid''),
      LIT 0x12, OP [QMI_IDL_FLAGS_OFFSET_IS_16] QMI_IDL_GENERIC_8_BYTE,
      OFFSET16ARRAY qmiLocInjectWifiApDataReqMsgT_v02 ''receiveTimestamp'',
     TLV [QMI_IDL_TLV_FLAGS_OPTIONAL] (OFFSET16_DIFF qmiLocInjectWifiApDataReqMsgT_v02 ''onDemandScan'' ''onDemandScan_valid''),
      LIT 0x13, OP [QMI_IDL_FLAGS_OFFSET_IS_16] QMI_IDL_GENERIC_1_BYTE,
      OFFSET16ARRAY qmiLocInjectWifiApDataReqMsgT_v02 ''onDemandScan'',
     TLV [QMI_IDL_TLV_FLAGS_OPTIONAL] (OFFSET16_DIFF qmiLocInjectWifiApDataReqMsgT_v02 ''wifiApInfoA'' ''wifiApInfoA_valid''),
      LIT 0x14,
      OP [QMI_IDL_FLAGS_IS_ARRAY, QMI_IDL_FLAGS_IS_VARIABLE_LEN, QMI_IDL_FLAGS_OFFSET_IS_16] QMI_IDL_AGGREGATE,
      OFFSET16ARRAY qmiLocInjectWifiApDataReqMsgT_v02 ''wifiApInfoA'',
      LIT QMI_LOC_WIFI_MAX_REPORTED_APS_PER_MSG_V02,
      OFFSET16_DIFF qmiLocInjectWifiApDataReqMsgT_v02 ''wifiApInfoA'' ''wifiApInfoA_len'', TYPE88 0 52,
     TLV [QMI_IDL_TLV_FLAGS_LAST_TLV, QMI_IDL_TLV_FLAGS_OPTIONAL] (OFFSET16_DIFF qmiLocInjectWifiApDataReqMsgT_v02 ''ueMacAddress'' ''ueMacAddress_valid''),
      LIT 0x15, OP [QMI_IDL_FLAGS_IS_ARRAY, QMI_IDL_FLAGS_OFFSET_IS_16] QMI_IDL_GENERIC_1_BYTE,
      OFFSET16ARRAY qmiLocInjectWifiApDataReqMsgT_v02 ''ueMacAddress'',
      LIT QMI_LOC_WIFI_MAC_ADDR_LENGTH_V02]"

lemma qmiLocInjectWifiApDataReqMsgT_data_v02_ok [idl_simps]:
  "describe_msg qmiLocInjectWifiApDataReqMsgT_data_v02 = Some (qmiLocInjectWifiApDataReqMsgT_v02, 50, [(50, (0, 51), qmiLocWifiApDataStructT_v02), (50, (0, 52), qmiLocWifiApAdditionalDataStructT_v02)])"
  by (simp add: qmiLocInjectWifiApDataReqMsgT_data_v02_def qmiLocInjectWifiApDataReqMsgT_v02_def [THEN arg_cong, of laid] analyse_simps layout_simps cong: idl_cong)

definition qmiLocInjectWifiApDataIndMsgT_data_v02 :: "idl_byte list" where
  "qmiLocInjectWifiApDataIndMsgT_data_v02 =
    [TLV [QMI_IDL_TLV_FLAGS_LAST_TLV] (LIT 0x01), OP [] QMI_IDL_GENERIC_4_BYTE,
      OFFSET8 qmiLocInjectWifiApDataIndMsgT_v02 ''status'']"

lemma qmiLocInjectWifiApDataIndMsgT_data_v02_ok [idl_simps]:
  "describe_msg qmiLocInjectWifiApDataIndMsgT_data_v02 = Some (qmiLocInjectWifiApDataIndMsgT_v02, 7, [])"
  by (simp add: qmiLocInjectWifiApDataIndMsgT_data_v02_def qmiLocInjectWifiApDataIndMsgT_v02_def [THEN arg_cong, of laid] analyse_simps layout_simps cong: idl_cong)

definition qmiLocNotifyWifiAttachmentStatusReqMsgT_data_v02 :: "idl_byte list" where
  "qmiLocNotifyWifiAttachmentStatusReqMsgT_data_v02 =
    [LIT 0x01, OP [] QMI_IDL_GENERIC_4_BYTE,
      OFFSET8 qmiLocNotifyWifiAttachmentStatusReqMsgT_v02 ''attachState'',
     TLV [QMI_IDL_TLV_FLAGS_OPTIONAL] (OFFSET8_DIFF qmiLocNotifyWifiAttachmentStatusReqMsgT_v02 ''accessPointMacAddress'' ''accessPointMacAddress_valid''),
      LIT 0x10, OP [QMI_IDL_FLAGS_IS_ARRAY] QMI_IDL_GENERIC_1_BYTE,
      OFFSET8 qmiLocNotifyWifiAttachmentStatusReqMsgT_v02 ''accessPointMacAddress'',
      LIT QMI_LOC_WIFI_MAC_ADDR_LENGTH_V02,
     TLV [QMI_IDL_TLV_FLAGS_LAST_TLV, QMI_IDL_TLV_FLAGS_OPTIONAL] (OFFSET8_DIFF qmiLocNotifyWifiAttachmentStatusReqMsgT_v02 ''wifiApSsid'' ''wifiApSsid_valid''),
      LIT 0x11, OP [QMI_IDL_FLAGS_IS_ARRAY, QMI_IDL_FLAGS_IS_VARIABLE_LEN] QMI_IDL_STRING,
      OFFSET8 qmiLocNotifyWifiAttachmentStatusReqMsgT_v02 ''wifiApSsid'',
      LIT QMI_LOC_MAX_WIFI_AP_SSID_STR_LENGTH_V02]"

lemma qmiLocNotifyWifiAttachmentStatusReqMsgT_data_v02_ok [idl_simps]:
  "describe_msg qmiLocNotifyWifiAttachmentStatusReqMsgT_data_v02 = Some (qmiLocNotifyWifiAttachmentStatusReqMsgT_v02, 51, [])"
  by (simp add: qmiLocNotifyWifiAttachmentStatusReqMsgT_data_v02_def qmiLocNotifyWifiAttachmentStatusReqMsgT_v02_def [THEN arg_cong, of laid] analyse_simps layout_simps cong: idl_cong)

definition qmiLocNotifyWifiAttachmentStatusIndMsgT_data_v02 :: "idl_byte list" where
  "qmiLocNotifyWifiAttachmentStatusIndMsgT_data_v02 =
    [TLV [QMI_IDL_TLV_FLAGS_LAST_TLV] (LIT 0x01), OP [] QMI_IDL_GENERIC_4_BYTE,
      OFFSET8 qmiLocNotifyWifiAttachmentStatusIndMsgT_v02 ''status'']"

lemma qmiLocNotifyWifiAttachmentStatusIndMsgT_data_v02_ok [idl_simps]:
  "describe_msg qmiLocNotifyWifiAttachmentStatusIndMsgT_data_v02 = Some (qmiLocNotifyWifiAttachmentStatusIndMsgT_v02, 7, [])"
  by (simp add: qmiLocNotifyWifiAttachmentStatusIndMsgT_data_v02_def qmiLocNotifyWifiAttachmentStatusIndMsgT_v02_def [THEN arg_cong, of laid] analyse_simps layout_simps cong: idl_cong)

definition qmiLocNotifyWifiEnabledStatusReqMsgT_data_v02 :: "idl_byte list" where
  "qmiLocNotifyWifiEnabledStatusReqMsgT_data_v02 =
    [TLV [QMI_IDL_TLV_FLAGS_LAST_TLV] (LIT 0x01), OP [] QMI_IDL_GENERIC_4_BYTE,
      OFFSET8 qmiLocNotifyWifiEnabledStatusReqMsgT_v02 ''enabledStatus'']"

lemma qmiLocNotifyWifiEnabledStatusReqMsgT_data_v02_ok [idl_simps]:
  "describe_msg qmiLocNotifyWifiEnabledStatusReqMsgT_data_v02 = Some (qmiLocNotifyWifiEnabledStatusReqMsgT_v02, 7, [])"
  by (simp add: qmiLocNotifyWifiEnabledStatusReqMsgT_data_v02_def qmiLocNotifyWifiEnabledStatusReqMsgT_v02_def [THEN arg_cong, of laid] analyse_simps layout_simps cong: idl_cong)

definition qmiLocNotifyWifiEnabledStatusIndMsgT_data_v02 :: "idl_byte list" where
  "qmiLocNotifyWifiEnabledStatusIndMsgT_data_v02 =
    [TLV [QMI_IDL_TLV_FLAGS_LAST_TLV] (LIT 0x01), OP [] QMI_IDL_GENERIC_4_BYTE,
      OFFSET8 qmiLocNotifyWifiEnabledStatusIndMsgT_v02 ''status'']"

lemma qmiLocNotifyWifiEnabledStatusIndMsgT_data_v02_ok [idl_simps]:
  "describe_msg qmiLocNotifyWifiEnabledStatusIndMsgT_data_v02 = Some (qmiLocNotifyWifiEnabledStatusIndMsgT_v02, 7, [])"
  by (simp add: qmiLocNotifyWifiEnabledStatusIndMsgT_data_v02_def qmiLocNotifyWifiEnabledStatusIndMsgT_v02_def [THEN arg_cong, of laid] analyse_simps layout_simps cong: idl_cong)

definition qmiLocEventVehicleDataReadyIndMsgT_data_v02 :: "idl_byte list" where
  "qmiLocEventVehicleDataReadyIndMsgT_data_v02 =
    [TLV [QMI_IDL_TLV_FLAGS_OPTIONAL] (OFFSET8_DIFF qmiLocEventVehicleDataReadyIndMsgT_v02 ''vehicleAccelReadyStatus'' ''vehicleAccelReadyStatus_valid''),
      LIT 0x10, OP [] QMI_IDL_GENERIC_1_BYTE,
      OFFSET8 qmiLocEventVehicleDataReadyIndMsgT_v02 ''vehicleAccelReadyStatus'',
     TLV [QMI_IDL_TLV_FLAGS_OPTIONAL] (OFFSET8_DIFF qmiLocEventVehicleDataReadyIndMsgT_v02 ''vehicleAngularRateReadyStatus'' ''vehicleAngularRateReadyStatus_valid''),
      LIT 0x11, OP [] QMI_IDL_GENERIC_1_BYTE,
      OFFSET8 qmiLocEventVehicleDataReadyIndMsgT_v02 ''vehicleAngularRateReadyStatus'',
     TLV [QMI_IDL_TLV_FLAGS_LAST_TLV, QMI_IDL_TLV_FLAGS_OPTIONAL] (OFFSET8_DIFF qmiLocEventVehicleDataReadyIndMsgT_v02 ''vehicleOdometryReadyStatus'' ''vehicleOdometryReadyStatus_valid''),
      LIT 0x12, OP [] QMI_IDL_GENERIC_1_BYTE,
      OFFSET8 qmiLocEventVehicleDataReadyIndMsgT_v02 ''vehicleOdometryReadyStatus'']"

lemma qmiLocEventVehicleDataReadyIndMsgT_data_v02_ok [idl_simps]:
  "describe_msg qmiLocEventVehicleDataReadyIndMsgT_data_v02 = Some (qmiLocEventVehicleDataReadyIndMsgT_v02, 12, [])"
  by (simp add: qmiLocEventVehicleDataReadyIndMsgT_data_v02_def qmiLocEventVehicleDataReadyIndMsgT_v02_def [THEN arg_cong, of laid] analyse_simps layout_simps cong: idl_cong)

definition qmiLocInjectVehicleSensorDataReqMsgT_data_v02 :: "idl_byte list" where
  "qmiLocInjectVehicleSensorDataReqMsgT_data_v02 =
    [TLV [QMI_IDL_TLV_FLAGS_OPTIONAL] (OFFSET8_DIFF qmiLocInjectVehicleSensorDataReqMsgT_v02 ''accelData'' ''accelData_valid''),
      LIT 0x10, OP [] QMI_IDL_AGGREGATE, OFFSET8 qmiLocInjectVehicleSensorDataReqMsgT_v02 ''accelData'',
      TYPE88 0 54,
     TLV [QMI_IDL_TLV_FLAGS_OPTIONAL] (OFFSET16_DIFF qmiLocInjectVehicleSensorDataReqMsgT_v02 ''angRotationData'' ''angRotationData_valid''),
      LIT 0x11, OP [QMI_IDL_FLAGS_OFFSET_IS_16] QMI_IDL_AGGREGATE,
      OFFSET16ARRAY qmiLocInjectVehicleSensorDataReqMsgT_v02 ''angRotationData'', TYPE88 0 54,
     TLV [QMI_IDL_TLV_FLAGS_OPTIONAL] (OFFSET16_DIFF qmiLocInjectVehicleSensorDataReqMsgT_v02 ''odometryData'' ''odometryData_valid''),
      LIT 0x12, OP [QMI_IDL_FLAGS_OFFSET_IS_16] QMI_IDL_AGGREGATE,
      OFFSET16ARRAY qmiLocInjectVehicleSensorDataReqMsgT_v02 ''odometryData'', TYPE88 0 56,
     TLV [QMI_IDL_TLV_FLAGS_LAST_TLV, QMI_IDL_TLV_FLAGS_OPTIONAL] (OFFSET16_DIFF qmiLocInjectVehicleSensorDataReqMsgT_v02 ''changeInTimeScales'' ''changeInTimeScales_valid''),
      LIT 0x13, OP [QMI_IDL_FLAGS_OFFSET_IS_16] QMI_IDL_GENERIC_4_BYTE,
      OFFSET16ARRAY qmiLocInjectVehicleSensorDataReqMsgT_v02 ''changeInTimeScales'']"

lemma qmiLocInjectVehicleSensorDataReqMsgT_data_v02_ok [idl_simps]:
  "describe_msg qmiLocInjectVehicleSensorDataReqMsgT_data_v02 = Some (qmiLocInjectVehicleSensorDataReqMsgT_v02, 16, [(1, (0, 54), qmiLocVehicleSensorSampleListStructType_v02), (1, (0, 54), qmiLocVehicleSensorSampleListStructType_v02), (1, (0, 56), qmiLocVehicleOdometrySampleListStructT_v02)])"
  by (simp add: qmiLocInjectVehicleSensorDataReqMsgT_data_v02_def qmiLocInjectVehicleSensorDataReqMsgT_v02_def [THEN arg_cong, of laid] analyse_simps layout_simps cong: idl_cong)

definition qmiLocInjectVehicleSensorDataIndMsgT_data_v02 :: "idl_byte list" where
  "qmiLocInjectVehicleSensorDataIndMsgT_data_v02 =
    [TLV [QMI_IDL_TLV_FLAGS_LAST_TLV] (LIT 0x01), OP [] QMI_IDL_GENERIC_4_BYTE,
      OFFSET8 qmiLocInjectVehicleSensorDataIndMsgT_v02 ''status'']"

lemma qmiLocInjectVehicleSensorDataIndMsgT_data_v02_ok [idl_simps]:
  "describe_msg qmiLocInjectVehicleSensorDataIndMsgT_data_v02 = Some (qmiLocInjectVehicleSensorDataIndMsgT_v02, 7, [])"
  by (simp add: qmiLocInjectVehicleSensorDataIndMsgT_data_v02_def qmiLocInjectVehicleSensorDataIndMsgT_v02_def [THEN arg_cong, of laid] analyse_simps layout_simps cong: idl_cong)

definition qmiLocGetAvailWwanPositionReqMsgT_data_v02 :: "idl_byte list" where
  "qmiLocGetAvailWwanPositionReqMsgT_data_v02 =
    [TLV [QMI_IDL_TLV_FLAGS_LAST_TLV] (LIT 0x01), OP [] QMI_IDL_GENERIC_4_BYTE,
      OFFSET8 qmiLocGetAvailWwanPositionReqMsgT_v02 ''transactionId'']"

lemma qmiLocGetAvailWwanPositionReqMsgT_data_v02_ok [idl_simps]:
  "describe_msg qmiLocGetAvailWwanPositionReqMsgT_data_v02 = Some (qmiLocGetAvailWwanPositionReqMsgT_v02, 7, [])"
  by (simp add: qmiLocGetAvailWwanPositionReqMsgT_data_v02_def qmiLocGetAvailWwanPositionReqMsgT_v02_def [THEN arg_cong, of laid] analyse_simps layout_simps cong: idl_cong)

definition qmiLocGetAvailWwanPositionIndMsgT_data_v02 :: "idl_byte list" where
  "qmiLocGetAvailWwanPositionIndMsgT_data_v02 =
    [LIT 0x01, OP [] QMI_IDL_GENERIC_4_BYTE, OFFSET8 qmiLocGetAvailWwanPositionIndMsgT_v02 ''status'',
     TLV [QMI_IDL_TLV_FLAGS_OPTIONAL] (OFFSET8_DIFF qmiLocGetAvailWwanPositionIndMsgT_v02 ''transactionId'' ''transactionId_valid''),
      LIT 0x10, OP [] QMI_IDL_GENERIC_4_BYTE,
      OFFSET8 qmiLocGetAvailWwanPositionIndMsgT_v02 ''transactionId'',
     TLV [QMI_IDL_TLV_FLAGS_OPTIONAL] (OFFSET8_DIFF qmiLocGetAvailWwanPositionIndMsgT_v02 ''latitude'' ''latitude_valid''),
      LIT 0x11, OP [] QMI_IDL_GENERIC_8_BYTE, OFFSET8 qmiLocGetAvailWwanPositionIndMsgT_v02 ''latitude'',
     TLV [QMI_IDL_TLV_FLAGS_OPTIONAL] (OFFSET8_DIFF qmiLocGetAvailWwanPositionIndMsgT_v02 ''longitude'' ''longitude_valid''),
      LIT 0x12, OP [] QMI_IDL_GENERIC_8_BYTE,
      OFFSET8 qmiLocGetAvailWwanPositionIndMsgT_v02 ''longitude'',
     TLV [QMI_IDL_TLV_FLAGS_OPTIONAL] (OFFSET8_DIFF qmiLocGetAvailWwanPositionIndMsgT_v02 ''horUncCircular'' ''horUncCircular_valid''),
      LIT 0x13, OP [] QMI_IDL_GENERIC_4_BYTE,
      OFFSET8 qmiLocGetAvailWwanPositionIndMsgT_v02 ''horUncCircular'',
     TLV [QMI_IDL_TLV_FLAGS_OPTIONAL] (OFFSET8_DIFF qmiLocGetAvailWwanPositionIndMsgT_v02 ''altitudeWrtEllipsoid'' ''altitudeWrtEllipsoid_valid''),
      LIT 0x14, OP [] QMI_IDL_GENERIC_4_BYTE,
      OFFSET8 qmiLocGetAvailWwanPositionIndMsgT_v02 ''altitudeWrtEllipsoid'',
     TLV [QMI_IDL_TLV_FLAGS_OPTIONAL] (OFFSET8_DIFF qmiLocGetAvailWwanPositionIndMsgT_v02 ''vertUnc'' ''vertUnc_valid''),
      LIT 0x15, OP [] QMI_IDL_GENERIC_4_BYTE, OFFSET8 qmiLocGetAvailWwanPositionIndMsgT_v02 ''vertUnc'',
     TLV [QMI_IDL_TLV_FLAGS_OPTIONAL] (OFFSET8_DIFF qmiLocGetAvailWwanPositionIndMsgT_v02 ''timestampUtc'' ''timestampUtc_valid''),
      LIT 0x16, OP [] QMI_IDL_GENERIC_8_BYTE,
      OFFSET8 qmiLocGetAvailWwanPositionIndMsgT_v02 ''timestampUtc'',
     TLV [QMI_IDL_TLV_FLAGS_OPTIONAL] (OFFSET8_DIFF qmiLocGetAvailWwanPositionIndMsgT_v02 ''timeUnc'' ''timeUnc_valid''),
      LIT 0x17, OP [] QMI_IDL_GENERIC_4_BYTE, OFFSET8 qmiLocGetAvailWwanPositionIndMsgT_v02 ''timeUnc'',
     TLV [QMI_IDL_TLV_FLAGS_OPTIONAL] (OFFSET8_DIFF qmiLocGetAvailWwanPositionIndMsgT_v02 ''horUncEllipseSemiMinor'' ''horUncEllipseSemiMinor_valid''),
      LIT 0x18, OP [] QMI_IDL_GENERIC_4_BYTE,
      OFFSET8 qmiLocGetAvailWwanPositionIndMsgT_v02 ''horUncEllipseSemiMinor'',
     TLV [QMI_IDL_TLV_FLAGS_OPTIONAL] (OFFSET8_DIFF qmiLocGetAvailWwanPositionIndMsgT_v02 ''horUncEllipseSemiMajor'' ''horUncEllipseSemiMajor_valid''),
      LIT 0x19, OP [] QMI_IDL_GENERIC_4_BYTE,
      OFFSET8 qmiLocGetAvailWwanPositionIndMsgT_v02 ''horUncEllipseSemiMajor'',
     TLV [QMI_IDL_TLV_FLAGS_OPTIONAL] (OFFSET8_DIFF qmiLocGetAvailWwanPositionIndMsgT_v02 ''horUncEllipseOrientAzimuth'' ''horUncEllipseOrientAzimuth_valid''),
      LIT 0x1A, OP [] QMI_IDL_GENERIC_4_BYTE,
      OFFSET8 qmiLocGetAvailWwanPositionIndMsgT_v02 ''horUncEllipseOrientAzimuth'',
     TLV [QMI_IDL_TLV_FLAGS_OPTIONAL] (OFFSET8_DIFF qmiLocGetAvailWwanPositionIndMsgT_v02 ''horCircularConfidence'' ''horCircularConfidence_valid''),
      LIT 0x1B, OP [] QMI_IDL_GENERIC_1_BYTE,
      OFFSET8 qmiLocGetAvailWwanPositionIndMsgT_v02 ''horCircularConfidence'',
     TLV [QMI_IDL_TLV_FLAGS_OPTIONAL] (OFFSET8_DIFF qmiLocGetAvailWwanPositionIndMsgT_v02 ''horEllipticalConfidence'' ''horEllipticalConfidence_valid''),
      LIT 0x1C, OP [] QMI_IDL_GENERIC_1_BYTE,
      OFFSET8 qmiLocGetAvailWwanPositionIndMsgT_v02 ''horEllipticalConfidence'',
     TLV [QMI_IDL_TLV_FLAGS_OPTIONAL] (OFFSET8_DIFF qmiLocGetAvailWwanPositionIndMsgT_v02 ''horReliability'' ''horReliability_valid''),
      LIT 0x1D, OP [] QMI_IDL_GENERIC_4_BYTE,
      OFFSET8 qmiLocGetAvailWwanPositionIndMsgT_v02 ''horReliability'',
     TLV [QMI_IDL_TLV_FLAGS_OPTIONAL] (OFFSET8_DIFF qmiLocGetAvailWwanPositionIndMsgT_v02 ''altitudeWrtMeanSeaLevel'' ''altitudeWrtMeanSeaLevel_valid''),
      LIT 0x1E, OP [] QMI_IDL_GENERIC_4_BYTE,
      OFFSET8 qmiLocGetAvailWwanPositionIndMsgT_v02 ''altitudeWrtMeanSeaLevel'',
     TLV [QMI_IDL_TLV_FLAGS_OPTIONAL] (OFFSET8_DIFF qmiLocGetAvailWwanPositionIndMsgT_v02 ''vertConfidence'' ''vertConfidence_valid''),
      LIT 0x1F, OP [] QMI_IDL_GENERIC_1_BYTE,
      OFFSET8 qmiLocGetAvailWwanPositionIndMsgT_v02 ''vertConfidence'',
     TLV [QMI_IDL_TLV_FLAGS_OPTIONAL] (OFFSET8_DIFF qmiLocGetAvailWwanPositionIndMsgT_v02 ''vertReliability'' ''vertReliability_valid''),
      LIT 0x20, OP [] QMI_IDL_GENERIC_4_BYTE,
      OFFSET8 qmiLocGetAvailWwanPositionIndMsgT_v02 ''vertReliability'',
     TLV [QMI_IDL_TLV_FLAGS_OPTIONAL] (OFFSET8_DIFF qmiLocGetAvailWwanPositionIndMsgT_v02 ''gpsTime'' ''gpsTime_valid''),
      LIT 0x21, OP [] QMI_IDL_AGGREGATE, OFFSET8 qmiLocGetAvailWwanPositionIndMsgT_v02 ''gpsTime'',
      TYPE88 0 2,
     TLV [QMI_IDL_TLV_FLAGS_LAST_TLV, QMI_IDL_TLV_FLAGS_OPTIONAL] (OFFSET8_DIFF qmiLocGetAvailWwanPositionIndMsgT_v02 ''timeSrc'' ''timeSrc_valid''),
      LIT 0x22, OP [] QMI_IDL_GENERIC_4_BYTE, OFFSET8 qmiLocGetAvailWwanPositionIndMsgT_v02 ''timeSrc'']"

lemma qmiLocGetAvailWwanPositionIndMsgT_data_v02_ok [idl_simps]:
  "describe_msg qmiLocGetAvailWwanPositionIndMsgT_data_v02 = Some (qmiLocGetAvailWwanPositionIndMsgT_v02, 139, [(1, (0, 2), qmiLocGPSTimeStructT_v02)])"
  by (simp add: qmiLocGetAvailWwanPositionIndMsgT_data_v02_def qmiLocGetAvailWwanPositionIndMsgT_v02_def [THEN arg_cong, of laid] analyse_simps layout_simps cong: idl_cong)

definition qmiLocSetPremiumServicesCfgReqMsgT_data_v02 :: "idl_byte list" where
  "qmiLocSetPremiumServicesCfgReqMsgT_data_v02 =
    [LIT 0x01, OP [] QMI_IDL_GENERIC_4_BYTE,
      OFFSET8 qmiLocSetPremiumServicesCfgReqMsgT_v02 ''premiumServiceType'',
     TLV [QMI_IDL_TLV_FLAGS_LAST_TLV] (LIT 0x02), OP [] QMI_IDL_GENERIC_4_BYTE,
      OFFSET8 qmiLocSetPremiumServicesCfgReqMsgT_v02 ''premiumServiceCfg'']"

lemma qmiLocSetPremiumServicesCfgReqMsgT_data_v02_ok [idl_simps]:
  "describe_msg qmiLocSetPremiumServicesCfgReqMsgT_data_v02 = Some (qmiLocSetPremiumServicesCfgReqMsgT_v02, 14, [])"
  by (simp add: qmiLocSetPremiumServicesCfgReqMsgT_data_v02_def qmiLocSetPremiumServicesCfgReqMsgT_v02_def [THEN arg_cong, of laid] analyse_simps layout_simps cong: idl_cong)

definition qmiLocSetPremiumServicesCfgIndMsgT_data_v02 :: "idl_byte list" where
  "qmiLocSetPremiumServicesCfgIndMsgT_data_v02 =
    [TLV [QMI_IDL_TLV_FLAGS_LAST_TLV] (LIT 0x01), OP [] QMI_IDL_GENERIC_4_BYTE,
      OFFSET8 qmiLocSetPremiumServicesCfgIndMsgT_v02 ''status'']"

lemma qmiLocSetPremiumServicesCfgIndMsgT_data_v02_ok [idl_simps]:
  "describe_msg qmiLocSetPremiumServicesCfgIndMsgT_data_v02 = Some (qmiLocSetPremiumServicesCfgIndMsgT_v02, 7, [])"
  by (simp add: qmiLocSetPremiumServicesCfgIndMsgT_data_v02_def qmiLocSetPremiumServicesCfgIndMsgT_v02_def [THEN arg_cong, of laid] analyse_simps layout_simps cong: idl_cong)

definition qmiLocSetXtraVersionCheckReqMsgT_data_v02 :: "idl_byte list" where
  "qmiLocSetXtraVersionCheckReqMsgT_data_v02 =
    [TLV [QMI_IDL_TLV_FLAGS_LAST_TLV] (LIT 0x01), OP [] QMI_IDL_GENERIC_4_BYTE,
      OFFSET8 qmiLocSetXtraVersionCheckReqMsgT_v02 ''xtraVersionCheckMode'']"

lemma qmiLocSetXtraVersionCheckReqMsgT_data_v02_ok [idl_simps]:
  "describe_msg qmiLocSetXtraVersionCheckReqMsgT_data_v02 = Some (qmiLocSetXtraVersionCheckReqMsgT_v02, 7, [])"
  by (simp add: qmiLocSetXtraVersionCheckReqMsgT_data_v02_def qmiLocSetXtraVersionCheckReqMsgT_v02_def [THEN arg_cong, of laid] analyse_simps layout_simps cong: idl_cong)

definition qmiLocSetXtraVersionCheckIndMsgT_data_v02 :: "idl_byte list" where
  "qmiLocSetXtraVersionCheckIndMsgT_data_v02 =
    [TLV [QMI_IDL_TLV_FLAGS_LAST_TLV] (LIT 0x01), OP [] QMI_IDL_GENERIC_4_BYTE,
      OFFSET8 qmiLocSetXtraVersionCheckIndMsgT_v02 ''status'']"

lemma qmiLocSetXtraVersionCheckIndMsgT_data_v02_ok [idl_simps]:
  "describe_msg qmiLocSetXtraVersionCheckIndMsgT_data_v02 = Some (qmiLocSetXtraVersionCheckIndMsgT_v02, 7, [])"
  by (simp add: qmiLocSetXtraVersionCheckIndMsgT_data_v02_def qmiLocSetXtraVersionCheckIndMsgT_v02_def [THEN arg_cong, of laid] analyse_simps layout_simps cong: idl_cong)

definition qmiLocSetGNSSConstRepConfigReqMsgT_data_v02 :: "idl_byte list" where
  "qmiLocSetGNSSConstRepConfigReqMsgT_data_v02 =
    [TLV [QMI_IDL_TLV_FLAGS_OPTIONAL] (OFFSET8_DIFF qmiLocSetGNSSConstRepConfigReqMsgT_v02 ''measReportConfig'' ''measReportConfig_valid''),
      LIT 0x10, OP [] QMI_IDL_GENERIC_8_BYTE,
      OFFSET8 qmiLocSetGNSSConstRepConfigReqMsgT_v02 ''measReportConfig'',
     TLV [QMI_IDL_TLV_FLAGS_OPTIONAL] (OFFSET8_DIFF qmiLocSetGNSSConstRepConfigReqMsgT_v02 ''svPolyReportConfig'' ''svPolyReportConfig_valid''),
      LIT 0x11, OP [] QMI_IDL_GENERIC_8_BYTE,
      OFFSET8 qmiLocSetGNSSConstRepConfigReqMsgT_v02 ''svPolyReportConfig'',
     TLV [QMI_IDL_TLV_FLAGS_OPTIONAL] (OFFSET8_DIFF qmiLocSetGNSSConstRepConfigReqMsgT_v02 ''reportFullEphemerisDb'' ''reportFullEphemerisDb_valid''),
      LIT 0x12, OP [] QMI_IDL_GENERIC_1_BYTE,
      OFFSET8 qmiLocSetGNSSConstRepConfigReqMsgT_v02 ''reportFullEphemerisDb'',
     TLV [QMI_IDL_TLV_FLAGS_OPTIONAL] (OFFSET8_DIFF qmiLocSetGNSSConstRepConfigReqMsgT_v02 ''reportFullSvPolyDb'' ''reportFullSvPolyDb_valid''),
      LIT 0x13, OP [] QMI_IDL_GENERIC_1_BYTE,
      OFFSET8 qmiLocSetGNSSConstRepConfigReqMsgT_v02 ''reportFullSvPolyDb'',
     TLV [QMI_IDL_TLV_FLAGS_LAST_TLV, QMI_IDL_TLV_FLAGS_OPTIONAL] (OFFSET8_DIFF qmiLocSetGNSSConstRepConfigReqMsgT_v02 ''reportFullIonoDb'' ''reportFullIonoDb_valid''),
      LIT 0x14, OP [] QMI_IDL_GENERIC_1_BYTE,
      OFFSET8 qmiLocSetGNSSConstRepConfigReqMsgT_v02 ''reportFullIonoDb'']"

lemma qmiLocSetGNSSConstRepConfigReqMsgT_data_v02_ok [idl_simps]:
  "describe_msg qmiLocSetGNSSConstRepConfigReqMsgT_data_v02 = Some (qmiLocSetGNSSConstRepConfigReqMsgT_v02, 34, [])"
  by (simp add: qmiLocSetGNSSConstRepConfigReqMsgT_data_v02_def qmiLocSetGNSSConstRepConfigReqMsgT_v02_def [THEN arg_cong, of laid] analyse_simps layout_simps cong: idl_cong)

definition qmiLocSetGNSSConstRepConfigIndMsgT_data_v02 :: "idl_byte list" where
  "qmiLocSetGNSSConstRepConfigIndMsgT_data_v02 =
    [TLV [QMI_IDL_TLV_FLAGS_LAST_TLV] (LIT 0x01), OP [] QMI_IDL_GENERIC_4_BYTE,
      OFFSET8 qmiLocSetGNSSConstRepConfigIndMsgT_v02 ''status'']"

lemma qmiLocSetGNSSConstRepConfigIndMsgT_data_v02_ok [idl_simps]:
  "describe_msg qmiLocSetGNSSConstRepConfigIndMsgT_data_v02 = Some (qmiLocSetGNSSConstRepConfigIndMsgT_v02, 7, [])"
  by (simp add: qmiLocSetGNSSConstRepConfigIndMsgT_data_v02_def qmiLocSetGNSSConstRepConfigIndMsgT_v02_def [THEN arg_cong, of laid] analyse_simps layout_simps cong: idl_cong)

definition qmiLocEventGnssSvMeasInfoIndMsgT_data_v02 :: "idl_byte list" where
  "qmiLocEventGnssSvMeasInfoIndMsgT_data_v02 =
    [LIT 0x01, OP [] QMI_IDL_GENERIC_1_BYTE, OFFSET8 qmiLocEventGnssSvMeasInfoIndMsgT_v02 ''seqNum'',
     LIT 0x02, OP [] QMI_IDL_GENERIC_1_BYTE,
      OFFSET8 qmiLocEventGnssSvMeasInfoIndMsgT_v02 ''maxMessageNum'',
     LIT 0x03, OP [] QMI_IDL_GENERIC_4_BYTE, OFFSET8 qmiLocEventGnssSvMeasInfoIndMsgT_v02 ''system'',
     TLV [QMI_IDL_TLV_FLAGS_OPTIONAL] (OFFSET8_DIFF qmiLocEventGnssSvMeasInfoIndMsgT_v02 ''rcvrClockFrequencyInfo'' ''rcvrClockFrequencyInfo_valid''),
      LIT 0x10, OP [] QMI_IDL_AGGREGATE,
      OFFSET8 qmiLocEventGnssSvMeasInfoIndMsgT_v02 ''rcvrClockFrequencyInfo'', TYPE88 0 57,
     TLV [QMI_IDL_TLV_FLAGS_OPTIONAL] (OFFSET8_DIFF qmiLocEventGnssSvMeasInfoIndMsgT_v02 ''leapSecondInfo'' ''leapSecondInfo_valid''),
      LIT 0x11, OP [] QMI_IDL_AGGREGATE,
      OFFSET8 qmiLocEventGnssSvMeasInfoIndMsgT_v02 ''leapSecondInfo'', TYPE88 0 58,
     TLV [QMI_IDL_TLV_FLAGS_OPTIONAL] (OFFSET8_DIFF qmiLocEventGnssSvMeasInfoIndMsgT_v02 ''gpsGloInterSystemBias'' ''gpsGloInterSystemBias_valid''),
      LIT 0x12, OP [] QMI_IDL_AGGREGATE,
      OFFSET8 qmiLocEventGnssSvMeasInfoIndMsgT_v02 ''gpsGloInterSystemBias'', TYPE88 0 59,
     TLV [QMI_IDL_TLV_FLAGS_OPTIONAL] (OFFSET8_DIFF qmiLocEventGnssSvMeasInfoIndMsgT_v02 ''gpsBdsInterSystemBias'' ''gpsBdsInterSystemBias_valid''),
      LIT 0x13, OP [] QMI_IDL_AGGREGATE,
      OFFSET8 qmiLocEventGnssSvMeasInfoIndMsgT_v02 ''gpsBdsInterSystemBias'', TYPE88 0 59,
     TLV [QMI_IDL_TLV_FLAGS_OPTIONAL] (OFFSET8_DIFF qmiLocEventGnssSvMeasInfoIndMsgT_v02 ''gpsGalInterSystemBias'' ''gpsGalInterSystemBias_valid''),
      LIT 0x14, OP [] QMI_IDL_AGGREGATE,
      OFFSET8 qmiLocEventGnssSvMeasInfoIndMsgT_v02 ''gpsGalInterSystemBias'', TYPE88 0 59,
     TLV [QMI_IDL_TLV_FLAGS_OPTIONAL] (OFFSET8_DIFF qmiLocEventGnssSvMeasInfoIndMsgT_v02 ''bdsGloInterSystemBias'' ''bdsGloInterSystemBias_valid''),
      LIT 0x15, OP [] QMI_IDL_AGGREGATE,
      OFFSET8 qmiLocEventGnssSvMeasInfoIndMsgT_v02 ''bdsGloInterSystemBias'', TYPE88 0 59,
     TLV [QMI_IDL_TLV_FLAGS_OPTIONAL] (OFFSET8_DIFF qmiLocEventGnssSvMeasInfoIndMsgT_v02 ''galGloInterSystemBias'' ''galGloInterSystemBias_valid''),
      LIT 0x16, OP [] QMI_IDL_AGGREGATE,
      OFFSET8 qmiLocEventGnssSvMeasInfoIndMsgT_v02 ''galGloInterSystemBias'', TYPE88 0 59,
     TLV [QMI_IDL_TLV_FLAGS_OPTIONAL] (OFFSET8_DIFF qmiLocEventGnssSvMeasInfoIndMsgT_v02 ''galBdsInterSystemBias'' ''galBdsInterSystemBias_valid''),
      LIT 0x17, OP [] QMI_IDL_AGGREGATE,
      OFFSET8 qmiLocEventGnssSvMeasInfoIndMsgT_v02 ''galBdsInterSystemBias'', TYPE88 0 59,
     TLV [QMI_IDL_TLV_FLAGS_OPTIONAL] (OFFSET8_DIFF qmiLocEventGnssSvMeasInfoIndMsgT_v02 ''systemTime'' ''systemTime_valid''),
      LIT 0x18, OP [] QMI_IDL_AGGREGATE, OFFSET8 qmiLocEventGnssSvMeasInfoIndMsgT_v02 ''systemTime'',
      TYPE88 0 60,
     TLV [QMI_IDL_TLV_FLAGS_OPTIONAL] (OFFSET8_DIFF qmiLocEventGnssSvMeasInfoIndMsgT_v02 ''gloTime'' ''gloTime_valid''),
      LIT 0x19, OP [] QMI_IDL_AGGREGATE, OFFSET8 qmiLocEventGnssSvMeasInfoIndMsgT_v02 ''gloTime'',
      TYPE88 0 61,
     TLV [QMI_IDL_TLV_FLAGS_OPTIONAL] (OFFSET8_DIFF qmiLocEventGnssSvMeasInfoIndMsgT_v02 ''systemTimeExt'' ''systemTimeExt_valid''),
      LIT 0x1A, OP [] QMI_IDL_AGGREGATE, OFFSET8 qmiLocEventGnssSvMeasInfoIndMsgT_v02 ''systemTimeExt'',
      TYPE88 0 62,
     TLV [QMI_IDL_TLV_FLAGS_OPTIONAL] (OFFSET8_DIFF qmiLocEventGnssSvMeasInfoIndMsgT_v02 ''svMeasurement'' ''svMeasurement_valid''),
      LIT 0x1B, OP [QMI_IDL_FLAGS_IS_ARRAY, QMI_IDL_FLAGS_IS_VARIABLE_LEN] QMI_IDL_AGGREGATE,
      OFFSET8 qmiLocEventGnssSvMeasInfoIndMsgT_v02 ''svMeasurement'',
      LIT QMI_LOC_SV_MEAS_LIST_MAX_SIZE_V02,
      OFFSET8_DIFF qmiLocEventGnssSvMeasInfoIndMsgT_v02 ''svMeasurement'' ''svMeasurement_len'',
      TYPE88 0 64,
     TLV [QMI_IDL_TLV_FLAGS_OPTIONAL] (OFFSET16_DIFF qmiLocEventGnssSvMeasInfoIndMsgT_v02 ''numClockResets'' ''numClockResets_valid''),
      LIT 0x1C, OP [QMI_IDL_FLAGS_OFFSET_IS_16] QMI_IDL_GENERIC_4_BYTE,
      OFFSET16ARRAY qmiLocEventGnssSvMeasInfoIndMsgT_v02 ''numClockResets'',
     TLV [QMI_IDL_TLV_FLAGS_OPTIONAL] (OFFSET16_DIFF qmiLocEventGnssSvMeasInfoIndMsgT_v02 ''svCarrierPhaseUncertainty'' ''svCarrierPhaseUncertainty_valid''),
      LIT 0x1D,
      OP [QMI_IDL_FLAGS_IS_ARRAY, QMI_IDL_FLAGS_IS_VARIABLE_LEN, QMI_IDL_FLAGS_OFFSET_IS_16] QMI_IDL_GENERIC_4_BYTE,
      OFFSET16ARRAY qmiLocEventGnssSvMeasInfoIndMsgT_v02 ''svCarrierPhaseUncertainty'',
      LIT QMI_LOC_SV_MEAS_LIST_MAX_SIZE_V02,
      OFFSET16_DIFF qmiLocEventGnssSvMeasInfoIndMsgT_v02 ''svCarrierPhaseUncertainty'' ''svCarrierPhaseUncertainty_len'',
     TLV [QMI_IDL_TLV_FLAGS_OPTIONAL] (OFFSET16_DIFF qmiLocEventGnssSvMeasInfoIndMsgT_v02 ''gnssSignalType'' ''gnssSignalType_valid''),
      LIT 0x1E, OP [QMI_IDL_FLAGS_OFFSET_IS_16] QMI_IDL_GENERIC_8_BYTE,
      OFFSET16ARRAY qmiLocEventGnssSvMeasInfoIndMsgT_v02 ''gnssSignalType'',
     TLV [QMI_IDL_TLV_FLAGS_OPTIONAL] (OFFSET16_DIFF qmiLocEventGnssSvMeasInfoIndMsgT_v02 ''jammerIndicator'' ''jammerIndicator_valid''),
      LIT 0x1F, OP [QMI_IDL_FLAGS_OFFSET_IS_16] QMI_IDL_AGGREGATE,
      OFFSET16ARRAY qmiLocEventGnssSvMeasInfoIndMsgT_v02 ''jammerIndicator'', TYPE88 0 6,
     TLV [QMI_IDL_TLV_FLAGS_OPTIONAL] (OFFSET16_DIFF qmiLocEventGnssSvMeasInfoIndMsgT_v02 ''GpsL1L2cTimeBias'' ''GpsL1L2cTimeBias_valid''),
      LIT 0x20, OP [QMI_IDL_FLAGS_OFFSET_IS_16] QMI_IDL_AGGREGATE,
      OFFSET16ARRAY qmiLocEventGnssSvMeasInfoIndMsgT_v02 ''GpsL1L2cTimeBias'', TYPE88 0 59,
     TLV [QMI_IDL_TLV_FLAGS_OPTIONAL] (OFFSET16_DIFF qmiLocEventGnssSvMeasInfoIndMsgT_v02 ''GpsL1L5TimeBias'' ''GpsL1L5TimeBias_valid''),
      LIT 0x21, OP [QMI_IDL_FLAGS_OFFSET_IS_16] QMI_IDL_AGGREGATE,
      OFFSET16ARRAY qmiLocEventGnssSvMeasInfoIndMsgT_v02 ''GpsL1L5TimeBias'', TYPE88 0 59,
     TLV [QMI_IDL_TLV_FLAGS_OPTIONAL] (OFFSET16_DIFF qmiLocEventGnssSvMeasInfoIndMsgT_v02 ''GloG1G2TimeBias'' ''GloG1G2TimeBias_valid''),
      LIT 0x22, OP [QMI_IDL_FLAGS_OFFSET_IS_16] QMI_IDL_AGGREGATE,
      OFFSET16ARRAY qmiLocEventGnssSvMeasInfoIndMsgT_v02 ''GloG1G2TimeBias'', TYPE88 0 59,
     TLV [QMI_IDL_TLV_FLAGS_OPTIONAL] (OFFSET16_DIFF qmiLocEventGnssSvMeasInfoIndMsgT_v02 ''BdsB1iB2aTimeBias'' ''BdsB1iB2aTimeBias_valid''),
      LIT 0x23, OP [QMI_IDL_FLAGS_OFFSET_IS_16] QMI_IDL_AGGREGATE,
      OFFSET16ARRAY qmiLocEventGnssSvMeasInfoIndMsgT_v02 ''BdsB1iB2aTimeBias'', TYPE88 0 59,
     TLV [QMI_IDL_TLV_FLAGS_OPTIONAL] (OFFSET16_DIFF qmiLocEventGnssSvMeasInfoIndMsgT_v02 ''BdsB1iB1cTimeBias'' ''BdsB1iB1cTimeBias_valid''),
      LIT 0x24, OP [QMI_IDL_FLAGS_OFFSET_IS_16] QMI_IDL_AGGREGATE,
      OFFSET16ARRAY qmiLocEventGnssSvMeasInfoIndMsgT_v02 ''BdsB1iB1cTimeBias'', TYPE88 0 59,
     TLV [QMI_IDL_TLV_FLAGS_OPTIONAL] (OFFSET16_DIFF qmiLocEventGnssSvMeasInfoIndMsgT_v02 ''GalE1E5aTimeBias'' ''GalE1E5aTimeBias_valid''),
      LIT 0x25, OP [QMI_IDL_FLAGS_OFFSET_IS_16] QMI_IDL_AGGREGATE,
      OFFSET16ARRAY qmiLocEventGnssSvMeasInfoIndMsgT_v02 ''GalE1E5aTimeBias'', TYPE88 0 59,
     TLV [QMI_IDL_TLV_FLAGS_OPTIONAL] (OFFSET16_DIFF qmiLocEventGnssSvMeasInfoIndMsgT_v02 ''GalE1E5bTimeBias'' ''GalE1E5bTimeBias_valid''),
      LIT 0x26, OP [QMI_IDL_FLAGS_OFFSET_IS_16] QMI_IDL_AGGREGATE,
      OFFSET16ARRAY qmiLocEventGnssSvMeasInfoIndMsgT_v02 ''GalE1E5bTimeBias'', TYPE88 0 59,
     TLV [QMI_IDL_TLV_FLAGS_OPTIONAL] (OFFSET16_DIFF qmiLocEventGnssSvMeasInfoIndMsgT_v02 ''nHzMeasurement'' ''nHzMeasurement_valid''),
      LIT 0x27, OP [QMI_IDL_FLAGS_OFFSET_IS_16] QMI_IDL_GENERIC_1_BYTE,
      OFFSET16ARRAY qmiLocEventGnssSvMeasInfoIndMsgT_v02 ''nHzMeasurement'',
     TLV [QMI_IDL_TLV_FLAGS_OPTIONAL] (OFFSET16_DIFF qmiLocEventGnssSvMeasInfoIndMsgT_v02 ''measurementCodeType'' ''measurementCodeType_valid''),
      LIT 0x28, OP [QMI_IDL_FLAGS_OFFSET_IS_16] QMI_IDL_GENERIC_4_BYTE,
      OFFSET16ARRAY qmiLocEventGnssSvMeasInfoIndMsgT_v02 ''measurementCodeType'',
     TLV [QMI_IDL_TLV_FLAGS_OPTIONAL] (OFFSET16_DIFF qmiLocEventGnssSvMeasInfoIndMsgT_v02 ''otherCodeTypeName'' ''otherCodeTypeName_valid''),
      LIT 0x29,
      OP [QMI_IDL_FLAGS_IS_ARRAY, QMI_IDL_FLAGS_IS_VARIABLE_LEN, QMI_IDL_FLAGS_OFFSET_IS_16] QMI_IDL_GENERIC_1_BYTE,
      OFFSET16ARRAY qmiLocEventGnssSvMeasInfoIndMsgT_v02 ''otherCodeTypeName'',
      LIT QMI_LOC_SV_MEAS_OTHER_CODE_TYPE_NAME_MAX_LEN_V02,
      OFFSET16_DIFF qmiLocEventGnssSvMeasInfoIndMsgT_v02 ''otherCodeTypeName'' ''otherCodeTypeName_len'',
     TLV [QMI_IDL_TLV_FLAGS_OPTIONAL] (OFFSET16_DIFF qmiLocEventGnssSvMeasInfoIndMsgT_v02 ''gpsNavicInterSystemBias'' ''gpsNavicInterSystemBias_valid''),
      LIT 0x2A, OP [QMI_IDL_FLAGS_OFFSET_IS_16] QMI_IDL_AGGREGATE,
      OFFSET16ARRAY qmiLocEventGnssSvMeasInfoIndMsgT_v02 ''gpsNavicInterSystemBias'', TYPE88 0 59,
     TLV [QMI_IDL_TLV_FLAGS_OPTIONAL] (OFFSET16_DIFF qmiLocEventGnssSvMeasInfoIndMsgT_v02 ''galNavicInterSystemBias'' ''galNavicInterSystemBias_valid''),
      LIT 0x2B, OP [QMI_IDL_FLAGS_OFFSET_IS_16] QMI_IDL_AGGREGATE,
      OFFSET16ARRAY qmiLocEventGnssSvMeasInfoIndMsgT_v02 ''galNavicInterSystemBias'', TYPE88 0 59,
     TLV [QMI_IDL_TLV_FLAGS_OPTIONAL] (OFFSET16_DIFF qmiLocEventGnssSvMeasInfoIndMsgT_v02 ''gloNavicInterSystemBias'' ''gloNavicInterSystemBias_valid''),
      LIT 0x2C, OP [QMI_IDL_FLAGS_OFFSET_IS_16] QMI_IDL_AGGREGATE,
      OFFSET16ARRAY qmiLocEventGnssSvMeasInfoIndMsgT_v02 ''gloNavicInterSystemBias'', TYPE88 0 59,
     TLV [QMI_IDL_TLV_FLAGS_OPTIONAL] (OFFSET16_DIFF qmiLocEventGnssSvMeasInfoIndMsgT_v02 ''bdsNavicInterSystemBias'' ''bdsNavicInterSystemBias_valid''),
      LIT 0x2D, OP [QMI_IDL_FLAGS_OFFSET_IS_16] QMI_IDL_AGGREGATE,
      OFFSET16ARRAY qmiLocEventGnssSvMeasInfoIndMsgT_v02 ''bdsNavicInterSystemBias'', TYPE88 0 59,
     TLV [QMI_IDL_TLV_FLAGS_OPTIONAL] (OFFSET16_DIFF qmiLocEventGnssSvMeasInfoIndMsgT_v02 ''extSvMeasurement'' ''extSvMeasurement_valid''),
      LIT 0x2E,
      OP [QMI_IDL_FLAGS_IS_ARRAY, QMI_IDL_FLAGS_IS_VARIABLE_LEN, QMI_IDL_FLAGS_OFFSET_IS_16] QMI_IDL_AGGREGATE,
      OFFSET16ARRAY qmiLocEventGnssSvMeasInfoIndMsgT_v02 ''extSvMeasurement'',
      LIT QMI_LOC_EXT_SV_MEAS_LIST_MAX_SIZE_V02,
      OFFSET16_DIFF qmiLocEventGnssSvMeasInfoIndMsgT_v02 ''extSvMeasurement'' ''extSvMeasurement_len'',
      TYPE88 0 64,
     TLV [QMI_IDL_TLV_FLAGS_OPTIONAL] (OFFSET16_DIFF qmiLocEventGnssSvMeasInfoIndMsgT_v02 ''extSvCarrierPhaseUncertainty'' ''extSvCarrierPhaseUncertainty_valid''),
      LIT 0x2F,
      OP [QMI_IDL_FLAGS_IS_ARRAY, QMI_IDL_FLAGS_IS_VARIABLE_LEN, QMI_IDL_FLAGS_OFFSET_IS_16] QMI_IDL_GENERIC_4_BYTE,
      OFFSET16ARRAY qmiLocEventGnssSvMeasInfoIndMsgT_v02 ''extSvCarrierPhaseUncertainty'',
      LIT QMI_LOC_EXT_SV_MEAS_LIST_MAX_SIZE_V02,
      OFFSET16_DIFF qmiLocEventGnssSvMeasInfoIndMsgT_v02 ''extSvCarrierPhaseUncertainty'' ''extSvCarrierPhaseUncertainty_len'',
     TLV [QMI_IDL_TLV_FLAGS_OPTIONAL] (OFFSET16_DIFF qmiLocEventGnssSvMeasInfoIndMsgT_v02 ''refCountTicks'' ''refCountTicks_valid''),
      LIT 0x30, OP [QMI_IDL_FLAGS_OFFSET_IS_16] QMI_IDL_GENERIC_8_BYTE,
      OFFSET16ARRAY qmiLocEventGnssSvMeasInfoIndMsgT_v02 ''refCountTicks'',
     TLV [QMI_IDL_TLV_FLAGS_OPTIONAL] (OFFSET16_DIFF qmiLocEventGnssSvMeasInfoIndMsgT_v02 ''dgnssCorrectionSourceT'' ''dgnssCorrectionSourceT_valid''),
      LIT 0x31, OP [QMI_IDL_FLAGS_OFFSET_IS_16] QMI_IDL_GENERIC_4_BYTE,
      OFFSET16ARRAY qmiLocEventGnssSvMeasInfoIndMsgT_v02 ''dgnssCorrectionSourceT'',
     TLV [QMI_IDL_TLV_FLAGS_OPTIONAL] (OFFSET16_DIFF qmiLocEventGnssSvMeasInfoIndMsgT_v02 ''dgnssCorrectionSourceID'' ''dgnssCorrectionSourceID_valid''),
      LIT 0x32, OP [QMI_IDL_FLAGS_OFFSET_IS_16] QMI_IDL_GENERIC_4_BYTE,
      OFFSET16ARRAY qmiLocEventGnssSvMeasInfoIndMsgT_v02 ''dgnssCorrectionSourceID'',
     TLV [QMI_IDL_TLV_FLAGS_OPTIONAL] (OFFSET16_DIFF qmiLocEventGnssSvMeasInfoIndMsgT_v02 ''dgnssRefStationId'' ''dgnssRefStationId_valid''),
      LIT 0x33, OP [QMI_IDL_FLAGS_OFFSET_IS_16] QMI_IDL_GENERIC_2_BYTE,
      OFFSET16ARRAY qmiLocEventGnssSvMeasInfoIndMsgT_v02 ''dgnssRefStationId'',
     TLV [QMI_IDL_TLV_FLAGS_OPTIONAL] (OFFSET16_DIFF qmiLocEventGnssSvMeasInfoIndMsgT_v02 ''dgnssSvMeasurement'' ''dgnssSvMeasurement_valid''),
      LIT 0x34,
      OP [QMI_IDL_FLAGS_IS_ARRAY, QMI_IDL_FLAGS_IS_VARIABLE_LEN, QMI_IDL_FLAGS_OFFSET_IS_16] QMI_IDL_AGGREGATE,
      OFFSET16ARRAY qmiLocEventGnssSvMeasInfoIndMsgT_v02 ''dgnssSvMeasurement'',
      LIT QMI_LOC_DGNSS_SV_MEAS_LIST_MAX_SIZE_V02,
      OFFSET16_DIFF qmiLocEventGnssSvMeasInfoIndMsgT_v02 ''dgnssSvMeasurement'' ''dgnssSvMeasurement_len'',
      TYPE88 0 65,
     TLV [QMI_IDL_TLV_FLAGS_OPTIONAL] (OFFSET16_DIFF qmiLocEventGnssSvMeasInfoIndMsgT_v02 ''refCountTicksUnc'' ''refCountTicksUnc_valid''),
      LIT 0x35, OP [QMI_IDL_FLAGS_OFFSET_IS_16] QMI_IDL_GENERIC_4_BYTE,
      OFFSET16ARRAY qmiLocEventGnssSvMeasInfoIndMsgT_v02 ''refCountTicksUnc'',
     TLV [QMI_IDL_TLV_FLAGS_OPTIONAL] (OFFSET16_DIFF qmiLocEventGnssSvMeasInfoIndMsgT_v02 ''subSeqNum'' ''subSeqNum_valid''),
      LIT 0x36, OP [QMI_IDL_FLAGS_OFFSET_IS_16] QMI_IDL_GENERIC_1_BYTE,
      OFFSET16ARRAY qmiLocEventGnssSvMeasInfoIndMsgT_v02 ''subSeqNum'',
     TLV [QMI_IDL_TLV_FLAGS_LAST_TLV, QMI_IDL_TLV_FLAGS_OPTIONAL] (OFFSET16_DIFF qmiLocEventGnssSvMeasInfoIndMsgT_v02 ''maxSubSeqNum'' ''maxSubSeqNum_valid''),
      LIT 0x37, OP [QMI_IDL_FLAGS_OFFSET_IS_16] QMI_IDL_GENERIC_1_BYTE,
      OFFSET16ARRAY qmiLocEventGnssSvMeasInfoIndMsgT_v02 ''maxSubSeqNum'']"

lemma qmiLocEventGnssSvMeasInfoIndMsgT_data_v02_ok [idl_simps]:
  "describe_msg qmiLocEventGnssSvMeasInfoIndMsgT_data_v02 = Some (qmiLocEventGnssSvMeasInfoIndMsgT_v02, 286, [(1, (0, 57), qmiLocRcvrClockFrequencyInfoStructT_v02), (1, (0, 58), qmiLocLeapSecondInfoStructT_v02), (1, (0, 59), qmiLocInterSystemBiasStructT_v02), (1, (0, 59), qmiLocInterSystemBiasStructT_v02), (1, (0, 59), qmiLocInterSystemBiasStructT_v02), (1, (0, 59), qmiLocInterSystemBiasStructT_v02), (1, (0, 59), qmiLocInterSystemBiasStructT_v02), (1, (0, 59), qmiLocInterSystemBiasStructT_v02), (1, (0, 60), qmiLocGnssTimeStructT_v02), (1, (0, 61), qmiLocGloTimeStructT_v02), (1, (0, 62), qmiLocGnssTimeExtStructT_v02), (16, (0, 64), qmiLocSVMeasurementStructT_v02), (1, (0, 6), qmiLocJammerIndicatorStructT_v02), (1, (0, 59), qmiLocInterSystemBiasStructT_v02), (1, (0, 59), qmiLocInterSystemBiasStructT_v02), (1, (0, 59), qmiLocInterSystemBiasStructT_v02), (1, (0, 59), qmiLocInterSystemBiasStructT_v02), (1, (0, 59), qmiLocInterSystemBiasStructT_v02), (1, (0, 59), qmiLocInterSystemBiasStructT_v02), (1, (0, 59), qmiLocInterSystemBiasStructT_v02), (1, (0, 59), qmiLocInterSystemBiasStructT_v02), (1, (0, 59), qmiLocInterSystemBiasStructT_v02), (1, (0, 59), qmiLocInterSystemBiasStructT_v02), (1, (0, 59), qmiLocInterSystemBiasStructT_v02), (8, (0, 64), qmiLocSVMeasurementStructT_v02), (24, (0, 65), qmiLocDgnssSVMeasurementStructT_v02)])"
  by (simp add: qmiLocEventGnssSvMeasInfoIndMsgT_data_v02_def qmiLocEventGnssSvMeasInfoIndMsgT_v02_def [THEN arg_cong, of laid] analyse_simps layout_simps cong: idl_cong)

definition qmiLocEventGnssSvPolyIndMsgT_data_v02 :: "idl_byte list" where
  "qmiLocEventGnssSvPolyIndMsgT_data_v02 =
    [LIT 0x01, OP [] QMI_IDL_GENERIC_2_BYTE, OFFSET8 qmiLocEventGnssSvPolyIndMsgT_v02 ''gnssSvId'',
     LIT 0x02, OP [] QMI_IDL_GENERIC_8_BYTE, OFFSET8 qmiLocEventGnssSvPolyIndMsgT_v02 ''T0'',
     LIT 0x03, OP [] QMI_IDL_GENERIC_2_BYTE,
      OFFSET8 qmiLocEventGnssSvPolyIndMsgT_v02 ''svPolyFlagValid'',
     LIT 0x04, OP [] QMI_IDL_GENERIC_2_BYTE, OFFSET8 qmiLocEventGnssSvPolyIndMsgT_v02 ''svPolyFlags'',
     TLV [QMI_IDL_TLV_FLAGS_OPTIONAL] (OFFSET8_DIFF qmiLocEventGnssSvPolyIndMsgT_v02 ''polyCoeffXYZ0'' ''polyCoeffXYZ0_valid''),
      LIT 0x10, OP [QMI_IDL_FLAGS_IS_ARRAY] QMI_IDL_GENERIC_8_BYTE,
      OFFSET8 qmiLocEventGnssSvPolyIndMsgT_v02 ''polyCoeffXYZ0'',
      LIT QMI_LOC_SV_POLY_XYZ_0_TH_ORDER_COEFF_SIZE_V02,
     TLV [QMI_IDL_TLV_FLAGS_OPTIONAL] (OFFSET8_DIFF qmiLocEventGnssSvPolyIndMsgT_v02 ''polyCoefXYZN'' ''polyCoefXYZN_valid''),
      LIT 0x11, OP [QMI_IDL_FLAGS_IS_ARRAY] QMI_IDL_GENERIC_8_BYTE,
      OFFSET8 qmiLocEventGnssSvPolyIndMsgT_v02 ''polyCoefXYZN'',
      LIT QMI_LOC_SV_POLY_XYZ_N_TH_ORDER_COEFF_SIZE_V02,
     TLV [QMI_IDL_TLV_FLAGS_OPTIONAL] (OFFSET8_DIFF qmiLocEventGnssSvPolyIndMsgT_v02 ''polyCoefClockBias'' ''polyCoefClockBias_valid''),
      LIT 0x12, OP [QMI_IDL_FLAGS_IS_ARRAY] QMI_IDL_GENERIC_4_BYTE,
      OFFSET8 qmiLocEventGnssSvPolyIndMsgT_v02 ''polyCoefClockBias'',
      LIT QMI_LOC_SV_POLY_SV_CLKBIAS_COEFF_SIZE_V02,
     TLV [QMI_IDL_TLV_FLAGS_OPTIONAL] (OFFSET8_DIFF qmiLocEventGnssSvPolyIndMsgT_v02 ''gloFrequency'' ''gloFrequency_valid''),
      LIT 0x13, OP [] QMI_IDL_GENERIC_1_BYTE, OFFSET8 qmiLocEventGnssSvPolyIndMsgT_v02 ''gloFrequency'',
     TLV [QMI_IDL_TLV_FLAGS_OPTIONAL] (OFFSET8_DIFF qmiLocEventGnssSvPolyIndMsgT_v02 ''IODE'' ''IODE_valid''),
      LIT 0x14, OP [] QMI_IDL_GENERIC_2_BYTE, OFFSET8 qmiLocEventGnssSvPolyIndMsgT_v02 ''IODE'',
     TLV [QMI_IDL_TLV_FLAGS_OPTIONAL] (OFFSET8_DIFF qmiLocEventGnssSvPolyIndMsgT_v02 ''enhancedIOD'' ''enhancedIOD_valid''),
      LIT 0x15, OP [] QMI_IDL_GENERIC_4_BYTE, OFFSET8 qmiLocEventGnssSvPolyIndMsgT_v02 ''enhancedIOD'',
     TLV [QMI_IDL_TLV_FLAGS_OPTIONAL] (OFFSET8_DIFF qmiLocEventGnssSvPolyIndMsgT_v02 ''svPosUnc'' ''svPosUnc_valid''),
      LIT 0x16, OP [] QMI_IDL_GENERIC_4_BYTE, OFFSET8 qmiLocEventGnssSvPolyIndMsgT_v02 ''svPosUnc'',
     TLV [QMI_IDL_TLV_FLAGS_OPTIONAL] (OFFSET8_DIFF qmiLocEventGnssSvPolyIndMsgT_v02 ''ionoDelay'' ''ionoDelay_valid''),
      LIT 0x17, OP [] QMI_IDL_GENERIC_4_BYTE, OFFSET8 qmiLocEventGnssSvPolyIndMsgT_v02 ''ionoDelay'',
     TLV [QMI_IDL_TLV_FLAGS_OPTIONAL] (OFFSET8_DIFF qmiLocEventGnssSvPolyIndMsgT_v02 ''ionoDot'' ''ionoDot_valid''),
      LIT 0x18, OP [] QMI_IDL_GENERIC_4_BYTE, OFFSET8 qmiLocEventGnssSvPolyIndMsgT_v02 ''ionoDot'',
     TLV [QMI_IDL_TLV_FLAGS_OPTIONAL] (OFFSET8_DIFF qmiLocEventGnssSvPolyIndMsgT_v02 ''sbasIonoDelay'' ''sbasIonoDelay_valid''),
      LIT 0x19, OP [] QMI_IDL_GENERIC_4_BYTE, OFFSET8 qmiLocEventGnssSvPolyIndMsgT_v02 ''sbasIonoDelay'',
     TLV [QMI_IDL_TLV_FLAGS_OPTIONAL] (OFFSET8_DIFF qmiLocEventGnssSvPolyIndMsgT_v02 ''sbasIonoDot'' ''sbasIonoDot_valid''),
      LIT 0x1A, OP [] QMI_IDL_GENERIC_4_BYTE, OFFSET8 qmiLocEventGnssSvPolyIndMsgT_v02 ''sbasIonoDot'',
     TLV [QMI_IDL_TLV_FLAGS_OPTIONAL] (OFFSET8_DIFF qmiLocEventGnssSvPolyIndMsgT_v02 ''tropoDelay'' ''tropoDelay_valid''),
      LIT 0x1B, OP [] QMI_IDL_GENERIC_4_BYTE, OFFSET8 qmiLocEventGnssSvPolyIndMsgT_v02 ''tropoDelay'',
     TLV [QMI_IDL_TLV_FLAGS_OPTIONAL] (OFFSET16_DIFF qmiLocEventGnssSvPolyIndMsgT_v02 ''elevation'' ''elevation_valid''),
      LIT 0x1C, OP [QMI_IDL_FLAGS_OFFSET_IS_16] QMI_IDL_GENERIC_4_BYTE,
      OFFSET16ARRAY qmiLocEventGnssSvPolyIndMsgT_v02 ''elevation'',
     TLV [QMI_IDL_TLV_FLAGS_OPTIONAL] (OFFSET16_DIFF qmiLocEventGnssSvPolyIndMsgT_v02 ''elevationDot'' ''elevationDot_valid''),
      LIT 0x1D, OP [QMI_IDL_FLAGS_OFFSET_IS_16] QMI_IDL_GENERIC_4_BYTE,
      OFFSET16ARRAY qmiLocEventGnssSvPolyIndMsgT_v02 ''elevationDot'',
     TLV [QMI_IDL_TLV_FLAGS_OPTIONAL] (OFFSET16_DIFF qmiLocEventGnssSvPolyIndMsgT_v02 ''elenationUnc'' ''elenationUnc_valid''),
      LIT 0x1E, OP [QMI_IDL_FLAGS_OFFSET_IS_16] QMI_IDL_GENERIC_4_BYTE,
      OFFSET16ARRAY qmiLocEventGnssSvPolyIndMsgT_v02 ''elenationUnc'',
     TLV [QMI_IDL_TLV_FLAGS_OPTIONAL] (OFFSET16_DIFF qmiLocEventGnssSvPolyIndMsgT_v02 ''velCoef'' ''velCoef_valid''),
      LIT 0x1F, OP [QMI_IDL_FLAGS_IS_ARRAY, QMI_IDL_FLAGS_OFFSET_IS_16] QMI_IDL_GENERIC_8_BYTE,
      OFFSET16ARRAY qmiLocEventGnssSvPolyIndMsgT_v02 ''velCoef'',
      LIT QMI_LOC_SV_POLY_VELOCITY_COEF_SIZE_V02,
     TLV [QMI_IDL_TLV_FLAGS_OPTIONAL] (OFFSET16_DIFF qmiLocEventGnssSvPolyIndMsgT_v02 ''gpsIscL1ca'' ''gpsIscL1ca_valid''),
      LIT 0x20, OP [QMI_IDL_FLAGS_OFFSET_IS_16] QMI_IDL_GENERIC_4_BYTE,
      OFFSET16ARRAY qmiLocEventGnssSvPolyIndMsgT_v02 ''gpsIscL1ca'',
     TLV [QMI_IDL_TLV_FLAGS_OPTIONAL] (OFFSET16_DIFF qmiLocEventGnssSvPolyIndMsgT_v02 ''gpsIscL2c'' ''gpsIscL2c_valid''),
      LIT 0x21, OP [QMI_IDL_FLAGS_OFFSET_IS_16] QMI_IDL_GENERIC_4_BYTE,
      OFFSET16ARRAY qmiLocEventGnssSvPolyIndMsgT_v02 ''gpsIscL2c'',
     TLV [QMI_IDL_TLV_FLAGS_OPTIONAL] (OFFSET16_DIFF qmiLocEventGnssSvPolyIndMsgT_v02 ''gpsIscL5I5'' ''gpsIscL5I5_valid''),
      LIT 0x22, OP [QMI_IDL_FLAGS_OFFSET_IS_16] QMI_IDL_GENERIC_4_BYTE,
      OFFSET16ARRAY qmiLocEventGnssSvPolyIndMsgT_v02 ''gpsIscL5I5'',
     TLV [QMI_IDL_TLV_FLAGS_OPTIONAL] (OFFSET16_DIFF qmiLocEventGnssSvPolyIndMsgT_v02 ''gpsIscL5Q5'' ''gpsIscL5Q5_valid''),
      LIT 0x23, OP [QMI_IDL_FLAGS_OFFSET_IS_16] QMI_IDL_GENERIC_4_BYTE,
      OFFSET16ARRAY qmiLocEventGnssSvPolyIndMsgT_v02 ''gpsIscL5Q5'',
     TLV [QMI_IDL_TLV_FLAGS_OPTIONAL] (OFFSET16_DIFF qmiLocEventGnssSvPolyIndMsgT_v02 ''gpsTgd'' ''gpsTgd_valid''),
      LIT 0x24, OP [QMI_IDL_FLAGS_OFFSET_IS_16] QMI_IDL_GENERIC_4_BYTE,
      OFFSET16ARRAY qmiLocEventGnssSvPolyIndMsgT_v02 ''gpsTgd'',
     TLV [QMI_IDL_TLV_FLAGS_OPTIONAL] (OFFSET16_DIFF qmiLocEventGnssSvPolyIndMsgT_v02 ''gloTgdG1G2'' ''gloTgdG1G2_valid''),
      LIT 0x25, OP [QMI_IDL_FLAGS_OFFSET_IS_16] QMI_IDL_GENERIC_4_BYTE,
      OFFSET16ARRAY qmiLocEventGnssSvPolyIndMsgT_v02 ''gloTgdG1G2'',
     TLV [QMI_IDL_TLV_FLAGS_OPTIONAL] (OFFSET16_DIFF qmiLocEventGnssSvPolyIndMsgT_v02 ''bdsTgdB1'' ''bdsTgdB1_valid''),
      LIT 0x26, OP [QMI_IDL_FLAGS_OFFSET_IS_16] QMI_IDL_GENERIC_4_BYTE,
      OFFSET16ARRAY qmiLocEventGnssSvPolyIndMsgT_v02 ''bdsTgdB1'',
     TLV [QMI_IDL_TLV_FLAGS_OPTIONAL] (OFFSET16_DIFF qmiLocEventGnssSvPolyIndMsgT_v02 ''bdsTgdB2'' ''bdsTgdB2_valid''),
      LIT 0x27, OP [QMI_IDL_FLAGS_OFFSET_IS_16] QMI_IDL_GENERIC_4_BYTE,
      OFFSET16ARRAY qmiLocEventGnssSvPolyIndMsgT_v02 ''bdsTgdB2'',
     TLV [QMI_IDL_TLV_FLAGS_OPTIONAL] (OFFSET16_DIFF qmiLocEventGnssSvPolyIndMsgT_v02 ''bdsTgdB2a'' ''bdsTgdB2a_valid''),
      LIT 0x28, OP [QMI_IDL_FLAGS_OFFSET_IS_16] QMI_IDL_GENERIC_4_BYTE,
      OFFSET16ARRAY qmiLocEventGnssSvPolyIndMsgT_v02 ''bdsTgdB2a'',
     TLV [QMI_IDL_TLV_FLAGS_OPTIONAL] (OFFSET16_DIFF qmiLocEventGnssSvPolyIndMsgT_v02 ''bdsIscB2a'' ''bdsIscB2a_valid''),
      LIT 0x29, OP [QMI_IDL_FLAGS_OFFSET_IS_16] QMI_IDL_GENERIC_4_BYTE,
      OFFSET16ARRAY qmiLocEventGnssSvPolyIndMsgT_v02 ''bdsIscB2a'',
     TLV [QMI_IDL_TLV_FLAGS_OPTIONAL] (OFFSET16_DIFF qmiLocEventGnssSvPolyIndMsgT_v02 ''galBgdE1E5a'' ''galBgdE1E5a_valid''),
      LIT 0x2A, OP [QMI_IDL_FLAGS_OFFSET_IS_16] QMI_IDL_GENERIC_4_BYTE,
      OFFSET16ARRAY qmiLocEventGnssSvPolyIndMsgT_v02 ''galBgdE1E5a'',
     TLV [QMI_IDL_TLV_FLAGS_OPTIONAL] (OFFSET16_DIFF qmiLocEventGnssSvPolyIndMsgT_v02 ''galBgdE1E5b'' ''galBgdE1E5b_valid''),
      LIT 0x2B, OP [QMI_IDL_FLAGS_OFFSET_IS_16] QMI_IDL_GENERIC_4_BYTE,
      OFFSET16ARRAY qmiLocEventGnssSvPolyIndMsgT_v02 ''galBgdE1E5b'',
     TLV [QMI_IDL_TLV_FLAGS_OPTIONAL] (OFFSET16_DIFF qmiLocEventGnssSvPolyIndMsgT_v02 ''navicTgdL5'' ''navicTgdL5_valid''),
      LIT 0x2C, OP [QMI_IDL_FLAGS_OFFSET_IS_16] QMI_IDL_GENERIC_4_BYTE,
      OFFSET16ARRAY qmiLocEventGnssSvPolyIndMsgT_v02 ''navicTgdL5'',
     TLV [QMI_IDL_TLV_FLAGS_OPTIONAL] (OFFSET16_DIFF qmiLocEventGnssSvPolyIndMsgT_v02 ''bdsTgdB1c'' ''bdsTgdB1c_valid''),
      LIT 0x2D, OP [QMI_IDL_FLAGS_OFFSET_IS_16] QMI_IDL_GENERIC_4_BYTE,
      OFFSET16ARRAY qmiLocEventGnssSvPolyIndMsgT_v02 ''bdsTgdB1c'',
     TLV [QMI_IDL_TLV_FLAGS_OPTIONAL] (OFFSET16_DIFF qmiLocEventGnssSvPolyIndMsgT_v02 ''bdsIscB1c'' ''bdsIscB1c_valid''),
      LIT 0x2E, OP [QMI_IDL_FLAGS_OFFSET_IS_16] QMI_IDL_GENERIC_4_BYTE,
      OFFSET16ARRAY qmiLocEventGnssSvPolyIndMsgT_v02 ''bdsIscB1c'',
     TLV [QMI_IDL_TLV_FLAGS_LAST_TLV, QMI_IDL_TLV_FLAGS_OPTIONAL] (OFFSET16_DIFF qmiLocEventGnssSvPolyIndMsgT_v02 ''multibandHealth'' ''multibandHealth_valid''),
      LIT 0x2F, OP [QMI_IDL_FLAGS_OFFSET_IS_16] QMI_IDL_GENERIC_8_BYTE,
      OFFSET16ARRAY qmiLocEventGnssSvPolyIndMsgT_v02 ''multibandHealth'']"

lemma qmiLocEventGnssSvPolyIndMsgT_data_v02_ok [idl_simps]:
  "describe_msg qmiLocEventGnssSvPolyIndMsgT_data_v02 = Some (qmiLocEventGnssSvPolyIndMsgT_v02, 441, [])"
  by (simp add: qmiLocEventGnssSvPolyIndMsgT_data_v02_def qmiLocEventGnssSvPolyIndMsgT_v02_def [THEN arg_cong, of laid] analyse_simps layout_simps cong: idl_cong)

definition qmiLocAddGeofenceContextReqMsgT_data_v02 :: "idl_byte list" where
  "qmiLocAddGeofenceContextReqMsgT_data_v02 =
    [LIT 0x01, OP [] QMI_IDL_GENERIC_4_BYTE,
      OFFSET8 qmiLocAddGeofenceContextReqMsgT_v02 ''transactionId'',
     TLV [QMI_IDL_TLV_FLAGS_OPTIONAL] (OFFSET8_DIFF qmiLocAddGeofenceContextReqMsgT_v02 ''geofenceId'' ''geofenceId_valid''),
      LIT 0x10, OP [] QMI_IDL_GENERIC_4_BYTE, OFFSET8 qmiLocAddGeofenceContextReqMsgT_v02 ''geofenceId'',
     TLV [QMI_IDL_TLV_FLAGS_OPTIONAL] (OFFSET8_DIFF qmiLocAddGeofenceContextReqMsgT_v02 ''wifiApSsidInfo'' ''wifiApSsidInfo_valid''),
      LIT 0x11, OP [QMI_IDL_FLAGS_IS_ARRAY, QMI_IDL_FLAGS_IS_VARIABLE_LEN] QMI_IDL_AGGREGATE,
      OFFSET8 qmiLocAddGeofenceContextReqMsgT_v02 ''wifiApSsidInfo'',
      LIT QMI_LOC_WIFI_AREA_ID_LIST_LENGTH_V02,
      OFFSET8_DIFF qmiLocAddGeofenceContextReqMsgT_v02 ''wifiApSsidInfo'' ''wifiApSsidInfo_len'',
      TYPE88 0 37,
     TLV [QMI_IDL_TLV_FLAGS_OPTIONAL] (OFFSET16_DIFF qmiLocAddGeofenceContextReqMsgT_v02 ''wifiApMacAddressList'' ''wifiApMacAddressList_valid''),
      LIT 0x12,
      OP [QMI_IDL_FLAGS_IS_ARRAY, QMI_IDL_FLAGS_IS_VARIABLE_LEN, QMI_IDL_FLAGS_OFFSET_IS_16] QMI_IDL_AGGREGATE,
      OFFSET16ARRAY qmiLocAddGeofenceContextReqMsgT_v02 ''wifiApMacAddressList'',
      LIT QMI_LOC_WIFI_AREA_ID_LIST_LENGTH_V02,
      OFFSET16_DIFF qmiLocAddGeofenceContextReqMsgT_v02 ''wifiApMacAddressList'' ''wifiApMacAddressList_len'',
      TYPE88 0 66,
     TLV [QMI_IDL_TLV_FLAGS_OPTIONAL] (OFFSET16_DIFF qmiLocAddGeofenceContextReqMsgT_v02 ''tdsCdmaCellIDList'' ''tdsCdmaCellIDList_valid''),
      LIT 0x13, OP [QMI_IDL_FLAGS_IS_ARRAY, QMI_IDL_FLAGS_OFFSET_IS_16] QMI_IDL_AGGREGATE,
      OFFSET16ARRAY qmiLocAddGeofenceContextReqMsgT_v02 ''tdsCdmaCellIDList'',
      LIT QMI_LOC_CELL_ID_LIST_LENGTH_V02, TYPE88 0 49,
     TLV [QMI_IDL_TLV_FLAGS_OPTIONAL] (OFFSET16_DIFF qmiLocAddGeofenceContextReqMsgT_v02 ''wcdmaCellIDList'' ''wcdmaCellIDList_valid''),
      LIT 0x14,
      OP [QMI_IDL_FLAGS_IS_ARRAY, QMI_IDL_FLAGS_IS_VARIABLE_LEN, QMI_IDL_FLAGS_OFFSET_IS_16] QMI_IDL_AGGREGATE,
      OFFSET16ARRAY qmiLocAddGeofenceContextReqMsgT_v02 ''wcdmaCellIDList'',
      LIT QMI_LOC_CELL_ID_LIST_LENGTH_V02,
      OFFSET16_DIFF qmiLocAddGeofenceContextReqMsgT_v02 ''wcdmaCellIDList'' ''wcdmaCellIDList_len'',
      TYPE88 0 48,
     TLV [QMI_IDL_TLV_FLAGS_OPTIONAL] (OFFSET16_DIFF qmiLocAddGeofenceContextReqMsgT_v02 ''gsmCellIDList'' ''gsmCellIDList_valid''),
      LIT 0x15,
      OP [QMI_IDL_FLAGS_IS_ARRAY, QMI_IDL_FLAGS_IS_VARIABLE_LEN, QMI_IDL_FLAGS_OFFSET_IS_16] QMI_IDL_AGGREGATE,
      OFFSET16ARRAY qmiLocAddGeofenceContextReqMsgT_v02 ''gsmCellIDList'',
      LIT QMI_LOC_CELL_ID_LIST_LENGTH_V02,
      OFFSET16_DIFF qmiLocAddGeofenceContextReqMsgT_v02 ''gsmCellIDList'' ''gsmCellIDList_len'',
      TYPE88 0 47,
     TLV [QMI_IDL_TLV_FLAGS_LAST_TLV, QMI_IDL_TLV_FLAGS_OPTIONAL] (OFFSET16_DIFF qmiLocAddGeofenceContextReqMsgT_v02 ''iBeaconList'' ''iBeaconList_valid''),
      LIT 0x16,
      OP [QMI_IDL_FLAGS_IS_ARRAY, QMI_IDL_FLAGS_IS_VARIABLE_LEN, QMI_IDL_FLAGS_OFFSET_IS_16] QMI_IDL_AGGREGATE,
      OFFSET16ARRAY qmiLocAddGeofenceContextReqMsgT_v02 ''iBeaconList'',
      LIT QMI_LOC_IBEACON_LIST_LENGTH_V02,
      OFFSET16_DIFF qmiLocAddGeofenceContextReqMsgT_v02 ''iBeaconList'' ''iBeaconList_len'', TYPE88 0 67]"

lemma qmiLocAddGeofenceContextReqMsgT_data_v02_ok [idl_simps]:
  "describe_msg qmiLocAddGeofenceContextReqMsgT_data_v02 = Some (qmiLocAddGeofenceContextReqMsgT_v02, 37, [(20, (0, 37), qmiLocWifiApSsidStructT_v02), (20, (0, 66), qmiLocWifiApMacAddressStructT_v02), (20, (0, 49), qmiLocTDSCDMACellIdStructT_v02), (20, (0, 48), qmiLocWCDMACellIdStructT_v02), (20, (0, 47), qmiLocGSMCellIdStructT_v02), (20, (0, 67), qmiLocIBeaconIdStructT_v02)])"
  by (simp add: qmiLocAddGeofenceContextReqMsgT_data_v02_def qmiLocAddGeofenceContextReqMsgT_v02_def [THEN arg_cong, of laid] analyse_simps layout_simps cong: idl_cong)

definition qmiLocAddGeofenceContextIndMsgT_data_v02 :: "idl_byte list" where
  "qmiLocAddGeofenceContextIndMsgT_data_v02 =
    [LIT 0x01, OP [] QMI_IDL_GENERIC_4_BYTE, OFFSET8 qmiLocAddGeofenceContextIndMsgT_v02 ''status'',
     TLV [QMI_IDL_TLV_FLAGS_OPTIONAL] (OFFSET8_DIFF qmiLocAddGeofenceContextIndMsgT_v02 ''transactionId'' ''transactionId_valid''),
      LIT 0x10, OP [] QMI_IDL_GENERIC_4_BYTE,
      OFFSET8 qmiLocAddGeofenceContextIndMsgT_v02 ''transactionId'',
     TLV [QMI_IDL_TLV_FLAGS_OPTIONAL] (OFFSET8_DIFF qmiLocAddGeofenceContextIndMsgT_v02 ''geofenceId'' ''geofenceId_valid''),
      LIT 0x11, OP [] QMI_IDL_GENERIC_4_BYTE, OFFSET8 qmiLocAddGeofenceContextIndMsgT_v02 ''geofenceId'',
     TLV [QMI_IDL_TLV_FLAGS_LAST_TLV, QMI_IDL_TLV_FLAGS_OPTIONAL] (OFFSET8_DIFF qmiLocAddGeofenceContextIndMsgT_v02 ''contextId'' ''contextId_valid''),
      LIT 0x12, OP [] QMI_IDL_GENERIC_4_BYTE, OFFSET8 qmiLocAddGeofenceContextIndMsgT_v02 ''contextId'']"

lemma qmiLocAddGeofenceContextIndMsgT_data_v02_ok [idl_simps]:
  "describe_msg qmiLocAddGeofenceContextIndMsgT_data_v02 = Some (qmiLocAddGeofenceContextIndMsgT_v02, 28, [])"
  by (simp add: qmiLocAddGeofenceContextIndMsgT_data_v02_def qmiLocAddGeofenceContextIndMsgT_v02_def [THEN arg_cong, of laid] analyse_simps layout_simps cong: idl_cong)

definition qmiLocSetGeofenceEngineContextReqMsgT_data_v02 :: "idl_byte list" where
  "qmiLocSetGeofenceEngineContextReqMsgT_data_v02 =
    [LIT 0x01, OP [] QMI_IDL_GENERIC_4_BYTE,
      OFFSET8 qmiLocSetGeofenceEngineContextReqMsgT_v02 ''transactionId'',
     TLV [QMI_IDL_TLV_FLAGS_OPTIONAL] (OFFSET8_DIFF qmiLocSetGeofenceEngineContextReqMsgT_v02 ''utcTimeOfDay'' ''utcTimeOfDay_valid''),
      LIT 0x10, OP [] QMI_IDL_GENERIC_8_BYTE,
      OFFSET8 qmiLocSetGeofenceEngineContextReqMsgT_v02 ''utcTimeOfDay'',
     TLV [QMI_IDL_TLV_FLAGS_LAST_TLV, QMI_IDL_TLV_FLAGS_OPTIONAL] (OFFSET8_DIFF qmiLocSetGeofenceEngineContextReqMsgT_v02 ''temperature'' ''temperature_valid''),
      LIT 0x11, OP [] QMI_IDL_GENERIC_4_BYTE,
      OFFSET8 qmiLocSetGeofenceEngineContextReqMsgT_v02 ''temperature'']"

lemma qmiLocSetGeofenceEngineContextReqMsgT_data_v02_ok [idl_simps]:
  "describe_msg qmiLocSetGeofenceEngineContextReqMsgT_data_v02 = Some (qmiLocSetGeofenceEngineContextReqMsgT_v02, 25, [])"
  by (simp add: qmiLocSetGeofenceEngineContextReqMsgT_data_v02_def qmiLocSetGeofenceEngineContextReqMsgT_v02_def [THEN arg_cong, of laid] analyse_simps layout_simps cong: idl_cong)

definition qmiLocSetGeofenceEngineContextIndMsgT_data_v02 :: "idl_byte list" where
  "qmiLocSetGeofenceEngineContextIndMsgT_data_v02 =
    [LIT 0x01, OP [] QMI_IDL_GENERIC_4_BYTE,
      OFFSET8 qmiLocSetGeofenceEngineContextIndMsgT_v02 ''status'',
     TLV [QMI_IDL_TLV_FLAGS_LAST_TLV, QMI_IDL_TLV_FLAGS_OPTIONAL] (OFFSET8_DIFF qmiLocSetGeofenceEngineContextIndMsgT_v02 ''transactionId'' ''transactionId_valid''),
      LIT 0x10, OP [] QMI_IDL_GENERIC_4_BYTE,
      OFFSET8 qmiLocSetGeofenceEngineContextIndMsgT_v02 ''transactionId'']"

lemma qmiLocSetGeofenceEngineContextIndMsgT_data_v02_ok [idl_simps]:
  "describe_msg qmiLocSetGeofenceEngineContextIndMsgT_data_v02 = Some (qmiLocSetGeofenceEngineContextIndMsgT_v02, 14, [])"
  by (simp add: qmiLocSetGeofenceEngineContextIndMsgT_data_v02_def qmiLocSetGeofenceEngineContextIndMsgT_v02_def [THEN arg_cong, of laid] analyse_simps layout_simps cong: idl_cong)

definition qmiLocDeleteGeofenceContextReqMsgT_data_v02 :: "idl_byte list" where
  "qmiLocDeleteGeofenceContextReqMsgT_data_v02 =
    [LIT 0x01, OP [] QMI_IDL_GENERIC_4_BYTE,
      OFFSET8 qmiLocDeleteGeofenceContextReqMsgT_v02 ''transactionId'',
     LIT 0x02, OP [] QMI_IDL_GENERIC_4_BYTE,
      OFFSET8 qmiLocDeleteGeofenceContextReqMsgT_v02 ''geofenceId'',
     TLV [QMI_IDL_TLV_FLAGS_LAST_TLV, QMI_IDL_TLV_FLAGS_OPTIONAL] (OFFSET8_DIFF qmiLocDeleteGeofenceContextReqMsgT_v02 ''contextId'' ''contextId_valid''),
      LIT 0x10, OP [] QMI_IDL_GENERIC_4_BYTE,
      OFFSET8 qmiLocDeleteGeofenceContextReqMsgT_v02 ''contextId'']"

lemma qmiLocDeleteGeofenceContextReqMsgT_data_v02_ok [idl_simps]:
  "describe_msg qmiLocDeleteGeofenceContextReqMsgT_data_v02 = Some (qmiLocDeleteGeofenceContextReqMsgT_v02, 21, [])"
  by (simp add: qmiLocDeleteGeofenceContextReqMsgT_data_v02_def qmiLocDeleteGeofenceContextReqMsgT_v02_def [THEN arg_cong, of laid] analyse_simps layout_simps cong: idl_cong)

definition qmiLocDeleteGeofenceContextIndMsgT_data_v02 :: "idl_byte list" where
  "qmiLocDeleteGeofenceContextIndMsgT_data_v02 =
    [LIT 0x01, OP [] QMI_IDL_GENERIC_4_BYTE, OFFSET8 qmiLocDeleteGeofenceContextIndMsgT_v02 ''status'',
     TLV [QMI_IDL_TLV_FLAGS_OPTIONAL] (OFFSET8_DIFF qmiLocDeleteGeofenceContextIndMsgT_v02 ''transactionId'' ''transactionId_valid''),
      LIT 0x10, OP [] QMI_IDL_GENERIC_4_BYTE,
      OFFSET8 qmiLocDeleteGeofenceContextIndMsgT_v02 ''transactionId'',
     TLV [QMI_IDL_TLV_FLAGS_OPTIONAL] (OFFSET8_DIFF qmiLocDeleteGeofenceContextIndMsgT_v02 ''geofenceId'' ''geofenceId_valid''),
      LIT 0x11, OP [] QMI_IDL_GENERIC_4_BYTE,
      OFFSET8 qmiLocDeleteGeofenceContextIndMsgT_v02 ''geofenceId'',
     TLV [QMI_IDL_TLV_FLAGS_LAST_TLV, QMI_IDL_TLV_FLAGS_OPTIONAL] (OFFSET8_DIFF qmiLocDeleteGeofenceContextIndMsgT_v02 ''contextId'' ''contextId_valid''),
      LIT 0x12, OP [] QMI_IDL_GENERIC_4_BYTE,
      OFFSET8 qmiLocDeleteGeofenceContextIndMsgT_v02 ''contextId'']"

lemma qmiLocDeleteGeofenceContextIndMsgT_data_v02_ok [idl_simps]:
  "describe_msg qmiLocDeleteGeofenceContextIndMsgT_data_v02 = Some (qmiLocDeleteGeofenceContextIndMsgT_v02, 28, [])"
  by (simp add: qmiLocDeleteGeofenceContextIndMsgT_data_v02_def qmiLocDeleteGeofenceContextIndMsgT_v02_def [THEN arg_cong, of laid] analyse_simps layout_simps cong: idl_cong)

definition qmiLocInjectGtpClientDownloadedDataReqMsgT_data_v02 :: "idl_byte list" where
  "qmiLocInjectGtpClientDownloadedDataReqMsgT_data_v02 =
    [TLV [QMI_IDL_TLV_FLAGS_LAST_TLV] (LIT 0x01),
      OP [QMI_IDL_FLAGS_IS_ARRAY, QMI_IDL_FLAGS_IS_VARIABLE_LEN, QMI_IDL_FLAGS_SZ_IS_16] QMI_IDL_GENERIC_1_BYTE,
      OFFSET8 qmiLocInjectGtpClientDownloadedDataReqMsgT_v02 ''ClientDownloadedData'',
      LO8 QMI_LOC_MAX_GTP_WWAN_CLIENT_DOWNLOADED_DATA_LEN_V02,
      HI8 QMI_LOC_MAX_GTP_WWAN_CLIENT_DOWNLOADED_DATA_LEN_V02,
      OFFSET8_DIFF qmiLocInjectGtpClientDownloadedDataReqMsgT_v02 ''ClientDownloadedData'' ''ClientDownloadedData_len'']"

lemma qmiLocInjectGtpClientDownloadedDataReqMsgT_data_v02_ok [idl_simps]:
  "describe_msg qmiLocInjectGtpClientDownloadedDataReqMsgT_data_v02 = Some (qmiLocInjectGtpClientDownloadedDataReqMsgT_v02, 517, [])"
  by (simp add: qmiLocInjectGtpClientDownloadedDataReqMsgT_data_v02_def qmiLocInjectGtpClientDownloadedDataReqMsgT_v02_def [THEN arg_cong, of laid] analyse_simps layout_simps cong: idl_cong)

definition qmiLocInjectGtpClientDownloadedDataIndMsgT_data_v02 :: "idl_byte list" where
  "qmiLocInjectGtpClientDownloadedDataIndMsgT_data_v02 =
    [TLV [QMI_IDL_TLV_FLAGS_LAST_TLV] (LIT 0x01), OP [] QMI_IDL_GENERIC_4_BYTE,
      OFFSET8 qmiLocInjectGtpClientDownloadedDataIndMsgT_v02 ''status'']"

lemma qmiLocInjectGtpClientDownloadedDataIndMsgT_data_v02_ok [idl_simps]:
  "describe_msg qmiLocInjectGtpClientDownloadedDataIndMsgT_data_v02 = Some (qmiLocInjectGtpClientDownloadedDataIndMsgT_v02, 7, [])"
  by (simp add: qmiLocInjectGtpClientDownloadedDataIndMsgT_data_v02_def qmiLocInjectGtpClientDownloadedDataIndMsgT_v02_def [THEN arg_cong, of laid] analyse_simps layout_simps cong: idl_cong)

definition qmiLocGdtUploadBeginStatusReqMsgT_data_v02 :: "idl_byte list" where
  "qmiLocGdtUploadBeginStatusReqMsgT_data_v02 =
    [LIT 0x01, OP [] QMI_IDL_GENERIC_4_BYTE,
      OFFSET8 qmiLocGdtUploadBeginStatusReqMsgT_v02 ''serviceId'',
     LIT 0x02, OP [] QMI_IDL_GENERIC_4_BYTE,
      OFFSET8 qmiLocGdtUploadBeginStatusReqMsgT_v02 ''sessionId'',
     TLV [QMI_IDL_TLV_FLAGS_LAST_TLV] (LIT 0x03), OP [] QMI_IDL_GENERIC_4_BYTE,
      OFFSET8 qmiLocGdtUploadBeginStatusReqMsgT_v02 ''gdtAccessStatus'']"

lemma qmiLocGdtUploadBeginStatusReqMsgT_data_v02_ok [idl_simps]:
  "describe_msg qmiLocGdtUploadBeginStatusReqMsgT_data_v02 = Some (qmiLocGdtUploadBeginStatusReqMsgT_v02, 21, [])"
  by (simp add: qmiLocGdtUploadBeginStatusReqMsgT_data_v02_def qmiLocGdtUploadBeginStatusReqMsgT_v02_def [THEN arg_cong, of laid] analyse_simps layout_simps cong: idl_cong)

definition qmiLocGdtUploadBeginStatusIndMsgT_data_v02 :: "idl_byte list" where
  "qmiLocGdtUploadBeginStatusIndMsgT_data_v02 =
    [TLV [QMI_IDL_TLV_FLAGS_LAST_TLV] (LIT 0x01), OP [] QMI_IDL_GENERIC_4_BYTE,
      OFFSET8 qmiLocGdtUploadBeginStatusIndMsgT_v02 ''status'']"

lemma qmiLocGdtUploadBeginStatusIndMsgT_data_v02_ok [idl_simps]:
  "describe_msg qmiLocGdtUploadBeginStatusIndMsgT_data_v02 = Some (qmiLocGdtUploadBeginStatusIndMsgT_v02, 7, [])"
  by (simp add: qmiLocGdtUploadBeginStatusIndMsgT_data_v02_def qmiLocGdtUploadBeginStatusIndMsgT_v02_def [THEN arg_cong, of laid] analyse_simps layout_simps cong: idl_cong)

definition qmiLocGdtUploadEndReqMsgT_data_v02 :: "idl_byte list" where
  "qmiLocGdtUploadEndReqMsgT_data_v02 =
    [LIT 0x01, OP [] QMI_IDL_GENERIC_4_BYTE, OFFSET8 qmiLocGdtUploadEndReqMsgT_v02 ''serviceId'',
     LIT 0x02, OP [] QMI_IDL_GENERIC_4_BYTE, OFFSET8 qmiLocGdtUploadEndReqMsgT_v02 ''sessionId'',
     TLV [QMI_IDL_TLV_FLAGS_LAST_TLV] (LIT 0x03), OP [] QMI_IDL_GENERIC_4_BYTE,
      OFFSET8 qmiLocGdtUploadEndReqMsgT_v02 ''gdtEndStatus'']"

lemma qmiLocGdtUploadEndReqMsgT_data_v02_ok [idl_simps]:
  "describe_msg qmiLocGdtUploadEndReqMsgT_data_v02 = Some (qmiLocGdtUploadEndReqMsgT_v02, 21, [])"
  by (simp add: qmiLocGdtUploadEndReqMsgT_data_v02_def qmiLocGdtUploadEndReqMsgT_v02_def [THEN arg_cong, of laid] analyse_simps layout_simps cong: idl_cong)

definition qmiLocGdtUploadEndIndMsgT_data_v02 :: "idl_byte list" where
  "qmiLocGdtUploadEndIndMsgT_data_v02 =
    [TLV [QMI_IDL_TLV_FLAGS_LAST_TLV] (LIT 0x01), OP [] QMI_IDL_GENERIC_4_BYTE,
      OFFSET8 qmiLocGdtUploadEndIndMsgT_v02 ''status'']"

lemma qmiLocGdtUploadEndIndMsgT_data_v02_ok [idl_simps]:
  "describe_msg qmiLocGdtUploadEndIndMsgT_data_v02 = Some (qmiLocGdtUploadEndIndMsgT_v02, 7, [])"
  by (simp add: qmiLocGdtUploadEndIndMsgT_data_v02_def qmiLocGdtUploadEndIndMsgT_v02_def [THEN arg_cong, of laid] analyse_simps layout_simps cong: idl_cong)

definition qmiLocGtpApStatusReqMsgT_data_v02 :: "idl_byte list" where
  "qmiLocGtpApStatusReqMsgT_data_v02 =
    [LIT 0x01, OP [] QMI_IDL_GENERIC_4_BYTE, OFFSET8 qmiLocGtpApStatusReqMsgT_v02 ''gtpApDbStatus'',
     TLV [QMI_IDL_TLV_FLAGS_OPTIONAL] (OFFSET8_DIFF qmiLocGtpApStatusReqMsgT_v02 ''gtpApPcid64'' ''gtpApPcid64_valid''),
      LIT 0x10, OP [] QMI_IDL_GENERIC_8_BYTE, OFFSET8 qmiLocGtpApStatusReqMsgT_v02 ''gtpApPcid64'',
     TLV [QMI_IDL_TLV_FLAGS_OPTIONAL] (OFFSET8_DIFF qmiLocGtpApStatusReqMsgT_v02 ''oemId'' ''oemId_valid''),
      LIT 0x11,
      OP [QMI_IDL_FLAGS_IS_ARRAY, QMI_IDL_FLAGS_IS_VARIABLE_LEN, QMI_IDL_FLAGS_SZ_IS_16] QMI_IDL_GENERIC_1_BYTE,
      OFFSET8 qmiLocGtpApStatusReqMsgT_v02 ''oemId'', LO8 QMI_LOC_MAX_OEM_ID_LEN_V02,
      HI8 QMI_LOC_MAX_OEM_ID_LEN_V02, OFFSET8_DIFF qmiLocGtpApStatusReqMsgT_v02 ''oemId'' ''oemId_len'',
     TLV [QMI_IDL_TLV_FLAGS_LAST_TLV, QMI_IDL_TLV_FLAGS_OPTIONAL] (OFFSET16_DIFF qmiLocGtpApStatusReqMsgT_v02 ''modelId'' ''modelId_valid''),
      LIT 0x12,
      OP [QMI_IDL_FLAGS_IS_ARRAY, QMI_IDL_FLAGS_IS_VARIABLE_LEN, QMI_IDL_FLAGS_SZ_IS_16, QMI_IDL_FLAGS_OFFSET_IS_16] QMI_IDL_GENERIC_1_BYTE,
      OFFSET16ARRAY qmiLocGtpApStatusReqMsgT_v02 ''modelId'', LO8 QMI_LOC_MAX_MODEL_ID_LEN_V02,
      HI8 QMI_LOC_MAX_MODEL_ID_LEN_V02,
      OFFSET16_DIFF qmiLocGtpApStatusReqMsgT_v02 ''modelId'' ''modelId_len'']"

lemma qmiLocGtpApStatusReqMsgT_data_v02_ok [idl_simps]:
  "describe_msg qmiLocGtpApStatusReqMsgT_data_v02 = Some (qmiLocGtpApStatusReqMsgT_v02, 540, [])"
  by (simp add: qmiLocGtpApStatusReqMsgT_data_v02_def qmiLocGtpApStatusReqMsgT_v02_def [THEN arg_cong, of laid] analyse_simps layout_simps cong: idl_cong)

end
