(* ===== verification/LocMsgIdl3.thy ===== *)
theory LocMsgIdl3
  imports LocTypeIdl
begin

text \<open>
  The descriptors of the messages of \<^verbatim>\<open>src/location/loc_api/loc_api_v02/location_service_v02.c\<close>
  (part 3 of 3), byte for byte as the file writes them, each with the result of its analysis.
\<close>

definition qmiLocGtpApStatusIndMsgT_data_v02 :: "idl_byte list" where
  "qmiLocGtpApStatusIndMsgT_data_v02 =
    [LIT 0x01, OP [] QMI_IDL_GENERIC_4_BYTE, OFFSET8 qmiLocGtpApStatusIndMsgT_v02 ''status'',
     LIT 0x02, OP [] QMI_IDL_GENERIC_2_BYTE,
      OFFSET8 qmiLocGtpApStatusIndMsgT_v02 ''clientSoftwareVersion'',
     TLV [QMI_IDL_TLV_FLAGS_LAST_TLV] (LIT 0x03), OP [] QMI_IDL_AGGREGATE,
      OFFSET8 qmiLocGtpApStatusIndMsgT_v02 ''asnVersion'', TYPE88 0 68]"

lemma qmiLocGtpApStatusIndMsgT_data_v02_ok [idl_simps]:
  "describe_msg qmiLocGtpApStatusIndMsgT_data_v02 = Some (qmiLocGtpApStatusIndMsgT_v02, 15, [(1, (0, 68), qmiLocGtpAsnVerStructT_v02)])"
  by (simp add: qmiLocGtpApStatusIndMsgT_data_v02_def qmiLocGtpApStatusIndMsgT_v02_def [THEN arg_cong, of laid] analyse_simps layout_simps cong: idl_cong)

definition qmiLocGdtDownloadBeginStatusReqMsgT_data_v02 :: "idl_byte list" where
  "qmiLocGdtDownloadBeginStatusReqMsgT_data_v02 =
    [LIT 0x01, OP [] QMI_IDL_GENERIC_4_BYTE,
      OFFSET8 qmiLocGdtDownloadBeginStatusReqMsgT_v02 ''serviceId'',
     LIT 0x02, OP [] QMI_IDL_GENERIC_4_BYTE,
      OFFSET8 qmiLocGdtDownloadBeginStatusReqMsgT_v02 ''sessionId'',
     LIT 0x03, OP [] QMI_IDL_GENERIC_4_BYTE,
      OFFSET8 qmiLocGdtDownloadBeginStatusReqMsgT_v02 ''processingStatus'',
     TLV [QMI_IDL_TLV_FLAGS_OPTIONAL] (OFFSET8_DIFF qmiLocGdtDownloadBeginStatusReqMsgT_v02 ''wwanDownloadFlag'' ''wwanDownloadFlag_valid''),
      LIT 0x10, OP [] QMI_IDL_GENERIC_2_BYTE,
      OFFSET8 qmiLocGdtDownloadBeginStatusReqMsgT_v02 ''wwanDownloadFlag'',
     TLV [QMI_IDL_TLV_FLAGS_OPTIONAL] (OFFSET8_DIFF qmiLocGdtDownloadBeginStatusReqMsgT_v02 ''respLocInfo'' ''respLocInfo_valid''),
      LIT 0x11,
      OP [QMI_IDL_FLAGS_IS_ARRAY, QMI_IDL_FLAGS_IS_VARIABLE_LEN, QMI_IDL_FLAGS_SZ_IS_16] QMI_IDL_GENERIC_1_BYTE,
      OFFSET8 qmiLocGdtDownloadBeginStatusReqMsgT_v02 ''respLocInfo'', LO8 QMI_LOC_MAX_GTP_RLI_LEN_V02,
      HI8 QMI_LOC_MAX_GTP_RLI_LEN_V02,
      OFFSET8_DIFF qmiLocGdtDownloadBeginStatusReqMsgT_v02 ''respLocInfo'' ''respLocInfo_len'',
     TLV [QMI_IDL_TLV_FLAGS_LAST_TLV, QMI_IDL_TLV_FLAGS_OPTIONAL] (OFFSET16_DIFF qmiLocGdtDownloadBeginStatusReqMsgT_v02 ''apRemainingThrottleTime'' ''apRemainingThrottleTime_valid''),
      LIT 0x12, OP [QMI_IDL_FLAGS_OFFSET_IS_16] QMI_IDL_GENERIC_4_BYTE,
      OFFSET16ARRAY qmiLocGdtDownloadBeginStatusReqMsgT_v02 ''apRemainingThrottleTime'']"

lemma qmiLocGdtDownloadBeginStatusReqMsgT_data_v02_ok [idl_simps]:
  "describe_msg qmiLocGdtDownloadBeginStatusReqMsgT_data_v02 = Some (qmiLocGdtDownloadBeginStatusReqMsgT_v02, 294, [])"
  by (simp add: qmiLocGdtDownloadBeginStatusReqMsgT_data_v02_def qmiLocGdtDownloadBeginStatusReqMsgT_v02_def [THEN arg_cong, of laid] analyse_simps layout_simps cong: idl_cong)

definition qmiLocGdtDownloadBeginStatusIndMsgT_data_v02 :: "idl_byte list" where
  "qmiLocGdtDownloadBeginStatusIndMsgT_data_v02 =
    [TLV [QMI_IDL_TLV_FLAGS_LAST_TLV] (LIT 0x01), OP [] QMI_IDL_GENERIC_4_BYTE,
      OFFSET8 qmiLocGdtDownloadBeginStatusIndMsgT_v02 ''status'']"

lemma qmiLocGdtDownloadBeginStatusIndMsgT_data_v02_ok [idl_simps]:
  "describe_msg qmiLocGdtDownloadBeginStatusIndMsgT_data_v02 = Some (qmiLocGdtDownloadBeginStatusIndMsgT_v02, 7, [])"
  by (simp add: qmiLocGdtDownloadBeginStatusIndMsgT_data_v02_def qmiLocGdtDownloadBeginStatusIndMsgT_v02_def [THEN arg_cong, of laid] analyse_simps layout_simps cong: idl_cong)

definition qmiLocGdtDownloadReadyStatusReqMsgT_data_v02 :: "idl_byte list" where
  "qmiLocGdtDownloadReadyStatusReqMsgT_data_v02 =
    [LIT 0x01, OP [] QMI_IDL_GENERIC_4_BYTE,
      OFFSET8 qmiLocGdtDownloadReadyStatusReqMsgT_v02 ''serviceId'',
     LIT 0x02, OP [] QMI_IDL_GENERIC_4_BYTE,
      OFFSET8 qmiLocGdtDownloadReadyStatusReqMsgT_v02 ''sessionId'',
     LIT 0x03, OP [] QMI_IDL_GENERIC_4_BYTE, OFFSET8 qmiLocGdtDownloadReadyStatusReqMsgT_v02 ''status'',
     TLV [QMI_IDL_TLV_FLAGS_LAST_TLV] (LIT 0x04),
      OP [QMI_IDL_FLAGS_IS_ARRAY, QMI_IDL_FLAGS_IS_VARIABLE_LEN] QMI_IDL_GENERIC_1_BYTE,
      OFFSET8 qmiLocGdtDownloadReadyStatusReqMsgT_v02 ''filePath'', LIT QMI_LOC_MAX_GDT_PATH_LEN_V02,
      OFFSET8_DIFF qmiLocGdtDownloadReadyStatusReqMsgT_v02 ''filePath'' ''filePath_len'']"

lemma qmiLocGdtDownloadReadyStatusReqMsgT_data_v02_ok [idl_simps]:
  "describe_msg qmiLocGdtDownloadReadyStatusReqMsgT_data_v02 = Some (qmiLocGdtDownloadReadyStatusReqMsgT_v02, 280, [])"
  by (simp add: qmiLocGdtDownloadReadyStatusReqMsgT_data_v02_def qmiLocGdtDownloadReadyStatusReqMsgT_v02_def [THEN arg_cong, of laid] analyse_simps layout_simps cong: idl_cong)

definition qmiLocGdtDownloadReadyStatusIndMsgT_data_v02 :: "idl_byte list" where
  "qmiLocGdtDownloadReadyStatusIndMsgT_data_v02 =
    [TLV [QMI_IDL_TLV_FLAGS_LAST_TLV] (LIT 0x01), OP [] QMI_IDL_GENERIC_4_BYTE,
      OFFSET8 qmiLocGdtDownloadReadyStatusIndMsgT_v02 ''status'']"

lemma qmiLocGdtDownloadReadyStatusIndMsgT_data_v02_ok [idl_simps]:
  "describe_msg qmiLocGdtDownloadReadyStatusIndMsgT_data_v02 = Some (qmiLocGdtDownloadReadyStatusIndMsgT_v02, 7, [])"
  by (simp add: qmiLocGdtDownloadReadyStatusIndMsgT_data_v02_def qmiLocGdtDownloadReadyStatusIndMsgT_v02_def [THEN arg_cong, of laid] analyse_simps layout_simps cong: idl_cong)

definition qmiLocGdtReceiveDoneStatusReqMsgT_data_v02 :: "idl_byte list" where
  "qmiLocGdtReceiveDoneStatusReqMsgT_data_v02 =
    [LIT 0x01, OP [] QMI_IDL_GENERIC_4_BYTE,
      OFFSET8 qmiLocGdtReceiveDoneStatusReqMsgT_v02 ''serviceId'',
     LIT 0x02, OP [] QMI_IDL_GENERIC_4_BYTE,
      OFFSET8 qmiLocGdtReceiveDoneStatusReqMsgT_v02 ''sessionId'',
     TLV [QMI_IDL_TLV_FLAGS_LAST_TLV] (LIT 0x03), OP [] QMI_IDL_GENERIC_4_BYTE,
      OFFSET8 qmiLocGdtReceiveDoneStatusReqMsgT_v02 ''status'']"

lemma qmiLocGdtReceiveDoneStatusReqMsgT_data_v02_ok [idl_simps]:
  "describe_msg qmiLocGdtReceiveDoneStatusReqMsgT_data_v02 = Some (qmiLocGdtReceiveDoneStatusReqMsgT_v02, 21, [])"
  by (simp add: qmiLocGdtReceiveDoneStatusReqMsgT_data_v02_def qmiLocGdtReceiveDoneStatusReqMsgT_v02_def [THEN arg_cong, of laid] analyse_simps layout_simps cong: idl_cong)

definition qmiLocGdtReceiveDoneStatusIndMsgT_data_v02 :: "idl_byte list" where
  "qmiLocGdtReceiveDoneStatusIndMsgT_data_v02 =
    [TLV [QMI_IDL_TLV_FLAGS_LAST_TLV] (LIT 0x01), OP [] QMI_IDL_GENERIC_4_BYTE,
      OFFSET8 qmiLocGdtReceiveDoneStatusIndMsgT_v02 ''status'']"

lemma qmiLocGdtReceiveDoneStatusIndMsgT_data_v02_ok [idl_simps]:
  "describe_msg qmiLocGdtReceiveDoneStatusIndMsgT_data_v02 = Some (qmiLocGdtReceiveDoneStatusIndMsgT_v02, 7, [])"
  by (simp add: qmiLocGdtReceiveDoneStatusIndMsgT_data_v02_def qmiLocGdtReceiveDoneStatusIndMsgT_v02_def [THEN arg_cong, of laid] analyse_simps layout_simps cong: idl_cong)

definition qmiLocGdtDownloadEndStatusReqMsgT_data_v02 :: "idl_byte list" where
  "qmiLocGdtDownloadEndStatusReqMsgT_data_v02 =
    [LIT 0x01, OP [] QMI_IDL_GENERIC_4_BYTE,
      OFFSET8 qmiLocGdtDownloadEndStatusReqMsgT_v02 ''serviceId'',
     LIT 0x02, OP [] QMI_IDL_GENERIC_4_BYTE,
      OFFSET8 qmiLocGdtDownloadEndStatusReqMsgT_v02 ''sessionId'',
     TLV [QMI_IDL_TLV_FLAGS_LAST_TLV] (LIT 0x03), OP [] QMI_IDL_GENERIC_4_BYTE,
      OFFSET8 qmiLocGdtDownloadEndStatusReqMsgT_v02 ''status'']"

lemma qmiLocGdtDownloadEndStatusReqMsgT_data_v02_ok [idl_simps]:
  "describe_msg qmiLocGdtDownloadEndStatusReqMsgT_data_v02 = Some (qmiLocGdtDownloadEndStatusReqMsgT_v02, 21, [])"
  by (simp add: qmiLocGdtDownloadEndStatusReqMsgT_data_v02_def qmiLocGdtDownloadEndStatusReqMsgT_v02_def [THEN arg_cong, of laid] analyse_simps layout_simps cong: idl_cong)

definition qmiLocGdtDownloadEndStatusIndMsgT_data_v02 :: "idl_byte list" where
  "qmiLocGdtDownloadEndStatusIndMsgT_data_v02 =
    [TLV [QMI_IDL_TLV_FLAGS_LAST_TLV] (LIT 0x01), OP [] QMI_IDL_GENERIC_4_BYTE,
      OFFSET8 qmiLocGdtDownloadEndStatusIndMsgT_v02 ''status'']"

lemma qmiLocGdtDownloadEndStatusIndMsgT_data_v02_ok [idl_simps]:
  "describe_msg qmiLocGdtDownloadEndStatusIndMsgT_data_v02 = Some (qmiLocGdtDownloadEndStatusIndMsgT_v02, 7, [])"
  by (simp add: qmiLocGdtDownloadEndStatusIndMsgT_data_v02_def qmiLocGdtDownloadEndStatusIndMsgT_v02_def [THEN arg_cong, of laid] analyse_simps layout_simps cong: idl_cong)

definition qmiLocStartDbtReqMsgT_data_v02 :: "idl_byte list" where
  "qmiLocStartDbtReqMsgT_data_v02 =
    [LIT 0x01, OP [] QMI_IDL_GENERIC_1_BYTE, OFFSET8 qmiLocStartDbtReqMsgT_v02 ''reqId'',
     LIT 0x02, OP [] QMI_IDL_GENERIC_4_BYTE, OFFSET8 qmiLocStartDbtReqMsgT_v02 ''minDistance'',
     LIT 0x03, OP [] QMI_IDL_GENERIC_4_BYTE, OFFSET8 qmiLocStartDbtReqMsgT_v02 ''distanceType'',
     LIT 0x04, OP [] QMI_IDL_GENERIC_1_BYTE, OFFSET8 qmiLocStartDbtReqMsgT_v02 ''needOriginLocation'',
     TLV [QMI_IDL_TLV_FLAGS_OPTIONAL] (OFFSET8_DIFF qmiLocStartDbtReqMsgT_v02 ''maxLatency'' ''maxLatency_valid''),
      LIT 0x10, OP [] QMI_IDL_GENERIC_4_BYTE, OFFSET8 qmiLocStartDbtReqMsgT_v02 ''maxLatency'',
     TLV [QMI_IDL_TLV_FLAGS_LAST_TLV, QMI_IDL_TLV_FLAGS_OPTIONAL] (OFFSET8_DIFF qmiLocStartDbtReqMsgT_v02 ''usageType'' ''usageType_valid''),
      LIT 0x11, OP [] QMI_IDL_GENERIC_4_BYTE, OFFSET8 qmiLocStartDbtReqMsgT_v02 ''usageType'']"

lemma qmiLocStartDbtReqMsgT_data_v02_ok [idl_simps]:
  "describe_msg qmiLocStartDbtReqMsgT_data_v02 = Some (qmiLocStartDbtReqMsgT_v02, 36, [])"
  by (simp add: qmiLocStartDbtReqMsgT_data_v02_def qmiLocStartDbtReqMsgT_v02_def [THEN arg_cong, of laid] analyse_simps layout_simps cong: idl_cong)

definition qmiLocStartDbtIndMsgT_data_v02 :: "idl_byte list" where
  "qmiLocStartDbtIndMsgT_data_v02 =
    [LIT 0x01, OP [] QMI_IDL_GENERIC_4_BYTE, OFFSET8 qmiLocStartDbtIndMsgT_v02 ''status'',
     TLV [QMI_IDL_TLV_FLAGS_LAST_TLV, QMI_IDL_TLV_FLAGS_OPTIONAL] (OFFSET8_DIFF qmiLocStartDbtIndMsgT_v02 ''reqId'' ''reqId_valid''),
      LIT 0x10, OP [] QMI_IDL_GENERIC_1_BYTE, OFFSET8 qmiLocStartDbtIndMsgT_v02 ''reqId'']"

lemma qmiLocStartDbtIndMsgT_data_v02_ok [idl_simps]:
  "describe_msg qmiLocStartDbtIndMsgT_data_v02 = Some (qmiLocStartDbtIndMsgT_v02, 11, [])"
  by (simp add: qmiLocStartDbtIndMsgT_data_v02_def qmiLocStartDbtIndMsgT_v02_def [THEN arg_cong, of laid] analyse_simps layout_simps cong: idl_cong)

definition qmiLocStopDbtReqMsgT_data_v02 :: "idl_byte list" where
  "qmiLocStopDbtReqMsgT_data_v02 =
    [TLV [QMI_IDL_TLV_FLAGS_LAST_TLV] (LIT 0x01), OP [] QMI_IDL_GENERIC_1_BYTE,
      OFFSET8 qmiLocStopDbtReqMsgT_v02 ''reqId'']"

lemma qmiLocStopDbtReqMsgT_data_v02_ok [idl_simps]:
  "describe_msg qmiLocStopDbtReqMsgT_data_v02 = Some (qmiLocStopDbtReqMsgT_v02, 4, [])"
  by (simp add: qmiLocStopDbtReqMsgT_data_v02_def qmiLocStopDbtReqMsgT_v02_def [THEN arg_cong, of laid] analyse_simps layout_simps cong: idl_cong)

definition qmiLocStopDbtIndMsgT_data_v02 :: "idl_byte list" where
  "qmiLocStopDbtIndMsgT_data_v02 =
    [LIT 0x01, OP [] QMI_IDL_GENERIC_4_BYTE, OFFSET8 qmiLocStopDbtIndMsgT_v02 ''status'',
     TLV [QMI_IDL_TLV_FLAGS_LAST_TLV, QMI_IDL_TLV_FLAGS_OPTIONAL] (OFFSET8_DIFF qmiLocStopDbtIndMsgT_v02 ''reqId'' ''reqId_valid''),
      LIT 0x10, OP [] QMI_IDL_GENERIC_1_BYTE, OFFSET8 qmiLocStopDbtIndMsgT_v02 ''reqId'']"

lemma qmiLocStopDbtIndMsgT_data_v02_ok [idl_simps]:
  "describe_msg qmiLocStopDbtIndMsgT_data_v02 = Some (qmiLocStopDbtIndMsgT_v02, 11, [])"
  by (simp add: qmiLocStopDbtIndMsgT_data_v02_def qmiLocStopDbtIndMsgT_v02_def [THEN arg_cong, of laid] analyse_simps layout_simps cong: idl_cong)

definition qmiLocEventDbtPositionReportIndMsgT_data_v02 :: "idl_byte list" where
  "qmiLocEventDbtPositionReportIndMsgT_data_v02 =
    [LIT 0x01, OP [] QMI_IDL_GENERIC_1_BYTE, OFFSET8 qmiLocEventDbtPositionReportIndMsgT_v02 ''reqId'',
     LIT 0x02, OP [] QMI_IDL_AGGREGATE,
      OFFSET8 qmiLocEventDbtPositionReportIndMsgT_v02 ''dbtPosition'', TYPE88 0 69,
     LIT 0x03, OP [] QMI_IDL_GENERIC_4_BYTE,
      OFFSET8 qmiLocEventDbtPositionReportIndMsgT_v02 ''positionType'',
     TLV [QMI_IDL_TLV_FLAGS_OPTIONAL] (OFFSET8_DIFF qmiLocEventDbtPositionReportIndMsgT_v02 ''headingUnc'' ''headingUnc_valid''),
      LIT 0x10, OP [] QMI_IDL_GENERIC_4_BYTE,
      OFFSET8 qmiLocEventDbtPositionReportIndMsgT_v02 ''headingUnc'',
     TLV [QMI_IDL_TLV_FLAGS_OPTIONAL] (OFFSET8_DIFF qmiLocEventDbtPositionReportIndMsgT_v02 ''speedUnc'' ''speedUnc_valid''),
      LIT 0x11, OP [] QMI_IDL_GENERIC_4_BYTE,
      OFFSET8 qmiLocEventDbtPositionReportIndMsgT_v02 ''speedUnc'',
     TLV [QMI_IDL_TLV_FLAGS_OPTIONAL] (OFFSET8_DIFF qmiLocEventDbtPositionReportIndMsgT_v02 ''horConfidence'' ''horConfidence_valid''),
      LIT 0x12, OP [] QMI_IDL_GENERIC_1_BYTE,
      OFFSET8 qmiLocEventDbtPositionReportIndMsgT_v02 ''horConfidence'',
     TLV [QMI_IDL_TLV_FLAGS_OPTIONAL] (OFFSET8_DIFF qmiLocEventDbtPositionReportIndMsgT_v02 ''vertConfidence'' ''vertConfidence_valid''),
      LIT 0x13, OP [] QMI_IDL_GENERIC_1_BYTE,
      OFFSET8 qmiLocEventDbtPositionReportIndMsgT_v02 ''vertConfidence'',
     TLV [QMI_IDL_TLV_FLAGS_OPTIONAL] (OFFSET8_DIFF qmiLocEventDbtPositionReportIndMsgT_v02 ''DOP'' ''DOP_valid''),
      LIT 0x14, OP [] QMI_IDL_AGGREGATE, OFFSET8 qmiLocEventDbtPositionReportIndMsgT_v02 ''DOP'',
      TYPE88 0 3,
     TLV [QMI_IDL_TLV_FLAGS_OPTIONAL] (OFFSET8_DIFF qmiLocEventDbtPositionReportIndMsgT_v02 ''gnssSvUsedList'' ''gnssSvUsedList_valid''),
      LIT 0x15, OP [QMI_IDL_FLAGS_IS_ARRAY, QMI_IDL_FLAGS_IS_VARIABLE_LEN] QMI_IDL_GENERIC_2_BYTE,
      OFFSET8 qmiLocEventDbtPositionReportIndMsgT_v02 ''gnssSvUsedList'',
      LIT QMI_LOC_MAX_SV_USED_LIST_LENGTH_V02,
      OFFSET8_DIFF qmiLocEventDbtPositionReportIndMsgT_v02 ''gnssSvUsedList'' ''gnssSvUsedList_len'',
     TLV [QMI_IDL_TLV_FLAGS_OPTIONAL] (OFFSET16_DIFF qmiLocEventDbtPositionReportIndMsgT_v02 ''positionSrc'' ''positionSrc_valid''),
      LIT 0x16, OP [QMI_IDL_FLAGS_OFFSET_IS_16] QMI_IDL_GENERIC_4_BYTE,
      OFFSET16ARRAY qmiLocEventDbtPositionReportIndMsgT_v02 ''positionSrc'',
     TLV [QMI_IDL_TLV_FLAGS_OPTIONAL] (OFFSET16_DIFF qmiLocEventDbtPositionReportIndMsgT_v02 ''extDOP'' ''extDOP_valid''),
      LIT 0x17, OP [QMI_IDL_FLAGS_OFFSET_IS_16] QMI_IDL_AGGREGATE,
      OFFSET16ARRAY qmiLocEventDbtPositionReportIndMsgT_v02 ''extDOP'', TYPE88 0 4,
     TLV [QMI_IDL_TLV_FLAGS_OPTIONAL] (OFFSET16_DIFF qmiLocEventDbtPositionReportIndMsgT_v02 ''expandedGnssSvUsedList'' ''expandedGnssSvUsedList_valid''),
      LIT 0x18,
      OP [QMI_IDL_FLAGS_IS_ARRAY, QMI_IDL_FLAGS_IS_VARIABLE_LEN, QMI_IDL_FLAGS_OFFSET_IS_16] QMI_IDL_GENERIC_2_BYTE,
      OFFSET16ARRAY qmiLocEventDbtPositionReportIndMsgT_v02 ''expandedGnssSvUsedList'',
      LIT QMI_LOC_EXPANDED_SV_INFO_LIST_MAX_SIZE_V02,
      OFFSET16_DIFF qmiLocEventDbtPositionReportIndMsgT_v02 ''expandedGnssSvUsedList'' ''expandedGnssSvUsedList_len'',
     TLV [QMI_IDL_TLV_FLAGS_LAST_TLV, QMI_IDL_TLV_FLAGS_OPTIONAL] (OFFSET16_DIFF qmiLocEventDbtPositionReportIndMsgT_v02 ''gnssSvUsedSignalTypeList'' ''gnssSvUsedSignalTypeList_valid''),
      LIT 0x19,
      OP [QMI_IDL_FLAGS_IS_ARRAY, QMI_IDL_FLAGS_IS_VARIABLE_LEN, QMI_IDL_FLAGS_OFFSET_IS_16] QMI_IDL_GENERIC_8_BYTE,
      OFFSET16ARRAY qmiLocEventDbtPositionReportIndMsgT_v02 ''gnssSvUsedSignalTypeList'',
      LIT QMI_LOC_EXPANDED_SV_INFO_LIST_MAX_SIZE_V02,
      OFFSET16_DIFF qmiLocEventDbtPositionReportIndMsgT_v02 ''gnssSvUsedSignalTypeList'' ''gnssSvUsedSignalTypeList_len'']"

lemma qmiLocEventDbtPositionReportIndMsgT_data_v02_ok [idl_simps]:
  "describe_msg qmiLocEventDbtPositionReportIndMsgT_data_v02 = Some (qmiLocEventDbtPositionReportIndMsgT_v02, 1981, [(1, (0, 69), qmiLocDbtPositionStructT_v02), (1, (0, 3), qmiLocDOPStructT_v02), (1, (0, 4), qmiLocExtDOPStructT_v02)])"
  by (simp add: qmiLocEventDbtPositionReportIndMsgT_data_v02_def qmiLocEventDbtPositionReportIndMsgT_v02_def [THEN arg_cong, of laid] analyse_simps layout_simps cong: idl_cong)

definition qmiLocEventDbtSessionStatusIndMsgT_data_v02 :: "idl_byte list" where
  "qmiLocEventDbtSessionStatusIndMsgT_data_v02 =
    [LIT 0x01, OP [] QMI_IDL_GENERIC_4_BYTE,
      OFFSET8 qmiLocEventDbtSessionStatusIndMsgT_v02 ''dbtSessionStatus'',
     TLV [QMI_IDL_TLV_FLAGS_LAST_TLV, QMI_IDL_TLV_FLAGS_OPTIONAL] (OFFSET8_DIFF qmiLocEventDbtSessionStatusIndMsgT_v02 ''reqId'' ''reqId_valid''),
      LIT 0x10, OP [] QMI_IDL_GENERIC_1_BYTE, OFFSET8 qmiLocEventDbtSessionStatusIndMsgT_v02 ''reqId'']"

lemma qmiLocEventDbtSessionStatusIndMsgT_data_v02_ok [idl_simps]:
  "describe_msg qmiLocEventDbtSessionStatusIndMsgT_data_v02 = Some (qmiLocEventDbtSessionStatusIndMsgT_v02, 11, [])"
  by (simp add: qmiLocEventDbtSessionStatusIndMsgT_data_v02_def qmiLocEventDbtSessionStatusIndMsgT_v02_def [THEN arg_cong, of laid] analyse_simps layout_simps cong: idl_cong)

definition qmiLocSecureGetAvailablePositionReqMsgT_data_v02 :: "idl_byte list" where
  "qmiLocSecureGetAvailablePositionReqMsgT_data_v02 =
    [LIT 0x01, OP [] QMI_IDL_GENERIC_4_BYTE,
      OFFSET8 qmiLocSecureGetAvailablePositionReqMsgT_v02 ''secureLocDataMode'',
     TLV [QMI_IDL_TLV_FLAGS_LAST_TLV] (LIT 0x02),
      OP [QMI_IDL_FLAGS_IS_ARRAY, QMI_IDL_FLAGS_IS_VARIABLE_LEN, QMI_IDL_FLAGS_SZ_IS_16] QMI_IDL_GENERIC_1_BYTE,
      OFFSET8 qmiLocSecureGetAvailablePositionReqMsgT_v02 ''qmilocSecureGetAvailablePositionRequestData'',
      LO8 QMI_LOC_SECURE_GET_AVAILABLE_POS_REQUEST_ENCRYPTED_MAX_V02,
      HI8 QMI_LOC_SECURE_GET_AVAILABLE_POS_REQUEST_ENCRYPTED_MAX_V02,
      OFFSET8_DIFF qmiLocSecureGetAvailablePositionReqMsgT_v02 ''qmilocSecureGetAvailablePositionRequestData'' ''qmilocSecureGetAvailablePositionRequestData_len'']"

lemma qmiLocSecureGetAvailablePositionReqMsgT_data_v02_ok [idl_simps]:
  "describe_msg qmiLocSecureGetAvailablePositionReqMsgT_data_v02 = Some (qmiLocSecureGetAvailablePositionReqMsgT_v02, 268, [])"
  by (simp add: qmiLocSecureGetAvailablePositionReqMsgT_data_v02_def qmiLocSecureGetAvailablePositionReqMsgT_v02_def [THEN arg_cong, of laid] analyse_simps layout_simps cong: idl_cong)

definition qmiLocSecureGetAvailablePositionIndMsgT_data_v02 :: "idl_byte list" where
  "qmiLocSecureGetAvailablePositionIndMsgT_data_v02 =
    [LIT 0x01, OP [] QMI_IDL_GENERIC_4_BYTE,
      OFFSET8 qmiLocSecureGetAvailablePositionIndMsgT_v02 ''sessionStatus'',
     LIT 0x02, OP [] QMI_IDL_GENERIC_4_BYTE,
      OFFSET8 qmiLocSecureGetAvailablePositionIndMsgT_v02 ''secureLocDataMode'',
     TLV [QMI_IDL_TLV_FLAGS_LAST_TLV, QMI_IDL_TLV_FLAGS_OPTIONAL] (OFFSET8_DIFF qmiLocSecureGetAvailablePositionIndMsgT_v02 ''qmilocSecureGetAvailablePositionInd'' ''qmilocSecureGetAvailablePositionInd_valid''),
      LIT 0x10,
      OP [QMI_IDL_FLAGS_IS_ARRAY, QMI_IDL_FLAGS_IS_VARIABLE_LEN, QMI_IDL_FLAGS_SZ_IS_16] QMI_IDL_GENERIC_1_BYTE,
      OFFSET8 qmiLocSecureGetAvailablePositionIndMsgT_v02 ''qmilocSecureGetAvailablePositionInd'',
      LO8 QMI_LOC_SECURE_GET_AVAILABLE_POSITION_IND_ENCRYPTED_MAX_V02,
      HI8 QMI_LOC_SECURE_GET_AVAILABLE_POSITION_IND_ENCRYPTED_MAX_V02,
      OFFSET8_DIFF qmiLocSecureGetAvailablePositionIndMsgT_v02 ''qmilocSecureGetAvailablePositionInd'' ''qmilocSecureGetAvailablePositionInd_len'']"

lemma qmiLocSecureGetAvailablePositionIndMsgT_data_v02_ok [idl_simps]:
  "describe_msg qmiLocSecureGetAvailablePositionIndMsgT_data_v02 = Some (qmiLocSecureGetAvailablePositionIndMsgT_v02, 1043, [])"
  by (simp add: qmiLocSecureGetAvailablePositionIndMsgT_data_v02_def qmiLocSecureGetAvailablePositionIndMsgT_v02_def [THEN arg_cong, of laid] analyse_simps layout_simps cong: idl_cong)

definition qmiLocInjectApCacheDataReqMsgT_data_v02 :: "idl_byte list" where
  "qmiLocInjectApCacheDataReqMsgT_data_v02 =
    [LIT 0x01, OP [] QMI_IDL_GENERIC_1_BYTE,
      OFFSET8 qmiLocInjectApCacheDataReqMsgT_v02 ''versionNumber'',
     LIT 0x02, OP [] QMI_IDL_GENERIC_1_BYTE, OFFSET8 qmiLocInjectApCacheDataReqMsgT_v02 ''partNumber'',
     LIT 0x03, OP [] QMI_IDL_GENERIC_1_BYTE, OFFSET8 qmiLocInjectApCacheDataReqMsgT_v02 ''totalParts'',
     LIT 0x04, OP [QMI_IDL_FLAGS_IS_ARRAY, QMI_IDL_FLAGS_IS_VARIABLE_LEN] QMI_IDL_AGGREGATE,
      OFFSET8 qmiLocInjectApCacheDataReqMsgT_v02 ''apCacheData'',
      LIT QMI_LOC_APCACHE_DATA_MAX_SAMPLES_V02,
      OFFSET8_DIFF qmiLocInjectApCacheDataReqMsgT_v02 ''apCacheData'' ''apCacheData_len'', TYPE88 0 70,
     TLV [QMI_IDL_TLV_FLAGS_LAST_TLV, QMI_IDL_TLV_FLAGS_OPTIONAL] (OFFSET16_DIFF qmiLocInjectApCacheDataReqMsgT_v02 ''apCacheHepeRelData'' ''apCacheHepeRelData_valid''),
      LIT 0x10,
      OP [QMI_IDL_FLAGS_IS_ARRAY, QMI_IDL_FLAGS_IS_VARIABLE_LEN, QMI_IDL_FLAGS_OFFSET_IS_16] QMI_IDL_AGGREGATE,
      OFFSET16ARRAY qmiLocInjectApCacheDataReqMsgT_v02 ''apCacheHepeRelData'',
      LIT QMI_LOC_APCACHE_DATA_MAX_SAMPLES_V02,
      OFFSET16_DIFF qmiLocInjectApCacheDataReqMsgT_v02 ''apCacheHepeRelData'' ''apCacheHepeRelData_len'',
      TYPE88 0 71]"

lemma qmiLocInjectApCacheDataReqMsgT_data_v02_ok [idl_simps]:
  "describe_msg qmiLocInjectApCacheDataReqMsgT_data_v02 = Some (qmiLocInjectApCacheDataReqMsgT_v02, 20, [(80, (0, 70), qmiLocApCacheStructT_v02), (80, (0, 71), qmiLocApCacheHepeRelStructT_v02)])"
  by (simp add: qmiLocInjectApCacheDataReqMsgT_data_v02_def qmiLocInjectApCacheDataReqMsgT_v02_def [THEN arg_cong, of laid] analyse_simps layout_simps cong: idl_cong)

definition qmiLocInjectApCacheDataIndMsgT_data_v02 :: "idl_byte list" where
  "qmiLocInjectApCacheDataIndMsgT_data_v02 =
    [LIT 0x01, OP [] QMI_IDL_GENERIC_4_BYTE, OFFSET8 qmiLocInjectApCacheDataIndMsgT_v02 ''status'',
     TLV [QMI_IDL_TLV_FLAGS_OPTIONAL] (OFFSET8_DIFF qmiLocInjectApCacheDataIndMsgT_v02 ''apCacheSize'' ''apCacheSize_valid''),
      LIT 0x10, OP [] QMI_IDL_GENERIC_4_BYTE, OFFSET8 qmiLocInjectApCacheDataIndMsgT_v02 ''apCacheSize'',
     TLV [QMI_IDL_TLV_FLAGS_OPTIONAL] (OFFSET8_DIFF qmiLocInjectApCacheDataIndMsgT_v02 ''apDoNotCacheSize'' ''apDoNotCacheSize_valid''),
      LIT 0x11, OP [] QMI_IDL_GENERIC_4_BYTE,
      OFFSET8 qmiLocInjectApCacheDataIndMsgT_v02 ''apDoNotCacheSize'',
     TLV [QMI_IDL_TLV_FLAGS_OPTIONAL] (OFFSET8_DIFF qmiLocInjectApCacheDataIndMsgT_v02 ''apCacheHits'' ''apCacheHits_valid''),
      LIT 0x12, OP [] QMI_IDL_GENERIC_4_BYTE, OFFSET8 qmiLocInjectApCacheDataIndMsgT_v02 ''apCacheHits'',
     TLV [QMI_IDL_TLV_FLAGS_OPTIONAL] (OFFSET8_DIFF qmiLocInjectApCacheDataIndMsgT_v02 ''apDoNotCacheHits'' ''apDoNotCacheHits_valid''),
      LIT 0x13, OP [] QMI_IDL_GENERIC_4_BYTE,
      OFFSET8 qmiLocInjectApCacheDataIndMsgT_v02 ''apDoNotCacheHits'',
     TLV [QMI_IDL_TLV_FLAGS_OPTIONAL] (OFFSET8_DIFF qmiLocInjectApCacheDataIndMsgT_v02 ''unknownAps'' ''unknownAps_valid''),
      LIT 0x14, OP [] QMI_IDL_GENERIC_4_BYTE, OFFSET8 qmiLocInjectApCacheDataIndMsgT_v02 ''unknownAps'',
     TLV [QMI_IDL_TLV_FLAGS_OPTIONAL] (OFFSET8_DIFF qmiLocInjectApCacheDataIndMsgT_v02 ''asyncScans'' ''asyncScans_valid''),
      LIT 0x15, OP [] QMI_IDL_GENERIC_4_BYTE, OFFSET8 qmiLocInjectApCacheDataIndMsgT_v02 ''asyncScans'',
     TLV [QMI_IDL_TLV_FLAGS_OPTIONAL] (OFFSET8_DIFF qmiLocInjectApCacheDataIndMsgT_v02 ''asyncFixes'' ''asyncFixes_valid''),
      LIT 0x16, OP [] QMI_IDL_GENERIC_4_BYTE, OFFSET8 qmiLocInjectApCacheDataIndMsgT_v02 ''asyncFixes'',
     TLV [QMI_IDL_TLV_FLAGS_OPTIONAL] (OFFSET8_DIFF qmiLocInjectApCacheDataIndMsgT_v02 ''syncScans'' ''syncScans_valid''),
      LIT 0x17, OP [] QMI_IDL_GENERIC_4_BYTE, OFFSET8 qmiLocInjectApCacheDataIndMsgT_v02 ''syncScans'',
     TLV [QMI_IDL_TLV_FLAGS_LAST_TLV, QMI_IDL_TLV_FLAGS_OPTIONAL] (OFFSET8_DIFF qmiLocInjectApCacheDataIndMsgT_v02 ''syncFixes'' ''syncFixes_valid''),
      LIT 0x18, OP [] QMI_IDL_GENERIC_4_BYTE, OFFSET8 qmiLocInjectApCacheDataIndMsgT_v02 ''syncFixes'']"

lemma qmiLocInjectApCacheDataIndMsgT_data_v02_ok [idl_simps]:
  "describe_msg qmiLocInjectApCacheDataIndMsgT_data_v02 = Some (qmiLocInjectApCacheDataIndMsgT_v02, 70, [])"
  by (simp add: qmiLocInjectApCacheDataIndMsgT_data_v02_def qmiLocInjectApCacheDataIndMsgT_v02_def [THEN arg_cong, of laid] analyse_simps layout_simps cong: idl_cong)

definition qmiLocInjectApDoNotCacheDataReqMsgT_data_v02 :: "idl_byte list" where
  "qmiLocInjectApDoNotCacheDataReqMsgT_data_v02 =
    [LIT 0x01, OP [] QMI_IDL_GENERIC_1_BYTE,
      OFFSET8 qmiLocInjectApDoNotCacheDataReqMsgT_v02 ''versionNumber'',
     LIT 0x02, OP [] QMI_IDL_GENERIC_1_BYTE,
      OFFSET8 qmiLocInjectApDoNotCacheDataReqMsgT_v02 ''partNumber'',
     LIT 0x03, OP [] QMI_IDL_GENERIC_1_BYTE,
      OFFSET8 qmiLocInjectApDoNotCacheDataReqMsgT_v02 ''totalParts'',
     TLV [QMI_IDL_TLV_FLAGS_LAST_TLV] (LIT 0x04),
      OP [QMI_IDL_FLAGS_IS_ARRAY, QMI_IDL_FLAGS_IS_VARIABLE_LEN] QMI_IDL_AGGREGATE,
      OFFSET8 qmiLocInjectApDoNotCacheDataReqMsgT_v02 ''apDoNotCacheData'',
      LIT QMI_LOC_APCACHE_DATA_MAX_SAMPLES_V02,
      OFFSET8_DIFF qmiLocInjectApDoNotCacheDataReqMsgT_v02 ''apDoNotCacheData'' ''apDoNotCacheData_len'',
      TYPE88 0 72]"

lemma qmiLocInjectApDoNotCacheDataReqMsgT_data_v02_ok [idl_simps]:
  "describe_msg qmiLocInjectApDoNotCacheDataReqMsgT_data_v02 = Some (qmiLocInjectApDoNotCacheDataReqMsgT_v02, 16, [(80, (0, 72), qmiLocApDoNotCacheStructT_v02)])"
  by (simp add: qmiLocInjectApDoNotCacheDataReqMsgT_data_v02_def qmiLocInjectApDoNotCacheDataReqMsgT_v02_def [THEN arg_cong, of laid] analyse_simps layout_simps cong: idl_cong)

definition qmiLocInjectApDoNotCacheDataIndMsgT_data_v02 :: "idl_byte list" where
  "qmiLocInjectApDoNotCacheDataIndMsgT_data_v02 =
    [TLV [QMI_IDL_TLV_FLAGS_LAST_TLV] (LIT 0x01), OP [] QMI_IDL_GENERIC_4_BYTE,
      OFFSET8 qmiLocInjectApDoNotCacheDataIndMsgT_v02 ''status'']"

lemma qmiLocInjectApDoNotCacheDataIndMsgT_data_v02_ok [idl_simps]:
  "describe_msg qmiLocInjectApDoNotCacheDataIndMsgT_data_v02 = Some (qmiLocInjectApDoNotCacheDataIndMsgT_v02, 7, [])"
  by (simp add: qmiLocInjectApDoNotCacheDataIndMsgT_data_v02_def qmiLocInjectApDoNotCacheDataIndMsgT_v02_def [THEN arg_cong, of laid] analyse_simps layout_simps cong: idl_cong)

definition qmiLocEventBatchingStatusIndMsgT_data_v02 :: "idl_byte list" where
  "qmiLocEventBatchingStatusIndMsgT_data_v02 =
    [TLV [QMI_IDL_TLV_FLAGS_LAST_TLV] (LIT 0x01), OP [] QMI_IDL_GENERIC_4_BYTE,
      OFFSET8 qmiLocEventBatchingStatusIndMsgT_v02 ''batchingStatus'']"

lemma qmiLocEventBatchingStatusIndMsgT_data_v02_ok [idl_simps]:
  "describe_msg qmiLocEventBatchingStatusIndMsgT_data_v02 = Some (qmiLocEventBatchingStatusIndMsgT_v02, 7, [])"
  by (simp add: qmiLocEventBatchingStatusIndMsgT_data_v02_def qmiLocEventBatchingStatusIndMsgT_v02_def [THEN arg_cong, of laid] analyse_simps layout_simps cong: idl_cong)

definition qmiLocQueryAonConfigReqMsgT_data_v02 :: "idl_byte list" where
  "qmiLocQueryAonConfigReqMsgT_data_v02 =
    [TLV [QMI_IDL_TLV_FLAGS_LAST_TLV] (LIT 0x01), OP [] QMI_IDL_GENERIC_4_BYTE,
      OFFSET8 qmiLocQueryAonConfigReqMsgT_v02 ''transactionId'']"

lemma qmiLocQueryAonConfigReqMsgT_data_v02_ok [idl_simps]:
  "describe_msg qmiLocQueryAonConfigReqMsgT_data_v02 = Some (qmiLocQueryAonConfigReqMsgT_v02, 7, [])"
  by (simp add: qmiLocQueryAonConfigReqMsgT_data_v02_def qmiLocQueryAonConfigReqMsgT_v02_def [THEN arg_cong, of laid] analyse_simps layout_simps cong: idl_cong)

definition qmiLocQueryAonConfigIndMsgT_data_v02 :: "idl_byte list" where
  "qmiLocQueryAonConfigIndMsgT_data_v02 =
    [LIT 0x01, OP [] QMI_IDL_GENERIC_4_BYTE, OFFSET8 qmiLocQueryAonConfigIndMsgT_v02 ''status'',
     TLV [QMI_IDL_TLV_FLAGS_OPTIONAL] (OFFSET8_DIFF qmiLocQueryAonConfigIndMsgT_v02 ''transactionId'' ''transactionId_valid''),
      LIT 0x10, OP [] QMI_IDL_GENERIC_4_BYTE, OFFSET8 qmiLocQueryAonConfigIndMsgT_v02 ''transactionId'',
     TLV [QMI_IDL_TLV_FLAGS_LAST_TLV, QMI_IDL_TLV_FLAGS_OPTIONAL] (OFFSET8_DIFF qmiLocQueryAonConfigIndMsgT_v02 ''aonCapability'' ''aonCapability_valid''),
      LIT 0x11, OP [] QMI_IDL_GENERIC_4_BYTE, OFFSET8 qmiLocQueryAonConfigIndMsgT_v02 ''aonCapability'']"

lemma qmiLocQueryAonConfigIndMsgT_data_v02_ok [idl_simps]:
  "describe_msg qmiLocQueryAonConfigIndMsgT_data_v02 = Some (qmiLocQueryAonConfigIndMsgT_v02, 21, [])"
  by (simp add: qmiLocQueryAonConfigIndMsgT_data_v02_def qmiLocQueryAonConfigIndMsgT_v02_def [THEN arg_cong, of laid] analyse_simps layout_simps cong: idl_cong)

definition qmiLocDeleteGNSSServiceDataReqMsgT_data_v02 :: "idl_byte list" where
  "qmiLocDeleteGNSSServiceDataReqMsgT_data_v02 =
    [LIT 0x01, OP [] QMI_IDL_GENERIC_1_BYTE,
      OFFSET8 qmiLocDeleteGNSSServiceDataReqMsgT_v02 ''deleteAllFlag'',
     TLV [QMI_IDL_TLV_FLAGS_OPTIONAL] (OFFSET8_DIFF qmiLocDeleteGNSSServiceDataReqMsgT_v02 ''deleteClockInfoMask'' ''deleteClockInfoMask_valid''),
      LIT 0x10, OP [] QMI_IDL_GENERIC_4_BYTE,
      OFFSET8 qmiLocDeleteGNSSServiceDataReqMsgT_v02 ''deleteClockInfoMask'',
     TLV [QMI_IDL_TLV_FLAGS_OPTIONAL] (OFFSET8_DIFF qmiLocDeleteGNSSServiceDataReqMsgT_v02 ''deleteCellDbDataMask'' ''deleteCellDbDataMask_valid''),
      LIT 0x11, OP [] QMI_IDL_GENERIC_4_BYTE,
      OFFSET8 qmiLocDeleteGNSSServiceDataReqMsgT_v02 ''deleteCellDbDataMask'',
     TLV [QMI_IDL_TLV_FLAGS_OPTIONAL] (OFFSET8_DIFF qmiLocDeleteGNSSServiceDataReqMsgT_v02 ''deleteCommonDataMask'' ''deleteCommonDataMask_valid''),
      LIT 0x12, OP [] QMI_IDL_GENERIC_4_BYTE,
      OFFSET8 qmiLocDeleteGNSSServiceDataReqMsgT_v02 ''deleteCommonDataMask'',
     TLV [QMI_IDL_TLV_FLAGS_OPTIONAL] (OFFSET8_DIFF qmiLocDeleteGNSSServiceDataReqMsgT_v02 ''deleteSatelliteData'' ''deleteSatelliteData_valid''),
      LIT 0x13, OP [] QMI_IDL_AGGREGATE,
      OFFSET8 qmiLocDeleteGNSSServiceDataReqMsgT_v02 ''deleteSatelliteData'', TYPE88 0 73,
     TLV [QMI_IDL_TLV_FLAGS_LAST_TLV, QMI_IDL_TLV_FLAGS_OPTIONAL] (OFFSET8_DIFF qmiLocDeleteGNSSServiceDataReqMsgT_v02 ''deleteExtClockInfoMask'' ''deleteExtClockInfoMask_valid''),
      LIT 0x14, OP [] QMI_IDL_GENERIC_8_BYTE,
      OFFSET8 qmiLocDeleteGNSSServiceDataReqMsgT_v02 ''deleteExtClockInfoMask'']"

lemma qmiLocDeleteGNSSServiceDataReqMsgT_data_v02_ok [idl_simps]:
  "describe_msg qmiLocDeleteGNSSServiceDataReqMsgT_data_v02 = Some (qmiLocDeleteGNSSServiceDataReqMsgT_v02, 39, [(1, (0, 73), qmiLocDeleteSatelliteDataStructT_v02)])"
  by (simp add: qmiLocDeleteGNSSServiceDataReqMsgT_data_v02_def qmiLocDeleteGNSSServiceDataReqMsgT_v02_def [THEN arg_cong, of laid] analyse_simps layout_simps cong: idl_cong)

definition qmiLocDeleteGNSSServiceDataIndMsgT_data_v02 :: "idl_byte list" where
  "qmiLocDeleteGNSSServiceDataIndMsgT_data_v02 =
    [TLV [QMI_IDL_TLV_FLAGS_LAST_TLV] (LIT 0x01), OP [] QMI_IDL_GENERIC_4_BYTE,
      OFFSET8 qmiLocDeleteGNSSServiceDataIndMsgT_v02 ''status'']"

lemma qmiLocDeleteGNSSServiceDataIndMsgT_data_v02_ok [idl_simps]:
  "describe_msg qmiLocDeleteGNSSServiceDataIndMsgT_data_v02 = Some (qmiLocDeleteGNSSServiceDataIndMsgT_v02, 7, [])"
  by (simp add: qmiLocDeleteGNSSServiceDataIndMsgT_data_v02_def qmiLocDeleteGNSSServiceDataIndMsgT_v02_def [THEN arg_cong, of laid] analyse_simps layout_simps cong: idl_cong)

definition qmiLocInjectXtraDataReqMsgT_data_v02 :: "idl_byte list" where
  "qmiLocInjectXtraDataReqMsgT_data_v02 =
    [LIT 0x01, OP [] QMI_IDL_GENERIC_4_BYTE, OFFSET8 qmiLocInjectXtraDataReqMsgT_v02 ''totalSize'',
     LIT 0x02, OP [] QMI_IDL_GENERIC_2_BYTE, OFFSET8 qmiLocInjectXtraDataReqMsgT_v02 ''totalParts'',
     LIT 0x03, OP [] QMI_IDL_GENERIC_2_BYTE, OFFSET8 qmiLocInjectXtraDataReqMsgT_v02 ''partNum'',
     LIT 0x04,
      OP [QMI_IDL_FLAGS_IS_ARRAY, QMI_IDL_FLAGS_IS_VARIABLE_LEN, QMI_IDL_FLAGS_SZ_IS_16] QMI_IDL_GENERIC_1_BYTE,
      OFFSET8 qmiLocInjectXtraDataReqMsgT_v02 ''partData'', LO8 QMI_LOC_MAX_XTRA_PART_LEN_V02,
      HI8 QMI_LOC_MAX_XTRA_PART_LEN_V02,
      OFFSET8_DIFF qmiLocInjectXtraDataReqMsgT_v02 ''partData'' ''partData_len'',
     TLV [QMI_IDL_TLV_FLAGS_LAST_TLV, QMI_IDL_TLV_FLAGS_OPTIONAL] (OFFSET16_DIFF qmiLocInjectXtraDataReqMsgT_v02 ''formatType'' ''formatType_valid''),
      LIT 0x10, OP [QMI_IDL_FLAGS_OFFSET_IS_16] QMI_IDL_GENERIC_4_BYTE,
      OFFSET16ARRAY qmiLocInjectXtraDataReqMsgT_v02 ''formatType'']"

lemma qmiLocInjectXtraDataReqMsgT_data_v02_ok [idl_simps]:
  "describe_msg qmiLocInjectXtraDataReqMsgT_data_v02 = Some (qmiLocInjectXtraDataReqMsgT_v02, 1053, [])"
  by (simp add: qmiLocInjectXtraDataReqMsgT_data_v02_def qmiLocInjectXtraDataReqMsgT_v02_def [THEN arg_cong, of laid] analyse_simps layout_simps cong: idl_cong)

definition qmiLocInjectXtraDataIndMsgT_data_v02 :: "idl_byte list" where
  "qmiLocInjectXtraDataIndMsgT_data_v02 =
    [LIT 0x01, OP [] QMI_IDL_GENERIC_4_BYTE, OFFSET8 qmiLocInjectXtraDataIndMsgT_v02 ''status'',
     TLV [QMI_IDL_TLV_FLAGS_OPTIONAL] (OFFSET8_DIFF qmiLocInjectXtraDataIndMsgT_v02 ''partNum'' ''partNum_valid''),
      LIT 0x10, OP [] QMI_IDL_GENERIC_2_BYTE, OFFSET8 qmiLocInjectXtraDataIndMsgT_v02 ''partNum'',
     TLV [QMI_IDL_TLV_FLAGS_LAST_TLV, QMI_IDL_TLV_FLAGS_OPTIONAL] (OFFSET8_DIFF qmiLocInjectXtraDataIndMsgT_v02 ''ConstellationMask'' ''ConstellationMask_valid''),
      LIT 0x11, OP [] QMI_IDL_GENERIC_8_BYTE,
      OFFSET8 qmiLocInjectXtraDataIndMsgT_v02 ''ConstellationMask'']"

lemma qmiLocInjectXtraDataIndMsgT_data_v02_ok [idl_simps]:
  "describe_msg qmiLocInjectXtraDataIndMsgT_data_v02 = Some (qmiLocInjectXtraDataIndMsgT_v02, 23, [])"
  by (simp add: qmiLocInjectXtraDataIndMsgT_data_v02_def qmiLocInjectXtraDataIndMsgT_v02_def [THEN arg_cong, of laid] analyse_simps layout_simps cong: idl_cong)

definition qmiLocInjectXtraPcidReqMsgT_data_v02 :: "idl_byte list" where
  "qmiLocInjectXtraPcidReqMsgT_data_v02 =
    [TLV [QMI_IDL_TLV_FLAGS_LAST_TLV] (LIT 0x01), OP [] QMI_IDL_GENERIC_8_BYTE,
      OFFSET8 qmiLocInjectXtraPcidReqMsgT_v02 ''xtraPcid'']"

lemma qmiLocInjectXtraPcidReqMsgT_data_v02_ok [idl_simps]:
  "describe_msg qmiLocInjectXtraPcidReqMsgT_data_v02 = Some (qmiLocInjectXtraPcidReqMsgT_v02, 11, [])"
  by (simp add: qmiLocInjectXtraPcidReqMsgT_data_v02_def qmiLocInjectXtraPcidReqMsgT_v02_def [THEN arg_cong, of laid] analyse_simps layout_simps cong: idl_cong)

definition qmiLocInjectXtraPcidIndMsgT_data_v02 :: "idl_byte list" where
  "qmiLocInjectXtraPcidIndMsgT_data_v02 =
    [TLV [QMI_IDL_TLV_FLAGS_LAST_TLV] (LIT 0x01), OP [] QMI_IDL_GENERIC_4_BYTE,
      OFFSET8 qmiLocInjectXtraPcidIndMsgT_v02 ''status'']"

lemma qmiLocInjectXtraPcidIndMsgT_data_v02_ok [idl_simps]:
  "describe_msg qmiLocInjectXtraPcidIndMsgT_data_v02 = Some (qmiLocInjectXtraPcidIndMsgT_v02, 7, [])"
  by (simp add: qmiLocInjectXtraPcidIndMsgT_data_v02_def qmiLocInjectXtraPcidIndMsgT_v02_def [THEN arg_cong, of laid] analyse_simps layout_simps cong: idl_cong)

definition qmiLocGetSupportedFeatureIndMsgT_data_v02 :: "idl_byte list" where
  "qmiLocGetSupportedFeatureIndMsgT_data_v02 =
    [LIT 0x01, OP [] QMI_IDL_GENERIC_4_BYTE, OFFSET8 qmiLocGetSupportedFeatureIndMsgT_v02 ''status'',
     LIT 0x02, OP [QMI_IDL_FLAGS_IS_ARRAY, QMI_IDL_FLAGS_IS_VARIABLE_LEN] QMI_IDL_GENERIC_1_BYTE,
      OFFSET8 qmiLocGetSupportedFeatureIndMsgT_v02 ''feature'',
      LIT QMI_LOC_SUPPORTED_FEATURE_LENGTH_V02,
      OFFSET8_DIFF qmiLocGetSupportedFeatureIndMsgT_v02 ''feature'' ''feature_len'',
     TLV [QMI_IDL_TLV_FLAGS_LAST_TLV, QMI_IDL_TLV_FLAGS_OPTIONAL] (OFFSET8_DIFF qmiLocGetSupportedFeatureIndMsgT_v02 ''featureStatusReport'' ''featureStatusReport_valid''),
      LIT 0x10, OP [] QMI_IDL_GENERIC_8_BYTE,
      OFFSET8 qmiLocGetSupportedFeatureIndMsgT_v02 ''featureStatusReport'']"

lemma qmiLocGetSupportedFeatureIndMsgT_data_v02_ok [idl_simps]:
  "describe_msg qmiLocGetSupportedFeatureIndMsgT_data_v02 = Some (qmiLocGetSupportedFeatureIndMsgT_v02, 122, [])"
  by (simp add: qmiLocGetSupportedFeatureIndMsgT_data_v02_def qmiLocGetSupportedFeatureIndMsgT_v02_def [THEN arg_cong, of laid] analyse_simps layout_simps cong: idl_cong)

definition qmiLocSetInternalStatusConfigReqMsgT_data_v02 :: "idl_byte list" where
  "qmiLocSetInternalStatusConfigReqMsgT_data_v02 =
    [TLV [QMI_IDL_TLV_FLAGS_LAST_TLV] (LIT 0x01), OP [] QMI_IDL_GENERIC_1_BYTE,
      OFFSET8 qmiLocSetInternalStatusConfigReqMsgT_v02 ''config'']"

lemma qmiLocSetInternalStatusConfigReqMsgT_data_v02_ok [idl_simps]:
  "describe_msg qmiLocSetInternalStatusConfigReqMsgT_data_v02 = Some (qmiLocSetInternalStatusConfigReqMsgT_v02, 4, [])"
  by (simp add: qmiLocSetInternalStatusConfigReqMsgT_data_v02_def qmiLocSetInternalStatusConfigReqMsgT_v02_def [THEN arg_cong, of laid] analyse_simps layout_simps cong: idl_cong)

definition qmiLocSetInternalStatusConfigIndMsgT_data_v02 :: "idl_byte list" where
  "qmiLocSetInternalStatusConfigIndMsgT_data_v02 =
    [TLV [QMI_IDL_TLV_FLAGS_LAST_TLV] (LIT 0x01), OP [] QMI_IDL_GENERIC_4_BYTE,
      OFFSET8 qmiLocSetInternalStatusConfigIndMsgT_v02 ''status'']"

lemma qmiLocSetInternalStatusConfigIndMsgT_data_v02_ok [idl_simps]:
  "describe_msg qmiLocSetInternalStatusConfigIndMsgT_data_v02 = Some (qmiLocSetInternalStatusConfigIndMsgT_v02, 7, [])"
  by (simp add: qmiLocSetInternalStatusConfigIndMsgT_data_v02_def qmiLocSetInternalStatusConfigIndMsgT_v02_def [THEN arg_cong, of laid] analyse_simps layout_simps cong: idl_cong)

definition qmiLocEventInternalStatusReportIndMsgT_data_v02 :: "idl_byte list" where
  "qmiLocEventInternalStatusReportIndMsgT_data_v02 =
    [TLV [QMI_IDL_TLV_FLAGS_LAST_TLV] (LIT 0x01),
      OP [QMI_IDL_FLAGS_IS_ARRAY, QMI_IDL_FLAGS_IS_VARIABLE_LEN] QMI_IDL_AGGREGATE,
      OFFSET8 qmiLocEventInternalStatusReportIndMsgT_v02 ''reportData'',
      LIT QMI_LOC_INTERNAL_STATUS_MAX_LIST_SIZE_V02,
      OFFSET8_DIFF qmiLocEventInternalStatusReportIndMsgT_v02 ''reportData'' ''reportData_len'',
      TYPE88 0 74]"

lemma qmiLocEventInternalStatusReportIndMsgT_data_v02_ok [idl_simps]:
  "describe_msg qmiLocEventInternalStatusReportIndMsgT_data_v02 = Some (qmiLocEventInternalStatusReportIndMsgT_v02, 4, [(67, (0, 74), qmiLocInternalStatusReportDataStructT_v02)])"
  by (simp add: qmiLocEventInternalStatusReportIndMsgT_data_v02_def qmiLocEventInternalStatusReportIndMsgT_v02_def [THEN arg_cong, of laid] analyse_simps layout_simps cong: idl_cong)

definition qmiLocEventInjectSrnApDataReqIndMsgT_data_v02 :: "idl_byte list" where
  "qmiLocEventInjectSrnApDataReqIndMsgT_data_v02 =
    [LIT 0x01, OP [] QMI_IDL_GENERIC_4_BYTE,
      OFFSET8 qmiLocEventInjectSrnApDataReqIndMsgT_v02 ''srnTechMask'',
     LIT 0x02, OP [] QMI_IDL_GENERIC_1_BYTE,
      OFFSET8 qmiLocEventInjectSrnApDataReqIndMsgT_v02 ''srnRequest'',
     TLV [QMI_IDL_TLV_FLAGS_OPTIONAL] (OFFSET8_DIFF qmiLocEventInjectSrnApDataReqIndMsgT_v02 ''e911Mode'' ''e911Mode_valid''),
      LIT 0x10, OP [] QMI_IDL_GENERIC_1_BYTE,
      OFFSET8 qmiLocEventInjectSrnApDataReqIndMsgT_v02 ''e911Mode'',
     TLV [QMI_IDL_TLV_FLAGS_LAST_TLV, QMI_IDL_TLV_FLAGS_OPTIONAL] (OFFSET8_DIFF qmiLocEventInjectSrnApDataReqIndMsgT_v02 ''srnApMacAddrType'' ''srnApMacAddrType_valid''),
      LIT 0x11, OP [] QMI_IDL_GENERIC_4_BYTE,
      OFFSET8 qmiLocEventInjectSrnApDataReqIndMsgT_v02 ''srnApMacAddrType'']"

lemma qmiLocEventInjectSrnApDataReqIndMsgT_data_v02_ok [idl_simps]:
  "describe_msg qmiLocEventInjectSrnApDataReqIndMsgT_data_v02 = Some (qmiLocEventInjectSrnApDataReqIndMsgT_v02, 22, [])"
  by (simp add: qmiLocEventInjectSrnApDataReqIndMsgT_data_v02_def qmiLocEventInjectSrnApDataReqIndMsgT_v02_def [THEN arg_cong, of laid] analyse_simps layout_simps cong: idl_cong)

definition qmiLocInjectSrnApDataReqMsgT_data_v02 :: "idl_byte list" where
  "qmiLocInjectSrnApDataReqMsgT_data_v02 =
    [LIT 0x01, OP [] QMI_IDL_GENERIC_4_BYTE,
      OFFSET8 qmiLocInjectSrnApDataReqMsgT_v02 ''apDeviceTechType'',
     TLV [QMI_IDL_TLV_FLAGS_OPTIONAL] (OFFSET8_DIFF qmiLocInjectSrnApDataReqMsgT_v02 ''srnBtleApInfo'' ''srnBtleApInfo_valid''),
      LIT 0x10, OP [QMI_IDL_FLAGS_IS_ARRAY, QMI_IDL_FLAGS_IS_VARIABLE_LEN] QMI_IDL_AGGREGATE,
      OFFSET8 qmiLocInjectSrnApDataReqMsgT_v02 ''srnBtleApInfo'',
      LIT QMI_LOC_SRN_MAX_REPORTED_APS_PER_MSG_V02,
      OFFSET8_DIFF qmiLocInjectSrnApDataReqMsgT_v02 ''srnBtleApInfo'' ''srnBtleApInfo_len'', TYPE88 0 75,
     TLV [QMI_IDL_TLV_FLAGS_OPTIONAL] (OFFSET16_DIFF qmiLocInjectSrnApDataReqMsgT_v02 ''requestTimestamp'' ''requestTimestamp_valid''),
      LIT 0x11, OP [QMI_IDL_FLAGS_OFFSET_IS_16] QMI_IDL_GENERIC_8_BYTE,
      OFFSET16ARRAY qmiLocInjectSrnApDataReqMsgT_v02 ''requestTimestamp'',
     TLV [QMI_IDL_TLV_FLAGS_OPTIONAL] (OFFSET16_DIFF qmiLocInjectSrnApDataReqMsgT_v02 ''receiveTimestamp'' ''receiveTimestamp_valid''),
      LIT 0x12, OP [QMI_IDL_FLAGS_OFFSET_IS_16] QMI_IDL_GENERIC_8_BYTE,
      OFFSET16ARRAY qmiLocInjectSrnApDataReqMsgT_v02 ''receiveTimestamp'',
     TLV [QMI_IDL_TLV_FLAGS_LAST_TLV, QMI_IDL_TLV_FLAGS_OPTIONAL] (OFFSET16_DIFF qmiLocInjectSrnApDataReqMsgT_v02 ''errorCause'' ''errorCause_valid''),
      LIT 0x13, OP [QMI_IDL_FLAGS_OFFSET_IS_16] QMI_IDL_GENERIC_4_BYTE,
      OFFSET16ARRAY qmiLocInjectSrnApDataReqMsgT_v02 ''errorCause'']"

lemma qmiLocInjectSrnApDataReqMsgT_data_v02_ok [idl_simps]:
  "describe_msg qmiLocInjectSrnApDataReqMsgT_data_v02 = Some (qmiLocInjectSrnApDataReqMsgT_v02, 40, [(64, (0, 75), qmiLocSrnBtleApDeviceDataStructT_v02)])"
  by (simp add: qmiLocInjectSrnApDataReqMsgT_data_v02_def qmiLocInjectSrnApDataReqMsgT_v02_def [THEN arg_cong, of laid] analyse_simps layout_simps cong: idl_cong)

definition qmiLocInjectSrnApDataIndMsgT_data_v02 :: "idl_byte list" where
  "qmiLocInjectSrnApDataIndMsgT_data_v02 =
    [TLV [QMI_IDL_TLV_FLAGS_LAST_TLV] (LIT 0x01), OP [] QMI_IDL_GENERIC_4_BYTE,
      OFFSET8 qmiLocInjectSrnApDataIndMsgT_v02 ''status'']"

lemma qmiLocInjectSrnApDataIndMsgT_data_v02_ok [idl_simps]:
  "describe_msg qmiLocInjectSrnApDataIndMsgT_data_v02 = Some (qmiLocInjectSrnApDataIndMsgT_v02, 7, [])"
  by (simp add: qmiLocInjectSrnApDataIndMsgT_data_v02_def qmiLocInjectSrnApDataIndMsgT_v02_def [THEN arg_cong, of laid] analyse_simps layout_simps cong: idl_cong)

definition qmiLocCrowdSourceManagerControlReqMsgT_data_v02 :: "idl_byte list" where
  "qmiLocCrowdSourceManagerControlReqMsgT_data_v02 =
    [TLV [QMI_IDL_TLV_FLAGS_OPTIONAL] (OFFSET8_DIFF qmiLocCrowdSourceManagerControlReqMsgT_v02 ''enableCrowdSourcingMask'' ''enableCrowdSourcingMask_valid''),
      LIT 0x10, OP [] QMI_IDL_GENERIC_4_BYTE,
      OFFSET8 qmiLocCrowdSourceManagerControlReqMsgT_v02 ''enableCrowdSourcingMask'',
     TLV [QMI_IDL_TLV_FLAGS_OPTIONAL] (OFFSET8_DIFF qmiLocCrowdSourceManagerControlReqMsgT_v02 ''wifiCrowdSourcingLocalConfig'' ''wifiCrowdSourcingLocalConfig_valid''),
      LIT 0x11, OP [] QMI_IDL_AGGREGATE,
      OFFSET8 qmiLocCrowdSourceManagerControlReqMsgT_v02 ''wifiCrowdSourcingLocalConfig'', TYPE88 0 76,
     TLV [QMI_IDL_TLV_FLAGS_OPTIONAL] (OFFSET8_DIFF qmiLocCrowdSourceManagerControlReqMsgT_v02 ''wifiCrowdSourcingServerConfig'' ''wifiCrowdSourcingServerConfig_valid''),
      LIT 0x12,
      OP [QMI_IDL_FLAGS_IS_ARRAY, QMI_IDL_FLAGS_IS_VARIABLE_LEN, QMI_IDL_FLAGS_SZ_IS_16] QMI_IDL_GENERIC_1_BYTE,
      OFFSET8 qmiLocCrowdSourceManagerControlReqMsgT_v02 ''wifiCrowdSourcingServerConfig'',
      LO8 QMI_LOC_MAX_WIFI_CROWDSOURCING_SERVER_CONFIG_LEN_V02,
      HI8 QMI_LOC_MAX_WIFI_CROWDSOURCING_SERVER_CONFIG_LEN_V02,
      OFFSET8_DIFF qmiLocCrowdSourceManagerControlReqMsgT_v02 ''wifiCrowdSourcingServerConfig'' ''wifiCrowdSourcingServerConfig_len'',
     TLV [QMI_IDL_TLV_FLAGS_LAST_TLV, QMI_IDL_TLV_FLAGS_OPTIONAL] (OFFSET16_DIFF qmiLocCrowdSourceManagerControlReqMsgT_v02 ''enableSourceMask'' ''enableSourceMask_valid''),
      LIT 0x13, OP [QMI_IDL_FLAGS_OFFSET_IS_16] QMI_IDL_GENERIC_4_BYTE,
      OFFSET16ARRAY qmiLocCrowdSourceManagerControlReqMsgT_v02 ''enableSourceMask'']"

lemma qmiLocCrowdSourceManagerControlReqMsgT_data_v02_ok [idl_simps]:
  "describe_msg qmiLocCrowdSourceManagerControlReqMsgT_data_v02 = Some (qmiLocCrowdSourceManagerControlReqMsgT_v02, 534, [(1, (0, 76), qmiLocWifiCrowdSourcingLocalConfigStructT_v02)])"
  by (simp add: qmiLocCrowdSourceManagerControlReqMsgT_data_v02_def qmiLocCrowdSourceManagerControlReqMsgT_v02_def [THEN arg_cong, of laid] analyse_simps layout_simps cong: idl_cong)

definition qmiLocCrowdSourceManagerControlIndMsgT_data_v02 :: "idl_byte list" where
  "qmiLocCrowdSourceManagerControlIndMsgT_data_v02 =
    [LIT 0x01, OP [] QMI_IDL_GENERIC_4_BYTE,
      OFFSET8 qmiLocCrowdSourceManagerControlIndMsgT_v02 ''status'',
     TLV [QMI_IDL_TLV_FLAGS_OPTIONAL] (OFFSET8_DIFF qmiLocCrowdSourceManagerControlIndMsgT_v02 ''supportedCrowdSourcingMask'' ''supportedCrowdSourcingMask_valid''),
      LIT 0x10, OP [] QMI_IDL_GENERIC_4_BYTE,
      OFFSET8 qmiLocCrowdSourceManagerControlIndMsgT_v02 ''supportedCrowdSourcingMask'',
     TLV [QMI_IDL_TLV_FLAGS_OPTIONAL] (OFFSET8_DIFF qmiLocCrowdSourceManagerControlIndMsgT_v02 ''wifiCrowdSourcingCapabaility'' ''wifiCrowdSourcingCapabaility_valid''),
      LIT 0x11, OP [] QMI_IDL_AGGREGATE,
      OFFSET8 qmiLocCrowdSourceManagerControlIndMsgT_v02 ''wifiCrowdSourcingCapabaility'', TYPE88 0 77,
     TLV [QMI_IDL_TLV_FLAGS_LAST_TLV, QMI_IDL_TLV_FLAGS_OPTIONAL] (OFFSET8_DIFF qmiLocCrowdSourceManagerControlIndMsgT_v02 ''modemClientInfo'' ''modemClientInfo_valid''),
      LIT 0x12,
      OP [QMI_IDL_FLAGS_IS_ARRAY, QMI_IDL_FLAGS_IS_VARIABLE_LEN, QMI_IDL_FLAGS_SZ_IS_16] QMI_IDL_GENERIC_1_BYTE,
      OFFSET8 qmiLocCrowdSourceManagerControlIndMsgT_v02 ''modemClientInfo'',
      LO8 QMI_LOC_MAX_CROWDSOURCING_MODEM_CLIENT_INFO_LEN_V02,
      HI8 QMI_LOC_MAX_CROWDSOURCING_MODEM_CLIENT_INFO_LEN_V02,
      OFFSET8_DIFF qmiLocCrowdSourceManagerControlIndMsgT_v02 ''modemClientInfo'' ''modemClientInfo_len'']"

lemma qmiLocCrowdSourceManagerControlIndMsgT_data_v02_ok [idl_simps]:
  "describe_msg qmiLocCrowdSourceManagerControlIndMsgT_data_v02 = Some (qmiLocCrowdSourceManagerControlIndMsgT_v02, 534, [(1, (0, 77), qmiLocWifiCrowdSourcingCapabilityStructT_v02)])"
  by (simp add: qmiLocCrowdSourceManagerControlIndMsgT_data_v02_def qmiLocCrowdSourceManagerControlIndMsgT_v02_def [THEN arg_cong, of laid] analyse_simps layout_simps cong: idl_cong)

definition qmiLocCrowdSourceManagerReadDataReqMsgT_data_v02 :: "idl_byte list" where
  "qmiLocCrowdSourceManagerReadDataReqMsgT_data_v02 =
    [TLV [QMI_IDL_TLV_FLAGS_LAST_TLV, QMI_IDL_TLV_FLAGS_OPTIONAL] (OFFSET8_DIFF qmiLocCrowdSourceManagerReadDataReqMsgT_v02 ''crowdSourcingTechMask'' ''crowdSourcingTechMask_valid''),
      LIT 0x10, OP [] QMI_IDL_GENERIC_4_BYTE,
      OFFSET8 qmiLocCrowdSourceManagerReadDataReqMsgT_v02 ''crowdSourcingTechMask'']"

lemma qmiLocCrowdSourceManagerReadDataReqMsgT_data_v02_ok [idl_simps]:
  "describe_msg qmiLocCrowdSourceManagerReadDataReqMsgT_data_v02 = Some (qmiLocCrowdSourceManagerReadDataReqMsgT_v02, 7, [])"
  by (simp add: qmiLocCrowdSourceManagerReadDataReqMsgT_data_v02_def qmiLocCrowdSourceManagerReadDataReqMsgT_v02_def [THEN arg_cong, of laid] analyse_simps layout_simps cong: idl_cong)

definition qmiLocQueryXtraInfoReqMsgT_data_v02 :: "idl_byte list" where
  "qmiLocQueryXtraInfoReqMsgT_data_v02 =
    [LIT 0x01, OP [] QMI_IDL_GENERIC_4_BYTE, OFFSET8 qmiLocQueryXtraInfoReqMsgT_v02 ''xtraConfig'',
     TLV [QMI_IDL_TLV_FLAGS_LAST_TLV, QMI_IDL_TLV_FLAGS_OPTIONAL] (OFFSET8_DIFF qmiLocQueryXtraInfoReqMsgT_v02 ''xcVersion'' ''xcVersion_valid''),
      LIT 0x10, OP [] QMI_IDL_AGGREGATE, OFFSET8 qmiLocQueryXtraInfoReqMsgT_v02 ''xcVersion'',
      TYPE88 0 79]"

lemma qmiLocQueryXtraInfoReqMsgT_data_v02_ok [idl_simps]:
  "describe_msg qmiLocQueryXtraInfoReqMsgT_data_v02 = Some (qmiLocQueryXtraInfoReqMsgT_v02, 10, [(1, (0, 79), qmiLocVersionStructT_v02)])"
  by (simp add: qmiLocQueryXtraInfoReqMsgT_data_v02_def qmiLocQueryXtraInfoReqMsgT_v02_def [THEN arg_cong, of laid] analyse_simps layout_simps cong: idl_cong)

definition qmiLocQueryXtraInfoIndMsgT_data_v02 :: "idl_byte list" where
  "qmiLocQueryXtraInfoIndMsgT_data_v02 =
    [LIT 0x01, OP [] QMI_IDL_GENERIC_4_BYTE, OFFSET8 qmiLocQueryXtraInfoIndMsgT_v02 ''status'',
     LIT 0x02, OP [] QMI_IDL_AGGREGATE, OFFSET8 qmiLocQueryXtraInfoIndMsgT_v02 ''xtraInfo'',
      TYPE88 0 78,
     TLV [QMI_IDL_TLV_FLAGS_LAST_TLV, QMI_IDL_TLV_FLAGS_OPTIONAL] (OFFSET16_DIFF qmiLocQueryXtraInfoIndMsgT_v02 ''mpVersion'' ''mpVersion_valid''),
      LIT 0x10, OP [QMI_IDL_FLAGS_OFFSET_IS_16] QMI_IDL_AGGREGATE,
      OFFSET16ARRAY qmiLocQueryXtraInfoIndMsgT_v02 ''mpVersion'', TYPE88 0 79]"

lemma qmiLocQueryXtraInfoIndMsgT_data_v02_ok [idl_simps]:
  "describe_msg qmiLocQueryXtraInfoIndMsgT_data_v02 = Some (qmiLocQueryXtraInfoIndMsgT_v02, 13, [(1, (0, 78), qmiLocXtraInfoStructT_v02), (1, (0, 79), qmiLocVersionStructT_v02)])"
  by (simp add: qmiLocQueryXtraInfoIndMsgT_data_v02_def qmiLocQueryXtraInfoIndMsgT_v02_def [THEN arg_cong, of laid] analyse_simps layout_simps cong: idl_cong)

definition qmiLocStartOutdoorTripBatchingReqMsgT_data_v02 :: "idl_byte list" where
  "qmiLocStartOutdoorTripBatchingReqMsgT_data_v02 =
    [LIT 0x01, OP [] QMI_IDL_GENERIC_4_BYTE,
      OFFSET8 qmiLocStartOutdoorTripBatchingReqMsgT_v02 ''batchDistance'',
     LIT 0x02, OP [] QMI_IDL_GENERIC_4_BYTE,
      OFFSET8 qmiLocStartOutdoorTripBatchingReqMsgT_v02 ''minTimeInterval'',
     TLV [QMI_IDL_TLV_FLAGS_OPTIONAL] (OFFSET8_DIFF qmiLocStartOutdoorTripBatchingReqMsgT_v02 ''fixSessionTimeout'' ''fixSessionTimeout_valid''),
      LIT 0x10, OP [] QMI_IDL_GENERIC_4_BYTE,
      OFFSET8 qmiLocStartOutdoorTripBatchingReqMsgT_v02 ''fixSessionTimeout'',
     TLV [QMI_IDL_TLV_FLAGS_LAST_TLV, QMI_IDL_TLV_FLAGS_OPTIONAL] (OFFSET8_DIFF qmiLocStartOutdoorTripBatchingReqMsgT_v02 ''batchAllPos'' ''batchAllPos_valid''),
      LIT 0x11, OP [] QMI_IDL_GENERIC_1_BYTE,
      OFFSET8 qmiLocStartOutdoorTripBatchingReqMsgT_v02 ''batchAllPos'']"

lemma qmiLocStartOutdoorTripBatchingReqMsgT_data_v02_ok [idl_simps]:
  "describe_msg qmiLocStartOutdoorTripBatchingReqMsgT_data_v02 = Some (qmiLocStartOutdoorTripBatchingReqMsgT_v02, 25, [])"
  by (simp add: qmiLocStartOutdoorTripBatchingReqMsgT_data_v02_def qmiLocStartOutdoorTripBatchingReqMsgT_v02_def [THEN arg_cong, of laid] analyse_simps layout_simps cong: idl_cong)

definition qmiLocStartOutdoorTripBatchingIndMsgT_data_v02 :: "idl_byte list" where
  "qmiLocStartOutdoorTripBatchingIndMsgT_data_v02 =
    [TLV [QMI_IDL_TLV_FLAGS_LAST_TLV] (LIT 0x01), OP [] QMI_IDL_GENERIC_4_BYTE,
      OFFSET8 qmiLocStartOutdoorTripBatchingIndMsgT_v02 ''status'']"

lemma qmiLocStartOutdoorTripBatchingIndMsgT_data_v02_ok [idl_simps]:
  "describe_msg qmiLocStartOutdoorTripBatchingIndMsgT_data_v02 = Some (qmiLocStartOutdoorTripBatchingIndMsgT_v02, 7, [])"
  by (simp add: qmiLocStartOutdoorTripBatchingIndMsgT_data_v02_def qmiLocStartOutdoorTripBatchingIndMsgT_v02_def [THEN arg_cong, of laid] analyse_simps layout_simps cong: idl_cong)

definition qmiLocQueryOTBAccumulatedDistanceIndMsgT_data_v02 :: "idl_byte list" where
  "qmiLocQueryOTBAccumulatedDistanceIndMsgT_data_v02 =
    [LIT 0x01, OP [] QMI_IDL_GENERIC_4_BYTE,
      OFFSET8 qmiLocQueryOTBAccumulatedDistanceIndMsgT_v02 ''status'',
     LIT 0x02, OP [] QMI_IDL_GENERIC_4_BYTE,
      OFFSET8 qmiLocQueryOTBAccumulatedDistanceIndMsgT_v02 ''accumulatedDistance'',
     TLV [QMI_IDL_TLV_FLAGS_LAST_TLV] (LIT 0x03), OP [] QMI_IDL_GENERIC_4_BYTE,
      OFFSET8 qmiLocQueryOTBAccumulatedDistanceIndMsgT_v02 ''batchedPosition'']"

lemma qmiLocQueryOTBAccumulatedDistanceIndMsgT_data_v02_ok [idl_simps]:
  "describe_msg qmiLocQueryOTBAccumulatedDistanceIndMsgT_data_v02 = Some (qmiLocQueryOTBAccumulatedDistanceIndMsgT_v02, 21, [])"
  by (simp add: qmiLocQueryOTBAccumulatedDistanceIndMsgT_data_v02_def qmiLocQueryOTBAccumulatedDistanceIndMsgT_v02_def [THEN arg_cong, of laid] analyse_simps layout_simps cong: idl_cong)

definition qmiLocEventFdclServiceReqIndMsgT_data_v02 :: "idl_byte list" where
  "qmiLocEventFdclServiceReqIndMsgT_data_v02 =
    [TLV [QMI_IDL_TLV_FLAGS_OPTIONAL] (OFFSET8_DIFF qmiLocEventFdclServiceReqIndMsgT_v02 ''gtpClientSwVer'' ''gtpClientSwVer_valid''),
      LIT 0x10, OP [] QMI_IDL_AGGREGATE,
      OFFSET8 qmiLocEventFdclServiceReqIndMsgT_v02 ''gtpClientSwVer'', TYPE88 0 80,
     TLV [QMI_IDL_TLV_FLAGS_OPTIONAL] (OFFSET8_DIFF qmiLocEventFdclServiceReqIndMsgT_v02 ''modemSwVersion'' ''modemSwVersion_valid''),
      LIT 0x11, OP [QMI_IDL_FLAGS_IS_ARRAY, QMI_IDL_FLAGS_IS_VARIABLE_LEN] QMI_IDL_STRING,
      OFFSET8 qmiLocEventFdclServiceReqIndMsgT_v02 ''modemSwVersion'',
      LIT QMI_LOC_GNSS_SW_VERSION_STRING_MAX_LENGTH_V02,
     TLV [QMI_IDL_TLV_FLAGS_OPTIONAL] (OFFSET16_DIFF qmiLocEventFdclServiceReqIndMsgT_v02 ''homeCarrierId'' ''homeCarrierId_valid''),
      LIT 0x12, OP [QMI_IDL_FLAGS_OFFSET_IS_16] QMI_IDL_AGGREGATE,
      OFFSET16ARRAY qmiLocEventFdclServiceReqIndMsgT_v02 ''homeCarrierId'', TYPE88 0 81,
     TLV [QMI_IDL_TLV_FLAGS_OPTIONAL] (OFFSET16_DIFF qmiLocEventFdclServiceReqIndMsgT_v02 ''cdmaRealm'' ''cdmaRealm_valid''),
      LIT 0x13,
      OP [QMI_IDL_FLAGS_IS_ARRAY, QMI_IDL_FLAGS_IS_VARIABLE_LEN, QMI_IDL_FLAGS_OFFSET_IS_16] QMI_IDL_STRING,
      OFFSET16ARRAY qmiLocEventFdclServiceReqIndMsgT_v02 ''cdmaRealm'',
      LIT QMI_LOC_GNSS_SW_VERSION_STRING_MAX_LENGTH_V02,
     TLV [QMI_IDL_TLV_FLAGS_OPTIONAL] (OFFSET16_DIFF qmiLocEventFdclServiceReqIndMsgT_v02 ''gtpMaxNumRecordsAccepted'' ''gtpMaxNumRecordsAccepted_valid''),
      LIT 0x14, OP [QMI_IDL_FLAGS_OFFSET_IS_16] QMI_IDL_GENERIC_2_BYTE,
      OFFSET16ARRAY qmiLocEventFdclServiceReqIndMsgT_v02 ''gtpMaxNumRecordsAccepted'',
     TLV [QMI_IDL_TLV_FLAGS_OPTIONAL] (OFFSET16_DIFF qmiLocEventFdclServiceReqIndMsgT_v02 ''gpsWeek'' ''gpsWeek_valid''),
      LIT 0x15, OP [QMI_IDL_FLAGS_OFFSET_IS_16] QMI_IDL_GENERIC_2_BYTE,
      OFFSET16ARRAY qmiLocEventFdclServiceReqIndMsgT_v02 ''gpsWeek'',
     TLV [QMI_IDL_TLV_FLAGS_OPTIONAL] (OFFSET16_DIFF qmiLocEventFdclServiceReqIndMsgT_v02 ''gpsMilliseconds'' ''gpsMilliseconds_valid''),
      LIT 0x16, OP [QMI_IDL_FLAGS_OFFSET_IS_16] QMI_IDL_GENERIC_4_BYTE,
      OFFSET16ARRAY qmiLocEventFdclServiceReqIndMsgT_v02 ''gpsMilliseconds'',
     TLV [QMI_IDL_TLV_FLAGS_OPTIONAL] (OFFSET16_DIFF qmiLocEventFdclServiceReqIndMsgT_v02 ''bsBestPosition'' ''bsBestPosition_valid''),
      LIT 0x17, OP [QMI_IDL_FLAGS_OFFSET_IS_16] QMI_IDL_AGGREGATE,
      OFFSET16ARRAY qmiLocEventFdclServiceReqIndMsgT_v02 ''bsBestPosition'', TYPE88 0 83,
     TLV [QMI_IDL_TLV_FLAGS_OPTIONAL] (OFFSET16_DIFF qmiLocEventFdclServiceReqIndMsgT_v02 ''currentCellId'' ''currentCellId_valid''),
      LIT 0x18, OP [QMI_IDL_FLAGS_OFFSET_IS_16] QMI_IDL_AGGREGATE,
      OFFSET16ARRAY qmiLocEventFdclServiceReqIndMsgT_v02 ''currentCellId'', TYPE88 0 84,
     TLV [QMI_IDL_TLV_FLAGS_OPTIONAL] (OFFSET16_DIFF qmiLocEventFdclServiceReqIndMsgT_v02 ''requestedDataTypes'' ''requestedDataTypes_valid''),
      LIT 0x19, OP [QMI_IDL_FLAGS_OFFSET_IS_16] QMI_IDL_GENERIC_1_BYTE,
      OFFSET16ARRAY qmiLocEventFdclServiceReqIndMsgT_v02 ''requestedDataTypes'',
     TLV [QMI_IDL_TLV_FLAGS_LAST_TLV, QMI_IDL_TLV_FLAGS_OPTIONAL] (OFFSET16_DIFF qmiLocEventFdclServiceReqIndMsgT_v02 ''restrictedRegionVersion'' ''restrictedRegionVersion_valid''),
      LIT 0x1A, OP [QMI_IDL_FLAGS_OFFSET_IS_16] QMI_IDL_GENERIC_1_BYTE,
      OFFSET16ARRAY qmiLocEventFdclServiceReqIndMsgT_v02 ''restrictedRegionVersion'']"

lemma qmiLocEventFdclServiceReqIndMsgT_data_v02_ok [idl_simps]:
  "describe_msg qmiLocEventFdclServiceReqIndMsgT_data_v02 = Some (qmiLocEventFdclServiceReqIndMsgT_v02, 553, [(1, (0, 80), qmiLocGtpClientSwVerStructT_v02), (1, (0, 81), qmiLocHomeCarrierIdStructT_v02), (1, (0, 83), qmiLocBsBestPositionStructT_v02), (1, (0, 84), qmiLocFdclCellIdStructT_v02)])"
  by (simp add: qmiLocEventFdclServiceReqIndMsgT_data_v02_def qmiLocEventFdclServiceReqIndMsgT_v02_def [THEN arg_cong, of laid] analyse_simps layout_simps cong: idl_cong)

definition qmiLocGetFdclBsListReqMsgT_data_v02 :: "idl_byte list" where
  "qmiLocGetFdclBsListReqMsgT_data_v02 =
    [TLV [QMI_IDL_TLV_FLAGS_OPTIONAL] (OFFSET8_DIFF qmiLocGetFdclBsListReqMsgT_v02 ''expireInDays'' ''expireInDays_valid''),
      LIT 0x10, OP [] QMI_IDL_GENERIC_4_BYTE, OFFSET8 qmiLocGetFdclBsListReqMsgT_v02 ''expireInDays'',
     TLV [QMI_IDL_TLV_FLAGS_OPTIONAL] (OFFSET8_DIFF qmiLocGetFdclBsListReqMsgT_v02 ''timestampUtc'' ''timestampUtc_valid''),
      LIT 0x11, OP [] QMI_IDL_GENERIC_8_BYTE, OFFSET8 qmiLocGetFdclBsListReqMsgT_v02 ''timestampUtc'',
     TLV [QMI_IDL_TLV_FLAGS_LAST_TLV, QMI_IDL_TLV_FLAGS_OPTIONAL] (OFFSET8_DIFF qmiLocGetFdclBsListReqMsgT_v02 ''maxNumBs'' ''maxNumBs_valid''),
      LIT 0x12, OP [] QMI_IDL_GENERIC_2_BYTE, OFFSET8 qmiLocGetFdclBsListReqMsgT_v02 ''maxNumBs'']"

lemma qmiLocGetFdclBsListReqMsgT_data_v02_ok [idl_simps]:
  "describe_msg qmiLocGetFdclBsListReqMsgT_data_v02 = Some (qmiLocGetFdclBsListReqMsgT_v02, 23, [])"
  by (simp add: qmiLocGetFdclBsListReqMsgT_data_v02_def qmiLocGetFdclBsListReqMsgT_v02_def [THEN arg_cong, of laid] analyse_simps layout_simps cong: idl_cong)

definition qmiLocGetFdclBsListIndMsgT_data_v02 :: "idl_byte list" where
  "qmiLocGetFdclBsListIndMsgT_data_v02 =
    [LIT 0x01, OP [] QMI_IDL_GENERIC_4_BYTE, OFFSET8 qmiLocGetFdclBsListIndMsgT_v02 ''status'',
     LIT 0x02, OP [QMI_IDL_FLAGS_IS_ARRAY, QMI_IDL_FLAGS_IS_VARIABLE_LEN] QMI_IDL_AGGREGATE,
      OFFSET8 qmiLocGetFdclBsListIndMsgT_v02 ''BsList'', LIT QMI_LOC_FDCL_BS_LIST_MAX_SIZE_V02,
      OFFSET8_DIFF qmiLocGetFdclBsListIndMsgT_v02 ''BsList'' ''BsList_len'', TYPE88 0 84,
     TLV [QMI_IDL_TLV_FLAGS_OPTIONAL] (OFFSET16_DIFF qmiLocGetFdclBsListIndMsgT_v02 ''moreBsAvailable'' ''moreBsAvailable_valid''),
      LIT 0x10, OP [QMI_IDL_FLAGS_OFFSET_IS_16] QMI_IDL_GENERIC_1_BYTE,
      OFFSET16ARRAY qmiLocGetFdclBsListIndMsgT_v02 ''moreBsAvailable'',
     TLV [QMI_IDL_TLV_FLAGS_OPTIONAL] (OFFSET16_DIFF qmiLocGetFdclBsListIndMsgT_v02 ''bsLocalTimestampList'' ''bsLocalTimestampList_valid''),
      LIT 0x11,
      OP [QMI_IDL_FLAGS_IS_ARRAY, QMI_IDL_FLAGS_IS_VARIABLE_LEN, QMI_IDL_FLAGS_OFFSET_IS_16] QMI_IDL_GENERIC_4_BYTE,
      OFFSET16ARRAY qmiLocGetFdclBsListIndMsgT_v02 ''bsLocalTimestampList'',
      LIT QMI_LOC_FDCL_BS_LIST_MAX_SIZE_V02,
      OFFSET16_DIFF qmiLocGetFdclBsListIndMsgT_v02 ''bsLocalTimestampList'' ''bsLocalTimestampList_len'',
     TLV [QMI_IDL_TLV_FLAGS_LAST_TLV, QMI_IDL_TLV_FLAGS_OPTIONAL] (OFFSET16_DIFF qmiLocGetFdclBsListIndMsgT_v02 ''bsBestPosition'' ''bsBestPosition_valid''),
      LIT 0x12, OP [QMI_IDL_FLAGS_OFFSET_IS_16] QMI_IDL_AGGREGATE,
      OFFSET16ARRAY qmiLocGetFdclBsListIndMsgT_v02 ''bsBestPosition'', TYPE88 0 83]"

lemma qmiLocGetFdclBsListIndMsgT_data_v02_ok [idl_simps]:
  "describe_msg qmiLocGetFdclBsListIndMsgT_data_v02 = Some (qmiLocGetFdclBsListIndMsgT_v02, 422, [(100, (0, 84), qmiLocFdclCellIdStructT_v02), (1, (0, 83), qmiLocBsBestPositionStructT_v02)])"
  by (simp add: qmiLocGetFdclBsListIndMsgT_data_v02_def qmiLocGetFdclBsListIndMsgT_v02_def [THEN arg_cong, of laid] analyse_simps layout_simps cong: idl_cong)

definition qmiLocInjectFdclDataReqMsgT_data_v02 :: "idl_byte list" where
  "qmiLocInjectFdclDataReqMsgT_data_v02 =
    [LIT 0x01, OP [QMI_IDL_FLAGS_IS_ARRAY, QMI_IDL_FLAGS_IS_VARIABLE_LEN] QMI_IDL_AGGREGATE,
      OFFSET8 qmiLocInjectFdclDataReqMsgT_v02 ''cellPosList'',
      LIT QMI_LOC_FDCL_CELL_POS_LIST_LENGTH_V02,
      OFFSET8_DIFF qmiLocInjectFdclDataReqMsgT_v02 ''cellPosList'' ''cellPosList_len'', TYPE88 0 85,
     LIT 0x02, OP [QMI_IDL_FLAGS_OFFSET_IS_16] QMI_IDL_GENERIC_4_BYTE,
      OFFSET16ARRAY qmiLocInjectFdclDataReqMsgT_v02 ''daysValid'',
     TLV [QMI_IDL_TLV_FLAGS_OPTIONAL] (OFFSET16_DIFF qmiLocInjectFdclDataReqMsgT_v02 ''timestampUtc'' ''timestampUtc_valid''),
      LIT 0x10, OP [QMI_IDL_FLAGS_OFFSET_IS_16] QMI_IDL_GENERIC_8_BYTE,
      OFFSET16ARRAY qmiLocInjectFdclDataReqMsgT_v02 ''timestampUtc'',
     TLV [QMI_IDL_TLV_FLAGS_OPTIONAL] (OFFSET16_DIFF qmiLocInjectFdclDataReqMsgT_v02 ''cellRecordTypeList'' ''cellRecordTypeList_valid''),
      LIT 0x11,
      OP [QMI_IDL_FLAGS_IS_ARRAY, QMI_IDL_FLAGS_IS_VARIABLE_LEN, QMI_IDL_FLAGS_OFFSET_IS_16] QMI_IDL_GENERIC_4_BYTE,
      OFFSET16ARRAY qmiLocInjectFdclDataReqMsgT_v02 ''cellRecordTypeList'',
      LIT QMI_LOC_FDCL_CELL_POS_LIST_LENGTH_V02,
      OFFSET16_DIFF qmiLocInjectFdclDataReqMsgT_v02 ''cellRecordTypeList'' ''cellRecordTypeList_len'',
     TLV [QMI_IDL_TLV_FLAGS_OPTIONAL] (OFFSET16_DIFF qmiLocInjectFdclDataReqMsgT_v02 ''moreBsAvailable'' ''moreBsAvailable_valid''),
      LIT 0x12, OP [QMI_IDL_FLAGS_OFFSET_IS_16] QMI_IDL_GENERIC_1_BYTE,
      OFFSET16ARRAY qmiLocInjectFdclDataReqMsgT_v02 ''moreBsAvailable'',
     TLV [QMI_IDL_TLV_FLAGS_OPTIONAL] (OFFSET16_DIFF qmiLocInjectFdclDataReqMsgT_v02 ''clientControls'' ''clientControls_valid''),
      LIT 0x13, OP [QMI_IDL_FLAGS_OFFSET_IS_16] QMI_IDL_GENERIC_2_BYTE,
      OFFSET16ARRAY qmiLocInjectFdclDataReqMsgT_v02 ''clientControls'',
     TLV [QMI_IDL_TLV_FLAGS_OPTIONAL] (OFFSET16_DIFF qmiLocInjectFdclDataReqMsgT_v02 ''maxNumCellsToUpload'' ''maxNumCellsToUpload_valid''),
      LIT 0x14, OP [QMI_IDL_FLAGS_OFFSET_IS_16] QMI_IDL_GENERIC_2_BYTE,
      OFFSET16ARRAY qmiLocInjectFdclDataReqMsgT_v02 ''maxNumCellsToUpload'',
     TLV [QMI_IDL_TLV_FLAGS_OPTIONAL] (OFFSET16_DIFF qmiLocInjectFdclDataReqMsgT_v02 ''minSecsBtwRequests'' ''minSecsBtwRequests_valid''),
      LIT 0x15, OP [QMI_IDL_FLAGS_OFFSET_IS_16] QMI_IDL_GENERIC_2_BYTE,
      OFFSET16ARRAY qmiLocInjectFdclDataReqMsgT_v02 ''minSecsBtwRequests'',
     TLV [QMI_IDL_TLV_FLAGS_OPTIONAL] (OFFSET16_DIFF qmiLocInjectFdclDataReqMsgT_v02 ''restrictedRegionVersion'' ''restrictedRegionVersion_valid''),
      LIT 0x16, OP [QMI_IDL_FLAGS_OFFSET_IS_16] QMI_IDL_GENERIC_1_BYTE,
      OFFSET16ARRAY qmiLocInjectFdclDataReqMsgT_v02 ''restrictedRegionVersion'',
     TLV [QMI_IDL_TLV_FLAGS_LAST_TLV, QMI_IDL_TLV_FLAGS_OPTIONAL] (OFFSET16_DIFF qmiLocInjectFdclDataReqMsgT_v02 ''restrictedRegions'' ''restrictedRegions_valid''),
      LIT 0x17,
      OP [QMI_IDL_FLAGS_IS_ARRAY, QMI_IDL_FLAGS_IS_VARIABLE_LEN, QMI_IDL_FLAGS_OFFSET_IS_16] QMI_IDL_AGGREGATE,
      OFFSET16ARRAY qmiLocInjectFdclDataReqMsgT_v02 ''restrictedRegions'',
      LIT QMI_LOC_FDCL_BS_LIST_MAX_SIZE_V02,
      OFFSET16_DIFF qmiLocInjectFdclDataReqMsgT_v02 ''restrictedRegions'' ''restrictedRegions_len'',
      TYPE88 0 81]"

lemma qmiLocInjectFdclDataReqMsgT_data_v02_ok [idl_simps]:
  "describe_msg qmiLocInjectFdclDataReqMsgT_data_v02 = Some (qmiLocInjectFdclDataReqMsgT_v02, 133, [(20, (0, 85), qmiLocFdclCellPosStructT_v02), (100, (0, 81), qmiLocHomeCarrierIdStructT_v02)])"
  by (simp add: qmiLocInjectFdclDataReqMsgT_data_v02_def qmiLocInjectFdclDataReqMsgT_v02_def [THEN arg_cong, of laid] analyse_simps layout_simps cong: idl_cong)

definition qmiLocInjectFdclDataIndMsgT_data_v02 :: "idl_byte list" where
  "qmiLocInjectFdclDataIndMsgT_data_v02 =
    [LIT 0x01, OP [] QMI_IDL_GENERIC_4_BYTE, OFFSET8 qmiLocInjectFdclDataIndMsgT_v02 ''status'',
     LIT 0x02, OP [] QMI_IDL_GENERIC_4_BYTE, OFFSET8 qmiLocInjectFdclDataIndMsgT_v02 ''inject_status'',
     TLV [QMI_IDL_TLV_FLAGS_LAST_TLV, QMI_IDL_TLV_FLAGS_OPTIONAL] (OFFSET8_DIFF qmiLocInjectFdclDataIndMsgT_v02 ''errorMsg'' ''errorMsg_valid''),
      LIT 0x10, OP [QMI_IDL_FLAGS_IS_ARRAY, QMI_IDL_FLAGS_IS_VARIABLE_LEN] QMI_IDL_STRING,
      OFFSET8 qmiLocInjectFdclDataIndMsgT_v02 ''errorMsg'',
      LIT QMI_LOC_INJECT_FDCL_DATA_ERROR_MSG_LEN_V02]"

lemma qmiLocInjectFdclDataIndMsgT_data_v02_ok [idl_simps]:
  "describe_msg qmiLocInjectFdclDataIndMsgT_data_v02 = Some (qmiLocInjectFdclDataIndMsgT_v02, 272, [])"
  by (simp add: qmiLocInjectFdclDataIndMsgT_data_v02_def qmiLocInjectFdclDataIndMsgT_v02_def [THEN arg_cong, of laid] analyse_simps layout_simps cong: idl_cong)

definition qmiLocSetBlacklistSvReqMsgT_data_v02 :: "idl_byte list" where
  "qmiLocSetBlacklistSvReqMsgT_data_v02 =
    [TLV [QMI_IDL_TLV_FLAGS_OPTIONAL] (OFFSET8_DIFF qmiLocSetBlacklistSvReqMsgT_v02 ''glo_persist_blacklist_sv'' ''glo_persist_blacklist_sv_valid''),
      LIT 0x10, OP [] QMI_IDL_GENERIC_8_BYTE,
      OFFSET8 qmiLocSetBlacklistSvReqMsgT_v02 ''glo_persist_blacklist_sv'',
     TLV [QMI_IDL_TLV_FLAGS_OPTIONAL] (OFFSET8_DIFF qmiLocSetBlacklistSvReqMsgT_v02 ''glo_clear_persist_blacklist_sv'' ''glo_clear_persist_blacklist_sv_valid''),
      LIT 0x11, OP [] QMI_IDL_GENERIC_8_BYTE,
      OFFSET8 qmiLocSetBlacklistSvReqMsgT_v02 ''glo_clear_persist_blacklist_sv'',
     TLV [QMI_IDL_TLV_FLAGS_OPTIONAL] (OFFSET8_DIFF qmiLocSetBlacklistSvReqMsgT_v02 ''bds_persist_blacklist_sv'' ''bds_persist_blacklist_sv_valid''),
      LIT 0x12, OP [] QMI_IDL_GENERIC_8_BYTE,
      OFFSET8 qmiLocSetBlacklistSvReqMsgT_v02 ''bds_persist_blacklist_sv'',
     TLV [QMI_IDL_TLV_FLAGS_OPTIONAL] (OFFSET8_DIFF qmiLocSetBlacklistSvReqMsgT_v02 ''bds_clear_persist_blacklist_sv'' ''bds_clear_persist_blacklist_sv_valid''),
      LIT 0x13, OP [] QMI_IDL_GENERIC_8_BYTE,
      OFFSET8 qmiLocSetBlacklistSvReqMsgT_v02 ''bds_clear_persist_blacklist_sv'',
     TLV [QMI_IDL_TLV_FLAGS_OPTIONAL] (OFFSET8_DIFF qmiLocSetBlacklistSvReqMsgT_v02 ''qzss_persist_blacklist_sv'' ''qzss_persist_blacklist_sv_valid''),
      LIT 0x14, OP [] QMI_IDL_GENERIC_8_BYTE,
      OFFSET8 qmiLocSetBlacklistSvReqMsgT_v02 ''qzss_persist_blacklist_sv'',
     TLV [QMI_IDL_TLV_FLAGS_OPTIONAL] (OFFSET8_DIFF qmiLocSetBlacklistSvReqMsgT_v02 ''qzss_clear_persist_blacklist_sv'' ''qzss_clear_persist_blacklist_sv_valid''),
      LIT 0x15, OP [] QMI_IDL_GENERIC_8_BYTE,
      OFFSET8 qmiLocSetBlacklistSvReqMsgT_v02 ''qzss_clear_persist_blacklist_sv'',
     TLV [QMI_IDL_TLV_FLAGS_OPTIONAL] (OFFSET8_DIFF qmiLocSetBlacklistSvReqMsgT_v02 ''gal_persist_blacklist_sv'' ''gal_persist_blacklist_sv_valid''),
      LIT 0x16, OP [] QMI_IDL_GENERIC_8_BYTE,
      OFFSET8 qmiLocSetBlacklistSvReqMsgT_v02 ''gal_persist_blacklist_sv'',
     TLV [QMI_IDL_TLV_FLAGS_OPTIONAL] (OFFSET8_DIFF qmiLocSetBlacklistSvReqMsgT_v02 ''gal_clear_persist_blacklist_sv'' ''gal_clear_persist_blacklist_sv_valid''),
      LIT 0x17, OP [] QMI_IDL_GENERIC_8_BYTE,
      OFFSET8 qmiLocSetBlacklistSvReqMsgT_v02 ''gal_clear_persist_blacklist_sv'',
     TLV [QMI_IDL_TLV_FLAGS_OPTIONAL] (OFFSET8_DIFF qmiLocSetBlacklistSvReqMsgT_v02 ''sbas_persist_blacklist_sv'' ''sbas_persist_blacklist_sv_valid''),
      LIT 0x18, OP [] QMI_IDL_GENERIC_8_BYTE,
      OFFSET8 qmiLocSetBlacklistSvReqMsgT_v02 ''sbas_persist_blacklist_sv'',
     TLV [QMI_IDL_TLV_FLAGS_OPTIONAL] (OFFSET8_DIFF qmiLocSetBlacklistSvReqMsgT_v02 ''sbas_clear_persist_blacklist_sv'' ''sbas_clear_persist_blacklist_sv_valid''),
      LIT 0x19, OP [] QMI_IDL_GENERIC_8_BYTE,
      OFFSET8 qmiLocSetBlacklistSvReqMsgT_v02 ''sbas_clear_persist_blacklist_sv'',
     TLV [QMI_IDL_TLV_FLAGS_OPTIONAL] (OFFSET8_DIFF qmiLocSetBlacklistSvReqMsgT_v02 ''navic_persist_blacklist_sv'' ''navic_persist_blacklist_sv_valid''),
      LIT 0x1A, OP [] QMI_IDL_GENERIC_8_BYTE,
      OFFSET8 qmiLocSetBlacklistSvReqMsgT_v02 ''navic_persist_blacklist_sv'',
     TLV [QMI_IDL_TLV_FLAGS_LAST_TLV, QMI_IDL_TLV_FLAGS_OPTIONAL] (OFFSET8_DIFF qmiLocSetBlacklistSvReqMsgT_v02 ''navic_clear_persist_blacklist_sv'' ''navic_clear_persist_blacklist_sv_valid''),
      LIT 0x1B, OP [] QMI_IDL_GENERIC_8_BYTE,
      OFFSET8 qmiLocSetBlacklistSvReqMsgT_v02 ''navic_clear_persist_blacklist_sv'']"

lemma qmiLocSetBlacklistSvReqMsgT_data_v02_ok [idl_simps]:
  "describe_msg qmiLocSetBlacklistSvReqMsgT_data_v02 = Some (qmiLocSetBlacklistSvReqMsgT_v02, 132, [])"
  by (simp add: qmiLocSetBlacklistSvReqMsgT_data_v02_def qmiLocSetBlacklistSvReqMsgT_v02_def [THEN arg_cong, of laid] analyse_simps layout_simps cong: idl_cong)

definition qmiLocGetBlacklistSvIndMsgT_data_v02 :: "idl_byte list" where
  "qmiLocGetBlacklistSvIndMsgT_data_v02 =
    [LIT 0x01, OP [] QMI_IDL_GENERIC_4_BYTE, OFFSET8 qmiLocGetBlacklistSvIndMsgT_v02 ''status'',
     TLV [QMI_IDL_TLV_FLAGS_OPTIONAL] (OFFSET8_DIFF qmiLocGetBlacklistSvIndMsgT_v02 ''glo_persist_blacklist_sv'' ''glo_persist_blacklist_sv_valid''),
      LIT 0x10, OP [] QMI_IDL_GENERIC_8_BYTE,
      OFFSET8 qmiLocGetBlacklistSvIndMsgT_v02 ''glo_persist_blacklist_sv'',
     TLV [QMI_IDL_TLV_FLAGS_OPTIONAL] (OFFSET8_DIFF qmiLocGetBlacklistSvIndMsgT_v02 ''bds_persist_blacklist_sv'' ''bds_persist_blacklist_sv_valid''),
      LIT 0x11, OP [] QMI_IDL_GENERIC_8_BYTE,
      OFFSET8 qmiLocGetBlacklistSvIndMsgT_v02 ''bds_persist_blacklist_sv'',
     TLV [QMI_IDL_TLV_FLAGS_OPTIONAL] (OFFSET8_DIFF qmiLocGetBlacklistSvIndMsgT_v02 ''qzss_persist_blacklist_sv'' ''qzss_persist_blacklist_sv_valid''),
      LIT 0x12, OP [] QMI_IDL_GENERIC_8_BYTE,
      OFFSET8 qmiLocGetBlacklistSvIndMsgT_v02 ''qzss_persist_blacklist_sv'',
     TLV [QMI_IDL_TLV_FLAGS_OPTIONAL] (OFFSET8_DIFF qmiLocGetBlacklistSvIndMsgT_v02 ''gal_persist_blacklist_sv'' ''gal_persist_blacklist_sv_valid''),
      LIT 0x13, OP [] QMI_IDL_GENERIC_8_BYTE,
      OFFSET8 qmiLocGetBlacklistSvIndMsgT_v02 ''gal_persist_blacklist_sv'',
     TLV [QMI_IDL_TLV_FLAGS_OPTIONAL] (OFFSET8_DIFF qmiLocGetBlacklistSvIndMsgT_v02 ''sbas_persist_blacklist_sv'' ''sbas_persist_blacklist_sv_valid''),
      LIT 0x14, OP [] QMI_IDL_GENERIC_8_BYTE,
      OFFSET8 qmiLocGetBlacklistSvIndMsgT_v02 ''sbas_persist_blacklist_sv'',
     TLV [QMI_IDL_TLV_FLAGS_LAST_TLV, QMI_IDL_TLV_FLAGS_OPTIONAL] (OFFSET8_DIFF qmiLocGetBlacklistSvIndMsgT_v02 ''navic_persist_blacklist_sv'' ''navic_persist_blacklist_sv_valid''),
      LIT 0x15, OP [] QMI_IDL_GENERIC_8_BYTE,
      OFFSET8 qmiLocGetBlacklistSvIndMsgT_v02 ''navic_persist_blacklist_sv'']"

lemma qmiLocGetBlacklistSvIndMsgT_data_v02_ok [idl_simps]:
  "describe_msg qmiLocGetBlacklistSvIndMsgT_data_v02 = Some (qmiLocGetBlacklistSvIndMsgT_v02, 73, [])"
  by (simp add: qmiLocGetBlacklistSvIndMsgT_data_v02_def qmiLocGetBlacklistSvIndMsgT_v02_def [THEN arg_cong, of laid] analyse_simps layout_simps cong: idl_cong)

definition qmiLocSetConstellationConfigReqMsgT_data_v02 :: "idl_byte list" where
  "qmiLocSetConstellationConfigReqMsgT_data_v02 =
    [LIT 0x01, OP [] QMI_IDL_GENERIC_1_BYTE,
      OFFSET8 qmiLocSetConstellationConfigReqMsgT_v02 ''resetConstellations'',
     TLV [QMI_IDL_TLV_FLAGS_OPTIONAL] (OFFSET8_DIFF qmiLocSetConstellationConfigReqMsgT_v02 ''enableMask'' ''enableMask_valid''),
      LIT 0x10, OP [] QMI_IDL_GENERIC_8_BYTE,
      OFFSET8 qmiLocSetConstellationConfigReqMsgT_v02 ''enableMask'',
     TLV [QMI_IDL_TLV_FLAGS_LAST_TLV, QMI_IDL_TLV_FLAGS_OPTIONAL] (OFFSET8_DIFF qmiLocSetConstellationConfigReqMsgT_v02 ''disableMask'' ''disableMask_valid''),
      LIT 0x11, OP [] QMI_IDL_GENERIC_8_BYTE,
      OFFSET8 qmiLocSetConstellationConfigReqMsgT_v02 ''disableMask'']"

lemma qmiLocSetConstellationConfigReqMsgT_data_v02_ok [idl_simps]:
  "describe_msg qmiLocSetConstellationConfigReqMsgT_data_v02 = Some (qmiLocSetConstellationConfigReqMsgT_v02, 26, [])"
  by (simp add: qmiLocSetConstellationConfigReqMsgT_data_v02_def qmiLocSetConstellationConfigReqMsgT_v02_def [THEN arg_cong, of laid] analyse_simps layout_simps cong: idl_cong)

definition qmiLocEventDcReportIndMsgT_data_v02 :: "idl_byte list" where
  "qmiLocEventDcReportIndMsgT_data_v02 =
    [TLV [QMI_IDL_TLV_FLAGS_OPTIONAL] (OFFSET8_DIFF qmiLocEventDcReportIndMsgT_v02 ''msgType'' ''msgType_valid''),
      LIT 0x10, OP [] QMI_IDL_GENERIC_4_BYTE, OFFSET8 qmiLocEventDcReportIndMsgT_v02 ''msgType'',
     TLV [QMI_IDL_TLV_FLAGS_OPTIONAL] (OFFSET8_DIFF qmiLocEventDcReportIndMsgT_v02 ''numValidBits'' ''numValidBits_valid''),
      LIT 0x11, OP [] QMI_IDL_GENERIC_2_BYTE, OFFSET8 qmiLocEventDcReportIndMsgT_v02 ''numValidBits'',
     TLV [QMI_IDL_TLV_FLAGS_LAST_TLV, QMI_IDL_TLV_FLAGS_OPTIONAL] (OFFSET8_DIFF qmiLocEventDcReportIndMsgT_v02 ''dcReportData'' ''dcReportData_valid''),
      LIT 0x12, OP [QMI_IDL_FLAGS_IS_ARRAY, QMI_IDL_FLAGS_IS_VARIABLE_LEN] QMI_IDL_GENERIC_1_BYTE,
      OFFSET8 qmiLocEventDcReportIndMsgT_v02 ''dcReportData'', LIT QMI_LOC_MAX_DCREPORT_LEN_V02,
      OFFSET8_DIFF qmiLocEventDcReportIndMsgT_v02 ''dcReportData'' ''dcReportData_len'']"

lemma qmiLocEventDcReportIndMsgT_data_v02_ok [idl_simps]:
  "describe_msg qmiLocEventDcReportIndMsgT_data_v02 = Some (qmiLocEventDcReportIndMsgT_v02, 80, [])"
  by (simp add: qmiLocEventDcReportIndMsgT_data_v02_def qmiLocEventDcReportIndMsgT_v02_def [THEN arg_cong, of laid] analyse_simps layout_simps cong: idl_cong)

definition qmiLocRegisterMasterClientReqMsgT_data_v02 :: "idl_byte list" where
  "qmiLocRegisterMasterClientReqMsgT_data_v02 =
    [TLV [QMI_IDL_TLV_FLAGS_LAST_TLV] (LIT 0x01), OP [] QMI_IDL_GENERIC_4_BYTE,
      OFFSET8 qmiLocRegisterMasterClientReqMsgT_v02 ''key'']"

lemma qmiLocRegisterMasterClientReqMsgT_data_v02_ok [idl_simps]:
  "describe_msg qmiLocRegisterMasterClientReqMsgT_data_v02 = Some (qmiLocRegisterMasterClientReqMsgT_v02, 7, [])"
  by (simp add: qmiLocRegisterMasterClientReqMsgT_data_v02_def qmiLocRegisterMasterClientReqMsgT_v02_def [THEN arg_cong, of laid] analyse_simps layout_simps cong: idl_cong)

definition qmiLocRegisterMasterClientIndMsgT_data_v02 :: "idl_byte list" where
  "qmiLocRegisterMasterClientIndMsgT_data_v02 =
    [TLV [QMI_IDL_TLV_FLAGS_LAST_TLV] (LIT 0x01), OP [] QMI_IDL_GENERIC_4_BYTE,
      OFFSET8 qmiLocRegisterMasterClientIndMsgT_v02 ''status'']"

lemma qmiLocRegisterMasterClientIndMsgT_data_v02_ok [idl_simps]:
  "describe_msg qmiLocRegisterMasterClientIndMsgT_data_v02 = Some (qmiLocRegisterMasterClientIndMsgT_v02, 7, [])"
  by (simp add: qmiLocRegisterMasterClientIndMsgT_data_v02_def qmiLocRegisterMasterClientIndMsgT_v02_def [THEN arg_cong, of laid] analyse_simps layout_simps cong: idl_cong)

definition qmiLocEventEngineLockStateIndMsgT_data_v02 :: "idl_byte list" where
  "qmiLocEventEngineLockStateIndMsgT_data_v02 =
    [LIT 0x01, OP [] QMI_IDL_GENERIC_4_BYTE,
      OFFSET8 qmiLocEventEngineLockStateIndMsgT_v02 ''engineLockState'',
     TLV [QMI_IDL_TLV_FLAGS_OPTIONAL] (OFFSET8_DIFF qmiLocEventEngineLockStateIndMsgT_v02 ''subType'' ''subType_valid''),
      LIT 0x10, OP [] QMI_IDL_GENERIC_4_BYTE, OFFSET8 qmiLocEventEngineLockStateIndMsgT_v02 ''subType'',
     TLV [QMI_IDL_TLV_FLAGS_LAST_TLV, QMI_IDL_TLV_FLAGS_OPTIONAL] (OFFSET8_DIFF qmiLocEventEngineLockStateIndMsgT_v02 ''lockClient'' ''lockClient_valid''),
      LIT 0x11, OP [] QMI_IDL_GENERIC_8_BYTE,
      OFFSET8 qmiLocEventEngineLockStateIndMsgT_v02 ''lockClient'']"

lemma qmiLocEventEngineLockStateIndMsgT_data_v02_ok [idl_simps]:
  "describe_msg qmiLocEventEngineLockStateIndMsgT_data_v02 = Some (qmiLocEventEngineLockStateIndMsgT_v02, 25, [])"
  by (simp add: qmiLocEventEngineLockStateIndMsgT_data_v02_def qmiLocEventEngineLockStateIndMsgT_v02_def [THEN arg_cong, of laid] analyse_simps layout_simps cong: idl_cong)

definition qmiLocSystemInfoReqMsgT_data_v02 :: "idl_byte list" where
  "qmiLocSystemInfoReqMsgT_data_v02 =
    [TLV [QMI_IDL_TLV_FLAGS_LAST_TLV] (LIT 0x01), OP [] QMI_IDL_GENERIC_4_BYTE,
      OFFSET8 qmiLocSystemInfoReqMsgT_v02 ''systemInfo'']"

lemma qmiLocSystemInfoReqMsgT_data_v02_ok [idl_simps]:
  "describe_msg qmiLocSystemInfoReqMsgT_data_v02 = Some (qmiLocSystemInfoReqMsgT_v02, 7, [])"
  by (simp add: qmiLocSystemInfoReqMsgT_data_v02_def qmiLocSystemInfoReqMsgT_v02_def [THEN arg_cong, of laid] analyse_simps layout_simps cong: idl_cong)

definition qmiLocSystemInfoIndMsgT_data_v02 :: "idl_byte list" where
  "qmiLocSystemInfoIndMsgT_data_v02 =
    [LIT 0x01, OP [] QMI_IDL_GENERIC_4_BYTE, OFFSET8 qmiLocSystemInfoIndMsgT_v02 ''systemInfo'',
     TLV [QMI_IDL_TLV_FLAGS_LAST_TLV, QMI_IDL_TLV_FLAGS_OPTIONAL] (OFFSET8_DIFF qmiLocSystemInfoIndMsgT_v02 ''nextLeapSecondInfo'' ''nextLeapSecondInfo_valid''),
      LIT 0x10, OP [] QMI_IDL_AGGREGATE, OFFSET8 qmiLocSystemInfoIndMsgT_v02 ''nextLeapSecondInfo'',
      TYPE88 0 86]"

lemma qmiLocSystemInfoIndMsgT_data_v02_ok [idl_simps]:
  "describe_msg qmiLocSystemInfoIndMsgT_data_v02 = Some (qmiLocSystemInfoIndMsgT_v02, 10, [(1, (0, 86), qmiLocNextLeapSecondInfoStructT_v02)])"
  by (simp add: qmiLocSystemInfoIndMsgT_data_v02_def qmiLocSystemInfoIndMsgT_v02_def [THEN arg_cong, of laid] analyse_simps layout_simps cong: idl_cong)

definition qmiLocGetConstellationConfigIndMsgT_data_v02 :: "idl_byte list" where
  "qmiLocGetConstellationConfigIndMsgT_data_v02 =
    [LIT 0x01, OP [] QMI_IDL_GENERIC_4_BYTE, OFFSET8 qmiLocGetConstellationConfigIndMsgT_v02 ''status'',
     TLV [QMI_IDL_TLV_FLAGS_OPTIONAL] (OFFSET8_DIFF qmiLocGetConstellationConfigIndMsgT_v02 ''gps_status'' ''gps_status_valid''),
      LIT 0x10, OP [] QMI_IDL_GENERIC_4_BYTE,
      OFFSET8 qmiLocGetConstellationConfigIndMsgT_v02 ''gps_status'',
     TLV [QMI_IDL_TLV_FLAGS_OPTIONAL] (OFFSET8_DIFF qmiLocGetConstellationConfigIndMsgT_v02 ''glonass_status'' ''glonass_status_valid''),
      LIT 0x11, OP [] QMI_IDL_GENERIC_4_BYTE,
      OFFSET8 qmiLocGetConstellationConfigIndMsgT_v02 ''glonass_status'',
     TLV [QMI_IDL_TLV_FLAGS_OPTIONAL] (OFFSET8_DIFF qmiLocGetConstellationConfigIndMsgT_v02 ''bds_status'' ''bds_status_valid''),
      LIT 0x12, OP [] QMI_IDL_GENERIC_4_BYTE,
      OFFSET8 qmiLocGetConstellationConfigIndMsgT_v02 ''bds_status'',
     TLV [QMI_IDL_TLV_FLAGS_OPTIONAL] (OFFSET8_DIFF qmiLocGetConstellationConfigIndMsgT_v02 ''qzss_status'' ''qzss_status_valid''),
      LIT 0x13, OP [] QMI_IDL_GENERIC_4_BYTE,
      OFFSET8 qmiLocGetConstellationConfigIndMsgT_v02 ''qzss_status'',
     TLV [QMI_IDL_TLV_FLAGS_OPTIONAL] (OFFSET8_DIFF qmiLocGetConstellationConfigIndMsgT_v02 ''galileo_status'' ''galileo_status_valid''),
      LIT 0x14, OP [] QMI_IDL_GENERIC_4_BYTE,
      OFFSET8 qmiLocGetConstellationConfigIndMsgT_v02 ''galileo_status'',
     TLV [QMI_IDL_TLV_FLAGS_LAST_TLV, QMI_IDL_TLV_FLAGS_OPTIONAL] (OFFSET8_DIFF qmiLocGetConstellationConfigIndMsgT_v02 ''navic_status'' ''navic_status_valid''),
      LIT 0x15, OP [] QMI_IDL_GENERIC_4_BYTE,
      OFFSET8 qmiLocGetConstellationConfigIndMsgT_v02 ''navic_status'']"

lemma qmiLocGetConstellationConfigIndMsgT_data_v02_ok [idl_simps]:
  "describe_msg qmiLocGetConstellationConfigIndMsgT_data_v02 = Some (qmiLocGetConstellationConfigIndMsgT_v02, 49, [])"
  by (simp add: qmiLocGetConstellationConfigIndMsgT_data_v02_def qmiLocGetConstellationConfigIndMsgT_v02_def [THEN arg_cong, of laid] analyse_simps layout_simps cong: idl_cong)

definition qmiLocEnablePositionInjectionTestModeReqMsgT_data_v02 :: "idl_byte list" where
  "qmiLocEnablePositionInjectionTestModeReqMsgT_data_v02 =
    [TLV [QMI_IDL_TLV_FLAGS_LAST_TLV] (LIT 0x01), OP [] QMI_IDL_GENERIC_1_BYTE,
      OFFSET8 qmiLocEnablePositionInjectionTestModeReqMsgT_v02 ''enableTestMode'']"

lemma qmiLocEnablePositionInjectionTestModeReqMsgT_data_v02_ok [idl_simps]:
  "describe_msg qmiLocEnablePositionInjectionTestModeReqMsgT_data_v02 = Some (qmiLocEnablePositionInjectionTestModeReqMsgT_v02, 4, [])"
  by (simp add: qmiLocEnablePositionInjectionTestModeReqMsgT_data_v02_def qmiLocEnablePositionInjectionTestModeReqMsgT_v02_def [THEN arg_cong, of laid] analyse_simps layout_simps cong: idl_cong)

definition qmiLocEnablePositionInjectionTestModeIndMsgT_data_v02 :: "idl_byte list" where
  "qmiLocEnablePositionInjectionTestModeIndMsgT_data_v02 =
    [LIT 0x01, OP [] QMI_IDL_GENERIC_4_BYTE,
      OFFSET8 qmiLocEnablePositionInjectionTestModeIndMsgT_v02 ''status'',
     TLV [QMI_IDL_TLV_FLAGS_LAST_TLV, QMI_IDL_TLV_FLAGS_OPTIONAL] (OFFSET8_DIFF qmiLocEnablePositionInjectionTestModeIndMsgT_v02 ''testModeState'' ''testModeState_valid''),
      LIT 0x10, OP [] QMI_IDL_GENERIC_4_BYTE,
      OFFSET8 qmiLocEnablePositionInjectionTestModeIndMsgT_v02 ''testModeState'']"

lemma qmiLocEnablePositionInjectionTestModeIndMsgT_data_v02_ok [idl_simps]:
  "describe_msg qmiLocEnablePositionInjectionTestModeIndMsgT_data_v02 = Some (qmiLocEnablePositionInjectionTestModeIndMsgT_v02, 14, [])"
  by (simp add: qmiLocEnablePositionInjectionTestModeIndMsgT_data_v02_def qmiLocEnablePositionInjectionTestModeIndMsgT_v02_def [THEN arg_cong, of laid] analyse_simps layout_simps cong: idl_cong)

definition qmiLocInjectTestPositionReqMsgT_data_v02 :: "idl_byte list" where
  "qmiLocInjectTestPositionReqMsgT_data_v02 =
    [LIT 0x01, OP [] QMI_IDL_GENERIC_8_BYTE, OFFSET8 qmiLocInjectTestPositionReqMsgT_v02 ''latitude'',
     LIT 0x02, OP [] QMI_IDL_GENERIC_8_BYTE, OFFSET8 qmiLocInjectTestPositionReqMsgT_v02 ''longitude'',
     LIT 0x03, OP [] QMI_IDL_GENERIC_4_BYTE,
      OFFSET8 qmiLocInjectTestPositionReqMsgT_v02 ''horUncCircular'',
     LIT 0x04, OP [] QMI_IDL_GENERIC_8_BYTE,
      OFFSET8 qmiLocInjectTestPositionReqMsgT_v02 ''timestampUtc'',
     TLV [QMI_IDL_TLV_FLAGS_LAST_TLV, QMI_IDL_TLV_FLAGS_OPTIONAL] (OFFSET8_DIFF qmiLocInjectTestPositionReqMsgT_v02 ''positionSource'' ''positionSource_valid''),
      LIT 0x10, OP [] QMI_IDL_GENERIC_4_BYTE,
      OFFSET8 qmiLocInjectTestPositionReqMsgT_v02 ''positionSource'']"

lemma qmiLocInjectTestPositionReqMsgT_data_v02_ok [idl_simps]:
  "describe_msg qmiLocInjectTestPositionReqMsgT_data_v02 = Some (qmiLocInjectTestPositionReqMsgT_v02, 47, [])"
  by (simp add: qmiLocInjectTestPositionReqMsgT_data_v02_def qmiLocInjectTestPositionReqMsgT_v02_def [THEN arg_cong, of laid] analyse_simps layout_simps cong: idl_cong)

definition qmiLocInjectTestPositionIndMsgT_data_v02 :: "idl_byte list" where
  "qmiLocInjectTestPositionIndMsgT_data_v02 =
    [TLV [QMI_IDL_TLV_FLAGS_LAST_TLV] (LIT 0x01), OP [] QMI_IDL_GENERIC_4_BYTE,
      OFFSET8 qmiLocInjectTestPositionIndMsgT_v02 ''status'']"

lemma qmiLocInjectTestPositionIndMsgT_data_v02_ok [idl_simps]:
  "describe_msg qmiLocInjectTestPositionIndMsgT_data_v02 = Some (qmiLocInjectTestPositionIndMsgT_v02, 7, [])"
  by (simp add: qmiLocInjectTestPositionIndMsgT_data_v02_def qmiLocInjectTestPositionIndMsgT_v02_def [THEN arg_cong, of laid] analyse_simps layout_simps cong: idl_cong)

definition qmiLocEventBsObsDataServiceReqIndMsgT_data_v02 :: "idl_byte list" where
  "qmiLocEventBsObsDataServiceReqIndMsgT_data_v02 =
    [TLV [QMI_IDL_TLV_FLAGS_LAST_TLV] (LIT 0x01), OP [] QMI_IDL_GENERIC_2_BYTE,
      OFFSET8 qmiLocEventBsObsDataServiceReqIndMsgT_v02 ''numCellsAvailable'']"

lemma qmiLocEventBsObsDataServiceReqIndMsgT_data_v02_ok [idl_simps]:
  "describe_msg qmiLocEventBsObsDataServiceReqIndMsgT_data_v02 = Some (qmiLocEventBsObsDataServiceReqIndMsgT_v02, 5, [])"
  by (simp add: qmiLocEventBsObsDataServiceReqIndMsgT_data_v02_def qmiLocEventBsObsDataServiceReqIndMsgT_v02_def [THEN arg_cong, of laid] analyse_simps layout_simps cong: idl_cong)

definition qmiLocGetBsObsDataReqMsgT_data_v02 :: "idl_byte list" where
  "qmiLocGetBsObsDataReqMsgT_data_v02 =
    [TLV [QMI_IDL_TLV_FLAGS_OPTIONAL] (OFFSET8_DIFF qmiLocGetBsObsDataReqMsgT_v02 ''timestampUtc'' ''timestampUtc_valid''),
      LIT 0x10, OP [] QMI_IDL_GENERIC_8_BYTE, OFFSET8 qmiLocGetBsObsDataReqMsgT_v02 ''timestampUtc'',
     TLV [QMI_IDL_TLV_FLAGS_LAST_TLV, QMI_IDL_TLV_FLAGS_OPTIONAL] (OFFSET8_DIFF qmiLocGetBsObsDataReqMsgT_v02 ''numCellsUpload'' ''numCellsUpload_valid''),
      LIT 0x11, OP [] QMI_IDL_GENERIC_2_BYTE, OFFSET8 qmiLocGetBsObsDataReqMsgT_v02 ''numCellsUpload'']"

lemma qmiLocGetBsObsDataReqMsgT_data_v02_ok [idl_simps]:
  "describe_msg qmiLocGetBsObsDataReqMsgT_data_v02 = Some (qmiLocGetBsObsDataReqMsgT_v02, 16, [])"
  by (simp add: qmiLocGetBsObsDataReqMsgT_data_v02_def qmiLocGetBsObsDataReqMsgT_v02_def [THEN arg_cong, of laid] analyse_simps layout_simps cong: idl_cong)

definition qmiLocGetBsObsDataIndMsgT_data_v02 :: "idl_byte list" where
  "qmiLocGetBsObsDataIndMsgT_data_v02 =
    [LIT 0x01, OP [] QMI_IDL_GENERIC_4_BYTE, OFFSET8 qmiLocGetBsObsDataIndMsgT_v02 ''status'',
     LIT 0x02, OP [QMI_IDL_FLAGS_IS_ARRAY, QMI_IDL_FLAGS_IS_VARIABLE_LEN] QMI_IDL_AGGREGATE,
      OFFSET8 qmiLocGetBsObsDataIndMsgT_v02 ''bsData'', LIT QMI_LOC_FDCL_BS_LIST_MAX_SIZE_V02,
      OFFSET8_DIFF qmiLocGetBsObsDataIndMsgT_v02 ''bsData'' ''bsData_len'', TYPE88 0 87,
     TLV [QMI_IDL_TLV_FLAGS_LAST_TLV, QMI_IDL_TLV_FLAGS_OPTIONAL] (OFFSET16_DIFF qmiLocGetBsObsDataIndMsgT_v02 ''moreBsAvailable'' ''moreBsAvailable_valid''),
      LIT 0x10, OP [QMI_IDL_FLAGS_OFFSET_IS_16] QMI_IDL_GENERIC_1_BYTE,
      OFFSET16ARRAY qmiLocGetBsObsDataIndMsgT_v02 ''moreBsAvailable'']"

lemma qmiLocGetBsObsDataIndMsgT_data_v02_ok [idl_simps]:
  "describe_msg qmiLocGetBsObsDataIndMsgT_data_v02 = Some (qmiLocGetBsObsDataIndMsgT_v02, 15, [(100, (0, 87), qmiLocBsObservedDataStructT_v02)])"
  by (simp add: qmiLocGetBsObsDataIndMsgT_data_v02_def qmiLocGetBsObsDataIndMsgT_v02_def [THEN arg_cong, of laid] analyse_simps layout_simps cong: idl_cong)

definition qmiLocGpsEphemerisReportIndMsgT_data_v02 :: "idl_byte list" where
  "qmiLocGpsEphemerisReportIndMsgT_data_v02 =
    [LIT 0x01, OP [QMI_IDL_FLAGS_IS_ARRAY, QMI_IDL_FLAGS_IS_VARIABLE_LEN] QMI_IDL_AGGREGATE,
      OFFSET8 qmiLocGpsEphemerisReportIndMsgT_v02 ''gpsEphemerisList'',
      LIT QMI_LOC_EPHEMERIS_LIST_MAX_SIZE_V02,
      OFFSET8_DIFF qmiLocGpsEphemerisReportIndMsgT_v02 ''gpsEphemerisList'' ''gpsEphemerisList_len'',
      TYPE88 0 89,
     TLV [QMI_IDL_TLV_FLAGS_LAST_TLV, QMI_IDL_TLV_FLAGS_OPTIONAL] (OFFSET16_DIFF qmiLocGpsEphemerisReportIndMsgT_v02 ''gpsSystemTime'' ''gpsSystemTime_valid''),
      LIT 0x10, OP [QMI_IDL_FLAGS_OFFSET_IS_16] QMI_IDL_AGGREGATE,
      OFFSET16ARRAY qmiLocGpsEphemerisReportIndMsgT_v02 ''gpsSystemTime'', TYPE88 0 60]"

lemma qmiLocGpsEphemerisReportIndMsgT_data_v02_ok [idl_simps]:
  "describe_msg qmiLocGpsEphemerisReportIndMsgT_data_v02 = Some (qmiLocGpsEphemerisReportIndMsgT_v02, 7, [(8, (0, 89), qmiLocGpsEphemerisT_v02), (1, (0, 60), qmiLocGnssTimeStructT_v02)])"
  by (simp add: qmiLocGpsEphemerisReportIndMsgT_data_v02_def qmiLocGpsEphemerisReportIndMsgT_v02_def [THEN arg_cong, of laid] analyse_simps layout_simps cong: idl_cong)

definition qmiLocGloEphemerisReportIndMsgT_data_v02 :: "idl_byte list" where
  "qmiLocGloEphemerisReportIndMsgT_data_v02 =
    [LIT 0x01, OP [QMI_IDL_FLAGS_IS_ARRAY, QMI_IDL_FLAGS_IS_VARIABLE_LEN] QMI_IDL_AGGREGATE,
      OFFSET8 qmiLocGloEphemerisReportIndMsgT_v02 ''gloEphemerisList'',
      LIT QMI_LOC_EPHEMERIS_LIST_MAX_SIZE_V02,
      OFFSET8_DIFF qmiLocGloEphemerisReportIndMsgT_v02 ''gloEphemerisList'' ''gloEphemerisList_len'',
      TYPE88 0 90,
     TLV [QMI_IDL_TLV_FLAGS_LAST_TLV, QMI_IDL_TLV_FLAGS_OPTIONAL] (OFFSET16_DIFF qmiLocGloEphemerisReportIndMsgT_v02 ''gpsSystemTime'' ''gpsSystemTime_valid''),
      LIT 0x10, OP [QMI_IDL_FLAGS_OFFSET_IS_16] QMI_IDL_AGGREGATE,
      OFFSET16ARRAY qmiLocGloEphemerisReportIndMsgT_v02 ''gpsSystemTime'', TYPE88 0 60]"

lemma qmiLocGloEphemerisReportIndMsgT_data_v02_ok [idl_simps]:
  "describe_msg qmiLocGloEphemerisReportIndMsgT_data_v02 = Some (qmiLocGloEphemerisReportIndMsgT_v02, 7, [(8, (0, 90), qmiLocGloEphemerisT_v02), (1, (0, 60), qmiLocGnssTimeStructT_v02)])"
  by (simp add: qmiLocGloEphemerisReportIndMsgT_data_v02_def qmiLocGloEphemerisReportIndMsgT_v02_def [THEN arg_cong, of laid] analyse_simps layout_simps cong: idl_cong)

definition qmiLocBdsEphemerisReportIndMsgT_data_v02 :: "idl_byte list" where
  "qmiLocBdsEphemerisReportIndMsgT_data_v02 =
    [LIT 0x01, OP [QMI_IDL_FLAGS_IS_ARRAY, QMI_IDL_FLAGS_IS_VARIABLE_LEN] QMI_IDL_AGGREGATE,
      OFFSET8 qmiLocBdsEphemerisReportIndMsgT_v02 ''bdsEphemerisList'',
      LIT QMI_LOC_EPHEMERIS_LIST_MAX_SIZE_V02,
      OFFSET8_DIFF qmiLocBdsEphemerisReportIndMsgT_v02 ''bdsEphemerisList'' ''bdsEphemerisList_len'',
      TYPE88 0 91,
     TLV [QMI_IDL_TLV_FLAGS_LAST_TLV, QMI_IDL_TLV_FLAGS_OPTIONAL] (OFFSET16_DIFF qmiLocBdsEphemerisReportIndMsgT_v02 ''gpsSystemTime'' ''gpsSystemTime_valid''),
      LIT 0x10, OP [QMI_IDL_FLAGS_OFFSET_IS_16] QMI_IDL_AGGREGATE,
      OFFSET16ARRAY qmiLocBdsEphemerisReportIndMsgT_v02 ''gpsSystemTime'', TYPE88 0 60]"

lemma qmiLocBdsEphemerisReportIndMsgT_data_v02_ok [idl_simps]:
  "describe_msg qmiLocBdsEphemerisReportIndMsgT_data_v02 = Some (qmiLocBdsEphemerisReportIndMsgT_v02, 7, [(8, (0, 91), qmiLocBdsEphemerisT_v02), (1, (0, 60), qmiLocGnssTimeStructT_v02)])"
  by (simp add: qmiLocBdsEphemerisReportIndMsgT_data_v02_def qmiLocBdsEphemerisReportIndMsgT_v02_def [THEN arg_cong, of laid] analyse_simps layout_simps cong: idl_cong)

definition qmiLocGalEphemerisReportIndMsgT_data_v02 :: "idl_byte list" where
  "qmiLocGalEphemerisReportIndMsgT_data_v02 =
    [LIT 0x01, OP [QMI_IDL_FLAGS_IS_ARRAY, QMI_IDL_FLAGS_IS_VARIABLE_LEN] QMI_IDL_AGGREGATE,
      OFFSET8 qmiLocGalEphemerisReportIndMsgT_v02 ''galEphemerisList'',
      LIT QMI_LOC_EPHEMERIS_LIST_MAX_SIZE_V02,
      OFFSET8_DIFF qmiLocGalEphemerisReportIndMsgT_v02 ''galEphemerisList'' ''galEphemerisList_len'',
      TYPE88 0 92,
     TLV [QMI_IDL_TLV_FLAGS_LAST_TLV, QMI_IDL_TLV_FLAGS_OPTIONAL] (OFFSET16_DIFF qmiLocGalEphemerisReportIndMsgT_v02 ''gpsSystemTime'' ''gpsSystemTime_valid''),
      LIT 0x10, OP [QMI_IDL_FLAGS_OFFSET_IS_16] QMI_IDL_AGGREGATE,
      OFFSET16ARRAY qmiLocGalEphemerisReportIndMsgT_v02 ''gpsSystemTime'', TYPE88 0 60]"

lemma qmiLocGalEphemerisReportIndMsgT_data_v02_ok [idl_simps]:
  "describe_msg qmiLocGalEphemerisReportIndMsgT_data_v02 = Some (qmiLocGalEphemerisReportIndMsgT_v02, 7, [(8, (0, 92), qmiLocGalEphemerisT_v02), (1, (0, 60), qmiLocGnssTimeStructT_v02)])"
  by (simp add: qmiLocGalEphemerisReportIndMsgT_data_v02_def qmiLocGalEphemerisReportIndMsgT_v02_def [THEN arg_cong, of laid] analyse_simps layout_simps cong: idl_cong)

definition qmiLocQzssEphemerisReportIndMsgT_data_v02 :: "idl_byte list" where
  "qmiLocQzssEphemerisReportIndMsgT_data_v02 =
    [LIT 0x01, OP [QMI_IDL_FLAGS_IS_ARRAY, QMI_IDL_FLAGS_IS_VARIABLE_LEN] QMI_IDL_AGGREGATE,
      OFFSET8 qmiLocQzssEphemerisReportIndMsgT_v02 ''qzssEphemerisList'',
      LIT QMI_LOC_EPHEMERIS_LIST_MAX_SIZE_V02,
      OFFSET8_DIFF qmiLocQzssEphemerisReportIndMsgT_v02 ''qzssEphemerisList'' ''qzssEphemerisList_len'',
      TYPE88 0 89,
     TLV [QMI_IDL_TLV_FLAGS_LAST_TLV, QMI_IDL_TLV_FLAGS_OPTIONAL] (OFFSET16_DIFF qmiLocQzssEphemerisReportIndMsgT_v02 ''gpsSystemTime'' ''gpsSystemTime_valid''),
      LIT 0x10, OP [QMI_IDL_FLAGS_OFFSET_IS_16] QMI_IDL_AGGREGATE,
      OFFSET16ARRAY qmiLocQzssEphemerisReportIndMsgT_v02 ''gpsSystemTime'', TYPE88 0 60]"

lemma qmiLocQzssEphemerisReportIndMsgT_data_v02_ok [idl_simps]:
  "describe_msg qmiLocQzssEphemerisReportIndMsgT_data_v02 = Some (qmiLocQzssEphemerisReportIndMsgT_v02, 7, [(8, (0, 89), qmiLocGpsEphemerisT_v02), (1, (0, 60), qmiLocGnssTimeStructT_v02)])"
  by (simp add: qmiLocQzssEphemerisReportIndMsgT_data_v02_def qmiLocQzssEphemerisReportIndMsgT_v02_def [THEN arg_cong, of laid] analyse_simps layout_simps cong: idl_cong)

definition qmiLocSetConstrainedTuncModeReqMsgT_data_v02 :: "idl_byte list" where
  "qmiLocSetConstrainedTuncModeReqMsgT_data_v02 =
    [LIT 0x01, OP [] QMI_IDL_GENERIC_1_BYTE,
      OFFSET8 qmiLocSetConstrainedTuncModeReqMsgT_v02 ''tuncConstraintOn'',
     TLV [QMI_IDL_TLV_FLAGS_OPTIONAL] (OFFSET8_DIFF qmiLocSetConstrainedTuncModeReqMsgT_v02 ''tuncConstraint'' ''tuncConstraint_valid''),
      LIT 0x10, OP [] QMI_IDL_GENERIC_4_BYTE,
      OFFSET8 qmiLocSetConstrainedTuncModeReqMsgT_v02 ''tuncConstraint'',
     TLV [QMI_IDL_TLV_FLAGS_LAST_TLV, QMI_IDL_TLV_FLAGS_OPTIONAL] (OFFSET8_DIFF qmiLocSetConstrainedTuncModeReqMsgT_v02 ''energyBudget'' ''energyBudget_valid''),
      LIT 0x11, OP [] QMI_IDL_GENERIC_4_BYTE,
      OFFSET8 qmiLocSetConstrainedTuncModeReqMsgT_v02 ''energyBudget'']"

lemma qmiLocSetConstrainedTuncModeReqMsgT_data_v02_ok [idl_simps]:
  "describe_msg qmiLocSetConstrainedTuncModeReqMsgT_data_v02 = Some (qmiLocSetConstrainedTuncModeReqMsgT_v02, 18, [])"
  by (simp add: qmiLocSetConstrainedTuncModeReqMsgT_data_v02_def qmiLocSetConstrainedTuncModeReqMsgT_v02_def [THEN arg_cong, of laid] analyse_simps layout_simps cong: idl_cong)

definition qmiLocSetConstrainedTuncModeIndMsgT_data_v02 :: "idl_byte list" where
  "qmiLocSetConstrainedTuncModeIndMsgT_data_v02 =
    [TLV [QMI_IDL_TLV_FLAGS_LAST_TLV] (LIT 0x01), OP [] QMI_IDL_GENERIC_4_BYTE,
      OFFSET8 qmiLocSetConstrainedTuncModeIndMsgT_v02 ''status'']"

lemma qmiLocSetConstrainedTuncModeIndMsgT_data_v02_ok [idl_simps]:
  "describe_msg qmiLocSetConstrainedTuncModeIndMsgT_data_v02 = Some (qmiLocSetConstrainedTuncModeIndMsgT_v02, 7, [])"
  by (simp add: qmiLocSetConstrainedTuncModeIndMsgT_data_v02_def qmiLocSetConstrainedTuncModeIndMsgT_v02_def [THEN arg_cong, of laid] analyse_simps layout_simps cong: idl_cong)

definition qmiLocEnablePositionAssistedClockEstReqMsgT_data_v02 :: "idl_byte list" where
  "qmiLocEnablePositionAssistedClockEstReqMsgT_data_v02 =
    [TLV [QMI_IDL_TLV_FLAGS_LAST_TLV] (LIT 0x01), OP [] QMI_IDL_GENERIC_1_BYTE,
      OFFSET8 qmiLocEnablePositionAssistedClockEstReqMsgT_v02 ''enablePositionAssistedClockEst'']"

lemma qmiLocEnablePositionAssistedClockEstReqMsgT_data_v02_ok [idl_simps]:
  "describe_msg qmiLocEnablePositionAssistedClockEstReqMsgT_data_v02 = Some (qmiLocEnablePositionAssistedClockEstReqMsgT_v02, 4, [])"
  by (simp add: qmiLocEnablePositionAssistedClockEstReqMsgT_data_v02_def qmiLocEnablePositionAssistedClockEstReqMsgT_v02_def [THEN arg_cong, of laid] analyse_simps layout_simps cong: idl_cong)

definition qmiLocEnablePositionAssistedClockEstIndMsgT_data_v02 :: "idl_byte list" where
  "qmiLocEnablePositionAssistedClockEstIndMsgT_data_v02 =
    [TLV [QMI_IDL_TLV_FLAGS_LAST_TLV] (LIT 0x01), OP [] QMI_IDL_GENERIC_4_BYTE,
      OFFSET8 qmiLocEnablePositionAssistedClockEstIndMsgT_v02 ''status'']"

lemma qmiLocEnablePositionAssistedClockEstIndMsgT_data_v02_ok [idl_simps]:
  "describe_msg qmiLocEnablePositionAssistedClockEstIndMsgT_data_v02 = Some (qmiLocEnablePositionAssistedClockEstIndMsgT_v02, 7, [])"
  by (simp add: qmiLocEnablePositionAssistedClockEstIndMsgT_data_v02_def qmiLocEnablePositionAssistedClockEstIndMsgT_v02_def [THEN arg_cong, of laid] analyse_simps layout_simps cong: idl_cong)

definition qmiLocQueryGNSSEnergyConsumedIndMsgT_data_v02 :: "idl_byte list" where
  "qmiLocQueryGNSSEnergyConsumedIndMsgT_data_v02 =
    [LIT 0x01, OP [] QMI_IDL_GENERIC_8_BYTE,
      OFFSET8 qmiLocQueryGNSSEnergyConsumedIndMsgT_v02 ''energyConsumedSinceLastBoot'',
     TLV [QMI_IDL_TLV_FLAGS_LAST_TLV] (LIT 0x02), OP [] QMI_IDL_GENERIC_8_BYTE,
      OFFSET8 qmiLocQueryGNSSEnergyConsumedIndMsgT_v02 ''energyConsumedSinceFirstBoot'']"

lemma qmiLocQueryGNSSEnergyConsumedIndMsgT_data_v02_ok [idl_simps]:
  "describe_msg qmiLocQueryGNSSEnergyConsumedIndMsgT_data_v02 = Some (qmiLocQueryGNSSEnergyConsumedIndMsgT_v02, 22, [])"
  by (simp add: qmiLocQueryGNSSEnergyConsumedIndMsgT_data_v02_def qmiLocQueryGNSSEnergyConsumedIndMsgT_v02_def [THEN arg_cong, of laid] analyse_simps layout_simps cong: idl_cong)

definition qmiLocEventReportIndMsgT_data_v02 :: "idl_byte list" where
  "qmiLocEventReportIndMsgT_data_v02 =
    [LIT 0x01, OP [] QMI_IDL_GENERIC_8_BYTE, OFFSET8 qmiLocEventReportIndMsgT_v02 ''eventReport'',
     TLV [QMI_IDL_TLV_FLAGS_OPTIONAL] (OFFSET8_DIFF qmiLocEventReportIndMsgT_v02 ''gpsSystemTime'' ''gpsSystemTime_valid''),
      LIT 0x10, OP [] QMI_IDL_AGGREGATE, OFFSET8 qmiLocEventReportIndMsgT_v02 ''gpsSystemTime'',
      TYPE88 0 60,
     TLV [QMI_IDL_TLV_FLAGS_OPTIONAL] (OFFSET8_DIFF qmiLocEventReportIndMsgT_v02 ''klobucharIonoModel'' ''klobucharIonoModel_valid''),
      LIT 0x11, OP [] QMI_IDL_AGGREGATE, OFFSET8 qmiLocEventReportIndMsgT_v02 ''klobucharIonoModel'',
      TYPE88 0 93,
     TLV [QMI_IDL_TLV_FLAGS_OPTIONAL] (OFFSET8_DIFF qmiLocEventReportIndMsgT_v02 ''tauC'' ''tauC_valid''),
      LIT 0x12, OP [] QMI_IDL_GENERIC_8_BYTE, OFFSET8 qmiLocEventReportIndMsgT_v02 ''tauC'',
     TLV [QMI_IDL_TLV_FLAGS_OPTIONAL] (OFFSET8_DIFF qmiLocEventReportIndMsgT_v02 ''leapSec'' ''leapSec_valid''),
      LIT 0x13, OP [] QMI_IDL_GENERIC_1_BYTE, OFFSET8 qmiLocEventReportIndMsgT_v02 ''leapSec'',
     TLV [QMI_IDL_TLV_FLAGS_LAST_TLV, QMI_IDL_TLV_FLAGS_OPTIONAL] (OFFSET8_DIFF qmiLocEventReportIndMsgT_v02 ''featureStatusReport'' ''featureStatusReport_valid''),
      LIT 0x14, OP [] QMI_IDL_GENERIC_8_BYTE,
      OFFSET8 qmiLocEventReportIndMsgT_v02 ''featureStatusReport'']"

lemma qmiLocEventReportIndMsgT_data_v02_ok [idl_simps]:
  "describe_msg qmiLocEventReportIndMsgT_data_v02 = Some (qmiLocEventReportIndMsgT_v02, 43, [(1, (0, 60), qmiLocGnssTimeStructT_v02), (1, (0, 93), qmiLocKlobucharIonoModelT_v02)])"
  by (simp add: qmiLocEventReportIndMsgT_data_v02_def qmiLocEventReportIndMsgT_v02_def [THEN arg_cong, of laid] analyse_simps layout_simps cong: idl_cong)

definition qmiLocGetBandMeasurementMetricsIndMsgT_data_v02 :: "idl_byte list" where
  "qmiLocGetBandMeasurementMetricsIndMsgT_data_v02 =
    [LIT 0x01, OP [] QMI_IDL_GENERIC_8_BYTE,
      OFFSET8 qmiLocGetBandMeasurementMetricsIndMsgT_v02 ''systemTick'',
     LIT 0x02, OP [] QMI_IDL_GENERIC_4_BYTE,
      OFFSET8 qmiLocGetBandMeasurementMetricsIndMsgT_v02 ''band1PgaGainDb'',
     TLV [QMI_IDL_TLV_FLAGS_OPTIONAL] (OFFSET8_DIFF qmiLocGetBandMeasurementMetricsIndMsgT_v02 ''gpsL1caRfStats'' ''gpsL1caRfStats_valid''),
      LIT 0x10, OP [] QMI_IDL_AGGREGATE,
      OFFSET8 qmiLocGetBandMeasurementMetricsIndMsgT_v02 ''gpsL1caRfStats'', TYPE88 0 94,
     TLV [QMI_IDL_TLV_FLAGS_OPTIONAL] (OFFSET8_DIFF qmiLocGetBandMeasurementMetricsIndMsgT_v02 ''gloG1RfStats'' ''gloG1RfStats_valid''),
      LIT 0x11, OP [] QMI_IDL_AGGREGATE,
      OFFSET8 qmiLocGetBandMeasurementMetricsIndMsgT_v02 ''gloG1RfStats'', TYPE88 0 94,
     TLV [QMI_IDL_TLV_FLAGS_OPTIONAL] (OFFSET8_DIFF qmiLocGetBandMeasurementMetricsIndMsgT_v02 ''bdsB1RfStats'' ''bdsB1RfStats_valid''),
      LIT 0x12, OP [] QMI_IDL_AGGREGATE,
      OFFSET8 qmiLocGetBandMeasurementMetricsIndMsgT_v02 ''bdsB1RfStats'', TYPE88 0 94,
     TLV [QMI_IDL_TLV_FLAGS_OPTIONAL] (OFFSET8_DIFF qmiLocGetBandMeasurementMetricsIndMsgT_v02 ''galE1RfStats'' ''galE1RfStats_valid''),
      LIT 0x13, OP [] QMI_IDL_AGGREGATE,
      OFFSET8 qmiLocGetBandMeasurementMetricsIndMsgT_v02 ''galE1RfStats'', TYPE88 0 94,
     TLV [QMI_IDL_TLV_FLAGS_OPTIONAL] (OFFSET8_DIFF qmiLocGetBandMeasurementMetricsIndMsgT_v02 ''gpsL2cRfStats'' ''gpsL2cRfStats_valid''),
      LIT 0x14, OP [] QMI_IDL_AGGREGATE,
      OFFSET8 qmiLocGetBandMeasurementMetricsIndMsgT_v02 ''gpsL2cRfStats'', TYPE88 0 94,
     TLV [QMI_IDL_TLV_FLAGS_OPTIONAL] (OFFSET8_DIFF qmiLocGetBandMeasurementMetricsIndMsgT_v02 ''gloG2RfStats'' ''gloG2RfStats_valid''),
      LIT 0x15, OP [] QMI_IDL_AGGREGATE,
      OFFSET8 qmiLocGetBandMeasurementMetricsIndMsgT_v02 ''gloG2RfStats'', TYPE88 0 94,
     TLV [QMI_IDL_TLV_FLAGS_OPTIONAL] (OFFSET8_DIFF qmiLocGetBandMeasurementMetricsIndMsgT_v02 ''bdsB2RfStats'' ''bdsB2RfStats_valid''),
      LIT 0x16, OP [] QMI_IDL_AGGREGATE,
      OFFSET8 qmiLocGetBandMeasurementMetricsIndMsgT_v02 ''bdsB2RfStats'', TYPE88 0 94,
     TLV [QMI_IDL_TLV_FLAGS_OPTIONAL] (OFFSET8_DIFF qmiLocGetBandMeasurementMetricsIndMsgT_v02 ''band5PgaGainDb'' ''band5PgaGainDb_valid''),
      LIT 0x17, OP [] QMI_IDL_GENERIC_4_BYTE,
      OFFSET8 qmiLocGetBandMeasurementMetricsIndMsgT_v02 ''band5PgaGainDb'',
     TLV [QMI_IDL_TLV_FLAGS_OPTIONAL] (OFFSET8_DIFF qmiLocGetBandMeasurementMetricsIndMsgT_v02 ''gpsL5RfStats'' ''gpsL5RfStats_valid''),
      LIT 0x18, OP [] QMI_IDL_AGGREGATE,
      OFFSET8 qmiLocGetBandMeasurementMetricsIndMsgT_v02 ''gpsL5RfStats'', TYPE88 0 94,
     TLV [QMI_IDL_TLV_FLAGS_LAST_TLV, QMI_IDL_TLV_FLAGS_OPTIONAL] (OFFSET8_DIFF qmiLocGetBandMeasurementMetricsIndMsgT_v02 ''galE5ARfStats'' ''galE5ARfStats_valid''),
      LIT 0x19, OP [] QMI_IDL_AGGREGATE,
      OFFSET8 qmiLocGetBandMeasurementMetricsIndMsgT_v02 ''galE5ARfStats'', TYPE88 0 94]"

lemma qmiLocGetBandMeasurementMetricsIndMsgT_data_v02_ok [idl_simps]:
  "describe_msg qmiLocGetBandMeasurementMetricsIndMsgT_data_v02 = Some (qmiLocGetBandMeasurementMetricsIndMsgT_v02, 52, [(1, (0, 94), qmiLocMePerGnssRfStructType_v02), (1, (0, 94), qmiLocMePerGnssRfStructType_v02), (1, (0, 94), qmiLocMePerGnssRfStructType_v02), (1, (0, 94), qmiLocMePerGnssRfStructType_v02), (1, (0, 94), qmiLocMePerGnssRfStructType_v02), (1, (0, 94), qmiLocMePerGnssRfStructType_v02), (1, (0, 94), qmiLocMePerGnssRfStructType_v02), (1, (0, 94), qmiLocMePerGnssRfStructType_v02), (1, (0, 94), qmiLocMePerGnssRfStructType_v02)])"
  by (simp add: qmiLocGetBandMeasurementMetricsIndMsgT_data_v02_def qmiLocGetBandMeasurementMetricsIndMsgT_v02_def [THEN arg_cong, of laid] analyse_simps layout_simps cong: idl_cong)

definition qmiLocLocationRequestNotificationIndMsgT_data_v02 :: "idl_byte list" where
  "qmiLocLocationRequestNotificationIndMsgT_data_v02 =
    [LIT 0x01, OP [] QMI_IDL_GENERIC_4_BYTE,
      OFFSET8 qmiLocLocationRequestNotificationIndMsgT_v02 ''protocolStack'',
     LIT 0x02, OP [] QMI_IDL_GENERIC_4_BYTE,
      OFFSET8 qmiLocLocationRequestNotificationIndMsgT_v02 ''requestor'',
     LIT 0x03, OP [QMI_IDL_FLAGS_IS_ARRAY, QMI_IDL_FLAGS_IS_VARIABLE_LEN] QMI_IDL_STRING,
      OFFSET8 qmiLocLocationRequestNotificationIndMsgT_v02 ''requestorId'',
      LIT QMI_LOC_MAX_REQUESTOR_ID_STRING_LENGTH_V02,
     LIT 0x04, OP [] QMI_IDL_GENERIC_4_BYTE,
      OFFSET8 qmiLocLocationRequestNotificationIndMsgT_v02 ''responseType'',
     LIT 0x05, OP [] QMI_IDL_GENERIC_4_BYTE,
      OFFSET8 qmiLocLocationRequestNotificationIndMsgT_v02 ''responseProtocol'',
     LIT 0x06, OP [] QMI_IDL_GENERIC_1_BYTE,
      OFFSET8 qmiLocLocationRequestNotificationIndMsgT_v02 ''inEmergencyMode'',
     LIT 0x07, OP [] QMI_IDL_GENERIC_1_BYTE,
      OFFSET8 qmiLocLocationRequestNotificationIndMsgT_v02 ''isCachedLocation'',
     TLV [QMI_IDL_TLV_FLAGS_LAST_TLV, QMI_IDL_TLV_FLAGS_OPTIONAL] (OFFSET8_DIFF qmiLocLocationRequestNotificationIndMsgT_v02 ''clientStrId'' ''clientStrId_valid''),
      LIT 0x10, OP [QMI_IDL_FLAGS_IS_ARRAY, QMI_IDL_FLAGS_IS_VARIABLE_LEN] QMI_IDL_STRING,
      OFFSET8 qmiLocLocationRequestNotificationIndMsgT_v02 ''clientStrId'',
      LIT QMI_LOC_MAX_CLIENT_ID_STRING_LENGTH_V02]"

lemma qmiLocLocationRequestNotificationIndMsgT_data_v02_ok [idl_simps]:
  "describe_msg qmiLocLocationRequestNotificationIndMsgT_data_v02 = Some (qmiLocLocationRequestNotificationIndMsgT_v02, 66, [])"
  by (simp add: qmiLocLocationRequestNotificationIndMsgT_data_v02_def qmiLocLocationRequestNotificationIndMsgT_v02_def [THEN arg_cong, of laid] analyse_simps layout_simps cong: idl_cong)

definition qmiLocInjectPlatformPowerStateReqMsgT_data_v02 :: "idl_byte list" where
  "qmiLocInjectPlatformPowerStateReqMsgT_data_v02 =
    [TLV [QMI_IDL_TLV_FLAGS_LAST_TLV] (LIT 0x01), OP [] QMI_IDL_GENERIC_4_BYTE,
      OFFSET8 qmiLocInjectPlatformPowerStateReqMsgT_v02 ''powerState'']"

lemma qmiLocInjectPlatformPowerStateReqMsgT_data_v02_ok [idl_simps]:
  "describe_msg qmiLocInjectPlatformPowerStateReqMsgT_data_v02 = Some (qmiLocInjectPlatformPowerStateReqMsgT_v02, 7, [])"
  by (simp add: qmiLocInjectPlatformPowerStateReqMsgT_data_v02_def qmiLocInjectPlatformPowerStateReqMsgT_v02_def [THEN arg_cong, of laid] analyse_simps layout_simps cong: idl_cong)

definition qmiLocInjectPlatformPowerStateIndMsgT_data_v02 :: "idl_byte list" where
  "qmiLocInjectPlatformPowerStateIndMsgT_data_v02 =
    [TLV [QMI_IDL_TLV_FLAGS_LAST_TLV] (LIT 0x01), OP [] QMI_IDL_GENERIC_4_BYTE,
      OFFSET8 qmiLocInjectPlatformPowerStateIndMsgT_v02 ''status'']"

lemma qmiLocInjectPlatformPowerStateIndMsgT_data_v02_ok [idl_simps]:
  "describe_msg qmiLocInjectPlatformPowerStateIndMsgT_data_v02 = Some (qmiLocInjectPlatformPowerStateIndMsgT_v02, 7, [])"
  by (simp add: qmiLocInjectPlatformPowerStateIndMsgT_data_v02_def qmiLocInjectPlatformPowerStateIndMsgT_v02_def [THEN arg_cong, of laid] analyse_simps layout_simps cong: idl_cong)

definition qmiLocSetRobustLocationReqMsgT_data_v02 :: "idl_byte list" where
  "qmiLocSetRobustLocationReqMsgT_data_v02 =
    [LIT 0x01, OP [] QMI_IDL_GENERIC_1_BYTE, OFFSET8 qmiLocSetRobustLocationReqMsgT_v02 ''enable'',
     TLV [QMI_IDL_TLV_FLAGS_LAST_TLV, QMI_IDL_TLV_FLAGS_OPTIONAL] (OFFSET8_DIFF qmiLocSetRobustLocationReqMsgT_v02 ''enableForE911'' ''enableForE911_valid''),
      LIT 0x10, OP [] QMI_IDL_GENERIC_1_BYTE,
      OFFSET8 qmiLocSetRobustLocationReqMsgT_v02 ''enableForE911'']"

lemma qmiLocSetRobustLocationReqMsgT_data_v02_ok [idl_simps]:
  "describe_msg qmiLocSetRobustLocationReqMsgT_data_v02 = Some (qmiLocSetRobustLocationReqMsgT_v02, 8, [])"
  by (simp add: qmiLocSetRobustLocationReqMsgT_data_v02_def qmiLocSetRobustLocationReqMsgT_v02_def [THEN arg_cong, of laid] analyse_simps layout_simps cong: idl_cong)

definition qmiLocGetRobustLocationConfigIndMsgT_data_v02 :: "idl_byte list" where
  "qmiLocGetRobustLocationConfigIndMsgT_data_v02 =
    [LIT 0x01, OP [] QMI_IDL_GENERIC_4_BYTE,
      OFFSET8 qmiLocGetRobustLocationConfigIndMsgT_v02 ''status'',
     TLV [QMI_IDL_TLV_FLAGS_OPTIONAL] (OFFSET8_DIFF qmiLocGetRobustLocationConfigIndMsgT_v02 ''isEnabled'' ''isEnabled_valid''),
      LIT 0x10, OP [] QMI_IDL_GENERIC_1_BYTE,
      OFFSET8 qmiLocGetRobustLocationConfigIndMsgT_v02 ''isEnabled'',
     TLV [QMI_IDL_TLV_FLAGS_OPTIONAL] (OFFSET8_DIFF qmiLocGetRobustLocationConfigIndMsgT_v02 ''isEnabledForE911'' ''isEnabledForE911_valid''),
      LIT 0x11, OP [] QMI_IDL_GENERIC_1_BYTE,
      OFFSET8 qmiLocGetRobustLocationConfigIndMsgT_v02 ''isEnabledForE911'',
     TLV [QMI_IDL_TLV_FLAGS_LAST_TLV, QMI_IDL_TLV_FLAGS_OPTIONAL] (OFFSET8_DIFF qmiLocGetRobustLocationConfigIndMsgT_v02 ''robustLocationVersion'' ''robustLocationVersion_valid''),
      LIT 0x12, OP [] QMI_IDL_AGGREGATE,
      OFFSET8 qmiLocGetRobustLocationConfigIndMsgT_v02 ''robustLocationVersion'', TYPE88 0 95]"

lemma qmiLocGetRobustLocationConfigIndMsgT_data_v02_ok [idl_simps]:
  "describe_msg qmiLocGetRobustLocationConfigIndMsgT_data_v02 = Some (qmiLocGetRobustLocationConfigIndMsgT_v02, 18, [(1, (0, 95), qmiLocRobustLocationVersionT_v02)])"
  by (simp add: qmiLocGetRobustLocationConfigIndMsgT_data_v02_def qmiLocGetRobustLocationConfigIndMsgT_v02_def [THEN arg_cong, of laid] analyse_simps layout_simps cong: idl_cong)

definition qmiLocEventInjectEnvAidingReqMsgT_data_v02 :: "idl_byte list" where
  "qmiLocEventInjectEnvAidingReqMsgT_data_v02 =
    [LIT 0x01, OP [] QMI_IDL_GENERIC_1_BYTE, OFFSET8 qmiLocEventInjectEnvAidingReqMsgT_v02 ''seqNum'',
     LIT 0x02, OP [] QMI_IDL_GENERIC_1_BYTE,
      OFFSET8 qmiLocEventInjectEnvAidingReqMsgT_v02 ''maxMessageNum'',
     TLV [QMI_IDL_TLV_FLAGS_OPTIONAL] (OFFSET8_DIFF qmiLocEventInjectEnvAidingReqMsgT_v02 ''envBearingValidity'' ''envBearingValidity_valid''),
      LIT 0x10, OP [] QMI_IDL_GENERIC_1_BYTE,
      OFFSET8 qmiLocEventInjectEnvAidingReqMsgT_v02 ''envBearingValidity'',
     TLV [QMI_IDL_TLV_FLAGS_OPTIONAL] (OFFSET8_DIFF qmiLocEventInjectEnvAidingReqMsgT_v02 ''envBearingDegrees'' ''envBearingDegrees_valid''),
      LIT 0x11, OP [] QMI_IDL_GENERIC_4_BYTE,
      OFFSET8 qmiLocEventInjectEnvAidingReqMsgT_v02 ''envBearingDegrees'',
     TLV [QMI_IDL_TLV_FLAGS_OPTIONAL] (OFFSET8_DIFF qmiLocEventInjectEnvAidingReqMsgT_v02 ''envBearingUncDegrees'' ''envBearingUncDegrees_valid''),
      LIT 0x12, OP [] QMI_IDL_GENERIC_4_BYTE,
      OFFSET8 qmiLocEventInjectEnvAidingReqMsgT_v02 ''envBearingUncDegrees'',
     TLV [QMI_IDL_TLV_FLAGS_OPTIONAL] (OFFSET8_DIFF qmiLocEventInjectEnvAidingReqMsgT_v02 ''latitudeDegrees'' ''latitudeDegrees_valid''),
      LIT 0x13, OP [] QMI_IDL_GENERIC_8_BYTE,
      OFFSET8 qmiLocEventInjectEnvAidingReqMsgT_v02 ''latitudeDegrees'',
     TLV [QMI_IDL_TLV_FLAGS_OPTIONAL] (OFFSET8_DIFF qmiLocEventInjectEnvAidingReqMsgT_v02 ''longitudeDegrees'' ''longitudeDegrees_valid''),
      LIT 0x14, OP [] QMI_IDL_GENERIC_8_BYTE,
      OFFSET8 qmiLocEventInjectEnvAidingReqMsgT_v02 ''longitudeDegrees'',
     TLV [QMI_IDL_TLV_FLAGS_OPTIONAL] (OFFSET8_DIFF qmiLocEventInjectEnvAidingReqMsgT_v02 ''horizontalPositionUncMeters'' ''horizontalPositionUncMeters_valid''),
      LIT 0x15, OP [] QMI_IDL_GENERIC_8_BYTE,
      OFFSET8 qmiLocEventInjectEnvAidingReqMsgT_v02 ''horizontalPositionUncMeters'',
     TLV [QMI_IDL_TLV_FLAGS_OPTIONAL] (OFFSET8_DIFF qmiLocEventInjectEnvAidingReqMsgT_v02 ''altitudeMeters'' ''altitudeMeters_valid''),
      LIT 0x16, OP [] QMI_IDL_GENERIC_8_BYTE,
      OFFSET8 qmiLocEventInjectEnvAidingReqMsgT_v02 ''altitudeMeters'',
     TLV [QMI_IDL_TLV_FLAGS_OPTIONAL] (OFFSET8_DIFF qmiLocEventInjectEnvAidingReqMsgT_v02 ''altitudeUncMeters'' ''altitudeUncMeters_valid''),
      LIT 0x17, OP [] QMI_IDL_GENERIC_8_BYTE,
      OFFSET8 qmiLocEventInjectEnvAidingReqMsgT_v02 ''altitudeUncMeters'',
     TLV [QMI_IDL_TLV_FLAGS_OPTIONAL] (OFFSET8_DIFF qmiLocEventInjectEnvAidingReqMsgT_v02 ''toaGpsNanosecondsOfWeek'' ''toaGpsNanosecondsOfWeek_valid''),
      LIT 0x18, OP [] QMI_IDL_GENERIC_8_BYTE,
      OFFSET8 qmiLocEventInjectEnvAidingReqMsgT_v02 ''toaGpsNanosecondsOfWeek'',
     TLV [QMI_IDL_TLV_FLAGS_LAST_TLV, QMI_IDL_TLV_FLAGS_OPTIONAL] (OFFSET8_DIFF qmiLocEventInjectEnvAidingReqMsgT_v02 ''svCorrection'' ''svCorrection_valid''),
      LIT 0x19, OP [QMI_IDL_FLAGS_IS_ARRAY, QMI_IDL_FLAGS_IS_VARIABLE_LEN] QMI_IDL_AGGREGATE,
      OFFSET8 qmiLocEventInjectEnvAidingReqMsgT_v02 ''svCorrection'',
      LIT QMI_LOC_ENV_AIDING_CORRECTION_MAX_SV_USED_V02,
      OFFSET8_DIFF qmiLocEventInjectEnvAidingReqMsgT_v02 ''svCorrection'' ''svCorrection_len'',
      TYPE88 0 97]"

lemma qmiLocEventInjectEnvAidingReqMsgT_data_v02_ok [idl_simps]:
  "describe_msg qmiLocEventInjectEnvAidingReqMsgT_data_v02 = Some (qmiLocEventInjectEnvAidingReqMsgT_v02, 96, [(60, (0, 97), qmiLocEnvAidingSVCorrectionStructT_v02)])"
  by (simp add: qmiLocEventInjectEnvAidingReqMsgT_data_v02_def qmiLocEventInjectEnvAidingReqMsgT_v02_def [THEN arg_cong, of laid] analyse_simps layout_simps cong: idl_cong)

definition qmiLocSetMinGpsWeekNumberReqMsgT_data_v02 :: "idl_byte list" where
  "qmiLocSetMinGpsWeekNumberReqMsgT_data_v02 =
    [TLV [QMI_IDL_TLV_FLAGS_LAST_TLV] (LIT 0x01), OP [] QMI_IDL_GENERIC_2_BYTE,
      OFFSET8 qmiLocSetMinGpsWeekNumberReqMsgT_v02 ''minGpsWeekNumber'']"

lemma qmiLocSetMinGpsWeekNumberReqMsgT_data_v02_ok [idl_simps]:
  "describe_msg qmiLocSetMinGpsWeekNumberReqMsgT_data_v02 = Some (qmiLocSetMinGpsWeekNumberReqMsgT_v02, 5, [])"
  by (simp add: qmiLocSetMinGpsWeekNumberReqMsgT_data_v02_def qmiLocSetMinGpsWeekNumberReqMsgT_v02_def [THEN arg_cong, of laid] analyse_simps layout_simps cong: idl_cong)

definition qmiLocGetMinGpsWeekNumberIndMsgT_data_v02 :: "idl_byte list" where
  "qmiLocGetMinGpsWeekNumberIndMsgT_data_v02 =
    [LIT 0x01, OP [] QMI_IDL_GENERIC_4_BYTE, OFFSET8 qmiLocGetMinGpsWeekNumberIndMsgT_v02 ''status'',
     TLV [QMI_IDL_TLV_FLAGS_LAST_TLV, QMI_IDL_TLV_FLAGS_OPTIONAL] (OFFSET8_DIFF qmiLocGetMinGpsWeekNumberIndMsgT_v02 ''minGpsWeekNumber'' ''minGpsWeekNumber_valid''),
      LIT 0x10, OP [] QMI_IDL_GENERIC_2_BYTE,
      OFFSET8 qmiLocGetMinGpsWeekNumberIndMsgT_v02 ''minGpsWeekNumber'']"

lemma qmiLocGetMinGpsWeekNumberIndMsgT_data_v02_ok [idl_simps]:
  "describe_msg qmiLocGetMinGpsWeekNumberIndMsgT_data_v02 = Some (qmiLocGetMinGpsWeekNumberIndMsgT_v02, 12, [])"
  by (simp add: qmiLocGetMinGpsWeekNumberIndMsgT_data_v02_def qmiLocGetMinGpsWeekNumberIndMsgT_v02_def [THEN arg_cong, of laid] analyse_simps layout_simps cong: idl_cong)

definition qmiLocSapInsParamsIndMsgT_data_v02 :: "idl_byte list" where
  "qmiLocSapInsParamsIndMsgT_data_v02 =
    [LIT 0x01, OP [] QMI_IDL_GENERIC_1_BYTE, OFFSET8 qmiLocSapInsParamsIndMsgT_v02 ''status'',
     LIT 0x02, OP [] QMI_IDL_GENERIC_1_BYTE, OFFSET8 qmiLocSapInsParamsIndMsgT_v02 ''fixStatus'',
     LIT 0x03, OP [] QMI_IDL_AGGREGATE, OFFSET8 qmiLocSapInsParamsIndMsgT_v02 ''systemTime'',
      TYPE88 0 60,
     TLV [QMI_IDL_TLV_FLAGS_OPTIONAL] (OFFSET8_DIFF qmiLocSapInsParamsIndMsgT_v02 ''state'' ''state_valid''),
      LIT 0x10, OP [QMI_IDL_FLAGS_IS_ARRAY] QMI_IDL_GENERIC_8_BYTE,
      OFFSET8 qmiLocSapInsParamsIndMsgT_v02 ''state'', LIT QMI_LOC_FILTER_ELEMENT_SIZE_SEVENTEEN_V02,
     TLV [QMI_IDL_TLV_FLAGS_OPTIONAL] (OFFSET8_DIFF qmiLocSapInsParamsIndMsgT_v02 ''var'' ''var_valid''),
      LIT 0x11, OP [QMI_IDL_FLAGS_IS_ARRAY] QMI_IDL_GENERIC_8_BYTE,
      OFFSET8 qmiLocSapInsParamsIndMsgT_v02 ''var'', LIT QMI_LOC_FILTER_ELEMENT_SIZE_SEVENTEEN_V02,
     TLV [QMI_IDL_TLV_FLAGS_OPTIONAL] (OFFSET16_DIFF qmiLocSapInsParamsIndMsgT_v02 ''rel1'' ''rel1_valid''),
      LIT 0x12, OP [QMI_IDL_FLAGS_OFFSET_IS_16] QMI_IDL_GENERIC_1_BYTE,
      OFFSET16ARRAY qmiLocSapInsParamsIndMsgT_v02 ''rel1'',
     TLV [QMI_IDL_TLV_FLAGS_OPTIONAL] (OFFSET16_DIFF qmiLocSapInsParamsIndMsgT_v02 ''rel2'' ''rel2_valid''),
      LIT 0x13, OP [QMI_IDL_FLAGS_OFFSET_IS_16] QMI_IDL_GENERIC_1_BYTE,
      OFFSET16ARRAY qmiLocSapInsParamsIndMsgT_v02 ''rel2'',
     TLV [QMI_IDL_TLV_FLAGS_OPTIONAL] (OFFSET16_DIFF qmiLocSapInsParamsIndMsgT_v02 ''residual1'' ''residual1_valid''),
      LIT 0x14, OP [QMI_IDL_FLAGS_OFFSET_IS_16] QMI_IDL_GENERIC_8_BYTE,
      OFFSET16ARRAY qmiLocSapInsParamsIndMsgT_v02 ''residual1'',
     TLV [QMI_IDL_TLV_FLAGS_OPTIONAL] (OFFSET16_DIFF qmiLocSapInsParamsIndMsgT_v02 ''obs1'' ''obs1_valid''),
      LIT 0x15, OP [QMI_IDL_FLAGS_IS_ARRAY, QMI_IDL_FLAGS_OFFSET_IS_16] QMI_IDL_GENERIC_8_BYTE,
      OFFSET16ARRAY qmiLocSapInsParamsIndMsgT_v02 ''obs1'', LIT QMI_LOC_FILTER_ELEMENT_SIZE_SIX_V02,
     TLV [QMI_IDL_TLV_FLAGS_OPTIONAL] (OFFSET16_DIFF qmiLocSapInsParamsIndMsgT_v02 ''var1'' ''var1_valid''),
      LIT 0x16, OP [QMI_IDL_FLAGS_OFFSET_IS_16] QMI_IDL_GENERIC_8_BYTE,
      OFFSET16ARRAY qmiLocSapInsParamsIndMsgT_v02 ''var1'',
     TLV [QMI_IDL_TLV_FLAGS_OPTIONAL] (OFFSET16_DIFF qmiLocSapInsParamsIndMsgT_v02 ''result1'' ''result1_valid''),
      LIT 0x17, OP [QMI_IDL_FLAGS_OFFSET_IS_16] QMI_IDL_GENERIC_1_BYTE,
      OFFSET16ARRAY qmiLocSapInsParamsIndMsgT_v02 ''result1'',
     TLV [QMI_IDL_TLV_FLAGS_OPTIONAL] (OFFSET16_DIFF qmiLocSapInsParamsIndMsgT_v02 ''residual2'' ''residual2_valid''),
      LIT 0x18, OP [QMI_IDL_FLAGS_OFFSET_IS_16] QMI_IDL_GENERIC_8_BYTE,
      OFFSET16ARRAY qmiLocSapInsParamsIndMsgT_v02 ''residual2'',
     TLV [QMI_IDL_TLV_FLAGS_OPTIONAL] (OFFSET16_DIFF qmiLocSapInsParamsIndMsgT_v02 ''obs2'' ''obs2_valid''),
      LIT 0x19, OP [QMI_IDL_FLAGS_IS_ARRAY, QMI_IDL_FLAGS_OFFSET_IS_16] QMI_IDL_GENERIC_8_BYTE,
      OFFSET16ARRAY qmiLocSapInsParamsIndMsgT_v02 ''obs2'', LIT QMI_LOC_FILTER_ELEMENT_SIZE_SIX_V02,
     TLV [QMI_IDL_TLV_FLAGS_OPTIONAL] (OFFSET16_DIFF qmiLocSapInsParamsIndMsgT_v02 ''var2'' ''var2_valid''),
      LIT 0x1A, OP [QMI_IDL_FLAGS_OFFSET_IS_16] QMI_IDL_GENERIC_8_BYTE,
      OFFSET16ARRAY qmiLocSapInsParamsIndMsgT_v02 ''var2'',
     TLV [QMI_IDL_TLV_FLAGS_OPTIONAL] (OFFSET16_DIFF qmiLocSapInsParamsIndMsgT_v02 ''result2'' ''result2_valid''),
      LIT 0x1B, OP [QMI_IDL_FLAGS_OFFSET_IS_16] QMI_IDL_GENERIC_1_BYTE,
      OFFSET16ARRAY qmiLocSapInsParamsIndMsgT_v02 ''result2'',
     TLV [QMI_IDL_TLV_FLAGS_OPTIONAL] (OFFSET16_DIFF qmiLocSapInsParamsIndMsgT_v02 ''residual3'' ''residual3_valid''),
      LIT 0x1C, OP [QMI_IDL_FLAGS_IS_ARRAY, QMI_IDL_FLAGS_OFFSET_IS_16] QMI_IDL_GENERIC_8_BYTE,
      OFFSET16ARRAY qmiLocSapInsParamsIndMsgT_v02 ''residual3'',
      LIT QMI_LOC_FILTER_ELEMENT_SIZE_THREE_V02,
     TLV [QMI_IDL_TLV_FLAGS_OPTIONAL] (OFFSET16_DIFF qmiLocSapInsParamsIndMsgT_v02 ''var3'' ''var3_valid''),
      LIT 0x1D, OP [QMI_IDL_FLAGS_IS_ARRAY, QMI_IDL_FLAGS_OFFSET_IS_16] QMI_IDL_GENERIC_8_BYTE,
      OFFSET16ARRAY qmiLocSapInsParamsIndMsgT_v02 ''var3'', LIT QMI_LOC_FILTER_ELEMENT_SIZE_THREE_V02,
     TLV [QMI_IDL_TLV_FLAGS_OPTIONAL] (OFFSET16_DIFF qmiLocSapInsParamsIndMsgT_v02 ''result3'' ''result3_valid''),
      LIT 0x1E, OP [QMI_IDL_FLAGS_IS_ARRAY, QMI_IDL_FLAGS_OFFSET_IS_16] QMI_IDL_GENERIC_1_BYTE,
      OFFSET16ARRAY qmiLocSapInsParamsIndMsgT_v02 ''result3'', LIT QMI_LOC_FILTER_ELEMENT_SIZE_THREE_V02,
     TLV [QMI_IDL_TLV_FLAGS_OPTIONAL] (OFFSET16_DIFF qmiLocSapInsParamsIndMsgT_v02 ''residual4'' ''residual4_valid''),
      LIT 0x1F, OP [QMI_IDL_FLAGS_IS_ARRAY, QMI_IDL_FLAGS_OFFSET_IS_16] QMI_IDL_GENERIC_8_BYTE,
      OFFSET16ARRAY qmiLocSapInsParamsIndMsgT_v02 ''residual4'',
      LIT QMI_LOC_FILTER_ELEMENT_SIZE_THREE_V02,
     TLV [QMI_IDL_TLV_FLAGS_OPTIONAL] (OFFSET16_DIFF qmiLocSapInsParamsIndMsgT_v02 ''var4'' ''var4_valid''),
      LIT 0x20, OP [QMI_IDL_FLAGS_IS_ARRAY, QMI_IDL_FLAGS_OFFSET_IS_16] QMI_IDL_GENERIC_8_BYTE,
      OFFSET16ARRAY qmiLocSapInsParamsIndMsgT_v02 ''var4'', LIT QMI_LOC_FILTER_ELEMENT_SIZE_THREE_V02,
     TLV [QMI_IDL_TLV_FLAGS_OPTIONAL] (OFFSET16_DIFF qmiLocSapInsParamsIndMsgT_v02 ''result4'' ''result4_valid''),
      LIT 0x21, OP [QMI_IDL_FLAGS_IS_ARRAY, QMI_IDL_FLAGS_OFFSET_IS_16] QMI_IDL_GENERIC_1_BYTE,
      OFFSET16ARRAY qmiLocSapInsParamsIndMsgT_v02 ''result4'', LIT QMI_LOC_FILTER_ELEMENT_SIZE_THREE_V02,
     TLV [QMI_IDL_TLV_FLAGS_OPTIONAL] (OFFSET16_DIFF qmiLocSapInsParamsIndMsgT_v02 ''acc'' ''acc_valid''),
      LIT 0x22, OP [QMI_IDL_FLAGS_IS_ARRAY, QMI_IDL_FLAGS_OFFSET_IS_16] QMI_IDL_GENERIC_8_BYTE,
      OFFSET16ARRAY qmiLocSapInsParamsIndMsgT_v02 ''acc'', LIT QMI_LOC_FILTER_ELEMENT_SIZE_THREE_V02,
     TLV [QMI_IDL_TLV_FLAGS_OPTIONAL] (OFFSET16_DIFF qmiLocSapInsParamsIndMsgT_v02 ''quat'' ''quat_valid''),
      LIT 0x23, OP [QMI_IDL_FLAGS_IS_ARRAY, QMI_IDL_FLAGS_OFFSET_IS_16] QMI_IDL_GENERIC_8_BYTE,
      OFFSET16ARRAY qmiLocSapInsParamsIndMsgT_v02 ''quat'', LIT QMI_LOC_FILTER_ELEMENT_SIZE_FOUR_V02,
     TLV [QMI_IDL_TLV_FLAGS_OPTIONAL] (OFFSET16_DIFF qmiLocSapInsParamsIndMsgT_v02 ''biasM1'' ''biasM1_valid''),
      LIT 0x24, OP [QMI_IDL_FLAGS_IS_ARRAY, QMI_IDL_FLAGS_OFFSET_IS_16] QMI_IDL_GENERIC_4_BYTE,
      OFFSET16ARRAY qmiLocSapInsParamsIndMsgT_v02 ''biasM1'', LIT QMI_LOC_IPM_ELEMENT_SIZE_THREE_V02,
     TLV [QMI_IDL_TLV_FLAGS_OPTIONAL] (OFFSET16_DIFF qmiLocSapInsParamsIndMsgT_v02 ''biasV1'' ''biasV1_valid''),
      LIT 0x25, OP [QMI_IDL_FLAGS_IS_ARRAY, QMI_IDL_FLAGS_OFFSET_IS_16] QMI_IDL_GENERIC_4_BYTE,
      OFFSET16ARRAY qmiLocSapInsParamsIndMsgT_v02 ''biasV1'', LIT QMI_LOC_IPM_ELEMENT_SIZE_THREE_V02,
     TLV [QMI_IDL_TLV_FLAGS_OPTIONAL] (OFFSET16_DIFF qmiLocSapInsParamsIndMsgT_v02 ''biasM2'' ''biasM2_valid''),
      LIT 0x26, OP [QMI_IDL_FLAGS_IS_ARRAY, QMI_IDL_FLAGS_OFFSET_IS_16] QMI_IDL_GENERIC_4_BYTE,
      OFFSET16ARRAY qmiLocSapInsParamsIndMsgT_v02 ''biasM2'', LIT QMI_LOC_IPM_ELEMENT_SIZE_THREE_V02,
     TLV [QMI_IDL_TLV_FLAGS_OPTIONAL] (OFFSET16_DIFF qmiLocSapInsParamsIndMsgT_v02 ''biasV2'' ''biasV2_valid''),
      LIT 0x27, OP [QMI_IDL_FLAGS_IS_ARRAY, QMI_IDL_FLAGS_OFFSET_IS_16] QMI_IDL_GENERIC_4_BYTE,
      OFFSET16ARRAY qmiLocSapInsParamsIndMsgT_v02 ''biasV2'', LIT QMI_LOC_IPM_ELEMENT_SIZE_THREE_V02,
     TLV [QMI_IDL_TLV_FLAGS_OPTIONAL] (OFFSET16_DIFF qmiLocSapInsParamsIndMsgT_v02 ''rMat1'' ''rMat1_valid''),
      LIT 0x28, OP [QMI_IDL_FLAGS_IS_ARRAY, QMI_IDL_FLAGS_OFFSET_IS_16] QMI_IDL_GENERIC_8_BYTE,
      OFFSET16ARRAY qmiLocSapInsParamsIndMsgT_v02 ''rMat1'', LIT QMI_LOC_IPM_ELEMENT_SIZE_NINE_V02,
     TLV [QMI_IDL_TLV_FLAGS_OPTIONAL] (OFFSET16_DIFF qmiLocSapInsParamsIndMsgT_v02 ''rMat1Count'' ''rMat1Count_valid''),
      LIT 0x29, OP [QMI_IDL_FLAGS_OFFSET_IS_16] QMI_IDL_GENERIC_4_BYTE,
      OFFSET16ARRAY qmiLocSapInsParamsIndMsgT_v02 ''rMat1Count'',
     TLV [QMI_IDL_TLV_FLAGS_OPTIONAL] (OFFSET16_DIFF qmiLocSapInsParamsIndMsgT_v02 ''rMat2'' ''rMat2_valid''),
      LIT 0x2A, OP [QMI_IDL_FLAGS_IS_ARRAY, QMI_IDL_FLAGS_OFFSET_IS_16] QMI_IDL_GENERIC_8_BYTE,
      OFFSET16ARRAY qmiLocSapInsParamsIndMsgT_v02 ''rMat2'', LIT QMI_LOC_IPM_ELEMENT_SIZE_NINE_V02,
     TLV [QMI_IDL_TLV_FLAGS_OPTIONAL] (OFFSET16_DIFF qmiLocSapInsParamsIndMsgT_v02 ''det1Reset'' ''det1Reset_valid''),
      LIT 0x2B, OP [QMI_IDL_FLAGS_OFFSET_IS_16] QMI_IDL_GENERIC_1_BYTE,
      OFFSET16ARRAY qmiLocSapInsParamsIndMsgT_v02 ''det1Reset'',
     TLV [QMI_IDL_TLV_FLAGS_OPTIONAL] (OFFSET16_DIFF qmiLocSapInsParamsIndMsgT_v02 ''det2Status'' ''det2Status_valid''),
      LIT 0x2C, OP [QMI_IDL_FLAGS_OFFSET_IS_16] QMI_IDL_GENERIC_1_BYTE,
      OFFSET16ARRAY qmiLocSapInsParamsIndMsgT_v02 ''det2Status'',
     TLV [QMI_IDL_TLV_FLAGS_OPTIONAL] (OFFSET16_DIFF qmiLocSapInsParamsIndMsgT_v02 ''det2Position'' ''det2Position_valid''),
      LIT 0x2D, OP [QMI_IDL_FLAGS_IS_ARRAY, QMI_IDL_FLAGS_OFFSET_IS_16] QMI_IDL_GENERIC_8_BYTE,
      OFFSET16ARRAY qmiLocSapInsParamsIndMsgT_v02 ''det2Position'',
      LIT QMI_LOC_INS_ELEMENT_SIZE_THREE_V02,
     TLV [QMI_IDL_TLV_FLAGS_OPTIONAL] (OFFSET16_DIFF qmiLocSapInsParamsIndMsgT_v02 ''det2PositionUnc'' ''det2PositionUnc_valid''),
      LIT 0x2E, OP [QMI_IDL_FLAGS_IS_ARRAY, QMI_IDL_FLAGS_OFFSET_IS_16] QMI_IDL_GENERIC_4_BYTE,
      OFFSET16ARRAY qmiLocSapInsParamsIndMsgT_v02 ''det2PositionUnc'',
      LIT QMI_LOC_INS_ELEMENT_SIZE_TWO_V02,
     TLV [QMI_IDL_TLV_FLAGS_OPTIONAL] (OFFSET16_DIFF qmiLocSapInsParamsIndMsgT_v02 ''det3Status'' ''det3Status_valid''),
      LIT 0x2F, OP [QMI_IDL_FLAGS_OFFSET_IS_16] QMI_IDL_GENERIC_1_BYTE,
      OFFSET16ARRAY qmiLocSapInsParamsIndMsgT_v02 ''det3Status'',
     TLV [QMI_IDL_TLV_FLAGS_OPTIONAL] (OFFSET16_DIFF qmiLocSapInsParamsIndMsgT_v02 ''det3Variance1'' ''det3Variance1_valid''),
      LIT 0x30, OP [QMI_IDL_FLAGS_IS_ARRAY, QMI_IDL_FLAGS_OFFSET_IS_16] QMI_IDL_GENERIC_4_BYTE,
      OFFSET16ARRAY qmiLocSapInsParamsIndMsgT_v02 ''det3Variance1'',
      LIT QMI_LOC_INS_ELEMENT_SIZE_THREE_V02,
     TLV [QMI_IDL_TLV_FLAGS_OPTIONAL] (OFFSET16_DIFF qmiLocSapInsParamsIndMsgT_v02 ''det3Variance2'' ''det3Variance2_valid''),
      LIT 0x31, OP [QMI_IDL_FLAGS_IS_ARRAY, QMI_IDL_FLAGS_OFFSET_IS_16] QMI_IDL_GENERIC_4_BYTE,
      OFFSET16ARRAY qmiLocSapInsParamsIndMsgT_v02 ''det3Variance2'',
      LIT QMI_LOC_INS_ELEMENT_SIZE_THREE_V02,
     TLV [QMI_IDL_TLV_FLAGS_OPTIONAL] (OFFSET16_DIFF qmiLocSapInsParamsIndMsgT_v02 ''det4Status'' ''det4Status_valid''),
      LIT 0x32, OP [QMI_IDL_FLAGS_OFFSET_IS_16] QMI_IDL_GENERIC_1_BYTE,
      OFFSET16ARRAY qmiLocSapInsParamsIndMsgT_v02 ''det4Status'',
     TLV [QMI_IDL_TLV_FLAGS_OPTIONAL] (OFFSET16_DIFF qmiLocSapInsParamsIndMsgT_v02 ''det4Position'' ''det4Position_valid''),
      LIT 0x33, OP [QMI_IDL_FLAGS_IS_ARRAY, QMI_IDL_FLAGS_OFFSET_IS_16] QMI_IDL_GENERIC_8_BYTE,
      OFFSET16ARRAY qmiLocSapInsParamsIndMsgT_v02 ''det4Position'',
      LIT QMI_LOC_INS_ELEMENT_SIZE_THREE_V02,
     TLV [QMI_IDL_TLV_FLAGS_OPTIONAL] (OFFSET16_DIFF qmiLocSapInsParamsIndMsgT_v02 ''det5Status'' ''det5Status_valid''),
      LIT 0x34, OP [QMI_IDL_FLAGS_OFFSET_IS_16] QMI_IDL_GENERIC_1_BYTE,
      OFFSET16ARRAY qmiLocSapInsParamsIndMsgT_v02 ''det5Status'',
     TLV [QMI_IDL_TLV_FLAGS_OPTIONAL] (OFFSET16_DIFF qmiLocSapInsParamsIndMsgT_v02 ''det6Status'' ''det6Status_valid''),
      LIT 0x35, OP [QMI_IDL_FLAGS_OFFSET_IS_16] QMI_IDL_GENERIC_4_BYTE,
      OFFSET16ARRAY qmiLocSapInsParamsIndMsgT_v02 ''det6Status'',
     TLV [QMI_IDL_TLV_FLAGS_OPTIONAL] (OFFSET16_DIFF qmiLocSapInsParamsIndMsgT_v02 ''gnssSvId'' ''gnssSvId_valid''),
      LIT 0x36,
      OP [QMI_IDL_FLAGS_IS_ARRAY, QMI_IDL_FLAGS_IS_VARIABLE_LEN, QMI_IDL_FLAGS_OFFSET_IS_16] QMI_IDL_GENERIC_2_BYTE,
      OFFSET16ARRAY qmiLocSapInsParamsIndMsgT_v02 ''gnssSvId'',
      LIT QMI_LOC_EXPANDED_SV_INFO_LIST_MAX_SIZE_V02,
      OFFSET16_DIFF qmiLocSapInsParamsIndMsgT_v02 ''gnssSvId'' ''gnssSvId_len'',
     TLV [QMI_IDL_TLV_FLAGS_OPTIONAL] (OFFSET16_DIFF qmiLocSapInsParamsIndMsgT_v02 ''measType'' ''measType_valid''),
      LIT 0x37,
      OP [QMI_IDL_FLAGS_IS_ARRAY, QMI_IDL_FLAGS_IS_VARIABLE_LEN, QMI_IDL_FLAGS_OFFSET_IS_16] QMI_IDL_GENERIC_8_BYTE,
      OFFSET16ARRAY qmiLocSapInsParamsIndMsgT_v02 ''measType'',
      LIT QMI_LOC_EXPANDED_SV_INFO_LIST_MAX_SIZE_V02,
      OFFSET16_DIFF qmiLocSapInsParamsIndMsgT_v02 ''measType'' ''measType_len'',
     TLV [QMI_IDL_TLV_FLAGS_OPTIONAL] (OFFSET16_DIFF qmiLocSapInsParamsIndMsgT_v02 ''measVar1'' ''measVar1_valid''),
      LIT 0x38,
      OP [QMI_IDL_FLAGS_IS_ARRAY, QMI_IDL_FLAGS_IS_VARIABLE_LEN, QMI_IDL_FLAGS_OFFSET_IS_16] QMI_IDL_GENERIC_4_BYTE,
      OFFSET16ARRAY qmiLocSapInsParamsIndMsgT_v02 ''measVar1'',
      LIT QMI_LOC_EXPANDED_SV_INFO_LIST_MAX_SIZE_V02,
      OFFSET16_DIFF qmiLocSapInsParamsIndMsgT_v02 ''measVar1'' ''measVar1_len'',
     TLV [QMI_IDL_TLV_FLAGS_OPTIONAL] (OFFSET16_DIFF qmiLocSapInsParamsIndMsgT_v02 ''measUse1'' ''measUse1_valid''),
      LIT 0x39,
      OP [QMI_IDL_FLAGS_IS_ARRAY, QMI_IDL_FLAGS_IS_VARIABLE_LEN, QMI_IDL_FLAGS_OFFSET_IS_16] QMI_IDL_GENERIC_4_BYTE,
      OFFSET16ARRAY qmiLocSapInsParamsIndMsgT_v02 ''measUse1'',
      LIT QMI_LOC_EXPANDED_SV_INFO_LIST_MAX_SIZE_V02,
      OFFSET16_DIFF qmiLocSapInsParamsIndMsgT_v02 ''measUse1'' ''measUse1_len'',
     TLV [QMI_IDL_TLV_FLAGS_OPTIONAL] (OFFSET16_DIFF qmiLocSapInsParamsIndMsgT_v02 ''measVar2'' ''measVar2_valid''),
      LIT 0x3A,
      OP [QMI_IDL_FLAGS_IS_ARRAY, QMI_IDL_FLAGS_IS_VARIABLE_LEN, QMI_IDL_FLAGS_OFFSET_IS_16] QMI_IDL_GENERIC_4_BYTE,
      OFFSET16ARRAY qmiLocSapInsParamsIndMsgT_v02 ''measVar2'',
      LIT QMI_LOC_EXPANDED_SV_INFO_LIST_MAX_SIZE_V02,
      OFFSET16_DIFF qmiLocSapInsParamsIndMsgT_v02 ''measVar2'' ''measVar2_len'',
     TLV [QMI_IDL_TLV_FLAGS_LAST_TLV, QMI_IDL_TLV_FLAGS_OPTIONAL] (OFFSET16_DIFF qmiLocSapInsParamsIndMsgT_v02 ''measUse2'' ''measUse2_valid''),
      LIT 0x3B,
      OP [QMI_IDL_FLAGS_IS_ARRAY, QMI_IDL_FLAGS_IS_VARIABLE_LEN, QMI_IDL_FLAGS_OFFSET_IS_16] QMI_IDL_GENERIC_4_BYTE,
      OFFSET16ARRAY qmiLocSapInsParamsIndMsgT_v02 ''measUse2'',
      LIT QMI_LOC_EXPANDED_SV_INFO_LIST_MAX_SIZE_V02,
      OFFSET16_DIFF qmiLocSapInsParamsIndMsgT_v02 ''measUse2'' ''measUse2_len'']"

lemma qmiLocSapInsParamsIndMsgT_data_v02_ok [idl_simps]:
  "describe_msg qmiLocSapInsParamsIndMsgT_data_v02 = Some (qmiLocSapInsParamsIndMsgT_v02, 5572, [(1, (0, 60), qmiLocGnssTimeStructT_v02)])"
  by (simp add: qmiLocSapInsParamsIndMsgT_data_v02_def qmiLocSapInsParamsIndMsgT_v02_def [THEN arg_cong, of laid] analyse_simps layout_simps cong: idl_cong)

definition qmiLocSetParameterReqMsgT_data_v02 :: "idl_byte list" where
  "qmiLocSetParameterReqMsgT_data_v02 =
    [LIT 0x01, OP [] QMI_IDL_GENERIC_4_BYTE, OFFSET8 qmiLocSetParameterReqMsgT_v02 ''paramType'',
     TLV [QMI_IDL_TLV_FLAGS_LAST_TLV, QMI_IDL_TLV_FLAGS_OPTIONAL] (OFFSET8_DIFF qmiLocSetParameterReqMsgT_v02 ''minSvElevation'' ''minSvElevation_valid''),
      LIT 0x10, OP [] QMI_IDL_GENERIC_1_BYTE, OFFSET8 qmiLocSetParameterReqMsgT_v02 ''minSvElevation'']"

lemma qmiLocSetParameterReqMsgT_data_v02_ok [idl_simps]:
  "describe_msg qmiLocSetParameterReqMsgT_data_v02 = Some (qmiLocSetParameterReqMsgT_v02, 11, [])"
  by (simp add: qmiLocSetParameterReqMsgT_data_v02_def qmiLocSetParameterReqMsgT_v02_def [THEN arg_cong, of laid] analyse_simps layout_simps cong: idl_cong)

definition qmiLocGetParameterReqMsgT_data_v02 :: "idl_byte list" where
  "qmiLocGetParameterReqMsgT_data_v02 =
    [TLV [QMI_IDL_TLV_FLAGS_LAST_TLV] (LIT 0x01), OP [] QMI_IDL_GENERIC_4_BYTE,
      OFFSET8 qmiLocGetParameterReqMsgT_v02 ''paramType'']"

lemma qmiLocGetParameterReqMsgT_data_v02_ok [idl_simps]:
  "describe_msg qmiLocGetParameterReqMsgT_data_v02 = Some (qmiLocGetParameterReqMsgT_v02, 7, [])"
  by (simp add: qmiLocGetParameterReqMsgT_data_v02_def qmiLocGetParameterReqMsgT_v02_def [THEN arg_cong, of laid] analyse_simps layout_simps cong: idl_cong)

definition qmiLocGetParameterIndMsgT_data_v02 :: "idl_byte list" where
  "qmiLocGetParameterIndMsgT_data_v02 =
    [LIT 0x01, OP [] QMI_IDL_GENERIC_4_BYTE, OFFSET8 qmiLocGetParameterIndMsgT_v02 ''status'',
     LIT 0x02, OP [] QMI_IDL_GENERIC_4_BYTE, OFFSET8 qmiLocGetParameterIndMsgT_v02 ''paramType'',
     TLV [QMI_IDL_TLV_FLAGS_LAST_TLV, QMI_IDL_TLV_FLAGS_OPTIONAL] (OFFSET8_DIFF qmiLocGetParameterIndMsgT_v02 ''minSvElevation'' ''minSvElevation_valid''),
      LIT 0x10, OP [] QMI_IDL_GENERIC_1_BYTE, OFFSET8 qmiLocGetParameterIndMsgT_v02 ''minSvElevation'']"

lemma qmiLocGetParameterIndMsgT_data_v02_ok [idl_simps]:
  "describe_msg qmiLocGetParameterIndMsgT_data_v02 = Some (qmiLocGetParameterIndMsgT_v02, 18, [])"
  by (simp add: qmiLocGetParameterIndMsgT_data_v02_def qmiLocGetParameterIndMsgT_v02_def [THEN arg_cong, of laid] analyse_simps layout_simps cong: idl_cong)

definition qmiLocSetStatisticsConfigReqMsgT_data_v02 :: "idl_byte list" where
  "qmiLocSetStatisticsConfigReqMsgT_data_v02 =
    [LIT 0x01, OP [] QMI_IDL_GENERIC_1_BYTE, OFFSET8 qmiLocSetStatisticsConfigReqMsgT_v02 ''enable'',
     TLV [QMI_IDL_TLV_FLAGS_LAST_TLV, QMI_IDL_TLV_FLAGS_OPTIONAL] (OFFSET8_DIFF qmiLocSetStatisticsConfigReqMsgT_v02 ''interval'' ''interval_valid''),
      LIT 0x10, OP [] QMI_IDL_GENERIC_4_BYTE, OFFSET8 qmiLocSetStatisticsConfigReqMsgT_v02 ''interval'']"

lemma qmiLocSetStatisticsConfigReqMsgT_data_v02_ok [idl_simps]:
  "describe_msg qmiLocSetStatisticsConfigReqMsgT_data_v02 = Some (qmiLocSetStatisticsConfigReqMsgT_v02, 11, [])"
  by (simp add: qmiLocSetStatisticsConfigReqMsgT_data_v02_def qmiLocSetStatisticsConfigReqMsgT_v02_def [THEN arg_cong, of laid] analyse_simps layout_simps cong: idl_cong)

definition qmiLocGetStatisticsConfigIndMsgT_data_v02 :: "idl_byte list" where
  "qmiLocGetStatisticsConfigIndMsgT_data_v02 =
    [LIT 0x01, OP [] QMI_IDL_GENERIC_4_BYTE, OFFSET8 qmiLocGetStatisticsConfigIndMsgT_v02 ''status'',
     TLV [QMI_IDL_TLV_FLAGS_OPTIONAL] (OFFSET8_DIFF qmiLocGetStatisticsConfigIndMsgT_v02 ''enabled'' ''enabled_valid''),
      LIT 0x10, OP [] QMI_IDL_GENERIC_1_BYTE, OFFSET8 qmiLocGetStatisticsConfigIndMsgT_v02 ''enabled'',
     TLV [QMI_IDL_TLV_FLAGS_LAST_TLV, QMI_IDL_TLV_FLAGS_OPTIONAL] (OFFSET8_DIFF qmiLocGetStatisticsConfigIndMsgT_v02 ''interval'' ''interval_valid''),
      LIT 0x11, OP [] QMI_IDL_GENERIC_4_BYTE, OFFSET8 qmiLocGetStatisticsConfigIndMsgT_v02 ''interval'']"

lemma qmiLocGetStatisticsConfigIndMsgT_data_v02_ok [idl_simps]:
  "describe_msg qmiLocGetStatisticsConfigIndMsgT_data_v02 = Some (qmiLocGetStatisticsConfigIndMsgT_v02, 18, [])"
  by (simp add: qmiLocGetStatisticsConfigIndMsgT_data_v02_def qmiLocGetStatisticsConfigIndMsgT_v02_def [THEN arg_cong, of laid] analyse_simps layout_simps cong: idl_cong)

definition qmiLocGnssStatisticsReportIndMsgT_data_v02 :: "idl_byte list" where
  "qmiLocGnssStatisticsReportIndMsgT_data_v02 =
    [TLV [QMI_IDL_TLV_FLAGS_OPTIONAL] (OFFSET8_DIFF qmiLocGnssStatisticsReportIndMsgT_v02 ''absValidAge'' ''absValidAge_valid''),
      LIT 0x10, OP [] QMI_IDL_GENERIC_4_BYTE,
      OFFSET8 qmiLocGnssStatisticsReportIndMsgT_v02 ''absValidAge'',
     TLV [QMI_IDL_TLV_FLAGS_OPTIONAL] (OFFSET8_DIFF qmiLocGnssStatisticsReportIndMsgT_v02 ''averagePowerConsumed'' ''averagePowerConsumed_valid''),
      LIT 0x11, OP [] QMI_IDL_GENERIC_4_BYTE,
      OFFSET8 qmiLocGnssStatisticsReportIndMsgT_v02 ''averagePowerConsumed'',
     TLV [QMI_IDL_TLV_FLAGS_OPTIONAL] (OFFSET8_DIFF qmiLocGnssStatisticsReportIndMsgT_v02 ''powerConsumptionDuration'' ''powerConsumptionDuration_valid''),
      LIT 0x12, OP [] QMI_IDL_GENERIC_4_BYTE,
      OFFSET8 qmiLocGnssStatisticsReportIndMsgT_v02 ''powerConsumptionDuration'',
     TLV [QMI_IDL_TLV_FLAGS_OPTIONAL] (OFFSET8_DIFF qmiLocGnssStatisticsReportIndMsgT_v02 ''latitude'' ''latitude_valid''),
      LIT 0x13, OP [] QMI_IDL_GENERIC_8_BYTE, OFFSET8 qmiLocGnssStatisticsReportIndMsgT_v02 ''latitude'',
     TLV [QMI_IDL_TLV_FLAGS_OPTIONAL] (OFFSET8_DIFF qmiLocGnssStatisticsReportIndMsgT_v02 ''longitude'' ''longitude_valid''),
      LIT 0x14, OP [] QMI_IDL_GENERIC_8_BYTE,
      OFFSET8 qmiLocGnssStatisticsReportIndMsgT_v02 ''longitude'',
     TLV [QMI_IDL_TLV_FLAGS_OPTIONAL] (OFFSET8_DIFF qmiLocGnssStatisticsReportIndMsgT_v02 ''altitudeWrtEllipsoid'' ''altitudeWrtEllipsoid_valid''),
      LIT 0x15, OP [] QMI_IDL_GENERIC_4_BYTE,
      OFFSET8 qmiLocGnssStatisticsReportIndMsgT_v02 ''altitudeWrtEllipsoid'',
     TLV [QMI_IDL_TLV_FLAGS_OPTIONAL] (OFFSET8_DIFF qmiLocGnssStatisticsReportIndMsgT_v02 ''altitudeWrtMeanSeaLevel'' ''altitudeWrtMeanSeaLevel_valid''),
      LIT 0x16, OP [] QMI_IDL_GENERIC_4_BYTE,
      OFFSET8 qmiLocGnssStatisticsReportIndMsgT_v02 ''altitudeWrtMeanSeaLevel'',
     TLV [QMI_IDL_TLV_FLAGS_OPTIONAL] (OFFSET8_DIFF qmiLocGnssStatisticsReportIndMsgT_v02 ''horUncCircular'' ''horUncCircular_valid''),
      LIT 0x17, OP [] QMI_IDL_GENERIC_4_BYTE,
      OFFSET8 qmiLocGnssStatisticsReportIndMsgT_v02 ''horUncCircular'',
     TLV [QMI_IDL_TLV_FLAGS_OPTIONAL] (OFFSET8_DIFF qmiLocGnssStatisticsReportIndMsgT_v02 ''vertUnc'' ''vertUnc_valid''),
      LIT 0x18, OP [] QMI_IDL_GENERIC_4_BYTE, OFFSET8 qmiLocGnssStatisticsReportIndMsgT_v02 ''vertUnc'',
     TLV [QMI_IDL_TLV_FLAGS_OPTIONAL] (OFFSET8_DIFF qmiLocGnssStatisticsReportIndMsgT_v02 ''horUncEllipseSemiMinor'' ''horUncEllipseSemiMinor_valid''),
      LIT 0x19, OP [] QMI_IDL_GENERIC_4_BYTE,
      OFFSET8 qmiLocGnssStatisticsReportIndMsgT_v02 ''horUncEllipseSemiMinor'',
     TLV [QMI_IDL_TLV_FLAGS_OPTIONAL] (OFFSET8_DIFF qmiLocGnssStatisticsReportIndMsgT_v02 ''horUncEllipseSemiMajor'' ''horUncEllipseSemiMajor_valid''),
      LIT 0x1A, OP [] QMI_IDL_GENERIC_4_BYTE,
      OFFSET8 qmiLocGnssStatisticsReportIndMsgT_v02 ''horUncEllipseSemiMajor'',
     TLV [QMI_IDL_TLV_FLAGS_OPTIONAL] (OFFSET8_DIFF qmiLocGnssStatisticsReportIndMsgT_v02 ''horCircularConfidence'' ''horCircularConfidence_valid''),
      LIT 0x1B, OP [] QMI_IDL_GENERIC_1_BYTE,
      OFFSET8 qmiLocGnssStatisticsReportIndMsgT_v02 ''horCircularConfidence'',
     TLV [QMI_IDL_TLV_FLAGS_OPTIONAL] (OFFSET8_DIFF qmiLocGnssStatisticsReportIndMsgT_v02 ''horReliability'' ''horReliability_valid''),
      LIT 0x1C, OP [] QMI_IDL_GENERIC_4_BYTE,
      OFFSET8 qmiLocGnssStatisticsReportIndMsgT_v02 ''horReliability'',
     TLV [QMI_IDL_TLV_FLAGS_OPTIONAL] (OFFSET8_DIFF qmiLocGnssStatisticsReportIndMsgT_v02 ''horSpeed'' ''horSpeed_valid''),
      LIT 0x1D, OP [] QMI_IDL_GENERIC_4_BYTE, OFFSET8 qmiLocGnssStatisticsReportIndMsgT_v02 ''horSpeed'',
     TLV [QMI_IDL_TLV_FLAGS_OPTIONAL] (OFFSET8_DIFF qmiLocGnssStatisticsReportIndMsgT_v02 ''horSpeedUnc'' ''horSpeedUnc_valid''),
      LIT 0x1E, OP [] QMI_IDL_GENERIC_4_BYTE,
      OFFSET8 qmiLocGnssStatisticsReportIndMsgT_v02 ''horSpeedUnc'',
     TLV [QMI_IDL_TLV_FLAGS_OPTIONAL] (OFFSET8_DIFF qmiLocGnssStatisticsReportIndMsgT_v02 ''vertConfidence'' ''vertConfidence_valid''),
      LIT 0x1F, OP [] QMI_IDL_GENERIC_1_BYTE,
      OFFSET8 qmiLocGnssStatisticsReportIndMsgT_v02 ''vertConfidence'',
     TLV [QMI_IDL_TLV_FLAGS_OPTIONAL] (OFFSET8_DIFF qmiLocGnssStatisticsReportIndMsgT_v02 ''vertReliability'' ''vertReliability_valid''),
      LIT 0x20, OP [] QMI_IDL_GENERIC_4_BYTE,
      OFFSET8 qmiLocGnssStatisticsReportIndMsgT_v02 ''vertReliability'',
     TLV [QMI_IDL_TLV_FLAGS_OPTIONAL] (OFFSET8_DIFF qmiLocGnssStatisticsReportIndMsgT_v02 ''vertSpeed'' ''vertSpeed_valid''),
      LIT 0x21, OP [] QMI_IDL_GENERIC_4_BYTE,
      OFFSET8 qmiLocGnssStatisticsReportIndMsgT_v02 ''vertSpeed'',
     TLV [QMI_IDL_TLV_FLAGS_OPTIONAL] (OFFSET8_DIFF qmiLocGnssStatisticsReportIndMsgT_v02 ''vertSpeedUnc'' ''vertSpeedUnc_valid''),
      LIT 0x22, OP [] QMI_IDL_GENERIC_4_BYTE,
      OFFSET8 qmiLocGnssStatisticsReportIndMsgT_v02 ''vertSpeedUnc'',
     TLV [QMI_IDL_TLV_FLAGS_OPTIONAL] (OFFSET8_DIFF qmiLocGnssStatisticsReportIndMsgT_v02 ''gpsWeek'' ''gpsWeek_valid''),
      LIT 0x23, OP [] QMI_IDL_GENERIC_2_BYTE, OFFSET8 qmiLocGnssStatisticsReportIndMsgT_v02 ''gpsWeek'',
     TLV [QMI_IDL_TLV_FLAGS_OPTIONAL] (OFFSET8_DIFF qmiLocGnssStatisticsReportIndMsgT_v02 ''gpsMsec'' ''gpsMsec_valid''),
      LIT 0x24, OP [] QMI_IDL_GENERIC_4_BYTE, OFFSET8 qmiLocGnssStatisticsReportIndMsgT_v02 ''gpsMsec'',
     TLV [QMI_IDL_TLV_FLAGS_OPTIONAL] (OFFSET8_DIFF qmiLocGnssStatisticsReportIndMsgT_v02 ''clkTimeBias'' ''clkTimeBias_valid''),
      LIT 0x25, OP [] QMI_IDL_GENERIC_4_BYTE,
      OFFSET8 qmiLocGnssStatisticsReportIndMsgT_v02 ''clkTimeBias'',
     TLV [QMI_IDL_TLV_FLAGS_LAST_TLV, QMI_IDL_TLV_FLAGS_OPTIONAL] (OFFSET8_DIFF qmiLocGnssStatisticsReportIndMsgT_v02 ''clkTimeBiasUnc'' ''clkTimeBiasUnc_valid''),
      LIT 0x26, OP [] QMI_IDL_GENERIC_4_BYTE,
      OFFSET8 qmiLocGnssStatisticsReportIndMsgT_v02 ''clkTimeBiasUnc'']"

lemma qmiLocGnssStatisticsReportIndMsgT_data_v02_ok [idl_simps]:
  "describe_msg qmiLocGnssStatisticsReportIndMsgT_data_v02 = Some (qmiLocGnssStatisticsReportIndMsgT_v02, 161, [])"
  by (simp add: qmiLocGnssStatisticsReportIndMsgT_data_v02_def qmiLocGnssStatisticsReportIndMsgT_v02_def [THEN arg_cong, of laid] analyse_simps layout_simps cong: idl_cong)

definition qmiLocSetGnssPdrModeReqMsgT_data_v02 :: "idl_byte list" where
  "qmiLocSetGnssPdrModeReqMsgT_data_v02 =
    [TLV [QMI_IDL_TLV_FLAGS_LAST_TLV, QMI_IDL_TLV_FLAGS_OPTIONAL] (OFFSET8_DIFF qmiLocSetGnssPdrModeReqMsgT_v02 ''mode'' ''mode_valid''),
      LIT 0x10, OP [] QMI_IDL_GENERIC_4_BYTE, OFFSET8 qmiLocSetGnssPdrModeReqMsgT_v02 ''mode'']"

lemma qmiLocSetGnssPdrModeReqMsgT_data_v02_ok [idl_simps]:
  "describe_msg qmiLocSetGnssPdrModeReqMsgT_data_v02 = Some (qmiLocSetGnssPdrModeReqMsgT_v02, 7, [])"
  by (simp add: qmiLocSetGnssPdrModeReqMsgT_data_v02_def qmiLocSetGnssPdrModeReqMsgT_v02_def [THEN arg_cong, of laid] analyse_simps layout_simps cong: idl_cong)

definition qmiLocGetGnssPdrModeIndMsgT_data_v02 :: "idl_byte list" where
  "qmiLocGetGnssPdrModeIndMsgT_data_v02 =
    [LIT 0x01, OP [] QMI_IDL_GENERIC_4_BYTE, OFFSET8 qmiLocGetGnssPdrModeIndMsgT_v02 ''status'',
     TLV [QMI_IDL_TLV_FLAGS_LAST_TLV, QMI_IDL_TLV_FLAGS_OPTIONAL] (OFFSET8_DIFF qmiLocGetGnssPdrModeIndMsgT_v02 ''mode'' ''mode_valid''),
      LIT 0x10, OP [] QMI_IDL_GENERIC_4_BYTE, OFFSET8 qmiLocGetGnssPdrModeIndMsgT_v02 ''mode'']"

lemma qmiLocGetGnssPdrModeIndMsgT_data_v02_ok [idl_simps]:
  "describe_msg qmiLocGetGnssPdrModeIndMsgT_data_v02 = Some (qmiLocGetGnssPdrModeIndMsgT_v02, 14, [])"
  by (simp add: qmiLocGetGnssPdrModeIndMsgT_data_v02_def qmiLocGetGnssPdrModeIndMsgT_v02_def [THEN arg_cong, of laid] analyse_simps layout_simps cong: idl_cong)

definition qmiLocGetMagCalStatePdrIndMsgT_data_v02 :: "idl_byte list" where
  "qmiLocGetMagCalStatePdrIndMsgT_data_v02 =
    [LIT 0x01, OP [] QMI_IDL_GENERIC_4_BYTE, OFFSET8 qmiLocGetMagCalStatePdrIndMsgT_v02 ''status'',
     TLV [QMI_IDL_TLV_FLAGS_LAST_TLV, QMI_IDL_TLV_FLAGS_OPTIONAL] (OFFSET8_DIFF qmiLocGetMagCalStatePdrIndMsgT_v02 ''isCalibrated'' ''isCalibrated_valid''),
      LIT 0x10, OP [] QMI_IDL_GENERIC_1_BYTE,
      OFFSET8 qmiLocGetMagCalStatePdrIndMsgT_v02 ''isCalibrated'']"

lemma qmiLocGetMagCalStatePdrIndMsgT_data_v02_ok [idl_simps]:
  "describe_msg qmiLocGetMagCalStatePdrIndMsgT_data_v02 = Some (qmiLocGetMagCalStatePdrIndMsgT_v02, 11, [])"
  by (simp add: qmiLocGetMagCalStatePdrIndMsgT_data_v02_def qmiLocGetMagCalStatePdrIndMsgT_v02_def [THEN arg_cong, of laid] analyse_simps layout_simps cong: idl_cong)

definition qmiLocSetMultibandConfigReqMsgT_data_v02 :: "idl_byte list" where
  "qmiLocSetMultibandConfigReqMsgT_data_v02 =
    [TLV [QMI_IDL_TLV_FLAGS_LAST_TLV, QMI_IDL_TLV_FLAGS_OPTIONAL] (OFFSET8_DIFF qmiLocSetMultibandConfigReqMsgT_v02 ''secondaryGnssConfig'' ''secondaryGnssConfig_valid''),
      LIT 0x10, OP [] QMI_IDL_GENERIC_8_BYTE,
      OFFSET8 qmiLocSetMultibandConfigReqMsgT_v02 ''secondaryGnssConfig'']"

lemma qmiLocSetMultibandConfigReqMsgT_data_v02_ok [idl_simps]:
  "describe_msg qmiLocSetMultibandConfigReqMsgT_data_v02 = Some (qmiLocSetMultibandConfigReqMsgT_v02, 11, [])"
  by (simp add: qmiLocSetMultibandConfigReqMsgT_data_v02_def qmiLocSetMultibandConfigReqMsgT_v02_def [THEN arg_cong, of laid] analyse_simps layout_simps cong: idl_cong)

definition qmiLocGetMultibandConfigIndMsgT_data_v02 :: "idl_byte list" where
  "qmiLocGetMultibandConfigIndMsgT_data_v02 =
    [LIT 0x01, OP [] QMI_IDL_GENERIC_4_BYTE, OFFSET8 qmiLocGetMultibandConfigIndMsgT_v02 ''status'',
     TLV [QMI_IDL_TLV_FLAGS_LAST_TLV, QMI_IDL_TLV_FLAGS_OPTIONAL] (OFFSET8_DIFF qmiLocGetMultibandConfigIndMsgT_v02 ''secondaryGnssConfig'' ''secondaryGnssConfig_valid''),
      LIT 0x10, OP [] QMI_IDL_GENERIC_8_BYTE,
      OFFSET8 qmiLocGetMultibandConfigIndMsgT_v02 ''secondaryGnssConfig'']"

lemma qmiLocGetMultibandConfigIndMsgT_data_v02_ok [idl_simps]:
  "describe_msg qmiLocGetMultibandConfigIndMsgT_data_v02 = Some (qmiLocGetMultibandConfigIndMsgT_v02, 18, [])"
  by (simp add: qmiLocGetMultibandConfigIndMsgT_data_v02_def qmiLocGetMultibandConfigIndMsgT_v02_def [THEN arg_cong, of laid] analyse_simps layout_simps cong: idl_cong)

definition qmiLocLatencyInformationIndMsgT_data_v02 :: "idl_byte list" where
  "qmiLocLatencyInformationIndMsgT_data_v02 =
    [LIT 0x01, OP [] QMI_IDL_GENERIC_4_BYTE,
      OFFSET8 qmiLocLatencyInformationIndMsgT_v02 ''latencyInfo'',
     TLV [QMI_IDL_TLV_FLAGS_OPTIONAL] (OFFSET8_DIFF qmiLocLatencyInformationIndMsgT_v02 ''sysTickAtChkPt1'' ''sysTickAtChkPt1_valid''),
      LIT 0x10, OP [] QMI_IDL_GENERIC_8_BYTE,
      OFFSET8 qmiLocLatencyInformationIndMsgT_v02 ''sysTickAtChkPt1'',
     TLV [QMI_IDL_TLV_FLAGS_OPTIONAL] (OFFSET8_DIFF qmiLocLatencyInformationIndMsgT_v02 ''sysTickAtChkPt2'' ''sysTickAtChkPt2_valid''),
      LIT 0x11, OP [] QMI_IDL_GENERIC_8_BYTE,
      OFFSET8 qmiLocLatencyInformationIndMsgT_v02 ''sysTickAtChkPt2'',
     TLV [QMI_IDL_TLV_FLAGS_OPTIONAL] (OFFSET8_DIFF qmiLocLatencyInformationIndMsgT_v02 ''sysTickAtChkPt3'' ''sysTickAtChkPt3_valid''),
      LIT 0x12, OP [] QMI_IDL_GENERIC_8_BYTE,
      OFFSET8 qmiLocLatencyInformationIndMsgT_v02 ''sysTickAtChkPt3'',
     TLV [QMI_IDL_TLV_FLAGS_OPTIONAL] (OFFSET8_DIFF qmiLocLatencyInformationIndMsgT_v02 ''sysTickAtChkPt4'' ''sysTickAtChkPt4_valid''),
      LIT 0x13, OP [] QMI_IDL_GENERIC_8_BYTE,
      OFFSET8 qmiLocLatencyInformationIndMsgT_v02 ''sysTickAtChkPt4'',
     TLV [QMI_IDL_TLV_FLAGS_OPTIONAL] (OFFSET8_DIFF qmiLocLatencyInformationIndMsgT_v02 ''sysTickAtChkPt5'' ''sysTickAtChkPt5_valid''),
      LIT 0x14, OP [] QMI_IDL_GENERIC_8_BYTE,
      OFFSET8 qmiLocLatencyInformationIndMsgT_v02 ''sysTickAtChkPt5'',
     TLV [QMI_IDL_TLV_FLAGS_OPTIONAL] (OFFSET8_DIFF qmiLocLatencyInformationIndMsgT_v02 ''sysTickAtChkPt6'' ''sysTickAtChkPt6_valid''),
      LIT 0x15, OP [] QMI_IDL_GENERIC_8_BYTE,
      OFFSET8 qmiLocLatencyInformationIndMsgT_v02 ''sysTickAtChkPt6'',
     TLV [QMI_IDL_TLV_FLAGS_OPTIONAL] (OFFSET8_DIFF qmiLocLatencyInformationIndMsgT_v02 ''sysTickAtChkPt7'' ''sysTickAtChkPt7_valid''),
      LIT 0x16, OP [] QMI_IDL_GENERIC_8_BYTE,
      OFFSET8 qmiLocLatencyInformationIndMsgT_v02 ''sysTickAtChkPt7'',
     TLV [QMI_IDL_TLV_FLAGS_OPTIONAL] (OFFSET8_DIFF qmiLocLatencyInformationIndMsgT_v02 ''sysTickAtChkPt8'' ''sysTickAtChkPt8_valid''),
      LIT 0x17, OP [] QMI_IDL_GENERIC_8_BYTE,
      OFFSET8 qmiLocLatencyInformationIndMsgT_v02 ''sysTickAtChkPt8'',
     TLV [QMI_IDL_TLV_FLAGS_OPTIONAL] (OFFSET8_DIFF qmiLocLatencyInformationIndMsgT_v02 ''sysTickAtChkPt9'' ''sysTickAtChkPt9_valid''),
      LIT 0x18, OP [] QMI_IDL_GENERIC_8_BYTE,
      OFFSET8 qmiLocLatencyInformationIndMsgT_v02 ''sysTickAtChkPt9'',
     TLV [QMI_IDL_TLV_FLAGS_OPTIONAL] (OFFSET8_DIFF qmiLocLatencyInformationIndMsgT_v02 ''sysTickAtChkPt10'' ''sysTickAtChkPt10_valid''),
      LIT 0x19, OP [] QMI_IDL_GENERIC_8_BYTE,
      OFFSET8 qmiLocLatencyInformationIndMsgT_v02 ''sysTickAtChkPt10'',
     TLV [QMI_IDL_TLV_FLAGS_LAST_TLV, QMI_IDL_TLV_FLAGS_OPTIONAL] (OFFSET8_DIFF qmiLocLatencyInformationIndMsgT_v02 ''fCountOfMeasBlk'' ''fCountOfMeasBlk_valid''),
      LIT 0x1A, OP [] QMI_IDL_GENERIC_4_BYTE,
      OFFSET8 qmiLocLatencyInformationIndMsgT_v02 ''fCountOfMeasBlk'']"

lemma qmiLocLatencyInformationIndMsgT_data_v02_ok [idl_simps]:
  "describe_msg qmiLocLatencyInformationIndMsgT_data_v02 = Some (qmiLocLatencyInformationIndMsgT_v02, 124, [])"
  by (simp add: qmiLocLatencyInformationIndMsgT_data_v02_def qmiLocLatencyInformationIndMsgT_v02_def [THEN arg_cong, of laid] analyse_simps layout_simps cong: idl_cong)

end
