(* ===== verification/LocTables.thy ===== *)
theory LocTables
  imports LocMsgIdl1 LocMsgIdl2 LocMsgIdl3
begin

text \<open>
  The tables of \<^verbatim>\<open>src/location/loc_api/loc_api_v02/location_service_v02.c\<close> that tie the descriptors
  together: the type table, the message table and the lists of commands, responses and
  indications of the location service. \<open>resp_t\<close> is the response type of the common QMI
  header, which is not part of the repository.
\<close>

section \<open>Message identifiers\<close>

named_theorems msg_id_simps \<open>values of the message identifiers\<close>

definition QMI_LOC_GET_SUPPORTED_MSGS_REQ_V02 :: nat where [msg_id_simps]: "QMI_LOC_GET_SUPPORTED_MSGS_REQ_V02 = 0x001E"
definition QMI_LOC_GET_SUPPORTED_MSGS_RESP_V02 :: nat where [msg_id_simps]: "QMI_LOC_GET_SUPPORTED_MSGS_RESP_V02 = 0x001E"
definition QMI_LOC_GET_SUPPORTED_FIELDS_REQ_V02 :: nat where [msg_id_simps]: "QMI_LOC_GET_SUPPORTED_FIELDS_REQ_V02 = 0x001F"
definition QMI_LOC_GET_SUPPORTED_FIELDS_RESP_V02 :: nat where [msg_id_simps]: "QMI_LOC_GET_SUPPORTED_FIELDS_RESP_V02 = 0x001F"
definition QMI_LOC_INFORM_CLIENT_REVISION_REQ_V02 :: nat where [msg_id_simps]: "QMI_LOC_INFORM_CLIENT_REVISION_REQ_V02 = 0x0020"
definition QMI_LOC_INFORM_CLIENT_REVISION_RESP_V02 :: nat where [msg_id_simps]: "QMI_LOC_INFORM_CLIENT_REVISION_RESP_V02 = 0x0020"
definition QMI_LOC_REG_EVENTS_REQ_V02 :: nat where [msg_id_simps]: "QMI_LOC_REG_EVENTS_REQ_V02 = 0x0021"
definition QMI_LOC_REG_EVENTS_RESP_V02 :: nat where [msg_id_simps]: "QMI_LOC_REG_EVENTS_RESP_V02 = 0x0021"
definition QMI_LOC_START_REQ_V02 :: nat where [msg_id_simps]: "QMI_LOC_START_REQ_V02 = 0x0022"
definition QMI_LOC_START_RESP_V02 :: nat where [msg_id_simps]: "QMI_LOC_START_RESP_V02 = 0x0022"
definition QMI_LOC_STOP_REQ_V02 :: nat where [msg_id_simps]: "QMI_LOC_STOP_REQ_V02 = 0x0023"
definition QMI_LOC_STOP_RESP_V02 :: nat where [msg_id_simps]: "QMI_LOC_STOP_RESP_V02 = 0x0023"
definition QMI_LOC_EVENT_POSITION_REPORT_IND_V02 :: nat where [msg_id_simps]: "QMI_LOC_EVENT_POSITION_REPORT_IND_V02 = 0x0024"
definition QMI_LOC_EVENT_GNSS_SV_INFO_IND_V02 :: nat where [msg_id_simps]: "QMI_LOC_EVENT_GNSS_SV_INFO_IND_V02 = 0x0025"
definition QMI_LOC_EVENT_NMEA_IND_V02 :: nat where [msg_id_simps]: "QMI_LOC_EVENT_NMEA_IND_V02 = 0x0026"
definition QMI_LOC_EVENT_NI_NOTIFY_VERIFY_REQ_IND_V02 :: nat where [msg_id_simps]: "QMI_LOC_EVENT_NI_NOTIFY_VERIFY_REQ_IND_V02 = 0x0027"
definition QMI_LOC_EVENT_INJECT_TIME_REQ_IND_V02 :: nat where [msg_id_simps]: "QMI_LOC_EVENT_INJECT_TIME_REQ_IND_V02 = 0x0028"
definition QMI_LOC_EVENT_INJECT_PREDICTED_ORBITS_REQ_IND_V02 :: nat where [msg_id_simps]: "QMI_LOC_EVENT_INJECT_PREDICTED_ORBITS_REQ_IND_V02 = 0x0029"
definition QMI_LOC_EVENT_INJECT_POSITION_REQ_IND_V02 :: nat where [msg_id_simps]: "QMI_LOC_EVENT_INJECT_POSITION_REQ_IND_V02 = 0x002A"
definition QMI_LOC_EVENT_ENGINE_STATE_IND_V02 :: nat where [msg_id_simps]: "QMI_LOC_EVENT_ENGINE_STATE_IND_V02 = 0x002B"
definition QMI_LOC_EVENT_FIX_SESSION_STATE_IND_V02 :: nat where [msg_id_simps]: "QMI_LOC_EVENT_FIX_SESSION_STATE_IND_V02 = 0x002C"
definition QMI_LOC_EVENT_WIFI_REQ_IND_V02 :: nat where [msg_id_simps]: "QMI_LOC_EVENT_WIFI_REQ_IND_V02 = 0x002D"
definition QMI_LOC_EVENT_SENSOR_STREAMING_READY_STATUS_IND_V02 :: nat where [msg_id_simps]: "QMI_LOC_EVENT_SENSOR_STREAMING_READY_STATUS_IND_V02 = 0x002E"
definition QMI_LOC_EVENT_TIME_SYNC_REQ_IND_V02 :: nat where [msg_id_simps]: "QMI_LOC_EVENT_TIME_SYNC_REQ_IND_V02 = 0x002F"
definition QMI_LOC_EVENT_SET_SPI_STREAMING_REPORT_IND_V02 :: nat where [msg_id_simps]: "QMI_LOC_EVENT_SET_SPI_STREAMING_REPORT_IND_V02 = 0x0030"
definition QMI_LOC_EVENT_LOCATION_SERVER_CONNECTION_REQ_IND_V02 :: nat where [msg_id_simps]: "QMI_LOC_EVENT_LOCATION_SERVER_CONNECTION_REQ_IND_V02 = 0x0031"
definition QMI_LOC_GET_SERVICE_REVISION_REQ_V02 :: nat where [msg_id_simps]: "QMI_LOC_GET_SERVICE_REVISION_REQ_V02 = 0x0032"
definition QMI_LOC_GET_SERVICE_REVISION_RESP_V02 :: nat where [msg_id_simps]: "QMI_LOC_GET_SERVICE_REVISION_RESP_V02 = 0x0032"
definition QMI_LOC_GET_SERVICE_REVISION_IND_V02 :: nat where [msg_id_simps]: "QMI_LOC_GET_SERVICE_REVISION_IND_V02 = 0x0032"
definition QMI_LOC_GET_FIX_CRITERIA_REQ_V02 :: nat where [msg_id_simps]: "QMI_LOC_GET_FIX_CRITERIA_REQ_V02 = 0x0033"
definition QMI_LOC_GET_FIX_CRITERIA_RESP_V02 :: nat where [msg_id_simps]: "QMI_LOC_GET_FIX_CRITERIA_RESP_V02 = 0x0033"
definition QMI_LOC_GET_FIX_CRITERIA_IND_V02 :: nat where [msg_id_simps]: "QMI_LOC_GET_FIX_CRITERIA_IND_V02 = 0x0033"
definition QMI_LOC_NI_USER_RESPONSE_REQ_V02 :: nat where [msg_id_simps]: "QMI_LOC_NI_USER_RESPONSE_REQ_V02 = 0x0034"
definition QMI_LOC_NI_USER_RESPONSE_RESP_V02 :: nat where [msg_id_simps]: "QMI_LOC_NI_USER_RESPONSE_RESP_V02 = 0x0034"
definition QMI_LOC_NI_USER_RESPONSE_IND_V02 :: nat where [msg_id_simps]: "QMI_LOC_NI_USER_RESPONSE_IND_V02 = 0x0034"
definition QMI_LOC_INJECT_PREDICTED_ORBITS_DATA_REQ_V02 :: nat where [msg_id_simps]: "QMI_LOC_INJECT_PREDICTED_ORBITS_DATA_REQ_V02 = 0x0035"
definition QMI_LOC_INJECT_PREDICTED_ORBITS_DATA_RESP_V02 :: nat where [msg_id_simps]: "QMI_LOC_INJECT_PREDICTED_ORBITS_DATA_RESP_V02 = 0x0035"
definition QMI_LOC_INJECT_PREDICTED_ORBITS_DATA_IND_V02 :: nat where [msg_id_simps]: "QMI_LOC_INJECT_PREDICTED_ORBITS_DATA_IND_V02 = 0x0035"
definition QMI_LOC_GET_PREDICTED_ORBITS_DATA_SOURCE_REQ_V02 :: nat where [msg_id_simps]: "QMI_LOC_GET_PREDICTED_ORBITS_DATA_SOURCE_REQ_V02 = 0x0036"
definition QMI_LOC_GET_PREDICTED_ORBITS_DATA_SOURCE_RESP_V02 :: nat where [msg_id_simps]: "QMI_LOC_GET_PREDICTED_ORBITS_DATA_SOURCE_RESP_V02 = 0x0036"
definition QMI_LOC_GET_PREDICTED_ORBITS_DATA_SOURCE_IND_V02 :: nat where [msg_id_simps]: "QMI_LOC_GET_PREDICTED_ORBITS_DATA_SOURCE_IND_V02 = 0x0036"
definition QMI_LOC_GET_PREDICTED_ORBITS_DATA_VALIDITY_REQ_V02 :: nat where [msg_id_simps]: "QMI_LOC_GET_PREDICTED_ORBITS_DATA_VALIDITY_REQ_V02 = 0x0037"
definition QMI_LOC_GET_PREDICTED_ORBITS_DATA_VALIDITY_RESP_V02 :: nat where [msg_id_simps]: "QMI_LOC_GET_PREDICTED_ORBITS_DATA_VALIDITY_RESP_V02 = 0x0037"
definition QMI_LOC_GET_PREDICTED_ORBITS_DATA_VALIDITY_IND_V02 :: nat where [msg_id_simps]: "QMI_LOC_GET_PREDICTED_ORBITS_DATA_VALIDITY_IND_V02 = 0x0037"
definition QMI_LOC_INJECT_UTC_TIME_REQ_V02 :: nat where [msg_id_simps]: "QMI_LOC_INJECT_UTC_TIME_REQ_V02 = 0x0038"
definition QMI_LOC_INJECT_UTC_TIME_RESP_V02 :: nat where [msg_id_simps]: "QMI_LOC_INJECT_UTC_TIME_RESP_V02 = 0x0038"
definition QMI_LOC_INJECT_UTC_TIME_IND_V02 :: nat where [msg_id_simps]: "QMI_LOC_INJECT_UTC_TIME_IND_V02 = 0x0038"
definition QMI_LOC_INJECT_POSITION_REQ_V02 :: nat where [msg_id_simps]: "QMI_LOC_INJECT_POSITION_REQ_V02 = 0x0039"
definition QMI_LOC_INJECT_POSITION_RESP_V02 :: nat where [msg_id_simps]: "QMI_LOC_INJECT_POSITION_RESP_V02 = 0x0039"
definition QMI_LOC_INJECT_POSITION_IND_V02 :: nat where [msg_id_simps]: "QMI_LOC_INJECT_POSITION_IND_V02 = 0x0039"
definition QMI_LOC_SET_ENGINE_LOCK_REQ_V02 :: nat where [msg_id_simps]: "QMI_LOC_SET_ENGINE_LOCK_REQ_V02 = 0x003A"
definition QMI_LOC_SET_ENGINE_LOCK_RESP_V02 :: nat where [msg_id_simps]: "QMI_LOC_SET_ENGINE_LOCK_RESP_V02 = 0x003A"
definition QMI_LOC_SET_ENGINE_LOCK_IND_V02 :: nat where [msg_id_simps]: "QMI_LOC_SET_ENGINE_LOCK_IND_V02 = 0x003A"
definition QMI_LOC_GET_ENGINE_LOCK_REQ_V02 :: nat where [msg_id_simps]: "QMI_LOC_GET_ENGINE_LOCK_REQ_V02 = 0x003B"
definition QMI_LOC_GET_ENGINE_LOCK_RESP_V02 :: nat where [msg_id_simps]: "QMI_LOC_GET_ENGINE_LOCK_RESP_V02 = 0x003B"
definition QMI_LOC_GET_ENGINE_LOCK_IND_V02 :: nat where [msg_id_simps]: "QMI_LOC_GET_ENGINE_LOCK_IND_V02 = 0x003B"
definition QMI_LOC_SET_SBAS_CONFIG_REQ_V02 :: nat where [msg_id_simps]: "QMI_LOC_SET_SBAS_CONFIG_REQ_V02 = 0x003C"
definition QMI_LOC_SET_SBAS_CONFIG_RESP_V02 :: nat where [msg_id_simps]: "QMI_LOC_SET_SBAS_CONFIG_RESP_V02 = 0x003C"
definition QMI_LOC_SET_SBAS_CONFIG_IND_V02 :: nat where [msg_id_simps]: "QMI_LOC_SET_SBAS_CONFIG_IND_V02 = 0x003C"
definition QMI_LOC_GET_SBAS_CONFIG_REQ_V02 :: nat where [msg_id_simps]: "QMI_LOC_GET_SBAS_CONFIG_REQ_V02 = 0x003D"
definition QMI_LOC_GET_SBAS_CONFIG_RESP_V02 :: nat where [msg_id_simps]: "QMI_LOC_GET_SBAS_CONFIG_RESP_V02 = 0x003D"
definition QMI_LOC_GET_SBAS_CONFIG_IND_V02 :: nat where [msg_id_simps]: "QMI_LOC_GET_SBAS_CONFIG_IND_V02 = 0x003D"
definition QMI_LOC_SET_NMEA_TYPES_REQ_V02 :: nat where [msg_id_simps]: "QMI_LOC_SET_NMEA_TYPES_REQ_V02 = 0x003E"
definition QMI_LOC_SET_NMEA_TYPES_RESP_V02 :: nat where [msg_id_simps]: "QMI_LOC_SET_NMEA_TYPES_RESP_V02 = 0x003E"
definition QMI_LOC_SET_NMEA_TYPES_IND_V02 :: nat where [msg_id_simps]: "QMI_LOC_SET_NMEA_TYPES_IND_V02 = 0x003E"
definition QMI_LOC_GET_NMEA_TYPES_REQ_V02 :: nat where [msg_id_simps]: "QMI_LOC_GET_NMEA_TYPES_REQ_V02 = 0x003F"
definition QMI_LOC_GET_NMEA_TYPES_RESP_V02 :: nat where [msg_id_simps]: "QMI_LOC_GET_NMEA_TYPES_RESP_V02 = 0x003F"
definition QMI_LOC_GET_NMEA_TYPES_IND_V02 :: nat where [msg_id_simps]: "QMI_LOC_GET_NMEA_TYPES_IND_V02 = 0x003F"
definition QMI_LOC_SET_LOW_POWER_MODE_REQ_V02 :: nat where [msg_id_simps]: "QMI_LOC_SET_LOW_POWER_MODE_REQ_V02 = 0x0040"
definition QMI_LOC_SET_LOW_POWER_MODE_RESP_V02 :: nat where [msg_id_simps]: "QMI_LOC_SET_LOW_POWER_MODE_RESP_V02 = 0x0040"
definition QMI_LOC_SET_LOW_POWER_MODE_IND_V02 :: nat where [msg_id_simps]: "QMI_LOC_SET_LOW_POWER_MODE_IND_V02 = 0x0040"
definition QMI_LOC_GET_LOW_POWER_MODE_REQ_V02 :: nat where [msg_id_simps]: "QMI_LOC_GET_LOW_POWER_MODE_REQ_V02 = 0x0041"
definition QMI_LOC_GET_LOW_POWER_MODE_RESP_V02 :: nat where [msg_id_simps]: "QMI_LOC_GET_LOW_POWER_MODE_RESP_V02 = 0x0041"
definition QMI_LOC_GET_LOW_POWER_MODE_IND_V02 :: nat where [msg_id_simps]: "QMI_LOC_GET_LOW_POWER_MODE_IND_V02 = 0x0041"
definition QMI_LOC_SET_SERVER_REQ_V02 :: nat where [msg_id_simps]: "QMI_LOC_SET_SERVER_REQ_V02 = 0x0042"
definition QMI_LOC_SET_SERVER_RESP_V02 :: nat where [msg_id_simps]: "QMI_LOC_SET_SERVER_RESP_V02 = 0x0042"
definition QMI_LOC_SET_SERVER_IND_V02 :: nat where [msg_id_simps]: "QMI_LOC_SET_SERVER_IND_V02 = 0x0042"
definition QMI_LOC_GET_SERVER_REQ_V02 :: nat where [msg_id_simps]: "QMI_LOC_GET_SERVER_REQ_V02 = 0x0043"
definition QMI_LOC_GET_SERVER_RESP_V02 :: nat where [msg_id_simps]: "QMI_LOC_GET_SERVER_RESP_V02 = 0x0043"
definition QMI_LOC_GET_SERVER_IND_V02 :: nat where [msg_id_simps]: "QMI_LOC_GET_SERVER_IND_V02 = 0x0043"
definition QMI_LOC_DELETE_ASSIST_DATA_REQ_V02 :: nat where [msg_id_simps]: "QMI_LOC_DELETE_ASSIST_DATA_REQ_V02 = 0x0044"
definition QMI_LOC_DELETE_ASSIST_DATA_RESP_V02 :: nat where [msg_id_simps]: "QMI_LOC_DELETE_ASSIST_DATA_RESP_V02 = 0x0044"
definition QMI_LOC_DELETE_ASSIST_DATA_IND_V02 :: nat where [msg_id_simps]: "QMI_LOC_DELETE_ASSIST_DATA_IND_V02 = 0x0044"
definition QMI_LOC_SET_XTRA_T_SESSION_CONTROL_REQ_V02 :: nat where [msg_id_simps]: "QMI_LOC_SET_XTRA_T_SESSION_CONTROL_REQ_V02 = 0x0045"
definition QMI_LOC_SET_XTRA_T_SESSION_CONTROL_RESP_V02 :: nat where [msg_id_simps]: "QMI_LOC_SET_XTRA_T_SESSION_CONTROL_RESP_V02 = 0x0045"
definition QMI_LOC_SET_XTRA_T_SESSION_CONTROL_IND_V02 :: nat where [msg_id_simps]: "QMI_LOC_SET_XTRA_T_SESSION_CONTROL_IND_V02 = 0x0045"
definition QMI_LOC_GET_XTRA_T_SESSION_CONTROL_REQ_V02 :: nat where [msg_id_simps]: "QMI_LOC_GET_XTRA_T_SESSION_CONTROL_REQ_V02 = 0x0046"
definition QMI_LOC_GET_XTRA_T_SESSION_CONTROL_RESP_V02 :: nat where [msg_id_simps]: "QMI_LOC_GET_XTRA_T_SESSION_CONTROL_RESP_V02 = 0x0046"
definition QMI_LOC_GET_XTRA_T_SESSION_CONTROL_IND_V02 :: nat where [msg_id_simps]: "QMI_LOC_GET_XTRA_T_SESSION_CONTROL_IND_V02 = 0x0046"
definition QMI_LOC_INJECT_WIFI_POSITION_REQ_V02 :: nat where [msg_id_simps]: "QMI_LOC_INJECT_WIFI_POSITION_REQ_V02 = 0x0047"
definition QMI_LOC_INJECT_WIFI_POSITION_RESP_V02 :: nat where [msg_id_simps]: "QMI_LOC_INJECT_WIFI_POSITION_RESP_V02 = 0x0047"
definition QMI_LOC_INJECT_WIFI_POSITION_IND_V02 :: nat where [msg_id_simps]: "QMI_LOC_INJECT_WIFI_POSITION_IND_V02 = 0x0047"
definition QMI_LOC_NOTIFY_WIFI_STATUS_REQ_V02 :: nat where [msg_id_simps]: "QMI_LOC_NOTIFY_WIFI_STATUS_REQ_V02 = 0x0048"
definition QMI_LOC_NOTIFY_WIFI_STATUS_RESP_V02 :: nat where [msg_id_simps]: "QMI_LOC_NOTIFY_WIFI_STATUS_RESP_V02 = 0x0048"
definition QMI_LOC_NOTIFY_WIFI_STATUS_IND_V02 :: nat where [msg_id_simps]: "QMI_LOC_NOTIFY_WIFI_STATUS_IND_V02 = 0x0048"
definition QMI_LOC_GET_REGISTERED_EVENTS_REQ_V02 :: nat where [msg_id_simps]: "QMI_LOC_GET_REGISTERED_EVENTS_REQ_V02 = 0x0049"
definition QMI_LOC_GET_REGISTERED_EVENTS_RESP_V02 :: nat where [msg_id_simps]: "QMI_LOC_GET_REGISTERED_EVENTS_RESP_V02 = 0x0049"
definition QMI_LOC_GET_REGISTERED_EVENTS_IND_V02 :: nat where [msg_id_simps]: "QMI_LOC_GET_REGISTERED_EVENTS_IND_V02 = 0x0049"
definition QMI_LOC_SET_OPERATION_MODE_REQ_V02 :: nat where [msg_id_simps]: "QMI_LOC_SET_OPERATION_MODE_REQ_V02 = 0x004A"
definition QMI_LOC_SET_OPERATION_MODE_RESP_V02 :: nat where [msg_id_simps]: "QMI_LOC_SET_OPERATION_MODE_RESP_V02 = 0x004A"
definition QMI_LOC_SET_OPERATION_MODE_IND_V02 :: nat where [msg_id_simps]: "QMI_LOC_SET_OPERATION_MODE_IND_V02 = 0x004A"
definition QMI_LOC_GET_OPERATION_MODE_REQ_V02 :: nat where [msg_id_simps]: "QMI_LOC_GET_OPERATION_MODE_REQ_V02 = 0x004B"
definition QMI_LOC_GET_OPERATION_MODE_RESP_V02 :: nat where [msg_id_simps]: "QMI_LOC_GET_OPERATION_MODE_RESP_V02 = 0x004B"
definition QMI_LOC_GET_OPERATION_MODE_IND_V02 :: nat where [msg_id_simps]: "QMI_LOC_GET_OPERATION_MODE_IND_V02 = 0x004B"
definition QMI_LOC_SET_SPI_STATUS_REQ_V02 :: nat where [msg_id_simps]: "QMI_LOC_SET_SPI_STATUS_REQ_V02 = 0x004C"
definition QMI_LOC_SET_SPI_STATUS_RESP_V02 :: nat where [msg_id_simps]: "QMI_LOC_SET_SPI_STATUS_RESP_V02 = 0x004C"
definition QMI_LOC_SET_SPI_STATUS_IND_V02 :: nat where [msg_id_simps]: "QMI_LOC_SET_SPI_STATUS_IND_V02 = 0x004C"
definition QMI_LOC_INJECT_SENSOR_DATA_REQ_V02 :: nat where [msg_id_simps]: "QMI_LOC_INJECT_SENSOR_DATA_REQ_V02 = 0x004D"
definition QMI_LOC_INJECT_SENSOR_DATA_RESP_V02 :: nat where [msg_id_simps]: "QMI_LOC_INJECT_SENSOR_DATA_RESP_V02 = 0x004D"
definition QMI_LOC_INJECT_SENSOR_DATA_IND_V02 :: nat where [msg_id_simps]: "QMI_LOC_INJECT_SENSOR_DATA_IND_V02 = 0x004D"
definition QMI_LOC_INJECT_TIME_SYNC_DATA_REQ_V02 :: nat where [msg_id_simps]: "QMI_LOC_INJECT_TIME_SYNC_DATA_REQ_V02 = 0x004E"
definition QMI_LOC_INJECT_TIME_SYNC_DATA_RESP_V02 :: nat where [msg_id_simps]: "QMI_LOC_INJECT_TIME_SYNC_DATA_RESP_V02 = 0x004E"
definition QMI_LOC_INJECT_TIME_SYNC_DATA_IND_V02 :: nat where [msg_id_simps]: "QMI_LOC_INJECT_TIME_SYNC_DATA_IND_V02 = 0x004E"
definition QMI_LOC_SET_CRADLE_MOUNT_CONFIG_REQ_V02 :: nat where [msg_id_simps]: "QMI_LOC_SET_CRADLE_MOUNT_CONFIG_REQ_V02 = 0x004F"
definition QMI_LOC_SET_CRADLE_MOUNT_CONFIG_RESP_V02 :: nat where [msg_id_simps]: "QMI_LOC_SET_CRADLE_MOUNT_CONFIG_RESP_V02 = 0x004F"
definition QMI_LOC_SET_CRADLE_MOUNT_CONFIG_IND_V02 :: nat where [msg_id_simps]: "QMI_LOC_SET_CRADLE_MOUNT_CONFIG_IND_V02 = 0x004F"
definition QMI_LOC_GET_CRADLE_MOUNT_CONFIG_REQ_V02 :: nat where [msg_id_simps]: "QMI_LOC_GET_CRADLE_MOUNT_CONFIG_REQ_V02 = 0x0050"
definition QMI_LOC_GET_CRADLE_MOUNT_CONFIG_RESP_V02 :: nat where [msg_id_simps]: "QMI_LOC_GET_CRADLE_MOUNT_CONFIG_RESP_V02 = 0x0050"
definition QMI_LOC_GET_CRADLE_MOUNT_CONFIG_IND_V02 :: nat where [msg_id_simps]: "QMI_LOC_GET_CRADLE_MOUNT_CONFIG_IND_V02 = 0x0050"
definition QMI_LOC_SET_EXTERNAL_POWER_CONFIG_REQ_V02 :: nat where [msg_id_simps]: "QMI_LOC_SET_EXTERNAL_POWER_CONFIG_REQ_V02 = 0x0051"
definition QMI_LOC_SET_EXTERNAL_POWER_CONFIG_RESP_V02 :: nat where [msg_id_simps]: "QMI_LOC_SET_EXTERNAL_POWER_CONFIG_RESP_V02 = 0x0051"
definition QMI_LOC_SET_EXTERNAL_POWER_CONFIG_IND_V02 :: nat where [msg_id_simps]: "QMI_LOC_SET_EXTERNAL_POWER_CONFIG_IND_V02 = 0x0051"
definition QMI_LOC_GET_EXTERNAL_POWER_CONFIG_REQ_V02 :: nat where [msg_id_simps]: "QMI_LOC_GET_EXTERNAL_POWER_CONFIG_REQ_V02 = 0x0052"
definition QMI_LOC_GET_EXTERNAL_POWER_CONFIG_RESP_V02 :: nat where [msg_id_simps]: "QMI_LOC_GET_EXTERNAL_POWER_CONFIG_RESP_V02 = 0x0052"
definition QMI_LOC_GET_EXTERNAL_POWER_CONFIG_IND_V02 :: nat where [msg_id_simps]: "QMI_LOC_GET_EXTERNAL_POWER_CONFIG_IND_V02 = 0x0052"
definition QMI_LOC_INFORM_LOCATION_SERVER_CONN_STATUS_REQ_V02 :: nat where [msg_id_simps]: "QMI_LOC_INFORM_LOCATION_SERVER_CONN_STATUS_REQ_V02 = 0x0053"
definition QMI_LOC_INFORM_LOCATION_SERVER_CONN_STATUS_RESP_V02 :: nat where [msg_id_simps]: "QMI_LOC_INFORM_LOCATION_SERVER_CONN_STATUS_RESP_V02 = 0x0053"
definition QMI_LOC_INFORM_LOCATION_SERVER_CONN_STATUS_IND_V02 :: nat where [msg_id_simps]: "QMI_LOC_INFORM_LOCATION_SERVER_CONN_STATUS_IND_V02 = 0x0053"
definition QMI_LOC_SET_PROTOCOL_CONFIG_PARAMETERS_REQ_V02 :: nat where [msg_id_simps]: "QMI_LOC_SET_PROTOCOL_CONFIG_PARAMETERS_REQ_V02 = 0x0054"
definition QMI_LOC_SET_PROTOCOL_CONFIG_PARAMETERS_RESP_V02 :: nat where [msg_id_simps]: "QMI_LOC_SET_PROTOCOL_CONFIG_PARAMETERS_RESP_V02 = 0x0054"
definition QMI_LOC_SET_PROTOCOL_CONFIG_PARAMETERS_IND_V02 :: nat where [msg_id_simps]: "QMI_LOC_SET_PROTOCOL_CONFIG_PARAMETERS_IND_V02 = 0x0054"
definition QMI_LOC_GET_PROTOCOL_CONFIG_PARAMETERS_REQ_V02 :: nat where [msg_id_simps]: "QMI_LOC_GET_PROTOCOL_CONFIG_PARAMETERS_REQ_V02 = 0x0055"
definition QMI_LOC_GET_PROTOCOL_CONFIG_PARAMETERS_RESP_V02 :: nat where [msg_id_simps]: "QMI_LOC_GET_PROTOCOL_CONFIG_PARAMETERS_RESP_V02 = 0x0055"
definition QMI_LOC_GET_PROTOCOL_CONFIG_PARAMETERS_IND_V02 :: nat where [msg_id_simps]: "QMI_LOC_GET_PROTOCOL_CONFIG_PARAMETERS_IND_V02 = 0x0055"
definition QMI_LOC_SET_SENSOR_CONTROL_CONFIG_REQ_V02 :: nat where [msg_id_simps]: "QMI_LOC_SET_SENSOR_CONTROL_CONFIG_REQ_V02 = 0x0056"
definition QMI_LOC_SET_SENSOR_CONTROL_CONFIG_RESP_V02 :: nat where [msg_id_simps]: "QMI_LOC_SET_SENSOR_CONTROL_CONFIG_RESP_V02 = 0x0056"
definition QMI_LOC_SET_SENSOR_CONTROL_CONFIG_IND_V02 :: nat where [msg_id_simps]: "QMI_LOC_SET_SENSOR_CONTROL_CONFIG_IND_V02 = 0x0056"
definition QMI_LOC_GET_SENSOR_CONTROL_CONFIG_REQ_V02 :: nat where [msg_id_simps]: "QMI_LOC_GET_SENSOR_CONTROL_CONFIG_REQ_V02 = 0x0057"
definition QMI_LOC_GET_SENSOR_CONTROL_CONFIG_RESP_V02 :: nat where [msg_id_simps]: "QMI_LOC_GET_SENSOR_CONTROL_CONFIG_RESP_V02 = 0x0057"
definition QMI_LOC_GET_SENSOR_CONTROL_CONFIG_IND_V02 :: nat where [msg_id_simps]: "QMI_LOC_GET_SENSOR_CONTROL_CONFIG_IND_V02 = 0x0057"
definition QMI_LOC_SET_SENSOR_PROPERTIES_REQ_V02 :: nat where [msg_id_simps]: "QMI_LOC_SET_SENSOR_PROPERTIES_REQ_V02 = 0x0058"
definition QMI_LOC_SET_SENSOR_PROPERTIES_RESP_V02 :: nat where [msg_id_simps]: "QMI_LOC_SET_SENSOR_PROPERTIES_RESP_V02 = 0x0058"
definition QMI_LOC_SET_SENSOR_PROPERTIES_IND_V02 :: nat where [msg_id_simps]: "QMI_LOC_SET_SENSOR_PROPERTIES_IND_V02 = 0x0058"
definition QMI_LOC_GET_SENSOR_PROPERTIES_REQ_V02 :: nat where [msg_id_simps]: "QMI_LOC_GET_SENSOR_PROPERTIES_REQ_V02 = 0x0059"
definition QMI_LOC_GET_SENSOR_PROPERTIES_RESP_V02 :: nat where [msg_id_simps]: "QMI_LOC_GET_SENSOR_PROPERTIES_RESP_V02 = 0x0059"
definition QMI_LOC_GET_SENSOR_PROPERTIES_IND_V02 :: nat where [msg_id_simps]: "QMI_LOC_GET_SENSOR_PROPERTIES_IND_V02 = 0x0059"
definition QMI_LOC_SET_SENSOR_PERFORMANCE_CONTROL_CONFIGURATION_REQ_V02 :: nat where [msg_id_simps]: "QMI_LOC_SET_SENSOR_PERFORMANCE_CONTROL_CONFIGURATION_REQ_V02 = 0x005A"
definition QMI_LOC_SET_SENSOR_PERFORMANCE_CONTROL_CONFIGURATION_RESP_V02 :: nat where [msg_id_simps]: "QMI_LOC_SET_SENSOR_PERFORMANCE_CONTROL_CONFIGURATION_RESP_V02 = 0x005A"
definition QMI_LOC_SET_SENSOR_PERFORMANCE_CONTROL_CONFIGURATION_IND_V02 :: nat where [msg_id_simps]: "QMI_LOC_SET_SENSOR_PERFORMANCE_CONTROL_CONFIGURATION_IND_V02 = 0x005A"
definition QMI_LOC_GET_SENSOR_PERFORMANCE_CONTROL_CONFIGURATION_REQ_V02 :: nat where [msg_id_simps]: "QMI_LOC_GET_SENSOR_PERFORMANCE_CONTROL_CONFIGURATION_REQ_V02 = 0x005B"
definition QMI_LOC_GET_SENSOR_PERFORMANCE_CONTROL_CONFIGURATION_RESP_V02 :: nat where [msg_id_simps]: "QMI_LOC_GET_SENSOR_PERFORMANCE_CONTROL_CONFIGURATION_RESP_V02 = 0x005B"
definition QMI_LOC_GET_SENSOR_PERFORMANCE_CONTROL_CONFIGURATION_IND_V02 :: nat where [msg_id_simps]: "QMI_LOC_GET_SENSOR_PERFORMANCE_CONTROL_CONFIGURATION_IND_V02 = 0x005B"
definition QMI_LOC_INJECT_SUPL_CERTIFICATE_REQ_V02 :: nat where [msg_id_simps]: "QMI_LOC_INJECT_SUPL_CERTIFICATE_REQ_V02 = 0x005C"
definition QMI_LOC_INJECT_SUPL_CERTIFICATE_RESP_V02 :: nat where [msg_id_simps]: "QMI_LOC_INJECT_SUPL_CERTIFICATE_RESP_V02 = 0x005C"
definition QMI_LOC_INJECT_SUPL_CERTIFICATE_IND_V02 :: nat where [msg_id_simps]: "QMI_LOC_INJECT_SUPL_CERTIFICATE_IND_V02 = 0x005C"
definition QMI_LOC_DELETE_SUPL_CERTIFICATE_REQ_V02 :: nat where [msg_id_simps]: "QMI_LOC_DELETE_SUPL_CERTIFICATE_REQ_V02 = 0x005D"
definition QMI_LOC_DELETE_SUPL_CERTIFICATE_RESP_V02 :: nat where [msg_id_simps]: "QMI_LOC_DELETE_SUPL_CERTIFICATE_RESP_V02 = 0x005D"
definition QMI_LOC_DELETE_SUPL_CERTIFICATE_IND_V02 :: nat where [msg_id_simps]: "QMI_LOC_DELETE_SUPL_CERTIFICATE_IND_V02 = 0x005D"
definition QMI_LOC_SET_POSITION_ENGINE_CONFIG_PARAMETERS_REQ_V02 :: nat where [msg_id_simps]: "QMI_LOC_SET_POSITION_ENGINE_CONFIG_PARAMETERS_REQ_V02 = 0x005E"
definition QMI_LOC_SET_POSITION_ENGINE_CONFIG_PARAMETERS_RESP_V02 :: nat where [msg_id_simps]: "QMI_LOC_SET_POSITION_ENGINE_CONFIG_PARAMETERS_RESP_V02 = 0x005E"
definition QMI_LOC_SET_POSITION_ENGINE_CONFIG_PARAMETERS_IND_V02 :: nat where [msg_id_simps]: "QMI_LOC_SET_POSITION_ENGINE_CONFIG_PARAMETERS_IND_V02 = 0x005E"
definition QMI_LOC_GET_POSITION_ENGINE_CONFIG_PARAMETERS_REQ_V02 :: nat where [msg_id_simps]: "QMI_LOC_GET_POSITION_ENGINE_CONFIG_PARAMETERS_REQ_V02 = 0x005F"
definition QMI_LOC_GET_POSITION_ENGINE_CONFIG_PARAMETERS_RESP_V02 :: nat where [msg_id_simps]: "QMI_LOC_GET_POSITION_ENGINE_CONFIG_PARAMETERS_RESP_V02 = 0x005F"
definition QMI_LOC_GET_POSITION_ENGINE_CONFIG_PARAMETERS_IND_V02 :: nat where [msg_id_simps]: "QMI_LOC_GET_POSITION_ENGINE_CONFIG_PARAMETERS_IND_V02 = 0x005F"
definition QMI_LOC_EVENT_NI_GEOFENCE_NOTIFICATION_IND_V02 :: nat where [msg_id_simps]: "QMI_LOC_EVENT_NI_GEOFENCE_NOTIFICATION_IND_V02 = 0x0060"
definition QMI_LOC_EVENT_GEOFENCE_GEN_ALERT_IND_V02 :: nat where [msg_id_simps]: "QMI_LOC_EVENT_GEOFENCE_GEN_ALERT_IND_V02 = 0x0061"
definition QMI_LOC_EVENT_GEOFENCE_BREACH_NOTIFICATION_IND_V02 :: nat where [msg_id_simps]: "QMI_LOC_EVENT_GEOFENCE_BREACH_NOTIFICATION_IND_V02 = 0x0062"
definition QMI_LOC_ADD_CIRCULAR_GEOFENCE_REQ_V02 :: nat where [msg_id_simps]: "QMI_LOC_ADD_CIRCULAR_GEOFENCE_REQ_V02 = 0x0063"
definition QMI_LOC_ADD_CIRCULAR_GEOFENCE_RESP_V02 :: nat where [msg_id_simps]: "QMI_LOC_ADD_CIRCULAR_GEOFENCE_RESP_V02 = 0x0063"
definition QMI_LOC_ADD_CIRCULAR_GEOFENCE_IND_V02 :: nat where [msg_id_simps]: "QMI_LOC_ADD_CIRCULAR_GEOFENCE_IND_V02 = 0x0063"
definition QMI_LOC_DELETE_GEOFENCE_REQ_V02 :: nat where [msg_id_simps]: "QMI_LOC_DELETE_GEOFENCE_REQ_V02 = 0x0064"
definition QMI_LOC_DELETE_GEOFENCE_RESP_V02 :: nat where [msg_id_simps]: "QMI_LOC_DELETE_GEOFENCE_RESP_V02 = 0x0064"
definition QMI_LOC_DELETE_GEOFENCE_IND_V02 :: nat where [msg_id_simps]: "QMI_LOC_DELETE_GEOFENCE_IND_V02 = 0x0064"
definition QMI_LOC_QUERY_GEOFENCE_REQ_V02 :: nat where [msg_id_simps]: "QMI_LOC_QUERY_GEOFENCE_REQ_V02 = 0x0065"
definition QMI_LOC_QUERY_GEOFENCE_RESP_V02 :: nat where [msg_id_simps]: "QMI_LOC_QUERY_GEOFENCE_RESP_V02 = 0x0065"
definition QMI_LOC_QUERY_GEOFENCE_IND_V02 :: nat where [msg_id_simps]: "QMI_LOC_QUERY_GEOFENCE_IND_V02 = 0x0065"
definition QMI_LOC_EDIT_GEOFENCE_REQ_V02 :: nat where [msg_id_simps]: "QMI_LOC_EDIT_GEOFENCE_REQ_V02 = 0x0066"
definition QMI_LOC_EDIT_GEOFENCE_RESP_V02 :: nat where [msg_id_simps]: "QMI_LOC_EDIT_GEOFENCE_RESP_V02 = 0x0066"
definition QMI_LOC_EDIT_GEOFENCE_IND_V02 :: nat where [msg_id_simps]: "QMI_LOC_EDIT_GEOFENCE_IND_V02 = 0x0066"
definition QMI_LOC_GET_BEST_AVAILABLE_POSITION_REQ_V02 :: nat where [msg_id_simps]: "QMI_LOC_GET_BEST_AVAILABLE_POSITION_REQ_V02 = 0x0067"
definition QMI_LOC_GET_BEST_AVAILABLE_POSITION_RESP_V02 :: nat where [msg_id_simps]: "QMI_LOC_GET_BEST_AVAILABLE_POSITION_RESP_V02 = 0x0067"
definition QMI_LOC_GET_BEST_AVAILABLE_POSITION_IND_V02 :: nat where [msg_id_simps]: "QMI_LOC_GET_BEST_AVAILABLE_POSITION_IND_V02 = 0x0067"
definition QMI_LOC_INJECT_MOTION_DATA_REQ_V02 :: nat where [msg_id_simps]: "QMI_LOC_INJECT_MOTION_DATA_REQ_V02 = 0x0068"
definition QMI_LOC_INJECT_MOTION_DATA_RESP_V02 :: nat where [msg_id_simps]: "QMI_LOC_INJECT_MOTION_DATA_RESP_V02 = 0x0068"
definition QMI_LOC_INJECT_MOTION_DATA_IND_V02 :: nat where [msg_id_simps]: "QMI_LOC_INJECT_MOTION_DATA_IND_V02 = 0x0068"
definition QMI_LOC_GET_NI_GEOFENCE_ID_LIST_REQ_V02 :: nat where [msg_id_simps]: "QMI_LOC_GET_NI_GEOFENCE_ID_LIST_REQ_V02 = 0x0069"
definition QMI_LOC_GET_NI_GEOFENCE_ID_LIST_RESP_V02 :: nat where [msg_id_simps]: "QMI_LOC_GET_NI_GEOFENCE_ID_LIST_RESP_V02 = 0x0069"
definition QMI_LOC_GET_NI_GEOFENCE_ID_LIST_IND_V02 :: nat where [msg_id_simps]: "QMI_LOC_GET_NI_GEOFENCE_ID_LIST_IND_V02 = 0x0069"
definition QMI_LOC_INJECT_GSM_CELL_INFO_REQ_V02 :: nat where [msg_id_simps]: "QMI_LOC_INJECT_GSM_CELL_INFO_REQ_V02 = 0x006A"
definition QMI_LOC_INJECT_GSM_CELL_INFO_RESP_V02 :: nat where [msg_id_simps]: "QMI_LOC_INJECT_GSM_CELL_INFO_RESP_V02 = 0x006A"
definition QMI_LOC_INJECT_GSM_CELL_INFO_IND_V02 :: nat where [msg_id_simps]: "QMI_LOC_INJECT_GSM_CELL_INFO_IND_V02 = 0x006A"
definition QMI_LOC_INJECT_NETWORK_INITIATED_MESSAGE_REQ_V02 :: nat where [msg_id_simps]: "QMI_LOC_INJECT_NETWORK_INITIATED_MESSAGE_REQ_V02 = 0x006B"
definition QMI_LOC_INJECT_NETWORK_INITIATED_MESSAGE_RESP_V02 :: nat where [msg_id_simps]: "QMI_LOC_INJECT_NETWORK_INITIATED_MESSAGE_RESP_V02 = 0x006B"
definition QMI_LOC_INJECT_NETWORK_INITIATED_MESSAGE_IND_V02 :: nat where [msg_id_simps]: "QMI_LOC_INJECT_NETWORK_INITIATED_MESSAGE_IND_V02 = 0x006B"
definition QMI_LOC_WWAN_OUT_OF_SERVICE_NOTIFICATION_REQ_V02 :: nat where [msg_id_simps]: "QMI_LOC_WWAN_OUT_OF_SERVICE_NOTIFICATION_REQ_V02 = 0x006C"
definition QMI_LOC_WWAN_OUT_OF_SERVICE_NOTIFICATION_RESP_V02 :: nat where [msg_id_simps]: "QMI_LOC_WWAN_OUT_OF_SERVICE_NOTIFICATION_RESP_V02 = 0x006C"
definition QMI_LOC_WWAN_OUT_OF_SERVICE_NOTIFICATION_IND_V02 :: nat where [msg_id_simps]: "QMI_LOC_WWAN_OUT_OF_SERVICE_NOTIFICATION_IND_V02 = 0x006C"
definition QMI_LOC_EVENT_PEDOMETER_CONTROL_IND_V02 :: nat where [msg_id_simps]: "QMI_LOC_EVENT_PEDOMETER_CONTROL_IND_V02 = 0x006D"
definition QMI_LOC_EVENT_MOTION_DATA_CONTROL_IND_V02 :: nat where [msg_id_simps]: "QMI_LOC_EVENT_MOTION_DATA_CONTROL_IND_V02 = 0x006E"
definition QMI_LOC_PEDOMETER_REPORT_REQ_V02 :: nat where [msg_id_simps]: "QMI_LOC_PEDOMETER_REPORT_REQ_V02 = 0x006F"
definition QMI_LOC_PEDOMETER_REPORT_RESP_V02 :: nat where [msg_id_simps]: "QMI_LOC_PEDOMETER_REPORT_RESP_V02 = 0x006F"
definition QMI_LOC_PEDOMETER_REPORT_IND_V02 :: nat where [msg_id_simps]: "QMI_LOC_PEDOMETER_REPORT_IND_V02 = 0x006F"
definition QMI_LOC_INJECT_WCDMA_CELL_INFO_REQ_V02 :: nat where [msg_id_simps]: "QMI_LOC_INJECT_WCDMA_CELL_INFO_REQ_V02 = 0x0070"
definition QMI_LOC_INJECT_WCDMA_CELL_INFO_RESP_V02 :: nat where [msg_id_simps]: "QMI_LOC_INJECT_WCDMA_CELL_INFO_RESP_V02 = 0x0070"
definition QMI_LOC_INJECT_WCDMA_CELL_INFO_IND_V02 :: nat where [msg_id_simps]: "QMI_LOC_INJECT_WCDMA_CELL_INFO_IND_V02 = 0x0070"
definition QMI_LOC_INJECT_TDSCDMA_CELL_INFO_REQ_V02 :: nat where [msg_id_simps]: "QMI_LOC_INJECT_TDSCDMA_CELL_INFO_REQ_V02 = 0x0071"
definition QMI_LOC_INJECT_TDSCDMA_CELL_INFO_RESP_V02 :: nat where [msg_id_simps]: "QMI_LOC_INJECT_TDSCDMA_CELL_INFO_RESP_V02 = 0x0071"
definition QMI_LOC_INJECT_TDSCDMA_CELL_INFO_IND_V02 :: nat where [msg_id_simps]: "QMI_LOC_INJECT_TDSCDMA_CELL_INFO_IND_V02 = 0x0071"
definition QMI_LOC_INJECT_SUBSCRIBER_ID_REQ_V02 :: nat where [msg_id_simps]: "QMI_LOC_INJECT_SUBSCRIBER_ID_REQ_V02 = 0x0072"
definition QMI_LOC_INJECT_SUBSCRIBER_ID_RESP_V02 :: nat where [msg_id_simps]: "QMI_LOC_INJECT_SUBSCRIBER_ID_RESP_V02 = 0x0072"
definition QMI_LOC_INJECT_SUBSCRIBER_ID_IND_V02 :: nat where [msg_id_simps]: "QMI_LOC_INJECT_SUBSCRIBER_ID_IND_V02 = 0x0072"
definition QMI_LOC_SET_GEOFENCE_ENGINE_CONFIG_REQ_V02 :: nat where [msg_id_simps]: "QMI_LOC_SET_GEOFENCE_ENGINE_CONFIG_REQ_V02 = 0x0073"
definition QMI_LOC_SET_GEOFENCE_ENGINE_CONFIG_RESP_V02 :: nat where [msg_id_simps]: "QMI_LOC_SET_GEOFENCE_ENGINE_CONFIG_RESP_V02 = 0x0073"
definition QMI_LOC_SET_GEOFENCE_ENGINE_CONFIG_IND_V02 :: nat where [msg_id_simps]: "QMI_LOC_SET_GEOFENCE_ENGINE_CONFIG_IND_V02 = 0x0073"
definition QMI_LOC_GET_GEOFENCE_ENGINE_CONFIG_REQ_V02 :: nat where [msg_id_simps]: "QMI_LOC_GET_GEOFENCE_ENGINE_CONFIG_REQ_V02 = 0x0074"
definition QMI_LOC_GET_GEOFENCE_ENGINE_CONFIG_RESP_V02 :: nat where [msg_id_simps]: "QMI_LOC_GET_GEOFENCE_ENGINE_CONFIG_RESP_V02 = 0x0074"
definition QMI_LOC_GET_GEOFENCE_ENGINE_CONFIG_IND_V02 :: nat where [msg_id_simps]: "QMI_LOC_GET_GEOFENCE_ENGINE_CONFIG_IND_V02 = 0x0074"
definition QMI_LOC_GET_BATCH_SIZE_REQ_V02 :: nat where [msg_id_simps]: "QMI_LOC_GET_BATCH_SIZE_REQ_V02 = 0x0075"
definition QMI_LOC_GET_BATCH_SIZE_RESP_V02 :: nat where [msg_id_simps]: "QMI_LOC_GET_BATCH_SIZE_RESP_V02 = 0x0075"
definition QMI_LOC_GET_BATCH_SIZE_IND_V02 :: nat where [msg_id_simps]: "QMI_LOC_GET_BATCH_SIZE_IND_V02 = 0x0075"
definition QMI_LOC_START_BATCHING_REQ_V02 :: nat where [msg_id_simps]: "QMI_LOC_START_BATCHING_REQ_V02 = 0x0076"
definition QMI_LOC_START_BATCHING_RESP_V02 :: nat where [msg_id_simps]: "QMI_LOC_START_BATCHING_RESP_V02 = 0x0076"
definition QMI_LOC_START_BATCHING_IND_V02 :: nat where [msg_id_simps]: "QMI_LOC_START_BATCHING_IND_V02 = 0x0076"
definition QMI_LOC_EVENT_BATCH_FULL_NOTIFICATION_IND_V02 :: nat where [msg_id_simps]: "QMI_LOC_EVENT_BATCH_FULL_NOTIFICATION_IND_V02 = 0x0077"
definition QMI_LOC_EVENT_LIVE_BATCHED_POSITION_REPORT_IND_V02 :: nat where [msg_id_simps]: "QMI_LOC_EVENT_LIVE_BATCHED_POSITION_REPORT_IND_V02 = 0x0078"
definition QMI_LOC_READ_FROM_BATCH_REQ_V02 :: nat where [msg_id_simps]: "QMI_LOC_READ_FROM_BATCH_REQ_V02 = 0x0079"
definition QMI_LOC_READ_FROM_BATCH_RESP_V02 :: nat where [msg_id_simps]: "QMI_LOC_READ_FROM_BATCH_RESP_V02 = 0x0079"
definition QMI_LOC_READ_FROM_BATCH_IND_V02 :: nat where [msg_id_simps]: "QMI_LOC_READ_FROM_BATCH_IND_V02 = 0x0079"
definition QMI_LOC_STOP_BATCHING_REQ_V02 :: nat where [msg_id_simps]: "QMI_LOC_STOP_BATCHING_REQ_V02 = 0x007A"
definition QMI_LOC_STOP_BATCHING_RESP_V02 :: nat where [msg_id_simps]: "QMI_LOC_STOP_BATCHING_RESP_V02 = 0x007A"
definition QMI_LOC_STOP_BATCHING_IND_V02 :: nat where [msg_id_simps]: "QMI_LOC_STOP_BATCHING_IND_V02 = 0x007A"
definition QMI_LOC_RELEASE_BATCH_REQ_V02 :: nat where [msg_id_simps]: "QMI_LOC_RELEASE_BATCH_REQ_V02 = 0x007B"
definition QMI_LOC_RELEASE_BATCH_RESP_V02 :: nat where [msg_id_simps]: "QMI_LOC_RELEASE_BATCH_RESP_V02 = 0x007B"
definition QMI_LOC_RELEASE_BATCH_IND_V02 :: nat where [msg_id_simps]: "QMI_LOC_RELEASE_BATCH_IND_V02 = 0x007B"
definition QMI_LOC_EVENT_INJECT_WIFI_AP_DATA_REQ_IND_V02 :: nat where [msg_id_simps]: "QMI_LOC_EVENT_INJECT_WIFI_AP_DATA_REQ_IND_V02 = 0x007C"
definition QMI_LOC_INJECT_WIFI_AP_DATA_REQ_V02 :: nat where [msg_id_simps]: "QMI_LOC_INJECT_WIFI_AP_DATA_REQ_V02 = 0x007D"
definition QMI_LOC_INJECT_WIFI_AP_DATA_RESP_V02 :: nat where [msg_id_simps]: "QMI_LOC_INJECT_WIFI_AP_DATA_RESP_V02 = 0x007D"
definition QMI_LOC_INJECT_WIFI_AP_DATA_IND_V02 :: nat where [msg_id_simps]: "QMI_LOC_INJECT_WIFI_AP_DATA_IND_V02 = 0x007D"
definition QMI_LOC_NOTIFY_WIFI_ATTACHMENT_STATUS_REQ_V02 :: nat where [msg_id_simps]: "QMI_LOC_NOTIFY_WIFI_ATTACHMENT_STATUS_REQ_V02 = 0x007E"
definition QMI_LOC_NOTIFY_WIFI_ATTACHMENT_STATUS_RESP_V02 :: nat where [msg_id_simps]: "QMI_LOC_NOTIFY_WIFI_ATTACHMENT_STATUS_RESP_V02 = 0x007E"
definition QMI_LOC_NOTIFY_WIFI_ATTACHMENT_STATUS_IND_V02 :: nat where [msg_id_simps]: "QMI_LOC_NOTIFY_WIFI_ATTACHMENT_STATUS_IND_V02 = 0x007E"
definition QMI_LOC_NOTIFY_WIFI_ENABLED_STATUS_REQ_V02 :: nat where [msg_id_simps]: "QMI_LOC_NOTIFY_WIFI_ENABLED_STATUS_REQ_V02 = 0x007F"
definition QMI_LOC_NOTIFY_WIFI_ENABLED_STATUS_RESP_V02 :: nat where [msg_id_simps]: "QMI_LOC_NOTIFY_WIFI_ENABLED_STATUS_RESP_V02 = 0x007F"
definition QMI_LOC_NOTIFY_WIFI_ENABLED_STATUS_IND_V02 :: nat where [msg_id_simps]: "QMI_LOC_NOTIFY_WIFI_ENABLED_STATUS_IND_V02 = 0x007F"
definition QMI_LOC_EVENT_GEOFENCE_BATCHED_BREACH_NOTIFICATION_IND_V02 :: nat where [msg_id_simps]: "QMI_LOC_EVENT_GEOFENCE_BATCHED_BREACH_NOTIFICATION_IND_V02 = 0x0080"
definition QMI_LOC_EVENT_VEHICLE_DATA_READY_STATUS_IND_V02 :: nat where [msg_id_simps]: "QMI_LOC_EVENT_VEHICLE_DATA_READY_STATUS_IND_V02 = 0x0081"
definition QMI_LOC_INJECT_VEHICLE_SENSOR_DATA_REQ_V02 :: nat where [msg_id_simps]: "QMI_LOC_INJECT_VEHICLE_SENSOR_DATA_REQ_V02 = 0x0082"
definition QMI_LOC_INJECT_VEHICLE_SENSOR_DATA_RESP_V02 :: nat where [msg_id_simps]: "QMI_LOC_INJECT_VEHICLE_SENSOR_DATA_RESP_V02 = 0x0082"
definition QMI_LOC_INJECT_VEHICLE_SENSOR_DATA_IND_V02 :: nat where [msg_id_simps]: "QMI_LOC_INJECT_VEHICLE_SENSOR_DATA_IND_V02 = 0x0082"
definition QMI_LOC_GET_AVAILABLE_WWAN_POSITION_REQ_V02 :: nat where [msg_id_simps]: "QMI_LOC_GET_AVAILABLE_WWAN_POSITION_REQ_V02 = 0x0083"
definition QMI_LOC_GET_AVAILABLE_WWAN_POSITION_RESP_V02 :: nat where [msg_id_simps]: "QMI_LOC_GET_AVAILABLE_WWAN_POSITION_RESP_V02 = 0x0083"
definition QMI_LOC_GET_AVAILABLE_WWAN_POSITION_IND_V02 :: nat where [msg_id_simps]: "QMI_LOC_GET_AVAILABLE_WWAN_POSITION_IND_V02 = 0x0083"
definition QMI_LOC_SET_PREMIUM_SERVICES_CONFIG_REQ_V02 :: nat where [msg_id_simps]: "QMI_LOC_SET_PREMIUM_SERVICES_CONFIG_REQ_V02 = 0x0084"
definition QMI_LOC_SET_PREMIUM_SERVICES_CONFIG_RESP_V02 :: nat where [msg_id_simps]: "QMI_LOC_SET_PREMIUM_SERVICES_CONFIG_RESP_V02 = 0x0084"
definition QMI_LOC_SET_PREMIUM_SERVICES_CONFIG_IND_V02 :: nat where [msg_id_simps]: "QMI_LOC_SET_PREMIUM_SERVICES_CONFIG_IND_V02 = 0x0084"
definition QMI_LOC_SET_XTRA_VERSION_CHECK_REQ_V02 :: nat where [msg_id_simps]: "QMI_LOC_SET_XTRA_VERSION_CHECK_REQ_V02 = 0x0085"
definition QMI_LOC_SET_XTRA_VERSION_CHECK_RESP_V02 :: nat where [msg_id_simps]: "QMI_LOC_SET_XTRA_VERSION_CHECK_RESP_V02 = 0x0085"
definition QMI_LOC_SET_XTRA_VERSION_CHECK_IND_V02 :: nat where [msg_id_simps]: "QMI_LOC_SET_XTRA_VERSION_CHECK_IND_V02 = 0x0085"
definition QMI_LOC_EVENT_GNSS_MEASUREMENT_REPORT_IND_V02 :: nat where [msg_id_simps]: "QMI_LOC_EVENT_GNSS_MEASUREMENT_REPORT_IND_V02 = 0x0086"
definition QMI_LOC_EVENT_SV_POLYNOMIAL_REPORT_IND_V02 :: nat where [msg_id_simps]: "QMI_LOC_EVENT_SV_POLYNOMIAL_REPORT_IND_V02 = 0x0087"
definition QMI_LOC_SET_GNSS_CONSTELL_REPORT_CONFIG_V02 :: nat where [msg_id_simps]: "QMI_LOC_SET_GNSS_CONSTELL_REPORT_CONFIG_V02 = 0x0088"
definition QMI_LOC_SET_GNSS_CONSTELL_REPORT_CONFIG_RESP_V02 :: nat where [msg_id_simps]: "QMI_LOC_SET_GNSS_CONSTELL_REPORT_CONFIG_RESP_V02 = 0x0088"
definition QMI_LOC_SET_GNSS_CONSTELL_REPORT_CONFIG_IND_V02 :: nat where [msg_id_simps]: "QMI_LOC_SET_GNSS_CONSTELL_REPORT_CONFIG_IND_V02 = 0x0088"
definition QMI_LOC_ADD_GEOFENCE_CONTEXT_REQ_V02 :: nat where [msg_id_simps]: "QMI_LOC_ADD_GEOFENCE_CONTEXT_REQ_V02 = 0x0089"
definition QMI_LOC_ADD_GEOFENCE_CONTEXT_RESP_V02 :: nat where [msg_id_simps]: "QMI_LOC_ADD_GEOFENCE_CONTEXT_RESP_V02 = 0x0089"
definition QMI_LOC_ADD_GEOFENCE_CONTEXT_IND_V02 :: nat where [msg_id_simps]: "QMI_LOC_ADD_GEOFENCE_CONTEXT_IND_V02 = 0x0089"
definition QMI_LOC_SET_GEOFENCE_ENGINE_CONTEXT_REQ_V02 :: nat where [msg_id_simps]: "QMI_LOC_SET_GEOFENCE_ENGINE_CONTEXT_REQ_V02 = 0x008A"
definition QMI_LOC_SET_GEOFENCE_ENGINE_CONTEXT_RESP_V02 :: nat where [msg_id_simps]: "QMI_LOC_SET_GEOFENCE_ENGINE_CONTEXT_RESP_V02 = 0x008A"
definition QMI_LOC_SET_GEOFENCE_ENGINE_CONTEXT_IND_V02 :: nat where [msg_id_simps]: "QMI_LOC_SET_GEOFENCE_ENGINE_CONTEXT_IND_V02 = 0x008A"
definition QMI_LOC_DELETE_GEOFENCE_CONTEXT_REQ_V02 :: nat where [msg_id_simps]: "QMI_LOC_DELETE_GEOFENCE_CONTEXT_REQ_V02 = 0x008B"
definition QMI_LOC_DELETE_GEOFENCE_CONTEXT_RESP_V02 :: nat where [msg_id_simps]: "QMI_LOC_DELETE_GEOFENCE_CONTEXT_RESP_V02 = 0x008B"
definition QMI_LOC_DELETE_GEOFENCE_CONTEXT_IND_V02 :: nat where [msg_id_simps]: "QMI_LOC_DELETE_GEOFENCE_CONTEXT_IND_V02 = 0x008B"
definition QMI_LOC_EVENT_GEOFENCE_PROXIMITY_NOTIFICATION_IND_V02 :: nat where [msg_id_simps]: "QMI_LOC_EVENT_GEOFENCE_PROXIMITY_NOTIFICATION_IND_V02 = 0x008C"
definition QMI_LOC_INJECT_GTP_CLIENT_DOWNLOADED_DATA_REQ_V02 :: nat where [msg_id_simps]: "QMI_LOC_INJECT_GTP_CLIENT_DOWNLOADED_DATA_REQ_V02 = 0x008D"
definition QMI_LOC_INJECT_GTP_CLIENT_DOWNLOADED_DATA_RESP_V02 :: nat where [msg_id_simps]: "QMI_LOC_INJECT_GTP_CLIENT_DOWNLOADED_DATA_RESP_V02 = 0x008D"
definition QMI_LOC_INJECT_GTP_CLIENT_DOWNLOADED_DATA_IND_V02 :: nat where [msg_id_simps]: "QMI_LOC_INJECT_GTP_CLIENT_DOWNLOADED_DATA_IND_V02 = 0x008D"
definition QMI_LOC_GDT_UPLOAD_BEGIN_STATUS_REQ_V02 :: nat where [msg_id_simps]: "QMI_LOC_GDT_UPLOAD_BEGIN_STATUS_REQ_V02 = 0x008E"
definition QMI_LOC_GDT_UPLOAD_BEGIN_STATUS_RESP_V02 :: nat where [msg_id_simps]: "QMI_LOC_GDT_UPLOAD_BEGIN_STATUS_RESP_V02 = 0x008E"
definition QMI_LOC_GDT_UPLOAD_BEGIN_STATUS_IND_V02 :: nat where [msg_id_simps]: "QMI_LOC_GDT_UPLOAD_BEGIN_STATUS_IND_V02 = 0x008E"
definition QMI_LOC_GDT_UPLOAD_END_REQ_V02 :: nat where [msg_id_simps]: "QMI_LOC_GDT_UPLOAD_END_REQ_V02 = 0x008F"
definition QMI_LOC_GDT_UPLOAD_END_RESP_V02 :: nat where [msg_id_simps]: "QMI_LOC_GDT_UPLOAD_END_RESP_V02 = 0x008F"
definition QMI_LOC_GDT_UPLOAD_END_IND_V02 :: nat where [msg_id_simps]: "QMI_LOC_GDT_UPLOAD_END_IND_V02 = 0x008F"
definition QMI_LOC_EVENT_GDT_UPLOAD_BEGIN_STATUS_REQ_IND_V02 :: nat where [msg_id_simps]: "QMI_LOC_EVENT_GDT_UPLOAD_BEGIN_STATUS_REQ_IND_V02 = 0x0090"
definition QMI_LOC_EVENT_GDT_UPLOAD_END_REQ_IND_V02 :: nat where [msg_id_simps]: "QMI_LOC_EVENT_GDT_UPLOAD_END_REQ_IND_V02 = 0x0091"
definition QMI_LOC_START_DBT_REQ_V02 :: nat where [msg_id_simps]: "QMI_LOC_START_DBT_REQ_V02 = 0x0092"
definition QMI_LOC_START_DBT_RESP_V02 :: nat where [msg_id_simps]: "QMI_LOC_START_DBT_RESP_V02 = 0x0092"
definition QMI_LOC_START_DBT_IND_V02 :: nat where [msg_id_simps]: "QMI_LOC_START_DBT_IND_V02 = 0x0092"
definition QMI_LOC_EVENT_DBT_POSITION_REPORT_IND_V02 :: nat where [msg_id_simps]: "QMI_LOC_EVENT_DBT_POSITION_REPORT_IND_V02 = 0x0093"
definition QMI_LOC_EVENT_DBT_SESSION_STATUS_IND_V02 :: nat where [msg_id_simps]: "QMI_LOC_EVENT_DBT_SESSION_STATUS_IND_V02 = 0x0094"
definition QMI_LOC_STOP_DBT_REQ_V02 :: nat where [msg_id_simps]: "QMI_LOC_STOP_DBT_REQ_V02 = 0x0095"
definition QMI_LOC_STOP_DBT_RESP_V02 :: nat where [msg_id_simps]: "QMI_LOC_STOP_DBT_RESP_V02 = 0x0095"
definition QMI_LOC_STOP_DBT_IND_V02 :: nat where [msg_id_simps]: "QMI_LOC_STOP_DBT_IND_V02 = 0x0095"
definition QMI_LOC_SECURE_GET_AVAILABLE_POSITION_REQ_V02 :: nat where [msg_id_simps]: "QMI_LOC_SECURE_GET_AVAILABLE_POSITION_REQ_V02 = 0x0096"
definition QMI_LOC_SECURE_GET_AVAILABLE_POSITION_RESP_V02 :: nat where [msg_id_simps]: "QMI_LOC_SECURE_GET_AVAILABLE_POSITION_RESP_V02 = 0x0096"
definition QMI_LOC_SECURE_GET_AVAILABLE_POSITION_IND_V02 :: nat where [msg_id_simps]: "QMI_LOC_SECURE_GET_AVAILABLE_POSITION_IND_V02 = 0x0096"
definition QMI_LOC_EVENT_GEOFENCE_BATCHED_DWELL_NOTIFICATION_IND_V02 :: nat where [msg_id_simps]: "QMI_LOC_EVENT_GEOFENCE_BATCHED_DWELL_NOTIFICATION_IND_V02 = 0x0097"
definition QMI_LOC_EVENT_GET_TIME_ZONE_INFO_IND_V02 :: nat where [msg_id_simps]: "QMI_LOC_EVENT_GET_TIME_ZONE_INFO_IND_V02 = 0x0098"
definition QMI_LOC_INJECT_TIME_ZONE_INFO_REQ_V02 :: nat where [msg_id_simps]: "QMI_LOC_INJECT_TIME_ZONE_INFO_REQ_V02 = 0x0099"
definition QMI_LOC_INJECT_TIME_ZONE_INFO_RESP_V02 :: nat where [msg_id_simps]: "QMI_LOC_INJECT_TIME_ZONE_INFO_RESP_V02 = 0x0099"
definition QMI_LOC_INJECT_TIME_ZONE_INFO_IND_V02 :: nat where [msg_id_simps]: "QMI_LOC_INJECT_TIME_ZONE_INFO_IND_V02 = 0x0099"
definition QMI_LOC_INJECT_APCACHE_DATA_REQ_V02 :: nat where [msg_id_simps]: "QMI_LOC_INJECT_APCACHE_DATA_REQ_V02 = 0x009A"
definition QMI_LOC_INJECT_APCACHE_DATA_RESP_V02 :: nat where [msg_id_simps]: "QMI_LOC_INJECT_APCACHE_DATA_RESP_V02 = 0x009A"
definition QMI_LOC_INJECT_APCACHE_DATA_IND_V02 :: nat where [msg_id_simps]: "QMI_LOC_INJECT_APCACHE_DATA_IND_V02 = 0x009A"
definition QMI_LOC_INJECT_APDONOTCACHE_DATA_REQ_V02 :: nat where [msg_id_simps]: "QMI_LOC_INJECT_APDONOTCACHE_DATA_REQ_V02 = 0x009B"
definition QMI_LOC_INJECT_APDONOTCACHE_DATA_RESP_V02 :: nat where [msg_id_simps]: "QMI_LOC_INJECT_APDONOTCACHE_DATA_RESP_V02 = 0x009B"
definition QMI_LOC_INJECT_APDONOTCACHE_DATA_IND_V02 :: nat where [msg_id_simps]: "QMI_LOC_INJECT_APDONOTCACHE_DATA_IND_V02 = 0x009B"
definition QMI_LOC_EVENT_BATCHING_STATUS_IND_V02 :: nat where [msg_id_simps]: "QMI_LOC_EVENT_BATCHING_STATUS_IND_V02 = 0x009C"
definition QMI_LOC_QUERY_AON_CONFIG_REQ_V02 :: nat where [msg_id_simps]: "QMI_LOC_QUERY_AON_CONFIG_REQ_V02 = 0x009D"
definition QMI_LOC_QUERY_AON_CONFIG_RESP_V02 :: nat where [msg_id_simps]: "QMI_LOC_QUERY_AON_CONFIG_RESP_V02 = 0x009D"
definition QMI_LOC_QUERY_AON_CONFIG_IND_V02 :: nat where [msg_id_simps]: "QMI_LOC_QUERY_AON_CONFIG_IND_V02 = 0x009D"
definition QMI_LOC_GTP_AP_STATUS_REQ_V02 :: nat where [msg_id_simps]: "QMI_LOC_GTP_AP_STATUS_REQ_V02 = 0x009E"
definition QMI_LOC_GTP_AP_STATUS_RESP_V02 :: nat where [msg_id_simps]: "QMI_LOC_GTP_AP_STATUS_RESP_V02 = 0x009E"
definition QMI_LOC_GTP_AP_STATUS_IND_V02 :: nat where [msg_id_simps]: "QMI_LOC_GTP_AP_STATUS_IND_V02 = 0x009E"
definition QMI_LOC_GDT_DOWNLOAD_BEGIN_STATUS_REQ_V02 :: nat where [msg_id_simps]: "QMI_LOC_GDT_DOWNLOAD_BEGIN_STATUS_REQ_V02 = 0x009F"
definition QMI_LOC_GDT_DOWNLOAD_BEGIN_STATUS_RESP_V02 :: nat where [msg_id_simps]: "QMI_LOC_GDT_DOWNLOAD_BEGIN_STATUS_RESP_V02 = 0x009F"
definition QMI_LOC_GDT_DOWNLOAD_BEGIN_STATUS_IND_V02 :: nat where [msg_id_simps]: "QMI_LOC_GDT_DOWNLOAD_BEGIN_STATUS_IND_V02 = 0x009F"
definition QMI_LOC_GDT_DOWNLOAD_READY_STATUS_REQ_V02 :: nat where [msg_id_simps]: "QMI_LOC_GDT_DOWNLOAD_READY_STATUS_REQ_V02 = 0x00A0"
definition QMI_LOC_GDT_DOWNLOAD_READY_STATUS_RESP_V02 :: nat where [msg_id_simps]: "QMI_LOC_GDT_DOWNLOAD_READY_STATUS_RESP_V02 = 0x00A0"
definition QMI_LOC_GDT_DOWNLOAD_READY_STATUS_IND_V02 :: nat where [msg_id_simps]: "QMI_LOC_GDT_DOWNLOAD_READY_STATUS_IND_V02 = 0x00A0"
definition QMI_LOC_GDT_RECEIVE_DONE_STATUS_REQ_V02 :: nat where [msg_id_simps]: "QMI_LOC_GDT_RECEIVE_DONE_STATUS_REQ_V02 = 0x00A1"
definition QMI_LOC_GDT_RECEIVE_DONE_STATUS_RESP_V02 :: nat where [msg_id_simps]: "QMI_LOC_GDT_RECEIVE_DONE_STATUS_RESP_V02 = 0x00A1"
definition QMI_LOC_GDT_RECEIVE_DONE_STATUS_IND_V02 :: nat where [msg_id_simps]: "QMI_LOC_GDT_RECEIVE_DONE_STATUS_IND_V02 = 0x00A1"
definition QMI_LOC_GDT_DOWNLOAD_END_STATUS_REQ_V02 :: nat where [msg_id_simps]: "QMI_LOC_GDT_DOWNLOAD_END_STATUS_REQ_V02 = 0x00A2"
definition QMI_LOC_GDT_DOWNLOAD_END_STATUS_RESP_V02 :: nat where [msg_id_simps]: "QMI_LOC_GDT_DOWNLOAD_END_STATUS_RESP_V02 = 0x00A2"
definition QMI_LOC_GDT_DOWNLOAD_END_STATUS_IND_V02 :: nat where [msg_id_simps]: "QMI_LOC_GDT_DOWNLOAD_END_STATUS_IND_V02 = 0x00A2"
definition QMI_LOC_EVENT_GDT_DOWNLOAD_BEGIN_REQ_IND_V02 :: nat where [msg_id_simps]: "QMI_LOC_EVENT_GDT_DOWNLOAD_BEGIN_REQ_IND_V02 = 0x00A3"
definition QMI_LOC_EVENT_GDT_RECEIVE_DONE_IND_V02 :: nat where [msg_id_simps]: "QMI_LOC_EVENT_GDT_RECEIVE_DONE_IND_V02 = 0x00A4"
definition QMI_LOC_EVENT_GDT_DOWNLOAD_END_REQ_IND_V02 :: nat where [msg_id_simps]: "QMI_LOC_EVENT_GDT_DOWNLOAD_END_REQ_IND_V02 = 0x00A5"
definition QMI_LOC_DELETE_GNSS_SERVICE_DATA_REQ_V02 :: nat where [msg_id_simps]: "QMI_LOC_DELETE_GNSS_SERVICE_DATA_REQ_V02 = 0x00A6"
definition QMI_LOC_DELETE_GNSS_SERVICE_DATA_RESP_V02 :: nat where [msg_id_simps]: "QMI_LOC_DELETE_GNSS_SERVICE_DATA_RESP_V02 = 0x00A6"
definition QMI_LOC_DELETE_GNSS_SERVICE_DATA_IND_V02 :: nat where [msg_id_simps]: "QMI_LOC_DELETE_GNSS_SERVICE_DATA_IND_V02 = 0x00A6"
definition QMI_LOC_INJECT_XTRA_DATA_REQ_V02 :: nat where [msg_id_simps]: "QMI_LOC_INJECT_XTRA_DATA_REQ_V02 = 0x00A7"
definition QMI_LOC_INJECT_XTRA_DATA_RESP_V02 :: nat where [msg_id_simps]: "QMI_LOC_INJECT_XTRA_DATA_RESP_V02 = 0x00A7"
definition QMI_LOC_INJECT_XTRA_DATA_IND_V02 :: nat where [msg_id_simps]: "QMI_LOC_INJECT_XTRA_DATA_IND_V02 = 0x00A7"
definition QMI_LOC_INJECT_XTRA_PCID_REQ_V02 :: nat where [msg_id_simps]: "QMI_LOC_INJECT_XTRA_PCID_REQ_V02 = 0x00A8"
definition QMI_LOC_INJECT_XTRA_PCID_RESP_V02 :: nat where [msg_id_simps]: "QMI_LOC_INJECT_XTRA_PCID_RESP_V02 = 0x00A8"
definition QMI_LOC_INJECT_XTRA_PCID_IND_V02 :: nat where [msg_id_simps]: "QMI_LOC_INJECT_XTRA_PCID_IND_V02 = 0x00A8"
definition QMI_LOC_GET_SUPPORTED_FEATURE_REQ_V02 :: nat where [msg_id_simps]: "QMI_LOC_GET_SUPPORTED_FEATURE_REQ_V02 = 0x00A9"
definition QMI_LOC_GET_SUPPORTED_FEATURE_RESP_V02 :: nat where [msg_id_simps]: "QMI_LOC_GET_SUPPORTED_FEATURE_RESP_V02 = 0x00A9"
definition QMI_LOC_GET_SUPPORTED_FEATURE_IND_V02 :: nat where [msg_id_simps]: "QMI_LOC_GET_SUPPORTED_FEATURE_IND_V02 = 0x00A9"
definition QMI_LOC_SET_INTERNAL_STATUS_CONFIG_REQ_V02 :: nat where [msg_id_simps]: "QMI_LOC_SET_INTERNAL_STATUS_CONFIG_REQ_V02 = 0x00AA"
definition QMI_LOC_SET_INTERNAL_STATUS_CONFIG_RESP_V02 :: nat where [msg_id_simps]: "QMI_LOC_SET_INTERNAL_STATUS_CONFIG_RESP_V02 = 0x00AA"
definition QMI_LOC_SET_INTERNAL_STATUS_CONFIG_IND_V02 :: nat where [msg_id_simps]: "QMI_LOC_SET_INTERNAL_STATUS_CONFIG_IND_V02 = 0x00AA"
definition QMI_LOC_EVENT_INTERNAL_STATUS_REPORT_IND_V02 :: nat where [msg_id_simps]: "QMI_LOC_EVENT_INTERNAL_STATUS_REPORT_IND_V02 = 0x00AB"
definition QMI_LOC_EVENT_INJECT_SRN_AP_DATA_REQ_IND_V02 :: nat where [msg_id_simps]: "QMI_LOC_EVENT_INJECT_SRN_AP_DATA_REQ_IND_V02 = 0x00AC"
definition QMI_LOC_INJECT_SRN_AP_DATA_REQ_V02 :: nat where [msg_id_simps]: "QMI_LOC_INJECT_SRN_AP_DATA_REQ_V02 = 0x00AD"
definition QMI_LOC_INJECT_SRN_AP_DATA_RESP_V02 :: nat where [msg_id_simps]: "QMI_LOC_INJECT_SRN_AP_DATA_RESP_V02 = 0x00AD"
definition QMI_LOC_INJECT_SRN_AP_DATA_IND_V02 :: nat where [msg_id_simps]: "QMI_LOC_INJECT_SRN_AP_DATA_IND_V02 = 0x00AD"
definition QMI_LOC_CROWDSOURCE_MANAGER_CONTROL_REQ_V02 :: nat where [msg_id_simps]: "QMI_LOC_CROWDSOURCE_MANAGER_CONTROL_REQ_V02 = 0x00AE"
definition QMI_LOC_CROWDSOURCE_MANAGER_CONTROL_RESP_V02 :: nat where [msg_id_simps]: "QMI_LOC_CROWDSOURCE_MANAGER_CONTROL_RESP_V02 = 0x00AE"
definition QMI_LOC_CROWDSOURCE_MANAGER_CONTROL_IND_V02 :: nat where [msg_id_simps]: "QMI_LOC_CROWDSOURCE_MANAGER_CONTROL_IND_V02 = 0x00AE"
definition QMI_LOC_CROWDSOURCE_MANAGER_READ_DATA_REQ_V02 :: nat where [msg_id_simps]: "QMI_LOC_CROWDSOURCE_MANAGER_READ_DATA_REQ_V02 = 0x00AF"
definition QMI_LOC_CROWDSOURCE_MANAGER_READ_DATA_RESP_V02 :: nat where [msg_id_simps]: "QMI_LOC_CROWDSOURCE_MANAGER_READ_DATA_RESP_V02 = 0x00AF"
definition QMI_LOC_QUERY_XTRA_INFO_REQ_V02 :: nat where [msg_id_simps]: "QMI_LOC_QUERY_XTRA_INFO_REQ_V02 = 0x00B0"
definition QMI_LOC_QUERY_XTRA_INFO_RESP_V02 :: nat where [msg_id_simps]: "QMI_LOC_QUERY_XTRA_INFO_RESP_V02 = 0x00B0"
definition QMI_LOC_QUERY_XTRA_INFO_IND_V02 :: nat where [msg_id_simps]: "QMI_LOC_QUERY_XTRA_INFO_IND_V02 = 0x00B0"
definition QMI_LOC_START_OUTDOOR_TRIP_BATCHING_REQ_V02 :: nat where [msg_id_simps]: "QMI_LOC_START_OUTDOOR_TRIP_BATCHING_REQ_V02 = 0x00B1"
definition QMI_LOC_START_OUTDOOR_TRIP_BATCHING_RESP_V02 :: nat where [msg_id_simps]: "QMI_LOC_START_OUTDOOR_TRIP_BATCHING_RESP_V02 = 0x00B1"
definition QMI_LOC_START_OUTDOOR_TRIP_BATCHING_IND_V02 :: nat where [msg_id_simps]: "QMI_LOC_START_OUTDOOR_TRIP_BATCHING_IND_V02 = 0x00B1"
definition QMI_LOC_QUERY_OTB_ACCUMULATED_DISTANCE_REQ_V02 :: nat where [msg_id_simps]: "QMI_LOC_QUERY_OTB_ACCUMULATED_DISTANCE_REQ_V02 = 0x00B2"
definition QMI_LOC_QUERY_OTB_ACCUMULATED_DISTANCE_RESP_V02 :: nat where [msg_id_simps]: "QMI_LOC_QUERY_OTB_ACCUMULATED_DISTANCE_RESP_V02 = 0x00B2"
definition QMI_LOC_QUERY_OTB_ACCUMULATED_DISTANCE_IND_V02 :: nat where [msg_id_simps]: "QMI_LOC_QUERY_OTB_ACCUMULATED_DISTANCE_IND_V02 = 0x00B2"
definition QMI_LOC_EVENT_FDCL_SERVICE_REQ_IND_V02 :: nat where [msg_id_simps]: "QMI_LOC_EVENT_FDCL_SERVICE_REQ_IND_V02 = 0x00B3"
definition QMI_LOC_GET_FDCL_BS_LIST_REQ_V02 :: nat where [msg_id_simps]: "QMI_LOC_GET_FDCL_BS_LIST_REQ_V02 = 0x00B4"
definition QMI_LOC_GET_FDCL_BS_LIST_RESP_V02 :: nat where [msg_id_simps]: "QMI_LOC_GET_FDCL_BS_LIST_RESP_V02 = 0x00B4"
definition QMI_LOC_GET_FDCL_BS_LIST_IND_V02 :: nat where [msg_id_simps]: "QMI_LOC_GET_FDCL_BS_LIST_IND_V02 = 0x00B4"
definition QMI_LOC_INJECT_FDCL_DATA_REQ_V02 :: nat where [msg_id_simps]: "QMI_LOC_INJECT_FDCL_DATA_REQ_V02 = 0x00B5"
definition QMI_LOC_INJECT_FDCL_DATA_RESP_V02 :: nat where [msg_id_simps]: "QMI_LOC_INJECT_FDCL_DATA_RESP_V02 = 0x00B5"
definition QMI_LOC_INJECT_FDCL_DATA_IND_V02 :: nat where [msg_id_simps]: "QMI_LOC_INJECT_FDCL_DATA_IND_V02 = 0x00B5"
definition QMI_LOC_SET_BLACKLIST_SV_REQ_V02 :: nat where [msg_id_simps]: "QMI_LOC_SET_BLACKLIST_SV_REQ_V02 = 0x00B6"
definition QMI_LOC_SET_BLACKLIST_SV_RESP_V02 :: nat where [msg_id_simps]: "QMI_LOC_SET_BLACKLIST_SV_RESP_V02 = 0x00B6"
definition QMI_LOC_SET_BLACKLIST_SV_IND_V02 :: nat where [msg_id_simps]: "QMI_LOC_SET_BLACKLIST_SV_IND_V02 = 0x00B6"
definition QMI_LOC_GET_BLACKLIST_SV_REQ_V02 :: nat where [msg_id_simps]: "QMI_LOC_GET_BLACKLIST_SV_REQ_V02 = 0x00B7"
definition QMI_LOC_GET_BLACKLIST_SV_RESP_V02 :: nat where [msg_id_simps]: "QMI_LOC_GET_BLACKLIST_SV_RESP_V02 = 0x00B7"
definition QMI_LOC_GET_BLACKLIST_SV_IND_V02 :: nat where [msg_id_simps]: "QMI_LOC_GET_BLACKLIST_SV_IND_V02 = 0x00B7"
definition QMI_LOC_SET_CONSTELLATION_CONTROL_REQ_V02 :: nat where [msg_id_simps]: "QMI_LOC_SET_CONSTELLATION_CONTROL_REQ_V02 = 0x00B8"
definition QMI_LOC_SET_CONSTELLATION_CONTROL_RESP_V02 :: nat where [msg_id_simps]: "QMI_LOC_SET_CONSTELLATION_CONTROL_RESP_V02 = 0x00B8"
definition QMI_LOC_SET_CONSTELLATION_CONTROL_IND_V02 :: nat where [msg_id_simps]: "QMI_LOC_SET_CONSTELLATION_CONTROL_IND_V02 = 0x00B8"
definition QMI_LOC_DC_REPORT_IND_V02 :: nat where [msg_id_simps]: "QMI_LOC_DC_REPORT_IND_V02 = 0x00B9"
definition QMI_LOC_REGISTER_MASTER_CLIENT_REQ_V02 :: nat where [msg_id_simps]: "QMI_LOC_REGISTER_MASTER_CLIENT_REQ_V02 = 0x00BA"
definition QMI_LOC_REGISTER_MASTER_CLIENT_RESP_V02 :: nat where [msg_id_simps]: "QMI_LOC_REGISTER_MASTER_CLIENT_RESP_V02 = 0x00BA"
definition QMI_LOC_REGISTER_MASTER_CLIENT_IND_V02 :: nat where [msg_id_simps]: "QMI_LOC_REGISTER_MASTER_CLIENT_IND_V02 = 0x00BA"
definition QMI_LOC_EVENT_ENGINE_LOCK_STATE_IND_V02 :: nat where [msg_id_simps]: "QMI_LOC_EVENT_ENGINE_LOCK_STATE_IND_V02 = 0x00BB"
definition QMI_LOC_START_LISTEN_POSITION_REQ_V02 :: nat where [msg_id_simps]: "QMI_LOC_START_LISTEN_POSITION_REQ_V02 = 0x00BC"
definition QMI_LOC_START_LISTEN_POSITION_RESP_V02 :: nat where [msg_id_simps]: "QMI_LOC_START_LISTEN_POSITION_RESP_V02 = 0x00BC"
definition QMI_LOC_STOP_LISTEN_POSITION_REQ_V02 :: nat where [msg_id_simps]: "QMI_LOC_STOP_LISTEN_POSITION_REQ_V02 = 0x00BD"
definition QMI_LOC_STOP_LISTEN_POSITION_RESP_V02 :: nat where [msg_id_simps]: "QMI_LOC_STOP_LISTEN_POSITION_RESP_V02 = 0x00BD"
definition QMI_LOC_SYSTEM_INFO_REQ_V02 :: nat where [msg_id_simps]: "QMI_LOC_SYSTEM_INFO_REQ_V02 = 0x00BE"
definition QMI_LOC_SYSTEM_INFO_RESP_V02 :: nat where [msg_id_simps]: "QMI_LOC_SYSTEM_INFO_RESP_V02 = 0x00BE"
definition QMI_LOC_SYSTEM_INFO_IND_V02 :: nat where [msg_id_simps]: "QMI_LOC_SYSTEM_INFO_IND_V02 = 0x00BE"
definition QMI_LOC_GET_CONSTELLATION_CONTROL_REQ_V02 :: nat where [msg_id_simps]: "QMI_LOC_GET_CONSTELLATION_CONTROL_REQ_V02 = 0x00BF"
definition QMI_LOC_GET_CONSTELLATION_CONTROL_RESP_V02 :: nat where [msg_id_simps]: "QMI_LOC_GET_CONSTELLATION_CONTROL_RESP_V02 = 0x00BF"
definition QMI_LOC_GET_CONSTELLATION_CONTROL_IND_V02 :: nat where [msg_id_simps]: "QMI_LOC_GET_CONSTELLATION_CONTROL_IND_V02 = 0x00BF"
definition QMI_LOC_EVENT_UNPROPAGATED_POSITION_REPORT_IND_V02 :: nat where [msg_id_simps]: "QMI_LOC_EVENT_UNPROPAGATED_POSITION_REPORT_IND_V02 = 0x00C0"
definition QMI_LOC_ENABLE_POSITION_INJECTION_TEST_MODE_REQ_V02 :: nat where [msg_id_simps]: "QMI_LOC_ENABLE_POSITION_INJECTION_TEST_MODE_REQ_V02 = 0x00C1"
definition QMI_LOC_ENABLE_POSITION_INJECTION_TEST_MODE_RESP_V02 :: nat where [msg_id_simps]: "QMI_LOC_ENABLE_POSITION_INJECTION_TEST_MODE_RESP_V02 = 0x00C1"
definition QMI_LOC_ENABLE_POSITION_INJECTION_TEST_MODE_IND_V02 :: nat where [msg_id_simps]: "QMI_LOC_ENABLE_POSITION_INJECTION_TEST_MODE_IND_V02 = 0x00C1"
definition QMI_LOC_INJECT_TEST_POSITION_REQ_V02 :: nat where [msg_id_simps]: "QMI_LOC_INJECT_TEST_POSITION_REQ_V02 = 0x00C2"
definition QMI_LOC_INJECT_TEST_POSITION_RESP_V02 :: nat where [msg_id_simps]: "QMI_LOC_INJECT_TEST_POSITION_RESP_V02 = 0x00C2"
definition QMI_LOC_INJECT_TEST_POSITION_IND_V02 :: nat where [msg_id_simps]: "QMI_LOC_INJECT_TEST_POSITION_IND_V02 = 0x00C2"
definition QMI_LOC_EVENT_BS_OBS_DATA_SERVICE_REQ_IND_V02 :: nat where [msg_id_simps]: "QMI_LOC_EVENT_BS_OBS_DATA_SERVICE_REQ_IND_V02 = 0x00C3"
definition QMI_LOC_GET_BS_OBS_DATA_REQ_V02 :: nat where [msg_id_simps]: "QMI_LOC_GET_BS_OBS_DATA_REQ_V02 = 0x00C4"
definition QMI_LOC_GET_BS_OBS_DATA_RESP_V02 :: nat where [msg_id_simps]: "QMI_LOC_GET_BS_OBS_DATA_RESP_V02 = 0x00C4"
definition QMI_LOC_GET_BS_OBS_DATA_IND_V02 :: nat where [msg_id_simps]: "QMI_LOC_GET_BS_OBS_DATA_IND_V02 = 0x00C4"
definition QMI_LOC_EVENT_GPS_EPHEMERIS_REPORT_IND_V02 :: nat where [msg_id_simps]: "QMI_LOC_EVENT_GPS_EPHEMERIS_REPORT_IND_V02 = 0x00C5"
definition QMI_LOC_EVENT_GLONASS_EPHEMERIS_REPORT_IND_V02 :: nat where [msg_id_simps]: "QMI_LOC_EVENT_GLONASS_EPHEMERIS_REPORT_IND_V02 = 0x00C6"
definition QMI_LOC_EVENT_BDS_EPHEMERIS_REPORT_IND_V02 :: nat where [msg_id_simps]: "QMI_LOC_EVENT_BDS_EPHEMERIS_REPORT_IND_V02 = 0x00C7"
definition QMI_LOC_EVENT_GALILEO_EPHEMERIS_REPORT_IND_V02 :: nat where [msg_id_simps]: "QMI_LOC_EVENT_GALILEO_EPHEMERIS_REPORT_IND_V02 = 0x00C8"
definition QMI_LOC_EVENT_QZSS_EPHEMERIS_REPORT_IND_V02 :: nat where [msg_id_simps]: "QMI_LOC_EVENT_QZSS_EPHEMERIS_REPORT_IND_V02 = 0x00C9"
definition QMI_LOC_SET_CONSTRAINED_TUNC_MODE_REQ_V02 :: nat where [msg_id_simps]: "QMI_LOC_SET_CONSTRAINED_TUNC_MODE_REQ_V02 = 0x00CA"
definition QMI_LOC_SET_CONSTRAINED_TUNC_MODE_RESP_V02 :: nat where [msg_id_simps]: "QMI_LOC_SET_CONSTRAINED_TUNC_MODE_RESP_V02 = 0x00CA"
definition QMI_LOC_SET_CONSTRAINED_TUNC_MODE_IND_V02 :: nat where [msg_id_simps]: "QMI_LOC_SET_CONSTRAINED_TUNC_MODE_IND_V02 = 0x00CA"
definition QMI_LOC_ENABLE_POSITION_ASSISTED_CLOCK_EST_REQ_V02 :: nat where [msg_id_simps]: "QMI_LOC_ENABLE_POSITION_ASSISTED_CLOCK_EST_REQ_V02 = 0x00CB"
definition QMI_LOC_ENABLE_POSITION_ASSISTED_CLOCK_EST_RESP_V02 :: nat where [msg_id_simps]: "QMI_LOC_ENABLE_POSITION_ASSISTED_CLOCK_EST_RESP_V02 = 0x00CB"
definition QMI_LOC_ENABLE_POSITION_ASSISTED_CLOCK_EST_IND_V02 :: nat where [msg_id_simps]: "QMI_LOC_ENABLE_POSITION_ASSISTED_CLOCK_EST_IND_V02 = 0x00CB"
definition QMI_LOC_QUERY_GNSS_ENERGY_CONSUMED_REQ_V02 :: nat where [msg_id_simps]: "QMI_LOC_QUERY_GNSS_ENERGY_CONSUMED_REQ_V02 = 0x00CC"
definition QMI_LOC_QUERY_GNSS_ENERGY_CONSUMED_RESP_V02 :: nat where [msg_id_simps]: "QMI_LOC_QUERY_GNSS_ENERGY_CONSUMED_RESP_V02 = 0x00CC"
definition QMI_LOC_QUERY_GNSS_ENERGY_CONSUMED_IND_V02 :: nat where [msg_id_simps]: "QMI_LOC_QUERY_GNSS_ENERGY_CONSUMED_IND_V02 = 0x00CC"
definition QMI_LOC_EVENT_REPORT_IND_V02 :: nat where [msg_id_simps]: "QMI_LOC_EVENT_REPORT_IND_V02 = 0x00CD"
definition QMI_LOC_GET_BAND_MEASUREMENT_METRICS_IND_V02 :: nat where [msg_id_simps]: "QMI_LOC_GET_BAND_MEASUREMENT_METRICS_IND_V02 = 0x00CE"
definition QMI_LOC_LOCATION_REQUEST_NOTIFICATION_IND_V02 :: nat where [msg_id_simps]: "QMI_LOC_LOCATION_REQUEST_NOTIFICATION_IND_V02 = 0x00CF"
definition QMI_LOC_INJECT_PLATFORM_POWER_STATE_REQ_V02 :: nat where [msg_id_simps]: "QMI_LOC_INJECT_PLATFORM_POWER_STATE_REQ_V02 = 0x00D0"
definition QMI_LOC_INJECT_PLATFORM_POWER_STATE_RESP_V02 :: nat where [msg_id_simps]: "QMI_LOC_INJECT_PLATFORM_POWER_STATE_RESP_V02 = 0x00D0"
definition QMI_LOC_INJECT_PLATFORM_POWER_STATE_IND_V02 :: nat where [msg_id_simps]: "QMI_LOC_INJECT_PLATFORM_POWER_STATE_IND_V02 = 0x00D0"
definition QMI_LOC_SET_ROBUST_LOCATION_CONFIG_REQ_V02 :: nat where [msg_id_simps]: "QMI_LOC_SET_ROBUST_LOCATION_CONFIG_REQ_V02 = 0x00D1"
definition QMI_LOC_SET_ROBUST_LOCATION_CONFIG_RESP_V02 :: nat where [msg_id_simps]: "QMI_LOC_SET_ROBUST_LOCATION_CONFIG_RESP_V02 = 0x00D1"
definition QMI_LOC_SET_ROBUST_LOCATION_CONFIG_IND_V02 :: nat where [msg_id_simps]: "QMI_LOC_SET_ROBUST_LOCATION_CONFIG_IND_V02 = 0x00D1"
definition QMI_LOC_GET_ROBUST_LOCATION_CONFIG_REQ_V02 :: nat where [msg_id_simps]: "QMI_LOC_GET_ROBUST_LOCATION_CONFIG_REQ_V02 = 0x00D2"
definition QMI_LOC_GET_ROBUST_LOCATION_CONFIG_RESP_V02 :: nat where [msg_id_simps]: "QMI_LOC_GET_ROBUST_LOCATION_CONFIG_RESP_V02 = 0x00D2"
definition QMI_LOC_GET_ROBUST_LOCATION_CONFIG_IND_V02 :: nat where [msg_id_simps]: "QMI_LOC_GET_ROBUST_LOCATION_CONFIG_IND_V02 = 0x00D2"
definition QMI_LOC_INJECT_ENV_AIDING_REQ_V02 :: nat where [msg_id_simps]: "QMI_LOC_INJECT_ENV_AIDING_REQ_V02 = 0x00D3"
definition QMI_LOC_INJECT_ENV_AIDING_RESP_V02 :: nat where [msg_id_simps]: "QMI_LOC_INJECT_ENV_AIDING_RESP_V02 = 0x00D3"
definition QMI_LOC_INJECT_ENV_AIDING_IND_V02 :: nat where [msg_id_simps]: "QMI_LOC_INJECT_ENV_AIDING_IND_V02 = 0x00D3"
definition QMI_LOC_SET_MIN_GPS_WEEK_NUMBER_REQ_V02 :: nat where [msg_id_simps]: "QMI_LOC_SET_MIN_GPS_WEEK_NUMBER_REQ_V02 = 0x00D4"
definition QMI_LOC_SET_MIN_GPS_WEEK_NUMBER_RESP_V02 :: nat where [msg_id_simps]: "QMI_LOC_SET_MIN_GPS_WEEK_NUMBER_RESP_V02 = 0x00D4"
definition QMI_LOC_SET_MIN_GPS_WEEK_NUMBER_IND_V02 :: nat where [msg_id_simps]: "QMI_LOC_SET_MIN_GPS_WEEK_NUMBER_IND_V02 = 0x00D4"
definition QMI_LOC_GET_MIN_GPS_WEEK_NUMBER_REQ_V02 :: nat where [msg_id_simps]: "QMI_LOC_GET_MIN_GPS_WEEK_NUMBER_REQ_V02 = 0x00D5"
definition QMI_LOC_GET_MIN_GPS_WEEK_NUMBER_RESP_V02 :: nat where [msg_id_simps]: "QMI_LOC_GET_MIN_GPS_WEEK_NUMBER_RESP_V02 = 0x00D5"
definition QMI_LOC_GET_MIN_GPS_WEEK_NUMBER_IND_V02 :: nat where [msg_id_simps]: "QMI_LOC_GET_MIN_GPS_WEEK_NUMBER_IND_V02 = 0x00D5"
definition QMI_LOC_EVENT_QUERY_XTRA_INFO_REQ_IND_V02 :: nat where [msg_id_simps]: "QMI_LOC_EVENT_QUERY_XTRA_INFO_REQ_IND_V02 = 0x00D6"
definition QMI_LOC_SET_PARAMETER_REQ_V02 :: nat where [msg_id_simps]: "QMI_LOC_SET_PARAMETER_REQ_V02 = 0x00D7"
definition QMI_LOC_SET_PARAMETER_RESP_V02 :: nat where [msg_id_simps]: "QMI_LOC_SET_PARAMETER_RESP_V02 = 0x00D7"
definition QMI_LOC_SET_PARAMETER_IND_V02 :: nat where [msg_id_simps]: "QMI_LOC_SET_PARAMETER_IND_V02 = 0x00D7"
definition QMI_LOC_GET_PARAMETER_REQ_V02 :: nat where [msg_id_simps]: "QMI_LOC_GET_PARAMETER_REQ_V02 = 0x00D8"
definition QMI_LOC_GET_PARAMETER_RESP_V02 :: nat where [msg_id_simps]: "QMI_LOC_GET_PARAMETER_RESP_V02 = 0x00D8"
definition QMI_LOC_GET_PARAMETER_IND_V02 :: nat where [msg_id_simps]: "QMI_LOC_GET_PARAMETER_IND_V02 = 0x00D8"
definition QMI_LOC_SET_STATISTICS_CONFIG_REQ_V02 :: nat where [msg_id_simps]: "QMI_LOC_SET_STATISTICS_CONFIG_REQ_V02 = 0x00D9"
definition QMI_LOC_SET_STATISTICS_CONFIG_RESP_V02 :: nat where [msg_id_simps]: "QMI_LOC_SET_STATISTICS_CONFIG_RESP_V02 = 0x00D9"
definition QMI_LOC_SET_STATISTICS_CONFIG_IND_V02 :: nat where [msg_id_simps]: "QMI_LOC_SET_STATISTICS_CONFIG_IND_V02 = 0x00D9"
definition QMI_LOC_GET_STATISTICS_CONFIG_REQ_V02 :: nat where [msg_id_simps]: "QMI_LOC_GET_STATISTICS_CONFIG_REQ_V02 = 0x00DA"
definition QMI_LOC_GET_STATISTICS_CONFIG_RESP_V02 :: nat where [msg_id_simps]: "QMI_LOC_GET_STATISTICS_CONFIG_RESP_V02 = 0x00DA"
definition QMI_LOC_GET_STATISTICS_CONFIG_IND_V02 :: nat where [msg_id_simps]: "QMI_LOC_GET_STATISTICS_CONFIG_IND_V02 = 0x00DA"
definition QMI_LOC_GNSS_STATISTICS_REPORT_IND_V02 :: nat where [msg_id_simps]: "QMI_LOC_GNSS_STATISTICS_REPORT_IND_V02 = 0x00DB"
definition QMI_LOC_SET_GNSS_PDR_MODE_REQ_V02 :: nat where [msg_id_simps]: "QMI_LOC_SET_GNSS_PDR_MODE_REQ_V02 = 0x00DC"
definition QMI_LOC_SET_GNSS_PDR_MODE_RESP_V02 :: nat where [msg_id_simps]: "QMI_LOC_SET_GNSS_PDR_MODE_RESP_V02 = 0x00DC"
definition QMI_LOC_SET_GNSS_PDR_MODE_IND_V02 :: nat where [msg_id_simps]: "QMI_LOC_SET_GNSS_PDR_MODE_IND_V02 = 0x00DC"
definition QMI_LOC_GET_GNSS_PDR_MODE_REQ_V02 :: nat where [msg_id_simps]: "QMI_LOC_GET_GNSS_PDR_MODE_REQ_V02 = 0x00DD"
definition QMI_LOC_GET_GNSS_PDR_MODE_RESP_V02 :: nat where [msg_id_simps]: "QMI_LOC_GET_GNSS_PDR_MODE_RESP_V02 = 0x00DD"
definition QMI_LOC_GET_GNSS_PDR_MODE_IND_V02 :: nat where [msg_id_simps]: "QMI_LOC_GET_GNSS_PDR_MODE_IND_V02 = 0x00DD"
definition QMI_LOC_GET_MAG_CAL_STATE_PDR_REQ_V02 :: nat where [msg_id_simps]: "QMI_LOC_GET_MAG_CAL_STATE_PDR_REQ_V02 = 0x00DE"
definition QMI_LOC_GET_MAG_CAL_STATE_PDR_RESP_V02 :: nat where [msg_id_simps]: "QMI_LOC_GET_MAG_CAL_STATE_PDR_RESP_V02 = 0x00DE"
definition QMI_LOC_GET_MAG_CAL_STATE_PDR_IND_V02 :: nat where [msg_id_simps]: "QMI_LOC_GET_MAG_CAL_STATE_PDR_IND_V02 = 0x00DE"
definition QMI_LOC_EVENT_SAP_INS_PARAMETERS_IND_V02 :: nat where [msg_id_simps]: "QMI_LOC_EVENT_SAP_INS_PARAMETERS_IND_V02 = 0x00DF"
definition QMI_LOC_SET_MULTIBAND_CONFIG_REQ_V02 :: nat where [msg_id_simps]: "QMI_LOC_SET_MULTIBAND_CONFIG_REQ_V02 = 0x00E0"
definition QMI_LOC_SET_MULTIBAND_CONFIG_RESP_V02 :: nat where [msg_id_simps]: "QMI_LOC_SET_MULTIBAND_CONFIG_RESP_V02 = 0x00E0"
definition QMI_LOC_SET_MULTIBAND_CONFIG_IND_V02 :: nat where [msg_id_simps]: "QMI_LOC_SET_MULTIBAND_CONFIG_IND_V02 = 0x00E0"
definition QMI_LOC_GET_MULTIBAND_CONFIG_REQ_V02 :: nat where [msg_id_simps]: "QMI_LOC_GET_MULTIBAND_CONFIG_REQ_V02 = 0x00E1"
definition QMI_LOC_GET_MULTIBAND_CONFIG_RESP_V02 :: nat where [msg_id_simps]: "QMI_LOC_GET_MULTIBAND_CONFIG_RESP_V02 = 0x00E1"
definition QMI_LOC_GET_MULTIBAND_CONFIG_IND_V02 :: nat where [msg_id_simps]: "QMI_LOC_GET_MULTIBAND_CONFIG_IND_V02 = 0x00E1"
definition QMI_LOC_LATENCY_INFORMATION_IND_V02 :: nat where [msg_id_simps]: "QMI_LOC_LATENCY_INFORMATION_IND_V02 = 0x00E2"

section \<open>Type and message table\<close>

definition loc_type_table_v02 :: "qmi_idl_type_table_entry list" where
  "loc_type_table_v02 =
    [(sizeof qmiLocApplicationIdStructT_v02, qmiLocApplicationIdStructT_data_v02),
     (sizeof qmiLocPowerModeStructT_v02, qmiLocPowerModeStructT_data_v02),
     (sizeof qmiLocGPSTimeStructT_v02, qmiLocGPSTimeStructT_data_v02),
     (sizeof qmiLocDOPStructT_v02, qmiLocDOPStructT_data_v02),
     (sizeof qmiLocExtDOPStructT_v02, qmiLocExtDOPStructT_data_v02),
     (sizeof qmiLocSensorUsageIndicatorStructT_v02, qmiLocSensorUsageIndicatorStructT_data_v02),
     (sizeof qmiLocJammerIndicatorStructT_v02, qmiLocJammerIndicatorStructT_data_v02),
     (sizeof qmiLocSvInfoStructT_v02, qmiLocSvInfoStructT_data_v02),
     (sizeof qmiLocExpandedSvInfoStructT_v02, qmiLocExpandedSvInfoStructT_data_v02),
     (sizeof qmiLocNiVxNotifyVerifyStructT_v02, qmiLocNiVxNotifyVerifyStructT_data_v02),
     (sizeof qmiLocNiSuplFormattedStringStructT_v02, qmiLocNiSuplFormattedStringStructT_data_v02),
     (sizeof qmiLocNiSuplQopStructT_v02, qmiLocNiSuplQopStructT_data_v02),
     (sizeof qmiLocIpV4AddrStructType_v02, qmiLocIpV4AddrStructType_data_v02),
     (sizeof qmiLocIpV6AddrStructType_v02, qmiLocIpV6AddrStructType_data_v02),
     (sizeof qmiLocNiSuplServerInfoStructT_v02, qmiLocNiSuplServerInfoStructT_data_v02),
     (sizeof qmiLocNiSuplNotifyVerifyStructT_v02, qmiLocNiSuplNotifyVerifyStructT_data_v02),
     (sizeof qmiLocNiUmtsCpCodedStringStructT_v02, qmiLocNiUmtsCpCodedStringStructT_data_v02),
     (sizeof qmiLocNiUmtsCpNotifyVerifyStructT_v02, qmiLocNiUmtsCpNotifyVerifyStructT_data_v02),
     (sizeof qmiLocNiVxServiceInteractionStructT_v02, qmiLocNiVxServiceInteractionStructT_data_v02),
     (sizeof qmiLocNiSuplVer2ExtStructT_v02, qmiLocNiSuplVer2ExtStructT_data_v02),
     (sizeof qmiLocEmergencyNotificationStructT_v02, qmiLocEmergencyNotificationStructT_data_v02),
     (sizeof qmiLocAssistanceServerUrlStructT_v02, qmiLocAssistanceServerUrlStructT_data_v02),
     (sizeof qmiLocTimeServerListStructT_v02, qmiLocTimeServerListStructT_data_v02),
     (sizeof qmiLocPredictedOrbitsAllowedSizesStructT_v02, qmiLocPredictedOrbitsAllowedSizesStructT_data_v02),
     (sizeof qmiLocPredictedOrbitsServerListStructT_v02, qmiLocPredictedOrbitsServerListStructT_data_v02),
     (sizeof qmiLocSensorControlConfigSamplingSpecStructT_v02, qmiLocSensorControlConfigSamplingSpecStructT_data_v02),
     (sizeof qmiLocSensorReadyStatusStructT_v02, qmiLocSensorReadyStatusStructT_data_v02),
     (sizeof qmiLocGeofencePositionStructT_v02, qmiLocGeofencePositionStructT_data_v02),
     (sizeof qmiLocGeofenceIdContinuousStructT_v02, qmiLocGeofenceIdContinuousStructT_data_v02),
     (sizeof qmiLocPredictedOrbitsDataValidityStructT_v02, qmiLocPredictedOrbitsDataValidityStructT_data_v02),
     (sizeof qmiLocAltitudeSrcInfoStructT_v02, qmiLocAltitudeSrcInfoStructT_data_v02),
     (sizeof qmiLocDeleteSvInfoStructT_v02, qmiLocDeleteSvInfoStructT_data_v02),
     (sizeof qmiLocDeleteBDSSvInfoStructT_v02, qmiLocDeleteBDSSvInfoStructT_data_v02),
     (sizeof qmiLocDeleteGALSvInfoStructT_v02, qmiLocDeleteGALSvInfoStructT_data_v02),
     (sizeof qmiLocWifiFixTimeStructT_v02, qmiLocWifiFixTimeStructT_data_v02),
     (sizeof qmiLocWifiFixPosStructT_v02, qmiLocWifiFixPosStructT_data_v02),
     (sizeof qmiLocWifiApInfoStructT_v02, qmiLocWifiApInfoStructT_data_v02),
     (sizeof qmiLocWifiApSsidStructT_v02, qmiLocWifiApSsidStructT_data_v02),
     (sizeof qmiLoc3AxisSensorSampleStructT_v02, qmiLoc3AxisSensorSampleStructT_data_v02),
     (sizeof qmiLoc3AxisSensorSampleListStructT_v02, qmiLoc3AxisSensorSampleListStructT_data_v02),
     (sizeof qmiLocSensorTemperatureSampleStructT_v02, qmiLocSensorTemperatureSampleStructT_data_v02),
     (sizeof qmiLocSensorTemperatureSampleListStructT_v02, qmiLocSensorTemperatureSampleListStructT_data_v02),
     (sizeof qmiLocApnProfilesStructT_v02, qmiLocApnProfilesStructT_data_v02),
     (sizeof qmiLocCircularGeofenceArgsStructT_v02, qmiLocCircularGeofenceArgsStructT_data_v02),
     (sizeof qmiLocGeofenceMotionStateConfigStructT_v02, qmiLocGeofenceMotionStateConfigStructT_data_v02),
     (sizeof qmiLocTimeZoneStructT_v02, qmiLocTimeZoneStructT_data_v02),
     (sizeof qmiLocMotionDataStructT_v02, qmiLocMotionDataStructT_data_v02),
     (sizeof qmiLocGSMCellIdStructT_v02, qmiLocGSMCellIdStructT_data_v02),
     (sizeof qmiLocWCDMACellIdStructT_v02, qmiLocWCDMACellIdStructT_data_v02),
     (sizeof qmiLocTDSCDMACellIdStructT_v02, qmiLocTDSCDMACellIdStructT_data_v02),
     (sizeof qmiLocBatchedReportStructT_v02, qmiLocBatchedReportStructT_data_v02),
     (sizeof qmiLocWifiApDataStructT_v02, qmiLocWifiApDataStructT_data_v02),
     (sizeof qmiLocWifiApAdditionalDataStructT_v02, qmiLocWifiApAdditionalDataStructT_data_v02),
     (sizeof qmiLocVehicleSensorSampleStructT_v02, qmiLocVehicleSensorSampleStructT_data_v02),
     (sizeof qmiLocVehicleSensorSampleListStructType_v02, qmiLocVehicleSensorSampleListStructType_data_v02),
     (sizeof qmiLocVehicleOdometrySampleStructT_v02, qmiLocVehicleOdometrySampleStructT_data_v02),
     (sizeof qmiLocVehicleOdometrySampleListStructT_v02, qmiLocVehicleOdometrySampleListStructT_data_v02),
     (sizeof qmiLocRcvrClockFrequencyInfoStructT_v02, qmiLocRcvrClockFrequencyInfoStructT_data_v02),
     (sizeof qmiLocLeapSecondInfoStructT_v02, qmiLocLeapSecondInfoStructT_data_v02),
     (sizeof qmiLocInterSystemBiasStructT_v02, qmiLocInterSystemBiasStructT_data_v02),
     (sizeof qmiLocGnssTimeStructT_v02, qmiLocGnssTimeStructT_data_v02),
     (sizeof qmiLocGloTimeStructT_v02, qmiLocGloTimeStructT_data_v02),
     (sizeof qmiLocGnssTimeExtStructT_v02, qmiLocGnssTimeExtStructT_data_v02),
     (sizeof qmiLocSVTimeSpeedStructT_v02, qmiLocSVTimeSpeedStructT_data_v02),
     (sizeof qmiLocSVMeasurementStructT_v02, qmiLocSVMeasurementStructT_data_v02),
     (sizeof qmiLocDgnssSVMeasurementStructT_v02, qmiLocDgnssSVMeasurementStructT_data_v02),
     (sizeof qmiLocWifiApMacAddressStructT_v02, qmiLocWifiApMacAddressStructT_data_v02),
     (sizeof qmiLocIBeaconIdStructT_v02, qmiLocIBeaconIdStructT_data_v02),
     (sizeof qmiLocGtpAsnVerStructT_v02, qmiLocGtpAsnVerStructT_data_v02),
     (sizeof qmiLocDbtPositionStructT_v02, qmiLocDbtPositionStructT_data_v02),
     (sizeof qmiLocApCacheStructT_v02, qmiLocApCacheStructT_data_v02),
     (sizeof qmiLocApCacheHepeRelStructT_v02, qmiLocApCacheHepeRelStructT_data_v02),
     (sizeof qmiLocApDoNotCacheStructT_v02, qmiLocApDoNotCacheStructT_data_v02),
     (sizeof qmiLocDeleteSatelliteDataStructT_v02, qmiLocDeleteSatelliteDataStructT_data_v02),
     (sizeof qmiLocInternalStatusReportDataStructT_v02, qmiLocInternalStatusReportDataStructT_data_v02),
     (sizeof qmiLocSrnBtleApDeviceDataStructT_v02, qmiLocSrnBtleApDeviceDataStructT_data_v02),
     (sizeof qmiLocWifiCrowdSourcingLocalConfigStructT_v02, qmiLocWifiCrowdSourcingLocalConfigStructT_data_v02),
     (sizeof qmiLocWifiCrowdSourcingCapabilityStructT_v02, qmiLocWifiCrowdSourcingCapabilityStructT_data_v02),
     (sizeof qmiLocXtraInfoStructT_v02, qmiLocXtraInfoStructT_data_v02),
     (sizeof qmiLocVersionStructT_v02, qmiLocVersionStructT_data_v02),
     (sizeof qmiLocGtpClientSwVerStructT_v02, qmiLocGtpClientSwVerStructT_data_v02),
     (sizeof qmiLocHomeCarrierIdStructT_v02, qmiLocHomeCarrierIdStructT_data_v02),
     (sizeof qmiLocPositionSourceStructT_v02, qmiLocPositionSourceStructT_data_v02),
     (sizeof qmiLocBsBestPositionStructT_v02, qmiLocBsBestPositionStructT_data_v02),
     (sizeof qmiLocFdclCellIdStructT_v02, qmiLocFdclCellIdStructT_data_v02),
     (sizeof qmiLocFdclCellPosStructT_v02, qmiLocFdclCellPosStructT_data_v02),
     (sizeof qmiLocNextLeapSecondInfoStructT_v02, qmiLocNextLeapSecondInfoStructT_data_v02),
     (sizeof qmiLocBsObservedDataStructT_v02, qmiLocBsObservedDataStructT_data_v02),
     (sizeof qmiLocEphGnssDataStructT_v02, qmiLocEphGnssDataStructT_data_v02),
     (sizeof qmiLocGpsEphemerisT_v02, qmiLocGpsEphemerisT_data_v02),
     (sizeof qmiLocGloEphemerisT_v02, qmiLocGloEphemerisT_data_v02),
     (sizeof qmiLocBdsEphemerisT_v02, qmiLocBdsEphemerisT_data_v02),
     (sizeof qmiLocGalEphemerisT_v02, qmiLocGalEphemerisT_data_v02),
     (sizeof qmiLocKlobucharIonoModelT_v02, qmiLocKlobucharIonoModelT_data_v02),
     (sizeof qmiLocMePerGnssRfStructType_v02, qmiLocMePerGnssRfStructType_data_v02),
     (sizeof qmiLocRobustLocationVersionT_v02, qmiLocRobustLocationVersionT_data_v02),
     (sizeof qmiLocEnvAidingReflectingPlaneStructT_v02, qmiLocEnvAidingReflectingPlaneStructT_data_v02),
     (sizeof qmiLocEnvAidingSVCorrectionStructT_v02, qmiLocEnvAidingSVCorrectionStructT_data_v02)]"

definition loc_message_table_v02_1 :: "ctype \<Rightarrow> qmi_idl_message_table_entry list" where
  "loc_message_table_v02_1 resp_t =
    [(sizeof qmiLocGenReqMsgT_v02, None),
     (sizeof (qmiLocGenRespMsgT_v02 resp_t), Some (qmiLocGenRespMsgT_data_v02 resp_t)),
     (sizeof qmiLocGenReqStatusIndMsgT_v02, Some qmiLocGenReqStatusIndMsgT_data_v02),
     (sizeof qmiLocInformClientRevisionReqMsgT_v02, Some qmiLocInformClientRevisionReqMsgT_data_v02),
     (sizeof qmiLocRegEventsReqMsgT_v02, Some qmiLocRegEventsReqMsgT_data_v02),
     (sizeof qmiLocStartReqMsgT_v02, Some qmiLocStartReqMsgT_data_v02),
     (sizeof qmiLocStopReqMsgT_v02, Some qmiLocStopReqMsgT_data_v02),
     (sizeof qmiLocEventPositionReportIndMsgT_v02, Some qmiLocEventPositionReportIndMsgT_data_v02),
     (sizeof qmiLocEventGnssSvInfoIndMsgT_v02, Some qmiLocEventGnssSvInfoIndMsgT_data_v02),
     (sizeof qmiLocEventNmeaIndMsgT_v02, Some qmiLocEventNmeaIndMsgT_data_v02),
     (sizeof qmiLocEventNiNotifyVerifyReqIndMsgT_v02, Some qmiLocEventNiNotifyVerifyReqIndMsgT_data_v02),
     (sizeof qmiLocEventInjectTimeReqIndMsgT_v02, Some qmiLocEventInjectTimeReqIndMsgT_data_v02),
     (sizeof qmiLocEventInjectPredictedOrbitsReqIndMsgT_v02, Some qmiLocEventInjectPredictedOrbitsReqIndMsgT_data_v02),
     (sizeof qmiLocEventInjectPositionReqIndMsgT_v02, Some qmiLocEventInjectPositionReqIndMsgT_data_v02),
     (sizeof qmiLocEventEngineStateIndMsgT_v02, Some qmiLocEventEngineStateIndMsgT_data_v02),
     (sizeof qmiLocEventFixSessionStateIndMsgT_v02, Some qmiLocEventFixSessionStateIndMsgT_data_v02),
     (sizeof qmiLocEventWifiReqIndMsgT_v02, Some qmiLocEventWifiReqIndMsgT_data_v02),
     (sizeof qmiLocEventSensorStreamingReadyStatusIndMsgT_v02, Some qmiLocEventSensorStreamingReadyStatusIndMsgT_data_v02),
     (sizeof qmiLocEventTimeSyncReqIndMsgT_v02, Some qmiLocEventTimeSyncReqIndMsgT_data_v02),
     (sizeof qmiLocEventSetSpiStreamingReportIndMsgT_v02, Some qmiLocEventSetSpiStreamingReportIndMsgT_data_v02),
     (sizeof qmiLocEventLocationServerConnectionReqIndMsgT_v02, Some qmiLocEventLocationServerConnectionReqIndMsgT_data_v02),
     (sizeof qmiLocEventNiGeofenceNotificationIndMsgT_v02, Some qmiLocEventNiGeofenceNotificationIndMsgT_data_v02),
     (sizeof qmiLocEventGeofenceGenAlertIndMsgT_v02, Some qmiLocEventGeofenceGenAlertIndMsgT_data_v02),
     (sizeof qmiLocEventGeofenceBreachIndMsgT_v02, Some qmiLocEventGeofenceBreachIndMsgT_data_v02),
     (sizeof qmiLocEventPedometerControlIndMsgT_v02, Some qmiLocEventPedometerControlIndMsgT_data_v02),
     (sizeof qmiLocEventMotionDataControlIndMsgT_v02, Some qmiLocEventMotionDataControlIndMsgT_data_v02),
     (sizeof qmiLocEventGeofenceBatchedBreachIndMsgT_v02, Some qmiLocEventGeofenceBatchedBreachIndMsgT_data_v02),
     (sizeof qmiLocEventGeofenceProximityIndMsgT_v02, Some qmiLocEventGeofenceProximityIndMsgT_data_v02),
     (sizeof qmiLocEventGeofenceBatchedDwellIndMsgT_v02, Some qmiLocEventGeofenceBatchedDwellIndMsgT_data_v02),
     (sizeof qmiLocEventGdtUploadBeginStatusReqIndMsgT_v02, Some qmiLocEventGdtUploadBeginStatusReqIndMsgT_data_v02),
     (sizeof qmiLocEventGdtUploadEndReqIndMsgT_v02, Some qmiLocEventGdtUploadEndReqIndMsgT_data_v02),
     (sizeof qmiLocEventGdtDownloadBeginReqIndMsgT_v02, Some qmiLocEventGdtDownloadBeginReqIndMsgT_data_v02),
     (sizeof qmiLocEventGdtReceiveDoneIndMsgT_v02, Some qmiLocEventGdtReceiveDoneIndMsgT_data_v02),
     (sizeof qmiLocEventGdtDownloadEndReqIndMsgT_v02, Some qmiLocEventGdtDownloadEndReqIndMsgT_data_v02),
     (sizeof qmiLocGetServiceRevisionReqMsgT_v02, None),
     (sizeof qmiLocGetServiceRevisionIndMsgT_v02, Some qmiLocGetServiceRevisionIndMsgT_data_v02),
     (sizeof qmiLocGetFixCriteriaReqMsgT_v02, None),
     (sizeof qmiLocGetFixCriteriaIndMsgT_v02, Some qmiLocGetFixCriteriaIndMsgT_data_v02),
     (sizeof qmiLocNiUserRespReqMsgT_v02, Some qmiLocNiUserRespReqMsgT_data_v02),
     (sizeof qmiLocNiUserRespIndMsgT_v02, Some qmiLocNiUserRespIndMsgT_data_v02),
     (sizeof qmiLocInjectPredictedOrbitsDataReqMsgT_v02, Some qmiLocInjectPredictedOrbitsDataReqMsgT_data_v02),
     (sizeof qmiLocInjectPredictedOrbitsDataIndMsgT_v02, Some qmiLocInjectPredictedOrbitsDataIndMsgT_data_v02),
     (sizeof qmiLocGetPredictedOrbitsDataSourceReqMsgT_v02, None),
     (sizeof qmiLocGetPredictedOrbitsDataSourceIndMsgT_v02, Some qmiLocGetPredictedOrbitsDataSourceIndMsgT_data_v02),
     (sizeof qmiLocGetPredictedOrbitsDataValidityReqMsgT_v02, None),
     (sizeof qmiLocGetPredictedOrbitsDataValidityIndMsgT_v02, Some qmiLocGetPredictedOrbitsDataValidityIndMsgT_data_v02),
     (sizeof qmiLocInjectUtcTimeReqMsgT_v02, Some qmiLocInjectUtcTimeReqMsgT_data_v02),
     (sizeof qmiLocInjectUtcTimeIndMsgT_v02, Some qmiLocInjectUtcTimeIndMsgT_data_v02),
     (sizeof qmiLocInjectPositionReqMsgT_v02, Some qmiLocInjectPositionReqMsgT_data_v02),
     (sizeof qmiLocInjectPositionIndMsgT_v02, Some qmiLocInjectPositionIndMsgT_data_v02),
     (sizeof qmiLocSetEngineLockReqMsgT_v02, Some qmiLocSetEngineLockReqMsgT_data_v02),
     (sizeof qmiLocSetEngineLockIndMsgT_v02, Some qmiLocSetEngineLockIndMsgT_data_v02),
     (sizeof qmiLocGetEngineLockReqMsgT_v02, Some qmiLocGetEngineLockReqMsgT_data_v02),
     (sizeof qmiLocGetEngineLockIndMsgT_v02, Some qmiLocGetEngineLockIndMsgT_data_v02),
     (sizeof qmiLocSetSbasConfigReqMsgT_v02, Some qmiLocSetSbasConfigReqMsgT_data_v02),
     (sizeof qmiLocSetSbasConfigIndMsgT_v02, Some qmiLocSetSbasConfigIndMsgT_data_v02),
     (sizeof qmiLocGetSbasConfigReqMsgT_v02, None),
     (sizeof qmiLocGetSbasConfigIndMsgT_v02, Some qmiLocGetSbasConfigIndMsgT_data_v02),
     (sizeof qmiLocSetNmeaTypesReqMsgT_v02, Some qmiLocSetNmeaTypesReqMsgT_data_v02),
     (sizeof qmiLocSetNmeaTypesIndMsgT_v02, Some qmiLocSetNmeaTypesIndMsgT_data_v02),
     (sizeof qmiLocGetNmeaTypesReqMsgT_v02, None),
     (sizeof qmiLocGetNmeaTypesIndMsgT_v02, Some qmiLocGetNmeaTypesIndMsgT_data_v02),
     (sizeof qmiLocSetLowPowerModeReqMsgT_v02, Some qmiLocSetLowPowerModeReqMsgT_data_v02),
     (sizeof qmiLocSetLowPowerModeIndMsgT_v02, Some qmiLocSetLowPowerModeIndMsgT_data_v02),
     (sizeof qmiLocGetLowPowerModeReqMsgT_v02, None),
     (sizeof qmiLocGetLowPowerModeIndMsgT_v02, Some qmiLocGetLowPowerModeIndMsgT_data_v02),
     (sizeof qmiLocSetServerReqMsgT_v02, Some qmiLocSetServerReqMsgT_data_v02),
     (sizeof qmiLocSetServerIndMsgT_v02, Some qmiLocSetServerIndMsgT_data_v02),
     (sizeof qmiLocGetServerReqMsgT_v02, Some qmiLocGetServerReqMsgT_data_v02),
     (sizeof qmiLocGetServerIndMsgT_v02, Some qmiLocGetServerIndMsgT_data_v02),
     (sizeof qmiLocDeleteAssistDataReqMsgT_v02, Some qmiLocDeleteAssistDataReqMsgT_data_v02),
     (sizeof qmiLocDeleteAssistDataIndMsgT_v02, Some qmiLocDeleteAssistDataIndMsgT_data_v02),
     (sizeof qmiLocSetXtraTSessionControlReqMsgT_v02, Some qmiLocSetXtraTSessionControlReqMsgT_data_v02),
     (sizeof qmiLocSetXtraTSessionControlIndMsgT_v02, Some qmiLocSetXtraTSessionControlIndMsgT_data_v02),
     (sizeof qmiLocGetXtraTSessionControlReqMsgT_v02, None),
     (sizeof qmiLocGetXtraTSessionControlIndMsgT_v02, Some qmiLocGetXtraTSessionControlIndMsgT_data_v02),
     (sizeof qmiLocInjectWifiPositionReqMsgT_v02, Some qmiLocInjectWifiPositionReqMsgT_data_v02),
     (sizeof qmiLocInjectWifiPositionIndMsgT_v02, Some qmiLocInjectWifiPositionIndMsgT_data_v02),
     (sizeof qmiLocNotifyWifiStatusReqMsgT_v02, Some qmiLocNotifyWifiStatusReqMsgT_data_v02),
     (sizeof qmiLocNotifyWifiStatusIndMsgT_v02, Some qmiLocNotifyWifiStatusIndMsgT_data_v02),
     (sizeof qmiLocGetRegisteredEventsReqMsgT_v02, None),
     (sizeof qmiLocGetRegisteredEventsIndMsgT_v02, Some qmiLocGetRegisteredEventsIndMsgT_data_v02),
     (sizeof qmiLocSetOperationModeReqMsgT_v02, Some qmiLocSetOperationModeReqMsgT_data_v02),
     (sizeof qmiLocSetOperationModeIndMsgT_v02, Some qmiLocSetOperationModeIndMsgT_data_v02),
     (sizeof qmiLocGetOperationModeReqMsgT_v02, None),
     (sizeof qmiLocGetOperationModeIndMsgT_v02, Some qmiLocGetOperationModeIndMsgT_data_v02),
     (sizeof qmiLocSetSpiStatusReqMsgT_v02, Some qmiLocSetSpiStatusReqMsgT_data_v02),
     (sizeof qmiLocSetSpiStatusIndMsgT_v02, Some qmiLocSetSpiStatusIndMsgT_data_v02),
     (sizeof qmiLocInjectSensorDataReqMsgT_v02, Some qmiLocInjectSensorDataReqMsgT_data_v02),
     (sizeof qmiLocInjectSensorDataIndMsgT_v02, Some qmiLocInjectSensorDataIndMsgT_data_v02),
     (sizeof qmiLocInjectTimeSyncDataReqMsgT_v02, Some qmiLocInjectTimeSyncDataReqMsgT_data_v02),
     (sizeof qmiLocInjectTimeSyncDataIndMsgT_v02, Some qmiLocInjectTimeSyncDataIndMsgT_data_v02),
     (sizeof qmiLocGetCradleMountConfigReqMsgT_v02, None),
     (sizeof qmiLocGetCradleMountConfigIndMsgT_v02, Some qmiLocGetCradleMountConfigIndMsgT_data_v02),
     (sizeof qmiLocSetCradleMountConfigReqMsgT_v02, Some qmiLocSetCradleMountConfigReqMsgT_data_v02),
     (sizeof qmiLocSetCradleMountConfigIndMsgT_v02, Some qmiLocSetCradleMountConfigIndMsgT_data_v02),
     (sizeof qmiLocGetExternalPowerConfigReqMsgT_v02, None),
     (sizeof qmiLocGetExternalPowerConfigIndMsgT_v02, Some qmiLocGetExternalPowerConfigIndMsgT_data_v02),
     (sizeof qmiLocSetExternalPowerConfigReqMsgT_v02, Some qmiLocSetExternalPowerConfigReqMsgT_data_v02),
     (sizeof qmiLocSetExternalPowerConfigIndMsgT_v02, Some qmiLocSetExternalPowerConfigIndMsgT_data_v02),
     (sizeof qmiLocInformLocationServerConnStatusReqMsgT_v02, Some qmiLocInformLocationServerConnStatusReqMsgT_data_v02),
     (sizeof qmiLocInformLocationServerConnStatusIndMsgT_v02, Some qmiLocInformLocationServerConnStatusIndMsgT_data_v02),
     (sizeof qmiLocSetProtocolConfigParametersReqMsgT_v02, Some qmiLocSetProtocolConfigParametersReqMsgT_data_v02),
     (sizeof qmiLocSetProtocolConfigParametersIndMsgT_v02, Some qmiLocSetProtocolConfigParametersIndMsgT_data_v02)]"

definition loc_message_table_v02_2 :: "ctype \<Rightarrow> qmi_idl_message_table_entry list" where
  "loc_message_table_v02_2 resp_t =
    [(sizeof qmiLocGetProtocolConfigParametersReqMsgT_v02, Some qmiLocGetProtocolConfigParametersReqMsgT_data_v02),
     (sizeof qmiLocGetProtocolConfigParametersIndMsgT_v02, Some qmiLocGetProtocolConfigParametersIndMsgT_data_v02),
     (sizeof qmiLocSetSensorControlConfigReqMsgT_v02, Some qmiLocSetSensorControlConfigReqMsgT_data_v02),
     (sizeof qmiLocSetSensorControlConfigIndMsgT_v02, Some qmiLocSetSensorControlConfigIndMsgT_data_v02),
     (sizeof qmiLocGetSensorControlConfigReqMsgT_v02, None),
     (sizeof qmiLocGetSensorControlConfigIndMsgT_v02, Some qmiLocGetSensorControlConfigIndMsgT_data_v02),
     (sizeof qmiLocSetSensorPropertiesReqMsgT_v02, Some qmiLocSetSensorPropertiesReqMsgT_data_v02),
     (sizeof qmiLocSetSensorPropertiesIndMsgT_v02, Some qmiLocSetSensorPropertiesIndMsgT_data_v02),
     (sizeof qmiLocGetSensorPropertiesReqMsgT_v02, Some qmiLocGetSensorPropertiesReqMsgT_data_v02),
     (sizeof qmiLocGetSensorPropertiesIndMsgT_v02, Some qmiLocGetSensorPropertiesIndMsgT_data_v02),
     (sizeof qmiLocSetSensorPerformanceControlConfigReqMsgT_v02, Some qmiLocSetSensorPerformanceControlConfigReqMsgT_data_v02),
     (sizeof qmiLocSetSensorPerformanceControlConfigIndMsgT_v02, Some qmiLocSetSensorPerformanceControlConfigIndMsgT_data_v02),
     (sizeof qmiLocGetSensorPerformanceControlConfigReqMsgT_v02, None),
     (sizeof qmiLocGetSensorPerformanceControlConfigIndMsgT_v02, Some qmiLocGetSensorPerformanceControlConfigIndMsgT_data_v02),
     (sizeof qmiLocInjectSuplCertificateReqMsgT_v02, Some qmiLocInjectSuplCertificateReqMsgT_data_v02),
     (sizeof qmiLocInjectSuplCertificateIndMsgT_v02, Some qmiLocInjectSuplCertificateIndMsgT_data_v02),
     (sizeof qmiLocDeleteSuplCertificateReqMsgT_v02, Some qmiLocDeleteSuplCertificateReqMsgT_data_v02),
     (sizeof qmiLocDeleteSuplCertificateIndMsgT_v02, Some qmiLocDeleteSuplCertificateIndMsgT_data_v02),
     (sizeof qmiLocSetPositionEngineConfigParametersReqMsgT_v02, Some qmiLocSetPositionEngineConfigParametersReqMsgT_data_v02),
     (sizeof qmiLocSetPositionEngineConfigParametersIndMsgT_v02, Some qmiLocSetPositionEngineConfigParametersIndMsgT_data_v02),
     (sizeof qmiLocGetPositionEngineConfigParametersReqMsgT_v02, Some qmiLocGetPositionEngineConfigParametersReqMsgT_data_v02),
     (sizeof qmiLocGetPositionEngineConfigParametersIndMsgT_v02, Some qmiLocGetPositionEngineConfigParametersIndMsgT_data_v02),
     (sizeof qmiLocAddCircularGeofenceReqMsgT_v02, Some qmiLocAddCircularGeofenceReqMsgT_data_v02),
     (sizeof qmiLocAddCircularGeofenceIndMsgT_v02, Some qmiLocAddCircularGeofenceIndMsgT_data_v02),
     (sizeof qmiLocDeleteGeofenceReqMsgT_v02, Some qmiLocDeleteGeofenceReqMsgT_data_v02),
     (sizeof qmiLocDeleteGeofenceIndMsgT_v02, Some qmiLocDeleteGeofenceIndMsgT_data_v02),
     (sizeof qmiLocQueryGeofenceReqMsgT_v02, Some qmiLocQueryGeofenceReqMsgT_data_v02),
     (sizeof qmiLocQueryGeofenceIndMsgT_v02, Some qmiLocQueryGeofenceIndMsgT_data_v02),
     (sizeof qmiLocSetGeofenceEngineConfigReqMsgT_v02, Some qmiLocSetGeofenceEngineConfigReqMsgT_data_v02),
     (sizeof qmiLocSetGeofenceEngineConfigIndMsgT_v02, Some qmiLocSetGeofenceEngineConfigIndMsgT_data_v02),
     (sizeof qmiLocGetGeofenceEngineConfigReqMsgT_v02, Some qmiLocGetGeofenceEngineConfigReqMsgT_data_v02),
     (sizeof qmiLocGetGeofenceEngineConfigIndMsgT_v02, Some qmiLocGetGeofenceEngineConfigIndMsgT_data_v02),
     (sizeof qmiLocEditGeofenceReqMsgT_v02, Some qmiLocEditGeofenceReqMsgT_data_v02),
     (sizeof qmiLocEditGeofenceIndMsgT_v02, Some qmiLocEditGeofenceIndMsgT_data_v02),
     (sizeof qmiLocEventGetTimeZoneReqIndMsgT_v02, Some qmiLocEventGetTimeZoneReqIndMsgT_data_v02),
     (sizeof qmiLocInjectTimeZoneInfoReqMsgT_v02, Some qmiLocInjectTimeZoneInfoReqMsgT_data_v02),
     (sizeof qmiLocInjectTimeZoneInfoIndMsgT_v02, Some qmiLocInjectTimeZoneInfoIndMsgT_data_v02),
     (sizeof qmiLocGetBestAvailablePositionReqMsgT_v02, Some qmiLocGetBestAvailablePositionReqMsgT_data_v02),
     (sizeof qmiLocGetBestAvailablePositionIndMsgT_v02, Some qmiLocGetBestAvailablePositionIndMsgT_data_v02),
     (sizeof qmiLocInjectMotionDataReqMsgT_v02, Some qmiLocInjectMotionDataReqMsgT_data_v02),
     (sizeof qmiLocInjectMotionDataIndMsgT_v02, Some qmiLocInjectMotionDataIndMsgT_data_v02),
     (sizeof qmiLocGetNiGeofenceIdListReqMsgT_v02, Some qmiLocGetNiGeofenceIdListReqMsgT_data_v02),
     (sizeof qmiLocGetNiGeofenceIdListIndMsgT_v02, Some qmiLocGetNiGeofenceIdListIndMsgT_data_v02),
     (sizeof qmiLocInjectGSMCellInfoReqMsgT_v02, Some qmiLocInjectGSMCellInfoReqMsgT_data_v02),
     (sizeof qmiLocInjectGSMCellInfoIndMsgT_v02, Some qmiLocInjectGSMCellInfoIndMsgT_data_v02),
     (sizeof qmiLocInjectWCDMACellInfoReqMsgT_v02, Some qmiLocInjectWCDMACellInfoReqMsgT_data_v02),
     (sizeof qmiLocInjectWCDMACellInfoIndMsgT_v02, Some qmiLocInjectWCDMACellInfoIndMsgT_data_v02),
     (sizeof qmiLocInjectTDSCDMACellInfoReqMsgT_v02, Some qmiLocInjectTDSCDMACellInfoReqMsgT_data_v02),
     (sizeof qmiLocInjectTDSCDMACellInfoIndMsgT_v02, Some qmiLocInjectTDSCDMACellInfoIndMsgT_data_v02),
     (sizeof qmiLocInjectSubscriberIDReqMsgT_v02, Some qmiLocInjectSubscriberIDReqMsgT_data_v02),
     (sizeof qmiLocInjectSubscriberIDIndMsgT_v02, Some qmiLocInjectSubscriberIDIndMsgT_data_v02),
     (sizeof qmiLocInjectNetworkInitiatedMessageReqMsgT_v02, Some qmiLocInjectNetworkInitiatedMessageReqMsgT_data_v02),
     (sizeof qmiLocInjectNetworkInitiatedMessageIndMsgT_v02, Some qmiLocInjectNetworkInitiatedMessageIndMsgT_data_v02),
     (sizeof qmiLocWWANOutOfServiceNotificationReqMsgT_v02, None),
     (sizeof qmiLocWWANOutOfServiceNotificationIndMsgT_v02, Some qmiLocWWANOutOfServiceNotificationIndMsgT_data_v02),
     (sizeof qmiLocPedometerReportReqMsgT_v02, Some qmiLocPedometerReportReqMsgT_data_v02),
     (sizeof qmiLocPedometerReportIndMsgT_v02, Some qmiLocPedometerReportIndMsgT_data_v02),
     (sizeof qmiLocGetBatchSizeReqMsgT_v02, Some qmiLocGetBatchSizeReqMsgT_data_v02),
     (sizeof qmiLocGetBatchSizeIndMsgT_v02, Some qmiLocGetBatchSizeIndMsgT_data_v02),
     (sizeof qmiLocStartBatchingReqMsgT_v02, Some qmiLocStartBatchingReqMsgT_data_v02),
     (sizeof qmiLocStartBatchingIndMsgT_v02, Some qmiLocStartBatchingIndMsgT_data_v02),
     (sizeof qmiLocEventBatchFullIndMsgT_v02, Some qmiLocEventBatchFullIndMsgT_data_v02),
     (sizeof qmiLocEventLiveBatchedPositionReportIndMsgT_v02, Some qmiLocEventLiveBatchedPositionReportIndMsgT_data_v02),
     (sizeof qmiLocReadFromBatchReqMsgT_v02, Some qmiLocReadFromBatchReqMsgT_data_v02),
     (sizeof qmiLocReadFromBatchIndMsgT_v02, Some qmiLocReadFromBatchIndMsgT_data_v02),
     (sizeof qmiLocStopBatchingReqMsgT_v02, Some qmiLocStopBatchingReqMsgT_data_v02),
     (sizeof qmiLocStopBatchingIndMsgT_v02, Some qmiLocStopBatchingIndMsgT_data_v02),
     (sizeof qmiLocReleaseBatchReqMsgT_v02, Some qmiLocReleaseBatchReqMsgT_data_v02),
     (sizeof qmiLocReleaseBatchIndMsgT_v02, Some qmiLocReleaseBatchIndMsgT_data_v02),
     (sizeof qmiLocEventInjectWifiApDataReqIndMsgT_v02, Some qmiLocEventInjectWifiApDataReqIndMsgT_data_v02),
     (sizeof qmiLocInjectWifiApDataReqMsgT_v02, Some qmiLocInjectWifiApDataReqMsgT_data_v02),
     (sizeof qmiLocInjectWifiApDataIndMsgT_v02, Some qmiLocInjectWifiApDataIndMsgT_data_v02),
     (sizeof qmiLocNotifyWifiAttachmentStatusReqMsgT_v02, Some qmiLocNotifyWifiAttachmentStatusReqMsgT_data_v02),
     (sizeof qmiLocNotifyWifiAttachmentStatusIndMsgT_v02, Some qmiLocNotifyWifiAttachmentStatusIndMsgT_data_v02),
     (sizeof qmiLocNotifyWifiEnabledStatusReqMsgT_v02, Some qmiLocNotifyWifiEnabledStatusReqMsgT_data_v02),
     (sizeof qmiLocNotifyWifiEnabledStatusIndMsgT_v02, Some qmiLocNotifyWifiEnabledStatusIndMsgT_data_v02),
     (sizeof qmiLocEventVehicleDataReadyIndMsgT_v02, Some qmiLocEventVehicleDataReadyIndMsgT_data_v02),
     (sizeof qmiLocInjectVehicleSensorDataReqMsgT_v02, Some qmiLocInjectVehicleSensorDataReqMsgT_data_v02),
     (sizeof qmiLocInjectVehicleSensorDataIndMsgT_v02, Some qmiLocInjectVehicleSensorDataIndMsgT_data_v02),
     (sizeof qmiLocGetAvailWwanPositionReqMsgT_v02, Some qmiLocGetAvailWwanPositionReqMsgT_data_v02),
     (sizeof qmiLocGetAvailWwanPositionIndMsgT_v02, Some qmiLocGetAvailWwanPositionIndMsgT_data_v02),
     (sizeof qmiLocSetPremiumServicesCfgReqMsgT_v02, Some qmiLocSetPremiumServicesCfgReqMsgT_data_v02),
     (sizeof qmiLocSetPremiumServicesCfgIndMsgT_v02, Some qmiLocSetPremiumServicesCfgIndMsgT_data_v02),
     (sizeof qmiLocSetXtraVersionCheckReqMsgT_v02, Some qmiLocSetXtraVersionCheckReqMsgT_data_v02),
     (sizeof qmiLocSetXtraVersionCheckIndMsgT_v02, Some qmiLocSetXtraVersionCheckIndMsgT_data_v02),
     (sizeof qmiLocSetGNSSConstRepConfigReqMsgT_v02, Some qmiLocSetGNSSConstRepConfigReqMsgT_data_v02),
     (sizeof qmiLocSetGNSSConstRepConfigIndMsgT_v02, Some qmiLocSetGNSSConstRepConfigIndMsgT_data_v02),
     (sizeof qmiLocEventGnssSvMeasInfoIndMsgT_v02, Some qmiLocEventGnssSvMeasInfoIndMsgT_data_v02),
     (sizeof qmiLocEventGnssSvPolyIndMsgT_v02, Some qmiLocEventGnssSvPolyIndMsgT_data_v02),
     (sizeof qmiLocAddGeofenceContextReqMsgT_v02, Some qmiLocAddGeofenceContextReqMsgT_data_v02),
     (sizeof qmiLocAddGeofenceContextIndMsgT_v02, Some qmiLocAddGeofenceContextIndMsgT_data_v02),
     (sizeof qmiLocSetGeofenceEngineContextReqMsgT_v02, Some qmiLocSetGeofenceEngineContextReqMsgT_data_v02),
     (sizeof qmiLocSetGeofenceEngineContextIndMsgT_v02, Some qmiLocSetGeofenceEngineContextIndMsgT_data_v02),
     (sizeof qmiLocDeleteGeofenceContextReqMsgT_v02, Some qmiLocDeleteGeofenceContextReqMsgT_data_v02),
     (sizeof qmiLocDeleteGeofenceContextIndMsgT_v02, Some qmiLocDeleteGeofenceContextIndMsgT_data_v02),
     (sizeof qmiLocInjectGtpClientDownloadedDataReqMsgT_v02, Some qmiLocInjectGtpClientDownloadedDataReqMsgT_data_v02),
     (sizeof qmiLocInjectGtpClientDownloadedDataIndMsgT_v02, Some qmiLocInjectGtpClientDownloadedDataIndMsgT_data_v02),
     (sizeof qmiLocGdtUploadBeginStatusReqMsgT_v02, Some qmiLocGdtUploadBeginStatusReqMsgT_data_v02),
     (sizeof qmiLocGdtUploadBeginStatusIndMsgT_v02, Some qmiLocGdtUploadBeginStatusIndMsgT_data_v02),
     (sizeof qmiLocGdtUploadEndReqMsgT_v02, Some qmiLocGdtUploadEndReqMsgT_data_v02),
     (sizeof qmiLocGdtUploadEndIndMsgT_v02, Some qmiLocGdtUploadEndIndMsgT_data_v02),
     (sizeof qmiLocGtpApStatusReqMsgT_v02, Some qmiLocGtpApStatusReqMsgT_data_v02),
     (sizeof qmiLocGtpApStatusIndMsgT_v02, Some qmiLocGtpApStatusIndMsgT_data_v02),
     (sizeof qmiLocGdtDownloadBeginStatusReqMsgT_v02, Some qmiLocGdtDownloadBeginStatusReqMsgT_data_v02)]"

definition loc_message_table_v02_3 :: "ctype \<Rightarrow> qmi_idl_message_table_entry list" where
  "loc_message_table_v02_3 resp_t =
    [(sizeof qmiLocGdtDownloadBeginStatusIndMsgT_v02, Some qmiLocGdtDownloadBeginStatusIndMsgT_data_v02),
     (sizeof qmiLocGdtDownloadReadyStatusReqMsgT_v02, Some qmiLocGdtDownloadReadyStatusReqMsgT_data_v02),
     (sizeof qmiLocGdtDownloadReadyStatusIndMsgT_v02, Some qmiLocGdtDownloadReadyStatusIndMsgT_data_v02),
     (sizeof qmiLocGdtReceiveDoneStatusReqMsgT_v02, Some qmiLocGdtReceiveDoneStatusReqMsgT_data_v02),
     (sizeof qmiLocGdtReceiveDoneStatusIndMsgT_v02, Some qmiLocGdtReceiveDoneStatusIndMsgT_data_v02),
     (sizeof qmiLocGdtDownloadEndStatusReqMsgT_v02, Some qmiLocGdtDownloadEndStatusReqMsgT_data_v02),
     (sizeof qmiLocGdtDownloadEndStatusIndMsgT_v02, Some qmiLocGdtDownloadEndStatusIndMsgT_data_v02),
     (sizeof qmiLocStartDbtReqMsgT_v02, Some qmiLocStartDbtReqMsgT_data_v02),
     (sizeof qmiLocStartDbtIndMsgT_v02, Some qmiLocStartDbtIndMsgT_data_v02),
     (sizeof qmiLocStopDbtReqMsgT_v02, Some qmiLocStopDbtReqMsgT_data_v02),
     (sizeof qmiLocStopDbtIndMsgT_v02, Some qmiLocStopDbtIndMsgT_data_v02),
     (sizeof qmiLocEventDbtPositionReportIndMsgT_v02, Some qmiLocEventDbtPositionReportIndMsgT_data_v02),
     (sizeof qmiLocEventDbtSessionStatusIndMsgT_v02, Some qmiLocEventDbtSessionStatusIndMsgT_data_v02),
     (sizeof qmiLocSecureGetAvailablePositionReqMsgT_v02, Some qmiLocSecureGetAvailablePositionReqMsgT_data_v02),
     (sizeof qmiLocSecureGetAvailablePositionIndMsgT_v02, Some qmiLocSecureGetAvailablePositionIndMsgT_data_v02),
     (sizeof qmiLocInjectApCacheDataReqMsgT_v02, Some qmiLocInjectApCacheDataReqMsgT_data_v02),
     (sizeof qmiLocInjectApCacheDataIndMsgT_v02, Some qmiLocInjectApCacheDataIndMsgT_data_v02),
     (sizeof qmiLocInjectApDoNotCacheDataReqMsgT_v02, Some qmiLocInjectApDoNotCacheDataReqMsgT_data_v02),
     (sizeof qmiLocInjectApDoNotCacheDataIndMsgT_v02, Some qmiLocInjectApDoNotCacheDataIndMsgT_data_v02),
     (sizeof qmiLocEventBatchingStatusIndMsgT_v02, Some qmiLocEventBatchingStatusIndMsgT_data_v02),
     (sizeof qmiLocQueryAonConfigReqMsgT_v02, Some qmiLocQueryAonConfigReqMsgT_data_v02),
     (sizeof qmiLocQueryAonConfigIndMsgT_v02, Some qmiLocQueryAonConfigIndMsgT_data_v02),
     (sizeof qmiLocDeleteGNSSServiceDataReqMsgT_v02, Some qmiLocDeleteGNSSServiceDataReqMsgT_data_v02),
     (sizeof qmiLocDeleteGNSSServiceDataIndMsgT_v02, Some qmiLocDeleteGNSSServiceDataIndMsgT_data_v02),
     (sizeof qmiLocInjectXtraDataReqMsgT_v02, Some qmiLocInjectXtraDataReqMsgT_data_v02),
     (sizeof qmiLocInjectXtraDataIndMsgT_v02, Some qmiLocInjectXtraDataIndMsgT_data_v02),
     (sizeof qmiLocInjectXtraPcidReqMsgT_v02, Some qmiLocInjectXtraPcidReqMsgT_data_v02),
     (sizeof qmiLocInjectXtraPcidIndMsgT_v02, Some qmiLocInjectXtraPcidIndMsgT_data_v02),
     (sizeof qmiLocGetSupportedFeatureReqMsgT_v02, None),
     (sizeof qmiLocGetSupportedFeatureIndMsgT_v02, Some qmiLocGetSupportedFeatureIndMsgT_data_v02),
     (sizeof qmiLocSetInternalStatusConfigReqMsgT_v02, Some qmiLocSetInternalStatusConfigReqMsgT_data_v02),
     (sizeof qmiLocSetInternalStatusConfigIndMsgT_v02, Some qmiLocSetInternalStatusConfigIndMsgT_data_v02),
     (sizeof qmiLocEventInternalStatusReportIndMsgT_v02, Some qmiLocEventInternalStatusReportIndMsgT_data_v02),
     (sizeof qmiLocEventInjectSrnApDataReqIndMsgT_v02, Some qmiLocEventInjectSrnApDataReqIndMsgT_data_v02),
     (sizeof qmiLocInjectSrnApDataReqMsgT_v02, Some qmiLocInjectSrnApDataReqMsgT_data_v02),
     (sizeof qmiLocInjectSrnApDataIndMsgT_v02, Some qmiLocInjectSrnApDataIndMsgT_data_v02),
     (sizeof qmiLocCrowdSourceManagerControlReqMsgT_v02, Some qmiLocCrowdSourceManagerControlReqMsgT_data_v02),
     (sizeof qmiLocCrowdSourceManagerControlIndMsgT_v02, Some qmiLocCrowdSourceManagerControlIndMsgT_data_v02),
     (sizeof qmiLocCrowdSourceManagerReadDataReqMsgT_v02, Some qmiLocCrowdSourceManagerReadDataReqMsgT_data_v02),
     (sizeof qmiLocQueryXtraInfoReqMsgT_v02, Some qmiLocQueryXtraInfoReqMsgT_data_v02),
     (sizeof qmiLocQueryXtraInfoIndMsgT_v02, Some qmiLocQueryXtraInfoIndMsgT_data_v02),
     (sizeof qmiLocStartOutdoorTripBatchingReqMsgT_v02, Some qmiLocStartOutdoorTripBatchingReqMsgT_data_v02),
     (sizeof qmiLocStartOutdoorTripBatchingIndMsgT_v02, Some qmiLocStartOutdoorTripBatchingIndMsgT_data_v02),
     (sizeof qmiLocQueryOTBAccumulatedDistanceReqMsgT_v02, None),
     (sizeof qmiLocQueryOTBAccumulatedDistanceIndMsgT_v02, Some qmiLocQueryOTBAccumulatedDistanceIndMsgT_data_v02),
     (sizeof qmiLocEventFdclServiceReqIndMsgT_v02, Some qmiLocEventFdclServiceReqIndMsgT_data_v02),
     (sizeof qmiLocGetFdclBsListReqMsgT_v02, Some qmiLocGetFdclBsListReqMsgT_data_v02),
     (sizeof qmiLocGetFdclBsListIndMsgT_v02, Some qmiLocGetFdclBsListIndMsgT_data_v02),
     (sizeof qmiLocInjectFdclDataReqMsgT_v02, Some qmiLocInjectFdclDataReqMsgT_data_v02),
     (sizeof qmiLocInjectFdclDataIndMsgT_v02, Some qmiLocInjectFdclDataIndMsgT_data_v02),
     (sizeof qmiLocSetBlacklistSvReqMsgT_v02, Some qmiLocSetBlacklistSvReqMsgT_data_v02),
     (sizeof qmiLocGetBlacklistSvIndMsgT_v02, Some qmiLocGetBlacklistSvIndMsgT_data_v02),
     (sizeof qmiLocSetConstellationConfigReqMsgT_v02, Some qmiLocSetConstellationConfigReqMsgT_data_v02),
     (sizeof qmiLocEventDcReportIndMsgT_v02, Some qmiLocEventDcReportIndMsgT_data_v02),
     (sizeof qmiLocRegisterMasterClientReqMsgT_v02, Some qmiLocRegisterMasterClientReqMsgT_data_v02),
     (sizeof qmiLocRegisterMasterClientIndMsgT_v02, Some qmiLocRegisterMasterClientIndMsgT_data_v02),
     (sizeof qmiLocEventEngineLockStateIndMsgT_v02, Some qmiLocEventEngineLockStateIndMsgT_data_v02),
     (sizeof qmiLocStartListenPositionReqMsgT_v02, None),
     (sizeof qmiLocStopListenPositionReqMsgT_v02, None),
     (sizeof qmiLocSystemInfoReqMsgT_v02, Some qmiLocSystemInfoReqMsgT_data_v02),
     (sizeof qmiLocSystemInfoIndMsgT_v02, Some qmiLocSystemInfoIndMsgT_data_v02),
     (sizeof qmiLocGetConstellationConfigIndMsgT_v02, Some qmiLocGetConstellationConfigIndMsgT_data_v02),
     (sizeof qmiLocEnablePositionInjectionTestModeReqMsgT_v02, Some qmiLocEnablePositionInjectionTestModeReqMsgT_data_v02),
     (sizeof qmiLocEnablePositionInjectionTestModeIndMsgT_v02, Some qmiLocEnablePositionInjectionTestModeIndMsgT_data_v02),
     (sizeof qmiLocInjectTestPositionReqMsgT_v02, Some qmiLocInjectTestPositionReqMsgT_data_v02),
     (sizeof qmiLocInjectTestPositionIndMsgT_v02, Some qmiLocInjectTestPositionIndMsgT_data_v02),
     (sizeof qmiLocEventBsObsDataServiceReqIndMsgT_v02, Some qmiLocEventBsObsDataServiceReqIndMsgT_data_v02),
     (sizeof qmiLocGetBsObsDataReqMsgT_v02, Some qmiLocGetBsObsDataReqMsgT_data_v02),
     (sizeof qmiLocGetBsObsDataIndMsgT_v02, Some qmiLocGetBsObsDataIndMsgT_data_v02),
     (sizeof qmiLocGpsEphemerisReportIndMsgT_v02, Some qmiLocGpsEphemerisReportIndMsgT_data_v02),
     (sizeof qmiLocGloEphemerisReportIndMsgT_v02, Some qmiLocGloEphemerisReportIndMsgT_data_v02),
     (sizeof qmiLocBdsEphemerisReportIndMsgT_v02, Some qmiLocBdsEphemerisReportIndMsgT_data_v02),
     (sizeof qmiLocGalEphemerisReportIndMsgT_v02, Some qmiLocGalEphemerisReportIndMsgT_data_v02),
     (sizeof qmiLocQzssEphemerisReportIndMsgT_v02, Some qmiLocQzssEphemerisReportIndMsgT_data_v02),
     (sizeof qmiLocSetConstrainedTuncModeReqMsgT_v02, Some qmiLocSetConstrainedTuncModeReqMsgT_data_v02),
     (sizeof qmiLocSetConstrainedTuncModeIndMsgT_v02, Some qmiLocSetConstrainedTuncModeIndMsgT_data_v02),
     (sizeof qmiLocEnablePositionAssistedClockEstReqMsgT_v02, Some qmiLocEnablePositionAssistedClockEstReqMsgT_data_v02),
     (sizeof qmiLocEnablePositionAssistedClockEstIndMsgT_v02, Some qmiLocEnablePositionAssistedClockEstIndMsgT_data_v02),
     (sizeof qmiLocQueryGNSSEnergyConsumedReqMsgT_v02, None),
     (sizeof qmiLocQueryGNSSEnergyConsumedIndMsgT_v02, Some qmiLocQueryGNSSEnergyConsumedIndMsgT_data_v02),
     (sizeof qmiLocEventReportIndMsgT_v02, Some qmiLocEventReportIndMsgT_data_v02),
     (sizeof qmiLocGetBandMeasurementMetricsIndMsgT_v02, Some qmiLocGetBandMeasurementMetricsIndMsgT_data_v02),
     (sizeof qmiLocLocationRequestNotificationIndMsgT_v02, Some qmiLocLocationRequestNotificationIndMsgT_data_v02),
     (sizeof qmiLocInjectPlatformPowerStateReqMsgT_v02, Some qmiLocInjectPlatformPowerStateReqMsgT_data_v02),
     (sizeof qmiLocInjectPlatformPowerStateIndMsgT_v02, Some qmiLocInjectPlatformPowerStateIndMsgT_data_v02),
     (sizeof qmiLocSetRobustLocationReqMsgT_v02, Some qmiLocSetRobustLocationReqMsgT_data_v02),
     (sizeof qmiLocGetRobustLocationConfigIndMsgT_v02, Some qmiLocGetRobustLocationConfigIndMsgT_data_v02),
     (sizeof qmiLocEventInjectEnvAidingReqMsgT_v02, Some qmiLocEventInjectEnvAidingReqMsgT_data_v02),
     (sizeof qmiLocSetMinGpsWeekNumberReqMsgT_v02, Some qmiLocSetMinGpsWeekNumberReqMsgT_data_v02),
     (sizeof qmiLocGetMinGpsWeekNumberIndMsgT_v02, Some qmiLocGetMinGpsWeekNumberIndMsgT_data_v02),
     (sizeof qmiLocSapInsParamsIndMsgT_v02, Some qmiLocSapInsParamsIndMsgT_data_v02),
     (sizeof qmiLocEventQueryXtraInfoReqIndMsgT_v02, None),
     (sizeof qmiLocSetParameterReqMsgT_v02, Some qmiLocSetParameterReqMsgT_data_v02),
     (sizeof qmiLocGetParameterReqMsgT_v02, Some qmiLocGetParameterReqMsgT_data_v02),
     (sizeof qmiLocGetParameterIndMsgT_v02, Some qmiLocGetParameterIndMsgT_data_v02),
     (sizeof qmiLocSetStatisticsConfigReqMsgT_v02, Some qmiLocSetStatisticsConfigReqMsgT_data_v02),
     (sizeof qmiLocGetStatisticsConfigIndMsgT_v02, Some qmiLocGetStatisticsConfigIndMsgT_data_v02),
     (sizeof qmiLocGnssStatisticsReportIndMsgT_v02, Some qmiLocGnssStatisticsReportIndMsgT_data_v02),
     (sizeof qmiLocSetGnssPdrModeReqMsgT_v02, Some qmiLocSetGnssPdrModeReqMsgT_data_v02),
     (sizeof qmiLocGetGnssPdrModeIndMsgT_v02, Some qmiLocGetGnssPdrModeIndMsgT_data_v02),
     (sizeof qmiLocGetMagCalStatePdrIndMsgT_v02, Some qmiLocGetMagCalStatePdrIndMsgT_data_v02),
     (sizeof qmiLocSetMultibandConfigReqMsgT_v02, Some qmiLocSetMultibandConfigReqMsgT_data_v02),
     (sizeof qmiLocGetMultibandConfigIndMsgT_v02, Some qmiLocGetMultibandConfigIndMsgT_data_v02),
     (sizeof qmiLocLatencyInformationIndMsgT_v02, Some qmiLocLatencyInformationIndMsgT_data_v02)]"

text \<open>The message table, whose rows are listed above in three parts.\<close>

definition loc_message_table_v02 :: "ctype \<Rightarrow> qmi_idl_message_table_entry list" where
  "loc_message_table_v02 resp_t = loc_message_table_v02_1 resp_t @ loc_message_table_v02_2 resp_t @ loc_message_table_v02_3 resp_t"

section \<open>Messages of the service\<close>

definition loc_service_command_messages_v02 :: "qmi_idl_service_message_table_entry list" where
  "loc_service_command_messages_v02 =
    [(QMI_LOC_GET_SUPPORTED_MSGS_REQ_V02, QMI_IDL_TYPE16 1 0, 0),
     (QMI_LOC_GET_SUPPORTED_FIELDS_REQ_V02, QMI_IDL_TYPE16 1 2, 5),
     (QMI_LOC_INFORM_CLIENT_REVISION_REQ_V02, QMI_IDL_TYPE16 0 3, 7),
     (QMI_LOC_REG_EVENTS_REQ_V02, QMI_IDL_TYPE16 0 4, 29),
     (QMI_LOC_START_REQ_V02, QMI_IDL_TYPE16 0 5, 150),
     (QMI_LOC_STOP_REQ_V02, QMI_IDL_TYPE16 0 6, 4),
     (QMI_LOC_GET_SERVICE_REVISION_REQ_V02, QMI_IDL_TYPE16 0 34, 0),
     (QMI_LOC_GET_FIX_CRITERIA_REQ_V02, QMI_IDL_TYPE16 0 36, 0),
     (QMI_LOC_NI_USER_RESPONSE_REQ_V02, QMI_IDL_TYPE16 0 38, 1345),
     (QMI_LOC_INJECT_PREDICTED_ORBITS_DATA_REQ_V02, QMI_IDL_TYPE16 0 40, 1053),
     (QMI_LOC_GET_PREDICTED_ORBITS_DATA_SOURCE_REQ_V02, QMI_IDL_TYPE16 0 42, 0),
     (QMI_LOC_GET_PREDICTED_ORBITS_DATA_VALIDITY_REQ_V02, QMI_IDL_TYPE16 0 44, 0),
     (QMI_LOC_INJECT_UTC_TIME_REQ_V02, QMI_IDL_TYPE16 0 46, 25),
     (QMI_LOC_INJECT_POSITION_REQ_V02, QMI_IDL_TYPE16 0 48, 540),
     (QMI_LOC_SET_ENGINE_LOCK_REQ_V02, QMI_IDL_TYPE16 0 50, 25),
     (QMI_LOC_GET_ENGINE_LOCK_REQ_V02, QMI_IDL_TYPE16 0 52, 7),
     (QMI_LOC_SET_SBAS_CONFIG_REQ_V02, QMI_IDL_TYPE16 0 54, 8),
     (QMI_LOC_GET_SBAS_CONFIG_REQ_V02, QMI_IDL_TYPE16 0 56, 0),
     (QMI_LOC_SET_NMEA_TYPES_REQ_V02, QMI_IDL_TYPE16 0 58, 7),
     (QMI_LOC_GET_NMEA_TYPES_REQ_V02, QMI_IDL_TYPE16 0 60, 0),
     (QMI_LOC_SET_LOW_POWER_MODE_REQ_V02, QMI_IDL_TYPE16 0 62, 4),
     (QMI_LOC_GET_LOW_POWER_MODE_REQ_V02, QMI_IDL_TYPE16 0 64, 0),
     (QMI_LOC_SET_SERVER_REQ_V02, QMI_IDL_TYPE16 0 66, 297),
     (QMI_LOC_GET_SERVER_REQ_V02, QMI_IDL_TYPE16 0 68, 11),
     (QMI_LOC_DELETE_ASSIST_DATA_REQ_V02, QMI_IDL_TYPE16 0 70, 1160),
     (QMI_LOC_SET_XTRA_T_SESSION_CONTROL_REQ_V02, QMI_IDL_TYPE16 0 72, 4),
     (QMI_LOC_GET_XTRA_T_SESSION_CONTROL_REQ_V02, QMI_IDL_TYPE16 0 74, 0),
     (QMI_LOC_INJECT_WIFI_POSITION_REQ_V02, QMI_IDL_TYPE16 0 76, 2353),
     (QMI_LOC_NOTIFY_WIFI_STATUS_REQ_V02, QMI_IDL_TYPE16 0 78, 7),
     (QMI_LOC_GET_REGISTERED_EVENTS_REQ_V02, QMI_IDL_TYPE16 0 80, 0),
     (QMI_LOC_SET_OPERATION_MODE_REQ_V02, QMI_IDL_TYPE16 0 82, 14),
     (QMI_LOC_GET_OPERATION_MODE_REQ_V02, QMI_IDL_TYPE16 0 84, 0),
     (QMI_LOC_SET_SPI_STATUS_REQ_V02, QMI_IDL_TYPE16 0 86, 8),
     (QMI_LOC_INJECT_SENSOR_DATA_REQ_V02, QMI_IDL_TYPE16 0 88, 2779),
     (QMI_LOC_INJECT_TIME_SYNC_DATA_REQ_V02, QMI_IDL_TYPE16 0 90, 21),
     (QMI_LOC_SET_CRADLE_MOUNT_CONFIG_REQ_V02, QMI_IDL_TYPE16 0 94, 11),
     (QMI_LOC_GET_CRADLE_MOUNT_CONFIG_REQ_V02, QMI_IDL_TYPE16 0 92, 0),
     (QMI_LOC_SET_EXTERNAL_POWER_CONFIG_REQ_V02, QMI_IDL_TYPE16 0 98, 14),
     (QMI_LOC_GET_EXTERNAL_POWER_CONFIG_REQ_V02, QMI_IDL_TYPE16 0 96, 0),
     (QMI_LOC_INFORM_LOCATION_SERVER_CONN_STATUS_REQ_V02, QMI_IDL_TYPE16 0 100, 140),
     (QMI_LOC_SET_PROTOCOL_CONFIG_PARAMETERS_REQ_V02, QMI_IDL_TYPE16 0 102, 86),
     (QMI_LOC_GET_PROTOCOL_CONFIG_PARAMETERS_REQ_V02, QMI_IDL_TYPE16 0 104, 11),
     (QMI_LOC_SET_SENSOR_CONTROL_CONFIG_REQ_V02, QMI_IDL_TYPE16 0 106, 14),
     (QMI_LOC_GET_SENSOR_CONTROL_CONFIG_REQ_V02, QMI_IDL_TYPE16 0 108, 0),
     (QMI_LOC_SET_SENSOR_PROPERTIES_REQ_V02, QMI_IDL_TYPE16 0 110, 88),
     (QMI_LOC_GET_SENSOR_PROPERTIES_REQ_V02, QMI_IDL_TYPE16 0 112, 7),
     (QMI_LOC_SET_SENSOR_PERFORMANCE_CONTROL_CONFIGURATION_REQ_V02, QMI_IDL_TYPE16 0 114, 42),
     (QMI_LOC_GET_SENSOR_PERFORMANCE_CONTROL_CONFIGURATION_REQ_V02, QMI_IDL_TYPE16 0 116, 0),
     (QMI_LOC_INJECT_SUPL_CERTIFICATE_REQ_V02, QMI_IDL_TYPE16 0 118, 2009),
     (QMI_LOC_DELETE_SUPL_CERTIFICATE_REQ_V02, QMI_IDL_TYPE16 0 120, 4),
     (QMI_LOC_SET_POSITION_ENGINE_CONFIG_PARAMETERS_REQ_V02, QMI_IDL_TYPE16 0 122, 16),
     (QMI_LOC_GET_POSITION_ENGINE_CONFIG_PARAMETERS_REQ_V02, QMI_IDL_TYPE16 0 124, 7),
     (QMI_LOC_ADD_CIRCULAR_GEOFENCE_REQ_V02, QMI_IDL_TYPE16 0 126, 70),
     (QMI_LOC_DELETE_GEOFENCE_REQ_V02, QMI_IDL_TYPE16 0 128, 14),
     (QMI_LOC_QUERY_GEOFENCE_REQ_V02, QMI_IDL_TYPE16 0 130, 14),
     (QMI_LOC_EDIT_GEOFENCE_REQ_V02, QMI_IDL_TYPE16 0 136, 32),
     (QMI_LOC_GET_BEST_AVAILABLE_POSITION_REQ_V02, QMI_IDL_TYPE16 0 141, 14),
     (QMI_LOC_INJECT_MOTION_DATA_REQ_V02, QMI_IDL_TYPE16 0 143, 19),
     (QMI_LOC_GET_NI_GEOFENCE_ID_LIST_REQ_V02, QMI_IDL_TYPE16 0 145, 7),
     (QMI_LOC_INJECT_GSM_CELL_INFO_REQ_V02, QMI_IDL_TYPE16 0 147, 30),
     (QMI_LOC_INJECT_NETWORK_INITIATED_MESSAGE_REQ_V02, QMI_IDL_TYPE16 0 155, 1036),
     (QMI_LOC_WWAN_OUT_OF_SERVICE_NOTIFICATION_REQ_V02, QMI_IDL_TYPE16 0 157, 0),
     (QMI_LOC_PEDOMETER_REPORT_REQ_V02, QMI_IDL_TYPE16 0 159, 46),
     (QMI_LOC_INJECT_WCDMA_CELL_INFO_REQ_V02, QMI_IDL_TYPE16 0 149, 36),
     (QMI_LOC_INJECT_TDSCDMA_CELL_INFO_REQ_V02, QMI_IDL_TYPE16 0 151, 33),
     (QMI_LOC_INJECT_SUBSCRIBER_ID_REQ_V02, QMI_IDL_TYPE16 0 153, 22),
     (QMI_LOC_SET_GEOFENCE_ENGINE_CONFIG_REQ_V02, QMI_IDL_TYPE16 0 132, 224),
     (QMI_LOC_GET_GEOFENCE_ENGINE_CONFIG_REQ_V02, QMI_IDL_TYPE16 0 134, 7),
     (QMI_LOC_GET_BATCH_SIZE_REQ_V02, QMI_IDL_TYPE16 0 161, 21),
     (QMI_LOC_START_BATCHING_REQ_V02, QMI_IDL_TYPE16 0 163, 39),
     (QMI_LOC_READ_FROM_BATCH_REQ_V02, QMI_IDL_TYPE16 0 167, 21),
     (QMI_LOC_STOP_BATCHING_REQ_V02, QMI_IDL_TYPE16 0 169, 21),
     (QMI_LOC_RELEASE_BATCH_REQ_V02, QMI_IDL_TYPE16 0 171, 14),
     (QMI_LOC_INJECT_WIFI_AP_DATA_REQ_V02, QMI_IDL_TYPE16 0 174, 5200),
     (QMI_LOC_NOTIFY_WIFI_ATTACHMENT_STATUS_REQ_V02, QMI_IDL_TYPE16 0 176, 51),
     (QMI_LOC_NOTIFY_WIFI_ENABLED_STATUS_REQ_V02, QMI_IDL_TYPE16 0 178, 7),
     (QMI_LOC_INJECT_VEHICLE_SENSOR_DATA_REQ_V02, QMI_IDL_TYPE16 0 181, 3360),
     (QMI_LOC_GET_AVAILABLE_WWAN_POSITION_REQ_V02, QMI_IDL_TYPE16 0 183, 7),
     (QMI_LOC_SET_PREMIUM_SERVICES_CONFIG_REQ_V02, QMI_IDL_TYPE16 0 185, 14),
     (QMI_LOC_SET_XTRA_VERSION_CHECK_REQ_V02, QMI_IDL_TYPE16 0 187, 7),
     (QMI_LOC_SET_GNSS_CONSTELL_REPORT_CONFIG_V02, QMI_IDL_TYPE16 0 189, 34),
     (QMI_LOC_ADD_GEOFENCE_CONTEXT_REQ_V02, QMI_IDL_TYPE16 0 193, 2517),
     (QMI_LOC_SET_GEOFENCE_ENGINE_CONTEXT_REQ_V02, QMI_IDL_TYPE16 0 195, 25),
     (QMI_LOC_DELETE_GEOFENCE_CONTEXT_REQ_V02, QMI_IDL_TYPE16 0 197, 21),
     (QMI_LOC_INJECT_GTP_CLIENT_DOWNLOADED_DATA_REQ_V02, QMI_IDL_TYPE16 0 199, 517),
     (QMI_LOC_GDT_UPLOAD_BEGIN_STATUS_REQ_V02, QMI_IDL_TYPE16 0 201, 21),
     (QMI_LOC_GDT_UPLOAD_END_REQ_V02, QMI_IDL_TYPE16 0 203, 21),
     (QMI_LOC_START_DBT_REQ_V02, QMI_IDL_TYPE16 0 215, 36),
     (QMI_LOC_STOP_DBT_REQ_V02, QMI_IDL_TYPE16 0 217, 4),
     (QMI_LOC_SECURE_GET_AVAILABLE_POSITION_REQ_V02, QMI_IDL_TYPE16 0 221, 268),
     (QMI_LOC_INJECT_TIME_ZONE_INFO_REQ_V02, QMI_IDL_TYPE16 0 139, 30),
     (QMI_LOC_INJECT_APCACHE_DATA_REQ_V02, QMI_IDL_TYPE16 0 223, 2180),
     (QMI_LOC_INJECT_APDONOTCACHE_DATA_REQ_V02, QMI_IDL_TYPE16 0 225, 656),
     (QMI_LOC_QUERY_AON_CONFIG_REQ_V02, QMI_IDL_TYPE16 0 228, 7),
     (QMI_LOC_GTP_AP_STATUS_REQ_V02, QMI_IDL_TYPE16 0 205, 540),
     (QMI_LOC_GDT_DOWNLOAD_BEGIN_STATUS_REQ_V02, QMI_IDL_TYPE16 0 207, 294),
     (QMI_LOC_GDT_DOWNLOAD_READY_STATUS_REQ_V02, QMI_IDL_TYPE16 0 209, 280),
     (QMI_LOC_GDT_RECEIVE_DONE_STATUS_REQ_V02, QMI_IDL_TYPE16 0 211, 21),
     (QMI_LOC_GDT_DOWNLOAD_END_STATUS_REQ_V02, QMI_IDL_TYPE16 0 213, 21),
     (QMI_LOC_DELETE_GNSS_SERVICE_DATA_REQ_V02, QMI_IDL_TYPE16 0 230, 47),
     (QMI_LOC_INJECT_XTRA_DATA_REQ_V02, QMI_IDL_TYPE16 0 232, 1053),
     (QMI_LOC_INJECT_XTRA_PCID_REQ_V02, QMI_IDL_TYPE16 0 234, 11),
     (QMI_LOC_GET_SUPPORTED_FEATURE_REQ_V02, QMI_IDL_TYPE16 0 236, 0),
     (QMI_LOC_SET_INTERNAL_STATUS_CONFIG_REQ_V02, QMI_IDL_TYPE16 0 238, 4),
     (QMI_LOC_INJECT_SRN_AP_DATA_REQ_V02, QMI_IDL_TYPE16 0 242, 1448),
     (QMI_LOC_CROWDSOURCE_MANAGER_CONTROL_REQ_V02, QMI_IDL_TYPE16 0 244, 545),
     (QMI_LOC_CROWDSOURCE_MANAGER_READ_DATA_REQ_V02, QMI_IDL_TYPE16 0 246, 7),
     (QMI_LOC_QUERY_XTRA_INFO_REQ_V02, QMI_IDL_TYPE16 0 247, 12),
     (QMI_LOC_START_OUTDOOR_TRIP_BATCHING_REQ_V02, QMI_IDL_TYPE16 0 249, 25),
     (QMI_LOC_QUERY_OTB_ACCUMULATED_DISTANCE_REQ_V02, QMI_IDL_TYPE16 0 251, 0),
     (QMI_LOC_GET_FDCL_BS_LIST_REQ_V02, QMI_IDL_TYPE16 0 254, 23),
     (QMI_LOC_INJECT_FDCL_DATA_REQ_V02, QMI_IDL_TYPE16 0 256, 2273),
     (QMI_LOC_SET_BLACKLIST_SV_REQ_V02, QMI_IDL_TYPE16 0 258, 132),
     (QMI_LOC_GET_BLACKLIST_SV_REQ_V02, QMI_IDL_TYPE16 0 0, 0),
     (QMI_LOC_SET_CONSTELLATION_CONTROL_REQ_V02, QMI_IDL_TYPE16 0 260, 26),
     (QMI_LOC_REGISTER_MASTER_CLIENT_REQ_V02, QMI_IDL_TYPE16 0 262, 7),
     (QMI_LOC_START_LISTEN_POSITION_REQ_V02, QMI_IDL_TYPE16 0 265, 0),
     (QMI_LOC_STOP_LISTEN_POSITION_REQ_V02, QMI_IDL_TYPE16 0 266, 0),
     (QMI_LOC_SYSTEM_INFO_REQ_V02, QMI_IDL_TYPE16 0 267, 7),
     (QMI_LOC_GET_CONSTELLATION_CONTROL_REQ_V02, QMI_IDL_TYPE16 0 0, 0),
     (QMI_LOC_ENABLE_POSITION_INJECTION_TEST_MODE_REQ_V02, QMI_IDL_TYPE16 0 270, 4),
     (QMI_LOC_INJECT_TEST_POSITION_REQ_V02, QMI_IDL_TYPE16 0 272, 47),
     (QMI_LOC_GET_BS_OBS_DATA_REQ_V02, QMI_IDL_TYPE16 0 275, 16),
     (QMI_LOC_SET_CONSTRAINED_TUNC_MODE_REQ_V02, QMI_IDL_TYPE16 0 282, 18),
     (QMI_LOC_ENABLE_POSITION_ASSISTED_CLOCK_EST_REQ_V02, QMI_IDL_TYPE16 0 284, 4),
     (QMI_LOC_QUERY_GNSS_ENERGY_CONSUMED_REQ_V02, QMI_IDL_TYPE16 0 286, 0),
     (QMI_LOC_INJECT_PLATFORM_POWER_STATE_REQ_V02, QMI_IDL_TYPE16 0 291, 7),
     (QMI_LOC_SET_ROBUST_LOCATION_CONFIG_REQ_V02, QMI_IDL_TYPE16 0 293, 8),
     (QMI_LOC_GET_ROBUST_LOCATION_CONFIG_REQ_V02, QMI_IDL_TYPE16 0 0, 0),
     (QMI_LOC_INJECT_ENV_AIDING_REQ_V02, QMI_IDL_TYPE16 0 295, 3816),
     (QMI_LOC_SET_MIN_GPS_WEEK_NUMBER_REQ_V02, QMI_IDL_TYPE16 0 296, 5),
     (QMI_LOC_GET_MIN_GPS_WEEK_NUMBER_REQ_V02, QMI_IDL_TYPE16 0 0, 0),
     (QMI_LOC_SET_PARAMETER_REQ_V02, QMI_IDL_TYPE16 0 300, 11),
     (QMI_LOC_GET_PARAMETER_REQ_V02, QMI_IDL_TYPE16 0 301, 7),
     (QMI_LOC_SET_STATISTICS_CONFIG_REQ_V02, QMI_IDL_TYPE16 0 303, 11),
     (QMI_LOC_GET_STATISTICS_CONFIG_REQ_V02, QMI_IDL_TYPE16 0 0, 0),
     (QMI_LOC_SET_GNSS_PDR_MODE_REQ_V02, QMI_IDL_TYPE16 0 306, 7),
     (QMI_LOC_GET_GNSS_PDR_MODE_REQ_V02, QMI_IDL_TYPE16 0 0, 0),
     (QMI_LOC_GET_MAG_CAL_STATE_PDR_REQ_V02, QMI_IDL_TYPE16 0 0, 0),
     (QMI_LOC_SET_MULTIBAND_CONFIG_REQ_V02, QMI_IDL_TYPE16 0 309, 11),
     (QMI_LOC_GET_MULTIBAND_CONFIG_REQ_V02, QMI_IDL_TYPE16 0 0, 0)]"

definition loc_service_response_messages_v02 :: "qmi_idl_service_message_table_entry list" where
  "loc_service_response_messages_v02 =
    [(QMI_LOC_GET_SUPPORTED_MSGS_RESP_V02, QMI_IDL_TYPE16 1 1, 8204),
     (QMI_LOC_GET_SUPPORTED_FIELDS_RESP_V02, QMI_IDL_TYPE16 1 3, 115),
     (QMI_LOC_INFORM_CLIENT_REVISION_RESP_V02, QMI_IDL_TYPE16 0 1, 7),
     (QMI_LOC_REG_EVENTS_RESP_V02, QMI_IDL_TYPE16 0 1, 7),
     (QMI_LOC_START_RESP_V02, QMI_IDL_TYPE16 0 1, 7),
     (QMI_LOC_STOP_RESP_V02, QMI_IDL_TYPE16 0 1, 7),
     (QMI_LOC_GET_SERVICE_REVISION_RESP_V02, QMI_IDL_TYPE16 0 1, 7),
     (QMI_LOC_GET_FIX_CRITERIA_RESP_V02, QMI_IDL_TYPE16 0 1, 7),
     (QMI_LOC_NI_USER_RESPONSE_RESP_V02, QMI_IDL_TYPE16 0 1, 7),
     (QMI_LOC_INJECT_PREDICTED_ORBITS_DATA_RESP_V02, QMI_IDL_TYPE16 0 1, 7),
     (QMI_LOC_GET_PREDICTED_ORBITS_DATA_SOURCE_RESP_V02, QMI_IDL_TYPE16 0 1, 7),
     (QMI_LOC_GET_PREDICTED_ORBITS_DATA_VALIDITY_RESP_V02, QMI_IDL_TYPE16 0 1, 7),
     (QMI_LOC_INJECT_UTC_TIME_RESP_V02, QMI_IDL_TYPE16 0 1, 7),
     (QMI_LOC_INJECT_POSITION_RESP_V02, QMI_IDL_TYPE16 0 1, 7),
     (QMI_LOC_SET_ENGINE_LOCK_RESP_V02, QMI_IDL_TYPE16 0 1, 7),
     (QMI_LOC_GET_ENGINE_LOCK_RESP_V02, QMI_IDL_TYPE16 0 1, 7),
     (QMI_LOC_SET_SBAS_CONFIG_RESP_V02, QMI_IDL_TYPE16 0 1, 7),
     (QMI_LOC_GET_SBAS_CONFIG_RESP_V02, QMI_IDL_TYPE16 0 1, 7),
     (QMI_LOC_SET_NMEA_TYPES_RESP_V02, QMI_IDL_TYPE16 0 1, 7),
     (QMI_LOC_GET_NMEA_TYPES_RESP_V02, QMI_IDL_TYPE16 0 1, 7),
     (QMI_LOC_SET_LOW_POWER_MODE_RESP_V02, QMI_IDL_TYPE16 0 1, 7),
     (QMI_LOC_GET_LOW_POWER_MODE_RESP_V02, QMI_IDL_TYPE16 0 1, 7),
     (QMI_LOC_SET_SERVER_RESP_V02, QMI_IDL_TYPE16 0 1, 7),
     (QMI_LOC_GET_SERVER_RESP_V02, QMI_IDL_TYPE16 0 1, 7),
     (QMI_LOC_DELETE_ASSIST_DATA_RESP_V02, QMI_IDL_TYPE16 0 1, 7),
     (QMI_LOC_SET_XTRA_T_SESSION_CONTROL_RESP_V02, QMI_IDL_TYPE16 0 1, 7),
     (QMI_LOC_GET_XTRA_T_SESSION_CONTROL_RESP_V02, QMI_IDL_TYPE16 0 1, 7),
     (QMI_LOC_INJECT_WIFI_POSITION_RESP_V02, QMI_IDL_TYPE16 0 1, 7),
     (QMI_LOC_NOTIFY_WIFI_STATUS_RESP_V02, QMI_IDL_TYPE16 0 1, 7),
     (QMI_LOC_GET_REGISTERED_EVENTS_RESP_V02, QMI_IDL_TYPE16 0 1, 7),
     (QMI_LOC_SET_OPERATION_MODE_RESP_V02, QMI_IDL_TYPE16 0 1, 7),
     (QMI_LOC_GET_OPERATION_MODE_RESP_V02, QMI_IDL_TYPE16 0 1, 7),
     (QMI_LOC_SET_SPI_STATUS_RESP_V02, QMI_IDL_TYPE16 0 1, 7),
     (QMI_LOC_INJECT_SENSOR_DATA_RESP_V02, QMI_IDL_TYPE16 0 1, 7),
     (QMI_LOC_INJECT_TIME_SYNC_DATA_RESP_V02, QMI_IDL_TYPE16 0 1, 7),
     (QMI_LOC_SET_CRADLE_MOUNT_CONFIG_RESP_V02, QMI_IDL_TYPE16 0 1, 7),
     (QMI_LOC_GET_CRADLE_MOUNT_CONFIG_RESP_V02, QMI_IDL_TYPE16 0 1, 7),
     (QMI_LOC_SET_EXTERNAL_POWER_CONFIG_RESP_V02, QMI_IDL_TYPE16 0 1, 7),
     (QMI_LOC_GET_EXTERNAL_POWER_CONFIG_RESP_V02, QMI_IDL_TYPE16 0 1, 7),
     (QMI_LOC_INFORM_LOCATION_SERVER_CONN_STATUS_RESP_V02, QMI_IDL_TYPE16 0 1, 7),
     (QMI_LOC_SET_PROTOCOL_CONFIG_PARAMETERS_RESP_V02, QMI_IDL_TYPE16 0 1, 7),
     (QMI_LOC_GET_PROTOCOL_CONFIG_PARAMETERS_RESP_V02, QMI_IDL_TYPE16 0 1, 7),
     (QMI_LOC_SET_SENSOR_CONTROL_CONFIG_RESP_V02, QMI_IDL_TYPE16 0 1, 7),
     (QMI_LOC_GET_SENSOR_CONTROL_CONFIG_RESP_V02, QMI_IDL_TYPE16 0 1, 7),
     (QMI_LOC_SET_SENSOR_PROPERTIES_RESP_V02, QMI_IDL_TYPE16 0 1, 7),
     (QMI_LOC_GET_SENSOR_PROPERTIES_RESP_V02, QMI_IDL_TYPE16 0 1, 7),
     (QMI_LOC_SET_SENSOR_PERFORMANCE_CONTROL_CONFIGURATION_RESP_V02, QMI_IDL_TYPE16 0 1, 7),
     (QMI_LOC_GET_SENSOR_PERFORMANCE_CONTROL_CONFIGURATION_RESP_V02, QMI_IDL_TYPE16 0 1, 7),
     (QMI_LOC_INJECT_SUPL_CERTIFICATE_RESP_V02, QMI_IDL_TYPE16 0 1, 7),
     (QMI_LOC_DELETE_SUPL_CERTIFICATE_RESP_V02, QMI_IDL_TYPE16 0 1, 7),
     (QMI_LOC_SET_POSITION_ENGINE_CONFIG_PARAMETERS_RESP_V02, QMI_IDL_TYPE16 0 1, 7),
     (QMI_LOC_GET_POSITION_ENGINE_CONFIG_PARAMETERS_RESP_V02, QMI_IDL_TYPE16 0 1, 7),
     (QMI_LOC_ADD_CIRCULAR_GEOFENCE_RESP_V02, QMI_IDL_TYPE16 0 1, 7),
     (QMI_LOC_DELETE_GEOFENCE_RESP_V02, QMI_IDL_TYPE16 0 1, 7),
     (QMI_LOC_QUERY_GEOFENCE_RESP_V02, QMI_IDL_TYPE16 0 1, 7),
     (QMI_LOC_EDIT_GEOFENCE_RESP_V02, QMI_IDL_TYPE16 0 1, 7),
     (QMI_LOC_GET_BEST_AVAILABLE_POSITION_RESP_V02, QMI_IDL_TYPE16 0 1, 7),
     (QMI_LOC_INJECT_MOTION_DATA_RESP_V02, QMI_IDL_TYPE16 0 1, 7),
     (QMI_LOC_GET_NI_GEOFENCE_ID_LIST_RESP_V02, QMI_IDL_TYPE16 0 1, 7),
     (QMI_LOC_INJECT_GSM_CELL_INFO_RESP_V02, QMI_IDL_TYPE16 0 1, 7),
     (QMI_LOC_INJECT_NETWORK_INITIATED_MESSAGE_RESP_V02, QMI_IDL_TYPE16 0 1, 7),
     (QMI_LOC_WWAN_OUT_OF_SERVICE_NOTIFICATION_RESP_V02, QMI_IDL_TYPE16 0 1, 7),
     (QMI_LOC_PEDOMETER_REPORT_RESP_V02, QMI_IDL_TYPE16 0 1, 7),
     (QMI_LOC_INJECT_WCDMA_CELL_INFO_RESP_V02, QMI_IDL_TYPE16 0 1, 7),
     (QMI_LOC_INJECT_TDSCDMA_CELL_INFO_RESP_V02, QMI_IDL_TYPE16 0 1, 7),
     (QMI_LOC_INJECT_SUBSCRIBER_ID_RESP_V02, QMI_IDL_TYPE16 0 1, 7),
     (QMI_LOC_SET_GEOFENCE_ENGINE_CONFIG_RESP_V02, QMI_IDL_TYPE16 0 1, 7),
     (QMI_LOC_GET_GEOFENCE_ENGINE_CONFIG_RESP_V02, QMI_IDL_TYPE16 0 1, 7),
     (QMI_LOC_GET_BATCH_SIZE_RESP_V02, QMI_IDL_TYPE16 0 1, 7),
     (QMI_LOC_START_BATCHING_RESP_V02, QMI_IDL_TYPE16 0 1, 7),
     (QMI_LOC_READ_FROM_BATCH_RESP_V02, QMI_IDL_TYPE16 0 1, 7),
     (QMI_LOC_STOP_BATCHING_RESP_V02, QMI_IDL_TYPE16 0 1, 7),
     (QMI_LOC_RELEASE_BATCH_RESP_V02, QMI_IDL_TYPE16 0 1, 7),
     (QMI_LOC_INJECT_WIFI_AP_DATA_RESP_V02, QMI_IDL_TYPE16 0 1, 7),
     (QMI_LOC_NOTIFY_WIFI_ATTACHMENT_STATUS_RESP_V02, QMI_IDL_TYPE16 0 1, 7),
     (QMI_LOC_NOTIFY_WIFI_ENABLED_STATUS_RESP_V02, QMI_IDL_TYPE16 0 1, 7),
     (QMI_LOC_INJECT_VEHICLE_SENSOR_DATA_RESP_V02, QMI_IDL_TYPE16 0 1, 7),
     (QMI_LOC_GET_AVAILABLE_WWAN_POSITION_RESP_V02, QMI_IDL_TYPE16 0 1, 7),
     (QMI_LOC_SET_PREMIUM_SERVICES_CONFIG_RESP_V02, QMI_IDL_TYPE16 0 1, 7),
     (QMI_LOC_SET_XTRA_VERSION_CHECK_RESP_V02, QMI_IDL_TYPE16 0 1, 7),
     (QMI_LOC_SET_GNSS_CONSTELL_REPORT_CONFIG_RESP_V02, QMI_IDL_TYPE16 0 1, 7),
     (QMI_LOC_ADD_GEOFENCE_CONTEXT_RESP_V02, QMI_IDL_TYPE16 0 1, 7),
     (QMI_LOC_SET_GEOFENCE_ENGINE_CONTEXT_RESP_V02, QMI_IDL_TYPE16 0 1, 7),
     (QMI_LOC_DELETE_GEOFENCE_CONTEXT_RESP_V02, QMI_IDL_TYPE16 0 1, 7),
     (QMI_LOC_INJECT_GTP_CLIENT_DOWNLOADED_DATA_RESP_V02, QMI_IDL_TYPE16 0 1, 7),
     (QMI_LOC_GDT_UPLOAD_BEGIN_STATUS_RESP_V02, QMI_IDL_TYPE16 0 1, 7),
     (QMI_LOC_GDT_UPLOAD_END_RESP_V02, QMI_IDL_TYPE16 0 1, 7),
     (QMI_LOC_START_DBT_RESP_V02, QMI_IDL_TYPE16 0 1, 7),
     (QMI_LOC_STOP_DBT_RESP_V02, QMI_IDL_TYPE16 0 1, 7),
     (QMI_LOC_SECURE_GET_AVAILABLE_POSITION_RESP_V02, QMI_IDL_TYPE16 0 1, 7),
     (QMI_LOC_INJECT_TIME_ZONE_INFO_RESP_V02, QMI_IDL_TYPE16 0 1, 7),
     (QMI_LOC_INJECT_APCACHE_DATA_RESP_V02, QMI_IDL_TYPE16 0 1, 7),
     (QMI_LOC_INJECT_APDONOTCACHE_DATA_RESP_V02, QMI_IDL_TYPE16 0 1, 7),
     (QMI_LOC_QUERY_AON_CONFIG_RESP_V02, QMI_IDL_TYPE16 0 1, 7),
     (QMI_LOC_GTP_AP_STATUS_RESP_V02, QMI_IDL_TYPE16 0 1, 7),
     (QMI_LOC_GDT_DOWNLOAD_BEGIN_STATUS_RESP_V02, QMI_IDL_TYPE16 0 1, 7),
     (QMI_LOC_GDT_DOWNLOAD_READY_STATUS_RESP_V02, QMI_IDL_TYPE16 0 1, 7),
     (QMI_LOC_GDT_RECEIVE_DONE_STATUS_RESP_V02, QMI_IDL_TYPE16 0 1, 7),
     (QMI_LOC_GDT_DOWNLOAD_END_STATUS_RESP_V02, QMI_IDL_TYPE16 0 1, 7),
     (QMI_LOC_DELETE_GNSS_SERVICE_DATA_RESP_V02, QMI_IDL_TYPE16 0 1, 7),
     (QMI_LOC_INJECT_XTRA_DATA_RESP_V02, QMI_IDL_TYPE16 0 1, 7),
     (QMI_LOC_INJECT_XTRA_PCID_RESP_V02, QMI_IDL_TYPE16 0 1, 7),
     (QMI_LOC_GET_SUPPORTED_FEATURE_RESP_V02, QMI_IDL_TYPE16 0 1, 7),
     (QMI_LOC_SET_INTERNAL_STATUS_CONFIG_RESP_V02, QMI_IDL_TYPE16 0 1, 7),
     (QMI_LOC_INJECT_SRN_AP_DATA_RESP_V02, QMI_IDL_TYPE16 0 1, 7),
     (QMI_LOC_CROWDSOURCE_MANAGER_CONTROL_RESP_V02, QMI_IDL_TYPE16 0 1, 7),
     (QMI_LOC_CROWDSOURCE_MANAGER_READ_DATA_RESP_V02, QMI_IDL_TYPE16 0 1, 7),
     (QMI_LOC_QUERY_XTRA_INFO_RESP_V02, QMI_IDL_TYPE16 0 1, 7),
     (QMI_LOC_START_OUTDOOR_TRIP_BATCHING_RESP_V02, QMI_IDL_TYPE16 0 1, 7),
     (QMI_LOC_QUERY_OTB_ACCUMULATED_DISTANCE_RESP_V02, QMI_IDL_TYPE16 0 1, 7),
     (QMI_LOC_GET_FDCL_BS_LIST_RESP_V02, QMI_IDL_TYPE16 0 1, 7),
     (QMI_LOC_INJECT_FDCL_DATA_RESP_V02, QMI_IDL_TYPE16 0 1, 7),
     (QMI_LOC_SET_BLACKLIST_SV_RESP_V02, QMI_IDL_TYPE16 0 1, 7),
     (QMI_LOC_GET_BLACKLIST_SV_RESP_V02, QMI_IDL_TYPE16 0 1, 7),
     (QMI_LOC_SET_CONSTELLATION_CONTROL_RESP_V02, QMI_IDL_TYPE16 0 1, 7),
     (QMI_LOC_REGISTER_MASTER_CLIENT_RESP_V02, QMI_IDL_TYPE16 0 1, 7),
     (QMI_LOC_START_LISTEN_POSITION_RESP_V02, QMI_IDL_TYPE16 0 1, 7),
     (QMI_LOC_STOP_LISTEN_POSITION_RESP_V02, QMI_IDL_TYPE16 0 1, 7),
     (QMI_LOC_SYSTEM_INFO_RESP_V02, QMI_IDL_TYPE16 0 1, 7),
     (QMI_LOC_GET_CONSTELLATION_CONTROL_RESP_V02, QMI_IDL_TYPE16 0 1, 7),
     (QMI_LOC_ENABLE_POSITION_INJECTION_TEST_MODE_RESP_V02, QMI_IDL_TYPE16 0 1, 7),
     (QMI_LOC_INJECT_TEST_POSITION_RESP_V02, QMI_IDL_TYPE16 0 1, 7),
     (QMI_LOC_GET_BS_OBS_DATA_RESP_V02, QMI_IDL_TYPE16 0 1, 7),
     (QMI_LOC_SET_CONSTRAINED_TUNC_MODE_RESP_V02, QMI_IDL_TYPE16 0 1, 7),
     (QMI_LOC_ENABLE_POSITION_ASSISTED_CLOCK_EST_RESP_V02, QMI_IDL_TYPE16 0 1, 7),
     (QMI_LOC_QUERY_GNSS_ENERGY_CONSUMED_RESP_V02, QMI_IDL_TYPE16 0 1, 7),
     (QMI_LOC_INJECT_PLATFORM_POWER_STATE_RESP_V02, QMI_IDL_TYPE16 0 1, 7),
     (QMI_LOC_SET_ROBUST_LOCATION_CONFIG_RESP_V02, QMI_IDL_TYPE16 0 1, 7),
     (QMI_LOC_GET_ROBUST_LOCATION_CONFIG_RESP_V02, QMI_IDL_TYPE16 0 1, 7),
     (QMI_LOC_INJECT_ENV_AIDING_RESP_V02, QMI_IDL_TYPE16 0 1, 7),
     (QMI_LOC_SET_MIN_GPS_WEEK_NUMBER_RESP_V02, QMI_IDL_TYPE16 0 1, 7),
     (QMI_LOC_GET_MIN_GPS_WEEK_NUMBER_RESP_V02, QMI_IDL_TYPE16 0 1, 7),
     (QMI_LOC_SET_PARAMETER_RESP_V02, QMI_IDL_TYPE16 0 1, 7),
     (QMI_LOC_GET_PARAMETER_RESP_V02, QMI_IDL_TYPE16 0 1, 7),
     (QMI_LOC_SET_STATISTICS_CONFIG_RESP_V02, QMI_IDL_TYPE16 0 1, 7),
     (QMI_LOC_GET_STATISTICS_CONFIG_RESP_V02, QMI_IDL_TYPE16 0 1, 7),
     (QMI_LOC_SET_GNSS_PDR_MODE_RESP_V02, QMI_IDL_TYPE16 0 1, 7),
     (QMI_LOC_GET_GNSS_PDR_MODE_RESP_V02, QMI_IDL_TYPE16 0 1, 7),
     (QMI_LOC_GET_MAG_CAL_STATE_PDR_RESP_V02, QMI_IDL_TYPE16 0 1, 7),
     (QMI_LOC_SET_MULTIBAND_CONFIG_RESP_V02, QMI_IDL_TYPE16 0 1, 7),
     (QMI_LOC_GET_MULTIBAND_CONFIG_RESP_V02, QMI_IDL_TYPE16 0 1, 7)]"

definition loc_service_indication_messages_v02_1 :: "qmi_idl_service_message_table_entry list" where
  "loc_service_indication_messages_v02_1 =
    [(QMI_LOC_EVENT_POSITION_REPORT_IND_V02, QMI_IDL_TYPE16 0 7, 2488),
     (QMI_LOC_EVENT_GNSS_SV_INFO_IND_V02, QMI_IDL_TYPE16 0 8, 9476),
     (QMI_LOC_EVENT_NMEA_IND_V02, QMI_IDL_TYPE16 0 9, 4301),
     (QMI_LOC_EVENT_NI_NOTIFY_VERIFY_REQ_IND_V02, QMI_IDL_TYPE16 0 10, 1342),
     (QMI_LOC_EVENT_INJECT_TIME_REQ_IND_V02, QMI_IDL_TYPE16 0 11, 776),
     (QMI_LOC_EVENT_INJECT_PREDICTED_ORBITS_REQ_IND_V02, QMI_IDL_TYPE16 0 12, 808),
     (QMI_LOC_EVENT_INJECT_POSITION_REQ_IND_V02, QMI_IDL_TYPE16 0 13, 40),
     (QMI_LOC_EVENT_ENGINE_STATE_IND_V02, QMI_IDL_TYPE16 0 14, 7),
     (QMI_LOC_EVENT_FIX_SESSION_STATE_IND_V02, QMI_IDL_TYPE16 0 15, 11),
     (QMI_LOC_EVENT_WIFI_REQ_IND_V02, QMI_IDL_TYPE16 0 16, 16),
     (QMI_LOC_EVENT_SENSOR_STREAMING_READY_STATUS_IND_V02, QMI_IDL_TYPE16 0 17, 48),
     (QMI_LOC_EVENT_TIME_SYNC_REQ_IND_V02, QMI_IDL_TYPE16 0 18, 7),
     (QMI_LOC_EVENT_SET_SPI_STREAMING_REPORT_IND_V02, QMI_IDL_TYPE16 0 19, 4),
     (QMI_LOC_EVENT_LOCATION_SERVER_CONNECTION_REQ_IND_V02, QMI_IDL_TYPE16 0 20, 46),
     (QMI_LOC_GET_SERVICE_REVISION_IND_V02, QMI_IDL_TYPE16 0 35, 532),
     (QMI_LOC_GET_FIX_CRITERIA_IND_V02, QMI_IDL_TYPE16 0 37, 135),
     (QMI_LOC_NI_USER_RESPONSE_IND_V02, QMI_IDL_TYPE16 0 39, 7),
     (QMI_LOC_INJECT_PREDICTED_ORBITS_DATA_IND_V02, QMI_IDL_TYPE16 0 41, 12),
     (QMI_LOC_GET_PREDICTED_ORBITS_DATA_SOURCE_IND_V02, QMI_IDL_TYPE16 0 43, 790),
     (QMI_LOC_GET_PREDICTED_ORBITS_DATA_VALIDITY_IND_V02, QMI_IDL_TYPE16 0 45, 20),
     (QMI_LOC_INJECT_UTC_TIME_IND_V02, QMI_IDL_TYPE16 0 47, 7),
     (QMI_LOC_INJECT_POSITION_IND_V02, QMI_IDL_TYPE16 0 49, 7),
     (QMI_LOC_SET_ENGINE_LOCK_IND_V02, QMI_IDL_TYPE16 0 51, 7),
     (QMI_LOC_GET_ENGINE_LOCK_IND_V02, QMI_IDL_TYPE16 0 53, 32),
     (QMI_LOC_SET_SBAS_CONFIG_IND_V02, QMI_IDL_TYPE16 0 55, 7),
     (QMI_LOC_GET_SBAS_CONFIG_IND_V02, QMI_IDL_TYPE16 0 57, 11),
     (QMI_LOC_SET_NMEA_TYPES_IND_V02, QMI_IDL_TYPE16 0 59, 7),
     (QMI_LOC_GET_NMEA_TYPES_IND_V02, QMI_IDL_TYPE16 0 61, 14),
     (QMI_LOC_SET_LOW_POWER_MODE_IND_V02, QMI_IDL_TYPE16 0 63, 7),
     (QMI_LOC_GET_LOW_POWER_MODE_IND_V02, QMI_IDL_TYPE16 0 65, 11),
     (QMI_LOC_SET_SERVER_IND_V02, QMI_IDL_TYPE16 0 67, 7),
     (QMI_LOC_GET_SERVER_IND_V02, QMI_IDL_TYPE16 0 69, 304),
     (QMI_LOC_DELETE_ASSIST_DATA_IND_V02, QMI_IDL_TYPE16 0 71, 7),
     (QMI_LOC_SET_XTRA_T_SESSION_CONTROL_IND_V02, QMI_IDL_TYPE16 0 73, 7),
     (QMI_LOC_GET_XTRA_T_SESSION_CONTROL_IND_V02, QMI_IDL_TYPE16 0 75, 11),
     (QMI_LOC_INJECT_WIFI_POSITION_IND_V02, QMI_IDL_TYPE16 0 77, 7),
     (QMI_LOC_NOTIFY_WIFI_STATUS_IND_V02, QMI_IDL_TYPE16 0 79, 7),
     (QMI_LOC_GET_REGISTERED_EVENTS_IND_V02, QMI_IDL_TYPE16 0 81, 18),
     (QMI_LOC_SET_OPERATION_MODE_IND_V02, QMI_IDL_TYPE16 0 83, 7),
     (QMI_LOC_GET_OPERATION_MODE_IND_V02, QMI_IDL_TYPE16 0 85, 14),
     (QMI_LOC_SET_SPI_STATUS_IND_V02, QMI_IDL_TYPE16 0 87, 7),
     (QMI_LOC_INJECT_SENSOR_DATA_IND_V02, QMI_IDL_TYPE16 0 89, 34),
     (QMI_LOC_INJECT_TIME_SYNC_DATA_IND_V02, QMI_IDL_TYPE16 0 91, 7),
     (QMI_LOC_SET_CRADLE_MOUNT_CONFIG_IND_V02, QMI_IDL_TYPE16 0 95, 7),
     (QMI_LOC_GET_CRADLE_MOUNT_CONFIG_IND_V02, QMI_IDL_TYPE16 0 93, 18),
     (QMI_LOC_SET_EXTERNAL_POWER_CONFIG_IND_V02, QMI_IDL_TYPE16 0 99, 7),
     (QMI_LOC_GET_EXTERNAL_POWER_CONFIG_IND_V02, QMI_IDL_TYPE16 0 97, 14),
     (QMI_LOC_INFORM_LOCATION_SERVER_CONN_STATUS_IND_V02, QMI_IDL_TYPE16 0 101, 7),
     (QMI_LOC_SET_PROTOCOL_CONFIG_PARAMETERS_IND_V02, QMI_IDL_TYPE16 0 103, 18),
     (QMI_LOC_GET_PROTOCOL_CONFIG_PARAMETERS_IND_V02, QMI_IDL_TYPE16 0 105, 93),
     (QMI_LOC_SET_SENSOR_CONTROL_CONFIG_IND_V02, QMI_IDL_TYPE16 0 107, 7),
     (QMI_LOC_GET_SENSOR_CONTROL_CONFIG_IND_V02, QMI_IDL_TYPE16 0 109, 21),
     (QMI_LOC_SET_SENSOR_PROPERTIES_IND_V02, QMI_IDL_TYPE16 0 111, 14),
     (QMI_LOC_GET_SENSOR_PROPERTIES_IND_V02, QMI_IDL_TYPE16 0 113, 95),
     (QMI_LOC_SET_SENSOR_PERFORMANCE_CONTROL_CONFIGURATION_IND_V02, QMI_IDL_TYPE16 0 115, 14),
     (QMI_LOC_GET_SENSOR_PERFORMANCE_CONTROL_CONFIGURATION_IND_V02, QMI_IDL_TYPE16 0 117, 49),
     (QMI_LOC_INJECT_SUPL_CERTIFICATE_IND_V02, QMI_IDL_TYPE16 0 119, 7),
     (QMI_LOC_DELETE_SUPL_CERTIFICATE_IND_V02, QMI_IDL_TYPE16 0 121, 7),
     (QMI_LOC_SET_POSITION_ENGINE_CONFIG_PARAMETERS_IND_V02, QMI_IDL_TYPE16 0 123, 14),
     (QMI_LOC_GET_POSITION_ENGINE_CONFIG_PARAMETERS_IND_V02, QMI_IDL_TYPE16 0 125, 23),
     (QMI_LOC_EVENT_NI_GEOFENCE_NOTIFICATION_IND_V02, QMI_IDL_TYPE16 0 21, 14),
     (QMI_LOC_EVENT_GEOFENCE_GEN_ALERT_IND_V02, QMI_IDL_TYPE16 0 22, 7),
     (QMI_LOC_EVENT_GEOFENCE_BREACH_NOTIFICATION_IND_V02, QMI_IDL_TYPE16 0 23, 85),
     (QMI_LOC_ADD_CIRCULAR_GEOFENCE_IND_V02, QMI_IDL_TYPE16 0 127, 21),
     (QMI_LOC_DELETE_GEOFENCE_IND_V02, QMI_IDL_TYPE16 0 129, 21),
     (QMI_LOC_QUERY_GEOFENCE_IND_V02, QMI_IDL_TYPE16 0 131, 65),
     (QMI_LOC_EDIT_GEOFENCE_IND_V02, QMI_IDL_TYPE16 0 137, 28),
     (QMI_LOC_GET_BEST_AVAILABLE_POSITION_IND_V02, QMI_IDL_TYPE16 0 142, 2193),
     (QMI_LOC_INJECT_MOTION_DATA_IND_V02, QMI_IDL_TYPE16 0 144, 7),
     (QMI_LOC_GET_NI_GEOFENCE_ID_LIST_IND_V02, QMI_IDL_TYPE16 0 146, 82),
     (QMI_LOC_INJECT_GSM_CELL_INFO_IND_V02, QMI_IDL_TYPE16 0 148, 7),
     (QMI_LOC_INJECT_NETWORK_INITIATED_MESSAGE_IND_V02, QMI_IDL_TYPE16 0 156, 7),
     (QMI_LOC_WWAN_OUT_OF_SERVICE_NOTIFICATION_IND_V02, QMI_IDL_TYPE16 0 158, 7),
     (QMI_LOC_EVENT_PEDOMETER_CONTROL_IND_V02, QMI_IDL_TYPE16 0 24, 15),
     (QMI_LOC_EVENT_MOTION_DATA_CONTROL_IND_V02, QMI_IDL_TYPE16 0 25, 4),
     (QMI_LOC_PEDOMETER_REPORT_IND_V02, QMI_IDL_TYPE16 0 160, 7),
     (QMI_LOC_INJECT_WCDMA_CELL_INFO_IND_V02, QMI_IDL_TYPE16 0 150, 7),
     (QMI_LOC_INJECT_TDSCDMA_CELL_INFO_IND_V02, QMI_IDL_TYPE16 0 152, 7),
     (QMI_LOC_INJECT_SUBSCRIBER_ID_IND_V02, QMI_IDL_TYPE16 0 154, 7),
     (QMI_LOC_SET_GEOFENCE_ENGINE_CONFIG_IND_V02, QMI_IDL_TYPE16 0 133, 14),
     (QMI_LOC_GET_GEOFENCE_ENGINE_CONFIG_IND_V02, QMI_IDL_TYPE16 0 135, 39),
     (QMI_LOC_GET_BATCH_SIZE_IND_V02, QMI_IDL_TYPE16 0 162, 21),
     (QMI_LOC_START_BATCHING_IND_V02, QMI_IDL_TYPE16 0 164, 14),
     (QMI_LOC_EVENT_BATCH_FULL_NOTIFICATION_IND_V02, QMI_IDL_TYPE16 0 165, 28),
     (QMI_LOC_EVENT_LIVE_BATCHED_POSITION_REPORT_IND_V02, QMI_IDL_TYPE16 0 166, 90),
     (QMI_LOC_READ_FROM_BATCH_IND_V02, QMI_IDL_TYPE16 0 168, 460),
     (QMI_LOC_STOP_BATCHING_IND_V02, QMI_IDL_TYPE16 0 170, 21),
     (QMI_LOC_RELEASE_BATCH_IND_V02, QMI_IDL_TYPE16 0 172, 14),
     (QMI_LOC_EVENT_INJECT_WIFI_AP_DATA_REQ_IND_V02, QMI_IDL_TYPE16 0 173, 4),
     (QMI_LOC_INJECT_WIFI_AP_DATA_IND_V02, QMI_IDL_TYPE16 0 175, 7),
     (QMI_LOC_NOTIFY_WIFI_ATTACHMENT_STATUS_IND_V02, QMI_IDL_TYPE16 0 177, 7),
     (QMI_LOC_NOTIFY_WIFI_ENABLED_STATUS_IND_V02, QMI_IDL_TYPE16 0 179, 7),
     (QMI_LOC_EVENT_GEOFENCE_BATCHED_BREACH_NOTIFICATION_IND_V02, QMI_IDL_TYPE16 0 26, 3045),
     (QMI_LOC_EVENT_VEHICLE_DATA_READY_STATUS_IND_V02, QMI_IDL_TYPE16 0 180, 12),
     (QMI_LOC_INJECT_VEHICLE_SENSOR_DATA_IND_V02, QMI_IDL_TYPE16 0 182, 7),
     (QMI_LOC_GET_AVAILABLE_WWAN_POSITION_IND_V02, QMI_IDL_TYPE16 0 184, 145),
     (QMI_LOC_SET_PREMIUM_SERVICES_CONFIG_IND_V02, QMI_IDL_TYPE16 0 186, 7),
     (QMI_LOC_SET_XTRA_VERSION_CHECK_IND_V02, QMI_IDL_TYPE16 0 188, 7),
     (QMI_LOC_EVENT_GNSS_MEASUREMENT_REPORT_IND_V02, QMI_IDL_TYPE16 0 191, 3151),
     (QMI_LOC_EVENT_SV_POLYNOMIAL_REPORT_IND_V02, QMI_IDL_TYPE16 0 192, 441)]"

definition loc_service_indication_messages_v02_2 :: "qmi_idl_service_message_table_entry list" where
  "loc_service_indication_messages_v02_2 =
    [(QMI_LOC_SET_GNSS_CONSTELL_REPORT_CONFIG_IND_V02, QMI_IDL_TYPE16 0 190, 7),
     (QMI_LOC_ADD_GEOFENCE_CONTEXT_IND_V02, QMI_IDL_TYPE16 0 194, 28),
     (QMI_LOC_SET_GEOFENCE_ENGINE_CONTEXT_IND_V02, QMI_IDL_TYPE16 0 196, 14),
     (QMI_LOC_DELETE_GEOFENCE_CONTEXT_IND_V02, QMI_IDL_TYPE16 0 198, 28),
     (QMI_LOC_EVENT_GEOFENCE_PROXIMITY_NOTIFICATION_IND_V02, QMI_IDL_TYPE16 0 27, 21),
     (QMI_LOC_INJECT_GTP_CLIENT_DOWNLOADED_DATA_IND_V02, QMI_IDL_TYPE16 0 200, 7),
     (QMI_LOC_GDT_UPLOAD_BEGIN_STATUS_IND_V02, QMI_IDL_TYPE16 0 202, 7),
     (QMI_LOC_GDT_UPLOAD_END_IND_V02, QMI_IDL_TYPE16 0 204, 7),
     (QMI_LOC_EVENT_GDT_UPLOAD_BEGIN_STATUS_REQ_IND_V02, QMI_IDL_TYPE16 0 29, 273),
     (QMI_LOC_EVENT_GDT_UPLOAD_END_REQ_IND_V02, QMI_IDL_TYPE16 0 30, 21),
     (QMI_LOC_START_DBT_IND_V02, QMI_IDL_TYPE16 0 216, 11),
     (QMI_LOC_EVENT_DBT_POSITION_REPORT_IND_V02, QMI_IDL_TYPE16 0 219, 2074),
     (QMI_LOC_EVENT_DBT_SESSION_STATUS_IND_V02, QMI_IDL_TYPE16 0 220, 11),
     (QMI_LOC_STOP_DBT_IND_V02, QMI_IDL_TYPE16 0 218, 11),
     (QMI_LOC_SECURE_GET_AVAILABLE_POSITION_IND_V02, QMI_IDL_TYPE16 0 222, 1043),
     (QMI_LOC_EVENT_GEOFENCE_BATCHED_DWELL_NOTIFICATION_IND_V02, QMI_IDL_TYPE16 0 28, 3038),
     (QMI_LOC_EVENT_GET_TIME_ZONE_INFO_IND_V02, QMI_IDL_TYPE16 0 138, 7),
     (QMI_LOC_INJECT_TIME_ZONE_INFO_IND_V02, QMI_IDL_TYPE16 0 140, 7),
     (QMI_LOC_INJECT_APCACHE_DATA_IND_V02, QMI_IDL_TYPE16 0 224, 70),
     (QMI_LOC_INJECT_APDONOTCACHE_DATA_IND_V02, QMI_IDL_TYPE16 0 226, 7),
     (QMI_LOC_EVENT_BATCHING_STATUS_IND_V02, QMI_IDL_TYPE16 0 227, 7),
     (QMI_LOC_QUERY_AON_CONFIG_IND_V02, QMI_IDL_TYPE16 0 229, 21),
     (QMI_LOC_GTP_AP_STATUS_IND_V02, QMI_IDL_TYPE16 0 206, 18),
     (QMI_LOC_GDT_DOWNLOAD_BEGIN_STATUS_IND_V02, QMI_IDL_TYPE16 0 208, 7),
     (QMI_LOC_GDT_DOWNLOAD_READY_STATUS_IND_V02, QMI_IDL_TYPE16 0 210, 7),
     (QMI_LOC_GDT_RECEIVE_DONE_STATUS_IND_V02, QMI_IDL_TYPE16 0 212, 7),
     (QMI_LOC_GDT_DOWNLOAD_END_STATUS_IND_V02, QMI_IDL_TYPE16 0 214, 7),
     (QMI_LOC_EVENT_GDT_DOWNLOAD_BEGIN_REQ_IND_V02, QMI_IDL_TYPE16 0 31, 5811),
     (QMI_LOC_EVENT_GDT_RECEIVE_DONE_IND_V02, QMI_IDL_TYPE16 0 32, 21),
     (QMI_LOC_EVENT_GDT_DOWNLOAD_END_REQ_IND_V02, QMI_IDL_TYPE16 0 33, 21),
     (QMI_LOC_DELETE_GNSS_SERVICE_DATA_IND_V02, QMI_IDL_TYPE16 0 231, 7),
     (QMI_LOC_INJECT_XTRA_DATA_IND_V02, QMI_IDL_TYPE16 0 233, 23),
     (QMI_LOC_INJECT_XTRA_PCID_IND_V02, QMI_IDL_TYPE16 0 235, 7),
     (QMI_LOC_GET_SUPPORTED_FEATURE_IND_V02, QMI_IDL_TYPE16 0 237, 122),
     (QMI_LOC_SET_INTERNAL_STATUS_CONFIG_IND_V02, QMI_IDL_TYPE16 0 239, 7),
     (QMI_LOC_EVENT_INTERNAL_STATUS_REPORT_IND_V02, QMI_IDL_TYPE16 0 240, 3756),
     (QMI_LOC_EVENT_INJECT_SRN_AP_DATA_REQ_IND_V02, QMI_IDL_TYPE16 0 241, 22),
     (QMI_LOC_INJECT_SRN_AP_DATA_IND_V02, QMI_IDL_TYPE16 0 243, 7),
     (QMI_LOC_CROWDSOURCE_MANAGER_CONTROL_IND_V02, QMI_IDL_TYPE16 0 245, 540),
     (QMI_LOC_QUERY_XTRA_INFO_IND_V02, QMI_IDL_TYPE16 0 248, 1574),
     (QMI_LOC_START_OUTDOOR_TRIP_BATCHING_IND_V02, QMI_IDL_TYPE16 0 250, 7),
     (QMI_LOC_QUERY_OTB_ACCUMULATED_DISTANCE_IND_V02, QMI_IDL_TYPE16 0 252, 21),
     (QMI_LOC_EVENT_FDCL_SERVICE_REQ_IND_V02, QMI_IDL_TYPE16 0 253, 618),
     (QMI_LOC_GET_FDCL_BS_LIST_IND_V02, QMI_IDL_TYPE16 0 255, 2456),
     (QMI_LOC_INJECT_FDCL_DATA_IND_V02, QMI_IDL_TYPE16 0 257, 272),
     (QMI_LOC_SET_BLACKLIST_SV_IND_V02, QMI_IDL_TYPE16 0 2, 7),
     (QMI_LOC_GET_BLACKLIST_SV_IND_V02, QMI_IDL_TYPE16 0 259, 73),
     (QMI_LOC_SET_CONSTELLATION_CONTROL_IND_V02, QMI_IDL_TYPE16 0 2, 7),
     (QMI_LOC_DC_REPORT_IND_V02, QMI_IDL_TYPE16 0 261, 80),
     (QMI_LOC_REGISTER_MASTER_CLIENT_IND_V02, QMI_IDL_TYPE16 0 263, 7),
     (QMI_LOC_EVENT_ENGINE_LOCK_STATE_IND_V02, QMI_IDL_TYPE16 0 264, 25),
     (QMI_LOC_SYSTEM_INFO_IND_V02, QMI_IDL_TYPE16 0 268, 28),
     (QMI_LOC_GET_CONSTELLATION_CONTROL_IND_V02, QMI_IDL_TYPE16 0 269, 49),
     (QMI_LOC_EVENT_UNPROPAGATED_POSITION_REPORT_IND_V02, QMI_IDL_TYPE16 0 7, 2488),
     (QMI_LOC_ENABLE_POSITION_INJECTION_TEST_MODE_IND_V02, QMI_IDL_TYPE16 0 271, 14),
     (QMI_LOC_INJECT_TEST_POSITION_IND_V02, QMI_IDL_TYPE16 0 273, 7),
     (QMI_LOC_EVENT_BS_OBS_DATA_SERVICE_REQ_IND_V02, QMI_IDL_TYPE16 0 274, 5),
     (QMI_LOC_GET_BS_OBS_DATA_IND_V02, QMI_IDL_TYPE16 0 276, 10015),
     (QMI_LOC_EVENT_GPS_EPHEMERIS_REPORT_IND_V02, QMI_IDL_TYPE16 0 277, 1425),
     (QMI_LOC_EVENT_GLONASS_EPHEMERIS_REPORT_IND_V02, QMI_IDL_TYPE16 0 278, 897),
     (QMI_LOC_EVENT_BDS_EPHEMERIS_REPORT_IND_V02, QMI_IDL_TYPE16 0 279, 1457),
     (QMI_LOC_EVENT_GALILEO_EPHEMERIS_REPORT_IND_V02, QMI_IDL_TYPE16 0 280, 1481),
     (QMI_LOC_EVENT_QZSS_EPHEMERIS_REPORT_IND_V02, QMI_IDL_TYPE16 0 281, 1425),
     (QMI_LOC_SET_CONSTRAINED_TUNC_MODE_IND_V02, QMI_IDL_TYPE16 0 283, 7),
     (QMI_LOC_ENABLE_POSITION_ASSISTED_CLOCK_EST_IND_V02, QMI_IDL_TYPE16 0 285, 7),
     (QMI_LOC_QUERY_GNSS_ENERGY_CONSUMED_IND_V02, QMI_IDL_TYPE16 0 287, 22),
     (QMI_LOC_EVENT_REPORT_IND_V02, QMI_IDL_TYPE16 0 288, 97),
     (QMI_LOC_GET_BAND_MEASUREMENT_METRICS_IND_V02, QMI_IDL_TYPE16 0 289, 124),
     (QMI_LOC_LOCATION_REQUEST_NOTIFICATION_IND_V02, QMI_IDL_TYPE16 0 290, 66),
     (QMI_LOC_INJECT_PLATFORM_POWER_STATE_IND_V02, QMI_IDL_TYPE16 0 292, 7),
     (QMI_LOC_SET_ROBUST_LOCATION_CONFIG_IND_V02, QMI_IDL_TYPE16 0 2, 7),
     (QMI_LOC_GET_ROBUST_LOCATION_CONFIG_IND_V02, QMI_IDL_TYPE16 0 294, 21),
     (QMI_LOC_INJECT_ENV_AIDING_IND_V02, QMI_IDL_TYPE16 0 2, 7),
     (QMI_LOC_SET_MIN_GPS_WEEK_NUMBER_IND_V02, QMI_IDL_TYPE16 0 2, 7),
     (QMI_LOC_GET_MIN_GPS_WEEK_NUMBER_IND_V02, QMI_IDL_TYPE16 0 297, 12),
     (QMI_LOC_EVENT_QUERY_XTRA_INFO_REQ_IND_V02, QMI_IDL_TYPE16 0 299, 0),
     (QMI_LOC_SET_PARAMETER_IND_V02, QMI_IDL_TYPE16 0 2, 7),
     (QMI_LOC_GET_PARAMETER_IND_V02, QMI_IDL_TYPE16 0 302, 18),
     (QMI_LOC_SET_STATISTICS_CONFIG_IND_V02, QMI_IDL_TYPE16 0 2, 7),
     (QMI_LOC_GET_STATISTICS_CONFIG_IND_V02, QMI_IDL_TYPE16 0 304, 18),
     (QMI_LOC_GNSS_STATISTICS_REPORT_IND_V02, QMI_IDL_TYPE16 0 305, 161),
     (QMI_LOC_SET_GNSS_PDR_MODE_IND_V02, QMI_IDL_TYPE16 0 2, 7),
     (QMI_LOC_GET_GNSS_PDR_MODE_IND_V02, QMI_IDL_TYPE16 0 307, 14),
     (QMI_LOC_GET_MAG_CAL_STATE_PDR_IND_V02, QMI_IDL_TYPE16 0 308, 11),
     (QMI_LOC_EVENT_SAP_INS_PARAMETERS_IND_V02, QMI_IDL_TYPE16 0 298, 5590),
     (QMI_LOC_SET_MULTIBAND_CONFIG_IND_V02, QMI_IDL_TYPE16 0 2, 7),
     (QMI_LOC_GET_MULTIBAND_CONFIG_IND_V02, QMI_IDL_TYPE16 0 310, 18),
     (QMI_LOC_LATENCY_INFORMATION_IND_V02, QMI_IDL_TYPE16 0 311, 124)]"

definition loc_service_indication_messages_v02 :: "qmi_idl_service_message_table_entry list" where
  "loc_service_indication_messages_v02 = loc_service_indication_messages_v02_1 @ loc_service_indication_messages_v02_2"

end
