(* ===== verification/LocService.thy ===== *)
theory LocService
  imports LocTables
begin

text \<open>
  The service object of \<^verbatim>\<open>src/location/loc_api/loc_api_v02/location_service_v02.c\<close>, its accessor,
  and the properties of the tables. The fields of the two object structs are named after what
  the initialisers put there; the struct declarations belong to the QMI library.
\<close>

section \<open>Service object\<close>

definition LOC_V02_IDL_MAJOR_VERS :: int where "LOC_V02_IDL_MAJOR_VERS = 0x02"
definition LOC_V02_IDL_MINOR_VERS :: int where "LOC_V02_IDL_MINOR_VERS = 0x86"
definition LOC_V02_IDL_TOOL_VERS :: int where "LOC_V02_IDL_TOOL_VERS = 0x06"
definition LOC_V02_MAX_MESSAGE_ID :: nat where "LOC_V02_MAX_MESSAGE_ID = 0x00E2"

record qmi_idl_type_table_object =
  n_types :: nat
  n_messages :: nat
  n_referenced_tables :: nat
  p_types :: "qmi_idl_type_table_entry list"
  p_messages :: "qmi_idl_message_table_entry list"

definition loc_qmi_idl_type_table_object_v02 :: "ctype \<Rightarrow> qmi_idl_type_table_object" where
  "loc_qmi_idl_type_table_object_v02 resp_t =
     \<lparr>n_types = length loc_type_table_v02,
      n_messages = length (loc_message_table_v02 resp_t),
      n_referenced_tables = 1,
      p_types = loc_type_table_v02,
      p_messages = loc_message_table_v02 resp_t\<rparr>"

record qmi_idl_service_object =
  library_version :: int
  idl_version :: int
  service_id :: int
  max_msg_len :: nat
  n_msgs :: "nat list"
  msg_tables :: "qmi_idl_service_message_table_entry list list"
  p_type_table :: qmi_idl_type_table_object
  idl_minor_version :: int

definition loc_qmi_idl_service_object_v02 :: "ctype \<Rightarrow> qmi_idl_service_object" where
  "loc_qmi_idl_service_object_v02 resp_t =
     \<lparr>library_version = 0x06,
      idl_version = 0x02,
      service_id = 0x10,
      max_msg_len = 10015,
      n_msgs = [length loc_service_command_messages_v02, length loc_service_response_messages_v02,
                length loc_service_indication_messages_v02],
      msg_tables = [loc_service_command_messages_v02, loc_service_response_messages_v02,
                    loc_service_indication_messages_v02],
      p_type_table = loc_qmi_idl_type_table_object_v02 resp_t,
      idl_minor_version = 0x86\<rparr>"

definition loc_get_service_object_internal_v02 ::
  "ctype \<Rightarrow> int \<Rightarrow> int \<Rightarrow> int \<Rightarrow> qmi_idl_service_object option" where
  "loc_get_service_object_internal_v02 resp_t idl_maj_version idl_min_version library_vers =
     (if LOC_V02_IDL_MAJOR_VERS \<noteq> idl_maj_version \<or> LOC_V02_IDL_MINOR_VERS \<noteq> idl_min_version
         \<or> LOC_V02_IDL_TOOL_VERS \<noteq> library_vers
      then None else Some (loc_qmi_idl_service_object_v02 resp_t))"

section \<open>Evaluation of the tables\<close>

lemmas loc_message_table_defs = loc_message_table_v02_def loc_message_table_v02_1_def
  loc_message_table_v02_2_def loc_message_table_v02_3_def

lemmas loc_service_message_defs = loc_service_command_messages_v02_def loc_service_response_messages_v02_def
  loc_service_indication_messages_v02_def loc_service_indication_messages_v02_1_def
  loc_service_indication_messages_v02_2_def

lemma types_ok: "list_all (type_entry_ok resp_t (entry_structs loc_type_table_v02)) loc_type_table_v02"
  by (simp add: loc_type_table_v02_def entry_structs_def type_entry_ok_def idl_simps)

lemma msgs_ok: "list_all (msg_entry_ok resp_t (entry_structs loc_type_table_v02)) (loc_message_table_v02 resp_t)"
  by (simp add: loc_message_table_defs loc_type_table_v02_def entry_structs_def msg_entry_ok_def idl_simps)

text \<open>The largest encodings of the types and of the messages, in the order of the tables.\<close>

definition loc_type_wires :: "nat list" where
  "loc_type_wires =
    [68, 8, 6, 12, 20, 8, 8, 28, 29, 221, 69, 6, 6, 20, 283, 453, 25, 150, 225, 8, 256, 256, 773, 8,
     769, 4, 5, 61, 8, 10, 12, 7, 3, 3, 4, 23, 13, 33, 14, 706, 6, 309, 105, 20, 8, 16, 16, 16, 12, 16,
     87, 49, 54, 17, 1111, 17, 1122, 12, 2, 9, 18, 15, 17, 25, 90, 20, 6, 41, 3, 61, 20, 7, 8, 8, 56,
     22, 11, 6, 1559, 2, 2, 9, 6, 34, 20, 62, 18, 100, 160, 175, 109, 179, 182, 36, 8, 3, 32, 62]"

definition loc_msg_wires :: "nat list" where
  "loc_msg_wires =
    [0, 7, 7, 7, 29, 150, 4, 2488, 9476, 4301, 1342, 776, 808, 40, 7, 11, 16, 48, 7, 4, 46, 14, 7, 85,
     15, 4, 3045, 21, 3038, 273, 21, 5811, 21, 21, 0, 532, 0, 135, 1345, 7, 1053, 12, 0, 790, 0, 20, 25,
     7, 540, 7, 25, 7, 7, 32, 8, 7, 0, 11, 7, 7, 0, 14, 4, 7, 0, 11, 297, 7, 11, 304, 1160, 7, 4, 7, 0,
     11, 2353, 7, 7, 7, 0, 18, 14, 7, 0, 14, 8, 7, 2779, 34, 21, 7, 0, 18, 11, 7, 0, 14, 14, 7, 140, 7,
     86, 18, 11, 93, 14, 7, 0, 21, 88, 14, 7, 95, 42, 14, 0, 49, 2009, 7, 4, 7, 16, 14, 7, 23, 70, 21,
     14, 21, 14, 65, 224, 14, 7, 39, 32, 28, 7, 30, 7, 14, 2193, 19, 7, 7, 82, 30, 7, 36, 7, 33, 7, 22,
     7, 1036, 7, 0, 7, 46, 7, 21, 21, 39, 14, 28, 90, 21, 460, 21, 21, 14, 14, 4, 5200, 7, 51, 7, 7, 7,
     12, 3360, 7, 7, 145, 14, 7, 7, 7, 34, 7, 3151, 441, 2517, 28, 25, 14, 21, 28, 517, 7, 21, 7, 21, 7,
     540, 18, 294, 7, 280, 7, 21, 7, 21, 7, 36, 11, 4, 11, 2074, 11, 268, 1043, 2180, 70, 656, 7, 7, 7,
     21, 47, 7, 1053, 23, 11, 7, 0, 122, 4, 7, 3756, 22, 1448, 7, 545, 540, 7, 12, 1574, 25, 7, 0, 21,
     618, 23, 2456, 2273, 272, 132, 73, 26, 80, 7, 7, 25, 0, 0, 7, 28, 49, 4, 14, 47, 7, 5, 16, 10015,
     1425, 897, 1457, 1481, 1425, 18, 7, 4, 7, 0, 22, 97, 124, 66, 7, 7, 8, 21, 3816, 5, 12, 5590, 0,
     11, 7, 18, 11, 18, 161, 7, 14, 11, 11, 18, 124]"

lemma type_wires_eval: "type_wires cw [] loc_type_table_v02 = Some loc_type_wires"
  by (simp add: loc_type_table_v02_def loc_type_wires_def type_wire_def idl_simps)

lemma msg_wires_eval:
  assumes "cw 0 = 4"
  shows "map (\<lambda>e. msg_wire cw loc_type_wires (snd e)) (loc_message_table_v02 resp_t) = map Some loc_msg_wires"
  by (simp add: loc_message_table_defs loc_type_wires_def loc_msg_wires_def msg_wire_def idl_simps assms)

text \<open>The entry of a message defined by this service names an entry of the message table and
  gives its largest encoding as length.\<close>

fun length_ok :: "(nat \<Rightarrow> nat) \<Rightarrow> nat list \<Rightarrow> qmi_idl_message_table_entry list \<Rightarrow>
    qmi_idl_service_message_table_entry \<Rightarrow> bool" where
  "length_ok cw ws msgs (i, QMI_IDL_TYPE16 t n, len) =
     (if t = 0 then n < length msgs \<and> msg_wire cw ws (snd (msgs ! n)) = Some len else t = 1)"

fun wire_len_ok :: "nat list \<Rightarrow> qmi_idl_service_message_table_entry \<Rightarrow> bool" where
  "wire_len_ok lens (i, QMI_IDL_TYPE16 t n, len) = (if t = 0 then n < length lens \<and> lens ! n = len else t = 1)"

lemma wire_len_ok_all:
  "list_all (wire_len_ok loc_msg_wires)
     (loc_service_command_messages_v02 @ loc_service_response_messages_v02 @ loc_service_indication_messages_v02)"
  by (simp add: loc_service_message_defs loc_msg_wires_def)

lemma length_ok_if:
  assumes "cw 0 = 4" and "wire_len_ok loc_msg_wires e"
  shows "length_ok cw loc_type_wires (loc_message_table_v02 resp_t) e"
proof -
  obtain i t n len where e: "e = (i, QMI_IDL_TYPE16 t n, len)" by (metis idl_type16.exhaust prod_cases3)
  have l: "length (loc_message_table_v02 resp_t) = length loc_msg_wires"
    using msg_wires_eval [of cw resp_t] assms(1) by (metis length_map)
  have "msg_wire cw loc_type_wires (snd (loc_message_table_v02 resp_t ! n)) = Some (loc_msg_wires ! n)"
    if "n < length loc_msg_wires"
    using msg_wires_eval [of cw resp_t] assms(1) that l by (metis nth_map)
  with assms(2) l show ?thesis by (auto simp: e split: if_splits)
qed

section \<open>Properties\<close>

text \<open>Every entry of the type table gives the size of a C struct and a well-formed descriptor
  that describes exactly the fields of that struct, in their order: every offset and every
  distance to a length field fits the bytes that hold it, every field lies inside the struct and
  has the described width and array bound (a string field has one byte more than its bound), and
  a nested aggregate refers to the table entry of the type the field really has.\<close>

theorem loc_types_described:
  "list_all (\<lambda>(n, d). \<exists>s c rs. n = sizeof s \<and> describes_type s d \<and> describe_type d = Some (s, c, rs)
       \<and> list_all (ref_ok resp_t (entry_structs loc_type_table_v02)) rs) loc_type_table_v02"
proof (rule list.pred_mono_strong [OF types_ok [of resp_t]])
  fix e
  assume "type_entry_ok resp_t (entry_structs loc_type_table_v02) e"
  from type_entry_ok_sound [OF this]
  show "case e of (n, d) \<Rightarrow> \<exists>s c rs. n = sizeof s \<and> describes_type s d \<and> describe_type d = Some (s, c, rs)
       \<and> list_all (ref_ok resp_t (entry_structs loc_type_table_v02)) rs"
    by (simp add: case_prod_beta)
qed

lemma messages_described:
  "list_all (\<lambda>(n, od). case od of None \<Rightarrow> True
     | Some d \<Rightarrow> \<exists>s c rs. n = sizeof s \<and> describes_msg s d \<and> describe_msg d = Some (s, c, rs)
         \<and> list_all (ref_ok resp_t (entry_structs loc_type_table_v02)) rs) (loc_message_table_v02 resp_t)"
proof (rule list.pred_mono_strong [OF msgs_ok [of resp_t]])
  fix e
  assume ok: "msg_entry_ok resp_t (entry_structs loc_type_table_v02) e"
  show "case e of (n, od) \<Rightarrow> (case od of None \<Rightarrow> True
     | Some d \<Rightarrow> \<exists>s c rs. n = sizeof s \<and> describes_msg s d \<and> describe_msg d = Some (s, c, rs)
         \<and> list_all (ref_ok resp_t (entry_structs loc_type_table_v02)) rs)"
    using ok msg_entry_ok_sound [of resp_t "entry_structs loc_type_table_v02" "fst e" "the (snd e)"]
    by (cases e; cases "snd e") simp_all
qed

text \<open>C14. Every descriptor is right: the entries of the type table describe their C structs (as shown above), and every entry of the message table that has a descriptor gives
  the size of the C struct it describes; the tags of its TLVs ascend, mandatory ones below 0x10
  and optional ones from 0x10 on; the last TLV alone is marked as last; every optional TLV has
  its \<^verbatim>\<open>_valid\<close> byte at a distance below 16 before the field; all fields are covered, in order.\<close>

theorem loc_messages_described:
  "list_all (\<lambda>(n, d). \<exists>s c rs. n = sizeof s \<and> describes_type s d \<and> describe_type d = Some (s, c, rs)
       \<and> list_all (ref_ok resp_t (entry_structs loc_type_table_v02)) rs) loc_type_table_v02
   \<and> list_all (\<lambda>(n, od). case od of None \<Rightarrow> True
     | Some d \<Rightarrow> \<exists>s c rs. n = sizeof s \<and> describes_msg s d \<and> describe_msg d = Some (s, c, rs)
         \<and> list_all (ref_ok resp_t (entry_structs loc_type_table_v02)) rs) (loc_message_table_v02 resp_t)"
  by (rule conjI [OF loc_types_described messages_described])

text \<open>C13. The lengths are right: with the four-byte encoding of the common response type, the
  nesting of the types is finite and every command, response and indication that this service
  defines names a message of the message table and declares exactly the length of the largest
  encoding of that message; the service's maximal message length is the largest of the declared
  lengths.\<close>

theorem loc_message_lengths:
  assumes "cw 0 = 4"
  shows "\<exists>ws. type_wires cw [] loc_type_table_v02 = Some ws
     \<and> list_all (length_ok cw ws (loc_message_table_v02 resp_t))
         (concat (msg_tables (loc_qmi_idl_service_object_v02 resp_t)))
     \<and> max_msg_len (loc_qmi_idl_service_object_v02 resp_t)
         = fold max (map (snd \<circ> snd) (concat (msg_tables (loc_qmi_idl_service_object_v02 resp_t)))) 0"
proof (intro exI conjI)
  show "type_wires cw [] loc_type_table_v02 = Some loc_type_wires" by (rule type_wires_eval)
  show "list_all (length_ok cw loc_type_wires (loc_message_table_v02 resp_t))
      (concat (msg_tables (loc_qmi_idl_service_object_v02 resp_t)))"
    using wire_len_ok_all length_ok_if [of cw, OF assms]
    by (simp add: loc_qmi_idl_service_object_v02_def list_all_iff)
  show "max_msg_len (loc_qmi_idl_service_object_v02 resp_t)
      = fold max (map (snd \<circ> snd) (concat (msg_tables (loc_qmi_idl_service_object_v02 resp_t)))) 0"
    by (simp add: loc_qmi_idl_service_object_v02_def loc_service_message_defs)
qed

theorem loc_message_lengths_witness:
  "\<exists>ws. type_wires (\<lambda>_. 4) [] loc_type_table_v02 = Some ws
     \<and> list_all (length_ok (\<lambda>_. 4) ws (loc_message_table_v02 (C_struct [])))
         (concat (msg_tables (loc_qmi_idl_service_object_v02 (C_struct []))))"
  using loc_message_lengths [of "\<lambda>_. 4" "C_struct []"] by blast

text \<open>Message identifiers are unambiguous: in each of the three lists they ascend strictly, none
  exceeds the declared maximum and the last indication reaches it, every command has exactly one response, under the same
  identifier, and vice versa.\<close>

theorem loc_message_ids:
  "sorted_wrt (<) (map fst loc_service_command_messages_v02)
   \<and> sorted_wrt (<) (map fst loc_service_indication_messages_v02)
   \<and> map fst loc_service_response_messages_v02 = map fst loc_service_command_messages_v02
   \<and> last (map fst loc_service_command_messages_v02) \<le> LOC_V02_MAX_MESSAGE_ID
   \<and> last (map fst loc_service_indication_messages_v02) = LOC_V02_MAX_MESSAGE_ID"
proof (intro conjI)
  show "sorted_wrt (<) (map fst loc_service_command_messages_v02)"
    by (simp add: loc_service_message_defs msg_id_simps sorted_wrt1 sorted_wrt2 [OF transp_on_less] del: sorted_wrt.simps)
  show "sorted_wrt (<) (map fst loc_service_indication_messages_v02)"
    by (simp add: loc_service_message_defs msg_id_simps sorted_wrt1 sorted_wrt2 [OF transp_on_less] del: sorted_wrt.simps)
  show "map fst loc_service_response_messages_v02 = map fst loc_service_command_messages_v02"
    by (simp add: loc_service_message_defs msg_id_simps)
  show "last (map fst loc_service_command_messages_v02) \<le> LOC_V02_MAX_MESSAGE_ID"
    "last (map fst loc_service_indication_messages_v02) = LOC_V02_MAX_MESSAGE_ID"
    by (simp_all add: loc_service_message_defs msg_id_simps LOC_V02_MAX_MESSAGE_ID_def)
qed

text \<open>The accessor hands out the service object for the version of the header it was generated
  with and for no other, and the versions recorded in the object are those it was asked for.\<close>

theorem loc_get_service_object_versions:
  "loc_get_service_object_internal_v02 resp_t maj minor lib =
     (if (maj, minor, lib) = (idl_version (loc_qmi_idl_service_object_v02 resp_t),
          idl_minor_version (loc_qmi_idl_service_object_v02 resp_t),
          library_version (loc_qmi_idl_service_object_v02 resp_t))
      then Some (loc_qmi_idl_service_object_v02 resp_t) else None)"
  by (auto simp: loc_get_service_object_internal_v02_def loc_qmi_idl_service_object_v02_def
        LOC_V02_IDL_MAJOR_VERS_def LOC_V02_IDL_MINOR_VERS_def LOC_V02_IDL_TOOL_VERS_def)

end
