(* ===== verification/LocClientTypes.thy ===== *)
theory LocClientTypes
  imports Prelude "HOL-Library.Word"
begin

text \<open>
  Types of the location client interface, \<^verbatim>\<open>src/location/loc_api/loc_api_v02/loc_api_v02_client.h\<close>,
  that several components share.
\<close>

datatype locClientStatusEnumType =
    eLOC_CLIENT_SUCCESS
  | eLOC_CLIENT_FAILURE_GENERAL
  | eLOC_CLIENT_FAILURE_UNSUPPORTED
  | eLOC_CLIENT_FAILURE_INVALID_PARAMETER
  | eLOC_CLIENT_FAILURE_ENGINE_BUSY
  | eLOC_CLIENT_FAILURE_PHONE_OFFLINE
  | eLOC_CLIENT_FAILURE_TIMEOUT
  | eLOC_CLIENT_FAILURE_SERVICE_NOT_PRESENT
  | eLOC_CLIENT_FAILURE_SERVICE_VERSION_UNSUPPORTED
  | eLOC_CLIENT_FAILURE_CLIENT_VERSION_UNSUPPORTED
  | eLOC_CLIENT_FAILURE_INVALID_HANDLE
  | eLOC_CLIENT_FAILURE_INTERNAL
  | eLOC_CLIENT_FAILURE_NOT_INITIALIZED
  | eLOC_CLIENT_FAILURE_NOT_ENOUGH_MEMORY
  | eLOC_CLIENT_FAILURE_INVALID_MESSAGE_ID

datatype locClientErrorEnumType = eLOC_CLIENT_ERROR_SERVICE_UNAVAILABLE

text \<open>A client handle is the address of the client's data; the invalid handle is the null pointer.\<close>

type_synonym locClientHandleType = addr

definition LOC_CLIENT_INVALID_HANDLE_VALUE :: locClientHandleType where
  "LOC_CLIENT_INVALID_HANDLE_VALUE = NULL"

end
