(* ===== verification/SyncReq.thy ===== *)
theory SyncReq
  imports LocClientTypes
begin

text \<open>
  Synchronous requests on top of the asynchronous location service:
  \<^verbatim>\<open>src/location/loc_api/loc_api_v02/loc_api_sync_req.cpp\<close>.

  A caller reserves one of eight slots, sends its request and sleeps on the slot's condition
  variable until the thread that receives indications finds the slot, copies the payload into
  the caller's buffer and signals it, or until the wait times out. Every critical section is one
  step: \<open>loc_sync_send_req\<close> goes from one point where others may run to the next, and
  \<open>sync_step\<close> interleaves any number of callers with indications. A result \<^term>\<open>None\<close> is an
  undefined access, an index outside the arrays, a copy beyond a buffer, or a lock that is never
  free. The length of the wait (\<^verbatim>\<open>timeout_msec / 1000\<close> seconds) is not modelled: a wait may end at any
  time, with or without a time-out.
\<close>

section \<open>Data\<close>

definition LOC_SYNC_REQ_BUFFER_SIZE :: nat where
  "LOC_SYNC_REQ_BUFFER_SIZE = 8"

record loc_sync_req_data_s_type =
  sync_req_lock :: mutex
  client_handle :: locClientHandleType
  ind_arrived_cond :: cond
  ind_is_selected :: bool
  ind_is_waiting :: bool
  ind_has_arrived :: bool
  req_id :: "32 word"
  recv_ind_payload_ptr :: addr
  recv_ind_id :: "32 word"

record loc_sync_req_array_s_type =
  in_use :: bool
  slot_in_use :: "bool list"
  slots :: "loc_sync_req_data_s_type list"

text \<open>The global variables of the file, and the memory that holds payloads as blocks of bytes.\<close>

record sync_state =
  loc_sync_call_mutex :: mutex
  loc_sync_call_initialized :: bool
  loc_sync_array :: loc_sync_req_array_s_type
  mem :: "addr \<rightharpoonup> 8 word list"

definition EINVAL :: int where "EINVAL = 22"
definition ENOMEM :: int where "ENOMEM = 12"
definition EBUSY :: int where "EBUSY = 16"
definition ETIMEDOUT :: int where "ETIMEDOUT = 110"

section \<open>Locks and memory\<close>

abbreviation arr_upd :: "(loc_sync_req_array_s_type \<Rightarrow> loc_sync_req_array_s_type) \<Rightarrow> sync_state \<Rightarrow> sync_state" where
  "arr_upd f st \<equiv> st\<lparr>loc_sync_array := f (loc_sync_array st)\<rparr>"

definition call_lock :: "sync_state \<Rightarrow> sync_state option" where
  "call_lock st = do { x \<leftarrow> mutex_lock (loc_sync_call_mutex st); Some (st\<lparr>loc_sync_call_mutex := x\<rparr>) }"

definition call_unlock :: "sync_state \<Rightarrow> sync_state option" where
  "call_unlock st = do { x \<leftarrow> mutex_unlock (loc_sync_call_mutex st); Some (st\<lparr>loc_sync_call_mutex := x\<rparr>) }"

text \<open>Access to a slot of the array; an index outside the array is undefined.\<close>

definition get_slot :: "nat \<Rightarrow> sync_state \<Rightarrow> loc_sync_req_data_s_type option" where
  "get_slot i st = (if i < length (slots (loc_sync_array st)) then Some (slots (loc_sync_array st) ! i) else None)"

definition set_slot :: "nat \<Rightarrow> loc_sync_req_data_s_type \<Rightarrow> sync_state \<Rightarrow> sync_state option" where
  "set_slot i s st = (if i < length (slots (loc_sync_array st))
     then Some (arr_upd (\<lambda>a. a\<lparr>slots := (slots a)[i := s]\<rparr>) st) else None)"

definition get_slot_in_use :: "nat \<Rightarrow> sync_state \<Rightarrow> bool option" where
  "get_slot_in_use i st = (if i < length (slot_in_use (loc_sync_array st))
     then Some (slot_in_use (loc_sync_array st) ! i) else None)"

definition set_slot_in_use :: "nat \<Rightarrow> bool \<Rightarrow> sync_state \<Rightarrow> sync_state option" where
  "set_slot_in_use i b st = (if i < length (slot_in_use (loc_sync_array st))
     then Some (arr_upd (\<lambda>a. a\<lparr>slot_in_use := (slot_in_use a)[i := b]\<rparr>) st) else None)"

definition slot_lock :: "nat \<Rightarrow> sync_state \<Rightarrow> sync_state option" where
  "slot_lock i st = do { s \<leftarrow> get_slot i st; x \<leftarrow> mutex_lock (sync_req_lock s);
     set_slot i (s\<lparr>sync_req_lock := x\<rparr>) st }"

definition slot_unlock :: "nat \<Rightarrow> sync_state \<Rightarrow> sync_state option" where
  "slot_unlock i st = do { s \<leftarrow> get_slot i st; x \<leftarrow> mutex_unlock (sync_req_lock s);
     set_slot i (s\<lparr>sync_req_lock := x\<rparr>) st }"

text \<open>\<^verbatim>\<open>memcpy\<close>: both blocks must have at least \<open>n\<close> bytes and be different.\<close>

definition memcpy :: "(addr \<rightharpoonup> 8 word list) \<Rightarrow> addr \<Rightarrow> addr \<Rightarrow> nat \<Rightarrow> (addr \<rightharpoonup> 8 word list) option" where
  "memcpy m dst src n = do {
     d \<leftarrow> load m dst;
     s \<leftarrow> load m src;
     if n \<le> length d \<and> n \<le> length s \<and> dst \<noteq> src then store m dst (take n s @ drop n d) else None }"

section \<open>Operations\<close>

definition fresh_slot :: loc_sync_req_data_s_type where
  "fresh_slot = \<lparr>sync_req_lock = False, client_handle = LOC_CLIENT_INVALID_HANDLE_VALUE,
     ind_arrived_cond = \<lparr>waiters = [], woken = []\<rparr>, ind_is_selected = False, ind_is_waiting = False,
     ind_has_arrived = False, req_id = 0, recv_ind_payload_ptr = NULL, recv_ind_id = 0\<rparr>"

text \<open>The body of the loop of \<^verbatim>\<open>loc_sync_req_init\<close> for slot \<open>i\<close>, and the loop.\<close>

fun init_slots :: "nat list \<Rightarrow> sync_state \<Rightarrow> sync_state option" where
  "init_slots [] st = Some st"
| "init_slots (i # is) st = do { st \<leftarrow> set_slot i fresh_slot st; init_slots is st }"

definition loc_sync_req_init :: "sync_state \<Rightarrow> sync_state option" where
  "loc_sync_req_init st = do {
     st \<leftarrow> call_lock st;
     if loc_sync_call_initialized st then call_unlock st
     else do {
       let st = arr_upd (\<lambda>a. a\<lparr>in_use := False,
                          slot_in_use := replicate LOC_SYNC_REQ_BUFFER_SIZE False\<rparr>) st;
       st \<leftarrow> init_slots [0..<LOC_SYNC_REQ_BUFFER_SIZE] st;
       call_unlock (st\<lparr>loc_sync_call_initialized := True\<rparr>) } }"

text \<open>What \<^verbatim>\<open>loc_sync_process_ind\<close> does to one slot under the slot's lock; \<open>k\<close> is the
  scheduler's choice for \<^verbatim>\<open>pthread_cond_signal\<close>. The result says whether the payload was
  consumed.\<close>

definition process_slot :: "nat \<Rightarrow> locClientHandleType \<Rightarrow> 32 word \<Rightarrow> addr \<Rightarrow> 32 word \<Rightarrow> nat \<Rightarrow> sync_state
    \<Rightarrow> (bool \<times> sync_state) option" where
  "process_slot k client ind_id ind_payload_ptr ind_payload_size i st = do {
     st \<leftarrow> slot_lock i st;
     used \<leftarrow> get_slot_in_use i st;
     slot \<leftarrow> get_slot i st;
     (consumed, st) \<leftarrow>
       (if used \<and> client_handle slot = client \<and> ind_id = recv_ind_id slot \<and> \<not> ind_has_arrived slot
        then do {
          (consumed, m) \<leftarrow>
            (if recv_ind_payload_ptr slot \<noteq> NULL \<and> ind_payload_ptr \<noteq> NULL \<and> ind_payload_size > 0
             then do { m \<leftarrow> memcpy (mem st) (recv_ind_payload_ptr slot) ind_payload_ptr (unat ind_payload_size);
                       Some (True, m) }
             else Some (False, mem st));
          let slot = (if ind_is_waiting slot
                      then slot\<lparr>recv_ind_id := ind_id, ind_arrived_cond := cond_signal k (ind_arrived_cond slot)\<rparr>
                      else slot\<lparr>ind_has_arrived := True\<rparr>);
          st \<leftarrow> set_slot i slot (st\<lparr>mem := m\<rparr>);
          Some (consumed, st) }
        else Some (False, st));
     st \<leftarrow> slot_unlock i st;
     Some (consumed, st) }"

fun process_loop :: "nat \<Rightarrow> locClientHandleType \<Rightarrow> 32 word \<Rightarrow> addr \<Rightarrow> 32 word \<Rightarrow> nat list \<Rightarrow> bool \<Rightarrow> sync_state
    \<Rightarrow> (bool \<times> sync_state) option" where
  "process_loop k client ind_id p n [] used st = Some (used, st)"
| "process_loop k client ind_id p n (i # is) used st = do {
     u \<leftarrow> get_slot_in_use i st;
     (consumed, st) \<leftarrow> process_slot k client ind_id p n i st;
     if consumed then Some (used \<or> u, st) else process_loop k client ind_id p n is (used \<or> u) st }"

definition loc_sync_process_ind :: "nat \<Rightarrow> locClientHandleType \<Rightarrow> 32 word \<Rightarrow> addr \<Rightarrow> 32 word \<Rightarrow> sync_state
    \<Rightarrow> sync_state option" where
  "loc_sync_process_ind k client ind_id ind_payload_ptr ind_payload_size st = do {
     st \<leftarrow> call_lock st;
     if \<not> in_use (loc_sync_array st) then call_unlock st
     else do {
       (used, st) \<leftarrow> process_loop k client ind_id ind_payload_ptr ind_payload_size
                      [0..<LOC_SYNC_REQ_BUFFER_SIZE] False st;
       call_unlock (if used then st else arr_upd (\<lambda>a. a\<lparr>in_use := False\<rparr>) st) } }"

fun alloc_loop :: "nat list \<Rightarrow> sync_state \<Rightarrow> (int \<times> sync_state) option" where
  "alloc_loop [] st = Some (-1, st)"
| "alloc_loop (i # is) st = do {
     u \<leftarrow> get_slot_in_use i st;
     if \<not> u then do {
       st \<leftarrow> set_slot_in_use i True st;
       Some (int i, arr_upd (\<lambda>a. a\<lparr>in_use := True\<rparr>) st) }
     else alloc_loop is st }"

definition loc_alloc_slot :: "sync_state \<Rightarrow> (int \<times> sync_state) option" where
  "loc_alloc_slot st = do {
     st \<leftarrow> call_lock st;
     (select_id, st) \<leftarrow> alloc_loop [0..<LOC_SYNC_REQ_BUFFER_SIZE] st;
     st \<leftarrow> call_unlock st;
     Some (select_id, st) }"

definition loc_free_slot :: "int \<Rightarrow> sync_state \<Rightarrow> sync_state option" where
  "loc_free_slot select_id st = do {
     st \<leftarrow> call_lock st;
     let i = nat select_id;
     st \<leftarrow> (if select_id < 0 then None else set_slot_in_use i False st);
     slot \<leftarrow> get_slot i st;
     st \<leftarrow> set_slot i (slot\<lparr>client_handle := LOC_CLIENT_INVALID_HANDLE_VALUE, ind_is_selected := False,
             ind_is_waiting := False, ind_has_arrived := False, recv_ind_id := 0,
             recv_ind_payload_ptr := NULL, req_id := 0\<rparr>) st;
     call_unlock (if list_ex id (slot_in_use (loc_sync_array st)) then st
                  else arr_upd (\<lambda>a. a\<lparr>in_use := False\<rparr>) st) }"

text \<open>The part of \<^verbatim>\<open>loc_sync_select_ind\<close> after the allocation.\<close>

definition select_fill :: "int \<Rightarrow> locClientHandleType \<Rightarrow> 32 word \<Rightarrow> 32 word \<Rightarrow> addr \<Rightarrow> sync_state \<Rightarrow> (int \<times> sync_state) option" where
  "select_fill select_id client ind_id req ind_payload_ptr st =
     (if select_id < 0 then Some (- ENOMEM, st)
      else do {
        let i = nat select_id;
        st \<leftarrow> slot_lock i st;
        slot \<leftarrow> get_slot i st;
        st \<leftarrow> set_slot i (slot\<lparr>client_handle := client, ind_is_selected := True, ind_is_waiting := False,
                ind_has_arrived := False, recv_ind_id := ind_id, req_id := req,
                recv_ind_payload_ptr := ind_payload_ptr\<rparr>) st;
        st \<leftarrow> slot_unlock i st;
        Some (select_id, st) })"

definition loc_sync_select_ind :: "locClientHandleType \<Rightarrow> 32 word \<Rightarrow> 32 word \<Rightarrow> addr \<Rightarrow> sync_state \<Rightarrow> (int \<times> sync_state) option" where
  "loc_sync_select_ind client ind_id req ind_payload_ptr st = do {
     (select_id, st) \<leftarrow> loc_alloc_slot st;
     select_fill select_id client ind_id req ind_payload_ptr st }"

text \<open>\<^verbatim>\<open>loc_sync_wait_for_ind\<close> by thread \<open>t\<close>, up to its early return (\<open>Returned\<close>), to the point
  where it sleeps in \<^verbatim>\<open>pthread_cond_timedwait\<close> (\<open>Waiting\<close>), or to the point where it has
  released the lock of the slot and has \<^verbatim>\<open>loc_free_slot\<close> still to call, with the value it will
  return (\<open>Leaving\<close>); and from the sleep on, when that call has returned \<open>rc\<close>, to the same point.
  \<^verbatim>\<open>loc_free_slot\<close> is a critical section of its own and a later step of the caller, so
  an indication or another caller may come between the two.\<close>

datatype wait_result = Returned int | Waiting | Leaving int

definition loc_sync_wait_for_ind :: "nat \<Rightarrow> int \<Rightarrow> sync_state \<Rightarrow> (wait_result \<times> sync_state) option" where
  "loc_sync_wait_for_ind t select_id st = do {
     let i = nat select_id;
     bad \<leftarrow> (if select_id < 0 \<or> select_id \<ge> int LOC_SYNC_REQ_BUFFER_SIZE then Some True
            else map_option Not (get_slot_in_use i st));
     if bad then Some (Returned (- EINVAL), st)
     else do {
       st \<leftarrow> slot_lock i st;
       slot \<leftarrow> get_slot i st;
       if ind_has_arrived slot \<or> ind_is_waiting slot then do {
         st \<leftarrow> slot_unlock i st;
         Some (Leaving (if ind_has_arrived slot then 0 else - EBUSY), st) }
       else do {
         x \<leftarrow> mutex_unlock (sync_req_lock slot);
         st \<leftarrow> set_slot i (slot\<lparr>ind_is_waiting := True, sync_req_lock := x, ind_arrived_cond :=
                 (ind_arrived_cond slot)\<lparr>waiters := t # waiters (ind_arrived_cond slot)\<rparr>\<rparr>) st;
         Some (Waiting, st) } } }"

definition wait_for_ind_wake :: "nat \<Rightarrow> int \<Rightarrow> int \<Rightarrow> sync_state \<Rightarrow> (int \<times> sync_state) option" where
  "wait_for_ind_wake t rc select_id st = do {
     let i = nat select_id;
     st \<leftarrow> slot_lock i st;
     slot \<leftarrow> get_slot i st;
     st \<leftarrow> set_slot i (slot\<lparr>ind_is_waiting := False, ind_arrived_cond :=
             \<lparr>waiters = remove1 t (waiters (ind_arrived_cond slot)), woken = remove1 t (woken (ind_arrived_cond slot))\<rparr>\<rparr>) st;
     st \<leftarrow> slot_unlock i st;
     Some (if rc = ETIMEDOUT then - ETIMEDOUT else 0, st) }"

text \<open>The status \<^verbatim>\<open>loc_sync_send_req\<close> returns for the result of the wait.\<close>

definition wait_status :: "int \<Rightarrow> locClientStatusEnumType" where
  "wait_status rc = (if rc < 0 then if rc = - ETIMEDOUT then eLOC_CLIENT_FAILURE_TIMEOUT
     else eLOC_CLIENT_FAILURE_INTERNAL else eLOC_CLIENT_SUCCESS)"

text \<open>\<^verbatim>\<open>loc_sync_send_req\<close> as a sequence of steps. Other threads, and the thread that delivers
  indications, may run between two steps: after the slot is allocated, after it is filled in,
  after the request is sent, while the caller sleeps, and between the end of its wait and the
  release of its slot. \<open>sent\<close> is what
  \<^verbatim>\<open>locClientSendReq\<close> returns, \<open>rc\<close> what \<^verbatim>\<open>pthread_cond_timedwait\<close> returns.\<close>

datatype send_pc =
    Idle
  | Allocated int
  | Selected int
  | Sent int
  | Sleeping int
  | Freeing int int
  | Done locClientStatusEnumType

record sync_call =
  c_handle :: locClientHandleType
  c_req :: "32 word"
  c_ind :: "32 word"
  c_ptr :: addr

fun loc_sync_send_req :: "nat \<Rightarrow> sync_call \<Rightarrow> locClientStatusEnumType \<Rightarrow> int \<Rightarrow> send_pc \<Rightarrow> sync_state
    \<Rightarrow> (send_pc \<times> sync_state) option" where
  "loc_sync_send_req t c sent rc Idle st = do {
     (select_id, st) \<leftarrow> loc_alloc_slot st;
     Some (Allocated select_id, st) }"
| "loc_sync_send_req t c sent rc (Allocated k) st = do {
     (select_id, st) \<leftarrow> select_fill k (c_handle c) (c_ind c) (c_req c) (c_ptr c) st;
     Some (Selected select_id, st) }"
| "loc_sync_send_req t c sent rc (Selected select_id) st =
     (if select_id \<ge> 0
      then if sent \<noteq> eLOC_CLIENT_SUCCESS
           then do { st \<leftarrow> loc_free_slot select_id st; Some (Done sent, st) }
           else Some (Sent select_id, st)
      else Some (Done eLOC_CLIENT_SUCCESS, st))"
| "loc_sync_send_req t c sent rc (Sent select_id) st = do {
     (r, st) \<leftarrow> loc_sync_wait_for_ind t select_id st;
     case r of Waiting \<Rightarrow> Some (Sleeping select_id, st) | Leaving v \<Rightarrow> Some (Freeing select_id v, st)
       | Returned v \<Rightarrow> Some (Done (wait_status v), st) }"
| "loc_sync_send_req t c sent rc (Sleeping select_id) st = do {
     (v, st) \<leftarrow> wait_for_ind_wake t rc select_id st;
     Some (Freeing select_id v, st) }"
| "loc_sync_send_req t c sent rc (Freeing select_id v) st = do {
     st \<leftarrow> loc_free_slot select_id st;
     Some (Done (wait_status v), st) }"
| "loc_sync_send_req t c sent rc (Done r) st = Some (Done r, st)"

section \<open>Effect of the operations\<close>

abbreviation slot_at :: "sync_state \<Rightarrow> nat \<Rightarrow> loc_sync_req_data_s_type" where
  "slot_at g i \<equiv> slots (loc_sync_array g) ! i"

abbreviation used_at :: "sync_state \<Rightarrow> nat \<Rightarrow> bool" where
  "used_at g i \<equiv> slot_in_use (loc_sync_array g) ! i"

definition upd_slot :: "nat \<Rightarrow> loc_sync_req_data_s_type \<Rightarrow> sync_state \<Rightarrow> sync_state" where
  "upd_slot i s g = arr_upd (\<lambda>a. a\<lparr>slots := (slots a)[i := s]\<rparr>) g"

text \<open>Between the critical sections all locks are free; the arrays keep their size.\<close>

definition quiet :: "sync_state \<Rightarrow> bool" where
  "quiet g \<longleftrightarrow> \<not> loc_sync_call_mutex g \<and> length (slot_in_use (loc_sync_array g)) = LOC_SYNC_REQ_BUFFER_SIZE
     \<and> length (slots (loc_sync_array g)) = LOC_SYNC_REQ_BUFFER_SIZE
     \<and> (\<forall>i < LOC_SYNC_REQ_BUFFER_SIZE. \<not> sync_req_lock (slot_at g i))"

lemma quietD:
  assumes "quiet g"
  shows "\<not> loc_sync_call_mutex g" "length (slot_in_use (loc_sync_array g)) = LOC_SYNC_REQ_BUFFER_SIZE"
    "length (slots (loc_sync_array g)) = LOC_SYNC_REQ_BUFFER_SIZE"
    "i < LOC_SYNC_REQ_BUFFER_SIZE \<Longrightarrow> \<not> sync_req_lock (slot_at g i)"
  using assms by (auto simp: quiet_def)

lemmas slot_defs = call_lock_def call_unlock_def get_slot_def set_slot_def get_slot_in_use_def
  set_slot_in_use_def slot_lock_def slot_unlock_def upd_slot_def

lemma lock_idem [simp]: "\<not> sync_req_lock s \<Longrightarrow> s\<lparr>sync_req_lock := False\<rparr> = s"
  by (cases s) simp

lemma call_mutex_idem [simp]: "\<not> loc_sync_call_mutex g \<Longrightarrow> g\<lparr>loc_sync_call_mutex := False\<rparr> = g"
  by (cases g) simp

definition fill :: "locClientHandleType \<Rightarrow> 32 word \<Rightarrow> 32 word \<Rightarrow> addr \<Rightarrow> loc_sync_req_data_s_type \<Rightarrow> loc_sync_req_data_s_type" where
  "fill c ind req p s = s\<lparr>client_handle := c, ind_is_selected := True, ind_is_waiting := False,
     ind_has_arrived := False, recv_ind_id := ind, req_id := req, recv_ind_payload_ptr := p\<rparr>"

definition reset :: "loc_sync_req_data_s_type \<Rightarrow> loc_sync_req_data_s_type" where
  "reset s = s\<lparr>client_handle := LOC_CLIENT_INVALID_HANDLE_VALUE, ind_is_selected := False,
     ind_is_waiting := False, ind_has_arrived := False, recv_ind_id := 0, recv_ind_payload_ptr := NULL, req_id := 0\<rparr>"

lemma fill_lock [simp]: "sync_req_lock (fill c ind req p s) = sync_req_lock s"
  by (simp add: fill_def)

lemma fill_relock [simp]:
  "(fill c ind req p (s\<lparr>sync_req_lock := x\<rparr>))\<lparr>sync_req_lock := y\<rparr> = fill c ind req p (s\<lparr>sync_req_lock := y\<rparr>)"
  by (simp add: fill_def)

lemma reset_lock [simp]: "sync_req_lock (reset s) = sync_req_lock s"
  by (simp add: reset_def)

lemma select_fill_eff:
  assumes "quiet g" and "i < LOC_SYNC_REQ_BUFFER_SIZE"
  shows "select_fill (int i) c ind req p g = Some (int i, upd_slot i (fill c ind req p (slot_at g i)) g)"
  using quietD [OF assms(1)] assms(2)
  by (simp add: select_fill_def slot_defs flip: fill_def)

definition free_upd :: "nat \<Rightarrow> sync_state \<Rightarrow> sync_state" where
  "free_upd i g = arr_upd (\<lambda>a. a\<lparr>slot_in_use := (slot_in_use a)[i := False],
     slots := (slots a)[i := reset (slots a ! i)],
     in_use := (in_use a \<and> list_ex id ((slot_in_use a)[i := False]))\<rparr>) g"

lemma loc_free_slot_eff:
  assumes "quiet g" and "i < LOC_SYNC_REQ_BUFFER_SIZE"
  shows "loc_free_slot (int i) g = Some (free_upd i g)"
  using quietD [OF assms(1)] assms(2)
  by (cases g; cases "loc_sync_array g") (auto simp: loc_free_slot_def slot_defs free_upd_def reset_def)

definition alloc_upd :: "nat \<Rightarrow> sync_state \<Rightarrow> sync_state" where
  "alloc_upd i g = arr_upd (\<lambda>a. a\<lparr>slot_in_use := (slot_in_use a)[i := True], in_use := True\<rparr>) g"

lemma alloc_loop_eff:
  "\<forall>i \<in> set is. i < length (slot_in_use (loc_sync_array g)) \<Longrightarrow>
   alloc_loop is g = Some (case find (\<lambda>i. \<not> used_at g i) is of None \<Rightarrow> (-1, g)
     | Some i \<Rightarrow> (int i, alloc_upd i g))"
  by (induction "is") (auto simp: slot_defs alloc_upd_def)

lemma loc_alloc_slot_eff:
  assumes "quiet g"
  shows "loc_alloc_slot g = Some (case find (\<lambda>i. \<not> used_at g i) [0..<LOC_SYNC_REQ_BUFFER_SIZE] of
     None \<Rightarrow> (-1, g) | Some i \<Rightarrow> (int i, alloc_upd i g))"
  using quietD [OF assms]
  by (simp add: loc_alloc_slot_def alloc_loop_eff call_lock_def call_unlock_def alloc_upd_def split: option.split)

definition sleep :: "nat \<Rightarrow> loc_sync_req_data_s_type \<Rightarrow> loc_sync_req_data_s_type" where
  "sleep t s = s\<lparr>ind_is_waiting := True, ind_arrived_cond :=
     (ind_arrived_cond s)\<lparr>waiters := t # waiters (ind_arrived_cond s)\<rparr>\<rparr>"

definition wake :: "nat \<Rightarrow> loc_sync_req_data_s_type \<Rightarrow> loc_sync_req_data_s_type" where
  "wake t s = s\<lparr>ind_is_waiting := False, ind_arrived_cond :=
     \<lparr>waiters = remove1 t (waiters (ind_arrived_cond s)), woken = remove1 t (woken (ind_arrived_cond s))\<rparr>\<rparr>"

lemma quiet_upd_slot [simp]:
  "quiet g \<Longrightarrow> \<not> sync_req_lock s \<Longrightarrow> quiet (upd_slot i s g)"
  by (auto simp: quiet_def upd_slot_def) (metis nth_list_update_eq nth_list_update_neq)

lemma upd_slot_same [simp]: "upd_slot i (slot_at g i) g = g"
  by (cases g; cases "loc_sync_array g") (simp add: upd_slot_def)

lemma upd_slot_twice [simp]: "upd_slot i s (upd_slot i s' g) = upd_slot i s g"
  by (simp add: upd_slot_def)

lemma lock_eff:
  assumes "quiet g" and "i < LOC_SYNC_REQ_BUFFER_SIZE"
  shows "slot_lock i g = Some (upd_slot i ((slot_at g i)\<lparr>sync_req_lock := True\<rparr>) g)"
    and "get_slot i (upd_slot i s g) = Some s"
    and "get_slot_in_use i (upd_slot i s g) = Some (used_at g i)"
    and "get_slot_in_use i g = Some (used_at g i)"
    and "set_slot i s' (upd_slot i s g) = Some (upd_slot i s' g)"
    and "slot_unlock i (upd_slot i s g) = (if sync_req_lock s then Some (upd_slot i (s\<lparr>sync_req_lock := False\<rparr>) g) else None)"
  using quietD [OF assms(1)] assms(2) by (simp_all add: slot_defs)

lemma wait_eff:
  assumes "quiet g" and "i < LOC_SYNC_REQ_BUFFER_SIZE" and "used_at g i"
  shows "loc_sync_wait_for_ind t (int i) g = Some
     (if ind_has_arrived (slot_at g i) then (Leaving 0, g)
      else if ind_is_waiting (slot_at g i) then (Leaving (- EBUSY), g)
      else (Waiting, upd_slot i (sleep t (slot_at g i)) g))"
  using quietD [OF assms(1)] assms(2,3) lock_eff [OF assms(1,2)]
  by (simp add: loc_sync_wait_for_ind_def assms(1) sleep_def)

lemma wake_eff:
  assumes "quiet g" and "i < LOC_SYNC_REQ_BUFFER_SIZE"
  shows "wait_for_ind_wake t rc (int i) g = Some
     (if rc = ETIMEDOUT then - ETIMEDOUT else 0, upd_slot i (wake t (slot_at g i)) g)"
proof -
  have "\<not> sync_req_lock (slot_at g i)" using quietD [OF assms(1)] assms(2) by simp
  then show ?thesis
    using lock_eff [OF assms] assms
    by (simp add: wait_for_ind_wake_def wake_def)
qed

text \<open>Which slots an indication is for, and what it does to such a slot.\<close>

definition matches :: "locClientHandleType \<Rightarrow> 32 word \<Rightarrow> sync_state \<Rightarrow> nat \<Rightarrow> bool" where
  "matches c ind g i \<longleftrightarrow> used_at g i \<and> client_handle (slot_at g i) = c \<and> ind = recv_ind_id (slot_at g i)
     \<and> \<not> ind_has_arrived (slot_at g i)"

definition copies :: "addr \<Rightarrow> 32 word \<Rightarrow> sync_state \<Rightarrow> nat \<Rightarrow> bool" where
  "copies p n g i \<longleftrightarrow> recv_ind_payload_ptr (slot_at g i) \<noteq> NULL \<and> p \<noteq> NULL \<and> n > 0"

definition deliver :: "nat \<Rightarrow> loc_sync_req_data_s_type \<Rightarrow> loc_sync_req_data_s_type" where
  "deliver k s = (if ind_is_waiting s then s\<lparr>ind_arrived_cond := cond_signal k (ind_arrived_cond s)\<rparr>
     else s\<lparr>ind_has_arrived := True\<rparr>)"

lemma deliver_lock [simp]: "sync_req_lock (deliver k s) = sync_req_lock s"
  by (simp add: deliver_def)

lemma process_slot_eff:
  assumes "quiet g" and "i < LOC_SYNC_REQ_BUFFER_SIZE"
  shows "process_slot k c ind p n i g =
     (if \<not> matches c ind g i then Some (False, g)
      else if copies p n g i
      then map_option (\<lambda>m. (True, (upd_slot i (deliver k (slot_at g i)) g)\<lparr>mem := m\<rparr>))
             (memcpy (mem g) (recv_ind_payload_ptr (slot_at g i)) p (unat n))
      else Some (False, upd_slot i (deliver k (slot_at g i)) g))"
proof -
  have l: "\<not> sync_req_lock (slot_at g i)" using quietD [OF assms(1)] assms(2) by simp
  have m: "mem (upd_slot i s g) = mem g" "(upd_slot i s g)\<lparr>mem := x\<rparr> = upd_slot i s (g\<lparr>mem := x\<rparr>)" for s x
    by (simp_all add: upd_slot_def)
  have "quiet (g\<lparr>mem := x\<rparr>)" for x using assms(1) by (simp add: quiet_def)
  note e = lock_eff [OF assms] lock_eff [OF this assms(2)]
  show ?thesis
    using l by (auto simp: process_slot_def e m matches_def copies_def deliver_def map_conv_bind_option comp_def
        split: option.split)
qed

section \<open>Interleavings\<close>

text \<open>Any number of threads run \<^verbatim>\<open>loc_sync_send_req\<close>; indications arrive at any time. A thread
  whose call has returned may call again. \<^verbatim>\<open>pthread_cond_timedwait\<close> may return at any time,
  with \<open>ETIMEDOUT\<close> or without (POSIX allows wake-ups that no signal caused).\<close>

record sync_sys =
  pcs :: "nat \<Rightarrow> send_pc"
  calls :: "nat \<Rightarrow> sync_call"
  glob :: sync_state

inductive sync_step :: "sync_sys \<Rightarrow> sync_sys \<Rightarrow> bool" where
  call: "loc_sync_send_req t (calls s t) sent rc (pcs s t) (glob s) = Some (pc', g') \<Longrightarrow>
    sync_step s (s\<lparr>pcs := (pcs s)(t := pc'), glob := g'\<rparr>)"
| again: "pcs s t = Done r \<Longrightarrow> sync_step s (s\<lparr>pcs := (pcs s)(t := Idle), calls := (calls s)(t := c)\<rparr>)"
| indication: "loc_sync_process_ind k c ind p n (glob s) = Some g' \<Longrightarrow> sync_step s (s\<lparr>glob := g'\<rparr>)"

text \<open>The module before its initialisation: zeroed static memory, with buffers anywhere.\<close>

definition sync_zero :: "(addr \<rightharpoonup> 8 word list) \<Rightarrow> sync_state" where
  "sync_zero m = \<lparr>loc_sync_call_mutex = False, loc_sync_call_initialized = False,
     loc_sync_array = \<lparr>in_use = False, slot_in_use = replicate LOC_SYNC_REQ_BUFFER_SIZE False,
       slots = replicate LOC_SYNC_REQ_BUFFER_SIZE fresh_slot\<rparr>, mem = m\<rparr>"

inductive sync_reach :: "(nat \<Rightarrow> sync_call) \<Rightarrow> (addr \<rightharpoonup> 8 word list) \<Rightarrow> sync_sys \<Rightarrow> bool" for cs m where
  init: "loc_sync_req_init (sync_zero m) = Some g \<Longrightarrow> sync_reach cs m \<lparr>pcs = (\<lambda>_. Idle), calls = cs, glob = g\<rparr>"
| step: "sync_reach cs m s \<Longrightarrow> sync_step s s' \<Longrightarrow> sync_reach cs m s'"

section \<open>Invariant\<close>

definition holds :: "send_pc \<Rightarrow> nat \<Rightarrow> bool" where
  "holds pc i \<longleftrightarrow> pc \<in> {Allocated (int i), Selected (int i), Sent (int i), Sleeping (int i)}
     \<or> (\<exists>v. pc = Freeing (int i) v)"

definition in_range :: "int \<Rightarrow> bool" where
  "in_range k \<longleftrightarrow> 0 \<le> k \<and> k < int LOC_SYNC_REQ_BUFFER_SIZE"

fun pc_ok :: "send_pc \<Rightarrow> bool" where
  "pc_ok (Allocated k) = (k < 0 \<or> in_range k)"
| "pc_ok (Selected k) = (k < 0 \<or> in_range k)"
| "pc_ok (Sent k) = in_range k"
| "pc_ok (Sleeping k) = in_range k"
| "pc_ok (Freeing k v) = in_range k"
| "pc_ok _ = True"

definition slot_ok :: "(nat \<Rightarrow> send_pc) \<Rightarrow> nat \<Rightarrow> bool \<Rightarrow> loc_sync_req_data_s_type \<Rightarrow> bool" where
  "slot_ok P i u s \<longleftrightarrow> \<not> sync_req_lock s \<and> (u \<longleftrightarrow> (\<exists>t. holds (P t) i)) \<and> (u \<or> reset s = s)
     \<and> (ind_is_waiting s \<longleftrightarrow> (\<exists>t. P t = Sleeping (int i)))
     \<and> set (waiters (ind_arrived_cond s)) \<union> set (woken (ind_arrived_cond s)) = {t. P t = Sleeping (int i)}
     \<and> distinct (waiters (ind_arrived_cond s) @ woken (ind_arrived_cond s))"

definition slots_inv :: "(nat \<Rightarrow> send_pc) \<Rightarrow> sync_state \<Rightarrow> bool" where
  "slots_inv P g \<longleftrightarrow> quiet g \<and> (in_use (loc_sync_array g) \<longleftrightarrow> (\<exists>i < LOC_SYNC_REQ_BUFFER_SIZE. used_at g i))
     \<and> (\<forall>i < LOC_SYNC_REQ_BUFFER_SIZE. slot_ok P i (used_at g i) (slot_at g i))
     \<and> (\<forall>t. pc_ok (P t)) \<and> (\<forall>t u i. holds (P t) i \<longrightarrow> holds (P u) i \<longrightarrow> t = u)"

lemma slots_inv_quiet: "slots_inv P g \<Longrightarrow> quiet g"
  by (simp add: slots_inv_def)

lemma slots_invD:
  assumes "slots_inv P g"
  shows "i < LOC_SYNC_REQ_BUFFER_SIZE \<Longrightarrow> slot_ok P i (used_at g i) (slot_at g i)" and "pc_ok (P t)"
  using assms by (simp_all add: slots_inv_def)

lemma holds_sleeping: "holds (Sleeping (int i)) i"
  by (simp add: holds_def)

lemma slot_ok_frame:
  assumes "slot_ok P i u s" and "\<And>t. holds (P t) i \<or> holds (Q t) i \<Longrightarrow> Q t = P t"
  shows "slot_ok Q i u s"
proof -
  have "holds (Q t) i = holds (P t) i" "(Q t = Sleeping (int i)) = (P t = Sleeping (int i))" for t
    using assms(2) [of t] holds_sleeping [of i] by metis+
  with assms(1) show ?thesis unfolding slot_ok_def by auto
qed

text \<open>A step of thread \<open>t\<close> that concerns slot \<open>i\<close> only.\<close>

lemma slots_inv_step:
  assumes inv: "slots_inv P g" and i: "i < LOC_SYNC_REQ_BUFFER_SIZE"
    and t: "\<And>j. j \<noteq> i \<Longrightarrow> \<not> holds (P t) j \<and> \<not> holds pc' j" and own: "holds (P t) i \<or> \<not> used_at g i"
    and ok: "slot_ok (P(t := pc')) i u s" and pc: "pc_ok pc'"
    and g': "loc_sync_array g' = \<lparr>in_use = b, slot_in_use = (slot_in_use (loc_sync_array g))[i := u],
               slots = (slots (loc_sync_array g))[i := s]\<rparr>" "\<not> loc_sync_call_mutex g'"
    and b: "b \<longleftrightarrow> u \<or> (\<exists>j < LOC_SYNC_REQ_BUFFER_SIZE. j \<noteq> i \<and> used_at g j)"
  shows "slots_inv (P(t := pc')) g'"
proof -
  have l: "length (slot_in_use (loc_sync_array g)) = LOC_SYNC_REQ_BUFFER_SIZE"
    "length (slots (loc_sync_array g)) = LOC_SYNC_REQ_BUFFER_SIZE"
    using inv by (auto simp: slots_inv_def quiet_def)
  have slot: "slot_ok (P(t := pc')) j (used_at g' j) (slot_at g' j)" if j: "j < LOC_SYNC_REQ_BUFFER_SIZE" for j
  proof (cases "j = i")
    case True
    with ok l i g' show ?thesis by simp
  next
    case False
    have "slot_ok P j (used_at g j) (slot_at g j)" using inv j by (simp add: slots_inv_def)
    then have "slot_ok (P(t := pc')) j (used_at g j) (slot_at g j)"
      by (rule slot_ok_frame) (use t [OF False] in \<open>auto split: if_splits\<close>)
    with False g' show ?thesis by simp
  qed
  have "quiet g'" using slot l g' by (auto simp: quiet_def slot_ok_def)
  moreover have "in_use (loc_sync_array g') \<longleftrightarrow> (\<exists>j < LOC_SYNC_REQ_BUFFER_SIZE. used_at g' j)"
    using b g' l i by (auto simp: nth_list_update split: if_splits)
  moreover have "t' = u'" if "holds ((P(t := pc')) t') j" "holds ((P(t := pc')) u') j" for t' u' j
  proof -
    have uniq: "\<And>t u i. holds (P t) i \<Longrightarrow> holds (P u) i \<Longrightarrow> t = u" using inv by (simp add: slots_inv_def)
    have none: "\<not> holds (P v) i" if "v \<noteq> t" for v
      using own uniq that inv i unfolding slots_inv_def slot_ok_def by blast
    show ?thesis
    proof (cases "j = i")
      case True
      with that none show ?thesis by (metis fun_upd_apply)
    next
      case False
      with that t uniq show ?thesis by (metis fun_upd_apply)
    qed
  qed
  moreover have "pc_ok ((P(t := pc')) t')" for t' using inv pc by (simp add: slots_inv_def)
  ultimately show ?thesis unfolding slots_inv_def using slot by blast
qed

lemma slots_inv_noslot:
  assumes inv: "slots_inv P g" and "\<And>j. \<not> holds (P t) j \<and> \<not> holds pc' j" and "pc_ok pc'"
  shows "slots_inv (P(t := pc')) g"
proof -
  have uniq: "\<And>t u i. holds (P t) i \<Longrightarrow> holds (P u) i \<Longrightarrow> t = u" using inv by (simp add: slots_inv_def)
  have "slot_ok (P(t := pc')) i (used_at g i) (slot_at g i)" if "i < LOC_SYNC_REQ_BUFFER_SIZE" for i
    by (rule slot_ok_frame [of P]) (use inv that assms(2) in \<open>auto simp: slots_inv_def split: if_splits\<close>)
  moreover have "t' = u'" if "holds ((P(t := pc')) t') j" "holds ((P(t := pc')) u') j" for t' u' j
    using that assms(2) uniq by (metis fun_upd_apply)
  moreover have "pc_ok ((P(t := pc')) t')" for t' using inv assms(3) by (simp add: slots_inv_def)
  ultimately show ?thesis using inv unfolding slots_inv_def by blast
qed

text \<open>The owner of a slot.\<close>

lemma ownerD:
  assumes "slots_inv P g" and "holds (P t) i" and "i < LOC_SYNC_REQ_BUFFER_SIZE"
  shows "quiet g" "used_at g i" "in_use (loc_sync_array g)" "slot_ok P i (used_at g i) (slot_at g i)"
    "\<And>u. P u = Sleeping (int i) \<longleftrightarrow> u = t \<and> P t = Sleeping (int i)"
proof -
  show "quiet g" "slot_ok P i (used_at g i) (slot_at g i)" using assms(1,3) by (auto simp: slots_inv_def)
  then show "used_at g i" using assms(2) by (auto simp: slot_ok_def)
  then show "in_use (loc_sync_array g)" using assms(1,3) by (auto simp: slots_inv_def)
  show "P u = Sleeping (int i) \<longleftrightarrow> u = t \<and> P t = Sleeping (int i)" for u
    using assms(1,2) holds_sleeping unfolding slots_inv_def by metis
qed

lemma holds_other: "holds pc i \<Longrightarrow> j \<noteq> i \<Longrightarrow> \<not> holds pc j"
  by (auto simp: holds_def)

text \<open>The owner leaves the slot.\<close>

lemma slot_ok_left:
  assumes "\<And>u. u \<noteq> t \<Longrightarrow> \<not> holds (P u) i" and "\<And>j. \<not> holds pc' j" and "\<not> sync_req_lock s"
    and "waiters (ind_arrived_cond s) = []" and "woken (ind_arrived_cond s) = []"
  shows "slot_ok (P(t := pc')) i False (reset s)"
proof -
  have n: "\<not> holds ((P(t := pc')) u) i" for u using assms(1,2) by simp
  then have "(P(t := pc')) u \<noteq> Sleeping (int i)" for u by (metis holds_sleeping)
  with n assms(3-) show ?thesis by (simp add: slot_ok_def reset_def)
qed

lemma list_ex_used: "length (slot_in_use a) = n \<Longrightarrow> i < n \<Longrightarrow>
  list_ex id ((slot_in_use a)[i := False]) \<longleftrightarrow> (\<exists>j < n. j \<noteq> i \<and> slot_in_use a ! j)"
  by (auto simp: list_ex_length nth_list_update)

lemma slots_inv_free:
  assumes inv: "slots_inv P g" and own: "holds (P t) i" and i: "i < LOC_SYNC_REQ_BUFFER_SIZE"
    and "\<And>j. \<not> holds pc' j" and "pc_ok pc'" and s: "\<not> sync_req_lock s"
    "waiters (ind_arrived_cond s) = []" "woken (ind_arrived_cond s) = []"
  shows "slots_inv (P(t := pc')) (free_upd i (upd_slot i s g))"
proof (rule slots_inv_step [OF inv i])
  note o = ownerD [OF inv own i]
  have l: "length (slot_in_use (loc_sync_array g)) = LOC_SYNC_REQ_BUFFER_SIZE"
    "length (slots (loc_sync_array g)) = LOC_SYNC_REQ_BUFFER_SIZE" using quietD [OF o(1)] by auto
  have "\<not> holds (P u) i" if "u \<noteq> t" for u using inv own that unfolding slots_inv_def by blast
  then show "slot_ok (P(t := pc')) i False (reset s)" by (rule slot_ok_left) (use assms in auto)
  show "loc_sync_array (free_upd i (upd_slot i s g)) = \<lparr>in_use = (\<exists>j < LOC_SYNC_REQ_BUFFER_SIZE. j \<noteq> i \<and> used_at g j),
      slot_in_use = (slot_in_use (loc_sync_array g))[i := False], slots = (slots (loc_sync_array g))[i := reset s]\<rparr>"
    using o(3) l i list_ex_used [OF l(1) i]
    by (cases "loc_sync_array g") (simp add: free_upd_def upd_slot_def)
qed (use assms holds_other [OF own] quietD [OF ownerD(1) [OF inv own i]] in
    \<open>auto simp: free_upd_def upd_slot_def\<close>)

lemma slots_inv_upd:
  assumes inv: "slots_inv P g" and own: "holds (P t) i" and i: "i < LOC_SYNC_REQ_BUFFER_SIZE"
    and pc': "holds pc' i" "pc_ok pc'" and s: "slot_ok (P(t := pc')) i True s"
  shows "slots_inv (P(t := pc')) (upd_slot i s g)"
proof (rule slots_inv_step [OF inv i _ _ s pc'(2)])
  note o = ownerD [OF inv own i]
  have "(slot_in_use (loc_sync_array g))[i := True] = slot_in_use (loc_sync_array g)"
    using o(2) by (metis list_update_id)
  then show "loc_sync_array (upd_slot i s g) = \<lparr>in_use = True,
      slot_in_use = (slot_in_use (loc_sync_array g))[i := True], slots = (slots (loc_sync_array g))[i := s]\<rparr>"
    using o(3) by (cases "loc_sync_array g") (simp add: upd_slot_def)
qed (use own holds_other [OF own] holds_other [OF pc'(1)] quietD [OF ownerD(1) [OF inv own i]] in
    \<open>auto simp: upd_slot_def\<close>)

lemma in_rangeE: "in_range k \<Longrightarrow> (\<And>i. k = int i \<Longrightarrow> i < LOC_SYNC_REQ_BUFFER_SIZE \<Longrightarrow> thesis) \<Longrightarrow> thesis"
  by (metis in_range_def nonneg_int_cases of_nat_less_iff)

lemma in_range_int [simp]: "in_range (int i) \<longleftrightarrow> i < LOC_SYNC_REQ_BUFFER_SIZE"
  by (simp add: in_range_def)

lemma slot_ok_owner:
  assumes inv: "slots_inv P g" and own: "holds (P t) i" and i: "i < LOC_SYNC_REQ_BUFFER_SIZE"
    and awake: "P t \<noteq> Sleeping (int i)"
  shows "waiters (ind_arrived_cond (slot_at g i)) = []" "woken (ind_arrived_cond (slot_at g i)) = []"
    "\<not> ind_is_waiting (slot_at g i)"
    "\<And>pc' s. holds pc' i \<Longrightarrow> pc' \<noteq> Sleeping (int i) \<Longrightarrow> \<not> sync_req_lock s \<Longrightarrow> \<not> ind_is_waiting s
       \<Longrightarrow> ind_arrived_cond s = ind_arrived_cond (slot_at g i) \<Longrightarrow> slot_ok (P(t := pc')) i True s"
proof -
  note o = ownerD [OF inv own i]
  have no: "P u \<noteq> Sleeping (int i)" for u using o(5) [of u] awake by blast
  then show w: "waiters (ind_arrived_cond (slot_at g i)) = []" "woken (ind_arrived_cond (slot_at g i)) = []"
    "\<not> ind_is_waiting (slot_at g i)" using o(4) by (auto simp: slot_ok_def)
  show "slot_ok (P(t := pc')) i True s" if "holds pc' i" "pc' \<noteq> Sleeping (int i)" "\<not> sync_req_lock s"
    "\<not> ind_is_waiting s" "ind_arrived_cond s = ind_arrived_cond (slot_at g i)" for pc' s
    using that w no by (auto simp: slot_ok_def)
qed

lemma fill_simps [simp]: "ind_is_waiting (fill c ind req p s) = False"
  "ind_arrived_cond (fill c ind req p s) = ind_arrived_cond s"
  by (simp_all add: fill_def)

text \<open>Every step of a call returns, and keeps the invariant.\<close>

lemma send_req_idle:
  assumes inv: "slots_inv P g" and pc: "P t = Idle"
  shows "\<exists>pc' g'. loc_sync_send_req t c sent rc (P t) g = Some (pc', g') \<and> slots_inv (P(t := pc')) g'"
proof (cases "find (\<lambda>i. \<not> used_at g i) [0..<LOC_SYNC_REQ_BUFFER_SIZE]")
  case None
  have "slots_inv (P(t := Allocated (-1))) g"
    by (rule slots_inv_noslot [OF inv]) (auto simp: pc holds_def)
  with None pc show ?thesis by (simp add: loc_alloc_slot_eff [OF slots_inv_quiet [OF inv]])
next
  case (Some i)
  then have i: "i < LOC_SYNC_REQ_BUFFER_SIZE" "\<not> used_at g i" by (auto simp: find_Some_iff)
  have q: "quiet g" "slot_ok P i False (slot_at g i)" using slots_inv_quiet [OF inv] slots_invD(1) [OF inv i(1)] i(2) by simp_all
  have ok: "slot_ok (P(t := Allocated (int i))) i True (slot_at g i)"
  proof -
    have "((P(t := Allocated (int i))) u = Sleeping (int i)) = (P u = Sleeping (int i))" for u using pc by simp
    moreover have "\<exists>u. holds ((P(t := Allocated (int i))) u) i" by (rule exI [of _ t]) (simp add: holds_def)
    ultimately show ?thesis using q(2) by (simp add: slot_ok_def del: fun_upd_apply)
  qed
  have "slots_inv (P(t := Allocated (int i))) (alloc_upd i g)"
  proof (rule slots_inv_step [OF inv i(1) _ _ ok])
    show "loc_sync_array (alloc_upd i g) = \<lparr>in_use = True, slot_in_use = (slot_in_use (loc_sync_array g))[i := True],
        slots = (slots (loc_sync_array g))[i := slot_at g i]\<rparr>"
      by (cases "loc_sync_array g") (simp add: alloc_upd_def)
  qed (use quietD [OF q(1)] i pc in \<open>auto simp: holds_def alloc_upd_def\<close>)
  with Some q(1) pc show ?thesis by (simp add: loc_alloc_slot_eff)
qed

lemma send_req_allocated:
  assumes inv: "slots_inv P g" and pc: "P t = Allocated k"
  shows "\<exists>pc' g'. loc_sync_send_req t c sent rc (P t) g = Some (pc', g') \<and> slots_inv (P(t := pc')) g'"
proof (cases "k < 0")
  case True
  have "slots_inv (P(t := Selected (- ENOMEM))) g"
    by (rule slots_inv_noslot [OF inv]) (use True in \<open>auto simp: pc holds_def ENOMEM_def\<close>)
  with True pc show ?thesis by (simp add: select_fill_def)
next
  case False
  have "pc_ok (P t)" using inv by (simp add: slots_inv_def)
  with False pc obtain i where i: "k = int i" "i < LOC_SYNC_REQ_BUFFER_SIZE" by (auto elim: in_rangeE)
  have own: "holds (P t) i" using pc i by (simp add: holds_def)
  note o = ownerD [OF inv own i(2)] and so = slot_ok_owner [OF inv own i(2)]
  have "slots_inv (P(t := Selected (int i))) (upd_slot i (fill (c_handle c) (c_ind c) (c_req c) (c_ptr c) (slot_at g i)) g)"
    by (rule slots_inv_upd [OF inv own i(2)], simp add: holds_def, simp add: i, rule so(4))
      (use pc i quietD [OF o(1)] in \<open>auto simp: holds_def\<close>)
  with pc i o(1) show ?thesis by (simp add: select_fill_eff)
qed

lemma send_req_selected:
  assumes inv: "slots_inv P g" and pc: "P t = Selected k"
  shows "\<exists>pc' g'. loc_sync_send_req t c sent rc (P t) g = Some (pc', g') \<and> slots_inv (P(t := pc')) g'"
proof (cases "k < 0")
  case True
  have "slots_inv (P(t := Done eLOC_CLIENT_SUCCESS)) g"
    by (rule slots_inv_noslot [OF inv]) (use True in \<open>auto simp: pc holds_def\<close>)
  with True pc show ?thesis by simp
next
  case False
  with slots_invD(2) [OF inv, of t] pc obtain i where i: "k = int i" "i < LOC_SYNC_REQ_BUFFER_SIZE"
    by (auto elim: in_rangeE)
  have own: "holds (P t) i" using pc i by (simp add: holds_def)
  note o = ownerD [OF inv own i(2)] and so = slot_ok_owner [OF inv own i(2)]
  have l: "\<not> sync_req_lock (slot_at g i)" using quietD [OF o(1)] i(2) by simp
  have "slots_inv (P(t := Done sent)) (free_upd i (upd_slot i (slot_at g i) g))"
    by (rule slots_inv_free [OF inv own i(2) _ _ l]) (use pc so(1,2) in \<open>auto simp: holds_def\<close>)
  moreover have "slots_inv (P(t := Sent (int i))) (upd_slot i (slot_at g i) g)"
    by (rule slots_inv_upd [OF inv own i(2)], simp add: holds_def, simp add: i, rule so(4))
      (use pc so(3) l in \<open>auto simp: holds_def\<close>)
  ultimately show ?thesis using pc i o(1) by (simp add: loc_free_slot_eff)
qed

lemma slot_ok_sleep:
  assumes inv: "slots_inv P g" and own: "holds (P t) i" and i: "i < LOC_SYNC_REQ_BUFFER_SIZE"
    and awake: "P t \<noteq> Sleeping (int i)"
  shows "slot_ok (P(t := Sleeping (int i))) i True (sleep t (slot_at g i))"
proof -
  note o = ownerD [OF inv own i] and so = slot_ok_owner [OF inv own i awake]
  have e: "((P(t := Sleeping (int i))) u = Sleeping (int i)) = (u = t)" for u using o(5) [of u] awake by auto
  have h: "\<exists>u. holds ((P(t := Sleeping (int i))) u) i" by (rule exI [of _ t]) (simp add: holds_def)
  show ?thesis using so(1-3) quietD(4) [OF o(1) i] h
    by (simp add: slot_ok_def sleep_def e del: fun_upd_apply)
qed

lemma send_req_sent:
  assumes inv: "slots_inv P g" and pc: "P t = Sent k"
  shows "\<exists>pc' g'. loc_sync_send_req t c sent rc (P t) g = Some (pc', g') \<and> slots_inv (P(t := pc')) g'"
proof -
  from slots_invD(2) [OF inv, of t] pc obtain i where i: "k = int i" "i < LOC_SYNC_REQ_BUFFER_SIZE"
    by (auto elim: in_rangeE)
  have own: "holds (P t) i" and awake: "P t \<noteq> Sleeping (int i)" using pc i by (simp_all add: holds_def)
  note o = ownerD [OF inv own i(2)] and so = slot_ok_owner [OF inv own i(2) awake]
  have l: "\<not> sync_req_lock (slot_at g i)" using quietD [OF o(1)] i(2) by simp
  have "slots_inv (P(t := Freeing (int i) v)) (upd_slot i (slot_at g i) g)" for v
    by (rule slots_inv_upd [OF inv own i(2)], simp add: holds_def, simp add: i, rule so(4))
      (use so(3) l in \<open>auto simp: holds_def\<close>)
  moreover have "slots_inv (P(t := Sleeping (int i))) (upd_slot i (sleep t (slot_at g i)) g)"
    by (rule slots_inv_upd [OF inv own i(2) _ _ slot_ok_sleep [OF inv own i(2) awake]])
      (simp_all add: holds_def i)
  ultimately show ?thesis using pc i wait_eff [OF o(1) i(2) o(2), of t] so(3) by simp
qed

lemma remove1_only: "distinct (xs @ ys) \<Longrightarrow> set xs \<union> set ys = {t} \<Longrightarrow> remove1 t xs = [] \<and> remove1 t ys = []"
proof -
  assume d: "distinct (xs @ ys)" and s: "set xs \<union> set ys = {t}"
  have "set (remove1 t xs) = {}" "set (remove1 t ys) = {}" using d s by auto
  then show ?thesis by simp
qed

lemma send_req_sleeping:
  assumes inv: "slots_inv P g" and pc: "P t = Sleeping k"
  shows "\<exists>pc' g'. loc_sync_send_req t c sent rc (P t) g = Some (pc', g') \<and> slots_inv (P(t := pc')) g'"
proof -
  from slots_invD(2) [OF inv, of t] pc obtain i where i: "k = int i" "i < LOC_SYNC_REQ_BUFFER_SIZE"
    by (auto elim: in_rangeE)
  have own: "holds (P t) i" using pc i by (simp add: holds_def)
  note o = ownerD [OF inv own i(2)]
  have "{u. P u = Sleeping (int i)} = {t}" using o(5) pc i by auto
  then have w: "remove1 t (waiters (ind_arrived_cond (slot_at g i))) = []"
    "remove1 t (woken (ind_arrived_cond (slot_at g i))) = []"
    using o(4) remove1_only [of "waiters (ind_arrived_cond (slot_at g i))" "woken (ind_arrived_cond (slot_at g i))" t]
    by (auto simp: slot_ok_def)
  have "slot_ok (P(t := Freeing (int i) v)) i True (wake t (slot_at g i))" for v
  proof -
    have "(P(t := Freeing (int i) v)) u \<noteq> Sleeping (int i)" for u using o(5) [of u] by auto
    moreover have "\<exists>u. holds ((P(t := Freeing (int i) v)) u) i" by (rule exI [of _ t]) (simp add: holds_def)
    ultimately show ?thesis
      using quietD(4) [OF o(1) i(2)] w by (simp add: slot_ok_def wake_def del: fun_upd_apply)
  qed
  then have "slots_inv (P(t := Freeing (int i) v)) (upd_slot i (wake t (slot_at g i)) g)" for v
    by (intro slots_inv_upd [OF inv own i(2)]) (simp_all add: holds_def i)
  then show ?thesis using pc i wake_eff [OF o(1) i(2)] by simp
qed

lemma send_req_freeing:
  assumes inv: "slots_inv P g" and pc: "P t = Freeing k v"
  shows "\<exists>pc' g'. loc_sync_send_req t c sent rc (P t) g = Some (pc', g') \<and> slots_inv (P(t := pc')) g'"
proof -
  from slots_invD(2) [OF inv, of t] pc obtain i where i: "k = int i" "i < LOC_SYNC_REQ_BUFFER_SIZE"
    by (auto elim: in_rangeE)
  have own: "holds (P t) i" and awake: "P t \<noteq> Sleeping (int i)" using pc i by (simp_all add: holds_def)
  note o = ownerD [OF inv own i(2)] and so = slot_ok_owner [OF inv own i(2) awake]
  have l: "\<not> sync_req_lock (slot_at g i)" using quietD [OF o(1)] i(2) by simp
  have "slots_inv (P(t := Done r)) (free_upd i (upd_slot i (slot_at g i) g))" for r
    by (rule slots_inv_free [OF inv own i(2) _ _ l]) (use so(1,2) in \<open>auto simp: holds_def\<close>)
  then show ?thesis using pc i o(1) by (simp add: loc_free_slot_eff)
qed

lemma send_req_step:
  assumes "slots_inv P g"
  shows "\<exists>pc' g'. loc_sync_send_req t c sent rc (P t) g = Some (pc', g') \<and> slots_inv (P(t := pc')) g'"
proof (cases "P t")
  case (Done r)
  then have "P(t := Done r) = P" by auto
  with Done assms show ?thesis by simp
qed (blast intro: assms send_req_idle send_req_allocated send_req_selected send_req_sent send_req_sleeping
    send_req_freeing)+

text \<open>Indications.\<close>

lemma cond_signal_threads:
  assumes d: "distinct (waiters c @ woken c)"
  shows "set (waiters (cond_signal k c)) \<union> set (woken (cond_signal k c)) = set (waiters c) \<union> set (woken c)"
    and "distinct (waiters (cond_signal k c) @ woken (cond_signal k c))"
proof -
  let ?t = "waiters c ! (k mod length (waiters c))"
  have "set (waiters (cond_signal k c)) \<union> set (woken (cond_signal k c)) = set (waiters c) \<union> set (woken c)
    \<and> distinct (waiters (cond_signal k c) @ woken (cond_signal k c))"
  proof (cases "waiters c = []")
    case False
    then have t: "?t \<in> set (waiters c)" by simp
    moreover from this d have "?t \<notin> set (woken c)" by auto
    ultimately show ?thesis using False d by (auto simp: cond_signal_def Let_def)
  qed (use d in \<open>simp add: cond_signal_def\<close>)
  then show "set (waiters (cond_signal k c)) \<union> set (woken (cond_signal k c)) = set (waiters c) \<union> set (woken c)"
    "distinct (waiters (cond_signal k c) @ woken (cond_signal k c))" by auto
qed

lemma slot_ok_deliver:
  assumes "slot_ok P i True s"
  shows "slot_ok P i True (deliver k s)"
proof -
  have "distinct (waiters (ind_arrived_cond s) @ woken (ind_arrived_cond s))"
    using assms unfolding slot_ok_def by blast
  from cond_signal_threads [OF this, of k] assms show ?thesis
    unfolding slot_ok_def deliver_def by auto
qed

lemma slots_inv_deliver:
  assumes inv: "slots_inv P g" and i: "i < LOC_SYNC_REQ_BUFFER_SIZE" and used: "used_at g i"
  shows "slots_inv P ((upd_slot i (deliver k (slot_at g i)) g)\<lparr>mem := m\<rparr>)"
proof -
  obtain t where own: "holds (P t) i" using slots_invD(1) [OF inv i] used by (auto simp: slot_ok_def)
  have "slot_ok P i True (deliver k (slot_at g i))"
    using slots_invD(1) [OF inv i] used by (simp add: slot_ok_deliver)
  then have "slots_inv (P(t := P t)) (upd_slot i (deliver k (slot_at g i)) g)"
    by (intro slots_inv_upd [OF inv own i own slots_invD(2) [OF inv]]) simp
  then have "slots_inv P (upd_slot i (deliver k (slot_at g i)) g)" by simp
  then show ?thesis by (simp add: slots_inv_def quiet_def)
qed

lemma mem_idem [simp]: "g\<lparr>mem := mem g\<rparr> = (g :: sync_state)"
  by (cases g) simp

lemma process_slot_inv:
  assumes inv: "slots_inv P g" and i: "i < LOC_SYNC_REQ_BUFFER_SIZE"
    and run: "process_slot k c ind p n i g = Some (b, g')"
  shows "slots_inv P g' \<and> slot_in_use (loc_sync_array g') = slot_in_use (loc_sync_array g)
    \<and> in_use (loc_sync_array g') = in_use (loc_sync_array g)"
proof (cases "matches c ind g i")
  case True
  then have "used_at g i" by (simp add: matches_def)
  note d = slots_inv_deliver [OF inv i this]
  have "\<exists>m. g' = (upd_slot i (deliver k (slot_at g i)) g)\<lparr>mem := m\<rparr>"
    using run True process_slot_eff [OF slots_inv_quiet [OF inv] i]
    by (auto split: if_splits intro: exI [of _ "mem (upd_slot i (deliver k (slot_at g i)) g)"])
  with d show ?thesis by (auto simp: upd_slot_def)
next
  case False
  with run inv process_slot_eff [OF slots_inv_quiet [OF inv] i] show ?thesis by simp
qed

lemma process_loop_inv:
  "process_loop k c ind p n is b g = Some (b', g') \<Longrightarrow> slots_inv P g \<Longrightarrow>
   (\<forall>i \<in> set is. i < LOC_SYNC_REQ_BUFFER_SIZE) \<Longrightarrow> slots_inv P g'
     \<and> in_use (loc_sync_array g') = in_use (loc_sync_array g) \<and> (b' \<or> (\<not> b \<and> (\<forall>i \<in> set is. \<not> used_at g i)))"
proof (induction "is" arbitrary: b g)
  case (Cons i "is")
  have i: "i < LOC_SYNC_REQ_BUFFER_SIZE" using Cons.prems by simp
  have u: "get_slot_in_use i g = Some (used_at g i)"
    using slots_inv_quiet [OF Cons.prems(2)] i by (simp add: get_slot_in_use_def quiet_def)
  then obtain d g1 where p: "process_slot k c ind p n i g = Some (d, g1)"
    and rest: "(if d then Some (b \<or> used_at g i, g1) else process_loop k c ind p n is (b \<or> used_at g i) g1) = Some (b', g')"
    using Cons.prems(1) by (auto split: Option.bind_splits)
  note inv1 = process_slot_inv [OF Cons.prems(2) i p]
  show ?case
  proof (cases d)
    case True
    have "used_at g i"
      using p True process_slot_eff [OF slots_inv_quiet [OF Cons.prems(2)] i, of k c ind p n]
      by (auto simp: matches_def split: if_splits)
    with rest True inv1 show ?thesis by auto
  next
    case False
    with rest Cons.IH [of "b \<or> used_at g i" g1] inv1 Cons.prems(3) show ?thesis by auto
  qed
qed simp

text \<open>The loop runs under the lock of the module, which it does not look at.\<close>

abbreviation hold :: "sync_state \<Rightarrow> sync_state" where
  "hold g \<equiv> g\<lparr>loc_sync_call_mutex := True\<rparr>"

lemma process_slot_hold:
  "process_slot k c ind p n i (hold g) = map_option (map_prod id hold) (process_slot k c ind p n i g)"
  by (simp add: process_slot_def slot_defs split: Option.bind_split)

lemma process_loop_hold:
  "process_loop k c ind p n is b (hold g) = map_option (map_prod id hold) (process_loop k c ind p n is b g)"
proof (induction "is" arbitrary: b g)
  case (Cons i "is")
  have "get_slot_in_use i (hold g) = get_slot_in_use i g" by (simp add: get_slot_in_use_def)
  then show ?case
    by (cases "get_slot_in_use i g"; cases "process_slot k c ind p n i g") (auto simp: process_slot_hold Cons.IH)
qed simp

lemma process_slot_mutex:
  "process_slot k c ind p n i g = Some (b, g') \<Longrightarrow> loc_sync_call_mutex g' = loc_sync_call_mutex g"
  by (auto simp: process_slot_def slot_defs split: Option.bind_splits if_splits)

lemma process_loop_mutex:
  "process_loop k c ind p n is b g = Some (b', g') \<Longrightarrow> loc_sync_call_mutex g' = loc_sync_call_mutex g"
  by (induction "is" arbitrary: b g) (auto dest: process_slot_mutex split: Option.bind_splits if_splits)

lemma process_ind_eff:
  assumes "quiet g"
  shows "loc_sync_process_ind k c ind p n g =
     (if \<not> in_use (loc_sync_array g) then Some g
      else map_option (\<lambda>(b, g'). if b then g' else arr_upd (\<lambda>a. a\<lparr>in_use := False\<rparr>) g')
             (process_loop k c ind p n [0..<LOC_SYNC_REQ_BUFFER_SIZE] False g))"
proof -
  have l: "call_lock g = Some (hold g)" "loc_sync_call_mutex g = False"
    using assms by (auto simp: call_lock_def quiet_def)
  show ?thesis
  proof (cases "process_loop k c ind p n [0..<LOC_SYNC_REQ_BUFFER_SIZE] False g")
    case None
    with l show ?thesis by (simp add: loc_sync_process_ind_def process_loop_hold call_unlock_def)
  next
    case (Some r)
    then obtain b g' where r: "process_loop k c ind p n [0..<LOC_SYNC_REQ_BUFFER_SIZE] False g = Some (b, g')"
      by (cases r) auto
    have "loc_sync_call_mutex g' = loc_sync_call_mutex g" using process_loop_mutex [OF r] .
    with l r show ?thesis by (simp add: loc_sync_process_ind_def process_loop_hold call_unlock_def)
  qed
qed

lemma process_ind_inv:
  assumes inv: "slots_inv P g" and run: "loc_sync_process_ind k c ind p n g = Some g'"
  shows "slots_inv P g'"
proof (cases "in_use (loc_sync_array g)")
  case False
  with run process_ind_eff [OF slots_inv_quiet [OF inv]] inv show ?thesis by simp
next
  case True
  then obtain b g1 where r: "process_loop k c ind p n [0..<LOC_SYNC_REQ_BUFFER_SIZE] False g = Some (b, g1)"
    and g': "g' = (if b then g1 else arr_upd (\<lambda>a. a\<lparr>in_use := False\<rparr>) g1)"
    using run process_ind_eff [OF slots_inv_quiet [OF inv]] by auto
  from process_loop_inv [OF r inv]
  have "slots_inv P g1" "b \<or> (\<forall>i < LOC_SYNC_REQ_BUFFER_SIZE. \<not> used_at g i)" by auto
  with True inv g' show ?thesis by (auto simp: slots_inv_def)
qed

lemma init_slots_fresh:
  "\<lbrakk>\<forall>i \<in> set is. i < length (slots (loc_sync_array g)) \<and> slot_at g i = fresh_slot\<rbrakk> \<Longrightarrow> init_slots is g = Some g"
proof (induction "is")
  case (Cons i "is")
  have "set_slot i fresh_slot g = Some g"
    using Cons.prems by (cases g; cases "loc_sync_array g") (auto simp: set_slot_def list_update_same_conv)
  with Cons show ?case by simp
qed simp

lemma init_zero: "loc_sync_req_init (sync_zero m) = Some ((sync_zero m)\<lparr>loc_sync_call_initialized := True\<rparr>)"
  by (simp add: loc_sync_req_init_def call_lock_def call_unlock_def sync_zero_def init_slots_fresh)

lemma init_inv: "loc_sync_req_init (sync_zero m) = Some g \<Longrightarrow> slots_inv (\<lambda>_. Idle) g"
proof -
  assume "loc_sync_req_init (sync_zero m) = Some g"
  then have g: "g = (sync_zero m)\<lparr>loc_sync_call_initialized := True\<rparr>" by (simp add: init_zero)
  show ?thesis
    by (auto simp: g sync_zero_def slots_inv_def quiet_def slot_ok_def holds_def fresh_slot_def reset_def)
qed

lemma reach_inv: "sync_reach cs m s \<Longrightarrow> slots_inv (pcs s) (glob s)"
proof (induction rule: sync_reach.induct)
  case (init g)
  then show ?case by (simp add: init_inv)
next
  case (step s s')
  from step.hyps(2) step.IH show ?case
  proof (cases rule: sync_step.cases)
    case (call t sent rc pc' g')
    with send_req_step [OF step.IH, of t "calls s t" sent rc] show ?thesis by (auto simp del: fun_upd_apply)
  next
    case (again t r c)
    with slots_inv_noslot [OF step.IH, of t Idle] show ?thesis by (auto simp: holds_def simp del: fun_upd_apply)
  next
    case (indication k c ind p n g')
    with process_ind_inv [OF step.IH] show ?thesis by auto
  qed
qed

text \<open>The slot of a call that was filled in holds the arguments of the call.\<close>

definition bound_to :: "loc_sync_req_data_s_type \<Rightarrow> sync_call \<Rightarrow> bool" where
  "bound_to s c \<longleftrightarrow> client_handle s = c_handle c \<and> recv_ind_id s = c_ind c \<and> recv_ind_payload_ptr s = c_ptr c"

definition serves :: "send_pc \<Rightarrow> nat \<Rightarrow> bool" where
  "serves pc i \<longleftrightarrow> pc \<in> {Selected (int i), Sent (int i), Sleeping (int i)} \<or> (\<exists>v. pc = Freeing (int i) v)"

lemma serves_holds: "serves pc i \<Longrightarrow> holds pc i"
  by (auto simp: serves_def holds_def)

definition calls_bound :: "(nat \<Rightarrow> send_pc) \<Rightarrow> (nat \<Rightarrow> sync_call) \<Rightarrow> sync_state \<Rightarrow> bool" where
  "calls_bound P C g \<longleftrightarrow> (\<forall>t i. i < LOC_SYNC_REQ_BUFFER_SIZE \<longrightarrow> serves (P t) i \<longrightarrow> bound_to (slot_at g i) (C t))"

lemma slot_at_upds [simp]:
  "j \<noteq> i \<Longrightarrow> slot_at (upd_slot i s g) j = slot_at g j" "j \<noteq> i \<Longrightarrow> slot_at (free_upd i g) j = slot_at g j"
  "slot_at (alloc_upd i g) j = slot_at g j"
  "quiet g \<Longrightarrow> i < LOC_SYNC_REQ_BUFFER_SIZE \<Longrightarrow> slot_at (upd_slot i s g) i = s"
  by (auto simp: upd_slot_def free_upd_def alloc_upd_def quiet_def)

lemma pc_cases:
  assumes "pc_ok pc" and "pc = Idle \<Longrightarrow> thesis" and "\<And>r. pc = Done r \<Longrightarrow> thesis"
    and "\<And>k. pc = Allocated k \<Longrightarrow> k < 0 \<Longrightarrow> thesis" and "\<And>k. pc = Selected k \<Longrightarrow> k < 0 \<Longrightarrow> thesis"
    and "\<And>i. i < LOC_SYNC_REQ_BUFFER_SIZE \<Longrightarrow> holds pc i \<Longrightarrow>
      pc = Allocated (int i) \<or> pc = Selected (int i) \<or> pc = Sent (int i) \<or> pc = Sleeping (int i)
        \<or> (\<exists>v. pc = Freeing (int i) v) \<Longrightarrow> thesis"
  shows thesis
  using assms by (cases pc) (auto simp: holds_def elim!: in_rangeE)

lemma bound_simps [simp]: "bound_to (sleep t s) c = bound_to s c" "bound_to (wake t s) c = bound_to s c" "bound_to (deliver k s) c = bound_to s c"
  "bound_to (fill (c_handle c) (c_ind c) req (c_ptr c) s) c"
  by (auto simp: bound_to_def sleep_def wake_def deliver_def fill_def)

lemma send_req_slots:
  assumes inv: "slots_inv P g" and run: "loc_sync_send_req t c sent rc (P t) g = Some (pc', g')"
    and j: "j < LOC_SYNC_REQ_BUFFER_SIZE"
  shows "(holds (P t) j \<or> slot_at g' j = slot_at g j)
    \<and> (serves pc' j \<longrightarrow> bound_to (slot_at g' j) c
         \<or> (serves (P t) j \<and> (bound_to (slot_at g j) c \<longrightarrow> bound_to (slot_at g' j) c)))"
proof (rule pc_cases [OF slots_invD(2) [OF inv, of t]])
  note q = slots_inv_quiet [OF inv]
  assume "P t = Idle"
  with run q show ?thesis by (auto simp: loc_alloc_slot_eff serves_def split: option.splits)
next
  note q = slots_inv_quiet [OF inv]
  fix i
  assume i: "i < LOC_SYNC_REQ_BUFFER_SIZE" and own: "holds (P t) i"
    and pc: "P t = Allocated (int i) \<or> P t = Selected (int i) \<or> P t = Sent (int i) \<or> P t = Sleeping (int i)
      \<or> (\<exists>v. P t = Freeing (int i) v)"
  note e = select_fill_eff [OF q i] loc_free_slot_eff [OF q i] wait_eff [OF q i ownerD(2) [OF inv own i]] wake_eff [OF q i]
  have h: "holds (P t) j \<longleftrightarrow> j = i" using own holds_other [OF own] by blast
  show ?thesis
    using pc run h q i
    by (elim disjE exE) (cases "j = i"; auto simp: e serves_def split: if_splits)+
qed (use run in \<open>auto simp: select_fill_def serves_def ENOMEM_def\<close>)

lemma process_slot_bound:
  assumes inv: "slots_inv P g" and i: "i < LOC_SYNC_REQ_BUFFER_SIZE" and j: "j < LOC_SYNC_REQ_BUFFER_SIZE"
    and run: "process_slot k c ind p n i g = Some (b, g')"
  shows "bound_to (slot_at g' j) x = bound_to (slot_at g j) x"
proof -
  note q = slots_inv_quiet [OF inv]
  have "slot_at ((upd_slot i s g)\<lparr>mem := m\<rparr>) j = slot_at (upd_slot i s g) j" for s m by (simp add: upd_slot_def)
  with run process_slot_eff [OF q i, of k c ind p n] q i show ?thesis
    by (cases "j = i") (auto split: if_splits)
qed

lemma process_loop_bound:
  "process_loop k c ind p n is b g = Some (b', g') \<Longrightarrow> slots_inv P g \<Longrightarrow> j < LOC_SYNC_REQ_BUFFER_SIZE \<Longrightarrow>
   (\<forall>i \<in> set is. i < LOC_SYNC_REQ_BUFFER_SIZE) \<Longrightarrow> bound_to (slot_at g' j) x = bound_to (slot_at g j) x"
proof (induction "is" arbitrary: b g)
  case (Cons i "is")
  then obtain u d g1 where p: "process_slot k c ind p n i g = Some (d, g1)"
    and rest: "(if d then Some (b \<or> u, g1) else process_loop k c ind p n is (b \<or> u) g1) = Some (b', g')"
    by (auto split: Option.bind_splits)
  have "bound_to (slot_at g1 j) x = bound_to (slot_at g j) x" "slots_inv P g1"
    using process_slot_bound [OF _ _ _ p] process_slot_inv [OF _ _ p] Cons.prems by auto
  with rest Cons.IH [of "b \<or> u" g1] Cons.prems(3,4) show ?case by (auto split: if_splits)
qed simp

lemma process_ind_bound:
  assumes inv: "slots_inv P g" and run: "loc_sync_process_ind k c ind p n g = Some g'"
    and j: "j < LOC_SYNC_REQ_BUFFER_SIZE"
  shows "bound_to (slot_at g' j) x = bound_to (slot_at g j) x"
  using run process_ind_eff [OF slots_inv_quiet [OF inv]] process_loop_bound [OF _ inv j]
  by (auto split: if_splits)

lemma reach_bound: "sync_reach cs m s \<Longrightarrow> calls_bound (pcs s) (calls s) (glob s)"
proof (induction rule: sync_reach.induct)
  case (init g)
  then show ?case by (simp add: calls_bound_def serves_def)
next
  case (step s s')
  note inv = reach_inv [OF step.hyps(1)]
  from step.hyps(2) show ?case
  proof (cases rule: sync_step.cases)
    case (call t sent rc pc' g')
    have "bound_to (slot_at g' i) (calls s u)" if i: "i < LOC_SYNC_REQ_BUFFER_SIZE" and u: "serves (((pcs s)(t := pc')) u) i" for u i
    proof (cases "u = t")
      case True
      with send_req_slots [OF inv call(2) i] u step.IH i show ?thesis by (auto simp: calls_bound_def)
    next
      case False
      then have s: "serves (pcs s u) i" using u by simp
      then have "\<not> holds (pcs s t) i"
        using inv False serves_holds unfolding slots_inv_def by metis
      then have "slot_at g' i = slot_at (glob s) i" using send_req_slots [OF inv call(2) i] by blast
      with s step.IH i show ?thesis by (simp add: calls_bound_def)
    qed
    with call show ?thesis by (simp add: calls_bound_def)
  next
    case (again t r c)
    with step.IH show ?thesis by (auto simp: calls_bound_def serves_def)
  next
    case (indication k c ind p n g')
    with step.IH process_ind_bound [OF inv indication(2)] show ?thesis by (auto simp: calls_bound_def)
  qed
qed

section \<open>Delivery\<close>

lemma process_loop_skip:
  assumes "quiet g" and "\<forall>j \<in> set xs. j < LOC_SYNC_REQ_BUFFER_SIZE \<and> \<not> matches c ind g j"
  shows "process_loop k c ind p n (xs @ ys) b g = process_loop k c ind p n ys (b \<or> (\<exists>j \<in> set xs. used_at g j)) g"
  using assms(2)
proof (induction xs arbitrary: b)
  case (Cons x xs)
  then show ?case
    using assms(1) process_slot_eff [OF assms(1), of x k c ind p n] lock_eff(4) [OF assms(1), of x]
    by (simp add: disj_assoc)
qed simp

text \<open>An indication with a payload goes to the first slot that waits for it, and to no other.\<close>

lemma process_ind_deliver:
  assumes inv: "slots_inv P g" and i: "i < LOC_SYNC_REQ_BUFFER_SIZE" and m: "matches c ind g i"
    and first: "\<forall>j < i. \<not> matches c ind g j" and cp: "copies p n g i"
    and mc: "memcpy (mem g) (recv_ind_payload_ptr (slot_at g i)) p (unat n) = Some m'"
  shows "loc_sync_process_ind k c ind p n g = Some ((upd_slot i (deliver k (slot_at g i)) g)\<lparr>mem := m'\<rparr>)"
proof -
  note q = slots_inv_quiet [OF inv]
  have u: "used_at g i" using m by (simp add: matches_def)
  with inv i have use: "in_use (loc_sync_array g)" by (auto simp: slots_inv_def)
  have "[0..<LOC_SYNC_REQ_BUFFER_SIZE] = [0..<i] @ i # [Suc i..<LOC_SYNC_REQ_BUFFER_SIZE]"
    using i by (metis append_Cons append_Nil append_assoc le_add_diff_inverse less_imp_le upt_add_eq_append upt_conv_Cons zero_le)
  moreover have "process_loop k c ind p n ([0..<i] @ i # [Suc i..<LOC_SYNC_REQ_BUFFER_SIZE]) False g
      = Some (True, (upd_slot i (deliver k (slot_at g i)) g)\<lparr>mem := m'\<rparr>)"
    using process_loop_skip [OF q, of "[0..<i]" c ind k p n] first i m cp mc u lock_eff(4) [OF q i]
    by (simp add: process_slot_eff [OF q i])
  ultimately show ?thesis using process_ind_eff [OF q, of k c ind p n] use by simp
qed

lemma free_upd_simps [simp]:
  "mem (free_upd i g) = mem g" "mem (upd_slot i s g) = mem g"
  "quiet g \<Longrightarrow> i < LOC_SYNC_REQ_BUFFER_SIZE \<Longrightarrow> \<not> used_at (free_upd i g) i"
  "used_at (upd_slot i s g) j = used_at g j"
  by (auto simp: free_upd_def upd_slot_def quiet_def)

lemma signal_only:
  assumes "set (waiters c) \<union> set (woken c) = {t}" and "distinct (waiters c @ woken c)"
  shows "t \<in> set (woken (cond_signal k c))"
proof (cases "waiters c = []")
  case True
  with assms(1) show ?thesis by (auto simp: cond_signal_def)
next
  case False
  then have "waiters c ! (k mod length (waiters c)) \<in> set (waiters c)" by simp
  with False assms(1) show ?thesis by (auto simp: cond_signal_def Let_def)
qed

lemma owner_index: "slots_inv P g \<Longrightarrow> P t = Sent (int i) \<or> P t = Sleeping (int i) \<Longrightarrow>
  holds (P t) i \<and> serves (P t) i \<and> i < LOC_SYNC_REQ_BUFFER_SIZE"
  using slots_invD(2) [of P g t] by (auto simp: holds_def serves_def)

section \<open>Concrete runs\<close>

datatype sync_act =
    Act_call nat locClientStatusEnumType int
  | Act_ind nat locClientHandleType "32 word" addr "32 word"

fun run_sync :: "sync_act list \<Rightarrow> sync_sys \<Rightarrow> sync_sys option" where
  "run_sync [] s = Some s"
| "run_sync (Act_call t sent rc # as) s = do {
     (pc', g') \<leftarrow> loc_sync_send_req t (calls s t) sent rc (pcs s t) (glob s);
     run_sync as (s\<lparr>pcs := (pcs s)(t := pc'), glob := g'\<rparr>) }"
| "run_sync (Act_ind k c ind p n # as) s = do {
     g' \<leftarrow> loc_sync_process_ind k c ind p n (glob s);
     run_sync as (s\<lparr>glob := g'\<rparr>) }"

lemma run_sync_reach: "run_sync as s = Some s' \<Longrightarrow> sync_reach cs m s \<Longrightarrow> sync_reach cs m s'"
proof (induction as arbitrary: s)
  case (Cons a as)
  have "\<exists>s1. sync_step s s1 \<and> run_sync as s1 = Some s'"
    using Cons.prems(1) by (cases a) (auto split: Option.bind_splits intro: sync_step.intros)
  with Cons show ?case by (blast intro: sync_reach.step)
qed simp

definition demo_calls :: "nat \<Rightarrow> sync_call" where
  "demo_calls t = \<lparr>c_handle = 7, c_req = 33, c_ind = 33, c_ptr = 100 + t\<rparr>"

definition demo_mem :: "addr \<rightharpoonup> 8 word list" where
  "demo_mem = [100 \<mapsto> [0, 0, 0], 101 \<mapsto> [0, 0, 0], 200 \<mapsto> [5, 6], 201 \<mapsto> [7, 8]]"

definition demo_start :: sync_sys where
  "demo_start = \<lparr>pcs = (\<lambda>_. Idle), calls = demo_calls, glob = (sync_zero demo_mem)\<lparr>loc_sync_call_initialized := True\<rparr>\<rparr>"

lemma demo_reach: "run_sync as demo_start = Some s \<Longrightarrow> sync_reach demo_calls demo_mem s"
  by (erule run_sync_reach) (auto simp: demo_start_def init_zero intro: sync_reach.init)

lemmas demo_simps = demo_start_def demo_calls_def demo_mem_def sync_zero_def fresh_slot_def
  loc_alloc_slot_def LOC_SYNC_REQ_BUFFER_SIZE_def select_fill_def slot_defs loc_sync_wait_for_ind_def

definition demo_call :: "nat \<Rightarrow> sync_act list" where
  "demo_call t = replicate 4 (Act_call t eLOC_CLIENT_SUCCESS 0)"

section \<open>Properties\<close>

text \<open>C12. Slots are exclusive and never leak, and no call blocks on a lock: in every interleaving
  of any number of synchronous requests with arriving indications, two requests never hold the
  same slot, a slot is marked as in use exactly while a request holds it, the flag of the array
  says exactly whether some slot is held, and every step of every request can be taken.\<close>

theorem sync_slots_exclusive:
  assumes "sync_reach cs m s"
  shows "(\<forall>t u i. holds (pcs s t) i \<and> holds (pcs s u) i \<longrightarrow> t = u)
     \<and> (\<forall>i < LOC_SYNC_REQ_BUFFER_SIZE. used_at (glob s) i = (\<exists>t. holds (pcs s t) i))
     \<and> in_use (loc_sync_array (glob s)) = (\<exists>i < LOC_SYNC_REQ_BUFFER_SIZE. \<exists>t. holds (pcs s t) i)
     \<and> (\<forall>t c sent rc. loc_sync_send_req t c sent rc (pcs s t) (glob s) \<noteq> None)"
proof -
  note inv = reach_inv [OF assms]
  have "used_at (glob s) i = (\<exists>t. holds (pcs s t) i)" if "i < LOC_SYNC_REQ_BUFFER_SIZE" for i
    using slots_invD(1) [OF inv that] by (simp add: slot_ok_def)
  moreover have "loc_sync_send_req t c sent rc (pcs s t) (glob s) \<noteq> None" for t c sent rc
    using send_req_step [OF inv, of t c sent rc] by auto
  ultimately show ?thesis using inv unfolding slots_inv_def by blast
qed

theorem sync_slots_exclusive_witness:
  "\<exists>s. sync_reach demo_calls demo_mem s \<and> pcs s 0 = Sleeping 0 \<and> used_at (glob s) 0
     \<and> in_use (loc_sync_array (glob s)) \<and> loc_sync_send_req 1 (demo_calls 1) eLOC_CLIENT_SUCCESS 0 (pcs s 1) (glob s) \<noteq> None"
proof -
  obtain s where s: "run_sync (demo_call 0) demo_start = Some s" "pcs s 0 = Sleeping 0" "used_at (glob s) 0"
    by (simp add: demo_simps demo_call_def eval_nat_numeral)
  have n: "0 < LOC_SYNC_REQ_BUFFER_SIZE" by (simp add: LOC_SYNC_REQ_BUFFER_SIZE_def)
  note ex = sync_slots_exclusive [OF demo_reach [OF s(1)]]
  show ?thesis by (rule exI [of _ s]) (use ex s n demo_reach [OF s(1)] in blast)
qed

text \<open>C11. The indication a request waits for reaches it, whether it comes before the caller waits or
  while it sleeps. Let a call have sent its request (it is about to wait, or asleep) and let no
  indication have been recorded in its slot yet. When an indication of its client with the number it
  waits for arrives, with a payload of at least one byte that fits into the caller's (non-null)
  buffer, and no slot before the call's own waits for the same indication of the same client, then
  the payload is copied into the caller's buffer, a sleeping caller is released, and when the caller
  is the next to run (its wait not having timed out) it ends its wait with success, frees its
  slot and returns success, the payload still in place. The condition on the earlier slots is needed: of
  two requests of one client for the same indication only the first slot is served, and a second
  indication before that caller has run goes to the same slot again.\<close>

theorem sync_request_served:
  assumes reach: "sync_reach cs m s" and pc: "pcs s t = Sent (int i) \<or> pcs s t = Sleeping (int i)"
    and na: "\<not> ind_has_arrived (slot_at (glob s) i)"
    and first: "\<forall>j < i. \<not> matches (c_handle (calls s t)) (c_ind (calls s t)) (glob s) j"
    and buf: "mem (glob s) (c_ptr (calls s t)) = Some buf" "c_ptr (calls s t) \<noteq> NULL" "unat n \<le> length buf"
    and dat: "mem (glob s) p = Some dat" "p \<noteq> NULL" "unat n \<le> length dat" "p \<noteq> c_ptr (calls s t)" "0 < n"
  shows "\<exists>g' g1 g''. loc_sync_process_ind k (c_handle (calls s t)) (c_ind (calls s t)) p n (glob s) = Some g'
     \<and> mem g' (c_ptr (calls s t)) = Some (take (unat n) dat @ drop (unat n) buf)
     \<and> (pcs s t = Sent (int i) \<or> t \<in> set (woken (ind_arrived_cond (slot_at g' i))))
     \<and> loc_sync_send_req t (calls s t) sent 0 (pcs s t) g' = Some (Freeing (int i) 0, g1)
     \<and> loc_sync_send_req t (calls s t) sent 0 (Freeing (int i) 0) g1 = Some (Done eLOC_CLIENT_SUCCESS, g'')
     \<and> mem g'' = mem g' \<and> \<not> used_at g'' i"
proof -
  note inv = reach_inv [OF reach]
  let ?g = "glob s" and ?c = "calls s t"
  have own: "holds (pcs s t) i" "serves (pcs s t) i" and i: "i < LOC_SYNC_REQ_BUFFER_SIZE"
    using owner_index [OF inv pc] by auto
  note o = ownerD [OF inv own(1) i]
  have b: "bound_to (slot_at ?g i) ?c" using reach_bound [OF reach] own(2) i by (simp add: calls_bound_def)
  then have m: "matches (c_handle ?c) (c_ind ?c) ?g i" "copies p n ?g i" "recv_ind_payload_ptr (slot_at ?g i) = c_ptr ?c"
    using o(2) na buf(2) dat by (auto simp: bound_to_def matches_def copies_def)
  define m' where "m' = (mem ?g)(c_ptr ?c \<mapsto> take (unat n) dat @ drop (unat n) buf)"
  have mc: "memcpy (mem ?g) (recv_ind_payload_ptr (slot_at ?g i)) p (unat n) = Some m'"
    using buf dat m(3) by (simp add: memcpy_def m'_def)
  let ?g' = "(upd_slot i (deliver k (slot_at ?g i)) ?g)\<lparr>mem := m'\<rparr>"
  note run = process_ind_deliver [OF inv i m(1) first m(2) mc, of k]
  have inv': "slots_inv (pcs s) ?g'" by (rule process_ind_inv [OF inv run])
  note q' = slots_inv_quiet [OF inv'] and o' = ownerD [OF inv' own(1) i]
  have slot': "slot_at ?g' i = deliver k (slot_at ?g i)" using slots_inv_quiet [OF inv] i by (simp add: upd_slot_def quiet_def)
  show ?thesis
  proof (cases "pcs s t = Sent (int i)")
    case True
    then have "\<not> ind_is_waiting (slot_at ?g i)" using slot_ok_owner(3) [OF inv own(1) i] by simp
    then have "ind_has_arrived (slot_at ?g' i)" using slot' by (simp add: deliver_def)
    then show ?thesis using True run wait_eff [OF q' i o'(2), of t] q' i loc_free_slot_eff [OF q' i]
      by (simp add: wait_status_def m'_def)
  next
    case False
    then have sl: "pcs s t = Sleeping (int i)" using pc by simp
    have "set (waiters (ind_arrived_cond (slot_at ?g i))) \<union> set (woken (ind_arrived_cond (slot_at ?g i))) = {t}"
      "distinct (waiters (ind_arrived_cond (slot_at ?g i)) @ woken (ind_arrived_cond (slot_at ?g i)))"
      "ind_is_waiting (slot_at ?g i)"
      using o(4,5) sl unfolding slot_ok_def by auto
    then have "t \<in> set (woken (ind_arrived_cond (slot_at ?g' i)))"
      using signal_only [of "ind_arrived_cond (slot_at ?g i)" t k] slot' by (simp add: deliver_def)
    moreover have qw: "quiet (upd_slot i (wake t (slot_at ?g' i)) ?g')"
      using q' quietD(4) [OF q' i] by (intro quiet_upd_slot) (simp_all add: wake_def)
    ultimately show ?thesis using sl run wake_eff [OF q' i, of t 0] q' i loc_free_slot_eff [OF qw i]
      by (simp add: wait_status_def m'_def ETIMEDOUT_def)
  qed
qed

theorem sync_request_served_witness:
  "\<exists>(s :: sync_sys) g' g1 g''. pcs s 0 = Sleeping 0 \<and> loc_sync_process_ind 0 7 33 200 2 (glob s) = Some g'
     \<and> mem g' 100 = Some [5, 6, 0]
     \<and> loc_sync_send_req 0 (demo_calls 0) eLOC_CLIENT_SUCCESS 0 (pcs s 0) g' = Some (Freeing 0 0, g1)
     \<and> loc_sync_send_req 0 (demo_calls 0) eLOC_CLIENT_SUCCESS 0 (Freeing 0 0) g1 = Some (Done eLOC_CLIENT_SUCCESS, g'')"
proof -
  obtain s where s: "run_sync (demo_call 0) demo_start = Some s" "pcs s 0 = Sleeping 0"
    "\<not> ind_has_arrived (slot_at (glob s) 0)" "mem (glob s) = demo_mem" "calls s = demo_calls"
    by (simp add: demo_simps demo_call_def eval_nat_numeral)
  from sync_request_served [OF demo_reach [OF s(1)], of 0 0 "[0, 0, 0]" 2 200 "[5, 6]" 0 eLOC_CLIENT_SUCCESS] s
  obtain g' g1 g'' where "loc_sync_process_ind 0 7 33 200 2 (glob s) = Some g'" "mem g' 100 = Some [5, 6, 0]"
    "loc_sync_send_req 0 (demo_calls 0) eLOC_CLIENT_SUCCESS 0 (pcs s 0) g' = Some (Freeing 0 0, g1)"
    "loc_sync_send_req 0 (demo_calls 0) eLOC_CLIENT_SUCCESS 0 (Freeing 0 0) g1 = Some (Done eLOC_CLIENT_SUCCESS, g'')"
    by (auto simp: demo_mem_def demo_calls_def)
  with s(2) show ?thesis by blast
qed

text \<open>Failures release the slot: when the request cannot be sent the caller gets the error of
  the send, when the wait times out it gets the time-out status, and in both cases the slot is
  free again.\<close>

theorem sync_failure_releases:
  assumes reach: "sync_reach cs m s" and i: "i < LOC_SYNC_REQ_BUFFER_SIZE"
  shows "(pcs s t = Selected (int i) \<and> sent \<noteq> eLOC_CLIENT_SUCCESS \<longrightarrow>
       (\<exists>g'. loc_sync_send_req t c sent rc (pcs s t) (glob s) = Some (Done sent, g') \<and> \<not> used_at g' i))
     \<and> (pcs s t = Sleeping (int i) \<longrightarrow>
       (\<exists>g1 g'. loc_sync_send_req t c sent ETIMEDOUT (pcs s t) (glob s) = Some (Freeing (int i) (- ETIMEDOUT), g1)
          \<and> loc_sync_send_req t c sent ETIMEDOUT (Freeing (int i) (- ETIMEDOUT)) g1 = Some (Done eLOC_CLIENT_FAILURE_TIMEOUT, g')
          \<and> \<not> used_at g' i))"
proof -
  note q = slots_inv_quiet [OF reach_inv [OF reach]]
  have qw: "quiet (upd_slot i (wake t (slot_at (glob s) i)) (glob s))"
    using q quietD(4) [OF q i] by (intro quiet_upd_slot) (simp_all add: wake_def)
  then show ?thesis
    using loc_free_slot_eff [OF q i] loc_free_slot_eff [OF qw i] wake_eff [OF q i] q i by (simp add: wait_status_def ETIMEDOUT_def)
qed

theorem sync_failure_releases_witness:
  "\<exists>(s :: sync_sys) g1 g'. pcs s 0 = Sleeping 0
     \<and> loc_sync_send_req 0 (demo_calls 0) eLOC_CLIENT_SUCCESS ETIMEDOUT (pcs s 0) (glob s) = Some (Freeing 0 (- ETIMEDOUT), g1)
     \<and> loc_sync_send_req 0 (demo_calls 0) eLOC_CLIENT_SUCCESS ETIMEDOUT (Freeing 0 (- ETIMEDOUT)) g1
         = Some (Done eLOC_CLIENT_FAILURE_TIMEOUT, g') \<and> \<not> used_at g' 0"
proof -
  obtain s where s: "run_sync (demo_call 0) demo_start = Some s" "pcs s 0 = Sleeping 0"
    by (simp add: demo_simps demo_call_def eval_nat_numeral)
  have n: "0 < LOC_SYNC_REQ_BUFFER_SIZE" by (simp add: LOC_SYNC_REQ_BUFFER_SIZE_def)
  from sync_failure_releases [OF demo_reach [OF s(1)] n, of 0 eLOC_CLIENT_SUCCESS "demo_calls 0" 0] s(2)
  show ?thesis by (intro exI [of _ s]) simp
qed

text \<open>A request that finds no free slot reports success: with all slots in use the call
  runs to its end without changing anything, in particular without calling
  \<^verbatim>\<open>locClientSendReq\<close> (its result \<open>sent\<close> does not matter), and returns
  \<^verbatim>\<open>eLOC_CLIENT_SUCCESS\<close>.\<close>

theorem sync_full_reports_success:
  assumes reach: "sync_reach cs m s" and full: "\<forall>i < LOC_SYNC_REQ_BUFFER_SIZE. used_at (glob s) i"
  shows "loc_sync_send_req t c sent rc Idle (glob s) = Some (Allocated (-1), glob s)
     \<and> loc_sync_send_req t c sent rc (Allocated (-1)) (glob s) = Some (Selected (- ENOMEM), glob s)
     \<and> loc_sync_send_req t c sent rc (Selected (- ENOMEM)) (glob s) = Some (Done eLOC_CLIENT_SUCCESS, glob s)"
proof -
  have "find (\<lambda>i. \<not> used_at (glob s) i) [0..<LOC_SYNC_REQ_BUFFER_SIZE] = None"
    using full by (simp add: find_None_iff)
  then show ?thesis
    using loc_alloc_slot_eff [OF slots_inv_quiet [OF reach_inv [OF reach]]]
    by (simp add: select_fill_def ENOMEM_def)
qed

theorem sync_full_reports_success_witness:
  "\<exists>s. run_sync (map (\<lambda>t. Act_call t eLOC_CLIENT_SUCCESS 0) [0..<8]) demo_start = Some s
     \<and> loc_sync_send_req 9 (demo_calls 9) eLOC_CLIENT_FAILURE_GENERAL 0 (Selected (- ENOMEM)) (glob s)
         = Some (Done eLOC_CLIENT_SUCCESS, glob s)"
proof -
  obtain s where s: "run_sync (map (\<lambda>t. Act_call t eLOC_CLIENT_SUCCESS 0) [0..<8]) demo_start = Some s"
    "slot_in_use (loc_sync_array (glob s)) = replicate 8 True"
    by (simp add: demo_simps eval_nat_numeral)
  then have "\<forall>i < LOC_SYNC_REQ_BUFFER_SIZE. used_at (glob s) i" by (simp add: LOC_SYNC_REQ_BUFFER_SIZE_def)
  from sync_full_reports_success [OF demo_reach [OF s(1)] this] s(1) show ?thesis by blast
qed

text \<open>Two requests of the same client for the same indication can starve each other: when both
  callers sleep and two indications arrive before the first caller runs, both are delivered to
  the first slot, the second payload overwriting the first, and the second caller's slot, its
  buffer and its place among the sleepers are as if nothing had arrived.\<close>

theorem sync_second_indication_misdelivered:
  assumes reach: "sync_reach cs m s" and pc: "pcs s t = Sleeping (int i)" "pcs s u = Sleeping (int j)" "i < j"
    and same: "c_handle (calls s u) = c_handle (calls s t)" "c_ind (calls s u) = c_ind (calls s t)"
    and na: "\<not> ind_has_arrived (slot_at (glob s) i)"
    and first: "\<forall>l < i. \<not> matches (c_handle (calls s t)) (c_ind (calls s t)) (glob s) l"
    and buf: "mem (glob s) (c_ptr (calls s t)) = Some buf" "c_ptr (calls s t) \<noteq> NULL" "length dat1 \<le> length buf"
      "length dat2 = length dat1" "c_ptr (calls s u) \<noteq> c_ptr (calls s t)"
    and dat: "mem (glob s) p1 = Some dat1" "mem (glob s) p2 = Some dat2" "p1 \<noteq> NULL" "p2 \<noteq> NULL"
      "p1 \<noteq> c_ptr (calls s t)" "p2 \<noteq> c_ptr (calls s t)" "unat n = length dat1" "0 < n"
  shows "\<exists>g1 g2. loc_sync_process_ind k (c_handle (calls s t)) (c_ind (calls s t)) p1 n (glob s) = Some g1
     \<and> loc_sync_process_ind k' (c_handle (calls s t)) (c_ind (calls s t)) p2 n g1 = Some g2
     \<and> slot_at g2 j = slot_at (glob s) j \<and> mem g2 (c_ptr (calls s u)) = mem (glob s) (c_ptr (calls s u))
     \<and> mem g2 (c_ptr (calls s t)) = Some (dat2 @ drop (length dat2) buf)"
proof -
  note inv = reach_inv [OF reach]
  let ?g = "glob s" and ?c = "calls s t"
  have own: "holds (pcs s t) i" "serves (pcs s t) i" and i: "i < LOC_SYNC_REQ_BUFFER_SIZE"
    using owner_index [OF inv, of t i] pc by auto
  have b: "bound_to (slot_at ?g i) ?c" using reach_bound [OF reach] own(2) i by (simp add: calls_bound_def)
  have w: "ind_is_waiting (slot_at ?g i)" using ownerD(4) [OF inv own(1) i] pc(1) unfolding slot_ok_def by blast
  have m: "matches (c_handle ?c) (c_ind ?c) ?g i" "copies p1 n ?g i" "recv_ind_payload_ptr (slot_at ?g i) = c_ptr ?c"
    using b ownerD(2) [OF inv own(1) i] na buf(2) dat by (auto simp: bound_to_def matches_def copies_def)
  define m1 where "m1 = (mem ?g)(c_ptr ?c \<mapsto> dat1 @ drop (length dat1) buf)"
  define g1 where "g1 = (upd_slot i (deliver k (slot_at ?g i)) ?g)\<lparr>mem := m1\<rparr>"
  have "memcpy (mem ?g) (recv_ind_payload_ptr (slot_at ?g i)) p1 (unat n) = Some m1"
    using buf dat m(3) by (simp add: memcpy_def m1_def)
  from process_ind_deliver [OF inv i m(1) first m(2) this, of k]
  have run1: "loc_sync_process_ind k (c_handle ?c) (c_ind ?c) p1 n ?g = Some g1" by (simp add: g1_def)
  note inv1 = process_ind_inv [OF inv run1] and q = slots_inv_quiet [OF inv]
  have slots1: "slot_at g1 i = deliver k (slot_at ?g i)" "\<And>l. l \<noteq> i \<Longrightarrow> slot_at g1 l = slot_at ?g l"
    "\<And>l. used_at g1 l = used_at ?g l"
    using quietD(3) [OF q] i by (auto simp: g1_def upd_slot_def)
  have m': "matches (c_handle ?c) (c_ind ?c) g1 i" "\<forall>l < i. \<not> matches (c_handle ?c) (c_ind ?c) g1 l"
    "copies p2 n g1 i" "recv_ind_payload_ptr (slot_at g1 i) = c_ptr ?c"
    using m first w slots1 dat(4) by (auto simp: matches_def copies_def deliver_def)
  have "memcpy (mem g1) (recv_ind_payload_ptr (slot_at g1 i)) p2 (unat n)
      = Some (m1(c_ptr ?c \<mapsto> dat2 @ drop (length dat2) buf))"
    using buf dat m'(4) by (simp add: memcpy_def g1_def m1_def)
  note run2 = process_ind_deliver [OF inv1 i m'(1,2,3) this, of k']
  have "j \<noteq> i" using pc(3) by simp
  then show ?thesis
    using run1 run2 slots1(2) buf(5) by (auto simp: m1_def upd_slot_def)
qed

theorem sync_second_indication_misdelivered_witness:
  "\<exists>(s :: sync_sys) g1 g2. pcs s 0 = Sleeping 0 \<and> pcs s 1 = Sleeping 1
     \<and> loc_sync_process_ind 0 7 33 200 2 (glob s) = Some g1 \<and> loc_sync_process_ind 0 7 33 201 2 g1 = Some g2
     \<and> mem g2 100 = Some [7, 8, 0] \<and> mem g2 101 = Some [0, 0, 0]"
proof -
  obtain s where s: "run_sync (demo_call 0 @ demo_call 1) demo_start = Some s" "pcs s 0 = Sleeping 0"
    "pcs s 1 = Sleeping 1" "\<not> ind_has_arrived (slot_at (glob s) 0)" "mem (glob s) = demo_mem" "calls s = demo_calls"
    by (simp add: demo_simps demo_call_def eval_nat_numeral)
  from sync_second_indication_misdelivered [OF demo_reach [OF s(1)], of 0 0 1 1 "[0, 0, 0]" "[5, 6]" "[7, 8]" 200 201 2 0 0] s
  obtain g1 g2 where "loc_sync_process_ind 0 7 33 200 2 (glob s) = Some g1" "loc_sync_process_ind 0 7 33 201 2 g1 = Some g2"
    "mem g2 100 = Some [7, 8, 0]" "mem g2 101 = Some [0, 0, 0]"
    by (auto simp: demo_mem_def demo_calls_def)
  with s(2,3) show ?thesis by blast
qed

end
