(* ===== verification/LocClientTables.thy ===== *)
theory LocClientTables
  imports LocTables
begin

text \<open>
  The tables of \<^verbatim>\<open>src/location/loc_api/loc_api_v02/loc_api_v02_client.cpp\<close>: size and event mask of every
  event indication, size of every response indication, and the cases of
  \<^verbatim>\<open>validateRequest\<close>, which gives the size of the payload of a request (\<^term>\<open>None\<close> for a request
  without payload). Long tables are listed in parts.
\<close>

section \<open>Event masks\<close>

definition QMI_LOC_EVENT_MASK_POSITION_REPORT_V02 :: nat where "QMI_LOC_EVENT_MASK_POSITION_REPORT_V02 = 0x1"
definition QMI_LOC_EVENT_MASK_GNSS_SV_INFO_V02 :: nat where "QMI_LOC_EVENT_MASK_GNSS_SV_INFO_V02 = 0x2"
definition QMI_LOC_EVENT_MASK_NMEA_V02 :: nat where "QMI_LOC_EVENT_MASK_NMEA_V02 = 0x4"
definition QMI_LOC_EVENT_MASK_NI_NOTIFY_VERIFY_REQ_V02 :: nat where "QMI_LOC_EVENT_MASK_NI_NOTIFY_VERIFY_REQ_V02 = 0x8"
definition QMI_LOC_EVENT_MASK_INJECT_TIME_REQ_V02 :: nat where "QMI_LOC_EVENT_MASK_INJECT_TIME_REQ_V02 = 0x10"
definition QMI_LOC_EVENT_MASK_INJECT_PREDICTED_ORBITS_REQ_V02 :: nat where "QMI_LOC_EVENT_MASK_INJECT_PREDICTED_ORBITS_REQ_V02 = 0x20"
definition QMI_LOC_EVENT_MASK_INJECT_POSITION_REQ_V02 :: nat where "QMI_LOC_EVENT_MASK_INJECT_POSITION_REQ_V02 = 0x40"
definition QMI_LOC_EVENT_MASK_ENGINE_STATE_V02 :: nat where "QMI_LOC_EVENT_MASK_ENGINE_STATE_V02 = 0x80"
definition QMI_LOC_EVENT_MASK_FIX_SESSION_STATE_V02 :: nat where "QMI_LOC_EVENT_MASK_FIX_SESSION_STATE_V02 = 0x100"
definition QMI_LOC_EVENT_MASK_WIFI_REQ_V02 :: nat where "QMI_LOC_EVENT_MASK_WIFI_REQ_V02 = 0x200"
definition QMI_LOC_EVENT_MASK_SENSOR_STREAMING_READY_STATUS_V02 :: nat where "QMI_LOC_EVENT_MASK_SENSOR_STREAMING_READY_STATUS_V02 = 0x400"
definition QMI_LOC_EVENT_MASK_TIME_SYNC_REQ_V02 :: nat where "QMI_LOC_EVENT_MASK_TIME_SYNC_REQ_V02 = 0x800"
definition QMI_LOC_EVENT_MASK_SET_SPI_STREAMING_REPORT_V02 :: nat where "QMI_LOC_EVENT_MASK_SET_SPI_STREAMING_REPORT_V02 = 0x1000"
definition QMI_LOC_EVENT_MASK_LOCATION_SERVER_CONNECTION_REQ_V02 :: nat where "QMI_LOC_EVENT_MASK_LOCATION_SERVER_CONNECTION_REQ_V02 = 0x2000"
definition QMI_LOC_EVENT_MASK_NI_GEOFENCE_NOTIFICATION_V02 :: nat where "QMI_LOC_EVENT_MASK_NI_GEOFENCE_NOTIFICATION_V02 = 0x4000"
definition QMI_LOC_EVENT_MASK_GEOFENCE_GEN_ALERT_V02 :: nat where "QMI_LOC_EVENT_MASK_GEOFENCE_GEN_ALERT_V02 = 0x8000"
definition QMI_LOC_EVENT_MASK_GEOFENCE_BREACH_NOTIFICATION_V02 :: nat where "QMI_LOC_EVENT_MASK_GEOFENCE_BREACH_NOTIFICATION_V02 = 0x10000"
definition QMI_LOC_EVENT_MASK_PEDOMETER_CONTROL_V02 :: nat where "QMI_LOC_EVENT_MASK_PEDOMETER_CONTROL_V02 = 0x20000"
definition QMI_LOC_EVENT_MASK_MOTION_DATA_CONTROL_V02 :: nat where "QMI_LOC_EVENT_MASK_MOTION_DATA_CONTROL_V02 = 0x40000"
definition QMI_LOC_EVENT_MASK_BATCH_FULL_NOTIFICATION_V02 :: nat where "QMI_LOC_EVENT_MASK_BATCH_FULL_NOTIFICATION_V02 = 0x80000"
definition QMI_LOC_EVENT_MASK_LIVE_BATCHED_POSITION_REPORT_V02 :: nat where "QMI_LOC_EVENT_MASK_LIVE_BATCHED_POSITION_REPORT_V02 = 0x100000"
definition QMI_LOC_EVENT_MASK_INJECT_WIFI_AP_DATA_REQ_V02 :: nat where "QMI_LOC_EVENT_MASK_INJECT_WIFI_AP_DATA_REQ_V02 = 0x200000"
definition QMI_LOC_EVENT_MASK_GEOFENCE_BATCH_BREACH_NOTIFICATION_V02 :: nat where "QMI_LOC_EVENT_MASK_GEOFENCE_BATCH_BREACH_NOTIFICATION_V02 = 0x400000"
definition QMI_LOC_EVENT_MASK_VEHICLE_DATA_READY_STATUS_V02 :: nat where "QMI_LOC_EVENT_MASK_VEHICLE_DATA_READY_STATUS_V02 = 0x800000"
definition QMI_LOC_EVENT_MASK_GNSS_MEASUREMENT_REPORT_V02 :: nat where "QMI_LOC_EVENT_MASK_GNSS_MEASUREMENT_REPORT_V02 = 0x1000000"
definition QMI_LOC_EVENT_MASK_GNSS_SV_POLYNOMIAL_REPORT_V02 :: nat where "QMI_LOC_EVENT_MASK_GNSS_SV_POLYNOMIAL_REPORT_V02 = 0x2000000"
definition QMI_LOC_EVENT_MASK_GEOFENCE_PROXIMITY_NOTIFICATION_V02 :: nat where "QMI_LOC_EVENT_MASK_GEOFENCE_PROXIMITY_NOTIFICATION_V02 = 0x4000000"
definition QMI_LOC_EVENT_MASK_GDT_UPLOAD_BEGIN_REQ_V02 :: nat where "QMI_LOC_EVENT_MASK_GDT_UPLOAD_BEGIN_REQ_V02 = 0x8000000"
definition QMI_LOC_EVENT_MASK_GDT_UPLOAD_END_REQ_V02 :: nat where "QMI_LOC_EVENT_MASK_GDT_UPLOAD_END_REQ_V02 = 0x10000000"
definition QMI_LOC_EVENT_MASK_GEOFENCE_BATCH_DWELL_NOTIFICATION_V02 :: nat where "QMI_LOC_EVENT_MASK_GEOFENCE_BATCH_DWELL_NOTIFICATION_V02 = 0x20000000"
definition QMI_LOC_EVENT_MASK_GET_TIME_ZONE_REQ_V02 :: nat where "QMI_LOC_EVENT_MASK_GET_TIME_ZONE_REQ_V02 = 0x40000000"
definition QMI_LOC_EVENT_MASK_BATCHING_STATUS_V02 :: nat where "QMI_LOC_EVENT_MASK_BATCHING_STATUS_V02 = 0x80000000"
definition QMI_LOC_EVENT_MASK_INJECT_SRN_AP_DATA_REQ_V02 :: nat where "QMI_LOC_EVENT_MASK_INJECT_SRN_AP_DATA_REQ_V02 = 0x200000000"
definition QMI_LOC_EVENT_MASK_FDCL_SERVICE_REQ_V02 :: nat where "QMI_LOC_EVENT_MASK_FDCL_SERVICE_REQ_V02 = 0x800000000"
definition QMI_LOC_EVENT_MASK_ENGINE_LOCK_STATE_V02 :: nat where "QMI_LOC_EVENT_MASK_ENGINE_LOCK_STATE_V02 = 0x2000000000"
definition QMI_LOC_EVENT_MASK_UNPROPAGATED_POSITION_REPORT_V02 :: nat where "QMI_LOC_EVENT_MASK_UNPROPAGATED_POSITION_REPORT_V02 = 0x4000000000"
definition QMI_LOC_EVENT_MASK_BS_OBS_DATA_SERVICE_REQ_V02 :: nat where "QMI_LOC_EVENT_MASK_BS_OBS_DATA_SERVICE_REQ_V02 = 0x8000000000"
definition QMI_LOC_EVENT_MASK_EPHEMERIS_REPORT_V02 :: nat where "QMI_LOC_EVENT_MASK_EPHEMERIS_REPORT_V02 = 0x10000000000"
definition QMI_LOC_EVENT_MASK_GET_BAND_MEASUREMENT_METRICS_V02 :: nat where "QMI_LOC_EVENT_MASK_GET_BAND_MEASUREMENT_METRICS_V02 = 0x40000000000"
definition QMI_LOC_EVENT_MASK_QUERY_XTRA_INFO_V02 :: nat where "QMI_LOC_EVENT_MASK_QUERY_XTRA_INFO_V02 = 0x200000000000"
definition QMI_LOC_EVENT_MASK_LATENCY_INFORMATION_REPORT_V02 :: nat where "QMI_LOC_EVENT_MASK_LATENCY_INFORMATION_REPORT_V02 = 0x800000000000"

section \<open>Tables\<close>

definition locClientEventIndTable_1 :: "(nat \<times> nat \<times> nat) list" where
  "locClientEventIndTable_1 =
    [(QMI_LOC_EVENT_POSITION_REPORT_IND_V02, sizeof qmiLocEventPositionReportIndMsgT_v02, QMI_LOC_EVENT_MASK_POSITION_REPORT_V02),
     (QMI_LOC_EVENT_GNSS_SV_INFO_IND_V02, sizeof qmiLocEventGnssSvInfoIndMsgT_v02, QMI_LOC_EVENT_MASK_GNSS_SV_INFO_V02),
     (QMI_LOC_EVENT_NMEA_IND_V02, sizeof qmiLocEventNmeaIndMsgT_v02, QMI_LOC_EVENT_MASK_NMEA_V02),
     (QMI_LOC_EVENT_NI_NOTIFY_VERIFY_REQ_IND_V02, sizeof qmiLocEventNiNotifyVerifyReqIndMsgT_v02, QMI_LOC_EVENT_MASK_NI_NOTIFY_VERIFY_REQ_V02),
     (QMI_LOC_EVENT_INJECT_TIME_REQ_IND_V02, sizeof qmiLocEventInjectTimeReqIndMsgT_v02, QMI_LOC_EVENT_MASK_INJECT_TIME_REQ_V02),
     (QMI_LOC_EVENT_INJECT_PREDICTED_ORBITS_REQ_IND_V02, sizeof qmiLocEventInjectPredictedOrbitsReqIndMsgT_v02, QMI_LOC_EVENT_MASK_INJECT_PREDICTED_ORBITS_REQ_V02),
     (QMI_LOC_EVENT_INJECT_POSITION_REQ_IND_V02, sizeof qmiLocEventInjectPositionReqIndMsgT_v02, QMI_LOC_EVENT_MASK_INJECT_POSITION_REQ_V02),
     (QMI_LOC_EVENT_ENGINE_STATE_IND_V02, sizeof qmiLocEventEngineStateIndMsgT_v02, QMI_LOC_EVENT_MASK_ENGINE_STATE_V02),
     (QMI_LOC_EVENT_FIX_SESSION_STATE_IND_V02, sizeof qmiLocEventFixSessionStateIndMsgT_v02, QMI_LOC_EVENT_MASK_FIX_SESSION_STATE_V02),
     (QMI_LOC_EVENT_WIFI_REQ_IND_V02, sizeof qmiLocEventWifiReqIndMsgT_v02, QMI_LOC_EVENT_MASK_WIFI_REQ_V02),
     (QMI_LOC_EVENT_SENSOR_STREAMING_READY_STATUS_IND_V02, sizeof qmiLocEventSensorStreamingReadyStatusIndMsgT_v02, QMI_LOC_EVENT_MASK_SENSOR_STREAMING_READY_STATUS_V02),
     (QMI_LOC_EVENT_TIME_SYNC_REQ_IND_V02, sizeof qmiLocEventTimeSyncReqIndMsgT_v02, QMI_LOC_EVENT_MASK_TIME_SYNC_REQ_V02),
     (QMI_LOC_EVENT_SET_SPI_STREAMING_REPORT_IND_V02, sizeof qmiLocEventSetSpiStreamingReportIndMsgT_v02, QMI_LOC_EVENT_MASK_SET_SPI_STREAMING_REPORT_V02),
     (QMI_LOC_EVENT_LOCATION_SERVER_CONNECTION_REQ_IND_V02, sizeof qmiLocEventLocationServerConnectionReqIndMsgT_v02, QMI_LOC_EVENT_MASK_LOCATION_SERVER_CONNECTION_REQ_V02),
     (QMI_LOC_EVENT_NI_GEOFENCE_NOTIFICATION_IND_V02, sizeof qmiLocEventNiGeofenceNotificationIndMsgT_v02, QMI_LOC_EVENT_MASK_NI_GEOFENCE_NOTIFICATION_V02),
     (QMI_LOC_EVENT_GEOFENCE_GEN_ALERT_IND_V02, sizeof qmiLocEventGeofenceGenAlertIndMsgT_v02, QMI_LOC_EVENT_MASK_GEOFENCE_GEN_ALERT_V02),
     (QMI_LOC_EVENT_GEOFENCE_BREACH_NOTIFICATION_IND_V02, sizeof qmiLocEventGeofenceBreachIndMsgT_v02, QMI_LOC_EVENT_MASK_GEOFENCE_BREACH_NOTIFICATION_V02),
     (QMI_LOC_EVENT_GEOFENCE_BATCHED_BREACH_NOTIFICATION_IND_V02, sizeof qmiLocEventGeofenceBatchedBreachIndMsgT_v02, QMI_LOC_EVENT_MASK_GEOFENCE_BATCH_BREACH_NOTIFICATION_V02),
     (QMI_LOC_EVENT_PEDOMETER_CONTROL_IND_V02, sizeof qmiLocEventPedometerControlIndMsgT_v02, QMI_LOC_EVENT_MASK_PEDOMETER_CONTROL_V02),
     (QMI_LOC_EVENT_MOTION_DATA_CONTROL_IND_V02, sizeof qmiLocEventMotionDataControlIndMsgT_v02, QMI_LOC_EVENT_MASK_MOTION_DATA_CONTROL_V02),
     (QMI_LOC_EVENT_INJECT_WIFI_AP_DATA_REQ_IND_V02, sizeof qmiLocEventInjectWifiApDataReqIndMsgT_v02, QMI_LOC_EVENT_MASK_INJECT_WIFI_AP_DATA_REQ_V02),
     (QMI_LOC_EVENT_LIVE_BATCHED_POSITION_REPORT_IND_V02, sizeof qmiLocEventLiveBatchedPositionReportIndMsgT_v02, QMI_LOC_EVENT_MASK_LIVE_BATCHED_POSITION_REPORT_V02),
     (QMI_LOC_EVENT_BATCH_FULL_NOTIFICATION_IND_V02, sizeof qmiLocEventBatchFullIndMsgT_v02, QMI_LOC_EVENT_MASK_BATCH_FULL_NOTIFICATION_V02),
     (QMI_LOC_EVENT_VEHICLE_DATA_READY_STATUS_IND_V02, sizeof qmiLocEventVehicleDataReadyIndMsgT_v02, QMI_LOC_EVENT_MASK_VEHICLE_DATA_READY_STATUS_V02),
     (QMI_LOC_EVENT_GEOFENCE_PROXIMITY_NOTIFICATION_IND_V02, sizeof qmiLocEventGeofenceProximityIndMsgT_v02, QMI_LOC_EVENT_MASK_GEOFENCE_PROXIMITY_NOTIFICATION_V02),
     (QMI_LOC_EVENT_GNSS_MEASUREMENT_REPORT_IND_V02, sizeof qmiLocEventGnssSvMeasInfoIndMsgT_v02, QMI_LOC_EVENT_MASK_GNSS_MEASUREMENT_REPORT_V02)]"

definition locClientEventIndTable_2 :: "(nat \<times> nat \<times> nat) list" where
  "locClientEventIndTable_2 =
    [(QMI_LOC_EVENT_SV_POLYNOMIAL_REPORT_IND_V02, sizeof qmiLocEventGnssSvPolyIndMsgT_v02, QMI_LOC_EVENT_MASK_GNSS_SV_POLYNOMIAL_REPORT_V02),
     (QMI_LOC_EVENT_GDT_UPLOAD_BEGIN_STATUS_REQ_IND_V02, sizeof qmiLocEventGdtUploadBeginStatusReqIndMsgT_v02, QMI_LOC_EVENT_MASK_GDT_UPLOAD_BEGIN_REQ_V02),
     (QMI_LOC_EVENT_GDT_UPLOAD_END_REQ_IND_V02, sizeof qmiLocEventGdtUploadEndReqIndMsgT_v02, QMI_LOC_EVENT_MASK_GDT_UPLOAD_END_REQ_V02),
     (QMI_LOC_EVENT_DBT_POSITION_REPORT_IND_V02, sizeof qmiLocEventDbtPositionReportIndMsgT_v02, 0),
     (QMI_LOC_EVENT_GEOFENCE_BATCHED_DWELL_NOTIFICATION_IND_V02, sizeof qmiLocEventGeofenceBatchedDwellIndMsgT_v02, QMI_LOC_EVENT_MASK_GEOFENCE_BATCH_DWELL_NOTIFICATION_V02),
     (QMI_LOC_EVENT_GET_TIME_ZONE_INFO_IND_V02, sizeof qmiLocEventGetTimeZoneReqIndMsgT_v02, QMI_LOC_EVENT_MASK_GET_TIME_ZONE_REQ_V02),
     (QMI_LOC_EVENT_BATCHING_STATUS_IND_V02, sizeof qmiLocEventBatchingStatusIndMsgT_v02, QMI_LOC_EVENT_MASK_BATCHING_STATUS_V02),
     (QMI_LOC_EVENT_GDT_DOWNLOAD_BEGIN_REQ_IND_V02, sizeof qmiLocEventGdtDownloadBeginReqIndMsgT_v02, 0),
     (QMI_LOC_EVENT_GDT_RECEIVE_DONE_IND_V02, sizeof qmiLocEventGdtReceiveDoneIndMsgT_v02, 0),
     (QMI_LOC_EVENT_GDT_DOWNLOAD_END_REQ_IND_V02, sizeof qmiLocEventGdtDownloadEndReqIndMsgT_v02, 0),
     (QMI_LOC_EVENT_INJECT_SRN_AP_DATA_REQ_IND_V02, sizeof qmiLocEventInjectSrnApDataReqIndMsgT_v02, QMI_LOC_EVENT_MASK_INJECT_SRN_AP_DATA_REQ_V02),
     (QMI_LOC_EVENT_FDCL_SERVICE_REQ_IND_V02, sizeof qmiLocEventFdclServiceReqIndMsgT_v02, QMI_LOC_EVENT_MASK_FDCL_SERVICE_REQ_V02),
     (QMI_LOC_EVENT_UNPROPAGATED_POSITION_REPORT_IND_V02, sizeof qmiLocEventPositionReportIndMsgT_v02, QMI_LOC_EVENT_MASK_UNPROPAGATED_POSITION_REPORT_V02),
     (QMI_LOC_EVENT_BS_OBS_DATA_SERVICE_REQ_IND_V02, sizeof qmiLocEventBsObsDataServiceReqIndMsgT_v02, QMI_LOC_EVENT_MASK_BS_OBS_DATA_SERVICE_REQ_V02),
     (QMI_LOC_EVENT_GPS_EPHEMERIS_REPORT_IND_V02, sizeof qmiLocGpsEphemerisReportIndMsgT_v02, QMI_LOC_EVENT_MASK_EPHEMERIS_REPORT_V02),
     (QMI_LOC_EVENT_GLONASS_EPHEMERIS_REPORT_IND_V02, sizeof qmiLocGloEphemerisReportIndMsgT_v02, QMI_LOC_EVENT_MASK_EPHEMERIS_REPORT_V02),
     (QMI_LOC_EVENT_BDS_EPHEMERIS_REPORT_IND_V02, sizeof qmiLocBdsEphemerisReportIndMsgT_v02, QMI_LOC_EVENT_MASK_EPHEMERIS_REPORT_V02),
     (QMI_LOC_EVENT_GALILEO_EPHEMERIS_REPORT_IND_V02, sizeof qmiLocGalEphemerisReportIndMsgT_v02, QMI_LOC_EVENT_MASK_EPHEMERIS_REPORT_V02),
     (QMI_LOC_EVENT_QZSS_EPHEMERIS_REPORT_IND_V02, sizeof qmiLocQzssEphemerisReportIndMsgT_v02, QMI_LOC_EVENT_MASK_EPHEMERIS_REPORT_V02),
     (QMI_LOC_EVENT_REPORT_IND_V02, sizeof qmiLocEventReportIndMsgT_v02, QMI_LOC_EVENT_MASK_EPHEMERIS_REPORT_V02),
     (QMI_LOC_SYSTEM_INFO_IND_V02, sizeof qmiLocSystemInfoIndMsgT_v02, QMI_LOC_SYSTEM_INFO_IND_V02),
     (QMI_LOC_GET_BAND_MEASUREMENT_METRICS_IND_V02, sizeof qmiLocGetBandMeasurementMetricsIndMsgT_v02, QMI_LOC_EVENT_MASK_GET_BAND_MEASUREMENT_METRICS_V02),
     (QMI_LOC_LOCATION_REQUEST_NOTIFICATION_IND_V02, sizeof qmiLocLocationRequestNotificationIndMsgT_v02, QMI_LOC_LOCATION_REQUEST_NOTIFICATION_IND_V02),
     (QMI_LOC_EVENT_QUERY_XTRA_INFO_REQ_IND_V02, sizeof qmiLocEventQueryXtraInfoReqIndMsgT_v02, QMI_LOC_EVENT_MASK_QUERY_XTRA_INFO_V02),
     (QMI_LOC_LATENCY_INFORMATION_IND_V02, sizeof qmiLocLatencyInformationIndMsgT_v02, QMI_LOC_EVENT_MASK_LATENCY_INFORMATION_REPORT_V02),
     (QMI_LOC_EVENT_ENGINE_LOCK_STATE_IND_V02, sizeof qmiLocEventEngineLockStateIndMsgT_v02, QMI_LOC_EVENT_MASK_ENGINE_LOCK_STATE_V02)]"

definition locClientEventIndTable :: "(nat \<times> nat \<times> nat) list" where
  "locClientEventIndTable = locClientEventIndTable_1 @ locClientEventIndTable_2"

definition locClientRespIndTable_1 :: "(nat \<times> nat) list" where
  "locClientRespIndTable_1 =
    [(QMI_LOC_GET_SERVICE_REVISION_IND_V02, sizeof qmiLocGetServiceRevisionIndMsgT_v02),
     (QMI_LOC_GET_FIX_CRITERIA_IND_V02, sizeof qmiLocGetFixCriteriaIndMsgT_v02),
     (QMI_LOC_NI_USER_RESPONSE_IND_V02, sizeof qmiLocNiUserRespIndMsgT_v02),
     (QMI_LOC_INJECT_PREDICTED_ORBITS_DATA_IND_V02, sizeof qmiLocInjectPredictedOrbitsDataIndMsgT_v02),
     (QMI_LOC_GET_PREDICTED_ORBITS_DATA_SOURCE_IND_V02, sizeof qmiLocGetPredictedOrbitsDataSourceIndMsgT_v02),
     (QMI_LOC_GET_PREDICTED_ORBITS_DATA_VALIDITY_IND_V02, sizeof qmiLocGetPredictedOrbitsDataValidityIndMsgT_v02),
     (QMI_LOC_INJECT_UTC_TIME_IND_V02, sizeof qmiLocInjectUtcTimeIndMsgT_v02),
     (QMI_LOC_INJECT_POSITION_IND_V02, sizeof qmiLocInjectPositionIndMsgT_v02),
     (QMI_LOC_SET_ENGINE_LOCK_IND_V02, sizeof qmiLocSetEngineLockIndMsgT_v02),
     (QMI_LOC_GET_ENGINE_LOCK_IND_V02, sizeof qmiLocGetEngineLockIndMsgT_v02),
     (QMI_LOC_SET_SBAS_CONFIG_IND_V02, sizeof qmiLocSetSbasConfigIndMsgT_v02),
     (QMI_LOC_GET_SBAS_CONFIG_IND_V02, sizeof qmiLocGetSbasConfigIndMsgT_v02),
     (QMI_LOC_SET_NMEA_TYPES_IND_V02, sizeof qmiLocSetNmeaTypesIndMsgT_v02),
     (QMI_LOC_GET_NMEA_TYPES_IND_V02, sizeof qmiLocGetNmeaTypesIndMsgT_v02),
     (QMI_LOC_SET_LOW_POWER_MODE_IND_V02, sizeof qmiLocSetLowPowerModeIndMsgT_v02),
     (QMI_LOC_GET_LOW_POWER_MODE_IND_V02, sizeof qmiLocGetLowPowerModeIndMsgT_v02),
     (QMI_LOC_SET_SERVER_IND_V02, sizeof qmiLocSetServerIndMsgT_v02),
     (QMI_LOC_GET_SERVER_IND_V02, sizeof qmiLocGetServerIndMsgT_v02),
     (QMI_LOC_DELETE_ASSIST_DATA_IND_V02, sizeof qmiLocDeleteAssistDataIndMsgT_v02),
     (QMI_LOC_INJECT_APCACHE_DATA_IND_V02, sizeof qmiLocInjectApCacheDataIndMsgT_v02),
     (QMI_LOC_INJECT_APDONOTCACHE_DATA_IND_V02, sizeof qmiLocInjectApDoNotCacheDataIndMsgT_v02),
     (QMI_LOC_SET_XTRA_T_SESSION_CONTROL_IND_V02, sizeof qmiLocSetXtraTSessionControlIndMsgT_v02),
     (QMI_LOC_GET_XTRA_T_SESSION_CONTROL_IND_V02, sizeof qmiLocGetXtraTSessionControlIndMsgT_v02),
     (QMI_LOC_INJECT_WIFI_POSITION_IND_V02, sizeof qmiLocInjectWifiPositionIndMsgT_v02),
     (QMI_LOC_NOTIFY_WIFI_STATUS_IND_V02, sizeof qmiLocNotifyWifiStatusIndMsgT_v02),
     (QMI_LOC_GET_REGISTERED_EVENTS_IND_V02, sizeof qmiLocGetRegisteredEventsIndMsgT_v02),
     (QMI_LOC_SET_OPERATION_MODE_IND_V02, sizeof qmiLocSetOperationModeIndMsgT_v02),
     (QMI_LOC_GET_OPERATION_MODE_IND_V02, sizeof qmiLocGetOperationModeIndMsgT_v02),
     (QMI_LOC_SET_SPI_STATUS_IND_V02, sizeof qmiLocSetSpiStatusIndMsgT_v02),
     (QMI_LOC_INJECT_SENSOR_DATA_IND_V02, sizeof qmiLocInjectSensorDataIndMsgT_v02),
     (QMI_LOC_INJECT_TIME_SYNC_DATA_IND_V02, sizeof qmiLocInjectTimeSyncDataIndMsgT_v02),
     (QMI_LOC_SET_CRADLE_MOUNT_CONFIG_IND_V02, sizeof qmiLocSetCradleMountConfigIndMsgT_v02),
     (QMI_LOC_GET_CRADLE_MOUNT_CONFIG_IND_V02, sizeof qmiLocGetCradleMountConfigIndMsgT_v02),
     (QMI_LOC_SET_EXTERNAL_POWER_CONFIG_IND_V02, sizeof qmiLocSetExternalPowerConfigIndMsgT_v02)]"

definition locClientRespIndTable_2 :: "(nat \<times> nat) list" where
  "locClientRespIndTable_2 =
    [(QMI_LOC_GET_EXTERNAL_POWER_CONFIG_IND_V02, sizeof qmiLocGetExternalPowerConfigIndMsgT_v02),
     (QMI_LOC_INFORM_LOCATION_SERVER_CONN_STATUS_IND_V02, sizeof qmiLocInformLocationServerConnStatusIndMsgT_v02),
     (QMI_LOC_SET_PROTOCOL_CONFIG_PARAMETERS_IND_V02, sizeof qmiLocSetProtocolConfigParametersIndMsgT_v02),
     (QMI_LOC_GET_PROTOCOL_CONFIG_PARAMETERS_IND_V02, sizeof qmiLocGetProtocolConfigParametersIndMsgT_v02),
     (QMI_LOC_SET_SENSOR_CONTROL_CONFIG_IND_V02, sizeof qmiLocSetSensorControlConfigIndMsgT_v02),
     (QMI_LOC_GET_SENSOR_CONTROL_CONFIG_IND_V02, sizeof qmiLocGetSensorControlConfigIndMsgT_v02),
     (QMI_LOC_SET_SENSOR_PROPERTIES_IND_V02, sizeof qmiLocSetSensorPropertiesIndMsgT_v02),
     (QMI_LOC_GET_SENSOR_PROPERTIES_IND_V02, sizeof qmiLocGetSensorPropertiesIndMsgT_v02),
     (QMI_LOC_SET_SENSOR_PERFORMANCE_CONTROL_CONFIGURATION_IND_V02, sizeof qmiLocSetSensorPerformanceControlConfigIndMsgT_v02),
     (QMI_LOC_GET_SENSOR_PERFORMANCE_CONTROL_CONFIGURATION_IND_V02, sizeof qmiLocGetSensorPerformanceControlConfigIndMsgT_v02),
     (QMI_LOC_INJECT_SUPL_CERTIFICATE_IND_V02, sizeof qmiLocInjectSuplCertificateIndMsgT_v02),
     (QMI_LOC_DELETE_SUPL_CERTIFICATE_IND_V02, sizeof qmiLocDeleteSuplCertificateIndMsgT_v02),
     (QMI_LOC_SET_POSITION_ENGINE_CONFIG_PARAMETERS_IND_V02, sizeof qmiLocSetPositionEngineConfigParametersIndMsgT_v02),
     (QMI_LOC_GET_POSITION_ENGINE_CONFIG_PARAMETERS_IND_V02, sizeof qmiLocGetPositionEngineConfigParametersIndMsgT_v02),
     (QMI_LOC_ADD_CIRCULAR_GEOFENCE_IND_V02, sizeof qmiLocAddCircularGeofenceIndMsgT_v02),
     (QMI_LOC_DELETE_GEOFENCE_IND_V02, sizeof qmiLocDeleteGeofenceIndMsgT_v02),
     (QMI_LOC_QUERY_GEOFENCE_IND_V02, sizeof qmiLocQueryGeofenceIndMsgT_v02),
     (QMI_LOC_EDIT_GEOFENCE_IND_V02, sizeof qmiLocEditGeofenceIndMsgT_v02),
     (QMI_LOC_GET_BEST_AVAILABLE_POSITION_IND_V02, sizeof qmiLocGetBestAvailablePositionIndMsgT_v02),
     (QMI_LOC_SECURE_GET_AVAILABLE_POSITION_IND_V02, sizeof qmiLocSecureGetAvailablePositionIndMsgT_v02),
     (QMI_LOC_INJECT_MOTION_DATA_IND_V02, sizeof qmiLocInjectMotionDataIndMsgT_v02),
     (QMI_LOC_GET_NI_GEOFENCE_ID_LIST_IND_V02, sizeof qmiLocGetNiGeofenceIdListIndMsgT_v02),
     (QMI_LOC_INJECT_GSM_CELL_INFO_IND_V02, sizeof qmiLocInjectGSMCellInfoIndMsgT_v02),
     (QMI_LOC_INJECT_NETWORK_INITIATED_MESSAGE_IND_V02, sizeof qmiLocInjectNetworkInitiatedMessageIndMsgT_v02),
     (QMI_LOC_WWAN_OUT_OF_SERVICE_NOTIFICATION_IND_V02, sizeof qmiLocWWANOutOfServiceNotificationIndMsgT_v02),
     (QMI_LOC_PEDOMETER_REPORT_IND_V02, sizeof qmiLocPedometerReportIndMsgT_v02),
     (QMI_LOC_INJECT_WCDMA_CELL_INFO_IND_V02, sizeof qmiLocInjectWCDMACellInfoIndMsgT_v02),
     (QMI_LOC_INJECT_TDSCDMA_CELL_INFO_IND_V02, sizeof qmiLocInjectTDSCDMACellInfoIndMsgT_v02),
     (QMI_LOC_INJECT_SUBSCRIBER_ID_IND_V02, sizeof qmiLocInjectSubscriberIDIndMsgT_v02),
     (QMI_LOC_INJECT_WIFI_AP_DATA_IND_V02, sizeof qmiLocInjectWifiApDataIndMsgT_v02),
     (QMI_LOC_START_BATCHING_IND_V02, sizeof qmiLocStartBatchingIndMsgT_v02),
     (QMI_LOC_STOP_BATCHING_IND_V02, sizeof qmiLocStopBatchingIndMsgT_v02),
     (QMI_LOC_GET_BATCH_SIZE_IND_V02, sizeof qmiLocGetBatchSizeIndMsgT_v02),
     (QMI_LOC_EVENT_LIVE_BATCHED_POSITION_REPORT_IND_V02, sizeof qmiLocEventLiveBatchedPositionReportIndMsgT_v02)]"

definition locClientRespIndTable_3 :: "(nat \<times> nat) list" where
  "locClientRespIndTable_3 =
    [(QMI_LOC_EVENT_BATCH_FULL_NOTIFICATION_IND_V02, sizeof qmiLocEventBatchFullIndMsgT_v02),
     (QMI_LOC_READ_FROM_BATCH_IND_V02, sizeof qmiLocReadFromBatchIndMsgT_v02),
     (QMI_LOC_RELEASE_BATCH_IND_V02, sizeof qmiLocReleaseBatchIndMsgT_v02),
     (QMI_LOC_SET_XTRA_VERSION_CHECK_IND_V02, sizeof qmiLocSetXtraVersionCheckIndMsgT_v02),
     (QMI_LOC_INJECT_VEHICLE_SENSOR_DATA_IND_V02, sizeof qmiLocInjectVehicleSensorDataIndMsgT_v02),
     (QMI_LOC_NOTIFY_WIFI_ATTACHMENT_STATUS_IND_V02, sizeof qmiLocNotifyWifiAttachmentStatusIndMsgT_v02),
     (QMI_LOC_NOTIFY_WIFI_ENABLED_STATUS_IND_V02, sizeof qmiLocNotifyWifiEnabledStatusIndMsgT_v02),
     (QMI_LOC_SET_PREMIUM_SERVICES_CONFIG_IND_V02, sizeof qmiLocSetPremiumServicesCfgIndMsgT_v02),
     (QMI_LOC_GET_AVAILABLE_WWAN_POSITION_IND_V02, sizeof qmiLocGetAvailWwanPositionIndMsgT_v02),
     (QMI_LOC_INJECT_GTP_CLIENT_DOWNLOADED_DATA_IND_V02, sizeof qmiLocInjectGtpClientDownloadedDataIndMsgT_v02),
     (QMI_LOC_GDT_UPLOAD_BEGIN_STATUS_IND_V02, sizeof qmiLocGdtUploadBeginStatusIndMsgT_v02),
     (QMI_LOC_GDT_UPLOAD_END_IND_V02, sizeof qmiLocGdtUploadEndIndMsgT_v02),
     (QMI_LOC_SET_GNSS_CONSTELL_REPORT_CONFIG_IND_V02, sizeof qmiLocSetGNSSConstRepConfigIndMsgT_v02),
     (QMI_LOC_START_DBT_IND_V02, sizeof qmiLocStartDbtIndMsgT_v02),
     (QMI_LOC_STOP_DBT_IND_V02, sizeof qmiLocStopDbtIndMsgT_v02),
     (QMI_LOC_INJECT_TIME_ZONE_INFO_IND_V02, sizeof qmiLocInjectTimeZoneInfoIndMsgT_v02),
     (QMI_LOC_QUERY_AON_CONFIG_IND_V02, sizeof qmiLocQueryAonConfigIndMsgT_v02),
     (QMI_LOC_GTP_AP_STATUS_IND_V02, sizeof qmiLocGtpApStatusIndMsgT_v02),
     (QMI_LOC_GDT_DOWNLOAD_BEGIN_STATUS_IND_V02, sizeof qmiLocGdtDownloadBeginStatusIndMsgT_v02),
     (QMI_LOC_GDT_DOWNLOAD_READY_STATUS_IND_V02, sizeof qmiLocGdtDownloadReadyStatusIndMsgT_v02),
     (QMI_LOC_GDT_RECEIVE_DONE_STATUS_IND_V02, sizeof qmiLocGdtReceiveDoneStatusIndMsgT_v02),
     (QMI_LOC_GDT_DOWNLOAD_END_STATUS_IND_V02, sizeof qmiLocGdtDownloadEndStatusIndMsgT_v02),
     (QMI_LOC_GET_SUPPORTED_FEATURE_IND_V02, sizeof qmiLocGetSupportedFeatureIndMsgT_v02),
     (QMI_LOC_DELETE_GNSS_SERVICE_DATA_IND_V02, sizeof qmiLocDeleteGNSSServiceDataIndMsgT_v02),
     (QMI_LOC_INJECT_XTRA_DATA_IND_V02, sizeof qmiLocInjectXtraDataIndMsgT_v02),
     (QMI_LOC_INJECT_XTRA_PCID_IND_V02, sizeof qmiLocInjectXtraPcidIndMsgT_v02),
     (QMI_LOC_INJECT_SRN_AP_DATA_IND_V02, sizeof qmiLocInjectSrnApDataIndMsgT_v02),
     (QMI_LOC_CROWDSOURCE_MANAGER_CONTROL_IND_V02, sizeof qmiLocCrowdSourceManagerControlIndMsgT_v02),
     (QMI_LOC_QUERY_XTRA_INFO_IND_V02, sizeof qmiLocQueryXtraInfoIndMsgT_v02),
     (QMI_LOC_START_OUTDOOR_TRIP_BATCHING_IND_V02, sizeof qmiLocStartOutdoorTripBatchingIndMsgT_v02),
     (QMI_LOC_QUERY_OTB_ACCUMULATED_DISTANCE_IND_V02, sizeof qmiLocQueryOTBAccumulatedDistanceIndMsgT_v02),
     (QMI_LOC_GET_FDCL_BS_LIST_IND_V02, sizeof qmiLocGetFdclBsListIndMsgT_v02),
     (QMI_LOC_INJECT_FDCL_DATA_IND_V02, sizeof qmiLocInjectFdclDataIndMsgT_v02),
     (QMI_LOC_GET_BS_OBS_DATA_IND_V02, sizeof qmiLocGetBsObsDataIndMsgT_v02)]"

definition locClientRespIndTable_4 :: "(nat \<times> nat) list" where
  "locClientRespIndTable_4 =
    [(QMI_LOC_SET_BLACKLIST_SV_IND_V02, sizeof qmiLocGenReqStatusIndMsgT_v02),
     (QMI_LOC_REGISTER_MASTER_CLIENT_IND_V02, sizeof qmiLocRegisterMasterClientIndMsgT_v02),
     (QMI_LOC_GET_BLACKLIST_SV_IND_V02, sizeof qmiLocGetBlacklistSvIndMsgT_v02),
     (QMI_LOC_SET_CONSTELLATION_CONTROL_IND_V02, sizeof qmiLocGenReqStatusIndMsgT_v02),
     (QMI_LOC_GET_CONSTELLATION_CONTROL_IND_V02, sizeof qmiLocGetConstellationConfigIndMsgT_v02),
     (QMI_LOC_SET_CONSTRAINED_TUNC_MODE_IND_V02, sizeof qmiLocSetConstrainedTuncModeIndMsgT_v02),
     (QMI_LOC_ENABLE_POSITION_ASSISTED_CLOCK_EST_IND_V02, sizeof qmiLocEnablePositionAssistedClockEstIndMsgT_v02),
     (QMI_LOC_QUERY_GNSS_ENERGY_CONSUMED_IND_V02, sizeof qmiLocQueryGNSSEnergyConsumedIndMsgT_v02),
     (QMI_LOC_INJECT_PLATFORM_POWER_STATE_IND_V02, sizeof qmiLocInjectPlatformPowerStateIndMsgT_v02),
     (QMI_LOC_SET_ROBUST_LOCATION_CONFIG_IND_V02, sizeof qmiLocGenReqStatusIndMsgT_v02),
     (QMI_LOC_GET_ROBUST_LOCATION_CONFIG_IND_V02, sizeof qmiLocGetRobustLocationConfigIndMsgT_v02),
     (QMI_LOC_INJECT_ENV_AIDING_IND_V02, sizeof qmiLocGenReqStatusIndMsgT_v02),
     (QMI_LOC_SET_MIN_GPS_WEEK_NUMBER_IND_V02, sizeof qmiLocGenReqStatusIndMsgT_v02),
     (QMI_LOC_GET_MIN_GPS_WEEK_NUMBER_IND_V02, sizeof qmiLocGetMinGpsWeekNumberIndMsgT_v02),
     (QMI_LOC_SET_PARAMETER_IND_V02, sizeof qmiLocGenReqStatusIndMsgT_v02),
     (QMI_LOC_GET_PARAMETER_IND_V02, sizeof qmiLocGetParameterIndMsgT_v02),
     (QMI_LOC_SET_MULTIBAND_CONFIG_IND_V02, sizeof qmiLocGenReqStatusIndMsgT_v02),
     (QMI_LOC_GET_MULTIBAND_CONFIG_IND_V02, sizeof qmiLocGetMultibandConfigIndMsgT_v02)]"

definition locClientRespIndTable :: "(nat \<times> nat) list" where
  "locClientRespIndTable = locClientRespIndTable_1 @ locClientRespIndTable_2 @ locClientRespIndTable_3 @ locClientRespIndTable_4"

definition validate_cases_1 :: "(nat \<times> nat option) list" where
  "validate_cases_1 =
    [(QMI_LOC_INFORM_CLIENT_REVISION_REQ_V02, Some (sizeof qmiLocInformClientRevisionReqMsgT_v02)),
     (QMI_LOC_REG_EVENTS_REQ_V02, Some (sizeof qmiLocRegEventsReqMsgT_v02)),
     (QMI_LOC_START_REQ_V02, Some (sizeof qmiLocStartReqMsgT_v02)),
     (QMI_LOC_STOP_REQ_V02, Some (sizeof qmiLocStopReqMsgT_v02)),
     (QMI_LOC_NI_USER_RESPONSE_REQ_V02, Some (sizeof qmiLocNiUserRespReqMsgT_v02)),
     (QMI_LOC_INJECT_PREDICTED_ORBITS_DATA_REQ_V02, Some (sizeof qmiLocInjectPredictedOrbitsDataReqMsgT_v02)),
     (QMI_LOC_INJECT_UTC_TIME_REQ_V02, Some (sizeof qmiLocInjectUtcTimeReqMsgT_v02)),
     (QMI_LOC_INJECT_POSITION_REQ_V02, Some (sizeof qmiLocInjectPositionReqMsgT_v02)),
     (QMI_LOC_SET_ENGINE_LOCK_REQ_V02, Some (sizeof qmiLocSetEngineLockReqMsgT_v02)),
     (QMI_LOC_SET_SBAS_CONFIG_REQ_V02, Some (sizeof qmiLocSetSbasConfigReqMsgT_v02)),
     (QMI_LOC_SET_NMEA_TYPES_REQ_V02, Some (sizeof qmiLocSetNmeaTypesReqMsgT_v02)),
     (QMI_LOC_SET_LOW_POWER_MODE_REQ_V02, Some (sizeof qmiLocSetLowPowerModeReqMsgT_v02)),
     (QMI_LOC_SET_SERVER_REQ_V02, Some (sizeof qmiLocSetServerReqMsgT_v02)),
     (QMI_LOC_DELETE_ASSIST_DATA_REQ_V02, Some (sizeof qmiLocDeleteAssistDataReqMsgT_v02)),
     (QMI_LOC_INJECT_APCACHE_DATA_REQ_V02, Some (sizeof qmiLocInjectApCacheDataReqMsgT_v02)),
     (QMI_LOC_INJECT_APDONOTCACHE_DATA_REQ_V02, Some (sizeof qmiLocInjectApDoNotCacheDataReqMsgT_v02)),
     (QMI_LOC_SET_XTRA_T_SESSION_CONTROL_REQ_V02, Some (sizeof qmiLocSetXtraTSessionControlReqMsgT_v02)),
     (QMI_LOC_INJECT_WIFI_POSITION_REQ_V02, Some (sizeof qmiLocInjectWifiPositionReqMsgT_v02)),
     (QMI_LOC_NOTIFY_WIFI_STATUS_REQ_V02, Some (sizeof qmiLocNotifyWifiStatusReqMsgT_v02)),
     (QMI_LOC_SET_OPERATION_MODE_REQ_V02, Some (sizeof qmiLocSetOperationModeReqMsgT_v02)),
     (QMI_LOC_SET_SPI_STATUS_REQ_V02, Some (sizeof qmiLocSetSpiStatusReqMsgT_v02)),
     (QMI_LOC_INJECT_SENSOR_DATA_REQ_V02, Some (sizeof qmiLocInjectSensorDataReqMsgT_v02))]"

definition validate_cases_2 :: "(nat \<times> nat option) list" where
  "validate_cases_2 =
    [(QMI_LOC_INJECT_TIME_SYNC_DATA_REQ_V02, Some (sizeof qmiLocInjectTimeSyncDataReqMsgT_v02)),
     (QMI_LOC_SET_CRADLE_MOUNT_CONFIG_REQ_V02, Some (sizeof qmiLocSetCradleMountConfigReqMsgT_v02)),
     (QMI_LOC_SET_EXTERNAL_POWER_CONFIG_REQ_V02, Some (sizeof qmiLocSetExternalPowerConfigReqMsgT_v02)),
     (QMI_LOC_INFORM_LOCATION_SERVER_CONN_STATUS_REQ_V02, Some (sizeof qmiLocInformLocationServerConnStatusReqMsgT_v02)),
     (QMI_LOC_SET_PROTOCOL_CONFIG_PARAMETERS_REQ_V02, Some (sizeof qmiLocSetProtocolConfigParametersReqMsgT_v02)),
     (QMI_LOC_GET_PROTOCOL_CONFIG_PARAMETERS_REQ_V02, Some (sizeof qmiLocGetProtocolConfigParametersReqMsgT_v02)),
     (QMI_LOC_SET_SENSOR_CONTROL_CONFIG_REQ_V02, Some (sizeof qmiLocSetSensorControlConfigReqMsgT_v02)),
     (QMI_LOC_GET_SENSOR_PROPERTIES_REQ_V02, Some (sizeof qmiLocGetSensorPropertiesReqMsgT_v02)),
     (QMI_LOC_SET_SENSOR_PROPERTIES_REQ_V02, Some (sizeof qmiLocSetSensorPropertiesReqMsgT_v02)),
     (QMI_LOC_SET_SENSOR_PERFORMANCE_CONTROL_CONFIGURATION_REQ_V02, Some (sizeof qmiLocSetSensorPerformanceControlConfigReqMsgT_v02)),
     (QMI_LOC_INJECT_SUPL_CERTIFICATE_REQ_V02, Some (sizeof qmiLocInjectSuplCertificateReqMsgT_v02)),
     (QMI_LOC_DELETE_SUPL_CERTIFICATE_REQ_V02, Some (sizeof qmiLocDeleteSuplCertificateReqMsgT_v02)),
     (QMI_LOC_SET_POSITION_ENGINE_CONFIG_PARAMETERS_REQ_V02, Some (sizeof qmiLocSetPositionEngineConfigParametersReqMsgT_v02)),
     (QMI_LOC_GET_POSITION_ENGINE_CONFIG_PARAMETERS_REQ_V02, Some (sizeof qmiLocGetPositionEngineConfigParametersReqMsgT_v02)),
     (QMI_LOC_ADD_CIRCULAR_GEOFENCE_REQ_V02, Some (sizeof qmiLocAddCircularGeofenceReqMsgT_v02)),
     (QMI_LOC_DELETE_GEOFENCE_REQ_V02, Some (sizeof qmiLocDeleteGeofenceReqMsgT_v02)),
     (QMI_LOC_QUERY_GEOFENCE_REQ_V02, Some (sizeof qmiLocQueryGeofenceReqMsgT_v02)),
     (QMI_LOC_EDIT_GEOFENCE_REQ_V02, Some (sizeof qmiLocEditGeofenceReqMsgT_v02)),
     (QMI_LOC_GET_BEST_AVAILABLE_POSITION_REQ_V02, Some (sizeof qmiLocGetBestAvailablePositionReqMsgT_v02)),
     (QMI_LOC_SECURE_GET_AVAILABLE_POSITION_REQ_V02, Some (sizeof qmiLocSecureGetAvailablePositionReqMsgT_v02)),
     (QMI_LOC_INJECT_MOTION_DATA_REQ_V02, Some (sizeof qmiLocInjectMotionDataReqMsgT_v02)),
     (QMI_LOC_GET_NI_GEOFENCE_ID_LIST_REQ_V02, Some (sizeof qmiLocGetNiGeofenceIdListReqMsgT_v02))]"

definition validate_cases_3 :: "(nat \<times> nat option) list" where
  "validate_cases_3 =
    [(QMI_LOC_INJECT_GSM_CELL_INFO_REQ_V02, Some (sizeof qmiLocInjectGSMCellInfoReqMsgT_v02)),
     (QMI_LOC_INJECT_NETWORK_INITIATED_MESSAGE_REQ_V02, Some (sizeof qmiLocInjectNetworkInitiatedMessageReqMsgT_v02)),
     (QMI_LOC_PEDOMETER_REPORT_REQ_V02, Some (sizeof qmiLocPedometerReportReqMsgT_v02)),
     (QMI_LOC_INJECT_WCDMA_CELL_INFO_REQ_V02, Some (sizeof qmiLocInjectWCDMACellInfoReqMsgT_v02)),
     (QMI_LOC_INJECT_TDSCDMA_CELL_INFO_REQ_V02, Some (sizeof qmiLocInjectTDSCDMACellInfoReqMsgT_v02)),
     (QMI_LOC_INJECT_SUBSCRIBER_ID_REQ_V02, Some (sizeof qmiLocInjectSubscriberIDReqMsgT_v02)),
     (QMI_LOC_INJECT_WIFI_AP_DATA_REQ_V02, Some (sizeof qmiLocInjectWifiApDataReqMsgT_v02)),
     (QMI_LOC_GET_BATCH_SIZE_REQ_V02, Some (sizeof qmiLocGetBatchSizeReqMsgT_v02)),
     (QMI_LOC_START_BATCHING_REQ_V02, Some (sizeof qmiLocStartBatchingReqMsgT_v02)),
     (QMI_LOC_READ_FROM_BATCH_REQ_V02, Some (sizeof qmiLocReadFromBatchReqMsgT_v02)),
     (QMI_LOC_STOP_BATCHING_REQ_V02, Some (sizeof qmiLocStopBatchingReqMsgT_v02)),
     (QMI_LOC_RELEASE_BATCH_REQ_V02, Some (sizeof qmiLocReleaseBatchReqMsgT_v02)),
     (QMI_LOC_SET_XTRA_VERSION_CHECK_REQ_V02, Some (sizeof qmiLocSetXtraVersionCheckReqMsgT_v02)),
     (QMI_LOC_INJECT_VEHICLE_SENSOR_DATA_REQ_V02, Some (sizeof qmiLocInjectVehicleSensorDataReqMsgT_v02)),
     (QMI_LOC_NOTIFY_WIFI_ATTACHMENT_STATUS_REQ_V02, Some (sizeof qmiLocNotifyWifiAttachmentStatusReqMsgT_v02)),
     (QMI_LOC_NOTIFY_WIFI_ENABLED_STATUS_REQ_V02, Some (sizeof qmiLocNotifyWifiEnabledStatusReqMsgT_v02)),
     (QMI_LOC_SET_PREMIUM_SERVICES_CONFIG_REQ_V02, Some (sizeof qmiLocSetPremiumServicesCfgReqMsgT_v02)),
     (QMI_LOC_GET_AVAILABLE_WWAN_POSITION_REQ_V02, Some (sizeof qmiLocGetAvailWwanPositionReqMsgT_v02)),
     (QMI_LOC_INJECT_GTP_CLIENT_DOWNLOADED_DATA_REQ_V02, Some (sizeof qmiLocInjectGtpClientDownloadedDataReqMsgT_v02)),
     (QMI_LOC_GDT_UPLOAD_BEGIN_STATUS_REQ_V02, Some (sizeof qmiLocGdtUploadBeginStatusReqMsgT_v02)),
     (QMI_LOC_GDT_UPLOAD_END_REQ_V02, Some (sizeof qmiLocGdtUploadEndReqMsgT_v02)),
     (QMI_LOC_SET_GNSS_CONSTELL_REPORT_CONFIG_V02, Some (sizeof qmiLocSetGNSSConstRepConfigReqMsgT_v02))]"

definition validate_cases_4 :: "(nat \<times> nat option) list" where
  "validate_cases_4 =
    [(QMI_LOC_START_DBT_REQ_V02, Some (sizeof qmiLocStartDbtReqMsgT_v02)),
     (QMI_LOC_STOP_DBT_REQ_V02, Some (sizeof qmiLocStopDbtReqMsgT_v02)),
     (QMI_LOC_INJECT_TIME_ZONE_INFO_REQ_V02, Some (sizeof qmiLocInjectTimeZoneInfoReqMsgT_v02)),
     (QMI_LOC_QUERY_AON_CONFIG_REQ_V02, Some (sizeof qmiLocQueryAonConfigReqMsgT_v02)),
     (QMI_LOC_GTP_AP_STATUS_REQ_V02, Some (sizeof qmiLocGtpApStatusReqMsgT_v02)),
     (QMI_LOC_GDT_DOWNLOAD_BEGIN_STATUS_REQ_V02, Some (sizeof qmiLocGdtDownloadBeginStatusReqMsgT_v02)),
     (QMI_LOC_GDT_DOWNLOAD_READY_STATUS_REQ_V02, Some (sizeof qmiLocGdtDownloadReadyStatusReqMsgT_v02)),
     (QMI_LOC_GDT_RECEIVE_DONE_STATUS_REQ_V02, Some (sizeof qmiLocGdtReceiveDoneStatusReqMsgT_v02)),
     (QMI_LOC_GDT_DOWNLOAD_END_STATUS_REQ_V02, Some (sizeof qmiLocGdtDownloadEndStatusReqMsgT_v02)),
     (QMI_LOC_GET_SUPPORTED_FEATURE_REQ_V02, Some (sizeof qmiLocGetSupportedFeatureReqMsgT_v02)),
     (QMI_LOC_DELETE_GNSS_SERVICE_DATA_REQ_V02, Some (sizeof qmiLocDeleteGNSSServiceDataReqMsgT_v02)),
     (QMI_LOC_INJECT_XTRA_DATA_REQ_V02, Some (sizeof qmiLocInjectXtraDataReqMsgT_v02)),
     (QMI_LOC_INJECT_XTRA_PCID_REQ_V02, Some (sizeof qmiLocInjectXtraPcidReqMsgT_v02)),
     (QMI_LOC_INJECT_SRN_AP_DATA_REQ_V02, Some (sizeof qmiLocInjectSrnApDataReqMsgT_v02)),
     (QMI_LOC_CROWDSOURCE_MANAGER_CONTROL_REQ_V02, Some (sizeof qmiLocCrowdSourceManagerControlReqMsgT_v02)),
     (QMI_LOC_CROWDSOURCE_MANAGER_READ_DATA_REQ_V02, Some (sizeof qmiLocCrowdSourceManagerReadDataReqMsgT_v02)),
     (QMI_LOC_QUERY_XTRA_INFO_REQ_V02, Some (sizeof qmiLocQueryXtraInfoReqMsgT_v02)),
     (QMI_LOC_START_OUTDOOR_TRIP_BATCHING_REQ_V02, Some (sizeof qmiLocStartOutdoorTripBatchingReqMsgT_v02)),
     (QMI_LOC_GET_FDCL_BS_LIST_REQ_V02, Some (sizeof qmiLocGetFdclBsListReqMsgT_v02)),
     (QMI_LOC_INJECT_FDCL_DATA_REQ_V02, Some (sizeof qmiLocInjectFdclDataReqMsgT_v02)),
     (QMI_LOC_SET_BLACKLIST_SV_REQ_V02, Some (sizeof qmiLocSetBlacklistSvReqMsgT_v02)),
     (QMI_LOC_SET_CONSTELLATION_CONTROL_REQ_V02, Some (sizeof qmiLocSetConstellationConfigReqMsgT_v02)),
     (QMI_LOC_REGISTER_MASTER_CLIENT_REQ_V02, Some (sizeof qmiLocRegisterMasterClientReqMsgT_v02)),
     (QMI_LOC_GET_BS_OBS_DATA_REQ_V02, Some (sizeof qmiLocGetBsObsDataReqMsgT_v02))]"

definition validate_cases_5 :: "(nat \<times> nat option) list" where
  "validate_cases_5 =
    [(QMI_LOC_SET_CONSTRAINED_TUNC_MODE_REQ_V02, Some (sizeof qmiLocSetConstrainedTuncModeReqMsgT_v02)),
     (QMI_LOC_ENABLE_POSITION_ASSISTED_CLOCK_EST_REQ_V02, Some (sizeof qmiLocEnablePositionAssistedClockEstReqMsgT_v02)),
     (QMI_LOC_QUERY_GNSS_ENERGY_CONSUMED_REQ_V02, Some (sizeof qmiLocQueryGNSSEnergyConsumedReqMsgT_v02)),
     (QMI_LOC_INJECT_PLATFORM_POWER_STATE_REQ_V02, Some (sizeof qmiLocInjectPlatformPowerStateReqMsgT_v02)),
     (QMI_LOC_SET_ROBUST_LOCATION_CONFIG_REQ_V02, Some (sizeof qmiLocSetRobustLocationReqMsgT_v02)),
     (QMI_LOC_INJECT_ENV_AIDING_REQ_V02, Some (sizeof qmiLocEventInjectEnvAidingReqMsgT_v02)),
     (QMI_LOC_SET_MIN_GPS_WEEK_NUMBER_REQ_V02, Some (sizeof qmiLocSetMinGpsWeekNumberReqMsgT_v02)),
     (QMI_LOC_SET_PARAMETER_REQ_V02, Some (sizeof qmiLocSetParameterReqMsgT_v02)),
     (QMI_LOC_GET_PARAMETER_REQ_V02, Some (sizeof qmiLocGetParameterReqMsgT_v02)),
     (QMI_LOC_SET_MULTIBAND_CONFIG_REQ_V02, Some (sizeof qmiLocSetMultibandConfigReqMsgT_v02)),
     (QMI_LOC_GET_SERVICE_REVISION_REQ_V02, None),
     (QMI_LOC_GET_FIX_CRITERIA_REQ_V02, None),
     (QMI_LOC_GET_PREDICTED_ORBITS_DATA_SOURCE_REQ_V02, None),
     (QMI_LOC_GET_PREDICTED_ORBITS_DATA_VALIDITY_REQ_V02, None),
     (QMI_LOC_GET_ENGINE_LOCK_REQ_V02, None),
     (QMI_LOC_GET_SBAS_CONFIG_REQ_V02, None),
     (QMI_LOC_GET_NMEA_TYPES_REQ_V02, None),
     (QMI_LOC_GET_LOW_POWER_MODE_REQ_V02, None),
     (QMI_LOC_GET_SERVER_REQ_V02, None),
     (QMI_LOC_GET_XTRA_T_SESSION_CONTROL_REQ_V02, None),
     (QMI_LOC_GET_REGISTERED_EVENTS_REQ_V02, None),
     (QMI_LOC_GET_OPERATION_MODE_REQ_V02, None)]"

definition validate_cases_6 :: "(nat \<times> nat option) list" where
  "validate_cases_6 =
    [(QMI_LOC_GET_CRADLE_MOUNT_CONFIG_REQ_V02, None),
     (QMI_LOC_GET_EXTERNAL_POWER_CONFIG_REQ_V02, None),
     (QMI_LOC_GET_SENSOR_CONTROL_CONFIG_REQ_V02, None),
     (QMI_LOC_GET_SENSOR_PERFORMANCE_CONTROL_CONFIGURATION_REQ_V02, None),
     (QMI_LOC_WWAN_OUT_OF_SERVICE_NOTIFICATION_REQ_V02, None),
     (QMI_LOC_GET_SUPPORTED_MSGS_REQ_V02, None),
     (QMI_LOC_GET_SUPPORTED_FIELDS_REQ_V02, None),
     (QMI_LOC_QUERY_OTB_ACCUMULATED_DISTANCE_REQ_V02, None),
     (QMI_LOC_GET_BLACKLIST_SV_REQ_V02, None),
     (QMI_LOC_GET_CONSTELLATION_CONTROL_REQ_V02, None),
     (QMI_LOC_GET_ROBUST_LOCATION_CONFIG_REQ_V02, None),
     (QMI_LOC_GET_MIN_GPS_WEEK_NUMBER_REQ_V02, None),
     (QMI_LOC_GET_MULTIBAND_CONFIG_REQ_V02, None)]"

definition validate_cases :: "(nat \<times> nat option) list" where
  "validate_cases = validate_cases_1 @ validate_cases_2 @ validate_cases_3 @ validate_cases_4 @ validate_cases_5 @ validate_cases_6"

lemmas client_table_defs = locClientEventIndTable_def locClientRespIndTable_def validate_cases_def
  locClientEventIndTable_1_def locClientEventIndTable_2_def locClientRespIndTable_1_def locClientRespIndTable_2_def locClientRespIndTable_3_def locClientRespIndTable_4_def validate_cases_1_def validate_cases_2_def validate_cases_3_def validate_cases_4_def validate_cases_5_def validate_cases_6_def

end
