(* ===== verification/LocClient.thy ===== *)
theory LocClient
  imports LocService LocClientTables LocClientTypes
begin

text \<open>
  The client of the location service, \<^verbatim>\<open>src/location/loc_api/loc_api_v02/loc_api_v02_client.cpp\<close>:
  opening and closing a connection, sending requests, registering for events, dispatching
  indications and asking which messages the service supports. The QMI library is not part of the
  sources: what its functions return is a parameter of the operations. The tables of the file are in
  \<^verbatim>\<open>LocClientTables\<close>, the service object comes from \<^verbatim>\<open>LocService\<close>.
\<close>

section \<open>Data\<close>

text \<open>Return codes of the QMI library and error codes of its responses. The source compares them
  with the enumerators below; the values belong to the library's headers.\<close>

datatype qmi_client_error_type = QMI_NO_ERR | QMI_SERVICE_ERR | qmi_client_err_other int

datatype qmi_error_type_v01 =
    QMI_ERR_MALFORMED_MSG_V01
  | QMI_ERR_INVALID_ARG_V01
  | QMI_ERR_DEVICE_IN_USE_V01
  | QMI_ERR_NOT_SUPPORTED_V01
  | QMI_ERR_INVALID_MESSAGE_ID_V01
  | QMI_ERR_SESSION_OWNERSHIP_V01
  | qmi_err_other int

datatype qmi_result_type_v01 = QMI_RESULT_SUCCESS_V01 | qmi_result_other int

record qmi_response_type_v01 =
  result :: qmi_result_type_v01
  error :: qmi_error_type_v01

datatype locClientIndEnumT = eventIndType | respIndType

record locClientCbDataStructT =
  pClientCookie :: addr
  userHandle :: addr
  eventCallback :: addr
  respCallback :: addr
  errorCallback :: addr
  eventRegMask :: "64 word"
  pMe :: addr

record qmiLocRegEventsReqMsgT =
  req_eventRegMask :: "64 word"
  clientStrId_valid :: bool
  clientStrId :: string
  clientType_valid :: bool
  clientType :: int
  enablePosRequestNotification_valid :: bool
  enablePosRequestNotification :: bool

record locClientCallbacksType =
  cb_size :: nat
  eventIndCb :: addr
  respIndCb :: addr
  errorCb :: addr

text \<open>Calls of the functions a client registered.\<close>

datatype callback =
    Event_cb addr locClientHandleType nat nat addr \<comment> \<open>function, handle, message, size of the buffer, cookie\<close>
  | Resp_cb addr locClientHandleType nat nat addr
  | Error_cb addr locClientHandleType locClientErrorEnumType addr

text \<open>The memory and the static variables of the file: the clients' data, the variables of the
  callers that hold handles, registration requests, buffers of indications, the handles that the
  QMI library has given out and not taken back, and what was sent and called.\<close>

record client_state =
  cb_data :: "addr \<rightharpoonup> locClientCbDataStructT"
  handles :: "addr \<rightharpoonup> locClientHandleType"
  reg_reqs :: "addr \<rightharpoonup> qmiLocRegEventsReqMsgT"
  ind_buffers :: "addr \<rightharpoonup> nat"
  loc_shutdown_mutex :: mutex
  qmi_clients :: "addr list"
  sent_msgs :: "(addr \<times> nat \<times> addr \<times> nat) list"
  callbacks :: "callback list"
  isCheckedAlready :: bool
  supportedMsgChecked :: "64 word"

definition LOC_CLIENT_MAX_SYNC_RETRIES :: nat where "LOC_CLIENT_MAX_SYNC_RETRIES = 50"
definition eQMI_LOC_CLIENT_AFW_V02 :: int where "eQMI_LOC_CLIENT_AFW_V02 = 1"
definition MASTER_HAL :: string where "MASTER_HAL = ''MHAL''"
definition HAL :: string where "HAL = ''HAL''"

section \<open>Sizes of indications\<close>

text \<open>The out parameter of the two searches is an optional cell: \<^term>\<open>None\<close> is the null pointer.\<close>

fun resp_search :: "(nat \<times> nat) list \<Rightarrow> nat \<Rightarrow> nat option" where
  "resp_search [] i = None"
| "resp_search ((j, n) # tab) i = (if i = j then Some n else resp_search tab i)"

definition locClientGetSizeByRespIndId :: "nat \<Rightarrow> nat option \<Rightarrow> bool \<times> nat option" where
  "locClientGetSizeByRespIndId respIndId pRespIndSize =
     (if pRespIndSize = None then (False, None)
      else case resp_search locClientRespIndTable respIndId of
        Some n \<Rightarrow> (True, Some n) | None \<Rightarrow> (False, pRespIndSize))"

fun event_search :: "(nat \<times> nat \<times> nat) list \<Rightarrow> nat \<Rightarrow> nat option" where
  "event_search [] i = None"
| "event_search ((j, n, m) # tab) i = (if i = j then Some n else event_search tab i)"

definition locClientGetSizeByEventIndId :: "nat \<Rightarrow> nat option \<Rightarrow> bool \<times> nat option" where
  "locClientGetSizeByEventIndId eventIndId pEventIndSize =
     (if pEventIndSize = None then (False, None)
      else case event_search locClientEventIndTable eventIndId of
        Some n \<Rightarrow> (True, Some n) | None \<Rightarrow> (False, pEventIndSize))"

text \<open>Found: the size and the type.\<close>

definition locClientGetSizeAndTypeByIndId :: "nat \<Rightarrow> (nat \<times> locClientIndEnumT) option" where
  "locClientGetSizeAndTypeByIndId indId =
     (case locClientGetSizeByEventIndId indId (Some 0) of
        (True, Some n) \<Rightarrow> Some (n, eventIndType)
      | _ \<Rightarrow> (case locClientGetSizeByRespIndId indId (Some 0) of
          (True, Some n) \<Rightarrow> Some (n, respIndType)
        | _ \<Rightarrow> None))"

section \<open>Supported messages\<close>

text \<open>The expression \<^verbatim>\<open>1 << idx\<close> has type \<^verbatim>\<open>int\<close>: a shift by 32 or more is undefined, and the
  result is sign-extended when it is or-ed into the 64-bit result.\<close>

definition int_bit :: "nat \<Rightarrow> 64 word option" where
  "int_bit idx = (if idx < 32 then Some (scast (push_bit idx (1 :: 32 word))) else None)"

text \<open>The response of the service: whether the list is valid, its length and its bytes.\<close>

record qmi_get_supported_msgs_resp =
  gen_resp :: qmi_response_type_v01
  supported_msgs_valid :: bool
  supported_msgs_len :: "32 word"
  supported_msgs :: "8 word list"

fun check_loop :: "32 word list \<Rightarrow> qmi_get_supported_msgs_resp \<Rightarrow> nat \<Rightarrow> nat \<Rightarrow> 64 word \<Rightarrow> 64 word option" where
  "check_loop reqIdArray resp idx 0 res = Some res"
| "check_loop reqIdArray resp idx (Suc n) res =
     (if idx \<ge> length reqIdArray then None
      else let reqId = reqIdArray ! idx; len = unat (drop_bit 3 reqId)
           in if unat (supported_msgs_len resp) > len
              then if len \<ge> length (supported_msgs resp) then None
                   else if bit (supported_msgs resp ! len) (unat reqId mod 8)
                   then do { b \<leftarrow> int_bit idx; check_loop reqIdArray resp (Suc idx) n (or res b) }
                   else check_loop reqIdArray resp (Suc idx) n res
              else check_loop reqIdArray resp (Suc idx) n res)"

definition checkQmiMsgsSupported :: "32 word list \<Rightarrow> 32 word \<Rightarrow> qmi_get_supported_msgs_resp \<Rightarrow> 64 word option" where
  "checkQmiMsgsSupported reqIdArray reqIdArrayLength resp =
     (if supported_msgs_valid resp
      then let loopSize = min (unat reqIdArrayLength) (unat (supported_msgs_len resp));
               loopSize = min loopSize 64
           in check_loop reqIdArray resp 0 loopSize 0
      else Some 0)"

section \<open>Status and error codes\<close>

definition convertQmiResponseToLocStatus :: "qmi_response_type_v01 \<Rightarrow> locClientStatusEnumType" where
  "convertQmiResponseToLocStatus resp =
     (if result resp = QMI_RESULT_SUCCESS_V01 then eLOC_CLIENT_SUCCESS
      else case error resp of
        QMI_ERR_MALFORMED_MSG_V01 \<Rightarrow> eLOC_CLIENT_FAILURE_INVALID_PARAMETER
      | QMI_ERR_INVALID_ARG_V01 \<Rightarrow> eLOC_CLIENT_FAILURE_INVALID_PARAMETER
      | QMI_ERR_DEVICE_IN_USE_V01 \<Rightarrow> eLOC_CLIENT_FAILURE_ENGINE_BUSY
      | QMI_ERR_NOT_SUPPORTED_V01 \<Rightarrow> eLOC_CLIENT_FAILURE_UNSUPPORTED
      | QMI_ERR_INVALID_MESSAGE_ID_V01 \<Rightarrow> eLOC_CLIENT_FAILURE_INVALID_MESSAGE_ID
      | _ \<Rightarrow> eLOC_CLIENT_FAILURE_INTERNAL)"

definition convertQmiErrorToLocError :: "qmi_client_error_type \<Rightarrow> locClientErrorEnumType" where
  "convertQmiErrorToLocError err = (case err of
     QMI_SERVICE_ERR \<Rightarrow> eLOC_CLIENT_ERROR_SERVICE_UNAVAILABLE
   | _ \<Rightarrow> eLOC_CLIENT_ERROR_SERVICE_UNAVAILABLE)"

section \<open>Callbacks from the QMI library\<close>

definition invoke :: "callback \<Rightarrow> client_state \<Rightarrow> client_state option" where
  "invoke cb h = do {
     x \<leftarrow> mutex_lock (loc_shutdown_mutex h);
     y \<leftarrow> mutex_unlock x;
     Some (h\<lparr>loc_shutdown_mutex := y, callbacks := callbacks h @ [cb]\<rparr>) }"

definition locClientErrorCb :: "addr \<Rightarrow> qmi_client_error_type \<Rightarrow> addr \<Rightarrow> client_state \<Rightarrow> client_state option" where
  "locClientErrorCb user_handle err err_cb_data h =
     (if err_cb_data = NULL then Some h
      else do {
        d \<leftarrow> load (cb_data h) err_cb_data;
        if errorCallback d \<noteq> NULL \<and> err_cb_data = pMe d
        then invoke (Error_cb (errorCallback d) err_cb_data (convertQmiErrorToLocError err) (pClientCookie d)) h
        else Some h })"

text \<open>\<open>buf\<close> is what \<^verbatim>\<open>malloc\<close> returns, \<open>decode_rc\<close> what \<^verbatim>\<open>qmi_client_message_decode\<close> returns.\<close>

definition locClientIndCb :: "addr \<Rightarrow> qmi_client_error_type \<Rightarrow> addr \<Rightarrow> nat \<Rightarrow> nat \<Rightarrow> addr \<Rightarrow> client_state
    \<Rightarrow> client_state option" where
  "locClientIndCb buf decode_rc user_handle msg_id ind_buf_len ind_cb_data h =
     (if ind_cb_data = NULL then Some h
      else do {
        d \<leftarrow> load (cb_data h) ind_cb_data;
        if ind_cb_data \<noteq> pMe d \<or> userHandle d \<noteq> user_handle then Some h
        else case locClientGetSizeAndTypeByIndId msg_id of None \<Rightarrow> Some h
        | Some (indSize, indType) \<Rightarrow>
            if buf = NULL then Some h
            else do {
              let h = h\<lparr>ind_buffers := (ind_buffers h)(buf \<mapsto> indSize)\<rparr>;
              let rc = (if ind_buf_len > 0 then decode_rc else QMI_NO_ERR);
              h \<leftarrow> (if rc = QMI_NO_ERR then
                (case indType of
                   eventIndType \<Rightarrow>
                     if eventCallback d \<noteq> NULL
                     then invoke (Event_cb (eventCallback d) ind_cb_data msg_id indSize (pClientCookie d)) h
                     else Some h
                 | respIndType \<Rightarrow>
                     if respCallback d \<noteq> NULL
                     then invoke (Resp_cb (respCallback d) ind_cb_data msg_id indSize (pClientCookie d)) h
                     else Some h)
                else Some h);
              m \<leftarrow> free_obj (ind_buffers h) buf;
              Some (h\<lparr>ind_buffers := m\<rparr>) } })"

section \<open>Requests\<close>

text \<open>The data pointer and the length for a known request.\<close>

fun validate_search :: "(nat \<times> nat option) list \<Rightarrow> nat \<Rightarrow> nat option option" where
  "validate_search [] i = None"
| "validate_search ((j, n) # tab) i = (if i = j then Some n else validate_search tab i)"

definition validateRequest :: "nat \<Rightarrow> addr \<Rightarrow> (addr \<times> nat) option" where
  "validateRequest reqId reqPayload = (case validate_search validate_cases reqId of
     None \<Rightarrow> None
   | Some None \<Rightarrow> Some (NULL, 0)
   | Some (Some len) \<Rightarrow> Some (reqPayload, len))"

text \<open>The loop of \<^verbatim>\<open>locClientSendReq\<close>: \<open>send k\<close> is what \<^verbatim>\<open>qmi_client_send_msg_sync\<close> returns on try
  \<open>k\<close>, \<open>n\<close> the number of tries left. The result is the status of an early return or the last
  response; the variable \<^verbatim>\<open>resp\<close> is uninitialised before the first try.\<close>

fun send_loop :: "(nat \<Rightarrow> qmi_client_error_type \<times> qmi_response_type_v01) \<Rightarrow> addr \<times> nat \<times> addr \<times> nat \<Rightarrow> nat \<Rightarrow> nat
    \<Rightarrow> qmi_response_type_v01 option \<Rightarrow> client_state
    \<Rightarrow> (locClientStatusEnumType + qmi_response_type_v01 option) \<times> client_state" where
  "send_loop send msg tries 0 resp h = (Inr resp, h)"
| "send_loop send msg tries (Suc n) resp h =
     (let (rc, resp) = send tries;
          h = h\<lparr>sent_msgs := sent_msgs h @ [msg]\<rparr>
      in if rc = QMI_SERVICE_ERR then (Inl eLOC_CLIENT_FAILURE_PHONE_OFFLINE, h)
         else if rc \<noteq> QMI_NO_ERR then (Inl eLOC_CLIENT_FAILURE_INTERNAL, h)
         else if error resp \<noteq> QMI_ERR_SESSION_OWNERSHIP_V01 then (Inr (Some resp), h)
         else send_loop send msg (Suc tries) n (Some resp) h)"

definition valid_handle :: "locClientHandleType \<Rightarrow> client_state \<Rightarrow> bool option" where
  "valid_handle hdl h = (if hdl = NULL then Some False
     else do { d \<leftarrow> load (cb_data h) hdl; Some (userHandle d \<noteq> NULL \<and> hdl = pMe d) })"

definition locClientSendReq :: "(nat \<Rightarrow> qmi_client_error_type \<times> qmi_response_type_v01) \<Rightarrow> locClientHandleType \<Rightarrow>
    nat \<Rightarrow> addr \<Rightarrow> client_state \<Rightarrow> (locClientStatusEnumType \<times> client_state) option" where
  "locClientSendReq send handle reqId reqPayload h = do {
     ok \<leftarrow> valid_handle handle h;
     if \<not> ok then Some (eLOC_CLIENT_FAILURE_INVALID_HANDLE, h)
     else case validateRequest reqId reqPayload of
       None \<Rightarrow> Some (eLOC_CLIENT_FAILURE_INVALID_PARAMETER, h)
     | Some (pReqData, reqLen) \<Rightarrow> do {
         d \<leftarrow> load (cb_data h) handle;
         case send_loop send (userHandle d, reqId, pReqData, reqLen) 1 LOC_CLIENT_MAX_SYNC_RETRIES None h of
           (Inl status, h) \<Rightarrow> Some (status, h)
         | (Inr resp, h) \<Rightarrow> do {
             resp \<leftarrow> resp;
             let status = convertQmiResponseToLocStatus resp;
             if status = eLOC_CLIENT_SUCCESS \<and> reqId = QMI_LOC_REG_EVENTS_REQ_V02 \<and> reqPayload \<noteq> NULL then do {
               r \<leftarrow> load (reg_reqs h) reqPayload;
               Some (status, h\<lparr>cb_data := (cb_data h)(handle \<mapsto> d\<lparr>eventRegMask := req_eventRegMask r\<rparr>)\<rparr>) }
             else Some (status, h) } } }"

text \<open>\<open>req\<close> is the address of the local variable that holds the request.\<close>

definition locClientRegisterEventMask :: "(nat \<Rightarrow> qmi_client_error_type \<times> qmi_response_type_v01) \<Rightarrow> addr \<Rightarrow>
    locClientHandleType \<Rightarrow> 64 word \<Rightarrow> bool \<Rightarrow> client_state \<Rightarrow> (bool \<times> client_state) option" where
  "locClientRegisterEventMask send req clientHandle evmask bIsMaster h = do {
     let regEventsReq = \<lparr>req_eventRegMask = evmask, clientStrId_valid = True,
           clientStrId = take QMI_LOC_MAX_CLIENT_ID_STRING_LENGTH_V02 (if bIsMaster then MASTER_HAL else HAL),
           clientType_valid = True, clientType = eQMI_LOC_CLIENT_AFW_V02,
           enablePosRequestNotification_valid = True, enablePosRequestNotification = False\<rparr>;
     (status, h) \<leftarrow> locClientSendReq send clientHandle QMI_LOC_REG_EVENTS_REQ_V02 req
                      (h\<lparr>reg_reqs := (reg_reqs h)(req \<mapsto> regEventsReq)\<rparr>);
     let h = h\<lparr>reg_reqs := (reg_reqs h)(req := None)\<rparr>;
     Some (status = eLOC_CLIENT_SUCCESS, h) }"

section \<open>Opening and closing\<close>

definition zero_cb :: locClientCbDataStructT where
  "zero_cb = \<lparr>pClientCookie = NULL, userHandle = NULL, eventCallback = NULL, respCallback = NULL,
     errorCallback = NULL, eventRegMask = 0, pMe = NULL\<rparr>"

definition locClientClose :: "qmi_client_error_type \<Rightarrow> addr \<Rightarrow> client_state \<Rightarrow> (locClientStatusEnumType \<times> client_state) option" where
  "locClientClose release_rc pLocClientHandle h =
     (if pLocClientHandle = NULL then Some (eLOC_CLIENT_FAILURE_INVALID_PARAMETER, h)
      else do {
        pCallbackData \<leftarrow> load (handles h) pLocClientHandle;
        ok \<leftarrow> valid_handle pCallbackData h;
        if \<not> ok then Some (eLOC_CLIENT_FAILURE_INVALID_HANDLE, h)
        else if release_rc \<noteq> QMI_NO_ERR then Some (eLOC_CLIENT_FAILURE_INTERNAL, h)
        else do {
          d \<leftarrow> load (cb_data h) pCallbackData;
          x \<leftarrow> mutex_lock (loc_shutdown_mutex h);
          y \<leftarrow> mutex_unlock x;
          m \<leftarrow> store (cb_data h) pCallbackData zero_cb;
          m \<leftarrow> free_obj m pCallbackData;
          c \<leftarrow> store (handles h) pLocClientHandle LOC_CLIENT_INVALID_HANDLE_VALUE;
          Some (eLOC_CLIENT_SUCCESS, h\<lparr>qmi_clients := remove1 (userHandle d) (qmi_clients h),
            loc_shutdown_mutex := y, cb_data := m, handles := c\<rparr>) } })"

text \<open>What the QMI library answers while a control point is set up: the result and the handle of
  the notifier, the results of the service look-ups for an instance and for any instance (one per
  notification of the service; when the list is exhausted no further notification comes and the
  wait does not end), the result and the handle of the client, the result of the registration
  of the error callback, and the result of the release of the notifier, which the code ignores: a
  notifier whose release fails still exists.\<close>

record ctrl_env =
  notifier_init :: "qmi_client_error_type \<times> addr"
  get_service_instance :: "int \<Rightarrow> qmi_client_error_type list"
  get_any_service :: "qmi_client_error_type list"
  client_init :: "qmi_client_error_type \<times> addr"
  register_error :: qmi_client_error_type
  notifier_release :: qmi_client_error_type

fun lookup_loop :: "qmi_client_error_type list \<Rightarrow> unit option" where
  "lookup_loop [] = None"
| "lookup_loop (rc # rcs) = (if rc = QMI_NO_ERR then Some () else lookup_loop rcs)"

text \<open>The service object comes from the generated accessor of the interface description; \<open>resp_t\<close>
  is the response type of the common library, as there.\<close>

definition locClientQmiCtrlPointInit :: "ctype \<Rightarrow> ctrl_env \<Rightarrow> addr \<Rightarrow> int \<Rightarrow> client_state
    \<Rightarrow> (locClientStatusEnumType \<times> client_state) option" where
  "locClientQmiCtrlPointInit resp_t env pLocClientCbData instanceId h =
     (case loc_get_service_object_internal_v02 resp_t LOC_V02_IDL_MAJOR_VERS LOC_V02_IDL_MINOR_VERS LOC_V02_IDL_TOOL_VERS of
        None \<Rightarrow> Some (eLOC_CLIENT_FAILURE_INTERNAL, h)
      | Some obj \<Rightarrow> do {
          let (rc, notifier) = notifier_init env;
          let h = (if notifier \<noteq> NULL then h\<lparr>qmi_clients := notifier # qmi_clients h\<rparr> else h);
          let release = (\<lambda>h. if notifier \<noteq> NULL \<and> notifier_release env = QMI_NO_ERR then h\<lparr>qmi_clients := remove1 notifier (qmi_clients h)\<rparr> else h);
          if rc \<noteq> QMI_NO_ERR then Some (eLOC_CLIENT_FAILURE_INTERNAL, release h)
          else do {
            lookup_loop (if instanceId \<ge> 0 then get_service_instance env instanceId else get_any_service env);
            let (rc, clnt) = client_init env;
            if rc \<noteq> QMI_NO_ERR then Some (eLOC_CLIENT_FAILURE_INTERNAL, release h)
            else do {
              let h = h\<lparr>qmi_clients := clnt # qmi_clients h\<rparr>;
              if register_error env \<noteq> QMI_NO_ERR then Some (eLOC_CLIENT_FAILURE_INTERNAL, release h)
              else do {
                d \<leftarrow> load (cb_data h) pLocClientCbData;
                m \<leftarrow> store (cb_data h) pLocClientCbData (d\<lparr>userHandle := clnt\<rparr>);
                Some (eLOC_CLIENT_SUCCESS, release (h\<lparr>cb_data := m\<rparr>)) } } } })"

record open_env = ctrl_env +
  calloc_ret :: addr
  local_req :: addr
  reg_send :: "nat \<Rightarrow> qmi_client_error_type \<times> qmi_response_type_v01"
  close_rc :: qmi_client_error_type

text \<open>\<open>cbs_size\<close> is \<^verbatim>\<open>sizeof(locClientCallbacksType)\<close>; the callbacks are \<^term>\<open>None\<close> for a null
  pointer.\<close>

definition locClientOpenInstance :: "ctype \<Rightarrow> nat \<Rightarrow> open_env \<Rightarrow> 64 word \<Rightarrow> int \<Rightarrow> locClientCallbacksType option
    \<Rightarrow> addr \<Rightarrow> addr \<Rightarrow> client_state \<Rightarrow> (locClientStatusEnumType \<times> client_state) option" where
  "locClientOpenInstance resp_t cbs_size env evmask instanceId cbs pLocClientHandle cookie h =
     (case cbs of None \<Rightarrow> Some (eLOC_CLIENT_FAILURE_INVALID_PARAMETER, h)
      | Some cb \<Rightarrow>
     if pLocClientHandle = NULL \<or> respIndCb cb = NULL \<or> cb_size cb \<noteq> cbs_size
     then Some (eLOC_CLIENT_FAILURE_INVALID_PARAMETER, h)
     else do {
       (status, h) \<leftarrow>
         (let a = calloc_ret env in
          if a = NULL then Some (eLOC_CLIENT_FAILURE_INTERNAL, h)
          else do {
            (status, h) \<leftarrow> locClientQmiCtrlPointInit resp_t (ctrl_env.truncate env) a instanceId (h\<lparr>cb_data := (cb_data h)(a \<mapsto> zero_cb)\<rparr>);
            if status \<noteq> eLOC_CLIENT_SUCCESS then do {
              m \<leftarrow> free_obj (cb_data h) a;
              Some (status, h\<lparr>cb_data := m\<rparr>) }
            else do {
              d \<leftarrow> load (cb_data h) a;
              c \<leftarrow> store (handles h) pLocClientHandle a;
              let h = h\<lparr>cb_data := (cb_data h)(a \<mapsto> d\<lparr>pMe := a\<rparr>), handles := c\<rparr>;
              (ok, h) \<leftarrow> locClientRegisterEventMask (reg_send env) (local_req env) a evmask False h;
              if \<not> ok then do {
                (r, h) \<leftarrow> locClientClose (close_rc env) pLocClientHandle h;
                Some (eLOC_CLIENT_FAILURE_INTERNAL, h) }
              else do {
                d \<leftarrow> load (cb_data h) a;
                Some (eLOC_CLIENT_SUCCESS, h\<lparr>cb_data := (cb_data h)(a \<mapsto> d\<lparr>eventCallback := eventIndCb cb,
                  respCallback := respIndCb cb, errorCallback := errorCb cb, eventRegMask := evmask,
                  pClientCookie := cookie\<rparr>)\<rparr>) } } });
       if status \<noteq> eLOC_CLIENT_SUCCESS then do {
         c \<leftarrow> store (handles h) pLocClientHandle LOC_CLIENT_INVALID_HANDLE_VALUE;
         Some (status, h\<lparr>handles := c\<rparr>) }
       else Some (status, h) })"


datatype gnss_type = GNSS_NONE | GNSS_MSM | GNSS_GSS | GNSS_MDM | GNSS_AUTO | GNSS_UNKNOWN



definition locClientSupportMsgCheck :: "qmi_client_error_type \<times> qmi_get_supported_msgs_resp \<Rightarrow> locClientHandleType \<Rightarrow>
    32 word list option \<Rightarrow> 32 word \<Rightarrow> 64 word option \<Rightarrow> client_state \<Rightarrow>
    (locClientStatusEnumType \<times> 64 word option \<times> client_state) option" where
  "locClientSupportMsgCheck send handle msgArray msgArrayLength supportedMsg h =
     (case msgArray of None \<Rightarrow> Some (eLOC_CLIENT_FAILURE_INVALID_PARAMETER, supportedMsg, h)
      | Some ms \<Rightarrow>
      if supportedMsg = None then Some (eLOC_CLIENT_FAILURE_INVALID_PARAMETER, supportedMsg, h)
      else if isCheckedAlready h then Some (eLOC_CLIENT_SUCCESS, Some (supportedMsgChecked h), h)
      else do {
        ok \<leftarrow> valid_handle handle h;
        if \<not> ok then Some (eLOC_CLIENT_FAILURE_GENERAL, supportedMsg, h)
        else do {
          d \<leftarrow> load (cb_data h) handle;
          let h = h\<lparr>sent_msgs := sent_msgs h @ [(userHandle d, QMI_LOC_GET_SUPPORTED_MSGS_REQ_V02, NULL, 0)]\<rparr>;
          if fst send \<noteq> QMI_NO_ERR then Some (eLOC_CLIENT_FAILURE_GENERAL, supportedMsg, h)
          else if convertQmiResponseToLocStatus (gen_resp (snd send)) = eLOC_CLIENT_SUCCESS then do {
            r \<leftarrow> checkQmiMsgsSupported ms msgArrayLength (snd send);
            Some (eLOC_CLIENT_SUCCESS, Some r, h\<lparr>supportedMsgChecked := r, isCheckedAlready := True\<rparr>) }
          else Some (eLOC_CLIENT_FAILURE_GENERAL, supportedMsg, h) } })"

section \<open>The tables against the interface description\<close>

text \<open>What the interface description says of a message: its type in the service's list, and the
  entry of the message table when the type is one of this service.\<close>

fun find_msg :: "qmi_idl_service_message_table_entry list \<Rightarrow> nat \<Rightarrow> idl_type16 option" where
  "find_msg [] i = None"
| "find_msg ((j, t, l) # es) i = (if j = i then Some t else find_msg es i)"

fun msg_entry :: "qmi_idl_message_table_entry list \<Rightarrow> idl_type16 option \<Rightarrow> qmi_idl_message_table_entry option" where
  "msg_entry msgs (Some (QMI_IDL_TYPE16 t k)) = (if t = 0 \<and> k < length msgs then Some (msgs ! k) else None)"
| "msg_entry msgs None = None"

fun no_mandatory :: "idl_byte list option \<Rightarrow> bool" where
  "no_mandatory None = True"
| "no_mandatory (Some d) = (case parse_tlvs d of None \<Rightarrow> False | Some ts \<Rightarrow> list_all (\<lambda>t. t_valid t \<noteq> None) ts)"

abbreviation command_entry :: "ctype \<Rightarrow> nat \<Rightarrow> qmi_idl_message_table_entry option" where
  "command_entry resp_t i \<equiv> msg_entry (loc_message_table_v02 resp_t) (find_msg loc_service_command_messages_v02 i)"

abbreviation indication_entry :: "ctype \<Rightarrow> nat \<Rightarrow> qmi_idl_message_table_entry option" where
  "indication_entry resp_t i \<equiv> msg_entry (loc_message_table_v02 resp_t) (find_msg loc_service_indication_messages_v02 i)"

lemma event_table_sizes:
  "list_all (\<lambda>(i, n, m). map_option fst (indication_entry resp_t i) = Some n) locClientEventIndTable"
  by (simp add: loc_message_table_defs loc_service_message_defs client_table_defs msg_id_simps cong: idl_cong)

lemma resp_table_sizes:
  "list_all (\<lambda>(i, n). map_option fst (indication_entry resp_t i) = Some n) locClientRespIndTable"
  by (simp add: loc_message_table_defs loc_service_message_defs client_table_defs msg_id_simps cong: idl_cong)

fun case_ok :: "ctype \<Rightarrow> nat \<times> nat option \<Rightarrow> bool" where
  "case_ok resp_t (i, Some n) = (map_option fst (command_entry resp_t i) = Some n)"
| "case_ok resp_t (i, None) = (case command_entry resp_t i of
     None \<Rightarrow> find_msg loc_service_command_messages_v02 i \<noteq> None
   | Some (n, d) \<Rightarrow> i = QMI_LOC_GET_SERVER_REQ_V02 \<or> no_mandatory d)"

lemma engine_lock_optional: "no_mandatory (Some qmiLocGetEngineLockReqMsgT_data_v02)"
  by (simp add: qmiLocGetEngineLockReqMsgT_data_v02_def parse_tlv.simps)

lemma get_server_mandatory: "\<not> no_mandatory (Some qmiLocGetServerReqMsgT_data_v02)"
  by (simp add: qmiLocGetServerReqMsgT_data_v02_def parse_tlv.simps)

lemma validate_cases_ok: "list_all (case_ok resp_t) validate_cases"
  using engine_lock_optional
  by (simp add: loc_message_table_defs loc_service_message_defs client_table_defs msg_id_simps cong: idl_cong)

lemma get_server_entry:
  "command_entry resp_t QMI_LOC_GET_SERVER_REQ_V02
     = Some (sizeof qmiLocGetServerReqMsgT_v02, Some qmiLocGetServerReqMsgT_data_v02)"
  by (simp add: loc_message_table_defs loc_service_message_defs client_table_defs msg_id_simps cong: idl_cong)

lemma get_server_validated: "validateRequest QMI_LOC_GET_SERVER_REQ_V02 p = Some (NULL, 0)"
  by (simp add: validateRequest_def client_table_defs msg_id_simps)

lemma event_search_in: "event_search tab i = Some n \<Longrightarrow> \<exists>m. (i, n, m) \<in> set tab"
  by (induction tab i rule: event_search.induct) (auto split: if_splits)

lemma resp_search_in: "resp_search tab i = Some n \<Longrightarrow> (i, n) \<in> set tab"
  by (induction tab i rule: resp_search.induct) (auto split: if_splits)

lemma validate_search_in: "validate_search tab i = Some n \<Longrightarrow> (i, n) \<in> set tab"
  by (induction tab i rule: validate_search.induct) (auto split: if_splits)

lemma size_by_ind_id:
  "locClientGetSizeAndTypeByIndId i = (case event_search locClientEventIndTable i of
     Some n \<Rightarrow> Some (n, eventIndType)
   | None \<Rightarrow> map_option (\<lambda>n. (n, respIndType)) (resp_search locClientRespIndTable i))"
  by (simp add: locClientGetSizeAndTypeByIndId_def locClientGetSizeByEventIndId_def
      locClientGetSizeByRespIndId_def split: option.splits)

lemma indication_entry_size:
  assumes "locClientGetSizeAndTypeByIndId i = Some (n, ty)"
  shows "map_option fst (indication_entry resp_t i) = Some n"
proof (cases "event_search locClientEventIndTable i")
  case None
  with assms have "resp_search locClientRespIndTable i = Some n" by (auto simp: size_by_ind_id)
  from resp_search_in [OF this] show ?thesis
    using resp_table_sizes [of resp_t] by (auto simp: list_all_iff)
next
  case (Some m)
  with assms have "event_search locClientEventIndTable i = Some n" by (auto simp: size_by_ind_id)
  from event_search_in [OF this] show ?thesis
    using event_table_sizes [of resp_t] by (auto simp: list_all_iff)
qed

lemma msg_entry_described:
  assumes "msg_entry (loc_message_table_v02 resp_t) t = Some (n, Some d)"
  shows "\<exists>s. n = sizeof s \<and> describes_msg s d"
proof -
  have "(n, Some d) \<in> set (loc_message_table_v02 resp_t)"
    using assms by (induction "loc_message_table_v02 resp_t" t rule: msg_entry.induct)
      (auto split: if_splits simp: in_set_conv_nth)
  with msgs_ok [of resp_t] have "msg_entry_ok resp_t (entry_structs loc_type_table_v02) (n, Some d)"
    by (auto simp: list_all_iff)
  from msg_entry_ok_sound [OF this] show ?thesis by blast
qed

section \<open>Dispatch of indications\<close>

lemma invoke_unlocked [simp]:
  "\<not> loc_shutdown_mutex h \<Longrightarrow> invoke cb h = Some (h\<lparr>callbacks := callbacks h @ [cb]\<rparr>)"
  by (cases h) (simp add: invoke_def)

text \<open>The calls that an indication should cause: none, or one of the function that the client
  registered for its kind.\<close>

definition dispatched :: "addr \<Rightarrow> qmi_client_error_type \<Rightarrow> addr \<Rightarrow> nat \<Rightarrow> nat \<Rightarrow> addr \<Rightarrow> locClientCbDataStructT
    \<Rightarrow> callback list" where
  "dispatched buf rc u i len a d =
     (if pMe d \<noteq> a \<or> userHandle d \<noteq> u \<or> buf = NULL \<or> (len > 0 \<and> rc \<noteq> QMI_NO_ERR) then []
      else case locClientGetSizeAndTypeByIndId i of
        None \<Rightarrow> []
      | Some (n, eventIndType) \<Rightarrow>
          (if eventCallback d = NULL then [] else [Event_cb (eventCallback d) a i n (pClientCookie d)])
      | Some (n, respIndType) \<Rightarrow>
          (if respCallback d = NULL then [] else [Resp_cb (respCallback d) a i n (pClientCookie d)]))"

lemma ind_cb_result:
  assumes "a \<noteq> NULL" and "cb_data h a = Some d" and "\<not> loc_shutdown_mutex h" and "ind_buffers h buf = None"
  shows "locClientIndCb buf rc u i len a h = Some (h\<lparr>callbacks := callbacks h @ dispatched buf rc u i len a d\<rparr>)"
proof -
  have b: "(ind_buffers h)(buf := None) = ind_buffers h" using assms by auto
  have noop: "h\<lparr>ind_buffers := ind_buffers h\<rparr> = h" "h\<lparr>callbacks := callbacks h\<rparr> = h" by simp_all
  consider "pMe d \<noteq> a \<or> userHandle d \<noteq> u \<or> buf = NULL \<or> locClientGetSizeAndTypeByIndId i = None"
    | n t where "pMe d = a" "userHandle d = u" "buf \<noteq> NULL" "locClientGetSizeAndTypeByIndId i = Some (n, t)"
    by (cases "locClientGetSizeAndTypeByIndId i") auto
  then show ?thesis
  proof cases
    case 1
    then show ?thesis using assms(1,2)
      by (auto simp: locClientIndCb_def dispatched_def split: option.splits prod.splits)
  next
    case 2
    then show ?thesis using assms(1-3) b
      by (cases t) (simp_all add: locClientIndCb_def dispatched_def)
  qed
qed

lemma dispatched_cases:
  "dispatched buf rc u i len a d = [] \<or> (pMe d = a \<and> userHandle d = u \<and> buf \<noteq> NULL \<and> (len = 0 \<or> rc = QMI_NO_ERR)
    \<and> (\<exists>n. (locClientGetSizeAndTypeByIndId i = Some (n, eventIndType) \<and> eventCallback d \<noteq> NULL
              \<and> dispatched buf rc u i len a d = [Event_cb (eventCallback d) a i n (pClientCookie d)])
         \<or> (locClientGetSizeAndTypeByIndId i = Some (n, respIndType) \<and> respCallback d \<noteq> NULL
              \<and> dispatched buf rc u i len a d = [Resp_cb (respCallback d) a i n (pClientCookie d)])))"
  by (auto simp: dispatched_def split: option.splits prod.splits locClientIndEnumT.splits)

lemma dispatched_delivers:
  assumes "pMe d = a" "userHandle d = u" "buf \<noteq> NULL" "len = 0 \<or> rc = QMI_NO_ERR"
    and "locClientGetSizeAndTypeByIndId i \<noteq> None" "eventCallback d \<noteq> NULL" "respCallback d \<noteq> NULL"
  shows "dispatched buf rc u i len a d \<noteq> []"
  using assms by (auto simp: dispatched_def split: locClientIndEnumT.splits)

section \<open>Requests\<close>

text \<open>The number of sends: the first try whose answer is not the ownership error ends the loop.\<close>

definition owned_elsewhere :: "qmi_client_error_type \<times> qmi_response_type_v01 \<Rightarrow> bool" where
  "owned_elsewhere ans \<longleftrightarrow> fst ans = QMI_NO_ERR \<and> error (snd ans) = QMI_ERR_SESSION_OWNERSHIP_V01"

definition answer_status :: "qmi_client_error_type \<times> qmi_response_type_v01 \<Rightarrow> locClientStatusEnumType" where
  "answer_status ans = (if fst ans = QMI_SERVICE_ERR then eLOC_CLIENT_FAILURE_PHONE_OFFLINE
     else if fst ans \<noteq> QMI_NO_ERR then eLOC_CLIENT_FAILURE_INTERNAL
     else convertQmiResponseToLocStatus (snd ans))"

lemma send_loop_result:
  "\<exists>k r. tries \<le> k \<and> k \<le> tries + n
     \<and> send_loop send msg tries (Suc n) resp h = (r, h\<lparr>sent_msgs := sent_msgs h @ replicate (Suc k - tries) msg\<rparr>)
     \<and> (\<forall>j. tries \<le> j \<and> j < k \<longrightarrow> owned_elsewhere (send j))
     \<and> (owned_elsewhere (send k) \<longrightarrow> k = tries + n)
     \<and> (case r of Inl st \<Rightarrow> st = answer_status (send k) \<and> st \<noteq> eLOC_CLIENT_SUCCESS
        | Inr ro \<Rightarrow> ro = Some (snd (send k)) \<and> fst (send k) = QMI_NO_ERR)"
proof (induction n arbitrary: tries resp h)
  case 0
  show ?case
    by (rule exI [of _ tries]) (auto simp: owned_elsewhere_def answer_status_def case_prod_beta Let_def)
next
  case (Suc n)
  show ?case
  proof (cases "owned_elsewhere (send tries)")
    case False
    then show ?thesis
      by (intro exI [of _ tries]) (auto simp: owned_elsewhere_def answer_status_def case_prod_beta Let_def)
  next
    case True
    obtain k r where k: "Suc tries \<le> k" "k \<le> Suc tries + n"
      and e: "send_loop send msg (Suc tries) (Suc n) (Some (snd (send tries))) (h\<lparr>sent_msgs := sent_msgs h @ [msg]\<rparr>)
        = (r, h\<lparr>sent_msgs := (sent_msgs h @ [msg]) @ replicate (Suc k - Suc tries) msg\<rparr>)"
      and ow: "\<forall>j. Suc tries \<le> j \<and> j < k \<longrightarrow> owned_elsewhere (send j)"
      and l: "owned_elsewhere (send k) \<longrightarrow> k = Suc tries + n"
      and r: "case r of Inl st \<Rightarrow> st = answer_status (send k) \<and> st \<noteq> eLOC_CLIENT_SUCCESS
        | Inr ro \<Rightarrow> ro = Some (snd (send k)) \<and> fst (send k) = QMI_NO_ERR"
      using Suc.IH [of "Suc tries" "Some (snd (send tries))" "h\<lparr>sent_msgs := sent_msgs h @ [msg]\<rparr>"] by auto
    have "send_loop send msg tries (Suc (Suc n)) resp h
        = (r, h\<lparr>sent_msgs := (sent_msgs h @ [msg]) @ replicate (Suc k - Suc tries) msg\<rparr>)"
      using True e by (simp add: owned_elsewhere_def case_prod_beta Let_def)
    moreover have "(sent_msgs h @ [msg]) @ replicate (Suc k - Suc tries) msg = sent_msgs h @ replicate (Suc k - tries) msg"
      using k by (simp add: Suc_diff_le)
    moreover have "owned_elsewhere (send j)" if "tries \<le> j" "j < k" for j
      using that True ow by (cases "j = tries") auto
    ultimately show ?thesis using k l r by (intro exI [of _ k] exI [of _ r]) auto
  qed
qed

lemma send_req_result:
  assumes v: "valid_handle a h = Some True" and d: "cb_data h a = Some d" "a \<noteq> NULL"
    and q: "validateRequest i p = Some (q, len)"
    and r: "i = QMI_LOC_REG_EVENTS_REQ_V02 \<and> p \<noteq> NULL \<longrightarrow> reg_reqs h p \<noteq> None"
  shows "\<exists>k. 1 \<le> k \<and> k \<le> LOC_CLIENT_MAX_SYNC_RETRIES
     \<and> (\<forall>j. 1 \<le> j \<and> j < k \<longrightarrow> owned_elsewhere (send j))
     \<and> (owned_elsewhere (send k) \<longrightarrow> k = LOC_CLIENT_MAX_SYNC_RETRIES)
     \<and> locClientSendReq send a i p h = Some (answer_status (send k),
         h\<lparr>sent_msgs := sent_msgs h @ replicate k (userHandle d, i, q, len),
           cb_data := (if answer_status (send k) = eLOC_CLIENT_SUCCESS \<and> i = QMI_LOC_REG_EVENTS_REQ_V02 \<and> p \<noteq> NULL
             then (cb_data h)(a \<mapsto> d\<lparr>eventRegMask := req_eventRegMask (the (reg_reqs h p))\<rparr>) else cb_data h)\<rparr>)"
proof -
  obtain n where n: "LOC_CLIENT_MAX_SYNC_RETRIES = Suc n"
    by (simp add: LOC_CLIENT_MAX_SYNC_RETRIES_def numeral_eq_Suc)
  obtain k rr where k: "1 \<le> k" "k \<le> 1 + n" "\<forall>j. 1 \<le> j \<and> j < k \<longrightarrow> owned_elsewhere (send j)"
      "owned_elsewhere (send k) \<longrightarrow> k = 1 + n"
    and e: "send_loop send (userHandle d, i, q, len) 1 (Suc n) None h
       = (rr, h\<lparr>sent_msgs := sent_msgs h @ replicate (Suc k - 1) (userHandle d, i, q, len)\<rparr>)"
    and rr: "case rr of Inl st \<Rightarrow> st = answer_status (send k) \<and> st \<noteq> eLOC_CLIENT_SUCCESS
        | Inr ro \<Rightarrow> ro = Some (snd (send k)) \<and> fst (send k) = QMI_NO_ERR"
    using send_loop_result [of 1 n send "(userHandle d, i, q, len)" None h] by blast
  have "locClientSendReq send a i p h = Some (answer_status (send k),
         h\<lparr>sent_msgs := sent_msgs h @ replicate k (userHandle d, i, q, len),
           cb_data := (if answer_status (send k) = eLOC_CLIENT_SUCCESS \<and> i = QMI_LOC_REG_EVENTS_REQ_V02 \<and> p \<noteq> NULL
             then (cb_data h)(a \<mapsto> d\<lparr>eventRegMask := req_eventRegMask (the (reg_reqs h p))\<rparr>) else cb_data h)\<rparr>)"
  proof (cases rr)
    case (Inl st)
    then show ?thesis using v d q e rr by (auto simp: locClientSendReq_def n simp del: send_loop.simps)
  next
    case (Inr ro)
    then have st: "answer_status (send k) = convertQmiResponseToLocStatus (snd (send k))"
      using rr by (simp add: answer_status_def)
    show ?thesis using v d q e r rr Inr
      by (auto simp: locClientSendReq_def n st simp del: send_loop.simps)
  qed
  with k show ?thesis by (auto simp: n)
qed

section \<open>Opening and closing\<close>

text \<open>What an attempt to open relies on: the caller's variable exists, no callback is running, the
  memory that is handed out is fresh, and a client that the QMI library creates has a handle.\<close>

definition open_pre :: "open_env \<Rightarrow> addr \<Rightarrow> client_state \<Rightarrow> bool" where
  "open_pre env p h \<longleftrightarrow> p \<noteq> NULL \<and> handles h p \<noteq> None \<and> \<not> loc_shutdown_mutex h
     \<and> cb_data h (calloc_ret env) = None \<and> local_req env \<noteq> NULL \<and> reg_reqs h (local_req env) = None
     \<and> (fst (client_init env) = QMI_NO_ERR \<longrightarrow> snd (client_init env) \<noteq> NULL)"

definition cbs_ok :: "nat \<Rightarrow> locClientCallbacksType \<Rightarrow> bool" where
  "cbs_ok cbs_size cb \<longleftrightarrow> respIndCb cb \<noteq> NULL \<and> cb_size cb = cbs_size"

definition service_found :: "'a ctrl_env_scheme \<Rightarrow> int \<Rightarrow> bool" where
  "service_found env inst \<longleftrightarrow>
     QMI_NO_ERR \<in> set (if inst \<ge> 0 then get_service_instance env inst else get_any_service env)"

text \<open>The notifier that stays behind when its release fails.\<close>

definition kept_notifier :: "'a ctrl_env_scheme \<Rightarrow> addr list" where
  "kept_notifier env = (if snd (notifier_init env) \<noteq> NULL \<and> notifier_release env \<noteq> QMI_NO_ERR
     then [snd (notifier_init env)] else [])"

lemma lookup_loop_found: "lookup_loop rcs = (if QMI_NO_ERR \<in> set rcs then Some () else None)"
  by (induction rcs) auto

lemma ctrl_init_cases:
  assumes "service_found env inst" and "a \<noteq> NULL" and "cb_data h a = Some d"
  shows "locClientQmiCtrlPointInit resp_t (ctrl_env.truncate env) a inst h =
    (if fst (notifier_init env) \<noteq> QMI_NO_ERR \<or> fst (client_init env) \<noteq> QMI_NO_ERR
     then Some (eLOC_CLIENT_FAILURE_INTERNAL, h\<lparr>qmi_clients := kept_notifier env @ qmi_clients h\<rparr>)
     else if register_error env \<noteq> QMI_NO_ERR
     then Some (eLOC_CLIENT_FAILURE_INTERNAL, h\<lparr>qmi_clients := snd (client_init env) # kept_notifier env @ qmi_clients h\<rparr>)
     else Some (eLOC_CLIENT_SUCCESS, h\<lparr>qmi_clients := snd (client_init env) # kept_notifier env @ qmi_clients h,
       cb_data := (cb_data h)(a \<mapsto> d\<lparr>userHandle := snd (client_init env)\<rparr>)\<rparr>))"
  using assms
  by (auto simp: locClientQmiCtrlPointInit_def loc_get_service_object_internal_v02_def ctrl_env.truncate_def
      lookup_loop_found service_found_def kept_notifier_def case_prod_beta Let_def)

lemma reg_events_validated:
  "validateRequest QMI_LOC_REG_EVENTS_REQ_V02 p = Some (p, sizeof qmiLocRegEventsReqMsgT_v02)"
  by (simp add: validateRequest_def client_table_defs msg_id_simps)

lemma register_mask_result:
  assumes v: "valid_handle a h = Some True" and d: "cb_data h a = Some d" "a \<noteq> NULL"
    and r: "req \<noteq> NULL" "reg_reqs h req = None"
  shows "\<exists>k. 1 \<le> k \<and> k \<le> LOC_CLIENT_MAX_SYNC_RETRIES \<and> locClientRegisterEventMask send req a m master h
     = Some (answer_status (send k) = eLOC_CLIENT_SUCCESS,
         h\<lparr>sent_msgs := sent_msgs h @ replicate k (userHandle d, QMI_LOC_REG_EVENTS_REQ_V02, req, sizeof qmiLocRegEventsReqMsgT_v02),
           cb_data := (if answer_status (send k) = eLOC_CLIENT_SUCCESS
             then (cb_data h)(a \<mapsto> d\<lparr>eventRegMask := m\<rparr>) else cb_data h)\<rparr>)"
proof -
  let ?rq = "\<lparr>req_eventRegMask = m, clientStrId_valid = True,
           clientStrId = take QMI_LOC_MAX_CLIENT_ID_STRING_LENGTH_V02 (if master then MASTER_HAL else HAL),
           clientType_valid = True, clientType = eQMI_LOC_CLIENT_AFW_V02,
           enablePosRequestNotification_valid = True, enablePosRequestNotification = False\<rparr>"
  let ?h = "h\<lparr>reg_reqs := (reg_reqs h)(req \<mapsto> ?rq)\<rparr>"
  have v': "valid_handle a ?h = Some True" using v by (simp add: valid_handle_def split: if_splits)
  have d': "cb_data ?h a = Some d" 
    and r': "QMI_LOC_REG_EVENTS_REQ_V02 = QMI_LOC_REG_EVENTS_REQ_V02 \<and> req \<noteq> NULL \<longrightarrow> reg_reqs ?h req \<noteq> None" using d by simp_all
  have clear: "(reg_reqs h)(req := None) = reg_reqs h" using r by auto
  obtain k where k: "1 \<le> k" "k \<le> LOC_CLIENT_MAX_SYNC_RETRIES"
    and e: "locClientSendReq send a QMI_LOC_REG_EVENTS_REQ_V02 req ?h = Some (answer_status (send k),
         ?h\<lparr>sent_msgs := sent_msgs ?h @ replicate k (userHandle d, QMI_LOC_REG_EVENTS_REQ_V02, req, sizeof qmiLocRegEventsReqMsgT_v02),
           cb_data := (if answer_status (send k) = eLOC_CLIENT_SUCCESS \<and> QMI_LOC_REG_EVENTS_REQ_V02 = QMI_LOC_REG_EVENTS_REQ_V02 \<and> req \<noteq> NULL
             then (cb_data ?h)(a \<mapsto> d\<lparr>eventRegMask := req_eventRegMask (the (reg_reqs ?h req))\<rparr>) else cb_data ?h)\<rparr>)"
    using send_req_result [OF v' d' d(2) reg_events_validated [of req] r', of send] by blast
  have "locClientRegisterEventMask send req a m master h
     = Some (answer_status (send k) = eLOC_CLIENT_SUCCESS,
         h\<lparr>sent_msgs := sent_msgs h @ replicate k (userHandle d, QMI_LOC_REG_EVENTS_REQ_V02, req, sizeof qmiLocRegEventsReqMsgT_v02),
           cb_data := (if answer_status (send k) = eLOC_CLIENT_SUCCESS
             then (cb_data h)(a \<mapsto> d\<lparr>eventRegMask := m\<rparr>) else cb_data h)\<rparr>)"
    using e r clear by (cases h) (simp add: locClientRegisterEventMask_def Let_def)
  with k show ?thesis by blast
qed

lemma close_result:
  assumes "p \<noteq> NULL" and "handles h p = Some a" and "a \<noteq> NULL" and "cb_data h a = Some d" and "userHandle d \<noteq> NULL"
    and "pMe d = a" and "\<not> loc_shutdown_mutex h"
  shows "locClientClose rc p h = (if rc \<noteq> QMI_NO_ERR then Some (eLOC_CLIENT_FAILURE_INTERNAL, h)
    else Some (eLOC_CLIENT_SUCCESS, h\<lparr>qmi_clients := remove1 (userHandle d) (qmi_clients h),
      cb_data := (cb_data h)(a := None), handles := (handles h)(p \<mapsto> LOC_CLIENT_INVALID_HANDLE_VALUE)\<rparr>))"
  using assms by (cases h) (simp add: locClientClose_def valid_handle_def)

definition opened :: "open_env \<Rightarrow> 64 word \<Rightarrow> locClientCallbacksType \<Rightarrow> addr \<Rightarrow> locClientCbDataStructT" where
  "opened env m cb cookie = \<lparr>pClientCookie = cookie, userHandle = snd (client_init env), eventCallback = eventIndCb cb,
     respCallback = respIndCb cb, errorCallback = errorCb cb, eventRegMask = m, pMe = calloc_ret env\<rparr>"

lemma open_fails_early:
  assumes pre: "open_pre env p h" and ok: "cbs_ok cs cb" and s: "service_found env inst"
    and f: "calloc_ret env = NULL \<or> fst (notifier_init env) \<noteq> QMI_NO_ERR \<or> fst (client_init env) \<noteq> QMI_NO_ERR
      \<or> register_error env \<noteq> QMI_NO_ERR"
  shows "locClientOpenInstance resp_t cs env m inst (Some cb) p cookie h = Some (eLOC_CLIENT_FAILURE_INTERNAL,
     h\<lparr>handles := (handles h)(p \<mapsto> LOC_CLIENT_INVALID_HANDLE_VALUE),
       qmi_clients := (if calloc_ret env = NULL then qmi_clients h
         else if fst (notifier_init env) \<noteq> QMI_NO_ERR \<or> fst (client_init env) \<noteq> QMI_NO_ERR
         then kept_notifier env @ qmi_clients h else snd (client_init env) # kept_notifier env @ qmi_clients h)\<rparr>)"
proof -
  have clear: "(cb_data h)(calloc_ret env := None) = cb_data h" using pre by (auto simp: open_pre_def)
  have hp: "p \<noteq> NULL" "\<exists>y. handles h p = Some y" using pre by (auto simp: open_pre_def)
  show ?thesis
  proof (cases "calloc_ret env = NULL")
    case True
    then show ?thesis using hp ok by (auto simp: locClientOpenInstance_def cbs_ok_def)
  next
    case False
    show ?thesis using hp ok f False clear s
      by (cases h) (auto simp: locClientOpenInstance_def cbs_ok_def ctrl_init_cases [OF s False])
  qed
qed

lemma open_registers:
  assumes pre: "open_pre env p h" and ok: "cbs_ok cs cb" and s: "service_found env inst"
    and f: "calloc_ret env \<noteq> NULL" "fst (notifier_init env) = QMI_NO_ERR" "fst (client_init env) = QMI_NO_ERR"
      "register_error env = QMI_NO_ERR"
  defines "a \<equiv> calloc_ret env" and "clnt \<equiv> snd (client_init env)"
  shows "\<exists>k msgs. 1 \<le> k \<and> k \<le> LOC_CLIENT_MAX_SYNC_RETRIES
     \<and> msgs = replicate k (clnt, QMI_LOC_REG_EVENTS_REQ_V02, local_req env, sizeof qmiLocRegEventsReqMsgT_v02)
     \<and> locClientOpenInstance resp_t cs env m inst (Some cb) p cookie h =
       (if answer_status (reg_send env k) = eLOC_CLIENT_SUCCESS
        then Some (eLOC_CLIENT_SUCCESS, h\<lparr>handles := (handles h)(p \<mapsto> a), qmi_clients := clnt # kept_notifier env @ qmi_clients h,
               sent_msgs := sent_msgs h @ msgs, cb_data := (cb_data h)(a \<mapsto> opened env m cb cookie)\<rparr>)
        else Some (eLOC_CLIENT_FAILURE_INTERNAL, h\<lparr>handles := (handles h)(p \<mapsto> LOC_CLIENT_INVALID_HANDLE_VALUE),
               sent_msgs := sent_msgs h @ msgs,
               qmi_clients := (if close_rc env = QMI_NO_ERR then [] else [clnt]) @ kept_notifier env @ qmi_clients h,
               cb_data := (if close_rc env = QMI_NO_ERR then cb_data h
                 else (cb_data h)(a \<mapsto> zero_cb\<lparr>userHandle := clnt, pMe := a\<rparr>))\<rparr>))"
proof -
  let ?h1 = "h\<lparr>handles := (handles h)(p \<mapsto> a), qmi_clients := clnt # kept_notifier env @ qmi_clients h,
    cb_data := (cb_data h)(a \<mapsto> zero_cb\<lparr>userHandle := clnt, pMe := a\<rparr>)\<rparr>"
  have clear: "(cb_data h)(a := None) = cb_data h" using pre by (auto simp: open_pre_def a_def)
  have a: "a \<noteq> NULL" and clnt: "clnt \<noteq> NULL" using pre f by (auto simp: open_pre_def a_def clnt_def)
  have hp: "p \<noteq> NULL" "\<exists>y. handles h p = Some y" "\<not> loc_shutdown_mutex h" using pre by (auto simp: open_pre_def)
  have "valid_handle a ?h1 = Some True" using a clnt by (simp add: valid_handle_def)
  then obtain k where k: "1 \<le> k" "k \<le> LOC_CLIENT_MAX_SYNC_RETRIES"
    and e: "locClientRegisterEventMask (reg_send env) (local_req env) a m False ?h1
     = Some (answer_status (reg_send env k) = eLOC_CLIENT_SUCCESS,
         ?h1\<lparr>sent_msgs := sent_msgs h @ replicate k (clnt, QMI_LOC_REG_EVENTS_REQ_V02, local_req env, sizeof qmiLocRegEventsReqMsgT_v02),
           cb_data := (if answer_status (reg_send env k) = eLOC_CLIENT_SUCCESS
             then (cb_data ?h1)(a \<mapsto> zero_cb\<lparr>userHandle := clnt, pMe := a, eventRegMask := m\<rparr>) else cb_data ?h1)\<rparr>)"
    using register_mask_result [of a ?h1 "zero_cb\<lparr>userHandle := clnt, pMe := a\<rparr>" "local_req env" "reg_send env" m False] pre a
    by (auto simp: open_pre_def)
  have c: "locClientQmiCtrlPointInit resp_t (ctrl_env.truncate env) a inst (h\<lparr>cb_data := (cb_data h)(a \<mapsto> zero_cb)\<rparr>)
    = Some (eLOC_CLIENT_SUCCESS, h\<lparr>qmi_clients := clnt # kept_notifier env @ qmi_clients h,
       cb_data := (cb_data h)(a \<mapsto> zero_cb\<lparr>userHandle := clnt\<rparr>)\<rparr>)"
    using ctrl_init_cases [OF s a, of "h\<lparr>cb_data := (cb_data h)(a \<mapsto> zero_cb)\<rparr>" zero_cb resp_t] f by (simp add: clnt_def)
  show ?thesis
    using k e c hp ok a clnt clear
    by (intro exI [of _ k], cases h) (auto simp: locClientOpenInstance_def cbs_ok_def a_def [symmetric] close_result
       opened_def clnt_def [symmetric] zero_cb_def)
qed



section \<open>Supported messages\<close>

definition msg_supported :: "qmi_get_supported_msgs_resp \<Rightarrow> 32 word \<Rightarrow> bool" where
  "msg_supported resp i \<longleftrightarrow> unat i div 8 < unat (supported_msgs_len resp)
     \<and> bit (supported_msgs resp ! (unat i div 8)) (unat i mod 8)"

lemma int_bit_low: "idx < 31 \<Longrightarrow> \<exists>b. int_bit idx = Some b \<and> (\<forall>j. bit b j \<longleftrightarrow> j = idx)"
  by (auto simp: int_bit_def bit_signed_iff bit_push_bit_iff bit_1_iff push_bit_of_1 bit_exp_iff min_def split: if_splits)

lemma check_loop_bits:
  assumes "idx + n \<le> length ids" and "idx + n \<le> 31" and "unat (supported_msgs_len resp) \<le> length (supported_msgs resp)"
  shows "\<exists>r. check_loop ids resp idx n res = Some r
    \<and> (\<forall>j. bit r j \<longleftrightarrow> bit res j \<or> (idx \<le> j \<and> j < idx + n \<and> msg_supported resp (ids ! j)))"
  using assms(1,2)
proof (induction n arbitrary: idx res)
  case (Suc n)
  obtain b where b: "int_bit idx = Some b" "\<forall>j. bit b j \<longleftrightarrow> j = idx" using int_bit_low [of idx] Suc.prems by auto
  define res' where "res' = (if msg_supported resp (ids ! idx) then or res b else res)"
  have dv: "unat (drop_bit 3 (ids ! idx)) = unat (ids ! idx) div 8"
    by (simp add: unat_drop_bit_eq drop_bit_eq_div [of 3 "unat _"])
  have "check_loop ids resp idx (Suc n) res = check_loop ids resp (Suc idx) n res'"
    using Suc.prems assms(3) b(1)
    by (auto simp: res'_def msg_supported_def Let_def dv)
  moreover obtain r where "check_loop ids resp (Suc idx) n res' = Some r"
    "\<forall>j. bit r j \<longleftrightarrow> bit res' j \<or> (Suc idx \<le> j \<and> j < Suc idx + n \<and> msg_supported resp (ids ! j))"
    using Suc.IH [of "Suc idx" res'] Suc.prems by auto
  ultimately show ?case using b(2)
    by (auto simp: res'_def bit_or_iff less_Suc_eq_le)
qed auto

section \<open>Sample states\<close>

text \<open>A client that is connected, an environment in which a connection succeeds at the second
  service look-up, and the service of the comment in \<^verbatim>\<open>checkQmiMsgsSupported\<close>, which supports the
  messages 0, 1, 30 and 31.\<close>

definition sample_client :: locClientCbDataStructT where
  "sample_client = \<lparr>pClientCookie = 5, userHandle = 8, eventCallback = 11, respCallback = 12, errorCallback = 13,
     eventRegMask = 4, pMe = 2\<rparr>"

definition sample_state :: client_state where
  "sample_state = \<lparr>cb_data = [2 \<mapsto> sample_client], handles = [3 \<mapsto> 2],
     reg_reqs = [7 \<mapsto> \<lparr>req_eventRegMask = 6, clientStrId_valid = True, clientStrId = HAL, clientType_valid = True,
        clientType = 1, enablePosRequestNotification_valid = True, enablePosRequestNotification = False\<rparr>],
     ind_buffers = Map.empty, loc_shutdown_mutex = False, qmi_clients = [8], sent_msgs = [], callbacks = [],
     isCheckedAlready = False, supportedMsgChecked = 0\<rparr>"

definition sample_env :: open_env where
  "sample_env = \<lparr>notifier_init = (QMI_NO_ERR, 40), get_service_instance = (\<lambda>_. []),
     get_any_service = [QMI_SERVICE_ERR, QMI_NO_ERR], client_init = (QMI_NO_ERR, 41), register_error = QMI_NO_ERR,
     notifier_release = QMI_NO_ERR, calloc_ret = 50, local_req = 60,
     reg_send = (\<lambda>_. (QMI_NO_ERR, \<lparr>result = QMI_RESULT_SUCCESS_V01, error = qmi_err_other 0\<rparr>)), close_rc = QMI_NO_ERR\<rparr>"

definition sample_cbs :: locClientCallbacksType where
  "sample_cbs = \<lparr>cb_size = 32, eventIndCb = 11, respIndCb = 12, errorCb = 13\<rparr>"

definition comment_service :: qmi_get_supported_msgs_resp where
  "comment_service = \<lparr>gen_resp = \<lparr>result = QMI_RESULT_SUCCESS_V01, error = qmi_err_other 0\<rparr>,
     supported_msgs_valid = True, supported_msgs_len = 4, supported_msgs = [0x03, 0x00, 0x00, 0xc0]\<rparr>"

lemma sample_open:
  "open_pre sample_env 3 sample_state" "open_pre (sample_env\<lparr>register_error := QMI_SERVICE_ERR\<rparr>) 3 sample_state"
  "cbs_ok 32 sample_cbs" "service_found sample_env (- 1)" "service_found (sample_env\<lparr>register_error := QMI_SERVICE_ERR\<rparr>) (- 1)"
  by (simp_all add: open_pre_def cbs_ok_def service_found_def sample_env_def sample_state_def sample_cbs_def)

section \<open>Properties\<close>

text \<open>The client's tables agree with the interface description: an indication that the client
  recognises is one of the service's indications, and the size that the client reserves for it is the
  one of the message table, which is the size of the C struct that the message's descriptor describes.\<close>

theorem client_indication_sizes:
  assumes "locClientGetSizeAndTypeByIndId i = Some (n, ty)"
  shows "\<exists>od. indication_entry resp_t i = Some (n, od) \<and> (\<forall>d. od = Some d \<longrightarrow> (\<exists>s. n = sizeof s \<and> describes_msg s d))"
  using indication_entry_size [OF assms, of resp_t] msg_entry_described [of resp_t _ n] by auto

theorem client_indication_sizes_witness:
  "\<exists>n od. locClientGetSizeAndTypeByIndId QMI_LOC_EVENT_NMEA_IND_V02 = Some (n, eventIndType)
     \<and> indication_entry (C_struct []) QMI_LOC_EVENT_NMEA_IND_V02 = Some (n, od)"
proof -
  have "locClientGetSizeAndTypeByIndId QMI_LOC_EVENT_NMEA_IND_V02 = Some (sizeof qmiLocEventNmeaIndMsgT_v02, eventIndType)"
    by (simp add: size_by_ind_id client_table_defs msg_id_simps)
  with client_indication_sizes [OF this, of "C_struct []"] show ?thesis by blast
qed

text \<open>Requests are sent with the right length: a request that is validated is one of the service's
  commands; it is sent with the caller's payload and the struct size of the message table, or without
  payload, and then the message has no mandatory TLV. The exception is \<^verbatim>\<open>QMI_LOC_GET_SERVER_REQ_V02\<close>: the
  client never sends its payload although the description makes the TLV \<^verbatim>\<open>serverType\<close> mandatory.\<close>

theorem client_request_lengths:
  "validateRequest i p = Some (q, len) \<Longrightarrow>
     (q = p \<and> (\<exists>d. command_entry resp_t i = Some (len, d)))
   \<or> (q = NULL \<and> len = 0 \<and> find_msg loc_service_command_messages_v02 i \<noteq> None
      \<and> (\<forall>n d. command_entry resp_t i = Some (n, d) \<longrightarrow> no_mandatory d \<longleftrightarrow> i \<noteq> QMI_LOC_GET_SERVER_REQ_V02))"
proof -
  assume a: "validateRequest i p = Some (q, len)"
  then obtain l where l: "validate_search validate_cases i = Some l" by (auto simp: validateRequest_def split: option.splits)
  then have ok: "case_ok resp_t (i, l)" using validate_search_in [OF l] validate_cases_ok [of resp_t] by (auto simp: list_all_iff)
  show ?thesis
  proof (cases l)
    case None
    then show ?thesis using a l ok get_server_entry [of resp_t] get_server_mandatory
      by (cases "find_msg loc_service_command_messages_v02 i") (auto simp: validateRequest_def split: option.splits)
  next
    case (Some n)
    then show ?thesis using a l ok by (auto simp: validateRequest_def)
  qed
qed

theorem client_request_lengths_witness:
  "validateRequest QMI_LOC_START_REQ_V02 7 = Some (7, sizeof qmiLocStartReqMsgT_v02)
   \<and> (\<exists>d. command_entry (C_struct []) QMI_LOC_START_REQ_V02 = Some (sizeof qmiLocStartReqMsgT_v02, d))"
proof -
  have "validateRequest QMI_LOC_START_REQ_V02 7 = Some (7, sizeof qmiLocStartReqMsgT_v02)"
    by (simp add: validateRequest_def client_table_defs msg_id_simps)
  with client_request_lengths [OF this, of "C_struct []"] show ?thesis by auto
qed

text \<open>C33. The client's tables agree with the interface description, in both directions: an indication that the client recognises is one of
  the service's indications and gets the size of the C struct its descriptor describes, and a request is sent with the struct size
  of its message, or without payload when the message has no mandatory TLV.  The exception is \<^verbatim>\<open>QMI_LOC_GET_SERVER_REQ_V02\<close>.\<close>

theorem client_message_sizes:
  "(locClientGetSizeAndTypeByIndId i = Some (n, ty) \<longrightarrow>
     (\<exists>od. indication_entry resp_t i = Some (n, od) \<and> (\<forall>d. od = Some d \<longrightarrow> (\<exists>s. n = sizeof s \<and> describes_msg s d))))
   \<and> (validateRequest i p = Some (q, len) \<longrightarrow>
       (q = p \<and> (\<exists>d. command_entry resp_t i = Some (len, d)))
     \<or> (q = NULL \<and> len = 0 \<and> find_msg loc_service_command_messages_v02 i \<noteq> None
        \<and> (\<forall>n d. command_entry resp_t i = Some (n, d) \<longrightarrow> no_mandatory d \<longleftrightarrow> i \<noteq> QMI_LOC_GET_SERVER_REQ_V02)))"
  using client_indication_sizes [of i n ty resp_t] client_request_lengths [of i p q len resp_t] by simp

theorem client_message_sizes_witness:
  "\<exists>n od. locClientGetSizeAndTypeByIndId QMI_LOC_EVENT_NMEA_IND_V02 = Some (n, eventIndType)
     \<and> indication_entry (C_struct []) QMI_LOC_EVENT_NMEA_IND_V02 = Some (n, od)"
proof -
  have "locClientGetSizeAndTypeByIndId QMI_LOC_EVENT_NMEA_IND_V02 = Some (sizeof qmiLocEventNmeaIndMsgT_v02, eventIndType)"
    by (simp add: size_by_ind_id client_table_defs msg_id_simps)
  then show ?thesis using client_message_sizes [of QMI_LOC_EVENT_NMEA_IND_V02 _ _ "C_struct []"] by blast
qed

text \<open>C34. An indication causes at most one call, of the function that the client registered for its
  kind, with the client's handle and cookie and the size of the message; the message buffer is released, the
  lock is free again and nothing else changes. Nothing is called for a client whose data or handle
  does not match, for an unknown indication, when the buffer cannot be allocated or when decoding fails. A known indication is
  delivered when the client is connected, it has registered both functions (an opening requires only the one for
  responses), the buffer was allocated and decoding succeeded or the message is empty.\<close>

theorem client_indication_dispatch:
  assumes "a \<noteq> NULL" and "cb_data h a = Some d" and "\<not> loc_shutdown_mutex h" and "ind_buffers h buf = None"
  shows "\<exists>cs. locClientIndCb buf rc u i len a h = Some (h\<lparr>callbacks := callbacks h @ cs\<rparr>)
    \<and> (cs = [] \<or> (pMe d = a \<and> userHandle d = u \<and> buf \<noteq> NULL \<and> (len = 0 \<or> rc = QMI_NO_ERR)
        \<and> (\<exists>n. (locClientGetSizeAndTypeByIndId i = Some (n, eventIndType) \<and> eventCallback d \<noteq> NULL
                  \<and> cs = [Event_cb (eventCallback d) a i n (pClientCookie d)])
             \<or> (locClientGetSizeAndTypeByIndId i = Some (n, respIndType) \<and> respCallback d \<noteq> NULL
                  \<and> cs = [Resp_cb (respCallback d) a i n (pClientCookie d)]))))
    \<and> (pMe d = a \<and> userHandle d = u \<and> buf \<noteq> NULL \<and> (len = 0 \<or> rc = QMI_NO_ERR)
        \<and> locClientGetSizeAndTypeByIndId i \<noteq> None \<and> eventCallback d \<noteq> NULL \<and> respCallback d \<noteq> NULL \<longrightarrow> cs \<noteq> [])"
proof (intro exI conjI)
  show "locClientIndCb buf rc u i len a h = Some (h\<lparr>callbacks := callbacks h @ dispatched buf rc u i len a d\<rparr>)"
    by (rule ind_cb_result [OF assms])
qed (use dispatched_cases dispatched_delivers in \<open>blast+\<close>)

theorem client_indication_dispatch_witness:
  "\<exists>cs. locClientIndCb 30 QMI_NO_ERR 8 QMI_LOC_EVENT_NMEA_IND_V02 40 2 sample_state
     = Some (sample_state\<lparr>callbacks := callbacks sample_state @ cs\<rparr>) \<and> cs \<noteq> []"
proof -
  have "locClientGetSizeAndTypeByIndId QMI_LOC_EVENT_NMEA_IND_V02 \<noteq> None"
    by (simp add: size_by_ind_id client_table_defs msg_id_simps)
  moreover have "cb_data sample_state 2 = Some sample_client" "\<not> loc_shutdown_mutex sample_state"
    "ind_buffers sample_state 30 = None" "pMe sample_client = 2" "userHandle sample_client = 8"
    "eventCallback sample_client \<noteq> NULL" "respCallback sample_client \<noteq> NULL"
    by (simp_all add: sample_state_def sample_client_def)
  ultimately show ?thesis
    using client_indication_dispatch [of 2 sample_state sample_client 30 QMI_NO_ERR 8 QMI_LOC_EVENT_NMEA_IND_V02 40]
    by auto
qed

text \<open>C37. For a valid handle and a request that \<^verbatim>\<open>validateRequest\<close> knows (with a readable structure if it is a registration),
  the request is sent at least once and at most 50 times, only the ownership error leads to
  another try, the returned status is the one of the last answer, and the client's copy of the event mask
  changes exactly when a registration request succeeds.\<close>

theorem client_send_req:
  assumes "a \<noteq> NULL" and "cb_data h a = Some d" and "userHandle d \<noteq> NULL" and "pMe d = a"
    and "validateRequest i p = Some (q, len)"
    and "i = QMI_LOC_REG_EVENTS_REQ_V02 \<and> p \<noteq> NULL \<longrightarrow> reg_reqs h p \<noteq> None"
  shows "\<exists>k. 1 \<le> k \<and> k \<le> 50
     \<and> (\<forall>j. 1 \<le> j \<and> j < k \<longrightarrow> owned_elsewhere (send j))
     \<and> (owned_elsewhere (send k) \<longrightarrow> k = 50)
     \<and> locClientSendReq send a i p h = Some (answer_status (send k),
         h\<lparr>sent_msgs := sent_msgs h @ replicate k (userHandle d, i, q, len),
           cb_data := (if answer_status (send k) = eLOC_CLIENT_SUCCESS \<and> i = QMI_LOC_REG_EVENTS_REQ_V02 \<and> p \<noteq> NULL
             then (cb_data h)(a \<mapsto> d\<lparr>eventRegMask := req_eventRegMask (the (reg_reqs h p))\<rparr>) else cb_data h)\<rparr>)"
proof -
  have "valid_handle a h = Some True" using assms(1-4) by (simp add: valid_handle_def)
  from send_req_result [OF this assms(2,1,5,6), of send] show ?thesis
    by (simp only: LOC_CLIENT_MAX_SYNC_RETRIES_def)
qed

theorem client_send_req_witness:
  "\<exists>k. 1 \<le> k \<and> k \<le> 50 \<and> (\<exists>st h'. locClientSendReq (\<lambda>_. (QMI_NO_ERR, \<lparr>result = QMI_RESULT_SUCCESS_V01, error = qmi_err_other 0\<rparr>))
      2 QMI_LOC_REG_EVENTS_REQ_V02 7 sample_state = Some (st, h')
     \<and> sent_msgs h' = replicate k (8, QMI_LOC_REG_EVENTS_REQ_V02, 7, sizeof qmiLocRegEventsReqMsgT_v02))"
proof -
  let ?send = "\<lambda>_ :: nat. (QMI_NO_ERR, \<lparr>result = QMI_RESULT_SUCCESS_V01, error = qmi_err_other 0\<rparr>)"
  have "cb_data sample_state 2 = Some sample_client" "userHandle sample_client = 8" "pMe sample_client = 2"
    "reg_reqs sample_state 7 \<noteq> None" "sent_msgs sample_state = []"
    by (simp_all add: sample_state_def sample_client_def)
  with client_send_req [of 2 sample_state sample_client QMI_LOC_REG_EVENTS_REQ_V02 7 7 _ ?send,
      OF _ _ _ _ reg_events_validated]
  show ?thesis by fastforce
qed

text \<open>C35. After a successful opening the caller holds a valid handle, one QMI client exists for it
  (the notifier is gone, unless the QMI library refused to release it, which the code ignores), the registration
  request was answered with success and the callbacks, the
  mask and the cookie are installed; closing then gives back the memory and the QMI client
  and makes the handle invalid.\<close>

theorem client_open_close:
  assumes "open_pre env p h" and "cbs_ok cs cb" and "service_found env inst"
    and "locClientOpenInstance resp_t cs env m inst (Some cb) p cookie h = Some (eLOC_CLIENT_SUCCESS, h')"
  shows "\<exists>k. 1 \<le> k \<and> k \<le> 50
     \<and> h' = h\<lparr>handles := (handles h)(p \<mapsto> calloc_ret env), qmi_clients := snd (client_init env) # kept_notifier env @ qmi_clients h,
          sent_msgs := sent_msgs h @ replicate k (snd (client_init env), QMI_LOC_REG_EVENTS_REQ_V02, local_req env,
             sizeof qmiLocRegEventsReqMsgT_v02),
          cb_data := (cb_data h)(calloc_ret env \<mapsto> opened env m cb cookie)\<rparr>
     \<and> answer_status (reg_send env k) = eLOC_CLIENT_SUCCESS
     \<and> valid_handle (calloc_ret env) h' = Some True
     \<and> (\<exists>h''. locClientClose QMI_NO_ERR p h' = Some (eLOC_CLIENT_SUCCESS, h'')
          \<and> cb_data h'' = cb_data h \<and> qmi_clients h'' = kept_notifier env @ qmi_clients h
          \<and> handles h'' = (handles h)(p \<mapsto> LOC_CLIENT_INVALID_HANDLE_VALUE))"
proof -
  have f: "calloc_ret env \<noteq> NULL" "fst (notifier_init env) = QMI_NO_ERR" "fst (client_init env) = QMI_NO_ERR"
      "register_error env = QMI_NO_ERR"
    using open_fails_early [OF assms(1-3), of resp_t m cookie] assms(4) by (atomize (full), fastforce)
  from open_registers [OF assms(1-3) f, of resp_t m cookie] assms(4)
  obtain k where k: "1 \<le> k" "k \<le> LOC_CLIENT_MAX_SYNC_RETRIES" "answer_status (reg_send env k) = eLOC_CLIENT_SUCCESS"
    and h': "h' = h\<lparr>handles := (handles h)(p \<mapsto> calloc_ret env), qmi_clients := snd (client_init env) # kept_notifier env @ qmi_clients h,
          sent_msgs := sent_msgs h @ replicate k (snd (client_init env), QMI_LOC_REG_EVENTS_REQ_V02, local_req env,
             sizeof qmiLocRegEventsReqMsgT_v02),
          cb_data := (cb_data h)(calloc_ret env \<mapsto> opened env m cb cookie)\<rparr>"
    by (auto split: if_splits)
  have pre: "p \<noteq> NULL" "\<not> loc_shutdown_mutex h" "cb_data h (calloc_ret env) = None" "snd (client_init env) \<noteq> NULL"
    using assms(1) f(3) by (auto simp: open_pre_def)
  have "locClientClose QMI_NO_ERR p h' = Some (eLOC_CLIENT_SUCCESS, h'\<lparr>qmi_clients := remove1 (userHandle (opened env m cb cookie)) (qmi_clients h'),
      cb_data := (cb_data h')(calloc_ret env := None), handles := (handles h')(p \<mapsto> LOC_CLIENT_INVALID_HANDLE_VALUE)\<rparr>)"
    using close_result [of p h' "calloc_ret env" "opened env m cb cookie" QMI_NO_ERR] pre f(1)
    by (simp add: h' opened_def)
  moreover have "valid_handle (calloc_ret env) h' = Some True"
    using f(1) pre by (simp add: h' valid_handle_def opened_def)
  moreover have "(cb_data h)(calloc_ret env := None) = cb_data h" using pre by auto
  ultimately show ?thesis
    using k h' by (intro exI [of _ k]) (simp add: LOC_CLIENT_MAX_SYNC_RETRIES_def opened_def)
qed

theorem client_open_close_witness:
  "\<exists>h' h''. locClientOpenInstance (C_struct []) 32 sample_env 6 (- 1) (Some sample_cbs) 3 9 sample_state = Some (eLOC_CLIENT_SUCCESS, h')
     \<and> locClientClose QMI_NO_ERR 3 h' = Some (eLOC_CLIENT_SUCCESS, h'') \<and> cb_data h'' = cb_data sample_state
     \<and> qmi_clients h'' = qmi_clients sample_state"
proof -
  have "answer_status (reg_send sample_env k) = eLOC_CLIENT_SUCCESS" for k
    by (simp add: sample_env_def answer_status_def convertQmiResponseToLocStatus_def)
  then have "\<exists>h'. locClientOpenInstance (C_struct []) 32 sample_env 6 (- 1) (Some sample_cbs) 3 9 sample_state
      = Some (eLOC_CLIENT_SUCCESS, h')"
    using open_registers [OF sample_open(1,3,4), of "C_struct []" 6 9] by (auto simp: sample_env_def)
  moreover have "kept_notifier sample_env = []" by (simp add: kept_notifier_def sample_env_def)
  ultimately show ?thesis using client_open_close [OF sample_open(1,3,4), of "C_struct []" 6 9] by fastforce
qed

text \<open>An opening that fails leaves an invalid handle; no memory and no QMI client stays behind,
  except that the new QMI client is leaked when the registration of its error callback fails, and the notifier
  when its release fails.\<close>

theorem client_open_failure:
  assumes "open_pre env p h" and "cbs_ok cs cb" and "service_found env inst"
    and "locClientOpenInstance resp_t cs env m inst (Some cb) p cookie h = Some (st, h')" and "st \<noteq> eLOC_CLIENT_SUCCESS"
  shows "handles h' = (handles h)(p \<mapsto> LOC_CLIENT_INVALID_HANDLE_VALUE)
    \<and> (close_rc env = QMI_NO_ERR \<longrightarrow> cb_data h' = cb_data h)
    \<and> (close_rc env = QMI_NO_ERR \<and> register_error env = QMI_NO_ERR
         \<longrightarrow> qmi_clients h' = (if calloc_ret env = NULL then [] else kept_notifier env) @ qmi_clients h)
    \<and> (calloc_ret env \<noteq> NULL \<and> fst (notifier_init env) = QMI_NO_ERR \<and> fst (client_init env) = QMI_NO_ERR
         \<and> register_error env \<noteq> QMI_NO_ERR \<longrightarrow> qmi_clients h' = snd (client_init env) # kept_notifier env @ qmi_clients h)"
proof (cases "calloc_ret env \<noteq> NULL \<and> fst (notifier_init env) = QMI_NO_ERR \<and> fst (client_init env) = QMI_NO_ERR
      \<and> register_error env = QMI_NO_ERR")
  case True
  then show ?thesis using open_registers [OF assms(1-3), of resp_t m cookie] assms(4,5)
    by (auto split: if_splits)
next
  case False
  then show ?thesis using open_fails_early [OF assms(1-3), of resp_t m cookie] assms(4,5)
    by (auto split: if_splits)
qed

theorem client_open_failure_witness:
  "\<exists>st h'. locClientOpenInstance (C_struct []) 32 (sample_env\<lparr>register_error := QMI_SERVICE_ERR\<rparr>) 6 (- 1) (Some sample_cbs) 3 9
      sample_state = Some (st, h') \<and> st \<noteq> eLOC_CLIENT_SUCCESS
     \<and> handles h' 3 = Some LOC_CLIENT_INVALID_HANDLE_VALUE \<and> qmi_clients h' = 41 # qmi_clients sample_state"
proof -
  let ?env = "sample_env\<lparr>register_error := QMI_SERVICE_ERR\<rparr>"
  have e: "calloc_ret ?env \<noteq> NULL" "fst (notifier_init ?env) = QMI_NO_ERR" "fst (client_init ?env) = QMI_NO_ERR"
    "snd (client_init ?env) = 41" "register_error ?env \<noteq> QMI_NO_ERR" "kept_notifier ?env = []"
    by (simp_all add: sample_env_def kept_notifier_def)
  then obtain h' where
    "locClientOpenInstance (C_struct []) 32 ?env 6 (- 1) (Some sample_cbs) 3 9 sample_state = Some (eLOC_CLIENT_FAILURE_INTERNAL, h')"
    using open_fails_early [OF sample_open(2,3,5), of "C_struct []" 6 9] by blast
  with client_open_failure [OF sample_open(2,3,5) this] e show ?thesis by simp
qed








text \<open>For up to 31 messages, and no more than the service's list has bytes, the check of the
  supported messages sets exactly the bits of the messages whose bit is set in the list.\<close>

theorem client_support_check:
  assumes "supported_msgs_valid resp" and "unat n = length ids" and "length ids \<le> 31"
    and "length ids \<le> unat (supported_msgs_len resp)" and "unat (supported_msgs_len resp) \<le> length (supported_msgs resp)"
  shows "\<exists>r. checkQmiMsgsSupported ids n resp = Some r
     \<and> (\<forall>j. bit r j \<longleftrightarrow> j < length ids \<and> msg_supported resp (ids ! j))"
proof -
  have "min (min (unat n) (unat (supported_msgs_len resp))) 64 = length ids" using assms by simp
  then show ?thesis using check_loop_bits [of 0 "length ids" ids resp 0] assms
    by (simp add: checkQmiMsgsSupported_def Let_def)
qed

theorem client_support_check_witness:
  "\<exists>r. checkQmiMsgsSupported [0, 2, 31] 3 comment_service = Some r
     \<and> (\<forall>j. bit r j \<longleftrightarrow> j < length [0, 2, 31 :: 32 word] \<and> msg_supported comment_service ([0, 2, 31] ! j))"
  using client_support_check [of comment_service 3 "[0, 2, 31]"] by (simp add: comment_service_def)

text \<open>Outside these bounds the check is wrong: the loop stops after as many messages as the
  list has bytes, so message 0, which the service of the comment supports, is reported as
  unsupported when it is the fifth of five; and for the 32nd message the 32-bit shift is
  sign-extended, so that 33 bits are set instead of one.\<close>

theorem client_support_check_limits:
  "msg_supported comment_service 0 \<and> checkQmiMsgsSupported [2, 3, 4, 5, 0] 5 comment_service = Some 0
   \<and> checkQmiMsgsSupported (replicate 31 0 @ [8]) 32
       (comment_service\<lparr>supported_msgs_len := 32, supported_msgs := [0, 1] @ replicate 30 0\<rparr>) = Some 0xFFFFFFFF80000000"
proof (intro conjI)
  show "msg_supported comment_service 0" by code_simp
  show "checkQmiMsgsSupported [2, 3, 4, 5, 0] 5 comment_service = Some 0" by code_simp
  show "checkQmiMsgsSupported (replicate 31 0 @ [8]) 32
       (comment_service\<lparr>supported_msgs_len := 32, supported_msgs := [0, 1] @ replicate 30 0\<rparr>) = Some 0xFFFFFFFF80000000"
    by code_simp
qed

end
