(* ===== verification/Agps.thy ===== *)
theory Agps
  imports Prelude "HOL-Library.Word"
begin

text \<open>
  The AGPS state machines and their manager, \<^verbatim>\<open>src/gps/gnss/Agps.cpp\<close> and \<^verbatim>\<open>Agps.h\<close>: requests of
  the modem for a data connection (an ATL) are subscribers of a state machine that asks the framework
  for the connection, keeps it while a subscriber is active and reports the outcome.

  Subscribers are objects in a store, the list of a state machine holds their addresses, and the
  current subscriber is an address too: it may be a variable on the stack of the caller or a member
  of the list. The address of an object that is allocated is a parameter of the operation. Calls of
  the framework and of the two callbacks are recorded in a log.
\<close>

unbundle bit_operations_syntax

section \<open>Data\<close>

datatype AgpsState = AGPS_STATE_INVALID | AGPS_STATE_RELEASED | AGPS_STATE_PENDING | AGPS_STATE_ACQUIRED
  | AGPS_STATE_RELEASING

datatype AgpsEvent = AGPS_EVENT_INVALID | AGPS_EVENT_SUBSCRIBE | AGPS_EVENT_UNSUBSCRIBE | AGPS_EVENT_GRANTED
  | AGPS_EVENT_RELEASED | AGPS_EVENT_DENIED

datatype AgpsNotificationType = AGPS_NOTIFICATION_TYPE_INVALID | AGPS_NOTIFICATION_TYPE_FOR_ALL_SUBSCRIBERS
  | AGPS_NOTIFICATION_TYPE_FOR_INACTIVE_SUBSCRIBERS | AGPS_NOTIFICATION_TYPE_FOR_ACTIVE_SUBSCRIBERS

type_synonym LocApnTypeMask = "32 word"

definition LOC_AGPS_TYPE_INVALID :: int where "LOC_AGPS_TYPE_INVALID = -1"
definition LOC_AGPS_TYPE_SUPL :: int where "LOC_AGPS_TYPE_SUPL = 1"
definition LOC_AGPS_TYPE_WWAN_ANY :: int where "LOC_AGPS_TYPE_WWAN_ANY = 3"
definition LOC_AGPS_TYPE_SUPL_ES :: int where "LOC_AGPS_TYPE_SUPL_ES = 5"
definition AGPS_APN_BEARER_INVALID :: int where "AGPS_APN_BEARER_INVALID = 0"
definition LOC_APN_TYPE_MASK_SUPL :: LocApnTypeMask where "LOC_APN_TYPE_MASK_SUPL = 0x10"
definition LOC_APN_TYPE_MASK_EMERGENCY :: LocApnTypeMask where "LOC_APN_TYPE_MASK_EMERGENCY = 0x200"
definition AGPS_ATL_TYPE_SUPL :: "32 word" where "AGPS_ATL_TYPE_SUPL = 0x1"
definition AGPS_ATL_TYPE_SUPL_ES :: "32 word" where "AGPS_ATL_TYPE_SUPL_ES = 0x2"
definition AGPS_ATL_TYPE_WWAN :: "32 word" where "AGPS_ATL_TYPE_WWAN = 0x4"
definition MAX_APN_LEN :: nat where "MAX_APN_LEN = 100"
definition LOC_GPS_REQUEST_AGPS_DATA_CONN :: int where "LOC_GPS_REQUEST_AGPS_DATA_CONN = 1"
definition LOC_GPS_RELEASE_AGPS_DATA_CONN :: int where "LOC_GPS_RELEASE_AGPS_DATA_CONN = 2"

record AgpsSubscriber =
  mConnHandle :: int
  mWaitForCloseComplete :: bool
  mIsInactive :: bool
  sub_mApnTypeMask :: LocApnTypeMask

record AGnssExtStatusIpV4 =
  nif_type :: int
  nif_apnTypeMask :: LocApnTypeMask
  nif_status :: int

text \<open>Calls that leave the component: \<^verbatim>\<open>mAtlOpenStatusCb\<close> (handle, success, name of the access point and
  its length, bearer, type, mask), \<^verbatim>\<open>mAtlCloseStatusCb\<close> and the framework's callback.\<close>

datatype agps_out =
    AtlOpenStatus int int "string option" nat int int LocApnTypeMask
  | AtlCloseStatus int int
  | FrameworkStatus AGnssExtStatusIpV4

record agps_world =
  subscribers :: "addr \<rightharpoonup> AgpsSubscriber"
  out_log :: "agps_out list"

record AgpsStateMachine =
  mSubscriberList :: "addr list"
  mCurrentSubscriber :: addr
  mState :: AgpsState
  mAgpsType :: int
  mApnTypeMask :: LocApnTypeMask
  mAPN :: "string option"
  mAPNLen :: nat
  mBearer :: int

type_synonym sm_result = "(AgpsStateMachine \<times> agps_world) option"

definition call_out :: "agps_out \<Rightarrow> agps_world \<Rightarrow> agps_world" where
  "call_out x w = w\<lparr>out_log := out_log w @ [x]\<rparr>"

section \<open>Operations of a state machine\<close>

definition transitionState :: "AgpsState \<Rightarrow> AgpsStateMachine \<Rightarrow> AgpsStateMachine" where
  "transitionState newState sm = sm\<lparr>mState := newState\<rparr>"

definition requestOrReleaseDataConn :: "bool \<Rightarrow> AgpsStateMachine \<Rightarrow> agps_world \<Rightarrow> agps_world" where
  "requestOrReleaseDataConn request sm =
     call_out (FrameworkStatus \<lparr>nif_type = mAgpsType sm, nif_apnTypeMask = mApnTypeMask sm,
       nif_status = (if request then LOC_GPS_REQUEST_AGPS_DATA_CONN else LOC_GPS_RELEASE_AGPS_DATA_CONN)\<rparr>)"

definition sub_equals :: "AgpsSubscriber \<Rightarrow> AgpsSubscriber \<Rightarrow> bool" where
  "sub_equals a s \<longleftrightarrow> mConnHandle a = mConnHandle s"

fun add_present :: "addr \<Rightarrow> addr list \<Rightarrow> agps_world \<Rightarrow> bool option" where
  "add_present new_sub [] w = Some False"
| "add_present new_sub (p # ps) w = do {
     s \<leftarrow> load (subscribers w) p;
     t \<leftarrow> load (subscribers w) new_sub;
     if sub_equals s t then Some True else add_present new_sub ps w }"

definition addSubscriber :: "addr \<Rightarrow> addr \<Rightarrow> AgpsStateMachine \<Rightarrow> agps_world \<Rightarrow> sm_result" where
  "addSubscriber cloned subscriberToAdd sm w = do {
     present \<leftarrow> add_present subscriberToAdd (mSubscriberList sm) w;
     if present then Some (sm, w)
     else do {
       s \<leftarrow> load (subscribers w) subscriberToAdd;
       Some (sm\<lparr>mSubscriberList := mSubscriberList sm @ [cloned]\<rparr>, w\<lparr>subscribers := (subscribers w)(cloned \<mapsto> s)\<rparr>) } }"

text \<open>The loop compares with the object to delete in every round, also after it has deleted it.\<close>

fun delete_loop :: "addr \<Rightarrow> addr list \<Rightarrow> agps_world \<Rightarrow> (addr list \<times> agps_world) option" where
  "delete_loop del [] w = Some ([], w)"
| "delete_loop del (p # ps) w =
     (if p = NULL then do { (ps, w) \<leftarrow> delete_loop del ps w; Some (p # ps, w) }
      else do {
        s \<leftarrow> load (subscribers w) p;
        t \<leftarrow> load (subscribers w) del;
        if sub_equals s t then do {
          m \<leftarrow> free_obj (subscribers w) p;
          delete_loop del ps (w\<lparr>subscribers := m\<rparr>) }
        else do { (ps, w) \<leftarrow> delete_loop del ps w; Some (p # ps, w) } })"

definition deleteSubscriber :: "addr \<Rightarrow> AgpsStateMachine \<Rightarrow> agps_world \<Rightarrow> sm_result" where
  "deleteSubscriber subscriberToDelete sm w = do {
     (ps, w) \<leftarrow> delete_loop subscriberToDelete (mSubscriberList sm) w;
     Some (sm\<lparr>mSubscriberList := ps\<rparr>, w) }"

definition event_call :: "AgpsEvent \<Rightarrow> AgpsSubscriber \<Rightarrow> AgpsStateMachine \<Rightarrow> agps_world \<Rightarrow> agps_world" where
  "event_call event s sm w = (case event of
     AGPS_EVENT_GRANTED \<Rightarrow>
       call_out (AtlOpenStatus (mConnHandle s) 1 (mAPN sm) (mAPNLen sm) (mBearer sm) (mAgpsType sm) (mApnTypeMask sm)) w
   | AGPS_EVENT_DENIED \<Rightarrow>
       call_out (AtlOpenStatus (mConnHandle s) 0 (mAPN sm) (mAPNLen sm) (mBearer sm) (mAgpsType sm) (mApnTypeMask sm)) w
   | AGPS_EVENT_UNSUBSCRIBE \<Rightarrow> call_out (AtlCloseStatus (mConnHandle s) 1) w
   | AGPS_EVENT_RELEASED \<Rightarrow> call_out (AtlCloseStatus (mConnHandle s) 1) w
   | _ \<Rightarrow> w)"

definition notifyEventToSubscriber :: "AgpsEvent \<Rightarrow> addr \<Rightarrow> bool \<Rightarrow> AgpsStateMachine \<Rightarrow> agps_world \<Rightarrow> sm_result" where
  "notifyEventToSubscriber event subscriberToNotify deleteSubscriberPostNotify sm w = do {
     w \<leftarrow> (if event \<in> {AGPS_EVENT_GRANTED, AGPS_EVENT_DENIED, AGPS_EVENT_UNSUBSCRIBE, AGPS_EVENT_RELEASED}
           then do { s \<leftarrow> load (subscribers w) subscriberToNotify; Some (event_call event s sm w) }
           else Some w);
     if deleteSubscriberPostNotify then deleteSubscriber subscriberToNotify sm w else Some (sm, w) }"

definition notify_matches :: "AgpsNotificationType \<Rightarrow> AgpsSubscriber \<Rightarrow> bool" where
  "notify_matches ty s \<longleftrightarrow> ty = AGPS_NOTIFICATION_TYPE_FOR_ALL_SUBSCRIBERS
     \<or> (ty = AGPS_NOTIFICATION_TYPE_FOR_INACTIVE_SUBSCRIBERS \<and> mIsInactive s)
     \<or> (ty = AGPS_NOTIFICATION_TYPE_FOR_ACTIVE_SUBSCRIBERS \<and> \<not> mIsInactive s)"

text \<open>The loop of \<^verbatim>\<open>notifyAllSubscribers\<close> over the rest of the list; the result holds the members that
  stay in the list.\<close>

fun notify_loop :: "AgpsEvent \<Rightarrow> bool \<Rightarrow> AgpsNotificationType \<Rightarrow> addr list \<Rightarrow> AgpsStateMachine \<Rightarrow> agps_world
    \<Rightarrow> (addr list \<times> agps_world) option" where
  "notify_loop event del ty [] sm w = Some ([], w)"
| "notify_loop event del ty (p # ps) sm w = do {
     s \<leftarrow> load (subscribers w) p;
     if notify_matches ty s then do {
       (sm', w) \<leftarrow> notifyEventToSubscriber event p False sm w;
       if del then do {
         m \<leftarrow> free_obj (subscribers w) p;
         notify_loop event del ty ps sm (w\<lparr>subscribers := m\<rparr>) }
       else do { (ps, w) \<leftarrow> notify_loop event del ty ps sm w; Some (p # ps, w) } }
     else do { (ps, w) \<leftarrow> notify_loop event del ty ps sm w; Some (p # ps, w) } }"

definition notifyAllSubscribers :: "AgpsEvent \<Rightarrow> bool \<Rightarrow> AgpsNotificationType \<Rightarrow> AgpsStateMachine \<Rightarrow> agps_world \<Rightarrow> sm_result" where
  "notifyAllSubscribers event del ty sm w = do {
     (ps, w) \<leftarrow> notify_loop event del ty (mSubscriberList sm) sm w;
     Some (sm\<lparr>mSubscriberList := ps\<rparr>, w) }"

fun any_active :: "addr list \<Rightarrow> agps_world \<Rightarrow> bool option" where
  "any_active [] w = Some False"
| "any_active (p # ps) w = do {
     s \<leftarrow> load (subscribers w) p;
     if \<not> mIsInactive s then Some True else any_active ps w }"

definition anyActiveSubscribers :: "AgpsStateMachine \<Rightarrow> agps_world \<Rightarrow> bool option" where
  "anyActiveSubscribers sm w = any_active (mSubscriberList sm) w"

definition setAPN :: "string option \<Rightarrow> 32 word \<Rightarrow> AgpsStateMachine \<Rightarrow> AgpsStateMachine" where
  "setAPN apn len sm = (case apn of
     None \<Rightarrow> sm\<lparr>mAPN := None, mAPNLen := 0\<rparr>
   | Some s \<Rightarrow> if unat len > MAX_APN_LEN \<or> length s \<noteq> unat len then sm\<lparr>mAPN := None, mAPNLen := 0\<rparr>
       else sm\<lparr>mAPN := Some s, mAPNLen := unat len\<rparr>)"

fun get_sub :: "int \<Rightarrow> addr list \<Rightarrow> agps_world \<Rightarrow> addr option" where
  "get_sub connHandle [] w = Some NULL"
| "get_sub connHandle (p # ps) w = do {
     s \<leftarrow> load (subscribers w) p;
     if mConnHandle s = connHandle then Some p else get_sub connHandle ps w }"

definition getSubscriber :: "int \<Rightarrow> AgpsStateMachine \<Rightarrow> agps_world \<Rightarrow> addr option" where
  "getSubscriber connHandle sm w = get_sub connHandle (mSubscriberList sm) w"

fun get_first :: "bool \<Rightarrow> addr list \<Rightarrow> agps_world \<Rightarrow> addr option" where
  "get_first isInactive [] w = Some NULL"
| "get_first isInactive (p # ps) w = do {
     s \<leftarrow> load (subscribers w) p;
     if mIsInactive s = isInactive then Some p else get_first isInactive ps w }"

definition getFirstSubscriber :: "bool \<Rightarrow> AgpsStateMachine \<Rightarrow> agps_world \<Rightarrow> addr option" where
  "getFirstSubscriber isInactive sm w = get_first isInactive (mSubscriberList sm) w"

fun drop_loop :: "addr list \<Rightarrow> agps_world \<Rightarrow> agps_world option" where
  "drop_loop [] w = Some w"
| "drop_loop (p # ps) w = do { m \<leftarrow> free_obj (subscribers w) p; drop_loop ps (w\<lparr>subscribers := m\<rparr>) }"

definition dropAllSubscribers :: "AgpsStateMachine \<Rightarrow> agps_world \<Rightarrow> sm_result" where
  "dropAllSubscribers sm w = do { w \<leftarrow> drop_loop (mSubscriberList sm) w; Some (sm\<lparr>mSubscriberList := []\<rparr>, w) }"

section \<open>Events\<close>

definition processAgpsEventSubscribe :: "addr \<Rightarrow> AgpsStateMachine \<Rightarrow> agps_world \<Rightarrow> sm_result" where
  "processAgpsEventSubscribe cloned sm w = (case mState sm of
     AGPS_STATE_RELEASED \<Rightarrow> do {
       (sm, w) \<leftarrow> addSubscriber cloned (mCurrentSubscriber sm) sm w;
       let w = requestOrReleaseDataConn True sm w;
       Some (transitionState AGPS_STATE_PENDING sm, w) }
   | AGPS_STATE_PENDING \<Rightarrow> addSubscriber cloned (mCurrentSubscriber sm) sm w
   | AGPS_STATE_ACQUIRED \<Rightarrow> do {
       (sm, w) \<leftarrow> notifyEventToSubscriber AGPS_EVENT_GRANTED (mCurrentSubscriber sm) False sm w;
       addSubscriber cloned (mCurrentSubscriber sm) sm w }
   | AGPS_STATE_RELEASING \<Rightarrow> addSubscriber cloned (mCurrentSubscriber sm) sm w
   | AGPS_STATE_INVALID \<Rightarrow> Some (sm, w))"

definition leave_current :: "AgpsStateMachine \<Rightarrow> agps_world \<Rightarrow> sm_result" where
  "leave_current sm w = do {
     s \<leftarrow> load (subscribers w) (mCurrentSubscriber sm);
     if mWaitForCloseComplete s then do {
       m \<leftarrow> store (subscribers w) (mCurrentSubscriber sm) (s\<lparr>mIsInactive := True\<rparr>);
       Some (sm, w\<lparr>subscribers := m\<rparr>) }
     else notifyEventToSubscriber AGPS_EVENT_UNSUBSCRIBE (mCurrentSubscriber sm) True sm w }"

definition unsubscribe_open :: "AgpsStateMachine \<Rightarrow> agps_world \<Rightarrow> sm_result" where
  "unsubscribe_open sm w = do {
     (sm, w) \<leftarrow> leave_current sm w;
     if mSubscriberList sm = [] then do {
       let sm = transitionState AGPS_STATE_RELEASED sm;
       Some (sm, requestOrReleaseDataConn False sm w) }
     else do {
       a \<leftarrow> anyActiveSubscribers sm w;
       if \<not> a then do {
         let sm = transitionState AGPS_STATE_RELEASING sm;
         Some (sm, requestOrReleaseDataConn False sm w) }
       else Some (sm, w) } }"

definition processAgpsEventUnsubscribe :: "AgpsStateMachine \<Rightarrow> agps_world \<Rightarrow> sm_result" where
  "processAgpsEventUnsubscribe sm w = (case mState sm of
     AGPS_STATE_RELEASED \<Rightarrow> notifyEventToSubscriber AGPS_EVENT_UNSUBSCRIBE (mCurrentSubscriber sm) False sm w
   | AGPS_STATE_PENDING \<Rightarrow> unsubscribe_open sm w
   | AGPS_STATE_ACQUIRED \<Rightarrow> unsubscribe_open sm w
   | AGPS_STATE_RELEASING \<Rightarrow> do {
       (sm, w) \<leftarrow> leave_current sm w;
       if mSubscriberList sm = [] then Some (transitionState AGPS_STATE_RELEASED sm, w) else Some (sm, w) }
   | AGPS_STATE_INVALID \<Rightarrow> Some (sm, w))"

definition processAgpsEventGranted :: "AgpsStateMachine \<Rightarrow> agps_world \<Rightarrow> sm_result" where
  "processAgpsEventGranted sm w = (case mState sm of
     AGPS_STATE_PENDING \<Rightarrow>
       notifyAllSubscribers AGPS_EVENT_GRANTED False AGPS_NOTIFICATION_TYPE_FOR_ACTIVE_SUBSCRIBERS
         (transitionState AGPS_STATE_ACQUIRED sm) w
   | _ \<Rightarrow> Some (sm, w))"

definition finish_releasing :: "AgpsStateMachine \<Rightarrow> agps_world \<Rightarrow> sm_result" where
  "finish_releasing sm w = do {
     (sm, w) \<leftarrow> notifyAllSubscribers AGPS_EVENT_RELEASED True AGPS_NOTIFICATION_TYPE_FOR_INACTIVE_SUBSCRIBERS sm w;
     a \<leftarrow> anyActiveSubscribers sm w;
     if a then do {
       let sm = transitionState AGPS_STATE_PENDING sm;
       Some (sm, requestOrReleaseDataConn True sm w) }
     else Some (transitionState AGPS_STATE_RELEASED sm, w) }"

definition processAgpsEventReleased :: "AgpsStateMachine \<Rightarrow> agps_world \<Rightarrow> sm_result" where
  "processAgpsEventReleased sm w = (case mState sm of
     AGPS_STATE_ACQUIRED \<Rightarrow>
       notifyAllSubscribers AGPS_EVENT_RELEASED True AGPS_NOTIFICATION_TYPE_FOR_ALL_SUBSCRIBERS
         (transitionState AGPS_STATE_RELEASED sm) w
   | AGPS_STATE_RELEASING \<Rightarrow> finish_releasing sm w
   | _ \<Rightarrow> Some (sm, w))"

definition processAgpsEventDenied :: "AgpsStateMachine \<Rightarrow> agps_world \<Rightarrow> sm_result" where
  "processAgpsEventDenied sm w = (case mState sm of
     AGPS_STATE_RELEASING \<Rightarrow> finish_releasing sm w
   | AGPS_STATE_PENDING \<Rightarrow>
       notifyAllSubscribers AGPS_EVENT_DENIED True AGPS_NOTIFICATION_TYPE_FOR_ALL_SUBSCRIBERS
         (transitionState AGPS_STATE_RELEASED sm) w
   | _ \<Rightarrow> Some (sm, w))"

definition processAgpsEvent :: "addr \<Rightarrow> AgpsEvent \<Rightarrow> AgpsStateMachine \<Rightarrow> agps_world \<Rightarrow> sm_result" where
  "processAgpsEvent cloned event sm w = (case event of
     AGPS_EVENT_SUBSCRIBE \<Rightarrow> processAgpsEventSubscribe cloned sm w
   | AGPS_EVENT_UNSUBSCRIBE \<Rightarrow> processAgpsEventUnsubscribe sm w
   | AGPS_EVENT_GRANTED \<Rightarrow> processAgpsEventGranted sm w
   | AGPS_EVENT_RELEASED \<Rightarrow> processAgpsEventReleased sm w
   | AGPS_EVENT_DENIED \<Rightarrow> processAgpsEventDenied sm w
   | AGPS_EVENT_INVALID \<Rightarrow> Some (sm, w))"

section \<open>The manager\<close>

record AgpsManager =
  mAgnssNif :: "AgpsStateMachine option"
  mInternetNif :: "AgpsStateMachine option"
  world :: agps_world

text \<open>The constructor leaves \<^verbatim>\<open>mApnTypeMask\<close> uninitialised; its value is a parameter.\<close>

definition new_sm :: "LocApnTypeMask \<Rightarrow> int \<Rightarrow> AgpsStateMachine" where
  "new_sm uninit ty = \<lparr>mSubscriberList = [], mCurrentSubscriber = NULL, mState = AGPS_STATE_RELEASED, mAgpsType = ty,
     mApnTypeMask = uninit, mAPN = None, mAPNLen = 0, mBearer = AGPS_APN_BEARER_INVALID\<rparr>"

definition createAgpsStateMachines :: "LocApnTypeMask \<Rightarrow> bool \<Rightarrow> 32 word \<Rightarrow> AgpsManager \<Rightarrow> AgpsManager" where
  "createAgpsStateMachines uninit agpsCapable atlType m =
     (let m = (if mInternetNif m = None \<and> atlType AND AGPS_ATL_TYPE_WWAN \<noteq> 0
               then m\<lparr>mInternetNif := Some (new_sm uninit LOC_AGPS_TYPE_WWAN_ANY)\<rparr> else m)
      in if agpsCapable \<and> mAgnssNif m = None \<and> atlType AND AGPS_ATL_TYPE_SUPL \<noteq> 0 \<and> atlType AND AGPS_ATL_TYPE_SUPL_ES \<noteq> 0
         then m\<lparr>mAgnssNif := Some (new_sm uninit LOC_AGPS_TYPE_SUPL)\<rparr> else m)"

datatype nif = Agnss | Internet

definition nif_of :: "int \<Rightarrow> nif" where
  "nif_of agpsType = (if agpsType = LOC_AGPS_TYPE_INVALID \<or> agpsType = LOC_AGPS_TYPE_SUPL \<or> agpsType = LOC_AGPS_TYPE_SUPL_ES
     then Agnss else Internet)"

fun get_nif :: "nif \<Rightarrow> AgpsManager \<Rightarrow> AgpsStateMachine option" where
  "get_nif Agnss m = mAgnssNif m"
| "get_nif Internet m = mInternetNif m"

fun put_nif :: "nif \<Rightarrow> AgpsStateMachine \<Rightarrow> AgpsManager \<Rightarrow> AgpsManager" where
  "put_nif Agnss sm m = m\<lparr>mAgnssNif := Some sm\<rparr>"
| "put_nif Internet sm m = m\<lparr>mInternetNif := Some sm\<rparr>"

definition getAgpsStateMachine :: "int \<Rightarrow> AgpsManager \<Rightarrow> AgpsStateMachine option" where
  "getAgpsStateMachine agpsType m = get_nif (nif_of agpsType) m"

text \<open>Runs an event on a state machine; a null pointer to it is an invalid access.\<close>

definition send_event :: "nif \<Rightarrow> addr \<Rightarrow> AgpsEvent \<Rightarrow> (AgpsStateMachine \<Rightarrow> AgpsStateMachine) \<Rightarrow> AgpsManager \<Rightarrow> AgpsManager option" where
  "send_event n cloned event prep m = do {
     sm \<leftarrow> get_nif n m;
     (sm, w) \<leftarrow> processAgpsEvent cloned event (prep sm) (world m);
     Some (put_nif n sm (m\<lparr>world := w\<rparr>)) }"

text \<open>\<open>stk\<close> is the address of the local variable \<^verbatim>\<open>subscriber\<close>, \<open>emergency\<close> the configuration value
  \<^verbatim>\<open>USE_EMERGENCY_PDN_FOR_EMERGENCY_SUPL\<close>.\<close>

definition requestATL :: "addr \<Rightarrow> addr \<Rightarrow> int \<Rightarrow> int \<Rightarrow> int \<Rightarrow> LocApnTypeMask \<Rightarrow> AgpsManager \<Rightarrow> AgpsManager option" where
  "requestATL stk cloned emergency connHandle agpsType apnTypeMask m =
     (let (agpsType, apnTypeMask) =
        (if emergency = 0 \<and> agpsType = LOC_AGPS_TYPE_SUPL_ES
         then (LOC_AGPS_TYPE_SUPL, (apnTypeMask AND NOT LOC_APN_TYPE_MASK_EMERGENCY) OR LOC_APN_TYPE_MASK_SUPL)
         else (agpsType, apnTypeMask))
      in case getAgpsStateMachine agpsType m of
        None \<Rightarrow> Some (m\<lparr>world := call_out (AtlOpenStatus connHandle 0 None 0 AGPS_APN_BEARER_INVALID agpsType apnTypeMask) (world m)\<rparr>)
      | Some sm \<Rightarrow> do {
          let m = m\<lparr>world := (world m)\<lparr>subscribers := (subscribers (world m))(stk \<mapsto> \<lparr>mConnHandle = connHandle,
                    mWaitForCloseComplete = True, mIsInactive = False, sub_mApnTypeMask = apnTypeMask\<rparr>)\<rparr>\<rparr>;
          m \<leftarrow> send_event (nif_of agpsType) cloned AGPS_EVENT_SUBSCRIBE
                 (\<lambda>sm. sm\<lparr>mAgpsType := agpsType, mApnTypeMask := apnTypeMask, mCurrentSubscriber := stk\<rparr>) m;
          Some (m\<lparr>world := (world m)\<lparr>subscribers := (subscribers (world m))(stk := None)\<rparr>\<rparr>) })"

definition find_in :: "nif \<Rightarrow> int \<Rightarrow> AgpsManager \<Rightarrow> addr option" where
  "find_in n connHandle m = (case get_nif n m of None \<Rightarrow> Some NULL | Some sm \<Rightarrow> getSubscriber connHandle sm (world m))"

definition releaseATL :: "int \<Rightarrow> AgpsManager \<Rightarrow> AgpsManager option" where
  "releaseATL connHandle m = do {
     p \<leftarrow> find_in Agnss connHandle m;
     if p \<noteq> NULL then send_event Agnss NULL AGPS_EVENT_UNSUBSCRIBE (\<lambda>sm. sm\<lparr>mCurrentSubscriber := p\<rparr>) m
     else do {
       p \<leftarrow> find_in Internet connHandle m;
       if p \<noteq> NULL then send_event Internet NULL AGPS_EVENT_UNSUBSCRIBE (\<lambda>sm. sm\<lparr>mCurrentSubscriber := p\<rparr>) m
       else Some m } }"

definition reportAtlOpenSuccess :: "int \<Rightarrow> string option \<Rightarrow> 32 word \<Rightarrow> int \<Rightarrow> AgpsManager \<Rightarrow> AgpsManager option" where
  "reportAtlOpenSuccess agpsType apnName apnLen bearerType m =
     send_event (nif_of agpsType) NULL AGPS_EVENT_GRANTED (\<lambda>sm. setAPN apnName apnLen (sm\<lparr>mBearer := bearerType\<rparr>)) m"

definition reportAtlOpenFailed :: "int \<Rightarrow> AgpsManager \<Rightarrow> AgpsManager option" where
  "reportAtlOpenFailed agpsType m = send_event (nif_of agpsType) NULL AGPS_EVENT_DENIED id m"

definition reportAtlClosed :: "int \<Rightarrow> AgpsManager \<Rightarrow> AgpsManager option" where
  "reportAtlClosed agpsType m = send_event (nif_of agpsType) NULL AGPS_EVENT_RELEASED id m"

definition drop_nif :: "nif \<Rightarrow> AgpsManager \<Rightarrow> AgpsManager option" where
  "drop_nif n m = (case get_nif n m of None \<Rightarrow> Some m
     | Some sm \<Rightarrow> do { (sm, w) \<leftarrow> dropAllSubscribers sm (world m); Some (put_nif n sm (m\<lparr>world := w\<rparr>)) })"

definition handleModemSSR :: "AgpsManager \<Rightarrow> AgpsManager option" where
  "handleModemSSR m = do { m \<leftarrow> drop_nif Agnss m; drop_nif Internet m }"

end
