(* ===== verification/AgpsSpec.thy ===== *)
theory AgpsSpec
  imports Agps
begin

text \<open>
  What the AGPS manager promises, and the proof that \<^verbatim>\<open>Agps\<close> implements it. The specification
  sees a state machine as a connection with members, each a handle and whether it is leaving; it has no
  objects and no pointers. The refinement is proved for every event of a state machine and
  every call of the manager, and lifted to sequences of calls by the locale \<^verbatim>\<open>forward_simulation\<close>. The
  protocol of a single subscriber is a step relation over what it experiences.
\<close>

section \<open>Specification\<close>

datatype conn_out = Opened int | Refused int | Closed int | Conn_request | Conn_release

datatype conn_event = Subscribe int | Unsubscribe int | Granted | Released | Denied | Reset

record conn =
  cstate :: AgpsState
  members :: "(int \<times> bool) list"

definition add_member :: "int \<Rightarrow> (int \<times> bool) list \<Rightarrow> (int \<times> bool) list" where
  "add_member h ms = (if h \<in> fst ` set ms then ms else ms @ [(h, False)])"

definition mark_leaving :: "int \<Rightarrow> (int \<times> bool) list \<Rightarrow> (int \<times> bool) list" where
  "mark_leaving h ms = map (\<lambda>(i, l). (i, l \<or> i = h)) ms"

abbreviation staying :: "(int \<times> bool) list \<Rightarrow> (int \<times> bool) list" where
  "staying ms \<equiv> filter (\<lambda>x. \<not> snd x) ms"

abbreviation leaving :: "(int \<times> bool) list \<Rightarrow> (int \<times> bool) list" where
  "leaving ms \<equiv> filter snd ms"

definition finish :: "conn \<Rightarrow> conn \<times> conn_out list" where
  "finish c = (let ms = staying (members c); outs = map (Closed \<circ> fst) (leaving (members c))
     in if ms = [] then (\<lparr>cstate = AGPS_STATE_RELEASED, members = []\<rparr>, outs)
        else (\<lparr>cstate = AGPS_STATE_PENDING, members = ms\<rparr>, outs @ [Conn_request]))"

fun conn_step :: "conn_event \<Rightarrow> conn \<Rightarrow> conn \<times> conn_out list" where
  "conn_step (Subscribe h) c = (case cstate c of
     AGPS_STATE_RELEASED \<Rightarrow> (\<lparr>cstate = AGPS_STATE_PENDING, members = add_member h (members c)\<rparr>, [Conn_request])
   | AGPS_STATE_ACQUIRED \<Rightarrow> (c\<lparr>members := add_member h (members c)\<rparr>, [Opened h])
   | AGPS_STATE_INVALID \<Rightarrow> (c, [])
   | _ \<Rightarrow> (c\<lparr>members := add_member h (members c)\<rparr>, []))"
| "conn_step (Unsubscribe h) c =
     (let ms = mark_leaving h (members c)
      in if cstate c \<in> {AGPS_STATE_PENDING, AGPS_STATE_ACQUIRED} \<and> staying ms = []
         then (\<lparr>cstate = AGPS_STATE_RELEASING, members = ms\<rparr>, [Conn_release])
         else (c\<lparr>members := ms\<rparr>, []))"
| "conn_step Granted c = (if cstate c = AGPS_STATE_PENDING
     then (c\<lparr>cstate := AGPS_STATE_ACQUIRED\<rparr>, map (Opened \<circ> fst) (staying (members c))) else (c, []))"
| "conn_step Released c = (case cstate c of
     AGPS_STATE_ACQUIRED \<Rightarrow> (\<lparr>cstate = AGPS_STATE_RELEASED, members = []\<rparr>, map (Closed \<circ> fst) (members c))
   | AGPS_STATE_RELEASING \<Rightarrow> finish c
   | _ \<Rightarrow> (c, []))"
| "conn_step Denied c = (case cstate c of
     AGPS_STATE_PENDING \<Rightarrow> (\<lparr>cstate = AGPS_STATE_RELEASED, members = []\<rparr>, map (Refused \<circ> fst) (members c))
   | AGPS_STATE_RELEASING \<Rightarrow> finish c
   | _ \<Rightarrow> (c, []))"
| "conn_step Reset c = (c\<lparr>members := []\<rparr>, [])"

section \<open>Refinement\<close>

definition member_of :: "AgpsSubscriber \<Rightarrow> int \<times> bool" where
  "member_of s = (mConnHandle s, mIsInactive s)"

definition subs :: "agps_world \<Rightarrow> addr list \<Rightarrow> AgpsSubscriber list" where
  "subs w ps = map (the \<circ> subscribers w) ps"

definition alive :: "agps_world \<Rightarrow> addr list \<Rightarrow> bool" where
  "alive w ps \<longleftrightarrow> (\<forall>p \<in> set ps. p \<noteq> NULL \<and> (\<exists>s. subscribers w p = Some s \<and> mWaitForCloseComplete s))"

definition sm_wf :: "AgpsStateMachine \<Rightarrow> agps_world \<Rightarrow> bool" where
  "sm_wf sm w \<longleftrightarrow> distinct (mSubscriberList sm) \<and> alive w (mSubscriberList sm)
     \<and> distinct (map mConnHandle (subs w (mSubscriberList sm)))
     \<and> (mState sm = AGPS_STATE_RELEASED \<longrightarrow> mSubscriberList sm = []) \<and> mState sm \<noteq> AGPS_STATE_INVALID"

definition sm_abs :: "AgpsStateMachine \<Rightarrow> agps_world \<Rightarrow> conn" where
  "sm_abs sm w = \<lparr>cstate = mState sm, members = map member_of (subs w (mSubscriberList sm))\<rparr>"

fun out_view :: "agps_out \<Rightarrow> conn_out" where
  "out_view (AtlOpenStatus h ok apn len b ty m) = (if ok = 0 then Refused h else Opened h)"
| "out_view (AtlCloseStatus h ok) = Closed h"
| "out_view (FrameworkStatus s) = (if nif_status s = LOC_GPS_REQUEST_AGPS_DATA_CONN then Conn_request else Conn_release)"

lemma subs_simps [simp]: "subs w [] = []" "subs w (p # ps) = the (subscribers w p) # subs w ps"
  "subs w (ps @ qs) = subs w ps @ subs w qs" "subs (w\<lparr>out_log := l\<rparr>) ps = subs w ps"
  by (simp_all add: subs_def)

lemma alive_simps [simp]: "alive w []"
  "alive w (p # ps) \<longleftrightarrow> p \<noteq> NULL \<and> (\<exists>s. subscribers w p = Some s \<and> mWaitForCloseComplete s) \<and> alive w ps"
  "alive w (ps @ qs) \<longleftrightarrow> alive w ps \<and> alive w qs" "alive (w\<lparr>out_log := l\<rparr>) ps = alive w ps"
  by (auto simp: alive_def)

lemma subs_frame: "p \<notin> set ps \<Longrightarrow> subs (w\<lparr>subscribers := (subscribers w)(p := x)\<rparr>) ps = subs w ps"
  by (auto simp: subs_def)

lemma alive_frame: "p \<notin> set ps \<Longrightarrow> alive (w\<lparr>subscribers := (subscribers w)(p := x)\<rparr>) ps = alive w ps"
  by (auto simp: alive_def)

lemma any_active_eq: "alive w ps \<Longrightarrow> any_active ps w = Some (staying (map member_of (subs w ps)) \<noteq> [])"
  by (induction ps) (auto simp: member_of_def)

lemma add_present_eq:
  "alive w ps \<Longrightarrow> q \<noteq> NULL \<Longrightarrow> subscribers w q = Some t \<Longrightarrow>
    add_present q ps w = Some (mConnHandle t \<in> mConnHandle ` set (subs w ps))"
  by (induction ps) (auto simp: sub_equals_def)

lemma get_sub_eq:
  "alive w ps \<Longrightarrow> \<exists>p. get_sub h ps w = Some p \<and> (p = NULL \<longleftrightarrow> h \<notin> mConnHandle ` set (subs w ps))
     \<and> (p \<noteq> NULL \<longrightarrow> p \<in> set ps \<and> mConnHandle (the (subscribers w p)) = h)"
proof (induction ps)
  case (Cons q ps)
  then obtain p s where "get_sub h ps w = Some p" "p = NULL \<longleftrightarrow> h \<notin> mConnHandle ` set (subs w ps)"
    "p \<noteq> NULL \<longrightarrow> p \<in> set ps \<and> mConnHandle (the (subscribers w p)) = h" "subscribers w q = Some s" "q \<noteq> NULL"
    by auto
  then show ?case by (cases "mConnHandle s = h") auto
qed simp

definition told :: "AgpsEvent \<Rightarrow> AgpsSubscriber \<Rightarrow> AgpsStateMachine \<Rightarrow> agps_out list" where
  "told event s sm = out_log (event_call event s sm \<lparr>subscribers = Map.empty, out_log = []\<rparr>)"

lemma event_call_eq: "event_call event s sm w = w\<lparr>out_log := out_log w @ told event s sm\<rparr>"
  by (cases w; cases event) (simp_all add: event_call_def told_def call_out_def)

lemma notify_one:
  "p \<noteq> NULL \<Longrightarrow> subscribers w p = Some s \<Longrightarrow>
    notifyEventToSubscriber event p False sm w = Some (sm, w\<lparr>out_log := out_log w @ told event s sm\<rparr>)"
  by (cases event) (simp_all add: notifyEventToSubscriber_def event_call_eq, simp_all add: told_def event_call_def)

lemma notify_loop_keep:
  "alive w ps \<Longrightarrow> notify_loop event False ty ps sm w =
    Some (ps, w\<lparr>out_log := out_log w @ concat (map (\<lambda>s. told event s sm) (filter (notify_matches ty) (subs w ps)))\<rparr>)"
  by (induction ps arbitrary: w) (auto simp: notify_one)

lemma notify_loop_delete:
  "alive w ps \<Longrightarrow> distinct ps \<Longrightarrow> notify_loop event True ty ps sm w =
    Some (filter (\<lambda>p. \<not> notify_matches ty (the (subscribers w p))) ps,
      w\<lparr>out_log := out_log w @ concat (map (\<lambda>s. told event s sm) (filter (notify_matches ty) (subs w ps))),
        subscribers := (\<lambda>p. if p \<in> set ps \<and> notify_matches ty (the (subscribers w p)) then None else subscribers w p)\<rparr>)"
proof (induction ps arbitrary: w)
  case Nil
  then show ?case by simp
next
  case (Cons p ps)
  then obtain s where s: "p \<noteq> NULL" "subscribers w p = Some s" "alive w ps" "p \<notin> set ps" by auto
  show ?case
  proof (cases "notify_matches ty s")
    case True
    let ?w = "w\<lparr>out_log := out_log w @ told event s sm, subscribers := (subscribers w)(p := None)\<rparr>"
    have "alive ?w ps" "subs ?w ps = subs w ps"
      using s by (auto simp: alive_def subs_def)
    moreover have f: "filter (\<lambda>q. \<not> notify_matches ty (the (if q = p then None else subscribers w q))) ps
        = filter (\<lambda>q. \<not> notify_matches ty (the (subscribers w q))) ps"
      using s(4) by (intro filter_cong) auto
    moreover have "(\<lambda>q. if q \<in> set ps \<and> notify_matches ty (the (if q = p then None else subscribers w q)) then None
          else if q = p then None else subscribers w q)
        = (\<lambda>q. if (q = p \<or> q \<in> set ps) \<and> notify_matches ty (the (subscribers w q)) then None else subscribers w q)"
      using s(2,4) True by (auto simp: fun_eq_iff)
    ultimately show ?thesis using s True Cons.IH [of ?w] Cons.prems
      by (simp add: notify_one cong: if_cong)
  next
    case False
    have "(\<lambda>q. if q \<in> set ps \<and> notify_matches ty (the (subscribers w q)) then None else subscribers w q)
        = (\<lambda>q. if (q = p \<or> q \<in> set ps) \<and> notify_matches ty (the (subscribers w q)) then None else subscribers w q)"
      using s(2) False by (auto simp: fun_eq_iff)
    then show ?thesis using s False Cons.IH [of w] Cons.prems by simp
  qed
qed

lemma drop_loop_eq:
  "alive w ps \<Longrightarrow> distinct ps \<Longrightarrow>
    drop_loop ps w = Some (w\<lparr>subscribers := (\<lambda>p. if p \<in> set ps then None else subscribers w p)\<rparr>)"
proof (induction ps arbitrary: w)
  case (Cons p ps)
  then have "alive (w\<lparr>subscribers := (subscribers w)(p := None)\<rparr>) ps" by (simp add: alive_frame)
  with Cons show ?case by (auto simp: fun_eq_iff)
qed simp

lemma told_views [simp]:
  "map out_view (told AGPS_EVENT_GRANTED s sm) = [Opened (mConnHandle s)]"
  "map out_view (told AGPS_EVENT_DENIED s sm) = [Refused (mConnHandle s)]"
  "map out_view (told AGPS_EVENT_RELEASED s sm) = [Closed (mConnHandle s)]"
  by (simp_all add: told_def event_call_def call_out_def)

lemma told_all_views:
  "map out_view (concat (map (\<lambda>s. told AGPS_EVENT_GRANTED s sm) xs)) = map (\<lambda>s. Opened (mConnHandle s)) xs"
  "map out_view (concat (map (\<lambda>s. told AGPS_EVENT_DENIED s sm) xs)) = map (\<lambda>s. Refused (mConnHandle s)) xs"
  "map out_view (concat (map (\<lambda>s. told AGPS_EVENT_RELEASED s sm) xs)) = map (\<lambda>s. Closed (mConnHandle s)) xs"
  by (induction xs) simp_all

lemma matches_simps [simp]:
  "notify_matches AGPS_NOTIFICATION_TYPE_FOR_ALL_SUBSCRIBERS = (\<lambda>s. True)"
  "notify_matches AGPS_NOTIFICATION_TYPE_FOR_INACTIVE_SUBSCRIBERS = mIsInactive"
  "notify_matches AGPS_NOTIFICATION_TYPE_FOR_ACTIVE_SUBSCRIBERS = (\<lambda>s. \<not> mIsInactive s)"
  by (simp_all add: notify_matches_def fun_eq_iff)

lemma map_comp_members:
  "map (f \<circ> fst) (filter snd (map member_of xs)) = map (\<lambda>s. f (mConnHandle s)) (filter mIsInactive xs)"
  "map (f \<circ> fst) (filter (\<lambda>x. \<not> snd x) (map member_of xs)) = map (\<lambda>s. f (mConnHandle s)) (filter (\<lambda>s. \<not> mIsInactive s) xs)"
  "map (f \<circ> fst) (map member_of xs) = map (\<lambda>s. f (mConnHandle s)) xs"
  by (induction xs) (simp_all add: member_of_def)

text \<open>What every event guarantees: it returns, the result is well-formed and abstracts to the step of
  the specification, the calls are those of the specification, the objects of others are
  untouched and members that have left the list are deleted.\<close>

definition sim :: "addr set \<Rightarrow> conn_event \<Rightarrow> AgpsStateMachine \<Rightarrow> agps_world \<Rightarrow> sm_result \<Rightarrow> bool" where
  "sim new e sm w r \<longleftrightarrow> (\<exists>sm' w' outs. r = Some (sm', w') \<and> sm_wf sm' w'
     \<and> sm_abs sm' w' = fst (conn_step e (sm_abs sm w))
     \<and> out_log w' = out_log w @ outs \<and> map out_view outs = snd (conn_step e (sm_abs sm w))
     \<and> set (mSubscriberList sm') \<subseteq> set (mSubscriberList sm) \<union> new
     \<and> (\<forall>p. p \<notin> set (mSubscriberList sm) \<union> set (mSubscriberList sm') \<longrightarrow> subscribers w' p = subscribers w p)
     \<and> (\<forall>p \<in> set (mSubscriberList sm) - set (mSubscriberList sm'). subscribers w' p = None))"

lemma simI:
  assumes "r = Some (sm', w')" "sm_wf sm' w'" "sm_abs sm' w' = fst (conn_step e (sm_abs sm w))"
    "out_log w' = out_log w @ outs" "map out_view outs = snd (conn_step e (sm_abs sm w))"
    "set (mSubscriberList sm') \<subseteq> set (mSubscriberList sm) \<union> new"
    "\<And>p. p \<notin> set (mSubscriberList sm) \<union> set (mSubscriberList sm') \<Longrightarrow> subscribers w' p = subscribers w p"
    "\<And>p. p \<in> set (mSubscriberList sm) - set (mSubscriberList sm') \<Longrightarrow> subscribers w' p = None"
  shows "sim new e sm w r"
  using assms unfolding sim_def by blast

lemma sim_noop: "sm_wf sm w \<Longrightarrow> conn_step e (sm_abs sm w) = (sm_abs sm w, []) \<Longrightarrow> sim new e sm w (Some (sm, w))"
  by (rule simI [of _ sm w _ _ _ "[]"]) simp_all

lemma granted_sim:
  assumes wf: "sm_wf sm w"
  shows "sim {} Granted sm w (processAgpsEventGranted sm w)"
proof (cases "mState sm = AGPS_STATE_PENDING")
  case False
  then show ?thesis using wf
    by (cases "mState sm") (auto simp: processAgpsEventGranted_def sm_abs_def intro!: sim_noop)
next
  case True
  let ?ps = "mSubscriberList sm"
  let ?sm = "sm\<lparr>mState := AGPS_STATE_ACQUIRED\<rparr>"
  let ?outs = "concat (map (\<lambda>s. told AGPS_EVENT_GRANTED s ?sm) (filter (\<lambda>s. \<not> mIsInactive s) (subs w ?ps)))"
  have "alive w ?ps" using wf by (simp add: sm_wf_def)
  then have "processAgpsEventGranted sm w = Some (?sm, w\<lparr>out_log := out_log w @ ?outs\<rparr>)"
    using True by (simp add: processAgpsEventGranted_def notifyAllSubscribers_def transitionState_def notify_loop_keep)
  then show ?thesis
    by (rule simI [where outs = ?outs]) (use True wf in \<open>auto simp: sm_wf_def sm_abs_def told_all_views map_comp_members\<close>)
qed

lemma all_told_sim:
  assumes wf: "sm_wf sm w"
    and step: "conn_step e (sm_abs sm w) = (\<lparr>cstate = AGPS_STATE_RELEASED, members = []\<rparr>, map out_view (concat (map (\<lambda>s. told ev s (transitionState AGPS_STATE_RELEASED sm)) (subs w (mSubscriberList sm)))))"
  shows "sim {} e sm w (notifyAllSubscribers ev True AGPS_NOTIFICATION_TYPE_FOR_ALL_SUBSCRIBERS
           (transitionState AGPS_STATE_RELEASED sm) w)"
proof -
  let ?sm = "sm\<lparr>mState := AGPS_STATE_RELEASED\<rparr>"
  let ?ps = "mSubscriberList sm"
  have "alive w ?ps" "distinct ?ps" using wf by (simp_all add: sm_wf_def)
  then have "notifyAllSubscribers ev True AGPS_NOTIFICATION_TYPE_FOR_ALL_SUBSCRIBERS (transitionState AGPS_STATE_RELEASED sm) w
    = Some (?sm\<lparr>mSubscriberList := []\<rparr>, w\<lparr>out_log := out_log w @ concat (map (\<lambda>s. told ev s ?sm) (subs w ?ps)),
        subscribers := (\<lambda>p. if p \<in> set ?ps then None else subscribers w p)\<rparr>)"
    by (simp add: notifyAllSubscribers_def transitionState_def notify_loop_delete)
  then show ?thesis
    by (rule simI [where outs = "concat (map (\<lambda>s. told ev s ?sm) (subs w ?ps))"])
       (use step in \<open>auto simp: sm_wf_def sm_abs_def transitionState_def\<close>)
qed

lemma finish_sim:
  assumes wf: "sm_wf sm w" and step: "conn_step e (sm_abs sm w) = finish (sm_abs sm w)"
  shows "sim {} e sm w (finish_releasing sm w)"
proof -
  let ?ps = "mSubscriberList sm"
  let ?qs = "filter (\<lambda>p. \<not> mIsInactive (the (subscribers w p))) ?ps"
  let ?outs = "concat (map (\<lambda>s. told AGPS_EVENT_RELEASED s sm) (filter mIsInactive (subs w ?ps)))"
  let ?w = "w\<lparr>out_log := out_log w @ ?outs,
        subscribers := (\<lambda>p. if p \<in> set ?ps \<and> mIsInactive (the (subscribers w p)) then None else subscribers w p)\<rparr>"
  have al: "alive w ?ps" "distinct ?ps" and dh: "distinct (map mConnHandle (subs w ?ps))" using wf by (simp_all add: sm_wf_def)
  have n: "notifyAllSubscribers AGPS_EVENT_RELEASED True AGPS_NOTIFICATION_TYPE_FOR_INACTIVE_SUBSCRIBERS sm w
    = Some (sm\<lparr>mSubscriberList := ?qs\<rparr>, ?w)"
    using al by (simp add: notifyAllSubscribers_def notify_loop_delete)
  have sq: "subs ?w ?qs = filter (\<lambda>s. \<not> mIsInactive s) (subs w ?ps)"
    by (auto simp: subs_def filter_map o_def)
  have aq: "alive ?w ?qs" using al by (auto simp: alive_def)
  have ms: "map member_of (subs ?w ?qs) = staying (map member_of (subs w ?ps))"
    unfolding sq by (simp add: filter_map o_def member_of_def)
  have dq: "distinct (map mConnHandle (subs ?w ?qs))" unfolding sq using dh by (simp add: distinct_map_filter)
  have "staying (map member_of (subs ?w ?qs)) = map member_of (subs ?w ?qs)" unfolding ms by simp
  then have "any_active ?qs ?w = Some (map member_of (subs ?w ?qs) \<noteq> [])" using any_active_eq [OF aq] by (simp only:)
  then have act: "anyActiveSubscribers (sm\<lparr>mSubscriberList := ?qs\<rparr>) ?w = Some (?qs \<noteq> [])"
    by (simp add: anyActiveSubscribers_def subs_def)
  have v: "map out_view ?outs = map (Closed \<circ> fst) (leaving (members (sm_abs sm w)))"
    by (simp add: sm_abs_def told_all_views map_comp_members)
  have st: "staying (members (sm_abs sm w)) = map member_of (subs ?w ?qs)" by (simp only: ms) (simp add: sm_abs_def)
  show ?thesis
  proof (cases "?qs = []")
    case True
    then have r: "finish_releasing sm w = Some (sm\<lparr>mSubscriberList := [], mState := AGPS_STATE_RELEASED\<rparr>, ?w)"
      using n act by (simp add: finish_releasing_def transitionState_def Let_def)
    have "mIsInactive (the (subscribers w p))" if "p \<in> set ?ps" for p
      using True that by (simp add: filter_empty_conv)
    then show ?thesis
      by (intro simI [OF r, where outs = ?outs]) (use True st v step in \<open>auto simp: sm_wf_def sm_abs_def finish_def Let_def\<close>)
  next
    case False
    then have r: "finish_releasing sm w = Some (sm\<lparr>mSubscriberList := ?qs, mState := AGPS_STATE_PENDING\<rparr>,
        requestOrReleaseDataConn True (sm\<lparr>mSubscriberList := ?qs, mState := AGPS_STATE_PENDING\<rparr>) ?w)"
      using n act by (simp add: finish_releasing_def transitionState_def Let_def)
    have w': "requestOrReleaseDataConn True (sm\<lparr>mSubscriberList := ?qs, mState := AGPS_STATE_PENDING\<rparr>) ?w
      = ?w\<lparr>out_log := out_log ?w @ [FrameworkStatus \<lparr>nif_type = mAgpsType sm, nif_apnTypeMask = mApnTypeMask sm,
          nif_status = LOC_GPS_REQUEST_AGPS_DATA_CONN\<rparr>]\<rparr>"
      by (simp add: requestOrReleaseDataConn_def call_out_def)
    show ?thesis
    proof (rule simI [OF r, where outs = "?outs @ [FrameworkStatus \<lparr>nif_type = mAgpsType sm, nif_apnTypeMask = mApnTypeMask sm,
          nif_status = LOC_GPS_REQUEST_AGPS_DATA_CONN\<rparr>]"], unfold w')
      show "sm_wf (sm\<lparr>mSubscriberList := ?qs, mState := AGPS_STATE_PENDING\<rparr>) (?w\<lparr>out_log := out_log ?w @ [FrameworkStatus
          \<lparr>nif_type = mAgpsType sm, nif_apnTypeMask = mApnTypeMask sm, nif_status = LOC_GPS_REQUEST_AGPS_DATA_CONN\<rparr>]\<rparr>)"
        using al aq dq by (simp add: sm_wf_def alive_def subs_def)
    qed (use False st v step al in \<open>auto simp: sm_abs_def finish_def Let_def subs_def\<close>)
  qed
qed

lemma released_sim: "sm_wf sm w \<Longrightarrow> sim {} Released sm w (processAgpsEventReleased sm w)"
  by (cases "mState sm")
     (auto simp: processAgpsEventReleased_def sm_wf_def sm_abs_def told_all_views map_comp_members member_of_def
       intro!: sim_noop finish_sim all_told_sim)

lemma denied_sim: "sm_wf sm w \<Longrightarrow> sim {} Denied sm w (processAgpsEventDenied sm w)"
  by (cases "mState sm")
     (auto simp: processAgpsEventDenied_def sm_wf_def sm_abs_def told_all_views map_comp_members member_of_def
       intro!: sim_noop finish_sim all_told_sim)

lemma drop_sim:
  assumes wf: "sm_wf sm w"
  shows "sim {} Reset sm w (dropAllSubscribers sm w)"
proof -
  have "dropAllSubscribers sm w = Some (sm\<lparr>mSubscriberList := []\<rparr>,
      w\<lparr>subscribers := (\<lambda>p. if p \<in> set (mSubscriberList sm) then None else subscribers w p)\<rparr>)"
    using wf by (simp add: dropAllSubscribers_def sm_wf_def drop_loop_eq)
  then show ?thesis
    by (rule simI [where outs = "[]"]) (use wf in \<open>auto simp: sm_wf_def sm_abs_def\<close>)
qed

text \<open>Subscribing: \<open>q\<close> is the address of the request, \<open>n\<close> the one of the clone.\<close>

lemma add_result:
  assumes wf: "sm_wf sm w" and q: "q \<noteq> NULL" "subscribers w q = Some s" "mWaitForCloseComplete s" "\<not> mIsInactive s"
    and n: "n \<noteq> NULL" "subscribers w n = None"
  shows "\<exists>sm' w'. addSubscriber n q sm w = Some (sm', w') \<and> mState sm' = mState sm \<and> mAgpsType sm' = mAgpsType sm
      \<and> mApnTypeMask sm' = mApnTypeMask sm
      \<and> out_log w' = out_log w \<and> distinct (mSubscriberList sm') \<and> alive w' (mSubscriberList sm')
      \<and> distinct (map mConnHandle (subs w' (mSubscriberList sm')))
      \<and> map member_of (subs w' (mSubscriberList sm')) = add_member (mConnHandle s) (map member_of (subs w (mSubscriberList sm)))
      \<and> set (mSubscriberList sm) \<subseteq> set (mSubscriberList sm') \<and> set (mSubscriberList sm') \<subseteq> insert n (set (mSubscriberList sm))
      \<and> (\<forall>p. p \<notin> set (mSubscriberList sm') \<longrightarrow> subscribers w' p = subscribers w p)"
proof -
  let ?ps = "mSubscriberList sm"
  have al: "alive w ?ps" "distinct ?ps" "distinct (map mConnHandle (subs w ?ps))" using wf by (simp_all add: sm_wf_def)
  have nn: "n \<notin> set ?ps" using al(1) n by (auto simp: alive_def)
  have h: "fst ` set (map member_of (subs w ?ps)) = mConnHandle ` set (subs w ?ps)" by (force simp: member_of_def)
  show ?thesis
  proof (cases "mConnHandle s \<in> mConnHandle ` set (subs w ?ps)")
    case True
    then have "addSubscriber n q sm w = Some (sm, w)"
      using add_present_eq [OF al(1) q(1,2)] by (simp add: addSubscriber_def)
    then show ?thesis using True al h by (auto simp: add_member_def)
  next
    case False
    let ?w = "w\<lparr>subscribers := (subscribers w)(n \<mapsto> s)\<rparr>"
    from False have "addSubscriber n q sm w = Some (sm\<lparr>mSubscriberList := ?ps @ [n]\<rparr>, ?w)"
      using add_present_eq [OF al(1) q(1,2)] q by (simp add: addSubscriber_def)
    moreover have "alive ?w (?ps @ [n])" using al(1) q n nn by (simp add: alive_frame)
    moreover have "subs ?w (?ps @ [n]) = subs w ?ps @ [s]" using nn by (simp add: subs_frame)
    moreover have "add_member (mConnHandle s) (map member_of (subs w ?ps)) = map member_of (subs w ?ps @ [s])"
      using False h q(4) by (simp add: add_member_def member_of_def)
    ultimately show ?thesis using False al nn by auto
  qed
qed

lemma subscribe_sim:
  assumes wf: "sm_wf sm w" and q: "q \<noteq> NULL" "subscribers w q = Some s" "mWaitForCloseComplete s" "\<not> mIsInactive s"
    and cur: "mCurrentSubscriber sm = q" and n: "n \<noteq> NULL" "subscribers w n = None"
  shows "sim {n} (Subscribe (mConnHandle s)) sm w (processAgpsEventSubscribe n sm w)"
proof -
  have other: "sim {n} (Subscribe (mConnHandle s)) sm w (addSubscriber n q sm w)"
    if "mState sm \<in> {AGPS_STATE_PENDING, AGPS_STATE_RELEASING}"
    using add_result [OF wf q n] that
    by (auto simp: sim_def sm_wf_def sm_abs_def)
  show ?thesis
  proof (cases "mState sm")
    case AGPS_STATE_RELEASED
    from add_result [OF wf q n] obtain sm' w' where r: "addSubscriber n q sm w = Some (sm', w')"
      "mState sm' = mState sm" "out_log w' = out_log w" "distinct (mSubscriberList sm')" "alive w' (mSubscriberList sm')"
      "distinct (map mConnHandle (subs w' (mSubscriberList sm')))"
      "map member_of (subs w' (mSubscriberList sm')) = add_member (mConnHandle s) (map member_of (subs w (mSubscriberList sm)))"
      "set (mSubscriberList sm) \<subseteq> set (mSubscriberList sm')" "set (mSubscriberList sm') \<subseteq> insert n (set (mSubscriberList sm))"
      "\<forall>p. p \<notin> set (mSubscriberList sm') \<longrightarrow> subscribers w' p = subscribers w p" by blast
    let ?f = "FrameworkStatus \<lparr>nif_type = mAgpsType sm', nif_apnTypeMask = mApnTypeMask sm', nif_status = LOC_GPS_REQUEST_AGPS_DATA_CONN\<rparr>"
    have "processAgpsEventSubscribe n sm w = Some (sm'\<lparr>mState := AGPS_STATE_PENDING\<rparr>, w'\<lparr>out_log := out_log w' @ [?f]\<rparr>)"
      using AGPS_STATE_RELEASED cur r(1)
      by (simp add: processAgpsEventSubscribe_def requestOrReleaseDataConn_def call_out_def transitionState_def Let_def)
    then show ?thesis
      by (rule simI [where outs = "[?f]"]) (use r AGPS_STATE_RELEASED in \<open>auto simp: sm_wf_def sm_abs_def\<close>)
  next
    case AGPS_STATE_ACQUIRED
    let ?w = "w\<lparr>out_log := out_log w @ told AGPS_EVENT_GRANTED s sm\<rparr>"
    have e: "processAgpsEventSubscribe n sm w = addSubscriber n q sm ?w"
      using AGPS_STATE_ACQUIRED cur q by (simp add: processAgpsEventSubscribe_def notify_one)
    have "sm_wf sm ?w" using wf by (simp add: sm_wf_def)
    from add_result [OF this q(1) _ q(3,4) n(1)] q(2) n(2) obtain sm' w' where r: "addSubscriber n q sm ?w = Some (sm', w')"
      "mState sm' = mState sm" "out_log w' = out_log ?w" "distinct (mSubscriberList sm')" "alive w' (mSubscriberList sm')"
      "distinct (map mConnHandle (subs w' (mSubscriberList sm')))"
      "map member_of (subs w' (mSubscriberList sm')) = add_member (mConnHandle s) (map member_of (subs ?w (mSubscriberList sm)))"
      "set (mSubscriberList sm) \<subseteq> set (mSubscriberList sm')" "set (mSubscriberList sm') \<subseteq> insert n (set (mSubscriberList sm))"
      "\<forall>p. p \<notin> set (mSubscriberList sm') \<longrightarrow> subscribers w' p = subscribers ?w p" by (auto simp del: subs_simps alive_simps)
    show ?thesis unfolding e using r(1)
      by (rule simI [where outs = "told AGPS_EVENT_GRANTED s sm"])
         (use r AGPS_STATE_ACQUIRED in \<open>auto simp: sm_wf_def sm_abs_def\<close>)
  qed (use other wf cur in \<open>auto simp: processAgpsEventSubscribe_def sm_wf_def\<close>)
qed

text \<open>Unsubscribing: \<open>q\<close> is the address of a member.\<close>

lemma mark_subs:
  assumes "alive w ps" and "distinct (map mConnHandle (subs w ps))" and "q \<in> set ps" and "subscribers w q = Some s"
  shows "map member_of (subs (w\<lparr>subscribers := (subscribers w)(q \<mapsto> s\<lparr>mIsInactive := True\<rparr>)\<rparr>) ps)
    = mark_leaving (mConnHandle s) (map member_of (subs w ps))"
proof -
  have uniq: "mConnHandle (the (subscribers w p)) \<noteq> mConnHandle s" if "p \<in> set ps" "p \<noteq> q" for p
    using assms(2-4) that by (auto simp: subs_def distinct_map inj_on_def)
  have "member_of (the (((subscribers w)(q \<mapsto> s\<lparr>mIsInactive := True\<rparr>)) p))
      = (case member_of (the (subscribers w p)) of (i, l) \<Rightarrow> (i, l \<or> i = mConnHandle s))" if "p \<in> set ps" for p
    using that assms(4) uniq [of p] by (cases "p = q") (simp_all add: member_of_def)
  then show ?thesis by (simp add: subs_def mark_leaving_def del: fun_upd_apply)
qed

lemma mark_handles:
  "subscribers w q = Some s \<Longrightarrow>
    map mConnHandle (subs (w\<lparr>subscribers := (subscribers w)(q \<mapsto> s\<lparr>mIsInactive := True\<rparr>)\<rparr>) ps) = map mConnHandle (subs w ps)"
  by (auto simp: subs_def)

lemma unsubscribe_sim:
  assumes wf: "sm_wf sm w" and q: "q \<in> set (mSubscriberList sm)" "subscribers w q = Some s" and cur: "mCurrentSubscriber sm = q"
  shows "sim {} (Unsubscribe (mConnHandle s)) sm w (processAgpsEventUnsubscribe sm w)"
proof -
  let ?ps = "mSubscriberList sm"
  let ?w = "w\<lparr>subscribers := (subscribers w)(q \<mapsto> s\<lparr>mIsInactive := True\<rparr>)\<rparr>"
  let ?f = "FrameworkStatus \<lparr>nif_type = mAgpsType sm, nif_apnTypeMask = mApnTypeMask sm, nif_status = LOC_GPS_RELEASE_AGPS_DATA_CONN\<rparr>"
  have al: "alive w ?ps" "distinct ?ps" "distinct (map mConnHandle (subs w ?ps))" and ne: "?ps \<noteq> []"
    and st: "mState sm \<noteq> AGPS_STATE_RELEASED" "mState sm \<noteq> AGPS_STATE_INVALID"
    using wf q by (auto simp: sm_wf_def)
  have qs: "q \<noteq> NULL" "mWaitForCloseComplete s" using al(1) q by (auto simp: alive_def)
  have lv: "leave_current sm w = Some (sm, ?w)" using qs q cur by (simp add: leave_current_def)
  have al': "alive ?w ?ps" using al(1) qs by (auto simp: alive_def)
  note ms = mark_subs [OF al(1,3) q]
  have act: "anyActiveSubscribers sm ?w = Some (staying (mark_leaving (mConnHandle s) (map member_of (subs w ?ps))) \<noteq> [])"
    using any_active_eq [OF al'] by (simp add: anyActiveSubscribers_def ms)
  have wf': "sm_wf (sm\<lparr>mState := x\<rparr>) (?w\<lparr>out_log := l\<rparr>)" if "x \<noteq> AGPS_STATE_RELEASED" "x \<noteq> AGPS_STATE_INVALID" for x l
    using that al al' mark_handles [OF q(2), of ?ps] by (simp add: sm_wf_def)
  show ?thesis
  proof (cases "mState sm \<in> {AGPS_STATE_PENDING, AGPS_STATE_ACQUIRED}
      \<and> staying (mark_leaving (mConnHandle s) (map member_of (subs w ?ps))) = []")
    case True
    then have "processAgpsEventUnsubscribe sm w = Some (sm\<lparr>mState := AGPS_STATE_RELEASING\<rparr>, ?w\<lparr>out_log := out_log w @ [?f]\<rparr>)"
      using lv ne act by (auto simp: processAgpsEventUnsubscribe_def unsubscribe_open_def transitionState_def
        requestOrReleaseDataConn_def call_out_def LOC_GPS_RELEASE_AGPS_DATA_CONN_def Let_def)
    then show ?thesis
      by (rule simI [where outs = "[?f]"]) (use True wf' [of AGPS_STATE_RELEASING] ms q(1) in
        \<open>auto simp: sm_abs_def LOC_GPS_RELEASE_AGPS_DATA_CONN_def LOC_GPS_REQUEST_AGPS_DATA_CONN_def\<close>)
  next
    case False
    then have "processAgpsEventUnsubscribe sm w = Some (sm, ?w)"
      using lv ne act st by (cases "mState sm") (auto simp: processAgpsEventUnsubscribe_def unsubscribe_open_def)
    then show ?thesis
      by (rule simI [where outs = "[]"]) (use False wf' [OF st, of "out_log w"] ms q(1) in \<open>auto simp: sm_abs_def Let_def\<close>)
  qed
qed

section \<open>The manager\<close>

definition list_of :: "nif \<Rightarrow> AgpsManager \<Rightarrow> addr set" where
  "list_of n m = (case get_nif n m of None \<Rightarrow> {} | Some sm \<Rightarrow> set (mSubscriberList sm))"

text \<open>Every subscriber object belongs to exactly one list.\<close>

definition mgr_wf :: "AgpsManager \<Rightarrow> bool" where
  "mgr_wf m \<longleftrightarrow> (\<forall>n sm. get_nif n m = Some sm \<longrightarrow> sm_wf sm (world m)) \<and> list_of Agnss m \<inter> list_of Internet m = {}
     \<and> dom (subscribers (world m)) = list_of Agnss m \<union> list_of Internet m"

definition mgr_abs :: "AgpsManager \<Rightarrow> nif \<Rightarrow> conn option" where
  "mgr_abs m n = map_option (\<lambda>sm. sm_abs sm (world m)) (get_nif n m)"

datatype atl_call =
    RequestATL addr addr int int int LocApnTypeMask
  | ReleaseATL int
  | ReportOpenSuccess int "string option" "32 word" int
  | ReportOpenFailed int
  | ReportClosed int
  | ModemSSR

fun atl_step :: "atl_call \<Rightarrow> AgpsManager \<Rightarrow> AgpsManager option" where
  "atl_step (RequestATL stk cloned emergency h ty tm) m = requestATL stk cloned emergency h ty tm m"
| "atl_step (ReleaseATL h) m = releaseATL h m"
| "atl_step (ReportOpenSuccess ty apn len b) m = reportAtlOpenSuccess ty apn len b m"
| "atl_step (ReportOpenFailed ty) m = reportAtlOpenFailed ty m"
| "atl_step (ReportClosed ty) m = reportAtlClosed ty m"
| "atl_step ModemSSR m = handleModemSSR m"

text \<open>Obligations of the callers: memory that is handed out is fresh, and the framework reports only
  to a state machine that exists.\<close>

fun atl_ok :: "atl_call \<Rightarrow> AgpsManager \<Rightarrow> bool" where
  "atl_ok (RequestATL stk cloned emergency h ty tm) m \<longleftrightarrow> stk \<noteq> NULL \<and> cloned \<noteq> NULL \<and> stk \<noteq> cloned
     \<and> subscribers (world m) stk = None \<and> subscribers (world m) cloned = None"
| "atl_ok (ReportOpenSuccess ty apn len b) m \<longleftrightarrow> get_nif (nif_of ty) m \<noteq> None"
| "atl_ok (ReportOpenFailed ty) m \<longleftrightarrow> get_nif (nif_of ty) m \<noteq> None"
| "atl_ok (ReportClosed ty) m \<longleftrightarrow> get_nif (nif_of ty) m \<noteq> None"
| "atl_ok _ m \<longleftrightarrow> True"

definition on_nif :: "nif \<Rightarrow> conn_event \<Rightarrow> (nif \<Rightarrow> conn option) \<Rightarrow> (nif \<Rightarrow> conn option) \<times> conn_out list" where
  "on_nif n e c = (case c n of None \<Rightarrow> (c, []) | Some x \<Rightarrow> (c(n \<mapsto> fst (conn_step e x)), snd (conn_step e x)))"

definition is_member :: "int \<Rightarrow> conn option \<Rightarrow> bool" where
  "is_member h c = (case c of None \<Rightarrow> False | Some x \<Rightarrow> h \<in> fst ` set (members x))"

fun atl_spec :: "atl_call \<Rightarrow> (nif \<Rightarrow> conn option) \<Rightarrow> (nif \<Rightarrow> conn option) \<times> conn_out list" where
  "atl_spec (RequestATL stk cloned emergency h ty tm) c =
     (if c (nif_of ty) = None then (c, [Refused h]) else on_nif (nif_of ty) (Subscribe h) c)"
| "atl_spec (ReleaseATL h) c =
     (if is_member h (c Agnss) then on_nif Agnss (Unsubscribe h) c
      else if is_member h (c Internet) then on_nif Internet (Unsubscribe h) c else (c, []))"
| "atl_spec (ReportOpenSuccess ty apn len b) c = on_nif (nif_of ty) Granted c"
| "atl_spec (ReportOpenFailed ty) c = on_nif (nif_of ty) Denied c"
| "atl_spec (ReportClosed ty) c = on_nif (nif_of ty) Released c"
| "atl_spec ModemSSR c = on_nif Internet Reset (fst (on_nif Agnss Reset c))"

definition mgr_out :: "AgpsManager \<Rightarrow> conn_out list" where
  "mgr_out m = map out_view (out_log (world m))"

lemma nif_simps [simp]: "get_nif n (put_nif n' sm m) = (if n = n' then Some sm else get_nif n m)"
  "world (put_nif n sm m) = world m" "get_nif n (m\<lparr>world := w\<rparr>) = get_nif n m"
  by (cases n; cases n'; simp) (cases n; simp)+

lemma wf_frame:
  "\<forall>p \<in> set (mSubscriberList sm). subscribers w' p = subscribers w p \<Longrightarrow> sm_wf sm w' = sm_wf sm w"
  "\<forall>p \<in> set (mSubscriberList sm). subscribers w' p = subscribers w p \<Longrightarrow> sm_abs sm w' = sm_abs sm w"
  by (auto simp: sm_wf_def sm_abs_def alive_def subs_def cong: map_cong)

text \<open>A state machine with other attributes than its list and its state is the same one.\<close>

lemma wf_prep:
  "mSubscriberList sm' = mSubscriberList sm \<Longrightarrow> mState sm' = mState sm \<Longrightarrow> sm_wf sm' w = sm_wf sm w"
  "mSubscriberList sm' = mSubscriberList sm \<Longrightarrow> mState sm' = mState sm \<Longrightarrow> sm_abs sm' w = sm_abs sm w"
  by (simp_all add: sm_wf_def sm_abs_def)

text \<open>The core of the argument for the manager: \<open>live\<close> are objects that no list holds, such as the
  request on the stack.\<close>

definition mgr_wf_with :: "addr set \<Rightarrow> AgpsManager \<Rightarrow> bool" where
  "mgr_wf_with live m \<longleftrightarrow> (\<forall>n sm. get_nif n m = Some sm \<longrightarrow> sm_wf sm (world m)) \<and> list_of Agnss m \<inter> list_of Internet m = {}
     \<and> live \<inter> (list_of Agnss m \<union> list_of Internet m) = {}
     \<and> dom (subscribers (world m)) = live \<union> list_of Agnss m \<union> list_of Internet m"

lemma mgr_wf_none: "mgr_wf m \<longleftrightarrow> mgr_wf_with {} m"
  by (simp add: mgr_wf_def mgr_wf_with_def)

lemma live_frame:
  fixes m p x
  defines "m' \<equiv> m\<lparr>world := (world m)\<lparr>subscribers := (subscribers (world m))(p := x)\<rparr>\<rparr>"
  assumes p: "p \<notin> list_of Agnss m" "p \<notin> list_of Internet m"
  shows "mgr_abs m' = mgr_abs m" "mgr_out m' = mgr_out m" "list_of n m' = list_of n m"
    "get_nif n m = Some sm \<Longrightarrow> sm_wf sm (world m') = sm_wf sm (world m)"
proof -
  have f: "sm_wf sm (world m') = sm_wf sm (world m) \<and> sm_abs sm (world m') = sm_abs sm (world m)"
    if "get_nif k m = Some sm" for k sm
  proof -
    have "p \<notin> set (mSubscriberList sm)" using that p by (cases k) (auto simp: list_of_def)
    then have "\<forall>q \<in> set (mSubscriberList sm). subscribers (world m') q = subscribers (world m) q" by (auto simp: m'_def)
    from wf_frame [OF this] show ?thesis by blast
  qed
  show "mgr_abs m' = mgr_abs m"
  proof
    fix k show "mgr_abs m' k = mgr_abs m k" using f [of k] by (cases "get_nif k m") (auto simp: mgr_abs_def m'_def)
  qed
  show "mgr_out m' = mgr_out m" "list_of n m' = list_of n m" by (simp_all add: mgr_out_def list_of_def m'_def)
  show "get_nif n m = Some sm \<Longrightarrow> sm_wf sm (world m') = sm_wf sm (world m)" using f by blast
qed

lemma nif_update:
  assumes wf: "mgr_wf_with live m" and sm: "get_nif n m = Some sm" and sim: "sim new e sm (world m) (Some (sm', w'))"
    and new: "new \<inter> dom (subscribers (world m)) = {}"
  shows "mgr_wf_with live (put_nif n sm' (m\<lparr>world := w'\<rparr>))
    \<and> mgr_abs (put_nif n sm' (m\<lparr>world := w'\<rparr>)) = fst (on_nif n e (mgr_abs m))
    \<and> mgr_out (put_nif n sm' (m\<lparr>world := w'\<rparr>)) = mgr_out m @ snd (on_nif n e (mgr_abs m))"
proof -
  let ?m = "put_nif n sm' (m\<lparr>world := w'\<rparr>)"
  let ?o = "case n of Agnss \<Rightarrow> Internet | Internet \<Rightarrow> Agnss"
  from sim have wf': "sm_wf sm' w'" and ab: "sm_abs sm' w' = fst (conn_step e (sm_abs sm (world m)))"
    and lst: "set (mSubscriberList sm') \<subseteq> set (mSubscriberList sm) \<union> new"
    and fr: "\<forall>p. p \<notin> set (mSubscriberList sm) \<union> set (mSubscriberList sm') \<longrightarrow> subscribers w' p = subscribers (world m) p"
    and del: "\<forall>p \<in> set (mSubscriberList sm) - set (mSubscriberList sm'). subscribers w' p = None"
    and out: "map out_view (out_log w') = map out_view (out_log (world m)) @ snd (conn_step e (sm_abs sm (world m)))"
    by (auto simp: sim_def)
  have ls: "list_of n m = set (mSubscriberList sm)" "list_of n ?m = set (mSubscriberList sm')" "list_of ?o ?m = list_of ?o m"
    using sm by (cases n; simp add: list_of_def)+
  have two: "list_of Agnss k \<union> list_of Internet k = list_of n k \<union> list_of ?o k"
    "list_of Agnss k \<inter> list_of Internet k = list_of n k \<inter> list_of ?o k" for k by (cases n; auto)+
  note w = wf [unfolded mgr_wf_with_def two Un_assoc]
  have other: "subscribers w' p = subscribers (world m) p" if "p \<in> list_of ?o m" for p
    using that w new lst fr ls(1) by blast
  have ofr: "sm_wf sm2 w' \<and> sm_abs sm2 w' = sm_abs sm2 (world m)" if "get_nif ?o m = Some sm2" for sm2
  proof -
    have "\<forall>p \<in> set (mSubscriberList sm2). subscribers w' p = subscribers (world m) p"
      using other that by (auto simp: list_of_def)
    then show ?thesis using w that wf_frame [of sm2 w' "world m"] by blast
  qed
  have alive': "set (mSubscriberList sm') \<subseteq> dom (subscribers w')" using wf' by (auto simp: sm_wf_def alive_def)
  have dom': "dom (subscribers w') = live \<union> (set (mSubscriberList sm') \<union> list_of ?o m)"
  proof (intro equalityI subsetI)
    fix p assume p: "p \<in> dom (subscribers w')"
    show "p \<in> live \<union> (set (mSubscriberList sm') \<union> list_of ?o m)"
    proof (cases "p \<in> set (mSubscriberList sm')")
      case False
      then have "p \<notin> set (mSubscriberList sm)" using p del by auto
      then have "p \<in> dom (subscribers (world m))" using p fr False by (auto simp: dom_def)
      then show ?thesis using w \<open>p \<notin> set (mSubscriberList sm)\<close> ls(1) by blast
    qed simp
  next
    fix p assume "p \<in> live \<union> (set (mSubscriberList sm') \<union> list_of ?o m)"
    then show "p \<in> dom (subscribers w')"
    proof (elim UnE)
      assume p: "p \<in> live"
      then have "p \<in> dom (subscribers (world m))" "p \<notin> set (mSubscriberList sm)" using w ls(1) by blast+
      moreover from this have "p \<notin> set (mSubscriberList sm')" using new lst by blast
      ultimately show ?thesis using fr by (simp add: dom_def)
    next
      assume p: "p \<in> list_of ?o m"
      then have "p \<in> dom (subscribers (world m))" using w by blast
      then show ?thesis using other [OF p] by (simp add: dom_def)
    qed (use alive' in blast)
  qed
  have nn: "n' = n \<or> n' = ?o" for n' by (cases n; cases n') simp_all
  have "mgr_wf_with live ?m"
    unfolding mgr_wf_with_def two Un_assoc ls
  proof (intro conjI allI impI)
    fix n' sm2 assume "get_nif n' ?m = Some sm2"
    then show "sm_wf sm2 (world ?m)" using nn [of n'] wf' ofr by (auto split: if_splits)
  qed (use w ls lst new dom' in \<open>auto simp: dom_def\<close>)
  moreover have "mgr_abs ?m n' = fst (on_nif n e (mgr_abs m)) n'" for n'
    using nn [of n'] sm ab ofr by (cases "n' = n"; cases "get_nif ?o m") (auto simp: mgr_abs_def on_nif_def split: nif.splits)
  moreover have "mgr_out ?m = mgr_out m @ snd (on_nif n e (mgr_abs m))"
    using sm out by (simp add: mgr_out_def mgr_abs_def on_nif_def)
  ultimately show ?thesis by blast
qed

text \<open>An event on a state machine whose attributes were set up, with nothing new in the list.\<close>

lemma event_step:
  assumes wf: "mgr_wf m" and sm: "get_nif n m = Some sm"
    and prep: "mSubscriberList (prep sm) = mSubscriberList sm" "mState (prep sm) = mState sm"
    and sim: "sim {} e (prep sm) (world m) (processAgpsEvent c ev (prep sm) (world m))"
  shows "\<exists>m'. send_event n c ev prep m = Some m' \<and> mgr_wf m' \<and> mgr_abs m' = fst (on_nif n e (mgr_abs m))
    \<and> mgr_out m' = mgr_out m @ snd (on_nif n e (mgr_abs m))"
proof -
  from sim obtain sm' w' where r: "processAgpsEvent c ev (prep sm) (world m) = Some (sm', w')" by (auto simp: sim_def)
  have "sim {} e sm (world m) (Some (sm', w'))"
    using sim unfolding r by (simp add: sim_def prep wf_prep(2) [OF prep])
  from nif_update [OF wf [unfolded mgr_wf_none] sm this] r sm show ?thesis
    by (simp add: send_event_def mgr_wf_none)
qed

lemma setAPN_same [simp]: "mSubscriberList (setAPN a l sm) = mSubscriberList sm" "mState (setAPN a l sm) = mState sm"
  by (simp_all add: setAPN_def split: option.split)

lemma wf_of: "mgr_wf m \<Longrightarrow> get_nif n m = Some sm \<Longrightarrow> sm_wf sm (world m)"
  by (simp add: mgr_wf_def)

abbreviation refines :: "atl_call \<Rightarrow> AgpsManager \<Rightarrow> bool" where
  "refines l m \<equiv> \<exists>m'. atl_step l m = Some m' \<and> mgr_wf m' \<and> mgr_abs m' = fst (atl_spec l (mgr_abs m))
     \<and> mgr_out m' = mgr_out m @ snd (atl_spec l (mgr_abs m))"

lemma success_refines:
  assumes "mgr_wf m" and "atl_ok (ReportOpenSuccess ty apn len b) m"
  shows "refines (ReportOpenSuccess ty apn len b) m"
proof -
  obtain sm where sm: "get_nif (nif_of ty) m = Some sm" using assms(2) by auto
  let ?prep = "\<lambda>sm. setAPN apn len (sm\<lparr>mBearer := b\<rparr>)"
  have "sm_wf (?prep sm) (world m)" using wf_of [OF assms(1) sm] wf_prep(1) [of "?prep sm" sm] by simp
  then show ?thesis using event_step [OF assms(1) sm, of ?prep Granted NULL AGPS_EVENT_GRANTED] granted_sim
    by (simp add: reportAtlOpenSuccess_def processAgpsEvent_def)
qed

lemma failed_refines: "mgr_wf m \<Longrightarrow> atl_ok (ReportOpenFailed ty) m \<Longrightarrow> refines (ReportOpenFailed ty) m"
  using event_step [of m "nif_of ty" _ id Denied NULL AGPS_EVENT_DENIED] denied_sim wf_of [of m "nif_of ty"]
  by (fastforce simp: reportAtlOpenFailed_def processAgpsEvent_def)

lemma closed_refines: "mgr_wf m \<Longrightarrow> atl_ok (ReportClosed ty) m \<Longrightarrow> refines (ReportClosed ty) m"
  using event_step [of m "nif_of ty" _ id Released NULL AGPS_EVENT_RELEASED] released_sim wf_of [of m "nif_of ty"]
  by (fastforce simp: reportAtlClosed_def processAgpsEvent_def)

lemma drop_refines:
  assumes "mgr_wf m"
  shows "\<exists>m'. drop_nif n m = Some m' \<and> mgr_wf m' \<and> mgr_abs m' = fst (on_nif n Reset (mgr_abs m)) \<and> mgr_out m' = mgr_out m"
proof (cases "get_nif n m")
  case None
  then show ?thesis using assms by (simp add: drop_nif_def on_nif_def mgr_abs_def)
next
  case (Some sm)
  from drop_sim [OF wf_of [OF assms Some]] obtain sm' w' where r: "dropAllSubscribers sm (world m) = Some (sm', w')"
    and s: "sim {} Reset sm (world m) (Some (sm', w'))" by (auto simp: sim_def)
  have "snd (on_nif n Reset (mgr_abs m)) = []" by (simp add: on_nif_def split: option.split)
  with nif_update [OF assms [unfolded mgr_wf_none] Some s] r Some show ?thesis
    by (simp add: drop_nif_def mgr_wf_none)
qed

lemma ssr_refines:
  assumes "mgr_wf m"
  shows "refines ModemSSR m"
proof -
  obtain m1 where 1: "drop_nif Agnss m = Some m1" "mgr_wf m1" "mgr_abs m1 = fst (on_nif Agnss Reset (mgr_abs m))" "mgr_out m1 = mgr_out m"
    using drop_refines [OF assms, of Agnss] by blast
  obtain m2 where 2: "drop_nif Internet m1 = Some m2" "mgr_wf m2" "mgr_abs m2 = fst (on_nif Internet Reset (mgr_abs m1))" "mgr_out m2 = mgr_out m1"
    using drop_refines [OF 1(2), of Internet] by blast
  have "snd (on_nif Internet Reset c) = []" for c by (simp add: on_nif_def split: option.split)
  with 1 2 show ?thesis by (simp add: handleModemSSR_def)
qed

lemma find_in_eq:
  assumes "mgr_wf m"
  shows "\<exists>p. find_in n h m = Some p \<and> (p = NULL \<longleftrightarrow> \<not> is_member h (mgr_abs m n))
    \<and> (p \<noteq> NULL \<longrightarrow> (\<exists>sm s. get_nif n m = Some sm \<and> p \<in> set (mSubscriberList sm) \<and> subscribers (world m) p = Some s \<and> mConnHandle s = h))"
proof (cases "get_nif n m")
  case None
  then show ?thesis by (simp add: find_in_def is_member_def mgr_abs_def)
next
  case (Some sm)
  have al: "alive (world m) (mSubscriberList sm)" using wf_of [OF assms Some] by (simp add: sm_wf_def)
  have "fst ` set (members (sm_abs sm (world m))) = mConnHandle ` set (subs (world m) (mSubscriberList sm))"
    by (force simp: sm_abs_def member_of_def)
  then show ?thesis using get_sub_eq [OF al, of h] Some al
    by (auto simp: find_in_def getSubscriber_def is_member_def mgr_abs_def alive_def)
qed

lemma leave_refines:
  assumes wf: "mgr_wf m" and p: "get_nif n m = Some sm" "p \<in> set (mSubscriberList sm)" "subscribers (world m) p = Some s"
  shows "\<exists>m'. send_event n NULL AGPS_EVENT_UNSUBSCRIBE (\<lambda>sm. sm\<lparr>mCurrentSubscriber := p\<rparr>) m = Some m' \<and> mgr_wf m'
    \<and> mgr_abs m' = fst (on_nif n (Unsubscribe (mConnHandle s)) (mgr_abs m))
    \<and> mgr_out m' = mgr_out m @ snd (on_nif n (Unsubscribe (mConnHandle s)) (mgr_abs m))"
proof (rule event_step [OF wf p(1)])
  have "sm_wf (sm\<lparr>mCurrentSubscriber := p\<rparr>) (world m)" using wf_of [OF wf p(1)] by (simp add: sm_wf_def)
  then show "sim {} (Unsubscribe (mConnHandle s)) (sm\<lparr>mCurrentSubscriber := p\<rparr>) (world m)
      (processAgpsEvent NULL AGPS_EVENT_UNSUBSCRIBE (sm\<lparr>mCurrentSubscriber := p\<rparr>) (world m))"
    using unsubscribe_sim [of "sm\<lparr>mCurrentSubscriber := p\<rparr>" "world m" p s] p(2,3) by (simp add: processAgpsEvent_def)
qed simp_all

lemma release_refines:
  assumes "mgr_wf m"
  shows "refines (ReleaseATL h) m"
proof -
  obtain p where p: "find_in Agnss h m = Some p" "p = NULL \<longleftrightarrow> \<not> is_member h (mgr_abs m Agnss)"
    "p \<noteq> NULL \<longrightarrow> (\<exists>sm s. get_nif Agnss m = Some sm \<and> p \<in> set (mSubscriberList sm) \<and> subscribers (world m) p = Some s \<and> mConnHandle s = h)"
    using find_in_eq [OF assms, of Agnss h] by blast
  obtain q where q: "find_in Internet h m = Some q" "q = NULL \<longleftrightarrow> \<not> is_member h (mgr_abs m Internet)"
    "q \<noteq> NULL \<longrightarrow> (\<exists>sm s. get_nif Internet m = Some sm \<and> q \<in> set (mSubscriberList sm) \<and> subscribers (world m) q = Some s \<and> mConnHandle s = h)"
    using find_in_eq [OF assms, of Internet h] by blast
  consider "p \<noteq> NULL" | "p = NULL" "q \<noteq> NULL" | "p = NULL" "q = NULL" by blast
  then show ?thesis
  proof cases
    case 1
    with p obtain sm s where "get_nif Agnss m = Some sm" "p \<in> set (mSubscriberList sm)" "subscribers (world m) p = Some s"
      "mConnHandle s = h" by blast
    from leave_refines [OF assms this(1-3)] this(4) 1 p(1,2) show ?thesis by (simp add: releaseATL_def)
  next
    case 2
    with q obtain sm s where "get_nif Internet m = Some sm" "q \<in> set (mSubscriberList sm)" "subscribers (world m) q = Some s"
      "mConnHandle s = h" by blast
    from leave_refines [OF assms this(1-3)] this(4) 2 p(1,2) q(1,2) show ?thesis by (simp add: releaseATL_def)
  next
    case 3
    then show ?thesis using assms p(1,2) q(1,2) by (simp add: releaseATL_def)
  qed
qed

lemma request_refines:
  assumes wf: "mgr_wf m" and ok: "atl_ok (RequestATL stk n emergency h ty tm) m"
  shows "refines (RequestATL stk n emergency h ty tm) m"
proof -
  define ty' where "ty' = (if emergency = 0 \<and> ty = LOC_AGPS_TYPE_SUPL_ES then LOC_AGPS_TYPE_SUPL else ty)"
  define tm' where "tm' = (if emergency = 0 \<and> ty = LOC_AGPS_TYPE_SUPL_ES
    then (tm AND NOT LOC_APN_TYPE_MASK_EMERGENCY) OR LOC_APN_TYPE_MASK_SUPL else tm)"
  have nif: "nif_of ty' = nif_of ty" by (simp add: ty'_def nif_of_def)
  have let': "(if emergency = 0 \<and> ty = LOC_AGPS_TYPE_SUPL_ES
      then (LOC_AGPS_TYPE_SUPL, (tm AND NOT LOC_APN_TYPE_MASK_EMERGENCY) OR LOC_APN_TYPE_MASK_SUPL) else (ty, tm)) = (ty', tm')"
    by (simp add: ty'_def tm'_def)
  show ?thesis
  proof (cases "get_nif (nif_of ty) m")
    case None
    then have e: "requestATL stk n emergency h ty tm m
        = Some (m\<lparr>world := call_out (AtlOpenStatus h 0 None 0 AGPS_APN_BEARER_INVALID ty' tm') (world m)\<rparr>)"
      unfolding requestATL_def let' by (simp add: getAgpsStateMachine_def nif)
    have "mgr_wf (m\<lparr>world := call_out x (world m)\<rparr>) \<and> mgr_abs (m\<lparr>world := call_out x (world m)\<rparr>) = mgr_abs m" for x
      using wf by (simp add: mgr_wf_def mgr_abs_def call_out_def list_of_def sm_wf_def sm_abs_def fun_eq_iff)
    then show ?thesis using e None by (simp add: mgr_abs_def mgr_out_def call_out_def)
  next
    case (Some sm)
    let ?s = "\<lparr>mConnHandle = h, mWaitForCloseComplete = True, mIsInactive = False, sub_mApnTypeMask = tm'\<rparr>"
    let ?w = "(world m)\<lparr>subscribers := (subscribers (world m))(stk \<mapsto> ?s)\<rparr>"
    let ?m = "m\<lparr>world := ?w\<rparr>"
    let ?sm = "sm\<lparr>mAgpsType := ty', mApnTypeMask := tm', mCurrentSubscriber := stk\<rparr>"
    have fresh: "stk \<noteq> NULL" "n \<noteq> NULL" "stk \<noteq> n" "subscribers (world m) stk = None" "subscribers (world m) n = None"
      using ok by auto
    have out: "stk \<notin> list_of Agnss m" "stk \<notin> list_of Internet m" using wf fresh(4) by (auto simp: mgr_wf_def)
    note fr = live_frame [OF out, where x = "Some ?s"]
    have wfm: "mgr_wf_with {stk} ?m"
      unfolding mgr_wf_with_def fr(3) using wf fr(4) out by (auto simp: mgr_wf_def)
    have smw: "sm_wf ?sm ?w" using wf_of [OF wf Some] fr(4) [OF Some] wf_prep(1) [of ?sm sm ?w] by simp
    have "sim {n} (Subscribe h) ?sm ?w (processAgpsEvent n AGPS_EVENT_SUBSCRIBE ?sm ?w)"
      using subscribe_sim [OF smw, of stk ?s n] fresh by (simp add: processAgpsEvent_def)
    then obtain sm' w' where r: "processAgpsEvent n AGPS_EVENT_SUBSCRIBE ?sm ?w = Some (sm', w')"
      and s: "sim {n} (Subscribe h) sm ?w (Some (sm', w'))"
      by (auto simp: sim_def wf_prep(2) [of ?sm sm ?w])
    let ?m' = "put_nif (nif_of ty) sm' (?m\<lparr>world := w'\<rparr>)"
    have m': "mgr_wf_with {stk} ?m'" "mgr_abs ?m' = fst (on_nif (nif_of ty) (Subscribe h) (mgr_abs m))"
      "mgr_out ?m' = mgr_out m @ snd (on_nif (nif_of ty) (Subscribe h) (mgr_abs m))"
      using nif_update [OF wfm, of "nif_of ty" sm "{n}" "Subscribe h" sm' w'] Some s fresh fr(1,2) by auto
    have out': "stk \<notin> list_of Agnss ?m'" "stk \<notin> list_of Internet ?m'" using m'(1) by (auto simp: mgr_wf_with_def)
    note fr' = live_frame [OF out', where x = None]
    let ?m'' = "?m'\<lparr>world := (world ?m')\<lparr>subscribers := (subscribers (world ?m'))(stk := None)\<rparr>\<rparr>"
    have "mgr_wf ?m''" unfolding mgr_wf_def fr'(3) using m'(1) fr'(4) out' by (auto simp: mgr_wf_with_def)
    moreover have "requestATL stk n emergency h ty tm m = Some ?m''"
      unfolding requestATL_def let' using Some r by (simp add: getAgpsStateMachine_def nif send_event_def Let_def)
    moreover have "mgr_abs m (nif_of ty) \<noteq> None" using Some by (simp add: mgr_abs_def)
    ultimately show ?thesis using m'(2,3) fr'(1,2) by auto
  qed
qed

interpretation agps: forward_simulation atl_step atl_ok mgr_wf mgr_abs atl_spec mgr_out
proof
  fix m l
  assume "mgr_wf m" "atl_ok l m"
  then show "refines l m"
    by (cases l) (simp_all only: request_refines release_refines success_refines failed_refines closed_refines ssr_refines)
qed

definition new_manager :: AgpsManager where
  "new_manager = \<lparr>mAgnssNif = None, mInternetNif = None, world = \<lparr>subscribers = Map.empty, out_log = []\<rparr>\<rparr>"

lemma new_sm_wf: "sm_wf (new_sm u ty) w" "sm_abs (new_sm u ty) w = \<lparr>cstate = AGPS_STATE_RELEASED, members = []\<rparr>"
  by (simp_all add: sm_wf_def new_sm_def sm_abs_def)

lemma created_nif:
  "get_nif n (createAgpsStateMachines u cap atl new_manager) = Some sm \<Longrightarrow> \<exists>ty. sm = new_sm u ty"
  by (cases n) (auto simp: createAgpsStateMachines_def new_manager_def Let_def split: if_splits)

lemma created_wf: "mgr_wf (createAgpsStateMachines u cap atl new_manager)"
proof -
  let ?m = "createAgpsStateMachines u cap atl new_manager"
  have w: "world ?m = \<lparr>subscribers = Map.empty, out_log = []\<rparr>" by (simp add: createAgpsStateMachines_def new_manager_def Let_def)
  have "list_of n ?m = {}" for n
    by (cases "get_nif n ?m") (auto simp: list_of_def new_sm_def dest: created_nif)
  then show ?thesis using w by (auto simp: mgr_wf_def new_sm_wf dest!: created_nif)
qed

section \<open>Invariants and protocols of the specification\<close>

definition conn_ok :: "conn \<Rightarrow> bool" where
  "conn_ok c \<longleftrightarrow> distinct (map fst (members c)) \<and> (case cstate c of
     AGPS_STATE_INVALID \<Rightarrow> False
   | AGPS_STATE_RELEASED \<Rightarrow> members c = []
   | AGPS_STATE_RELEASING \<Rightarrow> leaving (members c) \<noteq> []
   | _ \<Rightarrow> staying (members c) \<noteq> [])"

lemma add_member_keeps:
  "distinct (map fst ms) \<Longrightarrow> distinct (map fst (add_member h ms))"
  "staying ms \<noteq> [] \<Longrightarrow> staying (add_member h ms) \<noteq> []" "leaving ms \<noteq> [] \<Longrightarrow> leaving (add_member h ms) \<noteq> []"
  by (auto simp: add_member_def)

lemma mark_leaving_keeps:
  "map fst (mark_leaving h ms) = map fst ms" "h \<in> fst ` set ms \<Longrightarrow> leaving (mark_leaving h ms) \<noteq> []"
  by (induction ms) (auto simp: mark_leaving_def)

lemma finish_ok: "distinct (map fst (members c)) \<Longrightarrow> conn_ok (fst (finish c))"
  by (auto simp: finish_def conn_ok_def Let_def distinct_map_filter)

lemma conn_step_ok:
  assumes ok: "conn_ok c" and e: "e \<noteq> Reset" "\<And>h. e = Unsubscribe h \<Longrightarrow> h \<in> fst ` set (members c)"
  shows "conn_ok (fst (conn_step e c))"
proof (cases e)
  case (Subscribe h)
  then show ?thesis using ok add_member_keeps [where h = h and ms = "members c"]
    by (cases "cstate c") (auto simp: conn_ok_def add_member_def)
next
  case (Unsubscribe h)
  then show ?thesis using ok e(2) [of h] mark_leaving_keeps [of h "members c"]
    by (cases "cstate c") (auto simp: conn_ok_def Let_def)
next
  case Granted
  then show ?thesis using ok by (cases "cstate c") (auto simp: conn_ok_def)
next
  case Released
  then show ?thesis using ok finish_ok by (cases "cstate c") (auto simp: conn_ok_def)
next
  case Denied
  then show ?thesis using ok finish_ok by (cases "cstate c") (auto simp: conn_ok_def)
qed (use e in simp)

definition all_ok :: "(nif \<Rightarrow> conn option) \<Rightarrow> bool" where
  "all_ok c \<longleftrightarrow> (\<forall>n x. c n = Some x \<longrightarrow> conn_ok x)"

lemma on_nif_ok:
  "all_ok c \<Longrightarrow> e \<noteq> Reset \<Longrightarrow> (\<And>h. e = Unsubscribe h \<Longrightarrow> is_member h (c n)) \<Longrightarrow> all_ok (fst (on_nif n e c))"
  using conn_step_ok [of _ e] by (auto simp: all_ok_def on_nif_def is_member_def split: option.splits if_splits)

lemma atl_spec_ok: "all_ok c \<Longrightarrow> l \<noteq> ModemSSR \<Longrightarrow> all_ok (fst (atl_spec l c))"
  by (cases l) (auto intro!: on_nif_ok)

lemma run_spec_ok: "all_ok c \<Longrightarrow> ModemSSR \<notin> set ls \<Longrightarrow> all_ok (fst (run_spec atl_spec ls c))"
proof (induction ls arbitrary: c)
  case (Cons l ls)
  then have "all_ok (fst (atl_spec l c))" by (intro atl_spec_ok) auto
  with Cons show ?case by (simp add: case_prod_beta Let_def)
qed simp

text \<open>What a single subscriber experiences: it waits for the connection, uses it, or is leaving.\<close>

datatype sub_view = Absent | Waiting | Using | Leaving

definition view :: "conn \<Rightarrow> int \<Rightarrow> sub_view" where
  "view c h = (if (h, True) \<in> set (members c) then Leaving
     else if (h, False) \<in> set (members c) then (if cstate c = AGPS_STATE_ACQUIRED then Using else Waiting)
     else Absent)"

inductive sub_step :: "int \<Rightarrow> sub_view \<Rightarrow> conn_out list \<Rightarrow> sub_view \<Rightarrow> bool" for h where
  stay: "sub_step h v [] v"
| wait: "sub_step h Absent [] Waiting"
| join: "sub_step h Absent [Opened h] Using"
| opened: "sub_step h Waiting [Opened h] Using"
| refused: "sub_step h Waiting [Refused h] Absent"
| forced: "sub_step h Using [Closed h] Absent"
| leave: "v \<in> {Waiting, Using} \<Longrightarrow> sub_step h v [] Leaving"
| closed: "sub_step h Leaving [Closed h] Absent"
| refused_leaving: "sub_step h Leaving [Refused h] Absent"

definition about :: "int \<Rightarrow> conn_out list \<Rightarrow> conn_out list" where
  "about h outs = filter (\<lambda>x. x \<in> {Opened h, Refused h, Closed h}) outs"

definition conn_calls :: "conn_out list \<Rightarrow> conn_out list" where
  "conn_calls outs = filter (\<lambda>x. x \<in> {Conn_request, Conn_release}) outs"

lemma about_simps [simp]: "about h [] = []" "about h [Conn_request] = []" "about h [Conn_release] = []"
  "about h (xs @ ys) = about h xs @ about h ys" "about h [Opened i] = (if i = h then [Opened h] else [])"
  by (auto simp: about_def)

lemma about_map:
  assumes "distinct (map fst xs)" and "f \<in> {Opened, Refused, Closed}"
  shows "about h (map (f \<circ> fst) xs) = (if h \<in> fst ` set xs then [f h] else [])"
  using assms by (induction xs) (auto simp: about_def)

lemma conn_calls_simps [simp]: "conn_calls [] = []" "conn_calls (xs @ ys) = conn_calls xs @ conn_calls ys"
  "conn_calls [Conn_request] = [Conn_request]" "conn_calls [Conn_release] = [Conn_release]" "conn_calls [Opened h] = []"
  "conn_calls (map (Opened \<circ> fst) ms) = []" "conn_calls (map (Refused \<circ> fst) ms) = []" "conn_calls (map (Closed \<circ> fst) ms) = []"
  by (auto simp: conn_calls_def)

lemma member_unique: "distinct (map fst ms) \<Longrightarrow> (h, True) \<in> set ms \<Longrightarrow> (h, False) \<notin> set ms"
  by (induction ms) force+

lemma handle_cases: "h \<in> fst ` set ms \<longleftrightarrow> (h, True) \<in> set ms \<or> (h, False) \<in> set ms"
proof -
  have "h \<in> fst ` set ms \<longleftrightarrow> (\<exists>l. (h, l) \<in> set ms)" by force
  then show ?thesis by (simp only: ex_bool_eq)
qed

lemma part_handles:
  "h \<in> fst ` {x \<in> set ms. snd x} \<longleftrightarrow> (h, True) \<in> set ms" "h \<in> fst ` {x \<in> set ms. \<not> snd x} \<longleftrightarrow> (h, False) \<in> set ms"
  by force+

lemma finish_protocol:
  assumes "distinct (map fst (members c))" and "cstate c = AGPS_STATE_RELEASING"
  shows "sub_step h (view c h) (about h (snd (finish c))) (view (fst (finish c)) h)"
proof -
  have "about h (snd (finish c)) = (if (h, True) \<in> set (members c) then [Closed h] else [])"
    using assms(1) by (auto simp: finish_def Let_def about_map distinct_map_filter part_handles)
  moreover have "view (fst (finish c)) h = (if (h, False) \<in> set (members c) then Waiting else Absent)"
    by (auto simp: finish_def Let_def view_def filter_empty_conv)
  ultimately show ?thesis using member_unique [OF assms(1), of h] assms(2)
    by (auto simp: view_def intro: sub_step.intros)
qed

lemma all_leave_protocol:
  assumes "distinct (map fst (members c))" and "f \<in> {Refused, Closed}"
    and "cstate c = AGPS_STATE_ACQUIRED \<longrightarrow> f = Closed" and "cstate c \<noteq> AGPS_STATE_ACQUIRED \<longrightarrow> f = Refused"
  shows "sub_step h (view c h) (about h (map (f \<circ> fst) (members c))) (view \<lparr>cstate = AGPS_STATE_RELEASED, members = []\<rparr> h)"
  using assms about_map [OF assms(1), of f h] handle_cases [of h "members c"]
  by (auto simp: view_def intro: sub_step.intros)

lemma mark_leaving_member:
  "(i, False) \<in> set (mark_leaving h ms) \<longleftrightarrow> (i, False) \<in> set ms \<and> i \<noteq> h"
  "(i, True) \<in> set (mark_leaving h ms) \<longleftrightarrow> (i, True) \<in> set ms \<or> (i = h \<and> (i, False) \<in> set ms)"
  by (induction ms) (auto simp: mark_leaving_def)

lemma conn_protocol:
  assumes d: "distinct (map fst (members c))" and s: "cstate c \<noteq> AGPS_STATE_INVALID" "cstate c = AGPS_STATE_RELEASED \<longrightarrow> members c = []"
    and e: "e \<noteq> Reset" "e = Subscribe h \<Longrightarrow> h \<notin> fst ` set (members c)" "\<And>i. e = Unsubscribe i \<Longrightarrow> i \<in> fst ` set (members c)"
  shows "sub_step h (view c h) (about h (snd (conn_step e c))) (view (fst (conn_step e c)) h)"
proof (cases e)
  case (Subscribe i)
  show ?thesis
  proof (cases "i = h")
    case True
    then have "h \<notin> fst ` set (members c)" using e(2) Subscribe by blast
    then show ?thesis using Subscribe s True
      by (cases "cstate c") (force simp: view_def add_member_def intro: sub_step.intros)+
  next
    case False
    then have "(h, b) \<in> set (add_member i ms) \<longleftrightarrow> (h, b) \<in> set ms" for b ms by (auto simp: add_member_def)
    then show ?thesis using Subscribe s False
      by (cases "cstate c") (auto simp: view_def intro: sub_step.intros)
  qed
next
  case (Unsubscribe i)
  have v: "view (c\<lparr>members := mark_leaving i (members c), cstate := x\<rparr>) h
      = (if h = i \<and> h \<in> fst ` set (members c) then Leaving else view (c\<lparr>cstate := x\<rparr>) h)" for x
    by (auto simp: view_def mark_leaving_member handle_cases)
  have ab: "about h (snd (conn_step e c)) = []" by (simp add: Unsubscribe Let_def)
  show ?thesis
  proof (cases "cstate c \<in> {AGPS_STATE_PENDING, AGPS_STATE_ACQUIRED} \<and> staying (mark_leaving i (members c)) = []")
    case True
    then have f: "fst (conn_step e c) = c\<lparr>members := mark_leaving i (members c), cstate := AGPS_STATE_RELEASING\<rparr>"
      by (simp add: Unsubscribe Let_def)
    have "(h, False) \<notin> set (mark_leaving i (members c))" using True by (auto simp: filter_empty_conv)
    then have "h \<noteq> i \<Longrightarrow> (h, False) \<notin> set (members c)" by (auto simp: mark_leaving_member)
    then show ?thesis unfolding ab f v using e(3) [OF Unsubscribe]
      by (auto simp: view_def handle_cases intro: sub_step.intros)
  next
    case False
    then have f: "fst (conn_step e c) = c\<lparr>members := mark_leaving i (members c), cstate := cstate c\<rparr>"
      by (auto simp: Unsubscribe Let_def)
    show ?thesis unfolding ab f v by (auto simp: view_def handle_cases intro: sub_step.intros)
  qed
next
  case Granted
  have a: "about h (map (Opened \<circ> fst) (staying (members c))) = (if (h, False) \<in> set (members c) then [Opened h] else [])"
    using d by (simp add: about_map distinct_map_filter part_handles)
  show ?thesis using Granted a member_unique [OF d, of h]
    by (auto simp: view_def intro: sub_step.intros)
next
  case Released
  then show ?thesis using finish_protocol [OF d, of h] all_leave_protocol [OF d, of Closed h] s
    by (cases "cstate c") (auto intro: sub_step.intros)
next
  case Denied
  then show ?thesis using finish_protocol [OF d, of h] all_leave_protocol [OF d, of Refused h] s
    by (cases "cstate c") (auto intro: sub_step.intros)
qed (use e in simp)

definition wants :: "AgpsState \<Rightarrow> bool" where
  "wants s \<longleftrightarrow> s \<in> {AGPS_STATE_PENDING, AGPS_STATE_ACQUIRED}"

lemma conn_calls_protocol:
  "conn_calls (snd (conn_step e c)) = (let s = cstate c; s' = cstate (fst (conn_step e c))
     in if \<not> wants s \<and> wants s' then [Conn_request]
        else if wants s \<and> s' = AGPS_STATE_RELEASING then [Conn_release] else [])"
  by (cases e; cases "cstate c") (auto simp: wants_def finish_def Let_def)

text \<open>A handle that subscribes again keeps its situation; while the connection is held it is told again that
  it is open.\<close>

lemma conn_again:
  assumes "h \<in> fst ` set (members c)" and "cstate c \<noteq> AGPS_STATE_INVALID" "cstate c = AGPS_STATE_RELEASED \<longrightarrow> members c = []"
  shows "view (fst (conn_step (Subscribe h) c)) h = view c h
     \<and> about h (snd (conn_step (Subscribe h) c)) = (if cstate c = AGPS_STATE_ACQUIRED then [Opened h] else [])"
  using assms by (cases "cstate c") (auto simp: add_member_def)

text \<open>What a state machine relies on when it gets an event: for a subscription, that the request
  is a live object, asks to wait for the close, is not marked as leaving, and that the memory for its clone is
  fresh, as in \<^verbatim>\<open>requestATL\<close>; for a leaving subscriber, that it is in the list, as in \<^verbatim>\<open>releaseATL\<close>.\<close>

definition event_pre :: "addr \<Rightarrow> AgpsEvent \<Rightarrow> AgpsStateMachine \<Rightarrow> agps_world \<Rightarrow> bool" where
  "event_pre cloned ev sm w = (case ev of
     AGPS_EVENT_SUBSCRIBE \<Rightarrow> mCurrentSubscriber sm \<noteq> NULL \<and> cloned \<noteq> NULL \<and> subscribers w cloned = None
       \<and> (case subscribers w (mCurrentSubscriber sm) of None \<Rightarrow> False
          | Some s \<Rightarrow> mWaitForCloseComplete s \<and> \<not> mIsInactive s)
   | AGPS_EVENT_UNSUBSCRIBE \<Rightarrow> mCurrentSubscriber sm \<in> set (mSubscriberList sm)
   | AGPS_EVENT_INVALID \<Rightarrow> False
   | _ \<Rightarrow> True)"

text \<open>The event is a subscription of a handle that is in the list already.\<close>

definition resubscribes :: "int \<Rightarrow> AgpsEvent \<Rightarrow> AgpsStateMachine \<Rightarrow> agps_world \<Rightarrow> bool" where
  "resubscribes h ev sm w \<longleftrightarrow> ev = AGPS_EVENT_SUBSCRIBE \<and> h = mConnHandle (the (subscribers w (mCurrentSubscriber sm)))
     \<and> h \<in> mConnHandle ` set (subs w (mSubscriberList sm))"

lemma member_handles: "fst ` set (members (sm_abs sm w)) = mConnHandle ` set (subs w (mSubscriberList sm))"
  by (force simp: sm_abs_def member_of_def)

lemma event_sim:
  assumes wf: "sm_wf sm w" and pre: "event_pre cloned ev sm w"
  shows "\<exists>new e. sim new e sm w (processAgpsEvent cloned ev sm w) \<and> e \<noteq> Reset
    \<and> (\<forall>i. e = Subscribe i \<longleftrightarrow> ev = AGPS_EVENT_SUBSCRIBE \<and> i = mConnHandle (the (subscribers w (mCurrentSubscriber sm))))
    \<and> (\<forall>i. e = Unsubscribe i \<longrightarrow> i \<in> fst ` set (members (sm_abs sm w)))"
proof (cases ev)
  case AGPS_EVENT_SUBSCRIBE
  then obtain s where s: "subscribers w (mCurrentSubscriber sm) = Some s" "mWaitForCloseComplete s" "\<not> mIsInactive s"
    "mCurrentSubscriber sm \<noteq> NULL" "cloned \<noteq> NULL" "subscribers w cloned = None"
    using pre by (auto simp: event_pre_def split: option.splits)
  from subscribe_sim [OF wf s(4,1,2,3) refl s(5,6)] show ?thesis using s(1) AGPS_EVENT_SUBSCRIBE
    by (intro exI [of _ "{cloned}"] exI [of _ "Subscribe (mConnHandle s)"]) (auto simp: processAgpsEvent_def)
next
  case AGPS_EVENT_UNSUBSCRIBE
  then have q: "mCurrentSubscriber sm \<in> set (mSubscriberList sm)" using pre by (simp add: event_pre_def)
  then obtain s where s: "subscribers w (mCurrentSubscriber sm) = Some s" using wf by (auto simp: sm_wf_def alive_def)
  have "mConnHandle s \<in> mConnHandle ` set (subs w (mSubscriberList sm))" using q s by (force simp: subs_def)
  with unsubscribe_sim [OF wf q s refl] show ?thesis using AGPS_EVENT_UNSUBSCRIBE
    by (intro exI [of _ "{}"] exI [of _ "Unsubscribe (mConnHandle s)"]) (simp add: processAgpsEvent_def member_handles)
next
  case AGPS_EVENT_GRANTED
  with granted_sim [OF wf] show ?thesis
    by (intro exI [of _ "{}"] exI [of _ Granted]) (simp add: processAgpsEvent_def)
next
  case AGPS_EVENT_RELEASED
  with released_sim [OF wf] show ?thesis
    by (intro exI [of _ "{}"] exI [of _ Released]) (simp add: processAgpsEvent_def)
next
  case AGPS_EVENT_DENIED
  with denied_sim [OF wf] show ?thesis
    by (intro exI [of _ "{}"] exI [of _ Denied]) (simp add: processAgpsEvent_def)
qed (use pre in \<open>simp add: event_pre_def\<close>)

section \<open>Properties\<close>

text \<open>A report of the framework for a type that has no state machine: the code does not test the pointer it uses.\<close>

lemma agps_report_needs_machine:
  assumes "get_nif (nif_of ty) m = None"
  shows "atl_step (ReportOpenSuccess ty apn len b) m = None \<and> atl_step (ReportOpenFailed ty) m = None
    \<and> atl_step (ReportClosed ty) m = None"
  using assms by (simp add: reportAtlOpenSuccess_def reportAtlOpenFailed_def reportAtlClosed_def send_event_def)

text \<open>C26. The manager and its two state machines implement the connection specification. Take any sequence of requests,
  releases, reports of the framework and modem restarts, starting from the created state machines, in which the memory of
  every request is fresh and every report is for a type whose state machine exists. Then
  every call returns without an invalid memory access, the state machines
  and the calls of the framework and of the callbacks are those of the specification, and every
  subscriber object is in exactly one list: none is leaked. The condition on the reports is necessary: in the state reached, a report for a
  type without a state machine dereferences a null pointer.\<close>

theorem agps_refines:
  assumes "run_ok atl_ok atl_step ls (createAgpsStateMachines u cap atl new_manager)"
  shows "\<exists>m. run atl_step ls (createAgpsStateMachines u cap atl new_manager) = Some m
     \<and> mgr_abs m = fst (run_spec atl_spec ls (mgr_abs (createAgpsStateMachines u cap atl new_manager)))
     \<and> mgr_out m = snd (run_spec atl_spec ls (mgr_abs (createAgpsStateMachines u cap atl new_manager)))
     \<and> dom (subscribers (world m)) = list_of Agnss m \<union> list_of Internet m \<and> list_of Agnss m \<inter> list_of Internet m = {}
     \<and> (\<forall>ty apn len b. get_nif (nif_of ty) m = None \<longrightarrow> atl_step (ReportOpenSuccess ty apn len b) m = None
          \<and> atl_step (ReportOpenFailed ty) m = None \<and> atl_step (ReportClosed ty) m = None)"
proof -
  have "mgr_out (createAgpsStateMachines u cap atl new_manager) = []"
    by (simp add: mgr_out_def createAgpsStateMachines_def new_manager_def Let_def)
  with agps.run_refines [OF created_wf assms] agps_report_needs_machine show ?thesis by (auto simp: mgr_wf_def)
qed

definition sample_open_calls :: "atl_call list" where
  "sample_open_calls = [RequestATL 100 1 0 7 LOC_AGPS_TYPE_SUPL 16, ReportOpenSuccess LOC_AGPS_TYPE_SUPL (Some ''apn'') 3 1,
     RequestATL 100 2 0 8 LOC_AGPS_TYPE_SUPL 16, ReleaseATL 7]"

definition sample_calls :: "atl_call list" where
  "sample_calls = sample_open_calls @ [ReleaseATL 8, ReportClosed LOC_AGPS_TYPE_SUPL]"

lemma sample_calls_ok: "run_ok atl_ok atl_step sample_calls (createAgpsStateMachines 0 True 3 new_manager)"
  by code_simp

lemma sample_open_ok: "run_ok atl_ok atl_step sample_open_calls (createAgpsStateMachines 0 True 3 new_manager)"
  by code_simp

lemma sample_open_state:
  "Option.bind (run atl_step sample_open_calls (createAgpsStateMachines 0 True 3 new_manager))
     (\<lambda>m. map_option mState (get_nif Agnss m)) = Some AGPS_STATE_ACQUIRED"
  by code_simp

theorem agps_refines_witness:
  "\<exists>m. run atl_step sample_calls (createAgpsStateMachines 0 True 3 new_manager) = Some m
     \<and> mgr_out m = snd (run_spec atl_spec sample_calls (mgr_abs (createAgpsStateMachines 0 True 3 new_manager)))"
  using agps_refines [OF sample_calls_ok] by blast

text \<open>C28. Without modem restarts, a state machine that has released the connection has no
  subscriber, one that has requested or holds the connection has a subscriber that uses or
  waits for it, and one that is releasing it has a subscriber that waits for the release; no handle is
  subscribed twice.\<close>

theorem agps_connection_needed:
  assumes "run_ok atl_ok atl_step ls (createAgpsStateMachines u cap atl new_manager)" and "ModemSSR \<notin> set ls"
    and "run atl_step ls (createAgpsStateMachines u cap atl new_manager) = Some m" and "get_nif n m = Some sm"
  shows "distinct (map mConnHandle (subs (world m) (mSubscriberList sm))) \<and> mState sm \<noteq> AGPS_STATE_INVALID
    \<and> (mState sm = AGPS_STATE_RELEASED \<longrightarrow> mSubscriberList sm = [])
    \<and> (mState sm \<in> {AGPS_STATE_PENDING, AGPS_STATE_ACQUIRED} \<longrightarrow> (\<exists>s \<in> set (subs (world m) (mSubscriberList sm)). \<not> mIsInactive s))
    \<and> (mState sm = AGPS_STATE_RELEASING \<longrightarrow> (\<exists>s \<in> set (subs (world m) (mSubscriberList sm)). mIsInactive s))"
proof -
  let ?m0 = "createAgpsStateMachines u cap atl new_manager"
  have m: "mgr_wf m" "mgr_abs m = fst (run_spec atl_spec ls (mgr_abs ?m0))"
    using agps.run_refines [OF created_wf assms(1)] assms(3) by auto
  have "all_ok (mgr_abs ?m0)"
    by (auto simp: all_ok_def mgr_abs_def conn_ok_def new_sm_wf dest!: created_nif)
  from run_spec_ok [OF this assms(2)] have "conn_ok (sm_abs sm (world m))"
    using assms(4) by (auto simp: all_ok_def mgr_abs_def m(2) [symmetric])
  then show ?thesis using wf_of [OF m(1) assms(4)]
    by (cases "mState sm") (auto simp: conn_ok_def sm_abs_def sm_wf_def member_of_def filter_empty_conv)
qed

theorem agps_connection_needed_witness:
  "\<exists>m sm. run atl_step sample_open_calls (createAgpsStateMachines 0 True 3 new_manager) = Some m \<and> get_nif Agnss m = Some sm
     \<and> mState sm = AGPS_STATE_ACQUIRED \<and> (\<exists>s \<in> set (subs (world m) (mSubscriberList sm)). \<not> mIsInactive s)"
proof -
  from sample_open_state obtain m sm where
    m: "run atl_step sample_open_calls (createAgpsStateMachines 0 True 3 new_manager) = Some m" "get_nif Agnss m = Some sm"
      "mState sm = AGPS_STATE_ACQUIRED" by (auto simp: bind_eq_Some_conv)
  have "ModemSSR \<notin> set sample_open_calls" by (simp add: sample_open_calls_def)
  from agps_connection_needed [OF sample_open_ok this m(1,2)] m show ?thesis by blast
qed

text \<open>C27. What a subscriber is told. Let a well-formed state machine get an event: a subscription with a live request and fresh
  memory for its clone, a release of a subscriber in the list, or a report of the framework. The event returns, the state
  machine stays well-formed, and for every handle the change of its situation is a step of its protocol, reported
  exactly once: a waiting subscriber is told that the connection is open or refused, a using one that it was closed by
  force, a leaving one that it is closed or, when the connection is denied meanwhile, refused. The exception is the
  handle of a subscription that is in the list already: its situation stays as it is, and while the connection is held it is told again that
  the connection is open. The framework is asked for the connection exactly when it becomes
  needed and to release it exactly when it is no longer needed.\<close>

theorem agps_subscriber_protocol:
  assumes "sm_wf sm w" and "event_pre cloned ev sm w"
  shows "\<exists>sm' w' outs. processAgpsEvent cloned ev sm w = Some (sm', w') \<and> sm_wf sm' w' \<and> out_log w' = out_log w @ outs
     \<and> (\<forall>h. if resubscribes h ev sm w
            then view (sm_abs sm' w') h = view (sm_abs sm w) h
              \<and> about h (map out_view outs) = (if mState sm = AGPS_STATE_ACQUIRED then [Opened h] else [])
            else sub_step h (view (sm_abs sm w) h) (about h (map out_view outs)) (view (sm_abs sm' w') h))
     \<and> conn_calls (map out_view outs) = (if \<not> wants (mState sm) \<and> wants (mState sm') then [Conn_request]
          else if wants (mState sm) \<and> mState sm' = AGPS_STATE_RELEASING then [Conn_release] else [])"
proof -
  let ?c = "sm_abs sm w"
  obtain new e where sim: "sim new e sm w (processAgpsEvent cloned ev sm w)" and e: "e \<noteq> Reset"
    "\<forall>i. e = Subscribe i \<longleftrightarrow> ev = AGPS_EVENT_SUBSCRIBE \<and> i = mConnHandle (the (subscribers w (mCurrentSubscriber sm)))"
    "\<forall>i. e = Unsubscribe i \<longrightarrow> i \<in> fst ` set (members ?c)"
    using event_sim [OF assms] by blast
  from sim obtain sm' w' outs where r: "processAgpsEvent cloned ev sm w = Some (sm', w')" "sm_wf sm' w'"
    "out_log w' = out_log w @ outs" "sm_abs sm' w' = fst (conn_step e ?c)" "map out_view outs = snd (conn_step e ?c)"
    by (auto simp: sim_def)
  have st: "cstate (sm_abs x y) = mState x" for x y by (simp add: sm_abs_def)
  have c: "distinct (map fst (members ?c))" "cstate ?c \<noteq> AGPS_STATE_INVALID" "cstate ?c = AGPS_STATE_RELEASED \<longrightarrow> members ?c = []"
    using assms(1) by (auto simp: sm_wf_def sm_abs_def member_of_def o_def)
  have re: "resubscribes h ev sm w \<longleftrightarrow> e = Subscribe h \<and> h \<in> fst ` set (members ?c)" for h
    using e(2) by (auto simp: resubscribes_def member_handles)
  have "if resubscribes h ev sm w
      then view (sm_abs sm' w') h = view ?c h \<and> about h (map out_view outs) = (if mState sm = AGPS_STATE_ACQUIRED then [Opened h] else [])
      else sub_step h (view ?c h) (about h (map out_view outs)) (view (sm_abs sm' w') h)" for h
    using conn_again [OF _ c(2,3), of h] conn_protocol [OF c e(1), of h] e(3) by (auto simp: re r(4,5) st)
  moreover have "conn_calls (map out_view outs) = (if \<not> wants (mState sm) \<and> wants (mState sm') then [Conn_request]
          else if wants (mState sm) \<and> mState sm' = AGPS_STATE_RELEASING then [Conn_release] else [])"
    using conn_calls_protocol [of e ?c] by (simp add: r(4,5) [symmetric] st Let_def)
  ultimately show ?thesis using r(1-3) by blast
qed

definition sample_world :: agps_world where
  "sample_world = \<lparr>subscribers = [4 \<mapsto> \<lparr>mConnHandle = 7, mWaitForCloseComplete = True, mIsInactive = False, sub_mApnTypeMask = 16\<rparr>],
     out_log = []\<rparr>"

definition sample_sm :: AgpsStateMachine where
  "sample_sm = (new_sm 0 LOC_AGPS_TYPE_SUPL)\<lparr>mSubscriberList := [4], mState := AGPS_STATE_PENDING\<rparr>"

theorem agps_subscriber_protocol_witness:
  "\<exists>sm' w' outs. processAgpsEvent NULL AGPS_EVENT_GRANTED sample_sm sample_world = Some (sm', w')
     \<and> out_log w' = out_log sample_world @ outs
     \<and> sub_step 7 (view (sm_abs sample_sm sample_world) 7) (about 7 (map out_view outs)) (view (sm_abs sm' w') 7)"
proof -
  have "sm_wf sample_sm sample_world" by (simp add: sm_wf_def sample_sm_def sample_world_def new_sm_def)
  moreover have "event_pre NULL AGPS_EVENT_GRANTED sample_sm sample_world" by (simp add: event_pre_def)
  moreover have "\<not> resubscribes 7 AGPS_EVENT_GRANTED sample_sm sample_world" by (simp add: resubscribes_def)
  ultimately show ?thesis using agps_subscriber_protocol [of sample_sm sample_world NULL AGPS_EVENT_GRANTED] by metis
qed

text \<open>A modem restart drops the subscribers but not the connection: a state machine that holds the
  connection still holds it afterwards, without a subscriber; the framework is not told, and no
  release of a handle makes the manager give the connection back.\<close>

theorem agps_ssr_keeps_connection:
  assumes "mgr_wf m" and "get_nif n m = Some sm" and "mState sm = AGPS_STATE_ACQUIRED"
  shows "\<exists>m' sm'. handleModemSSR m = Some m' \<and> get_nif n m' = Some sm' \<and> mState sm' = AGPS_STATE_ACQUIRED
     \<and> mSubscriberList sm' = [] \<and> mgr_out m' = mgr_out m \<and> (\<forall>h. releaseATL h m' = Some m')"
proof -
  have out: "snd (on_nif k Reset c) = []" for k c by (simp add: on_nif_def split: option.split)
  from ssr_refines [OF assms(1)] obtain m' where m': "handleModemSSR m = Some m'" "mgr_wf m'"
    "mgr_abs m' = fst (on_nif Internet Reset (fst (on_nif Agnss Reset (mgr_abs m))))" "mgr_out m' = mgr_out m"
    by (auto simp: out)
  have reset: "mgr_abs m' k = map_option (\<lambda>c. c\<lparr>members := []\<rparr>) (mgr_abs m k)" for k
    unfolding m'(3) by (cases k; cases "mgr_abs m Agnss"; cases "mgr_abs m Internet") (simp_all add: on_nif_def)
  from reset [of n] assms obtain sm' where sm': "get_nif n m' = Some sm'" "sm_abs sm' (world m') = (sm_abs sm (world m))\<lparr>members := []\<rparr>"
    by (auto simp: mgr_abs_def)
  have none: "\<not> is_member h (mgr_abs m' k)" for h k by (simp add: reset is_member_def split: option.split)
  then have "find_in k h m' = Some NULL" for k h using find_in_eq [OF m'(2), of k h] by auto
  then have "\<forall>h. releaseATL h m' = Some m'" by (simp add: releaseATL_def)
  moreover have "mState sm' = AGPS_STATE_ACQUIRED" "mSubscriberList sm' = []"
    using sm'(2) assms(3) by (simp_all add: sm_abs_def subs_def)
  ultimately show ?thesis using m'(1,4) sm'(1) by blast
qed

theorem agps_ssr_keeps_connection_witness:
  "\<exists>m' sm'. handleModemSSR (new_manager\<lparr>mAgnssNif := Some (sample_sm\<lparr>mState := AGPS_STATE_ACQUIRED\<rparr>), world := sample_world\<rparr>) = Some m'
     \<and> get_nif Agnss m' = Some sm' \<and> mState sm' = AGPS_STATE_ACQUIRED \<and> mSubscriberList sm' = []"
proof -
  let ?sm = "sample_sm\<lparr>mState := AGPS_STATE_ACQUIRED\<rparr>"
  let ?m = "new_manager\<lparr>mAgnssNif := Some ?sm, world := sample_world\<rparr>"
  have "sm_wf ?sm sample_world" by (simp add: sm_wf_def sample_sm_def sample_world_def new_sm_def)
  moreover have "list_of Agnss ?m = {4}" "list_of Internet ?m = {}" by (simp_all add: list_of_def new_manager_def sample_sm_def)
  moreover have "get_nif n ?m = Some x \<Longrightarrow> x = ?sm" for n x by (cases n) (simp_all add: new_manager_def)
  ultimately have "mgr_wf ?m" by (auto simp: mgr_wf_def sample_world_def)
  from agps_ssr_keeps_connection [OF this, of Agnss ?sm] show ?thesis by auto
qed

text \<open>\<^verbatim>\<open>deleteSubscriber\<close> reads freed memory when the object to delete is a member of the list that is
  not the last one: it goes on comparing the later members with the object it has deleted.\<close>

theorem agps_delete_reads_freed:
  assumes "p \<noteq> NULL" and "subscribers w p = Some s" and "q \<noteq> NULL" and "mSubscriberList sm = p # q # ps"
  shows "deleteSubscriber p sm w = None"
  using assms by (simp add: deleteSubscriber_def sub_equals_def)

theorem agps_delete_reads_freed_witness:
  "deleteSubscriber 4 (sample_sm\<lparr>mSubscriberList := [4, 5]\<rparr>) sample_world = None"
  by (rule agps_delete_reads_freed [of 4 _ _ 5 _ "[]"]) (simp_all add: sample_world_def)

end
