(* ===== verification/PbTables.thy ===== *)
theory PbTables
  imports Prelude "HOL-Library.Word"
begin

text \<open>
  The two shapes of the conversion functions of LocationApiPbMsgConv.cpp and their library.  A mask
  converter is a row of statements \<^verbatim>\<open>if (m & A) r |= B;\<close>, modelled by \<^verbatim>\<open>conv_mask\<close> on the table of
  the pairs (A, B) in source order; an enum converter is a switch or an if / else if chain over one
  value, modelled by \<^verbatim>\<open>conv_enum\<close> on the table of its cases and the value of its default branch.
  The lemmas give the bits of a converted mask and reduce a round trip to a check of the two tables.
\<close>

unbundle bit_operations_syntax

named_theorems pb_round_trip \<open>round trips of the converters\<close>

section \<open>Mask converters\<close>

fun conv_mask :: "(int \<times> int) list \<Rightarrow> 'a::len word \<Rightarrow> 'b::len word \<Rightarrow> 'b word" where
  "conv_mask [] m r = r"
| "conv_mask ((a, b) # t) m r
     = conv_mask t m (if m AND word_of_int a \<noteq> 0 then r OR word_of_int b else r)"

lemma bit_conv_mask:
  "bit (conv_mask t m r) k
     \<longleftrightarrow> bit r k \<or> (\<exists>(a, b) \<in> set t. m AND word_of_int a \<noteq> 0 \<and> bit (word_of_int b :: 'b::len word) k)"
  for r :: "'b::len word"
  by (induction t m r rule: conv_mask.induct) (auto simp: bit_or_iff)

lemma conv_mask_acc: "conv_mask t m r = r OR conv_mask t m 0"
  by (rule bit_word_eqI) (auto simp: bit_conv_mask bit_or_iff)

lemma conv_mask_append: "conv_mask (s @ t) m r = conv_mask t m (conv_mask s m r)"
  by (induction s m r rule: conv_mask.induct) auto

lemma conv_mask_zero_bit: "conv_mask ((0, b) # t) m r = conv_mask t m r"
  by simp

lemma and_or_nonzero: "(x OR y) AND z \<noteq> 0 \<longleftrightarrow> x AND z \<noteq> 0 \<or> y AND z \<noteq> 0" for x y z :: "'a::len word"
  by (auto simp: bit_eq_iff bit_simps)

lemma conv_mask_or: "conv_mask t (x OR y) 0 = conv_mask t x 0 OR conv_mask t y 0"
  by (rule bit_word_eqI) (auto simp: bit_conv_mask bit_or_iff and_or_nonzero)

section \<open>Tables of single bits\<close>

definition single_bit :: "nat \<Rightarrow> int \<Rightarrow> bool" where
  "single_bit n a \<longleftrightarrow> list_ex (\<lambda>k. a = 2 ^ k) [0..<n]"

definition bit_table :: "nat \<Rightarrow> nat \<Rightarrow> (int \<times> int) list \<Rightarrow> bool" where
  "bit_table n n' t \<longleftrightarrow> list_all (\<lambda>(a, b). single_bit n a \<and> single_bit n' b) t
     \<and> distinct (map fst t) \<and> distinct (map snd t)"

definition same_rows :: "'x list \<Rightarrow> 'x list \<Rightarrow> bool" where
  "same_rows s t \<longleftrightarrow> list_all (List.member t) s \<and> list_all (List.member s) t"

definition disjoint_rows :: "'x list \<Rightarrow> 'x list \<Rightarrow> bool" where
  "disjoint_rows s t \<longleftrightarrow> list_all (\<lambda>x. \<not> List.member t x) s"

fun known_bits :: "(int \<times> int) list \<Rightarrow> 'a::len word" where
  "known_bits [] = 0"
| "known_bits ((a, b) # t) = word_of_int a OR known_bits t"

lemma same_rows_iff: "same_rows s t \<longleftrightarrow> set s = set t"
  by (auto simp: same_rows_def list_all_iff)

lemma disjoint_rows_iff: "disjoint_rows s t \<longleftrightarrow> set s \<inter> set t = {}"
  by (auto simp: disjoint_rows_def list_all_iff)

lemma single_bitE:
  assumes "single_bit n a"
  obtains k where "k < n" "a = 2 ^ k"
  using assms by (auto simp: single_bit_def list_ex_iff)

lemma and_power_nonzero: "m AND word_of_int (2 ^ k) \<noteq> 0 \<longleftrightarrow> bit m k"
  if "k < LENGTH('a)" for m :: "'a::len word"
  using that by (simp add: word_of_int_2p and_exp_eq_0_iff_not_bit)

lemma bit_power: "bit (word_of_int (2 ^ k) :: 'a::len word) i \<longleftrightarrow> i = k" if "k < LENGTH('a)"
  using that by (auto simp: word_of_int_2p bit_simps)

lemma bit_known_bits:
  "bit (known_bits t :: 'a::len word) k \<longleftrightarrow> (\<exists>(a, b) \<in> set t. bit (word_of_int a :: 'a word) k)"
  by (induction t) (auto simp: bit_or_iff)

lemma bit_table_rows:
  assumes "bit_table n n' t" "(a, b) \<in> set t"
  obtains i j where "i < n" "j < n'" "a = 2 ^ i" "b = 2 ^ j"
  using assms by (fastforce simp: bit_table_def list_all_iff elim: single_bitE)

lemma bit_conv_table:
  fixes m :: "'a::len word"
  assumes "bit_table LENGTH('a) LENGTH('b::len) t"
  shows "bit (conv_mask t m 0 :: 'b word) j \<longleftrightarrow> (\<exists>i. (2 ^ i, 2 ^ j) \<in> set t \<and> bit m i)"
proof
  assume "bit (conv_mask t m 0 :: 'b word) j"
  then obtain a b where row: "(a, b) \<in> set t" "m AND word_of_int a \<noteq> 0"
      "bit (word_of_int b :: 'b word) j"
    by (auto simp: bit_conv_mask)
  with bit_table_rows [OF assms row(1)] show "\<exists>i. (2 ^ i, 2 ^ j) \<in> set t \<and> bit m i"
    by (metis and_power_nonzero bit_power)
next
  assume "\<exists>i. (2 ^ i, 2 ^ j) \<in> set t \<and> bit m i"
  then obtain i where i: "(2 ^ i, 2 ^ j) \<in> set t" "bit m i" by blast
  from bit_table_rows [OF assms i(1)] have "i < LENGTH('a)" "j < LENGTH('b)" by (auto simp: power_inject_exp')
  then have "m AND word_of_int (2 ^ i) \<noteq> 0" "bit (word_of_int (2 ^ j) :: 'b word) j"
    using and_power_nonzero bit_power i(2) by blast+
  with i(1) show "bit (conv_mask t m 0 :: 'b word) j" unfolding bit_conv_mask by blast
qed

lemma bit_table_injective:
  assumes "bit_table n n' t" "(a, b) \<in> set t"
  shows "(a', b) \<in> set t \<longleftrightarrow> a' = a" and "(a, b') \<in> set t \<longleftrightarrow> b' = b"
proof -
  from assms(1) have "inj_on fst (set t)" "inj_on snd (set t)" by (auto simp: bit_table_def distinct_map)
  with assms(2) show "(a', b) \<in> set t \<longleftrightarrow> a' = a" "(a, b') \<in> set t \<longleftrightarrow> b' = b"
    by (metis fst_conv snd_conv inj_onD)+
qed

lemma bit_known_table:
  assumes "bit_table LENGTH('a::len) n t"
  shows "bit (known_bits t :: 'a word) i \<longleftrightarrow> (\<exists>j. (2 ^ i, 2 ^ j) \<in> set t)"
proof
  assume "bit (known_bits t :: 'a word) i"
  then obtain a b where row: "(a, b) \<in> set t" "bit (word_of_int a :: 'a word) i"
    by (auto simp: bit_known_bits)
  with bit_table_rows [OF assms row(1)] show "\<exists>j. (2 ^ i, 2 ^ j) \<in> set t" by (metis bit_power)
next
  assume "\<exists>j. (2 ^ i, 2 ^ j) \<in> set t"
  then obtain j where j: "(2 ^ i, 2 ^ j) \<in> set t" by blast
  from bit_table_rows [OF assms j] have "i < LENGTH('a)" by auto
  then have "bit (word_of_int (2 ^ i) :: 'a word) i" using bit_power by blast
  with j show "bit (known_bits t :: 'a word) i" unfolding bit_known_bits by blast
qed

definition inverse_tables :: "nat \<Rightarrow> nat \<Rightarrow> (int \<times> int) list \<Rightarrow> (int \<times> int) list \<Rightarrow> bool" where
  "inverse_tables n n' t t' \<longleftrightarrow> bit_table n n' t \<and> bit_table n' n t' \<and> same_rows t' (map prod.swap t)"

lemma conv_mask_round_trip:
  fixes m :: "'a::len word"
  assumes "inverse_tables LENGTH('a) LENGTH('b::len) t t'"
  shows "conv_mask t' (conv_mask t m 0 :: 'b word) 0 = m AND known_bits t"
proof (rule bit_word_eqI)
  fix i
  from assms have t: "bit_table LENGTH('a) LENGTH('b) t" and t': "bit_table LENGTH('b) LENGTH('a) t'"
    and sw: "\<And>a b. (b, a) \<in> set t' \<longleftrightarrow> (a, b) \<in> set t"
    by (auto simp: inverse_tables_def same_rows_iff)
  have "bit (conv_mask t' (conv_mask t m 0 :: 'b word) 0 :: 'a word) i
    \<longleftrightarrow> (\<exists>j i'. (2 ^ i, 2 ^ j) \<in> set t \<and> (2 ^ i', 2 ^ j) \<in> set t \<and> bit m i')"
    unfolding bit_conv_table [OF t'] bit_conv_table [OF t] sw by blast
  also have "\<dots> \<longleftrightarrow> bit m i \<and> (\<exists>j. (2 ^ i, 2 ^ j) \<in> set t)"
    by (auto simp: bit_table_injective(1) [OF t])
  finally show "bit (conv_mask t' (conv_mask t m 0 :: 'b word) 0 :: 'a word) i \<longleftrightarrow> bit (m AND known_bits t) i"
    by (simp add: bit_and_iff bit_known_table [OF t])
qed

lemma conv_mask_round_tripI:
  fixes m K :: "'a::len word"
  assumes "LENGTH('a) = n" "LENGTH('b::len) = n'" "inverse_tables n n' t t'" "known_bits t = K"
  shows "conv_mask t' (conv_mask t m 0 :: 'b word) 0 = m AND K"
  using assms conv_mask_round_trip [where 'a = 'a and 'b = 'b] by blast

lemma pb_init: "(word_of_int 0 :: 'a::len word) = 0"
  by simp

lemma conv_mask_disjoint:
  fixes m :: "'a::len word"
  assumes "bit_table LENGTH('a) LENGTH('b::len) t" "bit_table LENGTH('b) LENGTH('c::len) t'"
    and "disjoint_rows (map snd t) (map fst t')"
  shows "conv_mask t' (conv_mask t m 0 :: 'b word) 0 = (0 :: 'c word)"
  using assms(3) by (intro bit_word_eqI)
    (force simp: bit_conv_table [OF assms(1)] bit_conv_table [OF assms(2)] disjoint_rows_iff)

lemma conv_mask_identityI:
  fixes m K :: "'a::len word"
  assumes "LENGTH('a) = n" "bit_table n n t \<and> list_all (\<lambda>(a, b). a = b) t" "known_bits t = K"
  shows "conv_mask t m 0 = m AND K"
proof (rule bit_word_eqI)
  fix i
  from assms have t: "bit_table LENGTH('a) LENGTH('a) t" and same: "\<And>a b. (a, b) \<in> set t \<Longrightarrow> a = b"
    by (auto simp: list_all_iff)
  have "bit (conv_mask t m 0 :: 'a word) i \<longleftrightarrow> bit m i \<and> bit (known_bits t :: 'a word) i"
    unfolding bit_conv_table [OF t] bit_known_table [OF t] using same power_inject_exp [of "2::int"] by fastforce
  with assms show "bit (conv_mask t m 0 :: 'a word) i \<longleftrightarrow> bit (m AND K) i" by (simp add: bit_and_iff)
qed

lemma conv_mask_first:
  fixes m K :: "'a::len word" and e :: "'c::len word"
  assumes "LENGTH('a) = n" "LENGTH('b::len) = n'" "LENGTH('c) = n''"
    and "inverse_tables n n' t t'" "bit_table n'' n' s" "disjoint_rows (map snd s) (map fst t')"
    and "known_bits t = K"
  shows "conv_mask t' (conv_mask s e (conv_mask t m 0) :: 'b word) 0 = m AND K"
  using assms conv_mask_round_trip [where 'b = 'b, of t t' m]
    conv_mask_disjoint [where 'a = 'c and 'b = 'b and 'c = 'a, of s t' e]
  by (subst conv_mask_acc [of s]) (simp add: conv_mask_or inverse_tables_def)

lemma conv_mask_second:
  fixes m K :: "'a::len word" and e :: "'c::len word"
  assumes "LENGTH('a) = n" "LENGTH('b::len) = n'" "LENGTH('c) = n''"
    and "inverse_tables n n' t t'" "bit_table n'' n' s" "disjoint_rows (map snd s) (map fst t')"
    and "known_bits t = K"
  shows "conv_mask t' (conv_mask t m (conv_mask s e 0) :: 'b word) 0 = m AND K"
  using assms conv_mask_round_trip [where 'b = 'b, of t t' m]
    conv_mask_disjoint [where 'a = 'c and 'b = 'b and 'c = 'a, of s t' e]
  by (subst conv_mask_acc [of t]) (simp add: conv_mask_or inverse_tables_def)

section \<open>Enum converters\<close>

fun conv_enum :: "(int \<times> int) list \<Rightarrow> int \<Rightarrow> int \<Rightarrow> int" where
  "conv_enum [] d v = d"
| "conv_enum ((a, b) # t) d v = (if v = a then b else conv_enum t d v)"

lemma conv_enum_range: "conv_enum t d v \<in> insert d (snd ` set t)"
  by (induction t d v rule: conv_enum.induct) auto

lemma conv_enum_default: "v \<notin> fst ` set t \<Longrightarrow> conv_enum t d v = d"
  by (induction t d v rule: conv_enum.induct) auto

lemma conv_enum_outside: "fst ` set t \<subseteq> A \<Longrightarrow> v \<in> A \<or> conv_enum t d v = d"
  using conv_enum_default by blast

end
