(* ===== verification/PbSteps.thy ===== *)
theory PbSteps
  imports PbTables
begin

text \<open>
  The statements of the structure converters of LocationApiPbMsgConv.cpp.  A converter runs a list of
  statements on the structure or message it fills in.  A statement can fail: \<^verbatim>\<open>ReturnOne\<close> is the early
  \<^verbatim>\<open>return 1\<close>, \<^verbatim>\<open>OutOfBounds\<close> an access outside an array or a repeated field, \<^verbatim>\<open>WrongMember\<close> a read of
  a union member other than the one that was written, \<^verbatim>\<open>NullPointer\<close> a call through a null pointer; the last three
  have no defined behaviour in C++.

  The accessors \<^verbatim>\<open>mutable_\<close> and \<^verbatim>\<open>add_\<close> of the protobuf library hand out a pointer to a part of the
  message, and the code returns 1 when it is null.  The natural number that is threaded through the
  statements is the number of accessor calls that still give a pointer; since the code stops at the
  first null pointer, it covers every way in which the calls can fail.
\<close>

datatype pb_error = ReturnOne | OutOfBounds | WrongMember | NullPointer

type_synonym 's step = "'s \<Rightarrow> nat \<Rightarrow> pb_error + 's \<times> nat"

fun steps :: "'s step list \<Rightarrow> 's step" where
  "steps [] s n = Inr (s, n)"
| "steps (f # fs) s n = (case f s n of Inl e \<Rightarrow> Inl e | Inr (s', n') \<Rightarrow> steps fs s' n')"

text \<open>An assignment to fields of the structure, and a statement that depends on what is stored in it.\<close>

definition assign :: "('s \<Rightarrow> 's) \<Rightarrow> 's step" where
  "assign f s n = Inr (f s, n)"

definition look :: "('s \<Rightarrow> 's step) \<Rightarrow> 's step" where
  "look f s = f s s"

text \<open>A call that fills in a part of the structure, which the setter writes back.\<close>

definition sub_struct :: "('s \<Rightarrow> 'v) \<Rightarrow> ('v \<Rightarrow> 's \<Rightarrow> 's) \<Rightarrow> 'v step \<Rightarrow> 's step" where
  "sub_struct get put c s n = (case c (get s) n of Inl e \<Rightarrow> Inl e | Inr (v, n') \<Rightarrow> Inr (put v s, n'))"

text \<open>\<^verbatim>\<open>p->mutable_f()\<close> followed by the conversion of the part, and \<^verbatim>\<open>p->add_f()\<close> likewise, which
  appends a message with default values first.\<close>

definition sub_message :: "('s \<Rightarrow> 'v) \<Rightarrow> ('v \<Rightarrow> 's \<Rightarrow> 's) \<Rightarrow> 'v step \<Rightarrow> 's step" where
  "sub_message get put c s n = (case n of 0 \<Rightarrow> Inl ReturnOne | Suc k \<Rightarrow> sub_struct get put c s k)"

definition add_message :: "'v \<Rightarrow> ('s \<Rightarrow> 'v list) \<Rightarrow> ('v list \<Rightarrow> 's \<Rightarrow> 's) \<Rightarrow> 'v step \<Rightarrow> 's step" where
  "add_message d get put c s n
     = sub_message (\<lambda>_. d) (\<lambda>v s. put (get s @ [v]) s) c s n"

text \<open>\<^verbatim>\<open>for (i = 0; i < k; i++)\<close>, an array element that is read, and one that is filled in.\<close>

definition for_loop :: "nat \<Rightarrow> (nat \<Rightarrow> 's step) \<Rightarrow> 's step" where
  "for_loop k body = steps (map body [0..<k])"

definition with_elem :: "'v list \<Rightarrow> nat \<Rightarrow> ('v \<Rightarrow> 's step) \<Rightarrow> 's step" where
  "with_elem xs i f s n = (if i < length xs then f (xs ! i) s n else Inl OutOfBounds)"

definition at_index :: "('s \<Rightarrow> 'v list) \<Rightarrow> ('v list \<Rightarrow> 's \<Rightarrow> 's) \<Rightarrow> nat \<Rightarrow> 'v step \<Rightarrow> 's step" where
  "at_index get put i c s n
     = (if i < length (get s) then sub_struct (\<lambda>s. get s ! i) (\<lambda>v s. put ((get s)[i := v]) s) c s n
        else Inl OutOfBounds)"

section \<open>Lemmas\<close>

lemmas step_simps = assign_def look_def sub_struct_def sub_message_def add_message_def with_elem_def

lemma steps_append:
  "steps (xs @ ys) s n = (case steps xs s n of Inl e \<Rightarrow> Inl e | Inr (s', n') \<Rightarrow> steps ys s' n')"
  by (induction xs arbitrary: s n) (auto split: sum.splits)

lemma for_loop_0 [simp]: "for_loop 0 body s n = Inr (s, n)"
  by (simp add: for_loop_def)

lemma for_loop_Suc:
  "for_loop (Suc k) body s n
     = (case for_loop k body s n of Inl e \<Rightarrow> Inl e | Inr (s', n') \<Rightarrow> body k s' n')"
  by (auto simp: for_loop_def steps_append split: sum.splits)

text \<open>A loop whose body succeeds at every index reaches what the invariant gives for the bound.\<close>

lemma for_loop_rule:
  assumes "\<And>i s n. i < k \<Longrightarrow> I i s n \<Longrightarrow> \<exists>s' n'. body i s n = Inr (s', n') \<and> I (Suc i) s' n'"
    and "I 0 s n"
  shows "\<exists>s' n'. for_loop k body s n = Inr (s', n') \<and> I k s' n'"
  using assms
proof (induction k)
  case (Suc k)
  then obtain s' n' where "for_loop k body s n = Inr (s', n')" "I k s' n'"
    by (metis less_Suc_eq)
  with Suc.prems(1) [of k s' n'] show ?case by (auto simp: for_loop_Suc)
qed simp

text \<open>A loop fails where its body first fails.\<close>

lemma for_loop_fails:
  assumes "j < k" "for_loop j body s n = Inr (s', n')" "body j s' n' = Inl e"
  shows "for_loop k body s n = Inl e"
proof -
  from assms(1) have "[0..<k] = [0..<j] @ j # [Suc j..<k]" 
    using upt_add_eq_append [of 0 j "k - j"] upt_conv_Cons [of j k] by simp
  with assms(2,3) show ?thesis by (simp add: for_loop_def steps_append)
qed

end
