(* ===== verification/PbConsts.thy ===== *)
theory PbConsts
  imports Main
begin

text \<open>
  The enums of the location API (LocationDataTypes.h, LocationApiMsg.h) and of the wire format
  (LocationApiDataTypes.proto, LocationApiMsg.proto) that the protobuf converters mention.  Every
  enumerator is an abbreviation of its value, and every enum is the list of its enumerators in
  the order of its declaration.
\<close>

subsection \<open>\<^verbatim>\<open>ELocMsgID\<close> (LocationApiMsg.h)\<close>

abbreviation (input) E_LOCAPI_UNDEFINED_MSG_ID :: int where "E_LOCAPI_UNDEFINED_MSG_ID \<equiv> 0"
abbreviation (input) E_LOCAPI_CLIENT_REGISTER_MSG_ID :: int where "E_LOCAPI_CLIENT_REGISTER_MSG_ID \<equiv> 1"
abbreviation (input) E_LOCAPI_CLIENT_DEREGISTER_MSG_ID :: int where "E_LOCAPI_CLIENT_DEREGISTER_MSG_ID \<equiv> 2"
abbreviation (input) E_LOCAPI_CAPABILILTIES_MSG_ID :: int where "E_LOCAPI_CAPABILILTIES_MSG_ID \<equiv> 3"
abbreviation (input) E_LOCAPI_HAL_READY_MSG_ID :: int where "E_LOCAPI_HAL_READY_MSG_ID \<equiv> 4"
abbreviation (input) E_LOCAPI_START_TRACKING_MSG_ID :: int where "E_LOCAPI_START_TRACKING_MSG_ID \<equiv> 5"
abbreviation (input) E_LOCAPI_STOP_TRACKING_MSG_ID :: int where "E_LOCAPI_STOP_TRACKING_MSG_ID \<equiv> 6"
abbreviation (input) E_LOCAPI_UPDATE_CALLBACKS_MSG_ID :: int where "E_LOCAPI_UPDATE_CALLBACKS_MSG_ID \<equiv> 7"
abbreviation (input) E_LOCAPI_UPDATE_TRACKING_OPTIONS_MSG_ID :: int where "E_LOCAPI_UPDATE_TRACKING_OPTIONS_MSG_ID \<equiv> 8"
abbreviation (input) E_LOCAPI_CONTROL_UPDATE_CONFIG_MSG_ID :: int where "E_LOCAPI_CONTROL_UPDATE_CONFIG_MSG_ID \<equiv> 9"
abbreviation (input) E_LOCAPI_CONTROL_DELETE_AIDING_DATA_MSG_ID :: int where "E_LOCAPI_CONTROL_DELETE_AIDING_DATA_MSG_ID \<equiv> 10"
abbreviation (input) E_LOCAPI_CONTROL_UPDATE_NETWORK_AVAILABILITY_MSG_ID :: int where "E_LOCAPI_CONTROL_UPDATE_NETWORK_AVAILABILITY_MSG_ID \<equiv> 11"
abbreviation (input) E_LOCAPI_LOCATION_MSG_ID :: int where "E_LOCAPI_LOCATION_MSG_ID \<equiv> 12"
abbreviation (input) E_LOCAPI_LOCATION_INFO_MSG_ID :: int where "E_LOCAPI_LOCATION_INFO_MSG_ID \<equiv> 13"
abbreviation (input) E_LOCAPI_SATELLITE_VEHICLE_MSG_ID :: int where "E_LOCAPI_SATELLITE_VEHICLE_MSG_ID \<equiv> 14"
abbreviation (input) E_LOCAPI_NMEA_MSG_ID :: int where "E_LOCAPI_NMEA_MSG_ID \<equiv> 15"
abbreviation (input) E_LOCAPI_DATA_MSG_ID :: int where "E_LOCAPI_DATA_MSG_ID \<equiv> 16"
abbreviation (input) E_LOCAPI_GET_GNSS_ENGERY_CONSUMED_MSG_ID :: int where "E_LOCAPI_GET_GNSS_ENGERY_CONSUMED_MSG_ID \<equiv> 17"
abbreviation (input) E_LOCAPI_LOCATION_SYSTEM_INFO_MSG_ID :: int where "E_LOCAPI_LOCATION_SYSTEM_INFO_MSG_ID \<equiv> 18"
abbreviation (input) E_LOCAPI_ENGINE_LOCATIONS_INFO_MSG_ID :: int where "E_LOCAPI_ENGINE_LOCATIONS_INFO_MSG_ID \<equiv> 19"
abbreviation (input) E_LOCAPI_START_BATCHING_MSG_ID :: int where "E_LOCAPI_START_BATCHING_MSG_ID \<equiv> 20"
abbreviation (input) E_LOCAPI_STOP_BATCHING_MSG_ID :: int where "E_LOCAPI_STOP_BATCHING_MSG_ID \<equiv> 21"
abbreviation (input) E_LOCAPI_UPDATE_BATCHING_OPTIONS_MSG_ID :: int where "E_LOCAPI_UPDATE_BATCHING_OPTIONS_MSG_ID \<equiv> 22"
abbreviation (input) E_LOCAPI_BATCHING_MSG_ID :: int where "E_LOCAPI_BATCHING_MSG_ID \<equiv> 23"
abbreviation (input) E_LOCAPI_ADD_GEOFENCES_MSG_ID :: int where "E_LOCAPI_ADD_GEOFENCES_MSG_ID \<equiv> 24"
abbreviation (input) E_LOCAPI_REMOVE_GEOFENCES_MSG_ID :: int where "E_LOCAPI_REMOVE_GEOFENCES_MSG_ID \<equiv> 25"
abbreviation (input) E_LOCAPI_MODIFY_GEOFENCES_MSG_ID :: int where "E_LOCAPI_MODIFY_GEOFENCES_MSG_ID \<equiv> 26"
abbreviation (input) E_LOCAPI_PAUSE_GEOFENCES_MSG_ID :: int where "E_LOCAPI_PAUSE_GEOFENCES_MSG_ID \<equiv> 27"
abbreviation (input) E_LOCAPI_RESUME_GEOFENCES_MSG_ID :: int where "E_LOCAPI_RESUME_GEOFENCES_MSG_ID \<equiv> 28"
abbreviation (input) E_LOCAPI_GEOFENCE_BREACH_MSG_ID :: int where "E_LOCAPI_GEOFENCE_BREACH_MSG_ID \<equiv> 29"
abbreviation (input) E_LOCAPI_MEAS_MSG_ID :: int where "E_LOCAPI_MEAS_MSG_ID \<equiv> 30"
abbreviation (input) E_LOCAPI_GET_SINGLE_TERRESTRIAL_POS_REQ_MSG_ID :: int where "E_LOCAPI_GET_SINGLE_TERRESTRIAL_POS_REQ_MSG_ID \<equiv> 31"
abbreviation (input) E_LOCAPI_GET_SINGLE_TERRESTRIAL_POS_RESP_MSG_ID :: int where "E_LOCAPI_GET_SINGLE_TERRESTRIAL_POS_RESP_MSG_ID \<equiv> 32"
abbreviation (input) E_LOCAPI_PINGTEST_MSG_ID :: int where "E_LOCAPI_PINGTEST_MSG_ID \<equiv> 99"
abbreviation (input) E_INTAPI_CONFIG_CONSTRAINTED_TUNC_MSG_ID :: int where "E_INTAPI_CONFIG_CONSTRAINTED_TUNC_MSG_ID \<equiv> 200"
abbreviation (input) E_INTAPI_CONFIG_POSITION_ASSISTED_CLOCK_ESTIMATOR_MSG_ID :: int where "E_INTAPI_CONFIG_POSITION_ASSISTED_CLOCK_ESTIMATOR_MSG_ID \<equiv> 201"
abbreviation (input) E_INTAPI_CONFIG_SV_CONSTELLATION_MSG_ID :: int where "E_INTAPI_CONFIG_SV_CONSTELLATION_MSG_ID \<equiv> 202"
abbreviation (input) E_INTAPI_CONFIG_AIDING_DATA_DELETION_MSG_ID :: int where "E_INTAPI_CONFIG_AIDING_DATA_DELETION_MSG_ID \<equiv> 203"
abbreviation (input) E_INTAPI_CONFIG_LEVER_ARM_MSG_ID :: int where "E_INTAPI_CONFIG_LEVER_ARM_MSG_ID \<equiv> 204"
abbreviation (input) E_INTAPI_CONFIG_ROBUST_LOCATION_MSG_ID :: int where "E_INTAPI_CONFIG_ROBUST_LOCATION_MSG_ID \<equiv> 205"
abbreviation (input) E_INTAPI_CONFIG_MIN_GPS_WEEK_MSG_ID :: int where "E_INTAPI_CONFIG_MIN_GPS_WEEK_MSG_ID \<equiv> 206"
abbreviation (input) E_INTAPI_CONFIG_DEAD_RECKONING_ENGINE_MSG_ID :: int where "E_INTAPI_CONFIG_DEAD_RECKONING_ENGINE_MSG_ID \<equiv> 207"
abbreviation (input) E_INTAPI_CONFIG_MIN_SV_ELEVATION_MSG_ID :: int where "E_INTAPI_CONFIG_MIN_SV_ELEVATION_MSG_ID \<equiv> 208"
abbreviation (input) E_INTAPI_CONFIG_CONSTELLATION_SECONDARY_BAND_MSG_ID :: int where "E_INTAPI_CONFIG_CONSTELLATION_SECONDARY_BAND_MSG_ID \<equiv> 209"
abbreviation (input) E_INTAPI_CONFIG_ENGINE_RUN_STATE_MSG_ID :: int where "E_INTAPI_CONFIG_ENGINE_RUN_STATE_MSG_ID \<equiv> 210"
abbreviation (input) E_INTAPI_CONFIG_USER_CONSENT_TERRESTRIAL_POSITIONING_MSG_ID :: int where "E_INTAPI_CONFIG_USER_CONSENT_TERRESTRIAL_POSITIONING_MSG_ID \<equiv> 211"
abbreviation (input) E_INTAPI_GET_ROBUST_LOCATION_CONFIG_REQ_MSG_ID :: int where "E_INTAPI_GET_ROBUST_LOCATION_CONFIG_REQ_MSG_ID \<equiv> 300"
abbreviation (input) E_INTAPI_GET_ROBUST_LOCATION_CONFIG_RESP_MSG_ID :: int where "E_INTAPI_GET_ROBUST_LOCATION_CONFIG_RESP_MSG_ID \<equiv> 301"
abbreviation (input) E_INTAPI_GET_MIN_GPS_WEEK_REQ_MSG_ID :: int where "E_INTAPI_GET_MIN_GPS_WEEK_REQ_MSG_ID \<equiv> 302"
abbreviation (input) E_INTAPI_GET_MIN_GPS_WEEK_RESP_MSG_ID :: int where "E_INTAPI_GET_MIN_GPS_WEEK_RESP_MSG_ID \<equiv> 303"
abbreviation (input) E_INTAPI_GET_MIN_SV_ELEVATION_REQ_MSG_ID :: int where "E_INTAPI_GET_MIN_SV_ELEVATION_REQ_MSG_ID \<equiv> 304"
abbreviation (input) E_INTAPI_GET_MIN_SV_ELEVATION_RESP_MSG_ID :: int where "E_INTAPI_GET_MIN_SV_ELEVATION_RESP_MSG_ID \<equiv> 305"
abbreviation (input) E_INTAPI_GET_CONSTELLATION_SECONDARY_BAND_CONFIG_REQ_MSG_ID :: int where "E_INTAPI_GET_CONSTELLATION_SECONDARY_BAND_CONFIG_REQ_MSG_ID \<equiv> 306"
abbreviation (input) E_INTAPI_GET_CONSTELLATION_SECONDARY_BAND_CONFIG_RESP_MSG_ID :: int where "E_INTAPI_GET_CONSTELLATION_SECONDARY_BAND_CONFIG_RESP_MSG_ID \<equiv> 307"

definition ELocMsgID :: "int list" where
  "ELocMsgID =
    [E_LOCAPI_UNDEFINED_MSG_ID,
     E_LOCAPI_CLIENT_REGISTER_MSG_ID,
     E_LOCAPI_CLIENT_DEREGISTER_MSG_ID,
     E_LOCAPI_CAPABILILTIES_MSG_ID,
     E_LOCAPI_HAL_READY_MSG_ID,
     E_LOCAPI_START_TRACKING_MSG_ID,
     E_LOCAPI_STOP_TRACKING_MSG_ID,
     E_LOCAPI_UPDATE_CALLBACKS_MSG_ID,
     E_LOCAPI_UPDATE_TRACKING_OPTIONS_MSG_ID,
     E_LOCAPI_CONTROL_UPDATE_CONFIG_MSG_ID,
     E_LOCAPI_CONTROL_DELETE_AIDING_DATA_MSG_ID,
     E_LOCAPI_CONTROL_UPDATE_NETWORK_AVAILABILITY_MSG_ID,
     E_LOCAPI_LOCATION_MSG_ID,
     E_LOCAPI_LOCATION_INFO_MSG_ID,
     E_LOCAPI_SATELLITE_VEHICLE_MSG_ID,
     E_LOCAPI_NMEA_MSG_ID,
     E_LOCAPI_DATA_MSG_ID,
     E_LOCAPI_GET_GNSS_ENGERY_CONSUMED_MSG_ID,
     E_LOCAPI_LOCATION_SYSTEM_INFO_MSG_ID,
     E_LOCAPI_ENGINE_LOCATIONS_INFO_MSG_ID,
     E_LOCAPI_START_BATCHING_MSG_ID,
     E_LOCAPI_STOP_BATCHING_MSG_ID,
     E_LOCAPI_UPDATE_BATCHING_OPTIONS_MSG_ID,
     E_LOCAPI_BATCHING_MSG_ID,
     E_LOCAPI_ADD_GEOFENCES_MSG_ID,
     E_LOCAPI_REMOVE_GEOFENCES_MSG_ID,
     E_LOCAPI_MODIFY_GEOFENCES_MSG_ID,
     E_LOCAPI_PAUSE_GEOFENCES_MSG_ID,
     E_LOCAPI_RESUME_GEOFENCES_MSG_ID,
     E_LOCAPI_GEOFENCE_BREACH_MSG_ID,
     E_LOCAPI_MEAS_MSG_ID,
     E_LOCAPI_GET_SINGLE_TERRESTRIAL_POS_REQ_MSG_ID,
     E_LOCAPI_GET_SINGLE_TERRESTRIAL_POS_RESP_MSG_ID,
     E_LOCAPI_PINGTEST_MSG_ID,
     E_INTAPI_CONFIG_CONSTRAINTED_TUNC_MSG_ID,
     E_INTAPI_CONFIG_POSITION_ASSISTED_CLOCK_ESTIMATOR_MSG_ID,
     E_INTAPI_CONFIG_SV_CONSTELLATION_MSG_ID,
     E_INTAPI_CONFIG_AIDING_DATA_DELETION_MSG_ID,
     E_INTAPI_CONFIG_LEVER_ARM_MSG_ID,
     E_INTAPI_CONFIG_ROBUST_LOCATION_MSG_ID,
     E_INTAPI_CONFIG_MIN_GPS_WEEK_MSG_ID,
     E_INTAPI_CONFIG_DEAD_RECKONING_ENGINE_MSG_ID,
     E_INTAPI_CONFIG_MIN_SV_ELEVATION_MSG_ID,
     E_INTAPI_CONFIG_CONSTELLATION_SECONDARY_BAND_MSG_ID,
     E_INTAPI_CONFIG_ENGINE_RUN_STATE_MSG_ID,
     E_INTAPI_CONFIG_USER_CONSENT_TERRESTRIAL_POSITIONING_MSG_ID,
     E_INTAPI_GET_ROBUST_LOCATION_CONFIG_REQ_MSG_ID,
     E_INTAPI_GET_ROBUST_LOCATION_CONFIG_RESP_MSG_ID,
     E_INTAPI_GET_MIN_GPS_WEEK_REQ_MSG_ID,
     E_INTAPI_GET_MIN_GPS_WEEK_RESP_MSG_ID,
     E_INTAPI_GET_MIN_SV_ELEVATION_REQ_MSG_ID,
     E_INTAPI_GET_MIN_SV_ELEVATION_RESP_MSG_ID,
     E_INTAPI_GET_CONSTELLATION_SECONDARY_BAND_CONFIG_REQ_MSG_ID,
     E_INTAPI_GET_CONSTELLATION_SECONDARY_BAND_CONFIG_RESP_MSG_ID]"

subsection \<open>\<^verbatim>\<open>PBELocMsgID\<close> (LocationApiMsg.proto)\<close>

abbreviation (input) PB_E_LOCAPI_UNDEFINED_MSG_ID :: int where "PB_E_LOCAPI_UNDEFINED_MSG_ID \<equiv> 0"
abbreviation (input) PB_E_LOCAPI_CLIENT_REGISTER_MSG_ID :: int where "PB_E_LOCAPI_CLIENT_REGISTER_MSG_ID \<equiv> 1"
abbreviation (input) PB_E_LOCAPI_CLIENT_DEREGISTER_MSG_ID :: int where "PB_E_LOCAPI_CLIENT_DEREGISTER_MSG_ID \<equiv> 2"
abbreviation (input) PB_E_LOCAPI_CAPABILILTIES_MSG_ID :: int where "PB_E_LOCAPI_CAPABILILTIES_MSG_ID \<equiv> 3"
abbreviation (input) PB_E_LOCAPI_HAL_READY_MSG_ID :: int where "PB_E_LOCAPI_HAL_READY_MSG_ID \<equiv> 4"
abbreviation (input) PB_E_LOCAPI_START_TRACKING_MSG_ID :: int where "PB_E_LOCAPI_START_TRACKING_MSG_ID \<equiv> 5"
abbreviation (input) PB_E_LOCAPI_STOP_TRACKING_MSG_ID :: int where "PB_E_LOCAPI_STOP_TRACKING_MSG_ID \<equiv> 6"
abbreviation (input) PB_E_LOCAPI_UPDATE_CALLBACKS_MSG_ID :: int where "PB_E_LOCAPI_UPDATE_CALLBACKS_MSG_ID \<equiv> 7"
abbreviation (input) PB_E_LOCAPI_UPDATE_TRACKING_OPTIONS_MSG_ID :: int where "PB_E_LOCAPI_UPDATE_TRACKING_OPTIONS_MSG_ID \<equiv> 8"
abbreviation (input) PB_E_LOCAPI_CONTROL_UPDATE_CONFIG_MSG_ID :: int where "PB_E_LOCAPI_CONTROL_UPDATE_CONFIG_MSG_ID \<equiv> 9"
abbreviation (input) PB_E_LOCAPI_CONTROL_DELETE_AIDING_DATA_MSG_ID :: int where "PB_E_LOCAPI_CONTROL_DELETE_AIDING_DATA_MSG_ID \<equiv> 10"
abbreviation (input) PB_E_LOCAPI_CONTROL_UPDATE_NETWORK_AVAILABILITY_MSG_ID :: int where "PB_E_LOCAPI_CONTROL_UPDATE_NETWORK_AVAILABILITY_MSG_ID \<equiv> 11"
abbreviation (input) PB_E_LOCAPI_LOCATION_MSG_ID :: int where "PB_E_LOCAPI_LOCATION_MSG_ID \<equiv> 12"
abbreviation (input) PB_E_LOCAPI_LOCATION_INFO_MSG_ID :: int where "PB_E_LOCAPI_LOCATION_INFO_MSG_ID \<equiv> 13"
abbreviation (input) PB_E_LOCAPI_SATELLITE_VEHICLE_MSG_ID :: int where "PB_E_LOCAPI_SATELLITE_VEHICLE_MSG_ID \<equiv> 14"
abbreviation (input) PB_E_LOCAPI_NMEA_MSG_ID :: int where "PB_E_LOCAPI_NMEA_MSG_ID \<equiv> 15"
abbreviation (input) PB_E_LOCAPI_DATA_MSG_ID :: int where "PB_E_LOCAPI_DATA_MSG_ID \<equiv> 16"
abbreviation (input) PB_E_LOCAPI_GET_GNSS_ENGERY_CONSUMED_MSG_ID :: int where "PB_E_LOCAPI_GET_GNSS_ENGERY_CONSUMED_MSG_ID \<equiv> 17"
abbreviation (input) PB_E_LOCAPI_LOCATION_SYSTEM_INFO_MSG_ID :: int where "PB_E_LOCAPI_LOCATION_SYSTEM_INFO_MSG_ID \<equiv> 18"
abbreviation (input) PB_E_LOCAPI_ENGINE_LOCATIONS_INFO_MSG_ID :: int where "PB_E_LOCAPI_ENGINE_LOCATIONS_INFO_MSG_ID \<equiv> 19"
abbreviation (input) PB_E_LOCAPI_START_BATCHING_MSG_ID :: int where "PB_E_LOCAPI_START_BATCHING_MSG_ID \<equiv> 20"
abbreviation (input) PB_E_LOCAPI_STOP_BATCHING_MSG_ID :: int where "PB_E_LOCAPI_STOP_BATCHING_MSG_ID \<equiv> 21"
abbreviation (input) PB_E_LOCAPI_UPDATE_BATCHING_OPTIONS_MSG_ID :: int where "PB_E_LOCAPI_UPDATE_BATCHING_OPTIONS_MSG_ID \<equiv> 22"
abbreviation (input) PB_E_LOCAPI_BATCHING_MSG_ID :: int where "PB_E_LOCAPI_BATCHING_MSG_ID \<equiv> 23"
abbreviation (input) PB_E_LOCAPI_ADD_GEOFENCES_MSG_ID :: int where "PB_E_LOCAPI_ADD_GEOFENCES_MSG_ID \<equiv> 24"
abbreviation (input) PB_E_LOCAPI_REMOVE_GEOFENCES_MSG_ID :: int where "PB_E_LOCAPI_REMOVE_GEOFENCES_MSG_ID \<equiv> 25"
abbreviation (input) PB_E_LOCAPI_MODIFY_GEOFENCES_MSG_ID :: int where "PB_E_LOCAPI_MODIFY_GEOFENCES_MSG_ID \<equiv> 26"
abbreviation (input) PB_E_LOCAPI_PAUSE_GEOFENCES_MSG_ID :: int where "PB_E_LOCAPI_PAUSE_GEOFENCES_MSG_ID \<equiv> 27"
abbreviation (input) PB_E_LOCAPI_RESUME_GEOFENCES_MSG_ID :: int where "PB_E_LOCAPI_RESUME_GEOFENCES_MSG_ID \<equiv> 28"
abbreviation (input) PB_E_LOCAPI_GEOFENCE_BREACH_MSG_ID :: int where "PB_E_LOCAPI_GEOFENCE_BREACH_MSG_ID \<equiv> 29"
abbreviation (input) PB_E_LOCAPI_MEAS_MSG_ID :: int where "PB_E_LOCAPI_MEAS_MSG_ID \<equiv> 30"
abbreviation (input) PB_E_LOCAPI_GET_SINGLE_TERRESTRIAL_POS_REQ_MSG_ID :: int where "PB_E_LOCAPI_GET_SINGLE_TERRESTRIAL_POS_REQ_MSG_ID \<equiv> 31"
abbreviation (input) PB_E_LOCAPI_GET_SINGLE_TERRESTRIAL_POS_RESP_MSG_ID :: int where "PB_E_LOCAPI_GET_SINGLE_TERRESTRIAL_POS_RESP_MSG_ID \<equiv> 32"
abbreviation (input) PB_E_LOCAPI_PINGTEST_MSG_ID :: int where "PB_E_LOCAPI_PINGTEST_MSG_ID \<equiv> 99"
abbreviation (input) PB_E_INTAPI_CONFIG_CONSTRAINTED_TUNC_MSG_ID :: int where "PB_E_INTAPI_CONFIG_CONSTRAINTED_TUNC_MSG_ID \<equiv> 200"
abbreviation (input) PB_E_INTAPI_CONFIG_POSITION_ASSISTED_CLOCK_ESTIMATOR_MSG_ID :: int where "PB_E_INTAPI_CONFIG_POSITION_ASSISTED_CLOCK_ESTIMATOR_MSG_ID \<equiv> 201"
abbreviation (input) PB_E_INTAPI_CONFIG_SV_CONSTELLATION_MSG_ID :: int where "PB_E_INTAPI_CONFIG_SV_CONSTELLATION_MSG_ID \<equiv> 202"
abbreviation (input) PB_E_INTAPI_CONFIG_AIDING_DATA_DELETION_MSG_ID :: int where "PB_E_INTAPI_CONFIG_AIDING_DATA_DELETION_MSG_ID \<equiv> 203"
abbreviation (input) PB_E_INTAPI_CONFIG_LEVER_ARM_MSG_ID :: int where "PB_E_INTAPI_CONFIG_LEVER_ARM_MSG_ID \<equiv> 204"
abbreviation (input) PB_E_INTAPI_CONFIG_ROBUST_LOCATION_MSG_ID :: int where "PB_E_INTAPI_CONFIG_ROBUST_LOCATION_MSG_ID \<equiv> 205"
abbreviation (input) PB_E_INTAPI_CONFIG_MIN_GPS_WEEK_MSG_ID :: int where "PB_E_INTAPI_CONFIG_MIN_GPS_WEEK_MSG_ID \<equiv> 206"
abbreviation (input) PB_E_INTAPI_CONFIG_DEAD_RECKONING_ENGINE_MSG_ID :: int where "PB_E_INTAPI_CONFIG_DEAD_RECKONING_ENGINE_MSG_ID \<equiv> 207"
abbreviation (input) PB_E_INTAPI_CONFIG_MIN_SV_ELEVATION_MSG_ID :: int where "PB_E_INTAPI_CONFIG_MIN_SV_ELEVATION_MSG_ID \<equiv> 208"
abbreviation (input) PB_E_INTAPI_CONFIG_CONSTELLATION_SECONDARY_BAND_MSG_ID :: int where "PB_E_INTAPI_CONFIG_CONSTELLATION_SECONDARY_BAND_MSG_ID \<equiv> 209"
abbreviation (input) PB_E_INTAPI_CONFIG_ENGINE_RUN_STATE_MSG_ID :: int where "PB_E_INTAPI_CONFIG_ENGINE_RUN_STATE_MSG_ID \<equiv> 210"
abbreviation (input) PB_E_INTAPI_CONFIG_USER_CONSENT_TERRESTRIAL_POSITIONING_MSG_ID :: int where "PB_E_INTAPI_CONFIG_USER_CONSENT_TERRESTRIAL_POSITIONING_MSG_ID \<equiv> 211"
abbreviation (input) PB_E_INTAPI_GET_ROBUST_LOCATION_CONFIG_REQ_MSG_ID :: int where "PB_E_INTAPI_GET_ROBUST_LOCATION_CONFIG_REQ_MSG_ID \<equiv> 300"
abbreviation (input) PB_E_INTAPI_GET_ROBUST_LOCATION_CONFIG_RESP_MSG_ID :: int where "PB_E_INTAPI_GET_ROBUST_LOCATION_CONFIG_RESP_MSG_ID \<equiv> 301"
abbreviation (input) PB_E_INTAPI_GET_MIN_GPS_WEEK_REQ_MSG_ID :: int where "PB_E_INTAPI_GET_MIN_GPS_WEEK_REQ_MSG_ID \<equiv> 302"
abbreviation (input) PB_E_INTAPI_GET_MIN_GPS_WEEK_RESP_MSG_ID :: int where "PB_E_INTAPI_GET_MIN_GPS_WEEK_RESP_MSG_ID \<equiv> 303"
abbreviation (input) PB_E_INTAPI_GET_MIN_SV_ELEVATION_REQ_MSG_ID :: int where "PB_E_INTAPI_GET_MIN_SV_ELEVATION_REQ_MSG_ID \<equiv> 304"
abbreviation (input) PB_E_INTAPI_GET_MIN_SV_ELEVATION_RESP_MSG_ID :: int where "PB_E_INTAPI_GET_MIN_SV_ELEVATION_RESP_MSG_ID \<equiv> 305"
abbreviation (input) PB_E_INTAPI_GET_CONSTELLATION_SECONDARY_BAND_CONFIG_REQ_MSG_ID :: int where "PB_E_INTAPI_GET_CONSTELLATION_SECONDARY_BAND_CONFIG_REQ_MSG_ID \<equiv> 306"
abbreviation (input) PB_E_INTAPI_GET_CONSTELLATION_SECONDARY_BAND_CONFIG_RESP_MSG_ID :: int where "PB_E_INTAPI_GET_CONSTELLATION_SECONDARY_BAND_CONFIG_RESP_MSG_ID \<equiv> 307"

definition PBELocMsgID :: "int list" where
  "PBELocMsgID =
    [PB_E_LOCAPI_UNDEFINED_MSG_ID,
     PB_E_LOCAPI_CLIENT_REGISTER_MSG_ID,
     PB_E_LOCAPI_CLIENT_DEREGISTER_MSG_ID,
     PB_E_LOCAPI_CAPABILILTIES_MSG_ID,
     PB_E_LOCAPI_HAL_READY_MSG_ID,
     PB_E_LOCAPI_START_TRACKING_MSG_ID,
     PB_E_LOCAPI_STOP_TRACKING_MSG_ID,
     PB_E_LOCAPI_UPDATE_CALLBACKS_MSG_ID,
     PB_E_LOCAPI_UPDATE_TRACKING_OPTIONS_MSG_ID,
     PB_E_LOCAPI_CONTROL_UPDATE_CONFIG_MSG_ID,
     PB_E_LOCAPI_CONTROL_DELETE_AIDING_DATA_MSG_ID,
     PB_E_LOCAPI_CONTROL_UPDATE_NETWORK_AVAILABILITY_MSG_ID,
     PB_E_LOCAPI_LOCATION_MSG_ID,
     PB_E_LOCAPI_LOCATION_INFO_MSG_ID,
     PB_E_LOCAPI_SATELLITE_VEHICLE_MSG_ID,
     PB_E_LOCAPI_NMEA_MSG_ID,
     PB_E_LOCAPI_DATA_MSG_ID,
     PB_E_LOCAPI_GET_GNSS_ENGERY_CONSUMED_MSG_ID,
     PB_E_LOCAPI_LOCATION_SYSTEM_INFO_MSG_ID,
     PB_E_LOCAPI_ENGINE_LOCATIONS_INFO_MSG_ID,
     PB_E_LOCAPI_START_BATCHING_MSG_ID,
     PB_E_LOCAPI_STOP_BATCHING_MSG_ID,
     PB_E_LOCAPI_UPDATE_BATCHING_OPTIONS_MSG_ID,
     PB_E_LOCAPI_BATCHING_MSG_ID,
     PB_E_LOCAPI_ADD_GEOFENCES_MSG_ID,
     PB_E_LOCAPI_REMOVE_GEOFENCES_MSG_ID,
     PB_E_LOCAPI_MODIFY_GEOFENCES_MSG_ID,
     PB_E_LOCAPI_PAUSE_GEOFENCES_MSG_ID,
     PB_E_LOCAPI_RESUME_GEOFENCES_MSG_ID,
     PB_E_LOCAPI_GEOFENCE_BREACH_MSG_ID,
     PB_E_LOCAPI_MEAS_MSG_ID,
     PB_E_LOCAPI_GET_SINGLE_TERRESTRIAL_POS_REQ_MSG_ID,
     PB_E_LOCAPI_GET_SINGLE_TERRESTRIAL_POS_RESP_MSG_ID,
     PB_E_LOCAPI_PINGTEST_MSG_ID,
     PB_E_INTAPI_CONFIG_CONSTRAINTED_TUNC_MSG_ID,
     PB_E_INTAPI_CONFIG_POSITION_ASSISTED_CLOCK_ESTIMATOR_MSG_ID,
     PB_E_INTAPI_CONFIG_SV_CONSTELLATION_MSG_ID,
     PB_E_INTAPI_CONFIG_AIDING_DATA_DELETION_MSG_ID,
     PB_E_INTAPI_CONFIG_LEVER_ARM_MSG_ID,
     PB_E_INTAPI_CONFIG_ROBUST_LOCATION_MSG_ID,
     PB_E_INTAPI_CONFIG_MIN_GPS_WEEK_MSG_ID,
     PB_E_INTAPI_CONFIG_DEAD_RECKONING_ENGINE_MSG_ID,
     PB_E_INTAPI_CONFIG_MIN_SV_ELEVATION_MSG_ID,
     PB_E_INTAPI_CONFIG_CONSTELLATION_SECONDARY_BAND_MSG_ID,
     PB_E_INTAPI_CONFIG_ENGINE_RUN_STATE_MSG_ID,
     PB_E_INTAPI_CONFIG_USER_CONSENT_TERRESTRIAL_POSITIONING_MSG_ID,
     PB_E_INTAPI_GET_ROBUST_LOCATION_CONFIG_REQ_MSG_ID,
     PB_E_INTAPI_GET_ROBUST_LOCATION_CONFIG_RESP_MSG_ID,
     PB_E_INTAPI_GET_MIN_GPS_WEEK_REQ_MSG_ID,
     PB_E_INTAPI_GET_MIN_GPS_WEEK_RESP_MSG_ID,
     PB_E_INTAPI_GET_MIN_SV_ELEVATION_REQ_MSG_ID,
     PB_E_INTAPI_GET_MIN_SV_ELEVATION_RESP_MSG_ID,
     PB_E_INTAPI_GET_CONSTELLATION_SECONDARY_BAND_CONFIG_REQ_MSG_ID,
     PB_E_INTAPI_GET_CONSTELLATION_SECONDARY_BAND_CONFIG_RESP_MSG_ID]"

subsection \<open>\<^verbatim>\<open>LocationError\<close> (LocationDataTypes.h)\<close>

abbreviation (input) LOCATION_ERROR_SUCCESS :: int where "LOCATION_ERROR_SUCCESS \<equiv> 0"
abbreviation (input) LOCATION_ERROR_GENERAL_FAILURE :: int where "LOCATION_ERROR_GENERAL_FAILURE \<equiv> 1"
abbreviation (input) LOCATION_ERROR_CALLBACK_MISSING :: int where "LOCATION_ERROR_CALLBACK_MISSING \<equiv> 2"
abbreviation (input) LOCATION_ERROR_INVALID_PARAMETER :: int where "LOCATION_ERROR_INVALID_PARAMETER \<equiv> 3"
abbreviation (input) LOCATION_ERROR_ID_EXISTS :: int where "LOCATION_ERROR_ID_EXISTS \<equiv> 4"
abbreviation (input) LOCATION_ERROR_ID_UNKNOWN :: int where "LOCATION_ERROR_ID_UNKNOWN \<equiv> 5"
abbreviation (input) LOCATION_ERROR_ALREADY_STARTED :: int where "LOCATION_ERROR_ALREADY_STARTED \<equiv> 6"
abbreviation (input) LOCATION_ERROR_GEOFENCES_AT_MAX :: int where "LOCATION_ERROR_GEOFENCES_AT_MAX \<equiv> 7"
abbreviation (input) LOCATION_ERROR_NOT_SUPPORTED :: int where "LOCATION_ERROR_NOT_SUPPORTED \<equiv> 8"
abbreviation (input) LOCATION_ERROR_TIMEOUT :: int where "LOCATION_ERROR_TIMEOUT \<equiv> 9"
abbreviation (input) LOCATION_ERROR_GNSS_DISABLED :: int where "LOCATION_ERROR_GNSS_DISABLED \<equiv> 10"

definition LocationError :: "int list" where
  "LocationError =
    [LOCATION_ERROR_SUCCESS,
     LOCATION_ERROR_GENERAL_FAILURE,
     LOCATION_ERROR_CALLBACK_MISSING,
     LOCATION_ERROR_INVALID_PARAMETER,
     LOCATION_ERROR_ID_EXISTS,
     LOCATION_ERROR_ID_UNKNOWN,
     LOCATION_ERROR_ALREADY_STARTED,
     LOCATION_ERROR_GEOFENCES_AT_MAX,
     LOCATION_ERROR_NOT_SUPPORTED,
     LOCATION_ERROR_TIMEOUT,
     LOCATION_ERROR_GNSS_DISABLED]"

subsection \<open>\<^verbatim>\<open>PBLocationError\<close> (LocationApiDataTypes.proto)\<close>

abbreviation (input) PB_LOCATION_ERROR_SUCCESS :: int where "PB_LOCATION_ERROR_SUCCESS \<equiv> 0"
abbreviation (input) PB_LOCATION_ERROR_INVALID_PARAMETER :: int where "PB_LOCATION_ERROR_INVALID_PARAMETER \<equiv> 1"
abbreviation (input) PB_LOCATION_ERROR_NOT_SUPPORTED :: int where "PB_LOCATION_ERROR_NOT_SUPPORTED \<equiv> 2"
abbreviation (input) PB_LOCATION_ERROR_GENERAL_FAILURE :: int where "PB_LOCATION_ERROR_GENERAL_FAILURE \<equiv> 3"
abbreviation (input) PB_LOCATION_ERROR_TIMEOUT :: int where "PB_LOCATION_ERROR_TIMEOUT \<equiv> 4"

definition PBLocationError :: "int list" where
  "PBLocationError =
    [PB_LOCATION_ERROR_SUCCESS,
     PB_LOCATION_ERROR_INVALID_PARAMETER,
     PB_LOCATION_ERROR_NOT_SUPPORTED,
     PB_LOCATION_ERROR_GENERAL_FAILURE,
     PB_LOCATION_ERROR_TIMEOUT]"

subsection \<open>\<^verbatim>\<open>ClientType\<close> (LocationApiMsg.h)\<close>

abbreviation (input) LOCATION_CLIENT_API :: int where "LOCATION_CLIENT_API \<equiv> 1"
abbreviation (input) LOCATION_INTEGRATION_API :: int where "LOCATION_INTEGRATION_API \<equiv> 2"

definition ClientType :: "int list" where
  "ClientType =
    [LOCATION_CLIENT_API,
     LOCATION_INTEGRATION_API]"

subsection \<open>\<^verbatim>\<open>PBClientType\<close> (LocationApiMsg.proto)\<close>

abbreviation (input) PB_LOCATION_CLIENT_TYPE_INVALID :: int where "PB_LOCATION_CLIENT_TYPE_INVALID \<equiv> 0"
abbreviation (input) PB_LOCATION_CLIENT_API :: int where "PB_LOCATION_CLIENT_API \<equiv> 1"
abbreviation (input) PB_LOCATION_INTEGRATION_API :: int where "PB_LOCATION_INTEGRATION_API \<equiv> 2"

definition PBClientType :: "int list" where
  "PBClientType =
    [PB_LOCATION_CLIENT_TYPE_INVALID,
     PB_LOCATION_CLIENT_API,
     PB_LOCATION_INTEGRATION_API]"

subsection \<open>\<^verbatim>\<open>BatchingMode\<close> (LocationDataTypes.h)\<close>

abbreviation (input) BATCHING_MODE_ROUTINE :: int where "BATCHING_MODE_ROUTINE \<equiv> 0"
abbreviation (input) BATCHING_MODE_TRIP :: int where "BATCHING_MODE_TRIP \<equiv> 1"
abbreviation (input) BATCHING_MODE_NO_AUTO_REPORT :: int where "BATCHING_MODE_NO_AUTO_REPORT \<equiv> 2"

definition BatchingMode :: "int list" where
  "BatchingMode =
    [BATCHING_MODE_ROUTINE,
     BATCHING_MODE_TRIP,
     BATCHING_MODE_NO_AUTO_REPORT]"

subsection \<open>\<^verbatim>\<open>PBBatchingMode\<close> (LocationApiDataTypes.proto)\<close>

abbreviation (input) PB_BATCHING_MODE_ROUTINE :: int where "PB_BATCHING_MODE_ROUTINE \<equiv> 0"
abbreviation (input) PB_BATCHING_MODE_TRIP :: int where "PB_BATCHING_MODE_TRIP \<equiv> 1"
abbreviation (input) PB_BATCHING_MODE_NO_AUTO_REPORT :: int where "PB_BATCHING_MODE_NO_AUTO_REPORT \<equiv> 2"

definition PBBatchingMode :: "int list" where
  "PBBatchingMode =
    [PB_BATCHING_MODE_ROUTINE,
     PB_BATCHING_MODE_TRIP,
     PB_BATCHING_MODE_NO_AUTO_REPORT]"

subsection \<open>\<^verbatim>\<open>GnssSuplMode\<close> (LocationDataTypes.h)\<close>

abbreviation (input) GNSS_SUPL_MODE_STANDALONE :: int where "GNSS_SUPL_MODE_STANDALONE \<equiv> 0"
abbreviation (input) GNSS_SUPL_MODE_MSB :: int where "GNSS_SUPL_MODE_MSB \<equiv> 1"
abbreviation (input) GNSS_SUPL_MODE_MSA :: int where "GNSS_SUPL_MODE_MSA \<equiv> 2"

definition GnssSuplMode :: "int list" where
  "GnssSuplMode =
    [GNSS_SUPL_MODE_STANDALONE,
     GNSS_SUPL_MODE_MSB,
     GNSS_SUPL_MODE_MSA]"

subsection \<open>\<^verbatim>\<open>PBGnssSuplMode\<close> (LocationApiDataTypes.proto)\<close>

abbreviation (input) PB_GNSS_SUPL_MODE_STANDALONE :: int where "PB_GNSS_SUPL_MODE_STANDALONE \<equiv> 0"
abbreviation (input) PB_GNSS_SUPL_MODE_MSB :: int where "PB_GNSS_SUPL_MODE_MSB \<equiv> 1"
abbreviation (input) PB_GNSS_SUPL_MODE_MSA :: int where "PB_GNSS_SUPL_MODE_MSA \<equiv> 2"

definition PBGnssSuplMode :: "int list" where
  "PBGnssSuplMode =
    [PB_GNSS_SUPL_MODE_STANDALONE,
     PB_GNSS_SUPL_MODE_MSB,
     PB_GNSS_SUPL_MODE_MSA]"

subsection \<open>\<^verbatim>\<open>BatchingStatus\<close> (LocationDataTypes.h)\<close>

abbreviation (input) BATCHING_STATUS_TRIP_COMPLETED :: int where "BATCHING_STATUS_TRIP_COMPLETED \<equiv> 0"
abbreviation (input) BATCHING_STATUS_POSITION_AVAILABE :: int where "BATCHING_STATUS_POSITION_AVAILABE \<equiv> 1"
abbreviation (input) BATCHING_STATUS_POSITION_UNAVAILABLE :: int where "BATCHING_STATUS_POSITION_UNAVAILABLE \<equiv> 2"

definition BatchingStatus :: "int list" where
  "BatchingStatus =
    [BATCHING_STATUS_TRIP_COMPLETED,
     BATCHING_STATUS_POSITION_AVAILABE,
     BATCHING_STATUS_POSITION_UNAVAILABLE]"

subsection \<open>\<^verbatim>\<open>PBBatchingStatus\<close> (LocationApiDataTypes.proto)\<close>

abbreviation (input) PB_BATCHING_STATUS_TRIP_COMPLETED :: int where "PB_BATCHING_STATUS_TRIP_COMPLETED \<equiv> 0"
abbreviation (input) PB_BATCHING_STATUS_POSITION_AVAILABE :: int where "PB_BATCHING_STATUS_POSITION_AVAILABE \<equiv> 1"
abbreviation (input) PB_BATCHING_STATUS_POSITION_UNAVAILABLE :: int where "PB_BATCHING_STATUS_POSITION_UNAVAILABLE \<equiv> 2"

definition PBBatchingStatus :: "int list" where
  "PBBatchingStatus =
    [PB_BATCHING_STATUS_TRIP_COMPLETED,
     PB_BATCHING_STATUS_POSITION_AVAILABE,
     PB_BATCHING_STATUS_POSITION_UNAVAILABLE]"

subsection \<open>\<^verbatim>\<open>GnssMeasurementsMultipathIndicator\<close> (LocationDataTypes.h)\<close>

abbreviation (input) GNSS_MEASUREMENTS_MULTIPATH_INDICATOR_UNKNOWN :: int where "GNSS_MEASUREMENTS_MULTIPATH_INDICATOR_UNKNOWN \<equiv> 0"
abbreviation (input) GNSS_MEASUREMENTS_MULTIPATH_INDICATOR_PRESENT :: int where "GNSS_MEASUREMENTS_MULTIPATH_INDICATOR_PRESENT \<equiv> 1"
abbreviation (input) GNSS_MEASUREMENTS_MULTIPATH_INDICATOR_NOT_PRESENT :: int where "GNSS_MEASUREMENTS_MULTIPATH_INDICATOR_NOT_PRESENT \<equiv> 2"

definition GnssMeasurementsMultipathIndicator :: "int list" where
  "GnssMeasurementsMultipathIndicator =
    [GNSS_MEASUREMENTS_MULTIPATH_INDICATOR_UNKNOWN,
     GNSS_MEASUREMENTS_MULTIPATH_INDICATOR_PRESENT,
     GNSS_MEASUREMENTS_MULTIPATH_INDICATOR_NOT_PRESENT]"

subsection \<open>\<^verbatim>\<open>PBGnssMeasurementsMultipathIndicator\<close> (LocationApiDataTypes.proto)\<close>

abbreviation (input) PB_GNSS_MEASUREMENTS_MULTIPATH_INDICATOR_UNKNOWN :: int where "PB_GNSS_MEASUREMENTS_MULTIPATH_INDICATOR_UNKNOWN \<equiv> 0"
abbreviation (input) PB_GNSS_MEASUREMENTS_MULTIPATH_INDICATOR_PRESENT :: int where "PB_GNSS_MEASUREMENTS_MULTIPATH_INDICATOR_PRESENT \<equiv> 1"
abbreviation (input) PB_GNSS_MEASUREMENTS_MULTIPATH_INDICATOR_NOT_PRESENT :: int where "PB_GNSS_MEASUREMENTS_MULTIPATH_INDICATOR_NOT_PRESENT \<equiv> 2"

definition PBGnssMeasurementsMultipathIndicator :: "int list" where
  "PBGnssMeasurementsMultipathIndicator =
    [PB_GNSS_MEASUREMENTS_MULTIPATH_INDICATOR_UNKNOWN,
     PB_GNSS_MEASUREMENTS_MULTIPATH_INDICATOR_PRESENT,
     PB_GNSS_MEASUREMENTS_MULTIPATH_INDICATOR_NOT_PRESENT]"

subsection \<open>\<^verbatim>\<open>LocationReliability\<close> (LocationDataTypes.h)\<close>

abbreviation (input) LOCATION_RELIABILITY_NOT_SET :: int where "LOCATION_RELIABILITY_NOT_SET \<equiv> 0"
abbreviation (input) LOCATION_RELIABILITY_VERY_LOW :: int where "LOCATION_RELIABILITY_VERY_LOW \<equiv> 1"
abbreviation (input) LOCATION_RELIABILITY_LOW :: int where "LOCATION_RELIABILITY_LOW \<equiv> 2"
abbreviation (input) LOCATION_RELIABILITY_MEDIUM :: int where "LOCATION_RELIABILITY_MEDIUM \<equiv> 3"
abbreviation (input) LOCATION_RELIABILITY_HIGH :: int where "LOCATION_RELIABILITY_HIGH \<equiv> 4"

definition LocationReliability :: "int list" where
  "LocationReliability =
    [LOCATION_RELIABILITY_NOT_SET,
     LOCATION_RELIABILITY_VERY_LOW,
     LOCATION_RELIABILITY_LOW,
     LOCATION_RELIABILITY_MEDIUM,
     LOCATION_RELIABILITY_HIGH]"

subsection \<open>\<^verbatim>\<open>PBLocationReliability\<close> (LocationApiDataTypes.proto)\<close>

abbreviation (input) PB_LOCATION_RELIABILITY_NOT_SET :: int where "PB_LOCATION_RELIABILITY_NOT_SET \<equiv> 0"
abbreviation (input) PB_LOCATION_RELIABILITY_VERY_LOW :: int where "PB_LOCATION_RELIABILITY_VERY_LOW \<equiv> 1"
abbreviation (input) PB_LOCATION_RELIABILITY_LOW :: int where "PB_LOCATION_RELIABILITY_LOW \<equiv> 2"
abbreviation (input) PB_LOCATION_RELIABILITY_MEDIUM :: int where "PB_LOCATION_RELIABILITY_MEDIUM \<equiv> 3"
abbreviation (input) PB_LOCATION_RELIABILITY_HIGH :: int where "PB_LOCATION_RELIABILITY_HIGH \<equiv> 4"

definition PBLocationReliability :: "int list" where
  "PBLocationReliability =
    [PB_LOCATION_RELIABILITY_NOT_SET,
     PB_LOCATION_RELIABILITY_VERY_LOW,
     PB_LOCATION_RELIABILITY_LOW,
     PB_LOCATION_RELIABILITY_MEDIUM,
     PB_LOCATION_RELIABILITY_HIGH]"

subsection \<open>\<^verbatim>\<open>Gnss_LocSvSystemEnumType\<close> (LocationDataTypes.h)\<close>

abbreviation (input) GNSS_LOC_SV_SYSTEM_UNKNOWN :: int where "GNSS_LOC_SV_SYSTEM_UNKNOWN \<equiv> 0"
abbreviation (input) GNSS_LOC_SV_SYSTEM_MIN :: int where "GNSS_LOC_SV_SYSTEM_MIN \<equiv> 1"
abbreviation (input) GNSS_LOC_SV_SYSTEM_GPS :: int where "GNSS_LOC_SV_SYSTEM_GPS \<equiv> 1"
abbreviation (input) GNSS_LOC_SV_SYSTEM_GALILEO :: int where "GNSS_LOC_SV_SYSTEM_GALILEO \<equiv> 2"
abbreviation (input) GNSS_LOC_SV_SYSTEM_SBAS :: int where "GNSS_LOC_SV_SYSTEM_SBAS \<equiv> 3"
abbreviation (input) GNSS_LOC_SV_SYSTEM_GLONASS :: int where "GNSS_LOC_SV_SYSTEM_GLONASS \<equiv> 4"
abbreviation (input) GNSS_LOC_SV_SYSTEM_BDS :: int where "GNSS_LOC_SV_SYSTEM_BDS \<equiv> 5"
abbreviation (input) GNSS_LOC_SV_SYSTEM_QZSS :: int where "GNSS_LOC_SV_SYSTEM_QZSS \<equiv> 6"
abbreviation (input) GNSS_LOC_SV_SYSTEM_NAVIC :: int where "GNSS_LOC_SV_SYSTEM_NAVIC \<equiv> 7"
abbreviation (input) GNSS_LOC_SV_SYSTEM_MAX :: int where "GNSS_LOC_SV_SYSTEM_MAX \<equiv> 7"

definition Gnss_LocSvSystemEnumType :: "int list" where
  "Gnss_LocSvSystemEnumType =
    [GNSS_LOC_SV_SYSTEM_UNKNOWN,
     GNSS_LOC_SV_SYSTEM_MIN,
     GNSS_LOC_SV_SYSTEM_GPS,
     GNSS_LOC_SV_SYSTEM_GALILEO,
     GNSS_LOC_SV_SYSTEM_SBAS,
     GNSS_LOC_SV_SYSTEM_GLONASS,
     GNSS_LOC_SV_SYSTEM_BDS,
     GNSS_LOC_SV_SYSTEM_QZSS,
     GNSS_LOC_SV_SYSTEM_NAVIC,
     GNSS_LOC_SV_SYSTEM_MAX]"

subsection \<open>\<^verbatim>\<open>PBLocApiGnss_LocSvSystemEnumType\<close> (LocationApiDataTypes.proto)\<close>

abbreviation (input) PB_GNSS_LOC_SV_SYSTEM_INVALID :: int where "PB_GNSS_LOC_SV_SYSTEM_INVALID \<equiv> 0"
abbreviation (input) PB_GNSS_LOC_SV_SYSTEM_GPS :: int where "PB_GNSS_LOC_SV_SYSTEM_GPS \<equiv> 1"
abbreviation (input) PB_GNSS_LOC_SV_SYSTEM_GALILEO :: int where "PB_GNSS_LOC_SV_SYSTEM_GALILEO \<equiv> 2"
abbreviation (input) PB_GNSS_LOC_SV_SYSTEM_SBAS :: int where "PB_GNSS_LOC_SV_SYSTEM_SBAS \<equiv> 3"
abbreviation (input) PB_GNSS_LOC_SV_SYSTEM_GLONASS :: int where "PB_GNSS_LOC_SV_SYSTEM_GLONASS \<equiv> 4"
abbreviation (input) PB_GNSS_LOC_SV_SYSTEM_BDS :: int where "PB_GNSS_LOC_SV_SYSTEM_BDS \<equiv> 5"
abbreviation (input) PB_GNSS_LOC_SV_SYSTEM_QZSS :: int where "PB_GNSS_LOC_SV_SYSTEM_QZSS \<equiv> 6"
abbreviation (input) PB_GNSS_LOC_SV_SYSTEM_NAVIC :: int where "PB_GNSS_LOC_SV_SYSTEM_NAVIC \<equiv> 7"

definition PBLocApiGnss_LocSvSystemEnumType :: "int list" where
  "PBLocApiGnss_LocSvSystemEnumType =
    [PB_GNSS_LOC_SV_SYSTEM_INVALID,
     PB_GNSS_LOC_SV_SYSTEM_GPS,
     PB_GNSS_LOC_SV_SYSTEM_GALILEO,
     PB_GNSS_LOC_SV_SYSTEM_SBAS,
     PB_GNSS_LOC_SV_SYSTEM_GLONASS,
     PB_GNSS_LOC_SV_SYSTEM_BDS,
     PB_GNSS_LOC_SV_SYSTEM_QZSS,
     PB_GNSS_LOC_SV_SYSTEM_NAVIC]"

subsection \<open>\<^verbatim>\<open>LocOutputEngineType\<close> (LocationDataTypes.h)\<close>

abbreviation (input) LOC_OUTPUT_ENGINE_FUSED :: int where "LOC_OUTPUT_ENGINE_FUSED \<equiv> 0"
abbreviation (input) LOC_OUTPUT_ENGINE_SPE :: int where "LOC_OUTPUT_ENGINE_SPE \<equiv> 1"
abbreviation (input) LOC_OUTPUT_ENGINE_PPE :: int where "LOC_OUTPUT_ENGINE_PPE \<equiv> 2"
abbreviation (input) LOC_OUTPUT_ENGINE_VPE :: int where "LOC_OUTPUT_ENGINE_VPE \<equiv> 3"
abbreviation (input) LOC_OUTPUT_ENGINE_COUNT :: int where "LOC_OUTPUT_ENGINE_COUNT \<equiv> 4"

definition LocOutputEngineType :: "int list" where
  "LocOutputEngineType =
    [LOC_OUTPUT_ENGINE_FUSED,
     LOC_OUTPUT_ENGINE_SPE,
     LOC_OUTPUT_ENGINE_PPE,
     LOC_OUTPUT_ENGINE_VPE,
     LOC_OUTPUT_ENGINE_COUNT]"

subsection \<open>\<^verbatim>\<open>PBLocApiOutputEngineType\<close> (LocationApiDataTypes.proto)\<close>

abbreviation (input) PB_LOC_OUTPUT_ENGINE_FUSED :: int where "PB_LOC_OUTPUT_ENGINE_FUSED \<equiv> 0"
abbreviation (input) PB_LOC_OUTPUT_ENGINE_SPE :: int where "PB_LOC_OUTPUT_ENGINE_SPE \<equiv> 1"
abbreviation (input) PB_LOC_OUTPUT_ENGINE_PPE :: int where "PB_LOC_OUTPUT_ENGINE_PPE \<equiv> 2"
abbreviation (input) PB_LOC_OUTPUT_ENGINE_COUNT :: int where "PB_LOC_OUTPUT_ENGINE_COUNT \<equiv> 3"

definition PBLocApiOutputEngineType :: "int list" where
  "PBLocApiOutputEngineType =
    [PB_LOC_OUTPUT_ENGINE_FUSED,
     PB_LOC_OUTPUT_ENGINE_SPE,
     PB_LOC_OUTPUT_ENGINE_PPE,
     PB_LOC_OUTPUT_ENGINE_COUNT]"

subsection \<open>\<^verbatim>\<open>PBLocEngineRunState\<close> (LocationApiDataTypes.proto)\<close>

abbreviation (input) PB_LOC_ENGINE_RUN_STATE_INVALID :: int where "PB_LOC_ENGINE_RUN_STATE_INVALID \<equiv> 0"
abbreviation (input) PB_LOC_ENGINE_RUN_STATE_PAUSE :: int where "PB_LOC_ENGINE_RUN_STATE_PAUSE \<equiv> 1"
abbreviation (input) PB_LOC_ENGINE_RUN_STATE_RESUME :: int where "PB_LOC_ENGINE_RUN_STATE_RESUME \<equiv> 2"

definition PBLocEngineRunState :: "int list" where
  "PBLocEngineRunState =
    [PB_LOC_ENGINE_RUN_STATE_INVALID,
     PB_LOC_ENGINE_RUN_STATE_PAUSE,
     PB_LOC_ENGINE_RUN_STATE_RESUME]"

subsection \<open>\<^verbatim>\<open>LocEngineRunState\<close> (LocationDataTypes.h)\<close>

abbreviation (input) LOC_ENGINE_RUN_STATE_PAUSE :: int where "LOC_ENGINE_RUN_STATE_PAUSE \<equiv> 1"
abbreviation (input) LOC_ENGINE_RUN_STATE_RESUME :: int where "LOC_ENGINE_RUN_STATE_RESUME \<equiv> 2"

definition LocEngineRunState :: "int list" where
  "LocEngineRunState =
    [LOC_ENGINE_RUN_STATE_PAUSE,
     LOC_ENGINE_RUN_STATE_RESUME]"

subsection \<open>\<^verbatim>\<open>PBTerrestrialTechMask\<close> (LocationApiDataTypes.proto)\<close>

abbreviation (input) PB_TERRESTRIAL_TECH_INVALID :: int where "PB_TERRESTRIAL_TECH_INVALID \<equiv> 0"
abbreviation (input) PB_TERRESTRIAL_TECH_GTP_WWAN :: int where "PB_TERRESTRIAL_TECH_GTP_WWAN \<equiv> 1"

definition PBTerrestrialTechMask :: "int list" where
  "PBTerrestrialTechMask =
    [PB_TERRESTRIAL_TECH_INVALID,
     PB_TERRESTRIAL_TECH_GTP_WWAN]"

subsection \<open>\<^verbatim>\<open>TerrestrialTechMask\<close> (LocationDataTypes.h)\<close>

abbreviation (input) TERRESTRIAL_TECH_GTP_WWAN :: int where "TERRESTRIAL_TECH_GTP_WWAN \<equiv> 1"

definition TerrestrialTechMask :: "int list" where
  "TerrestrialTechMask =
    [TERRESTRIAL_TECH_GTP_WWAN]"

subsection \<open>\<^verbatim>\<open>GnssSvType\<close> (LocationDataTypes.h)\<close>

abbreviation (input) GNSS_SV_TYPE_UNKNOWN :: int where "GNSS_SV_TYPE_UNKNOWN \<equiv> 0"
abbreviation (input) GNSS_SV_TYPE_GPS :: int where "GNSS_SV_TYPE_GPS \<equiv> 1"
abbreviation (input) GNSS_SV_TYPE_SBAS :: int where "GNSS_SV_TYPE_SBAS \<equiv> 2"
abbreviation (input) GNSS_SV_TYPE_GLONASS :: int where "GNSS_SV_TYPE_GLONASS \<equiv> 3"
abbreviation (input) GNSS_SV_TYPE_QZSS :: int where "GNSS_SV_TYPE_QZSS \<equiv> 4"
abbreviation (input) GNSS_SV_TYPE_BEIDOU :: int where "GNSS_SV_TYPE_BEIDOU \<equiv> 5"
abbreviation (input) GNSS_SV_TYPE_GALILEO :: int where "GNSS_SV_TYPE_GALILEO \<equiv> 6"
abbreviation (input) GNSS_SV_TYPE_NAVIC :: int where "GNSS_SV_TYPE_NAVIC \<equiv> 7"

definition GnssSvType :: "int list" where
  "GnssSvType =
    [GNSS_SV_TYPE_UNKNOWN,
     GNSS_SV_TYPE_GPS,
     GNSS_SV_TYPE_SBAS,
     GNSS_SV_TYPE_GLONASS,
     GNSS_SV_TYPE_QZSS,
     GNSS_SV_TYPE_BEIDOU,
     GNSS_SV_TYPE_GALILEO,
     GNSS_SV_TYPE_NAVIC]"

subsection \<open>\<^verbatim>\<open>ELocationCallbacksOption\<close> (LocationApiMsg.h)\<close>

abbreviation (input) E_LOC_CB_DISTANCE_BASED_TRACKING_BIT :: int where "E_LOC_CB_DISTANCE_BASED_TRACKING_BIT \<equiv> 1"
abbreviation (input) E_LOC_CB_GNSS_LOCATION_INFO_BIT :: int where "E_LOC_CB_GNSS_LOCATION_INFO_BIT \<equiv> 2"
abbreviation (input) E_LOC_CB_GNSS_SV_BIT :: int where "E_LOC_CB_GNSS_SV_BIT \<equiv> 4"
abbreviation (input) E_LOC_CB_GNSS_NMEA_BIT :: int where "E_LOC_CB_GNSS_NMEA_BIT \<equiv> 8"
abbreviation (input) E_LOC_CB_GNSS_DATA_BIT :: int where "E_LOC_CB_GNSS_DATA_BIT \<equiv> 16"
abbreviation (input) E_LOC_CB_SYSTEM_INFO_BIT :: int where "E_LOC_CB_SYSTEM_INFO_BIT \<equiv> 32"
abbreviation (input) E_LOC_CB_BATCHING_BIT :: int where "E_LOC_CB_BATCHING_BIT \<equiv> 64"
abbreviation (input) E_LOC_CB_BATCHING_STATUS_BIT :: int where "E_LOC_CB_BATCHING_STATUS_BIT \<equiv> 128"
abbreviation (input) E_LOC_CB_GEOFENCE_BREACH_BIT :: int where "E_LOC_CB_GEOFENCE_BREACH_BIT \<equiv> 256"
abbreviation (input) E_LOC_CB_ENGINE_LOCATIONS_INFO_BIT :: int where "E_LOC_CB_ENGINE_LOCATIONS_INFO_BIT \<equiv> 512"
abbreviation (input) E_LOC_CB_SIMPLE_LOCATION_INFO_BIT :: int where "E_LOC_CB_SIMPLE_LOCATION_INFO_BIT \<equiv> 1024"
abbreviation (input) E_LOC_CB_GNSS_MEAS_BIT :: int where "E_LOC_CB_GNSS_MEAS_BIT \<equiv> 2048"

definition ELocationCallbacksOption :: "int list" where
  "ELocationCallbacksOption =
    [E_LOC_CB_DISTANCE_BASED_TRACKING_BIT,
     E_LOC_CB_GNSS_LOCATION_INFO_BIT,
     E_LOC_CB_GNSS_SV_BIT,
     E_LOC_CB_GNSS_NMEA_BIT,
     E_LOC_CB_GNSS_DATA_BIT,
     E_LOC_CB_SYSTEM_INFO_BIT,
     E_LOC_CB_BATCHING_BIT,
     E_LOC_CB_BATCHING_STATUS_BIT,
     E_LOC_CB_GEOFENCE_BREACH_BIT,
     E_LOC_CB_ENGINE_LOCATIONS_INFO_BIT,
     E_LOC_CB_SIMPLE_LOCATION_INFO_BIT,
     E_LOC_CB_GNSS_MEAS_BIT]"

subsection \<open>\<^verbatim>\<open>PBLocationCallbacksMask\<close> (LocationApiMsg.proto)\<close>

abbreviation (input) PB_E_LOC_CB_INVALID :: int where "PB_E_LOC_CB_INVALID \<equiv> 0"
abbreviation (input) PB_E_LOC_CB_DISTANCE_BASED_TRACKING_BIT :: int where "PB_E_LOC_CB_DISTANCE_BASED_TRACKING_BIT \<equiv> 1"
abbreviation (input) PB_E_LOC_CB_GNSS_LOCATION_INFO_BIT :: int where "PB_E_LOC_CB_GNSS_LOCATION_INFO_BIT \<equiv> 2"
abbreviation (input) PB_E_LOC_CB_GNSS_SV_BIT :: int where "PB_E_LOC_CB_GNSS_SV_BIT \<equiv> 4"
abbreviation (input) PB_E_LOC_CB_GNSS_NMEA_BIT :: int where "PB_E_LOC_CB_GNSS_NMEA_BIT \<equiv> 8"
abbreviation (input) PB_E_LOC_CB_GNSS_DATA_BIT :: int where "PB_E_LOC_CB_GNSS_DATA_BIT \<equiv> 16"
abbreviation (input) PB_E_LOC_CB_SYSTEM_INFO_BIT :: int where "PB_E_LOC_CB_SYSTEM_INFO_BIT \<equiv> 32"
abbreviation (input) PB_E_LOC_CB_BATCHING_BIT :: int where "PB_E_LOC_CB_BATCHING_BIT \<equiv> 64"
abbreviation (input) PB_E_LOC_CB_BATCHING_STATUS_BIT :: int where "PB_E_LOC_CB_BATCHING_STATUS_BIT \<equiv> 128"
abbreviation (input) PB_E_LOC_CB_GEOFENCE_BREACH_BIT :: int where "PB_E_LOC_CB_GEOFENCE_BREACH_BIT \<equiv> 256"
abbreviation (input) PB_E_LOC_CB_ENGINE_LOCATIONS_INFO_BIT :: int where "PB_E_LOC_CB_ENGINE_LOCATIONS_INFO_BIT \<equiv> 512"
abbreviation (input) PB_E_LOC_CB_SIMPLE_LOCATION_INFO_BIT :: int where "PB_E_LOC_CB_SIMPLE_LOCATION_INFO_BIT \<equiv> 1024"
abbreviation (input) PB_E_LOC_CB_GNSS_MEAS_BIT :: int where "PB_E_LOC_CB_GNSS_MEAS_BIT \<equiv> 2048"

definition PBLocationCallbacksMask :: "int list" where
  "PBLocationCallbacksMask =
    [PB_E_LOC_CB_INVALID,
     PB_E_LOC_CB_DISTANCE_BASED_TRACKING_BIT,
     PB_E_LOC_CB_GNSS_LOCATION_INFO_BIT,
     PB_E_LOC_CB_GNSS_SV_BIT,
     PB_E_LOC_CB_GNSS_NMEA_BIT,
     PB_E_LOC_CB_GNSS_DATA_BIT,
     PB_E_LOC_CB_SYSTEM_INFO_BIT,
     PB_E_LOC_CB_BATCHING_BIT,
     PB_E_LOC_CB_BATCHING_STATUS_BIT,
     PB_E_LOC_CB_GEOFENCE_BREACH_BIT,
     PB_E_LOC_CB_ENGINE_LOCATIONS_INFO_BIT,
     PB_E_LOC_CB_SIMPLE_LOCATION_INFO_BIT,
     PB_E_LOC_CB_GNSS_MEAS_BIT]"

subsection \<open>\<^verbatim>\<open>LocationCapabilitiesBits\<close> (LocationDataTypes.h)\<close>

abbreviation (input) LOCATION_CAPABILITIES_TIME_BASED_TRACKING_BIT :: int where "LOCATION_CAPABILITIES_TIME_BASED_TRACKING_BIT \<equiv> 1"
abbreviation (input) LOCATION_CAPABILITIES_TIME_BASED_BATCHING_BIT :: int where "LOCATION_CAPABILITIES_TIME_BASED_BATCHING_BIT \<equiv> 2"
abbreviation (input) LOCATION_CAPABILITIES_DISTANCE_BASED_TRACKING_BIT :: int where "LOCATION_CAPABILITIES_DISTANCE_BASED_TRACKING_BIT \<equiv> 4"
abbreviation (input) LOCATION_CAPABILITIES_DISTANCE_BASED_BATCHING_BIT :: int where "LOCATION_CAPABILITIES_DISTANCE_BASED_BATCHING_BIT \<equiv> 8"
abbreviation (input) LOCATION_CAPABILITIES_GEOFENCE_BIT :: int where "LOCATION_CAPABILITIES_GEOFENCE_BIT \<equiv> 16"
abbreviation (input) LOCATION_CAPABILITIES_GNSS_MEASUREMENTS_BIT :: int where "LOCATION_CAPABILITIES_GNSS_MEASUREMENTS_BIT \<equiv> 32"
abbreviation (input) LOCATION_CAPABILITIES_GNSS_MSB_BIT :: int where "LOCATION_CAPABILITIES_GNSS_MSB_BIT \<equiv> 64"
abbreviation (input) LOCATION_CAPABILITIES_GNSS_MSA_BIT :: int where "LOCATION_CAPABILITIES_GNSS_MSA_BIT \<equiv> 128"
abbreviation (input) LOCATION_CAPABILITIES_DEBUG_NMEA_BIT :: int where "LOCATION_CAPABILITIES_DEBUG_NMEA_BIT \<equiv> 256"
abbreviation (input) LOCATION_CAPABILITIES_OUTDOOR_TRIP_BATCHING_BIT :: int where "LOCATION_CAPABILITIES_OUTDOOR_TRIP_BATCHING_BIT \<equiv> 512"
abbreviation (input) LOCATION_CAPABILITIES_CONSTELLATION_ENABLEMENT_BIT :: int where "LOCATION_CAPABILITIES_CONSTELLATION_ENABLEMENT_BIT \<equiv> 1024"
abbreviation (input) LOCATION_CAPABILITIES_AGPM_BIT :: int where "LOCATION_CAPABILITIES_AGPM_BIT \<equiv> 2048"
abbreviation (input) LOCATION_CAPABILITIES_PRIVACY_BIT :: int where "LOCATION_CAPABILITIES_PRIVACY_BIT \<equiv> 4096"
abbreviation (input) LOCATION_CAPABILITIES_MEASUREMENTS_CORRECTION_BIT :: int where "LOCATION_CAPABILITIES_MEASUREMENTS_CORRECTION_BIT \<equiv> 8192"
abbreviation (input) LOCATION_CAPABILITIES_CONFORMITY_INDEX_BIT :: int where "LOCATION_CAPABILITIES_CONFORMITY_INDEX_BIT \<equiv> 16384"
abbreviation (input) LOCATION_CAPABILITIES_EDGNSS_BIT :: int where "LOCATION_CAPABILITIES_EDGNSS_BIT \<equiv> 32768"
abbreviation (input) LOCATION_CAPABILITIES_QWES_CARRIER_PHASE_BIT :: int where "LOCATION_CAPABILITIES_QWES_CARRIER_PHASE_BIT \<equiv> 65536"
abbreviation (input) LOCATION_CAPABILITIES_QWES_SV_POLYNOMIAL_BIT :: int where "LOCATION_CAPABILITIES_QWES_SV_POLYNOMIAL_BIT \<equiv> 131072"
abbreviation (input) LOCATION_CAPABILITIES_QWES_SV_EPHEMERIS_BIT :: int where "LOCATION_CAPABILITIES_QWES_SV_EPHEMERIS_BIT \<equiv> 262144"
abbreviation (input) LOCATION_CAPABILITIES_QWES_GNSS_SINGLE_FREQUENCY :: int where "LOCATION_CAPABILITIES_QWES_GNSS_SINGLE_FREQUENCY \<equiv> 524288"
abbreviation (input) LOCATION_CAPABILITIES_QWES_GNSS_MULTI_FREQUENCY :: int where "LOCATION_CAPABILITIES_QWES_GNSS_MULTI_FREQUENCY \<equiv> 1048576"
abbreviation (input) LOCATION_CAPABILITIES_QWES_VPE :: int where "LOCATION_CAPABILITIES_QWES_VPE \<equiv> 2097152"
abbreviation (input) LOCATION_CAPABILITIES_QWES_CV2X_LOCATION_BASIC :: int where "LOCATION_CAPABILITIES_QWES_CV2X_LOCATION_BASIC \<equiv> 4194304"
abbreviation (input) LOCATION_CAPABILITIES_QWES_CV2X_LOCATION_PREMIUM :: int where "LOCATION_CAPABILITIES_QWES_CV2X_LOCATION_PREMIUM \<equiv> 8388608"
abbreviation (input) LOCATION_CAPABILITIES_QWES_PPE :: int where "LOCATION_CAPABILITIES_QWES_PPE \<equiv> 16777216"
abbreviation (input) LOCATION_CAPABILITIES_QWES_QDR2 :: int where "LOCATION_CAPABILITIES_QWES_QDR2 \<equiv> 33554432"
abbreviation (input) LOCATION_CAPABILITIES_QWES_QDR3 :: int where "LOCATION_CAPABILITIES_QWES_QDR3 \<equiv> 67108864"

definition LocationCapabilitiesBits :: "int list" where
  "LocationCapabilitiesBits =
    [LOCATION_CAPABILITIES_TIME_BASED_TRACKING_BIT,
     LOCATION_CAPABILITIES_TIME_BASED_BATCHING_BIT,
     LOCATION_CAPABILITIES_DISTANCE_BASED_TRACKING_BIT,
     LOCATION_CAPABILITIES_DISTANCE_BASED_BATCHING_BIT,
     LOCATION_CAPABILITIES_GEOFENCE_BIT,
     LOCATION_CAPABILITIES_GNSS_MEASUREMENTS_BIT,
     LOCATION_CAPABILITIES_GNSS_MSB_BIT,
     LOCATION_CAPABILITIES_GNSS_MSA_BIT,
     LOCATION_CAPABILITIES_DEBUG_NMEA_BIT,
     LOCATION_CAPABILITIES_OUTDOOR_TRIP_BATCHING_BIT,
     LOCATION_CAPABILITIES_CONSTELLATION_ENABLEMENT_BIT,
     LOCATION_CAPABILITIES_AGPM_BIT,
     LOCATION_CAPABILITIES_PRIVACY_BIT,
     LOCATION_CAPABILITIES_MEASUREMENTS_CORRECTION_BIT,
     LOCATION_CAPABILITIES_CONFORMITY_INDEX_BIT,
     LOCATION_CAPABILITIES_EDGNSS_BIT,
     LOCATION_CAPABILITIES_QWES_CARRIER_PHASE_BIT,
     LOCATION_CAPABILITIES_QWES_SV_POLYNOMIAL_BIT,
     LOCATION_CAPABILITIES_QWES_SV_EPHEMERIS_BIT,
     LOCATION_CAPABILITIES_QWES_GNSS_SINGLE_FREQUENCY,
     LOCATION_CAPABILITIES_QWES_GNSS_MULTI_FREQUENCY,
     LOCATION_CAPABILITIES_QWES_VPE,
     LOCATION_CAPABILITIES_QWES_CV2X_LOCATION_BASIC,
     LOCATION_CAPABILITIES_QWES_CV2X_LOCATION_PREMIUM,
     LOCATION_CAPABILITIES_QWES_PPE,
     LOCATION_CAPABILITIES_QWES_QDR2,
     LOCATION_CAPABILITIES_QWES_QDR3]"

subsection \<open>\<^verbatim>\<open>PBLocationCapabilitiesMask\<close> (LocationApiDataTypes.proto)\<close>

abbreviation (input) PB_LOCATION_CAPS_INVALID :: int where "PB_LOCATION_CAPS_INVALID \<equiv> 0"
abbreviation (input) PB_LOCATION_CAPS_TIME_BASED_TRACKING_BIT :: int where "PB_LOCATION_CAPS_TIME_BASED_TRACKING_BIT \<equiv> 1"
abbreviation (input) PB_LOCATION_CAPS_TIME_BASED_BATCHING_BIT :: int where "PB_LOCATION_CAPS_TIME_BASED_BATCHING_BIT \<equiv> 2"
abbreviation (input) PB_LOCATION_CAPS_DISTANCE_BASED_TRACKING_BIT :: int where "PB_LOCATION_CAPS_DISTANCE_BASED_TRACKING_BIT \<equiv> 4"
abbreviation (input) PB_LOCATION_CAPS_DISTANCE_BASED_BATCHING_BIT :: int where "PB_LOCATION_CAPS_DISTANCE_BASED_BATCHING_BIT \<equiv> 8"
abbreviation (input) PB_LOCATION_CAPS_GEOFENCE_BIT :: int where "PB_LOCATION_CAPS_GEOFENCE_BIT \<equiv> 16"
abbreviation (input) PB_LOCATION_CAPS_OUTDOOR_TRIP_BATCHING_BIT :: int where "PB_LOCATION_CAPS_OUTDOOR_TRIP_BATCHING_BIT \<equiv> 32"
abbreviation (input) PB_LOCATION_CAPS_GNSS_MEASUREMENTS_BIT :: int where "PB_LOCATION_CAPS_GNSS_MEASUREMENTS_BIT \<equiv> 64"
abbreviation (input) PB_LOCATION_CAPS_CONSTELLATION_ENABLEMENT_BIT :: int where "PB_LOCATION_CAPS_CONSTELLATION_ENABLEMENT_BIT \<equiv> 128"
abbreviation (input) PB_LOCATION_CAPS_QWES_CARRIER_PHASE_BIT :: int where "PB_LOCATION_CAPS_QWES_CARRIER_PHASE_BIT \<equiv> 256"
abbreviation (input) PB_LOCATION_CAPS_QWES_SV_POLYNOMIAL_BIT :: int where "PB_LOCATION_CAPS_QWES_SV_POLYNOMIAL_BIT \<equiv> 512"
abbreviation (input) PB_LOCATION_CAPS_QWES_GNSS_SINGLE_FREQUENCY :: int where "PB_LOCATION_CAPS_QWES_GNSS_SINGLE_FREQUENCY \<equiv> 1024"
abbreviation (input) PB_LOCATION_CAPS_QWES_GNSS_MULTI_FREQUENCY :: int where "PB_LOCATION_CAPS_QWES_GNSS_MULTI_FREQUENCY \<equiv> 2048"
abbreviation (input) PB_LOCATION_CAPS_QWES_VPE :: int where "PB_LOCATION_CAPS_QWES_VPE \<equiv> 4096"
abbreviation (input) PB_LOCATION_CAPS_QWES_CV2X_LOCATION_BASIC :: int where "PB_LOCATION_CAPS_QWES_CV2X_LOCATION_BASIC \<equiv> 8192"
abbreviation (input) PB_LOCATION_CAPS_QWES_CV2X_LOCATION_PREMIUM :: int where "PB_LOCATION_CAPS_QWES_CV2X_LOCATION_PREMIUM \<equiv> 16384"
abbreviation (input) PB_LOCATION_CAPS_QWES_PPE :: int where "PB_LOCATION_CAPS_QWES_PPE \<equiv> 32768"
abbreviation (input) PB_LOCATION_CAPS_QWES_QDR2 :: int where "PB_LOCATION_CAPS_QWES_QDR2 \<equiv> 65536"
abbreviation (input) PB_LOCATION_CAPS_QWES_QDR3 :: int where "PB_LOCATION_CAPS_QWES_QDR3 \<equiv> 131072"

definition PBLocationCapabilitiesMask :: "int list" where
  "PBLocationCapabilitiesMask =
    [PB_LOCATION_CAPS_INVALID,
     PB_LOCATION_CAPS_TIME_BASED_TRACKING_BIT,
     PB_LOCATION_CAPS_TIME_BASED_BATCHING_BIT,
     PB_LOCATION_CAPS_DISTANCE_BASED_TRACKING_BIT,
     PB_LOCATION_CAPS_DISTANCE_BASED_BATCHING_BIT,
     PB_LOCATION_CAPS_GEOFENCE_BIT,
     PB_LOCATION_CAPS_OUTDOOR_TRIP_BATCHING_BIT,
     PB_LOCATION_CAPS_GNSS_MEASUREMENTS_BIT,
     PB_LOCATION_CAPS_CONSTELLATION_ENABLEMENT_BIT,
     PB_LOCATION_CAPS_QWES_CARRIER_PHASE_BIT,
     PB_LOCATION_CAPS_QWES_SV_POLYNOMIAL_BIT,
     PB_LOCATION_CAPS_QWES_GNSS_SINGLE_FREQUENCY,
     PB_LOCATION_CAPS_QWES_GNSS_MULTI_FREQUENCY,
     PB_LOCATION_CAPS_QWES_VPE,
     PB_LOCATION_CAPS_QWES_CV2X_LOCATION_BASIC,
     PB_LOCATION_CAPS_QWES_CV2X_LOCATION_PREMIUM,
     PB_LOCATION_CAPS_QWES_PPE,
     PB_LOCATION_CAPS_QWES_QDR2,
     PB_LOCATION_CAPS_QWES_QDR3]"

subsection \<open>\<^verbatim>\<open>PositioningEngineBits\<close> (LocationDataTypes.h)\<close>

abbreviation (input) STANDARD_POSITIONING_ENGINE :: int where "STANDARD_POSITIONING_ENGINE \<equiv> 1"
abbreviation (input) DEAD_RECKONING_ENGINE :: int where "DEAD_RECKONING_ENGINE \<equiv> 2"
abbreviation (input) PRECISE_POSITIONING_ENGINE :: int where "PRECISE_POSITIONING_ENGINE \<equiv> 4"
abbreviation (input) VP_POSITIONING_ENGINE :: int where "VP_POSITIONING_ENGINE \<equiv> 8"

definition PositioningEngineBits :: "int list" where
  "PositioningEngineBits =
    [STANDARD_POSITIONING_ENGINE,
     DEAD_RECKONING_ENGINE,
     PRECISE_POSITIONING_ENGINE,
     VP_POSITIONING_ENGINE]"

subsection \<open>\<^verbatim>\<open>PBLocApiPositioningEngineMask\<close> (LocationApiDataTypes.proto)\<close>

abbreviation (input) PB_POS_ENG_MASK_INVALID :: int where "PB_POS_ENG_MASK_INVALID \<equiv> 0"
abbreviation (input) PB_STANDARD_POSITIONING_ENGINE :: int where "PB_STANDARD_POSITIONING_ENGINE \<equiv> 1"
abbreviation (input) PB_DEAD_RECKONING_ENGINE :: int where "PB_DEAD_RECKONING_ENGINE \<equiv> 2"
abbreviation (input) PB_PRECISE_POSITIONING_ENGINE :: int where "PB_PRECISE_POSITIONING_ENGINE \<equiv> 4"

definition PBLocApiPositioningEngineMask :: "int list" where
  "PBLocApiPositioningEngineMask =
    [PB_POS_ENG_MASK_INVALID,
     PB_STANDARD_POSITIONING_ENGINE,
     PB_DEAD_RECKONING_ENGINE,
     PB_PRECISE_POSITIONING_ENGINE]"

subsection \<open>\<^verbatim>\<open>LeverArmTypeBits\<close> (LocationDataTypes.h)\<close>

abbreviation (input) LEVER_ARM_TYPE_GNSS_TO_VRP_BIT :: int where "LEVER_ARM_TYPE_GNSS_TO_VRP_BIT \<equiv> 1"
abbreviation (input) LEVER_ARM_TYPE_DR_IMU_TO_GNSS_BIT :: int where "LEVER_ARM_TYPE_DR_IMU_TO_GNSS_BIT \<equiv> 2"
abbreviation (input) LEVER_ARM_TYPE_VEPP_IMU_TO_GNSS_BIT :: int where "LEVER_ARM_TYPE_VEPP_IMU_TO_GNSS_BIT \<equiv> 4"

definition LeverArmTypeBits :: "int list" where
  "LeverArmTypeBits =
    [LEVER_ARM_TYPE_GNSS_TO_VRP_BIT,
     LEVER_ARM_TYPE_DR_IMU_TO_GNSS_BIT,
     LEVER_ARM_TYPE_VEPP_IMU_TO_GNSS_BIT]"

subsection \<open>\<^verbatim>\<open>PBLIALeverArmTypeMask\<close> (LocationApiDataTypes.proto)\<close>

abbreviation (input) PB_LEVER_ARM_TYPE_INVALID :: int where "PB_LEVER_ARM_TYPE_INVALID \<equiv> 0"
abbreviation (input) PB_LEVER_ARM_TYPE_GNSS_TO_VRP_BIT :: int where "PB_LEVER_ARM_TYPE_GNSS_TO_VRP_BIT \<equiv> 1"
abbreviation (input) PB_LEVER_ARM_TYPE_DR_IMU_TO_GNSS_BIT :: int where "PB_LEVER_ARM_TYPE_DR_IMU_TO_GNSS_BIT \<equiv> 2"
abbreviation (input) PB_LEVER_ARM_TYPE_VEPP_IMU_TO_GNSS_BIT :: int where "PB_LEVER_ARM_TYPE_VEPP_IMU_TO_GNSS_BIT \<equiv> 4"

definition PBLIALeverArmTypeMask :: "int list" where
  "PBLIALeverArmTypeMask =
    [PB_LEVER_ARM_TYPE_INVALID,
     PB_LEVER_ARM_TYPE_GNSS_TO_VRP_BIT,
     PB_LEVER_ARM_TYPE_DR_IMU_TO_GNSS_BIT,
     PB_LEVER_ARM_TYPE_VEPP_IMU_TO_GNSS_BIT]"

subsection \<open>\<^verbatim>\<open>LocReqEngineTypeMask\<close> (LocationDataTypes.h)\<close>

abbreviation (input) LOC_REQ_ENGINE_FUSED_BIT :: int where "LOC_REQ_ENGINE_FUSED_BIT \<equiv> 1"
abbreviation (input) LOC_REQ_ENGINE_SPE_BIT :: int where "LOC_REQ_ENGINE_SPE_BIT \<equiv> 2"
abbreviation (input) LOC_REQ_ENGINE_PPE_BIT :: int where "LOC_REQ_ENGINE_PPE_BIT \<equiv> 4"
abbreviation (input) LOC_REQ_ENGINE_VPE_BIT :: int where "LOC_REQ_ENGINE_VPE_BIT \<equiv> 8"

definition LocReqEngineTypeMask :: "int list" where
  "LocReqEngineTypeMask =
    [LOC_REQ_ENGINE_FUSED_BIT,
     LOC_REQ_ENGINE_SPE_BIT,
     LOC_REQ_ENGINE_PPE_BIT,
     LOC_REQ_ENGINE_VPE_BIT]"

subsection \<open>\<^verbatim>\<open>PBLocReqEngineTypeMask\<close> (LocationApiDataTypes.proto)\<close>

abbreviation (input) PB_LOC_REQ_ENGINE_INVALID :: int where "PB_LOC_REQ_ENGINE_INVALID \<equiv> 0"
abbreviation (input) PB_LOC_REQ_ENGINE_FUSED_BIT :: int where "PB_LOC_REQ_ENGINE_FUSED_BIT \<equiv> 1"
abbreviation (input) PB_LOC_REQ_ENGINE_SPE_BIT :: int where "PB_LOC_REQ_ENGINE_SPE_BIT \<equiv> 2"
abbreviation (input) PB_LOC_REQ_ENGINE_PPE_BIT :: int where "PB_LOC_REQ_ENGINE_PPE_BIT \<equiv> 4"

definition PBLocReqEngineTypeMask :: "int list" where
  "PBLocReqEngineTypeMask =
    [PB_LOC_REQ_ENGINE_INVALID,
     PB_LOC_REQ_ENGINE_FUSED_BIT,
     PB_LOC_REQ_ENGINE_SPE_BIT,
     PB_LOC_REQ_ENGINE_PPE_BIT]"

subsection \<open>\<^verbatim>\<open>GnssConfigRobustLocationValidMask\<close> (LocationDataTypes.h)\<close>

abbreviation (input) GNSS_CONFIG_ROBUST_LOCATION_ENABLED_VALID_BIT :: int where "GNSS_CONFIG_ROBUST_LOCATION_ENABLED_VALID_BIT \<equiv> 1"
abbreviation (input) GNSS_CONFIG_ROBUST_LOCATION_ENABLED_FOR_E911_VALID_BIT :: int where "GNSS_CONFIG_ROBUST_LOCATION_ENABLED_FOR_E911_VALID_BIT \<equiv> 2"
abbreviation (input) GNSS_CONFIG_ROBUST_LOCATION_VERSION_VALID_BIT :: int where "GNSS_CONFIG_ROBUST_LOCATION_VERSION_VALID_BIT \<equiv> 4"

definition GnssConfigRobustLocationValidMask :: "int list" where
  "GnssConfigRobustLocationValidMask =
    [GNSS_CONFIG_ROBUST_LOCATION_ENABLED_VALID_BIT,
     GNSS_CONFIG_ROBUST_LOCATION_ENABLED_FOR_E911_VALID_BIT,
     GNSS_CONFIG_ROBUST_LOCATION_VERSION_VALID_BIT]"

subsection \<open>\<^verbatim>\<open>PBGnssConfigRobustLocationValidMask\<close> (LocationApiDataTypes.proto)\<close>

abbreviation (input) PB_GNSS_CONFIG_ROBUST_LOCATION_INVALID :: int where "PB_GNSS_CONFIG_ROBUST_LOCATION_INVALID \<equiv> 0"
abbreviation (input) PB_GNSS_CONFIG_ROBUST_LOCATION_ENABLED_VALID_BIT :: int where "PB_GNSS_CONFIG_ROBUST_LOCATION_ENABLED_VALID_BIT \<equiv> 1"
abbreviation (input) PB_GNSS_CONFIG_ROBUST_LOCATION_ENABLED_FOR_E911_VALID_BIT :: int where "PB_GNSS_CONFIG_ROBUST_LOCATION_ENABLED_FOR_E911_VALID_BIT \<equiv> 2"
abbreviation (input) PB_GNSS_CONFIG_ROBUST_LOCATION_VERSION_VALID_BIT :: int where "PB_GNSS_CONFIG_ROBUST_LOCATION_VERSION_VALID_BIT \<equiv> 4"

definition PBGnssConfigRobustLocationValidMask :: "int list" where
  "PBGnssConfigRobustLocationValidMask =
    [PB_GNSS_CONFIG_ROBUST_LOCATION_INVALID,
     PB_GNSS_CONFIG_ROBUST_LOCATION_ENABLED_VALID_BIT,
     PB_GNSS_CONFIG_ROBUST_LOCATION_ENABLED_FOR_E911_VALID_BIT,
     PB_GNSS_CONFIG_ROBUST_LOCATION_VERSION_VALID_BIT]"

subsection \<open>\<^verbatim>\<open>LocationSystemInfoDataBits\<close> (LocationDataTypes.h)\<close>

abbreviation (input) LOCATION_SYS_INFO_LEAP_SECOND :: int where "LOCATION_SYS_INFO_LEAP_SECOND \<equiv> 1"

definition LocationSystemInfoDataBits :: "int list" where
  "LocationSystemInfoDataBits =
    [LOCATION_SYS_INFO_LEAP_SECOND]"

subsection \<open>\<^verbatim>\<open>PBLocationSystemInfoMask\<close> (LocationApiDataTypes.proto)\<close>

abbreviation (input) PB_LOCATION_SYS_INFO_INVALID :: int where "PB_LOCATION_SYS_INFO_INVALID \<equiv> 0"
abbreviation (input) PB_LOCATION_SYS_INFO_LEAP_SECOND :: int where "PB_LOCATION_SYS_INFO_LEAP_SECOND \<equiv> 1"

definition PBLocationSystemInfoMask :: "int list" where
  "PBLocationSystemInfoMask =
    [PB_LOCATION_SYS_INFO_INVALID,
     PB_LOCATION_SYS_INFO_LEAP_SECOND]"

subsection \<open>\<^verbatim>\<open>GnssDataBits\<close> (LocationDataTypes.h)\<close>

abbreviation (input) GNSS_LOC_DATA_JAMMER_IND_BIT :: int where "GNSS_LOC_DATA_JAMMER_IND_BIT \<equiv> 1"
abbreviation (input) GNSS_LOC_DATA_AGC_BIT :: int where "GNSS_LOC_DATA_AGC_BIT \<equiv> 2"

definition GnssDataBits :: "int list" where
  "GnssDataBits =
    [GNSS_LOC_DATA_JAMMER_IND_BIT,
     GNSS_LOC_DATA_AGC_BIT]"

subsection \<open>\<^verbatim>\<open>PBGnssDataMask\<close> (LocationApiDataTypes.proto)\<close>

abbreviation (input) PB_GNSS_LOC_DATA_INVALID :: int where "PB_GNSS_LOC_DATA_INVALID \<equiv> 0"
abbreviation (input) PB_GNSS_LOC_DATA_JAMMER_IND_BIT :: int where "PB_GNSS_LOC_DATA_JAMMER_IND_BIT \<equiv> 1"
abbreviation (input) PB_GNSS_LOC_DATA_AGC_BIT :: int where "PB_GNSS_LOC_DATA_AGC_BIT \<equiv> 2"

definition PBGnssDataMask :: "int list" where
  "PBGnssDataMask =
    [PB_GNSS_LOC_DATA_INVALID,
     PB_GNSS_LOC_DATA_JAMMER_IND_BIT,
     PB_GNSS_LOC_DATA_AGC_BIT]"

subsection \<open>\<^verbatim>\<open>GnssAidingDataSvBits\<close> (LocationDataTypes.h)\<close>

abbreviation (input) GNSS_AIDING_DATA_SV_EPHEMERIS_BIT :: int where "GNSS_AIDING_DATA_SV_EPHEMERIS_BIT \<equiv> 1"
abbreviation (input) GNSS_AIDING_DATA_SV_ALMANAC_BIT :: int where "GNSS_AIDING_DATA_SV_ALMANAC_BIT \<equiv> 2"
abbreviation (input) GNSS_AIDING_DATA_SV_HEALTH_BIT :: int where "GNSS_AIDING_DATA_SV_HEALTH_BIT \<equiv> 4"
abbreviation (input) GNSS_AIDING_DATA_SV_DIRECTION_BIT :: int where "GNSS_AIDING_DATA_SV_DIRECTION_BIT \<equiv> 8"
abbreviation (input) GNSS_AIDING_DATA_SV_STEER_BIT :: int where "GNSS_AIDING_DATA_SV_STEER_BIT \<equiv> 16"
abbreviation (input) GNSS_AIDING_DATA_SV_ALMANAC_CORR_BIT :: int where "GNSS_AIDING_DATA_SV_ALMANAC_CORR_BIT \<equiv> 32"
abbreviation (input) GNSS_AIDING_DATA_SV_BLACKLIST_BIT :: int where "GNSS_AIDING_DATA_SV_BLACKLIST_BIT \<equiv> 64"
abbreviation (input) GNSS_AIDING_DATA_SV_SA_DATA_BIT :: int where "GNSS_AIDING_DATA_SV_SA_DATA_BIT \<equiv> 128"
abbreviation (input) GNSS_AIDING_DATA_SV_NO_EXIST_BIT :: int where "GNSS_AIDING_DATA_SV_NO_EXIST_BIT \<equiv> 256"
abbreviation (input) GNSS_AIDING_DATA_SV_IONOSPHERE_BIT :: int where "GNSS_AIDING_DATA_SV_IONOSPHERE_BIT \<equiv> 512"
abbreviation (input) GNSS_AIDING_DATA_SV_TIME_BIT :: int where "GNSS_AIDING_DATA_SV_TIME_BIT \<equiv> 1024"
abbreviation (input) GNSS_AIDING_DATA_SV_MB_DATA :: int where "GNSS_AIDING_DATA_SV_MB_DATA \<equiv> 2048"
abbreviation (input) GNSS_AIDING_DATA_SV_POLY_BIT :: int where "GNSS_AIDING_DATA_SV_POLY_BIT \<equiv> 4096"

definition GnssAidingDataSvBits :: "int list" where
  "GnssAidingDataSvBits =
    [GNSS_AIDING_DATA_SV_EPHEMERIS_BIT,
     GNSS_AIDING_DATA_SV_ALMANAC_BIT,
     GNSS_AIDING_DATA_SV_HEALTH_BIT,
     GNSS_AIDING_DATA_SV_DIRECTION_BIT,
     GNSS_AIDING_DATA_SV_STEER_BIT,
     GNSS_AIDING_DATA_SV_ALMANAC_CORR_BIT,
     GNSS_AIDING_DATA_SV_BLACKLIST_BIT,
     GNSS_AIDING_DATA_SV_SA_DATA_BIT,
     GNSS_AIDING_DATA_SV_NO_EXIST_BIT,
     GNSS_AIDING_DATA_SV_IONOSPHERE_BIT,
     GNSS_AIDING_DATA_SV_TIME_BIT,
     GNSS_AIDING_DATA_SV_MB_DATA,
     GNSS_AIDING_DATA_SV_POLY_BIT]"

subsection \<open>\<^verbatim>\<open>PBLocApiGnssAidingDataSvMask\<close> (LocationApiDataTypes.proto)\<close>

abbreviation (input) PB_AIDING_DATA_SV_MASK_INVALID :: int where "PB_AIDING_DATA_SV_MASK_INVALID \<equiv> 0"
abbreviation (input) PB_AIDING_DATA_SV_EPHEMERIS_BIT :: int where "PB_AIDING_DATA_SV_EPHEMERIS_BIT \<equiv> 1"

definition PBLocApiGnssAidingDataSvMask :: "int list" where
  "PBLocApiGnssAidingDataSvMask =
    [PB_AIDING_DATA_SV_MASK_INVALID,
     PB_AIDING_DATA_SV_EPHEMERIS_BIT]"

subsection \<open>\<^verbatim>\<open>LeapSecondSysInfoDataBits\<close> (LocationDataTypes.h)\<close>

abbreviation (input) LEAP_SECOND_SYS_INFO_CURRENT_LEAP_SECONDS_BIT :: int where "LEAP_SECOND_SYS_INFO_CURRENT_LEAP_SECONDS_BIT \<equiv> 1"
abbreviation (input) LEAP_SECOND_SYS_INFO_LEAP_SECOND_CHANGE_BIT :: int where "LEAP_SECOND_SYS_INFO_LEAP_SECOND_CHANGE_BIT \<equiv> 2"

definition LeapSecondSysInfoDataBits :: "int list" where
  "LeapSecondSysInfoDataBits =
    [LEAP_SECOND_SYS_INFO_CURRENT_LEAP_SECONDS_BIT,
     LEAP_SECOND_SYS_INFO_LEAP_SECOND_CHANGE_BIT]"

subsection \<open>\<^verbatim>\<open>PBLeapSecondSysInfoMask\<close> (LocationApiDataTypes.proto)\<close>

abbreviation (input) PB_LEAP_SECOND_SYS_INFO_INVALID :: int where "PB_LEAP_SECOND_SYS_INFO_INVALID \<equiv> 0"
abbreviation (input) PB_LEAP_SECOND_SYS_INFO_CURRENT_LEAP_SECONDS_BIT :: int where "PB_LEAP_SECOND_SYS_INFO_CURRENT_LEAP_SECONDS_BIT \<equiv> 1"
abbreviation (input) PB_LEAP_SECOND_SYS_INFO_LEAP_SECOND_CHANGE_BIT :: int where "PB_LEAP_SECOND_SYS_INFO_LEAP_SECOND_CHANGE_BIT \<equiv> 2"

definition PBLeapSecondSysInfoMask :: "int list" where
  "PBLeapSecondSysInfoMask =
    [PB_LEAP_SECOND_SYS_INFO_INVALID,
     PB_LEAP_SECOND_SYS_INFO_CURRENT_LEAP_SECONDS_BIT,
     PB_LEAP_SECOND_SYS_INFO_LEAP_SECOND_CHANGE_BIT]"

subsection \<open>\<^verbatim>\<open>GnssSystemTimeTypeBits\<close> (LocationDataTypes.h)\<close>

abbreviation (input) GNSS_SYSTEM_TIME_WEEK_VALID :: int where "GNSS_SYSTEM_TIME_WEEK_VALID \<equiv> 1"
abbreviation (input) GNSS_SYSTEM_TIME_WEEK_MS_VALID :: int where "GNSS_SYSTEM_TIME_WEEK_MS_VALID \<equiv> 2"
abbreviation (input) GNSS_SYSTEM_CLK_TIME_BIAS_VALID :: int where "GNSS_SYSTEM_CLK_TIME_BIAS_VALID \<equiv> 4"
abbreviation (input) GNSS_SYSTEM_CLK_TIME_BIAS_UNC_VALID :: int where "GNSS_SYSTEM_CLK_TIME_BIAS_UNC_VALID \<equiv> 8"
abbreviation (input) GNSS_SYSTEM_REF_FCOUNT_VALID :: int where "GNSS_SYSTEM_REF_FCOUNT_VALID \<equiv> 16"
abbreviation (input) GNSS_SYSTEM_NUM_CLOCK_RESETS_VALID :: int where "GNSS_SYSTEM_NUM_CLOCK_RESETS_VALID \<equiv> 32"

definition GnssSystemTimeTypeBits :: "int list" where
  "GnssSystemTimeTypeBits =
    [GNSS_SYSTEM_TIME_WEEK_VALID,
     GNSS_SYSTEM_TIME_WEEK_MS_VALID,
     GNSS_SYSTEM_CLK_TIME_BIAS_VALID,
     GNSS_SYSTEM_CLK_TIME_BIAS_UNC_VALID,
     GNSS_SYSTEM_REF_FCOUNT_VALID,
     GNSS_SYSTEM_NUM_CLOCK_RESETS_VALID]"

subsection \<open>\<^verbatim>\<open>PBLocApiGnssSystemTimeStructTypeFlags\<close> (LocationApiDataTypes.proto)\<close>

abbreviation (input) PB_GNSS_SYSTEM_TIME_FLAG_INVALID :: int where "PB_GNSS_SYSTEM_TIME_FLAG_INVALID \<equiv> 0"
abbreviation (input) PB_GNSS_SYSTEM_TIME_WEEK_VALID :: int where "PB_GNSS_SYSTEM_TIME_WEEK_VALID \<equiv> 1"
abbreviation (input) PB_GNSS_SYSTEM_TIME_WEEK_MS_VALID :: int where "PB_GNSS_SYSTEM_TIME_WEEK_MS_VALID \<equiv> 2"
abbreviation (input) PB_GNSS_SYSTEM_CLK_TIME_BIAS_VALID :: int where "PB_GNSS_SYSTEM_CLK_TIME_BIAS_VALID \<equiv> 4"
abbreviation (input) PB_GNSS_SYSTEM_CLK_TIME_BIAS_UNC_VALID :: int where "PB_GNSS_SYSTEM_CLK_TIME_BIAS_UNC_VALID \<equiv> 8"
abbreviation (input) PB_GNSS_SYSTEM_REF_FCOUNT_VALID :: int where "PB_GNSS_SYSTEM_REF_FCOUNT_VALID \<equiv> 16"
abbreviation (input) PB_GNSS_SYSTEM_NUM_CLOCK_RESETS_VALID :: int where "PB_GNSS_SYSTEM_NUM_CLOCK_RESETS_VALID \<equiv> 32"

definition PBLocApiGnssSystemTimeStructTypeFlags :: "int list" where
  "PBLocApiGnssSystemTimeStructTypeFlags =
    [PB_GNSS_SYSTEM_TIME_FLAG_INVALID,
     PB_GNSS_SYSTEM_TIME_WEEK_VALID,
     PB_GNSS_SYSTEM_TIME_WEEK_MS_VALID,
     PB_GNSS_SYSTEM_CLK_TIME_BIAS_VALID,
     PB_GNSS_SYSTEM_CLK_TIME_BIAS_UNC_VALID,
     PB_GNSS_SYSTEM_REF_FCOUNT_VALID,
     PB_GNSS_SYSTEM_NUM_CLOCK_RESETS_VALID]"

subsection \<open>\<^verbatim>\<open>LocationFlagsBits\<close> (LocationDataTypes.h)\<close>

abbreviation (input) LOCATION_HAS_LAT_LONG_BIT :: int where "LOCATION_HAS_LAT_LONG_BIT \<equiv> 1"
abbreviation (input) LOCATION_HAS_ALTITUDE_BIT :: int where "LOCATION_HAS_ALTITUDE_BIT \<equiv> 2"
abbreviation (input) LOCATION_HAS_SPEED_BIT :: int where "LOCATION_HAS_SPEED_BIT \<equiv> 4"
abbreviation (input) LOCATION_HAS_BEARING_BIT :: int where "LOCATION_HAS_BEARING_BIT \<equiv> 8"
abbreviation (input) LOCATION_HAS_ACCURACY_BIT :: int where "LOCATION_HAS_ACCURACY_BIT \<equiv> 16"
abbreviation (input) LOCATION_HAS_VERTICAL_ACCURACY_BIT :: int where "LOCATION_HAS_VERTICAL_ACCURACY_BIT \<equiv> 32"
abbreviation (input) LOCATION_HAS_SPEED_ACCURACY_BIT :: int where "LOCATION_HAS_SPEED_ACCURACY_BIT \<equiv> 64"
abbreviation (input) LOCATION_HAS_BEARING_ACCURACY_BIT :: int where "LOCATION_HAS_BEARING_ACCURACY_BIT \<equiv> 128"
abbreviation (input) LOCATION_HAS_SPOOF_MASK :: int where "LOCATION_HAS_SPOOF_MASK \<equiv> 256"
abbreviation (input) LOCATION_HAS_ELAPSED_REAL_TIME :: int where "LOCATION_HAS_ELAPSED_REAL_TIME \<equiv> 512"
abbreviation (input) LOCATION_HAS_CONFORMITY_INDEX_BIT :: int where "LOCATION_HAS_CONFORMITY_INDEX_BIT \<equiv> 1024"

definition LocationFlagsBits :: "int list" where
  "LocationFlagsBits =
    [LOCATION_HAS_LAT_LONG_BIT,
     LOCATION_HAS_ALTITUDE_BIT,
     LOCATION_HAS_SPEED_BIT,
     LOCATION_HAS_BEARING_BIT,
     LOCATION_HAS_ACCURACY_BIT,
     LOCATION_HAS_VERTICAL_ACCURACY_BIT,
     LOCATION_HAS_SPEED_ACCURACY_BIT,
     LOCATION_HAS_BEARING_ACCURACY_BIT,
     LOCATION_HAS_SPOOF_MASK,
     LOCATION_HAS_ELAPSED_REAL_TIME,
     LOCATION_HAS_CONFORMITY_INDEX_BIT]"

subsection \<open>\<^verbatim>\<open>PBLocationFlagsMask\<close> (LocationApiDataTypes.proto)\<close>

abbreviation (input) PB_LOCATION_FLAGS_INVALID :: int where "PB_LOCATION_FLAGS_INVALID \<equiv> 0"
abbreviation (input) PB_LOCATION_HAS_LAT_LONG_BIT :: int where "PB_LOCATION_HAS_LAT_LONG_BIT \<equiv> 1"
abbreviation (input) PB_LOCATION_HAS_ALTITUDE_BIT :: int where "PB_LOCATION_HAS_ALTITUDE_BIT \<equiv> 2"
abbreviation (input) PB_LOCATION_HAS_SPEED_BIT :: int where "PB_LOCATION_HAS_SPEED_BIT \<equiv> 4"
abbreviation (input) PB_LOCATION_HAS_BEARING_BIT :: int where "PB_LOCATION_HAS_BEARING_BIT \<equiv> 8"
abbreviation (input) PB_LOCATION_HAS_ACCURACY_BIT :: int where "PB_LOCATION_HAS_ACCURACY_BIT \<equiv> 16"
abbreviation (input) PB_LOCATION_HAS_VERTICAL_ACCURACY_BIT :: int where "PB_LOCATION_HAS_VERTICAL_ACCURACY_BIT \<equiv> 32"
abbreviation (input) PB_LOCATION_HAS_SPEED_ACCURACY_BIT :: int where "PB_LOCATION_HAS_SPEED_ACCURACY_BIT \<equiv> 64"
abbreviation (input) PB_LOCATION_HAS_BEARING_ACCURACY_BIT :: int where "PB_LOCATION_HAS_BEARING_ACCURACY_BIT \<equiv> 128"
abbreviation (input) PB_LOCATION_HAS_TIMESTAMP_BIT :: int where "PB_LOCATION_HAS_TIMESTAMP_BIT \<equiv> 256"

definition PBLocationFlagsMask :: "int list" where
  "PBLocationFlagsMask =
    [PB_LOCATION_FLAGS_INVALID,
     PB_LOCATION_HAS_LAT_LONG_BIT,
     PB_LOCATION_HAS_ALTITUDE_BIT,
     PB_LOCATION_HAS_SPEED_BIT,
     PB_LOCATION_HAS_BEARING_BIT,
     PB_LOCATION_HAS_ACCURACY_BIT,
     PB_LOCATION_HAS_VERTICAL_ACCURACY_BIT,
     PB_LOCATION_HAS_SPEED_ACCURACY_BIT,
     PB_LOCATION_HAS_BEARING_ACCURACY_BIT,
     PB_LOCATION_HAS_TIMESTAMP_BIT]"

subsection \<open>\<^verbatim>\<open>LocationTechnologyBits\<close> (LocationDataTypes.h)\<close>

abbreviation (input) LOCATION_TECHNOLOGY_GNSS_BIT :: int where "LOCATION_TECHNOLOGY_GNSS_BIT \<equiv> 1"
abbreviation (input) LOCATION_TECHNOLOGY_CELL_BIT :: int where "LOCATION_TECHNOLOGY_CELL_BIT \<equiv> 2"
abbreviation (input) LOCATION_TECHNOLOGY_WIFI_BIT :: int where "LOCATION_TECHNOLOGY_WIFI_BIT \<equiv> 4"
abbreviation (input) LOCATION_TECHNOLOGY_SENSORS_BIT :: int where "LOCATION_TECHNOLOGY_SENSORS_BIT \<equiv> 8"
abbreviation (input) LOCATION_TECHNOLOGY_REFERENCE_LOCATION_BIT :: int where "LOCATION_TECHNOLOGY_REFERENCE_LOCATION_BIT \<equiv> 16"
abbreviation (input) LOCATION_TECHNOLOGY_INJECTED_COARSE_POSITION_BIT :: int where "LOCATION_TECHNOLOGY_INJECTED_COARSE_POSITION_BIT \<equiv> 32"
abbreviation (input) LOCATION_TECHNOLOGY_AFLT_BIT :: int where "LOCATION_TECHNOLOGY_AFLT_BIT \<equiv> 64"
abbreviation (input) LOCATION_TECHNOLOGY_HYBRID_BIT :: int where "LOCATION_TECHNOLOGY_HYBRID_BIT \<equiv> 128"
abbreviation (input) LOCATION_TECHNOLOGY_PPE_BIT :: int where "LOCATION_TECHNOLOGY_PPE_BIT \<equiv> 256"
abbreviation (input) LOCATION_TECHNOLOGY_VEH_BIT :: int where "LOCATION_TECHNOLOGY_VEH_BIT \<equiv> 512"
abbreviation (input) LOCATION_TECHNOLOGY_VIS_BIT :: int where "LOCATION_TECHNOLOGY_VIS_BIT \<equiv> 1024"
abbreviation (input) LOCATION_TECHNOLOGY_DGNSS_BIT :: int where "LOCATION_TECHNOLOGY_DGNSS_BIT \<equiv> 2048"

definition LocationTechnologyBits :: "int list" where
  "LocationTechnologyBits =
    [LOCATION_TECHNOLOGY_GNSS_BIT,
     LOCATION_TECHNOLOGY_CELL_BIT,
     LOCATION_TECHNOLOGY_WIFI_BIT,
     LOCATION_TECHNOLOGY_SENSORS_BIT,
     LOCATION_TECHNOLOGY_REFERENCE_LOCATION_BIT,
     LOCATION_TECHNOLOGY_INJECTED_COARSE_POSITION_BIT,
     LOCATION_TECHNOLOGY_AFLT_BIT,
     LOCATION_TECHNOLOGY_HYBRID_BIT,
     LOCATION_TECHNOLOGY_PPE_BIT,
     LOCATION_TECHNOLOGY_VEH_BIT,
     LOCATION_TECHNOLOGY_VIS_BIT,
     LOCATION_TECHNOLOGY_DGNSS_BIT]"

subsection \<open>\<^verbatim>\<open>PBLocationTechnologyMask\<close> (LocationApiDataTypes.proto)\<close>

abbreviation (input) PB_LOCATION_TECHNOLOGY_INVALID :: int where "PB_LOCATION_TECHNOLOGY_INVALID \<equiv> 0"
abbreviation (input) PB_LOCATION_TECHNOLOGY_GNSS_BIT :: int where "PB_LOCATION_TECHNOLOGY_GNSS_BIT \<equiv> 1"
abbreviation (input) PB_LOCATION_TECHNOLOGY_CELL_BIT :: int where "PB_LOCATION_TECHNOLOGY_CELL_BIT \<equiv> 2"
abbreviation (input) PB_LOCATION_TECHNOLOGY_WIFI_BIT :: int where "PB_LOCATION_TECHNOLOGY_WIFI_BIT \<equiv> 4"
abbreviation (input) PB_LOCATION_TECHNOLOGY_SENSORS_BIT :: int where "PB_LOCATION_TECHNOLOGY_SENSORS_BIT \<equiv> 8"
abbreviation (input) PB_LOCATION_TECHNOLOGY_REFERENCE_LOCATION_BIT :: int where "PB_LOCATION_TECHNOLOGY_REFERENCE_LOCATION_BIT \<equiv> 16"
abbreviation (input) PB_LOCATION_TECHNOLOGY_INJECTED_COARSE_POSITION_BIT :: int where "PB_LOCATION_TECHNOLOGY_INJECTED_COARSE_POSITION_BIT \<equiv> 32"
abbreviation (input) PB_LOCATION_TECHNOLOGY_AFLT_BIT :: int where "PB_LOCATION_TECHNOLOGY_AFLT_BIT \<equiv> 64"
abbreviation (input) PB_LOCATION_TECHNOLOGY_HYBRID_BIT :: int where "PB_LOCATION_TECHNOLOGY_HYBRID_BIT \<equiv> 128"
abbreviation (input) PB_LOCATION_TECHNOLOGY_PPE_BIT :: int where "PB_LOCATION_TECHNOLOGY_PPE_BIT \<equiv> 256"
abbreviation (input) PB_LOCATION_TECHNOLOGY_VEH_BIT :: int where "PB_LOCATION_TECHNOLOGY_VEH_BIT \<equiv> 512"
abbreviation (input) PB_LOCATION_TECHNOLOGY_VIS_BIT :: int where "PB_LOCATION_TECHNOLOGY_VIS_BIT \<equiv> 1024"

definition PBLocationTechnologyMask :: "int list" where
  "PBLocationTechnologyMask =
    [PB_LOCATION_TECHNOLOGY_INVALID,
     PB_LOCATION_TECHNOLOGY_GNSS_BIT,
     PB_LOCATION_TECHNOLOGY_CELL_BIT,
     PB_LOCATION_TECHNOLOGY_WIFI_BIT,
     PB_LOCATION_TECHNOLOGY_SENSORS_BIT,
     PB_LOCATION_TECHNOLOGY_REFERENCE_LOCATION_BIT,
     PB_LOCATION_TECHNOLOGY_INJECTED_COARSE_POSITION_BIT,
     PB_LOCATION_TECHNOLOGY_AFLT_BIT,
     PB_LOCATION_TECHNOLOGY_HYBRID_BIT,
     PB_LOCATION_TECHNOLOGY_PPE_BIT,
     PB_LOCATION_TECHNOLOGY_VEH_BIT,
     PB_LOCATION_TECHNOLOGY_VIS_BIT]"

subsection \<open>\<^verbatim>\<open>GnssLocationInfoFlagBits\<close> (LocationDataTypes.h)\<close>

abbreviation (input) GNSS_LOCATION_INFO_ALTITUDE_MEAN_SEA_LEVEL_BIT :: int where "GNSS_LOCATION_INFO_ALTITUDE_MEAN_SEA_LEVEL_BIT \<equiv> 1"
abbreviation (input) GNSS_LOCATION_INFO_DOP_BIT :: int where "GNSS_LOCATION_INFO_DOP_BIT \<equiv> 2"
abbreviation (input) GNSS_LOCATION_INFO_MAGNETIC_DEVIATION_BIT :: int where "GNSS_LOCATION_INFO_MAGNETIC_DEVIATION_BIT \<equiv> 4"
abbreviation (input) GNSS_LOCATION_INFO_HOR_RELIABILITY_BIT :: int where "GNSS_LOCATION_INFO_HOR_RELIABILITY_BIT \<equiv> 8"
abbreviation (input) GNSS_LOCATION_INFO_VER_RELIABILITY_BIT :: int where "GNSS_LOCATION_INFO_VER_RELIABILITY_BIT \<equiv> 16"
abbreviation (input) GNSS_LOCATION_INFO_HOR_ACCURACY_ELIP_SEMI_MAJOR_BIT :: int where "GNSS_LOCATION_INFO_HOR_ACCURACY_ELIP_SEMI_MAJOR_BIT \<equiv> 32"
abbreviation (input) GNSS_LOCATION_INFO_HOR_ACCURACY_ELIP_SEMI_MINOR_BIT :: int where "GNSS_LOCATION_INFO_HOR_ACCURACY_ELIP_SEMI_MINOR_BIT \<equiv> 64"
abbreviation (input) GNSS_LOCATION_INFO_HOR_ACCURACY_ELIP_AZIMUTH_BIT :: int where "GNSS_LOCATION_INFO_HOR_ACCURACY_ELIP_AZIMUTH_BIT \<equiv> 128"
abbreviation (input) GNSS_LOCATION_INFO_GNSS_SV_USED_DATA_BIT :: int where "GNSS_LOCATION_INFO_GNSS_SV_USED_DATA_BIT \<equiv> 256"
abbreviation (input) GNSS_LOCATION_INFO_NAV_SOLUTION_MASK_BIT :: int where "GNSS_LOCATION_INFO_NAV_SOLUTION_MASK_BIT \<equiv> 512"
abbreviation (input) GNSS_LOCATION_INFO_SV_SOURCE_INFO_BIT :: int where "GNSS_LOCATION_INFO_SV_SOURCE_INFO_BIT \<equiv> 1024"
abbreviation (input) GNSS_LOCATION_INFO_POS_DYNAMICS_DATA_BIT :: int where "GNSS_LOCATION_INFO_POS_DYNAMICS_DATA_BIT \<equiv> 2048"
abbreviation (input) GNSS_LOCATION_INFO_EXT_DOP_BIT :: int where "GNSS_LOCATION_INFO_EXT_DOP_BIT \<equiv> 4096"
abbreviation (input) GNSS_LOCATION_INFO_NORTH_STD_DEV_BIT :: int where "GNSS_LOCATION_INFO_NORTH_STD_DEV_BIT \<equiv> 8192"
abbreviation (input) GNSS_LOCATION_INFO_EAST_STD_DEV_BIT :: int where "GNSS_LOCATION_INFO_EAST_STD_DEV_BIT \<equiv> 16384"
abbreviation (input) GNSS_LOCATION_INFO_NORTH_VEL_BIT :: int where "GNSS_LOCATION_INFO_NORTH_VEL_BIT \<equiv> 32768"
abbreviation (input) GNSS_LOCATION_INFO_EAST_VEL_BIT :: int where "GNSS_LOCATION_INFO_EAST_VEL_BIT \<equiv> 65536"
abbreviation (input) GNSS_LOCATION_INFO_UP_VEL_BIT :: int where "GNSS_LOCATION_INFO_UP_VEL_BIT \<equiv> 131072"
abbreviation (input) GNSS_LOCATION_INFO_NORTH_VEL_UNC_BIT :: int where "GNSS_LOCATION_INFO_NORTH_VEL_UNC_BIT \<equiv> 262144"
abbreviation (input) GNSS_LOCATION_INFO_EAST_VEL_UNC_BIT :: int where "GNSS_LOCATION_INFO_EAST_VEL_UNC_BIT \<equiv> 524288"
abbreviation (input) GNSS_LOCATION_INFO_UP_VEL_UNC_BIT :: int where "GNSS_LOCATION_INFO_UP_VEL_UNC_BIT \<equiv> 1048576"
abbreviation (input) GNSS_LOCATION_INFO_LEAP_SECONDS_BIT :: int where "GNSS_LOCATION_INFO_LEAP_SECONDS_BIT \<equiv> 2097152"
abbreviation (input) GNSS_LOCATION_INFO_TIME_UNC_BIT :: int where "GNSS_LOCATION_INFO_TIME_UNC_BIT \<equiv> 4194304"
abbreviation (input) GNSS_LOCATION_INFO_NUM_SV_USED_IN_POSITION_BIT :: int where "GNSS_LOCATION_INFO_NUM_SV_USED_IN_POSITION_BIT \<equiv> 8388608"
abbreviation (input) GNSS_LOCATION_INFO_CALIBRATION_CONFIDENCE_BIT :: int where "GNSS_LOCATION_INFO_CALIBRATION_CONFIDENCE_BIT \<equiv> 16777216"
abbreviation (input) GNSS_LOCATION_INFO_CALIBRATION_STATUS_BIT :: int where "GNSS_LOCATION_INFO_CALIBRATION_STATUS_BIT \<equiv> 33554432"
abbreviation (input) GNSS_LOCATION_INFO_OUTPUT_ENG_TYPE_BIT :: int where "GNSS_LOCATION_INFO_OUTPUT_ENG_TYPE_BIT \<equiv> 67108864"
abbreviation (input) GNSS_LOCATION_INFO_OUTPUT_ENG_MASK_BIT :: int where "GNSS_LOCATION_INFO_OUTPUT_ENG_MASK_BIT \<equiv> 134217728"
abbreviation (input) GNSS_LOCATION_INFO_CONFORMITY_INDEX_BIT :: int where "GNSS_LOCATION_INFO_CONFORMITY_INDEX_BIT \<equiv> 268435456"
abbreviation (input) GNSS_LOCATION_INFO_LLA_VRP_BASED_BIT :: int where "GNSS_LOCATION_INFO_LLA_VRP_BASED_BIT \<equiv> 536870912"
abbreviation (input) GNSS_LOCATION_INFO_ENU_VELOCITY_VRP_BASED_BIT :: int where "GNSS_LOCATION_INFO_ENU_VELOCITY_VRP_BASED_BIT \<equiv> 1073741824"
abbreviation (input) GNSS_LOCATION_INFO_DR_SOLUTION_STATUS_MASK_BIT :: int where "GNSS_LOCATION_INFO_DR_SOLUTION_STATUS_MASK_BIT \<equiv> 2147483648"
abbreviation (input) GNSS_LOCATION_INFO_ALTITUDE_ASSUMED_BIT :: int where "GNSS_LOCATION_INFO_ALTITUDE_ASSUMED_BIT \<equiv> 4294967296"
abbreviation (input) GNSS_LOCATION_INFO_SESSION_STATUS_BIT :: int where "GNSS_LOCATION_INFO_SESSION_STATUS_BIT \<equiv> 8589934592"

definition GnssLocationInfoFlagBits :: "int list" where
  "GnssLocationInfoFlagBits =
    [GNSS_LOCATION_INFO_ALTITUDE_MEAN_SEA_LEVEL_BIT,
     GNSS_LOCATION_INFO_DOP_BIT,
     GNSS_LOCATION_INFO_MAGNETIC_DEVIATION_BIT,
     GNSS_LOCATION_INFO_HOR_RELIABILITY_BIT,
     GNSS_LOCATION_INFO_VER_RELIABILITY_BIT,
     GNSS_LOCATION_INFO_HOR_ACCURACY_ELIP_SEMI_MAJOR_BIT,
     GNSS_LOCATION_INFO_HOR_ACCURACY_ELIP_SEMI_MINOR_BIT,
     GNSS_LOCATION_INFO_HOR_ACCURACY_ELIP_AZIMUTH_BIT,
     GNSS_LOCATION_INFO_GNSS_SV_USED_DATA_BIT,
     GNSS_LOCATION_INFO_NAV_SOLUTION_MASK_BIT,
     GNSS_LOCATION_INFO_SV_SOURCE_INFO_BIT,
     GNSS_LOCATION_INFO_POS_DYNAMICS_DATA_BIT,
     GNSS_LOCATION_INFO_EXT_DOP_BIT,
     GNSS_LOCATION_INFO_NORTH_STD_DEV_BIT,
     GNSS_LOCATION_INFO_EAST_STD_DEV_BIT,
     GNSS_LOCATION_INFO_NORTH_VEL_BIT,
     GNSS_LOCATION_INFO_EAST_VEL_BIT,
     GNSS_LOCATION_INFO_UP_VEL_BIT,
     GNSS_LOCATION_INFO_NORTH_VEL_UNC_BIT,
     GNSS_LOCATION_INFO_EAST_VEL_UNC_BIT,
     GNSS_LOCATION_INFO_UP_VEL_UNC_BIT,
     GNSS_LOCATION_INFO_LEAP_SECONDS_BIT,
     GNSS_LOCATION_INFO_TIME_UNC_BIT,
     GNSS_LOCATION_INFO_NUM_SV_USED_IN_POSITION_BIT,
     GNSS_LOCATION_INFO_CALIBRATION_CONFIDENCE_BIT,
     GNSS_LOCATION_INFO_CALIBRATION_STATUS_BIT,
     GNSS_LOCATION_INFO_OUTPUT_ENG_TYPE_BIT,
     GNSS_LOCATION_INFO_OUTPUT_ENG_MASK_BIT,
     GNSS_LOCATION_INFO_CONFORMITY_INDEX_BIT,
     GNSS_LOCATION_INFO_LLA_VRP_BASED_BIT,
     GNSS_LOCATION_INFO_ENU_VELOCITY_VRP_BASED_BIT,
     GNSS_LOCATION_INFO_DR_SOLUTION_STATUS_MASK_BIT,
     GNSS_LOCATION_INFO_ALTITUDE_ASSUMED_BIT,
     GNSS_LOCATION_INFO_SESSION_STATUS_BIT]"

subsection \<open>\<^verbatim>\<open>PBGnssLocationInfoFlagMask\<close> (LocationApiDataTypes.proto)\<close>

abbreviation (input) PB_GNSS_LOCATION_INFO_INVALID :: int where "PB_GNSS_LOCATION_INFO_INVALID \<equiv> 0"
abbreviation (input) PB_GNSS_LOCATION_INFO_ALTITUDE_MEAN_SEA_LEVEL_BIT :: int where "PB_GNSS_LOCATION_INFO_ALTITUDE_MEAN_SEA_LEVEL_BIT \<equiv> 1"
abbreviation (input) PB_GNSS_LOCATION_INFO_DOP_BIT :: int where "PB_GNSS_LOCATION_INFO_DOP_BIT \<equiv> 2"
abbreviation (input) PB_GNSS_LOCATION_INFO_EXT_DOP_BIT :: int where "PB_GNSS_LOCATION_INFO_EXT_DOP_BIT \<equiv> 4"
abbreviation (input) PB_GNSS_LOCATION_INFO_MAGNETIC_DEVIATION_BIT :: int where "PB_GNSS_LOCATION_INFO_MAGNETIC_DEVIATION_BIT \<equiv> 8"
abbreviation (input) PB_GNSS_LOCATION_INFO_HOR_RELIABILITY_BIT :: int where "PB_GNSS_LOCATION_INFO_HOR_RELIABILITY_BIT \<equiv> 16"
abbreviation (input) PB_GNSS_LOCATION_INFO_VER_RELIABILITY_BIT :: int where "PB_GNSS_LOCATION_INFO_VER_RELIABILITY_BIT \<equiv> 32"
abbreviation (input) PB_GNSS_LOCATION_INFO_HOR_ACCURACY_ELIP_SEMI_MAJOR_BIT :: int where "PB_GNSS_LOCATION_INFO_HOR_ACCURACY_ELIP_SEMI_MAJOR_BIT \<equiv> 64"
abbreviation (input) PB_GNSS_LOCATION_INFO_HOR_ACCURACY_ELIP_SEMI_MINOR_BIT :: int where "PB_GNSS_LOCATION_INFO_HOR_ACCURACY_ELIP_SEMI_MINOR_BIT \<equiv> 128"
abbreviation (input) PB_GNSS_LOCATION_INFO_HOR_ACCURACY_ELIP_AZIMUTH_BIT :: int where "PB_GNSS_LOCATION_INFO_HOR_ACCURACY_ELIP_AZIMUTH_BIT \<equiv> 256"
abbreviation (input) PB_GNSS_LOCATION_INFO_GNSS_SV_USED_DATA_BIT :: int where "PB_GNSS_LOCATION_INFO_GNSS_SV_USED_DATA_BIT \<equiv> 512"
abbreviation (input) PB_GNSS_LOCATION_INFO_NAV_SOLUTION_MASK_BIT :: int where "PB_GNSS_LOCATION_INFO_NAV_SOLUTION_MASK_BIT \<equiv> 1024"
abbreviation (input) PB_GNSS_LOCATION_INFO_POS_DYNAMICS_DATA_BIT :: int where "PB_GNSS_LOCATION_INFO_POS_DYNAMICS_DATA_BIT \<equiv> 2048"
abbreviation (input) PB_GNSS_LOCATION_INFO_NORTH_STD_DEV_BIT :: int where "PB_GNSS_LOCATION_INFO_NORTH_STD_DEV_BIT \<equiv> 4096"
abbreviation (input) PB_GNSS_LOCATION_INFO_EAST_STD_DEV_BIT :: int where "PB_GNSS_LOCATION_INFO_EAST_STD_DEV_BIT \<equiv> 8192"
abbreviation (input) PB_GNSS_LOCATION_INFO_NORTH_VEL_BIT :: int where "PB_GNSS_LOCATION_INFO_NORTH_VEL_BIT \<equiv> 16384"
abbreviation (input) PB_GNSS_LOCATION_INFO_EAST_VEL_BIT :: int where "PB_GNSS_LOCATION_INFO_EAST_VEL_BIT \<equiv> 32768"
abbreviation (input) PB_GNSS_LOCATION_INFO_UP_VEL_BIT :: int where "PB_GNSS_LOCATION_INFO_UP_VEL_BIT \<equiv> 65536"
abbreviation (input) PB_GNSS_LOCATION_INFO_NORTH_VEL_UNC_BIT :: int where "PB_GNSS_LOCATION_INFO_NORTH_VEL_UNC_BIT \<equiv> 131072"
abbreviation (input) PB_GNSS_LOCATION_INFO_EAST_VEL_UNC_BIT :: int where "PB_GNSS_LOCATION_INFO_EAST_VEL_UNC_BIT \<equiv> 262144"
abbreviation (input) PB_GNSS_LOCATION_INFO_UP_VEL_UNC_BIT :: int where "PB_GNSS_LOCATION_INFO_UP_VEL_UNC_BIT \<equiv> 524288"
abbreviation (input) PB_GNSS_LOCATION_INFO_LEAP_SECONDS_BIT :: int where "PB_GNSS_LOCATION_INFO_LEAP_SECONDS_BIT \<equiv> 1048576"
abbreviation (input) PB_GNSS_LOCATION_INFO_TIME_UNC_BIT :: int where "PB_GNSS_LOCATION_INFO_TIME_UNC_BIT \<equiv> 2097152"
abbreviation (input) PB_GNSS_LOCATION_INFO_NUM_SV_USED_IN_POSITION_BIT :: int where "PB_GNSS_LOCATION_INFO_NUM_SV_USED_IN_POSITION_BIT \<equiv> 4194304"
abbreviation (input) PB_GNSS_LOCATION_INFO_CALIBRATION_CONFIDENCE_PERCENT_BIT :: int where "PB_GNSS_LOCATION_INFO_CALIBRATION_CONFIDENCE_PERCENT_BIT \<equiv> 8388608"
abbreviation (input) PB_GNSS_LOCATION_INFO_CALIBRATION_STATUS_BIT :: int where "PB_GNSS_LOCATION_INFO_CALIBRATION_STATUS_BIT \<equiv> 16777216"
abbreviation (input) PB_GNSS_LOCATION_INFO_OUTPUT_ENG_TYPE_BIT :: int where "PB_GNSS_LOCATION_INFO_OUTPUT_ENG_TYPE_BIT \<equiv> 33554432"
abbreviation (input) PB_GNSS_LOCATION_INFO_OUTPUT_ENG_MASK_BIT :: int where "PB_GNSS_LOCATION_INFO_OUTPUT_ENG_MASK_BIT \<equiv> 67108864"
abbreviation (input) PB_GNSS_LOCATION_INFO_CONFORMITY_INDEX_BIT :: int where "PB_GNSS_LOCATION_INFO_CONFORMITY_INDEX_BIT \<equiv> 134217728"
abbreviation (input) PB_GNSS_LOCATION_INFO_LLA_VRP_BASED_BIT :: int where "PB_GNSS_LOCATION_INFO_LLA_VRP_BASED_BIT \<equiv> 268435456"
abbreviation (input) PB_GNSS_LOCATION_INFO_ENU_VELOCITY_VRP_BASED_BIT :: int where "PB_GNSS_LOCATION_INFO_ENU_VELOCITY_VRP_BASED_BIT \<equiv> 536870912"
abbreviation (input) PB_GNSS_LOCATION_INFO_DR_SOLUTION_STATUS_MASK_BIT :: int where "PB_GNSS_LOCATION_INFO_DR_SOLUTION_STATUS_MASK_BIT \<equiv> 1073741824"

definition PBGnssLocationInfoFlagMask :: "int list" where
  "PBGnssLocationInfoFlagMask =
    [PB_GNSS_LOCATION_INFO_INVALID,
     PB_GNSS_LOCATION_INFO_ALTITUDE_MEAN_SEA_LEVEL_BIT,
     PB_GNSS_LOCATION_INFO_DOP_BIT,
     PB_GNSS_LOCATION_INFO_EXT_DOP_BIT,
     PB_GNSS_LOCATION_INFO_MAGNETIC_DEVIATION_BIT,
     PB_GNSS_LOCATION_INFO_HOR_RELIABILITY_BIT,
     PB_GNSS_LOCATION_INFO_VER_RELIABILITY_BIT,
     PB_GNSS_LOCATION_INFO_HOR_ACCURACY_ELIP_SEMI_MAJOR_BIT,
     PB_GNSS_LOCATION_INFO_HOR_ACCURACY_ELIP_SEMI_MINOR_BIT,
     PB_GNSS_LOCATION_INFO_HOR_ACCURACY_ELIP_AZIMUTH_BIT,
     PB_GNSS_LOCATION_INFO_GNSS_SV_USED_DATA_BIT,
     PB_GNSS_LOCATION_INFO_NAV_SOLUTION_MASK_BIT,
     PB_GNSS_LOCATION_INFO_POS_DYNAMICS_DATA_BIT,
     PB_GNSS_LOCATION_INFO_NORTH_STD_DEV_BIT,
     PB_GNSS_LOCATION_INFO_EAST_STD_DEV_BIT,
     PB_GNSS_LOCATION_INFO_NORTH_VEL_BIT,
     PB_GNSS_LOCATION_INFO_EAST_VEL_BIT,
     PB_GNSS_LOCATION_INFO_UP_VEL_BIT,
     PB_GNSS_LOCATION_INFO_NORTH_VEL_UNC_BIT,
     PB_GNSS_LOCATION_INFO_EAST_VEL_UNC_BIT,
     PB_GNSS_LOCATION_INFO_UP_VEL_UNC_BIT,
     PB_GNSS_LOCATION_INFO_LEAP_SECONDS_BIT,
     PB_GNSS_LOCATION_INFO_TIME_UNC_BIT,
     PB_GNSS_LOCATION_INFO_NUM_SV_USED_IN_POSITION_BIT,
     PB_GNSS_LOCATION_INFO_CALIBRATION_CONFIDENCE_PERCENT_BIT,
     PB_GNSS_LOCATION_INFO_CALIBRATION_STATUS_BIT,
     PB_GNSS_LOCATION_INFO_OUTPUT_ENG_TYPE_BIT,
     PB_GNSS_LOCATION_INFO_OUTPUT_ENG_MASK_BIT,
     PB_GNSS_LOCATION_INFO_CONFORMITY_INDEX_BIT,
     PB_GNSS_LOCATION_INFO_LLA_VRP_BASED_BIT,
     PB_GNSS_LOCATION_INFO_ENU_VELOCITY_VRP_BASED_BIT,
     PB_GNSS_LOCATION_INFO_DR_SOLUTION_STATUS_MASK_BIT]"

subsection \<open>\<^verbatim>\<open>PBGnssLocationInfoExtFlagMask\<close> (LocationApiDataTypes.proto)\<close>

abbreviation (input) PB_GNSS_LOCATION_INFO_EXT_INVALID :: int where "PB_GNSS_LOCATION_INFO_EXT_INVALID \<equiv> 0"
abbreviation (input) PB_GNSS_LOCATION_INFO_ALTITUDE_ASSUMED_BIT :: int where "PB_GNSS_LOCATION_INFO_ALTITUDE_ASSUMED_BIT \<equiv> 1"
abbreviation (input) PB_GNSS_LOCATION_INFO_SESSION_STATUS_BIT :: int where "PB_GNSS_LOCATION_INFO_SESSION_STATUS_BIT \<equiv> 2"

definition PBGnssLocationInfoExtFlagMask :: "int list" where
  "PBGnssLocationInfoExtFlagMask =
    [PB_GNSS_LOCATION_INFO_EXT_INVALID,
     PB_GNSS_LOCATION_INFO_ALTITUDE_ASSUMED_BIT,
     PB_GNSS_LOCATION_INFO_SESSION_STATUS_BIT]"

subsection \<open>\<^verbatim>\<open>GnssLocationNavSolutionBits\<close> (LocationDataTypes.h)\<close>

abbreviation (input) LOCATION_SBAS_CORRECTION_IONO_BIT :: int where "LOCATION_SBAS_CORRECTION_IONO_BIT \<equiv> 1"
abbreviation (input) LOCATION_SBAS_CORRECTION_FAST_BIT :: int where "LOCATION_SBAS_CORRECTION_FAST_BIT \<equiv> 2"
abbreviation (input) LOCATION_SBAS_CORRECTION_LONG_BIT :: int where "LOCATION_SBAS_CORRECTION_LONG_BIT \<equiv> 4"
abbreviation (input) LOCATION_SBAS_INTEGRITY_BIT :: int where "LOCATION_SBAS_INTEGRITY_BIT \<equiv> 8"
abbreviation (input) LOCATION_NAV_CORRECTION_DGNSS_BIT :: int where "LOCATION_NAV_CORRECTION_DGNSS_BIT \<equiv> 16"
abbreviation (input) LOCATION_NAV_CORRECTION_RTK_BIT :: int where "LOCATION_NAV_CORRECTION_RTK_BIT \<equiv> 32"
abbreviation (input) LOCATION_NAV_CORRECTION_PPP_BIT :: int where "LOCATION_NAV_CORRECTION_PPP_BIT \<equiv> 64"
abbreviation (input) LOCATION_NAV_CORRECTION_RTK_FIXED_BIT :: int where "LOCATION_NAV_CORRECTION_RTK_FIXED_BIT \<equiv> 128"
abbreviation (input) LOCATION_NAV_CORRECTION_ONLY_SBAS_CORRECTED_SV_USED_BIT :: int where "LOCATION_NAV_CORRECTION_ONLY_SBAS_CORRECTED_SV_USED_BIT \<equiv> 256"

definition GnssLocationNavSolutionBits :: "int list" where
  "GnssLocationNavSolutionBits =
    [LOCATION_SBAS_CORRECTION_IONO_BIT,
     LOCATION_SBAS_CORRECTION_FAST_BIT,
     LOCATION_SBAS_CORRECTION_LONG_BIT,
     LOCATION_SBAS_INTEGRITY_BIT,
     LOCATION_NAV_CORRECTION_DGNSS_BIT,
     LOCATION_NAV_CORRECTION_RTK_BIT,
     LOCATION_NAV_CORRECTION_PPP_BIT,
     LOCATION_NAV_CORRECTION_RTK_FIXED_BIT,
     LOCATION_NAV_CORRECTION_ONLY_SBAS_CORRECTED_SV_USED_BIT]"

subsection \<open>\<^verbatim>\<open>PBGnssLocationNavSolutionMask\<close> (LocationApiDataTypes.proto)\<close>

abbreviation (input) PB_LOCATION_NAV_SOLUTION_MASK_INVALID :: int where "PB_LOCATION_NAV_SOLUTION_MASK_INVALID \<equiv> 0"
abbreviation (input) PB_LOCATION_SBAS_CORRECTION_IONO_BIT :: int where "PB_LOCATION_SBAS_CORRECTION_IONO_BIT \<equiv> 1"
abbreviation (input) PB_LOCATION_SBAS_CORRECTION_FAST_BIT :: int where "PB_LOCATION_SBAS_CORRECTION_FAST_BIT \<equiv> 2"
abbreviation (input) PB_LOCATION_SBAS_CORRECTION_LONG_BIT :: int where "PB_LOCATION_SBAS_CORRECTION_LONG_BIT \<equiv> 4"
abbreviation (input) PB_LOCATION_SBAS_INTEGRITY_BIT :: int where "PB_LOCATION_SBAS_INTEGRITY_BIT \<equiv> 8"
abbreviation (input) PB_LOCATION_NAV_CORRECTION_DGNSS_BIT :: int where "PB_LOCATION_NAV_CORRECTION_DGNSS_BIT \<equiv> 16"
abbreviation (input) PB_LOCATION_NAV_CORRECTION_RTK_BIT :: int where "PB_LOCATION_NAV_CORRECTION_RTK_BIT \<equiv> 32"
abbreviation (input) PB_LOCATION_NAV_CORRECTION_PPP_BIT :: int where "PB_LOCATION_NAV_CORRECTION_PPP_BIT \<equiv> 64"
abbreviation (input) PB_LOCATION_NAV_CORRECTION_RTK_FIXED_BIT :: int where "PB_LOCATION_NAV_CORRECTION_RTK_FIXED_BIT \<equiv> 128"
abbreviation (input) PB_LOCATION_NAV_CORRECTION_ONLY_SBAS_CORRECTED_SV_USED_BIT :: int where "PB_LOCATION_NAV_CORRECTION_ONLY_SBAS_CORRECTED_SV_USED_BIT \<equiv> 256"

definition PBGnssLocationNavSolutionMask :: "int list" where
  "PBGnssLocationNavSolutionMask =
    [PB_LOCATION_NAV_SOLUTION_MASK_INVALID,
     PB_LOCATION_SBAS_CORRECTION_IONO_BIT,
     PB_LOCATION_SBAS_CORRECTION_FAST_BIT,
     PB_LOCATION_SBAS_CORRECTION_LONG_BIT,
     PB_LOCATION_SBAS_INTEGRITY_BIT,
     PB_LOCATION_NAV_CORRECTION_DGNSS_BIT,
     PB_LOCATION_NAV_CORRECTION_RTK_BIT,
     PB_LOCATION_NAV_CORRECTION_PPP_BIT,
     PB_LOCATION_NAV_CORRECTION_RTK_FIXED_BIT,
     PB_LOCATION_NAV_CORRECTION_ONLY_SBAS_CORRECTED_SV_USED_BIT]"

subsection \<open>\<^verbatim>\<open>DrCalibrationStatusBits\<close> (LocationDataTypes.h)\<close>

abbreviation (input) DR_ROLL_CALIBRATION_NEEDED :: int where "DR_ROLL_CALIBRATION_NEEDED \<equiv> 1"
abbreviation (input) DR_PITCH_CALIBRATION_NEEDED :: int where "DR_PITCH_CALIBRATION_NEEDED \<equiv> 2"
abbreviation (input) DR_YAW_CALIBRATION_NEEDED :: int where "DR_YAW_CALIBRATION_NEEDED \<equiv> 4"
abbreviation (input) DR_ODO_CALIBRATION_NEEDED :: int where "DR_ODO_CALIBRATION_NEEDED \<equiv> 8"
abbreviation (input) DR_GYRO_CALIBRATION_NEEDED :: int where "DR_GYRO_CALIBRATION_NEEDED \<equiv> 16"

definition DrCalibrationStatusBits :: "int list" where
  "DrCalibrationStatusBits =
    [DR_ROLL_CALIBRATION_NEEDED,
     DR_PITCH_CALIBRATION_NEEDED,
     DR_YAW_CALIBRATION_NEEDED,
     DR_ODO_CALIBRATION_NEEDED,
     DR_GYRO_CALIBRATION_NEEDED]"

subsection \<open>\<^verbatim>\<open>PBLocApiDrCalibrationStatusMask\<close> (LocationApiDataTypes.proto)\<close>

abbreviation (input) PB_DR_CALIBRATION_INVALID :: int where "PB_DR_CALIBRATION_INVALID \<equiv> 0"
abbreviation (input) PB_DR_ROLL_CALIBRATION_NEEDED :: int where "PB_DR_ROLL_CALIBRATION_NEEDED \<equiv> 1"
abbreviation (input) PB_DR_PITCH_CALIBRATION_NEEDED :: int where "PB_DR_PITCH_CALIBRATION_NEEDED \<equiv> 2"
abbreviation (input) PB_DR_YAW_CALIBRATION_NEEDED :: int where "PB_DR_YAW_CALIBRATION_NEEDED \<equiv> 4"
abbreviation (input) PB_DR_ODO_CALIBRATION_NEEDED :: int where "PB_DR_ODO_CALIBRATION_NEEDED \<equiv> 8"
abbreviation (input) PB_DR_GYRO_CALIBRATION_NEEDED :: int where "PB_DR_GYRO_CALIBRATION_NEEDED \<equiv> 16"

definition PBLocApiDrCalibrationStatusMask :: "int list" where
  "PBLocApiDrCalibrationStatusMask =
    [PB_DR_CALIBRATION_INVALID,
     PB_DR_ROLL_CALIBRATION_NEEDED,
     PB_DR_PITCH_CALIBRATION_NEEDED,
     PB_DR_YAW_CALIBRATION_NEEDED,
     PB_DR_ODO_CALIBRATION_NEEDED,
     PB_DR_GYRO_CALIBRATION_NEEDED]"

subsection \<open>\<^verbatim>\<open>GnssMeasurementsDataFlagsBits\<close> (LocationDataTypes.h)\<close>

abbreviation (input) GNSS_MEASUREMENTS_DATA_SV_ID_BIT :: int where "GNSS_MEASUREMENTS_DATA_SV_ID_BIT \<equiv> 1"
abbreviation (input) GNSS_MEASUREMENTS_DATA_SV_TYPE_BIT :: int where "GNSS_MEASUREMENTS_DATA_SV_TYPE_BIT \<equiv> 2"
abbreviation (input) GNSS_MEASUREMENTS_DATA_STATE_BIT :: int where "GNSS_MEASUREMENTS_DATA_STATE_BIT \<equiv> 4"
abbreviation (input) GNSS_MEASUREMENTS_DATA_RECEIVED_SV_TIME_BIT :: int where "GNSS_MEASUREMENTS_DATA_RECEIVED_SV_TIME_BIT \<equiv> 8"
abbreviation (input) GNSS_MEASUREMENTS_DATA_RECEIVED_SV_TIME_UNCERTAINTY_BIT :: int where "GNSS_MEASUREMENTS_DATA_RECEIVED_SV_TIME_UNCERTAINTY_BIT \<equiv> 16"
abbreviation (input) GNSS_MEASUREMENTS_DATA_CARRIER_TO_NOISE_BIT :: int where "GNSS_MEASUREMENTS_DATA_CARRIER_TO_NOISE_BIT \<equiv> 32"
abbreviation (input) GNSS_MEASUREMENTS_DATA_PSEUDORANGE_RATE_BIT :: int where "GNSS_MEASUREMENTS_DATA_PSEUDORANGE_RATE_BIT \<equiv> 64"
abbreviation (input) GNSS_MEASUREMENTS_DATA_PSEUDORANGE_RATE_UNCERTAINTY_BIT :: int where "GNSS_MEASUREMENTS_DATA_PSEUDORANGE_RATE_UNCERTAINTY_BIT \<equiv> 128"
abbreviation (input) GNSS_MEASUREMENTS_DATA_ADR_STATE_BIT :: int where "GNSS_MEASUREMENTS_DATA_ADR_STATE_BIT \<equiv> 256"
abbreviation (input) GNSS_MEASUREMENTS_DATA_ADR_BIT :: int where "GNSS_MEASUREMENTS_DATA_ADR_BIT \<equiv> 512"
abbreviation (input) GNSS_MEASUREMENTS_DATA_ADR_UNCERTAINTY_BIT :: int where "GNSS_MEASUREMENTS_DATA_ADR_UNCERTAINTY_BIT \<equiv> 1024"
abbreviation (input) GNSS_MEASUREMENTS_DATA_CARRIER_FREQUENCY_BIT :: int where "GNSS_MEASUREMENTS_DATA_CARRIER_FREQUENCY_BIT \<equiv> 2048"
abbreviation (input) GNSS_MEASUREMENTS_DATA_CARRIER_CYCLES_BIT :: int where "GNSS_MEASUREMENTS_DATA_CARRIER_CYCLES_BIT \<equiv> 4096"
abbreviation (input) GNSS_MEASUREMENTS_DATA_CARRIER_PHASE_BIT :: int where "GNSS_MEASUREMENTS_DATA_CARRIER_PHASE_BIT \<equiv> 8192"
abbreviation (input) GNSS_MEASUREMENTS_DATA_CARRIER_PHASE_UNCERTAINTY_BIT :: int where "GNSS_MEASUREMENTS_DATA_CARRIER_PHASE_UNCERTAINTY_BIT \<equiv> 16384"
abbreviation (input) GNSS_MEASUREMENTS_DATA_MULTIPATH_INDICATOR_BIT :: int where "GNSS_MEASUREMENTS_DATA_MULTIPATH_INDICATOR_BIT \<equiv> 32768"
abbreviation (input) GNSS_MEASUREMENTS_DATA_SIGNAL_TO_NOISE_RATIO_BIT :: int where "GNSS_MEASUREMENTS_DATA_SIGNAL_TO_NOISE_RATIO_BIT \<equiv> 65536"
abbreviation (input) GNSS_MEASUREMENTS_DATA_AUTOMATIC_GAIN_CONTROL_BIT :: int where "GNSS_MEASUREMENTS_DATA_AUTOMATIC_GAIN_CONTROL_BIT \<equiv> 131072"
abbreviation (input) GNSS_MEASUREMENTS_DATA_FULL_ISB_BIT :: int where "GNSS_MEASUREMENTS_DATA_FULL_ISB_BIT \<equiv> 262144"
abbreviation (input) GNSS_MEASUREMENTS_DATA_FULL_ISB_UNCERTAINTY_BIT :: int where "GNSS_MEASUREMENTS_DATA_FULL_ISB_UNCERTAINTY_BIT \<equiv> 524288"
abbreviation (input) GNSS_MEASUREMENTS_DATA_SATELLITE_ISB_BIT :: int where "GNSS_MEASUREMENTS_DATA_SATELLITE_ISB_BIT \<equiv> 1048576"
abbreviation (input) GNSS_MEASUREMENTS_DATA_SATELLITE_ISB_UNCERTAINTY_BIT :: int where "GNSS_MEASUREMENTS_DATA_SATELLITE_ISB_UNCERTAINTY_BIT \<equiv> 2097152"
abbreviation (input) GNSS_MEASUREMENTS_DATA_CYCLE_SLIP_COUNT_BIT :: int where "GNSS_MEASUREMENTS_DATA_CYCLE_SLIP_COUNT_BIT \<equiv> 4194304"

definition GnssMeasurementsDataFlagsBits :: "int list" where
  "GnssMeasurementsDataFlagsBits =
    [GNSS_MEASUREMENTS_DATA_SV_ID_BIT,
     GNSS_MEASUREMENTS_DATA_SV_TYPE_BIT,
     GNSS_MEASUREMENTS_DATA_STATE_BIT,
     GNSS_MEASUREMENTS_DATA_RECEIVED_SV_TIME_BIT,
     GNSS_MEASUREMENTS_DATA_RECEIVED_SV_TIME_UNCERTAINTY_BIT,
     GNSS_MEASUREMENTS_DATA_CARRIER_TO_NOISE_BIT,
     GNSS_MEASUREMENTS_DATA_PSEUDORANGE_RATE_BIT,
     GNSS_MEASUREMENTS_DATA_PSEUDORANGE_RATE_UNCERTAINTY_BIT,
     GNSS_MEASUREMENTS_DATA_ADR_STATE_BIT,
     GNSS_MEASUREMENTS_DATA_ADR_BIT,
     GNSS_MEASUREMENTS_DATA_ADR_UNCERTAINTY_BIT,
     GNSS_MEASUREMENTS_DATA_CARRIER_FREQUENCY_BIT,
     GNSS_MEASUREMENTS_DATA_CARRIER_CYCLES_BIT,
     GNSS_MEASUREMENTS_DATA_CARRIER_PHASE_BIT,
     GNSS_MEASUREMENTS_DATA_CARRIER_PHASE_UNCERTAINTY_BIT,
     GNSS_MEASUREMENTS_DATA_MULTIPATH_INDICATOR_BIT,
     GNSS_MEASUREMENTS_DATA_SIGNAL_TO_NOISE_RATIO_BIT,
     GNSS_MEASUREMENTS_DATA_AUTOMATIC_GAIN_CONTROL_BIT,
     GNSS_MEASUREMENTS_DATA_FULL_ISB_BIT,
     GNSS_MEASUREMENTS_DATA_FULL_ISB_UNCERTAINTY_BIT,
     GNSS_MEASUREMENTS_DATA_SATELLITE_ISB_BIT,
     GNSS_MEASUREMENTS_DATA_SATELLITE_ISB_UNCERTAINTY_BIT,
     GNSS_MEASUREMENTS_DATA_CYCLE_SLIP_COUNT_BIT]"

subsection \<open>\<^verbatim>\<open>PBGnssMeasurementsDataFlagsMask\<close> (LocationApiDataTypes.proto)\<close>

abbreviation (input) PB_GNSS_MEASUREMENTS_DATA_INVALID :: int where "PB_GNSS_MEASUREMENTS_DATA_INVALID \<equiv> 0"
abbreviation (input) PB_GNSS_MEASUREMENTS_DATA_SV_ID_BIT :: int where "PB_GNSS_MEASUREMENTS_DATA_SV_ID_BIT \<equiv> 1"
abbreviation (input) PB_GNSS_MEASUREMENTS_DATA_SV_TYPE_BIT :: int where "PB_GNSS_MEASUREMENTS_DATA_SV_TYPE_BIT \<equiv> 2"
abbreviation (input) PB_GNSS_MEASUREMENTS_DATA_STATE_BIT :: int where "PB_GNSS_MEASUREMENTS_DATA_STATE_BIT \<equiv> 4"
abbreviation (input) PB_GNSS_MEASUREMENTS_DATA_RECEIVED_SV_TIME_BIT :: int where "PB_GNSS_MEASUREMENTS_DATA_RECEIVED_SV_TIME_BIT \<equiv> 8"
abbreviation (input) PB_GNSS_MEASUREMENTS_DATA_RECEIVED_SV_TIME_UNCERTAINTY_BIT :: int where "PB_GNSS_MEASUREMENTS_DATA_RECEIVED_SV_TIME_UNCERTAINTY_BIT \<equiv> 16"
abbreviation (input) PB_GNSS_MEASUREMENTS_DATA_CARRIER_TO_NOISE_BIT :: int where "PB_GNSS_MEASUREMENTS_DATA_CARRIER_TO_NOISE_BIT \<equiv> 32"
abbreviation (input) PB_GNSS_MEASUREMENTS_DATA_PSEUDORANGE_RATE_BIT :: int where "PB_GNSS_MEASUREMENTS_DATA_PSEUDORANGE_RATE_BIT \<equiv> 64"
abbreviation (input) PB_GNSS_MEASUREMENTS_DATA_PSEUDORANGE_RATE_UNCERTAINTY_BIT :: int where "PB_GNSS_MEASUREMENTS_DATA_PSEUDORANGE_RATE_UNCERTAINTY_BIT \<equiv> 128"
abbreviation (input) PB_GNSS_MEASUREMENTS_DATA_ADR_STATE_BIT :: int where "PB_GNSS_MEASUREMENTS_DATA_ADR_STATE_BIT \<equiv> 256"
abbreviation (input) PB_GNSS_MEASUREMENTS_DATA_ADR_BIT :: int where "PB_GNSS_MEASUREMENTS_DATA_ADR_BIT \<equiv> 512"
abbreviation (input) PB_GNSS_MEASUREMENTS_DATA_ADR_UNCERTAINTY_BIT :: int where "PB_GNSS_MEASUREMENTS_DATA_ADR_UNCERTAINTY_BIT \<equiv> 1024"
abbreviation (input) PB_GNSS_MEASUREMENTS_DATA_CARRIER_FREQUENCY_BIT :: int where "PB_GNSS_MEASUREMENTS_DATA_CARRIER_FREQUENCY_BIT \<equiv> 2048"
abbreviation (input) PB_GNSS_MEASUREMENTS_DATA_CARRIER_CYCLES_BIT :: int where "PB_GNSS_MEASUREMENTS_DATA_CARRIER_CYCLES_BIT \<equiv> 4096"
abbreviation (input) PB_GNSS_MEASUREMENTS_DATA_CARRIER_PHASE_BIT :: int where "PB_GNSS_MEASUREMENTS_DATA_CARRIER_PHASE_BIT \<equiv> 8192"
abbreviation (input) PB_GNSS_MEASUREMENTS_DATA_CARRIER_PHASE_UNCERTAINTY_BIT :: int where "PB_GNSS_MEASUREMENTS_DATA_CARRIER_PHASE_UNCERTAINTY_BIT \<equiv> 16384"
abbreviation (input) PB_GNSS_MEASUREMENTS_DATA_MULTIPATH_INDICATOR_BIT :: int where "PB_GNSS_MEASUREMENTS_DATA_MULTIPATH_INDICATOR_BIT \<equiv> 32768"
abbreviation (input) PB_GNSS_MEASUREMENTS_DATA_SIGNAL_TO_NOISE_RATIO_BIT :: int where "PB_GNSS_MEASUREMENTS_DATA_SIGNAL_TO_NOISE_RATIO_BIT \<equiv> 65536"
abbreviation (input) PB_GNSS_MEASUREMENTS_DATA_AUTOMATIC_GAIN_CONTROL_BIT :: int where "PB_GNSS_MEASUREMENTS_DATA_AUTOMATIC_GAIN_CONTROL_BIT \<equiv> 131072"
abbreviation (input) PB_GNSS_MEASUREMENTS_DATA_FULL_ISB_BIT :: int where "PB_GNSS_MEASUREMENTS_DATA_FULL_ISB_BIT \<equiv> 262144"
abbreviation (input) PB_GNSS_MEASUREMENTS_DATA_FULL_ISB_UNCERTAINTY_BIT :: int where "PB_GNSS_MEASUREMENTS_DATA_FULL_ISB_UNCERTAINTY_BIT \<equiv> 524288"
abbreviation (input) PB_GNSS_MEASUREMENTS_DATA_CYCLE_SLIP_COUNT_BIT :: int where "PB_GNSS_MEASUREMENTS_DATA_CYCLE_SLIP_COUNT_BIT \<equiv> 1048576"

definition PBGnssMeasurementsDataFlagsMask :: "int list" where
  "PBGnssMeasurementsDataFlagsMask =
    [PB_GNSS_MEASUREMENTS_DATA_INVALID,
     PB_GNSS_MEASUREMENTS_DATA_SV_ID_BIT,
     PB_GNSS_MEASUREMENTS_DATA_SV_TYPE_BIT,
     PB_GNSS_MEASUREMENTS_DATA_STATE_BIT,
     PB_GNSS_MEASUREMENTS_DATA_RECEIVED_SV_TIME_BIT,
     PB_GNSS_MEASUREMENTS_DATA_RECEIVED_SV_TIME_UNCERTAINTY_BIT,
     PB_GNSS_MEASUREMENTS_DATA_CARRIER_TO_NOISE_BIT,
     PB_GNSS_MEASUREMENTS_DATA_PSEUDORANGE_RATE_BIT,
     PB_GNSS_MEASUREMENTS_DATA_PSEUDORANGE_RATE_UNCERTAINTY_BIT,
     PB_GNSS_MEASUREMENTS_DATA_ADR_STATE_BIT,
     PB_GNSS_MEASUREMENTS_DATA_ADR_BIT,
     PB_GNSS_MEASUREMENTS_DATA_ADR_UNCERTAINTY_BIT,
     PB_GNSS_MEASUREMENTS_DATA_CARRIER_FREQUENCY_BIT,
     PB_GNSS_MEASUREMENTS_DATA_CARRIER_CYCLES_BIT,
     PB_GNSS_MEASUREMENTS_DATA_CARRIER_PHASE_BIT,
     PB_GNSS_MEASUREMENTS_DATA_CARRIER_PHASE_UNCERTAINTY_BIT,
     PB_GNSS_MEASUREMENTS_DATA_MULTIPATH_INDICATOR_BIT,
     PB_GNSS_MEASUREMENTS_DATA_SIGNAL_TO_NOISE_RATIO_BIT,
     PB_GNSS_MEASUREMENTS_DATA_AUTOMATIC_GAIN_CONTROL_BIT,
     PB_GNSS_MEASUREMENTS_DATA_FULL_ISB_BIT,
     PB_GNSS_MEASUREMENTS_DATA_FULL_ISB_UNCERTAINTY_BIT,
     PB_GNSS_MEASUREMENTS_DATA_CYCLE_SLIP_COUNT_BIT]"

subsection \<open>\<^verbatim>\<open>GnssMeasurementsStateBits\<close> (LocationDataTypes.h)\<close>

abbreviation (input) GNSS_MEASUREMENTS_STATE_UNKNOWN_BIT :: int where "GNSS_MEASUREMENTS_STATE_UNKNOWN_BIT \<equiv> 0"
abbreviation (input) GNSS_MEASUREMENTS_STATE_CODE_LOCK_BIT :: int where "GNSS_MEASUREMENTS_STATE_CODE_LOCK_BIT \<equiv> 1"
abbreviation (input) GNSS_MEASUREMENTS_STATE_BIT_SYNC_BIT :: int where "GNSS_MEASUREMENTS_STATE_BIT_SYNC_BIT \<equiv> 2"
abbreviation (input) GNSS_MEASUREMENTS_STATE_SUBFRAME_SYNC_BIT :: int where "GNSS_MEASUREMENTS_STATE_SUBFRAME_SYNC_BIT \<equiv> 4"
abbreviation (input) GNSS_MEASUREMENTS_STATE_TOW_DECODED_BIT :: int where "GNSS_MEASUREMENTS_STATE_TOW_DECODED_BIT \<equiv> 8"
abbreviation (input) GNSS_MEASUREMENTS_STATE_MSEC_AMBIGUOUS_BIT :: int where "GNSS_MEASUREMENTS_STATE_MSEC_AMBIGUOUS_BIT \<equiv> 16"
abbreviation (input) GNSS_MEASUREMENTS_STATE_SYMBOL_SYNC_BIT :: int where "GNSS_MEASUREMENTS_STATE_SYMBOL_SYNC_BIT \<equiv> 32"
abbreviation (input) GNSS_MEASUREMENTS_STATE_GLO_STRING_SYNC_BIT :: int where "GNSS_MEASUREMENTS_STATE_GLO_STRING_SYNC_BIT \<equiv> 64"
abbreviation (input) GNSS_MEASUREMENTS_STATE_GLO_TOD_DECODED_BIT :: int where "GNSS_MEASUREMENTS_STATE_GLO_TOD_DECODED_BIT \<equiv> 128"
abbreviation (input) GNSS_MEASUREMENTS_STATE_BDS_D2_BIT_SYNC_BIT :: int where "GNSS_MEASUREMENTS_STATE_BDS_D2_BIT_SYNC_BIT \<equiv> 256"
abbreviation (input) GNSS_MEASUREMENTS_STATE_BDS_D2_SUBFRAME_SYNC_BIT :: int where "GNSS_MEASUREMENTS_STATE_BDS_D2_SUBFRAME_SYNC_BIT \<equiv> 512"
abbreviation (input) GNSS_MEASUREMENTS_STATE_GAL_E1BC_CODE_LOCK_BIT :: int where "GNSS_MEASUREMENTS_STATE_GAL_E1BC_CODE_LOCK_BIT \<equiv> 1024"
abbreviation (input) GNSS_MEASUREMENTS_STATE_GAL_E1C_2ND_CODE_LOCK_BIT :: int where "GNSS_MEASUREMENTS_STATE_GAL_E1C_2ND_CODE_LOCK_BIT \<equiv> 2048"
abbreviation (input) GNSS_MEASUREMENTS_STATE_GAL_E1B_PAGE_SYNC_BIT :: int where "GNSS_MEASUREMENTS_STATE_GAL_E1B_PAGE_SYNC_BIT \<equiv> 4096"
abbreviation (input) GNSS_MEASUREMENTS_STATE_SBAS_SYNC_BIT :: int where "GNSS_MEASUREMENTS_STATE_SBAS_SYNC_BIT \<equiv> 8192"
abbreviation (input) GNSS_MEASUREMENTS_STATE_TOW_KNOWN_BIT :: int where "GNSS_MEASUREMENTS_STATE_TOW_KNOWN_BIT \<equiv> 16384"
abbreviation (input) GNSS_MEASUREMENTS_STATE_GLO_TOD_KNOWN_BIT :: int where "GNSS_MEASUREMENTS_STATE_GLO_TOD_KNOWN_BIT \<equiv> 32768"
abbreviation (input) GNSS_MEASUREMENTS_STATE_2ND_CODE_LOCK_BIT :: int where "GNSS_MEASUREMENTS_STATE_2ND_CODE_LOCK_BIT \<equiv> 65536"

definition GnssMeasurementsStateBits :: "int list" where
  "GnssMeasurementsStateBits =
    [GNSS_MEASUREMENTS_STATE_UNKNOWN_BIT,
     GNSS_MEASUREMENTS_STATE_CODE_LOCK_BIT,
     GNSS_MEASUREMENTS_STATE_BIT_SYNC_BIT,
     GNSS_MEASUREMENTS_STATE_SUBFRAME_SYNC_BIT,
     GNSS_MEASUREMENTS_STATE_TOW_DECODED_BIT,
     GNSS_MEASUREMENTS_STATE_MSEC_AMBIGUOUS_BIT,
     GNSS_MEASUREMENTS_STATE_SYMBOL_SYNC_BIT,
     GNSS_MEASUREMENTS_STATE_GLO_STRING_SYNC_BIT,
     GNSS_MEASUREMENTS_STATE_GLO_TOD_DECODED_BIT,
     GNSS_MEASUREMENTS_STATE_BDS_D2_BIT_SYNC_BIT,
     GNSS_MEASUREMENTS_STATE_BDS_D2_SUBFRAME_SYNC_BIT,
     GNSS_MEASUREMENTS_STATE_GAL_E1BC_CODE_LOCK_BIT,
     GNSS_MEASUREMENTS_STATE_GAL_E1C_2ND_CODE_LOCK_BIT,
     GNSS_MEASUREMENTS_STATE_GAL_E1B_PAGE_SYNC_BIT,
     GNSS_MEASUREMENTS_STATE_SBAS_SYNC_BIT,
     GNSS_MEASUREMENTS_STATE_TOW_KNOWN_BIT,
     GNSS_MEASUREMENTS_STATE_GLO_TOD_KNOWN_BIT,
     GNSS_MEASUREMENTS_STATE_2ND_CODE_LOCK_BIT]"

subsection \<open>\<^verbatim>\<open>PBGnssMeasurementsStateMask\<close> (LocationApiDataTypes.proto)\<close>

abbreviation (input) PB_GNSS_MEASUREMENTS_STATE_UNKNOWN_BIT :: int where "PB_GNSS_MEASUREMENTS_STATE_UNKNOWN_BIT \<equiv> 0"
abbreviation (input) PB_GNSS_MEASUREMENTS_STATE_CODE_LOCK_BIT :: int where "PB_GNSS_MEASUREMENTS_STATE_CODE_LOCK_BIT \<equiv> 1"
abbreviation (input) PB_GNSS_MEASUREMENTS_STATE_BIT_SYNC_BIT :: int where "PB_GNSS_MEASUREMENTS_STATE_BIT_SYNC_BIT \<equiv> 2"
abbreviation (input) PB_GNSS_MEASUREMENTS_STATE_SUBFRAME_SYNC_BIT :: int where "PB_GNSS_MEASUREMENTS_STATE_SUBFRAME_SYNC_BIT \<equiv> 4"
abbreviation (input) PB_GNSS_MEASUREMENTS_STATE_TOW_DECODED_BIT :: int where "PB_GNSS_MEASUREMENTS_STATE_TOW_DECODED_BIT \<equiv> 8"
abbreviation (input) PB_GNSS_MEASUREMENTS_STATE_MSEC_AMBIGUOUS_BIT :: int where "PB_GNSS_MEASUREMENTS_STATE_MSEC_AMBIGUOUS_BIT \<equiv> 16"
abbreviation (input) PB_GNSS_MEASUREMENTS_STATE_SYMBOL_SYNC_BIT :: int where "PB_GNSS_MEASUREMENTS_STATE_SYMBOL_SYNC_BIT \<equiv> 32"
abbreviation (input) PB_GNSS_MEASUREMENTS_STATE_GLO_STRING_SYNC_BIT :: int where "PB_GNSS_MEASUREMENTS_STATE_GLO_STRING_SYNC_BIT \<equiv> 64"
abbreviation (input) PB_GNSS_MEASUREMENTS_STATE_GLO_TOD_DECODED_BIT :: int where "PB_GNSS_MEASUREMENTS_STATE_GLO_TOD_DECODED_BIT \<equiv> 128"
abbreviation (input) PB_GNSS_MEASUREMENTS_STATE_BDS_D2_BIT_SYNC_BIT :: int where "PB_GNSS_MEASUREMENTS_STATE_BDS_D2_BIT_SYNC_BIT \<equiv> 256"
abbreviation (input) PB_GNSS_MEASUREMENTS_STATE_BDS_D2_SUBFRAME_SYNC_BIT :: int where "PB_GNSS_MEASUREMENTS_STATE_BDS_D2_SUBFRAME_SYNC_BIT \<equiv> 512"
abbreviation (input) PB_GNSS_MEASUREMENTS_STATE_GAL_E1BC_CODE_LOCK_BIT :: int where "PB_GNSS_MEASUREMENTS_STATE_GAL_E1BC_CODE_LOCK_BIT \<equiv> 1024"
abbreviation (input) PB_GNSS_MEASUREMENTS_STATE_GAL_E1C_2ND_CODE_LOCK_BIT :: int where "PB_GNSS_MEASUREMENTS_STATE_GAL_E1C_2ND_CODE_LOCK_BIT \<equiv> 2048"
abbreviation (input) PB_GNSS_MEASUREMENTS_STATE_GAL_E1B_PAGE_SYNC_BIT :: int where "PB_GNSS_MEASUREMENTS_STATE_GAL_E1B_PAGE_SYNC_BIT \<equiv> 4096"
abbreviation (input) PB_GNSS_MEASUREMENTS_STATE_SBAS_SYNC_BIT :: int where "PB_GNSS_MEASUREMENTS_STATE_SBAS_SYNC_BIT \<equiv> 8192"

definition PBGnssMeasurementsStateMask :: "int list" where
  "PBGnssMeasurementsStateMask =
    [PB_GNSS_MEASUREMENTS_STATE_UNKNOWN_BIT,
     PB_GNSS_MEASUREMENTS_STATE_CODE_LOCK_BIT,
     PB_GNSS_MEASUREMENTS_STATE_BIT_SYNC_BIT,
     PB_GNSS_MEASUREMENTS_STATE_SUBFRAME_SYNC_BIT,
     PB_GNSS_MEASUREMENTS_STATE_TOW_DECODED_BIT,
     PB_GNSS_MEASUREMENTS_STATE_MSEC_AMBIGUOUS_BIT,
     PB_GNSS_MEASUREMENTS_STATE_SYMBOL_SYNC_BIT,
     PB_GNSS_MEASUREMENTS_STATE_GLO_STRING_SYNC_BIT,
     PB_GNSS_MEASUREMENTS_STATE_GLO_TOD_DECODED_BIT,
     PB_GNSS_MEASUREMENTS_STATE_BDS_D2_BIT_SYNC_BIT,
     PB_GNSS_MEASUREMENTS_STATE_BDS_D2_SUBFRAME_SYNC_BIT,
     PB_GNSS_MEASUREMENTS_STATE_GAL_E1BC_CODE_LOCK_BIT,
     PB_GNSS_MEASUREMENTS_STATE_GAL_E1C_2ND_CODE_LOCK_BIT,
     PB_GNSS_MEASUREMENTS_STATE_GAL_E1B_PAGE_SYNC_BIT,
     PB_GNSS_MEASUREMENTS_STATE_SBAS_SYNC_BIT]"

subsection \<open>\<^verbatim>\<open>GnssMeasurementsAdrStateBits\<close> (LocationDataTypes.h)\<close>

abbreviation (input) GNSS_MEASUREMENTS_ACCUMULATED_DELTA_RANGE_STATE_UNKNOWN :: int where "GNSS_MEASUREMENTS_ACCUMULATED_DELTA_RANGE_STATE_UNKNOWN \<equiv> 0"
abbreviation (input) GNSS_MEASUREMENTS_ACCUMULATED_DELTA_RANGE_STATE_VALID_BIT :: int where "GNSS_MEASUREMENTS_ACCUMULATED_DELTA_RANGE_STATE_VALID_BIT \<equiv> 1"
abbreviation (input) GNSS_MEASUREMENTS_ACCUMULATED_DELTA_RANGE_STATE_RESET_BIT :: int where "GNSS_MEASUREMENTS_ACCUMULATED_DELTA_RANGE_STATE_RESET_BIT \<equiv> 2"
abbreviation (input) GNSS_MEASUREMENTS_ACCUMULATED_DELTA_RANGE_STATE_CYCLE_SLIP_BIT :: int where "GNSS_MEASUREMENTS_ACCUMULATED_DELTA_RANGE_STATE_CYCLE_SLIP_BIT \<equiv> 4"
abbreviation (input) GNSS_MEASUREMENTS_ACCUMULATED_DELTA_RANGE_STATE_HALF_CYCLE_RESOLVED_BIT :: int where "GNSS_MEASUREMENTS_ACCUMULATED_DELTA_RANGE_STATE_HALF_CYCLE_RESOLVED_BIT \<equiv> 8"

definition GnssMeasurementsAdrStateBits :: "int list" where
  "GnssMeasurementsAdrStateBits =
    [GNSS_MEASUREMENTS_ACCUMULATED_DELTA_RANGE_STATE_UNKNOWN,
     GNSS_MEASUREMENTS_ACCUMULATED_DELTA_RANGE_STATE_VALID_BIT,
     GNSS_MEASUREMENTS_ACCUMULATED_DELTA_RANGE_STATE_RESET_BIT,
     GNSS_MEASUREMENTS_ACCUMULATED_DELTA_RANGE_STATE_CYCLE_SLIP_BIT,
     GNSS_MEASUREMENTS_ACCUMULATED_DELTA_RANGE_STATE_HALF_CYCLE_RESOLVED_BIT]"

subsection \<open>\<^verbatim>\<open>PBGnssMeasurementsAdrStateMask\<close> (LocationApiDataTypes.proto)\<close>

abbreviation (input) PB_GNSS_MEASUREMENTS_ACCUMULATED_DELTA_RANGE_STATE_UNKNOWN :: int where "PB_GNSS_MEASUREMENTS_ACCUMULATED_DELTA_RANGE_STATE_UNKNOWN \<equiv> 0"
abbreviation (input) PB_GNSS_MEASUREMENTS_ACCUMULATED_DELTA_RANGE_STATE_VALID_BIT :: int where "PB_GNSS_MEASUREMENTS_ACCUMULATED_DELTA_RANGE_STATE_VALID_BIT \<equiv> 1"
abbreviation (input) PB_GNSS_MEASUREMENTS_ACCUMULATED_DELTA_RANGE_STATE_RESET_BIT :: int where "PB_GNSS_MEASUREMENTS_ACCUMULATED_DELTA_RANGE_STATE_RESET_BIT \<equiv> 2"
abbreviation (input) PB_GNSS_MEASUREMENTS_ACCUMULATED_DELTA_RANGE_STATE_CYCLE_SLIP_BIT :: int where "PB_GNSS_MEASUREMENTS_ACCUMULATED_DELTA_RANGE_STATE_CYCLE_SLIP_BIT \<equiv> 4"

definition PBGnssMeasurementsAdrStateMask :: "int list" where
  "PBGnssMeasurementsAdrStateMask =
    [PB_GNSS_MEASUREMENTS_ACCUMULATED_DELTA_RANGE_STATE_UNKNOWN,
     PB_GNSS_MEASUREMENTS_ACCUMULATED_DELTA_RANGE_STATE_VALID_BIT,
     PB_GNSS_MEASUREMENTS_ACCUMULATED_DELTA_RANGE_STATE_RESET_BIT,
     PB_GNSS_MEASUREMENTS_ACCUMULATED_DELTA_RANGE_STATE_CYCLE_SLIP_BIT]"

subsection \<open>\<^verbatim>\<open>GnssLocationPosDataBits\<close> (LocationDataTypes.h)\<close>

abbreviation (input) LOCATION_NAV_DATA_HAS_LONG_ACCEL_BIT :: int where "LOCATION_NAV_DATA_HAS_LONG_ACCEL_BIT \<equiv> 1"
abbreviation (input) LOCATION_NAV_DATA_HAS_LAT_ACCEL_BIT :: int where "LOCATION_NAV_DATA_HAS_LAT_ACCEL_BIT \<equiv> 2"
abbreviation (input) LOCATION_NAV_DATA_HAS_VERT_ACCEL_BIT :: int where "LOCATION_NAV_DATA_HAS_VERT_ACCEL_BIT \<equiv> 4"
abbreviation (input) LOCATION_NAV_DATA_HAS_YAW_RATE_BIT :: int where "LOCATION_NAV_DATA_HAS_YAW_RATE_BIT \<equiv> 8"
abbreviation (input) LOCATION_NAV_DATA_HAS_PITCH_BIT :: int where "LOCATION_NAV_DATA_HAS_PITCH_BIT \<equiv> 16"
abbreviation (input) LOCATION_NAV_DATA_HAS_LONG_ACCEL_UNC_BIT :: int where "LOCATION_NAV_DATA_HAS_LONG_ACCEL_UNC_BIT \<equiv> 32"
abbreviation (input) LOCATION_NAV_DATA_HAS_LAT_ACCEL_UNC_BIT :: int where "LOCATION_NAV_DATA_HAS_LAT_ACCEL_UNC_BIT \<equiv> 64"
abbreviation (input) LOCATION_NAV_DATA_HAS_VERT_ACCEL_UNC_BIT :: int where "LOCATION_NAV_DATA_HAS_VERT_ACCEL_UNC_BIT \<equiv> 128"
abbreviation (input) LOCATION_NAV_DATA_HAS_YAW_RATE_UNC_BIT :: int where "LOCATION_NAV_DATA_HAS_YAW_RATE_UNC_BIT \<equiv> 256"
abbreviation (input) LOCATION_NAV_DATA_HAS_PITCH_UNC_BIT :: int where "LOCATION_NAV_DATA_HAS_PITCH_UNC_BIT \<equiv> 512"

definition GnssLocationPosDataBits :: "int list" where
  "GnssLocationPosDataBits =
    [LOCATION_NAV_DATA_HAS_LONG_ACCEL_BIT,
     LOCATION_NAV_DATA_HAS_LAT_ACCEL_BIT,
     LOCATION_NAV_DATA_HAS_VERT_ACCEL_BIT,
     LOCATION_NAV_DATA_HAS_YAW_RATE_BIT,
     LOCATION_NAV_DATA_HAS_PITCH_BIT,
     LOCATION_NAV_DATA_HAS_LONG_ACCEL_UNC_BIT,
     LOCATION_NAV_DATA_HAS_LAT_ACCEL_UNC_BIT,
     LOCATION_NAV_DATA_HAS_VERT_ACCEL_UNC_BIT,
     LOCATION_NAV_DATA_HAS_YAW_RATE_UNC_BIT,
     LOCATION_NAV_DATA_HAS_PITCH_UNC_BIT]"

subsection \<open>\<^verbatim>\<open>PBLocApiGnssLocationPosDataMask\<close> (LocationApiDataTypes.proto)\<close>

abbreviation (input) PB_LOCATION_NAV_DATA_INVALID :: int where "PB_LOCATION_NAV_DATA_INVALID \<equiv> 0"
abbreviation (input) PB_LOCATION_NAV_DATA_HAS_LONG_ACCEL_BIT :: int where "PB_LOCATION_NAV_DATA_HAS_LONG_ACCEL_BIT \<equiv> 1"
abbreviation (input) PB_LOCATION_NAV_DATA_HAS_LAT_ACCEL_BIT :: int where "PB_LOCATION_NAV_DATA_HAS_LAT_ACCEL_BIT \<equiv> 2"
abbreviation (input) PB_LOCATION_NAV_DATA_HAS_VERT_ACCEL_BIT :: int where "PB_LOCATION_NAV_DATA_HAS_VERT_ACCEL_BIT \<equiv> 4"
abbreviation (input) PB_LOCATION_NAV_DATA_HAS_YAW_RATE_BIT :: int where "PB_LOCATION_NAV_DATA_HAS_YAW_RATE_BIT \<equiv> 8"
abbreviation (input) PB_LOCATION_NAV_DATA_HAS_YAW_RATE_UNC_BIT :: int where "PB_LOCATION_NAV_DATA_HAS_YAW_RATE_UNC_BIT \<equiv> 16"
abbreviation (input) PB_LOCATION_NAV_DATA_HAS_YAW_BIT :: int where "PB_LOCATION_NAV_DATA_HAS_YAW_BIT \<equiv> 32"
abbreviation (input) PB_LOCATION_NAV_DATA_HAS_YAW_UNC_BIT :: int where "PB_LOCATION_NAV_DATA_HAS_YAW_UNC_BIT \<equiv> 64"
abbreviation (input) PB_LOCATION_NAV_DATA_HAS_PITCH_BIT :: int where "PB_LOCATION_NAV_DATA_HAS_PITCH_BIT \<equiv> 128"
abbreviation (input) PB_LOCATION_NAV_DATA_HAS_PITCH_UNC_BIT :: int where "PB_LOCATION_NAV_DATA_HAS_PITCH_UNC_BIT \<equiv> 256"
abbreviation (input) PB_LOCATION_NAV_DATA_HAS_PITCH_RATE_BIT :: int where "PB_LOCATION_NAV_DATA_HAS_PITCH_RATE_BIT \<equiv> 512"
abbreviation (input) PB_LOCATION_NAV_DATA_HAS_PITCH_RATE_UNC_BIT :: int where "PB_LOCATION_NAV_DATA_HAS_PITCH_RATE_UNC_BIT \<equiv> 1024"
abbreviation (input) PB_LOCATION_NAV_DATA_HAS_LONG_ACCEL_UNC_BIT :: int where "PB_LOCATION_NAV_DATA_HAS_LONG_ACCEL_UNC_BIT \<equiv> 2048"
abbreviation (input) PB_LOCATION_NAV_DATA_HAS_LAT_ACCEL_UNC_BIT :: int where "PB_LOCATION_NAV_DATA_HAS_LAT_ACCEL_UNC_BIT \<equiv> 4096"
abbreviation (input) PB_LOCATION_NAV_DATA_HAS_VERT_ACCEL_UNC_BIT :: int where "PB_LOCATION_NAV_DATA_HAS_VERT_ACCEL_UNC_BIT \<equiv> 8192"
abbreviation (input) PB_LOCATION_NAV_DATA_HAS_ROLL_BIT :: int where "PB_LOCATION_NAV_DATA_HAS_ROLL_BIT \<equiv> 16384"
abbreviation (input) PB_LOCATION_NAV_DATA_HAS_ROLL_UNC_BIT :: int where "PB_LOCATION_NAV_DATA_HAS_ROLL_UNC_BIT \<equiv> 32768"
abbreviation (input) PB_LOCATION_NAV_DATA_HAS_ROLL_RATE_BIT :: int where "PB_LOCATION_NAV_DATA_HAS_ROLL_RATE_BIT \<equiv> 65536"
abbreviation (input) PB_LOCATION_NAV_DATA_HAS_ROLL_RATE_UNC_BIT :: int where "PB_LOCATION_NAV_DATA_HAS_ROLL_RATE_UNC_BIT \<equiv> 131072"

definition PBLocApiGnssLocationPosDataMask :: "int list" where
  "PBLocApiGnssLocationPosDataMask =
    [PB_LOCATION_NAV_DATA_INVALID,
     PB_LOCATION_NAV_DATA_HAS_LONG_ACCEL_BIT,
     PB_LOCATION_NAV_DATA_HAS_LAT_ACCEL_BIT,
     PB_LOCATION_NAV_DATA_HAS_VERT_ACCEL_BIT,
     PB_LOCATION_NAV_DATA_HAS_YAW_RATE_BIT,
     PB_LOCATION_NAV_DATA_HAS_YAW_RATE_UNC_BIT,
     PB_LOCATION_NAV_DATA_HAS_YAW_BIT,
     PB_LOCATION_NAV_DATA_HAS_YAW_UNC_BIT,
     PB_LOCATION_NAV_DATA_HAS_PITCH_BIT,
     PB_LOCATION_NAV_DATA_HAS_PITCH_UNC_BIT,
     PB_LOCATION_NAV_DATA_HAS_PITCH_RATE_BIT,
     PB_LOCATION_NAV_DATA_HAS_PITCH_RATE_UNC_BIT,
     PB_LOCATION_NAV_DATA_HAS_LONG_ACCEL_UNC_BIT,
     PB_LOCATION_NAV_DATA_HAS_LAT_ACCEL_UNC_BIT,
     PB_LOCATION_NAV_DATA_HAS_VERT_ACCEL_UNC_BIT,
     PB_LOCATION_NAV_DATA_HAS_ROLL_BIT,
     PB_LOCATION_NAV_DATA_HAS_ROLL_UNC_BIT,
     PB_LOCATION_NAV_DATA_HAS_ROLL_RATE_BIT,
     PB_LOCATION_NAV_DATA_HAS_ROLL_RATE_UNC_BIT]"

subsection \<open>\<^verbatim>\<open>GnssLocationPosDataBitsExt\<close> (LocationDataTypes.h)\<close>

abbreviation (input) LOCATION_NAV_DATA_HAS_PITCH_RATE_BIT :: int where "LOCATION_NAV_DATA_HAS_PITCH_RATE_BIT \<equiv> 1"
abbreviation (input) LOCATION_NAV_DATA_HAS_PITCH_RATE_UNC_BIT :: int where "LOCATION_NAV_DATA_HAS_PITCH_RATE_UNC_BIT \<equiv> 2"
abbreviation (input) LOCATION_NAV_DATA_HAS_ROLL_BIT :: int where "LOCATION_NAV_DATA_HAS_ROLL_BIT \<equiv> 4"
abbreviation (input) LOCATION_NAV_DATA_HAS_ROLL_UNC_BIT :: int where "LOCATION_NAV_DATA_HAS_ROLL_UNC_BIT \<equiv> 8"
abbreviation (input) LOCATION_NAV_DATA_HAS_ROLL_RATE_BIT :: int where "LOCATION_NAV_DATA_HAS_ROLL_RATE_BIT \<equiv> 16"
abbreviation (input) LOCATION_NAV_DATA_HAS_ROLL_RATE_UNC_BIT :: int where "LOCATION_NAV_DATA_HAS_ROLL_RATE_UNC_BIT \<equiv> 32"
abbreviation (input) LOCATION_NAV_DATA_HAS_YAW_BIT :: int where "LOCATION_NAV_DATA_HAS_YAW_BIT \<equiv> 64"
abbreviation (input) LOCATION_NAV_DATA_HAS_YAW_UNC_BIT :: int where "LOCATION_NAV_DATA_HAS_YAW_UNC_BIT \<equiv> 128"

definition GnssLocationPosDataBitsExt :: "int list" where
  "GnssLocationPosDataBitsExt =
    [LOCATION_NAV_DATA_HAS_PITCH_RATE_BIT,
     LOCATION_NAV_DATA_HAS_PITCH_RATE_UNC_BIT,
     LOCATION_NAV_DATA_HAS_ROLL_BIT,
     LOCATION_NAV_DATA_HAS_ROLL_UNC_BIT,
     LOCATION_NAV_DATA_HAS_ROLL_RATE_BIT,
     LOCATION_NAV_DATA_HAS_ROLL_RATE_UNC_BIT,
     LOCATION_NAV_DATA_HAS_YAW_BIT,
     LOCATION_NAV_DATA_HAS_YAW_UNC_BIT]"

subsection \<open>\<^verbatim>\<open>GnssMeasurementsClockFlagsBits\<close> (LocationDataTypes.h)\<close>

abbreviation (input) GNSS_MEASUREMENTS_CLOCK_FLAGS_LEAP_SECOND_BIT :: int where "GNSS_MEASUREMENTS_CLOCK_FLAGS_LEAP_SECOND_BIT \<equiv> 1"
abbreviation (input) GNSS_MEASUREMENTS_CLOCK_FLAGS_TIME_BIT :: int where "GNSS_MEASUREMENTS_CLOCK_FLAGS_TIME_BIT \<equiv> 2"
abbreviation (input) GNSS_MEASUREMENTS_CLOCK_FLAGS_TIME_UNCERTAINTY_BIT :: int where "GNSS_MEASUREMENTS_CLOCK_FLAGS_TIME_UNCERTAINTY_BIT \<equiv> 4"
abbreviation (input) GNSS_MEASUREMENTS_CLOCK_FLAGS_FULL_BIAS_BIT :: int where "GNSS_MEASUREMENTS_CLOCK_FLAGS_FULL_BIAS_BIT \<equiv> 8"
abbreviation (input) GNSS_MEASUREMENTS_CLOCK_FLAGS_BIAS_BIT :: int where "GNSS_MEASUREMENTS_CLOCK_FLAGS_BIAS_BIT \<equiv> 16"
abbreviation (input) GNSS_MEASUREMENTS_CLOCK_FLAGS_BIAS_UNCERTAINTY_BIT :: int where "GNSS_MEASUREMENTS_CLOCK_FLAGS_BIAS_UNCERTAINTY_BIT \<equiv> 32"
abbreviation (input) GNSS_MEASUREMENTS_CLOCK_FLAGS_DRIFT_BIT :: int where "GNSS_MEASUREMENTS_CLOCK_FLAGS_DRIFT_BIT \<equiv> 64"
abbreviation (input) GNSS_MEASUREMENTS_CLOCK_FLAGS_DRIFT_UNCERTAINTY_BIT :: int where "GNSS_MEASUREMENTS_CLOCK_FLAGS_DRIFT_UNCERTAINTY_BIT \<equiv> 128"
abbreviation (input) GNSS_MEASUREMENTS_CLOCK_FLAGS_HW_CLOCK_DISCONTINUITY_COUNT_BIT :: int where "GNSS_MEASUREMENTS_CLOCK_FLAGS_HW_CLOCK_DISCONTINUITY_COUNT_BIT \<equiv> 256"
abbreviation (input) GNSS_MEASUREMENTS_CLOCK_FLAGS_ELAPSED_REAL_TIME_BIT :: int where "GNSS_MEASUREMENTS_CLOCK_FLAGS_ELAPSED_REAL_TIME_BIT \<equiv> 512"

definition GnssMeasurementsClockFlagsBits :: "int list" where
  "GnssMeasurementsClockFlagsBits =
    [GNSS_MEASUREMENTS_CLOCK_FLAGS_LEAP_SECOND_BIT,
     GNSS_MEASUREMENTS_CLOCK_FLAGS_TIME_BIT,
     GNSS_MEASUREMENTS_CLOCK_FLAGS_TIME_UNCERTAINTY_BIT,
     GNSS_MEASUREMENTS_CLOCK_FLAGS_FULL_BIAS_BIT,
     GNSS_MEASUREMENTS_CLOCK_FLAGS_BIAS_BIT,
     GNSS_MEASUREMENTS_CLOCK_FLAGS_BIAS_UNCERTAINTY_BIT,
     GNSS_MEASUREMENTS_CLOCK_FLAGS_DRIFT_BIT,
     GNSS_MEASUREMENTS_CLOCK_FLAGS_DRIFT_UNCERTAINTY_BIT,
     GNSS_MEASUREMENTS_CLOCK_FLAGS_HW_CLOCK_DISCONTINUITY_COUNT_BIT,
     GNSS_MEASUREMENTS_CLOCK_FLAGS_ELAPSED_REAL_TIME_BIT]"

subsection \<open>\<^verbatim>\<open>PBGnssMeasurementsClockFlagsMask\<close> (LocationApiDataTypes.proto)\<close>

abbreviation (input) PB_GNSS_MEASUREMENTS_CLOCK_FLAGS_INVALID :: int where "PB_GNSS_MEASUREMENTS_CLOCK_FLAGS_INVALID \<equiv> 0"
abbreviation (input) PB_GNSS_MEASUREMENTS_CLOCK_FLAGS_LEAP_SECOND_BIT :: int where "PB_GNSS_MEASUREMENTS_CLOCK_FLAGS_LEAP_SECOND_BIT \<equiv> 1"
abbreviation (input) PB_GNSS_MEASUREMENTS_CLOCK_FLAGS_TIME_BIT :: int where "PB_GNSS_MEASUREMENTS_CLOCK_FLAGS_TIME_BIT \<equiv> 2"
abbreviation (input) PB_GNSS_MEASUREMENTS_CLOCK_FLAGS_TIME_UNCERTAINTY_BIT :: int where "PB_GNSS_MEASUREMENTS_CLOCK_FLAGS_TIME_UNCERTAINTY_BIT \<equiv> 4"
abbreviation (input) PB_GNSS_MEASUREMENTS_CLOCK_FLAGS_FULL_BIAS_BIT :: int where "PB_GNSS_MEASUREMENTS_CLOCK_FLAGS_FULL_BIAS_BIT \<equiv> 8"
abbreviation (input) PB_GNSS_MEASUREMENTS_CLOCK_FLAGS_BIAS_BIT :: int where "PB_GNSS_MEASUREMENTS_CLOCK_FLAGS_BIAS_BIT \<equiv> 16"
abbreviation (input) PB_GNSS_MEASUREMENTS_CLOCK_FLAGS_BIAS_UNCERTAINTY_BIT :: int where "PB_GNSS_MEASUREMENTS_CLOCK_FLAGS_BIAS_UNCERTAINTY_BIT \<equiv> 32"
abbreviation (input) PB_GNSS_MEASUREMENTS_CLOCK_FLAGS_DRIFT_BIT :: int where "PB_GNSS_MEASUREMENTS_CLOCK_FLAGS_DRIFT_BIT \<equiv> 64"
abbreviation (input) PB_GNSS_MEASUREMENTS_CLOCK_FLAGS_DRIFT_UNCERTAINTY_BIT :: int where "PB_GNSS_MEASUREMENTS_CLOCK_FLAGS_DRIFT_UNCERTAINTY_BIT \<equiv> 128"
abbreviation (input) PB_GNSS_MEASUREMENTS_CLOCK_FLAGS_HW_CLOCK_DISCONTINUITY_COUNT_BIT :: int where "PB_GNSS_MEASUREMENTS_CLOCK_FLAGS_HW_CLOCK_DISCONTINUITY_COUNT_BIT \<equiv> 256"

definition PBGnssMeasurementsClockFlagsMask :: "int list" where
  "PBGnssMeasurementsClockFlagsMask =
    [PB_GNSS_MEASUREMENTS_CLOCK_FLAGS_INVALID,
     PB_GNSS_MEASUREMENTS_CLOCK_FLAGS_LEAP_SECOND_BIT,
     PB_GNSS_MEASUREMENTS_CLOCK_FLAGS_TIME_BIT,
     PB_GNSS_MEASUREMENTS_CLOCK_FLAGS_TIME_UNCERTAINTY_BIT,
     PB_GNSS_MEASUREMENTS_CLOCK_FLAGS_FULL_BIAS_BIT,
     PB_GNSS_MEASUREMENTS_CLOCK_FLAGS_BIAS_BIT,
     PB_GNSS_MEASUREMENTS_CLOCK_FLAGS_BIAS_UNCERTAINTY_BIT,
     PB_GNSS_MEASUREMENTS_CLOCK_FLAGS_DRIFT_BIT,
     PB_GNSS_MEASUREMENTS_CLOCK_FLAGS_DRIFT_UNCERTAINTY_BIT,
     PB_GNSS_MEASUREMENTS_CLOCK_FLAGS_HW_CLOCK_DISCONTINUITY_COUNT_BIT]"

subsection \<open>\<^verbatim>\<open>GnssGloTimeTypeBits\<close> (LocationDataTypes.h)\<close>

abbreviation (input) GNSS_CLO_DAYS_VALID :: int where "GNSS_CLO_DAYS_VALID \<equiv> 1"
abbreviation (input) GNSS_GLO_MSEC_VALID :: int where "GNSS_GLO_MSEC_VALID \<equiv> 2"
abbreviation (input) GNSS_GLO_CLK_TIME_BIAS_VALID :: int where "GNSS_GLO_CLK_TIME_BIAS_VALID \<equiv> 4"
abbreviation (input) GNSS_GLO_CLK_TIME_BIAS_UNC_VALID :: int where "GNSS_GLO_CLK_TIME_BIAS_UNC_VALID \<equiv> 8"
abbreviation (input) GNSS_GLO_REF_FCOUNT_VALID :: int where "GNSS_GLO_REF_FCOUNT_VALID \<equiv> 16"
abbreviation (input) GNSS_GLO_NUM_CLOCK_RESETS_VALID :: int where "GNSS_GLO_NUM_CLOCK_RESETS_VALID \<equiv> 32"
abbreviation (input) GNSS_GLO_FOUR_YEAR_VALID :: int where "GNSS_GLO_FOUR_YEAR_VALID \<equiv> 64"

definition GnssGloTimeTypeBits :: "int list" where
  "GnssGloTimeTypeBits =
    [GNSS_CLO_DAYS_VALID,
     GNSS_GLO_MSEC_VALID,
     GNSS_GLO_CLK_TIME_BIAS_VALID,
     GNSS_GLO_CLK_TIME_BIAS_UNC_VALID,
     GNSS_GLO_REF_FCOUNT_VALID,
     GNSS_GLO_NUM_CLOCK_RESETS_VALID,
     GNSS_GLO_FOUR_YEAR_VALID]"

subsection \<open>\<^verbatim>\<open>PBGnssGloTimeStructTypeFlags\<close> (LocationApiDataTypes.proto)\<close>

abbreviation (input) PB_GNSS_CLO_TIME_UNKNOWN :: int where "PB_GNSS_CLO_TIME_UNKNOWN \<equiv> 0"
abbreviation (input) PB_GNSS_GLO_FOUR_YEAR_VALID :: int where "PB_GNSS_GLO_FOUR_YEAR_VALID \<equiv> 1"
abbreviation (input) PB_GNSS_CLO_DAYS_VALID :: int where "PB_GNSS_CLO_DAYS_VALID \<equiv> 2"
abbreviation (input) PB_GNSS_GLO_MSEC_VALID :: int where "PB_GNSS_GLO_MSEC_VALID \<equiv> 4"
abbreviation (input) PB_GNSS_GLO_CLK_TIME_BIAS_VALID :: int where "PB_GNSS_GLO_CLK_TIME_BIAS_VALID \<equiv> 8"
abbreviation (input) PB_GNSS_GLO_CLK_TIME_BIAS_UNC_VALID :: int where "PB_GNSS_GLO_CLK_TIME_BIAS_UNC_VALID \<equiv> 16"
abbreviation (input) PB_GNSS_GLO_REF_FCOUNT_VALID :: int where "PB_GNSS_GLO_REF_FCOUNT_VALID \<equiv> 32"
abbreviation (input) PB_GNSS_GLO_NUM_CLOCK_RESETS_VALID :: int where "PB_GNSS_GLO_NUM_CLOCK_RESETS_VALID \<equiv> 64"

definition PBGnssGloTimeStructTypeFlags :: "int list" where
  "PBGnssGloTimeStructTypeFlags =
    [PB_GNSS_CLO_TIME_UNKNOWN,
     PB_GNSS_GLO_FOUR_YEAR_VALID,
     PB_GNSS_CLO_DAYS_VALID,
     PB_GNSS_GLO_MSEC_VALID,
     PB_GNSS_GLO_CLK_TIME_BIAS_VALID,
     PB_GNSS_GLO_CLK_TIME_BIAS_UNC_VALID,
     PB_GNSS_GLO_REF_FCOUNT_VALID,
     PB_GNSS_GLO_NUM_CLOCK_RESETS_VALID]"

subsection \<open>\<^verbatim>\<open>GnssSvOptionsBits\<close> (LocationDataTypes.h)\<close>

abbreviation (input) GNSS_SV_OPTIONS_HAS_EPHEMER_BIT :: int where "GNSS_SV_OPTIONS_HAS_EPHEMER_BIT \<equiv> 1"
abbreviation (input) GNSS_SV_OPTIONS_HAS_ALMANAC_BIT :: int where "GNSS_SV_OPTIONS_HAS_ALMANAC_BIT \<equiv> 2"
abbreviation (input) GNSS_SV_OPTIONS_USED_IN_FIX_BIT :: int where "GNSS_SV_OPTIONS_USED_IN_FIX_BIT \<equiv> 4"
abbreviation (input) GNSS_SV_OPTIONS_HAS_CARRIER_FREQUENCY_BIT :: int where "GNSS_SV_OPTIONS_HAS_CARRIER_FREQUENCY_BIT \<equiv> 8"
abbreviation (input) GNSS_SV_OPTIONS_HAS_GNSS_SIGNAL_TYPE_BIT :: int where "GNSS_SV_OPTIONS_HAS_GNSS_SIGNAL_TYPE_BIT \<equiv> 16"

definition GnssSvOptionsBits :: "int list" where
  "GnssSvOptionsBits =
    [GNSS_SV_OPTIONS_HAS_EPHEMER_BIT,
     GNSS_SV_OPTIONS_HAS_ALMANAC_BIT,
     GNSS_SV_OPTIONS_USED_IN_FIX_BIT,
     GNSS_SV_OPTIONS_HAS_CARRIER_FREQUENCY_BIT,
     GNSS_SV_OPTIONS_HAS_GNSS_SIGNAL_TYPE_BIT]"

subsection \<open>\<^verbatim>\<open>PBLocApiGnssSvOptionsMask\<close> (LocationApiDataTypes.proto)\<close>

abbreviation (input) PB_GNSS_SV_OPTIONS_INVALID :: int where "PB_GNSS_SV_OPTIONS_INVALID \<equiv> 0"
abbreviation (input) PB_GNSS_SV_OPTIONS_HAS_EPHEMER_BIT :: int where "PB_GNSS_SV_OPTIONS_HAS_EPHEMER_BIT \<equiv> 1"
abbreviation (input) PB_GNSS_SV_OPTIONS_HAS_ALMANAC_BIT :: int where "PB_GNSS_SV_OPTIONS_HAS_ALMANAC_BIT \<equiv> 2"
abbreviation (input) PB_GNSS_SV_OPTIONS_USED_IN_FIX_BIT :: int where "PB_GNSS_SV_OPTIONS_USED_IN_FIX_BIT \<equiv> 4"
abbreviation (input) PB_GNSS_SV_OPTIONS_HAS_CARRIER_FREQUENCY_BIT :: int where "PB_GNSS_SV_OPTIONS_HAS_CARRIER_FREQUENCY_BIT \<equiv> 8"
abbreviation (input) PB_GNSS_SV_OPTIONS_HAS_GNSS_SIGNAL_TYPE_BIT :: int where "PB_GNSS_SV_OPTIONS_HAS_GNSS_SIGNAL_TYPE_BIT \<equiv> 16"

definition PBLocApiGnssSvOptionsMask :: "int list" where
  "PBLocApiGnssSvOptionsMask =
    [PB_GNSS_SV_OPTIONS_INVALID,
     PB_GNSS_SV_OPTIONS_HAS_EPHEMER_BIT,
     PB_GNSS_SV_OPTIONS_HAS_ALMANAC_BIT,
     PB_GNSS_SV_OPTIONS_USED_IN_FIX_BIT,
     PB_GNSS_SV_OPTIONS_HAS_CARRIER_FREQUENCY_BIT,
     PB_GNSS_SV_OPTIONS_HAS_GNSS_SIGNAL_TYPE_BIT]"

subsection \<open>\<^verbatim>\<open>GnssSignalTypeBits\<close> (LocationDataTypes.h)\<close>

abbreviation (input) GNSS_SIGNAL_GPS_L1CA :: int where "GNSS_SIGNAL_GPS_L1CA \<equiv> 1"
abbreviation (input) GNSS_SIGNAL_GPS_L1C :: int where "GNSS_SIGNAL_GPS_L1C \<equiv> 2"
abbreviation (input) GNSS_SIGNAL_GPS_L2 :: int where "GNSS_SIGNAL_GPS_L2 \<equiv> 4"
abbreviation (input) GNSS_SIGNAL_GPS_L5 :: int where "GNSS_SIGNAL_GPS_L5 \<equiv> 8"
abbreviation (input) GNSS_SIGNAL_GLONASS_G1 :: int where "GNSS_SIGNAL_GLONASS_G1 \<equiv> 16"
abbreviation (input) GNSS_SIGNAL_GLONASS_G2 :: int where "GNSS_SIGNAL_GLONASS_G2 \<equiv> 32"
abbreviation (input) GNSS_SIGNAL_GALILEO_E1 :: int where "GNSS_SIGNAL_GALILEO_E1 \<equiv> 64"
abbreviation (input) GNSS_SIGNAL_GALILEO_E5A :: int where "GNSS_SIGNAL_GALILEO_E5A \<equiv> 128"
abbreviation (input) GNSS_SIGNAL_GALILEO_E5B :: int where "GNSS_SIGNAL_GALILEO_E5B \<equiv> 256"
abbreviation (input) GNSS_SIGNAL_BEIDOU_B1 :: int where "GNSS_SIGNAL_BEIDOU_B1 \<equiv> 512"
abbreviation (input) GNSS_SIGNAL_BEIDOU_B2 :: int where "GNSS_SIGNAL_BEIDOU_B2 \<equiv> 1024"
abbreviation (input) GNSS_SIGNAL_QZSS_L1CA :: int where "GNSS_SIGNAL_QZSS_L1CA \<equiv> 2048"
abbreviation (input) GNSS_SIGNAL_QZSS_L1S :: int where "GNSS_SIGNAL_QZSS_L1S \<equiv> 4096"
abbreviation (input) GNSS_SIGNAL_QZSS_L2 :: int where "GNSS_SIGNAL_QZSS_L2 \<equiv> 8192"
abbreviation (input) GNSS_SIGNAL_QZSS_L5 :: int where "GNSS_SIGNAL_QZSS_L5 \<equiv> 16384"
abbreviation (input) GNSS_SIGNAL_SBAS_L1 :: int where "GNSS_SIGNAL_SBAS_L1 \<equiv> 32768"
abbreviation (input) GNSS_SIGNAL_BEIDOU_B1I :: int where "GNSS_SIGNAL_BEIDOU_B1I \<equiv> 65536"
abbreviation (input) GNSS_SIGNAL_BEIDOU_B1C :: int where "GNSS_SIGNAL_BEIDOU_B1C \<equiv> 131072"
abbreviation (input) GNSS_SIGNAL_BEIDOU_B2I :: int where "GNSS_SIGNAL_BEIDOU_B2I \<equiv> 262144"
abbreviation (input) GNSS_SIGNAL_BEIDOU_B2AI :: int where "GNSS_SIGNAL_BEIDOU_B2AI \<equiv> 524288"
abbreviation (input) GNSS_SIGNAL_NAVIC_L5 :: int where "GNSS_SIGNAL_NAVIC_L5 \<equiv> 1048576"
abbreviation (input) GNSS_SIGNAL_BEIDOU_B2AQ :: int where "GNSS_SIGNAL_BEIDOU_B2AQ \<equiv> 2097152"

definition GnssSignalTypeBits :: "int list" where
  "GnssSignalTypeBits =
    [GNSS_SIGNAL_GPS_L1CA,
     GNSS_SIGNAL_GPS_L1C,
     GNSS_SIGNAL_GPS_L2,
     GNSS_SIGNAL_GPS_L5,
     GNSS_SIGNAL_GLONASS_G1,
     GNSS_SIGNAL_GLONASS_G2,
     GNSS_SIGNAL_GALILEO_E1,
     GNSS_SIGNAL_GALILEO_E5A,
     GNSS_SIGNAL_GALILEO_E5B,
     GNSS_SIGNAL_BEIDOU_B1,
     GNSS_SIGNAL_BEIDOU_B2,
     GNSS_SIGNAL_QZSS_L1CA,
     GNSS_SIGNAL_QZSS_L1S,
     GNSS_SIGNAL_QZSS_L2,
     GNSS_SIGNAL_QZSS_L5,
     GNSS_SIGNAL_SBAS_L1,
     GNSS_SIGNAL_BEIDOU_B1I,
     GNSS_SIGNAL_BEIDOU_B1C,
     GNSS_SIGNAL_BEIDOU_B2I,
     GNSS_SIGNAL_BEIDOU_B2AI,
     GNSS_SIGNAL_NAVIC_L5,
     GNSS_SIGNAL_BEIDOU_B2AQ]"

subsection \<open>\<^verbatim>\<open>PBGnssSignalTypeMask\<close> (LocationApiDataTypes.proto)\<close>

abbreviation (input) PB_GNSS_SIGNAL_TYPE_MASK_INVALID :: int where "PB_GNSS_SIGNAL_TYPE_MASK_INVALID \<equiv> 0"
abbreviation (input) PB_GNSS_SIGNAL_GPS_L1CA_BIT :: int where "PB_GNSS_SIGNAL_GPS_L1CA_BIT \<equiv> 1"
abbreviation (input) PB_GNSS_SIGNAL_GPS_L1C_BIT :: int where "PB_GNSS_SIGNAL_GPS_L1C_BIT \<equiv> 2"
abbreviation (input) PB_GNSS_SIGNAL_GPS_L2_BIT :: int where "PB_GNSS_SIGNAL_GPS_L2_BIT \<equiv> 4"
abbreviation (input) PB_GNSS_SIGNAL_GPS_L5_BIT :: int where "PB_GNSS_SIGNAL_GPS_L5_BIT \<equiv> 8"
abbreviation (input) PB_GNSS_SIGNAL_GLONASS_G1_BIT :: int where "PB_GNSS_SIGNAL_GLONASS_G1_BIT \<equiv> 16"
abbreviation (input) PB_GNSS_SIGNAL_GLONASS_G2_BIT :: int where "PB_GNSS_SIGNAL_GLONASS_G2_BIT \<equiv> 32"
abbreviation (input) PB_GNSS_SIGNAL_GALILEO_E1_BIT :: int where "PB_GNSS_SIGNAL_GALILEO_E1_BIT \<equiv> 64"
abbreviation (input) PB_GNSS_SIGNAL_GALILEO_E5A_BIT :: int where "PB_GNSS_SIGNAL_GALILEO_E5A_BIT \<equiv> 128"
abbreviation (input) PB_GNSS_SIGNAL_GALILEO_E5B_BIT :: int where "PB_GNSS_SIGNAL_GALILEO_E5B_BIT \<equiv> 256"
abbreviation (input) PB_GNSS_SIGNAL_BEIDOU_B1_BIT :: int where "PB_GNSS_SIGNAL_BEIDOU_B1_BIT \<equiv> 512"
abbreviation (input) PB_GNSS_SIGNAL_BEIDOU_B2_BIT :: int where "PB_GNSS_SIGNAL_BEIDOU_B2_BIT \<equiv> 1024"
abbreviation (input) PB_GNSS_SIGNAL_QZSS_L1CA_BIT :: int where "PB_GNSS_SIGNAL_QZSS_L1CA_BIT \<equiv> 2048"
abbreviation (input) PB_GNSS_SIGNAL_QZSS_L1S_BIT :: int where "PB_GNSS_SIGNAL_QZSS_L1S_BIT \<equiv> 4096"
abbreviation (input) PB_GNSS_SIGNAL_QZSS_L2_BIT :: int where "PB_GNSS_SIGNAL_QZSS_L2_BIT \<equiv> 8192"
abbreviation (input) PB_GNSS_SIGNAL_QZSS_L5_BIT :: int where "PB_GNSS_SIGNAL_QZSS_L5_BIT \<equiv> 16384"
abbreviation (input) PB_GNSS_SIGNAL_SBAS_L1_BIT :: int where "PB_GNSS_SIGNAL_SBAS_L1_BIT \<equiv> 32768"
abbreviation (input) PB_GNSS_SIGNAL_BEIDOU_B1I_BIT :: int where "PB_GNSS_SIGNAL_BEIDOU_B1I_BIT \<equiv> 65536"
abbreviation (input) PB_GNSS_SIGNAL_BEIDOU_B1C_BIT :: int where "PB_GNSS_SIGNAL_BEIDOU_B1C_BIT \<equiv> 131072"
abbreviation (input) PB_GNSS_SIGNAL_BEIDOU_B2I_BIT :: int where "PB_GNSS_SIGNAL_BEIDOU_B2I_BIT \<equiv> 262144"
abbreviation (input) PB_GNSS_SIGNAL_BEIDOU_B2AI_BIT :: int where "PB_GNSS_SIGNAL_BEIDOU_B2AI_BIT \<equiv> 524288"
abbreviation (input) PB_GNSS_SIGNAL_NAVIC_L5_BIT :: int where "PB_GNSS_SIGNAL_NAVIC_L5_BIT \<equiv> 1048576"
abbreviation (input) PB_GNSS_SIGNAL_BEIDOU_B2AQ_BIT :: int where "PB_GNSS_SIGNAL_BEIDOU_B2AQ_BIT \<equiv> 2097152"

definition PBGnssSignalTypeMask :: "int list" where
  "PBGnssSignalTypeMask =
    [PB_GNSS_SIGNAL_TYPE_MASK_INVALID,
     PB_GNSS_SIGNAL_GPS_L1CA_BIT,
     PB_GNSS_SIGNAL_GPS_L1C_BIT,
     PB_GNSS_SIGNAL_GPS_L2_BIT,
     PB_GNSS_SIGNAL_GPS_L5_BIT,
     PB_GNSS_SIGNAL_GLONASS_G1_BIT,
     PB_GNSS_SIGNAL_GLONASS_G2_BIT,
     PB_GNSS_SIGNAL_GALILEO_E1_BIT,
     PB_GNSS_SIGNAL_GALILEO_E5A_BIT,
     PB_GNSS_SIGNAL_GALILEO_E5B_BIT,
     PB_GNSS_SIGNAL_BEIDOU_B1_BIT,
     PB_GNSS_SIGNAL_BEIDOU_B2_BIT,
     PB_GNSS_SIGNAL_QZSS_L1CA_BIT,
     PB_GNSS_SIGNAL_QZSS_L1S_BIT,
     PB_GNSS_SIGNAL_QZSS_L2_BIT,
     PB_GNSS_SIGNAL_QZSS_L5_BIT,
     PB_GNSS_SIGNAL_SBAS_L1_BIT,
     PB_GNSS_SIGNAL_BEIDOU_B1I_BIT,
     PB_GNSS_SIGNAL_BEIDOU_B1C_BIT,
     PB_GNSS_SIGNAL_BEIDOU_B2I_BIT,
     PB_GNSS_SIGNAL_BEIDOU_B2AI_BIT,
     PB_GNSS_SIGNAL_NAVIC_L5_BIT,
     PB_GNSS_SIGNAL_BEIDOU_B2AQ_BIT]"

subsection \<open>\<^verbatim>\<open>GeofenceBreachTypeBits\<close> (LocationDataTypes.h)\<close>

abbreviation (input) GEOFENCE_BREACH_ENTER_BIT :: int where "GEOFENCE_BREACH_ENTER_BIT \<equiv> 1"
abbreviation (input) GEOFENCE_BREACH_EXIT_BIT :: int where "GEOFENCE_BREACH_EXIT_BIT \<equiv> 2"
abbreviation (input) GEOFENCE_BREACH_DWELL_IN_BIT :: int where "GEOFENCE_BREACH_DWELL_IN_BIT \<equiv> 4"
abbreviation (input) GEOFENCE_BREACH_DWELL_OUT_BIT :: int where "GEOFENCE_BREACH_DWELL_OUT_BIT \<equiv> 8"

definition GeofenceBreachTypeBits :: "int list" where
  "GeofenceBreachTypeBits =
    [GEOFENCE_BREACH_ENTER_BIT,
     GEOFENCE_BREACH_EXIT_BIT,
     GEOFENCE_BREACH_DWELL_IN_BIT,
     GEOFENCE_BREACH_DWELL_OUT_BIT]"

subsection \<open>\<^verbatim>\<open>PBGeofenceBreachTypeMask\<close> (LocationApiMsg.proto)\<close>

abbreviation (input) PB_GEOFENCE_BREACH_INVALID :: int where "PB_GEOFENCE_BREACH_INVALID \<equiv> 0"
abbreviation (input) PB_GEOFENCE_BREACH_ENTER_BIT :: int where "PB_GEOFENCE_BREACH_ENTER_BIT \<equiv> 1"
abbreviation (input) PB_GEOFENCE_BREACH_EXIT_BIT :: int where "PB_GEOFENCE_BREACH_EXIT_BIT \<equiv> 2"
abbreviation (input) PB_GEOFENCE_BREACH_DWELL_IN_BIT :: int where "PB_GEOFENCE_BREACH_DWELL_IN_BIT \<equiv> 4"
abbreviation (input) PB_GEOFENCE_BREACH_DWELL_OUT_BIT :: int where "PB_GEOFENCE_BREACH_DWELL_OUT_BIT \<equiv> 8"

definition PBGeofenceBreachTypeMask :: "int list" where
  "PBGeofenceBreachTypeMask =
    [PB_GEOFENCE_BREACH_INVALID,
     PB_GEOFENCE_BREACH_ENTER_BIT,
     PB_GEOFENCE_BREACH_EXIT_BIT,
     PB_GEOFENCE_BREACH_DWELL_IN_BIT,
     PB_GEOFENCE_BREACH_DWELL_OUT_BIT]"

subsection \<open>\<^verbatim>\<open>DeadReckoningEngineConfigValidBit\<close> (LocationDataTypes.h)\<close>

abbreviation (input) BODY_TO_SENSOR_MOUNT_PARAMS_BIT :: int where "BODY_TO_SENSOR_MOUNT_PARAMS_BIT \<equiv> 1"
abbreviation (input) VEHICLE_SPEED_SCALE_FACTOR_BIT :: int where "VEHICLE_SPEED_SCALE_FACTOR_BIT \<equiv> 2"
abbreviation (input) VEHICLE_SPEED_SCALE_FACTOR_UNC_BIT :: int where "VEHICLE_SPEED_SCALE_FACTOR_UNC_BIT \<equiv> 4"
abbreviation (input) GYRO_SCALE_FACTOR_BIT :: int where "GYRO_SCALE_FACTOR_BIT \<equiv> 8"
abbreviation (input) GYRO_SCALE_FACTOR_UNC_BIT :: int where "GYRO_SCALE_FACTOR_UNC_BIT \<equiv> 16"

definition DeadReckoningEngineConfigValidBit :: "int list" where
  "DeadReckoningEngineConfigValidBit =
    [BODY_TO_SENSOR_MOUNT_PARAMS_BIT,
     VEHICLE_SPEED_SCALE_FACTOR_BIT,
     VEHICLE_SPEED_SCALE_FACTOR_UNC_BIT,
     GYRO_SCALE_FACTOR_BIT,
     GYRO_SCALE_FACTOR_UNC_BIT]"

subsection \<open>\<^verbatim>\<open>PBDeadReckoningEngineConfigValidMask\<close> (LocationApiDataTypes.proto)\<close>

abbreviation (input) PB_DR_RECKON_ENGINE_CONFIG_INVALID :: int where "PB_DR_RECKON_ENGINE_CONFIG_INVALID \<equiv> 0"
abbreviation (input) PB_BODY_TO_SENSOR_MOUNT_PARAMS_BIT :: int where "PB_BODY_TO_SENSOR_MOUNT_PARAMS_BIT \<equiv> 1"
abbreviation (input) PB_VEHICLE_SPEED_SCALE_FACTOR_BIT :: int where "PB_VEHICLE_SPEED_SCALE_FACTOR_BIT \<equiv> 2"
abbreviation (input) PB_VEHICLE_SPEED_SCALE_FACTOR_UNC_BIT :: int where "PB_VEHICLE_SPEED_SCALE_FACTOR_UNC_BIT \<equiv> 4"
abbreviation (input) PB_GYRO_SCALE_FACTOR_BIT :: int where "PB_GYRO_SCALE_FACTOR_BIT \<equiv> 8"
abbreviation (input) PB_GYRO_SCALE_FACTOR_UNC_BIT :: int where "PB_GYRO_SCALE_FACTOR_UNC_BIT \<equiv> 16"

definition PBDeadReckoningEngineConfigValidMask :: "int list" where
  "PBDeadReckoningEngineConfigValidMask =
    [PB_DR_RECKON_ENGINE_CONFIG_INVALID,
     PB_BODY_TO_SENSOR_MOUNT_PARAMS_BIT,
     PB_VEHICLE_SPEED_SCALE_FACTOR_BIT,
     PB_VEHICLE_SPEED_SCALE_FACTOR_UNC_BIT,
     PB_GYRO_SCALE_FACTOR_BIT,
     PB_GYRO_SCALE_FACTOR_UNC_BIT]"

subsection \<open>\<^verbatim>\<open>DrEngineAidingDataBits\<close> (LocationDataTypes.h)\<close>

abbreviation (input) DR_ENGINE_AIDING_DATA_CALIBRATION_BIT :: int where "DR_ENGINE_AIDING_DATA_CALIBRATION_BIT \<equiv> 1"

definition DrEngineAidingDataBits :: "int list" where
  "DrEngineAidingDataBits =
    [DR_ENGINE_AIDING_DATA_CALIBRATION_BIT]"

subsection \<open>\<^verbatim>\<open>PBDrEngineAidingDataMask\<close> (LocationApiDataTypes.proto)\<close>

abbreviation (input) PB_DR_ENGINE_AIDING_DATA_INVALID :: int where "PB_DR_ENGINE_AIDING_DATA_INVALID \<equiv> 0"
abbreviation (input) PB_DR_ENGINE_AIDING_DATA_CALIBRATION_BIT :: int where "PB_DR_ENGINE_AIDING_DATA_CALIBRATION_BIT \<equiv> 1"

definition PBDrEngineAidingDataMask :: "int list" where
  "PBDrEngineAidingDataMask =
    [PB_DR_ENGINE_AIDING_DATA_INVALID,
     PB_DR_ENGINE_AIDING_DATA_CALIBRATION_BIT]"

subsection \<open>\<^verbatim>\<open>DrSolutionStatusMask\<close> (LocationDataTypes.h)\<close>

abbreviation (input) VEHICLE_SENSOR_SPEED_INPUT_DETECTED :: int where "VEHICLE_SENSOR_SPEED_INPUT_DETECTED \<equiv> 1"
abbreviation (input) VEHICLE_SENSOR_SPEED_INPUT_USED :: int where "VEHICLE_SENSOR_SPEED_INPUT_USED \<equiv> 2"

definition DrSolutionStatusMask :: "int list" where
  "DrSolutionStatusMask =
    [VEHICLE_SENSOR_SPEED_INPUT_DETECTED,
     VEHICLE_SENSOR_SPEED_INPUT_USED]"

subsection \<open>\<^verbatim>\<open>PBDrSolutionStatusMask\<close> (LocationApiDataTypes.proto)\<close>

abbreviation (input) PB_VEHICLE_DRSOLUTION_INVALID :: int where "PB_VEHICLE_DRSOLUTION_INVALID \<equiv> 0"
abbreviation (input) PB_VEHICLE_SENSOR_SPEED_INPUT_DETECTED :: int where "PB_VEHICLE_SENSOR_SPEED_INPUT_DETECTED \<equiv> 1"
abbreviation (input) PB_VEHICLE_SENSOR_SPEED_INPUT_USED :: int where "PB_VEHICLE_SENSOR_SPEED_INPUT_USED \<equiv> 2"

definition PBDrSolutionStatusMask :: "int list" where
  "PBDrSolutionStatusMask =
    [PB_VEHICLE_DRSOLUTION_INVALID,
     PB_VEHICLE_SENSOR_SPEED_INPUT_DETECTED,
     PB_VEHICLE_SENSOR_SPEED_INPUT_USED]"

subsection \<open>\<^verbatim>\<open>PBGnssSvTypesMask\<close> (LocationApiDataTypes.proto)\<close>

abbreviation (input) PB_GNSS_SV_TYPES_MASK_INVALID :: int where "PB_GNSS_SV_TYPES_MASK_INVALID \<equiv> 0"
abbreviation (input) PB_GNSS_SV_TYPES_MASK_GLO_BIT :: int where "PB_GNSS_SV_TYPES_MASK_GLO_BIT \<equiv> 1"
abbreviation (input) PB_GNSS_SV_TYPES_MASK_BDS_BIT :: int where "PB_GNSS_SV_TYPES_MASK_BDS_BIT \<equiv> 2"
abbreviation (input) PB_GNSS_SV_TYPES_MASK_QZSS_BIT :: int where "PB_GNSS_SV_TYPES_MASK_QZSS_BIT \<equiv> 4"
abbreviation (input) PB_GNSS_SV_TYPES_MASK_GAL_BIT :: int where "PB_GNSS_SV_TYPES_MASK_GAL_BIT \<equiv> 8"
abbreviation (input) PB_GNSS_SV_TYPES_MASK_NAVIC_BIT :: int where "PB_GNSS_SV_TYPES_MASK_NAVIC_BIT \<equiv> 16"
abbreviation (input) PB_GNSS_SV_TYPES_MASK_GPS_BIT :: int where "PB_GNSS_SV_TYPES_MASK_GPS_BIT \<equiv> 32"

definition PBGnssSvTypesMask :: "int list" where
  "PBGnssSvTypesMask =
    [PB_GNSS_SV_TYPES_MASK_INVALID,
     PB_GNSS_SV_TYPES_MASK_GLO_BIT,
     PB_GNSS_SV_TYPES_MASK_BDS_BIT,
     PB_GNSS_SV_TYPES_MASK_QZSS_BIT,
     PB_GNSS_SV_TYPES_MASK_GAL_BIT,
     PB_GNSS_SV_TYPES_MASK_NAVIC_BIT,
     PB_GNSS_SV_TYPES_MASK_GPS_BIT]"

subsection \<open>\<^verbatim>\<open>GnssSvTypesMaskBits\<close> (LocationDataTypes.h)\<close>

abbreviation (input) GNSS_SV_TYPES_MASK_GLO_BIT :: int where "GNSS_SV_TYPES_MASK_GLO_BIT \<equiv> 1"
abbreviation (input) GNSS_SV_TYPES_MASK_BDS_BIT :: int where "GNSS_SV_TYPES_MASK_BDS_BIT \<equiv> 2"
abbreviation (input) GNSS_SV_TYPES_MASK_QZSS_BIT :: int where "GNSS_SV_TYPES_MASK_QZSS_BIT \<equiv> 4"
abbreviation (input) GNSS_SV_TYPES_MASK_GAL_BIT :: int where "GNSS_SV_TYPES_MASK_GAL_BIT \<equiv> 8"
abbreviation (input) GNSS_SV_TYPES_MASK_NAVIC_BIT :: int where "GNSS_SV_TYPES_MASK_NAVIC_BIT \<equiv> 16"
abbreviation (input) GNSS_SV_TYPES_MASK_GPS_BIT :: int where "GNSS_SV_TYPES_MASK_GPS_BIT \<equiv> 32"

definition GnssSvTypesMaskBits :: "int list" where
  "GnssSvTypesMaskBits =
    [GNSS_SV_TYPES_MASK_GLO_BIT,
     GNSS_SV_TYPES_MASK_BDS_BIT,
     GNSS_SV_TYPES_MASK_QZSS_BIT,
     GNSS_SV_TYPES_MASK_GAL_BIT,
     GNSS_SV_TYPES_MASK_NAVIC_BIT,
     GNSS_SV_TYPES_MASK_GPS_BIT]"

subsection \<open>\<^verbatim>\<open>PBLocationSessionStatus\<close> (LocationApiDataTypes.proto)\<close>

abbreviation (input) PB_LOCATION_SESS_SUCCESS :: int where "PB_LOCATION_SESS_SUCCESS \<equiv> 0"
abbreviation (input) PB_LOCATION_SESS_INTERMEDIATE :: int where "PB_LOCATION_SESS_INTERMEDIATE \<equiv> 1"
abbreviation (input) PB_LOCATION_SESS_FAILURE :: int where "PB_LOCATION_SESS_FAILURE \<equiv> 2"

definition PBLocationSessionStatus :: "int list" where
  "PBLocationSessionStatus =
    [PB_LOCATION_SESS_SUCCESS,
     PB_LOCATION_SESS_INTERMEDIATE,
     PB_LOCATION_SESS_FAILURE]"

subsection \<open>\<^verbatim>\<open>loc_sess_status\<close> (LocationDataTypes.h)\<close>

abbreviation (input) LOC_SESS_SUCCESS :: int where "LOC_SESS_SUCCESS \<equiv> 0"
abbreviation (input) LOC_SESS_INTERMEDIATE :: int where "LOC_SESS_INTERMEDIATE \<equiv> 1"
abbreviation (input) LOC_SESS_FAILURE :: int where "LOC_SESS_FAILURE \<equiv> 2"

definition loc_sess_status :: "int list" where
  "loc_sess_status =
    [LOC_SESS_SUCCESS,
     LOC_SESS_INTERMEDIATE,
     LOC_SESS_FAILURE]"

end
