(* ===== verification/PbConv.thy ===== *)
theory PbConv
  imports PbTables PbConsts
begin

text \<open>
  The enum and mask converters of LocationApiPbMsgConv.cpp, in source order: between the values of
  the location API and those of the protobuf wire format that the location HAL daemon exchanges with
  its clients.  The rows of each table are the statements of the C++ function.  An enumerator has
  the value of its declaration; the values of a protobuf enum are open, so an enum argument is any
  integer.

  After the definitions come the round trips: what a mask or an enum value is after it has been sent
  and received.
\<close>

section \<open>The converters\<close>

definition getEnumForPBELocMsgID :: "int \<Rightarrow> int" where
  "getEnumForPBELocMsgID pbLocMsgId = conv_enum
    [(PB_E_LOCAPI_UNDEFINED_MSG_ID, E_LOCAPI_UNDEFINED_MSG_ID),
     (PB_E_LOCAPI_CLIENT_REGISTER_MSG_ID, E_LOCAPI_CLIENT_REGISTER_MSG_ID),
     (PB_E_LOCAPI_CLIENT_DEREGISTER_MSG_ID, E_LOCAPI_CLIENT_DEREGISTER_MSG_ID),
     (PB_E_LOCAPI_CAPABILILTIES_MSG_ID, E_LOCAPI_CAPABILILTIES_MSG_ID),
     (PB_E_LOCAPI_HAL_READY_MSG_ID, E_LOCAPI_HAL_READY_MSG_ID),
     (PB_E_LOCAPI_START_TRACKING_MSG_ID, E_LOCAPI_START_TRACKING_MSG_ID),
     (PB_E_LOCAPI_STOP_TRACKING_MSG_ID, E_LOCAPI_STOP_TRACKING_MSG_ID),
     (PB_E_LOCAPI_UPDATE_CALLBACKS_MSG_ID, E_LOCAPI_UPDATE_CALLBACKS_MSG_ID),
     (PB_E_LOCAPI_UPDATE_TRACKING_OPTIONS_MSG_ID, E_LOCAPI_UPDATE_TRACKING_OPTIONS_MSG_ID),
     (PB_E_LOCAPI_CONTROL_UPDATE_CONFIG_MSG_ID, E_LOCAPI_CONTROL_UPDATE_CONFIG_MSG_ID),
     (PB_E_LOCAPI_CONTROL_DELETE_AIDING_DATA_MSG_ID, E_LOCAPI_CONTROL_DELETE_AIDING_DATA_MSG_ID),
     (PB_E_LOCAPI_CONTROL_UPDATE_NETWORK_AVAILABILITY_MSG_ID, E_LOCAPI_CONTROL_UPDATE_NETWORK_AVAILABILITY_MSG_ID),
     (PB_E_LOCAPI_LOCATION_MSG_ID, E_LOCAPI_LOCATION_MSG_ID),
     (PB_E_LOCAPI_LOCATION_INFO_MSG_ID, E_LOCAPI_LOCATION_INFO_MSG_ID),
     (PB_E_LOCAPI_SATELLITE_VEHICLE_MSG_ID, E_LOCAPI_SATELLITE_VEHICLE_MSG_ID),
     (PB_E_LOCAPI_NMEA_MSG_ID, E_LOCAPI_NMEA_MSG_ID),
     (PB_E_LOCAPI_DATA_MSG_ID, E_LOCAPI_DATA_MSG_ID),
     (PB_E_LOCAPI_GET_GNSS_ENGERY_CONSUMED_MSG_ID, E_LOCAPI_GET_GNSS_ENGERY_CONSUMED_MSG_ID),
     (PB_E_LOCAPI_LOCATION_SYSTEM_INFO_MSG_ID, E_LOCAPI_LOCATION_SYSTEM_INFO_MSG_ID),
     (PB_E_LOCAPI_ENGINE_LOCATIONS_INFO_MSG_ID, E_LOCAPI_ENGINE_LOCATIONS_INFO_MSG_ID),
     (PB_E_LOCAPI_START_BATCHING_MSG_ID, E_LOCAPI_START_BATCHING_MSG_ID),
     (PB_E_LOCAPI_STOP_BATCHING_MSG_ID, E_LOCAPI_STOP_BATCHING_MSG_ID),
     (PB_E_LOCAPI_UPDATE_BATCHING_OPTIONS_MSG_ID, E_LOCAPI_UPDATE_BATCHING_OPTIONS_MSG_ID),
     (PB_E_LOCAPI_BATCHING_MSG_ID, E_LOCAPI_BATCHING_MSG_ID),
     (PB_E_LOCAPI_ADD_GEOFENCES_MSG_ID, E_LOCAPI_ADD_GEOFENCES_MSG_ID),
     (PB_E_LOCAPI_REMOVE_GEOFENCES_MSG_ID, E_LOCAPI_REMOVE_GEOFENCES_MSG_ID),
     (PB_E_LOCAPI_MODIFY_GEOFENCES_MSG_ID, E_LOCAPI_MODIFY_GEOFENCES_MSG_ID),
     (PB_E_LOCAPI_PAUSE_GEOFENCES_MSG_ID, E_LOCAPI_PAUSE_GEOFENCES_MSG_ID),
     (PB_E_LOCAPI_RESUME_GEOFENCES_MSG_ID, E_LOCAPI_RESUME_GEOFENCES_MSG_ID),
     (PB_E_LOCAPI_GEOFENCE_BREACH_MSG_ID, E_LOCAPI_GEOFENCE_BREACH_MSG_ID),
     (PB_E_LOCAPI_MEAS_MSG_ID, E_LOCAPI_MEAS_MSG_ID),
     (PB_E_LOCAPI_GET_SINGLE_TERRESTRIAL_POS_REQ_MSG_ID, E_LOCAPI_GET_SINGLE_TERRESTRIAL_POS_REQ_MSG_ID),
     (PB_E_LOCAPI_GET_SINGLE_TERRESTRIAL_POS_RESP_MSG_ID, E_LOCAPI_GET_SINGLE_TERRESTRIAL_POS_RESP_MSG_ID),
     (PB_E_LOCAPI_PINGTEST_MSG_ID, E_LOCAPI_PINGTEST_MSG_ID),
     (PB_E_INTAPI_CONFIG_CONSTRAINTED_TUNC_MSG_ID, E_INTAPI_CONFIG_CONSTRAINTED_TUNC_MSG_ID),
     (PB_E_INTAPI_CONFIG_POSITION_ASSISTED_CLOCK_ESTIMATOR_MSG_ID, E_INTAPI_CONFIG_POSITION_ASSISTED_CLOCK_ESTIMATOR_MSG_ID),
     (PB_E_INTAPI_CONFIG_SV_CONSTELLATION_MSG_ID, E_INTAPI_CONFIG_SV_CONSTELLATION_MSG_ID),
     (PB_E_INTAPI_CONFIG_AIDING_DATA_DELETION_MSG_ID, E_INTAPI_CONFIG_AIDING_DATA_DELETION_MSG_ID),
     (PB_E_INTAPI_CONFIG_LEVER_ARM_MSG_ID, E_INTAPI_CONFIG_LEVER_ARM_MSG_ID),
     (PB_E_INTAPI_CONFIG_ROBUST_LOCATION_MSG_ID, E_INTAPI_CONFIG_ROBUST_LOCATION_MSG_ID),
     (PB_E_INTAPI_CONFIG_MIN_GPS_WEEK_MSG_ID, E_INTAPI_CONFIG_MIN_GPS_WEEK_MSG_ID),
     (PB_E_INTAPI_CONFIG_DEAD_RECKONING_ENGINE_MSG_ID, E_INTAPI_CONFIG_DEAD_RECKONING_ENGINE_MSG_ID),
     (PB_E_INTAPI_CONFIG_MIN_SV_ELEVATION_MSG_ID, E_INTAPI_CONFIG_MIN_SV_ELEVATION_MSG_ID),
     (PB_E_INTAPI_CONFIG_CONSTELLATION_SECONDARY_BAND_MSG_ID, E_INTAPI_CONFIG_CONSTELLATION_SECONDARY_BAND_MSG_ID),
     (PB_E_INTAPI_CONFIG_ENGINE_RUN_STATE_MSG_ID, E_INTAPI_CONFIG_ENGINE_RUN_STATE_MSG_ID),
     (PB_E_INTAPI_CONFIG_USER_CONSENT_TERRESTRIAL_POSITIONING_MSG_ID, E_INTAPI_CONFIG_USER_CONSENT_TERRESTRIAL_POSITIONING_MSG_ID),
     (PB_E_INTAPI_GET_ROBUST_LOCATION_CONFIG_REQ_MSG_ID, E_INTAPI_GET_ROBUST_LOCATION_CONFIG_REQ_MSG_ID),
     (PB_E_INTAPI_GET_ROBUST_LOCATION_CONFIG_RESP_MSG_ID, E_INTAPI_GET_ROBUST_LOCATION_CONFIG_RESP_MSG_ID),
     (PB_E_INTAPI_GET_MIN_GPS_WEEK_REQ_MSG_ID, E_INTAPI_GET_MIN_GPS_WEEK_REQ_MSG_ID),
     (PB_E_INTAPI_GET_MIN_GPS_WEEK_RESP_MSG_ID, E_INTAPI_GET_MIN_GPS_WEEK_RESP_MSG_ID),
     (PB_E_INTAPI_GET_MIN_SV_ELEVATION_REQ_MSG_ID, E_INTAPI_GET_MIN_SV_ELEVATION_REQ_MSG_ID),
     (PB_E_INTAPI_GET_MIN_SV_ELEVATION_RESP_MSG_ID, E_INTAPI_GET_MIN_SV_ELEVATION_RESP_MSG_ID),
     (PB_E_INTAPI_GET_CONSTELLATION_SECONDARY_BAND_CONFIG_REQ_MSG_ID, E_INTAPI_GET_CONSTELLATION_SECONDARY_BAND_CONFIG_REQ_MSG_ID),
     (PB_E_INTAPI_GET_CONSTELLATION_SECONDARY_BAND_CONFIG_RESP_MSG_ID, E_INTAPI_GET_CONSTELLATION_SECONDARY_BAND_CONFIG_RESP_MSG_ID)]
     E_LOCAPI_UNDEFINED_MSG_ID pbLocMsgId"

definition getEnumForPBLocationError :: "int \<Rightarrow> int" where
  "getEnumForPBLocationError pbLocErr = conv_enum
    [(PB_LOCATION_ERROR_SUCCESS, LOCATION_ERROR_SUCCESS),
     (PB_LOCATION_ERROR_INVALID_PARAMETER, LOCATION_ERROR_INVALID_PARAMETER),
     (PB_LOCATION_ERROR_NOT_SUPPORTED, LOCATION_ERROR_NOT_SUPPORTED),
     (PB_LOCATION_ERROR_TIMEOUT, LOCATION_ERROR_TIMEOUT)]
     LOCATION_ERROR_GENERAL_FAILURE pbLocErr"

definition getEnumForPBClientType :: "int \<Rightarrow> int" where
  "getEnumForPBClientType pbClntTyp = conv_enum
    [(PB_LOCATION_INTEGRATION_API, LOCATION_INTEGRATION_API)]
     LOCATION_CLIENT_API pbClntTyp"

definition getEnumForPBBatchingMode :: "int \<Rightarrow> int" where
  "getEnumForPBBatchingMode pbBatchMode = conv_enum
    [(PB_BATCHING_MODE_TRIP, BATCHING_MODE_TRIP),
     (PB_BATCHING_MODE_NO_AUTO_REPORT, BATCHING_MODE_NO_AUTO_REPORT)]
     BATCHING_MODE_ROUTINE pbBatchMode"

definition getEnumForPBGnssSuplMode :: "int \<Rightarrow> int" where
  "getEnumForPBGnssSuplMode pbGnssSuplMode = conv_enum
    [(PB_GNSS_SUPL_MODE_MSB, GNSS_SUPL_MODE_MSB),
     (PB_GNSS_SUPL_MODE_MSA, GNSS_SUPL_MODE_MSA)]
     GNSS_SUPL_MODE_STANDALONE pbGnssSuplMode"

definition getEnumForPBBatchingStatus :: "int \<Rightarrow> int" where
  "getEnumForPBBatchingStatus pbBatchStat = conv_enum
    [(PB_BATCHING_STATUS_TRIP_COMPLETED, BATCHING_STATUS_TRIP_COMPLETED),
     (PB_BATCHING_STATUS_POSITION_AVAILABE, BATCHING_STATUS_POSITION_AVAILABE),
     (PB_BATCHING_STATUS_POSITION_UNAVAILABLE, BATCHING_STATUS_POSITION_UNAVAILABLE)]
     BATCHING_STATUS_POSITION_UNAVAILABLE pbBatchStat"

definition getEnumForPBGnssMeasMultipathIndic :: "int \<Rightarrow> int" where
  "getEnumForPBGnssMeasMultipathIndic pbGnssMeasMultipathIndic = conv_enum
    [(PB_GNSS_MEASUREMENTS_MULTIPATH_INDICATOR_UNKNOWN, GNSS_MEASUREMENTS_MULTIPATH_INDICATOR_UNKNOWN),
     (PB_GNSS_MEASUREMENTS_MULTIPATH_INDICATOR_PRESENT, GNSS_MEASUREMENTS_MULTIPATH_INDICATOR_PRESENT),
     (PB_GNSS_MEASUREMENTS_MULTIPATH_INDICATOR_NOT_PRESENT, GNSS_MEASUREMENTS_MULTIPATH_INDICATOR_NOT_PRESENT)]
     GNSS_MEASUREMENTS_MULTIPATH_INDICATOR_UNKNOWN pbGnssMeasMultipathIndic"

definition getEnumForPBLocReliability :: "int \<Rightarrow> int" where
  "getEnumForPBLocReliability pbLocReliability = conv_enum
    [(PB_LOCATION_RELIABILITY_NOT_SET, LOCATION_RELIABILITY_NOT_SET),
     (PB_LOCATION_RELIABILITY_VERY_LOW, LOCATION_RELIABILITY_VERY_LOW),
     (PB_LOCATION_RELIABILITY_LOW, LOCATION_RELIABILITY_LOW),
     (PB_LOCATION_RELIABILITY_MEDIUM, LOCATION_RELIABILITY_MEDIUM),
     (PB_LOCATION_RELIABILITY_HIGH, LOCATION_RELIABILITY_HIGH)]
     LOCATION_RELIABILITY_NOT_SET pbLocReliability"

definition getEnumForPBGnssLocSvSystem :: "int \<Rightarrow> int" where
  "getEnumForPBGnssLocSvSystem pbGnssLocSvSysEnumType = conv_enum
    [(PB_GNSS_LOC_SV_SYSTEM_INVALID, GNSS_LOC_SV_SYSTEM_UNKNOWN),
     (PB_GNSS_LOC_SV_SYSTEM_GPS, GNSS_LOC_SV_SYSTEM_GPS),
     (PB_GNSS_LOC_SV_SYSTEM_GALILEO, GNSS_LOC_SV_SYSTEM_GALILEO),
     (PB_GNSS_LOC_SV_SYSTEM_SBAS, GNSS_LOC_SV_SYSTEM_SBAS),
     (PB_GNSS_LOC_SV_SYSTEM_GLONASS, GNSS_LOC_SV_SYSTEM_GLONASS),
     (PB_GNSS_LOC_SV_SYSTEM_BDS, GNSS_LOC_SV_SYSTEM_BDS),
     (PB_GNSS_LOC_SV_SYSTEM_QZSS, GNSS_LOC_SV_SYSTEM_QZSS),
     (PB_GNSS_LOC_SV_SYSTEM_NAVIC, GNSS_LOC_SV_SYSTEM_NAVIC)]
     GNSS_LOC_SV_SYSTEM_UNKNOWN pbGnssLocSvSysEnumType"

definition getEnumForPBLocOutputEngineType :: "int \<Rightarrow> int" where
  "getEnumForPBLocOutputEngineType pbLocOpEngType = conv_enum
    [(PB_LOC_OUTPUT_ENGINE_FUSED, LOC_OUTPUT_ENGINE_FUSED),
     (PB_LOC_OUTPUT_ENGINE_SPE, LOC_OUTPUT_ENGINE_SPE),
     (PB_LOC_OUTPUT_ENGINE_PPE, LOC_OUTPUT_ENGINE_PPE)]
     LOC_OUTPUT_ENGINE_FUSED pbLocOpEngType"

definition getEnumForPBLocEngineRunState :: "int \<Rightarrow> int" where
  "getEnumForPBLocEngineRunState pbLocEngRunState = conv_enum
    [(PB_LOC_ENGINE_RUN_STATE_PAUSE, LOC_ENGINE_RUN_STATE_PAUSE),
     (PB_LOC_ENGINE_RUN_STATE_RESUME, LOC_ENGINE_RUN_STATE_RESUME)]
     0 pbLocEngRunState"

definition getPBEnumForLocEngineRunState :: "int \<Rightarrow> 32 word" where
  "getPBEnumForLocEngineRunState locEngineRunState = word_of_int (conv_enum
    [(LOC_ENGINE_RUN_STATE_PAUSE, PB_LOC_ENGINE_RUN_STATE_PAUSE),
     (LOC_ENGINE_RUN_STATE_RESUME, PB_LOC_ENGINE_RUN_STATE_RESUME)]
     PB_LOC_ENGINE_RUN_STATE_INVALID locEngineRunState)"

definition getTerrestrialTechMaskFromPB :: "32 word \<Rightarrow> 32 word" where
  "getTerrestrialTechMaskFromPB pbTerrestrialTechMask = conv_mask
    [(PB_TERRESTRIAL_TECH_GTP_WWAN, TERRESTRIAL_TECH_GTP_WWAN)]
     pbTerrestrialTechMask 0"

definition getPBMaskForTerrestrialTechMask :: "32 word \<Rightarrow> 32 word" where
  "getPBMaskForTerrestrialTechMask terrestrialTechMask = conv_mask
    [(TERRESTRIAL_TECH_GTP_WWAN, PB_TERRESTRIAL_TECH_GTP_WWAN)]
     terrestrialTechMask (word_of_int PB_TERRESTRIAL_TECH_INVALID)"

definition getGnssSvTypeFromPBGnssLocSvSystemEnumType :: "int \<Rightarrow> int" where
  "getGnssSvTypeFromPBGnssLocSvSystemEnumType pbGnssLocSvSysEnum = conv_enum
    [(PB_GNSS_LOC_SV_SYSTEM_GPS, GNSS_SV_TYPE_GPS),
     (PB_GNSS_LOC_SV_SYSTEM_GALILEO, GNSS_SV_TYPE_GALILEO),
     (PB_GNSS_LOC_SV_SYSTEM_SBAS, GNSS_SV_TYPE_SBAS),
     (PB_GNSS_LOC_SV_SYSTEM_GLONASS, GNSS_SV_TYPE_GLONASS),
     (PB_GNSS_LOC_SV_SYSTEM_BDS, GNSS_SV_TYPE_BEIDOU),
     (PB_GNSS_LOC_SV_SYSTEM_QZSS, GNSS_SV_TYPE_QZSS),
     (PB_GNSS_LOC_SV_SYSTEM_NAVIC, GNSS_SV_TYPE_NAVIC)]
     GNSS_SV_TYPE_UNKNOWN pbGnssLocSvSysEnum"

definition getPBEnumForELocMsgID :: "int \<Rightarrow> int" where
  "getPBEnumForELocMsgID eLocMsgId = conv_enum
    [(E_LOCAPI_CLIENT_REGISTER_MSG_ID, PB_E_LOCAPI_CLIENT_REGISTER_MSG_ID),
     (E_LOCAPI_CLIENT_DEREGISTER_MSG_ID, PB_E_LOCAPI_CLIENT_DEREGISTER_MSG_ID),
     (E_LOCAPI_CAPABILILTIES_MSG_ID, PB_E_LOCAPI_CAPABILILTIES_MSG_ID),
     (E_LOCAPI_HAL_READY_MSG_ID, PB_E_LOCAPI_HAL_READY_MSG_ID),
     (E_LOCAPI_START_TRACKING_MSG_ID, PB_E_LOCAPI_START_TRACKING_MSG_ID),
     (E_LOCAPI_STOP_TRACKING_MSG_ID, PB_E_LOCAPI_STOP_TRACKING_MSG_ID),
     (E_LOCAPI_UPDATE_CALLBACKS_MSG_ID, PB_E_LOCAPI_UPDATE_CALLBACKS_MSG_ID),
     (E_LOCAPI_UPDATE_TRACKING_OPTIONS_MSG_ID, PB_E_LOCAPI_UPDATE_TRACKING_OPTIONS_MSG_ID),
     (E_LOCAPI_CONTROL_UPDATE_CONFIG_MSG_ID, PB_E_LOCAPI_CONTROL_UPDATE_CONFIG_MSG_ID),
     (E_LOCAPI_CONTROL_DELETE_AIDING_DATA_MSG_ID, PB_E_LOCAPI_CONTROL_DELETE_AIDING_DATA_MSG_ID),
     (E_LOCAPI_CONTROL_UPDATE_NETWORK_AVAILABILITY_MSG_ID, PB_E_LOCAPI_CONTROL_UPDATE_NETWORK_AVAILABILITY_MSG_ID),
     (E_LOCAPI_LOCATION_MSG_ID, PB_E_LOCAPI_LOCATION_MSG_ID),
     (E_LOCAPI_LOCATION_INFO_MSG_ID, PB_E_LOCAPI_LOCATION_INFO_MSG_ID),
     (E_LOCAPI_SATELLITE_VEHICLE_MSG_ID, PB_E_LOCAPI_SATELLITE_VEHICLE_MSG_ID),
     (E_LOCAPI_NMEA_MSG_ID, PB_E_LOCAPI_NMEA_MSG_ID),
     (E_LOCAPI_DATA_MSG_ID, PB_E_LOCAPI_DATA_MSG_ID),
     (E_LOCAPI_GET_GNSS_ENGERY_CONSUMED_MSG_ID, PB_E_LOCAPI_GET_GNSS_ENGERY_CONSUMED_MSG_ID),
     (E_LOCAPI_LOCATION_SYSTEM_INFO_MSG_ID, PB_E_LOCAPI_LOCATION_SYSTEM_INFO_MSG_ID),
     (E_LOCAPI_ENGINE_LOCATIONS_INFO_MSG_ID, PB_E_LOCAPI_ENGINE_LOCATIONS_INFO_MSG_ID),
     (E_LOCAPI_START_BATCHING_MSG_ID, PB_E_LOCAPI_START_BATCHING_MSG_ID),
     (E_LOCAPI_STOP_BATCHING_MSG_ID, PB_E_LOCAPI_STOP_BATCHING_MSG_ID),
     (E_LOCAPI_UPDATE_BATCHING_OPTIONS_MSG_ID, PB_E_LOCAPI_UPDATE_BATCHING_OPTIONS_MSG_ID),
     (E_LOCAPI_BATCHING_MSG_ID, PB_E_LOCAPI_BATCHING_MSG_ID),
     (E_LOCAPI_ADD_GEOFENCES_MSG_ID, PB_E_LOCAPI_ADD_GEOFENCES_MSG_ID),
     (E_LOCAPI_REMOVE_GEOFENCES_MSG_ID, PB_E_LOCAPI_REMOVE_GEOFENCES_MSG_ID),
     (E_LOCAPI_MODIFY_GEOFENCES_MSG_ID, PB_E_LOCAPI_MODIFY_GEOFENCES_MSG_ID),
     (E_LOCAPI_PAUSE_GEOFENCES_MSG_ID, PB_E_LOCAPI_PAUSE_GEOFENCES_MSG_ID),
     (E_LOCAPI_RESUME_GEOFENCES_MSG_ID, PB_E_LOCAPI_RESUME_GEOFENCES_MSG_ID),
     (E_LOCAPI_GEOFENCE_BREACH_MSG_ID, PB_E_LOCAPI_GEOFENCE_BREACH_MSG_ID),
     (E_LOCAPI_MEAS_MSG_ID, PB_E_LOCAPI_MEAS_MSG_ID),
     (E_LOCAPI_GET_SINGLE_TERRESTRIAL_POS_REQ_MSG_ID, PB_E_LOCAPI_GET_SINGLE_TERRESTRIAL_POS_REQ_MSG_ID),
     (E_LOCAPI_GET_SINGLE_TERRESTRIAL_POS_RESP_MSG_ID, PB_E_LOCAPI_GET_SINGLE_TERRESTRIAL_POS_RESP_MSG_ID),
     (E_LOCAPI_PINGTEST_MSG_ID, PB_E_LOCAPI_PINGTEST_MSG_ID),
     (E_INTAPI_CONFIG_CONSTRAINTED_TUNC_MSG_ID, PB_E_INTAPI_CONFIG_CONSTRAINTED_TUNC_MSG_ID),
     (E_INTAPI_CONFIG_POSITION_ASSISTED_CLOCK_ESTIMATOR_MSG_ID, PB_E_INTAPI_CONFIG_POSITION_ASSISTED_CLOCK_ESTIMATOR_MSG_ID),
     (E_INTAPI_CONFIG_SV_CONSTELLATION_MSG_ID, PB_E_INTAPI_CONFIG_SV_CONSTELLATION_MSG_ID),
     (E_INTAPI_CONFIG_AIDING_DATA_DELETION_MSG_ID, PB_E_INTAPI_CONFIG_AIDING_DATA_DELETION_MSG_ID),
     (E_INTAPI_CONFIG_LEVER_ARM_MSG_ID, PB_E_INTAPI_CONFIG_LEVER_ARM_MSG_ID),
     (E_INTAPI_CONFIG_ROBUST_LOCATION_MSG_ID, PB_E_INTAPI_CONFIG_ROBUST_LOCATION_MSG_ID),
     (E_INTAPI_CONFIG_MIN_GPS_WEEK_MSG_ID, PB_E_INTAPI_CONFIG_MIN_GPS_WEEK_MSG_ID),
     (E_INTAPI_CONFIG_DEAD_RECKONING_ENGINE_MSG_ID, PB_E_INTAPI_CONFIG_DEAD_RECKONING_ENGINE_MSG_ID),
     (E_INTAPI_CONFIG_MIN_SV_ELEVATION_MSG_ID, PB_E_INTAPI_CONFIG_MIN_SV_ELEVATION_MSG_ID),
     (E_INTAPI_CONFIG_CONSTELLATION_SECONDARY_BAND_MSG_ID, PB_E_INTAPI_CONFIG_CONSTELLATION_SECONDARY_BAND_MSG_ID),
     (E_INTAPI_CONFIG_ENGINE_RUN_STATE_MSG_ID, PB_E_INTAPI_CONFIG_ENGINE_RUN_STATE_MSG_ID),
     (E_INTAPI_CONFIG_USER_CONSENT_TERRESTRIAL_POSITIONING_MSG_ID, PB_E_INTAPI_CONFIG_USER_CONSENT_TERRESTRIAL_POSITIONING_MSG_ID),
     (E_INTAPI_GET_ROBUST_LOCATION_CONFIG_REQ_MSG_ID, PB_E_INTAPI_GET_ROBUST_LOCATION_CONFIG_REQ_MSG_ID),
     (E_INTAPI_GET_ROBUST_LOCATION_CONFIG_RESP_MSG_ID, PB_E_INTAPI_GET_ROBUST_LOCATION_CONFIG_RESP_MSG_ID),
     (E_INTAPI_GET_MIN_GPS_WEEK_REQ_MSG_ID, PB_E_INTAPI_GET_MIN_GPS_WEEK_REQ_MSG_ID),
     (E_INTAPI_GET_MIN_GPS_WEEK_RESP_MSG_ID, PB_E_INTAPI_GET_MIN_GPS_WEEK_RESP_MSG_ID),
     (E_INTAPI_GET_MIN_SV_ELEVATION_REQ_MSG_ID, PB_E_INTAPI_GET_MIN_SV_ELEVATION_REQ_MSG_ID),
     (E_INTAPI_GET_MIN_SV_ELEVATION_RESP_MSG_ID, PB_E_INTAPI_GET_MIN_SV_ELEVATION_RESP_MSG_ID),
     (E_INTAPI_GET_CONSTELLATION_SECONDARY_BAND_CONFIG_REQ_MSG_ID, PB_E_INTAPI_GET_CONSTELLATION_SECONDARY_BAND_CONFIG_REQ_MSG_ID),
     (E_INTAPI_GET_CONSTELLATION_SECONDARY_BAND_CONFIG_RESP_MSG_ID, PB_E_INTAPI_GET_CONSTELLATION_SECONDARY_BAND_CONFIG_RESP_MSG_ID)]
     PB_E_LOCAPI_UNDEFINED_MSG_ID eLocMsgId"

definition getPBEnumForClientType :: "int \<Rightarrow> int" where
  "getPBEnumForClientType clientTyp = conv_enum
    [(LOCATION_CLIENT_API, PB_LOCATION_CLIENT_API)]
     PB_LOCATION_INTEGRATION_API clientTyp"

definition getPBEnumForBatchingMode :: "int \<Rightarrow> int" where
  "getPBEnumForBatchingMode batchMode = conv_enum
    [(BATCHING_MODE_ROUTINE, PB_BATCHING_MODE_ROUTINE),
     (BATCHING_MODE_TRIP, PB_BATCHING_MODE_TRIP),
     (BATCHING_MODE_NO_AUTO_REPORT, PB_BATCHING_MODE_NO_AUTO_REPORT)]
     PB_BATCHING_MODE_ROUTINE batchMode"

definition getPBEnumForLocationError :: "int \<Rightarrow> int" where
  "getPBEnumForLocationError locErr = conv_enum
    [(LOCATION_ERROR_SUCCESS, PB_LOCATION_ERROR_SUCCESS),
     (LOCATION_ERROR_INVALID_PARAMETER, PB_LOCATION_ERROR_INVALID_PARAMETER),
     (LOCATION_ERROR_NOT_SUPPORTED, PB_LOCATION_ERROR_NOT_SUPPORTED),
     (LOCATION_ERROR_TIMEOUT, PB_LOCATION_ERROR_TIMEOUT)]
     PB_LOCATION_ERROR_GENERAL_FAILURE locErr"

definition getPBEnumForGnssSuplMode :: "int \<Rightarrow> int" where
  "getPBEnumForGnssSuplMode gnssSuplMode = conv_enum
    [(GNSS_SUPL_MODE_STANDALONE, PB_GNSS_SUPL_MODE_STANDALONE),
     (GNSS_SUPL_MODE_MSB, PB_GNSS_SUPL_MODE_MSB),
     (GNSS_SUPL_MODE_MSA, PB_GNSS_SUPL_MODE_MSA)]
     PB_GNSS_SUPL_MODE_STANDALONE gnssSuplMode"

definition getPBEnumForBatchingStatus :: "int \<Rightarrow> int" where
  "getPBEnumForBatchingStatus batchStatus = conv_enum
    [(BATCHING_STATUS_TRIP_COMPLETED, PB_BATCHING_STATUS_TRIP_COMPLETED),
     (BATCHING_STATUS_POSITION_AVAILABE, PB_BATCHING_STATUS_POSITION_AVAILABE),
     (BATCHING_STATUS_POSITION_UNAVAILABLE, PB_BATCHING_STATUS_POSITION_UNAVAILABLE)]
     PB_BATCHING_STATUS_POSITION_UNAVAILABLE batchStatus"

definition getPBEnumForLocationReliability :: "int \<Rightarrow> int" where
  "getPBEnumForLocationReliability locReliab = conv_enum
    [(LOCATION_RELIABILITY_NOT_SET, PB_LOCATION_RELIABILITY_NOT_SET),
     (LOCATION_RELIABILITY_VERY_LOW, PB_LOCATION_RELIABILITY_VERY_LOW),
     (LOCATION_RELIABILITY_LOW, PB_LOCATION_RELIABILITY_LOW),
     (LOCATION_RELIABILITY_MEDIUM, PB_LOCATION_RELIABILITY_MEDIUM),
     (LOCATION_RELIABILITY_HIGH, PB_LOCATION_RELIABILITY_HIGH)]
     PB_LOCATION_RELIABILITY_NOT_SET locReliab"

definition getPBEnumForLocOutputEngineType :: "int \<Rightarrow> int" where
  "getPBEnumForLocOutputEngineType locOpEng = conv_enum
    [(LOC_OUTPUT_ENGINE_FUSED, PB_LOC_OUTPUT_ENGINE_FUSED),
     (LOC_OUTPUT_ENGINE_SPE, PB_LOC_OUTPUT_ENGINE_SPE),
     (LOC_OUTPUT_ENGINE_PPE, PB_LOC_OUTPUT_ENGINE_PPE)]
     PB_LOC_OUTPUT_ENGINE_FUSED locOpEng"

definition getPBEnumForGnssMeasMultiPathIndic :: "int \<Rightarrow> int" where
  "getPBEnumForGnssMeasMultiPathIndic gnssMeasMultiPathIndic = conv_enum
    [(GNSS_MEASUREMENTS_MULTIPATH_INDICATOR_UNKNOWN, PB_GNSS_MEASUREMENTS_MULTIPATH_INDICATOR_UNKNOWN),
     (GNSS_MEASUREMENTS_MULTIPATH_INDICATOR_PRESENT, PB_GNSS_MEASUREMENTS_MULTIPATH_INDICATOR_PRESENT),
     (GNSS_MEASUREMENTS_MULTIPATH_INDICATOR_NOT_PRESENT, PB_GNSS_MEASUREMENTS_MULTIPATH_INDICATOR_NOT_PRESENT)]
     PB_GNSS_MEASUREMENTS_MULTIPATH_INDICATOR_UNKNOWN gnssMeasMultiPathIndic"

definition getPBEnumForGnssLocSvSystem :: "int \<Rightarrow> int" where
  "getPBEnumForGnssLocSvSystem gnssLocSvSysEnumType = conv_enum
    [(GNSS_LOC_SV_SYSTEM_GPS, PB_GNSS_LOC_SV_SYSTEM_GPS),
     (GNSS_LOC_SV_SYSTEM_GALILEO, PB_GNSS_LOC_SV_SYSTEM_GALILEO),
     (GNSS_LOC_SV_SYSTEM_SBAS, PB_GNSS_LOC_SV_SYSTEM_SBAS),
     (GNSS_LOC_SV_SYSTEM_GLONASS, PB_GNSS_LOC_SV_SYSTEM_GLONASS),
     (GNSS_LOC_SV_SYSTEM_BDS, PB_GNSS_LOC_SV_SYSTEM_BDS),
     (GNSS_LOC_SV_SYSTEM_QZSS, PB_GNSS_LOC_SV_SYSTEM_QZSS),
     (GNSS_LOC_SV_SYSTEM_NAVIC, PB_GNSS_LOC_SV_SYSTEM_NAVIC)]
     PB_GNSS_LOC_SV_SYSTEM_INVALID gnssLocSvSysEnumType"

definition getPBGnssLocSvSysEnumFromGnssSvType :: "int \<Rightarrow> int" where
  "getPBGnssLocSvSysEnumFromGnssSvType gnssSvType = conv_enum
    [(GNSS_SV_TYPE_UNKNOWN, PB_GNSS_LOC_SV_SYSTEM_INVALID),
     (GNSS_SV_TYPE_GPS, PB_GNSS_LOC_SV_SYSTEM_GPS),
     (GNSS_SV_TYPE_SBAS, PB_GNSS_LOC_SV_SYSTEM_SBAS),
     (GNSS_SV_TYPE_GLONASS, PB_GNSS_LOC_SV_SYSTEM_GLONASS),
     (GNSS_SV_TYPE_QZSS, PB_GNSS_LOC_SV_SYSTEM_QZSS),
     (GNSS_SV_TYPE_BEIDOU, PB_GNSS_LOC_SV_SYSTEM_BDS),
     (GNSS_SV_TYPE_GALILEO, PB_GNSS_LOC_SV_SYSTEM_GALILEO),
     (GNSS_SV_TYPE_NAVIC, PB_GNSS_LOC_SV_SYSTEM_NAVIC)]
     PB_GNSS_LOC_SV_SYSTEM_INVALID gnssSvType"

definition getPBMaskForLocationCallbacksMask :: "32 word \<Rightarrow> 32 word" where
  "getPBMaskForLocationCallbacksMask locCbMask = conv_mask
    [(E_LOC_CB_DISTANCE_BASED_TRACKING_BIT, PB_E_LOC_CB_DISTANCE_BASED_TRACKING_BIT),
     (E_LOC_CB_GNSS_LOCATION_INFO_BIT, PB_E_LOC_CB_GNSS_LOCATION_INFO_BIT),
     (E_LOC_CB_GNSS_SV_BIT, PB_E_LOC_CB_GNSS_SV_BIT),
     (E_LOC_CB_GNSS_NMEA_BIT, PB_E_LOC_CB_GNSS_NMEA_BIT),
     (E_LOC_CB_GNSS_DATA_BIT, PB_E_LOC_CB_GNSS_DATA_BIT),
     (E_LOC_CB_SYSTEM_INFO_BIT, PB_E_LOC_CB_SYSTEM_INFO_BIT),
     (E_LOC_CB_BATCHING_BIT, PB_E_LOC_CB_BATCHING_BIT),
     (E_LOC_CB_BATCHING_STATUS_BIT, PB_E_LOC_CB_BATCHING_STATUS_BIT),
     (E_LOC_CB_GEOFENCE_BREACH_BIT, PB_E_LOC_CB_GEOFENCE_BREACH_BIT),
     (E_LOC_CB_ENGINE_LOCATIONS_INFO_BIT, PB_E_LOC_CB_ENGINE_LOCATIONS_INFO_BIT),
     (E_LOC_CB_SIMPLE_LOCATION_INFO_BIT, PB_E_LOC_CB_SIMPLE_LOCATION_INFO_BIT),
     (E_LOC_CB_GNSS_MEAS_BIT, PB_E_LOC_CB_GNSS_MEAS_BIT)]
     locCbMask 0"

definition getPBMaskForLocationCapabilitiesMask :: "64 word \<Rightarrow> 64 word" where
  "getPBMaskForLocationCapabilitiesMask locCapabMask = conv_mask
    [(LOCATION_CAPABILITIES_TIME_BASED_TRACKING_BIT, PB_LOCATION_CAPS_TIME_BASED_TRACKING_BIT),
     (LOCATION_CAPABILITIES_TIME_BASED_BATCHING_BIT, PB_LOCATION_CAPS_TIME_BASED_BATCHING_BIT),
     (LOCATION_CAPABILITIES_DISTANCE_BASED_TRACKING_BIT, PB_LOCATION_CAPS_DISTANCE_BASED_TRACKING_BIT),
     (LOCATION_CAPABILITIES_DISTANCE_BASED_BATCHING_BIT, PB_LOCATION_CAPS_DISTANCE_BASED_BATCHING_BIT),
     (LOCATION_CAPABILITIES_GEOFENCE_BIT, PB_LOCATION_CAPS_GEOFENCE_BIT),
     (LOCATION_CAPABILITIES_OUTDOOR_TRIP_BATCHING_BIT, PB_LOCATION_CAPS_OUTDOOR_TRIP_BATCHING_BIT),
     (LOCATION_CAPABILITIES_GNSS_MEASUREMENTS_BIT, PB_LOCATION_CAPS_GNSS_MEASUREMENTS_BIT),
     (LOCATION_CAPABILITIES_CONSTELLATION_ENABLEMENT_BIT, PB_LOCATION_CAPS_CONSTELLATION_ENABLEMENT_BIT),
     (LOCATION_CAPABILITIES_QWES_CARRIER_PHASE_BIT, PB_LOCATION_CAPS_QWES_CARRIER_PHASE_BIT),
     (LOCATION_CAPABILITIES_QWES_SV_POLYNOMIAL_BIT, PB_LOCATION_CAPS_QWES_SV_POLYNOMIAL_BIT),
     (LOCATION_CAPABILITIES_QWES_GNSS_SINGLE_FREQUENCY, PB_LOCATION_CAPS_QWES_GNSS_SINGLE_FREQUENCY),
     (LOCATION_CAPABILITIES_QWES_GNSS_MULTI_FREQUENCY, PB_LOCATION_CAPS_QWES_GNSS_MULTI_FREQUENCY),
     (LOCATION_CAPABILITIES_QWES_VPE, PB_LOCATION_CAPS_QWES_VPE),
     (LOCATION_CAPABILITIES_QWES_CV2X_LOCATION_BASIC, PB_LOCATION_CAPS_QWES_CV2X_LOCATION_BASIC),
     (LOCATION_CAPABILITIES_QWES_CV2X_LOCATION_PREMIUM, PB_LOCATION_CAPS_QWES_CV2X_LOCATION_PREMIUM),
     (LOCATION_CAPABILITIES_QWES_PPE, PB_LOCATION_CAPS_QWES_PPE),
     (LOCATION_CAPABILITIES_QWES_QDR2, PB_LOCATION_CAPS_QWES_QDR2),
     (LOCATION_CAPABILITIES_QWES_QDR3, PB_LOCATION_CAPS_QWES_QDR3)]
     locCapabMask 0"

definition getPBMaskForPositioningEngineMask :: "32 word \<Rightarrow> 32 word" where
  "getPBMaskForPositioningEngineMask posEngMask = conv_mask
    [(STANDARD_POSITIONING_ENGINE, PB_STANDARD_POSITIONING_ENGINE),
     (DEAD_RECKONING_ENGINE, PB_DEAD_RECKONING_ENGINE),
     (PRECISE_POSITIONING_ENGINE, PB_PRECISE_POSITIONING_ENGINE)]
     posEngMask 0"

definition getPBMaskForLeverArmTypeMask :: "32 word \<Rightarrow> 32 word" where
  "getPBMaskForLeverArmTypeMask leverArmTypeMask = conv_mask
    [(LEVER_ARM_TYPE_GNSS_TO_VRP_BIT, PB_LEVER_ARM_TYPE_GNSS_TO_VRP_BIT),
     (LEVER_ARM_TYPE_DR_IMU_TO_GNSS_BIT, PB_LEVER_ARM_TYPE_DR_IMU_TO_GNSS_BIT),
     (LEVER_ARM_TYPE_VEPP_IMU_TO_GNSS_BIT, PB_LEVER_ARM_TYPE_VEPP_IMU_TO_GNSS_BIT)]
     leverArmTypeMask 0"

definition getPBMaskForLocReqEngineTypeMask :: "32 word \<Rightarrow> 32 word" where
  "getPBMaskForLocReqEngineTypeMask locReqEngTypeMask = conv_mask
    [(LOC_REQ_ENGINE_FUSED_BIT, PB_LOC_REQ_ENGINE_FUSED_BIT),
     (LOC_REQ_ENGINE_SPE_BIT, PB_LOC_REQ_ENGINE_SPE_BIT),
     (LOC_REQ_ENGINE_PPE_BIT, PB_LOC_REQ_ENGINE_PPE_BIT)]
     locReqEngTypeMask 0"

definition getPBMaskForGnssCfgRobustLocValidMask :: "32 word \<Rightarrow> 32 word" where
  "getPBMaskForGnssCfgRobustLocValidMask gnssCfgRobustLocValidMask = conv_mask
    [(GNSS_CONFIG_ROBUST_LOCATION_ENABLED_VALID_BIT, PB_GNSS_CONFIG_ROBUST_LOCATION_ENABLED_VALID_BIT),
     (GNSS_CONFIG_ROBUST_LOCATION_ENABLED_FOR_E911_VALID_BIT, PB_GNSS_CONFIG_ROBUST_LOCATION_ENABLED_FOR_E911_VALID_BIT),
     (GNSS_CONFIG_ROBUST_LOCATION_VERSION_VALID_BIT, PB_GNSS_CONFIG_ROBUST_LOCATION_VERSION_VALID_BIT)]
     gnssCfgRobustLocValidMask 0"

definition getPBMaskForLocSysInfoMask :: "32 word \<Rightarrow> 32 word" where
  "getPBMaskForLocSysInfoMask locSysInfoMask = conv_mask
    [(LOCATION_SYS_INFO_LEAP_SECOND, PB_LOCATION_SYS_INFO_LEAP_SECOND)]
     locSysInfoMask 0"

definition getPBMaskForGnssDataMask :: "64 word \<Rightarrow> 64 word" where
  "getPBMaskForGnssDataMask gnssDataMask = conv_mask
    [(GNSS_LOC_DATA_JAMMER_IND_BIT, PB_GNSS_LOC_DATA_JAMMER_IND_BIT),
     (GNSS_LOC_DATA_AGC_BIT, PB_GNSS_LOC_DATA_AGC_BIT)]
     gnssDataMask 0"

definition getPBMaskForGnssAidingDataSvMask :: "32 word \<Rightarrow> 32 word" where
  "getPBMaskForGnssAidingDataSvMask gnssAidDataSvMask = conv_mask
    [(GNSS_AIDING_DATA_SV_EPHEMERIS_BIT, PB_AIDING_DATA_SV_EPHEMERIS_BIT)]
     gnssAidDataSvMask 0"

definition getPBMaskForLeapSecondSysInfoMask :: "32 word \<Rightarrow> 32 word" where
  "getPBMaskForLeapSecondSysInfoMask leapSecSysInfoMask = conv_mask
    [(LEAP_SECOND_SYS_INFO_CURRENT_LEAP_SECONDS_BIT, PB_LEAP_SECOND_SYS_INFO_CURRENT_LEAP_SECONDS_BIT),
     (LEAP_SECOND_SYS_INFO_LEAP_SECOND_CHANGE_BIT, PB_LEAP_SECOND_SYS_INFO_LEAP_SECOND_CHANGE_BIT)]
     leapSecSysInfoMask 0"

definition getPBMaskForGnssSystemTimeStructTypeFlags :: "32 word \<Rightarrow> 32 word" where
  "getPBMaskForGnssSystemTimeStructTypeFlags gnssSysTimeStructTypeFlg = conv_mask
    [(GNSS_SYSTEM_TIME_WEEK_VALID, PB_GNSS_SYSTEM_TIME_WEEK_VALID),
     (GNSS_SYSTEM_TIME_WEEK_MS_VALID, PB_GNSS_SYSTEM_TIME_WEEK_MS_VALID),
     (GNSS_SYSTEM_CLK_TIME_BIAS_VALID, PB_GNSS_SYSTEM_CLK_TIME_BIAS_VALID),
     (GNSS_SYSTEM_CLK_TIME_BIAS_UNC_VALID, PB_GNSS_SYSTEM_CLK_TIME_BIAS_UNC_VALID),
     (GNSS_SYSTEM_REF_FCOUNT_VALID, PB_GNSS_SYSTEM_REF_FCOUNT_VALID),
     (GNSS_SYSTEM_NUM_CLOCK_RESETS_VALID, PB_GNSS_SYSTEM_NUM_CLOCK_RESETS_VALID)]
     gnssSysTimeStructTypeFlg 0"

definition getPBMaskForLocationFlagsMask :: "32 word \<Rightarrow> 32 word" where
  "getPBMaskForLocationFlagsMask locFlagsMask = conv_mask
    [(LOCATION_HAS_LAT_LONG_BIT, PB_LOCATION_HAS_LAT_LONG_BIT),
     (LOCATION_HAS_ALTITUDE_BIT, PB_LOCATION_HAS_ALTITUDE_BIT),
     (LOCATION_HAS_SPEED_BIT, PB_LOCATION_HAS_SPEED_BIT),
     (LOCATION_HAS_BEARING_BIT, PB_LOCATION_HAS_BEARING_BIT),
     (LOCATION_HAS_ACCURACY_BIT, PB_LOCATION_HAS_ACCURACY_BIT),
     (LOCATION_HAS_VERTICAL_ACCURACY_BIT, PB_LOCATION_HAS_VERTICAL_ACCURACY_BIT),
     (LOCATION_HAS_SPEED_ACCURACY_BIT, PB_LOCATION_HAS_SPEED_ACCURACY_BIT),
     (LOCATION_HAS_BEARING_ACCURACY_BIT, PB_LOCATION_HAS_BEARING_ACCURACY_BIT)]
     locFlagsMask 0"

definition getPBMaskForLocationTechnologyMask :: "32 word \<Rightarrow> 32 word" where
  "getPBMaskForLocationTechnologyMask locTechMask = conv_mask
    [(LOCATION_TECHNOLOGY_GNSS_BIT, PB_LOCATION_TECHNOLOGY_GNSS_BIT),
     (LOCATION_TECHNOLOGY_CELL_BIT, PB_LOCATION_TECHNOLOGY_CELL_BIT),
     (LOCATION_TECHNOLOGY_WIFI_BIT, PB_LOCATION_TECHNOLOGY_WIFI_BIT),
     (LOCATION_TECHNOLOGY_SENSORS_BIT, PB_LOCATION_TECHNOLOGY_SENSORS_BIT),
     (LOCATION_TECHNOLOGY_REFERENCE_LOCATION_BIT, PB_LOCATION_TECHNOLOGY_REFERENCE_LOCATION_BIT),
     (LOCATION_TECHNOLOGY_INJECTED_COARSE_POSITION_BIT, PB_LOCATION_TECHNOLOGY_INJECTED_COARSE_POSITION_BIT),
     (LOCATION_TECHNOLOGY_AFLT_BIT, PB_LOCATION_TECHNOLOGY_AFLT_BIT),
     (LOCATION_TECHNOLOGY_HYBRID_BIT, PB_LOCATION_TECHNOLOGY_HYBRID_BIT),
     (LOCATION_TECHNOLOGY_PPE_BIT, PB_LOCATION_TECHNOLOGY_PPE_BIT),
     (LOCATION_TECHNOLOGY_VEH_BIT, PB_LOCATION_TECHNOLOGY_VEH_BIT),
     (LOCATION_TECHNOLOGY_VIS_BIT, PB_LOCATION_TECHNOLOGY_VIS_BIT)]
     locTechMask 0"

definition getPBMaskForGnssLocationInfoFlagMask :: "64 word \<Rightarrow> 32 word" where
  "getPBMaskForGnssLocationInfoFlagMask gnssLocInfoFlagMask = conv_mask
    [(GNSS_LOCATION_INFO_ALTITUDE_MEAN_SEA_LEVEL_BIT, PB_GNSS_LOCATION_INFO_ALTITUDE_MEAN_SEA_LEVEL_BIT),
     (GNSS_LOCATION_INFO_DOP_BIT, PB_GNSS_LOCATION_INFO_DOP_BIT),
     (GNSS_LOCATION_INFO_MAGNETIC_DEVIATION_BIT, PB_GNSS_LOCATION_INFO_MAGNETIC_DEVIATION_BIT),
     (GNSS_LOCATION_INFO_HOR_RELIABILITY_BIT, PB_GNSS_LOCATION_INFO_HOR_RELIABILITY_BIT),
     (GNSS_LOCATION_INFO_VER_RELIABILITY_BIT, PB_GNSS_LOCATION_INFO_VER_RELIABILITY_BIT),
     (GNSS_LOCATION_INFO_HOR_ACCURACY_ELIP_SEMI_MAJOR_BIT, PB_GNSS_LOCATION_INFO_HOR_ACCURACY_ELIP_SEMI_MAJOR_BIT),
     (GNSS_LOCATION_INFO_HOR_ACCURACY_ELIP_SEMI_MINOR_BIT, PB_GNSS_LOCATION_INFO_HOR_ACCURACY_ELIP_SEMI_MINOR_BIT),
     (GNSS_LOCATION_INFO_HOR_ACCURACY_ELIP_AZIMUTH_BIT, PB_GNSS_LOCATION_INFO_HOR_ACCURACY_ELIP_AZIMUTH_BIT),
     (GNSS_LOCATION_INFO_GNSS_SV_USED_DATA_BIT, PB_GNSS_LOCATION_INFO_GNSS_SV_USED_DATA_BIT),
     (GNSS_LOCATION_INFO_NAV_SOLUTION_MASK_BIT, PB_GNSS_LOCATION_INFO_NAV_SOLUTION_MASK_BIT),
     (GNSS_LOCATION_INFO_POS_DYNAMICS_DATA_BIT, PB_GNSS_LOCATION_INFO_POS_DYNAMICS_DATA_BIT),
     (GNSS_LOCATION_INFO_EXT_DOP_BIT, PB_GNSS_LOCATION_INFO_EXT_DOP_BIT),
     (GNSS_LOCATION_INFO_NORTH_STD_DEV_BIT, PB_GNSS_LOCATION_INFO_NORTH_STD_DEV_BIT),
     (GNSS_LOCATION_INFO_EAST_STD_DEV_BIT, PB_GNSS_LOCATION_INFO_EAST_STD_DEV_BIT),
     (GNSS_LOCATION_INFO_NORTH_VEL_BIT, PB_GNSS_LOCATION_INFO_NORTH_VEL_BIT),
     (GNSS_LOCATION_INFO_EAST_VEL_BIT, PB_GNSS_LOCATION_INFO_EAST_VEL_BIT),
     (GNSS_LOCATION_INFO_UP_VEL_BIT, PB_GNSS_LOCATION_INFO_UP_VEL_BIT),
     (GNSS_LOCATION_INFO_NORTH_VEL_UNC_BIT, PB_GNSS_LOCATION_INFO_NORTH_VEL_UNC_BIT),
     (GNSS_LOCATION_INFO_EAST_VEL_UNC_BIT, PB_GNSS_LOCATION_INFO_EAST_VEL_UNC_BIT),
     (GNSS_LOCATION_INFO_UP_VEL_UNC_BIT, PB_GNSS_LOCATION_INFO_UP_VEL_UNC_BIT),
     (GNSS_LOCATION_INFO_LEAP_SECONDS_BIT, PB_GNSS_LOCATION_INFO_LEAP_SECONDS_BIT),
     (GNSS_LOCATION_INFO_TIME_UNC_BIT, PB_GNSS_LOCATION_INFO_TIME_UNC_BIT),
     (GNSS_LOCATION_INFO_NUM_SV_USED_IN_POSITION_BIT, PB_GNSS_LOCATION_INFO_NUM_SV_USED_IN_POSITION_BIT),
     (GNSS_LOCATION_INFO_CALIBRATION_CONFIDENCE_BIT, PB_GNSS_LOCATION_INFO_CALIBRATION_CONFIDENCE_PERCENT_BIT),
     (GNSS_LOCATION_INFO_CALIBRATION_STATUS_BIT, PB_GNSS_LOCATION_INFO_CALIBRATION_STATUS_BIT),
     (GNSS_LOCATION_INFO_OUTPUT_ENG_TYPE_BIT, PB_GNSS_LOCATION_INFO_OUTPUT_ENG_TYPE_BIT),
     (GNSS_LOCATION_INFO_OUTPUT_ENG_MASK_BIT, PB_GNSS_LOCATION_INFO_OUTPUT_ENG_MASK_BIT),
     (GNSS_LOCATION_INFO_CONFORMITY_INDEX_BIT, PB_GNSS_LOCATION_INFO_CONFORMITY_INDEX_BIT),
     (GNSS_LOCATION_INFO_LLA_VRP_BASED_BIT, PB_GNSS_LOCATION_INFO_LLA_VRP_BASED_BIT),
     (GNSS_LOCATION_INFO_ENU_VELOCITY_VRP_BASED_BIT, PB_GNSS_LOCATION_INFO_ENU_VELOCITY_VRP_BASED_BIT),
     (GNSS_LOCATION_INFO_DR_SOLUTION_STATUS_MASK_BIT, PB_GNSS_LOCATION_INFO_DR_SOLUTION_STATUS_MASK_BIT)]
     gnssLocInfoFlagMask 0"

definition getPBMaskForGnssLocationInfoExtFlagMask :: "64 word \<Rightarrow> 32 word" where
  "getPBMaskForGnssLocationInfoExtFlagMask gnssLocInfoFlagMask = conv_mask
    [(GNSS_LOCATION_INFO_ALTITUDE_ASSUMED_BIT, PB_GNSS_LOCATION_INFO_ALTITUDE_ASSUMED_BIT),
     (GNSS_LOCATION_INFO_SESSION_STATUS_BIT, PB_GNSS_LOCATION_INFO_SESSION_STATUS_BIT)]
     gnssLocInfoFlagMask 0"

definition getPBMaskForGnssLocationNavSolutionMask :: "32 word \<Rightarrow> 32 word" where
  "getPBMaskForGnssLocationNavSolutionMask gnssLocNavSolnMask = conv_mask
    [(LOCATION_SBAS_CORRECTION_IONO_BIT, PB_LOCATION_SBAS_CORRECTION_IONO_BIT),
     (LOCATION_SBAS_CORRECTION_FAST_BIT, PB_LOCATION_SBAS_CORRECTION_FAST_BIT),
     (LOCATION_SBAS_CORRECTION_LONG_BIT, PB_LOCATION_SBAS_CORRECTION_LONG_BIT),
     (LOCATION_SBAS_INTEGRITY_BIT, PB_LOCATION_SBAS_INTEGRITY_BIT),
     (LOCATION_NAV_CORRECTION_DGNSS_BIT, PB_LOCATION_NAV_CORRECTION_DGNSS_BIT),
     (LOCATION_NAV_CORRECTION_RTK_BIT, PB_LOCATION_NAV_CORRECTION_RTK_BIT),
     (LOCATION_NAV_CORRECTION_PPP_BIT, PB_LOCATION_NAV_CORRECTION_PPP_BIT),
     (LOCATION_NAV_CORRECTION_RTK_FIXED_BIT, PB_LOCATION_NAV_CORRECTION_RTK_FIXED_BIT),
     (LOCATION_NAV_CORRECTION_ONLY_SBAS_CORRECTED_SV_USED_BIT, PB_LOCATION_NAV_CORRECTION_ONLY_SBAS_CORRECTED_SV_USED_BIT)]
     gnssLocNavSolnMask 0"

definition getPBMaskForDrCalibrationStatusMask :: "32 word \<Rightarrow> 32 word" where
  "getPBMaskForDrCalibrationStatusMask drCalibStatusMask = conv_mask
    [(DR_ROLL_CALIBRATION_NEEDED, PB_DR_ROLL_CALIBRATION_NEEDED),
     (DR_PITCH_CALIBRATION_NEEDED, PB_DR_PITCH_CALIBRATION_NEEDED),
     (DR_YAW_CALIBRATION_NEEDED, PB_DR_YAW_CALIBRATION_NEEDED),
     (DR_ODO_CALIBRATION_NEEDED, PB_DR_ODO_CALIBRATION_NEEDED),
     (DR_GYRO_CALIBRATION_NEEDED, PB_DR_GYRO_CALIBRATION_NEEDED)]
     drCalibStatusMask 0"

definition getPBMaskForGnssMeasurementsDataFlagsMask :: "32 word \<Rightarrow> 32 word" where
  "getPBMaskForGnssMeasurementsDataFlagsMask gnssMeasDataFlagsMask = conv_mask
    [(GNSS_MEASUREMENTS_DATA_SV_ID_BIT, PB_GNSS_MEASUREMENTS_DATA_SV_ID_BIT),
     (GNSS_MEASUREMENTS_DATA_SV_TYPE_BIT, PB_GNSS_MEASUREMENTS_DATA_SV_TYPE_BIT),
     (GNSS_MEASUREMENTS_DATA_STATE_BIT, PB_GNSS_MEASUREMENTS_DATA_STATE_BIT),
     (GNSS_MEASUREMENTS_DATA_RECEIVED_SV_TIME_BIT, PB_GNSS_MEASUREMENTS_DATA_RECEIVED_SV_TIME_BIT),
     (GNSS_MEASUREMENTS_DATA_RECEIVED_SV_TIME_UNCERTAINTY_BIT, PB_GNSS_MEASUREMENTS_DATA_RECEIVED_SV_TIME_UNCERTAINTY_BIT),
     (GNSS_MEASUREMENTS_DATA_CARRIER_TO_NOISE_BIT, PB_GNSS_MEASUREMENTS_DATA_CARRIER_TO_NOISE_BIT),
     (GNSS_MEASUREMENTS_DATA_PSEUDORANGE_RATE_BIT, PB_GNSS_MEASUREMENTS_DATA_PSEUDORANGE_RATE_BIT),
     (GNSS_MEASUREMENTS_DATA_PSEUDORANGE_RATE_UNCERTAINTY_BIT, PB_GNSS_MEASUREMENTS_DATA_PSEUDORANGE_RATE_UNCERTAINTY_BIT),
     (GNSS_MEASUREMENTS_DATA_ADR_STATE_BIT, PB_GNSS_MEASUREMENTS_DATA_ADR_STATE_BIT),
     (GNSS_MEASUREMENTS_DATA_ADR_BIT, PB_GNSS_MEASUREMENTS_DATA_ADR_BIT),
     (GNSS_MEASUREMENTS_DATA_ADR_UNCERTAINTY_BIT, PB_GNSS_MEASUREMENTS_DATA_ADR_UNCERTAINTY_BIT),
     (GNSS_MEASUREMENTS_DATA_CARRIER_FREQUENCY_BIT, PB_GNSS_MEASUREMENTS_DATA_CARRIER_FREQUENCY_BIT),
     (GNSS_MEASUREMENTS_DATA_CARRIER_CYCLES_BIT, PB_GNSS_MEASUREMENTS_DATA_CARRIER_CYCLES_BIT),
     (GNSS_MEASUREMENTS_DATA_CARRIER_PHASE_BIT, PB_GNSS_MEASUREMENTS_DATA_CARRIER_PHASE_BIT),
     (GNSS_MEASUREMENTS_DATA_CARRIER_PHASE_UNCERTAINTY_BIT, PB_GNSS_MEASUREMENTS_DATA_CARRIER_PHASE_UNCERTAINTY_BIT),
     (GNSS_MEASUREMENTS_DATA_MULTIPATH_INDICATOR_BIT, PB_GNSS_MEASUREMENTS_DATA_MULTIPATH_INDICATOR_BIT),
     (GNSS_MEASUREMENTS_DATA_SIGNAL_TO_NOISE_RATIO_BIT, PB_GNSS_MEASUREMENTS_DATA_SIGNAL_TO_NOISE_RATIO_BIT),
     (GNSS_MEASUREMENTS_DATA_AUTOMATIC_GAIN_CONTROL_BIT, PB_GNSS_MEASUREMENTS_DATA_AUTOMATIC_GAIN_CONTROL_BIT),
     (GNSS_MEASUREMENTS_DATA_FULL_ISB_BIT, PB_GNSS_MEASUREMENTS_DATA_FULL_ISB_BIT),
     (GNSS_MEASUREMENTS_DATA_FULL_ISB_UNCERTAINTY_BIT, PB_GNSS_MEASUREMENTS_DATA_FULL_ISB_UNCERTAINTY_BIT),
     (GNSS_MEASUREMENTS_DATA_CYCLE_SLIP_COUNT_BIT, PB_GNSS_MEASUREMENTS_DATA_CYCLE_SLIP_COUNT_BIT)]
     gnssMeasDataFlagsMask 0"

definition getPBMaskForGnssMeasurementsStateMask :: "32 word \<Rightarrow> 32 word" where
  "getPBMaskForGnssMeasurementsStateMask gnssMeasStateMask = conv_mask
    [(GNSS_MEASUREMENTS_STATE_UNKNOWN_BIT, PB_GNSS_MEASUREMENTS_STATE_UNKNOWN_BIT),
     (GNSS_MEASUREMENTS_STATE_CODE_LOCK_BIT, PB_GNSS_MEASUREMENTS_STATE_CODE_LOCK_BIT),
     (GNSS_MEASUREMENTS_STATE_BIT_SYNC_BIT, PB_GNSS_MEASUREMENTS_STATE_BIT_SYNC_BIT),
     (GNSS_MEASUREMENTS_STATE_SUBFRAME_SYNC_BIT, PB_GNSS_MEASUREMENTS_STATE_SUBFRAME_SYNC_BIT),
     (GNSS_MEASUREMENTS_STATE_TOW_DECODED_BIT, PB_GNSS_MEASUREMENTS_STATE_TOW_DECODED_BIT),
     (GNSS_MEASUREMENTS_STATE_MSEC_AMBIGUOUS_BIT, PB_GNSS_MEASUREMENTS_STATE_MSEC_AMBIGUOUS_BIT),
     (GNSS_MEASUREMENTS_STATE_SYMBOL_SYNC_BIT, PB_GNSS_MEASUREMENTS_STATE_SYMBOL_SYNC_BIT),
     (GNSS_MEASUREMENTS_STATE_GLO_STRING_SYNC_BIT, PB_GNSS_MEASUREMENTS_STATE_GLO_STRING_SYNC_BIT),
     (GNSS_MEASUREMENTS_STATE_GLO_TOD_DECODED_BIT, PB_GNSS_MEASUREMENTS_STATE_GLO_TOD_DECODED_BIT),
     (GNSS_MEASUREMENTS_STATE_BDS_D2_BIT_SYNC_BIT, PB_GNSS_MEASUREMENTS_STATE_BDS_D2_BIT_SYNC_BIT),
     (GNSS_MEASUREMENTS_STATE_BDS_D2_SUBFRAME_SYNC_BIT, PB_GNSS_MEASUREMENTS_STATE_BDS_D2_SUBFRAME_SYNC_BIT),
     (GNSS_MEASUREMENTS_STATE_GAL_E1BC_CODE_LOCK_BIT, PB_GNSS_MEASUREMENTS_STATE_GAL_E1BC_CODE_LOCK_BIT),
     (GNSS_MEASUREMENTS_STATE_GAL_E1C_2ND_CODE_LOCK_BIT, PB_GNSS_MEASUREMENTS_STATE_GAL_E1C_2ND_CODE_LOCK_BIT),
     (GNSS_MEASUREMENTS_STATE_GAL_E1B_PAGE_SYNC_BIT, PB_GNSS_MEASUREMENTS_STATE_GAL_E1B_PAGE_SYNC_BIT),
     (GNSS_MEASUREMENTS_STATE_SBAS_SYNC_BIT, PB_GNSS_MEASUREMENTS_STATE_SBAS_SYNC_BIT)]
     gnssMeasStateMask 0"

definition getPBMaskForGnssMeasurementsAdrStateMask :: "32 word \<Rightarrow> 32 word" where
  "getPBMaskForGnssMeasurementsAdrStateMask gnssMeasAdrStateMask = conv_mask
    [(GNSS_MEASUREMENTS_ACCUMULATED_DELTA_RANGE_STATE_UNKNOWN, PB_GNSS_MEASUREMENTS_ACCUMULATED_DELTA_RANGE_STATE_UNKNOWN),
     (GNSS_MEASUREMENTS_ACCUMULATED_DELTA_RANGE_STATE_VALID_BIT, PB_GNSS_MEASUREMENTS_ACCUMULATED_DELTA_RANGE_STATE_VALID_BIT),
     (GNSS_MEASUREMENTS_ACCUMULATED_DELTA_RANGE_STATE_RESET_BIT, PB_GNSS_MEASUREMENTS_ACCUMULATED_DELTA_RANGE_STATE_RESET_BIT),
     (GNSS_MEASUREMENTS_ACCUMULATED_DELTA_RANGE_STATE_CYCLE_SLIP_BIT, PB_GNSS_MEASUREMENTS_ACCUMULATED_DELTA_RANGE_STATE_CYCLE_SLIP_BIT)]
     gnssMeasAdrStateMask 0"

definition getPBMaskForGnssLocationPosDataMask :: "32 word \<Rightarrow> 32 word \<Rightarrow> 32 word" where
  "getPBMaskForGnssLocationPosDataMask gnssLocPosDataMask gnssLocPosDataMaskExt = (let
   pbGnssLocPosDataMask = conv_mask
    [(LOCATION_NAV_DATA_HAS_LONG_ACCEL_BIT, PB_LOCATION_NAV_DATA_HAS_LONG_ACCEL_BIT),
     (LOCATION_NAV_DATA_HAS_LAT_ACCEL_BIT, PB_LOCATION_NAV_DATA_HAS_LAT_ACCEL_BIT),
     (LOCATION_NAV_DATA_HAS_VERT_ACCEL_BIT, PB_LOCATION_NAV_DATA_HAS_VERT_ACCEL_BIT),
     (LOCATION_NAV_DATA_HAS_YAW_RATE_BIT, PB_LOCATION_NAV_DATA_HAS_YAW_RATE_BIT),
     (LOCATION_NAV_DATA_HAS_PITCH_BIT, PB_LOCATION_NAV_DATA_HAS_PITCH_BIT),
     (LOCATION_NAV_DATA_HAS_LONG_ACCEL_UNC_BIT, PB_LOCATION_NAV_DATA_HAS_LONG_ACCEL_UNC_BIT),
     (LOCATION_NAV_DATA_HAS_LAT_ACCEL_UNC_BIT, PB_LOCATION_NAV_DATA_HAS_LAT_ACCEL_UNC_BIT),
     (LOCATION_NAV_DATA_HAS_VERT_ACCEL_UNC_BIT, PB_LOCATION_NAV_DATA_HAS_VERT_ACCEL_UNC_BIT),
     (LOCATION_NAV_DATA_HAS_YAW_RATE_UNC_BIT, PB_LOCATION_NAV_DATA_HAS_YAW_RATE_UNC_BIT),
     (LOCATION_NAV_DATA_HAS_PITCH_UNC_BIT, PB_LOCATION_NAV_DATA_HAS_PITCH_UNC_BIT)]
     gnssLocPosDataMask 0;
   pbGnssLocPosDataMask = conv_mask
    [(LOCATION_NAV_DATA_HAS_PITCH_RATE_BIT, PB_LOCATION_NAV_DATA_HAS_PITCH_RATE_BIT),
     (LOCATION_NAV_DATA_HAS_PITCH_RATE_UNC_BIT, PB_LOCATION_NAV_DATA_HAS_PITCH_RATE_UNC_BIT),
     (LOCATION_NAV_DATA_HAS_ROLL_BIT, PB_LOCATION_NAV_DATA_HAS_ROLL_BIT),
     (LOCATION_NAV_DATA_HAS_ROLL_UNC_BIT, PB_LOCATION_NAV_DATA_HAS_ROLL_UNC_BIT),
     (LOCATION_NAV_DATA_HAS_ROLL_RATE_BIT, PB_LOCATION_NAV_DATA_HAS_ROLL_RATE_BIT),
     (LOCATION_NAV_DATA_HAS_ROLL_RATE_UNC_BIT, PB_LOCATION_NAV_DATA_HAS_ROLL_RATE_UNC_BIT),
     (LOCATION_NAV_DATA_HAS_YAW_BIT, PB_LOCATION_NAV_DATA_HAS_YAW_BIT),
     (LOCATION_NAV_DATA_HAS_YAW_UNC_BIT, PB_LOCATION_NAV_DATA_HAS_YAW_UNC_BIT)]
     gnssLocPosDataMaskExt pbGnssLocPosDataMask
   in pbGnssLocPosDataMask)"

definition getPBMaskForGnssMeasurementsClockFlagsMask :: "32 word \<Rightarrow> 32 word" where
  "getPBMaskForGnssMeasurementsClockFlagsMask gnssMeasClockFlagsMask = conv_mask
    [(GNSS_MEASUREMENTS_CLOCK_FLAGS_LEAP_SECOND_BIT, PB_GNSS_MEASUREMENTS_CLOCK_FLAGS_LEAP_SECOND_BIT),
     (GNSS_MEASUREMENTS_CLOCK_FLAGS_TIME_BIT, PB_GNSS_MEASUREMENTS_CLOCK_FLAGS_TIME_BIT),
     (GNSS_MEASUREMENTS_CLOCK_FLAGS_TIME_UNCERTAINTY_BIT, PB_GNSS_MEASUREMENTS_CLOCK_FLAGS_TIME_UNCERTAINTY_BIT),
     (GNSS_MEASUREMENTS_CLOCK_FLAGS_FULL_BIAS_BIT, PB_GNSS_MEASUREMENTS_CLOCK_FLAGS_FULL_BIAS_BIT),
     (GNSS_MEASUREMENTS_CLOCK_FLAGS_BIAS_BIT, PB_GNSS_MEASUREMENTS_CLOCK_FLAGS_BIAS_BIT),
     (GNSS_MEASUREMENTS_CLOCK_FLAGS_BIAS_UNCERTAINTY_BIT, PB_GNSS_MEASUREMENTS_CLOCK_FLAGS_BIAS_UNCERTAINTY_BIT),
     (GNSS_MEASUREMENTS_CLOCK_FLAGS_DRIFT_BIT, PB_GNSS_MEASUREMENTS_CLOCK_FLAGS_DRIFT_BIT),
     (GNSS_MEASUREMENTS_CLOCK_FLAGS_DRIFT_UNCERTAINTY_BIT, PB_GNSS_MEASUREMENTS_CLOCK_FLAGS_DRIFT_UNCERTAINTY_BIT),
     (GNSS_MEASUREMENTS_CLOCK_FLAGS_HW_CLOCK_DISCONTINUITY_COUNT_BIT, PB_GNSS_MEASUREMENTS_CLOCK_FLAGS_HW_CLOCK_DISCONTINUITY_COUNT_BIT)]
     gnssMeasClockFlagsMask 0"

definition getPBMaskForGnssGloTimeStructTypeFlags :: "32 word \<Rightarrow> 32 word" where
  "getPBMaskForGnssGloTimeStructTypeFlags gnssGloTimeStructTypeFlags = conv_mask
    [(GNSS_CLO_DAYS_VALID, PB_GNSS_CLO_DAYS_VALID),
     (GNSS_GLO_MSEC_VALID, PB_GNSS_GLO_MSEC_VALID),
     (GNSS_GLO_CLK_TIME_BIAS_VALID, PB_GNSS_GLO_CLK_TIME_BIAS_VALID),
     (GNSS_GLO_CLK_TIME_BIAS_UNC_VALID, PB_GNSS_GLO_CLK_TIME_BIAS_UNC_VALID),
     (GNSS_GLO_REF_FCOUNT_VALID, PB_GNSS_GLO_REF_FCOUNT_VALID),
     (GNSS_GLO_NUM_CLOCK_RESETS_VALID, PB_GNSS_GLO_NUM_CLOCK_RESETS_VALID),
     (GNSS_GLO_FOUR_YEAR_VALID, PB_GNSS_GLO_FOUR_YEAR_VALID)]
     gnssGloTimeStructTypeFlags 0"

definition getPBMaskForGnssSvOptionsMask :: "32 word \<Rightarrow> 32 word" where
  "getPBMaskForGnssSvOptionsMask gnssSvOptMask = conv_mask
    [(GNSS_SV_OPTIONS_HAS_EPHEMER_BIT, PB_GNSS_SV_OPTIONS_HAS_EPHEMER_BIT),
     (GNSS_SV_OPTIONS_HAS_ALMANAC_BIT, PB_GNSS_SV_OPTIONS_HAS_ALMANAC_BIT),
     (GNSS_SV_OPTIONS_USED_IN_FIX_BIT, PB_GNSS_SV_OPTIONS_USED_IN_FIX_BIT),
     (GNSS_SV_OPTIONS_HAS_CARRIER_FREQUENCY_BIT, PB_GNSS_SV_OPTIONS_HAS_CARRIER_FREQUENCY_BIT),
     (GNSS_SV_OPTIONS_HAS_GNSS_SIGNAL_TYPE_BIT, PB_GNSS_SV_OPTIONS_HAS_GNSS_SIGNAL_TYPE_BIT)]
     gnssSvOptMask 0"

definition getPBMaskForGnssSignalTypeMask :: "32 word \<Rightarrow> 32 word" where
  "getPBMaskForGnssSignalTypeMask gnssSignalTypeMask = conv_mask
    [(GNSS_SIGNAL_GPS_L1CA, PB_GNSS_SIGNAL_GPS_L1CA_BIT),
     (GNSS_SIGNAL_GPS_L1C, PB_GNSS_SIGNAL_GPS_L1C_BIT),
     (GNSS_SIGNAL_GPS_L2, PB_GNSS_SIGNAL_GPS_L2_BIT),
     (GNSS_SIGNAL_GPS_L5, PB_GNSS_SIGNAL_GPS_L5_BIT),
     (GNSS_SIGNAL_GLONASS_G1, PB_GNSS_SIGNAL_GLONASS_G1_BIT),
     (GNSS_SIGNAL_GLONASS_G2, PB_GNSS_SIGNAL_GLONASS_G2_BIT),
     (GNSS_SIGNAL_GALILEO_E1, PB_GNSS_SIGNAL_GALILEO_E1_BIT),
     (GNSS_SIGNAL_GALILEO_E5A, PB_GNSS_SIGNAL_GALILEO_E5A_BIT),
     (GNSS_SIGNAL_GALILEO_E5B, PB_GNSS_SIGNAL_GALILEO_E5B_BIT),
     (GNSS_SIGNAL_BEIDOU_B1, PB_GNSS_SIGNAL_BEIDOU_B1_BIT),
     (GNSS_SIGNAL_BEIDOU_B2, PB_GNSS_SIGNAL_BEIDOU_B2_BIT),
     (GNSS_SIGNAL_QZSS_L1CA, PB_GNSS_SIGNAL_QZSS_L1CA_BIT),
     (GNSS_SIGNAL_QZSS_L1S, PB_GNSS_SIGNAL_QZSS_L1S_BIT),
     (GNSS_SIGNAL_QZSS_L2, PB_GNSS_SIGNAL_QZSS_L2_BIT),
     (GNSS_SIGNAL_QZSS_L5, PB_GNSS_SIGNAL_QZSS_L5_BIT),
     (GNSS_SIGNAL_SBAS_L1, PB_GNSS_SIGNAL_SBAS_L1_BIT),
     (GNSS_SIGNAL_BEIDOU_B1I, PB_GNSS_SIGNAL_BEIDOU_B1I_BIT),
     (GNSS_SIGNAL_BEIDOU_B1C, PB_GNSS_SIGNAL_BEIDOU_B1C_BIT),
     (GNSS_SIGNAL_BEIDOU_B2I, PB_GNSS_SIGNAL_BEIDOU_B2I_BIT),
     (GNSS_SIGNAL_BEIDOU_B2AI, PB_GNSS_SIGNAL_BEIDOU_B2AI_BIT),
     (GNSS_SIGNAL_NAVIC_L5, PB_GNSS_SIGNAL_NAVIC_L5_BIT),
     (GNSS_SIGNAL_BEIDOU_B2AQ, PB_GNSS_SIGNAL_BEIDOU_B2AQ_BIT)]
     gnssSignalTypeMask 0"

definition getPBMaskForGeofenceBreachTypeMask :: "32 word \<Rightarrow> 32 word" where
  "getPBMaskForGeofenceBreachTypeMask gfBreachTypeMask = conv_mask
    [(GEOFENCE_BREACH_ENTER_BIT, PB_GEOFENCE_BREACH_ENTER_BIT),
     (GEOFENCE_BREACH_EXIT_BIT, PB_GEOFENCE_BREACH_EXIT_BIT),
     (GEOFENCE_BREACH_DWELL_IN_BIT, PB_GEOFENCE_BREACH_DWELL_IN_BIT),
     (GEOFENCE_BREACH_DWELL_OUT_BIT, PB_GEOFENCE_BREACH_DWELL_OUT_BIT)]
     gfBreachTypeMask 0"

definition getPBMaskForDeadReckoningEngineConfigValidMask :: "64 word \<Rightarrow> 64 word" where
  "getPBMaskForDeadReckoningEngineConfigValidMask drEngCfgValidMask = conv_mask
    [(BODY_TO_SENSOR_MOUNT_PARAMS_BIT, PB_BODY_TO_SENSOR_MOUNT_PARAMS_BIT),
     (VEHICLE_SPEED_SCALE_FACTOR_BIT, PB_VEHICLE_SPEED_SCALE_FACTOR_BIT),
     (VEHICLE_SPEED_SCALE_FACTOR_UNC_BIT, PB_VEHICLE_SPEED_SCALE_FACTOR_UNC_BIT),
     (GYRO_SCALE_FACTOR_BIT, PB_GYRO_SCALE_FACTOR_BIT),
     (GYRO_SCALE_FACTOR_UNC_BIT, PB_GYRO_SCALE_FACTOR_UNC_BIT)]
     drEngCfgValidMask 0"

definition getPBMaskForDrEngineAidingDataMask :: "32 word \<Rightarrow> 32 word" where
  "getPBMaskForDrEngineAidingDataMask drEngAidDataMask = conv_mask
    [(DR_ENGINE_AIDING_DATA_CALIBRATION_BIT, PB_DR_ENGINE_AIDING_DATA_CALIBRATION_BIT)]
     drEngAidDataMask 0"

definition getPBMaskForDrSolutionStatusMask :: "32 word \<Rightarrow> 32 word" where
  "getPBMaskForDrSolutionStatusMask drSolnStatusMask = conv_mask
    [(VEHICLE_SENSOR_SPEED_INPUT_DETECTED, PB_VEHICLE_SENSOR_SPEED_INPUT_DETECTED),
     (VEHICLE_SENSOR_SPEED_INPUT_USED, PB_VEHICLE_SENSOR_SPEED_INPUT_USED)]
     drSolnStatusMask 0"

definition getLocationCapabilitiesMaskFromPB :: "64 word \<Rightarrow> 64 word" where
  "getLocationCapabilitiesMaskFromPB pbLocCapabMask = conv_mask
    [(PB_LOCATION_CAPS_TIME_BASED_TRACKING_BIT, LOCATION_CAPABILITIES_TIME_BASED_TRACKING_BIT),
     (PB_LOCATION_CAPS_TIME_BASED_BATCHING_BIT, LOCATION_CAPABILITIES_TIME_BASED_BATCHING_BIT),
     (PB_LOCATION_CAPS_DISTANCE_BASED_TRACKING_BIT, LOCATION_CAPABILITIES_DISTANCE_BASED_TRACKING_BIT),
     (PB_LOCATION_CAPS_DISTANCE_BASED_BATCHING_BIT, LOCATION_CAPABILITIES_DISTANCE_BASED_BATCHING_BIT),
     (PB_LOCATION_CAPS_GEOFENCE_BIT, LOCATION_CAPABILITIES_GEOFENCE_BIT),
     (PB_LOCATION_CAPS_OUTDOOR_TRIP_BATCHING_BIT, LOCATION_CAPABILITIES_OUTDOOR_TRIP_BATCHING_BIT),
     (PB_LOCATION_CAPS_GNSS_MEASUREMENTS_BIT, LOCATION_CAPABILITIES_GNSS_MEASUREMENTS_BIT),
     (PB_LOCATION_CAPS_CONSTELLATION_ENABLEMENT_BIT, LOCATION_CAPABILITIES_CONSTELLATION_ENABLEMENT_BIT),
     (PB_LOCATION_CAPS_QWES_CARRIER_PHASE_BIT, LOCATION_CAPABILITIES_QWES_CARRIER_PHASE_BIT),
     (PB_LOCATION_CAPS_QWES_SV_POLYNOMIAL_BIT, LOCATION_CAPABILITIES_QWES_SV_POLYNOMIAL_BIT),
     (PB_LOCATION_CAPS_QWES_GNSS_SINGLE_FREQUENCY, LOCATION_CAPABILITIES_QWES_GNSS_SINGLE_FREQUENCY),
     (PB_LOCATION_CAPS_QWES_GNSS_MULTI_FREQUENCY, LOCATION_CAPABILITIES_QWES_GNSS_MULTI_FREQUENCY),
     (PB_LOCATION_CAPS_QWES_VPE, LOCATION_CAPABILITIES_QWES_VPE),
     (PB_LOCATION_CAPS_QWES_CV2X_LOCATION_BASIC, LOCATION_CAPABILITIES_QWES_CV2X_LOCATION_BASIC),
     (PB_LOCATION_CAPS_QWES_CV2X_LOCATION_PREMIUM, LOCATION_CAPABILITIES_QWES_CV2X_LOCATION_PREMIUM),
     (PB_LOCATION_CAPS_QWES_PPE, LOCATION_CAPABILITIES_QWES_PPE),
     (PB_LOCATION_CAPS_QWES_QDR2, LOCATION_CAPABILITIES_QWES_QDR2),
     (PB_LOCATION_CAPS_QWES_QDR3, LOCATION_CAPABILITIES_QWES_QDR3)]
     pbLocCapabMask 0"

definition getLocationCallbacksMaskFromPB :: "32 word \<Rightarrow> 32 word" where
  "getLocationCallbacksMaskFromPB pbLocCbMask = conv_mask
    [(PB_E_LOC_CB_DISTANCE_BASED_TRACKING_BIT, E_LOC_CB_DISTANCE_BASED_TRACKING_BIT),
     (PB_E_LOC_CB_GNSS_LOCATION_INFO_BIT, E_LOC_CB_GNSS_LOCATION_INFO_BIT),
     (PB_E_LOC_CB_GNSS_SV_BIT, E_LOC_CB_GNSS_SV_BIT),
     (PB_E_LOC_CB_GNSS_NMEA_BIT, E_LOC_CB_GNSS_NMEA_BIT),
     (PB_E_LOC_CB_GNSS_DATA_BIT, E_LOC_CB_GNSS_DATA_BIT),
     (PB_E_LOC_CB_SYSTEM_INFO_BIT, E_LOC_CB_SYSTEM_INFO_BIT),
     (PB_E_LOC_CB_BATCHING_BIT, E_LOC_CB_BATCHING_BIT),
     (PB_E_LOC_CB_BATCHING_STATUS_BIT, E_LOC_CB_BATCHING_STATUS_BIT),
     (PB_E_LOC_CB_GEOFENCE_BREACH_BIT, E_LOC_CB_GEOFENCE_BREACH_BIT),
     (PB_E_LOC_CB_ENGINE_LOCATIONS_INFO_BIT, E_LOC_CB_ENGINE_LOCATIONS_INFO_BIT),
     (PB_E_LOC_CB_SIMPLE_LOCATION_INFO_BIT, E_LOC_CB_SIMPLE_LOCATION_INFO_BIT),
     (PB_E_LOC_CB_GNSS_MEAS_BIT, E_LOC_CB_GNSS_MEAS_BIT)]
     pbLocCbMask 0"

definition getLeverArmTypeMaskFromPB :: "32 word \<Rightarrow> 32 word" where
  "getLeverArmTypeMaskFromPB pbLeverTypeMask = conv_mask
    [(PB_LEVER_ARM_TYPE_GNSS_TO_VRP_BIT, LEVER_ARM_TYPE_GNSS_TO_VRP_BIT),
     (PB_LEVER_ARM_TYPE_DR_IMU_TO_GNSS_BIT, LEVER_ARM_TYPE_DR_IMU_TO_GNSS_BIT),
     (PB_LEVER_ARM_TYPE_VEPP_IMU_TO_GNSS_BIT, LEVER_ARM_TYPE_VEPP_IMU_TO_GNSS_BIT)]
     pbLeverTypeMask 0"

definition getEnumForPBPositioningEngineMask :: "32 word \<Rightarrow> 32 word" where
  "getEnumForPBPositioningEngineMask pbPosEngMask = conv_mask
    [(PB_STANDARD_POSITIONING_ENGINE, STANDARD_POSITIONING_ENGINE),
     (PB_PRECISE_POSITIONING_ENGINE, PRECISE_POSITIONING_ENGINE),
     (PB_DEAD_RECKONING_ENGINE, DEAD_RECKONING_ENGINE)]
     pbPosEngMask 0"

definition getGnssSvTypesMaskFromPB :: "64 word \<Rightarrow> 64 word" where
  "getGnssSvTypesMaskFromPB pbGnssSvTypesMask = conv_mask
    [(PB_GNSS_SV_TYPES_MASK_GLO_BIT, GNSS_SV_TYPES_MASK_GLO_BIT),
     (PB_GNSS_SV_TYPES_MASK_BDS_BIT, GNSS_SV_TYPES_MASK_BDS_BIT),
     (PB_GNSS_SV_TYPES_MASK_QZSS_BIT, GNSS_SV_TYPES_MASK_QZSS_BIT),
     (PB_GNSS_SV_TYPES_MASK_GAL_BIT, GNSS_SV_TYPES_MASK_GAL_BIT),
     (PB_GNSS_SV_TYPES_MASK_NAVIC_BIT, GNSS_SV_TYPES_MASK_NAVIC_BIT),
     (PB_GNSS_SV_TYPES_MASK_GPS_BIT, GNSS_SV_TYPES_MASK_GPS_BIT)]
     pbGnssSvTypesMask 0"

definition getGnssAidingDataSvMaskFromPB :: "32 word \<Rightarrow> 32 word" where
  "getGnssAidingDataSvMaskFromPB pbGnssAidDataSvMask = conv_mask
    [(PB_AIDING_DATA_SV_EPHEMERIS_BIT, GNSS_AIDING_DATA_SV_EPHEMERIS_BIT)]
     pbGnssAidDataSvMask 0"

definition getLocReqEngineTypeMaskFromPB :: "32 word \<Rightarrow> 32 word" where
  "getLocReqEngineTypeMaskFromPB pbLocReqEngTypeMask = conv_mask
    [(PB_LOC_REQ_ENGINE_FUSED_BIT, LOC_REQ_ENGINE_FUSED_BIT),
     (PB_LOC_REQ_ENGINE_SPE_BIT, LOC_REQ_ENGINE_SPE_BIT),
     (PB_LOC_REQ_ENGINE_PPE_BIT, LOC_REQ_ENGINE_PPE_BIT)]
     pbLocReqEngTypeMask 0"

definition getLocationSystemInfoMaskFromPB :: "32 word \<Rightarrow> 32 word" where
  "getLocationSystemInfoMaskFromPB pbLocSysInfoMask = conv_mask
    [(PB_LOCATION_SYS_INFO_LEAP_SECOND, LOCATION_SYS_INFO_LEAP_SECOND)]
     pbLocSysInfoMask (word_of_int PB_LOCATION_SYS_INFO_INVALID)"

definition getGnssDataMaskFromPB :: "64 word \<Rightarrow> 64 word" where
  "getGnssDataMaskFromPB pbGnssDataMask = conv_mask
    [(PB_GNSS_LOC_DATA_JAMMER_IND_BIT, GNSS_LOC_DATA_JAMMER_IND_BIT),
     (PB_GNSS_LOC_DATA_AGC_BIT, GNSS_LOC_DATA_AGC_BIT)]
     pbGnssDataMask 0"

definition getLeapSecSysInfoMaskFromPB :: "32 word \<Rightarrow> 32 word" where
  "getLeapSecSysInfoMaskFromPB pbLeapSecSysInfoMask = conv_mask
    [(PB_LEAP_SECOND_SYS_INFO_CURRENT_LEAP_SECONDS_BIT, LEAP_SECOND_SYS_INFO_CURRENT_LEAP_SECONDS_BIT),
     (PB_LEAP_SECOND_SYS_INFO_LEAP_SECOND_CHANGE_BIT, LEAP_SECOND_SYS_INFO_LEAP_SECOND_CHANGE_BIT)]
     pbLeapSecSysInfoMask 0"

definition getGnssSystemTimeStructTypeFlagsFromPB :: "32 word \<Rightarrow> 32 word" where
  "getGnssSystemTimeStructTypeFlagsFromPB pbGnssSysTimeStrctType = conv_mask
    [(PB_GNSS_SYSTEM_TIME_WEEK_VALID, GNSS_SYSTEM_TIME_WEEK_VALID),
     (PB_GNSS_SYSTEM_TIME_WEEK_MS_VALID, GNSS_SYSTEM_TIME_WEEK_MS_VALID),
     (PB_GNSS_SYSTEM_CLK_TIME_BIAS_VALID, GNSS_SYSTEM_CLK_TIME_BIAS_VALID),
     (PB_GNSS_SYSTEM_CLK_TIME_BIAS_UNC_VALID, GNSS_SYSTEM_CLK_TIME_BIAS_UNC_VALID),
     (PB_GNSS_SYSTEM_REF_FCOUNT_VALID, GNSS_SYSTEM_REF_FCOUNT_VALID),
     (PB_GNSS_SYSTEM_NUM_CLOCK_RESETS_VALID, GNSS_SYSTEM_NUM_CLOCK_RESETS_VALID)]
     pbGnssSysTimeStrctType 0"

definition getGnssSignalTypeMaskFromPB :: "32 word \<Rightarrow> 32 word" where
  "getGnssSignalTypeMaskFromPB pbGnssSignalTypeMask = conv_mask
    [(PB_GNSS_SIGNAL_GPS_L1CA_BIT, GNSS_SIGNAL_GPS_L1CA),
     (PB_GNSS_SIGNAL_GPS_L1C_BIT, GNSS_SIGNAL_GPS_L1C),
     (PB_GNSS_SIGNAL_GPS_L2_BIT, GNSS_SIGNAL_GPS_L2),
     (PB_GNSS_SIGNAL_GPS_L5_BIT, GNSS_SIGNAL_GPS_L5),
     (PB_GNSS_SIGNAL_GLONASS_G1_BIT, GNSS_SIGNAL_GLONASS_G1),
     (PB_GNSS_SIGNAL_GLONASS_G2_BIT, GNSS_SIGNAL_GLONASS_G2),
     (PB_GNSS_SIGNAL_GALILEO_E1_BIT, GNSS_SIGNAL_GALILEO_E1),
     (PB_GNSS_SIGNAL_GALILEO_E5A_BIT, GNSS_SIGNAL_GALILEO_E5A),
     (PB_GNSS_SIGNAL_GALILEO_E5B_BIT, GNSS_SIGNAL_GALILEO_E5B),
     (PB_GNSS_SIGNAL_BEIDOU_B1_BIT, GNSS_SIGNAL_BEIDOU_B1),
     (PB_GNSS_SIGNAL_BEIDOU_B2_BIT, GNSS_SIGNAL_BEIDOU_B2),
     (PB_GNSS_SIGNAL_QZSS_L1CA_BIT, GNSS_SIGNAL_QZSS_L1CA),
     (PB_GNSS_SIGNAL_QZSS_L1S_BIT, GNSS_SIGNAL_QZSS_L1S),
     (PB_GNSS_SIGNAL_QZSS_L2_BIT, GNSS_SIGNAL_QZSS_L2),
     (PB_GNSS_SIGNAL_QZSS_L5_BIT, GNSS_SIGNAL_QZSS_L5),
     (PB_GNSS_SIGNAL_SBAS_L1_BIT, GNSS_SIGNAL_SBAS_L1),
     (PB_GNSS_SIGNAL_BEIDOU_B1I_BIT, GNSS_SIGNAL_BEIDOU_B1I),
     (PB_GNSS_SIGNAL_BEIDOU_B1C_BIT, GNSS_SIGNAL_BEIDOU_B1C),
     (PB_GNSS_SIGNAL_BEIDOU_B2I_BIT, GNSS_SIGNAL_BEIDOU_B2I),
     (PB_GNSS_SIGNAL_BEIDOU_B2AI_BIT, GNSS_SIGNAL_BEIDOU_B2AI),
     (PB_GNSS_SIGNAL_NAVIC_L5_BIT, GNSS_SIGNAL_NAVIC_L5),
     (PB_GNSS_SIGNAL_BEIDOU_B2AQ_BIT, GNSS_SIGNAL_BEIDOU_B2AQ)]
     pbGnssSignalTypeMask 0"

definition getGnssSvOptionsMaskFromPB :: "32 word \<Rightarrow> 32 word" where
  "getGnssSvOptionsMaskFromPB pbGnssSvOptMask = conv_mask
    [(PB_GNSS_SV_OPTIONS_HAS_EPHEMER_BIT, GNSS_SV_OPTIONS_HAS_EPHEMER_BIT),
     (PB_GNSS_SV_OPTIONS_HAS_ALMANAC_BIT, GNSS_SV_OPTIONS_HAS_ALMANAC_BIT),
     (PB_GNSS_SV_OPTIONS_USED_IN_FIX_BIT, GNSS_SV_OPTIONS_USED_IN_FIX_BIT),
     (PB_GNSS_SV_OPTIONS_HAS_CARRIER_FREQUENCY_BIT, GNSS_SV_OPTIONS_HAS_CARRIER_FREQUENCY_BIT),
     (PB_GNSS_SV_OPTIONS_HAS_GNSS_SIGNAL_TYPE_BIT, GNSS_SV_OPTIONS_HAS_GNSS_SIGNAL_TYPE_BIT)]
     pbGnssSvOptMask 0"

definition getGfBreachTypeMaskFromPB :: "32 word \<Rightarrow> 32 word" where
  "getGfBreachTypeMaskFromPB pbGfBreackTypMask = conv_mask
    [(PB_GEOFENCE_BREACH_ENTER_BIT, GEOFENCE_BREACH_ENTER_BIT),
     (PB_GEOFENCE_BREACH_EXIT_BIT, GEOFENCE_BREACH_EXIT_BIT),
     (PB_GEOFENCE_BREACH_DWELL_IN_BIT, GEOFENCE_BREACH_DWELL_IN_BIT),
     (PB_GEOFENCE_BREACH_DWELL_OUT_BIT, GEOFENCE_BREACH_DWELL_OUT_BIT)]
     pbGfBreackTypMask 0"

definition getLocationFlagsMaskFromPB :: "32 word \<Rightarrow> 32 word" where
  "getLocationFlagsMaskFromPB pbLocFlagsMask = conv_mask
    [(PB_LOCATION_HAS_LAT_LONG_BIT, LOCATION_HAS_LAT_LONG_BIT),
     (PB_LOCATION_HAS_ALTITUDE_BIT, LOCATION_HAS_ALTITUDE_BIT),
     (PB_LOCATION_HAS_SPEED_BIT, LOCATION_HAS_SPEED_BIT),
     (PB_LOCATION_HAS_BEARING_BIT, LOCATION_HAS_BEARING_BIT),
     (PB_LOCATION_HAS_ACCURACY_BIT, LOCATION_HAS_ACCURACY_BIT),
     (PB_LOCATION_HAS_VERTICAL_ACCURACY_BIT, LOCATION_HAS_VERTICAL_ACCURACY_BIT),
     (PB_LOCATION_HAS_SPEED_ACCURACY_BIT, LOCATION_HAS_SPEED_ACCURACY_BIT),
     (PB_LOCATION_HAS_BEARING_ACCURACY_BIT, LOCATION_HAS_BEARING_ACCURACY_BIT)]
     pbLocFlagsMask 0"

definition getLocationTechnologyMaskFromPB :: "32 word \<Rightarrow> 32 word" where
  "getLocationTechnologyMaskFromPB pbLocTechMask = conv_mask
    [(PB_LOCATION_TECHNOLOGY_GNSS_BIT, LOCATION_TECHNOLOGY_GNSS_BIT),
     (PB_LOCATION_TECHNOLOGY_CELL_BIT, LOCATION_TECHNOLOGY_CELL_BIT),
     (PB_LOCATION_TECHNOLOGY_WIFI_BIT, LOCATION_TECHNOLOGY_WIFI_BIT),
     (PB_LOCATION_TECHNOLOGY_SENSORS_BIT, LOCATION_TECHNOLOGY_SENSORS_BIT),
     (PB_LOCATION_TECHNOLOGY_REFERENCE_LOCATION_BIT, LOCATION_TECHNOLOGY_REFERENCE_LOCATION_BIT),
     (PB_LOCATION_TECHNOLOGY_INJECTED_COARSE_POSITION_BIT, LOCATION_TECHNOLOGY_INJECTED_COARSE_POSITION_BIT),
     (PB_LOCATION_TECHNOLOGY_AFLT_BIT, LOCATION_TECHNOLOGY_AFLT_BIT),
     (PB_LOCATION_TECHNOLOGY_HYBRID_BIT, LOCATION_TECHNOLOGY_HYBRID_BIT),
     (PB_LOCATION_TECHNOLOGY_PPE_BIT, LOCATION_TECHNOLOGY_PPE_BIT),
     (PB_LOCATION_TECHNOLOGY_VEH_BIT, LOCATION_TECHNOLOGY_VEH_BIT),
     (PB_LOCATION_TECHNOLOGY_VIS_BIT, LOCATION_TECHNOLOGY_VIS_BIT)]
     pbLocTechMask 0"

definition getGnssMeasurementsClockFlagsMaskFromPB :: "32 word \<Rightarrow> 32 word" where
  "getGnssMeasurementsClockFlagsMaskFromPB pbGnssMeasClockFlgMask = conv_mask
    [(PB_GNSS_MEASUREMENTS_CLOCK_FLAGS_LEAP_SECOND_BIT, GNSS_MEASUREMENTS_CLOCK_FLAGS_LEAP_SECOND_BIT),
     (PB_GNSS_MEASUREMENTS_CLOCK_FLAGS_TIME_BIT, GNSS_MEASUREMENTS_CLOCK_FLAGS_TIME_BIT),
     (PB_GNSS_MEASUREMENTS_CLOCK_FLAGS_TIME_UNCERTAINTY_BIT, GNSS_MEASUREMENTS_CLOCK_FLAGS_TIME_UNCERTAINTY_BIT),
     (PB_GNSS_MEASUREMENTS_CLOCK_FLAGS_FULL_BIAS_BIT, GNSS_MEASUREMENTS_CLOCK_FLAGS_FULL_BIAS_BIT),
     (PB_GNSS_MEASUREMENTS_CLOCK_FLAGS_BIAS_BIT, GNSS_MEASUREMENTS_CLOCK_FLAGS_BIAS_BIT),
     (PB_GNSS_MEASUREMENTS_CLOCK_FLAGS_BIAS_UNCERTAINTY_BIT, GNSS_MEASUREMENTS_CLOCK_FLAGS_BIAS_UNCERTAINTY_BIT),
     (PB_GNSS_MEASUREMENTS_CLOCK_FLAGS_DRIFT_BIT, GNSS_MEASUREMENTS_CLOCK_FLAGS_DRIFT_BIT),
     (PB_GNSS_MEASUREMENTS_CLOCK_FLAGS_DRIFT_UNCERTAINTY_BIT, GNSS_MEASUREMENTS_CLOCK_FLAGS_DRIFT_UNCERTAINTY_BIT),
     (PB_GNSS_MEASUREMENTS_CLOCK_FLAGS_HW_CLOCK_DISCONTINUITY_COUNT_BIT, GNSS_MEASUREMENTS_CLOCK_FLAGS_HW_CLOCK_DISCONTINUITY_COUNT_BIT)]
     pbGnssMeasClockFlgMask 0"

definition getGnssMeasurementsDataFlagsMaskFromPB :: "32 word \<Rightarrow> 32 word" where
  "getGnssMeasurementsDataFlagsMaskFromPB pbGnssMeasDataFlgMask = conv_mask
    [(PB_GNSS_MEASUREMENTS_DATA_SV_ID_BIT, GNSS_MEASUREMENTS_DATA_SV_ID_BIT),
     (PB_GNSS_MEASUREMENTS_DATA_SV_TYPE_BIT, GNSS_MEASUREMENTS_DATA_SV_TYPE_BIT),
     (PB_GNSS_MEASUREMENTS_DATA_STATE_BIT, GNSS_MEASUREMENTS_DATA_STATE_BIT),
     (PB_GNSS_MEASUREMENTS_DATA_RECEIVED_SV_TIME_BIT, GNSS_MEASUREMENTS_DATA_RECEIVED_SV_TIME_BIT),
     (PB_GNSS_MEASUREMENTS_DATA_RECEIVED_SV_TIME_UNCERTAINTY_BIT, GNSS_MEASUREMENTS_DATA_RECEIVED_SV_TIME_UNCERTAINTY_BIT),
     (PB_GNSS_MEASUREMENTS_DATA_CARRIER_TO_NOISE_BIT, GNSS_MEASUREMENTS_DATA_CARRIER_TO_NOISE_BIT),
     (PB_GNSS_MEASUREMENTS_DATA_PSEUDORANGE_RATE_BIT, GNSS_MEASUREMENTS_DATA_PSEUDORANGE_RATE_BIT),
     (PB_GNSS_MEASUREMENTS_DATA_PSEUDORANGE_RATE_UNCERTAINTY_BIT, GNSS_MEASUREMENTS_DATA_PSEUDORANGE_RATE_UNCERTAINTY_BIT),
     (PB_GNSS_MEASUREMENTS_DATA_ADR_STATE_BIT, GNSS_MEASUREMENTS_DATA_ADR_STATE_BIT),
     (PB_GNSS_MEASUREMENTS_DATA_ADR_BIT, GNSS_MEASUREMENTS_DATA_ADR_BIT),
     (PB_GNSS_MEASUREMENTS_DATA_ADR_UNCERTAINTY_BIT, GNSS_MEASUREMENTS_DATA_ADR_UNCERTAINTY_BIT),
     (PB_GNSS_MEASUREMENTS_DATA_CARRIER_FREQUENCY_BIT, GNSS_MEASUREMENTS_DATA_CARRIER_FREQUENCY_BIT),
     (PB_GNSS_MEASUREMENTS_DATA_CARRIER_CYCLES_BIT, GNSS_MEASUREMENTS_DATA_CARRIER_CYCLES_BIT),
     (PB_GNSS_MEASUREMENTS_DATA_CARRIER_PHASE_BIT, GNSS_MEASUREMENTS_DATA_CARRIER_PHASE_BIT),
     (PB_GNSS_MEASUREMENTS_DATA_CARRIER_PHASE_UNCERTAINTY_BIT, GNSS_MEASUREMENTS_DATA_CARRIER_PHASE_UNCERTAINTY_BIT),
     (PB_GNSS_MEASUREMENTS_DATA_MULTIPATH_INDICATOR_BIT, GNSS_MEASUREMENTS_DATA_MULTIPATH_INDICATOR_BIT),
     (PB_GNSS_MEASUREMENTS_DATA_SIGNAL_TO_NOISE_RATIO_BIT, GNSS_MEASUREMENTS_DATA_SIGNAL_TO_NOISE_RATIO_BIT),
     (PB_GNSS_MEASUREMENTS_DATA_AUTOMATIC_GAIN_CONTROL_BIT, GNSS_MEASUREMENTS_DATA_AUTOMATIC_GAIN_CONTROL_BIT),
     (PB_GNSS_MEASUREMENTS_DATA_FULL_ISB_BIT, GNSS_MEASUREMENTS_DATA_FULL_ISB_BIT),
     (PB_GNSS_MEASUREMENTS_DATA_FULL_ISB_UNCERTAINTY_BIT, GNSS_MEASUREMENTS_DATA_FULL_ISB_UNCERTAINTY_BIT),
     (PB_GNSS_MEASUREMENTS_DATA_CYCLE_SLIP_COUNT_BIT, GNSS_MEASUREMENTS_DATA_CYCLE_SLIP_COUNT_BIT)]
     pbGnssMeasDataFlgMask 0"

definition getGnssMeasurementsAdrStateMaskFromPB :: "32 word \<Rightarrow> 32 word" where
  "getGnssMeasurementsAdrStateMaskFromPB pbGnssMeasAdrStateMask = conv_mask
    [(PB_GNSS_MEASUREMENTS_ACCUMULATED_DELTA_RANGE_STATE_VALID_BIT, GNSS_MEASUREMENTS_ACCUMULATED_DELTA_RANGE_STATE_VALID_BIT),
     (PB_GNSS_MEASUREMENTS_ACCUMULATED_DELTA_RANGE_STATE_RESET_BIT, GNSS_MEASUREMENTS_ACCUMULATED_DELTA_RANGE_STATE_RESET_BIT),
     (PB_GNSS_MEASUREMENTS_ACCUMULATED_DELTA_RANGE_STATE_CYCLE_SLIP_BIT, GNSS_MEASUREMENTS_ACCUMULATED_DELTA_RANGE_STATE_CYCLE_SLIP_BIT)]
     pbGnssMeasAdrStateMask 0"

definition getGnssLocationInfoFlagMaskFromPB :: "32 word \<Rightarrow> 32 word \<Rightarrow> 64 word" where
  "getGnssLocationInfoFlagMaskFromPB pbGnssLocInfoFlagMask pbGnssLocInfoExtFlagMask = (let
   gnssLocInfoFlagMask = conv_mask
    [(PB_GNSS_LOCATION_INFO_ALTITUDE_MEAN_SEA_LEVEL_BIT, GNSS_LOCATION_INFO_ALTITUDE_MEAN_SEA_LEVEL_BIT),
     (PB_GNSS_LOCATION_INFO_DOP_BIT, PB_GNSS_LOCATION_INFO_DOP_BIT),
     (PB_GNSS_LOCATION_INFO_MAGNETIC_DEVIATION_BIT, GNSS_LOCATION_INFO_MAGNETIC_DEVIATION_BIT),
     (PB_GNSS_LOCATION_INFO_HOR_RELIABILITY_BIT, GNSS_LOCATION_INFO_HOR_RELIABILITY_BIT),
     (PB_GNSS_LOCATION_INFO_VER_RELIABILITY_BIT, GNSS_LOCATION_INFO_VER_RELIABILITY_BIT),
     (PB_GNSS_LOCATION_INFO_HOR_ACCURACY_ELIP_SEMI_MAJOR_BIT, GNSS_LOCATION_INFO_HOR_ACCURACY_ELIP_SEMI_MAJOR_BIT),
     (PB_GNSS_LOCATION_INFO_HOR_ACCURACY_ELIP_SEMI_MINOR_BIT, GNSS_LOCATION_INFO_HOR_ACCURACY_ELIP_SEMI_MINOR_BIT),
     (PB_GNSS_LOCATION_INFO_HOR_ACCURACY_ELIP_AZIMUTH_BIT, GNSS_LOCATION_INFO_HOR_ACCURACY_ELIP_AZIMUTH_BIT),
     (PB_GNSS_LOCATION_INFO_GNSS_SV_USED_DATA_BIT, GNSS_LOCATION_INFO_GNSS_SV_USED_DATA_BIT),
     (PB_GNSS_LOCATION_INFO_NAV_SOLUTION_MASK_BIT, GNSS_LOCATION_INFO_NAV_SOLUTION_MASK_BIT),
     (PB_GNSS_LOCATION_INFO_POS_DYNAMICS_DATA_BIT, GNSS_LOCATION_INFO_POS_DYNAMICS_DATA_BIT),
     (PB_GNSS_LOCATION_INFO_EXT_DOP_BIT, GNSS_LOCATION_INFO_EXT_DOP_BIT),
     (PB_GNSS_LOCATION_INFO_NORTH_STD_DEV_BIT, GNSS_LOCATION_INFO_NORTH_STD_DEV_BIT),
     (PB_GNSS_LOCATION_INFO_EAST_STD_DEV_BIT, GNSS_LOCATION_INFO_EAST_STD_DEV_BIT),
     (PB_GNSS_LOCATION_INFO_NORTH_VEL_BIT, GNSS_LOCATION_INFO_NORTH_VEL_BIT),
     (PB_GNSS_LOCATION_INFO_EAST_VEL_BIT, GNSS_LOCATION_INFO_EAST_VEL_BIT),
     (PB_GNSS_LOCATION_INFO_UP_VEL_BIT, GNSS_LOCATION_INFO_UP_VEL_BIT),
     (PB_GNSS_LOCATION_INFO_NORTH_VEL_UNC_BIT, GNSS_LOCATION_INFO_NORTH_VEL_UNC_BIT),
     (PB_GNSS_LOCATION_INFO_EAST_VEL_UNC_BIT, GNSS_LOCATION_INFO_EAST_VEL_UNC_BIT),
     (PB_GNSS_LOCATION_INFO_UP_VEL_UNC_BIT, GNSS_LOCATION_INFO_UP_VEL_UNC_BIT),
     (PB_GNSS_LOCATION_INFO_LEAP_SECONDS_BIT, GNSS_LOCATION_INFO_LEAP_SECONDS_BIT),
     (PB_GNSS_LOCATION_INFO_TIME_UNC_BIT, GNSS_LOCATION_INFO_TIME_UNC_BIT),
     (PB_GNSS_LOCATION_INFO_NUM_SV_USED_IN_POSITION_BIT, GNSS_LOCATION_INFO_NUM_SV_USED_IN_POSITION_BIT),
     (PB_GNSS_LOCATION_INFO_CALIBRATION_CONFIDENCE_PERCENT_BIT, GNSS_LOCATION_INFO_CALIBRATION_CONFIDENCE_BIT),
     (PB_GNSS_LOCATION_INFO_CALIBRATION_STATUS_BIT, GNSS_LOCATION_INFO_CALIBRATION_STATUS_BIT),
     (PB_GNSS_LOCATION_INFO_OUTPUT_ENG_TYPE_BIT, GNSS_LOCATION_INFO_OUTPUT_ENG_TYPE_BIT),
     (PB_GNSS_LOCATION_INFO_OUTPUT_ENG_MASK_BIT, GNSS_LOCATION_INFO_OUTPUT_ENG_MASK_BIT),
     (PB_GNSS_LOCATION_INFO_CONFORMITY_INDEX_BIT, GNSS_LOCATION_INFO_CONFORMITY_INDEX_BIT),
     (PB_GNSS_LOCATION_INFO_LLA_VRP_BASED_BIT, GNSS_LOCATION_INFO_LLA_VRP_BASED_BIT),
     (PB_GNSS_LOCATION_INFO_ENU_VELOCITY_VRP_BASED_BIT, GNSS_LOCATION_INFO_ENU_VELOCITY_VRP_BASED_BIT),
     (PB_GNSS_LOCATION_INFO_DR_SOLUTION_STATUS_MASK_BIT, GNSS_LOCATION_INFO_DR_SOLUTION_STATUS_MASK_BIT)]
     pbGnssLocInfoFlagMask 0;
   gnssLocInfoFlagMask = conv_mask
    [(PB_GNSS_LOCATION_INFO_ALTITUDE_ASSUMED_BIT, GNSS_LOCATION_INFO_ALTITUDE_ASSUMED_BIT),
     (PB_GNSS_LOCATION_INFO_SESSION_STATUS_BIT, GNSS_LOCATION_INFO_SESSION_STATUS_BIT)]
     pbGnssLocInfoExtFlagMask gnssLocInfoFlagMask
   in gnssLocInfoFlagMask)"

definition getGnssLocationNavSolutionMaskFromPB :: "32 word \<Rightarrow> 32 word" where
  "getGnssLocationNavSolutionMaskFromPB pbGnssLocNavSoln = conv_mask
    [(PB_LOCATION_SBAS_CORRECTION_IONO_BIT, LOCATION_SBAS_CORRECTION_IONO_BIT),
     (PB_LOCATION_SBAS_CORRECTION_FAST_BIT, LOCATION_SBAS_CORRECTION_FAST_BIT),
     (PB_LOCATION_SBAS_CORRECTION_LONG_BIT, LOCATION_SBAS_CORRECTION_LONG_BIT),
     (PB_LOCATION_SBAS_INTEGRITY_BIT, LOCATION_SBAS_INTEGRITY_BIT),
     (PB_LOCATION_NAV_CORRECTION_DGNSS_BIT, LOCATION_NAV_CORRECTION_DGNSS_BIT),
     (PB_LOCATION_NAV_CORRECTION_RTK_BIT, LOCATION_NAV_CORRECTION_RTK_BIT),
     (PB_LOCATION_NAV_CORRECTION_PPP_BIT, LOCATION_NAV_CORRECTION_PPP_BIT),
     (PB_LOCATION_NAV_CORRECTION_RTK_FIXED_BIT, LOCATION_NAV_CORRECTION_RTK_FIXED_BIT),
     (PB_LOCATION_NAV_CORRECTION_ONLY_SBAS_CORRECTED_SV_USED_BIT, LOCATION_NAV_CORRECTION_ONLY_SBAS_CORRECTED_SV_USED_BIT)]
     pbGnssLocNavSoln 0"

definition getDrCalibrationStatusMaskFromPB :: "32 word \<Rightarrow> 32 word" where
  "getDrCalibrationStatusMaskFromPB pbDrCalibStatus = conv_mask
    [(PB_DR_ROLL_CALIBRATION_NEEDED, DR_ROLL_CALIBRATION_NEEDED),
     (PB_DR_PITCH_CALIBRATION_NEEDED, DR_PITCH_CALIBRATION_NEEDED),
     (PB_DR_YAW_CALIBRATION_NEEDED, DR_YAW_CALIBRATION_NEEDED),
     (PB_DR_ODO_CALIBRATION_NEEDED, DR_ODO_CALIBRATION_NEEDED),
     (PB_DR_GYRO_CALIBRATION_NEEDED, DR_GYRO_CALIBRATION_NEEDED)]
     pbDrCalibStatus 0"

definition getGnssLocationPosDataMaskFromPB :: "32 word \<Rightarrow> 32 word" where
  "getGnssLocationPosDataMaskFromPB pbGnssLocPosDataMask = conv_mask
    [(PB_LOCATION_NAV_DATA_HAS_LONG_ACCEL_BIT, LOCATION_NAV_DATA_HAS_LONG_ACCEL_BIT),
     (PB_LOCATION_NAV_DATA_HAS_LAT_ACCEL_BIT, LOCATION_NAV_DATA_HAS_LAT_ACCEL_BIT),
     (PB_LOCATION_NAV_DATA_HAS_VERT_ACCEL_BIT, LOCATION_NAV_DATA_HAS_VERT_ACCEL_BIT),
     (PB_LOCATION_NAV_DATA_HAS_YAW_RATE_BIT, LOCATION_NAV_DATA_HAS_YAW_RATE_BIT),
     (PB_LOCATION_NAV_DATA_HAS_PITCH_BIT, LOCATION_NAV_DATA_HAS_PITCH_BIT),
     (PB_LOCATION_NAV_DATA_HAS_LONG_ACCEL_UNC_BIT, LOCATION_NAV_DATA_HAS_LONG_ACCEL_UNC_BIT),
     (PB_LOCATION_NAV_DATA_HAS_LAT_ACCEL_UNC_BIT, LOCATION_NAV_DATA_HAS_LAT_ACCEL_UNC_BIT),
     (PB_LOCATION_NAV_DATA_HAS_VERT_ACCEL_UNC_BIT, LOCATION_NAV_DATA_HAS_VERT_ACCEL_UNC_BIT),
     (PB_LOCATION_NAV_DATA_HAS_YAW_RATE_UNC_BIT, LOCATION_NAV_DATA_HAS_YAW_RATE_UNC_BIT),
     (PB_LOCATION_NAV_DATA_HAS_PITCH_UNC_BIT, LOCATION_NAV_DATA_HAS_PITCH_UNC_BIT)]
     pbGnssLocPosDataMask 0"

definition getGnssLocationPosDataMaskExtFromPB :: "32 word \<Rightarrow> 32 word" where
  "getGnssLocationPosDataMaskExtFromPB pbGnssLocPosDataMask = conv_mask
    [(PB_LOCATION_NAV_DATA_HAS_PITCH_RATE_BIT, LOCATION_NAV_DATA_HAS_PITCH_RATE_BIT),
     (PB_LOCATION_NAV_DATA_HAS_PITCH_RATE_UNC_BIT, LOCATION_NAV_DATA_HAS_PITCH_RATE_UNC_BIT),
     (PB_LOCATION_NAV_DATA_HAS_ROLL_BIT, LOCATION_NAV_DATA_HAS_ROLL_BIT),
     (PB_LOCATION_NAV_DATA_HAS_ROLL_UNC_BIT, LOCATION_NAV_DATA_HAS_ROLL_UNC_BIT),
     (PB_LOCATION_NAV_DATA_HAS_ROLL_RATE_BIT, LOCATION_NAV_DATA_HAS_ROLL_RATE_BIT),
     (PB_LOCATION_NAV_DATA_HAS_ROLL_RATE_UNC_BIT, LOCATION_NAV_DATA_HAS_ROLL_RATE_UNC_BIT),
     (PB_LOCATION_NAV_DATA_HAS_YAW_BIT, LOCATION_NAV_DATA_HAS_YAW_BIT),
     (PB_LOCATION_NAV_DATA_HAS_YAW_UNC_BIT, LOCATION_NAV_DATA_HAS_YAW_UNC_BIT)]
     pbGnssLocPosDataMask 0"

definition getGnssGloTimeStructTypeFlagsFromPB :: "32 word \<Rightarrow> 32 word" where
  "getGnssGloTimeStructTypeFlagsFromPB pbGnssGloTimeStruct = conv_mask
    [(PB_GNSS_CLO_DAYS_VALID, GNSS_CLO_DAYS_VALID),
     (PB_GNSS_GLO_MSEC_VALID, GNSS_GLO_MSEC_VALID),
     (PB_GNSS_GLO_CLK_TIME_BIAS_VALID, GNSS_GLO_CLK_TIME_BIAS_VALID),
     (PB_GNSS_GLO_CLK_TIME_BIAS_UNC_VALID, GNSS_GLO_CLK_TIME_BIAS_UNC_VALID),
     (PB_GNSS_GLO_REF_FCOUNT_VALID, GNSS_GLO_REF_FCOUNT_VALID),
     (PB_GNSS_GLO_NUM_CLOCK_RESETS_VALID, GNSS_GLO_NUM_CLOCK_RESETS_VALID),
     (PB_GNSS_GLO_FOUR_YEAR_VALID, GNSS_GLO_FOUR_YEAR_VALID)]
     pbGnssGloTimeStruct 0"

definition getGnssConfigRobustLocationValidMaskFromPB :: "32 word \<Rightarrow> 32 word" where
  "getGnssConfigRobustLocationValidMaskFromPB pbGnssCfgRobstLocValidMask = conv_mask
    [(PB_GNSS_CONFIG_ROBUST_LOCATION_ENABLED_VALID_BIT, GNSS_CONFIG_ROBUST_LOCATION_ENABLED_VALID_BIT),
     (PB_GNSS_CONFIG_ROBUST_LOCATION_ENABLED_FOR_E911_VALID_BIT, GNSS_CONFIG_ROBUST_LOCATION_ENABLED_FOR_E911_VALID_BIT),
     (PB_GNSS_CONFIG_ROBUST_LOCATION_VERSION_VALID_BIT, GNSS_CONFIG_ROBUST_LOCATION_VERSION_VALID_BIT)]
     pbGnssCfgRobstLocValidMask 0"

definition getDeadReckoningEngineConfigValidMaskFromPB :: "64 word \<Rightarrow> 64 word" where
  "getDeadReckoningEngineConfigValidMaskFromPB pbDrEngCfgVldMask = conv_mask
    [(PB_BODY_TO_SENSOR_MOUNT_PARAMS_BIT, BODY_TO_SENSOR_MOUNT_PARAMS_BIT),
     (PB_VEHICLE_SPEED_SCALE_FACTOR_BIT, VEHICLE_SPEED_SCALE_FACTOR_BIT),
     (PB_VEHICLE_SPEED_SCALE_FACTOR_UNC_BIT, VEHICLE_SPEED_SCALE_FACTOR_UNC_BIT),
     (PB_GYRO_SCALE_FACTOR_BIT, GYRO_SCALE_FACTOR_BIT),
     (PB_GYRO_SCALE_FACTOR_UNC_BIT, GYRO_SCALE_FACTOR_UNC_BIT)]
     pbDrEngCfgVldMask 0"

definition getDrEngineAidingDataMaskFromPB :: "32 word \<Rightarrow> 32 word" where
  "getDrEngineAidingDataMaskFromPB pbDrEngAidDataMask = conv_mask
    [(PB_DR_ENGINE_AIDING_DATA_CALIBRATION_BIT, DR_ENGINE_AIDING_DATA_CALIBRATION_BIT)]
     pbDrEngAidDataMask 0"

definition getDrSolutionStatusMaskFromPB :: "32 word \<Rightarrow> 32 word" where
  "getDrSolutionStatusMaskFromPB pbDrSolnStatusMask = conv_mask
    [(PB_VEHICLE_SENSOR_SPEED_INPUT_DETECTED, VEHICLE_SENSOR_SPEED_INPUT_DETECTED),
     (PB_VEHICLE_SENSOR_SPEED_INPUT_USED, VEHICLE_SENSOR_SPEED_INPUT_USED)]
     pbDrSolnStatusMask 0"

definition getPBEnumForLocSessionStatus :: "int \<Rightarrow> int" where
  "getPBEnumForLocSessionStatus status = conv_enum
    [(LOC_SESS_SUCCESS, PB_LOCATION_SESS_SUCCESS),
     (LOC_SESS_INTERMEDIATE, PB_LOCATION_SESS_INTERMEDIATE)]
     PB_LOCATION_SESS_FAILURE status"

definition getLocSessionStatusFromPB :: "int \<Rightarrow> int" where
  "getLocSessionStatusFromPB pbStatus = conv_enum
    [(PB_LOCATION_SESS_SUCCESS, LOC_SESS_SUCCESS),
     (PB_LOCATION_SESS_INTERMEDIATE, LOC_SESS_INTERMEDIATE)]
     LOC_SESS_FAILURE pbStatus"

section \<open>Round trips of the masks\<close>

lemma rt_getTerrestrialTechMaskFromPB [pb_round_trip]:
  "getTerrestrialTechMaskFromPB (getPBMaskForTerrestrialTechMask m) = m AND 0x1"
  unfolding getTerrestrialTechMaskFromPB_def getPBMaskForTerrestrialTechMask_def
  by (unfold pb_init, rule conv_mask_round_tripI) (simp, simp, code_simp, code_simp)

lemma rt_getLocationCallbacksMaskFromPB [pb_round_trip]:
  "getLocationCallbacksMaskFromPB (getPBMaskForLocationCallbacksMask m) = m AND 0xFFF"
  unfolding getLocationCallbacksMaskFromPB_def getPBMaskForLocationCallbacksMask_def
  by (rule conv_mask_round_tripI) (simp, simp, code_simp, code_simp)

lemma rt_getLocationCapabilitiesMaskFromPB [pb_round_trip]:
  "getLocationCapabilitiesMaskFromPB (getPBMaskForLocationCapabilitiesMask m) = m AND 0x7FB063F"
  unfolding getLocationCapabilitiesMaskFromPB_def getPBMaskForLocationCapabilitiesMask_def
  by (rule conv_mask_round_tripI) (simp, simp, code_simp, code_simp)

lemma rt_getEnumForPBPositioningEngineMask [pb_round_trip]:
  "getEnumForPBPositioningEngineMask (getPBMaskForPositioningEngineMask m) = m AND 0x7"
  unfolding getEnumForPBPositioningEngineMask_def getPBMaskForPositioningEngineMask_def
  by (rule conv_mask_round_tripI) (simp, simp, code_simp, code_simp)

lemma rt_getLeverArmTypeMaskFromPB [pb_round_trip]:
  "getLeverArmTypeMaskFromPB (getPBMaskForLeverArmTypeMask m) = m AND 0x7"
  unfolding getLeverArmTypeMaskFromPB_def getPBMaskForLeverArmTypeMask_def
  by (rule conv_mask_round_tripI) (simp, simp, code_simp, code_simp)

lemma rt_getLocReqEngineTypeMaskFromPB [pb_round_trip]:
  "getLocReqEngineTypeMaskFromPB (getPBMaskForLocReqEngineTypeMask m) = m AND 0x7"
  unfolding getLocReqEngineTypeMaskFromPB_def getPBMaskForLocReqEngineTypeMask_def
  by (rule conv_mask_round_tripI) (simp, simp, code_simp, code_simp)

lemma rt_getGnssConfigRobustLocationValidMaskFromPB [pb_round_trip]:
  "getGnssConfigRobustLocationValidMaskFromPB (getPBMaskForGnssCfgRobustLocValidMask m) = m AND 0x7"
  unfolding getGnssConfigRobustLocationValidMaskFromPB_def getPBMaskForGnssCfgRobustLocValidMask_def
  by (rule conv_mask_round_tripI) (simp, simp, code_simp, code_simp)

lemma rt_getLocationSystemInfoMaskFromPB [pb_round_trip]:
  "getLocationSystemInfoMaskFromPB (getPBMaskForLocSysInfoMask m) = m AND 0x1"
  unfolding getLocationSystemInfoMaskFromPB_def getPBMaskForLocSysInfoMask_def
  by (unfold pb_init, rule conv_mask_round_tripI) (simp, simp, code_simp, code_simp)

lemma rt_getGnssDataMaskFromPB [pb_round_trip]:
  "getGnssDataMaskFromPB (getPBMaskForGnssDataMask m) = m AND 0x3"
  unfolding getGnssDataMaskFromPB_def getPBMaskForGnssDataMask_def
  by (rule conv_mask_round_tripI) (simp, simp, code_simp, code_simp)

lemma rt_getGnssAidingDataSvMaskFromPB [pb_round_trip]:
  "getGnssAidingDataSvMaskFromPB (getPBMaskForGnssAidingDataSvMask m) = m AND 0x1"
  unfolding getGnssAidingDataSvMaskFromPB_def getPBMaskForGnssAidingDataSvMask_def
  by (rule conv_mask_round_tripI) (simp, simp, code_simp, code_simp)

lemma rt_getLeapSecSysInfoMaskFromPB [pb_round_trip]:
  "getLeapSecSysInfoMaskFromPB (getPBMaskForLeapSecondSysInfoMask m) = m AND 0x3"
  unfolding getLeapSecSysInfoMaskFromPB_def getPBMaskForLeapSecondSysInfoMask_def
  by (rule conv_mask_round_tripI) (simp, simp, code_simp, code_simp)

lemma rt_getGnssSystemTimeStructTypeFlagsFromPB [pb_round_trip]:
  "getGnssSystemTimeStructTypeFlagsFromPB (getPBMaskForGnssSystemTimeStructTypeFlags m) = m AND 0x3F"
  unfolding getGnssSystemTimeStructTypeFlagsFromPB_def getPBMaskForGnssSystemTimeStructTypeFlags_def
  by (rule conv_mask_round_tripI) (simp, simp, code_simp, code_simp)

lemma rt_getLocationFlagsMaskFromPB [pb_round_trip]:
  "getLocationFlagsMaskFromPB (getPBMaskForLocationFlagsMask m) = m AND 0xFF"
  unfolding getLocationFlagsMaskFromPB_def getPBMaskForLocationFlagsMask_def
  by (rule conv_mask_round_tripI) (simp, simp, code_simp, code_simp)

lemma rt_getLocationTechnologyMaskFromPB [pb_round_trip]:
  "getLocationTechnologyMaskFromPB (getPBMaskForLocationTechnologyMask m) = m AND 0x7FF"
  unfolding getLocationTechnologyMaskFromPB_def getPBMaskForLocationTechnologyMask_def
  by (rule conv_mask_round_tripI) (simp, simp, code_simp, code_simp)

lemma rt_getGnssLocationNavSolutionMaskFromPB [pb_round_trip]:
  "getGnssLocationNavSolutionMaskFromPB (getPBMaskForGnssLocationNavSolutionMask m) = m AND 0x1FF"
  unfolding getGnssLocationNavSolutionMaskFromPB_def getPBMaskForGnssLocationNavSolutionMask_def
  by (rule conv_mask_round_tripI) (simp, simp, code_simp, code_simp)

lemma rt_getDrCalibrationStatusMaskFromPB [pb_round_trip]:
  "getDrCalibrationStatusMaskFromPB (getPBMaskForDrCalibrationStatusMask m) = m AND 0x1F"
  unfolding getDrCalibrationStatusMaskFromPB_def getPBMaskForDrCalibrationStatusMask_def
  by (rule conv_mask_round_tripI) (simp, simp, code_simp, code_simp)

lemma rt_getGnssMeasurementsDataFlagsMaskFromPB [pb_round_trip]:
  "getGnssMeasurementsDataFlagsMaskFromPB (getPBMaskForGnssMeasurementsDataFlagsMask m) = m AND 0x4FFFFF"
  unfolding getGnssMeasurementsDataFlagsMaskFromPB_def getPBMaskForGnssMeasurementsDataFlagsMask_def
  by (rule conv_mask_round_tripI) (simp, simp, code_simp, code_simp)

lemma rt_getGnssMeasurementsAdrStateMaskFromPB [pb_round_trip]:
  "getGnssMeasurementsAdrStateMaskFromPB (getPBMaskForGnssMeasurementsAdrStateMask m) = m AND 0x7"
  unfolding getGnssMeasurementsAdrStateMaskFromPB_def getPBMaskForGnssMeasurementsAdrStateMask_def
  by (subst conv_mask_zero_bit, rule conv_mask_round_tripI) (simp, simp, code_simp, code_simp)

lemma rt_getGnssMeasurementsClockFlagsMaskFromPB [pb_round_trip]:
  "getGnssMeasurementsClockFlagsMaskFromPB (getPBMaskForGnssMeasurementsClockFlagsMask m) = m AND 0x1FF"
  unfolding getGnssMeasurementsClockFlagsMaskFromPB_def getPBMaskForGnssMeasurementsClockFlagsMask_def
  by (rule conv_mask_round_tripI) (simp, simp, code_simp, code_simp)

lemma rt_getGnssGloTimeStructTypeFlagsFromPB [pb_round_trip]:
  "getGnssGloTimeStructTypeFlagsFromPB (getPBMaskForGnssGloTimeStructTypeFlags m) = m AND 0x7F"
  unfolding getGnssGloTimeStructTypeFlagsFromPB_def getPBMaskForGnssGloTimeStructTypeFlags_def
  by (rule conv_mask_round_tripI) (simp, simp, code_simp, code_simp)

lemma rt_getGnssSvOptionsMaskFromPB [pb_round_trip]:
  "getGnssSvOptionsMaskFromPB (getPBMaskForGnssSvOptionsMask m) = m AND 0x1F"
  unfolding getGnssSvOptionsMaskFromPB_def getPBMaskForGnssSvOptionsMask_def
  by (rule conv_mask_round_tripI) (simp, simp, code_simp, code_simp)

lemma rt_getGnssSignalTypeMaskFromPB [pb_round_trip]:
  "getGnssSignalTypeMaskFromPB (getPBMaskForGnssSignalTypeMask m) = m AND 0x3FFFFF"
  unfolding getGnssSignalTypeMaskFromPB_def getPBMaskForGnssSignalTypeMask_def
  by (rule conv_mask_round_tripI) (simp, simp, code_simp, code_simp)

lemma rt_getGfBreachTypeMaskFromPB [pb_round_trip]:
  "getGfBreachTypeMaskFromPB (getPBMaskForGeofenceBreachTypeMask m) = m AND 0xF"
  unfolding getGfBreachTypeMaskFromPB_def getPBMaskForGeofenceBreachTypeMask_def
  by (rule conv_mask_round_tripI) (simp, simp, code_simp, code_simp)

lemma rt_getDeadReckoningEngineConfigValidMaskFromPB [pb_round_trip]:
  "getDeadReckoningEngineConfigValidMaskFromPB (getPBMaskForDeadReckoningEngineConfigValidMask m) = m AND 0x1F"
  unfolding getDeadReckoningEngineConfigValidMaskFromPB_def getPBMaskForDeadReckoningEngineConfigValidMask_def
  by (rule conv_mask_round_tripI) (simp, simp, code_simp, code_simp)

lemma rt_getDrEngineAidingDataMaskFromPB [pb_round_trip]:
  "getDrEngineAidingDataMaskFromPB (getPBMaskForDrEngineAidingDataMask m) = m AND 0x1"
  unfolding getDrEngineAidingDataMaskFromPB_def getPBMaskForDrEngineAidingDataMask_def
  by (rule conv_mask_round_tripI) (simp, simp, code_simp, code_simp)

lemma rt_getDrSolutionStatusMaskFromPB [pb_round_trip]:
  "getDrSolutionStatusMaskFromPB (getPBMaskForDrSolutionStatusMask m) = m AND 0x3"
  unfolding getDrSolutionStatusMaskFromPB_def getPBMaskForDrSolutionStatusMask_def
  by (rule conv_mask_round_tripI) (simp, simp, code_simp, code_simp)

lemma and_or_and: "(m AND a) OR (m AND b) = m AND (a OR b)" for m :: "'a::len word"
  by (rule bit_word_eqI) (auto simp: bit_simps)

lemma rt_location_info:
  "getGnssLocationInfoFlagMaskFromPB (getPBMaskForGnssLocationInfoFlagMask m)
     (getPBMaskForGnssLocationInfoExtFlagMask m) = (m AND 0xFFFFFBFF) OR (m AND 0x300000000)"
  unfolding getGnssLocationInfoFlagMaskFromPB_def getPBMaskForGnssLocationInfoFlagMask_def
    getPBMaskForGnssLocationInfoExtFlagMask_def Let_def
  by (subst conv_mask_acc, intro arg_cong2 [where f = "(OR)"]; rule conv_mask_round_tripI;
      (simp; fail)?; code_simp)

lemma rt_getGnssLocationInfoFlagMaskFromPB [pb_round_trip]:
  "getGnssLocationInfoFlagMaskFromPB (getPBMaskForGnssLocationInfoFlagMask m)
     (getPBMaskForGnssLocationInfoExtFlagMask m) = m AND 0x3FFFFFBFF"
  by (simp add: rt_location_info and_or_and)

lemma rt_getGnssLocationPosDataMaskFromPB [pb_round_trip]:
  "getGnssLocationPosDataMaskFromPB (getPBMaskForGnssLocationPosDataMask m e) = m AND 0x3FF"
  unfolding getGnssLocationPosDataMaskFromPB_def getPBMaskForGnssLocationPosDataMask_def Let_def
  by (rule conv_mask_first) (simp, simp, simp, code_simp+)

lemma rt_getGnssLocationPosDataMaskExtFromPB [pb_round_trip]:
  "getGnssLocationPosDataMaskExtFromPB (getPBMaskForGnssLocationPosDataMask m e) = e AND 0xFF"
  unfolding getGnssLocationPosDataMaskExtFromPB_def getPBMaskForGnssLocationPosDataMask_def Let_def
  by (rule conv_mask_second) (simp, simp, simp, code_simp+)

lemma state_mask_kept: "getPBMaskForGnssMeasurementsStateMask m = m AND 0x3FFF"
  unfolding getPBMaskForGnssMeasurementsStateMask_def
  by (subst conv_mask_zero_bit, rule conv_mask_identityI) (simp, code_simp, code_simp)

lemma sv_types_kept: "getGnssSvTypesMaskFromPB m = m AND 0x3F"
  unfolding getGnssSvTypesMaskFromPB_def
  by (rule conv_mask_identityI) (simp, code_simp, code_simp)

lemma data_mask_kept: "getGnssDataMaskFromPB m = m AND 0x3"
  unfolding getGnssDataMaskFromPB_def
  by (rule conv_mask_identityI) (simp, code_simp, code_simp)

lemma breach_mask_kept: "getGfBreachTypeMaskFromPB m = m AND 0xF"
  unfolding getGfBreachTypeMaskFromPB_def
  by (rule conv_mask_identityI) (simp, code_simp, code_simp)

section \<open>Properties\<close>

text \<open>Sending a mask and receiving it again keeps exactly the bits the wire format knows and clears the
  others, for every mask the daemon and its clients exchange: each pair of converters agrees bit by
  bit, although the two numberings differ.  The location-information flags travel in two words and
  the position-data flags of the two body-frame structs in one.  Of the declared bits the wire format
  drops the source of the satellites in the location information, nine of the capabilities, the VPE
  engine, three location flags, the DGNSS technology, all aiding data of satellites but the ephemeris,
  and the half-cycle, satellite inter-signal-bias and elapsed-real-time bits of the measurements.
\<close>
theorem pb_masks_round_trip:
  fixes m e :: "32 word" and m' :: "64 word"
  shows
  "getTerrestrialTechMaskFromPB (getPBMaskForTerrestrialTechMask m) = m AND 0x1
   \<and> getLocationCallbacksMaskFromPB (getPBMaskForLocationCallbacksMask m) = m AND 0xFFF
   \<and> getLocationCapabilitiesMaskFromPB (getPBMaskForLocationCapabilitiesMask m') = m' AND 0x7FB063F
   \<and> getEnumForPBPositioningEngineMask (getPBMaskForPositioningEngineMask m) = m AND 0x7
   \<and> getLeverArmTypeMaskFromPB (getPBMaskForLeverArmTypeMask m) = m AND 0x7
   \<and> getLocReqEngineTypeMaskFromPB (getPBMaskForLocReqEngineTypeMask m) = m AND 0x7
   \<and> getGnssConfigRobustLocationValidMaskFromPB (getPBMaskForGnssCfgRobustLocValidMask m) = m AND 0x7
   \<and> getLocationSystemInfoMaskFromPB (getPBMaskForLocSysInfoMask m) = m AND 0x1
   \<and> getGnssDataMaskFromPB (getPBMaskForGnssDataMask m') = m' AND 0x3
   \<and> getGnssAidingDataSvMaskFromPB (getPBMaskForGnssAidingDataSvMask m) = m AND 0x1
   \<and> getLeapSecSysInfoMaskFromPB (getPBMaskForLeapSecondSysInfoMask m) = m AND 0x3
   \<and> getGnssSystemTimeStructTypeFlagsFromPB (getPBMaskForGnssSystemTimeStructTypeFlags m) = m AND 0x3F
   \<and> getLocationFlagsMaskFromPB (getPBMaskForLocationFlagsMask m) = m AND 0xFF
   \<and> getLocationTechnologyMaskFromPB (getPBMaskForLocationTechnologyMask m) = m AND 0x7FF
   \<and> getGnssLocationNavSolutionMaskFromPB (getPBMaskForGnssLocationNavSolutionMask m) = m AND 0x1FF
   \<and> getDrCalibrationStatusMaskFromPB (getPBMaskForDrCalibrationStatusMask m) = m AND 0x1F
   \<and> getGnssMeasurementsDataFlagsMaskFromPB (getPBMaskForGnssMeasurementsDataFlagsMask m) = m AND 0x4FFFFF
   \<and> getGnssMeasurementsAdrStateMaskFromPB (getPBMaskForGnssMeasurementsAdrStateMask m) = m AND 0x7
   \<and> getGnssMeasurementsClockFlagsMaskFromPB (getPBMaskForGnssMeasurementsClockFlagsMask m) = m AND 0x1FF
   \<and> getGnssGloTimeStructTypeFlagsFromPB (getPBMaskForGnssGloTimeStructTypeFlags m) = m AND 0x7F
   \<and> getGnssSvOptionsMaskFromPB (getPBMaskForGnssSvOptionsMask m) = m AND 0x1F
   \<and> getGnssSignalTypeMaskFromPB (getPBMaskForGnssSignalTypeMask m) = m AND 0x3FFFFF
   \<and> getGfBreachTypeMaskFromPB (getPBMaskForGeofenceBreachTypeMask m) = m AND 0xF
   \<and> getDeadReckoningEngineConfigValidMaskFromPB (getPBMaskForDeadReckoningEngineConfigValidMask m') = m' AND 0x1F
   \<and> getDrEngineAidingDataMaskFromPB (getPBMaskForDrEngineAidingDataMask m) = m AND 0x1
   \<and> getDrSolutionStatusMaskFromPB (getPBMaskForDrSolutionStatusMask m) = m AND 0x3
   \<and> getGnssLocationInfoFlagMaskFromPB (getPBMaskForGnssLocationInfoFlagMask m')
        (getPBMaskForGnssLocationInfoExtFlagMask m') = m' AND 0x3FFFFFBFF
   \<and> getGnssLocationPosDataMaskFromPB (getPBMaskForGnssLocationPosDataMask m e) = m AND 0x3FF
   \<and> getGnssLocationPosDataMaskExtFromPB (getPBMaskForGnssLocationPosDataMask m e) = e AND 0xFF"
  by (simp only: pb_round_trip simp_thms)

text \<open>Enum values survive the wire: message identifiers, batching modes, SUPL modes, batching
  statuses, reliabilities, multipath indicators, satellite systems, satellite types, engine run
  states, client types and session statuses come back as they were sent, for every declared
  enumerator; of the error codes the wire carries five, all others arrive as the general failure, and
  an output of the VPE engine arrives as one of the fused engine.  A message identifier outside the
  enumeration becomes the undefined one in both directions.
\<close>
theorem pb_enums_round_trip:
  "map (\<lambda>e. getEnumForPBELocMsgID (getPBEnumForELocMsgID e)) ELocMsgID = ELocMsgID
   \<and> (\<forall>v. v \<in> set ELocMsgID \<or> getPBEnumForELocMsgID v = PB_E_LOCAPI_UNDEFINED_MSG_ID)
   \<and> (\<forall>v. v \<in> set PBELocMsgID \<or> getEnumForPBELocMsgID v = E_LOCAPI_UNDEFINED_MSG_ID)
   \<and> map (\<lambda>e. getEnumForPBBatchingMode (getPBEnumForBatchingMode e)) BatchingMode = BatchingMode
   \<and> map (\<lambda>e. getEnumForPBGnssSuplMode (getPBEnumForGnssSuplMode e)) GnssSuplMode = GnssSuplMode
   \<and> map (\<lambda>e. getEnumForPBBatchingStatus (getPBEnumForBatchingStatus e)) BatchingStatus = BatchingStatus
   \<and> map (\<lambda>e. getEnumForPBLocReliability (getPBEnumForLocationReliability e)) LocationReliability
       = LocationReliability
   \<and> map (\<lambda>e. getEnumForPBGnssMeasMultipathIndic (getPBEnumForGnssMeasMultiPathIndic e))
       GnssMeasurementsMultipathIndicator = GnssMeasurementsMultipathIndicator
   \<and> map (\<lambda>e. getEnumForPBGnssLocSvSystem (getPBEnumForGnssLocSvSystem e)) Gnss_LocSvSystemEnumType
       = Gnss_LocSvSystemEnumType
   \<and> map (\<lambda>e. getGnssSvTypeFromPBGnssLocSvSystemEnumType (getPBGnssLocSvSysEnumFromGnssSvType e))
       GnssSvType = GnssSvType
   \<and> map (\<lambda>e. getEnumForPBLocEngineRunState (uint (getPBEnumForLocEngineRunState e))) LocEngineRunState
       = LocEngineRunState
   \<and> map (\<lambda>e. getEnumForPBClientType (getPBEnumForClientType e)) ClientType = ClientType
   \<and> map (\<lambda>e. getLocSessionStatusFromPB (getPBEnumForLocSessionStatus e)) loc_sess_status
       = loc_sess_status
   \<and> map (\<lambda>e. getEnumForPBLocationError (getPBEnumForLocationError e)) LocationError
       = map (\<lambda>e. if e \<in> {LOCATION_ERROR_SUCCESS, LOCATION_ERROR_INVALID_PARAMETER,
                LOCATION_ERROR_NOT_SUPPORTED, LOCATION_ERROR_TIMEOUT} then e
              else LOCATION_ERROR_GENERAL_FAILURE) LocationError
   \<and> getEnumForPBLocOutputEngineType (getPBEnumForLocOutputEngineType LOC_OUTPUT_ENGINE_VPE)
       = LOC_OUTPUT_ENGINE_FUSED"
proof (intro conjI allI)
  show "v \<in> set ELocMsgID \<or> getPBEnumForELocMsgID v = PB_E_LOCAPI_UNDEFINED_MSG_ID" for v
    unfolding getPBEnumForELocMsgID_def by (rule conv_enum_outside) (simp add: ELocMsgID_def)
  show "v \<in> set PBELocMsgID \<or> getEnumForPBELocMsgID v = E_LOCAPI_UNDEFINED_MSG_ID" for v
    unfolding getEnumForPBELocMsgID_def by (rule conv_enum_outside) (simp add: PBELocMsgID_def)
qed code_simp+

end
