(* ===== verification/PbHalTypes.thy ===== *)
theory PbHalTypes
  imports "HOL-Library.Word"
begin

text \<open>
  The structs of the location API (LocationDataTypes.h, LocationApiMsg.h) that travel over the wire, as
  records whose fields carry the name of their struct.  Integers keep their width; a float or double
  is its bit pattern; an enum is an integer; an array of a struct is the list of its elements, as long
  as the memory that was allocated for it.  \<^verbatim>\<open>sizeof_...\<close> is the size of a struct under natural
  alignment.
\<close>

text \<open>Array bounds of LocationDataTypes.h and LocationApiMsg.h.\<close>

abbreviation (input) GNSS_SV_MAX :: "'a::numeral" where "GNSS_SV_MAX \<equiv> 128"
abbreviation (input) GNSS_MEASUREMENTS_MAX :: "'a::numeral" where "GNSS_MEASUREMENTS_MAX \<equiv> 128"
abbreviation (input) GNSS_LOC_MAX_NUMBER_OF_SIGNAL_TYPES :: "'a::numeral" where
  "GNSS_LOC_MAX_NUMBER_OF_SIGNAL_TYPES \<equiv> 20"
abbreviation (input) MAX_GEOFENCE_ENTRY :: "'a::numeral" where "MAX_GEOFENCE_ENTRY \<equiv> 20"

record GnssSvTypeConfig =
  GnssSvTypeConfig_size :: "32 word"
  GnssSvTypeConfig_enabledSvTypesMask :: "64 word"
  GnssSvTypeConfig_blacklistedSvTypesMask :: "64 word"

record GnssSvIdConfig =
  GnssSvIdConfig_size :: "32 word"
  GnssSvIdConfig_gloBlacklistSvMask :: "64 word"
  GnssSvIdConfig_bdsBlacklistSvMask :: "64 word"
  GnssSvIdConfig_qzssBlacklistSvMask :: "64 word"
  GnssSvIdConfig_galBlacklistSvMask :: "64 word"
  GnssSvIdConfig_sbasBlacklistSvMask :: "64 word"
  GnssSvIdConfig_navicBlacklistSvMask :: "64 word"

record GnssAidingDataSv =
  GnssAidingDataSv_svMask :: "32 word"
  GnssAidingDataSv_svTypeMask :: "32 word"

record GnssAidingDataCommon =
  GnssAidingDataCommon_mask :: "32 word"

record GnssAidingData =
  GnssAidingData_deleteAll :: "bool"
  GnssAidingData_sv :: "GnssAidingDataSv"
  GnssAidingData_common :: "GnssAidingDataCommon"
  GnssAidingData_dreAidingDataMask :: "32 word"
  GnssAidingData_posEngineMask :: "32 word"

record LeverArmParams =
  LeverArmParams_forwardOffsetMeters :: "32 word"
  LeverArmParams_sidewaysOffsetMeters :: "32 word"
  LeverArmParams_upOffsetMeters :: "32 word"

record LeverArmConfigInfo =
  LeverArmConfigInfo_leverArmValidMask :: "32 word"
  LeverArmConfigInfo_gnssToVRP :: "LeverArmParams"
  LeverArmConfigInfo_drImuToGnss :: "LeverArmParams"
  LeverArmConfigInfo_veppImuToGnss :: "LeverArmParams"

record BodyToSensorMountParams =
  BodyToSensorMountParams_rollOffset :: "32 word"
  BodyToSensorMountParams_yawOffset :: "32 word"
  BodyToSensorMountParams_pitchOffset :: "32 word"
  BodyToSensorMountParams_offsetUnc :: "32 word"

record DeadReckoningEngineConfig =
  DeadReckoningEngineConfig_validMask :: "64 word"
  DeadReckoningEngineConfig_bodyToSensorMountParams :: "BodyToSensorMountParams"
  DeadReckoningEngineConfig_vehicleSpeedScaleFactor :: "32 word"
  DeadReckoningEngineConfig_vehicleSpeedScaleFactorUnc :: "32 word"
  DeadReckoningEngineConfig_gyroScaleFactor :: "32 word"
  DeadReckoningEngineConfig_gyroScaleFactorUnc :: "32 word"

record LocationOptions =
  LocationOptions_size :: "32 word"
  LocationOptions_minInterval :: "32 word"
  LocationOptions_minDistance :: "32 word"
  LocationOptions_mode :: "int"
  LocationOptions_locReqEngTypeMask :: "32 word"

record GeofenceOption =
  GeofenceOption_size :: "32 word"
  GeofenceOption_breachTypeMask :: "16 word"
  GeofenceOption_responsiveness :: "32 word"
  GeofenceOption_dwellTime :: "32 word"

record GeofenceInfo =
  GeofenceInfo_size :: "32 word"
  GeofenceInfo_latitude :: "64 word"
  GeofenceInfo_longitude :: "64 word"
  GeofenceInfo_radius :: "64 word"

record GeofencePayload =
  GeofencePayload_gfClientId :: "32 word"
  GeofencePayload_gfOption :: "GeofenceOption"
  GeofencePayload_gfInfo :: "GeofenceInfo"

record GeofencesAddedReqPayload =
  GeofencesAddedReqPayload_count :: "32 word"
  GeofencesAddedReqPayload_gfPayload :: "GeofencePayload list"

record GeofencesReqClientIdPayload =
  GeofencesReqClientIdPayload_count :: "32 word"
  GeofencesReqClientIdPayload_gfIds :: "32 word list"

record GeofenceResponse =
  GeofenceResponse_clientId :: "32 word"
  GeofenceResponse_error :: "int"

record CollectiveResPayload =
  CollectiveResPayload_size :: "32 word"
  CollectiveResPayload_count :: "32 word"
  CollectiveResPayload_resp :: "GeofenceResponse list"

record GnssConfigRobustLocationVersion =
  GnssConfigRobustLocationVersion_major :: "8 word"
  GnssConfigRobustLocationVersion_minor :: "16 word"

record GnssConfigRobustLocation =
  GnssConfigRobustLocation_validMask :: "32 word"
  GnssConfigRobustLocation_enabled :: "bool"
  GnssConfigRobustLocation_enabledForE911 :: "bool"
  GnssConfigRobustLocation_version :: "GnssConfigRobustLocationVersion"

record Location =
  Location_size :: "32 word"
  Location_flags :: "16 word"
  Location_timestamp :: "64 word"
  Location_latitude :: "64 word"
  Location_longitude :: "64 word"
  Location_altitude :: "64 word"
  Location_speed :: "32 word"
  Location_bearing :: "32 word"
  Location_accuracy :: "32 word"
  Location_verticalAccuracy :: "32 word"
  Location_speedAccuracy :: "32 word"
  Location_bearingAccuracy :: "32 word"
  Location_conformityIndex :: "32 word"
  Location_techMask :: "16 word"
  Location_spoofMask :: "32 word"
  Location_elapsedRealTime :: "64 word"
  Location_elapsedRealTimeUnc :: "64 word"

record LocAPIBatchNotification =
  LocAPIBatchNotification_size :: "32 word"
  LocAPIBatchNotification_count :: "32 word"
  LocAPIBatchNotification_status :: "int"
  LocAPIBatchNotification_location :: "Location list"

record LocAPIGeofenceBreachNotification =
  LocAPIGeofenceBreachNotification_size :: "32 word"
  LocAPIGeofenceBreachNotification_count :: "32 word"
  LocAPIGeofenceBreachNotification_timestamp :: "64 word"
  LocAPIGeofenceBreachNotification_type :: "16 word"
  LocAPIGeofenceBreachNotification_location :: "Location"
  LocAPIGeofenceBreachNotification_id :: "32 word list"

record GnssLocationSvUsedInPosition =
  GnssLocationSvUsedInPosition_gpsSvUsedIdsMask :: "64 word"
  GnssLocationSvUsedInPosition_gloSvUsedIdsMask :: "64 word"
  GnssLocationSvUsedInPosition_galSvUsedIdsMask :: "64 word"
  GnssLocationSvUsedInPosition_bdsSvUsedIdsMask :: "64 word"
  GnssLocationSvUsedInPosition_qzssSvUsedIdsMask :: "64 word"
  GnssLocationSvUsedInPosition_navicSvUsedIdsMask :: "64 word"

record GnssLocationPositionDynamics =
  GnssLocationPositionDynamics_bodyFrameDataMask :: "32 word"
  GnssLocationPositionDynamics_longAccel :: "32 word"
  GnssLocationPositionDynamics_latAccel :: "32 word"
  GnssLocationPositionDynamics_vertAccel :: "32 word"
  GnssLocationPositionDynamics_yawRate :: "32 word"
  GnssLocationPositionDynamics_pitch :: "32 word"
  GnssLocationPositionDynamics_longAccelUnc :: "32 word"
  GnssLocationPositionDynamics_latAccelUnc :: "32 word"
  GnssLocationPositionDynamics_vertAccelUnc :: "32 word"
  GnssLocationPositionDynamics_yawRateUnc :: "32 word"
  GnssLocationPositionDynamics_pitchUnc :: "32 word"

record GnssSystemTimeStructType =
  GnssSystemTimeStructType_validityMask :: "32 word"
  GnssSystemTimeStructType_systemWeek :: "16 word"
  GnssSystemTimeStructType_systemMsec :: "32 word"
  GnssSystemTimeStructType_systemClkTimeBias :: "32 word"
  GnssSystemTimeStructType_systemClkTimeUncMs :: "32 word"
  GnssSystemTimeStructType_refFCount :: "32 word"
  GnssSystemTimeStructType_numClockResets :: "32 word"

record GnssGloTimeStructType =
  GnssGloTimeStructType_gloDays :: "16 word"
  GnssGloTimeStructType_validityMask :: "32 word"
  GnssGloTimeStructType_gloMsec :: "32 word"
  GnssGloTimeStructType_gloClkTimeBias :: "32 word"
  GnssGloTimeStructType_gloClkTimeUncMs :: "32 word"
  GnssGloTimeStructType_refFCount :: "32 word"
  GnssGloTimeStructType_numClockResets :: "32 word"
  GnssGloTimeStructType_gloFourYear :: "8 word"

text \<open>The members of this union have one of two types; the constructor says which was written last.\<close>

datatype SystemTimeStructUnion =
    systemTime GnssSystemTimeStructType | gloTime GnssGloTimeStructType

record GnssSystemTime =
  GnssSystemTime_gnssSystemTimeSrc :: "int"
  GnssSystemTime_u :: "SystemTimeStructUnion"

record GnssMeasUsageInfo =
  GnssMeasUsageInfo_gnssSignalType :: "32 word"
  GnssMeasUsageInfo_gnssConstellation :: "int"
  GnssMeasUsageInfo_gnssSvId :: "16 word"

record GnssLocationPositionDynamicsExt =
  GnssLocationPositionDynamicsExt_bodyFrameDataMask :: "32 word"
  GnssLocationPositionDynamicsExt_pitchRate :: "32 word"
  GnssLocationPositionDynamicsExt_pitchRateUnc :: "32 word"
  GnssLocationPositionDynamicsExt_roll :: "32 word"
  GnssLocationPositionDynamicsExt_rollUnc :: "32 word"
  GnssLocationPositionDynamicsExt_rollRate :: "32 word"
  GnssLocationPositionDynamicsExt_rollRateUnc :: "32 word"
  GnssLocationPositionDynamicsExt_yaw :: "32 word"
  GnssLocationPositionDynamicsExt_yawUnc :: "32 word"

record LLAInfo =
  LLAInfo_latitude :: "64 word"
  LLAInfo_longitude :: "64 word"
  LLAInfo_altitude :: "32 word"

record GnssLocationInfoNotification =
  GnssLocationInfoNotification_size :: "32 word"
  GnssLocationInfoNotification_location :: "Location"
  GnssLocationInfoNotification_flags :: "64 word"
  GnssLocationInfoNotification_altitudeMeanSeaLevel :: "32 word"
  GnssLocationInfoNotification_pdop :: "32 word"
  GnssLocationInfoNotification_hdop :: "32 word"
  GnssLocationInfoNotification_vdop :: "32 word"
  GnssLocationInfoNotification_gdop :: "32 word"
  GnssLocationInfoNotification_tdop :: "32 word"
  GnssLocationInfoNotification_magneticDeviation :: "32 word"
  GnssLocationInfoNotification_horReliability :: "int"
  GnssLocationInfoNotification_verReliability :: "int"
  GnssLocationInfoNotification_horUncEllipseSemiMajor :: "32 word"
  GnssLocationInfoNotification_horUncEllipseSemiMinor :: "32 word"
  GnssLocationInfoNotification_horUncEllipseOrientAzimuth :: "32 word"
  GnssLocationInfoNotification_northStdDeviation :: "32 word"
  GnssLocationInfoNotification_eastStdDeviation :: "32 word"
  GnssLocationInfoNotification_northVelocity :: "32 word"
  GnssLocationInfoNotification_eastVelocity :: "32 word"
  GnssLocationInfoNotification_upVelocity :: "32 word"
  GnssLocationInfoNotification_northVelocityStdDeviation :: "32 word"
  GnssLocationInfoNotification_eastVelocityStdDeviation :: "32 word"
  GnssLocationInfoNotification_upVelocityStdDeviation :: "32 word"
  GnssLocationInfoNotification_numSvUsedInPosition :: "16 word"
  GnssLocationInfoNotification_svUsedInPosition :: "GnssLocationSvUsedInPosition"
  GnssLocationInfoNotification_navSolutionMask :: "32 word"
  GnssLocationInfoNotification_bodyFrameData :: "GnssLocationPositionDynamics"
  GnssLocationInfoNotification_gnssSystemTime :: "GnssSystemTime"
  GnssLocationInfoNotification_numOfMeasReceived :: "8 word"
  GnssLocationInfoNotification_measUsageInfo :: "GnssMeasUsageInfo list"
  GnssLocationInfoNotification_leapSeconds :: "8 word"
  GnssLocationInfoNotification_timeUncMs :: "32 word"
  GnssLocationInfoNotification_calibrationConfidence :: "8 word"
  GnssLocationInfoNotification_calibrationStatus :: "16 word"
  GnssLocationInfoNotification_locOutputEngType :: "int"
  GnssLocationInfoNotification_locOutputEngMask :: "32 word"
  GnssLocationInfoNotification_conformityIndex :: "32 word"
  GnssLocationInfoNotification_bodyFrameDataExt :: "GnssLocationPositionDynamicsExt"
  GnssLocationInfoNotification_llaVRPBased :: "LLAInfo"
  GnssLocationInfoNotification_enuVelocityVRPBased :: "32 word list"
  GnssLocationInfoNotification_drSolutionStatusMask :: "32 word"
  GnssLocationInfoNotification_altitudeAssumed :: "bool"
  GnssLocationInfoNotification_sessionStatus :: "int"

record LeapSecondChangeInfo =
  LeapSecondChangeInfo_gpsTimestampLsChange :: "GnssSystemTimeStructType"
  LeapSecondChangeInfo_leapSecondsBeforeChange :: "8 word"
  LeapSecondChangeInfo_leapSecondsAfterChange :: "8 word"

record LeapSecondSystemInfo =
  LeapSecondSystemInfo_leapSecondInfoMask :: "32 word"
  LeapSecondSystemInfo_leapSecondCurrent :: "8 word"
  LeapSecondSystemInfo_leapSecondChangeInfo :: "LeapSecondChangeInfo"

record LocationSystemInfo =
  LocationSystemInfo_systemInfoMask :: "32 word"
  LocationSystemInfo_leapSecondSysInfo :: "LeapSecondSystemInfo"

record GnssMeasurementsData =
  GnssMeasurementsData_size :: "32 word"
  GnssMeasurementsData_flags :: "32 word"
  GnssMeasurementsData_svId :: "16 word"
  GnssMeasurementsData_svType :: "int"
  GnssMeasurementsData_timeOffsetNs :: "64 word"
  GnssMeasurementsData_stateMask :: "32 word"
  GnssMeasurementsData_receivedSvTimeNs :: "64 word"
  GnssMeasurementsData_receivedSvTimeUncertaintyNs :: "64 word"
  GnssMeasurementsData_carrierToNoiseDbHz :: "64 word"
  GnssMeasurementsData_pseudorangeRateMps :: "64 word"
  GnssMeasurementsData_pseudorangeRateUncertaintyMps :: "64 word"
  GnssMeasurementsData_adrStateMask :: "16 word"
  GnssMeasurementsData_adrMeters :: "64 word"
  GnssMeasurementsData_adrUncertaintyMeters :: "64 word"
  GnssMeasurementsData_carrierFrequencyHz :: "32 word"
  GnssMeasurementsData_carrierCycles :: "64 word"
  GnssMeasurementsData_carrierPhase :: "64 word"
  GnssMeasurementsData_carrierPhaseUncertainty :: "64 word"
  GnssMeasurementsData_multipathIndicator :: "int"
  GnssMeasurementsData_signalToNoiseRatioDb :: "64 word"
  GnssMeasurementsData_agcLevelDb :: "64 word"
  GnssMeasurementsData_codeType :: "int"
  GnssMeasurementsData_otherCodeTypeName :: "8 word list"
  GnssMeasurementsData_basebandCarrierToNoiseDbHz :: "64 word"
  GnssMeasurementsData_gnssSignalType :: "32 word"
  GnssMeasurementsData_fullInterSignalBiasNs :: "64 word"
  GnssMeasurementsData_fullInterSignalBiasUncertaintyNs :: "64 word"
  GnssMeasurementsData_satelliteInterSignalBiasNs :: "64 word"
  GnssMeasurementsData_satelliteInterSignalBiasUncertaintyNs :: "64 word"
  GnssMeasurementsData_gloFrequency :: "16 word"
  GnssMeasurementsData_cycleSlipCount :: "8 word"

record GnssMeasurementsSignalType =
  GnssMeasurementsSignalType_svType :: "int"
  GnssMeasurementsSignalType_carrierFrequencyHz :: "32 word"
  GnssMeasurementsSignalType_codeType :: "int"
  GnssMeasurementsSignalType_otherCodeTypeName :: "8 word list"

record GnssMeasurementsClock =
  GnssMeasurementsClock_size :: "32 word"
  GnssMeasurementsClock_flags :: "32 word"
  GnssMeasurementsClock_leapSecond :: "16 word"
  GnssMeasurementsClock_timeNs :: "64 word"
  GnssMeasurementsClock_timeUncertaintyNs :: "64 word"
  GnssMeasurementsClock_fullBiasNs :: "64 word"
  GnssMeasurementsClock_biasNs :: "64 word"
  GnssMeasurementsClock_biasUncertaintyNs :: "64 word"
  GnssMeasurementsClock_driftNsps :: "64 word"
  GnssMeasurementsClock_driftUncertaintyNsps :: "64 word"
  GnssMeasurementsClock_hwClockDiscontinuityCount :: "32 word"
  GnssMeasurementsClock_referenceSignalTypeForIsb :: "GnssMeasurementsSignalType"
  GnssMeasurementsClock_elapsedRealTime :: "64 word"
  GnssMeasurementsClock_elapsedRealTimeUnc :: "64 word"

record GnssMeasurementsNotification =
  GnssMeasurementsNotification_size :: "32 word"
  GnssMeasurementsNotification_count :: "32 word"
  GnssMeasurementsNotification_measurements :: "GnssMeasurementsData list"
  GnssMeasurementsNotification_clock :: "GnssMeasurementsClock"

record GnssDataNotification =
  GnssDataNotification_size :: "32 word"
  GnssDataNotification_gnssDataMask :: "64 word list"
  GnssDataNotification_jammerInd :: "64 word list"
  GnssDataNotification_agc :: "64 word list"

record LocAPINmeaSerializedPayload =
  LocAPINmeaSerializedPayload_size :: "32 word"
  LocAPINmeaSerializedPayload_timestamp :: "64 word"
  LocAPINmeaSerializedPayload_nmea :: "string"

record GnssSv =
  GnssSv_size :: "32 word"
  GnssSv_svId :: "16 word"
  GnssSv_type :: "int"
  GnssSv_cN0Dbhz :: "32 word"
  GnssSv_elevation :: "32 word"
  GnssSv_azimuth :: "32 word"
  GnssSv_gnssSvOptionsMask :: "16 word"
  GnssSv_carrierFrequencyHz :: "32 word"
  GnssSv_gnssSignalTypeMask :: "32 word"
  GnssSv_basebandCarrierToNoiseDbHz :: "64 word"
  GnssSv_gloFrequency :: "16 word"

record GnssSvNotification =
  GnssSvNotification_size :: "32 word"
  GnssSvNotification_count :: "32 word"
  GnssSvNotification_gnssSignalTypeMaskValid :: "bool"
  GnssSvNotification_gnssSvs :: "GnssSv list"

definition sizeof_GeofenceInfo :: "32 word" where "sizeof_GeofenceInfo = 32"
definition sizeof_GeofenceOption :: "32 word" where "sizeof_GeofenceOption = 16"
definition sizeof_GnssDataNotification :: "32 word" where "sizeof_GnssDataNotification = 488"
definition sizeof_GnssMeasurementsClock :: "32 word" where "sizeof_GnssMeasurementsClock = 112"
definition sizeof_GnssMeasurementsData :: "32 word" where "sizeof_GnssMeasurementsData = 224"
definition sizeof_GnssMeasurementsNotification :: "32 word" where "sizeof_GnssMeasurementsNotification = 28792"
definition sizeof_GnssSv :: "32 word" where "sizeof_GnssSv = 56"
definition sizeof_GnssSvIdConfig :: "32 word" where "sizeof_GnssSvIdConfig = 56"
definition sizeof_GnssSvNotification :: "32 word" where "sizeof_GnssSvNotification = 7184"
definition sizeof_GnssSvTypeConfig :: "32 word" where "sizeof_GnssSvTypeConfig = 24"
definition sizeof_Location :: "32 word" where "sizeof_Location = 96"
definition sizeof_LocationOptions :: "32 word" where "sizeof_LocationOptions = 20"

end
