(* ===== verification/PbWireTypes.thy ===== *)
theory PbWireTypes
  imports "HOL-Library.Word"
begin

text \<open>
  The protobuf messages (LocationApiDataTypes.proto, LocationApiMsg.proto) that carry the structs of the
  location API, as records whose fields carry the name of their message.  Integers keep their width; a
  float or double is its bit pattern; an enum is an integer; a repeated field is a list.
  \<^verbatim>\<open>PB..._default\<close> is the message with no field set.
\<close>

record PBGnssSvTypeConfig =
  PBGnssSvTypeConfig_enabledSvTypesMask :: "64 word"
  PBGnssSvTypeConfig_blacklistedSvTypesMask :: "64 word"

definition PBGnssSvTypeConfig_default :: PBGnssSvTypeConfig where
  "PBGnssSvTypeConfig_default = \<lparr>PBGnssSvTypeConfig_enabledSvTypesMask = 0,
     PBGnssSvTypeConfig_blacklistedSvTypesMask = 0\<rparr>"

record PBGnssSvIdConfig =
  PBGnssSvIdConfig_gloBlacklistSvMask :: "64 word"
  PBGnssSvIdConfig_bdsBlacklistSvMask :: "64 word"
  PBGnssSvIdConfig_qzssBlacklistSvMask :: "64 word"
  PBGnssSvIdConfig_galBlacklistSvMask :: "64 word"
  PBGnssSvIdConfig_sbasBlacklistSvMask :: "64 word"
  PBGnssSvIdConfig_navicBlacklistSvMask :: "64 word"

definition PBGnssSvIdConfig_default :: PBGnssSvIdConfig where
  "PBGnssSvIdConfig_default = \<lparr>PBGnssSvIdConfig_gloBlacklistSvMask = 0,
     PBGnssSvIdConfig_bdsBlacklistSvMask = 0,
     PBGnssSvIdConfig_qzssBlacklistSvMask = 0,
     PBGnssSvIdConfig_galBlacklistSvMask = 0,
     PBGnssSvIdConfig_sbasBlacklistSvMask = 0,
     PBGnssSvIdConfig_navicBlacklistSvMask = 0\<rparr>"

record PBAidingData =
  PBAidingData_deleteAll :: "bool"
  PBAidingData_gnssAidingDataSvMask :: "32 word"
  PBAidingData_dreAidingDataMask :: "32 word"
  PBAidingData_posEngineMask :: "32 word"

definition PBAidingData_default :: PBAidingData where
  "PBAidingData_default = \<lparr>PBAidingData_deleteAll = False,
     PBAidingData_gnssAidingDataSvMask = 0,
     PBAidingData_dreAidingDataMask = 0,
     PBAidingData_posEngineMask = 0\<rparr>"

record PBLIALeverArmParams =
  PBLIALeverArmParams_forwardOffsetMeters :: "32 word"
  PBLIALeverArmParams_sidewaysOffsetMeters :: "32 word"
  PBLIALeverArmParams_upOffsetMeters :: "32 word"

definition PBLIALeverArmParams_default :: PBLIALeverArmParams where
  "PBLIALeverArmParams_default = \<lparr>PBLIALeverArmParams_forwardOffsetMeters = 0,
     PBLIALeverArmParams_sidewaysOffsetMeters = 0,
     PBLIALeverArmParams_upOffsetMeters = 0\<rparr>"

record PBLIALeverArmConfigInfo =
  PBLIALeverArmConfigInfo_leverArmValidMask :: "32 word"
  PBLIALeverArmConfigInfo_gnssToVRP :: "PBLIALeverArmParams"
  PBLIALeverArmConfigInfo_drImuToGnss :: "PBLIALeverArmParams"
  PBLIALeverArmConfigInfo_veppImuToGnss :: "PBLIALeverArmParams"

definition PBLIALeverArmConfigInfo_default :: PBLIALeverArmConfigInfo where
  "PBLIALeverArmConfigInfo_default = \<lparr>PBLIALeverArmConfigInfo_leverArmValidMask = 0,
     PBLIALeverArmConfigInfo_gnssToVRP = PBLIALeverArmParams_default,
     PBLIALeverArmConfigInfo_drImuToGnss = PBLIALeverArmParams_default,
     PBLIALeverArmConfigInfo_veppImuToGnss = PBLIALeverArmParams_default\<rparr>"

record PBLIABodyToSensorMountParams =
  PBLIABodyToSensorMountParams_rollOffset :: "32 word"
  PBLIABodyToSensorMountParams_yawOffset :: "32 word"
  PBLIABodyToSensorMountParams_pitchOffset :: "32 word"
  PBLIABodyToSensorMountParams_offsetUnc :: "32 word"

definition PBLIABodyToSensorMountParams_default :: PBLIABodyToSensorMountParams where
  "PBLIABodyToSensorMountParams_default = \<lparr>PBLIABodyToSensorMountParams_rollOffset = 0,
     PBLIABodyToSensorMountParams_yawOffset = 0,
     PBLIABodyToSensorMountParams_pitchOffset = 0,
     PBLIABodyToSensorMountParams_offsetUnc = 0\<rparr>"

record PBDeadReckoningEngineConfig =
  PBDeadReckoningEngineConfig_validMask :: "64 word"
  PBDeadReckoningEngineConfig_bodyToSensorMountParams :: "PBLIABodyToSensorMountParams"
  PBDeadReckoningEngineConfig_vehicleSpeedScaleFactor :: "32 word"
  PBDeadReckoningEngineConfig_vehicleSpeedScaleFactorUnc :: "32 word"
  PBDeadReckoningEngineConfig_gyroScaleFactor :: "32 word"
  PBDeadReckoningEngineConfig_gyroScaleFactorUnc :: "32 word"

definition PBDeadReckoningEngineConfig_default :: PBDeadReckoningEngineConfig where
  "PBDeadReckoningEngineConfig_default = \<lparr>PBDeadReckoningEngineConfig_validMask = 0,
     PBDeadReckoningEngineConfig_bodyToSensorMountParams = PBLIABodyToSensorMountParams_default,
     PBDeadReckoningEngineConfig_vehicleSpeedScaleFactor = 0,
     PBDeadReckoningEngineConfig_vehicleSpeedScaleFactorUnc = 0,
     PBDeadReckoningEngineConfig_gyroScaleFactor = 0,
     PBDeadReckoningEngineConfig_gyroScaleFactorUnc = 0\<rparr>"

record PBLocationOptions =
  PBLocationOptions_minInterval :: "32 word"
  PBLocationOptions_minDistance :: "32 word"
  PBLocationOptions_mode :: "int"
  PBLocationOptions_locReqEngTypeMask :: "32 word"

definition PBLocationOptions_default :: PBLocationOptions where
  "PBLocationOptions_default = \<lparr>PBLocationOptions_minInterval = 0,
     PBLocationOptions_minDistance = 0,
     PBLocationOptions_mode = 0,
     PBLocationOptions_locReqEngTypeMask = 0\<rparr>"

record PBGeofenceOption =
  PBGeofenceOption_breachTypeMask :: "32 word"
  PBGeofenceOption_responsiveness :: "32 word"
  PBGeofenceOption_dwellTime :: "32 word"

definition PBGeofenceOption_default :: PBGeofenceOption where
  "PBGeofenceOption_default = \<lparr>PBGeofenceOption_breachTypeMask = 0,
     PBGeofenceOption_responsiveness = 0,
     PBGeofenceOption_dwellTime = 0\<rparr>"

record PBGeofenceInfo =
  PBGeofenceInfo_latitude :: "64 word"
  PBGeofenceInfo_longitude :: "64 word"
  PBGeofenceInfo_radius :: "64 word"

definition PBGeofenceInfo_default :: PBGeofenceInfo where
  "PBGeofenceInfo_default = \<lparr>PBGeofenceInfo_latitude = 0,
     PBGeofenceInfo_longitude = 0,
     PBGeofenceInfo_radius = 0\<rparr>"

record PBGeofencePayload =
  PBGeofencePayload_gfClientId :: "32 word"
  PBGeofencePayload_gfOption :: "PBGeofenceOption"
  PBGeofencePayload_gfInfo :: "PBGeofenceInfo"

definition PBGeofencePayload_default :: PBGeofencePayload where
  "PBGeofencePayload_default = \<lparr>PBGeofencePayload_gfClientId = 0,
     PBGeofencePayload_gfOption = PBGeofenceOption_default,
     PBGeofencePayload_gfInfo = PBGeofenceInfo_default\<rparr>"

record PBGeofencesAddedReqPayload =
  PBGeofencesAddedReqPayload_gfPayload :: "PBGeofencePayload list"

definition PBGeofencesAddedReqPayload_default :: PBGeofencesAddedReqPayload where
  "PBGeofencesAddedReqPayload_default = \<lparr>PBGeofencesAddedReqPayload_gfPayload = []\<rparr>"

record PBGeofencesReqClientIdPayload =
  PBGeofencesReqClientIdPayload_gfIds :: "32 word list"

definition PBGeofencesReqClientIdPayload_default :: PBGeofencesReqClientIdPayload where
  "PBGeofencesReqClientIdPayload_default = \<lparr>PBGeofencesReqClientIdPayload_gfIds = []\<rparr>"

record PBGeofenceResponse =
  PBGeofenceResponse_clientId :: "32 word"
  PBGeofenceResponse_error :: "int"

definition PBGeofenceResponse_default :: PBGeofenceResponse where
  "PBGeofenceResponse_default = \<lparr>PBGeofenceResponse_clientId = 0,
     PBGeofenceResponse_error = 0\<rparr>"

record PBCollectiveResPayload =
  PBCollectiveResPayload_resp :: "PBGeofenceResponse list"

definition PBCollectiveResPayload_default :: PBCollectiveResPayload where
  "PBCollectiveResPayload_default = \<lparr>PBCollectiveResPayload_resp = []\<rparr>"

record PBGnssConfigRobustLocationVersion =
  PBGnssConfigRobustLocationVersion_major :: "32 word"
  PBGnssConfigRobustLocationVersion_minor :: "32 word"

definition PBGnssConfigRobustLocationVersion_default :: PBGnssConfigRobustLocationVersion where
  "PBGnssConfigRobustLocationVersion_default = \<lparr>PBGnssConfigRobustLocationVersion_major = 0,
     PBGnssConfigRobustLocationVersion_minor = 0\<rparr>"

record PBGnssConfigRobustLocation =
  PBGnssConfigRobustLocation_validMask :: "32 word"
  PBGnssConfigRobustLocation_enabled :: "bool"
  PBGnssConfigRobustLocation_enabledForE911 :: "bool"
  PBGnssConfigRobustLocation_version :: "PBGnssConfigRobustLocationVersion"

definition PBGnssConfigRobustLocation_default :: PBGnssConfigRobustLocation where
  "PBGnssConfigRobustLocation_default = \<lparr>PBGnssConfigRobustLocation_validMask = 0,
     PBGnssConfigRobustLocation_enabled = False,
     PBGnssConfigRobustLocation_enabledForE911 = False,
     PBGnssConfigRobustLocation_version = PBGnssConfigRobustLocationVersion_default\<rparr>"

record PBLocation =
  PBLocation_flags :: "32 word"
  PBLocation_timestamp :: "64 word"
  PBLocation_latitude :: "64 word"
  PBLocation_longitude :: "64 word"
  PBLocation_altitude :: "64 word"
  PBLocation_speed :: "32 word"
  PBLocation_bearing :: "32 word"
  PBLocation_horizontalAccuracy :: "32 word"
  PBLocation_verticalAccuracy :: "32 word"
  PBLocation_speedAccuracy :: "32 word"
  PBLocation_bearingAccuracy :: "32 word"
  PBLocation_techMask :: "32 word"

definition PBLocation_default :: PBLocation where
  "PBLocation_default = \<lparr>PBLocation_flags = 0,
     PBLocation_timestamp = 0,
     PBLocation_latitude = 0,
     PBLocation_longitude = 0,
     PBLocation_altitude = 0,
     PBLocation_speed = 0,
     PBLocation_bearing = 0,
     PBLocation_horizontalAccuracy = 0,
     PBLocation_verticalAccuracy = 0,
     PBLocation_speedAccuracy = 0,
     PBLocation_bearingAccuracy = 0,
     PBLocation_techMask = 0\<rparr>"

record PBLocAPIBatchNotification =
  PBLocAPIBatchNotification_status :: "int"
  PBLocAPIBatchNotification_location :: "PBLocation list"

definition PBLocAPIBatchNotification_default :: PBLocAPIBatchNotification where
  "PBLocAPIBatchNotification_default = \<lparr>PBLocAPIBatchNotification_status = 0,
     PBLocAPIBatchNotification_location = []\<rparr>"

record PBLocAPIGeofenceBreachNotification =
  PBLocAPIGeofenceBreachNotification_timestamp :: "64 word"
  PBLocAPIGeofenceBreachNotification_breachtype :: "32 word"
  PBLocAPIGeofenceBreachNotification_location :: "PBLocation"
  PBLocAPIGeofenceBreachNotification_id :: "32 word list"

definition PBLocAPIGeofenceBreachNotification_default :: PBLocAPIGeofenceBreachNotification where
  "PBLocAPIGeofenceBreachNotification_default = \<lparr>PBLocAPIGeofenceBreachNotification_timestamp = 0,
     PBLocAPIGeofenceBreachNotification_breachtype = 0,
     PBLocAPIGeofenceBreachNotification_location = PBLocation_default,
     PBLocAPIGeofenceBreachNotification_id = []\<rparr>"

record PBGnssLocationSvUsedInPosition =
  PBGnssLocationSvUsedInPosition_gpsSvUsedIdsMask :: "64 word"
  PBGnssLocationSvUsedInPosition_gloSvUsedIdsMask :: "64 word"
  PBGnssLocationSvUsedInPosition_galSvUsedIdsMask :: "64 word"
  PBGnssLocationSvUsedInPosition_bdsSvUsedIdsMask :: "64 word"
  PBGnssLocationSvUsedInPosition_qzssSvUsedIdsMask :: "64 word"
  PBGnssLocationSvUsedInPosition_navicSvUsedIdsMask :: "64 word"

definition PBGnssLocationSvUsedInPosition_default :: PBGnssLocationSvUsedInPosition where
  "PBGnssLocationSvUsedInPosition_default = \<lparr>PBGnssLocationSvUsedInPosition_gpsSvUsedIdsMask = 0,
     PBGnssLocationSvUsedInPosition_gloSvUsedIdsMask = 0,
     PBGnssLocationSvUsedInPosition_galSvUsedIdsMask = 0,
     PBGnssLocationSvUsedInPosition_bdsSvUsedIdsMask = 0,
     PBGnssLocationSvUsedInPosition_qzssSvUsedIdsMask = 0,
     PBGnssLocationSvUsedInPosition_navicSvUsedIdsMask = 0\<rparr>"

record PBLocApiGnssLocationPositionDynamics =
  PBLocApiGnssLocationPositionDynamics_bodyFrameDataMask :: "32 word"
  PBLocApiGnssLocationPositionDynamics_longAccel :: "32 word"
  PBLocApiGnssLocationPositionDynamics_latAccel :: "32 word"
  PBLocApiGnssLocationPositionDynamics_vertAccel :: "32 word"
  PBLocApiGnssLocationPositionDynamics_longAccelUnc :: "32 word"
  PBLocApiGnssLocationPositionDynamics_latAccelUnc :: "32 word"
  PBLocApiGnssLocationPositionDynamics_vertAccelUnc :: "32 word"
  PBLocApiGnssLocationPositionDynamics_pitch :: "32 word"
  PBLocApiGnssLocationPositionDynamics_pitchUnc :: "32 word"
  PBLocApiGnssLocationPositionDynamics_pitchRate :: "32 word"
  PBLocApiGnssLocationPositionDynamics_pitchRateUnc :: "32 word"
  PBLocApiGnssLocationPositionDynamics_roll :: "32 word"
  PBLocApiGnssLocationPositionDynamics_rollUnc :: "32 word"
  PBLocApiGnssLocationPositionDynamics_rollRate :: "32 word"
  PBLocApiGnssLocationPositionDynamics_rollRateUnc :: "32 word"
  PBLocApiGnssLocationPositionDynamics_yaw :: "32 word"
  PBLocApiGnssLocationPositionDynamics_yawUnc :: "32 word"
  PBLocApiGnssLocationPositionDynamics_yawRate :: "32 word"
  PBLocApiGnssLocationPositionDynamics_yawRateUnc :: "32 word"

definition PBLocApiGnssLocationPositionDynamics_default :: PBLocApiGnssLocationPositionDynamics where
  "PBLocApiGnssLocationPositionDynamics_default = \<lparr>PBLocApiGnssLocationPositionDynamics_bodyFrameDataMask = 0,
     PBLocApiGnssLocationPositionDynamics_longAccel = 0,
     PBLocApiGnssLocationPositionDynamics_latAccel = 0,
     PBLocApiGnssLocationPositionDynamics_vertAccel = 0,
     PBLocApiGnssLocationPositionDynamics_longAccelUnc = 0,
     PBLocApiGnssLocationPositionDynamics_latAccelUnc = 0,
     PBLocApiGnssLocationPositionDynamics_vertAccelUnc = 0,
     PBLocApiGnssLocationPositionDynamics_pitch = 0,
     PBLocApiGnssLocationPositionDynamics_pitchUnc = 0,
     PBLocApiGnssLocationPositionDynamics_pitchRate = 0,
     PBLocApiGnssLocationPositionDynamics_pitchRateUnc = 0,
     PBLocApiGnssLocationPositionDynamics_roll = 0,
     PBLocApiGnssLocationPositionDynamics_rollUnc = 0,
     PBLocApiGnssLocationPositionDynamics_rollRate = 0,
     PBLocApiGnssLocationPositionDynamics_rollRateUnc = 0,
     PBLocApiGnssLocationPositionDynamics_yaw = 0,
     PBLocApiGnssLocationPositionDynamics_yawUnc = 0,
     PBLocApiGnssLocationPositionDynamics_yawRate = 0,
     PBLocApiGnssLocationPositionDynamics_yawRateUnc = 0\<rparr>"

record PBLocApiGnssSystemTimeStructType =
  PBLocApiGnssSystemTimeStructType_validityMask :: "32 word"
  PBLocApiGnssSystemTimeStructType_systemWeek :: "32 word"
  PBLocApiGnssSystemTimeStructType_systemMsec :: "32 word"
  PBLocApiGnssSystemTimeStructType_systemClkTimeBiasMs :: "32 word"
  PBLocApiGnssSystemTimeStructType_systemClkTimeBiasUncMs :: "32 word"
  PBLocApiGnssSystemTimeStructType_refFCount :: "32 word"
  PBLocApiGnssSystemTimeStructType_numClockResets :: "32 word"

definition PBLocApiGnssSystemTimeStructType_default :: PBLocApiGnssSystemTimeStructType where
  "PBLocApiGnssSystemTimeStructType_default = \<lparr>PBLocApiGnssSystemTimeStructType_validityMask = 0,
     PBLocApiGnssSystemTimeStructType_systemWeek = 0,
     PBLocApiGnssSystemTimeStructType_systemMsec = 0,
     PBLocApiGnssSystemTimeStructType_systemClkTimeBiasMs = 0,
     PBLocApiGnssSystemTimeStructType_systemClkTimeBiasUncMs = 0,
     PBLocApiGnssSystemTimeStructType_refFCount = 0,
     PBLocApiGnssSystemTimeStructType_numClockResets = 0\<rparr>"

record PBLocApiGnssGloTimeStructType =
  PBLocApiGnssGloTimeStructType_validityMask :: "32 word"
  PBLocApiGnssGloTimeStructType_gloFourYear :: "32 word"
  PBLocApiGnssGloTimeStructType_gloDays :: "32 word"
  PBLocApiGnssGloTimeStructType_gloMsec :: "32 word"
  PBLocApiGnssGloTimeStructType_gloClkTimeBias :: "32 word"
  PBLocApiGnssGloTimeStructType_gloClkTimeUncMs :: "32 word"
  PBLocApiGnssGloTimeStructType_refFCount :: "32 word"
  PBLocApiGnssGloTimeStructType_numClockResets :: "32 word"

definition PBLocApiGnssGloTimeStructType_default :: PBLocApiGnssGloTimeStructType where
  "PBLocApiGnssGloTimeStructType_default = \<lparr>PBLocApiGnssGloTimeStructType_validityMask = 0,
     PBLocApiGnssGloTimeStructType_gloFourYear = 0,
     PBLocApiGnssGloTimeStructType_gloDays = 0,
     PBLocApiGnssGloTimeStructType_gloMsec = 0,
     PBLocApiGnssGloTimeStructType_gloClkTimeBias = 0,
     PBLocApiGnssGloTimeStructType_gloClkTimeUncMs = 0,
     PBLocApiGnssGloTimeStructType_refFCount = 0,
     PBLocApiGnssGloTimeStructType_numClockResets = 0\<rparr>"

datatype PBLocApiSystemTimeStructUnion =
    SYSTIMEUNION_NOT_SET
  | gpsSystemTime PBLocApiGnssSystemTimeStructType
  | galSystemTime PBLocApiGnssSystemTimeStructType
  | bdsSystemTime PBLocApiGnssSystemTimeStructType
  | qzssSystemTime PBLocApiGnssSystemTimeStructType
  | gloSystemTime PBLocApiGnssGloTimeStructType
  | navicSystemTime PBLocApiGnssSystemTimeStructType

record PBLocApiGnssSystemTime =
  PBLocApiGnssSystemTime_gnssSystemTimeSrc :: "int"
  PBLocApiGnssSystemTime_u :: "PBLocApiSystemTimeStructUnion"

definition PBLocApiGnssSystemTime_default :: PBLocApiGnssSystemTime where
  "PBLocApiGnssSystemTime_default = \<lparr>PBLocApiGnssSystemTime_gnssSystemTimeSrc = 0,
     PBLocApiGnssSystemTime_u = SYSTIMEUNION_NOT_SET\<rparr>"

record PBGnssMeasUsageInfo =
  PBGnssMeasUsageInfo_gnssConstellation :: "int"
  PBGnssMeasUsageInfo_gnssSvId :: "32 word"
  PBGnssMeasUsageInfo_gnssSignalType :: "32 word"

definition PBGnssMeasUsageInfo_default :: PBGnssMeasUsageInfo where
  "PBGnssMeasUsageInfo_default = \<lparr>PBGnssMeasUsageInfo_gnssConstellation = 0,
     PBGnssMeasUsageInfo_gnssSvId = 0,
     PBGnssMeasUsageInfo_gnssSignalType = 0\<rparr>"

record PBLLAInfo =
  PBLLAInfo_latitude :: "64 word"
  PBLLAInfo_longitude :: "64 word"
  PBLLAInfo_altitude :: "32 word"

definition PBLLAInfo_default :: PBLLAInfo where
  "PBLLAInfo_default = \<lparr>PBLLAInfo_latitude = 0,
     PBLLAInfo_longitude = 0,
     PBLLAInfo_altitude = 0\<rparr>"

record PBGnssLocationInfoNotification =
  PBGnssLocationInfoNotification_location :: "PBLocation"
  PBGnssLocationInfoNotification_flags :: "32 word"
  PBGnssLocationInfoNotification_altitudeMeanSeaLevel :: "32 word"
  PBGnssLocationInfoNotification_pdop :: "32 word"
  PBGnssLocationInfoNotification_hdop :: "32 word"
  PBGnssLocationInfoNotification_vdop :: "32 word"
  PBGnssLocationInfoNotification_gdop :: "32 word"
  PBGnssLocationInfoNotification_tdop :: "32 word"
  PBGnssLocationInfoNotification_magneticDeviation :: "32 word"
  PBGnssLocationInfoNotification_horReliability :: "int"
  PBGnssLocationInfoNotification_verReliability :: "int"
  PBGnssLocationInfoNotification_horUncEllipseSemiMajor :: "32 word"
  PBGnssLocationInfoNotification_horUncEllipseSemiMinor :: "32 word"
  PBGnssLocationInfoNotification_horUncEllipseOrientAzimuth :: "32 word"
  PBGnssLocationInfoNotification_northStdDeviation :: "32 word"
  PBGnssLocationInfoNotification_eastStdDeviation :: "32 word"
  PBGnssLocationInfoNotification_northVelocity :: "32 word"
  PBGnssLocationInfoNotification_eastVelocity :: "32 word"
  PBGnssLocationInfoNotification_upVelocity :: "32 word"
  PBGnssLocationInfoNotification_northVelocityStdDeviation :: "32 word"
  PBGnssLocationInfoNotification_eastVelocityStdDeviation :: "32 word"
  PBGnssLocationInfoNotification_upVelocityStdDeviation :: "32 word"
  PBGnssLocationInfoNotification_numSvUsedInPosition :: "32 word"
  PBGnssLocationInfoNotification_svUsedInPosition :: "PBGnssLocationSvUsedInPosition"
  PBGnssLocationInfoNotification_navSolutionMask :: "32 word"
  PBGnssLocationInfoNotification_bodyFrameData :: "PBLocApiGnssLocationPositionDynamics"
  PBGnssLocationInfoNotification_gnssSystemTime :: "PBLocApiGnssSystemTime"
  PBGnssLocationInfoNotification_numOfMeasReceived :: "32 word"
  PBGnssLocationInfoNotification_measUsageInfo :: "PBGnssMeasUsageInfo list"
  PBGnssLocationInfoNotification_leapSeconds :: "32 word"
  PBGnssLocationInfoNotification_timeUncMs :: "32 word"
  PBGnssLocationInfoNotification_calibrationConfidence :: "32 word"
  PBGnssLocationInfoNotification_calibrationStatus :: "32 word"
  PBGnssLocationInfoNotification_locOutputEngType :: "int"
  PBGnssLocationInfoNotification_locOutputEngMask :: "32 word"
  PBGnssLocationInfoNotification_conformityIndex :: "32 word"
  PBGnssLocationInfoNotification_llaVRPBased :: "PBLLAInfo"
  PBGnssLocationInfoNotification_enuVelocityVRPBased :: "32 word list"
  PBGnssLocationInfoNotification_drSolutionStatusMask :: "32 word"
  PBGnssLocationInfoNotification_extFlags :: "32 word"
  PBGnssLocationInfoNotification_altitudeAssumed :: "bool"
  PBGnssLocationInfoNotification_sessionStatus :: "int"

definition PBGnssLocationInfoNotification_default :: PBGnssLocationInfoNotification where
  "PBGnssLocationInfoNotification_default = \<lparr>PBGnssLocationInfoNotification_location = PBLocation_default,
     PBGnssLocationInfoNotification_flags = 0,
     PBGnssLocationInfoNotification_altitudeMeanSeaLevel = 0,
     PBGnssLocationInfoNotification_pdop = 0,
     PBGnssLocationInfoNotification_hdop = 0,
     PBGnssLocationInfoNotification_vdop = 0,
     PBGnssLocationInfoNotification_gdop = 0,
     PBGnssLocationInfoNotification_tdop = 0,
     PBGnssLocationInfoNotification_magneticDeviation = 0,
     PBGnssLocationInfoNotification_horReliability = 0,
     PBGnssLocationInfoNotification_verReliability = 0,
     PBGnssLocationInfoNotification_horUncEllipseSemiMajor = 0,
     PBGnssLocationInfoNotification_horUncEllipseSemiMinor = 0,
     PBGnssLocationInfoNotification_horUncEllipseOrientAzimuth = 0,
     PBGnssLocationInfoNotification_northStdDeviation = 0,
     PBGnssLocationInfoNotification_eastStdDeviation = 0,
     PBGnssLocationInfoNotification_northVelocity = 0,
     PBGnssLocationInfoNotification_eastVelocity = 0,
     PBGnssLocationInfoNotification_upVelocity = 0,
     PBGnssLocationInfoNotification_northVelocityStdDeviation = 0,
     PBGnssLocationInfoNotification_eastVelocityStdDeviation = 0,
     PBGnssLocationInfoNotification_upVelocityStdDeviation = 0,
     PBGnssLocationInfoNotification_numSvUsedInPosition = 0,
     PBGnssLocationInfoNotification_svUsedInPosition = PBGnssLocationSvUsedInPosition_default,
     PBGnssLocationInfoNotification_navSolutionMask = 0,
     PBGnssLocationInfoNotification_bodyFrameData = PBLocApiGnssLocationPositionDynamics_default,
     PBGnssLocationInfoNotification_gnssSystemTime = PBLocApiGnssSystemTime_default,
     PBGnssLocationInfoNotification_numOfMeasReceived = 0,
     PBGnssLocationInfoNotification_measUsageInfo = [],
     PBGnssLocationInfoNotification_leapSeconds = 0,
     PBGnssLocationInfoNotification_timeUncMs = 0,
     PBGnssLocationInfoNotification_calibrationConfidence = 0,
     PBGnssLocationInfoNotification_calibrationStatus = 0,
     PBGnssLocationInfoNotification_locOutputEngType = 0,
     PBGnssLocationInfoNotification_locOutputEngMask = 0,
     PBGnssLocationInfoNotification_conformityIndex = 0,
     PBGnssLocationInfoNotification_llaVRPBased = PBLLAInfo_default,
     PBGnssLocationInfoNotification_enuVelocityVRPBased = [],
     PBGnssLocationInfoNotification_drSolutionStatusMask = 0,
     PBGnssLocationInfoNotification_extFlags = 0,
     PBGnssLocationInfoNotification_altitudeAssumed = False,
     PBGnssLocationInfoNotification_sessionStatus = 0\<rparr>"

record PBLeapSecondChangeInfo =
  PBLeapSecondChangeInfo_gpsTimestampLsChange :: "PBLocApiGnssSystemTimeStructType"
  PBLeapSecondChangeInfo_leapSecondsBeforeChange :: "32 word"
  PBLeapSecondChangeInfo_leapSecondsAfterChange :: "32 word"

definition PBLeapSecondChangeInfo_default :: PBLeapSecondChangeInfo where
  "PBLeapSecondChangeInfo_default = \<lparr>PBLeapSecondChangeInfo_gpsTimestampLsChange = PBLocApiGnssSystemTimeStructType_default,
     PBLeapSecondChangeInfo_leapSecondsBeforeChange = 0,
     PBLeapSecondChangeInfo_leapSecondsAfterChange = 0\<rparr>"

record PBLeapSecondSystemInfo =
  PBLeapSecondSystemInfo_leapSecondInfoMask :: "32 word"
  PBLeapSecondSystemInfo_leapSecondCurrent :: "32 word"
  PBLeapSecondSystemInfo_leapSecondChangeInfo :: "PBLeapSecondChangeInfo"

definition PBLeapSecondSystemInfo_default :: PBLeapSecondSystemInfo where
  "PBLeapSecondSystemInfo_default = \<lparr>PBLeapSecondSystemInfo_leapSecondInfoMask = 0,
     PBLeapSecondSystemInfo_leapSecondCurrent = 0,
     PBLeapSecondSystemInfo_leapSecondChangeInfo = PBLeapSecondChangeInfo_default\<rparr>"

record PBLocationSystemInfo =
  PBLocationSystemInfo_systemInfoMask :: "32 word"
  PBLocationSystemInfo_leapSecondSysInfo :: "PBLeapSecondSystemInfo"

definition PBLocationSystemInfo_default :: PBLocationSystemInfo where
  "PBLocationSystemInfo_default = \<lparr>PBLocationSystemInfo_systemInfoMask = 0,
     PBLocationSystemInfo_leapSecondSysInfo = PBLeapSecondSystemInfo_default\<rparr>"

record PBGnssMeasurementsData =
  PBGnssMeasurementsData_flags :: "32 word"
  PBGnssMeasurementsData_svId :: "32 word"
  PBGnssMeasurementsData_svType :: "int"
  PBGnssMeasurementsData_timeOffsetNs :: "64 word"
  PBGnssMeasurementsData_stateMask :: "32 word"
  PBGnssMeasurementsData_receivedSvTimeNs :: "64 word"
  PBGnssMeasurementsData_receivedSvTimeUncertaintyNs :: "64 word"
  PBGnssMeasurementsData_carrierToNoiseDbHz :: "64 word"
  PBGnssMeasurementsData_pseudorangeRateMps :: "64 word"
  PBGnssMeasurementsData_pseudorangeRateUncertaintyMps :: "64 word"
  PBGnssMeasurementsData_adrStateMask :: "32 word"
  PBGnssMeasurementsData_adrMeters :: "64 word"
  PBGnssMeasurementsData_adrUncertaintyMeters :: "64 word"
  PBGnssMeasurementsData_carrierFrequencyHz :: "32 word"
  PBGnssMeasurementsData_carrierCycles :: "64 word"
  PBGnssMeasurementsData_carrierPhase :: "64 word"
  PBGnssMeasurementsData_carrierPhaseUncertainty :: "64 word"
  PBGnssMeasurementsData_multipathIndicator :: "int"
  PBGnssMeasurementsData_signalToNoiseRatioDb :: "64 word"
  PBGnssMeasurementsData_agcLevelDb :: "64 word"
  PBGnssMeasurementsData_basebandCarrierToNoiseDbHz :: "64 word"
  PBGnssMeasurementsData_gnssSignalType :: "32 word"
  PBGnssMeasurementsData_fullInterSignalBiasNs :: "64 word"
  PBGnssMeasurementsData_fullInterSignalBiasUncertaintyNs :: "64 word"
  PBGnssMeasurementsData_cycleSlipCount :: "32 word"

definition PBGnssMeasurementsData_default :: PBGnssMeasurementsData where
  "PBGnssMeasurementsData_default = \<lparr>PBGnssMeasurementsData_flags = 0,
     PBGnssMeasurementsData_svId = 0,
     PBGnssMeasurementsData_svType = 0,
     PBGnssMeasurementsData_timeOffsetNs = 0,
     PBGnssMeasurementsData_stateMask = 0,
     PBGnssMeasurementsData_receivedSvTimeNs = 0,
     PBGnssMeasurementsData_receivedSvTimeUncertaintyNs = 0,
     PBGnssMeasurementsData_carrierToNoiseDbHz = 0,
     PBGnssMeasurementsData_pseudorangeRateMps = 0,
     PBGnssMeasurementsData_pseudorangeRateUncertaintyMps = 0,
     PBGnssMeasurementsData_adrStateMask = 0,
     PBGnssMeasurementsData_adrMeters = 0,
     PBGnssMeasurementsData_adrUncertaintyMeters = 0,
     PBGnssMeasurementsData_carrierFrequencyHz = 0,
     PBGnssMeasurementsData_carrierCycles = 0,
     PBGnssMeasurementsData_carrierPhase = 0,
     PBGnssMeasurementsData_carrierPhaseUncertainty = 0,
     PBGnssMeasurementsData_multipathIndicator = 0,
     PBGnssMeasurementsData_signalToNoiseRatioDb = 0,
     PBGnssMeasurementsData_agcLevelDb = 0,
     PBGnssMeasurementsData_basebandCarrierToNoiseDbHz = 0,
     PBGnssMeasurementsData_gnssSignalType = 0,
     PBGnssMeasurementsData_fullInterSignalBiasNs = 0,
     PBGnssMeasurementsData_fullInterSignalBiasUncertaintyNs = 0,
     PBGnssMeasurementsData_cycleSlipCount = 0\<rparr>"

record PBGnssMeasurementsClock =
  PBGnssMeasurementsClock_flags :: "32 word"
  PBGnssMeasurementsClock_leapSecond :: "32 word"
  PBGnssMeasurementsClock_timeNs :: "64 word"
  PBGnssMeasurementsClock_timeUncertaintyNs :: "64 word"
  PBGnssMeasurementsClock_fullBiasNs :: "64 word"
  PBGnssMeasurementsClock_biasNs :: "64 word"
  PBGnssMeasurementsClock_biasUncertaintyNs :: "64 word"
  PBGnssMeasurementsClock_driftNsps :: "64 word"
  PBGnssMeasurementsClock_driftUncertaintyNsps :: "64 word"
  PBGnssMeasurementsClock_hwClockDiscontinuityCount :: "32 word"

definition PBGnssMeasurementsClock_default :: PBGnssMeasurementsClock where
  "PBGnssMeasurementsClock_default = \<lparr>PBGnssMeasurementsClock_flags = 0,
     PBGnssMeasurementsClock_leapSecond = 0,
     PBGnssMeasurementsClock_timeNs = 0,
     PBGnssMeasurementsClock_timeUncertaintyNs = 0,
     PBGnssMeasurementsClock_fullBiasNs = 0,
     PBGnssMeasurementsClock_biasNs = 0,
     PBGnssMeasurementsClock_biasUncertaintyNs = 0,
     PBGnssMeasurementsClock_driftNsps = 0,
     PBGnssMeasurementsClock_driftUncertaintyNsps = 0,
     PBGnssMeasurementsClock_hwClockDiscontinuityCount = 0\<rparr>"

record PBGnssMeasurementsNotification =
  PBGnssMeasurementsNotification_measurements :: "PBGnssMeasurementsData list"
  PBGnssMeasurementsNotification_clock :: "PBGnssMeasurementsClock"

definition PBGnssMeasurementsNotification_default :: PBGnssMeasurementsNotification where
  "PBGnssMeasurementsNotification_default = \<lparr>PBGnssMeasurementsNotification_measurements = [],
     PBGnssMeasurementsNotification_clock = PBGnssMeasurementsClock_default\<rparr>"

record PBGnssDataNotification =
  PBGnssDataNotification_numberSignalTypes :: "32 word"
  PBGnssDataNotification_gnssDataMask :: "64 word list"
  PBGnssDataNotification_jammerInd :: "64 word list"
  PBGnssDataNotification_agc :: "64 word list"

definition PBGnssDataNotification_default :: PBGnssDataNotification where
  "PBGnssDataNotification_default = \<lparr>PBGnssDataNotification_numberSignalTypes = 0,
     PBGnssDataNotification_gnssDataMask = [],
     PBGnssDataNotification_jammerInd = [],
     PBGnssDataNotification_agc = []\<rparr>"

record PBLocAPINmeaSerializedPayload =
  PBLocAPINmeaSerializedPayload_timestamp :: "64 word"
  PBLocAPINmeaSerializedPayload_nmea :: "string"

definition PBLocAPINmeaSerializedPayload_default :: PBLocAPINmeaSerializedPayload where
  "PBLocAPINmeaSerializedPayload_default = \<lparr>PBLocAPINmeaSerializedPayload_timestamp = 0,
     PBLocAPINmeaSerializedPayload_nmea = []\<rparr>"

record PBLocApiGnssSv =
  PBLocApiGnssSv_svId :: "32 word"
  PBLocApiGnssSv_type :: "int"
  PBLocApiGnssSv_cN0Dbhz :: "32 word"
  PBLocApiGnssSv_elevation :: "32 word"
  PBLocApiGnssSv_azimuth :: "32 word"
  PBLocApiGnssSv_gnssSvOptionsMask :: "32 word"
  PBLocApiGnssSv_carrierFrequencyHz :: "32 word"
  PBLocApiGnssSv_gnssSignalTypeMask :: "32 word"
  PBLocApiGnssSv_basebandCarrierToNoiseDbHz :: "64 word"
  PBLocApiGnssSv_gloFrequency :: "32 word"

definition PBLocApiGnssSv_default :: PBLocApiGnssSv where
  "PBLocApiGnssSv_default = \<lparr>PBLocApiGnssSv_svId = 0,
     PBLocApiGnssSv_type = 0,
     PBLocApiGnssSv_cN0Dbhz = 0,
     PBLocApiGnssSv_elevation = 0,
     PBLocApiGnssSv_azimuth = 0,
     PBLocApiGnssSv_gnssSvOptionsMask = 0,
     PBLocApiGnssSv_carrierFrequencyHz = 0,
     PBLocApiGnssSv_gnssSignalTypeMask = 0,
     PBLocApiGnssSv_basebandCarrierToNoiseDbHz = 0,
     PBLocApiGnssSv_gloFrequency = 0\<rparr>"

record PBLocApiGnssSvNotification =
  PBLocApiGnssSvNotification_gnssSignalTypeMaskValid :: "bool"
  PBLocApiGnssSvNotification_gnssSvs :: "PBLocApiGnssSv list"

definition PBLocApiGnssSvNotification_default :: PBLocApiGnssSvNotification where
  "PBLocApiGnssSvNotification_default = \<lparr>PBLocApiGnssSvNotification_gnssSignalTypeMaskValid = False,
     PBLocApiGnssSvNotification_gnssSvs = []\<rparr>"

end
