(* ===== verification/PbMsgConv.thy ===== *)
theory PbMsgConv
  imports PbSteps PbConv PbHalTypes PbWireTypes
begin

text \<open>
  The structure converters of LocationApiPbMsgConv.cpp: \<^verbatim>\<open>convert...ToPB\<close> fills in a protobuf message from
  a struct of the location API, \<^verbatim>\<open>pbConvertTo...\<close> a struct from a message.  Each definition is the list
  of the statements of the C++ function, runs of plain assignments as one record update; a callee
  stands before its callers.  A null message pointer is \<^verbatim>\<open>None\<close>.  What a message that could not be
  filled in contains is not modelled: the callers drop it.
\<close>

section \<open>The system-time union\<close>

text \<open>The getters of the oneof of PBLocApiSystemTimeStructUnion give the default message when another
  member is set.\<close>

fun gpssystemtime :: "PBLocApiSystemTimeStructUnion \<Rightarrow> PBLocApiGnssSystemTimeStructType" where
  "gpssystemtime (gpsSystemTime t) = t"
| "gpssystemtime _ = PBLocApiGnssSystemTimeStructType_default"

fun galsystemtime :: "PBLocApiSystemTimeStructUnion \<Rightarrow> PBLocApiGnssSystemTimeStructType" where
  "galsystemtime (galSystemTime t) = t"
| "galsystemtime _ = PBLocApiGnssSystemTimeStructType_default"

fun bdssystemtime :: "PBLocApiSystemTimeStructUnion \<Rightarrow> PBLocApiGnssSystemTimeStructType" where
  "bdssystemtime (bdsSystemTime t) = t"
| "bdssystemtime _ = PBLocApiGnssSystemTimeStructType_default"

fun qzsssystemtime :: "PBLocApiSystemTimeStructUnion \<Rightarrow> PBLocApiGnssSystemTimeStructType" where
  "qzsssystemtime (qzssSystemTime t) = t"
| "qzsssystemtime _ = PBLocApiGnssSystemTimeStructType_default"

fun glosystemtime :: "PBLocApiSystemTimeStructUnion \<Rightarrow> PBLocApiGnssGloTimeStructType" where
  "glosystemtime (gloSystemTime t) = t"
| "glosystemtime _ = PBLocApiGnssGloTimeStructType_default"

fun navicsystemtime :: "PBLocApiSystemTimeStructUnion \<Rightarrow> PBLocApiGnssSystemTimeStructType" where
  "navicsystemtime (navicSystemTime t) = t"
| "navicsystemtime _ = PBLocApiGnssSystemTimeStructType_default"

text \<open>A member of the union can be read when a member of its type was written last.  A member that is
  filled in is overwritten as a whole, so what the union held before does not matter.\<close>

fun read_systemTime :: "SystemTimeStructUnion \<Rightarrow> (GnssSystemTimeStructType \<Rightarrow> nat \<Rightarrow> pb_error + 'a) \<Rightarrow> nat \<Rightarrow> pb_error + 'a" where
  "read_systemTime (systemTime t) f = f t"
| "read_systemTime (gloTime t) f = (\<lambda>n. Inl WrongMember)"

fun read_gloTime :: "SystemTimeStructUnion \<Rightarrow> (GnssGloTimeStructType \<Rightarrow> nat \<Rightarrow> pb_error + 'a) \<Rightarrow> nat \<Rightarrow> pb_error + 'a" where
  "read_gloTime (gloTime t) f = f t"
| "read_gloTime (systemTime t) f = (\<lambda>n. Inl WrongMember)"

fun systemTime_bytes :: "SystemTimeStructUnion \<Rightarrow> GnssSystemTimeStructType" where
  "systemTime_bytes (systemTime t) = t"
| "systemTime_bytes (gloTime t) = \<lparr>GnssSystemTimeStructType_validityMask = 0,
     GnssSystemTimeStructType_systemWeek = 0, GnssSystemTimeStructType_systemMsec = 0,
     GnssSystemTimeStructType_systemClkTimeBias = 0, GnssSystemTimeStructType_systemClkTimeUncMs = 0,
     GnssSystemTimeStructType_refFCount = 0, GnssSystemTimeStructType_numClockResets = 0\<rparr>"

fun gloTime_bytes :: "SystemTimeStructUnion \<Rightarrow> GnssGloTimeStructType" where
  "gloTime_bytes (gloTime t) = t"
| "gloTime_bytes (systemTime t) = \<lparr>GnssGloTimeStructType_gloDays = 0,
     GnssGloTimeStructType_validityMask = 0, GnssGloTimeStructType_gloMsec = 0,
     GnssGloTimeStructType_gloClkTimeBias = 0, GnssGloTimeStructType_gloClkTimeUncMs = 0,
     GnssGloTimeStructType_refFCount = 0, GnssGloTimeStructType_numClockResets = 0,
     GnssGloTimeStructType_gloFourYear = 0\<rparr>"

section \<open>The converters\<close>

definition convertGnssSvTypeConfigToPB :: "GnssSvTypeConfig \<Rightarrow> PBGnssSvTypeConfig option
    \<Rightarrow> nat \<Rightarrow> pb_error + PBGnssSvTypeConfig \<times> nat" where
  "convertGnssSvTypeConfigToPB gnssSvTypeCfg pbGnssSvTypeCfg n = (case pbGnssSvTypeCfg of None
      \<Rightarrow> Inl ReturnOne | Some pbGnssSvTypeCfg \<Rightarrow> steps
    [assign (\<lambda>pbGnssSvTypeCfg. pbGnssSvTypeCfg\<lparr>PBGnssSvTypeConfig_enabledSvTypesMask :=
        GnssSvTypeConfig_enabledSvTypesMask gnssSvTypeCfg,
       PBGnssSvTypeConfig_blacklistedSvTypesMask := GnssSvTypeConfig_blacklistedSvTypesMask
           gnssSvTypeCfg\<rparr>)]
    pbGnssSvTypeCfg n)"

definition convertGnssSvIdConfigToPB :: "GnssSvIdConfig \<Rightarrow> PBGnssSvIdConfig option
    \<Rightarrow> nat \<Rightarrow> pb_error + PBGnssSvIdConfig \<times> nat" where
  "convertGnssSvIdConfigToPB gnssSvIdCfg pbGnssSvIdCfg n = (case pbGnssSvIdCfg of None \<Rightarrow> Inl
      ReturnOne | Some pbGnssSvIdCfg \<Rightarrow> steps
    [assign (\<lambda>pbGnssSvIdCfg. pbGnssSvIdCfg\<lparr>PBGnssSvIdConfig_gloBlacklistSvMask :=
        GnssSvIdConfig_gloBlacklistSvMask gnssSvIdCfg,
       PBGnssSvIdConfig_bdsBlacklistSvMask := GnssSvIdConfig_bdsBlacklistSvMask gnssSvIdCfg,
       PBGnssSvIdConfig_qzssBlacklistSvMask := GnssSvIdConfig_qzssBlacklistSvMask gnssSvIdCfg,
       PBGnssSvIdConfig_galBlacklistSvMask := GnssSvIdConfig_galBlacklistSvMask gnssSvIdCfg,
       PBGnssSvIdConfig_sbasBlacklistSvMask := GnssSvIdConfig_sbasBlacklistSvMask gnssSvIdCfg,
       PBGnssSvIdConfig_navicBlacklistSvMask := GnssSvIdConfig_navicBlacklistSvMask gnssSvIdCfg\<rparr>)]
    pbGnssSvIdCfg n)"

definition convertGnssAidingDataToPB :: "GnssAidingData \<Rightarrow> PBAidingData option \<Rightarrow>
    nat \<Rightarrow> pb_error + PBAidingData \<times> nat" where
  "convertGnssAidingDataToPB gnssAidData pbGnssAidData n = (case pbGnssAidData of None \<Rightarrow> Inl
      ReturnOne | Some pbGnssAidData \<Rightarrow> steps
    [assign (\<lambda>pbGnssAidData. pbGnssAidData\<lparr>PBAidingData_deleteAll :=
        GnssAidingData_deleteAll gnssAidData,
       PBAidingData_gnssAidingDataSvMask := getPBMaskForGnssAidingDataSvMask (GnssAidingDataSv_svMask
           (GnssAidingData_sv gnssAidData)),
       PBAidingData_dreAidingDataMask := getPBMaskForDrEngineAidingDataMask
           (GnssAidingData_dreAidingDataMask gnssAidData),
       PBAidingData_posEngineMask := getPBMaskForPositioningEngineMask (GnssAidingData_posEngineMask
           gnssAidData)\<rparr>)]
    pbGnssAidData n)"

definition convertLeverArmParamsToPB :: "LeverArmParams \<Rightarrow> PBLIALeverArmParams option
    \<Rightarrow> nat \<Rightarrow> pb_error + PBLIALeverArmParams \<times> nat" where
  "convertLeverArmParamsToPB leverArmParams pbLeverArmParams n = (case pbLeverArmParams of None
      \<Rightarrow> Inl ReturnOne | Some pbLeverArmParams \<Rightarrow> steps
    [assign (\<lambda>pbLeverArmParams. pbLeverArmParams\<lparr>PBLIALeverArmParams_forwardOffsetMeters
        := LeverArmParams_forwardOffsetMeters leverArmParams,
       PBLIALeverArmParams_sidewaysOffsetMeters := LeverArmParams_sidewaysOffsetMeters leverArmParams,
       PBLIALeverArmParams_upOffsetMeters := LeverArmParams_upOffsetMeters leverArmParams\<rparr>)]
    pbLeverArmParams n)"

definition convertLeverArmConfigInfoToPB :: "LeverArmConfigInfo \<Rightarrow> PBLIALeverArmConfigInfo
    option \<Rightarrow> nat \<Rightarrow> pb_error + PBLIALeverArmConfigInfo \<times> nat" where
  "convertLeverArmConfigInfoToPB leverArmCfgInfo pbLeverArmCfgInfo n = (case pbLeverArmCfgInfo of None
      \<Rightarrow> Inl ReturnOne | Some pbLeverArmCfgInfo \<Rightarrow> steps
    [assign (\<lambda>pbLeverArmCfgInfo.
        pbLeverArmCfgInfo\<lparr>PBLIALeverArmConfigInfo_leverArmValidMask :=
        getPBMaskForLeverArmTypeMask (LeverArmConfigInfo_leverArmValidMask leverArmCfgInfo)\<rparr>),
     sub_message PBLIALeverArmConfigInfo_gnssToVRP (\<lambda>v p.
         p\<lparr>PBLIALeverArmConfigInfo_gnssToVRP := v\<rparr>) (\<lambda>gnssToVRP.
         convertLeverArmParamsToPB (LeverArmConfigInfo_gnssToVRP leverArmCfgInfo) (Some gnssToVRP)),
     sub_message PBLIALeverArmConfigInfo_drImuToGnss (\<lambda>v p.
         p\<lparr>PBLIALeverArmConfigInfo_drImuToGnss := v\<rparr>) (\<lambda>drImuToGnss.
         convertLeverArmParamsToPB (LeverArmConfigInfo_drImuToGnss leverArmCfgInfo) (Some drImuToGnss)),
     sub_message PBLIALeverArmConfigInfo_veppImuToGnss (\<lambda>v p.
         p\<lparr>PBLIALeverArmConfigInfo_veppImuToGnss := v\<rparr>) (\<lambda>veppImuToGnss.
         convertLeverArmParamsToPB (LeverArmConfigInfo_veppImuToGnss leverArmCfgInfo) (Some
         veppImuToGnss))]
    pbLeverArmCfgInfo n)"

definition convertBodyToSensorMountParamsToPB :: "BodyToSensorMountParams \<Rightarrow>
    PBLIABodyToSensorMountParams option \<Rightarrow> nat \<Rightarrow> pb_error +
    PBLIABodyToSensorMountParams \<times> nat" where
  "convertBodyToSensorMountParamsToPB bodyToSensorMntParams pbBodyToSensorMntParams n = (case
      pbBodyToSensorMntParams of None \<Rightarrow> Inl ReturnOne | Some pbBodyToSensorMntParams
      \<Rightarrow> steps
    [assign (\<lambda>pbBodyToSensorMntParams.
        pbBodyToSensorMntParams\<lparr>PBLIABodyToSensorMountParams_rollOffset :=
        BodyToSensorMountParams_rollOffset bodyToSensorMntParams,
       PBLIABodyToSensorMountParams_yawOffset := BodyToSensorMountParams_yawOffset bodyToSensorMntParams,
       PBLIABodyToSensorMountParams_pitchOffset := BodyToSensorMountParams_pitchOffset
           bodyToSensorMntParams,
       PBLIABodyToSensorMountParams_offsetUnc := BodyToSensorMountParams_offsetUnc
           bodyToSensorMntParams\<rparr>)]
    pbBodyToSensorMntParams n)"

definition convertDeadReckoningEngineConfigToPB :: "DeadReckoningEngineConfig \<Rightarrow>
    PBDeadReckoningEngineConfig option \<Rightarrow> nat \<Rightarrow> pb_error +
    PBDeadReckoningEngineConfig \<times> nat" where
  "convertDeadReckoningEngineConfigToPB drEngConfig pbDrEngConfig n = (case pbDrEngConfig of None
      \<Rightarrow> Inl ReturnOne | Some pbDrEngConfig \<Rightarrow> steps
    [assign (\<lambda>pbDrEngConfig. pbDrEngConfig\<lparr>PBDeadReckoningEngineConfig_validMask :=
        getPBMaskForDeadReckoningEngineConfigValidMask (DeadReckoningEngineConfig_validMask
        drEngConfig)\<rparr>),
     sub_message PBDeadReckoningEngineConfig_bodyToSensorMountParams (\<lambda>v p.
         p\<lparr>PBDeadReckoningEngineConfig_bodyToSensorMountParams := v\<rparr>)
         (\<lambda>b2SMountParams. convertBodyToSensorMountParamsToPB
         (DeadReckoningEngineConfig_bodyToSensorMountParams drEngConfig) (Some b2SMountParams)),
     assign (\<lambda>pbDrEngConfig.
         pbDrEngConfig\<lparr>PBDeadReckoningEngineConfig_vehicleSpeedScaleFactor :=
         DeadReckoningEngineConfig_vehicleSpeedScaleFactor drEngConfig,
       PBDeadReckoningEngineConfig_vehicleSpeedScaleFactorUnc :=
           DeadReckoningEngineConfig_vehicleSpeedScaleFactorUnc drEngConfig,
       PBDeadReckoningEngineConfig_gyroScaleFactor := DeadReckoningEngineConfig_gyroScaleFactor
           drEngConfig,
       PBDeadReckoningEngineConfig_gyroScaleFactorUnc := DeadReckoningEngineConfig_gyroScaleFactorUnc
           drEngConfig\<rparr>)]
    pbDrEngConfig n)"

definition convertLocationOptionsToPB :: "LocationOptions \<Rightarrow> PBLocationOptions option
    \<Rightarrow> nat \<Rightarrow> pb_error + PBLocationOptions \<times> nat" where
  "convertLocationOptionsToPB locOpt pbLocOpt n = (case pbLocOpt of None \<Rightarrow> Inl ReturnOne |
      Some pbLocOpt \<Rightarrow> steps
    [assign (\<lambda>pbLocOpt. pbLocOpt\<lparr>PBLocationOptions_minInterval :=
        LocationOptions_minInterval locOpt,
       PBLocationOptions_minDistance := LocationOptions_minDistance locOpt,
       PBLocationOptions_mode := getPBEnumForGnssSuplMode (LocationOptions_mode locOpt),
       PBLocationOptions_locReqEngTypeMask := getPBMaskForLocReqEngineTypeMask
           (LocationOptions_locReqEngTypeMask locOpt)\<rparr>)]
    pbLocOpt n)"

definition convertGeofenceInfoToPB :: "GeofenceInfo \<Rightarrow> PBGeofenceInfo option \<Rightarrow>
    nat \<Rightarrow> pb_error + PBGeofenceInfo \<times> nat" where
  "convertGeofenceInfoToPB gfInfo pbGfInfo n = (case pbGfInfo of None \<Rightarrow> Inl ReturnOne | Some
      pbGfInfo \<Rightarrow> steps
    [assign (\<lambda>pbGfInfo. pbGfInfo\<lparr>PBGeofenceInfo_latitude := GeofenceInfo_latitude gfInfo,
       PBGeofenceInfo_longitude := GeofenceInfo_longitude gfInfo,
       PBGeofenceInfo_radius := GeofenceInfo_radius gfInfo\<rparr>)]
    pbGfInfo n)"

definition convertGeofenceOptionToPB :: "GeofenceOption \<Rightarrow> PBGeofenceOption option
    \<Rightarrow> nat \<Rightarrow> pb_error + PBGeofenceOption \<times> nat" where
  "convertGeofenceOptionToPB gfOpt pbGfOpt n = (case pbGfOpt of None \<Rightarrow> Inl ReturnOne | Some
      pbGfOpt \<Rightarrow> steps
    [assign (\<lambda>pbGfOpt. pbGfOpt\<lparr>PBGeofenceOption_breachTypeMask :=
        getPBMaskForGeofenceBreachTypeMask (ucast (GeofenceOption_breachTypeMask gfOpt)),
       PBGeofenceOption_responsiveness := GeofenceOption_responsiveness gfOpt,
       PBGeofenceOption_dwellTime := GeofenceOption_dwellTime gfOpt\<rparr>)]
    pbGfOpt n)"

definition convertGfAddedReqPayloadToPB :: "GeofencesAddedReqPayload \<Rightarrow>
    PBGeofencesAddedReqPayload option \<Rightarrow> nat \<Rightarrow> pb_error +
    PBGeofencesAddedReqPayload \<times> nat" where
  "convertGfAddedReqPayloadToPB gfAddReqPayload pbGfAddReqPayload n = (case pbGfAddReqPayload of None
      \<Rightarrow> Inl ReturnOne | Some pbGfAddReqPayload \<Rightarrow> steps
    [for_loop (unat (GeofencesAddedReqPayload_count gfAddReqPayload)) (\<lambda>i.
       add_message PBGeofencePayload_default PBGeofencesAddedReqPayload_gfPayload (\<lambda>v p.
           p\<lparr>PBGeofencesAddedReqPayload_gfPayload := v\<rparr>) (with_elem
           (GeofencesAddedReqPayload_gfPayload gfAddReqPayload) i (\<lambda>e1.
       steps [assign (\<lambda>gfPload. gfPload\<lparr>PBGeofencePayload_gfClientId :=
           GeofencePayload_gfClientId e1\<rparr>),
       sub_message PBGeofencePayload_gfOption (\<lambda>v p. p\<lparr>PBGeofencePayload_gfOption :=
           v\<rparr>) (\<lambda>pbGfOpt. convertGeofenceOptionToPB (GeofencePayload_gfOption e1) (Some
           pbGfOpt)),
       sub_message PBGeofencePayload_gfInfo (\<lambda>v p. p\<lparr>PBGeofencePayload_gfInfo :=
           v\<rparr>) (\<lambda>pbGfInfo. convertGeofenceInfoToPB (GeofencePayload_gfInfo e1) (Some
           pbGfInfo))])))]
    pbGfAddReqPayload n)"

definition convertGfReqClientIdPayloadToPB :: "GeofencesReqClientIdPayload \<Rightarrow>
    PBGeofencesReqClientIdPayload option \<Rightarrow> nat \<Rightarrow> pb_error +
    PBGeofencesReqClientIdPayload \<times> nat" where
  "convertGfReqClientIdPayloadToPB gfReqClntIdPayload pbGfReqClntIdPayload n = (case
      pbGfReqClntIdPayload of None \<Rightarrow> Inl ReturnOne | Some pbGfReqClntIdPayload \<Rightarrow>
      steps
    [for_loop (unat ((GeofencesReqClientIdPayload_count gfReqClntIdPayload))) (\<lambda>i.
       with_elem (GeofencesReqClientIdPayload_gfIds gfReqClntIdPayload) i (\<lambda>e1.
       assign (\<lambda>pbGfReqClntIdPayload.
           pbGfReqClntIdPayload\<lparr>PBGeofencesReqClientIdPayload_gfIds :=
           PBGeofencesReqClientIdPayload_gfIds pbGfReqClntIdPayload @ [e1]\<rparr>)))]
    pbGfReqClntIdPayload n)"

definition convertCollectiveResPayloadToPB :: "CollectiveResPayload \<Rightarrow> PBCollectiveResPayload
    option \<Rightarrow> nat \<Rightarrow> pb_error + PBCollectiveResPayload \<times> nat" where
  "convertCollectiveResPayloadToPB collctResPload pbCollctResPload n = (case pbCollctResPload of None
      \<Rightarrow> Inl ReturnOne | Some pbCollctResPload \<Rightarrow> steps
    [for_loop (unat (CollectiveResPayload_count collctResPload)) (\<lambda>i.
       add_message PBGeofenceResponse_default PBCollectiveResPayload_resp (\<lambda>v p.
           p\<lparr>PBCollectiveResPayload_resp := v\<rparr>) (with_elem (CollectiveResPayload_resp
           collctResPload) i (\<lambda>e1.
       assign (\<lambda>gfResp. gfResp\<lparr>PBGeofenceResponse_clientId := GeofenceResponse_clientId
           e1,
       PBGeofenceResponse_error := getPBEnumForLocationError (GeofenceResponse_error e1)\<rparr>))))]
    pbCollctResPload n)"

definition convertGnssConfigRobustLocationToPB :: "GnssConfigRobustLocation \<Rightarrow>
    PBGnssConfigRobustLocation option \<Rightarrow> nat \<Rightarrow> pb_error +
    PBGnssConfigRobustLocation \<times> nat" where
  "convertGnssConfigRobustLocationToPB gnssCfgRbstLoc pbGnssCfgRbstLoc n = (case pbGnssCfgRbstLoc of
      None \<Rightarrow> Inl ReturnOne | Some pbGnssCfgRbstLoc \<Rightarrow> steps
    [assign (\<lambda>pbGnssCfgRbstLoc. pbGnssCfgRbstLoc\<lparr>PBGnssConfigRobustLocation_validMask :=
        getPBMaskForGnssCfgRobustLocValidMask (GnssConfigRobustLocation_validMask gnssCfgRbstLoc),
       PBGnssConfigRobustLocation_enabled := GnssConfigRobustLocation_enabled gnssCfgRbstLoc,
       PBGnssConfigRobustLocation_enabledForE911 := GnssConfigRobustLocation_enabledForE911
           gnssCfgRbstLoc\<rparr>),
     sub_message PBGnssConfigRobustLocation_version (\<lambda>v p.
         p\<lparr>PBGnssConfigRobustLocation_version := v\<rparr>) (assign (\<lambda>cfRbstLocVer.
         cfRbstLocVer\<lparr>PBGnssConfigRobustLocationVersion_major := ucast
         (GnssConfigRobustLocationVersion_major (GnssConfigRobustLocation_version gnssCfgRbstLoc)),
       PBGnssConfigRobustLocationVersion_minor := ucast (GnssConfigRobustLocationVersion_minor
           (GnssConfigRobustLocation_version gnssCfgRbstLoc))\<rparr>))]
    pbGnssCfgRbstLoc n)"

definition convertLocationToPB :: "Location \<Rightarrow> PBLocation option \<Rightarrow> nat
    \<Rightarrow> pb_error + PBLocation \<times> nat" where
  "convertLocationToPB location pbLocation n = (case pbLocation of None \<Rightarrow> Inl ReturnOne |
      Some pbLocation \<Rightarrow> steps
    [assign (\<lambda>pbLocation. pbLocation\<lparr>PBLocation_flags := getPBMaskForLocationFlagsMask
        (ucast (Location_flags location)),
       PBLocation_timestamp := Location_timestamp location,
       PBLocation_latitude := Location_latitude location,
       PBLocation_longitude := Location_longitude location,
       PBLocation_altitude := Location_altitude location,
       PBLocation_speed := Location_speed location,
       PBLocation_bearing := Location_bearing location,
       PBLocation_horizontalAccuracy := Location_accuracy location,
       PBLocation_verticalAccuracy := Location_verticalAccuracy location,
       PBLocation_speedAccuracy := Location_speedAccuracy location,
       PBLocation_bearingAccuracy := Location_bearingAccuracy location,
       PBLocation_techMask := getPBMaskForLocationTechnologyMask (ucast (Location_techMask
           location))\<rparr>)]
    pbLocation n)"

definition convertLocAPIBatchingNotifMsgToPB :: "LocAPIBatchNotification \<Rightarrow>
    PBLocAPIBatchNotification option \<Rightarrow> nat \<Rightarrow> pb_error +
    PBLocAPIBatchNotification \<times> nat" where
  "convertLocAPIBatchingNotifMsgToPB locApiBatchNotifMsg pbLocApiBatchNotifMsg n = (case
      pbLocApiBatchNotifMsg of None \<Rightarrow> Inl ReturnOne | Some pbLocApiBatchNotifMsg
      \<Rightarrow> steps
    [assign (\<lambda>pbLocApiBatchNotifMsg.
        pbLocApiBatchNotifMsg\<lparr>PBLocAPIBatchNotification_status := getPBEnumForBatchingStatus
        (LocAPIBatchNotification_status locApiBatchNotifMsg)\<rparr>),
     for_loop (unat ((LocAPIBatchNotification_count locApiBatchNotifMsg))) (\<lambda>i.
       with_elem (LocAPIBatchNotification_location locApiBatchNotifMsg) i (\<lambda>e1.
       add_message PBLocation_default PBLocAPIBatchNotification_location (\<lambda>v p.
           p\<lparr>PBLocAPIBatchNotification_location := v\<rparr>) (\<lambda>location.
           convertLocationToPB e1 (Some location))))]
    pbLocApiBatchNotifMsg n)"

definition convertLocAPIGfBreachNotifToPB :: "LocAPIGeofenceBreachNotification \<Rightarrow>
    PBLocAPIGeofenceBreachNotification option \<Rightarrow> nat \<Rightarrow> pb_error +
    PBLocAPIGeofenceBreachNotification \<times> nat" where
  "convertLocAPIGfBreachNotifToPB locApiGfBreachNotif pbLocApiGfBreachNotif n = (case
      pbLocApiGfBreachNotif of None \<Rightarrow> Inl ReturnOne | Some pbLocApiGfBreachNotif
      \<Rightarrow> steps
    [assign (\<lambda>pbLocApiGfBreachNotif.
        pbLocApiGfBreachNotif\<lparr>PBLocAPIGeofenceBreachNotification_timestamp :=
        LocAPIGeofenceBreachNotification_timestamp locApiGfBreachNotif,
       PBLocAPIGeofenceBreachNotification_breachtype := ucast (LocAPIGeofenceBreachNotification_type
           locApiGfBreachNotif)\<rparr>),
     sub_message PBLocAPIGeofenceBreachNotification_location (\<lambda>v p.
         p\<lparr>PBLocAPIGeofenceBreachNotification_location := v\<rparr>) (\<lambda>location.
         convertLocationToPB (LocAPIGeofenceBreachNotification_location locApiGfBreachNotif) (Some
         location)),
     for_loop (unat (LocAPIGeofenceBreachNotification_count locApiGfBreachNotif)) (\<lambda>i.
       with_elem (LocAPIGeofenceBreachNotification_id locApiGfBreachNotif) i (\<lambda>e1.
       assign (\<lambda>pbLocApiGfBreachNotif.
           pbLocApiGfBreachNotif\<lparr>PBLocAPIGeofenceBreachNotification_id :=
           PBLocAPIGeofenceBreachNotification_id pbLocApiGfBreachNotif @ [e1]\<rparr>)))]
    pbLocApiGfBreachNotif n)"

definition convertGnssLocSvUsedInPosToPB :: "GnssLocationSvUsedInPosition \<Rightarrow>
    PBGnssLocationSvUsedInPosition option \<Rightarrow> nat \<Rightarrow> pb_error +
    PBGnssLocationSvUsedInPosition \<times> nat" where
  "convertGnssLocSvUsedInPosToPB gnssLocSvUsedInPos pbGnssLocSvUsedInPos n = (case pbGnssLocSvUsedInPos
      of None \<Rightarrow> Inl ReturnOne | Some pbGnssLocSvUsedInPos \<Rightarrow> steps
    [assign (\<lambda>pbGnssLocSvUsedInPos.
        pbGnssLocSvUsedInPos\<lparr>PBGnssLocationSvUsedInPosition_gpsSvUsedIdsMask :=
        GnssLocationSvUsedInPosition_gpsSvUsedIdsMask gnssLocSvUsedInPos,
       PBGnssLocationSvUsedInPosition_gloSvUsedIdsMask := GnssLocationSvUsedInPosition_gloSvUsedIdsMask
           gnssLocSvUsedInPos,
       PBGnssLocationSvUsedInPosition_galSvUsedIdsMask := GnssLocationSvUsedInPosition_galSvUsedIdsMask
           gnssLocSvUsedInPos,
       PBGnssLocationSvUsedInPosition_bdsSvUsedIdsMask := GnssLocationSvUsedInPosition_bdsSvUsedIdsMask
           gnssLocSvUsedInPos,
       PBGnssLocationSvUsedInPosition_qzssSvUsedIdsMask :=
           GnssLocationSvUsedInPosition_qzssSvUsedIdsMask gnssLocSvUsedInPos,
       PBGnssLocationSvUsedInPosition_navicSvUsedIdsMask :=
           GnssLocationSvUsedInPosition_navicSvUsedIdsMask gnssLocSvUsedInPos\<rparr>)]
    pbGnssLocSvUsedInPos n)"

definition convertGnssSystemTimeStructTypeToPB :: "GnssSystemTimeStructType \<Rightarrow>
    PBLocApiGnssSystemTimeStructType option \<Rightarrow> nat \<Rightarrow> pb_error +
    PBLocApiGnssSystemTimeStructType \<times> nat" where
  "convertGnssSystemTimeStructTypeToPB gnssSysTimeStructType pbGnssSysTimeStructType n = (case
      pbGnssSysTimeStructType of None \<Rightarrow> Inl ReturnOne | Some pbGnssSysTimeStructType
      \<Rightarrow> steps
    [assign (\<lambda>pbGnssSysTimeStructType.
        pbGnssSysTimeStructType\<lparr>PBLocApiGnssSystemTimeStructType_validityMask :=
        getPBMaskForGnssSystemTimeStructTypeFlags (GnssSystemTimeStructType_validityMask
        gnssSysTimeStructType),
       PBLocApiGnssSystemTimeStructType_systemWeek := ucast (GnssSystemTimeStructType_systemWeek
           gnssSysTimeStructType),
       PBLocApiGnssSystemTimeStructType_systemMsec := GnssSystemTimeStructType_systemMsec
           gnssSysTimeStructType,
       PBLocApiGnssSystemTimeStructType_systemClkTimeBiasMs :=
           GnssSystemTimeStructType_systemClkTimeBias gnssSysTimeStructType,
       PBLocApiGnssSystemTimeStructType_systemClkTimeBiasUncMs :=
           GnssSystemTimeStructType_systemClkTimeUncMs gnssSysTimeStructType,
       PBLocApiGnssSystemTimeStructType_refFCount := GnssSystemTimeStructType_refFCount
           gnssSysTimeStructType,
       PBLocApiGnssSystemTimeStructType_numClockResets := GnssSystemTimeStructType_numClockResets
           gnssSysTimeStructType\<rparr>)]
    pbGnssSysTimeStructType n)"

definition convertGnssGloTimeStructTypeToPB :: "GnssGloTimeStructType \<Rightarrow>
    PBLocApiGnssGloTimeStructType option \<Rightarrow> nat \<Rightarrow> pb_error +
    PBLocApiGnssGloTimeStructType \<times> nat" where
  "convertGnssGloTimeStructTypeToPB gnssGloTime pbgnssGloTime n = (case pbgnssGloTime of None
      \<Rightarrow> Inl ReturnOne | Some pbgnssGloTime \<Rightarrow> steps
    [assign (\<lambda>pbgnssGloTime. pbgnssGloTime\<lparr>PBLocApiGnssGloTimeStructType_validityMask :=
        getPBMaskForGnssGloTimeStructTypeFlags (GnssGloTimeStructType_validityMask gnssGloTime),
       PBLocApiGnssGloTimeStructType_gloFourYear := ucast (GnssGloTimeStructType_gloFourYear
           gnssGloTime),
       PBLocApiGnssGloTimeStructType_gloDays := ucast (GnssGloTimeStructType_gloDays gnssGloTime),
       PBLocApiGnssGloTimeStructType_gloMsec := GnssGloTimeStructType_gloMsec gnssGloTime,
       PBLocApiGnssGloTimeStructType_gloClkTimeBias := GnssGloTimeStructType_gloClkTimeBias gnssGloTime,
       PBLocApiGnssGloTimeStructType_gloClkTimeUncMs := GnssGloTimeStructType_gloClkTimeUncMs
           gnssGloTime,
       PBLocApiGnssGloTimeStructType_refFCount := GnssGloTimeStructType_refFCount gnssGloTime,
       PBLocApiGnssGloTimeStructType_numClockResets := GnssGloTimeStructType_numClockResets
           gnssGloTime\<rparr>)]
    pbgnssGloTime n)"

definition convertSystemTimeStructUnionToPB ::
    "int \<Rightarrow> SystemTimeStructUnion \<Rightarrow> PBLocApiSystemTimeStructUnion option
        \<Rightarrow> nat
     \<Rightarrow> pb_error + PBLocApiSystemTimeStructUnion \<times> nat" where
  "convertSystemTimeStructUnionToPB gnssLocSvSysEnumType sysTimeStructUnion pbSysTimeStructUnion n =
    (case pbSysTimeStructUnion of None \<Rightarrow> Inl ReturnOne | Some pb \<Rightarrow>
     if gnssLocSvSysEnumType = GNSS_LOC_SV_SYSTEM_GPS then
       sub_message gpssystemtime (\<lambda>v _. gpsSystemTime v) (\<lambda>gpsSysTime. read_systemTime
           sysTimeStructUnion
         (\<lambda>t. convertGnssSystemTimeStructTypeToPB t (Some gpsSysTime))) pb n
     else if gnssLocSvSysEnumType = GNSS_LOC_SV_SYSTEM_GALILEO then
       sub_message galsystemtime (\<lambda>v _. galSystemTime v) (\<lambda>galSysTime. read_systemTime
           sysTimeStructUnion
         (\<lambda>t. convertGnssSystemTimeStructTypeToPB t (Some galSysTime))) pb n
     else if gnssLocSvSysEnumType = GNSS_LOC_SV_SYSTEM_BDS then
       sub_message bdssystemtime (\<lambda>v _. bdsSystemTime v) (\<lambda>bdsSysTime. read_systemTime
           sysTimeStructUnion
         (\<lambda>t. convertGnssSystemTimeStructTypeToPB t (Some bdsSysTime))) pb n
     else if gnssLocSvSysEnumType = GNSS_LOC_SV_SYSTEM_QZSS then
       sub_message qzsssystemtime (\<lambda>v _. qzssSystemTime v) (\<lambda>qzssSysTime.
           read_systemTime sysTimeStructUnion
         (\<lambda>t. convertGnssSystemTimeStructTypeToPB t (Some qzssSysTime))) pb n
     else if gnssLocSvSysEnumType = GNSS_LOC_SV_SYSTEM_GLONASS then
       sub_message glosystemtime (\<lambda>v _. gloSystemTime v) (\<lambda>gloSysTime. read_gloTime
           sysTimeStructUnion
         (\<lambda>t. convertGnssGloTimeStructTypeToPB t (Some gloSysTime))) pb n
     else if gnssLocSvSysEnumType = GNSS_LOC_SV_SYSTEM_NAVIC then
       sub_message navicsystemtime (\<lambda>v _. navicSystemTime v) (\<lambda>navicSysTime.
           read_systemTime sysTimeStructUnion
         (\<lambda>t. convertGnssSystemTimeStructTypeToPB t (Some navicSysTime))) pb n
     else Inr (pb, n))"


definition convertGnssSystemTimeToPB :: "GnssSystemTime \<Rightarrow> PBLocApiGnssSystemTime option
    \<Rightarrow> nat \<Rightarrow> pb_error + PBLocApiGnssSystemTime \<times> nat" where
  "convertGnssSystemTimeToPB gnssSysTime pbGnssSysTime n = (case pbGnssSysTime of None \<Rightarrow> Inl
      ReturnOne | Some pbGnssSysTime \<Rightarrow> steps
    [assign (\<lambda>pbGnssSysTime. pbGnssSysTime\<lparr>PBLocApiGnssSystemTime_gnssSystemTimeSrc :=
        getPBEnumForGnssLocSvSystem (GnssSystemTime_gnssSystemTimeSrc gnssSysTime)\<rparr>),
     sub_message PBLocApiGnssSystemTime_u (\<lambda>v p. p\<lparr>PBLocApiGnssSystemTime_u := v\<rparr>)
         (\<lambda>sysTimeStructUnion. convertSystemTimeStructUnionToPB
         (GnssSystemTime_gnssSystemTimeSrc gnssSysTime) (GnssSystemTime_u gnssSysTime) (Some
         sysTimeStructUnion))]
    pbGnssSysTime n)"

definition convertGnssLocationPositionDynamicsToPB :: "GnssLocationPositionDynamics \<Rightarrow>
    GnssLocationPositionDynamicsExt \<Rightarrow> PBLocApiGnssLocationPositionDynamics option
    \<Rightarrow> nat \<Rightarrow> pb_error + PBLocApiGnssLocationPositionDynamics \<times> nat" where
  "convertGnssLocationPositionDynamicsToPB gnssLocPosDyn gnssLocPosDynExt pbGnssLocPosDyn n = (case
      pbGnssLocPosDyn of None \<Rightarrow> Inl ReturnOne | Some pbGnssLocPosDyn \<Rightarrow> steps
    [assign (\<lambda>pbGnssLocPosDyn.
        pbGnssLocPosDyn\<lparr>PBLocApiGnssLocationPositionDynamics_bodyFrameDataMask :=
        getPBMaskForGnssLocationPosDataMask (GnssLocationPositionDynamics_bodyFrameDataMask
        gnssLocPosDyn) (GnssLocationPositionDynamicsExt_bodyFrameDataMask gnssLocPosDynExt),
       PBLocApiGnssLocationPositionDynamics_longAccel := GnssLocationPositionDynamics_longAccel
           gnssLocPosDyn,
       PBLocApiGnssLocationPositionDynamics_latAccel := GnssLocationPositionDynamics_latAccel
           gnssLocPosDyn,
       PBLocApiGnssLocationPositionDynamics_vertAccel := GnssLocationPositionDynamics_vertAccel
           gnssLocPosDyn,
       PBLocApiGnssLocationPositionDynamics_longAccelUnc := GnssLocationPositionDynamics_longAccelUnc
           gnssLocPosDyn,
       PBLocApiGnssLocationPositionDynamics_latAccelUnc := GnssLocationPositionDynamics_latAccelUnc
           gnssLocPosDyn,
       PBLocApiGnssLocationPositionDynamics_vertAccelUnc := GnssLocationPositionDynamics_vertAccelUnc
           gnssLocPosDyn,
       PBLocApiGnssLocationPositionDynamics_pitch := GnssLocationPositionDynamics_pitch gnssLocPosDyn,
       PBLocApiGnssLocationPositionDynamics_pitchUnc := GnssLocationPositionDynamics_pitchUnc
           gnssLocPosDyn,
       PBLocApiGnssLocationPositionDynamics_pitchRate := GnssLocationPositionDynamicsExt_pitchRate
           gnssLocPosDynExt,
       PBLocApiGnssLocationPositionDynamics_pitchRateUnc := GnssLocationPositionDynamicsExt_pitchRateUnc
           gnssLocPosDynExt,
       PBLocApiGnssLocationPositionDynamics_roll := GnssLocationPositionDynamicsExt_roll
           gnssLocPosDynExt,
       PBLocApiGnssLocationPositionDynamics_rollUnc := GnssLocationPositionDynamicsExt_rollUnc
           gnssLocPosDynExt,
       PBLocApiGnssLocationPositionDynamics_rollRate := GnssLocationPositionDynamicsExt_rollRate
           gnssLocPosDynExt,
       PBLocApiGnssLocationPositionDynamics_rollRateUnc := GnssLocationPositionDynamicsExt_rollRateUnc
           gnssLocPosDynExt,
       PBLocApiGnssLocationPositionDynamics_yaw := GnssLocationPositionDynamicsExt_yaw gnssLocPosDynExt,
       PBLocApiGnssLocationPositionDynamics_yawUnc := GnssLocationPositionDynamicsExt_yawUnc
           gnssLocPosDynExt,
       PBLocApiGnssLocationPositionDynamics_yawRate := GnssLocationPositionDynamics_yawRate
           gnssLocPosDyn,
       PBLocApiGnssLocationPositionDynamics_yawRateUnc := GnssLocationPositionDynamics_yawRateUnc
           gnssLocPosDyn\<rparr>)]
    pbGnssLocPosDyn n)"

definition convertLLAInfoToPB :: "LLAInfo \<Rightarrow> PBLLAInfo option \<Rightarrow> nat \<Rightarrow>
    pb_error + PBLLAInfo \<times> nat" where
  "convertLLAInfoToPB llaInfo pbLlaInfo n = (case pbLlaInfo of None \<Rightarrow> Inl ReturnOne | Some
      pbLlaInfo \<Rightarrow> steps
    [assign (\<lambda>pbLlaInfo. pbLlaInfo\<lparr>PBLLAInfo_latitude := LLAInfo_latitude llaInfo,
       PBLLAInfo_longitude := LLAInfo_longitude llaInfo,
       PBLLAInfo_altitude := LLAInfo_altitude llaInfo\<rparr>)]
    pbLlaInfo n)"

definition convertGnssMeasUsageInfoToPB :: "GnssMeasUsageInfo \<Rightarrow> PBGnssMeasUsageInfo option
    \<Rightarrow> nat \<Rightarrow> pb_error + PBGnssMeasUsageInfo \<times> nat" where
  "convertGnssMeasUsageInfoToPB gnssMeasUsageInfo pbGnssMeasUsageInfo n = (case pbGnssMeasUsageInfo of
      None \<Rightarrow> Inl ReturnOne | Some pbGnssMeasUsageInfo \<Rightarrow> steps
    [assign (\<lambda>pbGnssMeasUsageInfo.
        pbGnssMeasUsageInfo\<lparr>PBGnssMeasUsageInfo_gnssConstellation := getPBEnumForGnssLocSvSystem
        (GnssMeasUsageInfo_gnssConstellation gnssMeasUsageInfo),
       PBGnssMeasUsageInfo_gnssSvId := ucast (GnssMeasUsageInfo_gnssSvId gnssMeasUsageInfo),
       PBGnssMeasUsageInfo_gnssSignalType := getPBMaskForGnssSignalTypeMask
           (GnssMeasUsageInfo_gnssSignalType gnssMeasUsageInfo)\<rparr>)]
    pbGnssMeasUsageInfo n)"

definition convertGnssLocInfoNotifToPB :: "GnssLocationInfoNotification \<Rightarrow>
    PBGnssLocationInfoNotification option \<Rightarrow> nat \<Rightarrow> pb_error +
    PBGnssLocationInfoNotification \<times> nat" where
  "convertGnssLocInfoNotifToPB gnssLocInfoNotif pbGnssLocInfoNotif n = (case pbGnssLocInfoNotif of None
      \<Rightarrow> Inl ReturnOne | Some pbGnssLocInfoNotif \<Rightarrow> steps
    [sub_message PBGnssLocationInfoNotification_location (\<lambda>v p.
        p\<lparr>PBGnssLocationInfoNotification_location := v\<rparr>) (\<lambda>location.
        convertLocationToPB (GnssLocationInfoNotification_location gnssLocInfoNotif) (Some location)),
     assign (\<lambda>pbGnssLocInfoNotif. pbGnssLocInfoNotif\<lparr>PBGnssLocationInfoNotification_flags
         := getPBMaskForGnssLocationInfoFlagMask (GnssLocationInfoNotification_flags gnssLocInfoNotif),
       PBGnssLocationInfoNotification_altitudeMeanSeaLevel :=
           GnssLocationInfoNotification_altitudeMeanSeaLevel gnssLocInfoNotif,
       PBGnssLocationInfoNotification_pdop := GnssLocationInfoNotification_pdop gnssLocInfoNotif,
       PBGnssLocationInfoNotification_hdop := GnssLocationInfoNotification_hdop gnssLocInfoNotif,
       PBGnssLocationInfoNotification_vdop := GnssLocationInfoNotification_vdop gnssLocInfoNotif,
       PBGnssLocationInfoNotification_gdop := GnssLocationInfoNotification_gdop gnssLocInfoNotif,
       PBGnssLocationInfoNotification_tdop := GnssLocationInfoNotification_tdop gnssLocInfoNotif,
       PBGnssLocationInfoNotification_magneticDeviation :=
           GnssLocationInfoNotification_magneticDeviation gnssLocInfoNotif,
       PBGnssLocationInfoNotification_horReliability := getPBEnumForLocationReliability
           (GnssLocationInfoNotification_horReliability gnssLocInfoNotif),
       PBGnssLocationInfoNotification_verReliability := getPBEnumForLocationReliability
           (GnssLocationInfoNotification_verReliability gnssLocInfoNotif),
       PBGnssLocationInfoNotification_horUncEllipseSemiMajor :=
           GnssLocationInfoNotification_horUncEllipseSemiMajor gnssLocInfoNotif,
       PBGnssLocationInfoNotification_horUncEllipseSemiMinor :=
           GnssLocationInfoNotification_horUncEllipseSemiMinor gnssLocInfoNotif,
       PBGnssLocationInfoNotification_horUncEllipseOrientAzimuth :=
           GnssLocationInfoNotification_horUncEllipseOrientAzimuth gnssLocInfoNotif,
       PBGnssLocationInfoNotification_northStdDeviation :=
           GnssLocationInfoNotification_northStdDeviation gnssLocInfoNotif,
       PBGnssLocationInfoNotification_eastStdDeviation := GnssLocationInfoNotification_eastStdDeviation
           gnssLocInfoNotif,
       PBGnssLocationInfoNotification_northVelocity := GnssLocationInfoNotification_northVelocity
           gnssLocInfoNotif,
       PBGnssLocationInfoNotification_eastVelocity := GnssLocationInfoNotification_eastVelocity
           gnssLocInfoNotif,
       PBGnssLocationInfoNotification_upVelocity := GnssLocationInfoNotification_upVelocity
           gnssLocInfoNotif,
       PBGnssLocationInfoNotification_northVelocityStdDeviation :=
           GnssLocationInfoNotification_northVelocityStdDeviation gnssLocInfoNotif,
       PBGnssLocationInfoNotification_eastVelocityStdDeviation :=
           GnssLocationInfoNotification_eastVelocityStdDeviation gnssLocInfoNotif,
       PBGnssLocationInfoNotification_upVelocityStdDeviation :=
           GnssLocationInfoNotification_upVelocityStdDeviation gnssLocInfoNotif,
       PBGnssLocationInfoNotification_numSvUsedInPosition := ucast
           (GnssLocationInfoNotification_numSvUsedInPosition gnssLocInfoNotif)\<rparr>),
     sub_message PBGnssLocationInfoNotification_svUsedInPosition (\<lambda>v p.
         p\<lparr>PBGnssLocationInfoNotification_svUsedInPosition := v\<rparr>)
         (\<lambda>gnssLocSvUsedInPos. convertGnssLocSvUsedInPosToPB
         (GnssLocationInfoNotification_svUsedInPosition gnssLocInfoNotif) (Some gnssLocSvUsedInPos)),
     assign (\<lambda>pbGnssLocInfoNotif.
         pbGnssLocInfoNotif\<lparr>PBGnssLocationInfoNotification_navSolutionMask :=
         getPBMaskForGnssLocationNavSolutionMask (GnssLocationInfoNotification_navSolutionMask
         gnssLocInfoNotif)\<rparr>),
     sub_message PBGnssLocationInfoNotification_bodyFrameData (\<lambda>v p.
         p\<lparr>PBGnssLocationInfoNotification_bodyFrameData := v\<rparr>) (\<lambda>gnssLocPosDyn.
         convertGnssLocationPositionDynamicsToPB (GnssLocationInfoNotification_bodyFrameData
         gnssLocInfoNotif) (GnssLocationInfoNotification_bodyFrameDataExt gnssLocInfoNotif) (Some
         gnssLocPosDyn)),
     sub_message PBGnssLocationInfoNotification_gnssSystemTime (\<lambda>v p.
         p\<lparr>PBGnssLocationInfoNotification_gnssSystemTime := v\<rparr>) (\<lambda>gnssSysTime.
         convertGnssSystemTimeToPB (GnssLocationInfoNotification_gnssSystemTime gnssLocInfoNotif) (Some
         gnssSysTime)),
     assign (\<lambda>pbGnssLocInfoNotif.
         pbGnssLocInfoNotif\<lparr>PBGnssLocationInfoNotification_numOfMeasReceived := ucast
         (GnssLocationInfoNotification_numOfMeasReceived gnssLocInfoNotif)\<rparr>),
     for_loop (unat ((GnssLocationInfoNotification_numOfMeasReceived gnssLocInfoNotif))) (\<lambda>iter.
       with_elem (GnssLocationInfoNotification_measUsageInfo gnssLocInfoNotif) iter (\<lambda>e1.
       add_message PBGnssMeasUsageInfo_default PBGnssLocationInfoNotification_measUsageInfo (\<lambda>v
           p. p\<lparr>PBGnssLocationInfoNotification_measUsageInfo := v\<rparr>)
           (\<lambda>gnssMeasUsageInfo. convertGnssMeasUsageInfoToPB e1 (Some gnssMeasUsageInfo)))),
     assign (\<lambda>pbGnssLocInfoNotif.
         pbGnssLocInfoNotif\<lparr>PBGnssLocationInfoNotification_leapSeconds := ucast
         (GnssLocationInfoNotification_leapSeconds gnssLocInfoNotif),
       PBGnssLocationInfoNotification_timeUncMs := GnssLocationInfoNotification_timeUncMs
           gnssLocInfoNotif,
       PBGnssLocationInfoNotification_calibrationConfidence := ucast
           (GnssLocationInfoNotification_calibrationConfidence gnssLocInfoNotif),
       PBGnssLocationInfoNotification_calibrationStatus := getPBMaskForDrCalibrationStatusMask (ucast
           (GnssLocationInfoNotification_calibrationStatus gnssLocInfoNotif)),
       PBGnssLocationInfoNotification_locOutputEngType := getPBEnumForLocOutputEngineType
           (GnssLocationInfoNotification_locOutputEngType gnssLocInfoNotif),
       PBGnssLocationInfoNotification_locOutputEngMask := getPBMaskForPositioningEngineMask
           (GnssLocationInfoNotification_locOutputEngMask gnssLocInfoNotif),
       PBGnssLocationInfoNotification_conformityIndex := GnssLocationInfoNotification_conformityIndex
           gnssLocInfoNotif\<rparr>),
     sub_message PBGnssLocationInfoNotification_llaVRPBased (\<lambda>v p.
         p\<lparr>PBGnssLocationInfoNotification_llaVRPBased := v\<rparr>) (\<lambda>llaInfo.
         convertLLAInfoToPB (GnssLocationInfoNotification_llaVRPBased gnssLocInfoNotif) (Some llaInfo)),
     for_loop 3 (\<lambda>i.
       with_elem (GnssLocationInfoNotification_enuVelocityVRPBased gnssLocInfoNotif) i (\<lambda>e1.
       assign (\<lambda>pbGnssLocInfoNotif.
           pbGnssLocInfoNotif\<lparr>PBGnssLocationInfoNotification_enuVelocityVRPBased :=
           PBGnssLocationInfoNotification_enuVelocityVRPBased pbGnssLocInfoNotif @ [e1]\<rparr>))),
     assign (\<lambda>pbGnssLocInfoNotif.
         pbGnssLocInfoNotif\<lparr>PBGnssLocationInfoNotification_drSolutionStatusMask :=
         getPBMaskForDrSolutionStatusMask (GnssLocationInfoNotification_drSolutionStatusMask
         gnssLocInfoNotif),
       PBGnssLocationInfoNotification_extFlags := getPBMaskForGnssLocationInfoExtFlagMask
           (GnssLocationInfoNotification_flags gnssLocInfoNotif),
       PBGnssLocationInfoNotification_altitudeAssumed := GnssLocationInfoNotification_altitudeAssumed
           gnssLocInfoNotif,
       PBGnssLocationInfoNotification_sessionStatus := getPBEnumForLocSessionStatus
           (GnssLocationInfoNotification_sessionStatus gnssLocInfoNotif)\<rparr>)]
    pbGnssLocInfoNotif n)"

definition convertLeapSecChgInfoToPB :: "LeapSecondChangeInfo \<Rightarrow> PBLeapSecondChangeInfo
    option \<Rightarrow> nat \<Rightarrow> pb_error + PBLeapSecondChangeInfo \<times> nat" where
  "convertLeapSecChgInfoToPB leapSecChngInfo pbLeapSecChngInfo n = (case pbLeapSecChngInfo of None
      \<Rightarrow> Inl ReturnOne | Some pbLeapSecChngInfo \<Rightarrow> steps
    [sub_message PBLeapSecondChangeInfo_gpsTimestampLsChange (\<lambda>v p.
        p\<lparr>PBLeapSecondChangeInfo_gpsTimestampLsChange := v\<rparr>) (\<lambda>pLeapSecChngInfo.
        convertGnssSystemTimeStructTypeToPB (LeapSecondChangeInfo_gpsTimestampLsChange leapSecChngInfo)
        (Some pLeapSecChngInfo)),
     assign (\<lambda>pbLeapSecChngInfo.
         pbLeapSecChngInfo\<lparr>PBLeapSecondChangeInfo_leapSecondsBeforeChange := ucast
         (LeapSecondChangeInfo_leapSecondsBeforeChange leapSecChngInfo),
       PBLeapSecondChangeInfo_leapSecondsAfterChange := ucast
           (LeapSecondChangeInfo_leapSecondsAfterChange leapSecChngInfo)\<rparr>)]
    pbLeapSecChngInfo n)"

definition convertLeapSecondSystemInfoToPB :: "LeapSecondSystemInfo \<Rightarrow> PBLeapSecondSystemInfo
    option \<Rightarrow> nat \<Rightarrow> pb_error + PBLeapSecondSystemInfo \<times> nat" where
  "convertLeapSecondSystemInfoToPB leapSecSysInfo pbLeapSecSysInfo n = (case pbLeapSecSysInfo of None
      \<Rightarrow> Inl ReturnOne | Some pbLeapSecSysInfo \<Rightarrow> steps
    [assign (\<lambda>pbLeapSecSysInfo.
        pbLeapSecSysInfo\<lparr>PBLeapSecondSystemInfo_leapSecondInfoMask :=
        getPBMaskForLeapSecondSysInfoMask (LeapSecondSystemInfo_leapSecondInfoMask leapSecSysInfo),
       PBLeapSecondSystemInfo_leapSecondCurrent := ucast (LeapSecondSystemInfo_leapSecondCurrent
           leapSecSysInfo)\<rparr>),
     sub_message PBLeapSecondSystemInfo_leapSecondChangeInfo (\<lambda>v p.
         p\<lparr>PBLeapSecondSystemInfo_leapSecondChangeInfo := v\<rparr>) (\<lambda>leapSecChngInfo.
         convertLeapSecChgInfoToPB (LeapSecondSystemInfo_leapSecondChangeInfo leapSecSysInfo) (Some
         leapSecChngInfo))]
    pbLeapSecSysInfo n)"

definition convertLocSysInfoToPB :: "LocationSystemInfo \<Rightarrow> PBLocationSystemInfo option
    \<Rightarrow> nat \<Rightarrow> pb_error + PBLocationSystemInfo \<times> nat" where
  "convertLocSysInfoToPB locSysInfo pbLocSysInfo n = (case pbLocSysInfo of None \<Rightarrow> Inl
      ReturnOne | Some pbLocSysInfo \<Rightarrow> steps
    [assign (\<lambda>pbLocSysInfo. pbLocSysInfo\<lparr>PBLocationSystemInfo_systemInfoMask :=
        getPBMaskForLocSysInfoMask (LocationSystemInfo_systemInfoMask locSysInfo)\<rparr>),
     sub_message PBLocationSystemInfo_leapSecondSysInfo (\<lambda>v p.
         p\<lparr>PBLocationSystemInfo_leapSecondSysInfo := v\<rparr>) (\<lambda>leapSecSysInfo.
         convertLeapSecondSystemInfoToPB (LocationSystemInfo_leapSecondSysInfo locSysInfo) (Some
         leapSecSysInfo))]
    pbLocSysInfo n)"

definition convertGnssMeasDataToPB :: "GnssMeasurementsData \<Rightarrow> PBGnssMeasurementsData option
    \<Rightarrow> nat \<Rightarrow> pb_error + PBGnssMeasurementsData \<times> nat" where
  "convertGnssMeasDataToPB gnssMeasData pbGnssMeasData n = (case pbGnssMeasData of None \<Rightarrow>
      Inl ReturnOne | Some pbGnssMeasData \<Rightarrow> steps
    [assign (\<lambda>pbGnssMeasData. pbGnssMeasData\<lparr>PBGnssMeasurementsData_flags :=
        getPBMaskForGnssMeasurementsDataFlagsMask (GnssMeasurementsData_flags gnssMeasData),
       PBGnssMeasurementsData_svId := scast (GnssMeasurementsData_svId gnssMeasData),
       PBGnssMeasurementsData_svType := getPBGnssLocSvSysEnumFromGnssSvType (GnssMeasurementsData_svType
           gnssMeasData),
       PBGnssMeasurementsData_timeOffsetNs := GnssMeasurementsData_timeOffsetNs gnssMeasData,
       PBGnssMeasurementsData_stateMask := getPBMaskForGnssMeasurementsStateMask
           (GnssMeasurementsData_stateMask gnssMeasData),
       PBGnssMeasurementsData_receivedSvTimeNs := GnssMeasurementsData_receivedSvTimeNs gnssMeasData,
       PBGnssMeasurementsData_receivedSvTimeUncertaintyNs :=
           GnssMeasurementsData_receivedSvTimeUncertaintyNs gnssMeasData,
       PBGnssMeasurementsData_carrierToNoiseDbHz := GnssMeasurementsData_carrierToNoiseDbHz gnssMeasData,
       PBGnssMeasurementsData_pseudorangeRateMps := GnssMeasurementsData_pseudorangeRateMps gnssMeasData,
       PBGnssMeasurementsData_pseudorangeRateUncertaintyMps :=
           GnssMeasurementsData_pseudorangeRateUncertaintyMps gnssMeasData,
       PBGnssMeasurementsData_adrStateMask := getPBMaskForGnssMeasurementsAdrStateMask (ucast
           (GnssMeasurementsData_adrStateMask gnssMeasData)),
       PBGnssMeasurementsData_adrMeters := GnssMeasurementsData_adrMeters gnssMeasData,
       PBGnssMeasurementsData_adrUncertaintyMeters := GnssMeasurementsData_adrUncertaintyMeters
           gnssMeasData,
       PBGnssMeasurementsData_carrierFrequencyHz := GnssMeasurementsData_carrierFrequencyHz gnssMeasData,
       PBGnssMeasurementsData_carrierCycles := GnssMeasurementsData_carrierCycles gnssMeasData,
       PBGnssMeasurementsData_carrierPhase := GnssMeasurementsData_carrierPhase gnssMeasData,
       PBGnssMeasurementsData_carrierPhaseUncertainty := GnssMeasurementsData_carrierPhaseUncertainty
           gnssMeasData,
       PBGnssMeasurementsData_multipathIndicator := getPBEnumForGnssMeasMultiPathIndic
           (GnssMeasurementsData_multipathIndicator gnssMeasData),
       PBGnssMeasurementsData_signalToNoiseRatioDb := GnssMeasurementsData_signalToNoiseRatioDb
           gnssMeasData,
       PBGnssMeasurementsData_agcLevelDb := GnssMeasurementsData_agcLevelDb gnssMeasData,
       PBGnssMeasurementsData_basebandCarrierToNoiseDbHz :=
           GnssMeasurementsData_basebandCarrierToNoiseDbHz gnssMeasData,
       PBGnssMeasurementsData_gnssSignalType := getPBMaskForGnssSignalTypeMask
           (GnssMeasurementsData_gnssSignalType gnssMeasData),
       PBGnssMeasurementsData_fullInterSignalBiasNs := GnssMeasurementsData_fullInterSignalBiasNs
           gnssMeasData,
       PBGnssMeasurementsData_fullInterSignalBiasUncertaintyNs :=
           GnssMeasurementsData_fullInterSignalBiasUncertaintyNs gnssMeasData,
       PBGnssMeasurementsData_cycleSlipCount := ucast (GnssMeasurementsData_cycleSlipCount
           gnssMeasData)\<rparr>)]
    pbGnssMeasData n)"

definition convertGnssMeasClockToPB :: "GnssMeasurementsClock \<Rightarrow> PBGnssMeasurementsClock
    option \<Rightarrow> nat \<Rightarrow> pb_error + PBGnssMeasurementsClock \<times> nat" where
  "convertGnssMeasClockToPB gnssMeasClock pbGnssMeasClock n = (case pbGnssMeasClock of None
      \<Rightarrow> Inl ReturnOne | Some pbGnssMeasClock \<Rightarrow> steps
    [assign (\<lambda>pbGnssMeasClock. pbGnssMeasClock\<lparr>PBGnssMeasurementsClock_flags :=
        getPBMaskForGnssMeasurementsClockFlagsMask (GnssMeasurementsClock_flags gnssMeasClock),
       PBGnssMeasurementsClock_leapSecond := scast (GnssMeasurementsClock_leapSecond gnssMeasClock),
       PBGnssMeasurementsClock_timeNs := GnssMeasurementsClock_timeNs gnssMeasClock,
       PBGnssMeasurementsClock_timeUncertaintyNs := GnssMeasurementsClock_timeUncertaintyNs
           gnssMeasClock,
       PBGnssMeasurementsClock_fullBiasNs := GnssMeasurementsClock_fullBiasNs gnssMeasClock,
       PBGnssMeasurementsClock_biasNs := GnssMeasurementsClock_biasNs gnssMeasClock,
       PBGnssMeasurementsClock_biasUncertaintyNs := GnssMeasurementsClock_biasUncertaintyNs
           gnssMeasClock,
       PBGnssMeasurementsClock_driftNsps := GnssMeasurementsClock_driftNsps gnssMeasClock,
       PBGnssMeasurementsClock_driftUncertaintyNsps := GnssMeasurementsClock_driftUncertaintyNsps
           gnssMeasClock,
       PBGnssMeasurementsClock_hwClockDiscontinuityCount :=
           GnssMeasurementsClock_hwClockDiscontinuityCount gnssMeasClock\<rparr>)]
    pbGnssMeasClock n)"

definition convertGnssMeasNotifToPB :: "GnssMeasurementsNotification \<Rightarrow>
    PBGnssMeasurementsNotification option \<Rightarrow> nat \<Rightarrow> pb_error +
    PBGnssMeasurementsNotification \<times> nat" where
  "convertGnssMeasNotifToPB gnssMeasNotif pbGnssMeasNotif n = (case pbGnssMeasNotif of None
      \<Rightarrow> Inl ReturnOne | Some pbGnssMeasNotif \<Rightarrow> steps
    [for_loop (unat ((GnssMeasurementsNotification_count gnssMeasNotif))) (\<lambda>i.
       with_elem (GnssMeasurementsNotification_measurements gnssMeasNotif) i (\<lambda>e1.
       add_message PBGnssMeasurementsData_default PBGnssMeasurementsNotification_measurements
           (\<lambda>v p. p\<lparr>PBGnssMeasurementsNotification_measurements := v\<rparr>)
           (\<lambda>gnssMeasData. convertGnssMeasDataToPB e1 (Some gnssMeasData)))),
     sub_message PBGnssMeasurementsNotification_clock (\<lambda>v p.
         p\<lparr>PBGnssMeasurementsNotification_clock := v\<rparr>) (\<lambda>gnssMeasClock.
         convertGnssMeasClockToPB (GnssMeasurementsNotification_clock gnssMeasNotif) (Some
         gnssMeasClock))]
    pbGnssMeasNotif n)"

definition convertGnssDataNotifToPB :: "GnssDataNotification \<Rightarrow> PBGnssDataNotification option
    \<Rightarrow> nat \<Rightarrow> pb_error + PBGnssDataNotification \<times> nat" where
  "convertGnssDataNotifToPB gnssDataNotif pbGnssDataNotif n = (case pbGnssDataNotif of None
      \<Rightarrow> Inl ReturnOne | Some pbGnssDataNotif \<Rightarrow> steps
    [assign (\<lambda>pbGnssDataNotif. pbGnssDataNotif\<lparr>PBGnssDataNotification_numberSignalTypes
        := GNSS_LOC_MAX_NUMBER_OF_SIGNAL_TYPES\<rparr>),
     for_loop GNSS_LOC_MAX_NUMBER_OF_SIGNAL_TYPES (\<lambda>i.
       steps [with_elem (GnssDataNotification_gnssDataMask gnssDataNotif) i (\<lambda>e1.
       assign (\<lambda>pbGnssDataNotif. pbGnssDataNotif\<lparr>PBGnssDataNotification_gnssDataMask :=
           PBGnssDataNotification_gnssDataMask pbGnssDataNotif @ [e1]\<rparr>)),
       with_elem (GnssDataNotification_jammerInd gnssDataNotif) i (\<lambda>e1.
       assign (\<lambda>pbGnssDataNotif. pbGnssDataNotif\<lparr>PBGnssDataNotification_jammerInd :=
           PBGnssDataNotification_jammerInd pbGnssDataNotif @ [e1]\<rparr>)),
       with_elem (GnssDataNotification_agc gnssDataNotif) i (\<lambda>e1.
       assign (\<lambda>pbGnssDataNotif. pbGnssDataNotif\<lparr>PBGnssDataNotification_agc :=
           PBGnssDataNotification_agc pbGnssDataNotif @ [e1]\<rparr>))])]
    pbGnssDataNotif n)"

definition convertLocAPINmeaSerializedPayloadToPB :: "LocAPINmeaSerializedPayload \<Rightarrow>
    PBLocAPINmeaSerializedPayload option \<Rightarrow> nat \<Rightarrow> pb_error +
    PBLocAPINmeaSerializedPayload \<times> nat" where
  "convertLocAPINmeaSerializedPayloadToPB locAPINmeaSerPload pbLocAPINmeaSerPload n = (case
      pbLocAPINmeaSerPload of None \<Rightarrow> Inl ReturnOne | Some pbLocAPINmeaSerPload \<Rightarrow>
      steps
    [assign (\<lambda>pbLocAPINmeaSerPload.
        pbLocAPINmeaSerPload\<lparr>PBLocAPINmeaSerializedPayload_timestamp :=
        LocAPINmeaSerializedPayload_timestamp locAPINmeaSerPload,
       PBLocAPINmeaSerializedPayload_nmea := LocAPINmeaSerializedPayload_nmea
           locAPINmeaSerPload\<rparr>)]
    pbLocAPINmeaSerPload n)"

definition convertGnssSvToPB :: "GnssSv \<Rightarrow> PBLocApiGnssSv option \<Rightarrow> nat
    \<Rightarrow> pb_error + PBLocApiGnssSv \<times> nat" where
  "convertGnssSvToPB gnssSv pbGnssSv n = (case pbGnssSv of None \<Rightarrow> Inl ReturnOne | Some
      pbGnssSv \<Rightarrow> steps
    [assign (\<lambda>pbGnssSv. pbGnssSv\<lparr>PBLocApiGnssSv_svId := ucast (GnssSv_svId gnssSv),
       PBLocApiGnssSv_type := getPBGnssLocSvSysEnumFromGnssSvType (GnssSv_type gnssSv),
       PBLocApiGnssSv_cN0Dbhz := GnssSv_cN0Dbhz gnssSv,
       PBLocApiGnssSv_elevation := GnssSv_elevation gnssSv,
       PBLocApiGnssSv_azimuth := GnssSv_azimuth gnssSv,
       PBLocApiGnssSv_gnssSvOptionsMask := getPBMaskForGnssSvOptionsMask (ucast
           (GnssSv_gnssSvOptionsMask gnssSv)),
       PBLocApiGnssSv_carrierFrequencyHz := GnssSv_carrierFrequencyHz gnssSv,
       PBLocApiGnssSv_gnssSignalTypeMask := getPBMaskForGnssSignalTypeMask (GnssSv_gnssSignalTypeMask
           gnssSv),
       PBLocApiGnssSv_basebandCarrierToNoiseDbHz := GnssSv_basebandCarrierToNoiseDbHz gnssSv,
       PBLocApiGnssSv_gloFrequency := ucast (GnssSv_gloFrequency gnssSv)\<rparr>)]
    pbGnssSv n)"

definition convertGnssSvNotifToPB :: "GnssSvNotification \<Rightarrow> PBLocApiGnssSvNotification option
    \<Rightarrow> nat \<Rightarrow> pb_error + PBLocApiGnssSvNotification \<times> nat" where
  "convertGnssSvNotifToPB gnssSvNotif pbGnssSvNotif n = (case pbGnssSvNotif of None \<Rightarrow> Inl
      ReturnOne | Some pbGnssSvNotif \<Rightarrow> steps
    [assign (\<lambda>pbGnssSvNotif.
        pbGnssSvNotif\<lparr>PBLocApiGnssSvNotification_gnssSignalTypeMaskValid :=
        GnssSvNotification_gnssSignalTypeMaskValid gnssSvNotif\<rparr>),
     for_loop (unat ((GnssSvNotification_count gnssSvNotif))) (\<lambda>i.
       with_elem (GnssSvNotification_gnssSvs gnssSvNotif) i (\<lambda>e1.
       add_message PBLocApiGnssSv_default PBLocApiGnssSvNotification_gnssSvs (\<lambda>v p.
           p\<lparr>PBLocApiGnssSvNotification_gnssSvs := v\<rparr>) (\<lambda>gnssSv. convertGnssSvToPB
           e1 (Some gnssSv))))]
    pbGnssSvNotif n)"

definition pbConvertToGnssConfigRobustLocation :: "PBGnssConfigRobustLocation \<Rightarrow>
    GnssConfigRobustLocation step" where
  "pbConvertToGnssConfigRobustLocation pbGnssCfgRobLoc = steps
    [assign (\<lambda>gnssCfgRobLoc. gnssCfgRobLoc\<lparr>GnssConfigRobustLocation_validMask :=
        getGnssConfigRobustLocationValidMaskFromPB (PBGnssConfigRobustLocation_validMask
        pbGnssCfgRobLoc),
       GnssConfigRobustLocation_enabled := PBGnssConfigRobustLocation_enabled pbGnssCfgRobLoc,
       GnssConfigRobustLocation_enabledForE911 := PBGnssConfigRobustLocation_enabledForE911
           pbGnssCfgRobLoc\<rparr>),
     sub_struct GnssConfigRobustLocation_version (\<lambda>v p.
         p\<lparr>GnssConfigRobustLocation_version := v\<rparr>)
       (assign (\<lambda>p. p\<lparr>GnssConfigRobustLocationVersion_major := ucast
           (PBGnssConfigRobustLocationVersion_major (PBGnssConfigRobustLocation_version
           pbGnssCfgRobLoc)),
       GnssConfigRobustLocationVersion_minor := ucast (PBGnssConfigRobustLocationVersion_minor
           (PBGnssConfigRobustLocation_version pbGnssCfgRobLoc))\<rparr>))]"

definition pbConvertToCollectiveResPayload :: "PBCollectiveResPayload \<Rightarrow> CollectiveResPayload
    step" where
  "pbConvertToCollectiveResPayload pbClctResPayload = steps
    [assign (\<lambda>clctResPayload. clctResPayload\<lparr>CollectiveResPayload_count := (word_of_nat
        (length (PBCollectiveResPayload_resp pbClctResPayload)) :: 32 word)\<rparr>),
     for_loop (unat ((word_of_nat (length (PBCollectiveResPayload_resp pbClctResPayload)) :: 32 word)))
         (\<lambda>i.
       with_elem (PBCollectiveResPayload_resp pbClctResPayload) i (\<lambda>e1.
       at_index CollectiveResPayload_resp (\<lambda>v p. p\<lparr>CollectiveResPayload_resp :=
           v\<rparr>) i
       (assign (\<lambda>p. p\<lparr>GeofenceResponse_clientId := PBGeofenceResponse_clientId e1,
       GeofenceResponse_error := getEnumForPBLocationError (PBGeofenceResponse_error e1)\<rparr>))))]"

definition pbConvertToLocation :: "PBLocation \<Rightarrow> Location step" where
  "pbConvertToLocation pbLoc = steps
    [assign (\<lambda>loc. loc\<lparr>Location_size := sizeof_Location,
       Location_flags := ucast (getLocationFlagsMaskFromPB (PBLocation_flags pbLoc)),
       Location_timestamp := PBLocation_timestamp pbLoc,
       Location_latitude := PBLocation_latitude pbLoc,
       Location_longitude := PBLocation_longitude pbLoc,
       Location_altitude := PBLocation_altitude pbLoc,
       Location_speed := PBLocation_speed pbLoc,
       Location_bearing := PBLocation_bearing pbLoc,
       Location_accuracy := PBLocation_horizontalAccuracy pbLoc,
       Location_verticalAccuracy := PBLocation_verticalAccuracy pbLoc,
       Location_speedAccuracy := PBLocation_speedAccuracy pbLoc,
       Location_bearingAccuracy := PBLocation_bearingAccuracy pbLoc,
       Location_techMask := ucast (getLocationTechnologyMaskFromPB (PBLocation_techMask
           pbLoc))\<rparr>)]"

definition pbConvertToLocAPIBatchNotification :: "PBLocAPIBatchNotification \<Rightarrow>
    LocAPIBatchNotification step" where
  "pbConvertToLocAPIBatchNotification pbLocBatchNotif = steps
    [assign (\<lambda>locBatchNotif. locBatchNotif\<lparr>LocAPIBatchNotification_status :=
        getEnumForPBBatchingStatus (PBLocAPIBatchNotification_status pbLocBatchNotif),
       LocAPIBatchNotification_count := (word_of_nat (length (PBLocAPIBatchNotification_location
           pbLocBatchNotif)) :: 32 word)\<rparr>),
     for_loop (unat ((word_of_nat (length (PBLocAPIBatchNotification_location pbLocBatchNotif)) :: 32
         word))) (\<lambda>i.
       with_elem (PBLocAPIBatchNotification_location pbLocBatchNotif) i (\<lambda>e1.
       at_index LocAPIBatchNotification_location (\<lambda>v p.
           p\<lparr>LocAPIBatchNotification_location := v\<rparr>) i
       (pbConvertToLocation e1)))]"

definition pbConvertToLocAPIGfBreachNotification :: "PBLocAPIGeofenceBreachNotification \<Rightarrow>
    LocAPIGeofenceBreachNotification step" where
  "pbConvertToLocAPIGfBreachNotification pbLocApiGfBreachNotif = steps
    [assign (\<lambda>locApiGfBreachNotif.
        locApiGfBreachNotif\<lparr>LocAPIGeofenceBreachNotification_timestamp :=
        PBLocAPIGeofenceBreachNotification_timestamp pbLocApiGfBreachNotif,
       LocAPIGeofenceBreachNotification_type := ucast (getGfBreachTypeMaskFromPB
           (PBLocAPIGeofenceBreachNotification_breachtype pbLocApiGfBreachNotif))\<rparr>),
     sub_struct LocAPIGeofenceBreachNotification_location (\<lambda>v p.
         p\<lparr>LocAPIGeofenceBreachNotification_location := v\<rparr>)
       (pbConvertToLocation (PBLocAPIGeofenceBreachNotification_location pbLocApiGfBreachNotif)),
     with_elem (PBLocAPIGeofenceBreachNotification_id pbLocApiGfBreachNotif) 0 (\<lambda>e1.
       at_index LocAPIGeofenceBreachNotification_id (\<lambda>v p.
           p\<lparr>LocAPIGeofenceBreachNotification_id := v\<rparr>) 0
       (assign (\<lambda>_. e1)))]"

definition pbConvertToGnssLocationSvUsedInPosition :: "PBGnssLocationSvUsedInPosition \<Rightarrow>
    GnssLocationSvUsedInPosition step" where
  "pbConvertToGnssLocationSvUsedInPosition pbGnssLocSvUsedInPos = steps
    [assign (\<lambda>gnssLocSvUsedInPos.
        gnssLocSvUsedInPos\<lparr>GnssLocationSvUsedInPosition_gpsSvUsedIdsMask :=
        PBGnssLocationSvUsedInPosition_gpsSvUsedIdsMask pbGnssLocSvUsedInPos,
       GnssLocationSvUsedInPosition_gloSvUsedIdsMask := PBGnssLocationSvUsedInPosition_gloSvUsedIdsMask
           pbGnssLocSvUsedInPos,
       GnssLocationSvUsedInPosition_galSvUsedIdsMask := PBGnssLocationSvUsedInPosition_galSvUsedIdsMask
           pbGnssLocSvUsedInPos,
       GnssLocationSvUsedInPosition_bdsSvUsedIdsMask := PBGnssLocationSvUsedInPosition_bdsSvUsedIdsMask
           pbGnssLocSvUsedInPos,
       GnssLocationSvUsedInPosition_qzssSvUsedIdsMask :=
           PBGnssLocationSvUsedInPosition_qzssSvUsedIdsMask pbGnssLocSvUsedInPos,
       GnssLocationSvUsedInPosition_navicSvUsedIdsMask :=
           PBGnssLocationSvUsedInPosition_navicSvUsedIdsMask pbGnssLocSvUsedInPos\<rparr>)]"

definition pbConvertToLLAInfo :: "PBLLAInfo \<Rightarrow> LLAInfo step" where
  "pbConvertToLLAInfo pbLlaInfo = steps
    [assign (\<lambda>llaInfo. llaInfo\<lparr>LLAInfo_latitude := PBLLAInfo_latitude pbLlaInfo,
       LLAInfo_longitude := PBLLAInfo_longitude pbLlaInfo,
       LLAInfo_altitude := PBLLAInfo_altitude pbLlaInfo\<rparr>)]"

definition pbConvertToGnssLocationPositionDynamics ::
    "PBLocApiGnssLocationPositionDynamics
     \<Rightarrow> (GnssLocationPositionDynamics \<times> GnssLocationPositionDynamicsExt) step" where
  "pbConvertToGnssLocationPositionDynamics pbGnssLocPosDyn = steps
    [assign (\<lambda>(gnssLocPosDyn, gnssLocPosDynExt).
      (gnssLocPosDyn\<lparr>
         GnssLocationPositionDynamics_bodyFrameDataMask := getGnssLocationPosDataMaskFromPB
           (PBLocApiGnssLocationPositionDynamics_bodyFrameDataMask pbGnssLocPosDyn),
         GnssLocationPositionDynamics_longAccel := PBLocApiGnssLocationPositionDynamics_longAccel
             pbGnssLocPosDyn,
         GnssLocationPositionDynamics_latAccel := PBLocApiGnssLocationPositionDynamics_latAccel
             pbGnssLocPosDyn,
         GnssLocationPositionDynamics_vertAccel := PBLocApiGnssLocationPositionDynamics_vertAccel
             pbGnssLocPosDyn,
         GnssLocationPositionDynamics_longAccelUnc := PBLocApiGnssLocationPositionDynamics_longAccelUnc
             pbGnssLocPosDyn,
         GnssLocationPositionDynamics_latAccelUnc := PBLocApiGnssLocationPositionDynamics_latAccelUnc
             pbGnssLocPosDyn,
         GnssLocationPositionDynamics_vertAccelUnc := PBLocApiGnssLocationPositionDynamics_vertAccelUnc
             pbGnssLocPosDyn,
         GnssLocationPositionDynamics_pitch := PBLocApiGnssLocationPositionDynamics_pitch
             pbGnssLocPosDyn,
         GnssLocationPositionDynamics_pitchUnc := PBLocApiGnssLocationPositionDynamics_pitchUnc
             pbGnssLocPosDyn,
         GnssLocationPositionDynamics_yawRate := PBLocApiGnssLocationPositionDynamics_yawRate
             pbGnssLocPosDyn,
         GnssLocationPositionDynamics_yawRateUnc := PBLocApiGnssLocationPositionDynamics_yawRateUnc
             pbGnssLocPosDyn\<rparr>,
       gnssLocPosDynExt\<lparr>
         GnssLocationPositionDynamicsExt_bodyFrameDataMask := getGnssLocationPosDataMaskExtFromPB
           (PBLocApiGnssLocationPositionDynamics_bodyFrameDataMask pbGnssLocPosDyn),
         GnssLocationPositionDynamicsExt_pitchRate := PBLocApiGnssLocationPositionDynamics_pitchRate
             pbGnssLocPosDyn,
         GnssLocationPositionDynamicsExt_pitchRateUnc :=
             PBLocApiGnssLocationPositionDynamics_pitchRateUnc pbGnssLocPosDyn,
         GnssLocationPositionDynamicsExt_roll := PBLocApiGnssLocationPositionDynamics_roll
             pbGnssLocPosDyn,
         GnssLocationPositionDynamicsExt_rollUnc := PBLocApiGnssLocationPositionDynamics_rollUnc
             pbGnssLocPosDyn,
         GnssLocationPositionDynamicsExt_rollRate := PBLocApiGnssLocationPositionDynamics_rollRate
             pbGnssLocPosDyn,
         GnssLocationPositionDynamicsExt_rollRateUnc := PBLocApiGnssLocationPositionDynamics_rollRateUnc
             pbGnssLocPosDyn,
         GnssLocationPositionDynamicsExt_yaw := PBLocApiGnssLocationPositionDynamics_yaw pbGnssLocPosDyn,
         GnssLocationPositionDynamicsExt_yawUnc := PBLocApiGnssLocationPositionDynamics_yawUnc
             pbGnssLocPosDyn\<rparr>))]"


definition pbConvertToGnssSystemTimeStructType :: "PBLocApiGnssSystemTimeStructType \<Rightarrow>
    GnssSystemTimeStructType step" where
  "pbConvertToGnssSystemTimeStructType pbGnssSysTimeStrct = steps
    [assign (\<lambda>gnssSysTimeStrct. gnssSysTimeStrct\<lparr>GnssSystemTimeStructType_validityMask :=
        getGnssSystemTimeStructTypeFlagsFromPB (PBLocApiGnssSystemTimeStructType_validityMask
        pbGnssSysTimeStrct),
       GnssSystemTimeStructType_systemWeek := ucast (PBLocApiGnssSystemTimeStructType_systemWeek
           pbGnssSysTimeStrct),
       GnssSystemTimeStructType_systemMsec := PBLocApiGnssSystemTimeStructType_systemMsec
           pbGnssSysTimeStrct,
       GnssSystemTimeStructType_systemClkTimeBias :=
           PBLocApiGnssSystemTimeStructType_systemClkTimeBiasMs pbGnssSysTimeStrct,
       GnssSystemTimeStructType_systemClkTimeUncMs :=
           PBLocApiGnssSystemTimeStructType_systemClkTimeBiasUncMs pbGnssSysTimeStrct,
       GnssSystemTimeStructType_refFCount := PBLocApiGnssSystemTimeStructType_refFCount
           pbGnssSysTimeStrct,
       GnssSystemTimeStructType_numClockResets := PBLocApiGnssSystemTimeStructType_numClockResets
           pbGnssSysTimeStrct\<rparr>)]"

definition pbConvertToGnssGloTimeStructType :: "PBLocApiGnssGloTimeStructType \<Rightarrow>
    GnssGloTimeStructType step" where
  "pbConvertToGnssGloTimeStructType pbGnssGloTime = steps
    [assign (\<lambda>gnssGloTime. gnssGloTime\<lparr>GnssGloTimeStructType_validityMask :=
        getGnssGloTimeStructTypeFlagsFromPB (PBLocApiGnssGloTimeStructType_validityMask pbGnssGloTime),
       GnssGloTimeStructType_gloFourYear := ucast (PBLocApiGnssGloTimeStructType_gloFourYear
           pbGnssGloTime),
       GnssGloTimeStructType_gloDays := ucast (PBLocApiGnssGloTimeStructType_gloDays pbGnssGloTime),
       GnssGloTimeStructType_gloMsec := PBLocApiGnssGloTimeStructType_gloMsec pbGnssGloTime,
       GnssGloTimeStructType_gloClkTimeBias := PBLocApiGnssGloTimeStructType_gloClkTimeBias
           pbGnssGloTime,
       GnssGloTimeStructType_gloClkTimeUncMs := PBLocApiGnssGloTimeStructType_gloClkTimeUncMs
           pbGnssGloTime,
       GnssGloTimeStructType_refFCount := PBLocApiGnssGloTimeStructType_refFCount pbGnssGloTime,
       GnssGloTimeStructType_numClockResets := PBLocApiGnssGloTimeStructType_numClockResets
           pbGnssGloTime\<rparr>)]"

definition pbConvertToSystemTimeStructUnion ::
    "int \<Rightarrow> PBLocApiSystemTimeStructUnion \<Rightarrow> SystemTimeStructUnion step" where
  "pbConvertToSystemTimeStructUnion gnssLocSvSysEnumType pbSysTimeStructUnion =
    (if gnssLocSvSysEnumType = GNSS_LOC_SV_SYSTEM_GPS then
       sub_struct systemTime_bytes (\<lambda>v _. systemTime v)
         (pbConvertToGnssSystemTimeStructType (gpssystemtime pbSysTimeStructUnion))
     else if gnssLocSvSysEnumType = GNSS_LOC_SV_SYSTEM_GALILEO then
       sub_struct systemTime_bytes (\<lambda>v _. systemTime v)
         (pbConvertToGnssSystemTimeStructType (galsystemtime pbSysTimeStructUnion))
     else if gnssLocSvSysEnumType = GNSS_LOC_SV_SYSTEM_BDS then
       sub_struct systemTime_bytes (\<lambda>v _. systemTime v)
         (pbConvertToGnssSystemTimeStructType (bdssystemtime pbSysTimeStructUnion))
     else if gnssLocSvSysEnumType = GNSS_LOC_SV_SYSTEM_QZSS then
       sub_struct systemTime_bytes (\<lambda>v _. systemTime v)
         (pbConvertToGnssSystemTimeStructType (qzsssystemtime pbSysTimeStructUnion))
     else if gnssLocSvSysEnumType = GNSS_LOC_SV_SYSTEM_GLONASS then
       sub_struct gloTime_bytes (\<lambda>v _. gloTime v)
         (pbConvertToGnssGloTimeStructType (glosystemtime pbSysTimeStructUnion))
     else if gnssLocSvSysEnumType = GNSS_LOC_SV_SYSTEM_NAVIC then
       sub_struct systemTime_bytes (\<lambda>v _. systemTime v)
         (pbConvertToGnssSystemTimeStructType (navicsystemtime pbSysTimeStructUnion))
     else steps [])"


definition pbConvertToGnssSystemTime :: "PBLocApiGnssSystemTime \<Rightarrow> GnssSystemTime step" where
  "pbConvertToGnssSystemTime pbGnssSysTime = steps
    [assign (\<lambda>gnssSysTime. gnssSysTime\<lparr>GnssSystemTime_gnssSystemTimeSrc :=
         getEnumForPBGnssLocSvSystem (PBLocApiGnssSystemTime_gnssSystemTimeSrc pbGnssSysTime)\<rparr>),
     look (\<lambda>gnssSysTime. sub_struct GnssSystemTime_u (\<lambda>v p. p\<lparr>GnssSystemTime_u :=
         v\<rparr>)
       (pbConvertToSystemTimeStructUnion (GnssSystemTime_gnssSystemTimeSrc gnssSysTime)
         (PBLocApiGnssSystemTime_u pbGnssSysTime)))]"


definition pbConvertToGnssMeasUsageInfo :: "PBGnssMeasUsageInfo \<Rightarrow> GnssMeasUsageInfo step"
    where
  "pbConvertToGnssMeasUsageInfo pbGnssMeasUsageInfo = steps
    [assign (\<lambda>gnssMeasUsageInfo. gnssMeasUsageInfo\<lparr>GnssMeasUsageInfo_gnssConstellation :=
        getEnumForPBGnssLocSvSystem (PBGnssMeasUsageInfo_gnssConstellation pbGnssMeasUsageInfo),
       GnssMeasUsageInfo_gnssSvId := ucast (PBGnssMeasUsageInfo_gnssSvId pbGnssMeasUsageInfo),
       GnssMeasUsageInfo_gnssSignalType := getGnssSignalTypeMaskFromPB
           (PBGnssMeasUsageInfo_gnssSignalType pbGnssMeasUsageInfo)\<rparr>)]"

definition pbConvertToGnssLocInfoNotif :: "PBGnssLocationInfoNotification \<Rightarrow>
    GnssLocationInfoNotification step" where
  "pbConvertToGnssLocInfoNotif pbGnssLocInfoNotif = steps
    [sub_struct GnssLocationInfoNotification_location (\<lambda>v p.
        p\<lparr>GnssLocationInfoNotification_location := v\<rparr>)
       (pbConvertToLocation (PBGnssLocationInfoNotification_location pbGnssLocInfoNotif)),
     assign (\<lambda>gnssLocInfoNotif. gnssLocInfoNotif\<lparr>GnssLocationInfoNotification_flags :=
         getGnssLocationInfoFlagMaskFromPB (PBGnssLocationInfoNotification_flags pbGnssLocInfoNotif)
         (PBGnssLocationInfoNotification_extFlags pbGnssLocInfoNotif),
       GnssLocationInfoNotification_altitudeMeanSeaLevel :=
           PBGnssLocationInfoNotification_altitudeMeanSeaLevel pbGnssLocInfoNotif,
       GnssLocationInfoNotification_pdop := PBGnssLocationInfoNotification_pdop pbGnssLocInfoNotif,
       GnssLocationInfoNotification_hdop := PBGnssLocationInfoNotification_hdop pbGnssLocInfoNotif,
       GnssLocationInfoNotification_vdop := PBGnssLocationInfoNotification_vdop pbGnssLocInfoNotif,
       GnssLocationInfoNotification_gdop := PBGnssLocationInfoNotification_gdop pbGnssLocInfoNotif,
       GnssLocationInfoNotification_tdop := PBGnssLocationInfoNotification_tdop pbGnssLocInfoNotif,
       GnssLocationInfoNotification_magneticDeviation :=
           PBGnssLocationInfoNotification_magneticDeviation pbGnssLocInfoNotif,
       GnssLocationInfoNotification_horReliability := getEnumForPBLocReliability
           (PBGnssLocationInfoNotification_horReliability pbGnssLocInfoNotif),
       GnssLocationInfoNotification_verReliability := getEnumForPBLocReliability
           (PBGnssLocationInfoNotification_verReliability pbGnssLocInfoNotif),
       GnssLocationInfoNotification_horUncEllipseSemiMajor :=
           PBGnssLocationInfoNotification_horUncEllipseSemiMajor pbGnssLocInfoNotif,
       GnssLocationInfoNotification_horUncEllipseSemiMinor :=
           PBGnssLocationInfoNotification_horUncEllipseSemiMinor pbGnssLocInfoNotif,
       GnssLocationInfoNotification_horUncEllipseOrientAzimuth :=
           PBGnssLocationInfoNotification_horUncEllipseOrientAzimuth pbGnssLocInfoNotif,
       GnssLocationInfoNotification_northStdDeviation :=
           PBGnssLocationInfoNotification_northStdDeviation pbGnssLocInfoNotif,
       GnssLocationInfoNotification_eastStdDeviation := PBGnssLocationInfoNotification_eastStdDeviation
           pbGnssLocInfoNotif,
       GnssLocationInfoNotification_northVelocity := PBGnssLocationInfoNotification_northVelocity
           pbGnssLocInfoNotif,
       GnssLocationInfoNotification_eastVelocity := PBGnssLocationInfoNotification_eastVelocity
           pbGnssLocInfoNotif,
       GnssLocationInfoNotification_upVelocity := PBGnssLocationInfoNotification_upVelocity
           pbGnssLocInfoNotif,
       GnssLocationInfoNotification_northVelocityStdDeviation :=
           PBGnssLocationInfoNotification_northVelocityStdDeviation pbGnssLocInfoNotif,
       GnssLocationInfoNotification_eastVelocityStdDeviation :=
           PBGnssLocationInfoNotification_eastVelocityStdDeviation pbGnssLocInfoNotif,
       GnssLocationInfoNotification_upVelocityStdDeviation :=
           PBGnssLocationInfoNotification_upVelocityStdDeviation pbGnssLocInfoNotif,
       GnssLocationInfoNotification_numSvUsedInPosition := ucast
           (PBGnssLocationInfoNotification_numSvUsedInPosition pbGnssLocInfoNotif)\<rparr>),
     sub_struct GnssLocationInfoNotification_svUsedInPosition (\<lambda>v p.
         p\<lparr>GnssLocationInfoNotification_svUsedInPosition := v\<rparr>)
       (pbConvertToGnssLocationSvUsedInPosition (PBGnssLocationInfoNotification_svUsedInPosition
           pbGnssLocInfoNotif)),
     assign (\<lambda>gnssLocInfoNotif.
         gnssLocInfoNotif\<lparr>GnssLocationInfoNotification_navSolutionMask :=
         getGnssLocationNavSolutionMaskFromPB (PBGnssLocationInfoNotification_navSolutionMask
         pbGnssLocInfoNotif)\<rparr>),
     sub_struct (\<lambda>p. (GnssLocationInfoNotification_bodyFrameData p,
         GnssLocationInfoNotification_bodyFrameDataExt p)) (\<lambda>(v, w) p.
         p\<lparr>GnssLocationInfoNotification_bodyFrameData := v,
         GnssLocationInfoNotification_bodyFrameDataExt := w\<rparr>)
        (pbConvertToGnssLocationPositionDynamics (PBGnssLocationInfoNotification_bodyFrameData
            pbGnssLocInfoNotif)),
     sub_struct GnssLocationInfoNotification_gnssSystemTime (\<lambda>v p.
         p\<lparr>GnssLocationInfoNotification_gnssSystemTime := v\<rparr>)
       (pbConvertToGnssSystemTime (PBGnssLocationInfoNotification_gnssSystemTime pbGnssLocInfoNotif)),
     assign (\<lambda>gnssLocInfoNotif.
         gnssLocInfoNotif\<lparr>GnssLocationInfoNotification_numOfMeasReceived := ucast (min
         (PBGnssLocationInfoNotification_numOfMeasReceived pbGnssLocInfoNotif) GNSS_SV_MAX)\<rparr>),
     look (\<lambda>gnssLocInfoNotif. for_loop (unat (GnssLocationInfoNotification_numOfMeasReceived
         gnssLocInfoNotif)) (\<lambda>iter.
       with_elem (PBGnssLocationInfoNotification_measUsageInfo pbGnssLocInfoNotif) iter (\<lambda>e1.
       at_index GnssLocationInfoNotification_measUsageInfo (\<lambda>v p.
           p\<lparr>GnssLocationInfoNotification_measUsageInfo := v\<rparr>) iter
       (pbConvertToGnssMeasUsageInfo e1)))),
     assign (\<lambda>gnssLocInfoNotif. gnssLocInfoNotif\<lparr>GnssLocationInfoNotification_leapSeconds
         := ucast (PBGnssLocationInfoNotification_leapSeconds pbGnssLocInfoNotif),
       GnssLocationInfoNotification_timeUncMs := PBGnssLocationInfoNotification_timeUncMs
           pbGnssLocInfoNotif,
       GnssLocationInfoNotification_calibrationConfidence := ucast
           (PBGnssLocationInfoNotification_calibrationConfidence pbGnssLocInfoNotif),
       GnssLocationInfoNotification_calibrationStatus := ucast (getDrCalibrationStatusMaskFromPB
           (PBGnssLocationInfoNotification_calibrationStatus pbGnssLocInfoNotif)),
       GnssLocationInfoNotification_locOutputEngType := getEnumForPBLocOutputEngineType
           (PBGnssLocationInfoNotification_locOutputEngType pbGnssLocInfoNotif),
       GnssLocationInfoNotification_locOutputEngMask := getEnumForPBPositioningEngineMask
           (PBGnssLocationInfoNotification_locOutputEngMask pbGnssLocInfoNotif),
       GnssLocationInfoNotification_conformityIndex := PBGnssLocationInfoNotification_conformityIndex
           pbGnssLocInfoNotif\<rparr>),
     sub_struct GnssLocationInfoNotification_llaVRPBased (\<lambda>v p.
         p\<lparr>GnssLocationInfoNotification_llaVRPBased := v\<rparr>)
       (pbConvertToLLAInfo (PBGnssLocationInfoNotification_llaVRPBased pbGnssLocInfoNotif)),
     for_loop 3 (\<lambda>i.
       with_elem (PBGnssLocationInfoNotification_enuVelocityVRPBased pbGnssLocInfoNotif) i (\<lambda>e1.
       at_index GnssLocationInfoNotification_enuVelocityVRPBased (\<lambda>v p.
           p\<lparr>GnssLocationInfoNotification_enuVelocityVRPBased := v\<rparr>) i
       (assign (\<lambda>_. e1)))),
     assign (\<lambda>gnssLocInfoNotif.
         gnssLocInfoNotif\<lparr>GnssLocationInfoNotification_drSolutionStatusMask :=
         getDrSolutionStatusMaskFromPB (PBGnssLocationInfoNotification_drSolutionStatusMask
         pbGnssLocInfoNotif),
       GnssLocationInfoNotification_altitudeAssumed := PBGnssLocationInfoNotification_altitudeAssumed
           pbGnssLocInfoNotif,
       GnssLocationInfoNotification_sessionStatus := getLocSessionStatusFromPB
           (PBGnssLocationInfoNotification_sessionStatus pbGnssLocInfoNotif)\<rparr>)]"

definition pbConvertToGnssSvNotif :: "PBLocApiGnssSvNotification \<Rightarrow> GnssSvNotification step"
    where
  "pbConvertToGnssSvNotif pbGnssSvNotif = steps
    [assign (\<lambda>gnssSvNotif. gnssSvNotif\<lparr>GnssSvNotification_size :=
        sizeof_GnssSvNotification,
       GnssSvNotification_gnssSignalTypeMaskValid := PBLocApiGnssSvNotification_gnssSignalTypeMaskValid
           pbGnssSvNotif,
       GnssSvNotification_count := word_of_nat (min (length (PBLocApiGnssSvNotification_gnssSvs
           pbGnssSvNotif)) GNSS_SV_MAX)\<rparr>),
     look (\<lambda>gnssSvNotif. for_loop (unat (GnssSvNotification_count gnssSvNotif)) (\<lambda>i.
       with_elem (PBLocApiGnssSvNotification_gnssSvs pbGnssSvNotif) i (\<lambda>pPbGnssSv.
       at_index GnssSvNotification_gnssSvs (\<lambda>v p. p\<lparr>GnssSvNotification_gnssSvs :=
           v\<rparr>) i
       (assign (\<lambda>p. p\<lparr>GnssSv_size := sizeof_GnssSv,
       GnssSv_svId := ucast (PBLocApiGnssSv_svId pPbGnssSv),
       GnssSv_type := getGnssSvTypeFromPBGnssLocSvSystemEnumType (PBLocApiGnssSv_type pPbGnssSv),
       GnssSv_cN0Dbhz := PBLocApiGnssSv_cN0Dbhz pPbGnssSv,
       GnssSv_elevation := PBLocApiGnssSv_elevation pPbGnssSv,
       GnssSv_azimuth := PBLocApiGnssSv_azimuth pPbGnssSv,
       GnssSv_gnssSvOptionsMask := ucast (getGnssSvOptionsMaskFromPB (PBLocApiGnssSv_gnssSvOptionsMask
           pPbGnssSv)),
       GnssSv_carrierFrequencyHz := PBLocApiGnssSv_carrierFrequencyHz pPbGnssSv,
       GnssSv_gnssSignalTypeMask := getGnssSignalTypeMaskFromPB (PBLocApiGnssSv_gnssSignalTypeMask
           pPbGnssSv),
       GnssSv_basebandCarrierToNoiseDbHz := PBLocApiGnssSv_basebandCarrierToNoiseDbHz pPbGnssSv,
       GnssSv_gloFrequency := ucast (PBLocApiGnssSv_gloFrequency pPbGnssSv)\<rparr>)))))]"

definition pbConvertToLocAPINmeaSerializedPayload :: "PBLocAPINmeaSerializedPayload \<Rightarrow>
    LocAPINmeaSerializedPayload step" where
  "pbConvertToLocAPINmeaSerializedPayload pbLocApiNmeaSerPayload = steps
    [assign (\<lambda>locApiNmeaSerPayload.
        locApiNmeaSerPayload\<lparr>LocAPINmeaSerializedPayload_timestamp :=
        PBLocAPINmeaSerializedPayload_timestamp pbLocApiNmeaSerPayload,
       LocAPINmeaSerializedPayload_nmea := PBLocAPINmeaSerializedPayload_nmea
           pbLocApiNmeaSerPayload\<rparr>)]"

definition pbConvertToGnssDataNotification :: "PBGnssDataNotification \<Rightarrow> GnssDataNotification
    step" where
  "pbConvertToGnssDataNotification pbGnssDataNotif = steps
    [assign (\<lambda>gnssDataNotif. gnssDataNotif\<lparr>GnssDataNotification_size :=
        sizeof_GnssDataNotification\<rparr>),
     for_loop (unat ((min (PBGnssDataNotification_numberSignalTypes pbGnssDataNotif)
         GNSS_LOC_MAX_NUMBER_OF_SIGNAL_TYPES))) (\<lambda>i.
       steps [with_elem (PBGnssDataNotification_gnssDataMask pbGnssDataNotif) i (\<lambda>e1.
       at_index GnssDataNotification_gnssDataMask (\<lambda>v p.
           p\<lparr>GnssDataNotification_gnssDataMask := v\<rparr>) i
       (assign (\<lambda>_. getGnssDataMaskFromPB e1))),
       with_elem (PBGnssDataNotification_jammerInd pbGnssDataNotif) i (\<lambda>e1.
       at_index GnssDataNotification_jammerInd (\<lambda>v p. p\<lparr>GnssDataNotification_jammerInd :=
           v\<rparr>) i
       (assign (\<lambda>_. e1))),
       with_elem (PBGnssDataNotification_agc pbGnssDataNotif) i (\<lambda>e1.
       at_index GnssDataNotification_agc (\<lambda>v p. p\<lparr>GnssDataNotification_agc := v\<rparr>) i
       (assign (\<lambda>_. e1)))])]"

definition pbConvertToGnssMeasurementsData :: "PBGnssMeasurementsData \<Rightarrow> GnssMeasurementsData
    step" where
  "pbConvertToGnssMeasurementsData pbGnssMeasData = steps
    [assign (\<lambda>gnssMeasData. gnssMeasData\<lparr>GnssMeasurementsData_size :=
        sizeof_GnssMeasurementsData,
       GnssMeasurementsData_flags := getGnssMeasurementsDataFlagsMaskFromPB
           (PBGnssMeasurementsData_flags pbGnssMeasData),
       GnssMeasurementsData_svId := ucast (PBGnssMeasurementsData_svId pbGnssMeasData),
       GnssMeasurementsData_svType := getGnssSvTypeFromPBGnssLocSvSystemEnumType
           (PBGnssMeasurementsData_svType pbGnssMeasData),
       GnssMeasurementsData_timeOffsetNs := PBGnssMeasurementsData_timeOffsetNs pbGnssMeasData,
       GnssMeasurementsData_stateMask := PBGnssMeasurementsData_stateMask pbGnssMeasData,
       GnssMeasurementsData_receivedSvTimeNs := PBGnssMeasurementsData_receivedSvTimeNs pbGnssMeasData,
       GnssMeasurementsData_receivedSvTimeUncertaintyNs :=
           PBGnssMeasurementsData_receivedSvTimeUncertaintyNs pbGnssMeasData,
       GnssMeasurementsData_carrierToNoiseDbHz := PBGnssMeasurementsData_carrierToNoiseDbHz
           pbGnssMeasData,
       GnssMeasurementsData_pseudorangeRateMps := PBGnssMeasurementsData_pseudorangeRateMps
           pbGnssMeasData,
       GnssMeasurementsData_pseudorangeRateUncertaintyMps :=
           PBGnssMeasurementsData_pseudorangeRateUncertaintyMps pbGnssMeasData,
       GnssMeasurementsData_adrStateMask := ucast (getGnssMeasurementsAdrStateMaskFromPB
           (PBGnssMeasurementsData_adrStateMask pbGnssMeasData)),
       GnssMeasurementsData_adrMeters := PBGnssMeasurementsData_adrMeters pbGnssMeasData,
       GnssMeasurementsData_adrUncertaintyMeters := PBGnssMeasurementsData_adrUncertaintyMeters
           pbGnssMeasData,
       GnssMeasurementsData_carrierFrequencyHz := PBGnssMeasurementsData_carrierFrequencyHz
           pbGnssMeasData,
       GnssMeasurementsData_carrierCycles := PBGnssMeasurementsData_carrierCycles pbGnssMeasData,
       GnssMeasurementsData_carrierPhase := PBGnssMeasurementsData_carrierPhase pbGnssMeasData,
       GnssMeasurementsData_carrierPhaseUncertainty := PBGnssMeasurementsData_carrierPhaseUncertainty
           pbGnssMeasData,
       GnssMeasurementsData_multipathIndicator := getEnumForPBGnssMeasMultipathIndic
           (PBGnssMeasurementsData_multipathIndicator pbGnssMeasData),
       GnssMeasurementsData_signalToNoiseRatioDb := PBGnssMeasurementsData_signalToNoiseRatioDb
           pbGnssMeasData,
       GnssMeasurementsData_agcLevelDb := PBGnssMeasurementsData_agcLevelDb pbGnssMeasData,
       GnssMeasurementsData_basebandCarrierToNoiseDbHz :=
           PBGnssMeasurementsData_basebandCarrierToNoiseDbHz pbGnssMeasData,
       GnssMeasurementsData_gnssSignalType := getGnssSignalTypeMaskFromPB
           (PBGnssMeasurementsData_gnssSignalType pbGnssMeasData),
       GnssMeasurementsData_fullInterSignalBiasNs := PBGnssMeasurementsData_fullInterSignalBiasNs
           pbGnssMeasData,
       GnssMeasurementsData_fullInterSignalBiasUncertaintyNs :=
           PBGnssMeasurementsData_fullInterSignalBiasUncertaintyNs pbGnssMeasData,
       GnssMeasurementsData_cycleSlipCount := ucast (PBGnssMeasurementsData_cycleSlipCount
           pbGnssMeasData)\<rparr>)]"

definition pbConvertToGnssMeasurementsClock :: "PBGnssMeasurementsClock \<Rightarrow>
    GnssMeasurementsClock step" where
  "pbConvertToGnssMeasurementsClock pbGnssMeasClock = steps
    [assign (\<lambda>gnssMeasClock. gnssMeasClock\<lparr>GnssMeasurementsClock_size :=
        sizeof_GnssMeasurementsClock,
       GnssMeasurementsClock_flags := getGnssMeasurementsClockFlagsMaskFromPB
           (PBGnssMeasurementsClock_flags pbGnssMeasClock),
       GnssMeasurementsClock_leapSecond := ucast (PBGnssMeasurementsClock_leapSecond pbGnssMeasClock),
       GnssMeasurementsClock_timeNs := PBGnssMeasurementsClock_timeNs pbGnssMeasClock,
       GnssMeasurementsClock_timeUncertaintyNs := PBGnssMeasurementsClock_timeUncertaintyNs
           pbGnssMeasClock,
       GnssMeasurementsClock_fullBiasNs := PBGnssMeasurementsClock_fullBiasNs pbGnssMeasClock,
       GnssMeasurementsClock_biasNs := PBGnssMeasurementsClock_biasNs pbGnssMeasClock,
       GnssMeasurementsClock_biasUncertaintyNs := PBGnssMeasurementsClock_biasUncertaintyNs
           pbGnssMeasClock,
       GnssMeasurementsClock_driftNsps := PBGnssMeasurementsClock_driftNsps pbGnssMeasClock,
       GnssMeasurementsClock_driftUncertaintyNsps := PBGnssMeasurementsClock_driftUncertaintyNsps
           pbGnssMeasClock,
       GnssMeasurementsClock_hwClockDiscontinuityCount :=
           PBGnssMeasurementsClock_hwClockDiscontinuityCount pbGnssMeasClock\<rparr>)]"

definition pbConvertToGnssMeasNotification :: "PBGnssMeasurementsNotification \<Rightarrow>
    GnssMeasurementsNotification step" where
  "pbConvertToGnssMeasNotification pbGnssMeasNotif = steps
    [assign (\<lambda>gnssMeasNotif. gnssMeasNotif\<lparr>GnssMeasurementsNotification_size :=
        sizeof_GnssMeasurementsNotification,
       GnssMeasurementsNotification_count := (word_of_nat (length
           (PBGnssMeasurementsNotification_measurements pbGnssMeasNotif)) :: 32 word)\<rparr>),
     for_loop (unat ((word_of_nat (length (PBGnssMeasurementsNotification_measurements pbGnssMeasNotif))
         :: 32 word))) (\<lambda>i.
       with_elem (PBGnssMeasurementsNotification_measurements pbGnssMeasNotif) i (\<lambda>e1.
       at_index GnssMeasurementsNotification_measurements (\<lambda>v p.
           p\<lparr>GnssMeasurementsNotification_measurements := v\<rparr>) i
       (pbConvertToGnssMeasurementsData e1))),
     sub_struct GnssMeasurementsNotification_clock (\<lambda>v p.
         p\<lparr>GnssMeasurementsNotification_clock := v\<rparr>)
       (pbConvertToGnssMeasurementsClock (PBGnssMeasurementsNotification_clock pbGnssMeasNotif))]"

definition pbConvertToLeapSecChgInfo :: "PBLeapSecondChangeInfo \<Rightarrow> LeapSecondChangeInfo step"
    where
  "pbConvertToLeapSecChgInfo pbLeapSecChgInfo = steps
    [sub_struct LeapSecondChangeInfo_gpsTimestampLsChange (\<lambda>v p.
        p\<lparr>LeapSecondChangeInfo_gpsTimestampLsChange := v\<rparr>)
       (pbConvertToGnssSystemTimeStructType (PBLeapSecondChangeInfo_gpsTimestampLsChange
           pbLeapSecChgInfo)),
     assign (\<lambda>leapSecChgInfo. leapSecChgInfo\<lparr>LeapSecondChangeInfo_leapSecondsBeforeChange
         := ucast (PBLeapSecondChangeInfo_leapSecondsBeforeChange pbLeapSecChgInfo),
       LeapSecondChangeInfo_leapSecondsAfterChange := ucast
           (PBLeapSecondChangeInfo_leapSecondsAfterChange pbLeapSecChgInfo)\<rparr>)]"

definition pbConvertToLeapSecSysInfo :: "PBLeapSecondSystemInfo \<Rightarrow> LeapSecondSystemInfo step"
    where
  "pbConvertToLeapSecSysInfo pbLeapSecSysInfo = steps
    [assign (\<lambda>leapSecSysInfo. leapSecSysInfo\<lparr>LeapSecondSystemInfo_leapSecondInfoMask :=
        getLeapSecSysInfoMaskFromPB (PBLeapSecondSystemInfo_leapSecondInfoMask pbLeapSecSysInfo),
       LeapSecondSystemInfo_leapSecondCurrent := ucast (PBLeapSecondSystemInfo_leapSecondCurrent
           pbLeapSecSysInfo)\<rparr>),
     sub_struct LeapSecondSystemInfo_leapSecondChangeInfo (\<lambda>v p.
         p\<lparr>LeapSecondSystemInfo_leapSecondChangeInfo := v\<rparr>)
       (pbConvertToLeapSecChgInfo (PBLeapSecondSystemInfo_leapSecondChangeInfo pbLeapSecSysInfo))]"

definition pbConvertToLocationSystemInfo :: "PBLocationSystemInfo \<Rightarrow> LocationSystemInfo step"
    where
  "pbConvertToLocationSystemInfo pbLocSysInfo = steps
    [assign (\<lambda>locSysInfo. locSysInfo\<lparr>LocationSystemInfo_systemInfoMask :=
        getLocationSystemInfoMaskFromPB (PBLocationSystemInfo_systemInfoMask pbLocSysInfo)\<rparr>),
     sub_struct LocationSystemInfo_leapSecondSysInfo (\<lambda>v p.
         p\<lparr>LocationSystemInfo_leapSecondSysInfo := v\<rparr>)
       (pbConvertToLeapSecSysInfo (PBLocationSystemInfo_leapSecondSysInfo pbLocSysInfo))]"

definition pbConvertToLocationOptions :: "PBLocationOptions \<Rightarrow> LocationOptions step" where
  "pbConvertToLocationOptions pbLocOpt = steps
    [assign (\<lambda>locOpt. locOpt\<lparr>LocationOptions_size := sizeof_LocationOptions,
       LocationOptions_minInterval := PBLocationOptions_minInterval pbLocOpt,
       LocationOptions_minDistance := PBLocationOptions_minDistance pbLocOpt,
       LocationOptions_mode := getEnumForPBGnssSuplMode (PBLocationOptions_mode pbLocOpt),
       LocationOptions_locReqEngTypeMask := getLocReqEngineTypeMaskFromPB
           (PBLocationOptions_locReqEngTypeMask pbLocOpt)\<rparr>)]"

definition pbConvertToGeofenceOption :: "PBGeofenceOption \<Rightarrow> GeofenceOption step" where
  "pbConvertToGeofenceOption pbGfOpt = steps
    [assign (\<lambda>gfOpt. gfOpt\<lparr>GeofenceOption_size := sizeof_GeofenceOption,
       GeofenceOption_breachTypeMask := ucast (getGfBreachTypeMaskFromPB
           (PBGeofenceOption_breachTypeMask pbGfOpt)),
       GeofenceOption_responsiveness := PBGeofenceOption_responsiveness pbGfOpt,
       GeofenceOption_dwellTime := PBGeofenceOption_dwellTime pbGfOpt\<rparr>)]"

definition pbConvertToGeofenceInfo :: "PBGeofenceInfo \<Rightarrow> GeofenceInfo step" where
  "pbConvertToGeofenceInfo pbGfInfo = steps
    [assign (\<lambda>gfInfo. gfInfo\<lparr>GeofenceInfo_size := sizeof_GeofenceInfo,
       GeofenceInfo_latitude := PBGeofenceInfo_latitude pbGfInfo,
       GeofenceInfo_longitude := PBGeofenceInfo_longitude pbGfInfo,
       GeofenceInfo_radius := PBGeofenceInfo_radius pbGfInfo\<rparr>)]"

definition pbConvertToGfAddReqPayload :: "PBGeofencesAddedReqPayload \<Rightarrow>
    GeofencesAddedReqPayload step" where
  "pbConvertToGfAddReqPayload pbGfAddReqPload = steps
    [assign (\<lambda>gfAddReqPload. gfAddReqPload\<lparr>GeofencesAddedReqPayload_count := (word_of_nat
        (length (PBGeofencesAddedReqPayload_gfPayload pbGfAddReqPload)) :: 32 word)\<rparr>),
     for_loop (unat ((word_of_nat (length (PBGeofencesAddedReqPayload_gfPayload pbGfAddReqPload)) :: 32
         word))) (\<lambda>i.
       with_elem (PBGeofencesAddedReqPayload_gfPayload pbGfAddReqPload) i (\<lambda>pbGfPayload.
       at_index GeofencesAddedReqPayload_gfPayload (\<lambda>v p.
           p\<lparr>GeofencesAddedReqPayload_gfPayload := v\<rparr>) i
       (steps [assign (\<lambda>p. p\<lparr>GeofencePayload_gfClientId := PBGeofencePayload_gfClientId
           pbGfPayload\<rparr>),
       sub_struct GeofencePayload_gfOption (\<lambda>v p. p\<lparr>GeofencePayload_gfOption := v\<rparr>)
       (pbConvertToGeofenceOption (PBGeofencePayload_gfOption pbGfPayload)),
       sub_struct GeofencePayload_gfInfo (\<lambda>v p. p\<lparr>GeofencePayload_gfInfo := v\<rparr>)
       (pbConvertToGeofenceInfo (PBGeofencePayload_gfInfo pbGfPayload))])))]"

definition pbConvertToGfReqClientIdPayload :: "PBGeofencesReqClientIdPayload \<Rightarrow>
    GeofencesReqClientIdPayload step" where
  "pbConvertToGfReqClientIdPayload pbGfReqClientIdPload = steps
    [assign (\<lambda>gfReqClientIdPload. gfReqClientIdPload\<lparr>GeofencesReqClientIdPayload_count :=
        word_of_nat (length (PBGeofencesReqClientIdPayload_gfIds pbGfReqClientIdPload))\<rparr>),
     look (\<lambda>gfReqClientIdPload. for_loop (unat ((GeofencesReqClientIdPayload_count
         gfReqClientIdPload))) (\<lambda>i.
       with_elem (PBGeofencesReqClientIdPayload_gfIds pbGfReqClientIdPload) i (\<lambda>e1.
       at_index GeofencesReqClientIdPayload_gfIds (\<lambda>v p.
           p\<lparr>GeofencesReqClientIdPayload_gfIds := v\<rparr>) i
       (assign (\<lambda>_. e1)))))]"

definition pbConvertToGnssSvTypeConfig :: "PBGnssSvTypeConfig \<Rightarrow> GnssSvTypeConfig step" where
  "pbConvertToGnssSvTypeConfig pbGnssSvTypeConfig = steps
    [assign (\<lambda>gnssSvTypeConfig. gnssSvTypeConfig\<lparr>GnssSvTypeConfig_size :=
        sizeof_GnssSvTypeConfig,
       GnssSvTypeConfig_enabledSvTypesMask := getGnssSvTypesMaskFromPB
           (PBGnssSvTypeConfig_enabledSvTypesMask pbGnssSvTypeConfig),
       GnssSvTypeConfig_blacklistedSvTypesMask := getGnssSvTypesMaskFromPB
           (PBGnssSvTypeConfig_blacklistedSvTypesMask pbGnssSvTypeConfig)\<rparr>)]"

definition pbConvertToGnssSvIdConfig :: "PBGnssSvIdConfig \<Rightarrow> GnssSvIdConfig step" where
  "pbConvertToGnssSvIdConfig pbGnssSvIdConfig = steps
    [assign (\<lambda>gnssSvIdConfig. gnssSvIdConfig\<lparr>GnssSvIdConfig_size := sizeof_GnssSvIdConfig,
       GnssSvIdConfig_gloBlacklistSvMask := PBGnssSvIdConfig_gloBlacklistSvMask pbGnssSvIdConfig,
       GnssSvIdConfig_bdsBlacklistSvMask := PBGnssSvIdConfig_bdsBlacklistSvMask pbGnssSvIdConfig,
       GnssSvIdConfig_qzssBlacklistSvMask := PBGnssSvIdConfig_qzssBlacklistSvMask pbGnssSvIdConfig,
       GnssSvIdConfig_galBlacklistSvMask := PBGnssSvIdConfig_galBlacklistSvMask pbGnssSvIdConfig,
       GnssSvIdConfig_sbasBlacklistSvMask := PBGnssSvIdConfig_sbasBlacklistSvMask pbGnssSvIdConfig,
       GnssSvIdConfig_navicBlacklistSvMask := PBGnssSvIdConfig_navicBlacklistSvMask
           pbGnssSvIdConfig\<rparr>)]"

definition pbConvertToGnssAidingData :: "PBAidingData \<Rightarrow> GnssAidingData step" where
  "pbConvertToGnssAidingData pbGnssAidData = steps
    [assign (\<lambda>gnssAidData. gnssAidData\<lparr>GnssAidingData_deleteAll := PBAidingData_deleteAll
        pbGnssAidData\<rparr>),
     sub_struct GnssAidingData_sv (\<lambda>v p. p\<lparr>GnssAidingData_sv := v\<rparr>)
       (assign (\<lambda>p. p\<lparr>GnssAidingDataSv_svMask := getGnssAidingDataSvMaskFromPB
           (PBAidingData_gnssAidingDataSvMask pbGnssAidData)\<rparr>)),
     assign (\<lambda>gnssAidData. gnssAidData\<lparr>GnssAidingData_dreAidingDataMask :=
         getDrEngineAidingDataMaskFromPB (PBAidingData_dreAidingDataMask pbGnssAidData),
       GnssAidingData_posEngineMask := getEnumForPBPositioningEngineMask (PBAidingData_posEngineMask
           pbGnssAidData)\<rparr>)]"

definition pbConvertToLeverArmParams :: "PBLIALeverArmParams \<Rightarrow> LeverArmParams step" where
  "pbConvertToLeverArmParams pbLeverArmParams = steps
    [assign (\<lambda>leverArmParams. leverArmParams\<lparr>LeverArmParams_forwardOffsetMeters :=
        PBLIALeverArmParams_forwardOffsetMeters pbLeverArmParams,
       LeverArmParams_sidewaysOffsetMeters := PBLIALeverArmParams_sidewaysOffsetMeters pbLeverArmParams,
       LeverArmParams_upOffsetMeters := PBLIALeverArmParams_upOffsetMeters pbLeverArmParams\<rparr>)]"

definition pbConvertToLeverArmConfigInfo :: "PBLIALeverArmConfigInfo \<Rightarrow> LeverArmConfigInfo
    step" where
  "pbConvertToLeverArmConfigInfo pbLeverArmCfgInfo = steps
    [assign (\<lambda>leverArmCfgInfo. leverArmCfgInfo\<lparr>LeverArmConfigInfo_leverArmValidMask :=
        getLeverArmTypeMaskFromPB (PBLIALeverArmConfigInfo_leverArmValidMask pbLeverArmCfgInfo)\<rparr>),
     sub_struct LeverArmConfigInfo_gnssToVRP (\<lambda>v p. p\<lparr>LeverArmConfigInfo_gnssToVRP :=
         v\<rparr>)
       (pbConvertToLeverArmParams (PBLIALeverArmConfigInfo_gnssToVRP pbLeverArmCfgInfo)),
     sub_struct LeverArmConfigInfo_drImuToGnss (\<lambda>v p. p\<lparr>LeverArmConfigInfo_drImuToGnss :=
         v\<rparr>)
       (pbConvertToLeverArmParams (PBLIALeverArmConfigInfo_drImuToGnss pbLeverArmCfgInfo)),
     sub_struct LeverArmConfigInfo_veppImuToGnss (\<lambda>v p.
         p\<lparr>LeverArmConfigInfo_veppImuToGnss := v\<rparr>)
       (pbConvertToLeverArmParams (PBLIALeverArmConfigInfo_veppImuToGnss pbLeverArmCfgInfo))]"

definition pbConvertToBodyToSensorMountParams :: "PBLIABodyToSensorMountParams \<Rightarrow>
    BodyToSensorMountParams step" where
  "pbConvertToBodyToSensorMountParams pbBody2SensorMntParam = steps
    [assign (\<lambda>body2SensorMntParam. body2SensorMntParam\<lparr>BodyToSensorMountParams_rollOffset
        := PBLIABodyToSensorMountParams_rollOffset pbBody2SensorMntParam,
       BodyToSensorMountParams_yawOffset := PBLIABodyToSensorMountParams_yawOffset pbBody2SensorMntParam,
       BodyToSensorMountParams_pitchOffset := PBLIABodyToSensorMountParams_pitchOffset
           pbBody2SensorMntParam,
       BodyToSensorMountParams_offsetUnc := PBLIABodyToSensorMountParams_offsetUnc
           pbBody2SensorMntParam\<rparr>)]"

definition pbConvertToDeadReckoningEngineConfig :: "PBDeadReckoningEngineConfig \<Rightarrow>
    DeadReckoningEngineConfig step" where
  "pbConvertToDeadReckoningEngineConfig pbDrEngConfig = steps
    [assign (\<lambda>drEngConfig. drEngConfig\<lparr>DeadReckoningEngineConfig_validMask :=
        getDeadReckoningEngineConfigValidMaskFromPB (PBDeadReckoningEngineConfig_validMask
        pbDrEngConfig)\<rparr>),
     sub_struct DeadReckoningEngineConfig_bodyToSensorMountParams (\<lambda>v p.
         p\<lparr>DeadReckoningEngineConfig_bodyToSensorMountParams := v\<rparr>)
       (pbConvertToBodyToSensorMountParams (PBDeadReckoningEngineConfig_bodyToSensorMountParams
           pbDrEngConfig)),
     assign (\<lambda>drEngConfig. drEngConfig\<lparr>DeadReckoningEngineConfig_vehicleSpeedScaleFactor
         := PBDeadReckoningEngineConfig_vehicleSpeedScaleFactor pbDrEngConfig,
       DeadReckoningEngineConfig_vehicleSpeedScaleFactorUnc :=
           PBDeadReckoningEngineConfig_vehicleSpeedScaleFactorUnc pbDrEngConfig,
       DeadReckoningEngineConfig_gyroScaleFactor := PBDeadReckoningEngineConfig_gyroScaleFactor
           pbDrEngConfig,
       DeadReckoningEngineConfig_gyroScaleFactorUnc := PBDeadReckoningEngineConfig_gyroScaleFactorUnc
           pbDrEngConfig\<rparr>)]"

end
