(* ===== verification/PbCodec.thy ===== *)
theory PbCodec
  imports PbSteps
begin

text \<open>
  The contract of a pair of structure converters.  \<^verbatim>\<open>codec\<close>: the encoder needs a fixed number of accessor
  calls, returns 1 exactly when it does not get them, and what it produces decodes, on any memory, to
  what the pair carries.  \<^verbatim>\<open>lens\<close>: a field that is read and written.  \<^verbatim>\<open>array_codec\<close>: the two loops that
  send the elements of an array as a repeated field and receive them again.
\<close>

section \<open>Fields\<close>

locale lens =
  fixes get :: "'s \<Rightarrow> 'v" and put :: "'v \<Rightarrow> 's \<Rightarrow> 's"
  assumes get_put [simp]: "get (put v s) = v"
    and put_put [simp]: "put v (put w s) = put v s"
    and put_get [simp]: "put (get s) s = s"

section \<open>Converter pairs\<close>

locale codec =
  fixes enc :: "'a \<Rightarrow> 'p option \<Rightarrow> nat \<Rightarrow> pb_error + 'p \<times> nat"
    and dec :: "'p \<Rightarrow> 'a step"
    and cost :: nat
    and carried :: "'a \<Rightarrow> 'a \<Rightarrow> 'a"
  assumes enc_null: "enc x None n = Inl ReturnOne"
    and enc_short: "n < cost \<Longrightarrow> enc x (Some p) n = Inl ReturnOne"
    and enc_dec: "\<exists>q. (\<forall>n \<ge> cost. enc x (Some p) n = Inr (q, n - cost))
      \<and> (\<forall>y k. dec q y k = Inr (carried x y, k))"
begin

text \<open>The converter of a part, called from the converter of the whole.\<close>

lemma sub_message_dec:
  "\<exists>q. (\<forall>n > cost. sub_message get put (\<lambda>v. enc x (Some v)) s n = Inr (put q s, n - Suc cost))
     \<and> (\<forall>y k. dec q y k = Inr (carried x y, k))"
proof -
  obtain q where q: "\<And>n. cost \<le> n \<Longrightarrow> enc x (Some (get s)) n = Inr (q, n - cost)"
    and d: "\<And>y k. dec q y k = Inr (carried x y, k)" using enc_dec [of x "get s"] by blast
  have "sub_message get put (\<lambda>v. enc x (Some v)) s n = Inr (put q s, n - Suc cost)" if "cost < n" for n
    using that q by (cases n) (auto simp: sub_message_def sub_struct_def)
  with d show ?thesis by blast
qed

lemma sub_message_short:
  "n \<le> cost \<Longrightarrow> sub_message get put (\<lambda>v. enc x (Some v)) s n = Inl ReturnOne"
  by (cases n) (auto simp: sub_message_def sub_struct_def enc_short)

end

section \<open>Arrays and repeated fields\<close>

text \<open>The array of a receiver: the elements that travelled, and behind them what was there.\<close>

definition received :: "('a \<Rightarrow> 'a \<Rightarrow> 'a) \<Rightarrow> nat \<Rightarrow> 'a list \<Rightarrow> 'a list \<Rightarrow> 'a list" where
  "received car m xs ys = map (\<lambda>i. car (xs ! i) (ys ! i)) [0..<m] @ drop m ys"

locale array_codec = codec enc dec cost carried + wire: lens wget wput + hal: lens hget hput
  for enc :: "'a \<Rightarrow> 'p option \<Rightarrow> nat \<Rightarrow> pb_error + 'p \<times> nat"
    and dec :: "'p \<Rightarrow> 'a step"
    and cost :: nat
    and carried :: "'a \<Rightarrow> 'a \<Rightarrow> 'a"
    and wget :: "'m \<Rightarrow> 'p list" and wput :: "'p list \<Rightarrow> 'm \<Rightarrow> 'm"
    and hget :: "'s \<Rightarrow> 'a list" and hput :: "'a list \<Rightarrow> 's \<Rightarrow> 's"
begin

text \<open>The loop that sends the first elements of an array: it appends messages that decode to what the
  elements carry, and takes one accessor call more for each of them than the converter.\<close>

lemma send_elem:
  assumes "m < length xs"
  shows "\<exists>q. (\<forall>s. \<forall>n > cost. with_elem xs m (\<lambda>x. add_message d wget wput (\<lambda>v. enc x (Some v))) s n
            = Inr (wput (wget s @ [q]) s, n - Suc cost))
       \<and> (\<forall>y k. dec q y k = Inr (carried (xs ! m) y, k))"
proof -
  obtain q where q: "\<forall>n \<ge> cost. enc (xs ! m) (Some d) n = Inr (q, n - cost)"
      "\<forall>y k. dec q y k = Inr (carried (xs ! m) y, k)"
    using enc_dec [of "xs ! m" d] by blast
  have "with_elem xs m (\<lambda>x. add_message d wget wput (\<lambda>v. enc x (Some v))) s n
            = Inr (wput (wget s @ [q]) s, n - Suc cost)" if "cost < n" for s n
    using that q(1) assms by (cases n) (auto simp: with_elem_def add_message_def sub_message_def sub_struct_def)
  with q(2) show ?thesis by blast
qed

lemma send_loop:
  assumes "m \<le> length xs"
  shows "\<exists>qs. (\<forall>s. \<forall>n \<ge> m * Suc cost.
           for_loop m (\<lambda>i. with_elem xs i (\<lambda>x. add_message d wget wput (\<lambda>v. enc x (Some v)))) s n
             = Inr (wput (wget s @ qs) s, n - m * Suc cost))
       \<and> length qs = m \<and> (\<forall>i<m. \<forall>y k. dec (qs ! i) y k = Inr (carried (xs ! i) y, k))"
  using assms
proof (induction m)
  case (Suc m)
  then obtain qs where qs: "\<And>s n. m * Suc cost \<le> n \<Longrightarrow>
        for_loop m (\<lambda>i. with_elem xs i (\<lambda>x. add_message d wget wput (\<lambda>v. enc x (Some v)))) s n
           = Inr (wput (wget s @ qs) s, n - m * Suc cost)" "length qs = m"
      "\<forall>i<m. \<forall>y k. dec (qs ! i) y k = Inr (carried (xs ! i) y, k)"
    by auto
  obtain q where q: "\<forall>s. \<forall>n > cost. with_elem xs m (\<lambda>x. add_message d wget wput (\<lambda>v. enc x (Some v))) s n
        = Inr (wput (wget s @ [q]) s, n - Suc cost)" "\<forall>y k. dec q y k = Inr (carried (xs ! m) y, k)"
    using send_elem [of m xs d] Suc.prems by auto
  have "for_loop (Suc m) (\<lambda>i. with_elem xs i (\<lambda>x. add_message d wget wput (\<lambda>v. enc x (Some v)))) s n
      = Inr (wput (wget s @ qs @ [q]) s, n - Suc m * Suc cost)" if "Suc m * Suc cost \<le> n" for s n
  proof -
    from that have "m * Suc cost \<le> n" "cost < n - m * Suc cost"
      and e: "n - m * Suc cost - Suc cost = n - Suc m * Suc cost"
      by (simp_all add: less_diff_conv)
    then show ?thesis
      unfolding for_loop_Suc qs(1) [OF \<open>m * Suc cost \<le> n\<close>] sum.case prod.case
      using q(1) e by simp
  qed
  with q(2) qs(2,3) show ?case
    by (intro exI [of _ "qs @ [q]"]) (auto simp: nth_append less_Suc_eq)
qed (auto intro!: exI [of _ "[]"])

text \<open>The loop that receives the first elements of a repeated field, when the array has room for them,
  and when it has not.\<close>

lemma receive_loop:
  assumes "m \<le> length qs" "m \<le> length (hget s)"
    and "\<And>i y k. i < m \<Longrightarrow> dec (qs ! i) y k = Inr (carried (xs ! i) y, k)"
  shows "for_loop m (\<lambda>i. with_elem qs i (\<lambda>q. at_index hget hput i (dec q))) s n
     = Inr (hput (received carried m xs (hget s)) s, n)"
  using assms
proof (induction m)
  case (Suc m)
  have "(received carried m xs (hget s))[m := v]
      = map (\<lambda>i. carried (xs ! i) (hget s ! i)) [0..<m] @ v # drop (Suc m) (hget s)" for v
    using Suc.prems(2) by (simp add: received_def list_update_append Cons_nth_drop_Suc [symmetric])
  moreover have "received carried m xs (hget s) ! m = hget s ! m" "m < length (received carried m xs (hget s))"
    using Suc.prems(2) by (simp_all add: received_def nth_append)
  ultimately show ?case using Suc
    by (simp add: for_loop_Suc with_elem_def at_index_def sub_struct_def received_def)
qed (simp add: received_def)

lemma receive_overrun:
  assumes "length (hget s) < m" "m \<le> length qs"
    and "\<And>i y k. i < length (hget s) \<Longrightarrow> dec (qs ! i) y k = Inr (carried (xs ! i) y, k)"
  shows "for_loop m (\<lambda>i. with_elem qs i (\<lambda>q. at_index hget hput i (dec q))) s n = Inl OutOfBounds"
proof (rule for_loop_fails [OF assms(1)])
  show "for_loop (length (hget s)) (\<lambda>i. with_elem qs i (\<lambda>q. at_index hget hput i (dec q))) s n
     = Inr (hput (received carried (length (hget s)) xs (hget s)) s, n)"
    by (rule receive_loop) (use assms in auto)
qed (use assms in \<open>simp add: with_elem_def at_index_def received_def\<close>)

text \<open>Both loops: what is sent is received, unless the array of the receiver is too small.\<close>

lemma transfer:
  assumes "m \<le> length xs"
  shows "\<exists>qs. (\<forall>s. \<forall>n \<ge> m * Suc cost.
           for_loop m (\<lambda>i. with_elem xs i (\<lambda>x. add_message d wget wput (\<lambda>v. enc x (Some v)))) s n
             = Inr (wput (wget s @ qs) s, n - m * Suc cost))
       \<and> length qs = m
       \<and> (\<forall>s n. for_loop m (\<lambda>i. with_elem qs i (\<lambda>q. at_index hget hput i (dec q))) s n
             = (if m \<le> length (hget s) then Inr (hput (received carried m xs (hget s)) s, n) else Inl OutOfBounds))"
proof -
  obtain qs where qs: "\<forall>s. \<forall>n \<ge> m * Suc cost.
           for_loop m (\<lambda>i. with_elem xs i (\<lambda>x. add_message d wget wput (\<lambda>v. enc x (Some v)))) s n
             = Inr (wput (wget s @ qs) s, n - m * Suc cost)"
      "length qs = m" "\<forall>i<m. \<forall>y k. dec (qs ! i) y k = Inr (carried (xs ! i) y, k)"
    using send_loop [OF assms, of d] by blast
  have "for_loop m (\<lambda>i. with_elem qs i (\<lambda>q. at_index hget hput i (dec q))) s n
      = (if m \<le> length (hget s) then Inr (hput (received carried m xs (hget s)) s, n) else Inl OutOfBounds)" for s n
    using receive_loop [of m qs s xs n] receive_overrun [of s m qs xs n] qs(2,3) by simp
  with qs show ?thesis by blast
qed

end

section \<open>Arrays of numbers\<close>

lemma send_numbers:
  assumes "lens get put" "m \<le> length xs"
  shows "for_loop m (\<lambda>i. with_elem xs i (\<lambda>e. assign (\<lambda>p. put (get p @ [f e]) p))) s n
     = Inr (put (get s @ map f (take m xs)) s, n)"
  using assms(2)
proof (induction m)
  case (Suc m)
  with assms(1) show ?case
    by (simp add: for_loop_Suc with_elem_def assign_def lens_def take_Suc_conv_app_nth)
qed (use assms(1) in \<open>simp add: lens_def\<close>)

lemma receive_numbers:
  assumes "lens get put" "m \<le> length qs" "m \<le> length (get s)"
  shows "for_loop m (\<lambda>i. with_elem qs i (\<lambda>e. at_index get put i (assign (\<lambda>_. f e)))) s n
     = Inr (put (map f (take m qs) @ drop m (get s)) s, n)"
  using assms(2,3)
proof (induction m)
  case (Suc m)
  have "(map f (take m qs) @ drop m (get s))[m := v] = map f (take m qs) @ v # drop (Suc m) (get s)" for v
    using Suc.prems by (simp add: list_update_append Cons_nth_drop_Suc [symmetric])
  with Suc assms(1) show ?case
    by (simp add: for_loop_Suc with_elem_def at_index_def sub_struct_def assign_def lens_def take_Suc_conv_app_nth)
qed (use assms(1) in \<open>simp add: lens_def\<close>)

lemma receive_numbers_overrun:
  assumes "lens get put" "length (get s) < m" "m \<le> length qs"
  shows "for_loop m (\<lambda>i. with_elem qs i (\<lambda>e. at_index get put i (assign (\<lambda>_. f e)))) s n = Inl OutOfBounds"
  using receive_numbers [OF assms(1), of "length (get s)" qs s f n] assms
  by (intro for_loop_fails [OF assms(2)]) (auto simp: with_elem_def at_index_def lens_def)

section \<open>Messages from anywhere\<close>

text \<open>A receiving loop whose element converter always succeeds: it fills in the array as long as the bound
  respects the message and the array, and it leaves the array where the bound does not.\<close>

lemma receive_total:
  assumes "lens get put" "m \<le> length qs"
    and total: "\<And>q y k. \<exists>y'. dec q y k = Inr (y', k)"
  shows "if m \<le> length (get s)
    then \<exists>vs. for_loop m (\<lambda>i. with_elem qs i (\<lambda>q. at_index get put i (dec q))) s n = Inr (put vs s, n)
      \<and> length vs = length (get s)
    else for_loop m (\<lambda>i. with_elem qs i (\<lambda>q. at_index get put i (dec q))) s n = Inl OutOfBounds"
proof -
  let ?body = "\<lambda>i. with_elem qs i (\<lambda>q. at_index get put i (dec q))"
  have run: "\<exists>vs. for_loop j ?body s n = Inr (put vs s, n) \<and> length vs = length (get s)"
    if "j \<le> length qs" "j \<le> length (get s)" for j
    using that
  proof (induction j)
    case 0
    with assms(1) show ?case by (auto simp: lens_def intro: exI [of _ "get s"])
  next
    case (Suc j)
    then obtain vs where "for_loop j ?body s n = Inr (put vs s, n)" "length vs = length (get s)" by auto
    moreover obtain y where "dec (qs ! j) (vs ! j) n = Inr (y, n)" using total by blast
    then have "?body j (put vs s) n = Inr (put (vs[j := y]) s, n)" if "length vs = length (get s)"
      using that Suc.prems assms(1) by (simp add: with_elem_def at_index_def sub_struct_def lens_def)
    ultimately show ?case by (simp add: for_loop_Suc) (metis length_list_update)
  qed
  show ?thesis
  proof (cases "m \<le> length (get s)")
    case False
    then obtain vs where "for_loop (length (get s)) ?body s n = Inr (put vs s, n)" "length vs = length (get s)"
      using run [of "length (get s)"] assms(2) by auto
    moreover from this have "?body (length (get s)) (put vs s) n = Inl OutOfBounds"
      using False assms(1,2) by (simp add: with_elem_def at_index_def lens_def)
    ultimately show ?thesis using False for_loop_fails [of "length (get s)" m ?body s n] by auto
  qed (use run assms(2) in auto)
qed

text \<open>The size of a repeated field as the code reads it, an unsigned 32-bit number.\<close>

lemma size_le: "unat (word_of_nat k :: 32 word) \<le> k"
  by (simp add: unat_of_nat take_bit_nat_less_eq_self)

end
