(* ===== verification/PbMsgSpec.thy ===== *)
theory PbMsgSpec
  imports PbMsgConv PbCodec
begin

text \<open>
  What the structure converters carry.  For every pair of converters a definition \<^verbatim>\<open>carried_...\<close> says what
  the receiver's struct is after the sender's struct has been converted, sent and received: the sender's
  value with its masks cut to the bits of the wire format, and the receiver's old value in the fields
  that do not travel.  The pairs are interpretations of \<^verbatim>\<open>codec\<close>, the arrays of \<^verbatim>\<open>array_codec\<close>.
\<close>

section \<open>Widths\<close>

lemma ucast_up_down [simp]:
  "(ucast (ucast x :: 32 word) :: 8 word) = x" "(ucast (ucast x' :: 32 word) :: 16 word) = x'"
  "(ucast (scast x' :: 32 word) :: 16 word) = x'"
  for x :: "8 word" and x' :: "16 word"
  by (rule bit_word_eqI; auto simp: bit_simps)+

lemma ucast_and_down [simp]:
  "(ucast ((ucast x' :: 32 word) AND m) :: 16 word) = x' AND ucast m"
  for x' :: "16 word"
  by (rule bit_word_eqI; auto simp: bit_simps)

lemma sub_message_if:
  "sub_message get put c s n = (if n = 0 then Inl ReturnOne else sub_struct get put c s (n - 1))"
  by (cases n) (auto simp: sub_message_def)

lemmas run_simps = assign_def look_def sub_struct_def sub_message_if pb_round_trip

section \<open>Structs of plain fields\<close>

definition carried_GnssSvTypeConfig :: "GnssSvTypeConfig \<Rightarrow> GnssSvTypeConfig \<Rightarrow> GnssSvTypeConfig" where
  "carried_GnssSvTypeConfig x y = x\<lparr>GnssSvTypeConfig_size := sizeof_GnssSvTypeConfig,
     GnssSvTypeConfig_enabledSvTypesMask := GnssSvTypeConfig_enabledSvTypesMask x AND 0x3F,
     GnssSvTypeConfig_blacklistedSvTypesMask := GnssSvTypeConfig_blacklistedSvTypesMask x AND 0x3F\<rparr>"

interpretation sv_type_config: codec convertGnssSvTypeConfigToPB pbConvertToGnssSvTypeConfig 0 carried_GnssSvTypeConfig
  by unfold_locales (auto simp: convertGnssSvTypeConfigToPB_def pbConvertToGnssSvTypeConfig_def carried_GnssSvTypeConfig_def run_simps sv_types_kept)

definition carried_GnssSvIdConfig :: "GnssSvIdConfig \<Rightarrow> GnssSvIdConfig \<Rightarrow> GnssSvIdConfig" where
  "carried_GnssSvIdConfig x y = x\<lparr>GnssSvIdConfig_size := sizeof_GnssSvIdConfig\<rparr>"

interpretation sv_id_config: codec convertGnssSvIdConfigToPB pbConvertToGnssSvIdConfig 0 carried_GnssSvIdConfig
  by unfold_locales (auto simp: convertGnssSvIdConfigToPB_def pbConvertToGnssSvIdConfig_def carried_GnssSvIdConfig_def run_simps)

definition carried_GnssAidingData :: "GnssAidingData \<Rightarrow> GnssAidingData \<Rightarrow> GnssAidingData" where
  "carried_GnssAidingData x y = x\<lparr>GnssAidingData_sv := (GnssAidingData_sv y)\<lparr>GnssAidingDataSv_svMask :=
        GnssAidingDataSv_svMask (GnssAidingData_sv x) AND 0x1\<rparr>,
     GnssAidingData_common := GnssAidingData_common y,
     GnssAidingData_dreAidingDataMask := GnssAidingData_dreAidingDataMask x AND 0x1,
     GnssAidingData_posEngineMask := GnssAidingData_posEngineMask x AND 0x7\<rparr>"

interpretation aiding_data: codec convertGnssAidingDataToPB pbConvertToGnssAidingData 0 carried_GnssAidingData
  by unfold_locales (auto simp: convertGnssAidingDataToPB_def pbConvertToGnssAidingData_def carried_GnssAidingData_def run_simps)

interpretation lever_arm_params: codec convertLeverArmParamsToPB pbConvertToLeverArmParams 0 "\<lambda>x y. x"
  by unfold_locales (auto simp: convertLeverArmParamsToPB_def pbConvertToLeverArmParams_def run_simps)

definition carried_LeverArmConfigInfo :: "LeverArmConfigInfo \<Rightarrow> LeverArmConfigInfo \<Rightarrow> LeverArmConfigInfo" where
  "carried_LeverArmConfigInfo x y = x\<lparr>LeverArmConfigInfo_leverArmValidMask := LeverArmConfigInfo_leverArmValidMask x AND 0x7\<rparr>"

interpretation lever_arm: codec convertLeverArmConfigInfoToPB pbConvertToLeverArmConfigInfo 3 carried_LeverArmConfigInfo
  by unfold_locales (auto simp: convertLeverArmConfigInfoToPB_def pbConvertToLeverArmConfigInfo_def carried_LeverArmConfigInfo_def run_simps convertLeverArmParamsToPB_def pbConvertToLeverArmParams_def)

interpretation mount_params: codec convertBodyToSensorMountParamsToPB pbConvertToBodyToSensorMountParams 0 "\<lambda>x y. x"
  by unfold_locales (auto simp: convertBodyToSensorMountParamsToPB_def pbConvertToBodyToSensorMountParams_def run_simps)

definition carried_DeadReckoningEngineConfig :: "DeadReckoningEngineConfig \<Rightarrow> DeadReckoningEngineConfig \<Rightarrow> DeadReckoningEngineConfig" where
  "carried_DeadReckoningEngineConfig x y = x\<lparr>DeadReckoningEngineConfig_validMask := DeadReckoningEngineConfig_validMask x AND 0x1F\<rparr>"

interpretation dr_config: codec convertDeadReckoningEngineConfigToPB pbConvertToDeadReckoningEngineConfig 1 carried_DeadReckoningEngineConfig
  by unfold_locales (auto simp: convertDeadReckoningEngineConfigToPB_def pbConvertToDeadReckoningEngineConfig_def carried_DeadReckoningEngineConfig_def run_simps convertBodyToSensorMountParamsToPB_def pbConvertToBodyToSensorMountParams_def)

definition carried_LocationOptions :: "LocationOptions \<Rightarrow> LocationOptions \<Rightarrow> LocationOptions" where
  "carried_LocationOptions x y = x\<lparr>LocationOptions_size := sizeof_LocationOptions,
     LocationOptions_mode := getEnumForPBGnssSuplMode (getPBEnumForGnssSuplMode (LocationOptions_mode x)),
     LocationOptions_locReqEngTypeMask := LocationOptions_locReqEngTypeMask x AND 0x7\<rparr>"

interpretation location_options: codec convertLocationOptionsToPB pbConvertToLocationOptions 0 carried_LocationOptions
  by unfold_locales (auto simp: convertLocationOptionsToPB_def pbConvertToLocationOptions_def carried_LocationOptions_def run_simps)

definition carried_GeofenceOption :: "GeofenceOption \<Rightarrow> GeofenceOption \<Rightarrow> GeofenceOption" where
  "carried_GeofenceOption x y = x\<lparr>GeofenceOption_size := sizeof_GeofenceOption,
     GeofenceOption_breachTypeMask := GeofenceOption_breachTypeMask x AND 0xF\<rparr>"

interpretation geofence_option: codec convertGeofenceOptionToPB pbConvertToGeofenceOption 0 carried_GeofenceOption
  by unfold_locales (auto simp: convertGeofenceOptionToPB_def pbConvertToGeofenceOption_def carried_GeofenceOption_def run_simps)

definition carried_GeofenceInfo :: "GeofenceInfo \<Rightarrow> GeofenceInfo \<Rightarrow> GeofenceInfo" where
  "carried_GeofenceInfo x y = x\<lparr>GeofenceInfo_size := sizeof_GeofenceInfo\<rparr>"

interpretation geofence_info: codec convertGeofenceInfoToPB pbConvertToGeofenceInfo 0 carried_GeofenceInfo
  by unfold_locales (auto simp: convertGeofenceInfoToPB_def pbConvertToGeofenceInfo_def carried_GeofenceInfo_def run_simps)

definition carried_GnssConfigRobustLocation :: "GnssConfigRobustLocation \<Rightarrow> GnssConfigRobustLocation \<Rightarrow> GnssConfigRobustLocation" where
  "carried_GnssConfigRobustLocation x y = x\<lparr>GnssConfigRobustLocation_validMask := GnssConfigRobustLocation_validMask x AND 0x7\<rparr>"

interpretation robust_location: codec convertGnssConfigRobustLocationToPB pbConvertToGnssConfigRobustLocation 1 carried_GnssConfigRobustLocation
  by unfold_locales (auto simp: convertGnssConfigRobustLocationToPB_def pbConvertToGnssConfigRobustLocation_def carried_GnssConfigRobustLocation_def run_simps)

definition carried_Location :: "Location \<Rightarrow> Location \<Rightarrow> Location" where
  "carried_Location x y = x\<lparr>Location_size := sizeof_Location,
     Location_flags := Location_flags x AND 0xFF, Location_techMask := Location_techMask x AND 0x7FF,
     Location_conformityIndex := Location_conformityIndex y, Location_spoofMask := Location_spoofMask y,
     Location_elapsedRealTime := Location_elapsedRealTime y,
     Location_elapsedRealTimeUnc := Location_elapsedRealTimeUnc y\<rparr>"

interpretation location: codec convertLocationToPB pbConvertToLocation 0 carried_Location
  by unfold_locales (auto simp: convertLocationToPB_def pbConvertToLocation_def carried_Location_def run_simps)

interpretation sv_used: codec convertGnssLocSvUsedInPosToPB pbConvertToGnssLocationSvUsedInPosition 0 "\<lambda>x y. x"
  by unfold_locales (auto simp: convertGnssLocSvUsedInPosToPB_def pbConvertToGnssLocationSvUsedInPosition_def run_simps)

interpretation lla: codec convertLLAInfoToPB pbConvertToLLAInfo 0 "\<lambda>x y. x"
  by unfold_locales (auto simp: convertLLAInfoToPB_def pbConvertToLLAInfo_def run_simps)

definition carried_GnssMeasUsageInfo :: "GnssMeasUsageInfo \<Rightarrow> GnssMeasUsageInfo \<Rightarrow> GnssMeasUsageInfo" where
  "carried_GnssMeasUsageInfo x y = x\<lparr>GnssMeasUsageInfo_gnssSignalType := GnssMeasUsageInfo_gnssSignalType x AND 0x3FFFFF,
     GnssMeasUsageInfo_gnssConstellation := getEnumForPBGnssLocSvSystem
        (getPBEnumForGnssLocSvSystem (GnssMeasUsageInfo_gnssConstellation x))\<rparr>"

interpretation meas_usage: codec convertGnssMeasUsageInfoToPB pbConvertToGnssMeasUsageInfo 0 carried_GnssMeasUsageInfo
  by unfold_locales (auto simp: convertGnssMeasUsageInfoToPB_def pbConvertToGnssMeasUsageInfo_def carried_GnssMeasUsageInfo_def run_simps)

definition carried_GnssSystemTimeStructType :: "GnssSystemTimeStructType \<Rightarrow> GnssSystemTimeStructType \<Rightarrow> GnssSystemTimeStructType" where
  "carried_GnssSystemTimeStructType x y = x\<lparr>GnssSystemTimeStructType_validityMask := GnssSystemTimeStructType_validityMask x AND 0x3F\<rparr>"

interpretation system_time: codec convertGnssSystemTimeStructTypeToPB pbConvertToGnssSystemTimeStructType 0 carried_GnssSystemTimeStructType
  by unfold_locales (auto simp: convertGnssSystemTimeStructTypeToPB_def pbConvertToGnssSystemTimeStructType_def carried_GnssSystemTimeStructType_def run_simps)

lemmas system_time_defs = convertGnssSystemTimeStructTypeToPB_def pbConvertToGnssSystemTimeStructType_def carried_GnssSystemTimeStructType_def

definition carried_GnssGloTimeStructType :: "GnssGloTimeStructType \<Rightarrow> GnssGloTimeStructType \<Rightarrow> GnssGloTimeStructType" where
  "carried_GnssGloTimeStructType x y = x\<lparr>GnssGloTimeStructType_validityMask := GnssGloTimeStructType_validityMask x AND 0x7F\<rparr>"

interpretation glo_time: codec convertGnssGloTimeStructTypeToPB pbConvertToGnssGloTimeStructType 0 carried_GnssGloTimeStructType
  by unfold_locales (auto simp: convertGnssGloTimeStructTypeToPB_def pbConvertToGnssGloTimeStructType_def carried_GnssGloTimeStructType_def run_simps)

definition carried_LeapSecondChangeInfo :: "LeapSecondChangeInfo \<Rightarrow> LeapSecondChangeInfo \<Rightarrow> LeapSecondChangeInfo" where
  "carried_LeapSecondChangeInfo x y = x\<lparr>LeapSecondChangeInfo_gpsTimestampLsChange :=
        carried_GnssSystemTimeStructType (LeapSecondChangeInfo_gpsTimestampLsChange x)
          (LeapSecondChangeInfo_gpsTimestampLsChange y)\<rparr>"

interpretation leap_change: codec convertLeapSecChgInfoToPB pbConvertToLeapSecChgInfo 1 carried_LeapSecondChangeInfo
  by unfold_locales (auto simp: convertLeapSecChgInfoToPB_def pbConvertToLeapSecChgInfo_def carried_LeapSecondChangeInfo_def run_simps system_time_defs)

lemmas leap_change_defs = convertLeapSecChgInfoToPB_def pbConvertToLeapSecChgInfo_def carried_LeapSecondChangeInfo_def system_time_defs

definition carried_LeapSecondSystemInfo :: "LeapSecondSystemInfo \<Rightarrow> LeapSecondSystemInfo \<Rightarrow> LeapSecondSystemInfo" where
  "carried_LeapSecondSystemInfo x y = x\<lparr>LeapSecondSystemInfo_leapSecondInfoMask := LeapSecondSystemInfo_leapSecondInfoMask x AND 0x3,
     LeapSecondSystemInfo_leapSecondChangeInfo :=
        carried_LeapSecondChangeInfo (LeapSecondSystemInfo_leapSecondChangeInfo x)
          (LeapSecondSystemInfo_leapSecondChangeInfo y)\<rparr>"

interpretation leap_info: codec convertLeapSecondSystemInfoToPB pbConvertToLeapSecSysInfo 2 carried_LeapSecondSystemInfo
  by unfold_locales (auto simp: convertLeapSecondSystemInfoToPB_def pbConvertToLeapSecSysInfo_def carried_LeapSecondSystemInfo_def run_simps leap_change_defs)

lemmas leap_info_defs = convertLeapSecondSystemInfoToPB_def pbConvertToLeapSecSysInfo_def carried_LeapSecondSystemInfo_def leap_change_defs

definition carried_LocationSystemInfo :: "LocationSystemInfo \<Rightarrow> LocationSystemInfo \<Rightarrow> LocationSystemInfo" where
  "carried_LocationSystemInfo x y = x\<lparr>LocationSystemInfo_systemInfoMask := LocationSystemInfo_systemInfoMask x AND 0x1,
     LocationSystemInfo_leapSecondSysInfo :=
        carried_LeapSecondSystemInfo (LocationSystemInfo_leapSecondSysInfo x)
          (LocationSystemInfo_leapSecondSysInfo y)\<rparr>"

interpretation system_info: codec convertLocSysInfoToPB pbConvertToLocationSystemInfo 3 carried_LocationSystemInfo
  by unfold_locales (auto simp: convertLocSysInfoToPB_def pbConvertToLocationSystemInfo_def carried_LocationSystemInfo_def run_simps leap_info_defs)

definition carried_GnssMeasurementsData :: "GnssMeasurementsData \<Rightarrow> GnssMeasurementsData \<Rightarrow> GnssMeasurementsData" where
  "carried_GnssMeasurementsData x y = x\<lparr>GnssMeasurementsData_size := sizeof_GnssMeasurementsData,
     GnssMeasurementsData_flags := GnssMeasurementsData_flags x AND 0x4FFFFF,
     GnssMeasurementsData_svType := getGnssSvTypeFromPBGnssLocSvSystemEnumType
        (getPBGnssLocSvSysEnumFromGnssSvType (GnssMeasurementsData_svType x)),
     GnssMeasurementsData_stateMask := GnssMeasurementsData_stateMask x AND 0x3FFF,
     GnssMeasurementsData_adrStateMask := GnssMeasurementsData_adrStateMask x AND 0x7,
     GnssMeasurementsData_multipathIndicator := getEnumForPBGnssMeasMultipathIndic
        (getPBEnumForGnssMeasMultiPathIndic (GnssMeasurementsData_multipathIndicator x)),
     GnssMeasurementsData_codeType := GnssMeasurementsData_codeType y,
     GnssMeasurementsData_otherCodeTypeName := GnssMeasurementsData_otherCodeTypeName y,
     GnssMeasurementsData_gnssSignalType := GnssMeasurementsData_gnssSignalType x AND 0x3FFFFF,
     GnssMeasurementsData_satelliteInterSignalBiasNs := GnssMeasurementsData_satelliteInterSignalBiasNs y,
     GnssMeasurementsData_satelliteInterSignalBiasUncertaintyNs :=
        GnssMeasurementsData_satelliteInterSignalBiasUncertaintyNs y,
     GnssMeasurementsData_gloFrequency := GnssMeasurementsData_gloFrequency y\<rparr>"

interpretation meas_data: codec convertGnssMeasDataToPB pbConvertToGnssMeasurementsData 0 carried_GnssMeasurementsData
  by unfold_locales (auto simp: convertGnssMeasDataToPB_def pbConvertToGnssMeasurementsData_def carried_GnssMeasurementsData_def run_simps state_mask_kept)

definition carried_GnssMeasurementsClock :: "GnssMeasurementsClock \<Rightarrow> GnssMeasurementsClock \<Rightarrow> GnssMeasurementsClock" where
  "carried_GnssMeasurementsClock x y = x\<lparr>GnssMeasurementsClock_size := sizeof_GnssMeasurementsClock,
     GnssMeasurementsClock_flags := GnssMeasurementsClock_flags x AND 0x1FF,
     GnssMeasurementsClock_referenceSignalTypeForIsb := GnssMeasurementsClock_referenceSignalTypeForIsb y,
     GnssMeasurementsClock_elapsedRealTime := GnssMeasurementsClock_elapsedRealTime y,
     GnssMeasurementsClock_elapsedRealTimeUnc := GnssMeasurementsClock_elapsedRealTimeUnc y\<rparr>"

interpretation meas_clock: codec convertGnssMeasClockToPB pbConvertToGnssMeasurementsClock 0 carried_GnssMeasurementsClock
  by unfold_locales (auto simp: convertGnssMeasClockToPB_def pbConvertToGnssMeasurementsClock_def carried_GnssMeasurementsClock_def run_simps)

definition carried_LocAPINmeaSerializedPayload :: "LocAPINmeaSerializedPayload \<Rightarrow> LocAPINmeaSerializedPayload \<Rightarrow> LocAPINmeaSerializedPayload" where
  "carried_LocAPINmeaSerializedPayload x y = x\<lparr>LocAPINmeaSerializedPayload_size := LocAPINmeaSerializedPayload_size y\<rparr>"

interpretation nmea: codec convertLocAPINmeaSerializedPayloadToPB pbConvertToLocAPINmeaSerializedPayload 0 carried_LocAPINmeaSerializedPayload
  by unfold_locales (auto simp: convertLocAPINmeaSerializedPayloadToPB_def pbConvertToLocAPINmeaSerializedPayload_def carried_LocAPINmeaSerializedPayload_def run_simps)

text \<open>The two body-frame structs travel in one message.\<close>

definition carried_dynamics ::
    "GnssLocationPositionDynamics \<times> GnssLocationPositionDynamicsExt
     \<Rightarrow> GnssLocationPositionDynamics \<times> GnssLocationPositionDynamicsExt
     \<Rightarrow> GnssLocationPositionDynamics \<times> GnssLocationPositionDynamicsExt" where
  "carried_dynamics x y =
    ((fst x)\<lparr>GnssLocationPositionDynamics_bodyFrameDataMask :=
        GnssLocationPositionDynamics_bodyFrameDataMask (fst x) AND 0x3FF\<rparr>,
     (snd x)\<lparr>GnssLocationPositionDynamicsExt_bodyFrameDataMask :=
        GnssLocationPositionDynamicsExt_bodyFrameDataMask (snd x) AND 0xFF\<rparr>)"

interpretation dynamics: codec "\<lambda>x. convertGnssLocationPositionDynamicsToPB (fst x) (snd x)"
    pbConvertToGnssLocationPositionDynamics 0 carried_dynamics
  by unfold_locales (auto simp: convertGnssLocationPositionDynamicsToPB_def
    pbConvertToGnssLocationPositionDynamics_def carried_dynamics_def run_simps)

section \<open>The system time\<close>

text \<open>The union holds the member its tag names, and the time of six systems travels.\<close>

definition has_time :: "int \<Rightarrow> bool" where
  "has_time src \<longleftrightarrow> src \<in> {GNSS_LOC_SV_SYSTEM_GPS, GNSS_LOC_SV_SYSTEM_GALILEO, GNSS_LOC_SV_SYSTEM_BDS,
     GNSS_LOC_SV_SYSTEM_QZSS, GNSS_LOC_SV_SYSTEM_GLONASS, GNSS_LOC_SV_SYSTEM_NAVIC}"

fun tag_fits :: "int \<Rightarrow> SystemTimeStructUnion \<Rightarrow> bool" where
  "tag_fits src (systemTime t) \<longleftrightarrow> src \<noteq> GNSS_LOC_SV_SYSTEM_GLONASS"
| "tag_fits src (gloTime t) \<longleftrightarrow> src = GNSS_LOC_SV_SYSTEM_GLONASS \<or> \<not> has_time src"

fun carried_union :: "SystemTimeStructUnion \<Rightarrow> SystemTimeStructUnion" where
  "carried_union (systemTime t) = systemTime (carried_GnssSystemTimeStructType t t)"
| "carried_union (gloTime t) = gloTime (carried_GnssGloTimeStructType t t)"

definition carried_GnssSystemTime :: "GnssSystemTime \<Rightarrow> GnssSystemTime \<Rightarrow> GnssSystemTime" where
  "carried_GnssSystemTime x y =
    (let src = GnssSystemTime_gnssSystemTimeSrc x in
     \<lparr>GnssSystemTime_gnssSystemTimeSrc = getEnumForPBGnssLocSvSystem (getPBEnumForGnssLocSvSystem src),
      GnssSystemTime_u = (if has_time src then carried_union (GnssSystemTime_u x) else GnssSystemTime_u y)\<rparr>)"

definition time_calls :: "GnssSystemTime \<Rightarrow> nat" where
  "time_calls x = (if has_time (GnssSystemTime_gnssSystemTimeSrc x) then 2 else 1)"

lemma system_rt:
  "has_time src \<Longrightarrow> getEnumForPBGnssLocSvSystem (getPBEnumForGnssLocSvSystem src) = src"
  "\<not> has_time src \<Longrightarrow> \<not> has_time (getEnumForPBGnssLocSvSystem (getPBEnumForGnssLocSvSystem src))"
  by (auto simp: has_time_def getEnumForPBGnssLocSvSystem_def getPBEnumForGnssLocSvSystem_def)

lemma no_time:
  assumes "\<not> has_time src"
  shows "convertSystemTimeStructUnionToPB src u (Some p) n = Inr (p, n)"
    and "pbConvertToSystemTimeStructUnion src p u n = Inr (u, n)"
  using assms
  by (auto simp: has_time_def convertSystemTimeStructUnionToPB_def pbConvertToSystemTimeStructUnion_def)

lemma gnss_system_time:
  assumes "tag_fits (GnssSystemTime_gnssSystemTimeSrc x) (GnssSystemTime_u x)"
  shows "\<exists>q. (\<forall>n \<ge> time_calls x. convertGnssSystemTimeToPB x (Some p) n = Inr (q, n - time_calls x))
     \<and> (\<forall>y k. pbConvertToGnssSystemTime q y k = Inr (carried_GnssSystemTime x y, k))"
proof (cases "has_time (GnssSystemTime_gnssSystemTimeSrc x)")
  case True
  with assms show ?thesis
    by (cases "GnssSystemTime_u x")
      (auto simp: convertGnssSystemTimeToPB_def pbConvertToGnssSystemTime_def run_simps time_calls_def
        carried_GnssSystemTime_def system_rt has_time_def convertSystemTimeStructUnionToPB_def
        pbConvertToSystemTimeStructUnion_def system_time_defs
        convertGnssGloTimeStructTypeToPB_def pbConvertToGnssGloTimeStructType_def carried_GnssGloTimeStructType_def)
next
  case False
  then show ?thesis
    by (auto simp: convertGnssSystemTimeToPB_def pbConvertToGnssSystemTime_def run_simps time_calls_def
        carried_GnssSystemTime_def no_time system_rt)
qed

section \<open>Arrays\<close>

interpretation batch: array_codec convertLocationToPB pbConvertToLocation 0 carried_Location
    "PBLocAPIBatchNotification_location :: PBLocAPIBatchNotification \<Rightarrow> _" "\<lambda>v p. p\<lparr>PBLocAPIBatchNotification_location := v\<rparr>"
    "LocAPIBatchNotification_location :: LocAPIBatchNotification \<Rightarrow> _" "\<lambda>v p. p\<lparr>LocAPIBatchNotification_location := v\<rparr>"
  by unfold_locales auto

interpretation measurements: array_codec convertGnssMeasDataToPB pbConvertToGnssMeasurementsData 0
    carried_GnssMeasurementsData
    "PBGnssMeasurementsNotification_measurements :: PBGnssMeasurementsNotification \<Rightarrow> _" "\<lambda>v p. p\<lparr>PBGnssMeasurementsNotification_measurements := v\<rparr>"
    "GnssMeasurementsNotification_measurements :: GnssMeasurementsNotification \<Rightarrow> _" "\<lambda>v p. p\<lparr>GnssMeasurementsNotification_measurements := v\<rparr>"
  by unfold_locales auto

interpretation usage: array_codec convertGnssMeasUsageInfoToPB pbConvertToGnssMeasUsageInfo 0
    carried_GnssMeasUsageInfo
    "PBGnssLocationInfoNotification_measUsageInfo :: PBGnssLocationInfoNotification \<Rightarrow> _" "\<lambda>v p. p\<lparr>PBGnssLocationInfoNotification_measUsageInfo := v\<rparr>"
    "GnssLocationInfoNotification_measUsageInfo :: GnssLocationInfoNotification \<Rightarrow> _" "\<lambda>v p. p\<lparr>GnssLocationInfoNotification_measUsageInfo := v\<rparr>"
  by unfold_locales auto

interpretation velocity: lens "PBGnssLocationInfoNotification_enuVelocityVRPBased :: PBGnssLocationInfoNotification \<Rightarrow> _"
    "\<lambda>v p. p\<lparr>PBGnssLocationInfoNotification_enuVelocityVRPBased := v\<rparr>"
  by unfold_locales auto

interpretation velocity_array: lens "GnssLocationInfoNotification_enuVelocityVRPBased :: GnssLocationInfoNotification \<Rightarrow> _"
    "\<lambda>v p. p\<lparr>GnssLocationInfoNotification_enuVelocityVRPBased := v\<rparr>"
  by unfold_locales auto

section \<open>Notifications\<close>

definition carried_batch :: "LocAPIBatchNotification \<Rightarrow> LocAPIBatchNotification \<Rightarrow> LocAPIBatchNotification" where
  "carried_batch x y = x\<lparr>LocAPIBatchNotification_size := LocAPIBatchNotification_size y,
     LocAPIBatchNotification_status := getEnumForPBBatchingStatus
        (getPBEnumForBatchingStatus (LocAPIBatchNotification_status x)),
     LocAPIBatchNotification_location := received carried_Location
        (unat (LocAPIBatchNotification_count x)) (LocAPIBatchNotification_location x)
        (LocAPIBatchNotification_location y)\<rparr>"

lemma batch_notification:
  assumes m: "m = unat (LocAPIBatchNotification_count x)" "m \<le> length (LocAPIBatchNotification_location x)"
  shows "\<exists>q. (\<forall>n \<ge> m. convertLocAPIBatchingNotifMsgToPB x (Some PBLocAPIBatchNotification_default) n = Inr (q, n - m))
    \<and> (\<forall>y k. pbConvertToLocAPIBatchNotification q y k
         = (if m \<le> length (LocAPIBatchNotification_location y) then Inr (carried_batch x y, k) else Inl OutOfBounds))"
proof -
  obtain qs where send: "\<forall>s :: PBLocAPIBatchNotification. \<forall>n \<ge> m * Suc 0. for_loop m (\<lambda>i.
        with_elem (LocAPIBatchNotification_location x) i (\<lambda>e. add_message PBLocation_default
          PBLocAPIBatchNotification_location (\<lambda>v p. p\<lparr>PBLocAPIBatchNotification_location := v\<rparr>)
          (\<lambda>v. convertLocationToPB e (Some v)))) s n
      = Inr (s\<lparr>PBLocAPIBatchNotification_location := PBLocAPIBatchNotification_location s @ qs\<rparr>, n - m * Suc 0)"
    and len: "length qs = m"
    and rcv: "\<forall>(s :: LocAPIBatchNotification) n. for_loop m (\<lambda>i. with_elem qs i (\<lambda>q. at_index
        LocAPIBatchNotification_location (\<lambda>v p. p\<lparr>LocAPIBatchNotification_location := v\<rparr>) i
        (pbConvertToLocation q))) s n
      = (if m \<le> length (LocAPIBatchNotification_location s) then Inr (s\<lparr>LocAPIBatchNotification_location :=
           received carried_Location m (LocAPIBatchNotification_location x) (LocAPIBatchNotification_location s)\<rparr>, n)
         else Inl OutOfBounds)"
    using batch.transfer [OF m(2)] by blast
  let ?q = "PBLocAPIBatchNotification_default\<lparr>PBLocAPIBatchNotification_status :=
      getPBEnumForBatchingStatus (LocAPIBatchNotification_status x), PBLocAPIBatchNotification_location := qs\<rparr>"
  have "convertLocAPIBatchingNotifMsgToPB x (Some PBLocAPIBatchNotification_default) n = Inr (?q, n - m)" if "m \<le> n" for n
    using that send m(1) by (simp add: convertLocAPIBatchingNotifMsgToPB_def assign_def PBLocAPIBatchNotification_default_def)
  moreover have "pbConvertToLocAPIBatchNotification ?q y k
      = (if m \<le> length (LocAPIBatchNotification_location y) then Inr (carried_batch x y, k) else Inl OutOfBounds)" for y k
    using rcv len m(1) by (simp add: pbConvertToLocAPIBatchNotification_def assign_def carried_batch_def
          PBLocAPIBatchNotification_default_def)
  ultimately show ?thesis by blast
qed

definition carried_measurements ::
    "GnssMeasurementsNotification \<Rightarrow> GnssMeasurementsNotification \<Rightarrow> GnssMeasurementsNotification" where
  "carried_measurements x y = x\<lparr>GnssMeasurementsNotification_size := sizeof_GnssMeasurementsNotification,
     GnssMeasurementsNotification_measurements := received carried_GnssMeasurementsData
        (unat (GnssMeasurementsNotification_count x)) (GnssMeasurementsNotification_measurements x)
        (GnssMeasurementsNotification_measurements y),
     GnssMeasurementsNotification_clock := carried_GnssMeasurementsClock
        (GnssMeasurementsNotification_clock x) (GnssMeasurementsNotification_clock y)\<rparr>"

lemma measurements_notification:
  assumes m: "m = unat (GnssMeasurementsNotification_count x)"
      "m \<le> length (GnssMeasurementsNotification_measurements x)"
  shows "\<exists>q. (\<forall>n > m. convertGnssMeasNotifToPB x (Some PBGnssMeasurementsNotification_default) n = Inr (q, n - Suc m))
    \<and> (\<forall>y k. pbConvertToGnssMeasNotification q y k
         = (if m \<le> length (GnssMeasurementsNotification_measurements y) then Inr (carried_measurements x y, k)
            else Inl OutOfBounds))"
proof -
  obtain qs where send: "\<forall>s :: PBGnssMeasurementsNotification. \<forall>n \<ge> m * Suc 0. for_loop m (\<lambda>i.
        with_elem (GnssMeasurementsNotification_measurements x) i (\<lambda>e. add_message PBGnssMeasurementsData_default
          PBGnssMeasurementsNotification_measurements
          (\<lambda>v p. p\<lparr>PBGnssMeasurementsNotification_measurements := v\<rparr>)
          (\<lambda>v. convertGnssMeasDataToPB e (Some v)))) s n
      = Inr (s\<lparr>PBGnssMeasurementsNotification_measurements :=
          PBGnssMeasurementsNotification_measurements s @ qs\<rparr>, n - m * Suc 0)"
    and len: "length qs = m"
    and rcv: "\<forall>(s :: GnssMeasurementsNotification) n. for_loop m (\<lambda>i. with_elem qs i (\<lambda>q. at_index
        GnssMeasurementsNotification_measurements (\<lambda>v p. p\<lparr>GnssMeasurementsNotification_measurements := v\<rparr>) i
        (pbConvertToGnssMeasurementsData q))) s n
      = (if m \<le> length (GnssMeasurementsNotification_measurements s) then
           Inr (s\<lparr>GnssMeasurementsNotification_measurements := received carried_GnssMeasurementsData m
             (GnssMeasurementsNotification_measurements x) (GnssMeasurementsNotification_measurements s)\<rparr>, n)
         else Inl OutOfBounds)"
    using measurements.transfer [OF m(2)] by blast
  obtain c where c: "\<And>n. convertGnssMeasClockToPB (GnssMeasurementsNotification_clock x)
        (Some PBGnssMeasurementsClock_default) n = Inr (c, n)"
      "\<And>y k. pbConvertToGnssMeasurementsClock c y k
        = Inr (carried_GnssMeasurementsClock (GnssMeasurementsNotification_clock x) y, k)"
    using meas_clock.enc_dec by fastforce
  let ?q = "\<lparr>PBGnssMeasurementsNotification_measurements = qs, PBGnssMeasurementsNotification_clock = c\<rparr>"
  have "convertGnssMeasNotifToPB x (Some PBGnssMeasurementsNotification_default) n = Inr (?q, n - Suc m)" if "m < n" for n
    using that send m(1) by (simp add: convertGnssMeasNotifToPB_def run_simps c PBGnssMeasurementsNotification_default_def)
  moreover have "pbConvertToGnssMeasNotification ?q y k
      = (if m \<le> length (GnssMeasurementsNotification_measurements y) then Inr (carried_measurements x y, k)
         else Inl OutOfBounds)" for y k
    using rcv len m(1) by (simp add: pbConvertToGnssMeasNotification_def run_simps c carried_measurements_def)
  ultimately show ?thesis by blast
qed

text \<open>The location-information notification: the largest message, with seven parts.\<close>

definition carried_info ::
    "GnssLocationInfoNotification \<Rightarrow> GnssLocationInfoNotification \<Rightarrow> GnssLocationInfoNotification" where
  "carried_info x y =
    (let (d, e) = carried_dynamics (GnssLocationInfoNotification_bodyFrameData x, GnssLocationInfoNotification_bodyFrameDataExt x)
           (GnssLocationInfoNotification_bodyFrameData y, GnssLocationInfoNotification_bodyFrameDataExt y) in
     x\<lparr>GnssLocationInfoNotification_size := GnssLocationInfoNotification_size y,
       GnssLocationInfoNotification_location := carried_Location
         (GnssLocationInfoNotification_location x) (GnssLocationInfoNotification_location y),
       GnssLocationInfoNotification_flags := GnssLocationInfoNotification_flags x AND 0x3FFFFFBFF,
       GnssLocationInfoNotification_horReliability := getEnumForPBLocReliability
         (getPBEnumForLocationReliability (GnssLocationInfoNotification_horReliability x)),
       GnssLocationInfoNotification_verReliability := getEnumForPBLocReliability
         (getPBEnumForLocationReliability (GnssLocationInfoNotification_verReliability x)),
       GnssLocationInfoNotification_navSolutionMask := GnssLocationInfoNotification_navSolutionMask x AND 0x1FF,
       GnssLocationInfoNotification_bodyFrameData := d,
       GnssLocationInfoNotification_bodyFrameDataExt := e,
       GnssLocationInfoNotification_gnssSystemTime := carried_GnssSystemTime
         (GnssLocationInfoNotification_gnssSystemTime x) (GnssLocationInfoNotification_gnssSystemTime y),
       GnssLocationInfoNotification_measUsageInfo := received carried_GnssMeasUsageInfo
         (unat (GnssLocationInfoNotification_numOfMeasReceived x))
         (GnssLocationInfoNotification_measUsageInfo x) (GnssLocationInfoNotification_measUsageInfo y),
       GnssLocationInfoNotification_calibrationStatus := GnssLocationInfoNotification_calibrationStatus x AND 0x1F,
       GnssLocationInfoNotification_locOutputEngType := getEnumForPBLocOutputEngineType
         (getPBEnumForLocOutputEngineType (GnssLocationInfoNotification_locOutputEngType x)),
       GnssLocationInfoNotification_locOutputEngMask := GnssLocationInfoNotification_locOutputEngMask x AND 0x7,
       GnssLocationInfoNotification_drSolutionStatusMask := GnssLocationInfoNotification_drSolutionStatusMask x AND 0x3,
       GnssLocationInfoNotification_sessionStatus := getLocSessionStatusFromPB
         (getPBEnumForLocSessionStatus (GnssLocationInfoNotification_sessionStatus x))\<rparr>)"

text \<open>The arrays of the struct have their declared lengths, the measurements fit and the union holds the
  member its tag names.\<close>

definition info_ok :: "GnssLocationInfoNotification \<Rightarrow> bool" where
  "info_ok x \<longleftrightarrow> length (GnssLocationInfoNotification_measUsageInfo x) = GNSS_SV_MAX
     \<and> length (GnssLocationInfoNotification_enuVelocityVRPBased x) = 3
     \<and> unat (GnssLocationInfoNotification_numOfMeasReceived x) \<le> GNSS_SV_MAX
     \<and> tag_fits (GnssSystemTime_gnssSystemTimeSrc (GnssLocationInfoNotification_gnssSystemTime x))
          (GnssSystemTime_u (GnssLocationInfoNotification_gnssSystemTime x))"

definition info_calls :: "GnssLocationInfoNotification \<Rightarrow> nat" where
  "info_calls x = 5 + time_calls (GnssLocationInfoNotification_gnssSystemTime x)
     + unat (GnssLocationInfoNotification_numOfMeasReceived x)"

lemma capped_count:
  "(ucast (min (ucast num :: 32 word) 128) :: 8 word) = num"
  "unat (ucast (min (ucast num :: 32 word) 128) :: 8 word) = unat num"
  "unat (min (ucast num :: 32 word) 128) = unat num"
  if "unat num \<le> 128" for num :: "8 word"
proof -
  have u: "unat (ucast num :: 32 word) = unat num"
    by transfer simp
  then have "(ucast num :: 32 word) \<le> 128"
    using that by (simp add: word_le_nat_alt)
  with u show "(ucast (min (ucast num :: 32 word) 128) :: 8 word) = num"
    "unat (ucast (min (ucast num :: 32 word) 128) :: 8 word) = unat num"
    "unat (min (ucast num :: 32 word) 128) = unat num"
    by (simp_all add: min_absorb1)
qed

lemma info_send_receive:
  assumes ok: "info_ok x"
  shows "\<exists>q. (\<forall>n \<ge> info_calls x. convertGnssLocInfoNotifToPB x (Some PBGnssLocationInfoNotification_default) n
        = Inr (q, n - info_calls x))
    \<and> (\<forall>y k. info_ok y \<longrightarrow> pbConvertToGnssLocInfoNotif q y k = Inr (carried_info x y, k))"
proof -
  let ?m = "unat (GnssLocationInfoNotification_numOfMeasReceived x)"
  have m: "?m \<le> length (GnssLocationInfoNotification_measUsageInfo x)" using ok by (simp add: info_ok_def)
  obtain qs where send: "\<forall>s :: PBGnssLocationInfoNotification. \<forall>n \<ge> ?m * Suc 0. for_loop ?m (\<lambda>i.
        with_elem (GnssLocationInfoNotification_measUsageInfo x) i (\<lambda>e. add_message PBGnssMeasUsageInfo_default
          PBGnssLocationInfoNotification_measUsageInfo
          (\<lambda>v p. p\<lparr>PBGnssLocationInfoNotification_measUsageInfo := v\<rparr>)
          (\<lambda>v. convertGnssMeasUsageInfoToPB e (Some v)))) s n
      = Inr (s\<lparr>PBGnssLocationInfoNotification_measUsageInfo :=
          PBGnssLocationInfoNotification_measUsageInfo s @ qs\<rparr>, n - ?m * Suc 0)"
    and rcv: "\<forall>(s :: GnssLocationInfoNotification) n. for_loop ?m (\<lambda>i. with_elem qs i (\<lambda>q. at_index
        GnssLocationInfoNotification_measUsageInfo (\<lambda>v p. p\<lparr>GnssLocationInfoNotification_measUsageInfo := v\<rparr>) i
        (pbConvertToGnssMeasUsageInfo q))) s n
      = (if ?m \<le> length (GnssLocationInfoNotification_measUsageInfo s) then
           Inr (s\<lparr>GnssLocationInfoNotification_measUsageInfo := received carried_GnssMeasUsageInfo ?m
             (GnssLocationInfoNotification_measUsageInfo x) (GnssLocationInfoNotification_measUsageInfo s)\<rparr>, n)
         else Inl OutOfBounds)"
    using usage.transfer [OF m] by blast
  obtain l where l: "\<And>n. convertLocationToPB (GnssLocationInfoNotification_location x) (Some PBLocation_default) n = Inr (l, n)"
      "\<And>y k. pbConvertToLocation l y k = Inr (carried_Location (GnssLocationInfoNotification_location x) y, k)"
    using location.enc_dec by fastforce
  obtain u where u: "\<And>n. convertGnssLocSvUsedInPosToPB (GnssLocationInfoNotification_svUsedInPosition x)
        (Some PBGnssLocationSvUsedInPosition_default) n = Inr (u, n)"
      "\<And>y k. pbConvertToGnssLocationSvUsedInPosition u y k = Inr (GnssLocationInfoNotification_svUsedInPosition x, k)"
    using sv_used.enc_dec by fastforce
  obtain d where d: "\<And>n. convertGnssLocationPositionDynamicsToPB (GnssLocationInfoNotification_bodyFrameData x)
        (GnssLocationInfoNotification_bodyFrameDataExt x) (Some PBLocApiGnssLocationPositionDynamics_default) n = Inr (d, n)"
      "\<And>y k. pbConvertToGnssLocationPositionDynamics d y k = Inr (carried_dynamics
        (GnssLocationInfoNotification_bodyFrameData x, GnssLocationInfoNotification_bodyFrameDataExt x) y, k)"
    using dynamics.enc_dec [of "(GnssLocationInfoNotification_bodyFrameData x, GnssLocationInfoNotification_bodyFrameDataExt x)"
        PBLocApiGnssLocationPositionDynamics_default] by fastforce
  obtain a where a: "\<And>n. convertLLAInfoToPB (GnssLocationInfoNotification_llaVRPBased x) (Some PBLLAInfo_default) n = Inr (a, n)"
      "\<And>y k. pbConvertToLLAInfo a y k = Inr (GnssLocationInfoNotification_llaVRPBased x, k)"
    using lla.enc_dec by fastforce
  let ?t = "GnssLocationInfoNotification_gnssSystemTime x"
  obtain t where t: "\<And>n. time_calls ?t \<le> n \<Longrightarrow> convertGnssSystemTimeToPB ?t (Some PBLocApiGnssSystemTime_default) n
        = Inr (t, n - time_calls ?t)"
      "\<And>y k. pbConvertToGnssSystemTime t y k = Inr (carried_GnssSystemTime ?t y, k)"
    using gnss_system_time ok unfolding info_ok_def by metis
  have vs: "for_loop 3 (\<lambda>i. with_elem (GnssLocationInfoNotification_enuVelocityVRPBased x) i (\<lambda>e. assign (\<lambda>p :: PBGnssLocationInfoNotification.
        p\<lparr>PBGnssLocationInfoNotification_enuVelocityVRPBased := PBGnssLocationInfoNotification_enuVelocityVRPBased p @ [e]\<rparr>))) s n
      = Inr (s\<lparr>PBGnssLocationInfoNotification_enuVelocityVRPBased := PBGnssLocationInfoNotification_enuVelocityVRPBased s
          @ GnssLocationInfoNotification_enuVelocityVRPBased x\<rparr>, n)" for s n
    using send_numbers [OF velocity.lens_axioms, of 3 "GnssLocationInfoNotification_enuVelocityVRPBased x" "\<lambda>e. e" s n] ok
    by (simp add: info_ok_def)
  have vr: "for_loop 3 (\<lambda>i. with_elem (GnssLocationInfoNotification_enuVelocityVRPBased x) i (\<lambda>e. at_index
        GnssLocationInfoNotification_enuVelocityVRPBased (\<lambda>v p. p\<lparr>GnssLocationInfoNotification_enuVelocityVRPBased := v\<rparr>) i
        (assign (\<lambda>_. e)))) s n
      = Inr (s\<lparr>GnssLocationInfoNotification_enuVelocityVRPBased := GnssLocationInfoNotification_enuVelocityVRPBased x\<rparr>, n)"
    if "length (GnssLocationInfoNotification_enuVelocityVRPBased s) = 3" for s :: GnssLocationInfoNotification and n
    using receive_numbers [OF velocity_array.lens_axioms, of 3 "GnssLocationInfoNotification_enuVelocityVRPBased x" s "\<lambda>e. e" n] ok that
    by (simp add: info_ok_def)
  let ?q = "fst (projr (convertGnssLocInfoNotifToPB x (Some PBGnssLocationInfoNotification_default) (info_calls x)))"
  have "convertGnssLocInfoNotifToPB x (Some PBGnssLocationInfoNotification_default) n = Inr (?q, n - info_calls x)"
    if "info_calls x \<le> n" for n
    using that send by (simp add: convertGnssLocInfoNotifToPB_def run_simps l u d a t vs info_calls_def
        PBGnssLocationInfoNotification_default_def)
  moreover have "pbConvertToGnssLocInfoNotif ?q y k = Inr (carried_info x y, k)" if "info_ok y" for y k
    using that rcv ok by (simp add: convertGnssLocInfoNotifToPB_def pbConvertToGnssLocInfoNotif_def run_simps l u d a t vs vr
        send info_calls_def PBGnssLocationInfoNotification_default_def carried_info_def info_ok_def capped_count carried_dynamics_def)
  ultimately show ?thesis by blast
qed

section \<open>Satellites\<close>

text \<open>One pass of the loop of \<^verbatim>\<open>pbConvertToGnssSvNotif\<close>.\<close>

definition receive_sv :: "PBLocApiGnssSv \<Rightarrow> GnssSv step" where
  "receive_sv q = assign (\<lambda>p. p\<lparr>GnssSv_size := sizeof_GnssSv,
       GnssSv_svId := ucast (PBLocApiGnssSv_svId q),
       GnssSv_type := getGnssSvTypeFromPBGnssLocSvSystemEnumType (PBLocApiGnssSv_type q),
       GnssSv_cN0Dbhz := PBLocApiGnssSv_cN0Dbhz q,
       GnssSv_elevation := PBLocApiGnssSv_elevation q,
       GnssSv_azimuth := PBLocApiGnssSv_azimuth q,
       GnssSv_gnssSvOptionsMask := ucast (getGnssSvOptionsMaskFromPB (PBLocApiGnssSv_gnssSvOptionsMask q)),
       GnssSv_carrierFrequencyHz := PBLocApiGnssSv_carrierFrequencyHz q,
       GnssSv_gnssSignalTypeMask := getGnssSignalTypeMaskFromPB (PBLocApiGnssSv_gnssSignalTypeMask q),
       GnssSv_basebandCarrierToNoiseDbHz := PBLocApiGnssSv_basebandCarrierToNoiseDbHz q,
       GnssSv_gloFrequency := ucast (PBLocApiGnssSv_gloFrequency q)\<rparr>)"

lemmas receive_svs = pbConvertToGnssSvNotif_def [folded receive_sv_def]

definition carried_GnssSv :: "GnssSv \<Rightarrow> GnssSv \<Rightarrow> GnssSv" where
  "carried_GnssSv x y = x\<lparr>GnssSv_size := sizeof_GnssSv,
     GnssSv_type := getGnssSvTypeFromPBGnssLocSvSystemEnumType (getPBGnssLocSvSysEnumFromGnssSvType (GnssSv_type x)),
     GnssSv_gnssSvOptionsMask := GnssSv_gnssSvOptionsMask x AND 0x1F,
     GnssSv_gnssSignalTypeMask := GnssSv_gnssSignalTypeMask x AND 0x3FFFFF\<rparr>"

interpretation satellites: array_codec convertGnssSvToPB receive_sv 0 carried_GnssSv
    "PBLocApiGnssSvNotification_gnssSvs :: PBLocApiGnssSvNotification \<Rightarrow> _" "\<lambda>v p. p\<lparr>PBLocApiGnssSvNotification_gnssSvs := v\<rparr>"
    "GnssSvNotification_gnssSvs :: GnssSvNotification \<Rightarrow> _" "\<lambda>v p. p\<lparr>GnssSvNotification_gnssSvs := v\<rparr>"
  by unfold_locales (auto simp: convertGnssSvToPB_def receive_sv_def carried_GnssSv_def run_simps)

definition carried_svs :: "GnssSvNotification \<Rightarrow> GnssSvNotification \<Rightarrow> GnssSvNotification" where
  "carried_svs x y = x\<lparr>GnssSvNotification_size := sizeof_GnssSvNotification,
     GnssSvNotification_gnssSvs := received carried_GnssSv (unat (GnssSvNotification_count x))
        (GnssSvNotification_gnssSvs x) (GnssSvNotification_gnssSvs y)\<rparr>"

lemma sv_notification:
  assumes m: "m = unat (GnssSvNotification_count x)" "m \<le> length (GnssSvNotification_gnssSvs x)"
    and cap: "m \<le> GNSS_SV_MAX"
  shows "\<exists>q. (\<forall>n \<ge> m. convertGnssSvNotifToPB x (Some PBLocApiGnssSvNotification_default) n = Inr (q, n - m))
    \<and> (\<forall>y k. length (GnssSvNotification_gnssSvs y) = GNSS_SV_MAX
         \<longrightarrow> pbConvertToGnssSvNotif q y k = Inr (carried_svs x y, k))"
proof -
  obtain qs where send: "\<forall>s :: PBLocApiGnssSvNotification. \<forall>n \<ge> m * Suc 0. for_loop m (\<lambda>i.
        with_elem (GnssSvNotification_gnssSvs x) i (\<lambda>e. add_message PBLocApiGnssSv_default
          PBLocApiGnssSvNotification_gnssSvs (\<lambda>v p. p\<lparr>PBLocApiGnssSvNotification_gnssSvs := v\<rparr>)
          (\<lambda>v. convertGnssSvToPB e (Some v)))) s n
      = Inr (s\<lparr>PBLocApiGnssSvNotification_gnssSvs := PBLocApiGnssSvNotification_gnssSvs s @ qs\<rparr>, n - m * Suc 0)"
    and len: "length qs = m"
    and rcv: "\<forall>(s :: GnssSvNotification) n. for_loop m (\<lambda>i. with_elem qs i (\<lambda>q. at_index
        GnssSvNotification_gnssSvs (\<lambda>v p. p\<lparr>GnssSvNotification_gnssSvs := v\<rparr>) i (receive_sv q))) s n
      = (if m \<le> length (GnssSvNotification_gnssSvs s) then Inr (s\<lparr>GnssSvNotification_gnssSvs :=
           received carried_GnssSv m (GnssSvNotification_gnssSvs x) (GnssSvNotification_gnssSvs s)\<rparr>, n)
         else Inl OutOfBounds)"
    using satellites.transfer [OF m(2)] by blast
  let ?q = "\<lparr>PBLocApiGnssSvNotification_gnssSignalTypeMaskValid = GnssSvNotification_gnssSignalTypeMaskValid x,
      PBLocApiGnssSvNotification_gnssSvs = qs\<rparr>"
  have "convertGnssSvNotifToPB x (Some PBLocApiGnssSvNotification_default) n = Inr (?q, n - m)" if "m \<le> n" for n
    using that send m(1) by (simp add: convertGnssSvNotifToPB_def assign_def PBLocApiGnssSvNotification_default_def)
  moreover have "pbConvertToGnssSvNotif ?q y k = Inr (carried_svs x y, k)"
    if "length (GnssSvNotification_gnssSvs y) = GNSS_SV_MAX" for y k
    using that rcv len m(1) cap by (simp add: receive_svs run_simps carried_svs_def min_absorb1)
  ultimately show ?thesis by blast
qed

section \<open>Geofence breaches\<close>

text \<open>Only the first identifier travels, and the receiver's count stays what it was.\<close>

definition carried_breach ::
    "LocAPIGeofenceBreachNotification \<Rightarrow> LocAPIGeofenceBreachNotification \<Rightarrow> LocAPIGeofenceBreachNotification" where
  "carried_breach x y = y\<lparr>LocAPIGeofenceBreachNotification_timestamp := LocAPIGeofenceBreachNotification_timestamp x,
     LocAPIGeofenceBreachNotification_type := LocAPIGeofenceBreachNotification_type x AND 0xF,
     LocAPIGeofenceBreachNotification_location := carried_Location
       (LocAPIGeofenceBreachNotification_location x) (LocAPIGeofenceBreachNotification_location y),
     LocAPIGeofenceBreachNotification_id := (LocAPIGeofenceBreachNotification_id y)
       [0 := LocAPIGeofenceBreachNotification_id x ! 0]\<rparr>"

interpretation breach_ids: lens "PBLocAPIGeofenceBreachNotification_id :: PBLocAPIGeofenceBreachNotification \<Rightarrow> _"
    "\<lambda>v p. p\<lparr>PBLocAPIGeofenceBreachNotification_id := v\<rparr>"
  by unfold_locales auto

lemma breach_notification:
  assumes m: "m = unat (LocAPIGeofenceBreachNotification_count x)" "m \<le> length (LocAPIGeofenceBreachNotification_id x)"
  shows "\<exists>q. (\<forall>n > 0. convertLocAPIGfBreachNotifToPB x (Some PBLocAPIGeofenceBreachNotification_default) n = Inr (q, n - 1))
    \<and> PBLocAPIGeofenceBreachNotification_id q = take m (LocAPIGeofenceBreachNotification_id x)
    \<and> (\<forall>y k. pbConvertToLocAPIGfBreachNotification q y k =
         (if m = 0 \<or> LocAPIGeofenceBreachNotification_id y = [] then Inl OutOfBounds else Inr (carried_breach x y, k)))"
proof -
  obtain l where l: "\<And>n. convertLocationToPB (LocAPIGeofenceBreachNotification_location x) (Some PBLocation_default) n = Inr (l, n)"
      "\<And>y k. pbConvertToLocation l y k = Inr (carried_Location (LocAPIGeofenceBreachNotification_location x) y, k)"
    using location.enc_dec by fastforce
  let ?q = "\<lparr>PBLocAPIGeofenceBreachNotification_timestamp = LocAPIGeofenceBreachNotification_timestamp x,
      PBLocAPIGeofenceBreachNotification_breachtype = ucast (LocAPIGeofenceBreachNotification_type x),
      PBLocAPIGeofenceBreachNotification_location = l,
      PBLocAPIGeofenceBreachNotification_id = take m (LocAPIGeofenceBreachNotification_id x)\<rparr>"
  have "convertLocAPIGfBreachNotifToPB x (Some PBLocAPIGeofenceBreachNotification_default) n = Inr (?q, n - 1)" if "0 < n" for n
    using that m send_numbers [OF breach_ids.lens_axioms m(2), of "\<lambda>e. e"]
    by (simp add: convertLocAPIGfBreachNotifToPB_def run_simps l PBLocAPIGeofenceBreachNotification_default_def)
  moreover have "pbConvertToLocAPIGfBreachNotification ?q y k =
      (if m = 0 \<or> LocAPIGeofenceBreachNotification_id y = [] then Inl OutOfBounds else Inr (carried_breach x y, k))" for y k
    using m(2) by (auto simp: pbConvertToLocAPIGfBreachNotification_def run_simps l carried_breach_def
        with_elem_def at_index_def breach_mask_kept)
  ultimately show ?thesis by (intro exI [of _ ?q]) auto
qed

section \<open>Messages from anywhere\<close>

text \<open>The outcome of a receiver: it succeeds, with all accessor calls left, exactly when the message fits.\<close>

definition receives :: "bool \<Rightarrow> nat \<Rightarrow> pb_error + 's \<times> nat \<Rightarrow> bool" where
  "receives fits k r \<longleftrightarrow> (if fits then \<exists>y. r = Inr (y, k) else r = Inl OutOfBounds)"

text \<open>The size of a repeated field, which the code keeps as an unsigned 32-bit number.\<close>

definition field_size :: "'a list \<Rightarrow> nat" where
  "field_size qs = unat (word_of_nat (length qs) :: 32 word)"

lemma field_size_le: "field_size qs \<le> length qs"
  unfolding field_size_def by (rule size_le)

lemma receives_loop:
  assumes "lens get put" "m \<le> length qs" "\<And>q y k. \<exists>y'. dec q y k = Inr (y', k)"
  shows "receives (m \<le> length (get s)) n (for_loop m (\<lambda>i. with_elem qs i (\<lambda>q. at_index get put i (dec q))) s n)"
  using receive_total [where dec = dec, OF assms, of s n] by (auto simp: receives_def split: if_splits)

text \<open>The shape of the receivers: assignments, among them the count, then the loop, then the rest.\<close>

lemma receives_steps:
  assumes "lens get put" "m \<le> length qs" "\<And>q y k. \<exists>y'. dec q y k = Inr (y', k)"
    and "get (f y) = get y" "\<And>s. \<exists>y'. steps fs s k = Inr (y', k)"
  shows "receives (m \<le> length (get y)) k
    (steps (assign f # for_loop m (\<lambda>i. with_elem qs i (\<lambda>q. at_index get put i (dec q))) # fs) y k)"
  using receives_loop [where dec = dec, OF assms(1-3), of "f y" k] assms(4,5)
  by (auto simp: receives_def assign_def split: if_splits)

lemma elements_received:
  "\<exists>y'. pbConvertToLocation l y k = Inr (y', k)"
  "\<exists>y'. pbConvertToGnssMeasurementsData d y2 k = Inr (y', k)"
  "\<exists>y'. receive_sv s y3 k = Inr (y', k)"
  by (simp_all add: pbConvertToLocation_def pbConvertToGnssMeasurementsData_def receive_sv_def run_simps)

interpretation responses: lens "CollectiveResPayload_resp :: CollectiveResPayload \<Rightarrow> _" "\<lambda>v p. p\<lparr>CollectiveResPayload_resp := v\<rparr>"
  by unfold_locales auto

interpretation geofences: lens "GeofencesAddedReqPayload_gfPayload :: GeofencesAddedReqPayload \<Rightarrow> _"
    "\<lambda>v p. p\<lparr>GeofencesAddedReqPayload_gfPayload := v\<rparr>"
  by unfold_locales auto

interpretation geofence_ids: lens "GeofencesReqClientIdPayload_gfIds :: GeofencesReqClientIdPayload \<Rightarrow> _"
    "\<lambda>v p. p\<lparr>GeofencesReqClientIdPayload_gfIds := v\<rparr>"
  by unfold_locales auto

lemma receives_batch:
  "receives (field_size (PBLocAPIBatchNotification_location q) \<le> length (LocAPIBatchNotification_location y)) k
     (pbConvertToLocAPIBatchNotification q y k)"
  unfolding pbConvertToLocAPIBatchNotification_def field_size_def [symmetric]
  by (rule receives_steps [OF batch.hal.lens_axioms field_size_le elements_received(1)]) simp_all

lemma receives_measurements:
  "receives (field_size (PBGnssMeasurementsNotification_measurements q) \<le> length (GnssMeasurementsNotification_measurements y)) k
     (pbConvertToGnssMeasNotification q y k)"
  unfolding pbConvertToGnssMeasNotification_def field_size_def [symmetric]
  by (rule receives_steps [OF measurements.hal.lens_axioms field_size_le elements_received(2)])
    (simp_all add: run_simps pbConvertToGnssMeasurementsClock_def)

lemma receives_responses:
  "receives (field_size (PBCollectiveResPayload_resp q) \<le> length (CollectiveResPayload_resp y)) k
     (pbConvertToCollectiveResPayload q y k)"
  unfolding pbConvertToCollectiveResPayload_def field_size_def [symmetric]
  by (rule receives_steps [OF responses.lens_axioms field_size_le]) (simp_all add: assign_def)

lemma receives_geofences:
  "receives (field_size (PBGeofencesAddedReqPayload_gfPayload q) \<le> length (GeofencesAddedReqPayload_gfPayload y)) k
     (pbConvertToGfAddReqPayload q y k)"
  unfolding pbConvertToGfAddReqPayload_def field_size_def [symmetric]
  by (rule receives_steps [OF geofences.lens_axioms field_size_le])
    (simp_all add: run_simps pbConvertToGeofenceOption_def pbConvertToGeofenceInfo_def)

lemma steps_look: "steps (assign f # look g # fs) y k = steps (assign f # g (f y) # fs) y k"
  by (simp add: assign_def look_def)

lemma receives_geofence_ids:
  "receives (field_size (PBGeofencesReqClientIdPayload_gfIds q) \<le> length (GeofencesReqClientIdPayload_gfIds y)) k
     (pbConvertToGfReqClientIdPayload q y k)"
  unfolding pbConvertToGfReqClientIdPayload_def steps_look
  using receives_steps [OF geofence_ids.lens_axioms field_size_le, of "\<lambda>e. assign (\<lambda>_. e)"]
  by (simp add: field_size_def assign_def)

lemma satellites_capped: "unat (word_of_nat (min m GNSS_SV_MAX) :: 32 word) = min m GNSS_SV_MAX"
  by (simp add: unat_of_nat take_bit_nat_eq_self)

lemma receives_satellites:
  "receives (min (length (PBLocApiGnssSvNotification_gnssSvs q)) GNSS_SV_MAX \<le> length (GnssSvNotification_gnssSvs y)) k
     (pbConvertToGnssSvNotif q y k)"
  unfolding receive_svs steps_look
  using receives_steps [OF satellites.hal.lens_axioms min.cobounded1, of receive_sv] elements_received(3)
  by (simp add: satellites_capped)

section \<open>Blank structs\<close>

text \<open>Structs whose numbers are 0, for evaluation: arrays of the declared size, one element in use, the time of GPS.\<close>

definition blank_Location :: Location where
  "blank_Location = \<lparr>Location_size = 0, Location_flags = 0, Location_timestamp = 0, Location_latitude =
    0, Location_longitude = 0, Location_altitude = 0, Location_speed = 0, Location_bearing = 0,
    Location_accuracy = 0, Location_verticalAccuracy = 0, Location_speedAccuracy = 0, Location_bearingAccuracy =
    0, Location_conformityIndex = 0, Location_techMask = 0, Location_spoofMask = 0, Location_elapsedRealTime =
    0, Location_elapsedRealTimeUnc = 0\<rparr>"

definition blank_GnssLocationSvUsedInPosition :: GnssLocationSvUsedInPosition where
  "blank_GnssLocationSvUsedInPosition = \<lparr>GnssLocationSvUsedInPosition_gpsSvUsedIdsMask = 0,
    GnssLocationSvUsedInPosition_gloSvUsedIdsMask = 0, GnssLocationSvUsedInPosition_galSvUsedIdsMask = 0,
    GnssLocationSvUsedInPosition_bdsSvUsedIdsMask = 0, GnssLocationSvUsedInPosition_qzssSvUsedIdsMask = 0,
    GnssLocationSvUsedInPosition_navicSvUsedIdsMask = 0\<rparr>"

definition blank_GnssLocationPositionDynamics :: GnssLocationPositionDynamics where
  "blank_GnssLocationPositionDynamics = \<lparr>GnssLocationPositionDynamics_bodyFrameDataMask = 0,
    GnssLocationPositionDynamics_longAccel = 0, GnssLocationPositionDynamics_latAccel = 0,
    GnssLocationPositionDynamics_vertAccel = 0, GnssLocationPositionDynamics_yawRate = 0,
    GnssLocationPositionDynamics_pitch = 0, GnssLocationPositionDynamics_longAccelUnc = 0,
    GnssLocationPositionDynamics_latAccelUnc = 0, GnssLocationPositionDynamics_vertAccelUnc = 0,
    GnssLocationPositionDynamics_yawRateUnc = 0, GnssLocationPositionDynamics_pitchUnc = 0\<rparr>"

definition blank_GnssSystemTimeStructType :: GnssSystemTimeStructType where
  "blank_GnssSystemTimeStructType = \<lparr>GnssSystemTimeStructType_validityMask = 0,
    GnssSystemTimeStructType_systemWeek = 0, GnssSystemTimeStructType_systemMsec = 0,
    GnssSystemTimeStructType_systemClkTimeBias = 0, GnssSystemTimeStructType_systemClkTimeUncMs = 0,
    GnssSystemTimeStructType_refFCount = 0, GnssSystemTimeStructType_numClockResets = 0\<rparr>"

definition blank_GnssSystemTime :: GnssSystemTime where
  "blank_GnssSystemTime = \<lparr>GnssSystemTime_gnssSystemTimeSrc = GNSS_LOC_SV_SYSTEM_GPS, GnssSystemTime_u =
    (systemTime blank_GnssSystemTimeStructType)\<rparr>"

definition blank_GnssMeasUsageInfo :: GnssMeasUsageInfo where
  "blank_GnssMeasUsageInfo = \<lparr>GnssMeasUsageInfo_gnssSignalType = 0, GnssMeasUsageInfo_gnssConstellation =
    0, GnssMeasUsageInfo_gnssSvId = 0\<rparr>"

definition blank_GnssLocationPositionDynamicsExt :: GnssLocationPositionDynamicsExt where
  "blank_GnssLocationPositionDynamicsExt = \<lparr>GnssLocationPositionDynamicsExt_bodyFrameDataMask = 0,
    GnssLocationPositionDynamicsExt_pitchRate = 0, GnssLocationPositionDynamicsExt_pitchRateUnc = 0,
    GnssLocationPositionDynamicsExt_roll = 0, GnssLocationPositionDynamicsExt_rollUnc = 0,
    GnssLocationPositionDynamicsExt_rollRate = 0, GnssLocationPositionDynamicsExt_rollRateUnc = 0,
    GnssLocationPositionDynamicsExt_yaw = 0, GnssLocationPositionDynamicsExt_yawUnc = 0\<rparr>"

definition blank_LLAInfo :: LLAInfo where
  "blank_LLAInfo = \<lparr>LLAInfo_latitude = 0, LLAInfo_longitude = 0, LLAInfo_altitude = 0\<rparr>"

definition blank_GnssLocationInfoNotification :: GnssLocationInfoNotification where
  "blank_GnssLocationInfoNotification = \<lparr>GnssLocationInfoNotification_size = 0,
    GnssLocationInfoNotification_location = blank_Location, GnssLocationInfoNotification_flags = 0,
    GnssLocationInfoNotification_altitudeMeanSeaLevel = 0, GnssLocationInfoNotification_pdop = 0,
    GnssLocationInfoNotification_hdop = 0, GnssLocationInfoNotification_vdop = 0,
    GnssLocationInfoNotification_gdop = 0, GnssLocationInfoNotification_tdop = 0,
    GnssLocationInfoNotification_magneticDeviation = 0, GnssLocationInfoNotification_horReliability = 0,
    GnssLocationInfoNotification_verReliability = 0, GnssLocationInfoNotification_horUncEllipseSemiMajor = 0,
    GnssLocationInfoNotification_horUncEllipseSemiMinor = 0,
    GnssLocationInfoNotification_horUncEllipseOrientAzimuth = 0, GnssLocationInfoNotification_northStdDeviation
    = 0, GnssLocationInfoNotification_eastStdDeviation = 0, GnssLocationInfoNotification_northVelocity = 0,
    GnssLocationInfoNotification_eastVelocity = 0, GnssLocationInfoNotification_upVelocity = 0,
    GnssLocationInfoNotification_northVelocityStdDeviation = 0,
    GnssLocationInfoNotification_eastVelocityStdDeviation = 0,
    GnssLocationInfoNotification_upVelocityStdDeviation = 0, GnssLocationInfoNotification_numSvUsedInPosition =
    0, GnssLocationInfoNotification_svUsedInPosition = blank_GnssLocationSvUsedInPosition,
    GnssLocationInfoNotification_navSolutionMask = 0, GnssLocationInfoNotification_bodyFrameData =
    blank_GnssLocationPositionDynamics, GnssLocationInfoNotification_gnssSystemTime = blank_GnssSystemTime,
    GnssLocationInfoNotification_numOfMeasReceived = 1, GnssLocationInfoNotification_measUsageInfo = replicate
    128 blank_GnssMeasUsageInfo, GnssLocationInfoNotification_leapSeconds = 0,
    GnssLocationInfoNotification_timeUncMs = 0, GnssLocationInfoNotification_calibrationConfidence = 0,
    GnssLocationInfoNotification_calibrationStatus = 0, GnssLocationInfoNotification_locOutputEngType = 0,
    GnssLocationInfoNotification_locOutputEngMask = 0, GnssLocationInfoNotification_conformityIndex = 0,
    GnssLocationInfoNotification_bodyFrameDataExt = blank_GnssLocationPositionDynamicsExt,
    GnssLocationInfoNotification_llaVRPBased = blank_LLAInfo, GnssLocationInfoNotification_enuVelocityVRPBased =
    replicate 3 0, GnssLocationInfoNotification_drSolutionStatusMask = 0,
    GnssLocationInfoNotification_altitudeAssumed = False, GnssLocationInfoNotification_sessionStatus =
    0\<rparr>"

definition blank_LocAPIBatchNotification :: LocAPIBatchNotification where
  "blank_LocAPIBatchNotification = \<lparr>LocAPIBatchNotification_size = 0, LocAPIBatchNotification_count = 1,
    LocAPIBatchNotification_status = 0, LocAPIBatchNotification_location = replicate 1 blank_Location\<rparr>"

definition blank_GnssMeasurementsData :: GnssMeasurementsData where
  "blank_GnssMeasurementsData = \<lparr>GnssMeasurementsData_size = 0, GnssMeasurementsData_flags = 0,
    GnssMeasurementsData_svId = 0, GnssMeasurementsData_svType = 0, GnssMeasurementsData_timeOffsetNs = 0,
    GnssMeasurementsData_stateMask = 0, GnssMeasurementsData_receivedSvTimeNs = 0,
    GnssMeasurementsData_receivedSvTimeUncertaintyNs = 0, GnssMeasurementsData_carrierToNoiseDbHz = 0,
    GnssMeasurementsData_pseudorangeRateMps = 0, GnssMeasurementsData_pseudorangeRateUncertaintyMps = 0,
    GnssMeasurementsData_adrStateMask = 0, GnssMeasurementsData_adrMeters = 0,
    GnssMeasurementsData_adrUncertaintyMeters = 0, GnssMeasurementsData_carrierFrequencyHz = 0,
    GnssMeasurementsData_carrierCycles = 0, GnssMeasurementsData_carrierPhase = 0,
    GnssMeasurementsData_carrierPhaseUncertainty = 0, GnssMeasurementsData_multipathIndicator = 0,
    GnssMeasurementsData_signalToNoiseRatioDb = 0, GnssMeasurementsData_agcLevelDb = 0,
    GnssMeasurementsData_codeType = 0, GnssMeasurementsData_otherCodeTypeName = replicate 0 0,
    GnssMeasurementsData_basebandCarrierToNoiseDbHz = 0, GnssMeasurementsData_gnssSignalType = 0,
    GnssMeasurementsData_fullInterSignalBiasNs = 0, GnssMeasurementsData_fullInterSignalBiasUncertaintyNs = 0,
    GnssMeasurementsData_satelliteInterSignalBiasNs = 0,
    GnssMeasurementsData_satelliteInterSignalBiasUncertaintyNs = 0, GnssMeasurementsData_gloFrequency = 0,
    GnssMeasurementsData_cycleSlipCount = 0\<rparr>"

definition blank_GnssMeasurementsSignalType :: GnssMeasurementsSignalType where
  "blank_GnssMeasurementsSignalType = \<lparr>GnssMeasurementsSignalType_svType = 0,
    GnssMeasurementsSignalType_carrierFrequencyHz = 0, GnssMeasurementsSignalType_codeType = 0,
    GnssMeasurementsSignalType_otherCodeTypeName = replicate 0 0\<rparr>"

definition blank_GnssMeasurementsClock :: GnssMeasurementsClock where
  "blank_GnssMeasurementsClock = \<lparr>GnssMeasurementsClock_size = 0, GnssMeasurementsClock_flags = 0,
    GnssMeasurementsClock_leapSecond = 0, GnssMeasurementsClock_timeNs = 0,
    GnssMeasurementsClock_timeUncertaintyNs = 0, GnssMeasurementsClock_fullBiasNs = 0,
    GnssMeasurementsClock_biasNs = 0, GnssMeasurementsClock_biasUncertaintyNs = 0,
    GnssMeasurementsClock_driftNsps = 0, GnssMeasurementsClock_driftUncertaintyNsps = 0,
    GnssMeasurementsClock_hwClockDiscontinuityCount = 0, GnssMeasurementsClock_referenceSignalTypeForIsb =
    blank_GnssMeasurementsSignalType, GnssMeasurementsClock_elapsedRealTime = 0,
    GnssMeasurementsClock_elapsedRealTimeUnc = 0\<rparr>"

definition blank_GnssMeasurementsNotification :: GnssMeasurementsNotification where
  "blank_GnssMeasurementsNotification = \<lparr>GnssMeasurementsNotification_size = 0,
    GnssMeasurementsNotification_count = 1, GnssMeasurementsNotification_measurements = replicate 128
    blank_GnssMeasurementsData, GnssMeasurementsNotification_clock = blank_GnssMeasurementsClock\<rparr>"

definition blank_GnssSv :: GnssSv where
  "blank_GnssSv = \<lparr>GnssSv_size = 0, GnssSv_svId = 0, GnssSv_type = 0, GnssSv_cN0Dbhz = 0,
    GnssSv_elevation = 0, GnssSv_azimuth = 0, GnssSv_gnssSvOptionsMask = 0, GnssSv_carrierFrequencyHz = 0,
    GnssSv_gnssSignalTypeMask = 0, GnssSv_basebandCarrierToNoiseDbHz = 0, GnssSv_gloFrequency = 0\<rparr>"

definition blank_GnssSvNotification :: GnssSvNotification where
  "blank_GnssSvNotification = \<lparr>GnssSvNotification_size = 0, GnssSvNotification_count = 1,
    GnssSvNotification_gnssSignalTypeMaskValid = False, GnssSvNotification_gnssSvs = replicate 128
    blank_GnssSv\<rparr>"

definition blank_LocAPIGeofenceBreachNotification :: LocAPIGeofenceBreachNotification where
  "blank_LocAPIGeofenceBreachNotification = \<lparr>LocAPIGeofenceBreachNotification_size = 0,
    LocAPIGeofenceBreachNotification_count = 1, LocAPIGeofenceBreachNotification_timestamp = 0,
    LocAPIGeofenceBreachNotification_type = 0, LocAPIGeofenceBreachNotification_location = blank_Location,
    LocAPIGeofenceBreachNotification_id = replicate 1 0\<rparr>"

section \<open>Properties\<close>

text \<open>C31. Every struct of plain fields survives the trip through its message: for each of the pairs of
  converters below the encoder takes the stated number of accessor calls, returns 1 exactly when the
  message pointer is null or one of those calls gives a null pointer, and whatever message it is given, the
  decoder run on the result leaves in any struct what the definition \<^verbatim>\<open>carried_...\<close> says; for the pairs
  with \<^verbatim>\<open>\<lambda>x y. x\<close> that is the struct that was sent.\<close>

theorem pb_structs_round_trip:
  "codec convertGnssSvTypeConfigToPB pbConvertToGnssSvTypeConfig 0 carried_GnssSvTypeConfig
   \<and> codec convertGnssSvIdConfigToPB pbConvertToGnssSvIdConfig 0 carried_GnssSvIdConfig
   \<and> codec convertGnssAidingDataToPB pbConvertToGnssAidingData 0 carried_GnssAidingData
   \<and> codec convertLeverArmParamsToPB pbConvertToLeverArmParams 0 (\<lambda>x y. x)
   \<and> codec convertLeverArmConfigInfoToPB pbConvertToLeverArmConfigInfo 3 carried_LeverArmConfigInfo
   \<and> codec convertBodyToSensorMountParamsToPB pbConvertToBodyToSensorMountParams 0 (\<lambda>x y. x)
   \<and> codec convertDeadReckoningEngineConfigToPB pbConvertToDeadReckoningEngineConfig 1 carried_DeadReckoningEngineConfig
   \<and> codec convertLocationOptionsToPB pbConvertToLocationOptions 0 carried_LocationOptions
   \<and> codec convertGeofenceOptionToPB pbConvertToGeofenceOption 0 carried_GeofenceOption
   \<and> codec convertGeofenceInfoToPB pbConvertToGeofenceInfo 0 carried_GeofenceInfo
   \<and> codec convertGnssConfigRobustLocationToPB pbConvertToGnssConfigRobustLocation 1 carried_GnssConfigRobustLocation
   \<and> codec convertLocationToPB pbConvertToLocation 0 carried_Location
   \<and> codec convertGnssLocSvUsedInPosToPB pbConvertToGnssLocationSvUsedInPosition 0 (\<lambda>x y. x)
   \<and> codec convertLLAInfoToPB pbConvertToLLAInfo 0 (\<lambda>x y. x)
   \<and> codec convertGnssMeasUsageInfoToPB pbConvertToGnssMeasUsageInfo 0 carried_GnssMeasUsageInfo
   \<and> codec convertGnssSystemTimeStructTypeToPB pbConvertToGnssSystemTimeStructType 0 carried_GnssSystemTimeStructType
   \<and> codec convertGnssGloTimeStructTypeToPB pbConvertToGnssGloTimeStructType 0 carried_GnssGloTimeStructType
   \<and> codec convertLeapSecChgInfoToPB pbConvertToLeapSecChgInfo 1 carried_LeapSecondChangeInfo
   \<and> codec convertLeapSecondSystemInfoToPB pbConvertToLeapSecSysInfo 2 carried_LeapSecondSystemInfo
   \<and> codec convertLocSysInfoToPB pbConvertToLocationSystemInfo 3 carried_LocationSystemInfo
   \<and> codec convertGnssMeasDataToPB pbConvertToGnssMeasurementsData 0 carried_GnssMeasurementsData
   \<and> codec convertGnssMeasClockToPB pbConvertToGnssMeasurementsClock 0 carried_GnssMeasurementsClock
   \<and> codec convertLocAPINmeaSerializedPayloadToPB pbConvertToLocAPINmeaSerializedPayload 0 carried_LocAPINmeaSerializedPayload"
  by (intro conjI sv_type_config.codec_axioms sv_id_config.codec_axioms aiding_data.codec_axioms
      lever_arm_params.codec_axioms lever_arm.codec_axioms mount_params.codec_axioms dr_config.codec_axioms
      location_options.codec_axioms geofence_option.codec_axioms geofence_info.codec_axioms
      robust_location.codec_axioms location.codec_axioms sv_used.codec_axioms lla.codec_axioms
      meas_usage.codec_axioms system_time.codec_axioms glo_time.codec_axioms leap_change.codec_axioms
      leap_info.codec_axioms system_info.codec_axioms meas_data.codec_axioms meas_clock.codec_axioms
      nmea.codec_axioms)

text \<open>C29. A position report travels whole: a location-information notification whose arrays have their declared
  sizes, with at most 128 measurements and the time member its tag names, is encoded with six or seven accessor
  calls and one for each measurement; the message decodes, in every notification with arrays of the declared
  sizes, to \<^verbatim>\<open>carried_info\<close>: the sender's fields, with masks and enums cut to what the wire format has
  and with as many measurements as were sent.\<close>

theorem pb_location_info_round_trip:
  assumes "info_ok x"
  shows "\<exists>q. (\<forall>n \<ge> info_calls x. convertGnssLocInfoNotifToPB x (Some PBGnssLocationInfoNotification_default) n
        = Inr (q, n - info_calls x))
    \<and> (\<forall>y k. info_ok y \<longrightarrow> pbConvertToGnssLocInfoNotif q y k = Inr (carried_info x y, k))"
  using assms by (rule info_send_receive)

theorem pb_location_info_round_trip_witness:
  "\<exists>q. convertGnssLocInfoNotifToPB blank_GnssLocationInfoNotification (Some PBGnssLocationInfoNotification_default) 8 = Inr (q, 0)
    \<and> pbConvertToGnssLocInfoNotif q blank_GnssLocationInfoNotification 0
      = Inr (carried_info blank_GnssLocationInfoNotification blank_GnssLocationInfoNotification, 0)"
proof -
  have "info_ok blank_GnssLocationInfoNotification" "info_calls blank_GnssLocationInfoNotification = 8"
    by (simp_all add: info_ok_def info_calls_def time_calls_def has_time_def
        blank_GnssLocationInfoNotification_def blank_GnssSystemTime_def)
  with pb_location_info_round_trip [of blank_GnssLocationInfoNotification] show ?thesis by fastforce
qed

text \<open>C30. What the periodic reports carry. A batch of locations, a measurement report and a satellite report whose counts stay
  within their arrays are encoded with one accessor call for each element (and one for the clock), and the decoders
  restore the count and each element that was sent as far as the wire carries it, as the \<open>carried\<close> functions spell out: masks are cut to the bits that the
  wire knows, enum values pass through the conversion in both directions, sizes are the receiver's own, and
  the fields that the wire does not have (conformity index, spoof mask and elapsed real time of a location; code
  type, inter-signal biases and GLONASS frequency of a measurement; reference signal type and elapsed real time of the clock)
  keep the value that the receiver had; all other fields arrive unchanged.  The receiver's elements behind those that were sent are
  kept.  The decoders of batches and measurements leave the receiver's array exactly when it is shorter than what was sent; the
  satellite report, of at most 128 satellites, is received by the full array of 128.\<close>

theorem pb_reports_round_trip:
  assumes "unat (LocAPIBatchNotification_count b) \<le> length (LocAPIBatchNotification_location b)"
    and "unat (GnssMeasurementsNotification_count g) \<le> length (GnssMeasurementsNotification_measurements g)"
    and "unat (GnssSvNotification_count s) \<le> length (GnssSvNotification_gnssSvs s)"
    and "unat (GnssSvNotification_count s) \<le> GNSS_SV_MAX"
  shows "(\<exists>q. (\<forall>n \<ge> unat (LocAPIBatchNotification_count b).
          convertLocAPIBatchingNotifMsgToPB b (Some PBLocAPIBatchNotification_default) n
            = Inr (q, n - unat (LocAPIBatchNotification_count b)))
      \<and> (\<forall>y k. pbConvertToLocAPIBatchNotification q y k
           = (if unat (LocAPIBatchNotification_count b) \<le> length (LocAPIBatchNotification_location y)
              then Inr (carried_batch b y, k) else Inl OutOfBounds)))
    \<and> (\<exists>q. (\<forall>n > unat (GnssMeasurementsNotification_count g).
          convertGnssMeasNotifToPB g (Some PBGnssMeasurementsNotification_default) n
            = Inr (q, n - Suc (unat (GnssMeasurementsNotification_count g))))
      \<and> (\<forall>y k. pbConvertToGnssMeasNotification q y k
           = (if unat (GnssMeasurementsNotification_count g) \<le> length (GnssMeasurementsNotification_measurements y)
              then Inr (carried_measurements g y, k) else Inl OutOfBounds)))
    \<and> (\<exists>q. (\<forall>n \<ge> unat (GnssSvNotification_count s).
          convertGnssSvNotifToPB s (Some PBLocApiGnssSvNotification_default) n
            = Inr (q, n - unat (GnssSvNotification_count s)))
      \<and> (\<forall>y k. length (GnssSvNotification_gnssSvs y) = GNSS_SV_MAX
           \<longrightarrow> pbConvertToGnssSvNotif q y k = Inr (carried_svs s y, k)))"
  using batch_notification [OF refl assms(1)] measurements_notification [OF refl assms(2)]
    sv_notification [OF refl assms(3,4)] by blast

theorem pb_reports_round_trip_witness:
  "(\<exists>q. convertLocAPIBatchingNotifMsgToPB blank_LocAPIBatchNotification (Some PBLocAPIBatchNotification_default) 1 = Inr (q, 0)
      \<and> pbConvertToLocAPIBatchNotification q blank_LocAPIBatchNotification 0
        = Inr (carried_batch blank_LocAPIBatchNotification blank_LocAPIBatchNotification, 0))
   \<and> (\<exists>q. convertGnssMeasNotifToPB blank_GnssMeasurementsNotification (Some PBGnssMeasurementsNotification_default) 2 = Inr (q, 0)
      \<and> pbConvertToGnssMeasNotification q blank_GnssMeasurementsNotification 0
        = Inr (carried_measurements blank_GnssMeasurementsNotification blank_GnssMeasurementsNotification, 0))
   \<and> (\<exists>q. convertGnssSvNotifToPB blank_GnssSvNotification (Some PBLocApiGnssSvNotification_default) 1 = Inr (q, 0)
      \<and> pbConvertToGnssSvNotif q blank_GnssSvNotification 0
        = Inr (carried_svs blank_GnssSvNotification blank_GnssSvNotification, 0))"
proof -
  have c: "unat (LocAPIBatchNotification_count blank_LocAPIBatchNotification) = 1"
      "unat (GnssMeasurementsNotification_count blank_GnssMeasurementsNotification) = 1"
      "unat (GnssSvNotification_count blank_GnssSvNotification) = 1"
    and l: "length (LocAPIBatchNotification_location blank_LocAPIBatchNotification) = 1"
      "length (GnssMeasurementsNotification_measurements blank_GnssMeasurementsNotification) = 128"
      "length (GnssSvNotification_gnssSvs blank_GnssSvNotification) = 128"
    by (simp_all add: blank_LocAPIBatchNotification_def blank_GnssMeasurementsNotification_def blank_GnssSvNotification_def)
  from pb_reports_round_trip [of blank_LocAPIBatchNotification blank_GnssMeasurementsNotification blank_GnssSvNotification]
  show ?thesis unfolding c l by (fastforce simp: c l)
qed

text \<open>C32. What any message does to the receiver's arrays: the decoders of batches, measurement reports, collective
  responses and geofence requests take the number of elements from the message and check nothing, so they
  leave the array of the struct exactly when the message has more elements than it, and succeed otherwise; the decoder of
  satellite reports cuts the number at 128 and never leaves an array of that size.\<close>

theorem pb_receive_bounds:
  "receives (field_size (PBLocAPIBatchNotification_location b) \<le> length (LocAPIBatchNotification_location yb)) k
     (pbConvertToLocAPIBatchNotification b yb k)
   \<and> receives (field_size (PBGnssMeasurementsNotification_measurements g)
         \<le> length (GnssMeasurementsNotification_measurements yg)) k
     (pbConvertToGnssMeasNotification g yg k)
   \<and> receives (field_size (PBCollectiveResPayload_resp r) \<le> length (CollectiveResPayload_resp yr)) k
     (pbConvertToCollectiveResPayload r yr k)
   \<and> receives (field_size (PBGeofencesAddedReqPayload_gfPayload a) \<le> length (GeofencesAddedReqPayload_gfPayload ya)) k
     (pbConvertToGfAddReqPayload a ya k)
   \<and> receives (field_size (PBGeofencesReqClientIdPayload_gfIds i) \<le> length (GeofencesReqClientIdPayload_gfIds yi)) k
     (pbConvertToGfReqClientIdPayload i yi k)
   \<and> receives (min (length (PBLocApiGnssSvNotification_gnssSvs s)) GNSS_SV_MAX \<le> length (GnssSvNotification_gnssSvs ys)) k
     (pbConvertToGnssSvNotif s ys k)"
  by (intro conjI receives_batch receives_measurements receives_responses receives_geofences receives_geofence_ids
      receives_satellites)

text \<open>A geofence-breach report loses identifiers: the sender puts all of them into the message, and the receiver
  restores the first one, keeps its own count and reads outside the message when there is none.\<close>

theorem pb_breach_ids_lost:
  assumes "unat (LocAPIGeofenceBreachNotification_count x) \<le> length (LocAPIGeofenceBreachNotification_id x)"
  shows "\<exists>q. (\<forall>n > 0. convertLocAPIGfBreachNotifToPB x (Some PBLocAPIGeofenceBreachNotification_default) n = Inr (q, n - 1))
    \<and> PBLocAPIGeofenceBreachNotification_id q
        = take (unat (LocAPIGeofenceBreachNotification_count x)) (LocAPIGeofenceBreachNotification_id x)
    \<and> (\<forall>y k. pbConvertToLocAPIGfBreachNotification q y k =
         (if unat (LocAPIGeofenceBreachNotification_count x) = 0 \<or> LocAPIGeofenceBreachNotification_id y = []
          then Inl OutOfBounds else Inr (carried_breach x y, k)))"
  using breach_notification [OF refl assms] by blast

theorem pb_breach_ids_lost_witness:
  "\<exists>q. convertLocAPIGfBreachNotifToPB blank_LocAPIGeofenceBreachNotification
        (Some PBLocAPIGeofenceBreachNotification_default) 1 = Inr (q, 0)
    \<and> pbConvertToLocAPIGfBreachNotification q blank_LocAPIGeofenceBreachNotification 0
      = Inr (carried_breach blank_LocAPIGeofenceBreachNotification blank_LocAPIGeofenceBreachNotification, 0)"
proof -
  have c: "unat (LocAPIGeofenceBreachNotification_count blank_LocAPIGeofenceBreachNotification) = 1"
    "LocAPIGeofenceBreachNotification_id blank_LocAPIGeofenceBreachNotification = [0]"
    by (simp_all add: blank_LocAPIGeofenceBreachNotification_def)
  from pb_breach_ids_lost [of blank_LocAPIGeofenceBreachNotification] show ?thesis
    unfolding c by (fastforce simp: c)
qed

end
