(* ===== verification/LocHeap.thy ===== *)
theory LocHeap
  imports Prelude "HOL-Library.Multiset"
begin

text \<open>
  The heap of \<^verbatim>\<open>src/gps/utils/LocHeap.cpp\<close>: a binary tree of nodes in which no child outranks its parent.
  The nodes belong to the heap alone, so a node is a value and a pointer to a node is an option; the data of
  a node is a pointer to an object of the client, an address.  The virtual method \<^verbatim>\<open>ranks\<close> of these objects
  is the parameter \<open>ranks\<close>; what the heap relies on is the locale \<^verbatim>\<open>rankable\<close>.
\<close>

section \<open>Nodes\<close>

datatype LocHeapNode = LocHeapNode (mSize: int) (mLeft: "LocHeapNode option") (mRight: "LocHeapNode option") (mData: addr)

type_synonym ranking = "addr \<Rightarrow> addr \<Rightarrow> int"

definition outRanks :: "ranking \<Rightarrow> addr \<Rightarrow> addr \<Rightarrow> bool" where
  "outRanks ranks a b \<longleftrightarrow> ranks a b > 0"

text \<open>The constructor of a node, and \<^verbatim>\<open>swap\<close>, which exchanges the data of two nodes.\<close>

definition new_node :: "addr \<Rightarrow> LocHeapNode" where
  "new_node d = LocHeapNode 1 None None d"

definition with_data :: "addr \<Rightarrow> LocHeapNode \<Rightarrow> LocHeapNode" where
  "with_data d n = LocHeapNode (mSize n) (mLeft n) (mRight n) d"

definition swap_data :: "LocHeapNode \<Rightarrow> LocHeapNode \<Rightarrow> LocHeapNode \<times> LocHeapNode" where
  "swap_data a b = (with_data (mData b) a, with_data (mData a) b)"

lemma with_data_simps [simp]:
  "with_data d (LocHeapNode s l r x) = LocHeapNode s l r d" "mData (with_data d n) = d"
  "mSize (with_data d n) = mSize n" "mLeft (with_data d n) = mLeft n" "mRight (with_data d n) = mRight n"
  "with_data d (with_data e n) = with_data d n" "size (with_data d n) = size n"
  by (cases n; simp add: with_data_def)+

text \<open>\<^verbatim>\<open>LocHeapNode::push\<close> of a node into the tree below a node.\<close>

fun push_below :: "ranking \<Rightarrow> LocHeapNode \<Rightarrow> LocHeapNode \<Rightarrow> LocHeapNode" where
  "push_below ranks (LocHeapNode s l r x) node =
     (let (this, node) = (if outRanks ranks (mData node) x then swap_data (LocHeapNode s l r x) node
                          else (LocHeapNode s l r x, node));
          s = s + 1; x = mData this in
      case l of None \<Rightarrow> LocHeapNode s (Some node) r x
      | Some ln \<Rightarrow>
          (case r of None \<Rightarrow> LocHeapNode s l (Some node) x
           | Some rn \<Rightarrow>
               if mSize ln \<le> mSize rn then LocHeapNode s (Some (push_below ranks ln node)) r x
               else LocHeapNode s l (Some (push_below ranks rn node)) x))"

text \<open>\<^verbatim>\<open>LocHeapNode::pop\<close>: what the pointer to the top is afterwards, and the node that was taken out.\<close>

function pop_node :: "ranking \<Rightarrow> LocHeapNode \<Rightarrow> LocHeapNode option \<times> LocHeapNode" where
  "pop_node ranks (LocHeapNode s l r x) =
     (let s = s - 1 in
      case l of
        None \<Rightarrow>
          (case r of None \<Rightarrow> (None, LocHeapNode s l r x)
           | Some rn \<Rightarrow> let (r, popped) = pop_node ranks (with_data x rn) in
               (Some (LocHeapNode s l r (mData rn)), popped))
      | Some ln \<Rightarrow>
          if r = None \<or> outRanks ranks (mData ln) (mData (the r))
          then let (l, popped) = pop_node ranks (with_data x ln) in (Some (LocHeapNode s l r (mData ln)), popped)
          else let (r', popped) = pop_node ranks (with_data x (the r)) in
            (Some (LocHeapNode s l r' (mData (the r))), popped))"
  by pat_completeness auto
termination
  by (relation "measure (\<lambda>(_, n). size n)") auto

text \<open>\<^verbatim>\<open>LocHeapNode::remove\<close>: the pointer to the top afterwards, and the node that was removed, if there is one.\<close>

fun remove_node :: "ranking \<Rightarrow> LocHeapNode \<Rightarrow> addr \<Rightarrow> LocHeapNode option \<times> LocHeapNode option" where
  "remove_node ranks (LocHeapNode s l r x) d =
     (if d = x then (let (t, popped) = pop_node ranks (LocHeapNode s l r x) in (t, Some popped))
      else if \<not> outRanks ranks d x then
        (let (l, removed) = (case l of None \<Rightarrow> (l, None) | Some ln \<Rightarrow> remove_node ranks ln d);
             (r, removed) = (case removed of Some n \<Rightarrow> (r, Some n)
               | None \<Rightarrow> (case r of None \<Rightarrow> (r, None) | Some rn \<Rightarrow> remove_node ranks rn d)) in
         (Some (LocHeapNode (if removed \<noteq> None then s - 1 else s) l r x), removed))
      else (Some (LocHeapNode s l r x), None))"

text \<open>The consistency check of the source.\<close>

fun checkNodes :: "ranking \<Rightarrow> LocHeapNode \<Rightarrow> bool" where
  "checkNodes ranks (LocHeapNode s l r x) =
     ((case l of None \<Rightarrow> True | Some ln \<Rightarrow> \<not> outRanks ranks (mData ln) x \<and> checkNodes ranks ln)
      \<and> (case r of None \<Rightarrow> True | Some rn \<Rightarrow> \<not> outRanks ranks (mData rn) x \<and> checkNodes ranks rn)
      \<and> s - (case l of None \<Rightarrow> 0 | Some ln \<Rightarrow> mSize ln) - (case r of None \<Rightarrow> 0 | Some rn \<Rightarrow> mSize rn) = 1)"

section \<open>The heap\<close>

text \<open>A heap is the pointer \<^verbatim>\<open>mTree\<close>.\<close>

type_synonym LocHeap = "LocHeapNode option"

definition LocHeap_push :: "ranking \<Rightarrow> addr \<Rightarrow> LocHeap \<Rightarrow> LocHeap" where
  "LocHeap_push ranks d mTree = (case mTree of None \<Rightarrow> Some (new_node d)
     | Some n \<Rightarrow> Some (push_below ranks n (new_node d)))"

definition LocHeap_peek :: "LocHeap \<Rightarrow> addr" where
  "LocHeap_peek mTree = (case mTree of None \<Rightarrow> NULL | Some n \<Rightarrow> mData n)"

definition LocHeap_pop :: "ranking \<Rightarrow> LocHeap \<Rightarrow> addr \<times> LocHeap" where
  "LocHeap_pop ranks mTree = (case mTree of None \<Rightarrow> (NULL, None)
     | Some n \<Rightarrow> (let (t, popped) = pop_node ranks n in (mData popped, t)))"

definition LocHeap_remove :: "ranking \<Rightarrow> addr \<Rightarrow> LocHeap \<Rightarrow> addr \<times> LocHeap" where
  "LocHeap_remove ranks d mTree = (case mTree of None \<Rightarrow> (NULL, None)
     | Some n \<Rightarrow> (let (t, removed) = remove_node ranks n d in
         (case removed of None \<Rightarrow> NULL | Some p \<Rightarrow> mData p, t)))"

definition checkTree :: "ranking \<Rightarrow> LocHeap \<Rightarrow> bool" where
  "checkTree ranks mTree = (case mTree of None \<Rightarrow> True | Some n \<Rightarrow> checkNodes ranks n)"

definition getTreeSize :: "LocHeap \<Rightarrow> int" where
  "getTreeSize mTree = (case mTree of None \<Rightarrow> 0 | Some n \<Rightarrow> mSize n)"

section \<open>The contents of a heap\<close>

fun node_mset :: "LocHeapNode \<Rightarrow> addr multiset" where
  "node_mset (LocHeapNode s l r x) = {#x#} + (case l of None \<Rightarrow> {#} | Some n \<Rightarrow> node_mset n)
     + (case r of None \<Rightarrow> {#} | Some n \<Rightarrow> node_mset n)"

definition heap_mset :: "LocHeap \<Rightarrow> addr multiset" where
  "heap_mset t = (case t of None \<Rightarrow> {#} | Some n \<Rightarrow> node_mset n)"

lemma heap_mset_simps [simp]: "heap_mset None = {#}" "heap_mset (Some n) = node_mset n"
  by (simp_all add: heap_mset_def)

lemma checkTree_simps [simp]: "checkTree ranks None" "checkTree ranks (Some n) = checkNodes ranks n"
  by (simp_all add: checkTree_def)

lemma getTreeSize_simps [simp]: "getTreeSize None = 0" "getTreeSize (Some n) = mSize n"
  by (simp_all add: getTreeSize_def)

text \<open>The recursive functions in terms of the subtrees.\<close>

lemma node_mset_eq: "node_mset (LocHeapNode s l r x) = {#x#} + heap_mset l + heap_mset r"
  by (simp add: heap_mset_def)

definition below :: "ranking \<Rightarrow> LocHeap \<Rightarrow> addr \<Rightarrow> bool" where
  "below ranks t x \<longleftrightarrow> (case t of None \<Rightarrow> True | Some n \<Rightarrow> \<not> outRanks ranks (mData n) x)"

lemma below_simps [simp]: "below ranks None x" "below ranks (Some n) x \<longleftrightarrow> \<not> outRanks ranks (mData n) x"
  by (simp_all add: below_def)

lemma checkNodes_eq: "checkNodes ranks (LocHeapNode s l r x) \<longleftrightarrow> checkTree ranks l \<and> checkTree ranks r
    \<and> below ranks l x \<and> below ranks r x \<and> s = 1 + getTreeSize l + getTreeSize r"
  by (auto simp: checkTree_def getTreeSize_def below_def split: option.splits)

declare node_mset.simps [simp del] checkNodes.simps [simp del]

lemmas tree_simps = node_mset_eq checkNodes_eq

lemma node_mset_with_data: "node_mset (with_data d n) = node_mset n - {#mData n#} + {#d#}"
  by (cases n) (simp add: tree_simps)

lemma mData_in [simp]: "mData n \<in># node_mset n"
  by (cases n) (simp add: tree_simps)

lemma new_node_simps [simp]: "node_mset (new_node d) = {#d#}" "checkNodes ranks (new_node d)"
    "mSize (new_node d) = 1" "mData (new_node d) = d" "with_data e (new_node d) = new_node e"
  by (simp_all add: new_node_def tree_simps)

text \<open>Pushing a fresh node: the object that ranks higher stays, the other one goes down.\<close>

definition winner :: "ranking \<Rightarrow> addr \<Rightarrow> addr \<Rightarrow> addr" where
  "winner ranks d x = (if outRanks ranks d x then d else x)"

definition loser :: "ranking \<Rightarrow> addr \<Rightarrow> addr \<Rightarrow> addr" where
  "loser ranks d x = (if outRanks ranks d x then x else d)"

lemma push_below_new: "push_below ranks (LocHeapNode s l r x) (new_node d) =
    (let y = winner ranks d x; node = new_node (loser ranks d x) in
     case l of None \<Rightarrow> LocHeapNode (s + 1) (Some node) r y
     | Some ln \<Rightarrow> (case r of None \<Rightarrow> LocHeapNode (s + 1) l (Some node) y
         | Some rn \<Rightarrow> if mSize ln \<le> mSize rn then LocHeapNode (s + 1) (Some (push_below ranks ln node)) r y
                   else LocHeapNode (s + 1) l (Some (push_below ranks rn node)) y))"
  by (simp add: swap_data_def winner_def loser_def Let_def split: option.splits)

lemma node_mset_ne [simp]: "node_mset n \<noteq> {#}"
  by (cases n) (simp add: tree_simps)

declare push_below.simps [simp del]

lemma remove_keeps_top:
  assumes "d \<noteq> LocHeap_peek t" "LocHeap_remove ranks d t = (e, t')"
  shows "LocHeap_peek t' = LocHeap_peek t"
proof (cases t)
  case (Some n)
  with assms show ?thesis
    by (cases n) (auto simp: LocHeap_remove_def LocHeap_peek_def split: prod.splits if_splits option.splits)
qed (use assms in \<open>simp add: LocHeap_remove_def\<close>)

section \<open>What the heap promises\<close>

text \<open>A heap of objects of a set that the operations leave consistent.\<close>

definition heap_ok :: "ranking \<Rightarrow> addr set \<Rightarrow> LocHeap \<Rightarrow> bool" where
  "heap_ok ranks S t \<longleftrightarrow> checkTree ranks t \<and> set_mset (heap_mset t) \<subseteq> S \<and> NULL \<notin># heap_mset t
     \<and> getTreeSize t = int (size (heap_mset t))"

lemma heap_ok_empty [simp]: "heap_ok ranks S None"
  by (simp add: heap_ok_def)

text \<open>The contract of \<^verbatim>\<open>LocRankable\<close> on a set of objects: to outrank is a strict weak order.\<close>

locale rankable =
  fixes ranks :: ranking and S :: "addr set"
  assumes asym: "a \<in> S \<Longrightarrow> b \<in> S \<Longrightarrow> outRanks ranks a b \<Longrightarrow> \<not> outRanks ranks b a"
    and neg_trans: "a \<in> S \<Longrightarrow> b \<in> S \<Longrightarrow> c \<in> S \<Longrightarrow> \<not> outRanks ranks a b \<Longrightarrow> \<not> outRanks ranks b c \<Longrightarrow> \<not> outRanks ranks a c"
begin

lemma irrefl: "a \<in> S \<Longrightarrow> \<not> outRanks ranks a a"
  using asym by blast

lemma top_ranks_highest:
  assumes "checkNodes ranks n" "set_mset (node_mset n) \<subseteq> S" "d \<in># node_mset n"
  shows "\<not> outRanks ranks d (mData n)"
  using assms
proof (induction n arbitrary: d)
  case (LocHeapNode s l r x)
  have sub: "\<not> outRanks ranks d x" if "t = l \<or> t = r" "d \<in># heap_mset t" for t
  proof -
    from that obtain m where m: "t = Some m" "d \<in># node_mset m" by (cases t) auto
    with that LocHeapNode have "\<not> outRanks ranks d (mData m)" by (auto simp: tree_simps)
    moreover have "\<not> outRanks ranks (mData m) x" using that m LocHeapNode.prems(1) by (auto simp: tree_simps)
    moreover have "mData m \<in> S" "x \<in> S" "d \<in> S" using that m LocHeapNode.prems(2) by (auto simp: tree_simps)
    ultimately show ?thesis using neg_trans by blast
  qed
  from LocHeapNode.prems show ?case using sub irrefl by (auto simp: tree_simps)
qed

lemma below_all:
  assumes "checkTree ranks t" "set_mset (heap_mset t) \<subseteq> S" "x \<in> S" "\<And>d. d \<in># heap_mset t \<Longrightarrow> \<not> outRanks ranks d x"
  shows "below ranks t x"
  using assms by (cases t) auto

lemma below_trans:
  assumes "below ranks t x" "set_mset (heap_mset t) \<subseteq> S" "x \<in> S" "y \<in> S" "\<not> outRanks ranks x y"
  shows "below ranks t y"
proof (cases t)
  case (Some n)
  with assms(2) have "mData n \<in> S" by auto
  with Some assms neg_trans [of "mData n" x y] show ?thesis by simp
qed simp

lemma push_below_ok:
  assumes "checkNodes ranks n" "set_mset (node_mset n) \<subseteq> S" "d \<in> S"
  shows "checkNodes ranks (push_below ranks n (new_node d))
    \<and> node_mset (push_below ranks n (new_node d)) = add_mset d (node_mset n)
    \<and> mSize (push_below ranks n (new_node d)) = mSize n + 1
    \<and> mData (push_below ranks n (new_node d)) = (if outRanks ranks d (mData n) then d else mData n)"
  using assms
proof (induction n arbitrary: d)
  case (LocHeapNode s l r x)
  let ?y = "winner ranks d x" and ?e = "loser ranks d x"
  have S: "x \<in> S" "?y \<in> S" "?e \<in> S" using LocHeapNode.prems by (auto simp: tree_simps winner_def loser_def)
  have ey: "\<not> outRanks ranks ?e ?y" using asym LocHeapNode.prems(3) S(1) by (auto simp: winner_def loser_def)
  have child: "below ranks t ?y" if "t = l \<or> t = r" for t
    using that LocHeapNode.prems S asym [of d x] irrefl [of x]
    by (intro below_trans [of t x ?y]) (auto simp: tree_simps winner_def loser_def)
  have IH: "checkNodes ranks (push_below ranks m (new_node ?e)) \<and> node_mset (push_below ranks m (new_node ?e)) = add_mset ?e (node_mset m)
      \<and> mSize (push_below ranks m (new_node ?e)) = mSize m + 1 \<and> below ranks (Some (push_below ranks m (new_node ?e))) ?y"
    if "l = Some m \<or> r = Some m" for m
    using that LocHeapNode.IH(1) [of m ?e] LocHeapNode.IH(2) [of m ?e] LocHeapNode.prems S child [of "Some m"] ey
    by (auto simp: tree_simps split: if_splits)
  note children = child [of l, simplified] child [of r, simplified]
  have "checkNodes ranks (push_below ranks (LocHeapNode s l r x) (new_node d))
      \<and> node_mset (push_below ranks (LocHeapNode s l r x) (new_node d)) = add_mset ?y (add_mset ?e (heap_mset l + heap_mset r))
      \<and> mSize (push_below ranks (LocHeapNode s l r x) (new_node d)) = s + 1
      \<and> mData (push_below ranks (LocHeapNode s l r x) (new_node d)) = ?y"
    unfolding push_below_new Let_def using LocHeapNode.prems(1) children ey IH by (cases l; cases r) (auto simp: tree_simps)
  then show ?case by (auto simp: tree_simps winner_def loser_def)
qed

lemma with_data_ok:
  assumes "checkNodes ranks n" "set_mset (node_mset n) \<subseteq> S" "x \<in> S" "\<not> outRanks ranks (mData n) x"
  shows "checkNodes ranks (with_data x n)" "set_mset (node_mset (with_data x n)) \<subseteq> S"
  using assms below_trans [of _ "mData n" x] by (cases n; auto simp: tree_simps)+

text \<open>Taking out the top: the node that leaves has the data of the top and no children.\<close>

lemma pop_node_ok:
  assumes "checkNodes ranks n" "set_mset (node_mset n) \<subseteq> S" "pop_node ranks n = (t, p)"
  shows "mData p = mData n \<and> mLeft p = None \<and> mRight p = None \<and> checkTree ranks t
    \<and> heap_mset t = node_mset n - {#mData n#} \<and> getTreeSize t = mSize n - 1"
  using assms
proof (induction "size n" arbitrary: n t p rule: less_induct)
  case less
  obtain s l r x where n: "n = LocHeapNode s l r x" by (cases n)
  text \<open>A child that moves up, with the data of its parent put in its place, which then is taken out.\<close>
  have up: "mData p = x \<and> mLeft p = None \<and> mRight p = None \<and> checkTree ranks t \<and> heap_mset t = node_mset m - {#mData m#}
      \<and> getTreeSize t = mSize m - 1 \<and> below ranks t (mData m)"
    if m: "l = Some m \<or> r = Some m" and pop: "pop_node ranks (with_data x m) = (t, p)" for m t p
  proof -
    have S: "x \<in> S" "set_mset (node_mset m) \<subseteq> S" "checkNodes ranks m" "\<not> outRanks ranks (mData m) x"
      using less.prems m by (auto simp: n tree_simps)
    note w = with_data_ok [OF S(3,2,1,4)]
    have "size (with_data x m) < size n" using m by (auto simp: n)
    note IH = less.hyps [OF this w pop]
    have "d \<in># node_mset m" if "d \<in># heap_mset t" for d
      using that IH by (auto simp: node_mset_with_data dest: in_diffD)
    then have "below ranks t (mData m)"
      using IH S top_ranks_highest [OF S(3,2)] by (intro below_all) auto
    with IH show ?thesis by (simp add: node_mset_with_data)
  qed
  have p: "pop_node ranks (LocHeapNode s l r x) = (t, p)" using less.prems(3) by (simp add: n)
  consider "l = None" "r = None" | m where "l = None" "r = Some m" | m where "l = Some m" "r = None \<or> outRanks ranks (mData m) (mData (the r))"
    | m k where "l = Some k" "r = Some m" "\<not> outRanks ranks (mData k) (mData m)"
    by (cases l; cases r) auto
  then show ?case
  proof cases
    case 1
    with p less.prems(1) show ?thesis by (auto simp: n tree_simps)
  next
    case (2 m)
    obtain t' p' where pop: "pop_node ranks (with_data x m) = (t', p')" by fastforce
    with p 2 have "t = Some (LocHeapNode (s - 1) None t' (mData m))" "p = p'" by auto
    with up [OF _ pop] 2 less.prems(1) show ?thesis by (simp add: n tree_simps)
  next
    case (3 m)
    obtain t' p' where pop: "pop_node ranks (with_data x m) = (t', p')" by fastforce
    with p 3 have "t = Some (LocHeapNode (s - 1) t' r (mData m))" "p = p'" by auto
    moreover have "below ranks r (mData m)" using 3 less.prems(2) asym [of "mData m"]
      by (cases r) (auto simp: n tree_simps dest!: subsetD [OF _ mData_in])
    ultimately show ?thesis using up [OF _ pop] 3 less.prems(1) by (simp add: n tree_simps)
  next
    case (4 m k)
    obtain t' p' where pop: "pop_node ranks (with_data x m) = (t', p')" by fastforce
    with p 4 have "t = Some (LocHeapNode (s - 1) l t' (mData m))" "p = p'" by auto
    with up [OF _ pop] 4 less.prems(1) show ?thesis by (simp add: n tree_simps)
  qed
qed

text \<open>Removing an object: it is found exactly when it is there.\<close>

lemma remove_node_ok:
  assumes "checkNodes ranks n" "set_mset (node_mset n) \<subseteq> S" "d \<in> S" "remove_node ranks n d = (t, p)"
  shows "if d \<in># node_mset n
    then \<exists>q. p = Some q \<and> mData q = d \<and> mLeft q = None \<and> mRight q = None \<and> checkTree ranks t
      \<and> heap_mset t = node_mset n - {#d#} \<and> getTreeSize t = mSize n - 1
    else p = None \<and> t = Some n"
  using assms
proof (induction n arbitrary: t p)
  case (LocHeapNode s l r x)
  define sub where "sub u = (case u of None \<Rightarrow> (u, None) | Some m \<Rightarrow> remove_node ranks m d)" for u
  have sub: "if d \<in># heap_mset u
      then \<exists>q. p' = Some q \<and> mData q = d \<and> mLeft q = None \<and> mRight q = None \<and> checkTree ranks t' \<and> below ranks t' x
        \<and> heap_mset t' = heap_mset u - {#d#} \<and> getTreeSize t' = getTreeSize u - 1
      else p' = None \<and> t' = u" if u: "u = l \<or> u = r" and eq: "sub u = (t', p')" for u t' p'
  proof (cases u)
    case None
    with eq show ?thesis by (simp add: sub_def)
  next
    case (Some m)
    have m: "checkNodes ranks m" "set_mset (node_mset m) \<subseteq> S" "below ranks u x" "x \<in> S"
      using LocHeapNode.prems u Some by (auto simp: tree_simps)
    have "remove_node ranks m d = (t', p')" using eq Some by (simp add: sub_def)
    then have IH: "if d \<in># node_mset m
      then \<exists>q. p' = Some q \<and> mData q = d \<and> mLeft q = None \<and> mRight q = None \<and> checkTree ranks t'
        \<and> heap_mset t' = node_mset m - {#d#} \<and> getTreeSize t' = mSize m - 1
      else p' = None \<and> t' = Some m"
      using LocHeapNode.IH(1,2) [of m t' p'] u Some m LocHeapNode.prems(3) by auto
    have "below ranks t' x" if "checkTree ranks t'" "heap_mset t' = node_mset m - {#d#}"
    proof (rule below_trans [of t' "mData m"])
      show "below ranks t' (mData m)"
        using that m(1,2) top_ranks_highest [OF m(1,2)] by (intro below_all) (auto dest: in_diffD)
    qed (use m Some that in \<open>auto dest: in_diffD\<close>)
    with IH Some show ?thesis by (auto split: if_splits)
  qed
  have x: "d \<in># node_mset (LocHeapNode s l r x) \<longleftrightarrow> d = x \<or> d \<in># heap_mset l \<or> d \<in># heap_mset r"
    by (simp add: tree_simps)
  obtain l' pl where L: "sub l = (l', pl)" by fastforce
  obtain r' pr where R: "sub r = (r', pr)" by fastforce
  consider "d = x" | "d \<noteq> x" "outRanks ranks d x" | "d \<noteq> x" "\<not> outRanks ranks d x" by blast
  then show ?case
  proof cases
    case 1
    obtain q where q: "pop_node ranks (LocHeapNode s l r x) = (t, q)" "p = Some q"
      using LocHeapNode.prems(4) 1 by (auto simp del: pop_node.simps split: prod.splits)
    with pop_node_ok [OF LocHeapNode.prems(1,2) q(1)] 1 show ?thesis unfolding x by auto
  next
    case 2
    then have "d \<notin># node_mset (LocHeapNode s l r x)"
      using top_ranks_highest [OF LocHeapNode.prems(1,2), of d] by auto
    with 2 LocHeapNode.prems(4) show ?thesis by simp
  next
    case 3
    have "(t, p) = (case pl of Some q \<Rightarrow> (Some (LocHeapNode (s - 1) l' r x), pl)
        | None \<Rightarrow> (Some (LocHeapNode (if pr \<noteq> None then s - 1 else s) l' r' x), pr))"
      using LocHeapNode.prems(4) L R 3 by (cases pl) (auto simp: sub_def [symmetric])
    with sub [OF _ L] sub [OF _ R] 3 LocHeapNode.prems(1) show ?thesis
      by (auto simp: x tree_simps split: if_splits)
  qed
qed

lemma peek_null: "heap_ok ranks S t \<Longrightarrow> LocHeap_peek t = NULL \<longleftrightarrow> t = None"
  by (cases t) (auto simp: heap_ok_def LocHeap_peek_def intro!: gr0I, metis mData_in)

lemma peek_in: "t \<noteq> None \<Longrightarrow> LocHeap_peek t \<in># heap_mset t"
  by (cases t) (auto simp: LocHeap_peek_def)

lemma peek_highest: "heap_ok ranks S t \<Longrightarrow> d \<in># heap_mset t \<Longrightarrow> \<not> outRanks ranks d (LocHeap_peek t)"
  using top_ranks_highest by (cases t) (auto simp: heap_ok_def LocHeap_peek_def)

lemma push_ok:
  assumes "heap_ok ranks S t" "d \<in> S" "d \<noteq> NULL"
  shows "heap_ok ranks S (LocHeap_push ranks d t)" "heap_mset (LocHeap_push ranks d t) = add_mset d (heap_mset t)"
    and "LocHeap_peek (LocHeap_push ranks d t) = (if t = None \<or> outRanks ranks d (LocHeap_peek t) then d else LocHeap_peek t)"
  using assms push_below_ok [of _ d]
  by (cases t; auto simp: heap_ok_def LocHeap_push_def LocHeap_peek_def)+

lemma taken_out:
  assumes "heap_ok ranks S t" "d \<in># heap_mset t" "checkTree ranks t'" "heap_mset t' = heap_mset t - {#d#}"
    "getTreeSize t' = getTreeSize t - 1"
  shows "heap_ok ranks S t'"
proof -
  obtain M where "heap_mset t = add_mset d M" using multi_member_split [OF assms(2)] by blast
  with assms show ?thesis by (simp add: heap_ok_def)
qed

lemma pop_ok:
  assumes "heap_ok ranks S t" "LocHeap_pop ranks t = (d, t')"
  shows "heap_ok ranks S t' \<and> d = LocHeap_peek t \<and> heap_mset t' = heap_mset t - {#d#}"
proof (cases t)
  case (Some n)
  then obtain p where p: "pop_node ranks n = (t', p)" "d = mData p"
    using assms(2) by (auto simp: LocHeap_pop_def split: prod.splits)
  have "checkNodes ranks n" "set_mset (node_mset n) \<subseteq> S" using assms(1) Some by (simp_all add: heap_ok_def)
  from pop_node_ok [OF this p(1)] Some p(2) show ?thesis
    using taken_out [OF assms(1), of d t'] by (simp add: LocHeap_peek_def)
qed (use assms in \<open>simp add: LocHeap_pop_def LocHeap_peek_def\<close>)

lemma remove_ok:
  assumes "heap_ok ranks S t" "d \<in> S" "d \<noteq> NULL" "LocHeap_remove ranks d t = (e, t')"
  shows "heap_ok ranks S t' \<and> heap_mset t' = heap_mset t - {#d#} \<and> e = (if d \<in># heap_mset t then d else NULL)"
proof (cases t)
  case (Some n)
  then obtain p where p: "remove_node ranks n d = (t', p)" "e = (case p of None \<Rightarrow> NULL | Some p \<Rightarrow> mData p)"
    using assms(4) by (auto simp: LocHeap_remove_def split: prod.splits)
  have "checkNodes ranks n" "set_mset (node_mset n) \<subseteq> S" using assms(1) Some by (simp_all add: heap_ok_def)
  from remove_node_ok [OF this assms(2) p(1)] Some p(2) assms(1) show ?thesis
    using taken_out [OF assms(1), of d t'] by (auto split: if_splits)
qed (use assms in \<open>simp add: LocHeap_remove_def\<close>)

end

section \<open>Sequences of operations\<close>

text \<open>The calls that a client makes, with what each returns.\<close>

datatype heap_call = Push addr | Peek | Pop | Remove addr

fun heap_step :: "ranking \<Rightarrow> heap_call \<Rightarrow> LocHeap \<Rightarrow> addr \<times> LocHeap" where
  "heap_step ranks (Push d) t = (NULL, LocHeap_push ranks d t)"
| "heap_step ranks Peek t = (LocHeap_peek t, t)"
| "heap_step ranks Pop t = LocHeap_pop ranks t"
| "heap_step ranks (Remove d) t = LocHeap_remove ranks d t"

fun heap_run :: "ranking \<Rightarrow> heap_call list \<Rightarrow> LocHeap \<Rightarrow> addr list \<times> LocHeap" where
  "heap_run ranks [] t = ([], t)"
| "heap_run ranks (c # cs) t = (let (e, t) = heap_step ranks c t; (es, t) = heap_run ranks cs t in (e # es, t))"

text \<open>The specification: a bag of objects.  \<^verbatim>\<open>call_ok\<close> relates the bag before a call, what the call returns and
  the bag after it; a peek or a pop returns an object that none of the others outranks.\<close>

definition highest :: "ranking \<Rightarrow> addr multiset \<Rightarrow> addr \<Rightarrow> bool" where
  "highest ranks M d \<longleftrightarrow> (if M = {#} then d = NULL else d \<in># M \<and> (\<forall>e. e \<in># M \<longrightarrow> \<not> outRanks ranks e d))"

fun call_ok :: "ranking \<Rightarrow> addr multiset \<Rightarrow> heap_call \<Rightarrow> addr \<Rightarrow> addr multiset \<Rightarrow> bool" where
  "call_ok ranks M (Push d) e N \<longleftrightarrow> N = add_mset d M"
| "call_ok ranks M Peek e N \<longleftrightarrow> highest ranks M e \<and> N = M"
| "call_ok ranks M Pop e N \<longleftrightarrow> highest ranks M e \<and> N = M - {#e#}"
| "call_ok ranks M (Remove d) e N \<longleftrightarrow> e = (if d \<in># M then d else NULL) \<and> N = M - {#d#}"

fun run_calls_ok :: "ranking \<Rightarrow> addr multiset \<Rightarrow> heap_call list \<Rightarrow> addr list \<Rightarrow> addr multiset \<Rightarrow> bool" where
  "run_calls_ok ranks M [] [] N \<longleftrightarrow> N = M"
| "run_calls_ok ranks M (c # cs) (e # es) N \<longleftrightarrow> (\<exists>M'. call_ok ranks M c e M' \<and> run_calls_ok ranks M' cs es N)"
| "run_calls_ok ranks M _ _ N \<longleftrightarrow> False"

fun call_objects :: "heap_call \<Rightarrow> addr set" where
  "call_objects (Push d) = {d}"
| "call_objects (Remove d) = {d}"
| "call_objects _ = {}"

context rankable
begin

lemma peek_is_highest:
  assumes "heap_ok ranks S t"
  shows "highest ranks (heap_mset t) (LocHeap_peek t)"
proof (cases t)
  case (Some n)
  then show ?thesis using peek_in [of t] peek_highest [OF assms] by (simp add: highest_def)
qed (simp add: highest_def LocHeap_peek_def)

lemma step_ok:
  assumes "heap_ok ranks S t" "call_objects c \<subseteq> S - {NULL}" "heap_step ranks c t = (e, t')"
  shows "heap_ok ranks S t' \<and> call_ok ranks (heap_mset t) c e (heap_mset t')"
  using assms push_ok [OF assms(1)] peek_is_highest [OF assms(1)] pop_ok [OF assms(1)] remove_ok [OF assms(1)]
  by (cases c) auto

lemma run_ok:
  assumes "heap_ok ranks S t" "\<Union> (call_objects ` set cs) \<subseteq> S - {NULL}" "heap_run ranks cs t = (es, t')"
  shows "heap_ok ranks S t' \<and> run_calls_ok ranks (heap_mset t) cs es (heap_mset t')"
  using assms
proof (induction cs arbitrary: t es)
  case (Cons c cs)
  obtain e t1 where 1: "heap_step ranks c t = (e, t1)" by fastforce
  obtain es1 t2 where 2: "heap_run ranks cs t1 = (es1, t2)" by fastforce
  from 1 2 Cons.prems have "es = e # es1" "t' = t2" by auto
  with step_ok [OF Cons.prems(1) _ 1] Cons.IH [of t1 es1] 1 2 Cons.prems show ?case by auto
qed auto

end

section \<open>Balance\<close>

text \<open>The number of nodes on the longest path, which bounds the depth of the recursions.\<close>

fun node_height :: "LocHeapNode \<Rightarrow> nat" where
  "node_height (LocHeapNode s l r x) = 1 + max (case l of None \<Rightarrow> 0 | Some n \<Rightarrow> node_height n)
     (case r of None \<Rightarrow> 0 | Some n \<Rightarrow> node_height n)"

definition heap_height :: "LocHeap \<Rightarrow> nat" where
  "heap_height t = (case t of None \<Rightarrow> 0 | Some n \<Rightarrow> node_height n)"

lemma heap_height_simps [simp]: "heap_height None = 0" "heap_height (Some n) = node_height n"
  by (simp_all add: heap_height_def)

lemma node_height_eq: "node_height (LocHeapNode s l r x) = 1 + max (heap_height l) (heap_height r)"
  by (simp add: heap_height_def)

text \<open>A tree that was built by pushing alone: the left subtree has as many nodes as the right one or one more.\<close>

fun balanced :: "LocHeapNode \<Rightarrow> bool" where
  "balanced (LocHeapNode s l r x) \<longleftrightarrow> s = 1 + getTreeSize l + getTreeSize r
     \<and> getTreeSize r \<le> getTreeSize l \<and> getTreeSize l \<le> getTreeSize r + 1
     \<and> (case l of None \<Rightarrow> True | Some n \<Rightarrow> balanced n) \<and> (case r of None \<Rightarrow> True | Some n \<Rightarrow> balanced n)"

lemma balanced_pos: "balanced n \<Longrightarrow> mSize n \<ge> 1"
proof (induction n)
  case (LocHeapNode s l r x)
  then have "getTreeSize l \<ge> 0" "getTreeSize r \<ge> 0" by (cases l; cases r; force)+
  with LocHeapNode.prems show ?case by simp
qed

lemma balanced_new [simp]: "balanced (new_node d)"
  by (simp add: new_node_def)

lemma push_balanced:
  "balanced n \<Longrightarrow> balanced (push_below ranks n (new_node d)) \<and> mSize (push_below ranks n (new_node d)) = mSize n + 1"
proof (induction n arbitrary: d)
  case (LocHeapNode s l r x)
  show ?case unfolding push_below_new Let_def
    using LocHeapNode balanced_pos by (cases l; cases r) (fastforce)+
qed

lemma balanced_height: "balanced n \<Longrightarrow> 2 ^ (node_height n - 1) \<le> mSize n"
proof (induction n)
  case (LocHeapNode s l r x)
  have half: "2 ^ heap_height t \<le> 1 + getTreeSize l + getTreeSize r" if "t = l \<or> t = r" for t
  proof (cases t)
    case None
    have "getTreeSize l \<ge> 0" "getTreeSize r \<ge> 0"
      using LocHeapNode.prems balanced_pos by (cases l; cases r; force)+
    with None show ?thesis by simp
  next
    case (Some m)
    with that LocHeapNode have "2 ^ (node_height m - 1) \<le> mSize m" by auto
    moreover have "node_height m = Suc (node_height m - 1)" by (cases m) simp
    then have "(2::int) ^ node_height m = 2 * 2 ^ (node_height m - 1)" by (metis power_Suc)
    ultimately show ?thesis using Some that LocHeapNode.prems by auto
  qed
  then show ?case using LocHeapNode.prems half [of l] half [of r] by (simp add: node_height_eq max_def del: node_height.simps)
qed

definition push_all :: "ranking \<Rightarrow> addr list \<Rightarrow> LocHeap" where
  "push_all ranks ds = foldl (\<lambda>t d. LocHeap_push ranks d t) None ds"

lemma push_all_balanced:
  "(case push_all ranks ds of None \<Rightarrow> ds = [] | Some n \<Rightarrow> balanced n \<and> mSize n = int (length ds))"
proof (induction ds rule: rev_induct)
  case (snoc d ds)
  then show ?case using push_balanced
    by (auto simp: push_all_def LocHeap_push_def split: option.splits)
qed (simp add: push_all_def)

section \<open>Properties\<close>

text \<open>C19. The heap is a bag from which the highest-ranking object is taken.  For objects whose ranking is a strict weak order,
  every sequence of calls of \<^verbatim>\<open>push\<close>, \<^verbatim>\<open>peek\<close>, \<^verbatim>\<open>pop\<close> and \<^verbatim>\<open>remove\<close> on non-null objects, from an empty heap on, behaves like the
  bag: \<^verbatim>\<open>peek\<close> and \<^verbatim>\<open>pop\<close> return an object that no other object outranks, or null when there is none; \<^verbatim>\<open>remove\<close> finds
  an object, the one at the given address, exactly when it is there, although it does not search below a node that the object outranks; an object that
  merely ranks the same as the given one is not removed (the comment in \<^verbatim>\<open>LocHeap.h\<close> says that it is);
  and after every sequence the consistency check of the source succeeds.\<close>

theorem loc_heap_refines:
  assumes "rankable ranks S" "\<Union> (call_objects ` set cs) \<subseteq> S - {NULL}" "heap_run ranks cs None = (es, t)"
  shows "run_calls_ok ranks {#} cs es (heap_mset t) \<and> checkTree ranks t \<and> getTreeSize t = int (size (heap_mset t))"
  using rankable.run_ok [OF assms(1) heap_ok_empty assms(2,3)] by (simp add: heap_ok_def)

lemma nat_ranking: "rankable (\<lambda>a b. int b - int a) UNIV"
  by unfold_locales (auto simp: outRanks_def)

theorem loc_heap_refines_witness:
  "run_calls_ok (\<lambda>a b. int b - int a) {#} [Push 5, Push 3, Push 9, Push 4, Remove 5, Remove 7, Pop, Peek]
     [0, 0, 0, 0, 5, 0, 3, 4] {#4, 9#}"
proof -
  have "heap_run (\<lambda>a b. int b - int a) [Push 5, Push 3, Push 9, Push 4, Remove 5, Remove 7, Pop, Peek] None
      = ([0, 0, 0, 0, 5, 0, 3, 4], Some (LocHeapNode 2 None (Some (LocHeapNode 1 None None 9)) 4))"
    by code_simp
  from loc_heap_refines [OF nat_ranking _ this] show ?thesis by (simp add: tree_simps)
qed

text \<open>Pushing keeps the tree balanced: a heap of \<open>n\<close> objects that was built by pushing them one after the other has a
  height of at most one more than the binary logarithm of \<open>n\<close>, which bounds the depth of the recursions.\<close>

theorem loc_heap_height:
  "ds \<noteq> [] \<Longrightarrow> 2 ^ (heap_height (push_all ranks ds) - 1) \<le> length ds"
proof -
  assume "ds \<noteq> []"
  then obtain n where n: "push_all ranks ds = Some n" "balanced n" "mSize n = int (length ds)"
    using push_all_balanced [of ds ranks] by (auto split: option.splits)
  then have "(2::int) ^ (node_height n - 1) \<le> int (length ds)" using balanced_height by metis
  then have "int (2 ^ (node_height n - 1)) \<le> int (length ds)" by simp
  then show ?thesis by (simp only: n(1) heap_height_simps of_nat_le_iff)
qed

theorem loc_heap_height_witness:
  "heap_height (push_all (\<lambda>a b. int b - int a) [1, 2, 3, 4, 5, 6, 7, 8, 9]) = 4 \<and> (2::nat) ^ (4 - 1) \<le> 9"
proof -
  have "heap_height (push_all (\<lambda>a b. int b - int a) [1, 2, 3, 4, 5, 6, 7, 8, 9]) = 4" by code_simp
  with loc_heap_height [of "[1, 2, 3, 4, 5, 6, 7, 8, 9]" "\<lambda>a b. int b - int a"] show ?thesis by simp
qed

end
