(* ===== verification/LocTimer.thy ===== *)
theory LocTimer
  imports LocHeap "HOL-Library.Word"
begin

text \<open>
  The timers of \<^verbatim>\<open>src/gps/utils/LocTimer.cpp\<close> with the shared lock of \<^verbatim>\<open>LocSharedLock.h\<close>.  A client starts and
  stops a \<^verbatim>\<open>LocTimer\<close> under its lock; each start creates a \<^verbatim>\<open>LocTimerDelegate\<close>, which a message adds to the
  heap of its container, and which a message removes and deletes.  There are two containers, for
  timers (\<open>False\<close>) and for alarms (\<open>True\<close>), each with one kernel timer.

  Three kinds of threads interleave: clients, the message task that owns the heaps, and the polling
  thread.  The code is cut where another thread can come between: the message task between
  \<^verbatim>\<open>addPoll\<close> and \<^verbatim>\<open>timerfd_settime\<close>, and in the expiry of a timer before it reads the client, before it
  calls \<^verbatim>\<open>stop\<close> and before it calls the callback; the polling thread before each of its three
  actions.  The clock, the results of \<^verbatim>\<open>timerfd_create\<close> and the addresses of new objects are inputs.
  There is one clock, \<^verbatim>\<open>CLOCK_BOOTTIME\<close>, which the code reads.  The kernel timer of a container that fell back to
  \<^verbatim>\<open>CLOCK_MONOTONIC\<close> runs on a clock that is never ahead of it, since it stands still while the device is
  suspended: such a timer reports no earlier than the model lets it, and possibly later.
  An access to an object that does not exist is the result \<^verbatim>\<open>None\<close>.
\<close>

section \<open>Times\<close>

record timespec =
  tv_sec :: int
  tv_nsec :: int

text \<open>Conversion of a 64-bit difference to \<^verbatim>\<open>int\<close>.\<close>

definition to_int :: "int \<Rightarrow> int" where
  "to_int x = (x + 2 ^ 31) mod 2 ^ 32 - 2 ^ 31"

text \<open>\<^verbatim>\<open>LocTimerDelegate::ranks\<close>: the rank of a time over another one.\<close>

definition time_ranks :: "timespec \<Rightarrow> timespec \<Rightarrow> int" where
  "time_ranks a b = (let rank = to_int (tv_sec b - tv_sec a) in
     if rank = 0 then to_int (tv_nsec b - tv_nsec a) else rank)"

text \<open>The time at which a timer expires, as \<^verbatim>\<open>LocTimer::start\<close> computes it.\<close>

definition future_time :: "timespec \<Rightarrow> 32 word \<Rightarrow> timespec" where
  "future_time now timeOutInMs =
     (let sec = tv_sec now + uint (timeOutInMs div 1000);
          nsec = tv_nsec now + uint ((timeOutInMs mod 1000) * 1000000) in
      if nsec \<ge> 1000000000 then \<lparr>tv_sec = sec + nsec div 1000000000, tv_nsec = nsec mod 1000000000\<rparr>
      else \<lparr>tv_sec = sec, tv_nsec = nsec\<rparr>)"

section \<open>Objects\<close>

text \<open>\<^verbatim>\<open>LocTimer\<close>, and the fields of \<^verbatim>\<open>LocTimerWrapper\<close>; \<open>mCb\<close> is null for other kinds of timers.\<close>

record LocTimer =
  mTimer :: addr
  mLock :: addr
  mCb :: addr

text \<open>\<^verbatim>\<open>LocTimerDelegate\<close>; \<open>mShared\<close> is its field \<^verbatim>\<open>mLock\<close>.\<close>

record LocTimerDelegate =
  mClient :: addr
  mShared :: addr
  mFutureTime :: timespec
  mContainer :: "bool option"

text \<open>\<^verbatim>\<open>LocTimerContainer\<close> with what the kernel knows of it: the time its timer is set to, and whether the polling
  thread polls it.\<close>

record LocTimerContainer =
  mTree :: LocHeap
  armed :: "timespec option"
  polled :: bool

datatype timer_msg = MsgTimerPush bool addr | MsgTimerRemove bool addr | MsgTimerExpire bool

text \<open>Where the message task is: the next action of the expiry of a container at a time (read the client of a
  delegate, stop a client, call a client whose timer was due at some time), or the call of
  \<^verbatim>\<open>timerfd_settime\<close> and the deletion of a delegate that follows it.\<close>

datatype task_pc = Idle | Expiring bool timespec addr | Stopping bool timespec addr
  | Calling bool timespec addr timespec | Arming bool timespec addr

datatype poll_pc = Disarm bool | Unpoll bool | SendExpire bool

text \<open>What the clients see: the results of starting and stopping, and the callbacks, with the time at which the timer was
  due and the time of the expiry.\<close>

datatype timer_event = Started addr bool | Stopped addr bool | TimedOut addr timespec timespec

record timer_state =
  timers :: "addr \<rightharpoonup> LocTimer"
  delegates :: "addr \<rightharpoonup> LocTimerDelegate"
  locks :: "addr \<rightharpoonup> nat"
  containers :: "bool \<rightharpoonup> LocTimerContainer"
  msgs :: "timer_msg list"
  task :: task_pc
  poll :: "poll_pc list"
  seen :: "timer_event list"

definition initial :: timer_state where
  "initial = \<lparr>timers = Map.empty, delegates = Map.empty, locks = Map.empty, containers = Map.empty, msgs = [],
     task = Idle, poll = [], seen = []\<rparr>"

section \<open>Shared lock\<close>

definition share :: "addr \<Rightarrow> timer_state \<Rightarrow> timer_state option" where
  "share l s = do { n \<leftarrow> load (locks s) l; Some (s\<lparr>locks := (locks s)(l \<mapsto> n + 1)\<rparr>) }"

definition drop_ref :: "addr \<Rightarrow> timer_state \<Rightarrow> timer_state option" where
  "drop_ref l s = do { n \<leftarrow> load (locks s) l;
     Some (s\<lparr>locks := (if n = 1 then (locks s)(l := None) else (locks s)(l \<mapsto> n - 1))\<rparr>) }"

section \<open>Clients\<close>

definition sendMsg :: "timer_msg \<Rightarrow> timer_state \<Rightarrow> timer_state" where
  "sendMsg m s = s\<lparr>msgs := msgs s @ [m]\<rparr>"

text \<open>What a call of \<^verbatim>\<open>timerfd_create\<close> returns: a descriptor, -1 with \<^verbatim>\<open>EINVAL\<close> in \<^verbatim>\<open>errno\<close>, or -1 with another
  error.  The constructor of \<^verbatim>\<open>LocTimerContainer\<close> calls it for the clock \<^verbatim>\<open>CLOCK_BOOTTIME\<close> (or its alarm variant) and, when
  the kernel does not know that clock, again for \<^verbatim>\<open>CLOCK_MONOTONIC\<close>; the input has the answers of both calls.\<close>

datatype timerfd_result = Fd | Einval | OtherError

fun container_fd :: "timerfd_result \<times> timerfd_result \<Rightarrow> timerfd_result" where
  "container_fd (boottime, monotonic) = (if boottime = Einval then monotonic else boottime)"

text \<open>\<^verbatim>\<open>LocTimerContainer::get\<close>; a new container has no timers and is not polled.\<close>

definition get_container :: "timerfd_result \<times> timerfd_result \<Rightarrow> bool \<Rightarrow> timer_state \<Rightarrow> LocTimerContainer option" where
  "get_container fds wakeOnExpire s = (case containers s wakeOnExpire of
     Some k \<Rightarrow> Some k
   | None \<Rightarrow> if container_fd fds = Fd then Some \<lparr>mTree = None, armed = None, polled = False\<rparr> else None)"

text \<open>The constructor of \<^verbatim>\<open>LocTimerDelegate\<close>, which sends the message that adds it to the heap.\<close>

definition new_delegate :: "addr \<Rightarrow> addr \<Rightarrow> timespec \<Rightarrow> bool \<Rightarrow> timer_state \<Rightarrow> timer_state option" where
  "new_delegate d client futureTime container s = do {
     t \<leftarrow> load (timers s) client;
     s \<leftarrow> share (mLock t) s;
     Some (sendMsg (MsgTimerPush container d) (s\<lparr>delegates := (delegates s)(d \<mapsto>
       \<lparr>mClient = client, mShared = mLock t, mFutureTime = futureTime, mContainer = Some container\<rparr>)\<rparr>)) }"

definition LocTimer_start :: "addr \<Rightarrow> 32 word \<Rightarrow> bool \<Rightarrow> timespec \<Rightarrow> timerfd_result \<times> timerfd_result \<Rightarrow> addr \<Rightarrow> timer_state
    \<Rightarrow> (bool \<times> timer_state) option" where
  "LocTimer_start c timeOutInMs wakeOnExpire now fds d s = do {
     t \<leftarrow> load (timers s) c;
     load (locks s) (mLock t);
     if mTimer t \<noteq> NULL then Some (False, s)
     else case get_container fds wakeOnExpire s of
       None \<Rightarrow> Some (False, s)
     | Some k \<Rightarrow> do {
         let s = s\<lparr>containers := (containers s)(wakeOnExpire \<mapsto> k)\<rparr>;
         s \<leftarrow> new_delegate d c (future_time now timeOutInMs) wakeOnExpire s;
         m \<leftarrow> store (timers s) c (t\<lparr>mTimer := d\<rparr>);
         Some (True, s\<lparr>timers := m\<rparr>) } }"

definition destroyLocked :: "addr \<Rightarrow> timer_state \<Rightarrow> timer_state option" where
  "destroyLocked d s = do {
     x \<leftarrow> load (delegates s) d;
     m \<leftarrow> store (delegates s) d (x\<lparr>mClient := NULL, mContainer := None\<rparr>);
     let s = s\<lparr>delegates := m\<rparr>;
     Some (case mContainer x of None \<Rightarrow> s | Some w \<Rightarrow> sendMsg (MsgTimerRemove w d) s) }"

definition LocTimer_stop :: "addr \<Rightarrow> timer_state \<Rightarrow> (bool \<times> timer_state) option" where
  "LocTimer_stop c s = do {
     t \<leftarrow> load (timers s) c;
     load (locks s) (mLock t);
     if mTimer t = NULL then Some (False, s)
     else do {
       m \<leftarrow> store (timers s) c (t\<lparr>mTimer := NULL\<rparr>);
       s \<leftarrow> destroyLocked (mTimer t) (s\<lparr>timers := m\<rparr>);
       Some (True, s) } }"

definition new_timer :: "addr \<Rightarrow> addr \<Rightarrow> addr \<Rightarrow> timer_state \<Rightarrow> timer_state" where
  "new_timer c l cb s = s\<lparr>timers := (timers s)(c \<mapsto> \<lparr>mTimer = NULL, mLock = l, mCb = cb\<rparr>), locks := (locks s)(l \<mapsto> 1)\<rparr>"

text \<open>The destructor of \<^verbatim>\<open>LocTimer\<close>, and the deletion of the object.\<close>

definition delete_timer :: "addr \<Rightarrow> timer_state \<Rightarrow> timer_state option" where
  "delete_timer c s = do {
     (stopped, s) \<leftarrow> LocTimer_stop c s;
     t \<leftarrow> load (timers s) c;
     s \<leftarrow> drop_ref (mLock t) s;
     m \<leftarrow> free_obj (timers s) c;
     Some (s\<lparr>timers := m, seen := seen s @ [Stopped c stopped]\<rparr>) }"

text \<open>\<^verbatim>\<open>LocTimerWrapper::destroy\<close>.\<close>

definition wrapper_destroy :: "addr \<Rightarrow> timer_state \<Rightarrow> timer_state option" where
  "wrapper_destroy c s = do { t \<leftarrow> load (timers s) c; if mCb t \<noteq> NULL then delete_timer c s else Some s }"

section \<open>The message task\<close>

text \<open>The ranking of delegates; the heap operations look at the objects in the heap and at their argument, which have
  to exist.\<close>

definition timer_ranks :: "(addr \<rightharpoonup> LocTimerDelegate) \<Rightarrow> ranking" where
  "timer_ranks ds a b = time_ranks (mFutureTime (the (ds a))) (mFutureTime (the (ds b)))"

fun node_data :: "LocHeapNode \<Rightarrow> addr list" where
  "node_data (LocHeapNode s l r x) = x # (case l of None \<Rightarrow> [] | Some n \<Rightarrow> node_data n)
     @ (case r of None \<Rightarrow> [] | Some n \<Rightarrow> node_data n)"

definition heap_data :: "LocHeap \<Rightarrow> addr list" where
  "heap_data t = (case t of None \<Rightarrow> [] | Some n \<Rightarrow> node_data n)"

definition live_container :: "bool \<Rightarrow> timer_state \<Rightarrow> LocTimerContainer option" where
  "live_container w s = (case containers s w of None \<Rightarrow> None
     | Some k \<Rightarrow> if list_all (\<lambda>d. delegates s d \<noteq> None) (heap_data (mTree k)) then Some k else None)"

text \<open>The end of a message: the delegate that is deleted, if there is one.\<close>

definition end_msg :: "addr \<Rightarrow> timer_state \<Rightarrow> timer_state option" where
  "end_msg d s = (if d = NULL then Some (s\<lparr>task := Idle\<rparr>)
     else do {
       x \<leftarrow> load (delegates s) d;
       s \<leftarrow> drop_ref (mShared x) s;
       m \<leftarrow> free_obj (delegates s) d;
       Some (s\<lparr>delegates := m, task := Idle\<rparr>) })"

text \<open>\<^verbatim>\<open>updateSoonestTime\<close> up to the call of \<^verbatim>\<open>timerfd_settime\<close>, for a container with a given heap.\<close>

definition updateSoonestTime :: "bool \<Rightarrow> LocTimerContainer \<Rightarrow> addr \<Rightarrow> addr \<Rightarrow> timer_state \<Rightarrow> timer_state option" where
  "updateSoonestTime w k priorTop d s = (let curTop = LocHeap_peek (mTree k) in
     if curTop = priorTop then end_msg d (s\<lparr>containers := (containers s)(w \<mapsto> k)\<rparr>)
     else if curTop = NULL then end_msg d (s\<lparr>containers := (containers s)(w \<mapsto> k\<lparr>polled := False, armed := None\<rparr>)\<rparr>)
     else if priorTop = NULL \<or> outRanks (timer_ranks (delegates s)) curTop priorTop then do {
       x \<leftarrow> load (delegates s) curTop;
       Some (s\<lparr>containers := (containers s)(w \<mapsto> k\<lparr>polled := True\<rparr>), task := Arming w (mFutureTime x) d\<rparr>) }
     else end_msg d (s\<lparr>containers := (containers s)(w \<mapsto> k)\<rparr>))"

definition proc_push :: "bool \<Rightarrow> addr \<Rightarrow> timer_state \<Rightarrow> timer_state option" where
  "proc_push w d s = do {
     k \<leftarrow> live_container w s;
     load (delegates s) d;
     let priorTop = LocHeap_peek (mTree k);
     updateSoonestTime w (k\<lparr>mTree := LocHeap_push (timer_ranks (delegates s)) d (mTree k)\<rparr>) priorTop NULL s }"

definition proc_remove :: "bool \<Rightarrow> addr \<Rightarrow> timer_state \<Rightarrow> timer_state option" where
  "proc_remove w d s = do {
     k \<leftarrow> live_container w s;
     load (delegates s) d;
     let priorTop = LocHeap_peek (mTree k);
     let (removed, tree) = LocHeap_remove (timer_ranks (delegates s)) d (mTree k);
     let k = k\<lparr>mTree := tree\<rparr>;
     if priorTop = removed then updateSoonestTime w k NULL d s
     else end_msg d (s\<lparr>containers := (containers s)(w \<mapsto> k)\<rparr>) }"

text \<open>\<^verbatim>\<open>pop\<close> at the start of an expiry, and \<^verbatim>\<open>popIfOutRanks\<close> in its loop.\<close>

definition expire_pop :: "bool \<Rightarrow> timespec \<Rightarrow> timer_state \<Rightarrow> timer_state option" where
  "expire_pop w now s = do {
     k \<leftarrow> live_container w s;
     let (d, tree) = LocHeap_pop (timer_ranks (delegates s)) (mTree k);
     Some (s\<lparr>containers := (containers s)(w \<mapsto> k\<lparr>mTree := tree\<rparr>), task := Expiring w now d\<rparr>) }"

definition popIfOutRanks :: "bool \<Rightarrow> timespec \<Rightarrow> timer_state \<Rightarrow> timer_state option" where
  "popIfOutRanks w now s = do {
     k \<leftarrow> live_container w s;
     if mTree k \<noteq> None \<and> \<not> time_ranks now (mFutureTime (the (delegates s (LocHeap_peek (mTree k))))) > 0
     then expire_pop w now s
     else Some (s\<lparr>task := Expiring w now NULL\<rparr>) }"

definition take_msg :: "timespec \<Rightarrow> timer_state \<Rightarrow> timer_state option" where
  "take_msg now s = (case msgs s of
     [] \<Rightarrow> Some s
   | MsgTimerPush w d # ms \<Rightarrow> proc_push w d (s\<lparr>msgs := ms\<rparr>)
   | MsgTimerRemove w d # ms \<Rightarrow> proc_remove w d (s\<lparr>msgs := ms\<rparr>)
   | MsgTimerExpire w # ms \<Rightarrow> expire_pop w now (s\<lparr>msgs := ms\<rparr>))"

text \<open>\<^verbatim>\<open>LocTimerWrapper::timeOutCallback\<close> deletes the object after the call; other timers only get the call.\<close>

definition timeOutCallback :: "addr \<Rightarrow> timespec \<Rightarrow> timespec \<Rightarrow> timer_state \<Rightarrow> timer_state option" where
  "timeOutCallback c due now s = do {
     load (timers s) c;
     wrapper_destroy c (s\<lparr>seen := seen s @ [TimedOut c due now]\<rparr>) }"

definition task_step :: "timespec \<Rightarrow> timer_state \<Rightarrow> timer_state option" where
  "task_step now s = (case task s of
     Idle \<Rightarrow> take_msg now s
   | Expiring w now d \<Rightarrow>
       if d = NULL then do {
         k \<leftarrow> live_container w s;
         updateSoonestTime w k NULL NULL s }
       else do {
         x \<leftarrow> load (delegates s) d;
         if mClient x = NULL then popIfOutRanks w now s
         else Some (s\<lparr>task := Stopping w now (mClient x)\<rparr>) }
   | Stopping w now c \<Rightarrow> do {
       t \<leftarrow> load (timers s) c;
       (stopped, s') \<leftarrow> LocTimer_stop c s;
       if stopped then do {
         x \<leftarrow> load (delegates s) (mTimer t);
         Some (s'\<lparr>task := Calling w now c (mFutureTime x)\<rparr>) }
       else popIfOutRanks w now s' }
   | Calling w now c due \<Rightarrow> do {
       s \<leftarrow> timeOutCallback c due now s;
       popIfOutRanks w now s }
   | Arming w due d \<Rightarrow> (case containers s w of None \<Rightarrow> None
       | Some k \<Rightarrow> end_msg d (s\<lparr>containers := (containers s)(w \<mapsto> k\<lparr>armed := Some due\<rparr>)\<rparr>)))"

section \<open>The polling thread\<close>

text \<open>A container is reported when it is polled and its timer has run out.\<close>

definition not_after :: "timespec \<Rightarrow> timespec \<Rightarrow> bool" where
  "not_after a b \<longleftrightarrow> tv_sec a < tv_sec b \<or> tv_sec a = tv_sec b \<and> tv_nsec a \<le> tv_nsec b"

definition ready :: "timespec \<Rightarrow> timer_state \<Rightarrow> bool \<Rightarrow> bool" where
  "ready now s w \<longleftrightarrow> (case containers s w of None \<Rightarrow> False
     | Some k \<Rightarrow> polled k \<and> (case armed k of None \<Rightarrow> False | Some t \<Rightarrow> not_after t now))"

definition poll_step :: "timer_state \<Rightarrow> timer_state option" where
  "poll_step s = (case poll s of
     [] \<Rightarrow> Some s
   | Disarm w # ps \<Rightarrow> (case containers s w of None \<Rightarrow> None
       | Some k \<Rightarrow> Some (s\<lparr>containers := (containers s)(w \<mapsto> k\<lparr>armed := None\<rparr>), poll := Unpoll w # ps\<rparr>))
   | Unpoll w # ps \<Rightarrow> (case containers s w of None \<Rightarrow> None
       | Some k \<Rightarrow> Some (s\<lparr>containers := (containers s)(w \<mapsto> k\<lparr>polled := False\<rparr>), poll := SendExpire w # ps\<rparr>))
   | SendExpire w # ps \<Rightarrow> Some (sendMsg (MsgTimerExpire w) (s\<lparr>poll := ps\<rparr>)))"

section \<open>The C interface\<close>

definition loc_timer_start :: "64 word \<Rightarrow> addr \<Rightarrow> bool \<Rightarrow> addr \<Rightarrow> addr \<Rightarrow> timespec
    \<Rightarrow> timerfd_result \<times> timerfd_result \<Rightarrow> addr \<Rightarrow> timer_state \<Rightarrow> (addr \<times> timer_state) option" where
  "loc_timer_start msec cb_func wake_on_expire c l now fds d s =
     (if cb_func = NULL then Some (NULL, s)
      else do {
        (started, s) \<leftarrow> LocTimer_start c (ucast msec) wake_on_expire now fds d (new_timer c l cb_func s);
        Some (c, s\<lparr>seen := seen s @ [Started c started]\<rparr>) })"

definition loc_timer_stop :: "addr \<Rightarrow> timer_state \<Rightarrow> timer_state option" where
  "loc_timer_stop handle s = (if handle \<noteq> NULL then wrapper_destroy handle s else Some s)"

section \<open>Interleavings\<close>

text \<open>The calls of the clients, a step of the message task, and the polling thread.\<close>

datatype timer_call = NewTimer addr addr | DeleteTimer addr | StartTimer addr "32 word" bool timespec "timerfd_result \<times> timerfd_result" addr
  | StopTimer addr | CStart "64 word" addr bool addr addr timespec "timerfd_result \<times> timerfd_result" addr | CStop addr
  | TaskRun timespec | PollWake "bool list" | PollRun

fun timer_step :: "timer_call \<Rightarrow> timer_state \<Rightarrow> timer_state option" where
  "timer_step (NewTimer c l) s = Some (new_timer c l NULL s)"
| "timer_step (DeleteTimer c) s = delete_timer c s"
| "timer_step (StartTimer c ms w now fds d) s =
     map_option (\<lambda>(r, s). s\<lparr>seen := seen s @ [Started c r]\<rparr>) (LocTimer_start c ms w now fds d s)"
| "timer_step (StopTimer c) s = map_option (\<lambda>(r, s). s\<lparr>seen := seen s @ [Stopped c r]\<rparr>) (LocTimer_stop c s)"
| "timer_step (CStart ms cb w c l now fds d) s = map_option snd (loc_timer_start ms cb w c l now fds d s)"
| "timer_step (CStop c) s = loc_timer_stop c s"
| "timer_step (TaskRun now) s = task_step now s"
| "timer_step (PollWake ws) s = Some (s\<lparr>poll := map Disarm ws\<rparr>)"
| "timer_step PollRun s = poll_step s"

text \<open>When a call can be made at a time: new objects have new addresses, clients use existing timers only, and a wake-up of the
  polling thread reports containers whose time has come.  The clock counts from the start of the device: \<open>clock_ok\<close>
  allows 34 years.\<close>

definition clock_ok :: "timespec \<Rightarrow> bool" where
  "clock_ok t \<longleftrightarrow> 0 \<le> tv_sec t \<and> tv_sec t < 2 ^ 30 \<and> 0 \<le> tv_nsec t \<and> tv_nsec t < 1000000000"

fun timer_enabled :: "timespec \<Rightarrow> timer_call \<Rightarrow> timer_state \<Rightarrow> bool" where
  "timer_enabled now (NewTimer c l) s \<longleftrightarrow> c \<noteq> NULL \<and> l \<noteq> NULL \<and> timers s c = None \<and> locks s l = None"
| "timer_enabled now (DeleteTimer c) s \<longleftrightarrow> timers s c \<noteq> None"
| "timer_enabled now (StartTimer c ms w n fds d) s \<longleftrightarrow> n = now \<and> timers s c \<noteq> None \<and> d \<noteq> NULL \<and> delegates s d = None"
| "timer_enabled now (StopTimer c) s \<longleftrightarrow> timers s c \<noteq> None"
| "timer_enabled now (CStart ms cb w c l n fds d) s \<longleftrightarrow> n = now \<and> c \<noteq> NULL \<and> l \<noteq> NULL
     \<and> timers s c = None \<and> locks s l = None \<and> d \<noteq> NULL \<and> delegates s d = None"
| "timer_enabled now (CStop c) s \<longleftrightarrow> c = NULL \<or> timers s c \<noteq> None"
| "timer_enabled now (TaskRun n) s \<longleftrightarrow> n = now"
| "timer_enabled now (PollWake ws) s \<longleftrightarrow> poll s = [] \<and> ws \<noteq> [] \<and> distinct ws \<and> list_all (ready now s) ws"
| "timer_enabled now PollRun s \<longleftrightarrow> True"

end
