(* ===== verification/LocTimerInv.thy ===== *)
theory LocTimerInv
  imports LocTimer
begin

text \<open>
  The invariant of the timers of \<^verbatim>\<open>LocTimer\<close> and that every operation of the clients and every message of the message task keeps it:
  running timers and their delegates point to each other, a cancelled delegate is deleted by exactly one message, the heaps hold
  existing delegates in the order of their times, the count of a lock is the number of its users, and the kernel timer of a
  container with timers is set to the time of the first one, or an expiry is on its way.  The heap of a container is an
  interpretation of the locale \<^verbatim>\<open>rankable\<close> of \<^verbatim>\<open>LocHeap\<close>, for times within the range in which ranks are exact.
\<close>

section \<open>Times\<close>

definition time_ok :: "timespec \<Rightarrow> bool" where
  "time_ok t \<longleftrightarrow> 0 \<le> tv_sec t \<and> tv_sec t < 2 ^ 31 \<and> 0 \<le> tv_nsec t \<and> tv_nsec t < 1000000000"

lemma to_int_small: "- (2 ^ 31) \<le> x \<Longrightarrow> x < 2 ^ 31 \<Longrightarrow> to_int x = x"
  by (simp add: to_int_def)

text \<open>Within the bounds the rank is the order of the times; without them the conversion to \<^verbatim>\<open>int\<close> can reverse it.\<close>

lemma time_ranks_pos:
  assumes "time_ok a" "time_ok b"
  shows "time_ranks a b > 0 \<longleftrightarrow> \<not> not_after b a"
proof -
  have "to_int (tv_sec b - tv_sec a) = tv_sec b - tv_sec a" "to_int (tv_nsec b - tv_nsec a) = tv_nsec b - tv_nsec a"
    using assms by (auto simp: time_ok_def intro!: to_int_small)
  then show ?thesis by (auto simp: time_ranks_def not_after_def)
qed

lemma clock_time_ok: "clock_ok t \<Longrightarrow> time_ok t"
  by (auto simp: clock_ok_def time_ok_def)

lemma future_time_ok:
  assumes "clock_ok now"
  shows "time_ok (future_time now ms)" "not_after now (future_time now ms)"
proof -
  have m: "unat (ms mod 1000) < 1000" by (simp add: unat_mod)
  then have "unat (ms mod 1000) * unat (1000000 :: 32 word) < 2 ^ LENGTH(32)" by simp
  then have "unat ((ms mod 1000) * 1000000) = unat (ms mod 1000) * 1000000" using unat_mult_lem [of "ms mod 1000" 1000000] by simp
  moreover have "unat ms < 2 ^ 32" using unsigned_less [of ms] by simp
  then have "unat (ms div 1000) < 4294968" by (simp add: unat_div)
  ultimately have "uint ((ms mod 1000) * 1000000) \<le> 999000000" "uint (ms div 1000) < 4294968" "0 \<le> uint ((ms mod 1000) * 1000000)"
    "0 \<le> uint (ms div 1000)"
    unfolding uint_nat using m by linarith+
  then obtain a b where ab: "a = uint ((ms mod 1000) * 1000000)" "b = uint (ms div 1000)"
      and bounds: "0 \<le> a" "a \<le> 999000000" "0 \<le> b" "b < 4294968" by blast
  have carry: "(tv_nsec now + a) div 1000000000 = 1" if "1000000000 \<le> tv_nsec now + a"
    using that bounds assms unfolding clock_ok_def by linarith
  with assms bounds show "time_ok (future_time now ms)" "not_after now (future_time now ms)"
    by (auto simp: future_time_def Let_def ab [symmetric] time_ok_def clock_ok_def not_after_def)
qed

section \<open>The ranking of delegates\<close>

definition valid :: "(addr \<rightharpoonup> LocTimerDelegate) \<Rightarrow> addr set" where
  "valid ds = {d. \<exists>x. ds d = Some x \<and> time_ok (mFutureTime x)}"

text \<open>Delegates with times in range are rankable objects in the sense of the heap.\<close>

interpretation timer_order: rankable "timer_ranks ds" "valid ds" for ds
  by unfold_locales (auto simp: outRanks_def timer_ranks_def valid_def time_ranks_pos not_after_def)

definition same_times :: "(addr \<rightharpoonup> LocTimerDelegate) \<Rightarrow> (addr \<rightharpoonup> LocTimerDelegate) \<Rightarrow> addr set \<Rightarrow> bool" where
  "same_times ds es D \<longleftrightarrow> (\<forall>d \<in> D. \<exists>x y. ds d = Some x \<and> es d = Some y \<and> mFutureTime x = mFutureTime y)"

lemma checkNodes_cong:
  assumes "\<And>a b. a \<in># node_mset n \<Longrightarrow> b \<in># node_mset n \<Longrightarrow> outRanks r a b = outRanks r' a b" "checkNodes r n"
  shows "checkNodes r' n"
  using assms
proof (induction n)
  case (LocHeapNode s l r1 x)
  have "checkTree r' t \<and> below r' t x" if "t = l \<or> t = r1" for t
  proof (cases t)
    case (Some m)
    then have "checkNodes r' m" using that LocHeapNode by (auto simp: tree_simps)
    with Some that LocHeapNode.prems show ?thesis by (auto simp: tree_simps)
  qed simp
  with LocHeapNode.prems show ?case by (simp add: tree_simps)
qed

lemma heap_ok_cong:
  assumes "heap_ok (timer_ranks ds) (valid ds) t" "same_times ds es (set_mset (heap_mset t))"
  shows "heap_ok (timer_ranks es) (valid es) t"
proof -
  have *: "timer_ranks ds a b = timer_ranks es a b" if "a \<in># heap_mset t" "b \<in># heap_mset t" for a b
  proof -
    from assms(2) that obtain x y x' y' where "ds a = Some x" "es a = Some y" "mFutureTime x = mFutureTime y"
      "ds b = Some x'" "es b = Some y'" "mFutureTime x' = mFutureTime y'" by (meson same_times_def)
    then show ?thesis by (simp add: timer_ranks_def)
  qed
  have "checkTree (timer_ranks es) t"
    using assms(1) * checkNodes_cong [of "the t" "timer_ranks ds" "timer_ranks es"]
    by (cases t) (auto simp: heap_ok_def outRanks_def)
  moreover have "set_mset (heap_mset t) \<subseteq> valid es"
    using assms by (fastforce simp: heap_ok_def valid_def same_times_def)
  ultimately show ?thesis using assms(1) by (simp add: heap_ok_def)
qed

lemma node_data_set: "set (node_data n) = set_mset (node_mset n)"
  by (induction n) (auto simp: tree_simps heap_mset_def split: option.splits)

lemma heap_data_set: "set (heap_data t) = set_mset (heap_mset t)"
  by (cases t) (simp_all add: heap_data_def node_data_set)

lemma live_container_eq: "live_container w s = (case containers s w of None \<Rightarrow> None
    | Some k \<Rightarrow> if set_mset (heap_mset (mTree k)) \<subseteq> dom (delegates s) then Some k else None)"
  by (auto simp: live_container_def list_all_iff heap_data_set split: option.splits)

section \<open>The invariant\<close>

fun removes :: "timer_msg list \<Rightarrow> addr list" where
  "removes [] = []"
| "removes (MsgTimerRemove w d # ms) = d # removes ms"
| "removes (_ # ms) = removes ms"

fun pushes :: "timer_msg list \<Rightarrow> addr list" where
  "pushes [] = []"
| "pushes (MsgTimerPush w d # ms) = d # pushes ms"
| "pushes (_ # ms) = pushes ms"

text \<open>No delegate is added after the message that removes it.\<close>

fun push_first :: "timer_msg list \<Rightarrow> bool" where
  "push_first [] \<longleftrightarrow> True"
| "push_first (MsgTimerRemove w d # ms) \<longleftrightarrow> d \<notin> set (pushes ms) \<and> push_first ms"
| "push_first (_ # ms) \<longleftrightarrow> push_first ms"

fun msg_container :: "timer_msg \<Rightarrow> bool" where
  "msg_container (MsgTimerPush w d) = w"
| "msg_container (MsgTimerRemove w d) = w"
| "msg_container (MsgTimerExpire w) = w"

fun deleting :: "task_pc \<Rightarrow> addr list" where
  "deleting (Arming w due d) = (if d = NULL then [] else [d])"
| "deleting _ = []"

text \<open>The delegates that are about to be deleted, and the container a delegate belongs to.\<close>

definition leavers :: "timer_state \<Rightarrow> addr list" where
  "leavers s = deleting (task s) @ removes (msgs s)"

definition home :: "timer_state \<Rightarrow> bool \<Rightarrow> addr \<Rightarrow> bool" where
  "home s w d \<longleftrightarrow> (\<exists>x. delegates s d = Some x \<and> (mContainer x = Some w \<or> MsgTimerRemove w d \<in> set (msgs s)))"

definition in_heap :: "timer_state \<Rightarrow> bool \<Rightarrow> addr \<Rightarrow> bool" where
  "in_heap s w d \<longleftrightarrow> (\<exists>k. containers s w = Some k \<and> d \<in># heap_mset (mTree k))"

definition client_ok :: "timer_state \<Rightarrow> addr \<Rightarrow> LocTimer \<Rightarrow> bool" where
  "client_ok s c t \<longleftrightarrow> c \<noteq> NULL \<and> mLock t \<noteq> NULL \<and> (mTimer t \<noteq> NULL \<longrightarrow>
     (\<exists>x w. delegates s (mTimer t) = Some x \<and> mClient x = c \<and> mShared x = mLock t \<and> mContainer x = Some w))"

definition clients_ok :: "timer_state \<Rightarrow> bool" where
  "clients_ok s \<longleftrightarrow> (\<forall>c t. timers s c = Some t \<longrightarrow> client_ok s c t)"

definition delegate_ok :: "timer_state \<Rightarrow> addr \<Rightarrow> LocTimerDelegate \<Rightarrow> bool" where
  "delegate_ok s d x \<longleftrightarrow> d \<noteq> NULL \<and> mShared x \<noteq> NULL \<and> time_ok (mFutureTime x)
     \<and> (case mContainer x of None \<Rightarrow> mClient x = NULL \<and> d \<in> set (leavers s)
        | Some w \<Rightarrow> containers s w \<noteq> None \<and> (\<exists>t. timers s (mClient x) = Some t \<and> mTimer t = d))"

definition delegates_ok :: "timer_state \<Rightarrow> bool" where
  "delegates_ok s \<longleftrightarrow> (\<forall>d x. delegates s d = Some x \<longrightarrow> delegate_ok s d x)"

definition leavers_ok :: "timer_state \<Rightarrow> bool" where
  "leavers_ok s \<longleftrightarrow> distinct (leavers s) \<and> (\<forall>d \<in> set (leavers s). \<exists>x. delegates s d = Some x \<and> mContainer x = None)"

definition msgs_ok :: "timer_state \<Rightarrow> bool" where
  "msgs_ok s \<longleftrightarrow> push_first (msgs s) \<and> distinct (pushes (msgs s)) \<and> (\<forall>m \<in> set (msgs s). containers s (msg_container m) \<noteq> None)
     \<and> (\<forall>w d. MsgTimerPush w d \<in> set (msgs s) \<longrightarrow> home s w d \<and> (\<forall>v. \<not> in_heap s v d))"

definition heaps_ok :: "timer_state \<Rightarrow> bool" where
  "heaps_ok s \<longleftrightarrow> (\<forall>w k. containers s w = Some k \<longrightarrow> heap_ok (timer_ranks (delegates s)) (valid (delegates s)) (mTree k)
     \<and> (\<forall>d. count (heap_mset (mTree k)) d \<le> 1) \<and> (\<forall>d. d \<in># heap_mset (mTree k) \<longrightarrow> home s w d))"

fun task_ok :: "timer_state \<Rightarrow> task_pc \<Rightarrow> bool" where
  "task_ok s Idle \<longleftrightarrow> True"
| "task_ok s (Expiring w now d) \<longleftrightarrow> containers s w \<noteq> None \<and> time_ok now \<and> (d \<noteq> NULL \<longrightarrow> delegates s d \<noteq> None)"
| "task_ok s (Stopping w now c) \<longleftrightarrow> containers s w \<noteq> None \<and> time_ok now \<and> timers s c \<noteq> None"
| "task_ok s (Calling w now c due) \<longleftrightarrow> containers s w \<noteq> None \<and> time_ok now \<and> timers s c \<noteq> None"
| "task_ok s (Arming w due d) \<longleftrightarrow> containers s w \<noteq> None"

fun poll_container :: "poll_pc \<Rightarrow> bool" where
  "poll_container (Disarm w) = w"
| "poll_container (Unpoll w) = w"
| "poll_container (SendExpire w) = w"

definition poll_ok :: "timer_state \<Rightarrow> bool" where
  "poll_ok s \<longleftrightarrow> (\<forall>p \<in> set (poll s). containers s (poll_container p) \<noteq> None)"

text \<open>The number of users of a lock.\<close>

definition users :: "(addr \<rightharpoonup> 'v) \<Rightarrow> ('v \<Rightarrow> addr) \<Rightarrow> addr \<Rightarrow> nat" where
  "users m f l = card {a. \<exists>x. m a = Some x \<and> f x = l}"

definition locks_ok :: "timer_state \<Rightarrow> bool" where
  "locks_ok s \<longleftrightarrow> finite (dom (timers s)) \<and> finite (dom (delegates s))
     \<and> (\<forall>l. locks s l = (let n = users (timers s) mLock l + users (delegates s) mShared l in if n = 0 then None else Some n))"

text \<open>The kernel timer of a container with timers is set to the time of the first one, or an expiry is on its way.\<close>

definition expiry_due :: "timer_state \<Rightarrow> bool \<Rightarrow> bool" where
  "expiry_due s w \<longleftrightarrow> MsgTimerExpire w \<in> set (msgs s) \<or> w \<in> poll_container ` set (poll s)
     \<or> (case task s of Expiring v _ _ \<Rightarrow> v = w | Stopping v _ _ \<Rightarrow> v = w | Calling v _ _ _ \<Rightarrow> v = w | _ \<Rightarrow> False)"

definition first_due :: "timer_state \<Rightarrow> LocTimerContainer \<Rightarrow> timespec" where
  "first_due s k = mFutureTime (the (delegates s (LocHeap_peek (mTree k))))"

definition armed_ok :: "timer_state \<Rightarrow> bool" where
  "armed_ok s \<longleftrightarrow> (\<forall>w k. containers s w = Some k \<and> mTree k \<noteq> None \<longrightarrow> expiry_due s w
     \<or> polled k \<and> (armed k = Some (first_due s k) \<or> (\<exists>d. task s = Arming w (first_due s k) d)))
     \<and> (\<forall>w due d. task s = Arming w due d \<longrightarrow> (\<exists>k. containers s w = Some k \<and> mTree k \<noteq> None \<and> due = first_due s k))"

definition timers_inv :: "timer_state \<Rightarrow> bool" where
  "timers_inv s \<longleftrightarrow> clients_ok s \<and> delegates_ok s \<and> leavers_ok s \<and> msgs_ok s \<and> heaps_ok s \<and> task_ok s (task s) \<and> poll_ok s
     \<and> locks_ok s \<and> armed_ok s"

lemma initial_inv: "timers_inv initial"
  by (simp add: timers_inv_def initial_def clients_ok_def delegates_ok_def leavers_ok_def leavers_def msgs_ok_def
      heaps_ok_def poll_ok_def locks_ok_def armed_ok_def users_def)

section \<open>Messages and users\<close>

lemma removes_append [simp]: "removes (xs @ ys) = removes xs @ removes ys"
  by (induction xs rule: removes.induct) auto

lemma pushes_append [simp]: "pushes (xs @ ys) = pushes xs @ pushes ys"
  by (induction xs rule: pushes.induct) auto

lemma in_removes: "d \<in> set (removes ms) \<longleftrightarrow> (\<exists>w. MsgTimerRemove w d \<in> set ms)"
  by (induction ms rule: removes.induct) auto

lemma in_pushes: "d \<in> set (pushes ms) \<longleftrightarrow> (\<exists>w. MsgTimerPush w d \<in> set ms)"
  by (induction ms rule: pushes.induct) auto

lemma push_first_append:
  "push_first (xs @ ys) \<longleftrightarrow> push_first xs \<and> push_first ys \<and> set (removes xs) \<inter> set (pushes ys) = {}"
  by (induction xs rule: push_first.induct) auto

lemma remove_unique:
  "distinct (removes ms) \<Longrightarrow> MsgTimerRemove w d \<in> set ms \<Longrightarrow> MsgTimerRemove v d \<in> set ms \<Longrightarrow> v = w"
  by (induction ms rule: removes.induct) (auto simp: in_removes)

lemma users_finite: "finite (dom m) \<Longrightarrow> finite {a. \<exists>x. m a = Some x \<and> f x = l}"
  by (rule finite_subset [of _ "dom m"]) auto

lemma users_new:
  assumes "finite (dom m)" "m a = None"
  shows "users (m(a \<mapsto> x)) f l = users m f l + (if f x = l then 1 else 0)"
proof -
  have "{b. \<exists>y. (m(a \<mapsto> x)) b = Some y \<and> f y = l} = (if f x = l then insert a else id) {b. \<exists>y. m b = Some y \<and> f y = l}"
    using assms(2) by auto
  then show ?thesis using users_finite [OF assms(1), of f l] assms(2) by (simp add: users_def)
qed

lemma users_gone:
  assumes "finite (dom m)" "m a = Some x"
  shows "users m f l = users (m(a := None)) f l + (if f x = l then 1 else 0)"
  using users_new [of "m(a := None)" a x f l] assms by (simp add: fun_upd_idem)

lemma users_same:
  assumes "finite (dom m)" "m a = Some x" "f y = f x"
  shows "users (m(a \<mapsto> y)) f l = users m f l"
  using users_new [of "m(a := None)" a y f l] users_gone [OF assms(1,2), of f l] assms by simp

lemma clientsD: "clients_ok s \<Longrightarrow> timers s c = Some t \<Longrightarrow> client_ok s c t"
  by (simp add: clients_ok_def)

lemma delegatesD: "delegates_ok s \<Longrightarrow> delegates s d = Some x \<Longrightarrow> delegate_ok s d x"
  by (simp add: delegates_ok_def)

lemma heapsD:
  assumes "heaps_ok s" "containers s w = Some k"
  shows "heap_ok (timer_ranks (delegates s)) (valid (delegates s)) (mTree k)" "count (heap_mset (mTree k)) d \<le> 1"
    and "d \<in># heap_mset (mTree k) \<Longrightarrow> home s w d"
  using assms by (auto simp: heaps_ok_def)

lemma heap_in_dom: "heap_ok (timer_ranks ds) (valid ds) t \<Longrightarrow> set_mset (heap_mset t) \<subseteq> dom ds"
  by (auto simp: heap_ok_def valid_def)

lemma invD:
  assumes "timers_inv s"
  shows "clients_ok s" "delegates_ok s" "leavers_ok s" "msgs_ok s" "heaps_ok s" "task_ok s (task s)" "poll_ok s" "locks_ok s" "armed_ok s"
  using assms by (simp_all add: timers_inv_def)

text \<open>The heaps and the armed timers depend on the delegates only through their times.\<close>

lemma same_times_upd:
  "ds d = Some x \<Longrightarrow> mFutureTime y = mFutureTime x \<Longrightarrow> D \<subseteq> dom ds \<Longrightarrow> same_times ds (ds(d \<mapsto> y)) D"
  by (auto simp: same_times_def)

lemma same_times_new: "D \<subseteq> dom ds \<Longrightarrow> ds d = None \<Longrightarrow> same_times ds (ds(d \<mapsto> y)) D"
  by (auto simp: same_times_def)

lemma same_times_gone: "D \<subseteq> dom ds \<Longrightarrow> d \<notin> D \<Longrightarrow> same_times ds (ds(d := None)) D"
  by (auto simp: same_times_def)

lemma first_due_cong:
  assumes "mTree k \<noteq> None" "same_times (delegates s) (delegates s') (set_mset (heap_mset (mTree k)))"
  shows "first_due s' k = first_due s k"
proof -
  have "LocHeap_peek (mTree k) \<in># heap_mset (mTree k)" using assms(1) by (rule timer_order.peek_in)
  with assms(2) show ?thesis by (fastforce simp: same_times_def first_due_def)
qed

lemma heaps_frame:
  assumes "heaps_ok s" "containers s' = containers s"
    and "\<And>w k. containers s w = Some k \<Longrightarrow> same_times (delegates s) (delegates s') (set_mset (heap_mset (mTree k)))"
    and "\<And>w d. in_heap s w d \<Longrightarrow> home s w d \<Longrightarrow> home s' w d"
  shows "heaps_ok s'"
  using assms heapsD [OF assms(1)] heap_ok_cong unfolding heaps_ok_def in_heap_def by metis

lemma armed_frame:
  assumes "armed_ok s" "heaps_ok s" "containers s' = containers s" "task s' = task s"
    and "\<And>w k. containers s w = Some k \<Longrightarrow> same_times (delegates s) (delegates s') (set_mset (heap_mset (mTree k)))"
    and "\<And>w. expiry_due s w \<Longrightarrow> expiry_due s' w"
  shows "armed_ok s'"
  using assms first_due_cong [of _ s s'] unfolding armed_ok_def by metis

lemma armedD:
  assumes "armed_ok s" "containers s w = Some k" "mTree k \<noteq> None"
  shows "expiry_due s w \<or> polled k \<and> (armed k = Some (first_due s k) \<or> (\<exists>d. task s = Arming w (first_due s k) d))"
  using assms unfolding armed_ok_def by blast

lemma armingD:
  assumes "armed_ok s" "task s = Arming w due d"
  shows "\<exists>k. containers s w = Some k \<and> mTree k \<noteq> None \<and> due = first_due s k"
  using assms unfolding armed_ok_def by blast

lemma armed_update:
  assumes "armed_ok s" "containers s' = (containers s)(w \<mapsto> k)" "delegates s' = delegates s"
    and "\<And>v. v \<noteq> w \<Longrightarrow> expiry_due s v \<Longrightarrow> expiry_due s' v" "\<And>v due d. task s = Arming v due d \<Longrightarrow> v = w"
    and "mTree k \<noteq> None \<Longrightarrow> expiry_due s' w \<or> polled k \<and> (armed k = Some (first_due s' k) \<or> (\<exists>d. task s' = Arming w (first_due s' k) d))"
    and "\<And>v due d. task s' = Arming v due d \<Longrightarrow> v = w \<and> mTree k \<noteq> None \<and> due = first_due s' k"
  shows "armed_ok s'"
  unfolding armed_ok_def
proof (intro conjI allI impI)
  fix v j assume j: "containers s' v = Some j \<and> mTree j \<noteq> None"
  show "expiry_due s' v \<or> polled j \<and> (armed j = Some (first_due s' j) \<or> (\<exists>d. task s' = Arming v (first_due s' j) d))"
  proof (cases "v = w")
    case False
    with j assms(2) have "containers s v = Some j" by simp
    from armedD [OF assms(1) this] j False assms(3,4,5) show ?thesis by (auto simp: first_due_def)
  qed (use assms(2,6) j in auto)
qed (use assms(2,7) in auto)

section \<open>Starting and stopping\<close>

text \<open>What a successful stop does to the state.\<close>

definition stopped :: "addr \<Rightarrow> LocTimer \<Rightarrow> LocTimerDelegate \<Rightarrow> bool \<Rightarrow> timer_state \<Rightarrow> timer_state" where
  "stopped c t x w s = s\<lparr>timers := (timers s)(c \<mapsto> t\<lparr>mTimer := NULL\<rparr>),
     delegates := (delegates s)(mTimer t \<mapsto> x\<lparr>mClient := NULL, mContainer := None\<rparr>),
     msgs := msgs s @ [MsgTimerRemove w (mTimer t)]\<rparr>"

lemma lock_exists:
  assumes "locks_ok s" "timers s c = Some t"
  shows "\<exists>n. locks s (mLock t) = Some n"
  using assms users_gone [of "timers s" c t mLock "mLock t"] by (auto simp: locks_ok_def Let_def)

lemma stop_cases:
  assumes "timers_inv s" "timers s c = Some t"
  obtains "mTimer t = NULL" "LocTimer_stop c s = Some (False, s)"
  | x w where "mTimer t \<noteq> NULL" "delegates s (mTimer t) = Some x" "mClient x = c" "mShared x = mLock t" "mContainer x = Some w"
    "LocTimer_stop c s = Some (True, stopped c t x w s)"
proof -
  have c: "c \<noteq> NULL" "mLock t \<noteq> NULL" using clientsD [OF invD(1) [OF assms(1)] assms(2)] by (auto simp: client_ok_def)
  obtain n where n: "locks s (mLock t) = Some n" using lock_exists [OF invD(8) [OF assms(1)] assms(2)] by blast
  show thesis
  proof (cases "mTimer t = NULL")
    case True
    with assms c n that(1) show thesis by (simp add: LocTimer_stop_def)
  next
    case False
    then obtain x w where x: "delegates s (mTimer t) = Some x" "mClient x = c" "mShared x = mLock t" "mContainer x = Some w"
      using clientsD [OF invD(1) [OF assms(1)] assms(2)] by (auto simp: client_ok_def)
    with False assms c n have "LocTimer_stop c s = Some (True, stopped c t x w s)"
      by (simp add: LocTimer_stop_def destroyLocked_def stopped_def sendMsg_def Let_def)
    with that(2) False x show thesis by blast
  qed
qed

lemma stopped_inv:
  assumes inv: "timers_inv s" and c: "timers s c = Some t" and x: "mTimer t \<noteq> NULL" "delegates s (mTimer t) = Some x"
    "mClient x = c" "mShared x = mLock t" "mContainer x = Some w"
  shows "timers_inv (stopped c t x w s)"
proof -
  let ?s = "stopped c t x w s" and ?d = "mTimer t"
  note parts = invD [OF inv]
  have fresh: "?d \<notin> set (leavers s)" using parts(3) x by (auto simp: leavers_ok_def)
  have w: "containers s w \<noteq> None" using delegatesD [OF parts(2) x(2)] x by (simp add: delegate_ok_def)
  have other: "mTimer t' \<noteq> ?d" if "timers s c' = Some t'" "c' \<noteq> c" for c' t'
    using clientsD [OF parts(1) that(1)] that(2) x by (auto simp: client_ok_def)
  have times: "same_times (delegates s) (delegates ?s) D" if "D \<subseteq> dom (delegates s)" for D
    using that x by (auto simp: stopped_def intro: same_times_upd)
  have 1: "clients_ok ?s" unfolding clients_ok_def
  proof (intro allI impI)
    fix c' t' assume "timers ?s c' = Some t'"
    then show "client_ok ?s c' t'"
      using clientsD [OF parts(1), of c'] clientsD [OF parts(1) c] other [of c']
      by (auto simp: client_ok_def stopped_def split: if_splits)
  qed
  have 2: "delegates_ok ?s" unfolding delegates_ok_def
  proof (intro allI impI)
    fix e y assume "delegates ?s e = Some y"
    then show "delegate_ok ?s e y"
      using delegatesD [OF parts(2), of e] delegatesD [OF parts(2) x(2)] x c
      by (auto simp: delegate_ok_def stopped_def leavers_def split: if_splits option.splits)
  qed
  have 3: "leavers_ok ?s" using parts(3) fresh by (auto simp: leavers_ok_def leavers_def stopped_def)
  have home: "home ?s v e" if "home s v e" for v e
    using that x by (auto simp: home_def stopped_def)
  have 4: "msgs_ok ?s" using parts(4) home w
    by (auto simp: msgs_ok_def push_first_append in_heap_def) (auto simp: stopped_def push_first_append)
  have 5: "heaps_ok ?s"
    using heaps_frame [OF parts(5), of ?s] home times heap_in_dom [OF heapsD(1) [OF parts(5)]] by (simp add: stopped_def)
  have 6: "task_ok ?s (task ?s)" "poll_ok ?s" using parts(6,7) x c by (cases "task s"; auto simp: stopped_def poll_ok_def)+
  have 7: "locks_ok ?s" using parts(8) x(2) c by (simp add: locks_ok_def stopped_def users_same)
  have 8: "armed_ok ?s"
    using armed_frame [OF parts(9,5), of ?s] times heap_in_dom [OF heapsD(1) [OF parts(5)]]
    by (auto simp: stopped_def expiry_due_def)
  show ?thesis using 1 2 3 4 5 6 7 8 by (simp add: timers_inv_def)
qed

lemma in_heap_home: "heaps_ok s \<Longrightarrow> in_heap s w d \<Longrightarrow> home s w d"
  unfolding in_heap_def using heapsD(3) by blast

lemma delegates_frame:
  assumes "delegates_ok s" "delegates s' = delegates s" "timers s' = timers s" "set (leavers s) \<subseteq> set (leavers s')"
    "dom (containers s) \<subseteq> dom (containers s')"
  shows "delegates_ok s'"
  unfolding delegates_ok_def
proof (intro allI impI)
  fix d x assume "delegates s' d = Some x"
  then show "delegate_ok s' d x"
    using delegatesD [OF assms(1), of d x] assms(2-5) by (auto simp: delegate_ok_def split: option.splits)
qed

text \<open>What a successful start does, after the container exists.\<close>

definition started :: "addr \<Rightarrow> LocTimer \<Rightarrow> addr \<Rightarrow> timespec \<Rightarrow> bool \<Rightarrow> nat \<Rightarrow> timer_state \<Rightarrow> timer_state" where
  "started c t d due w n s = s\<lparr>timers := (timers s)(c \<mapsto> t\<lparr>mTimer := d\<rparr>), locks := (locks s)(mLock t \<mapsto> n + 1),
     delegates := (delegates s)(d \<mapsto> \<lparr>mClient = c, mShared = mLock t, mFutureTime = due, mContainer = Some w\<rparr>),
     msgs := msgs s @ [MsgTimerPush w d]\<rparr>"

lemma new_container_inv:
  assumes inv: "timers_inv s" and w: "containers s w = None"
  shows "timers_inv (s\<lparr>containers := (containers s)(w \<mapsto> \<lparr>mTree = None, armed = None, polled = False\<rparr>)\<rparr>)"
proof -
  let ?s = "s\<lparr>containers := (containers s)(w \<mapsto> \<lparr>mTree = None, armed = None, polled = False\<rparr>)\<rparr>"
  note parts = invD [OF inv]
  have "clients_ok ?s" "leavers_ok ?s" "poll_ok ?s" "locks_ok ?s"
    using parts(1,3,7,8) by (auto simp: clients_ok_def client_ok_def leavers_ok_def leavers_def poll_ok_def locks_ok_def)
  moreover have "delegates_ok ?s" by (rule delegates_frame [OF parts(2)]) (auto simp: leavers_def)
  moreover have "msgs_ok ?s" using parts(4) w by (auto simp: msgs_ok_def home_def in_heap_def)
  moreover have "heaps_ok ?s" using heapsD [OF parts(5)] by (auto simp: heaps_ok_def home_def)
  moreover have "task_ok ?s (task ?s)" using parts(6) by (cases "task s") auto
  moreover have "armed_ok ?s" unfolding armed_ok_def
  proof (intro conjI allI impI)
    fix v j assume j: "containers ?s v = Some j \<and> mTree j \<noteq> None"
    then have "containers s v = Some j" by (cases "v = w") auto
    from armedD [OF parts(9) this] j show "expiry_due ?s v \<or> polled j \<and> (armed j = Some (first_due ?s j)
        \<or> (\<exists>d. task ?s = Arming v (first_due ?s j) d))" by (simp add: expiry_due_def first_due_def)
  next
    fix v due d assume "task ?s = Arming v due d"
    then obtain j where "containers s v = Some j" "mTree j \<noteq> None" "due = first_due s j" using armingD [OF parts(9), of v due d] by auto
    then show "\<exists>j. containers ?s v = Some j \<and> mTree j \<noteq> None \<and> due = first_due ?s j"
      using w by (cases "v = w") (auto simp: first_due_def)
  qed
  ultimately show ?thesis by (simp add: timers_inv_def)
qed

lemma started_inv:
  assumes inv: "timers_inv s" and c: "timers s c = Some t" "mTimer t = NULL" and d: "d \<noteq> NULL" "delegates s d = None"
    and due: "time_ok due" and w: "containers s w \<noteq> None" and n: "locks s (mLock t) = Some n"
  shows "timers_inv (started c t d due w n s)"
proof -
  let ?s = "started c t d due w n s"
  note parts = invD [OF inv]
  have fresh: "d \<notin> set (leavers s)" using parts(3) d by (auto simp: leavers_ok_def)
  have other: "mTimer t' \<noteq> d" if "timers s c' = Some t'" for c' t'
    using clientsD [OF parts(1) that(1)] d by (auto simp: client_ok_def)
  have times: "same_times (delegates s) (delegates ?s) D" if "D \<subseteq> dom (delegates s)" for D
    using that d by (auto simp: started_def intro: same_times_new)
  have 1: "clients_ok ?s" unfolding clients_ok_def
  proof (intro allI impI)
    fix c' t' assume "timers ?s c' = Some t'"
    then show "client_ok ?s c' t'"
      using clientsD [OF parts(1), of c'] clientsD [OF parts(1) c(1)] other [of c'] d
      by (auto simp: client_ok_def started_def split: if_splits)
  qed
  have 2: "delegates_ok ?s" unfolding delegates_ok_def
  proof (intro allI impI)
    fix e y assume "delegates ?s e = Some y"
    then show "delegate_ok ?s e y"
      using delegatesD [OF parts(2), of e] clientsD [OF parts(1) c(1)] d c due w
      by (auto simp: delegate_ok_def client_ok_def started_def leavers_def split: if_splits option.splits)
  qed
  have 3: "leavers_ok ?s" using parts(3) fresh by (auto simp: leavers_ok_def leavers_def started_def)
  have home: "home ?s v e" if "home s v e" for v e
    using that d by (auto simp: home_def started_def)
  have not_in: "\<not> in_heap s v d" for v
    using in_heap_home [OF parts(5), of v d] d by (auto simp: home_def)
  have "d \<notin> set (pushes (msgs s))" using parts(4) d(2) unfolding msgs_ok_def in_pushes home_def by force
  moreover have "d \<notin> set (removes (msgs s))" using fresh by (simp add: leavers_def)
  moreover have "home ?s w d" by (simp add: home_def started_def)
  ultimately have 4: "msgs_ok ?s" using parts(4) home w not_in
    by (auto simp: msgs_ok_def push_first_append in_heap_def) (auto simp: started_def push_first_append)
  have 5: "heaps_ok ?s"
    using heaps_frame [OF parts(5), of ?s] home times heap_in_dom [OF heapsD(1) [OF parts(5)]] by (simp add: started_def)
  have 6: "task_ok ?s (task ?s)" "poll_ok ?s" using parts(6,7) c d by (cases "task s"; auto simp: started_def poll_ok_def)+
  have 7: "locks_ok ?s" using parts(8) d c n
    by (auto simp: locks_ok_def started_def users_same users_new Let_def split: if_splits)
  have 8: "armed_ok ?s"
    using armed_frame [OF parts(9,5), of ?s] times heap_in_dom [OF heapsD(1) [OF parts(5)]]
    by (auto simp: started_def expiry_due_def)
  show ?thesis using 1 2 3 4 5 6 7 8 by (simp add: timers_inv_def)
qed

lemma start_inv:
  assumes inv: "timers_inv s" and c: "timers s c = Some t" and d: "d \<noteq> NULL" "delegates s d = None" and now: "clock_ok now"
  shows "\<exists>r s'. LocTimer_start c ms w now fds d s = Some (r, s') \<and> timers_inv s' \<and> timers s' c \<noteq> None \<and> task s' = task s
    \<and> seen s' = seen s \<and> (if r then mTimer t = NULL \<and> timers s' = (timers s)(c \<mapsto> t\<lparr>mTimer := d\<rparr>) else timers s' = timers s)"
proof -
  note parts = invD [OF inv]
  have l: "c \<noteq> NULL" "mLock t \<noteq> NULL" using clientsD [OF parts(1) c] by (auto simp: client_ok_def)
  obtain n where n: "locks s (mLock t) = Some n" using lock_exists [OF parts(8) c] by blast
  show ?thesis
  proof (cases "mTimer t = NULL \<and> get_container fds w s \<noteq> None")
    case False
    then have "LocTimer_start c ms w now fds d s = Some (False, s)"
      using c l n by (auto simp: LocTimer_start_def)
    with inv c show ?thesis by auto
  next
    case True
    then obtain k where k: "get_container fds w s = Some k" "mTimer t = NULL" by auto
    let ?s = "s\<lparr>containers := (containers s)(w \<mapsto> k)\<rparr>"
    have "timers_inv ?s"
    proof (cases "containers s w")
      case None
      with k new_container_inv [OF inv] show ?thesis by (auto simp: get_container_def split: if_splits)
    next
      case (Some k')
      with k have "?s = s" by (simp add: get_container_def fun_upd_idem)
      with inv show ?thesis by simp
    qed
    then have "timers_inv (started c t d (future_time now ms) w n ?s)"
      using c d k n future_time_ok [OF now] by (intro started_inv) auto
    moreover have "LocTimer_start c ms w now fds d s = Some (True, started c t d (future_time now ms) w n ?s)"
      using c l n k d by (simp add: LocTimer_start_def new_delegate_def share_def sendMsg_def started_def Let_def)
    ultimately show ?thesis using k by (intro exI [of _ True]) (simp add: started_def)
  qed
qed

lemma new_timer_inv:
  assumes inv: "timers_inv s" and c: "c \<noteq> NULL" "l \<noteq> NULL" "timers s c = None" "locks s l = None"
  shows "timers_inv (new_timer c l cb s)"
proof -
  let ?s = "new_timer c l cb s"
  note parts = invD [OF inv]
  have "clients_ok ?s" using parts(1) c by (auto simp: clients_ok_def client_ok_def new_timer_def)
  moreover have "delegates_ok ?s" unfolding delegates_ok_def
  proof (intro allI impI)
    fix d x assume "delegates ?s d = Some x"
    then show "delegate_ok ?s d x" using delegatesD [OF parts(2), of d x] c
      by (auto simp: delegate_ok_def new_timer_def leavers_def split: option.splits)
  qed
  moreover have "leavers_ok ?s" "msgs_ok ?s" "heaps_ok ?s" "poll_ok ?s" "armed_ok ?s"
    using parts by (simp_all add: leavers_ok_def leavers_def msgs_ok_def home_def in_heap_def heaps_ok_def poll_ok_def armed_ok_def
        expiry_due_def first_due_def new_timer_def)
  moreover have "task_ok ?s (task ?s)" using parts(6) by (cases "task s") (auto simp: new_timer_def)
  moreover have "users (timers s) mLock l + users (delegates s) mShared l = 0"
    using parts(8) c(4) by (auto simp: locks_ok_def Let_def split: if_splits)
  then have "locks_ok ?s" using parts(8) c by (auto simp: locks_ok_def new_timer_def users_new Let_def)
  ultimately show ?thesis by (simp add: timers_inv_def)
qed

text \<open>The deletion of a timer that is not running.\<close>

definition dropped :: "addr \<Rightarrow> nat \<Rightarrow> (addr \<rightharpoonup> nat) \<Rightarrow> (addr \<rightharpoonup> nat)" where
  "dropped l n ls = (if n = 1 then ls(l := None) else ls(l \<mapsto> n - 1))"

definition expires :: "task_pc \<Rightarrow> addr \<Rightarrow> bool" where
  "expires p c \<longleftrightarrow> (case p of Stopping w now c' \<Rightarrow> c' = c | Calling w now c' due \<Rightarrow> c' = c | _ \<Rightarrow> False)"

lemma freed_inv:
  assumes inv: "timers_inv s" and c: "timers s c = Some t" "mTimer t = NULL" "locks s (mLock t) = Some n" "\<not> expires (task s) c"
  shows "timers_inv (s\<lparr>locks := dropped (mLock t) n (locks s), timers := (timers s)(c := None)\<rparr>)"
proof -
  let ?s = "s\<lparr>locks := dropped (mLock t) n (locks s), timers := (timers s)(c := None)\<rparr>"
  note parts = invD [OF inv]
  have "clients_ok ?s" using parts(1) by (auto simp: clients_ok_def client_ok_def)
  moreover have "delegates_ok ?s" unfolding delegates_ok_def
  proof (intro allI impI)
    fix d x assume "delegates ?s d = Some x"
    then show "delegate_ok ?s d x" using delegatesD [OF parts(2), of d x] c
      by (auto simp: delegate_ok_def leavers_def split: option.splits)
  qed
  moreover have "leavers_ok ?s" "msgs_ok ?s" "heaps_ok ?s" "poll_ok ?s" "armed_ok ?s"
    using parts by (simp_all add: leavers_ok_def leavers_def msgs_ok_def home_def in_heap_def heaps_ok_def poll_ok_def armed_ok_def
        expiry_due_def first_due_def)
  moreover have "task_ok ?s (task ?s)" using parts(6) c(4) by (cases "task s") (auto simp: expires_def)
  moreover have "locks_ok ?s" using parts(8) c users_gone [of "timers s" c t mLock]
    by (auto simp: locks_ok_def dropped_def Let_def split: if_splits)
  ultimately show ?thesis by (simp add: timers_inv_def)
qed

lemma seen_inv: "timers_inv (s\<lparr>seen := es\<rparr>) = timers_inv s"
proof -
  have "task_ok (s\<lparr>seen := es\<rparr>) p = task_ok s p" for p by (cases p) auto
  moreover have "delegate_ok (s\<lparr>seen := es\<rparr>) d x = delegate_ok s d x" for d x
    by (cases "mContainer x") (simp_all add: delegate_ok_def leavers_def)
  ultimately show ?thesis
    by (simp add: timers_inv_def clients_ok_def client_ok_def delegates_ok_def leavers_ok_def leavers_def msgs_ok_def
        home_def in_heap_def heaps_ok_def poll_ok_def armed_ok_def expiry_due_def first_due_def locks_ok_def)
qed

lemma delete_inv:
  assumes inv: "timers_inv s" and c: "timers s c = Some t" "\<not> expires (task s) c"
  shows "\<exists>s'. delete_timer c s = Some s' \<and> timers_inv s' \<and> task s' = task s \<and> timers s' = (timers s)(c := None)
    \<and> seen s' = seen s @ [Stopped c (mTimer t \<noteq> NULL)] \<and> containers s' = containers s"
proof -
  obtain s1 t1 where s1: "LocTimer_stop c s = Some (mTimer t \<noteq> NULL, s1)" "timers_inv s1" "timers s1 c = Some t1" "mTimer t1 = NULL"
      "task s1 = task s" "seen s1 = seen s" "(timers s1)(c := None) = (timers s)(c := None)" "containers s1 = containers s"
  proof (cases rule: stop_cases [OF inv c(1)])
    case 1
    with that [of s t] inv c show thesis by simp
  next
    case (2 x w)
    from stopped_inv [OF inv c(1) 2(1-5)] 2 that [of "stopped c t x w s" "t\<lparr>mTimer := NULL\<rparr>"] show thesis
      by (simp add: stopped_def)
  qed
  have c0: "c \<noteq> NULL" "mLock t1 \<noteq> NULL" using clientsD [OF invD(1) [OF s1(2)] s1(3)] by (auto simp: client_ok_def)
  obtain n where n: "locks s1 (mLock t1) = Some n" using lock_exists [OF invD(8) [OF s1(2)] s1(3)] by blast
  let ?s = "s1\<lparr>locks := dropped (mLock t1) n (locks s1), timers := (timers s1)(c := None), seen := seen s @ [Stopped c (mTimer t \<noteq> NULL)]\<rparr>"
  have "delete_timer c s = Some ?s"
    using s1 c0 n by (simp add: delete_timer_def drop_ref_def dropped_def)
  moreover have "timers_inv ?s" using freed_inv [OF s1(2,3,4) n] c(2) s1(5) by (simp add: seen_inv)
  ultimately show ?thesis using s1 by simp
qed

section \<open>The message task\<close>

text \<open>All parts of the invariant but the last do not depend on what the kernel knows.\<close>

definition core_inv :: "timer_state \<Rightarrow> bool" where
  "core_inv s \<longleftrightarrow> clients_ok s \<and> delegates_ok s \<and> leavers_ok s \<and> msgs_ok s \<and> heaps_ok s \<and> task_ok s (task s) \<and> poll_ok s \<and> locks_ok s"

lemma inv_core: "timers_inv s \<longleftrightarrow> core_inv s \<and> armed_ok s"
  by (auto simp: timers_inv_def core_inv_def)

definition trees :: "timer_state \<Rightarrow> bool \<rightharpoonup> LocHeap" where
  "trees s w = map_option mTree (containers s w)"

lemma trees_dom: "trees s = trees s' \<Longrightarrow> (containers s w = None) = (containers s' w = None)"
  by (metis map_option_is_None trees_def)

lemma in_heap_trees: "in_heap s w d \<longleftrightarrow> (\<exists>t. trees s w = Some t \<and> d \<in># heap_mset t)"
  by (auto simp: in_heap_def trees_def)

lemma heaps_trees: "heaps_ok s \<longleftrightarrow> (\<forall>w t. trees s w = Some t \<longrightarrow> heap_ok (timer_ranks (delegates s)) (valid (delegates s)) t
     \<and> (\<forall>d. count (heap_mset t) d \<le> 1) \<and> (\<forall>d. d \<in># heap_mset t \<longrightarrow> home s w d))"
  by (auto simp: heaps_ok_def trees_def)

lemma containers_dom: "dom (containers s') = dom (containers s) \<Longrightarrow> (containers s' w = None) = (containers s w = None)"
  by (metis domIff)

lemma core_cong:
  assumes "core_inv s" "timers s' = timers s" "delegates s' = delegates s" "locks s' = locks s" "msgs s' = msgs s" "poll s' = poll s"
    "trees s' = trees s" "deleting (task s') = deleting (task s)" "task_ok s' (task s')"
  shows "core_inv s'"
proof -
  have l: "leavers s' = leavers s" using assms by (simp add: leavers_def)
  have c: "(containers s' w = None) = (containers s w = None)" for w using trees_dom [OF assms(7)] .
  have h: "home s' w d = home s w d" "in_heap s' w d = in_heap s w d" for w d
    using assms by (simp_all add: home_def in_heap_trees)
  have "delegates_ok s'"
    by (rule delegates_frame [of s]) (use assms l c in \<open>auto simp: core_inv_def dom_def\<close>)
  with assms l c h show ?thesis
    by (simp add: core_inv_def clients_ok_def client_ok_def leavers_ok_def msgs_ok_def heaps_trees poll_ok_def locks_ok_def)
qed

text \<open>A message is taken and the heap of a container changes.\<close>

lemma core_msg:
  assumes "core_inv s" "timers s' = timers s" "delegates s' = delegates s" "locks s' = locks s" "poll s' = poll s"
    "dom (containers s') = dom (containers s)" "leavers s' = leavers s" "msgs_ok s'" "heaps_ok s'" "task_ok s' (task s')"
  shows "core_inv s'"
proof -
  have c: "(containers s' w = None) = (containers s w = None)" for w using assms(6) by (rule containers_dom)
  have "delegates_ok s'"
    by (rule delegates_frame [of s]) (use assms in \<open>auto simp: core_inv_def\<close>)
  with assms c show ?thesis
    by (simp add: core_inv_def clients_ok_def client_ok_def leavers_ok_def poll_ok_def locks_ok_def)
qed

lemma take_push:
  assumes inv: "timers_inv s" and idle: "task s = Idle" and m: "msgs s = MsgTimerPush w d # ms"
  shows "\<exists>s'. proc_push w d (s\<lparr>msgs := ms\<rparr>) = Some s' \<and> timers_inv s' \<and> timers s' = timers s \<and> seen s' = seen s
    \<and> (task s' = Idle \<or> (\<exists>due e. task s' = Arming w due e))"
proof -
  note parts = invD [OF inv]
  have msgs: "push_first ms" "distinct (pushes ms)" "d \<notin> set (pushes ms)" "home s w d" "\<And>v. \<not> in_heap s v d"
      "\<And>v e. MsgTimerPush v e \<in> set ms \<Longrightarrow> home s v e \<and> (\<forall>v. \<not> in_heap s v e)"
      "\<And>m. m \<in> set ms \<Longrightarrow> containers s (msg_container m) \<noteq> None"
    using parts(4) m by (auto simp: msgs_ok_def in_pushes)
  obtain k where k: "containers s w = Some k" using parts(4) m by (auto simp: msgs_ok_def)
  note hk = heapsD [OF parts(5) k]
  obtain x where x: "delegates s d = Some x" using msgs(4) by (auto simp: home_def)
  then have d: "d \<in> valid (delegates s)" "d \<noteq> NULL"
    using delegatesD [OF parts(2) x] by (auto simp: valid_def delegate_ok_def)
  let ?t = "LocHeap_push (timer_ranks (delegates s)) d (mTree k)"
  note push = timer_order.push_ok [OF hk(1) d]
  have home: "home (s\<lparr>msgs := ms\<rparr>) v e = home s v e" for v e using m by (simp add: home_def)
  let ?s = "\<lambda>p q. s\<lparr>msgs := ms, containers := (containers s)(w \<mapsto> k\<lparr>mTree := ?t, polled := p\<rparr>), task := q\<rparr>"
  have core: "core_inv (?s p q)" if q: "deleting q = []" "task_ok (?s p q) q" for p q
  proof (rule core_msg [of s])
    have h: "home (?s p q) v e = home s v e" for v e using m by (simp add: home_def)
    have i: "in_heap (?s p q) v e \<longleftrightarrow> in_heap s v e \<or> v = w \<and> e = d" for v e
      using k push(2) by (auto simp: in_heap_def)
    have "containers (?s p q) (msg_container m) \<noteq> None" if "m \<in> set ms" for m using msgs(7) [OF that] by (cases "msg_container m = w") auto
    then show "msgs_ok (?s p q)" using msgs h i by (auto simp: msgs_ok_def in_pushes)
    have "count (heap_mset (mTree k)) d = 0" using msgs(5) [of w] k by (simp add: in_heap_def not_in_iff)
    then show "heaps_ok (?s p q)" using hk push(1,2) heapsD [OF parts(5)] msgs(4) h by (auto simp: heaps_ok_def)
  qed (use inv idle m q k in \<open>auto simp: inv_core leavers_def\<close>)
  have live: "live_container w (s\<lparr>msgs := ms\<rparr>) = Some k" using k heap_in_dom [OF hk(1)] by (simp add: live_container_eq)
  have tree: "?t \<noteq> None" by (simp add: LocHeap_push_def split: option.splits)
  obtain y where y: "delegates s (LocHeap_peek ?t) = Some y" "LocHeap_peek ?t \<noteq> NULL"
    using timer_order.peek_in [OF tree] heap_in_dom [OF push(1)] timer_order.peek_null [OF push(1)] tree by fastforce
  show ?thesis
  proof (cases "LocHeap_peek ?t = LocHeap_peek (mTree k)")
    case True
    then have old: "mTree k \<noteq> None" using y(2) by (cases "mTree k") (auto simp: LocHeap_peek_def)
    have eq: "?s (polled k) Idle = s\<lparr>msgs := ms, containers := (containers s)(w \<mapsto> k\<lparr>mTree := ?t\<rparr>)\<rparr>" using idle by simp
    have "proc_push w d (s\<lparr>msgs := ms\<rparr>) = Some (?s (polled k) Idle)"
      using True live x d(2) unfolding eq by (simp add: proc_push_def updateSoonestTime_def end_msg_def idle)
    moreover have "armed_ok (?s (polled k) Idle)"
      using parts(9) k old True m idle by (auto simp: armed_ok_def expiry_due_def first_due_def)
    ultimately show ?thesis using core [of Idle "polled k"] by (auto simp: inv_core)
  next
    case False
    then have new: "LocHeap_peek ?t = d" and "mTree k = None \<or> outRanks (timer_ranks (delegates s)) d (LocHeap_peek (mTree k))"
      using push(3) by (auto split: if_splits)
    then have c: "LocHeap_peek (mTree k) = NULL \<or> outRanks (timer_ranks (delegates s)) d (LocHeap_peek (mTree k))"
      by (auto simp: LocHeap_peek_def)
    let ?q = "Arming w (mFutureTime x) NULL"
    have "proc_push w d (s\<lparr>msgs := ms\<rparr>) = Some (?s True ?q)"
      using False live x d(2) new c by (auto simp: proc_push_def updateSoonestTime_def)
    moreover have "armed_ok (?s True ?q)"
      by (rule armed_update [OF parts(9), of _ w "k\<lparr>mTree := ?t, polled := True\<rparr>"])
        (use idle m x new tree in \<open>auto simp: expiry_due_def first_due_def\<close>)
    moreover have "core_inv (?s True ?q)" by (rule core) auto
    ultimately show ?thesis by (auto simp: inv_core)
  qed
qed

lemma end_msg_task [simp]: "end_msg d (s\<lparr>task := p\<rparr>) = end_msg d s"
  by (auto simp: end_msg_def drop_ref_def load_def free_obj_def split: option.splits bind_splits)

text \<open>The end of a message, with the deletion of a delegate that nothing refers to any more.\<close>

lemma deleted_core:
  assumes core: "core_inv s" and d: "deleting (task s) = [d]" "delegates s d = Some x" "locks s (mShared x) = Some n"
  shows "core_inv (s\<lparr>locks := dropped (mShared x) n (locks s), delegates := (delegates s)(d := None), task := Idle\<rparr>)"
proof -
  let ?s = "s\<lparr>locks := dropped (mShared x) n (locks s), delegates := (delegates s)(d := None), task := Idle\<rparr>"
  have parts: "clients_ok s" "delegates_ok s" "leavers_ok s" "msgs_ok s" "heaps_ok s" "task_ok s (task s)" "poll_ok s" "locks_ok s"
    using core by (simp_all add: core_inv_def)
  have l: "leavers s = d # leavers ?s" using d by (simp add: leavers_def)
  have x: "mContainer x = None" "d \<notin> set (removes (msgs s))" using parts(3) d l by (auto simp: leavers_ok_def leavers_def)
  have away: "\<not> home s w d" for w using d x by (auto simp: home_def in_removes)
  have home: "home ?s w e" if "home s w e" for w e using that away by (auto simp: home_def)
  have "clients_ok ?s" unfolding clients_ok_def
  proof (intro allI impI)
    fix c t assume "timers ?s c = Some t"
    then show "client_ok ?s c t" using clientsD [OF parts(1), of c t] d x by (auto simp: client_ok_def)
  qed
  moreover have "delegates_ok ?s" unfolding delegates_ok_def
  proof (intro allI impI)
    fix e y assume "delegates ?s e = Some y"
    then show "delegate_ok ?s e y" using delegatesD [OF parts(2), of e y] l
      by (auto simp: delegate_ok_def split: if_splits option.splits)
  qed
  moreover have "leavers_ok ?s" using parts(3) unfolding leavers_ok_def l by auto
  moreover have "msgs_ok ?s" using parts(4) home away by (auto simp: msgs_ok_def in_heap_def)
  moreover have "heaps_ok ?s"
  proof (rule heaps_frame [OF parts(5)])
    fix w k assume k: "containers s w = Some k"
    have "d \<notin># heap_mset (mTree k)" using heapsD(3) [OF parts(5) k] away by blast
    then show "same_times (delegates s) (delegates ?s) (set_mset (heap_mset (mTree k)))"
      using heap_in_dom [OF heapsD(1) [OF parts(5) k]] by (auto intro: same_times_gone)
  qed (use home in auto)
  moreover have "locks_ok ?s" using parts(8) d users_gone [of "delegates s" d x mShared]
    by (auto simp: locks_ok_def dropped_def Let_def split: if_splits)
  ultimately show ?thesis using parts(7) by (simp add: core_inv_def poll_ok_def)
qed

lemma end_msg_inv:
  assumes core: "core_inv s" and d: "deleting (task s) = (if d = NULL then [] else [d])" and armed: "armed_ok (s\<lparr>task := Idle\<rparr>)"
  shows "\<exists>s'. end_msg d s = Some s' \<and> timers_inv s' \<and> timers s' = timers s \<and> seen s' = seen s \<and> task s' = Idle"
proof (cases "d = NULL")
  case True
  have "core_inv (s\<lparr>task := Idle\<rparr>)" by (rule core_cong [OF core]) (use True d in \<open>simp_all add: trees_def fun_eq_iff\<close>)
  with True armed show ?thesis by (simp add: end_msg_def inv_core)
next
  case False
  with d have d': "deleting (task s) = [d]" by simp
  have parts: "delegates_ok s" "leavers_ok s" "heaps_ok s" "locks_ok s" using core by (simp_all add: core_inv_def)
  obtain x where x: "delegates s d = Some x" "mContainer x = None" using parts(2) d' by (auto simp: leavers_ok_def leavers_def)
  have "mShared x \<noteq> NULL" using delegatesD [OF parts(1) x(1)] by (simp add: delegate_ok_def)
  moreover obtain n where n: "locks s (mShared x) = Some n"
    using parts(4) x users_gone [of "delegates s" d x mShared "mShared x"] by (auto simp: locks_ok_def Let_def)
  let ?s = "s\<lparr>locks := dropped (mShared x) n (locks s), delegates := (delegates s)(d := None), task := Idle\<rparr>"
  have "armed_ok ?s"
  proof (rule armed_frame [OF armed])
    show "heaps_ok (s\<lparr>task := Idle\<rparr>)" using parts(3) by (simp add: heaps_ok_def home_def)
    fix w k assume k: "containers (s\<lparr>task := Idle\<rparr>) w = Some k"
    have "d \<notin># heap_mset (mTree k)"
      using heapsD(3) [OF parts(3), of w k d] k x parts(2) d' by (auto simp: home_def leavers_ok_def leavers_def in_removes)
    then show "same_times (delegates (s\<lparr>task := Idle\<rparr>)) (delegates ?s) (set_mset (heap_mset (mTree k)))"
      using heap_in_dom [OF heapsD(1) [OF parts(3), of w k]] k by (auto intro: same_times_gone)
  qed (simp_all add: expiry_due_def)
  ultimately show ?thesis using deleted_core [OF core d' x(1) n] False x(1) n
    by (simp add: end_msg_def drop_ref_def dropped_def inv_core)
qed

lemma removed_core:
  assumes inv: "timers_inv s" and idle: "task s = Idle" and m: "msgs s = MsgTimerRemove w d # ms" and k: "containers s w = Some k"
    and r: "LocHeap_remove (timer_ranks (delegates s)) d (mTree k) = (removed, t)"
    and q: "deleting q = [d]" "task_ok (s\<lparr>msgs := ms, containers := (containers s)(w \<mapsto> k\<lparr>mTree := t, polled := p\<rparr>), task := q\<rparr>) q"
  shows "core_inv (s\<lparr>msgs := ms, containers := (containers s)(w \<mapsto> k\<lparr>mTree := t, polled := p\<rparr>), task := q\<rparr>)"
proof -
  note parts = invD [OF inv]
  obtain x where x: "delegates s d = Some x" "mContainer x = None" and u: "d \<notin> set (removes ms)" "distinct (removes ms)"
    using parts(3) m idle by (auto simp: leavers_ok_def leavers_def)
  have d: "d \<in> valid (delegates s)" "d \<noteq> NULL" using delegatesD [OF parts(2) x(1)] x by (auto simp: valid_def delegate_ok_def)
  have msgs: "push_first ms" "distinct (pushes ms)" "d \<notin> set (pushes ms)"
      "\<And>v e. MsgTimerPush v e \<in> set ms \<Longrightarrow> home s v e \<and> (\<forall>v. \<not> in_heap s v e)"
      "\<And>m. m \<in> set ms \<Longrightarrow> containers s (msg_container m) \<noteq> None"
    using parts(4) m by (auto simp: msgs_ok_def)
  note hk = heapsD [OF parts(5) k]
  note rem = timer_order.remove_ok [OF hk(1) d r]
  have gone: "d \<notin># heap_mset t" using rem hk(2) [of d] by (simp add: not_in_iff)
  let ?s = "s\<lparr>msgs := ms, containers := (containers s)(w \<mapsto> k\<lparr>mTree := t, polled := p\<rparr>), task := q\<rparr>"
  show ?thesis
  proof (rule core_msg [of s])
    have other: "\<not> in_heap s v d" if "v \<noteq> w" for v
      using in_heap_home [OF parts(5), of v d] that x u m by (auto simp: home_def in_removes)
    have h: "home ?s v e" if "home s v e" "e \<noteq> d" for v e using that m by (auto simp: home_def)
    have i: "in_heap ?s v e \<Longrightarrow> in_heap s v e \<and> e \<noteq> d" for v e
      using k rem gone other [of v] by (auto simp: in_heap_def split: if_splits dest: in_diffD)
    have "containers ?s (msg_container m) \<noteq> None" if "m \<in> set ms" for m
      using msgs(5) [OF that] by (cases "msg_container m = w") auto
    moreover have "e \<noteq> d" if "MsgTimerPush v e \<in> set ms" for v e using that msgs(3) by (auto simp: in_pushes)
    ultimately show "msgs_ok ?s" using msgs h i by (fastforce simp: msgs_ok_def)
    show "heaps_ok ?s" unfolding heaps_ok_def
    proof (intro allI impI)
      fix v j assume j: "containers ?s v = Some j"
      have "home ?s v e" if "e \<in># heap_mset (mTree j)" for e
        using i [of v e] j that h [of v e] in_heap_home [OF parts(5), of v e] by (auto simp: in_heap_def)
      moreover have "heap_ok (timer_ranks (delegates s)) (valid (delegates s)) (mTree j) \<and> (\<forall>e. count (heap_mset (mTree j)) e \<le> 1)"
        using j rem hk heapsD [OF parts(5), of v j] by (auto split: if_splits intro: le_trans [OF diff_le_self])
      ultimately show "heap_ok (timer_ranks (delegates ?s)) (valid (delegates ?s)) (mTree j)
          \<and> (\<forall>d. count (heap_mset (mTree j)) d \<le> 1) \<and> (\<forall>d. d \<in># heap_mset (mTree j) \<longrightarrow> home ?s v d)" by simp
    qed
  qed (use inv idle m q k in \<open>auto simp: inv_core leavers_def\<close>)
qed

lemma take_remove:
  assumes inv: "timers_inv s" and idle: "task s = Idle" and m: "msgs s = MsgTimerRemove w d # ms"
  shows "\<exists>s'. proc_remove w d (s\<lparr>msgs := ms\<rparr>) = Some s' \<and> timers_inv s' \<and> timers s' = timers s \<and> seen s' = seen s
    \<and> (task s' = Idle \<or> (\<exists>due e. task s' = Arming w due e))"
proof -
  note parts = invD [OF inv]
  obtain x where x: "delegates s d = Some x" "mContainer x = None"
    using parts(3) m idle by (auto simp: leavers_ok_def leavers_def)
  have d: "d \<in> valid (delegates s)" "d \<noteq> NULL" using delegatesD [OF parts(2) x(1)] x by (auto simp: valid_def delegate_ok_def)
  obtain k where k: "containers s w = Some k" using parts(4) m by (auto simp: msgs_ok_def)
  note hk = heapsD [OF parts(5) k]
  obtain removed t where r: "LocHeap_remove (timer_ranks (delegates s)) d (mTree k) = (removed, t)" by fastforce
  note rem = timer_order.remove_ok [OF hk(1) d r]
  let ?s = "\<lambda>p q. s\<lparr>msgs := ms, containers := (containers s)(w \<mapsto> k\<lparr>mTree := t, polled := p\<rparr>), task := q\<rparr>"
  note core = removed_core [OF inv idle m k r]
  have live: "live_container w (s\<lparr>msgs := ms\<rparr>) = Some k" using k heap_in_dom [OF hk(1)] by (simp add: live_container_eq)
  text \<open>The message ends without a change of the kernel timer.\<close>
  have quiet: ?thesis if p: "proc_remove w d (s\<lparr>msgs := ms\<rparr>) = end_msg d (s\<lparr>msgs := ms, containers := (containers s)(w \<mapsto> k\<lparr>mTree := t\<rparr>)\<rparr>)"
    and t: "t = None \<or> mTree k \<noteq> None \<and> LocHeap_peek t = LocHeap_peek (mTree k)"
  proof -
    let ?q = "Arming w (mFutureTime x) d"
    have "core_inv (?s (polled k) ?q)" by (rule core) (use d(2) in auto)
    moreover have "armed_ok ((?s (polled k) ?q)\<lparr>task := Idle\<rparr>)"
      by (rule armed_update [OF parts(9)])
        (use t m idle armedD [OF parts(9) k] in \<open>auto simp: expiry_due_def first_due_def\<close>)
    ultimately obtain s' where "end_msg d (?s (polled k) ?q) = Some s'" "timers_inv s'" "timers s' = timers s" "seen s' = seen s" "task s' = Idle"
      using end_msg_inv [of "?s (polled k) ?q" d] d(2) by auto
    moreover have "(?s (polled k) ?q) = s\<lparr>msgs := ms, containers := (containers s)(w \<mapsto> k\<lparr>mTree := t\<rparr>)\<rparr>\<lparr>task := ?q\<rparr>" by simp
    ultimately show ?thesis using p end_msg_task by metis
  qed
  show ?thesis
  proof (cases "LocHeap_peek (mTree k) = removed")
    case False
    then have old: "mTree k \<noteq> None" using r by (cases "mTree k") (auto simp: LocHeap_remove_def LocHeap_peek_def)
    have "d \<noteq> LocHeap_peek (mTree k)" using False rem old timer_order.peek_in [OF old] by auto
    then have "LocHeap_peek t = LocHeap_peek (mTree k)" using remove_keeps_top [OF _ r] by simp
    moreover have "proc_remove w d (s\<lparr>msgs := ms\<rparr>) = end_msg d (s\<lparr>msgs := ms, containers := (containers s)(w \<mapsto> k\<lparr>mTree := t\<rparr>)\<rparr>)"
      using False live x d(2) r by (simp add: proc_remove_def Let_def)
    ultimately show ?thesis using quiet old by simp
  next
    case True
    show ?thesis
    proof (cases t)
      case None
      then have "LocHeap_peek t = NULL" by (simp add: LocHeap_peek_def)
      then have "proc_remove w d (s\<lparr>msgs := ms\<rparr>) = end_msg d (s\<lparr>msgs := ms, containers := (containers s)(w \<mapsto> k\<lparr>mTree := t\<rparr>)\<rparr>)"
        using True live x d(2) r by (simp add: proc_remove_def updateSoonestTime_def Let_def)
      with None show ?thesis using quiet by simp
    next
      case (Some n)
      then have tree: "t \<noteq> None" by simp
      have h: "heap_ok (timer_ranks (delegates s)) (valid (delegates s)) t" using rem by simp
      obtain y where y: "delegates s (LocHeap_peek t) = Some y" "LocHeap_peek t \<noteq> NULL"
        using timer_order.peek_in [OF tree] heap_in_dom [OF h] timer_order.peek_null [OF h] tree by fastforce
      let ?q = "Arming w (mFutureTime y) d"
      have "proc_remove w d (s\<lparr>msgs := ms\<rparr>) = Some (?s True ?q)"
        using True live x d(2) r y by (simp add: proc_remove_def updateSoonestTime_def Let_def)
      moreover have "armed_ok (?s True ?q)"
        by (rule armed_update [OF parts(9), of _ w "k\<lparr>mTree := t, polled := True\<rparr>"])
          (use idle m y tree in \<open>auto simp: expiry_due_def first_due_def\<close>)
      moreover have "core_inv (?s True ?q)" by (rule core) (use d(2) in auto)
      ultimately show ?thesis by (auto simp: inv_core)
    qed
  qed
qed

text \<open>A timer is taken out of the heap in an expiry.\<close>

lemma pop_core:
  assumes core: "core_inv s" and k: "containers s w = Some k" and now: "time_ok now" and p: "deleting (task s) = []"
    and pop: "LocHeap_pop (timer_ranks (delegates s)) (mTree k) = (d, t)"
  shows "core_inv (s\<lparr>containers := (containers s)(w \<mapsto> k\<lparr>mTree := t\<rparr>), task := Expiring w now d\<rparr>)"
proof (rule core_msg [OF core])
  let ?s = "s\<lparr>containers := (containers s)(w \<mapsto> k\<lparr>mTree := t\<rparr>), task := Expiring w now d\<rparr>"
  have parts: "msgs_ok s" "heaps_ok s" using core by (simp_all add: core_inv_def)
  note hk = heapsD [OF parts(2) k]
  note t = timer_order.pop_ok [OF hk(1) pop]
  have h: "home ?s v e = home s v e" for v e by (simp add: home_def)
  have i: "in_heap ?s v e \<Longrightarrow> in_heap s v e" for v e using k t by (auto simp: in_heap_def split: if_splits dest: in_diffD)
  have "containers ?s v \<noteq> None" if "containers s v \<noteq> None" for v using that by (cases "v = w") auto
  then show "msgs_ok ?s" using parts(1) h unfolding msgs_ok_def by (auto dest: i)
  show "heaps_ok ?s" unfolding heaps_ok_def h
  proof (intro allI impI)
    fix v j assume j: "containers ?s v = Some j"
    show "heap_ok (timer_ranks (delegates ?s)) (valid (delegates ?s)) (mTree j) \<and> (\<forall>d. count (heap_mset (mTree j)) d \<le> 1)
        \<and> (\<forall>d. d \<in># heap_mset (mTree j) \<longrightarrow> home s v d)"
    proof (cases "v = w")
      case True
      with j have "j = k\<lparr>mTree := t\<rparr>" by simp
      with True t hk show ?thesis by (auto intro: le_trans [OF diff_le_self] dest!: in_diffD)
    qed (use j heapsD [OF parts(2), of v j] in auto)
  qed
  show "task_ok ?s (task ?s)"
  proof -
    have "delegates s d \<noteq> None" if "d \<noteq> NULL"
    proof -
      have "mTree k \<noteq> None" using that t by (cases "mTree k") (auto simp: LocHeap_peek_def)
      then show ?thesis using timer_order.peek_in [of "mTree k"] heap_in_dom [OF hk(1)] t by auto
    qed
    with now show ?thesis by simp
  qed
qed (use k p in \<open>auto simp: leavers_def\<close>)

lemma expire_pop_inv:
  assumes core: "core_inv s" and w: "containers s w \<noteq> None" and now: "time_ok now" and p: "deleting (task s) = []"
    and armed: "armed_ok (s\<lparr>task := Expiring w now NULL\<rparr>)"
  shows "\<exists>s' d. expire_pop w now s = Some s' \<and> timers_inv s' \<and> timers s' = timers s \<and> seen s' = seen s \<and> task s' = Expiring w now d"
proof -
  obtain k where k: "containers s w = Some k" using w by auto
  obtain d t where pop: "LocHeap_pop (timer_ranks (delegates s)) (mTree k) = (d, t)" by fastforce
  have "heap_ok (timer_ranks (delegates s)) (valid (delegates s)) (mTree k)" using core k by (auto simp: core_inv_def heaps_ok_def)
  then have "live_container w s = Some k" using k heap_in_dom by (simp add: live_container_eq)
  then have "expire_pop w now s = Some (s\<lparr>containers := (containers s)(w \<mapsto> k\<lparr>mTree := t\<rparr>), task := Expiring w now d\<rparr>)"
    using pop by (simp add: expire_pop_def)
  moreover have "armed_ok (s\<lparr>containers := (containers s)(w \<mapsto> k\<lparr>mTree := t\<rparr>), task := Expiring w now d\<rparr>)"
    using armed by (auto simp: armed_ok_def expiry_due_def first_due_def)
  ultimately show ?thesis using pop_core [OF core k now p pop] by (auto simp: inv_core)
qed

lemma popIfOutRanks_inv:
  assumes core: "core_inv s" and w: "containers s w \<noteq> None" and now: "time_ok now" and p: "deleting (task s) = []"
    and armed: "armed_ok (s\<lparr>task := Expiring w now NULL\<rparr>)"
  shows "\<exists>s' d. popIfOutRanks w now s = Some s' \<and> timers_inv s' \<and> timers s' = timers s \<and> seen s' = seen s \<and> task s' = Expiring w now d"
proof -
  obtain k where k: "containers s w = Some k" using w by auto
  have "heap_ok (timer_ranks (delegates s)) (valid (delegates s)) (mTree k)" using core k by (auto simp: core_inv_def heaps_ok_def)
  then have live: "live_container w s = Some k" using k heap_in_dom by (simp add: live_container_eq)
  have "core_inv (s\<lparr>task := Expiring w now NULL\<rparr>)"
    by (rule core_cong [OF core]) (use p w now in \<open>auto simp: trees_def fun_eq_iff\<close>)
  with live armed expire_pop_inv [OF assms] show ?thesis by (auto simp: popIfOutRanks_def inv_core)
qed

lemma updateSoonest_inv:
  assumes inv: "timers_inv s" and k: "containers s w = Some k" and p: "task s = Expiring w now NULL"
  shows "\<exists>s'. updateSoonestTime w k NULL NULL s = Some s' \<and> timers_inv s' \<and> timers s' = timers s \<and> seen s' = seen s
    \<and> (task s' = Idle \<or> (\<exists>due. task s' = Arming w due NULL))"
proof -
  note parts = invD [OF inv]
  note hk = heapsD [OF parts(5) k]
  have same: "s\<lparr>containers := (containers s)(w \<mapsto> k)\<rparr> = s" using k by (simp add: fun_upd_idem)
  show ?thesis
  proof (cases "mTree k")
    case None
    then have "LocHeap_peek (mTree k) = NULL" by (simp add: LocHeap_peek_def)
    then have u: "updateSoonestTime w k NULL NULL s = end_msg NULL s" by (simp add: updateSoonestTime_def same)
    have "armed_ok (s\<lparr>task := Idle\<rparr>)"
      by (rule armed_update [OF parts(9), of _ w k]) (use None k p in \<open>auto simp: expiry_due_def fun_upd_idem\<close>)
    then show ?thesis using end_msg_inv [of s NULL] inv p u by (auto simp: inv_core)
  next
    case (Some n)
    then have tree: "mTree k \<noteq> None" by simp
    obtain y where y: "delegates s (LocHeap_peek (mTree k)) = Some y" "LocHeap_peek (mTree k) \<noteq> NULL"
      using timer_order.peek_in [OF tree] heap_in_dom [OF hk(1)] timer_order.peek_null [OF hk(1)] tree by fastforce
    let ?s = "s\<lparr>containers := (containers s)(w \<mapsto> k\<lparr>polled := True\<rparr>), task := Arming w (mFutureTime y) NULL\<rparr>"
    have "core_inv ?s"
      by (rule core_cong) (use inv p k in \<open>auto simp: inv_core trees_def fun_eq_iff\<close>)
    moreover have "armed_ok ?s"
      by (rule armed_update [OF parts(9), of _ w "k\<lparr>polled := True\<rparr>"]) (use p y tree in \<open>auto simp: expiry_due_def first_due_def\<close>)
    moreover have "updateSoonestTime w k NULL NULL s = Some ?s" using y by (simp add: updateSoonestTime_def)
    ultimately show ?thesis by (auto simp: inv_core)
  qed
qed

lemma arming_inv:
  assumes inv: "timers_inv s" and p: "task s = Arming w due d" and k: "containers s w = Some k"
  shows "\<exists>s'. end_msg d (s\<lparr>containers := (containers s)(w \<mapsto> k\<lparr>armed := Some due\<rparr>)\<rparr>) = Some s' \<and> timers_inv s' \<and> timers s' = timers s
    \<and> seen s' = seen s \<and> task s' = Idle"
proof -
  let ?s = "s\<lparr>containers := (containers s)(w \<mapsto> k\<lparr>armed := Some due\<rparr>)\<rparr>"
  note parts = invD [OF inv]
  have "core_inv ?s" by (rule core_cong) (use inv p k in \<open>auto simp: inv_core trees_def fun_eq_iff\<close>)
  moreover have "armed_ok (?s\<lparr>task := Idle\<rparr>)"
    by (rule armed_update [OF parts(9)]) (use p k armedD [OF parts(9) k] armingD [OF parts(9) p] in \<open>auto simp: expiry_due_def first_due_def\<close>)
  ultimately show ?thesis using end_msg_inv [of ?s d] p by simp
qed

text \<open>The states between the actions of an expiry.\<close>

lemma task_change:
  assumes inv: "timers_inv s" and p: "deleting (task s) = []" "deleting q = []" "task_ok s q"
    and e: "\<And>v. expiry_due s v \<Longrightarrow> expiry_due (s\<lparr>task := q\<rparr>) v" "\<And>v due d. task s \<noteq> Arming v due d \<and> q \<noteq> Arming v due d"
  shows "timers_inv (s\<lparr>task := q\<rparr>)"
proof -
  have "task_ok (s\<lparr>task := q\<rparr>) q" using p(3) by (cases q) simp_all
  with inv p(1,2) have "core_inv (s\<lparr>task := q\<rparr>)"
    using core_cong [of s "s\<lparr>task := q\<rparr>"] by (simp add: inv_core trees_def fun_eq_iff)
  moreover have "armed_ok (s\<lparr>task := q\<rparr>)" unfolding armed_ok_def
  proof (intro conjI allI impI)
    fix v j assume "containers (s\<lparr>task := q\<rparr>) v = Some j \<and> mTree j \<noteq> None"
    then show "expiry_due (s\<lparr>task := q\<rparr>) v \<or> polled j \<and> (armed j = Some (first_due (s\<lparr>task := q\<rparr>) j)
        \<or> (\<exists>d. task (s\<lparr>task := q\<rparr>) = Arming v (first_due (s\<lparr>task := q\<rparr>) j) d))"
      using armedD [OF invD(9) [OF inv], of v j] e(1) [of v] e(2) [of v "first_due s j"] by (simp add: first_due_def) blast
  qed (use e(2) in simp)
  ultimately show ?thesis by (simp add: inv_core)
qed

lemma expiry_change:
  assumes inv: "timers_inv s" and p: "task s = Expiring w now d \<or> task s = Stopping w now c \<or> task s = Calling w now c due"
    and q: "q = Expiring w now d' \<or> q = Stopping w now c' \<or> q = Calling w now c' due'" "task_ok s q"
  shows "timers_inv (s\<lparr>task := q\<rparr>)"
proof (rule task_change [OF inv])
  show "deleting (task s) = []" using p by (elim disjE) simp_all
  show "deleting q = []" using q(1) by (elim disjE) simp_all
  show "task s \<noteq> Arming v due d \<and> q \<noteq> Arming v due d" for v due d using p q(1) by (elim disjE) simp_all
  show "expiry_due (s\<lparr>task := q\<rparr>) v" if "expiry_due s v" for v
    using that p q(1) by (elim disjE) (simp_all add: expiry_due_def)
qed (rule q(2))

lemma next_timer:
  assumes inv: "timers_inv s" and p: "task s = Expiring w now d \<or> task s = Stopping w now c \<or> task s = Calling w now c due"
  shows "\<exists>s' d. popIfOutRanks w now s = Some s' \<and> timers_inv s' \<and> timers s' = timers s \<and> seen s' = seen s \<and> task s' = Expiring w now d"
proof -
  have ok: "containers s w \<noteq> None" "time_ok now" using invD(6) [OF inv] p by auto
  have "timers_inv (s\<lparr>task := Expiring w now NULL\<rparr>)" using ok by (intro expiry_change [OF inv p]) auto
  then show ?thesis using popIfOutRanks_inv [of s w now] inv ok p by (auto simp: inv_core)
qed

end
