(* ===== verification/LocTimerSpec.thy ===== *)
theory LocTimerSpec
  imports LocTimerInv
begin

text \<open>
  The steps of the threads keep the invariant of \<^verbatim>\<open>LocTimerInv\<close>, account for every start and lose no timer; the properties of the
  reachable states follow by rule induction.  Concrete runs show the races of an expiry with the clients.
\<close>

section \<open>Every step\<close>

text \<open>The successful starts of a timer, the ends of its runs (stopped or called back), and the runs that have not ended.\<close>

definition starts :: "addr \<Rightarrow> timer_event list \<Rightarrow> nat" where
  "starts c es = length (filter (\<lambda>e. e = Started c True) es)"

fun run_end :: "addr \<Rightarrow> timer_event \<Rightarrow> bool" where
  "run_end c (Started c' r) \<longleftrightarrow> False"
| "run_end c (Stopped c' r) \<longleftrightarrow> c' = c \<and> r"
| "run_end c (TimedOut c' due now) \<longleftrightarrow> c' = c"

definition ends :: "addr \<Rightarrow> timer_event list \<Rightarrow> nat" where
  "ends c es = length (filter (run_end c) es)"

definition running :: "timer_state \<Rightarrow> addr \<Rightarrow> nat" where
  "running s c = (case timers s c of None \<Rightarrow> 0 | Some t \<Rightarrow> if mTimer t = NULL then 0 else 1)"

fun calling :: "task_pc \<Rightarrow> addr \<Rightarrow> nat" where
  "calling (Calling w now c due) c' = (if c' = c then 1 else 0)"
| "calling _ c' = 0"

definition account_ok :: "timer_state \<Rightarrow> bool" where
  "account_ok s \<longleftrightarrow> (\<forall>c. starts c (seen s) = ends c (seen s) + running s c + calling (task s) c)"

text \<open>A client deletes its timer only while the message task does not hold on to it.\<close>

fun careful :: "timer_call \<Rightarrow> timer_state \<Rightarrow> bool" where
  "careful (DeleteTimer c) s \<longleftrightarrow> \<not> expires (task s) c"
| "careful (CStop c) s \<longleftrightarrow> \<not> expires (task s) c"
| "careful _ s \<longleftrightarrow> True"

lemma popIfOutRanks_task [simp]: "popIfOutRanks w now (s\<lparr>task := q\<rparr>) = popIfOutRanks w now s"
  by (auto simp: popIfOutRanks_def expire_pop_def live_container_def bind_eq_Some_conv split: option.splits prod.splits)

lemma delete_task: "delete_timer c (s\<lparr>task := q\<rparr>) = map_option (\<lambda>s. s\<lparr>task := q\<rparr>) (delete_timer c s)"
  by (auto simp: delete_timer_def LocTimer_stop_def destroyLocked_def sendMsg_def drop_ref_def load_def store_def free_obj_def Let_def
      split: option.splits bind_splits)

text \<open>A call of the callback: the timer is deleted when it belongs to the C interface.\<close>

lemma callback_inv:
  assumes inv: "timers_inv s" and p: "task s = Calling w now c due"
  shows "\<exists>s'. timeOutCallback c due now s = Some s' \<and> timers_inv (s'\<lparr>task := Expiring w now NULL\<rparr>)
    \<and> (\<exists>t. timers s c = Some t \<and> (if mCb t = NULL then timers s' = timers s \<and> seen s' = seen s @ [TimedOut c due now]
       else timers s' = (timers s)(c := None) \<and> seen s' = seen s @ [TimedOut c due now, Stopped c (mTimer t \<noteq> NULL)]))"
proof -
  obtain t where t: "timers s c = Some t" using invD(6) [OF inv] p by auto
  have c: "c \<noteq> NULL" using clientsD [OF invD(1) [OF inv] t] by (simp add: client_ok_def)
  let ?s = "s\<lparr>seen := seen s @ [TimedOut c due now]\<rparr>" and ?q = "Expiring w now NULL"
  have "task_ok s ?q" using invD(6) [OF inv] p by simp
  then have "timers_inv (s\<lparr>task := ?q\<rparr>)" using expiry_change [OF inv, of w now NULL c due ?q NULL c due] p by blast
  then have "timers_inv (s\<lparr>task := ?q, seen := seen s @ [TimedOut c due now]\<rparr>)" by (simp add: seen_inv)
  moreover have "s\<lparr>task := ?q, seen := seen s @ [TimedOut c due now]\<rparr> = ?s\<lparr>task := ?q\<rparr>" by simp
  ultimately have q: "timers_inv (?s\<lparr>task := ?q\<rparr>)" by metis
  show ?thesis
  proof (cases "mCb t = NULL")
    case True
    with q t c show ?thesis by (simp add: timeOutCallback_def wrapper_destroy_def)
  next
    case False
    obtain s' where s': "delete_timer c (?s\<lparr>task := ?q\<rparr>) = Some s'" "timers_inv s'" "task s' = ?q" "timers s' = (timers s)(c := None)"
        "seen s' = seen s @ [TimedOut c due now, Stopped c (mTimer t \<noteq> NULL)]"
      using delete_inv [OF q, of c t] t by (auto simp: expires_def)
    from s'(1) obtain s1 where "delete_timer c ?s = Some s1" "s' = s1\<lparr>task := ?q\<rparr>" unfolding delete_task by auto
    with s' False t c show ?thesis by (auto simp: timeOutCallback_def wrapper_destroy_def)
  qed
qed

text \<open>The account of a timer after the events that a step adds.\<close>

lemma account_step:
  assumes "account_ok s" "seen s' = seen s @ es"
    and "\<And>c. starts c es + running s c + calling (task s) c = ends c es + running s' c + calling (task s') c"
  shows "account_ok s'"
  unfolding account_ok_def
proof
  fix c show "starts c (seen s') = ends c (seen s') + running s' c + calling (task s') c"
    using assms(1,2) assms(3) [of c] by (simp add: account_ok_def starts_def ends_def)
qed

lemmas account_simps = starts_def ends_def running_def

definition good_step :: "timer_state \<Rightarrow> timer_state option \<Rightarrow> bool" where
  "good_step s r \<longleftrightarrow> (\<exists>s'. r = Some s' \<and> timers_inv s' \<and> (account_ok s \<longrightarrow> account_ok s'))"

lemma good_stepI:
  assumes "r = Some s'" "timers_inv s'" "seen s' = seen s @ es"
    and "\<And>c. starts c es + running s c + calling (task s) c = ends c es + running s' c + calling (task s') c"
  shows "good_step s r"
  using assms account_step unfolding good_step_def by blast

lemma good_quiet:
  assumes "r = Some s'" "timers_inv s'" "seen s' = seen s" "timers s' = timers s" "calling (task s') = calling (task s)"
  shows "good_step s r"
  by (rule good_stepI [OF assms(1,2), where es = "[]"]) (use assms in \<open>simp_all add: account_simps\<close>)

lemma good_next:
  assumes "timers_inv s" "task s = Expiring w now d \<or> task s = Stopping w now c"
  shows "good_step s (popIfOutRanks w now s)"
proof -
  obtain s' e where s': "popIfOutRanks w now s = Some s'" "timers_inv s'" "timers s' = timers s" "seen s' = seen s" "task s' = Expiring w now e"
    using next_timer [OF assms(1), of w now d c undefined] assms(2) by blast
  have "calling (task s') = calling (task s)" using assms(2) s'(5) by (auto simp: fun_eq_iff)
  with s' show ?thesis by (intro good_quiet [of _ s']) auto
qed

lemma take_expire:
  assumes inv: "timers_inv s" and idle: "task s = Idle" and m: "msgs s = MsgTimerExpire w # ms" and now: "time_ok now"
  shows "\<exists>s' d. expire_pop w now (s\<lparr>msgs := ms\<rparr>) = Some s' \<and> timers_inv s' \<and> timers s' = timers s \<and> seen s' = seen s
    \<and> task s' = Expiring w now d"
proof -
  note parts = invD [OF inv]
  have home: "home (s\<lparr>msgs := ms\<rparr>) v e = home s v e" "in_heap (s\<lparr>msgs := ms\<rparr>) v e = in_heap s v e" for v e
    using m by (simp_all add: home_def in_heap_def)
  have core: "core_inv (s\<lparr>msgs := ms\<rparr>)"
  proof (rule core_msg [of s])
    show "msgs_ok (s\<lparr>msgs := ms\<rparr>)" using parts(4) m by (simp add: msgs_ok_def home)
    show "heaps_ok (s\<lparr>msgs := ms\<rparr>)" using parts(5) by (simp add: heaps_ok_def home)
  qed (use inv idle m in \<open>simp_all add: inv_core leavers_def\<close>)
  have k: "containers s w \<noteq> None" using parts(4) m by (simp add: msgs_ok_def)
  have "armed_ok (s\<lparr>msgs := ms, task := Expiring w now NULL\<rparr>)" unfolding armed_ok_def
  proof (intro conjI allI impI)
    fix v j assume "containers (s\<lparr>msgs := ms, task := Expiring w now NULL\<rparr>) v = Some j \<and> mTree j \<noteq> None"
    then show "expiry_due (s\<lparr>msgs := ms, task := Expiring w now NULL\<rparr>) v \<or> polled j
        \<and> (armed j = Some (first_due (s\<lparr>msgs := ms, task := Expiring w now NULL\<rparr>) j)
          \<or> (\<exists>d. task (s\<lparr>msgs := ms, task := Expiring w now NULL\<rparr>) = Arming v (first_due (s\<lparr>msgs := ms, task := Expiring w now NULL\<rparr>) j) d))"
      using armedD [OF parts(9), of v j] idle m by (cases "v = w") (auto simp: expiry_due_def first_due_def)
  qed simp
  then show ?thesis using expire_pop_inv [OF core, of w now] k now idle by simp
qed

lemma idle_good:
  assumes inv: "timers_inv s" and now: "clock_ok now" and Idle: "task s = Idle"
  shows "good_step s (task_step now s)"
proof (cases "msgs s")
  case Nil
  with assms show ?thesis by (intro good_quiet [of _ s]) (auto simp: task_step_def take_msg_def)
next
  case (Cons m ms)
  show ?thesis
  proof (cases m)
    case (MsgTimerPush w d)
    obtain s' where "proc_push w d (s\<lparr>msgs := ms\<rparr>) = Some s'" "timers_inv s'" "timers s' = timers s" "seen s' = seen s"
        "task s' = Idle \<or> (\<exists>due e. task s' = Arming w due e)"
      using take_push [OF inv Idle, of w d ms] Cons MsgTimerPush by blast
    with Idle Cons MsgTimerPush show ?thesis by (intro good_quiet [of _ s']) (auto simp: task_step_def take_msg_def fun_eq_iff)
  next
    case (MsgTimerRemove w d)
    obtain s' where "proc_remove w d (s\<lparr>msgs := ms\<rparr>) = Some s'" "timers_inv s'" "timers s' = timers s" "seen s' = seen s"
        "task s' = Idle \<or> (\<exists>due e. task s' = Arming w due e)"
      using take_remove [OF inv Idle, of w d ms] Cons MsgTimerRemove by blast
    with Idle Cons MsgTimerRemove show ?thesis by (intro good_quiet [of _ s']) (auto simp: task_step_def take_msg_def fun_eq_iff)
  next
    case (MsgTimerExpire w)
    obtain s' d where "expire_pop w now (s\<lparr>msgs := ms\<rparr>) = Some s'" "timers_inv s'" "timers s' = timers s" "seen s' = seen s"
        "task s' = Expiring w now d"
      using take_expire [OF inv Idle, of w ms now] Cons MsgTimerExpire clock_time_ok [OF now] by blast
    with Idle Cons MsgTimerExpire show ?thesis by (intro good_quiet [of _ s']) (auto simp: task_step_def take_msg_def fun_eq_iff)
  qed
qed

lemma expiring_good:
  assumes inv: "timers_inv s" and Expiring: "task s = Expiring w n d"
  shows "good_step s (task_step now s)"
proof -
  show ?thesis
  proof (cases "d = NULL")
    case True
    obtain k where k: "containers s w = Some k" using invD(6) [OF inv] Expiring by auto
    have "live_container w s = Some k" using k heap_in_dom [OF heapsD(1) [OF invD(5) [OF inv] k]] by (simp add: live_container_eq)
    with updateSoonest_inv [OF inv k] Expiring True show ?thesis
      by (intro good_quiet [of _ "the (updateSoonestTime w k NULL NULL s)"]) (auto simp: task_step_def fun_eq_iff)
  next
    case False
    then obtain x where x: "delegates s d = Some x" using invD(6) [OF inv] Expiring by auto
    show ?thesis
    proof (cases "mClient x = NULL")
      case True
      with False x Expiring good_next [OF inv, of w n d] show ?thesis by (simp add: task_step_def)
    next
      case c: False
      have "timers s (mClient x) \<noteq> None" using delegatesD [OF invD(2) [OF inv] x] c by (auto simp: delegate_ok_def split: option.splits)
      then have "task_ok s (Stopping w n (mClient x))" using invD(6) [OF inv] Expiring by simp
      then have "timers_inv (s\<lparr>task := Stopping w n (mClient x)\<rparr>)"
        using expiry_change [OF inv, of w n d NULL n "Stopping w n (mClient x)" d "mClient x" n] Expiring by blast
      with False c x Expiring show ?thesis by (intro good_quiet [of _ "s\<lparr>task := Stopping w n (mClient x)\<rparr>"]) (auto simp: task_step_def fun_eq_iff)
    qed
  qed
qed

lemma stopping_good:
  assumes inv: "timers_inv s" and Stopping: "task s = Stopping w n c"
  shows "good_step s (task_step now s)"
proof -
  obtain t where t: "timers s c = Some t" using invD(6) [OF inv] Stopping by auto
  have c: "c \<noteq> NULL" using clientsD [OF invD(1) [OF inv] t] by (simp add: client_ok_def)
  show ?thesis
  proof (cases rule: stop_cases [OF inv t])
    case 1
    with Stopping t c good_next [OF inv, of w n NULL c] show ?thesis by (simp add: task_step_def)
  next
    case (2 x v)
    let ?s = "stopped c t x v s" and ?q = "Calling w n c (mFutureTime x)"
    have st: "timers_inv ?s" using stopped_inv [OF inv t 2(1-5)] .
    have "task_ok ?s ?q" "task ?s = Stopping w n c" using invD(6) [OF st] Stopping by (auto simp: stopped_def)
    then have "timers_inv (?s\<lparr>task := ?q\<rparr>)"
      using expiry_change [OF st, of w n NULL c n ?q NULL c "mFutureTime x"] by blast
    then show ?thesis
    proof (rule good_stepI [rotated, where es = "[]"])
      show "task_step now s = Some (?s\<lparr>task := ?q\<rparr>)" using Stopping t c 2 by (simp add: task_step_def)
    qed (use Stopping t 2(1) in \<open>auto simp: stopped_def account_simps\<close>)
  qed
qed

lemma calling_good:
  assumes inv: "timers_inv s" and Calling: "task s = Calling w n c due"
  shows "good_step s (task_step now s)"
proof -
  obtain s1 t where s1: "timeOutCallback c due n s = Some s1" "timers_inv (s1\<lparr>task := Expiring w n NULL\<rparr>)" "timers s c = Some t"
      "if mCb t = NULL then timers s1 = timers s \<and> seen s1 = seen s @ [TimedOut c due n]
       else timers s1 = (timers s)(c := None) \<and> seen s1 = seen s @ [TimedOut c due n, Stopped c (mTimer t \<noteq> NULL)]"
    using callback_inv [OF inv Calling] by blast
  obtain s2 d where s2: "popIfOutRanks w n s1 = Some s2" "timers_inv s2" "timers s2 = timers s1" "seen s2 = seen s1" "task s2 = Expiring w n d"
    using next_timer [OF s1(2), of w n NULL NULL n] by auto
  let ?es = "if mCb t = NULL then [TimedOut c due n] else [TimedOut c due n, Stopped c (mTimer t \<noteq> NULL)]"
  show ?thesis
    by (rule good_stepI [of _ s2, where es = ?es])
      (use Calling s1 s2 in \<open>auto simp: task_step_def account_simps split: if_splits\<close>)
qed

lemma arming_good:
  assumes inv: "timers_inv s" and Arming: "task s = Arming w due d"
  shows "good_step s (task_step now s)"
proof -
  obtain k where k: "containers s w = Some k" using invD(6) [OF inv] Arming by auto
  with arming_inv [OF inv Arming k] Arming show ?thesis
    by (intro good_quiet [of _ "the (end_msg d (s\<lparr>containers := (containers s)(w \<mapsto> k\<lparr>armed := Some due\<rparr>)\<rparr>))"])
      (auto simp: task_step_def fun_eq_iff)
qed

lemma task_good: "timers_inv s \<Longrightarrow> clock_ok now \<Longrightarrow> good_step s (task_step now s)"
  using idle_good expiring_good stopping_good calling_good arming_good by (cases "task s") blast+

lemma same_times_refl: "D \<subseteq> dom ds \<Longrightarrow> same_times ds ds D"
  by (auto simp: same_times_def)

text \<open>What the polling thread is about to do matters for the containers it knows only.\<close>

lemma poll_core:
  assumes "core_inv s" "\<And>p. p \<in> set ps \<Longrightarrow> containers s (poll_container p) \<noteq> None"
  shows "core_inv (s\<lparr>poll := ps\<rparr>)"
proof -
  let ?s = "s\<lparr>poll := ps\<rparr>"
  have l: "leavers ?s = leavers s" by (simp add: leavers_def)
  have h: "home ?s v e = home s v e" "in_heap ?s v e = in_heap s v e" for v e by (simp_all add: home_def in_heap_def)
  have parts: "clients_ok s" "leavers_ok s" "msgs_ok s" "heaps_ok s" "locks_ok s" using assms(1) by (simp_all add: core_inv_def)
  have "delegates_ok ?s" by (rule delegates_frame [of s]) (use assms(1) in \<open>simp_all add: l core_inv_def\<close>)
  moreover have "task_ok ?s (task ?s)" using assms(1) by (cases "task s") (simp_all add: core_inv_def)
  moreover have "clients_ok ?s" "leavers_ok ?s" "locks_ok ?s" "heaps_ok ?s" "msgs_ok ?s" using parts
    by (simp_all add: clients_ok_def client_ok_def leavers_ok_def l locks_ok_def heaps_ok_def h msgs_ok_def)
  moreover have "poll_ok ?s" using assms(2) by (simp add: poll_ok_def)
  ultimately show ?thesis by (simp add: core_inv_def)
qed

text \<open>The polling thread changes what the kernel knows of a container for which an expiry is due.\<close>

lemma kernel_inv:
  assumes inv: "timers_inv s" and k: "containers s w = Some k" "mTree k' = mTree k"
    and p: "poll s = p # ps" "poll_container p = w" "poll_container q = w"
  shows "timers_inv (s\<lparr>containers := (containers s)(w \<mapsto> k'), poll := q # ps\<rparr>)"
proof -
  let ?s = "s\<lparr>containers := (containers s)(w \<mapsto> k'), poll := q # ps\<rparr>" and ?t = "s\<lparr>poll := q # ps\<rparr>"
  note parts = invD [OF inv]
  have due: "expiry_due ?s v = expiry_due s v" for v using p by (simp add: expiry_due_def)
  have "containers ?s v \<noteq> None" if "containers s v \<noteq> None" for v using that by (cases "v = w") simp_all
  then have t: "task_ok ?s (task s)" using parts(6) by (cases "task s") simp_all
  have "core_inv s" using inv by (simp add: inv_core)
  moreover have "containers s (poll_container x) \<noteq> None" if "x \<in> set (q # ps)" for x using that parts(7) p k(1) by (cases "x = q") (simp_all add: poll_ok_def)
  ultimately have "core_inv ?t" by (rule poll_core)
  moreover have "trees ?s = trees ?t" using k by (auto simp: trees_def)
  ultimately have "core_inv ?s" using core_cong [of ?t ?s] t by simp
  moreover have "armed_ok ?s" unfolding armed_ok_def
  proof (intro conjI allI impI)
    fix v j assume j: "containers ?s v = Some j \<and> mTree j \<noteq> None"
    show "expiry_due ?s v \<or> polled j \<and> (armed j = Some (first_due ?s j) \<or> (\<exists>d. task ?s = Arming v (first_due ?s j) d))"
    proof (cases "v = w")
      case True
      then show ?thesis using p by (simp add: expiry_due_def)
    next
      case False
      then have "containers s v = Some j" using j by simp
      from armedD [OF parts(9) this] j show ?thesis unfolding due by (simp add: first_due_def)
    qed
  next
    fix v t d assume "task ?s = Arming v t d"
    then obtain j where "containers s v = Some j" "mTree j \<noteq> None" "t = first_due s j" using armingD [OF parts(9), of v t d] by auto
    then show "\<exists>j. containers ?s v = Some j \<and> mTree j \<noteq> None \<and> t = first_due ?s j"
      using k by (cases "v = w") (auto simp: first_due_def)
  qed
  ultimately show ?thesis by (simp add: inv_core)
qed

lemma poll_good:
  assumes inv: "timers_inv s"
  shows "good_step s (poll_step s)"
proof (cases "poll s")
  case Nil
  with inv show ?thesis by (intro good_quiet [of _ s]) (simp_all add: poll_step_def)
next
  case (Cons p ps)
  then obtain k where k: "containers s (poll_container p) = Some k" using invD(7) [OF inv] by (auto simp: poll_ok_def)
  show ?thesis
  proof (cases p)
    case (Disarm w)
    with kernel_inv [OF inv k, of "k\<lparr>armed := None\<rparr>" p ps "Unpoll w"] Cons k show ?thesis
      by (intro good_quiet [of _ "s\<lparr>containers := (containers s)(w \<mapsto> k\<lparr>armed := None\<rparr>), poll := Unpoll w # ps\<rparr>"]) (simp_all add: poll_step_def)
  next
    case (Unpoll w)
    with kernel_inv [OF inv k, of "k\<lparr>polled := False\<rparr>" p ps "SendExpire w"] Cons k show ?thesis
      by (intro good_quiet [of _ "s\<lparr>containers := (containers s)(w \<mapsto> k\<lparr>polled := False\<rparr>), poll := SendExpire w # ps\<rparr>"]) (simp_all add: poll_step_def)
  next
    case (SendExpire w)
    let ?s = "s\<lparr>poll := ps, msgs := msgs s @ [MsgTimerExpire w]\<rparr>"
    note parts = invD [OF inv]
    let ?t = "s\<lparr>poll := ps\<rparr>"
    have h: "home ?s v e = home s v e" "in_heap ?s v e = in_heap s v e" for v e by (simp_all add: home_def in_heap_def)
    have "core_inv ?t" using inv parts(7) Cons by (intro poll_core) (auto simp: inv_core poll_ok_def)
    then have "core_inv ?s"
    proof (rule core_msg)
      show "msgs_ok ?s" using parts(4) k SendExpire by (auto simp: msgs_ok_def push_first_append h)
      show "heaps_ok ?s" using parts(5) by (simp add: heaps_ok_def h)
      show "task_ok ?s (task ?s)" using parts(6) by (cases "task s") simp_all
    qed (simp_all add: leavers_def)
    moreover have "armed_ok ?s"
    proof (rule armed_frame [OF parts(9,5)])
      show "expiry_due ?s v" if "expiry_due s v" for v using that Cons SendExpire by (auto simp: expiry_due_def)
    qed (use heap_in_dom [OF heapsD(1) [OF parts(5)]] in \<open>simp_all add: same_times_refl\<close>)
    ultimately show ?thesis using Cons SendExpire
      by (intro good_quiet [of _ ?s]) (simp_all add: poll_step_def sendMsg_def inv_core)
  qed
qed

lemma wake_good:
  assumes inv: "timers_inv s" and ws: "poll s = []" "list_all (ready now s) ws"
  shows "good_step s (Some (s\<lparr>poll := map Disarm ws\<rparr>))"
proof (rule good_quiet [OF refl])
  let ?s = "s\<lparr>poll := map Disarm ws\<rparr>"
  note parts = invD [OF inv]
  have "containers s w \<noteq> None" if "w \<in> set ws" for w using ws(2) that unfolding list_all_iff ready_def by (fastforce split: option.splits)
  then have "core_inv ?s" using inv by (intro poll_core) (auto simp: inv_core)
  moreover have "armed_ok ?s"
    by (rule armed_frame [OF parts(9,5)])
      (use heap_in_dom [OF heapsD(1) [OF parts(5)]] ws(1) in \<open>auto simp: same_times_refl expiry_due_def\<close>)
  ultimately show "timers_inv ?s" by (simp add: inv_core)
qed simp_all

lemma delete_good:
  assumes inv: "timers_inv s" and c: "timers s c = Some t" "\<not> expires (task s) c"
  shows "good_step s (delete_timer c s)"
proof -
  obtain s' where s': "delete_timer c s = Some s'" "timers_inv s'" "task s' = task s" "timers s' = (timers s)(c := None)"
      "seen s' = seen s @ [Stopped c (mTimer t \<noteq> NULL)]"
    using delete_inv [OF assms] by blast
  show ?thesis by (rule good_stepI [OF s'(1,2,5)]) (use s' c in \<open>auto simp: account_simps\<close>)
qed

lemma stop_good:
  assumes inv: "timers_inv s" and c: "timers s c = Some t"
  shows "good_step s (map_option (\<lambda>(r, s). s\<lparr>seen := seen s @ [Stopped c r]\<rparr>) (LocTimer_stop c s))"
proof (cases rule: stop_cases [OF inv c])
  case 1
  then show ?thesis using inv by (intro good_stepI [of _ "s\<lparr>seen := seen s @ [Stopped c False]\<rparr>" _ "[Stopped c False]"])
    (simp_all add: seen_inv account_simps)
next
  case (2 x w)
  let ?s = "stopped c t x w s"
  have "timers_inv ?s" by (rule stopped_inv [OF inv c 2(1-5)])
  then show ?thesis using 2(1,6) c
    by (intro good_stepI [of _ "?s\<lparr>seen := seen ?s @ [Stopped c True]\<rparr>" _ "[Stopped c True]"])
      (simp_all add: seen_inv account_simps, auto simp: stopped_def)
qed

lemma start_good:
  assumes inv: "timers_inv s" and c: "timers s c = Some t" and d: "d \<noteq> NULL" "delegates s d = None" and now: "clock_ok now"
  shows "good_step s (map_option (\<lambda>(r, s). s\<lparr>seen := seen s @ [Started c r]\<rparr>) (LocTimer_start c ms w now fds d s))"
proof -
  obtain r s' where s': "LocTimer_start c ms w now fds d s = Some (r, s')" "timers_inv s'" "task s' = task s" "seen s' = seen s"
      "if r then mTimer t = NULL \<and> timers s' = (timers s)(c \<mapsto> t\<lparr>mTimer := d\<rparr>) else timers s' = timers s"
    using start_inv [OF assms] by blast
  then have "timers_inv (s'\<lparr>seen := seen s @ [Started c r]\<rparr>)" by (simp add: seen_inv)
  then show ?thesis using s' c d
    by (intro good_stepI [of _ "s'\<lparr>seen := seen s @ [Started c r]\<rparr>" _ "[Started c r]"]) (auto simp: account_simps split: if_splits)
qed

lemma new_timer_same [simp]: "seen (new_timer c l cb s) = seen s" "task (new_timer c l cb s) = task s"
    "delegates (new_timer c l cb s) = delegates s" "timers (new_timer c l cb s) c = Some \<lparr>mTimer = NULL, mLock = l, mCb = cb\<rparr>"
  by (simp_all add: new_timer_def)

lemma new_account: "account_ok s \<Longrightarrow> timers s c = None \<Longrightarrow> account_ok (new_timer c l cb s)"
  by (auto simp: account_ok_def running_def new_timer_def)

text \<open>Every call that can be made returns and keeps the invariant and the account.\<close>

lemma step_good:
  assumes inv: "timers_inv s" and now: "clock_ok now" and e: "timer_enabled now e s" "careful e s"
  shows "good_step s (timer_step e s)"
proof (cases e)
  case (NewTimer c l)
  with assms new_timer_inv [OF inv, of c l NULL] new_account [of s c l NULL] show ?thesis by (simp add: good_step_def)
next
  case (DeleteTimer c)
  with assms delete_good [OF inv, of c] show ?thesis by auto
next
  case (StartTimer c ms w n fds d)
  with e obtain t where "timers s c = Some t" "d \<noteq> NULL" "delegates s d = None" "n = now" by auto
  with start_good [OF inv this(1-3) now] StartTimer show ?thesis by simp
next
  case (StopTimer c)
  with assms stop_good [OF inv, of c] show ?thesis by auto
next
  case (CStart ms cb w c l n fds d)
  show ?thesis
  proof (cases "cb = NULL")
    case True
    with CStart inv show ?thesis by (simp add: loc_timer_start_def good_step_def)
  next
    case False
    let ?s = "new_timer c l cb s"
    have new: "timers_inv ?s" "account_ok s \<Longrightarrow> account_ok ?s"
      using CStart e new_timer_inv [OF inv, of c l cb] new_account [of s c l cb] by simp_all
    then have "good_step ?s (map_option (\<lambda>(r, s). s\<lparr>seen := seen s @ [Started c r]\<rparr>) (LocTimer_start c (ucast ms) w now fds d ?s))"
      using CStart e start_good [OF new(1), of c _ d now "ucast ms" w fds] now by simp
    moreover have "timer_step e s = map_option (\<lambda>(r, s). s\<lparr>seen := seen s @ [Started c r]\<rparr>) (LocTimer_start c (ucast ms) w now fds d ?s)"
      using CStart e False by (auto simp: loc_timer_start_def split: option.splits bind_splits)
    ultimately show ?thesis using new(2) unfolding good_step_def by metis
  qed
next
  case (CStop c)
  show ?thesis
  proof (cases "c = NULL")
    case False
    with CStop e obtain t where t: "timers s c = Some t" by auto
    with False CStop e delete_good [OF inv t] inv show ?thesis
      by (cases "mCb t = NULL") (simp_all add: loc_timer_stop_def wrapper_destroy_def good_step_def)
  qed (use CStop inv in \<open>simp add: loc_timer_stop_def good_step_def\<close>)
qed (use assms task_good poll_good wake_good [OF inv] in auto)

section \<open>No timer is lost\<close>

text \<open>A delegate that is not cancelled is in the heap of its container, on the way there, or in the hands of an expiry, which is
  going to cancel it.\<close>

fun in_hands :: "task_pc \<Rightarrow> addr \<Rightarrow> addr \<Rightarrow> bool" where
  "in_hands (Expiring w now d) d' c \<longleftrightarrow> d' = d"
| "in_hands (Stopping w now c) d' c' \<longleftrightarrow> c' = c"
| "in_hands _ d' c' \<longleftrightarrow> False"

definition tracks :: "timer_state \<Rightarrow> bool \<Rightarrow> addr \<Rightarrow> addr \<Rightarrow> bool" where
  "tracks s w d c \<longleftrightarrow> in_heap s w d \<or> MsgTimerPush w d \<in> set (msgs s) \<or> in_hands (task s) d c"

definition tracked :: "timer_state \<Rightarrow> bool" where
  "tracked s \<longleftrightarrow> (\<forall>d x w. delegates s d = Some x \<longrightarrow> mContainer x = Some w \<longrightarrow> tracks s w d (mClient x))"

lemma trackedD: "tracked s \<Longrightarrow> delegates s d = Some x \<Longrightarrow> mContainer x = Some w \<Longrightarrow> tracks s w d (mClient x)"
  by (simp add: tracked_def)

lemma trackedI:
  assumes "tracked s" "\<And>d x w. delegates s' d = Some x \<Longrightarrow> mContainer x = Some w \<Longrightarrow>
      tracks s' w d (mClient x) \<or> delegates s d = Some x \<and> (tracks s w d (mClient x) \<longrightarrow> tracks s' w d (mClient x))"
  shows "tracked s'"
  using assms unfolding tracked_def by blast

lemma tracked_cong:
  assumes "tracked s" "delegates s' = delegates s" "trees s' = trees s" "msgs s' = msgs s" "in_hands (task s') = in_hands (task s)"
  shows "tracked s'"
  using assms by (simp add: tracked_def tracks_def in_heap_trees)

lemma submapD: "m \<subseteq>\<^sub>m m' \<Longrightarrow> m a = Some x \<Longrightarrow> m' a = Some x"
  by (metis domI map_le_def)

lemma trees_update: "trees (s\<lparr>containers := (containers s)(w \<mapsto> k)\<rparr>) = (trees s)(w \<mapsto> mTree k)"
  "trees (s\<lparr>msgs := ms\<rparr>) = trees s" "trees (s\<lparr>msgs := ms, containers := (containers s)(w \<mapsto> k)\<rparr>) = (trees s)(w \<mapsto> mTree k)"
  by (auto simp: trees_def fun_eq_iff)

text \<open>What the end of a message and the update of the kernel timer leave.\<close>

lemma end_msg_effect:
  assumes "end_msg d s = Some s'"
  shows "trees s' = trees s \<and> msgs s' = msgs s \<and> task s' = Idle \<and> delegates s' \<subseteq>\<^sub>m delegates s"
  using assms by (auto simp: end_msg_def drop_ref_def free_obj_def trees_def fun_eq_iff map_le_def split: if_splits option.splits bind_splits)

lemma updateSoonest_effect:
  assumes "updateSoonestTime w k p d s = Some s'"
  shows "trees s' = (trees s)(w \<mapsto> mTree k) \<and> msgs s' = msgs s \<and> in_hands (task s') = (\<lambda>d c. False) \<and> delegates s' \<subseteq>\<^sub>m delegates s"
proof -
  have ended: ?thesis if "end_msg d (s\<lparr>containers := (containers s)(w \<mapsto> k')\<rparr>) = Some s'" "mTree k' = mTree k" for k'
    using end_msg_effect [OF that(1)] that(2) by (auto simp: fun_eq_iff trees_update)
  show ?thesis
  proof (cases "task s' = Idle")
    case True
    with assms ended [of k] ended [of "k\<lparr>polled := False, armed := None\<rparr>"] show ?thesis
      by (auto simp: updateSoonestTime_def Let_def split: if_splits bind_splits)
  next
    case False
    with assms end_msg_effect show ?thesis
      by (auto simp: updateSoonestTime_def Let_def trees_def fun_eq_iff map_le_def split: if_splits bind_splits)
  qed
qed

lemma heap_update: "trees s' = (trees s)(w \<mapsto> t) \<Longrightarrow> in_heap s' v d \<longleftrightarrow> (if v = w then d \<in># heap_mset t else in_heap s v d)"
  by (auto simp: in_heap_trees)

lemma push_tracked:
  assumes inv: "timers_inv s" and idle: "task s = Idle" and m: "msgs s = MsgTimerPush w d # ms" and t: "tracked s"
    and s': "proc_push w d (s\<lparr>msgs := ms\<rparr>) = Some s'"
  shows "tracked s'"
proof -
  obtain k where k: "containers s w = Some k" using invD(4) [OF inv] m by (auto simp: msgs_ok_def)
  have "home s w d" using invD(4) [OF inv] m by (simp add: msgs_ok_def)
  then obtain x where x: "delegates s d = Some x" by (auto simp: home_def)
  have d: "d \<in> valid (delegates s)" "d \<noteq> NULL" using delegatesD [OF invD(2) [OF inv] x] x by (auto simp: valid_def delegate_ok_def)
  let ?t = "LocHeap_push (timer_ranks (delegates s)) d (mTree k)"
  note push = timer_order.push_ok [OF heapsD(1) [OF invD(5) [OF inv] k] d]
  from s' k obtain p where "updateSoonestTime w (k\<lparr>mTree := ?t\<rparr>) p NULL (s\<lparr>msgs := ms\<rparr>) = Some s'"
    by (auto simp: proc_push_def live_container_def Let_def split: bind_splits option.splits if_splits)
  note e = updateSoonest_effect [OF this]
  show ?thesis
  proof (rule trackedI [OF t])
    fix e y v assume "delegates s' e = Some y" "mContainer y = Some v"
    then have "delegates s e = Some y" using submapD [of "delegates s'" "delegates s"] e by simp
    moreover have "tracks s v e (mClient y) \<longrightarrow> tracks s' v e (mClient y)"
      using e k m idle push(2) heap_update [of s' "s\<lparr>msgs := ms\<rparr>" w ?t v e] by (auto simp: tracks_def in_heap_def)
    ultimately show "tracks s' v e (mClient y) \<or> delegates s e = Some y \<and> (tracks s v e (mClient y) \<longrightarrow> tracks s' v e (mClient y))" by blast
  qed
qed

lemma remove_tracked:
  assumes inv: "timers_inv s" and idle: "task s = Idle" and m: "msgs s = MsgTimerRemove w d # ms" and t: "tracked s"
    and s': "proc_remove w d (s\<lparr>msgs := ms\<rparr>) = Some s'"
  shows "tracked s'"
proof -
  obtain k where k: "containers s w = Some k" using invD(4) [OF inv] m by (auto simp: msgs_ok_def)
  obtain x where x: "delegates s d = Some x" "mContainer x = None" using invD(3) [OF inv] m by (auto simp: leavers_ok_def leavers_def)
  have d: "d \<in> valid (delegates s)" "d \<noteq> NULL" using delegatesD [OF invD(2) [OF inv] x(1)] x by (auto simp: valid_def delegate_ok_def)
  obtain r t' where r: "LocHeap_remove (timer_ranks (delegates s)) d (mTree k) = (r, t')" by fastforce
  have rem: "heap_mset t' = heap_mset (mTree k) - {#d#}"
    using timer_order.remove_ok [OF heapsD(1) [OF invD(5) [OF inv] k] d r] by simp
  have "updateSoonestTime w (k\<lparr>mTree := t'\<rparr>) NULL d (s\<lparr>msgs := ms\<rparr>) = Some s'
      \<or> end_msg d (s\<lparr>msgs := ms, containers := (containers s)(w \<mapsto> k\<lparr>mTree := t'\<rparr>)\<rparr>) = Some s'"
    using s' k r by (auto simp: proc_remove_def live_container_def Let_def split: bind_splits option.splits if_splits)
  then have e: "trees s' = (trees s)(w \<mapsto> t')" "msgs s' = ms" "delegates s' \<subseteq>\<^sub>m delegates s"
    using updateSoonest_effect [of w "k\<lparr>mTree := t'\<rparr>" NULL d "s\<lparr>msgs := ms\<rparr>" s']
      end_msg_effect [of d "s\<lparr>msgs := ms, containers := (containers s)(w \<mapsto> k\<lparr>mTree := t'\<rparr>)\<rparr>" s']
    by (elim disjE; simp add: trees_update)+
  show ?thesis
  proof (rule trackedI [OF t])
    fix e y v assume y: "delegates s' e = Some y" "mContainer y = Some v"
    then have s: "delegates s e = Some y" using submapD [OF e(3)] by simp
    then have "e \<noteq> d" using x y by auto
    then have "tracks s v e (mClient y) \<longrightarrow> tracks s' v e (mClient y)"
      using e k m idle rem heap_update [OF e(1), of v e] unfolding tracks_def
      by (cases "v = w") (auto simp: in_heap_def [of s] in_diff_count)
    with s show "tracks s' v e (mClient y) \<or> delegates s e = Some y \<and> (tracks s v e (mClient y) \<longrightarrow> tracks s' v e (mClient y))" by blast
  qed
qed

lemma pop_tracked:
  assumes h: "heaps_ok s" and t: "tracked (s\<lparr>task := Idle\<rparr>)" and s': "expire_pop w now s = Some s'"
  shows "tracked s'"
proof -
  obtain k d t' where k: "containers s w = Some k" and pop: "LocHeap_pop (timer_ranks (delegates s)) (mTree k) = (d, t')"
      and s'': "s' = s\<lparr>containers := (containers s)(w \<mapsto> k\<lparr>mTree := t'\<rparr>), task := Expiring w now d\<rparr>"
    using s' by (auto simp: expire_pop_def live_container_def Let_def split: bind_splits option.splits if_splits prod.splits)
  have "heap_mset t' = heap_mset (mTree k) - {#d#}" using timer_order.pop_ok [OF heapsD(1) [OF h k] pop] by simp
  then have "tracks (s\<lparr>task := Idle\<rparr>) v e c \<longrightarrow> tracks s' v e c" for v e c
    using k by (cases "e = d"; cases "v = w") (auto simp: tracks_def in_heap_def s'' in_diff_count)
  with trackedI [OF t, of s'] s'' show ?thesis by auto
qed

lemma next_tracked:
  assumes h: "heaps_ok s" and t: "tracked (s\<lparr>task := Idle\<rparr>)" and s': "popIfOutRanks w now s = Some s'"
  shows "tracked s'"
proof (cases "expire_pop w now s = Some s'")
  case False
  with s' have "s' = s\<lparr>task := Expiring w now NULL\<rparr>"
    by (auto simp: popIfOutRanks_def split: bind_splits if_splits)
  with trackedI [OF t, of s'] show ?thesis by (auto simp: tracks_def in_heap_def)
qed (use pop_tracked h t in blast)

text \<open>Starting, stopping and deleting timers.\<close>

lemma stop_tracked:
  assumes inv: "timers_inv s" and t: "tracked s" and c: "timers s c = Some t'" and s': "LocTimer_stop c s = Some (r, s')"
  shows "tracked s' \<and> task s' = task s \<and> (\<forall>d x w. delegates s' d = Some x \<longrightarrow> mContainer x = Some w \<longrightarrow> mClient x \<noteq> c)"
proof (cases rule: stop_cases [OF inv c])
  case 1
  with s' have s: "s' = s" by simp
  have "mClient x \<noteq> c" if "delegates s d = Some x" "mContainer x = Some w" for d x w
    using delegatesD [OF invD(2) [OF inv] that(1)] that 1 c by (auto simp: delegate_ok_def)
  with s t show ?thesis by blast
next
  case (2 x w)
  with s' have s: "s' = stopped c t' x w s" by simp
  have "mClient y \<noteq> c" if "delegates s d = Some y" "mContainer y = Some v" "d \<noteq> mTimer t'" for d y v
    using delegatesD [OF invD(2) [OF inv] that(1)] that c by (auto simp: delegate_ok_def)
  moreover have "tracked s'" by (rule trackedI [OF t]) (auto simp: s stopped_def tracks_def in_heap_def split: if_splits)
  ultimately show ?thesis by (auto simp: s stopped_def)
qed

lemma delete_tracked:
  assumes "timers_inv s" "tracked s" "timers s c = Some t'" "delete_timer c s = Some s'"
  shows "tracked s' \<and> task s' = task s"
proof -
  obtain r s1 where s1: "LocTimer_stop c s = Some (r, s1)" using assms(4) by (auto simp: delete_timer_def split: bind_splits)
  then have "delegates s' = delegates s1 \<and> containers s' = containers s1 \<and> msgs s' = msgs s1 \<and> task s' = task s1"
    using assms(4) by (auto simp: delete_timer_def drop_ref_def split: bind_splits)
  with stop_tracked [OF assms(1-3) s1] show ?thesis using tracked_cong [of s1 s'] by (simp add: trees_def fun_eq_iff)
qed

lemma start_tracked:
  assumes t: "tracked s" and s': "LocTimer_start c ms w now fds d s = Some (r, s')"
  shows "tracked s'"
proof (cases "s' = s")
  case False
  with s' obtain k x where "get_container fds w s = Some k" "delegates s' = (delegates s)(d \<mapsto> x)" "mContainer x = Some w"
      "containers s' = (containers s)(w \<mapsto> k)" "msgs s' = msgs s @ [MsgTimerPush w d]" "task s' = task s"
    by (auto simp: LocTimer_start_def new_delegate_def share_def sendMsg_def Let_def split: bind_splits if_splits option.splits)
  then show ?thesis
    by (intro trackedI [OF t]) (auto simp: tracks_def in_heap_def get_container_def split: if_splits option.splits)
qed (use t in simp)

lemma callback_tracked:
  assumes inv: "timers_inv s" and t: "tracked s" and c: "timers s c = Some t'" and p: "task s = Calling w now c due"
    and s': "timeOutCallback c due now s = Some s'"
  shows "tracked s' \<and> task s' = task s"
proof -
  let ?s = "s\<lparr>seen := seen s @ [TimedOut c due now]\<rparr>"
  have "c \<noteq> NULL" using clientsD [OF invD(1) [OF inv] c] by (simp add: client_ok_def)
  moreover have "tracked ?s" using tracked_cong [OF t, of ?s] by (simp add: trees_def fun_eq_iff)
  moreover have "timers_inv ?s" using inv by (simp add: seen_inv)
  ultimately show ?thesis using delete_tracked [of ?s c t' s'] c s'
    by (auto simp: timeOutCallback_def wrapper_destroy_def split: if_splits)
qed

lemma tracked_idle: "tracked s \<Longrightarrow> (\<And>d x w. delegates s d = Some x \<Longrightarrow> mContainer x = Some w \<Longrightarrow> \<not> in_hands (task s) d (mClient x))
    \<Longrightarrow> tracked (s\<lparr>task := Idle\<rparr>)"
  by (auto simp: tracked_def tracks_def in_heap_def)

lemma idle_tracked:
  assumes inv: "timers_inv s" and t: "tracked s" and s': "task_step now s = Some s'" and Idle: "task s = Idle"
  shows "tracked s'"
proof (cases "msgs s")
  case (Cons m ms)
  have "tracked (s\<lparr>msgs := ms, task := Idle\<rparr>)" if "m = MsgTimerExpire w" for w
    using that Cons Idle by (intro trackedI [OF t]) (auto simp: tracks_def in_heap_def)
  moreover have "heaps_ok (s\<lparr>msgs := ms\<rparr>)" if "m = MsgTimerExpire w" for w
    using that Cons invD(5) [OF inv] by (simp add: heaps_ok_def home_def)
  ultimately show ?thesis using Cons Idle s' push_tracked [OF inv Idle _ t] remove_tracked [OF inv Idle _ t] pop_tracked [of "s\<lparr>msgs := ms\<rparr>"]
    by (cases m) (simp_all add: task_step_def take_msg_def)
qed (use Idle s' t in \<open>simp add: task_step_def take_msg_def\<close>)

lemma expiring_tracked:
  assumes inv: "timers_inv s" and t: "tracked s" and s': "task_step now s = Some s'" and Expiring: "task s = Expiring w n d"
  shows "tracked s'"
proof (cases "d = NULL")
  case True
  then obtain k where "containers s w = Some k" "updateSoonestTime w k NULL NULL s = Some s'"
    using s' Expiring by (auto simp: task_step_def live_container_def split: bind_splits option.splits if_splits)
  moreover have "(trees s)(w \<mapsto> mTree k) = trees s" if "containers s w = Some k" for k using that by (auto simp: trees_def fun_eq_iff)
  ultimately have e: "trees s' = trees s" "msgs s' = msgs s" "delegates s' \<subseteq>\<^sub>m delegates s"
    using updateSoonest_effect [of w k NULL NULL s s'] by auto
  show ?thesis
  proof (rule trackedI [OF t])
    fix a x v assume "delegates s' a = Some x"
    then have x: "delegates s a = Some x" using submapD [OF e(3)] by simp
    then have "a \<noteq> NULL" using delegatesD [OF invD(2) [OF inv]] by (simp add: delegate_ok_def)
    with e x Expiring True show "tracks s' v a (mClient x) \<or> delegates s a = Some x \<and> (tracks s v a (mClient x) \<longrightarrow> tracks s' v a (mClient x))"
      by (auto simp: tracks_def in_heap_trees)
  qed
next
  case False
  then obtain x where x: "delegates s d = Some x" using invD(6) [OF inv] Expiring by auto
  show ?thesis
  proof (cases "mClient x = NULL")
    case True
    have "mContainer x = None" using delegatesD [OF invD(2) [OF inv] x] clientsD [OF invD(1) [OF inv]] True
      by (auto simp: delegate_ok_def client_ok_def split: option.splits)
    then have "tracked (s\<lparr>task := Idle\<rparr>)" using Expiring x by (intro tracked_idle [OF t]) auto
    with True False x Expiring s' next_tracked [OF invD(5) [OF inv]] show ?thesis by (simp add: task_step_def)
  next
    case c: False
    with False x Expiring s' have "s' = s\<lparr>task := Stopping w n (mClient x)\<rparr>" by (simp add: task_step_def)
    then show ?thesis using x Expiring by (intro trackedI [OF t]) (auto simp: tracks_def in_heap_def)
  qed
qed

lemma stopping_tracked:
  assumes inv: "timers_inv s" and t: "tracked s" and s': "task_step now s = Some s'" and Stopping: "task s = Stopping w n c"
  shows "tracked s'"
proof -
  obtain t' where c: "timers s c = Some t'" using invD(6) [OF inv] Stopping by auto
  obtain r s1 where s1: "LocTimer_stop c s = Some (r, s1)" using s' Stopping by (auto simp: task_step_def split: bind_splits)
  note st = stop_tracked [OF inv t c s1]
  have "timers_inv s1" by (cases rule: stop_cases [OF inv c]) (use s1 inv stopped_inv [OF inv c] in auto)
  then have h: "heaps_ok s1" by (rule invD)
  have i: "tracked (s1\<lparr>task := Idle\<rparr>)" by (rule tracked_idle) (use st Stopping in auto)
  show ?thesis
  proof (cases r)
    case True
    with s1 s' Stopping obtain due where "s' = s1\<lparr>task := Calling w n c due\<rparr>" by (auto simp: task_step_def split: bind_splits)
    then show ?thesis using tracked_cong [OF i, of s'] by (simp add: trees_def fun_eq_iff)
  qed (use s1 s' Stopping next_tracked [OF h i] in \<open>auto simp: task_step_def split: bind_splits\<close>)
qed

lemma calling_tracked:
  assumes inv: "timers_inv s" and t: "tracked s" and s': "task_step now s = Some s'" and Calling: "task s = Calling w n c due"
  shows "tracked s'"
proof -
  obtain s1 where s1: "timeOutCallback c due n s = Some s1" "popIfOutRanks w n s1 = Some s'"
    using s' Calling by (auto simp: task_step_def split: bind_splits)
  obtain t' where c: "timers s c = Some t'" using invD(6) [OF inv] Calling by auto
  note cb = callback_tracked [OF inv t c Calling s1(1)]
  have "timers_inv (s1\<lparr>task := Expiring w n NULL\<rparr>)" using callback_inv [OF inv Calling] s1(1) by auto
  then have "heaps_ok s1" using invD(5) by (fastforce simp: heaps_ok_def home_def)
  moreover have "tracked (s1\<lparr>task := Idle\<rparr>)" by (rule tracked_idle) (use cb Calling in auto)
  ultimately show ?thesis using next_tracked s1(2) by blast
qed

lemma arming_tracked:
  assumes inv: "timers_inv s" and t: "tracked s" and s': "task_step now s = Some s'" and Arming: "task s = Arming w due d"
  shows "tracked s'"
proof -
  obtain k where k: "containers s w = Some k" "end_msg d (s\<lparr>containers := (containers s)(w \<mapsto> k\<lparr>armed := Some due\<rparr>)\<rparr>) = Some s'"
    using s' Arming by (auto simp: task_step_def split: option.splits)
  have "trees s' = trees s" using end_msg_effect [OF k(2)] k(1) by (auto simp: trees_def fun_eq_iff)
  then show ?thesis using end_msg_effect [OF k(2)] Arming submapD [of "delegates s'" "delegates s"] by (intro trackedI [OF t]) (auto simp: tracks_def in_heap_trees)
qed

lemmas task_tracked = idle_tracked expiring_tracked stopping_tracked calling_tracked arming_tracked

lemma poll_effect: "poll_step s = Some s' \<Longrightarrow> delegates s' = delegates s \<and> trees s' = trees s \<and> task s' = task s
    \<and> (\<forall>w d. MsgTimerPush w d \<in> set (msgs s') \<longleftrightarrow> MsgTimerPush w d \<in> set (msgs s))"
  by (auto simp: poll_step_def sendMsg_def trees_def fun_eq_iff split: list.splits poll_pc.splits option.splits)

lemma step_tracked:
  assumes inv: "timers_inv s" and e: "timer_enabled now e s" and t: "tracked s" and s': "timer_step e s = Some s'"
  shows "tracked s'"
proof (cases e)
  case (NewTimer c l)
  with s' tracked_cong [OF t, of s'] show ?thesis by (auto simp: new_timer_def trees_def fun_eq_iff)
next
  case (DeleteTimer c)
  with e s' delete_tracked [OF inv t, of c] show ?thesis by auto
next
  case (StartTimer c ms w n fds d)
  then obtain r s1 where "LocTimer_start c ms w n fds d s = Some (r, s1)" "s' = s1\<lparr>seen := seen s1 @ [Started c r]\<rparr>"
    using s' by auto
  with start_tracked [OF t this(1)] tracked_cong [of s1 s'] show ?thesis by (simp add: trees_def fun_eq_iff)
next
  case (StopTimer c)
  then obtain r s1 where "LocTimer_stop c s = Some (r, s1)" "s' = s1\<lparr>seen := seen s1 @ [Stopped c r]\<rparr>" using s' by auto
  with StopTimer e stop_tracked [OF inv t _ this(1)] tracked_cong [of s1 s'] show ?thesis by (auto simp: trees_def fun_eq_iff)
next
  case (CStart ms cb w c l n fds d)
  have new: "tracked (new_timer c l cb s)" using tracked_cong [OF t] by (simp add: new_timer_def trees_def fun_eq_iff)
  show ?thesis
  proof (cases "cb = NULL")
    case False
    then obtain r s1 where "LocTimer_start c (ucast ms) w n fds d (new_timer c l cb s) = Some (r, s1)"
        "s' = s1\<lparr>seen := seen s1 @ [Started c r]\<rparr>"
      using CStart s' by (auto simp: loc_timer_start_def split: bind_splits)
    with start_tracked [OF new this(1)] tracked_cong [of s1 s'] show ?thesis by (simp add: trees_def fun_eq_iff)
  qed (use CStart s' t in \<open>simp add: loc_timer_start_def\<close>)
next
  case (CStop c)
  with e s' t delete_tracked [OF inv t, of c] show ?thesis
    by (auto simp: loc_timer_stop_def wrapper_destroy_def split: if_splits bind_splits)
next
  case (TaskRun n)
  with s' task_tracked [OF inv t, of n s'] show ?thesis by (cases "task s") simp_all
next
  case (PollWake ws)
  with s' tracked_cong [OF t, of s'] show ?thesis by (auto simp: trees_def fun_eq_iff)
next
  case PollRun
  with s' poll_effect [of s s'] show ?thesis by (intro trackedI [OF t]) (auto simp: tracks_def in_heap_trees)
qed

section \<open>Reachable states\<close>

inductive timer_reach :: "timer_state \<Rightarrow> bool" where
  start: "timer_reach initial"
| step: "timer_reach s \<Longrightarrow> clock_ok now \<Longrightarrow> timer_enabled now e s \<Longrightarrow> careful e s \<Longrightarrow> timer_step e s = Some s' \<Longrightarrow> timer_reach s'"

lemma timer_reach_inv: "timer_reach s \<Longrightarrow> timers_inv s \<and> account_ok s \<and> tracked s"
proof (induction rule: timer_reach.induct)
  case start
  show ?case using initial_inv by (simp add: account_ok_def starts_def ends_def running_def initial_def tracked_def)
next
  case (step s now e s')
  then show ?case using step_good [of s now e] step_tracked [of s now e s'] by (auto simp: good_step_def)
qed

text \<open>Runs from a list of calls, each at its time.\<close>

fun timer_run :: "(timespec \<times> timer_call) list \<Rightarrow> timer_state \<Rightarrow> timer_state option" where
  "timer_run [] s = Some s"
| "timer_run ((now, e) # es) s = (if clock_ok now \<and> timer_enabled now e s \<and> careful e s
     then do { s \<leftarrow> timer_step e s; timer_run es s } else None)"

lemma run_reach: "timer_reach s \<Longrightarrow> timer_run es s = Some s' \<Longrightarrow> timer_reach s'"
proof (induction es s rule: timer_run.induct)
  case (2 now e es s)
  from 2(3) obtain s1 where "clock_ok now \<and> timer_enabled now e s \<and> careful e s" "timer_step e s = Some s1" "timer_run es s1 = Some s'"
    by (auto split: if_splits bind_splits)
  with 2(1,2) timer_reach.step [of s now e s1] show ?case by auto
qed simp

lemma quiet_delegate:
  assumes inv: "timers_inv s" and q: "task s = Idle" "msgs s = []" and d: "delegates s d = Some x"
  obtains w t where "mContainer x = Some w" "timers s (mClient x) = Some t" "mTimer t = d" "mShared x = mLock t" "d \<noteq> NULL"
proof -
  have x: "delegate_ok s d x" using delegatesD [OF invD(2) [OF inv] d] .
  then obtain w t where w: "mContainer x = Some w" "timers s (mClient x) = Some t" "mTimer t = d" "d \<noteq> NULL"
    using q by (auto simp: delegate_ok_def leavers_def split: option.splits)
  then have "mShared x = mLock t" using clientsD [OF invD(1) [OF inv] w(2)] d by (auto simp: client_ok_def)
  with w that show thesis by blast
qed

lemma quiet_armed:
  assumes inv: "timers_inv s" and q: "task s = Idle" "msgs s = []" "poll s = []" and k: "containers s w = Some k" "mTree k \<noteq> None"
  shows "polled k" "armed k = Some (first_due s k)"
  using armedD [OF invD(9) [OF inv] k] q by (auto simp: expiry_due_def)

text \<open>The run in which a kernel timer runs out: the polling thread sends the expiry, the message task takes the first timer out of
  the heap, stops it and calls its client.\<close>

definition ring :: "timespec \<Rightarrow> bool \<Rightarrow> (timespec \<times> timer_call) list" where
  "ring now w = map (Pair now) ([PollWake [w], PollRun, PollRun, PollRun] @ replicate 4 (TaskRun now))"

lemma run_append: "timer_run (es @ fs) s = do { s \<leftarrow> timer_run es s; timer_run fs s }"
  by (induction es s rule: timer_run.induct) (auto split: bind_splits)

lemma ring_poll:
  assumes "clock_ok now" "poll s = []" "ready now s w" "containers s w = Some k"
  shows "timer_run (map (Pair now) [PollWake [w], PollRun, PollRun, PollRun]) s
    = Some (s\<lparr>containers := (containers s)(w \<mapsto> k\<lparr>armed := None, polled := False\<rparr>), poll := [], msgs := msgs s @ [MsgTimerExpire w]\<rparr>)"
  using assms by (simp add: poll_step_def sendMsg_def)

lemma ring_pop:
  assumes "task s = Idle" "msgs s = [MsgTimerExpire w]" "containers s w = Some k" "set_mset (heap_mset (mTree k)) \<subseteq> dom (delegates s)"
    "LocHeap_pop (timer_ranks (delegates s)) (mTree k) = (d, t)"
  shows "task_step now s = Some (s\<lparr>msgs := [], containers := (containers s)(w \<mapsto> k\<lparr>mTree := t\<rparr>), task := Expiring w now d\<rparr>)"
  using assms by (simp add: task_step_def take_msg_def expire_pop_def live_container_eq)

lemma ring_call:
  assumes inv: "timers_inv s" and now: "clock_ok now" and p: "task s = Expiring w now d"
    and d: "delegates s d = Some x" "timers s (mClient x) = Some t" "mTimer t = d" "d \<noteq> NULL"
  shows "\<exists>s'. timer_run (replicate 3 (now, TaskRun now)) s = Some s' \<and> TimedOut (mClient x) (mFutureTime x) now \<in> set (seen s')"
proof -
  have c: "mClient x \<noteq> NULL" using clientsD [OF invD(1) [OF inv] d(2)] by (simp add: client_ok_def)
  let ?s1 = "s\<lparr>task := Stopping w now (mClient x)\<rparr>"
  have s1: "task_step now s = Some ?s1" using p d c by (simp add: task_step_def)
  then have inv1: "timers_inv ?s1" using task_good [OF inv now] by (simp add: good_step_def)
  obtain s2 where s2: "task_step now ?s1 = Some s2" "timers_inv s2" "task s2 = Calling w now (mClient x) (mFutureTime x)"
  proof -
    obtain y v where "LocTimer_stop (mClient x) ?s1 = Some (True, stopped (mClient x) t y v ?s1)"
      by (rule stop_cases [OF inv1, of "mClient x" t]) (use d in auto)
    then have "\<exists>s2. task_step now ?s1 = Some s2 \<and> task s2 = Calling w now (mClient x) (mFutureTime x)"
      using c d by (simp add: task_step_def)
    with that task_good [OF inv1 now] show thesis by (auto simp: good_step_def)
  qed
  obtain s3 where s3: "task_step now s2 = Some s3" using task_good [OF s2(2) now] by (auto simp: good_step_def)
  have "TimedOut (mClient x) (mFutureTime x) now \<in> set (seen s3)"
  proof -
    obtain s' where s': "timeOutCallback (mClient x) (mFutureTime x) now s2 = Some s'"
        "timers_inv (s'\<lparr>task := Expiring w now NULL\<rparr>)" "TimedOut (mClient x) (mFutureTime x) now \<in> set (seen s')"
      using callback_inv [OF s2(2,3)] by (auto split: if_splits)
    have "popIfOutRanks w now s' = Some s3" using s3 s2(3) s'(1) by (simp add: task_step_def)
    with next_timer [OF s'(2), of w now NULL NULL now] s'(3) show ?thesis by auto
  qed
  with s1 s2 s3 now show ?thesis by (simp add: numeral_3_eq_3)
qed

lemma first_is_earliest:
  assumes inv: "timers_inv s" and k: "containers s w = Some k" and d: "d \<in># heap_mset (mTree k)" "delegates s d = Some x"
  shows "not_after (first_due s k) (mFutureTime x)"
proof -
  note h = heapsD(1) [OF invD(5) [OF inv] k]
  have tree: "mTree k \<noteq> None" using d(1) by (cases "mTree k") auto
  let ?p = "LocHeap_peek (mTree k)"
  have "\<not> outRanks (timer_ranks (delegates s)) d ?p" using timer_order.peek_is_highest [OF h] d(1) tree by (auto simp: highest_def)
  moreover have "?p \<in> valid (delegates s)" "d \<in> valid (delegates s)" using timer_order.peek_in [OF tree] d(1) h by (auto simp: heap_ok_def)
  ultimately show ?thesis using d(2) time_ranks_pos by (auto simp: outRanks_def timer_ranks_def first_due_def valid_def)
qed

section \<open>Properties\<close>

text \<open>C15. In every state that the clients, the message task and the polling thread can reach in any interleaving, in which no
  client deletes a timer while an expiry holds on to it, every further call and every further step of the threads returns: no thread
  uses an object that was deleted, no object is deleted twice, and no lock is gone before its last user.\<close>

theorem loc_timer_safe:
  assumes "timer_reach s" "clock_ok now" "timer_enabled now e s" "careful e s"
  shows "\<exists>s'. timer_step e s = Some s'"
  using timer_reach_inv [OF assms(1)] step_good [OF _ assms(2-4)] by (auto simp: good_step_def)

text \<open>When the message task has no message left, the delegates that exist are those of the running timers and the locks that
  exist are those of the timers: nothing leaks.\<close>

theorem loc_timer_no_leak:
  assumes "timer_reach s" "task s = Idle" "msgs s = []"
  shows "dom (delegates s) = {mTimer t | t. t \<in> ran (timers s) \<and> mTimer t \<noteq> NULL} \<and> dom (locks s) = mLock ` ran (timers s)"
proof
  have inv: "timers_inv s" using timer_reach_inv [OF assms(1)] by simp
  have run: "\<exists>x. delegates s (mTimer t) = Some x" if "timers s c = Some t" "mTimer t \<noteq> NULL" for c t
    using clientsD [OF invD(1) [OF inv] that(1)] that(2) by (auto simp: client_ok_def)
  have del: "\<exists>t \<in> ran (timers s). mTimer t = d \<and> d \<noteq> NULL \<and> mShared x = mLock t" if "delegates s d = Some x" for d x
    by (rule quiet_delegate [OF inv assms(2,3) that]) (auto intro: ranI)
  show "dom (delegates s) = {mTimer t | t. t \<in> ran (timers s) \<and> mTimer t \<noteq> NULL}"
    using run del by (fastforce simp: ran_def)
  have "l \<in> dom (locks s)" if "timers s c = Some t" "mLock t = l" for c t l using lock_exists [OF invD(8) [OF inv] that(1)] that(2) by auto
  moreover have "l \<in> mLock ` ran (timers s)" if "locks s l = Some n" for l n
  proof -
    have "users (timers s) mLock l \<noteq> 0 \<or> users (delegates s) mShared l \<noteq> 0"
      using invD(8) [OF inv] that by (auto simp: locks_ok_def Let_def split: if_splits)
    then have "(\<exists>c t. timers s c = Some t \<and> mLock t = l) \<or> (\<exists>d x. delegates s d = Some x \<and> mShared x = l)"
      unfolding users_def card_eq_0_iff by blast
    then show ?thesis using del by (force intro: ranI)
  qed
  ultimately show "dom (locks s) = mLock ` ran (timers s)" by (auto simp: ran_def)
qed

text \<open>C18. Nothing is lost and nothing leaks: every successful start of a timer is answered at most once, by a successful stop or by a call
  of its client (the starts a client has seen are the ends it has seen, one more while the timer runs, and one more while the call is on its
  way), and when the message task has no message left, the delegates that exist are those of the running timers and the locks those of the timers.\<close>

theorem loc_timer_account:
  assumes "timer_reach s"
  shows "starts c (seen s) = ends c (seen s) + running s c + calling (task s) c
    \<and> (task s = Idle \<and> msgs s = [] \<longrightarrow> dom (delegates s) = {mTimer t | t. t \<in> ran (timers s) \<and> mTimer t \<noteq> NULL}
         \<and> dom (locks s) = mLock ` ran (timers s))"
  using timer_reach_inv [OF assms] loc_timer_no_leak [OF assms] by (simp add: account_ok_def)

text \<open>C16. No timer is lost: when the threads have nothing to do, every running timer is in the heap of a container whose kernel timer is
  polled and set to a time not after the one the timer is due.\<close>

theorem loc_timer_armed:
  assumes "timer_reach s" "task s = Idle" "msgs s = []" "poll s = []" "timers s c = Some t" "mTimer t \<noteq> NULL"
  shows "\<exists>w k x at. delegates s (mTimer t) = Some x \<and> mClient x = c \<and> containers s w = Some k \<and> mTimer t \<in># heap_mset (mTree k)
    \<and> polled k \<and> armed k = Some at \<and> not_after at (mFutureTime x)"
proof -
  have inv: "timers_inv s" and tr: "tracked s" using timer_reach_inv [OF assms(1)] by simp_all
  obtain x w where x: "delegates s (mTimer t) = Some x" "mClient x = c" "mContainer x = Some w"
    using clientsD [OF invD(1) [OF inv] assms(5)] assms(6) by (auto simp: client_ok_def)
  obtain k where k: "containers s w = Some k" "mTimer t \<in># heap_mset (mTree k)"
    using trackedD [OF tr x(1,3)] assms(2,3) by (auto simp: tracks_def in_heap_def)
  have "mTree k \<noteq> None" using k(2) by (cases "mTree k") auto
  from quiet_armed [OF inv assms(2-4) k(1) this] first_is_earliest [OF inv k x(1)] x k show ?thesis by blast
qed

text \<open>C17. When the threads have nothing to do and the time of the first timer of a container has come, the polling thread can wake up,
  and the run in which it and the message task go on, in eight steps, calls the client of that timer with the time it was due.\<close>

theorem loc_timer_rings:
  assumes "timer_reach s" "task s = Idle" "msgs s = []" "poll s = []" "containers s w = Some k" "mTree k \<noteq> None"
    "clock_ok now" "not_after (first_due s k) now"
  shows "\<exists>c t s'. timers s c = Some t \<and> mTimer t = LocHeap_peek (mTree k) \<and> timer_run (ring now w) s = Some s'
    \<and> TimedOut c (first_due s k) now \<in> set (seen s')"
proof -
  have inv: "timers_inv s" using timer_reach_inv [OF assms(1)] by simp
  note arm = quiet_armed [OF inv assms(2-6)] and h = heapsD(1) [OF invD(5) [OF inv] assms(5)]
  let ?d = "LocHeap_peek (mTree k)" and ?k = "k\<lparr>armed := None, polled := False\<rparr>"
  obtain x where x: "delegates s ?d = Some x" using timer_order.peek_in [OF assms(6)] heap_in_dom [OF h] by auto
  obtain t where t: "timers s (mClient x) = Some t" "mTimer t = ?d" "?d \<noteq> NULL" by (rule quiet_delegate [OF inv assms(2,3) x]) auto
  obtain t' where pop: "LocHeap_pop (timer_ranks (delegates s)) (mTree k) = (?d, t')"
    using timer_order.pop_ok [OF h] by (cases "LocHeap_pop (timer_ranks (delegates s)) (mTree k)") auto
  have "ready now s w" using assms(5,8) arm by (simp add: ready_def)
  note p = ring_poll [OF assms(7,4) this assms(5)]
  let ?s1 = "s\<lparr>containers := (containers s)(w \<mapsto> ?k), poll := [], msgs := msgs s @ [MsgTimerExpire w]\<rparr>"
  let ?s2 = "?s1\<lparr>msgs := [], containers := (containers ?s1)(w \<mapsto> ?k\<lparr>mTree := t'\<rparr>), task := Expiring w now ?d\<rparr>"
  have s2: "task_step now ?s1 = Some ?s2"
    by (rule ring_pop) (use assms(2,3) heap_in_dom [OF h] pop in simp_all)
  have inv1: "timers_inv ?s1" using timer_reach_inv run_reach [OF assms(1) p] by blast
  have "timers_inv ?s2" using task_good [OF inv1 assms(7)] s2 by (simp add: good_step_def)
  then obtain s' where "timer_run (replicate 3 (now, TaskRun now)) ?s2 = Some s'" "TimedOut (mClient x) (mFutureTime x) now \<in> set (seen s')"
    using ring_call [OF _ assms(7), of ?s2 w ?d x t] x t by auto
  moreover have "ring now w = map (Pair now) [PollWake [w], PollRun, PollRun, PollRun] @ (now, TaskRun now) # replicate 3 (now, TaskRun now)"
    by (simp add: ring_def numeral_3_eq_3 eval_nat_numeral)
  ultimately have "timer_run (ring now w) s = Some s'" using p s2 assms(7) by (simp add: run_append del: list.map)
  moreover have "first_due s k = mFutureTime x" using x by (simp add: first_due_def)
  ultimately show ?thesis using t \<open>TimedOut _ _ _ \<in> _\<close> by auto
qed

section \<open>Concrete runs\<close>

abbreviation at_sec :: "int \<Rightarrow> timespec" where
  "at_sec n \<equiv> \<lparr>tv_sec = n, tv_nsec = 0\<rparr>"

text \<open>A timer of five seconds is started at time 100, and the message task adds it to the heap and sets the kernel timer.\<close>

definition one_timer :: "timer_state option" where
  "one_timer = timer_run (map (Pair (at_sec 100)) [NewTimer 1 2, StartTimer 1 5000 False (at_sec 100) (Fd, Fd) 3,
     TaskRun (at_sec 100), TaskRun (at_sec 100)]) initial"

definition one_state :: timer_state where
  "one_state = the one_timer"

lemma one_timer_runs: "one_timer \<noteq> None"
  by code_simp

lemma one_state_reach: "timer_reach one_state"
  using run_reach [OF timer_reach.start] one_timer_runs unfolding one_state_def one_timer_def by fastforce

lemma one_state_quiet: "task one_state = Idle" "msgs one_state = []" "poll one_state = []"
  by code_simp+

lemma one_state_timer: "timers one_state 1 = Some \<lparr>mTimer = 3, mLock = 2, mCb = 0\<rparr>"
  by code_simp

lemma one_state_container: "containers one_state False = Some \<lparr>mTree = Some (new_node 3), armed = Some (at_sec 105), polled = True\<rparr>"
  by code_simp

lemma one_state_due: "first_due one_state \<lparr>mTree = Some (new_node 3), armed = Some (at_sec 105), polled = True\<rparr> = at_sec 105"
  by code_simp

text \<open>Two timers, due at 105 and 160.  The first one is stopped at 105, after the polling thread has seen the kernel timer run out and
  before it sends the expiry.\<close>

definition stop_race :: "timer_state option" where
  "stop_race = timer_run (map (Pair (at_sec 100)) [NewTimer 1 2, StartTimer 1 5000 False (at_sec 100) (Fd, Fd) 3, NewTimer 4 5,
     StartTimer 4 60000 False (at_sec 100) (Fd, Fd) 6, TaskRun (at_sec 100), TaskRun (at_sec 100), TaskRun (at_sec 100)]
     @ map (Pair (at_sec 105)) ([PollWake [False], PollRun, PollRun, StopTimer 1, PollRun] @ replicate 6 (TaskRun (at_sec 105)))) initial"

text \<open>A timer is stopped and started again, for a minute, after the expiry has read the client of its delegate.\<close>

definition restart_race :: "timer_state option" where
  "restart_race = timer_run (map (Pair (at_sec 105)) [PollWake [False], PollRun, PollRun, PollRun, TaskRun (at_sec 105), TaskRun (at_sec 105),
     StopTimer 1, StartTimer 1 60000 False (at_sec 105) (Fd, Fd) 6, TaskRun (at_sec 105), TaskRun (at_sec 105)]) one_state"

text \<open>An expiry of the timer has read the client of its delegate.\<close>

definition expiring :: "timer_state option" where
  "expiring = timer_run (map (Pair (at_sec 105)) [PollWake [False], PollRun, PollRun, PollRun, TaskRun (at_sec 105), TaskRun (at_sec 105)]) one_state"

lemma races_reach: "stop_race = Some s \<Longrightarrow> timer_reach s" "restart_race = Some s \<Longrightarrow> timer_reach s" "expiring = Some s \<Longrightarrow> timer_reach s"
  using run_reach [OF timer_reach.start] run_reach [OF one_state_reach] unfolding stop_race_def restart_race_def expiring_def by blast+

lemma stop_race_seen: "(case stop_race of None \<Rightarrow> False | Some s \<Rightarrow> TimedOut 4 (at_sec 160) (at_sec 105) \<in> set (seen s))"
  by code_simp

lemma restart_race_seen: "(case restart_race of None \<Rightarrow> False | Some s \<Rightarrow> TimedOut 1 (at_sec 165) (at_sec 105) \<in> set (seen s))"
  by code_simp

lemma expiring_delete: "(case expiring of None \<Rightarrow> False | Some s \<Rightarrow> timer_enabled (at_sec 105) (DeleteTimer 1) s \<and>
    (case timer_step (DeleteTimer 1) s of None \<Rightarrow> False | Some s' \<Rightarrow> Option.is_none (timer_step (TaskRun (at_sec 105)) s')))"
  by code_simp

text \<open>Clients are called before their timers are due: an expiry calls the client of the first timer of the heap without a look at its time,
  so that after a stop at the wrong moment a timer that is due at 160 is called at 105; and a timer that is stopped and started
  again while an expiry holds on to it is called at once, 60 seconds early.\<close>

theorem loc_timer_early:
  "(\<exists>s. timer_reach s \<and> TimedOut 4 (at_sec 160) (at_sec 105) \<in> set (seen s))
   \<and> (\<exists>s. timer_reach s \<and> TimedOut 1 (at_sec 165) (at_sec 105) \<in> set (seen s))"
proof
  show "\<exists>s. timer_reach s \<and> TimedOut 4 (at_sec 160) (at_sec 105) \<in> set (seen s)"
  proof (cases stop_race)
    case (Some s)
    then have "timer_reach s" by (rule races_reach)
    moreover have "TimedOut 4 (at_sec 160) (at_sec 105) \<in> set (seen s)" using stop_race_seen unfolding Some by simp
    ultimately show ?thesis by blast
  qed (use stop_race_seen in simp)
  show "\<exists>s. timer_reach s \<and> TimedOut 1 (at_sec 165) (at_sec 105) \<in> set (seen s)"
  proof (cases restart_race)
    case (Some s)
    then have "timer_reach s" by (rule races_reach)
    moreover have "TimedOut 1 (at_sec 165) (at_sec 105) \<in> set (seen s)" using restart_race_seen unfolding Some by simp
    ultimately show ?thesis by blast
  qed (use restart_race_seen in simp)
qed

text \<open>A client may delete its timer, as \<^verbatim>\<open>loc_timer_stop\<close> and the destructor allow at any time, after an expiry has read the client from the delegate
  and before it stops it; the message task then uses the deleted timer.\<close>

theorem loc_timer_use_after_free:
  "\<exists>s s'. timer_reach s \<and> timer_enabled (at_sec 105) (DeleteTimer 1) s \<and> timer_step (DeleteTimer 1) s = Some s'
    \<and> timer_step (TaskRun (at_sec 105)) s' = None"
  using expiring_delete races_reach(3) by (cases expiring) (auto simp: Option.is_none_def split: option.splits)

theorem loc_timer_safe_witness: "\<exists>s'. timer_step (DeleteTimer 1) one_state = Some s'"
proof (rule loc_timer_safe [OF one_state_reach])
  show "clock_ok (at_sec 101)" "timer_enabled (at_sec 101) (DeleteTimer 1) one_state" "careful (DeleteTimer 1) one_state" by code_simp+
qed

theorem loc_timer_no_leak_witness: "dom (delegates one_state) = {mTimer t | t. t \<in> ran (timers one_state) \<and> mTimer t \<noteq> NULL}"
  using loc_timer_no_leak [OF one_state_reach one_state_quiet(1,2)] by simp

theorem loc_timer_account_witness:
  "starts 1 (seen one_state) = ends 1 (seen one_state) + running one_state 1 + calling (task one_state) 1
     \<and> dom (locks one_state) = mLock ` ran (timers one_state) \<and> starts 1 (seen one_state) = 1"
proof (intro conjI)
  show "starts 1 (seen one_state) = ends 1 (seen one_state) + running one_state 1 + calling (task one_state) 1"
    "dom (locks one_state) = mLock ` ran (timers one_state)"
    using loc_timer_account [OF one_state_reach, of 1] one_state_quiet by simp_all
  show "starts 1 (seen one_state) = 1" by code_simp
qed

theorem loc_timer_armed_witness:
  "\<exists>w k x at. delegates one_state 3 = Some x \<and> mClient x = 1 \<and> containers one_state w = Some k \<and> 3 \<in># heap_mset (mTree k)
    \<and> polled k \<and> armed k = Some at \<and> not_after at (mFutureTime x)"
  using loc_timer_armed [OF one_state_reach one_state_quiet one_state_timer] by simp

theorem loc_timer_rings_witness:
  "\<exists>c t s'. timers one_state c = Some t \<and> mTimer t = 3 \<and> timer_run (ring (at_sec 105) False) one_state = Some s'
    \<and> TimedOut c (at_sec 105) (at_sec 105) \<in> set (seen s')"
  using loc_timer_rings [OF one_state_reach one_state_quiet one_state_container, of "at_sec 105"]
  unfolding one_state_due by (simp add: clock_ok_def not_after_def LocHeap_peek_def new_node_def)

end
