(* ===== verification/PbApiTypes.thy ===== *)
theory PbApiTypes
  imports Prelude PbSteps PbConv PbHalTypes PbWireTypes
begin

text \<open>
  The messages between the location daemon and its clients: the classes of \<^verbatim>\<open>LocationApiMsg.h\<close> as extensions of the record
  \<^verbatim>\<open>LocAPIMsgHeader\<close>, a class without members as another name of it, and the protobuf messages they travel in.
  \<^verbatim>\<open>new_...\<close> is the constructor of a class from its members.  The fields carry the name of their class.
\<close>

section \<open>The header\<close>

text \<open>A socket name is the text up to the null character of its array.\<close>

record LocAPIMsgHeader =
  mSocketName :: string
  msgId :: int
  msgVersion :: "32 word"
  pLocApiPbMsgConv :: addr

abbreviation (input) LOCATION_REMOTE_API_MSG_VERSION :: "'a::numeral" where "LOCATION_REMOTE_API_MSG_VERSION \<equiv> 1"
abbreviation (input) MAX_SOCKET_PATHNAME_LENGTH :: nat where "MAX_SOCKET_PATHNAME_LENGTH \<equiv> 128"
abbreviation (input) LOCATION_REMOTE_API_PINGTEST_SIZE :: "'a::numeral" where "LOCATION_REMOTE_API_PINGTEST_SIZE \<equiv> 4"

definition SERVICE_NAME :: string where
  "SERVICE_NAME = ''locapiservice''"

definition SOCKET_LOC_CLIENT_DIR :: string where
  "SOCKET_LOC_CLIENT_DIR = ''/dev/socket/loc_client/''"

definition EAP_LOC_CLIENT_DIR :: string where
  "EAP_LOC_CLIENT_DIR = ''/data/vendor/location/extap_locclient/''"

text \<open>The text of a C string, and what \<^verbatim>\<open>strlcpy\<close> copies of it into an array of a given size.\<close>

definition c_str :: "string \<Rightarrow> string" where
  "c_str s = takeWhile (\<lambda>c. c \<noteq> CHR 0x00) s"

definition strlcpy :: "nat \<Rightarrow> string \<Rightarrow> string" where
  "strlcpy n s = take (n - 1) (c_str s)"

text \<open>Whether \<^verbatim>\<open>strncmp\<close> of two C strings up to a number of characters is zero.\<close>

definition same_prefix :: "nat \<Rightarrow> string \<Rightarrow> string \<Rightarrow> bool" where
  "same_prefix n a b \<longleftrightarrow> take n (c_str a) = take n (c_str b)"

definition init_header :: "string \<Rightarrow> int \<Rightarrow> addr \<Rightarrow> 'a LocAPIMsgHeader_scheme \<Rightarrow> 'a LocAPIMsgHeader_scheme" where
  "init_header name i locApiPbConv m = m\<lparr>mSocketName := strlcpy MAX_SOCKET_PATHNAME_LENGTH name, msgId := i,
     msgVersion := LOCATION_REMOTE_API_MSG_VERSION, pLocApiPbMsgConv := locApiPbConv\<rparr>"

definition new_LocAPIMsgHeader :: "string \<Rightarrow> int \<Rightarrow> addr \<Rightarrow> LocAPIMsgHeader" where
  "new_LocAPIMsgHeader name i locApiPbConv = \<lparr>mSocketName = strlcpy MAX_SOCKET_PATHNAME_LENGTH name, msgId = i,
     msgVersion = LOCATION_REMOTE_API_MSG_VERSION, pLocApiPbMsgConv = locApiPbConv\<rparr>"

definition isValidMsg :: "'a LocAPIMsgHeader_scheme \<Rightarrow> bool" where
  "isValidMsg m \<longleftrightarrow> msgVersion m = LOCATION_REMOTE_API_MSG_VERSION"

definition isValidClientMsg :: "'a LocAPIMsgHeader_scheme \<Rightarrow> bool" where
  "isValidClientMsg m \<longleftrightarrow> isValidMsg m
     \<and> (same_prefix (length SOCKET_LOC_CLIENT_DIR) (mSocketName m) SOCKET_LOC_CLIENT_DIR
        \<or> same_prefix (length EAP_LOC_CLIENT_DIR) (mSocketName m) EAP_LOC_CLIENT_DIR)"

definition isValidServerMsg :: "'a LocAPIMsgHeader_scheme \<Rightarrow> bool" where
  "isValidServerMsg m \<longleftrightarrow> isValidMsg m \<and> same_prefix (length SERVICE_NAME + 1) (mSocketName m) SERVICE_NAME"

section \<open>The protobuf messages\<close>

record PBLocAPIMsgHeader =
  PBLocAPIMsgHeader_mSocketName :: "string"
  PBLocAPIMsgHeader_msgId :: "int"
  PBLocAPIMsgHeader_msgVersion :: "32 word"
  PBLocAPIMsgHeader_payload :: "string"
  PBLocAPIMsgHeader_payloadSize :: "32 word"

definition PBLocAPIMsgHeader_default :: PBLocAPIMsgHeader where
  "PBLocAPIMsgHeader_default = \<lparr>PBLocAPIMsgHeader_mSocketName = [],
     PBLocAPIMsgHeader_msgId = 0,
     PBLocAPIMsgHeader_msgVersion = 0,
     PBLocAPIMsgHeader_payload = [],
     PBLocAPIMsgHeader_payloadSize = 0\<rparr>"

record PBLocAPIClientRegisterReqMsg =
  PBLocAPIClientRegisterReqMsg_mClientType :: "int"

definition PBLocAPIClientRegisterReqMsg_default :: PBLocAPIClientRegisterReqMsg where
  "PBLocAPIClientRegisterReqMsg_default = \<lparr>PBLocAPIClientRegisterReqMsg_mClientType = 0\<rparr>"

record PBLocAPICapabilitiesIndMsg =
  PBLocAPICapabilitiesIndMsg_capabilitiesMask :: "64 word"

definition PBLocAPICapabilitiesIndMsg_default :: PBLocAPICapabilitiesIndMsg where
  "PBLocAPICapabilitiesIndMsg_default = \<lparr>PBLocAPICapabilitiesIndMsg_capabilitiesMask = 0\<rparr>"

record PBLocAPIGenericRespMsg =
  PBLocAPIGenericRespMsg_err :: "int"

definition PBLocAPIGenericRespMsg_default :: PBLocAPIGenericRespMsg where
  "PBLocAPIGenericRespMsg_default = \<lparr>PBLocAPIGenericRespMsg_err = 0\<rparr>"

record PBLocAPICollectiveRespMsg =
  PBLocAPICollectiveRespMsg_collectiveRes :: "PBCollectiveResPayload"

definition PBLocAPICollectiveRespMsg_default :: PBLocAPICollectiveRespMsg where
  "PBLocAPICollectiveRespMsg_default = \<lparr>PBLocAPICollectiveRespMsg_collectiveRes =
      PBCollectiveResPayload_default\<rparr>"

record PBLocAPIStartTrackingReqMsg =
  PBLocAPIStartTrackingReqMsg_locOptions :: "PBLocationOptions"

definition PBLocAPIStartTrackingReqMsg_default :: PBLocAPIStartTrackingReqMsg where
  "PBLocAPIStartTrackingReqMsg_default = \<lparr>PBLocAPIStartTrackingReqMsg_locOptions =
      PBLocationOptions_default\<rparr>"

record PBLocAPIUpdateCallbacksReqMsg =
  PBLocAPIUpdateCallbacksReqMsg_locationCallbacks :: "32 word"

definition PBLocAPIUpdateCallbacksReqMsg_default :: PBLocAPIUpdateCallbacksReqMsg where
  "PBLocAPIUpdateCallbacksReqMsg_default = \<lparr>PBLocAPIUpdateCallbacksReqMsg_locationCallbacks =
      0\<rparr>"

record PBLocAPIUpdateTrackingOptionsReqMsg =
  PBLocAPIUpdateTrackingOptionsReqMsg_locOptions :: "PBLocationOptions"

definition PBLocAPIUpdateTrackingOptionsReqMsg_default :: PBLocAPIUpdateTrackingOptionsReqMsg where
  "PBLocAPIUpdateTrackingOptionsReqMsg_default = \<lparr>PBLocAPIUpdateTrackingOptionsReqMsg_locOptions
      = PBLocationOptions_default\<rparr>"

record PBLocAPIStartBatchingReqMsg =
  PBLocAPIStartBatchingReqMsg_intervalInMs :: "32 word"
  PBLocAPIStartBatchingReqMsg_distanceInMeters :: "32 word"
  PBLocAPIStartBatchingReqMsg_batchingMode :: "int"

definition PBLocAPIStartBatchingReqMsg_default :: PBLocAPIStartBatchingReqMsg where
  "PBLocAPIStartBatchingReqMsg_default = \<lparr>PBLocAPIStartBatchingReqMsg_intervalInMs = 0,
     PBLocAPIStartBatchingReqMsg_distanceInMeters = 0,
     PBLocAPIStartBatchingReqMsg_batchingMode = 0\<rparr>"

record PBLocAPIUpdateBatchingOptionsReqMsg =
  PBLocAPIUpdateBatchingOptionsReqMsg_intervalInMs :: "32 word"
  PBLocAPIUpdateBatchingOptionsReqMsg_distanceInMeters :: "32 word"
  PBLocAPIUpdateBatchingOptionsReqMsg_batchingMode :: "int"

definition PBLocAPIUpdateBatchingOptionsReqMsg_default :: PBLocAPIUpdateBatchingOptionsReqMsg where
  "PBLocAPIUpdateBatchingOptionsReqMsg_default =
      \<lparr>PBLocAPIUpdateBatchingOptionsReqMsg_intervalInMs = 0,
     PBLocAPIUpdateBatchingOptionsReqMsg_distanceInMeters = 0,
     PBLocAPIUpdateBatchingOptionsReqMsg_batchingMode = 0\<rparr>"

record PBLocAPIAddGeofencesReqMsg =
  PBLocAPIAddGeofencesReqMsg_geofences :: "PBGeofencesAddedReqPayload"

definition PBLocAPIAddGeofencesReqMsg_default :: PBLocAPIAddGeofencesReqMsg where
  "PBLocAPIAddGeofencesReqMsg_default = \<lparr>PBLocAPIAddGeofencesReqMsg_geofences =
      PBGeofencesAddedReqPayload_default\<rparr>"

record PBLocAPIRemoveGeofencesReqMsg =
  PBLocAPIRemoveGeofencesReqMsg_gfClientIds :: "PBGeofencesReqClientIdPayload"

definition PBLocAPIRemoveGeofencesReqMsg_default :: PBLocAPIRemoveGeofencesReqMsg where
  "PBLocAPIRemoveGeofencesReqMsg_default = \<lparr>PBLocAPIRemoveGeofencesReqMsg_gfClientIds =
      PBGeofencesReqClientIdPayload_default\<rparr>"

record PBLocAPIModifyGeofencesReqMsg =
  PBLocAPIModifyGeofencesReqMsg_geofences :: "PBGeofencesAddedReqPayload"

definition PBLocAPIModifyGeofencesReqMsg_default :: PBLocAPIModifyGeofencesReqMsg where
  "PBLocAPIModifyGeofencesReqMsg_default = \<lparr>PBLocAPIModifyGeofencesReqMsg_geofences =
      PBGeofencesAddedReqPayload_default\<rparr>"

record PBLocAPIPauseGeofencesReqMsg =
  PBLocAPIPauseGeofencesReqMsg_gfClientIds :: "PBGeofencesReqClientIdPayload"

definition PBLocAPIPauseGeofencesReqMsg_default :: PBLocAPIPauseGeofencesReqMsg where
  "PBLocAPIPauseGeofencesReqMsg_default = \<lparr>PBLocAPIPauseGeofencesReqMsg_gfClientIds =
      PBGeofencesReqClientIdPayload_default\<rparr>"

record PBLocAPIResumeGeofencesReqMsg =
  PBLocAPIResumeGeofencesReqMsg_gfClientIds :: "PBGeofencesReqClientIdPayload"

definition PBLocAPIResumeGeofencesReqMsg_default :: PBLocAPIResumeGeofencesReqMsg where
  "PBLocAPIResumeGeofencesReqMsg_default = \<lparr>PBLocAPIResumeGeofencesReqMsg_gfClientIds =
      PBGeofencesReqClientIdPayload_default\<rparr>"

record PBLocAPIUpdateNetworkAvailabilityReqMsg =
  PBLocAPIUpdateNetworkAvailabilityReqMsg_mAvailability :: "bool"

definition PBLocAPIUpdateNetworkAvailabilityReqMsg_default :: PBLocAPIUpdateNetworkAvailabilityReqMsg
    where
  "PBLocAPIUpdateNetworkAvailabilityReqMsg_default =
      \<lparr>PBLocAPIUpdateNetworkAvailabilityReqMsg_mAvailability = False\<rparr>"

record PBLocAPILocationIndMsg =
  PBLocAPILocationIndMsg_locationNotification :: "PBLocation"

definition PBLocAPILocationIndMsg_default :: PBLocAPILocationIndMsg where
  "PBLocAPILocationIndMsg_default = \<lparr>PBLocAPILocationIndMsg_locationNotification =
      PBLocation_default\<rparr>"

record PBLocAPIBatchingIndMsg =
  PBLocAPIBatchingIndMsg_batchNotification :: "PBLocAPIBatchNotification"

definition PBLocAPIBatchingIndMsg_default :: PBLocAPIBatchingIndMsg where
  "PBLocAPIBatchingIndMsg_default = \<lparr>PBLocAPIBatchingIndMsg_batchNotification =
      PBLocAPIBatchNotification_default\<rparr>"

record PBLocAPIGeofenceBreachIndMsg =
  PBLocAPIGeofenceBreachIndMsg_gfBreachNotification :: "PBLocAPIGeofenceBreachNotification"

definition PBLocAPIGeofenceBreachIndMsg_default :: PBLocAPIGeofenceBreachIndMsg where
  "PBLocAPIGeofenceBreachIndMsg_default = \<lparr>PBLocAPIGeofenceBreachIndMsg_gfBreachNotification =
      PBLocAPIGeofenceBreachNotification_default\<rparr>"

record PBLocAPILocationInfoIndMsg =
  PBLocAPILocationInfoIndMsg_gnssLocationInfoNotification :: "PBGnssLocationInfoNotification"

definition PBLocAPILocationInfoIndMsg_default :: PBLocAPILocationInfoIndMsg where
  "PBLocAPILocationInfoIndMsg_default = \<lparr>PBLocAPILocationInfoIndMsg_gnssLocationInfoNotification
      = PBGnssLocationInfoNotification_default\<rparr>"

record PBLocAPIEngineLocationsInfoIndMsg =
  PBLocAPIEngineLocationsInfoIndMsg_engineLocationsInfo :: "PBGnssLocationInfoNotification list"

definition PBLocAPIEngineLocationsInfoIndMsg_default :: PBLocAPIEngineLocationsInfoIndMsg where
  "PBLocAPIEngineLocationsInfoIndMsg_default =
      \<lparr>PBLocAPIEngineLocationsInfoIndMsg_engineLocationsInfo = []\<rparr>"

record PBLocAPISatelliteVehicleIndMsg =
  PBLocAPISatelliteVehicleIndMsg_gnssSvNotification :: "PBLocApiGnssSvNotification"

definition PBLocAPISatelliteVehicleIndMsg_default :: PBLocAPISatelliteVehicleIndMsg where
  "PBLocAPISatelliteVehicleIndMsg_default = \<lparr>PBLocAPISatelliteVehicleIndMsg_gnssSvNotification =
      PBLocApiGnssSvNotification_default\<rparr>"

record PBLocAPINmeaIndMsg =
  PBLocAPINmeaIndMsg_gnssNmeaNotification :: "PBLocAPINmeaSerializedPayload"

definition PBLocAPINmeaIndMsg_default :: PBLocAPINmeaIndMsg where
  "PBLocAPINmeaIndMsg_default = \<lparr>PBLocAPINmeaIndMsg_gnssNmeaNotification =
      PBLocAPINmeaSerializedPayload_default\<rparr>"

record PBLocAPIDataIndMsg =
  PBLocAPIDataIndMsg_gnssDataNotification :: "PBGnssDataNotification"

definition PBLocAPIDataIndMsg_default :: PBLocAPIDataIndMsg where
  "PBLocAPIDataIndMsg_default = \<lparr>PBLocAPIDataIndMsg_gnssDataNotification =
      PBGnssDataNotification_default\<rparr>"

record PBLocAPIMeasIndMsg =
  PBLocAPIMeasIndMsg_gnssMeasurementsNotification :: "PBGnssMeasurementsNotification"

definition PBLocAPIMeasIndMsg_default :: PBLocAPIMeasIndMsg where
  "PBLocAPIMeasIndMsg_default = \<lparr>PBLocAPIMeasIndMsg_gnssMeasurementsNotification =
      PBGnssMeasurementsNotification_default\<rparr>"

record PBLocAPIGnssEnergyConsumedIndMsg =
  PBLocAPIGnssEnergyConsumedIndMsg_totalGnssEnergyConsumedSinceFirstBoot :: "64 word"

definition PBLocAPIGnssEnergyConsumedIndMsg_default :: PBLocAPIGnssEnergyConsumedIndMsg where
  "PBLocAPIGnssEnergyConsumedIndMsg_default =
      \<lparr>PBLocAPIGnssEnergyConsumedIndMsg_totalGnssEnergyConsumedSinceFirstBoot = 0\<rparr>"

record PBLocAPILocationSystemInfoIndMsg =
  PBLocAPILocationSystemInfoIndMsg_locationSystemInfo :: "PBLocationSystemInfo"

definition PBLocAPILocationSystemInfoIndMsg_default :: PBLocAPILocationSystemInfoIndMsg where
  "PBLocAPILocationSystemInfoIndMsg_default =
      \<lparr>PBLocAPILocationSystemInfoIndMsg_locationSystemInfo = PBLocationSystemInfo_default\<rparr>"

record PBLocAPIGetSingleTerrestrialPosReqMsg =
  PBLocAPIGetSingleTerrestrialPosReqMsg_timeoutMsec :: "32 word"
  PBLocAPIGetSingleTerrestrialPosReqMsg_techMask :: "int"
  PBLocAPIGetSingleTerrestrialPosReqMsg_horQoS :: "32 word"

definition PBLocAPIGetSingleTerrestrialPosReqMsg_default :: PBLocAPIGetSingleTerrestrialPosReqMsg where
  "PBLocAPIGetSingleTerrestrialPosReqMsg_default =
      \<lparr>PBLocAPIGetSingleTerrestrialPosReqMsg_timeoutMsec = 0,
     PBLocAPIGetSingleTerrestrialPosReqMsg_techMask = 0,
     PBLocAPIGetSingleTerrestrialPosReqMsg_horQoS = 0\<rparr>"

record PBLocAPIGetSingleTerrestrialPosRespMsg =
  PBLocAPIGetSingleTerrestrialPosRespMsg_errorCode :: "int"
  PBLocAPIGetSingleTerrestrialPosRespMsg_location :: "PBLocation option"

definition PBLocAPIGetSingleTerrestrialPosRespMsg_default :: PBLocAPIGetSingleTerrestrialPosRespMsg where
  "PBLocAPIGetSingleTerrestrialPosRespMsg_default =
      \<lparr>PBLocAPIGetSingleTerrestrialPosRespMsg_errorCode = 0,
     PBLocAPIGetSingleTerrestrialPosRespMsg_location = None\<rparr>"

record PBLocConfigConstrainedTuncReqMsg =
  PBLocConfigConstrainedTuncReqMsg_mEnable :: "bool"
  PBLocConfigConstrainedTuncReqMsg_mTuncConstraint :: "32 word"
  PBLocConfigConstrainedTuncReqMsg_mEnergyBudget :: "32 word"

definition PBLocConfigConstrainedTuncReqMsg_default :: PBLocConfigConstrainedTuncReqMsg where
  "PBLocConfigConstrainedTuncReqMsg_default = \<lparr>PBLocConfigConstrainedTuncReqMsg_mEnable = False,
     PBLocConfigConstrainedTuncReqMsg_mTuncConstraint = 0,
     PBLocConfigConstrainedTuncReqMsg_mEnergyBudget = 0\<rparr>"

record PBLocConfigPositionAssistedClockEstimatorReqMsg =
  PBLocConfigPositionAssistedClockEstimatorReqMsg_mEnable :: "bool"

definition PBLocConfigPositionAssistedClockEstimatorReqMsg_default ::
    PBLocConfigPositionAssistedClockEstimatorReqMsg where
  "PBLocConfigPositionAssistedClockEstimatorReqMsg_default =
      \<lparr>PBLocConfigPositionAssistedClockEstimatorReqMsg_mEnable = False\<rparr>"

record PBLocConfigSvConstellationReqMsg =
  PBLocConfigSvConstellationReqMsg_mConstellationEnablementConfig :: "PBGnssSvTypeConfig"
  PBLocConfigSvConstellationReqMsg_mBlacklistSvConfig :: "PBGnssSvIdConfig"
  PBLocConfigSvConstellationReqMsg_mResetToDefault :: "bool"

definition PBLocConfigSvConstellationReqMsg_default :: PBLocConfigSvConstellationReqMsg where
  "PBLocConfigSvConstellationReqMsg_default =
      \<lparr>PBLocConfigSvConstellationReqMsg_mConstellationEnablementConfig =
      PBGnssSvTypeConfig_default,
     PBLocConfigSvConstellationReqMsg_mBlacklistSvConfig = PBGnssSvIdConfig_default,
     PBLocConfigSvConstellationReqMsg_mResetToDefault = False\<rparr>"

record PBLocConfigConstellationSecondaryBandReqMsg =
  PBLocConfigConstellationSecondaryBandReqMsg_mSecondaryBandConfig :: "PBGnssSvTypeConfig"

definition PBLocConfigConstellationSecondaryBandReqMsg_default ::
    PBLocConfigConstellationSecondaryBandReqMsg where
  "PBLocConfigConstellationSecondaryBandReqMsg_default =
      \<lparr>PBLocConfigConstellationSecondaryBandReqMsg_mSecondaryBandConfig =
      PBGnssSvTypeConfig_default\<rparr>"

record PBLocConfigAidingDataDeletionReqMsg =
  PBLocConfigAidingDataDeletionReqMsg_mAidingData :: "PBAidingData"

definition PBLocConfigAidingDataDeletionReqMsg_default :: PBLocConfigAidingDataDeletionReqMsg where
  "PBLocConfigAidingDataDeletionReqMsg_default = \<lparr>PBLocConfigAidingDataDeletionReqMsg_mAidingData
      = PBAidingData_default\<rparr>"

record PBLocConfigLeverArmReqMsg =
  PBLocConfigLeverArmReqMsg_mLeverArmConfigInfo :: "PBLIALeverArmConfigInfo"

definition PBLocConfigLeverArmReqMsg_default :: PBLocConfigLeverArmReqMsg where
  "PBLocConfigLeverArmReqMsg_default = \<lparr>PBLocConfigLeverArmReqMsg_mLeverArmConfigInfo =
      PBLIALeverArmConfigInfo_default\<rparr>"

record PBLocConfigRobustLocationReqMsg =
  PBLocConfigRobustLocationReqMsg_mEnable :: "bool"
  PBLocConfigRobustLocationReqMsg_mEnableForE911 :: "bool"

definition PBLocConfigRobustLocationReqMsg_default :: PBLocConfigRobustLocationReqMsg where
  "PBLocConfigRobustLocationReqMsg_default = \<lparr>PBLocConfigRobustLocationReqMsg_mEnable = False,
     PBLocConfigRobustLocationReqMsg_mEnableForE911 = False\<rparr>"

record PBLocConfigMinGpsWeekReqMsg =
  PBLocConfigMinGpsWeekReqMsg_mMinGpsWeek :: "32 word"

definition PBLocConfigMinGpsWeekReqMsg_default :: PBLocConfigMinGpsWeekReqMsg where
  "PBLocConfigMinGpsWeekReqMsg_default = \<lparr>PBLocConfigMinGpsWeekReqMsg_mMinGpsWeek = 0\<rparr>"

record PBLocConfigDrEngineParamsReqMsg =
  PBLocConfigDrEngineParamsReqMsg_mDreConfig :: "PBDeadReckoningEngineConfig"

definition PBLocConfigDrEngineParamsReqMsg_default :: PBLocConfigDrEngineParamsReqMsg where
  "PBLocConfigDrEngineParamsReqMsg_default = \<lparr>PBLocConfigDrEngineParamsReqMsg_mDreConfig =
      PBDeadReckoningEngineConfig_default\<rparr>"

record PBLocConfigMinSvElevationReqMsg =
  PBLocConfigMinSvElevationReqMsg_mMinSvElevation :: "32 word"

definition PBLocConfigMinSvElevationReqMsg_default :: PBLocConfigMinSvElevationReqMsg where
  "PBLocConfigMinSvElevationReqMsg_default = \<lparr>PBLocConfigMinSvElevationReqMsg_mMinSvElevation =
      0\<rparr>"

record PBLocConfigEngineRunStateReqMsg =
  PBLocConfigEngineRunStateReqMsg_mEngType :: "int"
  PBLocConfigEngineRunStateReqMsg_mEngState :: "int"

definition PBLocConfigEngineRunStateReqMsg_default :: PBLocConfigEngineRunStateReqMsg where
  "PBLocConfigEngineRunStateReqMsg_default = \<lparr>PBLocConfigEngineRunStateReqMsg_mEngType = 0,
     PBLocConfigEngineRunStateReqMsg_mEngState = 0\<rparr>"

record PBLocConfigUserConsentTerrestrialPositioningReqMsg =
  PBLocConfigUserConsentTerrestrialPositioningReqMsg_userConsent :: "bool"

definition PBLocConfigUserConsentTerrestrialPositioningReqMsg_default ::
    PBLocConfigUserConsentTerrestrialPositioningReqMsg where
  "PBLocConfigUserConsentTerrestrialPositioningReqMsg_default =
      \<lparr>PBLocConfigUserConsentTerrestrialPositioningReqMsg_userConsent = False\<rparr>"

record PBLocConfigGetRobustLocationConfigRespMsg =
  PBLocConfigGetRobustLocationConfigRespMsg_mRobustLoationConfig :: "PBGnssConfigRobustLocation"

definition PBLocConfigGetRobustLocationConfigRespMsg_default ::
    PBLocConfigGetRobustLocationConfigRespMsg where
  "PBLocConfigGetRobustLocationConfigRespMsg_default =
      \<lparr>PBLocConfigGetRobustLocationConfigRespMsg_mRobustLoationConfig =
      PBGnssConfigRobustLocation_default\<rparr>"

record PBLocConfigGetMinGpsWeekRespMsg =
  PBLocConfigGetMinGpsWeekRespMsg_mMinGpsWeek :: "32 word"

definition PBLocConfigGetMinGpsWeekRespMsg_default :: PBLocConfigGetMinGpsWeekRespMsg where
  "PBLocConfigGetMinGpsWeekRespMsg_default = \<lparr>PBLocConfigGetMinGpsWeekRespMsg_mMinGpsWeek =
      0\<rparr>"

record PBLocConfigGetMinSvElevationRespMsg =
  PBLocConfigGetMinSvElevationRespMsg_mMinSvElevation :: "32 word"

definition PBLocConfigGetMinSvElevationRespMsg_default :: PBLocConfigGetMinSvElevationRespMsg where
  "PBLocConfigGetMinSvElevationRespMsg_default =
      \<lparr>PBLocConfigGetMinSvElevationRespMsg_mMinSvElevation = 0\<rparr>"

record PBLocConfigGetConstltnSecondaryBandConfigRespMsg =
  PBLocConfigGetConstltnSecondaryBandConfigRespMsg_mSecondaryBandConfig :: "PBGnssSvTypeConfig"

definition PBLocConfigGetConstltnSecondaryBandConfigRespMsg_default ::
    PBLocConfigGetConstltnSecondaryBandConfigRespMsg where
  "PBLocConfigGetConstltnSecondaryBandConfigRespMsg_default =
      \<lparr>PBLocConfigGetConstltnSecondaryBandConfigRespMsg_mSecondaryBandConfig =
      PBGnssSvTypeConfig_default\<rparr>"

record PBLocAPIPingTestReqMsg =
  PBLocAPIPingTestReqMsg_numberOfPing :: "32 word"
  PBLocAPIPingTestReqMsg_data :: "32 word list"

definition PBLocAPIPingTestReqMsg_default :: PBLocAPIPingTestReqMsg where
  "PBLocAPIPingTestReqMsg_default = \<lparr>PBLocAPIPingTestReqMsg_numberOfPing = 0,
     PBLocAPIPingTestReqMsg_data = []\<rparr>"

record PBLocAPIPingTestIndMsg =
  PBLocAPIPingTestIndMsg_numberOfPing :: "32 word"
  PBLocAPIPingTestIndMsg_data :: "32 word list"

definition PBLocAPIPingTestIndMsg_default :: PBLocAPIPingTestIndMsg where
  "PBLocAPIPingTestIndMsg_default = \<lparr>PBLocAPIPingTestIndMsg_numberOfPing = 0,
     PBLocAPIPingTestIndMsg_data = []\<rparr>"

section \<open>The classes\<close>

record LocAPIClientRegisterReqMsg = LocAPIMsgHeader +
  LocAPIClientRegisterReqMsg_mClientType :: "int"

definition new_LocAPIClientRegisterReqMsg :: "string \<Rightarrow> int \<Rightarrow> addr \<Rightarrow>
    LocAPIClientRegisterReqMsg" where
  "new_LocAPIClientRegisterReqMsg name clientType pbMsgConv = \<lparr>mSocketName = strlcpy
      MAX_SOCKET_PATHNAME_LENGTH name, msgId = E_LOCAPI_CLIENT_REGISTER_MSG_ID,
     msgVersion = LOCATION_REMOTE_API_MSG_VERSION, pLocApiPbMsgConv = pbMsgConv,
     LocAPIClientRegisterReqMsg_mClientType = clientType\<rparr>"

type_synonym LocAPIClientDeregisterReqMsg = LocAPIMsgHeader

definition new_LocAPIClientDeregisterReqMsg :: "string \<Rightarrow> addr \<Rightarrow>
    LocAPIClientDeregisterReqMsg" where
  "new_LocAPIClientDeregisterReqMsg name pbMsgConv = \<lparr>mSocketName = strlcpy
      MAX_SOCKET_PATHNAME_LENGTH name, msgId = E_LOCAPI_CLIENT_DEREGISTER_MSG_ID,
     msgVersion = LOCATION_REMOTE_API_MSG_VERSION, pLocApiPbMsgConv = pbMsgConv\<rparr>"

record LocAPICapabilitiesIndMsg = LocAPIMsgHeader +
  LocAPICapabilitiesIndMsg_capabilitiesMask :: "64 word"

definition new_LocAPICapabilitiesIndMsg :: "string \<Rightarrow> 64 word \<Rightarrow> addr
    \<Rightarrow> LocAPICapabilitiesIndMsg" where
  "new_LocAPICapabilitiesIndMsg name capabilitiesMask pbMsgConv = \<lparr>mSocketName = strlcpy
      MAX_SOCKET_PATHNAME_LENGTH name, msgId = E_LOCAPI_CAPABILILTIES_MSG_ID,
     msgVersion = LOCATION_REMOTE_API_MSG_VERSION, pLocApiPbMsgConv = pbMsgConv,
     LocAPICapabilitiesIndMsg_capabilitiesMask = capabilitiesMask\<rparr>"

type_synonym LocAPIHalReadyIndMsg = LocAPIMsgHeader

definition new_LocAPIHalReadyIndMsg :: "string \<Rightarrow> addr \<Rightarrow> LocAPIHalReadyIndMsg"
    where
  "new_LocAPIHalReadyIndMsg name pbMsgConv = \<lparr>mSocketName = strlcpy MAX_SOCKET_PATHNAME_LENGTH
      name, msgId = E_LOCAPI_HAL_READY_MSG_ID,
     msgVersion = LOCATION_REMOTE_API_MSG_VERSION, pLocApiPbMsgConv = pbMsgConv\<rparr>"

record LocAPIGenericRespMsg = LocAPIMsgHeader +
  LocAPIGenericRespMsg_err :: "int"

definition new_LocAPIGenericRespMsg :: "string \<Rightarrow> int \<Rightarrow> int \<Rightarrow> addr
    \<Rightarrow> LocAPIGenericRespMsg" where
  "new_LocAPIGenericRespMsg name i err pbMsgConv = \<lparr>mSocketName = strlcpy
      MAX_SOCKET_PATHNAME_LENGTH name, msgId = i,
     msgVersion = LOCATION_REMOTE_API_MSG_VERSION, pLocApiPbMsgConv = pbMsgConv,
     LocAPIGenericRespMsg_err = err\<rparr>"

record LocAPICollectiveRespMsg = LocAPIMsgHeader +
  LocAPICollectiveRespMsg_collectiveRes :: "CollectiveResPayload"

definition new_LocAPICollectiveRespMsg :: "string \<Rightarrow> int \<Rightarrow> CollectiveResPayload
    \<Rightarrow> addr \<Rightarrow> LocAPICollectiveRespMsg" where
  "new_LocAPICollectiveRespMsg name i response pbMsgConv = \<lparr>mSocketName = strlcpy
      MAX_SOCKET_PATHNAME_LENGTH name, msgId = i,
     msgVersion = LOCATION_REMOTE_API_MSG_VERSION, pLocApiPbMsgConv = pbMsgConv,
     LocAPICollectiveRespMsg_collectiveRes = response\<rparr>"

record LocAPIStartTrackingReqMsg = LocAPIMsgHeader +
  LocAPIStartTrackingReqMsg_locOptions :: "LocationOptions"

definition new_LocAPIStartTrackingReqMsg :: "string \<Rightarrow> LocationOptions \<Rightarrow> addr
    \<Rightarrow> LocAPIStartTrackingReqMsg" where
  "new_LocAPIStartTrackingReqMsg name locSessionOptions pbMsgConv = \<lparr>mSocketName = strlcpy
      MAX_SOCKET_PATHNAME_LENGTH name, msgId = E_LOCAPI_START_TRACKING_MSG_ID,
     msgVersion = LOCATION_REMOTE_API_MSG_VERSION, pLocApiPbMsgConv = pbMsgConv,
     LocAPIStartTrackingReqMsg_locOptions = locSessionOptions\<rparr>"

type_synonym LocAPIStopTrackingReqMsg = LocAPIMsgHeader

definition new_LocAPIStopTrackingReqMsg :: "string \<Rightarrow> addr \<Rightarrow>
    LocAPIStopTrackingReqMsg" where
  "new_LocAPIStopTrackingReqMsg name pbMsgConv = \<lparr>mSocketName = strlcpy
      MAX_SOCKET_PATHNAME_LENGTH name, msgId = E_LOCAPI_STOP_TRACKING_MSG_ID,
     msgVersion = LOCATION_REMOTE_API_MSG_VERSION, pLocApiPbMsgConv = pbMsgConv\<rparr>"

record LocAPIUpdateCallbacksReqMsg = LocAPIMsgHeader +
  LocAPIUpdateCallbacksReqMsg_locationCallbacks :: "32 word"

definition new_LocAPIUpdateCallbacksReqMsg :: "string \<Rightarrow> 32 word \<Rightarrow> addr
    \<Rightarrow> LocAPIUpdateCallbacksReqMsg" where
  "new_LocAPIUpdateCallbacksReqMsg name callBacksMask pbMsgConv = \<lparr>mSocketName = strlcpy
      MAX_SOCKET_PATHNAME_LENGTH name, msgId = E_LOCAPI_UPDATE_CALLBACKS_MSG_ID,
     msgVersion = LOCATION_REMOTE_API_MSG_VERSION, pLocApiPbMsgConv = pbMsgConv,
     LocAPIUpdateCallbacksReqMsg_locationCallbacks = callBacksMask\<rparr>"

record LocAPIUpdateTrackingOptionsReqMsg = LocAPIMsgHeader +
  LocAPIUpdateTrackingOptionsReqMsg_locOptions :: "LocationOptions"

definition new_LocAPIUpdateTrackingOptionsReqMsg :: "string \<Rightarrow> LocationOptions \<Rightarrow>
    addr \<Rightarrow> LocAPIUpdateTrackingOptionsReqMsg" where
  "new_LocAPIUpdateTrackingOptionsReqMsg name locSessionOptions pbMsgConv = \<lparr>mSocketName =
      strlcpy MAX_SOCKET_PATHNAME_LENGTH name, msgId = E_LOCAPI_UPDATE_TRACKING_OPTIONS_MSG_ID,
     msgVersion = LOCATION_REMOTE_API_MSG_VERSION, pLocApiPbMsgConv = pbMsgConv,
     LocAPIUpdateTrackingOptionsReqMsg_locOptions = locSessionOptions\<rparr>"

record LocAPIStartBatchingReqMsg = LocAPIMsgHeader +
  LocAPIStartBatchingReqMsg_intervalInMs :: "32 word"
  LocAPIStartBatchingReqMsg_distanceInMeters :: "32 word"
  LocAPIStartBatchingReqMsg_batchingMode :: "int"

definition new_LocAPIStartBatchingReqMsg :: "string \<Rightarrow> 32 word \<Rightarrow> 32 word
    \<Rightarrow> int \<Rightarrow> addr \<Rightarrow> LocAPIStartBatchingReqMsg" where
  "new_LocAPIStartBatchingReqMsg name minInterval minDistance batchMode pbMsgConv = \<lparr>mSocketName
      = strlcpy MAX_SOCKET_PATHNAME_LENGTH name, msgId = E_LOCAPI_START_BATCHING_MSG_ID,
     msgVersion = LOCATION_REMOTE_API_MSG_VERSION, pLocApiPbMsgConv = pbMsgConv,
     LocAPIStartBatchingReqMsg_intervalInMs = minInterval,
     LocAPIStartBatchingReqMsg_distanceInMeters = minDistance,
     LocAPIStartBatchingReqMsg_batchingMode = batchMode\<rparr>"

type_synonym LocAPIStopBatchingReqMsg = LocAPIMsgHeader

definition new_LocAPIStopBatchingReqMsg :: "string \<Rightarrow> addr \<Rightarrow>
    LocAPIStopBatchingReqMsg" where
  "new_LocAPIStopBatchingReqMsg name pbMsgConv = \<lparr>mSocketName = strlcpy
      MAX_SOCKET_PATHNAME_LENGTH name, msgId = E_LOCAPI_STOP_BATCHING_MSG_ID,
     msgVersion = LOCATION_REMOTE_API_MSG_VERSION, pLocApiPbMsgConv = pbMsgConv\<rparr>"

record LocAPIUpdateBatchingOptionsReqMsg = LocAPIMsgHeader +
  LocAPIUpdateBatchingOptionsReqMsg_intervalInMs :: "32 word"
  LocAPIUpdateBatchingOptionsReqMsg_distanceInMeters :: "32 word"
  LocAPIUpdateBatchingOptionsReqMsg_batchingMode :: "int"

definition new_LocAPIUpdateBatchingOptionsReqMsg :: "string \<Rightarrow> 32 word \<Rightarrow> 32 word
    \<Rightarrow> int \<Rightarrow> addr \<Rightarrow> LocAPIUpdateBatchingOptionsReqMsg" where
  "new_LocAPIUpdateBatchingOptionsReqMsg name sessionInterval sessionDistance batchMode pbMsgConv =
      \<lparr>mSocketName = strlcpy MAX_SOCKET_PATHNAME_LENGTH name, msgId =
      E_LOCAPI_UPDATE_BATCHING_OPTIONS_MSG_ID,
     msgVersion = LOCATION_REMOTE_API_MSG_VERSION, pLocApiPbMsgConv = pbMsgConv,
     LocAPIUpdateBatchingOptionsReqMsg_intervalInMs = sessionInterval,
     LocAPIUpdateBatchingOptionsReqMsg_distanceInMeters = sessionDistance,
     LocAPIUpdateBatchingOptionsReqMsg_batchingMode = batchMode\<rparr>"

record LocAPIAddGeofencesReqMsg = LocAPIMsgHeader +
  LocAPIAddGeofencesReqMsg_geofences :: "GeofencesAddedReqPayload"

definition new_LocAPIAddGeofencesReqMsg :: "string \<Rightarrow> GeofencesAddedReqPayload \<Rightarrow>
    addr \<Rightarrow> LocAPIAddGeofencesReqMsg" where
  "new_LocAPIAddGeofencesReqMsg name geofencesAdded pbMsgConv = \<lparr>mSocketName = strlcpy
      MAX_SOCKET_PATHNAME_LENGTH name, msgId = E_LOCAPI_ADD_GEOFENCES_MSG_ID,
     msgVersion = LOCATION_REMOTE_API_MSG_VERSION, pLocApiPbMsgConv = pbMsgConv,
     LocAPIAddGeofencesReqMsg_geofences = geofencesAdded\<rparr>"

record LocAPIRemoveGeofencesReqMsg = LocAPIMsgHeader +
  LocAPIRemoveGeofencesReqMsg_gfClientIds :: "GeofencesReqClientIdPayload"

definition new_LocAPIRemoveGeofencesReqMsg :: "string \<Rightarrow> GeofencesReqClientIdPayload
    \<Rightarrow> addr \<Rightarrow> LocAPIRemoveGeofencesReqMsg" where
  "new_LocAPIRemoveGeofencesReqMsg name ids pbMsgConv = \<lparr>mSocketName = strlcpy
      MAX_SOCKET_PATHNAME_LENGTH name, msgId = E_LOCAPI_REMOVE_GEOFENCES_MSG_ID,
     msgVersion = LOCATION_REMOTE_API_MSG_VERSION, pLocApiPbMsgConv = pbMsgConv,
     LocAPIRemoveGeofencesReqMsg_gfClientIds = ids\<rparr>"

record LocAPIModifyGeofencesReqMsg = LocAPIMsgHeader +
  LocAPIModifyGeofencesReqMsg_geofences :: "GeofencesAddedReqPayload"

definition new_LocAPIModifyGeofencesReqMsg :: "string \<Rightarrow> GeofencesAddedReqPayload
    \<Rightarrow> addr \<Rightarrow> LocAPIModifyGeofencesReqMsg" where
  "new_LocAPIModifyGeofencesReqMsg name geofencesModified pbMsgConv = \<lparr>mSocketName = strlcpy
      MAX_SOCKET_PATHNAME_LENGTH name, msgId = E_LOCAPI_MODIFY_GEOFENCES_MSG_ID,
     msgVersion = LOCATION_REMOTE_API_MSG_VERSION, pLocApiPbMsgConv = pbMsgConv,
     LocAPIModifyGeofencesReqMsg_geofences = geofencesModified\<rparr>"

record LocAPIPauseGeofencesReqMsg = LocAPIMsgHeader +
  LocAPIPauseGeofencesReqMsg_gfClientIds :: "GeofencesReqClientIdPayload"

definition new_LocAPIPauseGeofencesReqMsg :: "string \<Rightarrow> GeofencesReqClientIdPayload
    \<Rightarrow> addr \<Rightarrow> LocAPIPauseGeofencesReqMsg" where
  "new_LocAPIPauseGeofencesReqMsg name ids pbMsgConv = \<lparr>mSocketName = strlcpy
      MAX_SOCKET_PATHNAME_LENGTH name, msgId = E_LOCAPI_PAUSE_GEOFENCES_MSG_ID,
     msgVersion = LOCATION_REMOTE_API_MSG_VERSION, pLocApiPbMsgConv = pbMsgConv,
     LocAPIPauseGeofencesReqMsg_gfClientIds = ids\<rparr>"

record LocAPIResumeGeofencesReqMsg = LocAPIMsgHeader +
  LocAPIResumeGeofencesReqMsg_gfClientIds :: "GeofencesReqClientIdPayload"

definition new_LocAPIResumeGeofencesReqMsg :: "string \<Rightarrow> GeofencesReqClientIdPayload
    \<Rightarrow> addr \<Rightarrow> LocAPIResumeGeofencesReqMsg" where
  "new_LocAPIResumeGeofencesReqMsg name ids pbMsgConv = \<lparr>mSocketName = strlcpy
      MAX_SOCKET_PATHNAME_LENGTH name, msgId = E_LOCAPI_RESUME_GEOFENCES_MSG_ID,
     msgVersion = LOCATION_REMOTE_API_MSG_VERSION, pLocApiPbMsgConv = pbMsgConv,
     LocAPIResumeGeofencesReqMsg_gfClientIds = ids\<rparr>"

record LocAPIUpdateNetworkAvailabilityReqMsg = LocAPIMsgHeader +
  LocAPIUpdateNetworkAvailabilityReqMsg_mAvailability :: "bool"

definition new_LocAPIUpdateNetworkAvailabilityReqMsg :: "string \<Rightarrow> bool \<Rightarrow> addr
    \<Rightarrow> LocAPIUpdateNetworkAvailabilityReqMsg" where
  "new_LocAPIUpdateNetworkAvailabilityReqMsg name availability pbMsgConv = \<lparr>mSocketName = strlcpy
      MAX_SOCKET_PATHNAME_LENGTH name, msgId = E_LOCAPI_CONTROL_UPDATE_NETWORK_AVAILABILITY_MSG_ID,
     msgVersion = LOCATION_REMOTE_API_MSG_VERSION, pLocApiPbMsgConv = pbMsgConv,
     LocAPIUpdateNetworkAvailabilityReqMsg_mAvailability = availability\<rparr>"

type_synonym LocAPIGetGnssEnergyConsumedReqMsg = LocAPIMsgHeader

definition new_LocAPIGetGnssEnergyConsumedReqMsg :: "string \<Rightarrow> addr \<Rightarrow>
    LocAPIGetGnssEnergyConsumedReqMsg" where
  "new_LocAPIGetGnssEnergyConsumedReqMsg name pbMsgConv = \<lparr>mSocketName = strlcpy
      MAX_SOCKET_PATHNAME_LENGTH name, msgId = E_LOCAPI_GET_GNSS_ENGERY_CONSUMED_MSG_ID,
     msgVersion = LOCATION_REMOTE_API_MSG_VERSION, pLocApiPbMsgConv = pbMsgConv\<rparr>"

record LocAPIGetSingleTerrestrialPosReqMsg = LocAPIMsgHeader +
  LocAPIGetSingleTerrestrialPosReqMsg_mTimeoutMsec :: "32 word"
  LocAPIGetSingleTerrestrialPosReqMsg_mTechMask :: "int"
  LocAPIGetSingleTerrestrialPosReqMsg_mHorQoS :: "32 word"

definition new_LocAPIGetSingleTerrestrialPosReqMsg :: "string \<Rightarrow> 32 word \<Rightarrow> int
    \<Rightarrow> 32 word \<Rightarrow> addr \<Rightarrow> LocAPIGetSingleTerrestrialPosReqMsg" where
  "new_LocAPIGetSingleTerrestrialPosReqMsg name timeoutMsec techMask horQoS pbMsgConv =
      \<lparr>mSocketName = strlcpy MAX_SOCKET_PATHNAME_LENGTH name, msgId =
      E_LOCAPI_GET_SINGLE_TERRESTRIAL_POS_REQ_MSG_ID,
     msgVersion = LOCATION_REMOTE_API_MSG_VERSION, pLocApiPbMsgConv = pbMsgConv,
     LocAPIGetSingleTerrestrialPosReqMsg_mTimeoutMsec = timeoutMsec,
     LocAPIGetSingleTerrestrialPosReqMsg_mTechMask = techMask,
     LocAPIGetSingleTerrestrialPosReqMsg_mHorQoS = horQoS\<rparr>"

record LocAPIGetSingleTerrestrialPosRespMsg = LocAPIMsgHeader +
  LocAPIGetSingleTerrestrialPosRespMsg_mErrorCode :: "int"
  LocAPIGetSingleTerrestrialPosRespMsg_mLocation :: "Location"

definition new_LocAPIGetSingleTerrestrialPosRespMsg :: "string \<Rightarrow> int \<Rightarrow> Location
    \<Rightarrow> addr \<Rightarrow> LocAPIGetSingleTerrestrialPosRespMsg" where
  "new_LocAPIGetSingleTerrestrialPosRespMsg name errorCode location pbMsgConv = \<lparr>mSocketName =
      strlcpy MAX_SOCKET_PATHNAME_LENGTH name, msgId = E_LOCAPI_GET_SINGLE_TERRESTRIAL_POS_RESP_MSG_ID,
     msgVersion = LOCATION_REMOTE_API_MSG_VERSION, pLocApiPbMsgConv = pbMsgConv,
     LocAPIGetSingleTerrestrialPosRespMsg_mErrorCode = errorCode,
     LocAPIGetSingleTerrestrialPosRespMsg_mLocation = location\<rparr>"

record LocAPILocationIndMsg = LocAPIMsgHeader +
  LocAPILocationIndMsg_locationNotification :: "Location"

definition new_LocAPILocationIndMsg :: "string \<Rightarrow> Location \<Rightarrow> addr \<Rightarrow>
    LocAPILocationIndMsg" where
  "new_LocAPILocationIndMsg name location pbMsgConv = \<lparr>mSocketName = strlcpy
      MAX_SOCKET_PATHNAME_LENGTH name, msgId = E_LOCAPI_LOCATION_MSG_ID,
     msgVersion = LOCATION_REMOTE_API_MSG_VERSION, pLocApiPbMsgConv = pbMsgConv,
     LocAPILocationIndMsg_locationNotification = location\<rparr>"

record LocAPIBatchingIndMsg = LocAPIMsgHeader +
  LocAPIBatchingIndMsg_batchNotification :: "LocAPIBatchNotification"

definition new_LocAPIBatchingIndMsg :: "string \<Rightarrow> LocAPIBatchNotification \<Rightarrow> addr
    \<Rightarrow> LocAPIBatchingIndMsg" where
  "new_LocAPIBatchingIndMsg name batchNotif pbMsgConv = \<lparr>mSocketName = strlcpy
      MAX_SOCKET_PATHNAME_LENGTH name, msgId = E_LOCAPI_BATCHING_MSG_ID,
     msgVersion = LOCATION_REMOTE_API_MSG_VERSION, pLocApiPbMsgConv = pbMsgConv,
     LocAPIBatchingIndMsg_batchNotification = batchNotif\<rparr>"

record LocAPIGeofenceBreachIndMsg = LocAPIMsgHeader +
  LocAPIGeofenceBreachIndMsg_gfBreachNotification :: "LocAPIGeofenceBreachNotification"

definition new_LocAPIGeofenceBreachIndMsg :: "string \<Rightarrow> LocAPIGeofenceBreachNotification
    \<Rightarrow> addr \<Rightarrow> LocAPIGeofenceBreachIndMsg" where
  "new_LocAPIGeofenceBreachIndMsg name gfBreachNotif pbMsgConv = \<lparr>mSocketName = strlcpy
      MAX_SOCKET_PATHNAME_LENGTH name, msgId = E_LOCAPI_GEOFENCE_BREACH_MSG_ID,
     msgVersion = LOCATION_REMOTE_API_MSG_VERSION, pLocApiPbMsgConv = pbMsgConv,
     LocAPIGeofenceBreachIndMsg_gfBreachNotification = gfBreachNotif\<rparr>"

record LocAPILocationInfoIndMsg = LocAPIMsgHeader +
  LocAPILocationInfoIndMsg_gnssLocationInfoNotification :: "GnssLocationInfoNotification"

definition new_LocAPILocationInfoIndMsg :: "string \<Rightarrow> GnssLocationInfoNotification
    \<Rightarrow> addr \<Rightarrow> LocAPILocationInfoIndMsg" where
  "new_LocAPILocationInfoIndMsg name locationInfo pbMsgConv = \<lparr>mSocketName = strlcpy
      MAX_SOCKET_PATHNAME_LENGTH name, msgId = E_LOCAPI_LOCATION_INFO_MSG_ID,
     msgVersion = LOCATION_REMOTE_API_MSG_VERSION, pLocApiPbMsgConv = pbMsgConv,
     LocAPILocationInfoIndMsg_gnssLocationInfoNotification = locationInfo\<rparr>"

record LocAPIEngineLocationsInfoIndMsg = LocAPIMsgHeader +
  LocAPIEngineLocationsInfoIndMsg_count :: "32 word"
  LocAPIEngineLocationsInfoIndMsg_engineLocationsInfo :: "GnssLocationInfoNotification list"

text \<open>The constructor copies \<open>count\<close> elements from the array it is given;
    \<^verbatim>\<open>None\<close> when there are fewer.\<close>

definition new_LocAPIEngineLocationsInfoIndMsg ::
    "string \<Rightarrow> 32 word \<Rightarrow> GnssLocationInfoNotification list \<Rightarrow> addr
        \<Rightarrow> GnssLocationInfoNotification list
     \<Rightarrow> LocAPIEngineLocationsInfoIndMsg option" where
  "new_LocAPIEngineLocationsInfoIndMsg name cnt locationInfo pbMsgConv mem_engineLocationsInfo =
    (let count = (if cnt > word_of_int LOC_OUTPUT_ENGINE_COUNT then word_of_int LOC_OUTPUT_ENGINE_COUNT
        else cnt); k = unat count in
     if length locationInfo < k then None
     else Some \<lparr>mSocketName = strlcpy MAX_SOCKET_PATHNAME_LENGTH name, msgId =
         E_LOCAPI_ENGINE_LOCATIONS_INFO_MSG_ID,
       msgVersion = LOCATION_REMOTE_API_MSG_VERSION, pLocApiPbMsgConv = pbMsgConv,
       LocAPIEngineLocationsInfoIndMsg_count = count,
       LocAPIEngineLocationsInfoIndMsg_engineLocationsInfo = take k locationInfo @ drop k
           mem_engineLocationsInfo\<rparr>)"


record LocAPISatelliteVehicleIndMsg = LocAPIMsgHeader +
  LocAPISatelliteVehicleIndMsg_gnssSvNotification :: "GnssSvNotification"

definition new_LocAPISatelliteVehicleIndMsg :: "string \<Rightarrow> GnssSvNotification \<Rightarrow>
    addr \<Rightarrow> LocAPISatelliteVehicleIndMsg" where
  "new_LocAPISatelliteVehicleIndMsg name svNotification pbMsgConv = \<lparr>mSocketName = strlcpy
      MAX_SOCKET_PATHNAME_LENGTH name, msgId = E_LOCAPI_SATELLITE_VEHICLE_MSG_ID,
     msgVersion = LOCATION_REMOTE_API_MSG_VERSION, pLocApiPbMsgConv = pbMsgConv,
     LocAPISatelliteVehicleIndMsg_gnssSvNotification = svNotification\<rparr>"

record LocAPINmeaIndMsg = LocAPIMsgHeader +
  LocAPINmeaIndMsg_gnssNmeaNotification :: "LocAPINmeaSerializedPayload"

definition new_LocAPINmeaIndMsg :: "string \<Rightarrow> addr \<Rightarrow> LocAPINmeaSerializedPayload
    \<Rightarrow> LocAPINmeaIndMsg" where
  "new_LocAPINmeaIndMsg name pbMsgConv mem_gnssNmeaNotification = \<lparr>mSocketName = strlcpy
      MAX_SOCKET_PATHNAME_LENGTH name, msgId = E_LOCAPI_NMEA_MSG_ID,
     msgVersion = LOCATION_REMOTE_API_MSG_VERSION, pLocApiPbMsgConv = pbMsgConv,
     LocAPINmeaIndMsg_gnssNmeaNotification = mem_gnssNmeaNotification\<rparr>"

record LocAPIDataIndMsg = LocAPIMsgHeader +
  LocAPIDataIndMsg_gnssDataNotification :: "GnssDataNotification"

definition new_LocAPIDataIndMsg :: "string \<Rightarrow> GnssDataNotification \<Rightarrow> addr
    \<Rightarrow> LocAPIDataIndMsg" where
  "new_LocAPIDataIndMsg name dataNotification pbMsgConv = \<lparr>mSocketName = strlcpy
      MAX_SOCKET_PATHNAME_LENGTH name, msgId = E_LOCAPI_DATA_MSG_ID,
     msgVersion = LOCATION_REMOTE_API_MSG_VERSION, pLocApiPbMsgConv = pbMsgConv,
     LocAPIDataIndMsg_gnssDataNotification = dataNotification\<rparr>"

record LocAPIMeasIndMsg = LocAPIMsgHeader +
  LocAPIMeasIndMsg_gnssMeasurementsNotification :: "GnssMeasurementsNotification"

definition new_LocAPIMeasIndMsg :: "string \<Rightarrow> GnssMeasurementsNotification \<Rightarrow> addr
    \<Rightarrow> LocAPIMeasIndMsg" where
  "new_LocAPIMeasIndMsg name measurementsNotification pbMsgConv = \<lparr>mSocketName = strlcpy
      MAX_SOCKET_PATHNAME_LENGTH name, msgId = E_LOCAPI_MEAS_MSG_ID,
     msgVersion = LOCATION_REMOTE_API_MSG_VERSION, pLocApiPbMsgConv = pbMsgConv,
     LocAPIMeasIndMsg_gnssMeasurementsNotification = measurementsNotification\<rparr>"

record LocAPIGnssEnergyConsumedIndMsg = LocAPIMsgHeader +
  LocAPIGnssEnergyConsumedIndMsg_totalGnssEnergyConsumedSinceFirstBoot :: "64 word"

definition new_LocAPIGnssEnergyConsumedIndMsg :: "string \<Rightarrow> 64 word \<Rightarrow> addr
    \<Rightarrow> LocAPIGnssEnergyConsumedIndMsg" where
  "new_LocAPIGnssEnergyConsumedIndMsg name energyConsumed pbMsgConv = \<lparr>mSocketName = strlcpy
      MAX_SOCKET_PATHNAME_LENGTH name, msgId = E_LOCAPI_GET_GNSS_ENGERY_CONSUMED_MSG_ID,
     msgVersion = LOCATION_REMOTE_API_MSG_VERSION, pLocApiPbMsgConv = pbMsgConv,
     LocAPIGnssEnergyConsumedIndMsg_totalGnssEnergyConsumedSinceFirstBoot = energyConsumed\<rparr>"

record LocAPILocationSystemInfoIndMsg = LocAPIMsgHeader +
  LocAPILocationSystemInfoIndMsg_locationSystemInfo :: "LocationSystemInfo"

definition new_LocAPILocationSystemInfoIndMsg :: "string \<Rightarrow> LocationSystemInfo \<Rightarrow>
    addr \<Rightarrow> LocAPILocationSystemInfoIndMsg" where
  "new_LocAPILocationSystemInfoIndMsg name systemInfo pbMsgConv = \<lparr>mSocketName = strlcpy
      MAX_SOCKET_PATHNAME_LENGTH name, msgId = E_LOCAPI_LOCATION_SYSTEM_INFO_MSG_ID,
     msgVersion = LOCATION_REMOTE_API_MSG_VERSION, pLocApiPbMsgConv = pbMsgConv,
     LocAPILocationSystemInfoIndMsg_locationSystemInfo = systemInfo\<rparr>"

record LocConfigConstrainedTuncReqMsg = LocAPIMsgHeader +
  LocConfigConstrainedTuncReqMsg_mEnable :: "bool"
  LocConfigConstrainedTuncReqMsg_mTuncConstraint :: "32 word"
  LocConfigConstrainedTuncReqMsg_mEnergyBudget :: "32 word"

definition new_LocConfigConstrainedTuncReqMsg :: "string \<Rightarrow> bool \<Rightarrow> 32 word
    \<Rightarrow> 32 word \<Rightarrow> addr \<Rightarrow> LocConfigConstrainedTuncReqMsg" where
  "new_LocConfigConstrainedTuncReqMsg name enable tuncConstraint energyBudget pbMsgConv =
      \<lparr>mSocketName = strlcpy MAX_SOCKET_PATHNAME_LENGTH name, msgId =
      E_INTAPI_CONFIG_CONSTRAINTED_TUNC_MSG_ID,
     msgVersion = LOCATION_REMOTE_API_MSG_VERSION, pLocApiPbMsgConv = pbMsgConv,
     LocConfigConstrainedTuncReqMsg_mEnable = enable,
     LocConfigConstrainedTuncReqMsg_mTuncConstraint = tuncConstraint,
     LocConfigConstrainedTuncReqMsg_mEnergyBudget = energyBudget\<rparr>"

record LocConfigPositionAssistedClockEstimatorReqMsg = LocAPIMsgHeader +
  LocConfigPositionAssistedClockEstimatorReqMsg_mEnable :: "bool"

definition new_LocConfigPositionAssistedClockEstimatorReqMsg :: "string \<Rightarrow> bool \<Rightarrow>
    addr \<Rightarrow> LocConfigPositionAssistedClockEstimatorReqMsg" where
  "new_LocConfigPositionAssistedClockEstimatorReqMsg name enable pbMsgConv = \<lparr>mSocketName =
      strlcpy MAX_SOCKET_PATHNAME_LENGTH name, msgId =
      E_INTAPI_CONFIG_POSITION_ASSISTED_CLOCK_ESTIMATOR_MSG_ID,
     msgVersion = LOCATION_REMOTE_API_MSG_VERSION, pLocApiPbMsgConv = pbMsgConv,
     LocConfigPositionAssistedClockEstimatorReqMsg_mEnable = enable\<rparr>"

record LocConfigSvConstellationReqMsg = LocAPIMsgHeader +
  LocConfigSvConstellationReqMsg_mConstellationEnablementConfig :: "GnssSvTypeConfig"
  LocConfigSvConstellationReqMsg_mBlacklistSvConfig :: "GnssSvIdConfig"

definition new_LocConfigSvConstellationReqMsg :: "string \<Rightarrow> GnssSvTypeConfig \<Rightarrow>
    GnssSvIdConfig \<Rightarrow> addr \<Rightarrow> LocConfigSvConstellationReqMsg" where
  "new_LocConfigSvConstellationReqMsg name constellationEnablementConfig blacklistSvConfig pbMsgConv =
      \<lparr>mSocketName = strlcpy MAX_SOCKET_PATHNAME_LENGTH name, msgId =
      E_INTAPI_CONFIG_SV_CONSTELLATION_MSG_ID,
     msgVersion = LOCATION_REMOTE_API_MSG_VERSION, pLocApiPbMsgConv = pbMsgConv,
     LocConfigSvConstellationReqMsg_mConstellationEnablementConfig = constellationEnablementConfig,
     LocConfigSvConstellationReqMsg_mBlacklistSvConfig = blacklistSvConfig\<rparr>"

record LocConfigConstellationSecondaryBandReqMsg = LocAPIMsgHeader +
  LocConfigConstellationSecondaryBandReqMsg_mSecondaryBandConfig :: "GnssSvTypeConfig"

definition new_LocConfigConstellationSecondaryBandReqMsg :: "string \<Rightarrow> GnssSvTypeConfig
    \<Rightarrow> addr \<Rightarrow> LocConfigConstellationSecondaryBandReqMsg" where
  "new_LocConfigConstellationSecondaryBandReqMsg name secondaryBandConfig pbMsgConv =
      \<lparr>mSocketName = strlcpy MAX_SOCKET_PATHNAME_LENGTH name, msgId =
      E_INTAPI_CONFIG_CONSTELLATION_SECONDARY_BAND_MSG_ID,
     msgVersion = LOCATION_REMOTE_API_MSG_VERSION, pLocApiPbMsgConv = pbMsgConv,
     LocConfigConstellationSecondaryBandReqMsg_mSecondaryBandConfig = secondaryBandConfig\<rparr>"

record LocConfigAidingDataDeletionReqMsg = LocAPIMsgHeader +
  LocConfigAidingDataDeletionReqMsg_mAidingData :: "GnssAidingData"

definition new_LocConfigAidingDataDeletionReqMsg :: "string \<Rightarrow> GnssAidingData \<Rightarrow>
    addr \<Rightarrow> LocConfigAidingDataDeletionReqMsg" where
  "new_LocConfigAidingDataDeletionReqMsg name aidingData pbMsgConv = \<lparr>mSocketName = strlcpy
      MAX_SOCKET_PATHNAME_LENGTH name, msgId = E_INTAPI_CONFIG_AIDING_DATA_DELETION_MSG_ID,
     msgVersion = LOCATION_REMOTE_API_MSG_VERSION, pLocApiPbMsgConv = pbMsgConv,
     LocConfigAidingDataDeletionReqMsg_mAidingData = aidingData\<rparr>"

record LocConfigLeverArmReqMsg = LocAPIMsgHeader +
  LocConfigLeverArmReqMsg_mLeverArmConfigInfo :: "LeverArmConfigInfo"

definition new_LocConfigLeverArmReqMsg :: "string \<Rightarrow> LeverArmConfigInfo \<Rightarrow> addr
    \<Rightarrow> LocConfigLeverArmReqMsg" where
  "new_LocConfigLeverArmReqMsg name configInfo pbMsgConv = \<lparr>mSocketName = strlcpy
      MAX_SOCKET_PATHNAME_LENGTH name, msgId = E_INTAPI_CONFIG_LEVER_ARM_MSG_ID,
     msgVersion = LOCATION_REMOTE_API_MSG_VERSION, pLocApiPbMsgConv = pbMsgConv,
     LocConfigLeverArmReqMsg_mLeverArmConfigInfo = configInfo\<rparr>"

record LocConfigRobustLocationReqMsg = LocAPIMsgHeader +
  LocConfigRobustLocationReqMsg_mEnable :: "bool"
  LocConfigRobustLocationReqMsg_mEnableForE911 :: "bool"

definition new_LocConfigRobustLocationReqMsg :: "string \<Rightarrow> bool \<Rightarrow> bool
    \<Rightarrow> addr \<Rightarrow> LocConfigRobustLocationReqMsg" where
  "new_LocConfigRobustLocationReqMsg name enable enableForE911 pbMsgConv = \<lparr>mSocketName = strlcpy
      MAX_SOCKET_PATHNAME_LENGTH name, msgId = E_INTAPI_CONFIG_ROBUST_LOCATION_MSG_ID,
     msgVersion = LOCATION_REMOTE_API_MSG_VERSION, pLocApiPbMsgConv = pbMsgConv,
     LocConfigRobustLocationReqMsg_mEnable = enable,
     LocConfigRobustLocationReqMsg_mEnableForE911 = enableForE911\<rparr>"

record LocConfigMinGpsWeekReqMsg = LocAPIMsgHeader +
  LocConfigMinGpsWeekReqMsg_mMinGpsWeek :: "16 word"

definition new_LocConfigMinGpsWeekReqMsg :: "string \<Rightarrow> 16 word \<Rightarrow> addr
    \<Rightarrow> LocConfigMinGpsWeekReqMsg" where
  "new_LocConfigMinGpsWeekReqMsg name minGpsWeek pbMsgConv = \<lparr>mSocketName = strlcpy
      MAX_SOCKET_PATHNAME_LENGTH name, msgId = E_INTAPI_CONFIG_MIN_GPS_WEEK_MSG_ID,
     msgVersion = LOCATION_REMOTE_API_MSG_VERSION, pLocApiPbMsgConv = pbMsgConv,
     LocConfigMinGpsWeekReqMsg_mMinGpsWeek = minGpsWeek\<rparr>"

record LocConfigDrEngineParamsReqMsg = LocAPIMsgHeader +
  LocConfigDrEngineParamsReqMsg_mDreConfig :: "DeadReckoningEngineConfig"

definition new_LocConfigDrEngineParamsReqMsg :: "string \<Rightarrow> DeadReckoningEngineConfig
    \<Rightarrow> addr \<Rightarrow> LocConfigDrEngineParamsReqMsg" where
  "new_LocConfigDrEngineParamsReqMsg name dreConfig pbMsgConv = \<lparr>mSocketName = strlcpy
      MAX_SOCKET_PATHNAME_LENGTH name, msgId = E_INTAPI_CONFIG_DEAD_RECKONING_ENGINE_MSG_ID,
     msgVersion = LOCATION_REMOTE_API_MSG_VERSION, pLocApiPbMsgConv = pbMsgConv,
     LocConfigDrEngineParamsReqMsg_mDreConfig = dreConfig\<rparr>"

record LocConfigMinSvElevationReqMsg = LocAPIMsgHeader +
  LocConfigMinSvElevationReqMsg_mMinSvElevation :: "8 word"

definition new_LocConfigMinSvElevationReqMsg :: "string \<Rightarrow> 8 word \<Rightarrow> addr
    \<Rightarrow> LocConfigMinSvElevationReqMsg" where
  "new_LocConfigMinSvElevationReqMsg name minSvElevation pbMsgConv = \<lparr>mSocketName = strlcpy
      MAX_SOCKET_PATHNAME_LENGTH name, msgId = E_INTAPI_CONFIG_MIN_SV_ELEVATION_MSG_ID,
     msgVersion = LOCATION_REMOTE_API_MSG_VERSION, pLocApiPbMsgConv = pbMsgConv,
     LocConfigMinSvElevationReqMsg_mMinSvElevation = minSvElevation\<rparr>"

record LocConfigEngineRunStateReqMsg = LocAPIMsgHeader +
  LocConfigEngineRunStateReqMsg_mEngType :: "32 word"
  LocConfigEngineRunStateReqMsg_mEngState :: "int"

definition new_LocConfigEngineRunStateReqMsg :: "string \<Rightarrow> 32 word \<Rightarrow> int
    \<Rightarrow> addr \<Rightarrow> LocConfigEngineRunStateReqMsg" where
  "new_LocConfigEngineRunStateReqMsg name engType engState pbMsgConv = \<lparr>mSocketName = strlcpy
      MAX_SOCKET_PATHNAME_LENGTH name, msgId = E_INTAPI_CONFIG_ENGINE_RUN_STATE_MSG_ID,
     msgVersion = LOCATION_REMOTE_API_MSG_VERSION, pLocApiPbMsgConv = pbMsgConv,
     LocConfigEngineRunStateReqMsg_mEngType = engType,
     LocConfigEngineRunStateReqMsg_mEngState = engState\<rparr>"

record LocConfigUserConsentTerrestrialPositioningReqMsg = LocAPIMsgHeader +
  LocConfigUserConsentTerrestrialPositioningReqMsg_mUserConsent :: "bool"

definition new_LocConfigUserConsentTerrestrialPositioningReqMsg :: "string \<Rightarrow> bool
    \<Rightarrow> addr \<Rightarrow> LocConfigUserConsentTerrestrialPositioningReqMsg" where
  "new_LocConfigUserConsentTerrestrialPositioningReqMsg name userConsent pbMsgConv = \<lparr>mSocketName
      = strlcpy MAX_SOCKET_PATHNAME_LENGTH name, msgId =
      E_INTAPI_CONFIG_USER_CONSENT_TERRESTRIAL_POSITIONING_MSG_ID,
     msgVersion = LOCATION_REMOTE_API_MSG_VERSION, pLocApiPbMsgConv = pbMsgConv,
     LocConfigUserConsentTerrestrialPositioningReqMsg_mUserConsent = userConsent\<rparr>"

type_synonym LocConfigGetRobustLocationConfigReqMsg = LocAPIMsgHeader

definition new_LocConfigGetRobustLocationConfigReqMsg :: "string \<Rightarrow> addr \<Rightarrow>
    LocConfigGetRobustLocationConfigReqMsg" where
  "new_LocConfigGetRobustLocationConfigReqMsg name pbMsgConv = \<lparr>mSocketName = strlcpy
      MAX_SOCKET_PATHNAME_LENGTH name, msgId = E_INTAPI_GET_ROBUST_LOCATION_CONFIG_REQ_MSG_ID,
     msgVersion = LOCATION_REMOTE_API_MSG_VERSION, pLocApiPbMsgConv = pbMsgConv\<rparr>"

record LocConfigGetRobustLocationConfigRespMsg = LocAPIMsgHeader +
  LocConfigGetRobustLocationConfigRespMsg_mRobustLoationConfig :: "GnssConfigRobustLocation"

definition new_LocConfigGetRobustLocationConfigRespMsg :: "string \<Rightarrow> GnssConfigRobustLocation
    \<Rightarrow> addr \<Rightarrow> LocConfigGetRobustLocationConfigRespMsg" where
  "new_LocConfigGetRobustLocationConfigRespMsg name robustLoationConfig pbMsgConv = \<lparr>mSocketName
      = strlcpy MAX_SOCKET_PATHNAME_LENGTH name, msgId = E_INTAPI_GET_ROBUST_LOCATION_CONFIG_RESP_MSG_ID,
     msgVersion = LOCATION_REMOTE_API_MSG_VERSION, pLocApiPbMsgConv = pbMsgConv,
     LocConfigGetRobustLocationConfigRespMsg_mRobustLoationConfig = robustLoationConfig\<rparr>"

type_synonym LocConfigGetMinGpsWeekReqMsg = LocAPIMsgHeader

definition new_LocConfigGetMinGpsWeekReqMsg :: "string \<Rightarrow> addr \<Rightarrow>
    LocConfigGetMinGpsWeekReqMsg" where
  "new_LocConfigGetMinGpsWeekReqMsg name pbMsgConv = \<lparr>mSocketName = strlcpy
      MAX_SOCKET_PATHNAME_LENGTH name, msgId = E_INTAPI_GET_MIN_GPS_WEEK_REQ_MSG_ID,
     msgVersion = LOCATION_REMOTE_API_MSG_VERSION, pLocApiPbMsgConv = pbMsgConv\<rparr>"

record LocConfigGetMinGpsWeekRespMsg = LocAPIMsgHeader +
  LocConfigGetMinGpsWeekRespMsg_mMinGpsWeek :: "16 word"

definition new_LocConfigGetMinGpsWeekRespMsg :: "string \<Rightarrow> 16 word \<Rightarrow> addr
    \<Rightarrow> LocConfigGetMinGpsWeekRespMsg" where
  "new_LocConfigGetMinGpsWeekRespMsg name minGpsWeek pbMsgConv = \<lparr>mSocketName = strlcpy
      MAX_SOCKET_PATHNAME_LENGTH name, msgId = E_INTAPI_GET_MIN_GPS_WEEK_RESP_MSG_ID,
     msgVersion = LOCATION_REMOTE_API_MSG_VERSION, pLocApiPbMsgConv = pbMsgConv,
     LocConfigGetMinGpsWeekRespMsg_mMinGpsWeek = minGpsWeek\<rparr>"

type_synonym LocConfigGetMinSvElevationReqMsg = LocAPIMsgHeader

definition new_LocConfigGetMinSvElevationReqMsg :: "string \<Rightarrow> addr \<Rightarrow>
    LocConfigGetMinSvElevationReqMsg" where
  "new_LocConfigGetMinSvElevationReqMsg name pbMsgConv = \<lparr>mSocketName = strlcpy
      MAX_SOCKET_PATHNAME_LENGTH name, msgId = E_INTAPI_GET_MIN_SV_ELEVATION_REQ_MSG_ID,
     msgVersion = LOCATION_REMOTE_API_MSG_VERSION, pLocApiPbMsgConv = pbMsgConv\<rparr>"

record LocConfigGetMinSvElevationRespMsg = LocAPIMsgHeader +
  LocConfigGetMinSvElevationRespMsg_mMinSvElevation :: "8 word"

definition new_LocConfigGetMinSvElevationRespMsg :: "string \<Rightarrow> 8 word \<Rightarrow> addr
    \<Rightarrow> LocConfigGetMinSvElevationRespMsg" where
  "new_LocConfigGetMinSvElevationRespMsg name minSvElevation pbMsgConv = \<lparr>mSocketName = strlcpy
      MAX_SOCKET_PATHNAME_LENGTH name, msgId = E_INTAPI_GET_MIN_SV_ELEVATION_RESP_MSG_ID,
     msgVersion = LOCATION_REMOTE_API_MSG_VERSION, pLocApiPbMsgConv = pbMsgConv,
     LocConfigGetMinSvElevationRespMsg_mMinSvElevation = minSvElevation\<rparr>"

type_synonym LocConfigGetConstellationSecondaryBandConfigReqMsg = LocAPIMsgHeader

definition new_LocConfigGetConstellationSecondaryBandConfigReqMsg :: "string \<Rightarrow> addr
    \<Rightarrow> LocConfigGetConstellationSecondaryBandConfigReqMsg" where
  "new_LocConfigGetConstellationSecondaryBandConfigReqMsg name pbMsgConv = \<lparr>mSocketName = strlcpy
      MAX_SOCKET_PATHNAME_LENGTH name, msgId =
      E_INTAPI_GET_CONSTELLATION_SECONDARY_BAND_CONFIG_REQ_MSG_ID,
     msgVersion = LOCATION_REMOTE_API_MSG_VERSION, pLocApiPbMsgConv = pbMsgConv\<rparr>"

record LocConfigGetConstellationSecondaryBandConfigRespMsg = LocAPIMsgHeader +
  LocConfigGetConstellationSecondaryBandConfigRespMsg_mSecondaryBandConfig :: "GnssSvTypeConfig"

definition new_LocConfigGetConstellationSecondaryBandConfigRespMsg :: "string \<Rightarrow>
    GnssSvTypeConfig \<Rightarrow> addr \<Rightarrow>
    LocConfigGetConstellationSecondaryBandConfigRespMsg" where
  "new_LocConfigGetConstellationSecondaryBandConfigRespMsg name secondaryBandConfig pbMsgConv =
      \<lparr>mSocketName = strlcpy MAX_SOCKET_PATHNAME_LENGTH name, msgId =
      E_INTAPI_GET_CONSTELLATION_SECONDARY_BAND_CONFIG_RESP_MSG_ID,
     msgVersion = LOCATION_REMOTE_API_MSG_VERSION, pLocApiPbMsgConv = pbMsgConv,
     LocConfigGetConstellationSecondaryBandConfigRespMsg_mSecondaryBandConfig =
         secondaryBandConfig\<rparr>"

record LocAPIPingTestReqMsg = LocAPIMsgHeader +
  LocAPIPingTestReqMsg_data :: "8 word list"

definition new_LocAPIPingTestReqMsg :: "string \<Rightarrow> addr \<Rightarrow> 8 word list
    \<Rightarrow> LocAPIPingTestReqMsg" where
  "new_LocAPIPingTestReqMsg name pbMsgConv mem_data = \<lparr>mSocketName = strlcpy
      MAX_SOCKET_PATHNAME_LENGTH name, msgId = E_LOCAPI_PINGTEST_MSG_ID,
     msgVersion = LOCATION_REMOTE_API_MSG_VERSION, pLocApiPbMsgConv = pbMsgConv,
     LocAPIPingTestReqMsg_data = mem_data\<rparr>"

record LocAPIPingTestIndMsg = LocAPIMsgHeader +
  LocAPIPingTestIndMsg_data :: "8 word list"

definition new_LocAPIPingTestIndMsg :: "string \<Rightarrow> addr \<Rightarrow> 8 word list
    \<Rightarrow> LocAPIPingTestIndMsg" where
  "new_LocAPIPingTestIndMsg name pbMsgConv mem_data = \<lparr>mSocketName = strlcpy
      MAX_SOCKET_PATHNAME_LENGTH name, msgId = E_LOCAPI_PINGTEST_MSG_ID,
     msgVersion = LOCATION_REMOTE_API_MSG_VERSION, pLocApiPbMsgConv = pbMsgConv,
     LocAPIPingTestIndMsg_data = mem_data\<rparr>"

end
