(* ===== verification/PbApiMsg.thy ===== *)
theory PbApiMsg
  imports PbApiTypes PbMsgConv
begin

text \<open>
  \<^verbatim>\<open>LocationApiMsg.cpp\<close>: every message class serialises itself into a protobuf header with its own protobuf message as payload, and is
  constructed from its protobuf message on the other side.  \<^verbatim>\<open>SerializeToString\<close> is a parameter, once for the payload and once for the
  header; it gives \<^verbatim>\<open>None\<close> when it fails.  The size of the class, which goes into the header, depends on the compiler and is a
  parameter too.  A serialisation ends with \<^verbatim>\<open>Inr None\<close> where the code returns 0, and otherwise with the string whose size it returns.
\<close>

section \<open>What all classes share\<close>

type_synonym 'p to_string = "'p \<Rightarrow> string option"

definition header_of :: "'a LocAPIMsgHeader_scheme \<Rightarrow> PBLocAPIMsgHeader" where
  "header_of m = PBLocAPIMsgHeader_default\<lparr>PBLocAPIMsgHeader_mSocketName := mSocketName m,
     PBLocAPIMsgHeader_msgId := getPBEnumForELocMsgID (msgId m), PBLocAPIMsgHeader_msgVersion := msgVersion m\<rparr>"

text \<open>A class without members sends no payload.\<close>

definition serialize_header :: "PBLocAPIMsgHeader to_string \<Rightarrow> 32 word \<Rightarrow> 'a LocAPIMsgHeader_scheme
    \<Rightarrow> pb_error + string option" where
  "serialize_header ser_hdr class_size m = (if pLocApiPbMsgConv m = NULL then Inr None
     else Inr (ser_hdr ((header_of m)\<lparr>PBLocAPIMsgHeader_payloadSize := class_size\<rparr>)))"

text \<open>The conversion fills in the payload, starting from a message without contents; a failing one ends the function with 0.\<close>

definition serialize_with :: "'p to_string \<Rightarrow> PBLocAPIMsgHeader to_string \<Rightarrow> 32 word \<Rightarrow> 'p \<Rightarrow> 'p step
    \<Rightarrow> 'a LocAPIMsgHeader_scheme \<Rightarrow> nat \<Rightarrow> pb_error + string option" where
  "serialize_with ser ser_hdr class_size start conversion m n = (if pLocApiPbMsgConv m = NULL then Inr None
     else case conversion start n of
       Inl ReturnOne \<Rightarrow> Inr None
     | Inl e \<Rightarrow> Inl e
     | Inr (pb, _) \<Rightarrow> (case ser pb of None \<Rightarrow> Inr None
         | Some pbStr \<Rightarrow> Inr (ser_hdr ((header_of m)\<lparr>PBLocAPIMsgHeader_payload := pbStr, PBLocAPIMsgHeader_payloadSize := class_size\<rparr>))))"

text \<open>A constructor sets the header and runs its body on the memory of the object.  Most bodies return when the converter is null;
  the others that use it do so through a pointer that may be null.\<close>

definition construct :: "string \<Rightarrow> int \<Rightarrow> addr \<Rightarrow> 'a LocAPIMsgHeader_scheme step \<Rightarrow> 'a LocAPIMsgHeader_scheme
    \<Rightarrow> pb_error + 'a LocAPIMsgHeader_scheme" where
  "construct name i pbMsgConv body mem = (case body (init_header name i pbMsgConv mem) 0 of
     Inl e \<Rightarrow> Inl e | Inr (m, _) \<Rightarrow> Inr m)"

definition unless_null :: "addr \<Rightarrow> 's step \<Rightarrow> 's step" where
  "unless_null p body = (if p = NULL then steps [] else body)"

definition through :: "addr \<Rightarrow> 's step \<Rightarrow> 's step" where
  "through p body = (if p = NULL then (\<lambda>s n. Inl NullPointer) else body)"

text \<open>A location of zero bytes.\<close>

definition Location_zero :: Location where
  "Location_zero = \<lparr>Location_size = 0, Location_flags = 0, Location_timestamp = 0, Location_latitude = 0, Location_longitude = 0, Location_altitude = 0, Location_speed = 0, Location_bearing = 0, Location_accuracy = 0, Location_verticalAccuracy = 0, Location_speedAccuracy = 0, Location_bearingAccuracy = 0, Location_conformityIndex = 0, Location_techMask = 0, Location_spoofMask = 0, Location_elapsedRealTime = 0, Location_elapsedRealTimeUnc = 0\<rparr>"

section \<open>Serialisers\<close>

definition LocAPIClientRegisterReqMsg_serializeToProtobuf :: "PBLocAPIClientRegisterReqMsg to_string
    \<Rightarrow> PBLocAPIMsgHeader to_string \<Rightarrow> 32 word \<Rightarrow>
    LocAPIClientRegisterReqMsg \<Rightarrow> nat \<Rightarrow> pb_error + string option" where
  "LocAPIClientRegisterReqMsg_serializeToProtobuf ser ser_hdr class_size m = serialize_with ser ser_hdr
      class_size PBLocAPIClientRegisterReqMsg_default (steps
    [assign (\<lambda>pbLocApiClientRegMsg.
        pbLocApiClientRegMsg\<lparr>PBLocAPIClientRegisterReqMsg_mClientType := getPBEnumForClientType
        (LocAPIClientRegisterReqMsg_mClientType m)\<rparr>)]) m"

definition LocAPIClientDeregisterReqMsg_serializeToProtobuf :: "PBLocAPIMsgHeader to_string
    \<Rightarrow> 32 word \<Rightarrow> LocAPIClientDeregisterReqMsg \<Rightarrow> pb_error + string
    option" where
  "LocAPIClientDeregisterReqMsg_serializeToProtobuf ser_hdr class_size m = serialize_header ser_hdr
      class_size m"

definition LocAPICapabilitiesIndMsg_serializeToProtobuf :: "PBLocAPICapabilitiesIndMsg to_string
    \<Rightarrow> PBLocAPIMsgHeader to_string \<Rightarrow> 32 word \<Rightarrow>
    LocAPICapabilitiesIndMsg \<Rightarrow> nat \<Rightarrow> pb_error + string option" where
  "LocAPICapabilitiesIndMsg_serializeToProtobuf ser ser_hdr class_size m = serialize_with ser ser_hdr
      class_size PBLocAPICapabilitiesIndMsg_default (steps
    [assign (\<lambda>pbLocApiCapabInd.
        pbLocApiCapabInd\<lparr>PBLocAPICapabilitiesIndMsg_capabilitiesMask :=
        getPBMaskForLocationCapabilitiesMask (LocAPICapabilitiesIndMsg_capabilitiesMask m)\<rparr>)]) m"

definition LocAPIHalReadyIndMsg_serializeToProtobuf :: "PBLocAPIMsgHeader to_string \<Rightarrow> 32
    word \<Rightarrow> LocAPIHalReadyIndMsg \<Rightarrow> pb_error + string option" where
  "LocAPIHalReadyIndMsg_serializeToProtobuf ser_hdr class_size m = serialize_header ser_hdr class_size m"

definition LocAPIGenericRespMsg_serializeToProtobuf :: "PBLocAPIGenericRespMsg to_string \<Rightarrow>
    PBLocAPIMsgHeader to_string \<Rightarrow> 32 word \<Rightarrow> LocAPIGenericRespMsg \<Rightarrow>
    nat \<Rightarrow> pb_error + string option" where
  "LocAPIGenericRespMsg_serializeToProtobuf ser ser_hdr class_size m = serialize_with ser ser_hdr
      class_size PBLocAPIGenericRespMsg_default (steps
    [assign (\<lambda>pbLocApiGenericMsg. pbLocApiGenericMsg\<lparr>PBLocAPIGenericRespMsg_err :=
        getPBEnumForLocationError (LocAPIGenericRespMsg_err m)\<rparr>)]) m"

definition LocAPICollectiveRespMsg_serializeToProtobuf :: "PBLocAPICollectiveRespMsg to_string
    \<Rightarrow> PBLocAPIMsgHeader to_string \<Rightarrow> 32 word \<Rightarrow>
    LocAPICollectiveRespMsg \<Rightarrow> nat \<Rightarrow> pb_error + string option" where
  "LocAPICollectiveRespMsg_serializeToProtobuf ser ser_hdr class_size m = serialize_with ser ser_hdr
      class_size PBLocAPICollectiveRespMsg_default (steps
    [sub_message PBLocAPICollectiveRespMsg_collectiveRes (\<lambda>v p.
        p\<lparr>PBLocAPICollectiveRespMsg_collectiveRes := v\<rparr>) (\<lambda>collectiveResp.
        convertCollectiveResPayloadToPB (LocAPICollectiveRespMsg_collectiveRes m) (Some
        collectiveResp))]) m"

definition LocAPIStartTrackingReqMsg_serializeToProtobuf :: "PBLocAPIStartTrackingReqMsg to_string
    \<Rightarrow> PBLocAPIMsgHeader to_string \<Rightarrow> 32 word \<Rightarrow>
    LocAPIStartTrackingReqMsg \<Rightarrow> nat \<Rightarrow> pb_error + string option" where
  "LocAPIStartTrackingReqMsg_serializeToProtobuf ser ser_hdr class_size m = serialize_with ser ser_hdr
      class_size PBLocAPIStartTrackingReqMsg_default (steps
    [sub_message PBLocAPIStartTrackingReqMsg_locOptions (\<lambda>v p.
        p\<lparr>PBLocAPIStartTrackingReqMsg_locOptions := v\<rparr>) (\<lambda>locOpt.
        convertLocationOptionsToPB (LocAPIStartTrackingReqMsg_locOptions m) (Some locOpt))]) m"

definition LocAPIStopTrackingReqMsg_serializeToProtobuf :: "PBLocAPIMsgHeader to_string \<Rightarrow> 32
    word \<Rightarrow> LocAPIStopTrackingReqMsg \<Rightarrow> pb_error + string option" where
  "LocAPIStopTrackingReqMsg_serializeToProtobuf ser_hdr class_size m = serialize_header ser_hdr
      class_size m"

definition LocAPIUpdateCallbacksReqMsg_serializeToProtobuf :: "PBLocAPIUpdateCallbacksReqMsg to_string
    \<Rightarrow> PBLocAPIMsgHeader to_string \<Rightarrow> 32 word \<Rightarrow>
    LocAPIUpdateCallbacksReqMsg \<Rightarrow> nat \<Rightarrow> pb_error + string option" where
  "LocAPIUpdateCallbacksReqMsg_serializeToProtobuf ser ser_hdr class_size m = serialize_with ser ser_hdr
      class_size PBLocAPIUpdateCallbacksReqMsg_default (steps
    [assign (\<lambda>pbLocApiUpdateCbsReg.
        pbLocApiUpdateCbsReg\<lparr>PBLocAPIUpdateCallbacksReqMsg_locationCallbacks :=
        getPBMaskForLocationCallbacksMask (LocAPIUpdateCallbacksReqMsg_locationCallbacks m)\<rparr>)]) m"

definition LocAPIUpdateTrackingOptionsReqMsg_serializeToProtobuf :: "PBLocAPIUpdateTrackingOptionsReqMsg
    to_string \<Rightarrow> PBLocAPIMsgHeader to_string \<Rightarrow> 32 word \<Rightarrow>
    LocAPIUpdateTrackingOptionsReqMsg \<Rightarrow> nat \<Rightarrow> pb_error + string option" where
  "LocAPIUpdateTrackingOptionsReqMsg_serializeToProtobuf ser ser_hdr class_size m = serialize_with ser
      ser_hdr class_size PBLocAPIUpdateTrackingOptionsReqMsg_default (steps
    [sub_message PBLocAPIUpdateTrackingOptionsReqMsg_locOptions (\<lambda>v p.
        p\<lparr>PBLocAPIUpdateTrackingOptionsReqMsg_locOptions := v\<rparr>) (\<lambda>locOpt.
        convertLocationOptionsToPB (LocAPIUpdateTrackingOptionsReqMsg_locOptions m) (Some locOpt))]) m"

definition LocAPIStartBatchingReqMsg_serializeToProtobuf :: "PBLocAPIStartBatchingReqMsg to_string
    \<Rightarrow> PBLocAPIMsgHeader to_string \<Rightarrow> 32 word \<Rightarrow>
    LocAPIStartBatchingReqMsg \<Rightarrow> nat \<Rightarrow> pb_error + string option" where
  "LocAPIStartBatchingReqMsg_serializeToProtobuf ser ser_hdr class_size m = serialize_with ser ser_hdr
      class_size PBLocAPIStartBatchingReqMsg_default (steps
    [assign (\<lambda>pbLocApiStartBatch.
        pbLocApiStartBatch\<lparr>PBLocAPIStartBatchingReqMsg_intervalInMs :=
        LocAPIStartBatchingReqMsg_intervalInMs m,
       PBLocAPIStartBatchingReqMsg_distanceInMeters := LocAPIStartBatchingReqMsg_distanceInMeters m,
       PBLocAPIStartBatchingReqMsg_batchingMode := getPBEnumForBatchingMode
           (LocAPIStartBatchingReqMsg_batchingMode m)\<rparr>)]) m"

definition LocAPIStopBatchingReqMsg_serializeToProtobuf :: "PBLocAPIMsgHeader to_string \<Rightarrow> 32
    word \<Rightarrow> LocAPIStopBatchingReqMsg \<Rightarrow> pb_error + string option" where
  "LocAPIStopBatchingReqMsg_serializeToProtobuf ser_hdr class_size m = serialize_header ser_hdr
      class_size m"

definition LocAPIUpdateBatchingOptionsReqMsg_serializeToProtobuf :: "PBLocAPIUpdateBatchingOptionsReqMsg
    to_string \<Rightarrow> PBLocAPIMsgHeader to_string \<Rightarrow> 32 word \<Rightarrow>
    LocAPIUpdateBatchingOptionsReqMsg \<Rightarrow> nat \<Rightarrow> pb_error + string option" where
  "LocAPIUpdateBatchingOptionsReqMsg_serializeToProtobuf ser ser_hdr class_size m = serialize_with ser
      ser_hdr class_size PBLocAPIUpdateBatchingOptionsReqMsg_default (steps
    [assign (\<lambda>pbLocApiUptBatchOpt.
        pbLocApiUptBatchOpt\<lparr>PBLocAPIUpdateBatchingOptionsReqMsg_intervalInMs :=
        LocAPIUpdateBatchingOptionsReqMsg_intervalInMs m,
       PBLocAPIUpdateBatchingOptionsReqMsg_distanceInMeters :=
           LocAPIUpdateBatchingOptionsReqMsg_distanceInMeters m,
       PBLocAPIUpdateBatchingOptionsReqMsg_batchingMode := getPBEnumForBatchingMode
           (LocAPIUpdateBatchingOptionsReqMsg_batchingMode m)\<rparr>)]) m"

definition LocAPIAddGeofencesReqMsg_serializeToProtobuf :: "PBLocAPIAddGeofencesReqMsg to_string
    \<Rightarrow> PBLocAPIMsgHeader to_string \<Rightarrow> 32 word \<Rightarrow>
    LocAPIAddGeofencesReqMsg \<Rightarrow> nat \<Rightarrow> pb_error + string option" where
  "LocAPIAddGeofencesReqMsg_serializeToProtobuf ser ser_hdr class_size m = serialize_with ser ser_hdr
      class_size PBLocAPIAddGeofencesReqMsg_default (steps
    [sub_message PBLocAPIAddGeofencesReqMsg_geofences (\<lambda>v p.
        p\<lparr>PBLocAPIAddGeofencesReqMsg_geofences := v\<rparr>) (\<lambda>gfAddReqPayload.
        convertGfAddedReqPayloadToPB (LocAPIAddGeofencesReqMsg_geofences m) (Some gfAddReqPayload))]) m"

definition LocAPIRemoveGeofencesReqMsg_serializeToProtobuf :: "PBLocAPIRemoveGeofencesReqMsg to_string
    \<Rightarrow> PBLocAPIMsgHeader to_string \<Rightarrow> 32 word \<Rightarrow>
    LocAPIRemoveGeofencesReqMsg \<Rightarrow> nat \<Rightarrow> pb_error + string option" where
  "LocAPIRemoveGeofencesReqMsg_serializeToProtobuf ser ser_hdr class_size m = serialize_with ser ser_hdr
      class_size PBLocAPIRemoveGeofencesReqMsg_default (steps
    [sub_message PBLocAPIRemoveGeofencesReqMsg_gfClientIds (\<lambda>v p.
        p\<lparr>PBLocAPIRemoveGeofencesReqMsg_gfClientIds := v\<rparr>) (\<lambda>gfReqClntIdPayload.
        convertGfReqClientIdPayloadToPB (LocAPIRemoveGeofencesReqMsg_gfClientIds m) (Some
        gfReqClntIdPayload))]) m"

definition LocAPIModifyGeofencesReqMsg_serializeToProtobuf :: "PBLocAPIModifyGeofencesReqMsg to_string
    \<Rightarrow> PBLocAPIMsgHeader to_string \<Rightarrow> 32 word \<Rightarrow>
    LocAPIModifyGeofencesReqMsg \<Rightarrow> nat \<Rightarrow> pb_error + string option" where
  "LocAPIModifyGeofencesReqMsg_serializeToProtobuf ser ser_hdr class_size m = serialize_with ser ser_hdr
      class_size PBLocAPIModifyGeofencesReqMsg_default (steps
    [sub_message PBLocAPIModifyGeofencesReqMsg_geofences (\<lambda>v p.
        p\<lparr>PBLocAPIModifyGeofencesReqMsg_geofences := v\<rparr>) (\<lambda>gfModReqPayload.
        convertGfAddedReqPayloadToPB (LocAPIModifyGeofencesReqMsg_geofences m) (Some gfModReqPayload))])
        m"

definition LocAPIPauseGeofencesReqMsg_serializeToProtobuf :: "PBLocAPIPauseGeofencesReqMsg to_string
    \<Rightarrow> PBLocAPIMsgHeader to_string \<Rightarrow> 32 word \<Rightarrow>
    LocAPIPauseGeofencesReqMsg \<Rightarrow> nat \<Rightarrow> pb_error + string option" where
  "LocAPIPauseGeofencesReqMsg_serializeToProtobuf ser ser_hdr class_size m = serialize_with ser ser_hdr
      class_size PBLocAPIPauseGeofencesReqMsg_default (steps
    [sub_message PBLocAPIPauseGeofencesReqMsg_gfClientIds (\<lambda>v p.
        p\<lparr>PBLocAPIPauseGeofencesReqMsg_gfClientIds := v\<rparr>) (\<lambda>gfReqClntIdPayload.
        convertGfReqClientIdPayloadToPB (LocAPIPauseGeofencesReqMsg_gfClientIds m) (Some
        gfReqClntIdPayload))]) m"

definition LocAPIResumeGeofencesReqMsg_serializeToProtobuf :: "PBLocAPIResumeGeofencesReqMsg to_string
    \<Rightarrow> PBLocAPIMsgHeader to_string \<Rightarrow> 32 word \<Rightarrow>
    LocAPIResumeGeofencesReqMsg \<Rightarrow> nat \<Rightarrow> pb_error + string option" where
  "LocAPIResumeGeofencesReqMsg_serializeToProtobuf ser ser_hdr class_size m = serialize_with ser ser_hdr
      class_size PBLocAPIResumeGeofencesReqMsg_default (steps
    [sub_message PBLocAPIResumeGeofencesReqMsg_gfClientIds (\<lambda>v p.
        p\<lparr>PBLocAPIResumeGeofencesReqMsg_gfClientIds := v\<rparr>) (\<lambda>gfReqClntIdPayload.
        convertGfReqClientIdPayloadToPB (LocAPIResumeGeofencesReqMsg_gfClientIds m) (Some
        gfReqClntIdPayload))]) m"

definition LocAPIUpdateNetworkAvailabilityReqMsg_serializeToProtobuf ::
    "PBLocAPIUpdateNetworkAvailabilityReqMsg to_string \<Rightarrow> PBLocAPIMsgHeader to_string
    \<Rightarrow> 32 word \<Rightarrow> LocAPIUpdateNetworkAvailabilityReqMsg \<Rightarrow> nat
    \<Rightarrow> pb_error + string option" where
  "LocAPIUpdateNetworkAvailabilityReqMsg_serializeToProtobuf ser ser_hdr class_size m = serialize_with
      ser ser_hdr class_size PBLocAPIUpdateNetworkAvailabilityReqMsg_default (steps
    [assign (\<lambda>pbLocApiUptNetwAvail.
        pbLocApiUptNetwAvail\<lparr>PBLocAPIUpdateNetworkAvailabilityReqMsg_mAvailability :=
        LocAPIUpdateNetworkAvailabilityReqMsg_mAvailability m\<rparr>)]) m"

definition LocAPIGetGnssEnergyConsumedReqMsg_serializeToProtobuf :: "PBLocAPIMsgHeader to_string
    \<Rightarrow> 32 word \<Rightarrow> LocAPIGetGnssEnergyConsumedReqMsg \<Rightarrow> pb_error +
    string option" where
  "LocAPIGetGnssEnergyConsumedReqMsg_serializeToProtobuf ser_hdr class_size m = serialize_header ser_hdr
      class_size m"

definition LocAPIGetSingleTerrestrialPosReqMsg_serializeToProtobuf ::
    "PBLocAPIGetSingleTerrestrialPosReqMsg to_string \<Rightarrow> PBLocAPIMsgHeader to_string
    \<Rightarrow> 32 word \<Rightarrow> LocAPIGetSingleTerrestrialPosReqMsg \<Rightarrow> nat
    \<Rightarrow> pb_error + string option" where
  "LocAPIGetSingleTerrestrialPosReqMsg_serializeToProtobuf ser ser_hdr class_size m = serialize_with ser
      ser_hdr class_size PBLocAPIGetSingleTerrestrialPosReqMsg_default (steps
    [assign (\<lambda>pbLocGetTerrestrialPosReq.
        pbLocGetTerrestrialPosReq\<lparr>PBLocAPIGetSingleTerrestrialPosReqMsg_timeoutMsec :=
        LocAPIGetSingleTerrestrialPosReqMsg_mTimeoutMsec m,
       PBLocAPIGetSingleTerrestrialPosReqMsg_techMask := uint (getPBMaskForTerrestrialTechMask
           (word_of_int (LocAPIGetSingleTerrestrialPosReqMsg_mTechMask m))),
       PBLocAPIGetSingleTerrestrialPosReqMsg_horQoS := LocAPIGetSingleTerrestrialPosReqMsg_mHorQoS
           m\<rparr>)]) m"

definition LocAPIGetSingleTerrestrialPosRespMsg_serializeToProtobuf ::
    "PBLocAPIGetSingleTerrestrialPosRespMsg to_string \<Rightarrow> PBLocAPIMsgHeader to_string
    \<Rightarrow> 32 word \<Rightarrow> LocAPIGetSingleTerrestrialPosRespMsg \<Rightarrow> nat
    \<Rightarrow> pb_error + string option" where
  "LocAPIGetSingleTerrestrialPosRespMsg_serializeToProtobuf ser ser_hdr class_size m = serialize_with
      ser ser_hdr class_size PBLocAPIGetSingleTerrestrialPosRespMsg_default (steps
    [assign (\<lambda>p. p\<lparr>PBLocAPIGetSingleTerrestrialPosRespMsg_errorCode :=
       getPBEnumForLocationError (LocAPIGetSingleTerrestrialPosRespMsg_mErrorCode m)\<rparr>),
     sub_message (\<lambda>p. case PBLocAPIGetSingleTerrestrialPosRespMsg_location p of None
         \<Rightarrow> PBLocation_default | Some l \<Rightarrow> l)
       (\<lambda>v p. p\<lparr>PBLocAPIGetSingleTerrestrialPosRespMsg_location := Some v\<rparr>)
       (\<lambda>pbLocation. convertLocationToPB (LocAPIGetSingleTerrestrialPosRespMsg_mLocation m)
           (Some pbLocation))]) m"

definition LocAPILocationIndMsg_serializeToProtobuf :: "PBLocAPILocationIndMsg to_string \<Rightarrow>
    PBLocAPIMsgHeader to_string \<Rightarrow> 32 word \<Rightarrow> LocAPILocationIndMsg \<Rightarrow>
    nat \<Rightarrow> pb_error + string option" where
  "LocAPILocationIndMsg_serializeToProtobuf ser ser_hdr class_size m = serialize_with ser ser_hdr
      class_size PBLocAPILocationIndMsg_default (steps
    [sub_message PBLocAPILocationIndMsg_locationNotification (\<lambda>v p.
        p\<lparr>PBLocAPILocationIndMsg_locationNotification := v\<rparr>) (\<lambda>location.
        convertLocationToPB (LocAPILocationIndMsg_locationNotification m) (Some location))]) m"

definition LocAPIBatchingIndMsg_serializeToProtobuf :: "PBLocAPIBatchingIndMsg to_string \<Rightarrow>
    PBLocAPIMsgHeader to_string \<Rightarrow> 32 word \<Rightarrow> LocAPIBatchingIndMsg \<Rightarrow>
    nat \<Rightarrow> pb_error + string option" where
  "LocAPIBatchingIndMsg_serializeToProtobuf ser ser_hdr class_size m = serialize_with ser ser_hdr
      class_size PBLocAPIBatchingIndMsg_default (steps
    [sub_message PBLocAPIBatchingIndMsg_batchNotification (\<lambda>v p.
        p\<lparr>PBLocAPIBatchingIndMsg_batchNotification := v\<rparr>) (\<lambda>locApiBatchIndMsg.
        convertLocAPIBatchingNotifMsgToPB (LocAPIBatchingIndMsg_batchNotification m) (Some
        locApiBatchIndMsg))]) m"

definition LocAPIGeofenceBreachIndMsg_serializeToProtobuf :: "PBLocAPIGeofenceBreachIndMsg to_string
    \<Rightarrow> PBLocAPIMsgHeader to_string \<Rightarrow> 32 word \<Rightarrow>
    LocAPIGeofenceBreachIndMsg \<Rightarrow> nat \<Rightarrow> pb_error + string option" where
  "LocAPIGeofenceBreachIndMsg_serializeToProtobuf ser ser_hdr class_size m = serialize_with ser ser_hdr
      class_size PBLocAPIGeofenceBreachIndMsg_default (steps
    [sub_message PBLocAPIGeofenceBreachIndMsg_gfBreachNotification (\<lambda>v p.
        p\<lparr>PBLocAPIGeofenceBreachIndMsg_gfBreachNotification := v\<rparr>)
        (\<lambda>locApiGfBreachNotif. convertLocAPIGfBreachNotifToPB
        (LocAPIGeofenceBreachIndMsg_gfBreachNotification m) (Some locApiGfBreachNotif))]) m"

definition LocAPILocationInfoIndMsg_serializeToProtobuf :: "PBLocAPILocationInfoIndMsg to_string
    \<Rightarrow> PBLocAPIMsgHeader to_string \<Rightarrow> 32 word \<Rightarrow>
    LocAPILocationInfoIndMsg \<Rightarrow> nat \<Rightarrow> pb_error + string option" where
  "LocAPILocationInfoIndMsg_serializeToProtobuf ser ser_hdr class_size m = serialize_with ser ser_hdr
      class_size PBLocAPILocationInfoIndMsg_default (steps
    [sub_message PBLocAPILocationInfoIndMsg_gnssLocationInfoNotification (\<lambda>v p.
        p\<lparr>PBLocAPILocationInfoIndMsg_gnssLocationInfoNotification := v\<rparr>)
        (\<lambda>gnssLocInfoNotif. convertGnssLocInfoNotifToPB
        (LocAPILocationInfoIndMsg_gnssLocationInfoNotification m) (Some gnssLocInfoNotif))]) m"

definition LocAPIEngineLocationsInfoIndMsg_serializeToProtobuf :: "PBLocAPIEngineLocationsInfoIndMsg
    to_string \<Rightarrow> PBLocAPIMsgHeader to_string \<Rightarrow> 32 word \<Rightarrow>
    LocAPIEngineLocationsInfoIndMsg \<Rightarrow> nat \<Rightarrow> pb_error + string option" where
  "LocAPIEngineLocationsInfoIndMsg_serializeToProtobuf ser ser_hdr class_size m = serialize_with ser
      ser_hdr class_size PBLocAPIEngineLocationsInfoIndMsg_default (steps
    [for_loop (unat ((min (LocAPIEngineLocationsInfoIndMsg_count m) (word_of_int
        LOC_OUTPUT_ENGINE_COUNT)))) (\<lambda>i.
       with_elem (LocAPIEngineLocationsInfoIndMsg_engineLocationsInfo m) i (\<lambda>e1.
       add_message PBGnssLocationInfoNotification_default
           PBLocAPIEngineLocationsInfoIndMsg_engineLocationsInfo (\<lambda>v p.
           p\<lparr>PBLocAPIEngineLocationsInfoIndMsg_engineLocationsInfo := v\<rparr>)
           (\<lambda>gnssLocInfoNotif. convertGnssLocInfoNotifToPB e1 (Some gnssLocInfoNotif))))]) m"

definition LocAPISatelliteVehicleIndMsg_serializeToProtobuf :: "PBLocAPISatelliteVehicleIndMsg to_string
    \<Rightarrow> PBLocAPIMsgHeader to_string \<Rightarrow> 32 word \<Rightarrow>
    LocAPISatelliteVehicleIndMsg \<Rightarrow> nat \<Rightarrow> pb_error + string option" where
  "LocAPISatelliteVehicleIndMsg_serializeToProtobuf ser ser_hdr class_size m = serialize_with ser
      ser_hdr class_size PBLocAPISatelliteVehicleIndMsg_default (steps
    [sub_message PBLocAPISatelliteVehicleIndMsg_gnssSvNotification (\<lambda>v p.
        p\<lparr>PBLocAPISatelliteVehicleIndMsg_gnssSvNotification := v\<rparr>) (\<lambda>gnssSvNotif.
        convertGnssSvNotifToPB (LocAPISatelliteVehicleIndMsg_gnssSvNotification m) (Some gnssSvNotif))])
        m"

definition LocAPINmeaIndMsg_serializeToProtobuf :: "PBLocAPINmeaIndMsg to_string \<Rightarrow>
    PBLocAPIMsgHeader to_string \<Rightarrow> 32 word \<Rightarrow> LocAPINmeaIndMsg \<Rightarrow> nat
    \<Rightarrow> pb_error + string option" where
  "LocAPINmeaIndMsg_serializeToProtobuf ser ser_hdr class_size m = serialize_with ser ser_hdr class_size
      PBLocAPINmeaIndMsg_default (steps
    [sub_message PBLocAPINmeaIndMsg_gnssNmeaNotification (\<lambda>v p.
        p\<lparr>PBLocAPINmeaIndMsg_gnssNmeaNotification := v\<rparr>) (\<lambda>locAPINmeaSerPload.
        convertLocAPINmeaSerializedPayloadToPB (LocAPINmeaIndMsg_gnssNmeaNotification m) (Some
        locAPINmeaSerPload))]) m"

definition LocAPIDataIndMsg_serializeToProtobuf :: "PBLocAPIDataIndMsg to_string \<Rightarrow>
    PBLocAPIMsgHeader to_string \<Rightarrow> 32 word \<Rightarrow> LocAPIDataIndMsg \<Rightarrow> nat
    \<Rightarrow> pb_error + string option" where
  "LocAPIDataIndMsg_serializeToProtobuf ser ser_hdr class_size m = serialize_with ser ser_hdr class_size
      PBLocAPIDataIndMsg_default (steps
    [sub_message PBLocAPIDataIndMsg_gnssDataNotification (\<lambda>v p.
        p\<lparr>PBLocAPIDataIndMsg_gnssDataNotification := v\<rparr>) (\<lambda>gnssDataNotif.
        convertGnssDataNotifToPB (LocAPIDataIndMsg_gnssDataNotification m) (Some gnssDataNotif))]) m"

definition LocAPIMeasIndMsg_serializeToProtobuf :: "PBLocAPIMeasIndMsg to_string \<Rightarrow>
    PBLocAPIMsgHeader to_string \<Rightarrow> 32 word \<Rightarrow> LocAPIMeasIndMsg \<Rightarrow> nat
    \<Rightarrow> pb_error + string option" where
  "LocAPIMeasIndMsg_serializeToProtobuf ser ser_hdr class_size m = serialize_with ser ser_hdr class_size
      PBLocAPIMeasIndMsg_default (steps
    [sub_message PBLocAPIMeasIndMsg_gnssMeasurementsNotification (\<lambda>v p.
        p\<lparr>PBLocAPIMeasIndMsg_gnssMeasurementsNotification := v\<rparr>) (\<lambda>gnssMeasNotif.
        convertGnssMeasNotifToPB (LocAPIMeasIndMsg_gnssMeasurementsNotification m) (Some
        gnssMeasNotif))]) m"

definition LocAPIGnssEnergyConsumedIndMsg_serializeToProtobuf :: "PBLocAPIGnssEnergyConsumedIndMsg
    to_string \<Rightarrow> PBLocAPIMsgHeader to_string \<Rightarrow> 32 word \<Rightarrow>
    LocAPIGnssEnergyConsumedIndMsg \<Rightarrow> nat \<Rightarrow> pb_error + string option" where
  "LocAPIGnssEnergyConsumedIndMsg_serializeToProtobuf ser ser_hdr class_size m = serialize_with ser
      ser_hdr class_size PBLocAPIGnssEnergyConsumedIndMsg_default (steps
    [assign (\<lambda>pbLocApiGnssEnrgyConsmdInd.
        pbLocApiGnssEnrgyConsmdInd\<lparr>PBLocAPIGnssEnergyConsumedIndMsg_totalGnssEnergyConsumedSinceFirstBoot
        := LocAPIGnssEnergyConsumedIndMsg_totalGnssEnergyConsumedSinceFirstBoot m\<rparr>)]) m"

definition LocAPILocationSystemInfoIndMsg_serializeToProtobuf :: "PBLocAPILocationSystemInfoIndMsg
    to_string \<Rightarrow> PBLocAPIMsgHeader to_string \<Rightarrow> 32 word \<Rightarrow>
    LocAPILocationSystemInfoIndMsg \<Rightarrow> nat \<Rightarrow> pb_error + string option" where
  "LocAPILocationSystemInfoIndMsg_serializeToProtobuf ser ser_hdr class_size m = serialize_with ser
      ser_hdr class_size PBLocAPILocationSystemInfoIndMsg_default (steps
    [sub_message PBLocAPILocationSystemInfoIndMsg_locationSystemInfo (\<lambda>v p.
        p\<lparr>PBLocAPILocationSystemInfoIndMsg_locationSystemInfo := v\<rparr>) (\<lambda>locSysInfo.
        convertLocSysInfoToPB (LocAPILocationSystemInfoIndMsg_locationSystemInfo m) (Some locSysInfo))])
        m"

definition LocConfigConstrainedTuncReqMsg_serializeToProtobuf :: "PBLocConfigConstrainedTuncReqMsg
    to_string \<Rightarrow> PBLocAPIMsgHeader to_string \<Rightarrow> 32 word \<Rightarrow>
    LocConfigConstrainedTuncReqMsg \<Rightarrow> nat \<Rightarrow> pb_error + string option" where
  "LocConfigConstrainedTuncReqMsg_serializeToProtobuf ser ser_hdr class_size m = serialize_with ser
      ser_hdr class_size PBLocConfigConstrainedTuncReqMsg_default (steps
    [assign (\<lambda>pbLocConfConstrTunc.
        pbLocConfConstrTunc\<lparr>PBLocConfigConstrainedTuncReqMsg_mEnable :=
        LocConfigConstrainedTuncReqMsg_mEnable m,
       PBLocConfigConstrainedTuncReqMsg_mTuncConstraint :=
           LocConfigConstrainedTuncReqMsg_mTuncConstraint m,
       PBLocConfigConstrainedTuncReqMsg_mEnergyBudget := LocConfigConstrainedTuncReqMsg_mEnergyBudget
           m\<rparr>)]) m"

definition LocConfigPositionAssistedClockEstimatorReqMsg_serializeToProtobuf ::
    "PBLocConfigPositionAssistedClockEstimatorReqMsg to_string \<Rightarrow> PBLocAPIMsgHeader to_string
    \<Rightarrow> 32 word \<Rightarrow> LocConfigPositionAssistedClockEstimatorReqMsg \<Rightarrow> nat
    \<Rightarrow> pb_error + string option" where
  "LocConfigPositionAssistedClockEstimatorReqMsg_serializeToProtobuf ser ser_hdr class_size m =
      serialize_with ser ser_hdr class_size PBLocConfigPositionAssistedClockEstimatorReqMsg_default
      (steps
    [assign (\<lambda>pbLocConfPosAsstdClockEst.
        pbLocConfPosAsstdClockEst\<lparr>PBLocConfigPositionAssistedClockEstimatorReqMsg_mEnable :=
        LocConfigPositionAssistedClockEstimatorReqMsg_mEnable m\<rparr>)]) m"

definition LocConfigSvConstellationReqMsg_serializeToProtobuf :: "PBLocConfigSvConstellationReqMsg
    to_string \<Rightarrow> PBLocAPIMsgHeader to_string \<Rightarrow> 32 word \<Rightarrow>
    LocConfigSvConstellationReqMsg \<Rightarrow> nat \<Rightarrow> pb_error + string option" where
  "LocConfigSvConstellationReqMsg_serializeToProtobuf ser ser_hdr class_size m = serialize_with ser
      ser_hdr class_size PBLocConfigSvConstellationReqMsg_default (steps
    [sub_message PBLocConfigSvConstellationReqMsg_mConstellationEnablementConfig
       (\<lambda>v p. p\<lparr>PBLocConfigSvConstellationReqMsg_mConstellationEnablementConfig :=
           v\<rparr>)
       (\<lambda>gnssSvTypCfg. convertGnssSvTypeConfigToPB
         (LocConfigSvConstellationReqMsg_mConstellationEnablementConfig m) (Some gnssSvTypCfg)),
     sub_message PBLocConfigSvConstellationReqMsg_mBlacklistSvConfig
       (\<lambda>v p. p\<lparr>PBLocConfigSvConstellationReqMsg_mBlacklistSvConfig := v\<rparr>)
       (\<lambda>gnssSvIdCfg. convertGnssSvIdConfigToPB
         (LocConfigSvConstellationReqMsg_mBlacklistSvConfig m) (Some gnssSvIdCfg)),
     assign (\<lambda>p. p\<lparr>PBLocConfigSvConstellationReqMsg_mResetToDefault :=
       (0 = GnssSvTypeConfig_size (LocConfigSvConstellationReqMsg_mConstellationEnablementConfig
           m))\<rparr>)]) m"

definition LocConfigConstellationSecondaryBandReqMsg_serializeToProtobuf ::
    "PBLocConfigConstellationSecondaryBandReqMsg to_string \<Rightarrow> PBLocAPIMsgHeader to_string
    \<Rightarrow> 32 word \<Rightarrow> LocConfigConstellationSecondaryBandReqMsg \<Rightarrow> nat
    \<Rightarrow> pb_error + string option" where
  "LocConfigConstellationSecondaryBandReqMsg_serializeToProtobuf ser ser_hdr class_size m =
      serialize_with ser ser_hdr class_size PBLocConfigConstellationSecondaryBandReqMsg_default (steps
    [sub_message PBLocConfigConstellationSecondaryBandReqMsg_mSecondaryBandConfig (\<lambda>v p.
        p\<lparr>PBLocConfigConstellationSecondaryBandReqMsg_mSecondaryBandConfig := v\<rparr>)
        (\<lambda>gnssSvTypCfg. convertGnssSvTypeConfigToPB
        (LocConfigConstellationSecondaryBandReqMsg_mSecondaryBandConfig m) (Some gnssSvTypCfg))]) m"

definition LocConfigAidingDataDeletionReqMsg_serializeToProtobuf :: "PBLocConfigAidingDataDeletionReqMsg
    to_string \<Rightarrow> PBLocAPIMsgHeader to_string \<Rightarrow> 32 word \<Rightarrow>
    LocConfigAidingDataDeletionReqMsg \<Rightarrow> nat \<Rightarrow> pb_error + string option" where
  "LocConfigAidingDataDeletionReqMsg_serializeToProtobuf ser ser_hdr class_size m = serialize_with ser
      ser_hdr class_size PBLocConfigAidingDataDeletionReqMsg_default (steps
    [sub_message PBLocConfigAidingDataDeletionReqMsg_mAidingData (\<lambda>v p.
        p\<lparr>PBLocConfigAidingDataDeletionReqMsg_mAidingData := v\<rparr>) (\<lambda>aidingData.
        convertGnssAidingDataToPB (LocConfigAidingDataDeletionReqMsg_mAidingData m) (Some aidingData))])
        m"

definition LocConfigLeverArmReqMsg_serializeToProtobuf :: "PBLocConfigLeverArmReqMsg to_string
    \<Rightarrow> PBLocAPIMsgHeader to_string \<Rightarrow> 32 word \<Rightarrow>
    LocConfigLeverArmReqMsg \<Rightarrow> nat \<Rightarrow> pb_error + string option" where
  "LocConfigLeverArmReqMsg_serializeToProtobuf ser ser_hdr class_size m = serialize_with ser ser_hdr
      class_size PBLocConfigLeverArmReqMsg_default (steps
    [sub_message PBLocConfigLeverArmReqMsg_mLeverArmConfigInfo (\<lambda>v p.
        p\<lparr>PBLocConfigLeverArmReqMsg_mLeverArmConfigInfo := v\<rparr>) (\<lambda>leverArmCfgInfo.
        convertLeverArmConfigInfoToPB (LocConfigLeverArmReqMsg_mLeverArmConfigInfo m) (Some
        leverArmCfgInfo))]) m"

definition LocConfigRobustLocationReqMsg_serializeToProtobuf :: "PBLocConfigRobustLocationReqMsg
    to_string \<Rightarrow> PBLocAPIMsgHeader to_string \<Rightarrow> 32 word \<Rightarrow>
    LocConfigRobustLocationReqMsg \<Rightarrow> nat \<Rightarrow> pb_error + string option" where
  "LocConfigRobustLocationReqMsg_serializeToProtobuf ser ser_hdr class_size m = serialize_with ser
      ser_hdr class_size PBLocConfigRobustLocationReqMsg_default (steps
    [assign (\<lambda>pbLocConfRobustLoc.
        pbLocConfRobustLoc\<lparr>PBLocConfigRobustLocationReqMsg_mEnable :=
        LocConfigRobustLocationReqMsg_mEnable m,
       PBLocConfigRobustLocationReqMsg_mEnableForE911 := LocConfigRobustLocationReqMsg_mEnableForE911
           m\<rparr>)]) m"

definition LocConfigMinGpsWeekReqMsg_serializeToProtobuf :: "PBLocConfigMinGpsWeekReqMsg to_string
    \<Rightarrow> PBLocAPIMsgHeader to_string \<Rightarrow> 32 word \<Rightarrow>
    LocConfigMinGpsWeekReqMsg \<Rightarrow> nat \<Rightarrow> pb_error + string option" where
  "LocConfigMinGpsWeekReqMsg_serializeToProtobuf ser ser_hdr class_size m = serialize_with ser ser_hdr
      class_size PBLocConfigMinGpsWeekReqMsg_default (steps
    [assign (\<lambda>pbLocConfMinGpsWeek.
        pbLocConfMinGpsWeek\<lparr>PBLocConfigMinGpsWeekReqMsg_mMinGpsWeek := ucast
        (LocConfigMinGpsWeekReqMsg_mMinGpsWeek m)\<rparr>)]) m"

definition LocConfigDrEngineParamsReqMsg_serializeToProtobuf :: "PBLocConfigDrEngineParamsReqMsg
    to_string \<Rightarrow> PBLocAPIMsgHeader to_string \<Rightarrow> 32 word \<Rightarrow>
    LocConfigDrEngineParamsReqMsg \<Rightarrow> nat \<Rightarrow> pb_error + string option" where
  "LocConfigDrEngineParamsReqMsg_serializeToProtobuf ser ser_hdr class_size m = serialize_with ser
      ser_hdr class_size PBLocConfigDrEngineParamsReqMsg_default (steps
    [sub_message PBLocConfigDrEngineParamsReqMsg_mDreConfig (\<lambda>v p.
        p\<lparr>PBLocConfigDrEngineParamsReqMsg_mDreConfig := v\<rparr>)
        (\<lambda>drReckoningEngConfig. convertDeadReckoningEngineConfigToPB
        (LocConfigDrEngineParamsReqMsg_mDreConfig m) (Some drReckoningEngConfig))]) m"

definition LocConfigMinSvElevationReqMsg_serializeToProtobuf :: "PBLocConfigMinSvElevationReqMsg
    to_string \<Rightarrow> PBLocAPIMsgHeader to_string \<Rightarrow> 32 word \<Rightarrow>
    LocConfigMinSvElevationReqMsg \<Rightarrow> nat \<Rightarrow> pb_error + string option" where
  "LocConfigMinSvElevationReqMsg_serializeToProtobuf ser ser_hdr class_size m = serialize_with ser
      ser_hdr class_size PBLocConfigMinSvElevationReqMsg_default (steps
    [assign (\<lambda>pbLocConfMinSvElev.
        pbLocConfMinSvElev\<lparr>PBLocConfigMinSvElevationReqMsg_mMinSvElevation := ucast
        (LocConfigMinSvElevationReqMsg_mMinSvElevation m)\<rparr>)]) m"

definition LocConfigEngineRunStateReqMsg_serializeToProtobuf :: "PBLocConfigEngineRunStateReqMsg
    to_string \<Rightarrow> PBLocAPIMsgHeader to_string \<Rightarrow> 32 word \<Rightarrow>
    LocConfigEngineRunStateReqMsg \<Rightarrow> nat \<Rightarrow> pb_error + string option" where
  "LocConfigEngineRunStateReqMsg_serializeToProtobuf ser ser_hdr class_size m = serialize_with ser
      ser_hdr class_size PBLocConfigEngineRunStateReqMsg_default (steps
    [assign (\<lambda>pbLocConfEngineRunState.
        pbLocConfEngineRunState\<lparr>PBLocConfigEngineRunStateReqMsg_mEngType := uint
        (getPBMaskForPositioningEngineMask (LocConfigEngineRunStateReqMsg_mEngType m)),
       PBLocConfigEngineRunStateReqMsg_mEngState := uint (getPBEnumForLocEngineRunState
           (LocConfigEngineRunStateReqMsg_mEngState m))\<rparr>)]) m"

definition LocConfigUserConsentTerrestrialPositioningReqMsg_serializeToProtobuf ::
    "PBLocConfigUserConsentTerrestrialPositioningReqMsg to_string \<Rightarrow> PBLocAPIMsgHeader
    to_string \<Rightarrow> 32 word \<Rightarrow> LocConfigUserConsentTerrestrialPositioningReqMsg
    \<Rightarrow> nat \<Rightarrow> pb_error + string option" where
  "LocConfigUserConsentTerrestrialPositioningReqMsg_serializeToProtobuf ser ser_hdr class_size m =
      serialize_with ser ser_hdr class_size PBLocConfigUserConsentTerrestrialPositioningReqMsg_default
      (steps
    [assign (\<lambda>pbMsg. pbMsg\<lparr>PBLocConfigUserConsentTerrestrialPositioningReqMsg_userConsent
        := LocConfigUserConsentTerrestrialPositioningReqMsg_mUserConsent m\<rparr>)]) m"

definition LocConfigGetRobustLocationConfigReqMsg_serializeToProtobuf :: "PBLocAPIMsgHeader to_string
    \<Rightarrow> 32 word \<Rightarrow> LocConfigGetRobustLocationConfigReqMsg \<Rightarrow> pb_error +
    string option" where
  "LocConfigGetRobustLocationConfigReqMsg_serializeToProtobuf ser_hdr class_size m = serialize_header
      ser_hdr class_size m"

definition LocConfigGetRobustLocationConfigRespMsg_serializeToProtobuf ::
    "PBLocConfigGetRobustLocationConfigRespMsg to_string \<Rightarrow> PBLocAPIMsgHeader to_string
    \<Rightarrow> 32 word \<Rightarrow> LocConfigGetRobustLocationConfigRespMsg \<Rightarrow> nat
    \<Rightarrow> pb_error + string option" where
  "LocConfigGetRobustLocationConfigRespMsg_serializeToProtobuf ser ser_hdr class_size m = serialize_with
      ser ser_hdr class_size PBLocConfigGetRobustLocationConfigRespMsg_default (steps
    [sub_message PBLocConfigGetRobustLocationConfigRespMsg_mRobustLoationConfig (\<lambda>v p.
        p\<lparr>PBLocConfigGetRobustLocationConfigRespMsg_mRobustLoationConfig := v\<rparr>)
        (\<lambda>gnssCfgRbstLoc. convertGnssConfigRobustLocationToPB
        (LocConfigGetRobustLocationConfigRespMsg_mRobustLoationConfig m) (Some gnssCfgRbstLoc))]) m"

definition LocConfigGetMinGpsWeekReqMsg_serializeToProtobuf :: "PBLocAPIMsgHeader to_string
    \<Rightarrow> 32 word \<Rightarrow> LocConfigGetMinGpsWeekReqMsg \<Rightarrow> pb_error + string
    option" where
  "LocConfigGetMinGpsWeekReqMsg_serializeToProtobuf ser_hdr class_size m = serialize_header ser_hdr
      class_size m"

definition LocConfigGetMinGpsWeekRespMsg_serializeToProtobuf :: "PBLocConfigGetMinGpsWeekRespMsg
    to_string \<Rightarrow> PBLocAPIMsgHeader to_string \<Rightarrow> 32 word \<Rightarrow>
    LocConfigGetMinGpsWeekRespMsg \<Rightarrow> nat \<Rightarrow> pb_error + string option" where
  "LocConfigGetMinGpsWeekRespMsg_serializeToProtobuf ser ser_hdr class_size m = serialize_with ser
      ser_hdr class_size PBLocConfigGetMinGpsWeekRespMsg_default (steps
    [assign (\<lambda>pbLocConfGetMinGpsWeekRsp.
        pbLocConfGetMinGpsWeekRsp\<lparr>PBLocConfigGetMinGpsWeekRespMsg_mMinGpsWeek := ucast
        (LocConfigGetMinGpsWeekRespMsg_mMinGpsWeek m)\<rparr>)]) m"

definition LocConfigGetMinSvElevationReqMsg_serializeToProtobuf :: "PBLocAPIMsgHeader to_string
    \<Rightarrow> 32 word \<Rightarrow> LocConfigGetMinSvElevationReqMsg \<Rightarrow> pb_error + string
    option" where
  "LocConfigGetMinSvElevationReqMsg_serializeToProtobuf ser_hdr class_size m = serialize_header ser_hdr
      class_size m"

definition LocConfigGetMinSvElevationRespMsg_serializeToProtobuf :: "PBLocConfigGetMinSvElevationRespMsg
    to_string \<Rightarrow> PBLocAPIMsgHeader to_string \<Rightarrow> 32 word \<Rightarrow>
    LocConfigGetMinSvElevationRespMsg \<Rightarrow> nat \<Rightarrow> pb_error + string option" where
  "LocConfigGetMinSvElevationRespMsg_serializeToProtobuf ser ser_hdr class_size m = serialize_with ser
      ser_hdr class_size PBLocConfigGetMinSvElevationRespMsg_default (steps
    [assign (\<lambda>pbLocConfGetMinSvElev.
        pbLocConfGetMinSvElev\<lparr>PBLocConfigGetMinSvElevationRespMsg_mMinSvElevation := ucast
        (LocConfigGetMinSvElevationRespMsg_mMinSvElevation m)\<rparr>)]) m"

definition LocConfigGetConstellationSecondaryBandConfigReqMsg_serializeToProtobuf :: "PBLocAPIMsgHeader
    to_string \<Rightarrow> 32 word \<Rightarrow> LocConfigGetConstellationSecondaryBandConfigReqMsg
    \<Rightarrow> pb_error + string option" where
  "LocConfigGetConstellationSecondaryBandConfigReqMsg_serializeToProtobuf ser_hdr class_size m =
      serialize_header ser_hdr class_size m"

definition LocConfigGetConstellationSecondaryBandConfigRespMsg_serializeToProtobuf ::
    "PBLocConfigGetConstltnSecondaryBandConfigRespMsg to_string \<Rightarrow> PBLocAPIMsgHeader
    to_string \<Rightarrow> 32 word \<Rightarrow> LocConfigGetConstellationSecondaryBandConfigRespMsg
    \<Rightarrow> nat \<Rightarrow> pb_error + string option" where
  "LocConfigGetConstellationSecondaryBandConfigRespMsg_serializeToProtobuf ser ser_hdr class_size m =
      serialize_with ser ser_hdr class_size PBLocConfigGetConstltnSecondaryBandConfigRespMsg_default
      (steps
    [sub_message PBLocConfigGetConstltnSecondaryBandConfigRespMsg_mSecondaryBandConfig (\<lambda>v p.
        p\<lparr>PBLocConfigGetConstltnSecondaryBandConfigRespMsg_mSecondaryBandConfig := v\<rparr>)
        (\<lambda>gnssSvTypCfg. convertGnssSvTypeConfigToPB
        (LocConfigGetConstellationSecondaryBandConfigRespMsg_mSecondaryBandConfig m) (Some
        gnssSvTypCfg))]) m"

definition LocAPIPingTestReqMsg_serializeToProtobuf :: "PBLocAPIPingTestReqMsg to_string \<Rightarrow>
    PBLocAPIMsgHeader to_string \<Rightarrow> 32 word \<Rightarrow> LocAPIPingTestReqMsg \<Rightarrow>
    nat \<Rightarrow> pb_error + string option" where
  "LocAPIPingTestReqMsg_serializeToProtobuf ser ser_hdr class_size m = serialize_with ser ser_hdr
      class_size PBLocAPIPingTestReqMsg_default (steps
    [assign (\<lambda>pbLocApiPingTest. pbLocApiPingTest\<lparr>PBLocAPIPingTestReqMsg_numberOfPing :=
        LOCATION_REMOTE_API_PINGTEST_SIZE\<rparr>),
     for_loop LOCATION_REMOTE_API_PINGTEST_SIZE (\<lambda>i.
       with_elem (LocAPIPingTestReqMsg_data m) i (\<lambda>e1.
       assign (\<lambda>pbLocApiPingTest. pbLocApiPingTest\<lparr>PBLocAPIPingTestReqMsg_data :=
           PBLocAPIPingTestReqMsg_data pbLocApiPingTest @ [ucast (e1)]\<rparr>)))]) m"

definition LocAPIPingTestIndMsg_serializeToProtobuf :: "PBLocAPIPingTestIndMsg to_string \<Rightarrow>
    PBLocAPIMsgHeader to_string \<Rightarrow> 32 word \<Rightarrow> LocAPIPingTestIndMsg \<Rightarrow>
    nat \<Rightarrow> pb_error + string option" where
  "LocAPIPingTestIndMsg_serializeToProtobuf ser ser_hdr class_size m = serialize_with ser ser_hdr
      class_size PBLocAPIPingTestIndMsg_default (steps
    [assign (\<lambda>pbLocApiPingTestIndMsg.
        pbLocApiPingTestIndMsg\<lparr>PBLocAPIPingTestIndMsg_numberOfPing :=
        LOCATION_REMOTE_API_PINGTEST_SIZE\<rparr>),
     for_loop LOCATION_REMOTE_API_PINGTEST_SIZE (\<lambda>i.
       with_elem (LocAPIPingTestIndMsg_data m) i (\<lambda>e1.
       assign (\<lambda>pbLocApiPingTestIndMsg.
           pbLocApiPingTestIndMsg\<lparr>PBLocAPIPingTestIndMsg_data := PBLocAPIPingTestIndMsg_data
           pbLocApiPingTestIndMsg @ [ucast (e1)]\<rparr>)))]) m"

section \<open>Constructors from protobuf messages\<close>

definition LocAPIClientRegisterReqMsg_fromPB :: "string \<Rightarrow> PBLocAPIClientRegisterReqMsg
    \<Rightarrow> addr \<Rightarrow> LocAPIClientRegisterReqMsg \<Rightarrow> pb_error +
    LocAPIClientRegisterReqMsg" where
  "LocAPIClientRegisterReqMsg_fromPB name pbLocApiClientRegReqMsg pbMsgConv = construct name
      E_LOCAPI_CLIENT_REGISTER_MSG_ID pbMsgConv (unless_null pbMsgConv (steps
    [assign (\<lambda>m. m\<lparr>LocAPIClientRegisterReqMsg_mClientType := getEnumForPBClientType
        (PBLocAPIClientRegisterReqMsg_mClientType pbLocApiClientRegReqMsg)\<rparr>)]))"

definition LocAPICapabilitiesIndMsg_fromPB :: "string \<Rightarrow> PBLocAPICapabilitiesIndMsg
    \<Rightarrow> addr \<Rightarrow> LocAPICapabilitiesIndMsg \<Rightarrow> pb_error +
    LocAPICapabilitiesIndMsg" where
  "LocAPICapabilitiesIndMsg_fromPB name pbLocApiCapInd pbMsgConv = construct name
      E_LOCAPI_CAPABILILTIES_MSG_ID pbMsgConv (unless_null pbMsgConv (steps
    [assign (\<lambda>m. m\<lparr>LocAPICapabilitiesIndMsg_capabilitiesMask :=
        getLocationCapabilitiesMaskFromPB (PBLocAPICapabilitiesIndMsg_capabilitiesMask
        pbLocApiCapInd)\<rparr>)]))"

definition LocAPIGenericRespMsg_fromPB :: "string \<Rightarrow> int \<Rightarrow> PBLocAPIGenericRespMsg
    \<Rightarrow> addr \<Rightarrow> LocAPIGenericRespMsg \<Rightarrow> pb_error + LocAPIGenericRespMsg"
    where
  "LocAPIGenericRespMsg_fromPB name i pbLocApiGenericRsp pbMsgConv = construct name i pbMsgConv
      (unless_null pbMsgConv (steps
    [assign (\<lambda>m. m\<lparr>LocAPIGenericRespMsg_err := getEnumForPBLocationError
        (PBLocAPIGenericRespMsg_err pbLocApiGenericRsp)\<rparr>)]))"

definition LocAPICollectiveRespMsg_fromPB :: "string \<Rightarrow> int \<Rightarrow>
    PBLocAPICollectiveRespMsg \<Rightarrow> addr \<Rightarrow> LocAPICollectiveRespMsg \<Rightarrow>
    pb_error + LocAPICollectiveRespMsg" where
  "LocAPICollectiveRespMsg_fromPB name i pbLocApiCollctvRespMsg pbMsgConv = construct name i pbMsgConv
      (unless_null pbMsgConv (steps
    [sub_struct LocAPICollectiveRespMsg_collectiveRes (\<lambda>v p.
        p\<lparr>LocAPICollectiveRespMsg_collectiveRes := v\<rparr>)
       (pbConvertToCollectiveResPayload (PBLocAPICollectiveRespMsg_collectiveRes
           pbLocApiCollctvRespMsg))]))"

definition LocAPIStartTrackingReqMsg_fromPB :: "string \<Rightarrow> PBLocAPIStartTrackingReqMsg
    \<Rightarrow> addr \<Rightarrow> LocAPIStartTrackingReqMsg \<Rightarrow> pb_error +
    LocAPIStartTrackingReqMsg" where
  "LocAPIStartTrackingReqMsg_fromPB name pbStartTrackReqMsg pbMsgConv = construct name
      E_LOCAPI_START_TRACKING_MSG_ID pbMsgConv (unless_null pbMsgConv (steps
    [sub_struct LocAPIStartTrackingReqMsg_locOptions (\<lambda>v p.
        p\<lparr>LocAPIStartTrackingReqMsg_locOptions := v\<rparr>)
       (pbConvertToLocationOptions (PBLocAPIStartTrackingReqMsg_locOptions pbStartTrackReqMsg))]))"

definition LocAPIUpdateCallbacksReqMsg_fromPB :: "string \<Rightarrow> PBLocAPIUpdateCallbacksReqMsg
    \<Rightarrow> addr \<Rightarrow> LocAPIUpdateCallbacksReqMsg \<Rightarrow> pb_error +
    LocAPIUpdateCallbacksReqMsg" where
  "LocAPIUpdateCallbacksReqMsg_fromPB name pbLocApiUpdateCbsReqMsg pbMsgConv = construct name
      E_LOCAPI_UPDATE_CALLBACKS_MSG_ID pbMsgConv (unless_null pbMsgConv (steps
    [assign (\<lambda>m. m\<lparr>LocAPIUpdateCallbacksReqMsg_locationCallbacks :=
        getLocationCallbacksMaskFromPB (PBLocAPIUpdateCallbacksReqMsg_locationCallbacks
        pbLocApiUpdateCbsReqMsg)\<rparr>)]))"

definition LocAPIUpdateTrackingOptionsReqMsg_fromPB :: "string \<Rightarrow>
    PBLocAPIUpdateTrackingOptionsReqMsg \<Rightarrow> addr \<Rightarrow>
    LocAPIUpdateTrackingOptionsReqMsg \<Rightarrow> pb_error + LocAPIUpdateTrackingOptionsReqMsg" where
  "LocAPIUpdateTrackingOptionsReqMsg_fromPB name pbUpdateTrackOptReqMsg pbMsgConv = construct name
      E_LOCAPI_UPDATE_TRACKING_OPTIONS_MSG_ID pbMsgConv (unless_null pbMsgConv (steps
    [sub_struct LocAPIUpdateTrackingOptionsReqMsg_locOptions (\<lambda>v p.
        p\<lparr>LocAPIUpdateTrackingOptionsReqMsg_locOptions := v\<rparr>)
       (pbConvertToLocationOptions (PBLocAPIUpdateTrackingOptionsReqMsg_locOptions
           pbUpdateTrackOptReqMsg))]))"

definition LocAPIStartBatchingReqMsg_fromPB :: "string \<Rightarrow> PBLocAPIStartBatchingReqMsg
    \<Rightarrow> addr \<Rightarrow> LocAPIStartBatchingReqMsg \<Rightarrow> pb_error +
    LocAPIStartBatchingReqMsg" where
  "LocAPIStartBatchingReqMsg_fromPB name pbStartBatchReqMsg pbMsgConv = construct name
      E_LOCAPI_START_BATCHING_MSG_ID pbMsgConv (unless_null pbMsgConv (steps
    [assign (\<lambda>m. m\<lparr>LocAPIStartBatchingReqMsg_intervalInMs :=
        PBLocAPIStartBatchingReqMsg_intervalInMs pbStartBatchReqMsg,
       LocAPIStartBatchingReqMsg_distanceInMeters := PBLocAPIStartBatchingReqMsg_distanceInMeters
           pbStartBatchReqMsg,
       LocAPIStartBatchingReqMsg_batchingMode := getEnumForPBBatchingMode
           (PBLocAPIStartBatchingReqMsg_batchingMode pbStartBatchReqMsg)\<rparr>)]))"

definition LocAPIUpdateBatchingOptionsReqMsg_fromPB :: "string \<Rightarrow>
    PBLocAPIUpdateBatchingOptionsReqMsg \<Rightarrow> addr \<Rightarrow>
    LocAPIUpdateBatchingOptionsReqMsg \<Rightarrow> pb_error + LocAPIUpdateBatchingOptionsReqMsg" where
  "LocAPIUpdateBatchingOptionsReqMsg_fromPB name pbUpdateBatchOptiReqMsg pbMsgConv = construct name
      E_LOCAPI_UPDATE_BATCHING_OPTIONS_MSG_ID pbMsgConv (unless_null pbMsgConv (steps
    [assign (\<lambda>m. m\<lparr>LocAPIUpdateBatchingOptionsReqMsg_intervalInMs :=
        PBLocAPIUpdateBatchingOptionsReqMsg_intervalInMs pbUpdateBatchOptiReqMsg,
       LocAPIUpdateBatchingOptionsReqMsg_distanceInMeters :=
           PBLocAPIUpdateBatchingOptionsReqMsg_distanceInMeters pbUpdateBatchOptiReqMsg,
       LocAPIUpdateBatchingOptionsReqMsg_batchingMode := getEnumForPBBatchingMode
           (PBLocAPIUpdateBatchingOptionsReqMsg_batchingMode pbUpdateBatchOptiReqMsg)\<rparr>)]))"

definition LocAPIAddGeofencesReqMsg_fromPB :: "string \<Rightarrow> PBLocAPIAddGeofencesReqMsg
    \<Rightarrow> addr \<Rightarrow> LocAPIAddGeofencesReqMsg \<Rightarrow> pb_error +
    LocAPIAddGeofencesReqMsg" where
  "LocAPIAddGeofencesReqMsg_fromPB name pbAddGfsReqMsg pbMsgConv = construct name
      E_LOCAPI_ADD_GEOFENCES_MSG_ID pbMsgConv (unless_null pbMsgConv (steps
    [sub_struct LocAPIAddGeofencesReqMsg_geofences (\<lambda>v p.
        p\<lparr>LocAPIAddGeofencesReqMsg_geofences := v\<rparr>)
       (pbConvertToGfAddReqPayload (PBLocAPIAddGeofencesReqMsg_geofences pbAddGfsReqMsg))]))"

definition LocAPIRemoveGeofencesReqMsg_fromPB :: "string \<Rightarrow> PBLocAPIRemoveGeofencesReqMsg
    \<Rightarrow> addr \<Rightarrow> LocAPIRemoveGeofencesReqMsg \<Rightarrow> pb_error +
    LocAPIRemoveGeofencesReqMsg" where
  "LocAPIRemoveGeofencesReqMsg_fromPB name pbRemGfsReqMsg pbMsgConv = construct name
      E_LOCAPI_REMOVE_GEOFENCES_MSG_ID pbMsgConv (unless_null pbMsgConv (steps
    [sub_struct LocAPIRemoveGeofencesReqMsg_gfClientIds (\<lambda>v p.
        p\<lparr>LocAPIRemoveGeofencesReqMsg_gfClientIds := v\<rparr>)
       (pbConvertToGfReqClientIdPayload (PBLocAPIRemoveGeofencesReqMsg_gfClientIds pbRemGfsReqMsg))]))"

definition LocAPIModifyGeofencesReqMsg_fromPB :: "string \<Rightarrow> PBLocAPIModifyGeofencesReqMsg
    \<Rightarrow> addr \<Rightarrow> LocAPIModifyGeofencesReqMsg \<Rightarrow> pb_error +
    LocAPIModifyGeofencesReqMsg" where
  "LocAPIModifyGeofencesReqMsg_fromPB name pbModifyGfsReqMsg pbMsgConv = construct name
      E_LOCAPI_MODIFY_GEOFENCES_MSG_ID pbMsgConv (unless_null pbMsgConv (steps
    [sub_struct LocAPIModifyGeofencesReqMsg_geofences (\<lambda>v p.
        p\<lparr>LocAPIModifyGeofencesReqMsg_geofences := v\<rparr>)
       (pbConvertToGfAddReqPayload (PBLocAPIModifyGeofencesReqMsg_geofences pbModifyGfsReqMsg))]))"

definition LocAPIPauseGeofencesReqMsg_fromPB :: "string \<Rightarrow> PBLocAPIPauseGeofencesReqMsg
    \<Rightarrow> addr \<Rightarrow> LocAPIPauseGeofencesReqMsg \<Rightarrow> pb_error +
    LocAPIPauseGeofencesReqMsg" where
  "LocAPIPauseGeofencesReqMsg_fromPB name pbPauseGfsReqMsg pbMsgConv = construct name
      E_LOCAPI_PAUSE_GEOFENCES_MSG_ID pbMsgConv (unless_null pbMsgConv (steps
    [sub_struct LocAPIPauseGeofencesReqMsg_gfClientIds (\<lambda>v p.
        p\<lparr>LocAPIPauseGeofencesReqMsg_gfClientIds := v\<rparr>)
       (pbConvertToGfReqClientIdPayload (PBLocAPIPauseGeofencesReqMsg_gfClientIds pbPauseGfsReqMsg))]))"

definition LocAPIResumeGeofencesReqMsg_fromPB :: "string \<Rightarrow> PBLocAPIResumeGeofencesReqMsg
    \<Rightarrow> addr \<Rightarrow> LocAPIResumeGeofencesReqMsg \<Rightarrow> pb_error +
    LocAPIResumeGeofencesReqMsg" where
  "LocAPIResumeGeofencesReqMsg_fromPB name pbResumeGfsReqMsg pbMsgConv = construct name
      E_LOCAPI_RESUME_GEOFENCES_MSG_ID pbMsgConv (unless_null pbMsgConv (steps
    [sub_struct LocAPIResumeGeofencesReqMsg_gfClientIds (\<lambda>v p.
        p\<lparr>LocAPIResumeGeofencesReqMsg_gfClientIds := v\<rparr>)
       (pbConvertToGfReqClientIdPayload (PBLocAPIResumeGeofencesReqMsg_gfClientIds
           pbResumeGfsReqMsg))]))"

definition LocAPIUpdateNetworkAvailabilityReqMsg_fromPB :: "string \<Rightarrow>
    PBLocAPIUpdateNetworkAvailabilityReqMsg \<Rightarrow> addr \<Rightarrow>
    LocAPIUpdateNetworkAvailabilityReqMsg \<Rightarrow> pb_error +
    LocAPIUpdateNetworkAvailabilityReqMsg" where
  "LocAPIUpdateNetworkAvailabilityReqMsg_fromPB name pbUpdateNetAvailReqMsg pbMsgConv = construct name
      E_LOCAPI_CONTROL_UPDATE_NETWORK_AVAILABILITY_MSG_ID pbMsgConv ((steps
    [assign (\<lambda>m. m\<lparr>LocAPIUpdateNetworkAvailabilityReqMsg_mAvailability :=
        PBLocAPIUpdateNetworkAvailabilityReqMsg_mAvailability pbUpdateNetAvailReqMsg\<rparr>)]))"

definition LocAPIGetSingleTerrestrialPosReqMsg_fromPB :: "string \<Rightarrow>
    PBLocAPIGetSingleTerrestrialPosReqMsg \<Rightarrow> addr \<Rightarrow>
    LocAPIGetSingleTerrestrialPosReqMsg \<Rightarrow> pb_error + LocAPIGetSingleTerrestrialPosReqMsg"
    where
  "LocAPIGetSingleTerrestrialPosReqMsg_fromPB name pbLocGetTerrestrialPosReq pbMsgConv = construct name
      E_LOCAPI_GET_SINGLE_TERRESTRIAL_POS_REQ_MSG_ID pbMsgConv (through pbMsgConv (steps
    [assign (\<lambda>m. m\<lparr>LocAPIGetSingleTerrestrialPosReqMsg_mTimeoutMsec :=
        PBLocAPIGetSingleTerrestrialPosReqMsg_timeoutMsec pbLocGetTerrestrialPosReq,
       LocAPIGetSingleTerrestrialPosReqMsg_mTechMask := uint (getTerrestrialTechMaskFromPB (word_of_int
           (PBLocAPIGetSingleTerrestrialPosReqMsg_techMask pbLocGetTerrestrialPosReq))),
       LocAPIGetSingleTerrestrialPosReqMsg_mHorQoS := PBLocAPIGetSingleTerrestrialPosReqMsg_horQoS
           pbLocGetTerrestrialPosReq\<rparr>)]))"

definition LocAPIGetSingleTerrestrialPosRespMsg_fromPB :: "string \<Rightarrow>
    PBLocAPIGetSingleTerrestrialPosRespMsg \<Rightarrow> addr \<Rightarrow>
    LocAPIGetSingleTerrestrialPosRespMsg \<Rightarrow> pb_error + LocAPIGetSingleTerrestrialPosRespMsg"
    where
  "LocAPIGetSingleTerrestrialPosRespMsg_fromPB name pbLocGetTerrestrialPosResp pbMsgConv = construct
      name E_LOCAPI_GET_SINGLE_TERRESTRIAL_POS_RESP_MSG_ID pbMsgConv (through pbMsgConv (steps
    [assign (\<lambda>m. m\<lparr>LocAPIGetSingleTerrestrialPosRespMsg_mErrorCode :=
       getEnumForPBLocationError (PBLocAPIGetSingleTerrestrialPosRespMsg_errorCode
           pbLocGetTerrestrialPosResp),
       LocAPIGetSingleTerrestrialPosRespMsg_mLocation := Location_zero\<rparr>),
     (case PBLocAPIGetSingleTerrestrialPosRespMsg_location pbLocGetTerrestrialPosResp of
        None \<Rightarrow> steps []
      | Some l \<Rightarrow> sub_struct LocAPIGetSingleTerrestrialPosRespMsg_mLocation
          (\<lambda>v p. p\<lparr>LocAPIGetSingleTerrestrialPosRespMsg_mLocation := v\<rparr>)
              (pbConvertToLocation l))]))"

definition LocAPILocationIndMsg_fromPB :: "string \<Rightarrow> PBLocAPILocationIndMsg \<Rightarrow>
    addr \<Rightarrow> LocAPILocationIndMsg \<Rightarrow> pb_error + LocAPILocationIndMsg" where
  "LocAPILocationIndMsg_fromPB name pbLocApiLocIndMsg pbMsgConv = construct name
      E_LOCAPI_LOCATION_MSG_ID pbMsgConv (unless_null pbMsgConv (steps
    [sub_struct LocAPILocationIndMsg_locationNotification (\<lambda>v p.
        p\<lparr>LocAPILocationIndMsg_locationNotification := v\<rparr>)
       (pbConvertToLocation (PBLocAPILocationIndMsg_locationNotification pbLocApiLocIndMsg))]))"

definition LocAPIBatchingIndMsg_fromPB :: "string \<Rightarrow> PBLocAPIBatchingIndMsg \<Rightarrow>
    addr \<Rightarrow> LocAPIBatchingIndMsg \<Rightarrow> pb_error + LocAPIBatchingIndMsg" where
  "LocAPIBatchingIndMsg_fromPB name pbLocApiBatchingIndMsg pbMsgConv = construct name
      E_LOCAPI_BATCHING_MSG_ID pbMsgConv (unless_null pbMsgConv (steps
    [sub_struct LocAPIBatchingIndMsg_batchNotification (\<lambda>v p.
        p\<lparr>LocAPIBatchingIndMsg_batchNotification := v\<rparr>)
       (pbConvertToLocAPIBatchNotification (PBLocAPIBatchingIndMsg_batchNotification
           pbLocApiBatchingIndMsg))]))"

definition LocAPIGeofenceBreachIndMsg_fromPB :: "string \<Rightarrow> PBLocAPIGeofenceBreachIndMsg
    \<Rightarrow> addr \<Rightarrow> LocAPIGeofenceBreachIndMsg \<Rightarrow> pb_error +
    LocAPIGeofenceBreachIndMsg" where
  "LocAPIGeofenceBreachIndMsg_fromPB name pbLocApiGfBreachIndMsg pbMsgConv = construct name
      E_LOCAPI_GEOFENCE_BREACH_MSG_ID pbMsgConv (unless_null pbMsgConv (steps
    [sub_struct LocAPIGeofenceBreachIndMsg_gfBreachNotification (\<lambda>v p.
        p\<lparr>LocAPIGeofenceBreachIndMsg_gfBreachNotification := v\<rparr>)
       (pbConvertToLocAPIGfBreachNotification (PBLocAPIGeofenceBreachIndMsg_gfBreachNotification
           pbLocApiGfBreachIndMsg))]))"

definition LocAPILocationInfoIndMsg_fromPB :: "string \<Rightarrow> PBLocAPILocationInfoIndMsg
    \<Rightarrow> addr \<Rightarrow> LocAPILocationInfoIndMsg \<Rightarrow> pb_error +
    LocAPILocationInfoIndMsg" where
  "LocAPILocationInfoIndMsg_fromPB name pbLocApiLocInfoIndMsg pbMsgConv = construct name
      E_LOCAPI_LOCATION_INFO_MSG_ID pbMsgConv (unless_null pbMsgConv (steps
    [sub_struct LocAPILocationInfoIndMsg_gnssLocationInfoNotification (\<lambda>v p.
        p\<lparr>LocAPILocationInfoIndMsg_gnssLocationInfoNotification := v\<rparr>)
       (pbConvertToGnssLocInfoNotif (PBLocAPILocationInfoIndMsg_gnssLocationInfoNotification
           pbLocApiLocInfoIndMsg))]))"

definition LocAPIEngineLocationsInfoIndMsg_fromPB :: "string \<Rightarrow>
    PBLocAPIEngineLocationsInfoIndMsg \<Rightarrow> addr \<Rightarrow> LocAPIEngineLocationsInfoIndMsg
    \<Rightarrow> pb_error + LocAPIEngineLocationsInfoIndMsg" where
  "LocAPIEngineLocationsInfoIndMsg_fromPB name pbLocApiEngLocInfoIndMsg pbMsgConv = construct name
      E_LOCAPI_ENGINE_LOCATIONS_INFO_MSG_ID pbMsgConv (unless_null pbMsgConv (steps
    [assign (\<lambda>m. m\<lparr>LocAPIEngineLocationsInfoIndMsg_count := min (word_of_nat (length
        (PBLocAPIEngineLocationsInfoIndMsg_engineLocationsInfo pbLocApiEngLocInfoIndMsg))) (word_of_int
        LOC_OUTPUT_ENGINE_COUNT)\<rparr>),
     look (\<lambda>m. for_loop (unat (LocAPIEngineLocationsInfoIndMsg_count m)) (\<lambda>i.
       with_elem (PBLocAPIEngineLocationsInfoIndMsg_engineLocationsInfo pbLocApiEngLocInfoIndMsg) i
           (\<lambda>e1.
       at_index LocAPIEngineLocationsInfoIndMsg_engineLocationsInfo (\<lambda>v p.
           p\<lparr>LocAPIEngineLocationsInfoIndMsg_engineLocationsInfo := v\<rparr>) i
       (pbConvertToGnssLocInfoNotif e1))))]))"

definition LocAPISatelliteVehicleIndMsg_fromPB :: "string \<Rightarrow> PBLocAPISatelliteVehicleIndMsg
    \<Rightarrow> addr \<Rightarrow> LocAPISatelliteVehicleIndMsg \<Rightarrow> pb_error +
    LocAPISatelliteVehicleIndMsg" where
  "LocAPISatelliteVehicleIndMsg_fromPB name pbLocApiSatVehIndMsg pbMsgConv = construct name
      E_LOCAPI_SATELLITE_VEHICLE_MSG_ID pbMsgConv (unless_null pbMsgConv (steps
    [sub_struct LocAPISatelliteVehicleIndMsg_gnssSvNotification (\<lambda>v p.
        p\<lparr>LocAPISatelliteVehicleIndMsg_gnssSvNotification := v\<rparr>)
       (pbConvertToGnssSvNotif (PBLocAPISatelliteVehicleIndMsg_gnssSvNotification
           pbLocApiSatVehIndMsg))]))"

definition LocAPINmeaIndMsg_fromPB :: "string \<Rightarrow> PBLocAPINmeaIndMsg \<Rightarrow> addr
    \<Rightarrow> LocAPINmeaIndMsg \<Rightarrow> pb_error + LocAPINmeaIndMsg" where
  "LocAPINmeaIndMsg_fromPB name pbLocApiNmeaIndMsg pbMsgConv = construct name E_LOCAPI_NMEA_MSG_ID
      pbMsgConv (unless_null pbMsgConv (steps
    [sub_struct LocAPINmeaIndMsg_gnssNmeaNotification (\<lambda>v p.
        p\<lparr>LocAPINmeaIndMsg_gnssNmeaNotification := v\<rparr>)
       (pbConvertToLocAPINmeaSerializedPayload (PBLocAPINmeaIndMsg_gnssNmeaNotification
           pbLocApiNmeaIndMsg))]))"

definition LocAPIDataIndMsg_fromPB :: "string \<Rightarrow> PBLocAPIDataIndMsg \<Rightarrow> addr
    \<Rightarrow> LocAPIDataIndMsg \<Rightarrow> pb_error + LocAPIDataIndMsg" where
  "LocAPIDataIndMsg_fromPB name pbLocApiDataIndMsg pbMsgConv = construct name E_LOCAPI_DATA_MSG_ID
      pbMsgConv (unless_null pbMsgConv (steps
    [sub_struct LocAPIDataIndMsg_gnssDataNotification (\<lambda>v p.
        p\<lparr>LocAPIDataIndMsg_gnssDataNotification := v\<rparr>)
       (pbConvertToGnssDataNotification (PBLocAPIDataIndMsg_gnssDataNotification pbLocApiDataIndMsg))]))"

definition LocAPIMeasIndMsg_fromPB :: "string \<Rightarrow> PBLocAPIMeasIndMsg \<Rightarrow> addr
    \<Rightarrow> LocAPIMeasIndMsg \<Rightarrow> pb_error + LocAPIMeasIndMsg" where
  "LocAPIMeasIndMsg_fromPB name pbLocApiMeasIndMsg pbMsgConv = construct name E_LOCAPI_MEAS_MSG_ID
      pbMsgConv (unless_null pbMsgConv (steps
    [sub_struct LocAPIMeasIndMsg_gnssMeasurementsNotification (\<lambda>v p.
        p\<lparr>LocAPIMeasIndMsg_gnssMeasurementsNotification := v\<rparr>)
       (pbConvertToGnssMeasNotification (PBLocAPIMeasIndMsg_gnssMeasurementsNotification
           pbLocApiMeasIndMsg))]))"

definition LocAPIGnssEnergyConsumedIndMsg_fromPB :: "string \<Rightarrow>
    PBLocAPIGnssEnergyConsumedIndMsg \<Rightarrow> addr \<Rightarrow> LocAPIGnssEnergyConsumedIndMsg
    \<Rightarrow> pb_error + LocAPIGnssEnergyConsumedIndMsg" where
  "LocAPIGnssEnergyConsumedIndMsg_fromPB name pbLocApiGnssEnrgyConsmdIndMsg pbMsgConv = construct name
      E_LOCAPI_GET_GNSS_ENGERY_CONSUMED_MSG_ID pbMsgConv ((steps
    [assign (\<lambda>m. m\<lparr>LocAPIGnssEnergyConsumedIndMsg_totalGnssEnergyConsumedSinceFirstBoot
        := PBLocAPIGnssEnergyConsumedIndMsg_totalGnssEnergyConsumedSinceFirstBoot
        pbLocApiGnssEnrgyConsmdIndMsg\<rparr>)]))"

definition LocAPILocationSystemInfoIndMsg_fromPB :: "string \<Rightarrow>
    PBLocAPILocationSystemInfoIndMsg \<Rightarrow> addr \<Rightarrow> LocAPILocationSystemInfoIndMsg
    \<Rightarrow> pb_error + LocAPILocationSystemInfoIndMsg" where
  "LocAPILocationSystemInfoIndMsg_fromPB name pbLocApiLocSysInfoIndMsg pbMsgConv = construct name
      E_LOCAPI_LOCATION_SYSTEM_INFO_MSG_ID pbMsgConv (unless_null pbMsgConv (steps
    [sub_struct LocAPILocationSystemInfoIndMsg_locationSystemInfo (\<lambda>v p.
        p\<lparr>LocAPILocationSystemInfoIndMsg_locationSystemInfo := v\<rparr>)
       (pbConvertToLocationSystemInfo (PBLocAPILocationSystemInfoIndMsg_locationSystemInfo
           pbLocApiLocSysInfoIndMsg))]))"

definition LocConfigConstrainedTuncReqMsg_fromPB :: "string \<Rightarrow>
    PBLocConfigConstrainedTuncReqMsg \<Rightarrow> addr \<Rightarrow> LocConfigConstrainedTuncReqMsg
    \<Rightarrow> pb_error + LocConfigConstrainedTuncReqMsg" where
  "LocConfigConstrainedTuncReqMsg_fromPB name pbConfigConstrTuncReqMsg pbMsgConv = construct name
      E_INTAPI_CONFIG_CONSTRAINTED_TUNC_MSG_ID pbMsgConv ((steps
    [assign (\<lambda>m. m\<lparr>LocConfigConstrainedTuncReqMsg_mEnable :=
        PBLocConfigConstrainedTuncReqMsg_mEnable pbConfigConstrTuncReqMsg,
       LocConfigConstrainedTuncReqMsg_mTuncConstraint :=
           PBLocConfigConstrainedTuncReqMsg_mTuncConstraint pbConfigConstrTuncReqMsg,
       LocConfigConstrainedTuncReqMsg_mEnergyBudget := PBLocConfigConstrainedTuncReqMsg_mEnergyBudget
           pbConfigConstrTuncReqMsg\<rparr>)]))"

definition LocConfigPositionAssistedClockEstimatorReqMsg_fromPB :: "string \<Rightarrow>
    PBLocConfigPositionAssistedClockEstimatorReqMsg \<Rightarrow> addr \<Rightarrow>
    LocConfigPositionAssistedClockEstimatorReqMsg \<Rightarrow> pb_error +
    LocConfigPositionAssistedClockEstimatorReqMsg" where
  "LocConfigPositionAssistedClockEstimatorReqMsg_fromPB name pbLocConfPosAsstdClkEstReqMsg pbMsgConv =
      construct name E_INTAPI_CONFIG_POSITION_ASSISTED_CLOCK_ESTIMATOR_MSG_ID pbMsgConv ((steps
    [assign (\<lambda>m. m\<lparr>LocConfigPositionAssistedClockEstimatorReqMsg_mEnable :=
        PBLocConfigPositionAssistedClockEstimatorReqMsg_mEnable
        pbLocConfPosAsstdClkEstReqMsg\<rparr>)]))"

definition LocConfigSvConstellationReqMsg_fromPB :: "string \<Rightarrow>
    PBLocConfigSvConstellationReqMsg \<Rightarrow> addr \<Rightarrow> LocConfigSvConstellationReqMsg
    \<Rightarrow> pb_error + LocConfigSvConstellationReqMsg" where
  "LocConfigSvConstellationReqMsg_fromPB name pbConfigSvConstReqMsg pbMsgConv = construct name
      E_INTAPI_CONFIG_SV_CONSTELLATION_MSG_ID pbMsgConv (unless_null pbMsgConv (steps
    [sub_struct LocConfigSvConstellationReqMsg_mConstellationEnablementConfig
       (\<lambda>v p. p\<lparr>LocConfigSvConstellationReqMsg_mConstellationEnablementConfig :=
           v\<rparr>)
       (pbConvertToGnssSvTypeConfig (PBLocConfigSvConstellationReqMsg_mConstellationEnablementConfig
         pbConfigSvConstReqMsg)),
     sub_struct LocConfigSvConstellationReqMsg_mBlacklistSvConfig
       (\<lambda>v p. p\<lparr>LocConfigSvConstellationReqMsg_mBlacklistSvConfig := v\<rparr>)
       (pbConvertToGnssSvIdConfig (PBLocConfigSvConstellationReqMsg_mBlacklistSvConfig
           pbConfigSvConstReqMsg)),
     sub_struct LocConfigSvConstellationReqMsg_mConstellationEnablementConfig
       (\<lambda>v p. p\<lparr>LocConfigSvConstellationReqMsg_mConstellationEnablementConfig :=
           v\<rparr>)
       (assign (\<lambda>c. c\<lparr>GnssSvTypeConfig_size :=
         if PBLocConfigSvConstellationReqMsg_mResetToDefault pbConfigSvConstReqMsg then 0 else
             sizeof_GnssSvTypeConfig\<rparr>)),
     sub_struct LocConfigSvConstellationReqMsg_mBlacklistSvConfig
       (\<lambda>v p. p\<lparr>LocConfigSvConstellationReqMsg_mBlacklistSvConfig := v\<rparr>)
       (assign (\<lambda>c. c\<lparr>GnssSvIdConfig_size := sizeof_GnssSvIdConfig\<rparr>))]))"

definition LocConfigConstellationSecondaryBandReqMsg_fromPB :: "string \<Rightarrow>
    PBLocConfigConstellationSecondaryBandReqMsg \<Rightarrow> addr \<Rightarrow>
    LocConfigConstellationSecondaryBandReqMsg \<Rightarrow> pb_error +
    LocConfigConstellationSecondaryBandReqMsg" where
  "LocConfigConstellationSecondaryBandReqMsg_fromPB name pbConfigConstSecBandReq pbMsgConv = construct
      name E_INTAPI_CONFIG_CONSTELLATION_SECONDARY_BAND_MSG_ID pbMsgConv (unless_null pbMsgConv (steps
    [sub_struct LocConfigConstellationSecondaryBandReqMsg_mSecondaryBandConfig (\<lambda>v p.
        p\<lparr>LocConfigConstellationSecondaryBandReqMsg_mSecondaryBandConfig := v\<rparr>)
       (pbConvertToGnssSvTypeConfig (PBLocConfigConstellationSecondaryBandReqMsg_mSecondaryBandConfig
           pbConfigConstSecBandReq))]))"

definition LocConfigAidingDataDeletionReqMsg_fromPB :: "string \<Rightarrow>
    PBLocConfigAidingDataDeletionReqMsg \<Rightarrow> addr \<Rightarrow>
    LocConfigAidingDataDeletionReqMsg \<Rightarrow> pb_error + LocConfigAidingDataDeletionReqMsg" where
  "LocConfigAidingDataDeletionReqMsg_fromPB name pbConfigAidDataDelReqMsg pbMsgConv = construct name
      E_INTAPI_CONFIG_AIDING_DATA_DELETION_MSG_ID pbMsgConv (unless_null pbMsgConv (steps
    [sub_struct LocConfigAidingDataDeletionReqMsg_mAidingData (\<lambda>v p.
        p\<lparr>LocConfigAidingDataDeletionReqMsg_mAidingData := v\<rparr>)
       (pbConvertToGnssAidingData (PBLocConfigAidingDataDeletionReqMsg_mAidingData
           pbConfigAidDataDelReqMsg))]))"

definition LocConfigLeverArmReqMsg_fromPB :: "string \<Rightarrow> PBLocConfigLeverArmReqMsg
    \<Rightarrow> addr \<Rightarrow> LocConfigLeverArmReqMsg \<Rightarrow> pb_error +
    LocConfigLeverArmReqMsg" where
  "LocConfigLeverArmReqMsg_fromPB name pbConfigLeverArmReqMsg pbMsgConv = construct name
      E_INTAPI_CONFIG_LEVER_ARM_MSG_ID pbMsgConv (unless_null pbMsgConv (steps
    [sub_struct LocConfigLeverArmReqMsg_mLeverArmConfigInfo (\<lambda>v p.
        p\<lparr>LocConfigLeverArmReqMsg_mLeverArmConfigInfo := v\<rparr>)
       (pbConvertToLeverArmConfigInfo (PBLocConfigLeverArmReqMsg_mLeverArmConfigInfo
           pbConfigLeverArmReqMsg))]))"

definition LocConfigRobustLocationReqMsg_fromPB :: "string \<Rightarrow> PBLocConfigRobustLocationReqMsg
    \<Rightarrow> addr \<Rightarrow> LocConfigRobustLocationReqMsg \<Rightarrow> pb_error +
    LocConfigRobustLocationReqMsg" where
  "LocConfigRobustLocationReqMsg_fromPB name pbConfigRobustLocReqMsg pbMsgConv = construct name
      E_INTAPI_CONFIG_ROBUST_LOCATION_MSG_ID pbMsgConv ((steps
    [assign (\<lambda>m. m\<lparr>LocConfigRobustLocationReqMsg_mEnable :=
        PBLocConfigRobustLocationReqMsg_mEnable pbConfigRobustLocReqMsg,
       LocConfigRobustLocationReqMsg_mEnableForE911 := PBLocConfigRobustLocationReqMsg_mEnableForE911
           pbConfigRobustLocReqMsg\<rparr>)]))"

definition LocConfigMinGpsWeekReqMsg_fromPB :: "string \<Rightarrow> PBLocConfigMinGpsWeekReqMsg
    \<Rightarrow> addr \<Rightarrow> LocConfigMinGpsWeekReqMsg \<Rightarrow> pb_error +
    LocConfigMinGpsWeekReqMsg" where
  "LocConfigMinGpsWeekReqMsg_fromPB name pbConfigMinGpsWeekReqMsg pbMsgConv = construct name
      E_INTAPI_CONFIG_MIN_GPS_WEEK_MSG_ID pbMsgConv ((steps
    [assign (\<lambda>m. m\<lparr>LocConfigMinGpsWeekReqMsg_mMinGpsWeek := ucast
        (PBLocConfigMinGpsWeekReqMsg_mMinGpsWeek pbConfigMinGpsWeekReqMsg)\<rparr>)]))"

definition LocConfigDrEngineParamsReqMsg_fromPB :: "string \<Rightarrow> PBLocConfigDrEngineParamsReqMsg
    \<Rightarrow> addr \<Rightarrow> LocConfigDrEngineParamsReqMsg \<Rightarrow> pb_error +
    LocConfigDrEngineParamsReqMsg" where
  "LocConfigDrEngineParamsReqMsg_fromPB name pbConfigDrEngineParamsReqMsg pbMsgConv = construct name
      E_INTAPI_CONFIG_DEAD_RECKONING_ENGINE_MSG_ID pbMsgConv (unless_null pbMsgConv (steps
    [sub_struct LocConfigDrEngineParamsReqMsg_mDreConfig (\<lambda>v p.
        p\<lparr>LocConfigDrEngineParamsReqMsg_mDreConfig := v\<rparr>)
       (pbConvertToDeadReckoningEngineConfig (PBLocConfigDrEngineParamsReqMsg_mDreConfig
           pbConfigDrEngineParamsReqMsg))]))"

definition LocConfigMinSvElevationReqMsg_fromPB :: "string \<Rightarrow> PBLocConfigMinSvElevationReqMsg
    \<Rightarrow> addr \<Rightarrow> LocConfigMinSvElevationReqMsg \<Rightarrow> pb_error +
    LocConfigMinSvElevationReqMsg" where
  "LocConfigMinSvElevationReqMsg_fromPB name pbConfigMinSvElevReqMsg pbMsgConv = construct name
      E_INTAPI_CONFIG_MIN_SV_ELEVATION_MSG_ID pbMsgConv ((steps
    [assign (\<lambda>m. m\<lparr>LocConfigMinSvElevationReqMsg_mMinSvElevation := ucast
        (PBLocConfigMinSvElevationReqMsg_mMinSvElevation pbConfigMinSvElevReqMsg)\<rparr>)]))"

definition LocConfigEngineRunStateReqMsg_fromPB :: "string \<Rightarrow> PBLocConfigEngineRunStateReqMsg
    \<Rightarrow> addr \<Rightarrow> LocConfigEngineRunStateReqMsg \<Rightarrow> pb_error +
    LocConfigEngineRunStateReqMsg" where
  "LocConfigEngineRunStateReqMsg_fromPB name pbConfigEngineRunStateReqMsg pbMsgConv = construct name
      E_INTAPI_CONFIG_ENGINE_RUN_STATE_MSG_ID pbMsgConv (through pbMsgConv (steps
    [assign (\<lambda>m. m\<lparr>LocConfigEngineRunStateReqMsg_mEngType :=
        getEnumForPBPositioningEngineMask (word_of_int (PBLocConfigEngineRunStateReqMsg_mEngType
        pbConfigEngineRunStateReqMsg)),
       LocConfigEngineRunStateReqMsg_mEngState := getEnumForPBLocEngineRunState
           (PBLocConfigEngineRunStateReqMsg_mEngState pbConfigEngineRunStateReqMsg)\<rparr>)]))"

definition LocConfigUserConsentTerrestrialPositioningReqMsg_fromPB :: "string \<Rightarrow>
    PBLocConfigUserConsentTerrestrialPositioningReqMsg \<Rightarrow> addr \<Rightarrow>
    LocConfigUserConsentTerrestrialPositioningReqMsg \<Rightarrow> pb_error +
    LocConfigUserConsentTerrestrialPositioningReqMsg" where
  "LocConfigUserConsentTerrestrialPositioningReqMsg_fromPB name pbMsg pbMsgConv = construct name
      E_INTAPI_CONFIG_USER_CONSENT_TERRESTRIAL_POSITIONING_MSG_ID pbMsgConv ((steps
    [assign (\<lambda>m. m\<lparr>LocConfigUserConsentTerrestrialPositioningReqMsg_mUserConsent :=
        PBLocConfigUserConsentTerrestrialPositioningReqMsg_userConsent pbMsg\<rparr>)]))"

definition LocConfigGetRobustLocationConfigRespMsg_fromPB :: "string \<Rightarrow>
    PBLocConfigGetRobustLocationConfigRespMsg \<Rightarrow> addr \<Rightarrow>
    LocConfigGetRobustLocationConfigRespMsg \<Rightarrow> pb_error +
    LocConfigGetRobustLocationConfigRespMsg" where
  "LocConfigGetRobustLocationConfigRespMsg_fromPB name pbLocConfigGetRobustLocationRsp pbMsgConv =
      construct name E_INTAPI_GET_ROBUST_LOCATION_CONFIG_RESP_MSG_ID pbMsgConv (unless_null pbMsgConv
      (steps
    [sub_struct LocConfigGetRobustLocationConfigRespMsg_mRobustLoationConfig (\<lambda>v p.
        p\<lparr>LocConfigGetRobustLocationConfigRespMsg_mRobustLoationConfig := v\<rparr>)
       (pbConvertToGnssConfigRobustLocation
           (PBLocConfigGetRobustLocationConfigRespMsg_mRobustLoationConfig
           pbLocConfigGetRobustLocationRsp))]))"

definition LocConfigGetMinGpsWeekRespMsg_fromPB :: "string \<Rightarrow> PBLocConfigGetMinGpsWeekRespMsg
    \<Rightarrow> addr \<Rightarrow> LocConfigGetMinGpsWeekRespMsg \<Rightarrow> pb_error +
    LocConfigGetMinGpsWeekRespMsg" where
  "LocConfigGetMinGpsWeekRespMsg_fromPB name pbLocConfigGetMinGpsWeekRsp pbMsgConv = construct name
      E_INTAPI_GET_MIN_GPS_WEEK_RESP_MSG_ID pbMsgConv ((steps
    [assign (\<lambda>m. m\<lparr>LocConfigGetMinGpsWeekRespMsg_mMinGpsWeek := ucast
        (PBLocConfigGetMinGpsWeekRespMsg_mMinGpsWeek pbLocConfigGetMinGpsWeekRsp)\<rparr>)]))"

definition LocConfigGetMinSvElevationRespMsg_fromPB :: "string \<Rightarrow>
    PBLocConfigGetMinSvElevationRespMsg \<Rightarrow> addr \<Rightarrow>
    LocConfigGetMinSvElevationRespMsg \<Rightarrow> pb_error + LocConfigGetMinSvElevationRespMsg" where
  "LocConfigGetMinSvElevationRespMsg_fromPB name pbLocConfigGetMinSvElevRsp pbMsgConv = construct name
      E_INTAPI_GET_MIN_SV_ELEVATION_RESP_MSG_ID pbMsgConv ((steps
    [assign (\<lambda>m. m\<lparr>LocConfigGetMinSvElevationRespMsg_mMinSvElevation := ucast
        (PBLocConfigGetMinSvElevationRespMsg_mMinSvElevation pbLocConfigGetMinSvElevRsp)\<rparr>)]))"

definition LocConfigGetConstellationSecondaryBandConfigRespMsg_fromPB :: "string \<Rightarrow>
    PBLocConfigGetConstltnSecondaryBandConfigRespMsg \<Rightarrow> addr \<Rightarrow>
    LocConfigGetConstellationSecondaryBandConfigRespMsg \<Rightarrow> pb_error +
    LocConfigGetConstellationSecondaryBandConfigRespMsg" where
  "LocConfigGetConstellationSecondaryBandConfigRespMsg_fromPB name pbCfgGetConstSecBandCfgResp pbMsgConv
      = construct name E_INTAPI_GET_CONSTELLATION_SECONDARY_BAND_CONFIG_RESP_MSG_ID pbMsgConv (through
      pbMsgConv (steps
    [sub_struct LocConfigGetConstellationSecondaryBandConfigRespMsg_mSecondaryBandConfig (\<lambda>v p.
        p\<lparr>LocConfigGetConstellationSecondaryBandConfigRespMsg_mSecondaryBandConfig := v\<rparr>)
       (pbConvertToGnssSvTypeConfig
           (PBLocConfigGetConstltnSecondaryBandConfigRespMsg_mSecondaryBandConfig
           pbCfgGetConstSecBandCfgResp))]))"

definition LocAPIPingTestReqMsg_fromPB :: "string \<Rightarrow> PBLocAPIPingTestReqMsg \<Rightarrow>
    addr \<Rightarrow> LocAPIPingTestReqMsg \<Rightarrow> pb_error + LocAPIPingTestReqMsg" where
  "LocAPIPingTestReqMsg_fromPB name pbPingTestReqMsg pbMsgConv = construct name E_LOCAPI_PINGTEST_MSG_ID
      pbMsgConv ((steps
    [for_loop (unat ((min (PBLocAPIPingTestReqMsg_numberOfPing pbPingTestReqMsg)
        LOCATION_REMOTE_API_PINGTEST_SIZE))) (\<lambda>i.
       with_elem (PBLocAPIPingTestReqMsg_data pbPingTestReqMsg) i (\<lambda>e1.
       at_index LocAPIPingTestReqMsg_data (\<lambda>v p. p\<lparr>LocAPIPingTestReqMsg_data :=
           v\<rparr>) i
       (assign (\<lambda>_. ucast (e1)))))]))"

definition LocAPIPingTestIndMsg_fromPB :: "string \<Rightarrow> PBLocAPIPingTestIndMsg \<Rightarrow>
    addr \<Rightarrow> LocAPIPingTestIndMsg \<Rightarrow> pb_error + LocAPIPingTestIndMsg" where
  "LocAPIPingTestIndMsg_fromPB name pbLocApiPingTestIndMsg pbMsgConv = construct name
      E_LOCAPI_PINGTEST_MSG_ID pbMsgConv ((steps
    [for_loop (unat ((min (PBLocAPIPingTestIndMsg_numberOfPing pbLocApiPingTestIndMsg)
        LOCATION_REMOTE_API_PINGTEST_SIZE))) (\<lambda>i.
       with_elem (PBLocAPIPingTestIndMsg_data pbLocApiPingTestIndMsg) i (\<lambda>e1.
       at_index LocAPIPingTestIndMsg_data (\<lambda>v p. p\<lparr>LocAPIPingTestIndMsg_data :=
           v\<rparr>) i
       (assign (\<lambda>_. ucast (e1)))))]))"

end
