(* ===== verification/HalTypes.thy ===== *)
theory HalTypes
  imports PbApiMsg "HOL-Library.AList"
begin

text \<open>
  The location HAL daemon (src/location/location_hal_daemon): the data of \<^verbatim>\<open>LocationApiService\<close> and of the handler it
  keeps for each client, \<^verbatim>\<open>LocHalDaemonClientHandler\<close>, and what the daemon uses of its environment.

  The handlers live in a store and \<^verbatim>\<open>mClients\<close> holds their addresses, so that a handler whose client is gone can be told
  from one that is still registered.  Every call that leaves the daemon is appended to \<^verbatim>\<open>calls\<close>; what it returns is a
  function of the calls made so far, so that the environment may answer in any way.  The callbacks of the interfaces
  below the daemon are events of their own (theory HalService).
\<close>

section \<open>The structures of LocationDataTypes.h\<close>

record TrackingOptions = LocationOptions +
  TrackingOptions_powerMode :: int
  TrackingOptions_tbm :: "32 word"

record BatchingOptions = LocationOptions +
  BatchingOptions_batchingMode :: int

definition sizeof_TrackingOptions :: "32 word" where "sizeof_TrackingOptions = 28"
definition sizeof_BatchingOptions :: "32 word" where "sizeof_BatchingOptions = 24"

definition new_LocationOptions :: LocationOptions where
  "new_LocationOptions = \<lparr>LocationOptions_size = 0, LocationOptions_minInterval = 0, LocationOptions_minDistance = 0,
     LocationOptions_mode = GNSS_SUPL_MODE_STANDALONE, LocationOptions_locReqEngTypeMask = 0\<rparr>"

text \<open>\<^verbatim>\<open>GNSS_POWER_MODE_INVALID\<close> is 0.\<close>

definition to_TrackingOptions :: "LocationOptions \<Rightarrow> TrackingOptions" where
  "to_TrackingOptions options = LocationOptions.extend options (TrackingOptions.fields 0 0)"

definition new_TrackingOptions :: TrackingOptions where
  "new_TrackingOptions = to_TrackingOptions new_LocationOptions"

definition TrackingOptions_setLocationOptions :: "LocationOptions \<Rightarrow> TrackingOptions \<Rightarrow> TrackingOptions" where
  "TrackingOptions_setLocationOptions options t = t\<lparr>LocationOptions_size := sizeof_TrackingOptions,
     LocationOptions_minInterval := LocationOptions_minInterval options,
     LocationOptions_minDistance := LocationOptions_minDistance options,
     LocationOptions_mode := LocationOptions_mode options,
     LocationOptions_locReqEngTypeMask := LocationOptions_locReqEngTypeMask options\<rparr>"

definition new_BatchingOptions :: BatchingOptions where
  "new_BatchingOptions = LocationOptions.extend new_LocationOptions (BatchingOptions.fields BATCHING_MODE_ROUTINE)"

definition BatchingOptions_setLocationOptions :: "LocationOptions \<Rightarrow> BatchingOptions \<Rightarrow> BatchingOptions" where
  "BatchingOptions_setLocationOptions options b = b\<lparr>LocationOptions_minInterval := LocationOptions_minInterval options,
     LocationOptions_minDistance := LocationOptions_minDistance options,
     LocationOptions_mode := LocationOptions_mode options\<rparr>"

text \<open>Of the callbacks only whether they are set.\<close>

record LocationCallbacks =
  capabilitiesCb :: bool
  responseCb :: bool
  collectiveResponseCb :: bool
  trackingCb :: bool
  batchingCb :: bool
  geofenceBreachCb :: bool
  geofenceStatusCb :: bool
  gnssLocationInfoCb :: bool
  gnssNiCb :: bool
  gnssSvCb :: bool
  gnssNmeaCb :: bool
  gnssDataCb :: bool
  gnssMeasurementsCb :: bool
  batchingStatusCb :: bool
  locationSystemInfoCb :: bool
  engineLocationsInfoCb :: bool

definition no_callbacks :: LocationCallbacks where
  "no_callbacks = \<lparr>capabilitiesCb = False, responseCb = False, collectiveResponseCb = False, trackingCb = False,
     batchingCb = False, geofenceBreachCb = False, geofenceStatusCb = False, gnssLocationInfoCb = False, gnssNiCb = False,
     gnssSvCb = False, gnssNmeaCb = False, gnssDataCb = False, gnssMeasurementsCb = False, batchingStatusCb = False,
     locationSystemInfoCb = False, engineLocationsInfoCb = False\<rparr>"

record GnssSvIdSource =
  GnssSvIdSource_size :: "32 word"
  GnssSvIdSource_constellation :: int
  GnssSvIdSource_svId :: "32 word"

record GnssConfigSetAssistanceServer =
  GnssConfigSetAssistanceServer_size :: "32 word"
  GnssConfigSetAssistanceServer_type :: int
  GnssConfigSetAssistanceServer_hostName :: "string option"
  GnssConfigSetAssistanceServer_port :: "32 word"

record GnssConfig =
  GnssConfig_size :: "32 word"
  GnssConfig_flags :: "32 word"
  GnssConfig_gpsLock :: "32 word"
  GnssConfig_suplVersion :: int
  GnssConfig_assistanceServer :: GnssConfigSetAssistanceServer
  GnssConfig_lppProfileMask :: "16 word"
  GnssConfig_lppeControlPlaneMask :: "16 word"
  GnssConfig_lppeUserPlaneMask :: "16 word"
  GnssConfig_aGlonassPositionProtocolMask :: "16 word"
  GnssConfig_emergencyPdnForEmergencySupl :: int
  GnssConfig_suplEmergencyServices :: int
  GnssConfig_suplModeMask :: "16 word"
  GnssConfig_blacklistedSvIds :: "GnssSvIdSource list"
  GnssConfig_emergencyExtensionSeconds :: "32 word"
  GnssConfig_robustLocationConfig :: GnssConfigRobustLocation
  GnssConfig_minGpsWeek :: "16 word"
  GnssConfig_minSvElevation :: "8 word"
  GnssConfig_secondaryBandConfig :: GnssSvTypeConfig

text \<open>\<^verbatim>\<open>GnssConfig gnssConfig = {}\<close>.\<close>

definition GnssConfig_zero :: GnssConfig where
  "GnssConfig_zero = \<lparr>GnssConfig_size = 0, GnssConfig_flags = 0, GnssConfig_gpsLock = 0, GnssConfig_suplVersion = 0,
     GnssConfig_assistanceServer = \<lparr>GnssConfigSetAssistanceServer_size = 0, GnssConfigSetAssistanceServer_type = 0,
       GnssConfigSetAssistanceServer_hostName = None, GnssConfigSetAssistanceServer_port = 0\<rparr>,
     GnssConfig_lppProfileMask = 0, GnssConfig_lppeControlPlaneMask = 0, GnssConfig_lppeUserPlaneMask = 0,
     GnssConfig_aGlonassPositionProtocolMask = 0, GnssConfig_emergencyPdnForEmergencySupl = 0,
     GnssConfig_suplEmergencyServices = 0, GnssConfig_suplModeMask = 0, GnssConfig_blacklistedSvIds = [],
     GnssConfig_emergencyExtensionSeconds = 0,
     GnssConfig_robustLocationConfig = \<lparr>GnssConfigRobustLocation_validMask = 0, GnssConfigRobustLocation_enabled = False,
       GnssConfigRobustLocation_enabledForE911 = False,
       GnssConfigRobustLocation_version = \<lparr>GnssConfigRobustLocationVersion_major = 0, GnssConfigRobustLocationVersion_minor = 0\<rparr>\<rparr>,
     GnssConfig_minGpsWeek = 0, GnssConfig_minSvElevation = 0,
     GnssConfig_secondaryBandConfig = \<lparr>GnssSvTypeConfig_size = 0, GnssSvTypeConfig_enabledSvTypesMask = 0,
       GnssSvTypeConfig_blacklistedSvTypesMask = 0\<rparr>\<rparr>"

abbreviation (input) GNSS_CONFIG_FLAGS_ROBUST_LOCATION_BIT :: "32 word" where "GNSS_CONFIG_FLAGS_ROBUST_LOCATION_BIT \<equiv> 4096"
abbreviation (input) GNSS_CONFIG_FLAGS_MIN_GPS_WEEK_BIT :: "32 word" where "GNSS_CONFIG_FLAGS_MIN_GPS_WEEK_BIT \<equiv> 8192"
abbreviation (input) GNSS_CONFIG_FLAGS_MIN_SV_ELEVATION_BIT :: "32 word" where "GNSS_CONFIG_FLAGS_MIN_SV_ELEVATION_BIT \<equiv> 16384"
abbreviation (input) GNSS_CONFIG_FLAGS_CONSTELLATION_SECONDARY_BAND_BIT :: "32 word" where
  "GNSS_CONFIG_FLAGS_CONSTELLATION_SECONDARY_BAND_BIT \<equiv> 32768"
abbreviation (input) E_ENGINE_INFO_CB_GNSS_ENERGY_CONSUMED_BIT :: "32 word" where "E_ENGINE_INFO_CB_GNSS_ENERGY_CONSUMED_BIT \<equiv> 1"

abbreviation (input) POWER_STATE_UNKNOWN :: int where "POWER_STATE_UNKNOWN \<equiv> 0"
abbreviation (input) POWER_STATE_SUSPEND :: int where "POWER_STATE_SUSPEND \<equiv> 1"
abbreviation (input) POWER_STATE_RESUME :: int where "POWER_STATE_RESUME \<equiv> 2"
abbreviation (input) POWER_STATE_SHUTDOWN :: int where "POWER_STATE_SHUTDOWN \<equiv> 3"

section \<open>The environment\<close>

text \<open>The calls that leave the daemon.  A call of an instance of the location API names the handler that owns it.\<close>

datatype control_request =
    ConstrainedTunc bool "32 word" "32 word"
  | PositionAssistedClockEstimator bool
  | Constellations GnssSvTypeConfig GnssSvIdConfig
  | ConstellationSecondaryBand GnssSvTypeConfig
  | DeleteAidingData GnssAidingData
  | LeverArm LeverArmConfigInfo
  | RobustLocation bool bool
  | MinGpsWeek "16 word"
  | DeadReckoningEngineParams DeadReckoningEngineConfig
  | EngineRunState "32 word" int
  | SetOptInStatus bool
  | UpdateConfig GnssConfig
  | GetConfig "32 word"

datatype hal_call =
    CreateSender string
  | CreateInstance addr LocationCallbacks
  | UpdateCallbacks addr LocationCallbacks
  | StartTracking addr TrackingOptions
  | StopTracking addr "32 word"
  | UpdateTrackingOptions addr "32 word" TrackingOptions
  | StartBatching addr BatchingOptions
  | StopBatching addr "32 word"
  | UpdateBatchingOptions addr "32 word" BatchingOptions
  | AddGeofences addr "GeofenceOption list" "GeofenceInfo list"
  | RemoveGeofences addr "32 word list"
  | ModifyGeofences addr "32 word list" "GeofenceOption list"
  | PauseGeofences addr "32 word list"
  | ResumeGeofences addr "32 word list"
  | Destroy addr
  | RemoveFile string
  | Send addr string
  | SendTo string string
  | Malloc
  | CreateControlInstance
  | Enable
  | Disable "32 word"
  | DestroyControl
  | Control control_request
  | LoadGnssInterface
  | GetGnssInterface
  | UpdateConnectionStatus bool
  | GetGnssEnergyConsumed
  | GetSecondaryBandConfig
  | UpdateSystemPowerState int
  | CreateNetworkInstance
  | EnableNetworkProvider
  | StartNetworkLocation
  | StopNetworkLocation
  | StartMaintTimer

text \<open>
  The protobuf library: a reader gives what \<^verbatim>\<open>ParseFromString\<close> makes of a payload, with the contents of the stack
  memory in which the code then constructs the message object.
\<close>

record pb_reader =
  read_header :: "string \<Rightarrow> PBLocAPIMsgHeader option"
  read_LocAPIClientRegisterReqMsg ::
    "string \<Rightarrow> (PBLocAPIClientRegisterReqMsg \<times> LocAPIClientRegisterReqMsg) option"
  read_LocAPIStartTrackingReqMsg ::
    "string \<Rightarrow> (PBLocAPIStartTrackingReqMsg \<times> LocAPIStartTrackingReqMsg) option"
  read_LocAPIUpdateCallbacksReqMsg ::
    "string \<Rightarrow> (PBLocAPIUpdateCallbacksReqMsg \<times> LocAPIUpdateCallbacksReqMsg) option"
  read_LocAPIUpdateTrackingOptionsReqMsg ::
    "string \<Rightarrow> (PBLocAPIUpdateTrackingOptionsReqMsg \<times> LocAPIUpdateTrackingOptionsReqMsg) option"
  read_LocAPIStartBatchingReqMsg ::
    "string \<Rightarrow> (PBLocAPIStartBatchingReqMsg \<times> LocAPIStartBatchingReqMsg) option"
  read_LocAPIUpdateBatchingOptionsReqMsg ::
    "string \<Rightarrow> (PBLocAPIUpdateBatchingOptionsReqMsg \<times> LocAPIUpdateBatchingOptionsReqMsg) option"
  read_LocAPIAddGeofencesReqMsg ::
    "string \<Rightarrow> (PBLocAPIAddGeofencesReqMsg \<times> LocAPIAddGeofencesReqMsg) option"
  read_LocAPIRemoveGeofencesReqMsg ::
    "string \<Rightarrow> (PBLocAPIRemoveGeofencesReqMsg \<times> LocAPIRemoveGeofencesReqMsg) option"
  read_LocAPIModifyGeofencesReqMsg ::
    "string \<Rightarrow> (PBLocAPIModifyGeofencesReqMsg \<times> LocAPIModifyGeofencesReqMsg) option"
  read_LocAPIPauseGeofencesReqMsg ::
    "string \<Rightarrow> (PBLocAPIPauseGeofencesReqMsg \<times> LocAPIPauseGeofencesReqMsg) option"
  read_LocAPIResumeGeofencesReqMsg ::
    "string \<Rightarrow> (PBLocAPIResumeGeofencesReqMsg \<times> LocAPIResumeGeofencesReqMsg) option"
  read_LocAPIUpdateNetworkAvailabilityReqMsg ::
    "string \<Rightarrow> (PBLocAPIUpdateNetworkAvailabilityReqMsg \<times> LocAPIUpdateNetworkAvailabilityReqMsg) option"
  read_LocAPIGetSingleTerrestrialPosReqMsg ::
    "string \<Rightarrow> (PBLocAPIGetSingleTerrestrialPosReqMsg \<times> LocAPIGetSingleTerrestrialPosReqMsg) option"
  read_LocAPIPingTestReqMsg ::
    "string \<Rightarrow> (PBLocAPIPingTestReqMsg \<times> LocAPIPingTestReqMsg) option"
  read_LocConfigConstrainedTuncReqMsg ::
    "string \<Rightarrow> (PBLocConfigConstrainedTuncReqMsg \<times> LocConfigConstrainedTuncReqMsg) option"
  read_LocConfigPositionAssistedClockEstimatorReqMsg ::
    "string \<Rightarrow> (PBLocConfigPositionAssistedClockEstimatorReqMsg \<times> LocConfigPositionAssistedClockEstimatorReqMsg) option"
  read_LocConfigSvConstellationReqMsg ::
    "string \<Rightarrow> (PBLocConfigSvConstellationReqMsg \<times> LocConfigSvConstellationReqMsg) option"
  read_LocConfigConstellationSecondaryBandReqMsg ::
    "string \<Rightarrow> (PBLocConfigConstellationSecondaryBandReqMsg \<times> LocConfigConstellationSecondaryBandReqMsg) option"
  read_LocConfigAidingDataDeletionReqMsg ::
    "string \<Rightarrow> (PBLocConfigAidingDataDeletionReqMsg \<times> LocConfigAidingDataDeletionReqMsg) option"
  read_LocConfigLeverArmReqMsg ::
    "string \<Rightarrow> (PBLocConfigLeverArmReqMsg \<times> LocConfigLeverArmReqMsg) option"
  read_LocConfigRobustLocationReqMsg ::
    "string \<Rightarrow> (PBLocConfigRobustLocationReqMsg \<times> LocConfigRobustLocationReqMsg) option"
  read_LocConfigMinGpsWeekReqMsg ::
    "string \<Rightarrow> (PBLocConfigMinGpsWeekReqMsg \<times> LocConfigMinGpsWeekReqMsg) option"
  read_LocConfigDrEngineParamsReqMsg ::
    "string \<Rightarrow> (PBLocConfigDrEngineParamsReqMsg \<times> LocConfigDrEngineParamsReqMsg) option"
  read_LocConfigMinSvElevationReqMsg ::
    "string \<Rightarrow> (PBLocConfigMinSvElevationReqMsg \<times> LocConfigMinSvElevationReqMsg) option"
  read_LocConfigEngineRunStateReqMsg ::
    "string \<Rightarrow> (PBLocConfigEngineRunStateReqMsg \<times> LocConfigEngineRunStateReqMsg) option"
  read_LocConfigUserConsentTerrestrialPositioningReqMsg ::
    "string \<Rightarrow> (PBLocConfigUserConsentTerrestrialPositioningReqMsg \<times> LocConfigUserConsentTerrestrialPositioningReqMsg) option"

record pb_writer =
  write_header :: "PBLocAPIMsgHeader to_string"
  write_LocAPIGenericRespMsg ::
    "PBLocAPIGenericRespMsg to_string"
  write_LocAPIGetSingleTerrestrialPosRespMsg ::
    "PBLocAPIGetSingleTerrestrialPosRespMsg to_string"
  write_LocConfigGetRobustLocationConfigRespMsg ::
    "PBLocConfigGetRobustLocationConfigRespMsg to_string"
  write_LocConfigGetMinGpsWeekRespMsg ::
    "PBLocConfigGetMinGpsWeekRespMsg to_string"
  write_LocConfigGetMinSvElevationRespMsg ::
    "PBLocConfigGetMinSvElevationRespMsg to_string"
  write_LocConfigGetConstellationSecondaryBandConfigRespMsg ::
    "PBLocConfigGetConstltnSecondaryBandConfigRespMsg to_string"
  write_LocAPICapabilitiesIndMsg ::
    "PBLocAPICapabilitiesIndMsg to_string"
  write_LocAPILocationIndMsg ::
    "PBLocAPILocationIndMsg to_string"
  write_LocAPIBatchingIndMsg ::
    "PBLocAPIBatchingIndMsg to_string"
  write_LocAPILocationInfoIndMsg ::
    "PBLocAPILocationInfoIndMsg to_string"
  write_LocAPIEngineLocationsInfoIndMsg ::
    "PBLocAPIEngineLocationsInfoIndMsg to_string"
  write_LocAPISatelliteVehicleIndMsg ::
    "PBLocAPISatelliteVehicleIndMsg to_string"
  write_LocAPINmeaIndMsg ::
    "PBLocAPINmeaIndMsg to_string"
  write_LocAPIDataIndMsg ::
    "PBLocAPIDataIndMsg to_string"
  write_LocAPIMeasIndMsg ::
    "PBLocAPIMeasIndMsg to_string"
  write_LocAPILocationSystemInfoIndMsg ::
    "PBLocAPILocationSystemInfoIndMsg to_string"
  write_LocAPIGnssEnergyConsumedIndMsg ::
    "PBLocAPIGnssEnergyConsumedIndMsg to_string"
  write_LocAPIPingTestReqMsg ::
    "PBLocAPIPingTestReqMsg to_string"
  write_LocAPIPingTestIndMsg ::
    "PBLocAPIPingTestIndMsg to_string"

text \<open>
  What the environment does: whether the last of the calls made so far succeeds or gives a pointer that is not null, the
  number or the array it returns, how many of the next accessor calls of a protobuf message give a pointer; the order in
  which the hash tables are walked; the sizes of the message classes and the contents of uninitialised members.
\<close>

record hal_env =
  granted :: "hal_call list \<Rightarrow> bool"
  answer :: "hal_call list \<Rightarrow> 32 word"
  answers :: "hal_call list \<Rightarrow> 32 word list option"
  accessors :: "hal_call list \<Rightarrow> nat"
  visit_clients :: "(string \<times> addr) list \<Rightarrow> (string \<times> addr) list"
  visit_ids :: "(32 word \<times> 32 word) list \<Rightarrow> (32 word \<times> 32 word) list"
  visit_fixes :: "(string \<times> 32 word option) list \<Rightarrow> (string \<times> 32 word option) list"
  reader :: pb_reader
  writer :: pb_writer
  class_size :: "string \<Rightarrow> 32 word"
  mem_nmea :: LocAPINmeaSerializedPayload
  mem_ping :: "8 word list"
  mem_engines :: "GnssLocationInfoNotification list"

section \<open>The state\<close>

record LocHalDaemonClientHandler =
  mName :: string
  mClientType :: int
  mCapabilityMask :: "64 word"
  mTracking :: bool
  mBatching :: bool
  mSessionId :: "32 word"
  mBatchingId :: "32 word"
  mBatchingMode :: int
  mLocationApi :: bool
  mCallbacks :: LocationCallbacks
  mOptions :: TrackingOptions
  mBatchOptions :: BatchingOptions
  mPendingMessages :: "int list"
  mGfPendingMessages :: "int list"
  mSubscriptionMask :: "32 word"
  mEngineInfoRequestMask :: "32 word"
  mGeofenceIds :: "32 word list option"
  mIpcSender :: bool
  mGfIdsMap :: "(32 word \<times> 32 word) list"

record ConfigReqClientData =
  clientName :: string
  configMsgId :: int

text \<open>The messages of the daemon's own task.\<close>

datatype task_msg = PerformMaintenanceReq | SingleTerrestrialFixTimeoutReq string

text \<open>
  A pending request for a terrestrial fix is kept with the time its timer runs for, if it runs.  \<^verbatim>\<open>clientsToCheck\<close> is the
  rest of the list a running \<^verbatim>\<open>performMaintenance\<close> works on, which it does without the lock; \<open>purging\<close> is the client it is about to delete,
  without the lock as well.
\<close>

record LocationApiService =
  mClients :: "(string \<times> addr) list"
  handlers :: "addr \<Rightarrow> LocHalDaemonClientHandler option"
  allocated :: addr
  mConfigReqs :: "32 word \<Rightarrow> ConfigReqClientData option"
  mLocationControlId :: "32 word"
  mLocationControlApi :: bool
  mPositionMode :: int
  mPowerState :: int
  mGtpWwanSsLocationApi :: bool
  mOptInTerrestrialService :: int
  mTerrestrialFixReqs :: "(string \<times> 32 word option) list"
  mMaintTimer :: bool
  mMsgTask :: "task_msg list"
  clientsToCheck :: "(string \<times> bool) list option"
  purging :: "string option"
  gnssInterface :: bool
  getGnssInterfaceFailed :: bool
  listening :: bool
  calls :: "hal_call list"

section \<open>Statements\<close>

text \<open>
  The ways in which the daemon's code has no defined behaviour: a conversion that fails so, a use of a handler after
  \<^verbatim>\<open>delete\<close>, a call through a null pointer, an increment of an iterator whose element is gone, an access outside an array,
  a virtual call on memory that was filled with zeros instead of being constructed, and an access to the table of clients while another
  thread changes it without the lock.
\<close>

datatype hal_error = Conversion pb_error | UseAfterFree | NullDereference | IteratorInvalidated | ArrayBounds | VirtualCallOnZeros | DataRace

type_synonym act = "LocationApiService \<Rightarrow> hal_error + LocationApiService"

fun acts :: "act list \<Rightarrow> act" where
  "acts [] s = Inr s"
| "acts (f # fs) s = (case f s of Inl e \<Rightarrow> Inl e | Inr s' \<Rightarrow> acts fs s')"

definition failing :: "hal_error \<Rightarrow> act" where
  "failing e s = Inl e"

definition upd :: "(LocationApiService \<Rightarrow> LocationApiService) \<Rightarrow> act" where
  "upd f s = Inr (f s)"

text \<open>A statement that depends on the state, and one that depends on what a call returns.\<close>

definition reading :: "(LocationApiService \<Rightarrow> 'v) \<Rightarrow> ('v \<Rightarrow> act) \<Rightarrow> act" where
  "reading f k s = k (f s) s"

definition calling :: "hal_call \<Rightarrow> act" where
  "calling c s = Inr (s\<lparr>calls := calls s @ [c]\<rparr>)"

definition asking :: "(hal_call list \<Rightarrow> 'v) \<Rightarrow> hal_call \<Rightarrow> ('v \<Rightarrow> act) \<Rightarrow> act" where
  "asking f c k = acts [calling c, reading (\<lambda>s. f (calls s)) k]"

text \<open>A member function of the handler at an address reads and writes the handler there.\<close>

definition on_handler :: "addr \<Rightarrow> (LocHalDaemonClientHandler \<Rightarrow> act) \<Rightarrow> act" where
  "on_handler p k s = (case handlers s p of None \<Rightarrow> Inl UseAfterFree | Some h \<Rightarrow> k h s)"

definition set_handler :: "addr \<Rightarrow> (LocHalDaemonClientHandler \<Rightarrow> LocHalDaemonClientHandler) \<Rightarrow> act" where
  "set_handler p f = on_handler p (\<lambda>h. upd (\<lambda>s. s\<lparr>handlers := (handlers s)(p \<mapsto> f h)\<rparr>))"

text \<open>\<^verbatim>\<open>malloc\<close> or \<^verbatim>\<open>new (std::nothrow)\<close> a number of times in a row; the memory is released again before the function returns.\<close>

fun allocating :: "hal_env \<Rightarrow> nat \<Rightarrow> (bool \<Rightarrow> act) \<Rightarrow> act" where
  "allocating env 0 k = k True"
| "allocating env (Suc n) k = asking (granted env) Malloc (\<lambda>ok. allocating env n (\<lambda>rest. k (ok \<and> rest)))"

text \<open>The address of the member \<^verbatim>\<open>mPbufMsgConv\<close> of the service.\<close>

definition mPbufMsgConv :: addr where
  "mPbufMsgConv = 1"

end
