(* ===== verification/HalClient.thy ===== *)
theory HalClient
  imports HalTypes
begin

unbundle bit_operations_syntax

text \<open>
  LocHalDaemonClientHandler.cpp: what the daemon does for one client.  A handler is given by its address; \<^verbatim>\<open>p\<close> stands for
  \<^verbatim>\<open>this\<close>.  A message that cannot be sent purges the client, which changes the table of clients of the service.
\<close>

section \<open>Socket names (LocationApiMsg.h)\<close>

definition LOC_CLIENT_NAME_PREFIX :: string where
  "LOC_CLIENT_NAME_PREFIX = ''toclient''"

definition sEAP :: string where
  "sEAP = EAP_LOC_CLIENT_DIR @ LOC_CLIENT_NAME_PREFIX"

text \<open>
  \<^verbatim>\<open>SockNode::create\<close> cuts a path name at the last dot but one; without two dots the prefix is empty.  The two numbers
  behind it only select the socket a sender writes to.
\<close>

definition node_prefix :: "string \<Rightarrow> string" where
  "node_prefix path = (let dots = filter (\<lambda>i. path ! i = CHR ''.'') [0..<length path] in
     if length dots < 2 then [] else take (dots ! (length dots - 2)) path)"

datatype node_type = Local | Eap | Other

definition getNodeType :: "string \<Rightarrow> node_type" where
  "getNodeType path = (if take (length SOCKET_LOC_CLIENT_DIR) (node_prefix path) = SOCKET_LOC_CLIENT_DIR then Local
     else if take (length sEAP) (node_prefix path) = sEAP then Eap else Other)"

text \<open>Whether \<^verbatim>\<open>createSender\<close> gives a sender: for other names it is the null pointer.\<close>

definition createSender :: "hal_env \<Rightarrow> string \<Rightarrow> (bool \<Rightarrow> act) \<Rightarrow> act" where
  "createSender env socket k = (if getNodeType socket = Other then k False else asking (granted env) (CreateSender socket) k)"

section \<open>Subscriptions\<close>

definition has_bit :: "32 word \<Rightarrow> int \<Rightarrow> bool" where
  "has_bit w b \<longleftrightarrow> w AND word_of_int b \<noteq> 0"

definition subscribed_callbacks :: "32 word \<Rightarrow> LocationCallbacks \<Rightarrow> LocationCallbacks" where
  "subscribed_callbacks w c = c\<lparr>capabilitiesCb := True, responseCb := True, collectiveResponseCb := True,
     trackingCb := has_bit w E_LOC_CB_DISTANCE_BASED_TRACKING_BIT \<or> trackingCb c,
     batchingCb := has_bit w E_LOC_CB_BATCHING_BIT,
     batchingStatusCb := has_bit w E_LOC_CB_BATCHING_STATUS_BIT,
     geofenceBreachCb := has_bit w E_LOC_CB_GEOFENCE_BREACH_BIT,
     gnssLocationInfoCb := has_bit w (E_LOC_CB_GNSS_LOCATION_INFO_BIT OR E_LOC_CB_SIMPLE_LOCATION_INFO_BIT),
     engineLocationsInfoCb := has_bit w E_LOC_CB_ENGINE_LOCATIONS_INFO_BIT,
     gnssSvCb := has_bit w E_LOC_CB_GNSS_SV_BIT,
     gnssNmeaCb := has_bit w E_LOC_CB_GNSS_NMEA_BIT,
     gnssDataCb := has_bit w E_LOC_CB_GNSS_DATA_BIT,
     gnssMeasurementsCb := has_bit w E_LOC_CB_GNSS_MEAS_BIT,
     locationSystemInfoCb := has_bit w E_LOC_CB_SYSTEM_INFO_BIT,
     gnssNiCb := False, geofenceStatusCb := False\<rparr>"

definition updateSubscription :: "addr \<Rightarrow> 32 word \<Rightarrow> act" where
  "updateSubscription p w = acts
    [set_handler p (\<lambda>h. h\<lparr>mSubscriptionMask := w, mCallbacks := subscribed_callbacks w (mCallbacks h)\<rparr>),
     on_handler p (\<lambda>h. if mLocationApi h then calling (UpdateCallbacks p (mCallbacks h)) else acts [])]"

definition LOCATION_SESSON_ALL_INFO_MASK :: "32 word" where
  "LOCATION_SESSON_ALL_INFO_MASK = word_of_int (E_LOC_CB_DISTANCE_BASED_TRACKING_BIT OR E_LOC_CB_GNSS_LOCATION_INFO_BIT
     OR E_LOC_CB_GNSS_SV_BIT OR E_LOC_CB_GNSS_NMEA_BIT OR E_LOC_CB_GNSS_DATA_BIT OR E_LOC_CB_GNSS_MEAS_BIT
     OR E_LOC_CB_ENGINE_LOCATIONS_INFO_BIT OR E_LOC_CB_SIMPLE_LOCATION_INFO_BIT)"

definition unsubscribeLocationSessionCb :: "addr \<Rightarrow> act" where
  "unsubscribeLocationSessionCb p = on_handler p (\<lambda>h.
     updateSubscription p (mSubscriptionMask h AND NOT LOCATION_SESSON_ALL_INFO_MASK))"

text \<open>The constructor of a handler.  The instance of the location API may be refused.\<close>

definition new_handler :: "string \<Rightarrow> int \<Rightarrow> bool \<Rightarrow> LocHalDaemonClientHandler" where
  "new_handler clientname clientType sender = \<lparr>mName = clientname, mClientType = clientType, mCapabilityMask = 0,
     mTracking = False, mBatching = False, mSessionId = 0, mBatchingId = 0, mBatchingMode = BATCHING_MODE_NO_AUTO_REPORT,
     mLocationApi = False, mCallbacks = no_callbacks, mOptions = new_TrackingOptions, mBatchOptions = new_BatchingOptions,
     mPendingMessages = [], mGfPendingMessages = [], mSubscriptionMask = 0, mEngineInfoRequestMask = 0,
     mGeofenceIds = None, mIpcSender = sender, mGfIdsMap = []\<rparr>"

definition new_LocHalDaemonClientHandler :: "hal_env \<Rightarrow> string \<Rightarrow> int \<Rightarrow> (addr \<Rightarrow> act) \<Rightarrow> act" where
  "new_LocHalDaemonClientHandler env clientname clientType k = reading allocated (\<lambda>p. acts
    [upd (\<lambda>s. s\<lparr>allocated := Suc p\<rparr>),
     createSender env clientname (\<lambda>sender.
       upd (\<lambda>s. s\<lparr>handlers := (handlers s)(p \<mapsto> new_handler clientname clientType sender)\<rparr>)),
     (if clientType = LOCATION_CLIENT_API then acts
       [updateSubscription p (word_of_int E_LOC_CB_GNSS_LOCATION_INFO_BIT),
        set_handler p (\<lambda>h. h\<lparr>mSubscriptionMask := 0\<rparr>),
        on_handler p (\<lambda>h. asking (granted env) (CreateInstance p (mCallbacks h))
          (\<lambda>ok. set_handler p (\<lambda>h. h\<lparr>mLocationApi := ok\<rparr>)))]
      else acts []),
     k p])"

section \<open>Sessions\<close>

definition getSupportedTbf :: "32 word \<Rightarrow> 32 word" where
  "getSupportedTbf tbfMsec = (if tbfMsec < 200 then 100
     else if tbfMsec < 500 then 200
     else if tbfMsec < 1000 then 500
     else if tbfMsec > - 1 - 999 then - 1 div 1000 * 1000
     else (tbfMsec + 999) div 1000 * 1000)"

definition startTracking_stored :: "hal_env \<Rightarrow> addr \<Rightarrow> act" where
  "startTracking_stored env p = on_handler p (\<lambda>h. if mSessionId h = 0 \<and> mLocationApi h
     then asking (answer env) (StartTracking p (mOptions h)) (\<lambda>id. set_handler p (\<lambda>h. h\<lparr>mSessionId := id\<rparr>))
     else acts [])"

definition startTracking_handler :: "hal_env \<Rightarrow> addr \<Rightarrow> LocationOptions \<Rightarrow> act" where
  "startTracking_handler env p locOptions = on_handler p (\<lambda>h. if mSessionId h = 0 \<and> mLocationApi h then acts
     [set_handler p (\<lambda>h. h\<lparr>mOptions := to_TrackingOptions locOptions\<rparr>),
      set_handler p (\<lambda>h. h\<lparr>mOptions := (mOptions h)\<lparr>LocationOptions_minInterval :=
        getSupportedTbf (LocationOptions_minInterval (mOptions h))\<rparr>\<rparr>),
      on_handler p (\<lambda>h. asking (answer env) (StartTracking p (mOptions h)) (\<lambda>id. set_handler p (\<lambda>h. h\<lparr>mSessionId := id\<rparr>)))]
     else acts [])"

definition stopTracking_handler :: "addr \<Rightarrow> act" where
  "stopTracking_handler p = on_handler p (\<lambda>h. if mSessionId h \<noteq> 0 \<and> mLocationApi h
     then acts [calling (StopTracking p (mSessionId h)), set_handler p (\<lambda>h. h\<lparr>mSessionId := 0\<rparr>)]
     else acts [])"

definition updateTrackingOptions_handler :: "addr \<Rightarrow> LocationOptions \<Rightarrow> act" where
  "updateTrackingOptions_handler p locOptions = on_handler p (\<lambda>h. if mSessionId h \<noteq> 0 \<and> mLocationApi h then acts
     [let t = TrackingOptions_setLocationOptions locOptions new_TrackingOptions in
      calling (UpdateTrackingOptions p (mSessionId h)
        (t\<lparr>LocationOptions_minInterval := getSupportedTbf (LocationOptions_minInterval t)\<rparr>)),
      set_handler p (\<lambda>h. h\<lparr>mOptions := to_TrackingOptions locOptions\<rparr>)]
     else acts [])"

definition batching_options :: "32 word \<Rightarrow> 32 word \<Rightarrow> int \<Rightarrow> BatchingOptions \<Rightarrow> BatchingOptions" where
  "batching_options minInterval minDistance batchMode b = BatchingOptions_setLocationOptions
     (new_LocationOptions\<lparr>LocationOptions_size := sizeof_LocationOptions, LocationOptions_minInterval := minInterval,
       LocationOptions_minDistance := minDistance, LocationOptions_mode := GNSS_SUPL_MODE_STANDALONE\<rparr>)
     (b\<lparr>LocationOptions_size := sizeof_BatchingOptions, BatchingOptions_batchingMode := batchMode\<rparr>)"

definition startBatching_handler :: "hal_env \<Rightarrow> addr \<Rightarrow> 32 word \<Rightarrow> 32 word \<Rightarrow> int \<Rightarrow> act" where
  "startBatching_handler env p minInterval minDistance batchMode = on_handler p (\<lambda>h. if mBatchingId h = 0 \<and> mLocationApi h then acts
     [set_handler p (\<lambda>h. h\<lparr>mBatchOptions := batching_options minInterval minDistance batchMode (mBatchOptions h)\<rparr>),
      on_handler p (\<lambda>h. asking (answer env) (StartBatching p (mBatchOptions h)) (\<lambda>id. set_handler p (\<lambda>h. h\<lparr>mBatchingId := id\<rparr>)))]
     else acts [])"

definition stopBatching_handler :: "addr \<Rightarrow> act" where
  "stopBatching_handler p = on_handler p (\<lambda>h. if mBatchingId h \<noteq> 0 \<and> mLocationApi h
     then acts [calling (StopBatching p (mBatchingId h)), set_handler p (\<lambda>h. h\<lparr>mBatchingId := 0\<rparr>)]
     else acts [])"

definition updateBatchingOptions_handler :: "addr \<Rightarrow> 32 word \<Rightarrow> 32 word \<Rightarrow> int \<Rightarrow> act" where
  "updateBatchingOptions_handler p minInterval minDistance batchMode = on_handler p (\<lambda>h. if mBatchingId h \<noteq> 0 \<and> mLocationApi h then acts
     [set_handler p (\<lambda>h. h\<lparr>mBatchOptions := batching_options minInterval minDistance batchMode (mBatchOptions h)\<rparr>),
      on_handler p (\<lambda>h. calling (UpdateBatchingOptions p (mBatchingId h) (mBatchOptions h)))]
     else acts [])"

section \<open>Geofences\<close>

definition setGeofenceIds :: "addr \<Rightarrow> nat \<Rightarrow> 32 word list \<Rightarrow> 32 word list \<Rightarrow> act" where
  "setGeofenceIds p count clientIds sessionIds = (if count \<le> length clientIds \<and> count \<le> length sessionIds
     then set_handler p (\<lambda>h. h\<lparr>mGfIdsMap :=
       fold (\<lambda>i. AList.update (clientIds ! i) (sessionIds ! i)) [0..<count] (mGfIdsMap h)\<rparr>)
     else failing ArrayBounds)"

definition eraseGeofenceIds :: "addr \<Rightarrow> nat \<Rightarrow> 32 word list \<Rightarrow> act" where
  "eraseGeofenceIds p count clientIds = (if count \<le> length clientIds
     then set_handler p (\<lambda>h. h\<lparr>mGfIdsMap := fold (\<lambda>i. AList.delete (clientIds ! i)) [0..<count] (mGfIdsMap h)\<rparr>)
     else failing ArrayBounds)"

text \<open>\<^verbatim>\<open>mGfIdsMap[id]\<close>: a key that is not in the map is inserted with the value 0.\<close>

fun sessions_of :: "32 word list \<Rightarrow> (32 word \<times> 32 word) list \<Rightarrow> 32 word list \<times> (32 word \<times> 32 word) list" where
  "sessions_of [] m = ([], m)"
| "sessions_of (c # cs) m = (case map_of m c of
     Some v \<Rightarrow> (let (vs, m') = sessions_of cs m in (v # vs, m'))
   | None \<Rightarrow> (let (vs, m') = sessions_of cs (AList.update c 0 m) in (0 # vs, m')))"

definition getSessionIds :: "hal_env \<Rightarrow> addr \<Rightarrow> nat \<Rightarrow> 32 word list \<Rightarrow> (32 word list option \<Rightarrow> act) \<Rightarrow> act" where
  "getSessionIds env p count clientIds k = (if count = 0 then k None
     else allocating env 1 (\<lambda>ok. if \<not> ok then k None
       else if length clientIds < count then failing ArrayBounds
       else on_handler p (\<lambda>h. let (vs, m') = sessions_of (take count clientIds) (mGfIdsMap h) in
         acts [set_handler p (\<lambda>h. h\<lparr>mGfIdsMap := m'\<rparr>), k (Some vs)])))"

text \<open>The last client id, in the order of the table, that has the session id; 0 when none has.\<close>

definition client_of :: "(32 word \<times> 32 word) list \<Rightarrow> 32 word \<Rightarrow> 32 word" where
  "client_of m i = (case filter (\<lambda>(c, v). v = i) m of [] \<Rightarrow> 0 | xs \<Rightarrow> fst (last xs))"

definition getClientIds :: "hal_env \<Rightarrow> addr \<Rightarrow> nat \<Rightarrow> 32 word list \<Rightarrow> (32 word list option \<Rightarrow> act) \<Rightarrow> act" where
  "getClientIds env p count sessionIds k = (if count = 0 then k None
     else allocating env 1 (\<lambda>ok. if \<not> ok then k None
       else if length sessionIds < count then failing ArrayBounds
       else on_handler p (\<lambda>h. k (Some (map (client_of (visit_ids env (mGfIdsMap h))) (take count sessionIds))))))"

definition addGeofences_handler :: "hal_env \<Rightarrow> addr \<Rightarrow> GeofenceOption list \<Rightarrow> GeofenceInfo list \<Rightarrow> act" where
  "addGeofences_handler env p options info = on_handler p (\<lambda>h. if 0 < length options \<and> mLocationApi h
     then asking (answers env) (AddGeofences p options info) (\<lambda>ids. set_handler p (\<lambda>h. h\<lparr>mGeofenceIds := ids\<rparr>))
     else acts [])"

definition geofences_call :: "addr \<Rightarrow> 32 word list \<Rightarrow> (32 word list \<Rightarrow> hal_call) \<Rightarrow> act" where
  "geofences_call p ids c = on_handler p (\<lambda>h. if 0 < length ids \<and> mLocationApi h then calling (c ids) else acts [])"

section \<open>Messages to the client\<close>

definition sendMessage :: "hal_env \<Rightarrow> addr \<Rightarrow> string \<Rightarrow> (bool \<Rightarrow> act) \<Rightarrow> act" where
  "sendMessage env p msg k = on_handler p (\<lambda>h. if mIpcSender h then asking (granted env) (Send p msg) k else failing NullDereference)"

text \<open>The handler of a client without an instance of the location API is deleted at once, the others when the instance
  reports that it is gone.\<close>

definition cleanup :: "addr \<Rightarrow> act" where
  "cleanup p = acts
    [set_handler p (\<lambda>h. h\<lparr>mIpcSender := False\<rparr>),
     on_handler p (\<lambda>h. calling (RemoveFile (mName h))),
     on_handler p (\<lambda>h. if mLocationApi h
       then acts [calling (Destroy p), set_handler p (\<lambda>h. h\<lparr>mLocationApi := False\<rparr>)]
       else upd (\<lambda>s. s\<lparr>handlers := (handlers s)(p := None)\<rparr>))]"

definition getClient :: "string \<Rightarrow> LocationApiService \<Rightarrow> addr option" where
  "getClient clientname s = map_of (mClients s) clientname"

definition deleteClientbyName :: "string \<Rightarrow> act" where
  "deleteClientbyName clientname = reading (getClient clientname) (\<lambda>c. case c of None \<Rightarrow> acts []
   | Some p \<Rightarrow> acts
      [upd (\<lambda>s. s\<lparr>mClients := AList.delete clientname (mClients s)\<rparr>),
       upd (\<lambda>s. s\<lparr>mTerrestrialFixReqs := AList.delete clientname (mTerrestrialFixReqs s)\<rparr>),
       cleanup p])"

definition purge :: "addr \<Rightarrow> act" where
  "purge p = on_handler p (\<lambda>h. deleteClientbyName (mName h))"

text \<open>\<^verbatim>\<open>if (msg.serializeToProtobuf(pbStr))\<close>: the size of the string is returned as an \<^verbatim>\<open>int\<close>.\<close>

definition serializing :: "hal_env \<Rightarrow> (nat \<Rightarrow> pb_error + string option) \<Rightarrow> (string \<Rightarrow> act) \<Rightarrow> act \<Rightarrow> act" where
  "serializing env serialize k otherwise = reading (\<lambda>s. serialize (accessors env (calls s))) (\<lambda>r. case r of
     Inl e \<Rightarrow> failing (Conversion e)
   | Inr None \<Rightarrow> otherwise
   | Inr (Some pbStr) \<Rightarrow> if (word_of_nat (length pbStr) :: 32 word) = 0 then otherwise else k pbStr)"

definition send_or_purge :: "hal_env \<Rightarrow> addr \<Rightarrow> (nat \<Rightarrow> pb_error + string option) \<Rightarrow> act" where
  "send_or_purge env p serialize = serializing env serialize
     (\<lambda>pbStr. sendMessage env p pbStr (\<lambda>rc. if rc then acts [] else purge p)) (acts [])"

definition pingTest_handler :: "hal_env \<Rightarrow> addr \<Rightarrow> act" where
  "pingTest_handler env p = on_handler p (\<lambda>h. if mIpcSender h
     then send_or_purge env p (LocAPIPingTestIndMsg_serializeToProtobuf (write_LocAPIPingTestIndMsg (writer env))
       (write_header (writer env)) (class_size env ''LocAPIPingTestIndMsg'')
       (new_LocAPIPingTestIndMsg SERVICE_NAME mPbufMsgConv (mem_ping env)))
     else acts [])"

definition generic_response :: "hal_env \<Rightarrow> addr \<Rightarrow> int \<Rightarrow> int \<Rightarrow> act" where
  "generic_response env p i err = send_or_purge env p (LocAPIGenericRespMsg_serializeToProtobuf
     (write_LocAPIGenericRespMsg (writer env)) (write_header (writer env)) (class_size env ''LocAPIGenericRespMsg'')
     (new_LocAPIGenericRespMsg SERVICE_NAME i err mPbufMsgConv))"

text \<open>Responses of the location API carry no message id: a response belongs to the oldest pending message.\<close>

definition session_messages :: "int list" where
  "session_messages = [E_LOCAPI_START_TRACKING_MSG_ID, E_LOCAPI_STOP_TRACKING_MSG_ID, E_LOCAPI_UPDATE_TRACKING_OPTIONS_MSG_ID,
     E_LOCAPI_START_BATCHING_MSG_ID, E_LOCAPI_STOP_BATCHING_MSG_ID, E_LOCAPI_UPDATE_BATCHING_OPTIONS_MSG_ID]"

definition onResponseCb :: "hal_env \<Rightarrow> addr \<Rightarrow> int \<Rightarrow> 32 word \<Rightarrow> act" where
  "onResponseCb env p err i = on_handler p (\<lambda>h. if mIpcSender h then
     (let pendingMsgId = (case mPendingMessages h of [] \<Rightarrow> E_LOCAPI_UNDEFINED_MSG_ID | m # _ \<Rightarrow> m) in acts
      [set_handler p (\<lambda>h. h\<lparr>mPendingMessages := tl (mPendingMessages h)\<rparr>),
       (if pendingMsgId \<in> set session_messages then generic_response env p pendingMsgId err else acts [])])
     else acts [])"

definition geofence_messages :: "int list" where
  "geofence_messages = [E_LOCAPI_ADD_GEOFENCES_MSG_ID, E_LOCAPI_REMOVE_GEOFENCES_MSG_ID, E_LOCAPI_MODIFY_GEOFENCES_MSG_ID,
     E_LOCAPI_PAUSE_GEOFENCES_MSG_ID, E_LOCAPI_RESUME_GEOFENCES_MSG_ID]"

text \<open>
  The collective response, the batch and the breach report are built in memory that is filled with zeros and never
  constructed: the call of the virtual function \<^verbatim>\<open>serializeToProtobuf\<close> goes through a null pointer.
\<close>

definition onCollectiveResponseCallback :: "hal_env \<Rightarrow> addr \<Rightarrow> nat \<Rightarrow> int list \<Rightarrow> 32 word list \<Rightarrow> act" where
  "onCollectiveResponseCallback env p count errs ids = on_handler p (\<lambda>h. if \<not> mIpcSender h then acts []
     else (let pendingMsgId = (case mGfPendingMessages h of [] \<Rightarrow> E_LOCAPI_UNDEFINED_MSG_ID | m # _ \<Rightarrow> m) in acts
      [set_handler p (\<lambda>h. h\<lparr>mGfPendingMessages := tl (mGfPendingMessages h)\<rparr>),
       (if count = 0 then acts []
        else allocating env 1 (\<lambda>ok. if \<not> ok then acts []
          else getClientIds env p count ids (\<lambda>c. case c of None \<Rightarrow> acts []
            | Some clientIds \<Rightarrow> if length errs < count then failing ArrayBounds else acts
               [acts (map (\<lambda>i. if errs ! i \<noteq> LOCATION_ERROR_SUCCESS then eraseGeofenceIds p 1 [clientIds ! i] else acts []) [0..<count]),
                (if pendingMsgId \<in> set geofence_messages then acts
                  [if pendingMsgId = E_LOCAPI_REMOVE_GEOFENCES_MSG_ID then eraseGeofenceIds p count clientIds else acts [],
                   failing VirtualCallOnZeros]
                 else acts [])])))]))"

definition onControlResponseCb :: "hal_env \<Rightarrow> addr \<Rightarrow> int \<Rightarrow> int \<Rightarrow> act" where
  "onControlResponseCb env p err i = on_handler p (\<lambda>h. if mIpcSender h then generic_response env p i err else acts [])"

definition sendTerrestrialFix :: "hal_env \<Rightarrow> addr \<Rightarrow> int \<Rightarrow> Location \<Rightarrow> act" where
  "sendTerrestrialFix env p err location = serializing env (LocAPIGetSingleTerrestrialPosRespMsg_serializeToProtobuf
     (write_LocAPIGetSingleTerrestrialPosRespMsg (writer env)) (write_header (writer env))
     (class_size env ''LocAPIGetSingleTerrestrialPosRespMsg'')
     (new_LocAPIGetSingleTerrestrialPosRespMsg SERVICE_NAME err location mPbufMsgConv))
     (\<lambda>pbStr. sendMessage env p pbStr (\<lambda>rc. acts [])) (acts [])"

definition onGnssConfigCb :: "hal_env \<Rightarrow> addr \<Rightarrow> int \<Rightarrow> GnssConfig \<Rightarrow> act" where
  "onGnssConfigCb env p i config = on_handler p (\<lambda>_.
     (let hdr = write_header (writer env);
        nothing = (\<lambda>_. Inr None);
        serialize = (if i = E_INTAPI_GET_ROBUST_LOCATION_CONFIG_REQ_MSG_ID then
            (if GnssConfig_flags config AND GNSS_CONFIG_FLAGS_ROBUST_LOCATION_BIT \<noteq> 0
             then LocConfigGetRobustLocationConfigRespMsg_serializeToProtobuf (write_LocConfigGetRobustLocationConfigRespMsg (writer env)) hdr
               (class_size env ''LocConfigGetRobustLocationConfigRespMsg'')
               (new_LocConfigGetRobustLocationConfigRespMsg SERVICE_NAME (GnssConfig_robustLocationConfig config) mPbufMsgConv)
             else nothing)
          else if i = E_INTAPI_GET_MIN_GPS_WEEK_REQ_MSG_ID then
            (if GnssConfig_flags config AND GNSS_CONFIG_FLAGS_MIN_GPS_WEEK_BIT \<noteq> 0
             then LocConfigGetMinGpsWeekRespMsg_serializeToProtobuf (write_LocConfigGetMinGpsWeekRespMsg (writer env)) hdr
               (class_size env ''LocConfigGetMinGpsWeekRespMsg'')
               (new_LocConfigGetMinGpsWeekRespMsg SERVICE_NAME (GnssConfig_minGpsWeek config) mPbufMsgConv)
             else nothing)
          else if i = E_INTAPI_GET_MIN_SV_ELEVATION_REQ_MSG_ID then
            (if GnssConfig_flags config AND GNSS_CONFIG_FLAGS_MIN_SV_ELEVATION_BIT \<noteq> 0
             then LocConfigGetMinSvElevationRespMsg_serializeToProtobuf (write_LocConfigGetMinSvElevationRespMsg (writer env)) hdr
               (class_size env ''LocConfigGetMinSvElevationRespMsg'')
               (new_LocConfigGetMinSvElevationRespMsg SERVICE_NAME (GnssConfig_minSvElevation config) mPbufMsgConv)
             else nothing)
          else if i = E_INTAPI_GET_CONSTELLATION_SECONDARY_BAND_CONFIG_REQ_MSG_ID then
            (if GnssConfig_flags config AND GNSS_CONFIG_FLAGS_CONSTELLATION_SECONDARY_BAND_BIT \<noteq> 0
             then LocConfigGetConstellationSecondaryBandConfigRespMsg_serializeToProtobuf
               (write_LocConfigGetConstellationSecondaryBandConfigRespMsg (writer env)) hdr
               (class_size env ''LocConfigGetConstellationSecondaryBandConfigRespMsg'')
               (new_LocConfigGetConstellationSecondaryBandConfigRespMsg SERVICE_NAME (GnssConfig_secondaryBandConfig config) mPbufMsgConv)
             else nothing)
          else nothing)
      in serializing env serialize
        (\<lambda>pbStr. on_handler p (\<lambda>h. if mIpcSender h
           then sendMessage env p pbStr (\<lambda>rc. if rc then acts [] else purge p) else acts []))
        (acts [])))"

section \<open>Reports of the location API\<close>

text \<open>A report goes to a client that subscribed to it and can be reached.\<close>

definition report :: "hal_env \<Rightarrow> addr \<Rightarrow> int \<Rightarrow> (nat \<Rightarrow> pb_error + string option) \<Rightarrow> act" where
  "report env p b serialize = on_handler p (\<lambda>h. if mIpcSender h \<and> has_bit (mSubscriptionMask h) b
     then send_or_purge env p serialize else acts [])"

definition onCapabilitiesCallback :: "hal_env \<Rightarrow> addr \<Rightarrow> 64 word \<Rightarrow> act" where
  "onCapabilitiesCallback env p w = on_handler p (\<lambda>h. if mIpcSender h \<and> w \<noteq> mCapabilityMask h then acts
     [set_handler p (\<lambda>h. h\<lparr>mCapabilityMask := w\<rparr>),
      send_or_purge env p (LocAPICapabilitiesIndMsg_serializeToProtobuf (write_LocAPICapabilitiesIndMsg (writer env))
        (write_header (writer env)) (class_size env ''LocAPICapabilitiesIndMsg'')
        (new_LocAPICapabilitiesIndMsg SERVICE_NAME w mPbufMsgConv))]
     else acts [])"

definition location_ind :: "hal_env \<Rightarrow> Location \<Rightarrow> nat \<Rightarrow> pb_error + string option" where
  "location_ind env location = LocAPILocationIndMsg_serializeToProtobuf (write_LocAPILocationIndMsg (writer env))
     (write_header (writer env)) (class_size env ''LocAPILocationIndMsg'') (new_LocAPILocationIndMsg SERVICE_NAME location mPbufMsgConv)"

definition onTrackingCb :: "hal_env \<Rightarrow> addr \<Rightarrow> Location \<Rightarrow> act" where
  "onTrackingCb env p location = report env p E_LOC_CB_DISTANCE_BASED_TRACKING_BIT (location_ind env location)"

definition onBatchingCb :: "hal_env \<Rightarrow> addr \<Rightarrow> Location list \<Rightarrow> act" where
  "onBatchingCb env p locations = on_handler p (\<lambda>h. if mIpcSender h \<and> has_bit (mSubscriptionMask h) E_LOC_CB_BATCHING_BIT
     \<and> locations \<noteq> [] then allocating env 1 (\<lambda>ok. if ok then failing VirtualCallOnZeros else acts []) else acts [])"

text \<open>\<^verbatim>\<open>LocAPIBatchNotification batchNotif = {}\<close>.\<close>

definition LocAPIBatchNotification_zero :: LocAPIBatchNotification where
  "LocAPIBatchNotification_zero = \<lparr>LocAPIBatchNotification_size = 0, LocAPIBatchNotification_count = 0,
     LocAPIBatchNotification_status = 0, LocAPIBatchNotification_location = [Location_zero]\<rparr>"

definition onBatchingStatusCb :: "hal_env \<Rightarrow> addr \<Rightarrow> int \<Rightarrow> act" where
  "onBatchingStatusCb env p batchingStatus = on_handler p (\<lambda>h. if mIpcSender h
     \<and> has_bit (mSubscriptionMask h) E_LOC_CB_BATCHING_STATUS_BIT \<and> mBatchingMode h = BATCHING_MODE_TRIP
     \<and> batchingStatus = BATCHING_STATUS_TRIP_COMPLETED
     then send_or_purge env p (LocAPIBatchingIndMsg_serializeToProtobuf (write_LocAPIBatchingIndMsg (writer env))
       (write_header (writer env)) (class_size env ''LocAPIBatchingIndMsg'') (new_LocAPIBatchingIndMsg SERVICE_NAME
         (LocAPIBatchNotification_zero\<lparr>LocAPIBatchNotification_status := BATCHING_STATUS_TRIP_COMPLETED\<rparr>) mPbufMsgConv))
     else acts [])"

definition onGeofenceBreachCb :: "hal_env \<Rightarrow> addr \<Rightarrow> 32 word list \<Rightarrow> act" where
  "onGeofenceBreachCb env p ids = on_handler p (\<lambda>h. if mIpcSender h \<and> has_bit (mSubscriptionMask h) E_LOC_CB_GEOFENCE_BREACH_BIT
     then getClientIds env p (length ids) ids (\<lambda>c. case c of None \<Rightarrow> acts []
       | Some clientIds \<Rightarrow> allocating env 1 (\<lambda>ok. if ok then failing VirtualCallOnZeros else acts []))
     else acts [])"

definition onGnssLocationInfoCb :: "hal_env \<Rightarrow> addr \<Rightarrow> GnssLocationInfoNotification \<Rightarrow> act" where
  "onGnssLocationInfoCb env p notification = on_handler p (\<lambda>h. if mIpcSender h
     \<and> has_bit (mSubscriptionMask h) (E_LOC_CB_GNSS_LOCATION_INFO_BIT OR E_LOC_CB_SIMPLE_LOCATION_INFO_BIT)
     then send_or_purge env p (if has_bit (mSubscriptionMask h) E_LOC_CB_GNSS_LOCATION_INFO_BIT
       then LocAPILocationInfoIndMsg_serializeToProtobuf (write_LocAPILocationInfoIndMsg (writer env)) (write_header (writer env))
         (class_size env ''LocAPILocationInfoIndMsg'') (new_LocAPILocationInfoIndMsg SERVICE_NAME notification mPbufMsgConv)
       else location_ind env (GnssLocationInfoNotification_location notification))
     else acts [])"

definition engine_requested :: "32 word \<Rightarrow> GnssLocationInfoNotification \<Rightarrow> bool" where
  "engine_requested w n \<longleftrightarrow> (let e = GnssLocationInfoNotification_locOutputEngType n in
     e = LOC_OUTPUT_ENGINE_FUSED \<and> has_bit w LOC_REQ_ENGINE_FUSED_BIT
   \<or> e = LOC_OUTPUT_ENGINE_SPE \<and> has_bit w LOC_REQ_ENGINE_SPE_BIT
   \<or> e = LOC_OUTPUT_ENGINE_PPE \<and> has_bit w LOC_REQ_ENGINE_PPE_BIT
   \<or> e = LOC_OUTPUT_ENGINE_VPE \<and> has_bit w LOC_REQ_ENGINE_VPE_BIT)"

definition onEngLocationsInfoCb :: "hal_env \<Rightarrow> addr \<Rightarrow> GnssLocationInfoNotification list \<Rightarrow> act" where
  "onEngLocationsInfoCb env p notifications = on_handler p (\<lambda>h. if mIpcSender h
     \<and> has_bit (mSubscriptionMask h) E_LOC_CB_ENGINE_LOCATIONS_INFO_BIT
     then (let reports = filter (engine_requested (LocationOptions_locReqEngTypeMask (mOptions h))) notifications in
       if nat LOC_OUTPUT_ENGINE_COUNT < length reports then failing ArrayBounds
       else if reports = [] then acts []
       else case new_LocAPIEngineLocationsInfoIndMsg SERVICE_NAME (word_of_nat (length reports)) reports mPbufMsgConv (mem_engines env) of
         None \<Rightarrow> failing ArrayBounds
       | Some msg \<Rightarrow> send_or_purge env p (LocAPIEngineLocationsInfoIndMsg_serializeToProtobuf
           (write_LocAPIEngineLocationsInfoIndMsg (writer env)) (write_header (writer env))
           (class_size env ''LocAPIEngineLocationsInfoIndMsg'') msg))
     else acts [])"

definition onGnssSvCb :: "hal_env \<Rightarrow> addr \<Rightarrow> GnssSvNotification \<Rightarrow> act" where
  "onGnssSvCb env p notification = report env p E_LOC_CB_GNSS_SV_BIT
     (LocAPISatelliteVehicleIndMsg_serializeToProtobuf (write_LocAPISatelliteVehicleIndMsg (writer env)) (write_header (writer env))
       (class_size env ''LocAPISatelliteVehicleIndMsg'') (new_LocAPISatelliteVehicleIndMsg SERVICE_NAME notification mPbufMsgConv))"

definition onGnssNmeaCb :: "hal_env \<Rightarrow> addr \<Rightarrow> 64 word \<Rightarrow> string \<Rightarrow> act" where
  "onGnssNmeaCb env p timestamp nmea = report env p E_LOC_CB_GNSS_NMEA_BIT
     (LocAPINmeaIndMsg_serializeToProtobuf (write_LocAPINmeaIndMsg (writer env)) (write_header (writer env))
       (class_size env ''LocAPINmeaIndMsg'') (new_LocAPINmeaIndMsg SERVICE_NAME mPbufMsgConv
         ((mem_nmea env)\<lparr>LocAPINmeaSerializedPayload_timestamp := timestamp, LocAPINmeaSerializedPayload_nmea := nmea\<rparr>)))"

definition onGnssDataCb :: "hal_env \<Rightarrow> addr \<Rightarrow> GnssDataNotification \<Rightarrow> act" where
  "onGnssDataCb env p notification = report env p E_LOC_CB_GNSS_DATA_BIT
     (LocAPIDataIndMsg_serializeToProtobuf (write_LocAPIDataIndMsg (writer env)) (write_header (writer env))
       (class_size env ''LocAPIDataIndMsg'') (new_LocAPIDataIndMsg SERVICE_NAME notification mPbufMsgConv))"

definition onGnssMeasurementsCb :: "hal_env \<Rightarrow> addr \<Rightarrow> GnssMeasurementsNotification \<Rightarrow> act" where
  "onGnssMeasurementsCb env p notification = report env p E_LOC_CB_GNSS_MEAS_BIT
     (LocAPIMeasIndMsg_serializeToProtobuf (write_LocAPIMeasIndMsg (writer env)) (write_header (writer env))
       (class_size env ''LocAPIMeasIndMsg'') (new_LocAPIMeasIndMsg SERVICE_NAME notification mPbufMsgConv))"

definition onLocationSystemInfoCb :: "hal_env \<Rightarrow> addr \<Rightarrow> LocationSystemInfo \<Rightarrow> act" where
  "onLocationSystemInfoCb env p notification = report env p E_LOC_CB_SYSTEM_INFO_BIT
     (LocAPILocationSystemInfoIndMsg_serializeToProtobuf (write_LocAPILocationSystemInfoIndMsg (writer env)) (write_header (writer env))
       (class_size env ''LocAPILocationSystemInfoIndMsg'') (new_LocAPILocationSystemInfoIndMsg SERVICE_NAME notification mPbufMsgConv))"

definition onLocationApiDestroyCompleteCb :: "addr \<Rightarrow> act" where
  "onLocationApiDestroyCompleteCb p = on_handler p (\<lambda>_. upd (\<lambda>s. s\<lparr>handlers := (handlers s)(p := None)\<rparr>))"

section \<open>Engine information\<close>

definition onGnssEnergyConsumedInfoAvailable :: "hal_env \<Rightarrow> LocAPIGnssEnergyConsumedIndMsg \<Rightarrow> addr \<Rightarrow> act" where
  "onGnssEnergyConsumedInfoAvailable env msg p = on_handler p (\<lambda>h. if mIpcSender h
     \<and> mEngineInfoRequestMask h AND E_ENGINE_INFO_CB_GNSS_ENERGY_CONSUMED_BIT \<noteq> 0
     then serializing env (LocAPIGnssEnergyConsumedIndMsg_serializeToProtobuf (write_LocAPIGnssEnergyConsumedIndMsg (writer env))
         (write_header (writer env)) (class_size env ''LocAPIGnssEnergyConsumedIndMsg'') msg)
       (\<lambda>pbStr. sendMessage env p pbStr (\<lambda>rc. acts
         [set_handler p (\<lambda>h. h\<lparr>mEngineInfoRequestMask := mEngineInfoRequestMask h AND NOT E_ENGINE_INFO_CB_GNSS_ENERGY_CONSUMED_BIT\<rparr>),
          if rc then acts [] else purge p]))
       (acts [])
     else acts [])"

definition hasPendingEngineInfoRequest :: "LocHalDaemonClientHandler \<Rightarrow> bool" where
  "hasPendingEngineInfoRequest h \<longleftrightarrow> mEngineInfoRequestMask h AND E_ENGINE_INFO_CB_GNSS_ENERGY_CONSUMED_BIT \<noteq> 0"

definition addEngineInfoRequst :: "addr \<Rightarrow> act" where
  "addEngineInfoRequst p = set_handler p (\<lambda>h. h\<lparr>mEngineInfoRequestMask :=
     mEngineInfoRequestMask h OR E_ENGINE_INFO_CB_GNSS_ENERGY_CONSUMED_BIT\<rparr>)"

definition parseClientGeofenceBreachType :: "int \<Rightarrow> 16 word" where
  "parseClientGeofenceBreachType type = (if type = 0 then word_of_int GEOFENCE_BREACH_ENTER_BIT
     else if type = 1 then word_of_int GEOFENCE_BREACH_EXIT_BIT
     else if type = 2 then word_of_int GEOFENCE_BREACH_DWELL_IN_BIT
     else if type = 3 then word_of_int GEOFENCE_BREACH_DWELL_OUT_BIT
     else 0)"

end
