(* ===== verification/HalService.thy ===== *)
theory HalService
  imports HalClient
begin

unbundle bit_operations_syntax

text \<open>
  LocationApiService.cpp: the location HAL daemon.  Every function that takes the lock is one step; \<^verbatim>\<open>performMaintenance\<close>,
  which works without it, is a step for each client it pings and one more for each client it deletes, between which other steps may come; a
  step that takes the lock while a client is being deleted without it is a data race.  The code is that of a
  build with \<^verbatim>\<open>POWERMANAGER_ENABLED\<close>; without it there are no power events.
\<close>

abbreviation (input) MAX_GEOFENCE_COUNT :: "32 word" where "MAX_GEOFENCE_COUNT \<equiv> 20"

definition AUTO_START_CLIENT_NAME :: string where
  "AUTO_START_CLIENT_NAME = ''default''"

definition with_client :: "string \<Rightarrow> (addr \<Rightarrow> act) \<Rightarrow> act" where
  "with_client name k = reading (getClient name) (\<lambda>c. case c of None \<Rightarrow> acts [] | Some p \<Rightarrow> k p)"

definition push_pending :: "addr \<Rightarrow> int \<Rightarrow> act" where
  "push_pending p i = set_handler p (\<lambda>h. h\<lparr>mPendingMessages := mPendingMessages h @ [i]\<rparr>)"

definition push_gf_pending :: "addr \<Rightarrow> int \<Rightarrow> act" where
  "push_gf_pending p i = set_handler p (\<lambda>h. h\<lparr>mGfPendingMessages := mGfPendingMessages h @ [i]\<rparr>)"

section \<open>Clients\<close>

definition newClient :: "hal_env \<Rightarrow> LocAPIClientRegisterReqMsg \<Rightarrow> act" where
  "newClient env m = (let clientname = mSocketName m in reading (getClient clientname) (\<lambda>c. case c of Some _ \<Rightarrow> acts []
   | None \<Rightarrow> new_LocHalDaemonClientHandler env clientname (LocAPIClientRegisterReqMsg_mClientType m) (\<lambda>p.
       upd (\<lambda>s. s\<lparr>mClients := mClients s @ [(clientname, p)]\<rparr>))))"

definition deleteClient :: "LocAPIClientDeregisterReqMsg \<Rightarrow> act" where
  "deleteClient m = deleteClientbyName (mSocketName m)"

section \<open>Tracking\<close>

definition startTracking :: "hal_env \<Rightarrow> LocAPIStartTrackingReqMsg \<Rightarrow> act" where
  "startTracking env m = with_client (mSocketName m) (\<lambda>p. reading mPositionMode (\<lambda>mode. acts
    [startTracking_handler env p ((LocAPIStartTrackingReqMsg_locOptions m)\<lparr>LocationOptions_mode := mode\<rparr>),
     on_handler p (\<lambda>h. if mSessionId h = 0 then acts []
       else acts [set_handler p (\<lambda>h. h\<lparr>mTracking := True\<rparr>), push_pending p E_LOCAPI_START_TRACKING_MSG_ID])]))"

definition stopTracking :: "LocAPIStopTrackingReqMsg \<Rightarrow> act" where
  "stopTracking m = with_client (mSocketName m) (\<lambda>p. acts
    [set_handler p (\<lambda>h. h\<lparr>mTracking := False\<rparr>),
     unsubscribeLocationSessionCb p,
     stopTracking_handler p,
     push_pending p E_LOCAPI_STOP_TRACKING_MSG_ID])"

text \<open>A loop over the clients: the iterator is incremented after the body has run.\<close>

fun for_clients :: "(addr \<Rightarrow> act) \<Rightarrow> (string \<times> addr) list \<Rightarrow> act" where
  "for_clients f [] s = Inr s"
| "for_clients f ((n, p) # xs) s = (case f p s of Inl e \<Rightarrow> Inl e
   | Inr s' \<Rightarrow> if (n, p) \<in> set (mClients s') then for_clients f xs s' else Inl IteratorInvalidated)"

definition suspendAllTrackingSessions :: "hal_env \<Rightarrow> act" where
  "suspendAllTrackingSessions env = reading (\<lambda>s. visit_clients env (mClients s)) (for_clients (\<lambda>p.
     on_handler p (\<lambda>h. if mTracking h then acts [stopTracking_handler p, push_pending p E_LOCAPI_STOP_TRACKING_MSG_ID] else acts [])))"

text \<open>The loop that resumes the sessions ends at the first one that cannot be started.\<close>

fun resume_clients :: "hal_env \<Rightarrow> (string \<times> addr) list \<Rightarrow> act" where
  "resume_clients env [] = acts []"
| "resume_clients env ((n, p) # xs) = on_handler p (\<lambda>h. if mTracking h then acts
     [startTracking_stored env p,
      on_handler p (\<lambda>h. if mSessionId h = 0 then acts []
        else acts [push_pending p E_LOCAPI_START_TRACKING_MSG_ID, resume_clients env xs])]
     else resume_clients env xs)"

definition resumeAllTrackingSessions :: "hal_env \<Rightarrow> act" where
  "resumeAllTrackingSessions env = reading (\<lambda>s. visit_clients env (mClients s)) (resume_clients env)"

definition updateSubscription_client :: "LocAPIUpdateCallbacksReqMsg \<Rightarrow> act" where
  "updateSubscription_client m = with_client (mSocketName m) (\<lambda>p. updateSubscription p (LocAPIUpdateCallbacksReqMsg_locationCallbacks m))"

definition updateTrackingOptions :: "LocAPIUpdateTrackingOptionsReqMsg \<Rightarrow> act" where
  "updateTrackingOptions m = with_client (mSocketName m) (\<lambda>p. reading mPositionMode (\<lambda>mode. acts
    [updateTrackingOptions_handler p ((LocAPIUpdateTrackingOptionsReqMsg_locOptions m)\<lparr>LocationOptions_mode := mode\<rparr>),
     push_pending p E_LOCAPI_UPDATE_TRACKING_OPTIONS_MSG_ID]))"

section \<open>Requests to the GNSS interface\<close>

definition getGnssInterface :: "hal_env \<Rightarrow> (bool \<Rightarrow> act) \<Rightarrow> act" where
  "getGnssInterface env k = reading (\<lambda>s. (gnssInterface s, getGnssInterfaceFailed s)) (\<lambda>(loaded, failed).
     if loaded \<or> failed then k loaded
     else asking (granted env) LoadGnssInterface (\<lambda>getter. if \<not> getter
       then acts [upd (\<lambda>s. s\<lparr>getGnssInterfaceFailed := True\<rparr>), k False]
       else asking (granted env) GetGnssInterface (\<lambda>ok. acts [upd (\<lambda>s. s\<lparr>gnssInterface := ok\<rparr>), k ok])))"

definition updateNetworkAvailability :: "hal_env \<Rightarrow> bool \<Rightarrow> act" where
  "updateNetworkAvailability env availability = getGnssInterface env (\<lambda>ok.
     if ok then calling (UpdateConnectionStatus availability) else acts [])"

fun some_pending :: "(string \<times> addr) list \<Rightarrow> (bool \<Rightarrow> act) \<Rightarrow> act" where
  "some_pending [] k = k False"
| "some_pending ((n, p) # xs) k = on_handler p (\<lambda>h. if hasPendingEngineInfoRequest h then k True else some_pending xs k)"

definition getGnssEnergyConsumed :: "hal_env \<Rightarrow> string \<Rightarrow> act" where
  "getGnssEnergyConsumed env clientname = getGnssInterface env (\<lambda>ok. if \<not> ok then acts []
     else reading (\<lambda>s. visit_clients env (mClients s)) (\<lambda>xs. some_pending xs (\<lambda>requestAlreadyPending.
       with_client clientname (\<lambda>p. acts
         [addEngineInfoRequst p,
          if requestAlreadyPending then acts [] else calling GetGnssEnergyConsumed]))))"

section \<open>Configuration requests\<close>

definition addConfigRequestToMap :: "hal_env \<Rightarrow> 32 word \<Rightarrow> 'a LocAPIMsgHeader_scheme \<Rightarrow> act" where
  "addConfigRequestToMap env sessionId m = (if sessionId \<noteq> 0
     then upd (\<lambda>s. if mConfigReqs s sessionId = None
       then s\<lparr>mConfigReqs := (mConfigReqs s)(sessionId \<mapsto> \<lparr>clientName = mSocketName m, configMsgId = msgId m\<rparr>)\<rparr> else s)
     else with_client (mSocketName m) (\<lambda>p. onControlResponseCb env p LOCATION_ERROR_GENERAL_FAILURE (msgId m)))"

definition control :: "hal_env \<Rightarrow> control_request \<Rightarrow> 'a LocAPIMsgHeader_scheme \<Rightarrow> act" where
  "control env r m = reading mLocationControlApi (\<lambda>b. if b
     then asking (answer env) (Control r) (\<lambda>sessionId. addConfigRequestToMap env sessionId m) else failing NullDereference)"

definition getConstellationSecondaryBandConfig :: "hal_env \<Rightarrow> LocAPIMsgHeader \<Rightarrow> act" where
  "getConstellationSecondaryBandConfig env m = getGnssInterface env (\<lambda>ok. if \<not> ok then acts []
     else asking (answer env) GetSecondaryBandConfig (\<lambda>sessionId. addConfigRequestToMap env sessionId m))"

definition configConstrainedTunc :: "hal_env \<Rightarrow> LocConfigConstrainedTuncReqMsg \<Rightarrow> act" where
  "configConstrainedTunc env m = control env (ConstrainedTunc (LocConfigConstrainedTuncReqMsg_mEnable m)
     (LocConfigConstrainedTuncReqMsg_mTuncConstraint m) (LocConfigConstrainedTuncReqMsg_mEnergyBudget m)) m"

definition configPositionAssistedClockEstimator :: "hal_env \<Rightarrow> LocConfigPositionAssistedClockEstimatorReqMsg \<Rightarrow> act" where
  "configPositionAssistedClockEstimator env m = reading mLocationControlApi (\<lambda>b. if \<not> b then acts []
     else control env (PositionAssistedClockEstimator (LocConfigPositionAssistedClockEstimatorReqMsg_mEnable m)) m)"

definition configConstellations :: "hal_env \<Rightarrow> LocConfigSvConstellationReqMsg \<Rightarrow> act" where
  "configConstellations env m = control env (Constellations (LocConfigSvConstellationReqMsg_mConstellationEnablementConfig m)
     (LocConfigSvConstellationReqMsg_mBlacklistSvConfig m)) m"

definition configConstellationSecondaryBand :: "hal_env \<Rightarrow> LocConfigConstellationSecondaryBandReqMsg \<Rightarrow> act" where
  "configConstellationSecondaryBand env m = control env
     (ConstellationSecondaryBand (LocConfigConstellationSecondaryBandReqMsg_mSecondaryBandConfig m)) m"

text \<open>All sessions are stopped before the aiding data is deleted, and started again unless the system is suspended.\<close>

definition configAidingDataDeletion :: "hal_env \<Rightarrow> LocConfigAidingDataDeletionReqMsg \<Rightarrow> act" where
  "configAidingDataDeletion env m = acts
    [suspendAllTrackingSessions env,
     control env (DeleteAidingData (LocConfigAidingDataDeletionReqMsg_mAidingData m)) m,
     reading mPowerState (\<lambda>w. if w = POWER_STATE_SUSPEND \<or> w = POWER_STATE_SHUTDOWN then acts []
       else resumeAllTrackingSessions env)]"

definition configLeverArm :: "hal_env \<Rightarrow> LocConfigLeverArmReqMsg \<Rightarrow> act" where
  "configLeverArm env m = control env (LeverArm (LocConfigLeverArmReqMsg_mLeverArmConfigInfo m)) m"

definition configRobustLocation :: "hal_env \<Rightarrow> LocConfigRobustLocationReqMsg \<Rightarrow> act" where
  "configRobustLocation env m = control env (RobustLocation (LocConfigRobustLocationReqMsg_mEnable m)
     (LocConfigRobustLocationReqMsg_mEnableForE911 m)) m"

definition configMinGpsWeek :: "hal_env \<Rightarrow> LocConfigMinGpsWeekReqMsg \<Rightarrow> act" where
  "configMinGpsWeek env m = control env (MinGpsWeek (LocConfigMinGpsWeekReqMsg_mMinGpsWeek m)) m"

definition configMinSvElevation :: "hal_env \<Rightarrow> LocConfigMinSvElevationReqMsg \<Rightarrow> act" where
  "configMinSvElevation env m = control env (UpdateConfig (GnssConfig_zero\<lparr>GnssConfig_flags := GNSS_CONFIG_FLAGS_MIN_SV_ELEVATION_BIT,
     GnssConfig_minSvElevation := LocConfigMinSvElevationReqMsg_mMinSvElevation m\<rparr>)) m"

definition configEngineRunState :: "hal_env \<Rightarrow> LocConfigEngineRunStateReqMsg \<Rightarrow> act" where
  "configEngineRunState env m = control env (EngineRunState (LocConfigEngineRunStateReqMsg_mEngType m)
     (LocConfigEngineRunStateReqMsg_mEngState m)) m"

definition configUserConsentTerrestrialPositioning :: "hal_env \<Rightarrow> LocConfigUserConsentTerrestrialPositioningReqMsg \<Rightarrow> act" where
  "configUserConsentTerrestrialPositioning env m = (let consent = LocConfigUserConsentTerrestrialPositioningReqMsg_mUserConsent m in acts
    [upd (\<lambda>s. s\<lparr>mOptInTerrestrialService := (if consent then 1 else 0)\<rparr>),
     reading mGtpWwanSsLocationApi (\<lambda>b. if consent \<and> \<not> b
       then asking (granted env) CreateNetworkInstance (\<lambda>ok. acts
         [upd (\<lambda>s. s\<lparr>mGtpWwanSsLocationApi := ok\<rparr>), if ok then calling EnableNetworkProvider else acts []])
       else acts []),
     control env (SetOptInStatus consent) m])"

definition getGnssConfig :: "hal_env \<Rightarrow> LocAPIMsgHeader \<Rightarrow> 32 word \<Rightarrow> act" where
  "getGnssConfig env m configFlag = control env (GetConfig configFlag) m"

definition configDeadReckoningEngineParams :: "hal_env \<Rightarrow> LocConfigDrEngineParamsReqMsg \<Rightarrow> act" where
  "configDeadReckoningEngineParams env m = control env (DeadReckoningEngineParams (LocConfigDrEngineParamsReqMsg_mDreConfig m)) m"

section \<open>Batching\<close>

definition startBatching :: "hal_env \<Rightarrow> LocAPIStartBatchingReqMsg \<Rightarrow> act" where
  "startBatching env m = with_client (mSocketName m) (\<lambda>p. acts
    [startBatching_handler env p (LocAPIStartBatchingReqMsg_intervalInMs m) (LocAPIStartBatchingReqMsg_distanceInMeters m)
       (LocAPIStartBatchingReqMsg_batchingMode m),
     on_handler p (\<lambda>h. if mBatchingId h = 0 then acts []
       else acts [set_handler p (\<lambda>h. h\<lparr>mBatching := True, mBatchingMode := LocAPIStartBatchingReqMsg_batchingMode m\<rparr>),
         push_pending p E_LOCAPI_START_BATCHING_MSG_ID])])"

definition stopBatching :: "LocAPIStopBatchingReqMsg \<Rightarrow> act" where
  "stopBatching m = with_client (mSocketName m) (\<lambda>p. acts
    [set_handler p (\<lambda>h. h\<lparr>mBatching := False, mBatchingMode := BATCHING_MODE_NO_AUTO_REPORT\<rparr>),
     updateSubscription p 0,
     stopBatching_handler p,
     push_pending p E_LOCAPI_STOP_BATCHING_MSG_ID])"

definition updateBatchingOptions :: "LocAPIUpdateBatchingOptionsReqMsg \<Rightarrow> act" where
  "updateBatchingOptions m = with_client (mSocketName m) (\<lambda>p. acts
    [updateBatchingOptions_handler p (LocAPIUpdateBatchingOptionsReqMsg_intervalInMs m)
       (LocAPIUpdateBatchingOptionsReqMsg_distanceInMeters m) (LocAPIUpdateBatchingOptionsReqMsg_batchingMode m),
     push_pending p E_LOCAPI_UPDATE_BATCHING_OPTIONS_MSG_ID])"

section \<open>Geofences\<close>

definition with_payload :: "GeofencesAddedReqPayload \<Rightarrow> (GeofencePayload list \<Rightarrow> act) \<Rightarrow> act" where
  "with_payload g k = (let count = unat (GeofencesAddedReqPayload_count g) in
     if length (GeofencesAddedReqPayload_gfPayload g) < count then failing ArrayBounds
     else k (take count (GeofencesAddedReqPayload_gfPayload g)))"

definition addGeofences :: "hal_env \<Rightarrow> LocAPIAddGeofencesReqMsg \<Rightarrow> act" where
  "addGeofences env m = (let g = LocAPIAddGeofencesReqMsg_geofences m; count = GeofencesAddedReqPayload_count g in
     with_client (mSocketName m) (\<lambda>p. if count > MAX_GEOFENCE_COUNT then acts []
       else allocating env 3 (\<lambda>ok. if \<not> ok then acts []
         else with_payload g (\<lambda>gfs. acts
           [addGeofences_handler env p (map GeofencePayload_gfOption gfs) (map GeofencePayload_gfInfo gfs),
            on_handler p (\<lambda>h. case mGeofenceIds h of None \<Rightarrow> acts []
              | Some sessions \<Rightarrow> acts
                 [setGeofenceIds p (unat count) (map GeofencePayload_gfClientId gfs) sessions,
                  push_gf_pending p E_LOCAPI_ADD_GEOFENCES_MSG_ID])]))))"

definition geofence_request :: "hal_env \<Rightarrow> string \<Rightarrow> GeofencesReqClientIdPayload \<Rightarrow> (addr \<Rightarrow> 32 word list \<Rightarrow> hal_call) \<Rightarrow> int \<Rightarrow> act" where
  "geofence_request env name g c i = with_client name (\<lambda>p.
     getSessionIds env p (unat (GeofencesReqClientIdPayload_count g)) (GeofencesReqClientIdPayload_gfIds g) (\<lambda>r. case r of
       None \<Rightarrow> acts []
     | Some sessions \<Rightarrow> acts [geofences_call p sessions (c p), push_gf_pending p i]))"

definition removeGeofences :: "hal_env \<Rightarrow> LocAPIRemoveGeofencesReqMsg \<Rightarrow> act" where
  "removeGeofences env m = geofence_request env (mSocketName m) (LocAPIRemoveGeofencesReqMsg_gfClientIds m)
     RemoveGeofences E_LOCAPI_REMOVE_GEOFENCES_MSG_ID"

definition modifyGeofences :: "hal_env \<Rightarrow> LocAPIModifyGeofencesReqMsg \<Rightarrow> act" where
  "modifyGeofences env m = (let g = LocAPIModifyGeofencesReqMsg_geofences m; count = GeofencesAddedReqPayload_count g in
     with_client (mSocketName m) (\<lambda>p. if count > MAX_GEOFENCE_COUNT then acts []
       else allocating env 2 (\<lambda>ok. if \<not> ok then acts []
         else with_payload g (\<lambda>gfs. getSessionIds env p (unat count) (map GeofencePayload_gfClientId gfs) (\<lambda>r. case r of
           None \<Rightarrow> acts []
         | Some sessions \<Rightarrow> acts
             [geofences_call p sessions (\<lambda>ids. ModifyGeofences p ids (map GeofencePayload_gfOption gfs)),
              push_gf_pending p E_LOCAPI_MODIFY_GEOFENCES_MSG_ID])))))"

definition pauseGeofences :: "hal_env \<Rightarrow> LocAPIPauseGeofencesReqMsg \<Rightarrow> act" where
  "pauseGeofences env m = geofence_request env (mSocketName m) (LocAPIPauseGeofencesReqMsg_gfClientIds m)
     PauseGeofences E_LOCAPI_PAUSE_GEOFENCES_MSG_ID"

definition resumeGeofences :: "hal_env \<Rightarrow> LocAPIResumeGeofencesReqMsg \<Rightarrow> act" where
  "resumeGeofences env m = geofence_request env (mSocketName m) (LocAPIResumeGeofencesReqMsg_gfClientIds m)
     ResumeGeofences E_LOCAPI_RESUME_GEOFENCES_MSG_ID"

definition pingTest :: "hal_env \<Rightarrow> LocAPIPingTestReqMsg \<Rightarrow> act" where
  "pingTest env m = with_client (mSocketName m) (pingTest_handler env)"

section \<open>Callbacks of the location control API\<close>

definition onControlResponseCallback :: "hal_env \<Rightarrow> int \<Rightarrow> 32 word \<Rightarrow> act" where
  "onControlResponseCallback env err sessionId = reading (\<lambda>s. mConfigReqs s sessionId) (\<lambda>r. case r of None \<Rightarrow> acts []
   | Some d \<Rightarrow> acts
      [with_client (clientName d) (\<lambda>p. onControlResponseCb env p err (configMsgId d)),
       upd (\<lambda>s. s\<lparr>mConfigReqs := (mConfigReqs s)(sessionId := None)\<rparr>)])"

definition onControlCollectiveResponseCallback :: "hal_env \<Rightarrow> (int \<times> 32 word) list \<Rightarrow> act" where
  "onControlCollectiveResponseCallback env rs = (case rs of [(err, sessionId)] \<Rightarrow> onControlResponseCallback env err sessionId | _ \<Rightarrow> acts [])"

definition onGnssConfigCallback :: "hal_env \<Rightarrow> 32 word \<Rightarrow> GnssConfig \<Rightarrow> act" where
  "onGnssConfigCallback env sessionId config = reading (\<lambda>s. mConfigReqs s sessionId) (\<lambda>r. case r of None \<Rightarrow> acts []
   | Some d \<Rightarrow> acts
      [with_client (clientName d) (\<lambda>p. acts
         [onControlResponseCb env p LOCATION_ERROR_SUCCESS (configMsgId d),
          onGnssConfigCb env p (configMsgId d) config]),
       upd (\<lambda>s. s\<lparr>mConfigReqs := (mConfigReqs s)(sessionId := None)\<rparr>)])"

definition onGnssEnergyConsumedCb :: "hal_env \<Rightarrow> 64 word \<Rightarrow> act" where
  "onGnssEnergyConsumedCb env energy = reading (\<lambda>s. visit_clients env (mClients s)) (for_clients
     (onGnssEnergyConsumedInfoAvailable env (new_LocAPIGnssEnergyConsumedIndMsg SERVICE_NAME energy mPbufMsgConv)))"

section \<open>Power events\<close>

definition onPowerEvent :: "hal_env \<Rightarrow> int \<Rightarrow> act" where
  "onPowerEvent env powerState = acts
    [upd (\<lambda>s. s\<lparr>mPowerState := powerState\<rparr>),
     (if powerState = POWER_STATE_SUSPEND \<or> powerState = POWER_STATE_SHUTDOWN then suspendAllTrackingSessions env
      else if powerState = POWER_STATE_RESUME then resumeAllTrackingSessions env else acts []),
     getGnssInterface env (\<lambda>ok. if ok then calling (UpdateSystemPowerState powerState) else acts [])]"

section \<open>Terrestrial fixes\<close>

definition network :: "hal_call \<Rightarrow> act" where
  "network c = reading mGtpWwanSsLocationApi (\<lambda>b. if b then calling c else failing NullDereference)"

text \<open>\<^verbatim>\<open>emplace\<close> keeps the entry a client already has, and \<^verbatim>\<open>start\<close> does nothing to a timer that runs.\<close>

definition start_fix_timer :: "string \<Rightarrow> 32 word \<Rightarrow> (string \<times> 32 word option) list \<Rightarrow> (string \<times> 32 word option) list" where
  "start_fix_timer name msec xs = (case map_of xs name of Some (Some t) \<Rightarrow> xs | _ \<Rightarrow> AList.update name (Some msec) xs)"

definition getSingleTerrestrialPos :: "hal_env \<Rightarrow> LocAPIGetSingleTerrestrialPosReqMsg \<Rightarrow> act" where
  "getSingleTerrestrialPos env m = (let clientname = mSocketName m in reading mOptInTerrestrialService (\<lambda>opt. if opt \<noteq> 1
     then with_client clientname (\<lambda>p. sendTerrestrialFix env p LOCATION_ERROR_NOT_SUPPORTED Location_zero)
     else acts
       [upd (\<lambda>s. s\<lparr>mTerrestrialFixReqs :=
          start_fix_timer clientname (LocAPIGetSingleTerrestrialPosReqMsg_mTimeoutMsec m) (mTerrestrialFixReqs s)\<rparr>),
        reading mTerrestrialFixReqs (\<lambda>xs. if length xs = 1 then network StartNetworkLocation else acts [])]))"

definition gtpFixRequestTimeout :: "hal_env \<Rightarrow> string \<Rightarrow> act" where
  "gtpFixRequestTimeout env name = reading (\<lambda>s. map_of (mTerrestrialFixReqs s) name) (\<lambda>r. case r of None \<Rightarrow> acts []
   | Some _ \<Rightarrow> acts
      [with_client name (\<lambda>p. sendTerrestrialFix env p LOCATION_ERROR_TIMEOUT Location_zero),
       upd (\<lambda>s. s\<lparr>mTerrestrialFixReqs := AList.delete name (mTerrestrialFixReqs s)\<rparr>),
       reading mTerrestrialFixReqs (\<lambda>xs. if length xs = 1 then network StopNetworkLocation else acts [])])"

text \<open>Here the pointer to the client is used without a test.\<close>

definition onGtpWwanTrackingCallback :: "hal_env \<Rightarrow> Location \<Rightarrow> act" where
  "onGtpWwanTrackingCallback env location = reading (\<lambda>s. (mTerrestrialFixReqs s, mOptInTerrestrialService s)) (\<lambda>(xs, opt).
     if xs \<noteq> [] \<and> Location_flags location AND word_of_int LOCATION_HAS_LAT_LONG_BIT \<noteq> 0 \<and> opt = 1 then acts
       [acts (map (\<lambda>(name, t). reading (getClient name) (\<lambda>c. case c of None \<Rightarrow> failing NullDereference
          | Some p \<Rightarrow> sendTerrestrialFix env p LOCATION_ERROR_SUCCESS location)) (visit_fixes env xs)),
        upd (\<lambda>s. s\<lparr>mTerrestrialFixReqs := []\<rparr>),
        network StopNetworkLocation]
     else acts [])"

section \<open>Timers and the daemon's own task\<close>

definition MaintTimer_timeOutCallback :: act where
  "MaintTimer_timeOutCallback = upd (\<lambda>s. s\<lparr>mMaintTimer := False, mMsgTask := mMsgTask s @ [PerformMaintenanceReq]\<rparr>)"

definition SingleTerrestrialFixTimer_timeOutCallback :: "string \<Rightarrow> act" where
  "SingleTerrestrialFixTimer_timeOutCallback name = upd (\<lambda>s. s\<lparr>mTerrestrialFixReqs := AList.update name None (mTerrestrialFixReqs s),
     mMsgTask := mMsgTask s @ [SingleTerrestrialFixTimeoutReq name]\<rparr>)"

text \<open>The parts of \<^verbatim>\<open>performMaintenance\<close>: the copy of the table, the ping of a client, the deletion of a client that cannot be
  reached, the next timer.  Only the first of them holds the lock.\<close>

fun clients_to_check :: "(string \<times> addr) list \<Rightarrow> ((string \<times> bool) list \<Rightarrow> act) \<Rightarrow> act" where
  "clients_to_check [] k = k []"
| "clients_to_check ((n, p) # xs) k = (if n = AUTO_START_CLIENT_NAME then clients_to_check xs k
     else on_handler p (\<lambda>h. clients_to_check xs (\<lambda>ys. k ((n, mIpcSender h) # ys))))"

definition maintenance_begins :: "hal_env \<Rightarrow> act" where
  "maintenance_begins env = reading (\<lambda>s. visit_clients env (mClients s)) (\<lambda>xs.
     clients_to_check xs (\<lambda>ys. upd (\<lambda>s. s\<lparr>clientsToCheck := Some ys\<rparr>)))"

definition maintenance_pings :: "hal_env \<Rightarrow> string \<Rightarrow> bool \<Rightarrow> act" where
  "maintenance_pings env name sender = serializing env (LocAPIPingTestReqMsg_serializeToProtobuf (write_LocAPIPingTestReqMsg (writer env))
       (write_header (writer env)) (class_size env ''LocAPIPingTestReqMsg'')
       (new_LocAPIPingTestReqMsg SERVICE_NAME mPbufMsgConv (mem_ping env)))
     (\<lambda>pbStr. if sender then asking (granted env) (SendTo name pbStr) (\<lambda>messageSent.
        if messageSent then acts [] else upd (\<lambda>s. s\<lparr>purging := Some name\<rparr>)) else failing NullDereference)
     (upd (\<lambda>s. s\<lparr>purging := Some name\<rparr>))"

definition maintenance_purges :: "string \<Rightarrow> act" where
  "maintenance_purges name = acts [deleteClientbyName name, upd (\<lambda>s. s\<lparr>purging := None\<rparr>)]"

definition maintenance_ends :: act where
  "maintenance_ends = acts [upd (\<lambda>s. s\<lparr>clientsToCheck := None, mMaintTimer := True\<rparr>), calling StartMaintTimer]"

definition task_step :: "hal_env \<Rightarrow> act" where
  "task_step env = reading (\<lambda>s. (purging s, clientsToCheck s)) (\<lambda>(d, c). case d of Some name \<Rightarrow> maintenance_purges name | None \<Rightarrow> (case c of
     Some [] \<Rightarrow> maintenance_ends
   | Some ((name, sender) # ys) \<Rightarrow> acts [upd (\<lambda>s. s\<lparr>clientsToCheck := Some ys\<rparr>), maintenance_pings env name sender]
   | None \<Rightarrow> reading mMsgTask (\<lambda>q. case q of [] \<Rightarrow> acts []
     | msg # q' \<Rightarrow> acts [upd (\<lambda>s. s\<lparr>mMsgTask := q'\<rparr>),
         (case msg of PerformMaintenanceReq \<Rightarrow> maintenance_begins env
          | SingleTerrestrialFixTimeoutReq name \<Rightarrow> gtpFixRequestTimeout env name)])))"

section \<open>Messages from clients\<close>

definition receiving :: "(string \<Rightarrow> ('pb \<times> 'm) option) \<Rightarrow> string \<Rightarrow> ('pb \<Rightarrow> 'm \<Rightarrow> pb_error + 'm) \<Rightarrow> ('m \<Rightarrow> act) \<Rightarrow> act" where
  "receiving parse payload build k = (case parse payload of None \<Rightarrow> acts []
   | Some (pb, mem) \<Rightarrow> (case build pb mem of Inl e \<Rightarrow> failing (Conversion e) | Inr m \<Rightarrow> k m))"

text \<open>The \<^verbatim>\<open>switch\<close> over the message ids.\<close>

definition client_requests :: "hal_env \<Rightarrow> string \<Rightarrow> string \<Rightarrow> LocAPIMsgHeader \<Rightarrow> (int \<times> act) list" where
  "client_requests env sockName payload locApiMsg = [
     (E_LOCAPI_CLIENT_REGISTER_MSG_ID, receiving (read_LocAPIClientRegisterReqMsg (reader env)) payload
        (\<lambda>pb. LocAPIClientRegisterReqMsg_fromPB sockName pb mPbufMsgConv) (newClient env)),
     (E_LOCAPI_CLIENT_DEREGISTER_MSG_ID, deleteClient (new_LocAPIClientDeregisterReqMsg sockName mPbufMsgConv)),
     (E_LOCAPI_START_TRACKING_MSG_ID, receiving (read_LocAPIStartTrackingReqMsg (reader env)) payload
        (\<lambda>pb. LocAPIStartTrackingReqMsg_fromPB sockName pb mPbufMsgConv) (startTracking env)),
     (E_LOCAPI_STOP_TRACKING_MSG_ID, stopTracking (new_LocAPIStopTrackingReqMsg sockName mPbufMsgConv)),
     (E_LOCAPI_UPDATE_CALLBACKS_MSG_ID, receiving (read_LocAPIUpdateCallbacksReqMsg (reader env)) payload
        (\<lambda>pb. LocAPIUpdateCallbacksReqMsg_fromPB sockName pb mPbufMsgConv) updateSubscription_client),
     (E_LOCAPI_UPDATE_TRACKING_OPTIONS_MSG_ID, receiving (read_LocAPIUpdateTrackingOptionsReqMsg (reader env)) payload
        (\<lambda>pb. LocAPIUpdateTrackingOptionsReqMsg_fromPB sockName pb mPbufMsgConv) updateTrackingOptions),
     (E_LOCAPI_START_BATCHING_MSG_ID, receiving (read_LocAPIStartBatchingReqMsg (reader env)) payload
        (\<lambda>pb. LocAPIStartBatchingReqMsg_fromPB sockName pb mPbufMsgConv) (startBatching env)),
     (E_LOCAPI_STOP_BATCHING_MSG_ID, stopBatching (new_LocAPIStopBatchingReqMsg sockName mPbufMsgConv)),
     (E_LOCAPI_UPDATE_BATCHING_OPTIONS_MSG_ID, receiving (read_LocAPIUpdateBatchingOptionsReqMsg (reader env)) payload
        (\<lambda>pb. LocAPIUpdateBatchingOptionsReqMsg_fromPB sockName pb mPbufMsgConv) updateBatchingOptions),
     (E_LOCAPI_ADD_GEOFENCES_MSG_ID, receiving (read_LocAPIAddGeofencesReqMsg (reader env)) payload
        (\<lambda>pb. LocAPIAddGeofencesReqMsg_fromPB sockName pb mPbufMsgConv) (addGeofences env)),
     (E_LOCAPI_REMOVE_GEOFENCES_MSG_ID, receiving (read_LocAPIRemoveGeofencesReqMsg (reader env)) payload
        (\<lambda>pb. LocAPIRemoveGeofencesReqMsg_fromPB sockName pb mPbufMsgConv) (removeGeofences env)),
     (E_LOCAPI_MODIFY_GEOFENCES_MSG_ID, receiving (read_LocAPIModifyGeofencesReqMsg (reader env)) payload
        (\<lambda>pb. LocAPIModifyGeofencesReqMsg_fromPB sockName pb mPbufMsgConv) (modifyGeofences env)),
     (E_LOCAPI_PAUSE_GEOFENCES_MSG_ID, receiving (read_LocAPIPauseGeofencesReqMsg (reader env)) payload
        (\<lambda>pb. LocAPIPauseGeofencesReqMsg_fromPB sockName pb mPbufMsgConv) (pauseGeofences env)),
     (E_LOCAPI_RESUME_GEOFENCES_MSG_ID, receiving (read_LocAPIResumeGeofencesReqMsg (reader env)) payload
        (\<lambda>pb. LocAPIResumeGeofencesReqMsg_fromPB sockName pb mPbufMsgConv) (resumeGeofences env)),
     (E_LOCAPI_CONTROL_UPDATE_NETWORK_AVAILABILITY_MSG_ID, receiving (read_LocAPIUpdateNetworkAvailabilityReqMsg (reader env)) payload
        (\<lambda>pb. LocAPIUpdateNetworkAvailabilityReqMsg_fromPB sockName pb mPbufMsgConv) (\<lambda>m. updateNetworkAvailability env (LocAPIUpdateNetworkAvailabilityReqMsg_mAvailability m))),
     (E_LOCAPI_GET_GNSS_ENGERY_CONSUMED_MSG_ID, getGnssEnergyConsumed env (c_str sockName)),
     (E_LOCAPI_GET_SINGLE_TERRESTRIAL_POS_REQ_MSG_ID, receiving (read_LocAPIGetSingleTerrestrialPosReqMsg (reader env)) payload
        (\<lambda>pb. LocAPIGetSingleTerrestrialPosReqMsg_fromPB sockName pb mPbufMsgConv) (getSingleTerrestrialPos env)),
     (E_LOCAPI_PINGTEST_MSG_ID, receiving (read_LocAPIPingTestReqMsg (reader env)) payload
        (\<lambda>pb. LocAPIPingTestReqMsg_fromPB sockName pb mPbufMsgConv) (pingTest env)),
     (E_INTAPI_CONFIG_CONSTRAINTED_TUNC_MSG_ID, receiving (read_LocConfigConstrainedTuncReqMsg (reader env)) payload
        (\<lambda>pb. LocConfigConstrainedTuncReqMsg_fromPB sockName pb mPbufMsgConv) (configConstrainedTunc env)),
     (E_INTAPI_CONFIG_POSITION_ASSISTED_CLOCK_ESTIMATOR_MSG_ID, receiving (read_LocConfigPositionAssistedClockEstimatorReqMsg (reader env)) payload
        (\<lambda>pb. LocConfigPositionAssistedClockEstimatorReqMsg_fromPB sockName pb mPbufMsgConv) (configPositionAssistedClockEstimator env)),
     (E_INTAPI_CONFIG_SV_CONSTELLATION_MSG_ID, receiving (read_LocConfigSvConstellationReqMsg (reader env)) payload
        (\<lambda>pb. LocConfigSvConstellationReqMsg_fromPB sockName pb mPbufMsgConv) (configConstellations env)),
     (E_INTAPI_CONFIG_CONSTELLATION_SECONDARY_BAND_MSG_ID, receiving (read_LocConfigConstellationSecondaryBandReqMsg (reader env)) payload
        (\<lambda>pb. LocConfigConstellationSecondaryBandReqMsg_fromPB sockName pb mPbufMsgConv) (configConstellationSecondaryBand env)),
     (E_INTAPI_CONFIG_AIDING_DATA_DELETION_MSG_ID, receiving (read_LocConfigAidingDataDeletionReqMsg (reader env)) payload
        (\<lambda>pb. LocConfigAidingDataDeletionReqMsg_fromPB sockName pb mPbufMsgConv) (configAidingDataDeletion env)),
     (E_INTAPI_CONFIG_LEVER_ARM_MSG_ID, receiving (read_LocConfigLeverArmReqMsg (reader env)) payload
        (\<lambda>pb. LocConfigLeverArmReqMsg_fromPB sockName pb mPbufMsgConv) (configLeverArm env)),
     (E_INTAPI_CONFIG_ROBUST_LOCATION_MSG_ID, receiving (read_LocConfigRobustLocationReqMsg (reader env)) payload
        (\<lambda>pb. LocConfigRobustLocationReqMsg_fromPB sockName pb mPbufMsgConv) (configRobustLocation env)),
     (E_INTAPI_CONFIG_MIN_GPS_WEEK_MSG_ID, receiving (read_LocConfigMinGpsWeekReqMsg (reader env)) payload
        (\<lambda>pb. LocConfigMinGpsWeekReqMsg_fromPB sockName pb mPbufMsgConv) (configMinGpsWeek env)),
     (E_INTAPI_CONFIG_DEAD_RECKONING_ENGINE_MSG_ID, receiving (read_LocConfigDrEngineParamsReqMsg (reader env)) payload
        (\<lambda>pb. LocConfigDrEngineParamsReqMsg_fromPB sockName pb mPbufMsgConv) (configDeadReckoningEngineParams env)),
     (E_INTAPI_CONFIG_MIN_SV_ELEVATION_MSG_ID, receiving (read_LocConfigMinSvElevationReqMsg (reader env)) payload
        (\<lambda>pb. LocConfigMinSvElevationReqMsg_fromPB sockName pb mPbufMsgConv) (configMinSvElevation env)),
     (E_INTAPI_CONFIG_ENGINE_RUN_STATE_MSG_ID, receiving (read_LocConfigEngineRunStateReqMsg (reader env)) payload
        (\<lambda>pb. LocConfigEngineRunStateReqMsg_fromPB sockName pb mPbufMsgConv) (configEngineRunState env)),
     (E_INTAPI_CONFIG_USER_CONSENT_TERRESTRIAL_POSITIONING_MSG_ID, receiving (read_LocConfigUserConsentTerrestrialPositioningReqMsg (reader env)) payload
        (\<lambda>pb. LocConfigUserConsentTerrestrialPositioningReqMsg_fromPB sockName pb mPbufMsgConv) (configUserConsentTerrestrialPositioning env)),
     (E_INTAPI_GET_ROBUST_LOCATION_CONFIG_REQ_MSG_ID, getGnssConfig env locApiMsg GNSS_CONFIG_FLAGS_ROBUST_LOCATION_BIT),
     (E_INTAPI_GET_MIN_GPS_WEEK_REQ_MSG_ID, getGnssConfig env locApiMsg GNSS_CONFIG_FLAGS_MIN_GPS_WEEK_BIT),
     (E_INTAPI_GET_MIN_SV_ELEVATION_REQ_MSG_ID, getGnssConfig env locApiMsg GNSS_CONFIG_FLAGS_MIN_SV_ELEVATION_BIT),
     (E_INTAPI_GET_CONSTELLATION_SECONDARY_BAND_CONFIG_REQ_MSG_ID, getConstellationSecondaryBandConfig env locApiMsg)
   ]"

definition processClientMsg :: "hal_env \<Rightarrow> string \<Rightarrow> act" where
  "processClientMsg env bytes = (case read_header (reader env) bytes of None \<Rightarrow> acts []
   | Some pbLocApiMsg \<Rightarrow>
      (let eLocMsgid = getEnumForPBELocMsgID (PBLocAPIMsgHeader_msgId pbLocApiMsg);
           sockName = PBLocAPIMsgHeader_mSocketName pbLocApiMsg;
           locApiMsg = new_LocAPIMsgHeader sockName eLocMsgid NULL
       in if \<not> isValidClientMsg locApiMsg then acts []
          else case map_of (client_requests env sockName (PBLocAPIMsgHeader_payload pbLocApiMsg) locApiMsg) eLocMsgid of
            None \<Rightarrow> acts [] | Some a \<Rightarrow> a))"

section \<open>Start and end\<close>

record configParamToRead =
  autoStartGnss :: "32 word"
  gnssSessionTbfMs :: "32 word"
  deleteAllBeforeAutoStart :: "32 word"
  posEngineMask :: "32 word"
  positionMode :: int

definition LocationApiService_zero :: "configParamToRead \<Rightarrow> LocationApiService" where
  "LocationApiService_zero config = \<lparr>mClients = [], handlers = Map.empty, allocated = 1, mConfigReqs = Map.empty, mLocationControlId = 0,
     mLocationControlApi = False, mPositionMode = positionMode config, mPowerState = POWER_STATE_UNKNOWN,
     mGtpWwanSsLocationApi = False, mOptInTerrestrialService = - 1, mTerrestrialFixReqs = [], mMaintTimer = False, mMsgTask = [],
     clientsToCheck = None, purging = None, gnssInterface = False, getGnssInterfaceFailed = False, listening = False, calls = []\<rparr>"

definition auto_start :: "hal_env \<Rightarrow> configParamToRead \<Rightarrow> act" where
  "auto_start env config = acts
    [if deleteAllBeforeAutoStart config \<noteq> 0 \<and> posEngineMask config \<noteq> 0
     then calling (Control (DeleteAidingData \<lparr>GnssAidingData_deleteAll = True,
       GnssAidingData_sv = \<lparr>GnssAidingDataSv_svMask = 0, GnssAidingDataSv_svTypeMask = 0\<rparr>,
       GnssAidingData_common = \<lparr>GnssAidingDataCommon_mask = 0\<rparr>, GnssAidingData_dreAidingDataMask = 0,
       GnssAidingData_posEngineMask = posEngineMask config\<rparr>))
     else acts [],
     new_LocHalDaemonClientHandler env AUTO_START_CLIENT_NAME LOCATION_CLIENT_API (\<lambda>p. acts
       [upd (\<lambda>s. s\<lparr>mClients := mClients s @ [(AUTO_START_CLIENT_NAME, p)]\<rparr>),
        updateSubscription p (word_of_int (E_LOC_CB_GNSS_LOCATION_INFO_BIT OR E_LOC_CB_GNSS_SV_BIT)),
        startTracking_handler env p (new_LocationOptions\<lparr>LocationOptions_size := sizeof_LocationOptions,
          LocationOptions_minInterval := gnssSessionTbfMs config, LocationOptions_minDistance := 0,
          LocationOptions_mode := positionMode config\<rparr>),
        set_handler p (\<lambda>h. h\<lparr>mTracking := True\<rparr>),
        push_pending p E_LOCAPI_START_TRACKING_MSG_ID])]"

text \<open>The constructor; it listens for messages when the control API could be created.\<close>

definition new_LocationApiService :: "hal_env \<Rightarrow> configParamToRead \<Rightarrow> act" where
  "new_LocationApiService env config = asking (granted env) CreateControlInstance (\<lambda>ok. if \<not> ok then acts [] else acts
    [upd (\<lambda>s. s\<lparr>mLocationControlApi := True\<rparr>),
     asking (answer env) Enable (\<lambda>i. upd (\<lambda>s. s\<lparr>mLocationControlId := i\<rparr>)),
     upd (\<lambda>s. s\<lparr>mMaintTimer := True\<rparr>),
     calling StartMaintTimer,
     if autoStartGnss config \<noteq> 0 then auto_start env config else acts [],
     upd (\<lambda>s. s\<lparr>listening := True\<rparr>)])"

text \<open>When the socket is ready every client socket in the directory is told; the entries are those \<^verbatim>\<open>lstat\<close> succeeds on.\<close>

definition onListenerReady :: "hal_env \<Rightarrow> string list \<Rightarrow> act" where
  "onListenerReady env entries = acts (map (\<lambda>d_name. let fname = SOCKET_LOC_CLIENT_DIR @ d_name in
     if take 1 d_name = ''.'' then acts []
     else if take (length (SOCKET_LOC_CLIENT_DIR @ LOC_CLIENT_NAME_PREFIX)) fname \<noteq> SOCKET_LOC_CLIENT_DIR @ LOC_CLIENT_NAME_PREFIX then acts []
     else createSender env fname (\<lambda>sender. serializing env
       (\<lambda>_. LocAPIHalReadyIndMsg_serializeToProtobuf (write_header (writer env)) (class_size env ''LocAPIHalReadyIndMsg'')
         (new_LocAPIHalReadyIndMsg SERVICE_NAME mPbufMsgConv))
       (\<lambda>pbStr. if sender then calling (SendTo fname pbStr) else failing NullDereference)
       (acts []))) entries)"

definition delete_LocationApiService :: "hal_env \<Rightarrow> act" where
  "delete_LocationApiService env = acts
    [upd (\<lambda>s. s\<lparr>listening := False\<rparr>),
     reading (\<lambda>s. visit_clients env (mClients s)) (for_clients cleanup),
     reading mLocationControlApi (\<lambda>b. if b then acts [reading mLocationControlId (\<lambda>i. calling (Disable i)), calling DestroyControl]
       else failing NullDereference)]"

text \<open>\<^verbatim>\<open>PowerEvtHandler::pwrStateCb\<close>: the states of the power manager that reach the service.\<close>

datatype sys_state = SYS_SUSPEND | SYS_RESUME | SYS_SHUTDOWN | SYS_OTHER

definition pwrStateCb :: "hal_env \<Rightarrow> sys_state \<Rightarrow> act" where
  "pwrStateCb env w = (case w of SYS_SUSPEND \<Rightarrow> onPowerEvent env POWER_STATE_SUSPEND
   | SYS_RESUME \<Rightarrow> onPowerEvent env POWER_STATE_RESUME
   | SYS_SHUTDOWN \<Rightarrow> onPowerEvent env POWER_STATE_SHUTDOWN
   | SYS_OTHER \<Rightarrow> acts [])"

section \<open>Events\<close>

datatype hal_event =
    ClientMsg string
  | Capabilities addr "64 word"
  | Response addr int "32 word"
  | CollectiveResponse addr "(int \<times> 32 word) list"
  | Tracking addr Location
  | Batching addr "Location list"
  | BatchingStatus addr int
  | GeofenceBreach addr "32 word list"
  | LocationInfo addr GnssLocationInfoNotification
  | EngineLocations addr "GnssLocationInfoNotification list"
  | Satellites addr GnssSvNotification
  | Nmea addr "64 word" string
  | GnssData addr GnssDataNotification
  | Measurements addr GnssMeasurementsNotification
  | SystemInfo addr LocationSystemInfo
  | DestroyComplete addr
  | ControlResponse int "32 word"
  | ControlCollectiveResponse "(int \<times> 32 word) list"
  | Config "32 word" GnssConfig
  | EnergyConsumed "64 word"
  | NetworkFix Location
  | Power sys_state
  | MaintTimerFires
  | FixTimerFires string
  | TaskStep
  | ListenerReady "string list"

fun react :: "hal_env \<Rightarrow> hal_event \<Rightarrow> act" where
  "react env (ClientMsg bytes) = processClientMsg env bytes"
| "react env (Capabilities p w) = onCapabilitiesCallback env p w"
| "react env (Response p err i) = onResponseCb env p err i"
| "react env (CollectiveResponse p rs) = onCollectiveResponseCallback env p (length rs) (map fst rs) (map snd rs)"
| "react env (Tracking p l) = onTrackingCb env p l"
| "react env (Batching p ls) = onBatchingCb env p ls"
| "react env (BatchingStatus p b) = onBatchingStatusCb env p b"
| "react env (GeofenceBreach p ids) = onGeofenceBreachCb env p ids"
| "react env (LocationInfo p n) = onGnssLocationInfoCb env p n"
| "react env (EngineLocations p ns) = onEngLocationsInfoCb env p ns"
| "react env (Satellites p n) = onGnssSvCb env p n"
| "react env (Nmea p t n) = onGnssNmeaCb env p t n"
| "react env (GnssData p n) = onGnssDataCb env p n"
| "react env (Measurements p n) = onGnssMeasurementsCb env p n"
| "react env (SystemInfo p n) = onLocationSystemInfoCb env p n"
| "react env (DestroyComplete p) = onLocationApiDestroyCompleteCb p"
| "react env (ControlResponse err i) = onControlResponseCallback env err i"
| "react env (ControlCollectiveResponse rs) = onControlCollectiveResponseCallback env rs"
| "react env (Config i c) = onGnssConfigCallback env i c"
| "react env (EnergyConsumed t) = onGnssEnergyConsumedCb env t"
| "react env (NetworkFix l) = onGtpWwanTrackingCallback env l"
| "react env (Power w) = pwrStateCb env w"
| "react env MaintTimerFires = MaintTimer_timeOutCallback"
| "react env (FixTimerFires name) = SingleTerrestrialFixTimer_timeOutCallback name"
| "react env TaskStep = task_step env"
| "react env (ListenerReady entries) = onListenerReady env entries"

text \<open>
  Which events can come: a callback of a location API instance only as long as its destruction has not been confirmed (a handler is deleted
  in that confirmation, or when it has no instance), the confirmation once after \<^verbatim>\<open>destroy\<close>, a timeout of a timer that runs.  The
  first two are what the daemon relies on of the location API, which it does not check.
\<close>

fun target :: "hal_event \<Rightarrow> addr option" where
  "target (Capabilities p _) = Some p"
| "target (Response p _ _) = Some p"
| "target (CollectiveResponse p _) = Some p"
| "target (Tracking p _) = Some p"
| "target (Batching p _) = Some p"
| "target (BatchingStatus p _) = Some p"
| "target (GeofenceBreach p _) = Some p"
| "target (LocationInfo p _) = Some p"
| "target (EngineLocations p _) = Some p"
| "target (Satellites p _) = Some p"
| "target (Nmea p _ _) = Some p"
| "target (GnssData p _) = Some p"
| "target (Measurements p _) = Some p"
| "target (SystemInfo p _) = Some p"
| "target (DestroyComplete p) = Some p"
| "target _ = None"

fun can_come :: "hal_event \<Rightarrow> LocationApiService \<Rightarrow> bool" where
  "can_come (DestroyComplete p) s = (case handlers s p of None \<Rightarrow> False | Some h \<Rightarrow> \<not> mLocationApi h \<and> Destroy p \<in> set (calls s))"
| "can_come MaintTimerFires s = mMaintTimer s"
| "can_come (FixTimerFires name) s = (\<exists>t. map_of (mTerrestrialFixReqs s) name = Some (Some t))"
| "can_come e s = (case target e of None \<Rightarrow> True | Some p \<Rightarrow> handlers s p \<noteq> None)"

text \<open>The functions behind these events take the lock or work on what it protects; the others only send messages.\<close>

fun takes_lock :: "hal_event \<Rightarrow> bool" where
  "takes_lock TaskStep = False"
| "takes_lock MaintTimerFires = False"
| "takes_lock (ListenerReady _) = False"
| "takes_lock _ = True"

definition hal_step :: "hal_env \<Rightarrow> hal_event \<Rightarrow> act" where
  "hal_step env e = reading purging (\<lambda>d. if d \<noteq> None \<and> takes_lock e then failing DataRace else react env e)"

inductive reachable :: "hal_env \<Rightarrow> configParamToRead \<Rightarrow> LocationApiService \<Rightarrow> bool" for env config where
  starts: "new_LocationApiService env config (LocationApiService_zero config) = Inr s \<Longrightarrow> reachable env config s"
| reacts: "reachable env config s \<Longrightarrow> listening s \<Longrightarrow> can_come e s \<Longrightarrow> hal_step env e s = Inr s' \<Longrightarrow> reachable env config s'"

end
