(* ===== verification/HalInv.thy ===== *)
theory HalInv
  imports HalService
begin

text \<open>
  What every step of the daemon keeps.  Properties of statements are triples: from a state with the first assertion the
  statement fails only with errors that are allowed, or ends in a state with the second assertion.  The locale
  \<^verbatim>\<open>hal_contract\<close> names what an assertion about the service has to withstand, and derives once that every event keeps it;
  it is used for two assertions, the registry of clients and the state of the maintenance.
\<close>

section \<open>Triples\<close>

definition hoare :: "(hal_error \<Rightarrow> bool) \<Rightarrow> (LocationApiService \<Rightarrow> bool) \<Rightarrow> act \<Rightarrow> (LocationApiService \<Rightarrow> bool) \<Rightarrow> bool" where
  "hoare ok P a Q \<longleftrightarrow> (\<forall>s. P s \<longrightarrow> (case a s of Inl e \<Rightarrow> ok e | Inr s' \<Rightarrow> Q s'))"

named_theorems hal_intro

lemma hoareI: "(\<And>s. P s \<Longrightarrow> case a s of Inl e \<Rightarrow> ok e | Inr s' \<Rightarrow> Q s') \<Longrightarrow> hoare ok P a Q"
  by (simp add: hoare_def)

lemma hoareD: "hoare ok P a Q \<Longrightarrow> P s \<Longrightarrow> case a s of Inl e \<Rightarrow> ok e | Inr s' \<Rightarrow> Q s'"
  by (simp add: hoare_def)

lemma hoare_Inr: "hoare ok P a Q \<Longrightarrow> P s \<Longrightarrow> a s = Inr s' \<Longrightarrow> Q s'"
  by (auto simp: hoare_def split: sum.splits)

lemma hoare_any: "hoare ok P a Q \<Longrightarrow> hoare (\<lambda>_. True) P a Q"
  by (auto simp: hoare_def split: sum.splits)

lemma hoare_weaken: "hoare ok P a Q \<Longrightarrow> (\<And>s. P' s \<Longrightarrow> P s) \<Longrightarrow> (\<And>s. Q s \<Longrightarrow> Q' s) \<Longrightarrow> hoare ok P' a Q'"
  by (fastforce simp: hoare_def split: sum.splits)

lemma hoare_single [hal_intro]: "hoare ok P f Q \<Longrightarrow> hoare ok P (acts [f]) Q"
  by (fastforce simp: hoare_def split: sum.splits)

lemma hoare_cons: "hoare ok P f R \<Longrightarrow> hoare ok R (acts fs) Q \<Longrightarrow> hoare ok P (acts (f # fs)) Q"
  by (fastforce simp: hoare_def split: sum.splits)


lemma hoare_nil: "(\<And>s. P s \<Longrightarrow> Q s) \<Longrightarrow> hoare ok P (acts []) Q"
  by (simp add: hoare_def)

lemma hoare_failing: "ok e \<Longrightarrow> hoare ok P (failing e) Q"
  by (simp add: hoare_def failing_def)

lemma hoare_upd: "(\<And>s. P s \<Longrightarrow> Q (f s)) \<Longrightarrow> hoare ok P (upd f) Q"
  by (simp add: hoare_def upd_def)

lemma hoare_reading_at: "(\<And>v. hoare ok (\<lambda>s. P s \<and> f s = v) (k v) Q) \<Longrightarrow> hoare ok P (reading f k) Q"
  by (simp add: hoare_def reading_def)

lemma hoare_reading [hal_intro]: "(\<And>v. hoare ok P (k v) Q) \<Longrightarrow> hoare ok P (reading f k) Q"
  by (simp add: hoare_def reading_def)

lemma hoare_if [hal_intro]: "(b \<Longrightarrow> hoare ok P x Q) \<Longrightarrow> (\<not> b \<Longrightarrow> hoare ok P y Q) \<Longrightarrow> hoare ok P (if b then x else y) Q"
  by simp

lemma hoare_option [hal_intro]:
  "hoare ok P x Q \<Longrightarrow> (\<And>v. hoare ok P (y v) Q) \<Longrightarrow> hoare ok P (case r of None \<Rightarrow> x | Some v \<Rightarrow> y v) Q"
  by (cases r) simp_all

lemma hoare_sum [hal_intro]:
  "(\<And>v. hoare ok P (x v) Q) \<Longrightarrow> (\<And>v. hoare ok P (y v) Q) \<Longrightarrow> hoare ok P (case r of Inl v \<Rightarrow> x v | Inr v \<Rightarrow> y v) Q"
  by (cases r) simp_all

lemma hoare_list [hal_intro]:
  "hoare ok P x Q \<Longrightarrow> (\<And>v vs. hoare ok P (y v vs) Q) \<Longrightarrow> hoare ok P (case r of [] \<Rightarrow> x | v # vs \<Rightarrow> y v vs) Q"
  by (cases r) simp_all

lemma hoare_pair [hal_intro]: "(\<And>a b. hoare ok P (x a b) Q) \<Longrightarrow> hoare ok P (case r of (a, b) \<Rightarrow> x a b) Q"
  by (cases r) simp

lemma hoare_acts_map: "(\<And>x. x \<in> set xs \<Longrightarrow> hoare ok P (f x) P) \<Longrightarrow> hoare ok P (acts (map f xs)) P"
  by (induction xs) (auto intro!: hoare_cons intro: hoare_nil)

section \<open>Assertions\<close>

text \<open>What a member function may not change of its handler unless it is \<^verbatim>\<open>cleanup\<close>.\<close>

definition same_identity :: "LocHalDaemonClientHandler \<Rightarrow> LocHalDaemonClientHandler \<Rightarrow> bool" where
  "same_identity h h' \<longleftrightarrow> mName h' = mName h \<and> mLocationApi h' = mLocationApi h \<and> mIpcSender h' = mIpcSender h"

definition live :: "(hal_error \<Rightarrow> bool) \<Rightarrow> (LocationApiService \<Rightarrow> bool) \<Rightarrow> addr set \<Rightarrow> LocationApiService \<Rightarrow> bool" where
  "live ok I A s \<longleftrightarrow> I s \<and> (\<forall>p \<in> A. handlers s p \<noteq> None \<or> ok UseAfterFree)"

lemma live_empty [simp]: "live ok I {} = I"
  by (auto simp: live_def fun_eq_iff)

lemma live_mono: "live ok I A s \<Longrightarrow> B \<subseteq> A \<Longrightarrow> live ok I B s"
  by (auto simp: live_def)

text \<open>The walk over a hash table gives its entries, in some order.\<close>

definition walks :: "hal_env \<Rightarrow> bool" where
  "walks env \<longleftrightarrow> (\<forall>xs. set (visit_clients env xs) = set xs) \<and> (\<forall>xs. set (visit_fixes env xs) = set xs)"

lemma cleanup_clients: "cleanup p s = Inr s' \<Longrightarrow> mClients s' = mClients s"
  by (auto simp: cleanup_def set_handler_def on_handler_def upd_def calling_def split: option.splits if_splits)

lemma delete_clients:
  assumes "deleteClientbyName n s = Inr s'"
  shows "(n, q) \<notin> set (mClients s')"
proof (cases "getClient n s")
  case None
  with assms have "s' = s" by (simp add: deleteClientbyName_def reading_def)
  with None show ?thesis by (auto simp: getClient_def map_of_eq_None_iff rev_image_eqI)
next
  case (Some p)
  with assms have "mClients s' = AList.delete n (mClients s)"
    by (auto simp: deleteClientbyName_def reading_def upd_def dest!: cleanup_clients split: sum.splits)
  then show ?thesis by (auto simp: AList.delete_eq)
qed

lemma serializing_cases:
  assumes "serializing env f k x s = Inr s'"
  obtains m where "k m s = Inr s'" | "x s = Inr s'"
  using assms by (auto simp: serializing_def reading_def failing_def split: sum.splits option.splits if_splits)

lemma energy_clients:
  assumes "onGnssEnergyConsumedInfoAvailable env m p s = Inr s'"
  shows "\<exists>h. handlers s p = Some h \<and> (mClients s' = mClients s \<or> mName h \<notin> fst ` set (mClients s'))"
proof (cases "handlers s p")
  case None
  with assms show ?thesis by (simp add: onGnssEnergyConsumedInfoAvailable_def on_handler_def)
next
  case (Some h)
  have "mClients s' = mClients s \<or> mName h \<notin> fst ` set (mClients s')"
  proof (cases "mIpcSender h \<and> mEngineInfoRequestMask h AND E_ENGINE_INFO_CB_GNSS_ENERGY_CONSUMED_BIT \<noteq> 0")
    case False
    with assms Some show ?thesis by (auto simp: onGnssEnergyConsumedInfoAvailable_def on_handler_def)
  next
    case True
    with assms Some show ?thesis
      by (auto simp: onGnssEnergyConsumedInfoAvailable_def on_handler_def sendMessage_def asking_def calling_def reading_def
          set_handler_def upd_def purge_def elim!: serializing_cases dest: delete_clients [of _ _ _ b for b] split: if_splits sum.splits)
  qed
  with Some show ?thesis by simp
qed

lemma checked:
  "(\<exists>ys. clients_to_check xs k s = k ys s)
   \<or> clients_to_check xs k s = Inl UseAfterFree \<and> (\<exists>n p. (n, p) \<in> set xs \<and> handlers s p = None)"
proof (induction xs arbitrary: k)
  case (Cons x xs)
  obtain n p where "x = (n, p)" by (cases x)
  with Cons.IH [of k] Cons.IH [of "\<lambda>ys. k ((n, b) # ys)" for b] show ?case
    by (auto simp: on_handler_def split: option.split) metis+
qed auto

lemma acts_end [simp]: "(case x of Inl e \<Rightarrow> Inl e | Inr s \<Rightarrow> acts [] s) = x"
  by (cases x) simp_all

text \<open>What the constructor of a handler does to the service.\<close>

lemma new_handler_result:
  obtains h cs where "mName h = n" "\<And>q. Destroy q \<notin> set cs"
    "\<And>k. new_LocHalDaemonClientHandler env n t k s = k (allocated s)
       (s\<lparr>allocated := Suc (allocated s), handlers := (handlers s)(allocated s \<mapsto> h), calls := calls s @ cs\<rparr>)"
proof -
  define p where "p = allocated s"
  define sender where "sender = (getNodeType n \<noteq> Other \<and> granted env (calls s @ [CreateSender n]))"
  define cs1 where "cs1 = (if getNodeType n = Other then [] else [CreateSender n])"
  define h where "h = new_handler n t sender"
  define w where "w = (word_of_int E_LOC_CB_GNSS_LOCATION_INFO_BIT :: 32 word)"
  define cb where "cb = subscribed_callbacks w no_callbacks"
  define cs where "cs = cs1 @ (if t = LOCATION_CLIENT_API then [CreateInstance p cb] else [])"
  define h' where "h' = (if t = LOCATION_CLIENT_API then h\<lparr>mCallbacks := cb, mLocationApi := granted env (calls s @ cs)\<rparr> else h)"
  have "new_LocHalDaemonClientHandler env n t k s
      = k p (s\<lparr>allocated := Suc p, handlers := (handlers s)(p \<mapsto> h'), calls := calls s @ cs\<rparr>)" for k
    by (cases "t = LOCATION_CLIENT_API"; cases "getNodeType n = Other")
      (simp_all add: new_LocHalDaemonClientHandler_def reading_def upd_def createSender_def asking_def calling_def set_handler_def
        on_handler_def updateSubscription_def p_def h_def h'_def cs_def cs1_def sender_def cb_def w_def new_handler_def, (cases s, simp)+)
  moreover have "mName h' = n" by (simp add: h'_def h_def new_handler_def)
  moreover have "Destroy q \<notin> set cs" for q by (simp add: cs_def cs1_def)
  ultimately show thesis using that p_def by blast
qed

text \<open>The constructor up to the start of the default client.\<close>

definition control_started :: "hal_env \<Rightarrow> configParamToRead \<Rightarrow> LocationApiService" where
  "control_started env config = (LocationApiService_zero config)\<lparr>mLocationControlApi := True,
     mLocationControlId := answer env [CreateControlInstance, Enable], mMaintTimer := True,
     calls := [CreateControlInstance, Enable, StartMaintTimer]\<rparr>"

lemma constructor_runs:
  "new_LocationApiService env config (LocationApiService_zero config)
     = (if granted env [CreateControlInstance]
        then acts [if autoStartGnss config \<noteq> 0 then auto_start env config else acts [], upd (\<lambda>s. s\<lparr>listening := True\<rparr>)] (control_started env config)
        else Inr ((LocationApiService_zero config)\<lparr>calls := [CreateControlInstance]\<rparr>))"
  by (simp add: new_LocationApiService_def asking_def calling_def reading_def upd_def control_started_def LocationApiService_zero_def)

locale hal_contract =
  fixes ok :: "hal_error \<Rightarrow> bool" and I :: "LocationApiService \<Rightarrow> bool"
  assumes allowed: "ok (Conversion e)" "ok NullDereference" "ok IteratorInvalidated" "ok ArrayBounds" "ok VirtualCallOnZeros"
    and registered: "I s \<Longrightarrow> (n, p) \<in> set (mClients s) \<Longrightarrow> handlers s p \<noteq> None \<or> ok UseAfterFree"
    and named: "I s \<Longrightarrow> (n, p) \<in> set (mClients s) \<Longrightarrow> handlers s p = Some h \<Longrightarrow> mName h = n \<or> ok UseAfterFree"
    and I_calls: "I s \<Longrightarrow> (\<And>q. c \<noteq> Destroy q) \<Longrightarrow> I (s\<lparr>calls := calls s @ [c]\<rparr>)"
    and I_handler: "I s \<Longrightarrow> handlers s p = Some h \<Longrightarrow> same_identity h h' \<Longrightarrow> I (s\<lparr>handlers := (handlers s)(p \<mapsto> h')\<rparr>)"
    and I_other: "I s \<Longrightarrow> I (s\<lparr>mConfigReqs := rs\<rparr>)" "I s \<Longrightarrow> I (s\<lparr>mPowerState := w\<rparr>)"
      "I s \<Longrightarrow> I (s\<lparr>mOptInTerrestrialService := opt\<rparr>)" "I s \<Longrightarrow> I (s\<lparr>mGtpWwanSsLocationApi := b\<rparr>)"
      "I s \<Longrightarrow> I (s\<lparr>getGnssInterfaceFailed := b\<rparr>)" "I s \<Longrightarrow> I (s\<lparr>gnssInterface := b\<rparr>)"
      "I s \<Longrightarrow> I (s\<lparr>mTerrestrialFixReqs := xs\<rparr>)" "I s \<Longrightarrow> I (s\<lparr>listening := b\<rparr>)"
      "I s \<Longrightarrow> I (s\<lparr>purging := d\<rparr>)"
    and deletes: "hoare ok I (deleteClientbyName n) I"
    and I_adds: "I s \<Longrightarrow> getClient n s = None \<Longrightarrow> mName h = n \<Longrightarrow> (\<And>q. Destroy q \<notin> set cs)
      \<Longrightarrow> I (s\<lparr>allocated := Suc (allocated s), handlers := (handlers s)(allocated s \<mapsto> h), calls := calls s @ cs,
           mClients := mClients s @ [(n, allocated s)]\<rparr>)"
    and frees: "hoare ok (\<lambda>s. I s \<and> can_come (DestroyComplete p) s) (onLocationApiDestroyCompleteCb p) I"
    and fires: "hoare ok (\<lambda>s. I s \<and> can_come MaintTimerFires s) MaintTimer_timeOutCallback I"
      "hoare ok I (SingleTerrestrialFixTimer_timeOutCallback n) I"
      "hoare ok (\<lambda>s. I s \<and> clientsToCheck s = Some []) maintenance_ends I"
    and I_check: "I s \<Longrightarrow> clientsToCheck s \<noteq> None \<Longrightarrow> I (s\<lparr>clientsToCheck := Some ys\<rparr>)"
    and I_takes: "I s \<Longrightarrow> clientsToCheck s = None \<Longrightarrow> mMsgTask s = PerformMaintenanceReq # q
        \<Longrightarrow> I (s\<lparr>mMsgTask := q, clientsToCheck := Some ys\<rparr>)"
      "I s \<Longrightarrow> mMsgTask s = SingleTerrestrialFixTimeoutReq n # q \<Longrightarrow> I (s\<lparr>mMsgTask := q\<rparr>)"
begin

lemma live_calls: "live ok I A s \<Longrightarrow> (\<And>q. c \<noteq> Destroy q) \<Longrightarrow> live ok I A (s\<lparr>calls := calls s @ [c]\<rparr>)"
  by (simp add: live_def I_calls)

lemma narrow: "hoare ok P a (live ok I A) \<Longrightarrow> B \<subseteq> A \<Longrightarrow> hoare ok P a (live ok I B)"
  by (erule hoare_weaken) (auto intro: live_mono)

lemma skip [hal_intro]: "B \<subseteq> A \<Longrightarrow> hoare ok (live ok I A) (acts []) (live ok I B)"
  by (auto intro: hoare_nil live_mono)

lemma more [hal_intro]:
  "hoare ok (live ok I A) f (live ok I A) \<Longrightarrow> hoare ok (live ok I A) (acts (g # gs)) Q \<Longrightarrow> hoare ok (live ok I A) (acts (f # g # gs)) Q"
  by (erule (1) hoare_cons)

lemma fail [hal_intro]: "hoare ok P (failing (Conversion e)) Q" "hoare ok P (failing NullDereference) Q"
  "hoare ok P (failing ArrayBounds) Q" "hoare ok P (failing VirtualCallOnZeros) Q"
  by (auto intro!: hoare_failing allowed)

lemma called [hal_intro]: "B \<subseteq> A \<Longrightarrow> (\<And>q. c \<noteq> Destroy q) \<Longrightarrow> hoare ok (live ok I A) (calling c) (live ok I B)"
  by (auto simp: hoare_def calling_def intro: live_calls live_mono)

lemma asked [hal_intro]:
  "(\<And>q. c \<noteq> Destroy q) \<Longrightarrow> (\<And>v. hoare ok (live ok I A) (k v) Q) \<Longrightarrow> hoare ok (live ok I A) (asking f c k) Q"
  unfolding asking_def by (rule hoare_cons [OF called [OF order_refl]], assumption, rule hoare_single, rule hoare_reading)

lemma handler_read [hal_intro]:
  "p \<in> A \<Longrightarrow> (\<And>h. hoare ok (live ok I A) (k h) Q) \<Longrightarrow> hoare ok (live ok I A) (on_handler p k) Q"
  by (auto simp: hoare_def on_handler_def live_def split: option.split)

lemma handler_set [hal_intro]:
  assumes "B \<subseteq> A" "p \<in> A" "\<And>h. same_identity h (f h)"
  shows "hoare ok (live ok I A) (set_handler p f) (live ok I B)"
proof (rule hoareI)
  fix s assume "live ok I A s"
  with assms(1,2) show "case set_handler p f s of Inl e \<Rightarrow> ok e | Inr s' \<Rightarrow> live ok I B s'"
    using I_handler [OF _ _ assms(3)] by (auto simp: set_handler_def on_handler_def upd_def live_def split: option.split)
qed

lemma updated [hal_intro]:
  "B \<subseteq> A \<Longrightarrow> hoare ok (live ok I A) (upd (\<lambda>s. s\<lparr>mConfigReqs := rs s\<rparr>)) (live ok I B)"
  "B \<subseteq> A \<Longrightarrow> hoare ok (live ok I A) (upd (\<lambda>s. s\<lparr>mPowerState := w\<rparr>)) (live ok I B)"
  "B \<subseteq> A \<Longrightarrow> hoare ok (live ok I A) (upd (\<lambda>s. s\<lparr>mOptInTerrestrialService := opt\<rparr>)) (live ok I B)"
  "B \<subseteq> A \<Longrightarrow> hoare ok (live ok I A) (upd (\<lambda>s. s\<lparr>mGtpWwanSsLocationApi := b\<rparr>)) (live ok I B)"
  "B \<subseteq> A \<Longrightarrow> hoare ok (live ok I A) (upd (\<lambda>s. s\<lparr>getGnssInterfaceFailed := b\<rparr>)) (live ok I B)"
  "B \<subseteq> A \<Longrightarrow> hoare ok (live ok I A) (upd (\<lambda>s. s\<lparr>gnssInterface := b\<rparr>)) (live ok I B)"
  "B \<subseteq> A \<Longrightarrow> hoare ok (live ok I A) (upd (\<lambda>s. s\<lparr>mTerrestrialFixReqs := xs s\<rparr>)) (live ok I B)"
  "B \<subseteq> A \<Longrightarrow> hoare ok (live ok I A) (upd (\<lambda>s. s\<lparr>purging := d\<rparr>)) (live ok I B)"
  by (auto simp: hoare_def upd_def live_def intro: I_other)

lemma alloc [hal_intro]: "(\<And>b. hoare ok (live ok I A) (k b) Q) \<Longrightarrow> hoare ok (live ok I A) (allocating env n k) Q"
  by (induction n arbitrary: k; simp; intro asked; simp)

lemma client_found [hal_intro]:
  assumes "B \<subseteq> A" "\<And>p. hoare ok (live ok I (insert p A)) (k p) (live ok I B)"
  shows "hoare ok (live ok I A) (with_client n k) (live ok I B)"
proof (rule hoareI)
  fix s assume L: "live ok I A s"
  show "case with_client n k s of Inl e \<Rightarrow> ok e | Inr s' \<Rightarrow> live ok I B s'"
  proof (cases "getClient n s")
    case None
    with L assms(1) show ?thesis by (simp add: with_client_def reading_def live_mono)
  next
    case (Some p)
    with L have "live ok I (insert p A) s"
      by (auto simp: live_def getClient_def dest: map_of_SomeD registered)
    with assms(2) [of p] Some show ?thesis by (simp add: with_client_def reading_def hoareD)
  qed
qed

lemma serialized [hal_intro]:
  "(\<And>x. hoare ok P (k x) Q) \<Longrightarrow> hoare ok P a Q \<Longrightarrow> hoare ok P (serializing env f k a) Q"
  unfolding serializing_def by (intro hal_intro)

lemma sent [hal_intro]:
  "p \<in> A \<Longrightarrow> (\<And>b. hoare ok (live ok I A) (k b) Q) \<Longrightarrow> hoare ok (live ok I A) (sendMessage env p m k) Q"
  unfolding sendMessage_def by (intro hal_intro; simp)

lemma deleted [hal_intro]: "hoare ok (live ok I A) (deleteClientbyName n) (live ok I {})"
  using deletes [of n] by (simp, rule hoare_weaken) (auto simp: live_def)

lemma purged [hal_intro]: "p \<in> A \<Longrightarrow> hoare ok (live ok I A) (purge p) (live ok I {})"
  unfolding purge_def by (intro hal_intro)

subsection \<open>The handlers\<close>

lemma subscribes [hal_intro]: "p \<in> A \<Longrightarrow> B \<subseteq> A \<Longrightarrow> hoare ok (live ok I A) (updateSubscription p w) (live ok I B)"
  unfolding updateSubscription_def by (intro hal_intro; simp add: same_identity_def)

lemma tracks [hal_intro]:
  assumes "p \<in> A" "B \<subseteq> A"
  shows "hoare ok (live ok I A) (startTracking_stored env p) (live ok I B)"
    "hoare ok (live ok I A) (startTracking_handler env p opts) (live ok I B)"
    "hoare ok (live ok I A) (stopTracking_handler p) (live ok I B)"
    "hoare ok (live ok I A) (updateTrackingOptions_handler p opts) (live ok I B)"
    "hoare ok (live ok I A) (unsubscribeLocationSessionCb p) (live ok I B)"
    "hoare ok (live ok I A) (push_pending p i) (live ok I B)"
  unfolding startTracking_stored_def startTracking_handler_def stopTracking_handler_def updateTrackingOptions_handler_def
    unsubscribeLocationSessionCb_def push_pending_def Let_def
  using assms by (intro hal_intro; simp add: same_identity_def)+

lemma batches [hal_intro]:
  assumes "p \<in> A" "B \<subseteq> A"
  shows "hoare ok (live ok I A) (startBatching_handler env p a b c) (live ok I B)"
    "hoare ok (live ok I A) (stopBatching_handler p) (live ok I B)"
    "hoare ok (live ok I A) (updateBatchingOptions_handler p a b c) (live ok I B)"
  unfolding startBatching_handler_def stopBatching_handler_def updateBatchingOptions_handler_def
  using assms by (intro hal_intro; simp add: same_identity_def)+

lemma fences [hal_intro]:
  assumes "p \<in> A" "B \<subseteq> A"
  shows "hoare ok (live ok I A) (setGeofenceIds p n cs ss) (live ok I B)"
    "hoare ok (live ok I A) (eraseGeofenceIds p n cs) (live ok I B)"
    "hoare ok (live ok I A) (addGeofences_handler env p os is) (live ok I B)"
    "(\<And>q. c cs \<noteq> Destroy q) \<Longrightarrow> hoare ok (live ok I A) (geofences_call p cs c) (live ok I B)"
    "hoare ok (live ok I A) (push_gf_pending p i) (live ok I B)"
    "hoare ok (live ok I A) (addEngineInfoRequst p) (live ok I B)"
  unfolding setGeofenceIds_def eraseGeofenceIds_def addGeofences_handler_def geofences_call_def push_gf_pending_def addEngineInfoRequst_def
  using assms by (intro hal_intro; simp add: same_identity_def)+

lemma looks_up [hal_intro]:
  assumes "p \<in> A" "\<And>r. hoare ok (live ok I A) (k r) Q"
  shows "hoare ok (live ok I A) (getSessionIds env p n cs k) Q" "hoare ok (live ok I A) (getClientIds env p n cs k) Q"
  unfolding getSessionIds_def getClientIds_def Let_def
  using assms by (intro hal_intro; simp add: same_identity_def)+

lemma delivers [hal_intro]: "p \<in> A \<Longrightarrow> hoare ok (live ok I A) (send_or_purge env p f) (live ok I {})"
  unfolding send_or_purge_def by (intro hal_intro; simp)

lemma responds [hal_intro]:
  assumes "p \<in> A"
  shows "hoare ok (live ok I A) (report env p b f) (live ok I {})"
    "hoare ok (live ok I A) (generic_response env p i err) (live ok I {})"
    "hoare ok (live ok I A) (pingTest_handler env p) (live ok I {})"
    "hoare ok (live ok I A) (onControlResponseCb env p err i) (live ok I {})"
    "hoare ok (live ok I A) (onResponseCb env p err sid) (live ok I {})"
  unfolding report_def generic_response_def pingTest_handler_def onControlResponseCb_def onResponseCb_def Let_def
  using assms by (intro hal_intro; simp add: same_identity_def)+

lemma responds_collectively [hal_intro]:
  "p \<in> A \<Longrightarrow> hoare ok (live ok I A) (onCollectiveResponseCallback env p n errs ids) (live ok I {})"
  unfolding onCollectiveResponseCallback_def Let_def
  by (intro hal_intro hoare_acts_map; simp add: same_identity_def)

lemma sends_fix [hal_intro]: "p \<in> A \<Longrightarrow> B \<subseteq> A \<Longrightarrow> hoare ok (live ok I A) (sendTerrestrialFix env p err l) (live ok I B)"
  unfolding sendTerrestrialFix_def by (intro hal_intro; simp)

lemma reports [hal_intro]:
  assumes "p \<in> A"
  shows "hoare ok (live ok I A) (onCapabilitiesCallback env p w) (live ok I {})"
    "hoare ok (live ok I A) (onTrackingCb env p l) (live ok I {})"
    "hoare ok (live ok I A) (onBatchingCb env p ls) (live ok I {})"
    "hoare ok (live ok I A) (onBatchingStatusCb env p b) (live ok I {})"
    "hoare ok (live ok I A) (onGeofenceBreachCb env p ids) (live ok I {})"
    "hoare ok (live ok I A) (onGnssLocationInfoCb env p info) (live ok I {})"
    "hoare ok (live ok I A) (onEngLocationsInfoCb env p infos) (live ok I {})"
    "hoare ok (live ok I A) (onGnssSvCb env p svs) (live ok I {})"
    "hoare ok (live ok I A) (onGnssNmeaCb env p t nm) (live ok I {})"
    "hoare ok (live ok I A) (onGnssDataCb env p data) (live ok I {})"
    "hoare ok (live ok I A) (onGnssMeasurementsCb env p meas) (live ok I {})"
    "hoare ok (live ok I A) (onLocationSystemInfoCb env p sys) (live ok I {})"
  unfolding onCapabilitiesCallback_def onTrackingCb_def onBatchingCb_def onBatchingStatusCb_def onGeofenceBreachCb_def
    onGnssLocationInfoCb_def onEngLocationsInfoCb_def onGnssSvCb_def onGnssNmeaCb_def onGnssDataCb_def onGnssMeasurementsCb_def
    onLocationSystemInfoCb_def Let_def
  using assms by (intro hal_intro; simp add: same_identity_def)+

lemma config_sent:
  "p \<in> A \<Longrightarrow> hoare ok (live ok I A) (onGnssConfigCb env p i c) (live ok I {})"
  unfolding onGnssConfigCb_def Let_def by (intro hal_intro; simp)

subsection \<open>The service\<close>

lemma looked_up:
  assumes "hoare ok (live ok I A) x Q" "\<And>p. hoare ok (live ok I (insert p A)) (k p) Q"
  shows "hoare ok (live ok I A) (reading (getClient n) (\<lambda>c. case c of None \<Rightarrow> x | Some p \<Rightarrow> k p)) Q"
proof (rule hoareI)
  fix s assume L: "live ok I A s"
  show "case reading (getClient n) (\<lambda>c. case c of None \<Rightarrow> x | Some p \<Rightarrow> k p) s of Inl e \<Rightarrow> ok e | Inr s' \<Rightarrow> Q s'"
  proof (cases "getClient n s")
    case None
    with L assms(1) show ?thesis by (simp add: reading_def hoareD)
  next
    case (Some p)
    with L have "live ok I (insert p A) s"
      by (auto simp: live_def getClient_def dest: map_of_SomeD registered)
    with assms(2) [of p] Some show ?thesis by (simp add: reading_def hoareD)
  qed
qed

lemma walked:
  assumes "walks env" "\<And>xs. hoare ok (live ok I (A \<union> snd ` set xs)) (k xs) Q"
  shows "hoare ok (live ok I A) (reading (\<lambda>s. visit_clients env (mClients s)) k) Q"
proof (rule hoareI)
  fix s assume L: "live ok I A s"
  let ?xs = "visit_clients env (mClients s)"
  have "live ok I (A \<union> snd ` set ?xs) s"
    using L assms(1) registered by (fastforce simp: live_def walks_def)
  with assms(2) [of ?xs] show "case reading (\<lambda>s. visit_clients env (mClients s)) k s of Inl e \<Rightarrow> ok e | Inr s' \<Rightarrow> Q s'"
    by (simp add: reading_def hoareD)
qed

lemma looped:
  assumes body: "\<And>p. hoare ok (live ok I {p}) (f p) I"
    and frame: "\<And>n p s s'. I s \<Longrightarrow> (n, p) \<in> set (mClients s) \<Longrightarrow> f p s = Inr s' \<Longrightarrow> (n, p) \<in> set (mClients s')
      \<Longrightarrow> ok UseAfterFree \<or> set (mClients s) \<subseteq> set (mClients s')"
  shows "hoare ok (\<lambda>s. I s \<and> (ok UseAfterFree \<or> set xs \<subseteq> set (mClients s))) (for_clients f xs) I"
proof (induction xs)
  case Nil
  show ?case by (simp add: hoare_def)
next
  case (Cons x xs)
  obtain n p where x: "x = (n, p)" by (cases x)
  show ?case
  proof (rule hoareI)
    fix s assume s: "I s \<and> (ok UseAfterFree \<or> set (x # xs) \<subseteq> set (mClients s))"
    then have "live ok I {p} s" using x registered by (fastforce simp: live_def)
    from hoareD [OF body this] have b: "case f p s of Inl e \<Rightarrow> ok e | Inr s' \<Rightarrow> I s'" .
    show "case for_clients f (x # xs) s of Inl e \<Rightarrow> ok e | Inr s' \<Rightarrow> I s'"
    proof (cases "f p s")
      case (Inr s')
      show ?thesis
      proof (cases "(n, p) \<in> set (mClients s')")
        case True
        with s x Inr frame [of s n p s'] have "ok UseAfterFree \<or> set xs \<subseteq> set (mClients s')" by auto
        with b Inr Cons.IH True x show ?thesis by (simp add: hoare_def)
      qed (use Inr x allowed in simp)
    qed (use b x in simp)
  qed
qed

lemma looped_all:
  assumes "walks env" "\<And>p. hoare ok (live ok I {p}) (f p) I"
    "\<And>n p s s'. I s \<Longrightarrow> (n, p) \<in> set (mClients s) \<Longrightarrow> f p s = Inr s' \<Longrightarrow> (n, p) \<in> set (mClients s')
      \<Longrightarrow> ok UseAfterFree \<or> set (mClients s) \<subseteq> set (mClients s')"
  shows "hoare ok (live ok I {}) (reading (\<lambda>s. visit_clients env (mClients s)) (for_clients f)) (live ok I {})"
proof (rule hoareI)
  fix s assume s: "live ok I {} s"
  let ?xs = "visit_clients env (mClients s)"
  have "hoare ok (\<lambda>s. I s \<and> (ok UseAfterFree \<or> set ?xs \<subseteq> set (mClients s))) (for_clients f ?xs) I"
    by (rule looped [OF assms(2,3)])
  from hoareD [OF this, of s] s assms(1)
  show "case reading (\<lambda>s. visit_clients env (mClients s)) (for_clients f) s of Inl e \<Rightarrow> ok e | Inr s' \<Rightarrow> live ok I {} s'"
    by (simp add: reading_def walks_def split: sum.splits)
qed

lemma suspends: "walks env \<Longrightarrow> hoare ok (live ok I {}) (suspendAllTrackingSessions env) (live ok I {})"
  unfolding suspendAllTrackingSessions_def
proof (rule looped_all, assumption, goal_cases)
  case (1 p)
  have "hoare ok (live ok I {p}) (on_handler p (\<lambda>h. if mTracking h
      then acts [stopTracking_handler p, push_pending p E_LOCAPI_STOP_TRACKING_MSG_ID] else acts [])) (live ok I {})"
    by (intro hal_intro; simp)
  then show ?case by simp
next
  case (2 n p s s')
  then show ?case
    by (auto simp: on_handler_def stopTracking_handler_def push_pending_def set_handler_def calling_def upd_def split: option.splits if_splits)
qed

lemma resumed: "snd ` set xs \<subseteq> A \<Longrightarrow> hoare ok (live ok I A) (resume_clients env xs) (live ok I {})"
proof (induction xs)
  case (Cons x xs)
  then show ?case by (cases x; simp only: resume_clients.simps; intro hal_intro; simp)
qed (simp only: resume_clients.simps; intro hal_intro; simp)

lemma resumes: "walks env \<Longrightarrow> hoare ok (live ok I A) (resumeAllTrackingSessions env) (live ok I {})"
  unfolding resumeAllTrackingSessions_def by (rule walked, assumption, rule resumed) simp

lemma got_interface [hal_intro]:
  "(\<And>b. hoare ok (live ok I A) (k b) Q) \<Longrightarrow> hoare ok (live ok I A) (getGnssInterface env k) Q"
  unfolding getGnssInterface_def by (intro hal_intro; simp)

lemma asked_pending: "snd ` set xs \<subseteq> A \<Longrightarrow> (\<And>b. hoare ok (live ok I A) (k b) Q) \<Longrightarrow> hoare ok (live ok I A) (some_pending xs k) Q"
proof (induction xs)
  case (Cons x xs)
  then show ?case by (cases x; simp only: some_pending.simps; intro hal_intro; simp)
qed simp

lemma energy_asked: "walks env \<Longrightarrow> hoare ok (live ok I {}) (getGnssEnergyConsumed env n) (live ok I {})"
  unfolding getGnssEnergyConsumed_def
  by (intro got_interface hoare_if skip; (simp; fail)?) (rule walked, assumption, rule asked_pending, simp, intro hal_intro; simp)

lemma config_added [hal_intro]: "hoare ok (live ok I A) (addConfigRequestToMap env sid m) (live ok I {})"
  unfolding addConfigRequestToMap_def
proof (intro hoare_if client_found)
  show "hoare ok (live ok I A) (upd (\<lambda>s. if mConfigReqs s sid = None
      then s\<lparr>mConfigReqs := (mConfigReqs s)(sid \<mapsto> \<lparr>clientName = mSocketName m, configMsgId = msgId m\<rparr>)\<rparr> else s)) (live ok I {})"
    by (auto simp: hoare_def upd_def live_def intro: I_other)
qed (simp_all add: responds del: live_empty)

lemma controlled [hal_intro]: "hoare ok (live ok I A) (control env r m) (live ok I {})"
  unfolding control_def by (intro hal_intro; simp)

lemma network_called [hal_intro]: "B \<subseteq> A \<Longrightarrow> (\<And>q. c \<noteq> Destroy q) \<Longrightarrow> hoare ok (live ok I A) (network c) (live ok I B)"
  unfolding network_def by (intro hal_intro; simp)

lemma sender_made [hal_intro]:
  "(\<And>b. hoare ok (live ok I A) (k b) Q) \<Longrightarrow> hoare ok (live ok I A) (createSender env n k) Q"
  unfolding createSender_def by (intro hal_intro; simp)

lemma handler_made:
  assumes "\<And>p. hoare ok (live ok I {p}) (acts (ks p)) (live ok I {})"
  shows "hoare ok (\<lambda>s. I s \<and> getClient n s = None)
    (new_LocHalDaemonClientHandler env n t (\<lambda>p. acts (upd (\<lambda>s. s\<lparr>mClients := mClients s @ [(n, p)]\<rparr>) # ks p))) I"
proof (rule hoareI, goal_cases)
  case (1 s)
  let ?p = "allocated s"
  obtain h cs where h: "mName h = n" "\<And>q. Destroy q \<notin> set cs"
    "\<And>k. new_LocHalDaemonClientHandler env n t k s
       = k ?p (s\<lparr>allocated := Suc ?p, handlers := (handlers s)(?p \<mapsto> h), calls := calls s @ cs\<rparr>)"
    using new_handler_result [of n env t s] by blast
  let ?s = "s\<lparr>allocated := Suc ?p, handlers := (handlers s)(?p \<mapsto> h), calls := calls s @ cs, mClients := mClients s @ [(n, ?p)]\<rparr>"
  have "live ok I {?p} ?s" using 1 h(1,2) I_adds [of s n h cs] by (simp add: live_def)
  with assms [of ?p] show ?case by (simp add: h(3) upd_def hoare_def split: sum.splits)
qed

lemma client_added: "hoare ok (live ok I {}) (newClient env m) (live ok I {})"
proof (rule hoareI)
  fix s assume s: "live ok I {} s"
  have single: "acts [f] = f" for f by (simp add: fun_eq_iff)
  show "case newClient env m s of Inl e \<Rightarrow> ok e | Inr s' \<Rightarrow> live ok I {} s'"
  proof (cases "getClient (mSocketName m) s")
    case None
    with s show ?thesis
      using hoareD [OF handler_made [OF skip [OF empty_subsetI], of "mSocketName m" env "LocAPIClientRegisterReqMsg_mClientType m"], of s]
      by (simp add: newClient_def reading_def Let_def single split: sum.splits)
  qed (use s in \<open>simp add: newClient_def reading_def Let_def\<close>)
qed

lemmas config_ops = configConstrainedTunc_def configPositionAssistedClockEstimator_def configConstellations_def
  configConstellationSecondaryBand_def configLeverArm_def configRobustLocation_def configMinGpsWeek_def configMinSvElevation_def
  configEngineRunState_def getGnssConfig_def configDeadReckoningEngineParams_def getConstellationSecondaryBandConfig_def

lemma configures [hal_intro]:
  "hoare ok (live ok I {}) (configConstrainedTunc env m1) (live ok I {})"
  "hoare ok (live ok I {}) (configPositionAssistedClockEstimator env m2) (live ok I {})"
  "hoare ok (live ok I {}) (configConstellations env m3) (live ok I {})"
  "hoare ok (live ok I {}) (configConstellationSecondaryBand env m4) (live ok I {})"
  "hoare ok (live ok I {}) (configLeverArm env m5) (live ok I {})"
  "hoare ok (live ok I {}) (configRobustLocation env m6) (live ok I {})"
  "hoare ok (live ok I {}) (configMinGpsWeek env m7) (live ok I {})"
  "hoare ok (live ok I {}) (configMinSvElevation env m8) (live ok I {})"
  "hoare ok (live ok I {}) (configEngineRunState env m9) (live ok I {})"
  "hoare ok (live ok I {}) (getGnssConfig env m10 w) (live ok I {})"
  "hoare ok (live ok I {}) (configDeadReckoningEngineParams env m11) (live ok I {})"
  "hoare ok (live ok I {}) (getConstellationSecondaryBandConfig env m10) (live ok I {})"
  "hoare ok (live ok I {}) (configUserConsentTerrestrialPositioning env m12) (live ok I {})"
  "hoare ok (live ok I {}) (updateNetworkAvailability env b) (live ok I {})"
  unfolding config_ops configUserConsentTerrestrialPositioning_def updateNetworkAvailability_def Let_def by (intro hal_intro; simp)+

lemma deletes_aiding_data: "walks env \<Longrightarrow> hoare ok (live ok I {}) (configAidingDataDeletion env m) (live ok I {})"
  unfolding configAidingDataDeletion_def by (intro hal_intro suspends resumes; simp)

lemma manages_sessions [hal_intro]:
  "hoare ok (live ok I {}) (startTracking env m1) (live ok I {})"
  "hoare ok (live ok I {}) (stopTracking m2) (live ok I {})"
  "hoare ok (live ok I {}) (updateSubscription_client m3) (live ok I {})"
  "hoare ok (live ok I {}) (updateTrackingOptions m4) (live ok I {})"
  "hoare ok (live ok I {}) (startBatching env m5) (live ok I {})"
  "hoare ok (live ok I {}) (stopBatching m6) (live ok I {})"
  "hoare ok (live ok I {}) (updateBatchingOptions m7) (live ok I {})"
  "hoare ok (live ok I {}) (pingTest env m8) (live ok I {})"
  "hoare ok (live ok I {}) (deleteClient m9) (live ok I {})"
  unfolding startTracking_def stopTracking_def updateSubscription_client_def updateTrackingOptions_def startBatching_def
    stopBatching_def updateBatchingOptions_def pingTest_def deleteClient_def
  by (intro hal_intro; simp add: same_identity_def)+

lemma manages_geofences [hal_intro]:
  "hoare ok (live ok I {}) (addGeofences env m1) (live ok I {})"
  "hoare ok (live ok I {}) (removeGeofences env m2) (live ok I {})"
  "hoare ok (live ok I {}) (modifyGeofences env m3) (live ok I {})"
  "hoare ok (live ok I {}) (pauseGeofences env m4) (live ok I {})"
  "hoare ok (live ok I {}) (resumeGeofences env m5) (live ok I {})"
  unfolding addGeofences_def removeGeofences_def modifyGeofences_def pauseGeofences_def resumeGeofences_def geofence_request_def
    with_payload_def Let_def
  by (intro hal_intro; simp)+

lemma requests_fix [hal_intro]: "hoare ok (live ok I {}) (getSingleTerrestrialPos env m) (live ok I {})"
  unfolding getSingleTerrestrialPos_def Let_def by (intro hal_intro; simp)

lemma fix_times_out [hal_intro]: "hoare ok (live ok I {}) (gtpFixRequestTimeout env n) (live ok I {})"
  unfolding gtpFixRequestTimeout_def by (intro hal_intro; simp)

lemma fix_arrives: "hoare ok (live ok I {}) (onGtpWwanTrackingCallback env l) (live ok I {})"
  unfolding onGtpWwanTrackingCallback_def
  by (intro hal_intro hoare_acts_map looked_up; simp?)

lemma received [hal_intro]:
  "hoare ok P (acts []) Q \<Longrightarrow> (\<And>m. hoare ok P (k m) Q) \<Longrightarrow> hoare ok P (receiving parse x build k) Q"
  unfolding receiving_def by (intro hal_intro)

lemma request_kept:
  assumes "walks env"
  shows "\<forall>r \<in> set (client_requests env name payload m). hoare ok (live ok I {}) (snd r) (live ok I {})"
proof -
  note ops = client_added energy_asked [OF assms] deletes_aiding_data [OF assms] skip [OF order_refl]
  show ?thesis
    unfolding client_requests_def list.set(2) ball_simps(5,7) list.set(1) snd_conv
    by (intro conjI received hal_intro ops; simp)
qed

lemma message_kept:
  assumes "walks env"
  shows "hoare ok (live ok I {}) (processClientMsg env bytes) (live ok I {})"
proof -
  have "hoare ok (live ok I {}) (case map_of (client_requests env name x m) i of None \<Rightarrow> acts [] | Some a \<Rightarrow> a) (live ok I {})"
    for name x m i
    using request_kept [OF assms, of name x m]
    by (cases "map_of (client_requests env name x m) i") (auto intro: skip simp del: live_empty dest!: map_of_SomeD)
  then show ?thesis
    unfolding processClientMsg_def Let_def by (intro hoare_option [where r = "read_header _ _"] hoare_if skip order_refl)
qed

lemma config_answered [hal_intro]: "hoare ok (live ok I {}) (onControlResponseCallback env err i) (live ok I {})"
  unfolding onControlResponseCallback_def by (intro hal_intro; simp)

lemma configs_answered [hal_intro]: "hoare ok (live ok I {}) (onControlCollectiveResponseCallback env rs) (live ok I {})"
  unfolding onControlCollectiveResponseCallback_def by (intro hal_intro; simp)

lemma config_reported: "ok UseAfterFree \<Longrightarrow> hoare ok (live ok I {}) (onGnssConfigCallback env i c) (live ok I {})"
proof -
  assume u: "ok UseAfterFree"
  then have all: "live ok I A = live ok I {}" for A by (auto simp: live_def fun_eq_iff)
  have "hoare ok (live ok I {p}) (onControlResponseCb env p err j) (live ok I {p})" for p err j
    using responds(4) [of p "{p}" env err j] by (simp add: all [of "{p}"] del: live_empty)
  then show ?thesis
    unfolding onGnssConfigCallback_def
    by (intro hoare_reading hoare_option skip more hoare_single client_found updated order_refl empty_subsetI config_sent singletonI)
qed

lemma energy_reported: "walks env \<Longrightarrow> hoare ok (live ok I {}) (onGnssEnergyConsumedCb env t) (live ok I {})"
  unfolding onGnssEnergyConsumedCb_def
proof (rule looped_all, assumption, goal_cases)
  case (1 p)
  have "hoare ok (live ok I {p}) (onGnssEnergyConsumedInfoAvailable env (new_LocAPIGnssEnergyConsumedIndMsg SERVICE_NAME t mPbufMsgConv) p) (live ok I {})"
    unfolding onGnssEnergyConsumedInfoAvailable_def by (intro hal_intro; simp add: same_identity_def)
  then show ?case by simp
next
  case (2 n p s s')
  from energy_clients [OF 2(4)] named [OF 2(2,3)] 2(5) show ?case by force
qed

lemma power_changed: "walks env \<Longrightarrow> hoare ok (live ok I {}) (pwrStateCb env w) (live ok I {})"
  unfolding pwrStateCb_def onPowerEvent_def
  by (cases w; simp only: sys_state.simps; intro hal_intro suspends resumes; simp)

lemma listener_ready [hal_intro]: "hoare ok (live ok I {}) (onListenerReady env entries) (live ok I {})"
  unfolding onListenerReady_def Let_def by (intro hoare_acts_map hal_intro; simp)

lemma clients_copied: "snd ` set xs \<subseteq> A \<Longrightarrow> (\<And>ys. hoare ok (live ok I A) (k ys) Q) \<Longrightarrow> hoare ok (live ok I A) (clients_to_check xs k) Q"
proof (induction xs arbitrary: k)
  case (Cons x xs)
  then show ?case by (cases x; simp only: clients_to_check.simps; intro hal_intro; simp)
qed simp

lemma pinged [hal_intro]: "hoare ok (live ok I {}) (maintenance_pings env n b) (live ok I {})"
  unfolding maintenance_pings_def by (intro hal_intro; simp)

lemma removed [hal_intro]: "hoare ok (live ok I {}) (maintenance_purges n) (live ok I {})"
  unfolding maintenance_purges_def
  by (rule hoare_cons [OF deleted], rule hoare_single) (auto simp: hoare_def upd_def intro: I_other)

lemma task_kept_idle:
  assumes w: "walks env" and s: "I s" and d: "purging s = None"
  shows "case task_step env s of Inl e \<Rightarrow> ok e | Inr s' \<Rightarrow> live ok I {} s'"
proof -
  note task_step_def = task_step_def [of env, unfolded fun_eq_iff, rule_format, of s, unfolded reading_def prod.case d option.case]
  show ?thesis
  proof (cases "clientsToCheck s")
    case (Some ys)
    show ?thesis
    proof (cases ys)
      case Nil
      with Some s hoareD [OF fires(3), of s] show ?thesis by (simp add: task_step_def reading_def split: sum.splits)
    next
      case (Cons y ys')
      have "I (s\<lparr>clientsToCheck := Some ys'\<rparr>)" using I_check s Some by simp
      then show ?thesis
        using Some Cons hoareD [OF pinged, of "s\<lparr>clientsToCheck := Some ys'\<rparr>" env "fst y" "snd y"]
        by (cases y) (simp add: task_step_def reading_def upd_def split: sum.splits)
    qed
  next
    case None
    show ?thesis
    proof (cases "mMsgTask s")
      case (Cons msg q)
      show ?thesis
      proof (cases msg)
        case PerformMaintenanceReq
        let ?xs = "visit_clients env (mClients s)"
        let ?k = "\<lambda>ys. upd (\<lambda>s. s\<lparr>clientsToCheck := Some ys\<rparr>)"
        have "(n, p) \<in> set ?xs \<Longrightarrow> handlers s p = None \<Longrightarrow> ok UseAfterFree" for n p
          using registered [OF s, of n p] w by (auto simp: walks_def)
        with None Cons PerformMaintenanceReq s checked [of ?xs ?k "s\<lparr>mMsgTask := q\<rparr>"] I_takes(1) [of s q]
        show ?thesis by (auto simp: task_step_def reading_def maintenance_begins_def upd_def)
      next
        case (SingleTerrestrialFixTimeoutReq n)
        then have "I (s\<lparr>mMsgTask := q\<rparr>)" using I_takes(2) s Cons by simp
        then show ?thesis
          using None Cons SingleTerrestrialFixTimeoutReq hoareD [OF fix_times_out, of "s\<lparr>mMsgTask := q\<rparr>" env n]
          by (simp add: task_step_def reading_def upd_def split: sum.splits)
      qed
    qed (use None s in \<open>simp add: task_step_def reading_def\<close>)
  qed
qed

lemma task_kept: "walks env \<Longrightarrow> hoare ok (live ok I {}) (task_step env) (live ok I {})"
proof (rule hoareI)
  fix s assume w: "walks env" and "live ok I {} s"
  then have s: "I s" by simp
  show "case task_step env s of Inl e \<Rightarrow> ok e | Inr s' \<Rightarrow> live ok I {} s'"
  proof (cases "purging s")
    case None
    with w s show ?thesis by (intro task_kept_idle)
  next
    case (Some n)
    then show ?thesis using hoareD [OF removed [of n], of s] s by (simp add: task_step_def reading_def)
  qed
qed

lemma auto_started: "hoare ok (\<lambda>s. I s \<and> mClients s = []) (auto_start env config) I"
proof -
  have *: "hoare ok (\<lambda>s. I s \<and> mClients s = []) (if b then calling (Control r) else acts []) (\<lambda>s. I s \<and> getClient n s = None)" for b r n
    using I_calls by (auto simp: hoare_def calling_def getClient_def)
  show ?thesis
    unfolding auto_start_def
    by (rule hoare_cons, rule *, rule hoare_single, rule handler_made) (intro hal_intro; simp add: same_identity_def)
qed

lemma constructed:
  assumes "I (control_started env config)"
  shows "hoare ok (\<lambda>s. s = control_started env config)
    (acts [if autoStartGnss config \<noteq> 0 then auto_start env config else acts [], upd (\<lambda>s. s\<lparr>listening := True\<rparr>)]) I"
proof (rule hoare_cons)
  show "hoare ok (\<lambda>s. s = control_started env config) (if autoStartGnss config \<noteq> 0 then auto_start env config else acts []) I"
    using assms auto_started [of env config] by (auto simp: hoare_def control_started_def LocationApiService_zero_def)
qed (auto simp: hoare_def upd_def intro: I_other)

text \<open>Every event keeps the assertion; the report of a configuration does so where uses after \<^verbatim>\<open>delete\<close> are allowed.\<close>

theorem event_kept:
  assumes "walks env" "ok UseAfterFree \<or> (\<forall>i c. e \<noteq> Config i c)"
  shows "hoare ok (\<lambda>s. I s \<and> can_come e s) (react env e) I"
proof -
  have target: "hoare ok (\<lambda>s. I s \<and> handlers s p \<noteq> None) a I" if "hoare ok (live ok I {p}) a (live ok I {})" for p a
    using that by (auto simp: hoare_def live_def)
  have whole: "hoare ok (\<lambda>s. I s \<and> P) a I" if "hoare ok (live ok I {}) a (live ok I {})" for a P
    using that by (auto simp: hoare_def)
  show ?thesis
  proof (cases e)
    case (Config i c)
    with assms(2) have "ok UseAfterFree" by simp
    from whole [OF config_reported [OF this, of env i c], of True] Config show ?thesis by simp
  next
    case (FixTimerFires n)
    with fires(2) [of n] show ?thesis by (auto simp: hoare_def)
  next
    case (DestroyComplete p)
    with frees [of p] show ?thesis by simp
  next
    case MaintTimerFires
    with fires(1) show ?thesis by simp
  next
    case (ClientMsg x)
    with message_kept [OF assms(1), of x] show ?thesis using whole [of _ True] by simp
  next
    case (EnergyConsumed x)
    with energy_reported [OF assms(1), of x] show ?thesis using whole [of _ True] by simp
  next
    case (Power x)
    with power_changed [OF assms(1), of x] show ?thesis using whole [of _ True] by simp
  next
    case TaskStep
    with task_kept [OF assms(1)] show ?thesis using whole [of _ True] by simp
  next
    case (NetworkFix x)
    with fix_arrives [of env x] show ?thesis using whole [of _ True] by simp
  next
    case (ListenerReady x)
    with listener_ready [of env x] show ?thesis using whole [of _ True] by simp
  next
    case (ControlResponse err i)
    with config_answered [of env err i] show ?thesis using whole [of _ True] by simp
  next
    case (ControlCollectiveResponse x)
    with configs_answered [of env x] show ?thesis using whole [of _ True] by simp
  qed (simp_all only: react.simps can_come.simps target.simps option.simps, (rule target, intro hal_intro singletonI)+)
qed

end

section \<open>The registry of clients\<close>

text \<open>
  The names in the table are distinct, and so are the handlers; every handler in it is alive and has the name of its entry.
  A handler that is alive but not in the table has no sender and no instance of the location API any more.
\<close>

definition registry :: "LocationApiService \<Rightarrow> bool" where
  "registry s \<longleftrightarrow> distinct (map fst (mClients s)) \<and> distinct (map snd (mClients s))
     \<and> (\<forall>(n, p) \<in> set (mClients s). \<exists>h. handlers s p = Some h \<and> mName h = n)
     \<and> (\<forall>p h. handlers s p = Some h \<longrightarrow> p < allocated s \<and> (p \<notin> snd ` set (mClients s) \<longrightarrow> \<not> mIpcSender h \<and> \<not> mLocationApi h))
     \<and> (\<forall>p. Destroy p \<in> set (calls s) \<longrightarrow> p < allocated s \<and> p \<notin> snd ` set (mClients s))"

lemma registryD:
  assumes "registry s" "(n, p) \<in> set (mClients s)"
  shows "\<exists>h. handlers s p = Some h \<and> mName h = n"
  using assms by (auto simp: registry_def)

text \<open>Only these members matter, and of a handler only its identity.\<close>

lemma registry_cong:
  assumes r: "registry s" and same: "mClients s' = mClients s" "allocated s' = allocated s"
    and c: "\<And>q. Destroy q \<in> set (calls s') \<Longrightarrow> Destroy q \<in> set (calls s)"
    and h: "\<And>q. rel_option same_identity (handlers s q) (handlers s' q)"
  shows "registry s'"
proof -
  have earlier: "\<exists>g. handlers s q = Some g \<and> same_identity g g'" if "handlers s' q = Some g'" for q g'
    using h [of q] that by (cases "handlers s q") simp_all
  have later: "\<exists>g'. handlers s' q = Some g' \<and> same_identity g g'" if "handlers s q = Some g" for q g
    using h [of q] that by (cases "handlers s' q") simp_all
  show ?thesis
    unfolding registry_def same
  proof (intro conjI allI impI ballI)
    fix x assume "x \<in> set (mClients s)"
    with r later show "case x of (n, p) \<Rightarrow> \<exists>h. handlers s' p = Some h \<and> mName h = n"
      unfolding registry_def same_identity_def by fastforce
  next
    fix q g' assume "handlers s' q = Some g'"
    then obtain g where "handlers s q = Some g" "same_identity g g'" using earlier by blast
    with r show "q < allocated s" "q \<notin> snd ` set (mClients s) \<Longrightarrow> \<not> mIpcSender g'" "q \<notin> snd ` set (mClients s) \<Longrightarrow> \<not> mLocationApi g'"
      unfolding registry_def same_identity_def by auto
  next
    fix q assume "Destroy q \<in> set (calls s')"
    with r c show "q < allocated s" "q \<notin> snd ` set (mClients s)" unfolding registry_def by auto
  qed (use r in \<open>auto simp: registry_def\<close>)
qed

lemma rel_option_refl_identity [simp]: "rel_option same_identity x x"
  by (cases x) (simp_all add: same_identity_def)

text \<open>What the purge of a client does to the service.\<close>

lemma deleteClientbyName_some:
  assumes "getClient n s = Some p" "handlers s p = Some h"
  shows "deleteClientbyName n s = Inr (s\<lparr>mClients := AList.delete n (mClients s),
    mTerrestrialFixReqs := AList.delete n (mTerrestrialFixReqs s),
    handlers := (handlers s)(p := if mLocationApi h then Some (h\<lparr>mIpcSender := False, mLocationApi := False\<rparr>) else None),
    calls := calls s @ RemoveFile (mName h) # (if mLocationApi h then [Destroy p] else [])\<rparr>)"
  using assms by (cases s) (simp add: deleteClientbyName_def reading_def upd_def cleanup_def set_handler_def on_handler_def calling_def getClient_def)

lemma registry_unique:
  assumes "registry s" "(n, p) \<in> set (mClients s)" "(m, q) \<in> set (mClients s)"
  shows "n = m \<longleftrightarrow> p = q"
proof -
  have "inj_on fst (set (mClients s))" "inj_on snd (set (mClients s))" using assms(1) by (simp_all add: registry_def distinct_map)
  then show ?thesis using inj_onD [OF _ _ assms(2,3), of fst] inj_onD [OF _ _ assms(2,3), of snd] by auto
qed

lemma registry_delete:
  assumes r: "registry s" and np: "(n, p) \<in> set (mClients s)"
    and c: "\<And>q. Destroy q \<in> set cs \<Longrightarrow> q = p" and g: "\<And>h. g = Some h \<Longrightarrow> \<not> mIpcSender h \<and> \<not> mLocationApi h"
  shows "registry (s\<lparr>mClients := AList.delete n (mClients s), mTerrestrialFixReqs := xs,
    handlers := (handlers s)(p := g), calls := calls s @ cs\<rparr>)"
proof -
  from r np obtain h where h: "handlers s p = Some h" "mName h = n" using registryD by blast
  have mem: "(m, q) \<in> set (AList.delete n (mClients s)) \<longleftrightarrow> (m, q) \<in> set (mClients s) \<and> q \<noteq> p" for m q
    using registry_unique [OF r np, of m q] by (auto simp: AList.delete_eq)
  have gone: "q \<in> snd ` set (AList.delete n (mClients s)) \<longleftrightarrow> q \<in> snd ` set (mClients s) \<and> q \<noteq> p" for q
    using mem by (force simp: image_iff)
  have "distinct (map fst (AList.delete n (mClients s)))" "distinct (map snd (AList.delete n (mClients s)))"
    using r by (simp_all add: registry_def AList.delete_eq distinct_map_filter)
  moreover have "\<exists>h. ((handlers s)(p := g)) q = Some h \<and> mName h = m" if "(m, q) \<in> set (AList.delete n (mClients s))" for m q
    using that mem registryD [OF r, of m q] by auto
  moreover have "q < allocated s \<and> (q \<notin> snd ` set (AList.delete n (mClients s)) \<longrightarrow> \<not> mIpcSender h' \<and> \<not> mLocationApi h')"
    if "((handlers s)(p := g)) q = Some h'" for q h'
  proof (cases "q = p")
    case True
    with that g h(1) r show ?thesis unfolding registry_def by auto
  next
    case False
    with that r gone [of q] show ?thesis unfolding registry_def by auto
  qed
  moreover have "q < allocated s \<and> q \<notin> snd ` set (AList.delete n (mClients s))" if "Destroy q \<in> set (calls s @ cs)" for q
    using that c [of q] gone [of q] r h(1) unfolding registry_def by auto
  ultimately show ?thesis unfolding registry_def by (simp add: split_beta)
qed

lemma registry_deletes: "hoare (\<lambda>e. e \<noteq> UseAfterFree) registry (deleteClientbyName n) registry"
proof (rule hoareI)
  fix s assume r: "registry s"
  show "case deleteClientbyName n s of Inl e \<Rightarrow> e \<noteq> UseAfterFree | Inr s' \<Rightarrow> registry s'"
  proof (cases "getClient n s")
    case None
    with r show ?thesis by (simp add: deleteClientbyName_def reading_def)
  next
    case (Some p)
    then have np: "(n, p) \<in> set (mClients s)" by (simp add: getClient_def map_of_SomeD)
    with r obtain h where "handlers s p = Some h" using registryD by blast
    with Some show ?thesis
      by (cases "mLocationApi h") (simp_all add: deleteClientbyName_some, (rule registry_delete [OF r np]; auto)+)
  qed
qed

lemma registry_adds:
  assumes r: "registry s" and new: "getClient n s = None" and h: "mName h = n" and c: "\<And>q. Destroy q \<notin> set cs"
  shows "registry (s\<lparr>allocated := Suc (allocated s), handlers := (handlers s)(allocated s \<mapsto> h), calls := calls s @ cs,
    mClients := mClients s @ [(n, allocated s)]\<rparr>)"
proof -
  have fresh: "(m, allocated s) \<notin> set (mClients s)" for m using registryD [OF r, of m "allocated s"] r unfolding registry_def by auto
  have dist: "n \<notin> fst ` set (mClients s)" "allocated s \<notin> snd ` set (mClients s)"
    "distinct (map fst (mClients s))" "distinct (map snd (mClients s))"
    using new fresh r by (auto simp: getClient_def map_of_eq_None_iff registry_def)
  have old: "q < allocated s" "q \<notin> snd ` set (mClients s) \<Longrightarrow> \<not> mIpcSender h' \<and> \<not> mLocationApi h'"
    if "handlers s q = Some h'" for q h' using that r unfolding registry_def by auto
  have destroyed: "q < allocated s \<and> q \<notin> snd ` set (mClients s)" if "Destroy q \<in> set (calls s)" for q
    using that r unfolding registry_def by auto
  let ?hs = "(handlers s)(allocated s \<mapsto> h)" and ?cl = "mClients s @ [(n, allocated s)]"
  have "distinct (map fst ?cl)" "distinct (map snd ?cl)" using dist by simp_all
  moreover have "\<exists>h'. ?hs q = Some h' \<and> mName h' = m" if "(m, q) \<in> set ?cl" for m q
    using that fresh h registryD [OF r, of m q] by auto
  moreover have "q < Suc (allocated s) \<and> (q \<notin> snd ` set ?cl \<longrightarrow> \<not> mIpcSender h' \<and> \<not> mLocationApi h')" if "?hs q = Some h'" for q h'
    using that old [of q h'] by (cases "q = allocated s") auto
  moreover have "q < Suc (allocated s) \<and> q \<notin> snd ` set ?cl" if "Destroy q \<in> set (calls s @ cs)" for q
    using that c destroyed [of q] by auto
  ultimately show ?thesis unfolding registry_def by (simp add: split_beta h)
qed

interpretation reg: hal_contract "\<lambda>e. e \<noteq> UseAfterFree" registry
proof (unfold_locales, goal_cases)
  case (8 s c)
  have "\<forall>q. Destroy q \<noteq> c" using 8(2) by metis
  then show ?case by (auto intro!: registry_cong [OF 8(1)])
next
  case (9 s p h h')
  then show ?case by (auto intro!: registry_cong [OF 9(1)])
next
  case 19
  show ?case by (rule registry_deletes)
next
  case (20 s n h cs)
  then show ?case by (rule registry_adds)
next
  case (21 p)
  show ?case
    by (auto simp: hoare_def onLocationApiDestroyCompleteCb_def on_handler_def upd_def registry_def split: option.splits) force
qed (auto simp: hoare_def MaintTimer_timeOutCallback_def SingleTerrestrialFixTimer_timeOutCallback_def maintenance_ends_def upd_def calling_def
    dest: registryD elim!: registry_cong)

section \<open>The maintenance\<close>

text \<open>The next maintenance is either waited for, requested once, or under way.\<close>

definition one_maintenance :: "LocationApiService \<Rightarrow> bool" where
  "one_maintenance s \<longleftrightarrow> (if mMaintTimer s then 1 else 0) + count_list (mMsgTask s) PerformMaintenanceReq
     + (if clientsToCheck s = None then 0 else 1) = (1 :: nat)"

lemma maintenance_deletes: "hoare (\<lambda>_. True) one_maintenance (deleteClientbyName n) one_maintenance"
  by (auto simp: hoare_def one_maintenance_def deleteClientbyName_def cleanup_def reading_def upd_def set_handler_def on_handler_def
      calling_def split: option.splits)

interpretation maint: hal_contract "\<lambda>_. True" one_maintenance
  by unfold_locales
    (use maintenance_deletes in \<open>auto simp: one_maintenance_def hoare_def onLocationApiDestroyCompleteCb_def on_handler_def upd_def
      calling_def MaintTimer_timeOutCallback_def SingleTerrestrialFixTimer_timeOutCallback_def maintenance_ends_def split: option.splits if_splits\<close>)

section \<open>Reachable states\<close>

text \<open>A contract also holds with every failure allowed.\<close>

lemma hal_contract_any:
  assumes "hal_contract ok I"
  shows "hal_contract (\<lambda>_. True) I"
  using assms by (auto simp: hal_contract_def intro: hoare_any)

text \<open>Both assertions hold in every state the daemon reaches, the second once it listens.\<close>

lemma reachable_inv:
  assumes "reachable env config s" "walks env"
  shows "registry s \<and> (listening s \<longrightarrow> one_maintenance s)"
  using assms
proof induction
  case (starts s)
  show ?case
  proof (cases "granted env [CreateControlInstance]")
    case True
    have init: "registry (control_started env config)" "one_maintenance (control_started env config)"
      by (simp_all add: control_started_def LocationApiService_zero_def registry_def one_maintenance_def)
    from True starts(1) constructor_runs [of env config]
    have run: "acts [if autoStartGnss config \<noteq> 0 then auto_start env config else acts [], upd (\<lambda>s. s\<lparr>listening := True\<rparr>)]
        (control_started env config) = Inr s" by simp
    show ?thesis
      using hoare_Inr [OF reg.constructed [OF init(1)] refl run] hoare_Inr [OF maint.constructed [OF init(2)] refl run] by simp
  next
    case False
    from starts(1) False constructor_runs [of env config]
    have "s = (LocationApiService_zero config)\<lparr>calls := [CreateControlInstance]\<rparr>" by simp
    then show ?thesis by (simp add: LocationApiService_zero_def registry_def)
  qed
next
  case (reacts s e s')
  then have "registry s \<and> can_come e s" "one_maintenance s \<and> can_come e s" by simp_all
  moreover have "react env e s = Inr s'"
    using reacts.hyps(4) by (auto simp: hal_step_def reading_def failing_def split: if_splits)
  ultimately show ?case using reacts.prems
    using hoare_Inr [OF hal_contract.event_kept [OF hal_contract_any [OF reg.hal_contract_axioms]]] hoare_Inr [OF maint.event_kept] by blast
qed

end
