(* ===== verification/HalSpec.thy ===== *)
theory HalSpec
  imports HalInv PbMsgSpec
begin

unbundle bit_operations_syntax

text \<open>
  What the location HAL daemon promises its clients, and where it does not keep it.
\<close>

section \<open>Runs of statements\<close>

lemmas hal_steps = on_handler_def set_handler_def upd_def reading_def calling_def asking_def failing_def

lemma with_client_some: "getClient n s = Some p \<Longrightarrow> with_client n k s = k p s"
  by (simp add: with_client_def reading_def)

lemma with_client_none: "getClient n s = None \<Longrightarrow> with_client n k s = Inr s"
  by (simp add: with_client_def reading_def)

lemma serializing_some:
  "f (accessors env (calls s)) = Inr (Some str) \<Longrightarrow> 0 < length str \<Longrightarrow> length str < 2 ^ 32
   \<Longrightarrow> serializing env f k x s = k str s"
  by (auto simp: serializing_def reading_def word_of_nat_eq_0_iff dest: nat_dvd_not_less)

section \<open>An environment\<close>

text \<open>
  For concrete runs: an environment in which every call succeeds, every message is written as the same string and none can
  be read.
\<close>

definition no_reader :: pb_reader where
  "no_reader = \<lparr>
    read_header = \<lambda>_. None, read_LocAPIClientRegisterReqMsg = \<lambda>_. None,
    read_LocAPIStartTrackingReqMsg = \<lambda>_. None, read_LocAPIUpdateCallbacksReqMsg = \<lambda>_. None,
    read_LocAPIUpdateTrackingOptionsReqMsg = \<lambda>_. None, read_LocAPIStartBatchingReqMsg = \<lambda>_. None,
    read_LocAPIUpdateBatchingOptionsReqMsg = \<lambda>_. None, read_LocAPIAddGeofencesReqMsg = \<lambda>_. None,
    read_LocAPIRemoveGeofencesReqMsg = \<lambda>_. None, read_LocAPIModifyGeofencesReqMsg = \<lambda>_. None,
    read_LocAPIPauseGeofencesReqMsg = \<lambda>_. None, read_LocAPIResumeGeofencesReqMsg = \<lambda>_. None,
    read_LocAPIUpdateNetworkAvailabilityReqMsg = \<lambda>_. None,
    read_LocAPIGetSingleTerrestrialPosReqMsg = \<lambda>_. None, read_LocAPIPingTestReqMsg = \<lambda>_. None,
    read_LocConfigConstrainedTuncReqMsg = \<lambda>_. None,
    read_LocConfigPositionAssistedClockEstimatorReqMsg = \<lambda>_. None,
    read_LocConfigSvConstellationReqMsg = \<lambda>_. None,
    read_LocConfigConstellationSecondaryBandReqMsg = \<lambda>_. None,
    read_LocConfigAidingDataDeletionReqMsg = \<lambda>_. None, read_LocConfigLeverArmReqMsg = \<lambda>_. None,
    read_LocConfigRobustLocationReqMsg = \<lambda>_. None, read_LocConfigMinGpsWeekReqMsg = \<lambda>_. None,
    read_LocConfigDrEngineParamsReqMsg = \<lambda>_. None, read_LocConfigMinSvElevationReqMsg = \<lambda>_. None,
    read_LocConfigEngineRunStateReqMsg = \<lambda>_. None,
    read_LocConfigUserConsentTerrestrialPositioningReqMsg = \<lambda>_. None\<rparr>"

definition short_writer :: pb_writer where
  "short_writer = \<lparr>
    write_header = \<lambda>_. Some ''m'', write_LocAPIGenericRespMsg = \<lambda>_. Some ''m'',
    write_LocAPIGetSingleTerrestrialPosRespMsg = \<lambda>_. Some ''m'',
    write_LocConfigGetRobustLocationConfigRespMsg = \<lambda>_. Some ''m'',
    write_LocConfigGetMinGpsWeekRespMsg = \<lambda>_. Some ''m'',
    write_LocConfigGetMinSvElevationRespMsg = \<lambda>_. Some ''m'',
    write_LocConfigGetConstellationSecondaryBandConfigRespMsg = \<lambda>_. Some ''m'',
    write_LocAPICapabilitiesIndMsg = \<lambda>_. Some ''m'', write_LocAPILocationIndMsg = \<lambda>_. Some ''m'',
    write_LocAPIBatchingIndMsg = \<lambda>_. Some ''m'', write_LocAPILocationInfoIndMsg = \<lambda>_. Some ''m'',
    write_LocAPIEngineLocationsInfoIndMsg = \<lambda>_. Some ''m'',
    write_LocAPISatelliteVehicleIndMsg = \<lambda>_. Some ''m'', write_LocAPINmeaIndMsg = \<lambda>_. Some ''m'',
    write_LocAPIDataIndMsg = \<lambda>_. Some ''m'', write_LocAPIMeasIndMsg = \<lambda>_. Some ''m'',
    write_LocAPILocationSystemInfoIndMsg = \<lambda>_. Some ''m'',
    write_LocAPIGnssEnergyConsumedIndMsg = \<lambda>_. Some ''m'', write_LocAPIPingTestReqMsg = \<lambda>_. Some ''m'',
    write_LocAPIPingTestIndMsg = \<lambda>_. Some ''m''\<rparr>"

definition some_env :: hal_env where
  "some_env = \<lparr>granted = \<lambda>_. True, answer = \<lambda>_. 5, answers = \<lambda>_. None, accessors = \<lambda>_. 9,
     visit_clients = \<lambda>xs. xs, visit_ids = \<lambda>xs. xs, visit_fixes = \<lambda>xs. xs, reader = no_reader, writer = short_writer,
     class_size = \<lambda>_. 0, mem_nmea = \<lparr>LocAPINmeaSerializedPayload_size = 0, LocAPINmeaSerializedPayload_timestamp = 0,
       LocAPINmeaSerializedPayload_nmea = []\<rparr>, mem_ping = [], mem_engines = []\<rparr>"

definition some_config :: configParamToRead where
  "some_config = \<lparr>autoStartGnss = 0, gnssSessionTbfMs = 100, deleteAllBeforeAutoStart = 0, posEngineMask = 0, positionMode = 1\<rparr>"

definition started :: LocationApiService where
  "started = (LocationApiService_zero some_config)\<lparr>calls := [CreateControlInstance, Enable, StartMaintTimer], mLocationControlApi := True,
     mLocationControlId := 5, mMaintTimer := True, listening := True\<rparr>"

text \<open>A state with one client, which has no session.\<close>

definition client_name :: string where
  "client_name = SOCKET_LOC_CLIENT_DIR @ ''toclient.1.2''"

definition one_client :: LocationApiService where
  "one_client = started\<lparr>mClients := [(client_name, 1)], allocated := 2,
     handlers := [1 \<mapsto> (new_handler client_name LOCATION_CLIENT_API True)\<lparr>mLocationApi := True\<rparr>]\<rparr>"

lemma some_walks: "walks some_env"
  by (simp add: walks_def some_env_def)

lemma starts_started: "reachable some_env some_config started"
  by (rule reachable.starts)
    (simp add: new_LocationApiService_def hal_steps some_env_def some_config_def LocationApiService_zero_def started_def)

section \<open>Time between fixes\<close>

definition tbf :: "nat \<Rightarrow> nat" where
  "tbf n = (if n < 200 then 100 else if n < 500 then 200 else if n < 1000 then 500
     else if 4294966296 < n then 4294967000 else (n + 999) div 1000 * 1000)"

lemma unat_supported: "unat (getSupportedTbf t) = tbf (unat t)"
proof -
  have "unat (t + 999) = unat t + 999" if "unat t \<le> 4294966296"
    using that by (simp add: unat_word_ariths)
  then show ?thesis
    by (auto simp: getSupportedTbf_def tbf_def word_less_nat_alt unat_div unat_word_ariths)
qed

lemma tbf_idem: "tbf (tbf n) = tbf n"
  by (auto simp: tbf_def)

lemma tbf_mono: "m \<le> n \<Longrightarrow> tbf m \<le> tbf n"
  by (auto simp: tbf_def)

text \<open>C25. The time between fixes a client asks for is rounded to one the engine supports: the result is 100, 200 or 500 ms or
  a whole number of seconds, rounding it again changes nothing, a larger request never gets a shorter time, and from one
  second on the result is the request or up to 999 ms more, except within a second of the largest number where it is the
  largest whole second.
\<close>

theorem supported_tbf:
  "(getSupportedTbf t \<in> {100, 200, 500} \<or> 0 < getSupportedTbf t \<and> unat (getSupportedTbf t) mod 1000 = 0)
   \<and> getSupportedTbf (getSupportedTbf t) = getSupportedTbf t
   \<and> (t \<le> u \<longrightarrow> getSupportedTbf t \<le> getSupportedTbf u)
   \<and> (1000 \<le> unat t \<longrightarrow> (if unat t \<le> 4294966296
        then unat t \<le> unat (getSupportedTbf t) \<and> unat (getSupportedTbf t) < unat t + 1000
        else unat (getSupportedTbf t) = 4294967000))"
proof (intro conjI impI)
  show "getSupportedTbf t \<in> {100, 200, 500} \<or> 0 < getSupportedTbf t \<and> unat (getSupportedTbf t) mod 1000 = 0"
    unfolding word_unat_eq_iff word_less_nat_alt insert_iff unat_supported by (auto simp: tbf_def)
  show "getSupportedTbf (getSupportedTbf t) = getSupportedTbf t"
    by (simp add: word_unat_eq_iff unat_supported tbf_idem)
  show "t \<le> u \<Longrightarrow> getSupportedTbf t \<le> getSupportedTbf u"
    by (simp add: word_le_nat_alt unat_supported tbf_mono)
  show "1000 \<le> unat t \<Longrightarrow> if unat t \<le> 4294966296
      then unat t \<le> unat (getSupportedTbf t) \<and> unat (getSupportedTbf t) < unat t + 1000
      else unat (getSupportedTbf t) = 4294967000"
    unfolding unat_supported by (auto simp: tbf_def)
qed

theorem supported_tbf_witness:
  "getSupportedTbf 1500 \<le> getSupportedTbf 2500 \<and> unat (getSupportedTbf 1500) < 2500 \<and> unat (getSupportedTbf 4294967295) = 4294967000"
  using supported_tbf [of 1500 2500] supported_tbf [of 4294967295 4294967295] by simp

section \<open>Reports reach only their client\<close>

text \<open>A statement that, when it ends, has sent messages to one client at most.\<close>

definition sends_to :: "addr \<Rightarrow> act \<Rightarrow> bool" where
  "sends_to p a \<longleftrightarrow> (\<forall>s s'. a s = Inr s' \<longrightarrow> (\<exists>cs. calls s' = calls s @ cs \<and> (\<forall>q m. Send q m \<in> set cs \<longrightarrow> q = p)
     \<and> (\<forall>n m. SendTo n m \<notin> set cs)))"

named_theorems sends_intro

lemma sends_nil [sends_intro]: "sends_to p (acts [])"
  by (simp add: sends_to_def)

lemma sends_cons [sends_intro]:
  assumes "sends_to p f" "sends_to p (acts fs)"
  shows "sends_to p (acts (f # fs))"
  unfolding sends_to_def
proof (intro allI impI)
  fix s s' assume "acts (f # fs) s = Inr s'"
  then obtain t where f: "f s = Inr t" and fs: "acts fs t = Inr s'" by (auto split: sum.splits)
  from assms(1) f obtain cs where cs: "calls t = calls s @ cs" "\<forall>q m. Send q m \<in> set cs \<longrightarrow> q = p" "\<forall>n m. SendTo n m \<notin> set cs"
    unfolding sends_to_def by blast
  from assms(2) fs obtain cs' where cs': "calls s' = calls t @ cs'" "\<forall>q m. Send q m \<in> set cs' \<longrightarrow> q = p" "\<forall>n m. SendTo n m \<notin> set cs'"
    unfolding sends_to_def by blast
  from cs cs' show "\<exists>cs. calls s' = calls s @ cs \<and> (\<forall>q m. Send q m \<in> set cs \<longrightarrow> q = p) \<and> (\<forall>n m. SendTo n m \<notin> set cs)"
    by (intro exI [of _ "cs @ cs'"]) auto
qed

lemma sends_upd [sends_intro]: "(\<And>s. calls (f s) = calls s) \<Longrightarrow> sends_to p (upd f)"
  by (simp add: sends_to_def upd_def)

lemma sends_failing [sends_intro]: "sends_to p (failing e)"
  by (simp add: sends_to_def failing_def)

lemma sends_reading [sends_intro]: "(\<And>v. sends_to p (k v)) \<Longrightarrow> sends_to p (reading f k)"
  by (simp add: sends_to_def reading_def)

lemma sends_calling [sends_intro]: "(\<And>q m. c = Send q m \<Longrightarrow> q = p) \<Longrightarrow> (\<And>n m. c \<noteq> SendTo n m) \<Longrightarrow> sends_to p (calling c)"
  by (simp add: sends_to_def calling_def) blast

lemma sends_asking [sends_intro]:
  "(\<And>q m. c = Send q m \<Longrightarrow> q = p) \<Longrightarrow> (\<And>n m. c \<noteq> SendTo n m) \<Longrightarrow> (\<And>v. sends_to p (k v)) \<Longrightarrow> sends_to p (asking f c k)"
  unfolding asking_def by (intro sends_intro) blast+

lemma sends_handler [sends_intro]: "(\<And>h. sends_to p (k h)) \<Longrightarrow> sends_to p (on_handler q k)"
  by (simp add: sends_to_def on_handler_def split: option.split)

lemma sends_set [sends_intro]: "sends_to p (set_handler q f)"
  unfolding set_handler_def by (intro sends_intro) simp

lemma sends_alloc [sends_intro]: "(\<And>b. sends_to p (k b)) \<Longrightarrow> sends_to p (allocating env n k)"
  by (induction n arbitrary: k) (auto intro!: sends_intro)

lemma sends_if [sends_intro]: "sends_to p x \<Longrightarrow> sends_to p y \<Longrightarrow> sends_to p (if b then x else y)"
  by simp

lemma sends_option [sends_intro]: "sends_to p x \<Longrightarrow> (\<And>v. sends_to p (y v)) \<Longrightarrow> sends_to p (case r of None \<Rightarrow> x | Some v \<Rightarrow> y v)"
  by (cases r) simp_all

lemma sends_serializing [sends_intro]: "(\<And>m. sends_to p (k m)) \<Longrightarrow> sends_to p x \<Longrightarrow> sends_to p (serializing env f k x)"
  unfolding serializing_def by (auto intro!: sends_intro split: sum.split)

lemma sends_message [sends_intro]: "(\<And>b. sends_to p (k b)) \<Longrightarrow> sends_to p (sendMessage env p m k)"
  unfolding sendMessage_def by (intro sends_intro) simp_all

lemma sends_delete [sends_intro]: "sends_to p (deleteClientbyName n)" "sends_to p (purge q)"
  unfolding purge_def deleteClientbyName_def cleanup_def by (intro sends_intro; simp)+

lemma sends_or_purge [sends_intro]: "sends_to p (send_or_purge env p f)"
  unfolding send_or_purge_def by (intro sends_intro)

lemma sends_fences [sends_intro]: "sends_to p (eraseGeofenceIds p n ids)" "(\<And>r. sends_to p (k r)) \<Longrightarrow> sends_to p (getClientIds env p n ids k)"
  unfolding eraseGeofenceIds_def getClientIds_def by (auto intro!: sends_intro)

lemma sends_all [sends_intro]: "(\<And>x. x \<in> set xs \<Longrightarrow> sends_to p (f x)) \<Longrightarrow> sends_to p (acts (map f xs))"
  by (induction xs) (auto intro!: sends_intro)

lemma sends_reports [sends_intro]:
  "sends_to p (report env p b f)" "sends_to p (onCapabilitiesCallback env p w)"
  "sends_to p (onBatchingCb env p ls)" "sends_to p (onBatchingStatusCb env p st)" "sends_to p (onGeofenceBreachCb env p ids)"
  "sends_to p (onGnssLocationInfoCb env p n)" "sends_to p (generic_response env p i err)"
  unfolding report_def onCapabilitiesCallback_def onBatchingCb_def onBatchingStatusCb_def onGeofenceBreachCb_def
    onGnssLocationInfoCb_def generic_response_def
  by (intro sends_intro)+

lemma sends_engines [sends_intro]: "sends_to p (onEngLocationsInfoCb env p ns)"
  unfolding onEngLocationsInfoCb_def Let_def by (intro sends_intro)

lemma sends_response [sends_intro]: "sends_to p (onResponseCb env p err i)"
  unfolding onResponseCb_def Let_def by (intro sends_intro)

lemma sends_collective [sends_intro]: "sends_to p (onCollectiveResponseCallback env p n errs ids)"
  unfolding onCollectiveResponseCallback_def Let_def by (intro sends_intro)

lemma sends_destroyed [sends_intro]: "sends_to p (onLocationApiDestroyCompleteCb q)"
  unfolding onLocationApiDestroyCompleteCb_def by (intro sends_intro) simp

lemmas report_events = onTrackingCb_def onGnssSvCb_def onGnssNmeaCb_def onGnssDataCb_def onGnssMeasurementsCb_def onLocationSystemInfoCb_def

lemma target_sends:
  assumes "target e = Some p"
  shows "sends_to p (react env e)"
  using assms by (cases e) (simp_all only: react.simps target.simps option.inject option.distinct report_events, (rule sends_intro)+)

text \<open>The bits of the subscription mask a report needs.\<close>

fun subscription :: "hal_event \<Rightarrow> int option" where
  "subscription (Tracking _ _) = Some E_LOC_CB_DISTANCE_BASED_TRACKING_BIT"
| "subscription (Batching _ _) = Some E_LOC_CB_BATCHING_BIT"
| "subscription (BatchingStatus _ _) = Some E_LOC_CB_BATCHING_STATUS_BIT"
| "subscription (GeofenceBreach _ _) = Some E_LOC_CB_GEOFENCE_BREACH_BIT"
| "subscription (LocationInfo _ _) = Some (E_LOC_CB_GNSS_LOCATION_INFO_BIT OR E_LOC_CB_SIMPLE_LOCATION_INFO_BIT)"
| "subscription (EngineLocations _ _) = Some E_LOC_CB_ENGINE_LOCATIONS_INFO_BIT"
| "subscription (Satellites _ _) = Some E_LOC_CB_GNSS_SV_BIT"
| "subscription (Nmea _ _ _) = Some E_LOC_CB_GNSS_NMEA_BIT"
| "subscription (GnssData _ _) = Some E_LOC_CB_GNSS_DATA_BIT"
| "subscription (Measurements _ _) = Some E_LOC_CB_GNSS_MEAS_BIT"
| "subscription (SystemInfo _ _) = Some E_LOC_CB_SYSTEM_INFO_BIT"
| "subscription _ = None"

lemma unsubscribed:
  assumes "target e = Some p" "subscription e = Some b" "handlers s p = Some h" "\<not> (mIpcSender h \<and> has_bit (mSubscriptionMask h) b)"
  shows "react env e s = Inr s"
  using assms
  by (cases e) (auto simp: on_handler_def report_def report_events onBatchingCb_def onBatchingStatusCb_def onGeofenceBreachCb_def
      onGnssLocationInfoCb_def onEngLocationsInfoCb_def)

text \<open>C24. What the location API reports for a client is sent to that client only, and a report the client has not subscribed
  to, or a report for a client that cannot be reached any more, changes nothing.
\<close>

theorem hal_reports_isolated:
  assumes "target e = Some p" "handlers s p = Some h"
  shows "(\<forall>s'. react env e s = Inr s' \<longrightarrow> (\<exists>cs. calls s' = calls s @ cs \<and> (\<forall>q m. Send q m \<in> set cs \<longrightarrow> q = p)
            \<and> (\<forall>n m. SendTo n m \<notin> set cs)))
    \<and> (\<forall>b. subscription e = Some b \<and> \<not> (mIpcSender h \<and> has_bit (mSubscriptionMask h) b) \<longrightarrow> react env e s = Inr s)"
  using target_sends [OF assms(1), of env] unsubscribed [OF assms(1) _ assms(2)] unfolding sends_to_def by blast

theorem hal_reports_isolated_witness:
  "target (Tracking 1 Location_zero) = Some 1 \<and> react some_env (Tracking 1 Location_zero) one_client = Inr one_client"
  using hal_reports_isolated [of "Tracking 1 Location_zero" 1 one_client _ some_env]
  by (simp add: one_client_def new_handler_def has_bit_def)

section \<open>Invariants\<close>

text \<open>A daemon that has started its own client.\<close>

definition auto_config :: configParamToRead where
  "auto_config = some_config\<lparr>autoStartGnss := 1\<rparr>"

definition auto_state :: LocationApiService where
  "auto_state = (case new_LocationApiService some_env auto_config (LocationApiService_zero auto_config) of Inr s \<Rightarrow> s | Inl _ \<Rightarrow> started)"

lemma auto_runs: "new_LocationApiService some_env auto_config (LocationApiService_zero auto_config) = Inr auto_state"
    "mClients auto_state = [(AUTO_START_CLIENT_NAME, 1)]" "listening auto_state" "purging auto_state = None" "handlers auto_state 1 \<noteq> None"
  by (simp_all add: auto_state_def new_LocationApiService_def auto_start_def new_LocHalDaemonClientHandler_def updateSubscription_def
      startTracking_handler_def push_pending_def createSender_def hal_steps some_env_def auto_config_def some_config_def LocationApiService_zero_def
      to_TrackingOptions_def LocationOptions.defs new_LocationOptions_def)

lemma auto_reachable: "reachable some_env auto_config auto_state"
  by (rule reachable.starts [OF auto_runs(1)])




text \<open>C22. In every state that the daemon reaches (a run ends where a function that takes the lock overlaps with a deletion that the
  maintenance makes without it, see \<open>maintenance_race\<close> below), the names and the handlers in the table of clients are distinct, every handler in
  the table is alive and has the name of its entry, every handler outside the table has given up its sender and its
  location API instance, and destruction has been asked for only for handlers outside the table.  Once the daemon listens,
  exactly one of the maintenance timer, a request for maintenance and a running maintenance exists: the periodic check of
  the clients neither dies out nor multiplies.
\<close>

theorem hal_registry:
  assumes "reachable env config s" "walks env"
  shows "registry s \<and> (listening s \<longrightarrow> one_maintenance s)"
  by (rule reachable_inv [OF assms])

theorem hal_registry_witness:
  "mClients auto_state = [(AUTO_START_CLIENT_NAME, 1)] \<and> registry auto_state \<and> one_maintenance auto_state"
  using hal_registry [OF auto_reachable some_walks] auto_runs(2,3) by simp



text \<open>When a client does not take the ping, the maintenance goes on to delete it without the lock: the handler is still in the table, and every
  function that takes the lock now overlaps with the deletion.\<close>

lemma maintenance_race:
  assumes "purging s = None" "clientsToCheck s = Some ((n, True) # ys)"
    and "LocAPIPingTestReqMsg_serializeToProtobuf (write_LocAPIPingTestReqMsg (writer env)) (write_header (writer env))
      (class_size env ''LocAPIPingTestReqMsg'') (new_LocAPIPingTestReqMsg SERVICE_NAME mPbufMsgConv (mem_ping env))
      (accessors env (calls s)) = Inr (Some str)"
    and "0 < length str" "length str < 2 ^ 32" "\<not> granted env (calls s @ [SendTo n str])"
  shows "\<exists>s'. hal_step env TaskStep s = Inr s' \<and> mClients s' = mClients s \<and> handlers s' = handlers s \<and>
    (\<forall>e. takes_lock e \<longrightarrow> hal_step env e s' = Inl DataRace)"
proof -
  let ?s = "s\<lparr>clientsToCheck := Some ys\<rparr>"
  have "maintenance_pings env n True ?s = Inr (?s\<lparr>calls := calls s @ [SendTo n str], purging := Some n\<rparr>)"
    using assms(3-6) by (simp add: maintenance_pings_def serializing_some [where str = str] hal_steps)
  then have "hal_step env TaskStep s = Inr (?s\<lparr>calls := calls s @ [SendTo n str], purging := Some n\<rparr>)"
    using assms(1,2) by (simp add: hal_step_def task_step_def reading_def upd_def)
  then show ?thesis by (simp add: hal_step_def reading_def failing_def)
qed

section \<open>Requests of the clients\<close>

text \<open>What a pair of functions of the protobuf library promises: what was written can be read.\<close>

definition carries :: "('p \<Rightarrow> string option) \<Rightarrow> (string \<Rightarrow> 'p option) \<Rightarrow> bool" where
  "carries ser parse \<longleftrightarrow> (\<forall>pb str. ser pb = Some str \<longrightarrow> parse str = Some pb)"

lemma strlcpy_again: "strlcpy n (strlcpy n str) = strlcpy n str"
proof -
  have kept: "takeWhile P (take k (takeWhile P str)) = take k (takeWhile P str)" for P k
    by (simp only: takeWhile_eq_all_conv) (auto dest: in_set_takeD set_takeWhileD)
  show ?thesis unfolding strlcpy_def c_str_def kept by simp
qed

text \<open>A serialised message consists of a header that can be read and a payload that can be read.\<close>

lemma serialized_read:
  assumes "serialize_with ser ser_hdr sz start conversion m n = Inr (Some bytes)" "carries ser parse" "carries ser_hdr hdr"
  obtains pb n' str where "conversion start n = Inr (pb, n')" "parse str = Some pb"
    "hdr bytes = Some ((header_of m)\<lparr>PBLocAPIMsgHeader_payload := str, PBLocAPIMsgHeader_payloadSize := sz\<rparr>)"
proof -
  from assms(1) obtain pb n' str where "conversion start n = Inr (pb, n')" "ser pb = Some str"
    "ser_hdr ((header_of m)\<lparr>PBLocAPIMsgHeader_payload := str, PBLocAPIMsgHeader_payloadSize := sz\<rparr>) = Some bytes"
    by (auto simp: serialize_with_def split: if_splits sum.splits pb_error.splits option.splits prod.splits)
  with assms(2,3) show thesis using that unfolding carries_def by blast
qed

text \<open>A session is asked for with the position mode of the daemon and a time between fixes the engine supports.\<close>

definition requested :: "LocationOptions \<Rightarrow> LocationApiService \<Rightarrow> TrackingOptions" where
  "requested options s = to_TrackingOptions (options\<lparr>LocationOptions_mode := mPositionMode s,
     LocationOptions_minInterval := getSupportedTbf (LocationOptions_minInterval options)\<rparr>)"

lemma start_tracking_runs:
  assumes "getClient (mSocketName m) s = Some p" "handlers s p = Some h" "mSessionId h = 0" "mLocationApi h"
    "t = requested (LocAPIStartTrackingReqMsg_locOptions m) s" "i = answer env (calls s @ [StartTracking p t])"
  shows "startTracking env m s = Inr (s\<lparr>calls := calls s @ [StartTracking p t], handlers := (handlers s)(p \<mapsto>
      if i = 0 then h\<lparr>mOptions := t, mSessionId := i\<rparr>
      else h\<lparr>mOptions := t, mSessionId := i, mTracking := True, mPendingMessages := mPendingMessages h @ [E_LOCAPI_START_TRACKING_MSG_ID]\<rparr>)\<rparr>)"
  using assms
  by (auto simp: startTracking_def with_client_some startTracking_handler_def push_pending_def hal_steps to_TrackingOptions_def
      LocationOptions.defs requested_def)

lemma header_of_start:
  "header_of (new_LocAPIStartTrackingReqMsg name opts c) = PBLocAPIMsgHeader_default\<lparr>
     PBLocAPIMsgHeader_mSocketName := strlcpy MAX_SOCKET_PATHNAME_LENGTH name,
     PBLocAPIMsgHeader_msgId := getPBEnumForELocMsgID E_LOCAPI_START_TRACKING_MSG_ID, PBLocAPIMsgHeader_msgVersion := 1\<rparr>"
  by (simp add: header_of_def new_LocAPIStartTrackingReqMsg_def)

lemma start_id: "getEnumForPBELocMsgID (getPBEnumForELocMsgID E_LOCAPI_START_TRACKING_MSG_ID) = E_LOCAPI_START_TRACKING_MSG_ID"
  by code_simp

lemma start_request:
  "map_of (client_requests env name payload m) E_LOCAPI_START_TRACKING_MSG_ID = Some (receiving (read_LocAPIStartTrackingReqMsg (reader env))
     payload (\<lambda>pb. LocAPIStartTrackingReqMsg_fromPB name pb mPbufMsgConv) (startTracking env))"
  by (simp add: client_requests_def)

lemma start_converted:
  assumes "steps [sub_message PBLocAPIStartTrackingReqMsg_locOptions
      (\<lambda>v p. p\<lparr>PBLocAPIStartTrackingReqMsg_locOptions := v\<rparr>) (\<lambda>l. convertLocationOptionsToPB x (Some l))] start n = Inr (pb, n')"
  shows "\<exists>m'. LocAPIStartTrackingReqMsg_fromPB name pb mPbufMsgConv mem = Inr m' \<and> mSocketName m' = strlcpy MAX_SOCKET_PATHNAME_LENGTH name
     \<and> LocAPIStartTrackingReqMsg_locOptions m' = carried_LocationOptions x (LocAPIStartTrackingReqMsg_locOptions mem)"
proof -
  let ?put = "\<lambda>v p. p\<lparr>PBLocAPIStartTrackingReqMsg_locOptions := v\<rparr>"
  obtain q where q: "\<And>n. 0 < n \<Longrightarrow> sub_message PBLocAPIStartTrackingReqMsg_locOptions ?put
      (\<lambda>v. convertLocationOptionsToPB x (Some v)) start n = Inr (?put q start, n - 1)"
    and d: "\<And>y k. pbConvertToLocationOptions q y k = Inr (carried_LocationOptions x y, k)"
    using location_options.sub_message_dec [of PBLocAPIStartTrackingReqMsg_locOptions ?put x start] by auto
  from assms location_options.sub_message_short have "0 < n" by (cases "n = 0") (auto simp: sub_message_def)
  with q assms have "pb = ?put q start" by simp
  then show ?thesis
    by (simp add: LocAPIStartTrackingReqMsg_fromPB_def construct_def unless_null_def mPbufMsgConv_def sub_struct_def d init_header_def)
qed

text \<open>C23. From the request of a client to the location API: the message a client builds to start a session, serialised,
  received and read, starts a session of that client with the client's options as the wire format carries them, the
  position mode of the daemon and the time between fixes rounded; the answer is expected as the one to this request.
\<close>

theorem hal_start_tracking_delivered:
  assumes "carries ser (\<lambda>b. map_option fst (read_LocAPIStartTrackingReqMsg (reader env) b))" "carries ser_hdr (read_header (reader env))"
    and "LocAPIStartTrackingReqMsg_serializeToProtobuf ser ser_hdr sz (new_LocAPIStartTrackingReqMsg name options c) n = Inr (Some bytes)"
    and "isValidClientMsg (new_LocAPIMsgHeader name E_LOCAPI_START_TRACKING_MSG_ID NULL)"
    and "getClient (strlcpy MAX_SOCKET_PATHNAME_LENGTH name) s = Some p" "handlers s p = Some h" "mSessionId h = 0" "mLocationApi h"
    and "t = requested (carried_LocationOptions options options) s" "i = answer env (calls s @ [StartTracking p t])"
  shows "react env (ClientMsg bytes) s = Inr (s\<lparr>calls := calls s @ [StartTracking p t], handlers := (handlers s)(p \<mapsto>
      if i = 0 then h\<lparr>mOptions := t, mSessionId := i\<rparr>
      else h\<lparr>mOptions := t, mSessionId := i, mTracking := True, mPendingMessages := mPendingMessages h @ [E_LOCAPI_START_TRACKING_MSG_ID]\<rparr>)\<rparr>)"
proof -
  let ?m = "new_LocAPIStartTrackingReqMsg name options c"
  have opt: "LocAPIStartTrackingReqMsg_locOptions ?m = options" by (simp add: new_LocAPIStartTrackingReqMsg_def)
  obtain pb n' str where conv: "steps [sub_message PBLocAPIStartTrackingReqMsg_locOptions
      (\<lambda>v p. p\<lparr>PBLocAPIStartTrackingReqMsg_locOptions := v\<rparr>) (\<lambda>l. convertLocationOptionsToPB options (Some l))]
      PBLocAPIStartTrackingReqMsg_default n = Inr (pb, n')"
    and "map_option fst (read_LocAPIStartTrackingReqMsg (reader env) str) = Some pb"
    and hdr: "read_header (reader env) bytes = Some ((header_of ?m)\<lparr>PBLocAPIMsgHeader_payload := str, PBLocAPIMsgHeader_payloadSize := sz\<rparr>)"
    by (rule serialized_read [OF assms(3) [unfolded LocAPIStartTrackingReqMsg_serializeToProtobuf_def opt] assms(1,2)])
  then obtain mem where read: "read_LocAPIStartTrackingReqMsg (reader env) str = Some (pb, mem)" by auto
  obtain m' where m': "LocAPIStartTrackingReqMsg_fromPB (strlcpy MAX_SOCKET_PATHNAME_LENGTH name) pb mPbufMsgConv mem = Inr m'"
      "mSocketName m' = strlcpy MAX_SOCKET_PATHNAME_LENGTH name"
      "LocAPIStartTrackingReqMsg_locOptions m' = carried_LocationOptions options options"
    using start_converted [OF conv, of "strlcpy MAX_SOCKET_PATHNAME_LENGTH name" mem]
    by (auto simp: strlcpy_again carried_LocationOptions_def)
  have "react env (ClientMsg bytes) s = startTracking env m' s"
    using hdr assms(4) read m'(1)
    by (simp add: processClientMsg_def header_of_start start_id start_request receiving_def new_LocAPIMsgHeader_def strlcpy_again)
  with start_tracking_runs [of m' s p h, OF _ assms(6-8)] m' assms(5,9,10) show ?thesis by simp
qed

definition some_options :: LocationOptions where
  "some_options = new_LocationOptions\<lparr>LocationOptions_minInterval := 1500, LocationOptions_locReqEngTypeMask := 1\<rparr>"

definition start_message :: LocAPIStartTrackingReqMsg where
  "start_message = new_LocAPIStartTrackingReqMsg client_name some_options 1"

definition start_payload :: PBLocAPIStartTrackingReqMsg where
  "start_payload = (case convertLocationOptionsToPB some_options (Some PBLocationOptions_default) 9 of
     Inl e \<Rightarrow> PBLocAPIStartTrackingReqMsg_default | Inr (pb, _) \<Rightarrow> \<lparr>PBLocAPIStartTrackingReqMsg_locOptions = pb\<rparr>)"

definition start_header :: PBLocAPIMsgHeader where
  "start_header = (header_of start_message)\<lparr>PBLocAPIMsgHeader_payload := ''p'', PBLocAPIMsgHeader_payloadSize := 0\<rparr>"

definition start_env :: hal_env where
  "start_env = some_env\<lparr>reader := no_reader\<lparr>read_header := (\<lambda>b. if b = ''h'' then Some start_header else None),
     read_LocAPIStartTrackingReqMsg := (\<lambda>b. if b = ''p'' then Some (start_payload, start_message) else None)\<rparr>\<rparr>"

lemma start_serialized:
  "LocAPIStartTrackingReqMsg_serializeToProtobuf (\<lambda>pb. if pb = start_payload then Some ''p'' else None)
     (\<lambda>h. if h = start_header then Some ''h'' else None) 0 (new_LocAPIStartTrackingReqMsg client_name some_options 1) 9 = Inr (Some ''h'')"
  by code_simp

theorem hal_start_tracking_delivered_witness:
  "\<exists>s'. react start_env (ClientMsg ''h'') one_client = Inr s'
     \<and> calls s' = calls one_client @ [StartTracking 1 (requested (carried_LocationOptions some_options some_options) one_client)]"
proof -
  have "isValidClientMsg (new_LocAPIMsgHeader client_name E_LOCAPI_START_TRACKING_MSG_ID NULL)" by code_simp
  moreover have "getClient (strlcpy MAX_SOCKET_PATHNAME_LENGTH client_name) one_client = Some 1" by code_simp
  ultimately show ?thesis
    by (subst hal_start_tracking_delivered [OF _ _ start_serialized _ _ _ _ _ refl refl, of start_env one_client])
      (auto simp: carries_def start_env_def one_client_def new_handler_def)
qed

section \<open>Configuration requests\<close>

lemma get_week_request:
  "map_of (client_requests env name payload m) E_INTAPI_GET_MIN_GPS_WEEK_REQ_MSG_ID = Some (getGnssConfig env m GNSS_CONFIG_FLAGS_MIN_GPS_WEEK_BIT)"
  by (simp add: client_requests_def)

lemma control_recorded:
  assumes "mLocationControlApi s" "i = answer env (calls s @ [Control r])" "i \<noteq> 0" "mConfigReqs s i = None"
  shows "control env r m s = Inr (s\<lparr>calls := calls s @ [Control r],
     mConfigReqs := (mConfigReqs s)(i \<mapsto> \<lparr>clientName = mSocketName m, configMsgId = msgId m\<rparr>)\<rparr>)"
  using assms by (simp add: control_def hal_steps addConfigRequestToMap_def)

lemma sent_or_purged:
  assumes "handlers s p = Some h" "mIpcSender h" "f (accessors env (calls s)) = Inr (Some str)" "0 < length str" "length str < 2 ^ 32"
  shows "send_or_purge env p f s = (if granted env (calls s @ [Send p str]) then acts [] else purge p) (s\<lparr>calls := calls s @ [Send p str]\<rparr>)"
  unfolding send_or_purge_def serializing_some [where f = f, OF assms(3-5)] using assms(1,2) by (simp add: sendMessage_def hal_steps)

definition generic_resp :: "hal_env \<Rightarrow> int \<Rightarrow> int \<Rightarrow> nat \<Rightarrow> pb_error + string option" where
  "generic_resp env i err = LocAPIGenericRespMsg_serializeToProtobuf (write_LocAPIGenericRespMsg (writer env)) (write_header (writer env))
     (class_size env ''LocAPIGenericRespMsg'') (new_LocAPIGenericRespMsg SERVICE_NAME i err mPbufMsgConv)"

definition week_resp :: "hal_env \<Rightarrow> 16 word \<Rightarrow> nat \<Rightarrow> pb_error + string option" where
  "week_resp env w = LocConfigGetMinGpsWeekRespMsg_serializeToProtobuf (write_LocConfigGetMinGpsWeekRespMsg (writer env))
     (write_header (writer env)) (class_size env ''LocConfigGetMinGpsWeekRespMsg'') (new_LocConfigGetMinGpsWeekRespMsg SERVICE_NAME w mPbufMsgConv)"

lemma control_response_sent:
  assumes "handlers s p = Some h" "mIpcSender h" "generic_resp env i err (accessors env (calls s)) = Inr (Some str)"
    "0 < length str" "length str < 2 ^ 32" "granted env (calls s @ [Send p str])"
  shows "onControlResponseCb env p err i s = Inr (s\<lparr>calls := calls s @ [Send p str]\<rparr>)"
  using assms sent_or_purged [where f = "generic_resp env i err", OF assms(1-5)]
  by (simp add: onControlResponseCb_def on_handler_def generic_response_def generic_resp_def)

lemma week_config_sent:
  assumes "handlers s p = Some h" "mIpcSender h" "GnssConfig_flags config AND GNSS_CONFIG_FLAGS_MIN_GPS_WEEK_BIT \<noteq> 0"
    "week_resp env (GnssConfig_minGpsWeek config) (accessors env (calls s)) = Inr (Some str)"
    "0 < length str" "length str < 2 ^ 32" "granted env (calls s @ [Send p str])"
  shows "onGnssConfigCb env p E_INTAPI_GET_MIN_GPS_WEEK_REQ_MSG_ID config s = Inr (s\<lparr>calls := calls s @ [Send p str]\<rparr>)"
proof -
  have "onGnssConfigCb env p E_INTAPI_GET_MIN_GPS_WEEK_REQ_MSG_ID config s = serializing env (week_resp env (GnssConfig_minGpsWeek config))
     (\<lambda>pbStr. on_handler p (\<lambda>h. if mIpcSender h then sendMessage env p pbStr (\<lambda>rc. if rc then acts [] else purge p) else acts [])) (acts []) s"
    using assms(1,3) by (simp add: onGnssConfigCb_def on_handler_def week_resp_def)
  also have "\<dots> = Inr (s\<lparr>calls := calls s @ [Send p str]\<rparr>)"
    unfolding serializing_some [where f = "week_resp env (GnssConfig_minGpsWeek config)", OF assms(4-6)]
    using assms(1,2,7) by (simp add: sendMessage_def hal_steps)
  finally show ?thesis .
qed

text \<open>A client that asks for the configured GPS week is answered exactly once: the request goes to the location control
  API, its result is sent to this client as a success and as the configured week, the request is forgotten, and any later
  answer with the same session id changes nothing.
\<close>

theorem hal_config_answered_once:
  assumes "read_header (reader env) bytes = Some hdr" "getEnumForPBELocMsgID (PBLocAPIMsgHeader_msgId hdr) = E_INTAPI_GET_MIN_GPS_WEEK_REQ_MSG_ID"
      "m = new_LocAPIMsgHeader (PBLocAPIMsgHeader_mSocketName hdr) E_INTAPI_GET_MIN_GPS_WEEK_REQ_MSG_ID NULL" "isValidClientMsg m"
    and "mLocationControlApi s" "i = answer env (calls s @ [c])" "c = Control (GetConfig GNSS_CONFIG_FLAGS_MIN_GPS_WEEK_BIT)"
      "i \<noteq> 0" "mConfigReqs s i = None"
    and "getClient (mSocketName m) s = Some p" "handlers s p = Some h" "mIpcSender h"
    and "GnssConfig_flags config AND GNSS_CONFIG_FLAGS_MIN_GPS_WEEK_BIT \<noteq> 0"
    and "generic_resp env (msgId m) LOCATION_ERROR_SUCCESS (accessors env (calls s @ [c])) = Inr (Some str)" "0 < length str" "length str < 2 ^ 32"
      "granted env (calls s @ [c, Send p str])"
    and "week_resp env (GnssConfig_minGpsWeek config) (accessors env (calls s @ [c, Send p str])) = Inr (Some str')"
      "0 < length str'" "length str' < 2 ^ 32" "granted env (calls s @ [c, Send p str, Send p str'])"
  shows "\<exists>s1 s2. react env (ClientMsg bytes) s = Inr s1 \<and> react env (Config i config) s1 = Inr s2
     \<and> s2 = s\<lparr>calls := calls s @ [c, Send p str, Send p str']\<rparr>
     \<and> (\<forall>err config'. react env (ControlResponse err i) s2 = Inr s2 \<and> react env (Config i config') s2 = Inr s2)"
proof (intro exI conjI)
  let ?s1 = "s\<lparr>calls := calls s @ [c], mConfigReqs := (mConfigReqs s)(i \<mapsto> \<lparr>clientName = mSocketName m, configMsgId = msgId m\<rparr>)\<rparr>"
  let ?s2 = "s\<lparr>calls := calls s @ [c, Send p str, Send p str']\<rparr>"
  show "react env (ClientMsg bytes) s = Inr ?s1"
    using assms(1-4) control_recorded [OF assms(5,6) [unfolded assms(7)] assms(8,9), of m]
    by (simp add: processClientMsg_def get_week_request getGnssConfig_def assms(7))
  have id: "msgId m = E_INTAPI_GET_MIN_GPS_WEEK_REQ_MSG_ID" by (simp add: assms(3) new_LocAPIMsgHeader_def)
  have client: "getClient (mSocketName m) ?s1 = Some p" using assms(10) by (simp add: getClient_def)
  have first: "onControlResponseCb env p LOCATION_ERROR_SUCCESS (msgId m) ?s1 = Inr (?s1\<lparr>calls := calls ?s1 @ [Send p str]\<rparr>)"
    by (rule control_response_sent) (use assms in simp_all)
  have second: "onGnssConfigCb env p (msgId m) config (?s1\<lparr>calls := calls ?s1 @ [Send p str]\<rparr>)
      = Inr (?s1\<lparr>calls := calls ?s1 @ [Send p str, Send p str']\<rparr>)"
    unfolding id by (subst week_config_sent) (use assms in simp_all)
  have "(mConfigReqs s)(i := None) = mConfigReqs s" using assms(9) by auto
  then show "react env (Config i config) ?s1 = Inr ?s2"
    using first second client by (simp add: onGnssConfigCallback_def reading_def with_client_def upd_def)
  show "?s2 = ?s2" ..
  show "\<forall>err config'. react env (ControlResponse err i) ?s2 = Inr ?s2 \<and> react env (Config i config') ?s2 = Inr ?s2"
    using assms(9) by (simp add: onControlResponseCallback_def onGnssConfigCallback_def reading_def)
qed

definition week_header :: PBLocAPIMsgHeader where
  "week_header = PBLocAPIMsgHeader_default\<lparr>PBLocAPIMsgHeader_mSocketName := client_name,
     PBLocAPIMsgHeader_msgId := getPBEnumForELocMsgID E_INTAPI_GET_MIN_GPS_WEEK_REQ_MSG_ID\<rparr>"

definition week_config :: GnssConfig where
  "week_config = GnssConfig_zero\<lparr>GnssConfig_flags := GNSS_CONFIG_FLAGS_MIN_GPS_WEEK_BIT, GnssConfig_minGpsWeek := 2000\<rparr>"

theorem hal_config_answered_once_witness:
  "\<exists>s1 s2. react (some_env\<lparr>reader := no_reader\<lparr>read_header := (\<lambda>b. Some week_header)\<rparr>\<rparr>) (ClientMsg ''h'') one_client = Inr s1
     \<and> react (some_env\<lparr>reader := no_reader\<lparr>read_header := (\<lambda>b. Some week_header)\<rparr>\<rparr>) (Config 5 week_config) s1 = Inr s2
     \<and> mConfigReqs s2 5 = None"
proof -
  let ?env = "some_env\<lparr>reader := no_reader\<lparr>read_header := (\<lambda>b. Some week_header)\<rparr>\<rparr>"
  have valid: "isValidClientMsg (new_LocAPIMsgHeader client_name E_INTAPI_GET_MIN_GPS_WEEK_REQ_MSG_ID NULL)"
    "getClient (mSocketName (new_LocAPIMsgHeader client_name E_INTAPI_GET_MIN_GPS_WEEK_REQ_MSG_ID NULL)) one_client = Some 1"
    "getEnumForPBELocMsgID (getPBEnumForELocMsgID E_INTAPI_GET_MIN_GPS_WEEK_REQ_MSG_ID) = E_INTAPI_GET_MIN_GPS_WEEK_REQ_MSG_ID"
    by code_simp+
  have env: "read_header (reader ?env) ''h'' = Some week_header" "answer ?env cs = 5" "granted ?env cs"
      "generic_resp ?env a b n = Inr (Some ''m'')" "week_resp ?env w n = Inr (Some ''m'')" for cs a b n w
    by (simp_all add: some_env_def generic_resp_def week_resp_def LocAPIGenericRespMsg_serializeToProtobuf_def short_writer_def
        LocConfigGetMinGpsWeekRespMsg_serializeToProtobuf_def serialize_with_def assign_def new_LocAPIGenericRespMsg_def
        new_LocConfigGetMinGpsWeekRespMsg_def mPbufMsgConv_def)
  have state: "mLocationControlApi one_client" "mConfigReqs one_client 5 = None"
    "handlers one_client 1 = Some ((new_handler client_name LOCATION_CLIENT_API True)\<lparr>mLocationApi := True\<rparr>)"
    by (simp_all add: one_client_def started_def LocationApiService_zero_def)
  have hdr: "PBLocAPIMsgHeader_mSocketName week_header = client_name" "getEnumForPBELocMsgID (PBLocAPIMsgHeader_msgId week_header)
      = E_INTAPI_GET_MIN_GPS_WEEK_REQ_MSG_ID" using valid(3) by (simp_all add: week_header_def)
  show ?thesis
    using hal_config_answered_once [OF env(1) hdr(2) refl valid(1) [folded hdr(1)] state(1) env(2) [symmetric] refl, of 1 _ week_config "''m''" "''m''"]
      valid(2) hdr(1) state env by (fastforce simp: new_handler_def week_config_def)
qed

section \<open>Terrestrial fixes\<close>

lemma fix_sent:
  assumes "sendTerrestrialFix env p err l s = Inr s'"
  shows "\<exists>cs. s' = s\<lparr>calls := calls s @ cs\<rparr> \<and> StopNetworkLocation \<notin> set cs"
proof -
  have sent: "\<exists>cs. s' = s\<lparr>calls := calls s @ cs\<rparr> \<and> StopNetworkLocation \<notin> set cs"
    if "sendMessage env p m (\<lambda>_. acts []) s = Inr s'" for m
    by (rule exI [of _ "[Send p m]"]) (use that in \<open>auto simp: sendMessage_def hal_steps split: option.splits if_splits\<close>)
  from assms [unfolded sendTerrestrialFix_def] show ?thesis
  proof (rule serializing_cases)
    assume "acts [] s = Inr s'"
    then show ?thesis by (intro exI [of _ "[]"]) simp
  qed (rule sent)
qed

lemma distinct_one: "distinct xs \<Longrightarrow> set xs = {x} \<Longrightarrow> xs = [x]"
  by (cases xs) (auto simp: subset_singleton_iff)

lemma timeout_runs:
  assumes "gtpFixRequestTimeout env n s = Inr s'" "map_of (mTerrestrialFixReqs s) n \<noteq> None"
  shows "\<exists>cs. StopNetworkLocation \<notin> set cs \<and> mTerrestrialFixReqs s' = AList.delete n (mTerrestrialFixReqs s)
    \<and> calls s' = calls s @ cs @ (if length (AList.delete n (mTerrestrialFixReqs s)) = 1 then [StopNetworkLocation] else [])"
proof -
  obtain s1 where s1: "with_client n (\<lambda>p. sendTerrestrialFix env p LOCATION_ERROR_TIMEOUT Location_zero) s = Inr s1"
      "acts [upd (\<lambda>s. s\<lparr>mTerrestrialFixReqs := AList.delete n (mTerrestrialFixReqs s)\<rparr>),
       reading mTerrestrialFixReqs (\<lambda>xs. if length xs = 1 then network StopNetworkLocation else acts [])] s1 = Inr s'"
    using assms by (auto simp: gtpFixRequestTimeout_def reading_def split: option.splits sum.splits)
  have "\<exists>cs. s1 = s\<lparr>calls := calls s @ cs\<rparr> \<and> StopNetworkLocation \<notin> set cs"
  proof (cases "getClient n s")
    case None
    with s1(1) show ?thesis by (intro exI [of _ "[]"]) (simp add: with_client_none)
  qed (use s1(1) fix_sent in \<open>auto simp: with_client_some\<close>)
  with s1(2) show ?thesis
    by (auto simp: upd_def reading_def network_def calling_def failing_def split: if_splits)
qed

text \<open>The test that ends the network session when a request times out is wrong by one: when the last request times out
  the session goes on, and when one of two requests times out it is stopped while the other request still waits.
\<close>

theorem hal_fix_timeout:
  assumes "gtpFixRequestTimeout env n s = Inr s'"
  shows "(\<forall>t. mTerrestrialFixReqs s = [(n, t)] \<longrightarrow> mTerrestrialFixReqs s' = []
       \<and> count_list (calls s') StopNetworkLocation = count_list (calls s) StopNetworkLocation)
   \<and> (\<forall>t n' t'. n' \<noteq> n \<and> set (mTerrestrialFixReqs s) = {(n, t), (n', t')} \<and> distinct (map fst (mTerrestrialFixReqs s))
       \<longrightarrow> mTerrestrialFixReqs s' = [(n', t')] \<and> last (calls s') = StopNetworkLocation)"
proof (intro conjI allI impI)
  fix t assume "mTerrestrialFixReqs s = [(n, t)]"
  with timeout_runs [OF assms] show "mTerrestrialFixReqs s' = []"
    "count_list (calls s') StopNetworkLocation = count_list (calls s) StopNetworkLocation"
    by (auto simp: count_notin)
next
  fix t n' t' assume "n' \<noteq> n \<and> set (mTerrestrialFixReqs s) = {(n, t), (n', t')} \<and> distinct (map fst (mTerrestrialFixReqs s))"
  then have n: "n' \<noteq> n" "set (mTerrestrialFixReqs s) = {(n, t), (n', t')}" and d: "distinct (mTerrestrialFixReqs s)" "map_of (mTerrestrialFixReqs s) n \<noteq> None"
    by (auto simp: distinct_map map_of_eq_None_iff)
  from n have "set (AList.delete n (mTerrestrialFixReqs s)) = {(n', t')}" by (auto simp: AList.delete_eq)
  moreover have "distinct (AList.delete n (mTerrestrialFixReqs s))" using d(1) by (simp add: AList.delete_eq)
  ultimately have "AList.delete n (mTerrestrialFixReqs s) = [(n', t')]"
    by (simp add: distinct_one)
  with timeout_runs [OF assms d(2)] show "mTerrestrialFixReqs s' = [(n', t')]" "last (calls s') = StopNetworkLocation" by auto
qed

definition two_fixes :: LocationApiService where
  "two_fixes = one_client\<lparr>mTerrestrialFixReqs := [(client_name, None), (''other'', Some 9)], mGtpWwanSsLocationApi := True\<rparr>"

lemma some_fix_serialized:
  "LocAPIGetSingleTerrestrialPosRespMsg_serializeToProtobuf (write_LocAPIGetSingleTerrestrialPosRespMsg (writer some_env))
     (write_header (writer some_env)) (class_size some_env ''LocAPIGetSingleTerrestrialPosRespMsg'')
     (new_LocAPIGetSingleTerrestrialPosRespMsg SERVICE_NAME err Location_zero mPbufMsgConv) (accessors some_env cs) = Inr (Some ''m'')"
  by (simp add: LocAPIGetSingleTerrestrialPosRespMsg_serializeToProtobuf_def serialize_with_def some_env_def short_writer_def run_simps
      new_LocAPIGetSingleTerrestrialPosRespMsg_def mPbufMsgConv_def convertLocationToPB_def)

lemma two_fixes_run: "\<exists>s'. gtpFixRequestTimeout some_env client_name two_fixes = Inr s'"
  by (auto simp: gtpFixRequestTimeout_def reading_def with_client_def getClient_def two_fixes_def one_client_def started_def
      sendTerrestrialFix_def sendMessage_def upd_def network_def hal_steps new_handler_def some_fix_serialized serializing_some
      client_name_def SOCKET_LOC_CLIENT_DIR_def)

theorem hal_fix_timeout_witness:
  "\<exists>s'. gtpFixRequestTimeout some_env client_name two_fixes = Inr s' \<and> mTerrestrialFixReqs s' = [(''other'', Some 9)]
     \<and> last (calls s') = StopNetworkLocation"
proof -
  obtain s' where s': "gtpFixRequestTimeout some_env client_name two_fixes = Inr s'" using two_fixes_run ..
  have reqs: "mTerrestrialFixReqs two_fixes = [(client_name, None), (''other'', Some 9)]" "''other'' \<noteq> client_name"
    by (simp_all add: two_fixes_def client_name_def SOCKET_LOC_CLIENT_DIR_def)
  with hal_fix_timeout [OF s', THEN conjunct2, rule_format, of "''other''" None "Some 9"] s' show ?thesis by auto
qed

text \<open>A request for a terrestrial fix is accepted from a process that has not registered: the network session is started
  for it, and the next fix is delivered through a null pointer.
\<close>

theorem hal_fix_unregistered:
  assumes "getClient (mSocketName m) s = None" "mOptInTerrestrialService s = 1" "mTerrestrialFixReqs s = []" "mGtpWwanSsLocationApi s"
    and "walks env" "Location_flags location AND word_of_int LOCATION_HAS_LAT_LONG_BIT \<noteq> 0"
  shows "\<exists>s'. getSingleTerrestrialPos env m s = Inr s' \<and> calls s' = calls s @ [StartNetworkLocation]
     \<and> react env (NetworkFix location) s' = Inl NullDereference"
proof -
  let ?r = "[(mSocketName m, Some (LocAPIGetSingleTerrestrialPosReqMsg_mTimeoutMsec m))]"
  let ?s' = "s\<lparr>mTerrestrialFixReqs := ?r, calls := calls s @ [StartNetworkLocation]\<rparr>"
  have run: "getSingleTerrestrialPos env m s = Inr ?s'"
    using assms(2-4) by (simp add: getSingleTerrestrialPos_def Let_def reading_def upd_def start_fix_timer_def network_def calling_def)
  have "set (visit_fixes env ?r) = set ?r" using assms(5) by (simp only: walks_def)
  then obtain ys where "visit_fixes env ?r = hd ?r # ys" by (cases "visit_fixes env ?r") auto
  moreover have "getClient (mSocketName m) ?s' = None" using assms(1) by (simp add: getClient_def)
  ultimately have "react env (NetworkFix location) ?s' = Inl NullDereference"
    using assms(2,6) by (simp add: onGtpWwanTrackingCallback_def reading_def failing_def)
  with run show ?thesis by simp
qed

definition fix_message :: LocAPIGetSingleTerrestrialPosReqMsg where
  "fix_message = \<lparr>mSocketName = ''nobody'', msgId = E_LOCAPI_GET_SINGLE_TERRESTRIAL_POS_REQ_MSG_ID, msgVersion = 1, pLocApiPbMsgConv = 1,
     LocAPIGetSingleTerrestrialPosReqMsg_mTimeoutMsec = 1000, LocAPIGetSingleTerrestrialPosReqMsg_mTechMask = 1,
     LocAPIGetSingleTerrestrialPosReqMsg_mHorQoS = 0\<rparr>"

theorem hal_fix_unregistered_witness:
  "\<exists>s'. getSingleTerrestrialPos some_env fix_message (one_client\<lparr>mOptInTerrestrialService := 1, mGtpWwanSsLocationApi := True\<rparr>) = Inr s'
     \<and> react some_env (NetworkFix (Location_zero\<lparr>Location_flags := 1\<rparr>)) s' = Inl NullDereference"
  using hal_fix_unregistered [of fix_message "one_client\<lparr>mOptInTerrestrialService := 1, mGtpWwanSsLocationApi := True\<rparr>" some_env
      "Location_zero\<lparr>Location_flags := 1\<rparr>", OF _ _ _ _ some_walks]
  by (auto simp: fix_message_def getClient_def one_client_def started_def LocationApiService_zero_def client_name_def SOCKET_LOC_CLIENT_DIR_def)

section \<open>Messages that are never constructed\<close>

text \<open>Three of the daemon's messages are put together in zeroed memory without ever being constructed, so that sending
  them calls a virtual function of an object that has none: a batch of locations and a geofence breach for a client that
  subscribed to them, and the answer to a geofence request.
\<close>

theorem hal_zero_messages:
  assumes "handlers s p = Some h" "mIpcSender h" "\<And>cs. granted env cs"
  shows "(has_bit (mSubscriptionMask h) E_LOC_CB_BATCHING_BIT \<and> locations \<noteq> [] \<longrightarrow> react env (Batching p locations) s = Inl VirtualCallOnZeros)
   \<and> (has_bit (mSubscriptionMask h) E_LOC_CB_GEOFENCE_BREACH_BIT \<and> ids \<noteq> [] \<longrightarrow> react env (GeofenceBreach p ids) s = Inl VirtualCallOnZeros)
   \<and> (mGfPendingMessages h = E_LOCAPI_ADD_GEOFENCES_MSG_ID # ms \<longrightarrow> react env (CollectiveResponse p [(LOCATION_ERROR_SUCCESS, i)]) s = Inl VirtualCallOnZeros)"
  using assms
  by (auto simp: onBatchingCb_def onGeofenceBreachCb_def onCollectiveResponseCallback_def getClientIds_def hal_steps geofence_messages_def numeral_eq_Suc)

theorem hal_zero_messages_witness:
  "react some_env (CollectiveResponse 1 [(LOCATION_ERROR_SUCCESS, 7)]) (one_client\<lparr>handlers :=
     [1 \<mapsto> (new_handler client_name LOCATION_CLIENT_API True)\<lparr>mLocationApi := True, mGfPendingMessages := [E_LOCAPI_ADD_GEOFENCES_MSG_ID]\<rparr>]\<rparr>)
     = Inl VirtualCallOnZeros"
  using hal_zero_messages [of "one_client\<lparr>handlers := [1 \<mapsto> (new_handler client_name LOCATION_CLIENT_API True)\<lparr>mLocationApi := True,
      mGfPendingMessages := [E_LOCAPI_ADD_GEOFENCES_MSG_ID]\<rparr>]\<rparr>" 1 _ some_env _ _ "[]" 7]
  by (simp add: new_handler_def some_env_def)

section \<open>Clients that cannot be reached\<close>

definition energy_msg :: "hal_env \<Rightarrow> 64 word \<Rightarrow> nat \<Rightarrow> pb_error + string option" where
  "energy_msg env energy = LocAPIGnssEnergyConsumedIndMsg_serializeToProtobuf (write_LocAPIGnssEnergyConsumedIndMsg (writer env))
     (write_header (writer env)) (class_size env ''LocAPIGnssEnergyConsumedIndMsg'')
     (new_LocAPIGnssEnergyConsumedIndMsg SERVICE_NAME energy mPbufMsgConv)"

lemma unsent_purges:
  assumes "getClient (mName h) s = Some p" "handlers s p = Some h" "mIpcSender h" "generic_resp env i err (accessors env (calls s)) = Inr (Some str)"
    "0 < length str" "length str < 2 ^ 32" "\<not> granted env (calls s @ [Send p str])" "\<not> mLocationApi h"
  shows "\<exists>s'. onControlResponseCb env p err i s = Inr s' \<and> handlers s' p = None"
  using assms sent_or_purged [where f = "generic_resp env i err", OF assms(2-6)]
  by (simp add: onControlResponseCb_def on_handler_def generic_response_def generic_resp_def purge_def
      deleteClientbyName_some [of "mName h" "s\<lparr>calls := calls s @ [Send p str]\<rparr>" p h] getClient_def)

text \<open>A client that cannot be reached is removed while the daemon still works with it: when the first of the two messages
  that report a configuration to a client without a location API instance is refused, the second one is sent through its
  deleted handler, and when the report of the consumed energy is refused by a client, the walk over the clients goes on
  from the entry that has just been removed.
\<close>

theorem hal_unreachable_client:
  assumes "handlers s p = Some h" "mIpcSender h" "getClient (mName h) s = Some p" "0 < length str" "length str < 2 ^ 32"
    "\<not> granted env (calls s @ [Send p str])"
  shows "(mConfigReqs s i = Some \<lparr>clientName = mName h, configMsgId = m\<rparr> \<and> \<not> mLocationApi h
       \<and> generic_resp env m LOCATION_ERROR_SUCCESS (accessors env (calls s)) = Inr (Some str)
       \<longrightarrow> react env (Config i config) s = Inl UseAfterFree)
   \<and> (walks env \<and> mClients s = [(mName h, p)] \<and> mEngineInfoRequestMask h AND E_ENGINE_INFO_CB_GNSS_ENERGY_CONSUMED_BIT \<noteq> 0
       \<and> energy_msg env energy (accessors env (calls s)) = Inr (Some str)
       \<longrightarrow> react env (EnergyConsumed energy) s = Inl IteratorInvalidated)"
proof (intro conjI impI)
  assume a: "mConfigReqs s i = Some \<lparr>clientName = mName h, configMsgId = m\<rparr> \<and> \<not> mLocationApi h
       \<and> generic_resp env m LOCATION_ERROR_SUCCESS (accessors env (calls s)) = Inr (Some str)"
  with unsent_purges [OF assms(3,1,2) _ assms(4-6), of m LOCATION_ERROR_SUCCESS] obtain s' where
    "onControlResponseCb env p LOCATION_ERROR_SUCCESS m s = Inr s'" "handlers s' p = None" by auto
  with a assms(3) show "react env (Config i config) s = Inl UseAfterFree"
    by (simp add: onGnssConfigCallback_def reading_def with_client_def onGnssConfigCb_def on_handler_def)
next
  assume a: "walks env \<and> mClients s = [(mName h, p)] \<and> mEngineInfoRequestMask h AND E_ENGINE_INFO_CB_GNSS_ENERGY_CONSUMED_BIT \<noteq> 0
       \<and> energy_msg env energy (accessors env (calls s)) = Inr (Some str)"
  then have "set (visit_clients env (mClients s)) = {(mName h, p)}" by (simp add: walks_def)
  then obtain ys where ys: "visit_clients env (mClients s) = (mName h, p) # ys" by (cases "visit_clients env (mClients s)") auto
  let ?msg = "new_LocAPIGnssEnergyConsumedIndMsg SERVICE_NAME energy mPbufMsgConv"
  have "\<not> 2 ^ 32 dvd length str" using assms(4,5) by (auto dest: nat_dvd_not_less)
  with a assms obtain s' where "onGnssEnergyConsumedInfoAvailable env ?msg p s = Inr s'" "mClients s' = []"
    by (cases "mLocationApi h") (simp_all add: onGnssEnergyConsumedInfoAvailable_def energy_msg_def serializing_def sendMessage_def purge_def
        deleteClientbyName_def cleanup_def hal_steps getClient_def word_of_nat_eq_0_iff)
  with ys show "react env (EnergyConsumed energy) s = Inl IteratorInvalidated"
    by (simp add: onGnssEnergyConsumedCb_def reading_def)
qed

definition refusing_env :: hal_env where
  "refusing_env = some_env\<lparr>granted := (\<lambda>cs. case last cs of Send _ _ \<Rightarrow> False | _ \<Rightarrow> True)\<rparr>"

definition asks_energy :: LocationApiService where
  "asks_energy = one_client\<lparr>handlers := [1 \<mapsto> (new_handler client_name LOCATION_CLIENT_API True)\<lparr>mEngineInfoRequestMask := 1\<rparr>]\<rparr>"

theorem hal_unreachable_client_witness:
  "react refusing_env (EnergyConsumed 3) asks_energy = Inl IteratorInvalidated"
proof -
  have "energy_msg refusing_env 3 n = Inr (Some ''m'')" for n
    by (simp add: energy_msg_def LocAPIGnssEnergyConsumedIndMsg_serializeToProtobuf_def serialize_with_def refusing_env_def some_env_def
        short_writer_def assign_def new_LocAPIGnssEnergyConsumedIndMsg_def mPbufMsgConv_def)
  moreover have "walks refusing_env" by (simp add: walks_def refusing_env_def some_env_def)
  ultimately show ?thesis
    using hal_unreachable_client [of asks_energy 1 _ "''m''" refusing_env _ _ _ 3]
    by (simp add: asks_energy_def one_client_def new_handler_def getClient_def refusing_env_def)
qed

end
