(* ===== verification/GptIO.thy ===== *)
theory GptIO
  imports Prelude "HOL-Library.Word"
begin

text \<open>
  The ground of the partition table utilities, \<^verbatim>\<open>src/gpt-utils/gpt-utils.cpp\<close>: the byte macros of the file, the
  operating system it calls and \<^verbatim>\<open>blk_rw\<close>.

  A buffer is a list of bytes; an access outside of it is \<^term>\<open>None\<close>.  The operating system is a record: the
  contents of the block devices by path, the open descriptors, the links and directories the code looks at,
  and the function \<open>fails\<close> that says which of the fallible calls (\<^verbatim>\<open>open\<close>, \<^verbatim>\<open>ioctl\<close>, \<^verbatim>\<open>malloc\<close>, \<^verbatim>\<open>lseek64\<close>,
  \<^verbatim>\<open>read\<close>, \<^verbatim>\<open>write\<close>, \<^verbatim>\<open>fsync\<close>, numbered in the order they are made) goes wrong, so that a theorem for every
  \<open>fails\<close> is a theorem about every pattern of failures; \<open>short\<close> says which calls of \<^verbatim>\<open>read\<close> and \<^verbatim>\<open>write\<close> stop early, and after how many
  bytes, without an error.  A device takes a write block by block; \<open>wlog\<close> keeps the
  contents of the device after every one of these blocks, which is what is found when the power goes off there.
  \<open>live\<close> counts the heap blocks that are allocated.  The checksum \<^verbatim>\<open>crc32\<close> is a function of zlib and a parameter.
\<close>

unbundle bit_operations_syntax

type_synonym byte = "8 word"

type_synonym bytes = "byte list"

named_theorems os_simps \<open>what the operating system calls leave alone\<close>

section \<open>Byte access\<close>

definition GET_4_BYTES :: "bytes \<Rightarrow> nat \<Rightarrow> 32 word option" where
  "GET_4_BYTES b i =
     (if i + 4 \<le> length b then
        Some (ucast (b ! i) OR push_bit 8 (ucast (b ! (i + 1))) OR push_bit 16 (ucast (b ! (i + 2))) OR
              push_bit 24 (ucast (b ! (i + 3))))
      else None)"

definition GET_8_BYTES :: "bytes \<Rightarrow> nat \<Rightarrow> 64 word option" where
  "GET_8_BYTES b i =
     (if i + 8 \<le> length b then
        Some (ucast (b ! i) OR push_bit 8 (ucast (b ! (i + 1))) OR push_bit 16 (ucast (b ! (i + 2))) OR
              push_bit 24 (ucast (b ! (i + 3))) OR push_bit 32 (ucast (b ! (i + 4))) OR
              push_bit 40 (ucast (b ! (i + 5))) OR push_bit 48 (ucast (b ! (i + 6))) OR
              push_bit 56 (ucast (b ! (i + 7))))
      else None)"

definition PUT_4_BYTES :: "bytes \<Rightarrow> nat \<Rightarrow> 32 word \<Rightarrow> bytes option" where
  "PUT_4_BYTES b i y =
     (if i + 4 \<le> length b then
        Some (b[i := ucast (y AND 0xff), i + 1 := ucast (drop_bit 8 y AND 0xff),
                i + 2 := ucast (drop_bit 16 y AND 0xff), i + 3 := ucast (drop_bit 24 y AND 0xff)])
      else None)"

text \<open>Copying bytes into a buffer at an offset: the part of the buffer that is not overwritten stays.\<close>

definition overwrite :: "nat \<Rightarrow> 'a list \<Rightarrow> 'a list \<Rightarrow> 'a list" where
  "overwrite i xs b = take i b @ xs @ drop (i + length xs) b"

definition segment :: "nat \<Rightarrow> nat \<Rightarrow> 'a list \<Rightarrow> 'a list" where
  "segment i n b = take n (drop i b)"

lemma length_overwrite [simp]: "i + length xs \<le> length b \<Longrightarrow> length (overwrite i xs b) = length b"
  by (simp add: overwrite_def)

lemma length_segment [simp]: "i + n \<le> length b \<Longrightarrow> length (segment i n b) = n"
  by (simp add: segment_def)

lemma nth_overwrite:
  "i + length xs \<le> length b \<Longrightarrow> k < length b \<Longrightarrow>
   overwrite i xs b ! k = (if i \<le> k \<and> k < i + length xs then xs ! (k - i) else b ! k)"
  by (auto simp: overwrite_def nth_append min_def)

lemma nth_segment: "i + n \<le> length b \<Longrightarrow> k < n \<Longrightarrow> segment i n b ! k = b ! (i + k)"
  by (simp add: segment_def)

lemma segment_overwrite_same [simp]:
  "i + length xs \<le> length b \<Longrightarrow> n = length xs \<Longrightarrow> segment i n (overwrite i xs b) = xs"
  by (rule nth_equalityI) (simp_all add: nth_segment nth_overwrite)

lemma segment_overwrite_other:
  "i + length xs \<le> length b \<Longrightarrow> j + n \<le> length b \<Longrightarrow> j + n \<le> i \<or> i + length xs \<le> j \<Longrightarrow>
   segment j n (overwrite i xs b) = segment j n b"
  by (rule nth_equalityI) (auto simp: nth_segment nth_overwrite)

lemma overwrite_segment [simp]: "i + n \<le> length b \<Longrightarrow> overwrite i (segment i n b) b = b"
  by (rule nth_equalityI) (auto simp: nth_segment nth_overwrite)

lemma overwrite_overwrite [simp]:
  "i + length xs \<le> length b \<Longrightarrow> length ys = length xs \<Longrightarrow>
   overwrite i xs (overwrite i ys b) = overwrite i xs b"
  by (rule nth_equalityI) (auto simp: nth_overwrite)

lemma overwrite_Nil [simp]: "i \<le> length b \<Longrightarrow> overwrite i [] b = b"
  by (simp add: overwrite_def)

section \<open>The operating system\<close>

text \<open>The opcode and the attribute that the query of \<^verbatim>\<open>set_boot_lun\<close> names are constants of a kernel header.\<close>

datatype ufs_opcode = UPIU_QUERY_OPCODE_WRITE_ATTR

datatype ufs_idn = QUERY_ATTR_IDN_BOOT_LU_EN

record ufs_ioctl_query_data =
  opcode :: ufs_opcode
  idn :: ufs_idn
  buf_size :: nat
  buffer :: bytes

record os =
  fails :: "nat \<Rightarrow> bool"
  short :: "nat \<Rightarrow> nat option"
  calls :: nat
  devs :: "string \<Rightarrow> bytes option"
  blksz :: "string \<Rightarrow> 32 word"
  sg_nodes :: "string \<Rightarrow> bool"
  fds :: "int \<Rightarrow> string option"
  next_fd :: int
  live :: int
  junk :: "nat \<Rightarrow> byte"
  wlog :: "(string \<times> bytes) list"
  queries :: "(string \<times> ufs_ioctl_query_data) list"
  stat_ok :: "string \<Rightarrow> bool"
  link :: "string \<Rightarrow> string option"
  dirs :: "string \<Rightarrow> string list option"
  bootdevice :: string

text \<open>Every fallible call first takes its outcome.\<close>

definition sys_call :: "os \<Rightarrow> bool \<times> os" where
  "sys_call s = (fails s (calls s), s\<lparr>calls := calls s + 1\<rparr>)"

definition dev_of :: "int \<Rightarrow> os \<Rightarrow> (string \<times> bytes) option" where
  "dev_of fd s = (case fds s fd of None \<Rightarrow> None | Some p \<Rightarrow> map_option (Pair p) (devs s p))"

definition sys_malloc :: "nat \<Rightarrow> os \<Rightarrow> bytes option \<times> os" where
  "sys_malloc n s =
     (let (bad, s) = sys_call s in
      if bad then (None, s) else (Some (map (junk s) [0..<n]), s\<lparr>live := live s + 1\<rparr>))"

definition sys_calloc :: "nat \<Rightarrow> os \<Rightarrow> bytes option \<times> os" where
  "sys_calloc n s =
     (let (bad, s) = sys_call s in
      if bad then (None, s) else (Some (replicate n 0), s\<lparr>live := live s + 1\<rparr>))"

definition sys_free :: "os \<Rightarrow> os" where
  "sys_free s = s\<lparr>live := live s - 1\<rparr>"

definition sys_open :: "string \<Rightarrow> os \<Rightarrow> int \<times> os" where
  "sys_open path s =
     (let (bad, s) = sys_call s in
      if bad \<or> devs s path = None \<and> \<not> sg_nodes s path then (-1, s)
      else (next_fd s, s\<lparr>fds := (fds s)(next_fd s \<mapsto> path), next_fd := next_fd s + 1\<rparr>))"

definition sys_close :: "int \<Rightarrow> os \<Rightarrow> os" where
  "sys_close fd s = s\<lparr>fds := (fds s)(fd := None)\<rparr>"

definition ioctl_BLKSSZGET :: "int \<Rightarrow> os \<Rightarrow> int \<times> 32 word \<times> os" where
  "ioctl_BLKSSZGET fd s =
     (let (bad, s) = sys_call s in
      if bad then (-1, 0, s)
      else case dev_of fd s of None \<Rightarrow> (-1, 0, s) | Some (p, d) \<Rightarrow> (0, blksz s p, s))"

text \<open>A block device has a fixed size; a position beyond its end is refused.\<close>

definition lseek64_set :: "int \<Rightarrow> int \<Rightarrow> os \<Rightarrow> int \<times> os" where
  "lseek64_set fd off s =
     (let (bad, s) = sys_call s in
      if bad then (-1, s)
      else case dev_of fd s of None \<Rightarrow> (-1, s)
           | Some (p, d) \<Rightarrow> if off < 0 \<or> int (length d) < off then (-1, s) else (off, s))"

definition lseek64_end :: "int \<Rightarrow> os \<Rightarrow> int \<times> os" where
  "lseek64_end fd s =
     (let (bad, s) = sys_call s in
      if bad then (-1, s)
      else case dev_of fd s of None \<Rightarrow> (-1, s) | Some (p, d) \<Rightarrow> (int (length d), s))"

text \<open>One call transfers at most this many bytes, so that the count fits in an \<^verbatim>\<open>int\<close>.\<close>

abbreviation MAX_RW_COUNT :: nat where
  "MAX_RW_COUNT \<equiv> 0x7ffff000"

text \<open>A call may also transfer less than it was asked for.\<close>

definition transfer :: "nat \<Rightarrow> os \<Rightarrow> nat" where
  "transfer len s = (case short s (calls s) of None \<Rightarrow> min len MAX_RW_COUNT | Some n \<Rightarrow> min n (min len MAX_RW_COUNT))"

definition whole :: "os \<Rightarrow> bool" where
  "whole s \<longleftrightarrow> (\<forall>n. short s n = None)"

lemma transfer_whole: "whole s \<Longrightarrow> transfer len s = min len MAX_RW_COUNT"
  by (simp add: transfer_def whole_def)

text \<open>\<^verbatim>\<open>read\<close> fills the front of the buffer and stops at the end of the device.\<close>

definition sys_read :: "int \<Rightarrow> nat \<Rightarrow> bytes \<Rightarrow> nat \<Rightarrow> os \<Rightarrow> (int \<times> bytes \<times> os) option" where
  "sys_read fd pos buf len s =
     (let n = transfer len s; (bad, s) = sys_call s in
      if bad then Some (-1, buf, s)
      else case dev_of fd s of None \<Rightarrow> Some (-1, buf, s)
           | Some (p, d) \<Rightarrow>
               if length buf < len then None
               else let xs = segment pos n d in Some (int (length xs), overwrite 0 xs buf, s))"

text \<open>\<^verbatim>\<open>write\<close> stops at the end of the device as well, and fails when there is no room at all.  The device takes
  the bytes one block after the other.\<close>

definition block_prefixes :: "nat \<Rightarrow> nat \<Rightarrow> bytes \<Rightarrow> bytes \<Rightarrow> bytes list" where
  "block_prefixes bs pos xs d = map (\<lambda>k. overwrite pos (take (k * bs) xs) d) [1..<Suc ((length xs + bs - 1) div bs)]"

definition sys_write :: "int \<Rightarrow> nat \<Rightarrow> bytes \<Rightarrow> nat \<Rightarrow> os \<Rightarrow> (int \<times> os) option" where
  "sys_write fd pos buf len s =
     (let n = transfer len s; (bad, s) = sys_call s in
      if bad then Some (-1, s)
      else case dev_of fd s of None \<Rightarrow> Some (-1, s)
           | Some (p, d) \<Rightarrow>
               if length buf < len then None
               else if length d \<le> pos \<and> 0 < len then Some (-1, s)
               else let xs = take (min n (length d - pos)) buf in
                    Some (int (length xs),
                          s\<lparr>devs := (devs s)(p \<mapsto> overwrite pos xs d),
                            wlog := wlog s @ map (Pair p) (block_prefixes (unat (blksz s p)) pos xs d)\<rparr>))"

definition sys_fsync :: "int \<Rightarrow> os \<Rightarrow> int \<times> os" where
  "sys_fsync fd s = (let (bad, s) = sys_call s in if bad then (-1, s) else (0, s))"

text \<open>\<^verbatim>\<open>blk_rw\<close> returns the value of the last call and the buffer after it.\<close>

definition blk_rw :: "int \<Rightarrow> bool \<Rightarrow> int \<Rightarrow> bytes \<Rightarrow> nat \<Rightarrow> os \<Rightarrow> (int \<times> bytes \<times> os) option" where
  "blk_rw fd rw offset buf len s =
     (let (pos, s) = lseek64_set fd offset s in
      if pos < 0 then Some (-1, buf, s)
      else do {
        (r, buf, s) \<leftarrow> (if rw then do { (r, s) \<leftarrow> sys_write fd (nat pos) buf len s; Some (r, buf, s) }
                      else sys_read fd (nat pos) buf len s);
        if r < 0 then Some (r, buf, s)
        else if rw then (let (r, s) = sys_fsync fd s in Some (r, buf, s))
        else Some (0, buf, s)
      })"

end
