(* ===== verification/GptUtils.thy ===== *)
theory GptUtils
  imports GptIO
begin

text \<open>
  The partition table of \<^verbatim>\<open>src/gpt-utils/gpt-utils.cpp\<close>: the search in the array of entries, the swap of the boot
  chain, the state of a header and the three stages of a fail-safe update of the boot partitions.  Each function
  takes the operating system of \<^verbatim>\<open>GptIO\<close> and returns it; the result is \<^term>\<open>None\<close> when the code reads or writes
  outside of a buffer, copies between overlapping entries, or does not end.  A pointer into the array of entries is an offset.
\<close>

section \<open>Constants and types\<close>

abbreviation HEADER_SIZE_OFFSET :: nat where "HEADER_SIZE_OFFSET \<equiv> 12"
abbreviation HEADER_CRC_OFFSET :: nat where "HEADER_CRC_OFFSET \<equiv> 16"
abbreviation PENTRIES_OFFSET :: nat where "PENTRIES_OFFSET \<equiv> 72"
abbreviation PARTITION_COUNT_OFFSET :: nat where "PARTITION_COUNT_OFFSET \<equiv> 80"
abbreviation PENTRY_SIZE_OFFSET :: nat where "PENTRY_SIZE_OFFSET \<equiv> 84"
abbreviation PARTITION_CRC_OFFSET :: nat where "PARTITION_CRC_OFFSET \<equiv> 88"
abbreviation PARTITION_NAME_OFFSET :: nat where "PARTITION_NAME_OFFSET \<equiv> 56"
abbreviation PTN_ENTRY_SIZE :: nat where "PTN_ENTRY_SIZE \<equiv> 128"
abbreviation MAX_GPT_NAME_SIZE :: nat where "MAX_GPT_NAME_SIZE \<equiv> 72"
abbreviation PATH_MAX :: nat where "PATH_MAX \<equiv> 4096"
abbreviation MAX_LUNS :: nat where "MAX_LUNS \<equiv> 26"
abbreviation PATH_TRUNCATE_LOC :: nat where "PATH_TRUNCATE_LOC \<equiv> 14"
abbreviation LUN_NAME_START_LOC :: nat where "LUN_NAME_START_LOC \<equiv> 11"
abbreviation UFS_ATTR_DATA_SIZE :: nat where "UFS_ATTR_DATA_SIZE \<equiv> 32"

definition str_bytes :: "string \<Rightarrow> bytes" where
  "str_bytes = map of_char"

text \<open>The array \<^verbatim>\<open>GPT_SIGNATURE\<close> with the NUL that ends it, as \<^verbatim>\<open>sizeof\<close> counts it.\<close>

definition GPT_SIGNATURE :: bytes where
  "GPT_SIGNATURE = [0x45, 0x46, 0x49, 0x20, 0x50, 0x41, 0x52, 0x54, 0]"

definition PTN_XBL :: string where
  "PTN_XBL = ''xbl''"

definition PTN_SWAP_LIST :: "string list" where
  "PTN_SWAP_LIST = [PTN_XBL, ''sbl1'', ''rpm'', ''tz'', ''aboot'', ''hyp'', ''lksecapp'', ''keymaster'', ''cmnlib'',
     ''cmnlib32'', ''cmnlib64'', ''pmic'', ''apdp'', ''devcfg'', ''hosd'', ''keystore'', ''msadp'', ''abl'',
     ''mdtpsecapp'', ''mdtp'']"

definition BLK_DEV_FILE :: string where "BLK_DEV_FILE = ''/dev/block/mmcblk0''"
definition BOOT_DEV_DIR :: string where "BOOT_DEV_DIR = ''/dev/block/bootdevice/by-name''"
definition XBL_PRIMARY :: string where "XBL_PRIMARY = ''/dev/block/bootdevice/by-name/xbl''"
definition XBL_BACKUP :: string where "XBL_BACKUP = ''/dev/block/bootdevice/by-name/xblbak''"
definition XBL_AB_PRIMARY :: string where "XBL_AB_PRIMARY = ''/dev/block/bootdevice/by-name/xbl_a''"
definition XBL_AB_SECONDARY :: string where "XBL_AB_SECONDARY = ''/dev/block/bootdevice/by-name/xbl_b''"
definition BAK_PTN_NAME_EXT :: string where "BAK_PTN_NAME_EXT = ''bak''"

datatype gpt_state = GPT_OK | GPT_BAD_SIGNATURE | GPT_BAD_CRC

datatype boot_update_stage = UPDATE_MAIN | UPDATE_BACKUP | UPDATE_FINALIZE

fun stage_int :: "boot_update_stage \<Rightarrow> int" where
  "stage_int UPDATE_MAIN = 1"
| "stage_int UPDATE_BACKUP = 2"
| "stage_int UPDATE_FINALIZE = 3"

datatype gpt_instance = PRIMARY_GPT | SECONDARY_GPT

datatype boot_chain = NORMAL_BOOT | BACKUP_BOOT

text \<open>\<^verbatim>\<open>gpt_utils_is_ufs_device\<close>: the property ends in \<^verbatim>\<open>.ufshc\<close> and is longer than that.\<close>

definition gpt_utils_is_ufs_device :: "os \<Rightarrow> bool" where
  "gpt_utils_is_ufs_device s =
     (if length (bootdevice s) < length ''.ufshc'' + 1 then False
      else drop (length (bootdevice s) - length ''.ufshc'') (bootdevice s) = ''.ufshc'')"

text \<open>\<^verbatim>\<open>strncmp(ptn_swap_list[i], PTN_XBL, strlen(PTN_XBL))\<close>.\<close>

definition is_xbl :: "string \<Rightarrow> bool" where
  "is_xbl nm \<longleftrightarrow> take (length PTN_XBL) nm = PTN_XBL"

section \<open>The array of partition entries\<close>

text \<open>The local array \<^verbatim>\<open>name8\<close>: its first half is filled with every second byte of the name, its second half is
  not initialised.\<close>

definition name8 :: "bytes \<Rightarrow> nat \<Rightarrow> byte option list option" where
  "name8 arr p =
     (if p + 2 * (MAX_GPT_NAME_SIZE div 2 - 1) < length arr then
        Some (map (\<lambda>i. Some (arr ! (p + i * 2))) [0..<MAX_GPT_NAME_SIZE div 2] @
              replicate (MAX_GPT_NAME_SIZE div 2) None)
      else None)"

text \<open>Comparison of a byte string with the front of an array, up to the first difference or the end of the string.\<close>

fun str_eq :: "bytes \<Rightarrow> byte option list \<Rightarrow> bool option" where
  "str_eq [] ys = Some True"
| "str_eq (x # xs) (Some y # ys) = (if x = y then str_eq xs ys else Some False)"
| "str_eq (x # xs) (None # ys) = None"
| "str_eq (x # xs) [] = None"

text \<open>The test of one entry: the name, and then the end of the name or the extension and the end.\<close>

definition name_matches :: "string \<Rightarrow> byte option list \<Rightarrow> bool option" where
  "name_matches ptn_name n8 = do {
     pre \<leftarrow> str_eq (str_bytes ptn_name) n8;
     if \<not> pre then Some False
     else do {
       ends \<leftarrow> str_eq [0] (drop (length ptn_name) n8);
       if ends then Some True else str_eq (str_bytes BAK_PTN_NAME_EXT @ [0]) (drop (length ptn_name) n8)
     }
   }"

partial_function (option) seek_loop :: "string \<Rightarrow> bytes \<Rightarrow> nat \<Rightarrow> nat \<Rightarrow> nat \<Rightarrow> nat option option" where
  "seek_loop ptn_name arr pentries_end pentry_size p =
     (if p < pentries_end then do {
        n8 \<leftarrow> name8 arr p;
        m \<leftarrow> name_matches ptn_name n8;
        if m then Some (Some (p - PARTITION_NAME_OFFSET))
        else seek_loop ptn_name arr pentries_end pentry_size (p + pentry_size)
      } else Some None)"

definition gpt_pentry_seek :: "string \<Rightarrow> bytes \<Rightarrow> nat \<Rightarrow> nat \<Rightarrow> 32 word \<Rightarrow> nat option option" where
  "gpt_pentry_seek ptn_name arr pentries_start pentries_end pentry_size =
     seek_loop ptn_name arr pentries_end (unat pentry_size) (pentries_start + PARTITION_NAME_OFFSET)"

text \<open>The three copies that swap two entries.\<close>

definition swap_pentries :: "nat \<Rightarrow> nat \<Rightarrow> bytes \<Rightarrow> bytes option" where
  "swap_pentries p q arr =
     (if length arr < p + PTN_ENTRY_SIZE \<or> length arr < q + PTN_ENTRY_SIZE then None
      else if p < q + PTN_ENTRY_SIZE \<and> q < p + PTN_ENTRY_SIZE then None
      else let ptn_swap = segment p PTN_ENTRY_SIZE arr;
               arr = overwrite p (segment q PTN_ENTRY_SIZE arr) arr in
           Some (overwrite q ptn_swap arr))"

text \<open>One round of the loop of \<^verbatim>\<open>gpt_boot_chain_swap\<close>, with the flag \<^verbatim>\<open>backup_not_found\<close>.\<close>

definition swap_step :: "bool \<Rightarrow> 32 word \<Rightarrow> string \<Rightarrow> bool \<times> bytes \<Rightarrow> (bool \<times> bytes) option" where
  "swap_step is_ufs pentry_size nm st =
     (if is_ufs \<and> is_xbl nm then Some st
      else do {
        ptn_entry \<leftarrow> gpt_pentry_seek nm (snd st) 0 (length (snd st)) pentry_size;
        (case ptn_entry of None \<Rightarrow> Some st
         | Some p \<Rightarrow> do {
             ptn_bak_entry \<leftarrow> gpt_pentry_seek nm (snd st) (p + unat pentry_size) (length (snd st)) pentry_size;
             (case ptn_bak_entry of None \<Rightarrow> Some st
              | Some q \<Rightarrow> do { arr \<leftarrow> swap_pentries p q (snd st); Some (False, arr) })
           })
      })"

fun swap_names :: "bool \<Rightarrow> 32 word \<Rightarrow> string list \<Rightarrow> bool \<times> bytes \<Rightarrow> (bool \<times> bytes) option" where
  "swap_names is_ufs pentry_size [] st = Some st"
| "swap_names is_ufs pentry_size (nm # nms) st = do {
     st \<leftarrow> swap_step is_ufs pentry_size nm st;
     swap_names is_ufs pentry_size nms st
   }"

definition gpt_boot_chain_swap :: "bool \<Rightarrow> bytes \<Rightarrow> 32 word \<Rightarrow> (int \<times> bytes) option" where
  "gpt_boot_chain_swap is_ufs pentries pentry_size = do {
     (backup_not_found, pentries) \<leftarrow> swap_names is_ufs pentry_size PTN_SWAP_LIST (True, pentries);
     Some (if backup_not_found then 1 else 0, pentries)
   }"

section \<open>Headers\<close>

text \<open>The checksum of the first \<open>n\<close> bytes of a buffer.\<close>

definition crc_of :: "(bytes \<Rightarrow> 32 word) \<Rightarrow> bytes \<Rightarrow> 32 word \<Rightarrow> 32 word option" where
  "crc_of crc32 b n = (if unat n \<le> length b then Some (crc32 (take (unat n) b)) else None)"

text \<open>The header checksum is calculated with its field cleared, and then put in.\<close>

definition seal_header :: "(bytes \<Rightarrow> 32 word) \<Rightarrow> 32 word \<Rightarrow> bytes \<Rightarrow> bytes option" where
  "seal_header crc32 gpt_header_size h = do {
     h \<leftarrow> PUT_4_BYTES h HEADER_CRC_OFFSET 0;
     crc \<leftarrow> crc_of crc32 h gpt_header_size;
     PUT_4_BYTES h HEADER_CRC_OFFSET crc
   }"

text \<open>The place of the partition entries, and the size of their array, wrapped as in the code.\<close>

definition pentries_start_of :: "32 word \<Rightarrow> bytes \<Rightarrow> 64 word option" where
  "pentries_start_of blk_size h = do { lba \<leftarrow> GET_8_BYTES h PENTRIES_OFFSET; Some (lba * ucast blk_size) }"

definition pentries_size_of :: "bytes \<Rightarrow> (32 word \<times> 32 word) option" where
  "pentries_size_of h = do {
     pentry_size \<leftarrow> GET_4_BYTES h PENTRY_SIZE_OFFSET;
     count \<leftarrow> GET_4_BYTES h PARTITION_COUNT_OFFSET;
     Some (pentry_size, count * pentry_size)
   }"

text \<open>\<^verbatim>\<open>gpt2_set_boot_chain\<close> in four parts, each going on with the next one as the code does, here from the end: the checksums
  and the two writes; the secondary header and the swap; the primary entries and their checksum; the block size, the
  buffer and the primary header.  Both buffers are freed at the label \<^verbatim>\<open>EXIT\<close> if they have been allocated.\<close>

definition gpt2_write ::
  "(bytes \<Rightarrow> 32 word) \<Rightarrow> int \<Rightarrow> 32 word \<Rightarrow> int \<Rightarrow> 32 word \<Rightarrow> 64 word \<Rightarrow> bytes \<Rightarrow> bytes \<Rightarrow> 32 word \<Rightarrow> os \<Rightarrow> (int \<times> os) option" where
  "gpt2_write crc32 fd blk_size gpt2_header_offset gpt_header_size pentries_start_offset gpt_header
     pentries pentries_array_size s = do {
     crc \<leftarrow> crc_of crc32 pentries pentries_array_size;
     gpt_header \<leftarrow> PUT_4_BYTES gpt_header PARTITION_CRC_OFFSET crc;
     gpt_header \<leftarrow> seal_header crc32 gpt_header_size gpt_header;
     (r, gpt_header, s) \<leftarrow> blk_rw fd True gpt2_header_offset gpt_header (unat blk_size) s;
     if r \<noteq> 0 then Some (r, sys_free (sys_free s))
     else do {
       (r, pentries, s) \<leftarrow> blk_rw fd True (sint pentries_start_offset) pentries (unat pentries_array_size) s;
       Some (r, sys_free (sys_free s))
     }
   }"

definition gpt2_secondary ::
  "(bytes \<Rightarrow> 32 word) \<Rightarrow> int \<Rightarrow> boot_chain \<Rightarrow> 32 word \<Rightarrow> int \<Rightarrow> bytes \<Rightarrow> bytes \<Rightarrow> 32 word \<Rightarrow> 32 word \<Rightarrow> os \<Rightarrow> (int \<times> os) option" where
  "gpt2_secondary crc32 fd boot blk_size gpt2_header_offset gpt_header pentries pentry_size pentries_array_size s = do {
     (r, gpt_header, s) \<leftarrow> blk_rw fd False gpt2_header_offset gpt_header (unat blk_size) s;
     if r \<noteq> 0 then Some (r, sys_free (sys_free s))
     else do {
       gpt_header_size \<leftarrow> GET_4_BYTES gpt_header HEADER_SIZE_OFFSET;
       pentries_start_offset \<leftarrow> pentries_start_of blk_size gpt_header;
       (r, pentries) \<leftarrow> (if boot = BACKUP_BOOT
                        then gpt_boot_chain_swap (gpt_utils_is_ufs_device s) pentries pentry_size
                        else Some (0, pentries));
       if r \<noteq> 0 then Some (r, sys_free (sys_free s))
       else gpt2_write crc32 fd blk_size gpt2_header_offset gpt_header_size pentries_start_offset gpt_header
              pentries pentries_array_size s
     }
   }"

definition gpt2_entries ::
  "(bytes \<Rightarrow> 32 word) \<Rightarrow> int \<Rightarrow> boot_chain \<Rightarrow> 32 word \<Rightarrow> int \<Rightarrow> bytes \<Rightarrow> os \<Rightarrow> (int \<times> os) option" where
  "gpt2_entries crc32 fd boot blk_size gpt2_header_offset gpt_header s = do {
     pentries_start_offset \<leftarrow> pentries_start_of blk_size gpt_header;
     (pentry_size, pentries_array_size) \<leftarrow> pentries_size_of gpt_header;
     (let (pentries, s) = sys_calloc (unat pentries_array_size) s in
      case pentries of None \<Rightarrow> Some (-1, sys_free s)
      | Some pentries \<Rightarrow> do {
          (r, pentries, s) \<leftarrow> blk_rw fd False (sint pentries_start_offset) pentries (unat pentries_array_size) s;
          if r \<noteq> 0 then Some (r, sys_free (sys_free s))
          else do {
            crc \<leftarrow> crc_of crc32 pentries pentries_array_size;
            want \<leftarrow> GET_4_BYTES gpt_header PARTITION_CRC_OFFSET;
            if want \<noteq> crc then Some (-1, sys_free (sys_free s))
            else gpt2_secondary crc32 fd boot blk_size gpt2_header_offset gpt_header pentries pentry_size
                   pentries_array_size s
          }
        })
   }"

definition gpt2_set_boot_chain :: "(bytes \<Rightarrow> 32 word) \<Rightarrow> int \<Rightarrow> boot_chain \<Rightarrow> os \<Rightarrow> (int \<times> os) option" where
  "gpt2_set_boot_chain crc32 fd boot s =
     (let (rc, blk_size, s) = ioctl_BLKSSZGET fd s in
      if rc \<noteq> 0 then Some (-1, s)
      else let (gpt_header, s) = sys_malloc (unat blk_size) s in
      case gpt_header of None \<Rightarrow> Some (-1, s)
      | Some gpt_header \<Rightarrow>
      let (fin, s) = lseek64_end fd s; gpt2_header_offset = fin - uint blk_size in
      if gpt2_header_offset < 0 then Some (-1, sys_free s)
      else do {
        (r, gpt_header, s) \<leftarrow> blk_rw fd False (uint blk_size) gpt_header (unat blk_size) s;
        if r \<noteq> 0 then Some (r, sys_free s)
        else gpt2_entries crc32 fd boot blk_size gpt2_header_offset gpt_header s
      })"

text \<open>The part that \<^verbatim>\<open>gpt_get_state\<close> and \<^verbatim>\<open>gpt_set_state\<close> share word for word: the block size, the buffer, the place
  of the header and the read.  The buffer has been freed when there is none in the result.\<close>

definition read_header :: "int \<Rightarrow> gpt_instance \<Rightarrow> os \<Rightarrow> ((32 word \<times> int \<times> bytes) option \<times> os) option" where
  "read_header fd gpt s =
     (let (rc, blk_size, s) = ioctl_BLKSSZGET fd s in
      if rc \<noteq> 0 then Some (None, s)
      else let (gpt_header, s) = sys_malloc (unat blk_size) s in
      case gpt_header of None \<Rightarrow> Some (None, s)
      | Some gpt_header \<Rightarrow>
      let (gpt_header_offset, s) =
            (case gpt of PRIMARY_GPT \<Rightarrow> (uint blk_size, s)
             | SECONDARY_GPT \<Rightarrow> (let (fin, s) = lseek64_end fd s in (fin - uint blk_size, s))) in
      if gpt = SECONDARY_GPT \<and> gpt_header_offset < 0 then Some (None, sys_free s)
      else do {
        (r, gpt_header, s) \<leftarrow> blk_rw fd False gpt_header_offset gpt_header (unat blk_size) s;
        if r \<noteq> 0 then Some (None, sys_free s) else Some (Some (blk_size, gpt_header_offset, gpt_header), s)
      })"

text \<open>The state of a header that has been read.\<close>

definition header_state :: "(bytes \<Rightarrow> 32 word) \<Rightarrow> bytes \<Rightarrow> gpt_state option" where
  "header_state crc32 h =
     (if length h < length GPT_SIGNATURE then None
      else let state = (if take (length GPT_SIGNATURE) h \<noteq> GPT_SIGNATURE then GPT_BAD_SIGNATURE else GPT_OK) in
      do {
        gpt_header_size \<leftarrow> GET_4_BYTES h HEADER_SIZE_OFFSET;
        crc \<leftarrow> GET_4_BYTES h HEADER_CRC_OFFSET;
        h \<leftarrow> PUT_4_BYTES h HEADER_CRC_OFFSET 0;
        crc' \<leftarrow> crc_of crc32 h gpt_header_size;
        Some (if crc' \<noteq> crc then GPT_BAD_CRC else state)
      })"

definition gpt_get_state :: "(bytes \<Rightarrow> 32 word) \<Rightarrow> int \<Rightarrow> gpt_instance \<Rightarrow> os \<Rightarrow> (int \<times> gpt_state \<times> os) option" where
  "gpt_get_state crc32 fd gpt s = do {
     (rd, s) \<leftarrow> read_header fd gpt s;
     (case rd of None \<Rightarrow> Some (-1, GPT_OK, s)
      | Some (blk_size, gpt_header_offset, h) \<Rightarrow> do {
          state \<leftarrow> header_state crc32 h;
          Some (0, state, sys_free s)
        })
   }"

text \<open>The header with the wanted signature; there is no header with the state \<^verbatim>\<open>GPT_BAD_CRC\<close>.\<close>

definition mark_header :: "gpt_state \<Rightarrow> bytes \<Rightarrow> bytes option option" where
  "mark_header state h =
     (case state of
        GPT_OK \<Rightarrow> if length h < length GPT_SIGNATURE then None else Some (Some (overwrite 0 GPT_SIGNATURE h))
      | GPT_BAD_SIGNATURE \<Rightarrow> if length h < 1 then None else Some (Some (h[0 := 0]))
      | GPT_BAD_CRC \<Rightarrow> Some None)"

text \<open>\<^verbatim>\<open>gpt_set_state\<close> frees its buffer only at the label \<^verbatim>\<open>error\<close>.\<close>

definition gpt_set_state :: "(bytes \<Rightarrow> 32 word) \<Rightarrow> int \<Rightarrow> gpt_instance \<Rightarrow> gpt_state \<Rightarrow> os \<Rightarrow> (int \<times> os) option" where
  "gpt_set_state crc32 fd gpt state s = do {
     (rd, s) \<leftarrow> read_header fd gpt s;
     (case rd of None \<Rightarrow> Some (-1, s)
      | Some (blk_size, gpt_header_offset, h) \<Rightarrow> do {
          mk \<leftarrow> mark_header state h;
          (case mk of None \<Rightarrow> Some (-1, sys_free s)
           | Some h \<Rightarrow> do {
               gpt_header_size \<leftarrow> GET_4_BYTES h HEADER_SIZE_OFFSET;
               h \<leftarrow> seal_header crc32 gpt_header_size h;
               (r, h, s) \<leftarrow> blk_rw fd True gpt_header_offset h (unat blk_size) s;
               if r \<noteq> 0 then Some (-1, sys_free s) else Some (0, s)
             })
        })
   }"

section \<open>The boot LUN\<close>

definition get_scsi_node_from_bootdevice ::
  "string option \<Rightarrow> string option \<Rightarrow> nat \<Rightarrow> os \<Rightarrow> (int \<times> string option) option" where
  "get_scsi_node_from_bootdevice bootdev_path sg_node_path bufsize s =
     (case (bootdev_path, sg_node_path) of
        (Some bootdev_path, Some old) \<Rightarrow>
          (case link s bootdev_path of None \<Rightarrow> Some (-1, Some old)
           | Some target \<Rightarrow>
               let real_path = take (PATH_MAX - 1) target in
               if length real_path < PATH_TRUNCATE_LOC + 1 then Some (-1, Some old)
               else let real_path = take PATH_TRUNCATE_LOC real_path in
               if length real_path < LUN_NAME_START_LOC + 1 then Some (-1, Some old)
               else (case dirs s (''/sys/block/'' @ drop LUN_NAME_START_LOC real_path @ ''/device/scsi_generic'') of
                       None \<Rightarrow> Some (-1, Some old)
                     | Some des \<Rightarrow>
                         (case filter (\<lambda>d. take 1 d \<noteq> ''.'' \<and> take 2 d = ''sg'') des of
                            [] \<Rightarrow> Some (-1, Some old)
                          | d_name # _ \<Rightarrow>
                              if bufsize < 2 then None else Some (0, Some (take (bufsize - 2) (''/dev/'' @ d_name))))))
      | _ \<Rightarrow> Some (-1, sg_node_path))"

definition set_boot_lun :: "string \<Rightarrow> byte \<Rightarrow> os \<Rightarrow> int \<times> os" where
  "set_boot_lun sg_dev boot_lun_id s =
     (let (data, s) = sys_malloc UFS_ATTR_DATA_SIZE s in
      case data of None \<Rightarrow> (-1, s)
      | Some _ \<Rightarrow>
          let data = \<lparr>opcode = UPIU_QUERY_OPCODE_WRITE_ATTR, idn = QUERY_ATTR_IDN_BOOT_LU_EN,
                      buf_size = UFS_ATTR_DATA_SIZE, buffer = (replicate UFS_ATTR_DATA_SIZE 0)[0 := boot_lun_id]\<rparr>;
              (fd, s) = sys_open sg_dev s in
          if fd < 0 then (-1, sys_free s)
          else let (bad, s) = sys_call s in
               if bad then (-1, sys_free (sys_close fd s))
               else (0, sys_free (sys_close fd (s\<lparr>queries := queries s @ [(sg_dev, data)]\<rparr>))))"

definition xbl_boot_dev :: "boot_chain \<Rightarrow> os \<Rightarrow> (byte \<times> string) option" where
  "xbl_boot_dev chain s =
     (case chain of
        BACKUP_BOOT \<Rightarrow> if stat_ok s XBL_BACKUP then Some (2, XBL_BACKUP)
                       else if stat_ok s XBL_AB_SECONDARY then Some (2, XBL_AB_SECONDARY) else None
      | NORMAL_BOOT \<Rightarrow> if stat_ok s XBL_PRIMARY then Some (1, XBL_PRIMARY)
                       else if stat_ok s XBL_AB_PRIMARY then Some (1, XBL_AB_PRIMARY) else None)"

definition gpt_utils_set_xbl_boot_partition :: "boot_chain \<Rightarrow> os \<Rightarrow> (int \<times> os) option" where
  "gpt_utils_set_xbl_boot_partition chain s =
     (case xbl_boot_dev chain s of None \<Rightarrow> Some (-1, s)
      | Some (boot_lun_id, boot_dev) \<Rightarrow>
          if (\<not> stat_ok s XBL_PRIMARY \<or> \<not> stat_ok s XBL_BACKUP) \<and>
             (\<not> stat_ok s XBL_AB_PRIMARY \<or> \<not> stat_ok s XBL_AB_SECONDARY) then Some (-1, s)
          else do {
            (rc, sg_dev_node) \<leftarrow> get_scsi_node_from_bootdevice (Some boot_dev) (Some '''') PATH_MAX s;
            (case sg_dev_node of None \<Rightarrow> None
             | Some node \<Rightarrow>
                 if rc \<noteq> 0 then Some (-1, s)
                 else let (rc, s) = set_boot_lun node boot_lun_id s in
                      if rc \<noteq> 0 then Some (-1, s) else Some (0, s))
          })"

section \<open>The stages of an update\<close>

text \<open>The stage that the two headers are in.\<close>

definition internal_stage :: "gpt_state \<Rightarrow> gpt_state \<Rightarrow> boot_update_stage option" where
  "internal_stage gpt_prim gpt_second =
     (if gpt_prim = GPT_BAD_CRC \<or> gpt_second = GPT_BAD_CRC then None
      else if gpt_prim = GPT_BAD_SIGNATURE \<and> gpt_second = GPT_BAD_SIGNATURE then None
      else if gpt_prim = GPT_OK \<and> gpt_second = GPT_OK then Some UPDATE_MAIN
      else if gpt_prim = GPT_BAD_SIGNATURE then Some UPDATE_BACKUP
      else if gpt_second = GPT_BAD_SIGNATURE then Some UPDATE_FINALIZE
      else None)"

text \<open>The switch of the boot LUN that two of the stages begin with.\<close>

definition switch_xbl :: "bool \<Rightarrow> boot_chain \<Rightarrow> os \<Rightarrow> (int \<times> os) option" where
  "switch_xbl is_ufs chain s =
     (if is_ufs \<and> stat_ok s XBL_PRIMARY \<and> stat_ok s XBL_BACKUP then gpt_utils_set_xbl_boot_partition chain s
      else Some (0, s))"

definition stage_main :: "(bytes \<Rightarrow> 32 word) \<Rightarrow> bool \<Rightarrow> int \<Rightarrow> os \<Rightarrow> (int \<times> os) option" where
  "stage_main crc32 is_ufs fd s = do {
     (r, s) \<leftarrow> switch_xbl is_ufs BACKUP_BOOT s;
     if r \<noteq> 0 then Some (r, s)
     else do {
       (r, s) \<leftarrow> gpt2_set_boot_chain crc32 fd BACKUP_BOOT s;
       if r \<noteq> 0 then (if r < 0 then Some (r, s) else Some (0, s))
       else gpt_set_state crc32 fd PRIMARY_GPT GPT_BAD_SIGNATURE s
     }
   }"

definition stage_backup :: "(bytes \<Rightarrow> 32 word) \<Rightarrow> bool \<Rightarrow> int \<Rightarrow> os \<Rightarrow> (int \<times> os) option" where
  "stage_backup crc32 is_ufs fd s = do {
     (r, s) \<leftarrow> switch_xbl is_ufs NORMAL_BOOT s;
     if r \<noteq> 0 then Some (r, s)
     else do {
       (r, s) \<leftarrow> gpt_set_state crc32 fd PRIMARY_GPT GPT_OK s;
       if r \<noteq> 0 then Some (r, s)
       else gpt_set_state crc32 fd SECONDARY_GPT GPT_BAD_SIGNATURE s
     }
   }"

definition stage_finalize :: "(bytes \<Rightarrow> 32 word) \<Rightarrow> int \<Rightarrow> os \<Rightarrow> (int \<times> os) option" where
  "stage_finalize crc32 fd s = do {
     (r, s) \<leftarrow> gpt2_set_boot_chain crc32 fd NORMAL_BOOT s;
     if r < 0 then Some (r, s)
     else gpt_set_state crc32 fd SECONDARY_GPT GPT_OK s
   }"

definition run_stage :: "(bytes \<Rightarrow> 32 word) \<Rightarrow> boot_update_stage \<Rightarrow> bool \<Rightarrow> int \<Rightarrow> os \<Rightarrow> (int \<times> os) option" where
  "run_stage crc32 stage is_ufs fd s =
     (case stage of
        UPDATE_MAIN \<Rightarrow> stage_main crc32 is_ufs fd s
      | UPDATE_BACKUP \<Rightarrow> stage_backup crc32 is_ufs fd s
      | UPDATE_FINALIZE \<Rightarrow> stage_finalize crc32 fd s)"

text \<open>What happens between \<^verbatim>\<open>open\<close> and the label \<^verbatim>\<open>EXIT\<close>.\<close>

definition prepare_open :: "(bytes \<Rightarrow> 32 word) \<Rightarrow> boot_update_stage \<Rightarrow> bool \<Rightarrow> int \<Rightarrow> os \<Rightarrow> (int \<times> os) option" where
  "prepare_open crc32 stage is_ufs fd s = do {
     (r, gpt_prim, s) \<leftarrow> gpt_get_state crc32 fd PRIMARY_GPT s;
     if r \<noteq> 0 then Some (1, s)
     else do {
       (r, gpt_second, s) \<leftarrow> gpt_get_state crc32 fd SECONDARY_GPT s;
       if r \<noteq> 0 then Some (1, s)
       else (case internal_stage gpt_prim gpt_second of
               None \<Rightarrow> Some (-1, s)
             | Some internal \<Rightarrow>
                 if stage_int stage = stage_int internal - 1 then Some (0, s)
                 else if stage \<noteq> internal then Some (-1, s)
                 else run_stage crc32 stage is_ufs fd s)
     }
   }"

definition prepare_partitions ::
  "(bytes \<Rightarrow> 32 word) \<Rightarrow> boot_update_stage \<Rightarrow> string option \<Rightarrow> os \<Rightarrow> (int \<times> os) option" where
  "prepare_partitions crc32 stage dev_path s =
     (case dev_path of None \<Rightarrow> Some (-1, s)
      | Some dev_path \<Rightarrow>
          let (fd, s) = sys_open dev_path s in
          if fd < 0 then Some (-1, s)
          else do {
            (r, s) \<leftarrow> prepare_open crc32 stage (gpt_utils_is_ufs_device s) fd s;
            Some (r, sys_close fd (snd (sys_fsync fd s)))
          })"

end
