(* ===== verification/GptDisk.thy ===== *)
theory GptDisk
  imports GptUtils
begin

text \<open>
  The rest of \<^verbatim>\<open>src/gpt-utils/gpt-utils.cpp\<close>: the list of LUNs that an update on a UFS device goes through, the map
  from partitions to disks, and the handle \<^verbatim>\<open>struct gpt_disk\<close> with which a client reads a partition table, changes
  it and writes it back.  A pointer to a buffer of the handle is an option, \<^term>\<open>None\<close> the null pointer; every
  buffer of a handle is an allocation of its own.
\<close>

section \<open>The LUNs of an update\<close>

record update_data =
  lun_list :: "string list"
  num_valid_entries :: nat

definition zero_update_data :: update_data where
  "zero_update_data = \<lparr>lun_list = replicate MAX_LUNS '''', num_valid_entries = 0\<rparr>"

text \<open>The search is skipped altogether once there are \<^verbatim>\<open>MAX_LUNS - 1\<close> entries; a LUN that the name in the list is
  a prefix of counts as found.\<close>

definition lun_in_list :: "string \<Rightarrow> update_data \<Rightarrow> bool" where
  "lun_in_list lun_path dat \<longleftrightarrow>
     num_valid_entries dat < MAX_LUNS - 1 \<and>
     (\<exists>l \<in> set (take (num_valid_entries dat) (lun_list dat)). take (length l) lun_path = l)"

definition add_lun_to_update_list :: "string option \<Rightarrow> update_data \<Rightarrow> os \<Rightarrow> (int \<times> update_data) option" where
  "add_lun_to_update_list lun_path dat s =
     (case lun_path of None \<Rightarrow> Some (-1, dat)
      | Some lun_path \<Rightarrow>
          if \<not> stat_ok s lun_path then Some (-1, dat)
          else if num_valid_entries dat = 0 then
            Some (0, dat\<lparr>lun_list := (lun_list dat)[0 := take (PATH_MAX - 1) lun_path], num_valid_entries := 1\<rparr>)
          else if lun_in_list lun_path dat then Some (0, dat)
          else if length (lun_list dat) \<le> num_valid_entries dat then None
          else Some (0, dat\<lparr>lun_list := (lun_list dat)[num_valid_entries dat := take (PATH_MAX - 1) lun_path],
                            num_valid_entries := num_valid_entries dat + 1\<rparr>))"

text \<open>One partition name of the loop that collects the LUNs.\<close>

definition collect_lun :: "string \<Rightarrow> update_data \<Rightarrow> os \<Rightarrow> update_data option" where
  "collect_lun nm dat s =
     (if is_xbl nm then Some dat
      else let buf = take (PATH_MAX - 1) (BOOT_DEV_DIR @ ''/'' @ nm @ ''bak'') in
      if \<not> stat_ok s buf then Some dat
      else case link s buf of None \<Rightarrow> Some dat
           | Some target \<Rightarrow>
               let real_path = take (PATH_MAX - 1) target in
               if length real_path < PATH_TRUNCATE_LOC + 1 then Some dat
               else map_option snd (add_lun_to_update_list (Some (take PATH_TRUNCATE_LOC real_path)) dat s))"

fun collect_luns :: "string list \<Rightarrow> update_data \<Rightarrow> os \<Rightarrow> update_data option" where
  "collect_luns [] dat s = Some dat"
| "collect_luns (nm # nms) dat s = do { dat \<leftarrow> collect_lun nm dat s; collect_luns nms dat s }"

text \<open>The loop over the LUNs goes on after a failure and remembers it.\<close>

fun prepare_luns :: "(bytes \<Rightarrow> 32 word) \<Rightarrow> boot_update_stage \<Rightarrow> string list \<Rightarrow> bool \<Rightarrow> os \<Rightarrow> (bool \<times> os) option" where
  "prepare_luns crc32 stage [] is_error s = Some (is_error, s)"
| "prepare_luns crc32 stage (lun # luns) is_error s = do {
     (rcode, s) \<leftarrow> prepare_partitions crc32 stage (Some lun) s;
     prepare_luns crc32 stage luns (is_error \<or> rcode \<noteq> 0) s
   }"

definition prepare_boot_update :: "(bytes \<Rightarrow> 32 word) \<Rightarrow> boot_update_stage \<Rightarrow> os \<Rightarrow> (int \<times> os) option" where
  "prepare_boot_update crc32 stage s =
     (if \<not> gpt_utils_is_ufs_device s then prepare_partitions crc32 stage (Some BLK_DEV_FILE) s
      else do {
        dat \<leftarrow> collect_luns PTN_SWAP_LIST zero_update_data s;
        (is_error, s) \<leftarrow> prepare_luns crc32 stage (take (num_valid_entries dat) (lun_list dat)) False s;
        Some (if is_error then -1 else 0, s)
      })"

section \<open>Partitions and disks\<close>

text \<open>A character array as the string it holds.\<close>

definition cstr :: "string \<Rightarrow> string" where
  "cstr = takeWhile (\<lambda>c. c \<noteq> CHR 0x00)"

definition char_array :: string where
  "char_array = replicate PATH_MAX (CHR 0x00)"

text \<open>\<^verbatim>\<open>snprintf\<close> into an array of its own size: the text that fits and the NUL.\<close>

definition snprintf :: "string \<Rightarrow> string \<Rightarrow> string" where
  "snprintf buf txt = overwrite 0 (take (length buf - 1) txt @ [CHR 0x00]) buf"

definition get_dev_path_from_partition_name :: "string option \<Rightarrow> string option \<Rightarrow> os \<Rightarrow> int \<times> string option" where
  "get_dev_path_from_partition_name partname buf s =
     (case (partname, buf) of
        (Some partname, Some buf) \<Rightarrow>
          if length buf < PATH_TRUNCATE_LOC + 1 then (-1, Some buf)
          else if gpt_utils_is_ufs_device s then
            (let path = take (PATH_MAX - 1) (BOOT_DEV_DIR @ ''/'' @ partname) in
             if \<not> stat_ok s path then (-1, Some buf)
             else case link s path of None \<Rightarrow> (-1, Some buf)
                  | Some target \<Rightarrow>
                      (0, Some ((overwrite 0 (take (length buf) target) buf)[PATH_TRUNCATE_LOC := CHR 0x00])))
          else (0, Some (snprintf buf BLK_DEV_FILE))
      | _ \<Rightarrow> (-1, buf))"

fun partition_map_loop :: "string list \<Rightarrow> (string \<rightharpoonup> string list) \<Rightarrow> string \<Rightarrow> os \<Rightarrow> (string \<rightharpoonup> string list) option" where
  "partition_map_loop [] pm devpath s = Some pm"
| "partition_map_loop (ptn # ptns) pm devpath s =
     (case get_dev_path_from_partition_name (Some ptn) (Some devpath) s of
        (rc, Some devpath) \<Rightarrow>
          if rc \<noteq> 0 then partition_map_loop ptns pm devpath s
          else let path = cstr devpath;
                   pm = (case pm path of Some v \<Rightarrow> pm(path \<mapsto> v @ [ptn]) | None \<Rightarrow> pm(path \<mapsto> [ptn])) in
               partition_map_loop ptns pm char_array s
      | (rc, None) \<Rightarrow> None)"

definition gpt_utils_get_partition_map ::
  "string list \<Rightarrow> (string \<rightharpoonup> string list) \<Rightarrow> os \<Rightarrow> (int \<times> (string \<rightharpoonup> string list)) option" where
  "gpt_utils_get_partition_map ptn_list partition_map s =
     (if length ptn_list < 1 then Some (-1, partition_map)
      else do { pm \<leftarrow> partition_map_loop ptn_list partition_map char_array s; Some (0, pm) })"

section \<open>Reading and writing the parts of a table\<close>

definition gpt_get_block_size :: "int \<Rightarrow> os \<Rightarrow> 32 word \<times> os" where
  "gpt_get_block_size fd s =
     (if fd < 0 then (0, s)
      else let (rc, block_size, s) = ioctl_BLKSSZGET fd s in if rc \<noteq> 0 then (0, s) else (block_size, s))"

definition gpt_set_header :: "bytes option \<Rightarrow> int \<Rightarrow> gpt_instance \<Rightarrow> os \<Rightarrow> (int \<times> os) option" where
  "gpt_set_header gpt_header fd inst s =
     (case gpt_header of None \<Rightarrow> Some (-1, s)
      | Some h \<Rightarrow>
          if fd < 0 then Some (-1, s)
          else let (block_size, s) = gpt_get_block_size fd s in
          if block_size = 0 then Some (-1, s)
          else let (off, s) =
                 (case inst of PRIMARY_GPT \<Rightarrow> (uint block_size, s)
                  | SECONDARY_GPT \<Rightarrow> (let (fin, s) = lseek64_end fd s in (fin - uint block_size, s))) in
          if off \<le> 0 then Some (-1, s)
          else do {
            (r, h, s) \<leftarrow> blk_rw fd True off h (unat block_size) s;
            Some (if r \<noteq> 0 then -1 else 0, s)
          })"

text \<open>\<^verbatim>\<open>gpt_get_header\<close> goes on after a failed \<^verbatim>\<open>malloc\<close>; the read into the null pointer is then refused, so
  that the result is the null pointer as well.\<close>

definition gpt_get_header :: "string option \<Rightarrow> gpt_instance \<Rightarrow> os \<Rightarrow> (bytes option \<times> os) option" where
  "gpt_get_header partname inst s =
     (case partname of None \<Rightarrow> Some (None, s)
      | Some partname \<Rightarrow>
          (case get_dev_path_from_partition_name (Some partname) (Some char_array) s of
             (rc, None) \<Rightarrow> None
           | (rc, Some devpath) \<Rightarrow>
             if rc \<noteq> 0 then Some (None, s)
             else let (fd, s) = sys_open (cstr devpath) s in
             if fd < 0 then Some (None, s)
             else let (block_size, s) = gpt_get_block_size fd s in
             if block_size = 0 then Some (None, sys_close fd s)
             else let (hdr, s) = sys_malloc (unat block_size) s;
                      (off, s) = (case inst of PRIMARY_GPT \<Rightarrow> (uint block_size, s)
                                  | SECONDARY_GPT \<Rightarrow> (let (fin, s) = lseek64_end fd s in (fin - uint block_size, s))) in
             (case hdr of
                None \<Rightarrow> if off < 0 then Some (None, sys_close fd s)
                        else let (pos, s) = lseek64_set fd off s in
                             if pos < 0 then Some (None, sys_close fd s)
                             else let (bad, s) = sys_call s in Some (None, sys_close fd s)
              | Some hdr \<Rightarrow>
                  if off < 0 then Some (None, sys_free (sys_close fd s))
                  else do {
                    (r, hdr, s) \<leftarrow> blk_rw fd False off hdr (unat block_size) s;
                    if r \<noteq> 0 then Some (None, sys_free (sys_close fd s)) else Some (Some hdr, sys_close fd s)
                  })))"

definition gpt_get_pentry_arr :: "bytes option \<Rightarrow> int \<Rightarrow> os \<Rightarrow> (bytes option \<times> os) option" where
  "gpt_get_pentry_arr hdr fd s =
     (case hdr of None \<Rightarrow> Some (None, s)
      | Some hdr \<Rightarrow>
          if fd < 0 then Some (None, s)
          else let (block_size, s) = gpt_get_block_size fd s in
          if block_size = 0 then Some (None, s)
          else do {
            pentries_start \<leftarrow> pentries_start_of block_size hdr;
            (pentry_size, pentries_arr_size) \<leftarrow> pentries_size_of hdr;
            (let (arr, s) = sys_calloc (unat pentries_arr_size) s in
             case arr of None \<Rightarrow> Some (None, s)
             | Some arr \<Rightarrow> do {
                 (rc, arr, s) \<leftarrow> blk_rw fd False (sint pentries_start) arr (unat pentries_arr_size) s;
                 if rc \<noteq> 0 then Some (None, sys_free s) else Some (Some arr, s)
               })
          })"

definition gpt_set_pentry_arr :: "bytes option \<Rightarrow> int \<Rightarrow> bytes option \<Rightarrow> os \<Rightarrow> (int \<times> os) option" where
  "gpt_set_pentry_arr hdr fd arr s =
     (case (hdr, arr) of
        (Some hdr, Some arr) \<Rightarrow>
          if fd < 0 then Some (-1, s)
          else let (block_size, s) = gpt_get_block_size fd s in
          if block_size = 0 then Some (-1, s)
          else do {
            pentries_start \<leftarrow> pentries_start_of block_size hdr;
            (pentry_size, pentries_arr_size) \<leftarrow> pentries_size_of hdr;
            (rc, arr, s) \<leftarrow> blk_rw fd True (sint pentries_start) arr (unat pentries_arr_size) s;
            Some (if rc \<noteq> 0 then -1 else 0, s)
          }
      | _ \<Rightarrow> Some (-1, s))"

section \<open>The handle of a disk\<close>

record gpt_disk =
  hdr :: "bytes option"
  hdr_crc :: "32 word"
  hdr_bak :: "bytes option"
  hdr_bak_crc :: "32 word"
  pentry_arr :: "bytes option"
  pentry_arr_bak :: "bytes option"
  pentry_arr_size :: "32 word"
  pentry_size :: "32 word"
  pentry_arr_crc :: "32 word"
  pentry_arr_bak_crc :: "32 word"
  devpath :: string
  block_size :: "32 word"
  is_initialized :: "32 word"

abbreviation GPT_DISK_INIT_MAGIC :: "32 word" where
  "GPT_DISK_INIT_MAGIC \<equiv> 0xABCD"

definition zero_disk :: gpt_disk where
  "zero_disk = \<lparr>hdr = None, hdr_crc = 0, hdr_bak = None, hdr_bak_crc = 0, pentry_arr = None, pentry_arr_bak = None,
     pentry_arr_size = 0, pentry_size = 0, pentry_arr_crc = 0, pentry_arr_bak_crc = 0, devpath = char_array,
     block_size = 0, is_initialized = 0\<rparr>"

definition gpt_disk_alloc :: "os \<Rightarrow> gpt_disk option \<times> os" where
  "gpt_disk_alloc s =
     (let (bad, s) = sys_call s in if bad then (None, s) else (Some zero_disk, s\<lparr>live := live s + 1\<rparr>))"

definition free_if :: "bytes option \<Rightarrow> os \<Rightarrow> os" where
  "free_if b s = (case b of None \<Rightarrow> s | Some _ \<Rightarrow> sys_free s)"

definition gpt_disk_free :: "gpt_disk option \<Rightarrow> os \<Rightarrow> os" where
  "gpt_disk_free dsk s =
     (case dsk of None \<Rightarrow> s
      | Some d \<Rightarrow>
          sys_free (free_if (pentry_arr_bak d) (free_if (pentry_arr d) (free_if (hdr_bak d) (free_if (hdr d) s)))))"

text \<open>The second half of \<^verbatim>\<open>gpt_disk_get_disk_info\<close>, with the descriptor open: the two arrays and the fields that
  come from the headers.\<close>

definition disk_info_open :: "gpt_disk \<Rightarrow> bytes \<Rightarrow> bytes \<Rightarrow> int \<Rightarrow> os \<Rightarrow> (int \<times> gpt_disk \<times> os) option" where
  "disk_info_open dsk h hb fd s = do {
     (arr, s) \<leftarrow> gpt_get_pentry_arr (Some h) fd s;
     (case arr of None \<Rightarrow> Some (-1, dsk\<lparr>pentry_arr := None\<rparr>, sys_close fd s)
      | Some a \<Rightarrow> do {
          (arrb, s) \<leftarrow> gpt_get_pentry_arr (Some hb) fd s;
          let dsk = dsk\<lparr>pentry_arr := Some a, pentry_arr_bak := arrb\<rparr>;
          (case arrb of None \<Rightarrow> Some (-1, dsk, sys_close fd s)
           | Some ab \<Rightarrow> do {
               (psize, asize) \<leftarrow> pentries_size_of h;
               crc \<leftarrow> GET_4_BYTES h PARTITION_CRC_OFFSET;
               crcb \<leftarrow> GET_4_BYTES hb PARTITION_CRC_OFFSET;
               (let (bs, s) = gpt_get_block_size fd s in
                Some (0, dsk\<lparr>pentry_size := psize, pentry_arr_size := asize, pentry_arr_crc := crc,
                             pentry_arr_bak_crc := crcb, block_size := bs, is_initialized := GPT_DISK_INIT_MAGIC\<rparr>,
                      sys_close fd s))
             })
        })
   }"

text \<open>Both headers are read from the primary table.\<close>

definition gpt_disk_get_disk_info ::
  "(bytes \<Rightarrow> 32 word) \<Rightarrow> string option \<Rightarrow> gpt_disk option \<Rightarrow> os \<Rightarrow> (int \<times> gpt_disk option \<times> os) option" where
  "gpt_disk_get_disk_info crc32 dev dsk s =
     (case (dev, dsk) of
        (Some dev, Some dsk) \<Rightarrow> do {
          (h, s) \<leftarrow> gpt_get_header (Some dev) PRIMARY_GPT s;
          (case h of None \<Rightarrow> Some (-1, Some (dsk\<lparr>hdr := None\<rparr>), s)
           | Some h \<Rightarrow> do {
               gpt_header_size \<leftarrow> GET_4_BYTES h HEADER_SIZE_OFFSET;
               c \<leftarrow> crc_of crc32 h gpt_header_size;
               (hb, s) \<leftarrow> gpt_get_header (Some dev) PRIMARY_GPT s;
               let dsk = dsk\<lparr>hdr := Some h, hdr_crc := c, hdr_bak := hb\<rparr>;
               (case hb of None \<Rightarrow> Some (-1, Some dsk, s)
                | Some hb \<Rightarrow> do {
                    cb \<leftarrow> crc_of crc32 hb gpt_header_size;
                    let dsk = dsk\<lparr>hdr_bak_crc := cb\<rparr>;
                    (case get_dev_path_from_partition_name (Some dev) (Some (devpath dsk)) s of
                       (rc, None) \<Rightarrow> None
                     | (rc, Some path) \<Rightarrow>
                         let dsk = dsk\<lparr>devpath := path\<rparr> in
                         if rc \<noteq> 0 then Some (-1, Some dsk, s)
                         else let (fd, s) = sys_open (cstr path) s in
                         if fd < 0 then Some (-1, Some dsk, s)
                         else do { (r, dsk, s) \<leftarrow> disk_info_open dsk h hb fd s; Some (r, Some dsk, s) })
                  })
             })
        }
      | _ \<Rightarrow> Some (-1, dsk, s))"

text \<open>The result is an offset into the array of the chosen table; an array that is not there is an access to
  nothing.\<close>

definition gpt_disk_get_pentry :: "gpt_disk option \<Rightarrow> string option \<Rightarrow> gpt_instance \<Rightarrow> nat option option" where
  "gpt_disk_get_pentry dsk partname inst =
     (case (dsk, partname) of
        (Some d, Some partname) \<Rightarrow>
          if is_initialized d \<noteq> GPT_DISK_INIT_MAGIC then Some None
          else (case (case inst of PRIMARY_GPT \<Rightarrow> pentry_arr d | SECONDARY_GPT \<Rightarrow> pentry_arr_bak d) of
                  None \<Rightarrow> None
                | Some arr \<Rightarrow> gpt_pentry_seek partname arr 0 (unat (pentry_arr_size d)) (pentry_size d))
      | _ \<Rightarrow> Some None)"

definition gpt_disk_update_crc :: "(bytes \<Rightarrow> 32 word) \<Rightarrow> gpt_disk option \<Rightarrow> (int \<times> gpt_disk option) option" where
  "gpt_disk_update_crc crc32 dsk =
     (case dsk of None \<Rightarrow> Some (-1, None)
      | Some d \<Rightarrow>
          if is_initialized d \<noteq> GPT_DISK_INIT_MAGIC then Some (-1, Some d)
          else do {
            a \<leftarrow> pentry_arr d;
            ac \<leftarrow> crc_of crc32 a (pentry_arr_size d);
            ab \<leftarrow> pentry_arr_bak d;
            abc \<leftarrow> crc_of crc32 ab (pentry_arr_size d);
            h \<leftarrow> hdr d;
            h \<leftarrow> PUT_4_BYTES h PARTITION_CRC_OFFSET ac;
            hb \<leftarrow> hdr_bak d;
            hb \<leftarrow> PUT_4_BYTES hb PARTITION_CRC_OFFSET abc;
            gpt_header_size \<leftarrow> GET_4_BYTES h HEADER_SIZE_OFFSET;
            h \<leftarrow> PUT_4_BYTES h HEADER_CRC_OFFSET 0;
            hb \<leftarrow> PUT_4_BYTES hb HEADER_CRC_OFFSET 0;
            hc \<leftarrow> crc_of crc32 h gpt_header_size;
            hbc \<leftarrow> crc_of crc32 hb gpt_header_size;
            h \<leftarrow> PUT_4_BYTES h HEADER_CRC_OFFSET hc;
            hb \<leftarrow> PUT_4_BYTES hb HEADER_CRC_OFFSET hbc;
            Some (0, Some (d\<lparr>pentry_arr_crc := ac, pentry_arr_bak_crc := abc, hdr := Some h, hdr_bak := Some hb,
                             hdr_crc := hc, hdr_bak_crc := hbc\<rparr>))
          })"

definition gpt_disk_commit :: "gpt_disk option \<Rightarrow> os \<Rightarrow> (int \<times> os) option" where
  "gpt_disk_commit dsk s =
     (case dsk of None \<Rightarrow> Some (-1, s)
      | Some d \<Rightarrow>
          if is_initialized d \<noteq> GPT_DISK_INIT_MAGIC then Some (-1, s)
          else let (fd, s) = sys_open (cstr (devpath d)) s in
          if fd < 0 then Some (-1, s)
          else do {
            (r, s) \<leftarrow> gpt_set_header (hdr d) fd PRIMARY_GPT s;
            if r \<noteq> 0 then Some (-1, sys_close fd s)
            else do {
              (r, s) \<leftarrow> gpt_set_pentry_arr (hdr d) fd (pentry_arr d) s;
              if r \<noteq> 0 then Some (-1, sys_close fd s) else Some (0, sys_close fd s)
            }
          })"

end
