(* ===== verification/GptInv.thy ===== *)
theory GptInv
  imports GptDisk
begin

text \<open>
  Lemmas about the partition table utilities: reading back what \<^verbatim>\<open>PUT_4_BYTES\<close> wrote, headers that
  are marked and sealed, and what each operation does to the device: \<open>wrote\<close> lists the contents the device goes through.
\<close>

section \<open>Bytes\<close>

lemma ff_mask: "(0xff :: 32 word) = mask 8"
  by (simp add: mask_eq_exp_minus_1)

lemma byte_bits: "(ucast (ucast (w AND 0xff :: 32 word) :: byte) :: 32 word) = w AND 0xff"
  unfolding ff_mask by (rule bit_eqI) (auto simp: bit_simps)

lemma bytes_join:
  "(y AND 0xff) OR push_bit 8 (drop_bit 8 y AND 0xff) OR push_bit 16 (drop_bit 16 y AND 0xff) OR
   push_bit 24 (drop_bit 24 y AND 0xff) = (y :: 32 word)"
proof (unfold ff_mask, rule bit_eqI)
  fix n assume "possible_bit TYPE(32 word) n"
  then have n: "n < 32" by simp
  consider "n < 8" | "8 \<le> n" "n < 16" | "16 \<le> n" "n < 24" | "24 \<le> n" by linarith
  then show "bit ((y AND mask 8) OR push_bit 8 (drop_bit 8 y AND mask 8) OR push_bit 16 (drop_bit 16 y AND mask 8) OR
      push_bit 24 (drop_bit 24 y AND mask 8)) n = bit y n"
    using n by cases (simp_all add: bit_or_iff bit_and_iff bit_push_bit_iff bit_drop_bit_eq bit_mask_iff less_diff_conv2 del: push_bit_and)
qed

definition bytes4 :: "32 word \<Rightarrow> bytes" where
  "bytes4 y = [ucast (y AND 0xff), ucast (drop_bit 8 y AND 0xff), ucast (drop_bit 16 y AND 0xff),
               ucast (drop_bit 24 y AND 0xff)]"

lemma length_bytes4 [simp]: "length (bytes4 y) = 4"
  by (simp add: bytes4_def)

lemma nth_bytes4:
  "bytes4 y ! 0 = ucast (y AND 0xff)" "bytes4 y ! Suc 0 = ucast (drop_bit 8 y AND 0xff)"
  "bytes4 y ! 2 = ucast (drop_bit 16 y AND 0xff)" "bytes4 y ! 3 = ucast (drop_bit 24 y AND 0xff)"
  by (simp_all add: bytes4_def numeral_2_eq_2 numeral_3_eq_3)

lemma updates_overwrite:
  "i + 4 \<le> length b \<Longrightarrow> b[i := x0, i + 1 := x1, i + 2 := x2, i + 3 := x3] = overwrite i [x0, x1, x2, x3] b"
  by (rule nth_equalityI) (auto simp: nth_overwrite nth_list_update nth_Cons split: nat.splits)

lemma PUT_4_overwrite:
  "PUT_4_BYTES b i y = (if i + 4 \<le> length b then Some (overwrite i (bytes4 y) b) else None)"
  by (simp add: PUT_4_BYTES_def bytes4_def updates_overwrite [simplified])

lemma PUT_4_length: "PUT_4_BYTES b i y = Some b' \<Longrightarrow> length b' = length b"
  by (auto simp: PUT_4_overwrite split: if_splits)

lemma GET_PUT_4: "PUT_4_BYTES b i y = Some b' \<Longrightarrow> GET_4_BYTES b' i = Some y"
  using bytes_join [of y] by (auto simp: PUT_4_overwrite GET_4_BYTES_def nth_overwrite nth_bytes4 byte_bits split: if_splits)

lemma GET_4_overwrite:
  "i + length xs \<le> length b \<Longrightarrow> j + 4 \<le> i \<or> i + length xs \<le> j \<Longrightarrow>
   GET_4_BYTES (overwrite i xs b) j = GET_4_BYTES b j"
  by (auto simp: GET_4_BYTES_def nth_overwrite)

lemma GET_8_overwrite:
  "i + length xs \<le> length b \<Longrightarrow> j + 8 \<le> i \<or> i + length xs \<le> j \<Longrightarrow>
   GET_8_BYTES (overwrite i xs b) j = GET_8_BYTES b j"
  by (auto simp: GET_8_BYTES_def nth_overwrite)

lemma take_overwrite: "i + length xs \<le> length b \<Longrightarrow> n \<le> i \<Longrightarrow> take n (overwrite i xs b) = take n b"
  by (simp add: overwrite_def)

lemma PUT_PUT_4: "PUT_4_BYTES b i y = Some b' \<Longrightarrow> PUT_4_BYTES b' i z = PUT_4_BYTES b i z"
  by (auto simp: PUT_4_overwrite split: if_splits)

lemma update0_overwrite: "0 < length h \<Longrightarrow> h[0 := x] = overwrite 0 [x] h"
  by (cases h) (simp_all add: overwrite_def)

section \<open>Headers\<close>

text \<open>The fields of a header that say where things are: its size, the start of the entries and the size of their
  array.\<close>

definition geometry :: "32 word \<Rightarrow> bytes \<Rightarrow> 32 word option \<times> 64 word option \<times> (32 word \<times> 32 word) option" where
  "geometry bs h = (GET_4_BYTES h HEADER_SIZE_OFFSET, pentries_start_of bs h, pentries_size_of h)"

lemma geometry_overwrite:
  "i + length xs \<le> length h \<Longrightarrow> i + length xs \<le> 12 \<or> 16 \<le> i \<and> i + length xs \<le> 72 \<or> 88 \<le> i \<Longrightarrow>
   geometry bs (overwrite i xs h) = geometry bs h"
  by (auto simp: geometry_def pentries_start_of_def pentries_size_of_def GET_4_overwrite GET_8_overwrite)

lemma geometry_PUT:
  "PUT_4_BYTES h i y = Some h' \<Longrightarrow> i \<in> {HEADER_CRC_OFFSET, PARTITION_CRC_OFFSET} \<Longrightarrow> geometry bs h' = geometry bs h"
  by (auto simp: PUT_4_overwrite geometry_overwrite split: if_splits)

lemma length_SIG [simp]: "length GPT_SIGNATURE = 9"
  by (simp add: GPT_SIGNATURE_def)

lemma mark_header_overwrite:
  "mark_header st h = Some (Some h') \<Longrightarrow>
   \<exists>xs. length xs \<le> 9 \<and> length xs \<le> length h \<and> h' = overwrite 0 xs h \<and> (st = GPT_OK \<longrightarrow> xs = GPT_SIGNATURE)"
  by (auto simp: mark_header_def update0_overwrite Suc_le_eq intro: exI [of _ "[0]"] exI [of _ GPT_SIGNATURE]
      split: gpt_state.splits if_splits)

lemma mark_header_geometry: "mark_header st h = Some (Some h') \<Longrightarrow> geometry bs h' = geometry bs h"
  by (auto dest!: mark_header_overwrite simp: geometry_overwrite)

lemma mark_header_length: "mark_header st h = Some (Some h') \<Longrightarrow> length h' = length h"
  by (auto dest!: mark_header_overwrite)

lemma mark_header_GET:
  "mark_header st h = Some (Some h') \<Longrightarrow> 9 \<le> i \<Longrightarrow> GET_4_BYTES h' i = GET_4_BYTES h i"
  by (auto dest!: mark_header_overwrite simp: GET_4_overwrite)

text \<open>A sealed header differs from the one that was sealed in its checksum only, and the checksum is right.\<close>

lemma seal_header_overwrite:
  "seal_header crc32 n h = Some h' \<Longrightarrow> \<exists>c. h' = overwrite HEADER_CRC_OFFSET (bytes4 c) h \<and> 20 \<le> length h"
  by (auto simp: seal_header_def PUT_4_overwrite bind_eq_Some_conv split: if_splits)

lemma seal_header_length: "seal_header crc32 n h = Some h' \<Longrightarrow> length h' = length h"
  by (auto dest!: seal_header_overwrite)

lemma seal_header_geometry: "seal_header crc32 n h = Some h' \<Longrightarrow> geometry bs h' = geometry bs h"
  by (auto dest!: seal_header_overwrite simp: geometry_overwrite)

lemma seal_header_GET:
  "seal_header crc32 n h = Some h' \<Longrightarrow> 20 \<le> i \<Longrightarrow> GET_4_BYTES h' i = GET_4_BYTES h i"
  by (auto dest!: seal_header_overwrite simp: GET_4_overwrite)

lemma seal_header_take:
  "seal_header crc32 n h = Some h' \<Longrightarrow> k \<le> 16 \<Longrightarrow> take k h' = take k h"
  by (auto dest!: seal_header_overwrite simp: take_overwrite)

lemma seal_header_state:
  assumes "seal_header crc32 n h = Some h'" "GET_4_BYTES h HEADER_SIZE_OFFSET = Some n"
  shows "header_state crc32 h' = Some (if take 9 h = GPT_SIGNATURE then GPT_OK else GPT_BAD_SIGNATURE)"
proof -
  from assms(1) obtain z c where z: "PUT_4_BYTES h HEADER_CRC_OFFSET 0 = Some z" and c: "crc_of crc32 z n = Some c"
    and p: "PUT_4_BYTES z HEADER_CRC_OFFSET c = Some h'"
    by (auto simp: seal_header_def bind_eq_Some_conv)
  have "PUT_4_BYTES h' HEADER_CRC_OFFSET 0 = Some z"
    using z PUT_PUT_4 [OF p] PUT_PUT_4 [OF z] by simp
  moreover have "GET_4_BYTES h' HEADER_CRC_OFFSET = Some c"
    by (rule GET_PUT_4 [OF p])
  moreover have "GET_4_BYTES h' HEADER_SIZE_OFFSET = Some n"
    using assms by (auto dest!: seal_header_overwrite simp: GET_4_overwrite)
  moreover have "9 \<le> length h'" "take 9 h' = take 9 h"
    using assms(1) seal_header_take [OF assms(1), of 9] by (auto dest!: seal_header_overwrite)
  ultimately show ?thesis
    using c by (simp add: header_state_def)
qed

lemma seal_header_Some:
  "20 \<le> length h \<Longrightarrow> unat n \<le> length h \<Longrightarrow> \<exists>h'. seal_header crc32 n h = Some h'"
  by (simp add: seal_header_def PUT_4_overwrite crc_of_def)

section \<open>What the device goes through\<close>

text \<open>\<open>wrote p d ds s s'\<close>: between \<open>s\<close> and \<open>s'\<close> the device \<open>p\<close>, which held \<open>d\<close>, held the contents \<open>ds\<close> one after the
  other, and nothing else was written; the descriptors that were open stay as they are.\<close>

definition wrote :: "string \<Rightarrow> bytes \<Rightarrow> bytes list \<Rightarrow> os \<Rightarrow> os \<Rightarrow> bool" where
  "wrote p d ds s s' \<longleftrightarrow>
     devs s' = (devs s)(p \<mapsto> last (d # ds)) \<and> wlog s' = wlog s @ map (Pair p) ds \<and> blksz s' = blksz s \<and>
     bootdevice s' = bootdevice s \<and> stat_ok s' = stat_ok s \<and> link s' = link s \<and> dirs s' = dirs s \<and>
     fails s' = fails s \<and> short s' = short s \<and> calls s \<le> calls s' \<and> next_fd s \<le> next_fd s' \<and>
     (\<forall>fd < next_fd s. fds s' fd = fds s fd)"

lemma wrote_trans:
  "wrote p d ds s s' \<Longrightarrow> wrote p (last (d # ds)) es s' s'' \<Longrightarrow> wrote p d (ds @ es) s s''"
  by (auto simp: wrote_def)

lemma wrote_trans_Nil: "wrote p d [] s s' \<Longrightarrow> wrote p d ds s' s'' \<Longrightarrow> wrote p d ds s s''"
  using wrote_trans [of p d "[]" s s' ds s''] by simp

lemma wrote_trans_Nil2: "wrote p d ds s s' \<Longrightarrow> wrote p (last (d # ds)) [] s' s'' \<Longrightarrow> wrote p d ds s s''"
  using wrote_trans [of p d ds s s' "[]" s''] by simp

text \<open>A descriptor that is open on the device, where no transfer stops early.\<close>

definition open_on :: "int \<Rightarrow> string \<Rightarrow> bytes \<Rightarrow> os \<Rightarrow> bool" where
  "open_on fd p d s \<longleftrightarrow> fds s fd = Some p \<and> devs s p = Some d \<and> fd < next_fd s \<and> whole s"

lemma open_on_dev_of: "open_on fd p d s \<Longrightarrow> dev_of fd s = Some (p, d)"
  by (simp add: open_on_def dev_of_def)

lemma wrote_open_on: "wrote p d ds s s' \<Longrightarrow> open_on fd p d s \<Longrightarrow> open_on fd p (last (d # ds)) s'"
  by (auto simp: wrote_def open_on_def whole_def)

lemma wrote_open_on_Nil: "wrote p d [] s s' \<Longrightarrow> open_on fd p d s \<Longrightarrow> open_on fd p d s'"
  using wrote_open_on [of p d "[]" s s' fd] by simp

lemma wrote_refl: "devs s p = Some d \<Longrightarrow> wrote p d [] s s"
  by (auto simp: wrote_def)

lemma wrote_free [simp]: "wrote p d ds s (sys_free s') = wrote p d ds s s'"
  by (simp add: wrote_def sys_free_def)

lemma wrote_call: "devs s p = Some d \<Longrightarrow> sys_call s = (b, s') \<Longrightarrow> wrote p d [] s s' \<and> b = fails s (calls s) \<and> fds s' = fds s"
  by (auto simp: wrote_def sys_call_def)

lemma wrote_malloc: "open_on fd p d s \<Longrightarrow> sys_malloc n s = (b, s') \<Longrightarrow> wrote p d [] s s'"
  by (auto simp: wrote_def sys_call_def sys_malloc_def open_on_def split: if_splits)

lemma malloc_length: "sys_malloc n s = (Some b, s') \<Longrightarrow> length b = n"
  by (auto simp: sys_call_def sys_malloc_def split: if_splits)

lemma wrote_calloc: "open_on fd p d s \<Longrightarrow> sys_calloc n s = (b, s') \<Longrightarrow> wrote p d [] s s'"
  by (auto simp: wrote_def sys_call_def sys_calloc_def open_on_def split: if_splits)

lemma calloc_length: "sys_calloc n s = (Some b, s') \<Longrightarrow> length b = n"
  by (auto simp: sys_call_def sys_calloc_def split: if_splits)

lemma wrote_ioctl:
  "open_on fd p d s \<Longrightarrow> ioctl_BLKSSZGET fd s = (r, bs, s') \<Longrightarrow> wrote p d [] s s' \<and> (r = 0 \<longrightarrow> bs = blksz s p)"
  by (auto simp: ioctl_BLKSSZGET_def wrote_def sys_call_def open_on_def dev_of_def split: if_splits)

lemma wrote_lseek_end:
  "open_on fd p d s \<Longrightarrow> lseek64_end fd s = (r, s') \<Longrightarrow> wrote p d [] s s' \<and> (r < 0 \<or> r = int (length d))"
  by (auto simp: lseek64_end_def wrote_def sys_call_def open_on_def dev_of_def split: if_splits)

lemma wrote_lseek_set:
  "open_on fd p d s \<Longrightarrow> lseek64_set fd off s = (r, s') \<Longrightarrow>
   wrote p d [] s s' \<and> (r < 0 \<or> r = off \<and> 0 \<le> off \<and> off \<le> int (length d))"
  by (auto simp: lseek64_set_def wrote_def sys_call_def open_on_def dev_of_def split: if_splits)

lemma wrote_fsync: "open_on fd p d s \<Longrightarrow> sys_fsync fd s = (r, s') \<Longrightarrow> wrote p d [] s s' \<and> r \<le> 0"
  by (auto simp: sys_fsync_def wrote_def sys_call_def open_on_def split: if_splits)

text \<open>A read that lies within the device fills the buffer with the bytes that are there.\<close>

lemma wrote_read:
  assumes "blk_rw fd False off buf len s = Some (r, buf', s')" "open_on fd p d s" "length buf = len"
    "nat off + len \<le> length d" "len \<le> MAX_RW_COUNT"
  shows "wrote p d [] s s' \<and> length buf' = len \<and> (r = 0 \<longrightarrow> 0 \<le> off \<and> buf' = segment (nat off) len d)"
proof -
  obtain pos s1 where l: "lseek64_set fd off s = (pos, s1)"
    by (cases "lseek64_set fd off s") auto
  note w1 = wrote_lseek_set [OF assms(2) l]
  with assms(2) have o1: "open_on fd p d s1" by (blast intro: wrote_open_on_Nil)
  then have tr: "transfer len s1 = len" using assms(5) transfer_whole [of s1 len] by (simp add: open_on_def min_def)
  obtain bad s2 where c: "sys_call s1 = (bad, s2)" by (cases "sys_call s1") auto
  have w2: "wrote p d [] s1 s2" "dev_of fd s2 = Some (p, d)"
    using wrote_call [of s1 p d bad s2] o1 c by (auto simp: open_on_def wrote_def dev_of_def)
  have ov: "overwrite 0 xs buf = xs" if "length xs = length buf" for xs :: bytes
    using that by (simp add: overwrite_def)
  show ?thesis
    using assms(1,3-) l c w1 w2 tr wrote_trans_Nil [of p d s s1 "[]" s2] ov [of "segment (nat off) len d"]
    by (auto simp: blk_rw_def sys_read_def min_def split: if_splits)
qed

lemma block_prefixes_one:
  "length xs = bs \<Longrightarrow> 0 < bs \<Longrightarrow> block_prefixes bs pos xs d = [overwrite pos xs d]"
  by (simp add: block_prefixes_def div_if)

lemma block_prefixes_last:
  assumes "0 < bs" "pos \<le> length d"
  shows "last (d # block_prefixes bs pos xs d) = overwrite pos xs d"
proof (cases "xs = []")
  case True
  then show ?thesis using assms by (simp add: block_prefixes_def)
next
  case False
  let ?n = "(length xs + bs - 1) div bs"
  have "length xs + bs - 1 < ?n * bs + bs"
    using assms(1) by (metis div_mod_decomp mod_less_divisor nat_add_left_cancel_less)
  then have "length xs \<le> ?n * bs" by linarith
  moreover have "0 < ?n" using False assms(1) by (cases xs) (simp_all add: div_greater_zero_iff)
  ultimately show ?thesis by (simp add: block_prefixes_def)
qed

text \<open>A write that lies within the device.\<close>

lemma wrote_write:
  assumes "blk_rw fd True off buf len s = Some (r, buf', s')" "open_on fd p d s" "length buf = len"
    "nat off + len \<le> length d" "len \<le> MAX_RW_COUNT" "0 \<le> off"
  shows "r \<noteq> 0 \<and> wrote p d [] s s' \<or> wrote p d (block_prefixes (unat (blksz s p)) (nat off) buf d) s s' \<or> blksz s p = 0"
proof -
  obtain pos s1 where l: "lseek64_set fd off s = (pos, s1)"
    by (cases "lseek64_set fd off s") auto
  note w1 = wrote_lseek_set [OF assms(2) l]
  with assms(2) have o1: "open_on fd p d s1" by (blast intro: wrote_open_on_Nil)
  then have tr: "transfer len s1 = len" using assms(5) transfer_whole [of s1 len] by (simp add: open_on_def min_def)
  obtain bad s2 where c: "sys_call s1 = (bad, s2)" by (cases "sys_call s1") auto
  have w2: "wrote p d [] s1 s2" "dev_of fd s2 = Some (p, d)" "fds s2 = fds s1" "blksz s2 = blksz s"
    using wrote_call [of s1 p d bad s2] o1 c w1 by (auto simp: open_on_def wrote_def dev_of_def)
  have w02: "wrote p d [] s s2"
    using w1 w2(1) wrote_trans_Nil by blast
  show ?thesis
  proof (cases "pos < 0 \<or> bad \<or> length d \<le> nat off \<and> 0 < len")
    case True
    then show ?thesis
      using assms l c w1 w02 tr by (auto simp: blk_rw_def sys_write_def w2 split: if_splits)
  next
    case False
    then have pos: "pos = off" using w1 by simp
    let ?bp = "block_prefixes (unat (blksz s p)) (nat off) buf d"
    define s3 where "s3 = s2\<lparr>devs := (devs s2)(p \<mapsto> overwrite (nat off) buf d), wlog := wlog s2 @ map (Pair p) ?bp\<rparr>"
    obtain rr s4 where f: "sys_fsync fd s3 = (rr, s4)" by (cases "sys_fsync fd s3") auto
    have "s' = s4"
      using assms False l c f tr by (auto simp: blk_rw_def sys_write_def w2 pos s3_def min_def split: if_splits)
    moreover have "wrote p d ?bp s s4" if "blksz s p \<noteq> 0"
      using w02 f that assms(4) block_prefixes_last [of "unat (blksz s p)" "nat off" d buf]
      by (auto simp: wrote_def s3_def sys_fsync_def sys_call_def unat_gt_0 split: if_splits)
    ultimately show ?thesis by blast
  qed
qed

lemma wrote_write_block:
  assumes "blk_rw fd True off buf len s = Some (r, buf', s')" "open_on fd p d s" "length buf = len"
    "nat off + len \<le> length d" "len \<le> MAX_RW_COUNT" "0 \<le> off" "len = unat (blksz s p)" "0 < len"
  shows "r \<noteq> 0 \<and> wrote p d [] s s' \<or> wrote p d [overwrite (nat off) buf d] s s'"
  using wrote_write [OF assms(1-6)] assms(7,8) block_prefixes_one [of buf "unat (blksz s p)" "nat off" d] assms(3)
  by (auto simp: unat_gt_0)

section \<open>The layout of a device\<close>

fun hdr_off :: "32 word \<Rightarrow> gpt_instance \<Rightarrow> bytes \<Rightarrow> nat" where
  "hdr_off bs PRIMARY_GPT d = unat bs"
| "hdr_off bs SECONDARY_GPT d = length d - unat bs"

definition hdr_at :: "32 word \<Rightarrow> gpt_instance \<Rightarrow> bytes \<Rightarrow> bytes" where
  "hdr_at bs g d = segment (hdr_off bs g d) (unat bs) d"

text \<open>The layout of a GPT device: the two headers in the second and in the last block, the primary entries after
  the primary header and before the secondary entries, these before the secondary header; the headers fit in a block and
  agree on the size of the array.\<close>

fun layout_of ::
  "nat \<Rightarrow> 32 word option \<times> 64 word option \<times> (32 word \<times> 32 word) option \<Rightarrow>
   32 word option \<times> 64 word option \<times> (32 word \<times> 32 word) option \<Rightarrow> nat \<Rightarrow> bool" where
  "layout_of bs (Some hp, Some sp, Some (ep, np)) (Some hs, Some ss, Some (es, ns)) len \<longleftrightarrow>
     92 \<le> bs \<and> bs \<le> MAX_RW_COUNT \<and> unat hp \<le> bs \<and> unat hs \<le> bs \<and> ns = np \<and> unat np \<le> MAX_RW_COUNT \<and>
     2 * bs \<le> unat sp \<and> unat sp + unat np \<le> unat ss \<and> unat ss + unat np + bs \<le> len \<and> len < 2 ^ 63"
| "layout_of bs _ _ len \<longleftrightarrow> False"

definition layout :: "32 word \<Rightarrow> bytes \<Rightarrow> bool" where
  "layout bs d \<longleftrightarrow>
     layout_of (unat bs) (geometry bs (hdr_at bs PRIMARY_GPT d)) (geometry bs (hdr_at bs SECONDARY_GPT d)) (length d)"

text \<open>The array of entries a header points to.\<close>

definition pentries_at :: "32 word \<Rightarrow> gpt_instance \<Rightarrow> bytes \<Rightarrow> bytes" where
  "pentries_at bs g d =
     (case geometry bs (hdr_at bs g d) of (_, Some st, Some (_, n)) \<Rightarrow> segment (unat st) (unat n) d | _ \<Rightarrow> [])"

definition pentries_ok :: "(bytes \<Rightarrow> 32 word) \<Rightarrow> 32 word \<Rightarrow> gpt_instance \<Rightarrow> bytes \<Rightarrow> bool" where
  "pentries_ok crc32 bs g d \<longleftrightarrow>
     GET_4_BYTES (hdr_at bs g d) PARTITION_CRC_OFFSET = Some (crc32 (pentries_at bs g d))"

definition header_ok :: "(bytes \<Rightarrow> 32 word) \<Rightarrow> 32 word \<Rightarrow> gpt_instance \<Rightarrow> bytes \<Rightarrow> bool" where
  "header_ok crc32 bs g d \<longleftrightarrow> header_state crc32 (hdr_at bs g d) = Some GPT_OK"

text \<open>A table that a boot loader can use: signature, header checksum and checksum of the entries.\<close>

definition table_ok :: "(bytes \<Rightarrow> 32 word) \<Rightarrow> 32 word \<Rightarrow> gpt_instance \<Rightarrow> bytes \<Rightarrow> bool" where
  "table_ok crc32 bs g d \<longleftrightarrow> header_ok crc32 bs g d \<and> pentries_ok crc32 bs g d"

definition safe :: "(bytes \<Rightarrow> 32 word) \<Rightarrow> 32 word \<Rightarrow> bytes \<Rightarrow> bool" where
  "safe crc32 bs d \<longleftrightarrow>
     layout bs d \<and> pentries_ok crc32 bs PRIMARY_GPT d \<and>
     (table_ok crc32 bs PRIMARY_GPT d \<or> table_ok crc32 bs SECONDARY_GPT d)"

lemma layoutE:
  assumes "layout bs d"
  obtains hp sp ep n hs ss es where
    "geometry bs (hdr_at bs PRIMARY_GPT d) = (Some hp, Some sp, Some (ep, n))"
    "geometry bs (hdr_at bs SECONDARY_GPT d) = (Some hs, Some ss, Some (es, n))"
    "92 \<le> unat bs" "unat bs \<le> MAX_RW_COUNT" "unat hp \<le> unat bs" "unat hs \<le> unat bs" "unat n \<le> MAX_RW_COUNT"
    "2 * unat bs \<le> unat sp" "unat sp + unat n \<le> unat ss" "unat ss + unat n + unat bs \<le> length d" "length d < 2 ^ 63"
  using assms unfolding layout_def by (elim layout_of.elims(2)) simp

lemma layout_hdr_off: "layout bs d \<Longrightarrow> hdr_off bs g d + unat bs \<le> length d"
  by (erule layoutE) (cases g; simp)

lemma length_hdr_at [simp]: "layout bs d \<Longrightarrow> length (hdr_at bs g d) = unat bs"
  using layout_hdr_off by (simp add: hdr_at_def)

text \<open>A header is replaced by one with the same geometry.\<close>

lemma put_header:
  assumes "layout bs d" "length h = unat bs" "geometry bs h = geometry bs (hdr_at bs g d)"
    and d': "d' = overwrite (hdr_off bs g d) h d"
  shows "hdr_at bs g d' = h" "g' \<noteq> g \<Longrightarrow> hdr_at bs g' d' = hdr_at bs g' d" "layout bs d'"
    "pentries_at bs g' d' = pentries_at bs g' d" "length d' = length d"
proof -
  note off = layout_hdr_off [OF assms(1), of g]
  show len: "length d' = length d" using off assms(2) d' by simp
  have o': "hdr_off bs k d' = hdr_off bs k d" for k by (cases k) (simp_all add: len)
  show h: "hdr_at bs g d' = h"
    using off assms(2) o' by (simp add: hdr_at_def) (simp add: d')
  have dis: "hdr_at bs k d' = hdr_at bs k d" if "k \<noteq> g" for k
  proof -
    have "hdr_off bs k d + unat bs \<le> hdr_off bs g d \<or> hdr_off bs g d + unat bs \<le> hdr_off bs k d"
      using that by (rule_tac layoutE [OF assms(1)], cases k; cases g) auto
    then show ?thesis
      using off layout_hdr_off [OF assms(1), of k] assms(2) o'
      by (simp add: hdr_at_def) (simp add: d' segment_overwrite_other)
  qed
  then show "g' \<noteq> g \<Longrightarrow> hdr_at bs g' d' = hdr_at bs g' d" .
  have geo: "geometry bs (hdr_at bs k d') = geometry bs (hdr_at bs k d)" for k
    using dis [of k] h assms(3) by (cases "k = g") simp_all
  then show "layout bs d'" using assms(1) len by (simp add: layout_def)
  show "pentries_at bs g' d' = pentries_at bs g' d"
    unfolding pentries_at_def geo
    by (rule layoutE [OF assms(1)], cases g; cases g') (simp_all add: d' segment_overwrite_other assms(2))
qed

text \<open>Bytes are written into the secondary entries.\<close>

lemma put_pentries:
  assumes "layout bs d" "geometry bs (hdr_at bs SECONDARY_GPT d) = (hs, Some ss, Some (es, n))" "length xs \<le> unat n"
    and d': "d' = overwrite (unat ss) xs d"
  shows "hdr_at bs g d' = hdr_at bs g d" "layout bs d'" "pentries_at bs PRIMARY_GPT d' = pentries_at bs PRIMARY_GPT d"
    "length xs = unat n \<Longrightarrow> pentries_at bs SECONDARY_GPT d' = xs" "length d' = length d"
proof -
  obtain hp sp ep where P: "geometry bs (hdr_at bs PRIMARY_GPT d) = (Some hp, Some sp, Some (ep, n))"
    and B: "2 * unat bs \<le> unat sp" "unat sp + unat n \<le> unat ss" "unat ss + unat n + unat bs \<le> length d"
    using assms(2) by (rule_tac layoutE [OF assms(1)]) auto
  show len: "length d' = length d" using B assms(3) d' by simp
  have o': "hdr_off bs k d' = hdr_off bs k d" for k by (cases k) (simp_all add: len)
  have h: "hdr_at bs k d' = hdr_at bs k d" for k
  proof -
    have "hdr_off bs k d + unat bs \<le> unat ss \<or> unat ss + length xs \<le> hdr_off bs k d"
      using B assms(3) by (cases k) auto
    then show ?thesis
      using B assms(3) o' [of k] layout_hdr_off [OF assms(1), of k]
      by (simp add: hdr_at_def) (simp add: d' segment_overwrite_other)
  qed
  then show "hdr_at bs g d' = hdr_at bs g d" .
  show "layout bs d'" using assms(1) len h by (simp add: layout_def)
  show "pentries_at bs PRIMARY_GPT d' = pentries_at bs PRIMARY_GPT d"
    using B assms(3) by (simp add: pentries_at_def h P) (simp add: d' segment_overwrite_other)
  show "length xs = unat n \<Longrightarrow> pentries_at bs SECONDARY_GPT d' = xs"
    using B by (simp add: pentries_at_def h assms(2)) (simp add: d')
qed

end
