(* ===== verification/GptSafe.thy ===== *)
theory GptSafe
  imports GptInv
begin

text \<open>
  The effect of the operations on a device with the layout of \<^verbatim>\<open>GptInv\<close>, whatever calls fail: what is
  read, which contents the device goes through, and what holds when the operation reports success.
\<close>

section \<open>Reading and setting the state of a header\<close>

lemma header_offset_effect:
  assumes "(case g of PRIMARY_GPT \<Rightarrow> (uint bs, s)
      | SECONDARY_GPT \<Rightarrow> (let (fin, s) = lseek64_end fd s in (fin - uint bs, s))) = (off, s')"
    and "open_on fd p d s" "unat bs \<le> length d"
  shows "wrote p d [] s s' \<and> (off = int (hdr_off bs g d) \<or> off < 0 \<and> g = SECONDARY_GPT)"
proof (cases g)
  case PRIMARY_GPT
  then show ?thesis using assms by (simp add: wrote_refl open_on_def)
next
  case SECONDARY_GPT
  obtain fin s1 where f: "lseek64_end fd s = (fin, s1)" by (rule prod.exhaust)
  have "wrote p d [] s s1" "fin < 0 \<or> fin = int (length d)"
    using wrote_lseek_end [OF assms(2) f] by simp_all
  moreover have "s' = s1" "off = fin - int (unat bs)"
    using assms(1) SECONDARY_GPT f by simp_all
  ultimately show ?thesis
    using SECONDARY_GPT assms(3) by (auto simp only: hdr_off.simps of_nat_diff)
qed

lemma read_header_effect:
  assumes r: "read_header fd g s = Some (rd, s')" and o: "open_on fd p d s" and l: "layout (blksz s p) d"
  shows "wrote p d [] s s' \<and>
    (\<forall>x. rd = Some x \<longrightarrow> x = (blksz s p, int (hdr_off (blksz s p) g d), hdr_at (blksz s p) g d))"
proof -
  let ?bs = "blksz s p"
  have B: "unat ?bs \<le> MAX_RW_COUNT" using l by (rule layoutE)
  obtain rc bs s1 where i: "ioctl_BLKSSZGET fd s = (rc, bs, s1)" by (cases "ioctl_BLKSSZGET fd s") auto
  note w1 = wrote_ioctl [OF o i]
  then have o1: "open_on fd p d s1" using o wrote_open_on_Nil by blast
  obtain m s2 where m: "sys_malloc (unat bs) s1 = (m, s2)" by (cases "sys_malloc (unat bs) s1") auto
  note w2 = wrote_malloc [OF o1 m]
  then have o2: "open_on fd p d s2" using o1 wrote_open_on_Nil by blast
  have w02: "wrote p d [] s s2" using w1 w2 wrote_trans_Nil by blast
  obtain off s3 where f: "(case g of PRIMARY_GPT \<Rightarrow> (uint bs, s2)
      | SECONDARY_GPT \<Rightarrow> (let (fin, s) = lseek64_end fd s2 in (fin - uint bs, s))) = (off, s3)"
    by (rule prod.exhaust)
  have "unat ?bs \<le> length d" using layout_hdr_off [OF l, of g] by simp
  then have w3: "wrote p d [] s2 s3 \<and> (rc = 0 \<longrightarrow> off = int (hdr_off ?bs g d) \<or> off < 0 \<and> g = SECONDARY_GPT)"
    using header_offset_effect [OF f o2] w1 wrote_lseek_end [OF o2] f o2
    by (cases g) (auto simp: wrote_refl open_on_def split: prod.splits)
  then have o3: "open_on fd p d s3" using o2 wrote_open_on_Nil by blast
  have w03: "wrote p d [] s s3" using w02 w3 wrote_trans_Nil by blast
  consider "rc \<noteq> 0" | "rc = 0" "m = None" | "rc = 0" "g = SECONDARY_GPT" "off < 0" "m \<noteq> None"
    | h where "rc = 0" "m = Some h" "off = int (hdr_off ?bs g d)" "bs = ?bs"
    using w1 w3 by (cases m) auto
  then show ?thesis
  proof cases
    case 4
    then have off: "off = int (hdr_off bs g d)" "\<not> (g = SECONDARY_GPT \<and> off < 0)" by simp_all
    obtain rr h' s4 where b: "blk_rw fd False off h (unat bs) s3 = Some (rr, h', s4)"
      using r i m f 4 off by (auto simp: read_header_def bind_eq_Some_conv split: if_splits)
    have "wrote p d [] s3 s4 \<and> (rr = 0 \<longrightarrow> h' = hdr_at bs g d)"
      using wrote_read [OF b o3 malloc_length [OF m [unfolded 4(2)]]] off layout_hdr_off [OF l, of g] 4(4) B
      by (simp add: hdr_at_def)
    then show ?thesis
      using r i m f 4 off b w03 wrote_trans_Nil [of p d s s3 "[]" s4]
      by (auto simp: read_header_def split: if_splits)
  qed (use r i m f w1 w02 w03 in \<open>auto simp: read_header_def split: if_splits option.splits\<close>)
qed

lemma get_state_effect:
  assumes "gpt_get_state crc32 fd g s = Some (r, st, s')" "open_on fd p d s" "layout (blksz s p) d"
  shows "wrote p d [] s s' \<and> (r = 0 \<longrightarrow> header_state crc32 (hdr_at (blksz s p) g d) = Some st)"
  using assms(1) read_header_effect [OF _ assms(2,3), of g]
  by (auto simp: gpt_get_state_def bind_eq_Some_conv split: option.splits)

text \<open>The header that \<^verbatim>\<open>gpt_set_state\<close> writes.\<close>

definition marked :: "(bytes \<Rightarrow> 32 word) \<Rightarrow> gpt_state \<Rightarrow> bytes \<Rightarrow> bytes \<Rightarrow> bool" where
  "marked crc32 st h h' \<longleftrightarrow>
     (\<exists>m n. mark_header st h = Some (Some m) \<and> GET_4_BYTES m HEADER_SIZE_OFFSET = Some n \<and> seal_header crc32 n m = Some h')"

lemma markedD:
  assumes "marked crc32 st h h'"
  shows "length h' = length h" "geometry bs h' = geometry bs h"
    "GET_4_BYTES h' PARTITION_CRC_OFFSET = GET_4_BYTES h PARTITION_CRC_OFFSET"
    "st = GPT_OK \<Longrightarrow> header_state crc32 h' = Some GPT_OK"
    "st = GPT_BAD_SIGNATURE \<Longrightarrow> header_state crc32 h' = Some GPT_BAD_SIGNATURE"
proof -
  from assms obtain m n where m: "mark_header st h = Some (Some m)" "GET_4_BYTES m HEADER_SIZE_OFFSET = Some n"
    "seal_header crc32 n m = Some h'" by (auto simp: marked_def)
  show "length h' = length h" using m mark_header_length seal_header_length by fastforce
  show "geometry bs h' = geometry bs h" using m mark_header_geometry seal_header_geometry by fastforce
  show "GET_4_BYTES h' PARTITION_CRC_OFFSET = GET_4_BYTES h PARTITION_CRC_OFFSET"
    using seal_header_GET [OF m(3), of PARTITION_CRC_OFFSET] mark_header_GET [OF m(1), of PARTITION_CRC_OFFSET] by simp
  note S = seal_header_state [OF m(3,2)]
  show "st = GPT_OK \<Longrightarrow> header_state crc32 h' = Some GPT_OK"
    using m(1) unfolding S by (auto simp: mark_header_def overwrite_def split: if_splits)
  show "st = GPT_BAD_SIGNATURE \<Longrightarrow> header_state crc32 h' = Some GPT_BAD_SIGNATURE"
    using m(1) unfolding S by (cases h) (auto simp: mark_header_def GPT_SIGNATURE_def split: if_splits)
qed

lemma set_state_effect:
  assumes s: "gpt_set_state crc32 fd g st s = Some (r, s')" and o: "open_on fd p d s" and l: "layout (blksz s p) d"
  shows "r \<noteq> 0 \<and> wrote p d [] s s' \<or>
    (\<exists>h'. marked crc32 st (hdr_at (blksz s p) g d) h' \<and> wrote p d [overwrite (hdr_off (blksz s p) g d) h' d] s s')"
proof -
  let ?bs = "blksz s p" and ?h = "hdr_at (blksz s p) g d"
  have B: "unat ?bs \<le> MAX_RW_COUNT" "0 < unat ?bs" using l by (auto elim: layoutE)
  obtain rd s1 where rd: "read_header fd g s = Some (rd, s1)"
    using s by (auto simp: gpt_set_state_def bind_eq_Some_conv)
  note w1 = read_header_effect [OF rd o l]
  then have o1: "open_on fd p d s1" and b1: "blksz s1 = blksz s" using o wrote_open_on_Nil by (blast, simp add: wrote_def)
  show ?thesis
  proof (cases "rd = None \<or> mark_header st ?h = Some None")
    case True
    then show ?thesis using s rd w1 by (auto simp: gpt_set_state_def split: option.splits)
  next
    case False
    then obtain m n h' rr h'' s2 where m: "mark_header st ?h = Some (Some m)"
      "GET_4_BYTES m HEADER_SIZE_OFFSET = Some n" "seal_header crc32 n m = Some h'"
      and b: "blk_rw fd True (int (hdr_off ?bs g d)) h' (unat ?bs) s1 = Some (rr, h'', s2)"
      and r: "r = (if rr = 0 then 0 else -1)" "s' = s2 \<or> s' = sys_free s2"
      using s rd w1 by (auto simp: gpt_set_state_def bind_eq_Some_conv split: option.splits if_splits)
    have k: "marked crc32 st ?h h'" using m by (auto simp: marked_def)
    have len: "length h' = unat ?bs" using markedD(1) [OF k] length_hdr_at [OF l, of g] by (rule trans)
    have "rr \<noteq> 0 \<and> wrote p d [] s1 s2 \<or> wrote p d [overwrite (nat (int (hdr_off ?bs g d))) h' d] s1 s2"
      using layout_hdr_off [OF l, of g] B b1 by (intro wrote_write_block [OF b o1 len]) (simp_all only: nat_int of_nat_0_le_iff)
    then have "rr \<noteq> 0 \<and> wrote p d [] s1 s2 \<or> wrote p d [overwrite (hdr_off ?bs g d) h' d] s1 s2"
      by (simp only: nat_int)
    then have "rr \<noteq> 0 \<and> wrote p d [] s s' \<or> wrote p d [overwrite (hdr_off ?bs g d) h' d] s s'"
      using w1 r(2) wrote_trans_Nil [of p d s s1] by auto
    then show ?thesis using k r(1) by auto
  qed
qed

section \<open>Setting the boot chain of the secondary table\<close>

lemma swap_pentries_length: "swap_pentries p q arr = Some arr' \<Longrightarrow> length arr' = length arr"
  by (auto simp: swap_pentries_def Let_def split: if_splits)

lemma swap_step_length: "swap_step u n nm st = Some st' \<Longrightarrow> length (snd st') = length (snd st)"
  by (auto simp: swap_step_def bind_eq_Some_conv swap_pentries_length split: if_splits option.splits)

lemma swap_names_length: "swap_names u n nms st = Some st' \<Longrightarrow> length (snd st') = length (snd st)"
  by (induction nms arbitrary: st) (auto simp: bind_eq_Some_conv dest: swap_step_length)

lemma boot_chain_swap_length: "gpt_boot_chain_swap u arr n = Some (r, arr') \<Longrightarrow> length arr' = length arr"
  using swap_names_length [of u n PTN_SWAP_LIST "(True, arr)"]
  by (auto simp: gpt_boot_chain_swap_def bind_eq_Some_conv)

text \<open>The entries that the secondary table is to have.\<close>

definition chain_entries :: "bool \<Rightarrow> boot_chain \<Rightarrow> bytes \<Rightarrow> 32 word \<Rightarrow> (int \<times> bytes) option" where
  "chain_entries is_ufs boot arr psize =
     (if boot = BACKUP_BOOT then gpt_boot_chain_swap is_ufs arr psize else Some (0, arr))"

lemma chain_entries_length: "chain_entries u boot arr n = Some (r, arr') \<Longrightarrow> length arr' = length arr"
  by (auto simp: chain_entries_def boot_chain_swap_length split: if_splits)

text \<open>A part of the device stays as it is: the primary header and its entries.\<close>

definition keeps_primary :: "32 word \<Rightarrow> bytes \<Rightarrow> bytes \<Rightarrow> bool" where
  "keeps_primary bs d x \<longleftrightarrow>
     layout bs x \<and> hdr_at bs PRIMARY_GPT x = hdr_at bs PRIMARY_GPT d \<and>
     pentries_at bs PRIMARY_GPT x = pentries_at bs PRIMARY_GPT d"

text \<open>The secondary header that goes with new entries: their checksum, and the header sealed.\<close>

definition resealed :: "(bytes \<Rightarrow> 32 word) \<Rightarrow> bytes \<Rightarrow> bytes \<Rightarrow> bytes \<Rightarrow> bool" where
  "resealed crc32 arr h h' \<longleftrightarrow>
     (\<exists>m n. PUT_4_BYTES h PARTITION_CRC_OFFSET (crc32 arr) = Some m \<and> GET_4_BYTES h HEADER_SIZE_OFFSET = Some n \<and>
            seal_header crc32 n m = Some h')"

lemma resealedD:
  assumes "resealed crc32 arr h h'"
  shows "length h' = length h" "geometry bs h' = geometry bs h" "take 9 h' = take 9 h"
    "GET_4_BYTES h' PARTITION_CRC_OFFSET = Some (crc32 arr)"
    "header_state crc32 h' = Some (if take 9 h = GPT_SIGNATURE then GPT_OK else GPT_BAD_SIGNATURE)"
proof -
  from assms obtain m n where m: "PUT_4_BYTES h PARTITION_CRC_OFFSET (crc32 arr) = Some m"
    "GET_4_BYTES h HEADER_SIZE_OFFSET = Some n" "seal_header crc32 n m = Some h'" by (auto simp: resealed_def)
  have g: "GET_4_BYTES m HEADER_SIZE_OFFSET = Some n" "take 9 m = take 9 h"
    using m(1,2) by (auto simp: PUT_4_overwrite GET_4_overwrite take_overwrite split: if_splits)
  show "length h' = length h" using PUT_4_length [OF m(1)] seal_header_length [OF m(3)] by simp
  show "geometry bs h' = geometry bs h"
    using geometry_PUT [OF m(1), of bs] seal_header_geometry [OF m(3), of bs] by simp
  show "take 9 h' = take 9 h" using seal_header_take [OF m(3), of 9] g by simp
  show "GET_4_BYTES h' PARTITION_CRC_OFFSET = Some (crc32 arr)"
    using GET_PUT_4 [OF m(1)] seal_header_GET [OF m(3), of PARTITION_CRC_OFFSET] by simp
  show "header_state crc32 h' = Some (if take 9 h = GPT_SIGNATURE then GPT_OK else GPT_BAD_SIGNATURE)"
    using seal_header_state [OF m(3) g(1)] g(2) by simp
qed

lemma sint_below: "unat (w :: 64 word) < 2 ^ 63 \<Longrightarrow> sint w = int (unat w)"
proof -
  assume a: "unat w < 2 ^ 63"
  have "int (unat w) < int (2 ^ 63)" using a by (simp only: of_nat_less_iff)
  moreover have "- (2 ^ 63) \<le> int (unat w)" by (rule order_trans [of _ 0]) (simp_all only: of_nat_0_le_iff, simp)
  ultimately have "signed_take_bit 63 (int (unat w)) = int (unat w)"
    by (intro signed_take_bit_int_eq_self) (simp_all only: of_nat_power of_nat_numeral)
  then show ?thesis by (simp add: sint_uint)
qed

definition chain_post ::
  "(bytes \<Rightarrow> 32 word) \<Rightarrow> 32 word \<Rightarrow> string \<Rightarrow> bytes \<Rightarrow> bytes \<Rightarrow> os \<Rightarrow> int \<Rightarrow> os \<Rightarrow> bool" where
  "chain_post crc32 bs p d arr s r s' \<longleftrightarrow>
     (\<exists>ds. wrote p d ds s s' \<and> (\<forall>x \<in> set ds. keeps_primary bs d x) \<and>
           (r = 0 \<longrightarrow> pentries_at bs SECONDARY_GPT (last (d # ds)) = arr \<and>
                      resealed crc32 arr (hdr_at bs SECONDARY_GPT d) (hdr_at bs SECONDARY_GPT (last (d # ds)))))"

lemma chain_post_fail: "wrote p d [] s s' \<Longrightarrow> r \<noteq> 0 \<Longrightarrow> chain_post crc32 bs p d arr s r s'"
  unfolding chain_post_def by (rule exI [of _ "[]"]) simp

lemma chain_post_trans:
  assumes "wrote p d [] s s'" "chain_post crc32 bs p d arr s' r s''"
  shows "chain_post crc32 bs p d arr s r s''"
  using assms wrote_trans_Nil unfolding chain_post_def by blast

lemma keeps_primary_refl: "layout bs d \<Longrightarrow> keeps_primary bs d d"
  by (simp add: keeps_primary_def)

lemma keeps_primary_trans: "keeps_primary bs d x \<Longrightarrow> keeps_primary bs x y \<Longrightarrow> keeps_primary bs d y"
  by (simp add: keeps_primary_def)

lemma keeps_primary_header:
  assumes "layout bs d" "length h = unat bs" "geometry bs h = geometry bs (hdr_at bs SECONDARY_GPT d)"
  shows "keeps_primary bs d (overwrite (hdr_off bs SECONDARY_GPT d) h d)"
  using put_header(2) [OF assms refl, of PRIMARY_GPT] put_header(3) [OF assms refl]
    put_header(4) [OF assms refl, of PRIMARY_GPT] by (simp add: keeps_primary_def)

lemma keeps_primary_prefixes:
  assumes "layout bs d" "geometry bs (hdr_at bs SECONDARY_GPT d) = (hs, Some ss, Some (es, n))" "length arr = unat n"
    "x \<in> set (block_prefixes b (unat ss) arr d)"
  shows "keeps_primary bs d x"
proof -
  obtain k where x: "x = overwrite (unat ss) (take k arr) d"
    using assms(4) by (auto simp: block_prefixes_def)
  show ?thesis
    using put_pentries(1-3) [OF assms(1,2) _ x] assms(3) by (simp add: keeps_primary_def)
qed

lemma entries_write_effect:
  assumes w: "blk_rw fd True (sint ss) arr (unat n) s = Some (r, b, s')" and o: "open_on fd p d s"
    and bs: "bs = blksz s p" and l: "layout bs d"
    and g: "geometry bs (hdr_at bs SECONDARY_GPT d) = (hs, Some ss, Some (es, n))" and a: "length arr = unat n"
  shows "\<exists>ds. wrote p d ds s s' \<and> (\<forall>x \<in> set ds. keeps_primary bs d x) \<and>
    (r = 0 \<longrightarrow> last (d # ds) = overwrite (unat ss) arr d)"
proof -
  obtain B: "0 < unat bs" "unat n \<le> MAX_RW_COUNT" "unat ss + unat n \<le> length d" "unat ss < 2 ^ 63"
    using g by (rule_tac layoutE [OF l]) auto
  have ss: "nat (sint ss) = unat ss" "0 \<le> sint ss" using sint_below [OF B(4)] by simp_all
  let ?bp = "block_prefixes (unat bs) (unat ss) arr d"
  have "nat (sint ss) + unat n \<le> length d" using ss(1) B(3) by (simp only:)
  from wrote_write [OF w o a this B(2) ss(2)] B(1)
  have "r \<noteq> 0 \<and> wrote p d [] s s' \<or> wrote p d ?bp s s'"
    unfolding ss(1) bs [symmetric] by (auto simp only: unat_0 less_irrefl)
  moreover have "last (d # ?bp) = overwrite (unat ss) arr d"
    using B(3) by (intro block_prefixes_last [OF B(1)]) simp
  ultimately show ?thesis
    using keeps_primary_prefixes [OF l g a, of _ "unat bs"] by (metis empty_iff list.set(1))
qed

lemma gpt2_write_effect:
  assumes e: "gpt2_write crc32 fd bs (int (hdr_off bs SECONDARY_GPT d)) hs ss (hdr_at bs SECONDARY_GPT d) arr n s = Some (r, s')"
    and o: "open_on fd p d s" and bs: "bs = blksz s p" and l: "layout bs d"
    and g: "geometry bs (hdr_at bs SECONDARY_GPT d) = (Some hs, Some ss, Some (es, n))" and a: "length arr = unat n"
  shows "chain_post crc32 bs p d arr s r s'"
proof -
  let ?h = "hdr_at bs SECONDARY_GPT d" and ?off = "hdr_off bs SECONDARY_GPT d"
  obtain B: "0 < unat bs" "unat bs \<le> MAX_RW_COUNT" "unat n \<le> MAX_RW_COUNT" "unat ss + unat n \<le> length d" "unat ss < 2 ^ 63"
    using g by (rule_tac layoutE [OF l]) auto
  obtain h' r1 b1 s1 where h': "resealed crc32 arr ?h h'"
    and w: "blk_rw fd True (int ?off) h' (unat bs) s = Some (r1, b1, s1)"
    and f: "r1 \<noteq> 0 \<Longrightarrow> r = r1 \<and> s' = sys_free (sys_free s1)"
    and k: "r1 = 0 \<Longrightarrow> \<exists>b2 s2. blk_rw fd True (sint ss) arr (unat n) s1 = Some (r, b2, s2) \<and> s' = sys_free (sys_free s2)"
    using e g a by (auto simp: gpt2_write_def bind_eq_Some_conv crc_of_def resealed_def geometry_def split: if_splits)
  have len: "length h' = unat bs" using resealedD(1) [OF h'] length_hdr_at [OF l] by (rule trans)
  let ?d1 = "overwrite ?off h' d"
  have "r1 \<noteq> 0 \<and> wrote p d [] s s1 \<or> wrote p d [overwrite (nat (int ?off)) h' d] s s1"
    using layout_hdr_off [OF l] B bs by (intro wrote_write_block [OF w o len]) (simp_all only: nat_int of_nat_0_le_iff)
  then consider "r1 \<noteq> 0" "wrote p d [] s s1" | "wrote p d [?d1] s s1" by (auto simp only: nat_int)
  then show ?thesis
  proof cases
    case 1
    then show ?thesis using f by (auto intro: chain_post_fail)
  next
    case 2
    note ph = put_header [OF l len resealedD(2) [OF h'] refl]
    have kp1: "keeps_primary bs d ?d1" by (rule keeps_primary_header [OF l len resealedD(2) [OF h']])
    have o1: "open_on fd p ?d1 s1" and b1: "blksz s1 p = bs" using wrote_open_on [OF 2 o] 2 bs by (simp_all add: wrote_def)
    have l1: "layout bs ?d1" and g1: "geometry bs (hdr_at bs SECONDARY_GPT ?d1) = (Some hs, Some ss, Some (es, n))"
      using ph(1,3) resealedD(2) [OF h'] g by simp_all
    show ?thesis
    proof (cases "r1 = 0")
      case False
      then show ?thesis using 2 f kp1 unfolding chain_post_def by (intro exI [of _ "[?d1]"]) auto
    next
      case True
      from k [OF True] obtain b2 s2 where w2: "blk_rw fd True (sint ss) arr (unat n) s1 = Some (r, b2, s2)"
        and s': "s' = sys_free (sys_free s2)" by blast
      obtain es where es: "wrote p ?d1 es s1 s2" "\<forall>x \<in> set es. keeps_primary bs ?d1 x"
        "r = 0 \<longrightarrow> last (?d1 # es) = overwrite (unat ss) arr ?d1"
        using entries_write_effect [OF w2 o1 b1 [symmetric] l1 g1 a] by blast
      have "wrote p d (?d1 # es) s s'" using wrote_trans [OF 2, of es s2] es(1) s' by simp
      moreover have "\<forall>x \<in> set (?d1 # es). keeps_primary bs d x"
        using es(2) kp1 keeps_primary_trans [OF kp1] by auto
      moreover note put_pentries(1) [OF l1 g1 _ refl, where xs = arr and g = SECONDARY_GPT]
        put_pentries(4) [OF l1 g1 _ refl, where xs = arr] ph(1) h'
      ultimately show ?thesis
        using es(3) a unfolding chain_post_def by (intro exI [of _ "?d1 # es"]) simp
    qed
  qed
qed

definition chain_done ::
  "(bytes \<Rightarrow> 32 word) \<Rightarrow> 32 word \<Rightarrow> string \<Rightarrow> bytes \<Rightarrow> bool \<Rightarrow> boot_chain \<Rightarrow> 32 word \<Rightarrow> os \<Rightarrow> int \<Rightarrow> os \<Rightarrow> bool" where
  "chain_done crc32 bs p d is_ufs boot psize s r s' \<longleftrightarrow>
     (\<exists>arr. chain_post crc32 bs p d arr s r s' \<and>
            (r = 0 \<longrightarrow> chain_entries is_ufs boot (pentries_at bs PRIMARY_GPT d) psize = Some (0, arr)))"

lemma chain_done_fail: "wrote p d [] s s' \<Longrightarrow> r \<noteq> 0 \<Longrightarrow> chain_done crc32 bs p d u boot n s r s'"
  by (auto simp: chain_done_def intro: chain_post_fail)

lemma chain_done_trans:
  "wrote p d [] s s' \<Longrightarrow> chain_done crc32 bs p d u boot n s' r s'' \<Longrightarrow> chain_done crc32 bs p d u boot n s r s''"
  by (auto simp: chain_done_def intro: chain_post_trans)

lemma gpt2_secondary_effect:
  assumes e: "gpt2_secondary crc32 fd boot bs (int (hdr_off bs SECONDARY_GPT d)) h (pentries_at bs PRIMARY_GPT d) psize n s = Some (r, s')"
    and o: "open_on fd p d s" and bs: "bs = blksz s p" and l: "layout bs d" and len: "length h = unat bs"
    and g: "geometry bs (hdr_at bs SECONDARY_GPT d) = (Some hs, Some ss, Some (es, n))"
    and a: "length (pentries_at bs PRIMARY_GPT d) = unat n"
  shows "chain_done crc32 bs p d (gpt_utils_is_ufs_device s) boot psize s r s'"
proof -
  let ?off = "hdr_off bs SECONDARY_GPT d" and ?h = "hdr_at bs SECONDARY_GPT d"
  obtain r1 h1 s1 where w: "blk_rw fd False (int ?off) h (unat bs) s = Some (r1, h1, s1)"
    using e by (auto simp: gpt2_secondary_def bind_eq_Some_conv)
  have "unat bs \<le> MAX_RW_COUNT" using l by (rule layoutE)
  then have w1: "wrote p d [] s s1" "r1 = 0 \<Longrightarrow> h1 = ?h"
    using wrote_read [OF w o len _] layout_hdr_off [OF l, of SECONDARY_GPT]
    by (simp_all add: hdr_at_def del: hdr_off.simps)
  have o1: "open_on fd p d s1" and b1: "bs = blksz s1 p" and u: "gpt_utils_is_ufs_device s1 = gpt_utils_is_ufs_device s"
    using wrote_open_on_Nil [OF w1(1) o] w1(1) bs by (simp_all add: wrote_def gpt_utils_is_ufs_device_def)
  show ?thesis
  proof (cases "r1 = 0")
    case False
    then show ?thesis using e w w1 by (auto simp: gpt2_secondary_def intro: chain_done_fail)
  next
    case True
    then obtain r2 arr where c: "chain_entries (gpt_utils_is_ufs_device s) boot (pentries_at bs PRIMARY_GPT d) psize = Some (r2, arr)"
      and f: "r2 \<noteq> 0 \<Longrightarrow> r = r2 \<and> s' = sys_free (sys_free s1)"
      and k: "r2 = 0 \<Longrightarrow> gpt2_write crc32 fd bs (int ?off) hs ss ?h arr n s1 = Some (r, s')"
      using e w w1 g u
      by (auto simp: gpt2_secondary_def chain_entries_def geometry_def bind_eq_Some_conv split: if_splits)
    have "length arr = unat n" using chain_entries_length [OF c] a by (rule trans)
    note gw = gpt2_write_effect [OF _ o1 b1 l g this]
    show ?thesis
    proof (cases "r2 = 0")
      case True
      then show ?thesis using chain_post_trans [OF w1(1) gw [OF k]] c by (auto simp: chain_done_def)
    next
      case False
      then show ?thesis using f w1(1) by (auto intro: chain_done_fail)
    qed
  qed
qed

lemma gpt2_entries_effect:
  assumes e: "gpt2_entries crc32 fd boot bs (int (hdr_off bs SECONDARY_GPT d)) (hdr_at bs PRIMARY_GPT d) s = Some (r, s')"
    and o: "open_on fd p d s" and bs: "bs = blksz s p" and l: "layout bs d"
    and gp: "geometry bs (hdr_at bs PRIMARY_GPT d) = (Some hp, Some sp, Some (psize, n))"
  shows "chain_done crc32 bs p d (gpt_utils_is_ufs_device s) boot psize s r s'"
proof -
  obtain hs ss es where g: "geometry bs (hdr_at bs SECONDARY_GPT d) = (Some hs, Some ss, Some (es, n))"
    and B: "unat n \<le> MAX_RW_COUNT" "unat sp + unat n \<le> length d" "unat sp < 2 ^ 63"
    using gp by (rule_tac layoutE [OF l]) auto
  have sp: "nat (sint sp) = unat sp" using sint_below [OF B(3)] by simp
  obtain m s1 where m: "sys_calloc (unat n) s = (m, s1)" by (rule prod.exhaust)
  note w1 = wrote_calloc [OF o m]
  note o1 = wrote_open_on_Nil [OF w1 o]
  show ?thesis
  proof (cases m)
    case None
    then show ?thesis using e m gp w1 by (auto simp: gpt2_entries_def geometry_def intro: chain_done_fail)
  next
    case (Some b)
    then obtain r2 arr s2 where w: "blk_rw fd False (sint sp) b (unat n) s1 = Some (r2, arr, s2)"
      using e m gp by (auto simp: gpt2_entries_def geometry_def bind_eq_Some_conv)
    have "wrote p d [] s1 s2 \<and> length arr = unat n \<and> (r2 = 0 \<longrightarrow> 0 \<le> sint sp \<and> arr = segment (nat (sint sp)) (unat n) d)"
      using B(2) by (intro wrote_read [OF w o1 calloc_length [OF m [unfolded Some]] _ B(1)]) (simp only: sp)
    then have w2: "wrote p d [] s1 s2" "r2 = 0 \<Longrightarrow> arr = pentries_at bs PRIMARY_GPT d" "length arr = unat n"
      using sp by (simp_all add: pentries_at_def gp)
    have w02: "wrote p d [] s s2" by (rule wrote_trans_Nil [OF w1 w2(1)])
    note o2 = wrote_open_on_Nil [OF w02 o]
    have b2: "bs = blksz s2 p" and u: "gpt_utils_is_ufs_device s2 = gpt_utils_is_ufs_device s"
      using w02 bs by (simp_all add: wrote_def gpt_utils_is_ufs_device_def)
    show ?thesis
    proof (cases "r2 = 0 \<and> GET_4_BYTES (hdr_at bs PRIMARY_GPT d) PARTITION_CRC_OFFSET = crc_of crc32 arr n")
      case False
      then show ?thesis
        using e m gp w Some w02 w2(3)
        by (auto simp: gpt2_entries_def geometry_def bind_eq_Some_conv intro: chain_done_fail split: if_splits)
    next
      case True
      then have "gpt2_secondary crc32 fd boot bs (int (hdr_off bs SECONDARY_GPT d)) (hdr_at bs PRIMARY_GPT d)
          (pentries_at bs PRIMARY_GPT d) psize n s2 = Some (r, s')"
        using e m gp w Some w2(2) by (auto simp: gpt2_entries_def geometry_def bind_eq_Some_conv)
      from gpt2_secondary_effect [OF this o2 b2 l length_hdr_at [OF l] g] show ?thesis
        using True w2(2,3) u chain_done_trans [OF w02] by simp
    qed
  qed
qed

lemma set_boot_chain_effect:
  assumes e: "gpt2_set_boot_chain crc32 fd boot s = Some (r, s')" and o: "open_on fd p d s" and bs: "bs = blksz s p"
    and l: "layout bs d" and gp: "geometry bs (hdr_at bs PRIMARY_GPT d) = (Some hp, Some sp, Some (psize, n))"
  shows "chain_done crc32 bs p d (gpt_utils_is_ufs_device s) boot psize s r s'"
proof -
  obtain rc b s1 where i: "ioctl_BLKSSZGET fd s = (rc, b, s1)" by (rule prod_cases3)
  note w1 = wrote_ioctl [OF o i]
  then have w1': "wrote p d [] s s1" by simp
  note o1 = wrote_open_on_Nil [OF w1' o]
  obtain m s2 where m: "sys_malloc (unat bs) s1 = (m, s2)" by (rule prod.exhaust)
  have w02: "wrote p d [] s s2" by (rule wrote_trans_Nil [OF w1' wrote_malloc [OF o1 m]])
  note o2 = wrote_open_on_Nil [OF w02 o]
  obtain fin s3 where f: "lseek64_end fd s2 = (fin, s3)" by (rule prod.exhaust)
  note w3 = wrote_lseek_end [OF o2 f]
  then have w03: "wrote p d [] s s3" using wrote_trans_Nil [OF w02] by blast
  note o3 = wrote_open_on_Nil [OF w03 o]
  have B: "unat bs \<le> MAX_RW_COUNT" "unat bs + unat bs \<le> length d" using l layout_hdr_off [OF l, of PRIMARY_GPT] by (auto elim: layoutE)
  then have off: "fin = int (length d) \<Longrightarrow> fin - uint bs = int (hdr_off bs SECONDARY_GPT d)" by (simp add: of_nat_diff)
  consider "rc \<noteq> 0" | "rc = 0" "m = None" | "rc = 0" "m \<noteq> None" "fin < uint bs"
    | h where "rc = 0" "m = Some h" "fin = int (length d)" "b = bs"
    using w1 w3 bs uint_ge_0 [of bs] by (cases m) fastforce+
  then show ?thesis
  proof cases
    case 4
    then obtain r4 h4 s4 where w: "blk_rw fd False (uint bs) h (unat bs) s3 = Some (r4, h4, s4)"
      and k: "r = r4 \<and> r4 \<noteq> 0 \<and> s' = sys_free s4 \<or>
        r4 = 0 \<and> gpt2_entries crc32 fd boot bs (int (hdr_off bs SECONDARY_GPT d)) h4 s4 = Some (r, s')"
      using e i m f off by (auto simp: gpt2_set_boot_chain_def bind_eq_Some_conv Let_def split: if_splits)
    have w4: "wrote p d [] s3 s4" "r4 = 0 \<Longrightarrow> h4 = hdr_at bs PRIMARY_GPT d"
      using wrote_read [OF w o3 malloc_length [OF m [unfolded 4(2)]] _ B(1)] B(2) by (simp_all add: hdr_at_def)
    have w04: "wrote p d [] s s4" by (rule wrote_trans_Nil [OF w03 w4(1)])
    have b4: "bs = blksz s4 p" and u: "gpt_utils_is_ufs_device s4 = gpt_utils_is_ufs_device s"
      using w04 bs by (simp_all add: wrote_def gpt_utils_is_ufs_device_def)
    show ?thesis
      using k w4(2) w04 chain_done_trans [OF w04 gpt2_entries_effect [OF _ wrote_open_on_Nil [OF w04 o] b4 l gp]] u
      by (auto intro: chain_done_fail)
  qed (use e i m f w1 w02 w03 bs B in \<open>auto simp: gpt2_set_boot_chain_def intro!: chain_done_fail split: if_splits option.splits\<close>)
qed

section \<open>The stages keep a usable table\<close>

lemma marked_device:
  assumes l: "layout bs d" and m: "marked crc32 st (hdr_at bs g d) h'" and d': "d' = overwrite (hdr_off bs g d) h' d"
  shows "layout bs d'" "pentries_at bs k d' = pentries_at bs k d" "pentries_ok crc32 bs k d' \<longleftrightarrow> pentries_ok crc32 bs k d"
    "k \<noteq> g \<Longrightarrow> hdr_at bs k d' = hdr_at bs k d" "hdr_at bs g d' = h'"
    "k \<noteq> g \<Longrightarrow> header_ok crc32 bs k d' \<longleftrightarrow> header_ok crc32 bs k d" "st = GPT_OK \<Longrightarrow> header_ok crc32 bs g d'"
proof -
  have len: "length h' = unat bs" using markedD(1) [OF m] length_hdr_at [OF l] by (rule trans)
  note ph = put_header [OF l len markedD(2) [OF m] d']
  show "layout bs d'" by (rule ph(3))
  show p: "pentries_at bs k d' = pentries_at bs k d" for k by (rule ph(4))
  show h: "k \<noteq> g \<Longrightarrow> hdr_at bs k d' = hdr_at bs k d" for k by (rule ph(2))
  show "pentries_ok crc32 bs k d' \<longleftrightarrow> pentries_ok crc32 bs k d"
    using ph(1) h [of k] markedD(3) [OF m] by (cases "k = g") (simp_all add: pentries_ok_def p)
  show "hdr_at bs g d' = h'" by (rule ph(1))
  show "k \<noteq> g \<Longrightarrow> header_ok crc32 bs k d' \<longleftrightarrow> header_ok crc32 bs k d" by (simp add: header_ok_def h)
  show "st = GPT_OK \<Longrightarrow> header_ok crc32 bs g d'" using markedD(4) [OF m] ph(1) by (simp add: header_ok_def)
qed

lemma keeps_primary_safe:
  "safe crc32 bs d \<Longrightarrow> header_ok crc32 bs PRIMARY_GPT d \<Longrightarrow> keeps_primary bs d x \<Longrightarrow>
   safe crc32 bs x \<and> header_ok crc32 bs PRIMARY_GPT x"
  by (simp add: safe_def keeps_primary_def table_ok_def header_ok_def pentries_ok_def)

lemma safe_put:
  assumes "safe crc32 bs d" "marked crc32 st (hdr_at bs g d) h'" "k \<noteq> g" "table_ok crc32 bs k d"
  shows "safe crc32 bs (overwrite (hdr_off bs g d) h' d)"
proof -
  have l: "layout bs d" using assms(1) by (simp add: safe_def)
  note m = marked_device [OF l assms(2) refl]
  have "table_ok crc32 bs k (overwrite (hdr_off bs g d) h' d)"
    using assms(3,4) m(3,6) [of k] by (simp add: table_ok_def)
  then show ?thesis
    using assms(1) m(1) m(3) [of PRIMARY_GPT] by (cases k) (auto simp: safe_def)
qed

text \<open>\<open>safely\<close>: whatever is on the device at any moment, it is safe.\<close>

definition safely :: "(bytes \<Rightarrow> 32 word) \<Rightarrow> 32 word \<Rightarrow> string \<Rightarrow> bytes \<Rightarrow> os \<Rightarrow> os \<Rightarrow> bool" where
  "safely crc32 bs p d s s' \<longleftrightarrow> (\<exists>ds. wrote p d ds s s' \<and> (\<forall>x \<in> set ds. safe crc32 bs x))"

lemma safely_Nil: "wrote p d [] s s' \<Longrightarrow> safely crc32 bs p d s s'"
  unfolding safely_def by (rule exI [of _ "[]"]) simp

lemma safely_one: "wrote p d [x] s s' \<Longrightarrow> safe crc32 bs x \<Longrightarrow> safely crc32 bs p d s s'"
  unfolding safely_def by (rule exI [of _ "[x]"]) simp

lemma safely_trans:
  assumes "wrote p d ds s s'" "\<forall>x \<in> set ds. safe crc32 bs x" "safely crc32 bs p (last (d # ds)) s' s''"
  shows "safely crc32 bs p d s s''"
proof -
  from assms(3) obtain es where "wrote p (last (d # ds)) es s' s''" "\<forall>x \<in> set es. safe crc32 bs x"
    unfolding safely_def by blast
  then show ?thesis
    using assms(2) wrote_trans [OF assms(1)] unfolding safely_def by (intro exI [of _ "ds @ es"]) auto
qed

lemma set_state_safely:
  assumes "gpt_set_state crc32 fd g st s = Some (r, s')" "open_on fd p d s" "bs = blksz s p" "safe crc32 bs d"
    "k \<noteq> g" "table_ok crc32 bs k d"
  shows "safely crc32 bs p d s s'"
  using set_state_effect [OF assms(1,2)] assms(3-) safe_put [OF assms(4) _ assms(5,6)]
  by (auto simp: safe_def intro: safely_Nil safely_one)

lemma set_boot_lun_effect:
  assumes "set_boot_lun node b s = (r, s')" "devs s p = Some d"
  shows "wrote p d [] s s'"
proof -
  have [simp]: "(devs s)(p \<mapsto> d) = devs s" using assms(2) by auto
  show ?thesis
    using assms(1)
    by (auto simp: set_boot_lun_def sys_malloc_def sys_call_def sys_open_def sys_free_def sys_close_def wrote_def
        split: if_splits)
qed

lemma xbl_boot_partition_lun:
  assumes "gpt_utils_set_xbl_boot_partition chain s = Some (r, s')"
  shows "s' = s \<or> (\<exists>node b rc. set_boot_lun node b s = (rc, s') \<and> (rc = 0 \<longleftrightarrow> r = 0))"
proof (cases "xbl_boot_dev chain s")
  case None
  then show ?thesis using assms by (simp add: gpt_utils_set_xbl_boot_partition_def)
next
  case (Some bd)
  obtain b dev where bd: "bd = (b, dev)" by (rule prod.exhaust)
  show ?thesis
  proof (cases "get_scsi_node_from_bootdevice (Some dev) (Some []) PATH_MAX s")
    case None
    then show ?thesis using assms Some bd by (simp add: gpt_utils_set_xbl_boot_partition_def split: if_splits)
  next
    case (Some rn)
    obtain rc n where rn: "rn = (rc, n)" by (rule prod.exhaust)
    obtain rc' s1 where "set_boot_lun (the n) b s = (rc', s1)" by (rule prod.exhaust)
    then show ?thesis
      using assms Some \<open>xbl_boot_dev chain s = Some bd\<close> bd rn
      by (cases n) (auto simp: gpt_utils_set_xbl_boot_partition_def split: if_splits)
  qed
qed

lemma switch_xbl_effect:
  assumes "switch_xbl u chain s = Some (r, s')" "devs s p = Some d"
  shows "wrote p d [] s s'"
  using assms xbl_boot_partition_lun [of chain s r s'] set_boot_lun_effect [OF _ assms(2)] wrote_refl [OF assms(2)]
  by (auto simp: switch_xbl_def split: if_splits)

lemma chain_doneE:
  assumes "chain_done crc32 bs p d u boot n s r s'"
  obtains ds arr where "wrote p d ds s s'" "\<forall>x \<in> set ds. keeps_primary bs d x"
    "r = 0 \<Longrightarrow> chain_entries u boot (pentries_at bs PRIMARY_GPT d) n = Some (0, arr)"
    "r = 0 \<Longrightarrow> pentries_at bs SECONDARY_GPT (last (d # ds)) = arr"
    "r = 0 \<Longrightarrow> resealed crc32 arr (hdr_at bs SECONDARY_GPT d) (hdr_at bs SECONDARY_GPT (last (d # ds)))"
  using assms unfolding chain_done_def chain_post_def by blast

lemma set_boot_chain_cases:
  assumes e: "gpt2_set_boot_chain crc32 fd boot s = Some (r, s')" and o: "open_on fd p d s" and bs: "bs = blksz s p"
    and sf: "safe crc32 bs d" and hp: "header_ok crc32 bs PRIMARY_GPT d"
  obtains ds x where "wrote p d ds s s'" "\<forall>x \<in> set ds. safe crc32 bs x" "x = last (d # ds)" "open_on fd p x s'"
    "blksz s' p = bs" "safe crc32 bs x" "header_ok crc32 bs PRIMARY_GPT x"
    "r = 0 \<Longrightarrow> header_ok crc32 bs SECONDARY_GPT d \<Longrightarrow> table_ok crc32 bs SECONDARY_GPT x"
proof -
  have l: "layout bs d" using sf by (simp add: safe_def)
  obtain hp' sp psize n where gp: "geometry bs (hdr_at bs PRIMARY_GPT d) = (Some hp', Some sp, Some (psize, n))"
    using l by (rule layoutE)
  obtain ds arr where c: "wrote p d ds s s'" "\<forall>x \<in> set ds. keeps_primary bs d x"
    "r = 0 \<Longrightarrow> pentries_at bs SECONDARY_GPT (last (d # ds)) = arr"
    "r = 0 \<Longrightarrow> resealed crc32 arr (hdr_at bs SECONDARY_GPT d) (hdr_at bs SECONDARY_GPT (last (d # ds)))"
    using set_boot_chain_effect [OF e o bs l gp] by (rule chain_doneE) blast
  have all: "safe crc32 bs x \<and> header_ok crc32 bs PRIMARY_GPT x" if "x \<in> set (d # ds)" for x
    using that sf hp c(2) keeps_primary_safe [OF sf hp, of x] by auto
  have "table_ok crc32 bs SECONDARY_GPT (last (d # ds))" if "r = 0" "header_ok crc32 bs SECONDARY_GPT d"
    using resealedD(4,5) [OF c(4)] c(3) that
    by (auto simp: table_ok_def header_ok_def pentries_ok_def header_state_def bind_eq_Some_conv split: if_splits)
  then show ?thesis
    using that [OF c(1) _ refl wrote_open_on [OF c(1) o]] all all [OF last_in_set] c(1) bs by (auto simp: wrote_def)
qed

lemma stage_main_safely:
  assumes e: "stage_main crc32 u fd s = Some (r, s')" and o: "open_on fd p d s" and bs: "bs = blksz s p"
    and sf: "safe crc32 bs d" and h: "header_ok crc32 bs PRIMARY_GPT d" "header_ok crc32 bs SECONDARY_GPT d"
  shows "safely crc32 bs p d s s'"
proof -
  obtain r1 s1 where x: "switch_xbl u BACKUP_BOOT s = Some (r1, s1)"
    using e by (auto simp: stage_main_def bind_eq_Some_conv)
  have w1: "wrote p d [] s s1" using o switch_xbl_effect [OF x] by (simp add: open_on_def)
  have b1: "bs = blksz s1 p" using w1 bs by (simp add: wrote_def)
  note o1 = wrote_open_on_Nil [OF w1 o]
  show ?thesis
  proof (cases "r1 = 0")
    case False
    then show ?thesis using e x w1 by (auto simp: stage_main_def intro: safely_Nil)
  next
    case True
    then obtain r2 s2 where c: "gpt2_set_boot_chain crc32 fd BACKUP_BOOT s1 = Some (r2, s2)"
      using e x by (auto simp: stage_main_def bind_eq_Some_conv)
    obtain ds y where y: "wrote p d ds s1 s2" "\<forall>x \<in> set ds. safe crc32 bs x" "y = last (d # ds)" "open_on fd p y s2"
      "blksz s2 p = bs" "safe crc32 bs y" "r2 = 0 \<Longrightarrow> table_ok crc32 bs SECONDARY_GPT y"
      using set_boot_chain_cases [OF c o1 b1 sf h(1)] h(2) by metis
    note w2 = wrote_trans_Nil [OF w1 y(1)]
    show ?thesis
    proof (cases "r2 = 0")
      case False
      then show ?thesis
        using e x c True w2 y(2) by (auto simp: stage_main_def safely_def split: if_splits)
    next
      case t: True
      then have "gpt_set_state crc32 fd PRIMARY_GPT GPT_BAD_SIGNATURE s2 = Some (r, s')"
        using e x c True by (simp add: stage_main_def)
      then have "safely crc32 bs p y s2 s'"
        using set_state_safely [of crc32 fd PRIMARY_GPT _ s2 r s' p y bs SECONDARY_GPT] y t by simp
      then show ?thesis using safely_trans [OF w2 y(2)] y(3) by simp
    qed
  qed
qed

lemma stage_backup_safely:
  assumes e: "stage_backup crc32 u fd s = Some (r, s')" and o: "open_on fd p d s" and bs: "bs = blksz s p"
    and sf: "safe crc32 bs d" and h: "table_ok crc32 bs SECONDARY_GPT d"
  shows "safely crc32 bs p d s s'"
proof -
  have l: "layout bs d" using sf by (simp add: safe_def)
  obtain r1 s1 where x: "switch_xbl u NORMAL_BOOT s = Some (r1, s1)"
    using e by (auto simp: stage_backup_def bind_eq_Some_conv)
  have w1: "wrote p d [] s s1" using o switch_xbl_effect [OF x] by (simp add: open_on_def)
  have b1: "bs = blksz s1 p" using w1 bs by (simp add: wrote_def)
  note o1 = wrote_open_on_Nil [OF w1 o]
  show ?thesis
  proof (cases "r1 = 0")
    case False
    then show ?thesis using e x w1 by (auto simp: stage_backup_def intro: safely_Nil)
  next
    case True
    then obtain r2 s2 where c: "gpt_set_state crc32 fd PRIMARY_GPT GPT_OK s1 = Some (r2, s2)"
      using e x by (auto simp: stage_backup_def bind_eq_Some_conv)
    consider "r2 \<noteq> 0" "wrote p d [] s1 s2" | h' where "marked crc32 GPT_OK (hdr_at bs PRIMARY_GPT d) h'"
      "wrote p d [overwrite (hdr_off bs PRIMARY_GPT d) h' d] s1 s2"
      using set_state_effect [OF c o1] l b1 by auto
    then show ?thesis
    proof cases
      case 1
      then show ?thesis
        using e x c True safely_Nil [OF wrote_trans_Nil [OF w1 1(2)]] by (auto simp: stage_backup_def)
    next
      case (2 h')
      let ?d1 = "overwrite (hdr_off bs PRIMARY_GPT d) h' d"
      note w2 = wrote_trans_Nil [OF w1 2(2)]
      have s1: "safe crc32 bs ?d1" by (rule safe_put [OF sf 2(1) _ h]) simp
      have t1: "table_ok crc32 bs PRIMARY_GPT ?d1"
        using marked_device(7) [OF l 2(1) refl] s1 by (simp add: table_ok_def safe_def)
      have o2: "open_on fd p ?d1 s2" "bs = blksz s2 p" using wrote_open_on [OF w2 o] w2 bs by (simp_all add: wrote_def)
      have "safely crc32 bs p ?d1 s2 s'" if "r2 = 0"
        using set_state_safely [OF _ o2 s1 _ t1, of SECONDARY_GPT GPT_BAD_SIGNATURE r s'] e x c True that
        by (simp add: stage_backup_def)
      then show ?thesis
        using safely_trans [OF w2, of crc32 bs s'] safely_one [OF w2 s1] s1 e x c True
        by (cases "r2 = 0") (auto simp: stage_backup_def)
    qed
  qed
qed

lemma stage_finalize_safely:
  assumes e: "stage_finalize crc32 fd s = Some (r, s')" and o: "open_on fd p d s" and bs: "bs = blksz s p"
    and sf: "safe crc32 bs d" and h: "header_ok crc32 bs PRIMARY_GPT d"
  shows "safely crc32 bs p d s s'"
proof -
  obtain r2 s2 where c: "gpt2_set_boot_chain crc32 fd NORMAL_BOOT s = Some (r2, s2)"
    using e by (auto simp: stage_finalize_def bind_eq_Some_conv)
  obtain ds y where y: "wrote p d ds s s2" "\<forall>x \<in> set ds. safe crc32 bs x" "y = last (d # ds)" "open_on fd p y s2"
    "blksz s2 p = bs" "safe crc32 bs y" "header_ok crc32 bs PRIMARY_GPT y"
    using set_boot_chain_cases [OF c o bs sf h] by metis
  show ?thesis
  proof (cases "r2 < 0")
    case True
    then show ?thesis using e c y by (auto simp: stage_finalize_def safely_def)
  next
    case False
    then have "gpt_set_state crc32 fd SECONDARY_GPT GPT_OK s2 = Some (r, s')"
      using e c by (simp add: stage_finalize_def)
    moreover have "table_ok crc32 bs PRIMARY_GPT y" using y(6,7) by (simp add: table_ok_def safe_def)
    ultimately have "safely crc32 bs p y s2 s'"
      using set_state_safely [of crc32 fd SECONDARY_GPT _ s2 r s' p y bs PRIMARY_GPT] y by simp
    then show ?thesis using safely_trans [OF y(1,2)] y(3) by simp
  qed
qed

lemma prepare_open_safely:
  assumes e: "prepare_open crc32 stage u fd s = Some (r, s')" and o: "open_on fd p d s" and bs: "bs = blksz s p"
    and sf: "safe crc32 bs d"
  shows "safely crc32 bs p d s s'"
proof -
  have l: "layout (blksz s p) d" using sf bs by (simp add: safe_def)
  obtain r1 g1 s1 where p: "gpt_get_state crc32 fd PRIMARY_GPT s = Some (r1, g1, s1)"
    using e by (auto simp: prepare_open_def bind_eq_Some_conv)
  note w1 = get_state_effect [OF p o l]
  then have w1': "wrote p d [] s s1" and b1: "bs = blksz s1 p" using bs by (simp_all add: wrote_def)
  note o1 = wrote_open_on_Nil [OF w1' o]
  show ?thesis
  proof (cases "r1 = 0")
    case False
    then show ?thesis using e p w1' by (auto simp: prepare_open_def intro: safely_Nil)
  next
    case True
    then obtain r2 g2 s2 where q: "gpt_get_state crc32 fd SECONDARY_GPT s1 = Some (r2, g2, s2)"
      using e p by (auto simp: prepare_open_def bind_eq_Some_conv)
    have l1: "layout (blksz s1 p) d" using l b1 bs by simp
    note w2 = get_state_effect [OF q o1 l1]
    have w2': "wrote p d [] s s2" using w2 wrote_trans_Nil [OF w1'] by simp
    then have b2: "bs = blksz s2 p" using bs by (simp add: wrote_def)
    note o2 = wrote_open_on_Nil [OF w2' o]
    have "safely crc32 bs p d s2 s'" if "run_stage crc32 stage u fd s2 = Some (r, s')" "internal_stage g1 g2 = Some stage" "r2 = 0"
    proof -
      have h: "header_state crc32 (hdr_at bs PRIMARY_GPT d) = Some g1" "header_state crc32 (hdr_at bs SECONDARY_GPT d) = Some g2"
        using w1 w2 True that(3) bs b1 by simp_all
      show ?thesis
        using that(1,2) h sf stage_main_safely [OF _ o2 b2 sf] stage_backup_safely [OF _ o2 b2 sf] stage_finalize_safely [OF _ o2 b2 sf]
        by (cases g1; cases g2; cases stage)
          (auto simp: internal_stage_def run_stage_def header_ok_def safe_def table_ok_def split: if_splits)
    qed
    then have "safely crc32 bs p d s s'" if "run_stage crc32 stage u fd s2 = Some (r, s')" "internal_stage g1 g2 = Some stage" "r2 = 0"
      using that safely_trans [OF w2', of crc32 bs s'] by simp
    moreover have "s' = s2 \<or> r2 = 0 \<and> internal_stage g1 g2 = Some stage \<and> run_stage crc32 stage u fd s2 = Some (r, s')"
      using e p q True by (cases "r2 = 0"; cases "internal_stage g1 g2") (simp_all add: prepare_open_def split: if_splits)
    ultimately show ?thesis using safely_Nil [OF w2'] by blast
  qed
qed

text \<open>The whole call: the descriptor is opened, used and closed.\<close>

lemma prepare_partitions_safely:
  assumes e: "prepare_partitions crc32 stage dev s = Some (r, s')" and d: "devs s p = Some d" and bs: "bs = blksz s p"
    and sf: "safe crc32 bs d" and dev: "dev = Some p" and wh: "whole s"
  shows "safely crc32 bs p d s s'"
proof -
  obtain fd s1 where op: "sys_open p s = (fd, s1)" by (rule prod.exhaust)
  have w1: "wrote p d [] s s1" and o1: "\<not> fd < 0 \<Longrightarrow> open_on fd p d s1"
    using op d wh by (auto simp: sys_open_def sys_call_def wrote_def open_on_def whole_def split: if_splits)
  show ?thesis
  proof (cases "fd < 0")
    case True
    then show ?thesis using e op w1 dev by (auto simp: prepare_partitions_def intro: safely_Nil)
  next
    case False
    then obtain s2 where q: "prepare_open crc32 stage (gpt_utils_is_ufs_device s1) fd s1 = Some (r, s2)"
      and s': "s' = sys_close fd (snd (sys_fsync fd s2))"
      using e op dev by (auto simp: prepare_partitions_def bind_eq_Some_conv)
    have "bs = blksz s1 p" using w1 bs by (simp add: wrote_def)
    from prepare_open_safely [OF q o1 [OF False] this sf] obtain ds where
      w2: "wrote p d ds s1 s2" "\<forall>x \<in> set ds. safe crc32 bs x" by (auto simp: safely_def)
    have "next_fd s \<le> fd" using op False by (auto simp: sys_open_def sys_call_def split: if_splits)
    then have "wrote p d ds s s'"
      using wrote_trans_Nil [OF w1 w2(1)] s'
      by (auto simp: wrote_def sys_close_def sys_fsync_def sys_call_def split: if_splits)
    then show ?thesis using w2(2) by (auto simp: safely_def)
  qed
qed

end
