(* ===== verification/GptSwap.thy ===== *)
theory GptSwap
  imports GptInv
begin

text \<open>
  The swap of the boot chain in the array of entries.  The search of \<^verbatim>\<open>gpt_pentry_seek\<close> is the search for the first
  entry of that name in the list of entries; the swap exchanges, for every name that occurs twice, its first two
  entries, and doing it again restores the array.
\<close>

section \<open>Names\<close>

lemma str_eq_prefix:
  "length xs \<le> length ys \<Longrightarrow> str_eq xs (map Some ys @ zs) = Some (take (length xs) ys = xs)"
  by (induction xs arbitrary: ys) (auto simp: Suc_le_length_iff)

definition entry_name :: "bytes \<Rightarrow> nat \<Rightarrow> bytes" where
  "entry_name arr p = map (\<lambda>i. arr ! (p + i * 2)) [0..<36]"

lemma length_entry_name [simp]: "length (entry_name arr p) = 36"
  by (simp add: entry_name_def)

lemma name8_entry_name: "p + 72 \<le> length arr \<Longrightarrow> name8 arr p = Some (map Some (entry_name arr p) @ replicate 36 None)"
  by (simp add: name8_def entry_name_def)

definition is_named :: "string \<Rightarrow> bytes \<Rightarrow> bool" where
  "is_named nm ns \<longleftrightarrow>
     (\<exists>ext \<in> {[], str_bytes BAK_PTN_NAME_EXT}. take (length nm + length ext + 1) ns = str_bytes nm @ ext @ [0])"

lemma take_drop_eq: "take (length xs) ns = xs \<Longrightarrow> take (length xs + n) ns = xs @ take n (drop (length xs) ns)"
  by (simp add: take_add)

lemma take_append_iff: "take (length xs + n) ns = xs @ ys \<longleftrightarrow> take (length xs) ns = xs \<and> take n (drop (length xs) ns) = ys"
  if "length xs \<le> length ns"
  using that by (simp add: take_add append_eq_append_conv)

lemma length_str_bytes [simp]: "length (str_bytes nm) = length nm"
  by (simp add: str_bytes_def)

lemma name_matches_named:
  assumes "length nm + 4 \<le> length ns"
  shows "name_matches nm (map Some ns @ zs) = Some (is_named nm ns)"
proof -
  have d: "drop (length nm) (map Some ns @ zs) = map Some (drop (length nm) ns) @ zs"
    using assms by (simp add: drop_map)
  have e: "length BAK_PTN_NAME_EXT = 3" by (simp add: BAK_PTN_NAME_EXT_def)
  have t: "take (length nm + (k + 1)) ns = str_bytes nm @ ext @ [0] \<longleftrightarrow>
      take (length nm) ns = str_bytes nm \<and> take (k + 1) (drop (length nm) ns) = ext @ [0]" for k ext
    using take_append_iff [of "str_bytes nm" ns "k + 1" "ext @ [0]"] assms by simp
  have n: "is_named nm ns \<longleftrightarrow> take (length nm) ns = str_bytes nm \<and>
      (take 1 (drop (length nm) ns) = [0] \<or> take 4 (drop (length nm) ns) = str_bytes BAK_PTN_NAME_EXT @ [0])"
    using t [of 0 "[]"] t [of 3 "str_bytes BAK_PTN_NAME_EXT"] by (auto simp: is_named_def e algebra_simps)
  have s: "str_eq (str_bytes nm) (map Some ns @ zs) = Some (take (length nm) ns = str_bytes nm)"
    "str_eq [0] (drop (length nm) (map Some ns @ zs)) = Some (take 1 (drop (length nm) ns) = [0])"
    "str_eq (str_bytes BAK_PTN_NAME_EXT @ [0]) (drop (length nm) (map Some ns @ zs)) =
       Some (take 4 (drop (length nm) ns) = str_bytes BAK_PTN_NAME_EXT @ [0])"
    unfolding d using assms str_eq_prefix [of "str_bytes nm" ns zs] str_eq_prefix [of "[0]" "drop (length nm) ns" zs]
      str_eq_prefix [of "str_bytes BAK_PTN_NAME_EXT @ [0]" "drop (length nm) ns" zs] by (simp_all add: e)
  show ?thesis unfolding name_matches_def s n by auto
qed

section \<open>The search\<close>

definition ematch :: "nat \<Rightarrow> string \<Rightarrow> bytes \<Rightarrow> nat \<Rightarrow> bool" where
  "ematch k nm arr i \<longleftrightarrow> is_named nm (entry_name arr (i * k + PARTITION_NAME_OFFSET))"

lemma entry_bound:
  assumes "i < c" "128 \<le> k" "length arr = c * k"
  shows "i * k + 128 \<le> length arr"
proof -
  have "Suc i * k \<le> c * k" using assms(1) by (intro mult_le_mono1) simp
  then show ?thesis using assms by simp
qed

lemma seek_loop_find:
  assumes k: "128 \<le> k" and len: "length arr = c * k" and nm: "length nm \<le> 32" and i: "i \<le> c"
  shows "seek_loop nm arr (length arr) k (i * k + PARTITION_NAME_OFFSET) =
    Some (map_option (\<lambda>j. j * k) (find (ematch k nm arr) [i..<c]))"
  using i
proof (induction "c - i" arbitrary: i)
  case 0
  then have "i * k = length arr" by (simp add: len)
  then show ?case using 0 by (subst seek_loop.simps) simp
next
  case (Suc m)
  then have ic: "i < c" by simp
  note b = entry_bound [OF ic k len]
  have "seek_loop nm arr (length arr) k (i * k + 56 + k) = Some (map_option (\<lambda>j. j * k) (find (ematch k nm arr) [Suc i..<c]))"
    using Suc.hyps(1) [of "Suc i"] Suc.hyps(2) ic by (simp add: add.commute [of _ k] add.assoc)
  then show ?case
    using b nm ic by (subst seek_loop.simps) (simp add: name8_entry_name name_matches_named ematch_def upt_conv_Cons)
qed

lemma pentry_seek_find:
  assumes "128 \<le> unat psize" "length arr = c * unat psize" "length nm \<le> 32" "i \<le> c"
  shows "gpt_pentry_seek nm arr (i * unat psize) (length arr) psize =
    Some (map_option (\<lambda>j. j * unat psize) (find (ematch (unat psize) nm arr) [i..<c]))"
  using seek_loop_find [OF assms] by (simp add: gpt_pentry_seek_def)

section \<open>One exchange\<close>

lemma blocks_apart:
  assumes "i < j" "128 \<le> k"
  shows "i * k + 128 \<le> j * (k::nat)"
proof -
  have "Suc i * k \<le> j * k" using assms(1) by (intro mult_le_mono1) simp
  then show ?thesis using assms(2) by simp
qed

definition xchg :: "nat \<Rightarrow> nat \<times> nat \<Rightarrow> bytes \<Rightarrow> bytes" where
  "xchg k ij arr =
     overwrite (snd ij * k) (segment (fst ij * k) 128 arr) (overwrite (fst ij * k) (segment (snd ij * k) 128 arr) arr)"

text \<open>Two entries of an array of \<open>c\<close> entries.\<close>

definition two_of :: "nat \<Rightarrow> nat \<times> nat \<Rightarrow> bool" where
  "two_of c ij \<longleftrightarrow> fst ij < snd ij \<and> snd ij < c"

definition turn :: "nat \<times> nat \<Rightarrow> nat \<Rightarrow> nat" where
  "turn ij l = (if l = fst ij then snd ij else if l = snd ij then fst ij else l)"

lemma xchg_bounds:
  assumes "two_of c ij" "128 \<le> k" "length arr = c * k"
  shows "fst ij * k + 128 \<le> length arr" "snd ij * k + 128 \<le> length arr" "fst ij * k + 128 \<le> snd ij * k"
  using assms entry_bound [of "fst ij" c k arr] entry_bound [of "snd ij" c k arr] blocks_apart [of "fst ij" "snd ij" k]
  by (simp_all add: two_of_def)

lemma length_xchg:
  assumes "two_of c ij" "128 \<le> k" "length arr = c * k"
  shows "length (xchg k ij arr) = length arr"
  using xchg_bounds [OF assms] by (simp add: xchg_def)

lemma swap_pentries_xchg:
  assumes "two_of c ij" "128 \<le> k" "length arr = c * k"
  shows "swap_pentries (fst ij * k) (snd ij * k) arr = Some (xchg k ij arr)"
  using xchg_bounds [OF assms] by (simp add: swap_pentries_def xchg_def Let_def)

lemma segment_xchg:
  assumes t: "two_of c ij" and k: "128 \<le> k" and len: "length arr = c * k" and l: "l < c"
  shows "segment (l * k) 128 (xchg k ij arr) = segment (turn ij l * k) 128 arr"
proof -
  note b = xchg_bounds [OF t k len] entry_bound [OF l k len]
  have apart: "l * k + 128 \<le> m * k \<or> m * k + 128 \<le> l * k" if "l \<noteq> m" for m
    using that blocks_apart [of l m k] blocks_apart [of m l k] k by (cases "l < m") auto
  show ?thesis
    using b t apart [of "fst ij"] apart [of "snd ij"]
    by (auto simp: xchg_def turn_def two_of_def segment_overwrite_other)
qed

lemma entry_name_segment:
  "l * k + 128 \<le> length arr \<Longrightarrow>
   entry_name arr (l * k + 56) = map (\<lambda>i. segment (l * k) 128 arr ! (56 + i * 2)) [0..<36]"
  by (simp add: entry_name_def nth_segment add.assoc)

lemma ematch_xchg:
  assumes t: "two_of c ij" and k: "128 \<le> k" and len: "length arr = c * k" and l: "l < c"
  shows "ematch k nm (xchg k ij arr) l = ematch k nm arr (turn ij l)"
proof -
  have "turn ij l < c" using t l by (simp add: turn_def two_of_def)
  then show ?thesis
    using entry_bound [OF l k, of arr] entry_bound [of "turn ij l" c k arr] k len length_xchg [OF t k len]
    by (simp add: ematch_def entry_name_segment segment_xchg [OF t k len l])
qed

lemma overwrite_commute:
  "i + length xs \<le> length b \<Longrightarrow> j + length ys \<le> length b \<Longrightarrow> i + length xs \<le> j \<or> j + length ys \<le> i \<Longrightarrow>
   overwrite i xs (overwrite j ys b) = overwrite j ys (overwrite i xs b)"
  by (rule nth_equalityI) (auto simp: nth_overwrite)

lemma xchg_xchg:
  assumes "two_of c ij" "128 \<le> k" "length arr = c * k"
  shows "xchg k ij (xchg k ij arr) = arr"
proof -
  let ?p = "fst ij * k" and ?q = "snd ij * k"
  note b = xchg_bounds [OF assms]
  have s: "segment ?p 128 (xchg k ij arr) = segment ?q 128 arr" "segment ?q 128 (xchg k ij arr) = segment ?p 128 arr"
    using b by (simp_all add: xchg_def segment_overwrite_other)
  have "xchg k ij (xchg k ij arr) = overwrite ?q (segment ?q 128 arr) (overwrite ?p (segment ?p 128 arr) (xchg k ij arr))"
    by (subst (1) xchg_def) (simp add: s)
  also have "\<dots> = overwrite ?q (segment ?q 128 arr) (overwrite ?q (segment ?p 128 arr) arr)"
    using b by (simp add: xchg_def overwrite_commute [of ?p _ _ ?q])
  also have "\<dots> = arr" using b by simp
  finally show ?thesis .
qed

text \<open>Exchanges of four different entries commute.\<close>

lemma xchg_commute:
  assumes "two_of c ij" "two_of c mn" "128 \<le> k" "length arr = c * k" "{fst ij, snd ij} \<inter> {fst mn, snd mn} = {}"
  shows "xchg k ij (xchg k mn arr) = xchg k mn (xchg k ij arr)"
proof -
  have apart: "x * k + 128 \<le> y * k \<or> y * k + 128 \<le> x * k" if "x \<noteq> y" for x y
    using that blocks_apart [of x y k] blocks_apart [of y x k] assms(3) by (cases "x < y") auto
  note b = xchg_bounds [OF assms(1,3,4)] xchg_bounds [OF assms(2,3,4)]
    apart [of "fst ij" "fst mn"] apart [of "fst ij" "snd mn"] apart [of "snd ij" "fst mn"] apart [of "snd ij" "snd mn"]
    apart [of "fst mn" "fst ij"] apart [of "fst mn" "snd ij"] apart [of "snd mn" "fst ij"] apart [of "snd mn" "snd ij"]
  show ?thesis
    using b assms(5) by (simp add: xchg_def segment_overwrite_other overwrite_commute)
qed

section \<open>The whole list of names\<close>

definition pair_of :: "nat \<Rightarrow> nat \<Rightarrow> bytes \<Rightarrow> string \<Rightarrow> (nat \<times> nat) option" where
  "pair_of k c arr nm =
     (case find (ematch k nm arr) [0..<c] of None \<Rightarrow> None
      | Some i \<Rightarrow> map_option (Pair i) (find (ematch k nm arr) [Suc i..<c]))"

lemma pair_of_Some:
  assumes "pair_of k c arr nm = Some ij"
  shows "two_of c ij" "ematch k nm arr (fst ij)" "ematch k nm arr (snd ij)"
  using assms by (auto simp: pair_of_def two_of_def find_Some_iff split: option.splits)

definition move :: "bool \<Rightarrow> nat \<Rightarrow> nat \<Rightarrow> bytes \<Rightarrow> string \<Rightarrow> bytes \<Rightarrow> bytes" where
  "move is_ufs k c ref nm arr =
     (if is_ufs \<and> is_xbl nm then arr
      else case pair_of k c ref nm of None \<Rightarrow> arr | Some ij \<Rightarrow> xchg k ij arr)"

definition moves :: "bool \<Rightarrow> nat \<Rightarrow> nat \<Rightarrow> bytes \<Rightarrow> string \<Rightarrow> bool" where
  "moves is_ufs k c arr nm \<longleftrightarrow> \<not> (is_ufs \<and> is_xbl nm) \<and> pair_of k c arr nm \<noteq> None"

definition same_names :: "string set \<Rightarrow> nat \<Rightarrow> nat \<Rightarrow> bytes \<Rightarrow> bytes \<Rightarrow> bool" where
  "same_names N k c arr arr' \<longleftrightarrow>
     length arr' = c * k \<and> (\<forall>nm \<in> N. \<forall>i < c. ematch k nm arr' i = ematch k nm arr i)"

lemma find_upt_cong: "(\<And>i. i < c \<Longrightarrow> P i = Q i) \<Longrightarrow> find P [a..<c] = find Q [a..<c]"
  by (rule find_cong) auto

lemma same_names_pair: "same_names N k c arr arr' \<Longrightarrow> nm \<in> N \<Longrightarrow> pair_of k c arr' nm = pair_of k c arr nm"
  unfolding pair_of_def same_names_def
  by (auto split: option.splits cong: find_upt_cong)

lemma swap_step_move:
  assumes k: "128 \<le> unat psize" and len: "length arr = c * unat psize" and nm: "length nm \<le> 32"
  shows "swap_step u psize nm (b, arr) =
    Some (b \<and> \<not> moves u (unat psize) c arr nm, move u (unat psize) c arr nm arr)"
proof -
  note f = pentry_seek_find [OF k len nm]
  show ?thesis
  proof (cases "find (ematch (unat psize) nm arr) [0..<c]")
    case None
    then show ?thesis using f [of 0] by (simp add: swap_step_def move_def moves_def pair_of_def)
  next
    case (Some i)
    then have "Suc i \<le> c" by (auto simp: find_Some_iff)
    note f2 = f [OF this]
    show ?thesis
    proof (cases "find (ematch (unat psize) nm arr) [Suc i..<c]")
      case None
      then show ?thesis
        using f [of 0] Some f2 by (simp add: swap_step_def move_def moves_def pair_of_def add.commute)
    next
      case (Some j)
      then have p: "pair_of (unat psize) c arr nm = Some (i, j)" using \<open>find _ [0..<c] = Some i\<close> by (simp add: pair_of_def)
      show ?thesis
        using f [of 0] \<open>find _ [0..<c] = Some i\<close> Some f2 swap_pentries_xchg [OF pair_of_Some(1) [OF p] k len] p
        by (simp add: swap_step_def move_def moves_def add.commute)
    qed
  qed
qed

lemma is_named_takeWhile:
  assumes "is_named nm ns" "0 \<notin> set (str_bytes nm)"
  shows "\<exists>ext \<in> {[], str_bytes BAK_PTN_NAME_EXT}. takeWhile (\<lambda>x. x \<noteq> 0) ns = str_bytes nm @ ext"
proof -
  obtain ext where e: "ext \<in> {[], str_bytes BAK_PTN_NAME_EXT}" "take (length nm + length ext + 1) ns = str_bytes nm @ ext @ [0]"
    using assms(1) unfolding is_named_def by blast
  then obtain rest where ns: "ns = (str_bytes nm @ ext) @ 0 # rest"
    using append_take_drop_id [of "length nm + length ext + 1" ns] by (metis append.assoc append_Cons append_Nil)
  have nz: "0 \<notin> set (str_bytes nm @ ext)"
    using e(1) assms(2) by (auto simp: BAK_PTN_NAME_EXT_def str_bytes_def)
  have "takeWhile (\<lambda>x. x \<noteq> 0) ns = str_bytes nm @ ext"
    unfolding ns using nz by (subst takeWhile_append2) auto
  then show ?thesis using e(1) by blast
qed

text \<open>What the list of names has to be like for the swaps not to get into each other's way.\<close>

locale chain_names =
  fixes nms :: "string list"
  assumes apart: "distinct (concat (map (\<lambda>nm. [str_bytes nm, str_bytes nm @ str_bytes BAK_PTN_NAME_EXT]) nms))"
    and short: "nm \<in> set nms \<Longrightarrow> length nm \<le> 32"
    and no_nul: "nm \<in> set nms \<Longrightarrow> 0 \<notin> set (str_bytes nm)"
begin

lemma apart_names:
  assumes "nm \<in> set nms" "nm' \<in> set nms" "str_bytes nm @ ext = str_bytes nm' @ ext'"
    "ext \<in> {[], str_bytes BAK_PTN_NAME_EXT}" "ext' \<in> {[], str_bytes BAK_PTN_NAME_EXT}"
  shows "nm = nm'"
proof -
  have "distinct (concat (map (\<lambda>x. [f x, g x]) xs)) \<Longrightarrow> x \<in> set xs \<Longrightarrow> y \<in> set xs \<Longrightarrow>
      u \<in> {f x, g x} \<Longrightarrow> u \<in> {f y, g y} \<Longrightarrow> x = y"
    for f g :: "string \<Rightarrow> bytes" and xs x y u
    by (induction xs) auto
  from this [OF apart assms(1,2), of "str_bytes nm @ ext"] show ?thesis using assms(3-5) by auto
qed

lemma is_named_unique:
  assumes "nm \<in> set nms" "nm' \<in> set nms" "is_named nm ns" "is_named nm' ns"
  shows "nm = nm'"
proof -
  obtain ext where e: "ext \<in> {[], str_bytes BAK_PTN_NAME_EXT}" "takeWhile (\<lambda>x. x \<noteq> 0) ns = str_bytes nm @ ext"
    using is_named_takeWhile [OF assms(3) no_nul [OF assms(1)]] by blast
  obtain ext' where e': "ext' \<in> {[], str_bytes BAK_PTN_NAME_EXT}" "takeWhile (\<lambda>x. x \<noteq> 0) ns = str_bytes nm' @ ext'"
    using is_named_takeWhile [OF assms(4) no_nul [OF assms(2)]] by blast
  show ?thesis
    by (rule apart_names [OF assms(1,2) trans [OF e(2) [symmetric] e'(2)] e(1) e'(1)])
qed

lemma pairs_disjoint:
  assumes "nm \<in> set nms" "nm' \<in> set nms" "nm \<noteq> nm'" "pair_of k c arr nm = Some ij" "pair_of k c arr nm' = Some mn"
  shows "{fst ij, snd ij} \<inter> {fst mn, snd mn} = {}"
proof -
  have ne: "x \<noteq> y" if "ematch k nm arr x" "ematch k nm' arr y" for x y
    using that is_named_unique [OF assms(1,2)] assms(3) unfolding ematch_def by fast
  note m = pair_of_Some(2,3) [OF assms(4)] pair_of_Some(2,3) [OF assms(5)]
  show ?thesis using ne [OF m(1,3)] ne [OF m(1,4)] ne [OF m(2,3)] ne [OF m(2,4)] by simp
qed

lemma same_names_xchg:
  assumes nm: "nm \<in> set nms" and k: "128 \<le> k" and p: "pair_of k c arr nm = Some ij"
    and s: "same_names (set nms) k c arr arr'"
  shows "same_names (set nms) k c arr (xchg k ij arr')"
proof -
  note t = pair_of_Some(1) [OF p]
  have len: "length arr' = c * k" using s by (simp add: same_names_def)
  have "ematch k nm' (xchg k ij arr') i = ematch k nm' arr i" if "nm' \<in> set nms" "i < c" for nm' i
  proof -
    have "ematch k nm' arr (turn ij i) = ematch k nm' arr i"
      using pair_of_Some(2,3) [OF p] is_named_unique [OF nm that(1)] unfolding turn_def ematch_def by auto
    moreover have "turn ij i < c" using t that(2) by (simp add: turn_def two_of_def)
    ultimately show ?thesis
      using ematch_xchg [OF t k len that(2)] s that(1) by (simp add: same_names_def)
  qed
  then show ?thesis using length_xchg [OF t k len] len by (simp add: same_names_def)
qed

lemma same_names_move:
  "nm \<in> set nms \<Longrightarrow> 128 \<le> k \<Longrightarrow> same_names (set nms) k c arr arr' \<Longrightarrow>
   same_names (set nms) k c arr (move u k c arr nm arr')"
  using same_names_xchg by (auto simp: move_def split: option.splits)

lemma same_names_fold:
  "set xs \<subseteq> set nms \<Longrightarrow> 128 \<le> k \<Longrightarrow> same_names (set nms) k c arr arr' \<Longrightarrow>
   same_names (set nms) k c arr (fold (move u k c arr) xs arr')"
  by (induction xs arbitrary: arr') (auto simp: same_names_move)

lemma swap_names_fold:
  assumes "set xs \<subseteq> set nms" "128 \<le> unat psize" "same_names (set nms) (unat psize) c ref arr"
  shows "swap_names u psize xs (b, arr) =
    Some (b \<and> \<not> (\<exists>nm \<in> set xs. moves u (unat psize) c ref nm), fold (move u (unat psize) c ref) xs arr)"
  using assms
proof (induction xs arbitrary: b arr)
  case (Cons nm xs)
  have p: "pair_of (unat psize) c arr nm = pair_of (unat psize) c ref nm"
    using Cons.prems same_names_pair by auto
  have "swap_step u psize nm (b, arr) = Some (b \<and> \<not> moves u (unat psize) c ref nm, move u (unat psize) c ref nm arr)"
    using swap_step_move [of psize arr c nm u b] Cons.prems short by (simp add: same_names_def moves_def move_def p)
  then show ?case
    using Cons.IH [of "move u (unat psize) c ref nm arr" "b \<and> \<not> moves u (unat psize) c ref nm"] Cons.prems same_names_move
    by simp
qed simp

lemma move_commute:
  assumes "nm \<in> set nms" "nm' \<in> set nms" "128 \<le> k" "length arr = c * k"
  shows "move u k c ref nm (move u k c ref nm' arr) = move u k c ref nm' (move u k c ref nm arr)"
proof (cases "nm = nm'")
  case False
  have "xchg k ij (xchg k mn arr) = xchg k mn (xchg k ij arr)"
    if "pair_of k c ref nm = Some ij" "pair_of k c ref nm' = Some mn" for ij mn
    using that by (intro xchg_commute [OF pair_of_Some(1) pair_of_Some(1) assms(3,4)] pairs_disjoint [OF assms(1,2) False])
  then show ?thesis by (cases "pair_of k c ref nm"; cases "pair_of k c ref nm'") (simp_all add: move_def, blast)
qed simp

lemma move_move:
  "128 \<le> k \<Longrightarrow> length arr = c * k \<Longrightarrow> move u k c ref nm (move u k c ref nm arr) = arr"
  using xchg_xchg [OF pair_of_Some(1)] by (auto simp: move_def split: option.splits)

lemma length_move:
  "128 \<le> k \<Longrightarrow> length arr = c * k \<Longrightarrow> length (move u k c ref nm arr) = c * k"
  using length_xchg [OF pair_of_Some(1)] by (auto simp: move_def split: option.splits)

lemma length_fold_move:
  "128 \<le> k \<Longrightarrow> length arr = c * k \<Longrightarrow> length (fold (move u k c ref) xs arr) = c * k"
  by (induction xs arbitrary: arr) (auto simp: length_move)

lemma fold_move_commute:
  "nm \<in> set nms \<Longrightarrow> set xs \<subseteq> set nms \<Longrightarrow> 128 \<le> k \<Longrightarrow> length arr = c * k \<Longrightarrow>
   move u k c ref nm (fold (move u k c ref) xs arr) = fold (move u k c ref) xs (move u k c ref nm arr)"
  by (induction xs arbitrary: arr) (auto simp: length_move move_commute)

lemma fold_move_twice:
  "set xs \<subseteq> set nms \<Longrightarrow> 128 \<le> k \<Longrightarrow> length arr = c * k \<Longrightarrow>
   fold (move u k c ref) xs (fold (move u k c ref) xs arr) = arr"
  by (induction xs arbitrary: arr) (simp_all add: length_move length_fold_move fold_move_commute [symmetric] move_move)

text \<open>An entry that is in none of the pairs stays.\<close>

lemma segment_move:
  assumes "128 \<le> k" "length arr = c * k" "l < c"
    "\<And>ij. \<not> (u \<and> is_xbl nm) \<Longrightarrow> pair_of k c ref nm = Some ij \<Longrightarrow> l \<noteq> fst ij \<and> l \<noteq> snd ij"
  shows "segment (l * k) 128 (move u k c ref nm arr) = segment (l * k) 128 arr"
  using assms segment_xchg [OF pair_of_Some(1) assms(1,2,3), of k ref nm]
  by (cases "pair_of k c ref nm") (auto simp: move_def turn_def)

lemma segment_fold_move:
  assumes "128 \<le> k" "length arr = c * k" "l < c"
    "\<And>nm ij. nm \<in> set xs \<Longrightarrow> \<not> (u \<and> is_xbl nm) \<Longrightarrow> pair_of k c ref nm = Some ij \<Longrightarrow> l \<noteq> fst ij \<and> l \<noteq> snd ij"
  shows "segment (l * k) 128 (fold (move u k c ref) xs arr) = segment (l * k) 128 arr"
  using assms
proof (induction xs arbitrary: arr)
  case (Cons nm xs)
  have "segment (l * k) 128 (move u k c ref nm arr) = segment (l * k) 128 arr"
    using Cons.prems by (intro segment_move) auto
  moreover have "segment (l * k) 128 (fold (move u k c ref) xs (move u k c ref nm arr)) = segment (l * k) 128 (move u k c ref nm arr)"
    by (rule Cons.IH) (use Cons.prems in \<open>auto simp: length_move\<close>)
  ultimately show ?case by simp
qed simp

text \<open>The two entries of a name change places.\<close>

lemma fold_move_pair:
  assumes nm: "nm \<in> set nms" and dis: "distinct nms" and k: "128 \<le> k" and len: "length arr = c * k"
    and p: "pair_of k c arr nm = Some ij" and u: "\<not> (u \<and> is_xbl nm)" and l: "l \<in> {fst ij, snd ij}"
  shows "segment (l * k) 128 (fold (move u k c arr) nms arr) = segment (turn ij l * k) 128 arr"
proof -
  obtain ys zs where yz: "nms = ys @ nm # zs" using nm by (auto dest: split_list)
  have other: "segment (m * k) 128 (fold (move u k c arr) xs a) = segment (m * k) 128 a"
    if "set xs \<subseteq> set nms - {nm}" "m \<in> {fst ij, snd ij}" "length a = c * k" for xs m a
  proof (rule segment_fold_move [OF k that(3)])
    show "m < c" using pair_of_Some(1) [OF p] that(2) by (auto simp: two_of_def)
    fix nm' mn assume n: "nm' \<in> set xs" "pair_of k c arr nm' = Some mn"
    have "nm' \<in> set nms" "nm \<noteq> nm'" using n(1) that(1) by auto
    from pairs_disjoint [OF nm this p n(2)] show "m \<noteq> fst mn \<and> m \<noteq> snd mn" using that(2) by auto
  qed
  have t: "turn ij l \<in> {fst ij, snd ij}" "l < c" using l pair_of_Some(1) [OF p] by (auto simp: turn_def two_of_def)
  have ly: "length (fold (move u k c arr) ys arr) = c * k" by (rule length_fold_move [OF k len])
  have "segment (l * k) 128 (fold (move u k c arr) nms arr) =
      segment (l * k) 128 (move u k c arr nm (fold (move u k c arr) ys arr))"
    using other [OF _ l length_move [OF k ly], of zs] yz dis by auto
  also have "\<dots> = segment (turn ij l * k) 128 (fold (move u k c arr) ys arr)"
    using p u segment_xchg [OF pair_of_Some(1) [OF p] k ly t(2)] by (auto simp: move_def)
  also have "\<dots> = segment (turn ij l * k) 128 arr"
    using other [OF _ t(1) len, of ys] yz dis by auto
  finally show ?thesis .
qed

end

interpretation swap_list: chain_names PTN_SWAP_LIST
proof
  show "distinct (concat (map (\<lambda>nm. [str_bytes nm, str_bytes nm @ str_bytes BAK_PTN_NAME_EXT]) PTN_SWAP_LIST))"
    by code_simp
  have "list_all (\<lambda>nm. length nm \<le> 32 \<and> 0 \<notin> set (str_bytes nm)) PTN_SWAP_LIST" by code_simp
  then show "nm \<in> set PTN_SWAP_LIST \<Longrightarrow> length nm \<le> 32" "nm \<in> set PTN_SWAP_LIST \<Longrightarrow> 0 \<notin> set (str_bytes nm)" for nm
    by (auto simp: list_all_iff)
qed

lemma distinct_swap_list: "distinct PTN_SWAP_LIST"
  by code_simp

lemma chain_swap_fold:
  assumes "128 \<le> unat psize" "length arr = c * unat psize"
  shows "gpt_boot_chain_swap u arr psize =
    Some (if \<exists>nm \<in> set PTN_SWAP_LIST. moves u (unat psize) c arr nm then 0 else 1,
          fold (move u (unat psize) c arr) PTN_SWAP_LIST arr)"
proof -
  have "same_names (set PTN_SWAP_LIST) (unat psize) c arr arr" using assms(2) by (simp add: same_names_def)
  from swap_list.swap_names_fold [OF subset_refl assms(1) this, of u True] show ?thesis
    by (simp add: gpt_boot_chain_swap_def)
qed

lemma chain_swap_again:
  assumes k: "128 \<le> unat psize" and len: "length arr = c * unat psize" and e: "gpt_boot_chain_swap u arr psize = Some (r, arr')"
  shows "gpt_boot_chain_swap u arr' psize = Some (r, arr)"
proof -
  let ?N = "set PTN_SWAP_LIST" and ?k = "unat psize"
  have arr': "arr' = fold (move u ?k c arr) PTN_SWAP_LIST arr" and r: "r = (if \<exists>nm \<in> ?N. moves u ?k c arr nm then 0 else 1)"
    using e chain_swap_fold [OF k len] by simp_all
  have "same_names ?N ?k c arr arr" using len by (simp add: same_names_def)
  then have s: "same_names ?N ?k c arr arr'"
    unfolding arr' by (rule swap_list.same_names_fold [OF subset_refl k])
  have "swap_names u psize PTN_SWAP_LIST (True, arr') = Some (\<not> (\<exists>nm \<in> ?N. moves u ?k c arr nm), arr)"
    using swap_list.swap_names_fold [OF subset_refl k s, of u True] swap_list.fold_move_twice [OF subset_refl k len] arr' by simp
  then show ?thesis by (simp add: gpt_boot_chain_swap_def r)
qed

end
