(* ===== verification/GptLive.thy ===== *)
theory GptLive
  imports GptSafe GptSwap
begin

text \<open>
  When no call fails, the operations on a device with a proper layout return, access nothing outside of their
  buffers and report success; with the effects of \<^verbatim>\<open>GptSafe\<close> this gives what every stage of an update leaves on the device.
\<close>

definition nofail :: "os \<Rightarrow> bool" where
  "nofail s \<longleftrightarrow> (\<forall>n. \<not> fails s n) \<and> whole s"

text \<open>The entries of the primary table can be searched: there are whole entries and each has room for a name.\<close>

definition searchable :: "32 word \<Rightarrow> bytes \<Rightarrow> bool" where
  "searchable bs d \<longleftrightarrow>
     (case geometry bs (hdr_at bs PRIMARY_GPT d) of (_, _, Some (psize, n)) \<Rightarrow> 128 \<le> unat psize \<and> unat n mod unat psize = 0
      | _ \<Rightarrow> False)"

lemma wrote_nofail: "wrote p d ds s s' \<Longrightarrow> nofail s \<Longrightarrow> nofail s'"
  by (simp add: wrote_def nofail_def whole_def)

lemma call_nofail: "nofail s \<Longrightarrow> sys_call s = (False, s\<lparr>calls := calls s + 1\<rparr>)"
  by (simp add: sys_call_def nofail_def whole_def)

lemma ioctl_returns: "nofail s \<Longrightarrow> open_on fd p d s \<Longrightarrow> \<exists>s'. ioctl_BLKSSZGET fd s = (0, blksz s p, s')"
  by (simp add: ioctl_BLKSSZGET_def call_nofail open_on_def dev_of_def)

lemma malloc_returns: "nofail s \<Longrightarrow> \<exists>b s'. sys_malloc n s = (Some b, s')"
  by (simp add: sys_malloc_def call_nofail)

lemma calloc_returns: "nofail s \<Longrightarrow> \<exists>b s'. sys_calloc n s = (Some b, s')"
  by (simp add: sys_calloc_def call_nofail)

lemma lseek_end_returns: "nofail s \<Longrightarrow> open_on fd p d s \<Longrightarrow> \<exists>s'. lseek64_end fd s = (int (length d), s')"
  by (simp add: lseek64_end_def call_nofail open_on_def dev_of_def)

lemma lseek_set_returns:
  "nofail s \<Longrightarrow> open_on fd p d s \<Longrightarrow> n \<le> length d \<Longrightarrow> \<exists>s'. lseek64_set fd (int n) s = (int n, s')"
  by (simp add: lseek64_set_def call_nofail open_on_def dev_of_def)

lemma read_returns:
  assumes n: "nofail s" and o: "open_on fd p d s" and b: "off + len \<le> length d" "length buf = len"
  shows "\<exists>b s'. blk_rw fd False (int off) buf len s = Some (0, b, s')"
proof -
  have "off \<le> length d" using b(1) by simp
  then obtain s1 where l: "lseek64_set fd (int off) s = (int off, s1)" using lseek_set_returns [OF n o] by blast
  have w: "wrote p d [] s s1" using wrote_lseek_set [OF o l] by simp
  note n1 = wrote_nofail [OF w n] and o1 = wrote_open_on_Nil [OF w o]
  then show ?thesis
    using l b by (simp add: blk_rw_def sys_read_def call_nofail open_on_def whole_def dev_of_def Let_def)
qed

lemma write_returns:
  assumes n: "nofail s" and o: "open_on fd p d s" and b: "off + len \<le> length d" "length buf = len"
  shows "\<exists>b s'. blk_rw fd True (int off) buf len s = Some (0, b, s')"
proof -
  have "off \<le> length d" using b(1) by simp
  then obtain s1 where l: "lseek64_set fd (int off) s = (int off, s1)" using lseek_set_returns [OF n o] by blast
  have w: "wrote p d [] s s1" using wrote_lseek_set [OF o l] by simp
  note n1 = wrote_nofail [OF w n] and o1 = wrote_open_on_Nil [OF w o]
  then show ?thesis
    using l b
    by (auto simp: blk_rw_def sys_write_def sys_fsync_def sys_call_def nofail_def whole_def open_on_def dev_of_def Let_def)
qed

lemma read_header_returns:
  assumes n: "nofail s" and o: "open_on fd p d s" and l: "layout (blksz s p) d"
  shows "\<exists>s'. read_header fd g s = Some (Some (blksz s p, int (hdr_off (blksz s p) g d), hdr_at (blksz s p) g d), s')"
proof -
  let ?bs = "blksz s p"
  obtain s1 where i: "ioctl_BLKSSZGET fd s = (0, ?bs, s1)" using ioctl_returns [OF n o] by blast
  have w1: "wrote p d [] s s1" using wrote_ioctl [OF o i] by simp
  obtain b s2 where m: "sys_malloc (unat ?bs) s1 = (Some b, s2)" using malloc_returns [OF wrote_nofail [OF w1 n]] by blast
  have w2: "wrote p d [] s s2" by (rule wrote_trans_Nil [OF w1 wrote_malloc [OF wrote_open_on_Nil [OF w1 o] m]])
  note n2 = wrote_nofail [OF w2 n] and o2 = wrote_open_on_Nil [OF w2 o]
  have len: "unat ?bs \<le> length d" using layout_hdr_off [OF l, of g] by simp
  obtain s3 where f: "(case g of PRIMARY_GPT \<Rightarrow> (uint ?bs, s2)
      | SECONDARY_GPT \<Rightarrow> (let (fin, s) = lseek64_end fd s2 in (fin - uint ?bs, s))) = (int (hdr_off ?bs g d), s3)"
    using lseek_end_returns [OF n2 o2] len by (cases g) (auto simp: of_nat_diff)
  have w3: "wrote p d [] s s3" using wrote_trans_Nil [OF w2] header_offset_effect [OF f o2 len] by blast
  obtain r b' s4 where "blk_rw fd False (int (hdr_off ?bs g d)) b (unat ?bs) s3 = Some (0, b', s4)"
    using read_returns [OF wrote_nofail [OF w3 n] wrote_open_on_Nil [OF w3 o] layout_hdr_off [OF l] malloc_length [OF m]] by blast
  then have "\<exists>x. read_header fd g s = Some (Some x, s4)"
    using i m f by (simp add: read_header_def Let_def)
  then show ?thesis using read_header_effect [OF _ o l] by blast
qed

lemma GET_4_Some: "i + 4 \<le> length b \<Longrightarrow> \<exists>v. GET_4_BYTES b i = Some v"
  by (simp add: GET_4_BYTES_def)

lemma layout_size:
  assumes "layout bs d"
  shows "\<exists>n. GET_4_BYTES (hdr_at bs g d) HEADER_SIZE_OFFSET = Some n \<and> unat n \<le> unat bs" "92 \<le> unat bs"
  using assms by (auto elim!: layoutE simp: geometry_def) (cases g; simp)

lemma header_state_returns:
  assumes "layout bs d"
  shows "\<exists>st. header_state crc32 (hdr_at bs g d) = Some st"
proof -
  obtain n where n: "GET_4_BYTES (hdr_at bs g d) HEADER_SIZE_OFFSET = Some n" "unat n \<le> unat bs"
    using layout_size(1) [OF assms] by blast
  obtain v where "GET_4_BYTES (hdr_at bs g d) HEADER_CRC_OFFSET = Some v"
    using GET_4_Some [of HEADER_CRC_OFFSET "hdr_at bs g d"] layout_size(2) [OF assms] assms by auto
  then show ?thesis
    using n layout_size(2) [OF assms] assms by (simp add: header_state_def PUT_4_overwrite crc_of_def)
qed

lemma get_state_returns:
  assumes "nofail s" "open_on fd p d s" "layout (blksz s p) d"
  shows "\<exists>st s'. gpt_get_state crc32 fd g s = Some (0, st, s')"
  using read_header_returns [OF assms, of g] header_state_returns [OF assms(3), of crc32 g]
  by (auto simp: gpt_get_state_def)

lemma mark_header_returns:
  assumes "layout bs d" "st \<noteq> GPT_BAD_CRC"
  shows "\<exists>h'. marked crc32 st (hdr_at bs g d) h'"
proof -
  let ?h = "hdr_at bs g d"
  obtain m where m: "mark_header st ?h = Some (Some m)"
    using assms layout_size(2) [OF assms(1)] by (cases st) (auto simp: mark_header_def)
  obtain n where n: "GET_4_BYTES m HEADER_SIZE_OFFSET = Some n" "unat n \<le> length m"
    using layout_size(1) [OF assms(1), of g] mark_header_GET [OF m, of HEADER_SIZE_OFFSET] mark_header_length [OF m] assms(1) by auto
  have "20 \<le> length m" using mark_header_length [OF m] layout_size(2) [OF assms(1)] assms(1) by simp
  then show ?thesis using seal_header_Some [OF _ n(2)] m n(1) unfolding marked_def by blast
qed

lemma set_state_returns:
  assumes n: "nofail s" and o: "open_on fd p d s" and l: "layout (blksz s p) d" and st: "st \<noteq> GPT_BAD_CRC"
  shows "\<exists>s'. gpt_set_state crc32 fd g st s = Some (0, s')"
proof -
  let ?bs = "blksz s p"
  obtain s1 where r: "read_header fd g s = Some (Some (?bs, int (hdr_off ?bs g d), hdr_at ?bs g d), s1)"
    using read_header_returns [OF n o l] by blast
  have w1: "wrote p d [] s s1" using read_header_effect [OF r o l] by simp
  obtain h' where m: "marked crc32 st (hdr_at ?bs g d) h'" using mark_header_returns [OF l st] by blast
  have len: "length h' = unat ?bs" using markedD(1) [OF m] length_hdr_at [OF l] by (rule trans)
  obtain b s2 where "blk_rw fd True (int (hdr_off ?bs g d)) h' (unat ?bs) s1 = Some (0, b, s2)"
    using write_returns [OF wrote_nofail [OF w1 n] wrote_open_on_Nil [OF w1 o] layout_hdr_off [OF l] len] by blast
  then show ?thesis using r m by (auto simp: gpt_set_state_def marked_def)
qed

lemma gpt2_write_returns:
  assumes n: "nofail s" and o: "open_on fd p d s" and bs: "bs = blksz s p" and l: "layout bs d"
    and g: "geometry bs (hdr_at bs SECONDARY_GPT d) = (Some hs, Some ss, Some (es, na))" and a: "length arr = unat na"
  shows "\<exists>s'. gpt2_write crc32 fd bs (int (hdr_off bs SECONDARY_GPT d)) hs ss (hdr_at bs SECONDARY_GPT d) arr na s = Some (0, s')"
proof -
  let ?h = "hdr_at bs SECONDARY_GPT d" and ?off = "hdr_off bs SECONDARY_GPT d"
  obtain B: "92 \<le> unat bs" "unat bs \<le> MAX_RW_COUNT" "unat hs \<le> unat bs" "unat ss + unat na \<le> length d" "unat ss < 2 ^ 63"
    using g by (rule_tac layoutE [OF l]) auto
  obtain m where m: "PUT_4_BYTES ?h PARTITION_CRC_OFFSET (crc32 arr) = Some m"
    using B(1) l by (simp add: PUT_4_overwrite)
  have lm: "length m = unat bs" using PUT_4_length [OF m] l by simp
  obtain h' where h': "seal_header crc32 hs m = Some h'" using seal_header_Some [of m hs crc32] lm B by auto
  have len: "length h' = unat bs" using seal_header_length [OF h'] lm by simp
  obtain b s1 where w: "blk_rw fd True (int ?off) h' (unat bs) s = Some (0, b, s1)"
    using write_returns [OF n o layout_hdr_off [OF l] len] by blast
  have "0 < unat bs" using B(1) by simp
  then have w1: "wrote p d [overwrite ?off h' d] s s1"
    using wrote_write_block [OF w o len _ B(2)] layout_hdr_off [OF l, of SECONDARY_GPT] bs by (simp del: hdr_off.simps)
  have ld: "length (overwrite ?off h' d) = length d" using layout_hdr_off [OF l, of SECONDARY_GPT] len by (simp del: hdr_off.simps)
  have o1: "open_on fd p (overwrite ?off h' d) s1" using wrote_open_on [OF w1 o] by simp
  obtain b2 s2 where "blk_rw fd True (int (unat ss)) arr (unat na) s1 = Some (0, b2, s2)"
    using write_returns [OF wrote_nofail [OF w1 n] o1 _ a, of "unat ss"] B(4) ld by auto
  then show ?thesis
    using m h' w a sint_below [OF B(5)] by (simp add: gpt2_write_def crc_of_def del: hdr_off.simps)
qed

lemma gpt2_secondary_returns:
  assumes n: "nofail s" and o: "open_on fd p d s" and bs: "bs = blksz s p" and l: "layout bs d" and len: "length h = unat bs"
    and g: "geometry bs (hdr_at bs SECONDARY_GPT d) = (Some hs, Some ss, Some (es, na))" and a: "length pa = unat na"
    and c: "chain_entries (gpt_utils_is_ufs_device s) boot pa psize = Some (r0, arr)"
  shows "\<exists>s'. gpt2_secondary crc32 fd boot bs (int (hdr_off bs SECONDARY_GPT d)) h pa psize na s = Some (r0, s')"
proof -
  let ?off = "hdr_off bs SECONDARY_GPT d"
  obtain b s1 where w: "blk_rw fd False (int ?off) h (unat bs) s = Some (0, b, s1)"
    using read_returns [OF n o layout_hdr_off [OF l] len] by blast
  have "unat bs \<le> MAX_RW_COUNT" using l by (rule layoutE)
  then have w1: "wrote p d [] s s1" "b = hdr_at bs SECONDARY_GPT d"
    using wrote_read [OF w o len _] layout_hdr_off [OF l, of SECONDARY_GPT] by (simp_all add: hdr_at_def del: hdr_off.simps)
  have b1: "bs = blksz s1 p" and u: "gpt_utils_is_ufs_device s1 = gpt_utils_is_ufs_device s"
    using w1(1) bs by (simp_all add: wrote_def gpt_utils_is_ufs_device_def)
  have la: "length arr = unat na" using chain_entries_length [OF c] a by simp
  obtain s2 where w2: "gpt2_write crc32 fd bs (int ?off) hs ss (hdr_at bs SECONDARY_GPT d) arr na s1 = Some (0, s2)"
    using gpt2_write_returns [OF wrote_nofail [OF w1(1) n] wrote_open_on_Nil [OF w1(1) o] b1 l g la, of crc32] by blast
  show ?thesis
  proof (cases "r0 = 0")
    case True
    then show ?thesis
      using w w1(2) w2 c g u
      by (cases boot) (simp_all add: gpt2_secondary_def geometry_def chain_entries_def del: hdr_off.simps)
  next
    case False
    then show ?thesis
      using w w1(2) c g u
      by (cases boot) (simp_all add: gpt2_secondary_def geometry_def chain_entries_def del: hdr_off.simps)
  qed
qed

lemma gpt2_entries_returns:
  assumes n: "nofail s" and o: "open_on fd p d s" and bs: "bs = blksz s p" and l: "layout bs d"
    and gp: "geometry bs (hdr_at bs PRIMARY_GPT d) = (Some hp, Some sp, Some (psize, na))"
    and ok: "pentries_ok crc32 bs PRIMARY_GPT d"
    and c: "chain_entries (gpt_utils_is_ufs_device s) boot (pentries_at bs PRIMARY_GPT d) psize = Some (r0, arr)"
  shows "\<exists>s'. gpt2_entries crc32 fd boot bs (int (hdr_off bs SECONDARY_GPT d)) (hdr_at bs PRIMARY_GPT d) s = Some (r0, s')"
proof -
  obtain hs ss es where g: "geometry bs (hdr_at bs SECONDARY_GPT d) = (Some hs, Some ss, Some (es, na))"
    and B: "unat na \<le> MAX_RW_COUNT" "unat sp + unat na \<le> length d" "unat sp < 2 ^ 63"
    using gp by (rule_tac layoutE [OF l]) auto
  obtain b s1 where m: "sys_calloc (unat na) s = (Some b, s1)" using calloc_returns [OF n] by blast
  note w1 = wrote_calloc [OF o m]
  note o1 = wrote_open_on_Nil [OF w1 o]
  obtain pa s2 where w: "blk_rw fd False (int (unat sp)) b (unat na) s1 = Some (0, pa, s2)"
    using read_returns [OF wrote_nofail [OF w1 n] o1 B(2) calloc_length [OF m]] by blast
  have w2: "wrote p d [] s1 s2" "pa = pentries_at bs PRIMARY_GPT d" "length pa = unat na"
    using wrote_read [OF w o1 calloc_length [OF m] _ B(1)] B(2) by (simp_all add: pentries_at_def gp)
  note w02 = wrote_trans_Nil [OF w1 w2(1)]
  have b2: "bs = blksz s2 p" and u: "gpt_utils_is_ufs_device s2 = gpt_utils_is_ufs_device s"
    using w02 bs by (simp_all add: wrote_def gpt_utils_is_ufs_device_def)
  have c2: "chain_entries (gpt_utils_is_ufs_device s2) boot pa psize = Some (r0, arr)" using c u w2(2) by simp
  obtain s3 where "gpt2_secondary crc32 fd boot bs (int (hdr_off bs SECONDARY_GPT d)) (hdr_at bs PRIMARY_GPT d) pa psize na s2 = Some (r0, s3)"
    using gpt2_secondary_returns [OF wrote_nofail [OF w02 n] wrote_open_on_Nil [OF w02 o] b2 l length_hdr_at [OF l] g w2(3) c2] by blast
  moreover have "take (unat na) pa = pa" using w2(3) by simp
  ultimately show ?thesis
    using m w gp ok w2(2,3) sint_below [OF B(3)]
    by (simp add: gpt2_entries_def geometry_def crc_of_def pentries_ok_def del: hdr_off.simps)
qed

lemma set_boot_chain_returns:
  assumes n: "nofail s" and o: "open_on fd p d s" and bs: "bs = blksz s p" and l: "layout bs d"
    and gp: "geometry bs (hdr_at bs PRIMARY_GPT d) = (Some hp, Some sp, Some (psize, na))"
    and ok: "pentries_ok crc32 bs PRIMARY_GPT d"
    and c: "chain_entries (gpt_utils_is_ufs_device s) boot (pentries_at bs PRIMARY_GPT d) psize = Some (r0, arr)"
  shows "\<exists>s'. gpt2_set_boot_chain crc32 fd boot s = Some (r0, s')"
proof -
  obtain s1 where i: "ioctl_BLKSSZGET fd s = (0, bs, s1)" using ioctl_returns [OF n o] bs by blast
  have w1: "wrote p d [] s s1" using wrote_ioctl [OF o i] by simp
  obtain b s2 where m: "sys_malloc (unat bs) s1 = (Some b, s2)" using malloc_returns [OF wrote_nofail [OF w1 n]] by blast
  have w2: "wrote p d [] s s2" by (rule wrote_trans_Nil [OF w1 wrote_malloc [OF wrote_open_on_Nil [OF w1 o] m]])
  obtain s3 where f: "lseek64_end fd s2 = (int (length d), s3)"
    using lseek_end_returns [OF wrote_nofail [OF w2 n] wrote_open_on_Nil [OF w2 o]] by blast
  have w3: "wrote p d [] s s3" using wrote_trans_Nil [OF w2] wrote_lseek_end [OF wrote_open_on_Nil [OF w2 o] f] by blast
  note o3 = wrote_open_on_Nil [OF w3 o]
  have B: "unat bs \<le> MAX_RW_COUNT" "unat bs + unat bs \<le> length d" using l layout_hdr_off [OF l, of PRIMARY_GPT] by (auto elim: layoutE)
  obtain h s4 where w: "blk_rw fd False (int (unat bs)) b (unat bs) s3 = Some (0, h, s4)"
    using read_returns [OF wrote_nofail [OF w3 n] o3 B(2) malloc_length [OF m]] by blast
  have h: "wrote p d [] s3 s4" "h = hdr_at bs PRIMARY_GPT d"
    using wrote_read [OF w o3 malloc_length [OF m] _ B(1)] B(2) by (simp_all add: hdr_at_def)
  note w4 = wrote_trans_Nil [OF w3 h(1)]
  have b4: "bs = blksz s4 p" and u: "gpt_utils_is_ufs_device s4 = gpt_utils_is_ufs_device s"
    using w4 bs by (simp_all add: wrote_def gpt_utils_is_ufs_device_def)
  have off: "int (length d) - uint bs = int (hdr_off bs SECONDARY_GPT d)" using B(2) by (simp add: of_nat_diff)
  have c4: "chain_entries (gpt_utils_is_ufs_device s4) boot (pentries_at bs PRIMARY_GPT d) psize = Some (r0, arr)"
    using c u by simp
  obtain s5 where "gpt2_entries crc32 fd boot bs (int (hdr_off bs SECONDARY_GPT d)) h s4 = Some (r0, s5)"
    using gpt2_entries_returns [OF wrote_nofail [OF w4 n] wrote_open_on_Nil [OF w4 o] b4 l gp ok c4] h(2) by blast
  moreover have "\<not> int (length d) < uint bs" using off by linarith
  ultimately show ?thesis using i m f w by (simp add: gpt2_set_boot_chain_def off del: hdr_off.simps)
qed

section \<open>The stages\<close>

text \<open>The state between two calls: no call fails, the device holds \<open>d\<close>, and it is not a UFS device.\<close>

definition ready :: "32 word \<Rightarrow> string \<Rightarrow> bytes \<Rightarrow> os \<Rightarrow> bool" where
  "ready bs p d s \<longleftrightarrow>
     nofail s \<and> devs s p = Some d \<and> blksz s p = bs \<and> 0 \<le> next_fd s \<and> \<not> gpt_utils_is_ufs_device s"

lemma prepare_runs:
  assumes s: "ready bs p d s" and l: "layout bs d"
    and g: "header_state crc32 (hdr_at bs PRIMARY_GPT d) = Some g1" "header_state crc32 (hdr_at bs SECONDARY_GPT d) = Some g2"
    and st: "internal_stage g1 g2 = Some stage"
    and run: "\<And>fd s2. open_on fd p d s2 \<Longrightarrow> ready bs p d s2 \<Longrightarrow>
      \<exists>s3 ds. run_stage crc32 stage False fd s2 = Some (0, s3) \<and> wrote p d ds s2 s3 \<and> Q (last (d # ds))"
  shows "\<exists>s' d'. prepare_partitions crc32 stage (Some p) s = Some (0, s') \<and> ready bs p d' s' \<and> Q d'"
proof -
  obtain fd s1 where op: "sys_open p s = (fd, s1)" by (rule prod.exhaust)
  have fd: "fd = next_fd s" "0 \<le> fd" and r1: "ready bs p d s1" and o1: "open_on fd p d s1"
    using op s by (auto simp: sys_open_def sys_call_def ready_def nofail_def whole_def open_on_def gpt_utils_is_ufs_device_def)
  have keep: "ready bs p (last (d # ds)) s''" if "wrote p d ds s' s''" "ready bs p d s'" for ds s' s''
    using that by (auto simp: ready_def wrote_def nofail_def whole_def gpt_utils_is_ufs_device_def)
  have l1: "layout (blksz s1 p) d" and n1: "nofail s1" using l r1 by (simp_all add: ready_def)
  obtain h1 s2 where p: "gpt_get_state crc32 fd PRIMARY_GPT s1 = Some (0, h1, s2)" using get_state_returns [OF n1 o1 l1] by blast
  have w2: "wrote p d [] s1 s2" "h1 = g1" using get_state_effect [OF p o1 l1] g(1) r1 by (auto simp: ready_def)
  note r2 = keep [OF w2(1) r1, simplified] and o2 = wrote_open_on_Nil [OF w2(1) o1]
  have l2: "layout (blksz s2 p) d" and n2: "nofail s2" using l r2 by (simp_all add: ready_def)
  obtain h2 s3 where q: "gpt_get_state crc32 fd SECONDARY_GPT s2 = Some (0, h2, s3)" using get_state_returns [OF n2 o2 l2] by blast
  have w3: "wrote p d [] s2 s3" "h2 = g2" using get_state_effect [OF q o2 l2] g(2) r2 by (auto simp: ready_def)
  note r3 = keep [OF w3(1) r2, simplified] and o3 = wrote_open_on_Nil [OF w3(1) o2]
  obtain s4 ds where e: "run_stage crc32 stage False fd s3 = Some (0, s4)" "wrote p d ds s3 s4" "Q (last (d # ds))"
    using run [OF o3 r3] by blast
  have "stage_int stage \<noteq> stage_int stage - 1" by simp
  then have "prepare_open crc32 stage False fd s1 = Some (0, s4)"
    using p q e(1) w2(2) w3(2) st by (simp add: prepare_open_def)
  then have "prepare_partitions crc32 stage (Some p) s = Some (0, sys_close fd (snd (sys_fsync fd s4)))"
    using op fd r1 by (simp add: prepare_partitions_def ready_def)
  moreover have "ready bs p (last (d # ds)) (sys_close fd (snd (sys_fsync fd s4)))"
    using keep [OF e(2) r3] by (auto simp: ready_def nofail_def whole_def sys_close_def sys_fsync_def sys_call_def gpt_utils_is_ufs_device_def)
  ultimately show ?thesis using e(3) by blast
qed

text \<open>What \<^verbatim>\<open>gpt_set_state\<close> leaves, when it does not fail.\<close>

lemma set_state_result:
  assumes o: "open_on fd p d s" and r: "ready bs p d s" and l: "layout bs d" and st: "st \<in> {GPT_OK, GPT_BAD_SIGNATURE}"
  shows "\<exists>s' d'. gpt_set_state crc32 fd g st s = Some (0, s') \<and> wrote p d [d'] s s' \<and> layout bs d' \<and>
    header_state crc32 (hdr_at bs g d') = Some st \<and>
    (\<forall>k. pentries_at bs k d' = pentries_at bs k d \<and> pentries_ok crc32 bs k d' = pentries_ok crc32 bs k d \<and>
         (k \<noteq> g \<longrightarrow> hdr_at bs k d' = hdr_at bs k d))"
proof -
  have bs: "blksz s p = bs" and n: "nofail s" using r by (simp_all add: ready_def)
  obtain s' where s': "gpt_set_state crc32 fd g st s = Some (0, s')"
    using set_state_returns [OF n o, of st crc32 g] l bs st by auto
  obtain h' where m: "marked crc32 st (hdr_at bs g d) h'" and w: "wrote p d [overwrite (hdr_off bs g d) h' d] s s'"
    using set_state_effect [OF s' o] l bs by auto
  note md = marked_device [OF l m refl]
  have "header_state crc32 h' = Some st" using st markedD(4,5) [OF m] by auto
  then show ?thesis using s' w md(1,2,3,4,5) by (intro exI conjI) auto
qed

definition psize_of :: "32 word \<Rightarrow> bytes \<Rightarrow> 32 word" where
  "psize_of bs d = (case geometry bs (hdr_at bs PRIMARY_GPT d) of (_, _, Some (psize, _)) \<Rightarrow> psize | _ \<Rightarrow> 0)"

lemma header_state_sig: "header_state crc32 h = Some GPT_OK \<Longrightarrow> take 9 h = GPT_SIGNATURE"
  by (auto simp: header_state_def bind_eq_Some_conv split: if_splits)

lemma set_boot_chain_result:
  assumes o: "open_on fd p d s" and r: "ready bs p d s" and l: "layout bs d" and ok: "pentries_ok crc32 bs PRIMARY_GPT d"
    and c: "chain_entries False boot (pentries_at bs PRIMARY_GPT d) (psize_of bs d) = Some (0, arr)"
  shows "\<exists>s' ds d'. gpt2_set_boot_chain crc32 fd boot s = Some (0, s') \<and> wrote p d ds s s' \<and> d' = last (d # ds) \<and>
    keeps_primary bs d d' \<and> pentries_at bs SECONDARY_GPT d' = arr \<and> pentries_ok crc32 bs SECONDARY_GPT d' \<and>
    (header_ok crc32 bs SECONDARY_GPT d \<longrightarrow> header_ok crc32 bs SECONDARY_GPT d')"
proof -
  have bs: "bs = blksz s p" and n: "nofail s" and u: "gpt_utils_is_ufs_device s = False" using r by (simp_all add: ready_def)
  obtain hp sp psize na where gp: "geometry bs (hdr_at bs PRIMARY_GPT d) = (Some hp, Some sp, Some (psize, na))"
    using l by (rule layoutE)
  have "chain_entries (gpt_utils_is_ufs_device s) boot (pentries_at bs PRIMARY_GPT d) psize = Some (0, arr)"
    using c u by (simp add: psize_of_def gp)
  from set_boot_chain_returns [OF n o bs l gp ok this] obtain s' where s': "gpt2_set_boot_chain crc32 fd boot s = Some (0, s')"
    by blast
  obtain ds arr' where w: "wrote p d ds s s'" "\<forall>x \<in> set ds. keeps_primary bs d x"
    "pentries_at bs SECONDARY_GPT (last (d # ds)) = arr'" "arr' = arr"
    "resealed crc32 arr' (hdr_at bs SECONDARY_GPT d) (hdr_at bs SECONDARY_GPT (last (d # ds)))"
    using set_boot_chain_effect [OF s' o bs l gp] c u by (auto elim!: chain_doneE simp: psize_of_def gp)
  have "keeps_primary bs d (last (d # ds))" using w(2) keeps_primary_refl [OF l] last_in_set [of ds] by auto
  moreover have "pentries_ok crc32 bs SECONDARY_GPT (last (d # ds))"
    using resealedD(4) [OF w(5)] w(3,4) by (simp add: pentries_ok_def)
  moreover have "header_ok crc32 bs SECONDARY_GPT (last (d # ds))" if "header_ok crc32 bs SECONDARY_GPT d"
    using resealedD(5) [OF w(5)] header_state_sig [OF that [unfolded header_ok_def]] by (simp add: header_ok_def)
  ultimately show ?thesis using s' w(1,3,4) by blast
qed

lemma main_run:
  assumes o: "open_on fd p d s" and r: "ready bs p d s" and l: "layout bs d" and ok: "pentries_ok crc32 bs PRIMARY_GPT d"
    and h: "header_ok crc32 bs SECONDARY_GPT d"
    and c: "gpt_boot_chain_swap False (pentries_at bs PRIMARY_GPT d) (psize_of bs d) = Some (0, arr)"
  shows "\<exists>s' ds. run_stage crc32 UPDATE_MAIN False fd s = Some (0, s') \<and> wrote p d ds s s' \<and> layout bs (last (d # ds)) \<and>
    header_state crc32 (hdr_at bs PRIMARY_GPT (last (d # ds))) = Some GPT_BAD_SIGNATURE \<and>
    pentries_ok crc32 bs PRIMARY_GPT (last (d # ds)) \<and> table_ok crc32 bs SECONDARY_GPT (last (d # ds)) \<and>
    pentries_at bs PRIMARY_GPT (last (d # ds)) = pentries_at bs PRIMARY_GPT d \<and>
    pentries_at bs SECONDARY_GPT (last (d # ds)) = arr"
proof -
  have "chain_entries False BACKUP_BOOT (pentries_at bs PRIMARY_GPT d) (psize_of bs d) = Some (0, arr)"
    using c by (simp add: chain_entries_def)
  from set_boot_chain_result [OF o r l ok this] obtain s1 ds d1 where
    s1: "gpt2_set_boot_chain crc32 fd BACKUP_BOOT s = Some (0, s1)" "wrote p d ds s s1" "d1 = last (d # ds)"
      "keeps_primary bs d d1" "pentries_at bs SECONDARY_GPT d1 = arr" "table_ok crc32 bs SECONDARY_GPT d1"
    using h by (auto simp: table_ok_def)
  have o1: "open_on fd p d1 s1" using wrote_open_on [OF s1(2) o] s1(3) by simp
  have r1: "ready bs p d1 s1" using s1(2,3) r by (auto simp: ready_def wrote_def nofail_def whole_def gpt_utils_is_ufs_device_def)
  have l1: "layout bs d1" and ok1: "pentries_ok crc32 bs PRIMARY_GPT d1"
    using s1(4) ok by (simp_all add: keeps_primary_def pentries_ok_def)
  from set_state_result [OF o1 r1 l1, of GPT_BAD_SIGNATURE crc32 PRIMARY_GPT] obtain s2 d2 where
    s2: "gpt_set_state crc32 fd PRIMARY_GPT GPT_BAD_SIGNATURE s1 = Some (0, s2)" "wrote p d1 [d2] s1 s2" "layout bs d2"
      "header_state crc32 (hdr_at bs PRIMARY_GPT d2) = Some GPT_BAD_SIGNATURE"
      "\<And>k. pentries_at bs k d2 = pentries_at bs k d1 \<and> pentries_ok crc32 bs k d2 = pentries_ok crc32 bs k d1 \<and>
            (k \<noteq> PRIMARY_GPT \<longrightarrow> hdr_at bs k d2 = hdr_at bs k d1)" by auto
  have w: "wrote p d (ds @ [d2]) s s2" using wrote_trans [OF s1(2), of "[d2]" s2] s2(2) s1(3) by simp
  have "run_stage crc32 UPDATE_MAIN False fd s = Some (0, s2)"
    using s1(1) s2(1) by (simp add: run_stage_def stage_main_def switch_xbl_def)
  moreover have "table_ok crc32 bs SECONDARY_GPT d2" using s1(6) s2(5) by (simp add: table_ok_def header_ok_def)
  ultimately show ?thesis
    using w s2(3,4) s2(5) s1(4,5) ok1 by (intro exI [of _ s2] exI [of _ "ds @ [d2]"]) (auto simp: keeps_primary_def)
qed

lemma backup_run:
  assumes o: "open_on fd p d s" and r: "ready bs p d s" and l: "layout bs d" and ok: "pentries_ok crc32 bs PRIMARY_GPT d"
  shows "\<exists>s' ds. run_stage crc32 UPDATE_BACKUP False fd s = Some (0, s') \<and> wrote p d ds s s' \<and> layout bs (last (d # ds)) \<and>
    header_state crc32 (hdr_at bs SECONDARY_GPT (last (d # ds))) = Some GPT_BAD_SIGNATURE \<and>
    table_ok crc32 bs PRIMARY_GPT (last (d # ds)) \<and>
    pentries_at bs PRIMARY_GPT (last (d # ds)) = pentries_at bs PRIMARY_GPT d"
proof -
  from set_state_result [OF o r l, of GPT_OK crc32 PRIMARY_GPT] obtain s1 d1 where
    s1: "gpt_set_state crc32 fd PRIMARY_GPT GPT_OK s = Some (0, s1)" "wrote p d [d1] s s1" "layout bs d1"
      "header_state crc32 (hdr_at bs PRIMARY_GPT d1) = Some GPT_OK"
      "\<And>k. pentries_at bs k d1 = pentries_at bs k d \<and> pentries_ok crc32 bs k d1 = pentries_ok crc32 bs k d" by auto
  have o1: "open_on fd p d1 s1" using wrote_open_on [OF s1(2) o] by simp
  have r1: "ready bs p d1 s1" using s1(2) r by (auto simp: ready_def wrote_def nofail_def whole_def gpt_utils_is_ufs_device_def)
  from set_state_result [OF o1 r1 s1(3), of GPT_BAD_SIGNATURE crc32 SECONDARY_GPT] obtain s2 d2 where
    s2: "gpt_set_state crc32 fd SECONDARY_GPT GPT_BAD_SIGNATURE s1 = Some (0, s2)" "wrote p d1 [d2] s1 s2" "layout bs d2"
      "header_state crc32 (hdr_at bs SECONDARY_GPT d2) = Some GPT_BAD_SIGNATURE"
      "\<And>k. pentries_at bs k d2 = pentries_at bs k d1 \<and> pentries_ok crc32 bs k d2 = pentries_ok crc32 bs k d1 \<and>
            (k \<noteq> SECONDARY_GPT \<longrightarrow> hdr_at bs k d2 = hdr_at bs k d1)" by auto
  have w: "wrote p d [d1, d2] s s2" using wrote_trans [OF s1(2), of "[d2]" s2] s2(2) by simp
  have "run_stage crc32 UPDATE_BACKUP False fd s = Some (0, s2)"
    using s1(1) s2(1) by (simp add: run_stage_def stage_backup_def switch_xbl_def)
  moreover have "table_ok crc32 bs PRIMARY_GPT d2" using s1(4,5) s2(5) ok by (simp add: table_ok_def header_ok_def)
  ultimately show ?thesis
    using w s2(3,4) s2(5) s1(5) by (intro exI [of _ s2] exI [of _ "[d1, d2]"]) auto
qed

lemma finalize_run:
  assumes o: "open_on fd p d s" and r: "ready bs p d s" and l: "layout bs d" and t: "table_ok crc32 bs PRIMARY_GPT d"
  shows "\<exists>s' ds. run_stage crc32 UPDATE_FINALIZE False fd s = Some (0, s') \<and> wrote p d ds s s' \<and> layout bs (last (d # ds)) \<and>
    table_ok crc32 bs PRIMARY_GPT (last (d # ds)) \<and> table_ok crc32 bs SECONDARY_GPT (last (d # ds)) \<and>
    pentries_at bs PRIMARY_GPT (last (d # ds)) = pentries_at bs PRIMARY_GPT d \<and>
    pentries_at bs SECONDARY_GPT (last (d # ds)) = pentries_at bs PRIMARY_GPT d"
proof -
  have c: "chain_entries False NORMAL_BOOT (pentries_at bs PRIMARY_GPT d) (psize_of bs d) = Some (0, pentries_at bs PRIMARY_GPT d)"
    by (simp add: chain_entries_def)
  have ok: "pentries_ok crc32 bs PRIMARY_GPT d" using t by (simp add: table_ok_def)
  from set_boot_chain_result [OF o r l ok c] obtain s1 ds d1 where
    s1: "gpt2_set_boot_chain crc32 fd NORMAL_BOOT s = Some (0, s1)" "wrote p d ds s s1" "d1 = last (d # ds)"
      "keeps_primary bs d d1" "pentries_at bs SECONDARY_GPT d1 = pentries_at bs PRIMARY_GPT d"
      "pentries_ok crc32 bs SECONDARY_GPT d1" by auto
  have o1: "open_on fd p d1 s1" using wrote_open_on [OF s1(2) o] s1(3) by simp
  have r1: "ready bs p d1 s1" using s1(2,3) r by (auto simp: ready_def wrote_def nofail_def whole_def gpt_utils_is_ufs_device_def)
  have l1: "layout bs d1" and t1: "table_ok crc32 bs PRIMARY_GPT d1"
    using s1(4) t by (simp_all add: keeps_primary_def table_ok_def header_ok_def pentries_ok_def)
  from set_state_result [OF o1 r1 l1, of GPT_OK crc32 SECONDARY_GPT] obtain s2 d2 where
    s2: "gpt_set_state crc32 fd SECONDARY_GPT GPT_OK s1 = Some (0, s2)" "wrote p d1 [d2] s1 s2" "layout bs d2"
      "header_state crc32 (hdr_at bs SECONDARY_GPT d2) = Some GPT_OK"
      "\<And>k. pentries_at bs k d2 = pentries_at bs k d1 \<and> pentries_ok crc32 bs k d2 = pentries_ok crc32 bs k d1 \<and>
            (k \<noteq> SECONDARY_GPT \<longrightarrow> hdr_at bs k d2 = hdr_at bs k d1)" by auto
  have w: "wrote p d (ds @ [d2]) s s2" using wrote_trans [OF s1(2), of "[d2]" s2] s2(2) s1(3) by simp
  have "run_stage crc32 UPDATE_FINALIZE False fd s = Some (0, s2)"
    using s1(1) s2(1) by (simp add: run_stage_def stage_finalize_def)
  moreover have "table_ok crc32 bs PRIMARY_GPT d2" "table_ok crc32 bs SECONDARY_GPT d2"
    using t1 s1(6) s2(4,5) by (simp_all add: table_ok_def header_ok_def)
  ultimately show ?thesis
    using w s2(3) s2(5) s1(4,5) by (intro exI [of _ s2] exI [of _ "ds @ [d2]"]) (auto simp: keeps_primary_def)
qed

end
