(* ===== verification/GptHandle.thy ===== *)
theory GptHandle
  imports GptLive
begin

text \<open>
  The handle \<^verbatim>\<open>struct gpt_disk\<close>: what \<^verbatim>\<open>gpt_disk_get_disk_info\<close> reads and what \<^verbatim>\<open>gpt_disk_update_crc\<close> and
  \<^verbatim>\<open>gpt_disk_commit\<close> leave on the device, when no call fails.
\<close>

section \<open>Writing the primary table\<close>

lemma put_pentries_primary:
  assumes "layout bs d" "geometry bs (hdr_at bs PRIMARY_GPT d) = (hp, Some sp, Some (ep, n))" "length xs = unat n"
    and d': "d' = overwrite (unat sp) xs d"
  shows "hdr_at bs g d' = hdr_at bs g d" "pentries_at bs PRIMARY_GPT d' = xs"
    "pentries_at bs SECONDARY_GPT d' = pentries_at bs SECONDARY_GPT d" "length d' = length d"
proof -
  obtain hs ss es where S: "geometry bs (hdr_at bs SECONDARY_GPT d) = (Some hs, Some ss, Some (es, n))"
    and B: "2 * unat bs \<le> unat sp" "unat sp + unat n \<le> unat ss" "unat ss + unat n + unat bs \<le> length d"
    using assms(2) by (rule_tac layoutE [OF assms(1)]) auto
  show len: "length d' = length d" using B assms(3) d' by simp
  have o': "hdr_off bs k d' = hdr_off bs k d" for k by (cases k) (simp_all add: len)
  have h: "hdr_at bs k d' = hdr_at bs k d" for k
  proof -
    have "hdr_off bs k d + unat bs \<le> unat sp \<or> unat sp + length xs \<le> hdr_off bs k d"
      using B assms(3) by (cases k) auto
    then show ?thesis
      using B assms(3) o' [of k] layout_hdr_off [OF assms(1), of k]
      by (simp add: hdr_at_def) (simp add: d' segment_overwrite_other)
  qed
  then show "hdr_at bs g d' = hdr_at bs g d" .
  show "pentries_at bs PRIMARY_GPT d' = xs"
    using B assms(3) by (simp add: pentries_at_def h assms(2)) (simp add: d')
  show "pentries_at bs SECONDARY_GPT d' = pentries_at bs SECONDARY_GPT d"
    using B assms(3) by (simp add: pentries_at_def h S) (simp add: d' segment_overwrite_other)
qed

lemma block_size_returns:
  assumes "ready bs p d s" "open_on fd p d s" "0 \<le> fd"
  shows "\<exists>s'. gpt_get_block_size fd s = (bs, s') \<and> wrote p d [] s s'"
proof -
  obtain s' where i: "ioctl_BLKSSZGET fd s = (0, bs, s')" using ioctl_returns [OF _ assms(2)] assms(1) by (auto simp: ready_def)
  then show ?thesis using wrote_ioctl [OF assms(2) i] assms(3) by (simp add: gpt_get_block_size_def)
qed

lemma ready_wrote: "wrote p d ds s s' \<Longrightarrow> ready bs p d s \<Longrightarrow> ready bs p (last (d # ds)) s'"
  by (auto simp: ready_def wrote_def nofail_def whole_def gpt_utils_is_ufs_device_def)

lemma ready_wrote_Nil: "wrote p d [] s s' \<Longrightarrow> ready bs p d s \<Longrightarrow> ready bs p d s'"
  using ready_wrote [of p d "[]" s s' bs] by simp

lemma set_header_result:
  assumes r: "ready bs p d s" and o: "open_on fd p d s" and fd: "0 \<le> fd" and l: "layout bs d" and h: "length h = unat bs"
  shows "\<exists>s'. gpt_set_header (Some h) fd PRIMARY_GPT s = Some (0, s') \<and> wrote p d [overwrite (hdr_off bs PRIMARY_GPT d) h d] s s'"
proof -
  have B: "0 < unat bs" "unat bs \<le> MAX_RW_COUNT" using l by (auto elim: layoutE)
  obtain s1 where s1: "gpt_get_block_size fd s = (bs, s1)" "wrote p d [] s s1" using block_size_returns [OF r o fd] by blast
  note o1 = wrote_open_on_Nil [OF s1(2) o] and r1 = ready_wrote_Nil [OF s1(2) r]
  have lb: "unat bs + unat bs \<le> length d" using layout_hdr_off [OF l, of PRIMARY_GPT] by simp
  obtain b s2 where w: "blk_rw fd True (int (unat bs)) h (unat bs) s1 = Some (0, b, s2)"
    using write_returns [OF _ o1 lb h] r1 by (auto simp: ready_def)
  have "wrote p d [overwrite (unat bs) h d] s1 s2"
    using wrote_write_block [OF w o1 h _ B(2)] lb B(1) r1 by (simp add: ready_def)
  then have "wrote p d [overwrite (unat bs) h d] s s2" by (rule wrote_trans_Nil [OF s1(2)])
  moreover have "bs \<noteq> 0" "0 < uint bs" using of_nat_0_less_iff [of "unat bs", where 'a = int] B(1) by auto
  ultimately show ?thesis using s1(1) w fd by (simp add: gpt_set_header_def)
qed

lemma set_pentry_arr_result:
  assumes r: "ready bs p d s" and o: "open_on fd p d s" and fd: "0 \<le> fd" and l: "layout bs d"
    and g: "geometry bs (hdr_at bs PRIMARY_GPT d) = (Some hp, Some sp, Some (psize, n))" and a: "length a = unat n"
  shows "\<exists>s' ds. gpt_set_pentry_arr (Some (hdr_at bs PRIMARY_GPT d)) fd (Some a) s = Some (0, s') \<and> wrote p d ds s s' \<and>
    last (d # ds) = overwrite (unat sp) a d"
proof -
  have B: "0 < unat bs" "unat n \<le> MAX_RW_COUNT" "unat sp + unat n \<le> length d" "unat sp < 2 ^ 63"
    using g by (rule_tac [!] layoutE [OF l]) auto
  obtain s1 where s1: "gpt_get_block_size fd s = (bs, s1)" "wrote p d [] s s1" using block_size_returns [OF r o fd] by blast
  note o1 = wrote_open_on_Nil [OF s1(2) o] and r1 = ready_wrote_Nil [OF s1(2) r]
  obtain b s2 where w: "blk_rw fd True (int (unat sp)) a (unat n) s1 = Some (0, b, s2)"
    using write_returns [OF _ o1 B(3) a] r1 by (auto simp: ready_def)
  have bs1: "blksz s1 p = bs" "bs \<noteq> 0" using r1 B(1) by (auto simp: ready_def)
  let ?bp = "block_prefixes (unat bs) (unat sp) a d"
  have "wrote p d ?bp s1 s2"
    using wrote_write [OF w o1 a _ B(2)] B(3) bs1 by simp
  then have "wrote p d ?bp s s2" by (rule wrote_trans_Nil [OF s1(2)])
  moreover have "last (d # ?bp) = overwrite (unat sp) a d" using B(3) by (intro block_prefixes_last [OF B(1)]) simp
  moreover have "gpt_set_pentry_arr (Some (hdr_at bs PRIMARY_GPT d)) fd (Some a) s = Some (0, s2)"
    using s1(1) w fd g bs1(2) sint_below [OF B(4)] by (simp add: gpt_set_pentry_arr_def geometry_def)
  ultimately show ?thesis by blast
qed

section \<open>The checksums of a handle\<close>

text \<open>A handle that fits the device: its buffers have the sizes of the headers and of the array, and its header points to
  where the header on the device points.\<close>

definition fits :: "32 word \<Rightarrow> bytes \<Rightarrow> gpt_disk \<Rightarrow> bytes \<Rightarrow> bytes \<Rightarrow> bool" where
  "fits bs d dsk h a \<longleftrightarrow>
     is_initialized dsk = GPT_DISK_INIT_MAGIC \<and> hdr dsk = Some h \<and> pentry_arr dsk = Some a \<and>
     length h = unat bs \<and> geometry bs h = geometry bs (hdr_at bs PRIMARY_GPT d) \<and> take 9 h = GPT_SIGNATURE \<and>
     length a = unat (pentry_arr_size dsk) \<and> length (pentries_at bs PRIMARY_GPT d) = length a \<and>
     (\<exists>hb ab. hdr_bak dsk = Some hb \<and> pentry_arr_bak dsk = Some ab \<and> length hb = unat bs \<and> length ab = length a)"

lemma update_crc_result:
  assumes f: "fits bs d dsk h a" and l: "layout bs d"
  shows "\<exists>dsk' h'. gpt_disk_update_crc crc32 (Some dsk) = Some (0, Some dsk') \<and> resealed crc32 a h h' \<and>
    hdr dsk' = Some h' \<and> pentry_arr dsk' = Some a \<and> devpath dsk' = devpath dsk \<and> is_initialized dsk' = GPT_DISK_INIT_MAGIC"
proof -
  obtain hb ab where b: "hdr_bak dsk = Some hb" "pentry_arr_bak dsk = Some ab" "length hb = unat bs" "length ab = length a"
    using f by (auto simp: fits_def)
  have f': "is_initialized dsk = GPT_DISK_INIT_MAGIC" "hdr dsk = Some h" "pentry_arr dsk = Some a" "length h = unat bs"
    "length a = unat (pentry_arr_size dsk)" using f by (simp_all add: fits_def)
  obtain n where n: "GET_4_BYTES h HEADER_SIZE_OFFSET = Some n" "unat n \<le> unat bs"
    using layout_size(1) [OF l, of PRIMARY_GPT] f by (auto simp: fits_def geometry_def)
  have B: "92 \<le> unat bs" by (rule layout_size(2) [OF l])
  let ?m = "overwrite PARTITION_CRC_OFFSET (bytes4 (crc32 a)) h"
  have m: "PUT_4_BYTES h PARTITION_CRC_OFFSET (crc32 a) = Some ?m" "length ?m = unat bs"
    "GET_4_BYTES ?m HEADER_SIZE_OFFSET = Some n"
    using B f'(4) n(1) by (simp_all add: PUT_4_overwrite GET_4_overwrite)
  obtain h' where h': "seal_header crc32 n ?m = Some h'" using seal_header_Some [of ?m n crc32] m(2) B n(2) by auto
  have "resealed crc32 a h h'" using m(1) n(1) h' by (auto simp: resealed_def)
  moreover have "\<exists>dsk'. gpt_disk_update_crc crc32 (Some dsk) = Some (0, Some dsk') \<and> hdr dsk' = Some h' \<and>
      pentry_arr dsk' = Some a \<and> devpath dsk' = devpath dsk \<and> is_initialized dsk' = GPT_DISK_INIT_MAGIC"
    using f' b B m h' n
    by (simp add: gpt_disk_update_crc_def crc_of_def PUT_4_overwrite GET_4_overwrite seal_header_def)
  ultimately show ?thesis by blast
qed

section \<open>Opening a device\<close>

lemma open_ready:
  assumes "ready bs p d s"
  shows "\<exists>fd s'. sys_open p s = (fd, s') \<and> 0 \<le> fd \<and> ready bs p d s' \<and> open_on fd p d s' \<and> next_fd s \<le> fd \<and> wrote p d [] s s'"
proof -
  obtain fd s' where op: "sys_open p s = (fd, s')" by (rule prod.exhaust)
  then show ?thesis
    using assms by (auto simp: sys_open_def sys_call_def ready_def nofail_def whole_def open_on_def wrote_def gpt_utils_is_ufs_device_def)
qed

lemma wrote_close: "wrote p d ds s s' \<Longrightarrow> next_fd s \<le> fd \<Longrightarrow> wrote p d ds s (sys_close fd s')"
  by (auto simp: wrote_def sys_close_def)

section \<open>Reading a handle\<close>

lemma get_header_primary:
  assumes r: "ready bs p d s" and l: "layout bs d"
    and path: "get_dev_path_from_partition_name (Some nm) (Some char_array) s = (0, Some buf)" "cstr buf = p"
  shows "\<exists>s'. gpt_get_header (Some nm) PRIMARY_GPT s = Some (Some (hdr_at bs PRIMARY_GPT d), s') \<and> wrote p d [] s s'"
proof -
  have B: "0 < unat bs" "unat bs \<le> MAX_RW_COUNT" using l by (auto elim: layoutE)
  obtain fd s1 where s1: "sys_open p s = (fd, s1)" "0 \<le> fd" "ready bs p d s1" "open_on fd p d s1" "next_fd s \<le> fd" "wrote p d [] s s1"
    using open_ready [OF r] by blast
  obtain s2 where s2: "gpt_get_block_size fd s1 = (bs, s2)" "wrote p d [] s1 s2" using block_size_returns [OF s1(3,4,2)] by blast
  note r2 = ready_wrote_Nil [OF s2(2) s1(3)] and o2 = wrote_open_on_Nil [OF s2(2) s1(4)]
  obtain b s3 where m: "sys_malloc (unat bs) s2 = (Some b, s3)" using malloc_returns [of s2 "unat bs"] r2 by (auto simp: ready_def)
  note w3 = wrote_malloc [OF o2 m]
  note r3 = ready_wrote_Nil [OF w3 r2] and o3 = wrote_open_on_Nil [OF w3 o2]
  have lb: "unat bs + unat bs \<le> length d" using layout_hdr_off [OF l, of PRIMARY_GPT] by simp
  obtain h s4 where w: "blk_rw fd False (int (unat bs)) b (unat bs) s3 = Some (0, h, s4)"
    using read_returns [OF _ o3 lb malloc_length [OF m]] r3 by (auto simp: ready_def)
  have h: "wrote p d [] s3 s4" "h = hdr_at bs PRIMARY_GPT d"
    using wrote_read [OF w o3 malloc_length [OF m] _ B(2)] lb by (simp_all add: hdr_at_def)
  have "wrote p d [] s s4" by (intro wrote_trans_Nil [OF s1(6)] wrote_trans_Nil [OF s2(2)] wrote_trans_Nil [OF w3] h(1))
  then have "wrote p d [] s (sys_close fd s4)" using s1(5) by (rule wrote_close)
  moreover have "gpt_get_header (Some nm) PRIMARY_GPT s = Some (Some (hdr_at bs PRIMARY_GPT d), sys_close fd s4)"
    using path s1(1,2) s2(1) m w h(2) B(1) by (auto simp: gpt_get_header_def)
  ultimately show ?thesis by blast
qed

lemma get_pentry_arr_primary:
  assumes r: "ready bs p d s" and o: "open_on fd p d s" and fd: "0 \<le> fd" and l: "layout bs d"
  shows "\<exists>s'. gpt_get_pentry_arr (Some (hdr_at bs PRIMARY_GPT d)) fd s = Some (Some (pentries_at bs PRIMARY_GPT d), s') \<and> wrote p d [] s s'"
proof -
  obtain hp sp psize n where g: "geometry bs (hdr_at bs PRIMARY_GPT d) = (Some hp, Some sp, Some (psize, n))"
    and B: "0 < unat bs" "unat n \<le> MAX_RW_COUNT" "unat sp + unat n \<le> length d" "unat sp < 2 ^ 63"
    by (rule_tac layoutE [OF l]) auto
  obtain s1 where s1: "gpt_get_block_size fd s = (bs, s1)" "wrote p d [] s s1" using block_size_returns [OF r o fd] by blast
  note o1 = wrote_open_on_Nil [OF s1(2) o] and r1 = ready_wrote_Nil [OF s1(2) r]
  obtain b s2 where m: "sys_calloc (unat n) s1 = (Some b, s2)" using calloc_returns [of s1 "unat n"] r1 by (auto simp: ready_def)
  note w2 = wrote_calloc [OF o1 m]
  note r2 = ready_wrote_Nil [OF w2 r1] and o2 = wrote_open_on_Nil [OF w2 o1]
  obtain a s3 where w: "blk_rw fd False (int (unat sp)) b (unat n) s2 = Some (0, a, s3)"
    using read_returns [OF _ o2 B(3) calloc_length [OF m]] r2 by (auto simp: ready_def)
  have a: "wrote p d [] s2 s3" "a = pentries_at bs PRIMARY_GPT d"
    using wrote_read [OF w o2 calloc_length [OF m] _ B(2)] B(3) by (simp_all add: pentries_at_def g)
  have "wrote p d [] s s3" by (intro wrote_trans_Nil [OF s1(2)] wrote_trans_Nil [OF w2] a(1))
  moreover have "gpt_get_pentry_arr (Some (hdr_at bs PRIMARY_GPT d)) fd s = Some (Some a, s3)"
    using s1(1) m w fd g B(1) sint_below [OF B(4)] by (auto simp: gpt_get_pentry_arr_def geometry_def)
  ultimately show ?thesis using a(2) by blast
qed

lemma cstr_snprintf:
  assumes "length txt < length buf" "CHR 0x00 \<notin> set txt"
  shows "cstr (snprintf buf txt) = txt"
proof -
  have "snprintf buf txt = txt @ CHR 0x00 # drop (Suc (length txt)) buf" using assms(1) by (simp add: snprintf_def overwrite_def)
  then show ?thesis using assms(2) by (simp add: cstr_def) (subst takeWhile_append2; auto)
qed

lemma emmc_path: "cstr (snprintf char_array BLK_DEV_FILE) = BLK_DEV_FILE"
  by (rule cstr_snprintf) (simp_all add: char_array_def BLK_DEV_FILE_def)

lemma emmc_dev_path:
  "\<not> gpt_utils_is_ufs_device s \<Longrightarrow>
   get_dev_path_from_partition_name (Some nm) (Some char_array) s = (0, Some (snprintf char_array BLK_DEV_FILE))"
  by (simp add: get_dev_path_from_partition_name_def char_array_def)

lemma disk_info_open_result:
  assumes r: "ready bs p d s" and o: "open_on fd p d s" and fd: "0 \<le> fd" and l: "layout bs d"
  shows "\<exists>dsk' s'. disk_info_open dsk (hdr_at bs PRIMARY_GPT d) (hdr_at bs PRIMARY_GPT d) fd s = Some (0, dsk', s') \<and>
    (\<exists>s2. s' = sys_close fd s2 \<and> wrote p d [] s s2) \<and>
    hdr dsk' = hdr dsk \<and> hdr_bak dsk' = hdr_bak dsk \<and> devpath dsk' = devpath dsk \<and> is_initialized dsk' = GPT_DISK_INIT_MAGIC \<and>
    pentry_arr dsk' = Some (pentries_at bs PRIMARY_GPT d) \<and> pentry_arr_bak dsk' = Some (pentries_at bs PRIMARY_GPT d) \<and>
    length (pentries_at bs PRIMARY_GPT d) = unat (pentry_arr_size dsk')"
proof -
  let ?h = "hdr_at bs PRIMARY_GPT d" and ?a = "pentries_at bs PRIMARY_GPT d"
  obtain hp sp psize n where g: "geometry bs ?h = (Some hp, Some sp, Some (psize, n))" and bd: "unat sp + unat n \<le> length d"
    by (rule_tac layoutE [OF l]) auto
  obtain s1 where s1: "gpt_get_pentry_arr (Some ?h) fd s = Some (Some ?a, s1)" "wrote p d [] s s1"
    using get_pentry_arr_primary [OF r o fd l] by blast
  note r1 = ready_wrote_Nil [OF s1(2) r] and o1 = wrote_open_on_Nil [OF s1(2) o]
  obtain s2 where s2: "gpt_get_pentry_arr (Some ?h) fd s1 = Some (Some ?a, s2)" "wrote p d [] s1 s2"
    using get_pentry_arr_primary [OF r1 o1 fd l] by blast
  note r2 = ready_wrote_Nil [OF s2(2) r1] and o2 = wrote_open_on_Nil [OF s2(2) o1]
  obtain s3 where s3: "gpt_get_block_size fd s2 = (bs, s3)" "wrote p d [] s2 s3" using block_size_returns [OF r2 o2 fd] by blast
  obtain c where c: "GET_4_BYTES ?h PARTITION_CRC_OFFSET = Some c"
    using GET_4_Some [of PARTITION_CRC_OFFSET ?h] layout_size(2) [OF l] l by auto
  have "wrote p d [] s s3" by (intro wrote_trans_Nil [OF s1(2)] wrote_trans_Nil [OF s2(2)] s3(2))
  moreover have "length ?a = unat n" using bd by (simp add: pentries_at_def g)
  ultimately show ?thesis
    using s1(1) s2(1) s3(1) c g by (auto simp: disk_info_open_def geometry_def Let_def)
qed

end
