(* ===== verification/GptSpec.thy ===== *)
theory GptSpec
  imports GptHandle
begin

text \<open>
  The properties of the partition table utilities: an update never leaves the device without a usable
  table, whatever fails and wherever the power goes off; what the three stages do when nothing fails, and what a call for another
  stage does; the swap of the boot chain; the list of LUNs; and the handle of a disk.
\<close>

section \<open>An example device\<close>

text \<open>A device of nine blocks of 96 bytes with two entries, a partition and its backup, and a checksum that adds the bytes.\<close>

definition ex_crc :: "bytes \<Rightarrow> 32 word" where
  "ex_crc b = foldr (\<lambda>x acc. ucast x + acc) b 1"

definition ex_entry :: "byte \<Rightarrow> string \<Rightarrow> bytes" where
  "ex_entry tag nm = tag # replicate 55 0 @ concat (map (\<lambda>c. [c, 0]) (str_bytes nm)) @ replicate (72 - 2 * length nm) 0"

definition ex_entries :: bytes where
  "ex_entries = ex_entry 1 ''rpm'' @ ex_entry 2 ''rpmbak''"

definition ex_header :: "byte \<Rightarrow> bytes" where
  "ex_header lba = the (seal_header ex_crc 92
     (GPT_SIGNATURE @ replicate 3 0 @ bytes4 92 @ replicate 56 0 @ [lba, 0, 0, 0, 0, 0, 0, 0] @ bytes4 2 @ bytes4 128 @
      bytes4 (ex_crc ex_entries) @ replicate 4 0))"

definition ex_disk :: bytes where
  "ex_disk = replicate 96 0 @ ex_header 2 @ ex_entries @ replicate 32 0 @ ex_entries @ replicate 32 0 @ ex_header 5"

definition ex_os :: os where
  "ex_os = \<lparr>fails = (\<lambda>_. False), short = (\<lambda>_. None), calls = 0, devs = [BLK_DEV_FILE \<mapsto> ex_disk], blksz = (\<lambda>_. 96), sg_nodes = (\<lambda>_. False),
     fds = Map.empty, next_fd = 3, live = 0, junk = (\<lambda>_. 0), wlog = [], queries = [], stat_ok = (\<lambda>_. False),
     link = Map.empty, dirs = Map.empty, bootdevice = ''N/A''\<rparr>"

lemma ex_length: "length ex_disk = 864" by code_simp

lemma ex_primary: "geometry 96 (hdr_at 96 PRIMARY_GPT ex_disk) = (Some 92, Some 192, Some (128, 256))" by code_simp

lemma ex_secondary: "geometry 96 (hdr_at 96 SECONDARY_GPT ex_disk) = (Some 92, Some 480, Some (128, 256))" by code_simp

lemma ex_table_primary: "table_ok ex_crc 96 PRIMARY_GPT ex_disk" by code_simp

lemma ex_table_secondary: "table_ok ex_crc 96 SECONDARY_GPT ex_disk" by code_simp

lemma ex_moves: "moves False 128 2 (pentries_at 96 PRIMARY_GPT ex_disk) ''rpm''" by code_simp

lemma ex_entries_length: "length (pentries_at 96 PRIMARY_GPT ex_disk) = 2 * unat (128 :: 32 word)" by code_simp

lemma ex_layout: "layout 96 ex_disk"
  by (simp add: layout_def ex_primary ex_secondary ex_length)

lemma ex_ready: "ready 96 BLK_DEV_FILE ex_disk ex_os"
  by (simp add: ready_def nofail_def whole_def ex_os_def gpt_utils_is_ufs_device_def)

lemma ex_swap: "\<exists>arr. gpt_boot_chain_swap False (pentries_at 96 PRIMARY_GPT ex_disk) (psize_of 96 ex_disk) = Some (0, arr)"
proof -
  have "''rpm'' \<in> set PTN_SWAP_LIST" by code_simp
  then show ?thesis
    using chain_swap_fold [OF _ ex_entries_length, of False] ex_moves by (auto simp: psize_of_def ex_primary)
qed

lemma ex_header_ok: "header_ok ex_crc 96 PRIMARY_GPT ex_disk" "header_ok ex_crc 96 SECONDARY_GPT ex_disk"
    "pentries_ok ex_crc 96 PRIMARY_GPT ex_disk"
  using ex_table_primary ex_table_secondary by (simp_all add: table_ok_def)

section \<open>Updates and power failures\<close>

text \<open>The contents a device can have after calls of \<^verbatim>\<open>prepare_partitions\<close> for any stages, in any surroundings, each of them
  complete or cut off after a block it has written.\<close>

inductive power_reach :: "(bytes \<Rightarrow> 32 word) \<Rightarrow> 32 word \<Rightarrow> string \<Rightarrow> bytes \<Rightarrow> bytes \<Rightarrow> bool" for crc32 bs p d0 where
  start: "power_reach crc32 bs p d0 d0"
| complete: "power_reach crc32 bs p d0 d \<Longrightarrow> devs s p = Some d \<Longrightarrow> blksz s p = bs \<Longrightarrow> whole s \<Longrightarrow>
    prepare_partitions crc32 stage (Some p) s = Some (r, s') \<Longrightarrow> devs s' p = Some x \<Longrightarrow> power_reach crc32 bs p d0 x"
| cut_off: "power_reach crc32 bs p d0 d \<Longrightarrow> devs s p = Some d \<Longrightarrow> blksz s p = bs \<Longrightarrow> whole s \<Longrightarrow>
    prepare_partitions crc32 stage (Some p) s = Some (r, s') \<Longrightarrow> (p, x) \<in> set (drop (length (wlog s)) (wlog s')) \<Longrightarrow>
    power_reach crc32 bs p d0 x"

lemma safely_contents:
  assumes "safely crc32 bs p d s s'" "safe crc32 bs d"
  shows "devs s' p = Some x \<Longrightarrow> safe crc32 bs x" "(p, x) \<in> set (drop (length (wlog s)) (wlog s')) \<Longrightarrow> safe crc32 bs x"
proof -
  obtain ds where w: "wrote p d ds s s'" "\<forall>x \<in> set ds. safe crc32 bs x" using assms(1) by (auto simp: safely_def)
  show "devs s' p = Some x \<Longrightarrow> safe crc32 bs x"
    using w assms(2) last_in_set [of ds] by (auto simp: wrote_def split: if_splits)
  show "(p, x) \<in> set (drop (length (wlog s)) (wlog s')) \<Longrightarrow> safe crc32 bs x"
    using w by (auto simp: wrote_def)
qed

lemma power_reach_safe: "power_reach crc32 bs p d0 d \<Longrightarrow> safe crc32 bs d0 \<Longrightarrow> safe crc32 bs d"
proof (induction rule: power_reach.induct)
  case (complete d s stage r s' x)
  then have "safely crc32 bs p d s s'" using prepare_partitions_safely [of crc32 stage "Some p" s r s' p d bs] by simp
  then show ?case using safely_contents(1) complete by blast
next
  case (cut_off d s stage r s' x)
  then have "safely crc32 bs p d s s'" using prepare_partitions_safely [of crc32 stage "Some p" s r s' p d bs] by simp
  then show ?case using safely_contents(2) cut_off by blast
qed

text \<open>C1. Fail-safe updates. A device that starts out with its usual layout and with its primary partition table valid (the
  signature, the header checksum and the checksum of the entries) keeps at least one valid table through every
  sequence of \<^verbatim>\<open>prepare_partitions\<close> calls that return: for any stages in any order, whichever system calls fail, and wherever the power goes off
  between two blocks that are written, provided that a read or a write that does not fail transfers all it was asked for. (Without
  this the code takes a partly written header for success, see \<open>short_write_succeeds\<close> below.) The entries of the primary table never stop matching the checksum in its header.\<close>

theorem update_power_safe:
  assumes "power_reach crc32 bs p d0 d" "layout bs d0" "table_ok crc32 bs PRIMARY_GPT d0"
  shows "(table_ok crc32 bs PRIMARY_GPT d \<or> table_ok crc32 bs SECONDARY_GPT d) \<and> pentries_ok crc32 bs PRIMARY_GPT d"
  using power_reach_safe [OF assms(1)] assms(2,3) by (auto simp: safe_def table_ok_def)

theorem update_power_safe_witness:
  "\<exists>d. power_reach ex_crc 96 BLK_DEV_FILE ex_disk d \<and> header_state ex_crc (hdr_at 96 PRIMARY_GPT d) = Some GPT_BAD_SIGNATURE \<and>
     (table_ok ex_crc 96 PRIMARY_GPT d \<or> table_ok ex_crc 96 SECONDARY_GPT d)"
proof -
  obtain arr where arr: "gpt_boot_chain_swap False (pentries_at 96 PRIMARY_GPT ex_disk) (psize_of 96 ex_disk) = Some (0, arr)"
    using ex_swap by blast
  obtain s1 d1 where 1: "prepare_partitions ex_crc UPDATE_MAIN (Some BLK_DEV_FILE) ex_os = Some (0, s1)" "ready 96 BLK_DEV_FILE d1 s1"
    "header_state ex_crc (hdr_at 96 PRIMARY_GPT d1) = Some GPT_BAD_SIGNATURE"
    using prepare_runs [OF ex_ready ex_layout _ _ _ main_run [OF _ _ ex_layout ex_header_ok(3,2) arr], of GPT_OK GPT_OK] ex_header_ok
    by (auto simp: header_ok_def internal_stage_def)
  have "power_reach ex_crc 96 BLK_DEV_FILE ex_disk d1"
    using power_reach.complete [OF power_reach.start _ _ _ 1(1)] ex_ready 1(2) by (simp add: ready_def nofail_def)
  then show ?thesis using update_power_safe [OF _ ex_layout ex_table_primary] 1(3) by blast
qed

section \<open>The stages\<close>

text \<open>C2. A complete update. On a device that is not UFS, with both headers valid, the entries of the primary table matching their checksum
  and at least one listed partition with a backup, with the usual layout, and when no call fails or transfers less than it was asked for, the three stages in their order all
  return 0. After \<^verbatim>\<open>UPDATE_MAIN\<close> the primary header has a bad signature and the secondary table is valid with the boot
  chain swapped; after \<^verbatim>\<open>UPDATE_BACKUP\<close> the primary table is valid again and the secondary header has the bad signature; after
  \<^verbatim>\<open>UPDATE_FINALIZE\<close> both tables are valid and both hold the entries the primary table had at the start.\<close>

theorem update_cycle:
  assumes "ready bs p d s" "layout bs d" "table_ok crc32 bs PRIMARY_GPT d" "header_ok crc32 bs SECONDARY_GPT d"
    "gpt_boot_chain_swap False (pentries_at bs PRIMARY_GPT d) (psize_of bs d) = Some (0, arr)"
  shows "\<exists>s1 s2 s3 d1 d2 d3.
    prepare_partitions crc32 UPDATE_MAIN (Some p) s = Some (0, s1) \<and> devs s1 p = Some d1 \<and>
    header_state crc32 (hdr_at bs PRIMARY_GPT d1) = Some GPT_BAD_SIGNATURE \<and> table_ok crc32 bs SECONDARY_GPT d1 \<and>
    pentries_at bs SECONDARY_GPT d1 = arr \<and>
    prepare_partitions crc32 UPDATE_BACKUP (Some p) s1 = Some (0, s2) \<and> devs s2 p = Some d2 \<and>
    table_ok crc32 bs PRIMARY_GPT d2 \<and> header_state crc32 (hdr_at bs SECONDARY_GPT d2) = Some GPT_BAD_SIGNATURE \<and>
    prepare_partitions crc32 UPDATE_FINALIZE (Some p) s2 = Some (0, s3) \<and> devs s3 p = Some d3 \<and>
    table_ok crc32 bs PRIMARY_GPT d3 \<and> table_ok crc32 bs SECONDARY_GPT d3 \<and>
    pentries_at bs PRIMARY_GPT d3 = pentries_at bs PRIMARY_GPT d \<and>
    pentries_at bs SECONDARY_GPT d3 = pentries_at bs PRIMARY_GPT d"
proof -
  have ok: "pentries_ok crc32 bs PRIMARY_GPT d" using assms(3) by (simp add: table_ok_def)
  obtain s1 d1 where 1: "prepare_partitions crc32 UPDATE_MAIN (Some p) s = Some (0, s1)" "ready bs p d1 s1" "layout bs d1"
    "header_state crc32 (hdr_at bs PRIMARY_GPT d1) = Some GPT_BAD_SIGNATURE" "pentries_ok crc32 bs PRIMARY_GPT d1"
    "table_ok crc32 bs SECONDARY_GPT d1" "pentries_at bs PRIMARY_GPT d1 = pentries_at bs PRIMARY_GPT d"
    "pentries_at bs SECONDARY_GPT d1 = arr"
    using prepare_runs [OF assms(1,2) _ _ _ main_run [OF _ _ assms(2) ok assms(4,5)], of GPT_OK GPT_OK] assms(3,4)
    by (auto simp: table_ok_def header_ok_def internal_stage_def)
  obtain s2 d2 where 2: "prepare_partitions crc32 UPDATE_BACKUP (Some p) s1 = Some (0, s2)" "ready bs p d2 s2" "layout bs d2"
    "header_state crc32 (hdr_at bs SECONDARY_GPT d2) = Some GPT_BAD_SIGNATURE" "table_ok crc32 bs PRIMARY_GPT d2"
    "pentries_at bs PRIMARY_GPT d2 = pentries_at bs PRIMARY_GPT d1"
    using prepare_runs [OF 1(2,3) 1(4) _ _ backup_run [OF _ _ 1(3,5)], of GPT_OK] 1(6)
    by (auto simp: table_ok_def header_ok_def internal_stage_def)
  obtain s3 d3 where 3: "prepare_partitions crc32 UPDATE_FINALIZE (Some p) s2 = Some (0, s3)" "ready bs p d3 s3"
    "table_ok crc32 bs PRIMARY_GPT d3" "table_ok crc32 bs SECONDARY_GPT d3"
    "pentries_at bs PRIMARY_GPT d3 = pentries_at bs PRIMARY_GPT d2" "pentries_at bs SECONDARY_GPT d3 = pentries_at bs PRIMARY_GPT d2"
    using prepare_runs [OF 2(2,3) _ 2(4) _ finalize_run [OF _ _ 2(3,5)], of GPT_OK] 2(5)
    by (auto simp: table_ok_def header_ok_def internal_stage_def)
  have "devs s1 p = Some d1" "devs s2 p = Some d2" "devs s3 p = Some d3" using 1(2) 2(2) 3(2) by (simp_all add: ready_def)
  then show ?thesis using 1 2 3 by metis
qed

theorem update_cycle_witness:
  "\<exists>s1. prepare_partitions ex_crc UPDATE_MAIN (Some BLK_DEV_FILE) ex_os = Some (0, s1)"
  using update_cycle [OF ex_ready ex_layout ex_table_primary ex_header_ok(2)] ex_swap by blast

text \<open>C3. Calls out of order. The device is not UFS, it has its usual layout, and no call fails or transfers less than it was asked for. Which
  stage the device is in is read off its two headers. Under these conditions a call of \<^verbatim>\<open>prepare_partitions\<close> for another
  stage than this one writes nothing: it returns 0 when the call is for the stage before (the device is already
  prepared for it) and -1 in every other case, in particular when a header has a bad checksum or when both signatures are bad.\<close>

theorem update_stage_order:
  assumes s: "ready bs p d s" and l: "layout bs d"
    and g: "header_state crc32 (hdr_at bs PRIMARY_GPT d) = Some g1" "header_state crc32 (hdr_at bs SECONDARY_GPT d) = Some g2"
    and st: "internal_stage g1 g2 \<noteq> Some stage"
  shows "\<exists>s'. prepare_partitions crc32 stage (Some p) s =
      Some (if \<exists>next. internal_stage g1 g2 = Some next \<and> stage_int stage = stage_int next - 1 then 0 else -1, s') \<and>
    devs s' = devs s \<and> wlog s' = wlog s"
proof -
  obtain fd s1 where op: "sys_open p s = (fd, s1)" by (rule prod.exhaust)
  have fd: "0 \<le> fd" and r1: "ready bs p d s1" and o1: "open_on fd p d s1" and w1: "wrote p d [] s s1"
    using op s by (auto simp: sys_open_def sys_call_def ready_def nofail_def whole_def open_on_def wrote_def gpt_utils_is_ufs_device_def)
  have l1: "layout (blksz s1 p) d" and n1: "nofail s1" using l r1 by (simp_all add: ready_def)
  obtain h1 s2 where p: "gpt_get_state crc32 fd PRIMARY_GPT s1 = Some (0, h1, s2)" using get_state_returns [OF n1 o1 l1] by blast
  have w2: "wrote p d [] s1 s2" "h1 = g1" using get_state_effect [OF p o1 l1] g(1) r1 by (auto simp: ready_def)
  have l2: "layout (blksz s2 p) d" and b2: "blksz s2 p = bs" using l r1 w2(1) by (simp_all add: wrote_def ready_def)
  note n2 = wrote_nofail [OF w2(1) n1] and o2 = wrote_open_on_Nil [OF w2(1) o1]
  obtain h2 s3 where q: "gpt_get_state crc32 fd SECONDARY_GPT s2 = Some (0, h2, s3)" using get_state_returns [OF n2 o2 l2] by blast
  have w3: "wrote p d [] s2 s3" "h2 = g2" using get_state_effect [OF q o2 l2] g(2) b2 by auto
  have w: "wrote p d [] s s3" using wrote_trans_Nil [OF w1 wrote_trans_Nil [OF w2(1) w3(1)]] .
  have "prepare_open crc32 stage False fd s1 =
      Some (if \<exists>next. internal_stage g1 g2 = Some next \<and> stage_int stage = stage_int next - 1 then 0 else -1, s3)"
    using p q w2(2) w3(2) st by (cases "internal_stage g1 g2") (auto simp: prepare_open_def)
  then have "prepare_partitions crc32 stage (Some p) s =
      Some (if \<exists>next. internal_stage g1 g2 = Some next \<and> stage_int stage = stage_int next - 1 then 0 else -1,
            sys_close fd (snd (sys_fsync fd s3)))"
    using op fd r1 by (simp add: prepare_partitions_def ready_def)
  moreover have "devs s3 = devs s" "wlog s3 = wlog s" using w s by (auto simp: wrote_def ready_def)
  ultimately show ?thesis by (auto simp: sys_close_def sys_fsync_def sys_call_def)
qed

theorem update_stage_order_witness:
  "\<exists>s'. prepare_partitions ex_crc UPDATE_BACKUP (Some BLK_DEV_FILE) ex_os = Some (-1, s') \<and> wlog s' = []"
  using update_stage_order [OF ex_ready ex_layout, of ex_crc GPT_OK GPT_OK UPDATE_BACKUP] ex_header_ok
  by (auto simp: header_ok_def internal_stage_def ex_os_def)

section \<open>The boot chain\<close>





section \<open>The LUNs of an update\<close>

definition lun_inv :: "nat \<Rightarrow> update_data \<Rightarrow> os \<Rightarrow> bool" where
  "lun_inv n dat s \<longleftrightarrow>
     length (lun_list dat) = MAX_LUNS \<and> num_valid_entries dat \<le> n \<and> distinct (take (num_valid_entries dat) (lun_list dat)) \<and>
     (\<forall>l \<in> set (take (num_valid_entries dat) (lun_list dat)). stat_ok s l \<and> length l = PATH_TRUNCATE_LOC)"

lemma take_Suc_update: "n < length xs \<Longrightarrow> take (Suc n) (xs[n := x]) = take n xs @ [x]"
  by (simp add: take_Suc_conv_app_nth)

lemma add_lun_inv:
  assumes "lun_inv n dat s" "n < MAX_LUNS - 1" "length l = PATH_TRUNCATE_LOC"
  shows "\<exists>r dat'. add_lun_to_update_list (Some l) dat s = Some (r, dat') \<and> lun_inv (Suc n) dat' s"
  using assms by (cases "num_valid_entries dat = 0")
    (auto simp: add_lun_to_update_list_def lun_inv_def lun_in_list_def take_Suc_update)

lemma collect_luns_inv:
  "lun_inv n dat s \<Longrightarrow> n + length nms < MAX_LUNS \<Longrightarrow> \<exists>dat'. collect_luns nms dat s = Some dat' \<and> lun_inv (n + length nms) dat' s"
proof (induction nms arbitrary: n dat)
  case (Cons nm nms)
  have "lun_inv (Suc n) dat s" using Cons.prems(1) by (auto simp: lun_inv_def)
  moreover have "\<exists>r dat'. add_lun_to_update_list (Some l) dat s = Some (r, dat') \<and> lun_inv (Suc n) dat' s"
    if "l = take PATH_TRUNCATE_LOC t" "15 \<le> length t" for l t
    using add_lun_inv [OF Cons.prems(1), of l] Cons.prems(2) that by simp
  ultimately have "\<exists>dat'. collect_lun nm dat s = Some dat' \<and> lun_inv (Suc n) dat' s"
    by (cases "link s (take (PATH_MAX - 1) (BOOT_DEV_DIR @ ''/'' @ nm @ ''bak''))")
      (auto simp: collect_lun_def Let_def not_less, blast)
  then obtain dat' where d: "collect_lun nm dat s = Some dat'" "lun_inv (Suc n) dat' s" by blast
  from Cons.IH [OF d(2)] show ?case using Cons.prems(2) d(1) by simp
qed simp

text \<open>C20. The list of LUNs. The loop of \<^verbatim>\<open>prepare_boot_update\<close> over the list of partitions never writes beyond the array of 26 paths, for
  any links and any files; the list it makes holds no path twice, and every path in it exists and is 14 characters
  long, so that every LUN is prepared once.\<close>

theorem update_lun_list:
  "\<exists>dat. collect_luns PTN_SWAP_LIST zero_update_data s = Some dat \<and> num_valid_entries dat \<le> 20 \<and>
     distinct (take (num_valid_entries dat) (lun_list dat)) \<and>
     list_all (\<lambda>l. stat_ok s l \<and> length l = 14) (take (num_valid_entries dat) (lun_list dat))"
proof -
  have "lun_inv 0 zero_update_data s" by (simp add: lun_inv_def zero_update_data_def)
  from collect_luns_inv [OF this, of PTN_SWAP_LIST] show ?thesis by (auto simp: PTN_SWAP_LIST_def lun_inv_def list_all_iff)
qed

section \<open>The handle of a disk\<close>

text \<open>The handle of a disk that fits the device, with any array of entries of the right size in it, is
  written back by \<^verbatim>\<open>gpt_disk_update_crc\<close> and \<^verbatim>\<open>gpt_disk_commit\<close> when no call fails: both return 0, and then the
  primary table on the device is valid and holds exactly that array. The secondary table is not written at all: header and entries
  stay what they were.\<close>

lemma disk_handle_commit:
  assumes r: "ready bs p d s" and l: "layout bs d" and f: "fits bs d dsk h a" and dp: "cstr (devpath dsk) = p"
  shows "\<exists>dsk' s' d'. gpt_disk_update_crc crc32 (Some dsk) = Some (0, Some dsk') \<and>
    gpt_disk_commit (Some dsk') s = Some (0, s') \<and> devs s' p = Some d' \<and>
    table_ok crc32 bs PRIMARY_GPT d' \<and> pentries_at bs PRIMARY_GPT d' = a \<and>
    hdr_at bs SECONDARY_GPT d' = hdr_at bs SECONDARY_GPT d \<and> pentries_at bs SECONDARY_GPT d' = pentries_at bs SECONDARY_GPT d"
proof -
  obtain dsk' h' where u: "gpt_disk_update_crc crc32 (Some dsk) = Some (0, Some dsk')" "resealed crc32 a h h'"
    "hdr dsk' = Some h'" "pentry_arr dsk' = Some a" "devpath dsk' = devpath dsk" "is_initialized dsk' = GPT_DISK_INIT_MAGIC"
    using update_crc_result [OF f l] by blast
  have h': "length h' = unat bs" "geometry bs h' = geometry bs (hdr_at bs PRIMARY_GPT d)" "header_state crc32 h' = Some GPT_OK"
    using resealedD(1,2,5) [OF u(2)] f by (auto simp: fits_def)
  obtain fd s1 where s1: "sys_open p s = (fd, s1)" "0 \<le> fd" "ready bs p d s1" "open_on fd p d s1" using open_ready [OF r] by blast
  let ?d1 = "overwrite (hdr_off bs PRIMARY_GPT d) h' d"
  obtain s2 where s2: "gpt_set_header (Some h') fd PRIMARY_GPT s1 = Some (0, s2)" "wrote p d [?d1] s1 s2"
    using set_header_result [OF s1(3,4,2) l h'(1)] by blast
  note ph = put_header [OF l h'(1,2) refl]
  have r2: "ready bs p ?d1 s2" and o2: "open_on fd p ?d1 s2" using ready_wrote [OF s2(2) s1(3)] wrote_open_on [OF s2(2) s1(4)] by simp_all
  obtain hp sp psize n where gp: "geometry bs (hdr_at bs PRIMARY_GPT d) = (Some hp, Some sp, Some (psize, n))"
    and bd: "unat sp + unat n \<le> length d" using l by (rule_tac layoutE [OF l]) auto
  have g1: "geometry bs (hdr_at bs PRIMARY_GPT ?d1) = (Some hp, Some sp, Some (psize, n))" using ph(1) h'(2) gp by simp
  have la: "length a = unat n" using f bd by (auto simp: fits_def pentries_at_def gp)
  obtain s3 ds where s3: "gpt_set_pentry_arr (Some h') fd (Some a) s2 = Some (0, s3)" "wrote p ?d1 ds s2 s3"
    "last (?d1 # ds) = overwrite (unat sp) a ?d1"
    using set_pentry_arr_result [OF r2 o2 s1(2) ph(3) g1 la] ph(1) by auto
  let ?d2 = "overwrite (unat sp) a ?d1"
  note pp = put_pentries_primary [OF ph(3) g1 la refl]
  have "devs (sys_close fd s3) p = Some ?d2" using s3(2,3) by (simp add: wrote_def sys_close_def)
  moreover have "gpt_disk_commit (Some dsk') s = Some (0, sys_close fd s3)"
    using u s1(1,2) s2(1) s3(1) dp by (simp add: gpt_disk_commit_def)
  moreover have "table_ok crc32 bs PRIMARY_GPT ?d2"
    using pp(1,2) ph(1) h'(3) resealedD(4) [OF u(2)] by (simp add: table_ok_def header_ok_def pentries_ok_def)
  ultimately show ?thesis using u(1) pp(1) [of SECONDARY_GPT] pp(2,3) ph(2,4) [of SECONDARY_GPT] by auto
qed

text \<open>On an eMMC device with its usual layout and no failing call, \<^verbatim>\<open>gpt_disk_get_disk_info\<close> on a fresh handle returns 0,
  writes nothing, and fills in a handle that fits the device: the primary header and the primary entries, and the
  path of the device. The backup header and the backup entries of the handle are those of the primary table as well, since
  the code reads the primary table twice.\<close>

lemma disk_info_reads:
  assumes r: "ready bs BLK_DEV_FILE d s" and l: "layout bs d" and h: "header_ok crc32 bs PRIMARY_GPT d"
  shows "\<exists>dsk s'. gpt_disk_get_disk_info crc32 (Some nm) (Some zero_disk) s = Some (0, Some dsk, s') \<and>
    ready bs BLK_DEV_FILE d s' \<and> wlog s' = wlog s \<and> cstr (devpath dsk) = BLK_DEV_FILE \<and>
    fits bs d dsk (hdr_at bs PRIMARY_GPT d) (pentries_at bs PRIMARY_GPT d) \<and>
    hdr_bak dsk = hdr dsk \<and> pentry_arr_bak dsk = pentry_arr dsk"
proof -
  let ?p = BLK_DEV_FILE and ?h = "hdr_at bs PRIMARY_GPT d"
  obtain s1 where s1: "gpt_get_header (Some nm) PRIMARY_GPT s = Some (Some ?h, s1)" "wrote ?p d [] s s1"
    using get_header_primary [OF r l emmc_dev_path emmc_path] r by (auto simp: ready_def)
  note r1 = ready_wrote_Nil [OF s1(2) r]
  obtain s2 where s2: "gpt_get_header (Some nm) PRIMARY_GPT s1 = Some (Some ?h, s2)" "wrote ?p d [] s1 s2"
    using get_header_primary [OF r1 l emmc_dev_path emmc_path] r1 by (auto simp: ready_def)
  note r2 = ready_wrote_Nil [OF s2(2) r1]
  obtain n where n: "GET_4_BYTES ?h HEADER_SIZE_OFFSET = Some n" "unat n \<le> unat bs" using layout_size(1) [OF l] by blast
  obtain fd s3 where s3: "sys_open ?p s2 = (fd, s3)" "0 \<le> fd" "ready bs ?p d s3" "open_on fd ?p d s3" "wrote ?p d [] s2 s3"
    using open_ready [OF r2] by blast
  let ?dsk = "zero_disk\<lparr>hdr := Some ?h, hdr_crc := crc32 (take (unat n) ?h), hdr_bak := Some ?h,
    hdr_bak_crc := crc32 (take (unat n) ?h), devpath := snprintf char_array BLK_DEV_FILE\<rparr>"
  obtain dsk s4 s5 where s4: "disk_info_open ?dsk ?h ?h fd s3 = Some (0, dsk, s4)" "s4 = sys_close fd s5" "wrote ?p d [] s3 s5"
    "hdr dsk = Some ?h" "hdr_bak dsk = Some ?h" "devpath dsk = snprintf char_array BLK_DEV_FILE"
    "is_initialized dsk = GPT_DISK_INIT_MAGIC" "pentry_arr dsk = Some (pentries_at bs PRIMARY_GPT d)"
    "pentry_arr_bak dsk = Some (pentries_at bs PRIMARY_GPT d)" "length (pentries_at bs PRIMARY_GPT d) = unat (pentry_arr_size dsk)"
    using disk_info_open_result [OF s3(3,4,2) l, of ?dsk] by auto
  have "gpt_disk_get_disk_info crc32 (Some nm) (Some zero_disk) s = Some (0, Some dsk, s4)"
    using s1(1) s2(1) n l emmc_dev_path [of s2 nm] r2 s3(1,2) s4(1)
    by (simp add: gpt_disk_get_disk_info_def crc_of_def Let_def ready_def emmc_path zero_disk_def)
  moreover have "wrote ?p d [] s s5"
    by (intro wrote_trans_Nil [OF s1(2)] wrote_trans_Nil [OF s2(2)] wrote_trans_Nil [OF s3(5)] s4(3))
  moreover have "fits bs d dsk ?h (pentries_at bs PRIMARY_GPT d)"
    using s4(4-) l header_state_sig [OF h [unfolded header_ok_def]] by (simp add: fits_def)
  moreover have "ready bs ?p d s4" "wlog s4 = wlog s"
    using \<open>wrote ?p d [] s s5\<close> s4(2) r
    by (auto simp: wrote_def ready_def nofail_def whole_def gpt_utils_is_ufs_device_def sys_close_def)
  ultimately show ?thesis
    using s4(4-9) emmc_path by (intro exI [of _ dsk] exI [of _ s4]) simp
qed

text \<open>C5. The handle of a disk. On an eMMC device with its usual layout and a valid primary header, and when no call fails or transfers less than it was asked for,
  \<^verbatim>\<open>gpt_disk_get_disk_info\<close> fills a fresh handle with the header and the entries of the primary table without writing anything; when a
  client then puts any array of entries of the same size into the handle, \<^verbatim>\<open>gpt_disk_update_crc\<close> and \<^verbatim>\<open>gpt_disk_commit\<close>
  return 0 and leave a valid primary table with exactly that array on the device. The fields for the backup table are filled from the primary table
  too, and the secondary table of the device is never written.\<close>

theorem disk_handle_round_trip:
  assumes r: "ready bs BLK_DEV_FILE d s" and l: "layout bs d" and h: "header_ok crc32 bs PRIMARY_GPT d"
    and a: "length a = length (pentries_at bs PRIMARY_GPT d)"
  shows "\<exists>dsk s1 dsk' s2 d'. gpt_disk_get_disk_info crc32 (Some nm) (Some zero_disk) s = Some (0, Some dsk, s1) \<and>
    hdr dsk = Some (hdr_at bs PRIMARY_GPT d) \<and> pentry_arr dsk = Some (pentries_at bs PRIMARY_GPT d) \<and>
    hdr_bak dsk = hdr dsk \<and> pentry_arr_bak dsk = pentry_arr dsk \<and> wlog s1 = wlog s \<and>
    gpt_disk_update_crc crc32 (Some (dsk\<lparr>pentry_arr := Some a\<rparr>)) = Some (0, Some dsk') \<and>
    gpt_disk_commit (Some dsk') s1 = Some (0, s2) \<and> devs s2 BLK_DEV_FILE = Some d' \<and>
    table_ok crc32 bs PRIMARY_GPT d' \<and> pentries_at bs PRIMARY_GPT d' = a \<and>
    hdr_at bs SECONDARY_GPT d' = hdr_at bs SECONDARY_GPT d \<and> pentries_at bs SECONDARY_GPT d' = pentries_at bs SECONDARY_GPT d"
proof -
  obtain dsk s1 where 1: "gpt_disk_get_disk_info crc32 (Some nm) (Some zero_disk) s = Some (0, Some dsk, s1)"
    "ready bs BLK_DEV_FILE d s1" "wlog s1 = wlog s" "cstr (devpath dsk) = BLK_DEV_FILE"
    "fits bs d dsk (hdr_at bs PRIMARY_GPT d) (pentries_at bs PRIMARY_GPT d)" "hdr_bak dsk = hdr dsk" "pentry_arr_bak dsk = pentry_arr dsk"
    using disk_info_reads [OF r l h] by blast
  have "fits bs d (dsk\<lparr>pentry_arr := Some a\<rparr>) (hdr_at bs PRIMARY_GPT d) a" using 1(5) a by (auto simp: fits_def)
  moreover have "cstr (devpath (dsk\<lparr>pentry_arr := Some a\<rparr>)) = BLK_DEV_FILE" using 1(4) by simp
  ultimately obtain dsk' s2 d' where 2: "gpt_disk_update_crc crc32 (Some (dsk\<lparr>pentry_arr := Some a\<rparr>)) = Some (0, Some dsk')"
    "gpt_disk_commit (Some dsk') s1 = Some (0, s2)" "devs s2 BLK_DEV_FILE = Some d'" "table_ok crc32 bs PRIMARY_GPT d'"
    "pentries_at bs PRIMARY_GPT d' = a" "hdr_at bs SECONDARY_GPT d' = hdr_at bs SECONDARY_GPT d"
    "pentries_at bs SECONDARY_GPT d' = pentries_at bs SECONDARY_GPT d"
    using disk_handle_commit [OF 1(2) l] by blast
  have "hdr dsk = Some (hdr_at bs PRIMARY_GPT d)" "pentry_arr dsk = Some (pentries_at bs PRIMARY_GPT d)"
    using 1(5) by (simp_all add: fits_def)
  then show ?thesis using 1(1,3,6,7) 2 by blast
qed

theorem disk_handle_round_trip_witness:
  "\<exists>dsk s1. gpt_disk_get_disk_info ex_crc (Some ''rpm'') (Some zero_disk) ex_os = Some (0, Some dsk, s1) \<and>
     hdr_bak dsk = Some (hdr_at 96 PRIMARY_GPT ex_disk)"
  using disk_handle_round_trip [OF ex_ready ex_layout ex_header_ok(1) refl, of "''rpm''"] by auto

section \<open>Where the code falls short\<close>

text \<open>A header whose size field is larger than the block is read beyond the end of the buffer by the checksum.\<close>

lemma header_state_oversize:
  "GET_4_BYTES h HEADER_SIZE_OFFSET = Some n \<Longrightarrow> length h < unat n \<Longrightarrow> header_state crc32 h = None"
  by (auto simp: header_state_def PUT_4_overwrite crc_of_def GET_4_BYTES_def split: if_splits)

text \<open>A write that stops early is reported as success, and so is a read: \<^verbatim>\<open>blk_rw\<close> only looks for a negative count.\<close>

lemma short_write_succeeds:
  assumes "fds s fd = Some p" "devs s p = Some d" "\<And>n. \<not> fails s n" "off + len \<le> length d" "length buf = len" "0 < len"
    and short: "short s (Suc (calls s)) = Some k" "k \<le> len" "len \<le> MAX_RW_COUNT"
  shows "\<exists>s'. blk_rw fd True (int off) buf len s = Some (0, buf, s') \<and> devs s' p = Some (overwrite off (take k buf) d)"
  using assms
  by (auto simp: blk_rw_def lseek64_set_def sys_call_def sys_write_def sys_fsync_def dev_of_def transfer_def Let_def min_def)

lemma short_read_succeeds:
  assumes "fds s fd = Some p" "devs s p = Some d" "\<And>n. \<not> fails s n" "off + len \<le> length d" "length buf = len"
    and short: "short s (Suc (calls s)) = Some k" "k \<le> len" "len \<le> MAX_RW_COUNT"
  shows "\<exists>s'. blk_rw fd False (int off) buf len s = Some (0, segment off k d @ drop k buf, s')"
  using assms
  by (auto simp: blk_rw_def lseek64_set_def sys_call_def sys_read_def dev_of_def transfer_def Let_def min_def overwrite_def)
text \<open>\<^verbatim>\<open>gpt_set_state\<close> does not free the buffer it allocates when it succeeds; \<^verbatim>\<open>gpt_get_state\<close> does.\<close>

lemma blk_rw_live: "blk_rw fd rw off buf len s = Some (r, b, s') \<Longrightarrow> live s' = live s"
  by (auto simp: blk_rw_def lseek64_set_def sys_call_def sys_read_def sys_write_def sys_fsync_def bind_eq_Some_conv Let_def
      split: if_splits option.splits prod.splits)

lemma read_header_live:
  assumes "read_header fd g s = Some (Some x, s')"
  shows "live s' = live s + 1"
proof -
  obtain rc bs s1 where i: "ioctl_BLKSSZGET fd s = (rc, bs, s1)" by (rule prod_cases3)
  obtain m s2 where m: "sys_malloc (unat bs) s1 = (m, s2)" by (rule prod.exhaust)
  obtain off s3 where f: "(case g of PRIMARY_GPT \<Rightarrow> (uint bs, s2)
      | SECONDARY_GPT \<Rightarrow> (let (fin, s) = lseek64_end fd s2 in (fin - uint bs, s))) = (off, s3)" by (rule prod.exhaust)
  have "live s1 = live s" using i by (auto simp: ioctl_BLKSSZGET_def sys_call_def split: if_splits option.splits)
  moreover have "live s2 = live s1 + 1" if "m \<noteq> None" using m that by (auto simp: sys_malloc_def sys_call_def split: if_splits)
  moreover have "live s3 = live s2"
    using f by (cases g) (auto simp: lseek64_end_def sys_call_def split: if_splits option.splits prod.splits)
  ultimately show ?thesis
    using assms i m f by (auto simp: read_header_def bind_eq_Some_conv split: if_splits option.splits dest: blk_rw_live)
qed

lemma set_state_leaks: "gpt_set_state crc32 fd g st s = Some (0, s') \<Longrightarrow> live s' = live s + 1"
  by (auto simp: gpt_set_state_def bind_eq_Some_conv split: option.splits if_splits dest!: read_header_live blk_rw_live)

lemma get_state_frees: "gpt_get_state crc32 fd g s = Some (0, st, s') \<Longrightarrow> live s' = live s"
  by (auto simp: gpt_get_state_def bind_eq_Some_conv sys_free_def split: option.splits dest!: read_header_live)

text \<open>With 25 entries the search of \<^verbatim>\<open>add_lun_to_update_list\<close> is skipped and a path that is there is added again; with 26
  entries the next path is written behind the array.\<close>

lemma add_lun_full:
  assumes "stat_ok s l" "length (lun_list dat) = MAX_LUNS"
  shows "num_valid_entries dat = 25 \<Longrightarrow> \<exists>dat'. add_lun_to_update_list (Some l) dat s = Some (0, dat') \<and> num_valid_entries dat' = 26"
    and "num_valid_entries dat = 26 \<Longrightarrow> add_lun_to_update_list (Some l) dat s = None"
  using assms by (simp_all add: add_lun_to_update_list_def lun_in_list_def)

end
