(* ===== verification/SkipList.thy ===== *)
theory SkipList
  imports Prelude
begin

text \<open>
  The skip list of \<^verbatim>\<open>src/gps/utils/SkipList.h\<close>: one list of nodes in which the nodes of every level are chained
  as well, with a vector of the first and one of the last node of every level.  An iterator is the address of a node
  and \<^verbatim>\<open>end()\<close> the address 0, which no node has; the list itself is the order of its nodes.  Erasing a node makes its
  address invalid; following an invalid iterator or \<^verbatim>\<open>end()\<close>, and indexing a vector outside of its bounds, is \<^term>\<open>None\<close>.
  Behind the model stands the list of the data with their levels, which the operations are shown to implement.
\<close>

section \<open>The list\<close>

record 'a SkipNode =
  mLevel :: int
  mData :: 'a
  mNextInLevel :: addr

record 'a SkipList =
  mMainList :: "addr list"
  mNodes :: "addr \<rightharpoonup> 'a SkipNode"
  mHeadVec :: "addr list"
  mTailVec :: "addr list"
  mFresh :: addr

abbreviation list_end :: addr where
  "list_end \<equiv> 0"

definition at_level :: "'b list \<Rightarrow> int \<Rightarrow> 'b option" where
  "at_level v level = (if 0 \<le> level \<and> nat level < length v then Some (v ! nat level) else None)"

definition SkipList_new :: "nat \<Rightarrow> 'a SkipList" where
  "SkipList_new totalLevels =
     \<lparr>mMainList = [], mNodes = Map.empty, mHeadVec = replicate totalLevels list_end,
      mTailVec = replicate totalLevels list_end, mFresh = 1\<rparr>"

definition SkipList_append :: "'a \<Rightarrow> int \<Rightarrow> 'a SkipList \<Rightarrow> 'a SkipList option" where
  "SkipList_append d level sl =
     (if level < 0 \<or> int (length (mHeadVec sl)) \<le> level then Some sl
      else let iter = mFresh sl;
               node = \<lparr>mLevel = level, mData = d, mNextInLevel = list_end\<rparr>;
               sl = sl\<lparr>mMainList := mMainList sl @ [iter], mNodes := (mNodes sl)(iter \<mapsto> node), mFresh := iter + 1\<rparr> in
           do {
             head \<leftarrow> at_level (mHeadVec sl) level;
             sl \<leftarrow> (if head = list_end then Some (sl\<lparr>mHeadVec := (mHeadVec sl)[nat level := iter]\<rparr>)
                   else do {
                     tail \<leftarrow> at_level (mTailVec sl) level;
                     n \<leftarrow> load (mNodes sl) tail;
                     nodes \<leftarrow> store (mNodes sl) tail (n\<lparr>mNextInLevel := iter\<rparr>);
                     Some (sl\<lparr>mNodes := nodes\<rparr>)
                   });
             Some (sl\<lparr>mTailVec := (mTailVec sl)[nat level := iter]\<rparr>)
           })"

definition SkipList_pop_level :: "int \<Rightarrow> 'a SkipList \<Rightarrow> 'a SkipList option" where
  "SkipList_pop_level level sl = do {
     head \<leftarrow> at_level (mHeadVec sl) level;
     if head = list_end then Some sl
     else do {
       n \<leftarrow> load (mNodes sl) head;
       let sl = (if mNextInLevel n = list_end then sl\<lparr>mTailVec := (mTailVec sl)[nat level := list_end]\<rparr> else sl);
       Some (sl\<lparr>mMainList := filter (\<lambda>a. a \<noteq> head) (mMainList sl), mNodes := (mNodes sl)(head := None),
                mHeadVec := (mHeadVec sl)[nat level := mNextInLevel n]\<rparr>)
     }
   }"

definition SkipList_pop :: "'a SkipList \<Rightarrow> 'a SkipList option" where
  "SkipList_pop sl = do {
     n \<leftarrow> (case mMainList sl of [] \<Rightarrow> None | a # _ \<Rightarrow> load (mNodes sl) a);
     SkipList_pop_level (mLevel n) sl
   }"

definition SkipList_front :: "int \<Rightarrow> 'a SkipList \<Rightarrow> 'a option" where
  "SkipList_front level sl = do {
     head \<leftarrow> at_level (mHeadVec sl) level;
     n \<leftarrow> load (mNodes sl) head;
     Some (mData n)
   }"

definition SkipList_size :: "'a SkipList \<Rightarrow> nat" where
  "SkipList_size sl = length (mMainList sl)"

definition SkipList_flush :: "'a SkipList \<Rightarrow> 'a SkipList" where
  "SkipList_flush sl =
     sl\<lparr>mMainList := [], mNodes := Map.empty, mHeadVec := map (\<lambda>_. list_end) (mHeadVec sl),
        mTailVec := map (\<lambda>_. list_end) (mHeadVec sl)\<rparr>"

fun dump_nodes :: "(addr \<rightharpoonup> 'a SkipNode) \<Rightarrow> addr list \<Rightarrow> ('a \<times> int) list option" where
  "dump_nodes m [] = Some []"
| "dump_nodes m (a # as) = do { n \<leftarrow> load m a; rest \<leftarrow> dump_nodes m as; Some ((mData n, mLevel n) # rest) }"

definition SkipList_dump :: "'a SkipList \<Rightarrow> ('a \<times> int) list option" where
  "SkipList_dump sl = dump_nodes (mNodes sl) (mMainList sl)"

partial_function (option) dump_chain :: "(addr \<rightharpoonup> 'a SkipNode) \<Rightarrow> addr \<Rightarrow> ('a \<times> int) list option" where
  "dump_chain m head =
     (if head = list_end then Some []
      else do { n \<leftarrow> load m head; rest \<leftarrow> dump_chain m (mNextInLevel n); Some ((mData n, mLevel n) # rest) })"

definition SkipList_dump_level :: "int \<Rightarrow> 'a SkipList \<Rightarrow> ('a \<times> int) list option" where
  "SkipList_dump_level level sl = do { head \<leftarrow> at_level (mHeadVec sl) level; dump_chain (mNodes sl) head }"

section \<open>Chains\<close>

fun chain :: "(addr \<rightharpoonup> 'a SkipNode) \<Rightarrow> addr \<Rightarrow> addr list \<Rightarrow> bool" where
  "chain m p [] \<longleftrightarrow> p = list_end"
| "chain m p (a # as) \<longleftrightarrow> p = a \<and> a \<noteq> list_end \<and> (\<exists>n. m a = Some n \<and> chain m (mNextInLevel n) as)"

lemma chain_cong: "(\<And>a. a \<in> set as \<Longrightarrow> m a = m' a) \<Longrightarrow> chain m p as = chain m' p as"
  by (induction as arbitrary: p) auto

lemma chain_end: "chain m p as \<Longrightarrow> p = list_end \<longleftrightarrow> as = []"
  by (cases as) auto

lemma chain_snoc:
  assumes "chain m p as" "as \<noteq> []" "distinct as" "x \<notin> set as" "x \<noteq> list_end" "mNextInLevel nx = list_end" "m (last as) = Some n"
  shows "chain (m(x \<mapsto> nx, last as \<mapsto> n\<lparr>mNextInLevel := x\<rparr>)) p (as @ [x])"
  using assms
proof (induction as arbitrary: p)
  case (Cons a as)
  show ?case
  proof (cases as)
    case Nil
    then show ?thesis using Cons.prems by auto
  next
    case (Cons b bs)
    then have ne: "as \<noteq> []" "last as \<noteq> a" using Cons.prems(3) by (auto dest: last_in_set)
    then show ?thesis using Cons.prems Cons.IH by auto
  qed
qed simp

lemma dump_chain_chain:
  "chain m p as \<Longrightarrow> dump_chain m p = dump_nodes m as"
proof (induction as arbitrary: p)
  case Nil
  then show ?case by (subst dump_chain.simps) simp
next
  case (Cons a as)
  then obtain n where n: "p = a" "a \<noteq> list_end" "m a = Some n" "dump_chain m (mNextInLevel n) = dump_nodes m as" by auto
  then show ?case by (subst dump_chain.simps) simp
qed

section \<open>The invariant\<close>

definition level_of :: "(addr \<rightharpoonup> 'a SkipNode) \<Rightarrow> addr \<Rightarrow> int" where
  "level_of m a = (case m a of Some n \<Rightarrow> mLevel n | None \<Rightarrow> -1)"

definition of_level :: "int \<Rightarrow> 'a SkipList \<Rightarrow> addr list" where
  "of_level l sl = filter (\<lambda>a. level_of (mNodes sl) a = l) (mMainList sl)"

definition sl_inv :: "nat \<Rightarrow> 'a SkipList \<Rightarrow> bool" where
  "sl_inv n sl \<longleftrightarrow>
     distinct (mMainList sl) \<and> dom (mNodes sl) = set (mMainList sl) \<and> list_end \<notin> set (mMainList sl) \<and>
     (\<forall>a \<in> set (mMainList sl). a < mFresh sl \<and> 0 \<le> level_of (mNodes sl) a \<and> level_of (mNodes sl) a < int n) \<and> 0 < mFresh sl \<and>
     length (mHeadVec sl) = n \<and> length (mTailVec sl) = n \<and>
     (\<forall>l < n. chain (mNodes sl) (mHeadVec sl ! l) (of_level (int l) sl) \<and>
              mTailVec sl ! l = (if of_level (int l) sl = [] then list_end else last (of_level (int l) sl)))"

definition contents :: "'a SkipList \<Rightarrow> ('a \<times> int) list" where
  "contents sl = map (\<lambda>a. (mData (the (mNodes sl a)), mLevel (the (mNodes sl a)))) (mMainList sl)"

lemma sl_inv_new: "sl_inv n (SkipList_new n)" "contents (SkipList_new n) = []"
  by (simp_all add: sl_inv_def SkipList_new_def of_level_def contents_def)

lemma sl_inv_flush: "sl_inv n sl \<Longrightarrow> sl_inv n (SkipList_flush sl)" "contents (SkipList_flush sl) = []"
  by (simp_all add: sl_inv_def SkipList_flush_def of_level_def contents_def)

lemma at_level_in: "l < length v \<Longrightarrow> at_level v (int l) = Some (v ! l)"
  by (simp add: at_level_def)

lemma sl_inv_nodes: "sl_inv n sl \<Longrightarrow> a \<in> set (mMainList sl) \<Longrightarrow> \<exists>nd. mNodes sl a = Some nd"
  by (auto simp: sl_inv_def)

lemma of_level_sub: "a \<in> set (of_level l sl) \<Longrightarrow> a \<in> set (mMainList sl) \<and> level_of (mNodes sl) a = l"
  by (simp add: of_level_def)

text \<open>Appending: the list with a new node, and the tail of its level pointing to it.\<close>

lemma append_empty_level:
  assumes i: "sl_inv n sl" and l: "l < n" and e: "of_level (int l) sl = []"
  shows "\<exists>sl'. SkipList_append d (int l) sl = Some sl' \<and> sl_inv n sl' \<and> contents sl' = contents sl @ [(d, int l)]"
proof -
  let ?a = "mFresh sl" and ?nd = "\<lparr>mLevel = int l, mData = d, mNextInLevel = list_end\<rparr>"
  let ?sl = "sl\<lparr>mMainList := mMainList sl @ [?a], mNodes := (mNodes sl)(?a \<mapsto> ?nd), mFresh := Suc ?a,
    mHeadVec := (mHeadVec sl)[l := ?a], mTailVec := (mTailVec sl)[l := ?a]\<rparr>"
  have nin: "?a \<notin> set (mMainList sl)" "?a \<noteq> 0" and len: "length (mHeadVec sl) = n" "length (mTailVec sl) = n"
    using i by (auto simp: sl_inv_def)
  have h: "mHeadVec sl ! l = list_end" using i l e by (auto simp: sl_inv_def)
  have lv: "level_of ((mNodes sl)(?a \<mapsto> ?nd)) b = (if b = ?a then int l else level_of (mNodes sl) b)" for b
    by (simp add: level_of_def)
  have ol: "of_level k ?sl = of_level k sl @ (if k = int l then [?a] else [])" for k
    using nin by (auto simp: of_level_def lv intro!: filter_cong)
  have ch: "chain (mNodes ?sl) p as = chain (mNodes sl) p as" if "set as \<subseteq> set (mMainList sl)" for p as
    using that nin by (intro chain_cong) auto
  have "SkipList_append d (int l) sl = Some ?sl"
    using l len h by (simp add: SkipList_append_def at_level_def Let_def)
  moreover have "sl_inv n ?sl"
    unfolding sl_inv_def using i l e nin len ch [OF subsetI, OF of_level_sub [THEN conjunct1]]
    by (auto simp: sl_inv_def ol lv nth_list_update)
  moreover have "contents ?sl = contents sl @ [(d, int l)]" using nin by (auto simp: contents_def)
  ultimately show ?thesis by blast
qed

lemma append_chained_level:
  assumes i: "sl_inv n sl" and l: "l < n" and e: "of_level (int l) sl \<noteq> []"
  shows "\<exists>sl'. SkipList_append d (int l) sl = Some sl' \<and> sl_inv n sl' \<and> contents sl' = contents sl @ [(d, int l)]"
proof -
  let ?a = "mFresh sl" and ?nd = "\<lparr>mLevel = int l, mData = d, mNextInLevel = list_end\<rparr>"
  obtain t where t: "last (of_level (int l) sl) = t" by blast
  have tm: "t \<in> set (mMainList sl)" "level_of (mNodes sl) t = int l" using of_level_sub [OF last_in_set [OF e]] t by simp_all
  obtain nt where nt: "mNodes sl t = Some nt" using sl_inv_nodes [OF i tm(1)] by blast
  let ?sl = "sl\<lparr>mMainList := mMainList sl @ [?a], mNodes := (mNodes sl)(?a \<mapsto> ?nd, t \<mapsto> nt\<lparr>mNextInLevel := ?a\<rparr>),
    mFresh := Suc ?a, mTailVec := (mTailVec sl)[l := ?a]\<rparr>"
  have nin: "?a \<notin> set (mMainList sl)" "?a \<noteq> 0" "t \<noteq> ?a" "t \<noteq> 0" and len: "length (mHeadVec sl) = n" "length (mTailVec sl) = n"
    using i tm(1) by (auto simp: sl_inv_def)
  have ch: "chain (mNodes sl) (mHeadVec sl ! l) (of_level (int l) sl)" "mTailVec sl ! l = t"
    using i l e t by (simp_all add: sl_inv_def)
  then have h: "mHeadVec sl ! l \<noteq> list_end" "mTailVec sl ! l = t" "chain (mNodes sl) (mHeadVec sl ! l) (of_level (int l) sl)"
    using chain_end [OF ch(1)] e by simp_all
  have lv: "level_of ((mNodes sl)(?a \<mapsto> ?nd, t \<mapsto> nt\<lparr>mNextInLevel := ?a\<rparr>)) b = (if b = ?a then int l else level_of (mNodes sl) b)" for b
    using nin(3) nt by (auto simp: level_of_def)
  have ol: "of_level k ?sl = of_level k sl @ (if k = int l then [?a] else [])" for k
    using nin by (auto simp: of_level_def lv intro!: filter_cong)
  have other: "chain (mNodes ?sl) p (of_level k sl) = chain (mNodes sl) p (of_level k sl)" if "k \<noteq> int l" for p k
    using that nin tm(2) by (intro chain_cong) (auto dest!: of_level_sub)
  have "distinct (of_level (int l) sl)" "?a \<notin> set (of_level (int l) sl)"
    using i nin(1) by (auto simp: of_level_def sl_inv_def)
  then have own: "chain (mNodes ?sl) (mHeadVec sl ! l) (of_level (int l) sl @ [?a])"
    using chain_snoc [OF h(3) e _ _ nin(2), of ?nd nt] nt t by simp
  have "SkipList_append d (int l) sl = Some ?sl"
    using l len h nt nin by (simp add: SkipList_append_def at_level_def Let_def store_def fun_upd_twist)
  moreover have "sl_inv n ?sl"
    unfolding sl_inv_def using i l nin len tm(1) nt own other by (auto simp: sl_inv_def ol lv nth_list_update)
  moreover have "contents ?sl = contents sl @ [(d, int l)]" using nin nt tm by (auto simp: contents_def)
  ultimately show ?thesis by blast
qed

lemma append_refines:
  assumes "sl_inv n sl"
  shows "\<exists>sl'. SkipList_append d level sl = Some sl' \<and> sl_inv n sl' \<and>
    contents sl' = (if 0 \<le> level \<and> level < int n then contents sl @ [(d, level)] else contents sl)"
proof (cases "0 \<le> level \<and> level < int n")
  case True
  then obtain l where l: "level = int l" "l < n" by (metis nonneg_int_cases of_nat_less_iff)
  then show ?thesis
    using append_empty_level [OF assms l(2)] append_chained_level [OF assms l(2)] by (cases "of_level (int l) sl = []") auto
next
  case False
  then show ?thesis using assms by (auto simp: SkipList_append_def sl_inv_def)
qed

text \<open>Removing the first element of a list that has a property.\<close>

fun drop_first :: "('b \<Rightarrow> bool) \<Rightarrow> 'b list \<Rightarrow> 'b list" where
  "drop_first P [] = []"
| "drop_first P (x # xs) = (if P x then xs else x # drop_first P xs)"

lemma drop_first_map: "drop_first P (map f xs) = map f (drop_first (\<lambda>x. P (f x)) xs)"
  by (induction xs) auto

lemma drop_first_filter: "filter P xs = h # rest \<Longrightarrow> distinct xs \<Longrightarrow> drop_first P xs = filter (\<lambda>x. x \<noteq> h) xs"
proof (induction xs)
  case (Cons x xs)
  have "h \<in> set (filter P (x # xs))" unfolding Cons.prems(1) by simp
  then have "P h" by (simp only: set_filter mem_Collect_eq)
  then show ?case using Cons by (cases "P x") (auto intro: filter_True [symmetric])
qed simp

lemma drop_first_none: "filter P xs = [] \<Longrightarrow> drop_first P xs = xs"
  by (induction xs) (auto split: if_splits)

lemma drop_first_cong: "(\<And>x. x \<in> set xs \<Longrightarrow> P x = Q x) \<Longrightarrow> drop_first P xs = drop_first Q xs"
  by (induction xs) auto

lemma filter_drop_first: "filter P (drop_first P xs) = tl (filter P xs)"
  by (induction xs) auto

lemma filter_drop_first_other: "(\<And>x. P x \<Longrightarrow> \<not> Q x) \<Longrightarrow> filter Q (drop_first P xs) = filter Q xs"
  by (induction xs) auto

lemma contents_level:
  assumes "sl_inv n sl"
  shows "filter (\<lambda>x. snd x = l) (contents sl) = map (\<lambda>a. (mData (the (mNodes sl a)), mLevel (the (mNodes sl a)))) (of_level l sl)"
proof -
  have "level_of (mNodes sl) a = mLevel (the (mNodes sl a))" if "a \<in> set (mMainList sl)" for a
    using sl_inv_nodes [OF assms that] by (auto simp: level_of_def)
  then show ?thesis by (simp add: contents_def of_level_def filter_map comp_def cong: filter_cong)
qed

lemma pop_level_refines:
  assumes i: "sl_inv n sl" and l: "l < n"
  shows "\<exists>sl'. SkipList_pop_level (int l) sl = Some sl' \<and> sl_inv n sl' \<and>
    contents sl' = drop_first (\<lambda>x. snd x = int l) (contents sl)"
proof (cases "of_level (int l) sl")
  case Nil
  then have "mHeadVec sl ! l = list_end" using i l by (auto simp: sl_inv_def)
  then have "SkipList_pop_level (int l) sl = Some sl" using i l by (simp add: SkipList_pop_level_def at_level_in sl_inv_def)
  then show ?thesis using i Nil contents_level [OF i, of "int l"] by (simp add: drop_first_none)
next
  case (Cons h rest)
  have dist: "distinct (mMainList sl)" and len: "length (mHeadVec sl) = n" "length (mTailVec sl) = n" using i by (simp_all add: sl_inv_def)
  have hm: "h \<in> set (mMainList sl)" "level_of (mNodes sl) h = int l" using of_level_sub [of h "int l" sl] Cons by simp_all
  have ch: "chain (mNodes sl) (mHeadVec sl ! l) (h # rest)" using i l Cons by (auto simp: sl_inv_def)
  then obtain nd where nd: "mHeadVec sl ! l = h" "h \<noteq> list_end" "mNodes sl h = Some nd" "chain (mNodes sl) (mNextInLevel nd) rest" by auto
  let ?main = "filter (\<lambda>a. a \<noteq> h) (mMainList sl)" and ?m = "(mNodes sl)(h := None)"
  let ?sl = "sl\<lparr>mMainList := ?main, mNodes := ?m, mHeadVec := (mHeadVec sl)[l := mNextInLevel nd],
    mTailVec := (if mNextInLevel nd = list_end then (mTailVec sl)[l := list_end] else mTailVec sl)\<rparr>"
  have pe: "SkipList_pop_level (int l) sl = Some ?sl"
    using l len nd(1-3) by (auto simp: SkipList_pop_level_def at_level_in Let_def)
  obtain sl' where e: "SkipList_pop_level (int l) sl = Some sl'" and f: "mMainList sl' = ?main" "mNodes sl' = ?m"
    "mHeadVec sl' = (mHeadVec sl)[l := mNextInLevel nd]" "mFresh sl' = mFresh sl"
    "mTailVec sl' = (if mNextInLevel nd = list_end then (mTailVec sl)[l := list_end] else mTailVec sl)"
    by (rule that [OF pe]) simp_all
  have lv: "level_of ?m a = level_of (mNodes sl) a" if "a \<noteq> h" for a using that by (simp add: level_of_def)
  have ol: "of_level k sl' = (if k = int l then rest else of_level k sl)" for k
  proof -
    have "of_level k sl' = filter (\<lambda>a. a \<noteq> h) (of_level k sl)" by (auto simp: of_level_def f lv intro!: filter_cong)
    moreover have "h \<notin> set rest" using dist Cons by (metis distinct.simps(2) distinct_filter of_level_def)
    ultimately show ?thesis
      using Cons hm(2) by (auto simp: filter_id_conv dest!: of_level_sub)
  qed
  have cc: "chain ?m p as = chain (mNodes sl) p as" if "h \<notin> set as" for p as using that by (intro chain_cong) auto
  have hr: "h \<notin> set rest" using dist Cons by (metis distinct.simps(2) distinct_filter of_level_def)
  have ho: "h \<notin> set (of_level k sl)" if "k \<noteq> int l" for k using that hm(2) by (auto dest: of_level_sub)
  have "chain ?m (mHeadVec sl' ! k) (of_level (int k) sl') \<and>
      mTailVec sl' ! k = (if of_level (int k) sl' = [] then list_end else last (of_level (int k) sl'))" if k: "k < n" for k
  proof (cases "k = l")
    case True
    have "mTailVec sl ! l = last (h # rest)" using i l Cons by (simp add: sl_inv_def)
    then show ?thesis using True k len nd(4) cc [OF hr] chain_end [OF nd(4)] by (simp add: ol f)
  next
    case False
    have "chain (mNodes sl) (mHeadVec sl ! k) (of_level (int k) sl)"
      "mTailVec sl ! k = (if of_level (int k) sl = [] then list_end else last (of_level (int k) sl))"
      using i k by (simp_all add: sl_inv_def)
    then show ?thesis using False k len cc [OF ho, of "int k"] by (simp add: ol f)
  qed
  then have K: "\<forall>k < n. chain ?m (mHeadVec sl' ! k) (of_level (int k) sl') \<and>
      mTailVec sl' ! k = (if of_level (int k) sl' = [] then list_end else last (of_level (int k) sl'))" by blast
  have D: "dom ?m = set ?main" "\<forall>a \<in> set ?main. a < mFresh sl \<and> 0 \<le> level_of ?m a \<and> level_of ?m a < int n"
    "list_end \<notin> set ?main" "0 < mFresh sl" "distinct ?main" "length (mHeadVec sl') = n" "length (mTailVec sl') = n"
    using i lv dist len by (auto simp: sl_inv_def f(3,5))
  have "sl_inv n sl'"
    unfolding sl_inv_def f(1,2,4) using K D by blast
  moreover have "contents sl' = drop_first (\<lambda>x. snd x = int l) (contents sl)"
  proof -
    have lev: "mLevel (the (mNodes sl a)) = level_of (mNodes sl) a" if "a \<in> set (mMainList sl)" for a
      using sl_inv_nodes [OF i that] by (auto simp: level_of_def)
    have "drop_first (\<lambda>a. mLevel (the (mNodes sl a)) = int l) (mMainList sl) =
        drop_first (\<lambda>a. level_of (mNodes sl) a = int l) (mMainList sl)" by (rule drop_first_cong) (simp add: lev)
    also have "\<dots> = ?main" by (rule drop_first_filter [OF Cons [unfolded of_level_def] dist])
    finally show ?thesis by (auto simp: contents_def drop_first_map f)
  qed
  ultimately show ?thesis using e by blast
qed

section \<open>The contract of a list with levels\<close>

text \<open>What the log buffer relies on: a state with an invariant and the list of its contents, on which the operations
  are the obvious ones.\<close>

locale levelled_list =
  fixes inv :: "'s \<Rightarrow> bool" and abs :: "'s \<Rightarrow> ('a \<times> int) list" and levels :: nat
    and append_op :: "'a \<Rightarrow> int \<Rightarrow> 's \<Rightarrow> 's option" and pop_op :: "int \<Rightarrow> 's \<Rightarrow> 's option" and front_op :: "int \<Rightarrow> 's \<Rightarrow> 'a option"
  assumes append_law: "inv s \<Longrightarrow> 0 \<le> l \<Longrightarrow> l < int levels \<Longrightarrow> \<exists>s'. append_op d l s = Some s' \<and> inv s' \<and> abs s' = abs s @ [(d, l)]"
    and pop_law: "inv s \<Longrightarrow> 0 \<le> l \<Longrightarrow> l < int levels \<Longrightarrow>
      \<exists>s'. pop_op l s = Some s' \<and> inv s' \<and> abs s' = drop_first (\<lambda>x. snd x = l) (abs s)"
    and front_law: "inv s \<Longrightarrow> 0 \<le> l \<Longrightarrow> l < int levels \<Longrightarrow>
      front_op l s = (case filter (\<lambda>x. snd x = l) (abs s) of [] \<Rightarrow> None | x # _ \<Rightarrow> Some (fst x))"
begin

lemma pop_own: "inv s \<Longrightarrow> 0 \<le> l \<Longrightarrow> l < int levels \<Longrightarrow> pop_op l s = Some s' \<Longrightarrow>
  filter (\<lambda>x. snd x = l) (abs s') = tl (filter (\<lambda>x. snd x = l) (abs s)) \<and> inv s'"
  using pop_law [of s l] by (auto simp: filter_drop_first)

lemma pop_others: "inv s \<Longrightarrow> 0 \<le> l \<Longrightarrow> l < int levels \<Longrightarrow> pop_op l s = Some s' \<Longrightarrow> k \<noteq> l \<Longrightarrow>
  filter (\<lambda>x. snd x = k) (abs s') = filter (\<lambda>x. snd x = k) (abs s)"
  using pop_law [of s l] filter_drop_first_other [of "\<lambda>x. snd x = l" "\<lambda>x. snd x = k" "abs s"] by auto

end

lemma front_refines:
  assumes i: "sl_inv n sl" and l: "l < n"
  shows "SkipList_front (int l) sl = (case filter (\<lambda>x. snd x = int l) (contents sl) of [] \<Rightarrow> None | x # _ \<Rightarrow> Some (fst x))"
proof -
  have ch: "chain (mNodes sl) (mHeadVec sl ! l) (of_level (int l) sl)" and len: "length (mHeadVec sl) = n"
    using i l by (simp_all add: sl_inv_def)
  then show ?thesis
    using l by (cases "of_level (int l) sl") (auto simp: SkipList_front_def at_level_in contents_level [OF i] load_def)
qed

lemma dump_nodes_contents:
  assumes "\<And>a. a \<in> set as \<Longrightarrow> a \<noteq> list_end \<and> (\<exists>nd. m a = Some nd)"
  shows "dump_nodes m as = Some (map (\<lambda>a. (mData (the (m a)), mLevel (the (m a)))) as)"
  using assms by (induction as) fastforce+

lemma dump_refines: "sl_inv n sl \<Longrightarrow> SkipList_dump sl = Some (contents sl)"
  unfolding SkipList_dump_def contents_def
  by (rule dump_nodes_contents) (auto simp: sl_inv_def dest: sl_inv_nodes)

lemma dump_level_refines:
  assumes i: "sl_inv n sl" and l: "l < n"
  shows "SkipList_dump_level (int l) sl = Some (filter (\<lambda>x. snd x = int l) (contents sl))"
proof -
  have ch: "chain (mNodes sl) (mHeadVec sl ! l) (of_level (int l) sl)" and len: "length (mHeadVec sl) = n"
    using i l by (simp_all add: sl_inv_def)
  have "dump_nodes (mNodes sl) (of_level (int l) sl) =
      Some (map (\<lambda>a. (mData (the (mNodes sl a)), mLevel (the (mNodes sl a)))) (of_level (int l) sl))"
    using i sl_inv_nodes [OF i] by (intro dump_nodes_contents) (auto simp: sl_inv_def dest!: of_level_sub)
  then show ?thesis using l len dump_chain_chain [OF ch] by (simp add: SkipList_dump_level_def at_level_in contents_level [OF i])
qed

interpretation skip: levelled_list "sl_inv n" contents n SkipList_append SkipList_pop_level SkipList_front for n
proof
  fix s :: "'a SkipList" and l d assume i: "sl_inv n s" and l: "0 \<le> l" "l < int n"
  then obtain k where k: "l = int k" "k < n" by (metis nonneg_int_cases of_nat_less_iff)
  show "\<exists>s'. SkipList_append d l s = Some s' \<and> sl_inv n s' \<and> contents s' = contents s @ [(d, l)]"
    using append_refines [OF i, of d l] l by simp
  show "\<exists>s'. SkipList_pop_level l s = Some s' \<and> sl_inv n s' \<and> contents s' = drop_first (\<lambda>x. snd x = l) (contents s)"
    using pop_level_refines [OF i k(2)] k(1) by simp
  show "SkipList_front l s = (case filter (\<lambda>x. snd x = l) (contents s) of [] \<Rightarrow> None | x # _ \<Rightarrow> Some (fst x))"
    using front_refines [OF i k(2)] k(1) by simp
qed

section \<open>Sequences of operations\<close>

datatype 'a skip_op = Append 'a int | PopLevel int | Pop | Flush

fun skip_do :: "'a skip_op \<Rightarrow> 'a SkipList \<Rightarrow> 'a SkipList option" where
  "skip_do (Append d l) sl = SkipList_append d l sl"
| "skip_do (PopLevel l) sl = SkipList_pop_level l sl"
| "skip_do Pop sl = SkipList_pop sl"
| "skip_do Flush sl = Some (SkipList_flush sl)"

fun list_do :: "nat \<Rightarrow> 'a skip_op \<Rightarrow> ('a \<times> int) list \<Rightarrow> ('a \<times> int) list option" where
  "list_do n (Append d l) xs = Some (if 0 \<le> l \<and> l < int n then xs @ [(d, l)] else xs)"
| "list_do n (PopLevel l) xs = (if 0 \<le> l \<and> l < int n then Some (drop_first (\<lambda>x. snd x = l) xs) else None)"
| "list_do n Pop xs = (if xs = [] then None else Some (tl xs))"
| "list_do n Flush xs = Some []"

fun skip_run :: "'a skip_op list \<Rightarrow> 'a SkipList \<Rightarrow> 'a SkipList option" where
  "skip_run [] sl = Some sl"
| "skip_run (x # xs) sl = do { sl \<leftarrow> skip_do x sl; skip_run xs sl }"

fun list_run :: "nat \<Rightarrow> 'a skip_op list \<Rightarrow> ('a \<times> int) list \<Rightarrow> ('a \<times> int) list option" where
  "list_run n [] ys = Some ys"
| "list_run n (x # xs) ys = do { ys \<leftarrow> list_do n x ys; list_run n xs ys }"

lemma pop_refines:
  assumes i: "sl_inv n sl" and c: "contents sl \<noteq> []"
  shows "\<exists>sl'. SkipList_pop sl = Some sl' \<and> sl_inv n sl' \<and> contents sl' = tl (contents sl)"
proof -
  obtain a as where as: "mMainList sl = a # as" using c by (cases "mMainList sl") (auto simp: contents_def)
  obtain nd where nd: "mNodes sl a = Some nd" using sl_inv_nodes [OF i, of a] as by auto
  have "a \<noteq> list_end" "0 \<le> mLevel nd" "mLevel nd < int n" using i as nd by (auto simp: sl_inv_def level_of_def)
  then obtain k where k: "mLevel nd = int k" "k < n" by (metis nonneg_int_cases of_nat_less_iff)
  have "drop_first (\<lambda>x. snd x = int k) (contents sl) = tl (contents sl)" using as nd k(1) by (simp add: contents_def)
  then show ?thesis using pop_level_refines [OF i k(2)] as nd k(1) \<open>a \<noteq> list_end\<close> by (simp add: SkipList_pop_def)
qed

lemma skip_do_refines:
  assumes i: "sl_inv n sl" and y: "list_do n x (contents sl) = Some ys"
  shows "\<exists>sl'. skip_do x sl = Some sl' \<and> sl_inv n sl' \<and> contents sl' = ys"
proof (cases x)
  case (Append d l)
  then show ?thesis using append_refines [OF i, of d l] y by simp
next
  case (PopLevel l)
  then show ?thesis using skip.pop_law [OF i, of l] y by (simp split: if_splits)
next
  case Pop
  then show ?thesis using pop_refines [OF i] y by (simp split: if_splits)
next
  case Flush
  then show ?thesis using sl_inv_flush(1) [OF i] sl_inv_flush(2) [of sl] y by simp
qed

lemma skip_run_refines:
  "sl_inv n sl \<Longrightarrow> list_run n xs (contents sl) = Some ys \<Longrightarrow> \<exists>sl'. skip_run xs sl = Some sl' \<and> sl_inv n sl' \<and> contents sl' = ys"
proof (induction xs arbitrary: sl)
  case (Cons x xs)
  then obtain zs where z: "list_do n x (contents sl) = Some zs" "list_run n xs zs = Some ys" by (auto simp: bind_eq_Some_conv)
  from skip_do_refines [OF Cons.prems(1) z(1)] obtain sl1 where "skip_do x sl = Some sl1" "sl_inv n sl1" "contents sl1 = zs" by blast
  then show ?case using Cons.IH [of sl1] z(2) by simp
qed simp

text \<open>C6. The skip list. Every sequence of appends, pops of a level, pops and flushes that the list of the data with their levels allows (no pop of an
  empty list, no level outside of the vectors) returns without following an invalid iterator, and afterwards the list
  holds exactly what the plain list holds: the whole dump is that list, the dump of a level along its chain is the part of the
  list with that level in the same order, the front of a level is its first entry, and the size is the length.\<close>

theorem skip_list_refines:
  assumes "list_run n xs [] = Some ys"
  shows "\<exists>sl. skip_run xs (SkipList_new n) = Some sl \<and> SkipList_dump sl = Some ys \<and> SkipList_size sl = length ys \<and>
    (\<forall>l. 0 \<le> l \<and> l < int n \<longrightarrow> SkipList_dump_level l sl = Some (filter (\<lambda>x. snd x = l) ys) \<and>
       SkipList_front l sl = (case filter (\<lambda>x. snd x = l) ys of [] \<Rightarrow> None | x # _ \<Rightarrow> Some (fst x)))"
proof -
  have "list_run n xs (contents (SkipList_new n)) = Some ys" using assms by (simp add: sl_inv_new(2))
  then obtain sl where sl: "skip_run xs (SkipList_new n) = Some sl" "sl_inv n sl" "contents sl = ys"
    using skip_run_refines [OF sl_inv_new(1)] by blast
  have "SkipList_dump_level l sl = Some (filter (\<lambda>x. snd x = l) ys)" if "0 \<le> l" "l < int n" for l
    using dump_level_refines [OF sl(2), of "nat l"] that sl(3) by simp
  then show ?thesis
    using sl dump_refines [OF sl(2)] skip.front_law [OF sl(2)] by (auto simp: SkipList_size_def contents_def)
qed

theorem skip_list_refines_witness:
  "\<exists>sl. skip_run [Append ''a'' 0, Append ''b'' 1, Append ''c'' 0, PopLevel 0] (SkipList_new 2) = Some sl \<and>
     SkipList_dump sl = Some [(''b'', 1), (''c'', 0)] \<and> SkipList_dump_level 0 sl = Some [(''c'', 0)]"
  using skip_list_refines [of 2 "[Append ''a'' 0, Append ''b'' 1, Append ''c'' 0, PopLevel 0]" "[(''b'', 1), (''c'', 0)]"] by auto

end
