(* ===== verification/LogBuffer.thy ===== *)
theory LogBuffer
  imports SkipList "HOL-Library.Word"
begin

text \<open>
  The log buffer of \<^verbatim>\<open>src/gps/utils/LogBuffer.cpp\<close>: the last messages of every log level, kept in a skip list until
  they are too old or too many.  The values that the configuration file gives for a level are the parameter of the
  constructor; the lines of a dump are the time, the name of the level and the text of every message.  The signal handler, the
  backtrace it is given and the handlers that were installed before it are at the end; the name of the file it writes is left out.
\<close>

section \<open>The buffer\<close>

abbreviation TOTAL_LOG_LEVELS :: nat where "TOTAL_LOG_LEVELS \<equiv> 5"

record ConfigsInLevel =
  mTimeDepthThres :: "32 word"
  mMaxNumThres :: "32 word"
  mCurrentSize :: int

type_synonym log_item = "64 word \<times> string"

record LogBuffer =
  mLogList :: "log_item SkipList"
  mConfigVec :: "ConfigsInLevel list"

definition mLevelMap :: "string list" where
  "mLevelMap = [''E'', ''W'', ''I'', ''D'', ''V'']"

definition LogBuffer_new :: "(nat \<Rightarrow> 32 word option \<times> 32 word option) \<Rightarrow> LogBuffer" where
  "LogBuffer_new conf =
     \<lparr>mLogList = SkipList_new TOTAL_LOG_LEVELS,
      mConfigVec = map (\<lambda>i. \<lparr>mTimeDepthThres = (case fst (conf i) of Some v \<Rightarrow> v | None \<Rightarrow> 60),
                             mMaxNumThres = (case snd (conf i) of Some v \<Rightarrow> v | None \<Rightarrow> 50), mCurrentSize = 0\<rparr>) [0..<TOTAL_LOG_LEVELS]\<rparr>"

text \<open>The loop of \<^verbatim>\<open>append\<close>: the difference of the times is unsigned, and so is the comparison of the sizes.\<close>

partial_function (option) append_loop :: "int \<Rightarrow> 64 word \<Rightarrow> LogBuffer \<Rightarrow> LogBuffer option" where
  "append_loop level timestamp lb = do {
     fr \<leftarrow> SkipList_front level (mLogList lb);
     c \<leftarrow> at_level (mConfigVec lb) level;
     if timestamp - fst fr > ucast (mTimeDepthThres c) \<or> (word_of_int (mCurrentSize c) :: 32 word) > mMaxNumThres c then do {
       ll \<leftarrow> SkipList_pop_level level (mLogList lb);
       append_loop level timestamp
         (lb\<lparr>mLogList := ll, mConfigVec := (mConfigVec lb)[nat level := c\<lparr>mCurrentSize := mCurrentSize c - 1\<rparr>]\<rparr>)
     } else Some lb
   }"

definition LogBuffer_append :: "string \<Rightarrow> int \<Rightarrow> 64 word \<Rightarrow> LogBuffer \<Rightarrow> LogBuffer option" where
  "LogBuffer_append msg level timestamp lb = do {
     ll \<leftarrow> SkipList_append (timestamp, msg) level (mLogList lb);
     c \<leftarrow> at_level (mConfigVec lb) level;
     append_loop level timestamp
       (lb\<lparr>mLogList := ll, mConfigVec := (mConfigVec lb)[nat level := c\<lparr>mCurrentSize := mCurrentSize c + 1\<rparr>]\<rparr>)
   }"

fun dump_lines :: "(log_item \<times> int) list \<Rightarrow> (64 word \<times> string \<times> string) list option" where
  "dump_lines [] = Some []"
| "dump_lines (((t, msg), l) # xs) = do {
     nm \<leftarrow> at_level mLevelMap l;
     rest \<leftarrow> dump_lines xs;
     Some ((t, nm, msg) # rest)
   }"

text \<open>The number in the first line of a dump, and the other lines.\<close>

definition LogBuffer_dump :: "int \<Rightarrow> LogBuffer \<Rightarrow> (nat \<times> (64 word \<times> string \<times> string) list) option" where
  "LogBuffer_dump level lb = do {
     li \<leftarrow> (if level = -1 then SkipList_dump (mLogList lb) else SkipList_dump_level level (mLogList lb));
     ls \<leftarrow> dump_lines li;
     Some (length li, ls)
   }"

definition LogBuffer_flush :: "LogBuffer \<Rightarrow> LogBuffer" where
  "LogBuffer_flush lb = lb\<lparr>mLogList := SkipList_flush (mLogList lb)\<rparr>"

text \<open>The signals.  A handler is an address, 0 for the default action and 1 for ignoring the signal; a failing
  \<^verbatim>\<open>sigaction\<close> leaves the static array as it is.  The handler appends the backtrace to the errors, dumps the buffer to the
  system log and to the file, and calls the handler that was there before it, which the two actions are not.\<close>

abbreviation SIGINT :: int where "SIGINT \<equiv> 2"
abbreviation SIGTRAP :: int where "SIGTRAP \<equiv> 5"
abbreviation SIGABRT :: int where "SIGABRT \<equiv> 6"
abbreviation SIGKILL :: int where "SIGKILL \<equiv> 9"
abbreviation SIGUSR1 :: int where "SIGUSR1 \<equiv> 10"
abbreviation SIGSEGV :: int where "SIGSEGV \<equiv> 11"

definition registerSignalHandler :: "(int \<Rightarrow> nat option) \<Rightarrow> (int \<Rightarrow> nat) \<Rightarrow> int \<Rightarrow> nat" where
  "registerSignalHandler sigaction mOriSigAction =
     fold (\<lambda>sig ori. case sigaction sig of Some h \<Rightarrow> ori(sig := h) | None \<Rightarrow> ori)
       [SIGINT, SIGKILL, SIGSEGV, SIGABRT, SIGTRAP, SIGUSR1] mOriSigAction"

definition elapsedTime :: "64 word \<Rightarrow> 64 word \<Rightarrow> 64 word" where
  "elapsedTime tv_sec tv_nsec = tv_sec + tv_nsec div 1000000000"

fun append_backtrace :: "string list \<Rightarrow> 64 word \<Rightarrow> LogBuffer \<Rightarrow> LogBuffer option" where
  "append_backtrace [] now lb = Some lb"
| "append_backtrace (s # strings) now lb = do { lb \<leftarrow> LogBuffer_append s 0 now lb; append_backtrace strings now lb }"

type_synonym log_dump = "nat \<times> (64 word \<times> string \<times> string) list"

definition signalHandler :: "string list \<Rightarrow> 64 word \<Rightarrow> 64 word \<Rightarrow> (int \<Rightarrow> nat) \<Rightarrow> int \<Rightarrow> LogBuffer \<Rightarrow>
    ((log_dump \<times> log_dump \<times> nat option) \<times> LogBuffer) option" where
  "signalHandler strings tv_sec tv_nsec mOriSigAction code lb = do {
     lb \<leftarrow> append_backtrace strings (elapsedTime tv_sec tv_nsec) lb;
     logcat \<leftarrow> LogBuffer_dump (-1) lb;
     file \<leftarrow> LogBuffer_dump (-1) lb;
     if code \<noteq> SIGUSR1 then if mOriSigAction code \<le> 1 then None else Some ((logcat, file, Some (mOriSigAction code)), lb)
     else Some ((logcat, file, None), lb)
   }"

section \<open>What the buffer keeps\<close>

definition own :: "int \<Rightarrow> LogBuffer \<Rightarrow> (log_item \<times> int) list" where
  "own l lb = filter (\<lambda>x. snd x = l) (contents (mLogList lb))"

text \<open>The messages of a level that stay when the last one has the time \<open>t\<close>: the oldest are dropped while they are older
  than \<open>thr\<close> or there are more than \<open>mx\<close>.\<close>

fun purge :: "64 word \<Rightarrow> 64 word \<Rightarrow> nat \<Rightarrow> (log_item \<times> int) list \<Rightarrow> (log_item \<times> int) list" where
  "purge t thr mx [] = []"
| "purge t thr mx (x # xs) = (if t - fst (fst x) > thr \<or> Suc (length xs) > mx then purge t thr mx xs else x # xs)"

definition level_ok :: "ConfigsInLevel \<Rightarrow> bool" where
  "level_ok c \<longleftrightarrow> 1 \<le> unat (mMaxNumThres c) \<and> unat (mMaxNumThres c) < 2 ^ 31 - 1"

text \<open>The list is in order and every level counts its messages, of which there are not too many.\<close>

definition lb_inv :: "LogBuffer \<Rightarrow> bool" where
  "lb_inv lb \<longleftrightarrow>
     sl_inv TOTAL_LOG_LEVELS (mLogList lb) \<and> length (mConfigVec lb) = TOTAL_LOG_LEVELS \<and>
     (\<forall>l < TOTAL_LOG_LEVELS. level_ok (mConfigVec lb ! l) \<and> mCurrentSize (mConfigVec lb ! l) = int (length (own (int l) lb)) \<and>
        length (own (int l) lb) \<le> unat (mMaxNumThres (mConfigVec lb ! l)))"

lemma count_exceeds:
  assumes "n < 2 ^ 31"
  shows "(word_of_int (int n) :: 32 word) > m \<longleftrightarrow> n > unat m"
proof -
  have "unat (word_of_nat n :: 32 word) = n" using assms by (simp add: unat_of_nat take_bit_nat_eq_self)
  then show ?thesis by (simp add: word_less_nat_alt)
qed

lemma purge_last: "xs \<noteq> [] \<Longrightarrow> fst (fst (last xs)) = t \<Longrightarrow> 1 \<le> mx \<Longrightarrow> purge t thr mx xs \<noteq> [] \<and> last (purge t thr mx xs) = last xs"
  by (induction xs) auto

lemma purge_length: "length (purge t thr mx xs) \<le> mx"
  by (induction xs) auto

lemma purge_suffix: "\<exists>ys. xs = ys @ purge t thr mx xs"
proof (induction xs)
  case (Cons x xs)
  then obtain ys where "xs = ys @ purge t thr mx xs" by blast
  then show ?case by (cases "t - fst (fst x) > thr \<or> Suc (length xs) > mx") (auto intro: exI [of _ "x # ys"])
qed simp

text \<open>The loop, with the counter of the level in step.\<close>

lemma append_loop_purge:
  assumes "sl_inv TOTAL_LOG_LEVELS (mLogList lb)" "length (mConfigVec lb) = TOTAL_LOG_LEVELS" "l < TOTAL_LOG_LEVELS"
    "mConfigVec lb ! l = c\<lparr>mCurrentSize := int (length (own (int l) lb))\<rparr>" "level_ok c"
    "own (int l) lb \<noteq> []" "fst (fst (last (own (int l) lb))) = t" "length (own (int l) lb) < 2 ^ 31"
  shows "\<exists>lb'. append_loop (int l) t lb = Some lb' \<and> sl_inv TOTAL_LOG_LEVELS (mLogList lb') \<and>
    own (int l) lb' = purge t (ucast (mTimeDepthThres c)) (unat (mMaxNumThres c)) (own (int l) lb) \<and>
    (\<forall>k. k \<noteq> int l \<longrightarrow> own k lb' = own k lb) \<and>
    mConfigVec lb' = (mConfigVec lb)[l := c\<lparr>mCurrentSize := int (length (own (int l) lb'))\<rparr>]"
  using assms
proof (induction "own (int l) lb" arbitrary: lb)
  case (Cons x xs)
  let ?c = "c\<lparr>mCurrentSize := int (length (own (int l) lb))\<rparr>" and ?thr = "ucast (mTimeDepthThres c) :: 64 word"
  let ?go = "t - fst (fst x) > ?thr \<or> Suc (length xs) > unat (mMaxNumThres c)"
  note inv = Cons.prems(1) and x = Cons.hyps(2) [symmetric]
  have fr: "SkipList_front (int l) (mLogList lb) = Some (fst x)"
    using skip.front_law [OF inv, of "int l"] Cons.prems(3) x by (simp add: own_def)
  have cl: "at_level (mConfigVec lb) (int l) = Some ?c" using Cons.prems(2,3,4) by (simp add: at_level_in)
  have cmp: "(word_of_int (mCurrentSize ?c) :: 32 word) > mMaxNumThres ?c \<longleftrightarrow> Suc (length xs) > unat (mMaxNumThres c)"
    using count_exceeds [of "length (own (int l) lb)" "mMaxNumThres c"] Cons.prems(8) x by simp
  show ?case
  proof (cases ?go)
    case False
    then have "append_loop (int l) t lb = Some lb" using fr cl cmp by (subst append_loop.simps) simp
    moreover have "own (int l) lb = purge t ?thr (unat (mMaxNumThres c)) (own (int l) lb)" using False x by simp
    moreover have "mConfigVec lb = (mConfigVec lb)[l := ?c]" using Cons.prems(4) list_update_id [of "mConfigVec lb" l] by simp
    ultimately show ?thesis using inv by (intro exI [of _ lb]) simp
  next
    case True
    have "xs \<noteq> []"
    proof
      assume "xs = []"
      then show False using True Cons.prems(5,7) x by (auto simp: level_ok_def)
    qed
    obtain ll where ll: "SkipList_pop_level (int l) (mLogList lb) = Some ll" "sl_inv TOTAL_LOG_LEVELS ll"
      using skip.pop_law [OF inv, of "int l"] Cons.prems(3) by auto
    let ?lb = "lb\<lparr>mLogList := ll, mConfigVec := (mConfigVec lb)[l := ?c\<lparr>mCurrentSize := mCurrentSize ?c - 1\<rparr>]\<rparr>"
    have o: "own (int l) ?lb = xs" using skip.pop_own [OF inv _ _ ll(1)] Cons.prems(3) x by (simp add: own_def)
    have oo: "own k ?lb = own k lb" if "k \<noteq> int l" for k
      using skip.pop_others [OF inv _ _ ll(1) that] Cons.prems(3) by (simp add: own_def)
    have "append_loop (int l) t lb = append_loop (int l) t ?lb"
      using fr cl cmp True ll(1) by (subst append_loop.simps) simp
    moreover have "\<exists>lb'. append_loop (int l) t ?lb = Some lb' \<and> sl_inv TOTAL_LOG_LEVELS (mLogList lb') \<and>
        own (int l) lb' = purge t ?thr (unat (mMaxNumThres c)) (own (int l) ?lb) \<and> (\<forall>k. k \<noteq> int l \<longrightarrow> own k lb' = own k ?lb) \<and>
        mConfigVec lb' = (mConfigVec ?lb)[l := c\<lparr>mCurrentSize := int (length (own (int l) lb'))\<rparr>]"
      using Cons.prems x \<open>xs \<noteq> []\<close> ll(2) o by (intro Cons.hyps(1)) auto
    ultimately show ?thesis using True x o oo by (auto simp del: append_loop.simps)
  qed
qed simp

section \<open>Appending, flushing and dumping\<close>

definition conf_ok :: "(nat \<Rightarrow> 32 word option \<times> 32 word option) \<Rightarrow> bool" where
  "conf_ok conf \<longleftrightarrow> list_all (\<lambda>i. case snd (conf i) of Some mx \<Rightarrow> 1 \<le> unat mx \<and> unat mx < 2 ^ 31 - 1 | None \<Rightarrow> True) [0..<TOTAL_LOG_LEVELS]"

lemma lb_inv_new: "conf_ok conf \<Longrightarrow> lb_inv (LogBuffer_new conf)"
  by (auto simp: conf_ok_def list_all_iff lb_inv_def LogBuffer_new_def sl_inv_new own_def level_ok_def simp del: upt_rec_numeral
      split: option.splits)

lemma append_purges:
  assumes i: "lb_inv lb" and l: "l < TOTAL_LOG_LEVELS"
  shows "\<exists>lb'. LogBuffer_append msg (int l) t lb = Some lb' \<and> sl_inv TOTAL_LOG_LEVELS (mLogList lb') \<and>
    own (int l) lb' = purge t (ucast (mTimeDepthThres (mConfigVec lb ! l))) (unat (mMaxNumThres (mConfigVec lb ! l)))
      (own (int l) lb @ [((t, msg), int l)]) \<and>
    (\<forall>k. k \<noteq> int l \<longrightarrow> own k lb' = own k lb) \<and>
    mConfigVec lb' = (mConfigVec lb)[l := (mConfigVec lb ! l)\<lparr>mCurrentSize := int (length (own (int l) lb'))\<rparr>]"
proof -
  obtain c where c: "mConfigVec lb ! l = c" by blast
  have inv: "sl_inv TOTAL_LOG_LEVELS (mLogList lb)" and len: "length (mConfigVec lb) = TOTAL_LOG_LEVELS" and ok: "level_ok c"
    and cs: "mCurrentSize c = int (length (own (int l) lb))" and le: "length (own (int l) lb) \<le> unat (mMaxNumThres c)"
    using i l c by (auto simp: lb_inv_def)
  obtain ll where ll: "SkipList_append (t, msg) (int l) (mLogList lb) = Some ll" "sl_inv TOTAL_LOG_LEVELS ll"
    "contents ll = contents (mLogList lb) @ [((t, msg), int l)]"
    using skip.append_law [OF inv, of "int l" "(t, msg)"] l by auto
  obtain lb1 where lb1: "lb1 = lb\<lparr>mLogList := ll, mConfigVec := (mConfigVec lb)[l := c\<lparr>mCurrentSize := mCurrentSize c + 1\<rparr>]\<rparr>" by blast
  have ow: "own k lb1 = own k lb @ (if k = int l then [((t, msg), int l)] else [])" for k using ll(3) lb1 by (simp add: own_def)
  have ap: "LogBuffer_append msg (int l) t lb = append_loop (int l) t lb1"
    using ll(1) l len c lb1 by (simp add: LogBuffer_append_def at_level_in)
  have f: "mLogList lb1 = ll" "length (mConfigVec lb1) = TOTAL_LOG_LEVELS"
    "mConfigVec lb1 ! l = c\<lparr>mCurrentSize := int (length (own (int l) lb1))\<rparr>" "mConfigVec lb1 = (mConfigVec lb)[l := mConfigVec lb1 ! l]"
    using lb1 len l cs ow [of "int l"] by simp_all
  have "length (own (int l) lb1) < 2 ^ 31" using ow [of "int l"] le ok by (simp add: level_ok_def)
  then obtain lb' where lb': "append_loop (int l) t lb1 = Some lb'" "sl_inv TOTAL_LOG_LEVELS (mLogList lb')"
    "own (int l) lb' = purge t (ucast (mTimeDepthThres c)) (unat (mMaxNumThres c)) (own (int l) lb1)"
    "\<forall>k. k \<noteq> int l \<longrightarrow> own k lb' = own k lb1"
    "mConfigVec lb' = (mConfigVec lb1)[l := c\<lparr>mCurrentSize := int (length (own (int l) lb'))\<rparr>]"
    using append_loop_purge [of lb1 l c t] f ll(2) l ok ow [of "int l"] by auto
  have "mConfigVec lb' = (mConfigVec lb)[l := c\<lparr>mCurrentSize := int (length (own (int l) lb'))\<rparr>]"
    using lb'(5) f(4) by (metis list_update_overwrite)
  then show ?thesis using lb' ap ow c by auto
qed

lemma append_keeps_inv:
  assumes i: "lb_inv lb" and l: "l < TOTAL_LOG_LEVELS" and a: "LogBuffer_append msg (int l) t lb = Some lb'"
  shows "lb_inv lb'"
proof -
  let ?c = "mConfigVec lb ! l"
  have f: "sl_inv TOTAL_LOG_LEVELS (mLogList lb')" "length (own (int l) lb') \<le> unat (mMaxNumThres ?c)"
    "\<And>k. k \<noteq> int l \<Longrightarrow> own k lb' = own k lb"
    "mConfigVec lb' = (mConfigVec lb)[l := ?c\<lparr>mCurrentSize := int (length (own (int l) lb'))\<rparr>]"
    using append_purges [OF i l, of msg t] a by (auto simp: purge_length)
  have c: "length (mConfigVec lb) = TOTAL_LOG_LEVELS" "\<And>k. k < TOTAL_LOG_LEVELS \<Longrightarrow> level_ok (mConfigVec lb ! k) \<and>
      mCurrentSize (mConfigVec lb ! k) = int (length (own (int k) lb)) \<and> length (own (int k) lb) \<le> unat (mMaxNumThres (mConfigVec lb ! k))"
    using i by (auto simp: lb_inv_def)
  have "level_ok (mConfigVec lb' ! k) \<and> mCurrentSize (mConfigVec lb' ! k) = int (length (own (int k) lb')) \<and>
      length (own (int k) lb') \<le> unat (mMaxNumThres (mConfigVec lb' ! k))" if "k < TOTAL_LOG_LEVELS" for k
    using c(2) [OF that] c(2) [OF l] f(2) f(3) [of "int k"] c(1) l
    by (cases "k = l") (auto simp: f(4) level_ok_def)
  then show ?thesis using f(1) c(1) by (simp add: lb_inv_def f(4))
qed

fun log_run :: "(string \<times> nat \<times> 64 word) list \<Rightarrow> LogBuffer \<Rightarrow> LogBuffer option" where
  "log_run [] lb = Some lb"
| "log_run ((msg, l, t) # ms) lb = do { lb \<leftarrow> LogBuffer_append msg (int l) t lb; log_run ms lb }"

text \<open>What every level holds after a sequence of messages, without a skip list and a counter.\<close>

fun log_keep :: "64 word \<Rightarrow> nat \<Rightarrow> nat \<Rightarrow> (string \<times> nat \<times> 64 word) list \<Rightarrow> (log_item \<times> int) list \<Rightarrow> (log_item \<times> int) list" where
  "log_keep thr mx l [] xs = xs"
| "log_keep thr mx l ((msg, k, t) # ms) xs = log_keep thr mx l ms (if k = l then purge t thr mx (xs @ [((t, msg), int l)]) else xs)"

abbreviation depth_of :: "nat \<Rightarrow> LogBuffer \<Rightarrow> 64 word" where
  "depth_of l lb \<equiv> ucast (mTimeDepthThres (mConfigVec lb ! l))"

abbreviation room_of :: "nat \<Rightarrow> LogBuffer \<Rightarrow> nat" where
  "room_of l lb \<equiv> unat (mMaxNumThres (mConfigVec lb ! l))"

lemma log_run_keep:
  "lb_inv lb \<Longrightarrow> list_all (\<lambda>(msg, l, t). l < TOTAL_LOG_LEVELS) ms \<Longrightarrow>
   \<exists>lb'. log_run ms lb = Some lb' \<and> lb_inv lb' \<and>
     (\<forall>l < TOTAL_LOG_LEVELS. own (int l) lb' = log_keep (depth_of l lb) (room_of l lb) l ms (own (int l) lb) \<and> room_of l lb' = room_of l lb)"
proof (induction ms arbitrary: lb)
  case (Cons m ms)
  obtain msg l t where m: "m = (msg, l, t)" by (cases m)
  have l: "l < TOTAL_LOG_LEVELS" using Cons.prems(2) m by simp
  obtain lb1 where a: "LogBuffer_append msg (int l) t lb = Some lb1"
    "own (int l) lb1 = purge t (depth_of l lb) (room_of l lb) (own (int l) lb @ [((t, msg), int l)])"
    "\<And>k. k \<noteq> int l \<Longrightarrow> own k lb1 = own k lb"
    "mConfigVec lb1 = (mConfigVec lb)[l := (mConfigVec lb ! l)\<lparr>mCurrentSize := int (length (own (int l) lb1))\<rparr>]"
    using append_purges [OF Cons.prems(1) l, of msg t] by blast
  have len: "length (mConfigVec lb) = TOTAL_LOG_LEVELS" using Cons.prems(1) by (simp add: lb_inv_def)
  have c: "depth_of k lb1 = depth_of k lb" "room_of k lb1 = room_of k lb" for k
    using len l by (simp_all add: a(4) nth_list_update)
  obtain lb' where lb': "log_run ms lb1 = Some lb'" "lb_inv lb'"
    "\<forall>k < TOTAL_LOG_LEVELS. own (int k) lb' = log_keep (depth_of k lb1) (room_of k lb1) k ms (own (int k) lb1) \<and> room_of k lb' = room_of k lb1"
    using Cons.IH [of lb1] append_keeps_inv [OF Cons.prems(1) l a(1)] Cons.prems(2) by auto
  have "own (int j) lb1 = (if l = j then purge t (depth_of j lb) (room_of j lb) (own (int j) lb @ [((t, msg), int j)])
      else own (int j) lb)" for j
    using a(2) a(3) [of "int j"] by auto
  then show ?case using lb' a(1) c m by simp
qed simp

lemma dump_lines_level: "at_level mLevelMap l = Some nm \<Longrightarrow>
  dump_lines (filter (\<lambda>x. snd x = l) xs) = Some (map (\<lambda>x. (fst (fst x), nm, snd (fst x))) (filter (\<lambda>x. snd x = l) xs))"
  by (induction xs) auto

lemma dump_level_lines:
  assumes "lb_inv lb" and l: "l < TOTAL_LOG_LEVELS"
  shows "LogBuffer_dump (int l) lb =
    Some (length (own (int l) lb), map (\<lambda>x. (fst (fst x), mLevelMap ! l, snd (fst x))) (own (int l) lb))"
proof -
  have "sl_inv TOTAL_LOG_LEVELS (mLogList lb)" using assms(1) by (simp add: lb_inv_def)
  then have "SkipList_dump_level (int l) (mLogList lb) = Some (own (int l) lb)"
    using dump_level_refines [OF _ l] by (simp add: own_def)
  moreover have "at_level mLevelMap (int l) = Some (mLevelMap ! l)" using l by (simp add: at_level_def mLevelMap_def)
  ultimately show ?thesis using dump_lines_level [of "int l" "mLevelMap ! l"] by (simp add: LogBuffer_dump_def own_def)
qed

text \<open>C7. The log buffer. With every capacity at least one and below \<open>2 ^ 31 - 1\<close>, a sequence of messages of the five levels is
  appended to the new buffer without following an invalid iterator and without running forever, and afterwards the dump of
  every level is the level's own messages in order, from which every append has dropped the oldest as long as they were
  older than the time depth of the level or more than its capacity; there are never more lines than the
  capacity, and the messages of one level do not touch another.\<close>

theorem log_buffer_refines:
  assumes "conf_ok conf" and "list_all (\<lambda>(msg, l, t). l < TOTAL_LOG_LEVELS) ms"
  shows "\<exists>lb. log_run ms (LogBuffer_new conf) = Some lb \<and>
    (\<forall>l < TOTAL_LOG_LEVELS. \<exists>xs. xs = log_keep (depth_of l (LogBuffer_new conf)) (room_of l (LogBuffer_new conf)) l ms [] \<and>
       length xs \<le> room_of l (LogBuffer_new conf) \<and>
       LogBuffer_dump (int l) lb = Some (length xs, map (\<lambda>x. (fst (fst x), mLevelMap ! l, snd (fst x))) xs))"
proof -
  have new: "own k (LogBuffer_new conf) = []" for k by (simp add: own_def LogBuffer_new_def sl_inv_new)
  obtain lb where lb: "log_run ms (LogBuffer_new conf) = Some lb" "lb_inv lb"
    "\<forall>l < TOTAL_LOG_LEVELS. own (int l) lb = log_keep (depth_of l (LogBuffer_new conf)) (room_of l (LogBuffer_new conf)) l ms [] \<and>
       room_of l lb = room_of l (LogBuffer_new conf)"
    using log_run_keep [OF lb_inv_new [OF assms(1)] assms(2)] by (auto simp: new)
  have "length (own (int l) lb) \<le> room_of l lb" if "l < TOTAL_LOG_LEVELS" for l using lb(2) that by (simp add: lb_inv_def)
  then show ?thesis using lb dump_level_lines [OF lb(2)] by (intro exI [of _ lb]) simp
qed

definition small_conf :: "nat \<Rightarrow> 32 word option \<times> 32 word option" where
  "small_conf i = (Some 10, Some 2)"

theorem log_buffer_refines_witness:
  "\<exists>lb. log_run [(''a'', 0, 1), (''b'', 0, 2), (''w'', 1, 3), (''c'', 0, 4)] (LogBuffer_new small_conf) = Some lb \<and>
     LogBuffer_dump 0 lb = Some (2, [(2, ''E'', ''b''), (4, ''E'', ''c'')])"
proof -
  let ?ms = "[(''a'', 0, 1), (''b'', 0, 2), (''w'', 1, 3), (''c'', 0, 4)] :: (string \<times> nat \<times> 64 word) list"
  have k: "log_keep (depth_of 0 (LogBuffer_new small_conf)) (room_of 0 (LogBuffer_new small_conf)) 0 ?ms [] =
      [((2, ''b''), 0), ((4, ''c''), 0)]"
    by (simp add: LogBuffer_new_def small_conf_def upt_conv_Cons)
  have "conf_ok small_conf" "list_all (\<lambda>(msg, l, t). l < TOTAL_LOG_LEVELS) ?ms"
    by (simp_all add: small_conf_def conf_ok_def list_all_iff)
  from log_buffer_refines [OF this] obtain lb where "log_run ?ms (LogBuffer_new small_conf) = Some lb"
    "\<exists>xs. xs = log_keep (depth_of 0 (LogBuffer_new small_conf)) (room_of 0 (LogBuffer_new small_conf)) 0 ?ms [] \<and>
       LogBuffer_dump (int 0) lb = Some (length xs, map (\<lambda>x. (fst (fst x), mLevelMap ! 0, snd (fst x))) xs)"
    using zero_less_numeral by blast
  then show ?thesis unfolding k by (auto simp: mLevelMap_def)
qed

section \<open>Where the buffer fails\<close>

lemma append_loop_runs_dry:
  assumes "sl_inv TOTAL_LOG_LEVELS (mLogList lb)" "length (mConfigVec lb) = TOTAL_LOG_LEVELS" "l < TOTAL_LOG_LEVELS"
    "own (int l) lb = [x]" "(word_of_int (mCurrentSize (mConfigVec lb ! l)) :: 32 word) > mMaxNumThres (mConfigVec lb ! l)"
  shows "append_loop (int l) t lb = None"
proof -
  let ?c = "mConfigVec lb ! l"
  have fr: "SkipList_front (int l) (mLogList lb) = Some (fst x)"
    using skip.front_law [OF assms(1), of "int l"] assms(3,4) by (simp add: own_def)
  obtain ll where ll: "SkipList_pop_level (int l) (mLogList lb) = Some ll" "sl_inv TOTAL_LOG_LEVELS ll"
    using skip.pop_law [OF assms(1), of "int l"] assms(3) by auto
  have "filter (\<lambda>x. snd x = int l) (contents ll) = []"
    using skip.pop_own [OF assms(1) _ _ ll(1)] assms(3,4) by (simp add: own_def)
  then have none: "SkipList_front (int l) ll = None" using skip.front_law [OF ll(2), of "int l"] assms(3) by simp
  have "append_loop (int l) t lb = append_loop (int l) t
      (lb\<lparr>mLogList := ll, mConfigVec := (mConfigVec lb)[l := ?c\<lparr>mCurrentSize := mCurrentSize ?c - 1\<rparr>]\<rparr>)"
    using fr ll(1) assms(2,3,5) by (subst append_loop.simps) (simp add: at_level_in)
  also have "\<dots> = None" using none by (subst append_loop.simps) simp
  finally show ?thesis .
qed

text \<open>C38. Flushing the log buffer. The flush empties every level of the list, and leaves the counts of the levels as they are:
  the first message that follows on a level which was full pops itself, and the loop goes on to read the front of a level
  that has no node, which is \<^verbatim>\<open>end()\<close>.\<close>

theorem log_flush_append:
  assumes i: "lb_inv lb" and l: "l < TOTAL_LOG_LEVELS" and full: "length (own (int l) lb) = room_of l lb"
  shows "(\<forall>k < TOTAL_LOG_LEVELS. LogBuffer_dump (int k) (LogBuffer_flush lb) = Some (0, [])) \<and>
    LogBuffer_append msg (int l) t (LogBuffer_flush lb) = None"
proof -
  obtain c where c: "mConfigVec lb ! l = c" by blast
  have inv: "sl_inv TOTAL_LOG_LEVELS (mLogList lb)" and len: "length (mConfigVec lb) = TOTAL_LOG_LEVELS" and ok: "level_ok c"
    and cs: "mCurrentSize c = int (unat (mMaxNumThres c))"
    using i l c full by (auto simp: lb_inv_def)
  let ?fl = "SkipList_flush (mLogList lb)"
  have fl: "sl_inv TOTAL_LOG_LEVELS ?fl" "contents ?fl = []" using sl_inv_flush(1) [OF inv] sl_inv_flush(2) by auto
  have d: "LogBuffer_dump (int k) (LogBuffer_flush lb) = Some (0, [])" if "k < TOTAL_LOG_LEVELS" for k
    using dump_level_refines [OF fl(1) that] fl(2) by (simp add: LogBuffer_dump_def LogBuffer_flush_def)
  obtain ll where ll: "SkipList_append (t, msg) (int l) ?fl = Some ll" "sl_inv TOTAL_LOG_LEVELS ll"
    "contents ll = [((t, msg), int l)]"
    using skip.append_law [OF fl(1), of "int l" "(t, msg)"] l fl(2) by auto
  let ?lb = "lb\<lparr>mLogList := ll, mConfigVec := (mConfigVec lb)[l := c\<lparr>mCurrentSize := mCurrentSize c + 1\<rparr>]\<rparr>"
  have "(word_of_int (mCurrentSize c + 1) :: 32 word) > mMaxNumThres c"
    using count_exceeds [of "Suc (unat (mMaxNumThres c))" "mMaxNumThres c"] ok cs by (simp add: level_ok_def add.commute)
  then have "append_loop (int l) t ?lb = None" using ll len l by (intro append_loop_runs_dry) (simp_all add: own_def)
  then have "LogBuffer_append msg (int l) t (LogBuffer_flush lb) = None"
    using ll(1) l len c by (simp add: LogBuffer_append_def LogBuffer_flush_def at_level_in)
  then show ?thesis using d by blast
qed

definition one_conf :: "nat \<Rightarrow> 32 word option \<times> 32 word option" where
  "one_conf i = (Some 10, Some 1)"

theorem log_flush_append_witness:
  "\<exists>lb. log_run [(''a'', 0, 1)] (LogBuffer_new one_conf) = Some lb \<and> LogBuffer_append ''b'' 0 2 (LogBuffer_flush lb) = None"
proof -
  have "conf_ok one_conf" by (simp add: one_conf_def conf_ok_def list_all_iff)
  then have "lb_inv (LogBuffer_new one_conf)" by (rule lb_inv_new)
  moreover have "own 0 (LogBuffer_new one_conf) = []" "room_of 0 (LogBuffer_new one_conf) = 1"
    by (simp_all add: own_def LogBuffer_new_def sl_inv_new one_conf_def upt_conv_Cons)
  moreover have "list_all (\<lambda>(msg, l, t). l < TOTAL_LOG_LEVELS) [(''a'' :: string, 0, 1 :: 64 word)]" by simp
  ultimately obtain lb where lb: "log_run [(''a'', 0, 1)] (LogBuffer_new one_conf) = Some lb" "lb_inv lb"
    "length (own (int 0) lb) = room_of 0 lb"
    using log_run_keep [of "LogBuffer_new one_conf" "[(''a'', 0, 1)]"] by (auto dest!: spec [where x = 0])
  then show ?thesis using log_flush_append [of lb 0 "''b''" 2] by auto
qed

text \<open>A level outside of the five is refused by the list and then indexes the vector of the levels; a level of capacity zero drops
  the message that it has just been given and reads the front of an empty level.\<close>

lemma append_bad_level:
  "lb_inv lb \<Longrightarrow> level < 0 \<or> int TOTAL_LOG_LEVELS \<le> level \<Longrightarrow> LogBuffer_append msg level t lb = None"
  by (auto simp: LogBuffer_append_def SkipList_append_def lb_inv_def sl_inv_def at_level_def)

lemma append_no_capacity: "LogBuffer_append ''a'' 0 1 (LogBuffer_new (\<lambda>_. (None, Some 0))) = None"
proof -
  let ?lb = "LogBuffer_new (\<lambda>_. (None, Some 0))"
  have inv: "sl_inv TOTAL_LOG_LEVELS (mLogList ?lb)" "contents (mLogList ?lb) = []" by (simp_all add: LogBuffer_new_def sl_inv_new)
  obtain ll where ll: "SkipList_append (1, ''a'') 0 (mLogList ?lb) = Some ll" "sl_inv TOTAL_LOG_LEVELS ll"
    "contents ll = [((1, ''a''), 0)]"
    using skip.append_law [OF inv(1), of 0 "(1, ''a'')"] inv(2) by auto
  let ?c = "mConfigVec ?lb ! 0"
  have c: "length (mConfigVec ?lb) = TOTAL_LOG_LEVELS" "mCurrentSize ?c = 0" "mMaxNumThres ?c = 0"
    by (simp_all add: LogBuffer_new_def upt_conv_Cons)
  have "append_loop (int 0) 1 (?lb\<lparr>mLogList := ll, mConfigVec := (mConfigVec ?lb)[0 := ?c\<lparr>mCurrentSize := mCurrentSize ?c + 1\<rparr>]\<rparr>) = None"
    using ll c by (intro append_loop_runs_dry) (simp_all add: own_def)
  then show ?thesis using ll(1) c(1) at_level_in [of 0 "mConfigVec ?lb"] by (simp add: LogBuffer_append_def)
qed

text \<open>The age of a message is an unsigned difference: a message that is stamped one second before those of its level drops them all.\<close>

lemma purge_clock_back: "purge 99 60 50 [((100, ''a''), 0), ((100, ''b''), 0), ((99, ''c''), 0)] = [((99, ''c''), 0)]"
  by simp

text \<open>The signal handler gives out the whole buffer and keeps it in order; only \<^verbatim>\<open>SIGUSR1\<close> is sure to come back: for a signal that had the
  default action before, the process calls the address 0.\<close>

lemma append_backtrace_ok: "lb_inv lb \<Longrightarrow> \<exists>lb'. append_backtrace strings now lb = Some lb' \<and> lb_inv lb'"
proof (induction strings arbitrary: lb)
  case (Cons s strings)
  obtain lb1 where a: "LogBuffer_append s (int 0) now lb = Some lb1" using append_purges [OF Cons.prems, of 0 s now] by auto
  then have "lb_inv lb1" by (intro append_keeps_inv [OF Cons.prems _ a]) simp
  then show ?case using Cons.IH a by simp
qed simp

lemma dump_lines_names:
  "list_all (\<lambda>x. 0 \<le> snd x \<and> snd x < int TOTAL_LOG_LEVELS) xs \<Longrightarrow>
   dump_lines xs = Some (map (\<lambda>x. (fst (fst x), mLevelMap ! nat (snd x), snd (fst x))) xs)"
  by (induction xs rule: dump_lines.induct) (auto simp: at_level_def mLevelMap_def)

lemma contents_levels: "sl_inv n sl \<Longrightarrow> list_all (\<lambda>x. 0 \<le> snd x \<and> snd x < int n) (contents sl)"
  by (auto simp: list_all_iff contents_def sl_inv_def level_of_def domIff dest!: equalityD2 split: option.splits)

lemma dump_all_lines:
  assumes "lb_inv lb"
  shows "LogBuffer_dump (-1) lb = Some (length (contents (mLogList lb)),
    map (\<lambda>x. (fst (fst x), mLevelMap ! nat (snd x), snd (fst x))) (contents (mLogList lb)))"
proof -
  have i: "sl_inv TOTAL_LOG_LEVELS (mLogList lb)" using assms by (simp add: lb_inv_def)
  show ?thesis using dump_refines [OF i] dump_lines_names [OF contents_levels [OF i]] by (simp add: LogBuffer_dump_def)
qed

lemma signal_handler_usr1:
  assumes "lb_inv lb"
  shows "\<exists>d lb'. signalHandler strings sec nsec ori SIGUSR1 lb = Some ((d, d, None), lb') \<and> lb_inv lb' \<and> LogBuffer_dump (-1) lb' = Some d"
proof -
  obtain lb' where "append_backtrace strings (elapsedTime sec nsec) lb = Some lb'" "lb_inv lb'"
    using append_backtrace_ok [OF assms] by blast
  then show ?thesis using dump_all_lines by (auto simp: signalHandler_def)
qed

lemma signal_handler_default:
  assumes "code \<noteq> SIGUSR1" "sigaction code = Some 0 \<or> code = SIGKILL \<and> sigaction code = None"
  shows "signalHandler strings sec nsec (registerSignalHandler sigaction (\<lambda>_. 0)) code lb = None"
proof -
  have "registerSignalHandler sigaction (\<lambda>_. 0) code = 0" using assms by (auto simp: registerSignalHandler_def split: option.splits)
  then show ?thesis
    using assms(1) by (auto simp: signalHandler_def bind_eq_None_conv split: option.splits)
qed

end
