(* ===== verification/SetMap.thy ===== *)
theory SetMap
  imports Prelude "HOL-Library.AList"
begin

text \<open>
  The map of sets of \<^verbatim>\<open>src/gps/utils/LocUnorderedSetMap.h\<close>.  A set is the list of its elements in the order in which it is
  iterated, without duplicates, and a map the list of its entries; an iterator into a set is the element it stands at, and
  \<^term>\<open>None\<close> at the end.  Using an iterator whose element has been erased is the failure \<^term>\<open>None\<close> of an operation.  An
  optional output set is an option, \<^term>\<open>None\<close> for the null pointer.
\<close>

section \<open>Sets\<close>

definition set_insert :: "'a \<Rightarrow> 'a list \<Rightarrow> 'a list" where
  "set_insert x s = (if x \<in> set s then s else s @ [x])"

definition set_erase :: "'a \<Rightarrow> 'a list \<Rightarrow> 'a list" where
  "set_erase x s = filter (\<lambda>y. y \<noteq> x) s"

definition next_iter :: "'a list \<Rightarrow> 'a \<Rightarrow> 'a option option" where
  "next_iter s b = (case dropWhile (\<lambda>y. y \<noteq> b) s of [] \<Rightarrow> None | _ # rest \<Rightarrow> Some (case rest of [] \<Rightarrow> None | y # _ \<Rightarrow> Some y))"

fun trimSet :: "'a list \<Rightarrow> 'a list \<Rightarrow> 'a list option \<Rightarrow> 'a list \<times> 'a list option" where
  "trimSet fromSet [] goneVals = (fromSet, goneVals)"
| "trimSet fromSet (val # rVals) goneVals =
     trimSet (set_erase val fromSet) rVals (if val \<in> set fromSet then map_option (set_insert val) goneVals else goneVals)"

partial_function (option) interset_loop :: "'a list \<Rightarrow> 'a list \<Rightarrow> 'a list \<Rightarrow> 'a option \<Rightarrow> ('a list \<times> 'a list \<times> 'a list) option" where
  "interset_loop s1 s2 common it =
     (case it of
        None \<Rightarrow> Some (common, s1, s2)
      | Some b \<Rightarrow>
          let (s1, s2, common) = (if b \<in> set s1 then (set_erase b s1, set_erase b s2, set_insert b common) else (s1, s2, common)) in
          do { it \<leftarrow> next_iter s2 b; interset_loop s1 s2 common it })"

definition removeAndReturnInterset :: "'a list \<Rightarrow> 'a list \<Rightarrow> ('a list \<times> 'a list \<times> 'a list) option" where
  "removeAndReturnInterset s1 s2 = interset_loop s1 s2 [] (case s2 of [] \<Rightarrow> None | b # _ \<Rightarrow> Some b)"

section \<open>The map\<close>

type_synonym ('k, 'v) set_map = "('k \<times> 'v list) list"

definition getValSet :: "'k \<Rightarrow> ('k, 'v) set_map \<Rightarrow> 'v list" where
  "getValSet key mMap = (case map_of mMap key of Some vs \<Rightarrow> vs | None \<Rightarrow> [])"

definition getKeys :: "('k, 'v) set_map \<Rightarrow> 'k list" where
  "getKeys mMap = fold (\<lambda>entry keys. set_insert (fst entry) keys) mMap []"

definition map_remove :: "'k \<Rightarrow> ('k, 'v) set_map \<Rightarrow> bool \<times> ('k, 'v) set_map" where
  "map_remove key mMap = (map_of mMap key \<noteq> None, AList.delete key mMap)"

text \<open>The entry of an iterator, and the entries of a set of keys: \<^verbatim>\<open>iter->first\<close> is read after the entry has been erased.\<close>

definition trimOrRemove_entry :: "'k \<Rightarrow> 'v list \<Rightarrow> 'v list \<Rightarrow> 'v list option \<Rightarrow> ('k, 'v) set_map \<Rightarrow>
    bool \<times> 'v list option \<times> ('k, 'v) set_map" where
  "trimOrRemove_entry key vs rVals goneVals mMap =
     (let (vs, goneVals) = trimSet vs rVals goneVals;
          mMap = AList.update key vs mMap;
          removeEntry = (vs = []) in
      (removeEntry, goneVals, if removeEntry then AList.delete key mMap else mMap))"

fun trimOrRemove :: "'k list \<Rightarrow> 'v list \<Rightarrow> 'k list option \<Rightarrow> 'v list option \<Rightarrow> ('k, 'v) set_map \<Rightarrow>
    ('k list option \<times> 'v list option \<times> ('k, 'v) set_map) option" where
  "trimOrRemove [] rVals goneKeys goneVals mMap = Some (goneKeys, goneVals, mMap)"
| "trimOrRemove (key # keys) rVals goneKeys goneVals mMap =
     (case map_of mMap key of
        None \<Rightarrow> trimOrRemove keys rVals goneKeys goneVals mMap
      | Some vs \<Rightarrow>
          let (removed, goneVals, mMap) = trimOrRemove_entry key vs rVals goneVals mMap in
          if removed \<and> goneKeys \<noteq> None then None
          else trimOrRemove keys rVals goneKeys goneVals mMap)"

definition add_key :: "'k \<Rightarrow> 'v list \<Rightarrow> ('k, 'v) set_map \<Rightarrow> bool \<times> ('k, 'v) set_map" where
  "add_key key newVals mMap =
     (if newVals = [] then (False, mMap)
      else case map_of mMap key of
        Some vs \<Rightarrow> (False, AList.update key (fold set_insert newVals vs) mMap)
      | None \<Rightarrow> (True, AList.update key newVals mMap))"

fun add_keys :: "'k list \<Rightarrow> 'v list \<Rightarrow> 'k list option \<Rightarrow> ('k, 'v) set_map \<Rightarrow> 'k list option \<times> ('k, 'v) set_map" where
  "add_keys [] newVals newKeys mMap = (newKeys, mMap)"
| "add_keys (key # keys) newVals newKeys mMap =
     (let (added, mMap) = add_key key newVals mMap in
      add_keys keys newVals (if added then map_option (set_insert key) newKeys else newKeys) mMap)"

text \<open>The values that an update returns, the set of the caller and the map.\<close>

definition map_update :: "'k \<Rightarrow> 'v list \<Rightarrow> ('k, 'v) set_map \<Rightarrow> ('v list \<times> 'v list \<times> ('k, 'v) set_map) option" where
  "map_update key newVals mMap =
     (if newVals = [] then Some ([], newVals, AList.delete key mMap)
      else do {
        let curVals = getValSet key mMap;
        let mMap = AList.update key newVals mMap;
        (goneVals, _, newVals) \<leftarrow> removeAndReturnInterset curVals newVals;
        Some (goneVals, newVals, mMap)
      })"

section \<open>What the operations do to the sets\<close>

text \<open>The map as a function from keys to sets, in which a missing key has the empty set.\<close>

definition vals :: "('k, 'v) set_map \<Rightarrow> 'k \<Rightarrow> 'v set" where
  "vals mMap key = set (getValSet key mMap)"

definition sm_inv :: "('k, 'v) set_map \<Rightarrow> bool" where
  "sm_inv mMap \<longleftrightarrow> distinct (map fst mMap) \<and> (\<forall>key vs. map_of mMap key = Some vs \<longrightarrow> vs \<noteq> [] \<and> distinct vs)"

lemma set_set_insert [simp]: "set (set_insert x s) = insert x (set s)"
  by (auto simp: set_insert_def)

lemma distinct_set_insert [simp]: "distinct (set_insert x s) = distinct s"
  by (simp add: set_insert_def)

lemma set_fold_set_insert [simp]: "set (fold set_insert xs s) = set xs \<union> set s"
  by (induction xs arbitrary: s) auto

lemma distinct_fold_set_insert [simp]: "distinct (fold set_insert xs s) = distinct s"
  by (induction xs arbitrary: s) auto

lemma set_set_erase [simp]: "set (set_erase x s) = set s - {x}"
  by (auto simp: set_erase_def)

lemma distinct_set_erase [simp]: "distinct s \<Longrightarrow> distinct (set_erase x s)"
  by (simp add: set_erase_def)

lemma trimSet_set: "set (fst (trimSet s r g)) = set s - set r"
  by (induction s r g rule: trimSet.induct) auto

lemma trimSet_distinct: "distinct s \<Longrightarrow> distinct (fst (trimSet s r g))"
  by (induction s r g rule: trimSet.induct) auto

lemma trimSet_gone: "map_option set (snd (trimSet s r g)) = map_option (\<lambda>gs. set gs \<union> (set s \<inter> set r)) g"
proof (induction r arbitrary: s g)
  case (Cons v r)
  show ?case by (cases g) (auto simp: Cons.IH)
qed (simp add: option.map_ident)

lemma vals_update: "vals (AList.update k v m) j = (if j = k then set v else vals m j)"
  by (simp add: vals_def getValSet_def update_conv)

lemma vals_delete: "vals (AList.delete k m) j = (if j = k then {} else vals m j)"
  by (simp add: vals_def getValSet_def delete_conv)

lemma vals_entry: "map_of m k = Some vs \<Longrightarrow> vals m k = set vs"
  by (simp add: vals_def getValSet_def)

lemma vals_missing: "map_of m k = None \<Longrightarrow> vals m k = {}"
  by (simp add: vals_def getValSet_def)

lemma sm_inv_update: "sm_inv m \<Longrightarrow> v \<noteq> [] \<Longrightarrow> distinct v \<Longrightarrow> sm_inv (AList.update k v m)"
  by (simp add: sm_inv_def distinct_update update_conv)

lemma sm_inv_delete: "sm_inv m \<Longrightarrow> sm_inv (AList.delete k m)"
  by (simp add: sm_inv_def distinct_delete delete_conv)

lemma sm_inv_entry: "sm_inv m \<Longrightarrow> map_of m k = Some vs \<Longrightarrow> vs \<noteq> [] \<and> distinct vs"
  by (simp add: sm_inv_def)

lemma present_iff: "sm_inv m \<Longrightarrow> map_of m k \<noteq> None \<longleftrightarrow> vals m k \<noteq> {}"
  by (auto simp: vals_entry vals_missing dest: sm_inv_entry)

lemma getKeys_set: "set (getKeys m) = fst ` set m"
proof -
  have "set (fold (\<lambda>entry keys. set_insert (fst entry) keys) m ks) = fst ` set m \<union> set ks" for ks
    by (induction m arbitrary: ks) auto
  then show ?thesis by (simp add: getKeys_def)
qed

text \<open>One entry, all the entries of the keys, and an addition.\<close>

lemma trim_entry:
  assumes i: "sm_inv m" and e: "map_of m k = Some vs" and t: "trimOrRemove_entry k vs r g m = (rm, g', m')"
  shows "sm_inv m' \<and> rm = (vals m k \<subseteq> set r) \<and> (\<forall>j. vals m' j = (if j = k then vals m k - set r else vals m j)) \<and>
    map_option set g' = map_option (\<lambda>gs. set gs \<union> (vals m k \<inter> set r)) g"
proof -
  obtain vs' g1 where ts: "trimSet vs r g = (vs', g1)" by (rule prod.exhaust)
  have v: "vs' = fst (trimSet vs r g)" and g': "g' = snd (trimSet vs r g)" and rm: "rm = (vs' = [])"
    and m': "m' = (if vs' = [] then AList.delete k (AList.update k vs' m) else AList.update k vs' m)"
    using t ts by (auto simp: trimOrRemove_entry_def Let_def)
  have s: "set vs' = set vs - set r" "distinct vs'" "vals m k = set vs"
    using trimSet_set [of vs r g] trimSet_distinct [of vs r g] sm_inv_entry [OF i e] vals_entry [OF e] v by simp_all
  have "sm_inv m'" using i s(2) by (auto simp: m' sm_inv_update delete_update_same sm_inv_delete)
  moreover have "rm = (vals m k \<subseteq> set r)" using s rm set_empty [of vs'] by auto
  moreover have "vals m' j = (if j = k then vals m k - set r else vals m j)" for j
    using s set_empty [of vs'] by (auto simp: m' vals_update vals_delete)
  moreover have "map_option set g' = map_option (\<lambda>gs. set gs \<union> (vals m k \<inter> set r)) g"
    unfolding g' trimSet_gone s(3) by (rule refl)
  ultimately show ?thesis by blast
qed

lemma trim_keys:
  assumes "sm_inv m" "distinct keys"
  shows "\<exists>g' m'. trimOrRemove keys r None g m = Some (None, g', m') \<and> sm_inv m' \<and>
    (\<forall>j. vals m' j = (if j \<in> set keys then vals m j - set r else vals m j)) \<and>
    map_option set g' = map_option (\<lambda>gs. set gs \<union> ((\<Union>k \<in> set keys. vals m k) \<inter> set r)) g"
  using assms
proof (induction keys arbitrary: m g)
  case Nil
  then show ?case by (simp add: option.map_ident cong: option.map_cong)
next
  case (Cons k keys)
  show ?case
  proof (cases "map_of m k")
    case None
    then show ?thesis using Cons.IH [OF Cons.prems(1), of g] Cons.prems(2) by (auto simp: vals_missing [OF None])
  next
    case (Some vs)
    obtain rm g1 m1 where t: "trimOrRemove_entry k vs r g m = (rm, g1, m1)" by (metis prod.exhaust)
    note t1 = trim_entry [OF Cons.prems(1) Some t]
    obtain g' m' where IH: "trimOrRemove keys r None g1 m1 = Some (None, g', m')" "sm_inv m'"
      "\<And>j. vals m' j = (if j \<in> set keys then vals m1 j - set r else vals m1 j)"
      "map_option set g' = map_option (\<lambda>gs. set gs \<union> ((\<Union>k \<in> set keys. vals m1 k) \<inter> set r)) g1"
      using Cons.IH [of m1 g1] t1 Cons.prems(2) by auto
    have "(\<Union>k \<in> set keys. vals m1 k) = (\<Union>k \<in> set keys. vals m k)" using t1 Cons.prems(2) by auto
    then have "map_option set g' = map_option (\<lambda>gs. set gs \<union> ((\<Union>k \<in> set (k # keys). vals m k) \<inter> set r)) g"
      using IH(4) t1 by (cases g; cases g1) auto
    moreover have "trimOrRemove (k # keys) r None g m = Some (None, g', m')" using Some t IH(1) by simp
    moreover have "vals m' j = (if j \<in> set (k # keys) then vals m j - set r else vals m j)" for j
      using IH(3) [of j] t1 Cons.prems(2) by auto
    ultimately show ?thesis using IH(2) by blast
  qed
qed

lemma add_one:
  assumes i: "sm_inv m" and d: "distinct nv" and a: "add_key k nv m = (added, m')"
  shows "sm_inv m' \<and> added = (nv \<noteq> [] \<and> vals m k = {}) \<and> (\<forall>j. vals m' j = (if j = k then vals m k \<union> set nv else vals m j))"
proof (cases "map_of m k")
  case None
  then show ?thesis using i d a vals_missing [OF None] by (auto simp: add_key_def sm_inv_update vals_update split: if_splits)
next
  case (Some vs)
  have vs: "vs \<noteq> []" "distinct vs" "vals m k = set vs" using sm_inv_entry [OF i Some] vals_entry [OF Some] by simp_all
  have ne: "fold set_insert nv vs \<noteq> []" using vs(1) set_fold_set_insert [of nv vs] set_empty [of "fold set_insert nv vs"] by auto
  show ?thesis
  proof (cases "nv = []")
    case True
    then show ?thesis using i a by (auto simp: add_key_def)
  next
    case False
    then have a': "added = False" "m' = AList.update k (fold set_insert nv vs) m" using a Some by (simp_all add: add_key_def)
    have "sm_inv m'" unfolding a'(2) using i ne vs(2) by (intro sm_inv_update) simp_all
    then show ?thesis using a' vs by (auto simp: vals_update)
  qed
qed

lemma add_all:
  assumes "sm_inv m" "distinct nv" "distinct keys"
  shows "sm_inv (snd (add_keys keys nv nk m)) \<and>
    (\<forall>j. vals (snd (add_keys keys nv nk m)) j = (if j \<in> set keys then vals m j \<union> set nv else vals m j)) \<and>
    map_option set (fst (add_keys keys nv nk m)) = map_option (\<lambda>ks. set ks \<union> {k \<in> set keys. nv \<noteq> [] \<and> vals m k = {}}) nk"
  using assms
proof (induction keys arbitrary: m nk)
  case Nil
  then show ?case by (simp add: option.map_ident cong: option.map_cong)
next
  case (Cons k keys)
  obtain ad m1 where a: "add_key k nv m = (ad, m1)" by (rule prod.exhaust)
  note a1 = add_one [OF Cons.prems(1,2) a]
  let ?nk = "if ad then map_option (set_insert k) nk else nk"
  have IH: "sm_inv (snd (add_keys keys nv ?nk m1))"
    "\<And>j. vals (snd (add_keys keys nv ?nk m1)) j = (if j \<in> set keys then vals m1 j \<union> set nv else vals m1 j)"
    "map_option set (fst (add_keys keys nv ?nk m1)) = map_option (\<lambda>ks. set ks \<union> {k \<in> set keys. nv \<noteq> [] \<and> vals m1 k = {}}) ?nk"
    using Cons.IH [of m1 ?nk] a1 Cons.prems(2,3) by auto
  have run: "add_keys (k # keys) nv nk m = add_keys keys nv ?nk m1" using a by simp
  have v: "{j \<in> set keys. nv \<noteq> [] \<and> vals m1 j = {}} = {j \<in> set keys. nv \<noteq> [] \<and> vals m j = {}}" using a1 Cons.prems(3) by auto
  have "vals (snd (add_keys keys nv ?nk m1)) j = (if j \<in> set (k # keys) then vals m j \<union> set nv else vals m j)" for j
    unfolding IH(2) using a1 Cons.prems(3) by auto
  moreover have "map_option set (fst (add_keys keys nv ?nk m1)) =
      map_option (\<lambda>ks. set ks \<union> {j \<in> set (k # keys). nv \<noteq> [] \<and> vals m j = {}}) nk"
    unfolding IH(3) v using a1 by (cases nk) auto
  ultimately show ?case unfolding run using IH(1) by blast
qed

text \<open>The intersection: the first common element is erased from the set that is being iterated.\<close>

lemma dropWhile_at: "b \<notin> set as \<Longrightarrow> dropWhile (\<lambda>y. y \<noteq> b) (as @ b # bs) = b # bs"
  by (induction as) auto

lemma next_iter_at: "b \<notin> set as \<Longrightarrow> next_iter (as @ b # bs) b = Some (case bs of [] \<Rightarrow> None | y # _ \<Rightarrow> Some y)"
  by (simp add: next_iter_def dropWhile_at)

lemma next_iter_erased: "next_iter (set_erase b s) b = None"
proof -
  have "dropWhile (\<lambda>y. y \<noteq> b) (set_erase b s) = []" by (simp add: dropWhile_eq_Nil_conv set_erase_def)
  then show ?thesis by (simp only: next_iter_def list.case)
qed

lemma interset_loop_eq:
  "distinct (as @ bs) \<Longrightarrow> interset_loop s1 (as @ bs) common (case bs of [] \<Rightarrow> None | b # _ \<Rightarrow> Some b) =
     (if set s1 \<inter> set bs = {} then Some (common, s1, as @ bs) else None)"
proof (induction bs arbitrary: as)
  case Nil
  show ?case by (subst interset_loop.simps) simp
next
  case (Cons b bs)
  show ?case
  proof (cases "b \<in> set s1")
    case True
    then show ?thesis by (subst interset_loop.simps) (auto simp: next_iter_erased)
  next
    case False
    then have "interset_loop s1 (as @ b # bs) common (Some b) =
        interset_loop s1 (as @ b # bs) common (case bs of [] \<Rightarrow> None | y # _ \<Rightarrow> Some y)"
      using Cons.prems by (subst interset_loop.simps) (simp add: next_iter_at)
    then show ?thesis using Cons.IH [of "as @ [b]"] Cons.prems False by simp
  qed
qed

lemma interset_eq: "distinct s2 \<Longrightarrow> removeAndReturnInterset s1 s2 = (if set s1 \<inter> set s2 = {} then Some ([], s1, s2) else None)"
  using interset_loop_eq [of "[]" s2 s1 "[]"] by (simp add: removeAndReturnInterset_def)

text \<open>C39. The map of sets. On a map without empty entries, adding values to a set of keys unites them with the sets of exactly these keys
  and reports the keys that had none; trimming without an output set for the keys takes the values away from exactly
  these keys, drops the entries that become empty and reports the values that were really there; removing a key empties it and
  says whether it was there; and the keys of the map are those whose set is not empty.  No operation leaves an empty entry behind.\<close>

theorem set_map_operations:
  assumes i: "sm_inv m" and d: "distinct keys" "distinct vs"
  shows "(\<exists>ks ma. add_keys keys vs (Some []) m = (Some ks, ma) \<and> sm_inv ma \<and> set ks = {k \<in> set keys. vs \<noteq> [] \<and> vals m k = {}} \<and>
      (\<forall>j. vals ma j = (if j \<in> set keys then vals m j \<union> set vs else vals m j))) \<and>
    (\<exists>gone mt. trimOrRemove keys vs None (Some []) m = Some (None, Some gone, mt) \<and> sm_inv mt \<and>
      set gone = (\<Union>k \<in> set keys. vals m k) \<inter> set vs \<and> (\<forall>j. vals mt j = (if j \<in> set keys then vals m j - set vs else vals m j))) \<and>
    (\<exists>mr. map_remove key m = (vals m key \<noteq> {}, mr) \<and> sm_inv mr \<and> (\<forall>j. vals mr j = (if j = key then {} else vals m j))) \<and>
    set (getKeys m) = {k. vals m k \<noteq> {}}"
proof (intro conjI)
  show "\<exists>ks ma. add_keys keys vs (Some []) m = (Some ks, ma) \<and> sm_inv ma \<and> set ks = {k \<in> set keys. vs \<noteq> [] \<and> vals m k = {}} \<and>
      (\<forall>j. vals ma j = (if j \<in> set keys then vals m j \<union> set vs else vals m j))"
    using add_all [OF i d(2,1), of "Some []"] by (cases "add_keys keys vs (Some []) m") auto
  show "\<exists>gone mt. trimOrRemove keys vs None (Some []) m = Some (None, Some gone, mt) \<and> sm_inv mt \<and>
      set gone = (\<Union>k \<in> set keys. vals m k) \<inter> set vs \<and> (\<forall>j. vals mt j = (if j \<in> set keys then vals m j - set vs else vals m j))"
    using trim_keys [OF i d(1), of vs "Some []"] by fastforce
  show "\<exists>mr. map_remove key m = (vals m key \<noteq> {}, mr) \<and> sm_inv mr \<and> (\<forall>j. vals mr j = (if j = key then {} else vals m j))"
    using i present_iff [OF i, of key] by (simp add: map_remove_def sm_inv_delete vals_delete)
  have "set (getKeys m) = {k. map_of m k \<noteq> None}" by (auto simp: getKeys_set map_of_eq_None_iff)
  then show "set (getKeys m) = {k. vals m k \<noteq> {}}" using present_iff [OF i] by simp
qed

theorem set_map_operations_witness:
  "\<exists>ks ma. add_keys [1, 2] [''x''] (Some []) [(1 :: nat, [''y''])] = (Some ks, ma) \<and> set ks = {2} \<and> vals ma 1 = {''x'', ''y''}"
proof -
  have i: "sm_inv [(1 :: nat, [''y''])]" and d: "distinct [1 :: nat, 2]" "distinct [''x'']" by (auto simp: sm_inv_def)
  have v: "vals [(1 :: nat, [''y''])] j = (if j = 1 then {''y''} else {})" for j by (simp add: vals_def getValSet_def)
  show ?thesis using set_map_operations [OF i d] unfolding v by force
qed

text \<open>Updating a key of the map of sets. The values that the update returns and takes out of the caller's set are those that the entry already had, not the
  ones that are lost; and when there is one, the loop steps an iterator whose element it has just erased.  The
  update returns only when the old and the new values have nothing in common, and then nothing is reported and the caller's set is as it was.\<close>

theorem set_map_update:
  assumes d: "distinct nv"
  shows "map_update key nv m =
    (if nv \<noteq> [] \<and> vals m key \<inter> set nv \<noteq> {} then None
     else Some ([], nv, if nv = [] then AList.delete key m else AList.update key nv m))"
  using d by (auto simp: map_update_def interset_eq vals_def)

theorem set_map_update_witness:
  "map_update 1 [''b'', ''c''] [(1 :: nat, [''a'', ''b''])] = None \<and>
   map_update 1 [''c''] [(1 :: nat, [''a'', ''b''])] = Some ([], [''c''], [(1, [''c''])])"
  using set_map_update [of "[''b'', ''c'']" "1 :: nat" "[(1, [''a'', ''b''])]"] set_map_update [of "[''c'']" "1 :: nat" "[(1, [''a'', ''b''])]"]
  by (simp add: vals_def getValSet_def)

text \<open>With an output set for the keys, the key of an entry is read after the entry has been erased.\<close>

lemma trim_reports_erased_key: "trimOrRemove [1] [''a''] (Some []) None [(1 :: nat, [''a''])] = None"
  by (simp add: trimOrRemove_entry_def set_erase_def)

end
