(* ===== verification/Spec2Isabelle.thy ===== *)
theory Spec2Isabelle
  imports MsgQ GnssPps PerfClient LocService SyncReq LocClient AgpsSpec PbMsgSpec LocTimerSpec HalSpec GptSpec LogBuffer SetMap
begin

text \<open>
  Verification of the native code of the LineageOS device tree for the Essential PH-1 (\<^verbatim>\<open>mata\<close>).  Paths
  below are relative to \<^verbatim>\<open>src/\<close>.

  \<^bold>\<open>The program.\<close>  Almost all native code of the tree is the location stack.  From the modem upwards: the
  interface description of the QMI location service (\<^verbatim>\<open>location_service_v02.c\<close> and \<^verbatim>\<open>.h\<close>) tells the
  QMI library how to encode every message; the location client (\<^verbatim>\<open>loc_api_v02_client.cpp\<close>) opens the
  service, validates and sends requests and dispatches indications; the synchronous requests
  (\<^verbatim>\<open>loc_api_sync_req.cpp\<close>) wait for the indication that belongs to a request; the adapter
  \<^verbatim>\<open>LocApiV02.cpp\<close> translates for the engine-independent part (\<^verbatim>\<open>gps/core\<close>, \<^verbatim>\<open>gps/gnss\<close>, \<^verbatim>\<open>gps/location\<close>),
  which contains the AGPS state machines (\<^verbatim>\<open>gps/gnss/Agps.cpp\<close>) and whose threads communicate through the
  message queue (\<^verbatim>\<open>gps/utils/msg_q.c\<close>) over the linked list (\<^verbatim>\<open>gps/utils/linked_list.c\<close>) and use the timers of
  \<^verbatim>\<open>gps/utils/LocTimer.cpp\<close>, which are kept in the heap of \<^verbatim>\<open>LocHeap.cpp\<close>; the same directory
  has the log buffer (\<^verbatim>\<open>LogBuffer.cpp\<close>) over a skip list (\<^verbatim>\<open>SkipList.h\<close>) and the map of sets (\<^verbatim>\<open>LocUnorderedSetMap.h\<close>).  The location HAL daemon
  (\<^verbatim>\<open>location/location_hal_daemon\<close>) serves client processes over sockets: it keeps a handler for each client, which owns an instance of
  the location API, and exchanges with the clients the messages of \<^verbatim>\<open>location_api_msg_proto/src/LocationApiMsg.cpp\<close>, which travel as protobuf
  messages through the converters of \<^verbatim>\<open>LocationApiPbMsgConv.cpp\<close>.  Beside the stack stand the PPS time-sync client
  (\<^verbatim>\<open>location/gnsspps/gnsspps.c\<close>), the performance-lock stub (\<^verbatim>\<open>libqti-perfd-client/client.c\<close>) and the partition table
  utilities (\<^verbatim>\<open>gpt-utils/gpt-utils.cpp\<close>), with which an update of the device changes the boot chain in stages, each of which may
  be the last before the power goes off.

  \<^bold>\<open>Conventions\<close> (\<^verbatim>\<open>Prelude\<close>, and \<^verbatim>\<open>PbSteps\<close> for the protobuf part).  A C struct is a record with the source's field
  names, an enum a datatype or its integer values, an integer a word of its width where wrap-around or
  truncation matters.  C objects live in typed stores from addresses to values, with 0 as the null
  pointer; an access outside a store is the result \<^verbatim>\<open>None\<close>, an access outside an array \<^verbatim>\<open>OutOfBounds\<close>, so a theorem
  that an operation returns includes that it accesses no memory it must not access.  Locks and condition
  variables are explicit; code that several threads run is cut at the points where it blocks or
  releases a lock, and the step relations interleave the pieces of any number of threads.  Answers of the
  system and of libraries outside the repository (allocation, system calls, the clock, the QMI
  library, protobuf accessors that give no pointer) are inputs.  Logging is left out.

  \<^bold>\<open>The theories.\<close>

  \<^item> \<^verbatim>\<open>LinkedList\<close>: every function of \<^verbatim>\<open>linked_list.c\<close> on the heap of nodes.  The locale \<^verbatim>\<open>fifo_store\<close>
    is interpreted on these functions; the lemmas show that the pointer structure is a list, that each
    operation refines the operation on lists, and that the loops end (they are partial functions with
    total-correctness lemmas).
  \<^item> \<^verbatim>\<open>MsgQ\<close>: every function of \<^verbatim>\<open>msg_q.c\<close> and the step relation of any number of senders and receivers.
    Invariants by rule induction: no lost wake-up, the lock is free between steps, unblocking ends all waits and stops
    everything but the flush.
  \<^item> \<^verbatim>\<open>GnssPps\<close>: \<^verbatim>\<open>gnsspps.c\<close> and \<^verbatim>\<open>timepps.h\<close>.  Double arithmetic is exact arithmetic followed by a rounding function,
    a parameter; what the code relies on is that integers up to the bounds in the hypotheses are
    representable.  The lemmas show that the time arithmetic is exact and what each path of the state does.
  \<^item> \<^verbatim>\<open>PerfClient\<close>: the stub, with the positive-handle law of its comment.
  \<^item> \<^verbatim>\<open>QmiIdl\<close>: the byte-code language of the QMI interface compiler: a decoder of descriptors, well-formedness,
    and the length of the largest encoding.  \<^verbatim>\<open>LocConsts\<close>, \<^verbatim>\<open>LocStructs1\<close>, \<^verbatim>\<open>LocStructs2\<close>: constants and the 410 structs of
    the header with their layout.  \<^verbatim>\<open>LocTypeIdl\<close>, \<^verbatim>\<open>LocMsgIdl1\<close> to \<^verbatim>\<open>3\<close>: the 388 descriptors, byte for byte.
    \<^verbatim>\<open>LocTables\<close>, \<^verbatim>\<open>LocService\<close>: the tables, the service object and its accessor, and the theorems that every
    descriptor describes its struct and that every declared length is that of the largest encoding.
  \<^item> \<^verbatim>\<open>LocClientTypes\<close>, \<^verbatim>\<open>LocClientTables\<close>, \<^verbatim>\<open>LocClient\<close>: the client with its tables row by row.  The tables agree with the
    interface description of \<^verbatim>\<open>LocService\<close> (the property that spans these components), opening and closing
    are inverse (up to a notifier that the QMI library refuses to release, a result that the code ignores), requests are repeated within bounds, indications
    are dispatched once, and opening waits for ever when the service does not appear.
  \<^item> \<^verbatim>\<open>SyncReq\<close>: the slots of synchronous requests, with any number of callers interleaved with indications.
    Each critical section is a step; in particular the end of a wait and the release of the slot are two.
    Slots are exclusive and never leak; an indication for a pending request reaches the first slot that waits for it; a second
    indication before that caller runs is misdelivered.
  \<^item> \<^verbatim>\<open>Agps\<close>: the two classes of \<^verbatim>\<open>Agps.cpp\<close> with subscriber objects in a store.  \<^verbatim>\<open>AgpsSpec\<close>: an abstract connection
    specification and the interpretation of the locale \<^verbatim>\<open>forward_simulation\<close> of \<^verbatim>\<open>Prelude\<close>, which shows that every
    sequence of calls of the manager behaves like the specification, given that the framework reports only for types whose state machine
    exists: the code does not test the pointer.
  \<^item> \<^verbatim>\<open>PbTables\<close>, \<^verbatim>\<open>PbSteps\<close>: the shapes of the converters: rows of bit tests, switches, statements that can fail.
    \<^verbatim>\<open>PbConsts\<close>, \<^verbatim>\<open>PbHalTypes\<close>, \<^verbatim>\<open>PbWireTypes\<close>: enumerations, structs and messages.  \<^verbatim>\<open>PbConv\<close>: all mask and enum
    converters.  \<^verbatim>\<open>PbMsgConv\<close>: all structure converters.  \<^verbatim>\<open>PbCodec\<close>: the locales \<^verbatim>\<open>lens\<close>, \<^verbatim>\<open>codec\<close> and \<^verbatim>\<open>array_codec\<close>.
    \<^verbatim>\<open>PbMsgSpec\<close>: their interpretations, that is, what each pair of converters carries, and the bounds of the
    receivers for any message.
  \<^item> \<^verbatim>\<open>LocHeap\<close>: the heap of rankable objects.  The locale \<^verbatim>\<open>rankable\<close> states what a ranking has to promise; in it every
    operation keeps the order and the sizes, and sequences of calls refine a multiset.  \<^verbatim>\<open>LocTimer\<close>: timers, delegates,
    containers, the shared lock, the C interface, and the steps of clients, message task and polling
    thread.  \<^verbatim>\<open>LocTimerInv\<close>: the interpretation of \<^verbatim>\<open>rankable\<close> on delegates with times in range, and the invariant.
    \<^verbatim>\<open>LocTimerSpec\<close>: all steps keep it; safety, accounting, no lost timer, and the runs of the races.  The two results of
    \<^verbatim>\<open>timerfd_create\<close> (with the fallback to \<^verbatim>\<open>CLOCK_MONOTONIC\<close>) are inputs; the model has one clock.
  \<^item> \<^verbatim>\<open>PbApiTypes\<close>, \<^verbatim>\<open>PbApiMsg\<close>: the message classes of \<^verbatim>\<open>LocationApiMsg.h\<close> as extensions of the header record, their protobuf messages, and
    the serialisers and constructors of \<^verbatim>\<open>LocationApiMsg.cpp\<close> over the converters of \<^verbatim>\<open>PbMsgConv\<close>.
  \<^item> \<^verbatim>\<open>HalTypes\<close>: the state of the daemon (the table of clients, the handlers in a store, the pending configuration requests, the timers,
    the daemon's own task), the calls that leave it, the environment that answers them, and the statements of its code: a function of the
    daemon is a function from the state to the state or to the way in which the code has no defined behaviour.  \<^verbatim>\<open>HalClient\<close>: the
    functions of \<^verbatim>\<open>LocHalDaemonClientHandler.cpp\<close> and the socket names.  \<^verbatim>\<open>HalService\<close>: those of \<^verbatim>\<open>LocationApiService.cpp\<close> and
    \<^verbatim>\<open>PowerEvtHandler.cpp\<close>, the events (messages of clients, callbacks of the location API, power states, timers, steps of the task) and the
    states they reach.  \<^verbatim>\<open>HalInv\<close>: triples over the statements and the locale \<^verbatim>\<open>hal_contract\<close>, which derives once that every event keeps an
    assertion; its interpretations are the registry of clients and the state of the maintenance.  \<^verbatim>\<open>HalSpec\<close>: no handler is used
    after it is deleted (but in one case), provided that the location API calls no callback of an instance whose destruction it has
    confirmed; the maintenance deletes clients without the lock, in a step of its own, and the calls that take the lock
    meanwhile are exactly the data races; reports are isolated, a request travels from the client's message to the location API, a
    configuration request is answered once, the rounding of intervals, and the runs of the daemon's flaws.

  \<^item> \<^verbatim>\<open>GptIO\<close>: the operating system under the partition table utilities: descriptors, files, directories and
    devices, with calls that fail and reads and writes that transfer short in any pattern (the code takes a short transfer for success, so the properties of updates are for whole
    transfers); every device records the contents it goes through block by block, which is what a
    loss of power can leave.  \<^verbatim>\<open>GptUtils\<close>: reading and writing of tables, the state of a header, the swap of the boot chain and the
    stages of \<^verbatim>\<open>prepare_partitions\<close>.  \<^verbatim>\<open>GptDisk\<close>: devices and LUNs, the handle of a disk, the update of a set of LUNs.
    \<^verbatim>\<open>GptInv\<close>: bytes, headers that are marked and sealed, and what the operations write.  \<^verbatim>\<open>GptSafe\<close>: the contents that a device
    goes through in each operation, whatever fails.  \<^verbatim>\<open>GptSwap\<close>: the swap of the boot chain.  \<^verbatim>\<open>GptLive\<close>: a run without failures goes
    through its stages.  \<^verbatim>\<open>GptHandle\<close>: the handle.  \<^verbatim>\<open>GptSpec\<close>: the properties, among them that the device always has a
    valid table, and the runs of the flaws.  The checksum of zlib is a parameter.
  \<^item> \<^verbatim>\<open>SkipList\<close>: the list with its iterators as addresses.  The locale \<^verbatim>\<open>levelled_list\<close> states what a list with levels
    promises; it is interpreted on the operations, and sequences of calls refine the plain list of data with levels.  \<^verbatim>\<open>LogBuffer\<close>: the buffer over
    it, whose dumps are computed from the messages alone, its signal handler, and where it fails.  \<^verbatim>\<open>SetMap\<close>: the map of sets, as
    a function from keys to sets.

  \<^bold>\<open>Bounds and fuel.\<close>  Loops over pointers are partial functions, and the lemmas show that they return.  The loop of
  \<^verbatim>\<open>locClientQmiCtrlPointInit\<close> that waits for the service takes the list of the service's answers and
  returns nothing when the list ends before the service appears; \<^verbatim>\<open>locClientOpen\<close> and \<^verbatim>\<open>locClientSendReq\<close> have the
  bounds of the source (21 and 50 tries).  The lengths of nested QMI types are computed in one pass over the type
  table, which is possible because the entries refer to earlier entries only; that this pass succeeds is part
  of the theorem on lengths.  The clock of the timers is bounded by 34 years from the start of the device, so that the
  times of all timers are within the range in which the 32-bit ranks are exact.  All loops of the daemon run over finite tables and are
  structural recursions; the protobuf accessors that give a pointer are counted by a number that the environment chooses.  No definition has fuel.

  \<^bold>\<open>Not modelled.\<close>  The client and integration APIs, \<^verbatim>\<open>LocApiV02.cpp\<close>, \<^verbatim>\<open>gps/core\<close>, the GNSS, batching and geofence adapters:
  the plan takes them in this order.  The Android
  services in \<^verbatim>\<open>gps/android\<close> and \<^verbatim>\<open>SynergyLocApi.cpp\<close> are written against generated or external interfaces
  that are not part of the repository.  Sockets, threads, configuration files, target detection, NMEA
  formatting and the power, light and bluetooth services are thin layers over system calls and
  \<^verbatim>\<open>snprintf\<close>.  In the modelled parts: log output, the duration of waits, the release of parts of a protobuf
  message after a failed conversion, the reading of the emulator flag by the client, and \<^verbatim>\<open>main.cpp\<close> of the daemon, which reads its
  configuration and changes the user of the process.
\<close>

end
